(* ===== verification/PyPrelude.thy ===== *)
theory PyPrelude
  imports Main "HOL-Library.AList" "HOL-Library.Sublist" "HOL-Library.Char_ord"
begin

text \<open>
  The part of the Python language and standard library the scripts of the repository use,
  shared by every component: exceptions as values, a state-and-exception sequencing, ordered
  dictionaries, list indexing, and the operations on byte strings (strip, split, find, replace,
  join, upper and lower case, numerals). Strings are lists of 8-bit characters, as the Python 2
  \<open>str\<close> is; text of the Python 3 scripts is taken to be ASCII.
\<close>

named_theorems py_res "rewriting of results that may be exceptions"
named_theorems py_text "facts on string operations"

section \<open>Exceptions as values\<close>

datatype pyerr =
    ValueError | KeyError | IndexError | AttributeError | NameError | TypeError
  | UnboundLocalError | AssertionError | FileNotFoundError | OSError | IOError | StructError
  | OverflowError | ZeroDivisionError | StopIteration | SkipTest
  | SystemExit int
  | Exn string

type_synonym 'a res = "pyerr + 'a"

abbreviation Raise :: "pyerr \<Rightarrow> 'a res" where "Raise \<equiv> Inl"
abbreviation Ret :: "'a \<Rightarrow> 'a res" where "Ret \<equiv> Inr"

definition bindR :: "'a res \<Rightarrow> ('a \<Rightarrow> 'b res) \<Rightarrow> 'b res" where
  "bindR r f = (case r of Inl e \<Rightarrow> Inl e | Inr x \<Rightarrow> f x)"

lemma bindR_simps [simp, py_res]:
  "bindR (Inl e) f = Inl e" "bindR (Inr x) f = f x"
  by (simp_all add: bindR_def)

lemma bindR_split:
  "P (bindR r f) = ((\<forall>e. r = Inl e \<longrightarrow> P (Inl e)) \<and> (\<forall>x. r = Inr x \<longrightarrow> P (f x)))"
  by (cases r) simp_all

lemma bindR_assoc: "bindR (bindR m f) g = bindR m (\<lambda>x. bindR (f x) g)"
  by (cases m) simp_all

lemma bindR_eq_Inr [py_res]: "(bindR r f = Inr y) = (\<exists>x. r = Inr x \<and> f x = Inr y)"
  by (cases r) simp_all

lemma bindR_eq_Inl [py_res]:
  "(bindR r f = Inl e) = (r = Inl e \<or> (\<exists>x. r = Inr x \<and> f x = Inl e))"
  by (cases r) simp_all

lemma bindR_cong [fundef_cong]:
  "\<lbrakk>r = r'; \<And>x. r' = Inr x \<Longrightarrow> f x = g x\<rbrakk> \<Longrightarrow> bindR r f = bindR r' g"
  by (cases r') simp_all

text \<open>A loop whose body may raise: the first exception ends it.\<close>

fun foldR :: "('s \<Rightarrow> 'a \<Rightarrow> 's res) \<Rightarrow> 's \<Rightarrow> 'a list \<Rightarrow> 's res" where
  "foldR f s [] = Inr s"
| "foldR f s (x # xs) = bindR (f s x) (\<lambda>s'. foldR f s' xs)"

fun mapR :: "('a \<Rightarrow> 'b res) \<Rightarrow> 'a list \<Rightarrow> 'b list res" where
  "mapR f [] = Inr []"
| "mapR f (x # xs) = bindR (f x) (\<lambda>y. bindR (mapR f xs) (\<lambda>ys. Inr (y # ys)))"

lemma foldR_append: "foldR f s (xs @ ys) = bindR (foldR f s xs) (\<lambda>s'. foldR f s' ys)"
proof (induction xs arbitrary: s)
  case (Cons x xs)
  then show ?case by (cases "f s x") simp_all
qed simp

lemma foldR_invariant:
  assumes "foldR f s xs = Inr s'" "P s"
    and "\<And>x s s'. x \<in> set xs \<Longrightarrow> P s \<Longrightarrow> f s x = Inr s' \<Longrightarrow> P s'"
  shows "P s'"
  using assms
proof (induction xs arbitrary: s)
  case (Cons x xs)
  from Cons.prems(1) obtain t where t: "f s x = Inr t" "foldR f t xs = Inr s'"
    by (auto simp: bindR_eq_Inr)
  have "P t" using Cons.prems(2,3) t(1) by auto
  then show ?case using Cons.IH t(2) Cons.prems(3) by auto
qed simp

lemma mapR_length: "mapR f xs = Inr ys \<Longrightarrow> length ys = length xs"
  by (induction xs arbitrary: ys) (auto simp: bindR_eq_Inr)

lemma mapR_nth: "mapR f xs = Inr ys \<Longrightarrow> i < length xs \<Longrightarrow> f (xs ! i) = Inr (ys ! i)"
proof (induction xs arbitrary: ys i)
  case (Cons x xs)
  then show ?case by (cases i) (auto simp: bindR_eq_Inr)
qed simp

lemma mapR_all: "(\<And>x. x \<in> set xs \<Longrightarrow> f x = Inr (g x)) \<Longrightarrow> mapR f xs = Inr (map g xs)"
  by (induction xs) simp_all

section \<open>State and exceptions\<close>

text \<open>A statement reads and updates a state and either returns or raises; the state at the
  point of the exception is kept, as it is in Python.\<close>

type_synonym ('s, 'a) py = "'s \<Rightarrow> 'a res \<times> 's"

definition retP :: "'a \<Rightarrow> ('s, 'a) py" where "retP x = (\<lambda>s. (Inr x, s))"
definition raiseP :: "pyerr \<Rightarrow> ('s, 'a) py" where "raiseP e = (\<lambda>s. (Inl e, s))"
definition getP :: "('s, 's) py" where "getP = (\<lambda>s. (Inr s, s))"
definition modP :: "('s \<Rightarrow> 's) \<Rightarrow> ('s, unit) py" where "modP f = (\<lambda>s. (Inr (), f s))"
definition liftP :: "'a res \<Rightarrow> ('s, 'a) py" where "liftP r = (\<lambda>s. (r, s))"

definition bindP :: "('s, 'a) py \<Rightarrow> ('a \<Rightarrow> ('s, 'b) py) \<Rightarrow> ('s, 'b) py" where
  "bindP m f = (\<lambda>s. case m s of (Inl e, s') \<Rightarrow> (Inl e, s') | (Inr x, s') \<Rightarrow> f x s')"

definition thenP :: "('s, 'a) py \<Rightarrow> ('s, 'b) py \<Rightarrow> ('s, 'b) py" where
  "thenP m n = bindP m (\<lambda>_. n)"

text \<open>\<open>try: m finally: c\<close>: the clean-up runs on both exits, and an exception of its own wins.\<close>

definition finallyP :: "('s, 'a) py \<Rightarrow> ('s, 'b) py \<Rightarrow> ('s, 'a) py" where
  "finallyP m c = (\<lambda>s. case m s of (r, s') \<Rightarrow>
     (case c s' of (Inl e, s'') \<Rightarrow> (Inl e, s'') | (Inr _, s'') \<Rightarrow> (r, s'')))"

text \<open>\<open>try: m except: h\<close>.\<close>

definition catchP :: "('s, 'a) py \<Rightarrow> (pyerr \<Rightarrow> ('s, 'a) py) \<Rightarrow> ('s, 'a) py" where
  "catchP m h = (\<lambda>s. case m s of (Inl e, s') \<Rightarrow> h e s' | (Inr x, s') \<Rightarrow> (Inr x, s'))"

fun forP :: "'a list \<Rightarrow> ('a \<Rightarrow> ('s, unit) py) \<Rightarrow> ('s, unit) py" where
  "forP [] f = retP ()"
| "forP (x # xs) f = thenP (f x) (forP xs f)"

fun mapP :: "'a list \<Rightarrow> ('a \<Rightarrow> ('s, 'b) py) \<Rightarrow> ('s, 'b list) py" where
  "mapP [] f = retP []"
| "mapP (x # xs) f = bindP (f x) (\<lambda>y. bindP (mapP xs f) (\<lambda>ys. retP (y # ys)))"

lemma py_apply [simp, py_res]:
  "retP x s = (Inr x, s)" "raiseP e s = (Inl e, s)" "getP s = (Inr s, s)"
  "modP f s = (Inr (), f s)" "liftP r s = (r, s)"
  by (simp_all add: retP_def raiseP_def getP_def modP_def liftP_def)

lemma bindP_apply [py_res]:
  "bindP m f s = (case m s of (Inl e, s') \<Rightarrow> (Inl e, s') | (Inr x, s') \<Rightarrow> f x s')"
  by (simp add: bindP_def)

lemma thenP_apply [py_res]:
  "thenP m n s = (case m s of (Inl e, s') \<Rightarrow> (Inl e, s') | (Inr x, s') \<Rightarrow> n s')"
  by (simp add: thenP_def bindP_def)

lemma bindP_Inr: "m s = (Inr x, s') \<Longrightarrow> bindP m f s = f x s'"
  by (simp add: bindP_def)

lemma thenP_Inr: "m s = (Inr x, s') \<Longrightarrow> thenP m n s = n s'"
  by (simp add: thenP_def bindP_def)

lemma bindP_eq_Inr:
  "bindP m f s = (Inr y, t) \<longleftrightarrow> (\<exists>x s'. m s = (Inr x, s') \<and> f x s' = (Inr y, t))"
  by (auto simp: bindP_def split: prod.splits sum.splits)

lemma thenP_eq_Inr:
  "thenP m n s = (Inr y, t) \<longleftrightarrow> (\<exists>x s'. m s = (Inr x, s') \<and> n s' = (Inr y, t))"
  by (auto simp: thenP_def bindP_eq_Inr)

lemma forP_invariant:
  assumes "\<And>x s r s'. x \<in> set xs \<Longrightarrow> P s \<Longrightarrow> f x s = (r, s') \<Longrightarrow> P s'"
    and "P s" and "forP xs f s = (r, s')"
  shows "P s'"
  using assms
proof (induction xs arbitrary: s)
  case (Cons x xs)
  obtain q t where q: "f x s = (q, t)" by fastforce
  have t: "P t" using Cons.prems(1,2) q by auto
  show ?case
  proof (cases q)
    case (Inl e)
    with q t Cons.prems(3) show ?thesis by (simp add: py_res)
  next
    case (Inr u)
    with q Cons.prems(3) have "forP xs f t = (r, s')" by (simp add: py_res)
    with t Cons.prems(1) show ?thesis by (intro Cons.IH [of t]) auto
  qed
qed simp

lemma forP_foldl:
  assumes "\<And>x s. x \<in> set xs \<Longrightarrow> f x s = (Inr (), g s x)"
  shows "forP xs f s = (Inr (), foldl g s xs)"
  using assms by (induction xs arbitrary: s) (auto simp: py_res)

lemma finallyP_apply:
  "finallyP m c s = (case m s of (r, s') \<Rightarrow>
     (case c s' of (Inl e, s'') \<Rightarrow> (Inl e, s'') | (Inr _, s'') \<Rightarrow> (r, s'')))"
  by (simp add: finallyP_def)

section \<open>Triples\<close>

text \<open>From a state with \<open>P\<close> the statement ends in \<open>Q\<close> of its value, or raises in a state
  with \<open>E\<close>.\<close>

definition triple :: "('s \<Rightarrow> bool) \<Rightarrow> ('s, 'a) py \<Rightarrow> ('a \<Rightarrow> 's \<Rightarrow> bool) \<Rightarrow> ('s \<Rightarrow> bool) \<Rightarrow> bool" where
  "triple P m Q E \<longleftrightarrow> (\<forall>s. P s \<longrightarrow> (case m s of (Inl e, t) \<Rightarrow> E t | (Inr x, t) \<Rightarrow> Q x t))"

lemma tripleI: "(\<And>s r t. P s \<Longrightarrow> m s = (r, t) \<Longrightarrow> (case r of Inl e \<Rightarrow> E t | Inr x \<Rightarrow> Q x t)) \<Longrightarrow> triple P m Q E"
  unfolding triple_def by (force split: sum.splits prod.splits)

lemma tripleD: "triple P m Q E \<Longrightarrow> P s \<Longrightarrow> m s = (r, t) \<Longrightarrow> (case r of Inl e \<Rightarrow> E t | Inr x \<Rightarrow> Q x t)"
  unfolding triple_def by (force split: sum.splits prod.splits)

lemma triple_Inr: "triple P m Q E \<Longrightarrow> P s \<Longrightarrow> m s = (Inr x, t) \<Longrightarrow> Q x t"
  by (drule (2) tripleD) simp

lemma triple_weaken: "triple P m Q E \<Longrightarrow> (\<And>s. P' s \<Longrightarrow> P s) \<Longrightarrow> (\<And>x s. Q x s \<Longrightarrow> Q' x s) \<Longrightarrow> triple P' m Q' E"
  unfolding triple_def by (force split: sum.splits prod.splits)

lemma triple_ret: "(\<And>s. P s \<Longrightarrow> Q x s) \<Longrightarrow> triple P (retP x) Q E"
  by (simp add: triple_def)

lemma triple_mod: "(\<And>s. P s \<Longrightarrow> Q () (f s)) \<Longrightarrow> triple P (modP f) Q E"
  by (simp add: triple_def)

lemma triple_lift: "(\<And>s x. P s \<Longrightarrow> r = Inr x \<Longrightarrow> Q x s) \<Longrightarrow> (\<And>s. P s \<Longrightarrow> E s) \<Longrightarrow> triple P (liftP r) Q E"
  by (auto simp: triple_def split: sum.splits)

lemma triple_get: "triple P getP (\<lambda>x s. P s \<and> x = s) E"
  by (simp add: triple_def)

lemma triple_bind: "triple P m R E \<Longrightarrow> (\<And>x. triple (R x) (f x) Q E) \<Longrightarrow> triple P (bindP m f) Q E"
  by (force simp: triple_def bindP_apply split: sum.splits prod.splits)

lemma triple_then: "triple P m R E \<Longrightarrow> triple (R ()) n Q E \<Longrightarrow> triple P (thenP m n) Q E"
  by (simp add: thenP_def triple_bind)

lemma triple_if: "(b \<Longrightarrow> triple P m Q E) \<Longrightarrow> (\<not> b \<Longrightarrow> triple P n Q E) \<Longrightarrow> triple P (if b then m else n) Q E"
  by simp

lemma triple_for: "(\<And>x. x \<in> set xs \<Longrightarrow> triple P (f x) (\<lambda>_. P) E) \<Longrightarrow> triple P (forP xs f) (\<lambda>_. P) E"
  by (induction xs) (auto intro: triple_ret triple_then)

lemma triple_map: "(\<And>x. x \<in> set xs \<Longrightarrow> triple P (f x) (\<lambda>_. P) E) \<Longrightarrow> triple P (mapP xs f) (\<lambda>_. P) E"
proof (induction xs)
  case (Cons x xs)
  have "triple P (f x) (\<lambda>_. P) E" "triple P (mapP xs f) (\<lambda>_. P) E" using Cons by auto
  then show ?case by (simp add: triple_bind triple_ret)
qed (simp add: triple_ret)

lemmas triple_rules = triple_bind triple_then triple_if triple_for triple_map

text \<open>A statement that keeps a property of the state on both exits.\<close>

definition keeps :: "('s \<Rightarrow> bool) \<Rightarrow> ('s, 'a) py \<Rightarrow> bool" where
  "keeps P m \<longleftrightarrow> triple P m (\<lambda>_. P) P"

named_theorems keeps_rules "rules for statements that keep a property"

lemma keepsI: "(\<And>s r t. P s \<Longrightarrow> m s = (r, t) \<Longrightarrow> P t) \<Longrightarrow> keeps P m"
  unfolding keeps_def by (rule tripleI) (auto split: sum.splits)

lemma keepsD: "keeps P m \<Longrightarrow> P s \<Longrightarrow> m s = (r, t) \<Longrightarrow> P t"
  unfolding keeps_def by (drule (2) tripleD) (auto split: sum.splits)

lemma keeps_snd: "keeps P m \<Longrightarrow> P s \<Longrightarrow> P (snd (m s))"
  by (rule keepsD [of P m s "fst (m s)" "snd (m s)"]) simp_all

lemma keeps_ret [keeps_rules]: "keeps P (retP x)" "keeps P (raiseP e)" "keeps P getP" "keeps P (liftP r)"
  by (rule keepsI, simp)+

lemma keeps_mod: "(\<And>s. P s \<Longrightarrow> P (f s)) \<Longrightarrow> keeps P (modP f)"
  by (rule keepsI) auto

lemma keeps_bind [keeps_rules]: "keeps P m \<Longrightarrow> (\<And>x. keeps P (f x)) \<Longrightarrow> keeps P (bindP m f)"
  unfolding keeps_def by (rule triple_bind)

lemma keeps_then [keeps_rules]: "keeps P m \<Longrightarrow> keeps P n \<Longrightarrow> keeps P (thenP m n)"
  unfolding thenP_def by (rule keeps_bind)

lemma keeps_for [keeps_rules]: "(\<And>x. x \<in> set xs \<Longrightarrow> keeps P (f x)) \<Longrightarrow> keeps P (forP xs f)"
  unfolding keeps_def by (rule triple_for)

lemma keeps_map [keeps_rules]: "(\<And>x. x \<in> set xs \<Longrightarrow> keeps P (f x)) \<Longrightarrow> keeps P (mapP xs f)"
  unfolding keeps_def by (rule triple_map)

lemma keeps_if [keeps_rules]: "(b \<Longrightarrow> keeps P m) \<Longrightarrow> (\<not> b \<Longrightarrow> keeps P n) \<Longrightarrow> keeps P (if b then m else n)"
  by simp

lemma keeps_finally [keeps_rules]: "keeps P m \<Longrightarrow> keeps P c \<Longrightarrow> keeps P (finallyP m c)"
  by (rule keepsI) (auto simp: finallyP_apply dest: keepsD split: prod.splits sum.splits)

lemma keeps_catch [keeps_rules]: "keeps P m \<Longrightarrow> (\<And>e. keeps P (h e)) \<Longrightarrow> keeps P (catchP m h)"
  by (rule keepsI) (auto simp: catchP_def dest: keepsD split: prod.splits sum.splits)

text \<open>A statement that keeps a property when it returns; nothing is said of its exceptions.\<close>

definition steps :: "('s \<Rightarrow> bool) \<Rightarrow> ('s, 'a) py \<Rightarrow> bool" where
  "steps P m \<longleftrightarrow> (\<forall>s x t. P s \<longrightarrow> m s = (Inr x, t) \<longrightarrow> P t)"

named_theorems step_rules "rules for statements that keep a property when they return"

lemma stepsI: "(\<And>s x t. P s \<Longrightarrow> m s = (Inr x, t) \<Longrightarrow> P t) \<Longrightarrow> steps P m"
  by (simp add: steps_def)

lemma stepsD: "steps P m \<Longrightarrow> P s \<Longrightarrow> m s = (Inr x, t) \<Longrightarrow> P t"
  unfolding steps_def by blast

lemma steps_ret [step_rules]: "steps P (retP x)" "steps P (raiseP e)" "steps P getP" "steps P (liftP r)"
  by (rule stepsI, simp)+

lemma steps_mod: "(\<And>s. P s \<Longrightarrow> P (f s)) \<Longrightarrow> steps P (modP f)"
  by (rule stepsI) auto

lemma steps_bind [step_rules]: "steps P m \<Longrightarrow> (\<And>x. steps P (f x)) \<Longrightarrow> steps P (bindP m f)"
  unfolding steps_def bindP_eq_Inr by blast

lemma steps_then [step_rules]: "steps P m \<Longrightarrow> steps P n \<Longrightarrow> steps P (thenP m n)"
  unfolding thenP_def by (rule steps_bind)

lemma steps_for [step_rules]: "(\<And>x. x \<in> set xs \<Longrightarrow> steps P (f x)) \<Longrightarrow> steps P (forP xs f)"
  by (induction xs) (auto intro: steps_ret steps_then)

lemma steps_if [step_rules]: "(b \<Longrightarrow> steps P m) \<Longrightarrow> (\<not> b \<Longrightarrow> steps P n) \<Longrightarrow> steps P (if b then m else n)"
  by simp

section \<open>Dictionaries and lists\<close>

text \<open>A dictionary that keeps its insertion order is an association list: assignment is
  \<open>AList.update\<close> (in place for an old key, at the end for a new one), removal
  \<open>AList.delete\<close>, lookup \<open>map_of\<close>.\<close>

type_synonym ('k, 'v) odict = "('k \<times> 'v) list"

definition od_get :: "('k, 'v) odict \<Rightarrow> 'k \<Rightarrow> 'v res" where
  "od_get d k = (case map_of d k of None \<Rightarrow> Inl KeyError | Some v \<Rightarrow> Inr v)"

definition od_has :: "('k, 'v) odict \<Rightarrow> 'k \<Rightarrow> bool" where
  "od_has d k \<longleftrightarrow> k \<in> set (map fst d)"

lemma od_get_Inr: "od_get d k = Inr v \<longleftrightarrow> map_of d k = Some v"
  by (simp add: od_get_def split: option.splits)

lemma od_get_ok: "od_has d k \<Longrightarrow> \<exists>v. od_get d k = Inr v"
proof -
  assume "od_has d k"
  then have "map_of d k \<noteq> None" by (simp add: od_has_def map_of_eq_None_iff)
  then show ?thesis by (auto simp: od_get_def)
qed

lemma od_has_update [simp]: "od_has (AList.update k v d) j \<longleftrightarrow> j = k \<or> od_has d j"
proof -
  have "fst ` set (AList.update k v d) = insert k (fst ` set d)"
    using dom_update [of k v d] by (simp add: dom_map_of_conv_image_fst)
  then show ?thesis unfolding od_has_def set_map by simp
qed

text \<open>Indexing: a negative index counts from the end, any other miss raises.\<close>

definition py_position :: "nat \<Rightarrow> int \<Rightarrow> nat option" where
  "py_position len i = (if 0 \<le> i then (if nat i < len then Some (nat i) else None)
     else if nat (- i) \<le> len then Some (len - nat (- i)) else None)"

definition py_index :: "'a list \<Rightarrow> int \<Rightarrow> 'a res" where
  "py_index xs i = (case py_position (length xs) i of
     None \<Rightarrow> Raise IndexError | Some k \<Rightarrow> Ret (xs ! k))"

lemma py_index_nat: "py_index xs (int i) = (if i < length xs then Inr (xs ! i) else Inl IndexError)"
  by (simp add: py_index_def py_position_def)

lemma py_position_bound: "py_position len i = Some k \<Longrightarrow> k < len"
  by (auto simp: py_position_def split: if_splits)

lemma py_index_range: "py_index xs i = Inr x \<Longrightarrow> x \<in> set xs"
  by (auto simp: py_index_def dest: py_position_bound split: option.splits)

text \<open>A number that is in none of the list, for the example devices.\<close>

definition fresh_id :: "int list \<Rightarrow> int" where
  "fresh_id l = 1 + foldr (\<lambda>x m. max \<bar>x\<bar> m) l 0"

lemma fresh_id_new: "0 < fresh_id l \<and> fresh_id l \<notin> set l"
proof -
  have "0 \<le> foldr (\<lambda>x m. max \<bar>x\<bar> m) l (0 :: int)" by (induction l) auto
  moreover have "x \<in> set l \<Longrightarrow> x \<le> foldr (\<lambda>x m. max \<bar>x\<bar> m) l (0 :: int)" for x by (induction l) auto
  ultimately show ?thesis unfolding fresh_id_def by force
qed

end
