(* ===== verification/PyText.thy ===== *)
theory PyText
  imports PyPrelude
begin

text \<open>
  Operations of the Python string type the scripts use: whitespace, strip, the several forms
  of split, find, replace, join, case mapping, and decimal and hexadecimal numerals with the
  round trip between printing and parsing an integer.
\<close>

section \<open>Whitespace and strip\<close>

definition is_ws :: "char \<Rightarrow> bool" where
  "is_ws c \<longleftrightarrow> c \<in> {CHR 0x09, CHR 0x0A, CHR 0x0B, CHR 0x0C, CHR 0x0D, CHR 0x20}"

definition lstrip_by :: "(char \<Rightarrow> bool) \<Rightarrow> string \<Rightarrow> string" where
  "lstrip_by p s = dropWhile p s"

definition rstrip_by :: "(char \<Rightarrow> bool) \<Rightarrow> string \<Rightarrow> string" where
  "rstrip_by p s = rev (dropWhile p (rev s))"

definition strip_by :: "(char \<Rightarrow> bool) \<Rightarrow> string \<Rightarrow> string" where
  "strip_by p s = rstrip_by p (lstrip_by p s)"

text \<open>\<open>s.strip()\<close>, and \<open>s.strip(chars)\<close> for a set of characters.\<close>

definition strip_ws :: "string \<Rightarrow> string" where "strip_ws s = strip_by is_ws s"
definition strip_set :: "string \<Rightarrow> string \<Rightarrow> string" where
  "strip_set cs s = strip_by (\<lambda>c. c \<in> set cs) s"
definition lstrip_set :: "string \<Rightarrow> string \<Rightarrow> string" where
  "lstrip_set cs s = lstrip_by (\<lambda>c. c \<in> set cs) s"
definition rstrip_set :: "string \<Rightarrow> string \<Rightarrow> string" where
  "rstrip_set cs s = rstrip_by (\<lambda>c. c \<in> set cs) s"

lemma length_lstrip_by: "length (lstrip_by p s) \<le> length s"
  by (simp add: lstrip_by_def length_dropWhile_le)

lemma length_rstrip_by: "length (rstrip_by p s) \<le> length s"
proof -
  have "length (dropWhile p (rev s)) \<le> length (rev s)" by (rule length_dropWhile_le)
  then show ?thesis by (simp add: rstrip_by_def)
qed

lemma length_strip_by: "length (strip_by p s) \<le> length s"
  unfolding strip_by_def using length_rstrip_by length_lstrip_by le_trans by blast

lemma length_strip_ws: "length (strip_ws s) \<le> length s"
  by (simp add: strip_ws_def length_strip_by)

lemma length_strip_set: "length (strip_set cs s) \<le> length s"
  by (simp add: strip_set_def length_strip_by)

lemma length_lstrip_set: "length (lstrip_set cs s) \<le> length s"
  by (simp add: lstrip_set_def length_lstrip_by)

lemma strip_by_id: "s = [] \<or> (\<not> p (hd s) \<and> \<not> p (last s)) \<Longrightarrow> strip_by p s = s"
proof (cases s)
  case (Cons c cs)
  assume "s = [] \<or> (\<not> p (hd s) \<and> \<not> p (last s))"
  with Cons have h: "\<not> p (hd s)" "\<not> p (last s)" by auto
  have "lstrip_by p s = s" using h(1) Cons by (simp add: lstrip_by_def)
  moreover obtain t l where "s = t @ [l]" using Cons by (metis list.distinct(1) rev_exhaust)
  ultimately show ?thesis using h(2) by (simp add: strip_by_def rstrip_by_def)
qed (simp add: strip_by_def lstrip_by_def rstrip_by_def)

lemma lstrip_by_all: "(\<And>c. c \<in> set s \<Longrightarrow> p c) \<Longrightarrow> lstrip_by p (s @ t) = lstrip_by p t"
  by (simp add: lstrip_by_def dropWhile_append2)

lemma rstrip_by_all: "(\<And>c. c \<in> set t \<Longrightarrow> p c) \<Longrightarrow> rstrip_by p (s @ t) = rstrip_by p s"
proof -
  assume "\<And>c. c \<in> set t \<Longrightarrow> p c"
  then have "dropWhile p (rev t @ rev s) = dropWhile p (rev s)" by (intro dropWhile_append2) simp
  then show ?thesis by (simp add: rstrip_by_def)
qed

section \<open>Splitting\<close>

lemma length_takeWhile_dropWhile: "length (takeWhile p s) + length (dropWhile p s) = length s"
  by (metis length_append takeWhile_dropWhile_id)

text \<open>\<open>s.split()\<close>.\<close>

function split_ws :: "string \<Rightarrow> string list" where
  "split_ws s = (let t = lstrip_by is_ws s in
     if t = [] then []
     else takeWhile (\<lambda>c. \<not> is_ws c) t # split_ws (dropWhile (\<lambda>c. \<not> is_ws c) t))"
  by pat_completeness auto
termination
proof (relation "measure length", simp_all add: length_lstrip_by, goal_cases)
  case (1 s)
  then obtain c cs where t: "lstrip_by is_ws s = c # cs" by (cases "lstrip_by is_ws s") auto
  then have "\<not> is_ws c" by (metis lstrip_by_def hd_dropWhile list.distinct(1) list.sel(1))
  then have "length (dropWhile (\<lambda>c. \<not> is_ws c) (lstrip_by is_ws s)) \<le> length cs"
    by (simp add: t length_dropWhile_le)
  also have "length cs < length (lstrip_by is_ws s)" by (simp add: t)
  finally show ?case using length_lstrip_by order_less_le_trans by blast
qed

declare split_ws.simps [simp del]

lemma split_ws_Nil [simp]: "split_ws [] = []"
  by (subst split_ws.simps) (simp add: lstrip_by_def Let_def)

text \<open>\<open>s.split(None, 1)\<close>: at most one cut, at a run of whitespace.\<close>

definition split_ws1 :: "string \<Rightarrow> string list" where
  "split_ws1 s = (let t = lstrip_by is_ws s in
     if t = [] then []
     else let w = takeWhile (\<lambda>c. \<not> is_ws c) t;
              r = lstrip_by is_ws (dropWhile (\<lambda>c. \<not> is_ws c) t)
          in if r = [] then [w] else [w, r])"

text \<open>\<open>s.find(pat)\<close>; \<open>None\<close> is Python's -1.\<close>

fun find_sub :: "string \<Rightarrow> string \<Rightarrow> nat option" where
  "find_sub pat [] = (if pat = [] then Some 0 else None)"
| "find_sub pat (c # cs) =
     (if prefix pat (c # cs) then Some 0 else map_option Suc (find_sub pat cs))"

definition contains_sub :: "string \<Rightarrow> string \<Rightarrow> bool" where
  "contains_sub pat s \<longleftrightarrow> find_sub pat s \<noteq> None"

lemma find_sub_Some:
  "find_sub pat s = Some i \<Longrightarrow> s = take i s @ pat @ drop (i + length pat) s"
proof (induction pat s arbitrary: i rule: find_sub.induct)
  case (1 pat)
  then show ?case by (simp split: if_splits)
next
  case (2 pat c cs)
  show ?case
  proof (cases "prefix pat (c # cs)")
    case True
    with 2(2) have "i = 0" by simp
    with True show ?thesis by (auto simp: prefix_def)
  next
    case False
    with 2(2) obtain j where j: "find_sub pat cs = Some j" "i = Suc j" by auto
    from 2(1) [OF False j(1)] j(2) show ?thesis by simp
  qed
qed

lemma find_sub_bound: "find_sub pat s = Some i \<Longrightarrow> i + length pat \<le> length s"
proof (induction pat s arbitrary: i rule: find_sub.induct)
  case (1 pat)
  then show ?case by (simp split: if_splits)
next
  case (2 pat c cs)
  then show ?case by (auto simp: prefix_def split: if_splits) (metis length_Cons length_append le_add1)
qed

lemma find_sub_char_None: "find_sub [c] s = None \<longleftrightarrow> c \<notin> set s"
  by (induction "[c]" s rule: find_sub.induct) auto

lemma find_sub_char_append: "c \<notin> set a \<Longrightarrow> find_sub [c] (a @ c # b) = Some (length a)"
  by (induction a) auto

text \<open>\<open>s.split(sep, 1)\<close> for a separator that is not empty.\<close>

definition split_at1 :: "string \<Rightarrow> string \<Rightarrow> string list" where
  "split_at1 sep s = (case find_sub sep s of None \<Rightarrow> [s]
     | Some i \<Rightarrow> [take i s, drop (i + length sep) s])"

text \<open>\<open>s.split(sep)\<close> for a one-character separator.\<close>

fun split_char :: "char \<Rightarrow> string \<Rightarrow> string list" where
  "split_char c [] = [[]]"
| "split_char c (x # xs) =
     (if x = c then [] # split_char c xs
      else (case split_char c xs of [] \<Rightarrow> [[x]] | w # ws \<Rightarrow> (x # w) # ws))"

lemma split_char_not_Nil: "split_char c s \<noteq> []"
  by (induction s) (auto split: list.splits)

lemma split_char_none: "c \<notin> set s \<Longrightarrow> split_char c s = [s]"
  by (induction s) auto

lemma split_char_append:
  "c \<notin> set a \<Longrightarrow> split_char c (a @ c # b) = a # split_char c b"
  by (induction a) auto

text \<open>\<open>sep.join(parts)\<close>.\<close>

fun join :: "string \<Rightarrow> string list \<Rightarrow> string" where
  "join sep [] = []"
| "join sep [x] = x"
| "join sep (x # y # ys) = x @ sep @ join sep (y # ys)"

lemma join_Cons: "join sep (x # xs) = (if xs = [] then x else x @ sep @ join sep xs)"
  by (cases xs) simp_all

lemma join_empty_sep [simp]: "join [] xs = concat xs"
  by (induction "[] :: string" xs rule: join.induct) simp_all

lemma split_char_join:
  "xs \<noteq> [] \<Longrightarrow> \<forall>x \<in> set xs. c \<notin> set x \<Longrightarrow> split_char c (join [c] xs) = xs"
proof (induction xs)
  case (Cons x xs)
  then show ?case
    by (cases "xs = []") (auto simp: join_Cons split_char_append split_char_none)
qed simp

text \<open>\<open>s.replace(old, new)\<close> for an \<open>old\<close> that is not empty.\<close>

function replace_all :: "string \<Rightarrow> string \<Rightarrow> string \<Rightarrow> string" where
  "replace_all old new [] = []"
| "replace_all old new (c # cs) =
     (if old \<noteq> [] \<and> prefix old (c # cs)
      then new @ replace_all old new (drop (length old) (c # cs))
      else c # replace_all old new cs)"
  by pat_completeness auto
termination by (relation "measure (\<lambda>(_, _, s). length s)") auto

lemma replace_all_char: "replace_all [a] [b] s = map (\<lambda>c. if c = a then b else c) s"
  by (induction s) auto

lemma replace_all_none: "c \<notin> set s \<Longrightarrow> replace_all (c # cs) new s = s"
  by (induction s) auto

section \<open>Case\<close>

definition py_upper_char :: "char \<Rightarrow> char" where
  "py_upper_char c = (let n = (of_char c :: nat) in if 97 \<le> n \<and> n \<le> 122 then char_of (n - 32) else c)"

definition py_lower_char :: "char \<Rightarrow> char" where
  "py_lower_char c = (let n = (of_char c :: nat) in if 65 \<le> n \<and> n \<le> 90 then char_of (n + 32) else c)"

definition py_upper :: "string \<Rightarrow> string" where "py_upper s = map py_upper_char s"
definition py_lower :: "string \<Rightarrow> string" where "py_lower s = map py_lower_char s"

lemma length_py_upper [simp]: "length (py_upper s) = length s"
  by (simp add: py_upper_def)

lemma py_upper_append [simp]: "py_upper (a @ b) = py_upper a @ py_upper b"
  by (simp add: py_upper_def)

lemma of_char_bound: "(of_char c :: nat) < 256"
  using nat_of_char_less_256 by simp

lemma of_char_nibbles: "(of_char c :: nat) div 16 < 16" "(of_char c :: nat) mod 16 < 16"
proof -
  have "(of_char c :: nat) < 16 * 16" using of_char_bound [of c] by simp
  then show "(of_char c :: nat) div 16 < 16" by (rule less_mult_imp_div_less)
qed simp

lemma py_upper_char_idem [simp]: "py_upper_char (py_upper_char c) = py_upper_char c"
  by (auto simp: py_upper_char_def Let_def)

lemma py_upper_idem [simp]: "py_upper (py_upper s) = py_upper s"
  by (simp add: py_upper_def)

section \<open>Numerals\<close>

definition digit_val :: "char \<Rightarrow> nat option" where
  "digit_val c = (let n = (of_char c :: nat) in
     if 48 \<le> n \<and> n \<le> 57 then Some (n - 48)
     else if 97 \<le> n \<and> n \<le> 122 then Some (n - 87)
     else if 65 \<le> n \<and> n \<le> 90 then Some (n - 55) else None)"

definition is_digit :: "char \<Rightarrow> bool" where
  "is_digit c \<longleftrightarrow> (case digit_val c of Some d \<Rightarrow> d < 10 | None \<Rightarrow> False)"

fun digits_acc :: "nat \<Rightarrow> nat \<Rightarrow> string \<Rightarrow> nat option" where
  "digits_acc b acc [] = Some acc"
| "digits_acc b acc (c # cs) =
     (case digit_val c of Some d \<Rightarrow> (if d < b then digits_acc b (acc * b + d) cs else None)
      | None \<Rightarrow> None)"

definition nat_of_digits :: "nat \<Rightarrow> string \<Rightarrow> nat option" where
  "nat_of_digits b s = (if s = [] then None else digits_acc b 0 s)"

text \<open>\<open>int(s, b)\<close> for base 10 or 16: surrounding blanks, one sign, \<open>0x\<close> in base 16,
  at least one digit; anything else raises \<open>ValueError\<close>.\<close>

definition unprefix16 :: "nat \<Rightarrow> string \<Rightarrow> string" where
  "unprefix16 b s = (case s of c # x # y # r \<Rightarrow>
     if b = 16 \<and> c = CHR ''0'' \<and> (x = CHR ''x'' \<or> x = CHR ''X'') then y # r else s | _ \<Rightarrow> s)"

definition int_of_text :: "nat \<Rightarrow> string \<Rightarrow> int res" where
  "int_of_text b s = (case strip_ws s of [] \<Rightarrow> Inl ValueError
     | c # cs \<Rightarrow>
        let neg = (c = CHR ''-''); body = (if neg \<or> c = CHR ''+'' then cs else c # cs)
        in case nat_of_digits b (unprefix16 b body) of None \<Rightarrow> Inl ValueError
           | Some n \<Rightarrow> Inr (if neg then - int n else int n))"

text \<open>\<open>int(s)\<close>.\<close>
definition py_int :: "string \<Rightarrow> int res" where "py_int s = int_of_text 10 s"

definition hex_digit :: "nat \<Rightarrow> char" where
  "hex_digit d = (if d < 10 then char_of (48 + d) else char_of (87 + d))"

definition Hex_digit :: "nat \<Rightarrow> char" where
  "Hex_digit d = (if d < 10 then char_of (48 + d) else char_of (55 + d))"

fun digits_of :: "nat \<Rightarrow> nat \<Rightarrow> string" where
  "digits_of b n = (if n < b \<or> b < 2 then [hex_digit n]
     else digits_of b (n div b) @ [hex_digit (n mod b)])"

declare digits_of.simps [simp del]

definition str_of_nat :: "nat \<Rightarrow> string" where "str_of_nat n = digits_of 10 n"

definition str_of_int :: "int \<Rightarrow> string" where
  "str_of_int i = (if i < 0 then CHR ''-'' # str_of_nat (nat (- i)) else str_of_nat (nat i))"

lemma digit_val_hex_digit: "d < 16 \<Longrightarrow> digit_val (hex_digit d) = Some d"
  by (auto simp: digit_val_def hex_digit_def Let_def)

lemma digit_val_Hex_digit: "d < 16 \<Longrightarrow> digit_val (Hex_digit d) = Some d"
  by (auto simp: digit_val_def Hex_digit_def Let_def)

lemma digit_val_ws: "is_ws c \<Longrightarrow> digit_val c = None"
  by (auto simp: is_ws_def digit_val_def)

lemma hex_digit_not_ws [simp]: "d < 16 \<Longrightarrow> \<not> is_ws (hex_digit d)"
  using digit_val_hex_digit digit_val_ws by fastforce

lemma Hex_digit_not_ws [simp]: "d < 16 \<Longrightarrow> \<not> is_ws (Hex_digit d)"
  using digit_val_Hex_digit digit_val_ws by fastforce

lemma digits_acc_append:
  "digits_acc b acc (s @ t) = Option.bind (digits_acc b acc s) (\<lambda>a. digits_acc b a t)"
  by (induction s arbitrary: acc) (auto split: option.splits)

lemma digits_of_not_Nil [simp]: "digits_of b n \<noteq> []"
  by (subst digits_of.simps) simp

lemma digits_of_parse: "2 \<le> b \<Longrightarrow> b \<le> 16 \<Longrightarrow> digits_acc b 0 (digits_of b n) = Some n"
proof (induction b n rule: digits_of.induct)
  case (1 b n)
  show ?case
  proof (cases "n < b")
    case True
    with "1.prems" show ?thesis by (subst digits_of.simps) (simp add: digit_val_hex_digit)
  next
    case False
    with "1.IH" "1.prems" have ih: "digits_acc b 0 (digits_of b (n div b)) = Some (n div b)"
      by simp
    have m: "n mod b < b" using "1.prems" by simp
    with "1.prems" have d: "digit_val (hex_digit (n mod b)) = Some (n mod b)"
      by (intro digit_val_hex_digit) linarith
    show ?thesis using False "1.prems"
      by (subst digits_of.simps) (simp add: digits_acc_append ih d m)
  qed
qed

lemma digits_of_chars:
  "2 \<le> b \<Longrightarrow> b \<le> 16 \<Longrightarrow> c \<in> set (digits_of b n) \<Longrightarrow> \<exists>d < b. c = hex_digit d"
proof (induction b n rule: digits_of.induct)
  case (1 b n)
  show ?case
  proof (cases "n < b")
    case True
    with "1.prems" show ?thesis by (subst (asm) digits_of.simps) auto
  next
    case False
    from "1.prems"(3) False "1.prems"(1)
    have "c \<in> set (digits_of b (n div b)) \<or> c = hex_digit (n mod b)"
      by (subst (asm) digits_of.simps) auto
    then show ?thesis
    proof
      assume "c \<in> set (digits_of b (n div b))"
      with "1.IH" "1.prems"(1,2) False show ?thesis by simp
    next
      assume "c = hex_digit (n mod b)"
      moreover have "n mod b < b" using "1.prems"(1) by simp
      ultimately show ?thesis by blast
    qed
  qed
qed

lemma str_of_nat_digits: "c \<in> set (str_of_nat n) \<Longrightarrow> \<exists>d < 10. c = hex_digit d"
  using digits_of_chars [of 10 c n] by (simp add: str_of_nat_def)

lemma str_of_nat_is_digit: "c \<in> set (str_of_nat n) \<Longrightarrow> is_digit c"
  using str_of_nat_digits by (fastforce simp: is_digit_def digit_val_hex_digit)

lemma str_of_nat_not_Nil [simp]: "str_of_nat n \<noteq> []"
  by (simp add: str_of_nat_def)

lemma is_digit_not_ws: "is_digit c \<Longrightarrow> \<not> is_ws c"
  by (auto simp: is_digit_def digit_val_ws split: option.splits)

lemma unprefix16_10 [simp]: "unprefix16 10 s = s"
  by (simp add: unprefix16_def split: list.splits)

lemma strip_digits: "s \<noteq> [] \<Longrightarrow> (\<And>c. c \<in> set s \<Longrightarrow> is_digit c) \<Longrightarrow> strip_ws s = s"
  unfolding strip_ws_def by (rule strip_by_id) (simp add: is_digit_not_ws)

lemma py_int_str_of_nat [simp]: "py_int (str_of_nat n) = Inr (int n)"
proof -
  have s: "strip_ws (str_of_nat n) = str_of_nat n"
    by (rule strip_digits) (auto intro: str_of_nat_is_digit)
  obtain c cs where c: "str_of_nat n = c # cs" by (cases "str_of_nat n") auto
  then have "is_digit c" using str_of_nat_is_digit [of c n] by simp
  then have nc: "c \<noteq> CHR ''-'' \<and> c \<noteq> CHR ''+''" by (auto simp: is_digit_def digit_val_def)
  have "digits_acc 10 0 (c # cs) = Some n"
    using digits_of_parse [of 10 n] c by (simp add: str_of_nat_def)
  with s c nc show ?thesis
    by (simp add: py_int_def int_of_text_def nat_of_digits_def del: digits_acc.simps)
qed

theorem py_int_str_of_int [simp]: "py_int (str_of_int i) = Inr i"
proof (cases "i < 0")
  case True
  let ?s = "str_of_nat (nat (- i))"
  have d: "\<And>c. c \<in> set ?s \<Longrightarrow> is_digit c" by (rule str_of_nat_is_digit)
  have "\<not> is_ws (last ?s)" using d last_in_set [OF str_of_nat_not_Nil] is_digit_not_ws by blast
  then have s: "strip_ws (CHR ''-'' # ?s) = CHR ''-'' # ?s"
    unfolding strip_ws_def by (intro strip_by_id) (simp add: is_ws_def)
  have "digits_acc 10 0 ?s = Some (nat (- i))"
    using digits_of_parse [of 10] by (simp add: str_of_nat_def)
  with s True show ?thesis
    by (simp add: str_of_int_def py_int_def int_of_text_def nat_of_digits_def)
qed (simp add: str_of_int_def)

text \<open>Rules that compute the decimal text of a numeral by simplification.\<close>

lemma str_of_nat_small: "n < 10 \<Longrightarrow> str_of_nat n = [hex_digit n]"
  unfolding str_of_nat_def by (subst digits_of.simps) simp

lemma str_of_nat_large: "10 \<le> n \<Longrightarrow> str_of_nat n = str_of_nat (n div 10) @ [hex_digit (n mod 10)]"
  unfolding str_of_nat_def by (subst digits_of.simps) simp

lemma str_of_int_nat: "str_of_int (int n) = str_of_nat n"
  by (simp add: str_of_int_def)

lemma str_of_int_numeral: "str_of_int (numeral k) = str_of_nat (numeral k)"
  by (simp add: str_of_int_def)

lemma hex_digit_decimal:
  "hex_digit 0 = (CHR ''0'')" "hex_digit (Suc 0) = (CHR ''1'')" "hex_digit 1 = (CHR ''1'')"
  "hex_digit 2 = (CHR ''2'')" "hex_digit 3 = (CHR ''3'')" "hex_digit 4 = (CHR ''4'')"
  "hex_digit 5 = (CHR ''5'')" "hex_digit 6 = (CHR ''6'')" "hex_digit 7 = (CHR ''7'')"
  "hex_digit 8 = (CHR ''8'')" "hex_digit 9 = (CHR ''9'')"
  by code_simp+

lemmas decimal_eval = str_of_nat_small str_of_nat_large str_of_int_nat str_of_int_numeral
  hex_digit_decimal

section \<open>Lines, formatting and pieces of text\<close>

definition text_line :: "string \<Rightarrow> string" where "text_line s = s @ [CHR 0x0A]"

definition text_lines :: "string list \<Rightarrow> string" where "text_lines ls = concat (map text_line ls)"

text \<open>Python's \<open>template % args\<close> for texts (a number is given as its text): \<open>subst_args\<close> fills the
  places, and \<open>fmt\<close> raises when their number is not that of the arguments.\<close>

fun subst_args :: "string \<Rightarrow> string list \<Rightarrow> string" where
  "subst_args (c # d # r) args =
     (if c = CHR ''%'' \<and> (d = CHR ''s'' \<or> d = CHR ''d'') then
        (case args of a # as \<Rightarrow> a @ subst_args r as | [] \<Rightarrow> subst_args r [])
      else if c = CHR ''%'' \<and> d = CHR ''%'' then CHR ''%'' # subst_args r args
      else c # subst_args (d # r) args)"
| "subst_args [c] args = [c]"
| "subst_args [] args = []"

fun places :: "string \<Rightarrow> nat" where
  "places (c # d # r) =
     (if c = CHR ''%'' \<and> (d = CHR ''s'' \<or> d = CHR ''d'') then Suc (places r)
      else if c = CHR ''%'' \<and> d = CHR ''%'' then places r else places (d # r))"
| "places _ = 0"

definition fmt :: "string \<Rightarrow> string list \<Rightarrow> string res" where
  "fmt t args = (if places t = length args then Inr (subst_args t args) else Inl TypeError)"

text \<open>\<open>s.split(sep)[-1]\<close> for a text separator: what follows its last occurrence.\<close>

lemma diff_less_iff_pos: "i + length (sep :: string) \<le> n \<Longrightarrow> sep \<noteq> [] \<Longrightarrow> n - (i + length sep) < n"
  by (cases sep) auto

function after_last :: "string \<Rightarrow> string \<Rightarrow> string" where
  "after_last sep s = (case find_sub sep s of None \<Rightarrow> s
     | Some i \<Rightarrow> if sep = [] then s else after_last sep (drop (i + length sep) s))"
  by pat_completeness auto
termination
  by (relation "measure (\<lambda>(sep, s). length s)") (auto intro!: diff_less_iff_pos dest: find_sub_bound)

declare after_last.simps [simp del]

definition path_join :: "string \<Rightarrow> string \<Rightarrow> string" where
  "path_join a b = (if b \<noteq> [] \<and> hd b = CHR ''/'' then b
     else if a = [] \<or> last a = CHR ''/'' then a @ b else a @ ''/'' @ b)"

text \<open>\<open>os.path.split(p)[0]\<close>.\<close>

definition path_dir :: "string \<Rightarrow> string" where
  "path_dir p = (let h = rev (dropWhile (\<lambda>c. c \<noteq> CHR ''/'') (rev p)) in
     if \<forall>c \<in> set h. c = CHR ''/'' then h else rstrip_set ''/'' h)"

lemma contains_sub_iff: "contains_sub pat s \<longleftrightarrow> (\<exists>a b. s = a @ pat @ b)"
proof
  assume "contains_sub pat s"
  then obtain i where "find_sub pat s = Some i" by (auto simp: contains_sub_def)
  from find_sub_Some [OF this] show "\<exists>a b. s = a @ pat @ b" by blast
next
  assume "\<exists>a b. s = a @ pat @ b"
  then obtain a b where s: "s = a @ pat @ b" by blast
  have "find_sub pat (a @ pat @ b) \<noteq> None"
  proof (induction a)
    case Nil
    have "prefix pat (pat @ b)" by simp
    then show ?case by (cases "pat @ b") auto
  qed auto
  then show "contains_sub pat s" by (simp add: contains_sub_def s)
qed

lemma contains_sub_append: "contains_sub pat a \<or> contains_sub pat b \<Longrightarrow> contains_sub pat (a @ b)"
  unfolding contains_sub_iff by (metis append.assoc)

lemma contains_sub_concat: "x \<in> set xs \<Longrightarrow> contains_sub pat x \<Longrightarrow> contains_sub pat (concat xs)"
  by (induction xs) (auto intro: contains_sub_append)

text \<open>The lines of a text, and a line's first word.\<close>

definition first_word :: "string \<Rightarrow> string" where
  "first_word l = takeWhile (\<lambda>c. \<not> is_ws c) (dropWhile is_ws l)"

definition lines_of :: "string \<Rightarrow> string list" where
  "lines_of s = filter (\<lambda>l. l \<noteq> []) (split_char (CHR 0x0A) s)"

lemma split_text_lines:
  "\<forall>l \<in> set ls. CHR 0x0A \<notin> set l \<Longrightarrow> split_char (CHR 0x0A) (concat (map text_line ls)) = ls @ [[]]"
  by (induction ls) (auto simp: text_line_def split_char_append)

lemma lines_of_text_lines:
  "\<forall>l \<in> set ls. CHR 0x0A \<notin> set l \<Longrightarrow> lines_of (concat (map text_line ls)) = filter (\<lambda>l. l \<noteq> []) ls"
  by (simp add: lines_of_def split_text_lines)

end
