(* ===== verification/PyJson.thy ===== *)
theory PyJson
  imports PyText
begin

text \<open>
  Parsed JSON documents, as \<open>json.load\<close> returns them, with the accesses the scripts make:
  a subscript by name raises \<open>KeyError\<close>, one by position \<open>IndexError\<close>, and a value of
  another type than the code needs \<open>TypeError\<close> (Python raises it where the value is first
  used as that type, the model where it is read from the document).
\<close>

datatype json =
    JNull | JBool bool | JInt int | JStr string | JList "json list" | JObj "(string \<times> json) list"

definition jget :: "json \<Rightarrow> string \<Rightarrow> json res" where
  "jget j k = (case j of JObj d \<Rightarrow> od_get d k | _ \<Rightarrow> Inl TypeError)"

definition jhas :: "json \<Rightarrow> string \<Rightarrow> bool" where
  "jhas j k = (case j of JObj d \<Rightarrow> od_has d k | _ \<Rightarrow> False)"

definition jlist :: "json \<Rightarrow> json list res" where
  "jlist j = (case j of JList xs \<Rightarrow> Inr xs | _ \<Rightarrow> Inl TypeError)"

definition jstr :: "json \<Rightarrow> string res" where
  "jstr j = (case j of JStr s \<Rightarrow> Inr s | _ \<Rightarrow> Inl TypeError)"

definition jint :: "json \<Rightarrow> int res" where
  "jint j = (case j of JInt i \<Rightarrow> Inr i | _ \<Rightarrow> Inl TypeError)"

definition jat :: "json \<Rightarrow> int \<Rightarrow> json res" where
  "jat j i = bindR (jlist j) (\<lambda>xs. py_index xs i)"

definition jget_list :: "json \<Rightarrow> string \<Rightarrow> json list res" where
  "jget_list j k = bindR (jget j k) jlist"

definition jget_str :: "json \<Rightarrow> string \<Rightarrow> string res" where
  "jget_str j k = bindR (jget j k) jstr"

definition jget_int :: "json \<Rightarrow> string \<Rightarrow> int res" where
  "jget_int j k = bindR (jget j k) jint"

lemma jget_JObj [simp]: "jget (JObj d) k = od_get d k"
  by (simp add: jget_def)

lemma jread_simps [simp]:
  "jlist (JList xs) = Inr xs" "jstr (JStr s) = Inr s" "jint (JInt i) = Inr i"
  by (simp_all add: jlist_def jstr_def jint_def)

lemma jread_Inr:
  "jlist j = Inr xs \<longleftrightarrow> j = JList xs" "jstr j = Inr s \<longleftrightarrow> j = JStr s" "jint j = Inr i \<longleftrightarrow> j = JInt i"
  by (cases j; simp add: jlist_def jstr_def jint_def)+

lemma jget_typed_Inr:
  "jget_list j k = Inr xs \<longleftrightarrow> jget j k = Inr (JList xs)"
  "jget_str j k = Inr s \<longleftrightarrow> jget j k = Inr (JStr s)"
  "jget_int j k = Inr i \<longleftrightarrow> jget j k = Inr (JInt i)"
  by (auto simp: jget_list_def jget_str_def jget_int_def bindR_eq_Inr jread_Inr)

end
