(* ===== verification/StfText.thy ===== *)
theory StfText
  imports PyText
begin

text \<open>
  The lexical layer of the STF test runner (\<open>flexsai/p4/backend/json_stage/bmv2stf.py\<close>) and
  of the compiler driver (\<open>run-bmv2-test.py\<close>): the two functions \<open>nextWord\<close>, which cut one
  word off a text, and the conversions between packet bytes and hexadecimal text. The locale
  \<open>word_source\<close> is what the parsing loops of both scripts rely on: a cut never lengthens a text
  and always makes progress on a text that is not empty.
\<close>

section \<open>The two word splitters\<close>

text \<open>A separator is whitespace (\<open>sep = None\<close>) or a string; Python raises \<open>ValueError\<close> on an
  empty separator, which no caller passes and the type \<open>separator\<close> leaves out.\<close>

datatype separator = Blank | Sep char string

text \<open>\<open>nextWord\<close> of \<open>bmv2stf.py\<close>.\<close>

definition split_sep1 :: "separator \<Rightarrow> string \<Rightarrow> string list" where
  "split_sep1 sep text = (case sep of Blank \<Rightarrow> split_ws1 text | Sep c cs \<Rightarrow> split_at1 (c # cs) text)"

definition nextWord :: "separator \<Rightarrow> string \<Rightarrow> string \<times> string" where
  "nextWord sep text = (case split_sep1 sep text of
       [] \<Rightarrow> ([], [])
     | [w] \<Rightarrow> (strip_ws w, [])
     | w # r # _ \<Rightarrow> (strip_ws w, strip_ws r))"

text \<open>\<open>nextWord\<close> of \<open>run-bmv2-test.py\<close>: found by \<open>find\<close>, and the text comes back unstripped
  when the separator is not there.\<close>

definition nextWordAt :: "string \<Rightarrow> string \<Rightarrow> string \<times> string" where
  "nextWordAt sep text = (case find_sub sep text of
       None \<Rightarrow> (text, [])
     | Some pos \<Rightarrow> (strip_ws (take pos text), strip_ws (drop (pos + length sep) text)))"

section \<open>What the parsing loops rely on\<close>

locale word_source =
  fixes cut :: "'sep \<Rightarrow> string \<Rightarrow> string \<times> string"
    and good :: "'sep \<Rightarrow> bool"
  assumes cut_length: "length (fst (cut sep s)) + length (snd (cut sep s)) \<le> length s"
    and cut_progress: "good sep \<Longrightarrow> s \<noteq> [] \<Longrightarrow> length (snd (cut sep s)) < length s"
begin

lemma cut_fst_length: "length (fst (cut sep s)) \<le> length s"
  using cut_length [of sep s] by linarith

lemma cut_snd_length: "length (snd (cut sep s)) \<le> length s"
  using cut_length [of sep s] by linarith

lemma cut_eq_length:
  "cut sep s = (w, r) \<Longrightarrow> length w + length r \<le> length s"
  using cut_length [of sep s] by simp

lemma cut_eq_progress: "cut sep s = (w, r) \<Longrightarrow> good sep \<Longrightarrow> s \<noteq> [] \<Longrightarrow> length r < length s"
  using cut_progress [of sep s] by simp

text \<open>A loop that replaces its text by the rest of a cut empties it in at most as many rounds
  as the text has characters.\<close>

lemma drain: "good sep \<Longrightarrow> \<exists>n \<le> length s. ((\<lambda>t. snd (cut sep t)) ^^ n) s = []"
proof (induction "length s" arbitrary: s rule: less_induct)
  case less
  show ?case
  proof (cases "s = []")
    case True
    then show ?thesis by (intro exI [of _ 0]) simp
  next
    case False
    let ?t = "snd (cut sep s)"
    have lt: "length ?t < length s" using less.prems False by (rule cut_progress)
    from less.hyps [OF lt less.prems] obtain n
      where n: "n \<le> length ?t" "((\<lambda>t. snd (cut sep t)) ^^ n) ?t = []" by blast
    have "((\<lambda>t. snd (cut sep t)) ^^ Suc n) s = []" using n(2) by (simp only: funpow_Suc_right comp_apply)
    moreover have "Suc n \<le> length s" using n(1) lt by simp
    ultimately show ?thesis by blast
  qed
qed

end

lemma length_split_at1:
  "length (concat (split_at1 sep s)) \<le> length s"
  "split_at1 sep s = [w, r] \<Longrightarrow> sep \<noteq> [] \<Longrightarrow> length r < length s"
proof -
  show "length (concat (split_at1 sep s)) \<le> length s"
    by (auto simp: split_at1_def split: option.splits dest: find_sub_bound)
next
  assume a: "split_at1 sep s = [w, r]" "sep \<noteq> []"
  then obtain i where i: "find_sub sep s = Some i" "r = drop (i + length sep) s"
    by (auto simp: split_at1_def split: option.splits)
  have "0 < length sep" using a(2) by simp
  with find_sub_bound [OF i(1)] have "length s - (i + length sep) < length s" by linarith
  then show "length r < length s" by (simp add: i(2))
qed

lemma length_split_ws1:
  "length (concat (split_ws1 s)) \<le> length s"
  "split_ws1 s = [w, r] \<Longrightarrow> length r < length s"
proof -
  let ?t = "lstrip_by is_ws s"
  let ?d = "dropWhile (\<lambda>c. \<not> is_ws c) ?t"
  have r: "length (lstrip_by is_ws ?d) \<le> length ?d" by (rule length_lstrip_by)
  have t: "length ?t \<le> length s" by (rule length_lstrip_by)
  have td: "length (takeWhile (\<lambda>c. \<not> is_ws c) ?t) + length ?d = length ?t"
    by (rule length_takeWhile_dropWhile)
  show "length (concat (split_ws1 s)) \<le> length s"
    using r t td by (auto simp: split_ws1_def Let_def simp del: dropWhile_eq_Nil_conv)
  assume "split_ws1 s = [w, r]"
  then have ne: "?t \<noteq> []" and req: "r = lstrip_by is_ws ?d"
    by (auto simp: split_ws1_def Let_def split: if_splits)
  have "\<not> is_ws (hd ?t)" using ne unfolding lstrip_by_def by (rule hd_dropWhile)
  then have "takeWhile (\<lambda>c. \<not> is_ws c) ?t \<noteq> []" using ne by (cases ?t) auto
  then have "length ?d < length ?t" using td by (cases "takeWhile (\<lambda>c. \<not> is_ws c) ?t") auto
  then show "length r < length s" unfolding req using r t by linarith
qed

lemma length_split_sep1:
  "length (concat (split_sep1 sep s)) \<le> length s"
  "split_sep1 sep s = [w, r] \<Longrightarrow> length r < length s"
  using length_split_at1 length_split_ws1
  by (auto simp: split_sep1_def split: separator.splits)

lemma split_sep1_two: "split_sep1 sep s = w # r # q \<Longrightarrow> q = []"
  by (auto simp: split_sep1_def split_ws1_def split_at1_def Let_def
      split: separator.splits option.splits if_splits)

lemma nextWord_length: "length (fst (nextWord sep s)) + length (snd (nextWord sep s)) \<le> length s"
proof -
  have st: "\<And>x. length (strip_ws x) \<le> length x" by (rule length_strip_ws)
  consider "split_sep1 sep s = []" | w where "split_sep1 sep s = [w]"
    | w r where "split_sep1 sep s = [w, r]"
    by (metis split_sep1_two list.exhaust)
  then show ?thesis
  proof cases
    case (2 w)
    then show ?thesis using length_split_sep1(1) [of sep s] st [of w] by (simp add: nextWord_def)
  next
    case (3 w r)
    then show ?thesis
      using length_split_sep1(1) [of sep s] st [of w] st [of r] by (simp add: nextWord_def)
  qed (simp add: nextWord_def)
qed

lemma nextWord_progress: "s \<noteq> [] \<Longrightarrow> length (snd (nextWord sep s)) < length s"
proof -
  assume s: "s \<noteq> []"
  consider "split_sep1 sep s = []" | w where "split_sep1 sep s = [w]"
    | w r where "split_sep1 sep s = [w, r]"
    by (metis split_sep1_two list.exhaust)
  then show ?thesis
  proof cases
    case (3 w r)
    then show ?thesis using length_split_sep1(2) [OF 3] length_strip_ws [of r]
      by (simp add: nextWord_def)
  qed (simp_all add: nextWord_def s)
qed

lemma nextWordAt_length:
  "length (fst (nextWordAt sep s)) + length (snd (nextWordAt sep s)) \<le> length s"
proof (cases "find_sub sep s")
  case (Some i)
  have "length (strip_ws (take i s)) \<le> length (take i s)"
    "length (strip_ws (drop (i + length sep) s)) \<le> length (drop (i + length sep) s)"
    by (rule length_strip_ws)+
  with Some find_sub_bound [OF Some] show ?thesis by (simp add: nextWordAt_def)
qed (simp add: nextWordAt_def)

lemma nextWordAt_progress:
  "sep \<noteq> [] \<Longrightarrow> s \<noteq> [] \<Longrightarrow> length (snd (nextWordAt sep s)) < length s"
proof (cases "find_sub sep s")
  case (Some i)
  assume "sep \<noteq> []" "s \<noteq> []"
  then have "length (drop (i + length sep) s) < length s" by simp
  then have "length (strip_ws (drop (i + length sep) s)) < length s"
    by (rule le_less_trans [OF length_strip_ws])
  with Some show ?thesis by (simp add: nextWordAt_def)
qed (simp add: nextWordAt_def)

interpretation stf: word_source nextWord "\<lambda>_. True"
  by unfold_locales (rule nextWord_length, rule nextWord_progress)

interpretation drv: word_source nextWordAt "\<lambda>sep. sep \<noteq> []"
  by unfold_locales (rule nextWordAt_length, rule nextWordAt_progress)

text \<open>What \<open>nextWord\<close> returns on the shapes the STF grammar uses.\<close>

lemma nextWord_sep_found:
  "c \<notin> set a \<Longrightarrow> nextWord (Sep c []) (a @ c # b) = (strip_ws a, strip_ws b)"
  by (simp add: nextWord_def split_sep1_def split_at1_def find_sub_char_append)

lemma nextWord_sep_none: "c \<notin> set a \<Longrightarrow> nextWord (Sep c []) a = (strip_ws a, [])"
  by (simp add: nextWord_def split_sep1_def split_at1_def find_sub_char_None [THEN iffD2])

section \<open>Packet bytes as hexadecimal text\<close>

text \<open>\<open>"%02X " % ord(x)\<close> for one byte, and the whole conversion.\<close>

definition hex2 :: "char \<Rightarrow> string" where
  "hex2 x = (let n = (of_char x :: nat) in [Hex_digit (n div 16), Hex_digit (n mod 16)])"

definition ByteToHex :: "string \<Rightarrow> string" where
  "ByteToHex byteStr = strip_ws (concat (map (\<lambda>x. hex2 x @ [CHR '' '']) byteStr))"

text \<open>\<open>chr(n)\<close> raises outside 0..255.\<close>

definition py_chr :: "int \<Rightarrow> char res" where
  "py_chr n = (if 0 \<le> n \<and> n < 256 then Inr (char_of (nat n)) else Inl ValueError)"

fun hex_pairs :: "string \<Rightarrow> string res" where
  "hex_pairs [] = Inr []"
| "hex_pairs [a] = bindR (int_of_text 16 [a]) (\<lambda>n. bindR (py_chr n) (\<lambda>c. Inr [c]))"
| "hex_pairs (a # b # r) = bindR (int_of_text 16 [a, b]) (\<lambda>n. bindR (py_chr n) (\<lambda>c.
     bindR (hex_pairs r) (\<lambda>cs. Inr (c # cs))))"

definition HexToByte :: "string \<Rightarrow> string res" where
  "HexToByte hexStr = hex_pairs (concat (split_char (CHR '' '') hexStr))"

lemma int_of_text_hex2: "int_of_text 16 (hex2 x) = Inr (int (of_char x))"
proof -
  let ?n = "of_char x :: nat"
  have d: "?n div 16 < 16" "?n mod 16 < 16" by (rule of_char_nibbles)+
  have s: "strip_ws (hex2 x) = hex2 x"
    unfolding strip_ws_def by (rule strip_by_id) (simp add: hex2_def Let_def d)
  have v: "digit_val (Hex_digit (?n div 16)) = Some (?n div 16)"
    "digit_val (Hex_digit (?n mod 16)) = Some (?n mod 16)"
    using d by (simp_all add: digit_val_Hex_digit)
  have sg: "Hex_digit (?n div 16) \<noteq> CHR ''-''" "Hex_digit (?n div 16) \<noteq> CHR ''+''"
    using v(1) by (auto simp: digit_val_def)
  have "nat_of_digits 16 (hex2 x) = Some ?n"
    using d by (simp add: nat_of_digits_def hex2_def Let_def v)
  with s sg show ?thesis
    by (simp add: int_of_text_def hex2_def Let_def unprefix16_def)
qed

lemma concat_split_char: "concat (split_char c s) = filter (\<lambda>x. x \<noteq> c) s"
proof (induction s)
  case (Cons x xs)
  then show ?case by (auto split: list.splits)
qed simp

lemma hex2_no_blank: "CHR '' '' \<notin> set (hex2 x)"
proof -
  have "\<not> is_ws (Hex_digit (of_char x div 16))" "\<not> is_ws (Hex_digit (of_char x mod 16))"
    by (rule Hex_digit_not_ws, rule of_char_nibbles)+
  then show ?thesis by (auto simp: hex2_def Let_def is_ws_def)
qed

lemma hex_text_filter:
  "filter (\<lambda>c. c \<noteq> CHR '' '') (concat (map (\<lambda>x. hex2 x @ [CHR '' '']) s)) = concat (map hex2 s)"
proof (induction s)
  case (Cons x xs)
  have "filter (\<lambda>c. c \<noteq> CHR '' '') (hex2 x) = hex2 x"
    by (rule filter_True) (use hex2_no_blank [of x] in blast)
  with Cons show ?case by simp
qed simp

lemma filter_strip: "filter (\<lambda>c. c \<noteq> CHR '' '') (ByteToHex s) = concat (map hex2 s)"
proof (cases s rule: rev_cases)
  case (snoc t x)
  define u where "u = concat (map (\<lambda>x. hex2 x @ [CHR '' '']) t) @ hex2 x"
  have nw: "\<And>y c. c \<in> set (hex2 y) \<Longrightarrow> \<not> is_ws c"
    using of_char_nibbles Hex_digit_not_ws by (auto simp: hex2_def Let_def)
  have "u \<noteq> []" by (simp add: u_def hex2_def Let_def)
  have hd: "\<not> is_ws (hd u)"
  proof (cases t)
    case Nil
    then show ?thesis by (simp add: u_def hex2_def Let_def of_char_nibbles)
  next
    case (Cons y ys)
    then show ?thesis by (simp add: u_def hex2_def Let_def of_char_nibbles)
  qed
  have la: "\<not> is_ws (last u)" by (simp add: u_def hex2_def Let_def of_char_nibbles)
  have "ByteToHex s = strip_ws (u @ [CHR '' ''])" by (simp add: ByteToHex_def snoc u_def)
  also have "\<dots> = u"
  proof -
    have "lstrip_by is_ws (u @ [CHR '' '']) = u @ [CHR '' '']"
      using hd \<open>u \<noteq> []\<close> by (cases u) (auto simp: lstrip_by_def)
    moreover have "rstrip_by is_ws (u @ [CHR '' '']) = rstrip_by is_ws u"
      by (rule rstrip_by_all) (simp add: is_ws_def)
    moreover have "rstrip_by is_ws u = u"
      using la \<open>u \<noteq> []\<close> by (cases u rule: rev_cases) (auto simp: rstrip_by_def)
    ultimately show ?thesis by (simp add: strip_ws_def strip_by_def)
  qed
  finally have "ByteToHex s = u" .
  moreover have "filter (\<lambda>c. c \<noteq> CHR '' '') u = concat (map hex2 s)"
    using hex_text_filter [of s] by (simp add: snoc u_def)
  ultimately show ?thesis by simp
qed (simp add: ByteToHex_def strip_ws_def strip_by_def lstrip_by_def rstrip_by_def)

lemma hex_pairs_hex2: "hex_pairs (concat (map hex2 s)) = Inr s"
proof (induction s)
  case (Cons x xs)
  have "int (of_char x) < 256" using of_char_bound [of x] by linarith
  with Cons int_of_text_hex2 [of x] show ?case
    by (simp add: hex2_def Let_def py_chr_def)
qed simp

text \<open>C39 (roundtrip). The bytes of a packet written as hexadecimal text by \<open>ByteToHex\<close> and read
  back by \<open>HexToByte\<close> are the bytes of the packet, for every packet.
\<close>
theorem HexToByte_ByteToHex: "HexToByte (ByteToHex s) = Inr s"
  by (simp add: HexToByte_def concat_split_char filter_strip hex_pairs_hex2)

end
