(* ===== verification/StfTable.thy ===== *)
theory StfTable
  imports StfText PyJson
begin

text \<open>
  The tables and actions of a compiled P4 program as the STF runner keeps them
  (\<open>bmv2stf.py\<close>, classes \<open>BMV2ActionArg\<close>, \<open>TableKey\<close>, \<open>TableKeyInstance\<close>,
  \<open>BMV2ActionArguments\<close>, \<open>BMV2Action\<close>, \<open>BMV2Table\<close>): reading them from the compiler's JSON,
  resolving the abbreviated key names of a test file, and writing ternary and longest-prefix
  values in the form the simulator's command line takes.
\<close>

section \<open>Data\<close>

record bmv2_action_arg =
  arg_name :: string
  arg_width :: json

type_synonym table_key = "(string, string) odict"

definition tk_append :: "table_key \<Rightarrow> string \<Rightarrow> string \<Rightarrow> table_key" where
  "tk_append flds name type = AList.update name type flds"

record table_key_instance =
  tki_key :: table_key
  tki_values :: "string \<Rightarrow> string option"

record bmv2_action =
  act_name :: string
  act_args :: "bmv2_action_arg list"

record bmv2_action_arguments =
  aa_action :: bmv2_action
  aa_values :: "string \<Rightarrow> string option"

record bmv2_table =
  tbl_match_type :: string
  tbl_name :: string
  tbl_key :: table_key
  tbl_actions :: "(string, int) odict"

section \<open>Table keys\<close>

definition default_value :: "string \<Rightarrow> string res" where
  "default_value t =
     (if t = ''ternary'' then Inr ''0&&&0''
      else if t = ''lpm'' then Inr ''0/0''
      else if t = ''exact'' then Inr ''0''
      else if t = ''valid'' then Inr ''0''
      else Inl (Exn (''Unexpected key type '' @ t)))"

definition TableKeyInstance :: "table_key \<Rightarrow> table_key_instance res" where
  "TableKeyInstance tableKey =
     bindR (foldR (\<lambda>vals (f, t). bindR (default_value t) (\<lambda>v. Inr (vals(f \<mapsto> v))))
             Map.empty tableKey)
       (\<lambda>vals. Inr \<lparr>tki_key = tableKey, tki_values = vals\<rparr>)"

text \<open>The match of \<open>(.*)\$([0-9]+)(.*)\<close> at the start of a key: the first group takes as much as
  it can, so the last dollar sign before a digit is the one that counts, and no group but the
  first character class crosses a line end.\<close>

fun stack_match :: "string \<Rightarrow> (string \<times> string \<times> string) option" where
  "stack_match [] = None"
| "stack_match (c # cs) =
     (let here = (if c = CHR ''$'' \<and> takeWhile is_digit cs \<noteq> []
                  then Some ([], takeWhile is_digit cs,
                    takeWhile (\<lambda>x. x \<noteq> CHR 0x0A) (dropWhile is_digit cs))
                  else None)
      in if c = CHR 0x0A then here
         else (case stack_match cs of Some (a, n, b) \<Rightarrow> Some (c # a, n, b) | None \<Rightarrow> here))"

definition stack_key :: "string \<Rightarrow> string" where
  "stack_key key = (case stack_match key of Some (a, n, b) \<Rightarrow> a @ ''['' @ n @ '']'' @ b | None \<Rightarrow> key)"

text \<open>The search through all fields goes on after a hit, with the key already replaced.\<close>

definition suffix_step :: "string \<times> bool \<Rightarrow> string \<Rightarrow> string \<times> bool" where
  "suffix_step kf i = (case kf of (key, found) \<Rightarrow>
     if suffix (''.'' @ key) i \<or> suffix (''.'' @ key @ ''$'') i then (i, True)
     else if key = ''valid'' \<and> suffix ''.$valid$'' i then (i, True)
     else (key, found))"

definition resolve_key :: "table_key \<Rightarrow> string \<Rightarrow> string res" where
  "resolve_key flds key0 =
     (let key = stack_key key0;
          (key1, found1) =
            (if od_has flds key then (key, True)
             else if od_has flds (key @ ''$'') then (key @ ''$'', True)
             else if od_has flds (key @ ''.$valid$'') then (key @ ''.$valid$'', True)
             else if suffix ''.valid'' key
                     \<and> od_has flds (take (length key - 5) key @ ''$valid$'')
                  then (take (length key - 5) key @ ''$valid$'', True)
             else (key, False));
          (key2, found2) =
            (if found1 then (key1, True) else foldl suffix_step (key1, False) (map fst flds));
          (key3, found3) =
            (if \<not> found2 \<and> key2 = ''valid'' \<and> od_has flds ''$valid$''
             then (''$valid$'', True) else (key2, found2))
      in if found3 then Inr key3 else Inl (Exn (''Unexpected key field '' @ key3)))"

section \<open>Ternary and longest-prefix values\<close>

text \<open>\<open>value.translate(maketrans(values, replacements))\<close>.\<close>

definition mask_char :: "char \<Rightarrow> char \<Rightarrow> char" where
  "mask_char mk c = (if c \<in> set ''0123456789abcdefABCDEF'' then mk
     else if c = CHR ''*'' then CHR ''0'' else c)"

definition mask_text :: "char \<Rightarrow> string \<Rightarrow> string \<Rightarrow> string" where
  "mask_text mk pre value =
     pre @ replace_all ''*'' ''0'' value @ ''&&&'' @ pre @ map (mask_char mk) value"

definition makeMask :: "string \<Rightarrow> string res" where
  "makeMask value =
     (if prefix ''0x'' value then Inr (mask_text (CHR ''F'') ''0x'' (drop 2 value))
      else if prefix ''0b'' value then Inr (mask_text (CHR ''1'') ''0b'' (drop 2 value))
      else if prefix ''0o'' value then Inr (mask_text (CHR ''7'') ''0o'' (drop 2 value))
      else Inl (Exn (''Decimal value '' @ value @ '' not supported for ternary key'')))"

text \<open>Python 2's \<open>hex(n)\<close>: a sign, \<open>0x\<close>, the digits, and an L for a long integer.\<close>

definition py2_hex :: "int \<Rightarrow> string" where
  "py2_hex n = (if n < 0 then ''-'' else '''') @ ''0x'' @ digits_of 16 (nat \<bar>n\<bar>)
     @ (if - (2 ^ 63) \<le> n \<and> n < 2 ^ 63 then '''' else ''L'')"

definition lpm_text :: "int \<Rightarrow> string \<Rightarrow> string" where
  "lpm_text bits_per_digit value =
     (let digits = int (length value) - 2 - int (count_list value (CHR ''*''))
      in replace_all ''*'' ''0'' value @ ''/'' @ str_of_int (digits * bits_per_digit))"

definition makeLpm :: "string \<Rightarrow> string res" where
  "makeLpm value =
     (if CHR ''/'' \<in> set value then Inr value
      else if prefix ''0x'' value then Inr (lpm_text 4 value)
      else if prefix ''0b'' value then Inr (lpm_text 1 value)
      else if prefix ''0o'' value then Inr (lpm_text 3 value)
      else bindR (py_int value) (\<lambda>n. Inr (lpm_text 4 (''0x'' @ py2_hex n))))"

definition tki_set :: "table_key_instance \<Rightarrow> string \<Rightarrow> string \<Rightarrow> table_key_instance res" where
  "tki_set tki key0 value =
     bindR (resolve_key (tki_key tki) key0) (\<lambda>key.
     bindR (od_get (tki_key tki) key) (\<lambda>t.
     bindR (if t = ''ternary'' then makeMask value
            else if t = ''lpm'' then makeLpm value
            else Inr value) (\<lambda>v.
     Inr (tki\<lparr>tki_values := (tki_values tki)(key \<mapsto> v)\<rparr>))))"

definition str_step :: "(string \<Rightarrow> string option) \<Rightarrow> string \<Rightarrow> string \<Rightarrow> string res" where
  "str_step vals result f =
     (case vals f of None \<Rightarrow> Inl KeyError
      | Some v \<Rightarrow> Inr ((if result \<noteq> [] then result @ '' '' else result) @ v))"

definition tki_str :: "table_key_instance \<Rightarrow> string res" where
  "tki_str tki = foldR (str_step (tki_values tki)) [] (map fst (tki_key tki))"

section \<open>Actions and tables\<close>

definition BMV2ActionArg :: "string \<Rightarrow> json \<Rightarrow> bmv2_action_arg" where
  "BMV2ActionArg name width = \<lparr>arg_name = name, arg_width = width\<rparr>"

definition BMV2Action :: "json \<Rightarrow> bmv2_action res" where
  "BMV2Action jsonAction =
     bindR (jget_str jsonAction ''name'') (\<lambda>name.
     bindR (jget_list jsonAction ''runtime_data'') (\<lambda>data.
     bindR (mapR (\<lambda>a. bindR (jget_str a ''name'') (\<lambda>n.
              bindR (jget a ''bitwidth'') (\<lambda>w. Inr (BMV2ActionArg n w)))) data) (\<lambda>args.
     Inr \<lparr>act_name = name, act_args = args\<rparr>)))"

definition BMV2ActionArguments :: "bmv2_action \<Rightarrow> bmv2_action_arguments" where
  "BMV2ActionArguments action = \<lparr>aa_action = action, aa_values = Map.empty\<rparr>"

definition aa_set :: "bmv2_action_arguments \<Rightarrow> string \<Rightarrow> string \<Rightarrow> bmv2_action_arguments res" where
  "aa_set aa key value =
     (if list_ex (\<lambda>i. key = arg_name i) (act_args (aa_action aa))
      then Inr (aa\<lparr>aa_values := (aa_values aa)(key \<mapsto> value)\<rparr>)
      else Inl (Exn (''Unexpected action arg '' @ key)))"

definition aa_str :: "bmv2_action_arguments \<Rightarrow> string res" where
  "aa_str aa = foldR (str_step (aa_values aa)) [] (map arg_name (act_args (aa_action aa)))"

definition aa_size :: "bmv2_action_arguments \<Rightarrow> nat" where
  "aa_size aa = length (act_args (aa_action aa))"

text \<open>A key's target is a name or a list of names, which are joined by dots.\<close>

definition key_target :: "json \<Rightarrow> string res" where
  "key_target target = (case target of
       JList ts \<Rightarrow> foldR (\<lambda>name t. bindR (jstr t) (\<lambda>s.
                     Inr ((if name \<noteq> [] then name @ ''.'' else name) @ s))) [] ts
     | _ \<Rightarrow> jstr target)"

definition table_keys :: "json list \<Rightarrow> table_key res" where
  "table_keys ks = foldR (\<lambda>key k.
       bindR (jget k ''target'') (\<lambda>tg.
       bindR (key_target tg) (\<lambda>name.
       bindR (jget_str k ''match_type'') (\<lambda>mt.
       Inr (tk_append key name mt))))) [] ks"

definition table_actions :: "json list \<Rightarrow> json list \<Rightarrow> (string, int) odict res" where
  "table_actions actions action_ids = foldR (\<lambda>d i.
       bindR (py_index actions (int i)) (\<lambda>a. bindR (jstr a) (\<lambda>actionName.
       bindR (py_index action_ids (int i)) (\<lambda>n. bindR (jint n) (\<lambda>actionId.
       Inr (AList.update actionName actionId d)))))) [] [0..<length actions]"

definition BMV2Table :: "json \<Rightarrow> bmv2_table res" where
  "BMV2Table jsonTable =
     bindR (jget_str jsonTable ''match_type'') (\<lambda>mt.
     bindR (jget_str jsonTable ''name'') (\<lambda>name.
     bindR (jget_list jsonTable ''key'') (\<lambda>ks.
     bindR (table_keys ks) (\<lambda>key.
     bindR (jget_list jsonTable ''actions'') (\<lambda>actions.
     bindR (jget_list jsonTable ''action_ids'') (\<lambda>action_ids.
     bindR (table_actions actions action_ids) (\<lambda>acts.
     Inr \<lparr>tbl_match_type = mt, tbl_name = name, tbl_key = key, tbl_actions = acts\<rparr>)))))))"

definition makeKeyInstance :: "bmv2_table \<Rightarrow> table_key_instance res" where
  "makeKeyInstance t = TableKeyInstance (tbl_key t)"

definition makeArgsInstance :: "bmv2_action \<Rightarrow> bmv2_action_arguments" where
  "makeArgsInstance a = BMV2ActionArguments a"

section \<open>Resolved keys are declared keys\<close>

lemma suffix_fold_found:
  "snd (foldl suffix_step (k, b) is) \<Longrightarrow> fst (foldl suffix_step (k, b) is) \<in> set is \<or> (b \<and> fst (foldl suffix_step (k, b) is) = k)"
proof (induction "is" arbitrary: k b)
  case (Cons i "is")
  show ?case
  proof (cases "suffix_step (k, b) i")
    case (Pair k' b')
    have kb: "(k' = i \<and> b') \<or> (k' = k \<and> b' = b)"
      using Pair by (auto simp: suffix_step_def split: if_splits)
    from Cons.IH [of k' b'] Cons.prems Pair
    have "fst (foldl suffix_step (k', b') is) \<in> set is \<or> (b' \<and> fst (foldl suffix_step (k', b') is) = k')"
      by simp
    with kb Pair show ?thesis by auto
  qed
qed simp

lemma resolve_key_declared: "resolve_key flds key = Inr k \<Longrightarrow> od_has flds k"
proof -
  assume r: "resolve_key flds key = Inr k"
  obtain k2 f2 where fold: "foldl suffix_step (stack_key key, False) (map fst flds) = (k2, f2)"
    by fastforce
  have "f2 \<Longrightarrow> od_has flds k2"
    using suffix_fold_found [of "stack_key key" False "map fst flds"] fold
    by (simp add: od_has_def)
  with r fold show ?thesis
    by (auto simp: resolve_key_def Let_def split: if_splits)
qed

lemma resolve_key_exact:
  assumes "od_has flds (stack_key key)"
  shows "resolve_key flds key = Inr (stack_key key)"
  using assms by (simp add: resolve_key_def Let_def)

lemma stack_key_plain: "CHR ''$'' \<notin> set key \<Longrightarrow> stack_key key = key"
proof -
  assume d: "CHR ''$'' \<notin> set key"
  then have "stack_match key = None" by (induction key) (auto simp: Let_def)
  then show ?thesis by (simp add: stack_key_def)
qed

section \<open>A key instance has a value for every field\<close>

definition tki_ok :: "table_key_instance \<Rightarrow> bool" where
  "tki_ok tki \<longleftrightarrow> dom (tki_values tki) = set (map fst (tki_key tki))"

lemma default_fold_dom:
  "foldR (\<lambda>vals (f, t). bindR (default_value t) (\<lambda>v. Inr (vals(f \<mapsto> v)))) vs fs = Inr vs'
   \<Longrightarrow> dom vs' = dom vs \<union> set (map fst fs)"
proof (induction fs arbitrary: vs)
  case (Cons ft fs)
  obtain f t where ft: "ft = (f, t)" by fastforce
  with Cons.prems obtain v where
    "foldR (\<lambda>vals (f, t). bindR (default_value t) (\<lambda>v. Inr (vals(f \<mapsto> v)))) (vs(f \<mapsto> v)) fs = Inr vs'"
    by (simp only: ft foldR.simps prod.case bindR_eq_Inr sum.inject) blast
  note Cons.IH [OF this]
  also have "dom (vs(f \<mapsto> v)) = insert f (dom vs)" by (rule dom_fun_upd [THEN trans]) simp
  finally show ?case by (simp add: ft)
qed simp

lemma TableKeyInstance_ok: "TableKeyInstance flds = Inr tki \<Longrightarrow> tki_ok tki \<and> tki_key tki = flds"
proof -
  assume "TableKeyInstance flds = Inr tki"
  then obtain vals where
    v: "foldR (\<lambda>vals (f, t). bindR (default_value t) (\<lambda>v. Inr (vals(f \<mapsto> v)))) Map.empty flds = Inr vals"
    and tki: "tki = \<lparr>tki_key = flds, tki_values = vals\<rparr>"
    by (auto simp: TableKeyInstance_def bindR_eq_Inr)
  from default_fold_dom [OF v] tki show ?thesis by (simp add: tki_ok_def)
qed

lemma tki_set_ok:
  "tki_ok tki \<Longrightarrow> tki_set tki key value = Inr tki' \<Longrightarrow> tki_ok tki' \<and> tki_key tki' = tki_key tki"
proof -
  assume ok: "tki_ok tki" and "tki_set tki key value = Inr tki'"
  then obtain k v where k: "resolve_key (tki_key tki) key = Inr k"
    and t: "tki' = tki\<lparr>tki_values := (tki_values tki)(k \<mapsto> v)\<rparr>"
    by (auto simp: tki_set_def bindR_eq_Inr)
  from resolve_key_declared [OF k] have "k \<in> set (map fst (tki_key tki))"
    by (simp only: od_has_def)
  with ok t show ?thesis by (simp add: tki_ok_def insert_absorb)
qed

lemma str_fold_total:
  "set fs \<subseteq> dom vals \<Longrightarrow> \<exists>r. foldR (str_step vals) acc fs = Inr r"
proof (induction fs arbitrary: acc)
  case (Cons f fs)
  then obtain v where "vals f = Some v" by auto
  with Cons show ?case by (simp add: str_step_def)
qed simp

lemma str_fold_join:
  assumes "\<forall>f \<in> set fs. \<exists>v. vals f = Some v \<and> v \<noteq> []"
  shows "foldR (str_step vals) acc fs =
    Inr (acc @ (if acc \<noteq> [] \<and> fs \<noteq> [] then '' '' else []) @ join '' '' (map (\<lambda>f. the (vals f)) fs))"
  using assms
proof (induction fs arbitrary: acc)
  case (Cons f fs)
  then obtain v where v: "vals f = Some v" "v \<noteq> []" by auto
  with Cons.IH [of "(if acc \<noteq> [] then acc @ '' '' else acc) @ v"] Cons.prems
  show ?case by (auto simp: str_step_def join_Cons)
qed simp

lemma tki_str_total: "tki_ok tki \<Longrightarrow> \<exists>s. tki_str tki = Inr s"
  unfolding tki_str_def tki_ok_def by (intro str_fold_total) simp



section \<open>What a ternary value matches\<close>

unbundle bit_operations_syntax

lemma and_block:
  fixes a b d e :: nat
  assumes "d < 2 ^ k" "e < 2 ^ k"
  shows "(a * 2 ^ k + d) AND (b * 2 ^ k + e) = (a AND b) * 2 ^ k + (d AND e)"
proof -
  let ?x = "a * 2 ^ k + d" and ?y = "b * 2 ^ k + e"
  have "(?x AND ?y) div 2 ^ k = (?x div 2 ^ k) AND (?y div 2 ^ k)"
    using drop_bit_and [of k ?x ?y] by (simp add: drop_bit_eq_div)
  moreover have "(?x AND ?y) mod 2 ^ k = (?x mod 2 ^ k) AND (?y mod 2 ^ k)"
    using take_bit_and [of k ?x ?y] by (simp add: take_bit_eq_mod)
  ultimately show ?thesis using assms div_mult_mod_eq [of "?x AND ?y" "2 ^ k"] by simp
qed

lemma and_less: "(d :: nat) < 2 ^ k \<Longrightarrow> d AND e < 2 ^ k"
proof -
  assume d: "d < 2 ^ k"
  have "int (d AND e) \<le> int d" by (simp add: of_nat_and_eq AND_upper1)
  with d show ?thesis by linarith
qed

definition digit_of :: "char \<Rightarrow> nat" where
  "digit_of c = (case digit_val c of Some d \<Rightarrow> d | None \<Rightarrow> 0)"

text \<open>The number a digit string denotes in base \<open>2 ^ k\<close>.\<close>

definition text_val :: "nat \<Rightarrow> string \<Rightarrow> nat" where
  "text_val b s = foldl (\<lambda>a c. a * b + digit_of c) 0 s"

definition base_digit :: "nat \<Rightarrow> char \<Rightarrow> bool" where
  "base_digit b c \<longleftrightarrow> (case digit_val c of Some d \<Rightarrow> d < b | None \<Rightarrow> False)"

definition wild_match :: "string \<Rightarrow> string \<Rightarrow> bool" where
  "wild_match pat x \<longleftrightarrow>
     list_all2 (\<lambda>p c. p = CHR ''*'' \<or> digit_of p = digit_of c) pat x"

lemma base_digit_less: "base_digit b c \<Longrightarrow> digit_of c < b"
  by (auto simp: base_digit_def digit_of_def split: option.splits)

lemma digit_val_values:
  "digit_val c = Some d \<Longrightarrow> d < 16 \<Longrightarrow> c \<in> set ''0123456789abcdefABCDEF''"
proof -
  assume d: "digit_val c = Some d" "d < 16"
  let ?n = "of_char c :: nat"
  from d have "?n \<in> {48..57} \<union> {65..70} \<union> {97..102}"
    by (auto simp: digit_val_def Let_def split: if_splits)
  then have "?n \<in> {48,49,50,51,52,53,54,55,56,57,65,66,67,68,69,70,97,98,99,100,101,102}"
    unfolding Un_iff atLeastAtMost_iff insert_iff empty_iff by presburger
  then have "?n \<in> of_char ` set ''0123456789abcdefABCDEF''"
    by (elim insertE) simp_all
  then show ?thesis by (auto simp only: image_iff of_char_eq_iff)
qed

lemma mask_digit:
  assumes "base_digit b c" "b \<le> 16"
  shows "mask_char mk c = mk" "c \<noteq> CHR ''*''"
proof -
  from assms obtain d where d: "digit_val c = Some d" "d < 16"
    by (auto simp: base_digit_def split: option.splits)
  from digit_val_values [OF d] show "mask_char mk c = mk" by (simp only: mask_char_def if_True)
  from d show "c \<noteq> CHR ''*''" by (auto simp: digit_val_def)
qed

lemma mask_fold:
  assumes "k \<le> 4" "digit_of mk = 2 ^ k - 1"
    and "\<forall>c \<in> set pat. c = CHR ''*'' \<or> base_digit (2 ^ k) c"
    and "length x = length pat" "\<forall>c \<in> set x. base_digit (2 ^ k) c"
  shows "(foldl (\<lambda>a c. a * 2 ^ k + digit_of c) ax x
      AND foldl (\<lambda>a c. a * 2 ^ k + digit_of c) am (map (mask_char mk) pat)
      = foldl (\<lambda>a c. a * 2 ^ k + digit_of c) av (map (\<lambda>c. if c = CHR ''*'' then CHR ''0'' else c) pat))
    \<longleftrightarrow> (ax AND am = av) \<and> wild_match pat x"
  using assms(3-5)
proof (induction pat arbitrary: x ax am av)
  case Nil
  then show ?case by (simp add: wild_match_def)
next
  case (Cons p pat)
  then obtain c x' where x: "x = c # x'" by (cases x) auto
  have b16: "(2::nat) ^ k \<le> 16" using power_increasing [OF assms(1), of "2::nat"] by simp
  let ?m = "digit_of (mask_char mk p)" and ?v = "digit_of (if p = CHR ''*'' then CHR ''0'' else p)"
  have c: "digit_of c < 2 ^ k" using Cons.prems(3) x by (simp add: base_digit_less)
  have zero: "digit_of CHR ''0'' = 0" by (simp add: digit_of_def digit_val_def)
  have full: "digit_of c AND (2 ^ k - 1) = digit_of c"
    using c by (simp only: mask_eq_exp_minus_1 [symmetric] take_bit_eq_mask [symmetric]
        take_bit_nat_eq_self)
  have all: "?m < 2 ^ k \<and> ?v < 2 ^ k \<and>
    (digit_of c AND ?m = ?v \<longleftrightarrow> p = CHR ''*'' \<or> digit_of p = digit_of c)"
  proof (cases "p = CHR ''*''")
    case True
    then show ?thesis by (simp add: mask_char_def zero)
  next
    case False
    with Cons.prems(1) have p: "base_digit (2 ^ k) p" by simp
    from False mask_digit [OF p b16] assms(2) base_digit_less [OF p] full
    show ?thesis by auto
  qed
  then have dm: "?m < 2 ^ k" and dv: "?v < 2 ^ k"
    and eq: "(digit_of c AND ?m = ?v) \<longleftrightarrow> (p = CHR ''*'' \<or> digit_of p = digit_of c)"
    by blast+
  have step: "((ax * 2 ^ k + digit_of c) AND (am * 2 ^ k + ?m) = av * 2 ^ k + ?v)
      \<longleftrightarrow> (ax AND am = av) \<and> (digit_of c AND ?m = ?v)"
  proof -
    have u: "\<And>a b d e :: nat. d < 2 ^ k \<Longrightarrow> e < 2 ^ k \<Longrightarrow>
      (a * 2 ^ k + d = b * 2 ^ k + e) \<longleftrightarrow> a = b \<and> d = e"
      by (metis add.commute div_mult_self1_is_m div_mult_self3 div_less add_0
          mod_less mod_mult_self3 power_eq_0_iff zero_neq_numeral)
    have "digit_of c AND ?m < 2 ^ k" using c by (rule and_less)
    then show ?thesis unfolding and_block [OF c dm] using dv by (rule u)
  qed
  have w: "wild_match (p # pat) (c # x')
      \<longleftrightarrow> (p = CHR ''*'' \<or> digit_of p = digit_of c) \<and> wild_match pat x'"
    by (simp add: wild_match_def)
  have "(foldl (\<lambda>a c. a * 2 ^ k + digit_of c) (ax * 2 ^ k + digit_of c) x'
      AND foldl (\<lambda>a c. a * 2 ^ k + digit_of c) (am * 2 ^ k + ?m) (map (mask_char mk) pat)
      = foldl (\<lambda>a c. a * 2 ^ k + digit_of c) (av * 2 ^ k + ?v)
          (map (\<lambda>c. if c = CHR ''*'' then CHR ''0'' else c) pat))
    \<longleftrightarrow> ((ax * 2 ^ k + digit_of c) AND (am * 2 ^ k + ?m) = av * 2 ^ k + ?v) \<and> wild_match pat x'"
    using Cons.prems x by (intro Cons.IH) auto
  then show ?case unfolding x w list.map foldl_Cons step eq by (simp only: conj_assoc)
qed

text \<open>The three notations of a ternary value: prefix, bits per digit.\<close>

definition ternary_bases :: "(string \<times> nat) list" where
  "ternary_bases = [(''0x'', 4), (''0b'', 1), (''0o'', 3)]"

text \<open>C28 (equivalence). \<open>makeMask\<close> turns a pattern of digits and wildcards into a value and a mask
  of the same length such that a field matches, \<open>field AND mask = value\<close>, exactly when every
  digit of the field agrees with the pattern's digit or stands at a wildcard; for each of the
  hexadecimal, binary and octal notations.
\<close>
theorem makeMask_matches:
  assumes "(pre, k) \<in> set ternary_bases"
    and "\<forall>c \<in> set pat. c = CHR ''*'' \<or> base_digit (2 ^ k) c"
  shows "\<exists>v m. makeMask (pre @ pat) = Inr (pre @ v @ ''&&&'' @ pre @ m)
    \<and> length v = length pat \<and> length m = length pat
    \<and> (\<forall>x. length x = length pat \<and> (\<forall>c \<in> set x. base_digit (2 ^ k) c) \<longrightarrow>
        (text_val (2 ^ k) x AND text_val (2 ^ k) m = text_val (2 ^ k) v) = wild_match pat x)"
proof -
  have "\<exists>mk. makeMask (pre @ pat) = Inr (mask_text mk pre pat) \<and> digit_of mk = 2 ^ k - 1 \<and> k \<le> 4"
    using assms(1)
    by (auto simp: ternary_bases_def makeMask_def digit_of_def digit_val_def)
  then obtain mk where mk: "makeMask (pre @ pat) = Inr (mask_text mk pre pat)"
    "digit_of mk = 2 ^ k - 1" "k \<le> 4" by blast
  let ?v = "map (\<lambda>c. if c = CHR ''*'' then CHR ''0'' else c) pat"
  let ?m = "map (mask_char mk) pat"
  have "mask_text mk pre pat = pre @ ?v @ ''&&&'' @ pre @ ?m"
    by (simp add: mask_text_def replace_all_char)
  moreover have "\<forall>x. length x = length pat \<and> (\<forall>c \<in> set x. base_digit (2 ^ k) c) \<longrightarrow>
        (text_val (2 ^ k) x AND text_val (2 ^ k) ?m = text_val (2 ^ k) ?v) = wild_match pat x"
    unfolding text_val_def using mask_fold [OF mk(3,2) assms(2)] by auto
  ultimately show ?thesis using mk(1) by (intro exI [of _ ?v] exI [of _ ?m]) simp
qed

theorem makeMask_matches_witness:
  "makeMask ''0xA*'' = Inr ''0xA0&&&0xF0''
   \<and> (text_val 16 ''a7'' AND text_val 16 ''F0'' = text_val 16 ''A0'')"
proof -
  have p: "(''0x'', 4) \<in> set ternary_bases" by (simp add: ternary_bases_def)
  have d: "\<forall>c \<in> set ''A*''. c = CHR ''*'' \<or> base_digit (2 ^ 4) c"
    by (simp add: base_digit_def digit_val_def)
  obtain v m where vm: "makeMask (''0x'' @ ''A*'') = Inr (''0x'' @ v @ ''&&&'' @ ''0x'' @ m)"
    "length v = 2" "length m = 2"
    "(text_val (2 ^ 4) ''a7'' AND text_val (2 ^ 4) m = text_val (2 ^ 4) v) = wild_match ''A*'' ''a7''"
    using makeMask_matches [OF p d] by (auto simp: base_digit_def digit_val_def)
  have mm: "makeMask (''0x'' @ ''A*'') = Inr ''0xA0&&&0xF0''"
    by (simp add: makeMask_def mask_text_def mask_char_def)
  with vm(1-3) have "v = ''A0''" "m = ''F0''"
    by (auto simp: length_Suc_conv numeral_2_eq_2)
  with vm(4) mm show ?thesis by (simp add: wild_match_def digit_of_def digit_val_def)
qed

section \<open>Longest-prefix values\<close>

lemma count_list_replicate: "count_list (replicate n a) a = n"
  by (induction n) auto

lemma count_list_notin: "a \<notin> set xs \<Longrightarrow> count_list xs a = 0"
  by (simp add: count_list_0_iff)

text \<open>A longest-prefix value in one of the three notations, with its host digits
  written as wildcards at the end, becomes the value with those digits zero and a prefix length
  of the notation's bits times the number of digits given; a value that already has a slash is
  left as it is.
\<close>
theorem makeLpm_wildcards:
  assumes "(pre, k) \<in> set ternary_bases" and "set ds \<inter> {CHR ''*'', CHR ''/''} = {}"
  shows "makeLpm (pre @ ds @ replicate n (CHR ''*''))
      = Inr (pre @ ds @ replicate n (CHR ''0'') @ ''/'' @ str_of_int (int k * int (length ds)))
    \<and> makeLpm (pre @ ds @ ''/'' @ len) = Inr (pre @ ds @ ''/'' @ len)"
proof -
  let ?v = "pre @ ds @ replicate n (CHR ''*'')"
  have d: "CHR ''*'' \<notin> set ds" "CHR ''/'' \<notin> set ds" using assms(2) by auto
  have p: "length pre = 2" "CHR ''*'' \<notin> set pre" "CHR ''/'' \<notin> set pre"
    using assms(1) by (auto simp: ternary_bases_def)
  have slash: "CHR ''/'' \<notin> set ?v" using d p by auto
  have "makeLpm ?v = Inr (lpm_text (int k) ?v)"
    using assms(1) slash by (auto simp: ternary_bases_def makeLpm_def)
  moreover have "replace_all ''*'' ''0'' ?v = pre @ ds @ replicate n (CHR ''0'')"
  proof -
    have "map (\<lambda>c. if c = CHR ''*'' then CHR ''0'' else c) ds = ds"
      "map (\<lambda>c. if c = CHR ''*'' then CHR ''0'' else c) pre = pre"
      using d(1) p(2) by (auto intro: map_idI)
    then show ?thesis by (simp add: replace_all_char)
  qed
  moreover have "int (length ?v) - 2 - int (count_list ?v (CHR ''*'')) = int (length ds)"
    using d(1) p(1,2) by (simp add: count_list_append count_list_replicate count_list_notin)
  ultimately have "makeLpm ?v
      = Inr (pre @ ds @ replicate n (CHR ''0'') @ ''/'' @ str_of_int (int k * int (length ds)))"
    by (simp only: lpm_text_def Let_def mult.commute append_assoc)
  then show ?thesis by (simp add: makeLpm_def)
qed

theorem makeLpm_wildcards_witness:
  "makeLpm ''0x0a01****'' = Inr ''0x0a010000/16''"
proof -
  have s: "str_of_int 16 = ''16''" by code_simp
  have "(''0x'', 4) \<in> set ternary_bases" "set ''0a01'' \<inter> {CHR ''*'', CHR ''/''} = {}"
    by (simp_all add: ternary_bases_def)
  from makeLpm_wildcards [OF this, of 4 "[]"] show ?thesis
    by (simp add: s numeral_eq_Suc)
qed

text \<open>
  A decimal longest-prefix value gets the hexadecimal prefix twice, because
  \<open>hex()\<close> already writes it: every decimal value without a slash comes out beginning with
  \<open>0x0x\<close>, and its prefix length counts the extra characters as digits.
\<close>
theorem makeLpm_decimal_double_prefix:
  "makeLpm (str_of_nat n) = Inr (''0x0x'' @ digits_of 16 n @ (if n < 2 ^ 63 then '''' else ''L'')
     @ ''/'' @ str_of_int (4 * (int (length (digits_of 16 n)) + 2 + (if n < 2 ^ 63 then 0 else 1))))"
proof -
  have dig: "\<And>c. c \<in> set (str_of_nat n) \<Longrightarrow> is_digit c" by (rule str_of_nat_is_digit)
  have nd: "\<not> is_digit (CHR ''/'')" "\<not> is_digit (CHR ''x'')" "\<not> is_digit (CHR ''b'')"
    "\<not> is_digit (CHR ''o'')" by (simp_all add: is_digit_def digit_val_def)
  have "CHR ''/'' \<notin> set (str_of_nat n)" using dig nd by blast
  moreover have "\<not> prefix [CHR ''0'', c] (str_of_nat n)" if "\<not> is_digit c" for c
    using dig that by (fastforce simp: prefix_def)
  ultimately have m: "makeLpm (str_of_nat n) = Inr (lpm_text 4 (''0x'' @ py2_hex (int n)))"
    using nd by (simp add: makeLpm_def)
  let ?h = "digits_of 16 n"
  have "c \<noteq> CHR ''*''" if c: "c \<in> set ?h" for c
  proof -
    obtain d where "d < 16" "c = hex_digit d" using digits_of_chars [of 16 c n] c by auto
    then have "digit_val c = Some d" by (simp add: digit_val_hex_digit)
    then show ?thesis by (auto simp: digit_val_def)
  qed
  then have star: "CHR ''*'' \<notin> set ?h" by blast
  then have r: "map (\<lambda>c. if c = CHR ''*'' then CHR ''0'' else c) ?h = ?h"
    by (intro map_idI) auto
  show ?thesis
    by (simp add: m lpm_text_def py2_hex_def Let_def replace_all_char r count_list_append
        count_list_notin star algebra_simps)
qed

end
