(* ===== verification/StfRunner.thy ===== *)
theory StfRunner
  imports StfTable
begin

text \<open>
  The class \<open>RunBMV2\<close> of \<open>bmv2stf.py\<close> up to the launching of processes: reading the compiled
  program, translating STF commands into simulator commands and packets, and comparing the
  packets received with the ones expected. The state is the object's attributes and a trace of
  what it does to the outside (text written to the simulator's command line, delays, packets,
  named pipes); messages printed for the user are left out.
\<close>

section \<open>State\<close>

datatype iface = Pending string | Opened string

datatype event = CliWrite string | Sleep nat | PacketOut int string | Mkfifo string

record bmv2 =
  rb_folder :: string
  rb_jsonfile :: string
  rb_interfaces :: "(int, iface) odict"
  rb_expected :: "(int, string list) odict"
  rb_packetDelay :: nat
  rb_tables :: "bmv2_table list"
  rb_actions :: "bmv2_action list"
  rb_trace :: "event list"
  rb_obslog :: string

definition STF_SUCCESS :: int where "STF_SUCCESS = 0"
definition STF_FAILURE :: int where "STF_FAILURE = 1"

definition pcapPrefix :: string where "pcapPrefix = ''pcap''"
definition switchLogFile :: string where "switchLogFile = ''switch.log''"

definition emit :: "event \<Rightarrow> (bmv2, unit) py" where
  "emit e = modP (\<lambda>r. r\<lparr>rb_trace := rb_trace r @ [e]\<rparr>)"

definition bmv2_init :: "string \<Rightarrow> string \<Rightarrow> bmv2" where
  "bmv2_init folder jsonfile = \<lparr>rb_folder = folder, rb_jsonfile = jsonfile, rb_interfaces = [],
     rb_expected = [], rb_packetDelay = 0, rb_tables = [], rb_actions = [], rb_trace = [],
     rb_obslog = []\<rparr>"

definition pipeline_tables :: "json \<Rightarrow> int \<Rightarrow> bmv2_table list res" where
  "pipeline_tables doc n =
     bindR (jget doc ''pipelines'') (\<lambda>ps.
     bindR (jat ps n) (\<lambda>p.
     bindR (jget_list p ''tables'') (\<lambda>ts. mapR BMV2Table ts)))"

definition readJson :: "bmv2 \<Rightarrow> json \<Rightarrow> bmv2 res" where
  "readJson r doc =
     bindR (jget_list doc ''actions'') (\<lambda>as.
     bindR (mapR BMV2Action as) (\<lambda>actions.
     bindR (pipeline_tables doc 0) (\<lambda>t0.
     bindR (pipeline_tables doc 1) (\<lambda>t1.
     Inr (r\<lparr>rb_actions := rb_actions r @ actions, rb_tables := rb_tables r @ t0 @ t1\<rparr>)))))"

definition RunBMV2 :: "string \<Rightarrow> string \<Rightarrow> json \<Rightarrow> bmv2 res" where
  "RunBMV2 folder jsonfile doc = readJson (bmv2_init folder jsonfile) doc"

section \<open>File names\<close>

definition filename :: "bmv2 \<Rightarrow> string \<Rightarrow> string \<Rightarrow> string" where
  "filename r interface direction =
     rb_folder r @ ''/'' @ pcapPrefix @ interface @ ''_'' @ direction @ ''.pcap''"

definition py_basename :: "string \<Rightarrow> string" where
  "py_basename f = rev (takeWhile (\<lambda>c. c \<noteq> CHR ''/'') (rev f))"

text \<open>\<open>s.rsplit('_', 1)[0]\<close>.\<close>
definition before_last_underscore :: "string \<Rightarrow> string" where
  "before_last_underscore s = (if CHR ''_'' \<in> set s
     then rev (drop 1 (dropWhile (\<lambda>c. c \<noteq> CHR ''_'') (rev s))) else s)"

definition interface_of_filename :: "string \<Rightarrow> int res" where
  "interface_of_filename f =
     py_int (before_last_underscore (lstrip_set pcapPrefix (rstrip_set ''.pcap'' (py_basename f))))"

section \<open>STF commands\<close>

definition tableByName :: "bmv2 \<Rightarrow> string \<Rightarrow> bmv2_table res" where
  "tableByName r tableName = (case find (\<lambda>t. tbl_name t = tableName) (rb_tables r) of
     Some t \<Rightarrow> Inr t | None \<Rightarrow> Inl (Exn (''Could not find table '' @ tableName)))"

definition actionByName :: "bmv2 \<Rightarrow> bmv2_table \<Rightarrow> string \<Rightarrow> bmv2_action res" where
  "actionByName r table actionName =
     bindR (od_get (tbl_actions table) actionName) (\<lambda>i. py_index (rb_actions r) i)"

abbreviation Comma :: separator where "Comma \<equiv> Sep (CHR '','') []"
abbreviation Colon :: separator where "Colon \<equiv> Sep (CHR '':'') []"
abbreviation OpenPar :: separator where "OpenPar \<equiv> Sep (CHR ''('') []"
abbreviation Hash :: separator where "Hash \<equiv> Sep (CHR ''#'') []"

text \<open>The loop over action arguments, of both command parsers.\<close>

function parse_args :: "bmv2_action_arguments \<Rightarrow> string \<Rightarrow> bmv2_action_arguments res" where
  "parse_args actionArgs cmd =
     (if cmd = [] then Inr actionArgs
      else let (word, cmd') = nextWord Comma cmd; (k, v) = nextWord Colon word
           in bindR (aa_set actionArgs k v) (\<lambda>aa. parse_args aa cmd'))"
  by pat_completeness auto
termination
  by (relation "measure (\<lambda>(_, cmd). length cmd)") (auto dest: stf.cut_eq_progress [OF sym])

declare parse_args.simps [simp del]

definition parse_table_set_default :: "bmv2 \<Rightarrow> string \<Rightarrow> string res" where
  "parse_table_set_default r cmd0 =
     (let (tableName, cmd1) = nextWord Blank cmd0 in
     bindR (tableByName r tableName) (\<lambda>table.
     let (actionName, cmd2) = nextWord OpenPar cmd1 in
     bindR (actionByName r table actionName) (\<lambda>action.
     bindR (parse_args (makeArgsInstance action) (strip_set '')'' cmd2)) (\<lambda>actionArgs.
     let command = ''table_set_default '' @ tableName @ '' '' @ actionName in
     if aa_size actionArgs \<noteq> 0
     then bindR (aa_str actionArgs) (\<lambda>s. Inr (command @ '' => '' @ s))
     else Inr command))))"

text \<open>The loop over the rest of an \<open>add\<close>: key fields up to the word with the opening
  parenthesis, then the action's arguments.\<close>

function parse_add_keys ::
  "bmv2 \<Rightarrow> bmv2_table \<Rightarrow> table_key_instance \<Rightarrow> string
   \<Rightarrow> (table_key_instance \<times> (string \<times> bmv2_action_arguments) option) res" where
  "parse_add_keys r table key cmd =
     (if cmd = [] then Inr (key, None)
      else let (word, cmd') = nextWord Blank cmd in
        if CHR ''('' \<in> set word
        then let (actionName, arg) = nextWord OpenPar word in
          bindR (actionByName r table actionName) (\<lambda>action.
          bindR (parse_args (makeArgsInstance action) (strip_set ''()'' (arg @ cmd'))) (\<lambda>aa.
          Inr (key, Some (actionName, aa))))
        else let (k, v) = nextWord Colon word in
          bindR (tki_set key k v) (\<lambda>key'. parse_add_keys r table key' cmd'))"
  by pat_completeness auto
termination
  by (relation "measure (\<lambda>(_, _, _, cmd). length cmd)")
     (auto dest: stf.cut_eq_progress [OF sym])

declare parse_add_keys.simps [simp del]

definition parse_table_add :: "bmv2 \<Rightarrow> string \<Rightarrow> string res" where
  "parse_table_add r cmd0 =
     (let (tableName, cmd1) = nextWord Blank cmd0 in
     bindR (tableByName r tableName) (\<lambda>table.
     bindR (makeKeyInstance table) (\<lambda>key0.
     let (prio0, cmd2) = nextWord Blank cmd1;
         number = (prio0 \<noteq> [] \<and> is_digit (hd prio0));
         cmd3 = (if number then cmd2 else prio0 @ '' '' @ cmd2);
         prio1 = (if number then prio0 else []) in
     bindR (parse_add_keys r table key0 cmd3) (\<lambda>(key, act).
     bindR (if prio1 \<noteq> [] then bindR (py_int prio1) (\<lambda>p. Inr (str_of_int (10000 - p)))
            else Inr prio1) (\<lambda>prio.
     case act of None \<Rightarrow> Inl TypeError
     | Some (actionName, actionArgs) \<Rightarrow>
         bindR (tki_str key) (\<lambda>ks. bindR (aa_str actionArgs) (\<lambda>as.
         let command = ''table_add '' @ tableName @ '' '' @ actionName @ '' '' @ ks @ '' => '' @ as
         in Inr (if tbl_match_type table = ''ternary'' then command @ '' '' @ prio
                 else command))))))))"

definition do_cli_command :: "string \<Rightarrow> (bmv2, unit) py" where
  "do_cli_command cmd = thenP (emit (CliWrite (cmd @ [CHR 0x0A])))
     (modP (\<lambda>r. r\<lparr>rb_packetDelay := 1\<rparr>))"

text \<open>Writing a packet: the interface is looked up, its writer used; only \<open>ValueError\<close> (from the
  conversion of the packet text) is caught.\<close>

definition write_packet :: "int \<Rightarrow> string \<Rightarrow> (bmv2, int option) py" where
  "write_packet interface data = bindP getP (\<lambda>r.
     bindP (liftP (od_get (rb_interfaces r) interface)) (\<lambda>i.
     case i of Pending _ \<Rightarrow> raiseP AttributeError
     | Opened _ \<Rightarrow> (case HexToByte data of
           Inl _ \<Rightarrow> retP (Some STF_FAILURE)
         | Inr bytes \<Rightarrow> thenP (emit (PacketOut interface bytes))
             (thenP (modP (\<lambda>r. r\<lparr>rb_packetDelay := 0\<rparr>)) (retP None)))))"

definition add_expected :: "int \<Rightarrow> string \<Rightarrow> bmv2 \<Rightarrow> bmv2" where
  "add_expected interface data r =
     r\<lparr>rb_expected := AList.update interface
        ((case map_of (rb_expected r) interface of Some l \<Rightarrow> l | None \<Rightarrow> []) @ [data]) (rb_expected r)\<rparr>"

definition do_command :: "string \<Rightarrow> (bmv2, int option) py" where
  "do_command line =
     (let (first, cmd) = nextWord Blank line in
      if first = '''' then retP None
      else if first = ''add'' then
        bindP getP (\<lambda>r. bindP (liftP (parse_table_add r cmd)) (\<lambda>c.
          thenP (do_cli_command c) (retP None)))
      else if first = ''setdefault'' then
        bindP getP (\<lambda>r. bindP (liftP (parse_table_set_default r cmd)) (\<lambda>c.
          thenP (do_cli_command c) (retP None)))
      else if first = ''packet'' then
        let (w, d) = nextWord Blank cmd in
        bindP (liftP (py_int w)) (\<lambda>interface.
        bindP getP (\<lambda>r. thenP (emit (Sleep (rb_packetDelay r)))
          (write_packet interface (concat (split_ws d)))))
      else if first = ''expect'' then
        let (w, d) = nextWord Blank cmd in
        bindP (liftP (py_int w)) (\<lambda>interface.
        let data = concat (split_ws d) in
        if data \<noteq> [] then thenP (modP (add_expected interface data)) (retP None)
        else retP None)
      else retP None)"

text \<open>Python's order of integers is used by \<open>sorted\<close>.\<close>

definition interfaceArgs :: "bmv2 \<Rightarrow> string list" where
  "interfaceArgs r = map (\<lambda>i. ''-i '' @ str_of_int i @ ''@'' @ pcapPrefix @ str_of_int i)
     (sort (map fst (rb_interfaces r)))"

definition model_input_line :: "string \<Rightarrow> (bmv2, unit) py" where
  "model_input_line line0 =
     (let (line, _) = nextWord Hash line0; (first, cmd) = nextWord Blank line in
      if first = ''packet'' \<or> first = ''expect'' then
        let (w, _) = nextWord Blank cmd in
        bindP (liftP (py_int w)) (\<lambda>interface. bindP getP (\<lambda>r.
        if od_has (rb_interfaces r) interface then retP ()
        else let ifname = filename r (str_of_int interface) ''in'' in
          thenP (modP (\<lambda>r. r\<lparr>rb_interfaces :=
                   AList.update interface (Pending ifname) (rb_interfaces r)\<rparr>))
            (emit (Mkfifo ifname))))
      else retP ())"

definition generate_model_inputs :: "string list \<Rightarrow> (bmv2, int) py" where
  "generate_model_inputs lns = thenP (forP lns model_input_line) (retP STF_SUCCESS)"

text \<open>The second pass over the file, in \<open>run\<close>: what \<open>do_command\<close> returns is dropped.\<close>

definition stf_line :: "string \<Rightarrow> (bmv2, unit) py" where
  "stf_line line0 = (let (line, _) = nextWord Hash line0 in
     bindP (do_command line) (\<lambda>_. retP ()))"

definition do_commands :: "string list \<Rightarrow> (bmv2, unit) py" where
  "do_commands lns = forP lns stf_line"

section \<open>Comparing outputs\<close>

fun compare_chars :: "string \<Rightarrow> string \<Rightarrow> int" where
  "compare_chars [] rs = STF_SUCCESS"
| "compare_chars (e # es) [] = STF_FAILURE"
| "compare_chars (e # es) (c # cs) =
     (if e = CHR ''*'' then compare_chars es cs
      else if e \<noteq> c then STF_FAILURE else compare_chars es cs)"

definition packet_text :: "string \<Rightarrow> string" where
  "packet_text pkt = py_upper (concat (split_ws (ByteToHex pkt)))"

definition comparePacket :: "string \<Rightarrow> string \<Rightarrow> int" where
  "comparePacket expected0 received0 =
     (let received = packet_text received0; expected = py_upper (concat (split_ws expected0)) in
      if length received < length expected then STF_FAILURE
      else compare_chars expected (take (length expected) received))"

text \<open>An output file: its name, its size, and what \<open>rdpcap\<close> reads from it (\<open>None\<close> when it
  raises).\<close>

record pcap_file =
  pf_name :: string
  pf_size :: nat
  pf_packets :: "string list option"

definition observation :: "int \<Rightarrow> string list \<Rightarrow> string" where
  "observation interface pkts =
     concat (map (\<lambda>p. str_of_int interface @ '' '' @ packet_text p @ [CHR 0x0A]) pkts)"

definition read_packets :: "pcap_file \<Rightarrow> string list option" where
  "read_packets f = (if pf_size f = 0 then Some [] else pf_packets f)"

text \<open>The loop over the output files; \<open>obs\<close> says whether an observation log was asked for. The
  log is opened for writing anew for every file.\<close>

fun check_files :: "bool \<Rightarrow> pcap_file list \<Rightarrow> bmv2 \<Rightarrow> int res \<times> bmv2" where
  "check_files obs [] r =
     (Inr (if rb_expected r \<noteq> [] then STF_FAILURE else STF_SUCCESS), r)"
| "check_files obs (f # fs) r =
     (case interface_of_filename (pf_name f) of Inl e \<Rightarrow> (Inl e, r)
      | Inr interface \<Rightarrow>
        (case read_packets f of None \<Rightarrow> (Inr STF_FAILURE, r)
         | Some packets \<Rightarrow>
           let r1 = (if obs then r\<lparr>rb_obslog := observation interface packets\<rparr> else r) in
           (case map_of (rb_expected r1) interface of None \<Rightarrow> check_files obs fs r1
            | Some expected \<Rightarrow>
                if length expected \<noteq> length packets then (Inr STF_FAILURE, r1)
                else if list_ex (\<lambda>(e, p). comparePacket e p \<noteq> STF_SUCCESS) (zip expected packets)
                then (Inr STF_FAILURE, r1)
                else check_files obs fs
                  (r1\<lparr>rb_expected := AList.delete interface (rb_expected r1)\<rparr>))))"

definition checkOutputs :: "bool \<Rightarrow> pcap_file list \<Rightarrow> (bmv2, int) py" where
  "checkOutputs obs fs = check_files obs fs"

section \<open>Words\<close>

definition no_ws :: "string \<Rightarrow> bool" where "no_ws s \<longleftrightarrow> (\<forall>c \<in> set s. \<not> is_ws c)"

lemma no_ws_append [simp]: "no_ws (a @ b) \<longleftrightarrow> no_ws a \<and> no_ws b"
  by (auto simp: no_ws_def)

lemma no_ws_Cons: "no_ws (c # s) \<longleftrightarrow> \<not> is_ws c \<and> no_ws s"
  by (simp add: no_ws_def)

lemma no_ws_strip: "no_ws s \<Longrightarrow> strip_ws s = s"
  unfolding strip_ws_def by (rule strip_by_id) (cases s; simp add: no_ws_def)

lemma lstrip_no_ws: "no_ws w \<Longrightarrow> w \<noteq> [] \<Longrightarrow> lstrip_by is_ws (w @ r) = w @ r"
  by (cases w) (simp_all add: no_ws_def lstrip_by_def)

lemma strip_lstrip: "strip_ws (lstrip_by is_ws r) = strip_ws r"
  by (simp add: strip_ws_def strip_by_def lstrip_by_def)

lemma nextWord_blank:
  assumes "w \<noteq> []" "no_ws w"
  shows "nextWord Blank (w @ '' '' @ r) = (w, strip_ws r)"
proof -
  define t where "t = w @ '' '' @ r"
  have l: "lstrip_by is_ws t = t" unfolding t_def using assms by (intro lstrip_no_ws)
  have b: "is_ws (CHR '' '')" by (simp add: is_ws_def)
  have tk: "takeWhile (\<lambda>c. \<not> is_ws c) t = w"
    using assms(2) b by (simp add: t_def no_ws_def takeWhile_append2)
  have "dropWhile (\<lambda>c. \<not> is_ws c) t = '' '' @ r"
    using assms(2) b by (simp add: t_def no_ws_def dropWhile_append2)
  then have dk: "lstrip_by is_ws (dropWhile (\<lambda>c. \<not> is_ws c) t) = lstrip_by is_ws r"
    using b by (simp add: lstrip_by_def)
  have "t \<noteq> []" by (simp add: t_def)
  then have s: "split_ws1 t = (if lstrip_by is_ws r = [] then [w] else [w, lstrip_by is_ws r])"
    unfolding split_ws1_def l Let_def tk dk by simp
  have "lstrip_by is_ws r = [] \<Longrightarrow> strip_ws r = []"
    by (simp add: strip_ws_def strip_by_def rstrip_by_def)
  then show ?thesis using s no_ws_strip [OF assms(2)]
    by (auto simp: nextWord_def split_sep1_def strip_lstrip t_def [symmetric] simp del: append.simps)
qed

lemma nextWord_last: "no_ws w \<Longrightarrow> nextWord Blank w = (w, [])"
proof (cases "w = []")
  case True
  then show ?thesis by (simp add: nextWord_def split_sep1_def split_ws1_def lstrip_by_def)
next
  case False
  assume w: "no_ws w"
  have l: "lstrip_by is_ws w = w" using lstrip_no_ws [OF w False, of "[]"] by simp
  have tk: "takeWhile (\<lambda>c. \<not> is_ws c) w = w" and dk: "dropWhile (\<lambda>c. \<not> is_ws c) w = []"
    using w by (simp_all add: no_ws_def takeWhile_eq_all_conv)
  have "split_ws1 w = [w]"
    unfolding split_ws1_def l Let_def tk dk using False by (simp add: lstrip_by_def)
  then show ?thesis by (simp add: nextWord_def split_sep1_def no_ws_strip [OF w])
qed

section \<open>The command parsers read what the grammar writes\<close>

text \<open>The concrete syntax of the two table commands.\<close>

definition stf_pair :: "string \<times> string \<Rightarrow> string" where
  "stf_pair kv = fst kv @ '':'' @ snd kv"

definition stf_args :: "(string \<times> string) list \<Rightarrow> string" where
  "stf_args kvs = join '','' (map stf_pair kvs)"

definition stf_setdefault :: "string \<Rightarrow> string \<Rightarrow> (string \<times> string) list \<Rightarrow> string" where
  "stf_setdefault tn an kvs = tn @ '' '' @ an @ ''('' @ stf_args kvs @ '')''"

definition stf_keys :: "(string \<times> string) list \<Rightarrow> string" where
  "stf_keys ks = concat (map (\<lambda>kv. stf_pair kv @ '' '') ks)"

definition stf_add :: "string \<Rightarrow> nat option \<Rightarrow> (string \<times> string) list \<Rightarrow> string
   \<Rightarrow> (string \<times> string) list \<Rightarrow> string" where
  "stf_add tn prio ks an kvs = tn @ '' ''
     @ (case prio of None \<Rightarrow> [] | Some p \<Rightarrow> str_of_nat p @ '' '')
     @ stf_keys ks @ an @ ''('' @ stf_args kvs @ '')''"

text \<open>The words the grammar allows in each place.\<close>

definition name_ok :: "string \<Rightarrow> bool" where
  "name_ok s \<longleftrightarrow> s \<noteq> [] \<and> no_ws s \<and> CHR ''('' \<notin> set s \<and> \<not> is_digit (hd s)"

definition arg_ok :: "string \<times> string \<Rightarrow> bool" where
  "arg_ok kv \<longleftrightarrow> fst kv \<noteq> [] \<and> no_ws (fst kv) \<and> no_ws (snd kv)
     \<and> set (fst kv) \<inter> {CHR '':'', CHR '','', CHR ''('', CHR '')''} = {}
     \<and> set (snd kv) \<inter> {CHR '','', CHR ''('', CHR '')''} = {}"

definition key_ok :: "string \<times> string \<Rightarrow> bool" where
  "key_ok kv \<longleftrightarrow> name_ok (fst kv) \<and> CHR '':'' \<notin> set (fst kv)
     \<and> no_ws (snd kv) \<and> CHR ''('' \<notin> set (snd kv)"

text \<open>What the commands mean, on their parts.\<close>

definition set_args :: "bmv2_action \<Rightarrow> (string \<times> string) list \<Rightarrow> bmv2_action_arguments res" where
  "set_args action kvs = foldR (\<lambda>aa (k, v). aa_set aa k v) (makeArgsInstance action) kvs"

definition set_keys :: "table_key_instance \<Rightarrow> (string \<times> string) list \<Rightarrow> table_key_instance res" where
  "set_keys key ks = foldR (\<lambda>key (k, v). tki_set key k v) key ks"

definition setdefault_meaning :: "bmv2 \<Rightarrow> string \<Rightarrow> string \<Rightarrow> (string \<times> string) list \<Rightarrow> string res" where
  "setdefault_meaning r tn an kvs =
     bindR (tableByName r tn) (\<lambda>table.
     bindR (actionByName r table an) (\<lambda>action.
     bindR (set_args action kvs) (\<lambda>aa.
     if act_args action = [] then Inr (''table_set_default '' @ tn @ '' '' @ an)
     else bindR (aa_str aa) (\<lambda>s. Inr (''table_set_default '' @ tn @ '' '' @ an @ '' => '' @ s)))))"

definition add_meaning :: "bmv2 \<Rightarrow> string \<Rightarrow> nat option \<Rightarrow> (string \<times> string) list \<Rightarrow> string
   \<Rightarrow> (string \<times> string) list \<Rightarrow> string res" where
  "add_meaning r tn prio ks an kvs =
     bindR (tableByName r tn) (\<lambda>table.
     bindR (makeKeyInstance table) (\<lambda>key0.
     bindR (set_keys key0 ks) (\<lambda>key.
     bindR (actionByName r table an) (\<lambda>action.
     bindR (set_args action kvs) (\<lambda>aa.
     bindR (tki_str key) (\<lambda>k. bindR (aa_str aa) (\<lambda>a.
     Inr (''table_add '' @ tn @ '' '' @ an @ '' '' @ k @ '' => '' @ a
       @ (if tbl_match_type table = ''ternary''
          then '' '' @ (case prio of None \<Rightarrow> [] | Some p \<Rightarrow> str_of_int (10000 - int p)) else [])))))))))"

lemma not_ws_consts [simp]:
  "\<not> is_ws (CHR '':'')" "\<not> is_ws (CHR '','')" "\<not> is_ws (CHR ''('')" "\<not> is_ws (CHR '')'')"
  by (simp_all add: is_ws_def)

lemma stf_pair_no_ws: "no_ws (fst kv) \<Longrightarrow> no_ws (snd kv) \<Longrightarrow> no_ws (stf_pair kv)"
  by (simp add: stf_pair_def no_ws_Cons)

lemma nextWord_colon:
  "CHR '':'' \<notin> set (fst kv) \<Longrightarrow> no_ws (fst kv) \<Longrightarrow> no_ws (snd kv) \<Longrightarrow>
   nextWord Colon (stf_pair kv) = (fst kv, snd kv)"
  by (simp add: stf_pair_def nextWord_sep_found no_ws_strip)

lemma stf_args_no_ws: "\<forall>kv \<in> set kvs. arg_ok kv \<Longrightarrow> no_ws (stf_args kvs)"
  by (induction kvs) (auto simp: stf_args_def join_Cons arg_ok_def stf_pair_def no_ws_def)

lemma stf_args_no_par:
  "\<forall>kv \<in> set kvs. arg_ok kv \<Longrightarrow> CHR ''('' \<notin> set (stf_args kvs) \<and> CHR '')'' \<notin> set (stf_args kvs)"
  by (induction kvs) (auto simp: stf_args_def join_Cons arg_ok_def stf_pair_def)

lemma parse_args_stf_args:
  "\<forall>kv \<in> set kvs. arg_ok kv \<Longrightarrow>
   parse_args aa (stf_args kvs) = foldR (\<lambda>aa (k, v). aa_set aa k v) aa kvs"
proof (induction kvs arbitrary: aa)
  case Nil
  then show ?case by (subst parse_args.simps) (simp add: stf_args_def)
next
  case (Cons kv kvs)
  then have kv: "arg_ok kv" and rest: "\<forall>kv \<in> set kvs. arg_ok kv" by auto
  have col: "nextWord Colon (stf_pair kv) = (fst kv, snd kv)"
    using kv by (intro nextWord_colon) (auto simp: arg_ok_def)
  have pair: "no_ws (stf_pair kv)" "CHR '','' \<notin> set (stf_pair kv)" "stf_pair kv \<noteq> []"
    using kv by (auto simp: arg_ok_def stf_pair_def no_ws_def)
  have com: "nextWord Comma (stf_args (kv # kvs)) = (stf_pair kv, stf_args kvs)"
  proof (cases "kvs = []")
    case True
    then show ?thesis using pair by (simp add: stf_args_def nextWord_sep_none no_ws_strip)
  next
    case False
    then have "stf_args (kv # kvs) = stf_pair kv @ CHR '','' # stf_args kvs"
      by (simp add: stf_args_def join_Cons)
    then show ?thesis
      using nextWord_sep_found [OF pair(2)] no_ws_strip [OF pair(1)]
        no_ws_strip [OF stf_args_no_ws [OF rest]] by simp
  qed
  have "stf_args (kv # kvs) \<noteq> []" using pair(3) by (simp add: stf_args_def join_Cons)
  then show ?case
    by (subst parse_args.simps) (simp add: com col Cons.IH [OF rest] case_prod_unfold)
qed

lemma strip_set_close:
  "CHR ''('' \<notin> set s \<Longrightarrow> CHR '')'' \<notin> set s \<Longrightarrow> cs \<in> {'')'', ''()''} \<Longrightarrow> strip_set cs (s @ '')'') = s"
proof -
  assume a: "CHR ''('' \<notin> set s" "CHR '')'' \<notin> set s" "cs \<in> {'')'', ''()''}"
  then have r: "rstrip_by (\<lambda>c. c \<in> set cs) (s @ '')'') = rstrip_by (\<lambda>c. c \<in> set cs) s"
    by (intro rstrip_by_all) auto
  have "rstrip_by (\<lambda>c. c \<in> set cs) s = s"
    using a by (cases s rule: rev_cases) (auto simp: rstrip_by_def)
  with r a show ?thesis
    by (cases s) (auto simp: strip_set_def strip_by_def lstrip_by_def rstrip_by_def)
qed

lemma set_args_action: "set_args action kvs = Inr aa \<Longrightarrow> aa_action aa = action"
  unfolding set_args_def
  by (erule foldR_invariant) (auto simp: makeArgsInstance_def BMV2ActionArguments_def aa_set_def split: if_splits)

text \<open>C24 (refinement). On every \<open>setdefault\<close> command written in the grammar, the parser computes
  what the command means on its parts: it finds the table and the action, assigns the arguments
  in order and prints the simulator command, raising exactly where one of these steps raises.
\<close>
theorem parse_table_set_default_refines:
  assumes "tn \<noteq> []" "no_ws tn" "name_ok an" "\<forall>kv \<in> set kvs. arg_ok kv"
  shows "parse_table_set_default r (stf_setdefault tn an kvs) = setdefault_meaning r tn an kvs"
proof -
  let ?rest = "an @ ''('' @ stf_args kvs @ '')''"
  have rest: "no_ws ?rest"
    using assms(3) stf_args_no_ws [OF assms(4)] by (simp add: name_ok_def no_ws_Cons) (simp add: no_ws_def)
  have w1: "nextWord Blank (stf_setdefault tn an kvs) = (tn, ?rest)"
    unfolding stf_setdefault_def using nextWord_blank [OF assms(1,2)] no_ws_strip [OF rest] by simp
  have no: "no_ws (stf_args kvs @ '')'')" using rest by (simp add: no_ws_Cons)
  have w2: "nextWord OpenPar ?rest = (an, stf_args kvs @ '')'')"
    using nextWord_sep_found [of "CHR ''(''" an "stf_args kvs @ '')''"] assms(3) no_ws_strip [OF no]
    by (simp add: name_ok_def no_ws_strip)
  have st: "strip_set '')'' (stf_args kvs @ '')'') = stf_args kvs"
    using stf_args_no_par [OF assms(4)] by (intro strip_set_close) auto
  note words = w1 [simplified] w2 [simplified] st [simplified]
  show ?thesis
  proof (cases "tableByName r tn")
    case (Inr table)
    show ?thesis
    proof (cases "actionByName r table an")
      case A: (Inr action)
      show ?thesis
        by (cases "set_args action kvs")
          (auto simp: parse_table_set_default_def setdefault_meaning_def words Inr A
             parse_args_stf_args [OF assms(4)] aa_size_def Let_def simp flip: set_args_def
             dest: set_args_action)
    qed (simp add: parse_table_set_default_def setdefault_meaning_def words Inr Let_def)
  qed (simp add: parse_table_set_default_def setdefault_meaning_def words Let_def)
qed

lemma strip_ws_ends:
  "a \<noteq> [] \<Longrightarrow> \<not> is_ws (hd a) \<Longrightarrow> \<not> is_ws (last b) \<Longrightarrow> b \<noteq> [] \<Longrightarrow> strip_ws (a @ b) = a @ b"
  unfolding strip_ws_def by (rule strip_by_id) (cases a; simp)

text \<open>What follows the first key of an \<open>add\<close>.\<close>

definition stf_tail :: "(string \<times> string) list \<Rightarrow> string \<Rightarrow> (string \<times> string) list \<Rightarrow> string" where
  "stf_tail ks an kvs = stf_keys ks @ an @ ''('' @ stf_args kvs @ '')''"

lemma stf_tail_Cons: "stf_tail (kv # ks) an kvs = stf_pair kv @ '' '' @ stf_tail ks an kvs"
  by (simp add: stf_tail_def stf_keys_def)

lemma stf_call_no_ws:
  "name_ok an \<Longrightarrow> \<forall>kv \<in> set kvs. arg_ok kv \<Longrightarrow> no_ws (stf_tail [] an kvs)"
  using stf_args_no_ws [of kvs]
  by (simp add: stf_tail_def stf_keys_def name_ok_def no_ws_Cons) (simp add: no_ws_def)

lemma stf_tail_strip:
  assumes "name_ok an" "\<forall>kv \<in> set ks. key_ok kv"
  shows "strip_ws (stf_tail ks an kvs) = stf_tail ks an kvs"
proof -
  have "\<not> is_ws (hd (stf_keys ks @ an @ ''(''))"
    using assms by (cases ks; cases an)
      (auto simp: stf_keys_def stf_pair_def name_ok_def key_ok_def no_ws_def)
  then have "strip_ws ((stf_keys ks @ an @ ''('') @ (stf_args kvs @ '')'')) =
      (stf_keys ks @ an @ ''('') @ (stf_args kvs @ '')'')"
    by (intro strip_ws_ends) simp_all
  then show ?thesis by (simp add: stf_tail_def)
qed

lemma key_pair_word:
  "key_ok kv \<Longrightarrow> stf_pair kv \<noteq> [] \<and> no_ws (stf_pair kv) \<and> CHR ''('' \<notin> set (stf_pair kv)
     \<and> \<not> is_digit (hd (stf_pair kv))"
  by (cases "fst kv") (auto simp: key_ok_def name_ok_def stf_pair_def no_ws_def)

lemma parse_add_call:
  assumes "name_ok an" "\<forall>kv \<in> set kvs. arg_ok kv"
    and w: "nextWord Blank cmd = (stf_tail [] an kvs, [])" and "cmd \<noteq> []"
  shows "parse_add_keys r table key cmd =
     bindR (actionByName r table an) (\<lambda>action. bindR (set_args action kvs) (\<lambda>aa.
     Inr (key, Some (an, aa))))"
proof -
  have tail: "stf_tail [] an kvs = an @ CHR ''('' # (stf_args kvs @ '')'')"
    by (simp add: stf_tail_def stf_keys_def)
  have no: "no_ws (stf_args kvs @ '')'')"
    using stf_call_no_ws [OF assms(1,2)] by (simp add: tail no_ws_Cons)
  have w2: "nextWord OpenPar (an @ CHR ''('' # (stf_args kvs @ '')'')) = (an, stf_args kvs @ '')'')"
    using nextWord_sep_found [of "CHR ''(''" an "stf_args kvs @ '')''"] assms(1) no_ws_strip [OF no]
    by (simp add: name_ok_def no_ws_strip)
  have st: "strip_set ''()'' (stf_args kvs @ '')'') = stf_args kvs"
    using stf_args_no_par [OF assms(2)] by (intro strip_set_close) auto
  show ?thesis
    using assms(4) by (subst parse_add_keys.simps)
      (simp add: w tail w2 [simplified] st [simplified] parse_args_stf_args [OF assms(2)]
         set_args_def)
qed

lemma parse_add_keys_tail:
  assumes "name_ok an" "\<forall>kv \<in> set kvs. arg_ok kv" "\<forall>kv \<in> set ks. key_ok kv"
  shows "parse_add_keys r table key (stf_tail ks an kvs) =
     bindR (set_keys key ks) (\<lambda>key.
     bindR (actionByName r table an) (\<lambda>action. bindR (set_args action kvs) (\<lambda>aa.
     Inr (key, Some (an, aa)))))"
  using assms(3)
proof (induction ks arbitrary: key)
  case Nil
  have "nextWord Blank (stf_tail [] an kvs) = (stf_tail [] an kvs, [])"
    by (rule nextWord_last [OF stf_call_no_ws [OF assms(1,2)]])
  moreover have "stf_tail [] an kvs \<noteq> []" by (simp add: stf_tail_def)
  ultimately show ?case by (simp add: parse_add_call [OF assms(1,2)] set_keys_def)
next
  case (Cons kv ks)
  then have kv: "key_ok kv" and ks: "\<forall>kv \<in> set ks. key_ok kv" by auto
  note word = key_pair_word [OF kv]
  have w: "nextWord Blank (stf_tail (kv # ks) an kvs) = (stf_pair kv, stf_tail ks an kvs)"
    using nextWord_blank [of "stf_pair kv" "stf_tail ks an kvs"] word stf_tail_strip [OF assms(1) ks]
    by (simp add: stf_tail_Cons)
  have c: "nextWord Colon (stf_pair kv) = (fst kv, snd kv)"
    using kv by (intro nextWord_colon) (auto simp: key_ok_def name_ok_def)
  have "stf_tail (kv # ks) an kvs \<noteq> []" by (simp add: stf_tail_def)
  then show ?case
    using word by (subst parse_add_keys.simps)
      (simp add: w c Cons.IH [OF ks] set_keys_def case_prod_unfold bindR_assoc)
qed

definition prio_text :: "nat option \<Rightarrow> string" where
  "prio_text prio = (case prio of None \<Rightarrow> [] | Some p \<Rightarrow> str_of_nat p)"

text \<open>The first word of an \<open>add\<close> after the table: the priority if there is one, else the word is
  put back.\<close>

lemma add_priority_words:
  assumes "name_ok an" "\<forall>kv \<in> set kvs. arg_ok kv" "\<forall>kv \<in> set ks. key_ok kv"
    and "rest = (case prio of None \<Rightarrow> [] | Some p \<Rightarrow> str_of_nat p @ '' '') @ stf_tail ks an kvs"
  shows "\<exists>w cmd. nextWord Blank rest = (w, cmd) \<and> strip_ws rest = rest \<and>
     (if w \<noteq> [] \<and> is_digit (hd w) then prio \<noteq> None \<and> w = prio_text prio \<and> cmd = stf_tail ks an kvs
      else prio = None \<and> (parse_add_keys r table key (w @ '' '' @ cmd) =
        parse_add_keys r table key (stf_tail ks an kvs)))"
proof (cases prio)
  case (Some p)
  have d: "no_ws (str_of_nat p)"
    using str_of_nat_is_digit is_digit_not_ws by (auto simp: no_ws_def)
  have h: "is_digit (hd (str_of_nat p))" by (rule str_of_nat_is_digit [of _ p]) simp
  have "strip_ws (str_of_nat p @ ('' '' @ stf_tail ks an kvs)) = str_of_nat p @ ('' '' @ stf_tail ks an kvs)"
    using h is_digit_not_ws by (intro strip_ws_ends) (simp_all add: stf_tail_def)
  then show ?thesis
    using nextWord_blank [OF str_of_nat_not_Nil d, of "stf_tail ks an kvs"]
      stf_tail_strip [OF assms(1,3), of kvs] h
    by (simp add: assms(4) Some prio_text_def)
next
  case None
  note rest = assms(4) [unfolded None, simplified]
  show ?thesis
  proof (cases ks)
    case Nil
    have t: "no_ws (stf_tail [] an kvs)" by (rule stf_call_no_ws [OF assms(1,2)])
    have ne: "stf_tail [] an kvs \<noteq> []" "\<not> is_digit (hd (stf_tail [] an kvs))"
      using assms(1) by (simp_all add: stf_tail_def stf_keys_def name_ok_def)
    have "nextWord Blank (stf_tail [] an kvs @ '' '') = (stf_tail [] an kvs, [])"
      using nextWord_blank [OF ne(1) t, of "[]"] no_ws_strip [of "[]"] by (simp add: no_ws_def)
    then show ?thesis
      using ne nextWord_last [OF t] no_ws_strip [OF t]
      by (simp add: rest Nil None parse_add_call [OF assms(1,2) nextWord_last [OF t]]
            parse_add_call [OF assms(1,2)])
  next
    case (Cons kv ks')
    then have kv: "key_ok kv" and ks': "\<forall>kv \<in> set ks'. key_ok kv" using assms(3) by auto
    note word = key_pair_word [OF kv]
    have "nextWord Blank rest = (stf_pair kv, stf_tail ks' an kvs)"
      using nextWord_blank [of "stf_pair kv" "stf_tail ks' an kvs"] word
        stf_tail_strip [OF assms(1) ks'] by (simp add: rest Cons stf_tail_Cons)
    then show ?thesis
      using word stf_tail_strip [OF assms(1,3)] by (simp add: rest Cons None stf_tail_Cons)
  qed
qed

text \<open>C3 (refinement). On every \<open>add\<close> command written in the grammar, with or without a priority,
  the parser computes what the command means on its parts: table, key fields in order, action,
  arguments in order, the reversed priority for a ternary table; it raises exactly where one of
  these steps raises.
\<close>
theorem parse_table_add_refines:
  assumes "tn \<noteq> []" "no_ws tn" "name_ok an" "\<forall>kv \<in> set kvs. arg_ok kv" "\<forall>kv \<in> set ks. key_ok kv"
  shows "parse_table_add r (stf_add tn prio ks an kvs) = add_meaning r tn prio ks an kvs"
proof -
  define rest where
    "rest = (case prio of None \<Rightarrow> [] | Some p \<Rightarrow> str_of_nat p @ '' '') @ stf_tail ks an kvs"
  have cmd: "stf_add tn prio ks an kvs = tn @ '' '' @ rest"
    by (simp add: stf_add_def rest_def stf_tail_def)
  show ?thesis
  proof (cases "tableByName r tn")
    case (Inl e)
    then show ?thesis
      by (simp add: parse_table_add_def add_meaning_def cmd nextWord_blank [OF assms(1,2), simplified])
  next
    case T: (Inr table)
    show ?thesis
    proof (cases "makeKeyInstance table")
      case (Inl e)
      then show ?thesis
        by (simp add: parse_table_add_def add_meaning_def cmd T
              nextWord_blank [OF assms(1,2), simplified])
    next
      case K: (Inr key)
      obtain w c where w: "nextWord Blank rest = (w, c)" "strip_ws rest = rest" and
        s: "if w \<noteq> [] \<and> is_digit (hd w)
            then prio \<noteq> None \<and> w = prio_text prio \<and> c = stf_tail ks an kvs
            else prio = None \<and> (parse_add_keys r table key (w @ '' '' @ c) =
              parse_add_keys r table key (stf_tail ks an kvs))"
        using add_priority_words [OF assms(3,4,5) rest_def] by blast
      have first: "nextWord Blank (tn @ CHR '' '' # rest) = (tn, rest)"
        using nextWord_blank [OF assms(1,2), of rest] w(2) by simp
      note tail = parse_add_keys_tail [OF assms(3,4,5)]
      show ?thesis
        using s
        by (auto simp: parse_table_add_def add_meaning_def cmd first w(1) T K tail prio_text_def
              bindR_assoc split: if_splits option.splits intro!: bindR_cong)
    qed
  qed
qed

text \<open>A program with one ternary table, for examples.\<close>

definition demo_runner :: bmv2 where
  "demo_runner = (bmv2_init ''tmp'' ''x.json'')
     \<lparr>rb_tables := [\<lparr>tbl_match_type = ''ternary'', tbl_name = ''t'', tbl_key = [(''hdr.f'', ''ternary'')],
        tbl_actions = [(''a'', 0)]\<rparr>],
      rb_actions := [\<lparr>act_name = ''a'', act_args = [\<lparr>arg_name = ''x'', arg_width = JInt 8\<rparr>]\<rparr>]\<rparr>"

lemma add_demo:
  "add_meaning demo_runner ''t'' (Some 5) [(''f'', ''0x1*'')] ''a'' [(''x'', ''7'')]
     = Inr ''table_add t a 0x10&&&0xF0 => 7 9995''"
  unfolding add_meaning_def
  by (simp add: demo_runner_def bmv2_init_def tableByName_def actionByName_def makeKeyInstance_def TableKeyInstance_def default_value_def set_keys_def set_args_def od_get_def py_index_def py_position_def aa_set_def aa_str_def str_step_def makeArgsInstance_def BMV2ActionArguments_def tki_set_def tki_str_def resolve_key_def stack_key_def makeMask_def mask_text_def mask_char_def suffix_step_def suffix_def Let_def od_has_def decimal_eval)
lemma set_demo: "setdefault_meaning demo_runner ''t'' ''a'' [(''x'', ''7'')] = Inr ''table_set_default t a => 7''"
  by code_simp

theorem parse_table_add_refines_witness:
  "parse_table_add demo_runner ''t 5 f:0x1* a(x:7)'' = Inr ''table_add t a 0x10&&&0xF0 => 7 9995''"
proof -
  have c: "stf_add ''t'' (Some 5) [(''f'', ''0x1*'')] ''a'' [(''x'', ''7'')] = ''t 5 f:0x1* a(x:7)''"
    by (simp add: stf_add_def stf_keys_def stf_pair_def stf_args_def decimal_eval)
  have "parse_table_add demo_runner (stf_add ''t'' (Some 5) [(''f'', ''0x1*'')] ''a'' [(''x'', ''7'')])
     = add_meaning demo_runner ''t'' (Some 5) [(''f'', ''0x1*'')] ''a'' [(''x'', ''7'')]"
    by (rule parse_table_add_refines)
      (simp_all add: no_ws_def is_ws_def name_ok_def arg_ok_def key_ok_def is_digit_def digit_val_def)
  then show ?thesis by (simp only: c add_demo)
qed

theorem parse_table_set_default_refines_witness:
  "parse_table_set_default demo_runner ''t a(x:7)'' = Inr ''table_set_default t a => 7''"
proof -
  have c: "stf_setdefault ''t'' ''a'' [(''x'', ''7'')] = ''t a(x:7)''"
    by code_simp
  have "parse_table_set_default demo_runner (stf_setdefault ''t'' ''a'' [(''x'', ''7'')])
     = setdefault_meaning demo_runner ''t'' ''a'' [(''x'', ''7'')]"
    by (rule parse_table_set_default_refines)
      (simp_all add: no_ws_def is_ws_def name_ok_def arg_ok_def is_digit_def digit_val_def)
  then show ?thesis by (simp only: c set_demo)
qed

lemma str_of_int_chars: "c \<in> set (str_of_int i) \<Longrightarrow> c = CHR ''-'' \<or> is_digit c"
  by (auto simp: str_of_int_def str_of_nat_is_digit split: if_splits)

lemma str_of_int_not_Nil [simp]: "str_of_int i \<noteq> []"
  by (simp add: str_of_int_def)

lemma basename_path: "CHR ''/'' \<notin> set f \<Longrightarrow> py_basename (d @ ''/'' @ f) = f"
  by (simp add: py_basename_def) (subst takeWhile_append2; auto)

lemma before_last_underscore_append:
  "CHR ''_'' \<notin> set t \<Longrightarrow> before_last_underscore (s @ CHR ''_'' # t) = s"
  by (simp add: before_last_underscore_def) (subst dropWhile_append2; auto)

lemma interface_name_chars:
  "CHR ''/'' \<notin> set (str_of_int i)" "CHR ''_'' \<notin> set (str_of_int i)"
  "hd (str_of_int i) \<notin> set ''pcap''"
proof -
  have "\<And>c. c \<in> set (str_of_int i) \<Longrightarrow> c \<notin> {CHR ''/'', CHR ''_'', CHR ''p'', CHR ''c'', CHR ''a''}"
    using str_of_int_chars by (fastforce simp: is_digit_def digit_val_def)
  moreover have "hd (str_of_int i) \<in> set (str_of_int i)" by simp
  ultimately show "CHR ''/'' \<notin> set (str_of_int i)" "CHR ''_'' \<notin> set (str_of_int i)"
    "hd (str_of_int i) \<notin> set ''pcap''" by fastforce+
qed

lemma interface_names:
  assumes d: "dir \<in> {''in'', ''out''}"
  shows "interface_of_filename (filename r (str_of_int i) dir) = Inr i"
proof -
  let ?b = "''pcap'' @ (str_of_int i @ ''_'' @ dir)"
  have base: "py_basename (filename r (str_of_int i) dir) = ?b @ ''.pcap''"
    using basename_path [of "?b @ ''.pcap''" "rb_folder r"] d interface_name_chars(1)
    by (auto simp: filename_def pcapPrefix_def)
  have "rstrip_set ''.pcap'' (?b @ ''.pcap'') = rstrip_set ''.pcap'' ?b"
    unfolding rstrip_set_def by (rule rstrip_by_all) simp
  also have "\<dots> = ?b" using d by (auto simp: rstrip_set_def rstrip_by_def)
  finally have r: "rstrip_set ''.pcap'' (?b @ ''.pcap'') = ?b" .
  have "lstrip_set ''pcap'' ?b = lstrip_by (\<lambda>c. c \<in> set ''pcap'') (str_of_int i @ ''_'' @ dir)"
    unfolding lstrip_set_def by (rule lstrip_by_all)
  also have "\<dots> = str_of_int i @ ''_'' @ dir"
    using interface_name_chars(3) [of i] by (cases "str_of_int i") (auto simp: lstrip_by_def)
  finally have l: "lstrip_set pcapPrefix ?b = str_of_int i @ CHR ''_'' # dir"
    by (simp add: pcapPrefix_def)
  have "before_last_underscore (str_of_int i @ CHR ''_'' # dir) = str_of_int i"
    using d by (intro before_last_underscore_append) auto
  then show ?thesis
    unfolding interface_of_filename_def base r l by simp
qed

text \<open>The interface number is recovered from the name of every input or output
  capture file the runner names, whatever the folder and the sign of the number.
\<close>
theorem interface_of_filename_roundtrip:
  "interface_of_filename (filename r (str_of_int i) ''in'') = Inr i
   \<and> interface_of_filename (filename r (str_of_int i) ''out'') = Inr i"
  by (simp add: interface_names)

section \<open>Pacing of packets after table changes\<close>

text \<open>The state of a reader of the trace: whether a table command has been written since the last
  delay of at least a second, and whether every packet so far came with no such command owed.\<close>

fun pace_step :: "bool \<times> bool \<Rightarrow> event \<Rightarrow> bool \<times> bool" where
  "pace_step (owed, ok) (CliWrite c) = (True, ok)"
| "pace_step (owed, ok) (Sleep n) = (owed \<and> n = 0, ok)"
| "pace_step (owed, ok) (PacketOut i b) = (owed, ok \<and> \<not> owed)"
| "pace_step (owed, ok) (Mkfifo f) = (owed, ok)"

definition pace :: "event list \<Rightarrow> bool \<times> bool" where
  "pace tr = foldl pace_step (False, True) tr"

definition paced :: "event list \<Rightarrow> bool" where "paced tr \<longleftrightarrow> snd (pace tr)"

lemma pace_snoc: "pace (tr @ [e]) = pace_step (pace tr) e"
  by (simp add: pace_def)

definition pace_inv :: "bmv2 \<Rightarrow> bool" where
  "pace_inv r \<longleftrightarrow> paced (rb_trace r) \<and> (fst (pace (rb_trace r)) \<longrightarrow> rb_packetDelay r = 1)"

lemma pace_step_snd: "snd (pace_step p e) \<Longrightarrow> snd p"
  by (cases p; cases e) auto

lemma pace_mono: "snd (foldl pace_step p es) \<Longrightarrow> snd p"
proof (induction es arbitrary: p)
  case (Cons e es)
  then have "snd (pace_step p e)" by simp
  then show ?case by (rule pace_step_snd)
qed simp

lemma owed_until_sleep:
  "fst p \<Longrightarrow> \<forall>n. Sleep n \<in> set es \<longrightarrow> n = 0 \<Longrightarrow> fst (foldl pace_step p es)"
proof (induction es arbitrary: p)
  case (Cons e es)
  have "fst (pace_step p e)" using Cons.prems by (cases p; cases e) auto
  with Cons show ?case by auto
qed simp

text \<open>What \<open>paced\<close> says of a trace.\<close>

lemma paced_between:
  assumes "paced (pre @ CliWrite c # mid @ PacketOut i b # post)"
  shows "\<exists>n \<ge> 1. Sleep n \<in> set mid"
proof (rule ccontr)
  assume "\<not> ?thesis"
  then have z: "\<forall>n. Sleep n \<in> set mid \<longrightarrow> n = 0" by (auto simp: not_less_eq_eq)
  let ?p = "foldl pace_step (pace_step (pace pre) (CliWrite c)) mid"
  have "fst (pace_step (pace pre) (CliWrite c))" by (cases "pace pre") simp
  from owed_until_sleep [OF this z] have "fst ?p" .
  then have "\<not> snd (pace_step ?p (PacketOut i b))" by (cases ?p) simp
  moreover have "snd (pace_step ?p (PacketOut i b))"
    using assms pace_mono by (fastforce simp: paced_def pace_def)
  ultimately show False by blast
qed

lemma pace_inv_emit_sleep:
  "pace_inv r \<Longrightarrow> pace_inv (r\<lparr>rb_trace := rb_trace r @ [Sleep (rb_packetDelay r)]\<rparr>)
    \<and> \<not> fst (pace (rb_trace r @ [Sleep (rb_packetDelay r)]))"
  by (cases "pace (rb_trace r)") (auto simp: pace_inv_def paced_def pace_snoc)

lemma pace_inv_cli: "pace_inv r \<Longrightarrow> pace_inv (snd (do_cli_command c r))"
  by (cases "pace (rb_trace r)")
    (auto simp: do_cli_command_def emit_def py_res pace_inv_def paced_def pace_snoc)

lemma pace_inv_write:
  assumes "pace_inv r" "\<not> fst (pace (rb_trace r))"
  shows "pace_inv (snd (write_packet i d r))"
proof (cases "od_get (rb_interfaces r) i")
  case (Inr x)
  then show ?thesis using assms
    by (cases "pace (rb_trace r)"; cases x; cases "HexToByte d")
      (auto simp: write_packet_def emit_def py_res pace_inv_def paced_def pace_snoc)
qed (use assms in \<open>simp add: write_packet_def py_res\<close>)

lemma pace_inv_cli_result: "do_cli_command c r = (x, s) \<Longrightarrow> pace_inv r \<Longrightarrow> pace_inv s"
  using pace_inv_cli [of r c] by simp

lemma pace_inv_write_result:
  "write_packet i d r = (x, s) \<Longrightarrow> pace_inv r \<Longrightarrow> \<not> fst (pace (rb_trace r)) \<Longrightarrow> pace_inv s"
  using pace_inv_write [of r i d] by simp

lemma pace_inv_interface: "pace_inv (r\<lparr>rb_expected := x\<rparr>) \<longleftrightarrow> pace_inv r"
  by (simp add: pace_inv_def)

lemma pace_inv_do_command:
  assumes "pace_inv r"
  shows "pace_inv (snd (do_command l r))"
proof -
  obtain first cmd where w: "nextWord Blank l = (first, cmd)" by fastforce
  obtain a d where w2: "nextWord Blank cmd = (a, d)" by fastforce
  note defs = do_command_def w w2 py_res Let_def
  consider "first = ''add''" | "first = ''setdefault''" | "first = ''packet''" | "first = ''expect''"
    | "first \<notin> {''add'', ''setdefault'', ''packet'', ''expect''}" by blast
  then show ?thesis
  proof cases
    case 1
    then show ?thesis using assms
      by (cases "parse_table_add r cmd") (auto simp: defs split: prod.splits sum.splits elim: pace_inv_cli_result)
  next
    case 2
    then show ?thesis using assms
      by (cases "parse_table_set_default r cmd") (auto simp: defs split: prod.splits sum.splits elim: pace_inv_cli_result)
  next
    case 3
    then show ?thesis using assms pace_inv_emit_sleep [OF assms]
      by (cases "py_int a") (auto simp: defs emit_def split: prod.splits sum.splits intro!: pace_inv_write)
  next
    case 4
    then show ?thesis using assms
      by (cases "py_int a") (auto simp: defs add_expected_def pace_inv_interface)
  next
    case 5
    then show ?thesis using assms by (auto simp: defs)
  qed
qed

text \<open>C11 (invariant). However the commands of an STF file are run, and wherever an exception stops
  them, no packet is sent after a table command without a delay of at least a second between
  the two.
\<close>
theorem packets_paced: "paced (rb_trace (snd (do_commands lns (r\<lparr>rb_trace := []\<rparr>))))"
proof -
  obtain x s where d: "do_commands lns (r\<lparr>rb_trace := []\<rparr>) = (x, s)" by fastforce
  have step: "pace_inv s'" if "pace_inv t" "stf_line l t = (y, s')" for l t y s'
  proof -
    obtain a b where "nextWord Hash l = (a, b)" by fastforce
    with that pace_inv_do_command [OF that(1), of a] show ?thesis
      by (auto simp: stf_line_def py_res split: sum.splits prod.splits)
  qed
  have "pace_inv s"
    by (rule forP_invariant [where P = pace_inv and f = stf_line, OF step _ d [unfolded do_commands_def]])
      (auto simp: pace_inv_def paced_def pace_def)
  then show ?thesis by (simp add: d pace_inv_def)
qed

section \<open>What a run accepts\<close>

definition packet_matches :: "string \<Rightarrow> string \<Rightarrow> bool" where
  "packet_matches expected received \<longleftrightarrow>
     (let e = py_upper (concat (split_ws expected)); p = packet_text received in
      length e \<le> length p \<and> (\<forall>i < length e. e ! i = CHR ''*'' \<or> e ! i = p ! i))"

lemma compare_chars_iff:
  "length es = length cs \<Longrightarrow>
   compare_chars es cs = STF_SUCCESS \<longleftrightarrow> (\<forall>i < length es. es ! i = CHR ''*'' \<or> es ! i = cs ! i)"
proof (induction es cs rule: list_induct2)
  case (Cons e es c cs)
  then show ?case by (auto simp: STF_FAILURE_def STF_SUCCESS_def All_less_Suc2)
qed simp

lemma comparePacket_iff: "comparePacket e p = STF_SUCCESS \<longleftrightarrow> packet_matches e p"
  by (simp add: comparePacket_def packet_matches_def Let_def compare_chars_iff)
    (simp add: STF_FAILURE_def STF_SUCCESS_def)

definition packets_match :: "string list \<Rightarrow> string list \<Rightarrow> bool" where
  "packets_match expected received \<longleftrightarrow>
     length expected = length received \<and> list_all2 packet_matches expected received"

lemma packets_match_code:
  "packets_match es ps \<longleftrightarrow> length es = length ps
     \<and> \<not> list_ex (\<lambda>(e, p). comparePacket e p \<noteq> STF_SUCCESS) (zip es ps)"
  by (auto simp: packets_match_def list_all2_iff list_ex_iff comparePacket_iff)

text \<open>A capture file of an interface, as the simulator leaves it.\<close>

definition out_file :: "bmv2 \<Rightarrow> int \<times> string list \<Rightarrow> pcap_file" where
  "out_file r f = \<lparr>pf_name = filename r (str_of_int (fst f)) ''out'',
     pf_size = (if snd f = [] then 0 else 24 + length (concat (snd f))), pf_packets = Some (snd f)\<rparr>"

lemma read_out_file [simp]: "read_packets (out_file r f) = Some (snd f)"
  by (simp add: read_packets_def out_file_def)

lemma check_files_result:
  assumes "\<forall>f \<in> set fs. interface_of_filename (pf_name (out_file r0 f)) = Inr (fst f)"
    "distinct (map fst fs)"
  shows "fst (check_files obs (map (out_file r0) fs) r) =
    Inr (if \<forall>i es. map_of (rb_expected r) i = Some es \<longrightarrow>
              (\<exists>ps. map_of fs i = Some ps \<and> packets_match es ps)
         then STF_SUCCESS else STF_FAILURE)"
  using assms
proof (induction fs arbitrary: r)
  case Nil
  then show ?case by (cases "rb_expected r") auto
next
  case (Cons f fs)
  obtain i ps where f: "f = (i, ps)" by (cases f)
  have fresh: "map_of fs i = None" using Cons.prems(2) f by (simp add: map_of_eq_None_iff)
  have ih: "fst (check_files obs (map (out_file r0) fs) r) =
    Inr (if \<forall>i es. map_of (rb_expected r) i = Some es \<longrightarrow>
              (\<exists>ps. map_of fs i = Some ps \<and> packets_match es ps)
         then STF_SUCCESS else STF_FAILURE)" for r
    using Cons.IH Cons.prems by simp
  have name: "interface_of_filename (pf_name (out_file r0 f)) = Inr i" using Cons.prems(1) f by simp
  define r1 where "r1 = (if obs then r\<lparr>rb_obslog := observation i ps\<rparr> else r)"
  have e1: "rb_expected r1 = rb_expected r" by (simp add: r1_def)
  show ?case
  proof (cases "map_of (rb_expected r) i")
    case None
    then have step: "fst (check_files obs (map (out_file r0) (f # fs)) r) =
        fst (check_files obs (map (out_file r0) fs) r1)"
      using name by (simp add: f r1_def)
    have "(\<forall>j es. map_of (rb_expected r) j = Some es \<longrightarrow>
        (\<exists>ps. map_of (f # fs) j = Some ps \<and> packets_match es ps)) \<longleftrightarrow>
      (\<forall>j es. map_of (rb_expected r) j = Some es \<longrightarrow>
        (\<exists>ps. map_of fs j = Some ps \<and> packets_match es ps))"
      using None by (simp add: f) (metis option.distinct(1))
    then show ?thesis unfolding step ih e1 by simp
  next
    case (Some es)
    show ?thesis
    proof (cases "packets_match es ps")
      case False
      then show ?thesis using Some name
        by (auto simp: f packets_match_code STF_FAILURE_def STF_SUCCESS_def Let_def)
    next
      case True
      let ?r2 = "r1\<lparr>rb_expected := AList.delete i (rb_expected r1)\<rparr>"
      have step: "fst (check_files obs (map (out_file r0) (f # fs)) r) =
          fst (check_files obs (map (out_file r0) fs) ?r2)"
        using Some name True by (simp add: f r1_def packets_match_code)
      show ?thesis unfolding step ih e1 using Some True fresh by (auto simp: f delete_conv' e1)
    qed
  qed
qed

text \<open>C4 (functional). With the capture files of distinct interfaces, all readable, the comparison
  succeeds exactly when every interface with an expectation has a capture file whose packets
  are, in number and one by one, what was expected; it fails in every other case.
\<close>
theorem checkOutputs_correct:
  assumes "distinct (map fst fs)"
  shows "fst (checkOutputs obs (map (out_file r) fs) r) =
    Inr (if \<forall>i es. map_of (rb_expected r) i = Some es \<longrightarrow>
              (\<exists>ps. map_of fs i = Some ps \<and> packets_match es ps)
         then STF_SUCCESS else STF_FAILURE)"
  unfolding checkOutputs_def
  by (rule check_files_result [OF _ assms]) (simp add: out_file_def interface_names)

theorem checkOutputs_correct_witness:
  "fst (checkOutputs False [out_file (demo_runner\<lparr>rb_expected := [(2, [''A*''])]\<rparr>) (2, [[CHR 0xA5]])]
      (demo_runner\<lparr>rb_expected := [(2, [''A*''])]\<rparr>)) = Inr STF_SUCCESS"
proof -
  have "packet_matches ''A*'' [CHR 0xA5]" by code_simp
  then have m: "packets_match [''A*''] [[CHR 0xA5]]" by (simp add: packets_match_def)
  show ?thesis
    using checkOutputs_correct [of "[(2, [[CHR 0xA5]])]" False "demo_runner\<lparr>rb_expected := [(2, [''A*''])]\<rparr>"] m
    by simp
qed

section \<open>Every packet of the file has a writer\<close>

text \<open>The loop of \<open>run\<close> that replaces the name of each input pipe by its writer, and the
  interface a line of the file names, read as \<open>generate_model_inputs\<close> reads it.\<close>

definition open_interface :: "bmv2 \<Rightarrow> int \<Rightarrow> bmv2" where
  "open_interface r interface = (case map_of (rb_interfaces r) interface of
       Some (Pending ifname) \<Rightarrow> r\<lparr>rb_interfaces :=
         AList.update interface (Opened ifname) (rb_interfaces r)\<rparr>
     | _ \<Rightarrow> r)"

definition open_interfaces :: "bmv2 \<Rightarrow> bmv2" where
  "open_interfaces r = foldl open_interface r (sort (map fst (rb_interfaces r)))"

definition line_interface :: "string \<Rightarrow> int option" where
  "line_interface line0 = (let (line, _) = nextWord Hash line0; (first, cmd) = nextWord Blank line in
     if first = ''packet'' \<or> first = ''expect'' then
       (case py_int (fst (nextWord Blank cmd)) of Inr i \<Rightarrow> Some i | Inl _ \<Rightarrow> None)
     else None)"

lemma model_input_line_keys:
  assumes a: "model_input_line l r = (Inr x, r')"
  shows "od_has (rb_interfaces r') j \<longleftrightarrow> od_has (rb_interfaces r) j \<or> line_interface l = Some j"
proof -
  obtain line c where w: "nextWord Hash l = (line, c)" by fastforce
  obtain first cmd where w1: "nextWord Blank line = (first, cmd)" by fastforce
  obtain wd d where w2: "nextWord Blank cmd = (wd, d)" by fastforce
  show ?thesis
  proof (cases "first = ''packet'' \<or> first = ''expect''")
    case False
    then show ?thesis using a by (simp add: model_input_line_def line_interface_def w w1 py_res)
  next
    case True
    show ?thesis
    proof (cases "py_int wd")
      case (Inl e)
      then show ?thesis using a True by (simp add: model_input_line_def w w1 w2 py_res)
    next
      case (Inr i)
      then have l: "line_interface l = Some i" using True by (simp add: line_interface_def w w1 w2)
      show ?thesis
      proof (cases "od_has (rb_interfaces r) i")
        case h: True
        then show ?thesis using a True Inr by (auto simp: model_input_line_def l w w1 w2 py_res)
      next
        case False
        then show ?thesis using a True Inr
          by (auto simp: model_input_line_def l w w1 w2 py_res emit_def Let_def)
      qed
    qed
  qed
qed

lemma model_inputs_keys:
  "forP lns model_input_line r = (Inr x, r') \<Longrightarrow>
   od_has (rb_interfaces r') j \<longleftrightarrow> od_has (rb_interfaces r) j \<or> (\<exists>l \<in> set lns. line_interface l = Some j)"
proof (induction lns arbitrary: r)
  case (Cons l lns)
  obtain y r1 where m: "model_input_line l r = (y, r1)" by fastforce
  show ?case
  proof (cases y)
    case (Inl e)
    then show ?thesis using Cons.prems m by (simp add: py_res)
  next
    case (Inr u)
    then have "forP lns model_input_line r1 = (Inr x, r')" using Cons.prems m by (simp add: py_res)
    from Cons.IH [OF this] model_input_line_keys [OF m [unfolded Inr]] show ?thesis by auto
  qed
qed (simp add: py_res)

text \<open>After opening, the value of an interface is a writer.\<close>

lemma open_interface_get:
  "map_of (rb_interfaces (open_interface r i)) j =
     (if i = j then (case map_of (rb_interfaces r) j of Some (Pending f) \<Rightarrow> Some (Opened f) | x \<Rightarrow> x)
      else map_of (rb_interfaces r) j)"
  by (simp add: open_interface_def update_conv' split: option.split iface.split)

lemma open_foldl_get:
  "map_of (rb_interfaces (foldl open_interface r js)) j =
     (if j \<in> set js then (case map_of (rb_interfaces r) j of Some (Pending f) \<Rightarrow> Some (Opened f) | x \<Rightarrow> x)
      else map_of (rb_interfaces r) j)"
  by (induction js arbitrary: r)
    (simp_all add: open_interface_get split: option.split iface.split)

lemma open_interfaces_opened:
  "od_has (rb_interfaces r) j \<Longrightarrow> \<exists>f. od_get (rb_interfaces (open_interfaces r)) j = Inr (Opened f)"
proof -
  assume h: "od_has (rb_interfaces r) j"
  then have "map_of (rb_interfaces r) j \<noteq> None" by (simp add: od_has_def map_of_eq_None_iff)
  then obtain v where "map_of (rb_interfaces r) j = Some v" by blast
  then show ?thesis using h
    by (cases v) (simp_all add: od_get_def open_interfaces_def open_foldl_get od_has_def)
qed

text \<open>C30 (safety). Once the first pass over a file has succeeded and its interfaces are open, the
  second pass never fails for want of a writer: a packet for the interface of any line of the
  file is sent, or its text is rejected as not hexadecimal with the failure value; no exception
  escapes.
\<close>
theorem packets_have_writers:
  assumes "generate_model_inputs lns r = (Inr x, r1)" "l \<in> set lns" "line_interface l = Some i"
  shows "fst (write_packet i d (open_interfaces r1)) =
    (case HexToByte d of Inr bytes \<Rightarrow> Inr None | Inl e \<Rightarrow> Inr (Some STF_FAILURE))"
proof -
  have "\<exists>u. forP lns model_input_line r = (Inr u, r1)"
    using assms(1) by (auto simp: generate_model_inputs_def py_res split: sum.splits prod.splits)
  then have "od_has (rb_interfaces r1) i" using model_inputs_keys assms(2,3) by blast
  from open_interfaces_opened [OF this] show ?thesis
    by (auto simp: write_packet_def py_res emit_def split: sum.split)
qed

theorem packets_have_writers_witness:
  "fst (write_packet 3 ''0aF0'' (open_interfaces (demo_runner\<lparr>rb_interfaces := [(3, Pending ''tmp/pcap3_in.pcap'')],
      rb_trace := [Mkfifo ''tmp/pcap3_in.pcap'']\<rparr>))) = Inr None"
proof -
  have g: "generate_model_inputs [''packet 3 0aF0''] demo_runner =
    (Inr STF_SUCCESS, demo_runner\<lparr>rb_interfaces := [(3, Pending ''tmp/pcap3_in.pcap'')],
      rb_trace := [Mkfifo ''tmp/pcap3_in.pcap'']\<rparr>)" by code_simp
  have l: "line_interface ''packet 3 0aF0'' = Some 3" by code_simp
  have h: "HexToByte ''0aF0'' = Inr [CHR 0x0A, CHR 0xF0]" by code_simp
  show ?thesis using packets_have_writers [OF g _ l, of "''0aF0''"] by (simp add: h)
qed

text \<open>
  The observation log is opened for writing anew for every capture file, so with
  an observation log asked for it ends with the packets of the last file only; the earlier
  interfaces' packets are lost.
\<close>
theorem observation_log_keeps_last:
  assumes "rb_expected r = []" "interface_of_filename (pf_name f) = Inr i" "read_packets f = Some ps"
    "\<forall>g \<in> set fs. (\<exists>j. interface_of_filename (pf_name g) = Inr j) \<and> read_packets g \<noteq> None"
  shows "rb_obslog (snd (check_files True (fs @ [f]) r)) = observation i ps"
  using assms(1,4)
proof (induction fs arbitrary: r)
  case Nil
  then show ?case using assms(2,3) by simp
next
  case (Cons g fs)
  then obtain j qs where "interface_of_filename (pf_name g) = Inr j" "read_packets g = Some qs" by auto
  with Cons show ?case by simp
qed

theorem observation_log_keeps_last_witness:
  "rb_obslog (snd (check_files True [out_file demo_runner (1, [[CHR 0x0A]]), out_file demo_runner (2, [])]
     demo_runner)) = []"
proof -
  have 1: "interface_of_filename (pf_name (out_file demo_runner (2, []))) = Inr 2"
    and 2: "interface_of_filename (pf_name (out_file demo_runner (1, [[CHR 0x0A]]))) = Inr 1"
    by (simp_all add: out_file_def interface_names)
  have 0: "rb_expected demo_runner = []" by (simp add: demo_runner_def bmv2_init_def)
  show ?thesis
    using observation_log_keeps_last [OF 0 1, of "[]" "[out_file demo_runner (1, [[CHR 0x0A]])]"]
    by (simp add: 2 observation_def)
qed

end
