(* ===== verification/StfProcess.thy ===== *)
theory StfProcess
  imports StfRunner
begin

text \<open>
  The processes of \<open>bmv2stf.py\<close>: the lock directories that keep concurrent runs apart, the search
  for an executable, the run of the simulator and its command line, and the main program.
  What the operating system does (which attempt to open a pipe times out, what a process
  returns) is an argument of the definitions, a record of outcomes; what the program leaves
  behind (lock directories, running processes) is its state.
\<close>

section \<open>Lock directories\<close>

definition lockName :: "int \<Rightarrow> string" where "lockName value = ''lock_'' @ str_of_int value"

text \<open>\<open>os.makedirs\<close> and \<open>os.rmdir\<close> on the set of directories of the current folder.\<close>

definition make_dir :: "string \<Rightarrow> string list \<Rightarrow> string list res" where
  "make_dir d dirs = (if d \<in> set dirs then Inl OSError else Inr (dirs @ [d]))"

definition remove_dir :: "string \<Rightarrow> string list \<Rightarrow> string list res" where
  "remove_dir d dirs = (if d \<in> set dirs then Inr (filter (\<lambda>x. x \<noteq> d) dirs) else Inl OSError)"

definition release :: "int \<Rightarrow> string list \<Rightarrow> string list res" where
  "release value dirs = remove_dir (lockName value) dirs"

text \<open>The loop of \<open>generate\<close>: \<open>n\<close> attempts are left, \<open>rands\<close> are the numbers drawn.\<close>

fun generate_loop :: "nat \<Rightarrow> int list \<Rightarrow> string list \<Rightarrow> int option \<times> string list" where
  "generate_loop 0 rands dirs = (None, dirs)"
| "generate_loop (Suc n) [] dirs = (None, dirs)"
| "generate_loop (Suc n) (index # rands) dirs =
     (case make_dir (lockName index) dirs of
        Inr dirs' \<Rightarrow> (Some index, dirs')
      | Inl e \<Rightarrow> generate_loop n rands dirs)"

definition generate :: "int list \<Rightarrow> string list \<Rightarrow> int option \<times> string list" where
  "generate rands dirs = generate_loop 10 rands dirs"

section \<open>Processes\<close>

datatype proc = NoProc | Running | Exited int

text \<open>What becomes of a child process started in a thread of its own: it cannot be started, it
  returns in time, or it is still running at the time limit and returns once terminated.\<close>

datatype child = NotStarted | ReturnsInTime int | Overdue int

definition run_timeout :: "child \<Rightarrow> int" where
  "run_timeout c = (case c of NotStarted \<Rightarrow> - 1 | ReturnsInTime n \<Rightarrow> n | Overdue n \<Rightarrow> n)"

text \<open>The search for an executable: \<open>walk d\<close> lists the files below a directory with the time of
  last change of those that can be executed.\<close>

record file_tree =
  tree_isdir :: "string \<Rightarrow> bool"
  tree_walk :: "string \<Rightarrow> (string \<times> string list) list"
  tree_exec :: "string \<Rightarrow> bool"
  tree_mtime :: "string \<Rightarrow> nat"

definition newer :: "file_tree \<Rightarrow> string \<Rightarrow> string option \<times> nat \<Rightarrow> string \<times> string list
   \<Rightarrow> string option \<times> nat" where
  "newer t exe acc entry = (case (acc, entry) of ((rv, rv_time), (dName, fList)) \<Rightarrow>
     let n = path_join dName exe in
     if exe \<in> set fList \<and> tree_exec t n \<and> tree_mtime t n > rv_time then (Some n, tree_mtime t n)
     else (rv, rv_time))"

definition newest_in :: "file_tree \<Rightarrow> string \<Rightarrow> string \<Rightarrow> string option" where
  "newest_in t exe d = fst (foldl (newer t exe) (None, 0) (tree_walk t d))"

partial_function (option) find_exe_from :: "file_tree \<Rightarrow> string \<Rightarrow> string \<Rightarrow> string \<Rightarrow> string option" where
  "find_exe_from t dirname exe dir =
     (if length dir > 1 then
        (case (if tree_isdir t (path_join dir dirname) then newest_in t exe (path_join dir dirname) else None) of
           Some rv \<Rightarrow> Some rv
         | None \<Rightarrow> find_exe_from t dirname exe (path_dir dir))
      else Some exe)"

definition FindExe :: "file_tree \<Rightarrow> string \<Rightarrow> string \<Rightarrow> string \<Rightarrow> string option" where
  "FindExe t cwd dirname exe = find_exe_from t dirname exe cwd"

section \<open>Running the simulator\<close>

record runner =
  ru_bmv2 :: bmv2
  ru_locks :: "string list"
  ru_switch :: proc
  ru_cli :: proc

datatype open_try = Opens | AlarmLate | AlarmDead | AlarmAgain | OpenRaises pyerr

text \<open>The outcomes of a run: numbers drawn; whether the switch and the command line start; per
  interface the attempts to open its pipe; per poll of the server whether the switch is alive
  and the connection succeeds (a list that ends before an answer is ended by the alarm); the
  lines of the test file; the return codes.\<close>

record run_env =
  e_rands :: "int list"
  e_switch_start :: "unit res"
  e_opens :: "int \<Rightarrow> open_try list"
  e_polls :: "(bool \<times> bool) list"
  e_cli_start :: "unit res"
  e_lines :: "string list res"
  e_switch_rc :: int
  e_cli_rc :: int

definition on_bmv2 :: "(bmv2, 'a) py \<Rightarrow> (runner, 'a) py" where
  "on_bmv2 m = (\<lambda>s. case m (ru_bmv2 s) of (r, b) \<Rightarrow> (r, s\<lparr>ru_bmv2 := b\<rparr>))"

text \<open>The attempts to open one interface: whether it was opened.\<close>

fun open_tries :: "int \<Rightarrow> open_try list \<Rightarrow> (runner, bool) py" where
  "open_tries i [] = retP False"
| "open_tries i (a # as) = (case a of
     Opens \<Rightarrow> thenP (on_bmv2 (modP (\<lambda>r. open_interface r i))) (retP True)
   | AlarmLate \<Rightarrow> retP False
   | AlarmDead \<Rightarrow> retP False
   | AlarmAgain \<Rightarrow> open_tries i as
   | OpenRaises e \<Rightarrow> raiseP e)"

fun open_each :: "run_env \<Rightarrow> int list \<Rightarrow> (runner, bool) py" where
  "open_each env [] = retP True"
| "open_each env (i # js) = bindP (open_tries i (e_opens env i)) (\<lambda>ok.
     if ok then open_each env js else retP False)"

text \<open>\<open>None\<close> when the alarm rings first.\<close>

fun check_switch_server_ready :: "(bool \<times> bool) list \<Rightarrow> bool option" where
  "check_switch_server_ready [] = None"
| "check_switch_server_ready ((alive, connected) # ps) =
     (if \<not> alive then Some False else if connected then Some True
      else check_switch_server_ready ps)"

definition start_switch :: "run_env \<Rightarrow> (runner, unit) py" where
  "start_switch env = thenP (liftP (e_switch_start env)) (modP (\<lambda>s. s\<lparr>ru_switch := Running\<rparr>))"

definition start_cli :: "run_env \<Rightarrow> (runner, unit) py" where
  "start_cli env = thenP (liftP (e_cli_start env)) (modP (\<lambda>s. s\<lparr>ru_cli := Running\<rparr>))"

text \<open>Both processes are terminated and waited for; 15 is the signal that ends them.\<close>

definition bad_code :: "int \<Rightarrow> bool" where "bad_code rc \<longleftrightarrow> rc \<noteq> 0 \<and> rc \<noteq> - 15"

definition stop_processes :: "run_env \<Rightarrow> (runner, int) py" where
  "stop_processes env = thenP (modP (\<lambda>s. s\<lparr>ru_switch := Exited (e_switch_rc env), ru_cli := Exited (e_cli_rc env)\<rparr>))
     (retP (if bad_code (e_switch_rc env) \<or> bad_code (e_cli_rc env) then STF_FAILURE else STF_SUCCESS))"

definition run_body :: "run_env \<Rightarrow> (runner, int) py" where
  "run_body env = thenP (start_switch env) (bindP getP (\<lambda>s.
     bindP (open_each env (sort (map fst (rb_interfaces (ru_bmv2 s))))) (\<lambda>opened.
     if \<not> opened then retP STF_FAILURE
     else (case check_switch_server_ready (e_polls env) of
         None \<Rightarrow> retP STF_FAILURE
       | Some ready \<Rightarrow> thenP (start_cli env)
           (bindP (liftP (e_lines env)) (\<lambda>lns.
            thenP (on_bmv2 (do_commands lns)) (stop_processes env)))))))"

definition release_lock :: "int \<Rightarrow> (runner, unit) py" where
  "release_lock rand = (\<lambda>s. case release rand (ru_locks s) of
     Inl e \<Rightarrow> (Inl e, s) | Inr ds \<Rightarrow> (Inr (), s\<lparr>ru_locks := ds\<rparr>))"

definition run :: "run_env \<Rightarrow> (runner, int) py" where
  "run env = (\<lambda>s. case generate (e_rands env) (ru_locks s) of
     (None, ds) \<Rightarrow> (Inr STF_FAILURE, s\<lparr>ru_locks := ds\<rparr>)
   | (Some rand, ds) \<Rightarrow> finallyP (run_body env) (release_lock rand) (s\<lparr>ru_locks := ds\<rparr>))"

definition run_model :: "run_env \<Rightarrow> string list res \<Rightarrow> bool \<Rightarrow> pcap_file list \<Rightarrow> (runner, int) py" where
  "run_model env lines1 obs fs =
     bindP (liftP lines1) (\<lambda>lns. bindP (on_bmv2 (generate_model_inputs lns)) (\<lambda>result.
     if result \<noteq> STF_SUCCESS then retP result
     else bindP (run env) (\<lambda>result.
       if result \<noteq> STF_SUCCESS then retP result
       else on_bmv2 (checkOutputs obs fs))))"

section \<open>The main program\<close>

record stf_options =
  so_binary :: string
  so_verbose :: bool
  so_preserveTmp :: bool
  so_observationLog :: "string option"

definition Options :: stf_options where
  "Options = \<lparr>so_binary = [], so_verbose = False, so_preserveTmp = False, so_observationLog = None\<rparr>"

text \<open>The loop over the options; an unknown one is reported and skipped.\<close>

fun stf_options_loop :: "stf_options \<Rightarrow> string list \<Rightarrow> (stf_options \<times> string list) res" where
  "stf_options_loop opts [] = Inr (opts, [])"
| "stf_options_loop opts (a # argv) =
     (if a = [] then Inl IndexError
      else if hd a \<noteq> CHR ''-'' then Inr (opts, a # argv)
      else if a = ''-b'' then stf_options_loop (opts\<lparr>so_preserveTmp := True\<rparr>) argv
      else if a = ''-v'' then stf_options_loop (opts\<lparr>so_verbose := True\<rparr>) argv
      else if a = ''-observation-log'' then
        (case argv of [] \<Rightarrow> Inl (SystemExit 1)
         | l # argv' \<Rightarrow> stf_options_loop (opts\<lparr>so_observationLog := Some l\<rparr>) argv')
      else stf_options_loop opts argv)"

record tmp_world =
  tw_tmpdirs :: "string list"
  tw_runner :: runner

definition make_tmp :: "string \<Rightarrow> (tmp_world, unit) py" where
  "make_tmp d = modP (\<lambda>w. w\<lparr>tw_tmpdirs := tw_tmpdirs w @ [d]\<rparr>)"

definition remove_tmp :: "string \<Rightarrow> (tmp_world, unit) py" where
  "remove_tmp d = modP (\<lambda>w. w\<lparr>tw_tmpdirs := filter (\<lambda>x. x \<noteq> d) (tw_tmpdirs w)\<rparr>)"

text \<open>\<open>model\<close> is the run on the two files in the temporary folder.\<close>

definition stf_main :: "(string \<Rightarrow> bool) \<Rightarrow> string
   \<Rightarrow> (stf_options \<Rightarrow> string \<Rightarrow> string \<Rightarrow> string \<Rightarrow> (tmp_world, int) py)
   \<Rightarrow> string list \<Rightarrow> (tmp_world, int) py" where
  "stf_main isfile tmpdir model argv = (case argv of [] \<Rightarrow> raiseP IndexError
   | binary # argv1 \<Rightarrow>
     bindP (liftP (stf_options_loop (Options\<lparr>so_binary := binary\<rparr>) argv1)) (\<lambda>(opts, argv2).
     case argv2 of
       a0 # a1 # _ \<Rightarrow>
         if \<not> isfile a0 \<or> \<not> isfile a1 then retP STF_FAILURE
         else thenP (make_tmp tmpdir) (bindP (model opts tmpdir a0 a1) (\<lambda>result.
           thenP (if so_preserveTmp opts then retP () else remove_tmp tmpdir) (retP result)))
     | _ \<Rightarrow> retP STF_FAILURE))"

section \<open>Locks\<close>

text \<open>What the users of a lock table rely on: taking a lock that is free, giving back one that is
  held, and each touching no other lock.\<close>

locale lock_table =
  fixes take_lock :: "'v \<Rightarrow> 'd \<Rightarrow> 'd res" and give_back :: "'v \<Rightarrow> 'd \<Rightarrow> 'd res" and held :: "'d \<Rightarrow> 'v \<Rightarrow> bool"
  assumes take_free: "take_lock v d = Inr d' \<Longrightarrow> \<not> held d v"
    and take_held: "take_lock v d = Inr d' \<Longrightarrow> held d' u \<longleftrightarrow> u = v \<or> held d u"
    and give_held: "give_back v d = Inr d' \<Longrightarrow> held d' u \<longleftrightarrow> u \<noteq> v \<and> held d u"
    and give_works: "held d v \<Longrightarrow> \<exists>d'. give_back v d = Inr d'"
begin

text \<open>\<open>own\<close> says which lock a process believes it holds.\<close>

definition owners_ok :: "('p \<Rightarrow> 'v option) \<Rightarrow> 'd \<Rightarrow> bool" where
  "owners_ok own d \<longleftrightarrow> (\<forall>p v. own p = Some v \<longrightarrow> held d v)
     \<and> (\<forall>p q v. own p = Some v \<longrightarrow> own q = Some v \<longrightarrow> p = q)"

lemma owners_none: "owners_ok (\<lambda>p. None) d"
  by (simp add: owners_ok_def)

lemma owners_take:
  "owners_ok own d \<Longrightarrow> own p = None \<Longrightarrow> take_lock v d = Inr d' \<Longrightarrow> owners_ok (own(p \<mapsto> v)) d'"
  using take_free [of v d d'] take_held [of v d d'] by (auto simp: owners_ok_def)

lemma owners_give:
  "owners_ok own d \<Longrightarrow> own p = Some v \<Longrightarrow> give_back v d = Inr d' \<Longrightarrow> owners_ok (own(p := None)) d'"
  using give_held [of v d d'] by (auto simp: owners_ok_def)

lemma owner_gives_back: "owners_ok own d \<Longrightarrow> own p = Some v \<Longrightarrow> \<exists>d'. give_back v d = Inr d'"
  using give_works by (auto simp: owners_ok_def)

lemma owner_unique: "owners_ok own d \<Longrightarrow> own p = Some v \<Longrightarrow> own q = Some v \<Longrightarrow> p = q"
  by (auto simp: owners_ok_def)

end

lemma lockName_inj: "lockName a = lockName b \<longleftrightarrow> a = b"
proof
  assume "lockName a = lockName b"
  then have "py_int (str_of_int a) = py_int (str_of_int b)" by (simp add: lockName_def)
  then show "a = b" by simp
qed simp

interpretation dir_locks: lock_table "\<lambda>v. make_dir (lockName v)" release "\<lambda>d v. lockName v \<in> set d"
  by unfold_locales (auto simp: make_dir_def release_def remove_dir_def lockName_inj split: if_splits)

text \<open>Several runs of the program in one folder, each an attempt of one process at a time.\<close>

datatype pstate = Trying nat | Holding int | GaveUp | Released | Crashed

type_synonym lock_system = "string list \<times> (nat \<Rightarrow> pstate)"

inductive lock_step :: "lock_system \<Rightarrow> lock_system \<Rightarrow> bool" where
  Take: "ps p = Trying (Suc n) \<Longrightarrow> make_dir (lockName i) dirs = Inr dirs' \<Longrightarrow>
    lock_step (dirs, ps) (dirs', ps(p := Holding i))"
| Busy: "ps p = Trying (Suc n) \<Longrightarrow> make_dir (lockName i) dirs = Inl e \<Longrightarrow>
    lock_step (dirs, ps) (dirs, ps(p := Trying n))"
| GiveUp: "ps p = Trying 0 \<Longrightarrow> lock_step (dirs, ps) (dirs, ps(p := GaveUp))"
| Release: "ps p = Holding i \<Longrightarrow> release i dirs = Inr dirs' \<Longrightarrow>
    lock_step (dirs, ps) (dirs', ps(p := Released))"
| Crash: "ps p = Holding i \<Longrightarrow> release i dirs = Inl e \<Longrightarrow>
    lock_step (dirs, ps) (dirs, ps(p := Crashed))"

inductive_cases lock_stepE: "lock_step (dirs, ps) s'"

definition lock_start :: "string list \<Rightarrow> lock_system" where
  "lock_start dirs = (dirs, \<lambda>p. Trying 10)"

definition owned :: "(nat \<Rightarrow> pstate) \<Rightarrow> nat \<Rightarrow> int option" where
  "owned ps p = (case ps p of Holding i \<Rightarrow> Some i | _ \<Rightarrow> None)"

definition lock_inv :: "lock_system \<Rightarrow> bool" where
  "lock_inv s \<longleftrightarrow> dir_locks.owners_ok (owned (snd s)) (fst s) \<and> (\<forall>p. snd s p \<noteq> Crashed)"

lemma owned_update:
  "owned (ps(p := Holding i)) = (owned ps)(p \<mapsto> i)"
  "x \<in> {GaveUp, Released, Crashed} \<union> range Trying \<Longrightarrow> owned (ps(p := x)) = (owned ps)(p := None)"
  by (auto simp: owned_def fun_eq_iff)

lemma owned_none: "owned ps p = None \<Longrightarrow> (owned ps)(p := None) = owned ps"
  by auto

lemma lock_inv_step: "lock_step s s' \<Longrightarrow> lock_inv s \<Longrightarrow> lock_inv s'"
proof (induction rule: lock_step.induct)
  case (Take ps p n i dirs dirs')
  then show ?case
    using dir_locks.owners_take [of "owned ps" dirs p i dirs']
    by (auto simp: lock_inv_def owned_update) (auto simp: owned_def)
next
  case (Busy ps p n i dirs e)
  then show ?case by (auto simp: lock_inv_def owned_update owned_none owned_def [of ps p])
next
  case (GiveUp ps p dirs)
  then show ?case by (auto simp: lock_inv_def owned_update owned_none owned_def [of ps p])
next
  case (Release ps p i dirs dirs')
  then have "owned ps p = Some i" by (simp add: owned_def)
  with Release show ?case using dir_locks.owners_give [of "owned ps" dirs p i dirs']
    by (auto simp: lock_inv_def owned_update)
next
  case (Crash ps p i dirs e)
  then have "owned ps p = Some i" by (simp add: owned_def)
  with Crash show ?case using dir_locks.owner_gives_back [of "owned ps" dirs p i]
    by (auto simp: lock_inv_def)
qed

text \<open>C1 (safety). However the attempts and releases of any number of concurrent runs interleave
  in a folder, whatever lock directories were there before: no two runs hold the same number, and
  no release ever fails.
\<close>
theorem lock_mutual_exclusion:
  assumes "lock_step\<^sup>*\<^sup>* (lock_start dirs) (dirs', ps)"
  shows "(ps p = Holding i \<and> ps q = Holding i \<longrightarrow> p = q) \<and> ps p \<noteq> Crashed"
proof -
  have "lock_inv (lock_start dirs)"
  proof -
    have "owned (\<lambda>p. Trying 10) = (\<lambda>p. None)" by (simp add: owned_def fun_eq_iff)
    then show ?thesis using dir_locks.owners_none by (simp add: lock_inv_def lock_start_def)
  qed
  with assms have "lock_inv (dirs', ps)"
    by (induction rule: rtranclp_induct) (auto intro: lock_inv_step)
  then show ?thesis using dir_locks.owner_unique [of "owned ps" dirs' p i q]
    by (auto simp: lock_inv_def owned_def)
qed

theorem lock_mutual_exclusion_witness:
  "\<exists>dirs ps. lock_step\<^sup>*\<^sup>* (lock_start []) (dirs, ps) \<and> ps (0::nat) = Holding 3 \<and> ps 1 \<noteq> Holding 3
    \<and> ps 0 \<noteq> Crashed"
proof -
  have "lock_step (lock_start []) ([lockName 3], (\<lambda>p. Trying 10)(0 := Holding 3))"
    unfolding lock_start_def by (rule lock_step.Take [where n = 9]) (simp_all add: make_dir_def)
  then have "lock_step\<^sup>*\<^sup>* (lock_start []) ([lockName 3], (\<lambda>p. Trying 10)(0 := Holding 3))" by blast
  moreover have "((\<lambda>p. Trying 10)(0 := Holding 3)) (0::nat) = Holding 3" by simp
  ultimately show ?thesis using lock_mutual_exclusion [of "[]" "[lockName 3]" "(\<lambda>p. Trying 10)(0 := Holding 3)" 0 3 1]
    by (metis zero_neq_one)
qed

text \<open>The function of the code is a path of these steps.\<close>

lemma step_path: "lock_step s s' \<Longrightarrow> lock_step\<^sup>*\<^sup>* s s'"
  by (rule r_into_rtranclp)

lemma generate_loop_steps:
  "generate_loop n rands dirs = (r, dirs') \<Longrightarrow> n \<le> length rands \<Longrightarrow> ps p = Trying n \<Longrightarrow>
   lock_step\<^sup>*\<^sup>* (dirs, ps) (dirs', ps(p := (case r of Some i \<Rightarrow> Holding i | None \<Rightarrow> GaveUp)))"
proof (induction n rands dirs arbitrary: ps rule: generate_loop.induct)
  case (1 rands dirs)
  then have r: "r = None" "dirs' = dirs" by simp_all
  then show ?case using step_path [OF lock_step.GiveUp [of ps p dirs]] 1(3) unfolding r option.case by blast
next
  case (3 n i rands dirs)
  show ?case
  proof (cases "make_dir (lockName i) dirs")
    case (Inr ds)
    then have r: "r = Some i" "dirs' = ds" using "3.prems"(1) by simp_all
    show ?thesis
      unfolding r option.case using step_path [OF lock_step.Take [of ps p n i dirs ds]] "3.prems"(3) Inr by blast
  next
    case (Inl e)
    let ?ps = "ps(p := Trying n)"
    have "lock_step (dirs, ps) (dirs, ?ps)" using "3.prems"(3) Inl by (rule lock_step.Busy)
    moreover have "lock_step\<^sup>*\<^sup>* (dirs, ?ps) (dirs', ?ps(p := (case r of Some i \<Rightarrow> Holding i | None \<Rightarrow> GaveUp)))"
      by (rule "3.IH" [OF Inl]) (use "3.prems" Inl in simp_all)
    ultimately show ?thesis unfolding fun_upd_upd by (rule converse_rtranclp_into_rtranclp)
  qed
qed auto

text \<open>C27 (refinement). What one call of \<open>generate\<close> does, with its ten draws, is a path of the
  concurrent system in which only that run moves: it ends holding the number returned, or
  having given up.
\<close>
theorem generate_refines:
  assumes "generate rands dirs = (r, dirs')" "10 \<le> length rands" "ps p = Trying 10"
  shows "lock_step\<^sup>*\<^sup>* (dirs, ps) (dirs', ps(p := (case r of Some i \<Rightarrow> Holding i | None \<Rightarrow> GaveUp)))"
  using generate_loop_steps assms unfolding generate_def by blast

theorem generate_refines_witness:
  "lock_step\<^sup>*\<^sup>* ([lockName 7], \<lambda>p. Trying 10) ([lockName 7, lockName 8], (\<lambda>p. Trying 10)(0 := Holding 8))"
proof -
  have g: "generate [7, 8, 0, 0, 0, 0, 0, 0, 0, 0] [lockName 7] = (Some 8, [lockName 7, lockName 8])"
    by code_simp
  from generate_refines [OF g, of "\<lambda>p. Trying 10" 0] show ?thesis by simp
qed

section \<open>Runs\<close>

lemma on_bmv2_parts: "on_bmv2 m s = (r, s') \<Longrightarrow> ru_locks s' = ru_locks s \<and> ru_switch s' = ru_switch s \<and> ru_cli s' = ru_cli s"
  by (auto simp: on_bmv2_def split: prod.splits)

lemma open_tries_parts:
  "open_tries i as s = (r, s') \<Longrightarrow> ru_locks s' = ru_locks s \<and> ru_switch s' = ru_switch s \<and> ru_cli s' = ru_cli s"
  by (induction as arbitrary: s) (auto simp: py_res on_bmv2_def split: open_try.splits)

lemma open_each_parts:
  "open_each env js s = (r, s') \<Longrightarrow> ru_locks s' = ru_locks s \<and> ru_switch s' = ru_switch s \<and> ru_cli s' = ru_cli s"
proof (induction js arbitrary: s)
  case (Cons i js)
  obtain b t where o: "open_tries i (e_opens env i) s = (b, t)" by fastforce
  from open_tries_parts [OF o] Cons o show ?case
    by (cases b) (auto simp: py_res split: if_splits)
qed (simp add: py_res)

lemma run_body_locks: "run_body env s = (r, s') \<Longrightarrow> ru_locks s' = ru_locks s"
proof (cases "e_switch_start env")
  case (Inl e)
  then show "run_body env s = (r, s') \<Longrightarrow> ?thesis" by (auto simp: run_body_def start_switch_def py_res)
next
  case (Inr u)
  assume b: "run_body env s = (r, s')"
  let ?s = "s\<lparr>ru_switch := Running\<rparr>"
  obtain ok t where o: "open_each env (sort (map fst (rb_interfaces (ru_bmv2 s)))) ?s = (ok, t)" by fastforce
  note t = open_each_parts [OF o]
  show ?thesis
  proof (cases "e_lines env")
    case (Inl e)
    then show ?thesis using b Inr o t
      by (auto simp: run_body_def start_switch_def start_cli_def py_res split: sum.splits option.splits if_splits prod.splits)
  next
    case L: (Inr lns)
    obtain q t2 where d: "on_bmv2 (do_commands lns) (t\<lparr>ru_cli := Running\<rparr>) = (q, t2)" by fastforce
    from on_bmv2_parts [OF d] b Inr o t d L show ?thesis
      by (auto simp: run_body_def start_switch_def start_cli_def stop_processes_def py_res
        split: sum.splits option.splits if_splits prod.splits)
  qed
qed

lemma generate_loop_adds:
  "generate_loop n rands dirs = (Some i, ds) \<Longrightarrow> lockName i \<notin> set dirs \<and> ds = dirs @ [lockName i]"
  by (induction n rands dirs rule: generate_loop.induct) (auto simp: make_dir_def split: if_splits)

lemma generate_loop_none: "generate_loop n rands dirs = (None, ds) \<Longrightarrow> ds = dirs"
  by (induction n rands dirs rule: generate_loop.induct) (auto simp: make_dir_def split: if_splits)

text \<open>C2 (safety). A run gives back its lock on every path, failures and exceptions of any part
  of it included: afterwards the lock directories are the ones there were before, and releasing
  never turns a result into an exception.
\<close>
theorem run_releases_lock:
  "ru_locks (snd (run env s)) = ru_locks s
   \<and> (\<forall>i ds. generate (e_rands env) (ru_locks s) = (Some i, ds) \<longrightarrow>
       fst (run env s) = fst (run_body env (s\<lparr>ru_locks := ds\<rparr>)))"
proof (cases "generate (e_rands env) (ru_locks s)")
  case (Pair r ds)
  show ?thesis
  proof (cases r)
    case None
    then show ?thesis using Pair generate_loop_none by (auto simp: run_def generate_def)
  next
    case (Some i)
    then have l: "lockName i \<notin> set (ru_locks s)" "ds = ru_locks s @ [lockName i]"
      using Pair generate_loop_adds by (auto simp: generate_def)
    obtain q t where b: "run_body env (s\<lparr>ru_locks := ds\<rparr>) = (q, t)" by fastforce
    have "ru_locks t = ds" using run_body_locks [OF b] by simp
    moreover have "filter (\<lambda>x. x \<noteq> lockName i) (ru_locks s) = ru_locks s"
      using l(1) by (auto simp: filter_id_conv)
    ultimately show ?thesis using Pair Some b l
      by (simp add: run_def finallyP_apply release_lock_def release_def remove_dir_def)
  qed
qed

theorem run_releases_lock_witness:
  "ru_locks (snd (run \<lparr>e_rands = [4], e_switch_start = Inl OSError, e_opens = (\<lambda>i. []), e_polls = [],
      e_cli_start = Inr (), e_lines = Inr [], e_switch_rc = 0, e_cli_rc = 0\<rparr>
      \<lparr>ru_bmv2 = demo_runner, ru_locks = [''lock_1''], ru_switch = NoProc, ru_cli = NoProc\<rparr>)) = [''lock_1'']"
  using run_releases_lock by simp

text \<open>
  When an input pipe cannot be opened in time the run reports failure but the
  simulator it started is left running: only the path to the very end terminates it.
\<close>
theorem timeout_leaves_switch_running:
  assumes "generate (e_rands env) (ru_locks s) = (Some rand, ds)" "e_switch_start env = Inr ()"
    "sort (map fst (rb_interfaces (ru_bmv2 s))) = i # js" "e_opens env i = AlarmLate # as"
  shows "fst (run env s) = Inr STF_FAILURE \<and> ru_switch (snd (run env s)) = Running"
proof -
  have l: "ds = ru_locks s @ [lockName rand]" using assms(1) generate_loop_adds by (auto simp: generate_def)
  show ?thesis using assms
    by (simp add: run_def run_body_def start_switch_def py_res finallyP_apply release_lock_def l
      release_def remove_dir_def)
qed

theorem timeout_leaves_switch_running_witness:
  "ru_switch (snd (run \<lparr>e_rands = [4], e_switch_start = Inr (), e_opens = (\<lambda>i. [AlarmLate]), e_polls = [],
      e_cli_start = Inr (), e_lines = Inr [], e_switch_rc = 0, e_cli_rc = 0\<rparr>
      \<lparr>ru_bmv2 = demo_runner\<lparr>rb_interfaces := [(1, Pending ''f'')]\<rparr>, ru_locks = [], ru_switch = NoProc, ru_cli = NoProc\<rparr>))
   = Running"
proof -
  have g: "generate [4] [] = (Some 4, [lockName 4])" by code_simp
  show ?thesis
    by (rule timeout_leaves_switch_running [where i = 1 and js = "[]" and as = "[]", THEN conjunct2]) (simp_all add: g)
qed

text \<open>A run succeeds only if it went to the end: both processes were started and
  have ended, each with return code 0 or by the signal that ends it.
\<close>
theorem run_success_means_clean_exit:
  assumes "fst (run env s) = Inr STF_SUCCESS"
  shows "ru_switch (snd (run env s)) = Exited (e_switch_rc env) \<and> ru_cli (snd (run env s)) = Exited (e_cli_rc env)
    \<and> e_switch_rc env \<in> {0, - 15} \<and> e_cli_rc env \<in> {0, - 15}"
proof -
  obtain r ds where g: "generate (e_rands env) (ru_locks s) = (r, ds)" by fastforce
  then obtain rand where rand: "r = Some rand"
    using assms by (cases r) (auto simp: run_def STF_FAILURE_def STF_SUCCESS_def)
  obtain q t where b: "run_body env (s\<lparr>ru_locks := ds\<rparr>) = (q, t)" by fastforce
  have l: "ru_locks t = ds" "lockName rand \<in> set ds"
    using run_body_locks [OF b] generate_loop_adds [of 10 "e_rands env" "ru_locks s" rand ds] g rand
    by (auto simp: generate_def)
  have run: "run env s = (q, t\<lparr>ru_locks := filter (\<lambda>x. x \<noteq> lockName rand) ds\<rparr>)"
    using g rand b l by (simp add: run_def finallyP_apply release_lock_def release_def remove_dir_def)
  then have q: "q = Inr STF_SUCCESS" using assms by simp
  have "ru_switch t = Exited (e_switch_rc env) \<and> ru_cli t = Exited (e_cli_rc env)
    \<and> \<not> bad_code (e_switch_rc env) \<and> \<not> bad_code (e_cli_rc env)"
    using b unfolding q run_body_def start_switch_def start_cli_def stop_processes_def
    by (auto simp: py_res STF_FAILURE_def STF_SUCCESS_def split: sum.splits option.splits if_splits prod.splits)
  then show ?thesis by (auto simp: run bad_code_def)
qed

theorem run_success_means_clean_exit_witness:
  "ru_switch (snd (run \<lparr>e_rands = [4], e_switch_start = Inr (), e_opens = (\<lambda>i. []), e_polls = [(True, True)],
      e_cli_start = Inr (), e_lines = Inr [], e_switch_rc = - 15, e_cli_rc = 0\<rparr>
      \<lparr>ru_bmv2 = demo_runner, ru_locks = [], ru_switch = NoProc, ru_cli = NoProc\<rparr>)) = Exited (- 15)"
proof -
  let ?env = "\<lparr>e_rands = [4], e_switch_start = Inr (), e_opens = (\<lambda>i. []), e_polls = [(True, True)],
      e_cli_start = Inr (), e_lines = Inr [], e_switch_rc = - 15, e_cli_rc = 0\<rparr>"
  let ?s = "\<lparr>ru_bmv2 = demo_runner, ru_locks = [], ru_switch = NoProc, ru_cli = NoProc\<rparr>"
  have g: "generate [4] [] = (Some 4, [lockName 4])" by code_simp
  have i: "rb_interfaces demo_runner = []" by (simp add: demo_runner_def bmv2_init_def)
  have "fst (run ?env ?s) = Inr STF_SUCCESS"
    by (simp add: run_def g run_body_def start_switch_def start_cli_def stop_processes_def bad_code_def i py_res
      do_commands_def on_bmv2_def finallyP_apply release_lock_def release_def remove_dir_def)
  from run_success_means_clean_exit [OF this] show ?thesis by simp
qed

section \<open>Finding the executable\<close>

lemma split_last_part: "p = rev (dropWhile q (rev p)) @ rev (takeWhile q (rev p))"
proof -
  have "rev (takeWhile q (rev p) @ dropWhile q (rev p)) = p" unfolding takeWhile_dropWhile_id by simp
  then show ?thesis unfolding rev_append by (rule sym)
qed

text \<open>The path up to its last slash.\<close>

definition slash_head :: "string \<Rightarrow> string" where
  "slash_head p = rev (dropWhile (\<lambda>c. c \<noteq> CHR ''/'') (rev p))"

lemma slash_head_prefix: "\<exists>r. p = slash_head p @ r"
  unfolding slash_head_def by (rule exI, rule split_last_part)

lemma slash_head_last: "slash_head p \<noteq> [] \<Longrightarrow> last (slash_head p) = CHR ''/''"
  using hd_dropWhile [of "\<lambda>c. c \<noteq> CHR ''/''" "rev p"] by (simp add: slash_head_def last_rev)

lemma rstrip_prefix: "\<exists>r. h = rstrip_set cs h @ r"
  unfolding rstrip_set_def rstrip_by_def by (rule exI, rule split_last_part)

lemma path_dir_cases:
  "path_dir p = (if \<forall>c \<in> set (slash_head p). c = CHR ''/'' then slash_head p else rstrip_set ''/'' (slash_head p))"
  unfolding path_dir_def slash_head_def Let_def by (rule refl)

lemma path_dir_prefix: "\<exists>r. p = path_dir p @ r"
proof -
  define h where "h = slash_head p"
  obtain r where h: "p = h @ r" unfolding h_def using slash_head_prefix [of p] by (elim exE)
  obtain r' where s: "h = rstrip_set ''/'' h @ r'" using rstrip_prefix [of h "''/''"] by (elim exE)
  define k where "k = rstrip_set ''/'' h"
  have kp: "p = k @ (r' @ r)" using h s unfolding k_def [symmetric] by simp
  have "path_dir p = h \<or> path_dir p = k" unfolding path_dir_cases h_def k_def by simp
  then show ?thesis
  proof
    assume "path_dir p = h"
    then show ?thesis using h by (intro exI [of _ r]) simp
  next
    assume "path_dir p = k"
    then show ?thesis using kp by (intro exI [of _ "r' @ r"]) simp
  qed
qed

lemma rstrip_slash_shorter: "h \<noteq> [] \<Longrightarrow> last h = CHR ''/'' \<Longrightarrow> length (rstrip_set ''/'' h) < length h"
proof -
  assume "h \<noteq> []" "last h = CHR ''/''"
  then obtain g where g: "h = g @ [CHR ''/'']" by (cases h rule: rev_cases) auto
  have "rstrip_set ''/'' h = rstrip_set ''/'' g"
    unfolding g rstrip_set_def by (rule rstrip_by_all) simp
  moreover have "length (rstrip_set ''/'' g) \<le> length g" unfolding rstrip_set_def by (rule length_rstrip_by)
  ultimately show ?thesis by (simp add: g)
qed

lemma path_dir_not_id: "1 < length p \<Longrightarrow> take 2 p \<noteq> ''//'' \<Longrightarrow> path_dir p \<noteq> p"
proof
  assume p: "1 < length p" "take 2 p \<noteq> ''//''" and e: "path_dir p = p"
  define h where "h = slash_head p"
  obtain r where h: "p = h @ r" unfolding h_def using slash_head_prefix [of p] by (elim exE)
  show False
  proof (cases "\<forall>c \<in> set h. c = CHR ''/''")
    case True
    then have "path_dir p = h" unfolding path_dir_cases h_def by (rule if_P)
    then have a: "\<forall>c \<in> set p. c = CHR ''/''" using e True by (simp only:)
    obtain x q where x: "p = x # q" using p(1) by (cases p) simp_all
    obtain y t where y: "q = y # t" using p(1) x by (cases q) simp_all
    have "x = CHR ''/''" "y = CHR ''/''" using a x y by simp_all
    then show False using p(2) x y by simp
  next
    case False
    then have "path_dir p = rstrip_set ''/'' h" unfolding path_dir_cases h_def by (rule if_not_P)
    moreover have "h \<noteq> []" using False by auto
    moreover then have "last h = CHR ''/''" unfolding h_def by (rule slash_head_last)
    ultimately have "length (path_dir p) < length h" using rstrip_slash_shorter [of h] by metis
    moreover have "length h \<le> length p" using arg_cong [OF h, of length] by simp
    ultimately show False using arg_cong [OF e, of length] by linarith
  qed
qed

lemma path_dir_shorter:
  assumes "1 < length p" "take 2 p \<noteq> ''//''"
  shows "length (path_dir p) < length p \<and> take 2 (path_dir p) \<noteq> ''//''"
proof -
  define d where "d = path_dir p"
  obtain r where r: "p = d @ r" unfolding d_def using path_dir_prefix [of p] by (elim exE)
  have "d \<noteq> p" unfolding d_def using assms by (rule path_dir_not_id)
  then have "r \<noteq> []" using r by simp
  then have "length d < length p" by (simp add: r)
  moreover have "take 2 d \<noteq> ''//''"
  proof
    assume t: "take 2 d = ''//''"
    then have "length (take 2 d) = 2" by simp
    then have "2 - length d = 0" by simp
    then have "take 2 p = ''//''" using t by (simp add: r)
    then show False using assms(2) by simp
  qed
  ultimately show ?thesis unfolding d_def by blast
qed

text \<open>The search for an executable through the parents of a folder ends for every
  path that does not start with two slashes, whatever the file system holds.
\<close>
theorem FindExe_returns:
  assumes "take 2 cwd \<noteq> ''//''"
  shows "\<exists>rv. FindExe t cwd dirname exe = Some rv"
  unfolding FindExe_def using assms
proof (induction "length cwd" arbitrary: cwd rule: less_induct)
  case less
  show ?case
  proof (cases "1 < length cwd")
    case True
    note s = path_dir_shorter [OF True less.prems]
    with less.hyps [of "path_dir cwd"] True show ?thesis
      by (subst find_exe_from.simps) (auto split: option.splits)
  qed (subst find_exe_from.simps; simp)
qed

definition demo_tree :: file_tree where
  "demo_tree = \<lparr>tree_isdir = (\<lambda>d. d = ''/a/bm''),
     tree_walk = (\<lambda>d. [(''/a/bm'', [''x'']), (''/a/bm/old'', [''x''])]), tree_exec = (\<lambda>f. True),
     tree_mtime = (\<lambda>f. if f = ''/a/bm/x'' then 7 else 3)\<rparr>"

theorem FindExe_returns_witness: "\<exists>rv. FindExe demo_tree ''/a/b/c'' ''bm'' ''x'' = Some rv"
  by (rule FindExe_returns) simp

text \<open>The executables under a folder, and the one chosen.\<close>

definition candidates :: "file_tree \<Rightarrow> string \<Rightarrow> (string \<times> string list) list \<Rightarrow> string list" where
  "candidates t exe es = filter (tree_exec t) (map (\<lambda>(d, fs). path_join d exe) (filter (\<lambda>(d, fs). exe \<in> set fs) es))"

lemma newer_fold:
  "foldl (newer t exe) (rv, m) es = (rv', m') \<Longrightarrow>
   m \<le> m' \<and> (\<forall>c \<in> set (candidates t exe es). tree_mtime t c \<le> m')
   \<and> (rv' = rv \<and> m' = m \<or> (\<exists>c \<in> set (candidates t exe es). rv' = Some c \<and> tree_mtime t c = m' \<and> m < m'))"
proof (induction es arbitrary: rv m)
  case (Cons e es)
  obtain d fs where e: "e = (d, fs)" by fastforce
  obtain rv1 m1 where n: "newer t exe (rv, m) e = (rv1, m1)" by fastforce
  have f: "foldl (newer t exe) (rv1, m1) es = (rv', m')" using Cons.prems n by simp
  from Cons.IH [OF f] n show ?case
    by (auto simp: e newer_def candidates_def Let_def split: if_splits)
qed (simp add: candidates_def)

text \<open>The executable chosen under a folder is one of the executables there and no
  other is newer; none is chosen only if all there are (none, or of time zero).
\<close>
theorem newest_in_correct:
  "case newest_in t exe d of
     Some rv \<Rightarrow> rv \<in> set (candidates t exe (tree_walk t d)) \<and>
       list_all (\<lambda>c. tree_mtime t c \<le> tree_mtime t rv) (candidates t exe (tree_walk t d))
   | None \<Rightarrow> list_all (\<lambda>c. tree_mtime t c = 0) (candidates t exe (tree_walk t d))"
proof -
  obtain rv m where f: "foldl (newer t exe) (None, 0) (tree_walk t d) = (rv, m)" by fastforce
  from newer_fold [OF f] show ?thesis
    by (auto simp: newest_in_def f list_all_iff split: option.split)
qed

text \<open>
  The failure that \<open>do_command\<close> returns for a packet that is not hexadecimal is
  dropped: the packet is skipped, the line succeeds, and the run goes on.
\<close>
theorem bad_packet_ignored:
  assumes "nextWord Hash l = (cmd, c)" "nextWord Blank cmd = (''packet'', args)"
    "nextWord Blank args = (w, d)" "py_int w = Inr i" "HexToByte (concat (split_ws d)) = Inl e"
    "od_get (rb_interfaces r) i = Inr (Opened f)"
  shows "fst (do_command cmd r) = Inr (Some STF_FAILURE) \<and> fst (stf_line l r) = Inr ()
    \<and> rb_trace (snd (stf_line l r)) = rb_trace r @ [Sleep (rb_packetDelay r)]"
  using assms by (simp add: stf_line_def do_command_def write_packet_def emit_def py_res)

theorem bad_packet_ignored_witness:
  "fst (stf_line ''packet 1 zz'' (demo_runner\<lparr>rb_interfaces := [(1, Opened ''f'')]\<rparr>)) = Inr ()"
proof -
  have 1: "nextWord Hash ''packet 1 zz'' = (''packet 1 zz'', [])" by code_simp
  have 2: "nextWord Blank ''packet 1 zz'' = (''packet'', ''1 zz'')" by code_simp
  have 3: "nextWord Blank ''1 zz'' = (''1'', ''zz'')" by code_simp
  have 4: "py_int ''1'' = Inr 1" by code_simp
  have 5: "HexToByte (concat (split_ws ''zz'')) = Inl ValueError" by code_simp
  show ?thesis using bad_packet_ignored [OF 1 2 3 4 5, of "demo_runner\<lparr>rb_interfaces := [(1, Opened ''f'')]\<rparr>" "''f''"]
    by (simp add: od_get_def)
qed

end
