(* ===== verification/P4Compiler.thy ===== *)
theory P4Compiler
  imports PyJson "HOL-Library.Multiset"
begin

text \<open>
  The SAI back end of the P4 compiler, \<open>P4_compiler.py\<close> and \<open>P4_aux.py\<close>: the library object
  with its tables, the reading of the behavioural model's JSON into tables in execution order,
  the drawing of the tables into the Visio templates, and the main flow. The files read are
  functions of the world's state, the files written a part of it. The generator of the SAI
  header, which the main flow calls last, is the theory \<open>P4ApiSai\<close>.
\<close>

section \<open>The world\<close>

record world =
  w_json :: "string \<Rightarrow> json res"
  w_lines :: "string \<Rightarrow> string list res"
  w_glob :: "string \<Rightarrow> string list"
  w_dirs :: "string list"
  w_copied :: "(string \<times> string) list"
  w_written :: "(string, string) odict"

definition ensure_dir :: "string \<Rightarrow> (world, unit) py" where
  "ensure_dir d = modP (\<lambda>w. if d \<in> set (w_dirs w) then w else w\<lparr>w_dirs := w_dirs w @ [d]\<rparr>)"

definition get_canonical_c_name :: "string \<Rightarrow> string" where
  "get_canonical_c_name name = replace_all ''.'' ''_'' name"

definition open_out :: "string \<Rightarrow> (world, unit) py" where
  "open_out p = modP (\<lambda>w. w\<lparr>w_written := AList.update p [] (w_written w)\<rparr>)"

definition write_out :: "string \<Rightarrow> string \<Rightarrow> (world, unit) py" where
  "write_out p s = modP (\<lambda>w. w\<lparr>w_written := AList.update p
     ((case map_of (w_written w) p of Some t \<Rightarrow> t | None \<Rightarrow> []) @ s) (w_written w)\<rparr>)"

definition read_lines :: "string \<Rightarrow> (world, string list) py" where
  "read_lines p = bindP getP (\<lambda>w. liftP (w_lines w p))"

definition path_join3 :: "string \<Rightarrow> string \<Rightarrow> string \<Rightarrow> string" where
  "path_join3 a b c = path_join (path_join a b) c"

definition path_join4 :: "string \<Rightarrow> string \<Rightarrow> string \<Rightarrow> string \<Rightarrow> string" where
  "path_join4 a b c d = path_join (path_join3 a b c) d"

section \<open>Tables\<close>

record flex_table =
  ft_flexPipe :: string
  ft_name :: string
  ft_cname :: string
  ft_id :: json
  ft_size :: json
  ft_key_types :: "string list"
  ft_key_fields :: "string list"
  ft_key_fields_json :: "string list"
  ft_masks :: "json list"
  ft_actions :: "string list"
  ft_cactions :: "string list"
  ft_action_ids :: "json list"
  ft_key_params :: "json list"
  ft_cb_key_index :: "nat list"

definition FlexTable :: "string \<Rightarrow> string \<Rightarrow> json \<Rightarrow> json \<Rightarrow> string list \<Rightarrow> string list \<Rightarrow> string list
   \<Rightarrow> json list \<Rightarrow> string list \<Rightarrow> json list \<Rightarrow> json list \<Rightarrow> nat list \<Rightarrow> flex_table" where
  "FlexTable flexPipe name ident max_size key_types key_fields key_fields_json masks actions
     action_ids key_params cb_key_index =
   \<lparr>ft_flexPipe = flexPipe, ft_name = name, ft_cname = get_canonical_c_name name, ft_id = ident,
    ft_size = max_size, ft_key_types = key_types, ft_key_fields = key_fields,
    ft_key_fields_json = key_fields_json, ft_masks = masks, ft_actions = actions,
    ft_cactions = map (\<lambda>a. py_upper (get_canonical_c_name a)) actions,
    ft_action_ids = action_ids, ft_key_params = key_params, ft_cb_key_index = cb_key_index\<rparr>"

text \<open>The fields are texts, so the inner loop runs over their characters.\<close>

definition get_key_field_count :: "flex_table \<Rightarrow> nat" where
  "get_key_field_count t =
     foldl (\<lambda>i field_list. foldl (\<lambda>i field. i + 1) i field_list) 0 (ft_key_fields t)"

definition isAllExact :: "flex_table \<Rightarrow> bool" where
  "isAllExact t = list_all (\<lambda>key_type. key_type = ''exact'') (ft_key_types t)"

section \<open>The library object\<close>

record flex_lib =
  fl_name :: string
  fl_output_path :: string
  fl_backend_path :: string
  fl_runtime_config_path :: string
  fl_json_path :: string
  fl_flexPipes :: "string list"
  fl_pipe_table_count :: "(string, nat) odict"
  fl_tables :: "flex_table list"
  fl_p4_action_def :: json
  fl_sai_keys :: json
  fl_sai_actions :: json
  fl_sai_metadata :: json
  fl_runtime_config :: json
  fl_h_template_path :: string
  fl_inc_path :: string
  fl_h_path :: string
  fl_src_path :: string
  fl_c_path :: string

definition output_dirs :: "string list" where
  "output_dirs = [''src'', ''cli'', ''lib'', ''inc'', ''visio'', ''sai_inc'', ''sai_src'']"

definition copy_includes :: "string \<Rightarrow> string \<Rightarrow> (world, unit) py" where
  "copy_includes backend_path output_path = bindP getP (\<lambda>w.
     forP (w_glob w (path_join (path_join3 backend_path ''output_stage'' ''inc'') ''*.*''))
       (\<lambda>f. modP (\<lambda>w. w\<lparr>w_copied := w_copied w @ [(f, path_join output_path ''inc'')]\<rparr>)))"

text \<open>The four documents are read in this order; only \<open>IOError\<close> is turned into an exit.\<close>

definition load_databases :: "string \<Rightarrow> string \<Rightarrow> (world, json \<times> json \<times> json \<times> json) py" where
  "load_databases backend_path runtime_config_path = bindP getP (\<lambda>w.
     let db = (\<lambda>f. path_join4 backend_path ''output_stage'' ''json'' f) in
     catchP (liftP
       (bindR (w_json w (db ''sai_keys.json'')) (\<lambda>keys.
        bindR (w_json w (db ''sai_actions.json'')) (\<lambda>actions.
        bindR (w_json w (db ''sai_metadata.json'')) (\<lambda>metadata.
        bindR (w_json w runtime_config_path) (\<lambda>rt. Inr (keys, actions, metadata, rt)))))))
     (\<lambda>e. raiseP (if e = IOError then SystemExit 1 else e)))"

definition FlexLib :: "string \<Rightarrow> string \<Rightarrow> string \<Rightarrow> string \<Rightarrow> string \<Rightarrow> (world, flex_lib) py" where
  "FlexLib name backend_path output_path json_path runtime_config_path =
     thenP (ensure_dir output_path)
     (thenP (forP output_dirs (\<lambda>d. ensure_dir (path_join output_path d)))
     (thenP (copy_includes backend_path output_path)
     (bindP (load_databases backend_path runtime_config_path) (\<lambda>(keys, actions, metadata, rt).
      retP \<lparr>fl_name = name, fl_output_path = output_path, fl_backend_path = backend_path,
        fl_runtime_config_path = runtime_config_path, fl_json_path = json_path,
        fl_flexPipes = [''in_port'', ''in_rif'', ''out_rif'', ''out_port''],
        fl_pipe_table_count = [], fl_tables = [], fl_p4_action_def = JList [],
        fl_sai_keys = keys, fl_sai_actions = actions, fl_sai_metadata = metadata,
        fl_runtime_config = rt, fl_h_template_path = [], fl_inc_path = [], fl_h_path = [],
        fl_src_path = [], fl_c_path = []\<rparr>))))"

definition add_table_to_lib :: "flex_lib \<Rightarrow> flex_table \<Rightarrow> flex_lib" where
  "add_table_to_lib lib t = lib\<lparr>fl_tables := fl_tables lib @ [t]\<rparr>"

definition get_header_key :: "flex_lib \<Rightarrow> string \<Rightarrow> string \<Rightarrow> string res" where
  "get_header_key lib key0 key1 =
     (if jhas (fl_sai_metadata lib) key0 then
        bindR (jget (fl_sai_metadata lib) key0) (\<lambda>inner.
        if jhas inner key1 then jget_str inner key1 else Inl (SystemExit 1))
      else Inl (SystemExit 1))"

text \<open>The two attributes it reads are set nowhere in the class, so the lookup raises before it
  compares anything.\<close>

definition get_extraction_point :: "flex_lib \<Rightarrow> string \<Rightarrow> string res" where
  "get_extraction_point lib header = Inl AttributeError"

text \<open>A search over a list of objects that may raise at each.\<close>

fun find_first :: "(json \<Rightarrow> bool res) \<Rightarrow> json list \<Rightarrow> json option res" where
  "find_first p [] = Inr None"
| "find_first p (x # xs) = bindR (p x) (\<lambda>b. if b then Inr (Some x) else find_first p xs)"

definition preamble_of :: "json \<Rightarrow> string \<Rightarrow> json res" where
  "preamble_of obj k = bindR (jget obj ''preamble'') (\<lambda>p. jget p k)"

definition get_table_id :: "flex_lib \<Rightarrow> json \<Rightarrow> json res" where
  "get_table_id lib table_name =
     bindR (jget_list (fl_runtime_config lib) ''tables'') (\<lambda>ts.
     bindR (find_first (\<lambda>t. bindR (preamble_of t ''name'') (\<lambda>n. Inr (n = table_name))) ts) (\<lambda>r.
     case r of None \<Rightarrow> Inl (SystemExit 1) | Some t \<Rightarrow> preamble_of t ''id''))"

definition get_action_id :: "flex_lib \<Rightarrow> string \<Rightarrow> json res" where
  "get_action_id lib action_name =
     bindR (jget_list (fl_runtime_config lib) ''actions'') (\<lambda>as.
     bindR (find_first (\<lambda>a. bindR (bindR (preamble_of a ''name'') jstr)
       (\<lambda>n. Inr (py_upper n = action_name))) as) (\<lambda>r.
     case r of None \<Rightarrow> Inl (SystemExit 1) | Some a \<Rightarrow> preamble_of a ''id''))"

definition get_action_index :: "flex_lib \<Rightarrow> string \<Rightarrow> json res" where
  "get_action_index lib action_name =
     bindR (jlist (fl_p4_action_def lib)) (\<lambda>as.
     bindR (find_first (\<lambda>a. bindR (jget_str a ''name'') (\<lambda>n. Inr (py_upper n = action_name))) as) (\<lambda>r.
     case r of None \<Rightarrow> Inl (SystemExit 1) | Some a \<Rightarrow> jget a ''id''))"

definition get_action_cname :: "string \<Rightarrow> string" where
  "get_action_cname action_name = py_upper (get_canonical_c_name action_name)"

section \<open>Drawing the tables\<close>

text \<open>The places of the two templates; the SVG text of a place is a parameter \<open>svg\<close> (a drawing,
  with \<open>__TEXT__\<close> where the description goes).\<close>

definition visios :: "string list" where "visios = [''sai_target.svg'', ''flex_bm.svg'']"

definition visio_keys :: "nat \<Rightarrow> (string \<times> nat) list" where
  "visio_keys i = (if i = 0
     then [(''in_port'', 0), (''in_port'', 1), (''in_rif'', 0), (''in_rif'', 1),
           (''out_rif'', 0), (''out_rif'', 1), (''out_port'', 0), (''out_port'', 1)]
     else [(''in_port'', 0), (''in_port'', 1), (''in_rif'', 0), (''in_rif'', 1),
           (''out_rif'', 0), (''out_rif'', 1)])"

definition endl :: string where
  "endl = ''</tspan><tspan x=\"3\" dy=\"1.2em\" class=\"st299\">''"

definition table_text :: "flex_table \<Rightarrow> string" where
  "table_text t = ''<tspan x=\"10\">'' @ ft_name t @ endl @ ''match: {'' @ endl
     @ join endl (map (\<lambda>(x, y). x @ '':'' @ y @ '' '') (zip (ft_key_fields_json t) (ft_key_types t)))
     @ endl @ ''}'' @ endl @ '' actions: {'' @ endl
     @ join endl (ft_actions t) @ endl @ ''}</tspan>''"

type_synonym svg_text = "nat \<Rightarrow> string \<times> nat \<Rightarrow> string"

definition visio_shape :: "svg_text \<Rightarrow> nat \<Rightarrow> (string, nat) odict \<Rightarrow> flex_table \<Rightarrow> string" where
  "visio_shape svg i pipe_index t = (case map_of pipe_index (ft_flexPipe t) of
     None \<Rightarrow> []
   | Some k \<Rightarrow> if (ft_flexPipe t, k) \<in> set (visio_keys i)
       then replace_all ''__TEXT__'' (table_text t) (svg i (ft_flexPipe t, k)) else [])"

fun draw_tables :: "svg_text \<Rightarrow> nat \<Rightarrow> string \<Rightarrow> flex_table list \<Rightarrow> (string, nat) odict
   \<Rightarrow> (world, (string, nat) odict) py" where
  "draw_tables svg i out [] pipe_index = retP pipe_index"
| "draw_tables svg i out (t # ts) pipe_index =
     thenP (write_out out (visio_shape svg i pipe_index t))
     (bindP (liftP (od_get pipe_index (ft_flexPipe t))) (\<lambda>k.
      draw_tables svg i out ts (AList.update (ft_flexPipe t) (k + 1) pipe_index)))"

fun draw_lines :: "svg_text \<Rightarrow> nat \<Rightarrow> string \<Rightarrow> flex_table list \<Rightarrow> string list
   \<Rightarrow> (string, nat) odict \<Rightarrow> (world, unit) py" where
  "draw_lines svg i out ts [] pipe_index = retP ()"
| "draw_lines svg i out ts (l # ls) pipe_index =
     (if contains_sub ''__ADD_FLEX_TABLES__'' l
      then bindP (draw_tables svg i out ts pipe_index) (\<lambda>pi. draw_lines svg i out ts ls pi)
      else thenP (write_out out l) (draw_lines svg i out ts ls pipe_index))"

definition pipe_index0 :: "(string, nat) odict" where
  "pipe_index0 = [(''in_port'', 0), (''in_rif'', 0), (''out_rif'', 0), (''out_port'', 0)]"

definition create_visio :: "svg_text \<Rightarrow> flex_lib \<Rightarrow> (world, unit) py" where
  "create_visio svg lib = (let out_dir = path_join (fl_output_path lib) ''visio'' in
     thenP (ensure_dir out_dir)
     (forP (enumerate 0 visios) (\<lambda>(i, visio).
       let out = path_join out_dir ''visio'' @ visio in
       bindP (read_lines (path_join4 (path_join (fl_backend_path lib) ''output_stage'') ''visio'' ''template'' visio))
         (\<lambda>ls. thenP (open_out out) (draw_lines svg i out (fl_tables lib) ls pipe_index0)))))"

section \<open>Reading the compiled program\<close>

text \<open>Whether a header, or a field, is marked as extracted already.\<close>

definition named_predefined :: "string \<Rightarrow> json \<Rightarrow> bool res" where
  "named_predefined header ph =
     bindR (jget ph ''name'') (\<lambda>n. Inr (n = JStr header \<and> jhas ph ''mlnx_predefined''))"

definition is_header_predefined :: "json \<Rightarrow> string \<Rightarrow> json option res" where
  "is_header_predefined doc header =
     bindR (jget_list doc ''headers'') (\<lambda>hs.
     bindR (find_first (named_predefined header) hs) (\<lambda>r.
     case r of None \<Rightarrow> Inr None
     | Some ph \<Rightarrow> bindR (jget ph ''mlnx_predefined'') (\<lambda>v. Inr (Some v))))"

fun search_fields :: "string \<Rightarrow> json list \<Rightarrow> json option res" where
  "search_fields field_name [] = Inr None"
| "search_fields field_name (fl # fls) =
     bindR (jlist fl) (\<lambda>fldlist.
     if JStr field_name \<in> set fldlist
     then if length fldlist = 4 then Inr (Some (fldlist ! 3)) else Inl (SystemExit 0)
     else search_fields field_name fls)"

definition is_field_pre_extracted :: "json \<Rightarrow> string \<Rightarrow> string \<Rightarrow> json res" where
  "is_field_pre_extracted doc header field_name =
     bindR (jget_list doc ''headers'') (\<lambda>hs.
     bindR (find_first (named_predefined header) hs) (\<lambda>r.
     case r of None \<Rightarrow> Inr (JBool False)
     | Some ph \<Rightarrow>
         bindR (jget ph ''header_type'') (\<lambda>header_type.
         bindR (jget_list doc ''header_types'') (\<lambda>hts.
         bindR (find_first (\<lambda>ht. bindR (jget ht ''name'') (\<lambda>n. Inr (n = header_type))) hts) (\<lambda>q.
         case q of None \<Rightarrow> Inr (JBool False)
         | Some ht \<Rightarrow>
             bindR (jget_list ht ''fields'') (\<lambda>fs.
             bindR (search_fields field_name fs) (\<lambda>x.
             Inr (case x of Some v \<Rightarrow> v | None \<Rightarrow> JBool False))))))))"

text \<open>One key of a table: match type, target text, field and mask.\<close>

definition read_key :: "flex_lib \<Rightarrow> json \<Rightarrow> json \<Rightarrow> (string \<times> string \<times> string \<times> json) res" where
  "read_key lib doc key =
     bindR (jget_str key ''match_type'') (\<lambda>mt.
     bindR (jget key ''target'') (\<lambda>target.
     bindR (bindR (jat target 0) jstr) (\<lambda>target_header.
     bindR (bindR (jat target 1) jstr) (\<lambda>target_field.
     bindR (get_header_key lib target_header target_field) (\<lambda>field.
     bindR (jget key ''mask'') (\<lambda>m.
     bindR (is_field_pre_extracted doc target_header target_field) (\<lambda>_.
     Inr (mt, target_header @ ''.'' @ target_field, field, m))))))))"

definition read_table :: "flex_lib \<Rightarrow> json \<Rightarrow> string \<Rightarrow> json \<Rightarrow> flex_table res" where
  "read_table lib doc pipe table =
     bindR (jget table ''name'') (\<lambda>table_name.
     bindR (jget table ''max_size'') (\<lambda>table_size.
     bindR (bindR (jget_list table ''actions'') (mapR jstr)) (\<lambda>actions.
     bindR (jget_list table ''action_ids'') (\<lambda>action_ids.
     bindR (bindR (jget_list table ''key'') (mapR (read_key lib doc))) (\<lambda>keys.
     bindR (get_table_id lib table_name) (\<lambda>table_id.
     bindR (jstr table_name) (\<lambda>name.
     Inr (FlexTable pipe name table_id table_size (map (\<lambda>(mt, js, f, m). mt) keys)
       (map (\<lambda>(mt, js, f, m). f) keys) (map (\<lambda>(mt, js, f, m). js) keys)
       (map (\<lambda>(mt, js, f, m). m) keys) actions action_ids [] []))))))))"

text \<open>One pass over the tables of a pipeline: the name awaited, the number of tables inserted and
  the library.\<close>

type_synonym pass_state = "json \<times> nat \<times> flex_lib"

definition visit_table :: "json \<Rightarrow> string \<Rightarrow> pass_state \<Rightarrow> json \<Rightarrow> pass_state res" where
  "visit_table doc pipe st table = (case st of (next_name, n, lib) \<Rightarrow>
     bindR (jget table ''name'') (\<lambda>table_name.
     if table_name \<noteq> next_name \<and> next_name \<noteq> JNull then Inr st
     else bindR (read_table lib doc pipe table) (\<lambda>t.
       bindR (jget table ''base_default_next'') (\<lambda>nx. Inr (nx, n + 1, add_table_to_lib lib t)))))"

definition pass_tables :: "json \<Rightarrow> string \<Rightarrow> json list \<Rightarrow> pass_state \<Rightarrow> pass_state res" where
  "pass_tables doc pipe tables st = foldR (visit_table doc pipe) st tables"

text \<open>The passes are repeated while tables are missing and a next table is awaited; a run that
  never ends has no value.\<close>

partial_function (option) insert_tables ::
  "json \<Rightarrow> string \<Rightarrow> json list \<Rightarrow> pass_state \<Rightarrow> (nat \<times> flex_lib) res option" where
  "insert_tables doc pipe tables st =
     (if fst (snd st) < length tables \<and> fst st \<noteq> JNull
      then (case pass_tables doc pipe tables st of
          Inl e \<Rightarrow> Some (Inl e)
        | Inr st' \<Rightarrow> insert_tables doc pipe tables st')
      else Some (Inr (snd st)))"

text \<open>The position of the pipeline of a pipe; without one, the loop variable keeps the last.\<close>

fun find_pipeline :: "string \<Rightarrow> nat \<Rightarrow> json list \<Rightarrow> nat res" where
  "find_pipeline pipe i [] = (if i = 0 then Inl UnboundLocalError else Inr (i - 1))"
| "find_pipeline pipe i (p # ps) =
     bindR (jget p ''name'') (\<lambda>n.
     if n = JStr (''control_'' @ pipe) then Inr i else find_pipeline pipe (i + 1) ps)"

definition interp_pipe :: "json \<Rightarrow> string \<Rightarrow> flex_lib \<Rightarrow> flex_lib res option" where
  "interp_pipe doc pipe lib =
     (case bindR (jget_list doc ''pipelines'') (\<lambda>ps.
        bindR (find_pipeline pipe 0 ps) (\<lambda>num.
        bindR (jget doc ''actions'') (\<lambda>acts.
        bindR (jget (ps ! num) ''init_table'') (\<lambda>nx.
        bindR (jget_list (ps ! num) ''tables'') (\<lambda>tables.
        Inr (tables, nx, lib\<lparr>fl_p4_action_def := acts\<rparr>)))))) of
       Inl e \<Rightarrow> Some (Inl e)
     | Inr (tables, nx, lib1) \<Rightarrow>
         (case insert_tables doc pipe tables (nx, 0, lib1) of
            None \<Rightarrow> None
          | Some (Inl e) \<Rightarrow> Some (Inl e)
          | Some (Inr (n, lib2)) \<Rightarrow> Some (Inr (lib2\<lparr>fl_pipe_table_count :=
              AList.update pipe n (fl_pipe_table_count lib2)\<rparr>))))"

fun interp_pipes :: "json \<Rightarrow> string list \<Rightarrow> flex_lib \<Rightarrow> flex_lib res option" where
  "interp_pipes doc [] lib = Some (Inr lib)"
| "interp_pipes doc (p # ps) lib = (case interp_pipe doc p lib of
     None \<Rightarrow> None | Some (Inl e) \<Rightarrow> Some (Inl e)
   | Some (Inr lib') \<Rightarrow> interp_pipes doc ps lib')"

definition interp_p4c_json_stage_output :: "flex_lib \<Rightarrow> json res \<Rightarrow> flex_lib res option" where
  "interp_p4c_json_stage_output lib document = (case document of
     Inl e \<Rightarrow> Some (Inl e) | Inr doc \<Rightarrow> interp_pipes doc (fl_flexPipes lib) lib)"

section \<open>The order of the tables\<close>

definition name_of :: "json \<Rightarrow> json" where
  "name_of t = (case jget t ''name'' of Inr n \<Rightarrow> n | Inl e \<Rightarrow> JNull)"

definition next_of :: "json \<Rightarrow> json" where
  "next_of t = (case jget t ''base_default_next'' of Inr n \<Rightarrow> n | Inl e \<Rightarrow> JNull)"

text \<open>The tables in execution order: each names the next one, the last names none.\<close>

fun chain :: "json \<Rightarrow> json list \<Rightarrow> bool" where
  "chain nx [] \<longleftrightarrow> nx = JNull"
| "chain nx (t # ts) \<longleftrightarrow> nx \<noteq> JNull \<and> jget t ''name'' = Inr nx
     \<and> jget t ''base_default_next'' = Inr (next_of t) \<and> chain (next_of t) ts"

lemma chain_nth:
  "chain nx ts \<Longrightarrow> k < length ts \<Longrightarrow>
   jget (ts ! k) ''name'' = Inr (name_of (ts ! k)) \<and> name_of (ts ! k) \<noteq> JNull
   \<and> jget (ts ! k) ''base_default_next'' = Inr (next_of (ts ! k))
   \<and> next_of (ts ! k) = (if Suc k < length ts then name_of (ts ! Suc k) else JNull)"
proof (induction ts arbitrary: nx k)
  case (Cons t ts)
  show ?case
  proof (cases k)
    case 0
    then show ?thesis using Cons.prems by (cases ts) (auto simp: name_of_def)
  qed (use Cons in auto)
qed simp

lemma chain_start: "chain nx ts \<Longrightarrow> nx = (if ts = [] then JNull else name_of (ts ! 0))"
  by (cases ts) (auto simp: name_of_def)

lemma get_table_id_tables [simp]: "get_table_id (lib\<lparr>fl_tables := x\<rparr>) n = get_table_id lib n"
  by (simp add: get_table_id_def)

lemma get_header_key_tables [simp]: "get_header_key (lib\<lparr>fl_tables := x\<rparr>) a b = get_header_key lib a b"
  by (simp add: get_header_key_def)

lemma read_key_tables [simp]: "read_key (lib\<lparr>fl_tables := x\<rparr>) doc = read_key lib doc"
  by (simp add: read_key_def fun_eq_iff)

lemma read_table_tables [simp]:
  "read_table (lib\<lparr>fl_tables := x\<rparr>) doc pipe t = read_table lib doc pipe t"
  by (simp add: read_table_def)

text \<open>The state after the first \<open>k\<close> tables of the order.\<close>

definition order_state :: "flex_lib \<Rightarrow> (json \<Rightarrow> flex_table) \<Rightarrow> json list \<Rightarrow> nat \<Rightarrow> pass_state" where
  "order_state lib f ord k = ((if k < length ord then name_of (ord ! k) else JNull), k,
     lib\<lparr>fl_tables := fl_tables lib @ map f (take k ord)\<rparr>)"

lemma order_state_parts [simp]:
  "fst (order_state lib f ord k) = (if k < length ord then name_of (ord ! k) else JNull)"
  "fst (snd (order_state lib f ord k)) = k"
  "snd (snd (order_state lib f ord k)) = lib\<lparr>fl_tables := fl_tables lib @ map f (take k ord)\<rparr>"
  by (simp_all add: order_state_def)

definition in_order :: "flex_lib \<Rightarrow> json \<Rightarrow> string \<Rightarrow> (json \<Rightarrow> flex_table) \<Rightarrow> json \<Rightarrow> json list \<Rightarrow> bool" where
  "in_order lib doc pipe f nx ord \<longleftrightarrow> chain nx ord \<and> distinct (map name_of ord)
     \<and> (\<forall>t \<in> set ord. read_table lib doc pipe t = Inr (f t))"

lemma visit_in_order:
  assumes "in_order lib doc pipe f nx ord" "t \<in> set ord" "k < length ord"
  shows "visit_table doc pipe (order_state lib f ord k) t =
    Inr (order_state lib f ord (if t = ord ! k then Suc k else k))"
proof -
  note c = chain_nth [of nx ord]
  obtain j where j: "j < length ord" "t = ord ! j" using assms(2) by (auto simp: in_set_conv_nth)
  have ch: "chain nx ord" and d: "distinct (map name_of ord)"
    and r: "read_table lib doc pipe t = Inr (f t)"
    using assms by (auto simp: in_order_def)
  have n: "name_of (ord ! j) = name_of (ord ! k) \<longleftrightarrow> j = k"
    using d j assms(3) by (simp add: distinct_conv_nth) metis
  have e: "ord ! j = ord ! k \<longleftrightarrow> j = k" using n by metis
  show ?thesis
    using c [OF ch j(1)] c [OF ch assms(3)] r assms(3) j
    by (auto simp: visit_table_def order_state_def n e add_table_to_lib_def take_Suc_conv_app_nth)
qed

lemma pass_in_order:
  assumes o: "in_order lib doc pipe f nx ord"
  shows "set ys \<subseteq> set ord \<Longrightarrow> distinct ys \<Longrightarrow> ys = [] \<or> last ys = last ord \<Longrightarrow> k < length ord \<Longrightarrow>
    \<exists>k'. foldR (visit_table doc pipe) (order_state lib f ord k) ys = Inr (order_state lib f ord k')
      \<and> k \<le> k' \<and> k' \<le> length ord \<and> (ord ! k \<in> set ys \<longrightarrow> k < k')"
proof (induction ys arbitrary: k)
  case (Cons y ys)
  define k1 where "k1 = (if y = ord ! k then Suc k else k)"
  have v: "visit_table doc pipe (order_state lib f ord k) y = Inr (order_state lib f ord k1)"
    unfolding k1_def using Cons.prems by (intro visit_in_order [OF o]) auto
  show ?case
  proof (cases "k1 < length ord")
    case True
    have "ys = [] \<or> last ys = last ord" using Cons.prems(3) by (auto split: if_splits)
    then obtain k' where "foldR (visit_table doc pipe) (order_state lib f ord k1) ys = Inr (order_state lib f ord k')"
      "k1 \<le> k'" "k' \<le> length ord" "ord ! k1 \<in> set ys \<longrightarrow> k1 < k'"
      using Cons.IH [of k1] Cons.prems True by auto
    then show ?thesis using v by (auto simp: k1_def split: if_splits)
  next
    case False
    then have y: "y = ord ! k" "Suc k = length ord" using Cons.prems(4) by (auto simp: k1_def split: if_splits)
    then have "y = last ord" by (cases ord rule: rev_cases) auto
    then have "ys = []" using Cons.prems(2,3) last_in_set [of ys] by (metis distinct.simps(2) last_ConsR list.distinct(1))
    then show ?thesis using v y by (intro exI [of _ "Suc k"]) (simp add: k1_def)
  qed
qed auto

lemma insert_in_order:
  assumes o: "in_order lib doc pipe f nx ord" and s: "set tables = set ord" "distinct tables"
    "tables = [] \<or> last tables = last ord" and len: "length tables = length ord"
  shows "k \<le> length ord \<Longrightarrow> insert_tables doc pipe tables (order_state lib f ord k) =
    Some (Inr (length ord, lib\<lparr>fl_tables := fl_tables lib @ map f ord\<rparr>))"
proof (induction "length ord - k" arbitrary: k rule: less_induct)
  case less
  show ?case
  proof (cases "k < length ord")
    case False
    then show ?thesis using less.prems by (subst insert_tables.simps) (simp add: order_state_def)
  next
    case True
    have ne: "name_of (ord ! k) \<noteq> JNull" using chain_nth True o by (auto simp: in_order_def)
    obtain k' where k': "pass_tables doc pipe tables (order_state lib f ord k) = Inr (order_state lib f ord k')"
      "k \<le> k'" "k' \<le> length ord" "ord ! k \<in> set tables \<longrightarrow> k < k'"
      using pass_in_order [OF o _ s(2,3) True] s(1) by (auto simp: pass_tables_def)
    have lt: "k < k'" using k'(4) s(1) True by simp
    have "insert_tables doc pipe tables (order_state lib f ord k')
        = Some (Inr (length ord, lib\<lparr>fl_tables := fl_tables lib @ map f ord\<rparr>))"
      by (rule less.hyps) (use lt k' in auto)
    then show ?thesis using True ne len
      by (subst insert_tables.simps) (simp add: k'(1))
  qed
qed

text \<open>C8 (liveness). When the tables of a pipeline form one chain from the initial table and the
  last of the chain is also written last, the repeated passes end, with every table inserted
  exactly once and in the order of the chain, whatever the order of the others in the document.
\<close>
theorem tables_inserted_in_order:
  assumes "in_order lib doc pipe f nx ord" "mset tables = mset ord" "tables = [] \<or> last tables = last ord"
  shows "insert_tables doc pipe tables (nx, 0, lib) =
    Some (Inr (length ord, lib\<lparr>fl_tables := fl_tables lib @ map f ord\<rparr>))"
proof -
  have "distinct ord" using assms(1) by (simp add: in_order_def distinct_map)
  then have "distinct tables" "set tables = set ord" "length tables = length ord"
    using assms(2) mset_eq_imp_distinct_iff [of tables ord] mset_eq_setD [of tables ord] mset_eq_length [of tables ord] by simp_all
  moreover have "order_state lib f ord 0 = (nx, 0, lib)"
    using chain_start [of nx ord] assms(1) by (auto simp: order_state_def in_order_def)
  ultimately show ?thesis using insert_in_order [OF assms(1), of tables 0] assms(3) by simp
qed

text \<open>A pass that awaits a name no table has changes nothing.\<close>

lemma pass_stuck:
  "\<forall>t \<in> set tables. \<exists>n. jget t ''name'' = Inr n \<and> n \<noteq> nx \<Longrightarrow> nx \<noteq> JNull \<Longrightarrow>
   pass_tables doc pipe tables (nx, n, lib) = Inr (nx, n, lib)"
  unfolding pass_tables_def by (induction tables) (auto simp: visit_table_def)

text \<open>When a table names a successor that is not a table of its pipeline (a
  conditional, say), the passes go on for ever: the loop has no value.
\<close>
theorem unknown_next_loops:
  assumes "\<forall>t \<in> set tables. \<exists>m. jget t ''name'' = Inr m \<and> m \<noteq> nx" "nx \<noteq> JNull" "n < length tables"
  shows "insert_tables doc pipe tables (nx, n, lib) = None"
proof (rule ccontr)
  assume "\<not> ?thesis"
  then obtain y where y: "insert_tables doc pipe tables (nx, n, lib) = Some y" by blast
  define Q where "Q d p ts st y' \<longleftrightarrow> (d, p, ts, st) \<noteq> (doc, pipe, tables, nx, n, lib)"
    for d p ts st and y' :: "(nat \<times> flex_lib) res"
  have "Q doc pipe tables (nx, n, lib) y"
  proof (rule insert_tables.raw_induct [OF _ y])
    fix ins d p ts st y
    assume ih: "\<And>d p ts st y. ins d p ts st = Some y \<Longrightarrow> Q d p ts st y"
      and b: "(if fst (snd st) < length ts \<and> fst st \<noteq> JNull
        then case pass_tables d p ts st of Inl e \<Rightarrow> Some (Raise e) | Inr st' \<Rightarrow> ins d p ts st'
        else Some (Ret (snd st))) = Some y"
    show "Q d p ts st y"
      unfolding Q_def
    proof
      assume "(d, p, ts, st) = (doc, pipe, tables, nx, n, lib)"
      then have "ins doc pipe tables (nx, n, lib) = Some y"
        using b assms(2,3) by (simp add: pass_stuck [OF assms(1,2)])
      from ih [OF this] show False by (simp add: Q_def)
    qed
  qed
  then show False by (simp add: Q_def)
qed

text \<open>
  When the chain does not end with the table written last, a table is inserted
  again: two tables written in the opposite of their execution order come out as three, the
  first one twice.
\<close>
theorem reversed_tables_duplicate:
  assumes "in_order lib doc pipe f nx [a, b]"
  shows "insert_tables doc pipe [b, a] (nx, 0, lib) =
    Some (Inr (3, lib\<lparr>fl_tables := fl_tables lib @ [f a, f b, f a]\<rparr>))"
proof -
  let ?l = "\<lambda>ts. lib\<lparr>fl_tables := fl_tables lib @ ts\<rparr>"
  have c: "nx \<noteq> JNull" "jget a ''name'' = Inr nx" "jget a ''base_default_next'' = Inr (next_of a)"
    "next_of a \<noteq> JNull" "jget b ''name'' = Inr (next_of a)" "jget b ''base_default_next'' = Inr JNull"
    and r: "read_table lib doc pipe a = Inr (f a)" "read_table lib doc pipe b = Inr (f b)"
    and d: "nx \<noteq> next_of a"
    using assms by (auto simp: in_order_def name_of_def)
  have p1: "pass_tables doc pipe [b, a] (nx, 0, lib) = Inr (next_of a, 1, ?l [f a])"
    using c r d by (simp add: pass_tables_def visit_table_def add_table_to_lib_def)
  have p2: "pass_tables doc pipe [b, a] (next_of a, 1, ?l [f a]) = Inr (next_of a, 3, ?l [f a, f b, f a])"
    using c r d by (simp add: pass_tables_def visit_table_def add_table_to_lib_def)
  show ?thesis
    using c by (subst insert_tables.simps) (simp add: p1, subst insert_tables.simps,
      simp add: p2 [simplified], subst insert_tables.simps, simp)
qed

text \<open>A small program: two tables, the second after the first, and what their reading needs.\<close>

definition demo_key :: json where
  "demo_key = JObj [(''match_type'', JStr ''ternary''), (''target'', JList [JStr ''ip.v4'', JStr ''dst_addr'']),
     (''mask'', JNull)]"

definition demo_table :: "string \<Rightarrow> json \<Rightarrow> json" where
  "demo_table name nx = JObj [(''name'', JStr name), (''max_size'', JInt 64),
     (''actions'', JList [JStr ''NoAction'']), (''action_ids'', JList [JInt 0]),
     (''key'', JList [demo_key]), (''base_default_next'', nx)]"

definition demo_doc :: "json list \<Rightarrow> json" where
  "demo_doc tables = JObj [(''headers'', JList []), (''actions'', JList []),
     (''pipelines'', JList [JObj [(''name'', JStr ''control_in_port''), (''init_table'', JStr ''a''),
        (''tables'', JList tables)]])]"

definition demo_lib :: flex_lib where
  "demo_lib = \<lparr>fl_name = ''libx'', fl_output_path = ''out'', fl_backend_path = ''be'',
     fl_runtime_config_path = ''rt.json'', fl_json_path = ''x.json'',
     fl_flexPipes = [''in_port'', ''in_rif'', ''out_rif'', ''out_port''],
     fl_pipe_table_count = [], fl_tables = [], fl_p4_action_def = JList [],
     fl_sai_keys = JObj [(''DST_IP_ADDR'', JObj [(''sai_name'', JStr ''dst_ip''),
        (''sai_type'', JStr ''sai_ip_address_t'')])],
     fl_sai_actions = JObj [], 
     fl_sai_metadata = JObj [(''ip.v4'', JObj [(''dst_addr'', JStr ''DST_IP_ADDR'')])],
     fl_runtime_config = JObj [(''tables'', JList
        [JObj [(''preamble'', JObj [(''name'', JStr ''a''), (''id'', JInt 1)])],
         JObj [(''preamble'', JObj [(''name'', JStr ''b''), (''id'', JInt 2)])]])],
     fl_h_template_path = [], fl_inc_path = [], fl_h_path = [], fl_src_path = [], fl_c_path = []\<rparr>"

definition demo_flex :: "json \<Rightarrow> flex_table" where
  "demo_flex t = (case name_of t of JStr n \<Rightarrow>
     FlexTable ''in_port'' n (JInt (if n = ''a'' then 1 else 2)) (JInt 64) [''ternary''] [''DST_IP_ADDR'']
       [''ip.v4.dst_addr''] [JNull] [''NoAction''] [JInt 0] [] [])"

lemma demo_in_order:
  "in_order demo_lib (demo_doc ts) ''in_port'' demo_flex (JStr ''a'')
     [demo_table ''a'' (JStr ''b''), demo_table ''b'' JNull]"
proof -
  have n: "name_of (demo_table s nx) = JStr s" "next_of (demo_table s nx) = nx" for s nx
    by (simp_all add: demo_table_def name_of_def next_of_def od_get_def)
  have r: "read_table demo_lib (demo_doc ts) ''in_port'' (demo_table s nx) = Inr (demo_flex (demo_table s nx))"
    if "s = ''a'' \<or> s = ''b''" for s nx
    using that
    by (auto simp: demo_flex_def n) (auto simp: demo_table_def read_table_def od_get_def read_key_def
         demo_key_def jget_str_def jget_list_def jat_def py_index_def py_position_def get_header_key_def
         demo_lib_def jhas_def od_has_def is_field_pre_extracted_def demo_doc_def get_table_id_def
         preamble_of_def)
  show ?thesis
    by (auto simp: in_order_def n r) (simp_all add: demo_table_def od_get_def)
qed

theorem reversed_tables_duplicate_witness:
  "insert_tables (demo_doc []) ''in_port'' [demo_table ''b'' JNull, demo_table ''a'' (JStr ''b'')]
     (JStr ''a'', 0, demo_lib) = Some (Inr (3, demo_lib\<lparr>fl_tables :=
       [demo_flex (demo_table ''a'' (JStr ''b'')), demo_flex (demo_table ''b'' JNull),
        demo_flex (demo_table ''a'' (JStr ''b''))]\<rparr>))"
  using reversed_tables_duplicate [OF demo_in_order [of "[]"]] by (simp add: demo_lib_def)

theorem tables_inserted_in_order_witness:
  "insert_tables (demo_doc []) ''in_port'' [demo_table ''a'' (JStr ''b''), demo_table ''b'' JNull]
     (JStr ''a'', 0, demo_lib) = Some (Inr (2, demo_lib\<lparr>fl_tables :=
       [demo_flex (demo_table ''a'' (JStr ''b'')), demo_flex (demo_table ''b'' JNull)]\<rparr>))"
  using tables_inserted_in_order [OF demo_in_order [of "[]"], of
    "[demo_table ''a'' (JStr ''b''), demo_table ''b'' JNull]"]
  by (simp add: demo_lib_def)

theorem unknown_next_loops_witness:
  "insert_tables (demo_doc []) ''in_port'' [demo_table ''b'' JNull] (JStr ''node_2'', 0, demo_lib) = None"
  by (rule unknown_next_loops) (simp_all add: demo_table_def od_get_def)

lemma find_pipeline_missing:
  "\<forall>p \<in> set ps. \<exists>n. jget p ''name'' = Inr n \<and> n \<noteq> JStr (''control_'' @ pipe) \<Longrightarrow> ps \<noteq> [] \<or> i > 0 \<Longrightarrow>
   find_pipeline pipe i ps = Inr (i + length ps - 1)"
  by (induction ps arbitrary: i) auto

lemma find_pipeline_found:
  "find_pipeline pipe i (ps @ [p]) = Inr (i + length ps)"
  if "\<forall>q \<in> set ps. \<exists>n. jget q ''name'' = Inr n \<and> n \<noteq> JStr (''control_'' @ pipe)"
    "jget p ''name'' = Inr (JStr (''control_'' @ pipe))"
  using that by (induction ps arbitrary: i) auto

text \<open>
  A pipe that has no pipeline of its own in the compiled program is not left
  empty: it is read from the last pipeline of the document, exactly as if that one were its.
\<close>
theorem missing_pipeline_reads_last:
  assumes "jget_list doc ''pipelines'' = Inr (ps @ [p])"
    "\<forall>q \<in> set (ps @ [p]). \<exists>n. jget q ''name'' = Inr n \<and> n \<noteq> JStr (''control_'' @ pipe)"
    "jget doc ''actions'' = Inr acts" "jget p ''init_table'' = Inr nx" "jget_list p ''tables'' = Inr tables"
    "insert_tables doc pipe tables (nx, 0, lib\<lparr>fl_p4_action_def := acts\<rparr>) = Some (Inr (n, lib'))"
  shows "interp_pipe doc pipe lib = Some (Inr (lib'\<lparr>fl_pipe_table_count :=
    AList.update pipe n (fl_pipe_table_count lib')\<rparr>))"
proof -
  have "find_pipeline pipe 0 (ps @ [p]) = Inr (length ps)"
    using find_pipeline_missing [of "ps @ [p]" pipe 0] assms(2) by simp
  then show ?thesis using assms by (simp add: interp_pipe_def nth_append)
qed

theorem missing_pipeline_reads_last_witness:
  "interp_pipe (demo_doc []) ''out_port'' demo_lib =
     Some (Inr (demo_lib\<lparr>fl_pipe_table_count := [(''out_port'', 0)]\<rparr>))"
proof -
  have "insert_tables (demo_doc []) ''out_port'' [] (JStr ''a'', 0, demo_lib\<lparr>fl_p4_action_def := JList []\<rparr>)
      = Some (Inr (0, demo_lib))"
    by (subst insert_tables.simps) (simp add: demo_lib_def)
  from missing_pipeline_reads_last [of "demo_doc []" "[]", OF _ _ _ _ _ this] show ?thesis
    by (simp add: demo_doc_def jget_list_def od_get_def) (simp add: demo_lib_def)
qed

text \<open>
  The count of key fields counts the characters of their names.
\<close>
theorem key_field_count_counts_characters:
  "get_key_field_count t = sum_list (map length (ft_key_fields t))"
proof -
  have inner: "foldl (\<lambda>i c. Suc i) i s = i + length s" for i :: nat and s :: string
    by (induction s arbitrary: i) auto
  have "foldl (\<lambda>i s. foldl (\<lambda>i c. i + 1) i s) i fs = i + sum_list (map length fs)" for i and fs :: "string list"
    by (induction fs arbitrary: i) (auto simp: inner)
  from this [of 0] show ?thesis by (simp add: get_key_field_count_def)
qed

section \<open>What is drawn\<close>

definition written :: "world \<Rightarrow> string \<Rightarrow> string" where
  "written w p = (case map_of (w_written w) p of Some t \<Rightarrow> t | None \<Rightarrow> [])"

lemma written_write_out:
  "\<exists>w'. write_out p s w = (Inr (), w') \<and> written w' p = written w p @ s"
  by (simp add: write_out_def written_def update_conv')

text \<open>How many of the tables before the \<open>j\<close>-th are in its pipe, and the shape it gets.\<close>

definition pipe_rank :: "flex_table list \<Rightarrow> nat \<Rightarrow> nat" where
  "pipe_rank ts j = length (filter (\<lambda>t. ft_flexPipe t = ft_flexPipe (ts ! j)) (take j ts))"

definition ranked_shape :: "svg_text \<Rightarrow> nat \<Rightarrow> flex_table \<Rightarrow> nat \<Rightarrow> string" where
  "ranked_shape svg i t k = (if (ft_flexPipe t, k) \<in> set (visio_keys i)
     then replace_all ''__TEXT__'' (table_text t) (svg i (ft_flexPipe t, k)) else [])"

lemma draw_tables_ranked:
  assumes "\<forall>t \<in> set ts. map_of idx (ft_flexPipe t) = Some (c (ft_flexPipe t))"
  shows "\<exists>idx' w'. draw_tables svg i out ts idx w = (Inr idx', w') \<and>
    written w' out = written w out @ concat (map (\<lambda>j.
      ranked_shape svg i (ts ! j) (c (ft_flexPipe (ts ! j)) + pipe_rank ts j)) [0..<length ts])"
  using assms
proof (induction ts arbitrary: idx c w)
  case (Cons t ts)
  let ?p = "ft_flexPipe t"
  have i: "map_of idx ?p = Some (c ?p)" using Cons.prems by simp
  obtain w1 where w1: "write_out out (visio_shape svg i idx t) w = (Inr (), w1)"
    "written w1 out = written w out @ visio_shape svg i idx t"
    using written_write_out by blast
  let ?c = "c(?p := c ?p + 1)"
  have "\<forall>u \<in> set ts. map_of (AList.update ?p (c ?p + 1) idx) (ft_flexPipe u) = Some (?c (ft_flexPipe u))"
    using Cons.prems by (simp add: update_conv')
  from Cons.IH [OF this, of w1] obtain idx' w' where r:
    "draw_tables svg i out ts (AList.update ?p (c ?p + 1) idx) w1 = (Inr idx', w')"
    "written w' out = written w1 out @ concat (map (\<lambda>j.
      ranked_shape svg i (ts ! j) (?c (ft_flexPipe (ts ! j)) + pipe_rank ts j)) [0..<length ts])"
    by blast
  have s: "visio_shape svg i idx t = ranked_shape svg i t (c ?p + pipe_rank (t # ts) 0)"
    by (simp add: visio_shape_def ranked_shape_def i pipe_rank_def)
  have k: "(if ft_flexPipe (ts ! j) = ?p then Suc (c ?p) else c (ft_flexPipe (ts ! j))) + pipe_rank ts j
      = c (ft_flexPipe (ts ! j)) + pipe_rank (t # ts) (Suc j)" for j
    by (simp add: pipe_rank_def)
  show ?case
    using r w1 by (simp add: py_res i od_get_def s k upt_conv_Cons map_Suc_upt [symmetric] comp_def
      del: upt_Suc)
qed simp

text \<open>Drawing gives the \<open>k\<close>-th table of each of the four pipes the \<open>k\<close>-th place of
  that pipe in the template and leaves out the tables beyond the places, in table order; it does
  not fail.
\<close>
theorem draw_tables_places:
  assumes "\<forall>t \<in> set ts. ft_flexPipe t \<in> {''in_port'', ''in_rif'', ''out_rif'', ''out_port''}"
  shows "\<exists>idx' w'. draw_tables svg i out ts pipe_index0 w = (Inr idx', w') \<and>
    written w' out = written w out @ concat (map (\<lambda>j.
      ranked_shape svg i (ts ! j) (pipe_rank ts j)) [0..<length ts])"
  using draw_tables_ranked [of ts pipe_index0 "\<lambda>_. 0" svg i out w] assms
  by (fastforce simp: pipe_index0_def)

theorem draw_tables_places_witness:
  "\<exists>idx' w'. draw_tables (\<lambda>i p. ''<__TEXT__>'') 0 ''o'' [demo_flex (demo_table ''a'' JNull)] pipe_index0
      \<lparr>w_json = (\<lambda>f. Inl IOError), w_lines = (\<lambda>f. Inl IOError), w_glob = (\<lambda>f. []), w_dirs = [],
       w_copied = [], w_written = []\<rparr> = (Inr idx', w')
    \<and> written w' ''o'' = ''<'' @ table_text (demo_flex (demo_table ''a'' JNull)) @ ''>''"
proof -
  let ?t = "demo_flex (demo_table ''a'' JNull)"
  have p: "ft_flexPipe ?t = ''in_port''"
    by (simp add: demo_flex_def demo_table_def name_of_def od_get_def FlexTable_def)
  show ?thesis
    using draw_tables_places [of "[?t]" "\<lambda>i p. ''<__TEXT__>''" 0 "''o''"
      "\<lparr>w_json = (\<lambda>f. Inl IOError), w_lines = (\<lambda>f. Inl IOError), w_glob = (\<lambda>f. []), w_dirs = [],
       w_copied = [], w_written = []\<rparr>"]
    by (simp add: p ranked_shape_def pipe_rank_def visio_keys_def written_def)
qed

end
