(* ===== verification/P4ApiSai.thy ===== *)
theory P4ApiSai
  imports P4Compiler
begin

text \<open>
  The generator of the SAI extension headers, \<open>P4_api_SAI.py\<close>, and the main flow of
  \<open>P4_compiler.py\<close> that calls it. Each writer of a part of a header is a function from the
  library object to the text it returns; the template files are lists of lines.
\<close>

section \<open>Paths\<close>

definition api_set_lib_paths :: "flex_lib \<Rightarrow> string \<Rightarrow> flex_lib" where
  "api_set_lib_paths lib template_dir =
     (let name = after_last ''lib'' (fl_name lib);
          inc = path_join (fl_output_path lib) ''sai_inc'';
          src = path_join (fl_output_path lib) ''sai_src'' in
      lib\<lparr>fl_h_template_path := path_join template_dir ''sai_lib_template.h'',
        fl_name := name, fl_inc_path := inc,
        fl_h_path := path_join inc (''sai'' @ name @ ''.h''), fl_src_path := src,
        fl_c_path := path_join src (''libsai_'' @ name @ ''.c'')\<rparr>)"

section \<open>Writers of header text\<close>

definition sai_write_table_id_enum :: "flex_lib \<Rightarrow> string" where
  "sai_write_table_id_enum lib = concat (map (\<lambda>t.
     text_lines [''/** SAI extension table '' @ ft_cname t @ '' in pipe '' @ ft_flexPipe t @ ''*/'',
       CHR 0x09 # ''SAI_'' @ py_upper (ft_flexPipe t) @ ''_'' @ py_upper (ft_cname t) @ '','', []])
     (fl_tables lib))"

text \<open>The arguments of \<open>create_header\<close>, with its defaults.\<close>

record header_args =
  h_brief :: string
  h_type :: string
  h_flags :: string
  h_objects :: string
  h_condition :: string
  h_params_out :: "string list"
  h_params_in :: "string list"
  h_params_inout :: "string list"
  h_return :: string
  h_tabs :: nat
  h_isvlan :: nat
  h_default :: string

definition header_brief :: "string \<Rightarrow> header_args" where
  "header_brief b = \<lparr>h_brief = b, h_type = [], h_flags = [], h_objects = [], h_condition = [],
     h_params_out = [], h_params_in = [], h_params_inout = [], h_return = [], h_tabs = 0,
     h_isvlan = 0, h_default = []\<rparr>"

definition header_line :: "nat \<Rightarrow> string \<Rightarrow> string \<Rightarrow> string" where
  "header_line tabs tag s = concat (replicate tabs ''    '') @ '' * '' @ tag @ s @ [CHR 0x0A]"

definition create_header :: "header_args \<Rightarrow> string" where
  "create_header h = (let tab = concat (replicate (h_tabs h) ''    '');
       opt = (\<lambda>tag s. if s \<noteq> [] then header_line (h_tabs h) tag s else []);
       params = (\<lambda>tag ps. concat (map (header_line (h_tabs h) tag) ps)) in
     text_line (tab @ ''/**'') @ header_line (h_tabs h) ''@brief '' (h_brief h)
     @ (if h_type h \<noteq> [] \<or> h_flags h \<noteq> [] \<or> h_objects h \<noteq> [] \<or> h_condition h \<noteq> []
          \<or> h_params_out h \<noteq> [] \<or> h_params_in h \<noteq> [] \<or> h_return h \<noteq> []
        then text_line (tab @ '' *'') else [])
     @ opt ''@type '' (h_type h) @ opt ''@flags '' (h_flags h) @ opt ''@default '' (h_default h)
     @ (if h_isvlan h = 1 then text_line (tab @ '' * @isvlan false'') else [])
     @ (if h_isvlan h = 2 then text_line (tab @ '' * @isvlan true'') else [])
     @ opt ''@objects '' (h_objects h) @ opt ''@condition '' (h_condition h)
     @ params ''@param[in] '' (h_params_in h) @ params ''@param[out] '' (h_params_out h)
     @ params ''@param[inout] '' (h_params_inout h)
     @ (if h_return h \<noteq> [] then text_line (tab @ '' *'') @ header_line (h_tabs h) ''@return '' (h_return h)
        else [])
     @ text_line (tab @ '' */''))"

definition sai_create_action_type_enum :: "flex_table \<Rightarrow> string" where
  "sai_create_action_type_enum t =
     create_header (header_brief (subst_args ''Attribute data for #SAI_%s_ENTRY_ATTR_ACTION'' [py_upper (ft_cname t)]))
     @ subst_args (text_lines [''typedef enum _sai_%s_entry_action_t'', ''{'']) [py_lower (ft_cname t)]
     @ concat (map (\<lambda>(action_name, action_id).
         subst_args (text_lines [''    SAI_%s_ENTRY_ACTION_%s,'', []]) [py_upper (ft_cname t), py_upper action_name])
         (zip (ft_cactions t) (ft_action_ids t)))
     @ subst_args (text_lines [''} sai_%s_entry_action_t;'', []]) [ft_cname t]"

definition get_sai_key :: "flex_lib \<Rightarrow> string \<Rightarrow> (string \<times> string \<times> string) res" where
  "get_sai_key lib key =
     bindR (jget (fl_sai_keys lib) key) (\<lambda>d.
     bindR (if jhas d ''sai_object_type'' then jget_str d ''sai_object_type'' else Inr []) (\<lambda>obj.
     bindR (jget_str d ''sai_name'') (\<lambda>n. bindR (jget_str d ''sai_type'') (\<lambda>t. Inr (n, t, obj)))))"

definition sai_write_table_action_enum :: "flex_lib \<Rightarrow> string" where
  "sai_write_table_action_enum lib = concat (map sai_create_action_type_enum (fl_tables lib))"

definition get_action_def :: "flex_lib \<Rightarrow> json \<Rightarrow> json res" where
  "get_action_def lib action_id =
     bindR (jlist (fl_p4_action_def lib)) (\<lambda>as.
     bindR (find_first (\<lambda>a. bindR (jget a ''id'') (\<lambda>i. Inr (i = action_id))) as) (\<lambda>r.
     Inr (case r of Some a \<Rightarrow> a | None \<Rightarrow> JNull)))"

section \<open>The attribute enumeration of a table\<close>

definition mandatory :: string where "mandatory = ''MANDATORY_ON_CREATE | CREATE_ONLY''"

definition attr_entry :: "header_args \<Rightarrow> string \<Rightarrow> string" where
  "attr_entry h member = create_header (h\<lparr>h_tabs := 1\<rparr>) @ text_lines [''    '' @ member @ '','', []]"

definition attr_prefix :: "flex_table \<Rightarrow> string" where
  "attr_prefix t = ''SAI_'' @ py_upper (ft_cname t) @ ''_ENTRY_ATTR''"

definition vlan_of :: "string \<Rightarrow> nat" where
  "vlan_of type = (if type = ''sai_uint16_t'' then 1 else 0)"

definition key_attr :: "flex_lib \<Rightarrow> flex_table \<Rightarrow> string \<times> string \<Rightarrow> string res" where
  "key_attr lib t kt = (case kt of (key_type, key) \<Rightarrow>
     bindR (get_sai_key lib key) (\<lambda>(n, ty, obj).
     let hd = (\<lambda>b. (header_brief b)\<lparr>h_type := ty, h_objects := obj, h_flags := mandatory, h_isvlan := vlan_of ty\<rparr>);
         m = attr_prefix t @ ''_'' @ py_upper n in
     Inr (if key_type = ''exact'' then attr_entry (hd (''Matched key '' @ n)) m
       else if key_type = ''ternary'' then
         attr_entry (hd (''Matched key '' @ n @ '' (key)'')) (m @ ''_KEY'')
         @ attr_entry (hd (''Matched key '' @ n @ '' (mask)'')) (m @ ''_MASK'')
       else [])))"

definition param_attr :: "flex_table \<Rightarrow> string \<Rightarrow> json \<Rightarrow> string res" where
  "param_attr t action_name sai_param =
     bindR (jget_str sai_param ''type'') (\<lambda>ty.
     bindR (jget_str sai_param ''name'') (\<lambda>n.
     bindR (jget_str sai_param ''object_type'') (\<lambda>obj.
     Inr (attr_entry ((header_brief (''Action '' @ action_name @ '' parameter '' @ n))
       \<lparr>h_type := ty, h_objects := obj,
        h_condition := attr_prefix t @ ''_ACTION == SAI_'' @ py_upper (ft_cname t) @ ''_ENTRY_ACTION_''
          @ py_upper action_name, h_flags := mandatory, h_isvlan := vlan_of ty\<rparr>)
       (attr_prefix t @ ''_'' @ py_upper n)))))"

definition primitive_attr :: "flex_lib \<Rightarrow> flex_table \<Rightarrow> string \<Rightarrow> json \<Rightarrow> string res" where
  "primitive_attr lib t action_name primitive =
     bindR (jget_str primitive ''op'') (\<lambda>op.
     bindR (jget (fl_sai_actions lib) op) (\<lambda>sai_action.
     if jhas sai_action ''sai_params'' then
       bindR (jget_list sai_action ''sai_params'') (\<lambda>ps.
       bindR (mapR (param_attr t action_name) ps) (\<lambda>txts. Inr (concat txts)))
     else Inr []))"

definition json_items :: "json \<Rightarrow> json list res" where
  "json_items j = (if j \<in> {JNull, JBool False, JInt 0, JStr [], JObj []} then Inr [] else jlist j)"

definition action_attr :: "flex_lib \<Rightarrow> flex_table \<Rightarrow> string \<times> json \<Rightarrow> string res" where
  "action_attr lib t ai = (case ai of (action_name, action_id) \<Rightarrow>
     bindR (get_action_def lib action_id) (\<lambda>action_def.
     bindR (bindR (jget action_def ''primitives'') json_items) (\<lambda>primitives.
     bindR (mapR (primitive_attr lib t action_name) primitives) (\<lambda>txts. Inr (concat txts)))))"

definition table_attr :: "flex_lib \<Rightarrow> flex_table \<Rightarrow> string res" where
  "table_attr lib t =
     bindR (mapR (key_attr lib t) (zip (ft_key_types t) (ft_key_fields t))) (\<lambda>keys.
     bindR (mapR (action_attr lib t) (zip (ft_cactions t) (ft_action_ids t))) (\<lambda>acts.
     let p = attr_prefix t; c = ft_cname t in
     Inr (create_header (header_brief (''Attribute ID for '' @ c))
       @ subst_args (text_lines [''typedef enum _sai_%s_entry_attr_t'', ''{'']) [c]
       @ attr_entry (header_brief ''Start of attributes'') (p @ ''_START'')
       @ attr_entry ((header_brief ''Action'')\<lparr>h_type := ''sai_'' @ c @ ''_entry_action_t'', h_flags := mandatory\<rparr>)
           (p @ ''_ACTION = '' @ p @ ''_START'')
       @ (if ''ternary'' \<in> set (ft_key_types t)
          then attr_entry ((header_brief ''Rule priority in table'')\<lparr>h_type := ''sai_uint32_t'', h_flags := mandatory\<rparr>)
            (p @ ''_PRIORITY'') else [])
       @ concat keys
       @ (if ''exact'' \<in> set (ft_key_types t)
          then attr_entry ((header_brief ''Is default entry'')\<lparr>h_type := ''bool'', h_default := ''false'', h_flags := ''CREATE_ONLY''\<rparr>)
            (p @ ''_IS_DEFAULT'') else [])
       @ concat acts
       @ attr_entry (header_brief ''End of attributes'') (p @ ''_END'')
       @ text_lines [''    /** Custom range base value */'', ''    '' @ p @ ''_CUSTOM_RANGE_START = 0x10000000,'', []]
       @ text_lines [''    /** End of custom range base */'', ''    '' @ p @ ''_CUSTOM_RANGE_END,'', []]
       @ subst_args (text_lines [''} sai_%s_entry_attr_t;'', []]) [c])))"

definition sai_write_table_attr :: "flex_lib \<Rightarrow> string res" where
  "sai_write_table_attr lib = bindR (mapR (table_attr lib) (fl_tables lib)) (\<lambda>txts. Inr (concat txts))"

section \<open>Functions and object types\<close>

definition sai_write_table_api_fn :: "flex_lib \<Rightarrow> string" where
  "sai_write_table_api_fn lib =
     concat (map (\<lambda>t. concat (map (\<lambda>l. subst_args (text_line l) [ft_cname t, ft_cname t])
       [''    sai_create_%s_entry_fn            create_%s_entry;'',
        ''    sai_remove_%s_entry_fn            remove_%s_entry;'',
        ''    sai_set_%s_entry_attribute_fn    set_%s_entry_attribute;'',
        ''    sai_get_%s_entry_attribute_fn    get_%s_entry_attribute;''])) (fl_tables lib))
     @ subst_args (text_line ''    sai_get_%s_stats_fn    get_%s_stats;'') [fl_name lib, fl_name lib]
     @ subst_args (text_line ''    sai_clear_%s_stats_fn    clear_%s_stats;'') [fl_name lib, fl_name lib]"

definition status_return :: string where
  "status_return = ''#SAI_STATUS_SUCCESS on success Failure status code on error''"

definition table_fn_def :: "flex_table \<Rightarrow> string" where
  "table_fn_def t =
     create_header ((header_brief (subst_args ''Create %s_entry'' [ft_cname t]))
       \<lparr>h_params_out := [''entry_id Entry id''],
        h_params_in := [''switch_id Switch id'', ''attr_count Number of attributes'', ''attr_list Array of attributes''],
        h_return := status_return\<rparr>)
     @ subst_args (text_lines [''typedef sai_status_t(*sai_create_%s_entry_fn)('',
         ''        _Out_ sai_object_id_t *entry_id,'', ''        _In_ sai_object_id_t switch_id,'',
         ''        _In_ uint32_t attr_count,'', ''        _In_ const sai_attribute_t *attr_list);'', []]) [ft_cname t]
     @ create_header ((header_brief (subst_args ''Remove %s_entry'' [ft_cname t]))
       \<lparr>h_params_in := [''entry_id Entry id''], h_return := status_return\<rparr>)
     @ subst_args (text_lines [''typedef sai_status_t(*sai_remove_%s_entry_fn)('',
         ''        _In_ sai_object_id_t entry_id);'', []]) [ft_cname t]
     @ create_header ((header_brief (subst_args ''Set attribute for %s_entry'' [ft_cname t]))
       \<lparr>h_params_in := [''entry_id Entry id'', ''attr Attribute''], h_return := status_return\<rparr>)
     @ subst_args (text_lines [''typedef sai_status_t(*sai_set_%s_entry_attribute_fn)('',
         ''        _In_ sai_object_id_t entry_id,'', ''        _In_ const sai_attribute_t *attr);'', []]) [ft_cname t]
     @ create_header ((header_brief (subst_args ''Get attribute for %s_entry'' [ft_cname t]))
       \<lparr>h_params_inout := [''attr_list Array of attributes''],
        h_params_in := [''entry_id Entry id'', ''attr_count Number of attributes''], h_return := status_return\<rparr>)
     @ subst_args (text_lines [''typedef sai_status_t(*sai_get_%s_entry_attribute_fn)('',
         ''        _In_ sai_object_id_t entry_id,'', ''        _In_ uint32_t attr_count,'',
         ''        _Inout_ sai_attribute_t *attr_list);'', []]) [ft_cname t]"

definition counter_params :: "string list" where
  "counter_params = [''entry_id Entry id'', ''number_of_counters Number of counters in the array'',
     ''counter_ids Specifies the array of counter ids'']"

definition stats_fn_def :: "flex_lib \<Rightarrow> string" where
  "stats_fn_def lib =
     create_header ((header_brief ''Get statistics counters.'')
       \<lparr>h_params_out := [''counters Array of resulting counter values.''], h_params_in := counter_params,
        h_return := status_return\<rparr>)
     @ subst_args (text_lines [''typedef sai_status_t(*sai_get_%s_stats_fn)('',
         ''        _In_ sai_object_id_t entry_id,'', ''        _In_ uint32_t number_of_counters,'',
         ''        _In_ const sai_%s_stat_t *counter_ids,'', ''        _Out_ uint64_t *counters);'', []])
         [fl_name lib, fl_name lib]
     @ create_header ((header_brief ''Clear statistics counters.'')
       \<lparr>h_params_in := counter_params, h_return := status_return\<rparr>)
     @ subst_args (text_lines [''typedef sai_status_t(*sai_clear_%s_stats_fn)('',
         ''        _In_ sai_object_id_t entry_id,'', ''        _In_ uint32_t number_of_counters,'',
         ''        _In_ const sai_%s_stat_t *counter_ids);'', []]) [fl_name lib, fl_name lib]"

definition sai_write_table_fn_def :: "flex_lib \<Rightarrow> string" where
  "sai_write_table_fn_def lib = concat (map table_fn_def (fl_tables lib)) @ stats_fn_def lib"

text \<open>The loop carries the next object number.\<close>

fun object_type_lines :: "int \<Rightarrow> flex_table list \<Rightarrow> string \<times> int" where
  "object_type_lines obj_num [] = ([], obj_num)"
| "object_type_lines obj_num (t # ts) =
     (let (c_code, n) = object_type_lines (obj_num + 1) ts in
      (subst_args (text_line ''    SAI_OBJECT_TYPE_%s_ENTRY                = %d,'')
         [py_upper (ft_cname t), str_of_int obj_num] @ c_code, n))"

definition sai_write_object_type :: "flex_lib \<Rightarrow> int \<Rightarrow> string" where
  "sai_write_object_type lib obj_num = (let (c_code, n) = object_type_lines obj_num (fl_tables lib) in
     c_code @ subst_args (text_line ''    SAI_OBJECT_TYPE_MAX                      = %d,'') [str_of_int n])"

definition pipe_in_use :: "flex_lib \<Rightarrow> string \<Rightarrow> bool" where
  "pipe_in_use lib pipe \<longleftrightarrow> list_ex (\<lambda>t. ft_flexPipe t = pipe) (fl_tables lib)"

definition sai_write_api_initialize :: "flex_lib \<Rightarrow> string" where
  "sai_write_api_initialize lib =
     (let if_list0 = concat (map (\<lambda>pipe. if pipe_in_use lib pipe
            then subst_args ''sai_object_list_t %s_if_list, '' [pipe] else []) (fl_flexPipes lib));
          if_list = take (length if_list0 - 2) if_list0 in
      subst_args (text_line ''sai_status_t sai_ext_api_initialize(%s);'') [if_list]
      @ subst_args (text_line ''sai_status_t sai_ext_api_uninitialize(%s);'') [if_list])"

definition sai_write_stats_def :: "flex_lib \<Rightarrow> string" where
  "sai_write_stats_def lib =
     create_header (header_brief (subst_args ''Counter IDs in sai_get_%s_stats() call'' [fl_name lib]))
     @ subst_args (text_lines [''typedef enum _sai_%s_stat_t'', ''{'']) [fl_name lib]
     @ concat (map (\<lambda>t.
         subst_args (text_line ''    SAI_%s_STAT_%s_HIT_PACKETS,'') [py_upper (fl_name lib), py_upper (ft_cname t)]
         @ subst_args (text_line ''    SAI_%s_STAT_%s_HIT_OCTETS,'') [py_upper (fl_name lib), py_upper (ft_cname t)])
         (fl_tables lib))
     @ subst_args (text_line ''} sai_%s_stat_t;'') [fl_name lib]"

definition sai_write_object_type_enum :: "flex_lib \<Rightarrow> string" where
  "sai_write_object_type_enum lib = concat (map (\<lambda>t.
     subst_args (text_line ''        SAI_OJECT_TYPE_%s_ENTRY,'') [py_upper (ft_cname t)]) (fl_tables lib))"

definition sai_write_lib_api :: "flex_lib \<Rightarrow> string" where
  "sai_write_lib_api lib = concat (map (\<lambda>t. concat (map (\<lambda>l. subst_args (text_line l) [py_lower (ft_cname t)])
     [''        mlnx_create_%s_entry,'', ''        mlnx_remove_%s_entry,'',
      ''        mlnx_set_%s_entry_attribute,'', ''        mlnx_get_%s_entry_attribute,''])) (fl_tables lib))"

definition sai_write_create_destroy_pipes :: "flex_lib \<Rightarrow> string \<Rightarrow> string" where
  "sai_write_create_destroy_pipes lib cmd = concat (map (\<lambda>pipe. if pipe_in_use lib pipe
     then subst_args (text_lines
       [''        rc = fx_pipe_%s(fx_handle, FX_%s, (void *)port_list, num_of_ports);'',
        ''        if (rc) {'', ''            printf(\"Error - rc:%%d'' @ [CHR 0x5C] @ ''n\", rc);'',
        ''            return rc;'', ''        }'']) [cmd, py_upper pipe] else []) (fl_flexPipes lib))"

section \<open>Reading attribute values\<close>

definition add_attribute :: "string \<Rightarrow> string \<Rightarrow> string \<Rightarrow> string \<Rightarrow> string \<Rightarrow> string res" where
  "add_attribute table_name attribute_name attribute_type attr_key attr_mask =
     bindR (fmt (text_line ''        %s %s_%s;'') [attribute_type, table_name, attribute_name]) (\<lambda>c0.
     bindR (if attr_mask \<noteq> [] then fmt (text_line ''        %s %s_%s_mask;'') [attribute_type, table_name, attribute_name]
            else Inr []) (\<lambda>c1.
     bindR (fmt (text_line ''                 find_attrib_in_list(attr_count, attr_list, SAI_TABLE_%s_ENTRY_ATTR_%s, &attr, &attr_idx)))'')
       [py_upper table_name, py_upper attribute_name]) (\<lambda>c2.
     bindR (if attr_key = ''attr->oid'' then Inr ''abvdasdf''
            else fmt (text_line ''            %s_%s = %s;'') [table_name, attribute_name, attr_key]) (\<lambda>c3.
     bindR (if attr_mask \<noteq> []
            then fmt (text_line ''            %s_%s_mask = %s;'') [attribute_type, table_name, attribute_name, attr_mask]
            else Inr []) (\<lambda>c4.
     bindR (fmt (text_line (''            MLNX_SAI_LOG_ERR(\"Did not recieve mandatory %s attribute'' @ [CHR 0x5C] @ ''n\");''))
       [attribute_name]) (\<lambda>c5.
     Inr (c0 @ c1 @ text_lines [''        if (SAI_STATUS_SUCCESS =='', ''            (sai_status =='']
       @ c2 @ text_line ''        {'' @ c3 @ c4 @ text_lines [''        }'', ''        else'', ''        {'']
       @ c5 @ text_lines [''            return SAI_STATUS_INVALID_PARAMETER;'', ''        }''])))))))"

text \<open>Type and source expression of a key; a type in none of the four cases leaves both names
  unbound.\<close>

definition key_source :: "string \<Rightarrow> string \<Rightarrow> (string \<times> string) option" where
  "key_source sai_key_type sai_key_sdk_type =
     (if sai_key_type = ''sai_object_id_t'' then Some (sai_key_sdk_type, ''attr->oid'')
      else if sai_key_type = ''sai_ip_address_t'' then Some (''uint32_t'', ''ntohl((uint32_t) attr->ipaddr.addr.ip4);'')
      else if sai_key_type = ''sai_uint16_t'' then Some (''uint16_t'', ''attr->u16'')
      else if sai_key_type = ''sai_uint32_t'' then Some (''uint32_t'', ''attr->u32'')
      else None)"

definition get_attr_exact :: "string \<Rightarrow> string \<Rightarrow> (string \<times> string) res" where
  "get_attr_exact sai_key_type sai_key_sdk_type =
     (case key_source sai_key_type sai_key_sdk_type of
        Some p \<Rightarrow> Inr p | None \<Rightarrow> Inl UnboundLocalError)"

text \<open>\<open>attr_mask\<close> is not a name of the function or of the module.\<close>

definition get_attr_ternary :: "string \<Rightarrow> string \<Rightarrow> (string \<times> string \<times> string) res" where
  "get_attr_ternary sai_key_type sai_key_sdk_type =
     (case key_source sai_key_type sai_key_sdk_type of
        Some p \<Rightarrow> Inl NameError | None \<Rightarrow> Inl UnboundLocalError)"

text \<open>\<open>get_sai_key\<close> returns three values where the loop unpacks four.\<close>

definition attribute_value :: "flex_lib \<Rightarrow> string \<Rightarrow> string \<times> string \<Rightarrow> string res" where
  "attribute_value lib name kt = (case kt of (key_type, key) \<Rightarrow>
     bindR (get_sai_key lib key) (\<lambda>(sai_key_name, sai_key_type, sai_object_type). Inl ValueError))"

definition sai_get_attribute_values :: "flex_lib \<Rightarrow> flex_table \<Rightarrow> string res" where
  "sai_get_attribute_values lib t = (let name = after_last ''table_'' (ft_cname t) in
     bindR (add_attribute name ''action'' ''flextrum_action_id_t'' ''attr->s32'' []) (\<lambda>c0.
     bindR (if ''ternary'' \<in> set (ft_key_types t)
            then add_attribute name ''priority'' ''uint32_t'' ''attr->u32'' [] else Inr []) (\<lambda>c1.
     bindR (mapR (attribute_value lib name) (zip (ft_key_types t) (ft_key_fields t))) (\<lambda>cs.
     Inr (c0 @ c1 @ concat cs)))))"

section \<open>Filling the templates\<close>

definition name_line :: "string \<Rightarrow> string \<Rightarrow> string" where
  "name_line name l = replace_all ''|filename|'' (py_lower name) (replace_all ''|FILENAME|'' (py_upper name) l)"

definition template_line :: "flex_lib \<Rightarrow> string \<Rightarrow> string res" where
  "template_line lib l0 = (let l = name_line (fl_name lib) l0 in
     if contains_sub ''__PER_TABLE_ACTION_ENUM__'' l then Inr (sai_write_table_action_enum lib)
     else if contains_sub ''__PER_TABLE_ATTR_ENUM__'' l then sai_write_table_attr lib
     else if contains_sub ''__STATS_DEF__'' l then Inr (sai_write_stats_def lib)
     else if contains_sub ''__PER_TABLE_FN_DEF__'' l then Inr (sai_write_table_fn_def lib)
     else if contains_sub ''__PER_TABLE_API_FN__'' l then Inr (sai_write_table_api_fn lib)
     else if contains_sub ''__EXT_API_INITIALIZE__'' l then Inr (sai_write_api_initialize lib)
     else Inr l)"

definition types_line :: "flex_lib \<Rightarrow> string \<Rightarrow> string res" where
  "types_line lib l = (if contains_sub ''___SAI_OBJECT_TYPE___'' l
     then bindR (py_int (after_last ''___'' l)) (\<lambda>n. Inr (sai_write_object_type lib n)) else Inr l)"

text \<open>\<open>with open(t) as t, open(o, 'w') as o: for line in t.readlines(): o.write(fill(line))\<close>.\<close>

definition fill_template :: "(string \<Rightarrow> string res) \<Rightarrow> string \<Rightarrow> string \<Rightarrow> (world, unit) py" where
  "fill_template fill src dst = bindP (read_lines src) (\<lambda>ls. thenP (open_out dst)
     (forP ls (\<lambda>l. bindP (liftP (fill l)) (write_out dst))))"

definition sai_create_lib_headers :: "flex_lib \<Rightarrow> string \<Rightarrow> (world, unit) py" where
  "sai_create_lib_headers lib template_dir =
     thenP (fill_template (template_line lib) (fl_h_template_path lib) (fl_h_path lib))
     (thenP (fill_template (\<lambda>l. Inr (name_line (fl_name lib) l))
        (path_join template_dir ''sai.h'') (path_join (fl_inc_path lib) ''sai.h''))
     (fill_template (types_line lib) (path_join template_dir ''saitypes.h'')
        (path_join (fl_inc_path lib) ''saitypes.h'')))"

definition sai_create_header :: "string \<Rightarrow> string \<Rightarrow> string \<Rightarrow> (world, unit) py" where
  "sai_create_header template_path output_path lib_name =
     fill_template (\<lambda>l. Inr (name_line lib_name l)) template_path output_path"

definition create_outputs :: "flex_lib \<Rightarrow> (world, unit) py" where
  "create_outputs lib = (let template_dir = path_join3 (fl_backend_path lib) ''output_stage'' ''SAI_templates'';
       lib1 = api_set_lib_paths lib template_dir in
     thenP (sai_create_lib_headers lib1 template_dir) (raiseP (SystemExit 0)))"

section \<open>Main flow\<close>

record compiler_args =
  ca_json_path :: string
  ca_output_path :: string
  ca_backend_path :: string
  ca_runtime_path :: string
  ca_visio :: bool
  ca_api :: string

definition resolve_output :: "string \<Rightarrow> compiler_args \<Rightarrow> string" where
  "resolve_output cwd a = (let out = ca_output_path a in
     if out = ''use_json_path'' then path_dir (ca_json_path a)
     else if out = [] \<or> hd out \<noteq> CHR ''/'' then path_join cwd out else out)"

definition lib_name_of :: "string \<Rightarrow> string" where
  "lib_name_of json_path = ''lib'' @ hd (split_char (CHR ''.'') (last (split_char (CHR ''/'') json_path)))"

text \<open>\<open>abspath\<close> is \<open>os.path.abspath\<close>; \<open>None\<close> stands for a compilation that never ends.\<close>

definition main_flow :: "svg_text \<Rightarrow> (string \<Rightarrow> string) \<Rightarrow> string \<Rightarrow> compiler_args \<Rightarrow> world
   \<Rightarrow> (unit res \<times> world) option" where
  "main_flow svg abspath cwd a w =
     (let out = resolve_output cwd a in
      case FlexLib (lib_name_of (ca_json_path a)) (ca_backend_path a) out (ca_json_path a)
             (abspath (ca_runtime_path a)) w of
        (Inl e, w1) \<Rightarrow> Some (Inl e, w1)
      | (Inr lib, w1) \<Rightarrow>
          (case interp_p4c_json_stage_output lib (w_json w1 (ca_json_path a)) of
             None \<Rightarrow> None
           | Some (Inl e) \<Rightarrow> Some (Inl e, w1)
           | Some (Inr lib1) \<Rightarrow> Some (
               thenP (if ca_visio a then create_visio svg lib1 else retP ())
               (if ca_api a = ''P4runtime'' \<or> ca_api a = ''SDK'' then raiseP (SystemExit 1)
                else if ca_api a = ''SAI'' then create_outputs lib1
                else raiseP NameError) w1)))"

section \<open>What the writers promise\<close>

lemma subst_args_plain: "CHR ''%'' \<notin> set s \<Longrightarrow> subst_args s args = s"
  by (induction s args rule: subst_args.induct) auto

text \<open>The object types of the tables are numbered consecutively from the number
  the template gives, in table order, and the maximum is the number after the last.
\<close>
theorem object_types_consecutive:
  "sai_write_object_type lib n =
     concat (map (\<lambda>i. subst_args (text_line ''    SAI_OBJECT_TYPE_%s_ENTRY                = %d,'')
       [py_upper (ft_cname (fl_tables lib ! i)), str_of_int (n + int i)]) [0..<length (fl_tables lib)])
     @ subst_args (text_line ''    SAI_OBJECT_TYPE_MAX                      = %d,'')
         [str_of_int (n + int (length (fl_tables lib)))]"
proof -
  have l: "object_type_lines n ts =
      (concat (map (\<lambda>i. subst_args (text_line ''    SAI_OBJECT_TYPE_%s_ENTRY                = %d,'')
         [py_upper (ft_cname (ts ! i)), str_of_int (n + int i)]) [0..<length ts]), n + int (length ts))"
    for ts
  proof (induction ts arbitrary: n)
    case (Cons t ts)
    show ?case
      by (simp add: Cons.IH upt_conv_Cons map_Suc_upt [symmetric] comp_def ac_simps del: upt_Suc subst_args.simps)
  qed simp
  show ?thesis unfolding sai_write_object_type_def l by simp
qed

lemma join_take_sep:
  "xs \<noteq> [] \<Longrightarrow> take (length (concat (map (\<lambda>x. x @ sep) xs)) - length sep) (concat (map (\<lambda>x. x @ sep) xs))
     = join sep xs"
proof (induction xs)
  case (Cons x xs)
  show ?case
  proof (cases "xs = []")
    case False
    then have "length sep \<le> length (concat (map (\<lambda>x. x @ sep) xs))" by (cases xs) auto
    then have "length (concat (map (\<lambda>x. x @ sep) (x # xs))) - length sep
        = length x + (length sep + (length (concat (map (\<lambda>x. x @ sep) xs)) - length sep))" by simp
    then show ?thesis using Cons.IH [OF False] False by (simp add: join_Cons)
  qed simp
qed simp

text \<open>
  The parameters of the initialization function are the port lists of the
  pipes that have a table, in pipe order and separated by commas; with no table it has none.
\<close>
theorem api_initialize_parameters:
  "sai_write_api_initialize lib =
     (let ps = join '', '' (map (\<lambda>pipe. ''sai_object_list_t '' @ pipe @ ''_if_list'')
         (filter (pipe_in_use lib) (fl_flexPipes lib))) in
      ''sai_status_t sai_ext_api_initialize('' @ ps @ text_line '');''
      @ ''sai_status_t sai_ext_api_uninitialize('' @ ps @ text_line '');'')"
proof -
  have one: "subst_args ''sai_object_list_t %s_if_list, '' [pipe]
      = (''sai_object_list_t '' @ pipe @ ''_if_list'') @ '', ''" for pipe by simp
  have c: "concat (map (\<lambda>pipe. if P pipe then f pipe @ '', '' else []) ps)
      = concat (map (\<lambda>x. x @ '', '') (map f (filter P ps)))" for P f and ps :: "string list"
    by (induction ps) auto
  have t: "take (length (concat (map (\<lambda>x. x @ '', '') xs)) - 2) (concat (map (\<lambda>x. x @ '', '') xs))
      = join '', '' xs" for xs
    using join_take_sep [of xs "'', ''"] by (cases "xs = []") (simp_all add: numeral_2_eq_2)
  show ?thesis
    unfolding sai_write_api_initialize_def one c Let_def t by (simp add: text_line_def)
qed

text \<open>The function types a structure member line names, and a declaration of one.\<close>

definition api_function_types :: "flex_lib \<Rightarrow> string list" where
  "api_function_types lib = map first_word (lines_of (sai_write_table_api_fn lib))"

definition declares_function :: "string \<Rightarrow> string \<Rightarrow> bool" where
  "declares_function text name \<longleftrightarrow> contains_sub (''typedef sai_status_t(*'' @ name @ '')('') text"

definition c_word :: "string \<Rightarrow> bool" where
  "c_word s \<longleftrightarrow> (\<forall>c \<in> set s. \<not> is_ws c)"

lemma c_word_nl: "c_word s \<Longrightarrow> CHR 0x0A \<notin> set s"
  by (auto simp: c_word_def is_ws_def)

definition table_fn_names :: "string \<Rightarrow> string list" where
  "table_fn_names n = [''sai_create_'' @ n @ ''_entry_fn'', ''sai_remove_'' @ n @ ''_entry_fn'',
     ''sai_set_'' @ n @ ''_entry_attribute_fn'', ''sai_get_'' @ n @ ''_entry_attribute_fn'']"

definition stats_fn_names :: "string \<Rightarrow> string list" where
  "stats_fn_names n = [''sai_get_'' @ n @ ''_stats_fn'', ''sai_clear_'' @ n @ ''_stats_fn'']"

definition table_fn_lines :: "string \<Rightarrow> string list" where
  "table_fn_lines n = [''    sai_create_'' @ n @ ''_entry_fn            create_'' @ n @ ''_entry;'',
     ''    sai_remove_'' @ n @ ''_entry_fn            remove_'' @ n @ ''_entry;'',
     ''    sai_set_'' @ n @ ''_entry_attribute_fn    set_'' @ n @ ''_entry_attribute;'',
     ''    sai_get_'' @ n @ ''_entry_attribute_fn    get_'' @ n @ ''_entry_attribute;'']"

definition stats_fn_lines :: "string \<Rightarrow> string list" where
  "stats_fn_lines n = [''    sai_get_'' @ n @ ''_stats_fn    get_'' @ n @ ''_stats;'',
     ''    sai_clear_'' @ n @ ''_stats_fn    clear_'' @ n @ ''_stats;'']"

lemma api_fn_lines:
  "sai_write_table_api_fn lib = concat (map text_line
     (concat (map (\<lambda>t. table_fn_lines (ft_cname t)) (fl_tables lib)) @ stats_fn_lines (fl_name lib)))"
proof -
  have t: "concat (map (\<lambda>l. subst_args (text_line l) [n, n])
       [''    sai_create_%s_entry_fn            create_%s_entry;'',
        ''    sai_remove_%s_entry_fn            remove_%s_entry;'',
        ''    sai_set_%s_entry_attribute_fn    set_%s_entry_attribute;'',
        ''    sai_get_%s_entry_attribute_fn    get_%s_entry_attribute;''])
      = concat (map text_line (table_fn_lines n))" for n
    by (simp add: text_line_def table_fn_lines_def)
  have s: "subst_args (text_line ''    sai_get_%s_stats_fn    get_%s_stats;'') [n, n]
     @ subst_args (text_line ''    sai_clear_%s_stats_fn    clear_%s_stats;'') [n, n]
      = concat (map text_line (stats_fn_lines n))" for n
    by (simp add: text_line_def stats_fn_lines_def)
  have c: "concat (map text_line (concat (map f ts) @ ss))
      = concat (map (\<lambda>t. concat (map text_line (f t))) ts) @ concat (map text_line ss)"
    for f :: "flex_table \<Rightarrow> string list" and ts ss
    by (induction ts) simp_all
  show ?thesis unfolding sai_write_table_api_fn_def t s c ..
qed

lemma first_word_at:
  "\<forall>c \<in> set w. \<not> is_ws c \<Longrightarrow> w \<noteq> [] \<Longrightarrow> first_word (''    '' @ w @ CHR '' '' # r) = w"
proof -
  assume w: "\<forall>c \<in> set w. \<not> is_ws c" "w \<noteq> []"
  have s: "is_ws (CHR '' '')" by (simp add: is_ws_def)
  have "dropWhile is_ws (''    '' @ w @ CHR '' '' # r) = w @ CHR '' '' # r"
    using w s by (cases w) auto
  then show ?thesis unfolding first_word_def using w s by (simp add: takeWhile_append2)
qed

lemma fn_lines_first:
  assumes "c_word n"
  shows "map first_word (table_fn_lines n) = table_fn_names n"
    "map first_word (stats_fn_lines n) = stats_fn_names n"
proof -
  have w: "first_word (CHR '' '' # CHR '' '' # CHR '' '' # CHR '' '' # p @ n @ q @ CHR '' '' # r) = p @ n @ q"
    if "\<forall>c \<in> set (p @ q). \<not> is_ws c" "p \<noteq> []" for p q r
    using first_word_at [of "p @ n @ q" r] that assms by (auto simp: c_word_def)
  note e1 = w [of "''sai_create_''" "''_entry_fn''" "''           create_'' @ n @ ''_entry;''"]
    and e2 = w [of "''sai_remove_''" "''_entry_fn''" "''           remove_'' @ n @ ''_entry;''"]
    and e3 = w [of "''sai_set_''" "''_entry_attribute_fn''" "''   set_'' @ n @ ''_entry_attribute;''"]
    and e4 = w [of "''sai_get_''" "''_entry_attribute_fn''" "''   get_'' @ n @ ''_entry_attribute;''"]
    and e5 = w [of "''sai_get_''" "''_stats_fn''" "''   get_'' @ n @ ''_stats;''"]
    and e6 = w [of "''sai_clear_''" "''_stats_fn''" "''   clear_'' @ n @ ''_stats;''"]
  show "map first_word (table_fn_lines n) = table_fn_names n"
    using e1 e2 e3 e4 by (simp add: table_fn_lines_def table_fn_names_def is_ws_def)
  show "map first_word (stats_fn_lines n) = stats_fn_names n"
    using e5 e6 by (simp add: stats_fn_lines_def stats_fn_names_def is_ws_def)
qed

lemma fn_lines_nl:
  "c_word n \<Longrightarrow> \<forall>l \<in> set (table_fn_lines n @ stats_fn_lines n). CHR 0x0A \<notin> set l \<and> l \<noteq> []"
  using c_word_nl [of n] by (simp add: table_fn_lines_def stats_fn_lines_def)

lemma api_types_names:
  assumes "\<forall>t \<in> set (fl_tables lib). c_word (ft_cname t)" "c_word (fl_name lib)"
  shows "api_function_types lib = concat (map (\<lambda>t. table_fn_names (ft_cname t)) (fl_tables lib))
    @ stats_fn_names (fl_name lib)"
proof -
  let ?ls = "concat (map (\<lambda>t. table_fn_lines (ft_cname t)) (fl_tables lib)) @ stats_fn_lines (fl_name lib)"
  have nl: "\<forall>l \<in> set ?ls. CHR 0x0A \<notin> set l \<and> l \<noteq> []"
  proof
    fix l assume "l \<in> set ?ls"
    then consider t where "t \<in> set (fl_tables lib)" "l \<in> set (table_fn_lines (ft_cname t))"
      | "l \<in> set (stats_fn_lines (fl_name lib))" by auto
    then show "CHR 0x0A \<notin> set l \<and> l \<noteq> []"
      using assms fn_lines_nl by cases (metis Un_iff set_append)+
  qed
  then have "lines_of (sai_write_table_api_fn lib) = ?ls"
    unfolding api_fn_lines by (subst lines_of_text_lines) (auto simp: filter_id_conv)
  moreover have "map first_word (concat (map (\<lambda>t. table_fn_lines (ft_cname t)) ts))
      = concat (map (\<lambda>t. table_fn_names (ft_cname t)) ts)"
    if "\<forall>t \<in> set ts. c_word (ft_cname t)" for ts
    using that by (induction ts) (auto simp: fn_lines_first)
  ultimately show ?thesis using assms by (simp add: api_function_types_def fn_lines_first)
qed

lemma declares_prefix:
  "prefix (''typedef sai_status_t(*'' @ n @ '')('') text \<Longrightarrow> declares_function text n"
  unfolding declares_function_def contains_sub_iff prefix_def by (metis append_Nil append.assoc)

lemma declares_append: "declares_function a n \<or> declares_function b n \<Longrightarrow> declares_function (a @ b) n"
  unfolding declares_function_def by (rule contains_sub_append)

lemma table_fn_declared:
  assumes "n \<in> set (table_fn_names (ft_cname t))"
  shows "declares_function (table_fn_def t) n"
proof -
  let ?c = "ft_cname t"
  have 1: "declares_function (subst_args (text_lines [''typedef sai_status_t(*sai_create_%s_entry_fn)('',
         ''        _Out_ sai_object_id_t *entry_id,'', ''        _In_ sai_object_id_t switch_id,'',
         ''        _In_ uint32_t attr_count,'', ''        _In_ const sai_attribute_t *attr_list);'', []]) [?c])
      (''sai_create_'' @ ?c @ ''_entry_fn'')"
    by (rule declares_prefix) (simp add: text_lines_def text_line_def)
  have 2: "declares_function (subst_args (text_lines [''typedef sai_status_t(*sai_remove_%s_entry_fn)('',
         ''        _In_ sai_object_id_t entry_id);'', []]) [?c]) (''sai_remove_'' @ ?c @ ''_entry_fn'')"
    by (rule declares_prefix) (simp add: text_lines_def text_line_def)
  have 3: "declares_function (subst_args (text_lines [''typedef sai_status_t(*sai_set_%s_entry_attribute_fn)('',
         ''        _In_ sai_object_id_t entry_id,'', ''        _In_ const sai_attribute_t *attr);'', []]) [?c])
      (''sai_set_'' @ ?c @ ''_entry_attribute_fn'')"
    by (rule declares_prefix) (simp add: text_lines_def text_line_def)
  have 4: "declares_function (subst_args (text_lines [''typedef sai_status_t(*sai_get_%s_entry_attribute_fn)('',
         ''        _In_ sai_object_id_t entry_id,'', ''        _In_ uint32_t attr_count,'',
         ''        _Inout_ sai_attribute_t *attr_list);'', []]) [?c]) (''sai_get_'' @ ?c @ ''_entry_attribute_fn'')"
    by (rule declares_prefix) (simp add: text_lines_def text_line_def)
  have d1: "declares_function (table_fn_def t) (''sai_create_'' @ ?c @ ''_entry_fn'')"
    unfolding table_fn_def_def
    by (rule 1 | rule declares_append [OF disjI1], rule 1 | rule declares_append [OF disjI2])+
  have d2: "declares_function (table_fn_def t) (''sai_remove_'' @ ?c @ ''_entry_fn'')"
    unfolding table_fn_def_def
    by (rule 2 | rule declares_append [OF disjI1], rule 2 | rule declares_append [OF disjI2])+
  have d3: "declares_function (table_fn_def t) (''sai_set_'' @ ?c @ ''_entry_attribute_fn'')"
    unfolding table_fn_def_def
    by (rule 3 | rule declares_append [OF disjI1], rule 3 | rule declares_append [OF disjI2])+
  have d4: "declares_function (table_fn_def t) (''sai_get_'' @ ?c @ ''_entry_attribute_fn'')"
    unfolding table_fn_def_def
    by (rule 4 | rule declares_append [OF disjI1], rule 4 | rule declares_append [OF disjI2])+
  show ?thesis
    using assms unfolding table_fn_names_def list.set insert_iff empty_iff
    by (elim disjE FalseE) (simp_all only: d1 d2 d3 d4)
qed

lemma stats_fn_declared:
  assumes "n \<in> set (stats_fn_names (fl_name lib))"
  shows "declares_function (stats_fn_def lib) n"
proof -
  let ?c = "fl_name lib"
  have 1: "declares_function (subst_args (text_lines [''typedef sai_status_t(*sai_get_%s_stats_fn)('',
         ''        _In_ sai_object_id_t entry_id,'', ''        _In_ uint32_t number_of_counters,'',
         ''        _In_ const sai_%s_stat_t *counter_ids,'', ''        _Out_ uint64_t *counters);'', []])
         [?c, ?c]) (''sai_get_'' @ ?c @ ''_stats_fn'')"
    by (rule declares_prefix) (simp add: text_lines_def text_line_def)
  have 2: "declares_function (subst_args (text_lines [''typedef sai_status_t(*sai_clear_%s_stats_fn)('',
         ''        _In_ sai_object_id_t entry_id,'', ''        _In_ uint32_t number_of_counters,'',
         ''        _In_ const sai_%s_stat_t *counter_ids);'', []]) [?c, ?c]) (''sai_clear_'' @ ?c @ ''_stats_fn'')"
    by (rule declares_prefix) (simp add: text_lines_def text_line_def)
  have d1: "declares_function (stats_fn_def lib) (''sai_get_'' @ ?c @ ''_stats_fn'')"
    unfolding stats_fn_def_def
    by (rule 1 | rule declares_append [OF disjI1], rule 1 | rule declares_append [OF disjI2])+
  have d2: "declares_function (stats_fn_def lib) (''sai_clear_'' @ ?c @ ''_stats_fn'')"
    unfolding stats_fn_def_def
    by (rule 2 | rule declares_append [OF disjI1], rule 2 | rule declares_append [OF disjI2])+
  show ?thesis
    using assms unfolding stats_fn_names_def list.set insert_iff empty_iff
    by (elim disjE FalseE) (simp_all only: d1 d2)
qed

text \<open>C37 (invariant). Every function type that the generated API structure names is declared in the
  generated declarations, for the tables and for the counters of the library.
\<close>
theorem api_functions_declared:
  assumes "\<forall>t \<in> set (fl_tables lib). c_word (ft_cname t)" "c_word (fl_name lib)"
  shows "list_all (declares_function (sai_write_table_fn_def lib)) (api_function_types lib)"
proof -
  have "declares_function (concat (map table_fn_def (fl_tables lib))) n"
    if "t \<in> set (fl_tables lib)" "n \<in> set (table_fn_names (ft_cname t))" for t n
    using table_fn_declared [OF that(2)] that(1) unfolding declares_function_def
    by (intro contains_sub_concat [of "table_fn_def t"]) auto
  then show ?thesis
    using stats_fn_declared unfolding sai_write_table_fn_def_def api_types_names [OF assms] list_all_iff
    by (auto intro!: declares_append)
qed

lemma demo_cname: "ft_cname (demo_flex (demo_table ''a'' JNull)) = ''a''"
  by (simp add: demo_flex_def demo_table_def name_of_def od_get_def FlexTable_def get_canonical_c_name_def)

theorem api_functions_declared_witness:
  "list_all (declares_function (sai_write_table_fn_def (demo_lib\<lparr>fl_tables := [demo_flex (demo_table ''a'' JNull)]\<rparr>)))
     (api_function_types (demo_lib\<lparr>fl_tables := [demo_flex (demo_table ''a'' JNull)]\<rparr>))"
  by (rule api_functions_declared) (simp_all add: demo_cname c_word_def is_ws_def, simp add: demo_lib_def)

text \<open>
  The name of the library is what follows the last \<open>lib\<close> of its file name, so a
  program whose own name ends with \<open>lib\<close> loses its name altogether: its header is \<open>sai.h\<close>, the
  very file the second template then overwrites.
\<close>
theorem lib_name_lost:
  "(let lib' = api_set_lib_paths (lib\<lparr>fl_name := lib_name_of ''p4/calib.json''\<rparr>) td in
    fl_name lib' = [] \<and> fl_h_path lib' = path_join (fl_inc_path lib') ''sai.h'')"
proof -
  have 1: "lib_name_of ''p4/calib.json'' = ''libcalib''" by code_simp
  have 2: "after_last ''lib'' ''libcalib'' = []" by code_simp
  show ?thesis by (simp add: api_set_lib_paths_def 1 2 Let_def)
qed

text \<open>
  For every other program, one whose name does not contain \<open>lib\<close>, the library
  is named after the program.
\<close>
theorem lib_name_kept:
  assumes "\<not> contains_sub ''lib'' name"
  shows "fl_name (api_set_lib_paths (lib\<lparr>fl_name := ''lib'' @ name\<rparr>) td) = name"
proof -
  have f: "find_sub ''lib'' name = None" using assms by (simp add: contains_sub_def)
  have s: "find_sub ''lib'' (''lib'' @ name) = Some 0" by simp
  have "after_last ''lib'' (''lib'' @ name) = after_last ''lib'' name"
    by (subst after_last.simps) (simp add: s [simplified])
  also have "\<dots> = name" by (subst after_last.simps) (simp add: f)
  finally show ?thesis by (simp add: api_set_lib_paths_def Let_def)
qed

theorem lib_name_kept_witness:
  "fl_name (api_set_lib_paths (demo_lib\<lparr>fl_name := ''lib'' @ ''telemetry''\<rparr>) ''t'') = ''telemetry''"
  by (rule lib_name_kept) (simp add: contains_sub_def)

text \<open>
  Reading the attribute values of a table never succeeds for a table with a key:
  three values are unpacked into four names; reading a ternary key fails in every case as
  well, on an unbound name, and so does any attribute with a mask, on the number of arguments
  of its format.
\<close>
theorem attribute_values_fail:
  "(zip (ft_key_types t) (ft_key_fields t) \<noteq> [] \<longrightarrow> (\<exists>e. sai_get_attribute_values lib t = Inl e))
   \<and> (\<exists>e. get_attr_ternary ty sdk = Inl e)
   \<and> (m \<noteq> [] \<longrightarrow> add_attribute n a at k m = Inl TypeError)"
proof (intro conjI impI)
  assume "zip (ft_key_types t) (ft_key_fields t) \<noteq> []"
  then obtain k ks where z: "zip (ft_key_types t) (ft_key_fields t) = k # ks"
    by (cases "zip (ft_key_types t) (ft_key_fields t)") auto
  have "\<exists>e. attribute_value lib name k = Inl e" for name
    by (cases "get_sai_key lib (snd k)") (auto simp: attribute_value_def case_prod_unfold)
  then have "\<exists>e. mapR (attribute_value lib name) (k # ks) = Inl e" for name
    by (metis bindR_simps(1) mapR.simps(2))
  then have f: "\<exists>e. bindR (mapR (attribute_value lib name) (k # ks)) g = Inl e" for name and g :: "string list \<Rightarrow> string res"
    by (metis bindR_simps(1))
  have b: "\<exists>e. bindR r g = Inl e" if "\<And>x. \<exists>e. g x = Inl e" for r and g :: "string \<Rightarrow> string res"
    using that by (cases r) auto
  show "\<exists>e. sai_get_attribute_values lib t = Inl e"
    unfolding sai_get_attribute_values_def z Let_def by (rule b)+ (rule f)
next
  show "\<exists>e. get_attr_ternary ty sdk = Inl e"
    by (cases "key_source ty sdk") (auto simp: get_attr_ternary_def)
next
  assume m: "m \<noteq> []"
  have p: "places (text_line ''        %s %s_%s;'') = 3" "places (text_line ''        %s %s_%s_mask;'') = 3"
    "places (text_line ''            %s_%s = %s;'') = 3" "places (text_line ''            %s_%s_mask = %s;'') = 3"
    "places (text_line ''                 find_attrib_in_list(attr_count, attr_list, SAI_TABLE_%s_ENTRY_ATTR_%s, &attr, &attr_idx)))'') = 2"
    by (simp_all add: text_line_def)
  show "add_attribute n a at k m = Inl TypeError"
    using m by (simp add: add_attribute_def fmt_def p)
qed

theorem attribute_values_fail_witness:
  "(\<exists>e. sai_get_attribute_values demo_lib (demo_flex (demo_table ''a'' JNull)) = Inl e)
   \<and> add_attribute ''t'' ''a'' ''uint32_t'' ''attr->u32'' ''m'' = Inl TypeError"
proof -
  have "zip (ft_key_types (demo_flex (demo_table ''a'' JNull))) (ft_key_fields (demo_flex (demo_table ''a'' JNull))) \<noteq> []"
    by (simp add: demo_flex_def demo_table_def name_of_def od_get_def FlexTable_def)
  then show ?thesis
    using attribute_values_fail [of "demo_flex (demo_table ''a'' JNull)" demo_lib "[]" "[]" "''m''" "''t''" "''a''" "''uint32_t''" "''attr->u32''"]
    by simp
qed

lemma for_write_out:
  "mapR fill ls = Inr outs \<Longrightarrow> \<exists>w'. forP ls (\<lambda>l. bindP (liftP (fill l)) (write_out dst)) w = (Inr (), w')
     \<and> written w' dst = written w dst @ concat outs \<and> w_lines w' = w_lines w"
proof (induction ls arbitrary: outs w)
  case (Cons l ls)
  then obtain x xs where x: "fill l = Inr x" "mapR fill ls = Inr xs" "outs = x # xs"
    by (auto simp: bindR_eq_Inr)
  obtain w1 where w1: "write_out dst x w = (Inr (), w1)" "written w1 dst = written w dst @ x" "w_lines w1 = w_lines w"
    by (simp add: write_out_def written_def update_conv')
  from Cons.IH [OF x(2), of w1] w1 x show ?case by (auto simp: py_res)
qed (simp add: py_res)

text \<open>When its template can be read and every line filled, a header is written
  and consists of the filled lines in order, whatever the file held before.
\<close>
theorem template_written:
  assumes "w_lines w src = Inr ls" "mapR fill ls = Inr outs"
  shows "\<exists>w'. fill_template fill src dst w = (Inr (), w') \<and> written w' dst = concat outs"
proof -
  obtain w1 where w1: "open_out dst w = (Inr (), w1)" "written w1 dst = []"
    by (simp add: open_out_def written_def update_conv')
  from for_write_out [OF assms(2), of dst w1] w1 show ?thesis
    by (auto simp: fill_template_def read_lines_def py_res assms(1))
qed

theorem template_written_witness:
  "\<exists>w'. fill_template (types_line demo_lib) ''src'' ''dst''
      \<lparr>w_json = (\<lambda>f. Inl IOError), w_lines = (\<lambda>f. Inr [text_line ''___SAI_OBJECT_TYPE___ 9'']), w_glob = (\<lambda>f. []),
       w_dirs = [], w_copied = [], w_written = [(''dst'', ''old'')]\<rparr> = (Inr (), w')
    \<and> written w' ''dst'' = text_line ''    SAI_OBJECT_TYPE_MAX                      = 9,''"
proof -
  let ?w = "\<lparr>w_json = (\<lambda>f. Inl IOError), w_lines = (\<lambda>f. Inr [text_line ''___SAI_OBJECT_TYPE___ 9'']), w_glob = (\<lambda>f. []),
       w_dirs = [], w_copied = [], w_written = [(''dst'', ''old'')]\<rparr> :: world"
  have m: "mapR (types_line demo_lib) [text_line ''___SAI_OBJECT_TYPE___ 9''] =
      Inr [text_line ''    SAI_OBJECT_TYPE_MAX                      = 9,'']"
    by code_simp
  from template_written [of ?w "''src''", OF _ m, of "''dst''"] show ?thesis by simp
qed

end
