(* ===== verification/P4Driver.thy ===== *)
theory P4Driver
  imports StfProcess
begin

text \<open>
  The driver \<open>run-bmv2-test.py\<close>: the reading of the autoconf header, the options, the compilation
  of one program with the result inverted for programs that must not compile, and the run of the
  model on the result.
\<close>

section \<open>The configuration header\<close>

lemma drv_rest_le: "(a, b) = nextWordAt sep t \<Longrightarrow> length b \<le> length t"
  using drv.cut_length [of sep t] by (cases "nextWordAt sep t") simp

lemma drv_rest_less: "(a, b) = nextWordAt sep t \<Longrightarrow> sep \<noteq> [] \<Longrightarrow> t \<noteq> [] \<Longrightarrow> length b < length t"
  using drv.cut_progress [of sep t] by (cases "nextWordAt sep t") simp

text \<open>The loop of \<open>ConfigH.parse\<close>: whether the text was accepted, and the macros found.\<close>

function config_loop :: "string \<Rightarrow> (string, string) odict \<Rightarrow> bool \<times> (string, string) odict" where
  "config_loop text vars =
     (if text = [] then (True, vars)
      else let t = strip_ws text in
        if prefix ''/*'' t then
          (case find_sub ''*/'' t of None \<Rightarrow> (False, vars)
           | Some e \<Rightarrow> if e < 1 then (False, vars) else config_loop (drop (e + 2) t) vars)
        else if prefix ''#define'' t then
          let (kw, t1) = nextWordAt '' '' t;
              (macro, t2) = nextWordAt '' '' t1;
              (v, t3) = nextWordAt [CHR 0x0A] t2
          in config_loop t3 (AList.update macro v vars)
        else if prefix ''#ifndef'' t then
          let (junk, t1) = nextWordAt ''#endif'' t in config_loop t1 vars
        else (False, vars))"
  by pat_completeness auto

termination
proof (relation "measure (\<lambda>(text, vars). length text)")
  fix tx :: string and vars t e
  assume "tx \<noteq> []" "t = strip_ws tx" "prefix ''/*'' t"
  then have "length t \<le> length tx" "t \<noteq> []" using length_strip_ws by auto
  then show "((drop (e + 2) t, vars), (tx, vars)) \<in> measure (\<lambda>(text, vars). length text)"
    by (cases t) auto
next
  fix tx :: string and vars t x kw t1 y macro t2 z v t3
  assume "tx \<noteq> []" "t = strip_ws tx" "prefix ''#define'' t"
    and 1: "x = nextWordAt '' '' t" "(kw, t1) = x" and 2: "y = nextWordAt '' '' t1" "(macro, t2) = y"
    and 3: "z = nextWordAt [CHR 0x0A] t2" "(v, t3) = z"
  then have "length t \<le> length tx" "t \<noteq> []" using length_strip_ws by auto
  moreover have "length t1 < length t" using drv_rest_less [of kw t1 "'' ''" t] 1 \<open>t \<noteq> []\<close> by simp
  moreover have "length t2 \<le> length t1" using drv_rest_le [of macro t2 "'' ''" t1] 2 by simp
  moreover have "length t3 \<le> length t2" using drv_rest_le [of v t3 "[CHR 0x0A]" t2] 3 by simp
  ultimately show "((t3, AList.update macro v vars), (tx, vars)) \<in> measure (\<lambda>(text, vars). length text)"
    by simp
next
  fix tx :: string and vars t x junk t1
  assume "tx \<noteq> []" "t = strip_ws tx" "prefix ''#ifndef'' t" "x = nextWordAt ''#endif'' t" "(junk, t1) = x"
  moreover then have "length t \<le> length tx" "t \<noteq> []" using length_strip_ws by auto
  ultimately show "((t1, vars), (tx, vars)) \<in> measure (\<lambda>(text, vars). length text)"
    using drv_rest_less [of junk t1 "''#endif''" t] by simp
qed simp

declare config_loop.simps [simp del]

definition ConfigH :: "string \<Rightarrow> bool \<times> (string, string) odict" where
  "ConfigH file_text = config_loop file_text []"

section \<open>Options\<close>

record p4_options =
  po_binary :: string
  po_cleanupTmp :: bool
  po_p4filename :: string
  po_compilerSrcDir :: string
  po_verbose :: bool
  po_replace :: bool
  po_compilerOptions :: "string list"
  po_hasBMv2 :: bool
  po_runDebugger :: "string option"
  po_observationLog :: "string option"
  po_testName :: "string option"

definition P4_Options :: p4_options where
  "P4_Options = \<lparr>po_binary = [], po_cleanupTmp = True, po_p4filename = [], po_compilerSrcDir = [],
     po_verbose = False, po_replace = False, po_compilerOptions = [], po_hasBMv2 = False,
     po_runDebugger = None, po_observationLog = None, po_testName = None\<rparr>"

definition isError :: "string \<Rightarrow> bool" where
  "isError p4filename \<longleftrightarrow> contains_sub ''_errors'' p4filename"

text \<open>\<open>os.path.splitext(s)[0]\<close> for a name without slashes: a dot counts only after some other
  character.\<close>

definition path_stem :: "string \<Rightarrow> string" where
  "path_stem s = (let r = rev (drop 1 (dropWhile (\<lambda>c. c \<noteq> CHR ''.'') (rev s))) in
     if CHR ''.'' \<in> set s \<and> (\<exists>c \<in> set r. c \<noteq> CHR ''.'') then r else s)"

section \<open>One program\<close>

text \<open>What the driver finds: files and folders, what the compiler does on its arguments, the
  compiled document, the test file, the outcomes of the run, the temporary folder's name, the
  exit status of the debugger that replaces the process.\<close>

record driver_env =
  de_isfile :: "string \<Rightarrow> bool"
  de_isdir :: "string \<Rightarrow> bool"
  de_compile :: "string list \<Rightarrow> child"
  de_json :: "string \<Rightarrow> json res"
  de_lines :: "string \<Rightarrow> string list res"
  de_run :: run_env
  de_outputs :: "pcap_file list"
  de_tmp :: string
  de_config :: "string res"
  de_debug :: int

record driver =
  dr_tmpdirs :: "string list"
  dr_runner :: runner
  dr_compiled :: "string list list"

definition on_runner :: "(runner, 'a) py \<Rightarrow> (driver, 'a) py" where
  "on_runner m = (\<lambda>s. case m (dr_runner s) of (r, x) \<Rightarrow> (r, s\<lparr>dr_runner := x\<rparr>))"

definition test_file :: "driver_env \<Rightarrow> string \<Rightarrow> string option" where
  "test_file env p4filename =
     (let base = path_stem (py_basename p4filename); dirname = path_dir p4filename;
          testfile = dirname @ ''/'' @ base @ ''.stf''; empty = dirname @ ''/empty.stf'' in
      if de_isfile env testfile then Some testfile
      else if de_isfile env empty then Some empty else None)"

definition driver_run_model :: "driver_env \<Rightarrow> p4_options \<Rightarrow> string \<Rightarrow> string \<Rightarrow> (driver, int) py" where
  "driver_run_model env opts tmpdir jsonfile =
     (if \<not> po_hasBMv2 opts then retP STF_SUCCESS
      else (case test_file env (po_p4filename opts) of
          None \<Rightarrow> retP STF_SUCCESS
        | Some testfile \<Rightarrow>
            bindP (liftP (bindR (de_json env jsonfile) (RunBMV2 tmpdir jsonfile))) (\<lambda>b.
            on_runner (thenP (modP (\<lambda>s. s\<lparr>ru_bmv2 := b\<rparr>))
              (run_model (de_run env) (de_lines env testfile)
                (po_observationLog opts \<noteq> None) (de_outputs env))))))"

definition compiler_command :: "p4_options \<Rightarrow> string \<Rightarrow> string list \<Rightarrow> string list" where
  "compiler_command opts jsonfile argv =
     [''./p4c-bm2-ss'', ''-o'', jsonfile] @ po_compilerOptions opts
     @ (if contains_sub ''p4_14'' (po_p4filename opts) \<or> contains_sub ''v1_samples'' (po_p4filename opts)
        then [''--p4v'', ''1.0''] else []) @ argv"

definition process_file :: "driver_env \<Rightarrow> p4_options \<Rightarrow> string list \<Rightarrow> (driver, int) py" where
  "process_file env opts argv =
     (let tmpdir = de_tmp env; p4 = po_p4filename opts;
          jsonfile = (case po_testName opts of Some (c # cs) \<Rightarrow> (c # cs) @ ''.json''
            | _ \<Rightarrow> tmpdir @ ''/'' @ path_stem (py_basename p4) @ ''.json'');
          args = compiler_command opts jsonfile argv in
      thenP (modP (\<lambda>s. s\<lparr>dr_tmpdirs := dr_tmpdirs s @ [tmpdir]\<rparr>))
      (if \<not> de_isfile env p4 then raiseP (Exn (''No such file '' @ p4))
       else if po_runDebugger opts \<noteq> None then raiseP (SystemExit (de_debug env))
       else thenP (modP (\<lambda>s. s\<lparr>dr_compiled := dr_compiled s @ [args]\<rparr>))
         (let result0 = run_timeout (de_compile env args);
              expected_error = isError p4;
              result1 = (if expected_error
                 then (if result0 = STF_SUCCESS then STF_FAILURE else STF_SUCCESS) else result0) in
          bindP (if result1 = STF_SUCCESS \<and> \<not> expected_error
                 then driver_run_model env opts tmpdir jsonfile else retP result1) (\<lambda>result.
          thenP (if po_cleanupTmp opts
                 then modP (\<lambda>s. s\<lparr>dr_tmpdirs := filter (\<lambda>d. d \<noteq> tmpdir) (dr_tmpdirs s)\<rparr>) else retP ())
            (retP result)))))"

section \<open>The main program\<close>

text \<open>\<open>argv[0][1]\<close> on a single dash raises.\<close>

fun driver_options :: "p4_options \<Rightarrow> string list \<Rightarrow> (p4_options \<times> string list) res" where
  "driver_options opts [] = Inl IndexError"
| "driver_options opts (a # argv) =
     (if a = [] then Inl IndexError
      else if hd a \<noteq> CHR ''-'' then Inr (opts, a # argv)
      else if a = ''-b'' then driver_options (opts\<lparr>po_cleanupTmp := False\<rparr>) argv
      else if a = ''-v'' then driver_options (opts\<lparr>po_verbose := True\<rparr>) argv
      else if a = ''-f'' then driver_options (opts\<lparr>po_replace := True\<rparr>) argv
      else if a = ''-a'' then
        (case argv of [] \<Rightarrow> Inl IndexError
         | x # argv' \<Rightarrow> driver_options (opts\<lparr>po_compilerOptions := po_compilerOptions opts @ split_ws x\<rparr>) argv')
      else if length a < 2 then Inl IndexError
      else if a ! 1 \<in> {CHR ''D'', CHR ''I'', CHR ''T''} then
        driver_options (opts\<lparr>po_compilerOptions := po_compilerOptions opts @ [a]\<rparr>) argv
      else if a = ''-gdb'' then driver_options (opts\<lparr>po_runDebugger := Some ''gdb --args''\<rparr>) argv
      else if a = ''-observation-log'' then
        (case argv of [] \<Rightarrow> Inl IndexError
         | x # argv' \<Rightarrow> driver_options (opts\<lparr>po_observationLog := Some x\<rparr>) argv')
      else if a = ''--pp'' then
        (case argv of [] \<Rightarrow> Inl IndexError
         | x # argv' \<Rightarrow> driver_options (opts\<lparr>po_compilerOptions := po_compilerOptions opts @ [a, x]\<rparr>) argv')
      else Inl (SystemExit STF_FAILURE))"

definition test_name :: "string \<Rightarrow> string \<Rightarrow> string option" where
  "test_name src p4 = (if prefix src p4 then
     (let n0 = drop (length src) p4;
          n1 = (if prefix ''/'' n0 then drop 1 n0 else n0);
          n2 = (if suffix ''.p4'' n1 then take (length n1 - 3) n1 else n1) in Some (''bmv2/'' @ n2))
     else None)"

definition observation_log :: "p4_options \<Rightarrow> string option" where
  "observation_log opts = (case po_observationLog opts of
     Some (c # cs) \<Rightarrow> Some (c # cs)
   | _ \<Rightarrow> (case po_testName opts of
       Some (c # cs) \<Rightarrow> Some ((c # cs) @ ''.p4.obs'')
     | _ \<Rightarrow> Some (path_join (path_dir (po_p4filename opts))
         (path_stem (py_basename (po_p4filename opts)) @ ''.p4.obs''))))"

definition driver_main :: "driver_env \<Rightarrow> string list \<Rightarrow> (driver, unit) py" where
  "driver_main env argv = (case argv of
     binary # src # a # rest \<Rightarrow>
       if \<not> de_isdir env src then raiseP (SystemExit STF_FAILURE)
       else bindP (liftP (driver_options (P4_Options\<lparr>po_binary := binary, po_compilerSrcDir := src\<rparr>) (a # rest)))
         (\<lambda>(opts, argv'). bindP (liftP (de_config env)) (\<lambda>tx.
          let (ok, vars) = ConfigH tx in
          if \<not> ok then raiseP (SystemExit STF_FAILURE)
          else let p4 = last argv';
                 opts1 = opts\<lparr>po_hasBMv2 := od_has vars ''HAVE_SIMPLE_SWITCH'', po_p4filename := p4,
                   po_testName := test_name src p4\<rparr>;
                 opts2 = opts1\<lparr>po_observationLog := observation_log opts1\<rparr> in
               bindP (process_file env opts2 argv') (\<lambda>result. raiseP (SystemExit result))))
   | [] \<Rightarrow> raiseP IndexError
   | _ \<Rightarrow> raiseP (SystemExit STF_FAILURE))"

section \<open>What the configuration parser reads\<close>

definition def_line :: "string \<times> string \<Rightarrow> string" where
  "def_line mv = ''#define '' @ fst mv @ '' '' @ snd mv"

definition macro_ok :: "string \<times> string \<Rightarrow> bool" where
  "macro_ok mv \<longleftrightarrow> fst mv \<noteq> [] \<and> no_ws (fst mv) \<and> snd mv \<noteq> [] \<and> \<not> is_ws (hd (snd mv))
     \<and> \<not> is_ws (last (snd mv)) \<and> CHR 0x0A \<notin> set (snd mv)"

definition config_text :: "(string \<times> string) list \<Rightarrow> string" where
  "config_text ds = join [CHR 0x0A] (map def_line ds)"

lemma nextWordAt_char:
  "c \<notin> set a \<Longrightarrow> nextWordAt [c] (a @ c # b) = (strip_ws a, strip_ws b)"
  by (simp add: nextWordAt_def find_sub_char_append)

lemma nextWordAt_none: "c \<notin> set a \<Longrightarrow> nextWordAt [c] a = (a, [])"
  by (simp add: nextWordAt_def find_sub_char_None [THEN iffD2])

lemma is_ws_nl [simp]: "is_ws (CHR 0x0A)" "is_ws (CHR '' '')" "\<not> is_ws (CHR ''#'')"
  by (simp_all add: is_ws_def)

lemma no_ws_not_in: "no_ws s \<Longrightarrow> is_ws c \<Longrightarrow> c \<notin> set s"
  by (auto simp: no_ws_def)

lemma config_text_Cons:
  "config_text (d # ds) = def_line d @ (if ds = [] then [] else CHR 0x0A # config_text ds)"
  by (simp add: config_text_def join_Cons)

lemma def_line_ends:
  "macro_ok d \<Longrightarrow> def_line d \<noteq> [] \<and> \<not> is_ws (hd (def_line d)) \<and> \<not> is_ws (last (def_line d))"
  by (auto simp: def_line_def macro_ok_def)

lemma config_text_ends:
  "\<forall>d \<in> set ds. macro_ok d \<Longrightarrow> ds \<noteq> [] \<Longrightarrow> config_text ds \<noteq> []
     \<and> \<not> is_ws (hd (config_text ds)) \<and> \<not> is_ws (last (config_text ds))"
proof (induction ds)
  case (Cons d ds)
  then show ?case using def_line_ends [of d] by (cases "ds = []") (auto simp: config_text_Cons)
qed simp

lemma strip_text: "s \<noteq> [] \<Longrightarrow> \<not> is_ws (hd s) \<Longrightarrow> \<not> is_ws (last s) \<Longrightarrow> strip_ws s = s"
  unfolding strip_ws_def by (rule strip_by_id) simp

lemma strip_config: "\<forall>d \<in> set ds. macro_ok d \<Longrightarrow> strip_ws (config_text ds) = config_text ds"
  using config_text_ends [of ds] strip_text [of "config_text ds"]
  by (cases "ds = []") (auto simp: config_text_def strip_ws_def strip_by_def lstrip_by_def rstrip_by_def)

lemma config_loop_text:
  assumes "\<forall>d \<in> set ds. macro_ok d"
  shows "config_loop (config_text ds) vars = (True, foldl (\<lambda>vs (m, v). AList.update m v vs) vars ds)"
  using assms
proof (induction ds arbitrary: vars)
  case Nil
  then show ?case by (subst config_loop.simps) (simp add: config_text_def)
next
  case (Cons d ds)
  obtain m v where d: "d = (m, v)" by fastforce
  have ok: "macro_ok d" and rest: "\<forall>d \<in> set ds. macro_ok d" using Cons.prems by auto
  let ?r = "if ds = [] then [] else CHR 0x0A # config_text ds"
  have t: "config_text (d # ds) = ''#define'' @ CHR '' '' # (m @ CHR '' '' # (v @ ?r))"
    by (simp add: config_text_Cons def_line_def d)
  have vr: "\<not> is_ws (last (v @ ?r))" "v @ ?r \<noteq> []" "\<not> is_ws (hd (v @ ?r))"
    using ok config_text_ends [OF rest] by (auto simp: d macro_ok_def)
  have sv: "strip_ws (v @ ?r) = v @ ?r" by (rule strip_text [OF vr(2,3,1)])
  have m: "m \<noteq> []" "no_ws m" using ok by (simp_all add: d macro_ok_def)
  have sm: "strip_ws (m @ CHR '' '' # (v @ ?r)) = m @ CHR '' '' # (v @ ?r)"
    using m vr by (intro strip_text) (auto simp: no_ws_def hd_append)
  have st: "strip_ws (config_text (d # ds)) = config_text (d # ds)" by (rule strip_config [OF Cons.prems])
  have w1: "nextWordAt '' '' (config_text (d # ds)) = (''#define'', m @ CHR '' '' # (v @ ?r))"
  proof -
    have "no_ws ''#define''" by (simp add: no_ws_def is_ws_def)
    then show ?thesis unfolding t by (subst nextWordAt_char) (simp_all add: sm [simplified] no_ws_strip)
  qed
  have w2: "nextWordAt '' '' (m @ CHR '' '' # (v @ ?r)) = (m, v @ ?r)"
    using no_ws_not_in [OF m(2), of "CHR '' ''"] sv no_ws_strip [OF m(2)]
    by (subst nextWordAt_char) (simp_all split: if_splits)
  have nl: "CHR 0x0A \<notin> set v" "strip_ws v = v"
    using ok strip_text [of v] by (auto simp: d macro_ok_def)
  have w3: "nextWordAt [CHR 0x0A] (v @ ?r) = (v, config_text ds)"
    using nl strip_config [OF rest]
    by (cases "ds = []") (simp_all add: nextWordAt_none nextWordAt_char, simp add: config_text_def)
  have p: "config_text (d # ds) \<noteq> []" "\<not> prefix ''/*'' (config_text (d # ds))" "prefix ''#define'' (config_text (d # ds))"
    unfolding t by simp_all
  show ?case
    by (subst config_loop.simps) (simp only: st p Let_def w1 w2 w3 prod.case if_False if_True Cons.IH [OF rest] simp_thms, simp add: d)
qed



text \<open>
  A definition without a value swallows the line after it: neither of the two
  macros is read, and a header that defines \<open>HAVE_SIMPLE_SWITCH\<close> right after such a line is taken
  to say that the simulator is not installed.
\<close>
theorem valueless_define_swallows_next:
  assumes "m \<noteq> []" "no_ws m" "n \<noteq> []" "no_ws n" "no_ws v" "v \<noteq> []"
  shows "ConfigH (''#define '' @ m @ [CHR 0x0A] @ ''#define '' @ n @ '' '' @ v)
    = (True, [(m @ [CHR 0x0A] @ ''#define'', n @ '' '' @ v)])"
proof -
  let ?nv = "n @ CHR '' '' # v" and ?mac = "m @ [CHR 0x0A] @ ''#define''"
  let ?t = "''#define'' @ CHR '' '' # (?mac @ CHR '' '' # ?nv)"
  have hd: "\<not> is_ws (hd m)" "\<not> is_ws (hd n)" and la: "\<not> is_ws (last v)"
    using assms by (auto simp: no_ws_def)
  have e: "\<not> is_ws (CHR ''e'')" by (simp add: is_ws_def)
  have snv: "strip_ws ?nv = ?nv" using assms hd la by (intro strip_text) auto
  have smac: "strip_ws ?mac = ?mac" using assms hd e by (intro strip_text) auto
  have s2: "strip_ws (?mac @ CHR '' '' # ?nv) = ?mac @ CHR '' '' # ?nv"
    using assms hd la by (intro strip_text) (auto simp: hd_append)
  have st: "strip_ws ?t = ?t" using assms la by (intro strip_text) auto
  have nd: "no_ws ''#define''" by (simp add: no_ws_def is_ws_def)
  have w1: "nextWordAt '' '' ?t = (''#define'', ?mac @ CHR '' '' # ?nv)"
    by (subst nextWordAt_char) (simp_all add: s2 [simplified] no_ws_strip [OF nd])
  have w2: "nextWordAt '' '' (?mac @ CHR '' '' # ?nv) = (?mac, ?nv)"
    using no_ws_not_in [OF assms(2), of "CHR '' ''"]
    by (subst nextWordAt_char) (simp_all add: smac [simplified] snv [simplified])
  have w3: "nextWordAt [CHR 0x0A] ?nv = (?nv, [])"
    using no_ws_not_in [OF assms(4), of "CHR 0x0A"] no_ws_not_in [OF assms(5), of "CHR 0x0A"]
    by (subst nextWordAt_none) simp_all
  have p: "?t \<noteq> []" "\<not> prefix ''/*'' ?t" "prefix ''#define'' ?t" by simp_all
  have end0: "config_loop [] vs = (True, vs)" for vs by (subst config_loop.simps) simp
  have "config_loop ?t [] = (True, [(?mac, ?nv)])"
    by (subst config_loop.simps) (simp only: st p Let_def w1 w2 w3 prod.case if_False if_True simp_thms end0 update.simps)
  then show ?thesis by (simp add: ConfigH_def)
qed

theorem valueless_define_swallows_next_witness:
  "od_has (snd (ConfigH (''#define FOO'' @ [CHR 0x0A] @ ''#define HAVE_SIMPLE_SWITCH 1''))) ''HAVE_SIMPLE_SWITCH'' = False"
proof -
  have "ConfigH (''#define '' @ ''FOO'' @ [CHR 0x0A] @ ''#define '' @ ''HAVE_SIMPLE_SWITCH'' @ '' '' @ ''1'')
    = (True, [(''FOO'' @ [CHR 0x0A] @ ''#define'', ''HAVE_SIMPLE_SWITCH'' @ '' '' @ ''1'')])"
    by (rule valueless_define_swallows_next) (simp_all add: no_ws_def is_ws_def)
  then show ?thesis by (simp add: od_has_def)
qed

section \<open>The result for a program\<close>

lemma on_runner_parts: "on_runner m s = (r, s') \<Longrightarrow> dr_tmpdirs s' = dr_tmpdirs s"
  by (auto simp: on_runner_def split: prod.splits)

lemma driver_run_model_parts: "driver_run_model env opts t j s = (r, s') \<Longrightarrow> dr_tmpdirs s' = dr_tmpdirs s"
  by (auto simp: driver_run_model_def py_res split: if_splits option.splits sum.splits dest: on_runner_parts)

definition the_jsonfile :: "driver_env \<Rightarrow> p4_options \<Rightarrow> string" where
  "the_jsonfile env opts = (case po_testName opts of Some (c # cs) \<Rightarrow> (c # cs) @ ''.json''
     | _ \<Rightarrow> de_tmp env @ ''/'' @ path_stem (py_basename (po_p4filename opts)) @ ''.json'')"


definition demo_env :: "child \<Rightarrow> driver_env" where
  "demo_env c = \<lparr>de_isfile = (\<lambda>f. f = ''s/p4_errors/x.p4''), de_isdir = (\<lambda>f. True), de_compile = (\<lambda>a. c),
     de_json = (\<lambda>f. Inl IOError), de_lines = (\<lambda>f. Inr []),
     de_run = \<lparr>e_rands = [4], e_switch_start = Inr (), e_opens = (\<lambda>i. []), e_polls = [], e_cli_start = Inr (),
       e_lines = Inr [], e_switch_rc = 0, e_cli_rc = 0\<rparr>, de_outputs = [], de_tmp = ''tmp1'',
     de_config = Inr [], de_debug = 0\<rparr>"

definition demo_driver :: driver where
  "demo_driver = \<lparr>dr_tmpdirs = [], dr_runner = \<lparr>ru_bmv2 = demo_runner, ru_locks = [], ru_switch = NoProc, ru_cli = NoProc\<rparr>,
     dr_compiled = []\<rparr>"


text \<open>
  When the program to compile does not exist the temporary folder just made is
  left behind, although cleaning is on: the exception is raised before the cleaning and nothing
  catches it.
\<close>
theorem missing_program_leaks_folder:
  assumes "\<not> de_isfile env (po_p4filename opts)"
  shows "process_file env opts argv s = (Inl (Exn (''No such file '' @ po_p4filename opts)),
    s\<lparr>dr_tmpdirs := dr_tmpdirs s @ [de_tmp env]\<rparr>)"
  using assms by (simp add: process_file_def Let_def py_res)

theorem missing_program_leaks_folder_witness:
  "dr_tmpdirs (snd (process_file (demo_env NotStarted) (P4_Options\<lparr>po_p4filename := ''no.p4''\<rparr>) [] demo_driver)) = [''tmp1'']"
  by (subst missing_program_leaks_folder) (simp_all add: demo_env_def P4_Options_def demo_driver_def)

text \<open>
  The checks for a missing argument of \<open>-a\<close> and \<open>-observation-log\<close> test a list that
  holds the option itself: as the last argument either ends in an index error, never in the
  message and exit status they were written for.
\<close>
theorem missing_option_argument:
  "driver_options opts [''-a''] = Inl IndexError \<and> driver_options opts [''-observation-log''] = Inl IndexError"
  by simp

end
