(* ===== verification/PtfLpm.thy ===== *)
theory PtfLpm
  imports PyText "HOL-Library.Multiset"
begin

text \<open>
  The longest-prefix-match dictionary of \<open>ptf/lpm.py\<close>: the boundaries it counts for the prefixes it
  holds, and the ranges of addresses they cut the address space into. An address is its family
  and its number. The subnet tree (the package \<open>SubnetTree\<close>) is a record of its functions, the
  parsing of a prefix (\<open>ipaddress.ip_network\<close> after \<open>six.ensure_text\<close>) a function from the key.
\<close>

section \<open>Addresses\<close>

datatype addr = A4 nat | A6 nat

fun addr_max :: "addr \<Rightarrow> nat" where
  "addr_max (A4 n) = 2 ^ 32 - 1"
| "addr_max (A6 n) = 2 ^ 128 - 1"

fun addr_num :: "addr \<Rightarrow> nat" where
  "addr_num (A4 n) = n"
| "addr_num (A6 n) = n"

fun addr_with :: "addr \<Rightarrow> nat \<Rightarrow> addr" where
  "addr_with (A4 n) m = A4 m"
| "addr_with (A6 n) m = A6 m"

text \<open>\<open>address + 1\<close>, which raises beyond the last address.\<close>

definition addr_succ :: "addr \<Rightarrow> addr res" where
  "addr_succ a = (if addr_num a < addr_max a then Inr (addr_with a (addr_num a + 1)) else Inl ValueError)"

section \<open>Intervals\<close>

record ip_interval =
  iv_start :: addr
  iv_end :: addr

definition same_family :: "addr \<Rightarrow> addr \<Rightarrow> bool" where
  "same_family a b \<longleftrightarrow> addr_with a 0 = addr_with b 0"

definition IpInterval :: "addr \<Rightarrow> addr \<Rightarrow> ip_interval res" where
  "IpInterval s e = (if \<not> same_family s e then Inl TypeError
     else if addr_num s \<le> addr_num e then Inr \<lparr>iv_start = s, iv_end = e\<rparr> else Inl AssertionError)"

definition interval_length :: "ip_interval \<Rightarrow> nat" where
  "interval_length i = addr_num (iv_end i) - addr_num (iv_start i)"

definition interval_contains :: "ip_interval \<Rightarrow> addr \<Rightarrow> bool res" where
  "interval_contains i ip = (if \<not> same_family ip (iv_start i) then Inl TypeError
     else Inr (addr_num ip \<ge> addr_num (iv_start i) \<and> addr_num ip \<le> addr_num (iv_end i)))"

text \<open>\<open>draw\<close> is the number \<open>random.randint\<close> returns.\<close>

definition get_random_ip :: "ip_interval \<Rightarrow> nat \<Rightarrow> addr" where
  "get_random_ip i draw = addr_with (iv_start i) (addr_num (iv_start i) + draw)"

section \<open>The dictionary\<close>

record ('t, 'v) subnet_lib =
  st_set :: "'t \<Rightarrow> string \<Rightarrow> 'v \<Rightarrow> 't res"
  st_get :: "'t \<Rightarrow> string \<Rightarrow> 'v res"
  st_del :: "'t \<Rightarrow> string \<Rightarrow> 't res"
  st_has :: "'t \<Rightarrow> string \<Rightarrow> bool"

record ip_net =
  net_first :: addr
  net_last :: addr
  net_prefixlen :: nat

record 't lpm_dict =
  ld_ipv4 :: bool
  ld_prefix_set :: "string list"
  ld_subnet_tree :: 't
  ld_boundaries :: "(addr, nat) odict"

definition LpmDict :: "bool \<Rightarrow> 't \<Rightarrow> 't lpm_dict" where
  "LpmDict ipv4 tree = \<lparr>ld_ipv4 = ipv4, ld_prefix_set = [], ld_subnet_tree = tree,
     ld_boundaries = [(if ipv4 then A4 0 else A6 0, 1)]\<rparr>"

definition count_up :: "addr \<Rightarrow> (addr, nat) odict \<Rightarrow> (addr, nat) odict" where
  "count_up b d = AList.update b ((case map_of d b of Some n \<Rightarrow> n | None \<Rightarrow> 0) + 1) d"

text \<open>\<open>None - 1\<close> raises.\<close>

definition count_down :: "addr \<Rightarrow> (addr, nat) odict \<Rightarrow> (addr, nat) odict res" where
  "count_down b d = (case map_of d b of None \<Rightarrow> Inl TypeError
     | Some n \<Rightarrow> Inr (if n = 1 then AList.delete b d else AList.update b (n - 1) d))"

definition is_last_address :: "addr \<Rightarrow> bool" where
  "is_last_address a \<longleftrightarrow> a = A4 (2 ^ 32 - 1) \<or> a = A6 (2 ^ 128 - 1)"

definition lpm_setitem :: "(string \<Rightarrow> ip_net res) \<Rightarrow> ('t, 'v) subnet_lib \<Rightarrow> string \<Rightarrow> 'v
   \<Rightarrow> 't lpm_dict \<Rightarrow> 't lpm_dict res" where
  "lpm_setitem network lib key v d =
     bindR (network key) (\<lambda>prefix.
     bindR (if net_prefixlen prefix \<noteq> 0 \<and> key \<notin> set (ld_prefix_set d)
       then let b1 = count_up (net_first prefix) (ld_boundaries d) in
         bindR (if is_last_address (net_last prefix) then Inr b1
                else bindR (addr_succ (net_last prefix)) (\<lambda>nb. Inr (count_up nb b1))) (\<lambda>b2.
         Inr (d\<lparr>ld_boundaries := b2, ld_prefix_set := ld_prefix_set d @ [key]\<rparr>))
       else Inr d) (\<lambda>d'.
     bindR (st_set lib (ld_subnet_tree d') key v) (\<lambda>t. Inr (d'\<lparr>ld_subnet_tree := t\<rparr>))))"

definition lpm_getitem :: "('t, 'v) subnet_lib \<Rightarrow> 't lpm_dict \<Rightarrow> string \<Rightarrow> 'v res" where
  "lpm_getitem lib d key = st_get lib (ld_subnet_tree d) key"

definition lpm_delitem :: "(string \<Rightarrow> ip_net res) \<Rightarrow> ('t, 'v) subnet_lib \<Rightarrow> string
   \<Rightarrow> 't lpm_dict \<Rightarrow> 't lpm_dict res" where
  "lpm_delitem network lib key d =
     bindR (if \<not> contains_sub ''/0'' key
       then bindR (network key) (\<lambda>prefix.
         bindR (addr_succ (net_last prefix)) (\<lambda>nb.
         bindR (count_down (net_first prefix) (ld_boundaries d)) (\<lambda>b1.
         bindR (count_down nb b1) (\<lambda>b2.
         if key \<in> set (ld_prefix_set d)
         then Inr (d\<lparr>ld_boundaries := b2, ld_prefix_set := filter (\<lambda>k. k \<noteq> key) (ld_prefix_set d)\<rparr>)
         else Inl KeyError))))
       else Inr d) (\<lambda>d'.
     bindR (st_del lib (ld_subnet_tree d') key) (\<lambda>t. Inr (d'\<lparr>ld_subnet_tree := t\<rparr>)))"

text \<open>Sorting addresses of both families raises; the last interval ends with the space.\<close>

definition one_family :: "addr list \<Rightarrow> bool" where
  "one_family as \<longleftrightarrow> list_all (\<lambda>a. list_all (same_family a) as) as"

fun intervals :: "addr \<Rightarrow> addr list \<Rightarrow> ip_interval list res" where
  "intervals last_addr [] = Inr []"
| "intervals last_addr [a] = bindR (IpInterval a last_addr) (\<lambda>i. Inr [i])"
| "intervals last_addr (a # b # as) =
     bindR (IpInterval a (addr_with b (addr_num b - 1))) (\<lambda>i.
     bindR (intervals last_addr (b # as)) (\<lambda>is'. Inr (i # is')))"

definition lpm_ranges :: "'t lpm_dict \<Rightarrow> ip_interval list res" where
  "lpm_ranges d = (let bs = map fst (ld_boundaries d) in
     if \<not> one_family bs then Inl TypeError
     else intervals (if ld_ipv4 d then A4 (2 ^ 32 - 1) else A6 (2 ^ 128 - 1)) (sort_key addr_num bs))"

definition lpm_contains :: "('t, 'v) subnet_lib \<Rightarrow> 't lpm_dict \<Rightarrow> string \<Rightarrow> bool" where
  "lpm_contains lib d key = st_has lib (ld_subnet_tree d) key"

text \<open>The module as it is: \<open>six\<close> is not one of its names.\<close>

definition module_network :: "string \<Rightarrow> ip_net res" where
  "module_network key = Inl NameError"

section \<open>The ranges cut up the address space\<close>

lemma addr_with_num [simp]: "addr_num (addr_with a n) = n" "addr_with (addr_with a n) m = addr_with a m"
  "addr_max (addr_with a n) = addr_max a" "addr_with a (addr_num a) = a"
  by (cases a; simp)+

lemma same_family_simps [simp]:
  "same_family a a" "same_family (addr_with a n) b = same_family a b" "same_family a (addr_with b n) = same_family a b"
  by (simp_all add: same_family_def)

lemma same_family_sym: "same_family a b \<Longrightarrow> same_family b a"
  by (simp add: same_family_def)

lemma same_family_trans: "same_family a b \<Longrightarrow> same_family b c \<Longrightarrow> same_family a c"
  by (simp add: same_family_def)

lemma same_family_num: "same_family a b \<Longrightarrow> addr_num a = addr_num b \<Longrightarrow> a = b"
  by (cases a; cases b) (auto simp: same_family_def)

definition covers :: "ip_interval \<Rightarrow> nat \<Rightarrow> bool" where
  "covers i n \<longleftrightarrow> addr_num (iv_start i) \<le> n \<and> n \<le> addr_num (iv_end i)"

lemma intervals_cover:
  "sorted (map addr_num as) \<Longrightarrow> distinct (map addr_num as) \<Longrightarrow> as \<noteq> [] \<Longrightarrow>
   \<forall>a \<in> set as. same_family a l \<and> addr_num a \<le> addr_num l \<Longrightarrow>
   \<exists>ivs. intervals l as = Inr ivs \<and> map iv_start ivs = as \<and>
     (\<forall>n. length (filter (\<lambda>i. covers i n) ivs) = (if addr_num (hd as) \<le> n \<and> n \<le> addr_num l then 1 else 0))"
proof (induction l as rule: intervals.induct)
  case (2 l a)
  then show ?case by (simp add: IpInterval_def covers_def)
next
  case (3 l a b as)
  have lt: "addr_num a < addr_num b" using "3.prems"(1,2) by auto
  have bl: "addr_num b \<le> addr_num l" and "same_family a l" "same_family b l"
    using "3.prems"(4) by simp_all
  then have fab: "same_family a b" by (simp add: same_family_def)
  have i: "IpInterval a (addr_with b (addr_num b - 1)) = Inr \<lparr>iv_start = a, iv_end = addr_with b (addr_num b - 1)\<rparr>"
    using lt fab by (simp add: IpInterval_def)
  have p: "sorted (map addr_num (b # as))" "distinct (map addr_num (b # as))"
    "\<forall>a \<in> set (b # as). same_family a l \<and> addr_num a \<le> addr_num l"
    using "3.prems" by simp_all
  from "3.IH" [OF i p(1,2) list.distinct(2) p(3), unfolded list.sel] obtain ivs where ih: "intervals l (b # as) = Inr ivs" "map iv_start ivs = b # as"
    "\<forall>n. length (filter (\<lambda>i. covers i n) ivs) = (if addr_num b \<le> n \<and> n \<le> addr_num l then 1 else 0)"
    by (elim exE conjE) (rule that)
  have r: "intervals l (a # b # as) = Inr (\<lparr>iv_start = a, iv_end = addr_with b (addr_num b - 1)\<rparr> # ivs)"
    using i ih(1) by simp
  have c: "length (filter (\<lambda>i. covers i n) (\<lparr>iv_start = a, iv_end = addr_with b (addr_num b - 1)\<rparr> # ivs))
      = (if addr_num a \<le> n \<and> n \<le> addr_num l then 1 else 0)" for n
  proof -
    have h: "covers \<lparr>iv_start = a, iv_end = addr_with b (addr_num b - 1)\<rparr> n \<longleftrightarrow> addr_num a \<le> n \<and> n < addr_num b"
      using lt by (auto simp: covers_def)
    show ?thesis using ih(3) [rule_format, of n] lt bl by (simp only: filter.simps h) (simp split: if_splits)
  qed
  show ?case using r ih(2) c by (intro exI [of _ "\<lparr>iv_start = a, iv_end = addr_with b (addr_num b - 1)\<rparr> # ivs"]) simp
qed simp

section \<open>The boundaries follow the prefixes\<close>

text \<open>The dictionary of counts is the bag of a list.\<close>

definition counts :: "(addr, nat) odict \<Rightarrow> addr list \<Rightarrow> bool" where
  "counts d xs \<longleftrightarrow> distinct (map fst d) \<and>
     (\<forall>b. map_of d b = (if count_list xs b = 0 then None else Some (count_list xs b)))"

lemma counts_up: "counts d xs \<Longrightarrow> counts (count_up b d) (b # xs)"
  by (auto simp: counts_def count_up_def update_conv' distinct_update)

lemma counts_down:
  assumes "counts d xs" "mset xs = mset (b # ys)"
  shows "\<exists>d'. count_down b d = Inr d' \<and> counts d' ys"
proof -
  have c: "count_list xs a = count_list ys a + (if a = b then 1 else 0)" for a
    using arg_cong [OF assms(2), of "\<lambda>m. count m a"] by (simp add: count_mset)
  have m: "map_of d b = Some (count_list ys b + 1)" using assms(1) c [of b] by (simp add: counts_def)
  show ?thesis
  proof (cases "count_list ys b = 0")
    case True
    then have "count_down b d = Inr (AList.delete b d)" by (simp add: count_down_def m)
    moreover have "counts (AList.delete b d) ys"
      using assms(1) True c by (auto simp: counts_def delete_conv' distinct_delete)
    ultimately show ?thesis by blast
  next
    case False
    then have "count_down b d = Inr (AList.update b (count_list ys b) d)" by (simp add: count_down_def m)
    moreover have "counts (AList.update b (count_list ys b) d) ys"
      using assms(1) False c by (auto simp: counts_def update_conv' distinct_update)
    ultimately show ?thesis by blast
  qed
qed

lemma counts_perm: "counts d xs \<Longrightarrow> mset xs = mset ys \<Longrightarrow> counts d ys"
  unfolding counts_def by (metis count_mset)

text \<open>What a prefix contributes, and what parsing must provide.\<close>

definition net_edges :: "ip_net \<Rightarrow> addr list" where
  "net_edges n = net_first n # (if is_last_address (net_last n) then []
     else [addr_with (net_last n) (addr_num (net_last n) + 1)])"

definition net_ok :: "(string \<Rightarrow> ip_net res) \<Rightarrow> addr \<Rightarrow> string \<Rightarrow> bool" where
  "net_ok network zero key \<longleftrightarrow> (case network key of Inl e \<Rightarrow> False | Inr n \<Rightarrow>
     same_family (net_first n) zero \<and> same_family (net_last n) zero
     \<and> addr_num (net_first n) \<le> addr_num (net_last n) \<and> addr_num (net_last n) \<le> addr_max zero
     \<and> (net_prefixlen n = 0 \<longleftrightarrow> contains_sub ''/0'' key))"

definition key_edges :: "(string \<Rightarrow> ip_net res) \<Rightarrow> string \<Rightarrow> addr list" where
  "key_edges network key = (case network key of Inl e \<Rightarrow> [] | Inr n \<Rightarrow> net_edges n)"

definition zero_of :: "'t lpm_dict \<Rightarrow> addr" where
  "zero_of d = (if ld_ipv4 d then A4 0 else A6 0)"

definition lpm_inv :: "(string \<Rightarrow> ip_net res) \<Rightarrow> 't lpm_dict \<Rightarrow> bool" where
  "lpm_inv network d \<longleftrightarrow> distinct (ld_prefix_set d)
     \<and> (\<forall>k \<in> set (ld_prefix_set d). net_ok network (zero_of d) k \<and> \<not> contains_sub ''/0'' k)
     \<and> counts (ld_boundaries d) (zero_of d # concat (map (key_edges network) (ld_prefix_set d)))"

lemma last_address_max:
  "same_family a z \<Longrightarrow> addr_num a \<le> addr_max z \<Longrightarrow> is_last_address a \<longleftrightarrow> \<not> addr_num a < addr_max a"
  by (cases a; cases z) (auto simp: is_last_address_def same_family_def)

lemma lpm_inv_new: "lpm_inv network (LpmDict v4 t)"
  by (simp add: lpm_inv_def LpmDict_def counts_def zero_of_def)

lemma lpm_inv_set:
  assumes i: "lpm_inv network d" and k: "net_ok network (zero_of d) key"
    and s: "lpm_setitem network lib key v d = Inr d'"
  shows "lpm_inv network d' \<and> ld_ipv4 d' = ld_ipv4 d \<and> (set (ld_prefix_set d') =
    set (ld_prefix_set d) \<union> (if contains_sub ''/0'' key then {} else {key}))"
proof -
  obtain n where n: "network key = Inr n" "same_family (net_first n) (zero_of d)" "same_family (net_last n) (zero_of d)"
    "addr_num (net_last n) \<le> addr_max (zero_of d)" "net_prefixlen n = 0 \<longleftrightarrow> contains_sub ''/0'' key"
    using k by (auto simp: net_ok_def split: sum.splits)
  show ?thesis
  proof (cases "net_prefixlen n \<noteq> 0 \<and> key \<notin> set (ld_prefix_set d)")
    case False
    then show ?thesis using s n i
      by (auto simp: lpm_setitem_def bindR_eq_Inr lpm_inv_def zero_of_def)
  next
    case True
    let ?xs = "zero_of d # concat (map (key_edges network) (ld_prefix_set d))"
    have c: "counts (ld_boundaries d) ?xs" using i by (simp add: lpm_inv_def)
    have l: "is_last_address (net_last n) \<longleftrightarrow> \<not> addr_num (net_last n) < addr_max (net_last n)"
      using last_address_max n by blast
    define b2 where "b2 = (let b1 = count_up (net_first n) (ld_boundaries d) in
      if is_last_address (net_last n) then b1 else count_up (addr_with (net_last n) (addr_num (net_last n) + 1)) b1)"
    have "counts b2 (rev (net_edges n) @ ?xs)"
      using counts_up [OF c, of "net_first n"]
        counts_up [OF counts_up [OF c, of "net_first n"], of "addr_with (net_last n) (addr_num (net_last n) + 1)"]
      by (simp add: b2_def net_edges_def Let_def)
    then have c2: "counts b2 (?xs @ key_edges network key)"
      by (rule counts_perm) (simp add: key_edges_def n(1))
    obtain t where d': "d' = d\<lparr>ld_boundaries := b2, ld_prefix_set := ld_prefix_set d @ [key], ld_subnet_tree := t\<rparr>"
      using s True n(1) l by (auto simp: lpm_setitem_def bindR_eq_Inr b2_def Let_def addr_succ_def split: if_splits)
    show ?thesis using i c2 True k n(5) by (auto simp: d' lpm_inv_def zero_of_def)
  qed
qed

lemma concat_remove1:
  "k \<in> set ks \<Longrightarrow> mset (concat (map f ks)) = mset (f k @ concat (map f (remove1 k ks)))"
  by (induction ks) (auto simp: union_assoc)

lemma lpm_delete_works:
  assumes i: "lpm_inv network d" and k: "key \<in> set (ld_prefix_set d)" "network key = Inr n"
    and l: "\<not> is_last_address (net_last n)" and t: "st_del lib (ld_subnet_tree d) key = Inr t"
  shows "\<exists>b2. lpm_delitem network lib key d = Inr (d\<lparr>ld_boundaries := b2,
      ld_prefix_set := remove1 key (ld_prefix_set d), ld_subnet_tree := t\<rparr>)
    \<and> lpm_inv network (d\<lparr>ld_boundaries := b2, ld_prefix_set := remove1 key (ld_prefix_set d), ld_subnet_tree := t\<rparr>)"
proof -
  let ?f = "key_edges network" and ?ks = "ld_prefix_set d"
  have ok: "net_ok network (zero_of d) key" "\<not> contains_sub ''/0'' key" and di: "distinct ?ks"
    using i k by (auto simp: lpm_inv_def)
  have ls: "addr_succ (net_last n) = Inr (addr_with (net_last n) (addr_num (net_last n) + 1))"
    using ok k(2) l last_address_max [of "net_last n" "zero_of d"] by (auto simp: net_ok_def addr_succ_def)
  let ?nb = "addr_with (net_last n) (addr_num (net_last n) + 1)"
  let ?rest = "zero_of d # concat (map ?f (remove1 key ?ks))"
  have m: "mset (zero_of d # concat (map ?f ?ks)) = mset (net_first n # ?nb # ?rest)"
    using concat_remove1 [OF k(1), of ?f] l by (simp add: key_edges_def k(2) net_edges_def ac_simps)
  obtain b1 where b1: "count_down (net_first n) (ld_boundaries d) = Inr b1" "counts b1 (?nb # ?rest)"
    using counts_down [OF _ m] i by (auto simp: lpm_inv_def)
  obtain b2 where b2: "count_down ?nb b1 = Inr b2" "counts b2 ?rest"
    using counts_down [OF b1(2) refl] by blast
  have f: "filter (\<lambda>x. x \<noteq> key) ?ks = remove1 key ?ks" using di by (simp add: distinct_remove1_removeAll removeAll_filter_not_eq eq_commute)
  have "lpm_delitem network lib key d = Inr (d\<lparr>ld_boundaries := b2, ld_prefix_set := remove1 key ?ks, ld_subnet_tree := t\<rparr>)"
    using ok(2) k t by (simp add: lpm_delitem_def ls b1(1) b2(1) [simplified] f)
  moreover have "lpm_inv network (d\<lparr>ld_boundaries := b2, ld_prefix_set := remove1 key ?ks, ld_subnet_tree := t\<rparr>)"
    using i b2(2) by (auto simp: lpm_inv_def zero_of_def dest: notin_set_remove1)
  ultimately show ?thesis by blast
qed

text \<open>Dictionaries built by the operations.\<close>

datatype 'v lpm_op = SetItem string 'v | DelItem string

fun lpm_apply :: "(string \<Rightarrow> ip_net res) \<Rightarrow> ('t, 'v) subnet_lib \<Rightarrow> 't lpm_dict \<Rightarrow> 'v lpm_op \<Rightarrow> 't lpm_dict res" where
  "lpm_apply network lib d (SetItem k v) = lpm_setitem network lib k v d"
| "lpm_apply network lib d (DelItem k) = lpm_delitem network lib k d"

fun op_key :: "'v lpm_op \<Rightarrow> string" where
  "op_key (SetItem k v) = k"
| "op_key (DelItem k) = k"

lemma lpm_delete_inv:
  assumes i: "lpm_inv network d" and ok: "net_ok network (zero_of d) key" and s: "lpm_delitem network lib key d = Inr d'"
  shows "lpm_inv network d' \<and> ld_ipv4 d' = ld_ipv4 d"
proof (cases "contains_sub ''/0'' key")
  case True
  then show ?thesis using s i by (auto simp: lpm_delitem_def bindR_eq_Inr lpm_inv_def zero_of_def)
next
  case False
  then obtain n nb t where n: "network key = Inr n" "addr_succ (net_last n) = Inr nb" "key \<in> set (ld_prefix_set d)"
      "st_del lib (ld_subnet_tree d) key = Inr t"
    using s by (auto simp: lpm_delitem_def bindR_eq_Inr split: if_splits)
  have "\<not> is_last_address (net_last n)"
    using n(2) by (auto simp: addr_succ_def is_last_address_def split: if_splits)
  from lpm_delete_works [OF i n(3,1) this n(4)] s show ?thesis by auto
qed

lemma lpm_ops_inv:
  "foldR (lpm_apply network lib) d ops = Inr d' \<Longrightarrow> lpm_inv network d \<Longrightarrow>
   \<forall>op \<in> set ops. net_ok network (zero_of d) (op_key op) \<Longrightarrow> lpm_inv network d' \<and> ld_ipv4 d' = ld_ipv4 d"
proof (induction ops arbitrary: d)
  case (Cons op ops)
  then obtain d1 where d1: "lpm_apply network lib d op = Inr d1" "foldR (lpm_apply network lib) d1 ops = Inr d'"
    by (auto simp: bindR_eq_Inr)
  have ok: "net_ok network (zero_of d) (op_key op)" using Cons.prems by simp
  have "lpm_inv network d1 \<and> ld_ipv4 d1 = ld_ipv4 d"
  proof (cases op)
    case (SetItem k v)
    then show ?thesis using lpm_inv_set [OF Cons.prems(2), of k lib v d1] d1(1) ok by simp
  next
    case (DelItem k)
    then show ?thesis using lpm_delete_inv [OF Cons.prems(2), of k lib d1] d1(1) ok by simp
  qed
  moreover then have "zero_of d1 = zero_of d" by (simp add: zero_of_def)
  ultimately show ?case using Cons.IH [OF d1(2)] Cons.prems(3) by simp
qed simp


definition demo_network :: "string \<Rightarrow> ip_net res" where
  "demo_network k = (if k = ''10.0.0.0/8''
     then Inr \<lparr>net_first = A4 (10 * 2 ^ 24), net_last = A4 (11 * 2 ^ 24 - 1), net_prefixlen = 8\<rparr>
     else if k = ''255.0.0.0/8''
     then Inr \<lparr>net_first = A4 (255 * 2 ^ 24), net_last = A4 (2 ^ 32 - 1), net_prefixlen = 8\<rparr>
     else Inl ValueError)"

definition demo_subnets :: "((string \<times> int) list, int) subnet_lib" where
  "demo_subnets = \<lparr>st_set = (\<lambda>t k v. Inr (AList.update k v t)), st_get = od_get,
     st_del = (\<lambda>t k. if od_has t k then Inr (AList.delete k t) else Inl KeyError), st_has = od_has\<rparr>"

lemma demo_net_ok: "net_ok demo_network (A4 0) ''10.0.0.0/8''" "net_ok demo_network (A4 0) ''255.0.0.0/8''"
  by (simp_all add: net_ok_def demo_network_def contains_sub_def same_family_def)

definition demo_lpm :: "(string \<times> int) list lpm_dict" where
  "demo_lpm = \<lparr>ld_ipv4 = True, ld_prefix_set = [''10.0.0.0/8''], ld_subnet_tree = [(''10.0.0.0/8'', 7)],
     ld_boundaries = [(A4 0, 1), (A4 (10 * 2 ^ 24), 1), (A4 (11 * 2 ^ 24), 1)]\<rparr>"

lemma demo_lpm_set:
  "lpm_setitem demo_network demo_subnets ''10.0.0.0/8'' 7 (LpmDict True []) = Inr demo_lpm"
  by (simp add: lpm_setitem_def demo_network_def LpmDict_def count_up_def is_last_address_def addr_succ_def
     demo_subnets_def demo_lpm_def)




text \<open>
  A prefix that reaches the end of the address space can be inserted but never
  deleted: insertion skips the boundary after the last address, deletion computes it and raises.
\<close>
theorem last_prefix_not_deletable:
  assumes "network key = Inr n" "is_last_address (net_last n)" "\<not> contains_sub ''/0'' key"
  shows "lpm_delitem network lib key d = Inl ValueError"
  using assms by (auto simp: lpm_delitem_def addr_succ_def is_last_address_def)

theorem last_prefix_not_deletable_witness:
  "(\<exists>d. lpm_setitem demo_network demo_subnets ''255.0.0.0/8'' 7 (LpmDict True []) = Inr d
      \<and> lpm_delitem demo_network demo_subnets ''255.0.0.0/8'' d = Inl ValueError)"
proof -
  have s: "\<exists>d. lpm_setitem demo_network demo_subnets ''255.0.0.0/8'' 7 (LpmDict True []) = Inr d"
    by (simp add: lpm_setitem_def demo_network_def LpmDict_def count_up_def is_last_address_def demo_subnets_def)
  have "lpm_delitem demo_network demo_subnets ''255.0.0.0/8'' d = Inl ValueError" for d
    by (rule last_prefix_not_deletable)
      (simp add: demo_network_def, simp_all add: is_last_address_def contains_sub_def)
  then show ?thesis using s by blast
qed

text \<open>
  As the module stands no prefix can be inserted at all, and none deleted but
  the default route: the name \<open>six\<close> is never imported, so parsing the key raises.
\<close>
theorem module_cannot_insert:
  "lpm_setitem module_network lib key v d = Inl NameError
   \<and> (\<not> contains_sub ''/0'' key \<longrightarrow> lpm_delitem module_network lib key d = Inl NameError)"
  by (simp add: lpm_setitem_def lpm_delitem_def module_network_def)

theorem module_cannot_insert_witness:
  "lpm_setitem module_network demo_subnets ''10.0.0.0/8'' 7 (LpmDict True []) = Inl NameError
   \<and> lpm_delitem module_network demo_subnets ''10.0.0.0/8'' (LpmDict True []) = Inl NameError"
proof -
  have "\<not> contains_sub ''/0'' ''10.0.0.0/8''" by (simp add: contains_sub_def)
  then show ?thesis using module_cannot_insert [of demo_subnets "''10.0.0.0/8''" 7 "LpmDict True []"] by blast
qed

end
