(* ===== verification/PtfSaiUtils.thy ===== *)
theory PtfSaiUtils
  imports PyText "HOL-Library.Word"
begin

text \<open>
  The helpers of \<open>ptf/sai_utils.py\<close>: addresses, prefixes and masks; counters read one by one with
  the API's error handling set aside; verification of packets on a socket; the delay wrapper
  and the decorator for warm reboots. The generated RPC adapter and client are parameters.
\<close>

section \<open>Client calls that are passed through\<close>

record ('c, 'o, 'i) sai_client =
  cl_enum_capability :: "'c \<Rightarrow> 'o \<Rightarrow> 'i \<Rightarrow> int \<Rightarrow> int list res"
  cl_availability :: "'c \<Rightarrow> 'o \<Rightarrow> 'i \<Rightarrow> 'i \<Rightarrow> int res"
  cl_type_query :: "'c \<Rightarrow> 'i \<Rightarrow> int res"
  cl_switch_id_query :: "'c \<Rightarrow> 'i \<Rightarrow> int res"
  cl_uninitialize :: "'c \<Rightarrow> int res"
  cl_port_stats :: "'c \<Rightarrow> 'i \<Rightarrow> int list \<Rightarrow> int list res"
  cl_switch_stats :: "'c \<Rightarrow> int list \<Rightarrow> int list res"

definition query_attribute_enum_values_capability ::
  "('c, 'o, 'i) sai_client \<Rightarrow> 'c \<Rightarrow> 'o \<Rightarrow> 'i \<Rightarrow> int list res" where
  "query_attribute_enum_values_capability lib client obj_type attr_id =
     cl_enum_capability lib client obj_type attr_id 20"

definition object_type_get_availability ::
  "('c, 'o, 'i) sai_client \<Rightarrow> 'c \<Rightarrow> 'o \<Rightarrow> 'i \<Rightarrow> 'i \<Rightarrow> int res" where
  "object_type_get_availability lib client obj_type attr_id attr_type =
     cl_availability lib client obj_type attr_id attr_type"

definition object_type_query :: "('c, 'o, 'i) sai_client \<Rightarrow> 'c \<Rightarrow> 'i \<Rightarrow> int res" where
  "object_type_query lib client obj_id = cl_type_query lib client obj_id"

definition switch_id_query :: "('c, 'o, 'i) sai_client \<Rightarrow> 'c \<Rightarrow> 'i \<Rightarrow> int res" where
  "switch_id_query lib client obj_id = cl_switch_id_query lib client obj_id"

definition api_uninitialize :: "('c, 'o, 'i) sai_client \<Rightarrow> 'c \<Rightarrow> int res" where
  "api_uninitialize lib client = cl_uninitialize lib client"

text \<open>The loop \<open>stats[counter_id] = counters[i]\<close>.\<close>

definition stats_of :: "int list \<Rightarrow> int list \<Rightarrow> (int, int) odict res" where
  "stats_of counter_ids counters =
     foldR (\<lambda>stats (i, counter_id). bindR (py_index counters (int i)) (\<lambda>v.
       Inr (AList.update counter_id v stats))) [] (enumerate 0 counter_ids)"

definition get_debug_counter_port_stats ::
  "('c, 'o, 'i) sai_client \<Rightarrow> 'c \<Rightarrow> 'i \<Rightarrow> int list \<Rightarrow> (int, int) odict res" where
  "get_debug_counter_port_stats lib client port_oid counter_ids =
     bindR (cl_port_stats lib client port_oid counter_ids) (stats_of counter_ids)"

definition get_debug_counter_switch_stats ::
  "('c, 'o, 'i) sai_client \<Rightarrow> 'c \<Rightarrow> int list \<Rightarrow> (int, int) odict res" where
  "get_debug_counter_switch_stats lib client counter_ids =
     bindR (cl_switch_stats lib client counter_ids) (stats_of counter_ids)"

section \<open>Addresses and masks\<close>

datatype ip_addr_t = Ip4 string | Ip6 string
datatype ip_family = FamilyV4 | FamilyV6

record ip_address_t =
  ia_family :: ip_family
  ia_addr :: ip_addr_t

record ip_prefix_t =
  ip_family_of :: ip_family
  ip_addr :: ip_addr_t
  ip_mask :: ip_addr_t

definition sai_ipaddress :: "string \<Rightarrow> ip_address_t res" where
  "sai_ipaddress addr_str =
     (if CHR '':'' \<in> set addr_str then Inr \<lparr>ia_family = FamilyV6, ia_addr = Ip6 addr_str\<rparr>
      else if CHR ''.'' \<in> set addr_str then Inr \<lparr>ia_family = FamilyV4, ia_addr = Ip4 addr_str\<rparr>
      else Inl UnboundLocalError)"

text \<open>\<open>(1 << width) - (1 << width >> n)\<close>; a negative shift raises.\<close>

definition mask_number :: "nat \<Rightarrow> int \<Rightarrow> nat res" where
  "mask_number width n = (if n < 0 then Inl ValueError else Inr (2 ^ width - 2 ^ width div 2 ^ nat n))"

text \<open>\<open>inet_ntop(AF_INET, pack('>L', mask))\<close>.\<close>

definition dotted :: "nat \<Rightarrow> string" where
  "dotted m = join ''.'' (map (\<lambda>k. str_of_nat (m div 256 ^ k mod 256)) [3, 2, 1, 0])"

definition pack_dotted :: "nat \<Rightarrow> string res" where
  "pack_dotted m = (if m < 2 ^ 32 then Inr (dotted m) else Inl StructError)"

text \<open>The loop over the digits, with its counter.\<close>

fun group_digits :: "nat \<Rightarrow> string \<Rightarrow> string" where
  "group_digits i [] = []"
| "group_digits i (sign # s) =
     (if (i + 1) mod 4 = 0 then sign # CHR '':'' # group_digits (i + 1) s
      else sign # group_digits (i + 1) s)"

definition num_to_dotted_quad4 :: "string \<Rightarrow> string res" where
  "num_to_dotted_quad4 address =
     bindR (py_int address) (\<lambda>n. bindR (mask_number 32 n) pack_dotted)"

definition num_to_dotted_quad6 :: "int \<Rightarrow> string res" where
  "num_to_dotted_quad6 address =
     bindR (mask_number 128 address) (\<lambda>m. Inr (butlast (group_digits 0 (digits_of 16 m))))"

text \<open>\<open>None\<close> for a text that is not an address and a mask.\<close>

definition sai_ipprefix :: "string \<Rightarrow> ip_prefix_t option res" where
  "sai_ipprefix prefix_str =
     (case split_char (CHR ''/'') prefix_str of
        [a, m] \<Rightarrow>
          bindR (if CHR ''.'' \<in> set prefix_str
                 then bindR (num_to_dotted_quad4 m) (\<lambda>q.
                   Inr (Some \<lparr>ip_family_of = FamilyV4, ip_addr = Ip4 a, ip_mask = Ip4 q\<rparr>))
                 else Inr None) (\<lambda>p4.
          bindR (if CHR '':'' \<in> set prefix_str
                 then bindR (bindR (py_int m) num_to_dotted_quad6) (\<lambda>q.
                   Inr (Some \<lparr>ip_family_of = FamilyV6, ip_addr = Ip6 a, ip_mask = Ip6 q\<rparr>))
                 else Inr p4) (\<lambda>p6.
          case p6 of None \<Rightarrow> Inl UnboundLocalError | Some p \<Rightarrow> Inr (Some p)))
      | _ \<Rightarrow> Inr None)"

section \<open>Packets on a socket\<close>

text \<open>Each receive before the time limit: a packet that matches or not, or an exception (also of
  the comparison), which is swallowed.\<close>

datatype recv = Packet bool | RecvRaises

fun recv_loop :: "bool \<Rightarrow> recv list \<Rightarrow> bool" where
  "recv_loop match [] = match"
| "recv_loop match (RecvRaises # rs) = recv_loop match rs"
| "recv_loop match (Packet m # rs) = (if m then True else recv_loop m rs)"

text \<open>\<open>valid\<close> says of a mask whether it is one (\<open>None\<close> for a plain packet).\<close>

definition socket_verify_packet :: "bool option \<Rightarrow> recv list \<Rightarrow> bool" where
  "socket_verify_packet valid rs = (if valid = Some False then False else recv_loop False rs)"

section \<open>Delays and warm reboots\<close>

record 's clocked =
  ck_slept :: nat
  ck_inner :: 's

definition delay_wrapper :: "(string, string) odict \<Rightarrow> nat \<Rightarrow> ('s, 'a) py \<Rightarrow> ('s clocked, 'a) py" where
  "delay_wrapper test_params delay func =
     thenP (if od_has test_params ''target'' \<and> map_of test_params ''target'' \<noteq> Some ''hw''
            then modP (\<lambda>c. c\<lparr>ck_slept := ck_slept c + delay\<rparr>) else retP ())
       (\<lambda>c. case func (ck_inner c) of (r, s) \<Rightarrow> (r, c\<lparr>ck_inner := s\<rparr>))"

text \<open>The waiting loop of a warm reboot: the texts read from the file, one per round (a list that
  ends stands for a reader that fails). The result says how the loop was left.\<close>

datatype warm_end = RebootDone | WaitRaised pyerr

fun warm_wait :: "bool \<Rightarrow> nat \<Rightarrow> ('s, unit) py \<Rightarrow> nat \<Rightarrow> string res list \<Rightarrow> 's \<Rightarrow> warm_end \<times> 's" where
  "warm_wait rebooting time_out f rounds [] s = (WaitRaised IOError, s)"
| "warm_wait rebooting time_out f rounds (t # ts) s =
     (case t of Inl e \<Rightarrow> (WaitRaised e, s)
      | Inr txt \<Rightarrow>
        if contains_sub ''post_reboot_done'' txt then (RebootDone, s)
        else (case (if rebooting then f s else (Inr (), s)) of
            (Inl e, s') \<Rightarrow> (WaitRaised e, s')
          | (Inr _, s') \<Rightarrow>
              if rounds + 1 > time_out then (WaitRaised (Exn ''time out''), s')
              else warm_wait rebooting time_out f (rounds + 1) ts s'))"

text \<open>What the decorator does around the test: \<open>shutdown\<close> before the wait, \<open>restart\<close> (the new RPC
  client and the warm start) after it, both on the test's state; the exception of the wait is
  printed and dropped.\<close>

definition warm_test :: "bool \<Rightarrow> nat \<Rightarrow> bool \<Rightarrow> ('s, unit) py \<Rightarrow> ('s, unit) py \<Rightarrow> string res list
   \<Rightarrow> ('s, unit) py \<Rightarrow> ('s, unit) py" where
  "warm_test rebooting time_out warm shutdown restart reads f =
     thenP (if warm then thenP shutdown (thenP
         (\<lambda>s. case warm_wait rebooting time_out f 0 reads s of (w, s') \<Rightarrow> (Inr (), s'))
         restart) else retP ()) f"

section \<open>Counters\<close>

text \<open>The adapter's two globals and the copies the module keeps of them.\<close>

record adapter =
  ad_catch :: bool
  ad_expected :: "int list"
  ad_saved_catch :: bool
  ad_saved_expected :: "int list"

definition ignore_api_errors :: "(adapter, bool \<times> int list) py" where
  "ignore_api_errors = bindP getP (\<lambda>a. thenP (modP (\<lambda>a. a\<lparr>ad_saved_catch := ad_catch a,
       ad_saved_expected := ad_expected a, ad_catch := True, ad_expected := []\<rparr>))
     (retP (ad_catch a, ad_expected a)))"

definition restore_api_error_code :: "(adapter, unit) py" where
  "restore_api_error_code =
     modP (\<lambda>a. a\<lparr>ad_catch := ad_saved_catch a, ad_expected := ad_saved_expected a\<rparr>)"

text \<open>The counter names of a function, from its name: the adapter's dictionaries \<open>tables\<close> by name.\<close>

definition counter_base :: "string \<Rightarrow> string \<Rightarrow> string option \<Rightarrow> string res" where
  "counter_base start name inner =
     (let fun_name = (if prefix start name then name else case inner of Some n \<Rightarrow> n | None \<Rightarrow> []) in
      if \<not> prefix start name \<and> inner = None then Inl KeyError
      else if \<not> prefix start fun_name then Inl NameError
      else Inr (lstrip_set ''sai_thrift_'' fun_name))"

type_synonym counter_tables = "(string, (int, string) odict \<times> int list) odict"

definition counter_table :: "counter_tables \<Rightarrow> string \<Rightarrow> ((int, string) odict \<times> int list) res" where
  "counter_table tables base = (case map_of tables base of None \<Rightarrow> Inl AttributeError | Some t \<Rightarrow> Inr t)"

text \<open>One call of the counter function: the test's status after it and the statistics returned, by
  counter name.\<close>

type_synonym counter_call = "int \<Rightarrow> (bool \<times> (string, int) odict) res"

definition query_one :: "(int, string) odict \<Rightarrow> counter_call
   \<Rightarrow> (string, int) odict \<times> string list \<times> string list \<Rightarrow> int
   \<Rightarrow> ((string, int) odict \<times> string list \<times> string list) res" where
  "query_one id_dict call acc i = (case acc of (result, passed, failed) \<Rightarrow>
     bindR (od_get id_dict i) (\<lambda>counter.
     bindR (call i) (\<lambda>(success, stats).
     bindR (od_get stats counter) (\<lambda>v.
     Inr (AList.update counter v result,
       if success then passed @ [counter] else passed, if success then failed else failed @ [counter])))))"

definition query_counter :: "counter_tables \<Rightarrow> string \<Rightarrow> string option \<Rightarrow> counter_call
   \<Rightarrow> (adapter, (string, int) odict) py" where
  "query_counter tables name inner call =
     bindP (liftP (bindR (counter_base ''sai_thrift_get'' name inner) (counter_table tables))) (\<lambda>(id_dict, id_list).
     thenP ignore_api_errors
     (bindP (liftP (foldR (query_one id_dict call) ([], [], []) id_list)) (\<lambda>(result, passed, failed).
      thenP restore_api_error_code (retP result))))"

definition clear_one :: "(int, string) odict \<Rightarrow> (int \<Rightarrow> bool res) \<Rightarrow> string list \<times> string list \<Rightarrow> int
   \<Rightarrow> (string list \<times> string list) res" where
  "clear_one id_dict call acc i =
     bindR (od_get id_dict i) (\<lambda>counter.
     bindR (call i) (\<lambda>success.
     Inr (if success then (fst acc @ [counter], snd acc) else (fst acc, snd acc @ [counter]))))"

definition clear_counter :: "counter_tables \<Rightarrow> string \<Rightarrow> string option \<Rightarrow> (int \<Rightarrow> bool res)
   \<Rightarrow> (adapter, unit) py" where
  "clear_counter tables name inner call =
     bindP (liftP (bindR (counter_base ''sai_thrift_clear'' name inner) (counter_table tables))) (\<lambda>(id_dict, id_list).
     thenP ignore_api_errors
     (bindP (liftP (foldR (clear_one id_dict call) ([], []) id_list)) (\<lambda>_.
      restore_api_error_code)))"

section \<open>Masks\<close>

unbundle bit_operations_syntax

lemma mask_number_le: "n \<le> w \<Longrightarrow> mask_number w (int n) = Inr (2 ^ w - 2 ^ (w - n))"
  by (simp add: mask_number_def power_diff)

lemma ones_then_zeros: "n \<le> w \<Longrightarrow> (2::nat) ^ w - 2 ^ (w - n) = push_bit (w - n) (mask n)"
proof -
  assume "n \<le> w"
  then have "(2::nat) ^ w = 2 ^ n * 2 ^ (w - n)" by (simp flip: power_add)
  then show ?thesis by (simp add: push_bit_eq_mult mask_eq_exp_minus_1 diff_mult_distrib)
qed

lemma mask_bits: "n \<le> w \<Longrightarrow> i < w \<Longrightarrow> bit ((2::nat) ^ w - 2 ^ (w - n)) i \<longleftrightarrow> w - n \<le> i"
  by (auto simp: ones_then_zeros bit_push_bit_iff bit_mask_iff)

text \<open>C25 (bounds). For every prefix length of an IPv4 prefix the mask is printed in four parts,
  and it is the number whose leading bits, as many as the length says, are the ones that are set.
\<close>
theorem dotted_quad_mask:
  assumes "n \<le> 32"
  shows "\<exists>m. num_to_dotted_quad4 (str_of_nat n) = Inr (dotted m) \<and> m < 2 ^ 32
    \<and> (\<forall>i < 32. bit m i \<longleftrightarrow> 32 - n \<le> i)"
proof -
  have "(2::nat) ^ 32 - 2 ^ (32 - n) < 2 ^ 32" by simp
  then show ?thesis
    using mask_bits [OF assms] assms
    by (intro exI [of _ "2 ^ 32 - 2 ^ (32 - n)"])
      (simp add: num_to_dotted_quad4_def mask_number_le pack_dotted_def del: numeral_power_eq_of_nat_cancel_iff)
qed

theorem dotted_quad_mask_witness: "\<exists>m. num_to_dotted_quad4 (str_of_nat 24) = Inr (dotted m) \<and> m < 2 ^ 32
    \<and> bit m 8 \<and> \<not> bit m 7"
  using dotted_quad_mask [of 24] by auto

lemma length_digits_of:
  "2 \<le> b \<Longrightarrow> b ^ k \<le> m \<Longrightarrow> m < b ^ Suc k \<Longrightarrow> length (digits_of b m) = Suc k"
proof (induction k arbitrary: m)
  case 0
  then show ?case by (subst digits_of.simps) simp
next
  case (Suc k)
  have "b \<le> b ^ Suc k" using Suc.prems(1) by (intro self_le_power) simp_all
  then have "\<not> m < b" using Suc.prems(2) by linarith
  moreover have "b ^ k \<le> m div b"
    using Suc.prems(1,2) by (simp add: less_eq_div_iff_mult_less_eq mult.commute)
  moreover have "m div b < b ^ Suc k"
    using Suc.prems(1,3) by (simp add: div_less_iff_less_mult mult.commute)
  ultimately show ?case using Suc.IH [of "m div b"] Suc.prems(1) by (subst digits_of.simps) simp
qed

fun chunks4 :: "string \<Rightarrow> string list" where
  "chunks4 (a # b # c # d # s) = [a, b, c, d] # chunks4 s"
| "chunks4 _ = []"

lemma four_chars:
  assumes "length s = 4 * Suc k" shows "\<exists>a b c d t. s = a # b # c # d # t \<and> length t = 4 * k"
proof -
  obtain a s1 where 1: "s = a # s1" using assms by (cases s) simp_all
  obtain b s2 where 2: "s1 = b # s2" using assms 1 by (cases s1) simp_all
  obtain c s3 where 3: "s2 = c # s3" using assms 1 2 by (cases s2) simp_all
  obtain d t where 4: "s3 = d # t" using assms 1 2 3 by (cases s3) simp_all
  show ?thesis using assms 1 2 3 4 by simp
qed

lemma chunks4_props:
  "length s = 4 * k \<Longrightarrow> concat (chunks4 s) = s \<and> length (chunks4 s) = k \<and> (\<forall>g \<in> set (chunks4 s). length g = 4)"
proof (induction k arbitrary: s)
  case (Suc k)
  obtain a b c d t where "s = a # b # c # d # t" "length t = 4 * k"
    using four_chars [OF Suc.prems] by blast
  note st = this
  have "concat (chunks4 t) = t" "length (chunks4 t) = k" "\<forall>g \<in> set (chunks4 t). length g = 4"
    using Suc.IH [OF st(2)] by blast+
  then show ?case unfolding st(1) by (simp add: numeral_eq_Suc)
qed simp

lemma group_chunks:
  "length s = 4 * k \<Longrightarrow> i mod 4 = 0 \<Longrightarrow> group_digits i s = concat (map (\<lambda>g. g @ '':'') (chunks4 s))"
proof (induction k arbitrary: s i)
  case (Suc k)
  obtain a b c d t where s: "s = a # b # c # d # t" "length t = 4 * k"
    using four_chars [OF Suc.prems(1)] by blast
  have m: "(i + 1) mod 4 \<noteq> 0" "(i + 1 + 1) mod 4 \<noteq> 0" "(i + 1 + 1 + 1) mod 4 \<noteq> 0" "(i + 1 + 1 + 1 + 1) mod 4 = 0"
    using Suc.prems(2) by presburger+
  have "group_digits i s = a # b # c # d # CHR '':'' # group_digits (i + 1 + 1 + 1 + 1) t"
    unfolding s(1) by (simp only: group_digits.simps m if_False if_True simp_thms)
  then show ?case unfolding Suc.IH [OF s(2) m(4)] s(1) by simp
qed simp

lemma butlast_join: "gs \<noteq> [] \<Longrightarrow> butlast (concat (map (\<lambda>g. g @ '':'') gs)) = join '':'' gs"
proof (induction gs)
  case (Cons g gs)
  then show ?case by (cases "gs = []") (auto simp: join_Cons butlast_append)
qed simp

text \<open>For every prefix length of an IPv6 prefix but zero the mask is printed as
  eight groups of four hexadecimal digits, and the digits read as the number whose leading bits,
  as many as the length says, are the ones that are set.
\<close>
theorem ipv6_mask_groups:
  assumes "0 < n" "n \<le> 128"
  shows "\<exists>gs m. num_to_dotted_quad6 (int n) = Inr (join '':'' gs) \<and> length gs = 8
    \<and> (\<forall>g \<in> set gs. length g = 4) \<and> digits_acc 16 0 (concat gs) = Some m
    \<and> (\<forall>i < 128. bit m i \<longleftrightarrow> 128 - n \<le> i)"
proof -
  let ?m = "(2::nat) ^ 128 - 2 ^ (128 - n)"
  let ?d = "digits_of 16 ?m"
  have "(2::nat) ^ (128 - n) \<le> 2 ^ 127" using assms(1) by (intro power_increasing) auto
  then have "2 ^ 128 - (2::nat) ^ 127 \<le> ?m" by (rule diff_le_mono2)
  moreover have "(16::nat) ^ 31 \<le> 2 ^ 128 - 2 ^ 127" by simp
  ultimately have lo: "(16::nat) ^ 31 \<le> ?m" by linarith
  have "(16::nat) ^ Suc 31 = 2 ^ 128" by simp
  moreover have "?m < 2 ^ 128" by simp
  ultimately have hi: "?m < 16 ^ Suc 31" by linarith
  have len: "length ?d = 4 * 8" using length_digits_of [OF _ lo hi] by simp
  note c = chunks4_props [OF len]
  have ne: "chunks4 ?d \<noteq> []" using c by auto
  have "num_to_dotted_quad6 (int n) = Inr (join '':'' (chunks4 ?d))"
    unfolding num_to_dotted_quad6_def mask_number_le [OF assms(2)]
    using group_chunks [OF len, of 0] butlast_join [OF ne] by simp
  moreover have "digits_acc 16 0 (concat (chunks4 ?d)) = Some ?m"
    using c digits_of_parse [of 16 ?m] by simp
  ultimately show ?thesis using c mask_bits [OF assms(2)] by blast
qed

theorem ipv6_mask_groups_witness:
  "\<exists>gs m. num_to_dotted_quad6 64 = Inr (join '':'' gs) \<and> length gs = 8
    \<and> digits_acc 16 0 (concat gs) = Some m \<and> bit m 64 \<and> \<not> bit m 63"
  using ipv6_mask_groups [of 64] by auto

text \<open>
  The mask of an IPv6 default route is the empty text, and a prefix whose address
  is an IPv4-mapped IPv6 address cannot be built: its length is first read as that of an IPv4
  prefix, which does not fit.
\<close>
theorem ipv6_prefix_gaps:
  "num_to_dotted_quad6 0 = Inr []
   \<and> sai_ipprefix ''::/0'' = Inr (Some \<lparr>ip_family_of = FamilyV6, ip_addr = Ip6 ''::'', ip_mask = Ip6 []\<rparr>)
   \<and> sai_ipprefix ''::ffff:10.0.0.1/96'' = Inl StructError"
proof -
  have z: "num_to_dotted_quad6 0 = Inr []"
    by (simp add: num_to_dotted_quad6_def mask_number_def) (simp add: digits_of.simps)
  have i: "py_int ''0'' = Inr 0" "py_int ''96'' = Inr 96" by code_simp+
  have s: "split_char (CHR ''/'') ''::/0'' = [''::'', ''0'']"
    "split_char (CHR ''/'') ''::ffff:10.0.0.1/96'' = [''::ffff:10.0.0.1'', ''96'']" by code_simp+
  have q: "num_to_dotted_quad4 ''96'' = Inl StructError"
    by (simp add: num_to_dotted_quad4_def i mask_number_def pack_dotted_def)
  show ?thesis by (simp add: z sai_ipprefix_def s i q)
qed

text \<open>
  An IPv4 prefix in slash notation becomes its address and the mask of its
  length.
\<close>
theorem ipv4_prefix:
  assumes "n \<le> 32" "CHR ''.'' \<in> set a" "CHR '':'' \<notin> set a" "CHR ''/'' \<notin> set a"
  shows "sai_ipprefix (a @ ''/'' @ str_of_nat n) =
    Inr (Some \<lparr>ip_family_of = FamilyV4, ip_addr = Ip4 a, ip_mask = Ip4 (dotted (2 ^ 32 - 2 ^ (32 - n)))\<rparr>)"
proof -
  have d: "c \<in> set (str_of_nat n) \<Longrightarrow> c \<noteq> CHR ''/'' \<and> c \<noteq> CHR '':''" for c
    using str_of_nat_is_digit [of c n] by (auto simp: is_digit_def digit_val_def)
  have s: "split_char (CHR ''/'') (a @ ''/'' @ str_of_nat n) = [a, str_of_nat n]"
    using assms(4) d split_char_append [of "CHR ''/''" a "str_of_nat n"] split_char_none [of "CHR ''/''" "str_of_nat n"] by auto
  have c: "CHR '':'' \<notin> set (a @ ''/'' @ str_of_nat n)" "CHR ''.'' \<in> set (a @ ''/'' @ str_of_nat n)"
    using assms(2,3) d by auto
  have "(2::nat) ^ 32 - 2 ^ (32 - n) < 2 ^ 32" by simp
  then have q: "num_to_dotted_quad4 (str_of_nat n) = Inr (dotted (2 ^ 32 - 2 ^ (32 - n)))"
    by (simp add: num_to_dotted_quad4_def mask_number_le [OF assms(1)] pack_dotted_def)
  show ?thesis unfolding sai_ipprefix_def s using c q by simp
qed

theorem ipv4_prefix_witness:
  "sai_ipprefix ''10.0.0.0/8'' =
    Inr (Some \<lparr>ip_family_of = FamilyV4, ip_addr = Ip4 ''10.0.0.0'', ip_mask = Ip4 ''255.0.0.0''\<rparr>)"
proof -
  have s: "str_of_nat 8 = ''8''" by (simp add: decimal_eval)
  have "dotted (2 ^ 32 - 2 ^ (32 - 8)) = ''255.0.0.0''" by (simp add: dotted_def decimal_eval)
  then show ?thesis using ipv4_prefix [of 8 "''10.0.0.0''"] by (simp add: s)
qed

section \<open>Counters\<close>

text \<open>Although the name is stripped of a set of characters and not of a prefix, the
  base of every counter function's name comes out whole, because the letter after the prefix
  is not in the set; any other name is refused.
\<close>
theorem counter_base_correct:
  "counter_base ''sai_thrift_get'' (''sai_thrift_get'' @ r) inner = Inr (''get'' @ r)
   \<and> counter_base ''sai_thrift_clear'' (''sai_thrift_clear'' @ r) inner = Inr (''clear'' @ r)
   \<and> (counter_base ''sai_thrift_get'' name None = Inr b \<longrightarrow> name = ''sai_thrift_'' @ b)"
proof -
  have g: "lstrip_set ''sai_thrift_'' (''sai_thrift_get'' @ q) = ''get'' @ q" for q
    by (simp add: lstrip_set_def lstrip_by_def)
  have c: "lstrip_set ''sai_thrift_'' (''sai_thrift_clear'' @ q) = ''clear'' @ q" for q
    by (simp add: lstrip_set_def lstrip_by_def)
  have "counter_base ''sai_thrift_get'' name None = Inr b \<Longrightarrow> name = ''sai_thrift_'' @ b"
  proof -
    assume b: "counter_base ''sai_thrift_get'' name None = Inr b"
    then have "prefix ''sai_thrift_get'' name" by (auto simp: counter_base_def Let_def split: if_splits)
    then obtain q where q: "name = ''sai_thrift_get'' @ q" by (auto elim: prefixE)
    show ?thesis using b g [of q] unfolding q by (simp add: counter_base_def)
  qed
  then show ?thesis using g [of r] c [of r] by (simp add: counter_base_def)
qed

theorem counter_base_correct_witness:
  "counter_base ''sai_thrift_get'' ''sai_thrift_get_port_stats'' None = Inr ''get_port_stats''"
  using counter_base_correct [of "''_port_stats''" None] by simp

text \<open>Reading or clearing counters that ends normally leaves the adapter's error
  handling as it was.
\<close>
theorem counters_restore_adapter:
  "(query_counter tables name inner call a = (Inr r, a') \<longrightarrow> ad_catch a' = ad_catch a \<and> ad_expected a' = ad_expected a)
   \<and> (clear_counter tables name inner call' a = (Inr u, a') \<longrightarrow> ad_catch a' = ad_catch a \<and> ad_expected a' = ad_expected a)"
  by (auto simp: query_counter_def clear_counter_def ignore_api_errors_def restore_api_error_code_def py_res
      split: sum.splits prod.splits)

definition demo_adapter :: adapter where
  "demo_adapter = \<lparr>ad_catch = False, ad_expected = [3], ad_saved_catch = True, ad_saved_expected = []\<rparr>"

definition demo_tables :: counter_tables where
  "demo_tables = [(''get_port_stats'', [(1, ''IN''), (2, ''OUT'')], [1, 2])]"

theorem counters_restore_adapter_witness:
  "\<exists>a'. query_counter demo_tables ''sai_thrift_get_port_stats'' None (\<lambda>i. Inr (True, [(''IN'', 5), (''OUT'', 6)])) demo_adapter
      = (Inr [(''IN'', 5), (''OUT'', 6)], a') \<and> ad_catch a' = False \<and> ad_expected a' = [3]"
proof -
  let ?r = "query_counter demo_tables ''sai_thrift_get_port_stats'' None (\<lambda>i. Inr (True, [(''IN'', 5), (''OUT'', 6)])) demo_adapter"
  have b: "counter_base ''sai_thrift_get'' ''sai_thrift_get_port_stats'' None = Inr ''get_port_stats''" by code_simp
  obtain a' where a': "?r = (Inr [(''IN'', 5), (''OUT'', 6)], a')"
    by (simp add: query_counter_def b counter_table_def demo_tables_def py_res ignore_api_errors_def
        restore_api_error_code_def query_one_def od_get_def)
  with counters_restore_adapter [of demo_tables "''sai_thrift_get_port_stats''" None
      "\<lambda>i. Inr (True, [(''IN'', 5), (''OUT'', 6)])" demo_adapter "[(''IN'', 5), (''OUT'', 6)]" a' "\<lambda>i. Inr True" "()"]
  show ?thesis by (simp add: demo_adapter_def)
qed

text \<open>
  When the counter function raises, or its statistics lack a counter, the error
  handling is not restored: every later API error of the test is ignored.
\<close>
theorem counter_error_leaves_errors_ignored:
  assumes "bindR (counter_base ''sai_thrift_get'' name inner) (counter_table tables) = Inr (id_dict, id_list)"
    "foldR (query_one id_dict call) ([], [], []) id_list = Inl e"
  shows "\<exists>a'. query_counter tables name inner call a = (Inl e, a') \<and> ad_catch a' \<and> ad_expected a' = []"
  unfolding query_counter_def assms(1)
  by (simp add: ignore_api_errors_def bindP_apply thenP_apply assms(2))

theorem counter_error_leaves_errors_ignored_witness:
  "\<exists>a'. query_counter demo_tables ''sai_thrift_get_port_stats'' None (\<lambda>i. Inr (True, [(''IN'', 5)])) demo_adapter
      = (Inl KeyError, a') \<and> ad_catch a' \<and> ad_expected a' = []"
proof (rule counter_error_leaves_errors_ignored)
  have b: "counter_base ''sai_thrift_get'' ''sai_thrift_get_port_stats'' None = Inr ''get_port_stats''" by code_simp
  show "bindR (counter_base ''sai_thrift_get'' ''sai_thrift_get_port_stats'' None) (counter_table demo_tables)
      = Inr ([(1, ''IN''), (2, ''OUT'')], [1, 2])" by (simp add: b counter_table_def demo_tables_def)
  show "foldR (query_one [(1, ''IN''), (2, ''OUT'')] (\<lambda>i. Inr (True, [(''IN'', 5)]))) ([], [], []) [1, 2] = Inl KeyError"
    by (simp add: query_one_def od_get_def)
qed

text \<open>
  The two error-handling calls do not nest: after two calls to ignore errors and
  one to restore them, or two, errors are still ignored.
\<close>
theorem ignore_errors_not_nested:
  "ad_catch (snd (thenP ignore_api_errors (thenP ignore_api_errors
     (thenP restore_api_error_code restore_api_error_code)) a))
   \<and> ad_expected (snd (thenP ignore_api_errors (thenP ignore_api_errors
     (thenP restore_api_error_code restore_api_error_code)) a)) = []"
  by (simp add: ignore_api_errors_def restore_api_error_code_def py_res)

section \<open>Waiting\<close>

lemma warm_wait_state: "snd (warm_wait False time_out f rounds reads s) = s"
  by (induction reads arbitrary: rounds) (auto split: sum.split)

lemma warm_wait_timeout:
  "\<forall>r \<in> set reads. \<exists>t. r = Inr t \<and> \<not> contains_sub ''post_reboot_done'' t \<Longrightarrow>
   rounds \<le> time_out \<Longrightarrow> time_out - rounds < length reads \<Longrightarrow>
   warm_wait False time_out f rounds reads s = (WaitRaised (Exn ''time out''), s)"
proof (induction reads arbitrary: rounds)
  case (Cons r rs)
  show ?case
  proof (cases "rounds + 1 > time_out")
    case False
    then have "warm_wait False time_out f (rounds + 1) rs s = (WaitRaised (Exn ''time out''), s)"
      using Cons.prems by (intro Cons.IH) auto
    then show ?thesis using Cons.prems False by auto
  qed (use Cons.prems in auto)
qed simp

text \<open>The documentation says that an exceeded time limit raises an error. The limit is
  noticed, after one round more than it says, but its exception is dropped: the test is
  restarted and run exactly as if the reboot had completed.
\<close>
theorem warm_timeout_dropped:
  assumes "\<forall>r \<in> set reads. \<exists>t. r = Inr t \<and> \<not> contains_sub ''post_reboot_done'' t" "time_out < length reads"
    "shutdown s = (Inr (), s1)"
  shows "fst (warm_wait False time_out f 0 reads s1) = WaitRaised (Exn ''time out'')
    \<and> warm_test False time_out True shutdown restart reads f s = thenP restart f s1"
  using warm_wait_timeout [OF assms(1), of 0 time_out f s1] assms(2,3)
  by (simp add: warm_test_def py_res split: sum.splits prod.splits)

theorem warm_timeout_dropped_witness:
  "warm_test False 1 True (modP (\<lambda>s. s @ [1])) (modP (\<lambda>s. s @ [2])) [Inr ''rebooting'', Inr ''rebooting'']
     (modP (\<lambda>s. s @ [3])) [] = (Inr (), [1, 2, 3 :: nat])"
proof -
  have c: "\<forall>r \<in> set [Inr ''rebooting'', Inr ''rebooting'']. \<exists>t. r = Inr t \<and> \<not> contains_sub ''post_reboot_done'' t"
    by (simp add: contains_sub_def)
  show ?thesis
    using warm_timeout_dropped [OF c, of 1 "modP (\<lambda>s. s @ [1])" "[]" "[1]" "modP (\<lambda>s. s @ [3])" "modP (\<lambda>s. s @ [2 :: nat])"]
    by (simp add: py_res)
qed

text \<open>A packet is verified exactly when the expectation is usable and one of the
  packets received before the time limit matches, whatever exceptions occur in between.
\<close>
theorem socket_verify_iff:
  "socket_verify_packet valid rs \<longleftrightarrow> valid \<noteq> Some False \<and> Packet True \<in> set rs"
proof -
  have "recv_loop False rs \<longleftrightarrow> Packet True \<in> set rs"
    by (induction False rs rule: recv_loop.induct) auto
  then show ?thesis by (simp add: socket_verify_packet_def)
qed

text \<open>
  The statistics of counters are those returned at their positions; fewer
  values than counters raise an index error.
\<close>
theorem stats_of_correct:
  assumes "distinct ids"
  shows "stats_of ids vals = (if length ids \<le> length vals then Inr (zip ids vals) else Inl IndexError)"
proof -
  have upd: "k \<notin> fst ` set d \<Longrightarrow> AList.update k v d = d @ [(k, v)]" for k and v :: int and d :: "(int \<times> int) list"
    by (induction d) auto
  have ok: "n \<le> length ids \<Longrightarrow> n \<le> length vals \<Longrightarrow>
      foldR (\<lambda>stats (i, c). bindR (py_index vals (int i)) (\<lambda>v. Inr (AList.update c v stats))) []
        (take n (enumerate 0 ids)) = Inr (take n (zip ids vals))" for n
  proof (induction n)
    case (Suc n)
    have e: "take (Suc n) (enumerate 0 ids) = take n (enumerate 0 ids) @ [(n, ids ! n)]"
      using Suc.prems by (simp add: take_Suc_conv_app_nth nth_enumerate_eq)
    have z: "take (Suc n) (zip ids vals) = take n (zip ids vals) @ [(ids ! n, vals ! n)]"
      using Suc.prems by (simp add: take_Suc_conv_app_nth)
    have "ids ! n \<notin> fst ` set (take n (zip ids vals))"
    proof -
      have "set (map fst (take n (zip ids vals))) = set (take n ids)"
        using Suc.prems by (simp add: take_zip)
      moreover have "ids ! n \<notin> set (take n ids)"
        using assms Suc.prems by (auto simp: in_set_conv_nth nth_eq_iff_index_eq)
      ultimately show ?thesis by simp
    qed
    then show ?case unfolding e z foldR_append
      using Suc by (simp add: py_index_nat upd del: enumerate_simps)
  qed simp
  show ?thesis
  proof (cases "length ids \<le> length vals")
    case True
    then show ?thesis using ok [of "length ids"] by (simp add: stats_of_def)
  next
    case False
    then have l: "length vals < length ids" by simp
    let ?n = "length vals"
    have s: "enumerate 0 ids = take ?n (enumerate 0 ids) @ (?n, ids ! ?n) # drop (Suc ?n) (enumerate 0 ids)"
      using l id_take_nth_drop [of ?n "enumerate 0 ids"] by (simp add: nth_enumerate_eq)
    have "stats_of ids vals = foldR (\<lambda>stats (i, c). bindR (py_index vals (int i)) (\<lambda>v. Inr (AList.update c v stats))) []
        (take ?n (enumerate 0 ids) @ (?n, ids ! ?n) # drop (Suc ?n) (enumerate 0 ids))"
      unfolding stats_of_def using s by simp
    also have "\<dots> = Inl IndexError"
      unfolding foldR_append ok [OF less_imp_le [OF l] order_refl] by (simp add: py_index_nat)
    finally show ?thesis using l by simp
  qed
qed

theorem stats_of_correct_witness: "stats_of [4, 9] [10, 20] = Inr [(4, 10), (9, 20)]"
  using stats_of_correct [of "[4, 9]" "[10, 20]"] by simp

end
