(* ===== verification/PtfConfig.thy ===== *)
theory PtfConfig
  imports PyJson
begin

text \<open>
  The two readers of port configurations, \<open>ptf/config/config_db_loader.py\<close> and
  \<open>ptf/config/port_config_ini_loader.py\<close>, with the data objects of \<open>ptf/data_module\<close> they fill.
  The file system is a predicate (which paths exist) and a function from a path to what
  \<open>open\<close> followed by \<open>json.load\<close> returns, or to the text of the file. Attributes that the code
  takes over from the document unread are JSON values, with \<open>JNull\<close> for \<open>None\<close>; a number may be
  written as a number or as a text, read by \<open>int\<close> (decimal digits without underscores; a JSON
  number with a fraction is outside the model).
\<close>

section \<open>The data objects\<close>

record port_config =
  pc_name :: json
  pc_lanes :: "int list option"
  pc_speed :: "int option"
  pc_fec :: json
  pc_alias :: json
  pc_index :: "int option"
  pc_mtu :: "int option"
  pc_pfc_asym :: json
  pc_tpid :: json

definition PortConfig :: port_config where
  "PortConfig = \<lparr>pc_name = JNull, pc_lanes = None, pc_speed = None, pc_fec = JNull, pc_alias = JNull,
     pc_index = None, pc_mtu = None, pc_pfc_asym = JNull, pc_tpid = JNull\<rparr>"

text \<open>Object identifiers are the integers of the adapter; a field holds \<open>None\<close> before it is set.\<close>

record port =
  p_oid :: "int option"
  p_port_index :: "int option"
  p_dev_port_index :: "int option"
  p_dev_port_eth :: "string option"
  p_bridge_port_oid :: "int option"
  p_config :: "port_config option"
  p_host_itf_id :: "int option"
  p_default_lane_list :: "int list"

definition data_item :: "int option \<Rightarrow> int option" where
  "data_item oid = oid"

definition Port ::
  "int option \<Rightarrow> int option \<Rightarrow> int option \<Rightarrow> string option \<Rightarrow> int option \<Rightarrow> port" where
  "Port oid port_index dev_port_index dev_port_eth bridge_port_oid =
     \<lparr>p_oid = data_item oid, p_port_index = port_index, p_dev_port_index = dev_port_index,
      p_dev_port_eth = dev_port_eth, p_bridge_port_oid = bridge_port_oid, p_config = None,
      p_host_itf_id = None, p_default_lane_list = []\<rparr>"

text \<open>\<open>auto_str\<close>: the name of the class and the attributes in the order they were set, each with the
  text its value has.\<close>

definition auto_str :: "string \<Rightarrow> (string \<times> string) list \<Rightarrow> string" where
  "auto_str cls attrs =
     cls @ ''('' @ join '', '' (map (\<lambda>(k, v). k @ ''='' @ v) attrs) @ '')''"

section \<open>Where the file is\<close>

definition DEFAULT_CONFIG_DB :: string where "DEFAULT_CONFIG_DB = ''../resources/config_db.json''"
definition DEFAULT_CONFIG_INI :: string where "DEFAULT_CONFIG_INI = ''../resources/port_config.ini''"

definition chosen_path :: "string \<Rightarrow> string \<Rightarrow> string option \<Rightarrow> string" where
  "chosen_path dflt here file_path = (case file_path of
     Some p \<Rightarrow> if p \<noteq> [] then p else path_join here dflt
   | None \<Rightarrow> path_join here dflt)"

definition validate_db_path :: "(string \<Rightarrow> bool) \<Rightarrow> string \<Rightarrow> string option \<Rightarrow> string res" where
  "validate_db_path there here file_path =
     (let config_path = chosen_path DEFAULT_CONFIG_DB here file_path in
      if \<not> there config_path then Inl FileNotFoundError else Inr config_path)"

definition validate_ini_path :: "(string \<Rightarrow> bool) \<Rightarrow> string \<Rightarrow> string option \<Rightarrow> string res" where
  "validate_ini_path there here file_path =
     (let config_path = chosen_path DEFAULT_CONFIG_INI here file_path in
      if \<not> there config_path then Inl FileNotFoundError else Inr config_path)"

section \<open>The loader of \<open>config_db.json\<close>\<close>

record config_db_loader =
  db_file_path :: string
  db_config_json :: json
  db_port_config :: "port_config list option"

definition ConfigDBLoader ::
  "(string \<Rightarrow> bool) \<Rightarrow> (string \<Rightarrow> json res) \<Rightarrow> string \<Rightarrow> string option \<Rightarrow> config_db_loader res" where
  "ConfigDBLoader there load_json here file_path =
     bindR (validate_db_path there here file_path) (\<lambda>p.
     bindR (load_json p) (\<lambda>j.
     Inr \<lparr>db_file_path = p, db_config_json = j, db_port_config = None\<rparr>))"

text \<open>\<open>int(value)\<close>, and the subscripts \<open>for key in port_conf: port_conf[key]\<close> for any document.\<close>

definition json_int :: "json \<Rightarrow> int res" where
  "json_int j = (case j of JInt i \<Rightarrow> Inr i | JStr s \<Rightarrow> py_int s
     | JBool b \<Rightarrow> Inr (if b then 1 else 0) | _ \<Rightarrow> Inl TypeError)"

definition port_items :: "json \<Rightarrow> (json \<times> json res) list res" where
  "port_items j = (case j of
     JObj d \<Rightarrow> Inr (map (\<lambda>k. (JStr k, od_get d k)) (map fst d))
   | JList xs \<Rightarrow> Inr (map (\<lambda>x. (x, case x of JInt i \<Rightarrow> py_index xs i
       | JBool b \<Rightarrow> py_index xs (if b then 1 else 0) | _ \<Rightarrow> Inl TypeError)) xs)
   | JStr s \<Rightarrow> Inr (map (\<lambda>c. (JStr [c], Inl TypeError)) s)
   | _ \<Rightarrow> Inl TypeError)"

definition opt_field :: "(string \<times> json) list \<Rightarrow> string \<Rightarrow> json" where
  "opt_field e k = (case map_of e k of None \<Rightarrow> JNull | Some v \<Rightarrow> v)"

definition opt_int :: "(string \<times> json) list \<Rightarrow> string \<Rightarrow> int option \<Rightarrow> int option res" where
  "opt_int e k dflt = (case map_of e k of None \<Rightarrow> Inr dflt
     | Some v \<Rightarrow> bindR (json_int v) (\<lambda>i. Inr (Some i)))"

definition lanes_of :: "json \<Rightarrow> int list res" where
  "lanes_of j = (case j of JStr s \<Rightarrow> mapR py_int (split_char (CHR '','') s) | _ \<Rightarrow> Inl AttributeError)"

definition opt_lanes :: "(string \<times> json) list \<Rightarrow> int list option res" where
  "opt_lanes e = (case map_of e ''lanes'' of None \<Rightarrow> Inr None
     | Some v \<Rightarrow> bindR (lanes_of v) (\<lambda>ls. Inr (Some ls)))"

definition port_entry :: "json \<times> json res \<Rightarrow> port_config res" where
  "port_entry item = bindR (snd item) (\<lambda>j. case j of
     JObj e \<Rightarrow>
       bindR (opt_int e ''index'' None) (\<lambda>index.
       bindR (opt_lanes e) (\<lambda>lanes.
       bindR (opt_int e ''mtu'' (Some 0)) (\<lambda>mtu.
       bindR (opt_int e ''speed'' (Some 0)) (\<lambda>speed.
       Inr \<lparr>pc_name = fst item, pc_lanes = lanes, pc_speed = speed, pc_fec = opt_field e ''fec'',
         pc_alias = opt_field e ''alias'', pc_index = index, pc_mtu = mtu,
         pc_pfc_asym = opt_field e ''pfc_asym'', pc_tpid = opt_field e ''tpid''\<rparr>))))
   | _ \<Rightarrow> Inl AttributeError)"

definition port_entries :: "json \<Rightarrow> port_config list res" where
  "port_entries config_json = (case config_json of
     JObj d \<Rightarrow> bindR (port_items (opt_field d ''PORT'')) (mapR port_entry)
   | _ \<Rightarrow> Inl AttributeError)"

definition get_port_config :: "config_db_loader \<Rightarrow> (port_config list \<times> config_db_loader) res" where
  "get_port_config l = bindR (port_entries (db_config_json l)) (\<lambda>port_Configs.
     Inr (port_Configs, l\<lparr>db_port_config := Some port_Configs\<rparr>))"

section \<open>The loader of \<open>port_config.ini\<close>\<close>

datatype ini_value = IText string | ILanes "int list" | INumber int

record ini_loader =
  il_file_path :: string
  il_ports_config :: "(string, (string, ini_value) odict) odict option"
  il_portConfigs :: "(nat, port_config) odict option"

definition PortConfigInILoader :: "(string \<Rightarrow> bool) \<Rightarrow> string \<Rightarrow> string option \<Rightarrow> ini_loader res" where
  "PortConfigInILoader there here file_path =
     bindR (validate_ini_path there here file_path) (\<lambda>p.
     Inr \<lparr>il_file_path = p, il_ports_config = None, il_portConfigs = None\<rparr>)"

text \<open>The lines of a text file, each with its newline.\<close>

function file_lines :: "string \<Rightarrow> string list" where
  "file_lines s = (if s = [] then []
     else case dropWhile (\<lambda>c. c \<noteq> CHR 0x0A) s of
         [] \<Rightarrow> [s]
       | c # r \<Rightarrow> (takeWhile (\<lambda>c. c \<noteq> CHR 0x0A) s @ [c]) # file_lines r)"
  by pat_completeness auto
termination
proof (relation "measure length", goal_cases)
  case (2 s c r)
  then have "length (c # r) \<le> length s" by (metis length_dropWhile_le)
  then show ?case by simp
qed simp

declare file_lines.simps [simp del]

text \<open>The local variables of the loop.\<close>

record ini_state =
  is_titles :: "string list option"
  is_ports :: "(string, (string, ini_value) odict) odict"
  is_configs :: "(nat, port_config) odict"
  is_index :: nat

definition list_index :: "string list \<Rightarrow> string \<Rightarrow> nat res" where
  "list_index xs x = (if x \<in> set xs then Inr (length (takeWhile (\<lambda>y. y \<noteq> x) xs)) else Inl ValueError)"

fun ini_data :: "string list \<Rightarrow> nat \<Rightarrow> nat \<Rightarrow> string list \<Rightarrow> (string, ini_value) odict
    \<Rightarrow> (string, ini_value) odict res" where
  "ini_data titles name_index i [] d = Inr d"
| "ini_data titles name_index i (item # tokens) d =
     (if i = name_index then ini_data titles name_index (Suc i) tokens d
      else bindR (py_index titles (int i)) (\<lambda>t.
        ini_data titles name_index (Suc i) tokens (AList.update t (IText item) d)))"

definition text_value :: "ini_value \<Rightarrow> string res" where
  "text_value v = (case v of IText s \<Rightarrow> Inr s | _ \<Rightarrow> Inl AttributeError)"

definition ini_row :: "string list \<Rightarrow> string list \<Rightarrow> ini_state \<Rightarrow> ini_state res" where
  "ini_row titles tokens s =
     bindR (list_index titles ''name'') (\<lambda>name_index.
     bindR (py_index tokens (int name_index)) (\<lambda>nm.
     bindR (ini_data titles name_index 0 tokens []) (\<lambda>d.
     bindR (bindR (od_get d ''lanes'') text_value) (\<lambda>l.
     bindR (mapR py_int (split_char (CHR '','') l)) (\<lambda>lanes.
     bindR (bindR (od_get d ''speed'') text_value) (\<lambda>sp.
     bindR (py_int sp) (\<lambda>speed.
     let d2 = AList.update ''speed'' (INumber speed) (AList.update ''lanes'' (ILanes lanes) d);
         cfg = PortConfig\<lparr>pc_lanes := Some lanes, pc_speed := Some speed, pc_name := JStr nm\<rparr>
     in Inr (s\<lparr>is_ports := AList.update nm d2 (is_ports s),
               is_configs := AList.update (is_index s) cfg (is_configs s),
               is_index := is_index s + 1 + 1\<rparr>))))))))"

definition ini_line :: "ini_state \<Rightarrow> string \<Rightarrow> ini_state res" where
  "ini_line s line =
     (if prefix ''#'' line then
        (if contains_sub ''name'' line
         then Inr (s\<lparr>is_titles := Some (split_ws (strip_set ''#'' line))\<rparr>) else Inr s)
      else let tokens = split_ws line in
        if length tokens < 2 then Inr s
        else case is_titles s of None \<Rightarrow> Inl UnboundLocalError
          | Some titles \<Rightarrow> ini_row titles tokens s)"

definition ini_start :: ini_state where
  "ini_start = \<lparr>is_titles = None, is_ports = [], is_configs = [], is_index = 0\<rparr>"

type_synonym ini_result =
  "(string, (string, ini_value) odict) odict \<times> (nat, port_config) odict"

definition ini_text_result :: "string \<Rightarrow> ini_result res" where
  "ini_text_result t = bindR (foldR ini_line ini_start (file_lines t))
     (\<lambda>s. Inr (is_ports s, is_configs s))"

definition parse_port_config :: "(string \<Rightarrow> string res) \<Rightarrow> ini_loader \<Rightarrow> (ini_result \<times> ini_loader) res" where
  "parse_port_config read_file l =
     bindR (read_file (il_file_path l)) (\<lambda>t.
     bindR (ini_text_result t) (\<lambda>r.
     Inr (r, l\<lparr>il_ports_config := Some (fst r), il_portConfigs := Some (snd r)\<rparr>)))"


section \<open>What a written file is read back as\<close>

lemma split_ws_blank: "is_ws c \<Longrightarrow> split_ws (c # s) = split_ws s"
  by (subst (1 2) split_ws.simps) (simp add: lstrip_by_def)

definition is_word :: "string \<Rightarrow> bool" where
  "is_word w \<longleftrightarrow> w \<noteq> [] \<and> (\<forall>c \<in> set w. \<not> is_ws c)"

lemma split_ws_word:
  assumes "is_word w" "s = [] \<or> is_ws (hd s)"
  shows "split_ws (w @ s) = w # split_ws s"
proof -
  obtain c cs where w: "w = c # cs" using assms(1) by (cases w) (auto simp: is_word_def)
  have "takeWhile (\<lambda>c. \<not> is_ws c) (w @ s) = w" "dropWhile (\<lambda>c. \<not> is_ws c) (w @ s) = s"
    using assms by (cases s; auto simp: is_word_def takeWhile_append2 dropWhile_append2)+
  moreover have "lstrip_by is_ws (w @ s) = w @ s"
    using assms(1) by (simp add: w lstrip_by_def is_word_def)
  ultimately show ?thesis by (subst split_ws.simps) (simp add: Let_def w)
qed

lemma split_ws_join:
  assumes "\<forall>w \<in> set ws. is_word w"
  shows "split_ws (join '' '' ws @ [CHR 0x0A]) = ws"
  using assms
proof (induction ws)
  case Nil
  show ?case by (simp add: split_ws_blank is_ws_def)
next
  case (Cons w ws)
  show ?case
  proof (cases "ws = []")
    case True
    with Cons.prems show ?thesis by (simp add: split_ws_word split_ws_blank is_ws_def)
  next
    case False
    have b: "is_ws (CHR '' '')" by (simp add: is_ws_def)
    have "split_ws (w @ (CHR '' '' # (join '' '' ws @ [CHR 0x0A]))) = w # ws"
      using Cons b by (subst split_ws_word) (auto simp: split_ws_blank)
    with False show ?thesis by (simp add: join_Cons)
  qed
qed

lemma file_lines_text_line:
  "CHR 0x0A \<notin> set l \<Longrightarrow> file_lines (text_line l @ s) = text_line l # file_lines s"
  by (subst file_lines.simps) (auto simp: text_line_def dropWhile_append takeWhile_append)

lemma file_lines_text_lines:
  "\<forall>l \<in> set ls. CHR 0x0A \<notin> set l \<Longrightarrow> file_lines (text_lines ls) = map text_line ls"
proof (induction ls)
  case Nil
  then show ?case by (subst file_lines.simps) (simp add: text_lines_def)
next
  case (Cons l ls)
  then show ?case by (simp add: text_lines_def file_lines_text_line)
qed

text \<open>Association lists over a list of keys.\<close>

lemma update_fresh: "k \<notin> fst ` set d \<Longrightarrow> AList.update k v d = d @ [(k, v)]"
  by (induction d) auto

lemma update_in_place:
  "distinct xs \<Longrightarrow> k \<in> set xs \<Longrightarrow>
   AList.update k v (map (\<lambda>t. (t, h t)) xs) = map (\<lambda>t. (t, if t = k then v else h t)) xs"
proof (induction xs)
  case (Cons x xs)
  show ?case
  proof (cases "x = k")
    case True
    with Cons.prems have "map (\<lambda>t. (t, h t)) xs = map (\<lambda>t. (t, if t = k then v else h t)) xs" by auto
    with True show ?thesis by simp
  next
    case False
    with Cons show ?thesis by simp
  qed
qed simp

lemma map_of_over: "map_of (map (\<lambda>t. (t, h t)) xs) k = (if k \<in> set xs then Some (h k) else None)"
  by (induction xs) auto

lemma ini_data_row:
  assumes "distinct (pre @ suf)" "ni < length (pre @ suf)" "(pre @ suf) ! ni = ''name''"
  shows "ini_data (pre @ suf) ni (length pre) (map g suf)
      (map (\<lambda>t. (t, IText (g t))) (filter (\<lambda>t. t \<noteq> ''name'') pre))
    = Inr (map (\<lambda>t. (t, IText (g t))) (filter (\<lambda>t. t \<noteq> ''name'') (pre @ suf)))"
  using assms
proof (induction suf arbitrary: pre)
  case (Cons t suf)
  have at: "(pre @ t # suf) ! length pre = t" by (simp add: nth_append)
  have eq: "length pre = ni \<longleftrightarrow> t = ''name''"
    using Cons.prems at by (metis nth_eq_iff_index_eq length_append length_Cons add_Suc_right less_add_Suc1)
  have ih: "ini_data (pre @ t # suf) ni (Suc (length pre)) (map g suf)
      (map (\<lambda>t. (t, IText (g t))) (filter (\<lambda>t. t \<noteq> ''name'') (pre @ [t])))
    = Inr (map (\<lambda>t. (t, IText (g t))) (filter (\<lambda>t. t \<noteq> ''name'') (pre @ t # suf)))"
    using Cons.IH [of "pre @ [t]"] Cons.prems by simp
  show ?case
  proof (cases "t = ''name''")
    case True
    with ih eq show ?thesis by simp
  next
    case False
    have "t \<notin> set pre" using Cons.prems by auto
    then have "AList.update t (IText (g t)) (map (\<lambda>t. (t, IText (g t))) (filter (\<lambda>t. t \<noteq> ''name'') pre))
        = map (\<lambda>t. (t, IText (g t))) (filter (\<lambda>t. t \<noteq> ''name'') (pre @ [t]))"
      using False by (subst update_fresh) auto
    with ih eq False show ?thesis by (simp add: py_index_nat at)
  qed
qed simp


text \<open>A row of a port table: the name, the lanes, the speed and the other columns.\<close>

record port_row =
  row_name :: string
  row_lanes :: "int list"
  row_speed :: int
  row_other :: "string \<Rightarrow> string"

definition lanes_text :: "int list \<Rightarrow> string" where
  "lanes_text ls = join '','' (map str_of_int ls)"

definition row_cell :: "port_row \<Rightarrow> string \<Rightarrow> string" where
  "row_cell r t = (if t = ''name'' then row_name r else if t = ''lanes'' then lanes_text (row_lanes r)
     else if t = ''speed'' then str_of_int (row_speed r) else row_other r t)"

definition ini_file :: "string list \<Rightarrow> port_row list \<Rightarrow> string" where
  "ini_file titles rows = text_lines (
     (''# '' @ join '' '' titles) # map (\<lambda>r. join '' '' (map (row_cell r) titles)) rows)"

definition row_config :: "port_row \<Rightarrow> port_config" where
  "row_config r = PortConfig\<lparr>pc_lanes := Some (row_lanes r), pc_speed := Some (row_speed r),
     pc_name := JStr (row_name r)\<rparr>"

definition row_dict :: "string list \<Rightarrow> port_row \<Rightarrow> (string, ini_value) odict" where
  "row_dict titles r = map (\<lambda>t. (t, if t = ''lanes'' then ILanes (row_lanes r)
     else if t = ''speed'' then INumber (row_speed r) else IText (row_cell r t)))
     (filter (\<lambda>t. t \<noteq> ''name'') titles)"

definition good_titles :: "string list \<Rightarrow> bool" where
  "good_titles titles \<longleftrightarrow> distinct titles \<and> {''name'', ''lanes'', ''speed''} \<subseteq> set titles
     \<and> (\<forall>t \<in> set titles. is_word t)"

definition good_row :: "string list \<Rightarrow> port_row \<Rightarrow> bool" where
  "good_row titles r \<longleftrightarrow> row_lanes r \<noteq> [] \<and> (\<forall>t \<in> set titles. is_word (row_cell r t))
     \<and> hd (row_cell r (hd titles)) \<noteq> CHR ''#''"

lemma str_of_int_no_comma: "CHR '','' \<notin> set (str_of_int i)"
proof
  assume "CHR '','' \<in> set (str_of_int i)"
  then have "CHR '','' \<in> set (str_of_nat (nat i)) \<or> CHR '','' \<in> set (str_of_nat (nat (- i)))"
    by (auto simp: str_of_int_def split: if_splits)
  then have "is_digit (CHR '','')" using str_of_nat_is_digit by blast
  then show False by (simp add: is_digit_def digit_val_def)
qed

lemma mapR_py_int: "mapR py_int (map str_of_int ls) = Inr ls"
  by (induction ls) simp_all

lemma lanes_text_read: "ls \<noteq> [] \<Longrightarrow> mapR py_int (split_char (CHR '','') (lanes_text ls)) = Inr ls"
  unfolding lanes_text_def
  by (subst split_char_join) (auto simp: str_of_int_no_comma mapR_py_int)

lemma list_index_nth:
  "x \<in> set xs \<Longrightarrow> \<exists>i < length xs. list_index xs x = Inr i \<and> xs ! i = x"
proof -
  assume "x \<in> set xs"
  then have "length (takeWhile (\<lambda>y. y \<noteq> x) xs) < length xs
      \<and> xs ! length (takeWhile (\<lambda>y. y \<noteq> x) xs) = x"
    by (induction xs) auto
  with \<open>x \<in> set xs\<close> show ?thesis by (auto simp: list_index_def)
qed

lemma ini_row_written:
  assumes "good_titles titles" "good_row titles r"
  shows "ini_row titles (map (row_cell r) titles) s
    = Inr (s\<lparr>is_ports := AList.update (row_name r) (row_dict titles r) (is_ports s),
             is_configs := AList.update (is_index s) (row_config r) (is_configs s),
             is_index := is_index s + 2\<rparr>)"
proof -
  let ?ts = "filter (\<lambda>t. t \<noteq> ''name'') titles"
  have ts: "distinct titles" "''name'' \<in> set titles" "''lanes'' \<in> set ?ts" "''speed'' \<in> set ?ts" "distinct ?ts"
    using assms(1) by (auto simp: good_titles_def)
  obtain ni where ni: "ni < length titles" "list_index titles ''name'' = Inr ni" "titles ! ni = ''name''"
    using list_index_nth [OF ts(2)] by blast
  have d: "ini_data titles ni 0 (map (row_cell r) titles) [] = Inr (map (\<lambda>t. (t, IText (row_cell r t))) ?ts)"
    using ini_data_row [of "[]" titles ni "row_cell r"] ts(1) ni by simp
  have l: "row_lanes r \<noteq> []" using assms(2) by (simp add: good_row_def)
  have cells: "row_cell r ''name'' = row_name r" "row_cell r ''lanes'' = lanes_text (row_lanes r)"
    "row_cell r ''speed'' = str_of_int (row_speed r)" by (simp_all add: row_cell_def)
  have gets: "od_get (map (\<lambda>t. (t, IText (row_cell r t))) ?ts) ''lanes'' = Inr (IText (lanes_text (row_lanes r)))"
    "od_get (map (\<lambda>t. (t, IText (row_cell r t))) ?ts) ''speed'' = Inr (IText (str_of_int (row_speed r)))"
    using ts(3,4) by (simp_all only: od_get_Inr map_of_over cells) simp_all
  have dict: "AList.update ''speed'' (INumber (row_speed r)) (AList.update ''lanes'' (ILanes (row_lanes r))
      (map (\<lambda>t. (t, IText (row_cell r t))) ?ts)) = row_dict titles r"
    unfolding row_dict_def update_in_place [OF ts(5,3)] update_in_place [OF ts(5,4)]
    by (rule map_cong) auto
  have nm: "py_index (map (row_cell r) titles) (int ni) = Inr (row_name r)"
    using ni by (simp add: py_index_nat cells)
  show ?thesis
    unfolding ini_row_def ni(2) bindR_simps nm d gets
    by (simp add: text_value_def lanes_text_read [OF l] dict row_config_def Let_def)
qed


lemma word_no_newline: "is_word w \<Longrightarrow> CHR 0x0A \<notin> set w"
  by (auto simp: is_word_def is_ws_def)

lemma join_no_newline: "\<forall>w \<in> set ws. is_word w \<Longrightarrow> CHR 0x0A \<notin> set (join '' '' ws)"
  by (induction ws) (auto simp: join_Cons word_no_newline)

lemma hd_join: "ws \<noteq> [] \<Longrightarrow> is_word (hd ws) \<Longrightarrow> join sep ws \<noteq> [] \<and> hd (join sep ws) = hd (hd ws)"
  by (cases ws) (auto simp: join_Cons is_word_def)

definition row_line :: "string list \<Rightarrow> port_row \<Rightarrow> string" where
  "row_line titles r = text_line (join '' '' (map (row_cell r) titles))"

lemma good_titles_length: "good_titles titles \<Longrightarrow> 3 \<le> length titles"
proof -
  assume g: "good_titles titles"
  then have "card {''name'', ''lanes'', ''speed''} \<le> card (set titles)"
    by (intro card_mono) (simp_all add: good_titles_def)
  then show ?thesis using g by (simp add: good_titles_def distinct_card)
qed

lemma ini_line_row:
  assumes "good_titles titles" "good_row titles r" "is_titles s = Some titles"
  shows "ini_line s (row_line titles r)
    = Inr (s\<lparr>is_ports := AList.update (row_name r) (row_dict titles r) (is_ports s),
             is_configs := AList.update (is_index s) (row_config r) (is_configs s),
             is_index := is_index s + 2\<rparr>)"
proof -
  let ?ws = "map (row_cell r) titles"
  have n: "2 \<le> length titles" "titles \<noteq> []" using good_titles_length [OF assms(1)] by auto
  have w: "\<forall>w \<in> set ?ws. is_word w" using assms(2) by (auto simp: good_row_def)
  have j: "join '' '' ?ws \<noteq> [] \<and> hd (join '' '' ?ws) \<noteq> CHR ''#''"
    using hd_join [of ?ws "'' ''"] n w assms(2) by (cases titles) (auto simp: good_row_def)
  have p: "\<not> prefix ''#'' (row_line titles r)"
    using j by (cases "join '' '' ?ws") (auto simp: row_line_def text_line_def)
  have t: "split_ws (row_line titles r) = ?ws"
    unfolding row_line_def text_line_def by (rule split_ws_join [OF w])
  show ?thesis using p n
    by (simp add: ini_line_def t assms(3) ini_row_written [OF assms(1,2)])
qed

lemma contains_sub_refl: "contains_sub w w"
  unfolding contains_sub_iff by (intro exI [of _ "[]"]) simp

lemma contains_sub_join: "w \<in> set ws \<Longrightarrow> contains_sub w (join sep ws)"
proof (induction ws)
  case (Cons x ws)
  show ?case
  proof (cases "w = x")
    case True
    then show ?thesis by (simp add: join_Cons contains_sub_append contains_sub_refl)
  next
    case False
    with Cons have "contains_sub w (join sep ws)" "ws \<noteq> []" by auto
    then show ?thesis by (simp add: join_Cons contains_sub_append)
  qed
qed simp

lemma ini_line_header:
  assumes "good_titles titles"
  shows "ini_line s (text_line (''# '' @ join '' '' titles)) = Inr (s\<lparr>is_titles := Some titles\<rparr>)"
proof -
  let ?j = "join '' '' titles"
  have w: "\<forall>w \<in> set titles. is_word w" and nm: "''name'' \<in> set titles"
    using assms by (auto simp: good_titles_def)
  have c: "contains_sub ''name'' ?j"
    by (rule contains_sub_join [OF nm])
  have c2: "contains_sub ''name'' (text_line (''# '' @ ?j))"
    using contains_sub_append [of "''name''" "''# ''" "?j @ [CHR 0x0A]"] contains_sub_append [of "''name''" ?j "[CHR 0x0A]"] c
    by (simp add: text_line_def)
  have l: "strip_set ''#'' (text_line (''# '' @ ?j)) = CHR '' '' # ?j @ [CHR 0x0A]"
    by (simp add: strip_set_def strip_by_def lstrip_by_def rstrip_by_def text_line_def)
  have "split_ws (CHR '' '' # ?j @ [CHR 0x0A]) = titles"
    using split_ws_join [OF w] by (simp add: split_ws_blank is_ws_def)
  then have "split_ws (strip_set ''#'' (text_line (''# '' @ ?j))) = titles" unfolding l .
  then show ?thesis using c2 by (simp add: ini_line_def text_line_def)
qed

definition even_keys :: "nat \<Rightarrow> 'a list \<Rightarrow> (nat \<times> 'a) list" where
  "even_keys i xs = zip (map (\<lambda>k. i + 2 * k) [0..<length xs]) xs"

lemma even_keys_Cons: "even_keys i (x # xs) = (i, x) # even_keys (i + 2) xs"
proof -
  have "map (\<lambda>k. i + 2 * k) [0..<length (x # xs)] = i # map (\<lambda>k. i + 2 + 2 * k) [0..<length xs]"
    by (rule nth_equalityI) (auto simp: nth_Cons' nth_append simp del: upt_Suc)
  then show ?thesis by (simp add: even_keys_def)
qed

lemma foldR_rows:
  assumes "good_titles titles" "\<forall>r \<in> set rows. good_row titles r" "is_titles s = Some titles"
    "distinct (map row_name rows)" "set (map row_name rows) \<inter> fst ` set (is_ports s) = {}"
    "\<forall>k \<in> fst ` set (is_configs s). k < is_index s"
  shows "foldR ini_line s (map (row_line titles) rows)
    = Inr (s\<lparr>is_ports := is_ports s @ map (\<lambda>r. (row_name r, row_dict titles r)) rows,
             is_configs := is_configs s @ even_keys (is_index s) (map row_config rows),
             is_index := is_index s + 2 * length rows\<rparr>)"
  using assms
proof (induction rows arbitrary: s)
  case Nil
  then show ?case by (simp add: even_keys_def)
next
  case (Cons r rows)
  let ?s = "s\<lparr>is_ports := is_ports s @ [(row_name r, row_dict titles r)],
      is_configs := is_configs s @ [(is_index s, row_config r)], is_index := is_index s + 2\<rparr>"
  have r: "ini_line s (row_line titles r) = Inr ?s"
  proof -
    have k: "is_index s \<notin> fst ` set (is_configs s)" "row_name r \<notin> fst ` set (is_ports s)"
      using Cons.prems by auto
    show ?thesis using Cons.prems by (subst ini_line_row [of titles]) (simp_all add: update_fresh [OF k(1)] update_fresh [OF k(2)])
  qed
  have "foldR ini_line ?s (map (row_line titles) rows)
    = Inr (?s\<lparr>is_ports := is_ports ?s @ map (\<lambda>r. (row_name r, row_dict titles r)) rows,
             is_configs := is_configs ?s @ even_keys (is_index ?s) (map row_config rows),
             is_index := is_index ?s + 2 * length rows\<rparr>)"
    by (rule Cons.IH) (use Cons.prems in auto)
  with r show ?case by (simp add: even_keys_Cons)
qed

lemma ini_file_lines:
  assumes "good_titles titles" "\<forall>r \<in> set rows. good_row titles r"
  shows "file_lines (ini_file titles rows)
    = text_line (''# '' @ join '' '' titles) # map (row_line titles) rows"
proof -
  have "CHR 0x0A \<notin> set (join '' '' titles)"
    using assms(1) by (intro join_no_newline) (simp add: good_titles_def)
  moreover have "\<forall>r \<in> set rows. CHR 0x0A \<notin> set (join '' '' (map (row_cell r) titles))"
    using assms(2) by (auto intro!: join_no_newline simp: good_row_def simp del: join.simps)
  ultimately show ?thesis
    unfolding ini_file_def by (subst file_lines_text_lines) (auto simp: row_line_def)
qed

text \<open>C14 (roundtrip). A well-formed port table, a title line and one line per port with distinct
  names, is read back completely: the dictionary has every port's columns, lanes and speed as
  numbers, and the configuration objects appear in the order of the lines, under the keys
  0, 2, 4 and so on.\<close>

theorem ini_file_read_back:
  assumes "good_titles titles" "\<forall>r \<in> set rows. good_row titles r" "distinct (map row_name rows)"
  shows "ini_text_result (ini_file titles rows)
    = Inr (map (\<lambda>r. (row_name r, row_dict titles r)) rows, even_keys 0 (map row_config rows))"
  unfolding ini_text_result_def ini_file_lines [OF assms(1,2)] foldR.simps ini_line_header [OF assms(1)]
  using foldR_rows [OF assms(1,2), of "ini_start\<lparr>is_titles := Some titles\<rparr>"] assms(3)
  by (simp add: ini_start_def)


definition sample_titles :: "string list" where
  "sample_titles = [''name'', ''lanes'', ''speed'']"

definition sample_row :: port_row where
  "sample_row = \<lparr>row_name = ''Ethernet0'', row_lanes = [2, 3], row_speed = 25, row_other = (\<lambda>_. ''off'')\<rparr>"

lemma sample_row_good: "good_titles sample_titles \<and> good_row sample_titles sample_row"
  by (simp add: good_titles_def good_row_def sample_titles_def sample_row_def is_word_def is_ws_def
      row_cell_def lanes_text_def decimal_eval)

theorem ini_file_read_back_witness:
  "ini_text_result (ini_file sample_titles [sample_row])
    = Inr ([(''Ethernet0'', [(''lanes'', ILanes [2, 3]), (''speed'', INumber 25)])],
           [(0, PortConfig\<lparr>pc_lanes := Some [2, 3], pc_speed := Some 25, pc_name := JStr ''Ethernet0''\<rparr>)])"
  using ini_file_read_back [of sample_titles "[sample_row]"] sample_row_good
  by (simp add: row_dict_def sample_titles_def sample_row_def row_config_def even_keys_def)

text \<open>Whatever the file holds: the keys of the configuration objects, and what each object has.\<close>

definition ini_inv :: "ini_state \<Rightarrow> bool" where
  "ini_inv s \<longleftrightarrow> map fst (is_configs s) = map (\<lambda>k. 2 * k) [0..<length (is_configs s)]
     \<and> is_index s = 2 * length (is_configs s)
     \<and> (\<forall>c \<in> snd ` set (is_configs s). (\<exists>nm. pc_name c = JStr nm) \<and> pc_lanes c \<noteq> None \<and> pc_speed c \<noteq> None)"

lemma ini_row_inv:
  assumes "ini_row titles tokens s = Inr s'" "ini_inv s"
  shows "ini_inv s'"
proof -
  obtain nm d lanes speed where s': "s' = s\<lparr>is_ports := AList.update nm d (is_ports s),
      is_configs := AList.update (is_index s)
        (PortConfig\<lparr>pc_lanes := Some lanes, pc_speed := Some speed, pc_name := JStr nm\<rparr>) (is_configs s),
      is_index := is_index s + 1 + 1\<rparr>"
    using assms(1) unfolding ini_row_def bindR_eq_Inr by (auto simp: Let_def)
  have "is_index s \<notin> set (map fst (is_configs s))"
    using assms(2) by (auto simp: ini_inv_def)
  then have "is_index s \<notin> fst ` set (is_configs s)" by simp
  then show ?thesis using assms(2) by (auto simp: s' ini_inv_def update_fresh)
qed

lemma ini_line_inv: "ini_line s l = Inr s' \<Longrightarrow> ini_inv s \<Longrightarrow> ini_inv s'"
  by (auto simp: ini_line_def Let_def split: if_splits option.splits intro: ini_row_inv)
    (simp_all add: ini_inv_def)

lemma ini_text_inv:
  assumes "ini_text_result t = Inr (ports, cfgs)"
  shows "map fst cfgs = map (\<lambda>k. 2 * k) [0..<length cfgs]"
    and "c \<in> set (map snd cfgs) \<Longrightarrow> (\<exists>nm. pc_name c = JStr nm) \<and> pc_lanes c \<noteq> None \<and> pc_speed c \<noteq> None"
proof -
  obtain s where s: "foldR ini_line ini_start (file_lines t) = Inr s" "cfgs = is_configs s"
    using assms by (auto simp: ini_text_result_def bindR_eq_Inr)
  have "ini_inv s"
    by (rule foldR_invariant [where P = ini_inv, OF s(1)])
      (simp_all add: ini_line_inv, simp add: ini_inv_def ini_start_def)
  then show "map fst cfgs = map (\<lambda>k. 2 * k) [0..<length cfgs]"
    "c \<in> set (map snd cfgs) \<Longrightarrow> (\<exists>nm. pc_name c = JStr nm) \<and> pc_lanes c \<noteq> None \<and> pc_speed c \<noteq> None"
    by (auto simp: ini_inv_def s(2))
qed

text \<open>For every text the loader accepts, the dictionary of configuration
  objects has the keys 0, 2, 4, ..., because its counter is incremented twice per row; a lookup by
  the number of the port finds nothing at every odd number, and the configuration of another port
  at every even number after 0.\<close>

theorem ini_config_keys_are_even:
  assumes "ini_text_result t = Inr (ports, cfgs)"
  shows "\<forall>k < length cfgs. map_of cfgs (2 * k) = Some (snd (cfgs ! k)) \<and> map_of cfgs (2 * k + 1) = None"
proof (intro allI impI conjI)
  fix k assume k: "k < length cfgs"
  have keys: "map fst cfgs = map (\<lambda>k. 2 * k) [0..<length cfgs]" by (rule ini_text_inv [OF assms])
  have "fst (cfgs ! k) = 2 * k"
  proof -
    have "map fst cfgs ! k = 2 * k" using k by (simp only: keys) simp
    then show ?thesis using k by simp
  qed
  moreover have "distinct (map fst cfgs)" unfolding keys by (simp add: distinct_map inj_on_def)
  ultimately show "map_of cfgs (2 * k) = Some (snd (cfgs ! k))"
    using k by (metis map_of_is_SomeI nth_mem prod.collapse)
  have "2 * k + 1 \<notin> set (map fst cfgs)" unfolding keys by (auto, presburger)
  then show "map_of cfgs (2 * k + 1) = None" by (simp add: map_of_eq_None_iff)
qed

definition sample_text :: string where "sample_text = ini_file sample_titles [sample_row]"

lemma sample_text_eval: "ini_text_result sample_text
    = Inr ([(''Ethernet0'', row_dict sample_titles sample_row)], [(0, row_config sample_row)])"
  unfolding sample_text_def ini_text_result_def
  using foldR_rows [of sample_titles "[sample_row]" "ini_start\<lparr>is_titles := Some sample_titles\<rparr>"] sample_row_good
    ini_file_lines [of sample_titles "[sample_row]"]
  by (simp add: ini_line_header [simplified] ini_start_def even_keys_def sample_row_def)

theorem ini_config_keys_are_even_witness:
  "map_of [(0 :: nat, row_config sample_row)] 0 = Some (row_config sample_row)
   \<and> map_of [(0 :: nat, row_config sample_row)] 1 = None"
  using ini_config_keys_are_even [OF sample_text_eval] by simp

lemma foldR_comments:
  "\<forall>l \<in> set ls. prefix ''#'' l \<and> \<not> contains_sub ''name'' l \<Longrightarrow> foldR ini_line s ls = Inr s"
  by (induction ls) (auto simp: ini_line_def)

text \<open>A row before the title line raises \<open>UnboundLocalError\<close>, whatever the row is and
  whatever follows; the comment lines before it do not matter unless they mention a name.\<close>

theorem row_before_titles_raises:
  assumes "\<forall>l \<in> set ls. prefix ''#'' l \<and> \<not> contains_sub ''name'' l"
    and "\<not> prefix ''#'' row" "2 \<le> length (split_ws row)" "file_lines t = ls @ row # rest"
  shows "ini_text_result t = Inl UnboundLocalError"
  using assms by (simp add: ini_text_result_def foldR_append foldR_comments ini_line_def ini_start_def Let_def)

lemma early_row: "split_ws ''Ethernet0 0'' = [''Ethernet0'', ''0'']"
  by (simp add: split_ws.simps lstrip_by_def is_ws_def Let_def)

theorem row_before_titles_raises_witness:
  "ini_text_result ''Ethernet0 0'' = Inl UnboundLocalError"
  using row_before_titles_raises [of "[]" "''Ethernet0 0''" "''Ethernet0 0''" "[]"]
  by (simp add: early_row file_lines.simps)


section \<open>The configuration data base read back\<close>

text \<open>The document that holds given configurations the way \<open>config_db.json\<close> writes them, numbers
  as decimal texts.\<close>

definition db_number :: "string \<Rightarrow> int option \<Rightarrow> (string \<times> json) list" where
  "db_number k v = (case v of None \<Rightarrow> [] | Some i \<Rightarrow> [(k, JStr (str_of_int i))])"

definition db_entry :: "port_config \<Rightarrow> json" where
  "db_entry c = JObj ([(''alias'', pc_alias c)] @ db_number ''index'' (pc_index c)
     @ (case pc_lanes c of None \<Rightarrow> [] | Some ls \<Rightarrow> [(''lanes'', JStr (lanes_text ls))])
     @ db_number ''mtu'' (pc_mtu c) @ db_number ''speed'' (pc_speed c)
     @ [(''fec'', pc_fec c), (''pfc_asym'', pc_pfc_asym c), (''tpid'', pc_tpid c)])"

definition config_key :: "port_config \<Rightarrow> string" where
  "config_key c = (case pc_name c of JStr s \<Rightarrow> s | _ \<Rightarrow> [])"

definition config_db :: "port_config list \<Rightarrow> json" where
  "config_db cs = JObj [(''DEVICE_METADATA'', JObj []),
     (''PORT'', JObj (map (\<lambda>c. (config_key c, db_entry c)) cs))]"

definition storable :: "port_config \<Rightarrow> bool" where
  "storable c \<longleftrightarrow> pc_name c = JStr (config_key c) \<and> pc_lanes c \<noteq> Some [] \<and> pc_mtu c \<noteq> None \<and> pc_speed c \<noteq> None"

lemma port_entry_written: "storable c \<Longrightarrow> port_entry (JStr (config_key c), Inr (db_entry c)) = Inr c"
  by (cases c; cases "pc_index c"; cases "pc_lanes c")
    (auto simp: storable_def port_entry_def db_entry_def db_number_def opt_int_def opt_lanes_def opt_field_def
      json_int_def lanes_of_def lanes_text_read)

lemma mapR_map: "mapR f (map g xs) = mapR (\<lambda>x. f (g x)) xs"
  by (induction xs) simp_all

lemma od_get_over:
  "distinct (map g cs) \<Longrightarrow> c \<in> set cs \<Longrightarrow> od_get (map (\<lambda>c. (g c, h c)) cs) (g c) = Inr (h c)"
proof (induction cs)
  case (Cons a cs)
  show ?case
  proof (cases "g c = g a")
    case True
    with Cons.prems have "c = a" by (auto simp: image_iff)
    then show ?thesis by (simp add: od_get_def)
  next
    case False
    with Cons have "od_get (map (\<lambda>c. (g c, h c)) cs) (g c) = Inr (h c)" by auto
    with False show ?thesis by (simp add: od_get_def)
  qed
qed simp

lemma port_entries_db:
  assumes "\<forall>c \<in> set cs. storable c" "distinct (map config_key cs)"
  shows "port_entries (config_db cs) = Inr cs"
proof -
  let ?d = "map (\<lambda>c. (config_key c, db_entry c)) cs"
  have "mapR (\<lambda>c. port_entry (JStr (config_key c), od_get ?d (config_key c))) cs = Inr cs"
    using mapR_all [of cs _ id] assms(1) od_get_over [OF assms(2), of _ db_entry] port_entry_written by simp
  then show ?thesis
    by (simp add: port_entries_def config_db_def port_items_def opt_field_def comp_def mapR_map)
qed

text \<open>C15 (roundtrip). The loader reads back every port configuration from the document, in the
  order of the document, with the lanes and numbers parsed, and remembers the list.\<close>

theorem config_db_read_back:
  assumes "\<forall>c \<in> set cs. storable c" "distinct (map config_key cs)" "db_config_json l = config_db cs"
  shows "get_port_config l = Inr (cs, l\<lparr>db_port_config := Some cs\<rparr>)"
  using port_entries_db [OF assms(1,2)] by (simp add: get_port_config_def assms(3))

definition sample_config :: port_config where
  "sample_config = PortConfig\<lparr>pc_name := JStr ''Ethernet0'', pc_lanes := Some [65, 66], pc_speed := Some 100000,
     pc_mtu := Some 9100, pc_fec := JStr ''rs''\<rparr>"

lemma sample_entries: "port_entries (config_db [sample_config]) = Inr [sample_config]"
  by (rule port_entries_db) (simp_all add: storable_def sample_config_def config_key_def PortConfig_def)

theorem config_db_read_back_witness:
  "get_port_config \<lparr>db_file_path = ''config_db.json'', db_config_json = config_db [sample_config], db_port_config = None\<rparr>
    = Inr ([sample_config], \<lparr>db_file_path = ''config_db.json'', db_config_json = config_db [sample_config],
        db_port_config = Some [sample_config]\<rparr>)"
  using config_db_read_back [of "[sample_config]"
      "\<lparr>db_file_path = ''config_db.json'', db_config_json = config_db [sample_config], db_port_config = None\<rparr>"]
  by (simp add: storable_def sample_config_def config_key_def PortConfig_def)

section \<open>What both readers promise\<close>

text \<open>A source of configurations gives every port a name and a speed; the users of the list read
  them without a test.\<close>

locale config_source =
  fixes load :: "'f \<Rightarrow> port_config list res"
  assumes load_named: "load f = Inr cs \<Longrightarrow> c \<in> set cs \<Longrightarrow> pc_name c \<noteq> JNull"
    and load_speed: "load f = Inr cs \<Longrightarrow> c \<in> set cs \<Longrightarrow> pc_speed c \<noteq> None"
begin

definition usable :: "port \<Rightarrow> bool" where
  "usable p \<longleftrightarrow> (\<exists>c. p_config p = Some c \<and> pc_name c \<noteq> JNull \<and> pc_speed c \<noteq> None)"

lemma bound_usable: "load f = Inr cs \<Longrightarrow> c \<in> set cs \<Longrightarrow> usable (p\<lparr>p_config := Some c\<rparr>)"
  using load_named load_speed by (simp add: usable_def)

end

definition ini_source :: "string \<Rightarrow> port_config list res" where
  "ini_source t = bindR (ini_text_result t) (\<lambda>r. Inr (map snd (snd r)))"

lemma opt_int_default: "opt_int e k (Some d) = Inr v \<Longrightarrow> v \<noteq> None"
  by (auto simp: opt_int_def bindR_eq_Inr split: option.splits)

lemma port_entry_Inr: "port_entry i = Inr c \<Longrightarrow> pc_name c = fst i \<and> pc_speed c \<noteq> None \<and> pc_mtu c \<noteq> None"
proof -
  assume "port_entry i = Inr c"
  moreover from this obtain j where j: "snd i = Inr j" unfolding port_entry_def bindR_eq_Inr by blast
  ultimately have "port_entry (fst i, Inr j) = Inr c" by (metis prod.collapse)
  then show ?thesis
    by (cases j) (auto simp: port_entry_def bindR_eq_Inr dest: opt_int_default)
qed

lemma mapR_set: "mapR f xs = Inr ys \<Longrightarrow> y \<in> set ys \<Longrightarrow> \<exists>x \<in> set xs. f x = Inr y"
  by (induction xs arbitrary: ys) (auto simp: bindR_eq_Inr)

lemma port_items_null: "port_items j = Inr is \<Longrightarrow> i \<in> set is \<Longrightarrow> port_entry i = Inr c \<Longrightarrow> fst i \<noteq> JNull"
  by (auto simp: port_items_def port_entry_def split: json.splits)

lemma port_entries_speed: "port_entries j = Inr cs \<Longrightarrow> c \<in> set cs \<Longrightarrow> pc_name c \<noteq> JNull \<and> pc_speed c \<noteq> None"
proof -
  assume "port_entries j = Inr cs" "c \<in> set cs"
  then obtain d items where i: "port_items (opt_field d ''PORT'') = Inr items" "mapR port_entry items = Inr cs"
    by (auto simp: port_entries_def bindR_eq_Inr split: json.splits)
  from mapR_set [OF i(2) \<open>c \<in> set cs\<close>] obtain it where it: "it \<in> set items" "port_entry it = Inr c" by blast
  then show ?thesis using port_items_null [OF i(1) it] port_entry_Inr [OF it(2)] by simp
qed

interpretation db_conf: config_source port_entries
  by unfold_locales (auto dest: port_entries_speed)

interpretation ini_conf: config_source ini_source
proof
  fix f cs c
  assume l: "ini_source f = Inr cs" and c: "c \<in> set cs"
  then obtain ports cfgs where "ini_text_result f = Inr (ports, cfgs)" "cs = map snd cfgs"
    by (auto simp: ini_source_def bindR_eq_Inr)
  then have "(\<exists>nm. pc_name c = JStr nm) \<and> pc_lanes c \<noteq> None \<and> pc_speed c \<noteq> None"
    using c ini_text_inv(2) by blast
  then show "pc_name c \<noteq> JNull" "pc_speed c \<noteq> None" by auto
qed

end
