(* ===== verification/PtfPorts.thy ===== *)
theory PtfPorts
  imports Complex_Main PtfConfig PtfSaiUtils
begin

text \<open>
  The port set-up of the test framework, \<open>ptf/config/port_configer.py\<close>. The RPC client
  (\<open>sai_thrift_create_<object>\<close>, \<open>_remove_\<close>, \<open>_get_ _attribute\<close>, \<open>_set_ _attribute\<close>,
  generated code) is a record of functions on the state \<open>'d\<close> of the device: each takes the
  object type, the object and the keyword arguments of the call, may raise, and leaves a new device
  state. A read returns the dictionary of attributes, or \<open>None\<close>.

  The test object is a record: the device, the store of the mutable \<open>Port\<close> objects (a reference is a
  position in it, so that a port in two lists is one object), the attributes set by \<open>setattr\<close>, and
  the fields the code names.
\<close>

section \<open>The client\<close>

text \<open>The values of the tests: numbers in floating point are rationals; a structure of the client has a name
  and fields.\<close>

datatype sai_val = VNone | VBool bool | VInt int | VStr string | VList "int list" | VFlt rat
  | VSeq "sai_val list" | VMap "(sai_val \<times> sai_val) list" | VObj string "(string \<times> sai_val) list"

type_synonym sai_args = "(string, sai_val) odict"

record 'd sai_client =
  sai_create :: "string \<Rightarrow> sai_args \<Rightarrow> ('d, int) py"
  sai_remove :: "string \<Rightarrow> sai_val \<Rightarrow> ('d, unit) py"
  sai_get :: "string \<Rightarrow> sai_val \<Rightarrow> sai_args \<Rightarrow> ('d, sai_args option) py"
  sai_set :: "string \<Rightarrow> sai_val \<Rightarrow> sai_args \<Rightarrow> ('d, unit) py"
  sai_status :: "'d \<Rightarrow> int"

text \<open>A subscript of what a read returned, and the list in it.\<close>

definition attr_at :: "sai_args option \<Rightarrow> string \<Rightarrow> sai_val res" where
  "attr_at a k = (case a of None \<Rightarrow> Inl TypeError | Some d \<Rightarrow> od_get d k)"

definition idlist :: "sai_val \<Rightarrow> int list res" where
  "idlist v = (case v of VList xs \<Rightarrow> Inr xs | _ \<Rightarrow> Inl AttributeError)"

definition opt_oid :: "int option \<Rightarrow> sai_val" where
  "opt_oid v = (case v of None \<Rightarrow> VNone | Some i \<Rightarrow> VInt i)"

definition json_val :: "json \<Rightarrow> sai_val" where
  "json_val j = (case j of JStr s \<Rightarrow> VStr s | JInt i \<Rightarrow> VInt i | JBool b \<Rightarrow> VBool b | _ \<Rightarrow> VNone)"

text \<open>Constants of the headers in \<open>inc/\<close>.\<close>

definition SAI_STATUS_SUCCESS :: int where "SAI_STATUS_SUCCESS = 0"
definition SAI_BRIDGE_PORT_TYPE_PORT :: int where "SAI_BRIDGE_PORT_TYPE_PORT = 0"
definition SAI_HOSTIF_TABLE_ENTRY_TYPE_WILDCARD :: int where "SAI_HOSTIF_TABLE_ENTRY_TYPE_WILDCARD = 4"
definition SAI_HOSTIF_TABLE_ENTRY_CHANNEL_TYPE_NETDEV_PHYSICAL_PORT :: int where
  "SAI_HOSTIF_TABLE_ENTRY_CHANNEL_TYPE_NETDEV_PHYSICAL_PORT = 2"
definition SAI_HOSTIF_TRAP_TYPE_TTL_ERROR :: int where "SAI_HOSTIF_TRAP_TYPE_TTL_ERROR = 0x6001"
definition SAI_PACKET_ACTION_TRAP :: int where "SAI_PACKET_ACTION_TRAP = 4"
definition SAI_HOSTIF_TYPE_NETDEV :: int where "SAI_HOSTIF_TYPE_NETDEV = 0"
definition SAI_PORT_OPER_STATUS_UP :: int where "SAI_PORT_OPER_STATUS_UP = 1"
definition SAI_PORT_FEC_MODE_NONE :: int where "SAI_PORT_FEC_MODE_NONE = 0"
definition SAI_PORT_FEC_MODE_RS :: int where "SAI_PORT_FEC_MODE_RS = 1"
definition SAI_PORT_FEC_MODE_FC :: int where "SAI_PORT_FEC_MODE_FC = 2"

section \<open>The test object\<close>

record 'd test_obj =
  t_dev :: 'd
  t_ports :: "port list"
  t_attrs :: "(string, sai_val) odict"
  t_interfaces :: "(int \<times> int \<times> string) list"
  t_active_port_obj_list :: "nat list"
  t_def_bridge_port_list :: "int list"
  t_default_1q_bridge :: sai_val
  t_active_ports_no :: int
  t_system_port_no :: int
  t_ports_config :: "port_config list"
  t_slept :: nat

definition on_dev :: "('d, 'a) py \<Rightarrow> ('d test_obj, 'a) py" where
  "on_dev m = (\<lambda>s. case m (t_dev s) of (r, d) \<Rightarrow> (r, s\<lparr>t_dev := d\<rparr>))"

definition read_port :: "nat \<Rightarrow> ('d test_obj, port) py" where
  "read_port r = (\<lambda>s. (Inr (t_ports s ! r), s))"

definition write_port :: "nat \<Rightarrow> (port \<Rightarrow> port) \<Rightarrow> ('d test_obj, unit) py" where
  "write_port r f = modP (\<lambda>s. s\<lparr>t_ports := (t_ports s)[r := f (t_ports s ! r)]\<rparr>)"

definition new_port :: "port \<Rightarrow> ('d test_obj, nat) py" where
  "new_port p = (\<lambda>s. (Inr (length (t_ports s)), s\<lparr>t_ports := t_ports s @ [p]\<rparr>))"

definition set_attr :: "string \<Rightarrow> sai_val \<Rightarrow> ('d test_obj, unit) py" where
  "set_attr k v = modP (\<lambda>s. s\<lparr>t_attrs := AList.update k v (t_attrs s)\<rparr>)"

definition get_attr :: "string \<Rightarrow> ('d test_obj, sai_val) py" where
  "get_attr k = (\<lambda>s. (case map_of (t_attrs s) k of None \<Rightarrow> Inl AttributeError | Some v \<Rightarrow> Inr v, s))"

definition del_attr :: "string \<Rightarrow> ('d test_obj, unit) py" where
  "del_attr k = (\<lambda>s. if od_has (t_attrs s) k then (Inr (), s\<lparr>t_attrs := AList.delete k (t_attrs s)\<rparr>)
     else (Inl AttributeError, s))"

text \<open>\<open>self.test_obj.assertEqual(self.test_obj.status(), SAI_STATUS_SUCCESS)\<close>.\<close>

definition assert_status :: "'d sai_client \<Rightarrow> ('d test_obj, unit) py" where
  "assert_status sai = (\<lambda>s. (if sai_status sai (t_dev s) = SAI_STATUS_SUCCESS then Inr ()
     else Inl AssertionError, s))"

definition config_of :: "port \<Rightarrow> port_config res" where
  "config_of p = (case p_config p of None \<Rightarrow> Inl AttributeError | Some c \<Rightarrow> Inr c)"

definition port_attr :: "nat \<Rightarrow> string" where "port_attr i = ''port'' @ str_of_nat i"
definition bp_attr :: "nat \<Rightarrow> string" where "bp_attr i = ''port'' @ str_of_nat i @ ''_bp''"

section \<open>Attributes of the test object\<close>

definition set_all :: "(nat \<Rightarrow> string) \<Rightarrow> sai_val list \<Rightarrow> ('d test_obj, unit) py" where
  "set_all nm vs = forP (zip [0..<length vs] vs) (\<lambda>(index, oid). set_attr (nm index) oid)"

definition set_test_port_attr :: "sai_val list \<Rightarrow> ('d test_obj, unit) py" where
  "set_test_port_attr port_list = set_all port_attr port_list"

definition set_test_bridge_port_attr :: "int list \<Rightarrow> ('d test_obj, unit) py" where
  "set_test_bridge_port_attr bridge_port_list = set_all bp_attr (map VInt bridge_port_list)"

section \<open>Bridge ports\<close>

definition create_bridge_port :: "'d sai_client \<Rightarrow> sai_val \<Rightarrow> nat \<Rightarrow> ('d test_obj, int) py" where
  "create_bridge_port sai bridge_id item =
     bindP (read_port item) (\<lambda>p.
     bindP (on_dev (sai_create sai ''bridge_port''
       [(''bridge_id'', bridge_id), (''port_id'', opt_oid (p_oid p)),
        (''type'', VInt SAI_BRIDGE_PORT_TYPE_PORT), (''admin_state'', VBool True)])) (\<lambda>port_bp.
     thenP (write_port item (\<lambda>p. p\<lparr>p_bridge_port_oid := Some port_bp\<rparr>)) (retP port_bp)))"

definition create_bridge_ports_by_bridge_and_ports ::
  "'d sai_client \<Rightarrow> sai_val \<Rightarrow> nat list \<Rightarrow> ('d test_obj, int list) py" where
  "create_bridge_ports_by_bridge_and_ports sai bridge_id port_list =
     mapP port_list (create_bridge_port sai bridge_id)"

definition create_bridge_ports ::
  "'d sai_client \<Rightarrow> sai_val \<Rightarrow> nat list \<Rightarrow> ('d test_obj, int list) py" where
  "create_bridge_ports sai bridge_id port_list =
     bindP (mapP port_list (create_bridge_port sai bridge_id)) (\<lambda>bp_list.
     thenP (set_test_bridge_port_attr bp_list) (retP bp_list))"

definition bridge_port_query :: sai_args where
  "bridge_port_query = map (\<lambda>k. (k, VBool True))
     [''type'', ''port_id'', ''tagging_mode'', ''vlan_id'', ''rif_id'', ''tunnel_id'', ''bridge_id'',
      ''fdb_learning_mode'', ''max_learned_addresses'', ''fdb_learning_limit_violation_packet_action'',
      ''admin_state'']"

definition get_bridge_port_all_attribute ::
  "'d sai_client \<Rightarrow> int \<Rightarrow> ('d test_obj, sai_args option) py" where
  "get_bridge_port_all_attribute sai bridge_port_id =
     bindP (on_dev (sai_get sai ''bridge_port'' (VInt bridge_port_id) bridge_port_query)) (\<lambda>attr.
     thenP (assert_status sai) (retP attr))"

definition get_all_bridge_ports :: "'d sai_client \<Rightarrow> sai_val \<Rightarrow> ('d test_obj, int list) py" where
  "get_all_bridge_ports sai bridge_id =
     bindP getP (\<lambda>s. let bridge_size = t_system_port_no s + t_active_ports_no s + 1 in
     bindP (on_dev (sai_get sai ''bridge'' bridge_id
       [(''port_list'', VList []), (''port_list.count'', VInt bridge_size)])) (\<lambda>attr.
     bindP (liftP (bindR (attr_at attr ''port_list'') idlist)) (\<lambda>l.
     thenP (assert_status sai) (retP l))))"

text \<open>The inner loop ends at the first bridge port that belongs to the port.\<close>

fun bind_bridge_port :: "'d sai_client \<Rightarrow> nat \<Rightarrow> int list \<Rightarrow> ('d test_obj, int option) py" where
  "bind_bridge_port sai r [] = retP None"
| "bind_bridge_port sai r (bp # bps) =
     bindP (get_bridge_port_all_attribute sai bp) (\<lambda>attr.
     bindP (read_port r) (\<lambda>p.
     bindP (liftP (attr_at attr ''port_id'')) (\<lambda>id.
     if opt_oid (p_oid p) = id
     then thenP (write_port r (\<lambda>p. p\<lparr>p_bridge_port_oid := Some bp\<rparr>)) (retP (Some bp))
     else bind_bridge_port sai r bps)))"

definition load_default_active_1q_bridge_ports :: "'d sai_client \<Rightarrow> ('d test_obj, int list) py" where
  "load_default_active_1q_bridge_ports sai =
     bindP getP (\<lambda>s.
     bindP (get_all_bridge_ports sai (t_default_1q_bridge s)) (\<lambda>bps.
     bindP getP (\<lambda>s.
     bindP (mapP (t_active_port_obj_list s) (\<lambda>r. bind_bridge_port sai r bps)) (\<lambda>found.
     retP (List.map_filter id found)))))"

text \<open>\<open>list.remove\<close>.\<close>

definition list_remove :: "int \<Rightarrow> int list \<Rightarrow> int list res" where
  "list_remove x xs = (if x \<in> set xs then Inr (remove1 x xs) else Inl ValueError)"

definition remove_def_bridge_port :: "int \<Rightarrow> ('d test_obj, unit) py" where
  "remove_def_bridge_port bp =
     bindP getP (\<lambda>s.
     bindP (liftP (list_remove bp (t_def_bridge_port_list s))) (\<lambda>l.
     modP (\<lambda>s. s\<lparr>t_def_bridge_port_list := l\<rparr>)))"

definition remove_all_bridge_ports :: "'d sai_client \<Rightarrow> ('d test_obj, unit) py" where
  "remove_all_bridge_ports sai =
     bindP getP (\<lambda>s. let bp_ports = t_def_bridge_port_list s in
     thenP (forP bp_ports (\<lambda>bp. on_dev (sai_remove sai ''bridge_port'' (VInt bp))))
     (thenP (forP bp_ports remove_def_bridge_port)
     (assert_status sai)))"

definition reset_1q_bridge_ports :: "'d sai_client \<Rightarrow> ('d test_obj, unit) py" where
  "reset_1q_bridge_ports sai =
     bindP getP (\<lambda>s.
     bindP (get_all_bridge_ports sai (t_default_1q_bridge s)) (\<lambda>l.
     thenP (modP (\<lambda>s. s\<lparr>t_def_bridge_port_list := l\<rparr>)) (remove_all_bridge_ports sai)))"

definition remove_1q_bridge_port :: "'d sai_client \<Rightarrow> int list \<Rightarrow> ('d test_obj, unit) py" where
  "remove_1q_bridge_port sai default_1q_bridge_port_list =
     forP [0..<length default_1q_bridge_port_list] (\<lambda>index.
       bindP (get_attr (bp_attr index)) (\<lambda>port_bp.
       thenP (on_dev (sai_remove sai ''bridge_port'' port_bp)) (del_attr (bp_attr index))))"

text \<open>\<open>for index, port in enumerate(bp_ports)\<close> where the body removes \<open>port\<close> from the list the loop
  runs over: the iterator reads the position \<open>index\<close> of the list as it is then, and ends when there is
  none. Every turn advances the position and shortens the list, so as many turns as the list has
  elements at the start are enough.\<close>

fun remove_bridge_port_loop :: "'d sai_client \<Rightarrow> nat \<Rightarrow> nat \<Rightarrow> ('d test_obj, unit) py" where
  "remove_bridge_port_loop sai 0 index = retP ()"
| "remove_bridge_port_loop sai (Suc n) index =
     bindP getP (\<lambda>s. let bp_ports = t_def_bridge_port_list s in
       if index < length bp_ports then
         let port = bp_ports ! index in
         thenP (on_dev (sai_remove sai ''bridge_port'' (VInt port)))
         (bindP (liftP (py_index (t_active_port_obj_list s) (int index))) (\<lambda>r.
         thenP (write_port r (\<lambda>p. p\<lparr>p_bridge_port_oid := None\<rparr>))
         (thenP (remove_def_bridge_port port)
         (remove_bridge_port_loop sai n (Suc index)))))
       else retP ())"

definition remove_bridge_port :: "'d sai_client \<Rightarrow> ('d test_obj, unit) py" where
  "remove_bridge_port sai =
     bindP getP (\<lambda>s.
     thenP (remove_bridge_port_loop sai (length (t_def_bridge_port_list s)) 0)
     (assert_status sai))"

definition get_default_1q_bridge :: "'d sai_client \<Rightarrow> ('d test_obj, sai_val) py" where
  "get_default_1q_bridge sai =
     bindP (on_dev (sai_get sai ''switch'' VNone [(''default_1q_bridge_id'', VBool True)])) (\<lambda>def_attr.
     liftP (attr_at def_attr ''default_1q_bridge_id''))"

section \<open>Host interfaces\<close>

definition hostif_table :: "'d sai_client \<Rightarrow> sai_val \<Rightarrow> ('d test_obj, int) py" where
  "hostif_table sai trap_group =
     bindP (on_dev (sai_create sai ''hostif_table_entry''
       [(''type'', VInt SAI_HOSTIF_TABLE_ENTRY_TYPE_WILDCARD),
        (''channel_type'', VInt SAI_HOSTIF_TABLE_ENTRY_CHANNEL_TYPE_NETDEV_PHYSICAL_PORT)]))
       (\<lambda>host_intf_table_id.
     bindP (on_dev (sai_create sai ''hostif_trap''
       [(''trap_type'', VInt SAI_HOSTIF_TRAP_TYPE_TTL_ERROR), (''packet_action'', VInt SAI_PACKET_ACTION_TRAP),
        (''trap_group'', trap_group), (''trap_priority'', VInt 0)])) (\<lambda>_.
     retP host_intf_table_id))"

definition create_hostif :: "'d sai_client \<Rightarrow> nat \<Rightarrow> ('d test_obj, int) py" where
  "create_hostif sai item =
     bindP (read_port item) (\<lambda>p.
     bindP (liftP (config_of p)) (\<lambda>c.
     bindP (on_dev (sai_create sai ''hostif''
       [(''type'', VInt SAI_HOSTIF_TYPE_NETDEV), (''obj_id'', opt_oid (p_oid p)),
        (''name'', json_val (pc_name c))])) (\<lambda>hostif.
     thenP (on_dev (sai_set sai ''hostif'' (VInt hostif) [(''oper_status'', VBool False)]))
     (thenP (write_port item (\<lambda>p. p\<lparr>p_host_itf_id := Some hostif\<rparr>)) (retP hostif)))))"

text \<open>Any exception of the body is caught: the entry of the list stays \<open>None\<close>.\<close>

definition create_hostifs :: "'d sai_client \<Rightarrow> nat list \<Rightarrow> ('d test_obj, int option list) py" where
  "create_hostifs sai port_list = mapP port_list (\<lambda>item.
     catchP (bindP (create_hostif sai item) (\<lambda>h. retP (Some h))) (\<lambda>_. retP None))"

definition create_host_intf ::
  "'d sai_client \<Rightarrow> nat list \<Rightarrow> sai_val \<Rightarrow> ('d test_obj, int \<times> int option list) py" where
  "create_host_intf sai port_list trap_group =
     bindP (hostif_table sai trap_group) (\<lambda>host_intf_table_id.
     bindP (create_hostifs sai port_list) (\<lambda>hostif_list.
     retP (host_intf_table_id, hostif_list)))"

definition create_port_hostif_by_port_config_ini ::
  "'d sai_client \<Rightarrow> nat list \<Rightarrow> sai_val \<Rightarrow> ('d test_obj, int \<times> int option list) py" where
  "create_port_hostif_by_port_config_ini sai port_list trap_group =
     bindP (hostif_table sai trap_group) (\<lambda>host_intf_table_id.
     bindP (create_hostifs sai port_list) (\<lambda>hostif_list.
     retP (host_intf_table_id, hostif_list)))"

definition remove_host_inf :: "'d sai_client \<Rightarrow> int \<Rightarrow> int option list \<Rightarrow> ('d test_obj, unit) py" where
  "remove_host_inf sai host_intf_table_id hostif_list =
     thenP (forP hostif_list (\<lambda>hostif. on_dev (sai_remove sai ''hostif'' (opt_oid hostif))))
     (on_dev (sai_remove sai ''hostif_table_entry'' (VInt host_intf_table_id)))"


section \<open>The ports of the test\<close>

definition generate_port_obj_list_by_interface_config :: "('d test_obj, int list) py" where
  "generate_port_obj_list_by_interface_config =
     bindP getP (\<lambda>s.
     mapP (zip [0..<length (t_interfaces s)] (t_interfaces s)) (\<lambda>(index, device, port, eth).
       bindP getP (\<lambda>s.
       bindP (liftP (py_index (t_active_port_obj_list s) (int index))) (\<lambda>r.
       thenP (write_port r (\<lambda>p. p\<lparr>p_dev_port_index := Some port, p_dev_port_eth := Some eth\<rparr>))
       (retP port)))))"

definition port_with_lane :: "'d sai_client \<Rightarrow> nat \<Rightarrow> int \<Rightarrow> ('d test_obj, nat) py" where
  "port_with_lane sai index item =
     bindP (new_port (Port (Some item) (Some (int index)) None None None)) (\<lambda>r.
     bindP getP (\<lambda>s.
     bindP (on_dev (sai_get sai ''port'' (VInt item)
       [(''hw_lane_list'', VNone), (''hw_lane_list.count'', VInt (t_active_ports_no s))])) (\<lambda>attr.
     bindP (liftP (bindR (attr_at attr ''hw_lane_list'') idlist)) (\<lambda>lanes.
     thenP (write_port r (\<lambda>p. p\<lparr>p_default_lane_list := lanes\<rparr>)) (retP r)))))"

definition get_port_default_lane :: "'d sai_client \<Rightarrow> ('d test_obj, nat list) py" where
  "get_port_default_lane sai =
     bindP getP (\<lambda>s.
     bindP (on_dev (sai_get sai ''switch'' VNone
       [(''port_list'', VList []), (''port_list.count'', VInt (t_active_ports_no s))])) (\<lambda>p_list.
     bindP (liftP (bindR (attr_at p_list ''port_list'') idlist)) (\<lambda>ids.
     mapP (zip [0..<length ids] ids) (\<lambda>(index, item). port_with_lane sai index item))))"

text \<open>For each configuration the first port that has its lanes, if any; the port remembers the
  configuration.\<close>

fun first_with_lanes :: "port_config \<Rightarrow> nat list \<Rightarrow> ('d test_obj, nat option) py" where
  "first_with_lanes c [] = retP None"
| "first_with_lanes c (r # rs) =
     bindP (read_port r) (\<lambda>p.
     if pc_lanes c = Some (p_default_lane_list p)
     then thenP (write_port r (\<lambda>p. p\<lparr>p_config := Some c\<rparr>)) (retP (Some r))
     else first_with_lanes c rs)"

definition sort_port_list_by_config :: "port_config list \<Rightarrow> nat list \<Rightarrow> ('d test_obj, nat list) py" where
  "sort_port_list_by_config ports_config port_list =
     bindP (mapP ports_config (\<lambda>c. first_with_lanes c port_list)) (\<lambda>found.
     retP (List.map_filter id found))"

definition get_port_id_list :: "nat list \<Rightarrow> ('d test_obj, sai_val list) py" where
  "get_port_id_list port_obj_list = mapP port_obj_list (\<lambda>r.
     bindP (read_port r) (\<lambda>p. retP (opt_oid (p_oid p))))"

definition get_lane_sorted_port_list :: "nat list \<Rightarrow> ('d test_obj, sai_val list) py" where
  "get_lane_sorted_port_list port_obj_list_with_lane =
     bindP getP (\<lambda>s.
     bindP (sort_port_list_by_config (t_ports_config s) port_obj_list_with_lane) (\<lambda>l.
     thenP (modP (\<lambda>s. s\<lparr>t_active_port_obj_list := l\<rparr>)) (get_port_id_list l)))"

text \<open>The dictionary \<open>fec_change\<close> has the text \<open>'None'\<close> as a key; a list or dictionary cannot be looked up.\<close>

definition get_fec_mode :: "port \<Rightarrow> int res" where
  "get_fec_mode port = bindR (config_of port) (\<lambda>c. case pc_fec c of
     JStr s \<Rightarrow> od_get [(''None'', SAI_PORT_FEC_MODE_NONE), (''rs'', SAI_PORT_FEC_MODE_RS),
                  (''fc'', SAI_PORT_FEC_MODE_FC)] s
   | JList _ \<Rightarrow> Inl TypeError | JObj _ \<Rightarrow> Inl TypeError
   | _ \<Rightarrow> Inl KeyError)"

text \<open>What is printed does not matter, but computing it may raise.\<close>

definition log_port_state :: "port \<Rightarrow> unit res" where
  "log_port_state port = bindR (config_of port) (\<lambda>c. bindR (get_fec_mode port) (\<lambda>_. Inr ()))"

definition set_port_attribute :: "'d sai_client \<Rightarrow> nat list \<Rightarrow> ('d test_obj, unit) py" where
  "set_port_attribute sai port_list = forP port_list (\<lambda>r.
     bindP (read_port r) (\<lambda>p.
     bindP (liftP (config_of p)) (\<lambda>c.
     bindP (liftP (get_fec_mode p)) (\<lambda>fec.
     on_dev (sai_set sai ''port'' (opt_oid (p_oid p))
       [(''mtu'', opt_oid (pc_mtu c)), (''fec_mode'', VInt fec), (''speed'', opt_oid (pc_speed c))])))))"

definition admin_up :: "'d sai_client \<Rightarrow> port \<Rightarrow> ('d test_obj, unit) py" where
  "admin_up sai p = on_dev (sai_set sai ''port'' (opt_oid (p_oid p)) [(''admin_state'', VBool True)])"

definition oper_status :: "'d sai_client \<Rightarrow> port \<Rightarrow> ('d test_obj, sai_val) py" where
  "oper_status sai p =
     bindP (on_dev (sai_get sai ''port'' (opt_oid (p_oid p)) [(''oper_status'', VBool True)])) (\<lambda>port_attr.
     liftP (attr_at port_attr ''oper_status''))"

text \<open>\<open>not port.dev_port_index and index != 0\<close>: an index that is not set, or is 0.\<close>

definition skipped :: "nat \<Rightarrow> port \<Rightarrow> bool" where
  "skipped index p \<longleftrightarrow> (p_dev_port_index p = None \<or> p_dev_port_index p = Some 0) \<and> index \<noteq> 0"

fun retry_up :: "'d sai_client \<Rightarrow> port \<Rightarrow> nat \<Rightarrow> ('d test_obj, bool) py" where
  "retry_up sai p 0 = retP False"
| "retry_up sai p (Suc tries) =
     bindP (oper_status sai p) (\<lambda>st.
     if st = VInt SAI_PORT_OPER_STATUS_UP then retP True
     else thenP (modP (\<lambda>s. s\<lparr>t_slept := t_slept s + 3\<rparr>))
       (thenP (liftP (log_port_state p))
       (thenP (admin_up sai p) (retry_up sai p tries))))"

definition wait_up :: "'d sai_client \<Rightarrow> port \<Rightarrow> ('d test_obj, bool) py" where
  "wait_up sai p = bindP (oper_status sai p) (\<lambda>st.
     if st \<noteq> VInt SAI_PORT_OPER_STATUS_UP then retry_up sai p 10 else retP True)"

definition turn_up :: "'d sai_client \<Rightarrow> nat \<times> nat \<Rightarrow> ('d test_obj, nat option) py" where
  "turn_up sai = (\<lambda>(index, r). bindP (read_port r) (\<lambda>p.
     if skipped index p then bindP (liftP (config_of p)) (\<lambda>_. retP None)
     else thenP (admin_up sai p) (retP (Some r))))"

definition turn_up_and_get_checked_ports :: "'d sai_client \<Rightarrow> nat list \<Rightarrow> ('d test_obj, nat list) py" where
  "turn_up_and_get_checked_ports sai port_list =
     bindP (mapP (zip [0..<length port_list] port_list) (turn_up sai)) (\<lambda>l.
     let test_port_list = List.map_filter id l in
     thenP (forP test_port_list (\<lambda>r. bindP (read_port r) (\<lambda>p.
       bindP (wait_up sai p) (\<lambda>port_up. retP ()))))
     (retP test_port_list))"


section \<open>The store of objects\<close>

text \<open>What the operations rely on when they write objects that several lists share: a write is read
  back, leaves the other objects alone, and makes no reference invalid.\<close>

locale object_store =
  fixes rd :: "'s \<Rightarrow> nat \<Rightarrow> 'o"
    and wr :: "nat \<Rightarrow> ('o \<Rightarrow> 'o) \<Rightarrow> 's \<Rightarrow> 's"
    and valid :: "'s \<Rightarrow> nat \<Rightarrow> bool"
  assumes rd_wr_same: "valid s r \<Longrightarrow> rd (wr r f s) r = f (rd s r)"
    and rd_wr_other: "r \<noteq> q \<Longrightarrow> rd (wr r f s) q = rd s q"
    and valid_wr: "valid (wr r f s) q \<longleftrightarrow> valid s q"
begin

fun wr_all :: "(nat \<times> ('o \<Rightarrow> 'o)) list \<Rightarrow> 's \<Rightarrow> 's" where
  "wr_all [] s = s"
| "wr_all ((r, f) # ups) s = wr_all ups (wr r f s)"

lemma valid_wr_all: "valid (wr_all ups s) q \<longleftrightarrow> valid s q"
  by (induction ups s rule: wr_all.induct) (simp_all add: valid_wr)

lemma wr_all_other: "q \<notin> fst ` set ups \<Longrightarrow> rd (wr_all ups s) q = rd s q"
  by (induction ups s rule: wr_all.induct) (simp_all add: rd_wr_other)

lemma wr_all_once:
  "distinct (map fst ups) \<Longrightarrow> (r, f) \<in> set ups \<Longrightarrow> valid s r \<Longrightarrow> rd (wr_all ups s) r = f (rd s r)"
proof (induction ups s rule: wr_all.induct)
  case (2 q g ups s)
  show ?case
  proof (cases "r = q")
    case True
    then have "f = g" "r \<notin> fst ` set ups" using 2 by force+
    with True "2.prems" show ?thesis by (simp add: wr_all_other rd_wr_same)
  next
    case False
    then have "(r, f) \<in> set ups" using 2 by auto
    with False 2 show ?thesis by (simp add: valid_wr rd_wr_other)
  qed
qed simp

lemma wr_last:
  "r \<in> fst ` set ups \<Longrightarrow> valid s r \<Longrightarrow> \<exists>f p. (r, f) \<in> set ups \<and> rd (wr_all ups s) r = f p"
proof (induction ups s rule: wr_all.induct)
  case (2 q g ups s)
  show ?case
  proof (cases "r \<in> fst ` set ups")
    case True
    from "2.IH" [OF this] "2.prems"(2) obtain f p
      where "(r, f) \<in> set ups" "rd (wr_all ups (wr q g s)) r = f p" by (auto simp: valid_wr)
    then show ?thesis by auto
  next
    case False
    then have "r = q" using 2 by auto
    with False "2.prems" show ?thesis by (auto simp: wr_all_other rd_wr_same)
  qed
qed simp

end

definition put_port :: "nat \<Rightarrow> (port \<Rightarrow> port) \<Rightarrow> port list \<Rightarrow> port list" where
  "put_port r f ps = ps[r := f (ps ! r)]"

interpretation ports: object_store "(!)" put_port "\<lambda>ps r. r < length ps"
  by unfold_locales (auto simp: put_port_def)

section \<open>What an operation may change\<close>

lemma on_dev_Inr: "on_dev m s = (Inr x, s') \<Longrightarrow> \<exists>d. m (t_dev s) = (Inr x, d) \<and> s' = s\<lparr>t_dev := d\<rparr>"
  by (auto simp: on_dev_def split: prod.splits)

lemma on_dev_frame: "snd (on_dev m s) = s\<lparr>t_dev := t_dev (snd (on_dev m s))\<rparr>"
  by (simp add: on_dev_def split: prod.splits)

lemma port_ops [py_res]:
  "read_port r s = (Inr (t_ports s ! r), s)"
  "write_port r f s = (Inr (), s\<lparr>t_ports := put_port r f (t_ports s)\<rparr>)"
  "new_port p s = (Inr (length (t_ports s)), s\<lparr>t_ports := t_ports s @ [p]\<rparr>)"
  "set_attr k v s = (Inr (), s\<lparr>t_attrs := AList.update k v (t_attrs s)\<rparr>)"
  by (simp_all add: read_port_def write_port_def new_port_def set_attr_def put_port_def)

lemma mapP_Inr_Cons:
  "mapP (x # xs) f s = (Inr ys, s') \<longleftrightarrow>
   (\<exists>y t zs. f x s = (Inr y, t) \<and> mapP xs f t = (Inr zs, s') \<and> ys = y # zs)"
  by (auto simp: bindP_eq_Inr)

lemma mapP_length: "mapP xs f s = (Inr ys, s') \<Longrightarrow> length ys = length xs"
proof (induction xs arbitrary: s ys)
  case (Cons x xs)
  from Cons.prems obtain y t zs where "mapP xs f t = (Inr zs, s')" "ys = y # zs"
    unfolding mapP_Inr_Cons by blast
  with Cons.IH show ?case by simp
qed simp

section \<open>Bridge ports of the ports\<close>

definition bind_bp :: "int \<Rightarrow> port \<Rightarrow> port" where
  "bind_bp bp p = p\<lparr>p_bridge_port_oid := Some bp\<rparr>"

lemma create_bridge_port_run:
  "create_bridge_port sai b r s = (Inr bp, s') \<Longrightarrow>
   \<exists>d. s' = s\<lparr>t_dev := d, t_ports := put_port r (bind_bp bp) (t_ports s)\<rparr>"
  unfolding create_bridge_port_def bindP_eq_Inr thenP_eq_Inr bind_bp_def
  by (auto simp: py_res dest!: on_dev_Inr)

lemma create_bridge_ports_run:
  "mapP refs (create_bridge_port sai b) s = (Inr bps, s') \<Longrightarrow>
   \<exists>d. s' = s\<lparr>t_dev := d, t_ports := ports.wr_all (zip refs (map bind_bp bps)) (t_ports s)\<rparr>"
proof (induction refs arbitrary: s bps)
  case Nil
  then show ?case by (intro exI [of _ "t_dev s"]) simp
next
  case (Cons r refs)
  obtain bp t zs where r: "create_bridge_port sai b r s = (Inr bp, t)"
    and zs: "mapP refs (create_bridge_port sai b) t = (Inr zs, s')" "bps = bp # zs"
    using Cons.prems unfolding mapP_Inr_Cons by blast
  obtain d where t: "t = s\<lparr>t_dev := d, t_ports := put_port r (bind_bp bp) (t_ports s)\<rparr>"
    using create_bridge_port_run [OF r] by blast
  obtain d' where "s' = t\<lparr>t_dev := d', t_ports := ports.wr_all (zip refs (map bind_bp zs)) (t_ports t)\<rparr>"
    using Cons.IH [OF zs(1)] by blast
  then have "s' = s\<lparr>t_dev := d', t_ports := ports.wr_all (zip (r # refs) (map bind_bp bps)) (t_ports s)\<rparr>"
    by (simp add: t zs(2))
  then show ?case by blast
qed

text \<open>Names of attributes by number are different for different numbers.\<close>

lemma str_of_nat_inj: "str_of_nat i = str_of_nat j \<longleftrightarrow> i = j"
proof
  assume "str_of_nat i = str_of_nat j"
  then have "py_int (str_of_nat i) = py_int (str_of_nat j)" by (rule arg_cong)
  then show "i = j" by simp
qed (rule arg_cong)

lemma attr_names_inj: "port_attr i = port_attr j \<longleftrightarrow> i = j" "bp_attr i = bp_attr j \<longleftrightarrow> i = j"
  by (simp_all only: port_attr_def bp_attr_def same_append_eq append_same_eq str_of_nat_inj)

definition put_attrs :: "(nat \<Rightarrow> string) \<Rightarrow> (nat \<times> sai_val) list \<Rightarrow> (string, sai_val) odict \<Rightarrow> (string, sai_val) odict" where
  "put_attrs nm ivs d = foldl (\<lambda>d (i, v). AList.update (nm i) v d) d ivs"

lemma put_attrs_other: "k \<notin> nm ` fst ` set ivs \<Longrightarrow> map_of (put_attrs nm ivs d) k = map_of d k"
  unfolding put_attrs_def by (induction ivs arbitrary: d) (auto simp: update_conv')

lemma put_attrs_nth:
  assumes "inj nm"
  shows "i < length vs \<Longrightarrow> map_of (put_attrs nm (zip [j..<j + length vs] vs) d) (nm (j + i)) = Some (vs ! i)"
proof (induction vs arbitrary: i j d)
  case (Cons v vs)
  have z: "zip [j..<j + length (v # vs)] (v # vs) = (j, v) # zip [Suc j..<Suc j + length vs] vs"
    by (simp add: upt_conv_Cons del: upt_Suc)
  show ?case
  proof (cases i)
    case 0
    have "nm j \<notin> nm ` fst ` set (zip [Suc j..<Suc j + length vs] vs)"
      using assms by (auto dest!: set_zip_leftD injD)
    from put_attrs_other [OF this, of "AList.update (nm j) v d"] 0 show ?thesis
      unfolding z by (simp add: put_attrs_def update_conv')
  next
    case (Suc k)
    with Cons show ?thesis unfolding z using Cons.IH [of k "Suc j" "AList.update (nm j) v d"]
      by (simp add: put_attrs_def)
  qed
qed simp

lemma forP_set_attr:
  "forP ivs (\<lambda>(i, v). set_attr (nm i) v) s = (Inr (), s\<lparr>t_attrs := put_attrs nm ivs (t_attrs s)\<rparr>)"
  unfolding put_attrs_def by (induction ivs arbitrary: s) (auto simp: py_res)

lemma set_all_run:
  "set_all nm vs s = (Inr (), s\<lparr>t_attrs := put_attrs nm (zip [0..<length vs] vs) (t_attrs s)\<rparr>)"
  by (simp add: set_all_def forP_set_attr)

lemma set_all_get:
  "inj nm \<Longrightarrow> i < length vs \<Longrightarrow> map_of (t_attrs (snd (set_all nm vs s))) (nm i) = Some (vs ! i)"
  using put_attrs_nth [of nm i vs 0 "t_attrs s"] by (simp add: set_all_run)

lemma create_bridge_ports_Inr:
  assumes "create_bridge_ports sai b refs s = (Inr bps, s')"
  shows "\<exists>d. s' = s\<lparr>t_dev := d, t_ports := ports.wr_all (zip refs (map bind_bp bps)) (t_ports s),
      t_attrs := put_attrs bp_attr (zip [0..<length bps] (map VInt bps)) (t_attrs s)\<rparr>"
    and "length bps = length refs"
proof -
  obtain t where t: "mapP refs (create_bridge_port sai b) s = (Inr bps, t)"
    "set_all bp_attr (map VInt bps) t = (Inr (), s')"
    using assms by (auto simp: create_bridge_ports_def set_test_bridge_port_attr_def bindP_eq_Inr thenP_eq_Inr)
  show "length bps = length refs" by (rule mapP_length [OF t(1)])
  obtain d where "t = s\<lparr>t_dev := d, t_ports := ports.wr_all (zip refs (map bind_bp bps)) (t_ports s)\<rparr>"
    using create_bridge_ports_run [OF t(1)] by blast
  with t(2) have "s' = s\<lparr>t_dev := d, t_ports := ports.wr_all (zip refs (map bind_bp bps)) (t_ports s),
      t_attrs := put_attrs bp_attr (zip [0..<length bps] (map VInt bps)) (t_attrs s)\<rparr>"
    by (simp add: set_all_run)
  then show "\<exists>d. s' = s\<lparr>t_dev := d, t_ports := ports.wr_all (zip refs (map bind_bp bps)) (t_ports s),
      t_attrs := put_attrs bp_attr (zip [0..<length bps] (map VInt bps)) (t_attrs s)\<rparr>" by blast
qed

lemma bp_attr_inj: "inj bp_attr" by (simp add: inj_def attr_names_inj)



text \<open>A client for the examples: the device is the log of the calls, a new object gets the next
  number from 100 on, and reads are answered by a function.\<close>

type_synonym demo_log = "(string \<times> sai_val) list"

definition demo_client :: "(string \<Rightarrow> sai_val \<Rightarrow> sai_args option) \<Rightarrow> demo_log sai_client" where
  "demo_client answers = \<lparr>
     sai_create = (\<lambda>obj args d. (Inr (100 + int (length d)), d @ [(obj, VBool True)])),
     sai_remove = (\<lambda>obj v d. (Inr (), d @ [(obj, v)])),
     sai_get = (\<lambda>obj v args d. (Inr (answers obj v), d)),
     sai_set = (\<lambda>obj v args d. (Inr (), d @ [(obj, v)])),
     sai_status = (\<lambda>d. SAI_STATUS_SUCCESS)\<rparr>"

definition demo_obj :: "port list \<Rightarrow> demo_log test_obj" where
  "demo_obj ps = \<lparr>t_dev = [], t_ports = ps, t_attrs = [], t_interfaces = [(0, 7, ''eth0'')],
     t_active_port_obj_list = [0..<length ps], t_def_bridge_port_list = [], t_default_1q_bridge = VInt 9,
     t_active_ports_no = int (length ps), t_system_port_no = 0, t_ports_config = [], t_slept = 0\<rparr>"

definition demo_port :: "int \<Rightarrow> port" where
  "demo_port i = Port (Some i) (Some i) None None None"

lemma all_less_two: "(\<forall>i < (2 :: nat). P i) \<longleftrightarrow> P 0 \<and> P 1"
  by (auto simp: less_2_cases_iff)


section \<open>The order of the ports\<close>

lemma first_with_lanes_run:
  "first_with_lanes c rs s =
    (case find (\<lambda>r. pc_lanes c = Some (p_default_lane_list (t_ports s ! r))) rs of
       None \<Rightarrow> (Inr None, s)
     | Some r \<Rightarrow> (Inr (Some r), s\<lparr>t_ports := put_port r (\<lambda>p. p\<lparr>p_config := Some c\<rparr>) (t_ports s)\<rparr>))"
  by (induction rs) (auto simp: py_res)

text \<open>The port a configuration selects does not depend on the configurations before it, because
  they leave the lanes alone.\<close>

definition lanes_port :: "port list \<Rightarrow> nat list \<Rightarrow> port_config \<Rightarrow> nat option" where
  "lanes_port ps rs c = find (\<lambda>r. pc_lanes c = Some (p_default_lane_list (ps ! r))) rs"

definition set_config :: "port_config \<Rightarrow> port \<Rightarrow> port" where
  "set_config c p = p\<lparr>p_config := Some c\<rparr>"

definition config_writes :: "port list \<Rightarrow> nat list \<Rightarrow> port_config list \<Rightarrow> (nat \<times> (port \<Rightarrow> port)) list" where
  "config_writes ps rs cs = List.map_filter (\<lambda>c. map_option (\<lambda>r. (r, set_config c)) (lanes_port ps rs c)) cs"

lemma put_port_lanes:
  "(\<And>p. p_default_lane_list (f p) = p_default_lane_list p) \<Longrightarrow>
   p_default_lane_list (put_port r f ps ! q) = p_default_lane_list (ps ! q)"
  by (cases "r < length ps"; cases "q = r") (simp_all add: put_port_def list_update_beyond)

lemma lanes_port_cong:
  "(\<And>q. p_default_lane_list (ps' ! q) = p_default_lane_list (ps ! q)) \<Longrightarrow> lanes_port ps' rs c = lanes_port ps rs c"
  by (simp add: lanes_port_def)

lemma map_filter_Cons: "List.map_filter f (x # xs) =
    (case f x of None \<Rightarrow> List.map_filter f xs | Some y \<Rightarrow> y # List.map_filter f xs)"
  by (cases "f x") (simp_all add: List.map_filter_def)

lemma sort_run:
  "mapP cs (\<lambda>c. first_with_lanes c rs) s
    = (Inr (map (lanes_port (t_ports s) rs) cs),
       s\<lparr>t_ports := ports.wr_all (config_writes (t_ports s) rs cs) (t_ports s)\<rparr>)"
proof (induction cs arbitrary: s)
  case Nil
  then show ?case by (simp add: config_writes_def List.map_filter_def)
next
  case (Cons c cs)
  show ?case
  proof (cases "lanes_port (t_ports s) rs c")
    case None
    then have "first_with_lanes c rs s = (Inr None, s)" by (simp add: first_with_lanes_run lanes_port_def)
    with None Cons.IH show ?thesis by (simp add: py_res config_writes_def map_filter_Cons)
  next
    case (Some r)
    let ?s = "s\<lparr>t_ports := put_port r (set_config c) (t_ports s)\<rparr>"
    have f: "first_with_lanes c rs s = (Inr (Some r), ?s)"
      using Some by (simp add: first_with_lanes_run lanes_port_def set_config_def [abs_def])
    have l: "lanes_port (t_ports ?s) rs = lanes_port (t_ports s) rs"
      by (rule ext, rule lanes_port_cong) (simp add: put_port_lanes set_config_def)
    show ?thesis using f Some Cons.IH [of ?s] l
      by (simp add: py_res config_writes_def map_filter_Cons)
  qed
qed

lemma sort_port_list_run:
  "sort_port_list_by_config cs rs s
    = (Inr (List.map_filter (lanes_port (t_ports s) rs) cs),
       s\<lparr>t_ports := ports.wr_all (config_writes (t_ports s) rs cs) (t_ports s)\<rparr>)"
proof -
  have "List.map_filter id (map f cs) = List.map_filter f cs" for f :: "port_config \<Rightarrow> nat option"
    by (induction cs) (simp_all add: map_filter_Cons List.map_filter_def)
  then show ?thesis by (simp add: sort_port_list_by_config_def bindP_apply sort_run)
qed

lemma map_filter_set: "y \<in> set (List.map_filter f xs) \<longleftrightarrow> (\<exists>x \<in> set xs. f x = Some y)"
  by (auto simp: List.map_filter_def image_iff)

lemma config_writes_set:
  "(r, f) \<in> set (config_writes ps rs cs) \<Longrightarrow>
   \<exists>c \<in> set cs. f = set_config c \<and> pc_lanes c = Some (p_default_lane_list (ps ! r))"
proof -
  assume "(r, f) \<in> set (config_writes ps rs cs)"
  then obtain c where c: "c \<in> set cs" "lanes_port ps rs c = Some r" "f = set_config c"
    by (auto simp: config_writes_def map_filter_set)
  from c(2) have "pc_lanes c = Some (p_default_lane_list (ps ! r))"
    unfolding lanes_port_def find_Some_iff by blast
  with c show ?thesis by blast
qed

lemma config_writes_refs: "fst ` set (config_writes ps rs cs) = set (List.map_filter (lanes_port ps rs) cs)"
  by (force simp: config_writes_def map_filter_set image_iff)

lemma lanes_port_in: "lanes_port ps rs c = Some r \<Longrightarrow> r \<in> set rs"
  unfolding lanes_port_def find_Some_iff by auto

lemma sort_port_list_facts:
  assumes "\<forall>r \<in> set port_list. r < length (t_ports s)"
  shows "\<exists>l s'. sort_port_list_by_config cs port_list s = (Inr l, s')
    \<and> l = List.map_filter (lanes_port (t_ports s) port_list) cs
    \<and> (\<forall>r \<in> set l. \<exists>c \<in> set cs. p_config (t_ports s' ! r) = Some c
        \<and> pc_lanes c = Some (p_default_lane_list (t_ports s ! r)))
    \<and> (\<forall>r. r \<notin> set l \<longrightarrow> t_ports s' ! r = t_ports s ! r)"
proof -
  let ?ps = "t_ports s" and ?l = "List.map_filter (lanes_port (t_ports s) port_list) cs"
  let ?W = "config_writes ?ps port_list cs"
  have "\<exists>c \<in> set cs. p_config (ports.wr_all ?W ?ps ! r) = Some c \<and> pc_lanes c = Some (p_default_lane_list (?ps ! r))"
    if r: "r \<in> set ?l" for r
  proof -
    have v: "r < length ?ps" using r assms lanes_port_in by (auto simp: map_filter_set)
    have 1: "\<exists>c \<in> set cs. p_config (f p) = Some c \<and> pc_lanes c = Some (p_default_lane_list (?ps ! q))"
      if "(q, f) \<in> set ?W" for q f p using config_writes_set [OF that] by (auto simp: set_config_def)
    have "r \<in> fst ` set ?W" using r config_writes_refs by blast
    from ports.wr_last [OF this v] obtain f p where "(r, f) \<in> set ?W" "ports.wr_all ?W ?ps ! r = f p" by blast
    with 1 show ?thesis by auto
  qed
  moreover have "ports.wr_all ?W ?ps ! r = ?ps ! r" if "r \<notin> set ?l" for r
    using that config_writes_refs [of ?ps port_list cs] by (intro ports.wr_all_other) blast
  ultimately show ?thesis unfolding sort_port_list_run by auto
qed


definition lanes_config :: "string \<Rightarrow> int list \<Rightarrow> port_config" where
  "lanes_config nm ls = PortConfig\<lparr>pc_name := JStr nm, pc_lanes := Some ls\<rparr>"

definition lanes_demo :: "demo_log test_obj" where
  "lanes_demo = demo_obj [(demo_port 4)\<lparr>p_default_lane_list := [1]\<rparr>, (demo_port 5)\<lparr>p_default_lane_list := [2]\<rparr>]"



section \<open>Removing bridge ports\<close>

fun kept :: "'a list \<Rightarrow> 'a list" where
  "kept (x # y # zs) = y # kept zs"
| "kept [] = []"
| "kept [x] = []"

fun taken :: "'a list \<Rightarrow> 'a list" where
  "taken (x # y # zs) = x # taken zs"
| "taken xs = xs"

abbreviation remove_bp :: "'d sai_client \<Rightarrow> int \<Rightarrow> ('d, unit) py" where
  "remove_bp sai bp \<equiv> sai_remove sai ''bridge_port'' (VInt bp)"

lemma remove_def_run:
  "remove_def_bridge_port bp s = (if bp \<in> set (t_def_bridge_port_list s)
     then (Inr (), s\<lparr>t_def_bridge_port_list := remove1 bp (t_def_bridge_port_list s)\<rparr>) else (Inl ValueError, s))"
  by (simp add: remove_def_bridge_port_def list_remove_def py_res)

lemma loop_end: "length (t_def_bridge_port_list s) \<le> index \<Longrightarrow> remove_bridge_port_loop sai n index s = (Inr (), s)"
  by (cases n) (simp_all add: py_res)

lemma loop_step:
  assumes "remove_bridge_port_loop sai (Suc n) index s = (Inr (), s')"
    and "t_def_bridge_port_list s = pre @ x # suf" "length pre = index" "x \<notin> set pre"
  shows "\<exists>t. remove_bp sai x (t_dev s) = (Inr (), t_dev t) \<and> t_def_bridge_port_list t = pre @ suf
    \<and> remove_bridge_port_loop sai n (Suc index) t = (Inr (), s')"
proof -
  have x: "(pre @ x # suf) ! index = x" using assms(3) by (auto simp: nth_append)
  obtain r d where d: "remove_bp sai x (t_dev s) = (Inr (), d)"
    and t: "remove_bridge_port_loop sai n (Suc index) (s\<lparr>t_dev := d,
        t_ports := put_port r (\<lambda>p. p\<lparr>p_bridge_port_oid := None\<rparr>) (t_ports s),
        t_def_bridge_port_list := pre @ suf\<rparr>) = (Inr (), s')"
    using assms(1,2,4) x assms(3)
    by (auto simp: bindP_eq_Inr thenP_eq_Inr Let_def remove_def_run port_ops remove1_append dest!: on_dev_Inr)
  show ?thesis by (rule exI, intro conjI, rule_tac [3] t) (simp_all add: d)
qed

lemma loop_kept:
  "remove_bridge_port_loop sai n index s = (Inr (), s') \<Longrightarrow> t_def_bridge_port_list s = pre @ l \<Longrightarrow>
   length pre = index \<Longrightarrow> distinct (pre @ l) \<Longrightarrow> length l \<le> n \<Longrightarrow>
   t_def_bridge_port_list s' = pre @ kept l \<and> forP (taken l) (remove_bp sai) (t_dev s) = (Inr (), t_dev s')"
proof (induction l arbitrary: n index s pre rule: kept.induct)
  case (1 x y zs)
  obtain m where m: "n = Suc m" using "1.prems"(5) by (cases n) auto
  obtain t where t: "remove_bp sai x (t_dev s) = (Inr (), t_dev t)" "t_def_bridge_port_list t = pre @ y # zs"
    "remove_bridge_port_loop sai m (Suc index) t = (Inr (), s')"
    using loop_step [of sai m index s s' pre x "y # zs"] 1 m by auto
  have "t_def_bridge_port_list s' = (pre @ [y]) @ kept zs \<and> forP (taken zs) (remove_bp sai) (t_dev t) = (Inr (), t_dev s')"
    by (rule "1.IH" [OF t(3)]) (use t(2) "1.prems" m in auto)
  with t(1) show ?case by (simp add: thenP_Inr)
next
  case 2
  then show ?case using loop_end [of s index sai n] by simp
next
  case (3 x)
  obtain m where m: "n = Suc m" using "3.prems"(5) by (cases n) auto
  obtain t where t: "remove_bp sai x (t_dev s) = (Inr (), t_dev t)" "t_def_bridge_port_list t = pre"
    "remove_bridge_port_loop sai m (Suc index) t = (Inr (), s')"
    using loop_step [of sai m index s s' pre x "[]"] 3 m by auto
  then have "s' = t" using loop_end [of t "Suc index" sai m] "3.prems"(3) by simp
  with t show ?case by (simp add: thenP_Inr)
qed

lemma assert_status_Inr: "assert_status sai s = (Inr (), s') \<longleftrightarrow> s' = s \<and> sai_status sai (t_dev s) = SAI_STATUS_SUCCESS"
  by (auto simp: assert_status_def)

text \<open>C40 (error). Removing the bridge ports of the active ports removes every other one only: the
  loop takes elements out of the list it runs over, so the second, fourth, ... bridge port stays, on
  the device and in the list, although the operation ends normally.\<close>

theorem remove_bridge_port_skips:
  assumes "remove_bridge_port sai s = (Inr (), s')" "distinct (t_def_bridge_port_list s)"
  shows "t_def_bridge_port_list s' = kept (t_def_bridge_port_list s)
    \<and> forP (taken (t_def_bridge_port_list s)) (remove_bp sai) (t_dev s) = (Inr (), t_dev s')"
proof -
  have "remove_bridge_port_loop sai (length (t_def_bridge_port_list s)) 0 s = (Inr (), s')"
    using assms(1) by (auto simp: remove_bridge_port_def bindP_eq_Inr thenP_eq_Inr assert_status_Inr)
  from loop_kept [OF this, of "[]"] show ?thesis using assms(2) by simp
qed

theorem remove_bridge_port_skips_witness:
  "\<exists>s'. remove_bridge_port (demo_client (\<lambda>_ _. None))
        ((demo_obj [demo_port 4, demo_port 5])\<lparr>t_def_bridge_port_list := [20, 21, 22]\<rparr>) = (Inr (), s')
    \<and> t_def_bridge_port_list s' = [21]"
proof -
  let ?s = "(demo_obj [demo_port 4, demo_port 5])\<lparr>t_def_bridge_port_list := [20, 21, 22]\<rparr>"
  let ?r = "remove_bridge_port (demo_client (\<lambda>_ _. None)) ?s"
  have "fst ?r = Inr ()"
    by (simp add: remove_bridge_port_def py_res on_dev_def demo_client_def demo_obj_def remove_def_run
        py_index_def py_position_def assert_status_def)
  then obtain s' where s': "?r = (Inr (), s')" by (metis prod.collapse)
  from remove_bridge_port_skips [OF this] have "t_def_bridge_port_list s' = [21]" by simp
  with s' show ?thesis by blast
qed

lemma remove_each_def:
  "t_def_bridge_port_list s = l \<Longrightarrow> forP l remove_def_bridge_port s = (Inr (), s\<lparr>t_def_bridge_port_list := []\<rparr>)"
proof (induction l arbitrary: s)
  case (Cons x l)
  let ?t = "s\<lparr>t_def_bridge_port_list := l\<rparr>"
  have "remove_def_bridge_port x s = (Inr (), ?t)" using Cons.prems by (simp add: remove_def_run)
  then show ?case using Cons.IH [of ?t] by (simp add: thenP_Inr)
qed simp

lemma forP_on_dev:
  "forP xs (\<lambda>x. on_dev (f x)) s = (case forP xs f (t_dev s) of (r, d) \<Rightarrow> (r, s\<lparr>t_dev := d\<rparr>))"
proof (induction xs arbitrary: s)
  case (Cons x xs)
  obtain r d where f: "f x (t_dev s) = (r, d)" by fastforce
  then have o: "on_dev (f x) s = (r, s\<lparr>t_dev := d\<rparr>)" by (simp add: on_dev_def)
  show ?case
  proof (cases r)
    case (Inr u)
    with f o Cons.IH [of "s\<lparr>t_dev := d\<rparr>"] show ?thesis by (simp add: thenP_Inr split: prod.splits)
  qed (simp add: f o thenP_apply)
qed simp

lemma remove_all_run:
  assumes "remove_all_bridge_ports sai s = (Inr (), s')"
  shows "forP (t_def_bridge_port_list s) (remove_bp sai) (t_dev s) = (Inr (), t_dev s')
    \<and> s' = s\<lparr>t_dev := t_dev s', t_def_bridge_port_list := []\<rparr> \<and> sai_status sai (t_dev s') = SAI_STATUS_SUCCESS"
proof -
  obtain t u where t: "forP (t_def_bridge_port_list s) (\<lambda>bp. on_dev (remove_bp sai bp)) s = (Inr (), t)"
    and u: "forP (t_def_bridge_port_list s) remove_def_bridge_port t = (Inr (), u)"
    and s': "s' = u" "sai_status sai (t_dev u) = SAI_STATUS_SUCCESS"
    using assms by (auto simp: remove_all_bridge_ports_def bindP_eq_Inr thenP_eq_Inr assert_status_Inr Let_def)
  obtain d where d: "forP (t_def_bridge_port_list s) (remove_bp sai) (t_dev s) = (Inr (), d)" "t = s\<lparr>t_dev := d\<rparr>"
    using t by (auto simp: forP_on_dev split: prod.splits)
  have "u = t\<lparr>t_def_bridge_port_list := []\<rparr>" using u remove_each_def [of t "t_def_bridge_port_list s"] d(2) by simp
  with d s' show ?thesis by simp
qed

lemma get_all_frame: "get_all_bridge_ports sai b s = (Inr l, s') \<Longrightarrow> s' = s\<lparr>t_dev := t_dev s'\<rparr>"
  by (auto simp: get_all_bridge_ports_def bindP_eq_Inr thenP_eq_Inr assert_status_Inr Let_def dest!: on_dev_Inr)

lemma reset_facts:
  assumes "reset_1q_bridge_ports sai s = (Inr (), s')"
  shows "\<exists>l d. get_all_bridge_ports sai (t_default_1q_bridge s) s = (Inr l, s\<lparr>t_dev := d\<rparr>)
    \<and> forP l (remove_bp sai) d = (Inr (), t_dev s')
    \<and> s' = s\<lparr>t_dev := t_dev s', t_def_bridge_port_list := []\<rparr> \<and> sai_status sai (t_dev s') = SAI_STATUS_SUCCESS"
proof -
  obtain l t where l: "get_all_bridge_ports sai (t_default_1q_bridge s) s = (Inr l, t)"
    and r: "remove_all_bridge_ports sai (t\<lparr>t_def_bridge_port_list := l\<rparr>) = (Inr (), s')"
    using assms by (auto simp: reset_1q_bridge_ports_def bindP_eq_Inr thenP_eq_Inr)
  obtain d where t: "t = s\<lparr>t_dev := d\<rparr>" using get_all_frame [OF l] by blast
  have "s' = t\<lparr>t_dev := t_dev s', t_def_bridge_port_list := []\<rparr>" using remove_all_run [OF r] by simp
  then have "s' = s\<lparr>t_dev := t_dev s', t_def_bridge_port_list := []\<rparr>" unfolding t by simp
  with l t remove_all_run [OF r] show ?thesis by (intro exI [of _ l] exI [of _ d]) simp
qed

text \<open>Resetting the bridge ports, when it ends normally, removes from the device exactly
  the bridge ports the bridge reports, each of them once and in that order, leaves the list empty
  and the status a success, and changes nothing else.\<close>

theorem reset_removes_reported:
  assumes "reset_1q_bridge_ports sai s = (Inr (), s')"
  shows "\<exists>l d. get_all_bridge_ports sai (t_default_1q_bridge s) s = (Inr l, s\<lparr>t_dev := d\<rparr>)
    \<and> forP l (remove_bp sai) d = (Inr (), t_dev s')
    \<and> s' = s\<lparr>t_dev := t_dev s', t_def_bridge_port_list := []\<rparr> \<and> sai_status sai (t_dev s') = SAI_STATUS_SUCCESS"
  by (rule reset_facts [OF assms])

definition bridge_answers :: "string \<Rightarrow> sai_val \<Rightarrow> sai_args option" where
  "bridge_answers obj v = (if obj = ''bridge'' then Some [(''port_list'', VList [30, 31, 32])] else None)"

theorem reset_removes_reported_witness:
  "\<exists>s'. reset_1q_bridge_ports (demo_client bridge_answers) (demo_obj []) = (Inr (), s')
    \<and> t_def_bridge_port_list s' = []"
proof -
  let ?r = "reset_1q_bridge_ports (demo_client bridge_answers) (demo_obj [])"
  have "fst ?r = Inr ()"
    by (simp add: reset_1q_bridge_ports_def get_all_bridge_ports_def remove_all_bridge_ports_def py_res on_dev_def
        demo_client_def demo_obj_def bridge_answers_def remove_def_run assert_status_def attr_at_def od_get_def idlist_def Let_def)
  then obtain s' where s': "?r = (Inr (), s')" by (metis prod.collapse)
  from reset_removes_reported [OF this] have "t_def_bridge_port_list s' = []"
    by (metis test_obj.select_convs(6) test_obj.surjective test_obj.update_convs(6))
  with s' show ?thesis by blast
qed


section \<open>Turning ports up\<close>

text \<open>What the retries may change: the device, and the time slept, by a bounded amount.\<close>

definition slept_at_most :: "nat \<Rightarrow> 'd test_obj \<Rightarrow> 'd test_obj \<Rightarrow> bool" where
  "slept_at_most k s s' \<longleftrightarrow> t_slept s' \<le> t_slept s + k \<and> s' = s\<lparr>t_dev := t_dev s', t_slept := t_slept s'\<rparr>"

lemma slept_ports: "slept_at_most k s t \<Longrightarrow> t_ports t = t_ports s"
proof -
  assume "slept_at_most k s t"
  then have "t_ports t = t_ports (s\<lparr>t_dev := t_dev t, t_slept := t_slept t\<rparr>)"
    unfolding slept_at_most_def by (elim conjE) (rule arg_cong)
  then show ?thesis by simp
qed

lemma slept_refl: "slept_at_most k s s"
  by (simp add: slept_at_most_def)

lemma slept_dev: "slept_at_most k s (snd (on_dev m s))"
  by (simp add: slept_at_most_def on_dev_def split: prod.splits)

lemma slept_trans: "slept_at_most j s t \<Longrightarrow> slept_at_most k t u \<Longrightarrow> slept_at_most (j + k) s u"
proof -
  assume "slept_at_most j s t" "slept_at_most k t u"
  then obtain d n d' n' where "t = s\<lparr>t_dev := d, t_slept := n\<rparr>" "u = t\<lparr>t_dev := d', t_slept := n'\<rparr>"
    "n \<le> t_slept s + j" "n' \<le> n + k"
    unfolding slept_at_most_def by (metis test_obj.select_convs(11) test_obj.surjective test_obj.update_convs(11))
  then show ?thesis by (simp add: slept_at_most_def)
qed

lemma slept_weaken: "slept_at_most j s t \<Longrightarrow> j \<le> k \<Longrightarrow> slept_at_most k s t"
  by (simp add: slept_at_most_def)

lemma slept_bind:
  assumes "slept_at_most j s (snd (m s))" "\<And>x t. m s = (Inr x, t) \<Longrightarrow> slept_at_most k t (snd (f x t))"
  shows "slept_at_most (j + k) s (snd (bindP m f s))"
proof (cases "m s")
  case (Pair r t)
  show ?thesis
  proof (cases r)
    case (Inl e)
    with Pair assms(1) show ?thesis by (simp add: bindP_apply slept_weaken)
  next
    case (Inr x)
    with Pair assms slept_trans show ?thesis by (fastforce simp: bindP_apply)
  qed
qed

lemma slept_then:
  "slept_at_most j s (snd (m s)) \<Longrightarrow> (\<And>t. m s = (Inr (), t) \<Longrightarrow> slept_at_most k t (snd (n t))) \<Longrightarrow>
   slept_at_most (j + k) s (snd (thenP m n s))"
  unfolding thenP_def by (rule slept_bind) auto

lemma slept_lift: "slept_at_most k s (snd (liftP r s))" "slept_at_most k s (snd (retP x s))"
  by (simp_all add: slept_refl)

lemma slept_oper: "slept_at_most 0 s (snd (oper_status sai p s))"
proof -
  have "slept_at_most (0 + 0) s (snd (oper_status sai p s))"
    unfolding oper_status_def by (intro slept_bind slept_dev slept_lift)
  then show ?thesis by simp
qed

lemma slept_three: "slept_at_most 3 s (snd (modP (\<lambda>s. s\<lparr>t_slept := t_slept s + 3\<rparr>) s))"
  by (simp add: slept_at_most_def)

lemma slept_retry: "slept_at_most (3 * n) s (snd (retry_up sai p n s))"
proof (induction n arbitrary: s)
  case (Suc n)
  have "slept_at_most (0 + (0 + (3 * n))) t (snd (thenP (liftP (log_port_state p)) (thenP (admin_up sai p) (retry_up sai p n)) t))" for t :: "'a test_obj"
    by (intro slept_then slept_lift) (simp_all add: admin_up_def slept_dev Suc)
  then have 1: "slept_at_most (3 + 3 * n) t (snd (thenP (modP (\<lambda>s. s\<lparr>t_slept := t_slept s + 3\<rparr>))
      (thenP (liftP (log_port_state p)) (thenP (admin_up sai p) (retry_up sai p n))) t))" for t :: "'a test_obj"
    by (intro slept_then slept_three) simp
  have "slept_at_most (0 + (3 + 3 * n)) s (snd (retry_up sai p (Suc n) s))"
    unfolding retry_up.simps
  proof (rule slept_bind)
    show "slept_at_most 0 s (snd (oper_status sai p s))" by (rule slept_oper)
    fix st t
    show "slept_at_most (3 + 3 * n) t (snd ((if st = VInt SAI_PORT_OPER_STATUS_UP then retP True
      else thenP (modP (\<lambda>s. s\<lparr>t_slept := t_slept s + 3\<rparr>))
        (thenP (liftP (log_port_state p)) (thenP (admin_up sai p) (retry_up sai p n)))) t))"
      using 1 by (simp add: slept_refl)
  qed
  then show ?case by simp
qed (simp add: slept_refl)

lemma slept_wait: "slept_at_most 30 s (snd (wait_up sai p s))"
proof -
  have "slept_at_most (0 + 30) s (snd (wait_up sai p s))"
    unfolding wait_up_def
  proof (rule slept_bind)
    fix st t
    show "slept_at_most 30 t (snd ((if st \<noteq> VInt SAI_PORT_OPER_STATUS_UP then retry_up sai p 10 else retP True) t))"
      using slept_retry [of 10 t sai p] by (simp add: slept_refl)
  qed (rule slept_oper)
  then show ?thesis by simp
qed

lemma slept_forP:
  "(\<And>x t. x \<in> set xs \<Longrightarrow> slept_at_most k t (snd (f x t))) \<Longrightarrow> slept_at_most (k * length xs) s (snd (forP xs f s))"
proof (induction xs arbitrary: s)
  case (Cons x xs)
  have "slept_at_most (k + k * length xs) s (snd (thenP (f x) (forP xs f) s))"
    using Cons by (intro slept_then) auto
  then show ?case by simp
qed (simp add: slept_refl)

text \<open>The first pass: ports are only read, so which of them are turned up is known beforehand.\<close>

definition to_turn_up :: "port list \<Rightarrow> (nat \<times> nat) list \<Rightarrow> nat list" where
  "to_turn_up ps irs = map snd (filter (\<lambda>(i, r). \<not> skipped i (ps ! r)) irs)"

lemma turn_up_slept: "slept_at_most 0 s (snd (turn_up sai ir s))"
proof -
  obtain i r where ir: "ir = (i, r)" by fastforce
  have "slept_at_most (0 + 0) s (snd (bindP (liftP (config_of (t_ports s ! r))) (\<lambda>_. retP None :: ('a test_obj, nat option) py) s))"
    "slept_at_most (0 + 0) s (snd (thenP (admin_up sai (t_ports s ! r)) (retP (Some r)) s))"
    by (intro slept_bind slept_lift, intro slept_then slept_lift) (simp add: admin_up_def slept_dev)
  then show ?thesis by (simp add: ir turn_up_def bindP_apply [of "read_port r"] port_ops)
qed

lemma turn_up_result:
  "turn_up sai (i, r) s = (Inr v, t) \<Longrightarrow> v = (if skipped i (t_ports s ! r) then None else Some r) \<and> t_ports t = t_ports s"
  by (auto simp: turn_up_def bindP_eq_Inr thenP_eq_Inr port_ops admin_up_def split: if_splits dest!: on_dev_Inr)

lemma first_pass:
  "slept_at_most 0 s (snd (mapP irs (turn_up sai) s))
   \<and> (\<forall>l t. mapP irs (turn_up sai) s = (Inr l, t) \<longrightarrow> List.map_filter id l = to_turn_up (t_ports s) irs)"
proof (induction irs arbitrary: s)
  case Nil
  then show ?case by (simp add: slept_refl to_turn_up_def List.map_filter_def)
next
  case (Cons ir irs)
  obtain i r where ir: "ir = (i, r)" by fastforce
  have "slept_at_most (0 + (0 + 0)) s (snd (bindP (turn_up sai ir) (\<lambda>y. bindP (mapP irs (turn_up sai)) (\<lambda>ys. retP (y # ys))) s))"
    using Cons by (intro slept_bind slept_lift) (simp_all add: turn_up_slept)
  moreover have "List.map_filter id l = to_turn_up (t_ports s) (ir # irs)"
    if l: "mapP (ir # irs) (turn_up sai) s = (Inr l, u)" for l u
  proof -
    obtain v t zs where v: "turn_up sai ir s = (Inr v, t)" "mapP irs (turn_up sai) t = (Inr zs, u)" "l = v # zs"
      using l unfolding mapP_Inr_Cons by blast
    from turn_up_result [of sai i r s v t] v(1) Cons.IH [of t] v(2,3) show ?thesis
      by (auto simp: ir to_turn_up_def map_filter_Cons id_def)
  qed
  ultimately show ?case unfolding mapP.simps add_0 by blast
qed

lemma wait_body_slept:
  "slept_at_most 30 u (snd (bindP (read_port r) (\<lambda>p. bindP (wait_up sai p) (\<lambda>port_up. retP ())) u))"
proof -
  have "slept_at_most (30 + 0) u (snd (bindP (wait_up sai (t_ports u ! r)) (\<lambda>port_up. retP ()) u))"
    by (intro slept_bind slept_wait slept_lift)
  then show ?thesis by (simp add: bindP_apply [of "read_port r"] port_ops)
qed

lemma turn_up_facts:
  "t_slept (snd (turn_up_and_get_checked_ports sai refs s)) \<le> t_slept s + 30 * length refs
   \<and> t_ports (snd (turn_up_and_get_checked_ports sai refs s)) = t_ports s
   \<and> (case fst (turn_up_and_get_checked_ports sai refs s) of Inl e \<Rightarrow> True
      | Inr l \<Rightarrow> l = to_turn_up (t_ports s) (zip [0..<length refs] refs))"
proof -
  let ?irs = "zip [0..<length refs] refs"
  have len: "length (to_turn_up (t_ports s) ?irs) \<le> length refs"
    using length_filter_le [of "\<lambda>(i, r). \<not> skipped i (t_ports s ! r)" ?irs] by (simp add: to_turn_up_def)
  obtain q t where q: "mapP ?irs (turn_up sai) s = (q, t)" by fastforce
  show ?thesis
  proof (cases q)
    case (Inl e)
    with q first_pass [of s ?irs sai] slept_ports [of 0 s t] show ?thesis
      by (simp add: turn_up_and_get_checked_ports_def bindP_apply slept_at_most_def)
  next
    case (Inr l)
    let ?l = "to_turn_up (t_ports s) ?irs"
    let ?body = "\<lambda>r. bindP (read_port r) (\<lambda>p. bindP (wait_up sai p) (\<lambda>port_up. retP ()))"
    have t: "slept_at_most 0 s t" "List.map_filter id l = ?l"
      using first_pass [of s ?irs sai] q Inr by auto
    have f: "slept_at_most (30 * length ?l) t (snd (forP ?l ?body t))" by (intro slept_forP wait_body_slept)
    have u: "turn_up_and_get_checked_ports sai refs s = (case forP ?l ?body t of
        (Inl e, u) \<Rightarrow> (Inl e, u) | (Inr _, u) \<Rightarrow> (Inr ?l, u))"
      unfolding turn_up_and_get_checked_ports_def bindP_apply [of "mapP ?irs (turn_up sai)"] q Inr
        prod.case sum.case Let_def t(2) thenP_apply retP_def ..
    obtain z u where z: "forP ?l ?body t = (z, u)" by fastforce
    have "slept_at_most (0 + 30 * length ?l) s u" using slept_trans [OF t(1) f] z by simp
    then have "t_slept u \<le> t_slept s + 30 * length refs" "t_ports u = t_ports s"
      using len slept_ports by (auto simp: slept_at_most_def)
    then show ?thesis unfolding u z by (cases z) auto
  qed
qed

text \<open>C21 (termination). Whatever the device answers, turning up ports ends after at most ten retries of
  three seconds per port, with or without an exception, and changes no port; the ports it returns
  are the first one and those whose device index is set and not 0, in the order given.\<close>

theorem turn_up_bounded:
  "t_slept (snd (turn_up_and_get_checked_ports sai refs s)) \<le> t_slept s + 30 * length refs
   \<and> t_ports (snd (turn_up_and_get_checked_ports sai refs s)) = t_ports s
   \<and> (case fst (turn_up_and_get_checked_ports sai refs s) of Inl e \<Rightarrow> True
      | Inr l \<Rightarrow> l = to_turn_up (t_ports s) (zip [0..<length refs] refs))"
  by (rule turn_up_facts)


section \<open>Interfaces of the command line\<close>

definition bind_interface :: "int \<times> int \<times> string \<Rightarrow> port \<Rightarrow> port" where
  "bind_interface = (\<lambda>(device, port, eth) p. p\<lparr>p_dev_port_index := Some port, p_dev_port_eth := Some eth\<rparr>)"

lemma generate_loop_run:
  "mapP (zip [j..<j + length ifs] ifs) (\<lambda>(index, device, port, eth).
       bindP getP (\<lambda>s.
       bindP (liftP (py_index (t_active_port_obj_list s) (int index))) (\<lambda>r.
       thenP (write_port r (\<lambda>p. p\<lparr>p_dev_port_index := Some port, p_dev_port_eth := Some eth\<rparr>))
       (retP port)))) s = (Inr ls, s') \<Longrightarrow>
   (ifs = [] \<or> j + length ifs \<le> length (t_active_port_obj_list s)) \<and> ls = map (\<lambda>(d, p, e). p) ifs
   \<and> s' = s\<lparr>t_ports := ports.wr_all (zip (drop j (t_active_port_obj_list s)) (map bind_interface ifs)) (t_ports s)\<rparr>"
proof (induction ifs arbitrary: j s ls)
  case Nil
  then show ?case by simp
next
  case (Cons i ifs)
  obtain d p e where i: "i = (d, p, e)" by (cases i) auto
  have z: "zip [j..<j + length (i # ifs)] (i # ifs) = (j, i) # zip [Suc j..<Suc j + length ifs] ifs"
    by (simp add: upt_conv_Cons del: upt_Suc)
  let ?A = "t_active_port_obj_list s"
  from Cons.prems obtain t zs where j: "j < length ?A"
    and t: "t = s\<lparr>t_ports := put_port (?A ! j) (bind_interface i) (t_ports s)\<rparr>" "ls = p # zs"
    and r: "mapP (zip [Suc j..<Suc j + length ifs] ifs) (\<lambda>(index, device, port, eth).
       bindP getP (\<lambda>s.
       bindP (liftP (py_index (t_active_port_obj_list s) (int index))) (\<lambda>r.
       thenP (write_port r (\<lambda>p. p\<lparr>p_dev_port_index := Some port, p_dev_port_eth := Some eth\<rparr>))
       (retP port)))) t = (Inr zs, s')"
    unfolding z mapP_Inr_Cons
    by (auto simp: i bindP_eq_Inr thenP_eq_Inr port_ops py_index_nat bind_interface_def split: if_splits)
  have A: "t_active_port_obj_list t = ?A" by (simp add: t(1))
  have d: "drop j ?A = ?A ! j # drop (Suc j) ?A" using j by (simp add: Cons_nth_drop_Suc)
  from Cons.IH [OF r] show ?case using j by (auto simp: t A d i)
qed

lemma generate_run:
  assumes "generate_port_obj_list_by_interface_config s = (Inr ls, s')"
  shows "length (t_interfaces s) \<le> length (t_active_port_obj_list s) \<and> ls = map (\<lambda>(d, p, e). p) (t_interfaces s)
    \<and> s' = s\<lparr>t_ports := ports.wr_all (zip (t_active_port_obj_list s) (map bind_interface (t_interfaces s))) (t_ports s)\<rparr>"
  using generate_loop_run [of 0 "t_interfaces s" s ls s'] assms
  by (cases "t_interfaces s") (simp_all add: generate_port_obj_list_by_interface_config_def bindP_apply [of getP])

text \<open>An interface of the command line with port number 0 that is not the first one is
  treated as if it were not configured: its port gets the number, but is not turned up and not
  among the ports returned for testing.\<close>

theorem zero_port_not_turned_up:
  assumes "generate_port_obj_list_by_interface_config s = (Inr ls, s1)"
    and "0 < i" "i < length (t_interfaces s)" "t_interfaces s ! i = (d, 0, e)"
    and "distinct (t_active_port_obj_list s)" "\<forall>r \<in> set (t_active_port_obj_list s). r < length (t_ports s)"
    and "turn_up_and_get_checked_ports sai (t_active_port_obj_list s1) s1 = (Inr l, s2)"
  shows "p_dev_port_index (t_ports s1 ! (t_active_port_obj_list s ! i)) = Some 0
    \<and> t_active_port_obj_list s ! i \<notin> set l"
proof -
  let ?A = "t_active_port_obj_list s" and ?I = "t_interfaces s"
  have len: "length ?I \<le> length ?A"
    and s1: "s1 = s\<lparr>t_ports := ports.wr_all (zip ?A (map bind_interface ?I)) (t_ports s)\<rparr>"
    using generate_run [OF assms(1)] by auto
  have i: "i < length ?A" using len assms(3) by simp
  have "map fst (zip ?A (map bind_interface ?I)) = take (length ?I) ?A" using len by (simp add: map_fst_zip_take min_def)
  then have dist: "distinct (map fst (zip ?A (map bind_interface ?I)))" using assms(5) by simp
  have mem: "(?A ! i, bind_interface (?I ! i)) \<in> set (zip ?A (map bind_interface ?I))"
    using i assms(3) by (auto simp: set_zip)
  have val: "?A ! i < length (t_ports s)" using assms(6) i by simp
  have p: "t_ports s1 ! (?A ! i) = bind_interface (?I ! i) (t_ports s ! (?A ! i))"
    using ports.wr_all_once [OF dist mem val] by (simp add: s1)
  then have z: "p_dev_port_index (t_ports s1 ! (?A ! i)) = Some 0"
    using assms(4) by (simp add: bind_interface_def)
  have l: "l = to_turn_up (t_ports s1) (zip [0..<length ?A] ?A)"
    using turn_up_facts [of sai "t_active_port_obj_list s1" s1] assms(7) by (simp add: s1)
  have "?A ! i \<notin> set l"
  proof
    assume "?A ! i \<in> set l"
    then obtain k where "k < length ?A" "?A ! k = ?A ! i" "\<not> skipped k (t_ports s1 ! (?A ! k))"
      unfolding l to_turn_up_def by (auto simp: set_zip)
    moreover from this have "k = i" using assms(5) i nth_eq_iff_index_eq by blast
    ultimately show False using z assms(2) by (simp add: skipped_def)
  qed
  with z show ?thesis by simp
qed

definition named_port :: "int \<Rightarrow> port" where
  "named_port i = (demo_port i)\<lparr>p_config := Some PortConfig\<rparr>"

definition two_ports :: "demo_log test_obj" where
  "two_ports = (demo_obj [named_port 4, named_port 5])\<lparr>t_interfaces := [(0, 7, ''eth0''), (0, 0, ''eth1'')]\<rparr>"

definition up_answers :: "string \<Rightarrow> sai_val \<Rightarrow> sai_args option" where
  "up_answers obj v = Some [(''oper_status'', VInt 1)]"

theorem zero_port_not_turned_up_witness:
  "\<exists>s1. fst (generate_port_obj_list_by_interface_config two_ports) = Inr [7, 0]
    \<and> snd (generate_port_obj_list_by_interface_config two_ports) = s1
    \<and> p_dev_port_index (t_ports s1 ! 1) = Some 0
    \<and> fst (turn_up_and_get_checked_ports (demo_client up_answers) (t_active_port_obj_list s1) s1) = Inr [0]"
proof -
  let ?g = "generate_port_obj_list_by_interface_config two_ports"
  have g: "fst ?g = Inr [7, 0]"
    by (simp add: generate_port_obj_list_by_interface_config_def two_ports_def demo_obj_def py_res py_index_def
        py_position_def)
  then obtain s1 where s1: "?g = (Inr [7, 0], s1)" by (metis prod.collapse)
  have p: "s1 = two_ports\<lparr>t_ports := ports.wr_all (zip [0, 1] (map bind_interface [(0, 7, ''eth0''), (0, 0, ''eth1'')]))
      [named_port 4, named_port 5]\<rparr>"
    using generate_run [OF s1] by (simp add: two_ports_def demo_obj_def)
  let ?t = "turn_up_and_get_checked_ports (demo_client up_answers) (t_active_port_obj_list s1) s1"
  have f: "fst ?t = Inr [0]"
    by (simp add: p two_ports_def demo_obj_def put_port_def bind_interface_def turn_up_and_get_checked_ports_def
        turn_up_def wait_up_def oper_status_def admin_up_def skipped_def named_port_def demo_port_def Port_def config_of_def
        bindP_apply thenP_apply port_ops on_dev_def demo_client_def up_answers_def attr_at_def od_get_def
        SAI_PORT_OPER_STATUS_UP_def List.map_filter_def Let_def)
  show ?thesis
    using zero_port_not_turned_up [OF s1, of 1 0 "''eth1''" "demo_client up_answers" "[0]" "snd ?t"] f g s1
    by (simp add: two_ports_def demo_obj_def prod_eq_iff)
qed


section \<open>Configurations the ports rely on\<close>

lemma port_ids_frame: "snd (get_port_id_list refs s) = s \<and> (\<exists>l. fst (get_port_id_list refs s) = Inr l)"
  unfolding get_port_id_list_def by (induction refs) (auto simp: bindP_apply port_ops split: prod.splits sum.splits)

text \<open>The ports that come out of a list of configurations read from a configuration
  data base, whatever the document is, all have a configuration with a name and a speed: the
  operations that follow may read them.\<close>

theorem active_ports_usable:
  assumes "port_entries j = Inr (t_ports_config s)" "\<forall>r \<in> set refs. r < length (t_ports s)"
    and "get_lane_sorted_port_list refs s = (Inr ids, s')"
  shows "\<forall>r \<in> set (t_active_port_obj_list s'). \<exists>c. config_of (t_ports s' ! r) = Inr c \<and> pc_name c \<noteq> JNull \<and> pc_speed c \<noteq> None"
proof
  fix r assume r: "r \<in> set (t_active_port_obj_list s')"
  obtain l t where l: "sort_port_list_by_config (t_ports_config s) refs s = (Inr l, t)"
    and c: "\<forall>r \<in> set l. \<exists>c \<in> set (t_ports_config s). p_config (t_ports t ! r) = Some c"
    using sort_port_list_facts [OF assms(2), of "t_ports_config s"] by blast
  have "s' = t\<lparr>t_active_port_obj_list := l\<rparr>"
    using assms(3) l port_ids_frame [of l "t\<lparr>t_active_port_obj_list := l\<rparr>"]
    by (auto simp: get_lane_sorted_port_list_def bindP_eq_Inr thenP_eq_Inr)
  with r c obtain c where c: "c \<in> set (t_ports_config s)" "p_config (t_ports s' ! r) = Some c" by auto
  have "db_conf.usable ((t_ports s' ! r)\<lparr>p_config := Some c\<rparr>)"
    by (rule db_conf.bound_usable [OF assms(1) c(1)])
  then show "\<exists>c. config_of (t_ports s' ! r) = Inr c \<and> pc_name c \<noteq> JNull \<and> pc_speed c \<noteq> None"
    using c(2) by (auto simp: db_conf.usable_def config_of_def)
qed

definition usable_demo :: "demo_log test_obj" where
  "usable_demo = (demo_obj [(demo_port 4)\<lparr>p_default_lane_list := [65, 66]\<rparr>])\<lparr>t_ports_config := [sample_config]\<rparr>"

theorem active_ports_usable_witness:
  "\<exists>c. config_of (t_ports (snd (get_lane_sorted_port_list [0] usable_demo)) ! 0) = Inr c \<and> pc_name c \<noteq> JNull"
proof -
  let ?r = "get_lane_sorted_port_list [0] usable_demo"
  have f: "fst ?r = Inr [VInt 4]" "t_active_port_obj_list (snd ?r) = [0]"
    by (simp_all add: get_lane_sorted_port_list_def sort_port_list_run get_port_id_list_def py_res usable_demo_def
        demo_obj_def lanes_port_def config_writes_def map_filter_Cons List.map_filter_def sample_config_def
        demo_port_def Port_def data_item_def opt_oid_def put_port_def set_config_def)
  have p: "port_entries (config_db [sample_config]) = Inr (t_ports_config usable_demo)"
    by (simp add: sample_entries usable_demo_def)
  show ?thesis
    using active_ports_usable [OF p, of "[0]" "[VInt 4]" "snd ?r"] f by (auto simp: prod_eq_iff usable_demo_def demo_obj_def)
qed

text \<open>An entry of the configuration data base without a \<open>fec\<close>, which the reader takes for
  \<open>None\<close>, stops the set-up at its port with a \<open>KeyError\<close>: the table of modes has the text
  \<open>'None'\<close> for it.\<close>

theorem missing_fec_stops_set_up:
  assumes "port_entry (k, Inr (JObj e)) = Inr c" "map_of e ''fec'' = None"
    and "p_config (t_ports s ! r) = Some c"
  shows "set_port_attribute sai (r # rs) s = (Inl KeyError, s)"
proof -
  have "pc_fec c = JNull"
    using assms(1,2) by (auto simp: port_entry_def bindR_eq_Inr opt_field_def)
  with assms(3) show ?thesis
    by (simp add: set_port_attribute_def py_res config_of_def get_fec_mode_def)
qed

definition bare_config :: port_config where
  "bare_config = PortConfig\<lparr>pc_name := JStr ''Ethernet0'', pc_mtu := Some 0, pc_speed := Some 0\<rparr>"

theorem missing_fec_stops_set_up_witness:
  "set_port_attribute sai [0] (demo_obj [(demo_port 4)\<lparr>p_config := Some bare_config\<rparr>])
    = (Inl KeyError, demo_obj [(demo_port 4)\<lparr>p_config := Some bare_config\<rparr>])"
  by (rule missing_fec_stops_set_up [of "JStr ''Ethernet0''" "[]" bare_config])
    (simp_all add: port_entry_def bare_config_def PortConfig_def opt_int_def opt_lanes_def opt_field_def demo_obj_def)

section \<open>Host interfaces of the ports\<close>

definition bind_hostif :: "int option \<Rightarrow> port \<Rightarrow> port" where
  "bind_hostif h p = (case h of None \<Rightarrow> p | Some i \<Rightarrow> p\<lparr>p_host_itf_id := Some i\<rparr>)"

lemma create_hostif_run:
  "\<exists>d. catchP (bindP (create_hostif sai r) (\<lambda>h. retP (Some h))) (\<lambda>_. retP None) s
     = (Inr h, s\<lparr>t_dev := d, t_ports := put_port r (bind_hostif h) (t_ports s)\<rparr>)"
  if "fst (catchP (bindP (create_hostif sai r) (\<lambda>h. retP (Some h))) (\<lambda>_. retP None) s) = Inr h"
proof -
  have id: "put_port r (bind_hostif None) (t_ports s) = t_ports s" by (simp add: put_port_def bind_hostif_def)
  show ?thesis
  proof (cases "p_config (t_ports s ! r)")
    case None
    then have "h = None" using that
      by (simp add: create_hostif_def catchP_def bindP_apply port_ops config_of_def)
    with None id show ?thesis by (intro exI [of _ "t_dev s"])
        (simp add: create_hostif_def catchP_def bindP_apply port_ops config_of_def)
  next
    case (Some c)
    with that id show ?thesis
      by (auto simp: create_hostif_def catchP_def bindP_apply thenP_apply port_ops config_of_def on_dev_def
        bind_hostif_def put_port_def split: prod.splits sum.splits)
  qed
qed

lemma catch_none_total: "\<exists>h. fst (catchP (bindP m (\<lambda>h. retP (Some h))) (\<lambda>_. retP None) s) = Inr h"
  by (simp add: catchP_def split: prod.splits sum.splits)

lemma create_hostifs_run:
  "\<exists>l d. create_hostifs sai refs s
    = (Inr l, s\<lparr>t_dev := d, t_ports := ports.wr_all (zip refs (map bind_hostif l)) (t_ports s)\<rparr>) \<and> length l = length refs"
proof (induction refs arbitrary: s)
  case Nil
  show ?case by (auto simp: create_hostifs_def intro: exI [of _ "t_dev s"])
next
  case (Cons r refs)
  obtain h where h: "fst (catchP (bindP (create_hostif sai r) (\<lambda>h. retP (Some h))) (\<lambda>_. retP None) s) = Inr h"
    using catch_none_total [of "create_hostif sai r" s] by blast
  obtain d where d: "catchP (bindP (create_hostif sai r) (\<lambda>h. retP (Some h))) (\<lambda>_. retP None) s
     = (Inr h, s\<lparr>t_dev := d, t_ports := put_port r (bind_hostif h) (t_ports s)\<rparr>)"
    using create_hostif_run [OF h] by blast
  let ?t = "s\<lparr>t_dev := d, t_ports := put_port r (bind_hostif h) (t_ports s)\<rparr>"
  obtain l d' where l: "create_hostifs sai refs ?t = (Inr l, ?t\<lparr>t_dev := d',
      t_ports := ports.wr_all (zip refs (map bind_hostif l)) (t_ports ?t)\<rparr>)" "length l = length refs"
    using Cons.IH [of ?t] by blast
  have "create_hostifs sai (r # refs) s = (Inr (h # l), s\<lparr>t_dev := d',
      t_ports := ports.wr_all (zip (r # refs) (map bind_hostif (h # l))) (t_ports s)\<rparr>)"
    using l(1) unfolding create_hostifs_def mapP.simps bindP_def [of "catchP _ _"] d by (simp add: bindP_apply)
  with l(2) show ?case by (intro exI [of _ "h # l"] exI [of _ d']) simp
qed

text \<open>Creating the host interfaces never raises, whatever the client does and whether or
  not the ports have configurations: it returns one entry per port, and every port remembers the
  interface of its entry, or what it had if the entry is \<open>None\<close>.\<close>

theorem create_hostifs_total:
  assumes "distinct refs" "\<forall>r \<in> set refs. r < length (t_ports s)"
  shows "\<exists>l s'. create_hostifs sai refs s = (Inr l, s') \<and> length l = length refs
    \<and> (\<forall>i < length refs. t_ports s' ! (refs ! i) = bind_hostif (l ! i) (t_ports s ! (refs ! i)))"
proof -
  obtain l d where l: "create_hostifs sai refs s
      = (Inr l, s\<lparr>t_dev := d, t_ports := ports.wr_all (zip refs (map bind_hostif l)) (t_ports s)\<rparr>)" "length l = length refs"
    using create_hostifs_run [of sai refs s] by blast
  have f: "map fst (zip refs (map bind_hostif l)) = refs" using l(2) by simp
  have "ports.wr_all (zip refs (map bind_hostif l)) (t_ports s) ! (refs ! i) = bind_hostif (l ! i) (t_ports s ! (refs ! i))"
    if "i < length refs" for i
    by (rule ports.wr_all_once) (use that assms f l(2) in \<open>auto simp: set_zip\<close>)
  with l show ?thesis by (intro exI [of _ l]) simp
qed

theorem create_hostifs_total_witness:
  "\<exists>l s'. create_hostifs (demo_client (\<lambda>_ _. None)) [0, 1] (demo_obj [named_port 4, demo_port 5]) = (Inr l, s') \<and> length l = 2"
  using create_hostifs_total [of "[0, 1]" "demo_obj [named_port 4, demo_port 5]" "demo_client (\<lambda>_ _. None)"]
  by (auto simp: demo_obj_def)

end
