(* ===== verification/PtfHelpers.thy ===== *)
theory PtfHelpers
  imports PtfPorts
begin

text \<open>
  The platform helpers of the test framework, \<open>ptf/platform_helper\<close>: the common one, the ones of
  bfn and mlnx, and the ones of brcm and mrvl, which differ in the removal of the switch and in the
  set-up of the host interfaces. A helper is the test object of \<open>PtfPorts\<close> with fields of its own;
  the constructor of the base classes, which ends in the PTF package, is a parameter.
\<close>

section \<open>Accepted error codes\<close>

text \<open>The values are those of \<open>inc/saistatus.h\<close>, which negates its codes; \<open>range(a, b)\<close> is
  \<open>[a..b - 1]\<close>.\<close>

definition SAI_STATUS_NOT_IMPLEMENTED :: int where "SAI_STATUS_NOT_IMPLEMENTED = - 0xF"
definition SAI_STATUS_ATTR_NOT_IMPLEMENTED_0 :: int where "SAI_STATUS_ATTR_NOT_IMPLEMENTED_0 = - 0x30000"
definition SAI_STATUS_ATTR_NOT_IMPLEMENTED_MAX :: int where "SAI_STATUS_ATTR_NOT_IMPLEMENTED_MAX = - 0x3FFFF"
definition SAI_STATUS_UNKNOWN_ATTRIBUTE_0 :: int where "SAI_STATUS_UNKNOWN_ATTRIBUTE_0 = - 0x40000"
definition SAI_STATUS_UNKNOWN_ATTRIBUTE_MAX :: int where "SAI_STATUS_UNKNOWN_ATTRIBUTE_MAX = - 0x4FFFF"
definition SAI_STATUS_ATTR_NOT_SUPPORTED_0 :: int where "SAI_STATUS_ATTR_NOT_SUPPORTED_0 = - 0x50000"
definition SAI_STATUS_ATTR_NOT_SUPPORTED_MAX :: int where "SAI_STATUS_ATTR_NOT_SUPPORTED_MAX = - 0x5FFFF"

lemmas status_codes = SAI_STATUS_NOT_IMPLEMENTED_def SAI_STATUS_ATTR_NOT_IMPLEMENTED_0_def
  SAI_STATUS_ATTR_NOT_IMPLEMENTED_MAX_def SAI_STATUS_UNKNOWN_ATTRIBUTE_0_def
  SAI_STATUS_UNKNOWN_ATTRIBUTE_MAX_def SAI_STATUS_ATTR_NOT_SUPPORTED_0_def SAI_STATUS_ATTR_NOT_SUPPORTED_MAX_def

definition py_range :: "int \<Rightarrow> int \<Rightarrow> int list" where
  "py_range a b = [a..b - 1]"

definition ACCEPTED_ERROR_CODE :: "int list" where
  "ACCEPTED_ERROR_CODE = [SAI_STATUS_NOT_IMPLEMENTED]
     @ py_range SAI_STATUS_ATTR_NOT_IMPLEMENTED_MAX SAI_STATUS_ATTR_NOT_IMPLEMENTED_0
     @ py_range SAI_STATUS_UNKNOWN_ATTRIBUTE_MAX SAI_STATUS_UNKNOWN_ATTRIBUTE_0
     @ py_range SAI_STATUS_ATTR_NOT_SUPPORTED_MAX SAI_STATUS_ATTR_NOT_SUPPORTED_0"

definition set_accepted_exception :: "adapter \<Rightarrow> adapter" where
  "set_accepted_exception a = a\<lparr>ad_catch := True, ad_expected := ad_expected a @ ACCEPTED_ERROR_CODE\<rparr>"

section \<open>The helper\<close>

record 'd sai_helper =
  h_obj :: "'d test_obj"
  h_test_params :: "string list"
  h_config :: "string list"
  h_switch_id :: "int option"
  h_cpu_port_hdl :: sai_val
  h_cpu_port :: "sai_val option"
  h_default_trap_group :: sai_val
  h_port_list :: "sai_val list"
  h_port_obj_list :: "nat list"
  h_port_id_list :: "sai_val list"
  h_get_port_id_list :: "sai_val list option"
  h_host_intf_table_id :: "int option"
  h_hostif_list :: "int option list option"
  h_default_bridge_port_list :: "int list"
  h_host_if_port_idx_map :: "int list"
  h_host_if_name_list :: "string list"
  h_ini_ports :: "(string, (string, ini_value) odict) odict option"
  h_ports_config :: "(string, (string, ini_value) odict) odict option"

definition on_obj :: "('d test_obj, 'a) py \<Rightarrow> ('d sai_helper, 'a) py" where
  "on_obj m = (\<lambda>h. case m (h_obj h) of (r, s) \<Rightarrow> (r, h\<lparr>h_obj := s\<rparr>))"

text \<open>The configurer has been made, \<open>self.port_configer = PortConfiger(self)\<close>, when its operations
  are used; the fields it reads are those of the helper itself.\<close>

definition sleep :: "nat \<Rightarrow> ('d sai_helper, unit) py" where
  "sleep n = on_obj (modP (\<lambda>s. s\<lparr>t_slept := t_slept s + n\<rparr>))"

definition assert_equal :: "'a \<Rightarrow> 'a \<Rightarrow> ('d sai_helper, unit) py" where
  "assert_equal x y = liftP (if x = y then Inr () else Inl AssertionError)"

section \<open>The common helper, and bfn\<close>

record fdb_options =
  fo_type :: sai_val
  fo_packet_action :: sai_val
  fo_user_trap_id :: sai_val
  fo_bridge_port_id :: sai_val
  fo_meta_data :: sai_val
  fo_endpoint_ip :: sai_val
  fo_counter_id :: sai_val
  fo_allow_mac_move :: sai_val

definition create_fdb_entry :: "'d sai_client \<Rightarrow> sai_val \<Rightarrow> fdb_options \<Rightarrow> ('d sai_helper, unit) py" where
  "create_fdb_entry sai fdb_entry o1 =
     bindP (on_obj (on_dev (sai_create sai ''fdb_entry''
       [(''fdb_entry'', fdb_entry), (''type'', fo_type o1), (''packet_action'', fo_packet_action o1),
        (''user_trap_id'', fo_user_trap_id o1), (''bridge_port_id'', fo_bridge_port_id o1),
        (''meta_data'', fo_meta_data o1), (''endpoint_ip'', fo_endpoint_ip o1),
        (''counter_id'', fo_counter_id o1), (''allow_mac_move'', fo_allow_mac_move o1)]))) (\<lambda>_. retP ())"

definition common_create_fdb_entry_allow_mac_move ::
  "'d sai_client \<Rightarrow> sai_val \<Rightarrow> fdb_options \<Rightarrow> ('d sai_helper, unit) py" where
  "common_create_fdb_entry_allow_mac_move sai fdb_entry o1 = create_fdb_entry sai fdb_entry o1"

definition common_remove_bridge_port :: "'d sai_client \<Rightarrow> ('d sai_helper, unit) py" where
  "common_remove_bridge_port sai = bindP getP (\<lambda>h.
     on_obj (forP [0..<length (h_port_list h)] (\<lambda>index.
       bindP (get_attr (bp_attr index)) (\<lambda>port_bp.
       on_dev (sai_remove sai ''bridge_port'' port_bp)))))"

text \<open>\<open>createPorts\<close>, inherited from the base class: the ports there are go, and one is made for every
  entry of the port table. A read of an attribute that is no number would fail later, at its use.\<close>

definition fec_str_to_int :: "ini_value option \<Rightarrow> int res" where
  "fec_str_to_int fec = (case fec of
     Some (IText s) \<Rightarrow> Inr (if s = ''rs'' then SAI_PORT_FEC_MODE_RS
       else if s = ''fc'' then SAI_PORT_FEC_MODE_FC else SAI_PORT_FEC_MODE_NONE)
   | Some (ILanes _) \<Rightarrow> Inl TypeError
   | _ \<Rightarrow> Inr SAI_PORT_FEC_MODE_NONE)"

definition auto_neg_mode :: "ini_value option \<Rightarrow> bool res" where
  "auto_neg_mode v = (case v of None \<Rightarrow> Inr False
     | Some (IText s) \<Rightarrow> Inr (py_lower s = ''on'') | _ \<Rightarrow> Inl AttributeError)"

definition lane_list :: "ini_value \<Rightarrow> int list res" where
  "lane_list v = (case v of ILanes ls \<Rightarrow> Inr ls | _ \<Rightarrow> Inl TypeError)"

definition ini_val :: "ini_value \<Rightarrow> sai_val" where
  "ini_val v = (case v of IText s \<Rightarrow> VStr s | ILanes ls \<Rightarrow> VList ls | INumber i \<Rightarrow> VInt i)"

definition create_ini_port :: "'d sai_client \<Rightarrow> (string, ini_value) odict \<Rightarrow> ('d sai_helper, unit) py" where
  "create_ini_port sai port =
     bindP (liftP (fec_str_to_int (map_of port ''fec''))) (\<lambda>fec.
     bindP (liftP (auto_neg_mode (map_of port ''autoneg''))) (\<lambda>neg.
     bindP (liftP (bindR (od_get port ''lanes'') lane_list)) (\<lambda>lanes.
     bindP (liftP (od_get port ''speed'')) (\<lambda>speed.
     bindP (on_obj (on_dev (sai_create sai ''port''
       [(''hw_lane_list.count'', VInt (int (length lanes))), (''hw_lane_list'', VList lanes),
        (''fec_mode'', VInt fec), (''auto_neg_mode'', VBool neg), (''speed'', ini_val speed),
        (''admin_state'', VBool True)]))) (\<lambda>_. retP ())))))"

definition number_of :: "sai_val \<Rightarrow> int res" where
  "number_of v = (case v of VInt i \<Rightarrow> Inr i | _ \<Rightarrow> Inl TypeError)"

definition createPorts :: "'d sai_client \<Rightarrow> ('d sai_helper, unit) py" where
  "createPorts sai =
     bindP (on_obj (on_dev (sai_get sai ''switch'' VNone [(''number_of_active_ports'', VBool True)]))) (\<lambda>attr.
     bindP (liftP (bindR (attr_at attr ''number_of_active_ports'') number_of)) (\<lambda>n.
     thenP (on_obj (modP (\<lambda>s. s\<lparr>t_active_ports_no := n\<rparr>)))
     (bindP (on_obj (on_dev (sai_get sai ''switch'' VNone
       [(''port_list'', VList []), (''port_list.count'', VInt n)]))) (\<lambda>attr.
     thenP (if n \<noteq> 0 then bindP (liftP (bindR (attr_at attr ''port_list'') idlist)) (\<lambda>ids.
         thenP (modP (\<lambda>h. h\<lparr>h_port_list := map VInt ids\<rparr>))
         (forP ids (\<lambda>port. on_obj (on_dev (sai_remove sai ''port'' (VInt port)))))) else retP ())
     (thenP (modP (\<lambda>h. h\<lparr>h_ports_config := h_ini_ports h\<rparr>))
     (bindP getP (\<lambda>h. case h_ports_config h of None \<Rightarrow> raiseP AttributeError
       | Some d \<Rightarrow> forP d (\<lambda>(nm, port). create_ini_port sai port))))))))"

definition bfn_create_once :: "'d sai_client \<Rightarrow> ('d sai_helper, unit) py" where
  "bfn_create_once sai = bindP getP (\<lambda>h.
     if ''port_config_ini'' \<in> set (h_test_params h) then
       (if ''createPorts_has_been_called'' \<notin> set (h_config h)
        then thenP (createPorts sai)
          (modP (\<lambda>h. h\<lparr>h_config := h_config h @ [''createPorts_has_been_called'']\<rparr>))
        else retP ())
     else retP ())"

definition bfn_recreate_ports :: "'d sai_client \<Rightarrow> ('d sai_helper, unit) py" where
  "bfn_recreate_ports sai = thenP (bfn_create_once sai) (sleep 5)"

definition MlnxSaiHelper :: "('d sai_helper, unit) py \<Rightarrow> ('d sai_helper, unit) py" where
  "MlnxSaiHelper super_init = super_init"

section \<open>brcm and mrvl\<close>

definition BrcmSaiHelper :: "('d sai_helper, unit) py \<Rightarrow> ('d sai_helper, unit) py" where
  "BrcmSaiHelper super_init = thenP super_init (modP (\<lambda>h. h\<lparr>h_default_trap_group := VNone,
     h_host_intf_table_id := None, h_port_obj_list := [], h_port_id_list := [], h_hostif_list := None,
     h_default_bridge_port_list := [], h_host_if_port_idx_map := [], h_host_if_name_list := []\<rparr>))"

definition brcm_remove_switch :: "('d sai_helper, unit) py" where
  "brcm_remove_switch = retP ()"

definition mrvl_remove_switch :: "'d sai_client \<Rightarrow> ('d sai_helper, unit) py" where
  "mrvl_remove_switch sai = thenP (on_obj (on_dev (sai_remove sai ''switch'' VNone))) (sleep 5)"

definition brcm_create_fdb_entry_allow_mac_move ::
  "'d sai_client \<Rightarrow> sai_val \<Rightarrow> fdb_options \<Rightarrow> ('d sai_helper, unit) py" where
  "brcm_create_fdb_entry_allow_mac_move sai fdb_entry o1 =
     create_fdb_entry sai fdb_entry (o1\<lparr>fo_allow_mac_move := VBool True\<rparr>)"

definition ROUTER_MAC :: string where "ROUTER_MAC = ''00:77:66:55:44:00''"

definition helper_start_switch :: "'d sai_client \<Rightarrow> ('d sai_helper, unit) py" where
  "helper_start_switch sai =
     bindP (on_obj (on_dev (sai_create sai ''switch''
       [(''init_switch'', VBool True), (''src_mac_address'', VStr ROUTER_MAC),
        (''port_state_change_notify'', VNone), (''fdb_event_notify'', VNone),
        (''switch_shutdown_request_notify'', VNone), (''switch_state_change_notify'', VNone)]))) (\<lambda>id.
     thenP (modP (\<lambda>h. h\<lparr>h_switch_id := Some id\<rparr>))
     (thenP (on_obj (assert_status sai)) (sleep 5)))"

definition cpu_queue_attr :: "nat \<Rightarrow> string" where "cpu_queue_attr i = ''cpu_queue'' @ str_of_nat i"

definition check_cpu_queue :: "'d sai_client \<Rightarrow> int list res \<Rightarrow> nat \<Rightarrow> ('d sai_helper, unit) py" where
  "check_cpu_queue sai ids queue =
     bindP (liftP (bindR ids (\<lambda>l. py_index l (int queue)))) (\<lambda>queue_id.
     thenP (on_obj (set_attr (cpu_queue_attr queue) (VInt queue_id)))
     (bindP (on_obj (on_dev (sai_get sai ''queue'' (VInt queue_id)
       [(''port'', VBool True), (''index'', VBool True), (''parent_scheduler_node'', VBool True)]))) (\<lambda>q_attr.
     bindP (liftP (attr_at q_attr ''index'')) (\<lambda>i.
     thenP (assert_equal (VInt (int queue)) i)
     (bindP (liftP (attr_at q_attr ''port'')) (\<lambda>p.
     modP (\<lambda>h. h\<lparr>h_cpu_port := Some p\<rparr>)))))))"

text \<open>\<open>range(0, num_queues)\<close> of something that is not a number raises.\<close>

definition count_of :: "sai_val \<Rightarrow> nat res" where
  "count_of v = (case v of VInt i \<Rightarrow> Inr (nat i) | VBool b \<Rightarrow> Inr (if b then 1 else 0) | _ \<Rightarrow> Inl TypeError)"

definition check_cpu_port_hdl :: "'d sai_client \<Rightarrow> ('d sai_helper, unit) py" where
  "check_cpu_port_hdl sai = bindP getP (\<lambda>h.
     bindP (on_obj (on_dev (sai_get sai ''port'' (h_cpu_port_hdl h) [(''qos_number_of_queues'', VBool True)]))) (\<lambda>attr.
     bindP (liftP (attr_at attr ''qos_number_of_queues'')) (\<lambda>num_queues.
     bindP (on_obj (on_dev (sai_get sai ''port'' (h_cpu_port_hdl h)
       [(''qos_queue_list'', VNone), (''qos_queue_list.count'', num_queues)]))) (\<lambda>attr.
     bindP (liftP (count_of num_queues)) (\<lambda>n.
     forP [0..<n] (check_cpu_queue sai (bindR (attr_at attr ''qos_queue_list'') idlist)))))))"

text \<open>The part of \<open>config_port\<close> that the two helpers have in common, up to the host interfaces: it
  returns the default trap group.\<close>

definition config_port_ports :: "'d sai_client \<Rightarrow> ('d sai_helper, sai_val) py" where
  "config_port_ports sai =
     bindP (on_obj (get_port_default_lane sai)) (\<lambda>with_lane.
     bindP (on_obj (get_lane_sorted_port_list with_lane)) (\<lambda>ids.
     thenP (modP (\<lambda>h. h\<lparr>h_port_list := ids\<rparr>))
     (bindP (on_obj generate_port_obj_list_by_interface_config) (\<lambda>_.
     bindP (on_obj (on_dev (sai_get sai ''switch'' VNone [(''default_trap_group'', VBool True)]))) (\<lambda>attr.
     bindP (liftP (attr_at attr ''default_trap_group'')) (\<lambda>default_trap_group.
     bindP getP (\<lambda>h.
     thenP (on_obj (set_port_attribute sai (t_active_port_obj_list (h_obj h))))
     (bindP (on_obj (turn_up_and_get_checked_ports sai (t_active_port_obj_list (h_obj h)))) (\<lambda>objs.
     thenP (modP (\<lambda>h. h\<lparr>h_port_obj_list := objs\<rparr>))
     (bindP (on_obj (get_port_id_list objs)) (\<lambda>l.
     thenP (modP (\<lambda>h. h\<lparr>h_get_port_id_list := Some l\<rparr>))
     (bindP getP (\<lambda>h.
     thenP (on_obj (set_test_port_attr (h_port_list h)))
     (retP default_trap_group))))))))))))))"

definition config_port_bridge :: "'d sai_client \<Rightarrow> ('d sai_helper, unit) py" where
  "config_port_bridge sai =
     bindP (on_obj (get_default_1q_bridge sai)) (\<lambda>b.
     thenP (on_obj (modP (\<lambda>s. s\<lparr>t_default_1q_bridge := b\<rparr>)))
     (on_obj (reset_1q_bridge_ports sai)))"

definition brcm_config_port :: "'d sai_client \<Rightarrow> ('d sai_helper, unit) py" where
  "brcm_config_port sai =
     bindP (config_port_ports sai) (\<lambda>trap_group.
     bindP getP (\<lambda>h. let ports = t_active_port_obj_list (h_obj h) in
     bindP (if ''port_config_ini'' \<in> set (h_test_params h)
            then on_obj (create_port_hostif_by_port_config_ini sai ports trap_group)
            else on_obj (create_host_intf sai ports trap_group)) (\<lambda>(tbl, hostifs).
     thenP (modP (\<lambda>h. h\<lparr>h_host_intf_table_id := Some tbl, h_hostif_list := Some hostifs\<rparr>))
     (config_port_bridge sai))))"

definition mrvl_config_port :: "'d sai_client \<Rightarrow> ('d sai_helper, unit) py" where
  "mrvl_config_port sai =
     bindP (config_port_ports sai) (\<lambda>trap_group.
     bindP (on_obj (on_dev (sai_create sai ''hostif_table_entry''
       [(''type'', VInt SAI_HOSTIF_TABLE_ENTRY_TYPE_WILDCARD),
        (''channel_type'', VInt SAI_HOSTIF_TABLE_ENTRY_CHANNEL_TYPE_NETDEV_PHYSICAL_PORT)]))) (\<lambda>tbl.
     thenP (modP (\<lambda>h. h\<lparr>h_host_intf_table_id := Some tbl\<rparr>)) (config_port_bridge sai)))"

definition helper_recreate_ports :: "('d sai_helper, unit) py" where
  "helper_recreate_ports = retP ()"


section \<open>Which error codes are accepted\<close>

lemma py_range_set: "c \<in> set (py_range a b) \<longleftrightarrow> a \<le> c \<and> c < b"
  by (auto simp: py_range_def)

text \<open>The error codes accepted in addition are the general one and, of each of the three
  families of codes that name an attribute by its position, those of the positions from 1 to 65535:
  the code for the first attribute of a call, position 0, is not among them, because the end of a
  range is left out.\<close>

theorem accepted_codes:
  "c \<in> set (ad_expected (set_accepted_exception a)) \<longleftrightarrow>
   c \<in> set (ad_expected a) \<or> c = SAI_STATUS_NOT_IMPLEMENTED
   \<or> (\<exists>k. 1 \<le> k \<and> k \<le> 0xFFFF \<and> (c = SAI_STATUS_ATTR_NOT_IMPLEMENTED_0 - k
        \<or> c = SAI_STATUS_UNKNOWN_ATTRIBUTE_0 - k \<or> c = SAI_STATUS_ATTR_NOT_SUPPORTED_0 - k))"
proof -
  have r: "a - 0xFFFF \<le> c \<and> c < a \<longleftrightarrow> (\<exists>k. 1 \<le> k \<and> k \<le> 0xFFFF \<and> c = a - k)" for a :: int
    by (auto intro: exI [of _ "a - c"])
  have "set ACCEPTED_ERROR_CODE = {SAI_STATUS_NOT_IMPLEMENTED}
      \<union> {c. SAI_STATUS_ATTR_NOT_IMPLEMENTED_0 - 0xFFFF \<le> c \<and> c < SAI_STATUS_ATTR_NOT_IMPLEMENTED_0}
      \<union> {c. SAI_STATUS_UNKNOWN_ATTRIBUTE_0 - 0xFFFF \<le> c \<and> c < SAI_STATUS_UNKNOWN_ATTRIBUTE_0}
      \<union> {c. SAI_STATUS_ATTR_NOT_SUPPORTED_0 - 0xFFFF \<le> c \<and> c < SAI_STATUS_ATTR_NOT_SUPPORTED_0}"
    by (auto simp: ACCEPTED_ERROR_CODE_def py_range_set status_codes)
  then show ?thesis unfolding set_accepted_exception_def by (simp add: r) blast
qed

section \<open>Removing the bridge ports by their attributes\<close>

lemma on_obj_Inr: "on_obj m h = (Inr x, h') \<longleftrightarrow> (\<exists>s. m (h_obj h) = (Inr x, s) \<and> h' = h\<lparr>h_obj := s\<rparr>)"
  by (auto simp: on_obj_def split: prod.splits)

lemma remove_by_attr:
  assumes "\<forall>i < length bps. map_of (t_attrs s) (bp_attr (j + i)) = Some (VInt (bps ! i))"
  shows "forP [j..<j + length bps] (\<lambda>index. bindP (get_attr (bp_attr index)) (\<lambda>port_bp.
       on_dev (sai_remove sai ''bridge_port'' port_bp))) s = forP bps (\<lambda>bp. on_dev (remove_bp sai bp)) s"
  using assms
proof (induction bps arbitrary: j s)
  case (Cons bp bps)
  let ?f = "\<lambda>index. bindP (get_attr (bp_attr index)) (\<lambda>port_bp. on_dev (sai_remove sai ''bridge_port'' port_bp))"
  have z: "[j..<j + length (bp # bps)] = j # [Suc j..<Suc j + length bps]" by (simp add: upt_conv_Cons del: upt_Suc)
  have "map_of (t_attrs s) (bp_attr j) = Some (VInt bp)" using Cons.prems by (metis add.right_neutral length_greater_0_conv list.distinct(1) nth_Cons_0)
  then have f: "?f j s = on_dev (remove_bp sai bp) s" by (simp add: bindP_apply get_attr_def)
  obtain r t where t: "on_dev (remove_bp sai bp) s = (r, t)" by fastforce
  then have "t = s\<lparr>t_dev := t_dev t\<rparr>" using on_dev_frame [of "remove_bp sai bp" s] by simp
  then have a: "t_attrs t = t_attrs s" by (metis test_obj.select_convs(3) test_obj.surjective test_obj.update_convs(1))
  have "\<forall>i < length bps. map_of (t_attrs t) (bp_attr (Suc j + i)) = Some (VInt (bps ! i))"
    using Cons.prems unfolding a by force
  from Cons.IH [OF this] show ?case unfolding z forP.simps thenP_apply f t by (simp split: sum.splits)
qed simp

text \<open>The bridge ports that the port configurer creates are the ones the common helper
  removes: it removes them all, in the order of their creation, and does nothing else; the
  attributes by which it finds them are never missing.\<close>

theorem common_removes_created:
  assumes "create_bridge_ports sai b refs s = (Inr bps, s')"
    and "h_obj h = s'" "length (h_port_list h) = length bps"
  shows "common_remove_bridge_port sai h = on_obj (forP bps (\<lambda>bp. on_dev (remove_bp sai bp))) h"
proof -
  obtain d ps where s': "s' = s\<lparr>t_dev := d, t_ports := ps,
      t_attrs := put_attrs bp_attr (zip [0..<length bps] (map VInt bps)) (t_attrs s)\<rparr>"
    using create_bridge_ports_Inr(1) [OF assms(1)] by blast
  have "\<forall>i < length bps. map_of (t_attrs (h_obj h)) (bp_attr (0 + i)) = Some (VInt (bps ! i))"
    using put_attrs_nth [OF bp_attr_inj, of _ "map VInt bps" 0 "t_attrs s"] by (simp add: assms(2) s')
  from remove_by_attr [OF this] show ?thesis
    using assms(3) by (simp add: common_remove_bridge_port_def bindP_apply on_obj_def)
qed

definition demo_helper :: "demo_log test_obj \<Rightarrow> nat \<Rightarrow> demo_log sai_helper" where
  "demo_helper s n = \<lparr>h_obj = s, h_test_params = [''port_config_ini''], h_config = [], h_switch_id = None,
     h_cpu_port_hdl = VInt 1, h_cpu_port = None, h_default_trap_group = VNone, h_port_list = replicate n VNone,
     h_port_obj_list = [], h_port_id_list = [], h_get_port_id_list = None, h_host_intf_table_id = None,
     h_hostif_list = None, h_default_bridge_port_list = [], h_host_if_port_idx_map = [], h_host_if_name_list = [],
     h_ini_ports = Some [], h_ports_config = None\<rparr>"

theorem common_removes_created_witness:
  "\<exists>s'. fst (common_remove_bridge_port (demo_client (\<lambda>_ _. None)) (demo_helper s' 2)) = Inr ()
    \<and> t_dev (h_obj (snd (common_remove_bridge_port (demo_client (\<lambda>_ _. None)) (demo_helper s' 2))))
      = [(''bridge_port'', VBool True), (''bridge_port'', VBool True), (''bridge_port'', VInt 100), (''bridge_port'', VInt 101)]"
proof -
  let ?r = "create_bridge_ports (demo_client (\<lambda>_ _. None)) (VInt 9) [1, 0] (demo_obj [demo_port 4, demo_port 5])"
  have f: "fst ?r = Inr [100, 101]" "t_dev (snd ?r) = [(''bridge_port'', VBool True), (''bridge_port'', VBool True)]"
    by (simp_all add: create_bridge_ports_def create_bridge_port_def set_test_bridge_port_attr_def set_all_run
        py_res on_dev_def demo_client_def demo_obj_def)
  then obtain s' where s': "?r = (Inr [100, 101], s')" "t_dev s' = [(''bridge_port'', VBool True), (''bridge_port'', VBool True)]"
    by (metis prod.collapse)
  have e: "common_remove_bridge_port (demo_client (\<lambda>_ _. None)) (demo_helper s' 2)
      = on_obj (forP [100, 101] (\<lambda>bp. on_dev (remove_bp (demo_client (\<lambda>_ _. None)) bp))) (demo_helper s' 2)"
    by (rule common_removes_created [OF s'(1)]) (simp_all add: demo_helper_def)
  show ?thesis
    by (rule exI [of _ s'], unfold e) (simp add: demo_helper_def on_obj_def on_dev_def demo_client_def thenP_apply s'(2))
qed

section \<open>Creating the ports once\<close>

text \<open>After the ports of bfn have been recreated once, recreating them again only waits:
  the creation of the ports takes place at most once per run.\<close>

theorem bfn_recreates_once:
  assumes "bfn_recreate_ports sai h = (Inr (), h')"
  shows "bfn_recreate_ports sai' h' = sleep 5 h'"
proof -
  obtain t where t: "bfn_create_once sai h = (Inr (), t)" "sleep 5 t = (Inr (), h')"
    using assms by (auto simp: bfn_recreate_ports_def thenP_eq_Inr)
  have h': "h_config h' = h_config t" "h_test_params h' = h_test_params t"
    using t(2) by (auto simp: sleep_def on_obj_Inr)
  have "''port_config_ini'' \<notin> set (h_test_params t) \<or> ''createPorts_has_been_called'' \<in> set (h_config t)"
    using t(1) by (auto simp: bfn_create_once_def bindP_eq_Inr thenP_eq_Inr split: if_splits)
  then show ?thesis using h' by (auto simp: bfn_recreate_ports_def bfn_create_once_def thenP_apply bindP_apply)
qed

definition switch_answers :: "string \<Rightarrow> sai_val \<Rightarrow> sai_args option" where
  "switch_answers obj v = Some [(''number_of_active_ports'', VInt 0)]"

theorem bfn_recreates_once_witness:
  "\<exists>h'. bfn_recreate_ports (demo_client switch_answers) (demo_helper (demo_obj []) 0) = (Inr (), h')
    \<and> bfn_recreate_ports (demo_client switch_answers) h' = sleep 5 h'"
proof -
  let ?r = "bfn_recreate_ports (demo_client switch_answers) (demo_helper (demo_obj []) 0)"
  have "fst ?r = Inr ()"
    by (simp add: bfn_recreate_ports_def bfn_create_once_def createPorts_def demo_helper_def demo_obj_def demo_client_def
        switch_answers_def on_obj_def on_dev_def bindP_apply thenP_apply attr_at_def od_get_def number_of_def sleep_def)
  then obtain h' where "?r = (Inr (), h')" by (metis prod.collapse)
  with bfn_recreates_once [OF this] show ?thesis by blast
qed


section \<open>The set-up of the ports as a whole\<close>

lemma get_default_frame: "get_default_1q_bridge sai s = (Inr b, s') \<Longrightarrow> s' = s\<lparr>t_dev := t_dev s'\<rparr>"
  by (auto simp: get_default_1q_bridge_def bindP_eq_Inr dest!: on_dev_Inr)

lemma config_bridge_run:
  assumes "config_port_bridge sai h = (Inr (), h')"
  shows "\<exists>b d. h' = h\<lparr>h_obj := (h_obj h)\<lparr>t_dev := d, t_default_1q_bridge := b, t_def_bridge_port_list := []\<rparr>\<rparr>
    \<and> sai_status sai d = SAI_STATUS_SUCCESS"
proof -
  obtain b s t where b: "get_default_1q_bridge sai (h_obj h) = (Inr b, s)"
    and t: "reset_1q_bridge_ports sai (s\<lparr>t_default_1q_bridge := b\<rparr>) = (Inr (), t)" and h': "h' = h\<lparr>h_obj := t\<rparr>"
    using assms by (auto simp: config_port_bridge_def bindP_eq_Inr thenP_eq_Inr on_obj_Inr)
  obtain d where s: "s = (h_obj h)\<lparr>t_dev := d\<rparr>" using get_default_frame [OF b] by blast
  obtain d' where "t = s\<lparr>t_default_1q_bridge := b, t_dev := d', t_def_bridge_port_list := []\<rparr>"
    "sai_status sai d' = SAI_STATUS_SUCCESS"
    using reset_facts [OF t] by blast
  then show ?thesis by (intro exI [of _ b] exI [of _ d']) (simp add: h' s)
qed

lemma hostif_table_Inr: "hostif_table sai g s = (Inr x, s') \<Longrightarrow> s' = s\<lparr>t_dev := t_dev s'\<rparr>"
  by (auto simp: hostif_table_def bindP_eq_Inr dest!: on_dev_Inr)

lemma create_host_intf_run:
  assumes "create_host_intf sai refs g s = (Inr (tbl, l), s') \<or> create_port_hostif_by_port_config_ini sai refs g s = (Inr (tbl, l), s')"
  shows "length l = length refs \<and> t_active_port_obj_list s' = t_active_port_obj_list s"
proof -
  obtain t where t: "hostif_table sai g s = (Inr tbl, t)" "create_hostifs sai refs t = (Inr l, s')"
    using assms by (auto simp: create_host_intf_def create_port_hostif_by_port_config_ini_def bindP_eq_Inr)
  obtain d where "t = s\<lparr>t_dev := d\<rparr>" using hostif_table_Inr [OF t(1)] by blast
  with t(2) create_hostifs_run [of sai refs t] show ?thesis by auto
qed


text \<open>The set-up of the ports of mrvl makes the host table but no host interfaces: the list of
  host interfaces is what it was before.\<close>

lemma config_ports_frame:
  "config_port_ports sai h = (Inr g, h') \<Longrightarrow> h_hostif_list h' = h_hostif_list h"
  by (auto simp: config_port_ports_def bindP_eq_Inr thenP_eq_Inr on_obj_Inr)

theorem mrvl_has_no_hostifs:
  assumes "mrvl_config_port sai h = (Inr (), h')"
  shows "h_hostif_list h' = h_hostif_list h \<and> h_host_intf_table_id h' \<noteq> None"
proof -
  obtain g h1 where "config_port_ports sai h = (Inr g, h1)" using assms by (auto simp: mrvl_config_port_def bindP_eq_Inr)
  from config_ports_frame [OF this] show ?thesis
    using assms \<open>config_port_ports sai h = (Inr g, h1)\<close>
    by (auto simp: mrvl_config_port_def bindP_eq_Inr thenP_eq_Inr on_obj_Inr dest!: config_bridge_run)
qed

text \<open>A device with one port, for which the set-up ends normally.\<close>

definition device_answers :: "string \<Rightarrow> sai_val \<Rightarrow> sai_args option" where
  "device_answers obj v = Some [(''port_list'', VList (if obj = ''bridge'' then [] else [4])), (''hw_lane_list'', VList [65, 66]),
     (''default_trap_group'', VInt 3), (''oper_status'', VInt 1), (''default_1q_bridge_id'', VInt 9)]"

definition device_helper :: "demo_log sai_helper" where
  "device_helper = demo_helper ((demo_obj [])\<lparr>t_ports_config := [sample_config]\<rparr>) 0"

lemmas set_up_defs = config_port_ports_def get_port_default_lane_def port_with_lane_def
  get_lane_sorted_port_list_def sort_port_list_run get_port_id_list_def
  generate_port_obj_list_by_interface_config_def set_port_attribute_def turn_up_and_get_checked_ports_def
  turn_up_def wait_up_def oper_status_def admin_up_def config_of_def get_fec_mode_def set_test_port_attr_def

lemmas device_eval = device_helper_def demo_helper_def demo_obj_def demo_client_def device_answers_def set_up_defs
  on_obj_def on_dev_def bindP_apply thenP_apply port_ops attr_at_def od_get_def idlist_def lanes_port_def
  config_writes_def map_filter_Cons List.map_filter_def sample_config_def Port_def data_item_def opt_oid_def
  put_port_def set_config_def py_index_def py_position_def skipped_def set_all_run SAI_PORT_OPER_STATUS_UP_def
  config_port_bridge_def get_default_1q_bridge_def reset_1q_bridge_ports_def get_all_bridge_ports_def
  remove_all_bridge_ports_def assert_status_def Let_def


theorem mrvl_has_no_hostifs_witness:
  "\<exists>h'. mrvl_config_port (demo_client device_answers) device_helper = (Inr (), h') \<and> h_hostif_list h' = None"
proof -
  let ?r = "mrvl_config_port (demo_client device_answers) device_helper"
  have "fst ?r = Inr ()"
    by (simp add: mrvl_config_port_def device_eval)
  then obtain h' where h': "?r = (Inr (), h')" by (metis prod.collapse)
  from mrvl_has_no_hostifs [OF this] h' show ?thesis by (auto simp: device_helper_def demo_helper_def)
qed

end
