(* ===== verification/PtfConstants.thy ===== *)
theory PtfConstants
  imports Main
begin

text \<open>
  Constants of the SAI headers as the adapter has them (\<open>sai_headers.py\<close>), those the tests use.
\<close>

definition SAI_ACL_ACTION_TYPE_MIRROR_EGRESS :: int where "SAI_ACL_ACTION_TYPE_MIRROR_EGRESS = 7"
definition SAI_ACL_ACTION_TYPE_MIRROR_INGRESS :: int where "SAI_ACL_ACTION_TYPE_MIRROR_INGRESS = 6"
definition SAI_ACL_ACTION_TYPE_NO_NAT :: int where "SAI_ACL_ACTION_TYPE_NO_NAT = 38"
definition SAI_ACL_ACTION_TYPE_PACKET_ACTION :: int where "SAI_ACL_ACTION_TYPE_PACKET_ACTION = 3"
definition SAI_ACL_ACTION_TYPE_REDIRECT :: int where "SAI_ACL_ACTION_TYPE_REDIRECT = 0"
definition SAI_ACL_ACTION_TYPE_SET_POLICER :: int where "SAI_ACL_ACTION_TYPE_SET_POLICER = 8"
definition SAI_ACL_BIND_POINT_TYPE_LAG :: int where "SAI_ACL_BIND_POINT_TYPE_LAG = 1"
definition SAI_ACL_BIND_POINT_TYPE_PORT :: int where "SAI_ACL_BIND_POINT_TYPE_PORT = 0"
definition SAI_ACL_BIND_POINT_TYPE_ROUTER_INTERFACE :: int where "SAI_ACL_BIND_POINT_TYPE_ROUTER_INTERFACE = 3"
definition SAI_ACL_BIND_POINT_TYPE_ROUTER_INTF :: int where "SAI_ACL_BIND_POINT_TYPE_ROUTER_INTF = 3"
definition SAI_ACL_BIND_POINT_TYPE_SWITCH :: int where "SAI_ACL_BIND_POINT_TYPE_SWITCH = 4"
definition SAI_ACL_BIND_POINT_TYPE_VLAN :: int where "SAI_ACL_BIND_POINT_TYPE_VLAN = 2"
definition SAI_ACL_ENTRY_ATTR_ACTION_REDIRECT :: int where "SAI_ACL_ENTRY_ATTR_ACTION_REDIRECT = 8192"
definition SAI_ACL_RANGE_TYPE_L4_DST_PORT_RANGE :: int where "SAI_ACL_RANGE_TYPE_L4_DST_PORT_RANGE = 1"
definition SAI_ACL_STAGE_EGRESS :: int where "SAI_ACL_STAGE_EGRESS = 1"
definition SAI_ACL_STAGE_INGRESS :: int where "SAI_ACL_STAGE_INGRESS = 0"
definition SAI_ACL_STAGE_PRE_INGRESS :: int where "SAI_ACL_STAGE_PRE_INGRESS = 4"
definition SAI_ACL_TABLE_GROUP_TYPE_PARALLEL :: int where "SAI_ACL_TABLE_GROUP_TYPE_PARALLEL = 1"
definition SAI_BRIDGE_PORT_FDB_LEARNING_MODE_DISABLE :: int where "SAI_BRIDGE_PORT_FDB_LEARNING_MODE_DISABLE = 1"
definition SAI_BRIDGE_PORT_FDB_LEARNING_MODE_HW :: int where "SAI_BRIDGE_PORT_FDB_LEARNING_MODE_HW = 2"
definition SAI_BRIDGE_PORT_TYPE_TUNNEL :: int where "SAI_BRIDGE_PORT_TYPE_TUNNEL = 4"
definition SAI_BUFFER_POOL_THRESHOLD_MODE_DYNAMIC :: int where "SAI_BUFFER_POOL_THRESHOLD_MODE_DYNAMIC = 1"
definition SAI_BUFFER_POOL_TYPE_EGRESS :: int where "SAI_BUFFER_POOL_TYPE_EGRESS = 1"
definition SAI_BUFFER_POOL_TYPE_INGRESS :: int where "SAI_BUFFER_POOL_TYPE_INGRESS = 0"
definition SAI_BUFFER_PROFILE_THRESHOLD_MODE_DYNAMIC :: int where "SAI_BUFFER_PROFILE_THRESHOLD_MODE_DYNAMIC = 1"
definition SAI_BUFFER_PROFILE_THRESHOLD_MODE_STATIC :: int where "SAI_BUFFER_PROFILE_THRESHOLD_MODE_STATIC = 0"
definition SAI_DEBUG_COUNTER_TYPE_PORT_IN_DROP_REASONS :: int where "SAI_DEBUG_COUNTER_TYPE_PORT_IN_DROP_REASONS = 0"
definition SAI_DEBUG_COUNTER_TYPE_PORT_OUT_DROP_REASONS :: int where "SAI_DEBUG_COUNTER_TYPE_PORT_OUT_DROP_REASONS = 1"
definition SAI_DEBUG_COUNTER_TYPE_SWITCH_IN_DROP_REASONS :: int where "SAI_DEBUG_COUNTER_TYPE_SWITCH_IN_DROP_REASONS = 2"
definition SAI_DEBUG_COUNTER_TYPE_SWITCH_OUT_DROP_REASONS :: int where "SAI_DEBUG_COUNTER_TYPE_SWITCH_OUT_DROP_REASONS = 3"
definition SAI_ERSPAN_ENCAPSULATION_TYPE_MIRROR_L3_GRE_TUNNEL :: int where "SAI_ERSPAN_ENCAPSULATION_TYPE_MIRROR_L3_GRE_TUNNEL = 0"
definition SAI_FDB_ENTRY_TYPE_DYNAMIC :: int where "SAI_FDB_ENTRY_TYPE_DYNAMIC = 0"
definition SAI_FDB_ENTRY_TYPE_STATIC :: int where "SAI_FDB_ENTRY_TYPE_STATIC = 1"
definition SAI_FDB_FLUSH_ENTRY_TYPE_ALL :: int where "SAI_FDB_FLUSH_ENTRY_TYPE_ALL = 2"
definition SAI_FDB_FLUSH_ENTRY_TYPE_DYNAMIC :: int where "SAI_FDB_FLUSH_ENTRY_TYPE_DYNAMIC = 0"
definition SAI_FDB_FLUSH_ENTRY_TYPE_STATIC :: int where "SAI_FDB_FLUSH_ENTRY_TYPE_STATIC = 1"
definition SAI_HOSTIF_TABLE_ENTRY_CHANNEL_TYPE_CB :: int where "SAI_HOSTIF_TABLE_ENTRY_CHANNEL_TYPE_CB = 0"
definition SAI_HOSTIF_TABLE_ENTRY_TYPE_TRAP_ID :: int where "SAI_HOSTIF_TABLE_ENTRY_TYPE_TRAP_ID = 3"
definition SAI_HOSTIF_TRAP_TYPE_ARP_REQUEST :: int where "SAI_HOSTIF_TRAP_TYPE_ARP_REQUEST = 8192"
definition SAI_HOSTIF_TRAP_TYPE_ARP_RESPONSE :: int where "SAI_HOSTIF_TRAP_TYPE_ARP_RESPONSE = 8193"
definition SAI_HOSTIF_TRAP_TYPE_BFD :: int where "SAI_HOSTIF_TRAP_TYPE_BFD = 16389"
definition SAI_HOSTIF_TRAP_TYPE_BFDV6 :: int where "SAI_HOSTIF_TRAP_TYPE_BFDV6 = 16390"
definition SAI_HOSTIF_TRAP_TYPE_BGP :: int where "SAI_HOSTIF_TRAP_TYPE_BGP = 16387"
definition SAI_HOSTIF_TRAP_TYPE_BGPV6 :: int where "SAI_HOSTIF_TRAP_TYPE_BGPV6 = 16388"
definition SAI_HOSTIF_TRAP_TYPE_DHCP :: int where "SAI_HOSTIF_TRAP_TYPE_DHCP = 8194"
definition SAI_HOSTIF_TRAP_TYPE_DHCPV6 :: int where "SAI_HOSTIF_TRAP_TYPE_DHCPV6 = 8198"
definition SAI_HOSTIF_TRAP_TYPE_DHCPV6_L2 :: int where "SAI_HOSTIF_TRAP_TYPE_DHCPV6_L2 = 19"
definition SAI_HOSTIF_TRAP_TYPE_DHCP_L2 :: int where "SAI_HOSTIF_TRAP_TYPE_DHCP_L2 = 18"
definition SAI_HOSTIF_TRAP_TYPE_DNAT_MISS :: int where "SAI_HOSTIF_TRAP_TYPE_DNAT_MISS = 8208"
definition SAI_HOSTIF_TRAP_TYPE_EAPOL :: int where "SAI_HOSTIF_TRAP_TYPE_EAPOL = 2"
definition SAI_HOSTIF_TRAP_TYPE_IGMP_TYPE_LEAVE :: int where "SAI_HOSTIF_TRAP_TYPE_IGMP_TYPE_LEAVE = 6"
definition SAI_HOSTIF_TRAP_TYPE_IGMP_TYPE_QUERY :: int where "SAI_HOSTIF_TRAP_TYPE_IGMP_TYPE_QUERY = 5"
definition SAI_HOSTIF_TRAP_TYPE_IGMP_TYPE_V1_REPORT :: int where "SAI_HOSTIF_TRAP_TYPE_IGMP_TYPE_V1_REPORT = 7"
definition SAI_HOSTIF_TRAP_TYPE_IGMP_TYPE_V2_REPORT :: int where "SAI_HOSTIF_TRAP_TYPE_IGMP_TYPE_V2_REPORT = 8"
definition SAI_HOSTIF_TRAP_TYPE_IGMP_TYPE_V3_REPORT :: int where "SAI_HOSTIF_TRAP_TYPE_IGMP_TYPE_V3_REPORT = 9"
definition SAI_HOSTIF_TRAP_TYPE_IP2ME :: int where "SAI_HOSTIF_TRAP_TYPE_IP2ME = 16384"
definition SAI_HOSTIF_TRAP_TYPE_IPV6_MLD_V1_DONE :: int where "SAI_HOSTIF_TRAP_TYPE_IPV6_MLD_V1_DONE = 8204"
definition SAI_HOSTIF_TRAP_TYPE_IPV6_MLD_V1_REPORT :: int where "SAI_HOSTIF_TRAP_TYPE_IPV6_MLD_V1_REPORT = 8203"
definition SAI_HOSTIF_TRAP_TYPE_IPV6_MLD_V1_V2 :: int where "SAI_HOSTIF_TRAP_TYPE_IPV6_MLD_V1_V2 = 8202"
definition SAI_HOSTIF_TRAP_TYPE_IPV6_NEIGHBOR_DISCOVERY :: int where "SAI_HOSTIF_TRAP_TYPE_IPV6_NEIGHBOR_DISCOVERY = 8201"
definition SAI_HOSTIF_TRAP_TYPE_ISIS :: int where "SAI_HOSTIF_TRAP_TYPE_ISIS = 8212"
definition SAI_HOSTIF_TRAP_TYPE_L3_MTU_ERROR :: int where "SAI_HOSTIF_TRAP_TYPE_L3_MTU_ERROR = 24576"
definition SAI_HOSTIF_TRAP_TYPE_LACP :: int where "SAI_HOSTIF_TRAP_TYPE_LACP = 1"
definition SAI_HOSTIF_TRAP_TYPE_LLDP :: int where "SAI_HOSTIF_TRAP_TYPE_LLDP = 3"
definition SAI_HOSTIF_TRAP_TYPE_MLD_V2_REPORT :: int where "SAI_HOSTIF_TRAP_TYPE_MLD_V2_REPORT = 8205"
definition SAI_HOSTIF_TRAP_TYPE_MPLS_ROUTER_ALERT_LABEL :: int where "SAI_HOSTIF_TRAP_TYPE_MPLS_ROUTER_ALERT_LABEL = 32769"
definition SAI_HOSTIF_TRAP_TYPE_MPLS_TTL_ERROR :: int where "SAI_HOSTIF_TRAP_TYPE_MPLS_TTL_ERROR = 32768"
definition SAI_HOSTIF_TRAP_TYPE_OSPF :: int where "SAI_HOSTIF_TRAP_TYPE_OSPF = 8195"
definition SAI_HOSTIF_TRAP_TYPE_PIM :: int where "SAI_HOSTIF_TRAP_TYPE_PIM = 8196"
definition SAI_HOSTIF_TRAP_TYPE_PTP :: int where "SAI_HOSTIF_TRAP_TYPE_PTP = 16"
definition SAI_HOSTIF_TRAP_TYPE_PVRST :: int where "SAI_HOSTIF_TRAP_TYPE_PVRST = 4"
definition SAI_HOSTIF_TRAP_TYPE_SNAT_MISS :: int where "SAI_HOSTIF_TRAP_TYPE_SNAT_MISS = 8207"
definition SAI_HOSTIF_TRAP_TYPE_STP :: int where "SAI_HOSTIF_TRAP_TYPE_STP = 0"
definition SAI_HOSTIF_TRAP_TYPE_UDLD :: int where "SAI_HOSTIF_TRAP_TYPE_UDLD = 11"
definition SAI_HOSTIF_TRAP_TYPE_VRRP :: int where "SAI_HOSTIF_TRAP_TYPE_VRRP = 8197"
definition SAI_HOSTIF_TRAP_TYPE_VRRPV6 :: int where "SAI_HOSTIF_TRAP_TYPE_VRRPV6 = 8200"
definition SAI_HOSTIF_TYPE_GENETLINK :: int where "SAI_HOSTIF_TYPE_GENETLINK = 2"
definition SAI_HOSTIF_USER_DEFINED_TRAP_TYPE_ACL :: int where "SAI_HOSTIF_USER_DEFINED_TRAP_TYPE_ACL = 2"
definition SAI_HOSTIF_USER_DEFINED_TRAP_TYPE_NEIGHBOR :: int where "SAI_HOSTIF_USER_DEFINED_TRAP_TYPE_NEIGHBOR = 1"
definition SAI_HOSTIF_VLAN_TAG_KEEP :: int where "SAI_HOSTIF_VLAN_TAG_KEEP = 1"
definition SAI_HOSTIF_VLAN_TAG_ORIGINAL :: int where "SAI_HOSTIF_VLAN_TAG_ORIGINAL = 2"
definition SAI_HOSTIF_VLAN_TAG_STRIP :: int where "SAI_HOSTIF_VLAN_TAG_STRIP = 0"
definition SAI_INSEG_ENTRY_POP_TTL_MODE_PIPE :: int where "SAI_INSEG_ENTRY_POP_TTL_MODE_PIPE = 1"
definition SAI_INSEG_ENTRY_POP_TTL_MODE_UNIFORM :: int where "SAI_INSEG_ENTRY_POP_TTL_MODE_UNIFORM = 0"
definition SAI_IN_DROP_REASON_ACL_ANY :: int where "SAI_IN_DROP_REASON_ACL_ANY = 41"
definition SAI_IN_DROP_REASON_ACL_EGRESS_LAG :: int where "SAI_IN_DROP_REASON_ACL_EGRESS_LAG = 48"
definition SAI_IN_DROP_REASON_ACL_EGRESS_PORT :: int where "SAI_IN_DROP_REASON_ACL_EGRESS_PORT = 47"
definition SAI_IN_DROP_REASON_ACL_EGRESS_RIF :: int where "SAI_IN_DROP_REASON_ACL_EGRESS_RIF = 50"
definition SAI_IN_DROP_REASON_ACL_EGRESS_SWITCH :: int where "SAI_IN_DROP_REASON_ACL_EGRESS_SWITCH = 51"
definition SAI_IN_DROP_REASON_ACL_EGRESS_VLAN :: int where "SAI_IN_DROP_REASON_ACL_EGRESS_VLAN = 49"
definition SAI_IN_DROP_REASON_ACL_INGRESS_LAG :: int where "SAI_IN_DROP_REASON_ACL_INGRESS_LAG = 43"
definition SAI_IN_DROP_REASON_ACL_INGRESS_PORT :: int where "SAI_IN_DROP_REASON_ACL_INGRESS_PORT = 42"
definition SAI_IN_DROP_REASON_ACL_INGRESS_RIF :: int where "SAI_IN_DROP_REASON_ACL_INGRESS_RIF = 45"
definition SAI_IN_DROP_REASON_ACL_INGRESS_SWITCH :: int where "SAI_IN_DROP_REASON_ACL_INGRESS_SWITCH = 46"
definition SAI_IN_DROP_REASON_ACL_INGRESS_VLAN :: int where "SAI_IN_DROP_REASON_ACL_INGRESS_VLAN = 44"
definition SAI_IN_DROP_REASON_BLACKHOLE_ARP :: int where "SAI_IN_DROP_REASON_BLACKHOLE_ARP = 37"
definition SAI_IN_DROP_REASON_BLACKHOLE_ROUTE :: int where "SAI_IN_DROP_REASON_BLACKHOLE_ROUTE = 36"
definition SAI_IN_DROP_REASON_DECAP_ERROR :: int where "SAI_IN_DROP_REASON_DECAP_ERROR = 40"
definition SAI_IN_DROP_REASON_DIP_LINK_LOCAL :: int where "SAI_IN_DROP_REASON_DIP_LINK_LOCAL = 28"
definition SAI_IN_DROP_REASON_DIP_LOCAL :: int where "SAI_IN_DROP_REASON_DIP_LOCAL = 27"
definition SAI_IN_DROP_REASON_DIP_LOOPBACK :: int where "SAI_IN_DROP_REASON_DIP_LOOPBACK = 19"
definition SAI_IN_DROP_REASON_DMAC_RESERVED :: int where "SAI_IN_DROP_REASON_DMAC_RESERVED = 3"
definition SAI_IN_DROP_REASON_ERIF_DISABLED :: int where "SAI_IN_DROP_REASON_ERIF_DISABLED = 33"
definition SAI_IN_DROP_REASON_EXCEEDS_L2_MTU :: int where "SAI_IN_DROP_REASON_EXCEEDS_L2_MTU = 10"
definition SAI_IN_DROP_REASON_EXCEEDS_L3_MTU :: int where "SAI_IN_DROP_REASON_EXCEEDS_L3_MTU = 12"
definition SAI_IN_DROP_REASON_FDB_AND_BLACKHOLE_DISCARDS :: int where "SAI_IN_DROP_REASON_FDB_AND_BLACKHOLE_DISCARDS = 52"
definition SAI_IN_DROP_REASON_FDB_MC_DISCARD :: int where "SAI_IN_DROP_REASON_FDB_MC_DISCARD = 8"
definition SAI_IN_DROP_REASON_FDB_UC_DISCARD :: int where "SAI_IN_DROP_REASON_FDB_UC_DISCARD = 7"
definition SAI_IN_DROP_REASON_INGRESS_STP_FILTER :: int where "SAI_IN_DROP_REASON_INGRESS_STP_FILTER = 6"
definition SAI_IN_DROP_REASON_INGRESS_VLAN_FILTER :: int where "SAI_IN_DROP_REASON_INGRESS_VLAN_FILTER = 5"
definition SAI_IN_DROP_REASON_IPV6_MC_SCOPE0 :: int where "SAI_IN_DROP_REASON_IPV6_MC_SCOPE0 = 30"
definition SAI_IN_DROP_REASON_IPV6_MC_SCOPE1 :: int where "SAI_IN_DROP_REASON_IPV6_MC_SCOPE1 = 31"
definition SAI_IN_DROP_REASON_IP_HEADER_ERROR :: int where "SAI_IN_DROP_REASON_IP_HEADER_ERROR = 17"
definition SAI_IN_DROP_REASON_IRIF_DISABLED :: int where "SAI_IN_DROP_REASON_IRIF_DISABLED = 32"
definition SAI_IN_DROP_REASON_L2_ANY :: int where "SAI_IN_DROP_REASON_L2_ANY = 0"
definition SAI_IN_DROP_REASON_L2_LOOPBACK_FILTER :: int where "SAI_IN_DROP_REASON_L2_LOOPBACK_FILTER = 9"
definition SAI_IN_DROP_REASON_L3_ANY :: int where "SAI_IN_DROP_REASON_L3_ANY = 11"
definition SAI_IN_DROP_REASON_L3_EGRESS_LINK_DOWN :: int where "SAI_IN_DROP_REASON_L3_EGRESS_LINK_DOWN = 39"
definition SAI_IN_DROP_REASON_L3_LOOPBACK_FILTER :: int where "SAI_IN_DROP_REASON_L3_LOOPBACK_FILTER = 14"
definition SAI_IN_DROP_REASON_LPM4_MISS :: int where "SAI_IN_DROP_REASON_LPM4_MISS = 34"
definition SAI_IN_DROP_REASON_LPM6_MISS :: int where "SAI_IN_DROP_REASON_LPM6_MISS = 35"
definition SAI_IN_DROP_REASON_MC_DMAC_MISMATCH :: int where "SAI_IN_DROP_REASON_MC_DMAC_MISMATCH = 24"
definition SAI_IN_DROP_REASON_MPLS_MISS :: int where "SAI_IN_DROP_REASON_MPLS_MISS = 53"
definition SAI_IN_DROP_REASON_NON_ROUTABLE :: int where "SAI_IN_DROP_REASON_NON_ROUTABLE = 15"
definition SAI_IN_DROP_REASON_NO_L3_HEADER :: int where "SAI_IN_DROP_REASON_NO_L3_HEADER = 16"
definition SAI_IN_DROP_REASON_SIP_BC :: int where "SAI_IN_DROP_REASON_SIP_BC = 26"
definition SAI_IN_DROP_REASON_SIP_CLASS_E :: int where "SAI_IN_DROP_REASON_SIP_CLASS_E = 22"
definition SAI_IN_DROP_REASON_SIP_EQUALS_DIP :: int where "SAI_IN_DROP_REASON_SIP_EQUALS_DIP = 25"
definition SAI_IN_DROP_REASON_SIP_LINK_LOCAL :: int where "SAI_IN_DROP_REASON_SIP_LINK_LOCAL = 29"
definition SAI_IN_DROP_REASON_SIP_LOOPBACK :: int where "SAI_IN_DROP_REASON_SIP_LOOPBACK = 20"
definition SAI_IN_DROP_REASON_SIP_MC :: int where "SAI_IN_DROP_REASON_SIP_MC = 21"
definition SAI_IN_DROP_REASON_SIP_UNSPECIFIED :: int where "SAI_IN_DROP_REASON_SIP_UNSPECIFIED = 23"
definition SAI_IN_DROP_REASON_SMAC_EQUALS_DMAC :: int where "SAI_IN_DROP_REASON_SMAC_EQUALS_DMAC = 2"
definition SAI_IN_DROP_REASON_SMAC_MULTICAST :: int where "SAI_IN_DROP_REASON_SMAC_MULTICAST = 1"
definition SAI_IN_DROP_REASON_SRV6_LOCAL_SID_DROP :: int where "SAI_IN_DROP_REASON_SRV6_LOCAL_SID_DROP = 54"
definition SAI_IN_DROP_REASON_TTL :: int where "SAI_IN_DROP_REASON_TTL = 13"
definition SAI_IN_DROP_REASON_UC_DIP_MC_DMAC :: int where "SAI_IN_DROP_REASON_UC_DIP_MC_DMAC = 18"
definition SAI_IN_DROP_REASON_UNRESOLVED_NEXT_HOP :: int where "SAI_IN_DROP_REASON_UNRESOLVED_NEXT_HOP = 38"
definition SAI_IN_DROP_REASON_VLAN_TAG_NOT_ALLOWED :: int where "SAI_IN_DROP_REASON_VLAN_TAG_NOT_ALLOWED = 4"
definition SAI_IPMC_ENTRY_TYPE_SG :: int where "SAI_IPMC_ENTRY_TYPE_SG = 0"
definition SAI_IP_ADDR_FAMILY_IPV4 :: int where "SAI_IP_ADDR_FAMILY_IPV4 = 0"
definition SAI_ISOLATION_GROUP_TYPE_PORT :: int where "SAI_ISOLATION_GROUP_TYPE_PORT = 0"
definition SAI_METER_TYPE_BYTES :: int where "SAI_METER_TYPE_BYTES = 1"
definition SAI_METER_TYPE_PACKETS :: int where "SAI_METER_TYPE_PACKETS = 0"
definition SAI_MIRROR_SESSION_TYPE_ENHANCED_REMOTE :: int where "SAI_MIRROR_SESSION_TYPE_ENHANCED_REMOTE = 2"
definition SAI_MIRROR_SESSION_TYPE_LOCAL :: int where "SAI_MIRROR_SESSION_TYPE_LOCAL = 0"
definition SAI_MY_SID_ENTRY_ENDPOINT_BEHAVIOR_B6_ENCAPS_RED :: int where "SAI_MY_SID_ENTRY_ENDPOINT_BEHAVIOR_B6_ENCAPS_RED = 9"
definition SAI_MY_SID_ENTRY_ENDPOINT_BEHAVIOR_B6_INSERT_RED :: int where "SAI_MY_SID_ENTRY_ENDPOINT_BEHAVIOR_B6_INSERT_RED = 11"
definition SAI_MY_SID_ENTRY_ENDPOINT_BEHAVIOR_DT4 :: int where "SAI_MY_SID_ENTRY_ENDPOINT_BEHAVIOR_DT4 = 6"
definition SAI_MY_SID_ENTRY_ENDPOINT_BEHAVIOR_DT46 :: int where "SAI_MY_SID_ENTRY_ENDPOINT_BEHAVIOR_DT46 = 7"
definition SAI_MY_SID_ENTRY_ENDPOINT_BEHAVIOR_DT6 :: int where "SAI_MY_SID_ENTRY_ENDPOINT_BEHAVIOR_DT6 = 5"
definition SAI_MY_SID_ENTRY_ENDPOINT_BEHAVIOR_DX4 :: int where "SAI_MY_SID_ENTRY_ENDPOINT_BEHAVIOR_DX4 = 4"
definition SAI_MY_SID_ENTRY_ENDPOINT_BEHAVIOR_DX6 :: int where "SAI_MY_SID_ENTRY_ENDPOINT_BEHAVIOR_DX6 = 3"
definition SAI_MY_SID_ENTRY_ENDPOINT_BEHAVIOR_E :: int where "SAI_MY_SID_ENTRY_ENDPOINT_BEHAVIOR_E = 0"
definition SAI_MY_SID_ENTRY_ENDPOINT_BEHAVIOR_FLAVOR_PSP :: int where "SAI_MY_SID_ENTRY_ENDPOINT_BEHAVIOR_FLAVOR_PSP = 1"
definition SAI_MY_SID_ENTRY_ENDPOINT_BEHAVIOR_FLAVOR_PSP_AND_USD :: int where "SAI_MY_SID_ENTRY_ENDPOINT_BEHAVIOR_FLAVOR_PSP_AND_USD = 6"
definition SAI_MY_SID_ENTRY_ENDPOINT_BEHAVIOR_FLAVOR_USD :: int where "SAI_MY_SID_ENTRY_ENDPOINT_BEHAVIOR_FLAVOR_USD = 3"
definition SAI_MY_SID_ENTRY_ENDPOINT_BEHAVIOR_T :: int where "SAI_MY_SID_ENTRY_ENDPOINT_BEHAVIOR_T = 2"
definition SAI_MY_SID_ENTRY_ENDPOINT_BEHAVIOR_UA :: int where "SAI_MY_SID_ENTRY_ENDPOINT_BEHAVIOR_UA = 13"
definition SAI_MY_SID_ENTRY_ENDPOINT_BEHAVIOR_UN :: int where "SAI_MY_SID_ENTRY_ENDPOINT_BEHAVIOR_UN = 12"
definition SAI_MY_SID_ENTRY_ENDPOINT_BEHAVIOR_X :: int where "SAI_MY_SID_ENTRY_ENDPOINT_BEHAVIOR_X = 1"
definition SAI_NATIVE_HASH_FIELD_DST_IP :: int where "SAI_NATIVE_HASH_FIELD_DST_IP = 1"
definition SAI_NATIVE_HASH_FIELD_DST_MAC :: int where "SAI_NATIVE_HASH_FIELD_DST_MAC = 10"
definition SAI_NATIVE_HASH_FIELD_IP_PROTOCOL :: int where "SAI_NATIVE_HASH_FIELD_IP_PROTOCOL = 5"
definition SAI_NATIVE_HASH_FIELD_L4_DST_PORT :: int where "SAI_NATIVE_HASH_FIELD_L4_DST_PORT = 8"
definition SAI_NATIVE_HASH_FIELD_L4_SRC_PORT :: int where "SAI_NATIVE_HASH_FIELD_L4_SRC_PORT = 7"
definition SAI_NATIVE_HASH_FIELD_SRC_IP :: int where "SAI_NATIVE_HASH_FIELD_SRC_IP = 0"
definition SAI_NAT_TYPE_DESTINATION_NAT :: int where "SAI_NAT_TYPE_DESTINATION_NAT = 2"
definition SAI_NAT_TYPE_DESTINATION_NAT_POOL :: int where "SAI_NAT_TYPE_DESTINATION_NAT_POOL = 4"
definition SAI_NAT_TYPE_SOURCE_NAT :: int where "SAI_NAT_TYPE_SOURCE_NAT = 1"
definition SAI_NEXT_HOP_GROUP_TYPE_ECMP :: int where "SAI_NEXT_HOP_GROUP_TYPE_ECMP = 0"
definition SAI_NEXT_HOP_GROUP_TYPE_FINE_GRAIN_ECMP :: int where "SAI_NEXT_HOP_GROUP_TYPE_FINE_GRAIN_ECMP = 2"
definition SAI_NEXT_HOP_TYPE_IP :: int where "SAI_NEXT_HOP_TYPE_IP = 0"
definition SAI_NEXT_HOP_TYPE_MPLS :: int where "SAI_NEXT_HOP_TYPE_MPLS = 1"
definition SAI_NEXT_HOP_TYPE_SRV6_SIDLIST :: int where "SAI_NEXT_HOP_TYPE_SRV6_SIDLIST = 3"
definition SAI_NEXT_HOP_TYPE_TUNNEL_ENCAP :: int where "SAI_NEXT_HOP_TYPE_TUNNEL_ENCAP = 2"
definition SAI_NULL_OBJECT_ID :: int where "SAI_NULL_OBJECT_ID = 0"
definition SAI_OUTSEG_TYPE_SWAP :: int where "SAI_OUTSEG_TYPE_SWAP = 1"
definition SAI_PACKET_ACTION_COPY :: int where "SAI_PACKET_ACTION_COPY = 2"
definition SAI_PACKET_ACTION_DENY :: int where "SAI_PACKET_ACTION_DENY = 6"
definition SAI_PACKET_ACTION_FORWARD :: int where "SAI_PACKET_ACTION_FORWARD = 1"
definition SAI_PACKET_ACTION_LOG :: int where "SAI_PACKET_ACTION_LOG = 5"
definition SAI_PACKET_COLOR_GREEN :: int where "SAI_PACKET_COLOR_GREEN = 0"
definition SAI_POLICER_COLOR_SOURCE_AWARE :: int where "SAI_POLICER_COLOR_SOURCE_AWARE = 1"
definition SAI_POLICER_COLOR_SOURCE_BLIND :: int where "SAI_POLICER_COLOR_SOURCE_BLIND = 0"
definition SAI_POLICER_MODE_SR_TCM :: int where "SAI_POLICER_MODE_SR_TCM = 0"
definition SAI_POLICER_MODE_STORM_CONTROL :: int where "SAI_POLICER_MODE_STORM_CONTROL = 2"
definition SAI_POLICER_MODE_TR_TCM :: int where "SAI_POLICER_MODE_TR_TCM = 1"
definition SAI_PORT_ATTR_QOS_DOT1P_TO_TC_MAP :: int where "SAI_PORT_ATTR_QOS_DOT1P_TO_TC_MAP = 72"
definition SAI_PORT_FLOW_CONTROL_MODE_RX_ONLY :: int where "SAI_PORT_FLOW_CONTROL_MODE_RX_ONLY = 2"
definition SAI_PORT_FLOW_CONTROL_MODE_TX_ONLY :: int where "SAI_PORT_FLOW_CONTROL_MODE_TX_ONLY = 1"
definition SAI_PORT_INTERNAL_LOOPBACK_MODE_MAC :: int where "SAI_PORT_INTERNAL_LOOPBACK_MODE_MAC = 2"
definition SAI_PORT_INTERNAL_LOOPBACK_MODE_PHY :: int where "SAI_PORT_INTERNAL_LOOPBACK_MODE_PHY = 1"
definition SAI_PORT_MEDIA_TYPE_COPPER :: int where "SAI_PORT_MEDIA_TYPE_COPPER = 3"
definition SAI_PORT_MEDIA_TYPE_FIBER :: int where "SAI_PORT_MEDIA_TYPE_FIBER = 2"
definition SAI_PORT_STAT_IN_DROP_REASON_RANGE_BASE :: int where "SAI_PORT_STAT_IN_DROP_REASON_RANGE_BASE = 4096"
definition SAI_PORT_STAT_OUT_DROP_REASON_RANGE_BASE :: int where "SAI_PORT_STAT_OUT_DROP_REASON_RANGE_BASE = 8192"
definition SAI_QOS_MAP_TYPE_DOT1P_TO_COLOR :: int where "SAI_QOS_MAP_TYPE_DOT1P_TO_COLOR = 1"
definition SAI_QOS_MAP_TYPE_DOT1P_TO_TC :: int where "SAI_QOS_MAP_TYPE_DOT1P_TO_TC = 0"
definition SAI_QOS_MAP_TYPE_DSCP_TO_COLOR :: int where "SAI_QOS_MAP_TYPE_DSCP_TO_COLOR = 3"
definition SAI_QOS_MAP_TYPE_DSCP_TO_TC :: int where "SAI_QOS_MAP_TYPE_DSCP_TO_TC = 2"
definition SAI_QOS_MAP_TYPE_PFC_PRIORITY_TO_PRIORITY_GROUP :: int where "SAI_QOS_MAP_TYPE_PFC_PRIORITY_TO_PRIORITY_GROUP = 8"
definition SAI_QOS_MAP_TYPE_PFC_PRIORITY_TO_QUEUE :: int where "SAI_QOS_MAP_TYPE_PFC_PRIORITY_TO_QUEUE = 9"
definition SAI_QOS_MAP_TYPE_TC_AND_COLOR_TO_DOT1P :: int where "SAI_QOS_MAP_TYPE_TC_AND_COLOR_TO_DOT1P = 6"
definition SAI_QOS_MAP_TYPE_TC_AND_COLOR_TO_DSCP :: int where "SAI_QOS_MAP_TYPE_TC_AND_COLOR_TO_DSCP = 5"
definition SAI_QOS_MAP_TYPE_TC_TO_PRIORITY_GROUP :: int where "SAI_QOS_MAP_TYPE_TC_TO_PRIORITY_GROUP = 7"
definition SAI_QOS_MAP_TYPE_TC_TO_QUEUE :: int where "SAI_QOS_MAP_TYPE_TC_TO_QUEUE = 4"
definition SAI_ROUTER_INTERFACE_ATTR_ADMIN_V4_STATE :: int where "SAI_ROUTER_INTERFACE_ATTR_ADMIN_V4_STATE = 8"
definition SAI_ROUTER_INTERFACE_ATTR_LOOPBACK_PACKET_ACTION :: int where "SAI_ROUTER_INTERFACE_ATTR_LOOPBACK_PACKET_ACTION = 16"
definition SAI_ROUTER_INTERFACE_ATTR_MTU :: int where "SAI_ROUTER_INTERFACE_ATTR_MTU = 10"
definition SAI_ROUTER_INTERFACE_TYPE_LOOPBACK :: int where "SAI_ROUTER_INTERFACE_TYPE_LOOPBACK = 2"
definition SAI_ROUTER_INTERFACE_TYPE_MPLS_ROUTER :: int where "SAI_ROUTER_INTERFACE_TYPE_MPLS_ROUTER = 3"
definition SAI_ROUTER_INTERFACE_TYPE_SUB_PORT :: int where "SAI_ROUTER_INTERFACE_TYPE_SUB_PORT = 4"
definition SAI_SAMPLEPACKET_MODE_SHARED :: int where "SAI_SAMPLEPACKET_MODE_SHARED = 1"
definition SAI_SCHEDULING_TYPE_DWRR :: int where "SAI_SCHEDULING_TYPE_DWRR = 2"
definition SAI_SCHEDULING_TYPE_STRICT :: int where "SAI_SCHEDULING_TYPE_STRICT = 0"
definition SAI_SRV6_SIDLIST_TYPE_ENCAPS_RED :: int where "SAI_SRV6_SIDLIST_TYPE_ENCAPS_RED = 3"
definition SAI_SRV6_SIDLIST_TYPE_INSERT_RED :: int where "SAI_SRV6_SIDLIST_TYPE_INSERT_RED = 1"
definition SAI_STATS_MODE_READ_AND_CLEAR :: int where "SAI_STATS_MODE_READ_AND_CLEAR = 2"
definition SAI_STATUS_INVALID_OBJECT_TYPE :: int where "SAI_STATUS_INVALID_OBJECT_TYPE = - 18"
definition SAI_STATUS_ITEM_NOT_FOUND :: int where "SAI_STATUS_ITEM_NOT_FOUND = - 7"
definition SAI_SWITCH_STAT_IN_DROP_REASON_RANGE_BASE :: int where "SAI_SWITCH_STAT_IN_DROP_REASON_RANGE_BASE = 4096"
definition SAI_SWITCH_STAT_OUT_DROP_REASON_RANGE_BASE :: int where "SAI_SWITCH_STAT_OUT_DROP_REASON_RANGE_BASE = 8192"
definition SAI_TUNNEL_DSCP_MODE_PIPE_MODEL :: int where "SAI_TUNNEL_DSCP_MODE_PIPE_MODEL = 1"
definition SAI_TUNNEL_DSCP_MODE_UNIFORM_MODEL :: int where "SAI_TUNNEL_DSCP_MODE_UNIFORM_MODEL = 0"
definition SAI_TUNNEL_MAP_TYPE_VIRTUAL_ROUTER_ID_TO_VNI :: int where "SAI_TUNNEL_MAP_TYPE_VIRTUAL_ROUTER_ID_TO_VNI = 7"
definition SAI_TUNNEL_MAP_TYPE_VLAN_ID_TO_VNI :: int where "SAI_TUNNEL_MAP_TYPE_VLAN_ID_TO_VNI = 3"
definition SAI_TUNNEL_MAP_TYPE_VNI_TO_VIRTUAL_ROUTER_ID :: int where "SAI_TUNNEL_MAP_TYPE_VNI_TO_VIRTUAL_ROUTER_ID = 6"
definition SAI_TUNNEL_MAP_TYPE_VNI_TO_VLAN_ID :: int where "SAI_TUNNEL_MAP_TYPE_VNI_TO_VLAN_ID = 2"
definition SAI_TUNNEL_PEER_MODE_P2MP :: int where "SAI_TUNNEL_PEER_MODE_P2MP = 1"
definition SAI_TUNNEL_PEER_MODE_P2P :: int where "SAI_TUNNEL_PEER_MODE_P2P = 0"
definition SAI_TUNNEL_TERM_TABLE_ENTRY_TYPE_P2MP :: int where "SAI_TUNNEL_TERM_TABLE_ENTRY_TYPE_P2MP = 1"
definition SAI_TUNNEL_TERM_TABLE_ENTRY_TYPE_P2P :: int where "SAI_TUNNEL_TERM_TABLE_ENTRY_TYPE_P2P = 0"
definition SAI_TUNNEL_TTL_MODE_PIPE_MODEL :: int where "SAI_TUNNEL_TTL_MODE_PIPE_MODEL = 1"
definition SAI_TUNNEL_TTL_MODE_UNIFORM_MODEL :: int where "SAI_TUNNEL_TTL_MODE_UNIFORM_MODEL = 0"
definition SAI_TUNNEL_TYPE_IPINIP :: int where "SAI_TUNNEL_TYPE_IPINIP = 0"
definition SAI_TUNNEL_TYPE_SRV6 :: int where "SAI_TUNNEL_TYPE_SRV6 = 4"
definition SAI_TUNNEL_TYPE_VXLAN :: int where "SAI_TUNNEL_TYPE_VXLAN = 2"
definition SAI_VLAN_FLOOD_CONTROL_TYPE_NONE :: int where "SAI_VLAN_FLOOD_CONTROL_TYPE_NONE = 1"

end
