(* ===== verification/PtfHash.thy ===== *)
theory PtfHash
  imports PtfPorts PtfConstants Complex_Main "HOL-Library.Multiset"
begin

text \<open>
  The helpers and the base class of the hash tests, the first part of \<open>ptf/saihash.py\<close>: the
  translation of hash dictionaries, the checks of a load-balancing result, and the set-up of the
  hashes of the switch with their release in \<open>tearDown\<close>. The RPC client is the record of
  \<open>PtfPorts\<close>; the \<open>setUp\<close> and \<open>tearDown\<close> of the class below, which configure the switch, are
  parameters. A status returned by a call is the one the client last recorded.
\<close>

section \<open>Hash fields\<close>

text \<open>The values are those of \<open>sai_native_hash_field_t\<close> in \<open>inc/saihash.h\<close>.\<close>

definition SAI_NATIVE_HASH_FIELD_ETHERTYPE :: int where "SAI_NATIVE_HASH_FIELD_ETHERTYPE = 6"
definition SAI_NATIVE_HASH_FIELD_SRC_MAC :: int where "SAI_NATIVE_HASH_FIELD_SRC_MAC = 9"
definition SAI_NATIVE_HASH_FIELD_IPV6_FLOW_LABEL :: int where "SAI_NATIVE_HASH_FIELD_IPV6_FLOW_LABEL = 24"
definition SAI_HASH_ALGORITHM_CRC :: int where "SAI_HASH_ALGORITHM_CRC = 0"

lemmas hash_field_values = SAI_NATIVE_HASH_FIELD_SRC_IP_def SAI_NATIVE_HASH_FIELD_DST_IP_def
  SAI_NATIVE_HASH_FIELD_IP_PROTOCOL_def SAI_NATIVE_HASH_FIELD_ETHERTYPE_def
  SAI_NATIVE_HASH_FIELD_L4_SRC_PORT_def SAI_NATIVE_HASH_FIELD_L4_DST_PORT_def
  SAI_NATIVE_HASH_FIELD_SRC_MAC_def SAI_NATIVE_HASH_FIELD_DST_MAC_def SAI_NATIVE_HASH_FIELD_IPV6_FLOW_LABEL_def

text \<open>A dictionary maps a name to a value or to Python's \<open>None\<close>.\<close>

definition is_set :: "(string, 'v option) odict \<Rightarrow> string \<Rightarrow> bool" where
  "is_set d k \<longleftrightarrow> (case map_of d k of None \<Rightarrow> False | Some v \<Rightarrow> v \<noteq> None)"

definition hash_to_hash_fields :: "(string, 'v option) odict \<Rightarrow> int list" where
  "hash_to_hash_fields hash_dict =
     (let hash_fields = [];
          hash_fields = (if is_set hash_dict ''hash_src_ip'' then hash_fields @ [SAI_NATIVE_HASH_FIELD_SRC_IP] else hash_fields);
          hash_fields = (if is_set hash_dict ''hash_dst_ip'' then hash_fields @ [SAI_NATIVE_HASH_FIELD_DST_IP] else hash_fields);
          hash_fields = (if is_set hash_dict ''hash_dst_mac'' then hash_fields @ [SAI_NATIVE_HASH_FIELD_DST_MAC] else hash_fields);
          hash_fields = (if is_set hash_dict ''hash_src_mac'' then hash_fields @ [SAI_NATIVE_HASH_FIELD_SRC_MAC] else hash_fields);
          hash_fields = (if is_set hash_dict ''hash_udp_dport'' then hash_fields @ [SAI_NATIVE_HASH_FIELD_L4_DST_PORT] else hash_fields);
          hash_fields = (if is_set hash_dict ''hash_udp_sport'' then hash_fields @ [SAI_NATIVE_HASH_FIELD_L4_SRC_PORT] else hash_fields);
          hash_fields = (if is_set hash_dict ''hash_ether_type'' then hash_fields @ [SAI_NATIVE_HASH_FIELD_ETHERTYPE] else hash_fields);
          hash_fields = (if is_set hash_dict ''hash_flow_label'' then hash_fields @ [SAI_NATIVE_HASH_FIELD_IPV6_FLOW_LABEL] else hash_fields)
      in hash_fields)"

definition hash_name :: "int \<Rightarrow> string" where
  "hash_name hash_from_list =
     (if hash_from_list = SAI_NATIVE_HASH_FIELD_L4_DST_PORT then ''L4_DST_PORT''
      else if hash_from_list = SAI_NATIVE_HASH_FIELD_L4_SRC_PORT then ''L4_SRC_PORT''
      else if hash_from_list = SAI_NATIVE_HASH_FIELD_SRC_IP then ''SRC_IP''
      else if hash_from_list = SAI_NATIVE_HASH_FIELD_DST_IP then ''DST_IP''
      else if hash_from_list = SAI_NATIVE_HASH_FIELD_DST_MAC then ''DST_MAC''
      else if hash_from_list = SAI_NATIVE_HASH_FIELD_SRC_MAC then ''SRC_MAC''
      else if hash_from_list = SAI_NATIVE_HASH_FIELD_ETHERTYPE then ''ETHER_TYPE''
      else ''ALL'')"

definition hash_fields_to_hash_names :: "int list \<Rightarrow> string list" where
  "hash_fields_to_hash_names hash_list = map hash_name hash_list"

definition hash_dict_negation :: "(string, 'v option) odict \<Rightarrow> (string, bool option) odict" where
  "hash_dict_negation hash_dict =
     map (\<lambda>(key, v). (key, case v of Some _ \<Rightarrow> None | None \<Rightarrow> Some True)) hash_dict"

section \<open>Checks of a load-balancing result\<close>

text \<open>The bound is computed in floating point: \<open>fl\<close> is the rounding of one operation. Counts are
  integers, and Python compares an integer with a float exactly.\<close>

fun all_reach :: "rat \<Rightarrow> int list \<Rightarrow> bool" where
  "all_reach base [] = True"
| "all_reach base (c # counts) = (if of_int c < base then False else all_reach base counts)"

definition verify_equaly_balanced :: "(rat \<Rightarrow> rat) \<Rightarrow> int list \<Rightarrow> int \<Rightarrow> rat \<Rightarrow> bool res" where
  "verify_equaly_balanced fl ecmp_count pkt_count expected_base =
     (if ecmp_count = [] then Inl ZeroDivisionError
      else let base = fl (fl (of_int pkt_count / of_nat (length ecmp_count)) * expected_base)
           in Inr (all_reach base ecmp_count))"

fun sum_diff :: "int list \<Rightarrow> int list \<Rightarrow> int \<Rightarrow> int" where
  "sum_diff (x # xs) (y # ys) diff = sum_diff xs ys (diff + \<bar>x - y\<bar>)"
| "sum_diff _ _ diff = diff"

definition verify_similary_balanced :: "int list \<Rightarrow> int list \<Rightarrow> bool" where
  "verify_similary_balanced ecmp_count1 ecmp_count2 =
     (if length ecmp_count1 \<noteq> length ecmp_count2 then False
      else sum_diff ecmp_count1 ecmp_count2 0 \<noteq> 0)"

fun count_active :: "int list \<Rightarrow> int \<Rightarrow> int" where
  "count_active [] cnt = cnt"
| "count_active (port_cnt # lb_counts) cnt = count_active lb_counts (if port_cnt \<noteq> 0 then cnt + 1 else cnt)"

definition verify_lb_active_ports :: "int list \<Rightarrow> int" where
  "verify_lb_active_ports lb_counts = count_active lb_counts 0"

fun no_lb_loop :: "int list \<Rightarrow> int \<Rightarrow> int \<Rightarrow> bool" where
  "no_lb_loop [] max_iters cnt = True"
| "no_lb_loop (port_cnt # lb_counts) max_iters cnt =
     (if port_cnt \<noteq> 0 \<and> port_cnt \<noteq> max_iters then False
      else let cnt = (if port_cnt \<noteq> 0 then cnt + 1 else cnt)
           in if cnt > 1 then False else no_lb_loop lb_counts max_iters cnt)"

definition verify_no_lb :: "int list \<Rightarrow> int \<Rightarrow> bool" where
  "verify_no_lb lb_counts max_iters = no_lb_loop lb_counts max_iters 0"

section \<open>The checks are right\<close>

lemma all_reach_iff: "all_reach b cs \<longleftrightarrow> (\<forall>c\<in>set cs. b \<le> of_int c)"
  by (induction cs) auto

definition rounds_well :: "(rat \<Rightarrow> rat) \<Rightarrow> bool" where
  "rounds_well fl \<longleftrightarrow> mono fl \<and> (\<forall>i. fl (of_int i) = of_int i)"

text \<open>An even split of the packets is accepted at every base up to one. The rounding is
  only required to be monotone and exact on the integers.\<close>

theorem even_split_accepted:
  assumes "rounds_well fl" "0 \<le> c" "0 < n" "b \<le> 1"
  shows "verify_equaly_balanced fl (replicate n c) (c * int n) b = Inr True"
proof -
  have q: "(of_int (c * int n) :: rat) / of_nat n = of_int c" using assms(3) by simp
  have "(of_int c :: rat) * b \<le> of_int c" using assms(2,4) by (simp add: mult_left_le)
  then have "fl (fl (of_int (c * int n) / of_nat n) * b) \<le> of_int c"
    using assms(1) unfolding rounds_well_def q by (metis monoD)
  then show ?thesis using assms(3) by (simp add: verify_equaly_balanced_def all_reach_iff Let_def)
qed

theorem even_split_accepted_witness:
  "verify_equaly_balanced id (replicate 4 50) (50 * int 4) (2 / 5) = Inr True"
  by (rule even_split_accepted) (simp_all add: rounds_well_def mono_def)

lemma sum_diff_acc: "length xs = length ys \<Longrightarrow> sum_diff xs ys d = d + (\<Sum>(x, y)\<leftarrow>zip xs ys. \<bar>x - y\<bar>)"
  by (induction xs ys d rule: sum_diff.induct) auto

lemma abs_sum_zero: "length xs = length ys \<Longrightarrow> (\<Sum>(x, y)\<leftarrow>zip xs ys. \<bar>x - y\<bar> :: int) = 0 \<longleftrightarrow> xs = ys"
proof (induction xs ys rule: list_induct2)
  case (Cons x xs y ys)
  have "0 \<le> (\<Sum>(x, y)\<leftarrow>zip xs ys. \<bar>x - y\<bar> :: int)" by (intro sum_list_nonneg) auto
  with Cons.IH show ?case by auto
qed simp

text \<open>The check said to tell whether two results are similar is true exactly when they have
  the same length and differ: of equal results it says they are not similar.\<close>

theorem similar_means_changed:
  "verify_similary_balanced xs ys \<longleftrightarrow> length xs = length ys \<and> xs \<noteq> ys"
  by (auto simp: verify_similary_balanced_def sum_diff_acc abs_sum_zero)

lemma count_active_acc: "count_active cs n = n + int (length (filter (\<lambda>c. c \<noteq> 0) cs))"
  by (induction cs arbitrary: n) auto

lemma no_lb_iff:
  "0 \<le> n \<Longrightarrow> n \<le> 1 \<Longrightarrow> no_lb_loop cs m n
     \<longleftrightarrow> (\<forall>c\<in>set cs. c = 0 \<or> c = m) \<and> count_active cs n \<le> 1"
proof (induction cs arbitrary: n)
  case (Cons c cs)
  then show ?case by (auto simp: count_active_acc Let_def)
qed simp

text \<open>A result is said to be free of load balancing exactly when no port but one received
  packets and that one received all of them (or no port did); the ports counted as active are those
  with packets, so at most one is then.\<close>

theorem no_lb_correct:
  "verify_no_lb counts n \<longleftrightarrow>
     verify_lb_active_ports counts \<le> 1 \<and> set counts \<subseteq> {0, n}"
  by (auto simp: verify_no_lb_def verify_lb_active_ports_def no_lb_iff)

section \<open>Dictionaries and their negation\<close>

lemma is_set_negation:
  "is_set (hash_dict_negation d) k \<longleftrightarrow> od_has d k \<and> \<not> is_set d k"
  by (induction d) (auto simp: is_set_def hash_dict_negation_def od_has_def split: option.splits)

definition hash_keys :: "string list" where
  "hash_keys = [''hash_src_ip'', ''hash_dst_ip'', ''hash_dst_mac'', ''hash_src_mac'', ''hash_udp_dport'',
     ''hash_udp_sport'', ''hash_ether_type'', ''hash_flow_label'']"

lemma hash_fields_filter:
  "hash_to_hash_fields d = map snd (filter (\<lambda>(k, _). is_set d k) (zip hash_keys
     [SAI_NATIVE_HASH_FIELD_SRC_IP, SAI_NATIVE_HASH_FIELD_DST_IP, SAI_NATIVE_HASH_FIELD_DST_MAC,
      SAI_NATIVE_HASH_FIELD_SRC_MAC, SAI_NATIVE_HASH_FIELD_L4_DST_PORT, SAI_NATIVE_HASH_FIELD_L4_SRC_PORT,
      SAI_NATIVE_HASH_FIELD_ETHERTYPE, SAI_NATIVE_HASH_FIELD_IPV6_FLOW_LABEL]))"
  by (simp add: hash_to_hash_fields_def hash_keys_def Let_def)

lemma mset_map_split: "mset (map f (filter P l)) + mset (map f (filter (\<lambda>x. \<not> P x) l)) = mset (map f l)"
  by (induction l) auto

text \<open>For a dictionary that names all eight fields, the fields hashed and the fields of its
  negation share the eight between them, each in exactly one of the two lists and once.\<close>

theorem negation_complements:
  assumes "set hash_keys \<subseteq> set (map fst d)"
  shows "mset (hash_to_hash_fields d) + mset (hash_to_hash_fields (hash_dict_negation d))
     = mset [0, 1, 10, 9, 8, 7, 6, 24]"
proof -
  have n: "is_set (hash_dict_negation d) k \<longleftrightarrow> \<not> is_set d k" if "k \<in> set hash_keys" for k
    using assms that by (auto simp: is_set_negation od_has_def)
  let ?z = "zip hash_keys [0, 1, 10, 9, 8, 7, 6, 24 :: int]"
  have "filter (\<lambda>(k, _). is_set (hash_dict_negation d) k) ?z = filter (\<lambda>x. \<not> (case x of (k, _) \<Rightarrow> is_set d k)) ?z"
    by (intro filter_cong) (auto simp: n dest: set_zip_leftD)
  then have "mset (hash_to_hash_fields d) + mset (hash_to_hash_fields (hash_dict_negation d)) = mset (map snd ?z)"
    unfolding hash_fields_filter hash_field_values by (simp only: mset_map_split)
  then show ?thesis by (simp add: hash_keys_def)
qed

theorem negation_complements_witness:
  "mset (hash_to_hash_fields [(k, if k = ''hash_src_ip'' then Some True else None). k \<leftarrow> hash_keys])
     + mset (hash_to_hash_fields (hash_dict_negation [(k, if k = ''hash_src_ip'' then Some True else None). k \<leftarrow> hash_keys]))
     = mset [0, 1, 10, 9, 8, 7, 6, 24]"
  by (rule negation_complements) simp

section \<open>The test object\<close>

record 'd hash_test =
  ht_dev :: 'd
  ht_ipv4_hash_id :: int
  ht_ipv6_hash_id :: int
  ht_lag_hash_ipv4 :: int
  ht_lag_hash_ipv6 :: int

definition on_client :: "('d, 'a) py \<Rightarrow> ('d hash_test, 'a) py" where
  "on_client m = (\<lambda>s. case m (ht_dev s) of (r, d) \<Rightarrow> (r, s\<lparr>ht_dev := d\<rparr>))"

definition store_ipv4 :: "int \<Rightarrow> ('d hash_test, unit) py" where
  "store_ipv4 i = modP (\<lambda>s. s\<lparr>ht_ipv4_hash_id := i\<rparr>)"
definition store_ipv6 :: "int \<Rightarrow> ('d hash_test, unit) py" where
  "store_ipv6 i = modP (\<lambda>s. s\<lparr>ht_ipv6_hash_id := i\<rparr>)"
definition store_lag4 :: "int \<Rightarrow> ('d hash_test, unit) py" where
  "store_lag4 i = modP (\<lambda>s. s\<lparr>ht_lag_hash_ipv4 := i\<rparr>)"
definition store_lag6 :: "int \<Rightarrow> ('d hash_test, unit) py" where
  "store_lag6 i = modP (\<lambda>s. s\<lparr>ht_lag_hash_ipv6 := i\<rparr>)"

definition assert_that :: "bool \<Rightarrow> ('s, unit) py" where
  "assert_that b = liftP (if b then Inr () else Inl AssertionError)"

definition assert_success :: "'d sai_client \<Rightarrow> ('d hash_test, unit) py" where
  "assert_success sai = (\<lambda>s. assert_that (sai_status sai (ht_dev s) = SAI_STATUS_SUCCESS) s)"

text \<open>The calls of the client the class makes.\<close>

definition set_switch :: "'d sai_client \<Rightarrow> string \<Rightarrow> sai_val \<Rightarrow> ('d hash_test, unit) py" where
  "set_switch sai k v = on_client (sai_set sai ''switch'' VNone [(k, v)])"

definition read_switch :: "'d sai_client \<Rightarrow> string list \<Rightarrow> ('d hash_test, sai_args option) py" where
  "read_switch sai ks = on_client (sai_get sai ''switch'' VNone (map (\<lambda>k. (k, VBool True)) ks))"

definition create_hash :: "'d sai_client \<Rightarrow> string \<Rightarrow> int list \<Rightarrow> ('d hash_test, int) py" where
  "create_hash sai k l = on_client (sai_create sai ''hash'' [(k, VList l)])"

definition update_hash :: "'d sai_client \<Rightarrow> sai_val \<Rightarrow> string \<Rightarrow> int list \<Rightarrow> ('d hash_test, unit) py" where
  "update_hash sai hash_id k l =
     thenP (on_client (sai_set sai ''hash'' hash_id [(k, VList l)])) (assert_success sai)"

text \<open>Every element of the first list is looked for in the second.\<close>

fun found_in :: "int \<Rightarrow> int list \<Rightarrow> bool \<Rightarrow> bool" where
  "found_in field1 [] found = found"
| "found_in field1 (field2 # l) found = found_in field1 l (if field1 = field2 then True else found)"

fun all_found :: "int list \<Rightarrow> int list \<Rightarrow> bool" where
  "all_found [] hash_fields_list = True"
| "all_found (field1 # l) hash_fields_list =
     (if found_in field1 hash_fields_list False then all_found l hash_fields_list else False)"

definition same_fields :: "int list \<Rightarrow> int list \<Rightarrow> bool" where
  "same_fields hash_fields_list fields_list =
     (if length hash_fields_list \<noteq> length fields_list then False else all_found fields_list hash_fields_list)"

definition verifyHashFieldsList :: "'d sai_client \<Rightarrow> sai_val \<Rightarrow> int list \<Rightarrow> ('d hash_test, bool) py" where
  "verifyHashFieldsList sai hash_id fields_list =
     bindP (on_client (sai_get sai ''hash'' hash_id
       [(''native_hash_field_list'', VList []), (''native_hash_field_list.count'', VInt 100)])) (\<lambda>hash_data.
     bindP (liftP (bindR (attr_at hash_data ''native_hash_field_list'') idlist)) (\<lambda>hash_fields_list.
     retP (same_fields hash_fields_list fields_list)))"

definition assert_saved :: "'d sai_client \<Rightarrow> sai_val \<Rightarrow> int list \<Rightarrow> ('d hash_test, unit) py" where
  "assert_saved sai hash_id hash_fields_list =
     bindP (verifyHashFieldsList sai hash_id hash_fields_list) assert_that"

section \<open>Seeds and algorithms\<close>

definition setupECMPSeed :: "'d sai_client \<Rightarrow> int \<Rightarrow> ('d hash_test, unit) py" where
  "setupECMPSeed sai seed = set_switch sai ''ecmp_default_hash_seed'' (VInt seed)"

definition setupLagSeed :: "'d sai_client \<Rightarrow> int \<Rightarrow> ('d hash_test, unit) py" where
  "setupLagSeed sai seed = set_switch sai ''lag_default_hash_seed'' (VInt seed)"

definition setupLagAlgorithm :: "'d sai_client \<Rightarrow> int \<Rightarrow> ('d hash_test, unit) py" where
  "setupLagAlgorithm sai algo = set_switch sai ''lag_default_hash_algorithm'' (VInt algo)"

definition setupECMPAlgorithm :: "'d sai_client \<Rightarrow> int \<Rightarrow> ('d hash_test, unit) py" where
  "setupECMPAlgorithm sai algo = set_switch sai ''ecmp_default_hash_algorithm'' (VInt algo)"

definition seed_step :: "('d sai_client \<Rightarrow> int \<Rightarrow> ('d hash_test, unit) py) \<Rightarrow> 'd sai_client \<Rightarrow> int option \<Rightarrow> ('d hash_test, unit) py" where
  "seed_step f sai seed = (case seed of None \<Rightarrow> retP () | Some x \<Rightarrow> f sai x)"

section \<open>Hashes of the switch\<close>

definition default_fields :: "int list option \<Rightarrow> int list \<Rightarrow> int list" where
  "default_fields l d = (case l of None \<Rightarrow> d | Some x \<Rightarrow> x)"

definition ipv4_fields :: "int list" where
  "ipv4_fields = [SAI_NATIVE_HASH_FIELD_SRC_IP, SAI_NATIVE_HASH_FIELD_DST_IP, SAI_NATIVE_HASH_FIELD_IP_PROTOCOL,
     SAI_NATIVE_HASH_FIELD_L4_DST_PORT, SAI_NATIVE_HASH_FIELD_L4_SRC_PORT]"

definition ipv6_fields :: "int list" where
  "ipv6_fields = [SAI_NATIVE_HASH_FIELD_SRC_IP, SAI_NATIVE_HASH_FIELD_DST_IP, SAI_NATIVE_HASH_FIELD_IP_PROTOCOL,
     SAI_NATIVE_HASH_FIELD_L4_DST_PORT, SAI_NATIVE_HASH_FIELD_L4_SRC_PORT, SAI_NATIVE_HASH_FIELD_IPV6_FLOW_LABEL]"

text \<open>The read asks for the ECMP and the LAG hash, and only the LAG hash is used.\<close>

definition setupNonIPECMPHash :: "'d sai_client \<Rightarrow> int list option \<Rightarrow> ('d hash_test, unit) py" where
  "setupNonIPECMPHash sai fields_list =
     bindP (read_switch sai [''ecmp_hash'', ''lag_hash'']) (\<lambda>attr_list.
     bindP (liftP (attr_at attr_list ''SAI_SWITCH_ATTR_LAG_HASH'')) (\<lambda>lag_hash_id.
     thenP (assert_that (lag_hash_id \<noteq> VInt 0))
     (let hash_fields_list = default_fields fields_list
            [SAI_NATIVE_HASH_FIELD_SRC_MAC, SAI_NATIVE_HASH_FIELD_DST_MAC, SAI_NATIVE_HASH_FIELD_ETHERTYPE]
      in thenP (update_hash sai lag_hash_id ''native_hash_field_list'' hash_fields_list)
         (assert_saved sai lag_hash_id hash_fields_list))))"

text \<open>The sequence number is that of the variable \<open>order\<close>, which stays at 1.\<close>

definition create_fg_field :: "'d sai_client \<Rightarrow> string option \<Rightarrow> int \<Rightarrow> ('d hash_test, int) py" where
  "create_fg_field sai p_ipv4_mask hash_field =
     (let order = 1 in
      if hash_field = SAI_NATIVE_HASH_FIELD_SRC_IP \<or> hash_field = SAI_NATIVE_HASH_FIELD_DST_IP
      then on_client (sai_create sai ''fine_grained_hash_field''
             [(''native_hash_field'', VInt hash_field), (''sequence_id'', VInt order),
              (''ipv4_mask'', case p_ipv4_mask of None \<Rightarrow> VNone | Some m \<Rightarrow> VStr m)])
      else on_client (sai_create sai ''fine_grained_hash_field''
             [(''native_hash_field'', VInt hash_field), (''sequence_id'', VInt order)]))"

definition setupFGECMPIPv4Hash :: "'d sai_client \<Rightarrow> int list option \<Rightarrow> string option \<Rightarrow> ('d hash_test, unit) py" where
  "setupFGECMPIPv4Hash sai fields_list p_ipv4_mask =
     (let hash_fields_list = default_fields fields_list ipv4_fields in
      bindP (read_switch sai [''ecmp_hash_ipv4'']) (\<lambda>attr_list.
      bindP (liftP (attr_at attr_list ''SAI_SWITCH_ATTR_ECMP_HASH_IPV4'')) (\<lambda>ipv4_hash_id.
      bindP (mapP hash_fields_list (create_fg_field sai p_ipv4_mask)) (\<lambda>hash_filed_id_list.
      if ipv4_hash_id = VInt 0
      then bindP (create_hash sai ''fine_grained_hash_field_list'' hash_filed_id_list) (\<lambda>i.
           thenP (store_ipv4 i) (set_switch sai ''ecmp_hash_ipv4'' (VInt i)))
      else update_hash sai ipv4_hash_id ''fine_grained_hash_field_list'' hash_filed_id_list))))"

definition setupECMPIPv4Hash :: "'d sai_client \<Rightarrow> int list option \<Rightarrow> int option \<Rightarrow> ('d hash_test, unit) py" where
  "setupECMPIPv4Hash sai fields_list seed =
     (let hash_fields_list = default_fields fields_list ipv4_fields in
      bindP (read_switch sai [''ecmp_hash_ipv4'']) (\<lambda>attr_list.
      bindP (liftP (attr_at attr_list ''SAI_SWITCH_ATTR_ECMP_HASH_IPV4'')) (\<lambda>ipv4_hash_id.
      thenP
        (if ipv4_hash_id = VInt 0
         then bindP (create_hash sai ''native_hash_field_list'' hash_fields_list) (\<lambda>i.
              thenP (store_ipv4 i)
              (thenP (assert_that (i \<noteq> 0))
              (thenP (set_switch sai ''ecmp_hash_ipv4'' (VInt i))
              (assert_saved sai (VInt i) hash_fields_list))))
         else update_hash sai ipv4_hash_id ''native_hash_field_list'' hash_fields_list)
        (seed_step setupECMPSeed sai seed))))"

definition setupECMPIPv6Hash :: "'d sai_client \<Rightarrow> int list option \<Rightarrow> int option \<Rightarrow> ('d hash_test, unit) py" where
  "setupECMPIPv6Hash sai fields_list seed =
     (let hash_fields_list = default_fields fields_list ipv6_fields in
      bindP (read_switch sai [''ecmp_hash_ipv6'', ''ecmp_hash_ipv4'']) (\<lambda>attr_list.
      bindP (liftP (attr_at attr_list ''SAI_SWITCH_ATTR_ECMP_HASH_IPV6'')) (\<lambda>ipv6_hash_id_old.
      thenP
        (if ipv6_hash_id_old = VInt 0
         then bindP (create_hash sai ''native_hash_field_list'' hash_fields_list) (\<lambda>i.
              thenP (store_ipv6 i)
              (thenP (assert_that (i \<noteq> 0))
              (thenP (set_switch sai ''ecmp_hash_ipv6'' (VInt i))
              (thenP (assert_success sai)
              (assert_saved sai (VInt i) hash_fields_list)))))
         else update_hash sai ipv6_hash_id_old ''native_hash_field_list'' hash_fields_list)
        (seed_step setupECMPSeed sai seed))))"

definition setupLAGIPv6Hash :: "'d sai_client \<Rightarrow> int list option \<Rightarrow> int option \<Rightarrow> ('d hash_test, unit) py" where
  "setupLAGIPv6Hash sai fields_list seed =
     (let hash_fields_list = default_fields fields_list ipv6_fields in
      bindP (read_switch sai [''lag_hash_ipv6'']) (\<lambda>attr_list.
      bindP (liftP (attr_at attr_list ''SAI_SWITCH_ATTR_LAG_HASH_IPV6'')) (\<lambda>lag_hash_ipv6.
      thenP
        (if lag_hash_ipv6 = VInt 0
         then bindP (create_hash sai ''native_hash_field_list'' hash_fields_list) (\<lambda>i.
              thenP (store_lag6 i)
              (thenP (assert_that (i \<noteq> 0))
              (thenP (set_switch sai ''lag_hash_ipv6'' (VInt i))
              (assert_saved sai (VInt i) hash_fields_list))))
         else update_hash sai lag_hash_ipv6 ''native_hash_field_list'' hash_fields_list)
        (seed_step setupLagSeed sai seed))))"

definition setupLAGIPv4Hash :: "'d sai_client \<Rightarrow> int list option \<Rightarrow> int option \<Rightarrow> ('d hash_test, unit) py" where
  "setupLAGIPv4Hash sai fields_list seed =
     (let hash_fields_list = default_fields fields_list ipv4_fields in
      bindP (read_switch sai [''lag_hash_ipv4'']) (\<lambda>attr_list.
      bindP (liftP (attr_at attr_list ''SAI_SWITCH_ATTR_LAG_HASH_IPV4'')) (\<lambda>lag_hash_ipv4.
      thenP
        (if lag_hash_ipv4 = VInt 0
         then bindP (create_hash sai ''native_hash_field_list'' hash_fields_list) (\<lambda>i.
              thenP (store_lag4 i)
              (thenP (assert_that (i \<noteq> 0))
              (thenP (set_switch sai ''lag_hash_ipv4'' (VInt i))
              (assert_saved sai (VInt i) hash_fields_list))))
         else update_hash sai lag_hash_ipv4 ''native_hash_field_list'' hash_fields_list)
        (seed_step setupLagSeed sai seed))))"

section \<open>Set-up and release\<close>

definition TEST_ECMP_SEED :: int where "TEST_ECMP_SEED = 211"
definition TEST_LAG_SEED :: int where "TEST_LAG_SEED = 2557"

definition hash_setUp :: "'d sai_client \<Rightarrow> ('d hash_test, unit) py \<Rightarrow> ('d hash_test, unit) py" where
  "hash_setUp sai super_setUp =
     thenP super_setUp
     (thenP (store_ipv4 0) (thenP (store_ipv6 0) (thenP (store_lag4 0) (thenP (store_lag6 0)
     (thenP (setupECMPSeed sai TEST_ECMP_SEED) (setupLagSeed sai TEST_LAG_SEED))))))"

definition release_hash :: "'d sai_client \<Rightarrow> (('d hash_test) \<Rightarrow> int) \<Rightarrow> string \<Rightarrow> (int \<Rightarrow> ('d hash_test, unit) py)
    \<Rightarrow> ('d hash_test, unit) py" where
  "release_hash sai id_of k store = bindP getP (\<lambda>s.
     if id_of s \<noteq> 0
     then thenP (set_switch sai k (VInt 0))
          (thenP (on_client (sai_remove sai ''hash'' (VInt (id_of s))))
          (store 0))
     else retP ())"

definition hash_tearDown :: "'d sai_client \<Rightarrow> ('d hash_test, unit) py \<Rightarrow> ('d hash_test, unit) py" where
  "hash_tearDown sai super_tearDown = finallyP
     (thenP (release_hash sai ht_ipv6_hash_id ''ecmp_hash_ipv6'' store_ipv6)
     (thenP (release_hash sai ht_ipv4_hash_id ''ecmp_hash_ipv4'' store_ipv4)
     (thenP (release_hash sai ht_lag_hash_ipv4 ''lag_hash_ipv4'' store_lag4)
     (release_hash sai ht_lag_hash_ipv6 ''lag_hash_ipv6'' store_lag6))))
     super_tearDown"

section \<open>What a session leaves on the device\<close>

text \<open>The steps of a test on the hashes of the switch.\<close>

datatype hash_op =
    NonIPECMP "int list option" | FGECMPIPv4 "int list option" "string option"
  | ECMPIPv4 "int list option" "int option" | ECMPIPv6 "int list option" "int option"
  | LAGIPv4 "int list option" "int option" | LAGIPv6 "int list option" "int option"
  | ECMPSeed int | LagSeed int | ECMPAlgorithm int | LagAlgorithm int

fun hash_step :: "'d sai_client \<Rightarrow> hash_op \<Rightarrow> ('d hash_test, unit) py" where
  "hash_step sai (NonIPECMP l) = setupNonIPECMPHash sai l"
| "hash_step sai (FGECMPIPv4 l m) = setupFGECMPIPv4Hash sai l m"
| "hash_step sai (ECMPIPv4 l seed) = setupECMPIPv4Hash sai l seed"
| "hash_step sai (ECMPIPv6 l seed) = setupECMPIPv6Hash sai l seed"
| "hash_step sai (LAGIPv4 l seed) = setupLAGIPv4Hash sai l seed"
| "hash_step sai (LAGIPv6 l seed) = setupLAGIPv6Hash sai l seed"
| "hash_step sai (ECMPSeed seed) = setupECMPSeed sai seed"
| "hash_step sai (LagSeed seed) = setupLagSeed sai seed"
| "hash_step sai (ECMPAlgorithm algo) = setupECMPAlgorithm sai algo"
| "hash_step sai (LagAlgorithm algo) = setupLagAlgorithm sai algo"

text \<open>The test runner calls \<open>setUp\<close>, the steps of the test, and \<open>tearDown\<close> when \<open>setUp\<close> returned.\<close>

definition hash_session :: "'d sai_client \<Rightarrow> ('d hash_test, unit) py \<Rightarrow> ('d hash_test, unit) py \<Rightarrow> hash_op list
    \<Rightarrow> ('d hash_test, unit) py" where
  "hash_session sai super_setUp super_tearDown ops =
     thenP (hash_setUp sai super_setUp) (finallyP (forP ops (hash_step sai)) (hash_tearDown sai super_tearDown))"

text \<open>What is relied on of the client: a created hash is new or the identifier is zero, a hash on the
  device can be removed, a hash attribute of the switch reads as it was last set and can always be
  reset, and no other call changes the hashes or those attributes. Every call may raise but the
  last two.\<close>

definition hash_slots :: "(string \<times> string) list" where
  "hash_slots = [(''ecmp_hash_ipv4'', ''SAI_SWITCH_ATTR_ECMP_HASH_IPV4''), (''ecmp_hash_ipv6'', ''SAI_SWITCH_ATTR_ECMP_HASH_IPV6''),
     (''lag_hash_ipv4'', ''SAI_SWITCH_ATTR_LAG_HASH_IPV4''), (''lag_hash_ipv6'', ''SAI_SWITCH_ATTR_LAG_HASH_IPV6'')]"

definition creates_hashes :: "'d sai_client \<Rightarrow> ('d \<Rightarrow> int set) \<Rightarrow> ('d \<Rightarrow> string \<Rightarrow> sai_val) \<Rightarrow> bool" where
  "creates_hashes sai hashes slot \<longleftrightarrow> (\<forall>a d r d'. sai_create sai ''hash'' a d = (r, d') \<longrightarrow> slot d' = slot d \<and>
     (case r of Inl _ \<Rightarrow> hashes d' = hashes d
      | Inr i \<Rightarrow> if i = 0 then hashes d' = hashes d else i \<notin> hashes d \<and> hashes d' = insert i (hashes d)))"

definition removes_hashes :: "'d sai_client \<Rightarrow> ('d \<Rightarrow> int set) \<Rightarrow> ('d \<Rightarrow> string \<Rightarrow> sai_val) \<Rightarrow> bool" where
  "removes_hashes sai hashes slot \<longleftrightarrow> (\<forall>i d. i \<in> hashes d \<longrightarrow>
     (\<exists>d'. sai_remove sai ''hash'' (VInt i) d = (Inr (), d') \<and> slot d' = slot d \<and> hashes d' = hashes d - {i}))"

definition sets_slots :: "'d sai_client \<Rightarrow> ('d \<Rightarrow> int set) \<Rightarrow> ('d \<Rightarrow> string \<Rightarrow> sai_val) \<Rightarrow> bool" where
  "sets_slots sai hashes slot \<longleftrightarrow> (\<forall>k v d r d'. sai_set sai ''switch'' VNone [(k, v)] d = (r, d') \<longrightarrow> hashes d' = hashes d
     \<and> (case r of Inl _ \<Rightarrow> slot d' = slot d \<and> (k \<in> fst ` set hash_slots \<longrightarrow> v \<noteq> VInt 0) | Inr _ \<Rightarrow> slot d' = (slot d)(k := v)))"

definition keeps_slots :: "('d \<Rightarrow> int set) \<Rightarrow> ('d \<Rightarrow> string \<Rightarrow> sai_val) \<Rightarrow> ('d, 'a) py \<Rightarrow> bool" where
  "keeps_slots hashes slot m \<longleftrightarrow> (\<forall>d r d'. m d = (r, d') \<longrightarrow> slot d' = slot d \<and> hashes d' = hashes d)"

definition reads_slots :: "'d sai_client \<Rightarrow> ('d \<Rightarrow> string \<Rightarrow> sai_val) \<Rightarrow> bool" where
  "reads_slots sai slot \<longleftrightarrow> (\<forall>ks d r d' k name v.
     sai_get sai ''switch'' VNone (map (\<lambda>k. (k, VBool True)) ks) d = (Inr r, d') \<longrightarrow> (k, name) \<in> set hash_slots \<longrightarrow>
     k \<in> set ks \<longrightarrow> attr_at r name = Inr v \<longrightarrow> v = slot d k)"

definition hash_device :: "'d sai_client \<Rightarrow> ('d \<Rightarrow> int set) \<Rightarrow> ('d \<Rightarrow> string \<Rightarrow> sai_val) \<Rightarrow> bool" where
  "hash_device sai hashes slot \<longleftrightarrow> creates_hashes sai hashes slot \<and> removes_hashes sai hashes slot \<and> sets_slots sai hashes slot
     \<and> reads_slots sai slot \<and> (\<forall>a. keeps_slots hashes slot (sai_create sai ''fine_grained_hash_field'' a))
     \<and> (\<forall>h a. keeps_slots hashes slot (sai_set sai ''hash'' h a)) \<and> (\<forall>ty h a. keeps_slots hashes slot (sai_get sai ty h a))"

definition keeps_hashes :: "('d \<Rightarrow> int set) \<Rightarrow> ('d hash_test, unit) py \<Rightarrow> bool" where
  "keeps_hashes hashes m \<longleftrightarrow> (\<forall>s. hashes (ht_dev (snd (m s))) = hashes (ht_dev s))"

definition hash_ids :: "'d hash_test \<Rightarrow> string \<Rightarrow> int" where
  "hash_ids s k = (if k = ''ecmp_hash_ipv4'' then ht_ipv4_hash_id s else if k = ''ecmp_hash_ipv6'' then ht_ipv6_hash_id s
     else if k = ''lag_hash_ipv4'' then ht_lag_hash_ipv4 s else if k = ''lag_hash_ipv6'' then ht_lag_hash_ipv6 s else 0)"

definition put_id :: "string \<Rightarrow> int \<Rightarrow> ('d hash_test, unit) py" where
  "put_id k i = (if k = ''ecmp_hash_ipv4'' then store_ipv4 i else if k = ''ecmp_hash_ipv6'' then store_ipv6 i
     else if k = ''lag_hash_ipv4'' then store_lag4 i else store_lag6 i)"

definition slot_names :: "string set" where "slot_names = fst ` set hash_slots"

lemma slot_names_eq: "slot_names = {''ecmp_hash_ipv4'', ''ecmp_hash_ipv6'', ''lag_hash_ipv4'', ''lag_hash_ipv6''}"
  by (simp add: slot_names_def hash_slots_def)

lemma put_id_run: "k \<in> slot_names \<Longrightarrow> \<exists>t. put_id k i s = (Inr (), t) \<and> hash_ids t = (hash_ids s)(k := i) \<and> ht_dev t = ht_dev s"
  by (auto simp: slot_names_eq put_id_def store_ipv4_def store_ipv6_def store_lag4_def store_lag6_def hash_ids_def fun_eq_iff)

lemma put_id_simps: "store_ipv4 = put_id ''ecmp_hash_ipv4''" "store_ipv6 = put_id ''ecmp_hash_ipv6''"
  "store_lag4 = put_id ''lag_hash_ipv4''" "store_lag6 = put_id ''lag_hash_ipv6''"
  by (simp_all add: put_id_def fun_eq_iff)

lemma hash_ids_other: "k \<notin> slot_names \<Longrightarrow> hash_ids s k = 0"
  by (simp add: slot_names_eq hash_ids_def)

lemma hash_ids_dev [simp]: "hash_ids (s\<lparr>ht_dev := d\<rparr>) = hash_ids s"
  by (simp add: hash_ids_def fun_eq_iff)

text \<open>The hashes on the device are those from before and the recorded ones, all different.\<close>

definition own :: "('d \<Rightarrow> int set) \<Rightarrow> int set \<Rightarrow> 'd hash_test \<Rightarrow> bool" where
  "own hashes H s \<longleftrightarrow> hashes (ht_dev s) = H \<union> (range (hash_ids s) - {0}) \<and> H \<inter> (range (hash_ids s) - {0}) = {}
     \<and> (\<forall>j k. hash_ids s j = hash_ids s k \<longrightarrow> j = k \<or> hash_ids s j = 0)"

text \<open>A recorded hash is the one the switch uses.\<close>

definition hooked :: "('d \<Rightarrow> string \<Rightarrow> sai_val) \<Rightarrow> 'd hash_test \<Rightarrow> string set \<Rightarrow> bool" where
  "hooked slot s K \<longleftrightarrow> (\<forall>k\<in>K. hash_ids s k \<noteq> 0 \<longrightarrow> slot (ht_dev s) k \<noteq> VInt 0)"

definition good :: "('d \<Rightarrow> int set) \<Rightarrow> ('d \<Rightarrow> string \<Rightarrow> sai_val) \<Rightarrow> int set \<Rightarrow> 'd hash_test \<Rightarrow> bool" where
  "good hashes slot H s \<longleftrightarrow> own hashes H s \<and> hooked slot s UNIV"

text \<open>The state between the creation of a hash for \<open>k\<close> and its announcement to the switch.\<close>

definition pending :: "('d \<Rightarrow> int set) \<Rightarrow> ('d \<Rightarrow> string \<Rightarrow> sai_val) \<Rightarrow> int set \<Rightarrow> string \<Rightarrow> int \<Rightarrow> 'd hash_test \<Rightarrow> bool" where
  "pending hashes slot H k i s \<longleftrightarrow> own hashes H s \<and> hooked slot s (- {k}) \<and> hash_ids s k = i"

lemma own_dev: "hashes d = hashes (ht_dev s) \<Longrightarrow> own hashes H (s\<lparr>ht_dev := d\<rparr>) = own hashes H s"
  by (simp add: own_def)

lemma hooked_dev: "slot d = slot (ht_dev s) \<Longrightarrow> hooked slot (s\<lparr>ht_dev := d\<rparr>) K = hooked slot s K"
  by (simp add: hooked_def)

lemma on_client_keeps:
  assumes "\<And>d r d'. m d = (r, d') \<Longrightarrow> slot d' = slot d \<and> hashes d' = hashes d"
  shows "triple (good hashes slot H) (on_client m) (\<lambda>_. good hashes slot H) (own hashes H)"
    "triple (pending hashes slot H k i) (on_client m) (\<lambda>_. pending hashes slot H k i) (own hashes H)"
proof -
  have *: "own hashes H (s\<lparr>ht_dev := d\<rparr>) = own hashes H s \<and> hooked slot (s\<lparr>ht_dev := d\<rparr>) K = hooked slot s K"
    if "m (ht_dev s) = (r, d)" for s :: "'a hash_test" and r d K
    using assms [OF that] by (simp add: own_dev hooked_dev)
  show "triple (good hashes slot H) (on_client m) (\<lambda>_. good hashes slot H) (own hashes H)"
    by (rule tripleI) (auto simp: on_client_def good_def * split: prod.splits sum.splits)
  show "triple (pending hashes slot H k i) (on_client m) (\<lambda>_. pending hashes slot H k i) (own hashes H)"
    by (rule tripleI) (auto simp: on_client_def pending_def * split: prod.splits sum.splits)
qed

lemma assert_that_rule: "(\<And>s. P s \<Longrightarrow> E s) \<Longrightarrow> triple P (assert_that b) (\<lambda>_. P) E"
  by (auto simp: triple_def assert_that_def)

lemma assert_success_rule: "(\<And>s. P s \<Longrightarrow> E s) \<Longrightarrow> triple P (assert_success sai) (\<lambda>_. P) E"
  by (auto simp: triple_def assert_success_def assert_that_def)

lemma good_own: "good hashes slot H s \<Longrightarrow> own hashes H s"
  and pending_own: "pending hashes slot H k i s \<Longrightarrow> own hashes H s"
  by (simp_all add: good_def pending_def)

lemma assert_saved_rule:
  assumes "hash_device sai hashes slot"
  shows "triple (good hashes slot H) (assert_saved sai h l) (\<lambda>_. good hashes slot H) (own hashes H)"
  unfolding assert_saved_def verifyHashFieldsList_def
  by (intro triple_bind [OF triple_bind [OF on_client_keeps(1) triple_bind [OF triple_lift triple_ret]] assert_that_rule])
    (use assms in \<open>auto simp: hash_device_def keeps_slots_def good_own\<close>)

lemma update_hash_rule:
  assumes "hash_device sai hashes slot"
  shows "triple (good hashes slot H) (update_hash sai h k l) (\<lambda>_. good hashes slot H) (own hashes H)"
  unfolding update_hash_def
  by (intro triple_then [OF on_client_keeps(1) assert_success_rule])
    (use assms in \<open>auto simp: hash_device_def keeps_slots_def good_own\<close>)

lemma device_set:
  assumes "hash_device sai hashes slot" "sai_set sai ''switch'' VNone [(k, v)] d = (q, d')"
  shows "hashes d' = hashes d
    \<and> (case q of Inl _ \<Rightarrow> slot d' = slot d \<and> (k \<in> slot_names \<longrightarrow> v \<noteq> VInt 0) | Inr _ \<Rightarrow> slot d' = (slot d)(k := v))"
  using assms unfolding hash_device_def sets_slots_def slot_names_def by blast

lemma set_switch_dev:
  assumes "hash_device sai hashes slot" "set_switch sai k v s = (r, t)"
  shows "\<exists>d. t = s\<lparr>ht_dev := d\<rparr> \<and> hashes d = hashes (ht_dev s)
    \<and> (case r of Inl _ \<Rightarrow> slot d = slot (ht_dev s) \<and> (k \<in> slot_names \<longrightarrow> v \<noteq> VInt 0) | Inr _ \<Rightarrow> slot d = (slot (ht_dev s))(k := v))"
proof -
  obtain d where d: "sai_set sai ''switch'' VNone [(k, v)] (ht_dev s) = (r, d)" "t = s\<lparr>ht_dev := d\<rparr>"
    using assms(2) by (auto simp: set_switch_def on_client_def split: prod.splits)
  show ?thesis
    using device_set [OF assms(1) d(1)] d(2) by blast
qed

lemma set_other_rule:
  assumes "hash_device sai hashes slot" "k \<notin> slot_names"
  shows "triple (good hashes slot H) (set_switch sai k v) (\<lambda>_. good hashes slot H) (own hashes H)"
proof (rule tripleI)
  fix s r t assume s: "good hashes slot H s" and r: "set_switch sai k v s = (r, t)"
  obtain d where d: "t = s\<lparr>ht_dev := d\<rparr>" "hashes d = hashes (ht_dev s)"
      "case r of Inl _ \<Rightarrow> slot d = slot (ht_dev s) | Inr _ \<Rightarrow> slot d = (slot (ht_dev s))(k := v)"
    using set_switch_dev [OF assms(1) r] by (cases r) auto
  have "own hashes H t" using s d by (simp add: good_def own_dev)
  moreover have "r = Inr x \<Longrightarrow> hooked slot t UNIV" for x
    using s d hash_ids_other [OF assms(2)] by (auto simp: good_def hooked_def)
  ultimately show "case r of Inl _ \<Rightarrow> own hashes H t | Inr _ \<Rightarrow> good hashes slot H t"
    by (auto simp: good_def split: sum.splits)
qed

lemma announce_rule:
  assumes "hash_device sai hashes slot" "k \<in> slot_names"
  shows "triple (pending hashes slot H k i) (set_switch sai k (VInt i)) (\<lambda>_. good hashes slot H) (own hashes H)"
proof (rule tripleI)
  fix s r t assume s: "pending hashes slot H k i s" and r: "set_switch sai k (VInt i) s = (r, t)"
  obtain d where d: "t = s\<lparr>ht_dev := d\<rparr>" "hashes d = hashes (ht_dev s)"
      "case r of Inl _ \<Rightarrow> slot d = slot (ht_dev s) | Inr _ \<Rightarrow> slot d = (slot (ht_dev s))(k := VInt i)"
    using set_switch_dev [OF assms(1) r] by (cases r) auto
  have "own hashes H t" using s d by (simp add: pending_def own_dev)
  moreover have "r = Inr x \<Longrightarrow> hooked slot t UNIV" for x
    using s d by (auto simp: pending_def hooked_def)
  ultimately show "case r of Inl _ \<Rightarrow> own hashes H t | Inr _ \<Rightarrow> good hashes slot H t"
    by (auto simp: good_def split: sum.splits)
qed

definition unused :: "('d \<Rightarrow> int set) \<Rightarrow> ('d \<Rightarrow> string \<Rightarrow> sai_val) \<Rightarrow> int set \<Rightarrow> string \<Rightarrow> 'd hash_test \<Rightarrow> bool" where
  "unused hashes slot H k s \<longleftrightarrow> good hashes slot H s \<and> hash_ids s k = 0"

lemma own_put:
  assumes "own hashes H s" "hash_ids s k = 0" "hashes d = (if i = 0 then hashes (ht_dev s) else insert i (hashes (ht_dev s)))"
    "i \<noteq> 0 \<Longrightarrow> i \<notin> hashes (ht_dev s)" "hash_ids t = (hash_ids s)(k := i)" "ht_dev t = d"
  shows "own hashes H t"
proof -
  have r: "range (hash_ids t) - {0} = (if i = 0 then range (hash_ids s) - {0} else insert i (range (hash_ids s) - {0}))"
    using assms(2,5) by (auto simp: image_iff fun_upd_def split: if_splits) (metis+)?
  have n: "i \<noteq> 0 \<Longrightarrow> i \<notin> H \<and> i \<notin> range (hash_ids s)" using assms(1,4) by (auto simp: own_def)
  have "hashes (ht_dev t) = H \<union> (range (hash_ids t) - {0})" using assms(1,3,6) by (auto simp: r own_def)
  moreover have "H \<inter> (range (hash_ids t) - {0}) = {}" using assms(1) n by (auto simp: r own_def)
  moreover have "\<forall>j l. hash_ids t j = hash_ids t l \<longrightarrow> j = l \<or> hash_ids t j = 0"
  proof (intro allI impI)
    fix j l assume e: "hash_ids t j = hash_ids t l"
    show "j = l \<or> hash_ids t j = 0"
      using e n assms(1) unfolding assms(5) own_def fun_upd_def by (metis rangeI)
  qed
  ultimately show ?thesis by (simp add: own_def)
qed

lemma create_rule:
  assumes D: "hash_device sai hashes slot" and k: "k \<in> slot_names"
    and f: "\<And>i. triple (pending hashes slot H k i) (f i) Q (own hashes H)"
  shows "triple (unused hashes slot H k) (bindP (create_hash sai kk l) (\<lambda>i. thenP (put_id k i) (f i))) Q (own hashes H)"
proof (rule tripleI)
  fix s r t
  assume s: "unused hashes slot H k s" and m: "bindP (create_hash sai kk l) (\<lambda>i. thenP (put_id k i) (f i)) s = (r, t)"
  obtain q d where q: "sai_create sai ''hash'' [(kk, VList l)] (ht_dev s) = (q, d)" by fastforce
  then have c: "create_hash sai kk l s = (q, s\<lparr>ht_dev := d\<rparr>)" by (simp add: create_hash_def on_client_def)
  have law: "slot d = slot (ht_dev s) \<and> (case q of Inl _ \<Rightarrow> hashes d = hashes (ht_dev s)
      | Inr i \<Rightarrow> if i = 0 then hashes d = hashes (ht_dev s) else i \<notin> hashes (ht_dev s) \<and> hashes d = insert i (hashes (ht_dev s)))"
    using D q unfolding hash_device_def creates_hashes_def by blast
  show "case r of Inl _ \<Rightarrow> own hashes H t | Inr x \<Rightarrow> Q x t"
  proof (cases q)
    case (Inl e)
    then show ?thesis using m c law s by (auto simp: bindP_apply unused_def good_def own_dev)
  next
    case (Inr i)
    obtain u where u: "put_id k i (s\<lparr>ht_dev := d\<rparr>) = (Inr (), u)" "hash_ids u = (hash_ids s)(k := i)" "ht_dev u = d"
      using put_id_run [OF k, of i "s\<lparr>ht_dev := d\<rparr>"] by auto
    have "own hashes H u"
      by (rule own_put [of _ _ s k _ i]) (use s law Inr u in \<open>auto simp: unused_def good_def split: if_splits\<close>)
    moreover have "hooked slot u (- {k})" using s law u by (auto simp: unused_def good_def hooked_def)
    ultimately have "pending hashes slot H k i u" using u by (simp add: pending_def)
    moreover have "f i u = (r, t)" using m c Inr u(1) by (simp add: bindP_Inr thenP_Inr)
    ultimately show ?thesis using tripleD [OF f] by blast
  qed
qed

text \<open>When the switch uses no hash in a place, none is recorded for it.\<close>

lemma read_slot_rule:
  assumes D: "hash_device sai hashes slot" and k: "(k, name) \<in> set hash_slots" "k \<in> set ks"
    and f: "\<And>v. triple (\<lambda>s. good hashes slot H s \<and> (v = VInt 0 \<longrightarrow> hash_ids s k = 0)) (f v) Q (own hashes H)"
  shows "triple (good hashes slot H) (bindP (read_switch sai ks) (\<lambda>a. bindP (liftP (attr_at a name)) f)) Q (own hashes H)"
proof (rule tripleI)
  fix s r t
  assume s: "good hashes slot H s" and m: "bindP (read_switch sai ks) (\<lambda>a. bindP (liftP (attr_at a name)) f) s = (r, t)"
  obtain q d where q: "sai_get sai ''switch'' VNone (map (\<lambda>k. (k, VBool True)) ks) (ht_dev s) = (q, d)" by fastforce
  then have c: "read_switch sai ks s = (q, s\<lparr>ht_dev := d\<rparr>)" by (simp add: read_switch_def on_client_def)
  have law: "slot d = slot (ht_dev s)" "hashes d = hashes (ht_dev s)"
    using D q unfolding hash_device_def keeps_slots_def by blast+
  then have g: "good hashes slot H (s\<lparr>ht_dev := d\<rparr>)" using s by (simp add: good_def own_dev hooked_dev)
  show "case r of Inl _ \<Rightarrow> own hashes H t | Inr x \<Rightarrow> Q x t"
  proof (cases q)
    case (Inl e)
    then show ?thesis using m c g by (auto simp: bindP_apply good_def)
  next
    case (Inr a)
    show ?thesis
    proof (cases "attr_at a name")
      case (Inl e)
      then show ?thesis using m c g Inr by (auto simp: bindP_apply good_def)
    next
      case v: (Inr v)
      have "v = slot (ht_dev s) k"
        using D q Inr v k unfolding hash_device_def reads_slots_def by blast
      then have "v = VInt 0 \<longrightarrow> hash_ids (s\<lparr>ht_dev := d\<rparr>) k = 0" using s by (auto simp: good_def hooked_def)
      moreover have "f v (s\<lparr>ht_dev := d\<rparr>) = (r, t)" using m c Inr v by (simp add: bindP_apply)
      ultimately show ?thesis using tripleD [OF f] g by blast
    qed
  qed
qed

lemma pending_assert: "triple (pending hashes slot H k i) (assert_that b) (\<lambda>_. pending hashes slot H k i) (own hashes H)"
  by (rule assert_that_rule) (rule pending_own)

lemma good_success: "triple (good hashes slot H) (assert_success sai) (\<lambda>_. good hashes slot H) (own hashes H)"
  by (rule assert_success_rule) (rule good_own)

lemma seed_rule:
  assumes "hash_device sai hashes slot"
  shows "triple (good hashes slot H) (seed_step setupECMPSeed sai seed) (\<lambda>_. good hashes slot H) (own hashes H)"
    "triple (good hashes slot H) (seed_step setupLagSeed sai seed) (\<lambda>_. good hashes slot H) (own hashes H)"
  by (cases seed; auto simp: seed_step_def setupECMPSeed_def setupLagSeed_def slot_names_eq
      intro!: triple_ret set_other_rule [OF assms])+

text \<open>Either a hash is made for the place, or the one there is given the new fields.\<close>

lemma place_rule:
  assumes D: "hash_device sai hashes slot" and k: "k \<in> slot_names"
    and f: "\<And>i. triple (pending hashes slot H k i) (f i) (\<lambda>_. good hashes slot H) (own hashes H)"
  shows "triple (\<lambda>s. good hashes slot H s \<and> (v = VInt 0 \<longrightarrow> hash_ids s k = 0))
     (if v = VInt 0 then bindP (create_hash sai kk l) (\<lambda>i. thenP (put_id k i) (f i)) else update_hash sai v kk l)
     (\<lambda>_. good hashes slot H) (own hashes H)"
  by (rule triple_if)
    (auto simp: unused_def intro: triple_weaken [OF create_rule [OF D k f]] triple_weaken [OF update_hash_rule [OF D]])

lemma slot_at: "(''ecmp_hash_ipv4'', ''SAI_SWITCH_ATTR_ECMP_HASH_IPV4'') \<in> set hash_slots"
    "(''ecmp_hash_ipv6'', ''SAI_SWITCH_ATTR_ECMP_HASH_IPV6'') \<in> set hash_slots"
    "(''lag_hash_ipv4'', ''SAI_SWITCH_ATTR_LAG_HASH_IPV4'') \<in> set hash_slots"
    "(''lag_hash_ipv6'', ''SAI_SWITCH_ATTR_LAG_HASH_IPV6'') \<in> set hash_slots"
  by (simp_all add: hash_slots_def)

lemma in_slot_names: "(k, name) \<in> set hash_slots \<Longrightarrow> k \<in> slot_names"
  by (force simp: slot_names_def)

lemma announce_saved_rule:
  assumes D: "hash_device sai hashes slot" and k: "k \<in> slot_names"
  shows "triple (pending hashes slot H k i)
     (thenP (assert_that (i \<noteq> 0)) (thenP (set_switch sai k (VInt i)) (assert_saved sai (VInt i) l)))
     (\<lambda>_. good hashes slot H) (own hashes H)"
  by (intro triple_then [OF pending_assert] triple_then [OF announce_rule [OF D k]] assert_saved_rule [OF D])

lemma setups_rule:
  assumes D: "hash_device sai hashes slot"
  shows ecmp4_rule: "triple (good hashes slot H) (setupECMPIPv4Hash sai l seed) (\<lambda>_. good hashes slot H) (own hashes H)"
    and ecmp6_rule: "triple (good hashes slot H) (setupECMPIPv6Hash sai l seed) (\<lambda>_. good hashes slot H) (own hashes H)"
    and lag4_rule: "triple (good hashes slot H) (setupLAGIPv4Hash sai l seed) (\<lambda>_. good hashes slot H) (own hashes H)"
    and lag6_rule: "triple (good hashes slot H) (setupLAGIPv6Hash sai l seed) (\<lambda>_. good hashes slot H) (own hashes H)"
  unfolding setupECMPIPv4Hash_def setupECMPIPv6Hash_def setupLAGIPv4Hash_def setupLAGIPv6Hash_def Let_def put_id_simps
  by (rule read_slot_rule [OF D slot_at(1)], simp,
      rule triple_then [OF place_rule [OF D in_slot_names [OF slot_at(1)] announce_saved_rule [OF D in_slot_names [OF slot_at(1)]]] seed_rule(1) [OF D]])
    (rule read_slot_rule [OF D slot_at(2)], simp,
      rule triple_then [OF place_rule [OF D in_slot_names [OF slot_at(2)]] seed_rule(1) [OF D]],
      intro triple_then [OF pending_assert] triple_then [OF announce_rule [OF D in_slot_names [OF slot_at(2)]]]
        triple_then [OF good_success] assert_saved_rule [OF D],
     rule read_slot_rule [OF D slot_at(3)], simp,
      rule triple_then [OF place_rule [OF D in_slot_names [OF slot_at(3)] announce_saved_rule [OF D in_slot_names [OF slot_at(3)]]] seed_rule(2) [OF D]],
     rule read_slot_rule [OF D slot_at(4)], simp,
      rule triple_then [OF place_rule [OF D in_slot_names [OF slot_at(4)] announce_saved_rule [OF D in_slot_names [OF slot_at(4)]]] seed_rule(2) [OF D]])

lemma good_keeps:
  assumes "keeps_slots hashes slot m"
  shows "triple (good hashes slot H) (on_client m) (\<lambda>_. good hashes slot H) (own hashes H)"
  using assms by (intro on_client_keeps(1)) (simp add: keeps_slots_def)

lemma non_ip_rule:
  assumes D: "hash_device sai hashes slot"
  shows "triple (good hashes slot H) (setupNonIPECMPHash sai l) (\<lambda>_. good hashes slot H) (own hashes H)"
  unfolding setupNonIPECMPHash_def read_switch_def Let_def
  by (intro triple_bind [OF good_keeps] triple_bind [where R = "\<lambda>_. good hashes slot H", OF triple_lift]
      triple_then [where R = "\<lambda>_. good hashes slot H", OF assert_that_rule]
      triple_then [OF update_hash_rule [OF D]] assert_saved_rule [OF D])
    (use D in \<open>auto simp: hash_device_def good_own\<close>)

lemma fg_field_rule:
  assumes D: "hash_device sai hashes slot"
  shows "triple (\<lambda>s. good hashes slot H s \<and> (v = VInt 0 \<longrightarrow> hash_ids s k = 0)) (create_fg_field sai m f)
     (\<lambda>_ s. good hashes slot H s \<and> (v = VInt 0 \<longrightarrow> hash_ids s k = 0)) (own hashes H)"
proof (rule tripleI)
  fix s r t
  assume s: "good hashes slot H s \<and> (v = VInt 0 \<longrightarrow> hash_ids s k = 0)" and m: "create_fg_field sai m f s = (r, t)"
  obtain a where a: "create_fg_field sai m f = on_client (sai_create sai ''fine_grained_hash_field'' a)"
    by (cases "f = SAI_NATIVE_HASH_FIELD_SRC_IP \<or> f = SAI_NATIVE_HASH_FIELD_DST_IP") (auto simp: create_fg_field_def Let_def)
  have "triple (good hashes slot H) (create_fg_field sai m f) (\<lambda>_. good hashes slot H) (own hashes H)"
    unfolding a using D by (intro good_keeps) (simp add: hash_device_def)
  from tripleD [OF this _ m] s have "case r of Inl _ \<Rightarrow> own hashes H t | Inr _ \<Rightarrow> good hashes slot H t" by simp
  moreover have "hash_ids t = hash_ids s" using m unfolding a by (auto simp: on_client_def split: prod.splits)
  ultimately show "case r of Inl _ \<Rightarrow> own hashes H t | Inr _ \<Rightarrow> good hashes slot H t \<and> (v = VInt 0 \<longrightarrow> hash_ids t k = 0)"
    using s by (cases r) auto
qed

lemma fg_rule:
  assumes D: "hash_device sai hashes slot"
  shows "triple (good hashes slot H) (setupFGECMPIPv4Hash sai l m) (\<lambda>_. good hashes slot H) (own hashes H)"
  unfolding setupFGECMPIPv4Hash_def Let_def put_id_simps
  by (rule read_slot_rule [OF D slot_at(1)], simp)
    (intro triple_bind [OF triple_map] fg_field_rule [OF D] place_rule [OF D in_slot_names [OF slot_at(1)]]
      announce_rule [OF D in_slot_names [OF slot_at(1)]])

lemma step_rule:
  assumes "hash_device sai hashes slot"
  shows "triple (good hashes slot H) (hash_step sai op) (\<lambda>_. good hashes slot H) (own hashes H)"
  by (cases op) (use assms in \<open>auto simp: setupECMPSeed_def setupLagSeed_def setupECMPAlgorithm_def setupLagAlgorithm_def
      slot_names_eq intro!: non_ip_rule fg_rule setups_rule set_other_rule\<close>)

lemma id_of_simps: "ht_ipv4_hash_id = (\<lambda>s. hash_ids s ''ecmp_hash_ipv4'')" "ht_ipv6_hash_id = (\<lambda>s. hash_ids s ''ecmp_hash_ipv6'')"
  "ht_lag_hash_ipv4 = (\<lambda>s. hash_ids s ''lag_hash_ipv4'')" "ht_lag_hash_ipv6 = (\<lambda>s. hash_ids s ''lag_hash_ipv6'')"
  by (simp_all add: hash_ids_def fun_eq_iff)

lemma own_drop:
  assumes "own hashes H s" "hashes d = hashes (ht_dev s) - ({hash_ids s k} - {0})" "hash_ids t = (hash_ids s)(k := 0)" "ht_dev t = d"
  shows "own hashes H t"
proof -
  have r: "range (hash_ids t) - {0} = range (hash_ids s) - {0} - {hash_ids s k}"
  proof
    show "range (hash_ids t) - {0} \<subseteq> range (hash_ids s) - {0} - {hash_ids s k}"
      using assms(1,3) unfolding own_def by (auto simp: fun_upd_def split: if_splits) metis
    show "range (hash_ids s) - {0} - {hash_ids s k} \<subseteq> range (hash_ids t) - {0}"
      unfolding assms(3) fun_upd_def by (auto simp: image_iff)
  qed
  have "hashes (ht_dev t) = H \<union> (range (hash_ids t) - {0})" using assms(1,2,4) unfolding r own_def by auto
  moreover have "H \<inter> (range (hash_ids t) - {0}) = {}" using assms(1) unfolding r own_def by auto
  moreover have "\<forall>j l. hash_ids t j = hash_ids t l \<longrightarrow> j = l \<or> hash_ids t j = 0"
    using assms(1) unfolding assms(3) own_def fun_upd_def by metis
  ultimately show ?thesis by (simp add: own_def)
qed

lemma release_run:
  assumes D: "hash_device sai hashes slot" and k: "k \<in> slot_names" and s: "own hashes H s"
  shows "\<exists>t. release_hash sai (\<lambda>s. hash_ids s k) k (put_id k) s = (Inr (), t) \<and> own hashes H t \<and> hash_ids t = (hash_ids s)(k := 0)"
proof (cases "hash_ids s k = 0")
  case True
  then have "hash_ids s = (hash_ids s)(k := 0)" by auto
  then show ?thesis using True s by (auto simp: release_hash_def bindP_apply)
next
  case False
  obtain q u where u: "set_switch sai k (VInt 0) s = (q, u)" by fastforce
  from set_switch_dev [OF D u] obtain d where q: "u = s\<lparr>ht_dev := d\<rparr>" "hashes d = hashes (ht_dev s)" "q = Inr ()"
    using k by (cases q) auto
  with u have q': "set_switch sai k (VInt 0) s = (Inr (), s\<lparr>ht_dev := d\<rparr>)" by simp
  have "hash_ids s k \<in> hashes d" using s False q(2) by (auto simp: own_def)
  then obtain d' where d': "sai_remove sai ''hash'' (VInt (hash_ids s k)) d = (Inr (), d')" "hashes d' = hashes d - {hash_ids s k}"
    using D unfolding hash_device_def removes_hashes_def by blast
  obtain t where t: "put_id k 0 (s\<lparr>ht_dev := d'\<rparr>) = (Inr (), t)" "hash_ids t = (hash_ids s)(k := 0)" "ht_dev t = d'"
    using put_id_run [OF k, of 0 "s\<lparr>ht_dev := d'\<rparr>"] by auto
  have "own hashes H t" by (rule own_drop [OF s, of d' k]) (use d' q t False in auto)
  moreover have "release_hash sai (\<lambda>s. hash_ids s k) k (put_id k) s = (Inr (), t)"
    using False q' d'(1) t(1) by (simp add: release_hash_def bindP_apply thenP_apply on_client_def)
  ultimately show ?thesis using t(2) by blast
qed

lemma own_zero: "own hashes H s \<Longrightarrow> hash_ids s = (\<lambda>_. 0) \<Longrightarrow> hashes (ht_dev s) = H"
  by (auto simp: own_def)

lemma tearDown_run:
  assumes D: "hash_device sai hashes slot" and td: "keeps_hashes hashes td" and s: "own hashes H s"
  shows "hashes (ht_dev (snd (hash_tearDown sai td s))) = H"
proof -
  let ?R = "\<lambda>k. release_hash sai (\<lambda>s. hash_ids s k) k (put_id k)"
  obtain t1 where t1: "?R ''ecmp_hash_ipv6'' s = (Inr (), t1)" "own hashes H t1" "hash_ids t1 = (hash_ids s)(''ecmp_hash_ipv6'' := 0)"
    using release_run [OF D in_slot_names [OF slot_at(2)] s] by blast
  obtain t2 where t2: "?R ''ecmp_hash_ipv4'' t1 = (Inr (), t2)" "own hashes H t2" "hash_ids t2 = (hash_ids t1)(''ecmp_hash_ipv4'' := 0)"
    using release_run [OF D in_slot_names [OF slot_at(1)] t1(2)] by blast
  obtain t3 where t3: "?R ''lag_hash_ipv4'' t2 = (Inr (), t3)" "own hashes H t3" "hash_ids t3 = (hash_ids t2)(''lag_hash_ipv4'' := 0)"
    using release_run [OF D in_slot_names [OF slot_at(3)] t2(2)] by blast
  obtain t4 where t4: "?R ''lag_hash_ipv6'' t3 = (Inr (), t4)" "own hashes H t4" "hash_ids t4 = (hash_ids t3)(''lag_hash_ipv6'' := 0)"
    using release_run [OF D in_slot_names [OF slot_at(4)] t3(2)] by blast
  have "hash_ids t4 = (\<lambda>_. 0)"
    using hash_ids_other [of _ s] unfolding t4(3) t3(3) t2(3) t1(3) slot_names_eq fun_eq_iff by auto
  then have "hashes (ht_dev t4) = H" by (rule own_zero [OF t4(2)])
  moreover have "snd (hash_tearDown sai td s) = snd (td t4)"
    using t1(1) t2(1) t3(1) t4(1)
    by (auto simp: hash_tearDown_def id_of_simps put_id_simps finallyP_def thenP_Inr split: prod.splits sum.splits)
  ultimately show ?thesis using td by (simp add: keeps_hashes_def)
qed

lemma good_zero: "hash_ids s = (\<lambda>_. 0) \<Longrightarrow> hashes (ht_dev s) = H \<Longrightarrow> good hashes slot H s"
  by (simp add: good_def own_def hooked_def)

lemma setUp_run:
  assumes D: "hash_device sai hashes slot" and su: "keeps_hashes hashes su" and r: "hash_setUp sai su s = (r, t)"
  shows "hashes (ht_dev t) = hashes (ht_dev s) \<and> (r = Inr () \<longrightarrow> good hashes slot (hashes (ht_dev s)) t)"
proof -
  let ?H = "hashes (ht_dev s)"
  let ?zero = "\<lambda>s. s\<lparr>ht_ipv4_hash_id := 0, ht_ipv6_hash_id := 0, ht_lag_hash_ipv4 := 0, ht_lag_hash_ipv6 := 0\<rparr>"
  have z: "hash_ids (?zero u) = (\<lambda>_. 0)" for u :: "'a hash_test" by (simp add: hash_ids_def fun_eq_iff)
  obtain q u where u: "su s = (q, u)" by fastforce
  then have hu: "hashes (ht_dev u) = ?H" using su [unfolded keeps_hashes_def, rule_format, of s] by simp
  show ?thesis
  proof (cases q)
    case (Inl e)
    with u r have "r = Inl e \<and> t = u" by (simp add: hash_setUp_def thenP_apply)
    with hu show ?thesis by simp
  next
    case (Inr x)
    with u r have run: "thenP (setupECMPSeed sai TEST_ECMP_SEED) (setupLagSeed sai TEST_LAG_SEED) (?zero u) = (r, t)"
      
      by (simp add: hash_setUp_def thenP_apply [of su] thenP_apply [of "modP _"] store_ipv4_def store_ipv6_def store_lag4_def store_lag6_def)
    have keep: "hashes (ht_dev v') = hashes (ht_dev v) \<and> hash_ids v' = hash_ids v" if "set_switch sai k x v = (p, v')" for k x v p v'
      using set_switch_dev [OF D that] by (elim exE conjE) simp
    obtain p v where v: "setupECMPSeed sai TEST_ECMP_SEED (?zero u) = (p, v)" by fastforce
    have v1: "hashes (ht_dev v) = ?H \<and> hash_ids v = (\<lambda>_. 0)"
      using keep [OF v [unfolded setupECMPSeed_def]] hu z by simp
    have "hashes (ht_dev t) = ?H \<and> hash_ids t = (\<lambda>_. 0)"
    proof (cases p)
      case (Inl e)
      with run v v1 show ?thesis by (simp add: thenP_apply)
    next
      case (Inr y)
      with run v have "setupLagSeed sai TEST_LAG_SEED v = (r, t)" by (simp add: thenP_apply)
      from keep [OF this [unfolded setupLagSeed_def]] v1 show ?thesis by simp
    qed
    then show ?thesis by (simp add: good_zero)
  qed
qed


text \<open>A device that keeps its hashes with their fields, its fine-grained fields and the attributes
  of the switch; every call succeeds.\<close>

record hash_sim =
  hs_hashes :: "(int \<times> sai_val) list"
  hs_fields :: "int list"
  hs_slot :: "string \<Rightarrow> sai_val"

definition sim_client :: "hash_sim sai_client" where
  "sim_client = \<lparr>
     sai_create = (\<lambda>ty a d. if ty = ''hash''
       then let i = fresh_id (map fst (hs_hashes d)) in (Inr i, d\<lparr>hs_hashes := hs_hashes d @ [(i, snd (hd a))]\<rparr>)
       else let i = fresh_id (hs_fields d) in (Inr i, d\<lparr>hs_fields := hs_fields d @ [i]\<rparr>)),
     sai_remove = (\<lambda>ty v d. (Inr (), if ty = ''hash'' then d\<lparr>hs_hashes := filter (\<lambda>(i, _). VInt i \<noteq> v) (hs_hashes d)\<rparr> else d)),
     sai_get = (\<lambda>ty v a d. (Inr (Some (if ty = ''switch'' then map (\<lambda>(k, name). (name, hs_slot d k)) hash_slots
         else map (\<lambda>(i, l). (''native_hash_field_list'', l)) (filter (\<lambda>(i, _). VInt i = v) (hs_hashes d)))), d)),
     sai_set = (\<lambda>ty v a d. (Inr (), if ty = ''hash'' then d\<lparr>hs_hashes := map (\<lambda>(i, l). (i, if VInt i = v then snd (hd a) else l)) (hs_hashes d)\<rparr>
         else d\<lparr>hs_slot := (hs_slot d)(fst (hd a) := snd (hd a))\<rparr>)),
     sai_status = (\<lambda>d. 0)\<rparr>"

definition sim_hashes :: "hash_sim \<Rightarrow> int set" where
  "sim_hashes d = set (map fst (hs_hashes d))"

lemma sim_slot_read: "attr_at (Some (map (\<lambda>(k, name). (name, f k)) hash_slots)) name = Inr v \<Longrightarrow> (k, name) \<in> set hash_slots \<Longrightarrow> v = f k"
  by (auto simp: attr_at_def od_get_def hash_slots_def split: if_splits)

lemma map_fst_keep: "map fst (map (\<lambda>(i, l). (i, f i l)) xs) = map fst xs"
  by (induction xs) auto

lemma sim_device: "hash_device sim_client sim_hashes hs_slot"
  unfolding hash_device_def
proof (intro conjI allI)
  show "creates_hashes sim_client sim_hashes hs_slot"
  proof -
    have "fresh_id l \<noteq> 0 \<and> fresh_id l \<notin> set l" for l using fresh_id_new [of l] by auto
    then show ?thesis by (simp add: creates_hashes_def sim_client_def sim_hashes_def Let_def flip: set_map)
  qed
  show "removes_hashes sim_client sim_hashes hs_slot"
    by (auto simp: removes_hashes_def sim_client_def sim_hashes_def)
  show "sets_slots sim_client sim_hashes hs_slot"
    by (auto simp: sets_slots_def sim_client_def sim_hashes_def)
  show "reads_slots sim_client hs_slot"
    unfolding reads_slots_def using sim_slot_read by (fastforce simp: sim_client_def)
qed (simp_all add: keeps_slots_def sim_client_def sim_hashes_def Let_def map_fst_keep del: map_map set_map)

definition demo_hash_test :: "hash_sim hash_test" where
  "demo_hash_test = \<lparr>ht_dev = \<lparr>hs_hashes = [(7, VList [0])], hs_fields = [], hs_slot = (\<lambda>_. VInt 0)\<rparr>,
     ht_ipv4_hash_id = 0, ht_ipv6_hash_id = 0, ht_lag_hash_ipv4 = 0, ht_lag_hash_ipv6 = 0\<rparr>"


text \<open>The fine-grained fields are not released: after a test that sets up the fine-grained hash the
  hash is gone, and the five objects made for its fields are still on the device, all with the
  same sequence number.\<close>

theorem fine_grained_fields_left:
  "hs_fields (ht_dev (snd (hash_session sim_client (retP ()) (retP ()) [FGECMPIPv4 None None] demo_hash_test))) = [1, 2, 3, 4, 5]
   \<and> hs_hashes (ht_dev (snd (hash_session sim_client (retP ()) (retP ()) [FGECMPIPv4 None None] demo_hash_test))) = [(7, VList [0])]"
  by code_simp

section \<open>The comparison of field lists\<close>

lemma found_in_iff: "found_in x l b \<longleftrightarrow> b \<or> x \<in> set l"
  by (induction l arbitrary: b) auto

lemma all_found_iff: "all_found l k \<longleftrightarrow> set l \<subseteq> set k"
  by (induction l) (auto simp: found_in_iff)

text \<open>C33 (equivalence). For a list of fields without repetitions, the comparison accepts exactly the lists
  that are the same up to order.\<close>

theorem same_fields_correct:
  assumes "distinct fields_list"
  shows "same_fields hash_fields_list fields_list \<longleftrightarrow> mset hash_fields_list = mset fields_list"
proof
  assume "same_fields hash_fields_list fields_list"
  then have l: "length hash_fields_list = length fields_list" and s: "set fields_list \<subseteq> set hash_fields_list"
    by (auto simp: same_fields_def all_found_iff split: if_splits)
  have c: "card (set fields_list) = length hash_fields_list" using assms l by (simp add: distinct_card)
  have "set fields_list = set hash_fields_list"
    by (rule card_subset_eq [OF _ s]) (use c card_length [of hash_fields_list] card_mono [OF _ s] in auto)
  moreover have "distinct hash_fields_list" using c calculation by (simp add: card_distinct)
  ultimately show "mset hash_fields_list = mset fields_list" using assms by (simp add: set_eq_iff_mset_eq_distinct)
next
  assume "mset hash_fields_list = mset fields_list"
  then show "same_fields hash_fields_list fields_list"
    by (auto simp: same_fields_def all_found_iff dest: mset_eq_length mset_eq_setD)
qed

theorem same_fields_correct_witness: "same_fields [8, 0, 1] [0, 1, 8] \<longleftrightarrow> mset [8, 0, 1 :: int] = mset [0, 1, 8]"
  by (rule same_fields_correct) simp

text \<open>With a repetition it accepts lists that differ.\<close>

theorem repeated_field_accepted: "same_fields [0, 1] [0, 0] \<and> mset [0, 1 :: int] \<noteq> mset [0, 0]"
  by (simp add: same_fields_def)

end
