(* ===== verification/PtfResources.thy ===== *)
theory PtfResources
  imports PtfHelpers PtfLpm PtfConstants Complex_Main "HOL-Library.Multiset"
begin

text \<open>
  The resource tests of \<open>ptf/saiswitch.py\<close>: the generators of random IP addresses and of MAC
  addresses, and the tests that fill a table of the switch (routes, neighbors, FDB, NAT, next hop
  groups and their members, ACL tables and groups, next hops) and remove what they created in a
  \<open>finally\<close> clause. The RPC client is a record of functions on the state of the device, as in
  \<open>PtfPorts\<close>, here with entries as structured keys; the attributes the base class sets up are a
  record of parameters.

  The local variables that a \<open>finally\<close> clause reads are fields of the state, empty when a test
  starts. Printing is left out.
\<close>

section \<open>Accepted error codes\<close>

definition switch_accepted_codes :: "int list" where
  "switch_accepted_codes = [SAI_STATUS_NOT_IMPLEMENTED]
     @ py_range SAI_STATUS_ATTR_NOT_IMPLEMENTED_MAX (SAI_STATUS_ATTR_NOT_IMPLEMENTED_0 + 1)
     @ py_range SAI_STATUS_UNKNOWN_ATTRIBUTE_MAX (SAI_STATUS_UNKNOWN_ATTRIBUTE_0 + 1)
     @ py_range SAI_STATUS_ATTR_NOT_SUPPORTED_MAX (SAI_STATUS_ATTR_NOT_SUPPORTED_0 + 1)"

definition switch_set_accepted_exception :: "adapter \<Rightarrow> adapter" where
  "switch_set_accepted_exception a = a\<lparr>ad_catch := True, ad_expected := switch_accepted_codes\<rparr>"

section \<open>Addresses\<close>

text \<open>The text of an address in the standard library: four decimal numbers, or eight hexadecimal
  groups of which the first longest run of two or more zeros is left out.\<close>

fun best_run :: "bool list \<Rightarrow> nat \<Rightarrow> nat \<times> nat \<Rightarrow> nat \<times> nat \<Rightarrow> nat \<times> nat" where
  "best_run [] i cur best = best"
| "best_run (z # zs) i (start, len) (bstart, blen) =
     (if z then let start = (if len = 0 then i else start); len = len + 1 in
        best_run zs (i + 1) (start, len) (if blen < len then (start, len) else (bstart, blen))
      else best_run zs (i + 1) (0, 0) (bstart, blen))"

definition ip6_text :: "nat \<Rightarrow> string" where
  "ip6_text n = (let gs = map (\<lambda>k. n div 65536 ^ k mod 65536) [7, 6, 5, 4, 3, 2, 1, 0];
       hs = map (digits_of 16) gs;
       (start, len) = best_run (map (\<lambda>g. g = 0) gs) 0 (0, 0) (0, 0)
     in if len < 2 then join '':'' hs
        else join '':'' (take start hs) @ ''::'' @ join '':'' (drop (start + len) hs))"

fun addr_text :: "addr \<Rightarrow> string" where
  "addr_text (A4 n) = dotted n"
| "addr_text (A6 n) = ip6_text n"

text \<open>The generator is the list of the addresses it still yields. \<open>draws\<close> are the numbers
  \<open>random.randint\<close> returns.\<close>

definition generate_ip_addr :: "(nat \<Rightarrow> nat) \<Rightarrow> int \<Rightarrow> bool \<Rightarrow> string list res" where
  "generate_ip_addr draws no_of_addr ipv6 =
     (let (lo, hi) = (if \<not> ipv6 then (A4 0x01000001, A4 0xFEFFFFFE)
                      else (A6 0x20010000000000000000000000000000, A6 0x20010DB8000000000000FFFFFFFFFFFF)) in
      bindR (IpInterval lo hi) (\<lambda>ip_interval.
      Inr (map (\<lambda>i. addr_text (get_random_ip ip_interval (draws i))) [0..<nat no_of_addr])))"

section \<open>MAC addresses\<close>

definition mac_hex :: "nat \<Rightarrow> string" where
  "mac_hex n = (if n < 16 then ''0'' @ digits_of 16 n else digits_of 16 n)"

definition mac_text :: "nat \<Rightarrow> nat \<Rightarrow> nat \<Rightarrow> nat \<Rightarrow> string" where
  "mac_text first_grp second_grp third_grp fourth_grp =
     ''00:00:'' @ mac_hex first_grp @ '':'' @ mac_hex second_grp @ '':'' @ mac_hex third_grp @ '':'' @ mac_hex fourth_grp"

text \<open>The four nested loops, with the counter \<open>i\<close> of the addresses made so far.\<close>

function mac_loop :: "nat \<Rightarrow> nat \<Rightarrow> nat \<Rightarrow> nat \<Rightarrow> int \<Rightarrow> int \<Rightarrow> string list" where
  "mac_loop first_grp second_grp third_grp fourth_grp i no_of_addr =
     (if 256 \<le> first_grp then []
      else if 256 \<le> second_grp then mac_loop (first_grp + 1) 1 1 1 i no_of_addr
      else if 256 \<le> third_grp then mac_loop first_grp (second_grp + 1) 1 1 i no_of_addr
      else if 256 \<le> fourth_grp then mac_loop first_grp second_grp (third_grp + 1) 1 i no_of_addr
      else mac_text first_grp second_grp third_grp fourth_grp #
        (if i + 1 = no_of_addr then []
         else mac_loop first_grp second_grp third_grp (fourth_grp + 1) (i + 1) no_of_addr))"
  by pat_completeness auto
termination by (relation "measures [\<lambda>(a, b, c, d, i, n). 256 - a, \<lambda>(a, b, c, d, i, n). 256 - b,
     \<lambda>(a, b, c, d, i, n). 256 - c, \<lambda>(a, b, c, d, i, n). 256 - d]") auto

declare mac_loop.simps [simp del]

definition generate_mac_list :: "int \<Rightarrow> string list" where
  "generate_mac_list no_of_addr = mac_loop 1 1 1 1 0 no_of_addr"

section \<open>The client and the tests\<close>

datatype res_val = RInt int | RBool bool | RStr string | RAddr ip_address_t | RList "int list"

type_synonym res_args = "(string \<times> res_val) list"

text \<open>Entries are named by their keys, other objects by a type and a number.\<close>

record nat_data =
  nd_src_ip :: "string option"
  nd_dst_ip :: "string option"
  nd_proto :: int
  nd_l4_src_port :: "int option"

datatype sai_obj =
    RouteEntry "int option" int "ip_prefix_t option"
  | NeighborEntry "int option" int ip_address_t
  | FdbEntry int string int
  | NatEntry int nat_data nat_data int
  | Oid string int

record acl_res =
  ar_stage :: int
  ar_bind_point :: int
  ar_avail_num :: int

record 'd res_client =
  rc_available :: "string \<Rightarrow> ('d, int) py"
  rc_acl :: "string \<Rightarrow> ('d, acl_res list) py"
  rc_create_entry :: "sai_obj \<Rightarrow> res_args \<Rightarrow> ('d, int) py"
  rc_create :: "string \<Rightarrow> res_args \<Rightarrow> ('d, int) py"
  rc_remove :: "sai_obj \<Rightarrow> ('d, unit) py"
  rc_status :: "'d \<Rightarrow> int"

record res_env =
  re_switch_id :: int
  re_default_vrf :: int
  re_port10_rif :: int
  re_vlan10 :: int
  re_port0_bp :: int

record 'd res_test =
  rt_dev :: 'd
  rt_v4_host_routes :: "int option"
  rt_v6_host_routes :: "int option"
  rt_route_number :: int
  rt_nhop_id :: "int option"
  rt_ips :: "string list"
  rt_routes :: "(ip_prefix_t option \<times> sai_obj) list"
  rt_nbrs :: "(ip_address_t \<times> sai_obj) list"
  rt_nhops :: "(ip_address_t \<times> sai_obj) list"
  rt_list :: "sai_obj list"
  rt_members :: "sai_obj list"
  rt_tables :: "sai_obj list list"

definition call :: "('d, 'a) py \<Rightarrow> ('d res_test, 'a) py" where
  "call m = (\<lambda>s. case m (rt_dev s) of (r, d) \<Rightarrow> (r, s\<lparr>rt_dev := d\<rparr>))"

definition check :: "bool \<Rightarrow> ('s, unit) py" where
  "check b = liftP (if b then Inr () else Inl AssertionError)"

definition removes :: "'d res_client \<Rightarrow> sai_obj list \<Rightarrow> ('d res_test, unit) py" where
  "removes rc objs = forP objs (\<lambda>x. call (rc_remove rc x))"

text \<open>\<open>next(addr)\<close>.\<close>

definition next_ip :: "('d res_test, string) py" where
  "next_ip = (\<lambda>s. case rt_ips s of [] \<Rightarrow> (Inl StopIteration, s)
     | a # l \<Rightarrow> (Inr a, s\<lparr>rt_ips := l\<rparr>))"

definition start_ips :: "(nat \<Rightarrow> nat) \<Rightarrow> int \<Rightarrow> bool \<Rightarrow> ('d res_test, unit) py" where
  "start_ips draws n ipv6 = bindP (liftP (generate_ip_addr draws n ipv6)) (\<lambda>l. modP (\<lambda>s. s\<lparr>rt_ips := l\<rparr>))"

definition SAI_STATUS_ITEM_ALREADY_EXISTS :: int where "SAI_STATUS_ITEM_ALREADY_EXISTS = - 6"


section \<open>Routes\<close>

text \<open>A dictionary is keyed by the text of an entry; here by the entry itself, which its text
  spells out. A loop ends at a missing address with \<open>StopIteration\<close>.\<close>

definition create_next_hop :: "'d res_client \<Rightarrow> res_env \<Rightarrow> ip_address_t \<Rightarrow> ('d res_test, int) py" where
  "create_next_hop rc env ip = call (rc_create rc ''next_hop''
     [(''ip'', RAddr ip), (''router_interface_id'', RInt (re_port10_rif env)), (''type'', RInt SAI_NEXT_HOP_TYPE_IP)])"

definition add_route :: "ip_prefix_t option \<Rightarrow> sai_obj \<Rightarrow> ('d res_test, unit) py" where
  "add_route k e = modP (\<lambda>s. s\<lparr>rt_routes := AList.update k e (rt_routes s)\<rparr>)"

text \<open>One round of the loop; the result is the mask of the next round.\<close>

definition route4_try :: "'d res_client \<Rightarrow> res_env \<Rightarrow> int \<Rightarrow> int \<Rightarrow> string \<Rightarrow> string \<Rightarrow> ('d res_test, string) py" where
  "route4_try rc env nhop max_route_entry mask1 addr =
     bindP (liftP (sai_ipprefix (addr @ mask1))) (\<lambda>ip_p_m. bindP getP (\<lambda>s.
     if od_has (rt_routes s) ip_p_m then retP mask1
     else let route_entry = RouteEntry None (re_default_vrf env) ip_p_m in
       bindP (call (rc_create_entry rc route_entry [(''next_hop_id'', RInt nhop)])) (\<lambda>status.
       if status = SAI_STATUS_SUCCESS then
         thenP (add_route ip_p_m route_entry)
         (thenP (modP (\<lambda>s. s\<lparr>rt_route_number := rt_route_number s + 1\<rparr>))
         (bindP (call (rc_available rc ''available_ipv4_route_entry'')) (\<lambda>avail. bindP getP (\<lambda>s.
         thenP (check (avail = max_route_entry - rt_route_number s)) (retP mask1)))))
       else if status = SAI_STATUS_ITEM_ALREADY_EXISTS then retP mask1
       else if mask1 = ''/32'' then
         thenP (modP (\<lambda>s. s\<lparr>rt_v4_host_routes := Some (rt_route_number s)\<rparr>)) (retP ''/30'')
       else raiseP AssertionError)))"

fun route4_loop :: "'d res_client \<Rightarrow> res_env \<Rightarrow> int \<Rightarrow> int \<Rightarrow> string \<Rightarrow> string list \<Rightarrow> ('d res_test, unit) py" where
  "route4_loop rc env nhop max_route_entry mask1 [] = bindP getP (\<lambda>s.
     if rt_route_number s < max_route_entry then raiseP StopIteration else retP ())"
| "route4_loop rc env nhop max_route_entry mask1 (addr # ip_add) = bindP getP (\<lambda>s.
     if rt_route_number s < max_route_entry then
       bindP (route4_try rc env nhop max_route_entry mask1 addr) (\<lambda>mask1.
       route4_loop rc env nhop max_route_entry mask1 ip_add)
     else retP ())"

text \<open>The removal of the routes and of the next hop, whose attribute may not be there.\<close>

definition remove_routes :: "'d res_client \<Rightarrow> ('d res_test, unit) py" where
  "remove_routes rc = bindP getP (\<lambda>s.
     thenP (removes rc (map snd (rt_routes s)))
     (case rt_nhop_id s of None \<Rightarrow> raiseP AttributeError
      | Some nhop \<Rightarrow> call (rc_remove rc (Oid ''next_hop'' nhop))))"

text \<open>The neighbor entry and the next hop of the route tests.\<close>

definition route_next_hop :: "'d res_client \<Rightarrow> res_env \<Rightarrow> string \<Rightarrow> ('d res_test, int) py" where
  "route_next_hop rc env addr =
     bindP (liftP (sai_ipaddress addr)) (\<lambda>ip.
     bindP (call (rc_create_entry rc (NeighborEntry (Some (re_switch_id env)) (re_port10_rif env) ip)
       [(''dst_mac_address'', RStr ''00:11:22:33:44:55'')])) (\<lambda>neigh.
     bindP (create_next_hop rc env ip) (\<lambda>nhop.
     thenP (modP (\<lambda>s. s\<lparr>rt_nhop_id := Some nhop\<rparr>))
     (thenP (check (nhop \<noteq> SAI_NULL_OBJECT_ID)) (retP nhop)))))"

definition availableIPv4RouteEntryTest :: "'d res_client \<Rightarrow> res_env \<Rightarrow> (nat \<Rightarrow> nat) \<Rightarrow> ('d res_test, unit) py" where
  "availableIPv4RouteEntryTest rc env draws =
     bindP (call (rc_available rc ''available_ipv4_route_entry'')) (\<lambda>max_route_entry.
     thenP (modP (\<lambda>s. s\<lparr>rt_routes := []\<rparr>))
     (bindP (liftP (generate_ip_addr draws (max_route_entry + 100) False)) (\<lambda>ip_add.
     finallyP
       (bindP (route_next_hop rc env ''10.10.10.1'') (\<lambda>nhop.
        thenP (modP (\<lambda>s. s\<lparr>rt_route_number := 0\<rparr>))
        (thenP (route4_loop rc env nhop max_route_entry ''/32'' ip_add)
        (thenP (modP (\<lambda>s. s\<lparr>rt_v4_host_routes := Some (rt_route_number s)\<rparr>))
        (bindP (call (rc_available rc ''available_ipv4_route_entry'')) (\<lambda>avail. check (avail = 0)))))))
       (remove_routes rc))))"

text \<open>Version 6 counts in a local variable; the result is the count and the mask of the next round.\<close>

definition route6_try :: "'d res_client \<Rightarrow> res_env \<Rightarrow> int \<Rightarrow> int \<Rightarrow> int \<Rightarrow> string \<Rightarrow> string \<Rightarrow> ('d res_test, int \<times> string) py" where
  "route6_try rc env nhop max_route_entry route_number mask1 addr =
     bindP (liftP (sai_ipprefix (addr @ mask1))) (\<lambda>ip_p_m. bindP getP (\<lambda>s.
     if od_has (rt_routes s) ip_p_m then retP (route_number, mask1)
     else let route_entry = RouteEntry (Some (re_switch_id env)) (re_default_vrf env) ip_p_m in
       bindP (call (rc_create_entry rc route_entry [(''next_hop_id'', RInt nhop)])) (\<lambda>status.
       if status = SAI_STATUS_SUCCESS then
         thenP (add_route ip_p_m route_entry)
         (bindP (call (rc_available rc ''available_ipv6_route_entry'')) (\<lambda>avail.
         thenP (check (avail = max_route_entry - (route_number + 1))) (retP (route_number + 1, mask1))))
       else if status = SAI_STATUS_ITEM_ALREADY_EXISTS then retP (route_number, mask1)
       else if mask1 = ''/128'' then
         thenP (modP (\<lambda>s. s\<lparr>rt_v6_host_routes := Some route_number\<rparr>)) (retP (route_number, ''/120''))
       else if mask1 = ''/120'' then retP (route_number, ''/64'')
       else raiseP AssertionError)))"

fun route6_loop :: "'d res_client \<Rightarrow> res_env \<Rightarrow> int \<Rightarrow> int \<Rightarrow> int \<Rightarrow> string \<Rightarrow> string list \<Rightarrow> ('d res_test, int) py" where
  "route6_loop rc env nhop max_route_entry route_number mask1 [] =
     (if route_number < max_route_entry then raiseP StopIteration else retP route_number)"
| "route6_loop rc env nhop max_route_entry route_number mask1 (addr # ip_add) =
     (if route_number < max_route_entry then
       bindP (route6_try rc env nhop max_route_entry route_number mask1 addr) (\<lambda>(route_number, mask1).
       route6_loop rc env nhop max_route_entry route_number mask1 ip_add)
     else retP route_number)"

definition availableIPv6RouteEntryTest :: "'d res_client \<Rightarrow> res_env \<Rightarrow> (nat \<Rightarrow> nat) \<Rightarrow> ('d res_test, unit) py" where
  "availableIPv6RouteEntryTest rc env draws =
     bindP (call (rc_available rc ''available_ipv6_route_entry'')) (\<lambda>max_route_entry.
     thenP (modP (\<lambda>s. s\<lparr>rt_v6_host_routes := Some max_route_entry, rt_routes := []\<rparr>))
     (bindP (liftP (generate_ip_addr draws (max_route_entry + 100) True)) (\<lambda>ip_add.
     finallyP
       (bindP (route_next_hop rc env ''2001:0db8:1::1'') (\<lambda>nhop.
        bindP (route6_loop rc env nhop max_route_entry 0 ''/128'' ip_add) (\<lambda>route_number.
        thenP (modP (\<lambda>s. s\<lparr>rt_v6_host_routes := Some route_number\<rparr>))
        (bindP (call (rc_available rc ''available_ipv6_route_entry'')) (\<lambda>avail. check (avail = 0))))))
       (remove_routes rc))))"

section \<open>Neighbors\<close>

definition add_nbr :: "ip_address_t \<Rightarrow> sai_obj \<Rightarrow> ('d res_test, unit) py" where
  "add_nbr k e = modP (\<lambda>s. s\<lparr>rt_nbrs := AList.update k e (rt_nbrs s)\<rparr>)"

definition create_neighbor :: "'d res_client \<Rightarrow> sai_obj \<Rightarrow> ('d res_test, int) py" where
  "create_neighbor rc nbr_entry = call (rc_create_entry rc nbr_entry
     [(''dst_mac_address'', RStr ''00:00:00:00:00:01''), (''no_host_route'', RBool False)])"

definition check_left :: "'d res_client \<Rightarrow> string \<Rightarrow> int \<Rightarrow> ('d res_test, unit) py" where
  "check_left rc resource left = bindP (call (rc_available rc resource)) (\<lambda>avail. check (avail = left))"

fun nbr4_loop :: "'d res_client \<Rightarrow> res_env \<Rightarrow> int \<Rightarrow> int \<Rightarrow> int \<Rightarrow> string list \<Rightarrow> ('d res_test, unit) py" where
  "nbr4_loop rc env available_nbr_entry max_nbr_entry nbr_number [] =
     (if nbr_number < max_nbr_entry then raiseP StopIteration else retP ())"
| "nbr4_loop rc env available_nbr_entry max_nbr_entry nbr_number (a # ip_add) =
     (if nbr_number < max_nbr_entry then
       bindP (liftP (sai_ipaddress a)) (\<lambda>ip_p. bindP getP (\<lambda>s.
       if od_has (rt_nbrs s) ip_p then nbr4_loop rc env available_nbr_entry max_nbr_entry nbr_number ip_add
       else let nbr_entry = NeighborEntry None (re_port10_rif env) ip_p in
         bindP (create_neighbor rc nbr_entry) (\<lambda>status.
         thenP (check (status = SAI_STATUS_SUCCESS))
         (thenP (add_nbr ip_p nbr_entry)
         (thenP (check_left rc ''available_ipv4_neighbor_entry'' (available_nbr_entry - (nbr_number + 1)))
         (nbr4_loop rc env available_nbr_entry max_nbr_entry (nbr_number + 1) ip_add))))))
     else retP ())"

definition remove_nbrs :: "'d res_client \<Rightarrow> ('d res_test, unit) py" where
  "remove_nbrs rc = bindP getP (\<lambda>s. removes rc (map snd (rt_nbrs s)))"

definition availableIPv4NeighborEntryTest :: "'d res_client \<Rightarrow> res_env \<Rightarrow> (nat \<Rightarrow> nat) \<Rightarrow> ('d res_test, unit) py" where
  "availableIPv4NeighborEntryTest rc env draws = bindP getP (\<lambda>s.
     case rt_v4_host_routes s of
       None \<Rightarrow> retP ()
     | Some available_v4_host_routes \<Rightarrow>
         bindP (call (rc_available rc ''available_ipv4_neighbor_entry'')) (\<lambda>available_nbr_entry.
         let max_nbr_entry = (if available_nbr_entry > available_v4_host_routes then available_v4_host_routes
               else available_nbr_entry) in
         thenP (modP (\<lambda>s. s\<lparr>rt_nbrs := []\<rparr>))
         (bindP (liftP (generate_ip_addr draws (max_nbr_entry + 100) False)) (\<lambda>ip_add.
         finallyP (nbr4_loop rc env available_nbr_entry max_nbr_entry 0 ip_add) (remove_nbrs rc)))))"

text \<open>The test of version 6 records the entry before it looks at the status.\<close>

fun nbr6_loop :: "'d res_client \<Rightarrow> res_env \<Rightarrow> int \<Rightarrow> int \<Rightarrow> int \<Rightarrow> string list \<Rightarrow> ('d res_test, unit) py" where
  "nbr6_loop rc env available_nbr_entry max_nbr_entry nbr_number [] =
     (if nbr_number < max_nbr_entry then raiseP StopIteration else retP ())"
| "nbr6_loop rc env available_nbr_entry max_nbr_entry nbr_number (a # ip_add) =
     (if nbr_number < max_nbr_entry then
       bindP (liftP (sai_ipaddress a)) (\<lambda>ip_p. bindP getP (\<lambda>s.
       if od_has (rt_nbrs s) ip_p then nbr6_loop rc env available_nbr_entry max_nbr_entry nbr_number ip_add
       else let nbr_entry = NeighborEntry None (re_port10_rif env) ip_p in
         bindP (create_neighbor rc nbr_entry) (\<lambda>status.
         thenP (add_nbr ip_p nbr_entry)
         (thenP (check (status = SAI_STATUS_SUCCESS))
         (thenP (check_left rc ''available_ipv6_neighbor_entry'' (available_nbr_entry - (nbr_number + 1)))
         (nbr6_loop rc env available_nbr_entry max_nbr_entry (nbr_number + 1) ip_add))))))
     else retP ())"

definition availableIPv6NeighborEntryTest :: "'d res_client \<Rightarrow> res_env \<Rightarrow> (nat \<Rightarrow> nat) \<Rightarrow> ('d res_test, unit) py" where
  "availableIPv6NeighborEntryTest rc env draws = bindP getP (\<lambda>s.
     case rt_v6_host_routes s of
       None \<Rightarrow> retP ()
     | Some available_v6_host_routes \<Rightarrow>
         bindP (call (rc_available rc ''available_ipv6_neighbor_entry'')) (\<lambda>available_nbr_entry.
         let max_nbr_entry = (if available_nbr_entry > available_v6_host_routes then available_v6_host_routes
               else available_nbr_entry) in
         thenP (modP (\<lambda>s. s\<lparr>rt_nbrs := []\<rparr>))
         (bindP (liftP (generate_ip_addr draws (max_nbr_entry + 100) True)) (\<lambda>ip_add.
         finallyP (nbr6_loop rc env available_nbr_entry max_nbr_entry 0 ip_add) (remove_nbrs rc)))))"

definition AvailableIPv4NeighborEntryTest :: "'d res_client \<Rightarrow> res_env \<Rightarrow> (nat \<Rightarrow> nat) \<Rightarrow> (nat \<Rightarrow> nat) \<Rightarrow> ('d res_test, unit) py" where
  "AvailableIPv4NeighborEntryTest rc env draws1 draws2 =
     thenP (availableIPv4RouteEntryTest rc env draws1) (availableIPv4NeighborEntryTest rc env draws2)"

definition AvailableIPv6NeighborEntryTest :: "'d res_client \<Rightarrow> res_env \<Rightarrow> (nat \<Rightarrow> nat) \<Rightarrow> (nat \<Rightarrow> nat) \<Rightarrow> ('d res_test, unit) py" where
  "AvailableIPv6NeighborEntryTest rc env draws1 draws2 =
     thenP (availableIPv6RouteEntryTest rc env draws1) (availableIPv6NeighborEntryTest rc env draws2)"

definition resource_setUp :: "('d res_test, unit) py \<Rightarrow> ('d res_test, unit) py" where
  "resource_setUp super_setUp = thenP super_setUp
     (modP (\<lambda>s. s\<lparr>rt_v4_host_routes := None, rt_v6_host_routes := None\<rparr>))"

section \<open>The FDB\<close>

definition append_obj :: "sai_obj \<Rightarrow> ('d res_test, unit) py" where
  "append_obj e = modP (\<lambda>s. s\<lparr>rt_list := rt_list s @ [e]\<rparr>)"

definition remove_list :: "'d res_client \<Rightarrow> ('d res_test, unit) py" where
  "remove_list rc = bindP getP (\<lambda>s. removes rc (rt_list s))"

text \<open>\<open>int(max_fdb_entry * 0.9)\<close>, where \<open>fl\<close> is the rounding to a floating-point number.\<close>

definition nine_tenths :: "(rat \<Rightarrow> rat) \<Rightarrow> int \<Rightarrow> int" where
  "nine_tenths fl n = (let x = fl (of_int n * fl (9 / 10)) in if 0 \<le> x then \<lfloor>x\<rfloor> else \<lceil>x\<rceil>)"

definition fdb_step :: "'d res_client \<Rightarrow> res_env \<Rightarrow> int \<Rightarrow> string list \<Rightarrow> int \<Rightarrow> ('d res_test, unit) py" where
  "fdb_step rc env max_fdb_entry mac_list fdb_number =
     bindP (liftP (py_index mac_list (fdb_number - 1))) (\<lambda>mac.
     let fdb_entry = FdbEntry (re_switch_id env) mac (re_vlan10 env) in
     bindP (call (rc_create_entry rc fdb_entry [(''type'', RInt SAI_FDB_ENTRY_TYPE_STATIC),
       (''bridge_port_id'', RInt (re_port0_bp env)), (''packet_action'', RInt SAI_PACKET_ACTION_FORWARD)])) (\<lambda>status.
     thenP (check (status = SAI_STATUS_SUCCESS))
     (thenP (append_obj fdb_entry)
     (check_left rc ''available_fdb_entry'' (max_fdb_entry - fdb_number)))))"

definition availableFdbEntryTest :: "'d res_client \<Rightarrow> res_env \<Rightarrow> (rat \<Rightarrow> rat) \<Rightarrow> ('d res_test, unit) py" where
  "availableFdbEntryTest rc env fl =
     bindP (call (rc_available rc ''available_fdb_entry'')) (\<lambda>max_fdb_entry.
     let available_fdb_entry = nine_tenths fl max_fdb_entry; mac_list = generate_mac_list max_fdb_entry in
     thenP (modP (\<lambda>s. s\<lparr>rt_list := []\<rparr>))
     (finallyP (forP [1..available_fdb_entry] (fdb_step rc env max_fdb_entry mac_list)) (remove_list rc)))"

section \<open>NAT entries\<close>

definition snat_of :: "res_env \<Rightarrow> string \<Rightarrow> sai_obj" where
  "snat_of env ip = NatEntry (re_default_vrf env)
     \<lparr>nd_src_ip = Some ip, nd_dst_ip = None, nd_proto = 6, nd_l4_src_port = None\<rparr>
     \<lparr>nd_src_ip = Some ''255.255.255.255'', nd_dst_ip = None, nd_proto = 63, nd_l4_src_port = None\<rparr>
     SAI_NAT_TYPE_SOURCE_NAT"

definition dnat_of :: "res_env \<Rightarrow> string \<Rightarrow> int option \<Rightarrow> int option \<Rightarrow> sai_obj" where
  "dnat_of env ip port pmask = NatEntry (re_default_vrf env)
     \<lparr>nd_src_ip = None, nd_dst_ip = Some ip, nd_proto = 6, nd_l4_src_port = port\<rparr>
     \<lparr>nd_src_ip = None, nd_dst_ip = Some ''255.255.255.255'', nd_proto = 63, nd_l4_src_port = pmask\<rparr>
     SAI_NAT_TYPE_DESTINATION_NAT"

definition create_nat :: "'d res_client \<Rightarrow> sai_obj \<Rightarrow> int \<Rightarrow> ('d res_test, int) py" where
  "create_nat rc e ty = call (rc_create_entry rc e [(''nat_type'', RInt ty)])"

definition snat_step :: "'d res_client \<Rightarrow> res_env \<Rightarrow> int \<Rightarrow> int \<Rightarrow> ('d res_test, unit) py" where
  "snat_step rc env max_snat_entry snat_number =
     bindP next_ip (\<lambda>ip. let snat = snat_of env ip in
     bindP (create_nat rc snat SAI_NAT_TYPE_SOURCE_NAT) (\<lambda>status.
     thenP (check (status = SAI_STATUS_SUCCESS))
     (thenP (append_obj snat)
     (check_left rc ''available_snat_entry'' (max_snat_entry - snat_number)))))"

text \<open>One entry more should be refused; the clause that takes it away again reads \<open>stat\<close>, which is
  unbound when the creation raises.\<close>

definition one_more_nat :: "'d res_client \<Rightarrow> sai_obj \<Rightarrow> int \<Rightarrow> ('d res_test, unit) py" where
  "one_more_nat rc e ty =
     bindP (catchP (create_nat rc e ty) (\<lambda>_. raiseP UnboundLocalError)) (\<lambda>stat.
     finallyP (check (stat \<noteq> SAI_STATUS_SUCCESS))
       (if stat = 0 then call (rc_remove rc e) else retP ()))"

definition availableSnatEntryTest :: "'d res_client \<Rightarrow> res_env \<Rightarrow> (nat \<Rightarrow> nat) \<Rightarrow> ('d res_test, unit) py" where
  "availableSnatEntryTest rc env draws =
     bindP (call (rc_available rc ''available_snat_entry'')) (\<lambda>max_snat_entry.
     thenP (modP (\<lambda>s. s\<lparr>rt_list := []\<rparr>))
     (thenP (start_ips draws (max_snat_entry + 1) False)
     (finallyP
       (thenP (forP [1..max_snat_entry] (snat_step rc env max_snat_entry))
       (bindP next_ip (\<lambda>ip. one_more_nat rc (snat_of env ip) SAI_NAT_TYPE_SOURCE_NAT)))
       (remove_list rc))))"

definition dnat_step :: "'d res_client \<Rightarrow> res_env \<Rightarrow> int \<Rightarrow> int \<Rightarrow> ('d res_test, unit) py" where
  "dnat_step rc env max_dnat_entry dnat_number =
     bindP next_ip (\<lambda>ip. let dnat = dnat_of env ip (Some 100) (Some 255) in
     bindP (create_nat rc dnat SAI_NAT_TYPE_DESTINATION_NAT) (\<lambda>status.
     thenP (check (status = SAI_STATUS_SUCCESS))
     (thenP (append_obj dnat)
     (check_left rc ''available_dnat_entry'' (max_dnat_entry - dnat_number)))))"

definition availableDnatEntryTest :: "'d res_client \<Rightarrow> res_env \<Rightarrow> (nat \<Rightarrow> nat) \<Rightarrow> ('d res_test, unit) py" where
  "availableDnatEntryTest rc env draws =
     bindP (call (rc_available rc ''available_dnat_entry'')) (\<lambda>max_dnat_entry.
     thenP (modP (\<lambda>s. s\<lparr>rt_list := []\<rparr>))
     (thenP (start_ips draws (max_dnat_entry + 1) False)
     (finallyP
       (thenP (forP [1..max_dnat_entry] (dnat_step rc env max_dnat_entry))
       (bindP next_ip (\<lambda>ip. one_more_nat rc (dnat_of env ip None None) SAI_NAT_TYPE_DESTINATION_NAT)))
       (remove_list rc))))"

section \<open>Next hop groups and their members\<close>

definition create_group :: "'d res_client \<Rightarrow> ('d res_test, int) py" where
  "create_group rc = call (rc_create rc ''next_hop_group'' [(''type'', RInt SAI_NEXT_HOP_GROUP_TYPE_ECMP)])"

text \<open>The result is the number last read.\<close>

fun nhg_loop :: "'d res_client \<Rightarrow> int \<Rightarrow> int \<Rightarrow> int list \<Rightarrow> ('d res_test, int) py" where
  "nhg_loop rc max_nhg_entry avail [] = retP avail"
| "nhg_loop rc max_nhg_entry avail (nhg_number # l) =
     bindP (create_group rc) (\<lambda>nexthop_group.
     thenP (check (nexthop_group \<noteq> SAI_NULL_OBJECT_ID))
     (thenP (append_obj (Oid ''next_hop_group'' nexthop_group))
     (bindP (call (rc_available rc ''available_next_hop_group_entry'')) (\<lambda>avail.
     thenP (check (avail = max_nhg_entry - nhg_number))
     (nhg_loop rc max_nhg_entry avail l)))))"

text \<open>One object more should be refused; if it is made, it is removed and the test fails.\<close>

definition one_more_oid :: "'d res_client \<Rightarrow> string \<Rightarrow> ('d res_test, int) py \<Rightarrow> ('d res_test, unit) py" where
  "one_more_oid rc ty create = bindP create (\<lambda>i.
     if i = SAI_NULL_OBJECT_ID then retP ()
     else thenP (call (rc_remove rc (Oid ty i))) (raiseP AssertionError))"

definition availableNexthopGroupEntryTest :: "'d res_client \<Rightarrow> ('d res_test, unit) py" where
  "availableNexthopGroupEntryTest rc =
     bindP (call (rc_available rc ''available_next_hop_group_entry'')) (\<lambda>max_nhg_entry.
     thenP (modP (\<lambda>s. s\<lparr>rt_list := []\<rparr>))
     (finallyP
       (bindP (nhg_loop rc max_nhg_entry max_nhg_entry [1..max_nhg_entry]) (\<lambda>avail.
        thenP (check (avail = 0)) (one_more_oid rc ''next_hop_group'' (create_group rc))))
       (remove_list rc)))"

definition add_nhop :: "ip_address_t \<Rightarrow> sai_obj \<Rightarrow> ('d res_test, unit) py" where
  "add_nhop k e = modP (\<lambda>s. s\<lparr>rt_nhops := AList.update k e (rt_nhops s)\<rparr>)"

definition max_member_per_group :: int where "max_member_per_group = 64"

text \<open>The inner loop fills a group and gives back the member count and the addresses left.\<close>

fun member_loop :: "'d res_client \<Rightarrow> res_env \<Rightarrow> int \<Rightarrow> int \<Rightarrow> int \<Rightarrow> int \<Rightarrow> string list \<Rightarrow> ('d res_test, int \<times> string list) py" where
  "member_loop rc env max_member_entry grp member_number nhop_per_group_number [] =
     (if nhop_per_group_number < max_member_per_group then raiseP StopIteration else retP (member_number, []))"
| "member_loop rc env max_member_entry grp member_number nhop_per_group_number (a # ip_add) =
     (if nhop_per_group_number < max_member_per_group then
       bindP (liftP (sai_ipaddress a)) (\<lambda>ip_p. bindP getP (\<lambda>s.
       if od_has (rt_nhops s) ip_p then member_loop rc env max_member_entry grp member_number nhop_per_group_number ip_add
       else
         bindP (create_next_hop rc env ip_p) (\<lambda>nexthop.
         thenP (check (nexthop \<noteq> SAI_NULL_OBJECT_ID))
         (thenP (add_nhop ip_p (Oid ''next_hop'' nexthop))
         (bindP (call (rc_create rc ''next_hop_group_member''
            [(''next_hop_group_id'', RInt grp), (''next_hop_id'', RInt nexthop)])) (\<lambda>nhop_member.
         thenP (check (nhop_member \<noteq> SAI_NULL_OBJECT_ID))
         (thenP (modP (\<lambda>s. s\<lparr>rt_members := rt_members s @ [Oid ''next_hop_group_member'' nhop_member]\<rparr>))
         (thenP (check_left rc ''available_next_hop_group_member_entry'' (max_member_entry - (member_number + 1)))
         (member_loop rc env max_member_entry grp (member_number + 1) (nhop_per_group_number + 1) ip_add)))))))))
     else retP (member_number, a # ip_add))"

function group_loop :: "'d res_client \<Rightarrow> res_env \<Rightarrow> int \<Rightarrow> int \<Rightarrow> int \<Rightarrow> int \<Rightarrow> string list \<Rightarrow> ('d res_test, unit) py" where
  "group_loop rc env max_member_entry max_nhg_entry member_number group_number ip_add =
     (if member_number < max_member_entry \<and> group_number < max_nhg_entry then
       bindP (create_group rc) (\<lambda>nexthop_group.
       thenP (check (nexthop_group \<noteq> SAI_NULL_OBJECT_ID))
       (thenP (append_obj (Oid ''next_hop_group'' nexthop_group))
       (bindP (member_loop rc env max_member_entry nexthop_group member_number 0 ip_add) (\<lambda>(member_number, ip_add).
       group_loop rc env max_member_entry max_nhg_entry member_number (group_number + 1) ip_add))))
     else retP ())"
  by pat_completeness auto
termination by (relation "measure (\<lambda>(rc, env, mm, mg, m, g, l). nat (mg - g))") auto

declare group_loop.simps [simp del]

definition availableNexthopGroupMemberEntryTest :: "'d res_client \<Rightarrow> res_env \<Rightarrow> (nat \<Rightarrow> nat) \<Rightarrow> ('d res_test, unit) py" where
  "availableNexthopGroupMemberEntryTest rc env draws =
     bindP (call (rc_available rc ''available_next_hop_group_entry'')) (\<lambda>max_nhg_entry.
     bindP (call (rc_available rc ''available_next_hop_group_member_entry'')) (\<lambda>max_member_entry.
     thenP (modP (\<lambda>s. s\<lparr>rt_list := [], rt_nhops := [], rt_members := []\<rparr>))
     (bindP (liftP (generate_ip_addr draws (max_member_entry + 100) False)) (\<lambda>ip_add.
     finallyP
       (thenP (group_loop rc env max_member_entry max_nhg_entry 0 0 ip_add)
        (check_left rc ''available_next_hop_group_entry'' 0))
       (bindP getP (\<lambda>s. thenP (removes rc (rt_members s))
          (thenP (removes rc (map snd (rt_nhops s))) (removes rc (rt_list s)))))))))"

section \<open>ACL tables and groups\<close>

definition create_acl :: "'d res_client \<Rightarrow> string \<Rightarrow> acl_res \<Rightarrow> ('d res_test, int) py" where
  "create_acl rc ty r = call (rc_create rc ty [(''acl_stage'', RInt (ar_stage r)),
     (''acl_bind_point_type_list'', RList [ar_bind_point r])])"

text \<open>The first entry for the stage and bind point is looked at.\<close>

fun check_acl_left :: "acl_res list \<Rightarrow> acl_res \<Rightarrow> int \<Rightarrow> ('s, unit) py" where
  "check_acl_left [] r counter = retP ()"
| "check_acl_left (res # l) r counter =
     (if ar_stage res = ar_stage r \<and> ar_bind_point res = ar_bind_point r
      then check (ar_avail_num res = ar_avail_num r - counter) else check_acl_left l r counter)"

fun acl_tables :: "'d res_client \<Rightarrow> string \<Rightarrow> string \<Rightarrow> acl_res \<Rightarrow> sai_obj list \<Rightarrow> int list \<Rightarrow> ('d res_test, sai_obj list) py" where
  "acl_tables rc ty attr r acl_table_list [] = retP acl_table_list"
| "acl_tables rc ty attr r acl_table_list (counter # l) =
     bindP (create_acl rc ty r) (\<lambda>acl_table. bindP getP (\<lambda>s.
     thenP (check (rc_status rc (rt_dev s) = SAI_STATUS_SUCCESS))
     (bindP (call (rc_acl rc attr)) (\<lambda>resourcelist.
     thenP (check_acl_left resourcelist r counter)
     (acl_tables rc ty attr r (acl_table_list @ [Oid ty acl_table]) l)))))"

definition acl_resource :: "'d res_client \<Rightarrow> string \<Rightarrow> string \<Rightarrow> acl_res \<Rightarrow> ('d res_test, unit) py" where
  "acl_resource rc ty attr r =
     bindP (acl_tables rc ty attr r [] [1..ar_avail_num r]) (\<lambda>acl_table_list.
     thenP (one_more_oid rc ty (create_acl rc ty r))
     (modP (\<lambda>s. s\<lparr>rt_tables := rt_tables s @ [acl_table_list]\<rparr>)))"

definition acl_test :: "'d res_client \<Rightarrow> string \<Rightarrow> string \<Rightarrow> ('d res_test, unit) py" where
  "acl_test rc ty attr =
     bindP (call (rc_acl rc attr)) (\<lambda>resource_list.
     finallyP
       (thenP (modP (\<lambda>s. s\<lparr>rt_tables := []\<rparr>)) (forP resource_list (acl_resource rc ty attr)))
       (bindP getP (\<lambda>s. forP (rt_tables s) (removes rc))))"

definition AvailableAclTableTest :: "'d res_client \<Rightarrow> ('d res_test, unit) py" where
  "AvailableAclTableTest rc = acl_test rc ''acl_table'' ''available_acl_table''"

text \<open>The group test reads a second attribute first, whose value is only printed.\<close>

definition AvailableAclTableGroupTest :: "'d res_client \<Rightarrow> ('d res_test, unit) py" where
  "AvailableAclTableGroupTest rc =
     bindP (call (rc_available rc ''max_number_of_temp_sensors'')) (\<lambda>_.
     acl_test rc ''acl_table_group'' ''available_acl_table_group'')"

section \<open>Next hops\<close>

definition create_hop_neighbor :: "'d res_client \<Rightarrow> sai_obj \<Rightarrow> ('d res_test, int) py" where
  "create_hop_neighbor rc e = call (rc_create_entry rc e [(''dst_mac_address'', RStr ''00:11:22:33:44:55'')])"

text \<open>The result is the number last read.\<close>

fun nexthop4_loop :: "'d res_client \<Rightarrow> res_env \<Rightarrow> int \<Rightarrow> int \<Rightarrow> int \<Rightarrow> string list \<Rightarrow> ('d res_test, int) py" where
  "nexthop4_loop rc env max_nhop_entry nhop_number avail [] =
     (if nhop_number < max_nhop_entry then raiseP StopIteration else retP avail)"
| "nexthop4_loop rc env max_nhop_entry nhop_number avail (a # ip_add) =
     (if nhop_number < max_nhop_entry then
       bindP (liftP (sai_ipaddress a)) (\<lambda>ip_p. bindP getP (\<lambda>s.
       if od_has (rt_nhops s) ip_p then nexthop4_loop rc env max_nhop_entry nhop_number avail ip_add
       else let nbr_entry = NeighborEntry (Some (re_switch_id env)) (re_port10_rif env) ip_p in
         bindP (create_hop_neighbor rc nbr_entry) (\<lambda>status.
         thenP (check (status = SAI_STATUS_SUCCESS))
         (bindP (create_next_hop rc env ip_p) (\<lambda>nexthop.
         thenP (check (nexthop \<noteq> SAI_NULL_OBJECT_ID))
         (thenP (add_nbr ip_p nbr_entry)
         (thenP (add_nhop ip_p (Oid ''next_hop'' nexthop))
         (bindP (call (rc_available rc ''available_ipv4_nexthop_entry'')) (\<lambda>avail.
         thenP (check (avail = max_nhop_entry - (nhop_number + 1)))
         (nexthop4_loop rc env max_nhop_entry (nhop_number + 1) avail ip_add))))))))))
     else retP avail)"

text \<open>Version 6 does not look at the status of the neighbor.\<close>

fun nexthop6_loop :: "'d res_client \<Rightarrow> res_env \<Rightarrow> int \<Rightarrow> int \<Rightarrow> int \<Rightarrow> string list \<Rightarrow> ('d res_test, int) py" where
  "nexthop6_loop rc env max_nhop_entry nhop_number avail [] =
     (if nhop_number < max_nhop_entry then raiseP StopIteration else retP avail)"
| "nexthop6_loop rc env max_nhop_entry nhop_number avail (a # ip_add) =
     (if nhop_number < max_nhop_entry then
       bindP (liftP (sai_ipaddress a)) (\<lambda>ip_p. bindP getP (\<lambda>s.
       if od_has (rt_nhops s) ip_p then nexthop6_loop rc env max_nhop_entry nhop_number avail ip_add
       else let nbr_entry = NeighborEntry (Some (re_switch_id env)) (re_port10_rif env) ip_p in
         bindP (create_hop_neighbor rc nbr_entry) (\<lambda>status.
         bindP (create_next_hop rc env ip_p) (\<lambda>nexthop.
         thenP (check (nexthop \<noteq> SAI_NULL_OBJECT_ID))
         (thenP (add_nbr ip_p nbr_entry)
         (thenP (add_nhop ip_p (Oid ''next_hop'' nexthop))
         (bindP (call (rc_available rc ''available_ipv6_nexthop_entry'')) (\<lambda>avail.
         thenP (check (avail = max_nhop_entry - (nhop_number + 1)))
         (nexthop6_loop rc env max_nhop_entry (nhop_number + 1) avail ip_add)))))))))
     else retP avail)"

text \<open>\<open>nbrs.get(ip_p)\<close> is \<open>None\<close> for a missing key; the two dictionaries have the same keys.\<close>

definition remove_hops :: "'d res_client \<Rightarrow> ('d res_test, unit) py" where
  "remove_hops rc = bindP getP (\<lambda>s. forP (rt_nhops s) (\<lambda>(ip_p, nexthop).
     thenP (call (rc_remove rc nexthop))
     (case map_of (rt_nbrs s) ip_p of None \<Rightarrow> raiseP TypeError | Some e \<Rightarrow> call (rc_remove rc e))))"

definition AvailableIPv4NexthopEntryTest :: "'d res_client \<Rightarrow> res_env \<Rightarrow> (nat \<Rightarrow> nat) \<Rightarrow> ('d res_test, unit) py" where
  "AvailableIPv4NexthopEntryTest rc env draws =
     bindP (call (rc_available rc ''available_ipv4_nexthop_entry'')) (\<lambda>max_nhop_entry.
     thenP (modP (\<lambda>s. s\<lparr>rt_nbrs := [], rt_nhops := []\<rparr>))
     (bindP (liftP (generate_ip_addr draws (max_nhop_entry + 100) False)) (\<lambda>ip_add.
     finallyP
       (bindP (nexthop4_loop rc env max_nhop_entry 0 max_nhop_entry ip_add) (\<lambda>avail. check (avail = 0)))
       (remove_hops rc))))"

definition AvailableIPv6NexthopEntryTest :: "'d res_client \<Rightarrow> res_env \<Rightarrow> (nat \<Rightarrow> nat) \<Rightarrow> ('d res_test, unit) py" where
  "AvailableIPv6NexthopEntryTest rc env draws =
     bindP (call (rc_available rc ''available_ipv6_nexthop_entry'')) (\<lambda>max_nhop_entry.
     thenP (modP (\<lambda>s. s\<lparr>rt_nbrs := [], rt_nhops := []\<rparr>))
     (bindP (liftP (generate_ip_addr draws (max_nhop_entry + 100) True)) (\<lambda>ip_add.
     finallyP
       (bindP (nexthop6_loop rc env max_nhop_entry 0 max_nhop_entry ip_add) (\<lambda>avail. check (avail = 0)))
       (remove_hops rc))))"

section \<open>What a test leaves on the device\<close>

text \<open>What is relied on of the client: a creation that succeeds adds an object that was not there,
  any other outcome adds none; an object on the device can be removed, and only that object goes;
  reading changes nothing. Creations and reads may raise. The null identifier names no object.\<close>

definition creates_objs :: "'d res_client \<Rightarrow> ('d \<Rightarrow> sai_obj set) \<Rightarrow> bool" where
  "creates_objs rc objs \<longleftrightarrow> (\<forall>e a d r d'. rc_create_entry rc e a d = (r, d') \<longrightarrow>
       (if r = Inr SAI_STATUS_SUCCESS then e \<notin> objs d \<and> objs d' = insert e (objs d) else objs d' = objs d))
   \<and> (\<forall>ty a d r d'. rc_create rc ty a d = (r, d') \<longrightarrow> (case r of Inl _ \<Rightarrow> objs d' = objs d
       | Inr i \<Rightarrow> if i = SAI_NULL_OBJECT_ID then objs d' = objs d else Oid ty i \<notin> objs d \<and> objs d' = insert (Oid ty i) (objs d)))"

definition removes_objs :: "'d res_client \<Rightarrow> ('d \<Rightarrow> sai_obj set) \<Rightarrow> bool" where
  "removes_objs rc objs \<longleftrightarrow> (\<forall>x d r d'. rc_remove rc x d = (r, d') \<longrightarrow>
     objs d' = objs d - {x} \<and> (x \<in> objs d \<longrightarrow> r = Inr ()))"

definition keeps_objs :: "('d \<Rightarrow> sai_obj set) \<Rightarrow> ('d, 'a) py \<Rightarrow> bool" where
  "keeps_objs objs m \<longleftrightarrow> (\<forall>d r d'. m d = (r, d') \<longrightarrow> objs d' = objs d)"

definition res_device :: "'d res_client \<Rightarrow> ('d \<Rightarrow> sai_obj set) \<Rightarrow> bool" where
  "res_device rc objs \<longleftrightarrow> creates_objs rc objs \<and> removes_objs rc objs
     \<and> (\<forall>n. keeps_objs objs (rc_available rc n)) \<and> (\<forall>n. keeps_objs objs (rc_acl rc n))
     \<and> (\<forall>ty d. Oid ty SAI_NULL_OBJECT_ID \<notin> objs d)"

text \<open>\<open>rec\<close> reads off the objects the test has recorded for removal, from its lists only.\<close>

definition on_lists :: "('d res_test \<Rightarrow> sai_obj list) \<Rightarrow> bool" where
  "on_lists rec \<longleftrightarrow> (\<forall>s d. rec (s\<lparr>rt_dev := d\<rparr>) = rec s)"

definition holds :: "('d \<Rightarrow> sai_obj set) \<Rightarrow> ('d res_test \<Rightarrow> sai_obj list) \<Rightarrow> sai_obj set \<Rightarrow> 'd res_test \<Rightarrow> bool" where
  "holds objs rec B s \<longleftrightarrow> distinct (rec s) \<and> B \<inter> set (rec s) = {} \<and> objs (rt_dev s) = B \<union> set (rec s)"

text \<open>An object is on the device and not recorded yet.\<close>

definition holds_new :: "('d \<Rightarrow> sai_obj set) \<Rightarrow> ('d res_test \<Rightarrow> sai_obj list) \<Rightarrow> sai_obj set \<Rightarrow> sai_obj \<Rightarrow> 'd res_test \<Rightarrow> bool" where
  "holds_new objs rec B x s \<longleftrightarrow> holds objs rec (insert x B) s \<and> x \<notin> B"

lemma holds_record:
  assumes "holds_new objs rec B x s" "mset (rec t) = add_mset x (mset (rec s))" "rt_dev t = rt_dev s"
  shows "holds objs rec B t"
proof -
  have x: "x \<notin> set (rec s)" using assms(1) by (auto simp: holds_new_def holds_def)
  have "mset (rec t) = mset (x # rec s)" using assms(2) by simp
  from mset_eq_setD [OF this] mset_eq_imp_distinct_iff [OF this]
  show ?thesis using assms(1,3) x by (auto simp: holds_new_def holds_def)
qed

lemma call_keeps:
  assumes "on_lists rec" "keeps_objs objs m"
  shows "triple (holds objs rec B) (call m) (\<lambda>_. holds objs rec B) (holds objs rec B)"
    "triple (\<lambda>s. holds objs rec B s \<and> P (rec s)) (call m) (\<lambda>_ s. holds objs rec B s \<and> P (rec s)) (holds objs rec B)"
  using assms by (auto simp: triple_def call_def holds_def keeps_objs_def on_lists_def split: prod.splits sum.splits)

lemma check_rule: "(\<And>s. P s \<Longrightarrow> b \<Longrightarrow> Q () s) \<Longrightarrow> (\<And>s. P s \<Longrightarrow> \<not> b \<Longrightarrow> E s) \<Longrightarrow> triple P (check b) Q E"
  by (auto simp: triple_def check_def)

lemma check_keeps: "triple (holds objs rec B) (check b) (\<lambda>_. holds objs rec B) (holds objs rec B)"
  by (rule check_rule)

lemma holds_call_new:
  assumes "on_lists rec" "holds objs rec B s" "x \<notin> objs (rt_dev s)" "objs d = insert x (objs (rt_dev s))"
  shows "holds_new objs rec B x (s\<lparr>rt_dev := d\<rparr>)"
  using assms by (auto simp: holds_new_def holds_def on_lists_def)

lemma holds_call_same: "on_lists rec \<Longrightarrow> holds objs rec B s \<Longrightarrow> objs d = objs (rt_dev s) \<Longrightarrow> holds objs rec B (s\<lparr>rt_dev := d\<rparr>)"
  by (simp add: holds_def on_lists_def)

text \<open>A creation: the object is new, or nothing has changed.\<close>

lemma create_entry_rule:
  assumes "res_device rc objs" "on_lists rec"
  shows "triple (holds objs rec B) (call (rc_create_entry rc e a))
     (\<lambda>st. if st = SAI_STATUS_SUCCESS then holds_new objs rec B e else holds objs rec B) (holds objs rec B)"
proof (rule tripleI)
  fix s r t assume s: "holds objs rec B s" and r: "call (rc_create_entry rc e a) s = (r, t)"
  obtain d where d: "rc_create_entry rc e a (rt_dev s) = (r, d)" "t = s\<lparr>rt_dev := d\<rparr>"
    using r by (auto simp: call_def split: prod.splits)
  have "if r = Inr SAI_STATUS_SUCCESS then e \<notin> objs (rt_dev s) \<and> objs d = insert e (objs (rt_dev s)) else objs d = objs (rt_dev s)"
    using assms(1) d(1) unfolding res_device_def creates_objs_def by blast
  then show "case r of Inl _ \<Rightarrow> holds objs rec B t | Inr st \<Rightarrow> (if st = SAI_STATUS_SUCCESS then holds_new objs rec B e else holds objs rec B) t"
    using s d(2) assms(2) by (auto simp: holds_call_new holds_call_same split: sum.splits if_splits)
qed

lemma create_oid_rule:
  assumes "res_device rc objs" "on_lists rec"
  shows "triple (holds objs rec B) (call (rc_create rc ty a))
     (\<lambda>i. if i = SAI_NULL_OBJECT_ID then holds objs rec B else holds_new objs rec B (Oid ty i)) (holds objs rec B)"
proof (rule tripleI)
  fix s r t assume s: "holds objs rec B s" and r: "call (rc_create rc ty a) s = (r, t)"
  obtain d where d: "rc_create rc ty a (rt_dev s) = (r, d)" "t = s\<lparr>rt_dev := d\<rparr>"
    using r by (auto simp: call_def split: prod.splits)
  have "case r of Inl _ \<Rightarrow> objs d = objs (rt_dev s)
       | Inr i \<Rightarrow> if i = SAI_NULL_OBJECT_ID then objs d = objs (rt_dev s) else Oid ty i \<notin> objs (rt_dev s) \<and> objs d = insert (Oid ty i) (objs (rt_dev s))"
    using assms(1) d(1) unfolding res_device_def creates_objs_def by blast
  then show "case r of Inl _ \<Rightarrow> holds objs rec B t | Inr i \<Rightarrow> (if i = SAI_NULL_OBJECT_ID then holds objs rec B else holds_new objs rec B (Oid ty i)) t"
    using s d(2) assms(2) by (auto simp: holds_call_new holds_call_same split: sum.splits if_splits)
qed

lemma check_success_rule:
  "triple (if st = SAI_STATUS_SUCCESS then holds_new objs rec B e else holds objs rec B) (check (st = SAI_STATUS_SUCCESS))
     (\<lambda>_. holds_new objs rec B e) (holds objs rec B)"
  by (auto intro: check_rule)

lemma check_not_null_rule:
  "triple (if i = SAI_NULL_OBJECT_ID then holds objs rec B else holds_new objs rec B (Oid ty i)) (check (i \<noteq> SAI_NULL_OBJECT_ID))
     (\<lambda>_. holds_new objs rec B (Oid ty i)) (holds objs rec B)"
  by (auto intro: check_rule)

text \<open>The removal of recorded objects.\<close>

lemma removes_run:
  assumes D: "res_device rc objs"
  shows "distinct xs \<Longrightarrow> set xs \<subseteq> objs (rt_dev s) \<Longrightarrow>
     \<exists>d. removes rc xs s = (Inr (), s\<lparr>rt_dev := d\<rparr>) \<and> objs d = objs (rt_dev s) - set xs"
proof (induction xs arbitrary: s)
  case Nil
  then show ?case by (auto simp: removes_def intro: exI [of _ "rt_dev s"])
next
  case (Cons x xs)
  obtain r d where d: "rc_remove rc x (rt_dev s) = (r, d)" by fastforce
  have o: "objs d = objs (rt_dev s) - {x} \<and> (x \<in> objs (rt_dev s) \<longrightarrow> r = Inr ())"
    using D d unfolding res_device_def removes_objs_def by blast
  let ?t = "s\<lparr>rt_dev := d\<rparr>"
  obtain d' where d': "removes rc xs ?t = (Inr (), ?t\<lparr>rt_dev := d'\<rparr>)" "objs d' = objs d - set xs"
    using Cons.IH [of ?t] Cons.prems o by auto
  have "removes rc (x # xs) s = (Inr (), s\<lparr>rt_dev := d'\<rparr>)"
    using d d'(1) o Cons.prems(2) by (simp add: removes_def thenP_apply call_def)
  with d'(2) o show ?case by auto
qed

text \<open>The lists of the tests.\<close>

definition nbr_objs :: "'d res_test \<Rightarrow> sai_obj list" where "nbr_objs s = map snd (rt_nbrs s)"
definition route_objs :: "'d res_test \<Rightarrow> sai_obj list" where "route_objs s = map snd (rt_routes s)"
definition member_objs :: "'d res_test \<Rightarrow> sai_obj list" where
  "member_objs s = rt_members s @ map snd (rt_nhops s) @ rt_list s"

lemma on_lists_all [simp]: "on_lists rt_list" "on_lists nbr_objs" "on_lists route_objs" "on_lists member_objs"
  by (simp_all add: on_lists_def nbr_objs_def route_objs_def member_objs_def)

lemma append_obj_rule: "triple (holds_new objs rt_list B e) (append_obj e) (\<lambda>_. holds objs rt_list B) E"
  unfolding append_obj_def by (rule triple_mod) (auto intro: holds_record)

lemma mset_update: "\<not> od_has d k \<Longrightarrow> mset (map snd (AList.update k v d)) = add_mset v (mset (map snd d))"
  by (induction d) (auto simp: od_has_def)

lemma get_rule: "(\<And>s. P s \<Longrightarrow> triple (\<lambda>t. t = s) (f s) Q E) \<Longrightarrow> triple P (bindP getP f) Q E"
  by (force simp: triple_def bindP_apply)

lemma check_left_rule:
  "res_device rc objs \<Longrightarrow> on_lists rec \<Longrightarrow> triple (holds objs rec B) (check_left rc n k) (\<lambda>_. holds objs rec B) (holds objs rec B)"
  unfolding check_left_def by (intro triple_bind [OF call_keeps(1) check_keeps]) (auto simp: res_device_def)

lemma lift_rule: "triple (holds objs rec B) (liftP r) (\<lambda>_. holds objs rec B) (holds objs rec B)"
  by (rule triple_lift)

text \<open>Entries of a table in turn: create, check the status, record, check what is left.\<close>

lemma fdb_step_rule:
  assumes "res_device rc objs"
  shows "triple (holds objs rt_list B) (fdb_step rc env m macs k) (\<lambda>_. holds objs rt_list B) (holds objs rt_list B)"
  unfolding fdb_step_def Let_def
  by (rule triple_bind [OF lift_rule], rule triple_bind [OF create_entry_rule [OF assms]], simp,
      rule triple_then [OF check_success_rule], rule triple_then [OF append_obj_rule], rule check_left_rule [OF assms], simp)

lemma next_ip_rule: "triple (holds objs rt_list B) next_ip (\<lambda>_. holds objs rt_list B) (holds objs rt_list B)"
  by (auto simp: triple_def next_ip_def holds_def split: list.splits)

lemma nat_step_rule:
  assumes "res_device rc objs"
  shows "triple (holds objs rt_list B) (snat_step rc env m k) (\<lambda>_. holds objs rt_list B) (holds objs rt_list B)"
    "triple (holds objs rt_list B) (dnat_step rc env m k) (\<lambda>_. holds objs rt_list B) (holds objs rt_list B)"
  unfolding snat_step_def dnat_step_def create_nat_def Let_def
  by (rule triple_bind [OF next_ip_rule], rule triple_bind [OF create_entry_rule [OF assms]], simp,
      rule triple_then [OF check_success_rule], rule triple_then [OF append_obj_rule], rule check_left_rule [OF assms], simp)+

lemma remove_new_run:
  assumes "res_device rc objs" "on_lists rec" "holds_new objs rec B x s"
  shows "\<exists>t. call (rc_remove rc x) s = (Inr (), t) \<and> holds objs rec B t"
proof -
  obtain r d where d: "rc_remove rc x (rt_dev s) = (r, d)" by fastforce
  have "objs d = objs (rt_dev s) - {x} \<and> (x \<in> objs (rt_dev s) \<longrightarrow> r = Inr ())"
    using assms(1) d unfolding res_device_def removes_objs_def by blast
  with d assms(2,3) show ?thesis
    by (auto simp: call_def holds_new_def holds_def on_lists_def)
qed

lemma one_more_nat_rule:
  assumes "res_device rc objs"
  shows "triple (holds objs rt_list B) (one_more_nat rc e ty) (\<lambda>_. holds objs rt_list B) (holds objs rt_list B)"
proof (rule tripleI)
  fix s r t assume s: "holds objs rt_list B s" and r: "one_more_nat rc e ty s = (r, t)"
  obtain q u where u: "create_nat rc e ty s = (q, u)" by fastforce
  from tripleD [OF create_entry_rule [OF assms on_lists_all(1)] s u [unfolded create_nat_def]]
  have law: "case q of Inl _ \<Rightarrow> holds objs rt_list B u
      | Inr st \<Rightarrow> (if st = SAI_STATUS_SUCCESS then holds_new objs rt_list B e else holds objs rt_list B) u" .
  show "case r of Inl _ \<Rightarrow> holds objs rt_list B t | Inr x \<Rightarrow> holds objs rt_list B t"
  proof (cases q)
    case (Inl err)
    then show ?thesis using r u law by (auto simp: one_more_nat_def bindP_apply catchP_def)
  next
    case (Inr st)
    show ?thesis
    proof (cases "st = SAI_STATUS_SUCCESS")
      case True
      then obtain v where v: "call (rc_remove rc e) u = (Inr (), v)" "holds objs rt_list B v"
        using remove_new_run [OF assms on_lists_all(1), of B e u] law Inr by auto
      with r u Inr True show ?thesis
        by (auto simp: one_more_nat_def bindP_apply catchP_def finallyP_apply check_def SAI_STATUS_SUCCESS_def)
    next
      case False
      with r u Inr law show ?thesis
        by (auto simp: one_more_nat_def bindP_apply catchP_def finallyP_apply check_def SAI_STATUS_SUCCESS_def)
    qed
  qed
qed

text \<open>A body that keeps account of its objects, and a clause that removes them, leave the device as it was.\<close>

lemma finally_restores:
  assumes "triple (holds objs rec B) body (\<lambda>_. holds objs rec B) (holds objs rec B)" "holds objs rec B s"
    and "\<And>t. holds objs rec B t \<Longrightarrow> \<exists>u. clear t = (Inr (), u) \<and> objs (rt_dev u) = B"
  shows "objs (rt_dev (snd (finallyP body clear s))) = B"
proof -
  obtain r t where t: "body s = (r, t)" by fastforce
  have "holds objs rec B t" using tripleD [OF assms(1,2) t] by (cases r) simp_all
  then obtain u where "clear t = (Inr (), u)" "objs (rt_dev u) = B" using assms(3) by blast
  with t show ?thesis by (simp add: finallyP_apply)
qed

lemma removes_clears:
  assumes "res_device rc objs" "holds objs rec B t"
  shows "\<exists>u. removes rc (rec t) t = (Inr (), u) \<and> objs (rt_dev u) = B"
  using removes_run [OF assms(1), of "rec t" t] assms(2) unfolding holds_def by force

lemma holds_start: "rec s = [] \<Longrightarrow> holds objs rec (objs (rt_dev s)) s"
  by (simp add: holds_def)

text \<open>The device has the same objects before and after, whether the statement returns or raises.\<close>

definition restores :: "('d \<Rightarrow> sai_obj set) \<Rightarrow> ('d res_test \<Rightarrow> bool) \<Rightarrow> ('d res_test, 'a) py \<Rightarrow> bool" where
  "restores objs P m \<longleftrightarrow> (\<forall>s. P s \<longrightarrow> objs (rt_dev (snd (m s))) = objs (rt_dev s))"

lemma restores_call: "keeps_objs objs m \<Longrightarrow> restores objs P (call m)"
  by (auto simp: restores_def keeps_objs_def call_def split: prod.splits)

lemma restores_lift: "restores objs P (liftP r)"
  by (simp add: restores_def)

lemma restores_bind: "restores objs P m \<Longrightarrow> (\<And>x. restores objs (\<lambda>_. True) (f x)) \<Longrightarrow> restores objs P (bindP m f)"
  by (auto simp: restores_def bindP_apply split: prod.splits sum.splits)

lemma restores_lift_bind: "(\<And>x. restores objs P (f x)) \<Longrightarrow> restores objs P (bindP (liftP r) f)"
  by (auto simp: restores_def bindP_apply split: sum.splits)

lemma restores_mod:
  assumes "\<And>s. rt_dev (f s) = rt_dev s" "\<And>s. P (f s)" "restores objs P m"
  shows "restores objs Q (thenP (modP f) m)"
  using assms by (simp add: restores_def thenP_apply)

lemma restores_finally:
  assumes "\<And>B. triple (holds objs rec B) body (\<lambda>_. holds objs rec B) (holds objs rec B)"
    and "\<And>B t. holds objs rec B t \<Longrightarrow> \<exists>u. clear t = (Inr (), u) \<and> objs (rt_dev u) = B"
  shows "restores objs (\<lambda>s. rec s = []) (finallyP body clear)"
  unfolding restores_def
proof (intro allI impI)
  fix s :: "'a res_test" assume "rec s = []"
  then have "holds objs rec (objs (rt_dev s)) s" by (rule holds_start)
  from finally_restores [OF assms(1) this assms(2)]
  show "objs (rt_dev (snd (finallyP body clear s))) = objs (rt_dev s)" .
qed

lemma remove_list_clears:
  "res_device rc objs \<Longrightarrow> holds objs rt_list B t \<Longrightarrow> \<exists>u. remove_list rc t = (Inr (), u) \<and> objs (rt_dev u) = B"
  using removes_clears [of rc objs rt_list B t] by (simp add: remove_list_def bindP_apply)

lemma fdb_restores:
  assumes "res_device rc objs"
  shows "restores objs (\<lambda>_. True) (availableFdbEntryTest rc env fl)"
  unfolding availableFdbEntryTest_def Let_def
  by (intro restores_bind restores_call restores_mod [where P = "\<lambda>s. rt_list s = []"] restores_finally
      triple_for fdb_step_rule [OF assms] remove_list_clears [OF assms])
    (use assms in \<open>auto simp: res_device_def\<close>)

lemma restores_start_ips:
  assumes "restores objs (\<lambda>s. rt_list s = []) m"
  shows "restores objs (\<lambda>s. rt_list s = []) (thenP (start_ips draws n v6) m)"
  using assms by (auto simp: restores_def start_ips_def thenP_apply bindP_apply split: sum.splits)

lemma nat_restores:
  assumes "res_device rc objs"
  shows "restores objs (\<lambda>_. True) (availableSnatEntryTest rc env draws)"
    "restores objs (\<lambda>_. True) (availableDnatEntryTest rc env draws)"
  unfolding availableSnatEntryTest_def availableDnatEntryTest_def
  by (intro restores_bind restores_call restores_mod [where P = "\<lambda>s. rt_list s = []"] restores_start_ips restores_finally
      triple_then [OF triple_for] nat_step_rule [OF assms] triple_bind [OF next_ip_rule] one_more_nat_rule [OF assms]
      remove_list_clears [OF assms]; use assms in \<open>auto simp: res_device_def\<close>)+

lemma create_group_rule:
  assumes "res_device rc objs" "on_lists rec"
  shows "triple (holds objs rec B) (create_group rc)
     (\<lambda>i. if i = SAI_NULL_OBJECT_ID then holds objs rec B else holds_new objs rec B (Oid ''next_hop_group'' i)) (holds objs rec B)"
  unfolding create_group_def by (rule create_oid_rule [OF assms])

lemma avail_rule:
  "res_device rc objs \<Longrightarrow> on_lists rec \<Longrightarrow> triple (holds objs rec B) (call (rc_available rc n)) (\<lambda>_. holds objs rec B) (holds objs rec B)"
  by (rule call_keeps(1)) (auto simp: res_device_def)

lemma nhg_loop_rule:
  assumes "res_device rc objs"
  shows "triple (holds objs rt_list B) (nhg_loop rc m a l) (\<lambda>_. holds objs rt_list B) (holds objs rt_list B)"
proof (induction l arbitrary: a)
  case (Cons k l)
  show ?case unfolding nhg_loop.simps
    by (rule triple_bind [OF create_group_rule [OF assms]], simp, rule triple_then [OF check_not_null_rule],
        rule triple_then [OF append_obj_rule], rule triple_bind [OF avail_rule [OF assms]], simp,
        rule triple_then [OF check_keeps], rule Cons.IH)
qed (simp add: triple_ret)

lemma one_more_oid_rule:
  assumes D: "res_device rc objs" and L: "on_lists rec"
    and c: "triple (holds objs rec B) create
      (\<lambda>i. if i = SAI_NULL_OBJECT_ID then holds objs rec B else holds_new objs rec B (Oid ty i)) (holds objs rec B)"
  shows "triple (holds objs rec B) (one_more_oid rc ty create) (\<lambda>_. holds objs rec B) (holds objs rec B)"
  unfolding one_more_oid_def
proof (rule triple_bind [OF c], rule triple_if)
  fix i assume "i \<noteq> SAI_NULL_OBJECT_ID"
  then show "triple (if i = SAI_NULL_OBJECT_ID then holds objs rec B else holds_new objs rec B (Oid ty i))
      (thenP (call (rc_remove rc (Oid ty i))) (raiseP AssertionError)) (\<lambda>_. holds objs rec B) (holds objs rec B)"
    using remove_new_run [OF D L, of B "Oid ty i"] by (fastforce simp: triple_def thenP_apply)
qed (simp add: triple_ret)

lemma nhg_restores:
  assumes "res_device rc objs"
  shows "restores objs (\<lambda>_. True) (availableNexthopGroupEntryTest rc)"
  unfolding availableNexthopGroupEntryTest_def
  by (intro restores_bind restores_call restores_mod [where P = "\<lambda>s. rt_list s = []"] restores_finally
      triple_bind [OF nhg_loop_rule [OF assms]] triple_then [OF check_keeps] one_more_oid_rule [OF assms]
      create_group_rule [OF assms] remove_list_clears [OF assms])
    (use assms in \<open>auto simp: res_device_def\<close>)

text \<open>A key that is not in a dictionary stays out of it during a call.\<close>

lemma call_frame:
  assumes "triple P (call m) Q E" "\<And>s d. K (s\<lparr>rt_dev := d\<rparr>) = K s"
  shows "triple (\<lambda>s. P s \<and> K s) (call m) (\<lambda>x s. Q x s \<and> K s) E"
proof (rule tripleI)
  fix s r t assume s: "P s \<and> K s" and r: "call m s = (r, t)"
  from r have "K t = K s" by (auto simp: call_def assms(2) split: prod.splits)
  with tripleD [OF assms(1) _ r] s show "case r of Inl _ \<Rightarrow> E t | Inr x \<Rightarrow> Q x t \<and> K t" by (cases r) auto
qed

lemma check_frame: "triple P (check b) Q E \<Longrightarrow> triple (\<lambda>s. P s \<and> K s) (check b) (\<lambda>x s. Q x s \<and> K s) E"
  by (auto simp: triple_def check_def split: if_splits)

lemma get_split:
  assumes "\<And>s. P s \<Longrightarrow> b s \<Longrightarrow> triple P m Q E" "\<And>s. triple (\<lambda>t. P t \<and> \<not> b t) (n s) Q E"
  shows "triple P (bindP getP (\<lambda>s. if b s then m else n s)) Q E"
  using assms unfolding triple_def by (auto simp: bindP_apply)

lemma add_nbr_rule:
  "triple (\<lambda>s. holds_new objs nbr_objs B e s \<and> \<not> od_has (rt_nbrs s) k) (add_nbr k e) (\<lambda>_. holds objs nbr_objs B) E"
  unfolding add_nbr_def by (rule triple_mod) (auto simp: nbr_objs_def mset_update simp del: mset_map intro!: holds_record)

lemma nbr4_loop_rule:
  assumes D: "res_device rc objs"
  shows "triple (holds objs nbr_objs B) (nbr4_loop rc env a m n l) (\<lambda>_. holds objs nbr_objs B) (holds objs nbr_objs B)"
proof (induction l arbitrary: n)
  case Nil
  show ?case by (auto intro!: triple_ret simp: triple_def)
next
  case (Cons x l)
  show ?case unfolding nbr4_loop.simps Let_def create_neighbor_def
    by (rule triple_if)
      (rule triple_bind [OF lift_rule], rule get_split, rule Cons.IH,
       rule triple_bind [OF call_frame [OF create_entry_rule [OF D]]], simp, simp,
       rule triple_then [OF check_frame [OF check_success_rule]], rule triple_then [OF add_nbr_rule],
       rule triple_then [OF check_left_rule [OF D]], simp, rule Cons.IH, simp add: triple_ret)
qed

lemma nbrs_clear:
  "res_device rc objs \<Longrightarrow> holds objs nbr_objs B t \<Longrightarrow> \<exists>u. remove_nbrs rc t = (Inr (), u) \<and> objs (rt_dev u) = B"
  using removes_clears [of rc objs nbr_objs B t] by (simp add: remove_nbrs_def bindP_apply nbr_objs_def)

lemmas restores_read = restores_bind [OF restores_call]

lemma nbr4_restores:
  assumes "res_device rc objs"
  shows "restores objs (\<lambda>_. True) (availableIPv4NeighborEntryTest rc env draws)"
proof -
  have "restores objs (\<lambda>_. True) (case h of None \<Rightarrow> retP ()
     | Some available_v4_host_routes \<Rightarrow>
         bindP (call (rc_available rc ''available_ipv4_neighbor_entry'')) (\<lambda>a.
         let m = (if a > available_v4_host_routes then available_v4_host_routes else a) in
         thenP (modP (\<lambda>s. s\<lparr>rt_nbrs := []\<rparr>))
         (bindP (liftP (generate_ip_addr draws (m + 100) False)) (\<lambda>ip_add.
         finallyP (nbr4_loop rc env a m 0 ip_add) (remove_nbrs rc)))))" for h
  proof (cases h)
    case (Some x)
    show ?thesis unfolding Some option.case Let_def
      by (intro restores_read restores_mod [where P = "\<lambda>s. nbr_objs s = []"] restores_lift_bind
          restores_finally [where rec = nbr_objs] nbr4_loop_rule [OF assms] nbrs_clear [OF assms])
        (use assms in \<open>auto simp: res_device_def nbr_objs_def\<close>)
  qed (simp add: restores_def)
  then show ?thesis by (simp add: availableIPv4NeighborEntryTest_def restores_def bindP_apply)
qed

section \<open>Members of next hop groups\<close>

lemma add_member_objs:
  "triple (\<lambda>s. holds_new objs member_objs B e s \<and> \<not> od_has (rt_nhops s) k) (add_nhop k e) (\<lambda>_. holds objs member_objs B) E"
  "triple (holds_new objs member_objs B e) (modP (\<lambda>s. s\<lparr>rt_members := rt_members s @ [e]\<rparr>)) (\<lambda>_. holds objs member_objs B) E"
  "triple (holds_new objs member_objs B e) (append_obj e) (\<lambda>_. holds objs member_objs B) E"
  unfolding add_nhop_def append_obj_def
  by (rule triple_mod; auto simp: member_objs_def mset_update simp del: mset_map intro!: holds_record)+

lemma member_loop_rule:
  assumes D: "res_device rc objs"
  shows "triple (holds objs member_objs B) (member_loop rc env mm g m n l) (\<lambda>_. holds objs member_objs B) (holds objs member_objs B)"
proof (induction l arbitrary: m n)
  case Nil
  show ?case by (auto intro!: triple_ret simp: triple_def)
next
  case (Cons x l)
  show ?case unfolding member_loop.simps create_next_hop_def
    by (rule triple_if)
      (rule triple_bind [OF lift_rule], rule get_split, rule Cons.IH,
       rule triple_bind [OF call_frame [OF create_oid_rule [OF D]]], simp, simp,
       rule triple_then [OF check_frame [OF check_not_null_rule]], rule triple_then [OF add_member_objs(1)],
       rule triple_bind [OF create_oid_rule [OF D]], simp, rule triple_then [OF check_not_null_rule],
       rule triple_then [OF add_member_objs(2)], rule triple_then [OF check_left_rule [OF D]], simp, rule Cons.IH,
       simp add: triple_ret)
qed

lemma group_loop_rule:
  assumes D: "res_device rc objs"
  shows "triple (holds objs member_objs B) (group_loop rc env mm mg m g l) (\<lambda>_. holds objs member_objs B) (holds objs member_objs B)"
proof (induction "nat (mg - g)" arbitrary: m g l rule: less_induct)
  case less
  show ?case
  proof (cases "m < mm \<and> g < mg")
    case True
    have IH: "triple (holds objs member_objs B) (group_loop rc env mm mg m' (g + 1) l') (\<lambda>_. holds objs member_objs B)
        (holds objs member_objs B)" for m' l'
      by (rule less) (use True in auto)
    show ?thesis unfolding group_loop.simps [of rc env mm mg m g l] if_P [OF True] split_def
      by (rule triple_bind [OF create_group_rule [OF D]], simp, rule triple_then [OF check_not_null_rule],
          rule triple_then [OF add_member_objs(3)], rule triple_bind [OF member_loop_rule [OF D]], rule IH)
  next
    case False
    show ?thesis unfolding group_loop.simps [of rc env mm mg m g l] if_not_P [OF False] by (simp add: triple_ret)
  qed
qed

lemma members_clear:
  assumes "res_device rc objs" "holds objs member_objs B t"
  shows "\<exists>u. bindP getP (\<lambda>s. thenP (removes rc (rt_members s))
          (thenP (removes rc (map snd (rt_nhops s))) (removes rc (rt_list s)))) t = (Inr (), u) \<and> objs (rt_dev u) = B"
proof -
  have "removes rc (xs @ ys) = thenP (removes rc xs) (removes rc ys)" for xs ys
    by (induction xs) (auto simp: removes_def thenP_def bindP_def retP_def fun_eq_iff split: prod.splits sum.splits)
  then show ?thesis using removes_clears [OF assms] by (simp add: member_objs_def bindP_apply)
qed

lemma members_restores:
  assumes "res_device rc objs"
  shows "restores objs (\<lambda>_. True) (availableNexthopGroupMemberEntryTest rc env draws)"
  unfolding availableNexthopGroupMemberEntryTest_def
  by (intro restores_read restores_mod [where P = "\<lambda>s. member_objs s = []"] restores_lift_bind
      restores_finally [where rec = member_objs] triple_then [OF group_loop_rule [OF assms]] check_left_rule [OF assms] members_clear [OF assms])
    (use assms in \<open>auto simp: res_device_def member_objs_def\<close>)

text \<open>Six of the tests leave the device as they found it, whatever call of them raises and whichever
  check fails.\<close>

datatype res_case = FdbCase | Neighbor4Case | SnatCase | DnatCase | GroupCase | MemberCase

fun run_case :: "'d res_client \<Rightarrow> res_env \<Rightarrow> (rat \<Rightarrow> rat) \<Rightarrow> (nat \<Rightarrow> nat) \<Rightarrow> res_case \<Rightarrow> ('d res_test, unit) py" where
  "run_case rc env fl draws FdbCase = availableFdbEntryTest rc env fl"
| "run_case rc env fl draws Neighbor4Case = availableIPv4NeighborEntryTest rc env draws"
| "run_case rc env fl draws SnatCase = availableSnatEntryTest rc env draws"
| "run_case rc env fl draws DnatCase = availableDnatEntryTest rc env draws"
| "run_case rc env fl draws GroupCase = availableNexthopGroupEntryTest rc"
| "run_case rc env fl draws MemberCase = availableNexthopGroupMemberEntryTest rc env draws"


section \<open>Routes\<close>

definition hop_objs :: "'d res_test \<Rightarrow> sai_obj list" where
  "hop_objs s = map snd (rt_routes s) @ (case rt_nhop_id s of None \<Rightarrow> []
     | Some n \<Rightarrow> if n = SAI_NULL_OBJECT_ID then [] else [Oid ''next_hop'' n])"

lemma on_lists_hop [simp]: "on_lists hop_objs"
  by (simp add: on_lists_def hop_objs_def)

lemma hop_objs_other [simp]: "hop_objs (s\<lparr>rt_route_number := n\<rparr>) = hop_objs s"
  "hop_objs (s\<lparr>rt_v4_host_routes := h\<rparr>) = hop_objs s" "hop_objs (s\<lparr>rt_v6_host_routes := h\<rparr>) = hop_objs s"
  by (simp_all add: hop_objs_def)

lemma mod_rule: "(\<And>s. rec (f s) = rec s) \<Longrightarrow> (\<And>s. rt_dev (f s) = rt_dev s) \<Longrightarrow>
    triple (holds objs rec B) (modP f) (\<lambda>_. holds objs rec B) E"
  by (rule triple_mod) (simp add: holds_def)

lemma add_route_rule:
  "triple (\<lambda>s. holds_new objs hop_objs B e s \<and> \<not> od_has (rt_routes s) k) (add_route k e) (\<lambda>_. holds objs hop_objs B) E"
  unfolding add_route_def by (rule triple_mod) (auto simp: hop_objs_def mset_update simp del: mset_map intro!: holds_record)

lemma fail_rule: "(\<And>s. P s \<Longrightarrow> E s) \<Longrightarrow> triple P (raiseP e) Q E"
  by (simp add: triple_def)

text \<open>The status of a creation decides between three continuations.\<close>

lemma status_rule:
  assumes "triple (\<lambda>s. holds_new objs rec B e s \<and> K s) m Q E" "triple (holds objs rec B) n Q E"
  shows "triple (\<lambda>s. (if st = SAI_STATUS_SUCCESS then holds_new objs rec B e else holds objs rec B) s \<and> K s)
    (if st = SAI_STATUS_SUCCESS then m else n) Q E"
  using assms by (auto simp: triple_def)

lemma get_keeps:
  "(\<And>s. triple (holds objs rec B) (f s) Q (holds objs rec B)) \<Longrightarrow> triple (holds objs rec B) (bindP getP f) Q (holds objs rec B)"
  by (rule get_rule) (auto simp: triple_def)

lemma route4_try_rule:
  assumes D: "res_device rc objs"
  shows "triple (holds objs hop_objs B) (route4_try rc env h m k a) (\<lambda>_. holds objs hop_objs B) (holds objs hop_objs B)"
  unfolding route4_try_def Let_def
  by (rule triple_bind [OF lift_rule], rule get_split, simp add: triple_ret,
      rule triple_bind [OF call_frame [OF create_entry_rule [OF D]]], simp, simp, rule status_rule,
      rule triple_then [OF add_route_rule], rule triple_then [OF mod_rule], simp, simp,
      rule triple_bind [OF avail_rule [OF D]], simp, rule get_keeps, rule triple_then [OF check_keeps], simp add: triple_ret,
      intro triple_if triple_ret triple_then [OF mod_rule] fail_rule, simp_all)

lemma route6_try_rule:
  assumes D: "res_device rc objs"
  shows "triple (holds objs hop_objs B) (route6_try rc env h m n k a) (\<lambda>_. holds objs hop_objs B) (holds objs hop_objs B)"
  unfolding route6_try_def Let_def
  by (rule triple_bind [OF lift_rule], rule get_split, simp add: triple_ret,
      rule triple_bind [OF call_frame [OF create_entry_rule [OF D]]], simp, simp, rule status_rule,
      rule triple_then [OF add_route_rule], rule triple_bind [OF avail_rule [OF D]], simp,
      rule triple_then [OF check_keeps], simp add: triple_ret,
      intro triple_if triple_ret triple_then [OF mod_rule] fail_rule, simp_all)

lemma route4_loop_rule:
  assumes D: "res_device rc objs"
  shows "triple (holds objs hop_objs B) (route4_loop rc env h m k l) (\<lambda>_. holds objs hop_objs B) (holds objs hop_objs B)"
proof (induction l arbitrary: k)
  case Nil
  show ?case by (auto simp: triple_def bindP_apply)
next
  case (Cons x l)
  show ?case unfolding route4_loop.simps
    by (rule get_keeps) (intro triple_if triple_bind [OF route4_try_rule [OF D]] Cons.IH triple_ret)
qed

lemma route6_loop_rule:
  assumes D: "res_device rc objs"
  shows "triple (holds objs hop_objs B) (route6_loop rc env h m n k l) (\<lambda>_. holds objs hop_objs B) (holds objs hop_objs B)"
proof (induction l arbitrary: n k)
  case Nil
  show ?case by (auto intro!: triple_ret simp: triple_def)
next
  case (Cons x l)
  show ?case unfolding route6_loop.simps split_def
    by (intro triple_if triple_bind [OF route6_try_rule [OF D]] Cons.IH triple_ret)
qed

lemma triple_ex:
  assumes "\<And>B. B \<in> N \<Longrightarrow> triple (P B) m (Q B) (E B)"
  shows "triple (\<lambda>s. \<exists>B\<in>N. P B s) m (\<lambda>x s. \<exists>B\<in>N. Q B x s) (\<lambda>s. \<exists>B\<in>N. E B s)"
proof (rule tripleI)
  fix s r t assume "\<exists>B\<in>N. P B s" and r: "m s = (r, t)"
  then obtain B where B: "B \<in> N" "P B s" by blast
  from tripleD [OF assms [OF B(1)] B(2) r] B(1)
  show "case r of Inl _ \<Rightarrow> \<exists>B\<in>N. E B t | Inr x \<Rightarrow> \<exists>B\<in>N. Q B x t" by (cases r) auto
qed

lemma triple_exn: "triple P m Q E \<Longrightarrow> (\<And>s. E s \<Longrightarrow> E' s) \<Longrightarrow> triple P m Q E'"
  unfolding triple_def by (force split: sum.splits prod.splits)

lemma store_hop_rule:
  "triple (\<lambda>s. (if i = SAI_NULL_OBJECT_ID then holds objs hop_objs B else holds_new objs hop_objs B (Oid ''next_hop'' i)) s
     \<and> rt_nhop_id s = None) (modP (\<lambda>s. s\<lparr>rt_nhop_id := Some i\<rparr>)) (\<lambda>_. holds objs hop_objs B) E"
proof (rule triple_mod)
  fix s :: "'a res_test"
  assume s: "(if i = SAI_NULL_OBJECT_ID then holds objs hop_objs B else holds_new objs hop_objs B (Oid ''next_hop'' i)) s
     \<and> rt_nhop_id s = None"
  show "holds objs hop_objs B (s\<lparr>rt_nhop_id := Some i\<rparr>)"
  proof (cases "i = SAI_NULL_OBJECT_ID")
    case True
    with s have "hop_objs (s\<lparr>rt_nhop_id := Some i\<rparr>) = hop_objs s" by (simp add: hop_objs_def)
    with s True show ?thesis by (simp add: holds_def)
  next
    case False
    show ?thesis by (rule holds_record [of objs hop_objs B "Oid ''next_hop'' i" s]) (use s False in \<open>auto simp: hop_objs_def\<close>)
  qed
qed

lemma create_hop_rule:
  assumes "res_device rc objs"
  shows "triple (\<lambda>s. holds objs hop_objs B s \<and> rt_nhop_id s = None) (create_next_hop rc env ip)
     (\<lambda>i s. (if i = SAI_NULL_OBJECT_ID then holds objs hop_objs B else holds_new objs hop_objs B (Oid ''next_hop'' i)) s
        \<and> rt_nhop_id s = None) (holds objs hop_objs B)"
  unfolding create_next_hop_def by (rule call_frame [OF create_oid_rule [OF assms]]) simp_all

definition route_neighbor :: "res_env \<Rightarrow> ip_address_t \<Rightarrow> sai_obj" where
  "route_neighbor env ip = NeighborEntry (Some (re_switch_id env)) (re_port10_rif env) ip"

lemma route_next_hop_rule:
  fixes objs :: "'d \<Rightarrow> sai_obj set"
  assumes D: "res_device rc objs" and ip: "sai_ipaddress addr = Inr ip" and N: "N = {B, insert (route_neighbor env ip) B}"
  shows "triple (\<lambda>s. holds objs hop_objs B s \<and> rt_nhop_id s = None) (route_next_hop rc env addr)
     (\<lambda>_ s. \<exists>C\<in>N. holds objs hop_objs C s) (\<lambda>s. \<exists>C\<in>N. holds objs hop_objs C s)"
proof -
  let ?E = "\<lambda>s. \<exists>C\<in>N. holds objs hop_objs C s"
  have hop: "triple (\<lambda>s. \<exists>C\<in>N. holds objs hop_objs C s \<and> rt_nhop_id s = None)
     (bindP (create_next_hop rc env ip) (\<lambda>nhop.
     thenP (modP (\<lambda>s. s\<lparr>rt_nhop_id := Some nhop\<rparr>)) (thenP (check (nhop \<noteq> SAI_NULL_OBJECT_ID)) (retP nhop)))) (\<lambda>_. ?E) ?E"
    by (rule triple_ex, rule triple_bind [OF create_hop_rule [OF D]], rule triple_then [OF store_hop_rule],
        rule triple_then [OF check_keeps], simp add: triple_ret)
  have nbr: "triple (\<lambda>s. holds objs hop_objs B s \<and> rt_nhop_id s = None)
     (call (rc_create_entry rc (route_neighbor env ip) [(''dst_mac_address'', RStr ''00:11:22:33:44:55'')]))
     (\<lambda>_ s. \<exists>C\<in>N. holds objs hop_objs C s \<and> rt_nhop_id s = None) ?E"
    by (rule triple_exn [OF triple_weaken [OF call_frame [OF create_entry_rule [OF D], where K = "\<lambda>s. rt_nhop_id s = None"]]])
      (auto simp: N holds_new_def split: if_splits)
  show ?thesis unfolding route_next_hop_def ip
    by (rule triple_bind [OF triple_lift [where Q = "\<lambda>x s. x = ip \<and> holds objs hop_objs B s \<and> rt_nhop_id s = None"]], simp, use N in simp)
      (use triple_bind [OF nbr hop] in \<open>auto simp: triple_def route_neighbor_def\<close>)
qed

lemma remove_routes_run:
  assumes D: "res_device rc objs" and t: "holds objs hop_objs B t"
  shows "objs (rt_dev (snd (remove_routes rc t))) = B"
proof -
  let ?R = "map snd (rt_routes t)"
  obtain d where d: "removes rc ?R t = (Inr (), t\<lparr>rt_dev := d\<rparr>)" "objs d = objs (rt_dev t) - set ?R"
    using removes_run [OF D, of ?R t] t by (auto simp: holds_def hop_objs_def)
  have null: "Oid ''next_hop'' SAI_NULL_OBJECT_ID \<notin> objs d" using D by (simp add: res_device_def)
  have rm: "objs (snd (rc_remove rc x d)) = objs d - {x}" for x
    using D unfolding res_device_def removes_objs_def by (metis prod.collapse)
  show ?thesis
  proof (cases "rt_nhop_id t")
    case None
    with d t show ?thesis by (auto simp: remove_routes_def bindP_apply thenP_apply holds_def hop_objs_def)
  next
    case (Some n)
    have "rt_dev (snd (remove_routes rc t)) = snd (rc_remove rc (Oid ''next_hop'' n) d)"
      using d Some by (simp add: remove_routes_def bindP_apply thenP_apply call_def split: prod.splits)
    then show ?thesis using rm null d t Some by (auto simp: holds_def hop_objs_def split: if_splits)
  qed
qed

lemma finally_leaves:
  assumes "triple P body (\<lambda>_ s. \<exists>C\<in>N. holds objs hop_objs C s) (\<lambda>s. \<exists>C\<in>N. holds objs hop_objs C s)" "P s" "res_device rc objs"
  shows "objs (rt_dev (snd (finallyP body (remove_routes rc) s))) \<in> N"
proof -
  obtain r t where t: "body s = (r, t)" by fastforce
  obtain C where C: "C \<in> N" "holds objs hop_objs C t" using tripleD [OF assms(1,2) t] by (cases r) auto
  obtain q u where u: "remove_routes rc t = (q, u)" by fastforce
  have "snd (finallyP body (remove_routes rc) s) = u" using t u by (cases q) (simp_all add: finallyP_apply)
  with remove_routes_run [OF assms(3) C(2)] u C(1) show ?thesis by simp
qed

definition v4_neighbor :: "res_env \<Rightarrow> sai_obj" where
  "v4_neighbor env = route_neighbor env \<lparr>ia_family = FamilyV4, ia_addr = Ip4 ''10.10.10.1''\<rparr>"

definition v6_neighbor :: "res_env \<Rightarrow> sai_obj" where
  "v6_neighbor env = route_neighbor env \<lparr>ia_family = FamilyV6, ia_addr = Ip6 ''2001:0db8:1::1''\<rparr>"

lemma read_avail:
  assumes "res_device rc objs"
  shows "(\<exists>e d. call (rc_available rc n) s = (Inl e, s\<lparr>rt_dev := d\<rparr>) \<and> objs d = objs (rt_dev s))
    \<or> (\<exists>m d. call (rc_available rc n) s = (Inr m, s\<lparr>rt_dev := d\<rparr>) \<and> objs d = objs (rt_dev s))"
proof -
  obtain r d where d: "rc_available rc n (rt_dev s) = (r, d)" by fastforce
  then have "objs d = objs (rt_dev s)" using assms unfolding res_device_def keeps_objs_def by blast
  with d show ?thesis by (cases r) (auto simp: call_def)
qed

lemma route4_body:
  assumes D: "res_device rc objs" and N: "N = {B, insert (v4_neighbor env) B}"
  shows "triple (\<lambda>s. holds objs hop_objs B s \<and> rt_nhop_id s = None)
    (bindP (route_next_hop rc env ''10.10.10.1'') (\<lambda>nhop.
        thenP (modP (\<lambda>s. s\<lparr>rt_route_number := 0\<rparr>))
        (thenP (route4_loop rc env nhop m ''/32'' ip_add)
        (thenP (modP (\<lambda>s. s\<lparr>rt_v4_host_routes := Some (rt_route_number s)\<rparr>))
        (bindP (call (rc_available rc ''available_ipv4_route_entry'')) (\<lambda>avail. check (avail = 0)))))))
    (\<lambda>_ s. \<exists>C\<in>N. holds objs hop_objs C s) (\<lambda>s. \<exists>C\<in>N. holds objs hop_objs C s)"
  by (rule triple_bind [OF route_next_hop_rule [OF D _ N [unfolded v4_neighbor_def]]], simp add: sai_ipaddress_def, rule triple_ex)
    (intro triple_then [OF mod_rule] triple_then [OF route4_loop_rule [OF D]] triple_bind [OF avail_rule [OF D]] check_keeps; simp)

lemma route6_body:
  assumes D: "res_device rc objs" and N: "N = {B, insert (v6_neighbor env) B}"
  shows "triple (\<lambda>s. holds objs hop_objs B s \<and> rt_nhop_id s = None)
    (bindP (route_next_hop rc env ''2001:0db8:1::1'') (\<lambda>nhop.
        bindP (route6_loop rc env nhop m 0 ''/128'' ip_add) (\<lambda>route_number.
        thenP (modP (\<lambda>s. s\<lparr>rt_v6_host_routes := Some route_number\<rparr>))
        (bindP (call (rc_available rc ''available_ipv6_route_entry'')) (\<lambda>avail. check (avail = 0))))))
    (\<lambda>_ s. \<exists>C\<in>N. holds objs hop_objs C s) (\<lambda>s. \<exists>C\<in>N. holds objs hop_objs C s)"
  by (rule triple_bind [OF route_next_hop_rule [OF D _ N [unfolded v6_neighbor_def]]], simp add: sai_ipaddress_def, rule triple_ex)
    (intro triple_bind [OF route6_loop_rule [OF D]] triple_then [OF mod_rule] triple_bind [OF avail_rule [OF D]] check_keeps; simp)

lemma hop_start:
  "rt_nhop_id s = None \<Longrightarrow> rt_routes s = [] \<Longrightarrow> holds objs hop_objs (objs (rt_dev s)) s \<and> rt_nhop_id s = None"
  by (simp add: holds_def hop_objs_def)

lemma route4_leaves:
  assumes D: "res_device rc objs" and h: "rt_nhop_id s = None"
  shows "objs (rt_dev (snd (availableIPv4RouteEntryTest rc env draws s)))
    \<in> {objs (rt_dev s), insert (v4_neighbor env) (objs (rt_dev s))}"
  using read_avail [OF D, of "''available_ipv4_route_entry''" s]
proof (elim disjE exE conjE)
  fix m d assume d: "call (rc_available rc ''available_ipv4_route_entry'') s = (Inr m, s\<lparr>rt_dev := d\<rparr>)" "objs d = objs (rt_dev s)"
  let ?t = "s\<lparr>rt_dev := d, rt_routes := []\<rparr>"
  show ?thesis
  proof (cases "generate_ip_addr draws (m + 100) False")
    case (Inr l)
    from finally_leaves [OF route4_body [OF D refl, of "objs d" env m l] _ D, of ?t] h hop_start [of ?t objs] d Inr
    show ?thesis by (simp add: availableIPv4RouteEntryTest_def bindP_apply thenP_apply)
  qed (use d in \<open>simp add: availableIPv4RouteEntryTest_def bindP_apply thenP_apply\<close>)
qed (simp add: availableIPv4RouteEntryTest_def bindP_apply)

lemma route6_leaves:
  assumes D: "res_device rc objs" and h: "rt_nhop_id s = None"
  shows "objs (rt_dev (snd (availableIPv6RouteEntryTest rc env draws s)))
    \<in> {objs (rt_dev s), insert (v6_neighbor env) (objs (rt_dev s))}"
  using read_avail [OF D, of "''available_ipv6_route_entry''" s]
proof (elim disjE exE conjE)
  fix m d assume d: "call (rc_available rc ''available_ipv6_route_entry'') s = (Inr m, s\<lparr>rt_dev := d\<rparr>)" "objs d = objs (rt_dev s)"
  let ?t = "s\<lparr>rt_dev := d, rt_v6_host_routes := Some m, rt_routes := []\<rparr>"
  show ?thesis
  proof (cases "generate_ip_addr draws (m + 100) True")
    case (Inr l)
    from finally_leaves [OF route6_body [OF D refl, of "objs d" env m l] _ D, of ?t] h hop_start [of ?t objs] d Inr
    show ?thesis by (simp add: availableIPv6RouteEntryTest_def bindP_apply thenP_apply)
  qed (use d in \<open>simp add: availableIPv6RouteEntryTest_def bindP_apply thenP_apply\<close>)
qed (simp add: availableIPv6RouteEntryTest_def bindP_apply)


lemma route4_try_count:
  "triple (\<lambda>s. 0 \<le> rt_route_number s \<and> rt_route_number s < m) (route4_try rc env h m k a)
     (\<lambda>_ s. 0 \<le> rt_route_number s \<and> rt_route_number s \<le> max 0 m) (\<lambda>_. True)"
  by (rule tripleI)
    (auto simp: route4_try_def Let_def bindP_apply thenP_apply call_def check_def add_route_def split: prod.splits sum.splits if_splits)

lemma route4_loop_count:
  "triple (\<lambda>s. 0 \<le> rt_route_number s \<and> rt_route_number s \<le> max 0 m) (route4_loop rc env h m k l)
     (\<lambda>_ s. rt_route_number s = max 0 m) (\<lambda>_. True)"
proof (induction l arbitrary: k)
  case Nil
  show ?case by (auto simp: triple_def bindP_apply)
next
  case (Cons x l)
  show ?case unfolding route4_loop.simps
  proof (rule get_rule)
    fix s :: "'a res_test" assume s: "0 \<le> rt_route_number s \<and> rt_route_number s \<le> max 0 m"
    show "triple (\<lambda>t. t = s) (if rt_route_number s < m then bindP (route4_try rc env h m k x) (\<lambda>k. route4_loop rc env h m k l)
       else retP ()) (\<lambda>_ s. rt_route_number s = max 0 m) (\<lambda>_. True)"
    proof (rule triple_if)
      assume "rt_route_number s < m"
      with s show "triple (\<lambda>t. t = s) (bindP (route4_try rc env h m k x) (\<lambda>k. route4_loop rc env h m k l))
          (\<lambda>_ s. rt_route_number s = max 0 m) (\<lambda>_. True)"
        by (intro triple_bind [OF triple_weaken [OF route4_try_count [of m]] Cons.IH]) auto
    qed (use s in \<open>auto intro: triple_ret\<close>)
  qed
qed

lemma removes_dev: "\<exists>r d. removes rc xs s = (r, s\<lparr>rt_dev := d\<rparr>)"
proof (induction xs arbitrary: s)
  case Nil
  show ?case by (rule exI [of _ "Inr ()"], rule exI [of _ "rt_dev s"]) (simp add: removes_def)
next
  case (Cons x xs)
  obtain r d where d: "call (rc_remove rc x) s = (r, s\<lparr>rt_dev := d\<rparr>)" by (force simp: call_def split: prod.splits)
  from Cons.IH [of "s\<lparr>rt_dev := d\<rparr>"] d show ?case by (cases r) (auto simp: removes_def thenP_apply)
qed

lemma remove_routes_dev: "\<exists>r d. remove_routes rc s = (r, s\<lparr>rt_dev := d\<rparr>)"
proof -
  obtain r d where d: "removes rc (map snd (rt_routes s)) s = (r, s\<lparr>rt_dev := d\<rparr>)" using removes_dev [of rc "map snd (rt_routes s)" s] by blast
  then show ?thesis
    by (cases r; cases "rt_nhop_id s") (auto simp: remove_routes_def bindP_apply thenP_apply call_def split: prod.splits)
qed

lemma triple_any: "triple P m (\<lambda>_ _. True) (\<lambda>_. True)"
  by (auto simp: triple_def split: prod.splits sum.splits)

lemma call_any: "(\<And>s d. K (s\<lparr>rt_dev := d\<rparr>) = K s) \<Longrightarrow> triple K (call m) (\<lambda>_. K) (\<lambda>_. True)"
  by (auto simp: triple_def call_def split: prod.splits sum.splits)

lemma route4_body_count:
  "triple (\<lambda>_. True) (bindP (route_next_hop rc env a) (\<lambda>nhop.
        thenP (modP (\<lambda>s. s\<lparr>rt_route_number := 0\<rparr>))
        (thenP (route4_loop rc env nhop m ''/32'' l)
        (thenP (modP (\<lambda>s. s\<lparr>rt_v4_host_routes := Some (rt_route_number s)\<rparr>))
        (bindP (call (rc_available rc n)) (\<lambda>avail. check (avail = 0)))))))
     (\<lambda>_ s. rt_v4_host_routes s = Some (max 0 m)) (\<lambda>_. True)"
  by (rule triple_bind [OF triple_any],
      rule triple_then [OF triple_mod [where Q = "\<lambda>_ s. 0 \<le> rt_route_number s \<and> rt_route_number s \<le> max 0 m"]], simp,
      rule triple_then [OF route4_loop_count],
      rule triple_then [OF triple_mod [where Q = "\<lambda>_ s. rt_v4_host_routes s = Some (max 0 m)"]], simp,
      rule triple_bind [OF call_any], simp, rule check_rule, simp_all)

lemma finally_Inr: "finallyP m c s = (Inr x, t) \<Longrightarrow> \<exists>u y. m s = (Inr x, u) \<and> c u = (Inr y, t)"
  by (auto simp: finallyP_apply split: prod.splits sum.splits)

lemma call_apply: "call m s = (case m (rt_dev s) of (r, d) \<Rightarrow> (r, s\<lparr>rt_dev := d\<rparr>))"
  by (simp add: call_def)

text \<open>When the IPv4 route test passes, the number it leaves as the number of host routes is the number
  of all routes: the count taken when the host table was full is overwritten.\<close>

theorem host_route_count_lost:
  assumes "availableIPv4RouteEntryTest rc env draws s = (Inr (), t)"
  shows "\<exists>m d. rc_available rc ''available_ipv4_route_entry'' (rt_dev s) = (Inr m, d) \<and> rt_v4_host_routes t = Some (max 0 m)"
proof -
  obtain q d where d: "rc_available rc ''available_ipv4_route_entry'' (rt_dev s) = (q, d)" by fastforce
  with assms obtain m where m: "q = Inr m"
    by (cases q) (simp_all add: availableIPv4RouteEntryTest_def bindP_apply call_def)
  obtain l u y where u: "bindP (route_next_hop rc env ''10.10.10.1'') (\<lambda>nhop.
        thenP (modP (\<lambda>s. s\<lparr>rt_route_number := 0\<rparr>))
        (thenP (route4_loop rc env nhop m ''/32'' l)
        (thenP (modP (\<lambda>s. s\<lparr>rt_v4_host_routes := Some (rt_route_number s)\<rparr>))
        (bindP (call (rc_available rc ''available_ipv4_route_entry'')) (\<lambda>avail. check (avail = 0))))))
      (s\<lparr>rt_dev := d, rt_routes := []\<rparr>) = (Inr (), u)" "remove_routes rc u = (Inr y, t)"
    using assms d m by (cases "generate_ip_addr draws (m + 100) False")
      (auto simp: availableIPv4RouteEntryTest_def bindP_apply [of "call _" _ s] call_apply [of _ s] bindP_apply [of "liftP _"]
        thenP_apply [of "modP (rt_routes_update _)"] dest!: finally_Inr)
  have "rt_v4_host_routes u = Some (max 0 m)" using triple_Inr [OF route4_body_count _ u(1)] by simp
  moreover have "rt_v4_host_routes t = rt_v4_host_routes u" using remove_routes_dev [of rc u] u(2) by auto
  ultimately show ?thesis using d m by auto
qed

section \<open>ACL tables\<close>

text \<open>The tables of the current resource are in a local list \<open>L\<close>.\<close>

definition table_objs :: "sai_obj list \<Rightarrow> 'd res_test \<Rightarrow> sai_obj list" where
  "table_objs L s = concat (rt_tables s) @ L"

lemma on_lists_table [simp]: "on_lists (table_objs L)"
  by (simp add: on_lists_def table_objs_def)

lemma triple_true: "triple P m Q E \<Longrightarrow> triple P m Q (\<lambda>_. True)"
  by (rule triple_exn) simp_all

lemma local_record: "holds_new objs (table_objs L) B x s \<Longrightarrow> holds objs (table_objs (L @ [x])) B s"
  by (auto simp: holds_new_def holds_def table_objs_def)

lemma check_acl_rule: "triple P (check_acl_left l r k) (\<lambda>_. P) (\<lambda>_. True)"
  by (induction l) (auto simp: triple_def check_def)

text \<open>The null identifier comes with a status that is no success.\<close>

definition null_means_failure :: "'d res_client \<Rightarrow> bool" where
  "null_means_failure rc \<longleftrightarrow> (\<forall>ty a d i d'. rc_create rc ty a d = (Inr i, d') \<longrightarrow> i = SAI_NULL_OBJECT_ID \<longrightarrow>
     rc_status rc d' \<noteq> SAI_STATUS_SUCCESS)"

lemma acl_create_rule:
  assumes D: "res_device rc objs" and F: "null_means_failure rc"
  shows "triple (holds objs (table_objs L) B) (create_acl rc ty r)
     (\<lambda>i s. rc_status rc (rt_dev s) = SAI_STATUS_SUCCESS \<longrightarrow> holds objs (table_objs (L @ [Oid ty i])) B s) (\<lambda>_. True)"
proof (rule tripleI)
  fix s q t assume s: "holds objs (table_objs L) B s" and m: "create_acl rc ty r s = (q, t)"
  note law = tripleD [OF create_oid_rule [OF D on_lists_table] s m [unfolded create_acl_def]]
  show "case q of Inl _ \<Rightarrow> True | Inr i \<Rightarrow> rc_status rc (rt_dev t) = SAI_STATUS_SUCCESS \<longrightarrow> holds objs (table_objs (L @ [Oid ty i])) B t"
  proof (cases q)
    case (Inr i)
    have "i = SAI_NULL_OBJECT_ID \<Longrightarrow> rc_status rc (rt_dev t) \<noteq> SAI_STATUS_SUCCESS"
      using F m Inr unfolding null_means_failure_def create_acl_def call_def by (auto split: prod.splits)
    with law Inr show ?thesis by (auto dest: local_record split: if_splits)
  qed simp
qed

lemma acl_tables_rule:
  assumes D: "res_device rc objs" and F: "null_means_failure rc"
  shows "triple (holds objs (table_objs L) B) (acl_tables rc ty a r L ks)
     (\<lambda>L'. holds objs (table_objs L') B) (\<lambda>_. True)"
proof (induction ks arbitrary: L)
  case (Cons k ks)
  have acl: "triple (holds objs (table_objs L) B) (call (rc_acl rc a)) (\<lambda>_. holds objs (table_objs L) B) (\<lambda>_. True)" for L
    by (rule triple_true [OF call_keeps(1)]) (use D in \<open>simp_all add: res_device_def\<close>)
  show ?case unfolding acl_tables.simps
    by (rule triple_bind [OF acl_create_rule [OF D F]], rule get_rule,
        rule triple_then [OF check_rule [where Q = "\<lambda>_. holds objs (table_objs (L @ [Oid ty i])) B" for i]],
        simp, simp, rule triple_bind [OF acl], rule triple_then [OF check_acl_rule], rule Cons.IH)
qed (simp add: triple_ret)

lemma create_acl_oid:
  assumes "res_device rc objs"
  shows "triple (holds objs (table_objs L) B) (create_acl rc ty r)
     (\<lambda>i. if i = SAI_NULL_OBJECT_ID then holds objs (table_objs L) B else holds_new objs (table_objs L) B (Oid ty i))
     (holds objs (table_objs L) B)"
  unfolding create_acl_def by (rule create_oid_rule [OF assms on_lists_table])

lemma acl_resource_rule:
  assumes D: "res_device rc objs" and F: "null_means_failure rc"
  shows "triple (holds objs (table_objs []) B) (acl_resource rc ty a r) (\<lambda>_. holds objs (table_objs []) B) (\<lambda>_. True)"
  unfolding acl_resource_def
  by (rule triple_bind [OF acl_tables_rule [OF D F]],
      rule triple_then [OF triple_true [OF one_more_oid_rule [OF D on_lists_table create_acl_oid [OF D]]]],
      rule triple_mod, simp add: holds_def table_objs_def)

lemma forP_removes: "forP ls (removes rc) = removes rc (concat ls)"
proof (induction ls)
  case (Cons l ls)
  have "removes rc (xs @ ys) = thenP (removes rc xs) (removes rc ys)" for xs ys
    by (induction xs) (auto simp: removes_def thenP_def bindP_def retP_def fun_eq_iff split: prod.splits sum.splits)
  with Cons.IH show ?case by simp
qed (simp add: removes_def)

lemma acl_test_restores:
  assumes D: "res_device rc objs" and F: "null_means_failure rc" and r: "acl_test rc ty a s = (Inr (), t)"
  shows "objs (rt_dev t) = objs (rt_dev s)"
proof -
  obtain l s1 where s1: "call (rc_acl rc a) s = (Inr l, s1)"
    and f: "finallyP (thenP (modP (\<lambda>s. s\<lparr>rt_tables := []\<rparr>)) (forP l (acl_resource rc ty a)))
       (bindP getP (\<lambda>s. forP (rt_tables s) (removes rc))) s1 = (Inr (), t)"
    using r by (auto simp: acl_test_def bindP_eq_Inr)
  obtain u y where u: "forP l (acl_resource rc ty a) (s1\<lparr>rt_tables := []\<rparr>) = (Inr (), u)"
    and y: "removes rc (concat (rt_tables u)) u = (Inr y, t)"
    using finally_Inr [OF f] by (auto simp: thenP_apply bindP_apply forP_removes)
  have d: "objs (rt_dev s1) = objs (rt_dev s)"
    using s1 D unfolding call_def res_device_def keeps_objs_def by (auto split: prod.splits)
  have "holds objs (table_objs []) (objs (rt_dev s1)) (s1\<lparr>rt_tables := []\<rparr>)" by (simp add: holds_def table_objs_def)
  from triple_Inr [OF triple_for [OF acl_resource_rule [OF D F]] this u]
  have "holds objs (table_objs []) (objs (rt_dev s1)) u" .
  from removes_clears [OF D this] y d show ?thesis by (simp add: table_objs_def)
qed

text \<open>C31 (invariant). When the ACL table test or the ACL group test passes, every table and group made is gone.\<close>

theorem acl_tests_restore:
  assumes "res_device rc objs" "null_means_failure rc" "acl_test rc ty a s = (Inr (), t)"
  shows "objs (rt_dev t) = objs (rt_dev s)"
  by (rule acl_test_restores [OF assms])

section \<open>Groups are filled whole\<close>

definition has_members :: "int \<Rightarrow> 'd res_test \<Rightarrow> bool" where
  "has_members k s \<longleftrightarrow> int (length (rt_members s)) = k"

lemma any_keeps: "(\<And>s d. K (s\<lparr>rt_dev := d\<rparr>) = K s) \<Longrightarrow> triple K (check_left rc r n) (\<lambda>_. K) (\<lambda>_. True)"
  unfolding check_left_def by (rule triple_bind [OF call_any]) (auto intro: check_rule)

lemma any_check: "triple K (check b) (\<lambda>_. K) (\<lambda>_. True)"
  by (rule check_rule) simp_all

lemma has_members_dev: "has_members k (s\<lparr>rt_dev := d\<rparr>) = has_members k s"
  by (simp add: has_members_def)

lemma get_any: "(\<And>s. triple P (f s) Q (\<lambda>_. True)) \<Longrightarrow> triple P (bindP getP f) Q (\<lambda>_. True)"
  by (rule get_rule) (auto simp: triple_def)

lemma member_loop_count:
  "n \<le> 64 \<Longrightarrow> triple (has_members k) (member_loop rc env mm g m n l) (\<lambda>_. has_members (k + (64 - n))) (\<lambda>_. True)"
proof (induction l arbitrary: m n k)
  case Nil
  then show ?case by (auto intro!: triple_ret simp: triple_def max_member_per_group_def)
next
  case (Cons x l)
  have lift: "triple (has_members k) (liftP r) (\<lambda>_. has_members k) (\<lambda>_. True)" for r :: "'z res"
    by (rule triple_lift) simp_all
  have nhop: "triple (has_members k) (add_nhop p e) (\<lambda>_. has_members k) (\<lambda>_. True)" for p e
    unfolding add_nhop_def by (rule triple_mod) (simp add: has_members_def)
  have member: "triple (has_members k) (modP (\<lambda>s. s\<lparr>rt_members := rt_members s @ [e]\<rparr>)) (\<lambda>_. has_members (k + 1)) (\<lambda>_. True)" for e
    by (rule triple_mod) (simp add: has_members_def)
  show ?case
  proof (cases "n < 64")
    case True
    have whole: "k + 1 + (64 - (n + 1)) = k + (64 - n)" by simp
    have IH: "triple (has_members (k + 1)) (member_loop rc env mm g (m + 1) (n + 1) l) (\<lambda>_. has_members (k + (64 - n))) (\<lambda>_. True)"
      using Cons.IH [of "n + 1" "k + 1" "m + 1"] True unfolding whole by simp
    show ?thesis unfolding member_loop.simps create_next_hop_def
      by (rule triple_if, rule triple_bind [OF lift], rule get_any, rule triple_if, rule Cons.IH [OF Cons.prems],
          rule triple_bind [OF call_any [OF has_members_dev]], rule triple_then [OF any_check], rule triple_then [OF nhop],
          rule triple_bind [OF call_any [OF has_members_dev]], rule triple_then [OF any_check], rule triple_then [OF member],
          rule triple_then [OF any_keeps [OF has_members_dev]], rule IH)
        (use True in \<open>simp add: max_member_per_group_def\<close>)
  next
    case False
    with Cons.prems show ?thesis by (simp add: triple_def max_member_per_group_def)
  qed
qed

lemma group_loop_count:
  "triple (\<lambda>s. \<exists>k. has_members (64 * k) s) (group_loop rc env mm mg m g l) (\<lambda>_ s. \<exists>k. has_members (64 * k) s) (\<lambda>_. True)"
proof (induction "nat (mg - g)" arbitrary: m g l rule: less_induct)
  case less
  let ?P = "\<lambda>s. \<exists>k. has_members (64 * k) s"
  have dev: "?P (s\<lparr>rt_dev := d\<rparr>) = ?P s" for s :: "'a res_test" and d by (simp add: has_members_dev)
  show ?case
  proof (cases "m < mm \<and> g < mg")
    case True
    have append: "triple ?P (append_obj e) (\<lambda>_. ?P) (\<lambda>_. True)" for e
      unfolding append_obj_def by (rule triple_mod) (simp add: has_members_def)
    have fill: "triple ?P (member_loop rc env mm gr m 0 l) (\<lambda>_. ?P) (\<lambda>_. True)" for gr
    proof (rule tripleI)
      fix s r t assume "?P s" and r: "member_loop rc env mm gr m 0 l s = (r, t)"
      then obtain k where k: "has_members (64 * k) s" by blast
      from tripleD [OF member_loop_count [of 0] k r] show "case r of Inl _ \<Rightarrow> True | Inr _ \<Rightarrow> ?P t"
        by (cases r) (auto intro: exI [of _ "k + 1"] simp: algebra_simps)
    qed
    have IH: "triple ?P (group_loop rc env mm mg m' (g + 1) l') (\<lambda>_. ?P) (\<lambda>_. True)" for m' l'
      by (rule less) (use True in auto)
    show ?thesis unfolding group_loop.simps [of rc env mm mg m g l] if_P [OF True] split_def create_group_def
      by (rule triple_bind [OF call_any [OF dev]], rule triple_then [OF any_check], rule triple_then [OF append],
          rule triple_bind [OF fill], rule IH)
  next
    case False
    show ?thesis unfolding group_loop.simps [of rc env mm mg m g l] if_not_P [OF False] by (simp add: triple_ret)
  qed
qed

lemma removes_members: "removes rc xs s = (r, t) \<Longrightarrow> rt_members t = rt_members s"
  using removes_dev [of rc xs s] by auto

text \<open>The member test can pass only after a whole number of groups of 64 members: the inner loop
  goes on to 64 whatever the number of members the switch has left.\<close>

theorem groups_filled_whole:
  assumes "availableNexthopGroupMemberEntryTest rc env draws s = (Inr (), t)"
  shows "64 dvd length (rt_members t)"
proof -
  obtain mm mg l s1 where l: "finallyP (thenP (group_loop rc env mm mg 0 0 l) (check_left rc ''available_next_hop_group_entry'' 0))
      (bindP getP (\<lambda>s. thenP (removes rc (rt_members s)) (thenP (removes rc (map snd (rt_nhops s))) (removes rc (rt_list s)))))
      (s1\<lparr>rt_list := [], rt_nhops := [], rt_members := []\<rparr>) = (Inr (), t)"
    using assms unfolding availableNexthopGroupMemberEntryTest_def by (auto simp: bindP_eq_Inr thenP_eq_Inr)
  obtain u y where u: "thenP (group_loop rc env mm mg 0 0 l) (check_left rc ''available_next_hop_group_entry'' 0)
        (s1\<lparr>rt_list := [], rt_nhops := [], rt_members := []\<rparr>) = (Inr (), u)"
    and y: "bindP getP (\<lambda>s. thenP (removes rc (rt_members s))
          (thenP (removes rc (map snd (rt_nhops s))) (removes rc (rt_list s)))) u = (Inr y, t)"
    using finally_Inr [OF l] by blast
  let ?P = "\<lambda>s. \<exists>k. has_members (64 * k) s"
  have dev: "?P (s\<lparr>rt_dev := d\<rparr>) = ?P s" for s :: "'a res_test" and d by (simp add: has_members_dev)
  have "triple ?P (thenP (group_loop rc env mm mg 0 0 l) (check_left rc ''available_next_hop_group_entry'' 0)) (\<lambda>_. ?P) (\<lambda>_. True)"
    by (rule triple_then [OF group_loop_count any_keeps [OF dev]])
  from triple_Inr [OF this _ u] obtain k where "has_members (64 * k) u" by (auto simp: has_members_def)
  then have "int (length (rt_members u)) = 64 * k" by (simp add: has_members_def)
  moreover have "rt_members t = rt_members u"
    using y by (auto simp: bindP_apply thenP_eq_Inr dest!: removes_members)
  ultimately show ?thesis by presburger
qed

section \<open>An example device\<close>

text \<open>A device with a number of places for each kind of object.\<close>

record res_sim =
  rs_objs :: "sai_obj list"
  rs_places :: "string \<Rightarrow> int"
  rs_tables :: "acl_res list"
  rs_ok :: bool

fun obj_kind :: "sai_obj \<Rightarrow> string" where
  "obj_kind (RouteEntry sw vr p) = ''route''"
| "obj_kind (NeighborEntry sw rif ip) = ''neighbor''"
| "obj_kind (FdbEntry sw mac bv) = ''fdb''"
| "obj_kind (NatEntry vr k m ty) = ''nat''"
| "obj_kind (Oid ty i) = ty"

definition places_left :: "res_sim \<Rightarrow> string \<Rightarrow> int" where
  "places_left d k = rs_places d k - int (length (filter (\<lambda>x. obj_kind x = k) (rs_objs d)))"

definition resource_kind :: "string \<Rightarrow> string" where
  "resource_kind n = (if n = ''available_ipv4_route_entry'' \<or> n = ''available_ipv6_route_entry'' then ''route''
     else if n = ''available_ipv4_neighbor_entry'' \<or> n = ''available_ipv6_neighbor_entry'' then ''neighbor''
     else if n = ''available_fdb_entry'' then ''fdb''
     else if n = ''available_snat_entry'' \<or> n = ''available_dnat_entry'' then ''nat''
     else if n = ''available_next_hop_group_entry'' then ''next_hop_group''
     else if n = ''available_next_hop_group_member_entry'' then ''next_hop_group_member''
     else ''next_hop'')"

definition is_oid :: "sai_obj \<Rightarrow> bool" where
  "is_oid x = (case x of Oid ty i \<Rightarrow> True | _ \<Rightarrow> False)"

fun oid_number :: "sai_obj \<Rightarrow> int" where
  "oid_number (Oid ty i) = i"
| "oid_number _ = 0"

definition sim_rc :: "res_sim res_client" where
  "sim_rc = \<lparr>
     rc_available = (\<lambda>n d. (Inr (places_left d (resource_kind n)), d)),
     rc_acl = (\<lambda>n d. (Inr (map (\<lambda>r. r\<lparr>ar_avail_num := ar_avail_num r - int (length (rs_objs d))\<rparr>) (rs_tables d)), d)),
     rc_create_entry = (\<lambda>e a d. if e \<in> set (rs_objs d) then (Inr SAI_STATUS_ITEM_ALREADY_EXISTS, d)
       else if is_oid e \<or> places_left d (obj_kind e) \<le> 0 then (Inr (- 4), d)
       else (Inr 0, d\<lparr>rs_objs := rs_objs d @ [e]\<rparr>)),
     rc_create = (\<lambda>ty a d. if places_left d ty \<le> 0 then (Inr 0, d\<lparr>rs_ok := False\<rparr>)
       else let i = fresh_id (map oid_number (rs_objs d)) in (Inr i, d\<lparr>rs_objs := rs_objs d @ [Oid ty i], rs_ok := True\<rparr>)),
     rc_remove = (\<lambda>x d. (if x \<in> set (rs_objs d) then Inr () else Inl (Exn ''not found''), d\<lparr>rs_objs := filter (\<lambda>y. y \<noteq> x) (rs_objs d)\<rparr>)),
     rc_status = (\<lambda>d. if rs_ok d then 0 else - 4)\<rparr>"

definition sim_objs :: "res_sim \<Rightarrow> sai_obj set" where
  "sim_objs d = {x \<in> set (rs_objs d). is_oid x \<longrightarrow> oid_number x \<noteq> 0}"

lemma fresh_oid: "Oid ty (fresh_id (map oid_number l)) \<notin> set l"
proof
  assume "Oid ty (fresh_id (map oid_number l)) \<in> set l"
  then have "fresh_id (map oid_number l) \<in> set (map oid_number l)" by (metis image_eqI list.set_map oid_number.simps(1))
  with fresh_id_new show False by blast
qed

lemma fresh_nonzero: "fresh_id l \<noteq> 0"
  using fresh_id_new [of l] by auto

lemma sim_res_device: "res_device sim_rc sim_objs"
  unfolding res_device_def
proof (intro conjI allI)
  show "creates_objs sim_rc sim_objs"
    by (auto simp: creates_objs_def sim_rc_def sim_objs_def Let_def is_oid_def fresh_oid fresh_nonzero SAI_STATUS_SUCCESS_def
        SAI_NULL_OBJECT_ID_def SAI_STATUS_ITEM_ALREADY_EXISTS_def split: if_splits)
  show "removes_objs sim_rc sim_objs"
    by (auto simp: removes_objs_def sim_rc_def sim_objs_def)
qed (auto simp: keeps_objs_def sim_rc_def sim_objs_def is_oid_def SAI_NULL_OBJECT_ID_def)

lemma sim_null: "null_means_failure sim_rc"
  by (auto simp: null_means_failure_def sim_rc_def Let_def fresh_nonzero SAI_STATUS_SUCCESS_def SAI_NULL_OBJECT_ID_def split: if_splits)

definition demo_env :: res_env where
  "demo_env = \<lparr>re_switch_id = 33, re_default_vrf = 3, re_port10_rif = 10, re_vlan10 = 110, re_port0_bp = 50\<rparr>"

definition demo_res :: "sai_obj list \<Rightarrow> (string \<Rightarrow> int) \<Rightarrow> acl_res list \<Rightarrow> res_sim res_test" where
  "demo_res l cap tables = \<lparr>rt_dev = \<lparr>rs_objs = l, rs_places = cap, rs_tables = tables, rs_ok = True\<rparr>,
     rt_v4_host_routes = None, rt_v6_host_routes = None, rt_route_number = 0, rt_nhop_id = None, rt_ips = [],
     rt_routes = [], rt_nbrs = [], rt_nhops = [], rt_list = [], rt_members = [], rt_tables = []\<rparr>"



theorem acl_tests_restore_witness:
  "\<exists>t. acl_test sim_rc ''acl_table'' ''available_acl_table'' (demo_res [] (\<lambda>_. 2) [\<lparr>ar_stage = 0, ar_bind_point = 1, ar_avail_num = 2\<rparr>]) = (Inr (), t)
     \<and> sim_objs (rt_dev t) = {}"
proof -
  let ?s = "demo_res [] (\<lambda>_. 2) [\<lparr>ar_stage = 0, ar_bind_point = 1, ar_avail_num = 2\<rparr>]"
  let ?r = "acl_test sim_rc ''acl_table'' ''available_acl_table'' ?s"
  have "fst ?r = Inr ()" by code_simp
  then obtain t where t: "?r = (Inr (), t)" by (metis prod.collapse)
  from acl_tests_restore [OF sim_res_device sim_null t] have "sim_objs (rt_dev t) = {}"
    by (simp add: demo_res_def sim_objs_def)
  with t show ?thesis by blast
qed

text \<open>A failure inside a resource loses its tables: with fewer places than announced, the test fails
  and leaves the table it made.\<close>

theorem acl_failure_leaves_tables:
  "case acl_test sim_rc ''acl_table'' ''available_acl_table'' (demo_res [] (\<lambda>_. 1) [\<lparr>ar_stage = 0, ar_bind_point = 1, ar_avail_num = 2\<rparr>]) of
     (r, t) \<Rightarrow> r = Inl AssertionError \<and> rs_objs (rt_dev t) = [Oid ''acl_table'' 1]"
  by code_simp

text \<open>A next hop that cannot be made leaves its neighbor entry behind.\<close>

theorem next_hop_failure_leaves_neighbor:
  "case finallyP (nexthop4_loop sim_rc demo_env 1 0 1 [''1.0.0.1'']) (remove_hops sim_rc)
       (demo_res [] (\<lambda>k. if k = ''next_hop'' then 0 else 5) []) of
     (r, t) \<Rightarrow> r = Inl AssertionError
       \<and> rs_objs (rt_dev t) = [NeighborEntry (Some 33) 10 \<lparr>ia_family = FamilyV4, ia_addr = Ip4 ''1.0.0.1''\<rparr>]"
  by code_simp

text \<open>The IPv6 neighbor test removes an entry it did not make: when the address drawn already has a
  neighbor, the check of the status fails, and the entry that was there before is gone.\<close>

theorem ipv6_neighbor_removes_foreign:
  "case finallyP (nbr6_loop sim_rc demo_env 1 1 0 [''2001::1'']) (remove_nbrs sim_rc)
       (demo_res [NeighborEntry None 10 \<lparr>ia_family = FamilyV6, ia_addr = Ip6 ''2001::1''\<rparr>] (\<lambda>_. 5) []) of
     (r, t) \<Rightarrow> r = Inl AssertionError \<and> rs_objs (rt_dev t) = []"
  by code_simp

lemma generate_ok: "\<exists>l. generate_ip_addr draws n v6 = Inr l"
  by (cases v6) (simp_all add: generate_ip_addr_def IpInterval_def same_family_def)

lemma route4_loop_none: "rt_route_number s = 0 \<Longrightarrow> route4_loop rc env h 0 k l s = (Inr (), s)"
  by (cases l) (simp_all add: bindP_apply)

definition no_routes :: "res_sim res_test" where
  "no_routes = demo_res [] (\<lambda>k. if k = ''route'' then 0 else 5) []"

theorem host_route_count_lost_witness:
  "\<exists>t. availableIPv4RouteEntryTest sim_rc demo_env (\<lambda>i. i) no_routes = (Inr (), t) \<and> rt_v4_host_routes t = Some 0"
proof -
  let ?r = "availableIPv4RouteEntryTest sim_rc demo_env (\<lambda>i. i) no_routes"
  obtain l where l: "generate_ip_addr (\<lambda>i. i) 100 False = Inr l" using generate_ok by blast
  have "fst ?r = Inr ()"
    by (simp add: availableIPv4RouteEntryTest_def no_routes_def demo_res_def sim_rc_def demo_env_def call_def py_res finallyP_apply l
        resource_kind_def places_left_def route_next_hop_def create_next_hop_def sai_ipaddress_def is_oid_def check_def
        route4_loop_none remove_routes_def removes_def Let_def fresh_nonzero SAI_NULL_OBJECT_ID_def)
  then obtain t where t: "?r = (Inr (), t)" by (metis prod.collapse)
  from host_route_count_lost [OF t] have "rt_v4_host_routes t = Some 0"
    by (simp add: no_routes_def demo_res_def sim_rc_def resource_kind_def places_left_def)
  with t show ?thesis by blast
qed

theorem groups_filled_whole_witness:
  "\<exists>t. availableNexthopGroupMemberEntryTest sim_rc demo_env (\<lambda>i. i) (demo_res [] (\<lambda>_. 0) []) = (Inr (), t) \<and> 64 dvd length (rt_members t)"
proof -
  let ?r = "availableNexthopGroupMemberEntryTest sim_rc demo_env (\<lambda>i. i) (demo_res [] (\<lambda>_. 0) [])"
  obtain l where l: "generate_ip_addr (\<lambda>i. i) 100 False = Inr l" using generate_ok by blast
  have "fst ?r = Inr ()"
    by (simp add: availableNexthopGroupMemberEntryTest_def demo_res_def sim_rc_def demo_env_def call_def py_res finallyP_apply l
        resource_kind_def places_left_def check_left_def check_def group_loop.simps removes_def)
  then obtain t where t: "?r = (Inr (), t)" by (metis prod.collapse)
  from groups_filled_whole [OF t] t show ?thesis by blast
qed

section \<open>Addresses and MAC addresses\<close>

text \<open>The generator yields as many addresses as asked for, each the text of an address of the range.\<close>

theorem random_addresses_in_range:
  assumes "\<And>i. draws i \<le> 0xFDFFFFFD"
  shows "\<exists>l. generate_ip_addr draws n False = Inr l \<and> length l = nat n
    \<and> (\<forall>a \<in> set l. \<exists>m. 0x01000001 \<le> m \<and> m \<le> 0xFEFFFFFE \<and> a = dotted m)"
proof -
  let ?l = "map (\<lambda>i. dotted (0x01000001 + draws i)) [0..<nat n]"
  have "generate_ip_addr draws n False = Inr ?l"
    by (simp add: generate_ip_addr_def IpInterval_def same_family_def get_random_ip_def)
  moreover have "0x01000001 + draws i \<le> 0xFEFFFFFE" for i using assms [of i] by simp
  ultimately show ?thesis by (intro exI [of _ ?l]) (auto intro!: exI [of _ "0x01000001 + draws i" for i])
qed

theorem random_addresses_in_range_witness:
  "\<exists>l. generate_ip_addr (\<lambda>i. i mod 4) 3 False = Inr l \<and> length l = 3"
proof -
  have "i mod 4 \<le> 0xFDFFFFFD" for i :: nat using mod_less_divisor [of 4 i] by linarith
  from random_addresses_in_range [of "\<lambda>i. i mod 4" 3, OF this] show ?thesis by auto
qed

text \<open>Nothing keeps the addresses different, as the generator's description says: equal draws give
  equal addresses.\<close>

theorem repeated_draw_repeats_address: "generate_ip_addr (\<lambda>i. k) 2 False = Inr [dotted (0x01000001 + k), dotted (0x01000001 + k)]"
  by (simp add: generate_ip_addr_def IpInterval_def same_family_def get_random_ip_def numeral_2_eq_2)

definition mac_of :: "nat \<Rightarrow> string" where
  "mac_of j = mac_text (j div 255 ^ 3 + 1) (j div 255 ^ 2 mod 255 + 1) (j div 255 mod 255 + 1) (j mod 255 + 1)"

definition mac_index :: "nat \<Rightarrow> nat \<Rightarrow> nat \<Rightarrow> nat \<Rightarrow> nat" where
  "mac_index a b c d = (((a - 1) * 255 + (b - 1)) * 255 + (c - 1)) * 255 + (d - 1)"

lemma mac_of_index:
  assumes "1 \<le> a" "1 \<le> b" "b \<le> 255" "1 \<le> c" "c \<le> 255" "1 \<le> d" "d \<le> 255"
  shows "mac_of (mac_index a b c d) = mac_text a b c d"
proof -
  define x y z w where v: "x = a - 1" "y = b - 1" "z = c - 1" "w = d - 1"
  have b: "y < 255" "z < 255" "w < 255" using assms v by auto
  have i: "mac_index a b c d = ((x * 255 + y) * 255 + z) * 255 + w" by (simp add: mac_index_def v)
  have 1: "mac_index a b c d div 255 = (x * 255 + y) * 255 + z" using b unfolding i by (simp only: div_mult_self3)
  have 2: "mac_index a b c d div 255 ^ 2 = x * 255 + y" using b 1 by (simp add: power2_eq_square div_mult2_eq)
  have 3: "mac_index a b c d div 255 ^ 3 = x" using b 2 by (simp add: power3_eq_cube power2_eq_square div_mult2_eq)
  have "mac_index a b c d mod 255 = w" using b unfolding i by (simp only: mod_mult_self3 mod_less)
  moreover have "((x * 255 + y) * 255 + z) mod 255 = z" "(x * 255 + y) mod 255 = y" using b by (simp_all only: mod_mult_self3 mod_less)
  ultimately show ?thesis using v assms unfolding mac_of_def 1 2 3 by simp
qed

lemma mac_index_carry:
  "1 \<le> c \<Longrightarrow> mac_index a b c 256 = mac_index a b (c + 1) 1"
  "1 \<le> b \<Longrightarrow> mac_index a b 256 1 = mac_index a (b + 1) 1 1"
  "1 \<le> a \<Longrightarrow> mac_index a 256 1 1 = mac_index (a + 1) 1 1 1"
  "1 \<le> d \<Longrightarrow> mac_index a b c (d + 1) = mac_index a b c d + 1"
  by (simp_all add: mac_index_def diff_mult_distrib)

text \<open>The numbers of the groups between two rounds: a group that has run out is followed by ones.\<close>

definition mac_groups :: "nat \<Rightarrow> nat \<Rightarrow> nat \<Rightarrow> nat \<Rightarrow> bool" where
  "mac_groups a b c d \<longleftrightarrow> 1 \<le> a \<and> a \<le> 256 \<and> 1 \<le> b \<and> b \<le> 256 \<and> 1 \<le> c \<and> c \<le> 256 \<and> 1 \<le> d \<and> d \<le> 256
     \<and> (a = 256 \<longrightarrow> b = 1 \<and> c = 1 \<and> d = 1) \<and> (b = 256 \<longrightarrow> c = 1 \<and> d = 1) \<and> (c = 256 \<longrightarrow> d = 1)"

lemma digit_bound: "x < m \<Longrightarrow> y < (255 :: nat) \<Longrightarrow> x * 255 + y < m * 255"
proof -
  assume "x < m" "y < 255"
  then have "(x + 1) * 255 \<le> m * 255" by (intro mult_le_mono1) simp
  with \<open>y < 255\<close> show ?thesis by simp
qed

lemma mac_index_bound:
  assumes "mac_groups a b c d" "a < 256" "b < 256" "c < 256" "d < 256"
  shows "mac_index a b c d < 255 ^ 4"
proof -
  have b: "a - 1 < 255" "b - 1 < 255" "c - 1 < 255" "d - 1 < 255" using assms by auto
  have "mac_index a b c d < 255 * 255 * 255 * 255"
    unfolding mac_index_def by (intro digit_bound b)
  then show ?thesis by simp
qed

lemma mac_loop_eq:
  "mac_groups a b c d \<Longrightarrow> i < n \<Longrightarrow>
   mac_loop a b c d i n = map mac_of [mac_index a b c d ..< min (mac_index a b c d + nat (n - i)) (255 ^ 4)]"
proof (induction a b c d i n rule: mac_loop.induct)
  case (1 a b c d i n)
  note g = "1.prems"(1) [unfolded mac_groups_def]
  consider "a = 256" | "a < 256" "b = 256" | "a < 256" "b < 256" "c = 256"
    | "a < 256" "b < 256" "c < 256" "d = 256" | "a < 256" "b < 256" "c < 256" "d < 256"
    using g by (metis le_neq_implies_less)
  then show ?case
  proof cases
    case 1
    then show ?thesis using g by (subst mac_loop.simps) (simp add: mac_index_def del: One_nat_def)
  next
    case 2
    have "mac_groups (a + 1) 1 1 1" using g 2 by (simp add: mac_groups_def)
    from "1.IH"(1) [OF _ _ this "1.prems"(2)] 2 g show ?thesis
      by (subst mac_loop.simps) (simp add: mac_index_carry(3) del: One_nat_def)
  next
    case 3
    have "mac_groups a (b + 1) 1 1" using g 3 by (simp add: mac_groups_def)
    from "1.IH"(2) [OF _ _ _ this "1.prems"(2)] 3 g show ?thesis
      by (subst mac_loop.simps) (simp add: mac_index_carry(2) del: One_nat_def)
  next
    case 4
    have "mac_groups a b (c + 1) 1" using g 4 by (simp add: mac_groups_def)
    from "1.IH"(3) [OF _ _ _ _ this "1.prems"(2)] 4 g show ?thesis
      by (subst mac_loop.simps) (simp add: mac_index_carry(1) del: One_nat_def)
  next
    case 5
    let ?j = "mac_index a b c d"
    have j: "?j < 255 ^ 4" by (rule mac_index_bound [OF "1.prems"(1) 5])
    have m: "mac_of ?j = mac_text a b c d" using g 5 by (intro mac_of_index) auto
    show ?thesis
    proof (cases "i + 1 = n")
      case True
      then have "min (?j + nat (n - i)) (255 ^ 4) = Suc ?j" using j by auto
      with True 5 m show ?thesis by (simp add: mac_loop.simps [of a b c d i n])
    next
      case False
      have g': "mac_groups a b c (d + 1)" using g 5 by (simp add: mac_groups_def)
      have less: "i + 1 < n" using "1.prems"(2) False by simp
      have up: "[?j ..< min (?j + nat (n - i)) (255 ^ 4)] = ?j # [?j + 1 ..< min (?j + 1 + nat (n - (i + 1))) (255 ^ 4)]"
      proof -
        have n: "?j + nat (n - i) = ?j + 1 + nat (n - (i + 1))" using less by simp
        have "?j < min (?j + nat (n - i)) (255 ^ 4)" using j less by simp
        from upt_conv_Cons [OF this] show ?thesis unfolding n Suc_eq_plus1 .
      qed
      have "mac_loop a b c (d + 1) (i + 1) n = map mac_of [?j + 1 ..< min (?j + 1 + nat (n - (i + 1))) (255 ^ 4)]"
        using "1.IH"(4) [OF _ _ _ _ False g' less] 5 mac_index_carry(4) [of d a b c] g by (simp del: One_nat_def)
      then show ?thesis unfolding up using False 5 m by (simp add: mac_loop.simps [of a b c d i n])
    qed
  qed
qed

lemma generate_mac_eq: "0 < n \<Longrightarrow> generate_mac_list n = map mac_of [0 ..< min (nat n) (255 ^ 4)]"
  using mac_loop_eq [of 1 1 1 1 0 n] by (simp add: generate_mac_list_def mac_groups_def mac_index_def)

lemma mac_hex_two: "n < 256 \<Longrightarrow> mac_hex n = [hex_digit (n div 16), hex_digit (n mod 16)]"
proof -
  assume n: "n < 256"
  show ?thesis
  proof (cases "n < 16")
    case True
    then show ?thesis by (simp add: mac_hex_def hex_digit_decimal digits_of.simps [of 16 n])
  next
    case False
    with n have "n div 16 < 16" by (simp add: less_mult_imp_div_less)
    with False show ?thesis by (simp add: mac_hex_def digits_of.simps [of 16 n] digits_of.simps [of 16 "n div 16"])
  qed
qed

lemma hex_digit_inj: "a < 16 \<Longrightarrow> b < 16 \<Longrightarrow> hex_digit a = hex_digit b \<Longrightarrow> a = b"
  by (metis digit_val_hex_digit option.inject)

lemma mac_hex_inj: "a < 256 \<Longrightarrow> b < 256 \<Longrightarrow> mac_hex a = mac_hex b \<Longrightarrow> a = b"
proof -
  assume a: "a < 256" "b < 256" and e: "mac_hex a = mac_hex b"
  have "a div 16 < 16" "b div 16 < 16" using a by (simp_all add: less_mult_imp_div_less)
  with e have "a div 16 = b div 16 \<and> a mod 16 = b mod 16" unfolding mac_hex_two [OF a(1)] mac_hex_two [OF a(2)]
    using hex_digit_inj [of "a div 16" "b div 16"] hex_digit_inj [of "a mod 16" "b mod 16"] by simp
  then show "a = b" by (metis div_mult_mod_eq)
qed

lemma mac_text_inj:
  assumes "a < 256" "b < 256" "c < 256" "d < 256" "a' < 256" "b' < 256" "c' < 256" "d' < 256"
    and "mac_text a b c d = mac_text a' b' c' d'"
  shows "a = a' \<and> b = b' \<and> c = c' \<and> d = d'"
proof -
  have "mac_hex a = mac_hex a' \<and> mac_hex b = mac_hex b' \<and> mac_hex c = mac_hex c' \<and> mac_hex d = mac_hex d'"
    using assms(9) unfolding mac_text_def mac_hex_two [OF assms(1)] mac_hex_two [OF assms(2)] mac_hex_two [OF assms(3)] mac_hex_two [OF assms(4)]
      mac_hex_two [OF assms(5)] mac_hex_two [OF assms(6)] mac_hex_two [OF assms(7)] mac_hex_two [OF assms(8)] by simp
  with assms(1-8) show ?thesis by (blast dest: mac_hex_inj)
qed

lemma mac_parts:
  assumes "j < (255 :: nat) ^ 4"
  shows "j div 255 ^ 3 + 1 < 256" "j div 255 ^ 2 mod 255 + 1 < 256" "j div 255 mod 255 + 1 < 256" "j mod 255 + 1 < 256"
proof -
  have "j < 255 * 255 ^ 3" using assms by simp
  then have "j div 255 ^ 3 < 255" by (rule less_mult_imp_div_less)
  then show "j div 255 ^ 3 + 1 < 256" by simp
  have "x mod 255 + 1 < 256" for x :: nat using mod_less_divisor [of 255 x] by linarith
  then show "j div 255 ^ 2 mod 255 + 1 < 256" "j div 255 mod 255 + 1 < 256" "j mod 255 + 1 < 256" by blast+
qed

lemma div_parts: "j = (((j div 255 ^ 3) * 255 + j div 255 ^ 2 mod 255) * 255 + j div 255 mod 255) * 255 + j mod (255 :: nat)"
proof -
  have 2: "j div 255 ^ 2 = j div 255 div 255" by (simp add: power2_eq_square div_mult2_eq)
  have 3: "j div 255 ^ 3 = j div 255 div 255 div 255" by (simp add: power3_eq_cube div_mult2_eq)
  show ?thesis unfolding 2 3 by (simp only: div_mult_mod_eq)
qed

lemma mac_of_inj:
  assumes "i < 255 ^ 4" "j < 255 ^ 4" "mac_of i = mac_of j"
  shows "i = j"
proof -
  have "i div 255 ^ 3 = j div 255 ^ 3 \<and> i div 255 ^ 2 mod 255 = j div 255 ^ 2 mod 255
      \<and> i div 255 mod 255 = j div 255 mod 255 \<and> i mod 255 = j mod 255"
    using mac_text_inj [OF mac_parts [OF assms(1)] mac_parts [OF assms(2)] assms(3) [unfolded mac_of_def]] by simp
  then show ?thesis using div_parts [of i] div_parts [of j] by metis
qed

text \<open>C34 (bounds). Up to the \<open>255 ^ 4\<close> addresses there are, the generator makes as many MAC addresses as asked for,
  all different and each of 17 characters.\<close>

theorem mac_list_correct:
  assumes "0 < n" "n \<le> 255 ^ 4"
  shows "length (generate_mac_list n) = nat n \<and> distinct (generate_mac_list n)
    \<and> (\<forall>m \<in> set (generate_mac_list n). length m = 17)"
proof -
  have "nat n \<le> 255 ^ 4" using assms(2) by (simp add: nat_le_iff)
  then have e: "generate_mac_list n = map mac_of [0 ..< nat n]" using generate_mac_eq [OF assms(1)] by (simp only: min_absorb1)
  have b: "j < 255 ^ 4" if "j < nat n" for j using that \<open>nat n \<le> 255 ^ 4\<close> by (rule order_less_le_trans)
  have "inj_on mac_of (set [0 ..< nat n])" by (rule inj_onI) (auto intro: mac_of_inj dest: b simp del: power_numeral)
  moreover have "length (mac_of j) = 17" if "j < nat n" for j
    using mac_parts [OF b [OF that]] by (simp only: mac_of_def mac_text_def mac_hex_two) simp
  ultimately show ?thesis unfolding e by (auto simp: distinct_map)
qed

theorem mac_list_correct_witness:
  "length (generate_mac_list 300) = 300 \<and> distinct (generate_mac_list 300)"
  using mac_list_correct [of 300] by simp

end
