(* ===== verification/PtfBase.thy ===== *)
theory PtfBase
  imports PtfHelpers
begin

text \<open>
  The base class of the tests, \<open>ptf/sai_base_test.py\<close>: the port map, the RPC connection and the data
  plane (\<open>ThriftInterface\<close>, \<open>ThriftInterfaceDataPlane\<close>), the set-up and release of the switch
  (\<open>SaiHelperBase\<close>), and the choice of the platform's class. The state is the helper of \<open>PtfHelpers\<close>
  with the fields of the base class around it; the class of PTF below, files, the environment and the
  counters of the device are the record \<open>base_env\<close>. The topology that \<open>SaiHelper\<close> builds on
  it is the theory \<open>PtfTopology\<close>.
\<close>

section \<open>State and environment\<close>

record 'd base =
  b_h :: "'d sai_helper"
  b_adapter :: adapter
  b_test_params :: "(string, string) odict"
  b_interface_to_front_mapping :: "(string, string) odict"
  b_port_map_loaded :: bool
  b_test_reboot_mode :: "string option"
  b_test_reboot_stage :: "string option"
  b_server :: string
  b_transport :: "bool option"
  b_dataplane :: "string option option"
  b_default_vlan_id :: sai_val
  b_default_vrf :: sai_val
  b_switch_resources :: "sai_args option"
  b_def_lag_list :: "int list"
  b_def_lag_member_list :: "int list"
  b_def_vlan_list :: "int list"
  b_def_vlan_member_list :: "int list"
  b_def_rif_list :: "int list"

text \<open>A transport is there or not, and open or closed; a data plane is there or not, and captures into
  a file or not.\<close>

record 'd base_env =
  be_super_setUp :: "('d base, unit) py"
  be_super_tearDown :: "('d base, unit) py"
  be_test_params :: "(string, string) odict"
  be_map_file :: "string \<Rightarrow> string res"
  be_connect :: "string \<Rightarrow> unit res"
  be_dataplane :: bool
  be_log_dir :: "string option"
  be_name :: string
  be_there :: "string \<Rightarrow> bool"
  be_here :: string
  be_load_json :: "string \<Rightarrow> json res"
  be_read_file :: "string \<Rightarrow> string res"
  be_platform_set :: bool
  be_PLATFORM :: "string option"
  be_tables :: counter_tables
  be_clear :: "sai_val \<Rightarrow> 'd \<Rightarrow> int \<Rightarrow> bool res"

definition on_helper :: "('d sai_helper, 'a) py \<Rightarrow> ('d base, 'a) py" where
  "on_helper m = (\<lambda>b. case m (b_h b) of (r, h) \<Rightarrow> (r, b\<lparr>b_h := h\<rparr>))"

definition on_test :: "('d test_obj, 'a) py \<Rightarrow> ('d base, 'a) py" where
  "on_test m = on_helper (on_obj m)"

definition on_adapter :: "(adapter, 'a) py \<Rightarrow> ('d base, 'a) py" where
  "on_adapter m = (\<lambda>b. case m (b_adapter b) of (r, a) \<Rightarrow> (r, b\<lparr>b_adapter := a\<rparr>))"

abbreviation call_dev :: "('d, 'a) py \<Rightarrow> ('d base, 'a) py" where
  "call_dev m \<equiv> on_test (on_dev m)"

definition b_dev :: "'d base \<Rightarrow> 'd" where "b_dev b = t_dev (h_obj (b_h b))"

definition b_attrs :: "'d base \<Rightarrow> (string, sai_val) odict" where "b_attrs b = t_attrs (h_obj (b_h b))"

definition b_slept :: "'d base \<Rightarrow> nat" where "b_slept b = t_slept (h_obj (b_h b))"

definition b_sleep :: "nat \<Rightarrow> ('d base, unit) py" where "b_sleep n = on_helper (sleep n)"

definition b_assert :: "bool \<Rightarrow> ('d base, unit) py" where
  "b_assert p = liftP (if p then Inr () else Inl AssertionError)"

definition b_assert_status :: "'d sai_client \<Rightarrow> ('d base, unit) py" where
  "b_assert_status sai = on_test (assert_status sai)"

text \<open>A value that equals 0.\<close>

definition is_zero :: "sai_val \<Rightarrow> bool" where "is_zero v \<longleftrightarrow> v = VInt 0 \<or> v = VBool False"

definition switch_get :: "'d sai_client \<Rightarrow> string list \<Rightarrow> ('d base, sai_args option) py" where
  "switch_get sai ks = call_dev (sai_get sai ''switch'' VNone (map (\<lambda>k. (k, VBool True)) ks))"

definition switch_attr :: "'d sai_client \<Rightarrow> string \<Rightarrow> ('d base, sai_val) py" where
  "switch_attr sai k = bindP (switch_get sai [k]) (\<lambda>attr. liftP (attr_at attr k))"

section \<open>The connection and the port map\<close>

definition thrift_init :: "('d base, unit) py \<Rightarrow> ('d base, unit) py" where
  "thrift_init super_init = thenP super_init (modP (\<lambda>b. b\<lparr>b_port_map_loaded := False, b_transport := None,
     b_test_reboot_mode := None, b_test_reboot_stage := None, b_interface_to_front_mapping := []\<rparr>))"

definition loadTestRebootMode :: "('d base, unit) py" where
  "loadTestRebootMode = modP (\<lambda>b. b\<lparr>b_test_reboot_stage := None, b_test_reboot_mode :=
     (case map_of (b_test_params b) ''test_reboot_mode'' of Some m \<Rightarrow> Some m | None \<Rightarrow> Some ''cold'')\<rparr>)"

definition map_entry :: "(string \<Rightarrow> string) \<Rightarrow> string \<Rightarrow> ('d base, unit) py" where
  "map_entry clean item = (let iface_front_pair = split_char (CHR ''@'') item in
     bindP (liftP (py_index iface_front_pair 1)) (\<lambda>front.
     bindP (liftP (py_index iface_front_pair 0)) (\<lambda>iface.
     modP (\<lambda>b. b\<lparr>b_interface_to_front_mapping := AList.update iface (clean front) (b_interface_to_front_mapping b)\<rparr>))))"

definition is_comment :: "string \<Rightarrow> bool" where
  "is_comment line \<longleftrightarrow> line \<noteq> [] \<and> hd line \<in> {CHR ''#'', CHR '';'', CHR ''/''}"

definition map_line :: "string \<Rightarrow> ('d base, unit) py" where
  "map_line line = (if is_comment line then retP () else map_entry strip_ws line)"

definition loadPortMap :: "'d base_env \<Rightarrow> ('d base, unit) py" where
  "loadPortMap env = bindP getP (\<lambda>b.
     if b_port_map_loaded b then retP ()
     else thenP
       (case map_of (b_test_params b) ''port_map'' of
          Some user_input \<Rightarrow> forP (split_char (CHR '','') user_input) (map_entry (\<lambda>s. s))
        | None \<Rightarrow> (case map_of (b_test_params b) ''port_map_file'' of
            Some user_input \<Rightarrow> bindP (liftP (be_map_file env user_input)) (\<lambda>t. forP (file_lines t) map_line)
          | None \<Rightarrow> retP ()))
       (modP (\<lambda>b. b\<lparr>b_port_map_loaded := True\<rparr>)))"

definition createRpcClient :: "'d base_env \<Rightarrow> ('d base, unit) py" where
  "createRpcClient env =
     thenP (modP (\<lambda>b. b\<lparr>b_server := (case map_of (b_test_params b) ''thrift_server'' of Some s \<Rightarrow> s | None \<Rightarrow> ''localhost'')\<rparr>))
     (thenP (modP (\<lambda>b. b\<lparr>b_transport := Some False\<rparr>))
     (bindP getP (\<lambda>b.
     thenP (liftP (be_connect env (b_server b)))
     (modP (\<lambda>b. b\<lparr>b_transport := Some True\<rparr>)))))"

definition thrift_setUp :: "'d base_env \<Rightarrow> ('d base, unit) py" where
  "thrift_setUp env =
     thenP (be_super_setUp env)
     (thenP (modP (\<lambda>b. b\<lparr>b_test_params := be_test_params env,
        b_h := (b_h b)\<lparr>h_test_params := map fst (be_test_params env)\<rparr>\<rparr>))
     (thenP loadTestRebootMode (thenP (loadPortMap env) (createRpcClient env))))"

definition thrift_tearDown :: "'d base_env \<Rightarrow> ('d base, unit) py" where
  "thrift_tearDown env = bindP getP (\<lambda>b.
     case b_transport b of None \<Rightarrow> raiseP AttributeError
     | Some _ \<Rightarrow> thenP (modP (\<lambda>b. b\<lparr>b_transport := Some False\<rparr>)) (be_super_tearDown env))"

section \<open>The data plane\<close>

definition dataplane_init :: "('d base, unit) py \<Rightarrow> ('d base, unit) py" where
  "dataplane_init super_init = thenP (thrift_init super_init) (modP (\<lambda>b. b\<lparr>b_dataplane := None\<rparr>))"

definition dataplane_setUp :: "'d base_env \<Rightarrow> ('d base, unit) py" where
  "dataplane_setUp env =
     thenP (thrift_setUp env)
     (if be_dataplane env then
        (case be_log_dir env of
           Some dir \<Rightarrow> modP (\<lambda>b. b\<lparr>b_dataplane := Some (Some (path_join dir (be_name env) @ ''.pcap''))\<rparr>)
         | None \<Rightarrow> modP (\<lambda>b. b\<lparr>b_dataplane := Some None\<rparr>))
      else modP (\<lambda>b. b\<lparr>b_dataplane := None\<rparr>))"

definition dataplane_tearDown :: "'d base_env \<Rightarrow> ('d base, unit) py" where
  "dataplane_tearDown env =
     thenP (if be_log_dir env \<noteq> None then
        bindP getP (\<lambda>b. case b_dataplane b of None \<Rightarrow> raiseP AttributeError
          | Some _ \<Rightarrow> modP (\<lambda>b. b\<lparr>b_dataplane := Some None\<rparr>))
      else retP ())
     (thrift_tearDown env)"


section \<open>The base class of the tests\<close>

definition base_init :: "('d base, unit) py \<Rightarrow> ('d base, unit) py" where
  "base_init super_init = thenP (dataplane_init super_init)
     (modP (\<lambda>b. b\<lparr>b_default_vlan_id := VNone, b_default_vrf := VNone, b_def_vlan_member_list := [],
        b_h := (b_h b)\<lparr>h_cpu_port_hdl := VNone, h_port_list := [],
          h_obj := (h_obj (b_h b))\<lparr>t_default_1q_bridge := VNone, t_active_ports_no := 0, t_system_port_no := 0,
            t_active_port_obj_list := [], t_def_bridge_port_list := []\<rparr>\<rparr>\<rparr>))"

definition set_active_ports_no :: "int \<Rightarrow> ('d base, unit) py" where
  "set_active_ports_no n = on_test (modP (\<lambda>s. s\<lparr>t_active_ports_no := n\<rparr>))"

definition set_system_port_no :: "int \<Rightarrow> ('d base, unit) py" where
  "set_system_port_no n = on_test (modP (\<lambda>s. s\<lparr>t_system_port_no := n\<rparr>))"

text \<open>The number of system ports is 0 when the device does not report it.\<close>

definition get_default_switch_attr :: "'d sai_client \<Rightarrow> ('d base, unit) py" where
  "get_default_switch_attr sai =
     bindP (on_adapter ignore_api_errors) (\<lambda>_.
     bindP (switch_get sai [''number_of_system_ports'']) (\<lambda>attr.
     bindP (liftP (case attr of Some d \<Rightarrow> (case map_of d ''number_of_system_ports'' of
         Some v \<Rightarrow> number_of v | None \<Rightarrow> Inr 0) | None \<Rightarrow> Inr 0)) (\<lambda>number_of_system_ports.
     thenP (set_system_port_no number_of_system_ports)
     (bindP (switch_attr sai ''number_of_active_ports'') (\<lambda>v.
     bindP (liftP (number_of v)) (\<lambda>n.
     thenP (set_active_ports_no n)
     (on_adapter restore_api_error_code)))))))"

definition get_active_port_list :: "'d sai_client \<Rightarrow> ('d base, unit) py" where
  "get_active_port_list sai =
     bindP (switch_attr sai ''number_of_active_ports'') (\<lambda>v.
     bindP (liftP (number_of v)) (\<lambda>n.
     thenP (set_active_ports_no n)
     (bindP (call_dev (sai_get sai ''switch'' VNone [(''port_list'', VList []), (''port_list.count'', VInt n)])) (\<lambda>attr.
     bindP (liftP (bindR (attr_at attr ''port_list'') idlist)) (\<lambda>ids.
     thenP (b_assert (n = int (length ids)))
     (thenP (on_helper (modP (\<lambda>h. h\<lparr>h_port_list := map VInt ids\<rparr>)))
     (on_test (set_all port_attr (map VInt ids)))))))))"

definition read_oper_status :: "'d sai_client \<Rightarrow> sai_val \<Rightarrow> ('d base, sai_val) py" where
  "read_oper_status sai oid = bindP (call_dev (sai_get sai ''port'' oid [(''oper_status'', VBool True)]))
     (\<lambda>port_attr. liftP (attr_at port_attr ''oper_status''))"

fun retry_port :: "'d sai_client \<Rightarrow> sai_val \<Rightarrow> nat \<Rightarrow> ('d base, bool) py" where
  "retry_port sai oid 0 = retP False"
| "retry_port sai oid (Suc retries) = bindP (read_oper_status sai oid) (\<lambda>status.
     if status = VInt SAI_PORT_OPER_STATUS_UP then retP True
     else thenP (b_sleep 5) (retry_port sai oid retries))"

definition check_port_up :: "'d sai_client \<Rightarrow> sai_val \<Rightarrow> ('d base, bool) py" where
  "check_port_up sai oid = bindP (read_oper_status sai oid) (\<lambda>status.
     if status = VInt SAI_PORT_OPER_STATUS_UP then retP True else retry_port sai oid 10)"

text \<open>The list of the ports that stay down, which the code prints.\<close>

definition down_ports :: "'d sai_client \<Rightarrow> ('d base, nat list) py" where
  "down_ports sai = bindP getP (\<lambda>b. let ports = h_port_list (b_h b) in
     bindP (mapP ports (check_port_up sai)) (\<lambda>ups.
     retP (map fst (filter (\<lambda>(i, up). \<not> up) (zip [0..<length ports] ups)))))"

definition turn_up_and_check_ports :: "'d sai_client \<Rightarrow> ('d base, unit) py" where
  "turn_up_and_check_ports sai = bindP (down_ports sai) (\<lambda>down_port_list. retP ())"

definition get_default_1q_bridge_id :: "'d sai_client \<Rightarrow> ('d base, unit) py" where
  "get_default_1q_bridge_id sai =
     bindP (switch_get sai [''default_1q_bridge_id'']) (\<lambda>attr.
     thenP (b_assert_status sai)
     (bindP (liftP (attr_at attr ''default_1q_bridge_id'')) (\<lambda>v.
     on_test (modP (\<lambda>s. s\<lparr>t_default_1q_bridge := v\<rparr>)))))"

definition base_reset_1q_bridge_ports :: "('d base, unit) py" where
  "base_reset_1q_bridge_ports = retP ()"

definition base_config_port :: "'d sai_client \<Rightarrow> ('d base, unit) py" where
  "base_config_port sai =
     thenP (turn_up_and_check_ports sai) (thenP (get_default_1q_bridge_id sai) base_reset_1q_bridge_ports)"

definition base_recreate_ports :: "'d sai_client \<Rightarrow> ('d base, unit) py" where
  "base_recreate_ports sai = bindP getP (\<lambda>b.
     if ''port_config_ini'' \<in> set (h_test_params (b_h b)) then
       (if ''createPorts_has_been_called'' \<notin> set (h_config (b_h b))
        then thenP (on_helper (createPorts sai))
          (on_helper (modP (\<lambda>h. h\<lparr>h_config := h_config h @ [''createPorts_has_been_called'']\<rparr>)))
        else retP ())
     else retP ())"

text \<open>The queues of the CPU port: each is stored as an attribute, and its index and port are checked.\<close>

definition base_check_queue :: "'d sai_client \<Rightarrow> int list res \<Rightarrow> nat \<Rightarrow> ('d base, unit) py" where
  "base_check_queue sai ids queue =
     bindP (liftP (bindR ids (\<lambda>l. py_index l (int queue)))) (\<lambda>queue_id.
     thenP (on_test (set_attr (cpu_queue_attr queue) (VInt queue_id)))
     (bindP (call_dev (sai_get sai ''queue'' (VInt queue_id)
       [(''port'', VBool True), (''index'', VBool True), (''parent_scheduler_node'', VBool True)])) (\<lambda>q_attr.
     bindP (liftP (attr_at q_attr ''index'')) (\<lambda>i.
     thenP (b_assert (VInt (int queue) = i))
     (bindP getP (\<lambda>b.
     bindP (liftP (attr_at q_attr ''port'')) (\<lambda>p.
     b_assert (h_cpu_port_hdl (b_h b) = p))))))))"

definition base_check_cpu_port_hdl :: "'d sai_client \<Rightarrow> ('d base, unit) py" where
  "base_check_cpu_port_hdl sai = bindP getP (\<lambda>b. let cpu_port_hdl = h_cpu_port_hdl (b_h b) in
     bindP (call_dev (sai_get sai ''port'' cpu_port_hdl [(''qos_number_of_queues'', VBool True)])) (\<lambda>attr.
     bindP (liftP (attr_at attr ''qos_number_of_queues'')) (\<lambda>num_queues.
     bindP (call_dev (sai_get sai ''port'' cpu_port_hdl
       [(''qos_queue_list'', VNone), (''qos_queue_list.count'', num_queues)])) (\<lambda>attr.
     bindP (liftP (count_of num_queues)) (\<lambda>n.
     forP [0..<n] (base_check_queue sai (bindR (attr_at attr ''qos_queue_list'') idlist)))))))"

definition create_switch :: "'d sai_client \<Rightarrow> sai_args \<Rightarrow> ('d base, unit) py" where
  "create_switch sai a = bindP (call_dev (sai_create sai ''switch'' a)) (\<lambda>id.
     thenP (on_helper (modP (\<lambda>h. h\<lparr>h_switch_id := Some id\<rparr>))) (b_assert_status sai))"

definition base_start_switch :: "'d sai_client \<Rightarrow> ('d base, unit) py" where
  "base_start_switch sai = create_switch sai
     [(''init_switch'', VBool True), (''src_mac_address'', VStr ROUTER_MAC),
      (''port_state_change_notify'', VNone), (''fdb_event_notify'', VNone),
      (''switch_shutdown_request_notify'', VNone), (''switch_state_change_notify'', VNone)]"

definition warm_start_switch :: "'d sai_client \<Rightarrow> ('d base, unit) py" where
  "warm_start_switch sai = create_switch sai [(''init_switch'', VBool True), (''warm_recover'', VBool True)]"

definition base_set_accepted_exception :: "('d base, unit) py" where
  "base_set_accepted_exception = on_adapter (modP (\<lambda>a. a\<lparr>ad_catch := True\<rparr>))"

section \<open>The default VLAN\<close>

definition get_default_vlan :: "'d sai_client \<Rightarrow> ('d base, sai_val) py" where
  "get_default_vlan sai = bindP (switch_attr sai ''default_vlan_id'') (\<lambda>v.
     thenP (b_assert (\<not> is_zero v)) (retP v))"

definition get_vlan_member :: "'d sai_client \<Rightarrow> sai_val \<Rightarrow> ('d base, int list) py" where
  "get_vlan_member sai vlan_id = bindP getP (\<lambda>b.
     let vlan_member_size = t_system_port_no (h_obj (b_h b)) + t_active_ports_no (h_obj (b_h b)) in
     bindP (call_dev (sai_get sai ''vlan'' vlan_id
       [(''member_list'', VNone), (''member_list.count'', VInt vlan_member_size)])) (\<lambda>mbr_list.
     thenP (b_assert_status sai)
     (liftP (bindR (attr_at mbr_list ''SAI_VLAN_ATTR_MEMBER_LIST'') idlist))))"

definition remove_vlan_members :: "'d sai_client \<Rightarrow> int list \<Rightarrow> ('d base, unit) py" where
  "remove_vlan_members sai vlan_members = forP vlan_members (\<lambda>vlan_member.
     thenP (call_dev (sai_remove sai ''vlan_member'' (VInt vlan_member))) (b_assert_status sai))"

definition remove_default_vlan :: "'d sai_client \<Rightarrow> ('d base, unit) py" where
  "remove_default_vlan sai = bindP getP (\<lambda>b.
     if map_of (b_test_params b) ''target'' = Some ''bmv2'' then retP ()
     else bindP (get_vlan_member sai (b_default_vlan_id b)) (remove_vlan_members sai))"


section \<open>Resources and ports\<close>

definition SAI_SWITCH_OPER_STATUS_UP :: int where "SAI_SWITCH_OPER_STATUS_UP = 1"

text \<open>The loop of \<open>checkPortsUp\<close>: \<open>busy\<close> says how many seconds the reads of a round take, \<open>elapsed\<close> is
  the time since the start. A round ends at the first port that is not up.\<close>

fun all_ports_up :: "'d sai_client \<Rightarrow> sai_val list \<Rightarrow> ('d base, bool) py" where
  "all_ports_up sai [] = retP True"
| "all_ports_up sai (port # ports) = bindP (read_oper_status sai port) (\<lambda>status.
     if status \<noteq> VInt SAI_SWITCH_OPER_STATUS_UP then retP False else all_ports_up sai ports)"

function wait_ports_up :: "'d sai_client \<Rightarrow> (nat \<Rightarrow> nat) \<Rightarrow> nat \<Rightarrow> nat \<Rightarrow> nat \<Rightarrow> ('d base, bool) py" where
  "wait_ports_up sai busy timeout rnd elapsed =
     (if elapsed < timeout then
        bindP getP (\<lambda>b. bindP (all_ports_up sai (h_port_list (b_h b))) (\<lambda>allup.
        if allup then retP True
        else thenP (b_sleep 5) (wait_ports_up sai busy timeout (Suc rnd) (elapsed + busy rnd + 5))))
      else retP False)"
  by pat_completeness auto
termination by (relation "measure (\<lambda>(sai, busy, timeout, rnd, elapsed). timeout - elapsed)") auto

declare wait_ports_up.simps [simp del]

definition checkPortsUp :: "'d sai_client \<Rightarrow> (nat \<Rightarrow> nat) \<Rightarrow> nat \<Rightarrow> ('d base, unit) py" where
  "checkPortsUp sai busy timeout = bindP (wait_ports_up sai busy timeout 0 0) b_assert"

text \<open>The numbers of the interfaces in the configuration of PTF, under two names each.\<close>

definition dev_port_attr :: "nat \<Rightarrow> string" where "dev_port_attr i = ''dev_port'' @ str_of_nat i"
definition tg_attr :: "nat \<Rightarrow> string" where "tg_attr i = ''tg'' @ str_of_nat i"

definition getSwitchPorts :: "('d base, unit) py" where
  "getSwitchPorts = on_test (bindP getP (\<lambda>s.
     forP (zip [0..<length (t_interfaces s)] (t_interfaces s)) (\<lambda>(dev_no, _, port, _).
       thenP (set_attr (dev_port_attr dev_no) (VInt port)) (set_attr (tg_attr dev_no) (VInt port)))))"

definition resource_names :: "string list" where
  "resource_names =
     [''available_ipv4_route_entry'', ''available_ipv6_route_entry'', ''available_ipv4_nexthop_entry'',
      ''available_ipv6_nexthop_entry'', ''available_ipv4_neighbor_entry'', ''available_ipv6_neighbor_entry'',
      ''available_next_hop_group_entry'', ''available_next_hop_group_member_entry'', ''available_fdb_entry'',
      ''available_ipmc_entry'', ''available_snat_entry'', ''available_dnat_entry'',
      ''available_double_nat_entry'', ''number_of_ecmp_groups'', ''ecmp_members'']"

text \<open>With \<open>debug\<close> the resources are printed, which fails when there is no answer.\<close>

definition saveNumberOfAvaiableResources :: "'d sai_client \<Rightarrow> bool \<Rightarrow> ('d base, sai_args option) py" where
  "saveNumberOfAvaiableResources sai debug = bindP (switch_get sai resource_names) (\<lambda>switch_resources.
     if debug \<and> switch_resources = None then raiseP AttributeError else retP switch_resources)"

fun same_resources :: "sai_args option \<Rightarrow> sai_args \<Rightarrow> bool res" where
  "same_resources init_resources [] = Inr True"
| "same_resources init_resources ((key, v) # items) = bindR (attr_at init_resources key) (\<lambda>w.
     if v \<noteq> w then Inr False else same_resources init_resources items)"

definition verifyNumberOfAvaiableResources :: "'d sai_client \<Rightarrow> sai_args option \<Rightarrow> ('d base, bool) py" where
  "verifyNumberOfAvaiableResources sai init_resources = bindP (switch_get sai resource_names) (\<lambda>available_resources.
     case available_resources of None \<Rightarrow> raiseP AttributeError
     | Some d \<Rightarrow> liftP (same_resources init_resources d))"

definition base_status :: "'d sai_client \<Rightarrow> ('d base, int) py" where
  "base_status sai = (\<lambda>b. (Inr (sai_status sai (b_dev b)), b))"

definition saiWaitFdbAge :: "nat \<Rightarrow> ('d base, unit) py" where
  "saiWaitFdbAge timeout = b_sleep (timeout + 10)"

section \<open>The platform\<close>

text \<open>\<open>PLATFORM\<close> is read when the module is loaded, \<open>platform_set\<close> says whether the variable is
  there when the function is called.\<close>

definition platform_map :: "(string, string) odict" where
  "platform_map = [(''broadcom'', ''brcm''), (''barefoot'', ''bfn''), (''mellanox'', ''mlnx''),
     (''common'', ''common''), (''marvell'', ''mrvl'')]"

definition get_platform :: "bool \<Rightarrow> string option \<Rightarrow> string res" where
  "get_platform platform_set PLATFORM =
     (if platform_set then
        (case PLATFORM of None \<Rightarrow> Inl AttributeError
         | Some p \<Rightarrow> let pl_low = py_lower p in
             (case map_of platform_map pl_low of Some pl \<Rightarrow> Inr pl
              | None \<Rightarrow>
                 if pl_low \<in> snd ` set platform_map then Inr pl_low
                 else if p = [] then Inr ''common''
                 else Inl ValueError))
      else Inr ''common'')"

text \<open>The choice of the platform's class in \<open>PlatformSaiHelper.__new__\<close>. A class is its name and the
  value of \<open>platform\<close> it has or inherits; \<open>helpers\<close> are the direct subclasses of \<open>SaiHelper\<close> and \<open>commons\<close>
  those of \<open>CommonSaiHelper\<close>, each in the order of their definition. The dictionaries keep the last
  class of a platform. When the class is \<open>PlatformSaiHelper\<close> itself, its \<open>__new__\<close> is this choice
  again, without end until the interpreter's limit.\<close>

definition subclass_map :: "(string \<times> string) list \<Rightarrow> (string, string) odict" where
  "subclass_map subclasses = foldl (\<lambda>d (cls, platform). AList.update platform cls d) [] subclasses"

definition target_base_class :: "(string \<times> string) list \<Rightarrow> (string \<times> string) list \<Rightarrow> string \<Rightarrow> string res" where
  "target_base_class helpers commons pl =
     (case map_of (subclass_map commons) pl of Some c \<Rightarrow> Inr c
      | None \<Rightarrow> od_get (subclass_map helpers) pl)"

definition PlatformSaiHelper_new :: "(string \<times> string) list \<Rightarrow> (string \<times> string) list \<Rightarrow> bool \<Rightarrow> string option \<Rightarrow> string res" where
  "PlatformSaiHelper_new helpers commons platform_set PLATFORM =
     bindR (get_platform platform_set PLATFORM) (\<lambda>pl.
     bindR (target_base_class helpers commons pl) (\<lambda>target.
     if target = ''PlatformSaiHelper'' then Inl (Exn ''RecursionError'') else Inr target))"

section \<open>Set-up and release of the switch\<close>

text \<open>The methods that a platform's class overrides. \<open>base_methods\<close> are those of the base class,
  \<open>brcm_methods\<close> the ones of its helper, whose definitions are in \<open>PtfHelpers\<close>.\<close>

record 'd methods =
  m_set_accepted_exception :: "('d base, unit) py"
  m_start_switch :: "('d base, unit) py"
  m_recreate_ports :: "('d base, unit) py"
  m_config_port :: "('d base, unit) py"
  m_check_cpu_port_hdl :: "('d base, unit) py"

definition base_methods :: "'d sai_client \<Rightarrow> 'd methods" where
  "base_methods sai = \<lparr>m_set_accepted_exception = base_set_accepted_exception, m_start_switch = base_start_switch sai,
     m_recreate_ports = base_recreate_ports sai, m_config_port = base_config_port sai,
     m_check_cpu_port_hdl = base_check_cpu_port_hdl sai\<rparr>"

definition bfn_methods :: "'d sai_client \<Rightarrow> 'd methods" where
  "bfn_methods sai = (base_methods sai)\<lparr>m_recreate_ports := on_helper (bfn_recreate_ports sai)\<rparr>"

definition brcm_methods :: "'d sai_client \<Rightarrow> 'd methods" where
  "brcm_methods sai = \<lparr>m_set_accepted_exception = on_adapter (modP set_accepted_exception),
     m_start_switch = on_helper (helper_start_switch sai), m_recreate_ports = on_helper helper_recreate_ports,
     m_config_port = on_helper (brcm_config_port sai), m_check_cpu_port_hdl = on_helper (check_cpu_port_hdl sai)\<rparr>"

definition load_configurations :: "'d base_env \<Rightarrow> ('d base, unit) py" where
  "load_configurations env = bindP getP (\<lambda>b.
     bindP (liftP (ConfigDBLoader (be_there env) (be_load_json env) (be_here env) (map_of (b_test_params b) ''config_db_json''))) (\<lambda>db.
     bindP (liftP (get_port_config db)) (\<lambda>(configs, db).
     thenP (on_test (modP (\<lambda>s. s\<lparr>t_ports_config := configs\<rparr>)))
     (bindP (liftP (PortConfigInILoader (be_there env) (be_here env) (map_of (b_test_params b) ''port_config_ini''))) (\<lambda>ini.
     bindP (liftP (parse_port_config (be_read_file env) ini)) (\<lambda>(_, ini).
     on_helper (modP (\<lambda>h. h\<lparr>h_ini_ports := il_ports_config ini\<rparr>))))))))"

definition base_setUp :: "'d sai_client \<Rightarrow> 'd base_env \<Rightarrow> 'd methods \<Rightarrow> ('d base, unit) py" where
  "base_setUp sai env m =
     thenP (dataplane_setUp env)
     (thenP (load_configurations env)
     (thenP (modP (\<lambda>b. b\<lparr>b_def_vlan_member_list := [],
        b_h := (b_h b)\<lparr>h_obj := (h_obj (b_h b))\<lparr>t_def_bridge_port_list := []\<rparr>\<rparr>\<rparr>))
     (thenP (m_set_accepted_exception m)
     (thenP getSwitchPorts
     (thenP (m_start_switch m)
     (thenP (get_default_switch_attr sai)
     (bindP (saveNumberOfAvaiableResources sai True) (\<lambda>res.
     thenP (modP (\<lambda>b. b\<lparr>b_switch_resources := res\<rparr>))
     (bindP (get_default_vlan sai) (\<lambda>v.
     thenP (modP (\<lambda>b. b\<lparr>b_default_vlan_id := v\<rparr>))
     (thenP (remove_default_vlan sai)
     (thenP (m_recreate_ports m)
     (thenP (get_active_port_list sai)
     (bindP (switch_attr sai ''default_virtual_router_id'') (\<lambda>vrf.
     thenP (modP (\<lambda>b. b\<lparr>b_default_vrf := vrf\<rparr>))
     (thenP (b_assert (\<not> is_zero vrf))
     (thenP (m_config_port m)
     (bindP (switch_attr sai ''cpu_port'') (\<lambda>cpu.
     thenP (on_helper (modP (\<lambda>h. h\<lparr>h_cpu_port_hdl := cpu\<rparr>)))
     (thenP (b_assert (\<not> is_zero cpu))
     (m_check_cpu_port_hdl m)))))))))))))))))))))"

text \<open>The counters of a port are cleared, and its VLAN is reset. The call of the platform's name can
  raise, and on \<open>brcm\<close> there is an early return with nothing behind it.\<close>

definition clear_port_stats :: "'d base_env \<Rightarrow> sai_val \<Rightarrow> ('d base, unit) py" where
  "clear_port_stats env port = bindP getP (\<lambda>b.
     on_adapter (clear_counter (be_tables env) ''sai_thrift_clear_port_stats'' None (be_clear env port (b_dev b))))"

definition reset_port :: "'d sai_client \<Rightarrow> 'd base_env \<Rightarrow> sai_val \<Rightarrow> ('d base, unit) py" where
  "reset_port sai env port = thenP (clear_port_stats env port)
     (call_dev (sai_set sai ''port'' port [(''port_vlan_id'', VInt 0)]))"

definition base_tearDown :: "'d sai_client \<Rightarrow> 'd base_env \<Rightarrow> ('d base, unit) py" where
  "base_tearDown sai env = finallyP
     (bindP getP (\<lambda>b. thenP (forP (h_port_list (b_h b)) (reset_port sai env))
        (bindP (liftP (get_platform (be_platform_set env) (be_PLATFORM env))) (\<lambda>pl. retP ()))))
     (dataplane_tearDown env)"


section \<open>The port map is read back\<close>

text \<open>A row of the file is a comment, or an interface and its port.\<close>

definition map_row :: "string + string \<times> string \<Rightarrow> string" where
  "map_row r = (case r of Inl c \<Rightarrow> c | Inr (iface, port) \<Rightarrow> iface @ CHR ''@'' # port)"

definition good_row :: "string + string \<times> string \<Rightarrow> bool" where
  "good_row r \<longleftrightarrow> CHR 0x0A \<notin> set (map_row r) \<and> (case r of Inl c \<Rightarrow> is_comment c
     | Inr (iface, port) \<Rightarrow> \<not> is_comment iface \<and> CHR ''@'' \<notin> set iface \<and> CHR ''@'' \<notin> set port \<and> strip_ws port = port)"

fun row_entries :: "(string + string \<times> string) list \<Rightarrow> (string \<times> string) list" where
  "row_entries [] = []"
| "row_entries (Inl c # rows) = row_entries rows"
| "row_entries (Inr e # rows) = e # row_entries rows"

lemma strip_ws_newline: "strip_ws (s @ [CHR 0x0A]) = strip_ws s"
proof (cases "\<forall>c \<in> set s. is_ws c")
  case True
  then have "dropWhile is_ws s = []" "dropWhile is_ws (s @ [CHR 0x0A]) = []"
    by (auto simp: is_ws_def)
  then show ?thesis by (simp only: strip_ws_def strip_by_def lstrip_by_def)
next
  case False
  then have "dropWhile is_ws (s @ [CHR 0x0A]) = dropWhile is_ws s @ [CHR 0x0A]"
    by (auto intro: dropWhile_append1)
  moreover have "rstrip_by is_ws (t @ [CHR 0x0A]) = rstrip_by is_ws t" for t
    by (rule rstrip_by_all) (simp add: is_ws_def)
  ultimately show ?thesis by (simp add: strip_ws_def strip_by_def lstrip_by_def)
qed

lemma is_comment_append: "is_comment (a @ b) \<longleftrightarrow> (if a = [] then is_comment b else is_comment a)"
  by (cases a) (auto simp: is_comment_def)

lemma map_line_row:
  assumes "good_row r"
  shows "map_line (text_line (map_row r)) b = (Inr (), case r of Inl c \<Rightarrow> b
     | Inr (iface, port) \<Rightarrow> b\<lparr>b_interface_to_front_mapping := AList.update iface port (b_interface_to_front_mapping b)\<rparr>)"
proof (cases r)
  case (Inl c)
  then have "is_comment c" "c \<noteq> []" using assms by (auto simp: good_row_def is_comment_def)
  then have "is_comment (text_line (map_row r))" using Inl by (simp add: map_row_def text_line_def is_comment_append)
  then show ?thesis using Inl by (simp add: map_line_def)
next
  case (Inr e)
  obtain i n where e: "e = (i, n)" by fastforce
  have g: "\<not> is_comment i" "CHR ''@'' \<notin> set i" "CHR ''@'' \<notin> set n" "strip_ws n = n"
    using assms Inr e by (auto simp: good_row_def)
  have t: "text_line (map_row r) = i @ CHR ''@'' # (n @ [CHR 0x0A])" using Inr e by (simp add: map_row_def text_line_def)
  have c: "\<not> is_comment (text_line (map_row r))" using g(1) unfolding t by (simp add: is_comment_append) (simp add: is_comment_def)
  have s: "split_char (CHR ''@'') (i @ CHR ''@'' # (n @ [CHR 0x0A])) = [i, n @ [CHR 0x0A]]"
    using g(2,3) by (subst split_char_append) (simp_all add: split_char_none)
  show ?thesis using c g(4) unfolding t
    by (simp add: map_line_def map_entry_def s py_res Let_def py_index_def py_position_def strip_ws_newline Inr e)
qed

lemma map_lines_rows:
  assumes "\<forall>r \<in> set rows. good_row r"
  shows "forP (map text_line (map map_row rows)) map_line b = (Inr (), b\<lparr>b_interface_to_front_mapping :=
     foldl (\<lambda>d (i, n). AList.update i n d) (b_interface_to_front_mapping b) (row_entries rows)\<rparr>)"
  using assms
proof (induction rows arbitrary: b)
  case (Cons r rows)
  have r: "good_row r" and rs: "\<forall>r \<in> set rows. good_row r" using Cons.prems by simp_all
  show ?case using Cons.IH [OF rs] map_line_row [OF r, of b]
    by (cases r) (auto simp: thenP_apply)
qed simp

lemma foldl_update_distinct:
  "distinct (map fst (d @ es)) \<Longrightarrow> foldl (\<lambda>d (i, n). AList.update i n d) d es = d @ es"
proof (induction es arbitrary: d)
  case (Cons e es)
  obtain i n where e: "e = (i, n)" by fastforce
  have "i \<notin> fst ` set d" using Cons.prems e by auto
  then have u: "AList.update i n d = d @ [(i, n)]" by (rule update_fresh)
  have "distinct (map fst ((d @ [(i, n)]) @ es))" using Cons.prems e by simp
  from Cons.IH [OF this] show ?case using u e by simp
qed simp

text \<open>C16 (roundtrip). The port map of a file is read back: comments are passed over, and the interfaces come out with
  their ports, in order.\<close>

theorem port_map_read_back:
  assumes "\<not> b_port_map_loaded b" "b_interface_to_front_mapping b = []"
    and "map_of (b_test_params b) ''port_map'' = None" "map_of (b_test_params b) ''port_map_file'' = Some f"
    and "be_map_file env f = Inr (text_lines (map map_row rows))" "\<forall>r \<in> set rows. good_row r"
    and "distinct (map fst (row_entries rows))"
  shows "loadPortMap env b = (Inr (), b\<lparr>b_interface_to_front_mapping := row_entries rows, b_port_map_loaded := True\<rparr>)"
proof -
  have "\<forall>l \<in> set (map map_row rows). CHR 0x0A \<notin> set l" using assms(6) by (auto simp: good_row_def)
  then have l: "file_lines (text_lines (map map_row rows)) = map text_line (map map_row rows)"
    by (rule file_lines_text_lines)
  have "foldl (\<lambda>d (i, n). AList.update i n d) [] (row_entries rows) = [] @ row_entries rows"
    using assms(7) by (intro foldl_update_distinct) simp
  then show ?thesis
    using assms(1-5) map_lines_rows [OF assms(6), of b] by (simp add: loadPortMap_def bindP_apply thenP_apply l del: map_map)
qed

section \<open>An example\<close>

definition demo_base :: "'d sai_helper \<Rightarrow> 'd base" where
  "demo_base h = \<lparr>b_h = h, b_adapter = \<lparr>ad_catch = False, ad_expected = [], ad_saved_catch = False, ad_saved_expected = []\<rparr>,
     b_test_params = [(''port_map_file'', ''map'')], b_interface_to_front_mapping = [], b_port_map_loaded = False,
     b_test_reboot_mode = None, b_test_reboot_stage = None, b_server = [], b_transport = None, b_dataplane = None,
     b_default_vlan_id = VNone, b_default_vrf = VNone, b_switch_resources = None, b_def_lag_list = [],
     b_def_lag_member_list = [], b_def_vlan_list = [], b_def_vlan_member_list = [], b_def_rif_list = []\<rparr>"

definition demo_map_rows :: "(string + string \<times> string) list" where
  "demo_map_rows = [Inl ''# ports'', Inr (''0'', ''Veth1''), Inr (''1'', ''Veth2'')]"

definition demo_env :: "bool \<Rightarrow> 'd base_env" where
  "demo_env dataplane = \<lparr>be_super_setUp = retP (), be_super_tearDown = retP (), be_test_params = [(''port_map_file'', ''map'')],
     be_map_file = (\<lambda>_. Inr (text_lines (map map_row demo_map_rows))), be_connect = (\<lambda>_. Inr ()), be_dataplane = dataplane,
     be_log_dir = Some ''logs'', be_name = ''test'', be_there = (\<lambda>_. True), be_here = [], be_load_json = (\<lambda>_. Inl OSError),
     be_read_file = (\<lambda>_. Inl OSError), be_platform_set = False, be_PLATFORM = None, be_tables = [], be_clear = (\<lambda>_ _ _. Inr True)\<rparr>"

lemma demo_rows_good: "\<forall>r \<in> set demo_map_rows. good_row r" "row_entries demo_map_rows = [(''0'', ''Veth1''), (''1'', ''Veth2'')]"
  by (simp_all add: demo_map_rows_def good_row_def map_row_def is_comment_def strip_ws_def strip_by_def lstrip_by_def rstrip_by_def is_ws_def)

lemma demo_env_simps: "be_super_setUp (demo_env p) = retP ()" "be_super_tearDown (demo_env p) = retP ()"
  "be_test_params (demo_env p) = [(''port_map_file'', ''map'')]" "be_dataplane (demo_env p) = p"
  "be_map_file (demo_env p) f = Inr (text_lines (map map_row demo_map_rows))" "be_connect (demo_env p) s = Inr ()"
  "be_log_dir (demo_env p) = Some ''logs''"
  by (simp_all add: demo_env_def)

theorem port_map_read_back_witness:
  "\<exists>c. loadPortMap (demo_env True) (demo_base (demo_helper (demo_obj []) 1)) = (Inr (), c)
    \<and> b_interface_to_front_mapping c = [(''0'', ''Veth1''), (''1'', ''Veth2'')]"
  using port_map_read_back [of "demo_base (demo_helper (demo_obj []) 1)" "''map''" "demo_env True" demo_map_rows]
  by (simp add: demo_rows_good demo_env_simps demo_base_def)

section \<open>The connection is closed\<close>

definition same_connection :: "'d base \<Rightarrow> 'd base \<Rightarrow> bool" where
  "same_connection b c \<longleftrightarrow> b_transport b = b_transport c \<and> b_dataplane b = b_dataplane c"

lemma on_test_connection: "keeps (\<lambda>c. same_connection c b) (on_test m)"
  by (rule keepsI) (auto simp: on_test_def on_helper_def same_connection_def split: prod.splits)

lemma on_adapter_connection: "keeps (\<lambda>c. same_connection c b) (on_adapter m)"
  by (rule keepsI) (auto simp: on_adapter_def same_connection_def split: prod.splits)

lemma reset_port_connection: "keeps (\<lambda>c. same_connection c b) (reset_port sai env port)"
  unfolding reset_port_def clear_port_stats_def
  by (intro keeps_rules on_test_connection on_adapter_connection)

lemma dataplane_tearDown_run:
  assumes "b_transport b = Some True" "\<And>c. b_transport (snd (be_super_tearDown env c)) = b_transport c"
  shows "b_transport (snd (dataplane_tearDown env b)) = Some (be_log_dir env \<noteq> None \<and> b_dataplane b = None)"
proof (cases "be_log_dir env \<noteq> None \<and> b_dataplane b = None")
  case True
  then show ?thesis using assms(1) by (simp add: dataplane_tearDown_def bindP_apply thenP_apply)
next
  case False
  then obtain c where c: "dataplane_tearDown env b = thrift_tearDown env c" "b_transport c = Some True"
    using assms(1) by (cases "be_log_dir env") (auto simp: dataplane_tearDown_def bindP_apply thenP_apply)
  then have "b_transport (snd (dataplane_tearDown env b)) = Some False"
    using assms(2) [of "c\<lparr>b_transport := Some False\<rparr>"] by (simp add: thrift_tearDown_def bindP_apply thenP_apply)
  then show ?thesis using False by simp
qed

lemma dataplane_setUp_run:
  assumes "dataplane_setUp env b = (Inr x, c)"
  shows "b_transport c = Some True \<and> (b_dataplane c = None \<longleftrightarrow> \<not> be_dataplane env)"
proof -
  obtain y d where d: "thrift_setUp env b = (Inr y, d)"
    and c: "c = (if be_dataplane env then (case be_log_dir env of
           Some dir \<Rightarrow> d\<lparr>b_dataplane := Some (Some (path_join dir (be_name env) @ ''.pcap''))\<rparr>
         | None \<Rightarrow> d\<lparr>b_dataplane := Some None\<rparr>) else d\<lparr>b_dataplane := None\<rparr>)"
    using assms by (auto simp: dataplane_setUp_def thenP_eq_Inr split: if_splits option.splits)
  have "b_transport d = Some True"
    using d by (auto simp: thrift_setUp_def thenP_eq_Inr createRpcClient_def bindP_eq_Inr)
  then show ?thesis using c by (simp split: option.splits)
qed

text \<open>C10 (safety). Whatever the reset of the ports does, after \<open>tearDown\<close> the connection that \<open>setUp\<close> opened is closed,
  unless a log directory is configured and there is no data plane: then the capture cannot be
  stopped and the connection stays open.\<close>

theorem tearDown_closes_connection:
  assumes "dataplane_setUp env b = (Inr (), c)" "same_connection d c"
    and "\<And>e. b_transport (snd (be_super_tearDown env e)) = b_transport e"
  shows "b_transport (snd (base_tearDown sai env d)) = Some (be_log_dir env \<noteq> None \<and> \<not> be_dataplane env)"
proof -
  let ?m = "bindP getP (\<lambda>b. thenP (forP (h_port_list (b_h b)) (reset_port sai env))
        (bindP (liftP (get_platform (be_platform_set env) (be_PLATFORM env))) (\<lambda>pl. retP ())))"
  let ?P = "\<lambda>e. same_connection e c"
  have "keeps ?P ?m" by (intro keeps_rules reset_port_connection)
  then obtain r e where e: "?m d = (r, e)" "same_connection e c"
    using assms(2) by (cases "?m d") (auto dest: keepsD)
  have s: "b_transport e = Some True" "b_dataplane e = None \<longleftrightarrow> \<not> be_dataplane env"
    using e(2) dataplane_setUp_run [OF assms(1)] by (auto simp: same_connection_def)
  show ?thesis using dataplane_tearDown_run [OF s(1) assms(3)] s(2)
    unfolding base_tearDown_def finallyP_apply e(1) by (auto split: prod.splits sum.splits)
qed

lemma demo_setUp: "\<exists>c. dataplane_setUp (demo_env p) (demo_base h) = (Inr (), c)"
proof -
  have "\<exists>c. thrift_setUp (demo_env p) (demo_base h) = (Inr (), c)"
    using file_lines_text_lines [of "map map_row demo_map_rows"] demo_rows_good(1)
    by (simp add: map_lines_rows [OF demo_rows_good(1)] thrift_setUp_def loadTestRebootMode_def loadPortMap_def createRpcClient_def demo_env_simps demo_base_def
        bindP_apply thenP_apply good_row_def del: map_map)
  then show ?thesis by (auto simp: dataplane_setUp_def demo_env_simps thenP_apply)
qed

theorem tearDown_closes_connection_witness:
  "\<exists>c e. dataplane_setUp (demo_env True) (demo_base (demo_helper (demo_obj []) 1)) = (Inr (), c)
    \<and> b_transport (snd (base_tearDown (demo_client (\<lambda>_ _. None)) (demo_env True) c)) = Some False
    \<and> dataplane_setUp (demo_env False) (demo_base (demo_helper (demo_obj []) 1)) = (Inr (), e)
    \<and> b_transport (snd (base_tearDown (demo_client (\<lambda>_ _. None)) (demo_env False) e)) = Some True"
proof -
  obtain c e where c: "dataplane_setUp (demo_env True) (demo_base (demo_helper (demo_obj []) 1)) = (Inr (), c)"
    and e: "dataplane_setUp (demo_env False) (demo_base (demo_helper (demo_obj []) 1)) = (Inr (), e)" using demo_setUp by blast
  show ?thesis
    using c e tearDown_closes_connection [OF c, of c "demo_client (\<lambda>_ _. None)"] tearDown_closes_connection [OF e, of e "demo_client (\<lambda>_ _. None)"]
    by (auto simp: same_connection_def demo_env_simps)
qed

section \<open>The platform\<close>

text \<open>A result is one of the five short names, and choosing it again gives it back.\<close>

theorem get_platform_short:
  assumes "get_platform platform_set PLATFORM = Inr pl"
  shows "pl \<in> {''common'', ''brcm'', ''bfn'', ''mlnx'', ''mrvl''} \<and> get_platform True (Some pl) = Inr pl"
proof -
  have v: "pl \<in> {''common'', ''brcm'', ''bfn'', ''mlnx'', ''mrvl''}"
    using assms by (auto simp: get_platform_def platform_map_def Let_def split: if_splits option.splits)
  moreover have "get_platform True (Some pl) = Inr pl"
    using v by (auto simp: get_platform_def platform_map_def py_lower_def py_lower_char_def Let_def)
  ultimately show ?thesis by blast
qed

definition common_classes :: "(string \<times> string) list" where
  "common_classes = [(''BfnSaiHelper'', ''bfn''), (''BrcmSaiHelper'', ''brcm''), (''MlnxSaiHelper'', ''mlnx'')]"

definition helper_classes :: "string list \<Rightarrow> (string \<times> string) list" where
  "helper_classes tests = [(''CommonSaiHelper'', ''common''), (''PlatformSaiHelper'', ''common'')] @ map (\<lambda>t. (t, ''common'')) tests"

lemma subclass_map_common: "map_of (subclass_map (helper_classes tests)) ''common''
  = Some (if tests = [] then ''PlatformSaiHelper'' else last tests)"
proof (induction tests rule: rev_induct)
  case Nil
  then show ?case by (simp add: subclass_map_def helper_classes_def)
next
  case (snoc t tests)
  then show ?case by (simp add: subclass_map_def helper_classes_def update_conv')
qed

lemma subclass_map_other: "pl \<noteq> ''common'' \<Longrightarrow> map_of (subclass_map (helper_classes tests)) pl = None"
proof (induction tests rule: rev_induct)
  case Nil
  then show ?case by (simp add: subclass_map_def helper_classes_def)
next
  case (snoc t tests)
  then show ?case by (simp add: subclass_map_def helper_classes_def update_conv')
qed

text \<open>C19 (functional). With the classes the module loads, and test classes that extend \<open>SaiHelper\<close> directly, the platforms
  \<open>bfn\<close>, \<open>brcm\<close> and \<open>mlnx\<close> get their classes; \<open>mrvl\<close> has none; and the common platform never gets its
  own: it gets the last of the test classes, or, when there is none, the class that is choosing.\<close>

theorem platform_class_chosen:
  assumes "''PlatformSaiHelper'' \<notin> set tests"
  shows "PlatformSaiHelper_new (helper_classes tests) common_classes True (Some ''broadcom'') = Inr ''BrcmSaiHelper''
    \<and> PlatformSaiHelper_new (helper_classes tests) common_classes True (Some ''barefoot'') = Inr ''BfnSaiHelper''
    \<and> PlatformSaiHelper_new (helper_classes tests) common_classes True (Some ''mellanox'') = Inr ''MlnxSaiHelper''
    \<and> PlatformSaiHelper_new (helper_classes tests) common_classes True (Some ''marvell'') = Inl KeyError
    \<and> PlatformSaiHelper_new (helper_classes tests) common_classes False p =
        (if tests = [] then Inl (Exn ''RecursionError'') else Inr (last tests))"
proof -
  have p: "get_platform True (Some ''broadcom'') = Inr ''brcm''" "get_platform True (Some ''barefoot'') = Inr ''bfn''"
    "get_platform True (Some ''mellanox'') = Inr ''mlnx''" "get_platform True (Some ''marvell'') = Inr ''mrvl''"
    "get_platform False p = Inr ''common''"
    by (simp_all add: get_platform_def platform_map_def py_lower_def py_lower_char_def Let_def)
  have t: "target_base_class h common_classes ''brcm'' = Inr ''BrcmSaiHelper''"
    "target_base_class h common_classes ''bfn'' = Inr ''BfnSaiHelper''"
    "target_base_class h common_classes ''mlnx'' = Inr ''MlnxSaiHelper''"
    "target_base_class h common_classes ''mrvl'' = od_get (subclass_map h) ''mrvl''"
    "target_base_class h common_classes ''common'' = od_get (subclass_map h) ''common''" for h
    by (simp_all add: target_base_class_def common_classes_def subclass_map_def)
  have "last tests \<noteq> ''PlatformSaiHelper''" if "tests \<noteq> []" using assms that by (metis last_in_set)
  then show ?thesis
    by (simp add: PlatformSaiHelper_new_def p t od_get_def subclass_map_common subclass_map_other)
qed

theorem platform_class_chosen_witness:
  "PlatformSaiHelper_new (helper_classes [''SwitchAttrTest'', ''SwitchVxlanTest'']) common_classes False None = Inr ''SwitchVxlanTest''"
  using platform_class_chosen [of "[''SwitchAttrTest'', ''SwitchVxlanTest'']" None] by simp

theorem get_platform_short_witness:
  "get_platform True (Some ''brcm'') = Inr ''brcm''"
proof -
  have "get_platform True (Some ''BroadCom'') = Inr ''brcm''" by code_simp
  from get_platform_short [OF this] show ?thesis by blast
qed


section \<open>Waiting for the ports\<close>

definition waited :: "nat \<Rightarrow> 'd base \<Rightarrow> 'd base \<Rightarrow> bool" where
  "waited n b c \<longleftrightarrow> b_slept c = b_slept b + n \<and> h_port_list (b_h c) = h_port_list (b_h b)"

lemma waited_trans: "waited m b c \<Longrightarrow> waited n c d \<Longrightarrow> waited (m + n) b d"
  by (simp add: waited_def)

lemma on_dev_waited: "call_dev m b = (r, c) \<Longrightarrow> waited 0 b c"
  by (auto simp: on_test_def on_helper_def on_obj_def on_dev_def waited_def b_slept_def split: prod.splits)

lemma b_sleep_run: "b_sleep n b = (r, c) \<Longrightarrow> r = Inr () \<and> waited n b c"
  by (auto simp: b_sleep_def on_helper_def sleep_def on_obj_def waited_def b_slept_def)

lemma read_oper_waited: "read_oper_status sai oid b = (r, c) \<Longrightarrow> waited 0 b c"
  by (auto simp: read_oper_status_def bindP_apply dest!: on_dev_waited split: prod.splits sum.splits)

lemma all_ports_up_waited: "all_ports_up sai ports b = (r, c) \<Longrightarrow> waited 0 b c"
proof (induction ports arbitrary: b)
  case Nil
  then show ?case by (simp add: waited_def)
next
  case (Cons p ports)
  obtain q d where q: "read_oper_status sai p b = (q, d)" by fastforce
  have d: "waited 0 b d" by (rule read_oper_waited [OF q])
  show ?case
  proof (cases q)
    case (Inl e)
    then show ?thesis using Cons.prems q d by (simp add: bindP_apply)
  next
    case (Inr v)
    then show ?thesis using Cons.prems q d waited_trans [OF d Cons.IH]
      by (auto simp: bindP_apply split: if_splits)
  qed
qed

lemma waited_port_list: "waited n b c \<Longrightarrow> h_port_list (b_h c) = h_port_list (b_h b)"
  by (simp add: waited_def)

lemma wait_ports_run:
  "wait_ports_up sai busy timeout rnd elapsed b = (r, c) \<Longrightarrow>
    (\<exists>n. waited (5 * n) b c \<and> n \<le> (timeout - elapsed + 4) div 5)
    \<and> (r = Inr True \<longrightarrow> (\<exists>d. all_ports_up sai (h_port_list (b_h b)) d = (Inr True, c)))"
proof (induction sai busy timeout rnd elapsed arbitrary: b rule: wait_ports_up.induct)
  case (1 sai busy timeout rnd elapsed)
  show ?case
  proof (cases "elapsed < timeout")
    case False
    then show ?thesis using "1.prems" by (subst (asm) wait_ports_up.simps) (auto simp: waited_def intro: exI [of _ 0])
  next
    case True
    obtain q d where q: "all_ports_up sai (h_port_list (b_h b)) b = (q, d)" by fastforce
    have d: "waited 0 b d" by (rule all_ports_up_waited [OF q])
    show ?thesis
    proof (cases "q = Inr False")
      case False
      then show ?thesis using "1.prems" True q d
        by (subst (asm) wait_ports_up.simps) (auto simp: bindP_apply split: sum.splits intro!: exI [of _ 0])
    next
      case F: True
      obtain u e where e: "b_sleep 5 d = (u, e)" by fastforce
      have we: "u = Inr ()" "waited 5 b e" using b_sleep_run [OF e] waited_trans [OF d] by auto
      have w: "wait_ports_up sai busy timeout (Suc rnd) (elapsed + busy rnd + 5) e = (r, c)"
        using "1.prems" True q F e we(1) by (subst (asm) wait_ports_up.simps) (simp add: bindP_apply thenP_apply)
      obtain n where n: "waited (5 * n) e c" "n \<le> (timeout - (elapsed + busy rnd + 5) + 4) div 5"
        and t: "r = Inr True \<longrightarrow> (\<exists>d. all_ports_up sai (h_port_list (b_h e)) d = (Inr True, c))"
        using "1.IH" [OF True _ w, of False] by blast
      have "waited (5 * Suc n) b c" using waited_trans [OF we(2) n(1)] by simp
      moreover have "Suc n \<le> (timeout - elapsed + 4) div 5"
        using n(2) True by (simp add: less_eq_div_iff_mult_less_eq) presburger
      ultimately have "\<exists>n. waited (5 * n) b c \<and> n \<le> (timeout - elapsed + 4) div 5" by blast
      then show ?thesis using t unfolding waited_port_list [OF we(2)] by blast
    qed
  qed
qed

text \<open>C23 (termination). Waiting for the ports ends whatever the device answers: the wait sleeps five seconds at a time and
  at most once per five seconds of the time limit. When it is passed, the last thing it did was to
  read every port as up.\<close>

theorem checkPortsUp_bounded:
  assumes "checkPortsUp sai busy timeout b = (r, c)"
  shows "(\<exists>n \<le> (timeout + 4) div 5. b_slept c = b_slept b + 5 * n)
    \<and> (r = Inr () \<longrightarrow> (\<exists>d. all_ports_up sai (h_port_list (b_h b)) d = (Inr True, c)))"
proof -
  obtain q where q: "wait_ports_up sai busy timeout 0 0 b = (q, c)" "r = Inr () \<longrightarrow> q = Inr True"
    using assms by (auto simp: checkPortsUp_def bindP_apply b_assert_def split: prod.splits sum.splits if_splits)
  from wait_ports_run [OF q(1)] q(2) show ?thesis by (auto simp: waited_def)
qed

lemma down_client_round:
  "all_ports_up (demo_client (\<lambda>_ _. Some [(''oper_status'', VInt 2)])) (p # ps) b = (Inr False, b)"
  by (cases b) (simp add: read_oper_status_def demo_client_def on_test_def on_helper_def on_obj_def on_dev_def bindP_apply
      attr_at_def od_get_def SAI_SWITCH_OPER_STATUS_UP_def)

theorem checkPortsUp_bounded_witness:
  "\<exists>r c. checkPortsUp (demo_client (\<lambda>_ _. Some [(''oper_status'', VInt 2)])) (\<lambda>_. 1) 30 (demo_base (demo_helper (demo_obj []) 1)) = (r, c)
    \<and> b_slept c \<le> 30"
proof -
  obtain r c where c: "checkPortsUp (demo_client (\<lambda>_ _. Some [(''oper_status'', VInt 2)])) (\<lambda>_. 1) 30 (demo_base (demo_helper (demo_obj []) 1)) = (r, c)"
    by fastforce
  have z: "b_slept (demo_base (demo_helper (demo_obj []) 1)) = 0"
    by (simp add: demo_base_def demo_helper_def demo_obj_def b_slept_def)
  obtain n where n: "n \<le> (30 + 4) div 5" "b_slept c = 5 * (n :: nat)"
    using checkPortsUp_bounded [OF c] unfolding z by auto
  have "n \<le> 6" using n(1) by simp
  then have "b_slept c \<le> 30" using n(2) by linarith
  then show ?thesis using c by blast
qed

section \<open>The default VLAN is emptied\<close>

definition vlan_device :: "'d sai_client \<Rightarrow> ('d \<Rightarrow> sai_val \<Rightarrow> int set) \<Rightarrow> bool" where
  "vlan_device sai members \<longleftrightarrow>
     (\<forall>v a d r d' l. sai_get sai ''vlan'' v a d = (Inr r, d') \<longrightarrow> attr_at r ''SAI_VLAN_ATTR_MEMBER_LIST'' = Inr (VList l) \<longrightarrow>
        members d' = members d \<and> set l = members d v)
     \<and> (\<forall>i d d'. sai_remove sai ''vlan_member'' (VInt i) d = (Inr (), d') \<longrightarrow> sai_status sai d' = SAI_STATUS_SUCCESS \<longrightarrow>
        members d' = (\<lambda>v. members d v - {i}))"

lemma call_dev_run: "call_dev m b = (r, c) \<Longrightarrow> m (b_dev b) = (r, b_dev c)"
  by (auto simp: on_test_def on_helper_def on_obj_def on_dev_def b_dev_def split: prod.splits)

lemma b_assert_status_run: "b_assert_status sai b = (Inr u, c) \<Longrightarrow> c = b \<and> sai_status sai (b_dev b) = SAI_STATUS_SUCCESS"
  by (cases b) (auto simp: b_assert_status_def on_test_def on_helper_def on_obj_def assert_status_def b_dev_def split: if_splits)

lemma remove_vlan_members_run:
  assumes "vlan_device sai members"
  shows "remove_vlan_members sai l b = (Inr (), c) \<Longrightarrow> members (b_dev c) = (\<lambda>v. members (b_dev b) v - set l)"
proof (induction l arbitrary: b)
  case (Cons i l)
  obtain d where d: "call_dev (sai_remove sai ''vlan_member'' (VInt i)) b = (Inr (), d)"
    and s: "sai_status sai (b_dev d) = SAI_STATUS_SUCCESS" and l: "remove_vlan_members sai l d = (Inr (), c)"
    using Cons.prems by (auto simp: remove_vlan_members_def thenP_eq_Inr dest: b_assert_status_run)
  have "members (b_dev d) = (\<lambda>v. members (b_dev b) v - {i})"
    using assms call_dev_run [OF d] s by (simp add: vlan_device_def)
  then show ?case using Cons.IH [OF l] by auto
qed (simp add: remove_vlan_members_def)

lemma idlist_Inr: "idlist v = Inr l \<longleftrightarrow> v = VList l"
  by (cases v) (simp_all add: idlist_def)

text \<open>C26 (functional). When the removal of the default VLAN returns, the VLAN has no members left, and the other VLANs
  have lost none of theirs but those. Only for the target \<open>bmv2\<close> nothing is done.\<close>

theorem default_vlan_emptied:
  assumes "vlan_device sai members" "remove_default_vlan sai b = (Inr (), c)"
    and "map_of (b_test_params b) ''target'' \<noteq> Some ''bmv2''"
  shows "members (b_dev c) = (\<lambda>v. members (b_dev b) v - members (b_dev b) (b_default_vlan_id b))"
proof -
  obtain l d where l: "get_vlan_member sai (b_default_vlan_id b) b = (Inr l, d)" and c: "remove_vlan_members sai l d = (Inr (), c)"
    using assms(2,3) by (auto simp: remove_default_vlan_def bindP_eq_Inr)
  obtain r where r: "call_dev (sai_get sai ''vlan'' (b_default_vlan_id b) [(''member_list'', VNone),
      (''member_list.count'', VInt (t_system_port_no (h_obj (b_h b)) + t_active_ports_no (h_obj (b_h b))))]) b = (Inr r, d)"
    and a: "attr_at r ''SAI_VLAN_ATTR_MEMBER_LIST'' = Inr (VList l)"
    using l by (auto simp: get_vlan_member_def bindP_eq_Inr thenP_eq_Inr Let_def bindR_eq_Inr idlist_Inr
        dest!: b_assert_status_run)
  have "members (b_dev d) = members (b_dev b)" "set l = members (b_dev b) (b_default_vlan_id b)"
    using assms(1) call_dev_run [OF r] a unfolding vlan_device_def by blast+
  then show ?thesis using remove_vlan_members_run [OF assms(1) c] by simp
qed

definition vlan_client :: "int list sai_client" where
  "vlan_client = \<lparr>sai_create = (\<lambda>_ _ d. (Inr 1, d)),
     sai_remove = (\<lambda>ty i d. (Inr (), if ty = ''vlan_member'' then filter (\<lambda>x. VInt x \<noteq> i) d else d)),
     sai_get = (\<lambda>ty i _ d. (Inr (Some [(''SAI_VLAN_ATTR_MEMBER_LIST'', VList (if i = VInt 1 then d else []))]), d)),
     sai_set = (\<lambda>_ _ _ d. (Inr (), d)), sai_status = (\<lambda>_. SAI_STATUS_SUCCESS)\<rparr>"

definition vlan_base :: "int list \<Rightarrow> int list base" where
  "vlan_base d = (demo_base \<lparr>h_obj = \<lparr>t_dev = d, t_ports = [], t_attrs = [], t_interfaces = [], t_active_port_obj_list = [],
       t_def_bridge_port_list = [], t_default_1q_bridge = VNone, t_active_ports_no = 0, t_system_port_no = 0,
       t_ports_config = [], t_slept = 0\<rparr>,
     h_test_params = [], h_config = [], h_switch_id = None, h_cpu_port_hdl = VNone, h_cpu_port = None,
     h_default_trap_group = VNone, h_port_list = [], h_port_obj_list = [], h_port_id_list = [], h_get_port_id_list = None,
     h_host_intf_table_id = None, h_hostif_list = None, h_default_bridge_port_list = [], h_host_if_port_idx_map = [],
     h_host_if_name_list = [], h_ini_ports = None, h_ports_config = None\<rparr>)\<lparr>b_default_vlan_id := VInt 1\<rparr>"

theorem default_vlan_emptied_witness:
  "\<exists>c. remove_default_vlan vlan_client (vlan_base [4, 5]) = (Inr (), c) \<and> b_dev c = []"
proof -
  let ?m = "\<lambda>d v. if v = VInt 1 then set d else {}"
  have v: "vlan_device vlan_client ?m"
    by (auto simp: vlan_device_def vlan_client_def attr_at_def od_get_def fun_eq_iff)
  have s: "fst (remove_default_vlan vlan_client (vlan_base [4, 5])) = Inr ()"
    by (simp add: remove_default_vlan_def get_vlan_member_def remove_vlan_members_def vlan_client_def vlan_base_def demo_base_def
        on_test_def on_helper_def on_obj_def on_dev_def b_assert_status_def assert_status_def bindP_apply thenP_apply
        attr_at_def od_get_def idlist_def Let_def)
  then obtain c where c: "remove_default_vlan vlan_client (vlan_base [4, 5]) = (Inr (), c)" by (metis prod.collapse)
  have "?m (b_dev c) (VInt 1) = {}"
    using fun_cong [OF default_vlan_emptied [OF v c], of "VInt 1"] by (simp add: vlan_base_def demo_base_def b_dev_def)
  then show ?thesis using c by simp
qed

end
