(* ===== verification/PtfTopology.thy ===== *)
theory PtfTopology
  imports PtfBase "HOL-Library.Multiset"
begin

text \<open>
  The topology of the tests, the second half of \<open>ptf/sai_base_test.py\<close>: the mixin that makes bridge
  ports, LAGs, VLANs and router interfaces and removes them (\<open>SaiHelperUtilsMixin\<close>), the classes
  that use it (\<open>SaiHelper\<close>, \<open>SaiHelperSimplified\<close>) and \<open>MinimalPortVlanConfig\<close>. The objects a class has
  made are recorded in lists, and \<open>tearDown\<close> removes what the lists hold.
\<close>

section \<open>Constants and attributes\<close>

definition SAI_VLAN_TAGGING_MODE_UNTAGGED :: int where "SAI_VLAN_TAGGING_MODE_UNTAGGED = 0"
definition SAI_VLAN_TAGGING_MODE_TAGGED :: int where "SAI_VLAN_TAGGING_MODE_TAGGED = 1"
definition SAI_ROUTER_INTERFACE_TYPE_PORT :: int where "SAI_ROUTER_INTERFACE_TYPE_PORT = 0"
definition SAI_ROUTER_INTERFACE_TYPE_VLAN :: int where "SAI_ROUTER_INTERFACE_TYPE_VLAN = 1"
definition SAI_PACKET_ACTION_DROP :: int where "SAI_PACKET_ACTION_DROP = 0"

definition lag_attr :: "nat \<Rightarrow> string" where "lag_attr i = ''lag'' @ str_of_nat i"
definition lag_bp_attr :: "nat \<Rightarrow> string" where "lag_bp_attr i = ''lag'' @ str_of_nat i @ ''_bp''"
definition lag_member_attr :: "nat \<Rightarrow> nat \<Rightarrow> string" where
  "lag_member_attr i j = ''lag'' @ str_of_nat i @ ''_member'' @ str_of_nat j"
definition vlan_attr :: "nat \<Rightarrow> string" where "vlan_attr i = ''vlan'' @ str_of_nat i"
definition vlan_member_attr :: "nat \<Rightarrow> nat \<Rightarrow> string" where
  "vlan_member_attr i j = ''vlan'' @ str_of_nat i @ ''_member'' @ str_of_nat j"
definition rif_attr :: "string \<Rightarrow> string" where "rif_attr k = k @ ''_rif''"

text \<open>A missing attribute: \<open>SaiHelper\<close> has Python's rule; the \<open>__getattr__\<close> of \<open>SaiHelperSimplified\<close> skips
  the test for a port, and for anything else returns nothing, which reads as \<open>None\<close>.\<close>

type_synonym missing = "string \<Rightarrow> sai_val res"

definition helper_missing :: missing where "helper_missing k = Inl AttributeError"

definition simplified_missing :: missing where
  "simplified_missing k = (if prefix ''port'' k \<and> drop 4 k \<noteq> [] \<and> list_all is_digit (drop 4 k) then Inl SkipTest else Inr VNone)"

definition getattr :: "missing \<Rightarrow> string \<Rightarrow> ('d base, sai_val) py" where
  "getattr miss k = bindP getP (\<lambda>b. liftP (case map_of (b_attrs b) k of Some v \<Rightarrow> Inr v | None \<Rightarrow> miss k))"

definition setattr :: "string \<Rightarrow> int \<Rightarrow> ('d base, unit) py" where
  "setattr k i = on_test (set_attr k (VInt i))"

definition add_bridge_port :: "int \<Rightarrow> ('d base, unit) py" where
  "add_bridge_port i = on_test (modP (\<lambda>s. s\<lparr>t_def_bridge_port_list := t_def_bridge_port_list s @ [i]\<rparr>))"

section \<open>Bridge ports\<close>

definition make_bridge_port :: "'d sai_client \<Rightarrow> sai_val \<Rightarrow> ('d base, int) py" where
  "make_bridge_port sai port_id = bindP getP (\<lambda>b.
     call_dev (sai_create sai ''bridge_port'' [(''bridge_id'', t_default_1q_bridge (h_obj (b_h b))), (''port_id'', port_id),
       (''type'', VInt SAI_BRIDGE_PORT_TYPE_PORT), (''admin_state'', VBool True)]))"

definition bridge_port_step :: "'d sai_client \<Rightarrow> missing \<Rightarrow> nat \<Rightarrow> ('d base, unit) py" where
  "bridge_port_step sai miss port_index =
     bindP (getattr miss (port_attr port_index)) (\<lambda>port_id.
     bindP (make_bridge_port sai port_id) (\<lambda>port_bp.
     thenP (b_assert_status sai)
     (thenP (setattr (bp_attr port_index) port_bp) (add_bridge_port port_bp))))"

text \<open>No list, and an empty one, stand for all ports.\<close>

definition mixin_create_bridge_ports :: "'d sai_client \<Rightarrow> missing \<Rightarrow> nat list option \<Rightarrow> ('d base, unit) py" where
  "mixin_create_bridge_ports sai miss ports = bindP getP (\<lambda>b.
     forP (case ports of Some (p # ps) \<Rightarrow> p # ps | _ \<Rightarrow> [0..<length (h_port_list (b_h b))]) (bridge_port_step sai miss))"

definition remove_all :: "'d sai_client \<Rightarrow> string \<Rightarrow> int list \<Rightarrow> ('d base, unit) py" where
  "remove_all sai ty ids = forP ids (\<lambda>i. call_dev (sai_remove sai ty (VInt i)))"

definition destroy_bridge_ports :: "'d sai_client \<Rightarrow> ('d base, unit) py" where
  "destroy_bridge_ports sai = bindP getP (\<lambda>b. remove_all sai ''bridge_port'' (t_def_bridge_port_list (h_obj (b_h b))))"

section \<open>LAGs\<close>

definition lag_member_step :: "'d sai_client \<Rightarrow> missing \<Rightarrow> nat \<Rightarrow> int \<Rightarrow> nat \<Rightarrow> ('d base, unit) py" where
  "lag_member_step sai miss lag_index lag_id member_index =
     bindP (getattr miss (port_attr member_index)) (\<lambda>port_id.
     bindP (call_dev (sai_create sai ''lag_member'' [(''lag_id'', VInt lag_id), (''port_id'', port_id)])) (\<lambda>lag_member.
     thenP (setattr (lag_member_attr lag_index member_index) lag_member)
     (modP (\<lambda>b. b\<lparr>b_def_lag_member_list := b_def_lag_member_list b @ [lag_member]\<rparr>))))"

definition create_lag_with_members :: "'d sai_client \<Rightarrow> missing \<Rightarrow> nat \<Rightarrow> nat list \<Rightarrow> ('d base, unit) py" where
  "create_lag_with_members sai miss lag_index ports =
     bindP (call_dev (sai_create sai ''lag'' [])) (\<lambda>lag_id.
     thenP (setattr (lag_attr lag_index) lag_id)
     (thenP (b_assert_status sai)
     (thenP (modP (\<lambda>b. b\<lparr>b_def_lag_list := b_def_lag_list b @ [lag_id]\<rparr>))
     (bindP (make_bridge_port sai (VInt lag_id)) (\<lambda>lag_bp.
     thenP (setattr (lag_bp_attr lag_index) lag_bp)
     (thenP (b_assert_status sai)
     (thenP (add_bridge_port lag_bp)
     (forP ports (lag_member_step sai miss lag_index lag_id)))))))))"

definition destroy_lags_with_members :: "'d sai_client \<Rightarrow> ('d base, unit) py" where
  "destroy_lags_with_members sai = bindP getP (\<lambda>b.
     thenP (remove_all sai ''lag_member'' (b_def_lag_member_list b)) (remove_all sai ''lag'' (b_def_lag_list b)))"

section \<open>VLANs\<close>

definition tag_mode :: "string \<Rightarrow> int" where
  "tag_mode tag = (if tag = ''tagged'' then SAI_VLAN_TAGGING_MODE_TAGGED else SAI_VLAN_TAGGING_MODE_UNTAGGED)"

definition vlan_member_step :: "'d sai_client \<Rightarrow> nat \<Rightarrow> int \<Rightarrow> nat \<times> sai_val \<times> string \<Rightarrow> ('d base, unit) py" where
  "vlan_member_step sai vlan_index vlan_id m = (case m of (idx, member, tag) \<Rightarrow>
     bindP (call_dev (sai_create sai ''vlan_member''
       [(''vlan_id'', VInt vlan_id), (''bridge_port_id'', member), (''vlan_tagging_mode'', VInt (tag_mode tag))])) (\<lambda>vlan_member_id.
     thenP (setattr (vlan_member_attr vlan_index idx) vlan_member_id)
     (modP (\<lambda>b. b\<lparr>b_def_vlan_member_list := b_def_vlan_member_list b @ [vlan_member_id]\<rparr>))))"

definition create_vlan_with_members :: "'d sai_client \<Rightarrow> nat \<Rightarrow> (sai_val, string) odict \<Rightarrow> ('d base, unit) py" where
  "create_vlan_with_members sai vlan_index members =
     bindP (call_dev (sai_create sai ''vlan'' [(''vlan_id'', VInt (int vlan_index))])) (\<lambda>vlan_id.
     thenP (setattr (vlan_attr vlan_index) vlan_id)
     (thenP (b_assert_status sai)
     (thenP (modP (\<lambda>b. b\<lparr>b_def_vlan_list := b_def_vlan_list b @ [vlan_id]\<rparr>))
     (forP (zip [0..<length members] members) (vlan_member_step sai vlan_index vlan_id)))))"

definition destroy_vlans_with_members :: "'d sai_client \<Rightarrow> ('d base, unit) py" where
  "destroy_vlans_with_members sai = bindP getP (\<lambda>b.
     thenP (remove_all sai ''vlan_member'' (b_def_vlan_member_list b)) (remove_all sai ''vlan'' (b_def_vlan_list b)))"

section \<open>Router interfaces\<close>

definition rif_step :: "'d sai_client \<Rightarrow> missing \<Rightarrow> int \<Rightarrow> string \<Rightarrow> string \<Rightarrow> ('d base, unit) py" where
  "rif_step sai miss ty key k =
     bindP (getattr miss k) (\<lambda>id.
     bindP getP (\<lambda>b.
     bindP (call_dev (sai_create sai ''router_interface''
       [(''type'', VInt ty), (''virtual_router_id'', b_default_vrf b), (key, id)])) (\<lambda>rif.
     thenP (b_assert_status sai)
     (thenP (setattr (rif_attr k) rif)
     (modP (\<lambda>b. b\<lparr>b_def_rif_list := b_def_rif_list b @ [rif]\<rparr>))))))"

definition create_routing_interfaces ::
  "'d sai_client \<Rightarrow> missing \<Rightarrow> nat list option \<Rightarrow> nat list option \<Rightarrow> nat list option \<Rightarrow> ('d base, unit) py" where
  "create_routing_interfaces sai miss vlans lags ports =
     thenP (forP (case vlans of None \<Rightarrow> [] | Some l \<Rightarrow> l) (\<lambda>vlan. rif_step sai miss SAI_ROUTER_INTERFACE_TYPE_VLAN ''vlan_id'' (vlan_attr vlan)))
     (thenP (forP (case lags of None \<Rightarrow> [] | Some l \<Rightarrow> l) (\<lambda>lag. rif_step sai miss SAI_ROUTER_INTERFACE_TYPE_PORT ''port_id'' (lag_attr lag)))
     (forP (case ports of None \<Rightarrow> [] | Some l \<Rightarrow> l) (\<lambda>port. rif_step sai miss SAI_ROUTER_INTERFACE_TYPE_PORT ''port_id'' (port_attr port))))"

definition destroy_routing_interfaces :: "'d sai_client \<Rightarrow> ('d base, unit) py" where
  "destroy_routing_interfaces sai = bindP getP (\<lambda>b. remove_all sai ''router_interface'' (b_def_rif_list b))"


section \<open>The classes\<close>

definition reset_lists :: "('d base, unit) py" where
  "reset_lists = thenP (on_test (modP (\<lambda>s. s\<lparr>t_def_bridge_port_list := []\<rparr>)))
     (modP (\<lambda>b. b\<lparr>b_def_lag_list := [], b_def_lag_member_list := [], b_def_vlan_list := [],
        b_def_vlan_member_list := [], b_def_rif_list := []\<rparr>))"

text \<open>\<open>port_vlan_id\<close> of the object in an attribute.\<close>

definition set_pvid :: "'d sai_client \<Rightarrow> string \<Rightarrow> string \<Rightarrow> int \<Rightarrow> ('d base, unit) py" where
  "set_pvid sai ty k n = bindP (getattr helper_missing k) (\<lambda>id.
     call_dev (sai_set sai ty id [(''port_vlan_id'', VInt n)]))"

text \<open>A VLAN with its members, each the bridge port in an attribute and its tagging; a dictionary keeps
  the first place and the last value of a key.\<close>

definition helper_vlan :: "'d sai_client \<Rightarrow> nat \<Rightarrow> (string \<times> string) list \<Rightarrow> ('d base, unit) py" where
  "helper_vlan sai vlan_index ms =
     bindP (mapP ms (\<lambda>(k, tag). bindP (getattr helper_missing k) (\<lambda>bp. retP (bp, tag)))) (\<lambda>items.
     create_vlan_with_members sai vlan_index (foldl (\<lambda>d (bp, tag). AList.update bp tag d) [] items))"

definition DEFAULT_IP_V4_PREFIX :: string where "DEFAULT_IP_V4_PREFIX = ''0.0.0.0/0''"
definition DEFAULT_IP_V6_PREFIX :: string where "DEFAULT_IP_V6_PREFIX = ''0000:0000:0000:0000:0000:0000:0000:0000''"

definition addr_arg :: "string \<Rightarrow> ip_addr_t \<Rightarrow> string \<times> sai_val" where
  "addr_arg k a = (case a of Ip4 s \<Rightarrow> (k @ ''.ip4'', VStr s) | Ip6 s \<Rightarrow> (k @ ''.ip6'', VStr s))"

definition prefix_args :: "ip_prefix_t \<Rightarrow> sai_args" where
  "prefix_args p = [(''destination.addr_family'', VInt (case ip_family_of p of FamilyV4 \<Rightarrow> 0 | FamilyV6 \<Rightarrow> 1)),
     addr_arg ''destination.addr'' (ip_addr p), addr_arg ''destination.mask'' (ip_mask p)]"

definition create_drop_route :: "'d sai_client \<Rightarrow> ip_prefix_t option \<Rightarrow> ('d base, unit) py" where
  "create_drop_route sai p = bindP getP (\<lambda>b.
     bindP (call_dev (sai_create sai ''route_entry'' ([(''vr_id'', b_default_vrf b)]
       @ (case p of Some q \<Rightarrow> prefix_args q | None \<Rightarrow> [(''destination'', VNone)])
       @ [(''packet_action'', VInt SAI_PACKET_ACTION_DROP)]))) (\<lambda>_.
     b_assert_status sai))"

text \<open>The two entries are also kept in attributes, which no method of the class reads.\<close>

definition create_default_v4_v6_route_entry :: "'d sai_client \<Rightarrow> ('d base, unit) py" where
  "create_default_v4_v6_route_entry sai =
     thenP (create_drop_route sai (Some \<lparr>ip_family_of = FamilyV6, ip_addr = Ip6 DEFAULT_IP_V6_PREFIX,
        ip_mask = Ip6 DEFAULT_IP_V6_PREFIX\<rparr>))
     (bindP (liftP (sai_ipprefix DEFAULT_IP_V4_PREFIX)) (create_drop_route sai))"

definition helper_topology :: "'d sai_client \<Rightarrow> ('d base, unit) py" where
  "helper_topology sai =
     thenP reset_lists
     (thenP (mixin_create_bridge_ports sai helper_missing (Some [0, 1, 2, 3, 20, 21]))
     (thenP (create_lag_with_members sai helper_missing 1 [4, 5, 6])
     (thenP (create_lag_with_members sai helper_missing 2 [7, 8, 9])
     (thenP (create_lag_with_members sai helper_missing 3 [14, 15, 16])
     (thenP (create_lag_with_members sai helper_missing 4 [17, 18, 19])
     (thenP (create_lag_with_members sai helper_missing 5 [22, 23])
     (thenP (helper_vlan sai 10 [(bp_attr 0, ''untagged''), (bp_attr 1, ''tagged''), (lag_bp_attr 1, ''untagged'')])
     (thenP (helper_vlan sai 20 [(bp_attr 2, ''untagged''), (bp_attr 3, ''tagged''), (lag_bp_attr 2, ''untagged'')])
     (thenP (helper_vlan sai 30 [(bp_attr 20, ''untagged''), (bp_attr 21, ''tagged''), (lag_bp_attr 5, ''untagged'')])
     (thenP (set_pvid sai ''port'' (port_attr 0) 10)
     (thenP (set_pvid sai ''lag'' (lag_attr 1) 10)
     (thenP (set_pvid sai ''port'' (port_attr 2) 20)
     (thenP (create_routing_interfaces sai helper_missing (Some [30]) None None)
     (thenP (create_routing_interfaces sai helper_missing None (Some [3, 4]) None)
     (thenP (create_routing_interfaces sai helper_missing None None (Some [10, 11, 12, 13]))
     (create_default_v4_v6_route_entry sai))))))))))))))))"

definition SaiHelper_setUp :: "'d sai_client \<Rightarrow> ('d base, unit) py \<Rightarrow> ('d base, unit) py" where
  "SaiHelper_setUp sai super_setUp = thenP super_setUp (helper_topology sai)"

definition release_topology :: "'d sai_client \<Rightarrow> ('d base, unit) py" where
  "release_topology sai =
     thenP (destroy_routing_interfaces sai)
     (thenP (destroy_vlans_with_members sai)
     (thenP (destroy_bridge_ports sai)
     (destroy_lags_with_members sai)))"

definition SaiHelper_tearDown :: "'d sai_client \<Rightarrow> ('d base, unit) py \<Rightarrow> ('d base, unit) py" where
  "SaiHelper_tearDown sai super_tearDown =
     thenP (set_pvid sai ''port'' (port_attr 2) 0)
     (thenP (set_pvid sai ''lag'' (lag_attr 1) 0)
     (thenP (set_pvid sai ''port'' (port_attr 0) 0)
     (thenP (release_topology sai) super_tearDown)))"

definition SaiHelperSimplified_setUp :: "('d base, unit) py \<Rightarrow> ('d base, unit) py" where
  "SaiHelperSimplified_setUp super_setUp = thenP super_setUp reset_lists"

definition SaiHelperSimplified_tearDown :: "('d base, unit) py \<Rightarrow> ('d base, unit) py" where
  "SaiHelperSimplified_tearDown super_tearDown = super_tearDown"

section \<open>Ports in one VLAN\<close>

text \<open>\<open>MinimalPortVlanConfig\<close>: the number of ports and the VLAN are arguments of the constructor.\<close>

definition minimal_bridge_port :: "'d sai_client \<Rightarrow> sai_val \<Rightarrow> ('d base, unit) py" where
  "minimal_bridge_port sai port = bindP (make_bridge_port sai port) (\<lambda>bp.
     thenP (b_assert_status sai) (add_bridge_port bp))"

definition minimal_vlan_member :: "'d sai_client \<Rightarrow> int \<Rightarrow> int \<Rightarrow> ('d base, unit) py" where
  "minimal_vlan_member sai vlan bridge_port =
     bindP (call_dev (sai_create sai ''vlan_member''
       [(''vlan_id'', VInt vlan), (''bridge_port_id'', VInt bridge_port),
        (''vlan_tagging_mode'', VInt SAI_VLAN_TAGGING_MODE_UNTAGGED)])) (\<lambda>vm.
     thenP (b_assert_status sai)
     (modP (\<lambda>b. b\<lparr>b_def_vlan_member_list := b_def_vlan_member_list b @ [vm]\<rparr>)))"

definition minimal_setUp :: "'d sai_client \<Rightarrow> ('d base, unit) py \<Rightarrow> int \<Rightarrow> int \<Rightarrow> ('d base, unit) py" where
  "minimal_setUp sai super_setUp port_num vlan_id =
     thenP super_setUp
     (bindP getP (\<lambda>b.
     if port_num > t_active_ports_no (h_obj (b_h b)) then raiseP ValueError
     else thenP (on_test (modP (\<lambda>s. s\<lparr>t_def_bridge_port_list := []\<rparr>)))
     (thenP (modP (\<lambda>b. b\<lparr>b_def_vlan_member_list := []\<rparr>))
     (thenP (forP (h_port_list (b_h b)) (minimal_bridge_port sai))
     (bindP (call_dev (sai_create sai ''vlan'' [(''vlan_id'', VInt vlan_id)])) (\<lambda>vlan.
     thenP (setattr ''vlan'' vlan)
     (thenP (b_assert_status sai)
     (bindP getP (\<lambda>c.
     thenP (forP (t_def_bridge_port_list (h_obj (b_h c))) (minimal_vlan_member sai vlan))
     (forP (h_port_list (b_h c)) (\<lambda>port.
       thenP (call_dev (sai_set sai ''port'' port [(''port_vlan_id'', VInt vlan_id)])) (b_assert_status sai))))))))))))"

definition minimal_tearDown :: "'d sai_client \<Rightarrow> ('d base, unit) py \<Rightarrow> ('d base, unit) py" where
  "minimal_tearDown sai super_tearDown = bindP getP (\<lambda>b.
     thenP (forP (h_port_list (b_h b)) (\<lambda>port. call_dev (sai_set sai ''port'' port [(''port_vlan_id'', VInt 0)])))
     (thenP (remove_all sai ''vlan_member'' (b_def_vlan_member_list b))
     (bindP (getattr helper_missing ''vlan'') (\<lambda>vlan.
     thenP (call_dev (sai_remove sai ''vlan'' vlan))
     (thenP (remove_all sai ''bridge_port'' (t_def_bridge_port_list (h_obj (b_h b)))) super_tearDown)))))"


section \<open>What the topology adds and removes\<close>

text \<open>What is relied on of the device, as the headers state it. Every object has a type; a creation that
  succeeds gives a new object, refers to objects of the types the attribute allows, and no failing
  call changes anything. An object that another one refers to is not removed; any other is. The
  object 0 is none. The remaining calls change neither the objects nor their references.\<close>

definition refers :: "string \<Rightarrow> (string \<times> string list) list" where
  "refers ty =
     (if ty = ''bridge_port'' then [(''bridge_id'', [''bridge'']), (''port_id'', [''port'', ''lag''])]
      else if ty = ''lag_member'' then [(''lag_id'', [''lag'']), (''port_id'', [''port''])]
      else if ty = ''vlan_member'' then [(''vlan_id'', [''vlan'']), (''bridge_port_id'', [''bridge_port''])]
      else if ty = ''router_interface'' then [(''virtual_router_id'', [''virtual_router'']), (''vlan_id'', [''vlan'']),
        (''port_id'', [''port'', ''lag''])]
      else [])"

definition refs :: "string \<Rightarrow> sai_args \<Rightarrow> int set" where
  "refs ty a = {i. \<exists>k tys. (k, VInt i) \<in> set a \<and> (k, tys) \<in> set (refers ty)}"

definition well_typed :: "(int \<Rightarrow> string option) \<Rightarrow> string \<Rightarrow> sai_args \<Rightarrow> bool" where
  "well_typed objs ty a \<longleftrightarrow> (\<forall>k i tys. (k, VInt i) \<in> set a \<longrightarrow> (k, tys) \<in> set (refers ty) \<longrightarrow>
     (\<exists>t \<in> set tys. objs i = Some t))"

text \<open>The order in which the types are removed.\<close>

definition topo_types :: "string list" where
  "topo_types = [''lag'', ''lag_member'', ''bridge_port'', ''vlan'', ''vlan_member'', ''router_interface'']"

definition rank :: "string \<Rightarrow> nat" where
  "rank ty = (case map_of (zip topo_types [0..<6]) ty of Some n \<Rightarrow> n | None \<Rightarrow> 0)"

definition topo_creates :: "'d sai_client \<Rightarrow> ('d \<Rightarrow> int \<Rightarrow> string option) \<Rightarrow> ('d \<Rightarrow> (int \<times> int) set) \<Rightarrow> bool" where
  "topo_creates sai objs uses \<longleftrightarrow> (\<forall>ty a d r d'. ty \<in> set topo_types \<longrightarrow> sai_create sai ty a d = (r, d') \<longrightarrow>
     (case r of Inl _ \<Rightarrow> objs d' = objs d \<and> uses d' = uses d
      | Inr i \<Rightarrow> if i = 0 then objs d' = objs d \<and> uses d' = uses d
         else objs d i = None \<and> well_typed (objs d) ty a \<and> objs d' = (objs d)(i \<mapsto> ty) \<and> uses d' = uses d \<union> {i} \<times> refs ty a))"

definition topo_removes :: "'d sai_client \<Rightarrow> ('d \<Rightarrow> int \<Rightarrow> string option) \<Rightarrow> ('d \<Rightarrow> (int \<times> int) set) \<Rightarrow> bool" where
  "topo_removes sai objs uses \<longleftrightarrow> (\<forall>ty i d r d'. sai_remove sai ty (VInt i) d = (r, d') \<longrightarrow>
     (if objs d i = Some ty \<and> i \<notin> snd ` uses d
      then r = Inr () \<and> objs d' = (objs d)(i := None) \<and> uses d' = uses d - {i} \<times> UNIV
      else objs d' = objs d \<and> uses d' = uses d \<and> (objs d i = None \<longrightarrow> r = Inr ())))"

definition topo_device :: "'d sai_client \<Rightarrow> ('d \<Rightarrow> int \<Rightarrow> string option) \<Rightarrow> ('d \<Rightarrow> (int \<times> int) set) \<Rightarrow> bool" where
  "topo_device sai objs uses \<longleftrightarrow> topo_creates sai objs uses \<and> topo_removes sai objs uses
     \<and> (\<forall>a d. objs (snd (sai_create sai ''route_entry'' a d)) = objs d \<and> uses (snd (sai_create sai ''route_entry'' a d)) = uses d)
     \<and> (\<forall>ty v a d. fst (sai_set sai ty v a d) = Inr () \<and> objs (snd (sai_set sai ty v a d)) = objs d
          \<and> uses (snd (sai_set sai ty v a d)) = uses d)"

text \<open>The objects of the device are those from before and, all different, the ones in \<open>l\<close>, whose
  references among themselves go down in rank.\<close>

definition dev_owns :: "(int \<Rightarrow> string option) \<Rightarrow> (int \<times> int) set \<Rightarrow> (int \<times> string) list
    \<Rightarrow> (int \<Rightarrow> string option) \<Rightarrow> (int \<times> int) set \<Rightarrow> bool" where
  "dev_owns O1 U l objs uses \<longleftrightarrow> distinct (map fst l) \<and> 0 \<notin> fst ` set l \<and> O1 0 = None \<and> fst ` set l \<inter> dom O1 = {}
     \<and> objs = (O1 ++ map_of l) \<and> U \<subseteq> dom O1 \<times> dom O1 \<and> U = {p \<in> uses. fst p \<notin> fst ` set l}
     \<and> (\<forall>i t j u. (i, t) \<in> set l \<longrightarrow> (j, u) \<in> set l \<longrightarrow> (i, j) \<in> uses \<longrightarrow> rank u < rank t)
     \<and> snd ` uses \<subseteq> dom objs"

lemma dev_owns_perm: "mset l = mset l' \<Longrightarrow> dev_owns O1 U l objs uses \<longleftrightarrow> dev_owns O1 U l' objs uses"
proof -
  assume m: "mset l = mset l'"
  have s: "set l = set l'" using m by (rule mset_eq_setD)
  have d: "distinct (map fst l) \<longleftrightarrow> distinct (map fst l')" using m by (metis mset_eq_imp_distinct_iff mset_map)
  have "distinct (map fst l') \<Longrightarrow> map_of l = map_of l'"
  proof
    fix x assume "distinct (map fst l')"
    then have "map_of l x = Some y \<longleftrightarrow> map_of l' x = Some y" for y using d s by simp
    then show "map_of l x = map_of l' x" by (cases "map_of l' x") (auto simp del: map_of_eq_Some_iff)
  qed
  then show ?thesis unfolding dev_owns_def d s by auto
qed

lemma rank_rules:
  assumes "(k, tys) \<in> set (refers ty)" "t \<in> set tys" shows "rank t < rank ty"
proof -
  have r: "rank ''lag'' = 0" "rank ''lag_member'' = 1" "rank ''bridge_port'' = 2" "rank ''vlan'' = 3" "rank ''vlan_member'' = 4"
    "rank ''router_interface'' = 5" "rank ''port'' = 0" "rank ''bridge'' = 0" "rank ''virtual_router'' = 0"
    by (simp_all add: rank_def topo_types_def upt_conv_Cons)
  have "ty \<in> {''bridge_port'', ''lag_member'', ''vlan_member'', ''router_interface''}"
    using assms(1) by (simp add: refers_def split: if_splits)
  then show ?thesis using assms by (elim insertE) (auto simp: refers_def r)
qed

lemma dev_owns_create:
  assumes "topo_device sai objs uses" "ty \<in> set topo_types" "sai_create sai ty a d = (Inr i, d')"
    and "dev_owns O1 U l (objs d) (uses d)"
  shows "dev_owns O1 U (if i = 0 then l else (i, ty) # l) (objs d') (uses d')"
proof (cases "i = 0")
  case True
  then show ?thesis using assms by (force simp: topo_device_def topo_creates_def)
next
  case False
  have n: "objs d i = None" "well_typed (objs d) ty a" "objs d' = (objs d)(i \<mapsto> ty)" "uses d' = uses d \<union> {i} \<times> refs ty a"
    using assms(1-3) False by (auto simp: topo_device_def topo_creates_def split: sum.splits)
  have o: "objs d = O1 ++ map_of l" "distinct (map fst l)" "fst ` set l \<inter> dom O1 = {}" "snd ` uses d \<subseteq> dom (objs d)"
    using assms(4) unfolding dev_owns_def by blast+
  have il: "i \<notin> fst ` set l" "i \<notin> dom O1" using n(1) by (auto simp: o(1) map_of_eq_None_iff)
  have iu: "i \<notin> snd ` uses d" using o(4) n(1) by auto
  have r: "j \<in> refs ty a \<Longrightarrow> objs d j \<noteq> None \<and> (\<forall>u. (j, u) \<in> set l \<longrightarrow> rank u < rank ty)" for j
  proof -
    assume "j \<in> refs ty a"
    then obtain k tys where k: "(k, VInt j) \<in> set a" "(k, tys) \<in> set (refers ty)" by (auto simp: refs_def)
    then obtain t where t: "t \<in> set tys" "objs d j = Some t" using k n(2) unfolding well_typed_def by blast
    have "rank u < rank ty" if "(j, u) \<in> set l" for u
    proof -
      have "map_of l j = Some u" using that o(2) by simp
      then have "u = t" using t(2) by (simp add: o(1))
      then show ?thesis using rank_rules [OF k(2) t(1)] by simp
    qed
    with t show ?thesis by simp
  qed
  have ni: "i \<notin> refs ty a" using r [of i] n(1) by auto
  have c9: "snd ` uses d' \<subseteq> dom (objs d')" using o(4) r unfolding n(3,4) by auto
  have c7: "U = {p \<in> uses d'. fst p \<notin> fst ` set ((i, ty) # l)}"
  proof -
    have "U \<subseteq> dom O1 \<times> dom O1" "U = {p \<in> uses d. fst p \<notin> fst ` set l}" using assms(4) unfolding dev_owns_def by blast+
    then show ?thesis using il(2) unfolding n(4) by auto
  qed
  have c8: "rank u < rank t" if "(x, t) \<in> set ((i, ty) # l)" "(y, u) \<in> set ((i, ty) # l)" "(x, y) \<in> uses d'" for x t y u
  proof -
    have "y \<noteq> i" using that(3) iu ni unfolding n(4) by force
    then have y: "(y, u) \<in> set l" using that(2) by simp
    show ?thesis
    proof (cases "x = i")
      case True
      then have "(x, t) = (i, ty)" using that(1) il(1) by force
      moreover have "y \<in> refs ty a"
      proof -
        have "U \<subseteq> dom O1 \<times> dom O1" "U = {p \<in> uses d. fst p \<notin> fst ` set l}" using assms(4) unfolding dev_owns_def by blast+
        note u = this
        have "(i, y) \<notin> uses d"
        proof
          assume "(i, y) \<in> uses d"
          then have "(i, y) \<in> U" using il(1) by (subst u(2)) simp
          then show False using u(1) il(2) by blast
        qed
        then show ?thesis using that(3) True unfolding n(4) by auto
      qed
      ultimately show ?thesis using r y by simp
    next
      case False
      then have "(x, t) \<in> set l" "(x, y) \<in> uses d" using that(1,3) unfolding n(4) by auto
      then show ?thesis using y assms(4) unfolding dev_owns_def by blast
    qed
  qed
  have z: "0 \<notin> fst ` set l" "O1 0 = None" "U \<subseteq> dom O1 \<times> dom O1" using assms(4) unfolding dev_owns_def by blast+
  have "objs d' = O1 ++ map_of ((i, ty) # l)" unfolding n(3) o(1) by simp
  moreover have "distinct (map fst ((i, ty) # l))" "0 \<notin> fst ` set ((i, ty) # l)" "fst ` set ((i, ty) # l) \<inter> dom O1 = {}"
    using o(2,3) il z(1) False by simp_all
  ultimately have "dev_owns O1 U ((i, ty) # l) (objs d') (uses d')"
    unfolding dev_owns_def using z(2,3) c7 c8 c9 by blast
  then show ?thesis using False by simp
qed


lemma dev_owns_remove:
  assumes "topo_device sai objs uses" "dev_owns O1 U ((i, ty) # l) (objs d) (uses d)"
    and "\<forall>t \<in> snd ` set l. rank t \<le> rank ty" "sai_remove sai ty (VInt i) d = (r, d')"
  shows "r = Inr () \<and> dev_owns O1 U l (objs d') (uses d')"
proof -
  note o = assms(2) [unfolded dev_owns_def]
  have d: "i \<notin> fst ` set l" "distinct (map fst l)" "i \<notin> dom O1" "objs d = O1 ++ map_of ((i, ty) # l)" using o by auto
  have u: "U \<subseteq> dom O1 \<times> dom O1" "U = {p \<in> uses d. fst p \<notin> fst ` set ((i, ty) # l)}" using o by blast+
  have rk: "(x, t) \<in> set ((i, ty) # l) \<Longrightarrow> (y, v) \<in> set ((i, ty) # l) \<Longrightarrow> (x, y) \<in> uses d \<Longrightarrow> rank v < rank t" for x t y v
    using o by blast
  have "i \<notin> snd ` uses d"
  proof
    assume "i \<in> snd ` uses d"
    then obtain x where x: "(x, i) \<in> uses d" by force
    have "x \<in> fst ` set ((i, ty) # l)"
    proof (rule ccontr)
      assume "x \<notin> fst ` set ((i, ty) # l)"
      then have "(x, i) \<in> U" using x by (subst u(2)) simp
      then show False using u(1) d(3) by blast
    qed
    then obtain t where t: "(x, t) \<in> set ((i, ty) # l)" by force
    have "rank ty < rank t" using rk [OF t _ x, of ty] by simp
    moreover have "rank t \<le> rank ty" using t assms(3) by force
    ultimately show False by simp
  qed
  moreover have "objs d i = Some ty" by (simp add: d(4))
  ultimately have n: "r = Inr ()" "objs d' = (objs d)(i := None)" "uses d' = uses d - {i} \<times> UNIV"
    using assms(1,4) unfolding topo_device_def topo_removes_def by auto
  have iu: "i \<notin> snd ` uses d'" using \<open>i \<notin> snd ` uses d\<close> unfolding n(3) by auto
  have c1: "distinct (map fst l)" "0 \<notin> fst ` set l" "O1 0 = None" "fst ` set l \<inter> dom O1 = {}" using o by auto
  have m: "map_of l i = None" "O1 i = None" using d(1,3) by (simp_all add: map_of_eq_None_iff domIff)
  have c2: "objs d' = O1 ++ map_of l" unfolding n(2) d(4) using m by (auto simp: fun_eq_iff map_add_def)
  have c3: "U = {p \<in> uses d'. fst p \<notin> fst ` set l}"
  proof -
    have "fst p \<noteq> i" if "p \<in> uses d'" for p using that unfolding n(3) by (cases p) auto
    then show ?thesis unfolding u(2) n(3) by auto
  qed
  have c4: "rank v < rank t" if "(x, t) \<in> set l" "(y, v) \<in> set l" "(x, y) \<in> uses d'" for x t y v
    using rk [of x t y v] that unfolding n(3) by simp
  have "snd ` uses d \<subseteq> dom (objs d)" using o by blast
  then have c5: "snd ` uses d' \<subseteq> dom (objs d')" using iu unfolding n(2,3) by auto
  show ?thesis using n(1) c1 c2 c3 c4 c5 u(1) unfolding dev_owns_def by blast
qed

text \<open>What the test records: its lists and attributes. A call of the client does not change it.\<close>

definition recorded :: "'d base \<Rightarrow> (string, sai_val) odict \<times> int list \<times> int list \<times> int list \<times> int list \<times> int list \<times> int list" where
  "recorded b = (b_attrs b, b_def_rif_list b, b_def_vlan_member_list b, b_def_vlan_list b,
     t_def_bridge_port_list (h_obj (b_h b)), b_def_lag_member_list b, b_def_lag_list b)"

lemma call_dev_recorded: "call_dev m b = (r, c) \<Longrightarrow> recorded c = recorded b"
  by (auto simp: on_test_def on_helper_def on_obj_def on_dev_def recorded_def b_attrs_def split: prod.splits)

definition real_ids :: "string \<Rightarrow> int list \<Rightarrow> (int \<times> string) list" where
  "real_ids ty ids = map (\<lambda>i. (i, ty)) (filter (\<lambda>i. i \<noteq> 0) ids)"

lemma real_ids_simps [simp]: "real_ids ty [] = []"
  "real_ids ty (i # ids) = (if i = 0 then real_ids ty ids else (i, ty) # real_ids ty ids)"
  "real_ids ty (a @ b) = real_ids ty a @ real_ids ty b"
  by (simp_all add: real_ids_def)

lemma real_ids_type: "t \<in> snd ` set (real_ids ty ids) \<Longrightarrow> t = ty"
  by (auto simp: real_ids_def)

lemma topo_remove_all_run:
  assumes "topo_device sai objs uses" "\<forall>t \<in> snd ` set l. rank t \<le> rank ty"
  shows "dev_owns O1 U (real_ids ty ids @ l) (objs (b_dev b)) (uses (b_dev b)) \<Longrightarrow>
    \<exists>c. remove_all sai ty ids b = (Inr (), c) \<and> recorded c = recorded b \<and> dev_owns O1 U l (objs (b_dev c)) (uses (b_dev c))"
proof (induction ids arbitrary: b)
  case Nil
  then show ?case by (simp add: remove_all_def)
next
  case (Cons i ids)
  obtain r e where e: "call_dev (sai_remove sai ty (VInt i)) b = (r, e)" by fastforce
  note run = call_dev_run [OF e]
  have "r = Inr () \<and> dev_owns O1 U (real_ids ty ids @ l) (objs (b_dev e)) (uses (b_dev e))"
  proof (cases "i = 0")
    case True
    have "objs (b_dev b) 0 = None"
      using Cons.prems by (auto simp: dev_owns_def map_add_def map_of_eq_None_iff split: option.splits)
    then have "r = Inr ()" "objs (b_dev e) = objs (b_dev b)" "uses (b_dev e) = uses (b_dev b)"
      using assms(1) run True unfolding topo_device_def topo_removes_def by auto
    then show ?thesis using Cons.prems True by simp
  next
    case False
    have "dev_owns O1 U ((i, ty) # real_ids ty ids @ l) (objs (b_dev b)) (uses (b_dev b))" using Cons.prems False by simp
    moreover have "\<forall>t \<in> snd ` set (real_ids ty ids @ l). rank t \<le> rank ty"
    proof
      fix t assume "t \<in> snd ` set (real_ids ty ids @ l)"
      then have "t \<in> snd ` set (real_ids ty ids) \<or> t \<in> snd ` set l" by auto
      then show "rank t \<le> rank ty" using assms(2) real_ids_type by blast
    qed
    ultimately show ?thesis using dev_owns_remove [OF assms(1) _ _ run] by blast
  qed
  then obtain c where "remove_all sai ty ids e = (Inr (), c)" "recorded c = recorded e" "dev_owns O1 U l (objs (b_dev c)) (uses (b_dev c))"
    using Cons.IH by blast
  then show ?case using e \<open>r = Inr () \<and> _\<close> call_dev_recorded [OF e] by (auto simp: remove_all_def thenP_apply)
qed

text \<open>The objects in the lists, in the order of their removal.\<close>

definition owned :: "'d base \<Rightarrow> (int \<times> string) list" where
  "owned b = real_ids ''router_interface'' (b_def_rif_list b) @ real_ids ''vlan_member'' (b_def_vlan_member_list b)
     @ real_ids ''vlan'' (b_def_vlan_list b) @ real_ids ''bridge_port'' (t_def_bridge_port_list (h_obj (b_h b)))
     @ real_ids ''lag_member'' (b_def_lag_member_list b) @ real_ids ''lag'' (b_def_lag_list b)"

lemma rank_values: "rank ''lag'' = 0" "rank ''lag_member'' = 1" "rank ''bridge_port'' = 2" "rank ''vlan'' = 3"
  "rank ''vlan_member'' = 4" "rank ''router_interface'' = 5"
  by (simp_all add: rank_def topo_types_def upt_conv_Cons)

lemma release_topology_run:
  assumes "topo_device sai objs uses" "dev_owns O1 U (owned b) (objs (b_dev b)) (uses (b_dev b))"
  shows "\<exists>c. release_topology sai b = (Inr (), c) \<and> dev_owns O1 U [] (objs (b_dev c)) (uses (b_dev c))"
proof -
  let ?own = "\<lambda>l c. dev_owns O1 U l (objs (b_dev c)) (uses (b_dev c))"
  let ?R = "b_def_rif_list b" let ?M = "b_def_vlan_member_list b" let ?V = "b_def_vlan_list b"
  let ?B = "t_def_bridge_port_list (h_obj (b_h b))" let ?K = "b_def_lag_member_list b" let ?L = "b_def_lag_list b"
  have ty: "\<forall>t \<in> snd ` set (real_ids ''lag'' ids). t = ''lag''" "\<forall>t \<in> snd ` set (real_ids ''lag_member'' ids). t = ''lag_member''"
    "\<forall>t \<in> snd ` set (real_ids ''bridge_port'' ids). t = ''bridge_port''" "\<forall>t \<in> snd ` set (real_ids ''vlan'' ids). t = ''vlan''"
    "\<forall>t \<in> snd ` set (real_ids ''vlan_member'' ids). t = ''vlan_member''" for ids using real_ids_type by blast+
  note ra = topo_remove_all_run [OF assms(1)]
  obtain c1 where c1: "remove_all sai ''router_interface'' ?R b = (Inr (), c1)" "recorded c1 = recorded b"
    "?own (real_ids ''vlan_member'' ?M @ real_ids ''vlan'' ?V @ real_ids ''bridge_port'' ?B @ real_ids ''lag_member'' ?K @ real_ids ''lag'' ?L) c1"
    using ra [OF _ assms(2) [unfolded owned_def]] ty by (auto simp: image_Un ball_Un rank_values)
  obtain c2 where c2: "remove_all sai ''vlan_member'' ?M c1 = (Inr (), c2)" "recorded c2 = recorded b"
    "?own (real_ids ''vlan'' ?V @ real_ids ''bridge_port'' ?B @ real_ids ''lag_member'' ?K @ real_ids ''lag'' ?L) c2"
    using ra [OF _ c1(3)] c1(2) ty by (auto simp: image_Un ball_Un rank_values)
  obtain c3 where c3: "remove_all sai ''vlan'' ?V c2 = (Inr (), c3)" "recorded c3 = recorded b"
    "?own (real_ids ''bridge_port'' ?B @ real_ids ''lag_member'' ?K @ real_ids ''lag'' ?L) c3"
    using ra [OF _ c2(3)] c2(2) ty by (auto simp: image_Un ball_Un rank_values)
  obtain c4 where c4: "remove_all sai ''bridge_port'' ?B c3 = (Inr (), c4)" "recorded c4 = recorded b"
    "?own (real_ids ''lag_member'' ?K @ real_ids ''lag'' ?L) c4"
    using ra [OF _ c3(3)] c3(2) ty by (auto simp: image_Un ball_Un rank_values)
  obtain c5 where c5: "remove_all sai ''lag_member'' ?K c4 = (Inr (), c5)" "recorded c5 = recorded b" "?own (real_ids ''lag'' ?L) c5"
    using ra [OF _ c4(3)] c4(2) ty by (auto simp: rank_values)
  obtain c6 where c6: "remove_all sai ''lag'' ?L c5 = (Inr (), c6)" "?own [] c6"
    using ra [of "[]" "''lag''" O1 U ?L c5] c5(3) by auto
  have l: "b_def_vlan_member_list c1 = ?M" "b_def_vlan_list c1 = ?V" "t_def_bridge_port_list (h_obj (b_h c3)) = ?B"
    "b_def_lag_member_list c4 = ?K" "b_def_lag_list c4 = ?L"
    using c1(2) c3(2) c4(2) by (simp_all add: recorded_def)
  show ?thesis using c6 c1(1) c2(1) c3(1) c4(1) c5(1)
    by (intro exI [of _ c6]) (simp add: release_topology_def destroy_routing_interfaces_def destroy_vlans_with_members_def
        destroy_bridge_ports_def destroy_lags_with_members_def bindP_apply thenP_apply l)
qed


text \<open>While the topology is built, the objects made are in the lists, but for the one in hand.\<close>

definition grown :: "('d \<Rightarrow> int \<Rightarrow> string option) \<Rightarrow> ('d \<Rightarrow> (int \<times> int) set) \<Rightarrow> (int \<Rightarrow> string option) \<Rightarrow> (int \<times> int) set
    \<Rightarrow> (int \<times> string) list \<Rightarrow> 'd base \<Rightarrow> bool" where
  "grown objs uses O1 U e b \<longleftrightarrow> dev_owns O1 U (e @ owned b) (objs (b_dev b)) (uses (b_dev b))"

definition builds :: "('d base \<Rightarrow> bool) \<Rightarrow> ('d base, 'a) py \<Rightarrow> ('a \<Rightarrow> 'd base \<Rightarrow> bool) \<Rightarrow> bool" where
  "builds P m Q \<longleftrightarrow> triple P m Q (\<lambda>_. True)"

named_theorems build_rules "rules for the statements that build the topology"

lemma builds_bind [build_rules]: "builds P m R \<Longrightarrow> (\<And>x. builds (R x) (f x) Q) \<Longrightarrow> builds P (bindP m f) Q"
  unfolding builds_def by (rule triple_bind)

lemma builds_then [build_rules]: "builds P m (\<lambda>_. R) \<Longrightarrow> builds R n Q \<Longrightarrow> builds P (thenP m n) Q"
  unfolding thenP_def by (rule builds_bind)

lemma builds_for [build_rules]: "(\<And>x. x \<in> set xs \<Longrightarrow> builds P (f x) (\<lambda>_. P)) \<Longrightarrow> builds P (forP xs f) (\<lambda>_. P)"
  unfolding builds_def by (rule triple_for)

lemma builds_same: "steps P m \<Longrightarrow> builds P m (\<lambda>_. P)"
  unfolding builds_def by (rule tripleI) (auto dest: stepsD split: sum.splits)

lemma builds_pure [build_rules]: "builds P getP (\<lambda>_. P)" "builds P (liftP r) (\<lambda>_. P)" "builds P (retP x) (\<lambda>_. P)"
  by (intro builds_same step_rules)+

lemma grown_same: "owned c = owned b \<Longrightarrow> b_dev c = b_dev b \<Longrightarrow> grown objs uses O1 U e b \<Longrightarrow> grown objs uses O1 U e c"
  by (simp add: grown_def)

lemma builds_getattr [build_rules]: "builds P (getattr miss k) (\<lambda>_. P)"
  unfolding getattr_def by (rule build_rules)+

lemma builds_setattr [build_rules]: "builds (grown objs uses O1 U e) (setattr k i) (\<lambda>_. grown objs uses O1 U e)"
  by (rule builds_same, rule stepsI, erule grown_same [rotated 2])
    (auto simp: setattr_def on_test_def on_helper_def on_obj_def set_attr_def owned_def b_dev_def)

lemma builds_status [build_rules]: "builds P (b_assert_status sai) (\<lambda>_. P)"
  by (rule builds_same, rule stepsI) (auto dest: b_assert_status_run)

lemma builds_create:
  assumes "topo_device sai objs uses" "ty \<in> set topo_types"
  shows "builds (grown objs uses O1 U []) (call_dev (sai_create sai ty a)) (\<lambda>i. grown objs uses O1 U (real_ids ty [i]))"
  unfolding builds_def
proof (rule tripleI)
  fix b c :: "'a base" and r assume g: "grown objs uses O1 U [] b" and c: "call_dev (sai_create sai ty a) b = (r, c)"
  have o: "owned c = owned b" using call_dev_recorded [OF c] by (simp add: recorded_def owned_def)
  show "case r of Inl e \<Rightarrow> True | Inr i \<Rightarrow> grown objs uses O1 U (real_ids ty [i]) c"
  proof (cases r)
    case (Inr i)
    then have "sai_create sai ty a (b_dev b) = (Inr i, b_dev c)" using call_dev_run [OF c] by simp
    from dev_owns_create [OF assms this, of O1 U "owned b"] g show ?thesis by (cases "i = 0") (simp_all add: grown_def o Inr)
  qed simp
qed

lemma grown_perm: "mset (e @ owned b) = mset (owned c) \<Longrightarrow> b_dev c = b_dev b \<Longrightarrow> grown objs uses O1 U e b \<Longrightarrow> grown objs uses O1 U [] c"
  unfolding grown_def using dev_owns_perm [of "e @ owned b" "owned c"] by simp

lemma builds_append:
  assumes "\<And>b. mset (e @ owned b) = mset (owned (f b))" "\<And>b. b_dev (f b) = b_dev b"
  shows "builds (grown objs uses O1 U e) (modP f) (\<lambda>_. grown objs uses O1 U [])"
  unfolding builds_def by (rule triple_mod) (rule grown_perm [OF assms])

lemma builds_lists:
  "builds (grown objs uses O1 U (real_ids ''lag'' [i])) (modP (\<lambda>b. b\<lparr>b_def_lag_list := b_def_lag_list b @ [i]\<rparr>)) (\<lambda>_. grown objs uses O1 U [])"
  "builds (grown objs uses O1 U (real_ids ''lag_member'' [i])) (modP (\<lambda>b. b\<lparr>b_def_lag_member_list := b_def_lag_member_list b @ [i]\<rparr>)) (\<lambda>_. grown objs uses O1 U [])"
  "builds (grown objs uses O1 U (real_ids ''vlan'' [i])) (modP (\<lambda>b. b\<lparr>b_def_vlan_list := b_def_vlan_list b @ [i]\<rparr>)) (\<lambda>_. grown objs uses O1 U [])"
  "builds (grown objs uses O1 U (real_ids ''vlan_member'' [i])) (modP (\<lambda>b. b\<lparr>b_def_vlan_member_list := b_def_vlan_member_list b @ [i]\<rparr>)) (\<lambda>_. grown objs uses O1 U [])"
  "builds (grown objs uses O1 U (real_ids ''router_interface'' [i])) (modP (\<lambda>b. b\<lparr>b_def_rif_list := b_def_rif_list b @ [i]\<rparr>)) (\<lambda>_. grown objs uses O1 U [])"
  by (rule builds_append; simp add: owned_def b_dev_def)+

lemma builds_add_bridge_port:
  "builds (grown objs uses O1 U (real_ids ''bridge_port'' [i])) (add_bridge_port i) (\<lambda>_. grown objs uses O1 U [])"
proof -
  have "add_bridge_port i = modP (\<lambda>b. b\<lparr>b_h := (b_h b)\<lparr>h_obj := (h_obj (b_h b))\<lparr>t_def_bridge_port_list :=
      t_def_bridge_port_list (h_obj (b_h b)) @ [i]\<rparr>\<rparr>\<rparr>)"
    by (auto simp: add_bridge_port_def on_test_def on_helper_def on_obj_def modP_def fun_eq_iff)
  note eq = this
  show ?thesis unfolding eq by (rule builds_append; simp add: owned_def b_dev_def)
qed

lemmas topo_intros = builds_lists builds_add_bridge_port build_rules

lemma topo_member: "''bridge_port'' \<in> set topo_types" "''lag'' \<in> set topo_types" "''lag_member'' \<in> set topo_types"
  "''vlan'' \<in> set topo_types" "''vlan_member'' \<in> set topo_types" "''router_interface'' \<in> set topo_types"
  by (simp_all add: topo_types_def)

lemma builds_steps:
  assumes "topo_device sai objs uses"
  shows "builds (grown objs uses O1 U []) (make_bridge_port sai v) (\<lambda>i. grown objs uses O1 U (real_ids ''bridge_port'' [i]))"
    and "builds (grown objs uses O1 U []) (bridge_port_step sai miss p) (\<lambda>_. grown objs uses O1 U [])"
    and "builds (grown objs uses O1 U []) (lag_member_step sai miss n l p) (\<lambda>_. grown objs uses O1 U [])"
    and "builds (grown objs uses O1 U []) (vlan_member_step sai n l m) (\<lambda>_. grown objs uses O1 U [])"
    and "builds (grown objs uses O1 U []) (rif_step sai miss y k z) (\<lambda>_. grown objs uses O1 U [])"
proof -
  note c = builds_create [OF assms topo_member(1)] builds_create [OF assms topo_member(3)]
    builds_create [OF assms topo_member(5)] builds_create [OF assms topo_member(6)]
  show m: "builds (grown objs uses O1 U []) (make_bridge_port sai v) (\<lambda>i. grown objs uses O1 U (real_ids ''bridge_port'' [i]))" for v
    unfolding make_bridge_port_def by (rule build_rules c)+
  show "builds (grown objs uses O1 U []) (bridge_port_step sai miss p) (\<lambda>_. grown objs uses O1 U [])"
    unfolding bridge_port_step_def by (rule m topo_intros)+
  show "builds (grown objs uses O1 U []) (lag_member_step sai miss n l p) (\<lambda>_. grown objs uses O1 U [])"
    unfolding lag_member_step_def by (rule c topo_intros)+
  show "builds (grown objs uses O1 U []) (vlan_member_step sai n l m) (\<lambda>_. grown objs uses O1 U [])"
    unfolding vlan_member_step_def by (cases m) (simp only: prod.case, (rule c topo_intros)+)
  show "builds (grown objs uses O1 U []) (rif_step sai miss y k z) (\<lambda>_. grown objs uses O1 U [])"
    unfolding rif_step_def by (rule c topo_intros)+
qed

lemma builds_objects:
  assumes "topo_device sai objs uses"
  shows "builds (grown objs uses O1 U []) (mixin_create_bridge_ports sai miss ps) (\<lambda>_. grown objs uses O1 U [])"
    and "builds (grown objs uses O1 U []) (create_lag_with_members sai miss n l) (\<lambda>_. grown objs uses O1 U [])"
    and "builds (grown objs uses O1 U []) (create_vlan_with_members sai n ms) (\<lambda>_. grown objs uses O1 U [])"
    and "builds (grown objs uses O1 U []) (create_routing_interfaces sai miss vs ls qs) (\<lambda>_. grown objs uses O1 U [])"
  unfolding mixin_create_bridge_ports_def create_lag_with_members_def create_vlan_with_members_def create_routing_interfaces_def
  by (rule topo_intros builds_steps [OF assms] builds_create [OF assms topo_member(2)] builds_create [OF assms topo_member(4)])+


lemma builds_reset:
  assumes "O1 = objs (b_dev b)" "O1 0 = None" "uses (b_dev b) \<subseteq> dom O1 \<times> dom O1"
  shows "builds (\<lambda>c. c = b) reset_lists (\<lambda>_. grown objs uses O1 (uses (b_dev b)) [])"
  unfolding builds_def
proof (rule tripleI)
  fix s t and r :: "unit res" assume s: "s = b" and t: "reset_lists s = (r, t)"
  have "owned t = []" "b_dev t = b_dev b"
    using s t by (auto simp: reset_lists_def on_test_def on_helper_def on_obj_def thenP_apply owned_def b_dev_def)
  moreover have "dev_owns O1 (uses (b_dev b)) [] (objs (b_dev b)) (uses (b_dev b))"
    using assms by (auto simp: dev_owns_def)
  ultimately show "case r of Inl e \<Rightarrow> True | Inr u \<Rightarrow> grown objs uses O1 (uses (b_dev b)) [] t"
    by (cases r) (simp_all add: grown_def)
qed

lemma builds_dev:
  assumes "\<And>d. objs (snd (m d)) = objs d \<and> uses (snd (m d)) = uses d"
  shows "builds (grown objs uses O1 U e) (call_dev m) (\<lambda>_. grown objs uses O1 U e)"
proof (rule builds_same, rule stepsI)
  fix s t x assume g: "grown objs uses O1 U e s" and t: "call_dev m s = (Inr x, t)"
  have "owned t = owned s" using call_dev_recorded [OF t] by (simp add: recorded_def owned_def)
  then show "grown objs uses O1 U e t" using g assms [of "b_dev s"] call_dev_run [OF t] by (simp add: grown_def)
qed

lemma builds_map [build_rules]: "(\<And>x. x \<in> set xs \<Longrightarrow> builds P (f x) (\<lambda>_. P)) \<Longrightarrow> builds P (mapP xs f) (\<lambda>_. P)"
  unfolding builds_def by (rule triple_map)

lemma builds_helper:
  assumes "topo_device sai objs uses"
  shows "builds (grown objs uses O1 U []) (helper_vlan sai n ms) (\<lambda>_. grown objs uses O1 U [])"
    and "builds (grown objs uses O1 U []) (set_pvid sai ty k n2) (\<lambda>_. grown objs uses O1 U [])"
    and "builds (grown objs uses O1 U []) (create_default_v4_v6_route_entry sai) (\<lambda>_. grown objs uses O1 U [])"
proof -
  have set: "builds (grown objs uses O1 U e) (call_dev (sai_set sai ty v a)) (\<lambda>_. grown objs uses O1 U e)" for e ty v a
    by (rule builds_dev) (use assms in \<open>simp add: topo_device_def\<close>)
  have route: "builds (grown objs uses O1 U e) (call_dev (sai_create sai ''route_entry'' a)) (\<lambda>_. grown objs uses O1 U e)" for e a
    by (rule builds_dev) (use assms in \<open>simp add: topo_device_def\<close>)
  show "builds (grown objs uses O1 U []) (helper_vlan sai n ms) (\<lambda>_. grown objs uses O1 U [])"
    unfolding helper_vlan_def by (rule build_rules builds_objects [OF assms] | clarify)+
  show "builds (grown objs uses O1 U []) (set_pvid sai ty k n2) (\<lambda>_. grown objs uses O1 U [])"
    unfolding set_pvid_def by (rule set build_rules)+
  show "builds (grown objs uses O1 U []) (create_default_v4_v6_route_entry sai) (\<lambda>_. grown objs uses O1 U [])"
    unfolding create_default_v4_v6_route_entry_def create_drop_route_def by (rule route build_rules)+
qed

lemma builds_topology:
  assumes "topo_device sai objs uses" "objs (b_dev b) 0 = None" "uses (b_dev b) \<subseteq> dom (objs (b_dev b)) \<times> dom (objs (b_dev b))"
  shows "builds (\<lambda>c. c = b) (helper_topology sai) (\<lambda>_. grown objs uses (objs (b_dev b)) (uses (b_dev b)) [])"
  unfolding helper_topology_def
  by (rule builds_then [OF builds_reset [of "objs (b_dev b)" objs b uses, OF refl assms(2,3)]], (rule builds_then builds_objects [OF assms(1)] builds_helper [OF assms(1)])+)


text \<open>Attributes are never taken away.\<close>

definition has_attrs :: "string set \<Rightarrow> 'd base \<Rightarrow> bool" where
  "has_attrs K b \<longleftrightarrow> K \<subseteq> fst ` set (b_attrs b)"

lemma steps_call [step_rules]: "steps (has_attrs K) (call_dev m)"
  by (rule stepsI) (auto simp: has_attrs_def dest!: call_dev_recorded simp: recorded_def)

lemma steps_attrs [step_rules]: "steps (has_attrs K) (setattr k i)" "steps P (getattr miss k)" "steps P (b_assert_status sai)"
  "steps (has_attrs K) (modP (\<lambda>b. b\<lparr>b_def_rif_list := f b\<rparr>))"
proof -
  have "fst ` set (AList.update k v d) = insert k (fst ` set d)" for k :: string and v :: sai_val and d
    using dom_update [of k v d] by (simp add: dom_map_of_conv_image_fst)
  then show "steps (has_attrs K) (setattr k i)"
    by (intro stepsI) (auto simp: has_attrs_def setattr_def on_test_def on_helper_def on_obj_def set_attr_def b_attrs_def)
  show "steps P (getattr miss k)" unfolding getattr_def by (intro step_rules)
  show "steps P (b_assert_status sai)" by (rule stepsI) (auto dest: b_assert_status_run)
  show "steps (has_attrs K) (modP (\<lambda>b. b\<lparr>b_def_rif_list := f b\<rparr>))"
    by (rule steps_mod) (simp add: has_attrs_def b_attrs_def)
qed

lemma steps_rifs: "steps (has_attrs K) (create_routing_interfaces sai miss vs ls qs)"
  unfolding create_routing_interfaces_def rif_step_def by (intro step_rules)

lemma steps_routes: "steps (has_attrs K) (create_default_v4_v6_route_entry sai)"
  unfolding create_default_v4_v6_route_entry_def create_drop_route_def by (intro step_rules)

lemma builds_pvid: "builds (has_attrs K) (set_pvid sai ty k n) (\<lambda>_. has_attrs (insert k K))"
proof -
  have "set_pvid sai ty k n s = (Inr x, t) \<Longrightarrow> k \<in> fst ` set (b_attrs s) \<and> b_attrs t = b_attrs s" for s t x
    by (auto simp: set_pvid_def getattr_def bindP_eq_Inr helper_missing_def recorded_def dest!: call_dev_recorded split: option.splits)
      (metis fst_conv image_eqI map_of_SomeD)
  then show ?thesis unfolding builds_def by (intro tripleI) (fastforce simp: has_attrs_def split: sum.splits)
qed

lemma builds_any: "builds P m (\<lambda>_ _. True)"
  by (simp add: builds_def triple_def split: sum.splits prod.splits)

lemma builds_weak: "builds P m Q \<Longrightarrow> (\<And>s. P' s \<Longrightarrow> P s) \<Longrightarrow> builds P' m Q"
  unfolding builds_def by (erule triple_weaken) auto

lemma builds_skip: "builds (\<lambda>_. True) n Q \<Longrightarrow> builds (\<lambda>_. True) (thenP m n) Q"
  by (rule builds_then [OF builds_any])

lemma topology_attrs:
  assumes "helper_topology sai b = (Inr (), c)"
  shows "has_attrs {port_attr 0, lag_attr 1, port_attr 2} c"
proof -
  have "builds (\<lambda>_. True) (helper_topology sai) (\<lambda>_. has_attrs {port_attr 2, lag_attr 1, port_attr 0})"
    unfolding helper_topology_def
    apply (rule builds_skip, rule builds_skip, rule builds_skip, rule builds_skip, rule builds_skip)
    apply (rule builds_skip, rule builds_skip, rule builds_skip, rule builds_skip, rule builds_skip)
    apply (rule builds_then [OF builds_weak [OF builds_pvid [where K = "{}"]]], simp add: has_attrs_def)
    apply (rule builds_then [OF builds_pvid], rule builds_then [OF builds_pvid])
    by (rule builds_then [OF builds_same] builds_same steps_rifs steps_routes)+
  then show ?thesis using assms by (auto simp: builds_def insert_commute dest: triple_Inr)
qed


section \<open>When the topology is built\<close>

text \<open>A statement that returns, and the attributes there are after it.\<close>

definition runs :: "('d base \<Rightarrow> bool) \<Rightarrow> ('d base, 'a) py \<Rightarrow> ('d base \<Rightarrow> bool) \<Rightarrow> bool" where
  "runs P m Q \<longleftrightarrow> (\<forall>b. P b \<longrightarrow> (\<exists>x c. m b = (Inr x, c) \<and> Q c))"

named_theorems run_rules "rules for statements that return"

lemma runs_bind [run_rules]: "runs P m P \<Longrightarrow> (\<And>x. runs P (f x) Q) \<Longrightarrow> runs P (bindP m f) Q"
  unfolding runs_def bindP_def by (metis (no_types, lifting) case_prod_conv sum.case(2))

lemma runs_then [run_rules]: "runs P m P \<Longrightarrow> runs P n Q \<Longrightarrow> runs P (thenP m n) Q"
  unfolding thenP_def by (rule runs_bind)

lemma runs_seq: "runs P m R \<Longrightarrow> runs R n Q \<Longrightarrow> runs P (thenP m n) Q"
  unfolding runs_def thenP_def bindP_def by (metis (no_types, lifting) case_prod_conv sum.case(2))

lemma runs_for [run_rules]: "(\<And>x. x \<in> set xs \<Longrightarrow> runs P (f x) P) \<Longrightarrow> runs P (forP xs f) P"
proof (induction xs)
  case Nil
  then show ?case by (simp add: runs_def)
next
  case (Cons x xs)
  then show ?case by (auto intro: runs_then)
qed

lemma runs_map [run_rules]: "(\<And>x. x \<in> set xs \<Longrightarrow> runs P (f x) P) \<Longrightarrow> runs P (mapP xs f) P"
proof (induction xs)
  case Nil
  then show ?case by (simp add: runs_def)
next
  case (Cons x xs)
  have "runs P (f x) P" "runs P (mapP xs f) P" using Cons by simp_all
  then show ?case unfolding mapP.simps by (intro runs_bind) (simp_all add: runs_def)
qed

lemma runs_pure [run_rules]: "runs P getP P" "runs P (retP x) P"
  by (simp_all add: runs_def)

lemma runs_same: "(\<And>b. P b \<Longrightarrow> \<exists>x. fst (m b) = Inr x) \<Longrightarrow> steps P m \<Longrightarrow> runs P m P"
  unfolding runs_def steps_def by (metis prod.collapse)

text \<open>A client whose calls never raise and report success.\<close>

definition willing :: "'d sai_client \<Rightarrow> bool" where
  "willing sai \<longleftrightarrow> (\<forall>ty a d. \<exists>i. fst (sai_create sai ty a d) = Inr i) \<and> (\<forall>ty v a d. fst (sai_set sai ty v a d) = Inr ())
     \<and> (\<forall>d. sai_status sai d = SAI_STATUS_SUCCESS)"

lemma call_dev_fst: "fst (call_dev m b) = fst (m (b_dev b))"
  by (simp add: on_test_def on_helper_def on_obj_def on_dev_def b_dev_def split: prod.splits)

lemma runs_getattr: "k \<in> K \<Longrightarrow> runs (has_attrs K) (getattr miss k) (has_attrs K)"
proof (rule runs_same)
  fix b :: "'a base" assume "k \<in> K" "has_attrs K b"
  then have "map_of (b_attrs b) k \<noteq> None" by (auto simp: has_attrs_def map_of_eq_None_iff)
  then show "\<exists>x. fst (getattr miss k b) = Inr x" by (auto simp: getattr_def bindP_apply)
qed (rule step_rules)

lemma runs_setattr: "runs (has_attrs K) (setattr k i) (has_attrs (insert k K))"
proof -
  have "fst ` set (AList.update k v d) = insert k (fst ` set d)" for k :: string and v :: sai_val and d
    using dom_update [of k v d] by (simp add: dom_map_of_conv_image_fst)
  then show ?thesis
    by (auto simp: runs_def has_attrs_def setattr_def on_test_def on_helper_def on_obj_def set_attr_def b_attrs_def)
qed

lemma has_attrs_mono: "has_attrs K b \<Longrightarrow> K' \<subseteq> K \<Longrightarrow> has_attrs K' b"
  unfolding has_attrs_def by blast

lemma runs_weak: "runs P m (has_attrs K) \<Longrightarrow> K' \<subseteq> K \<Longrightarrow> runs P m (has_attrs K')"
  unfolding runs_def by (meson has_attrs_mono)

lemma runs_set_same [run_rules]: "runs (has_attrs K) (setattr k i) (has_attrs K)"
  by (rule runs_weak [OF runs_setattr]) blast

lemma runs_mods [run_rules]: "runs (has_attrs K) (add_bridge_port i) (has_attrs K)"
  "runs (has_attrs K) (modP (\<lambda>b. b\<lparr>b_def_lag_list := f b\<rparr>)) (has_attrs K)"
  "runs (has_attrs K) (modP (\<lambda>b. b\<lparr>b_def_lag_member_list := f b\<rparr>)) (has_attrs K)"
  "runs (has_attrs K) (modP (\<lambda>b. b\<lparr>b_def_vlan_list := f b\<rparr>)) (has_attrs K)"
  "runs (has_attrs K) (modP (\<lambda>b. b\<lparr>b_def_vlan_member_list := f b\<rparr>)) (has_attrs K)"
  "runs (has_attrs K) (modP (\<lambda>b. b\<lparr>b_def_rif_list := f b\<rparr>)) (has_attrs K)"
  "runs (has_attrs K) reset_lists (has_attrs K)"
  by (simp_all add: runs_def has_attrs_def b_attrs_def add_bridge_port_def reset_lists_def on_test_def on_helper_def on_obj_def thenP_apply)

lemma runs_client:
  assumes "willing sai"
  shows "runs (has_attrs K) (call_dev (sai_create sai ty a)) (has_attrs K)"
    and "runs (has_attrs K) (call_dev (sai_set sai ty v a)) (has_attrs K)"
    and "runs (has_attrs K) (b_assert_status sai) (has_attrs K)"
proof -
  have f: "fst (b_assert_status sai b) = Inr ()" for b
    using assms by (simp add: willing_def b_assert_status_def on_test_def on_helper_def on_obj_def assert_status_def)
  show "runs (has_attrs K) (call_dev (sai_create sai ty a)) (has_attrs K)" "runs (has_attrs K) (call_dev (sai_set sai ty v a)) (has_attrs K)"
    using assms by (auto intro!: runs_same step_rules simp: call_dev_fst willing_def)
  show "runs (has_attrs K) (b_assert_status sai) (has_attrs K)" by (rule runs_same [OF _ steps_attrs(3)]) (simp add: f)
qed

lemma runs_objects:
  assumes "willing sai"
  shows "port_attr p \<in> K \<Longrightarrow> runs (has_attrs K) (bridge_port_step sai miss p) (has_attrs (insert (bp_attr p) K))"
    and "port_attr ` set qs \<subseteq> K \<Longrightarrow> runs (has_attrs K) (create_lag_with_members sai miss n qs) (has_attrs (insert (lag_attr n) (insert (lag_bp_attr n) K)))"
    and "fst ` set ms \<subseteq> K \<Longrightarrow> runs (has_attrs K) (helper_vlan sai n ms) (has_attrs (insert (vlan_attr n) K))"
    and "k \<in> K \<Longrightarrow> runs (has_attrs K) (rif_step sai miss y ky k) (has_attrs K)"
    and "k \<in> K \<Longrightarrow> runs (has_attrs K) (set_pvid sai ty k i) (has_attrs K)"
    and "runs (has_attrs K) (create_drop_route sai q) (has_attrs K)"
proof -
  note c = runs_client [OF assms]
  have mk: "runs (has_attrs K) (make_bridge_port sai v) (has_attrs K)" for K v
    unfolding make_bridge_port_def by (intro run_rules c)
  have add: "runs (has_attrs K) (thenP (setattr k i) (add_bridge_port i)) (has_attrs (insert k K))" for k i K
    by (rule runs_seq [OF runs_setattr]) (rule run_rules)
  show "port_attr p \<in> K \<Longrightarrow> runs (has_attrs K) (bridge_port_step sai miss p) (has_attrs (insert (bp_attr p) K))"
    unfolding bridge_port_step_def by (intro run_rules c mk add runs_getattr)
  show "fst ` set ms \<subseteq> K \<Longrightarrow> runs (has_attrs K) (helper_vlan sai n ms) (has_attrs (insert (vlan_attr n) K))"
  proof -
    assume m: "fst ` set ms \<subseteq> K"
    have "runs (has_attrs K) (create_vlan_with_members sai n l) (has_attrs (insert (vlan_attr n) K))" for l
      unfolding create_vlan_with_members_def vlan_member_step_def
      by (rule runs_bind [OF c(1)], rule runs_seq [OF runs_setattr]) (intro run_rules c | clarsimp)+
    moreover have "runs (has_attrs K) (mapP ms (\<lambda>(k, tag). bindP (getattr helper_missing k) (\<lambda>bp. retP (bp, tag)))) (has_attrs K)"
      using m by (intro run_rules) (auto intro!: run_rules runs_getattr)
    ultimately show ?thesis unfolding helper_vlan_def by (intro runs_bind)
  qed
  show "k \<in> K \<Longrightarrow> runs (has_attrs K) (rif_step sai miss y ky k) (has_attrs K)"
    unfolding rif_step_def by (intro run_rules c runs_getattr)
  show "k \<in> K \<Longrightarrow> runs (has_attrs K) (set_pvid sai ty k i) (has_attrs K)"
    unfolding set_pvid_def by (intro run_rules c runs_getattr)
  show "runs (has_attrs K) (create_drop_route sai q) (has_attrs K)"
    unfolding create_drop_route_def by (intro run_rules c)
  assume p: "port_attr ` set qs \<subseteq> K"
  have l: "runs (has_attrs K') (lag_member_step sai miss n x q) (has_attrs K')" if "q \<in> set qs" "K \<subseteq> K'" for x q K'
    unfolding lag_member_step_def using p that by (intro run_rules c runs_getattr) blast
  have "runs (has_attrs (insert (lag_attr n) K)) (thenP (setattr (lag_bp_attr n) bp) (thenP (b_assert_status sai) (thenP (add_bridge_port bp)
      (forP qs (lag_member_step sai miss n x))))) (has_attrs (insert (lag_bp_attr n) (insert (lag_attr n) K)))" for x bp
    by (rule runs_seq [OF runs_setattr]) (intro run_rules c l, auto)
  then show "runs (has_attrs K) (create_lag_with_members sai miss n qs) (has_attrs (insert (lag_attr n) (insert (lag_bp_attr n) K)))"
    unfolding create_lag_with_members_def insert_commute [of "lag_attr n"]
    by (intro runs_bind c)
      (rule runs_seq [OF runs_setattr], rule runs_then [OF c(3)], rule runs_then [OF runs_mods(2)], rule runs_bind [OF mk])
qed


lemma runs_bridge_ports:
  assumes "willing sai" "port_attr ` set ps \<subseteq> K"
  shows "runs (has_attrs K) (forP ps (bridge_port_step sai miss)) (has_attrs (bp_attr ` set ps \<union> K))"
  using assms(2)
proof (induction ps arbitrary: K)
  case Nil
  then show ?case by (simp add: runs_def)
next
  case (Cons p ps)
  have "runs (has_attrs K) (bridge_port_step sai miss p) (has_attrs (insert (bp_attr p) K))"
    using Cons.prems by (intro runs_objects(1) [OF assms(1)]) simp
  moreover have "port_attr ` set ps \<subseteq> insert (bp_attr p) K" using Cons.prems by auto
  ultimately have "runs (has_attrs K) (forP (p # ps) (bridge_port_step sai miss)) (has_attrs (bp_attr ` set ps \<union> insert (bp_attr p) K))"
    using Cons.IH unfolding forP.simps by (intro runs_seq)
  then show ?case by simp
qed

lemma runs_rifs:
  assumes "willing sai" "\<And>l. vs = Some l \<Longrightarrow> vlan_attr ` set l \<subseteq> K" "\<And>l. ls = Some l \<Longrightarrow> lag_attr ` set l \<subseteq> K"
    "\<And>l. ps = Some l \<Longrightarrow> port_attr ` set l \<subseteq> K"
  shows "runs (has_attrs K) (create_routing_interfaces sai miss vs ls ps) (has_attrs K)"
  unfolding create_routing_interfaces_def
  by (intro run_rules runs_objects(4) [OF assms(1)]) (use assms(2-4) in \<open>force split: option.splits\<close>)+

lemma runs_routes:
  assumes "willing sai"
  shows "runs (has_attrs K) (create_default_v4_v6_route_entry sai) (has_attrs K)"
proof -
  have z: "str_of_nat 0 = ''0''" by (simp add: decimal_eval)
  have "split_char (CHR ''/'') ''0.0.0.0/0'' = [''0.0.0.0'', ''0'']" by simp
  moreover obtain q where "num_to_dotted_quad4 (str_of_nat 0) = Inr q"
    by (simp add: num_to_dotted_quad4_def mask_number_def pack_dotted_def)
  ultimately have "\<exists>x. sai_ipprefix DEFAULT_IP_V4_PREFIX = Inr x"
    unfolding z DEFAULT_IP_V4_PREFIX_def sai_ipprefix_def by simp
  then have "runs (has_attrs K) (liftP (sai_ipprefix DEFAULT_IP_V4_PREFIX)) (has_attrs K)" by (auto simp: runs_def)
  then show ?thesis unfolding create_default_v4_v6_route_entry_def
    by (intro run_rules runs_objects(6) [OF assms])
qed

lemma helper_topology_runs:
  assumes "willing sai"
  shows "runs (has_attrs (port_attr ` {..<24})) (helper_topology sai) (has_attrs {})"
proof -
  let ?P = "port_attr ` {..<24}"
  note r = runs_objects [OF assms]
  have bps: "runs (has_attrs ?P) (mixin_create_bridge_ports sai helper_missing (Some [0, 1, 2, 3, 20, 21]))
      (has_attrs (bp_attr ` set [0, 1, 2, 3, 20, 21] \<union> ?P))"
    unfolding mixin_create_bridge_ports_def option.case list.case
    by (rule runs_bind [OF runs_pure(1)], rule runs_bridge_ports [OF assms]) auto
  have l: "runs (has_attrs K) (create_lag_with_members sai helper_missing n qs) (has_attrs (insert (lag_attr n) (insert (lag_bp_attr n) K)))"
    if "?P \<subseteq> K" "\<forall>q \<in> set qs. q < 24" for n qs K
    using that by (intro r(2)) auto
  show "runs (has_attrs ?P) (helper_topology sai) (has_attrs {})"
    unfolding helper_topology_def
    apply (rule runs_seq [OF runs_mods(7)], rule runs_seq [OF bps])
    apply (rule runs_seq [OF l], blast, simp, rule runs_seq [OF l], blast, simp, rule runs_seq [OF l], blast, simp)
    apply (rule runs_seq [OF l], blast, simp, rule runs_seq [OF l], blast, simp)
    apply (rule runs_seq [OF r(3)], simp, rule runs_seq [OF r(3)], simp, rule runs_seq [OF r(3)], simp)
    apply (rule runs_seq [OF r(5)], simp, rule runs_seq [OF r(5)], simp, rule runs_seq [OF r(5)], simp)
    apply (rule runs_seq [OF runs_rifs [OF assms]], simp, simp, simp)
    apply (rule runs_seq [OF runs_rifs [OF assms]], simp, simp, simp)
    apply (rule runs_seq [OF runs_rifs [OF assms]], simp, simp, simp)
    by (rule runs_weak [OF runs_routes [OF assms]]) simp
qed



section \<open>The topology is released\<close>

lemma set_pvid_run:
  assumes "topo_device sai objs uses" "has_attrs {k} b"
  shows "\<exists>c. set_pvid sai ty k n b = (Inr (), c) \<and> recorded c = recorded b \<and> objs (b_dev c) = objs (b_dev b) \<and> uses (b_dev c) = uses (b_dev b)"
proof -
  obtain v where v: "map_of (b_attrs b) k = Some v" using assms(2) by (auto simp: has_attrs_def) (metis map_of_eq_None_iff not_None_eq image_eqI fst_conv)
  obtain r c where c: "call_dev (sai_set sai ty v [(''port_vlan_id'', VInt n)]) b = (r, c)" by fastforce
  have "r = Inr ()" "objs (b_dev c) = objs (b_dev b)" "uses (b_dev c) = uses (b_dev b)"
    using assms(1) call_dev_run [OF c] unfolding topo_device_def by (metis fst_conv snd_conv)+
  then show ?thesis using v c call_dev_recorded [OF c] by (simp add: set_pvid_def getattr_def bindP_apply)
qed


section \<open>An example device\<close>

text \<open>A device on which a creation with wrong references gives the object 0.\<close>

record topo_sim =
  ts_objs :: "(int \<times> string) list"
  ts_uses :: "(int \<times> int) list"
  ts_routes :: "sai_args list"

definition arg_refs :: "string \<Rightarrow> sai_args \<Rightarrow> (int \<times> string list) list" where
  "arg_refs ty a = concat (map (\<lambda>(k, v). case v of
     VInt i \<Rightarrow> map (\<lambda>(_, tys). (i, tys)) (filter (\<lambda>(j, _). j = k) (refers ty)) | _ \<Rightarrow> []) a)"

definition typed_args :: "(int \<times> string) list \<Rightarrow> string \<Rightarrow> sai_args \<Rightarrow> bool" where
  "typed_args os ty a = list_all (\<lambda>(i, tys). case map_of os i of None \<Rightarrow> False | Some t \<Rightarrow> t \<in> set tys) (arg_refs ty a)"

definition topo_client :: "topo_sim sai_client" where
  "topo_client = \<lparr>
     sai_create = (\<lambda>ty a d.
       if ty = ''route_entry'' then (Inr 0, d\<lparr>ts_routes := a # ts_routes d\<rparr>)
       else if typed_args (ts_objs d) ty a
       then let i = fresh_id (map fst (ts_objs d)) in
         (Inr i, d\<lparr>ts_objs := (i, ty) # ts_objs d, ts_uses := map (\<lambda>(j, _). (i, j)) (arg_refs ty a) @ ts_uses d\<rparr>)
       else (Inr 0, d)),
     sai_remove = (\<lambda>ty v d. case v of
       VInt i \<Rightarrow> if map_of (ts_objs d) i = Some ty \<and> i \<notin> set (map snd (ts_uses d))
         then (Inr (), d\<lparr>ts_objs := filter (\<lambda>(j, _). j \<noteq> i) (ts_objs d), ts_uses := filter (\<lambda>(j, _). j \<noteq> i) (ts_uses d)\<rparr>)
         else (Inr (), d)
     | _ \<Rightarrow> (Inr (), d)),
     sai_get = (\<lambda>_ _ _ d. (Inr None, d)),
     sai_set = (\<lambda>_ _ _ d. (Inr (), d)),
     sai_status = (\<lambda>_. SAI_STATUS_SUCCESS)\<rparr>"

definition topo_start :: topo_sim where
  "topo_start = \<lparr>ts_objs = (200, ''virtual_router'') # (100, ''bridge'') # map (\<lambda>i. (int i + 1, ''port'')) [0..<24],
     ts_uses = [], ts_routes = []\<rparr>"

definition topo_base :: "topo_sim base" where
  "topo_base = (demo_base \<lparr>h_obj = \<lparr>t_dev = topo_start, t_ports = [], t_attrs = map (\<lambda>i. (port_attr i, VInt (int i + 1))) [0..<24],
       t_interfaces = [], t_active_port_obj_list = [],
       t_def_bridge_port_list = [], t_default_1q_bridge = VInt 100, t_active_ports_no = 24, t_system_port_no = 0,
       t_ports_config = [], t_slept = 0\<rparr>,
     h_test_params = [], h_config = [], h_switch_id = None, h_cpu_port_hdl = VNone, h_cpu_port = None,
     h_default_trap_group = VNone, h_port_list = map (\<lambda>i. VInt (int i + 1)) [0..<24], h_port_obj_list = [], h_port_id_list = [], h_get_port_id_list = None,
     h_host_intf_table_id = None, h_hostif_list = None, h_default_bridge_port_list = [], h_host_if_port_idx_map = [],
     h_host_if_name_list = [], h_ini_ports = None, h_ports_config = None\<rparr>)\<lparr>b_default_vrf := VInt 200\<rparr>"

abbreviation sim_objs :: "topo_sim \<Rightarrow> int \<Rightarrow> string option" where "sim_objs d \<equiv> map_of (ts_objs d)"
abbreviation sim_uses :: "topo_sim \<Rightarrow> (int \<times> int) set" where "sim_uses d \<equiv> set (ts_uses d)"

lemma arg_refs_set: "(i, tys) \<in> set (arg_refs ty a) \<longleftrightarrow> (\<exists>k. (k, VInt i) \<in> set a \<and> (k, tys) \<in> set (refers ty))"
  by (force simp: arg_refs_def split: sai_val.splits)

lemma topo_client_device: "topo_device topo_client sim_objs sim_uses"
proof -
  have w: "typed_args os ty a \<longleftrightarrow> well_typed (map_of os) ty a" for os ty a
    by (force simp: typed_args_def well_typed_def list_all_iff arg_refs_set split: option.splits)
  have u: "set (map (\<lambda>(j, _). (i, j)) (arg_refs ty a)) = {i} \<times> refs ty a" for i ty a
    by (force simp: refs_def arg_refs_set)
  have n: "map_of l (fresh_id (map fst l)) = None" "fresh_id (map fst l) \<noteq> 0" for l :: "(int \<times> string) list"
    using fresh_id_new [of "map fst l"] by (auto simp: map_of_eq_None_iff)
  have "topo_creates topo_client sim_objs sim_uses"
    unfolding topo_creates_def
  proof (intro allI impI)
    fix ty a d r d' assume ty: "ty \<in> set topo_types" and c: "sai_create topo_client ty a d = (r, d')"
    have "ty \<noteq> ''route_entry''" using ty by (auto simp: topo_types_def)
    then have "if typed_args (ts_objs d) ty a
       then r = Inr (fresh_id (map fst (ts_objs d))) \<and> ts_objs d' = (fresh_id (map fst (ts_objs d)), ty) # ts_objs d
         \<and> ts_uses d' = map (\<lambda>(j, _). (fresh_id (map fst (ts_objs d)), j)) (arg_refs ty a) @ ts_uses d
       else r = Inr 0 \<and> d' = d" using c by (auto simp: topo_client_def Let_def)
    then show "case r of Inl _ \<Rightarrow> sim_objs d' = sim_objs d \<and> sim_uses d' = sim_uses d
      | Inr i \<Rightarrow> if i = 0 then sim_objs d' = sim_objs d \<and> sim_uses d' = sim_uses d
         else sim_objs d i = None \<and> well_typed (sim_objs d) ty a \<and> sim_objs d' = (sim_objs d)(i \<mapsto> ty) \<and> sim_uses d' = sim_uses d \<union> {i} \<times> refs ty a"
      unfolding w [symmetric] u [symmetric] using n [of "ts_objs d"] by (cases "typed_args (ts_objs d) ty a") (simp_all add: Un_commute)
  qed
  moreover have "map_of (filter (\<lambda>(j, _). j \<noteq> i) l) = (map_of l)(i := None)" for l :: "(int \<times> string) list" and i
    by (induction l) (auto simp: fun_eq_iff)
  note f = this
  have "topo_removes topo_client sim_objs sim_uses"
    unfolding topo_removes_def
  proof (intro allI impI)
    fix ty i d r d' assume c: "sai_remove topo_client ty (VInt i) d = (r, d')"
    have m: "i \<notin> set (map snd (ts_uses d)) \<longleftrightarrow> i \<notin> snd ` sim_uses d" by simp
    show "if sim_objs d i = Some ty \<and> i \<notin> snd ` sim_uses d
      then r = Inr () \<and> sim_objs d' = (sim_objs d)(i := None) \<and> sim_uses d' = sim_uses d - {i} \<times> UNIV
      else sim_objs d' = sim_objs d \<and> sim_uses d' = sim_uses d \<and> (sim_objs d i = None \<longrightarrow> r = Inr ())"
    proof (cases "sim_objs d i = Some ty \<and> i \<notin> snd ` sim_uses d")
      case True
      then have "r = Inr ()" "d' = d\<lparr>ts_objs := filter (\<lambda>(j, _). j \<noteq> i) (ts_objs d), ts_uses := filter (\<lambda>(j, _). j \<noteq> i) (ts_uses d)\<rparr>"
        using c by (simp_all add: topo_client_def m del: set_map)
      then show ?thesis using True f by auto
    next
      case False
      then have "r = Inr () \<and> d' = d" using c unfolding m [symmetric] by (auto simp add: topo_client_def simp del: set_map split: if_splits)
      then show ?thesis using False by auto
    qed
  qed
  ultimately show ?thesis by (simp add: topo_device_def topo_client_def)
qed

lemma topo_base_built: "\<exists>c. helper_topology topo_client topo_base = (Inr (), c)"
proof -
  have "willing topo_client" by (simp add: willing_def topo_client_def Let_def)
  moreover have "has_attrs (port_attr ` {..<24}) topo_base"
    by (force simp: has_attrs_def topo_base_def demo_base_def b_attrs_def)
  ultimately show ?thesis using helper_topology_runs unfolding runs_def by fastforce
qed



text \<open>The default routes of \<open>setUp\<close> are not among what \<open>tearDown\<close> removes: whatever a removal of the
  other types and the setting of attributes leave alone is after \<open>tearDown\<close> as it was before.\<close>

theorem default_routes_stay:
  assumes "\<And>ty v d. ty \<noteq> ''route_entry'' \<Longrightarrow> routes (snd (sai_remove sai ty v d)) = routes d"
    and "\<And>ty v a d. routes (snd (sai_set sai ty v a d)) = routes d"
  shows "routes (b_dev (snd (SaiHelper_tearDown sai (retP ()) b))) = routes (b_dev b)"
proof -
  let ?P = "\<lambda>c. routes (b_dev c) = routes (b_dev b)"
  have c: "keeps ?P (call_dev m)" if "\<And>d. routes (snd (m d)) = routes d" for m :: "('a, 'x) py"
    by (rule keepsI) (use that in \<open>metis call_dev_run snd_conv\<close>)
  have s: "keeps ?P (call_dev (sai_set sai ty v a))" for ty v a by (rule c) (rule assms(2))
  have r: "keeps ?P (remove_all sai ty ids)" if "ty \<noteq> ''route_entry''" for ty ids
    unfolding remove_all_def by (intro keeps_rules c) (rule assms(1) [OF that])
  have g: "keeps ?P (getattr miss k)" for miss k unfolding getattr_def by (intro keeps_rules)
  have "keeps ?P (SaiHelper_tearDown sai (retP ()))"
    unfolding SaiHelper_tearDown_def set_pvid_def release_topology_def destroy_routing_interfaces_def destroy_vlans_with_members_def
      destroy_bridge_ports_def destroy_lags_with_members_def
    by (intro keeps_rules s r g) simp_all
  then show ?thesis by (rule keeps_snd) simp
qed

theorem default_routes_stay_witness:
  "\<exists>c. helper_topology topo_client topo_base = (Inr (), c)
    \<and> ts_routes (b_dev (snd (SaiHelper_tearDown topo_client (retP ()) c))) = ts_routes (b_dev c)"
  using topo_base_built default_routes_stay [of ts_routes topo_client]
  by (fastforce simp: topo_client_def split: sai_val.splits)


section \<open>The ports of the minimal configuration\<close>

definition made :: "'d base \<Rightarrow> nat \<times> nat" where
  "made b = (length (t_def_bridge_port_list (h_obj (b_h b))), length (b_def_vlan_member_list b))"

lemma call_dev_made: "call_dev m b = (r, c) \<Longrightarrow> made c = made b \<and> h_port_list (b_h c) = h_port_list (b_h b)"
  by (auto simp: on_test_def on_helper_def on_obj_def on_dev_def made_def split: prod.splits)

lemma add_bridge_port_made: "add_bridge_port i b = (r, c) \<Longrightarrow>
    made c = (Suc (fst (made b)), snd (made b)) \<and> h_port_list (b_h c) = h_port_list (b_h b)"
  by (auto simp: add_bridge_port_def on_test_def on_helper_def on_obj_def made_def)

lemma setattr_made: "setattr k i b = (r, c) \<Longrightarrow> made c = made b \<and> h_port_list (b_h c) = h_port_list (b_h b)
    \<and> t_def_bridge_port_list (h_obj (b_h c)) = t_def_bridge_port_list (h_obj (b_h b))"
  by (auto simp: setattr_def set_attr_def on_test_def on_helper_def on_obj_def made_def)

lemma minimal_bridge_port_made: "minimal_bridge_port sai p b = (Inr u, c) \<Longrightarrow>
    made c = (Suc (fst (made b)), snd (made b)) \<and> h_port_list (b_h c) = h_port_list (b_h b)"
  unfolding minimal_bridge_port_def make_bridge_port_def bindP_eq_Inr thenP_eq_Inr
  by (auto dest!: b_assert_status_run add_bridge_port_made call_dev_made)

lemma minimal_vlan_member_made: "minimal_vlan_member sai v i b = (Inr u, c) \<Longrightarrow> made c = (fst (made b), Suc (snd (made b)))"
  unfolding minimal_vlan_member_def bindP_eq_Inr thenP_eq_Inr
  by (auto dest!: b_assert_status_run call_dev_made) (simp add: made_def)

lemma forP_ConsE: "forP (x # xs) f b = (Inr u, c) \<Longrightarrow> (\<And>d. f x b = (Inr (), d) \<Longrightarrow> forP xs f d = (Inr u, c) \<Longrightarrow> R) \<Longrightarrow> R"
  unfolding forP.simps thenP_eq_Inr by auto

lemma minimal_bridge_ports_made:
  "forP ps (minimal_bridge_port sai) b = (Inr (), c) \<Longrightarrow>
    made c = (fst (made b) + length ps, snd (made b)) \<and> h_port_list (b_h c) = h_port_list (b_h b)"
  by (induction ps arbitrary: b) (auto elim!: forP_ConsE simp del: forP.simps(2) dest!: minimal_bridge_port_made)

lemma minimal_vlan_members_made:
  "forP bs (minimal_vlan_member sai v) b = (Inr (), c) \<Longrightarrow> made c = (fst (made b), snd (made b) + length bs)"
  by (induction bs arbitrary: b) (auto elim!: forP_ConsE simp del: forP.simps(2) dest!: minimal_vlan_member_made)

lemma minimal_sets_made:
  "forP ps (\<lambda>port. thenP (call_dev (m port)) (b_assert_status sai)) b = (Inr (), c) \<Longrightarrow> made c = made b"
  by (induction ps arbitrary: b)
    (auto elim!: forP_ConsE simp del: forP.simps(2) simp: thenP_eq_Inr dest!: b_assert_status_run call_dev_made)

text \<open>The number of ports asked for is only compared with the number there is: every port of the list gets
  a bridge port and becomes a member of the VLAN.\<close>

theorem minimal_takes_all_ports:
  assumes "minimal_setUp sai (retP ()) port_num vlan_id b = (Inr (), c)"
  shows "port_num \<le> t_active_ports_no (h_obj (b_h b))
    \<and> length (t_def_bridge_port_list (h_obj (b_h c))) = length (h_port_list (b_h b))
    \<and> length (b_def_vlan_member_list c) = length (h_port_list (b_h b))"
proof -
  obtain t d v e f g where n: "\<not> port_num > t_active_ports_no (h_obj (b_h b))"
    and t: "on_test (modP (\<lambda>s. s\<lparr>t_def_bridge_port_list := []\<rparr>)) b = (Inr (), t)"
    and d: "forP (h_port_list (b_h b)) (minimal_bridge_port sai) (t\<lparr>b_def_vlan_member_list := []\<rparr>) = (Inr (), d)"
    and e: "call_dev (sai_create sai ''vlan'' [(''vlan_id'', VInt vlan_id)]) d = (Inr v, e)"
    and f: "setattr ''vlan'' v e = (Inr (), f)"
    and g: "forP (t_def_bridge_port_list (h_obj (b_h f))) (minimal_vlan_member sai v) f = (Inr (), g)"
    and h: "forP (h_port_list (b_h f)) (\<lambda>port. thenP (call_dev (sai_set sai ''port'' port [(''port_vlan_id'', VInt vlan_id)])) (b_assert_status sai)) g = (Inr (), c)"
    using assms unfolding minimal_setUp_def bindP_eq_Inr thenP_eq_Inr
    by (auto simp: bindP_eq_Inr thenP_eq_Inr dest!: b_assert_status_run split: if_splits)
  have s: "made (t\<lparr>b_def_vlan_member_list := []\<rparr>) = (0, 0)" using t by (auto simp: made_def on_test_def on_helper_def on_obj_def)
  have "made f = (length (h_port_list (b_h b)), 0)"
    using minimal_bridge_ports_made [OF d] call_dev_made [OF e] setattr_made [OF f] by (simp add: s)
  then have "made c = (length (h_port_list (b_h b)), length (h_port_list (b_h b)))"
    using minimal_vlan_members_made [OF g] minimal_sets_made [OF h] by (simp add: made_def)
  then show ?thesis using n by (simp add: made_def)
qed

theorem minimal_takes_all_ports_witness:
  "\<exists>c. minimal_setUp (demo_client (\<lambda>_ _. None)) (retP ()) 1 100 (demo_base (demo_helper (demo_obj [demo_port 4, demo_port 5]) 2)) = (Inr (), c)
    \<and> length (b_def_vlan_member_list c) = 2"
proof -
  let ?b = "demo_base (demo_helper (demo_obj [demo_port 4, demo_port 5]) 2) :: demo_log base"
  have "fst (minimal_setUp (demo_client (\<lambda>_ _. None)) (retP ()) 1 100 ?b) = Inr ()"
    by (simp add: minimal_setUp_def minimal_bridge_port_def make_bridge_port_def minimal_vlan_member_def add_bridge_port_def setattr_def
        set_attr_def b_assert_status_def assert_status_def demo_client_def demo_base_def demo_helper_def demo_obj_def
        on_test_def on_helper_def on_obj_def on_dev_def bindP_apply thenP_apply numeral_2_eq_2)
  then obtain c where c: "minimal_setUp (demo_client (\<lambda>_ _. None)) (retP ()) 1 100 ?b = (Inr (), c)" by (metis prod.collapse)
  then show ?thesis using minimal_takes_all_ports [OF c] by (simp add: demo_base_def demo_helper_def)
qed

end
