(* ===== verification/PtfScript.thy ===== *)
theory PtfScript
  imports PtfTopology
begin

text \<open>
  The language of the test modules of \<open>ptf\<close>. A test is a class derived from one of the classes of
  \<open>PtfTopology\<close>; its methods are lists of statements on the attributes of the test, local variables,
  calls of the client, and calls of the packet functions of PTF. Each statement form of Python that
  the tests use is a definition here, and a method of a test is a \<open>block\<close> of them, statement by statement.

  An expression is a computation of a value, a statement one of a \<open>flow\<close>: whether the block goes on,
  or a loop or function is left. Local variables are in a frame of the state, so that reading one before
  it is assigned raises \<open>UnboundLocalError\<close> as in Python, also in a \<open>finally\<close> clause. Attributes are those
  of the object of \<open>PtfBase\<close>.
\<close>

section \<open>State\<close>

text \<open>The client is the one of \<open>PtfPorts\<close>. An entry (of a route, neighbor, FDB and so on) is created, read and
  removed under its key. \<open>se_lib\<close> are the functions that are not in the repository: those of PTF and
  scapy that make, send and compare packets, and the calls of the client other than the creation,
  removal, reading and setting of objects. \<open>se_setUp\<close> and \<open>se_tearDown\<close> are the ones of the base class.\<close>

record 'd script_env =
  se_client :: "'d PtfPorts.sai_client"
  se_lib :: "string \<Rightarrow> sai_val list \<Rightarrow> (string \<times> sai_val) list \<Rightarrow> ('d, sai_val) py"
  se_missing :: missing
  se_float :: "rat \<Rightarrow> rat"
  se_tables :: counter_tables
  se_clear :: "string \<Rightarrow> sai_val list \<Rightarrow> (string \<times> sai_val) list \<Rightarrow> 'd \<Rightarrow> int \<Rightarrow> bool res"
  se_counter :: "string \<Rightarrow> sai_val list \<Rightarrow> (string \<times> sai_val) list \<Rightarrow> 'd \<Rightarrow> counter_call"
  se_setUp :: "('d base, unit) py"
  se_tearDown :: "('d base, unit) py"

record 'd script =
  sc_base :: "'d base"
  sc_locals :: "(string, sai_val) odict"
  sc_env :: "'d script_env"

datatype flow = Next | Break | Continue | Return sai_val

type_synonym 'd expr = "('d script, sai_val) py"
type_synonym 'd stmt = "('d script, flow) py"

definition on_base :: "('d base, 'a) py \<Rightarrow> ('d script, 'a) py" where
  "on_base m = (\<lambda>s. case m (sc_base s) of (r, b) \<Rightarrow> (r, s\<lparr>sc_base := b\<rparr>))"

definition on_device :: "('d, 'a) py \<Rightarrow> ('d script, 'a) py" where
  "on_device m = on_base (call_dev m)"

definition stmt_of :: "('d script, 'a) py \<Rightarrow> 'd stmt" where
  "stmt_of m = bindP m (\<lambda>_. retP Next)"

section \<open>Values\<close>

fun truthy :: "sai_val \<Rightarrow> bool" where
  "truthy VNone = False"
| "truthy (VBool b) = b"
| "truthy (VInt i) = (i \<noteq> 0)"
| "truthy (VStr s) = (s \<noteq> [])"
| "truthy (VList l) = (l \<noteq> [])"
| "truthy (VFlt q) = (q \<noteq> 0)"
| "truthy (VSeq l) = (l \<noteq> [])"
| "truthy (VMap l) = (l \<noteq> [])"
| "truthy (VObj n l) = True"

text \<open>A number, with Booleans as 0 and 1; the elements of a list.\<close>

fun int_of :: "sai_val \<Rightarrow> int option" where
  "int_of (VInt i) = Some i"
| "int_of (VBool b) = Some (if b then 1 else 0)"
| "int_of _ = None"

fun rat_of :: "sai_val \<Rightarrow> rat option" where
  "rat_of (VFlt q) = Some q"
| "rat_of v = map_option of_int (int_of v)"

fun seq_of :: "sai_val \<Rightarrow> sai_val list option" where
  "seq_of (VSeq l) = Some l"
| "seq_of (VList l) = Some (map VInt l)"
| "seq_of _ = None"

definition elements :: "sai_val \<Rightarrow> sai_val list res" where
  "elements v = (case v of VMap m \<Rightarrow> Inr (map fst m) | VStr s \<Rightarrow> Inr (map (\<lambda>c. VStr [c]) s)
     | _ \<Rightarrow> (case seq_of v of Some l \<Rightarrow> Inr l | None \<Rightarrow> Inl TypeError))"

text \<open>Equality compares values in a common form: Booleans and whole floating-point numbers as integers,
  lists of identifiers as lists.\<close>

primrec plain_val :: "sai_val \<Rightarrow> sai_val" where
  "plain_val VNone = VNone"
| "plain_val (VBool b) = VInt (if b then 1 else 0)"
| "plain_val (VInt i) = VInt i"
| "plain_val (VStr s) = VStr s"
| "plain_val (VList l) = VSeq (map VInt l)"
| "plain_val (VFlt q) = (if of_int \<lfloor>q\<rfloor> = q then VInt \<lfloor>q\<rfloor> else VFlt q)"
| "plain_val (VSeq l) = VSeq (map plain_val l)"
| "plain_val (VMap m) = VMap (map (map_prod plain_val plain_val) m)"
| "plain_val (VObj n fs) = VObj n (map (map_prod id plain_val) fs)"

definition val_eq :: "sai_val \<Rightarrow> sai_val \<Rightarrow> bool" where
  "val_eq v w \<longleftrightarrow> plain_val v = plain_val w"

definition member_of :: "sai_val \<Rightarrow> sai_val \<Rightarrow> bool res" where
  "member_of v c = (case (v, c) of (VStr x, VStr s) \<Rightarrow> Inr (sublist x s)
     | _ \<Rightarrow> bindR (elements c) (\<lambda>l. Inr (list_ex (val_eq v) l)))"

text \<open>Arithmetic: exact on integers, rounded by \<open>fl\<close> once a floating-point number takes part.\<close>

definition num_op :: "(rat \<Rightarrow> rat) \<Rightarrow> (int \<Rightarrow> int \<Rightarrow> int) \<Rightarrow> (rat \<Rightarrow> rat \<Rightarrow> rat) \<Rightarrow> sai_val \<Rightarrow> sai_val \<Rightarrow> sai_val res" where
  "num_op fl f g v w = (case (int_of v, int_of w) of (Some x, Some y) \<Rightarrow> Inr (VInt (f x y))
     | _ \<Rightarrow> (case (rat_of v, rat_of w) of (Some x, Some y) \<Rightarrow> Inr (VFlt (fl (g x y))) | _ \<Rightarrow> Inl TypeError))"

definition py_add :: "(rat \<Rightarrow> rat) \<Rightarrow> sai_val \<Rightarrow> sai_val \<Rightarrow> sai_val res" where
  "py_add fl v w = (case (v, w) of (VStr s, VStr t) \<Rightarrow> Inr (VStr (s @ t))
     | _ \<Rightarrow> (case (seq_of v, seq_of w) of (Some xs, Some ys) \<Rightarrow> Inr (VSeq (xs @ ys))
        | _ \<Rightarrow> num_op fl (+) (+) v w))"

definition py_mul :: "(rat \<Rightarrow> rat) \<Rightarrow> sai_val \<Rightarrow> sai_val \<Rightarrow> sai_val res" where
  "py_mul fl v w = (case (v, int_of w) of (VStr s, Some n) \<Rightarrow> Inr (VStr (concat (replicate (nat n) s)))
     | _ \<Rightarrow> (case (seq_of v, int_of w) of (Some xs, Some n) \<Rightarrow> Inr (VSeq (concat (replicate (nat n) xs)))
        | _ \<Rightarrow> num_op fl (*) (*) v w))"

definition py_truediv :: "(rat \<Rightarrow> rat) \<Rightarrow> sai_val \<Rightarrow> sai_val \<Rightarrow> sai_val res" where
  "py_truediv fl v w = (case (rat_of v, rat_of w) of (Some x, Some y) \<Rightarrow>
     if y = 0 then Inl ZeroDivisionError else Inr (VFlt (fl (x / y))) | _ \<Rightarrow> Inl TypeError)"

definition int_op :: "(int \<Rightarrow> int \<Rightarrow> int res) \<Rightarrow> sai_val \<Rightarrow> sai_val \<Rightarrow> sai_val res" where
  "int_op f v w = (case (int_of v, int_of w) of (Some x, Some y) \<Rightarrow> bindR (f x y) (\<lambda>z. Inr (VInt z)) | _ \<Rightarrow> Inl TypeError)"

definition rat_cmp :: "(rat \<Rightarrow> rat \<Rightarrow> bool) \<Rightarrow> sai_val \<Rightarrow> sai_val \<Rightarrow> sai_val res" where
  "rat_cmp f v w = (case (rat_of v, rat_of w) of (Some x, Some y) \<Rightarrow> Inr (VBool (f x y)) | _ \<Rightarrow> Inl TypeError)"

definition py_mod :: "sai_val \<Rightarrow> sai_val \<Rightarrow> sai_val res" where
  "py_mod = int_op (\<lambda>x y. if y = 0 then Inl ZeroDivisionError else Inr (x mod y))"

definition py_floordiv :: "sai_val \<Rightarrow> sai_val \<Rightarrow> sai_val res" where
  "py_floordiv = int_op (\<lambda>x y. if y = 0 then Inl ZeroDivisionError else Inr (x div y))"

definition shift_left :: "sai_val \<Rightarrow> sai_val \<Rightarrow> sai_val res" where
  "shift_left = int_op (\<lambda>x y. if y < 0 then Inl ValueError else Inr (x * 2 ^ nat y))"

definition shift_right :: "sai_val \<Rightarrow> sai_val \<Rightarrow> sai_val res" where
  "shift_right = int_op (\<lambda>x y. if y < 0 then Inl ValueError else Inr (x div 2 ^ nat y))"

text \<open>Subscripts and fields. A list of objects the client returns has its identifiers and their number.\<close>

fun map_get :: "(sai_val \<times> sai_val) list \<Rightarrow> sai_val \<Rightarrow> sai_val option" where
  "map_get [] k = None"
| "map_get ((j, v) # m) k = (if val_eq j k then Some v else map_get m k)"

fun map_put :: "(sai_val \<times> sai_val) list \<Rightarrow> sai_val \<Rightarrow> sai_val \<Rightarrow> (sai_val \<times> sai_val) list" where
  "map_put [] k v = [(k, v)]"
| "map_put ((j, u) # m) k v = (if val_eq j k then (j, v) # m else (j, u) # map_put m k v)"

fun map_del :: "(sai_val \<times> sai_val) list \<Rightarrow> sai_val \<Rightarrow> (sai_val \<times> sai_val) list" where
  "map_del [] k = []"
| "map_del ((j, u) # m) k = (if val_eq j k then m else (j, u) # map_del m k)"

definition get_item :: "sai_val \<Rightarrow> sai_val \<Rightarrow> sai_val res" where
  "get_item c k = (case c of
       VMap m \<Rightarrow> (case map_get m k of Some v \<Rightarrow> Inr v | None \<Rightarrow> Inl KeyError)
     | VStr s \<Rightarrow> (case int_of k of Some i \<Rightarrow> bindR (py_index s i) (\<lambda>x. Inr (VStr [x])) | None \<Rightarrow> Inl TypeError)
     | _ \<Rightarrow> (case (seq_of c, int_of k) of (Some l, Some i) \<Rightarrow> py_index l i | _ \<Rightarrow> Inl TypeError))"

definition put_item :: "sai_val \<Rightarrow> sai_val \<Rightarrow> sai_val \<Rightarrow> sai_val res" where
  "put_item c k v = (case c of
       VMap m \<Rightarrow> Inr (VMap (map_put m k v))
     | _ \<Rightarrow> (case (seq_of c, int_of k) of
         (Some l, Some i) \<Rightarrow> (case py_position (length l) i of Some n \<Rightarrow> Inr (VSeq (l[n := v])) | None \<Rightarrow> Inl IndexError)
       | _ \<Rightarrow> Inl TypeError))"

definition get_field :: "sai_val \<Rightarrow> string \<Rightarrow> sai_val res" where
  "get_field v k = (case v of VObj n fs \<Rightarrow> (case map_of fs k of Some w \<Rightarrow> Inr w | None \<Rightarrow> Inl AttributeError)
     | VList l \<Rightarrow> if k = ''idlist'' then Inr v else if k = ''count'' then Inr (VInt (int (length l))) else Inl AttributeError
     | _ \<Rightarrow> Inl AttributeError)"

definition put_field :: "sai_val \<Rightarrow> string \<Rightarrow> sai_val \<Rightarrow> sai_val res" where
  "put_field v k w = (case v of VObj n fs \<Rightarrow> Inr (VObj n (AList.update k w fs)) | _ \<Rightarrow> Inl AttributeError)"

definition py_len :: "sai_val \<Rightarrow> sai_val res" where
  "py_len v = bindR (elements v) (\<lambda>l. Inr (VInt (int (length l))))"

section \<open>Expressions\<close>

definition lit :: "sai_val \<Rightarrow> 'd expr" where "lit v = retP v"
definition num :: "int \<Rightarrow> 'd expr" where "num i = lit (VInt i)"
definition str :: "string \<Rightarrow> 'd expr" where "str s = lit (VStr s)"
definition bool :: "bool \<Rightarrow> 'd expr" where "bool b = lit (VBool b)"
definition none :: "'d expr" where "none = lit VNone"
definition flt :: "rat \<Rightarrow> 'd expr" where "flt q = bindP getP (\<lambda>s. lit (VFlt (se_float (sc_env s) q)))"

definition var :: "string \<Rightarrow> 'd expr" where
  "var x = bindP getP (\<lambda>s. liftP (case map_of (sc_locals s) x of Some v \<Rightarrow> Inr v | None \<Rightarrow> Inl UnboundLocalError))"

text \<open>The attributes that \<open>PtfBase\<close> has as fields, and the others.\<close>

definition base_field :: "'d base \<Rightarrow> string \<Rightarrow> sai_val option" where
  "base_field b k =
     (if k = ''default_1q_bridge'' then Some (t_default_1q_bridge (h_obj (b_h b)))
      else if k = ''default_vlan_id'' then Some (b_default_vlan_id b)
      else if k = ''default_vrf'' then Some (b_default_vrf b)
      else if k = ''switch_id'' then map_option VInt (h_switch_id (b_h b))
      else if k = ''port_list'' then Some (VSeq (h_port_list (b_h b)))
      else if k = ''active_ports_no'' then Some (VInt (t_active_ports_no (h_obj (b_h b))))
      else if k = ''cpu_port_hdl'' then Some (h_cpu_port_hdl (b_h b))
      else None)"

definition self :: "string \<Rightarrow> 'd expr" where
  "self k = bindP getP (\<lambda>s. liftP (case map_of (b_attrs (sc_base s)) k of Some v \<Rightarrow> Inr v
     | None \<Rightarrow> (case base_field (sc_base s) k of Some v \<Rightarrow> Inr v | None \<Rightarrow> se_missing (sc_env s) k)))"

fun arguments :: "'d expr list \<Rightarrow> ('d script, sai_val list) py" where
  "arguments [] = retP []"
| "arguments (e # es) = bindP e (\<lambda>v. bindP (arguments es) (\<lambda>vs. retP (v # vs)))"

fun kwargs :: "(string \<times> 'd expr) list \<Rightarrow> ('d script, sai_args) py" where
  "kwargs [] = retP []"
| "kwargs ((k, e) # es) = bindP e (\<lambda>v. bindP (kwargs es) (\<lambda>vs. retP ((k, v) # vs)))"

definition unary :: "(sai_val \<Rightarrow> sai_val res) \<Rightarrow> 'd expr \<Rightarrow> 'd expr" where
  "unary f e = bindP e (\<lambda>v. liftP (f v))"

definition binary :: "(sai_val \<Rightarrow> sai_val \<Rightarrow> sai_val res) \<Rightarrow> 'd expr \<Rightarrow> 'd expr \<Rightarrow> 'd expr" where
  "binary f e e' = bindP e (\<lambda>v. bindP e' (\<lambda>w. liftP (f v w)))"

definition rounded :: "((rat \<Rightarrow> rat) \<Rightarrow> sai_val \<Rightarrow> sai_val \<Rightarrow> sai_val res) \<Rightarrow> 'd expr \<Rightarrow> 'd expr \<Rightarrow> 'd expr" where
  "rounded f e e' = bindP getP (\<lambda>s. binary (f (se_float (sc_env s))) e e')"

definition add :: "'d expr \<Rightarrow> 'd expr \<Rightarrow> 'd expr" where "add = rounded py_add"
definition sub :: "'d expr \<Rightarrow> 'd expr \<Rightarrow> 'd expr" where "sub = rounded (\<lambda>fl. num_op fl (-) (-))"
definition mul :: "'d expr \<Rightarrow> 'd expr \<Rightarrow> 'd expr" where "mul = rounded py_mul"
definition divide :: "'d expr \<Rightarrow> 'd expr \<Rightarrow> 'd expr" where "divide = rounded py_truediv"
definition modulo :: "'d expr \<Rightarrow> 'd expr \<Rightarrow> 'd expr" where "modulo = binary py_mod"
definition floordiv :: "'d expr \<Rightarrow> 'd expr \<Rightarrow> 'd expr" where "floordiv = binary py_floordiv"
definition shl :: "'d expr \<Rightarrow> 'd expr \<Rightarrow> 'd expr" where "shl = binary shift_left"
definition shr :: "'d expr \<Rightarrow> 'd expr \<Rightarrow> 'd expr" where "shr = binary shift_right"
definition bit_and :: "'d expr \<Rightarrow> 'd expr \<Rightarrow> 'd expr" where
  "bit_and = binary (int_op (\<lambda>x y. Inr (Bit_Operations.and x y)))"
definition bit_or :: "'d expr \<Rightarrow> 'd expr \<Rightarrow> 'd expr" where
  "bit_or = binary (int_op (\<lambda>x y. Inr (Bit_Operations.or x y)))"

definition eq :: "'d expr \<Rightarrow> 'd expr \<Rightarrow> 'd expr" where "eq = binary (\<lambda>v w. Inr (VBool (val_eq v w)))"
definition ne :: "'d expr \<Rightarrow> 'd expr \<Rightarrow> 'd expr" where "ne = binary (\<lambda>v w. Inr (VBool (\<not> val_eq v w)))"
definition lt :: "'d expr \<Rightarrow> 'd expr \<Rightarrow> 'd expr" where "lt = binary (rat_cmp (<))"
definition le :: "'d expr \<Rightarrow> 'd expr \<Rightarrow> 'd expr" where "le = binary (rat_cmp (\<le>))"
definition gt :: "'d expr \<Rightarrow> 'd expr \<Rightarrow> 'd expr" where "gt = binary (rat_cmp (>))"
definition ge :: "'d expr \<Rightarrow> 'd expr \<Rightarrow> 'd expr" where "ge = binary (rat_cmp (\<ge>))"
definition is_in :: "'d expr \<Rightarrow> 'd expr \<Rightarrow> 'd expr" where
  "is_in = binary (\<lambda>v c. bindR (member_of v c) (\<lambda>b. Inr (VBool b)))"
definition is_none :: "'d expr \<Rightarrow> 'd expr" where "is_none = unary (\<lambda>v. Inr (VBool (v = VNone)))"
definition is_true :: "'d expr \<Rightarrow> 'd expr" where "is_true = unary (\<lambda>v. Inr (VBool (v = VBool True)))"
definition is_false :: "'d expr \<Rightarrow> 'd expr" where "is_false = unary (\<lambda>v. Inr (VBool (v = VBool False)))"
definition no :: "'d expr \<Rightarrow> 'd expr" where "no = unary (\<lambda>v. Inr (VBool (\<not> truthy v)))"
definition neg :: "'d expr \<Rightarrow> 'd expr" where "neg = binary (\<lambda>v w. num_op id (\<lambda>x y. y - x) (\<lambda>x y. y - x) w v) (num 0)"

section \<open>Collections\<close>

definition list_of :: "'d expr list \<Rightarrow> 'd expr" where
  "list_of es = bindP (arguments es) (\<lambda>vs. retP (VSeq vs))"

fun pairs :: "('d expr \<times> 'd expr) list \<Rightarrow> ('d script, (sai_val \<times> sai_val) list) py" where
  "pairs [] = retP []"
| "pairs ((k, e) # es) = bindP k (\<lambda>kv. bindP e (\<lambda>v. bindP (pairs es) (\<lambda>ps. retP ((kv, v) # ps))))"

definition dict_of :: "('d expr \<times> 'd expr) list \<Rightarrow> 'd expr" where
  "dict_of es = bindP (pairs es) (\<lambda>ps. retP (VMap (foldl (\<lambda>m (k, v). map_put m k v) [] ps)))"

definition item :: "'d expr \<Rightarrow> 'd expr \<Rightarrow> 'd expr" where "item = binary get_item"
definition with_item :: "'d expr \<Rightarrow> 'd expr \<Rightarrow> 'd expr \<Rightarrow> 'd expr" where
  "with_item c k e = bindP e (\<lambda>v. binary (\<lambda>d j. put_item d j v) c k)"
definition field :: "'d expr \<Rightarrow> string \<Rightarrow> 'd expr" where "field e k = unary (\<lambda>v. get_field v k) e"
definition with_field :: "'d expr \<Rightarrow> string \<Rightarrow> 'd expr \<Rightarrow> 'd expr" where
  "with_field c k e = bindP e (\<lambda>v. unary (\<lambda>d. put_field d k v) c)"
definition length_of :: "'d expr \<Rightarrow> 'd expr" where "length_of = unary py_len"

definition cut :: "nat \<Rightarrow> nat option \<Rightarrow> 'a list \<Rightarrow> 'a list" where
  "cut i j l = drop i (case j of None \<Rightarrow> l | Some m \<Rightarrow> take m l)"

definition slice :: "'d expr \<Rightarrow> nat \<Rightarrow> nat option \<Rightarrow> 'd expr" where
  "slice e i j = unary (\<lambda>v. case v of VStr s \<Rightarrow> Inr (VStr (cut i j s))
     | _ \<Rightarrow> (case seq_of v of Some l \<Rightarrow> Inr (VSeq (cut i j l)) | None \<Rightarrow> Inl TypeError)) e"

definition seq_op :: "(sai_val list \<Rightarrow> sai_val \<Rightarrow> sai_val list res) \<Rightarrow> sai_val \<Rightarrow> sai_val \<Rightarrow> sai_val res" where
  "seq_op f c v = (case seq_of c of Some l \<Rightarrow> bindR (f l v) (\<lambda>l'. Inr (VSeq l')) | None \<Rightarrow> Inl AttributeError)"

definition appended :: "'d expr \<Rightarrow> 'd expr \<Rightarrow> 'd expr" where "appended = binary (seq_op (\<lambda>l v. Inr (l @ [v])))"
definition extended :: "'d expr \<Rightarrow> 'd expr \<Rightarrow> 'd expr" where
  "extended = binary (seq_op (\<lambda>l v. bindR (elements v) (\<lambda>vs. Inr (l @ vs))))"

fun remove_first :: "sai_val list \<Rightarrow> sai_val \<Rightarrow> sai_val list res" where
  "remove_first [] v = Inl ValueError"
| "remove_first (w # l) v = (if val_eq w v then Inr l else bindR (remove_first l v) (\<lambda>l'. Inr (w # l')))"

definition without :: "'d expr \<Rightarrow> 'd expr \<Rightarrow> 'd expr" where "without = binary (seq_op remove_first)"

definition keys_of :: "'d expr \<Rightarrow> 'd expr" where
  "keys_of = unary (\<lambda>v. case v of VMap m \<Rightarrow> Inr (VSeq (map fst m)) | _ \<Rightarrow> Inl AttributeError)"
definition values_of :: "'d expr \<Rightarrow> 'd expr" where
  "values_of = unary (\<lambda>v. case v of VMap m \<Rightarrow> Inr (VSeq (map snd m)) | _ \<Rightarrow> Inl AttributeError)"
definition items_of :: "'d expr \<Rightarrow> 'd expr" where
  "items_of = unary (\<lambda>v. case v of VMap m \<Rightarrow> Inr (VSeq (map (\<lambda>(k, w). VSeq [k, w]) m)) | _ \<Rightarrow> Inl AttributeError)"

definition range_of :: "'d expr \<Rightarrow> 'd expr \<Rightarrow> 'd expr" where
  "range_of = binary (\<lambda>v w. case (int_of v, int_of w) of (Some i, Some j) \<Rightarrow> Inr (VSeq (map VInt [i..j - 1])) | _ \<Rightarrow> Inl TypeError)"
definition range_step :: "'d expr \<Rightarrow> 'd expr \<Rightarrow> 'd expr \<Rightarrow> 'd expr" where
  "range_step e e' e'' = bindP e (\<lambda>u. bindP e' (\<lambda>v. bindP e'' (\<lambda>w. liftP (case (int_of u, int_of v, int_of w) of
     (Some i, Some j, Some k) \<Rightarrow> if k = 0 then Inl ValueError
        else Inr (VSeq (map (\<lambda>n. VInt (i + k * Int.int n)) [0..<nat (if 0 < k then (j - i + k - 1) div k else (i - j - k - 1) div (- k))]))
   | _ \<Rightarrow> Inl TypeError))))"
definition enumerated :: "'d expr \<Rightarrow> 'd expr" where
  "enumerated = unary (\<lambda>v. bindR (elements v) (\<lambda>l. Inr (VSeq (map (\<lambda>(i, w). VSeq [VInt (Int.int i), w]) (zip [0..<length l] l)))))"
definition zipped :: "'d expr \<Rightarrow> 'd expr \<Rightarrow> 'd expr" where
  "zipped = binary (\<lambda>v w. bindR (elements v) (\<lambda>l. bindR (elements w) (\<lambda>l'. Inr (VSeq (map (\<lambda>(a, b). VSeq [a, b]) (zip l l'))))))"
definition as_list :: "'d expr \<Rightarrow> 'd expr" where
  "as_list = unary (\<lambda>v. bindR (elements v) (\<lambda>l. Inr (VSeq l)))"

text \<open>\<open>str\<close> and \<open>int\<close> on numbers and texts; the text of a collection or a floating-point number is not
  modelled.\<close>

fun text_of :: "sai_val \<Rightarrow> string res" where
  "text_of (VStr s) = Inr s"
| "text_of (VInt i) = Inr (str_of_int i)"
| "text_of VNone = Inr ''None''"
| "text_of (VBool b) = Inr (if b then ''True'' else ''False'')"
| "text_of _ = Inl TypeError"

definition as_str :: "'d expr \<Rightarrow> 'd expr" where
  "as_str = unary (\<lambda>v. bindR (text_of v) (\<lambda>s. Inr (VStr s)))"
definition as_int :: "'d expr \<Rightarrow> 'd expr" where
  "as_int = unary (\<lambda>v. case v of VStr s \<Rightarrow> bindR (py_int s) (\<lambda>i. Inr (VInt i))
     | VFlt q \<Rightarrow> Inr (VInt (if q < 0 then - \<lfloor>- q\<rfloor> else \<lfloor>q\<rfloor>))
     | _ \<Rightarrow> (case int_of v of Some i \<Rightarrow> Inr (VInt i) | None \<Rightarrow> Inl TypeError))"

section \<open>Calls\<close>

definition lib :: "string \<Rightarrow> 'd expr list \<Rightarrow> (string \<times> 'd expr) list \<Rightarrow> 'd expr" where
  "lib f es ks = bindP (arguments es) (\<lambda>vs. bindP (kwargs ks) (\<lambda>kvs. bindP getP (\<lambda>s.
     on_device (se_lib (sc_env s) f vs kvs))))"

definition struct :: "string \<Rightarrow> (string \<times> 'd expr) list \<Rightarrow> 'd expr" where
  "struct n ks = bindP (kwargs ks) (\<lambda>kvs. retP (VObj n kvs))"

text \<open>The fields of a structure can come from a dictionary of their names.\<close>

definition struct_from :: "string \<Rightarrow> 'd expr \<Rightarrow> 'd expr" where
  "struct_from n e = unary (\<lambda>v. case v of
       VMap m \<Rightarrow> if list_all (\<lambda>(k, w). case k of VStr s \<Rightarrow> True | _ \<Rightarrow> False) m
         then Inr (VObj n (map (\<lambda>(k, w). (case k of VStr s \<Rightarrow> s | _ \<Rightarrow> [], w)) m)) else Inl TypeError
     | _ \<Rightarrow> Inl TypeError) e"

definition status :: "'d expr" where
  "status = bindP getP (\<lambda>s. retP (VInt (sai_status (se_client (sc_env s)) (b_dev (sc_base s)))))"

definition api_create :: "string \<Rightarrow> (string \<times> 'd expr) list \<Rightarrow> 'd expr" where
  "api_create ty ks = bindP (kwargs ks) (\<lambda>kvs. bindP getP (\<lambda>s.
     bindP (on_device (sai_create (se_client (sc_env s)) ty kvs)) (\<lambda>i. retP (VInt i))))"

text \<open>The creation of an entry, a removal and a setting give the status.\<close>

definition api_create_entry :: "string \<Rightarrow> 'd expr \<Rightarrow> (string \<times> 'd expr) list \<Rightarrow> 'd expr" where
  "api_create_entry ty k ks = bindP k (\<lambda>kv. bindP (kwargs ks) (\<lambda>kvs. bindP getP (\<lambda>s.
     bindP (on_device (sai_create (se_client (sc_env s)) ty ((ty, kv) # kvs))) (\<lambda>_. status))))"

definition api_remove :: "string \<Rightarrow> 'd expr \<Rightarrow> 'd expr" where
  "api_remove ty e = bindP e (\<lambda>v. bindP getP (\<lambda>s.
     bindP (on_device (sai_remove (se_client (sc_env s)) ty v)) (\<lambda>_. status)))"

definition api_set :: "string \<Rightarrow> 'd expr \<Rightarrow> (string \<times> 'd expr) list \<Rightarrow> 'd expr" where
  "api_set ty e ks = bindP e (\<lambda>v. bindP (kwargs ks) (\<lambda>kvs. bindP getP (\<lambda>s.
     bindP (on_device (sai_set (se_client (sc_env s)) ty v kvs)) (\<lambda>_. status))))"

definition api_get :: "string \<Rightarrow> 'd expr \<Rightarrow> (string \<times> 'd expr) list \<Rightarrow> 'd expr" where
  "api_get ty e ks = bindP e (\<lambda>v. bindP (kwargs ks) (\<lambda>kvs. bindP getP (\<lambda>s.
     bindP (on_device (sai_get (se_client (sc_env s)) ty v kvs)) (\<lambda>r.
     retP (case r of None \<Rightarrow> VNone | Some d \<Rightarrow> VMap (map (\<lambda>(k, w). (VStr k, w)) d))))))"

text \<open>A call whose arguments do not fit the function raises after they are evaluated.\<close>

definition bad_call :: "'d expr list \<Rightarrow> 'd expr" where
  "bad_call es = bindP (arguments es) (\<lambda>_. raiseP TypeError)"

definition query :: "string \<Rightarrow> 'd expr list \<Rightarrow> (string \<times> 'd expr) list \<Rightarrow> 'd expr" where
  "query f es ks = bindP (arguments es) (\<lambda>vs. bindP (kwargs ks) (\<lambda>kvs. bindP getP (\<lambda>s.
     bindP (on_base (on_adapter (query_counter (se_tables (sc_env s)) f None
       (se_counter (sc_env s) f vs kvs (b_dev (sc_base s)))))) (\<lambda>d.
     retP (VMap (map (\<lambda>(k, i). (VStr k, VInt i)) d))))))"

definition clear_stats :: "string \<Rightarrow> 'd expr list \<Rightarrow> (string \<times> 'd expr) list \<Rightarrow> 'd expr" where
  "clear_stats f es ks = bindP (arguments es) (\<lambda>vs. bindP (kwargs ks) (\<lambda>kvs. bindP getP (\<lambda>s.
     bindP (on_base (on_adapter (clear_counter (se_tables (sc_env s)) f None
       (se_clear (sc_env s) f vs kvs (b_dev (sc_base s)))))) (\<lambda>_. retP VNone))))"

definition addr_val :: "ip_addr_t \<Rightarrow> sai_val" where
  "addr_val a = (case a of Ip4 s \<Rightarrow> VObj ''sai_thrift_ip_addr_t'' [(''ip4'', VStr s)]
     | Ip6 s \<Rightarrow> VObj ''sai_thrift_ip_addr_t'' [(''ip6'', VStr s)])"

definition family_val :: "ip_family \<Rightarrow> sai_val" where
  "family_val f = VInt (case f of FamilyV4 \<Rightarrow> 0 | FamilyV6 \<Rightarrow> 1)"

definition ip_address :: "'d expr \<Rightarrow> 'd expr" where
  "ip_address = unary (\<lambda>v. case v of VStr s \<Rightarrow> bindR (sai_ipaddress s) (\<lambda>a.
       Inr (VObj ''sai_thrift_ip_address_t'' [(''addr_family'', family_val (ia_family a)), (''addr'', addr_val (ia_addr a))]))
     | _ \<Rightarrow> Inl TypeError)"

definition ip_prefix :: "'d expr \<Rightarrow> 'd expr" where
  "ip_prefix = unary (\<lambda>v. case v of VStr s \<Rightarrow> bindR (sai_ipprefix s) (\<lambda>p. Inr (case p of None \<Rightarrow> VNone
       | Some q \<Rightarrow> VObj ''sai_thrift_ip_prefix_t'' [(''addr_family'', family_val (ip_family_of q)),
           (''addr'', addr_val (ip_addr q)), (''mask'', addr_val (ip_mask q))]))
     | _ \<Rightarrow> Inl AttributeError)"

text \<open>The form of a text with \<open>%\<close>: directives for a value, a number, and a number of at least a width in
  decimal or hexadecimal.\<close>

definition padded :: "nat \<Rightarrow> string \<Rightarrow> string" where "padded n s = replicate (n - length s) CHR ''0'' @ s"

definition directive :: "char \<Rightarrow> sai_val \<Rightarrow> string res" where
  "directive d v = (if d = CHR ''s'' then text_of v
     else case int_of v of None \<Rightarrow> Inl TypeError
       | Some i \<Rightarrow> if d = CHR ''d'' then Inr (str_of_int i)
           else if d = CHR ''x'' then Inr ((if i < 0 then ''-'' else []) @ digits_of 16 (nat \<bar>i\<bar>)) else Inl ValueError)"

text \<open>The directive that follows a \<open>%\<close>: its width, its letter and the rest of the text.\<close>

fun split_directive :: "string \<Rightarrow> (nat \<times> char \<times> string) option" where
  "split_directive [] = None"
| "split_directive (d # f) = (if d = CHR ''0'' then (case f of w # c # g \<Rightarrow> Some (of_char w - 48, c, g) | _ \<Rightarrow> None)
     else Some (0, d, f))"

lemma split_directive_length: "split_directive f = Some (n, d, g) \<Longrightarrow> length g < length f"
  by (cases f) (auto split: if_splits list.splits)

function format_with :: "string \<Rightarrow> sai_val list \<Rightarrow> string res" where
  "format_with f vs = (case f of [] \<Rightarrow> if vs = [] then Inr [] else Inl TypeError
     | c # g \<Rightarrow>
         if c \<noteq> CHR ''%'' then bindR (format_with g vs) (\<lambda>t. Inr (c # t))
         else (case split_directive g of None \<Rightarrow> Inl ValueError
           | Some (n, d, h) \<Rightarrow>
               if d = CHR ''%'' then bindR (format_with h vs) (\<lambda>t. Inr (CHR ''%'' # t))
               else (case vs of [] \<Rightarrow> Inl TypeError
                 | v # ws \<Rightarrow> bindR (directive d v) (\<lambda>x. bindR (format_with h ws) (\<lambda>t. Inr (padded n x @ t))))))"
  by pat_completeness auto
termination
  by (relation "measure (length \<circ> fst)") (auto dest: split_directive_length)

declare format_with.simps [simp del]

definition formatted :: "string \<Rightarrow> 'd expr list \<Rightarrow> 'd expr" where
  "formatted f es = bindP (arguments es) (\<lambda>vs. liftP (bindR (format_with f vs) (\<lambda>t. Inr (VStr t))))"

text \<open>\<open>getattr\<close> and \<open>setattr\<close> with a computed name.\<close>

definition self_named :: "'d expr \<Rightarrow> 'd expr" where
  "self_named e = bindP e (\<lambda>v. case v of VStr k \<Rightarrow> self k | _ \<Rightarrow> raiseP TypeError)"

definition get_or :: "'d expr \<Rightarrow> 'd expr \<Rightarrow> 'd expr \<Rightarrow> 'd expr" where
  "get_or c k e = bindP c (\<lambda>d. bindP k (\<lambda>j. bindP e (\<lambda>v. case d of
     VMap m \<Rightarrow> retP (case map_get m j of Some w \<Rightarrow> w | None \<Rightarrow> v) | _ \<Rightarrow> raiseP AttributeError)))"

section \<open>Statements\<close>

fun block :: "'d stmt list \<Rightarrow> 'd stmt" where
  "block [] = retP Next"
| "block (m # ms) = bindP m (\<lambda>f. if f = Next then block ms else retP f)"

definition set_local :: "string \<Rightarrow> sai_val \<Rightarrow> 'd script \<Rightarrow> 'd script" where
  "set_local x v s = s\<lparr>sc_locals := AList.update x v (sc_locals s)\<rparr>"

definition assign :: "string \<Rightarrow> 'd expr \<Rightarrow> 'd stmt" where
  "assign x e = bindP e (\<lambda>v. stmt_of (modP (set_local x v)))"

definition set_self :: "string \<Rightarrow> 'd expr \<Rightarrow> 'd stmt" where
  "set_self k e = bindP e (\<lambda>v. stmt_of (on_base (on_test (set_attr k v))))"

fun set_locals :: "string list \<Rightarrow> sai_val list \<Rightarrow> 'd script \<Rightarrow> 'd script" where
  "set_locals (x # xs) (v # vs) s = set_locals xs vs (set_local x v s)"
| "set_locals _ _ s = s"

text \<open>Several targets take the elements of a list of their number.\<close>

definition unpack :: "string list \<Rightarrow> sai_val \<Rightarrow> ('d script, unit) py" where
  "unpack xs v = bindP (liftP (elements v)) (\<lambda>vs.
     if length vs = length xs then modP (set_locals xs vs) else raiseP ValueError)"

definition bind_targets :: "string list \<Rightarrow> sai_val \<Rightarrow> ('d script, unit) py" where
  "bind_targets xs v = (case xs of [x] \<Rightarrow> modP (set_local x v) | _ \<Rightarrow> unpack xs v)"

definition set_self_named :: "'d expr \<Rightarrow> 'd expr \<Rightarrow> 'd stmt" where
  "set_self_named e e' = bindP e (\<lambda>k. bindP e' (\<lambda>v. case k of
     VStr n \<Rightarrow> stmt_of (on_base (on_test (set_attr n v))) | _ \<Rightarrow> raiseP TypeError))"

text \<open>\<open>pop\<close> takes the element out of a list and returns it.\<close>

definition pop_from :: "'d expr \<Rightarrow> (sai_val \<Rightarrow> ('d script, unit) py) \<Rightarrow> 'd expr \<Rightarrow> 'd expr" where
  "pop_from e store i = bindP e (\<lambda>c. bindP i (\<lambda>k. case (seq_of c, int_of k) of
     (Some l, Some n) \<Rightarrow> (case py_position (length l) n of None \<Rightarrow> raiseP IndexError
       | Some j \<Rightarrow> thenP (store (VSeq (take j l @ drop (Suc j) l))) (retP (l ! j)))
     | _ \<Rightarrow> raiseP AttributeError))"

definition pop_var :: "string \<Rightarrow> 'd expr \<Rightarrow> 'd expr" where
  "pop_var x = pop_from (var x) (\<lambda>v. modP (set_local x v))"
definition pop_self :: "string \<Rightarrow> 'd expr \<Rightarrow> 'd expr" where
  "pop_self k = pop_from (self k) (\<lambda>v. on_base (on_test (set_attr k v)))"

definition assign_all :: "string list \<Rightarrow> 'd expr \<Rightarrow> 'd stmt" where
  "assign_all xs e = bindP e (\<lambda>v. stmt_of (unpack xs v))"

definition run :: "'d expr \<Rightarrow> 'd stmt" where "run e = stmt_of e"

definition return :: "'d expr \<Rightarrow> 'd stmt" where "return e = bindP e (\<lambda>v. retP (Return v))"
definition break :: "'d stmt" where "break = retP Break"
definition continue :: "'d stmt" where "continue = retP Continue"

definition if_else :: "'d expr \<Rightarrow> 'd stmt list \<Rightarrow> 'd stmt list \<Rightarrow> 'd stmt" where
  "if_else c ms ns = bindP c (\<lambda>v. if truthy v then block ms else block ns)"

definition if_exp :: "'d expr \<Rightarrow> 'd expr \<Rightarrow> 'd expr \<Rightarrow> 'd expr" where
  "if_exp c e e' = bindP c (\<lambda>v. if truthy v then e else e')"
definition both :: "'d expr \<Rightarrow> 'd expr \<Rightarrow> 'd expr" where "both e e' = bindP e (\<lambda>v. if truthy v then e' else retP v)"
definition either :: "'d expr \<Rightarrow> 'd expr \<Rightarrow> 'd expr" where "either e e' = bindP e (\<lambda>v. if truthy v then retP v else e')"

fun loop :: "string list \<Rightarrow> 'd stmt list \<Rightarrow> sai_val list \<Rightarrow> 'd stmt" where
  "loop xs ms [] = retP Next"
| "loop xs ms (v # vs) = thenP (bind_targets xs v) (bindP (block ms) (\<lambda>f. case f of
     Break \<Rightarrow> retP Next | Return w \<Rightarrow> retP f | _ \<Rightarrow> loop xs ms vs))"

definition for_in :: "string list \<Rightarrow> 'd expr \<Rightarrow> 'd stmt list \<Rightarrow> 'd stmt" where
  "for_in xs e ms = bindP e (\<lambda>v. bindP (liftP (elements v)) (loop xs ms))"

text \<open>A list written as a comprehension, whose variable is its own.\<close>

definition list_comp :: "'d expr \<Rightarrow> string list \<Rightarrow> 'd expr \<Rightarrow> 'd expr" where
  "list_comp body xs e = bindP e (\<lambda>v. bindP (liftP (elements v)) (\<lambda>vs s.
     case mapP vs (\<lambda>w. thenP (bind_targets xs w) body) s of
     (r, t) \<Rightarrow> (bindR r (\<lambda>ws. Inr (VSeq ws)), t\<lparr>sc_locals := sc_locals s\<rparr>)))"

definition list_comp_if :: "'d expr \<Rightarrow> string list \<Rightarrow> 'd expr \<Rightarrow> 'd expr \<Rightarrow> 'd expr" where
  "list_comp_if body xs c e = bindP e (\<lambda>v. bindP (liftP (elements v)) (\<lambda>vs s.
     case mapP vs (\<lambda>w. thenP (bind_targets xs w) (bindP c (\<lambda>b. if truthy b then bindP body (\<lambda>x. retP [x]) else retP []))) s of
     (r, t) \<Rightarrow> (bindR r (\<lambda>ws. Inr (VSeq (concat ws))), t\<lparr>sc_locals := sc_locals s\<rparr>)))"

text \<open>The flow of a \<open>finally\<close> clause wins when it leaves the block.\<close>

definition try_finally :: "'d stmt list \<Rightarrow> 'd stmt list \<Rightarrow> 'd stmt" where
  "try_finally ms ns = (\<lambda>s. case block ms s of (r, t) \<Rightarrow>
     (case block ns t of (Inl e, u) \<Rightarrow> (Inl e, u) | (Inr f, u) \<Rightarrow> (if f = Next then r else Inr f, u)))"

definition try_except :: "'d stmt list \<Rightarrow> (pyerr \<Rightarrow> bool) \<Rightarrow> 'd stmt list \<Rightarrow> 'd stmt" where
  "try_except ms p ns = catchP (block ms) (\<lambda>e. if p e then block ns else raiseP e)"

definition raise :: "pyerr \<Rightarrow> 'd stmt" where "raise e = raiseP e"

text \<open>The values are evaluated; what is written is not modelled.\<close>

definition print :: "'d expr list \<Rightarrow> 'd stmt" where "print es = stmt_of (arguments es)"

text \<open>The values in the message of an assertion are evaluated before it is checked.\<close>

definition explained :: "'d expr \<Rightarrow> 'd expr list \<Rightarrow> 'd expr" where
  "explained e es = bindP e (\<lambda>v. bindP (arguments es) (\<lambda>_. retP v))"

definition sleep_for :: "'d expr \<Rightarrow> 'd stmt" where
  "sleep_for e = bindP e (\<lambda>v. case rat_of v of None \<Rightarrow> raiseP TypeError
     | Some q \<Rightarrow> if q < 0 then raiseP ValueError else stmt_of (on_base (b_sleep (nat \<lceil>q\<rceil>))))"

definition assert :: "'d expr \<Rightarrow> 'd stmt" where
  "assert e = bindP e (\<lambda>v. if truthy v then retP Next else raiseP AssertionError)"
definition assert_eq :: "'d expr \<Rightarrow> 'd expr \<Rightarrow> 'd stmt" where "assert_eq e e' = assert (eq e e')"
definition assert_ne :: "'d expr \<Rightarrow> 'd expr \<Rightarrow> 'd stmt" where "assert_ne e e' = assert (ne e e')"

text \<open>The call of a method or function: the arguments are its first local variables. A function defined
  inside another one reads the variables of the outer one too.\<close>

definition invoke :: "(string \<times> 'd expr) list \<Rightarrow> 'd stmt \<Rightarrow> 'd expr" where
  "invoke ps body = bindP (kwargs ps) (\<lambda>vs. bindP getP (\<lambda>s. (\<lambda>t. case body (t\<lparr>sc_locals := vs\<rparr>) of
     (r, u) \<Rightarrow> (bindR r (\<lambda>f. Inr (case f of Return v \<Rightarrow> v | _ \<Rightarrow> VNone)), u\<lparr>sc_locals := sc_locals s\<rparr>))))"

definition invoke_inner :: "(string \<times> 'd expr) list \<Rightarrow> 'd stmt \<Rightarrow> 'd expr" where
  "invoke_inner ps body = bindP (kwargs ps) (\<lambda>vs. bindP getP (\<lambda>s. (\<lambda>t. case body (t\<lparr>sc_locals := vs @ sc_locals s\<rparr>) of
     (r, u) \<Rightarrow> (bindR r (\<lambda>f. Inr (case f of Return v \<Rightarrow> v | _ \<Rightarrow> VNone)), u\<lparr>sc_locals := sc_locals s\<rparr>))))"

text \<open>Methods of the base class.\<close>

definition wait_fdb_age :: "'d expr \<Rightarrow> 'd expr" where
  "wait_fdb_age e = bindP e (\<lambda>v. case int_of v of Some i \<Rightarrow> bindP (on_base (saiWaitFdbAge (nat i))) (\<lambda>_. retP VNone)
     | None \<Rightarrow> raiseP TypeError)"

definition create_rifs :: "nat list \<Rightarrow> 'd expr" where
  "create_rifs ports = bindP getP (\<lambda>s. bindP (on_base (create_routing_interfaces (se_client (sc_env s)) (se_missing (sc_env s))
     None None (Some ports))) (\<lambda>_. retP VNone))"
definition destroy_rifs :: "'d expr" where
  "destroy_rifs = bindP getP (\<lambda>s. bindP (on_base (destroy_routing_interfaces (se_client (sc_env s)))) (\<lambda>_. retP VNone))"
definition super_setUp :: "'d stmt" where
  "super_setUp = bindP getP (\<lambda>s. stmt_of (on_base (se_setUp (sc_env s))))"
definition super_tearDown :: "'d stmt" where
  "super_tearDown = bindP getP (\<lambda>s. stmt_of (on_base (se_tearDown (sc_env s))))"

text \<open>How a test is run: \<open>tearDown\<close> follows a test that was set up, however it ends.\<close>

definition session :: "'d stmt \<Rightarrow> 'd stmt \<Rightarrow> 'd stmt \<Rightarrow> ('d script, unit) py" where
  "session setUp runTest tearDown = thenP (invoke [] setUp)
     (finallyP (thenP (invoke [] runTest) (retP ())) (invoke [] tearDown))"

end
