(* ===== verification/PtfOwn.thy ===== *)
theory PtfOwn
  imports PtfScript
begin

text \<open>
  What the tests leave on the device. \<open>script_device\<close> states what is relied on of the client and of the
  packet library; \<open>dev_has\<close> says that the objects of the device are those from before, or fewer
  entries, and the ones a test has made, newest first, which refer to each other only as the types
  in the headers allow; \<open>own\<close> ties these to the variables and attributes that hold them. The rules
  follow a test statement by statement: a creation adds to what is owned, a removal takes away from it
  if nothing newer can refer to the object, and every other statement is quiet.
\<close>

named_theorems quiet_rules "statements and expressions that neither create nor remove"
named_theorems ok_rules "what statements do to what is owned"
named_theorems plain_rules "statements that do not leave their block"

section \<open>References between objects\<close>

text \<open>The types an object of a type may refer to, from the attributes declared in \<open>inc\<close> that can be
  written. Nothing is known of a type that is not in the table.\<close>

definition refers_to :: "(string \<times> string list) list" where
  "refers_to =
    [(''acl_counter'', [''acl_table'']),
     (''acl_entry'', [''acl_counter'', ''acl_range'', ''acl_table'', ''acl_table_chain_group'', ''ars'', ''bridge_port'',
        ''dtel_int_session'', ''hash'', ''hostif_user_defined_trap'', ''ipmc_group'', ''isolation_group'',
        ''l2mc_group'', ''lag'', ''macsec_flow'', ''mirror_session'', ''next_hop'', ''next_hop_group'', ''policer'',
        ''port'', ''samplepacket'', ''system_port'', ''tam'', ''tam_int'', ''virtual_router'']),
     (''acl_range'', []),
     (''acl_table'', [''prefix_compression_table'', ''udf_group'']),
     (''acl_table_group'', []),
     (''acl_table_group_member'', [''acl_table'', ''acl_table_chain_group'', ''acl_table_group'']),
     (''bridge_port'', [''bridge'', ''counter'', ''isolation_group'', ''lag'', ''next_hop_group'', ''port'',
        ''router_interface'', ''system_port'', ''tunnel'']),
     (''buffer_pool'', [''counter'', ''tam'', ''wred'']),
     (''buffer_profile'', [''buffer_pool'']),
     (''counter'', []),
     (''debug_counter'', []),
     (''fdb_entry'', [''bridge'', ''bridge_port'', ''counter'', ''hostif_user_defined_trap'', ''switch'', ''vlan'']),
     (''fine_grained_hash_field'', []),
     (''hash'', [''fine_grained_hash_field'', ''udf_group'']),
     (''hostif'', [''lag'', ''port'', ''system_port'', ''vlan'']),
     (''hostif_table_entry'', [''hostif'', ''hostif_trap'', ''hostif_user_defined_trap'', ''lag'', ''port'',
        ''router_interface'']),
     (''hostif_trap'', [''counter'', ''hostif_trap_group'', ''mirror_session'', ''port'']),
     (''hostif_trap_group'', [''policer'']),
     (''hostif_user_defined_trap'', [''hostif_trap_group'']),
     (''ingress_priority_group'', [''buffer_profile'', ''counter'', ''port'', ''tam'']),
     (''inseg_entry'', [''counter'', ''next_hop'', ''next_hop_group'', ''qos_map'', ''router_interface'', ''switch'']),
     (''ipmc_entry'', [''counter'', ''ipmc_group'', ''rpf_group'', ''switch'', ''virtual_router'']),
     (''ipmc_group'', [''next_hop'']),
     (''ipmc_group_member'', [''ipmc_group'', ''next_hop'', ''router_interface'', ''tunnel'']),
     (''isolation_group'', []),
     (''isolation_group_member'', [''bridge_port'', ''isolation_group'', ''port'']),
     (''lag'', [''acl_table'', ''acl_table_group'', ''ars'']),
     (''lag_member'', [''lag'', ''port'', ''system_port'']),
     (''mirror_session'', [''counter'', ''lag'', ''policer'', ''port'', ''system_port'']),
     (''my_sid_entry'', [''counter'', ''next_hop'', ''next_hop_group'', ''router_interface'', ''switch'', ''tunnel'',
        ''virtual_router'']),
     (''nat_entry'', [''switch'', ''virtual_router'']),
     (''neighbor_entry'', [''counter'', ''hostif_user_defined_trap'', ''router_interface'', ''switch'']),
     (''next_hop'', [''counter'', ''qos_map'', ''router_interface'', ''srv6_sidlist'', ''tunnel'']),
     (''next_hop_group'', [''ars'', ''counter'', ''next_hop'', ''next_hop_group_map'']),
     (''next_hop_group_member'', [''bfd_session'', ''bridge_port'', ''counter'', ''icmp_echo_session'', ''lag'',
        ''next_hop'', ''next_hop_group'', ''port'', ''router_interface'', ''tunnel'', ''vlan_member'']),
     (''policer'', [''counter'']),
     (''port'', [''acl_table'', ''acl_table_group'', ''buffer_profile'', ''counter'', ''isolation_group'',
        ''mirror_session'', ''policer'', ''port'', ''port_llr_profile'', ''qos_map'', ''samplepacket'',
        ''scheduler'', ''tam'']),
     (''qos_map'', []),
     (''queue'', [''buffer_profile'', ''counter'', ''port'', ''scheduler'', ''scheduler_group'', ''tam'', ''wred'']),
     (''route_entry'', [''counter'', ''hostif_user_defined_trap'', ''next_hop'', ''next_hop_group'', ''port'',
        ''router_interface'', ''switch'', ''virtual_router'']),
     (''router_interface'', [''acl_table'', ''acl_table_group'', ''bridge'', ''counter'', ''lag'', ''my_mac'', ''port'',
        ''qos_map'', ''system_port'', ''virtual_router'', ''vlan'']),
     (''rpf_group'', []),
     (''samplepacket'', []),
     (''scheduler'', []),
     (''scheduler_group'', [''port'', ''scheduler'', ''scheduler_group'']),
     (''srv6_sidlist'', [''counter'', ''next_hop'']),
     (''switch'', [''acl_table'', ''acl_table_group'', ''ars_profile'', ''counter'', ''hash'', ''ipsec'', ''macsec'',
        ''nat_zone_counter'', ''poe_device'', ''qos_map'', ''switch_tunnel'', ''tam'']),
     (''tunnel'', [''counter'', ''port'', ''qos_map'', ''router_interface'', ''tunnel_map'']),
     (''tunnel_map'', []),
     (''tunnel_map_entry'', [''bridge'', ''tunnel_map'', ''virtual_router'']),
     (''tunnel_term_table_entry'', [''tunnel'', ''virtual_router'']),
     (''virtual_router'', []),
     (''vlan'', [''acl_table'', ''acl_table_group'', ''counter'', ''l2mc_group'', ''stp'', ''tam'']),
     (''vlan_member'', [''bridge_port'', ''vlan'']),
     (''wred'', [])]"

definition may_refer :: "string \<Rightarrow> string \<Rightarrow> bool" where
  "may_refer ty t \<longleftrightarrow> (case map_of refers_to ty of None \<Rightarrow> True | Some ts \<Rightarrow> t \<in> set ts)"

text \<open>Entries have a key in place of an identifier, and nothing refers to them.\<close>

definition entry_types :: "string list" where
  "entry_types = [''route_entry'', ''neighbor_entry'', ''fdb_entry'', ''inseg_entry'', ''nat_entry'', ''mcast_fdb_entry'',
     ''l2mc_entry'', ''ipmc_entry'', ''my_sid_entry'']"

definition is_oid :: "sai_val \<Rightarrow> bool" where "is_oid v \<longleftrightarrow> (case v of VInt i \<Rightarrow> True | _ \<Rightarrow> False)"

section \<open>The device\<close>

type_synonym objects = "sai_val \<Rightarrow> string option"
type_synonym uses = "(sai_val \<times> sai_val) set"

text \<open>Fewer entries, the same objects otherwise.\<close>

definition left_over :: "objects \<Rightarrow> objects \<Rightarrow> bool" where
  "left_over A B \<longleftrightarrow> A \<subseteq>\<^sub>m B \<and> (\<forall>v. is_oid v \<longrightarrow> A v = B v)"

lemma left_over_refl [simp]: "left_over A A" by (simp add: left_over_def)

lemma left_over_trans: "left_over A B \<Longrightarrow> left_over B C \<Longrightarrow> left_over A C"
  by (auto simp: left_over_def intro: map_le_trans)

text \<open>A new object refers to existing ones, of the types its own type allows. A call that raises
  changes nothing, and neither does a creation that returns the identifier 0. An object is removed unless
  another one refers to it.\<close>

definition created :: "('d \<Rightarrow> objects) \<Rightarrow> ('d \<Rightarrow> uses) \<Rightarrow> string \<Rightarrow> sai_val \<Rightarrow> 'd \<Rightarrow> 'd \<Rightarrow> bool" where
  "created objs uses ty v d d' \<longleftrightarrow> objs d v = None \<and> objs d' = (objs d)(v \<mapsto> ty)
     \<and> (\<exists>R. uses d' = uses d \<union> {v} \<times> R \<and> (\<forall>w \<in> R. \<exists>t. objs d w = Some t \<and> may_refer ty t))"

definition unchanged :: "('d \<Rightarrow> objects) \<Rightarrow> ('d \<Rightarrow> uses) \<Rightarrow> 'd \<Rightarrow> 'd \<Rightarrow> bool" where
  "unchanged objs uses d d' \<longleftrightarrow> objs d' = objs d \<and> uses d' = uses d"

text \<open>A call of the library, and the setting of an attribute that holds no object, at most lose FDB entries.\<close>

definition settled :: "('d \<Rightarrow> objects) \<Rightarrow> ('d \<Rightarrow> uses) \<Rightarrow> 'd \<Rightarrow> 'd \<Rightarrow> bool" where
  "settled objs uses d d' \<longleftrightarrow> (\<exists>K. (\<forall>v \<in> K. objs d v = Some ''fdb_entry'') \<and> objs d' = objs d |` (- K)
     \<and> uses d' = uses d - K \<times> UNIV)"

definition wf_objects :: "objects \<Rightarrow> uses \<Rightarrow> bool" where
  "wf_objects B U \<longleftrightarrow> B (VInt 0) = None \<and> (\<forall>v t. B v = Some t \<longrightarrow> (t \<in> set entry_types \<longleftrightarrow> \<not> is_oid v))
     \<and> (\<forall>(u, v) \<in> U. is_oid v \<and> v \<in> dom B \<and> u \<noteq> v)"

definition object_attrs :: "string list" where
  "object_attrs = [''acl_group'', ''acl_table_chain_group_id'', ''acl_table_group_id'', ''acl_table_id'', ''action_chain_redirect'',
     ''action_counter'', ''action_dtel_int_session'', ''action_egress_block_port_list'', ''action_egress_samplepacket_enable'',
     ''action_ingress_samplepacket_enable'', ''action_list'', ''action_macsec_flow'', ''action_mirror_egress'',
     ''action_mirror_ingress'', ''action_redirect'', ''action_redirect_list'', ''action_set_ars_monitoring'',
     ''action_set_ars_object'', ''action_set_ecmp_hash_id'', ''action_set_isolation_group'', ''action_set_lag_hash_id'',
     ''action_set_policer'', ''action_set_user_trap_id'', ''action_set_vrf'', ''action_tam_int_object'', ''action_tam_object'',
     ''action_tunnel_id'', ''ars_object_id'', ''ars_profile'', ''bridge_id'', ''bridge_id_key'', ''bridge_id_value'',
     ''bridge_port'', ''bridge_port_id'', ''bridge_port_next_hop_group_id'', ''bridge_port_protection_next_hop_group_id'',
     ''broadcast_flood_group'', ''broadcast_storm_control_policer_id'', ''buffer_pool_id'', ''buffer_profile'',
     ''buffer_profile_id'', ''bv_id'', ''collector_list'', ''counter_id'', ''decap_mappers'', ''decap_qos_dscp_to_tc_map'',
     ''decap_qos_tc_to_priority_group_map'', ''destination'', ''device_id'', ''dst_prefix_compression_table'',
     ''ecmp_hash_ipv4'', ''ecmp_hash_ipv4_in_ipv4'', ''ecmp_hash_ipv4_rdma'', ''ecmp_hash_ipv6'', ''ecmp_hash_ipv6_rdma'',
     ''egress_acl'', ''egress_block_port_list'', ''egress_macsec_acl'', ''egress_mirror_session'', ''egress_port_or_lag'',
     ''egress_sample_mirror_session'', ''egress_samplepacket_enable'', ''encap_mappers'',
     ''encap_qos_tc_and_color_to_dscp_map'', ''encap_qos_tc_to_queue_map'', ''event_objects_list'', ''exclude_port_list'',
     ''field_acl_range_type'', ''field_in_port'', ''field_in_ports'', ''field_out_port'', ''field_out_ports'',
     ''field_src_port'', ''field_vrf_id'', ''fine_grained_hash_field_list'', ''flood_storm_control_policer_id'', ''flow_id'',
     ''group_id'', ''host_if'', ''hostif_trap'', ''ingress_acl'', ''ingress_macsec_acl'', ''ingress_mirror_session'',
     ''ingress_sample_mirror_session'', ''ingress_samplepacket_enable'', ''int_objects_list'', ''ipmc_group_id'',
     ''ipmc_output_id'', ''ipmc_output_list'', ''ipsec_id'', ''ipsec_object_id'', ''ipsec_port_list'', ''ipsec_sa_port_list'',
     ''isolation_group'', ''isolation_group_id'', ''isolation_object'', ''l2mc_group_id'', ''l2mc_output_id'',
     ''lag_hash_ipv4'', ''lag_hash_ipv4_in_ipv4'', ''lag_hash_ipv4_rdma'', ''lag_hash_ipv6'', ''lag_hash_ipv6_rdma'',
     ''lag_id'', ''line_side_failover_port_id'', ''line_side_port_id'', ''llr_profile'', ''macsec_object_list'',
     ''macsec_port_id'', ''match_id'', ''math_func'', ''mirror_session'', ''monitor_port'', ''monitor_portlist'',
     ''monitored_object'', ''mpls_exp_to_color_map'', ''mpls_exp_to_tc_map'', ''multicast_storm_control_policer_id'',
     ''my_mac'', ''nat_zone_counter_object_id'', ''next_hop_group_id'', ''next_hop_id'', ''next_hop_list'',
     ''next_hop_member_counter_list'', ''obj_id'', ''object_id'', ''output_group_id'', ''overlay_interface'', ''parent_node'',
     ''parent_scheduler_node'', ''poe_device_list'', ''policer'', ''policer_id'', ''pool_id'', ''port'', ''port_id'',
     ''pre_ingress_acl'', ''qos_dot1p_to_color_map'', ''qos_dot1p_to_tc_map'', ''qos_dscp_to_color_map'',
     ''qos_dscp_to_forwarding_class_map'', ''qos_dscp_to_tc_map'', ''qos_egress_buffer_profile_list'',
     ''qos_ingress_buffer_profile_list'', ''qos_mpls_exp_to_color_map'', ''qos_mpls_exp_to_forwarding_class_map'',
     ''qos_mpls_exp_to_tc_map'', ''qos_pfc_priority_to_priority_group_map'', ''qos_pfc_priority_to_queue_map'',
     ''qos_scheduler_profile_id'', ''qos_tc_and_color_to_dot1p_map'', ''qos_tc_and_color_to_dscp_map'',
     ''qos_tc_and_color_to_mpls_exp_map'', ''qos_tc_to_priority_group_map'', ''qos_tc_to_queue_map'', ''qos_wred_profile_id'',
     ''queue_id'', ''receive_port'', ''report_id'', ''report_session'', ''report_type'', ''rif_id'', ''router_interface_id'',
     ''rpf_group_id'', ''rpf_interface_id'', ''rx_port'', ''samplepacket_enable'', ''sc_id'', ''scheduler_profile_id'',
     ''selection_map'', ''selective_counter_list'', ''sink_port_list'', ''src_port'', ''src_prefix_compression_table'',
     ''srv6_sidlist_id'', ''stp'', ''stp_instance'', ''system_side_failover_port_id'', ''system_side_port_id'', ''table_id'',
     ''tam'', ''tam_object'', ''tam_object_id'', ''tam_type_list'', ''tel_type'', ''telemetry_objects_list'', ''threshold'',
     ''transmit_port'', ''transport'', ''trap_group'', ''trap_id'', ''tunnel_id'', ''tunnel_map'', ''tunnel_map_id_value'',
     ''tunnel_objects_list'', ''udf_group_list'', ''underlay_interface'', ''unknown_ipv4_mcast_output_group_id'',
     ''unknown_ipv6_mcast_output_group_id'', ''unknown_linklocal_mcast_output_group_id'', ''unknown_multicast_flood_group'',
     ''unknown_non_ip_mcast_output_group_id'', ''unknown_unicast_flood_group'', ''user_defined_field_group_max'',
     ''user_defined_field_group_min'', ''user_trap_id'', ''virtual_router'', ''virtual_router_id'', ''virtual_router_id_key'',
     ''virtual_router_id_value'', ''vlan_id'', ''vr_id'', ''vrf'', ''wred_profile_id'']"

definition makes_objects :: "'d PtfPorts.sai_client \<Rightarrow> ('d \<Rightarrow> objects) \<Rightarrow> ('d \<Rightarrow> uses) \<Rightarrow> bool" where
  "makes_objects sai objs uses \<longleftrightarrow> (\<forall>ty a d r d'. ty \<notin> set entry_types \<longrightarrow> sai_create sai ty a d = (r, d') \<longrightarrow>
     (case r of Inl e \<Rightarrow> unchanged objs uses d d' | Inr i \<Rightarrow>
        if i = 0 then unchanged objs uses d d' else created objs uses ty (VInt i) d d'))"

definition makes_entries :: "'d PtfPorts.sai_client \<Rightarrow> ('d \<Rightarrow> objects) \<Rightarrow> ('d \<Rightarrow> uses) \<Rightarrow> bool" where
  "makes_entries sai objs uses \<longleftrightarrow> (\<forall>ty k a d r d'. ty \<in> set entry_types \<longrightarrow> sai_create sai ty ((ty, k) # a) d = (r, d') \<longrightarrow>
     unchanged objs uses d d' \<or> (r \<in> range Inr \<and> created objs uses ty k d d'))"

definition removes_unused :: "'d PtfPorts.sai_client \<Rightarrow> ('d \<Rightarrow> objects) \<Rightarrow> ('d \<Rightarrow> uses) \<Rightarrow> bool" where
  "removes_unused sai objs uses \<longleftrightarrow> (\<forall>ty v d r d'. sai_remove sai ty v d = (r, d') \<longrightarrow>
     (if r \<in> range Inr \<and> objs d v = Some ty \<and> v \<notin> snd ` uses d
      then objs d' = (objs d)(v := None) \<and> uses d' = uses d - {v} \<times> UNIV else unchanged objs uses d d'))"

definition sets_values :: "'d PtfPorts.sai_client \<Rightarrow> ('d \<Rightarrow> objects) \<Rightarrow> ('d \<Rightarrow> uses) \<Rightarrow> bool" where
  "sets_values sai objs uses \<longleftrightarrow> (\<forall>ty v a d. set (map fst a) \<inter> set object_attrs = {} \<longrightarrow> unchanged objs uses d (snd (sai_set sai ty v a d)))"

definition reads_values :: "'d PtfPorts.sai_client \<Rightarrow> ('d \<Rightarrow> objects) \<Rightarrow> ('d \<Rightarrow> uses) \<Rightarrow> bool" where
  "reads_values sai objs uses \<longleftrightarrow> (\<forall>ty v a d. unchanged objs uses d (snd (sai_get sai ty v a d)))"

definition script_device :: "'d PtfPorts.sai_client \<Rightarrow> (string \<Rightarrow> sai_val list \<Rightarrow> (string \<times> sai_val) list \<Rightarrow> ('d, sai_val) py)
    \<Rightarrow> ('d \<Rightarrow> objects) \<Rightarrow> ('d \<Rightarrow> uses) \<Rightarrow> bool" where
  "script_device sai libf objs uses \<longleftrightarrow> (\<forall>d. wf_objects (objs d) (uses d)) \<and> makes_objects sai objs uses
     \<and> makes_entries sai objs uses \<and> removes_unused sai objs uses \<and> sets_values sai objs uses \<and> reads_values sai objs uses
     \<and> (\<forall>f vs ks d. settled objs uses d (snd (libf f vs ks d)))"

text \<open>The laws one by one.\<close>

lemma device_laws:
  assumes "script_device sai libf objs uses"
  shows device_wf: "wf_objects (objs d) (uses d)"
    and device_create: "ty \<notin> set entry_types \<Longrightarrow> sai_create sai ty a d = (r, d') \<Longrightarrow> (case r of Inl e \<Rightarrow> unchanged objs uses d d'
        | Inr i \<Rightarrow> if i = 0 then unchanged objs uses d d' else created objs uses ty (VInt i) d d')"
    and device_entry: "ty \<in> set entry_types \<Longrightarrow> sai_create sai ty ((ty, k) # a) d = (r, d') \<Longrightarrow>
        unchanged objs uses d d' \<or> (r \<in> range Inr \<and> created objs uses ty k d d')"
    and device_remove: "sai_remove sai ty v d = (q, d') \<Longrightarrow> (if q \<in> range Inr \<and> objs d v = Some ty \<and> v \<notin> snd ` uses d
        then objs d' = (objs d)(v := None) \<and> uses d' = uses d - {v} \<times> UNIV else unchanged objs uses d d')"
    and device_set: "sai_set sai ty v a d = (q, d') \<Longrightarrow> set (map fst a) \<inter> set object_attrs = {} \<Longrightarrow> unchanged objs uses d d'"
    and device_get: "sai_get sai ty v a d = (g, d') \<Longrightarrow> unchanged objs uses d d'"
    and device_lib: "libf f vs ks d = (w, d') \<Longrightarrow> settled objs uses d d'"
proof -
  have a: "\<forall>d. wf_objects (objs d) (uses d)" "makes_objects sai objs uses" "makes_entries sai objs uses"
    "removes_unused sai objs uses" "sets_values sai objs uses" "reads_values sai objs uses"
    "\<forall>f vs ks d. settled objs uses d (snd (libf f vs ks d))"
    using assms by (simp_all add: script_device_def)
  show "wf_objects (objs d) (uses d)" using a(1) by simp
  show "ty \<notin> set entry_types \<Longrightarrow> sai_create sai ty a d = (r, d') \<Longrightarrow> (case r of Inl e \<Rightarrow> unchanged objs uses d d'
        | Inr i \<Rightarrow> if i = 0 then unchanged objs uses d d' else created objs uses ty (VInt i) d d')"
    using a(2) unfolding makes_objects_def by blast
  show "ty \<in> set entry_types \<Longrightarrow> sai_create sai ty ((ty, k) # a) d = (r, d') \<Longrightarrow>
        unchanged objs uses d d' \<or> (r \<in> range Inr \<and> created objs uses ty k d d')"
    using a(3) unfolding makes_entries_def by blast
  show "sai_remove sai ty v d = (q, d') \<Longrightarrow> (if q \<in> range Inr \<and> objs d v = Some ty \<and> v \<notin> snd ` uses d
        then objs d' = (objs d)(v := None) \<and> uses d' = uses d - {v} \<times> UNIV else unchanged objs uses d d')"
    using a(4) unfolding removes_unused_def by blast
  show "sai_set sai ty v a d = (q, d') \<Longrightarrow> set (map fst a) \<inter> set object_attrs = {} \<Longrightarrow> unchanged objs uses d d'"
    using a(5) unfolding sets_values_def by (metis snd_conv)
  show "sai_get sai ty v a d = (g, d') \<Longrightarrow> unchanged objs uses d d'"
    using a(6) unfolding reads_values_def by (metis snd_conv)
  show "libf f vs ks d = (w, d') \<Longrightarrow> settled objs uses d d'" using a(7) by (metis snd_conv)
qed

section \<open>The objects a test has made\<close>

text \<open>Of two of them, the newer one is not referred to by the older one.\<close>

definition newer :: "uses \<Rightarrow> sai_val \<times> string \<Rightarrow> sai_val \<times> string \<Rightarrow> bool" where
  "newer U = (\<lambda>(j, tj) (i, ti). (i, j) \<notin> U \<and> ((j, i) \<in> U \<longrightarrow> may_refer tj ti))"

definition dev_has :: "objects \<times> uses \<Rightarrow> (sai_val \<times> string) list \<Rightarrow> objects \<Rightarrow> uses \<Rightarrow> bool" where
  "dev_has B l objs uses \<longleftrightarrow> distinct (map fst l)
     \<and> (\<exists>A. left_over A (fst B) \<and> fst ` set l \<inter> dom A = {} \<and> objs = A ++ map_of l)
     \<and> sorted_wrt (newer uses) l
     \<and> (\<forall>(u, v) \<in> uses. u \<noteq> v \<and> (v \<in> fst ` set l \<longrightarrow> u \<in> fst ` set l) \<and> (u \<notin> fst ` set l \<longrightarrow> (u, v) \<in> snd B))"

lemma newer_mono: "U' \<subseteq> U \<Longrightarrow> newer U p q \<Longrightarrow> newer U' p q"
  by (auto simp: newer_def)

lemma dev_has_start: "wf_objects B U \<Longrightarrow> dev_has (B, U) [] B U"
  by (auto simp: dev_has_def wf_objects_def intro: exI [of _ B])

lemma dev_has_end: "dev_has B [] objs uses \<Longrightarrow> left_over objs (fst B) \<and> uses \<subseteq> snd B"
  by (auto simp: dev_has_def)

lemma dev_has_rest: "dev_has B l objs uses \<Longrightarrow> \<exists>A. left_over A (fst B) \<and> fst ` set l \<inter> dom A = {} \<and> objs = A ++ map_of l"
  by (simp add: dev_has_def)

lemma dev_has_list: "dev_has B l objs uses \<Longrightarrow> distinct (map fst l) \<and> sorted_wrt (newer uses) l"
  by (simp add: dev_has_def)

lemma dev_has_uses: "dev_has B l objs uses \<Longrightarrow> (x, y) \<in> uses \<Longrightarrow> x \<noteq> y \<and> (y \<in> fst ` set l \<longrightarrow> x \<in> fst ` set l)
  \<and> (x \<notin> fst ` set l \<longrightarrow> (x, y) \<in> snd B)"
  unfolding dev_has_def by fast

lemma dev_has_made:
  assumes "dev_has B l (objs d) (uses d)" "created objs uses ty v d d'" "wf_objects (objs d) (uses d)" "wf_objects (objs d') (uses d')"
  shows "dev_has B ((v, ty) # l) (objs d') (uses d')"
proof -
  obtain A where A: "left_over A (fst B)" "fst ` set l \<inter> dom A = {}" "objs d = A ++ map_of l"
    using dev_has_rest [OF assms(1)] by blast
  note d = conjunct1 [OF dev_has_list [OF assms(1)]] and s = conjunct2 [OF dev_has_list [OF assms(1)]] and u = dev_has_uses [OF assms(1)]
  obtain R where n: "objs d v = None" "objs d' = (objs d)(v \<mapsto> ty)" "uses d' = uses d \<union> {v} \<times> R"
    and R: "\<And>w. w \<in> R \<Longrightarrow> \<exists>t. objs d w = Some t \<and> may_refer ty t" using assms(2) unfolding created_def by blast
  have vl: "v \<notin> fst ` set l" "A v = None"
    using n(1) unfolding A(3) by (auto simp: map_add_None map_of_eq_None_iff)
  have vd: "(x, v) \<notin> uses d" for x
  proof
    assume "(x, v) \<in> uses d"
    then have "v \<in> dom (objs d)" using assms(3) unfolding wf_objects_def by blast
    then show False using n(1) by blast
  qed
  have vR: "v \<notin> R" using R [of v] n(1) by auto
  have ov: "(v, y) \<notin> uses d" if "y \<in> fst ` set l" for y using u that vl(1) by blast
  have tl: "objs d j = Some t" if "(j, t) \<in> set l" for j t
    using that d unfolding A(3) by (simp add: map_add_Some_iff)
  have c1: "distinct (map fst ((v, ty) # l))" using d vl(1) by simp
  have c2: "\<exists>A. left_over A (fst B) \<and> fst ` set ((v, ty) # l) \<inter> dom A = {} \<and> objs d' = A ++ map_of ((v, ty) # l)"
    by (rule exI [of _ A]) (use A vl in \<open>auto simp: n(2)\<close>)
  have c3: "sorted_wrt (newer (uses d')) ((v, ty) # l)"
  proof -
    have "newer (uses d') (v, ty) (i, t)" if "(i, t) \<in> set l" for i t
    proof -
      have i: "i \<noteq> v" using that vl(1) by force
      have "may_refer ty t" if "i \<in> R" using R [OF that] tl [OF \<open>(i, t) \<in> set l\<close>] by auto
      moreover have "(v, i) \<notin> uses d" using ov that by force
      ultimately show ?thesis using i vd by (simp add: newer_def n(3))
    qed
    moreover have "newer (uses d') p q" if "newer (uses d) p q" "p \<in> set l" "q \<in> set l" for p q
    proof -
      have "fst p \<noteq> v" "fst q \<noteq> v" using that vl(1) by force+
      then show ?thesis using that(1) by (cases p; cases q) (simp add: newer_def n(3))
    qed
    ultimately have "sorted_wrt (newer (uses d')) l" using sorted_wrt_mono_rel [OF _ s] by blast
    then show ?thesis using \<open>\<And>i t. (i, t) \<in> set l \<Longrightarrow> newer (uses d') (v, ty) (i, t)\<close> by auto
  qed
  have c4: "x \<noteq> y \<and> (y \<in> fst ` set ((v, ty) # l) \<longrightarrow> x \<in> fst ` set ((v, ty) # l))
      \<and> (x \<notin> fst ` set ((v, ty) # l) \<longrightarrow> (x, y) \<in> snd B)" if "(x, y) \<in> uses d'" for x y
    using that u [of x y] vd [of x] vR unfolding n(3) by auto
  show ?thesis unfolding dev_has_def using c1 c2 c3 c4 by blast
qed

text \<open>An object is removed when no newer one can refer to it.\<close>

lemma dev_has_unused:
  assumes "dev_has B (xs @ (v, ty) # ys) objs uses" "\<And>t. t \<in> snd ` set xs \<Longrightarrow> \<not> may_refer t ty"
  shows "v \<notin> snd ` uses"
proof
  assume "v \<in> snd ` uses"
  then obtain x where x: "(x, v) \<in> uses" by force
  have "x \<noteq> v \<and> (v \<in> fst ` set (xs @ (v, ty) # ys) \<longrightarrow> x \<in> fst ` set (xs @ (v, ty) # ys))"
    using dev_has_uses [OF assms(1) x] by blast
  then obtain t where t: "(x, t) \<in> set xs \<or> (x, t) \<in> set ys" by force
  have s: "sorted_wrt (newer uses) (xs @ (v, ty) # ys)" using dev_has_list [OF assms(1)] by simp
  from t show False
  proof
    assume q: "(x, t) \<in> set xs"
    then have "newer uses (x, t) (v, ty)" using s by (simp add: sorted_wrt_append)
    then have "may_refer t ty" using x by (simp add: newer_def)
    then show False using assms(2) [of t] q by force
  next
    assume "(x, t) \<in> set ys"
    then have "newer uses (v, ty) (x, t)" using s by (simp add: sorted_wrt_append)
    then show False using x by (simp add: newer_def)
  qed
qed

lemma dev_has_sub:
  assumes "dev_has B l objs uses" "\<And>v. v \<in> K \<Longrightarrow> v \<notin> snd ` uses" "\<And>v. v \<in> K \<Longrightarrow> v \<in> fst ` set l \<or> \<not> is_oid v"
  shows "dev_has B (filter (\<lambda>p. fst p \<notin> K) l) (objs |` (- K)) (uses - K \<times> UNIV)"
proof -
  obtain A where A: "left_over A (fst B)" "fst ` set l \<inter> dom A = {}" "objs = A ++ map_of l"
    using dev_has_rest [OF assms(1)] by blast
  note d = conjunct1 [OF dev_has_list [OF assms(1)]] and s = conjunct2 [OF dev_has_list [OF assms(1)]] and u = dev_has_uses [OF assms(1)]
  let ?l = "filter (\<lambda>p. fst p \<notin> K) l"
  have m: "map_of ?l = map_of l |` (- K)" by (induction l) (auto simp: fun_eq_iff restrict_map_def)
  have lo: "left_over (A |` (- K)) (fst B)"
  proof -
    have "(A |` (- K)) v = fst B v" if "is_oid v" for v
    proof (cases "v \<in> K")
      case True
      then have "v \<in> fst ` set l" using assms(3) that by blast
      then have "A v = None" using A(2) by blast
      then show ?thesis using A(1) that unfolding left_over_def by (metis restrict_map_def)
    qed (use A(1) that in \<open>auto simp: left_over_def\<close>)
    then show ?thesis using A(1) unfolding left_over_def map_le_def by (auto simp: restrict_map_def split: if_splits)
  qed
  have c1: "distinct (map fst ?l)" using d by (simp add: distinct_map_filter)
  have c2: "objs |` (- K) = (A |` (- K)) ++ map_of ?l"
    unfolding A(3) m by (auto simp: fun_eq_iff restrict_map_def map_add_def)
  have c3: "fst ` set ?l \<inter> dom (A |` (- K)) = {}" using A(2) by auto
  have c4: "sorted_wrt (newer (uses - K \<times> UNIV)) ?l"
    by (rule sorted_wrt_filter, rule sorted_wrt_mono_rel [OF _ s]) (auto simp: newer_def)
  have c5: "x \<noteq> y \<and> (y \<in> fst ` set ?l \<longrightarrow> x \<in> fst ` set ?l) \<and> (x \<notin> fst ` set ?l \<longrightarrow> (x, y) \<in> snd B)" if "(x, y) \<in> uses - K \<times> UNIV" for x y
    using that u [of x y] by auto
  show ?thesis unfolding dev_has_def using c1 lo c2 c3 c4 c5 by blast
qed

section \<open>What variables and attributes hold\<close>

datatype place = Local string | Attr string | AllLocal string | AllAttr string | Given "sai_val list"

text \<open>An attribute that is not one of the base class.\<close>

definition base_names :: "string list" where
  "base_names = [''default_1q_bridge'', ''default_vlan_id'', ''default_vrf'', ''switch_id'', ''port_list'', ''active_ports_no'', ''cpu_port_hdl'']"

definition attr_of :: "string \<Rightarrow> 'd script \<Rightarrow> sai_val option" where
  "attr_of k s = (case map_of (b_attrs (sc_base s)) k of Some v \<Rightarrow> Some v
     | None \<Rightarrow> if k \<in> set base_names then None else (case se_missing (sc_env s) k of Inr v \<Rightarrow> Some v | Inl _ \<Rightarrow> None))"

lemma base_field_names: "base_field b k \<noteq> None \<Longrightarrow> k \<in> set base_names"
  by (auto simp: base_field_def base_names_def split: if_splits)

lemma self_attr: "self k s = (Inr v, t) \<Longrightarrow> k \<notin> set base_names \<Longrightarrow> attr_of k s = Some v \<and> t = s"
  using base_field_names [of "sc_base s" k] by (auto simp: self_def attr_of_def bindP_apply split: option.splits)

lemma attr_self: "attr_of k s = Some v \<Longrightarrow> self k s = (Inr v, s)"
  using base_field_names [of "sc_base s" k]
  by (cases "base_field (sc_base s) k") (auto simp: self_def attr_of_def bindP_apply split: option.splits sum.splits if_splits)

text \<open>The newest first: the elements of a list are appended as they are made.\<close>

fun place_vals :: "place \<Rightarrow> 'd script \<Rightarrow> sai_val list option" where
  "place_vals (Local x) s = map_option (\<lambda>v. [v]) (map_of (sc_locals s) x)"
| "place_vals (Attr k) s = map_option (\<lambda>v. [v]) (attr_of k s)"
| "place_vals (AllLocal x) s = Option.bind (map_of (sc_locals s) x) (\<lambda>v. map_option rev (seq_of v))"
| "place_vals (AllAttr k) s = Option.bind (attr_of k s) (\<lambda>v. map_option rev (seq_of v))"
| "place_vals (Given vs) s = Some vs"

type_synonym places = "(place \<times> string) list"

fun held :: "places \<Rightarrow> 'd script \<Rightarrow> (sai_val \<times> string) list option" where
  "held [] s = Some []"
| "held ((p, ty) # l) s = (case (place_vals p s, held l s) of
     (Some vs, Some r) \<Rightarrow> Some (map (\<lambda>v. (v, ty)) vs @ r) | _ \<Rightarrow> None)"

fun locals_in :: "places \<Rightarrow> string set" where
  "locals_in [] = {}"
| "locals_in ((p, ty) # l) = (case p of Local x \<Rightarrow> {x} | AllLocal x \<Rightarrow> {x} | _ \<Rightarrow> {}) \<union> locals_in l"

fun attrs_in :: "places \<Rightarrow> string set" where
  "attrs_in [] = {}"
| "attrs_in ((p, ty) # l) = (case p of Attr k \<Rightarrow> {k} | AllAttr k \<Rightarrow> {k} | _ \<Rightarrow> {}) \<union> attrs_in l"

lemma held_append: "held (l @ l') s = (case (held l s, held l' s) of (Some r, Some r') \<Rightarrow> Some (r @ r') | _ \<Rightarrow> None)"
  by (induction l) (auto split: option.splits)

lemma held_cong:
  assumes "\<And>x. x \<in> locals_in l \<Longrightarrow> map_of (sc_locals t) x = map_of (sc_locals s) x"
    "\<And>k. k \<in> attrs_in l \<Longrightarrow> map_of (b_attrs (sc_base t)) k = map_of (b_attrs (sc_base s)) k"
    and "sc_env t = sc_env s"
  shows "held l t = held l s"
  using assms
proof (induction l)
  case (Cons p l)
  obtain q ty where p: "p = (q, ty)" by fastforce
  have "held l t = held l s" using Cons p by auto
  moreover have "attr_of k t = attr_of k s" if "k \<in> attrs_in (p # l)" for k
    using Cons.prems(2) [OF that] unfolding attr_of_def Cons.prems(3) by simp
  then have "place_vals q t = place_vals q s" using Cons.prems(1) p by (cases q) auto
  ultimately show ?case by (simp add: p)
qed simp

text \<open>Some of the values stand for no object: a creation that failed, and an entry that was not made or
  is gone.\<close>

inductive chosen :: "(sai_val \<times> string) list \<Rightarrow> (sai_val \<times> string) list \<Rightarrow> bool" where
  chosen_Nil: "chosen [] []"
| chosen_take: "chosen l ps \<Longrightarrow> chosen (p # l) (p # ps)"
| chosen_skip: "chosen l ps \<Longrightarrow> fst p = VInt 0 \<or> snd p \<in> set entry_types \<Longrightarrow> chosen (p # l) ps"

inductive_cases chosen_ConsE: "chosen (p # l) ps"
inductive_cases chosen_NilE: "chosen [] ps"

lemma chosen_append: "chosen l ps \<Longrightarrow> chosen l' ps' \<Longrightarrow> chosen (l @ l') (ps @ ps')"
  by (induction rule: chosen.induct) (auto intro: chosen.intros)

lemma chosen_appendD: "chosen (l @ l') ps \<Longrightarrow> \<exists>p1 p2. ps = p1 @ p2 \<and> chosen l p1 \<and> chosen l' p2"
proof (induction l arbitrary: ps)
  case Nil
  then show ?case by (auto intro: chosen_Nil)
next
  case (Cons a l)
  from Cons.prems have "chosen (a # (l @ l')) ps" by simp
  then show ?case
  proof (rule chosen_ConsE)
    fix qs assume q: "ps = a # qs" "chosen (l @ l') qs"
    then obtain p1 p2 where "qs = p1 @ p2" "chosen l p1" "chosen l' p2" using Cons.IH by blast
    then have "ps = (a # p1) @ p2 \<and> chosen (a # l) (a # p1) \<and> chosen l' p2"
      using q by (simp add: chosen.intros)
    then show ?thesis by blast
  next
    assume q: "chosen (l @ l') ps" "fst a = VInt 0 \<or> snd a \<in> set entry_types"
    then obtain p1 p2 where "ps = p1 @ p2" "chosen l p1" "chosen l' p2" using Cons.IH by blast
    then show ?thesis using q chosen.intros(3) by blast
  qed
qed

lemma chosen_set: "chosen l ps \<Longrightarrow> set ps \<subseteq> set l"
  by (induction rule: chosen.induct) auto

lemma chosen_filter:
  "chosen l ps \<Longrightarrow> (\<And>p. p \<in> set ps \<Longrightarrow> \<not> P p \<Longrightarrow> snd p \<in> set entry_types) \<Longrightarrow> chosen l (filter P ps)"
proof (induction rule: chosen.induct)
  case (chosen_take l ps p)
  have c: "chosen l (filter P ps)" using chosen_take by simp
  show ?case
  proof (cases "P p")
    case False
    then have "snd p \<in> set entry_types" using chosen_take.prems [of p] by simp
    then show ?thesis using c False chosen.intros(3) by simp
  qed (simp add: c chosen.intros(2))
qed (auto intro: chosen.intros)

text \<open>The lists in which the base class records its objects stay as they are, and it keeps its attributes.\<close>

record 'd ghost =
  g_env :: "'d script_env"
  g_objs :: "'d \<Rightarrow> objects"
  g_uses :: "'d \<Rightarrow> uses"
  g_start :: "objects \<times> uses"
  g_base :: "'d base"

definition keeps_base :: "'d base \<Rightarrow> 'd base \<Rightarrow> bool" where
  "keeps_base b c \<longleftrightarrow> owned c = owned b \<and> fst ` set (b_attrs b) \<subseteq> fst ` set (b_attrs c)"

definition own :: "'d ghost \<Rightarrow> places \<Rightarrow> 'd script \<Rightarrow> bool" where
  "own G l s \<longleftrightarrow> sc_env s = g_env G \<and> keeps_base (g_base G) (sc_base s)
     \<and> (\<exists>ids ps. held l s = Some ids \<and> chosen ids ps
          \<and> dev_has (g_start G) ps (g_objs G (b_dev (sc_base s))) (g_uses G (b_dev (sc_base s))))"

definition good_ghost :: "'d ghost \<Rightarrow> bool" where
  "good_ghost G \<longleftrightarrow> script_device (se_client (g_env G)) (se_lib (g_env G)) (g_objs G) (g_uses G)"

text \<open>A statement from \<open>P\<close> that goes on, goes on in \<open>Q\<close>, and never leaves the block otherwise.\<close>

definition ok :: "('d script \<Rightarrow> bool) \<Rightarrow> 'd stmt \<Rightarrow> ('d script \<Rightarrow> bool) \<Rightarrow> bool" where
  "ok P m Q \<longleftrightarrow> (\<forall>s f t. P s \<longrightarrow> m s = (Inr f, t) \<longrightarrow> f = Next \<and> Q t)"

lemma okI: "(\<And>s f t. P s \<Longrightarrow> m s = (Inr f, t) \<Longrightarrow> f = Next \<and> Q t) \<Longrightarrow> ok P m Q"
  by (simp add: ok_def)

lemma okD: "ok P m Q \<Longrightarrow> P s \<Longrightarrow> m s = (Inr f, t) \<Longrightarrow> f = Next \<and> Q t"
  unfolding ok_def by blast

lemma ok_Nil: "ok P (block []) P"
  by (rule okI) simp

lemma ok_Cons: "ok P m R \<Longrightarrow> ok R (block ms) Q \<Longrightarrow> ok P (block (m # ms)) Q"
  unfolding ok_def block.simps bindP_eq_Inr by (auto split: if_splits)

section \<open>Quiet statements\<close>

text \<open>A quiet action assigns only the variables \<open>L\<close> and attributes \<open>K\<close>, and leaves the device settled,
  also when it raises.\<close>

definition quiet_step :: "'d ghost \<Rightarrow> string set \<Rightarrow> string set \<Rightarrow> 'd script \<Rightarrow> 'd script \<Rightarrow> bool" where
  "quiet_step G L K s t \<longleftrightarrow> sc_env t = g_env G
     \<and> settled (g_objs G) (g_uses G) (b_dev (sc_base s)) (b_dev (sc_base t)) \<and> keeps_base (sc_base s) (sc_base t)
     \<and> (\<forall>x. x \<notin> L \<longrightarrow> map_of (sc_locals t) x = map_of (sc_locals s) x)
     \<and> (\<forall>k. k \<notin> K \<longrightarrow> map_of (b_attrs (sc_base t)) k = map_of (b_attrs (sc_base s)) k)"

definition quiet :: "'d ghost \<Rightarrow> string set \<Rightarrow> string set \<Rightarrow> ('d script, 'a) py \<Rightarrow> bool" where
  "quiet G L K m \<longleftrightarrow> (\<forall>s r t. sc_env s = g_env G \<longrightarrow> m s = (r, t) \<longrightarrow> quiet_step G L K s t)"

lemma quietI: "(\<And>s r t. sc_env s = g_env G \<Longrightarrow> m s = (r, t) \<Longrightarrow> quiet_step G L K s t) \<Longrightarrow> quiet G L K m"
  by (simp add: quiet_def)

lemma quietD: "quiet G L K m \<Longrightarrow> sc_env s = g_env G \<Longrightarrow> m s = (r, t) \<Longrightarrow> quiet_step G L K s t"
  unfolding quiet_def by blast

lemma settled_refl [simp]: "unchanged objs uses d d' \<Longrightarrow> settled objs uses d d'" "settled objs uses d d"
proof -
  show "settled objs uses d d" unfolding settled_def by (rule exI [of _ "{}"]) (simp add: restrict_map_def)
  then show "unchanged objs uses d d' \<Longrightarrow> settled objs uses d d'" by (simp add: settled_def unchanged_def)
qed

lemma settled_trans:
  assumes "settled objs uses a b" "settled objs uses b c" shows "settled objs uses a c"
proof -
  obtain K where K: "\<And>v. v \<in> K \<Longrightarrow> objs a v = Some ''fdb_entry''" "objs b = objs a |` (- K)" "uses b = uses a - K \<times> UNIV"
    using assms(1) unfolding settled_def by blast
  obtain J where J: "\<And>v. v \<in> J \<Longrightarrow> objs b v = Some ''fdb_entry''" "objs c = objs b |` (- J)" "uses c = uses b - J \<times> UNIV"
    using assms(2) unfolding settled_def by blast
  have "v \<in> J \<Longrightarrow> objs a v = Some ''fdb_entry''" for v using J(1) [of v] unfolding K(2) by (simp add: restrict_map_def split: if_splits)
  then show ?thesis unfolding settled_def using K J
    by (intro exI [of _ "K \<union> J"]) (auto simp: restrict_map_def fun_eq_iff)
qed

lemma keeps_base_refl [simp]: "keeps_base b b" by (simp add: keeps_base_def)

lemma keeps_base_trans: "keeps_base a b \<Longrightarrow> keeps_base b c \<Longrightarrow> keeps_base a c"
  by (auto simp: keeps_base_def)

lemma quiet_step_refl: "sc_env s = g_env G \<Longrightarrow> quiet_step G L K s s"
  by (simp add: quiet_step_def)

lemma quiet_step_env: "quiet_step G L K s t \<Longrightarrow> sc_env t = g_env G"
  by (simp add: quiet_step_def)

lemma quiet_step_trans:
  assumes "quiet_step G L K s t" "quiet_step G L K t u" shows "quiet_step G L K s u"
proof -
  have "settled (g_objs G) (g_uses G) (b_dev (sc_base s)) (b_dev (sc_base u))"
    by (rule settled_trans) (use assms in \<open>unfold quiet_step_def, blast\<close>)+
  moreover have "keeps_base (sc_base s) (sc_base u)"
    by (rule keeps_base_trans) (use assms in \<open>unfold quiet_step_def, blast\<close>)+
  ultimately show ?thesis using assms by (simp add: quiet_step_def)
qed

lemma quiet_pure [quiet_rules]: "quiet G L K (retP v)" "quiet G L K (liftP r)" "quiet G L K getP" "quiet G L K (raiseP e)"
  by (auto intro!: quietI quiet_step_refl)

lemma quiet_bind [quiet_rules]:
  assumes "quiet G L K m" "\<And>x. quiet G L K (f x)" shows "quiet G L K (bindP m f)"
proof (rule quietI)
  fix s r t assume s: "sc_env s = g_env G" "bindP m f s = (r, t)"
  obtain q u where u: "m s = (q, u)" by fastforce
  note a = quietD [OF assms(1) s(1) u]
  show "quiet_step G L K s t"
  proof (cases q)
    case (Inl e)
    then show ?thesis using a s(2) u by (simp add: bindP_apply)
  next
    case (Inr x)
    then have f: "f x u = (r, t)" using s(2) u by (simp add: bindP_apply)
    show ?thesis by (rule quiet_step_trans [OF a quietD [OF assms(2) quiet_step_env [OF a] f]])
  qed
qed

lemma quiet_then [quiet_rules]: "quiet G L K m \<Longrightarrow> quiet G L K n \<Longrightarrow> quiet G L K (thenP m n)"
  unfolding thenP_def by (rule quiet_bind)

lemma quiet_if [quiet_rules]: "quiet G L K m \<Longrightarrow> quiet G L K n \<Longrightarrow> quiet G L K (if b then m else n)"
  by simp

lemma quiet_mono: "quiet G L K m \<Longrightarrow> L \<subseteq> L' \<Longrightarrow> K \<subseteq> K' \<Longrightarrow> quiet G L' K' m"
  unfolding quiet_def quiet_step_def by blast

lemma quiet_map [quiet_rules]: "(\<And>x. x \<in> set xs \<Longrightarrow> quiet G L K (f x)) \<Longrightarrow> quiet G L K (mapP xs f)"
  by (induction xs) (auto intro!: quiet_pure quiet_bind)

text \<open>What changes the base object or the device.\<close>

lemma on_base_apply: "on_base m s = (r, t) \<longleftrightarrow> (\<exists>b. m (sc_base s) = (r, b) \<and> t = s\<lparr>sc_base := b\<rparr>)"
  by (auto simp: on_base_def split: prod.splits)

lemma on_device_run:
  assumes "on_device m s = (r, t)"
  shows "m (b_dev (sc_base s)) = (r, b_dev (sc_base t)) \<and> sc_env t = sc_env s \<and> sc_locals t = sc_locals s
    \<and> recorded (sc_base t) = recorded (sc_base s)"
  using assms call_dev_run call_dev_recorded by (auto simp: on_device_def on_base_apply)

lemma recorded_keeps: "recorded c = recorded b \<Longrightarrow> keeps_base b c \<and> b_attrs c = b_attrs b"
  by (simp add: recorded_def keeps_base_def owned_def)

lemma quiet_device:
  assumes "\<And>d x d'. m d = (x, d') \<Longrightarrow> settled (g_objs G) (g_uses G) d d'"
  shows "quiet G L K (on_device m)"
proof (rule quietI)
  fix s r t assume s: "sc_env s = g_env G" "on_device m s = (r, t)"
  note o = on_device_run [OF s(2)]
  have "settled (g_objs G) (g_uses G) (b_dev (sc_base s)) (b_dev (sc_base t))" using o assms by blast
  then show "quiet_step G L K s t" using o recorded_keeps [of "sc_base t" "sc_base s"] s(1) by (simp add: quiet_step_def)
qed

lemma quiet_local: "x \<in> L \<Longrightarrow> quiet G L K (modP (set_local x v))"
  by (auto intro!: quietI simp: quiet_step_def set_local_def update_conv')

lemma set_attr_run:
  assumes "on_base (on_test (set_attr k v)) s = (x, t)"
  shows "sc_env t = sc_env s \<and> sc_locals t = sc_locals s \<and> b_dev (sc_base t) = b_dev (sc_base s)
    \<and> owned (sc_base t) = owned (sc_base s) \<and> b_attrs (sc_base t) = AList.update k v (b_attrs (sc_base s))"
  using assms by (auto simp: on_base_apply on_test_def on_helper_def on_obj_def set_attr_def b_dev_def owned_def b_attrs_def
      split: prod.splits)

lemma attrs_update: "fst ` set (AList.update k v l) = insert k (fst ` set l)"
  using dom_update [of k v l] by (simp add: dom_map_of_conv_image_fst)

lemma keeps_base_attr: "owned c = owned b \<Longrightarrow> b_attrs c = AList.update k v (b_attrs b) \<Longrightarrow> keeps_base b c"
  by (simp add: keeps_base_def attrs_update subset_insertI)

lemma quiet_attr: "k \<in> K \<Longrightarrow> quiet G L K (on_base (on_test (set_attr k v)))"
  by (rule quietI) (auto dest!: set_attr_run simp: quiet_step_def update_conv' intro: keeps_base_attr)

text \<open>Expressions.\<close>

lemma quiet_lit [quiet_rules]: "quiet G L K (lit v)" "quiet G L K (num i)" "quiet G L K (str x)" "quiet G L K (bool b)"
  "quiet G L K none" "quiet G L K (flt q)"
  unfolding num_def str_def bool_def none_def flt_def lit_def by (rule quiet_rules)+

lemma quiet_read [quiet_rules]: "quiet G L K (var x)" "quiet G L K (self k)"
  unfolding var_def self_def by (rule quiet_rules)+

lemma quiet_args [quiet_rules]: "(\<And>e. e \<in> set es \<Longrightarrow> quiet G L K e) \<Longrightarrow> quiet G L K (arguments es)"
  by (induction es) (auto intro!: quiet_pure quiet_bind)

lemma quiet_kwargs [quiet_rules]: "(\<And>e. e \<in> snd ` set ks \<Longrightarrow> quiet G L K e) \<Longrightarrow> quiet G L K (kwargs ks)"
  by (induction ks rule: kwargs.induct) (auto intro!: quiet_pure quiet_bind)

lemma quiet_pairs: "(\<And>e. e \<in> fst ` set ks \<union> snd ` set ks \<Longrightarrow> quiet G L K e) \<Longrightarrow> quiet G L K (pairs ks)"
  by (induction ks rule: pairs.induct) (auto intro!: quiet_pure quiet_bind)

lemma quiet_unary: "quiet G L K e \<Longrightarrow> quiet G L K (unary f e)"
  unfolding unary_def by (intro quiet_rules)

lemma quiet_binary: "quiet G L K e \<Longrightarrow> quiet G L K e' \<Longrightarrow> quiet G L K (binary f e e')"
  unfolding binary_def by (intro quiet_rules)

lemma quiet_rounded: "quiet G L K e \<Longrightarrow> quiet G L K e' \<Longrightarrow> quiet G L K (rounded f e e')"
  unfolding rounded_def by (intro quiet_rules quiet_binary)

lemma quiet_ops [quiet_rules]:
  assumes "quiet G L K e" "quiet G L K e'"
  shows "quiet G L K (add e e')" "quiet G L K (sub e e')" "quiet G L K (mul e e')" "quiet G L K (divide e e')"
    "quiet G L K (modulo e e')" "quiet G L K (floordiv e e')" "quiet G L K (shl e e')" "quiet G L K (shr e e')"
    "quiet G L K (bit_and e e')" "quiet G L K (bit_or e e')" "quiet G L K (eq e e')" "quiet G L K (ne e e')"
    "quiet G L K (lt e e')" "quiet G L K (le e e')" "quiet G L K (gt e e')" "quiet G L K (ge e e')"
    "quiet G L K (is_in e e')" "quiet G L K (item e e')" "quiet G L K (appended e e')" "quiet G L K (extended e e')"
    "quiet G L K (without e e')" "quiet G L K (range_of e e')" "quiet G L K (zipped e e')"
  using assms unfolding add_def sub_def mul_def divide_def modulo_def floordiv_def shl_def shr_def bit_and_def bit_or_def
    eq_def ne_def lt_def le_def gt_def ge_def is_in_def item_def appended_def extended_def without_def range_of_def zipped_def
  by (blast intro: quiet_rounded quiet_binary)+

lemma quiet_ops1 [quiet_rules]:
  assumes "quiet G L K e"
  shows "quiet G L K (is_none e)" "quiet G L K (is_true e)" "quiet G L K (is_false e)" "quiet G L K (no e)" "quiet G L K (neg e)"
    "quiet G L K (field e k)" "quiet G L K (length_of e)" "quiet G L K (slice e i j)" "quiet G L K (keys_of e)"
    "quiet G L K (values_of e)" "quiet G L K (items_of e)" "quiet G L K (enumerated e)" "quiet G L K (as_list e)"
    "quiet G L K (as_str e)" "quiet G L K (as_int e)" "quiet G L K (ip_address e)" "quiet G L K (ip_prefix e)"
  using assms unfolding is_none_def is_true_def is_false_def no_def neg_def field_def length_of_def slice_def keys_of_def
    values_of_def items_of_def enumerated_def as_list_def as_str_def as_int_def ip_address_def ip_prefix_def num_def lit_def
  by (blast intro: quiet_unary quiet_binary quiet_pure)+

lemma quiet_collections [quiet_rules]:
  "(\<And>e. e \<in> set es \<Longrightarrow> quiet G L K e) \<Longrightarrow> quiet G L K (list_of es)"
  "(\<And>e. e \<in> fst ` set ks \<union> snd ` set ks \<Longrightarrow> quiet G L K e) \<Longrightarrow> quiet G L K (dict_of ks)"
  "(\<And>e. e \<in> snd ` set vs \<Longrightarrow> quiet G L K e) \<Longrightarrow> quiet G L K (struct n vs)"
  "(\<And>e. e \<in> set es \<Longrightarrow> quiet G L K e) \<Longrightarrow> quiet G L K (formatted f es)"
  "(\<And>e. e \<in> set es \<Longrightarrow> quiet G L K e) \<Longrightarrow> quiet G L K (bad_call es)"
  unfolding list_of_def dict_of_def struct_def formatted_def bad_call_def by (intro quiet_rules quiet_pairs; blast)+

lemma quiet_updates [quiet_rules]:
  assumes "quiet G L K c" "quiet G L K k" "quiet G L K e"
  shows "quiet G L K (with_item c k e)" "quiet G L K (with_field c f e)" "quiet G L K (get_or c k e)"
    "quiet G L K (if_exp c k e)"
proof -
  show "quiet G L K (get_or c k e)" unfolding get_or_def
    by (intro quiet_bind assms) (auto intro: quiet_pure split: sai_val.splits)
  show "quiet G L K (with_item c k e)" "quiet G L K (with_field c f e)" "quiet G L K (if_exp c k e)"
    unfolding with_item_def with_field_def if_exp_def by (intro quiet_bind quiet_binary quiet_unary quiet_if assms)+
qed

lemma quiet_logic [quiet_rules]:
  assumes "quiet G L K e" "quiet G L K e'"
  shows "quiet G L K (both e e')" "quiet G L K (either e e')"
  using assms unfolding both_def either_def by (blast intro: quiet_rules)+

lemma quiet_named [quiet_rules]: "quiet G L K e \<Longrightarrow> quiet G L K (self_named e)"
  unfolding self_named_def by (rule quiet_bind, assumption) (auto intro: quiet_rules split: sai_val.splits)

text \<open>Calls.\<close>

lemma ghost_device: "good_ghost G \<Longrightarrow> script_device (se_client (g_env G)) (se_lib (g_env G)) (g_objs G) (g_uses G)"
  by (simp add: good_ghost_def)

lemma quiet_get_env:
  assumes "\<And>s. sc_env s = g_env G \<Longrightarrow> quiet G L K (f s)" shows "quiet G L K (bindP getP f)"
proof (rule quietI)
  fix s r t assume s: "sc_env s = g_env G" "bindP getP f s = (r, t)"
  then have "f s s = (r, t)" by (simp add: bindP_apply)
  from quietD [OF assms [OF s(1)] s(1) this] show "quiet_step G L K s t" .
qed

lemma quiet_status [quiet_rules]: "quiet G L K status"
  unfolding status_def by (intro quiet_rules)

lemma quiet_lib [quiet_rules]:
  assumes "good_ghost G" "quiet G L K (arguments es)" "quiet G L K (kwargs ks)"
  shows "quiet G L K (lib f es ks)"
  unfolding lib_def
proof (rule quiet_bind [OF assms(2)], rule quiet_bind [OF assms(3)])
  show "quiet G L K (bindP getP (\<lambda>s. on_device (se_lib (sc_env s) f vs kvs)))" for vs kvs
    by (rule quiet_get_env, rule quiet_device) (use device_lib [OF ghost_device [OF assms(1)]] in simp)
qed

lemma quiet_api_get [quiet_rules]:
  assumes "good_ghost G" "quiet G L K e" "quiet G L K (kwargs ks)"
  shows "quiet G L K (api_get ty e ks)"
  unfolding api_get_def
proof (rule quiet_bind [OF assms(2)], rule quiet_bind [OF assms(3)])
  show "quiet G L K (bindP getP (\<lambda>s. bindP (on_device (sai_get (se_client (sc_env s)) ty v kvs)) (\<lambda>r. retP (h r))))" for v kvs h
    by (rule quiet_get_env, rule quiet_bind [OF quiet_device quiet_pure(1)])
      (use settled_refl(1) [OF device_get [OF ghost_device [OF assms(1)]]] in simp)
qed

lemma kwargs_keys: "kwargs ks s = (Inr vs, t) \<Longrightarrow> map fst vs = map fst ks"
  by (induction ks arbitrary: s vs rule: kwargs.induct) (auto simp: bindP_eq_Inr)

lemma quiet_bind_run:
  assumes "quiet G L K m" "\<And>s x t. m s = (Inr x, t) \<Longrightarrow> quiet G L K (f x)"
  shows "quiet G L K (bindP m f)"
proof -
  define g where "g x = (if \<exists>s t. m s = (Inr x, t) then f x else raiseP KeyError)" for x
  have "bindP m f = bindP m g" by (auto simp: fun_eq_iff bindP_apply g_def split: prod.splits sum.splits)
  moreover have "quiet G L K (g x)" for x using assms(2) by (auto simp: g_def intro: quiet_pure)
  ultimately show ?thesis using quiet_bind [OF assms(1), of g] by simp
qed

text \<open>The setting of attributes that hold no objects.\<close>

lemma quiet_api_set [quiet_rules]:
  assumes "good_ghost G" "list_all (\<lambda>k. k \<notin> set object_attrs) (map fst ks)" "quiet G L K e"
    "quiet G L K (kwargs ks)"
  shows "quiet G L K (api_set ty e ks)"
proof -
  have "settled (g_objs G) (g_uses G) d d'" if "map fst vs = map fst ks" "sai_set (se_client (g_env G)) ty v vs d = (r, d')" for vs v d r d'
  proof (rule settled_refl(1))
    have "set (map fst vs) \<inter> set object_attrs = {}" using assms(2) that(1) by (auto simp: list_all_iff)
    then show "unchanged (g_objs G) (g_uses G) d d'" by (rule device_set [OF ghost_device [OF assms(1)] that(2)])
  qed
  then show ?thesis unfolding api_set_def
    by (intro quiet_bind [OF assms(3)] quiet_bind_run [OF assms(4)] quiet_get_env quiet_status)
      (auto intro!: quiet_bind quiet_device quiet_status dest!: kwargs_keys)
qed

lemma quiet_adapter: "quiet G L K (on_base (on_adapter m))"
  by (rule quietI) (auto simp: quiet_step_def on_base_apply on_adapter_def b_dev_def keeps_base_def owned_def b_attrs_def split: prod.splits)

lemma quiet_counters [quiet_rules]:
  assumes "quiet G L K (arguments es)" "quiet G L K (kwargs ks)"
  shows "quiet G L K (query f es ks)" "quiet G L K (clear_stats f es ks)"
  unfolding query_def clear_stats_def by (intro quiet_bind [OF assms(1)] quiet_bind [OF assms(2)] quiet_bind quiet_pure quiet_adapter)+

text \<open>Statements.\<close>

lemma quiet_block [quiet_rules]: "(\<And>m. m \<in> set ms \<Longrightarrow> quiet G L K m) \<Longrightarrow> quiet G L K (block ms)"
  by (induction ms) (auto intro!: quiet_pure quiet_bind)

lemma quiet_stmt [quiet_rules]: "quiet G L K m \<Longrightarrow> quiet G L K (stmt_of m)"
  unfolding stmt_of_def by (intro quiet_rules)

lemma quiet_assign [quiet_rules]: "x \<in> L \<Longrightarrow> quiet G L K e \<Longrightarrow> quiet G L K (assign x e)"
  unfolding assign_def by (intro quiet_rules quiet_local)

lemma quiet_set_self [quiet_rules]: "k \<in> K \<Longrightarrow> quiet G L K e \<Longrightarrow> quiet G L K (set_self k e)"
  unfolding set_self_def by (intro quiet_rules quiet_attr)

lemma quiet_set_locals: "set xs \<subseteq> L \<Longrightarrow> quiet G L K (modP (set_locals xs vs))"
proof (induction xs vs rule: list_induct2')
  case (4 x xs v vs)
  have "modP (set_locals (x # xs) (v # vs)) = thenP (modP (set_local x v)) (modP (set_locals xs vs))"
    by (simp add: fun_eq_iff thenP_apply)
  moreover have "quiet G L K (modP (set_local x v))" using 4 by (intro quiet_local) simp
  moreover have "quiet G L K (modP (set_locals xs vs))" by (rule 4(1)) (use 4(2) in simp)
  ultimately show ?case by (metis quiet_then)
qed (auto intro!: quietI quiet_step_refl)

lemma quiet_targets: "set xs \<subseteq> L \<Longrightarrow> quiet G L K (unpack xs v)" "set xs \<subseteq> L \<Longrightarrow> quiet G L K (bind_targets xs v)"
proof -
  show u: "set xs \<subseteq> L \<Longrightarrow> quiet G L K (unpack xs v)" for xs
    unfolding unpack_def by (intro quiet_rules quiet_set_locals)
  show "set xs \<subseteq> L \<Longrightarrow> quiet G L K (bind_targets xs v)"
    unfolding bind_targets_def using u [of xs] by (auto intro: quiet_local split: list.splits)
qed

lemma quiet_simple [quiet_rules]:
  assumes "quiet G L K e"
  shows "set xs \<subseteq> L \<Longrightarrow> quiet G L K (assign_all xs e)" "quiet G L K (run e)" "quiet G L K (return e)" "quiet G L K break"
    "quiet G L K continue" "quiet G L K (raise x)" "quiet G L K (PtfScript.assert e)"
  unfolding assign_all_def run_def return_def break_def continue_def raise_def assert_def
  by (intro quiet_rules quiet_targets assms; assumption)+

lemma quiet_asserts [quiet_rules]:
  "quiet G L K e \<Longrightarrow> quiet G L K e' \<Longrightarrow> quiet G L K (assert_eq e e')"
  "quiet G L K e \<Longrightarrow> quiet G L K e' \<Longrightarrow> quiet G L K (assert_ne e e')"
  "(\<And>e. e \<in> set es \<Longrightarrow> quiet G L K e) \<Longrightarrow> quiet G L K (print es)"
  unfolding assert_eq_def assert_ne_def print_def by (intro quiet_rules; assumption)+

lemma quiet_slept: "quiet G L K (on_base (b_sleep n))"
  by (rule quietI) (auto simp: quiet_step_def on_base_apply b_sleep_def on_helper_def PtfHelpers.sleep_def on_obj_def b_dev_def keeps_base_def owned_def b_attrs_def split: prod.splits)

lemma quiet_sleep [quiet_rules]: "quiet G L K e \<Longrightarrow> quiet G L K (sleep_for e)" "quiet G L K e \<Longrightarrow> quiet G L K (wait_fdb_age e)"
  unfolding sleep_for_def wait_fdb_age_def saiWaitFdbAge_def
  by (rule quiet_bind, assumption, auto intro: quiet_rules quiet_slept split: option.splits)+

lemma quiet_if_else [quiet_rules]:
  "quiet G L K c \<Longrightarrow> quiet G L K (block ms) \<Longrightarrow> quiet G L K (block ns) \<Longrightarrow> quiet G L K (if_else c ms ns)"
  unfolding if_else_def by (intro quiet_bind quiet_if)

lemma quiet_loop: "set xs \<subseteq> L \<Longrightarrow> quiet G L K (block ms) \<Longrightarrow> quiet G L K (loop xs ms vs)"
proof (induction vs)
  case (Cons v vs)
  have "quiet G L K (case f of Break \<Rightarrow> retP Next | Return w \<Rightarrow> retP f | _ \<Rightarrow> loop xs ms vs)" for f
    using Cons by (cases f) (auto intro: quiet_pure)
  then show ?case unfolding loop.simps using Cons.prems by (intro quiet_then quiet_targets quiet_bind)
qed (simp add: quiet_pure)

lemma quiet_for [quiet_rules]:
  "set xs \<subseteq> L \<Longrightarrow> quiet G L K e \<Longrightarrow> quiet G L K (block ms) \<Longrightarrow> quiet G L K (for_in xs e ms)"
  unfolding for_in_def by (intro quiet_bind quiet_pure quiet_loop)

lemma quiet_try [quiet_rules]:
  assumes "quiet G L K (block ms)" "quiet G L K (block ns)"
  shows "quiet G L K (try_finally ms ns)" "quiet G L K (try_except ms p ns)"
proof -
  show "quiet G L K (try_finally ms ns)"
  proof (rule quietI)
    fix s r t assume s: "sc_env s = g_env G" "try_finally ms ns s = (r, t)"
    obtain q u where u: "block ms s = (q, u)" by fastforce
    obtain p v where v: "block ns u = (p, v)" by fastforce
    have "t = v" using s(2) u v by (auto simp: try_finally_def split: sum.splits)
    note a = quietD [OF assms(1) s(1) u]
    show "quiet_step G L K s t" unfolding \<open>t = v\<close>
      by (rule quiet_step_trans [OF a quietD [OF assms(2) quiet_step_env [OF a] v]])
  qed
  show "quiet G L K (try_except ms p ns)"
  proof (rule quietI)
    fix s r t assume s: "sc_env s = g_env G" "try_except ms p ns s = (r, t)"
    obtain q u where u: "block ms s = (q, u)" by fastforce
    note a = quietD [OF assms(1) s(1) u]
    have "u = t \<or> block ns u = (r, t)" using s(2) u by (auto simp: try_except_def catchP_def split: sum.splits if_splits)
    then show "quiet_step G L K s t" using a quiet_step_trans [OF a quietD [OF assms(2) quiet_step_env [OF a]]] by blast
  qed
qed

text \<open>A comprehension has its own variables, and \<open>pop\<close> assigns the list.\<close>

lemma quiet_own_locals:
  assumes "quiet G UNIV K m"
  shows "quiet G L K (\<lambda>s. case m s of (r, t) \<Rightarrow> (f r, t\<lparr>sc_locals := sc_locals s\<rparr>))"
proof (rule quietI)
  fix s r t assume s: "sc_env s = g_env G" "(case m s of (r, t) \<Rightarrow> (f r, t\<lparr>sc_locals := sc_locals s\<rparr>)) = (r, t)"
  obtain q u where u: "m s = (q, u)" by fastforce
  have t: "t = u\<lparr>sc_locals := sc_locals s\<rparr>" using s(2) u by simp
  have "quiet_step G UNIV K s u" by (rule quietD [OF assms s(1) u])
  then show "quiet_step G L K s t" unfolding t by (simp add: quiet_step_def)
qed

lemma quiet_list_comp [quiet_rules]:
  assumes "quiet G UNIV K b" "quiet G L K e" shows "quiet G L K (list_comp b xs e)"
  unfolding list_comp_def
  by (intro quiet_bind [OF assms(2)] quiet_bind quiet_pure quiet_own_locals quiet_map quiet_then quiet_targets assms(1) subset_UNIV)

lemma quiet_list_comp_if [quiet_rules]:
  assumes "quiet G UNIV K b" "quiet G UNIV K c" "quiet G L K e" shows "quiet G L K (list_comp_if b xs c e)"
  unfolding list_comp_if_def
  by (intro quiet_bind [OF assms(3)] quiet_bind quiet_if quiet_pure quiet_own_locals quiet_map quiet_then quiet_targets assms(1,2) subset_UNIV)

lemma quiet_more [quiet_rules]: "quiet G L K e \<Longrightarrow> quiet G L K (struct_from n e)"
  "quiet G L K e \<Longrightarrow> quiet G L K e' \<Longrightarrow> quiet G L K e'' \<Longrightarrow> quiet G L K (range_step e e' e'')"
  "quiet G L K e \<Longrightarrow> quiet G L K (arguments es) \<Longrightarrow> quiet G L K (explained e es)"
  unfolding struct_from_def range_step_def explained_def by (auto intro: quiet_unary quiet_bind quiet_pure)

lemma quiet_pop [quiet_rules]:
  "x \<in> L \<Longrightarrow> quiet G L K i \<Longrightarrow> quiet G L K (pop_var x i)" "k \<in> K \<Longrightarrow> quiet G L K i \<Longrightarrow> quiet G L K (pop_self k i)"
  unfolding pop_var_def pop_self_def pop_from_def
  by (rule quiet_bind [OF quiet_read(1)] quiet_bind [OF quiet_read(2)], rule quiet_bind, assumption,
      auto intro!: quiet_then quiet_pure quiet_local quiet_attr split: option.splits)+

text \<open>A call leaves the variables of the caller alone.\<close>

lemma quiet_invoke [quiet_rules]:
  assumes "quiet G L K (kwargs ps)" "quiet G UNIV K body"
  shows "quiet G L K (invoke ps body)"
  unfolding invoke_def
proof (rule quiet_bind)
  show "quiet G L K (kwargs ps)" by (rule assms(1))
  fix vs
  show "quiet G L K (bindP getP (\<lambda>s t. case body (t\<lparr>sc_locals := vs\<rparr>) of (r, u) \<Rightarrow>
      (bindR r (\<lambda>f. Inr (case f of Return v \<Rightarrow> v | _ \<Rightarrow> VNone)), u\<lparr>sc_locals := sc_locals s\<rparr>)))" (is "quiet _ _ _ ?m")
  proof (rule quietI)
    fix s r t assume s: "sc_env s = g_env G" "?m s = (r, t)"
    obtain q u where u: "body (s\<lparr>sc_locals := vs\<rparr>) = (q, u)" by fastforce
    have t: "t = u\<lparr>sc_locals := sc_locals s\<rparr>" using s(2) u by (simp add: bindP_apply)
    have "quiet_step G UNIV K (s\<lparr>sc_locals := vs\<rparr>) u" by (rule quietD [OF assms(2) _ u]) (simp add: s(1))
    then show "quiet_step G L K s t" unfolding t by (simp add: quiet_step_def)
  qed
qed

lemma quiet_invoke_inner [quiet_rules]:
  assumes "quiet G L K (kwargs ps)" "quiet G UNIV K body"
  shows "quiet G L K (invoke_inner ps body)"
  unfolding invoke_inner_def
proof (rule quiet_bind)
  show "quiet G L K (kwargs ps)" by (rule assms(1))
  fix vs
  show "quiet G L K (bindP getP (\<lambda>s t. case body (t\<lparr>sc_locals := vs @ sc_locals s\<rparr>) of (r, u) \<Rightarrow>
      (bindR r (\<lambda>f. Inr (case f of Return v \<Rightarrow> v | _ \<Rightarrow> VNone)), u\<lparr>sc_locals := sc_locals s\<rparr>)))" (is "quiet _ _ _ ?m")
  proof (rule quietI)
    fix s r t assume s: "sc_env s = g_env G" "?m s = (r, t)"
    obtain q u where u: "body (s\<lparr>sc_locals := vs @ sc_locals s\<rparr>) = (q, u)" by fastforce
    have t: "t = u\<lparr>sc_locals := sc_locals s\<rparr>" using s(2) u by (simp add: bindP_apply)
    have "quiet_step G UNIV K (s\<lparr>sc_locals := vs @ sc_locals s\<rparr>) u" by (rule quietD [OF assms(2) _ u]) (simp add: s(1))
    then show "quiet_step G L K s t" unfolding t by (simp add: quiet_step_def)
  qed
qed

section \<open>What is owned, statement by statement\<close>

lemma dev_has_type: "dev_has B ps objs uses \<Longrightarrow> (v, t) \<in> set ps \<Longrightarrow> objs v = Some t"
  using dev_has_rest [of B ps objs uses] dev_has_list [of B ps objs uses] by (auto simp: map_add_Some_iff)

lemma own_ok:
  "own G l s \<Longrightarrow> sc_env s = g_env G \<and> keeps_base (g_base G) (sc_base s)"
  by (simp add: own_def)

lemma entry_unused:
  "wf_objects objs uses \<Longrightarrow> objs v = Some t \<Longrightarrow> t \<in> set entry_types \<Longrightarrow> \<not> is_oid v \<and> v \<notin> snd ` uses"
  by (force simp: wf_objects_def)

lemma chosen_settled:
  assumes "good_ghost G" "chosen ids ps" "dev_has B ps (g_objs G d) (g_uses G d)" "settled (g_objs G) (g_uses G) d d'"
  shows "\<exists>qs. chosen ids qs \<and> dev_has B qs (g_objs G d') (g_uses G d')"
proof -
  obtain K where K: "\<And>v. v \<in> K \<Longrightarrow> g_objs G d v = Some ''fdb_entry''" "g_objs G d' = g_objs G d |` (- K)"
    "g_uses G d' = g_uses G d - K \<times> UNIV"
    using assms(4) unfolding settled_def by blast
  have e: "''fdb_entry'' \<in> set entry_types" by (simp add: entry_types_def)
  note w = device_wf [OF ghost_device [OF assms(1)], of d]
  have "chosen ids (filter (\<lambda>p. fst p \<notin> K) ps)"
  proof (rule chosen_filter [OF assms(2)])
    fix p assume p: "p \<in> set ps" "\<not> fst p \<notin> K"
    then have "g_objs G d (fst p) = Some (snd p)" using dev_has_type [OF assms(3), of "fst p" "snd p"] by simp
    then show "snd p \<in> set entry_types" using K(1) [of "fst p"] p e by simp
  qed
  moreover have "dev_has B (filter (\<lambda>p. fst p \<notin> K) ps) (g_objs G d') (g_uses G d')"
    unfolding K(2,3) by (rule dev_has_sub [OF assms(3)]) (use entry_unused [OF w K(1) e] in auto)
  ultimately show ?thesis by blast
qed

lemma own_quiet_step:
  assumes "good_ghost G" "own G l s" "quiet_step G L K s t" "locals_in l \<inter> L = {}" "attrs_in l \<inter> K = {}"
  shows "own G l t"
proof -
  obtain ids ps where o: "held l s = Some ids" "chosen ids ps"
    "dev_has (g_start G) ps (g_objs G (b_dev (sc_base s))) (g_uses G (b_dev (sc_base s)))"
    using assms(2) unfolding own_def by blast
  have q: "settled (g_objs G) (g_uses G) (b_dev (sc_base s)) (b_dev (sc_base t))" "keeps_base (sc_base s) (sc_base t)"
    "sc_env t = g_env G" using assms(3) unfolding quiet_step_def by blast+
  have h: "held l t = Some ids" unfolding o(1) [symmetric]
    by (rule held_cong) (use assms(3,4,5) own_ok [OF assms(2)] in \<open>auto simp: quiet_step_def\<close>)
  obtain qs where "chosen ids qs" "dev_has (g_start G) qs (g_objs G (b_dev (sc_base t))) (g_uses G (b_dev (sc_base t)))"
    using chosen_settled [OF assms(1) o(2,3) q(1)] by blast
  then show ?thesis using h q own_ok [OF assms(2)] keeps_base_trans unfolding own_def by blast
qed

text \<open>A statement that goes on.\<close>

definition plain :: "'d stmt \<Rightarrow> bool" where
  "plain m \<longleftrightarrow> (\<forall>s f t. m s = (Inr f, t) \<longrightarrow> f = Next)"

lemma plain_simple [plain_rules]:
  "plain (stmt_of m')" "plain (assign x e)" "plain (set_self k e)" "plain (assign_all xs e)" "plain (run e)"
  "plain (print es)" "plain (PtfScript.assert e)" "plain (assert_eq e e')" "plain (assert_ne e e')" "plain (sleep_for e)" "plain (raise err)"
  by (auto simp: plain_def stmt_of_def assign_def set_self_def assign_all_def run_def print_def PtfScript.assert_def assert_eq_def assert_ne_def
      sleep_for_def raise_def bindP_eq_Inr split: if_splits option.splits)

lemma plainI: "(\<And>s f t. m s = (Inr f, t) \<Longrightarrow> f = Next) \<Longrightarrow> plain m"
  by (auto simp: plain_def)

lemma plainD: "plain m \<Longrightarrow> m s = (Inr f, t) \<Longrightarrow> f = Next"
  by (auto simp: plain_def)

lemma plain_block [plain_rules]: "(\<And>m. m \<in> set ms \<Longrightarrow> plain m) \<Longrightarrow> plain (block ms)"
proof (induction ms)
  case (Cons m ms)
  have "plain m" "plain (block ms)" using Cons by simp_all
  then show ?case by (auto intro!: plainI simp: bindP_eq_Inr split: if_splits dest: plainD)
qed (auto intro!: plainI)

lemma plain_if [plain_rules]: "plain (block ms) \<Longrightarrow> plain (block ns) \<Longrightarrow> plain (if_else c ms ns)"
  by (auto intro!: plainI simp: if_else_def bindP_eq_Inr split: if_splits dest: plainD)

lemma plain_loop: "plain (block ms) \<Longrightarrow> plain (loop xs ms vs)"
proof (induction vs)
  case (Cons v vs)
  show ?case
  proof (rule plainI)
    fix s f t assume "loop xs ms (v # vs) s = (Inr f, t)"
    then obtain u g w where g: "block ms u = (Inr g, w)" and r: "(case g of Break \<Rightarrow> retP Next | Return w \<Rightarrow> retP g
        | _ \<Rightarrow> loop xs ms vs) w = (Inr f, t)"
      by (auto simp: bindP_eq_Inr thenP_eq_Inr)
    have "g = Next" using plainD [OF Cons.prems g] .
    then have "loop xs ms vs w = (Inr f, t)" using r by simp
    then show "f = Next" using plainD [OF Cons.IH [OF Cons.prems]] by blast
  qed
qed (auto intro!: plainI)

lemma plain_for [plain_rules]: "plain (block ms) \<Longrightarrow> plain (for_in xs e ms)"
  by (auto intro!: plainI simp: for_in_def bindP_eq_Inr dest: plainD [OF plain_loop])

lemma plain_try [plain_rules]:
  assumes "plain (block ms)" "plain (block ns)"
  shows "plain (try_finally ms ns)" "plain (try_except ms p ns)"
  using assms by (auto intro!: plainI simp: try_finally_def try_except_def catchP_def dest: plainD split: prod.splits sum.splits if_splits)

lemma ok_quiet:
  assumes "good_ghost G" "quiet G (- locals_in l) (- attrs_in l) m" "plain m"
  shows "ok (own G l) m (own G l)"
proof (rule okI)
  fix s f t assume s: "own G l s" "m s = (Inr f, t)"
  have "quiet_step G (- locals_in l) (- attrs_in l) s t" using quietD [OF assms(2) _ s(2)] own_ok [OF s(1)] by blast
  then show "f = Next \<and> own G l t" using own_quiet_step [OF assms(1) s(1)] plainD [OF assms(3) s(2)] by simp
qed

text \<open>Creation.\<close>

lemma own_created:
  assumes "good_ghost G" "own G l s" "ty \<notin> set entry_types" "api_create ty ks s = (Inr v, t)"
    and "quiet G {} {} (kwargs ks)"
  shows "own G ((Given [v], ty) # l) t"
proof -
  obtain kvs u i where u: "kwargs ks s = (Inr kvs, u)" and c: "on_device (sai_create (se_client (sc_env u)) ty kvs) u = (Inr i, t)"
    and v: "v = VInt i"
    using assms(4) by (auto simp: api_create_def bindP_eq_Inr)
  have e: "sc_env s = g_env G" using own_ok [OF assms(2)] by simp
  have q: "quiet_step G {} {} s u" by (rule quietD [OF assms(5) e u])
  have o: "own G l u" by (rule own_quiet_step [OF assms(1,2) q]) simp_all
  obtain ids ps where ids: "held l u = Some ids" "chosen ids ps"
    "dev_has (g_start G) ps (g_objs G (b_dev (sc_base u))) (g_uses G (b_dev (sc_base u)))"
    using o unfolding own_def by blast
  note r = on_device_run [OF c]
  have eu: "sc_env u = g_env G" using own_ok [OF o] by simp
  have k: "keeps_base (sc_base u) (sc_base t)" "b_attrs (sc_base t) = b_attrs (sc_base u)"
    using recorded_keeps r by blast+
  have h: "held ((Given [v], ty) # l) t = Some ((v, ty) # ids)"
    using held_cong [of l t u] r k(2) ids(1) by simp
  note g = ghost_device [OF assms(1)]
  have "sai_create (se_client (g_env G)) ty kvs (b_dev (sc_base u)) = (Inr i, b_dev (sc_base t))" using r eu by simp
  note n = device_create [OF g assms(3) this, simplified]
  have "\<exists>qs. chosen ((v, ty) # ids) qs \<and> dev_has (g_start G) qs (g_objs G (b_dev (sc_base t))) (g_uses G (b_dev (sc_base t)))"
  proof (cases "i = 0")
    case True
    have "chosen ((v, ty) # ids) ps" by (rule chosen_skip [OF ids(2)]) (simp add: v True)
    then show ?thesis using n ids(3) True by (auto simp: unchanged_def)
  next
    case False
    then have "created (g_objs G) (g_uses G) ty v (b_dev (sc_base u)) (b_dev (sc_base t))" using n v by simp
    from dev_has_made [OF ids(3) this device_wf [OF g] device_wf [OF g]] show ?thesis
      using chosen_take [OF ids(2)] by blast
  qed
  then show ?thesis using h r eu own_ok [OF o] k(1) keeps_base_trans unfolding own_def by metis
qed

text \<open>An action that changes neither variables nor attributes.\<close>

definition same_places :: "'d script \<Rightarrow> 'd script \<Rightarrow> bool" where
  "same_places s t \<longleftrightarrow> sc_env t = sc_env s \<and> (\<forall>x. map_of (sc_locals t) x = map_of (sc_locals s) x)
     \<and> (\<forall>k. map_of (b_attrs (sc_base t)) k = map_of (b_attrs (sc_base s)) k)"

lemma same_places_held: "same_places s t \<Longrightarrow> held l t = held l s"
  by (rule held_cong) (simp_all add: same_places_def)

lemma same_places_device: "on_device m s = (r, t) \<Longrightarrow> same_places s t"
  using on_device_run [of m s r t] recorded_keeps [of "sc_base t" "sc_base s"] by (simp add: same_places_def)

lemma same_places_quiet: "quiet_step G {} {} s t \<Longrightarrow> sc_env s = g_env G \<Longrightarrow> same_places s t"
  by (simp add: quiet_step_def same_places_def)

lemma same_places_trans: "same_places s t \<Longrightarrow> same_places t u \<Longrightarrow> same_places s u"
  by (simp add: same_places_def)

lemma status_run: "status s = (r, t) \<Longrightarrow> t = s"
  by (simp add: status_def bindP_apply)

lemma own_entry:
  assumes "good_ghost G" "own G l s" "ty \<in> set entry_types" "api_create_entry ty k ks s = (Inr v, t)"
    and "quiet G {} {} (kwargs ks)" "k s = (Inr kv, s)"
  shows "own G ((Given [kv], ty) # l) t \<and> same_places s t"
proof -
  obtain kvs u i where u: "kwargs ks s = (Inr kvs, u)"
    and c: "on_device (sai_create (se_client (sc_env u)) ty ((ty, kv) # kvs)) u = (Inr i, t)"
    using assms(4,6) by (auto simp: api_create_entry_def bindP_eq_Inr dest: status_run)
  have e: "sc_env s = g_env G" using own_ok [OF assms(2)] by simp
  have q: "quiet_step G {} {} s u" by (rule quietD [OF assms(5) e u])
  have o: "own G l u" by (rule own_quiet_step [OF assms(1,2) q]) simp_all
  obtain ids ps where ids: "held l u = Some ids" "chosen ids ps"
    "dev_has (g_start G) ps (g_objs G (b_dev (sc_base u))) (g_uses G (b_dev (sc_base u)))"
    using o unfolding own_def by blast
  note r = on_device_run [OF c]
  have eu: "sc_env u = g_env G" using own_ok [OF o] by simp
  have k: "keeps_base (sc_base u) (sc_base t)" using recorded_keeps r by blast
  have h: "held ((Given [kv], ty) # l) t = Some ((kv, ty) # ids)"
    using same_places_held [OF same_places_device [OF c], of l] ids(1) by simp
  note g = ghost_device [OF assms(1)]
  have "sai_create (se_client (g_env G)) ty ((ty, kv) # kvs) (b_dev (sc_base u)) = (Inr i, b_dev (sc_base t))" using r eu by simp
  note n = device_entry [OF g assms(3) this, simplified]
  have "\<exists>qs. chosen ((kv, ty) # ids) qs \<and> dev_has (g_start G) qs (g_objs G (b_dev (sc_base t))) (g_uses G (b_dev (sc_base t)))"
    using n
  proof
    assume "unchanged (g_objs G) (g_uses G) (b_dev (sc_base u)) (b_dev (sc_base t))"
    moreover have "chosen ((kv, ty) # ids) ps" by (rule chosen_skip [OF ids(2)]) (simp add: assms(3))
    ultimately show ?thesis using ids(3) by (auto simp: unchanged_def)
  next
    assume "created (g_objs G) (g_uses G) ty kv (b_dev (sc_base u)) (b_dev (sc_base t))"
    from dev_has_made [OF ids(3) this device_wf [OF g] device_wf [OF g]] show ?thesis
      using chosen_take [OF ids(2)] by blast
  qed
  then have "own G ((Given [kv], ty) # l) t" using h r eu own_ok [OF o] k keeps_base_trans unfolding own_def by metis
  then show ?thesis using same_places_trans [OF same_places_quiet [OF q e] same_places_device [OF c]] by blast
qed

text \<open>Whether an object is referred to by one of the list before it.\<close>

lemma not_used:
  assumes "wf_objects objs uses" "dev_has B (xs @ (v, ty) # ys) objs uses"
    and "ty \<in> set entry_types \<or> (\<forall>t \<in> snd ` set xs. \<not> may_refer t ty)"
  shows "v \<notin> snd ` uses"
  using assms(3)
proof
  assume "ty \<in> set entry_types"
  moreover have "objs v = Some ty" by (rule dev_has_type [OF assms(2)]) simp
  ultimately show ?thesis using entry_unused [OF assms(1)] by blast
qed (rule dev_has_unused [OF assms(2)], blast)

text \<open>Removal, of an object that no newer one can refer to.\<close>

lemma chosen_remove:
  assumes "good_ghost G" "chosen (xs @ (v, ty) # ys) ps" "dev_has B ps (g_objs G d) (g_uses G d)"
    and "ty \<in> set entry_types \<or> (\<forall>t \<in> snd ` set xs. \<not> may_refer t ty)" "sai_remove (se_client (g_env G)) ty v d = (Inr u, d')"
  shows "\<exists>qs. chosen (xs @ ys) qs \<and> dev_has B qs (g_objs G d') (g_uses G d')"
proof -
  obtain p1 p2' where p: "ps = p1 @ p2'" "chosen xs p1" "chosen ((v, ty) # ys) p2'" using chosen_appendD [OF assms(2)] by blast
  note w = device_wf [OF ghost_device [OF assms(1)], of d]
  note n = device_remove [OF ghost_device [OF assms(1)] assms(5)]
  from p(3) show ?thesis
  proof (rule chosen_ConsE)
    fix p2 assume p2: "p2' = (v, ty) # p2" "chosen ys p2"
    have h: "dev_has B (p1 @ (v, ty) # p2) (g_objs G d) (g_uses G d)" using assms(3) p(1) p2(1) by simp
    have un: "v \<notin> snd ` g_uses G d"
      by (rule not_used [OF w h]) (use assms(4) chosen_set [OF p(2)] in blast)
    moreover have t: "g_objs G d v = Some ty" by (rule dev_has_type [OF h]) simp
    ultimately have d: "g_objs G d' = g_objs G d |` (- {v})" "g_uses G d' = g_uses G d - {v} \<times> UNIV"
      using n by (auto simp: restrict_map_def fun_eq_iff)
    have dis: "distinct (map fst (p1 @ (v, ty) # p2))" using dev_has_list [OF h] by blast
    have "filter (\<lambda>p. fst p \<notin> {v}) (p1 @ (v, ty) # p2) = p1 @ p2"
    proof -
      have "filter (\<lambda>p. fst p \<notin> {v}) p1 = p1" "filter (\<lambda>p. fst p \<notin> {v}) p2 = p2"
        by (rule filter_True, use dis in force)+
      then show ?thesis by simp
    qed
    moreover have "dev_has B (filter (\<lambda>p. fst p \<notin> {v}) (p1 @ (v, ty) # p2)) (g_objs G d') (g_uses G d')"
      unfolding d by (rule dev_has_sub [OF h]) (use un in auto)
    ultimately show ?thesis using chosen_append [OF p(2) p2(2)] by auto
  next
    assume sk: "chosen ys p2'" "fst (v, ty) = VInt 0 \<or> snd (v, ty) \<in> set entry_types"
    have c: "chosen (xs @ ys) ps" using chosen_append [OF p(2) sk(1)] p(1) by simp
    show ?thesis
    proof (cases "g_objs G d v = Some ty \<and> v \<notin> snd ` g_uses G d")
      case True
      then have d: "g_objs G d' = g_objs G d |` (- {v})" "g_uses G d' = g_uses G d - {v} \<times> UNIV"
        using n by (auto simp: restrict_map_def fun_eq_iff)
      have "v \<noteq> VInt 0" using True w by (auto simp: wf_objects_def)
      then have e: "ty \<in> set entry_types" using sk(2) by simp
      then have v: "\<not> is_oid v" using entry_unused [OF w conjunct1 [OF True]] by blast
      have "chosen (xs @ ys) (filter (\<lambda>p. fst p \<notin> {v}) ps)"
        by (rule chosen_filter [OF c]) (use dev_has_type [OF assms(3)] True e in force)
      moreover have "dev_has B (filter (\<lambda>p. fst p \<notin> {v}) ps) (g_objs G d') (g_uses G d')"
        unfolding d by (rule dev_has_sub [OF assms(3)]) (use True v in auto)
      ultimately show ?thesis by blast
    next
      case False
      then have "unchanged (g_objs G) (g_uses G) d d'" using n by auto
      then show ?thesis using c assms(3) by (auto simp: unchanged_def)
    qed
  qed
qed

lemma own_moved:
  assumes "own G ((Given vs, ty) # l) t" "place_vals p u = Some vs" "held l u = held l t"
    and "sc_env u = sc_env t" "keeps_base (sc_base t) (sc_base u)" "b_dev (sc_base u) = b_dev (sc_base t)"
  shows "own G ((p, ty) # l) u"
  using assms keeps_base_trans unfolding own_def by (auto split: option.splits)

lemma ok_create [ok_rules]:
  assumes "good_ghost G" "ty \<notin> set entry_types" "x \<notin> locals_in l" "quiet G {} {} (kwargs ks)"
  shows "ok (own G l) (assign x (api_create ty ks)) (own G ((Local x, ty) # l))"
proof (rule okI)
  fix s f u assume s: "own G l s" "assign x (api_create ty ks) s = (Inr f, u)"
  then obtain v t where t: "api_create ty ks s = (Inr v, t)" and u: "u = set_local x v t" "f = Next"
    by (auto simp: assign_def stmt_of_def bindP_eq_Inr)
  have o: "own G ((Given [v], ty) # l) t" by (rule own_created [OF assms(1) s(1) assms(2) t assms(4)])
  show "f = Next \<and> own G ((Local x, ty) # l) u"
    by (intro conjI u(2) own_moved [OF o] held_cong) (use assms(3) in \<open>auto simp: u set_local_def update_conv'\<close>)
qed

lemma ok_create_self [ok_rules]:
  assumes "good_ghost G" "ty \<notin> set entry_types" "k \<notin> attrs_in l" "quiet G {} {} (kwargs ks)"
  shows "ok (own G l) (set_self k (api_create ty ks)) (own G ((Attr k, ty) # l))"
proof (rule okI)
  fix s f u assume s: "own G l s" "set_self k (api_create ty ks) s = (Inr f, u)"
  then obtain v t x where t: "api_create ty ks s = (Inr v, t)" and u: "on_base (on_test (set_attr k v)) t = (Inr x, u)" "f = Next"
    by (auto simp: set_self_def stmt_of_def bindP_eq_Inr)
  have o: "own G ((Given [v], ty) # l) t" by (rule own_created [OF assms(1) s(1) assms(2) t assms(4)])
  note r = set_attr_run [OF u(1)]
  show "f = Next \<and> own G ((Attr k, ty) # l) u"
    by (intro conjI u(2) own_moved [OF o] held_cong keeps_base_attr [of "sc_base u" "sc_base t" k v])
      (use assms(3) r in \<open>auto simp: update_conv' attr_of_def\<close>)
qed

text \<open>Objects that no newer one refers to can be taken for the newest.\<close>

lemma dev_has_forward:
  assumes "dev_has B (zs @ xs @ vs @ ys) objs uses" "\<And>j v. j \<in> fst ` set xs \<Longrightarrow> v \<in> fst ` set vs \<Longrightarrow> (j, v) \<notin> uses"
  shows "dev_has B (zs @ vs @ xs @ ys) objs uses"
proof -
  let ?l = "zs @ xs @ vs @ ys" and ?m = "zs @ vs @ xs @ ys"
  have e: "set ?m = set ?l" by auto
  obtain A where A: "left_over A (fst B)" "fst ` set ?l \<inter> dom A = {}" "objs = A ++ map_of ?l"
    using dev_has_rest [OF assms(1)] by blast
  have d: "distinct (map fst ?l)" and s: "sorted_wrt (newer uses) ?l" using dev_has_list [OF assms(1)] by blast+
  have "mset (map fst ?m) = mset (map fst ?l)" by simp
  then have d': "distinct (map fst ?m)" using d mset_eq_imp_distinct_iff by blast
  have m: "map_of ?m = map_of ?l" by (rule map_of_inject_set [THEN iffD2, OF d' d e])
  have n: "newer uses p q" if "p \<in> set vs" "q \<in> set xs" for p q
  proof -
    have "newer uses q p" using s that by (simp add: sorted_wrt_append)
    moreover have "(fst q, fst p) \<notin> uses" using assms(2) that by force
    ultimately show ?thesis by (cases p, cases q) (simp add: newer_def)
  qed
  have s': "sorted_wrt (newer uses) ?m"
    using s n unfolding sorted_wrt_append set_append ball_Un by blast
  show ?thesis unfolding dev_has_def e
    by (intro conjI d' exI [of _ A] A(1,2) s') (simp_all only: m A(3) [symmetric] case_prod_beta, use dev_has_uses [OF assms(1)] in force)
qed

text \<open>The place \<open>p\<close> of type \<open>ty\<close> is taken out of a list when nothing before it can refer to its objects.\<close>

fun take_out :: "place \<Rightarrow> string \<Rightarrow> places \<Rightarrow> places option" where
  "take_out p ty [] = None"
| "take_out p ty ((q, t) # l) =
     (if q = p then if t = ty then Some l else None
      else if ty \<notin> set entry_types \<and> may_refer t ty then None
      else map_option ((#) (q, t)) (take_out p ty l))"

lemma take_out_split:
  "take_out p ty l = Some l' \<Longrightarrow> \<exists>xs ys. l = xs @ (p, ty) # ys \<and> l' = xs @ ys
     \<and> (ty \<in> set entry_types \<or> (\<forall>t \<in> snd ` set xs. \<not> may_refer t ty))"
proof (induction l arbitrary: l')
  case (Cons a l)
  obtain q t where a: "a = (q, t)" by fastforce
  show ?case
  proof (cases "q = p")
    case True
    then have "t = ty \<and> l' = l" using Cons.prems a by (simp split: if_splits)
    then have "a # l = [] @ (p, ty) # l \<and> l' = [] @ l" using True a by simp
    then show ?thesis by fastforce
  next
    case False
    then obtain k where k: "take_out p ty l = Some k" "l' = (q, t) # k" "ty \<in> set entry_types \<or> \<not> may_refer t ty"
      using Cons.prems a by (auto split: if_splits)
    then obtain xs ys where "l = xs @ (p, ty) # ys" "k = xs @ ys" "ty \<in> set entry_types \<or> (\<forall>t \<in> snd ` set xs. \<not> may_refer t ty)"
      using Cons.IH by blast
    then have "a # l = (a # xs) @ (p, ty) # ys \<and> l' = (a # xs) @ ys \<and> (ty \<in> set entry_types \<or> (\<forall>t \<in> snd ` set (a # xs). \<not> may_refer t ty))"
      using a k(2,3) by auto
    then show ?thesis by blast
  qed
qed simp

lemma held_types: "held l s = Some ids \<Longrightarrow> snd ` set ids \<subseteq> snd ` set l"
proof (induction l arbitrary: ids)
  case (Cons p l)
  obtain q ty where p: "p = (q, ty)" by fastforce
  then obtain vs r where r: "held l s = Some r" "ids = map (\<lambda>v. (v, ty)) vs @ r"
    using Cons.prems by (auto split: option.splits)
  have "snd ` set r \<subseteq> snd ` set l" by (rule Cons.IH [OF r(1)])
  then show ?case by (auto simp: p r(2) image_Un)
qed simp

lemma held_split:
  "held (xs @ (p, ty) # ys) s = Some ids \<Longrightarrow> \<exists>xi vs yi. held xs s = Some xi \<and> place_vals p s = Some vs \<and> held ys s = Some yi
    \<and> ids = xi @ map (\<lambda>v. (v, ty)) vs @ yi"
proof (induction xs arbitrary: ids)
  case (Cons a xs)
  obtain q t where a: "a = (q, t)" by fastforce
  obtain us r where u: "place_vals q s = Some us" "held (xs @ (p, ty) # ys) s = Some r" "ids = map (\<lambda>v. (v, t)) us @ r"
    using Cons.prems unfolding a by (auto split: option.splits)
  then show ?case using Cons.IH [OF u(2)] by (auto simp: a)
qed (auto split: option.splits)

lemma own_forward:
  assumes "good_ghost G" "own G (zs @ xs @ (p, ty) # ys) s" "ty \<in> set entry_types \<or> (\<forall>t \<in> snd ` set xs. \<not> may_refer t ty)"
  shows "own G (zs @ (p, ty) # xs @ ys) s"
proof -
  let ?O = "g_objs G (b_dev (sc_base s))" and ?U = "g_uses G (b_dev (sc_base s))"
  obtain ids ps where o: "held (zs @ xs @ (p, ty) # ys) s = Some ids" "chosen ids ps" "dev_has (g_start G) ps ?O ?U"
    using assms(2) unfolding own_def by blast
  obtain zi wi where z: "held zs s = Some zi" "held (xs @ (p, ty) # ys) s = Some wi" "ids = zi @ wi"
    using o(1) unfolding held_append [of zs] by (auto split: option.splits)
  obtain xi vs yi where h: "held xs s = Some xi" "place_vals p s = Some vs" "held ys s = Some yi"
    "wi = xi @ map (\<lambda>v. (v, ty)) vs @ yi" using held_split [OF z(2)] by blast
  obtain p0 pw where w: "ps = p0 @ pw" "chosen zi p0" "chosen wi pw" using chosen_appendD o(2) unfolding z(3) by blast
  obtain p1 p' where p: "pw = p1 @ p'" "chosen xi p1" "chosen (map (\<lambda>v. (v, ty)) vs @ yi) p'"
    using chosen_appendD w(3) unfolding h(4) by blast
  obtain p2 p3 where q: "p' = p2 @ p3" "chosen (map (\<lambda>v. (v, ty)) vs) p2" "chosen yi p3" using chosen_appendD [OF p(3)] by blast
  have d: "dev_has (g_start G) (p0 @ p1 @ p2 @ p3) ?O ?U" using o(3) w(1) p(1) q(1) by simp
  have "dev_has (g_start G) (p0 @ p2 @ p1 @ p3) ?O ?U"
  proof (rule dev_has_forward [OF d])
    fix j v assume j: "j \<in> fst ` set p1" "v \<in> fst ` set p2"
    then obtain t where t: "(j, t) \<in> set p1" by force
    have v: "(v, ty) \<in> set p2" using j(2) chosen_set [OF q(2)] by auto
    from assms(3) show "(j, v) \<notin> ?U"
    proof
      assume "ty \<in> set entry_types"
      moreover have "?O v = Some ty" by (rule dev_has_type [OF d]) (use v in simp)
      ultimately have "v \<notin> snd ` ?U" using entry_unused [OF device_wf [OF ghost_device [OF assms(1)]]] by blast
      then show ?thesis by force
    next
      assume "\<forall>t \<in> snd ` set xs. \<not> may_refer t ty"
      moreover have "t \<in> snd ` set xs" using t chosen_set [OF p(2)] held_types [OF h(1)] by force
      moreover have "newer ?U (j, t) (v, ty)" using dev_has_list [OF d] t v by (auto simp: sorted_wrt_append)
      ultimately show ?thesis by (auto simp: newer_def)
    qed
  qed
  moreover have "chosen (zi @ map (\<lambda>v. (v, ty)) vs @ xi @ yi) (p0 @ p2 @ p1 @ p3)"
    by (intro chosen_append p(2) q(2,3) w(2))
  moreover have "held (zs @ (p, ty) # xs @ ys) s = Some (zi @ map (\<lambda>v. (v, ty)) vs @ xi @ yi)"
    using h z(1) by (simp add: held_append)
  ultimately show ?thesis using own_ok [OF assms(2)] unfolding own_def by blast
qed

lemmas own_first = own_forward [of _ "[]", unfolded append_Nil]

lemma own_front:
  assumes "good_ghost G" "own G l s" "take_out p ty l = Some l'"
  shows "own G ((p, ty) # l') s"
proof -
  obtain xs ys where l: "l = xs @ (p, ty) # ys" "l' = xs @ ys" "ty \<in> set entry_types \<or> (\<forall>t \<in> snd ` set xs. \<not> may_refer t ty)"
    using take_out_split [OF assms(3)] by blast
  show ?thesis using own_first [OF assms(1) assms(2) [unfolded l(1)] l(3)] l(2) by simp
qed

definition reads :: "'d expr \<Rightarrow> place \<Rightarrow> bool" where
  "reads e p \<longleftrightarrow> (\<forall>s vs. place_vals p s = Some vs \<longrightarrow> (\<exists>v. vs = [v] \<and> e s = (Inr v, s)))"

lemma reads_places: "reads (var x) (Local x)" "reads (self k) (Attr k)"
  by (auto simp: reads_def var_def bindP_apply attr_self)

lemma api_remove_run:
  assumes "api_remove ty e s = (Inr w, t)"
  shows "\<exists>v s1 u. e s = (Inr v, s1) \<and> on_device (sai_remove (se_client (sc_env s1)) ty v) s1 = (Inr u, t)"
proof -
  obtain v s1 u t1 where u: "e s = (Inr v, s1)" "on_device (sai_remove (se_client (sc_env s1)) ty v) s1 = (Inr u, t1)"
    "status t1 = (Inr w, t)"
    using assms unfolding api_remove_def bindP_eq_Inr by (auto simp: getP_def)
  then show ?thesis using status_run [OF u(3)] by blast
qed

lemma own_removed:
  assumes "good_ghost G" "own G l s" "take_out p ty l = Some l'" "reads e p" "api_remove ty e s = (Inr w, t)"
  shows "own G l' t \<and> same_places s t"
proof -
  obtain xs ys where l: "l = xs @ (p, ty) # ys" "l' = xs @ ys" "ty \<in> set entry_types \<or> (\<forall>t \<in> snd ` set xs. \<not> may_refer t ty)"
    using take_out_split [OF assms(3)] by blast
  obtain ids ps where o: "held l s = Some ids" "chosen ids ps"
    "dev_has (g_start G) ps (g_objs G (b_dev (sc_base s))) (g_uses G (b_dev (sc_base s)))"
    using assms(2) unfolding own_def by blast
  obtain xi vs yi where h: "held xs s = Some xi" "place_vals p s = Some vs" "held ys s = Some yi"
    "ids = xi @ map (\<lambda>v. (v, ty)) vs @ yi" using held_split o(1) unfolding l(1) by blast
  obtain v where v: "vs = [v]" "e s = (Inr v, s)" using assms(4) h(2) unfolding reads_def by blast
  obtain u where u: "on_device (sai_remove (se_client (sc_env s)) ty v) s = (Inr u, t)"
    using api_remove_run [OF assms(5)] v(2) by force
  have e: "sc_env s = g_env G" "keeps_base (g_base G) (sc_base s)" using own_ok [OF assms(2)] by simp_all
  have r: "sai_remove (se_client (g_env G)) ty v (b_dev (sc_base s)) = (Inr u, b_dev (sc_base t))" "sc_env t = g_env G"
    "recorded (sc_base t) = recorded (sc_base s)" using on_device_run [OF u] e(1) by simp_all
  have k: "keeps_base (g_base G) (sc_base t)"
    by (rule keeps_base_trans [OF e(2) conjunct1 [OF recorded_keeps [OF r(3)]]])
  have c: "chosen (xi @ (v, ty) # yi) ps" using o(2) unfolding h(4) v(1) by simp
  have m: "ty \<in> set entry_types \<or> (\<forall>t \<in> snd ` set xi. \<not> may_refer t ty)" using l(3) held_types [OF h(1)] by (meson subsetD)
  obtain qs where q: "chosen (xi @ yi) qs" "dev_has (g_start G) qs (g_objs G (b_dev (sc_base t))) (g_uses G (b_dev (sc_base t)))"
    using chosen_remove [OF assms(1) c o(3) m r(1)] by blast
  have sp: "same_places s t" by (rule same_places_device [OF u])
  have hh: "held l' t = Some (xi @ yi)" using h unfolding same_places_held [OF sp] l(2) held_append by simp
  show ?thesis unfolding own_def by (intro conjI exI [of _ "xi @ yi"] exI [of _ qs] r(2) k hh q sp)
qed

lemma own_same: "own G l t \<Longrightarrow> held l u = held l t \<Longrightarrow> sc_env u = sc_env t \<Longrightarrow> sc_base u = sc_base t \<Longrightarrow> own G l u"
  by (simp add: own_def)

lemma own_set_local: "own G l t \<Longrightarrow> x \<notin> locals_in l \<Longrightarrow> own G l (set_local x v t)"
  by (rule own_same [of G l t], assumption, rule held_cong) (auto simp: set_local_def update_conv')

lemma ok_removal:
  assumes "good_ghost G" "take_out p ty l = Some l'" "reads e p"
  shows "ok (own G l) (run (api_remove ty e)) (own G l')"
    and "st \<notin> locals_in l' \<Longrightarrow> ok (own G l) (assign st (api_remove ty e)) (own G l')"
proof -
  note r = own_removed [OF assms(1) _ assms(2,3), THEN conjunct1]
  show "ok (own G l) (run (api_remove ty e)) (own G l')"
  proof (rule okI)
    fix s f t assume s: "own G l s" "run (api_remove ty e) s = (Inr f, t)"
    then obtain w where "api_remove ty e s = (Inr w, t)" "f = Next" by (auto simp: run_def stmt_of_def bindP_eq_Inr)
    then show "f = Next \<and> own G l' t" using r [OF s(1)] by blast
  qed
  assume st: "st \<notin> locals_in l'"
  show "ok (own G l) (assign st (api_remove ty e)) (own G l')"
  proof (rule okI)
    fix s f t assume s: "own G l s" "assign st (api_remove ty e) s = (Inr f, t)"
    then obtain w u where "api_remove ty e s = (Inr w, u)" "f = Next" "t = set_local st w u"
      by (auto simp: assign_def stmt_of_def bindP_eq_Inr)
    then show "f = Next \<and> own G l' t" using own_set_local [OF r [OF s(1)] st] by blast
  qed
qed

lemmas ok_remove [ok_rules] = ok_removal [OF _ _ reads_places(1)] ok_removal [OF _ _ reads_places(2)]

section \<open>Whole methods\<close>

text \<open>Quiet on every device that obeys the laws. The rules are conditional rewrite rules, so that the simplifier
  decides whether a statement is quiet.\<close>

definition calm :: "string set \<Rightarrow> string set \<Rightarrow> ('d script, 'a) py \<Rightarrow> bool" where
  "calm L K m \<longleftrightarrow> (\<forall>G. good_ghost G \<longrightarrow> quiet G L K m)"

named_theorems calm_rules "what is quiet on every device"

lemma calmI: "(\<And>G. good_ghost G \<Longrightarrow> quiet G L K m) \<Longrightarrow> calm L K m"
  by (simp add: calm_def)

lemma calmD: "calm L K m \<Longrightarrow> good_ghost G \<Longrightarrow> quiet G L K m"
  by (simp add: calm_def)

lemma calm_lit [calm_rules]: "calm L K (lit v)" "calm L K (num i)" "calm L K (str x)" "calm L K (bool b)" "calm L K none"
  "calm L K (flt q)" "calm L K (var x)" "calm L K (self k)" "calm L K status"
  by (intro calmI quiet_rules)+

lemma calm_args [calm_rules]: "calm L K (arguments [])" "calm L K e \<Longrightarrow> calm L K (arguments es) \<Longrightarrow> calm L K (arguments (e # es))"
  "calm L K (kwargs [])" "calm L K e \<Longrightarrow> calm L K (kwargs ks) \<Longrightarrow> calm L K (kwargs ((k, e) # ks))"
  "calm L K (pairs [])" "calm L K e \<Longrightarrow> calm L K e' \<Longrightarrow> calm L K (pairs ps) \<Longrightarrow> calm L K (pairs ((e, e') # ps))"
  unfolding calm_def by (auto intro!: quiet_pure quiet_bind)

lemma calm_ops [calm_rules]:
  assumes "calm L K e" "calm L K e'"
  shows "calm L K (add e e')" "calm L K (sub e e')" "calm L K (mul e e')" "calm L K (divide e e')"
    "calm L K (modulo e e')" "calm L K (floordiv e e')" "calm L K (shl e e')" "calm L K (shr e e')"
    "calm L K (bit_and e e')" "calm L K (bit_or e e')" "calm L K (eq e e')" "calm L K (ne e e')"
    "calm L K (lt e e')" "calm L K (le e e')" "calm L K (gt e e')" "calm L K (ge e e')"
    "calm L K (is_in e e')" "calm L K (item e e')" "calm L K (appended e e')" "calm L K (extended e e')"
    "calm L K (without e e')" "calm L K (range_of e e')" "calm L K (zipped e e')" "calm L K (both e e')" "calm L K (either e e')"
  using assms unfolding calm_def by (auto intro: quiet_ops quiet_logic)

lemma calm_ops1 [calm_rules]:
  assumes "calm L K e"
  shows "calm L K (is_none e)" "calm L K (is_true e)" "calm L K (is_false e)" "calm L K (no e)" "calm L K (neg e)"
    "calm L K (field e k)" "calm L K (length_of e)" "calm L K (slice e i j)" "calm L K (keys_of e)"
    "calm L K (values_of e)" "calm L K (items_of e)" "calm L K (enumerated e)" "calm L K (as_list e)"
    "calm L K (as_str e)" "calm L K (as_int e)" "calm L K (ip_address e)" "calm L K (ip_prefix e)" "calm L K (self_named e)"
  using assms unfolding calm_def by (auto intro: quiet_ops1 quiet_named)

lemma calm_updates [calm_rules]:
  assumes "calm L K c" "calm L K k" "calm L K e"
  shows "calm L K (with_item c k e)" "calm L K (get_or c k e)" "calm L K (if_exp c k e)"
  using assms unfolding calm_def by (auto intro: quiet_updates)

lemma calm_with_field [calm_rules]: "calm L K c \<Longrightarrow> calm L K e \<Longrightarrow> calm L K (with_field c f e)"
  unfolding calm_def by (auto intro: quiet_updates(2) [OF _ quiet_lit(1)])

lemma calm_lists [calm_rules]:
  "calm L K (arguments es) \<Longrightarrow> calm L K (list_of es)" "calm L K (pairs ps) \<Longrightarrow> calm L K (dict_of ps)"
  "calm L K (kwargs ks) \<Longrightarrow> calm L K (struct n ks)" "calm L K (arguments es) \<Longrightarrow> calm L K (formatted f es)"
  "calm L K (arguments es) \<Longrightarrow> calm L K (bad_call es)" "calm L K (arguments es) \<Longrightarrow> calm L K (print es)"
  unfolding calm_def list_of_def dict_of_def struct_def formatted_def bad_call_def print_def
  by (auto intro: quiet_bind quiet_pure quiet_stmt)

lemma calm_calls [calm_rules]:
  assumes "calm L K (arguments es)" "calm L K (kwargs ks)"
  shows "calm L K (lib f es ks)" "calm L K (query f es ks)" "calm L K (clear_stats f es ks)"
  using assms unfolding calm_def by (auto intro: quiet_lib quiet_counters)

lemma calm_api [calm_rules]:
  assumes "calm L K e" "calm L K (kwargs ks)"
  shows "calm L K (api_get ty e ks)" "list_all (\<lambda>k. k \<notin> set object_attrs) (map fst ks) \<Longrightarrow> calm L K (api_set ty e ks)"
  using assms unfolding calm_def by (auto intro: quiet_api_get quiet_api_set)

lemma calm_more [calm_rules]: "calm L K e \<Longrightarrow> calm L K (struct_from n e)"
  "calm L K e \<Longrightarrow> calm L K e' \<Longrightarrow> calm L K e'' \<Longrightarrow> calm L K (range_step e e' e'')"
  "calm L K e \<Longrightarrow> calm L K (arguments es) \<Longrightarrow> calm L K (explained e es)"
  "calm UNIV K b \<Longrightarrow> calm UNIV K c \<Longrightarrow> calm L K e \<Longrightarrow> calm L K (list_comp_if b xs c e)"
  unfolding calm_def by (auto intro: quiet_more quiet_list_comp_if)

lemma calm_comp [calm_rules]: "calm UNIV K b \<Longrightarrow> calm L K e \<Longrightarrow> calm L K (list_comp b xs e)"
  "x \<in> L \<Longrightarrow> calm L K e \<Longrightarrow> calm L K (pop_var x e)" "k \<in> K \<Longrightarrow> calm L K e \<Longrightarrow> calm L K (pop_self k e)"
  "calm L K e \<Longrightarrow> calm L K (wait_fdb_age e)"
  unfolding calm_def by (auto intro: quiet_list_comp quiet_pop quiet_sleep)

lemma calm_invoke [calm_rules]: "calm L K (kwargs ps) \<Longrightarrow> calm UNIV K m \<Longrightarrow> calm L K (invoke ps m)"
  "calm L K (kwargs ps) \<Longrightarrow> calm UNIV K m \<Longrightarrow> calm L K (invoke_inner ps m)"
  unfolding calm_def by (auto intro: quiet_invoke quiet_invoke_inner)

lemma calm_simple [calm_rules]:
  "x \<in> L \<Longrightarrow> calm L K e \<Longrightarrow> calm L K (assign x e)" "k \<in> K \<Longrightarrow> calm L K e \<Longrightarrow> calm L K (set_self k e)"
  "set xs \<subseteq> L \<Longrightarrow> calm L K e \<Longrightarrow> calm L K (assign_all xs e)" "calm L K e \<Longrightarrow> calm L K (run e)"
  "calm L K e \<Longrightarrow> calm L K (return e)" "calm L K break" "calm L K continue" "calm L K (raise x')"
  "calm L K e \<Longrightarrow> calm L K (PtfScript.assert e)" "calm L K e \<Longrightarrow> calm L K e' \<Longrightarrow> calm L K (assert_eq e e')"
  "calm L K e \<Longrightarrow> calm L K e' \<Longrightarrow> calm L K (assert_ne e e')" "calm L K e \<Longrightarrow> calm L K (sleep_for e)"
  unfolding calm_def by (auto intro: quiet_assign quiet_set_self quiet_simple quiet_asserts quiet_sleep quiet_simple(4-6) [OF quiet_lit(1)])

lemma calm_set_named [calm_rules]: "calm L UNIV e \<Longrightarrow> calm L UNIV e' \<Longrightarrow> calm L UNIV (set_self_named e e')"
  unfolding calm_def set_self_named_def
  by (auto intro!: quiet_bind quiet_stmt quiet_attr quiet_pure split: sai_val.splits)

lemma calm_block [calm_rules]: "list_all (calm L K) ms \<Longrightarrow> calm L K (block ms)"
  unfolding calm_def list_all_iff by (auto intro: quiet_block)

lemma calm_compound [calm_rules]:
  "calm L K c \<Longrightarrow> calm L K (block ms) \<Longrightarrow> calm L K (block ns) \<Longrightarrow> calm L K (if_else c ms ns)"
  "set xs \<subseteq> L \<Longrightarrow> calm L K e \<Longrightarrow> calm L K (block ms) \<Longrightarrow> calm L K (for_in xs e ms)"
  "calm L K (block ms) \<Longrightarrow> calm L K (block ns) \<Longrightarrow> calm L K (try_finally ms ns)"
  "calm L K (block ms) \<Longrightarrow> calm L K (block ns) \<Longrightarrow> calm L K (try_except ms p ns)"
  unfolding calm_def by (auto intro: quiet_if_else quiet_for quiet_try)

lemma plain_set_named [plain_rules]: "plain (set_self_named e e')"
proof (rule plainI)
  fix s f t assume "set_self_named e e' s = (Inr f, t)"
  then obtain k u v w where k: "(case k of VStr n \<Rightarrow> stmt_of (on_base (on_test (set_attr n v))) | _ \<Rightarrow> raiseP TypeError) w = (Inr f, t)"
    by (auto simp: set_self_named_def bindP_eq_Inr)
  then show "f = Next" by (cases k) (simp_all add: stmt_of_def bindP_eq_Inr split: sum.splits prod.splits)
qed

lemma plain_list [plain_rules]: "list_all plain ms \<Longrightarrow> plain (block ms)"
  by (rule plain_block) (simp add: list_all_iff)

section \<open>What a method does\<close>

declare block.simps [simp del] kwargs.simps [simp del] arguments.simps [simp del] pairs.simps [simp del]

text \<open>What a statement does to what is owned, on every device that obeys the laws.\<close>

definition does :: "places \<Rightarrow> 'd stmt \<Rightarrow> places \<Rightarrow> bool" where
  "does l m l' \<longleftrightarrow> (\<forall>G. good_ghost G \<longrightarrow> ok (own G l) m (own G l'))"

lemma doesI: "(\<And>G. good_ghost G \<Longrightarrow> ok (own G l) m (own G l')) \<Longrightarrow> does l m l'"
  by (simp add: does_def)

lemma doesD: "does l m l' \<Longrightarrow> good_ghost G \<Longrightarrow> ok (own G l) m (own G l')"
  by (simp add: does_def)

lemma does_Nil: "does l (block []) l"
  by (intro doesI ok_Nil)

lemma does_seq: "does l m l1 \<Longrightarrow> does l1 (block ms) l' \<Longrightarrow> does l (block (m # ms)) l'"
  by (auto intro!: doesI ok_Cons dest: doesD)

text \<open>What is held at the end can be listed in another order, when none of it keeps the rest in use.\<close>

fun reordered :: "places \<Rightarrow> places \<Rightarrow> bool" where
  "reordered l [] = (l = [])"
| "reordered l ((p, ty) # r) = (case take_out p ty l of None \<Rightarrow> False | Some l' \<Rightarrow> reordered l' r)"

lemma own_reordered:
  assumes "good_ghost G" shows "reordered l r \<Longrightarrow> own G (zs @ l) s \<Longrightarrow> own G (zs @ r) s"
proof (induction r arbitrary: l zs)
  case (Cons a r)
  obtain p ty where a: "a = (p, ty)" by fastforce
  obtain l' where l': "take_out p ty l = Some l'" "reordered l' r" using Cons.prems(1) by (auto simp: a split: option.splits)
  obtain xs ys where l: "l = xs @ (p, ty) # ys" "l' = xs @ ys" "ty \<in> set entry_types \<or> (\<forall>t \<in> snd ` set xs. \<not> may_refer t ty)"
    using take_out_split [OF l'(1)] by blast
  have "own G (zs @ (p, ty) # l') s" using own_forward [OF assms] Cons.prems(2) l by simp
  then have "own G ((zs @ [a]) @ l') s" by (simp add: a)
  then show ?case using Cons.IH [OF l'(2), of "zs @ [a]"] by simp
qed simp

lemma does_end: "reordered l l' \<Longrightarrow> does l (block []) l'"
  using own_reordered [of _ l l' "[]"] by (auto intro!: doesI okI simp: block.simps)

text \<open>One step of a block. The conditions come first; the simplifier decides them.\<close>

lemma does_create:
  assumes "ty \<notin> set entry_types" "calm {} {} (kwargs ks)"
  shows "x \<notin> locals_in l \<Longrightarrow> does ((Local x, ty) # l) (block ms) l' \<Longrightarrow> does l (block (assign x (api_create ty ks) # ms)) l'"
    and "k \<notin> attrs_in l \<Longrightarrow> does ((Attr k, ty) # l) (block ms) l' \<Longrightarrow> does l (block (set_self k (api_create ty ks) # ms)) l'"
proof -
  note c = ok_create [OF _ assms(1) _ calmD [OF assms(2)]] ok_create_self [OF _ assms(1) _ calmD [OF assms(2)]]
  show "does ((Local x, ty) # l) (block ms) l' \<Longrightarrow> does l (block (assign x (api_create ty ks) # ms)) l'" if "x \<notin> locals_in l"
    by (rule does_seq [OF doesI]) (rule c(1), use that in simp_all)
  show "does ((Attr k, ty) # l) (block ms) l' \<Longrightarrow> does l (block (set_self k (api_create ty ks) # ms)) l'" if "k \<notin> attrs_in l"
    by (rule does_seq [OF doesI]) (rule c(2), use that in simp_all)
qed

lemma does_remove:
  assumes "take_out (Local x) ty l = Some l1"
  shows "does l1 (block ms) l' \<Longrightarrow> does l (block (run (api_remove ty (var x)) # ms)) l'"
    and "st \<notin> locals_in l1 \<Longrightarrow> does l1 (block ms) l' \<Longrightarrow> does l (block (assign st (api_remove ty (var x)) # ms)) l'"
  using does_seq [OF doesI [OF ok_removal(1) [OF _ assms reads_places(1)]]] by blast
    (use does_seq [OF doesI [OF ok_removal(2) [OF _ assms reads_places(1)]]] in blast)

lemma does_remove_self:
  assumes "take_out (Attr k) ty l = Some l1"
  shows "does l1 (block ms) l' \<Longrightarrow> does l (block (run (api_remove ty (self k)) # ms)) l'"
    and "st \<notin> locals_in l1 \<Longrightarrow> does l1 (block ms) l' \<Longrightarrow> does l (block (assign st (api_remove ty (self k)) # ms)) l'"
  using does_seq [OF doesI [OF ok_removal(1) [OF _ assms reads_places(2)]]] by blast
    (use does_seq [OF doesI [OF ok_removal(2) [OF _ assms reads_places(2)]]] in blast)

text \<open>The creation of an entry under a key.\<close>

lemma own_entry_made:
  assumes "good_ghost G" "own G l s" "ty \<in> set entry_types" "calm {} {} (kwargs ks)"
    and "api_create_entry ty e ks s = (Inr v, t)" "\<And>v s'. e s = (Inr v, s') \<Longrightarrow> s' = s \<and> place_vals p s = Some [v]"
  shows "own G ((p, ty) # l) t \<and> same_places s t"
proof -
  obtain kv s' where kv: "e s = (Inr kv, s')" using assms(5) by (auto simp: api_create_entry_def bindP_eq_Inr)
  then have p: "s' = s" "place_vals p s = Some [kv]" using assms(6) by blast+
  have o: "own G ((Given [kv], ty) # l) t" and sp: "same_places s t"
    using own_entry [OF assms(1-3,5) calmD [OF assms(4,1)]] kv p(1) by blast+
  have "place_vals p t = Some [kv]"
    using same_places_held [OF sp, of "[(p, ty)]"] p(2) by (auto simp: map_eq_Cons_conv split: option.splits)
  then have "own G ((p, ty) # l) t" by (intro own_moved [OF o]) simp_all
  then show ?thesis using sp by blast
qed

lemma ok_entry:
  assumes "good_ghost G" "ty \<in> set entry_types" "calm {} {} (kwargs ks)"
    and "\<And>s v s'. e s = (Inr v, s') \<Longrightarrow> s' = s \<and> place_vals p s = Some [v]"
  shows "ok (own G l) (run (api_create_entry ty e ks)) (own G ((p, ty) # l))"
    and "st \<notin> locals_in ((p, ty) # l) \<Longrightarrow> ok (own G l) (assign st (api_create_entry ty e ks)) (own G ((p, ty) # l))"
proof -
  note r = own_entry_made [OF assms(1) _ assms(2,3) _ assms(4), THEN conjunct1]
  show "ok (own G l) (run (api_create_entry ty e ks)) (own G ((p, ty) # l))"
    by (rule okI) (use r in \<open>auto simp: run_def stmt_of_def bindP_eq_Inr\<close>)
  assume st: "st \<notin> locals_in ((p, ty) # l)"
  show "ok (own G l) (assign st (api_create_entry ty e ks)) (own G ((p, ty) # l))"
  proof (rule okI)
    fix s f t assume s: "own G l s" "assign st (api_create_entry ty e ks) s = (Inr f, t)"
    then obtain w u where "api_create_entry ty e ks s = (Inr w, u)" "f = Next" "t = set_local st w u"
      by (auto simp: assign_def stmt_of_def bindP_eq_Inr)
    then show "f = Next \<and> own G ((p, ty) # l) t" using own_set_local [OF r [OF s(1)] st] by blast
  qed
qed

lemma var_place: "var x s = (Inr v, s') \<Longrightarrow> s' = s \<and> place_vals (Local x) s = Some [v]"
  by (auto simp: var_def bindP_apply split: option.splits)

lemma self_place: "k \<notin> set base_names \<Longrightarrow> self k s = (Inr v, s') \<Longrightarrow> s' = s \<and> place_vals (Attr k) s = Some [v]"
  using self_attr [of k s v s'] by simp

lemma does_entry:
  assumes "ty \<in> set entry_types" "calm {} {} (kwargs ks)"
  shows "does ((Local x, ty) # l) (block ms) l' \<Longrightarrow> does l (block (run (api_create_entry ty (var x) ks) # ms)) l'"
    and "st \<noteq> x \<Longrightarrow> st \<notin> locals_in l \<Longrightarrow> does ((Local x, ty) # l) (block ms) l'
      \<Longrightarrow> does l (block (assign st (api_create_entry ty (var x) ks) # ms)) l'"
    and "k \<notin> set base_names \<Longrightarrow> does ((Attr k, ty) # l) (block ms) l' \<Longrightarrow> does l (block (run (api_create_entry ty (self k) ks) # ms)) l'"
    and "k \<notin> set base_names \<Longrightarrow> st \<notin> locals_in l \<Longrightarrow> does ((Attr k, ty) # l) (block ms) l'
      \<Longrightarrow> does l (block (assign st (api_create_entry ty (self k) ks) # ms)) l'"
proof -
  note v = ok_entry [OF _ assms var_place] and a = ok_entry [OF _ assms self_place]
  show "does ((Local x, ty) # l) (block ms) l' \<Longrightarrow> does l (block (run (api_create_entry ty (var x) ks) # ms)) l'"
    by (rule does_seq [OF doesI]) (rule v(1))
  show "does ((Local x, ty) # l) (block ms) l' \<Longrightarrow> does l (block (assign st (api_create_entry ty (var x) ks) # ms)) l'"
    if "st \<noteq> x" "st \<notin> locals_in l" by (rule does_seq [OF doesI]) (rule v(2), use that in simp_all)
  show "does ((Attr k, ty) # l) (block ms) l' \<Longrightarrow> does l (block (run (api_create_entry ty (self k) ks) # ms)) l'"
    if "k \<notin> set base_names" by (rule does_seq [OF doesI]) (rule a(1), use that in simp_all)
  show "does ((Attr k, ty) # l) (block ms) l' \<Longrightarrow> does l (block (assign st (api_create_entry ty (self k) ks) # ms)) l'"
    if "k \<notin> set base_names" "st \<notin> locals_in l" by (rule does_seq [OF doesI]) (rule a(2), use that in simp_all)
qed

lemma own_set_attr:
  assumes "own G l t" "k \<notin> attrs_in l" "on_base (on_test (set_attr k v)) t = (x, u)"
  shows "own G l u"
proof -
  note r = set_attr_run [OF assms(3)]
  have h: "held l u = held l t" by (rule held_cong) (use r assms(2) in \<open>auto simp: update_conv'\<close>)
  have "keeps_base (sc_base t) (sc_base u)" by (rule keeps_base_attr [of _ _ k v]) (use r in simp_all)
  then have "keeps_base (g_base G) (sc_base u)" using own_ok [OF assms(1)] keeps_base_trans by blast
  then show ?thesis using assms(1) h r unfolding own_def by simp
qed

lemma ok_entry_attr:
  assumes "good_ghost G" "ty \<in> set entry_types" "calm {} {} (kwargs ks)"
    and "\<And>s v s'. e s = (Inr v, s') \<Longrightarrow> s' = s \<and> place_vals p s = Some [v]" "k \<notin> attrs_in ((p, ty) # l)"
  shows "ok (own G l) (set_self k (api_create_entry ty e ks)) (own G ((p, ty) # l))"
proof (rule okI)
  fix s f t assume s: "own G l s" "set_self k (api_create_entry ty e ks) s = (Inr f, t)"
  then obtain w u x where w: "api_create_entry ty e ks s = (Inr w, u)" "f = Next" "on_base (on_test (set_attr k w)) u = (x, t)"
    by (auto simp: set_self_def stmt_of_def bindP_eq_Inr)
  have "own G ((p, ty) # l) u" using own_entry_made [OF assms(1) s(1) assms(2,3) w(1) assms(4)] by blast
  then show "f = Next \<and> own G ((p, ty) # l) t" using own_set_attr [OF _ assms(5) w(3)] w(2) by blast
qed

lemma does_entry_attr:
  assumes "ty \<in> set entry_types" "calm {} {} (kwargs ks)"
  shows "j \<notin> attrs_in l \<Longrightarrow> does ((Local x, ty) # l) (block ms) l' \<Longrightarrow> does l (block (set_self j (api_create_entry ty (var x) ks) # ms)) l'"
    and "k \<notin> set base_names \<Longrightarrow> j \<noteq> k \<Longrightarrow> j \<notin> attrs_in l \<Longrightarrow> does ((Attr k, ty) # l) (block ms) l'
      \<Longrightarrow> does l (block (set_self j (api_create_entry ty (self k) ks) # ms)) l'"
proof -
  note v = ok_entry_attr [OF _ assms var_place] and a = ok_entry_attr [OF _ assms self_place]
  show "does ((Local x, ty) # l) (block ms) l' \<Longrightarrow> does l (block (set_self j (api_create_entry ty (var x) ks) # ms)) l'"
    if "j \<notin> attrs_in l" by (rule does_seq [OF doesI]) (rule v, use that in simp_all)
  show "does ((Attr k, ty) # l) (block ms) l' \<Longrightarrow> does l (block (set_self j (api_create_entry ty (self k) ks) # ms)) l'"
    if "k \<notin> set base_names" "j \<noteq> k" "j \<notin> attrs_in l" by (rule does_seq [OF doesI]) (rule a, use that in simp_all)
qed

lemma does_quiet:
  assumes "calm (- locals_in l) (- attrs_in l) m" "plain m" "does l (block ms) l'"
  shows "does l (block (m # ms)) l'"
  by (rule does_seq [OF _ assms(3)]) (intro doesI ok_quiet assms(2) calmD [OF assms(1)])

text \<open>Statements with blocks of their own. A loop whose body keeps what is owned keeps it.\<close>

lemma does_try:
  assumes "plain (block ns)" "does l (block bs) l1" "does l1 (block ns) l2" "does l2 (block ms) l'"
  shows "does l (block (try_finally bs ns # ms)) l'"
proof (rule does_seq [OF doesI assms(4)], rule okI)
  fix G s f t assume g: "good_ghost G" and s: "own G l s" "try_finally bs ns s = (Inr f, t)"
  obtain r u where u: "block bs s = (r, u)" by fastforce
  obtain q v where v: "block ns u = (q, v)" by fastforce
  obtain g' where q: "q = Inr g'" using s(2) u v by (cases q) (simp_all add: try_finally_def)
  have n: "g' = Next" using plainD [OF assms(1)] v q by blast
  then have r: "r = Inr f" "v = t" using s(2) u v q by (simp_all add: try_finally_def)
  have o: "f = Next \<and> own G l1 u" using okD [OF doesD [OF assms(2) g] s(1)] u r by simp
  then show "f = Next \<and> own G l2 t" using okD [OF doesD [OF assms(3) g]] v q r by blast
qed

lemma does_if:
  assumes "calm (- locals_in l) (- attrs_in l) c" "does l (block as) l1" "does l (block bs) l1" "does l1 (block ms) l'"
  shows "does l (block (if_else c as bs # ms)) l'"
proof (rule does_seq [OF doesI assms(4)], rule okI)
  fix G s f t assume g: "good_ghost G" and s: "own G l s" "if_else c as bs s = (Inr f, t)"
  obtain v u where u: "c s = (Inr v, u)" "(if truthy v then block as else block bs) u = (Inr f, t)"
    using s(2) by (auto simp: if_else_def bindP_eq_Inr)
  have "quiet_step G (- locals_in l) (- attrs_in l) s u"
    using quietD [OF calmD [OF assms(1) g] _ u(1)] own_ok [OF s(1)] by blast
  then have o: "own G l u" using own_quiet_step [OF g s(1)] by blast
  show "f = Next \<and> own G l1 t"
    using okD [OF doesD [OF assms(2) g] o] okD [OF doesD [OF assms(3) g] o] u(2) by (cases "truthy v") simp_all
qed

lemma own_loop:
  assumes "good_ghost G" "does l (block bs) l" "set xs \<inter> locals_in l = {}"
  shows "own G l s \<Longrightarrow> loop xs bs vs s = (Inr f, t) \<Longrightarrow> f = Next \<and> own G l t"
proof (induction vs arbitrary: s)
  case (Cons v vs)
  obtain u g w where u: "bind_targets xs v s = (Inr (), u)" and g: "block bs u = (Inr g, w)"
    and r: "(case g of Break \<Rightarrow> retP Next | Return w \<Rightarrow> retP g | _ \<Rightarrow> loop xs bs vs) w = (Inr f, t)"
    using Cons.prems(2) by (auto simp: bindP_eq_Inr thenP_eq_Inr)
  have "quiet G (set xs) {} (bind_targets xs v)" by (rule quiet_targets(2)) simp
  then have "quiet_step G (set xs) {} s u" using quietD u own_ok [OF Cons.prems(1)] by blast
  then have o: "own G l u" by (rule own_quiet_step [OF assms(1) Cons.prems(1)]) (use assms(3) in auto)
  have "g = Next \<and> own G l w" by (rule okD [OF doesD [OF assms(2,1)] o g])
  then show ?case using Cons.IH [of w] r by simp
qed simp

lemma does_for:
  assumes "calm (- locals_in l) (- attrs_in l) e" "set xs \<inter> locals_in l = {}" "does l (block bs) l" "does l (block ms) l'"
  shows "does l (block (for_in xs e bs # ms)) l'"
proof (rule does_seq [OF doesI assms(4)], rule okI)
  fix G s f t assume g: "good_ghost G" and s: "own G l s" "for_in xs e bs s = (Inr f, t)"
  obtain v u vs where u: "e s = (Inr v, u)" "loop xs bs vs u = (Inr f, t)"
    using s(2) by (auto simp: for_in_def bindP_eq_Inr)
  have "quiet_step G (- locals_in l) (- attrs_in l) s u"
    using quietD [OF calmD [OF assms(1) g] _ u(1)] own_ok [OF s(1)] by blast
  then have "own G l u" using own_quiet_step [OF g s(1)] by blast
  then show "f = Next \<and> own G l t" by (rule own_loop [OF g assms(3,2) _ u(2)])
qed

text \<open>A method keeps its objects in attributes.\<close>

lemma own_frame: "own G l s \<Longrightarrow> locals_in l = {} \<Longrightarrow> own G l (s\<lparr>sc_locals := vs\<rparr>)"
  by (rule own_same [of G l s], assumption, rule held_cong) auto

lemma does_invoke:
  assumes "does l m l1" "locals_in l = {}" "locals_in l1 = {}" "calm {} {} (kwargs ps)" "does l1 (block ms) l'"
  shows "does l (block (run (invoke ps m) # ms)) l'"
proof (rule does_seq [OF doesI assms(5)], rule okI)
  fix G s f t assume g: "good_ghost G" and s: "own G l s" "run (invoke ps m) s = (Inr f, t)"
  then obtain vs u h w where u: "kwargs ps s = (Inr vs, u)" and h: "m (u\<lparr>sc_locals := vs\<rparr>) = (Inr h, w)"
    and t: "t = w\<lparr>sc_locals := sc_locals u\<rparr>" "f = Next"
    by (auto simp: run_def stmt_of_def invoke_def bindP_apply bindR_eq_Inr split: prod.splits sum.splits)
  have "quiet_step G {} {} s u" using quietD [OF calmD [OF assms(4) g] _ u] own_ok [OF s(1)] by blast
  then have "own G l u" by (rule own_quiet_step [OF g s(1)]) simp_all
  then have "own G l1 w" using okD [OF doesD [OF assms(1) g] own_frame h] assms(2) by blast
  then show "f = Next \<and> own G l1 t" using t own_frame [OF _ assms(3)] by simp
qed

text \<open>A list takes over an object that is appended to it.\<close>

lemma own_join: "own G ((p, ty) # (q, ty) # l) s \<Longrightarrow> place_vals p s = Some vs \<Longrightarrow> place_vals q s = Some ws
    \<Longrightarrow> own G ((Given (vs @ ws), ty) # l) s"
  unfolding own_def by (auto split: option.splits)

lemma own_given: "own G ((p, ty) # l) s \<Longrightarrow> place_vals p s = Some vs \<Longrightarrow> own G ((Given vs, ty) # l) s"
  unfolding own_def by simp

lemma own_nothing: "own G ((Given [], ty) # l) s \<longleftrightarrow> own G l s"
  unfolding own_def by (auto split: option.splits)

lemma does_list:
  shows "x \<notin> locals_in l \<Longrightarrow> does ((AllLocal x, ty) # l) (block ms) l' \<Longrightarrow> does l (block (assign x (list_of []) # ms)) l'"
    and "k \<notin> attrs_in l \<Longrightarrow> does ((AllAttr k, ty) # l) (block ms) l' \<Longrightarrow> does l (block (set_self k (list_of []) # ms)) l'"
proof -
  show "does l (block (assign x (list_of []) # ms)) l'" if "x \<notin> locals_in l" "does ((AllLocal x, ty) # l) (block ms) l'"
  proof (rule does_seq [OF doesI that(2)], rule okI)
    fix G s f t assume s: "own G l s" "assign x (list_of []) s = (Inr f, t)"
    then have t: "t = set_local x (VSeq []) s" "f = Next" by (auto simp: assign_def stmt_of_def list_of_def arguments.simps bindP_eq_Inr)
    have o: "own G ((Given [], ty) # l) t" unfolding t own_nothing by (rule own_set_local [OF s(1) that(1)])
    show "f = Next \<and> own G ((AllLocal x, ty) # l) t"
      by (intro conjI t(2) own_moved [OF o]) (simp_all add: t(1) set_local_def update_conv')
  qed
  show "does l (block (set_self k (list_of []) # ms)) l'" if "k \<notin> attrs_in l" "does ((AllAttr k, ty) # l) (block ms) l'"
  proof (rule does_seq [OF doesI that(2)], rule okI)
    fix G s f t assume s: "own G l s" "set_self k (list_of []) s = (Inr f, t)"
    then obtain x where t: "on_base (on_test (set_attr k (VSeq []))) s = (x, t)" "f = Next"
      by (auto simp: set_self_def stmt_of_def list_of_def arguments.simps bindP_eq_Inr)
    have o: "own G ((Given [], ty) # l) t" unfolding own_nothing by (rule own_set_attr [OF s(1) that(1) t(1)])
    show "f = Next \<and> own G ((AllAttr k, ty) # l) t"
      by (intro conjI t(2) own_moved [OF o]) (use set_attr_run [OF t(1)] in \<open>simp_all add: attr_of_def update_conv'\<close>)
  qed
qed

lemma own_appended:
  assumes "good_ghost G" "own G l s" "take_out p ty l = Some l1" "take_out q ty l1 = Some l2" "\<not> may_refer ty ty"
    and "place_vals p s = Some [v]" "\<And>vs. place_vals q s = Some vs \<Longrightarrow> seq_of w = Some (rev vs)"
  shows "\<exists>xs. seq_of w = Some xs \<and> own G ((Given (rev (xs @ [v])), ty) # l2) s"
proof -
  obtain xs ys where l: "l1 = xs @ (q, ty) # ys" "l2 = xs @ ys" "ty \<in> set entry_types \<or> (\<forall>t \<in> snd ` set xs. \<not> may_refer t ty)"
    using take_out_split [OF assms(4)] by blast
  have "own G (((p, ty) # xs) @ (q, ty) # ys) s" using own_front [OF assms(1-3)] by (simp add: l(1))
  then have "own G ((q, ty) # ((p, ty) # xs) @ ys) s" by (rule own_first [OF assms(1)]) (use l(3) assms(5) in auto)
  then have "own G ([(q, ty)] @ (p, ty) # l2) s" by (simp add: l(2))
  then have o: "own G ((p, ty) # [(q, ty)] @ l2) s" by (rule own_first [OF assms(1)]) (use assms(5) in auto)
  then obtain vs where vs: "place_vals q s = Some vs" unfolding own_def by (auto split: option.splits)
  have "own G ((Given ([v] @ vs), ty) # l2) s" by (rule own_join [OF _ assms(6) vs]) (use o in simp)
  then show ?thesis using assms(7) [OF vs] by simp
qed

lemma appended_run:
  assumes "appended e (var y) s = (Inr z, t)" "\<And>v s'. e s = (Inr v, s') \<Longrightarrow> s' = s"
  shows "\<exists>w v. e s = (Inr w, s) \<and> place_vals (Local y) s = Some [v] \<and> t = s \<and> (\<forall>xs. seq_of w = Some xs \<longrightarrow> z = VSeq (xs @ [v]))"
proof -
  obtain w s' v s'' where w: "e s = (Inr w, s')" and v: "var y s' = (Inr v, s'')"
    and z: "seq_op (\<lambda>l v. Inr (l @ [v])) w v = Inr z" "t = s''"
    using assms(1) by (auto simp: appended_def binary_def bindP_eq_Inr)
  have e: "s' = s" "s'' = s" "place_vals (Local y) s = Some [v]" using assms(2) [OF w] var_place [OF v] by auto
  then show ?thesis using w z by (auto simp: seq_op_def split: option.splits)
qed

fun type_at :: "place \<Rightarrow> places \<Rightarrow> string option" where
  "type_at p [] = None"
| "type_at p ((q, t) # l) = (if q = p then Some t else type_at p l)"

lemma does_append:
  assumes "type_at (Local y) l = Some ty" "take_out (Local y) ty l = Some l1" "\<not> may_refer ty ty"
  shows "take_out (AllLocal x) ty l1 = Some l2 \<Longrightarrow> x \<notin> locals_in l2 \<Longrightarrow> does ((AllLocal x, ty) # l2) (block ms) l'
      \<Longrightarrow> does l (block (assign x (appended (var x) (var y)) # ms)) l'"
    and "k \<notin> set base_names \<Longrightarrow> take_out (AllAttr k) ty l1 = Some l2 \<Longrightarrow> k \<notin> attrs_in l2 \<Longrightarrow> does ((AllAttr k, ty) # l2) (block ms) l'
      \<Longrightarrow> does l (block (set_self k (appended (self k) (var y)) # ms)) l'"
proof -
  show "does l (block (assign x (appended (var x) (var y)) # ms)) l'"
    if h: "take_out (AllLocal x) ty l1 = Some l2" "x \<notin> locals_in l2" "does ((AllLocal x, ty) # l2) (block ms) l'"
  proof (rule does_seq [OF doesI h(3)], rule okI)
    fix G s f t assume g: "good_ghost G" and s: "own G l s" "assign x (appended (var x) (var y)) s = (Inr f, t)"
    then obtain z u where z: "appended (var x) (var y) s = (Inr z, u)" "t = set_local x z u" "f = Next"
      by (auto simp: assign_def stmt_of_def bindP_eq_Inr)
    have r: "\<And>v s'. var x s = (Inr v, s') \<Longrightarrow> s' = s" using var_place by blast
    obtain w v where w: "var x s = (Inr w, s)" "place_vals (Local y) s = Some [v]" "u = s"
      and zx: "\<And>xs. seq_of w = Some xs \<Longrightarrow> z = VSeq (xs @ [v])" using appended_run [OF z(1)] r by blast
    have "map_of (sc_locals s) x = Some w" using var_place [OF w(1)] by auto
    then have q: "\<And>vs. place_vals (AllLocal x) s = Some vs \<Longrightarrow> seq_of w = Some (rev vs)" by auto
    obtain xs where xs: "seq_of w = Some xs" "own G ((Given (rev (xs @ [v])), ty) # l2) s"
      using own_appended [OF g s(1) assms(2) h(1) assms(3) w(2) q] by blast
    have o: "own G ((Given (rev (xs @ [v])), ty) # l2) t" unfolding z(2) w(3)
      by (rule own_set_local [OF xs(2)]) (simp add: h(2))
    show "f = Next \<and> own G ((AllLocal x, ty) # l2) t"
      by (intro conjI z(3) own_moved [OF o]) (simp_all add: z(2) zx [OF xs(1)] set_local_def update_conv')
  qed
  show "does l (block (set_self k (appended (self k) (var y)) # ms)) l'"
    if h: "k \<notin> set base_names" "take_out (AllAttr k) ty l1 = Some l2" "k \<notin> attrs_in l2" "does ((AllAttr k, ty) # l2) (block ms) l'"
  proof (rule does_seq [OF doesI h(4)], rule okI)
    fix G s f t assume g: "good_ghost G" and s: "own G l s" "set_self k (appended (self k) (var y)) s = (Inr f, t)"
    then obtain z u x where z: "appended (self k) (var y) s = (Inr z, u)" "on_base (on_test (set_attr k z)) u = (x, t)" "f = Next"
      by (auto simp: set_self_def stmt_of_def bindP_eq_Inr)
    have r: "\<And>v s'. self k s = (Inr v, s') \<Longrightarrow> s' = s" using self_place [OF h(1)] by blast
    obtain w v where w: "self k s = (Inr w, s)" "place_vals (Local y) s = Some [v]" "u = s"
      and zx: "\<And>xs. seq_of w = Some xs \<Longrightarrow> z = VSeq (xs @ [v])" using appended_run [OF z(1)] r by blast
    have "attr_of k s = Some w" using self_attr [OF w(1) h(1)] by simp
    then have q: "\<And>vs. place_vals (AllAttr k) s = Some vs \<Longrightarrow> seq_of w = Some (rev vs)" by auto
    obtain xs where xs: "seq_of w = Some xs" "own G ((Given (rev (xs @ [v])), ty) # l2) s"
      using own_appended [OF g s(1) assms(2) h(2) assms(3) w(2) q] by blast
    have o: "own G ((Given (rev (xs @ [v])), ty) # l2) t"
      by (rule own_set_attr [OF xs(2) _ z(2) [unfolded w(3)]]) (simp add: h(3))
    show "f = Next \<and> own G ((AllAttr k, ty) # l2) t"
      by (intro conjI z(3) own_moved [OF o])
        (use set_attr_run [OF z(2)] in \<open>simp_all add: zx [OF xs(1)] attr_of_def update_conv'\<close>)
  qed
qed

text \<open>The removal of every object of a list.\<close>

lemma own_split: "own G ((Given (a @ v # b), ty) # l) s \<Longrightarrow> own G ([(Given a, ty)] @ (Given [v], ty) # (Given b, ty) # l) s"
  unfolding own_def by (auto split: option.splits)

lemma own_removal_loop:
  assumes "good_ghost G" "\<not> may_refer ty ty" "x \<notin> locals_in l"
  shows "own G ((Given us, ty) # l) s \<Longrightarrow> mset us = mset vs \<Longrightarrow> loop [x] [run (api_remove ty (var x))] vs s = (Inr f, t)
    \<Longrightarrow> f = Next \<and> own G l t"
proof (induction vs arbitrary: us s)
  case Nil
  then show ?case by (simp add: own_nothing)
next
  case (Cons v vs)
  let ?u = "set_local x v s"
  obtain g w where g: "block [run (api_remove ty (var x))] ?u = (Inr g, w)"
    and r: "(case g of Break \<Rightarrow> retP Next | Return w \<Rightarrow> retP g | _ \<Rightarrow> loop [x] [run (api_remove ty (var x))] vs) w = (Inr f, t)"
    using Cons.prems(3) by (auto simp: bindP_eq_Inr thenP_eq_Inr bind_targets_def)
  have "v \<in> set us" using Cons.prems(2) by (metis list.set_intros(1) set_mset_mset)
  then obtain a b where ab: "us = a @ v # b" by (metis split_list)
  have "own G ((Given [v], ty) # [(Given a, ty)] @ (Given b, ty) # l) s"
    by (rule own_first [OF assms(1) own_split]) (use Cons.prems(1) ab assms(2) in auto)
  then have "own G ((Given [v], ty) # (Given a, ty) # (Given b, ty) # l) ?u" by (intro own_set_local) (use assms(3) in auto)
  then have o: "own G ((Local x, ty) # (Given a, ty) # (Given b, ty) # l) ?u"
    by (rule own_moved) (auto simp: set_local_def update_conv')
  have "does ((Local x, ty) # (Given a, ty) # (Given b, ty) # l) (block [run (api_remove ty (var x))]) ((Given a, ty) # (Given b, ty) # l)"
    by (rule does_remove(1) [OF _ does_Nil]) simp
  from okD [OF doesD [OF this assms(1)] o g]
  have n: "g = Next" and ow: "own G ((Given a, ty) # (Given b, ty) # l) w" by blast+
  have "own G ((Given (a @ b), ty) # l) w" by (rule own_join [OF ow]) simp_all
  moreover have "mset (a @ b) = mset vs" using Cons.prems(2) unfolding ab by simp
  ultimately show ?case using Cons.IH [of "a @ b" w] r n by simp
qed

lemma does_remove_all:
  assumes "x \<notin> locals_in l1" "\<not> may_refer ty ty" "does l1 (block ms) l'"
  shows "take_out (AllLocal y) ty l = Some l1 \<Longrightarrow> does l (block (for_in [x] (var y) [run (api_remove ty (var x))] # ms)) l'"
    and "k \<notin> set base_names \<Longrightarrow> take_out (AllAttr k) ty l = Some l1 \<Longrightarrow> does l (block (for_in [x] (self k) [run (api_remove ty (var x))] # ms)) l'"
proof -
  have *: "f = Next \<and> own G l1 t" if g: "good_ghost G" and s: "own G l s" "for_in [x] e [run (api_remove ty (var x))] s = (Inr f, t)"
    and t: "take_out p ty l = Some l1" and e: "\<And>v s' vs. e s = (Inr v, s') \<Longrightarrow> place_vals p s = Some vs \<Longrightarrow> s' = s \<and> seq_of v = Some (rev vs)"
    for G s f t e p
  proof -
    have o: "own G ((p, ty) # l1) s" by (rule own_front [OF g s(1) t])
    then obtain vs where vs: "place_vals p s = Some vs" unfolding own_def by (auto split: option.splits)
    obtain v u ws where u: "e s = (Inr v, u)" "elements v = Inr ws" "loop [x] [run (api_remove ty (var x))] ws u = (Inr f, t)"
      using s(2) by (auto simp: for_in_def bindP_eq_Inr)
    have w: "u = s" "ws = rev vs" using e [OF u(1) vs] u(2) by (auto simp: elements_def split: sai_val.splits)
    have "own G ((Given vs, ty) # l1) s" by (rule own_given [OF o vs])
    then show ?thesis using own_removal_loop [OF g assms(2,1) _ _ u(3)] w by simp
  qed
  show "take_out (AllLocal y) ty l = Some l1 \<Longrightarrow> does l (block (for_in [x] (var y) [run (api_remove ty (var x))] # ms)) l'"
    by (rule does_seq [OF doesI assms(3)], rule okI, rule *, assumption+) (auto dest!: var_place)
  show "k \<notin> set base_names \<Longrightarrow> take_out (AllAttr k) ty l = Some l1 \<Longrightarrow> does l (block (for_in [x] (self k) [run (api_remove ty (var x))] # ms)) l'"
    by (rule does_seq [OF doesI assms(3)], rule okI, rule *, assumption+) (auto dest!: self_attr)
qed

section \<open>Sessions\<close>

text \<open>\<open>setUp\<close> of the base class, and \<open>tearDown\<close> of the base class with what it had made: the objects are those
  from before, or fewer entries, whatever a test has done in between that kept them.\<close>

definition base_neutral :: "'d script_env \<Rightarrow> ('d \<Rightarrow> objects) \<Rightarrow> ('d \<Rightarrow> uses) \<Rightarrow> bool" where
  "base_neutral E objs uses \<longleftrightarrow> (\<forall>a b c d. se_setUp E a = (Inr (), b) \<longrightarrow> keeps_base b c
     \<longrightarrow> left_over (objs (b_dev c)) (objs (b_dev b)) \<longrightarrow> uses (b_dev c) \<subseteq> uses (b_dev b)
     \<longrightarrow> se_tearDown E c = (Inr (), d) \<longrightarrow> left_over (objs (b_dev d)) (objs (b_dev a)))"

text \<open>A \<open>setUp\<close> that ends normally has called that of the base class, and since then made what \<open>l\<close> holds.\<close>

definition started :: "('d \<Rightarrow> objects) \<Rightarrow> ('d \<Rightarrow> uses) \<Rightarrow> 'd script \<Rightarrow> places \<Rightarrow> 'd script \<Rightarrow> bool" where
  "started objs uses s l t \<longleftrightarrow> (\<exists>a b. left_over (objs (b_dev a)) (objs (b_dev (sc_base s)))
     \<and> se_setUp (sc_env s) a = (Inr (), b)
     \<and> own \<lparr>g_env = sc_env s, g_objs = objs, g_uses = uses, g_start = (objs (b_dev b), uses (b_dev b)), g_base = b\<rparr> l t)"

definition starts :: "'d stmt \<Rightarrow> places \<Rightarrow> bool" where
  "starts m l \<longleftrightarrow> (\<forall>objs uses s f t. script_device (se_client (sc_env s)) (se_lib (sc_env s)) objs uses
     \<longrightarrow> m s = (Inr f, t) \<longrightarrow> f = Next \<and> started objs uses s l t)"

text \<open>A \<open>tearDown\<close> that ends normally has removed what \<open>l\<close> holds before it calls that of the base class.\<close>

definition ended :: "'d ghost \<Rightarrow> 'd script \<Rightarrow> bool" where
  "ended G t \<longleftrightarrow> (\<exists>c d. keeps_base (g_base G) c \<and> left_over (g_objs G (b_dev c)) (fst (g_start G))
     \<and> g_uses G (b_dev c) \<subseteq> snd (g_start G) \<and> se_tearDown (g_env G) c = (Inr (), d) \<and> sc_base t = d)"

definition ends :: "places \<Rightarrow> 'd stmt \<Rightarrow> bool" where
  "ends l m \<longleftrightarrow> (\<forall>G. good_ghost G \<longrightarrow> ok (own G l) m (ended G))"

definition cleans :: "'d stmt \<Rightarrow> 'd stmt \<Rightarrow> 'd stmt \<Rightarrow> bool" where
  "cleans setUp runTest tearDown \<longleftrightarrow> (\<exists>l. starts setUp l \<and> does l runTest l \<and> ends l tearDown \<and> locals_in l = {})"

lemma cleansI:
  "starts setUp l \<Longrightarrow> locals_in l = {} \<Longrightarrow> does l runTest l \<Longrightarrow> ends l tearDown \<Longrightarrow> cleans setUp runTest tearDown"
  by (auto simp: cleans_def)

lemma stmt_of_run: "stmt_of m s = (Inr f, t) \<longleftrightarrow> f = Next \<and> (\<exists>x. m s = (Inr x, t))"
  by (auto simp: stmt_of_def bindP_eq_Inr)

lemma starts_base: "starts super_setUp []"
proof -
  have "f = Next \<and> started objs uses s [] t"
    if d: "script_device (se_client (sc_env s)) (se_lib (sc_env s)) objs uses" and r: "super_setUp s = (Inr f, t)" for objs uses s f t
  proof -
    obtain b where b: "f = Next" "se_setUp (sc_env s) (sc_base s) = (Inr (), b)" "t = s\<lparr>sc_base := b\<rparr>"
      using r by (auto simp: super_setUp_def bindP_apply stmt_of_run on_base_apply)
    have "dev_has (objs (b_dev b), uses (b_dev b)) [] (objs (b_dev b)) (uses (b_dev b))"
      by (rule dev_has_start [OF device_wf [OF d]])
    then have "own \<lparr>g_env = sc_env s, g_objs = objs, g_uses = uses, g_start = (objs (b_dev b), uses (b_dev b)), g_base = b\<rparr> [] t"
      using chosen_Nil by (auto simp: own_def b(3))
    then show ?thesis using b unfolding started_def by (intro conjI b(1) exI [of _ "sc_base s"] exI [of _ b]) simp_all
  qed
  then show ?thesis unfolding starts_def by blast
qed

lemma ends_base: "ends [] super_tearDown"
proof -
  have "f = Next \<and> ended G t" if o: "own G [] s" and r: "super_tearDown s = (Inr f, t)" for G s f t
  proof -
    have e: "sc_env s = g_env G" "keeps_base (g_base G) (sc_base s)" using own_ok [OF o] by simp_all
    obtain d where d: "f = Next" "se_tearDown (g_env G) (sc_base s) = (Inr (), d)" "t = s\<lparr>sc_base := d\<rparr>"
      using r by (auto simp: super_tearDown_def bindP_apply stmt_of_run on_base_apply e(1))
    obtain ps where "chosen [] ps" "dev_has (g_start G) ps (g_objs G (b_dev (sc_base s))) (g_uses G (b_dev (sc_base s)))"
      using o by (auto simp: own_def)
    then have "dev_has (g_start G) [] (g_objs G (b_dev (sc_base s))) (g_uses G (b_dev (sc_base s)))"
      by (auto elim: chosen_NilE)
    from dev_has_end [OF this] show ?thesis using d e(2) unfolding ended_def by auto
  qed
  then show ?thesis unfolding ends_def by (blast intro: okI)
qed

lemma settled_left_over:
  assumes "settled objs uses d d'" "wf_objects (objs d) (uses d)" shows "left_over (objs d') (objs d)"
proof -
  obtain K where K: "\<And>v. v \<in> K \<Longrightarrow> objs d v = Some ''fdb_entry''" "objs d' = objs d |` (- K)"
    using assms(1) unfolding settled_def by blast
  have e: "''fdb_entry'' \<in> set entry_types" by (simp add: entry_types_def)
  have "v \<notin> K" if "is_oid v" for v using entry_unused [OF assms(2) K(1) e] that by blast
  then show ?thesis unfolding left_over_def K(2) by (auto simp: map_le_def restrict_map_def split: if_splits)
qed

lemma starts_quiet:
  assumes "calm UNIV UNIV m" "plain m" "starts (block ms) l" shows "starts (block (m # ms)) l"
proof -
  have "f = Next \<and> started objs uses s l t"
    if d: "script_device (se_client (sc_env s)) (se_lib (sc_env s)) objs uses" and r: "block (m # ms) s = (Inr f, t)" for objs uses s f t
  proof -
    obtain g u where u: "m s = (Inr g, u)" "(if g = Next then block ms else retP g) u = (Inr f, t)"
      using r by (auto simp: block.simps bindP_eq_Inr)
    have n: "g = Next" by (rule plainD [OF assms(2) u(1)])
    define G where "G = \<lparr>g_env = sc_env s, g_objs = objs, g_uses = uses, g_start = (objs (b_dev (sc_base s)), {}), g_base = sc_base s\<rparr>"
    have "quiet_step G UNIV UNIV s u"
      by (rule quietD [OF calmD [OF assms(1)] _ u(1)]) (simp_all add: good_ghost_def G_def d)
    then have q: "sc_env u = sc_env s" "settled objs uses (b_dev (sc_base s)) (b_dev (sc_base u))"
      by (simp_all add: quiet_step_def G_def)
    have "block ms u = (Inr f, t)" "script_device (se_client (sc_env u)) (se_lib (sc_env u)) objs uses" using u(2) n d q(1) by simp_all
    then have st: "f = Next \<and> started objs uses u l t" using assms(3) unfolding starts_def by blast
    have "left_over (objs (b_dev (sc_base u))) (objs (b_dev (sc_base s)))" by (rule settled_left_over [OF q(2) device_wf [OF d]])
    then show ?thesis using st left_over_trans unfolding started_def q(1) by blast
  qed
  then show ?thesis unfolding starts_def by blast
qed

lemma started_does:
  assumes "started objs uses s l u" "does l m l'" "m u = (Inr f, t)"
    and "script_device (se_client (sc_env s)) (se_lib (sc_env s)) objs uses"
  shows "f = Next \<and> started objs uses s l' t"
proof -
  obtain a b where a: "left_over (objs (b_dev a)) (objs (b_dev (sc_base s)))" "se_setUp (sc_env s) a = (Inr (), b)"
    and o: "own \<lparr>g_env = sc_env s, g_objs = objs, g_uses = uses, g_start = (objs (b_dev b), uses (b_dev b)), g_base = b\<rparr> l u"
    using assms(1) unfolding started_def by blast
  have "f = Next \<and> own \<lparr>g_env = sc_env s, g_objs = objs, g_uses = uses, g_start = (objs (b_dev b), uses (b_dev b)), g_base = b\<rparr> l' t"
    by (rule okD [OF doesD [OF assms(2)] o assms(3)]) (simp add: good_ghost_def assms(4))
  then show ?thesis unfolding started_def using a by blast
qed

lemma starts_then:
  assumes "starts m l" "does l (block ms) l'" shows "starts (block (m # ms)) l'"
proof -
  have "f = Next \<and> started objs uses s l' t"
    if d: "script_device (se_client (sc_env s)) (se_lib (sc_env s)) objs uses" and r: "block (m # ms) s = (Inr f, t)" for objs uses s f t
  proof -
    obtain g u where u: "m s = (Inr g, u)" "(if g = Next then block ms else retP g) u = (Inr f, t)"
      using r by (auto simp: block.simps bindP_eq_Inr)
    have "g = Next \<and> started objs uses s l u" using assms(1) d u(1) unfolding starts_def by blast
    then show ?thesis using started_does [OF _ assms(2) _ d] u(2) by auto
  qed
  then show ?thesis unfolding starts_def by blast
qed

lemma invoke_run:
  assumes "run (invoke ps m) s = (Inr f, t)"
  shows "f = Next \<and> (\<exists>vs u h w. kwargs ps s = (Inr vs, u) \<and> m (u\<lparr>sc_locals := vs\<rparr>) = (Inr h, w) \<and> t = w\<lparr>sc_locals := sc_locals u\<rparr>)"
  using assms by (auto simp: run_def stmt_of_def invoke_def bindP_apply bindR_eq_Inr split: prod.splits sum.splits)

lemma starts_invoke:
  assumes "starts m l" "locals_in l = {}" shows "starts (run (invoke [] m)) l"
proof -
  have "f = Next \<and> started objs uses s l t"
    if d: "script_device (se_client (sc_env s)) (se_lib (sc_env s)) objs uses" and r: "run (invoke [] m) s = (Inr f, t)" for objs uses s f t
  proof -
    obtain h w where h: "f = Next" "m (s\<lparr>sc_locals := []\<rparr>) = (Inr h, w)" "t = w\<lparr>sc_locals := sc_locals s\<rparr>"
      using invoke_run [OF r] by (auto simp: kwargs.simps)
    have "started objs uses (s\<lparr>sc_locals := []\<rparr>) l w" using assms(1) d h(2) unfolding starts_def by simp
    then have "started objs uses s l w" unfolding started_def by simp
    then have "started objs uses s l t" unfolding started_def h(3) using own_frame [OF _ assms(2)] by blast
    then show ?thesis using h(1) by simp
  qed
  then show ?thesis unfolding starts_def by blast
qed

lemma ends_then:
  assumes "does l (block ns) l'" "ends l' m" shows "ends l (block (ns @ [m]))"
proof -
  have "block (ns @ [m]) = bindP (block ns) (\<lambda>f. if f = Next then bindP m (\<lambda>g. if g = Next then retP Next else retP g) else retP f)" for ns
    by (induction ns) (auto simp: block.simps fun_eq_iff bindP_apply split: prod.splits sum.splits)
  then have *: "block (ns @ [m]) = bindP (block ns) (\<lambda>f. if f = Next then m else retP f)"
    by (auto simp: fun_eq_iff bindP_apply split: prod.splits sum.splits)
  show ?thesis unfolding ends_def
  proof (intro allI impI okI)
    fix G s f t assume g: "good_ghost G" and s: "own G l s" "block (ns @ [m]) s = (Inr f, t)"
    obtain h u where u: "block ns s = (Inr h, u)" "(if h = Next then m else retP h) u = (Inr f, t)"
      using s(2) by (auto simp: * bindP_eq_Inr)
    have o: "h = Next \<and> own G l' u" by (rule okD [OF doesD [OF assms(1) g] s(1) u(1)])
    then show "f = Next \<and> ended G t" using assms(2) g u(2) unfolding ends_def by (auto dest: okD)
  qed
qed

lemma ends_block:
  assumes "ms \<noteq> []" "does l (block (butlast ms)) l'" "ends l' (last ms)" shows "ends l (block ms)"
  using ends_then [OF assms(2,3)] assms(1) by simp

lemma ends_invoke:
  assumes "ends l m" "locals_in l = {}" shows "ends l (run (invoke [] m))"
proof -
  have "f = Next \<and> ended G t" if g: "good_ghost G" and s: "own G l s" "run (invoke [] m) s = (Inr f, t)" for G s f t
  proof -
    obtain h w where h: "f = Next" "m (s\<lparr>sc_locals := []\<rparr>) = (Inr h, w)" "t = w\<lparr>sc_locals := sc_locals s\<rparr>"
      using invoke_run [OF s(2)] by (auto simp: kwargs.simps)
    have "ended G w" using assms(1) g own_frame [OF s(1) assms(2)] h(2) unfolding ends_def by (blast dest: okD)
    then show ?thesis using h by (simp add: ended_def)
  qed
  then show ?thesis unfolding ends_def by (blast intro: okI)
qed

text \<open>When every step is matched, a session that ends normally leaves the objects that were there.\<close>

lemma session_cleans:
  assumes "cleans setUp runTest tearDown" "script_device (se_client (sc_env s)) (se_lib (sc_env s)) objs uses"
    and "base_neutral (sc_env s) objs uses" "session setUp runTest tearDown s = (Inr (), t)"
  shows "left_over (objs (b_dev (sc_base t))) (objs (b_dev (sc_base s)))"
proof -
  obtain l where l: "starts setUp l" "does l runTest l" "ends l tearDown" "locals_in l = {}"
    using assms(1) unfolding cleans_def by blast
  obtain u v x y z where u: "invoke [] setUp s = (Inr x, u)" and v: "invoke [] runTest u = (Inr y, v)"
    and t: "invoke [] tearDown v = (Inr z, t)"
    using assms(4) by (auto simp: session_def thenP_apply finallyP_def split: prod.splits sum.splits)
  obtain f w where f: "setUp (s\<lparr>sc_locals := []\<rparr>) = (Inr f, w)" "u = w\<lparr>sc_locals := sc_locals s\<rparr>"
    using u by (auto simp: invoke_def kwargs.simps bindP_apply bindR_eq_Inr split: prod.splits sum.splits)
  have "started objs uses (s\<lparr>sc_locals := []\<rparr>) l w" using l(1) f(1) assms(2) unfolding starts_def by simp
  then obtain a b where a: "left_over (objs (b_dev a)) (objs (b_dev (sc_base s)))" "se_setUp (sc_env s) a = (Inr (), b)"
    and o: "own \<lparr>g_env = sc_env s, g_objs = objs, g_uses = uses, g_start = (objs (b_dev b), uses (b_dev b)), g_base = b\<rparr> l w"
    (is "own ?G l w") unfolding started_def by auto
  have g: "good_ghost ?G" using assms(2) by (simp add: good_ghost_def)
  obtain h q where h: "runTest (u\<lparr>sc_locals := []\<rparr>) = (Inr h, q)" "v = q\<lparr>sc_locals := sc_locals u\<rparr>"
    using v by (auto simp: invoke_def kwargs.simps bindP_apply bindR_eq_Inr split: prod.splits sum.splits)
  have "own ?G l (u\<lparr>sc_locals := []\<rparr>)" using own_frame [OF o l(4), of "[]"] f(2) by simp
  then have "own ?G l q" using okD [OF doesD [OF l(2) g] _ h(1)] by blast
  then have o2: "own ?G l (v\<lparr>sc_locals := []\<rparr>)" using own_frame [OF _ l(4), of ?G q "[]"] h(2) by simp
  obtain e p where e: "tearDown (v\<lparr>sc_locals := []\<rparr>) = (Inr e, p)" "t = p\<lparr>sc_locals := sc_locals v\<rparr>"
    using t by (auto simp: invoke_def kwargs.simps bindP_apply bindR_eq_Inr split: prod.splits sum.splits)
  have "ended ?G p" using l(3) g o2 e(1) unfolding ends_def by (blast dest: okD)
  then obtain c d where "keeps_base b c" "left_over (objs (b_dev c)) (objs (b_dev b))" "uses (b_dev c) \<subseteq> uses (b_dev b)"
    "se_tearDown (sc_env s) c = (Inr (), d)" "sc_base p = d" unfolding ended_def by auto
  then have "left_over (objs (b_dev (sc_base t))) (objs (b_dev a))" using assms(3) a(2) e(2) unfolding base_neutral_def by auto
  then show ?thesis by (rule left_over_trans [OF _ a(1)])
qed


text \<open>The rules in the order in which they are tried.\<close>

lemma starts_super: "does [] (block ms) l \<Longrightarrow> starts (block (super_setUp # ms)) l"
  by (rule starts_then [OF starts_base])

lemma starts_first:
  "starts m l \<Longrightarrow> locals_in l = {} \<Longrightarrow> does l (block ms) l' \<Longrightarrow> starts (block (run (invoke [] m) # ms)) l'"
  by (rule starts_then [OF starts_invoke])

lemmas method_rules = cleansI starts_base starts_super starts_first starts_quiet ends_base ends_invoke ends_block
  does_Nil does_end does_create does_remove does_remove_self does_entry does_entry_attr does_append does_remove_all does_try does_if does_for does_invoke does_quiet
lemmas method_simps = calm_rules plain_rules entry_types_def object_attrs_def base_names_def may_refer_def refers_to_def

end
