(* ===== verification/PtfDemo.thy ===== *)
theory PtfDemo
  imports PtfOwn
begin

text \<open>
  A device that obeys the laws of \<open>PtfOwn\<close>, for the examples: it keeps what it is given, gives a new
  object an identifier above every number it has seen, refuses to remove an object that an attribute
  of another one names, and answers a reading with what was written.
\<close>

record script_dev =
  sd_objs :: "(sai_val \<times> string \<times> sai_args) list"
  sd_status :: int

section \<open>What there is\<close>

definition proper :: "sai_val \<times> string \<times> sai_args \<Rightarrow> bool" where
  "proper = (\<lambda>(v, ty, a). v \<noteq> VInt 0 \<and> (ty \<in> set entry_types \<longleftrightarrow> \<not> is_oid v))"

definition present :: "script_dev \<Rightarrow> (sai_val \<times> string \<times> sai_args) list" where
  "present d = filter proper (sd_objs d)"

definition sd_map :: "script_dev \<Rightarrow> objects" where
  "sd_map d = map_of (map (\<lambda>(v, ty, a). (v, ty)) (present d))"

text \<open>The references of an object: the attributes that hold objects.\<close>

definition named_in :: "sai_args \<Rightarrow> sai_val list" where
  "named_in a = map snd (filter (\<lambda>(k, v). k \<in> set object_attrs \<and> is_oid v) a)"

definition sd_refs :: "script_dev \<Rightarrow> sai_val \<times> string \<times> sai_args \<Rightarrow> sai_val list" where
  "sd_refs d = (\<lambda>(u, ty, a). filter (\<lambda>w. w \<noteq> u \<and> (case sd_map d w of None \<Rightarrow> False | Some t \<Rightarrow> may_refer ty t)) (named_in a))"

definition sd_uses :: "script_dev \<Rightarrow> uses" where
  "sd_uses d = {(fst p, w) | p w. p \<in> set (present d) \<and> w \<in> set (sd_refs d p)}"

fun oid_num :: "sai_val \<Rightarrow> int" where
  "oid_num (VInt i) = i"
| "oid_num _ = 0"

definition fresh_oid :: "script_dev \<Rightarrow> int" where
  "fresh_oid d = 1 + foldr (\<lambda>(v, ty, a) m. foldr (\<lambda>w n. max (oid_num w) n) (v # map snd a) m) (sd_objs d) 0"

section \<open>The client\<close>

definition sd_put :: "sai_val \<Rightarrow> string \<Rightarrow> sai_args \<Rightarrow> script_dev \<Rightarrow> script_dev" where
  "sd_put v ty a d = d\<lparr>sd_objs := (v, ty, a) # sd_objs d, sd_status := 0\<rparr>"

definition sd_fail :: "script_dev \<Rightarrow> script_dev" where "sd_fail d = d\<lparr>sd_status := - 1\<rparr>"

definition sd_create :: "string \<Rightarrow> sai_args \<Rightarrow> (script_dev, int) py" where
  "sd_create ty a d = (if ty \<in> set entry_types then (case a of
       (t, k) # b \<Rightarrow> if t = ty \<and> \<not> is_oid k \<and> sd_map d k = None then (Inr 0, sd_put k ty b d) else (Inr 0, sd_fail d)
     | [] \<Rightarrow> (Inr 0, sd_fail d))
   else (Inr (fresh_oid d), sd_put (VInt (fresh_oid d)) ty a d))"

definition sd_remove :: "string \<Rightarrow> sai_val \<Rightarrow> (script_dev, unit) py" where
  "sd_remove ty v d = (if sd_map d v = Some ty \<and> list_all (\<lambda>p. v \<notin> set (sd_refs d p)) (present d)
     then (Inr (), d\<lparr>sd_objs := filter (\<lambda>(w, _). w \<noteq> v) (sd_objs d), sd_status := 0\<rparr>) else (Inr (), sd_fail d))"

definition sd_get :: "string \<Rightarrow> sai_val \<Rightarrow> sai_args \<Rightarrow> (script_dev, sai_args option) py" where
  "sd_get ty v a d = (case map_of (sd_objs d) v of
     Some (t, b) \<Rightarrow> (Inr (Some (map (\<lambda>(k, _). (k, case map_of b k of Some w \<Rightarrow> w | None \<Rightarrow> VNone)) a)), d\<lparr>sd_status := 0\<rparr>)
   | None \<Rightarrow> (Inr (Some a), d\<lparr>sd_status := 0\<rparr>))"

text \<open>An attribute is changed unless it holds objects.\<close>

definition sd_set :: "string \<Rightarrow> sai_val \<Rightarrow> sai_args \<Rightarrow> (script_dev, unit) py" where
  "sd_set ty v a d = (if set (map fst a) \<inter> set object_attrs = {}
     then (Inr (), d\<lparr>sd_objs := map (\<lambda>(w, t, b). (w, t, if w = v then AList.updates (map fst a) (map snd a) b else b)) (sd_objs d),
       sd_status := 0\<rparr>)
     else (Inr (), sd_fail d))"

definition demo_client :: "script_dev PtfPorts.sai_client" where
  "demo_client = \<lparr>sai_create = sd_create, sai_remove = sd_remove, sai_get = sd_get, sai_set = sd_set, sai_status = sd_status\<rparr>"

definition sd_lib :: "string \<Rightarrow> sai_val list \<Rightarrow> (string \<times> sai_val) list \<Rightarrow> (script_dev, sai_val) py" where
  "sd_lib f vs ks = retP (VBool True)"

section \<open>The laws\<close>

lemma present_put: "present (sd_put v ty a d) = (if proper (v, ty, a) then (v, ty, a) # present d else present d)"
  by (simp add: present_def sd_put_def)

lemma sd_map_mem: "(v, ty, a) \<in> set (present d) \<Longrightarrow> sd_map d v \<noteq> None"
  unfolding sd_map_def map_of_eq_None_iff by force

lemma sd_map_proper: "sd_map d v = Some t \<Longrightarrow> v \<noteq> VInt 0 \<and> (t \<in> set entry_types \<longleftrightarrow> \<not> is_oid v)"
  by (auto simp: sd_map_def present_def proper_def dest!: map_of_SomeD)

lemma named_oid: "w \<in> set (named_in a) \<Longrightarrow> is_oid w"
  by (auto simp: named_in_def)

lemma sd_refs_mem: "w \<in> set (sd_refs d (u, ty, a)) \<longleftrightarrow> w \<in> set (named_in a) \<and> w \<noteq> u \<and> (\<exists>t. sd_map d w = Some t \<and> may_refer ty t)"
  by (auto simp: sd_refs_def split: option.splits)

lemma sd_uses_mem: "(u, w) \<in> sd_uses d \<longleftrightarrow> (\<exists>ty a. (u, ty, a) \<in> set (present d) \<and> w \<in> set (sd_refs d (u, ty, a)))"
  by (force simp: sd_uses_def)

lemma sd_wf: "wf_objects (sd_map d) (sd_uses d)"
  unfolding wf_objects_def using sd_map_proper [of d] named_oid
  by (fastforce simp: sd_uses_mem sd_refs_mem)

lemma fresh_above: "(v, ty, a) \<in> set l \<Longrightarrow> w \<in> set (v # map snd a)
    \<Longrightarrow> oid_num w \<le> foldr (\<lambda>(v, ty, a) m. foldr (\<lambda>w n. max (oid_num w) n) (v # map snd a) m) l 0"
proof -
  have m: "w \<in> set ws \<Longrightarrow> oid_num w \<le> foldr (\<lambda>w n. max (oid_num w) n) ws m" for ws m by (induction ws) auto
  have g: "m \<le> foldr (\<lambda>w n. max (oid_num w) n) ws m" for ws m by (induction ws) auto
  show "(v, ty, a) \<in> set l \<Longrightarrow> w \<in> set (v # map snd a)
    \<Longrightarrow> oid_num w \<le> foldr (\<lambda>(v, ty, a) m. foldr (\<lambda>w n. max (oid_num w) n) (v # map snd a) m) l 0"
  proof (induction l)
    case (Cons p l)
    obtain v' ty' a' where p: "p = (v', ty', a')" by (cases p)
    let ?m = "foldr (\<lambda>(v, ty, a) m. foldr (\<lambda>w n. max (oid_num w) n) (v # map snd a) m) l 0"
    show ?case
    proof (cases "(v, ty, a) = p")
      case True
      then show ?thesis using m [OF Cons.prems(2), of ?m] by (simp add: p)
    next
      case False
      then show ?thesis using Cons g [of ?m "v' # map snd a'"] by (auto simp: p intro: order_trans)
    qed
  qed simp
qed

lemma fresh_new: "(v, ty, a) \<in> set (sd_objs d) \<Longrightarrow> VInt (fresh_oid d) \<notin> set (v # map snd a)"
proof
  assume h: "(v, ty, a) \<in> set (sd_objs d)" "VInt (fresh_oid d) \<in> set (v # map snd a)"
  show False using fresh_above [OF h] by (simp add: fresh_oid_def)
qed

lemma fresh_positive: "0 < fresh_oid d"
proof -
  have g: "0 \<le> m \<Longrightarrow> 0 \<le> foldr (\<lambda>w n. max (oid_num w) n) ws m" for ws m by (induction ws) auto
  have "0 \<le> foldr (\<lambda>(v, ty, a) m. foldr (\<lambda>w n. max (oid_num w) n) (v # map snd a) m) l 0" for l :: "(sai_val \<times> string \<times> sai_args) list"
  proof (induction l)
    case (Cons p l)
    obtain v ty a where p: "p = (v, ty, a)" by (cases p)
    show ?case using g [OF Cons.IH, of "v # map snd a"] by (simp add: p)
  qed simp
  from this [of "sd_objs d"] show ?thesis unfolding fresh_oid_def by linarith
qed

lemma sd_created:
  assumes "sd_map d v = None" "proper (v, ty, a)" "\<And>u t b. (u, t, b) \<in> set (present d) \<Longrightarrow> v \<notin> set (named_in b)"
  shows "created sd_map sd_uses ty v d (sd_put v ty a d)"
proof -
  have o: "sd_map (sd_put v ty a d) = (sd_map d)(v \<mapsto> ty)" using assms(2) by (simp add: sd_map_def present_put)
  have r: "w \<in> set (sd_refs (sd_put v ty a d) (u, t, b)) \<longleftrightarrow> w \<in> set (sd_refs d (u, t, b))" if "(u, t, b) \<in> set (present d)" for u t b w
    using assms(3) [OF that] by (auto simp: sd_refs_mem o)
  have n: "w \<in> set (sd_refs (sd_put v ty a d) (v, ty, a)) \<longleftrightarrow> w \<in> set (sd_refs d (v, ty, a))" for w
    by (auto simp: sd_refs_mem o)
  have "(u, w) \<in> sd_uses (sd_put v ty a d) \<longleftrightarrow> (u, w) \<in> sd_uses d \<union> {v} \<times> set (sd_refs d (v, ty, a))" for u w
  proof -
    have "(u, w) \<in> sd_uses (sd_put v ty a d) \<longleftrightarrow> u = v \<and> w \<in> set (sd_refs (sd_put v ty a d) (v, ty, a))
        \<or> (\<exists>t b. (u, t, b) \<in> set (present d) \<and> w \<in> set (sd_refs (sd_put v ty a d) (u, t, b)))"
      using assms(2) by (auto simp: sd_uses_mem present_put)
    also have "\<dots> \<longleftrightarrow> u = v \<and> w \<in> set (sd_refs d (v, ty, a)) \<or> (u, w) \<in> sd_uses d"
      using r unfolding n sd_uses_mem by blast
    finally show ?thesis by blast
  qed
  then have "sd_uses (sd_put v ty a d) = sd_uses d \<union> {v} \<times> set (sd_refs d (v, ty, a))" by auto
  then show ?thesis unfolding created_def using assms(1) o
    by (intro conjI exI [of _ "set (sd_refs d (v, ty, a))"]) (auto simp: sd_refs_mem)
qed

lemma sd_status_free: "present (d\<lparr>sd_status := n\<rparr>) = present d" "sd_map (d\<lparr>sd_status := n\<rparr>) = sd_map d" "sd_uses (d\<lparr>sd_status := n\<rparr>) = sd_uses d"
proof -
  show "present (d\<lparr>sd_status := n\<rparr>) = present d" by (simp add: present_def)
  then show m: "sd_map (d\<lparr>sd_status := n\<rparr>) = sd_map d" by (simp add: sd_map_def)
  have "sd_refs (d\<lparr>sd_status := n\<rparr>) = sd_refs d" by (simp add: sd_refs_def m fun_eq_iff split: prod.splits)
  then show "sd_uses (d\<lparr>sd_status := n\<rparr>) = sd_uses d" by (simp add: sd_uses_def \<open>present (d\<lparr>sd_status := n\<rparr>) = present d\<close>)
qed

lemma sd_makes: "makes_objects demo_client sd_map sd_uses"
  unfolding makes_objects_def
proof (intro allI impI)
  fix ty a d r d' assume t: "ty \<notin> set entry_types" and c: "sai_create demo_client ty a d = (r, d')"
  have r: "r = Inr (fresh_oid d)" "d' = sd_put (VInt (fresh_oid d)) ty a d"
    using t c by (simp_all add: demo_client_def sd_create_def)
  have n: "sd_map d (VInt (fresh_oid d)) = None"
    using fresh_new [of _ _ _ d] by (force simp: sd_map_def map_of_eq_None_iff present_def)
  have p: "proper (VInt (fresh_oid d), ty, a)" using t fresh_positive [of d] by (simp add: proper_def is_oid_def)
  have "created sd_map sd_uses ty (VInt (fresh_oid d)) d d'" unfolding r(2)
  proof (rule sd_created [OF n p])
    fix u t b assume "(u, t, b) \<in> set (present d)"
    then show "VInt (fresh_oid d) \<notin> set (named_in b)" using fresh_new [of u t b d] by (auto simp: present_def named_in_def)
  qed
  then show "case r of Inl e \<Rightarrow> unchanged sd_map sd_uses d d'
    | Inr i \<Rightarrow> if i = 0 then unchanged sd_map sd_uses d d' else created sd_map sd_uses ty (VInt i) d d'"
    using r(1) fresh_positive [of d] by simp
qed

lemma sd_entries: "makes_entries demo_client sd_map sd_uses"
  unfolding makes_entries_def
proof (intro allI impI)
  fix ty k a d r d' assume t: "ty \<in> set entry_types" and c: "sai_create demo_client ty ((ty, k) # a) d = (r, d')"
  show "unchanged sd_map sd_uses d d' \<or> (r \<in> range Inr \<and> created sd_map sd_uses ty k d d')"
  proof (cases "\<not> is_oid k \<and> sd_map d k = None")
    case True
    then have r: "r = Inr 0" "d' = sd_put k ty a d" using t c by (simp_all add: demo_client_def sd_create_def)
    have p: "proper (k, ty, a)" using t True by (auto simp: proper_def is_oid_def)
    have "created sd_map sd_uses ty k d d'" unfolding r(2)
      by (rule sd_created [OF _ p]) (use True named_oid in blast)+
    then show ?thesis using r(1) by blast
  next
    case False
    then have "d' = sd_fail d" using t c by (auto simp: demo_client_def sd_create_def split: if_splits)
    then show ?thesis by (simp add: unchanged_def sd_fail_def sd_status_free)
  qed
qed

lemma sd_removes: "removes_unused demo_client sd_map sd_uses"
  unfolding removes_unused_def
proof (intro allI impI)
  fix ty v d r d' assume c: "sai_remove demo_client ty v d = (r, d')"
  have u: "list_all (\<lambda>p. v \<notin> set (sd_refs d p)) (present d) \<longleftrightarrow> v \<notin> snd ` sd_uses d"
    by (force simp: list_all_iff sd_uses_def)
  show "if r \<in> range Inr \<and> sd_map d v = Some ty \<and> v \<notin> snd ` sd_uses d
      then sd_map d' = (sd_map d)(v := None) \<and> sd_uses d' = sd_uses d - {v} \<times> UNIV else unchanged sd_map sd_uses d d'"
  proof (cases "sd_map d v = Some ty \<and> v \<notin> snd ` sd_uses d")
    case True
    then have r: "r = Inr ()" "d' = d\<lparr>sd_objs := filter (\<lambda>(w, _). w \<noteq> v) (sd_objs d), sd_status := 0\<rparr>"
      using c by (simp_all add: demo_client_def sd_remove_def u)
    have p: "present d' = filter (\<lambda>(w, _). w \<noteq> v) (present d)" by (simp add: present_def r(2) conj_commute)
    have "map_of (map (\<lambda>(v, ty, a). (v, ty)) (filter (\<lambda>(w, _). w \<noteq> v) l)) = (map_of (map (\<lambda>(v, ty, a). (v, ty)) l))(v := None)"
      for l :: "(sai_val \<times> string \<times> sai_args) list" by (induction l) (auto simp: fun_eq_iff)
    then have m: "sd_map d' = (sd_map d)(v := None)" by (simp add: sd_map_def p)
    have n: "w \<noteq> v" if "(x, t, b) \<in> set (present d)" "w \<in> set (sd_refs d (x, t, b))" for x t b w
    proof
      assume "w = v"
      then have "(x, v) \<in> sd_uses d" using that unfolding sd_uses_mem by blast
      then show False using True by force
    qed
    have q: "w \<in> set (sd_refs d' (x, t, b)) \<longleftrightarrow> w \<in> set (sd_refs d (x, t, b))" if "(x, t, b) \<in> set (present d)" for x t b w
      using n [OF that, of w] by (cases "w = v") (auto simp: sd_refs_mem m)
    have "(x, w) \<in> sd_uses d' \<longleftrightarrow> (x, w) \<in> sd_uses d - {v} \<times> UNIV" for x w
    proof -
      have "(x, w) \<in> sd_uses d' \<longleftrightarrow> (\<exists>t b. (x, t, b) \<in> set (present d) \<and> x \<noteq> v \<and> w \<in> set (sd_refs d' (x, t, b)))"
        unfolding sd_uses_mem p by (simp add: conj_assoc)
      also have "\<dots> \<longleftrightarrow> (x, w) \<in> sd_uses d \<and> x \<noteq> v" unfolding sd_uses_mem using q by blast
      finally show ?thesis by simp
    qed
    then show ?thesis using True r(1) m by auto
  next
    case False
    then have "\<not> (sd_map d v = Some ty \<and> list_all (\<lambda>p. v \<notin> set (sd_refs d p)) (present d))" unfolding u .
    then have "d' = sd_fail d" using c by (simp add: demo_client_def sd_remove_def if_not_P)
    then have "unchanged sd_map sd_uses d d'" by (simp add: unchanged_def sd_fail_def sd_status_free)
    moreover have "\<not> (r \<in> range Inr \<and> sd_map d v = Some ty \<and> v \<notin> snd ` sd_uses d)" using False by blast
    ultimately show ?thesis by (simp only: if_not_P if_False)
  qed
qed

lemma named_update: "k \<notin> set object_attrs \<Longrightarrow> named_in (AList.update k w b) = named_in b"
  by (induction b) (auto simp: named_in_def)

lemma named_updates: "set ks \<inter> set object_attrs = {} \<Longrightarrow> named_in (AList.updates ks ws b) = named_in b"
proof -
  have "set (map fst l) \<inter> set object_attrs = {} \<Longrightarrow> named_in (fold (case_prod AList.update) l b) = named_in b" for l
    by (induction l arbitrary: b) (auto simp: named_update)
  moreover assume "set ks \<inter> set object_attrs = {}"
  then have "set (map fst (zip ks ws)) \<inter> set object_attrs = {}" by (auto dest: set_zip_leftD)
  ultimately show ?thesis by (simp add: AList.updates_def)
qed

lemma sd_sets: "sets_values demo_client sd_map sd_uses"
  unfolding sets_values_def
proof (intro allI impI)
  fix ty v and a :: sai_args and d :: script_dev assume a: "set (map fst a) \<inter> set object_attrs = {}"
  let ?f = "\<lambda>(w :: sai_val, t :: string, b). (w, t, if w = v then AList.updates (map fst a) (map snd a) b else b)"
  let ?d = "d\<lparr>sd_objs := map ?f (sd_objs d), sd_status := 0\<rparr>"
  have p: "present ?d = map ?f (present d)" by (auto simp: present_def filter_map proper_def intro!: arg_cong [of _ _ "map ?f"] filter_cong)
  have m: "sd_map ?d = sd_map d" by (auto simp: sd_map_def p intro!: arg_cong [of _ _ map_of])
  have "set (sd_refs ?d (?f q)) = set (sd_refs d q)" for q
    using named_updates [OF a] by (cases q) (auto simp: sd_refs_mem m)
  moreover have "fst (?f q) = fst q" for q by (simp add: case_prod_unfold)
  moreover have "set (present ?d) = ?f ` set (present d)" by (simp add: p)
  moreover have uses: "sd_uses e = (\<Union>q \<in> set (present e). {fst q} \<times> set (sd_refs e q))" for e unfolding sd_uses_def by blast
  ultimately have "sd_uses ?d = sd_uses d" unfolding uses by (simp only: UN_simps)
  then show "unchanged sd_map sd_uses d (snd (sai_set demo_client ty v a d))"
    using a m by (simp add: demo_client_def sd_set_def unchanged_def)
qed

lemma sd_gets: "reads_values demo_client sd_map sd_uses"
  by (auto simp: reads_values_def unchanged_def demo_client_def sd_get_def sd_status_free split: option.splits)

lemma demo_device: "script_device demo_client sd_lib sd_map sd_uses"
  unfolding script_device_def using sd_wf sd_makes sd_entries sd_removes sd_sets sd_gets
  by (simp add: sd_lib_def)

end
