(* ===== verification/TestsAcl.thy ===== *)
theory TestsAcl
  imports PtfOwn PtfConstants
begin

text \<open>
  The tests of access control lists, \<open>ptf/saiacl.py\<close>: a definition per method, statement by statement in the language of
  \<open>PtfScript\<close>, named after its class. A parameter \<open>m_f\<close> is a method \<open>f\<close> that derived classes define anew.
\<close>

section \<open>The tests\<close>

definition AclGroupTest_setUp :: "'d stmt" where
  "AclGroupTest_setUp = block [
      super_setUp,
      set_self ''port_mac'' (str ''00:11:22:33:44:55''),
      set_self ''lag_mac'' (str ''00:11:22:33:44:56''),
      set_self ''port_mac2'' (str ''00:11:22:33:44:57''),
      set_self ''lag_mac2'' (str ''00:11:22:33:44:58''),
      set_self ''port_fdb_entry'' (struct ''sai_thrift_fdb_entry_t'' [(''switch_id'', self ''switch_id''), (''mac_address'',
        self ''port_mac''), (''bv_id'', self ''vlan10'')]),
      run (api_create_entry ''fdb_entry'' (self ''port_fdb_entry'') [(''type'', num SAI_FDB_ENTRY_TYPE_STATIC),
        (''bridge_port_id'', self ''port0_bp'')]),
      set_self ''lag_fdb_entry'' (struct ''sai_thrift_fdb_entry_t'' [(''switch_id'', self ''switch_id''), (''mac_address'', self
        ''lag_mac''), (''bv_id'', self ''vlan10'')]),
      run (api_create_entry ''fdb_entry'' (self ''lag_fdb_entry'') [(''type'', num SAI_FDB_ENTRY_TYPE_STATIC),
        (''bridge_port_id'', self ''lag1_bp'')]),
      set_self ''port24_bp'' (api_create ''bridge_port'' [(''bridge_id'', self ''default_1q_bridge''), (''port_id'', self
        ''port24''), (''type'', num SAI_BRIDGE_PORT_TYPE_PORT), (''admin_state'', bool True)]),
      assert_ne (self ''port24_bp'') (num 0),
      set_self ''port25_bp'' (api_create ''bridge_port'' [(''bridge_id'', self ''default_1q_bridge''), (''port_id'', self
        ''port25''), (''type'', num SAI_BRIDGE_PORT_TYPE_PORT), (''admin_state'', bool True)]),
      assert_ne (self ''port25_bp'') (num 0),
      set_self ''lag6'' (api_create ''lag'' []),
      assert_ne (self ''lag6'') (num 0),
      set_self ''lag6_bp'' (api_create ''bridge_port'' [(''bridge_id'', self ''default_1q_bridge''), (''port_id'', self
        ''lag6''), (''type'', num SAI_BRIDGE_PORT_TYPE_PORT), (''admin_state'', bool True)]),
      assert_ne (self ''lag6_bp'') (num 0),
      set_self ''lag6_member26'' (api_create ''lag_member'' [(''lag_id'', self ''lag6''), (''port_id'', self ''port26'')]),
      set_self ''lag6_member27'' (api_create ''lag_member'' [(''lag_id'', self ''lag6''), (''port_id'', self ''port27'')]),
      set_self ''lag6_member28'' (api_create ''lag_member'' [(''lag_id'', self ''lag6''), (''port_id'', self ''port28'')]),
      set_self ''vlan40'' (api_create ''vlan'' [(''vlan_id'', num 40)]),
      assert_ne (self ''vlan40'') (num 0),
      set_self ''vlan40_member24'' (api_create ''vlan_member'' [(''vlan_id'', self ''vlan40''), (''bridge_port_id'', self
        ''port24_bp''), (''vlan_tagging_mode'', num SAI_VLAN_TAGGING_MODE_UNTAGGED)]),
      set_self ''vlan40_member25'' (api_create ''vlan_member'' [(''vlan_id'', self ''vlan40''), (''bridge_port_id'', self
        ''port25_bp''), (''vlan_tagging_mode'', num SAI_VLAN_TAGGING_MODE_TAGGED)]),
      set_self ''vlan40_member_lag6'' (api_create ''vlan_member'' [(''vlan_id'', self ''vlan40''), (''bridge_port_id'', self
        ''lag6_bp''), (''vlan_tagging_mode'', num SAI_VLAN_TAGGING_MODE_UNTAGGED)]),
      run (api_set ''port'' (self ''port24'') [(''port_vlan_id'', num 40)]),
      run (api_set ''lag'' (self ''lag6'') [(''port_vlan_id'', num 40)]),
      set_self ''port_fdb_entry2'' (struct ''sai_thrift_fdb_entry_t'' [(''switch_id'', self ''switch_id''), (''mac_address'',
        self ''port_mac2''), (''bv_id'', self ''vlan40'')]),
      run (api_create_entry ''fdb_entry'' (self ''port_fdb_entry2'') [(''type'', num SAI_FDB_ENTRY_TYPE_STATIC),
        (''bridge_port_id'', self ''port24_bp'')]),
      set_self ''lag_fdb_entry2'' (struct ''sai_thrift_fdb_entry_t'' [(''switch_id'', self ''switch_id''), (''mac_address'',
        self ''lag_mac2''), (''bv_id'', self ''vlan40'')]),
      run (api_create_entry ''fdb_entry'' (self ''lag_fdb_entry2'') [(''type'', num SAI_FDB_ENTRY_TYPE_STATIC),
        (''bridge_port_id'', self ''lag6_bp'')])]"

definition AclGroupTest_portLagIngressAclTableGroupTest :: "'d stmt" where
  "AclGroupTest_portLagIngressAclTableGroupTest = block [
      assign ''group_stage'' (num SAI_ACL_STAGE_INGRESS),
      assign ''group_bind_points'' (list_of [num SAI_ACL_BIND_POINT_TYPE_PORT, num SAI_ACL_BIND_POINT_TYPE_LAG]),
      assign ''group_bind_point_type_list'' (struct ''sai_thrift_s32_list_t'' [(''count'', length_of (var
        ''group_bind_points'')), (''int32list'', var ''group_bind_points'')]),
      assign ''group_type'' (num SAI_ACL_TABLE_GROUP_TYPE_PARALLEL),
      assign ''acl_group'' (api_create ''acl_table_group'' [(''acl_stage'', var ''group_stage''), (''acl_bind_point_type_list'',
        var ''group_bind_point_type_list''), (''type'', var ''group_type'')]),
      assign ''table_stage'' (num SAI_ACL_STAGE_INGRESS),
      assign ''table_bind_points'' (list_of [num SAI_ACL_BIND_POINT_TYPE_PORT, num SAI_ACL_BIND_POINT_TYPE_LAG]),
      assign ''table_bind_point_type_list'' (struct ''sai_thrift_s32_list_t'' [(''count'', length_of (var
        ''table_bind_points'')), (''int32list'', var ''table_bind_points'')]),
      assign ''acl_table'' (api_create ''acl_table'' [(''acl_stage'', var ''table_stage''), (''acl_bind_point_type_list'', var
        ''table_bind_point_type_list''), (''field_src_ip'', bool True)]),
      assign ''src_ip'' (str ''10.0.0.1''),
      assign ''src_ip2'' (str ''10.0.0.2''),
      assign ''src_ip_mask'' (str ''255.255.255.255''),
      assign ''src_ip_t'' (struct ''sai_thrift_acl_field_data_t'' [(''data'', struct ''sai_thrift_acl_field_data_data_t''
        [(''ip4'', var ''src_ip'')]), (''mask'', struct ''sai_thrift_acl_field_data_mask_t'' [(''ip4'', var ''src_ip_mask'')])]),
      assign ''packet_action'' (struct ''sai_thrift_acl_action_data_t'' [(''parameter'', struct
        ''sai_thrift_acl_action_parameter_t'' [(''s32'', num SAI_PACKET_ACTION_DROP)])]),
      assign ''acl_entry'' (api_create ''acl_entry'' [(''table_id'', var ''acl_table''), (''priority'', num 10),
        (''field_src_ip'', var ''src_ip_t''), (''action_packet_action'', var ''packet_action'')]),
      assign ''member1'' (api_create ''acl_table_group_member'' [(''acl_table_group_id'', var ''acl_group''), (''acl_table_id'',
        var ''acl_table'')]),
      assign ''acl_counter'' (api_create ''acl_counter'' [(''table_id'', var ''acl_table'')]),
      assign ''action_counter_t'' (struct ''sai_thrift_acl_action_data_t'' [(''parameter'', struct
        ''sai_thrift_acl_action_parameter_t'' [(''oid'', var ''acl_counter'')]), (''enable'', bool True)]),
      run (api_set ''acl_entry'' (var ''acl_entry'') [(''action_counter'', var ''action_counter_t'')]),
      try_finally [
        assign ''pkt1'' (lib ''simple_udp_packet'' [] [(''eth_dst'', self ''port_mac''), (''eth_src'', self ''lag_mac''),
          (''ip_src'', var ''src_ip''), (''pktlen'', num 100)]),
        assign ''pkt2'' (lib ''simple_udp_packet'' [] [(''eth_dst'', self ''lag_mac''), (''eth_src'', self ''port_mac''),
          (''ip_src'', var ''src_ip''), (''pktlen'', num 100)]),
        assign ''pkt3'' (lib ''simple_udp_packet'' [] [(''eth_dst'', self ''port_mac2''), (''eth_src'', self ''lag_mac2''),
          (''ip_src'', var ''src_ip2''), (''pktlen'', num 100)]),
        assign ''pkt4'' (lib ''simple_udp_packet'' [] [(''eth_dst'', self ''lag_mac2''), (''eth_src'', self ''port_mac2''),
          (''ip_src'', var ''src_ip2''), (''pktlen'', num 100)]),
        run (lib ''send_packet'' [self ''dev_port4'', var ''pkt1''] []),
        run (lib ''verify_packet'' [var ''pkt1'', self ''dev_port0''] []),
        run (lib ''send_packet'' [self ''dev_port0'', var ''pkt2''] []),
        run (lib ''verify_any_packet_any_port'' [list_of [var ''pkt2'', var ''pkt2'', var ''pkt2''], list_of [self
          ''dev_port4'', self ''dev_port5'', self ''dev_port6'']] []),
        run (lib ''send_packet'' [self ''dev_port26'', var ''pkt3''] []),
        run (lib ''verify_packet'' [var ''pkt3'', self ''dev_port24''] []),
        run (lib ''send_packet'' [self ''dev_port24'', var ''pkt4''] []),
        run (lib ''verify_any_packet_any_port'' [list_of [var ''pkt4'', var ''pkt4'', var ''pkt4''], list_of [self
          ''dev_port26'', self ''dev_port27'', self ''dev_port28'']] []),
        assign ''packets'' (api_get ''acl_counter'' (var ''acl_counter'') [(''packets'', bool True)]),
        assert_eq (item (var ''packets'') (str ''packets'')) (num 0),
        run (api_set ''port'' (self ''port0'') [(''ingress_acl'', var ''acl_group'')]),
        run (lib ''send_packet'' [self ''dev_port0'', var ''pkt2''] []),
        run (lib ''verify_no_other_packets'' [] []),
        assign ''packets'' (api_get ''acl_counter'' (var ''acl_counter'') [(''packets'', bool True)]),
        assert_eq (item (var ''packets'') (str ''packets'')) (num 1),
        run (lib ''send_packet'' [self ''dev_port24'', var ''pkt4''] []),
        run (lib ''verify_any_packet_any_port'' [list_of [var ''pkt4'', var ''pkt4'', var ''pkt4''], list_of [self
          ''dev_port26'', self ''dev_port27'', self ''dev_port28'']] []),
        assign ''packets'' (api_get ''acl_counter'' (var ''acl_counter'') [(''packets'', bool True)]),
        assert_eq (item (var ''packets'') (str ''packets'')) (num 1),
        run (api_set ''lag'' (self ''lag1'') [(''ingress_acl'', var ''acl_group'')]),
        run (lib ''send_packet'' [self ''dev_port4'', var ''pkt1''] []),
        run (lib ''verify_no_other_packets'' [] []),
        assign ''packets'' (api_get ''acl_counter'' (var ''acl_counter'') [(''packets'', bool True)]),
        assert_eq (item (var ''packets'') (str ''packets'')) (num 2),
        run (lib ''send_packet'' [self ''dev_port26'', var ''pkt3''] []),
        run (lib ''verify_packet'' [var ''pkt3'', self ''dev_port24''] []),
        assign ''packets'' (api_get ''acl_counter'' (var ''acl_counter'') [(''packets'', bool True)]),
        assert_eq (item (var ''packets'') (str ''packets'')) (num 2)] [
        assign ''action_counter_t'' (struct ''sai_thrift_acl_action_data_t'' [(''parameter'', struct
          ''sai_thrift_acl_action_parameter_t'' [(''oid'', num 0)]), (''enable'', bool True)]),
        run (api_set ''acl_entry'' (var ''acl_entry'') [(''action_counter'', var ''action_counter_t'')]),
        run (api_set ''acl_counter'' (var ''acl_counter'') [(''packets'', none)]),
        assign ''packets'' (api_get ''acl_counter'' (var ''acl_counter'') [(''packets'', bool True)]),
        assert_eq (item (var ''packets'') (str ''packets'')) (num 0),
        run (api_remove ''acl_counter'' (var ''acl_counter'')),
        run (api_set ''port'' (self ''port0'') [(''ingress_acl'', num 0)]),
        run (api_set ''lag'' (self ''lag1'') [(''ingress_acl'', num 0)]),
        run (api_remove ''acl_table_group_member'' (var ''member1'')),
        run (api_remove ''acl_entry'' (var ''acl_entry'')),
        run (api_remove ''acl_table'' (var ''acl_table'')),
        run (api_remove ''acl_table_group'' (var ''acl_group''))]]"

definition AclGroupTest_portLagEgressAclTableGroupTest :: "'d stmt" where
  "AclGroupTest_portLagEgressAclTableGroupTest = block [
      assign ''group_stage'' (num SAI_ACL_STAGE_EGRESS),
      assign ''group_bind_points'' (list_of [num SAI_ACL_BIND_POINT_TYPE_PORT, num SAI_ACL_BIND_POINT_TYPE_LAG]),
      assign ''group_bind_point_type_list'' (struct ''sai_thrift_s32_list_t'' [(''count'', length_of (var
        ''group_bind_points'')), (''int32list'', var ''group_bind_points'')]),
      assign ''group_type'' (num SAI_ACL_TABLE_GROUP_TYPE_PARALLEL),
      assign ''acl_group'' (api_create ''acl_table_group'' [(''acl_stage'', var ''group_stage''), (''acl_bind_point_type_list'',
        var ''group_bind_point_type_list''), (''type'', var ''group_type'')]),
      assign ''table_stage'' (num SAI_ACL_STAGE_EGRESS),
      assign ''table_bind_points'' (list_of [num SAI_ACL_BIND_POINT_TYPE_PORT, num SAI_ACL_BIND_POINT_TYPE_LAG]),
      assign ''table_bind_point_type_list'' (struct ''sai_thrift_s32_list_t'' [(''count'', length_of (var
        ''table_bind_points'')), (''int32list'', var ''table_bind_points'')]),
      assign ''acl_table'' (api_create ''acl_table'' [(''acl_stage'', var ''table_stage''), (''acl_bind_point_type_list'', var
        ''table_bind_point_type_list''), (''field_src_ip'', bool True)]),
      assign ''src_ip'' (str ''10.0.0.1''),
      assign ''src_ip2'' (str ''10.0.0.2''),
      assign ''src_ip_mask'' (str ''255.255.255.255''),
      assign ''src_ip_t'' (struct ''sai_thrift_acl_field_data_t'' [(''data'', struct ''sai_thrift_acl_field_data_data_t''
        [(''ip4'', var ''src_ip'')]), (''mask'', struct ''sai_thrift_acl_field_data_mask_t'' [(''ip4'', var ''src_ip_mask'')])]),
      assign ''packet_action'' (struct ''sai_thrift_acl_action_data_t'' [(''parameter'', struct
        ''sai_thrift_acl_action_parameter_t'' [(''s32'', num SAI_PACKET_ACTION_DROP)])]),
      assign ''acl_entry'' (api_create ''acl_entry'' [(''table_id'', var ''acl_table''), (''priority'', num 10),
        (''field_src_ip'', var ''src_ip_t''), (''action_packet_action'', var ''packet_action'')]),
      assign ''member1'' (api_create ''acl_table_group_member'' [(''acl_table_group_id'', var ''acl_group''), (''acl_table_id'',
        var ''acl_table'')]),
      assign ''acl_counter'' (api_create ''acl_counter'' [(''table_id'', var ''acl_table'')]),
      assign ''action_counter_t'' (struct ''sai_thrift_acl_action_data_t'' [(''parameter'', struct
        ''sai_thrift_acl_action_parameter_t'' [(''oid'', var ''acl_counter'')]), (''enable'', bool True)]),
      run (api_set ''acl_entry'' (var ''acl_entry'') [(''action_counter'', var ''action_counter_t'')]),
      try_finally [
        assign ''pkt1'' (lib ''simple_udp_packet'' [] [(''eth_dst'', self ''port_mac''), (''eth_src'', self ''lag_mac''),
          (''ip_src'', var ''src_ip''), (''pktlen'', num 100)]),
        assign ''pkt2'' (lib ''simple_udp_packet'' [] [(''eth_dst'', self ''lag_mac''), (''eth_src'', self ''port_mac''),
          (''ip_src'', var ''src_ip''), (''pktlen'', num 100)]),
        assign ''pkt3'' (lib ''simple_udp_packet'' [] [(''eth_dst'', self ''port_mac2''), (''eth_src'', self ''lag_mac2''),
          (''ip_src'', var ''src_ip2''), (''pktlen'', num 100)]),
        assign ''pkt4'' (lib ''simple_udp_packet'' [] [(''eth_dst'', self ''lag_mac2''), (''eth_src'', self ''port_mac2''),
          (''ip_src'', var ''src_ip2''), (''pktlen'', num 100)]),
        run (lib ''send_packet'' [self ''dev_port4'', var ''pkt1''] []),
        run (lib ''verify_packet'' [var ''pkt1'', self ''dev_port0''] []),
        run (lib ''send_packet'' [self ''dev_port0'', var ''pkt2''] []),
        run (lib ''verify_any_packet_any_port'' [list_of [var ''pkt2'', var ''pkt2'', var ''pkt2''], list_of [self
          ''dev_port4'', self ''dev_port5'', self ''dev_port6'']] []),
        run (lib ''send_packet'' [self ''dev_port26'', var ''pkt3''] []),
        run (lib ''verify_packet'' [var ''pkt3'', self ''dev_port24''] []),
        run (lib ''send_packet'' [self ''dev_port24'', var ''pkt4''] []),
        run (lib ''verify_any_packet_any_port'' [list_of [var ''pkt4'', var ''pkt4'', var ''pkt4''], list_of [self
          ''dev_port26'', self ''dev_port27'', self ''dev_port28'']] []),
        assign ''packets'' (api_get ''acl_counter'' (var ''acl_counter'') [(''packets'', bool True)]),
        assert_eq (item (var ''packets'') (str ''packets'')) (num 0),
        run (api_set ''port'' (self ''port0'') [(''egress_acl'', var ''acl_group'')]),
        run (lib ''send_packet'' [self ''dev_port4'', var ''pkt1''] []),
        run (lib ''verify_no_other_packets'' [] []),
        assign ''packets'' (api_get ''acl_counter'' (var ''acl_counter'') [(''packets'', bool True)]),
        assert_eq (item (var ''packets'') (str ''packets'')) (num 1),
        run (lib ''send_packet'' [self ''dev_port26'', var ''pkt3''] []),
        run (lib ''verify_packet'' [var ''pkt3'', self ''dev_port24''] []),
        assign ''packets'' (api_get ''acl_counter'' (var ''acl_counter'') [(''packets'', bool True)]),
        assert_eq (item (var ''packets'') (str ''packets'')) (num 1),
        run (api_set ''lag'' (self ''lag1'') [(''egress_acl'', var ''acl_group'')]),
        run (lib ''send_packet'' [self ''dev_port0'', var ''pkt2''] []),
        run (lib ''verify_no_other_packets'' [] []),
        assign ''packets'' (api_get ''acl_counter'' (var ''acl_counter'') [(''packets'', bool True)]),
        assert_eq (item (var ''packets'') (str ''packets'')) (num 2),
        run (lib ''send_packet'' [self ''dev_port24'', var ''pkt4''] []),
        run (lib ''verify_any_packet_any_port'' [list_of [var ''pkt4'', var ''pkt4'', var ''pkt4''], list_of [self
          ''dev_port26'', self ''dev_port27'', self ''dev_port28'']] []),
        assign ''packets'' (api_get ''acl_counter'' (var ''acl_counter'') [(''packets'', bool True)]),
        assert_eq (item (var ''packets'') (str ''packets'')) (num 2)] [
        assign ''action_counter_t'' (struct ''sai_thrift_acl_action_data_t'' [(''parameter'', struct
          ''sai_thrift_acl_action_parameter_t'' [(''oid'', num 0)]), (''enable'', bool True)]),
        run (api_set ''acl_entry'' (var ''acl_entry'') [(''action_counter'', var ''action_counter_t'')]),
        run (api_set ''acl_counter'' (var ''acl_counter'') [(''packets'', none)]),
        assign ''packets'' (api_get ''acl_counter'' (var ''acl_counter'') [(''packets'', bool True)]),
        assert_eq (item (var ''packets'') (str ''packets'')) (num 0),
        run (api_remove ''acl_counter'' (var ''acl_counter'')),
        run (api_set ''port'' (self ''port0'') [(''egress_acl'', num 0)]),
        run (api_set ''lag'' (self ''lag1'') [(''egress_acl'', num 0)]),
        run (api_remove ''acl_table_group_member'' (var ''member1'')),
        run (api_remove ''acl_entry'' (var ''acl_entry'')),
        run (api_remove ''acl_table'' (var ''acl_table'')),
        run (api_remove ''acl_table_group'' (var ''acl_group''))]]"

definition AclGroupTest_runTest :: "'d stmt" where
  "AclGroupTest_runTest = block [
      run (invoke [] AclGroupTest_portLagIngressAclTableGroupTest),
      run (invoke [] AclGroupTest_portLagEgressAclTableGroupTest)]"

definition AclGroupTest_tearDown :: "'d stmt" where
  "AclGroupTest_tearDown = block [
      run (api_remove ''fdb_entry'' (self ''port_fdb_entry'')),
      run (api_remove ''fdb_entry'' (self ''lag_fdb_entry'')),
      run (api_remove ''fdb_entry'' (self ''port_fdb_entry2'')),
      run (api_remove ''fdb_entry'' (self ''lag_fdb_entry2'')),
      run (api_set ''port'' (self ''port24'') [(''port_vlan_id'', num 0)]),
      run (api_set ''lag'' (self ''lag6'') [(''port_vlan_id'', num 0)]),
      run (api_remove ''vlan_member'' (self ''vlan40_member_lag6'')),
      run (api_remove ''vlan_member'' (self ''vlan40_member25'')),
      run (api_remove ''vlan_member'' (self ''vlan40_member24'')),
      run (api_remove ''vlan'' (self ''vlan40'')),
      run (api_remove ''lag_member'' (self ''lag6_member28'')),
      run (api_remove ''lag_member'' (self ''lag6_member27'')),
      run (api_remove ''lag_member'' (self ''lag6_member26'')),
      run (api_remove ''bridge_port'' (self ''lag6_bp'')),
      run (api_remove ''lag'' (self ''lag6'')),
      run (api_remove ''bridge_port'' (self ''port25_bp'')),
      run (api_remove ''bridge_port'' (self ''port24_bp'')),
      super_tearDown]"

definition SrcIpAclTest_setUp :: "'d stmt" where
  "SrcIpAclTest_setUp = block [
      super_setUp,
      run (create_rifs [0, 1]),
      assign ''l4_src_port'' (num 1000),
      assign ''rif_id1'' (self ''port0_rif''),
      set_self ''rif_id2'' (self ''port1_rif''),
      assign ''ip_addr_subnet'' (str ''172.16.10.0/24''),
      assign ''ip_addr'' (str ''172.16.10.1''),
      assign ''dmac'' (str ''00:11:22:33:44:55''),
      assign ''mac_src'' (str ''00:22:22:22:22:22''),
      assign ''ip_addr_src'' (str ''192.168.100.100''),
      print [var ''ip_addr'', var ''rif_id1'', var ''dmac''],
      set_self ''nbr_entry'' (struct ''sai_thrift_neighbor_entry_t'' [(''rif_id'', var ''rif_id1''), (''ip_address'', ip_address
        (var ''ip_addr''))]),
      run (api_create_entry ''neighbor_entry'' (self ''nbr_entry'') [(''dst_mac_address'', var ''dmac'')]),
      print [var ''ip_addr'', var ''rif_id1''],
      set_self ''nhop'' (api_create ''next_hop'' [(''ip'', ip_address (var ''ip_addr'')), (''router_interface_id'', var
        ''rif_id1''), (''type'', num SAI_NEXT_HOP_TYPE_IP)]),
      print [var ''ip_addr_subnet'', var ''rif_id1''],
      set_self ''route_entry'' (struct ''sai_thrift_route_entry_t'' [(''vr_id'', self ''default_vrf''), (''destination'',
        ip_prefix (var ''ip_addr_subnet''))]),
      run (api_create_entry ''route_entry'' (self ''route_entry'') [(''next_hop_id'', var ''rif_id1'')]),
      set_self ''pkt'' (lib ''simple_tcp_packet'' [] [(''eth_dst'', str ROUTER_MAC), (''eth_src'', var ''mac_src''),
        (''ip_dst'', var ''ip_addr''), (''ip_src'', var ''ip_addr_src''), (''tcp_sport'', var ''l4_src_port''), (''ip_id'', num
        105), (''ip_ttl'', num 64)]),
      set_self ''exp_pkt'' (lib ''simple_tcp_packet'' [] [(''eth_dst'', var ''dmac''), (''eth_src'', str ROUTER_MAC),
        (''ip_dst'', var ''ip_addr''), (''ip_src'', var ''ip_addr_src''), (''tcp_sport'', var ''l4_src_port''), (''ip_id'', num
        105), (''ip_ttl'', num 63)])]"

definition SrcIpAclTest_runTest :: "'d stmt" where
  "SrcIpAclTest_runTest = block [
      try_finally [
        print [str ROUTER_MAC],
        run (lib ''send_packet'' [self ''dev_port1'', self ''pkt''] []),
        print [str ROUTER_MAC],
        run (lib ''verify_packets'' [self ''exp_pkt'', list_of [self ''dev_port0'']] [])] [],
      assign ''table_stage_ingress'' (num SAI_ACL_STAGE_INGRESS),
      assign ''table_stage_egress'' (num SAI_ACL_STAGE_EGRESS),
      assign ''entry_priority'' (num 1),
      assign ''ip_src'' (str ''192.168.100.1''),
      assign ''ip_src_mask'' (str ''255.255.255.0''),
      assign ''table_bind_points'' (list_of [num SAI_ACL_BIND_POINT_TYPE_ROUTER_INTF]),
      assign ''table_bind_point_type_list'' (struct ''sai_thrift_s32_list_t'' [(''count'', length_of (var
        ''table_bind_points'')), (''int32list'', var ''table_bind_points'')]),
      assign ''acl_ingress_table_id'' (api_create ''acl_table'' [(''acl_stage'', var ''table_stage_ingress''),
        (''acl_bind_point_type_list'', var ''table_bind_point_type_list''), (''field_src_ip'', bool True)]),
      assert_ne (var ''acl_ingress_table_id'') (num 0),
      assign ''src_ip_t'' (struct ''sai_thrift_acl_field_data_t'' [(''data'', struct ''sai_thrift_acl_field_data_data_t''
        [(''ip4'', var ''ip_src'')]), (''mask'', struct ''sai_thrift_acl_field_data_mask_t'' [(''ip4'', var ''ip_src_mask'')])]),
      assign ''packet_action'' (struct ''sai_thrift_acl_action_data_t'' [(''parameter'', struct
        ''sai_thrift_acl_action_parameter_t'' [(''s32'', num SAI_PACKET_ACTION_DROP)])]),
      assign ''acl_ingress_entry_id'' (api_create ''acl_entry'' [(''table_id'', var ''acl_ingress_table_id''), (''priority'',
        var ''entry_priority''), (''field_src_ip'', var ''src_ip_t''), (''action_packet_action'', var ''packet_action'')]),
      assert_ne (var ''acl_ingress_entry_id'') (num 0),
      assign ''acl_counter_ingress'' (api_create ''acl_counter'' [(''table_id'', var ''acl_ingress_table_id'')]),
      assign ''action_counter_ingress'' (struct ''sai_thrift_acl_action_data_t'' [(''parameter'', struct
        ''sai_thrift_acl_action_parameter_t'' [(''oid'', var ''acl_counter_ingress'')]), (''enable'', bool True)]),
      run (api_set ''acl_entry'' (var ''acl_ingress_entry_id'') [(''action_counter'', var ''action_counter_ingress'')]),
      run (api_set ''router_interface'' (self ''rif_id2'') [(''ingress_acl'', var ''acl_ingress_table_id'')]),
      try_finally [
        print [str ROUTER_MAC],
        run (lib ''send_packet'' [self ''dev_port1'', self ''pkt''] []),
        print [str ROUTER_MAC],
        run (lib ''verify_no_other_packets'' [] [(''timeout'', num 1)]),
        run (api_set ''router_interface'' (self ''rif_id2'') [(''ingress_acl'', as_int (num SAI_NULL_OBJECT_ID))]),
        assign ''packets'' (api_get ''acl_counter'' (var ''acl_counter_ingress'') [(''packets'', bool True)]),
        assert_eq (item (var ''packets'') (str ''packets'')) (num 1),
        assign ''action_counter_ingress'' (struct ''sai_thrift_acl_action_data_t'' [(''parameter'', struct
          ''sai_thrift_acl_action_parameter_t'' [(''oid'', num 0)]), (''enable'', bool True)]),
        run (api_set ''acl_entry'' (var ''acl_ingress_entry_id'') [(''action_counter'', var ''action_counter_ingress'')]),
        run (api_set ''acl_counter'' (var ''acl_counter_ingress'') [(''packets'', none)]),
        assign ''packets'' (api_get ''acl_counter'' (var ''acl_counter_ingress'') [(''packets'', bool True)]),
        assert_eq (item (var ''packets'') (str ''packets'')) (num 0),
        run (api_remove ''acl_counter'' (var ''acl_counter_ingress'')),
        run (api_remove ''acl_entry'' (var ''acl_ingress_entry_id'')),
        run (api_remove ''acl_table'' (var ''acl_ingress_table_id'')),
        assign ''acl_egress_table_id'' (api_create ''acl_table'' [(''acl_stage'', var ''table_stage_egress''),
          (''acl_bind_point_type_list'', var ''table_bind_point_type_list''), (''field_src_ip'', bool True)]),
        assert_ne (var ''acl_egress_table_id'') (num 0),
        assign ''acl_egress_entry_id'' (api_create ''acl_entry'' [(''table_id'', var ''acl_egress_table_id''), (''priority'',
          var ''entry_priority''), (''field_src_ip'', var ''src_ip_t''), (''action_packet_action'', var ''packet_action'')]),
        assert_ne (var ''acl_egress_entry_id'') (num 0),
        assign ''acl_counter_egress'' (api_create ''acl_counter'' [(''table_id'', var ''acl_egress_table_id'')]),
        assign ''action_counter_egress'' (struct ''sai_thrift_acl_action_data_t'' [(''parameter'', struct
          ''sai_thrift_acl_action_parameter_t'' [(''oid'', var ''acl_counter_egress'')]), (''enable'', bool True)]),
        run (api_set ''acl_entry'' (var ''acl_egress_entry_id'') [(''action_counter'', var ''action_counter_egress'')]),
        run (api_set ''router_interface'' (self ''rif_id2'') [(''egress_acl'', var ''acl_egress_table_id'')]),
        print [str ROUTER_MAC],
        run (lib ''send_packet'' [self ''dev_port1'', self ''pkt''] []),
        print [str ROUTER_MAC],
        run (lib ''verify_no_other_packets'' [] [(''timeout'', num 1)]),
        assign ''packets'' (api_get ''acl_counter'' (var ''acl_counter_egress'') [(''packets'', bool True)]),
        assert_eq (item (var ''packets'') (str ''packets'')) (num 1)] [
        run (api_set ''router_interface'' (self ''rif_id2'') [(''egress_acl'', as_int (num SAI_NULL_OBJECT_ID))]),
        assign ''action_counter_egress'' (struct ''sai_thrift_acl_action_data_t'' [(''parameter'', struct
          ''sai_thrift_acl_action_parameter_t'' [(''oid'', num 0)]), (''enable'', bool True)]),
        run (api_set ''acl_entry'' (var ''acl_egress_entry_id'') [(''action_counter'', var ''action_counter_egress'')]),
        run (api_set ''acl_counter'' (var ''acl_counter_egress'') [(''packets'', none)]),
        assign ''packets'' (api_get ''acl_counter'' (var ''acl_counter_egress'') [(''packets'', bool True)]),
        assert_eq (item (var ''packets'') (str ''packets'')) (num 0),
        run (api_remove ''acl_counter'' (var ''acl_counter_egress'')),
        run (api_remove ''acl_entry'' (var ''acl_egress_entry_id'')),
        run (api_remove ''acl_table'' (var ''acl_egress_table_id''))]]"

definition SrcIpAclTest_tearDown :: "'d stmt" where
  "SrcIpAclTest_tearDown = block [
      run (api_remove ''route_entry'' (self ''route_entry'')),
      run (api_remove ''next_hop'' (self ''nhop'')),
      run (api_remove ''neighbor_entry'' (self ''nbr_entry'')),
      run destroy_rifs,
      super_tearDown]"

definition DstIpAclTest_setUp :: "'d stmt" where
  "DstIpAclTest_setUp = block [
      super_setUp,
      run (create_rifs [0, 1]),
      assign ''l4_dst_port'' (num 1000),
      assign ''rif_id1'' (self ''port0_rif''),
      set_self ''rif_id2'' (self ''port1_rif''),
      assign ''ip_addr_subnet'' (str ''172.16.10.0/24''),
      assign ''ip_addr'' (str ''172.16.10.1''),
      assign ''dmac'' (str ''00:11:22:33:44:55''),
      assign ''mac_src'' (str ''00:22:22:22:22:22''),
      assign ''ip_addr_src'' (str ''192.168.100.100''),
      print [var ''ip_addr'', var ''rif_id1'', var ''dmac''],
      set_self ''nbr_entry'' (struct ''sai_thrift_neighbor_entry_t'' [(''rif_id'', var ''rif_id1''), (''ip_address'', ip_address
        (var ''ip_addr''))]),
      run (api_create_entry ''neighbor_entry'' (self ''nbr_entry'') [(''dst_mac_address'', var ''dmac'')]),
      print [var ''ip_addr'', var ''rif_id1''],
      set_self ''nhop'' (api_create ''next_hop'' [(''ip'', ip_address (var ''ip_addr'')), (''router_interface_id'', var
        ''rif_id1''), (''type'', num SAI_NEXT_HOP_TYPE_IP)]),
      print [var ''ip_addr_subnet'', var ''rif_id1''],
      set_self ''route_entry'' (struct ''sai_thrift_route_entry_t'' [(''vr_id'', self ''default_vrf''), (''destination'',
        ip_prefix (var ''ip_addr_subnet''))]),
      run (api_create_entry ''route_entry'' (self ''route_entry'') [(''next_hop_id'', var ''rif_id1'')]),
      set_self ''pkt'' (lib ''simple_tcp_packet'' [] [(''eth_dst'', str ROUTER_MAC), (''eth_src'', var ''mac_src''),
        (''ip_dst'', var ''ip_addr''), (''ip_src'', var ''ip_addr_src''), (''tcp_sport'', var ''l4_dst_port''), (''ip_id'', num
        105), (''ip_ttl'', num 64)]),
      set_self ''exp_pkt'' (lib ''simple_tcp_packet'' [] [(''eth_dst'', var ''dmac''), (''eth_src'', str ROUTER_MAC),
        (''ip_dst'', var ''ip_addr''), (''ip_src'', var ''ip_addr_src''), (''tcp_sport'', var ''l4_dst_port''), (''ip_id'', num
        105), (''ip_ttl'', num 63)])]"

definition DstIpAclTest_runTest :: "'d stmt" where
  "DstIpAclTest_runTest = block [
      try_finally [
        print [str ROUTER_MAC],
        run (lib ''send_packet'' [self ''dev_port1'', self ''pkt''] []),
        print [str ROUTER_MAC],
        run (lib ''verify_packets'' [self ''exp_pkt'', list_of [self ''dev_port0'']] [])] [],
      assign ''table_stage_ingress'' (num SAI_ACL_STAGE_INGRESS),
      assign ''table_stage_egress'' (num SAI_ACL_STAGE_EGRESS),
      assign ''entry_priority'' (num 1),
      assign ''ip_dst'' (str ''172.16.10.1''),
      assign ''ip_dst_mask'' (str ''255.255.255.0''),
      assign ''table_bind_points'' (list_of [num SAI_ACL_BIND_POINT_TYPE_ROUTER_INTF]),
      assign ''table_bind_point_type_list'' (struct ''sai_thrift_s32_list_t'' [(''count'', length_of (var
        ''table_bind_points'')), (''int32list'', var ''table_bind_points'')]),
      assign ''acl_ingress_table_id'' (api_create ''acl_table'' [(''acl_stage'', var ''table_stage_ingress''),
        (''acl_bind_point_type_list'', var ''table_bind_point_type_list''), (''field_src_ip'', bool True)]),
      assert_ne (var ''acl_ingress_table_id'') (num 0),
      assign ''dst_ip_t'' (struct ''sai_thrift_acl_field_data_t'' [(''data'', struct ''sai_thrift_acl_field_data_data_t''
        [(''ip4'', var ''ip_dst'')]), (''mask'', struct ''sai_thrift_acl_field_data_mask_t'' [(''ip4'', var ''ip_dst_mask'')])]),
      assign ''packet_action'' (struct ''sai_thrift_acl_action_data_t'' [(''parameter'', struct
        ''sai_thrift_acl_action_parameter_t'' [(''s32'', num SAI_PACKET_ACTION_DROP)])]),
      assign ''acl_ingress_entry_id'' (api_create ''acl_entry'' [(''table_id'', var ''acl_ingress_table_id''), (''priority'',
        var ''entry_priority''), (''field_dst_ip'', var ''dst_ip_t''), (''action_packet_action'', var ''packet_action'')]),
      assert_ne (var ''acl_ingress_entry_id'') (num 0),
      assign ''acl_counter_ingress'' (api_create ''acl_counter'' [(''table_id'', var ''acl_ingress_table_id'')]),
      assign ''action_counter_ingress'' (struct ''sai_thrift_acl_action_data_t'' [(''parameter'', struct
        ''sai_thrift_acl_action_parameter_t'' [(''oid'', var ''acl_counter_ingress'')]), (''enable'', bool True)]),
      run (api_set ''acl_entry'' (var ''acl_ingress_entry_id'') [(''action_counter'', var ''action_counter_ingress'')]),
      run (api_set ''router_interface'' (self ''rif_id2'') [(''ingress_acl'', var ''acl_ingress_table_id'')]),
      try_finally [
        print [str ROUTER_MAC],
        run (lib ''send_packet'' [self ''dev_port1'', self ''pkt''] []),
        print [str ROUTER_MAC],
        run (lib ''verify_no_other_packets'' [] [(''timeout'', num 1)]),
        assign ''packets'' (api_get ''acl_counter'' (var ''acl_counter_ingress'') [(''packets'', bool True)]),
        assert_eq (item (var ''packets'') (str ''packets'')) (num 1),
        assign ''action_counter_ingress'' (struct ''sai_thrift_acl_action_data_t'' [(''parameter'', struct
          ''sai_thrift_acl_action_parameter_t'' [(''oid'', num 0)]), (''enable'', bool True)]),
        run (api_set ''acl_entry'' (var ''acl_ingress_entry_id'') [(''action_counter'', var ''action_counter_ingress'')]),
        run (api_set ''acl_counter'' (var ''acl_counter_ingress'') [(''packets'', none)]),
        assign ''packets'' (api_get ''acl_counter'' (var ''acl_counter_ingress'') [(''packets'', bool True)]),
        assert_eq (item (var ''packets'') (str ''packets'')) (num 0),
        run (api_remove ''acl_counter'' (var ''acl_counter_ingress'')),
        run (api_set ''router_interface'' (self ''rif_id2'') [(''ingress_acl'', as_int (num SAI_NULL_OBJECT_ID))]),
        run (api_remove ''acl_entry'' (var ''acl_ingress_entry_id'')),
        run (api_remove ''acl_table'' (var ''acl_ingress_table_id'')),
        assign ''acl_egress_table_id'' (api_create ''acl_table'' [(''acl_stage'', var ''table_stage_egress''),
          (''acl_bind_point_type_list'', var ''table_bind_point_type_list''), (''field_dst_ip'', bool True)]),
        assert_ne (var ''acl_egress_table_id'') (num 0),
        assign ''acl_egress_entry_id'' (api_create ''acl_entry'' [(''table_id'', var ''acl_egress_table_id''), (''priority'',
          var ''entry_priority''), (''field_dst_ip'', var ''dst_ip_t''), (''action_packet_action'', var ''packet_action'')]),
        assert_ne (var ''acl_egress_entry_id'') (num 0),
        assign ''acl_counter_egress'' (api_create ''acl_counter'' [(''table_id'', var ''acl_egress_table_id'')]),
        assign ''action_counter_egress'' (struct ''sai_thrift_acl_action_data_t'' [(''parameter'', struct
          ''sai_thrift_acl_action_parameter_t'' [(''oid'', var ''acl_counter_egress'')]), (''enable'', bool True)]),
        run (api_set ''acl_entry'' (var ''acl_egress_entry_id'') [(''action_counter'', var ''action_counter_egress'')]),
        run (api_set ''router_interface'' (self ''rif_id2'') [(''egress_acl'', var ''acl_egress_table_id'')]),
        print [str ROUTER_MAC],
        run (lib ''send_packet'' [self ''dev_port1'', self ''pkt''] []),
        print [str ROUTER_MAC],
        run (lib ''verify_no_other_packets'' [] [(''timeout'', num 1)]),
        assign ''packets'' (api_get ''acl_counter'' (var ''acl_counter_egress'') [(''packets'', bool True)]),
        assert_eq (item (var ''packets'') (str ''packets'')) (num 1)] [
        run (api_set ''router_interface'' (self ''rif_id2'') [(''egress_acl'', as_int (num SAI_NULL_OBJECT_ID))]),
        assign ''action_counter_egress'' (struct ''sai_thrift_acl_action_data_t'' [(''parameter'', struct
          ''sai_thrift_acl_action_parameter_t'' [(''oid'', num 0)]), (''enable'', bool True)]),
        run (api_set ''acl_entry'' (var ''acl_egress_entry_id'') [(''action_counter'', var ''action_counter_egress'')]),
        run (api_set ''acl_counter'' (var ''acl_counter_egress'') [(''packets'', none)]),
        assign ''packets'' (api_get ''acl_counter'' (var ''acl_counter_egress'') [(''packets'', bool True)]),
        assert_eq (item (var ''packets'') (str ''packets'')) (num 0),
        run (api_remove ''acl_counter'' (var ''acl_counter_egress'')),
        run (api_remove ''acl_entry'' (var ''acl_egress_entry_id'')),
        run (api_remove ''acl_table'' (var ''acl_egress_table_id''))]]"

definition DstIpAclTest_tearDown :: "'d stmt" where
  "DstIpAclTest_tearDown = block [
      run (api_remove ''route_entry'' (self ''route_entry'')),
      run (api_remove ''next_hop'' (self ''nhop'')),
      run (api_remove ''neighbor_entry'' (self ''nbr_entry'')),
      run destroy_rifs,
      super_tearDown]"

definition MACSrcAclTest_setUp :: "'d stmt" where
  "MACSrcAclTest_setUp = block [
      super_setUp,
      run (create_rifs [0, 1]),
      assign ''rif_id1'' (self ''port0_rif''),
      set_self ''rif_id2'' (self ''port1_rif''),
      assign ''ip_addr_subnet'' (str ''172.16.10.0/24''),
      assign ''ip_addr'' (str ''172.16.10.1''),
      assign ''dmac'' (str ''00:11:22:33:44:55''),
      set_self ''mac_src'' (str ''00:22:22:22:22:22''),
      assign ''ip_addr_src'' (str ''192.168.0.1''),
      print [var ''ip_addr'', var ''rif_id1'', var ''dmac''],
      set_self ''nbr_entry'' (struct ''sai_thrift_neighbor_entry_t'' [(''rif_id'', var ''rif_id1''), (''ip_address'', ip_address
        (var ''ip_addr''))]),
      run (api_create_entry ''neighbor_entry'' (self ''nbr_entry'') [(''dst_mac_address'', var ''dmac'')]),
      print [var ''ip_addr'', var ''rif_id1''],
      set_self ''nhop'' (api_create ''next_hop'' [(''ip'', ip_address (var ''ip_addr'')), (''router_interface_id'', var
        ''rif_id1''), (''type'', num SAI_NEXT_HOP_TYPE_IP)]),
      print [var ''ip_addr_subnet'', var ''rif_id1''],
      set_self ''route_entry'' (struct ''sai_thrift_route_entry_t'' [(''vr_id'', self ''default_vrf''), (''destination'',
        ip_prefix (var ''ip_addr_subnet''))]),
      run (api_create_entry ''route_entry'' (self ''route_entry'') [(''next_hop_id'', var ''rif_id1'')]),
      set_self ''pkt'' (lib ''simple_tcp_packet'' [] [(''eth_dst'', str ROUTER_MAC), (''eth_src'', self ''mac_src''),
        (''ip_dst'', var ''ip_addr''), (''ip_src'', var ''ip_addr_src''), (''ip_id'', num 105), (''ip_ttl'', num 64)]),
      set_self ''exp_pkt'' (lib ''simple_tcp_packet'' [] [(''eth_dst'', var ''dmac''), (''eth_src'', str ROUTER_MAC),
        (''ip_dst'', var ''ip_addr''), (''ip_src'', var ''ip_addr_src''), (''ip_id'', num 105), (''ip_ttl'', num 63)])]"

definition MACSrcAclTest_tearDown :: "'d stmt" where
  "MACSrcAclTest_tearDown = block [
      run (api_remove ''route_entry'' (self ''route_entry'')),
      run (api_remove ''next_hop'' (self ''nhop'')),
      run (api_remove ''neighbor_entry'' (self ''nbr_entry'')),
      run destroy_rifs,
      super_tearDown]"

definition L3L4PortTest_setUp :: "'d stmt" where
  "L3L4PortTest_setUp = block [
      super_setUp,
      run (create_rifs [0, 1]),
      set_self ''l4_dst_port'' (num 1000),
      set_self ''l4_src_port'' (num 500),
      assign ''rif_id1'' (self ''port0_rif''),
      set_self ''rif_id2'' (self ''port1_rif''),
      assign ''ip_addr_subnet'' (str ''172.16.10.0/24''),
      assign ''ip_addr'' (str ''172.16.10.1''),
      assign ''dmac'' (str ''00:11:22:33:44:55''),
      assign ''mac_src'' (str ''00:22:22:22:22:22''),
      assign ''ip_addr_src'' (str ''192.168.100.100''),
      print [var ''ip_addr'', var ''rif_id1'', var ''dmac''],
      set_self ''nbr_entry'' (struct ''sai_thrift_neighbor_entry_t'' [(''rif_id'', var ''rif_id1''), (''ip_address'', ip_address
        (var ''ip_addr''))]),
      run (api_create_entry ''neighbor_entry'' (self ''nbr_entry'') [(''dst_mac_address'', var ''dmac'')]),
      print [var ''ip_addr'', var ''rif_id1''],
      set_self ''nhop'' (api_create ''next_hop'' [(''ip'', ip_address (var ''ip_addr'')), (''router_interface_id'', var
        ''rif_id1''), (''type'', num SAI_NEXT_HOP_TYPE_IP)]),
      print [var ''ip_addr_subnet'', var ''rif_id1''],
      set_self ''route_entry'' (struct ''sai_thrift_route_entry_t'' [(''vr_id'', self ''default_vrf''), (''destination'',
        ip_prefix (var ''ip_addr_subnet''))]),
      run (api_create_entry ''route_entry'' (self ''route_entry'') [(''next_hop_id'', var ''rif_id1'')]),
      set_self ''pkt'' (lib ''simple_tcp_packet'' [] [(''eth_dst'', str ROUTER_MAC), (''eth_src'', var ''mac_src''),
        (''ip_dst'', var ''ip_addr''), (''ip_src'', var ''ip_addr_src''), (''tcp_sport'', self ''l4_src_port''), (''tcp_dport'',
        self ''l4_dst_port''), (''ip_id'', num 105), (''ip_ttl'', num 64)]),
      set_self ''exp_pkt'' (lib ''simple_tcp_packet'' [] [(''eth_dst'', var ''dmac''), (''eth_src'', str ROUTER_MAC),
        (''ip_dst'', var ''ip_addr''), (''ip_src'', var ''ip_addr_src''), (''tcp_sport'', self ''l4_src_port''), (''tcp_dport'',
        self ''l4_dst_port''), (''ip_id'', num 105), (''ip_ttl'', num 63)])]"

definition L3L4PortTest_runTest :: "'d stmt" where
  "L3L4PortTest_runTest = block [
      try_finally [
        print [str ROUTER_MAC],
        run (lib ''send_packet'' [self ''dev_port1'', self ''pkt''] []),
        print [str ROUTER_MAC],
        run (lib ''verify_packets'' [self ''exp_pkt'', list_of [self ''dev_port0'']] [])] [],
      assign ''table_stage_ingress'' (num SAI_ACL_STAGE_INGRESS),
      assign ''table_stage_egress'' (num SAI_ACL_STAGE_EGRESS),
      assign ''entry_priority'' (num 1),
      assign ''ip_src'' (str ''192.168.100.1''),
      assign ''ip_src_mask'' (str ''255.255.255.0''),
      assign ''table_bind_points'' (list_of [num SAI_ACL_BIND_POINT_TYPE_ROUTER_INTF]),
      assign ''table_bind_point_type_list'' (struct ''sai_thrift_s32_list_t'' [(''count'', length_of (var
        ''table_bind_points'')), (''int32list'', var ''table_bind_points'')]),
      assign ''acl_ingress_table_id'' (api_create ''acl_table'' [(''acl_stage'', var ''table_stage_ingress''),
        (''acl_bind_point_type_list'', var ''table_bind_point_type_list''), (''field_l4_src_port'', bool True),
        (''field_l4_dst_port'', bool True)]),
      assert_ne (var ''acl_ingress_table_id'') (num 0),
      assign ''src_ip_t'' (struct ''sai_thrift_acl_field_data_t'' [(''data'', struct ''sai_thrift_acl_field_data_data_t''
        [(''ip4'', var ''ip_src'')]), (''mask'', struct ''sai_thrift_acl_field_data_mask_t'' [(''ip4'', var ''ip_src_mask'')])]),
      assign ''l4_dst_port_mask'' (num 32759),
      assign ''l4_dst_port_t'' (struct ''sai_thrift_acl_field_data_t'' [(''data'', struct ''sai_thrift_acl_field_data_data_t''
        [(''u16'', self ''l4_dst_port'')]), (''mask'', struct ''sai_thrift_acl_field_data_mask_t'' [(''u16'', var
        ''l4_dst_port_mask'')])]),
      assign ''l4_src_port_mask'' (num 32759),
      assign ''l4_src_port_t'' (struct ''sai_thrift_acl_field_data_t'' [(''data'', struct ''sai_thrift_acl_field_data_data_t''
        [(''u16'', self ''l4_src_port'')]), (''mask'', struct ''sai_thrift_acl_field_data_mask_t'' [(''u16'', var
        ''l4_src_port_mask'')])]),
      assign ''packet_action'' (struct ''sai_thrift_acl_action_data_t'' [(''parameter'', struct
        ''sai_thrift_acl_action_parameter_t'' [(''s32'', num SAI_PACKET_ACTION_DROP)])]),
      assign ''acl_ingress_entry_id'' (api_create ''acl_entry'' [(''table_id'', var ''acl_ingress_table_id''), (''priority'',
        var ''entry_priority''), (''field_src_ip'', var ''src_ip_t''), (''action_packet_action'', var ''packet_action''),
        (''field_l4_dst_port'', var ''l4_dst_port_t''), (''field_l4_src_port'', var ''l4_src_port_t'')]),
      assign ''acl_counter_ingress'' (api_create ''acl_counter'' [(''table_id'', var ''acl_ingress_table_id'')]),
      assign ''action_counter_ingress'' (struct ''sai_thrift_acl_action_data_t'' [(''parameter'', struct
        ''sai_thrift_acl_action_parameter_t'' [(''oid'', var ''acl_counter_ingress'')]), (''enable'', bool True)]),
      run (api_set ''acl_entry'' (var ''acl_ingress_entry_id'') [(''action_counter'', var ''action_counter_ingress'')]),
      assert_ne (var ''acl_ingress_entry_id'') (num 0),
      run (api_set ''router_interface'' (self ''rif_id2'') [(''ingress_acl'', var ''acl_ingress_table_id'')]),
      try_finally [
        print [str ROUTER_MAC],
        run (lib ''send_packet'' [self ''dev_port1'', self ''pkt''] []),
        print [str ROUTER_MAC],
        run (lib ''verify_no_other_packets'' [] [(''timeout'', num 1)]),
        assign ''packets'' (api_get ''acl_counter'' (var ''acl_counter_ingress'') [(''packets'', bool True)]),
        assert_eq (item (var ''packets'') (str ''packets'')) (num 1),
        assign ''action_counter_ingress'' (struct ''sai_thrift_acl_action_data_t'' [(''parameter'', struct
          ''sai_thrift_acl_action_parameter_t'' [(''oid'', num 0)]), (''enable'', bool True)]),
        run (api_set ''acl_entry'' (var ''acl_ingress_entry_id'') [(''action_counter'', var ''action_counter_ingress'')]),
        run (api_set ''acl_counter'' (var ''acl_counter_ingress'') [(''packets'', none)]),
        assign ''packets'' (api_get ''acl_counter'' (var ''acl_counter_ingress'') [(''packets'', bool True)]),
        assert_eq (item (var ''packets'') (str ''packets'')) (num 0),
        run (api_remove ''acl_counter'' (var ''acl_counter_ingress'')),
        run (api_set ''router_interface'' (self ''rif_id2'') [(''ingress_acl'', as_int (num SAI_NULL_OBJECT_ID))]),
        run (api_remove ''acl_entry'' (var ''acl_ingress_entry_id'')),
        run (api_remove ''acl_table'' (var ''acl_ingress_table_id'')),
        assign ''acl_egress_table_id'' (api_create ''acl_table'' [(''acl_stage'', var ''table_stage_egress''),
          (''acl_bind_point_type_list'', var ''table_bind_point_type_list''), (''field_src_ip'', bool True)]),
        assert_ne (var ''acl_egress_table_id'') (num 0),
        assign ''acl_egress_entry_id'' (api_create ''acl_entry'' [(''table_id'', var ''acl_egress_table_id''), (''priority'',
          var ''entry_priority''), (''field_src_ip'', var ''src_ip_t''), (''action_packet_action'', var ''packet_action''),
          (''field_l4_dst_port'', var ''l4_dst_port_t''), (''field_l4_src_port'', var ''l4_src_port_t'')]),
        assign ''acl_counter_egress'' (api_create ''acl_counter'' [(''table_id'', var ''acl_egress_table_id'')]),
        assign ''action_counter_egress'' (struct ''sai_thrift_acl_action_data_t'' [(''parameter'', struct
          ''sai_thrift_acl_action_parameter_t'' [(''oid'', var ''acl_counter_egress'')]), (''enable'', bool True)]),
        run (api_set ''acl_entry'' (var ''acl_egress_entry_id'') [(''action_counter'', var ''action_counter_egress'')]),
        assert_ne (var ''acl_egress_entry_id'') (num 0),
        run (api_set ''router_interface'' (self ''rif_id2'') [(''egress_acl'', var ''acl_egress_table_id'')]),
        print [str ROUTER_MAC],
        run (lib ''send_packet'' [self ''dev_port1'', self ''pkt''] []),
        print [str ROUTER_MAC],
        run (lib ''verify_no_other_packets'' [] [(''timeout'', num 2)]),
        assign ''packets'' (api_get ''acl_counter'' (var ''acl_counter_egress'') [(''packets'', bool True)]),
        assert_eq (item (var ''packets'') (str ''packets'')) (num 1)] [
        run (api_set ''router_interface'' (self ''rif_id2'') [(''egress_acl'', as_int (num SAI_NULL_OBJECT_ID))]),
        assign ''action_counter_egress'' (struct ''sai_thrift_acl_action_data_t'' [(''parameter'', struct
          ''sai_thrift_acl_action_parameter_t'' [(''oid'', num 0)]), (''enable'', bool True)]),
        run (api_set ''acl_entry'' (var ''acl_egress_entry_id'') [(''action_counter'', var ''action_counter_egress'')]),
        run (api_set ''acl_counter'' (var ''acl_counter_egress'') [(''packets'', none)]),
        assign ''packets'' (api_get ''acl_counter'' (var ''acl_counter_egress'') [(''packets'', bool True)]),
        assert_eq (item (var ''packets'') (str ''packets'')) (num 0),
        run (api_remove ''acl_counter'' (var ''acl_counter_egress'')),
        run (api_remove ''acl_entry'' (var ''acl_egress_entry_id'')),
        run (api_remove ''acl_table'' (var ''acl_egress_table_id''))]]"

definition L3L4PortTest_tearDown :: "'d stmt" where
  "L3L4PortTest_tearDown = block [
      run (api_remove ''route_entry'' (self ''route_entry'')),
      run (api_remove ''next_hop'' (self ''nhop'')),
      run (api_remove ''neighbor_entry'' (self ''nbr_entry'')),
      run destroy_rifs,
      super_tearDown]"

definition L3AclRangeTest_setUp :: "'d stmt" where
  "L3AclRangeTest_setUp = block [
      super_setUp,
      run (create_rifs [0, 1]),
      assign ''l4_dst_port'' (num 1000),
      assign ''rif_id1'' (self ''port0_rif''),
      set_self ''rif_id2'' (self ''port1_rif''),
      assign ''ip_addr_subnet'' (str ''172.16.10.0/24''),
      assign ''ip_addr'' (str ''172.16.10.1''),
      assign ''dmac'' (str ''00:11:22:33:44:55''),
      assign ''mac_src'' (str ''00:22:22:22:22:22''),
      assign ''ip_addr_src'' (str ''192.168.100.100''),
      print [var ''ip_addr'', var ''rif_id1'', var ''dmac''],
      set_self ''nbr_entry'' (struct ''sai_thrift_neighbor_entry_t'' [(''rif_id'', var ''rif_id1''), (''ip_address'', ip_address
        (var ''ip_addr''))]),
      run (api_create_entry ''neighbor_entry'' (self ''nbr_entry'') [(''dst_mac_address'', var ''dmac'')]),
      print [var ''ip_addr'', var ''rif_id1''],
      set_self ''nhop'' (api_create ''next_hop'' [(''ip'', ip_address (var ''ip_addr'')), (''router_interface_id'', var
        ''rif_id1''), (''type'', num SAI_NEXT_HOP_TYPE_IP)]),
      print [var ''ip_addr_subnet'', var ''rif_id1''],
      set_self ''route_entry'' (struct ''sai_thrift_route_entry_t'' [(''vr_id'', self ''default_vrf''), (''destination'',
        ip_prefix (var ''ip_addr_subnet''))]),
      run (api_create_entry ''route_entry'' (self ''route_entry'') [(''next_hop_id'', var ''rif_id1'')]),
      set_self ''tcp_pkt'' (lib ''simple_tcp_packet'' [] [(''eth_dst'', str ROUTER_MAC), (''eth_src'', var ''mac_src''),
        (''ip_dst'', var ''ip_addr''), (''ip_src'', var ''ip_addr_src''), (''tcp_dport'', var ''l4_dst_port''), (''ip_id'', num
        105), (''ip_ttl'', num 64)]),
      set_self ''tcp_exp_pkt'' (lib ''simple_tcp_packet'' [] [(''eth_dst'', var ''dmac''), (''eth_src'', str ROUTER_MAC),
        (''ip_dst'', var ''ip_addr''), (''ip_src'', var ''ip_addr_src''), (''tcp_dport'', var ''l4_dst_port''), (''ip_id'', num
        105), (''ip_ttl'', num 63)]),
      set_self ''udp_pkt'' (lib ''simple_udp_packet'' [] [(''eth_dst'', str ROUTER_MAC), (''eth_src'', var ''mac_src''),
        (''ip_dst'', var ''ip_addr''), (''udp_dport'', var ''l4_dst_port''), (''ip_src'', var ''ip_addr_src''), (''ip_id'', num
        105), (''ip_ttl'', num 64)]),
      set_self ''udp_exp_pkt'' (lib ''simple_udp_packet'' [] [(''eth_dst'', var ''dmac''), (''eth_src'', str ROUTER_MAC),
        (''ip_dst'', var ''ip_addr''), (''ip_src'', var ''ip_addr_src''), (''udp_dport'', var ''l4_dst_port''), (''ip_id'', num
        105), (''ip_ttl'', num 63)]),
      set_self ''table_stage_ingress'' (num SAI_ACL_STAGE_INGRESS),
      set_self ''table_stage_egress'' (num SAI_ACL_STAGE_EGRESS),
      set_self ''tcp_protocol'' (num 6),
      set_self ''udp_protocol'' (num 17)]"

definition L3AclRangeTest_routingTest :: "'d stmt" where
  "L3AclRangeTest_routingTest = block [
      print [str ROUTER_MAC],
      run (lib ''send_packet'' [self ''dev_port1'', self ''tcp_pkt''] []),
      print [str ROUTER_MAC],
      run (lib ''verify_packets'' [self ''tcp_exp_pkt'', list_of [self ''dev_port0'']] []),
      print [str ROUTER_MAC],
      run (lib ''send_packet'' [self ''dev_port1'', self ''udp_pkt''] []),
      print [str ROUTER_MAC],
      run (lib ''verify_packets'' [self ''udp_exp_pkt'', list_of [self ''dev_port0'']] [])]"

definition L3AclRangeTest_aclTest :: "'d stmt" where
  "L3AclRangeTest_aclTest = block [
      if_else (eq (var ''protocol'') (num 6)) [
        assign ''pkt'' (self ''tcp_pkt'')] [
        if_else (eq (var ''protocol'') (num 17)) [
          assign ''pkt'' (self ''udp_pkt'')] []],
      assign ''field_protocol'' (struct ''sai_thrift_acl_field_data_t'' [(''data'', struct ''sai_thrift_acl_field_data_data_t''
        [(''u8'', var ''protocol'')]), (''mask'', struct ''sai_thrift_acl_field_data_mask_t'' [(''u8'', num 15)])]),
      assign ''entry_priority'' (num 1),
      assign ''table_bind_points'' (list_of [num SAI_ACL_BIND_POINT_TYPE_ROUTER_INTF]),
      assign ''table_bind_point_type_list'' (struct ''sai_thrift_s32_list_t'' [(''count'', length_of (var
        ''table_bind_points'')), (''int32list'', var ''table_bind_points'')]),
      assign ''acl_table_id'' (api_create ''acl_table'' [(''acl_stage'', var ''stage''), (''acl_bind_point_type_list'', var
        ''table_bind_point_type_list''), (''field_src_ip'', bool True), (''field_ip_protocol'', bool True)]),
      assert_ne (var ''acl_table_id'') (num 0),
      assign ''packet_action'' (struct ''sai_thrift_acl_action_data_t'' [(''parameter'', struct
        ''sai_thrift_acl_action_parameter_t'' [(''s32'', num SAI_PACKET_ACTION_DROP)])]),
      assign ''u32range'' (struct ''sai_thrift_u32_range_t'' [(''min'', num 1000), (''max'', num 1000)]),
      assign ''acl_range_id'' (api_create ''acl_range'' [(''type'', num SAI_ACL_RANGE_TYPE_L4_DST_PORT_RANGE), (''limit'', var
        ''u32range'')]),
      assign ''range_list'' (list_of [var ''acl_range_id'']),
      print [var ''acl_range_id''],
      assign ''range_list_t'' (struct ''sai_thrift_acl_field_data_t'' [(''data'', struct ''sai_thrift_acl_field_data_data_t''
        [(''objlist'', struct ''sai_thrift_object_list_t'' [(''count'', length_of (var ''range_list'')), (''idlist'', var
        ''range_list'')])])]),
      assign ''acl_entry_id'' (api_create ''acl_entry'' [(''table_id'', var ''acl_table_id''), (''priority'', var
        ''entry_priority''), (''action_packet_action'', var ''packet_action''), (''field_acl_range_type'', var
        ''range_list_t''), (''field_ip_protocol'', var ''field_protocol'')]),
      print [var ''acl_table_id''],
      assign ''acl_counter'' (api_create ''acl_counter'' [(''table_id'', var ''acl_table_id'')]),
      assign ''action_counter'' (struct ''sai_thrift_acl_action_data_t'' [(''parameter'', struct
        ''sai_thrift_acl_action_parameter_t'' [(''oid'', var ''acl_counter'')]), (''enable'', bool True)]),
      run (api_set ''acl_entry'' (var ''acl_entry_id'') [(''action_counter'', var ''action_counter'')]),
      if_else (eq (var ''stage'') (num SAI_ACL_STAGE_INGRESS)) [
        run (api_set ''router_interface'' (self ''rif_id2'') [(''ingress_acl'', var ''acl_table_id'')])] [
        if_else (eq (var ''stage'') (num SAI_ACL_STAGE_EGRESS)) [
          run (api_set ''router_interface'' (self ''rif_id2'') [(''egress_acl'', var ''acl_table_id'')])] []],
      try_finally [
        print [str ROUTER_MAC],
        run (lib ''send_packet'' [self ''dev_port1'', var ''pkt''] []),
        print [str ROUTER_MAC],
        run (lib ''verify_no_other_packets'' [] [(''timeout'', num 1)]),
        assign ''packets'' (api_get ''acl_counter'' (var ''acl_counter'') [(''packets'', bool True)]),
        assert_eq (item (var ''packets'') (str ''packets'')) (num 1)] [
        if_else (eq (var ''stage'') (num SAI_ACL_STAGE_INGRESS)) [
          run (api_set ''router_interface'' (self ''rif_id2'') [(''ingress_acl'', as_int (num SAI_NULL_OBJECT_ID))])] [
          if_else (eq (var ''stage'') (num SAI_ACL_STAGE_EGRESS)) [
            run (api_set ''router_interface'' (self ''rif_id2'') [(''egress_acl'', as_int (num SAI_NULL_OBJECT_ID))])] []],
        assign ''action_counter'' (struct ''sai_thrift_acl_action_data_t'' [(''parameter'', struct
          ''sai_thrift_acl_action_parameter_t'' [(''oid'', num 0)]), (''enable'', bool True)]),
        run (api_set ''acl_entry'' (var ''acl_entry_id'') [(''action_counter'', var ''action_counter'')]),
        run (api_set ''acl_counter'' (var ''acl_counter'') [(''packets'', none)]),
        assign ''packets'' (api_get ''acl_counter'' (var ''acl_counter'') [(''packets'', bool True)]),
        assert_eq (item (var ''packets'') (str ''packets'')) (num 0),
        run (api_remove ''acl_counter'' (var ''acl_counter'')),
        run (api_remove ''acl_entry'' (var ''acl_entry_id'')),
        run (api_remove ''acl_range'' (var ''acl_range_id'')),
        run (api_remove ''acl_table'' (var ''acl_table_id''))]]"

definition L3AclRangeTest_runTest :: "'d stmt" where
  "L3AclRangeTest_runTest = block [
      run (invoke [] L3AclRangeTest_routingTest),
      run (invoke [(''stage'', self ''table_stage_ingress''), (''protocol'', self ''tcp_protocol'')] L3AclRangeTest_aclTest),
      run (invoke [(''stage'', self ''table_stage_ingress''), (''protocol'', self ''udp_protocol'')] L3AclRangeTest_aclTest),
      run (invoke [(''stage'', self ''table_stage_egress''), (''protocol'', self ''tcp_protocol'')] L3AclRangeTest_aclTest),
      run (invoke [(''stage'', self ''table_stage_egress''), (''protocol'', self ''udp_protocol'')] L3AclRangeTest_aclTest)]"

definition L3AclRangeTest_tearDown :: "'d stmt" where
  "L3AclRangeTest_tearDown = block [
      run (api_remove ''route_entry'' (self ''route_entry'')),
      run (api_remove ''next_hop'' (self ''nhop'')),
      run (api_remove ''neighbor_entry'' (self ''nbr_entry'')),
      run destroy_rifs,
      super_tearDown]"

definition ACLGroupSeveralMembersTest_setUp :: "'d stmt" where
  "ACLGroupSeveralMembersTest_setUp = block [
      super_setUp,
      assign ''mirror_type'' (num SAI_MIRROR_SESSION_TYPE_LOCAL),
      assign ''rif_id1'' (self ''port10_rif''),
      set_self ''ipv4_addr'' (str ''192.168.0.1''),
      set_self ''ipv6_addr'' (str ''4000::1''),
      set_self ''dmac'' (str ''00:22:22:22:22:22''),
      print [self ''ipv4_addr'', var ''rif_id1'', self ''dmac''],
      set_self ''nbr_entry1'' (struct ''sai_thrift_neighbor_entry_t'' [(''rif_id'', var ''rif_id1''), (''ip_address'',
        ip_address (self ''ipv4_addr''))]),
      run (api_create_entry ''neighbor_entry'' (self ''nbr_entry1'') [(''dst_mac_address'', self ''dmac'')]),
      print [self ''ipv4_addr'', var ''rif_id1''],
      set_self ''nhop1'' (api_create ''next_hop'' [(''ip'', ip_address (self ''ipv4_addr'')), (''router_interface_id'', var
        ''rif_id1''), (''type'', num SAI_NEXT_HOP_TYPE_IP)]),
      print [self ''ipv6_addr'', var ''rif_id1'', self ''dmac''],
      set_self ''nbr_entry2'' (struct ''sai_thrift_neighbor_entry_t'' [(''rif_id'', var ''rif_id1''), (''ip_address'',
        ip_address (self ''ipv6_addr''))]),
      run (api_create_entry ''neighbor_entry'' (self ''nbr_entry2'') [(''dst_mac_address'', self ''dmac'')]),
      print [self ''ipv6_addr'', var ''rif_id1''],
      set_self ''nhop2'' (api_create ''next_hop'' [(''ip'', ip_address (self ''ipv6_addr'')), (''router_interface_id'', var
        ''rif_id1''), (''type'', num SAI_NEXT_HOP_TYPE_IP)]),
      set_self ''spanid'' (api_create ''mirror_session'' [(''monitor_port'', self ''port24''), (''type'', var ''mirror_type'')])]"

definition ACLGroupSeveralMembersTest_runTest :: "'d stmt" where
  "ACLGroupSeveralMembersTest_runTest = block [
      assign ''ipv4_addr_src1'' (str ''20.0.0.1''),
      assign ''ipv4_addr_src2'' (str ''20.0.0.3''),
      assign ''ipv4_mask'' (str ''255.255.255.255''),
      assign ''ipv6_mask'' (str ''ffff:ffff:ffff:ffff:ffff:ffff:ffff:ffff''),
      assign ''ipv6_addr_src'' (str ''2000::1''),
      assign ''group_stage_ingress'' (num SAI_ACL_STAGE_INGRESS),
      assign ''group_stage_egress'' (num SAI_ACL_STAGE_EGRESS),
      assign ''group_bind_point_list'' (list_of [num SAI_ACL_BIND_POINT_TYPE_PORT]),
      assign ''group_type'' (num SAI_ACL_TABLE_GROUP_TYPE_PARALLEL),
      assign ''table_stage_ingress'' (num SAI_ACL_STAGE_INGRESS),
      assign ''table_stage_egress'' (num SAI_ACL_STAGE_EGRESS),
      assign ''group_bind_point_type_list'' (struct ''sai_thrift_s32_list_t'' [(''count'', length_of (var
        ''group_bind_point_list'')), (''int32list'', var ''group_bind_point_list'')]),
      assign ''acl_group_ingress'' (api_create ''acl_table_group'' [(''acl_stage'', var ''group_stage_ingress''),
        (''acl_bind_point_type_list'', var ''group_bind_point_type_list''), (''type'', var ''group_type'')]),
      assign ''table_bind_point_list'' (list_of [num SAI_ACL_BIND_POINT_TYPE_PORT]),
      assign ''table_bind_point_type_list'' (struct ''sai_thrift_s32_list_t'' [(''count'', length_of (var
        ''table_bind_point_list'')), (''int32list'', var ''table_bind_point_list'')]),
      assign ''packet_action'' (struct ''sai_thrift_acl_action_data_t'' [(''parameter'', struct
        ''sai_thrift_acl_action_parameter_t'' [(''s32'', num SAI_PACKET_ACTION_DROP)])]),
      assign ''src_ip_t_ipv4'' (struct ''sai_thrift_acl_field_data_t'' [(''data'', struct ''sai_thrift_acl_field_data_data_t''
        [(''ip4'', var ''ipv4_addr_src1'')]), (''mask'', struct ''sai_thrift_acl_field_data_mask_t'' [(''ip4'', var
        ''ipv4_mask'')])]),
      assign ''src_ip_t_ipv6'' (struct ''sai_thrift_acl_field_data_t'' [(''data'', struct ''sai_thrift_acl_field_data_data_t''
        [(''ip6'', var ''ipv6_addr_src'')]), (''mask'', struct ''sai_thrift_acl_field_data_mask_t'' [(''ip6'', var
        ''ipv6_mask'')])]),
      assign ''src_ip_t_mirror'' (struct ''sai_thrift_acl_field_data_t'' [(''data'', struct ''sai_thrift_acl_field_data_data_t''
        [(''ip4'', var ''ipv4_addr_src2'')]), (''mask'', struct ''sai_thrift_acl_field_data_mask_t'' [(''ip4'', var
        ''ipv4_mask'')])]),
      assign ''acl_ingress_ipv4_table_id'' (api_create ''acl_table'' [(''acl_stage'', var ''table_stage_ingress''),
        (''acl_bind_point_type_list'', var ''table_bind_point_type_list''), (''field_src_ip'', bool True)]),
      assign ''acl_ingress_ipv6_table_id'' (api_create ''acl_table'' [(''acl_stage'', var ''table_stage_ingress''),
        (''acl_bind_point_type_list'', var ''table_bind_point_type_list''), (''field_src_ipv6'', bool True)]),
      assign ''acl_group_ingress_ipv4_member_id'' (api_create ''acl_table_group_member'' [(''acl_table_group_id'', var
        ''acl_group_ingress''), (''acl_table_id'', var ''acl_ingress_ipv4_table_id'')]),
      assign ''acl_group_ingress_ipv6_member_id'' (api_create ''acl_table_group_member'' [(''acl_table_group_id'', var
        ''acl_group_ingress''), (''acl_table_id'', var ''acl_ingress_ipv6_table_id'')]),
      assign ''ipv4_acl_ingress_entry_id'' (api_create ''acl_entry'' [(''table_id'', var ''acl_ingress_ipv4_table_id''),
        (''priority'', num 9999), (''field_src_ip'', var ''src_ip_t_ipv4''), (''action_packet_action'', var ''packet_action'')]),
      assign ''ipv6_acl_ingress_entry_id'' (api_create ''acl_entry'' [(''table_id'', var ''acl_ingress_ipv6_table_id''),
        (''priority'', num 9998), (''field_src_ipv6'', var ''src_ip_t_ipv6''), (''action_packet_action'', var
        ''packet_action'')]),
      assign ''mirror_acl_ingress_entry_id'' (api_create ''acl_entry'' [(''table_id'', var ''acl_ingress_ipv4_table_id''),
        (''priority'', num 9997), (''field_src_ip'', var ''src_ip_t_mirror''), (''action_packet_action'', var
        ''packet_action'')]),
      assign ''acl_counter_ingress_ipv4'' (api_create ''acl_counter'' [(''table_id'', var ''acl_ingress_ipv4_table_id'')]),
      assign ''action_counter_ingress_ipv4'' (struct ''sai_thrift_acl_action_data_t'' [(''parameter'', struct
        ''sai_thrift_acl_action_parameter_t'' [(''oid'', var ''acl_counter_ingress_ipv4'')]), (''enable'', bool True)]),
      run (api_set ''acl_entry'' (var ''ipv4_acl_ingress_entry_id'') [(''action_counter'', var
        ''action_counter_ingress_ipv4'')]),
      assign ''acl_counter_ingress_ipv6'' (api_create ''acl_counter'' [(''table_id'', var ''acl_ingress_ipv6_table_id'')]),
      assign ''action_counter_ingress_ipv6'' (struct ''sai_thrift_acl_action_data_t'' [(''parameter'', struct
        ''sai_thrift_acl_action_parameter_t'' [(''oid'', var ''acl_counter_ingress_ipv6'')]), (''enable'', bool True)]),
      run (api_set ''acl_entry'' (var ''ipv6_acl_ingress_entry_id'') [(''action_counter'', var
        ''action_counter_ingress_ipv6'')]),
      assign ''acl_counter_ingress_mirror'' (api_create ''acl_counter'' [(''table_id'', var ''acl_ingress_ipv4_table_id'')]),
      assign ''action_counter_ingress_mirror'' (struct ''sai_thrift_acl_action_data_t'' [(''parameter'', struct
        ''sai_thrift_acl_action_parameter_t'' [(''oid'', var ''acl_counter_ingress_mirror'')]), (''enable'', bool True)]),
      run (api_set ''acl_entry'' (var ''mirror_acl_ingress_entry_id'') [(''action_counter'', var
        ''action_counter_ingress_mirror'')]),
      try_finally [
        assign ''pkt'' (lib ''simple_tcp_packet'' [] [(''eth_dst'', str ROUTER_MAC), (''eth_src'', self ''dmac''), (''ip_src'',
          var ''ipv4_addr_src1''), (''ip_dst'', self ''ipv4_addr''), (''tcp_sport'', num 17185), (''tcp_dport'', num 81),
          (''ip_ttl'', num 64)]),
        assign ''exp_pkt'' (lib ''simple_tcp_packet'' [] [(''eth_dst'', self ''dmac''), (''eth_src'', str ROUTER_MAC),
          (''ip_src'', var ''ipv4_addr_src1''), (''ip_dst'', self ''ipv4_addr''), (''tcp_sport'', num 17185), (''tcp_dport'',
          num 81), (''ip_ttl'', num 63)]),
        print [str ROUTER_MAC],
        run (lib ''send_packet'' [self ''dev_port11'', var ''pkt''] []),
        print [self ''dmac'', str ROUTER_MAC],
        run (lib ''verify_packets'' [var ''exp_pkt'', list_of [self ''dev_port10'']] []),
        assign ''packets'' (api_get ''acl_counter'' (var ''acl_counter_ingress_ipv4'') [(''packets'', bool True)]),
        assert_eq (item (var ''packets'') (str ''packets'')) (num 0),
        assign ''packets'' (api_get ''acl_counter'' (var ''acl_counter_ingress_ipv6'') [(''packets'', bool True)]),
        assert_eq (item (var ''packets'') (str ''packets'')) (num 0),
        assign ''packets'' (api_get ''acl_counter'' (var ''acl_counter_ingress_mirror'') [(''packets'', bool True)]),
        assert_eq (item (var ''packets'') (str ''packets'')) (num 0),
        assign ''pktv6'' (lib ''simple_tcpv6_packet'' [] [(''eth_dst'', str ROUTER_MAC), (''eth_src'', self ''dmac''),
          (''ipv6_dst'', self ''ipv6_addr''), (''ipv6_src'', var ''ipv6_addr_src''), (''ipv6_hlim'', num 64)]),
        assign ''exp_pktv6'' (lib ''simple_tcpv6_packet'' [] [(''eth_dst'', self ''dmac''), (''eth_src'', str ROUTER_MAC),
          (''ipv6_dst'', self ''ipv6_addr''), (''ipv6_src'', var ''ipv6_addr_src''), (''ipv6_hlim'', num 63)]),
        print [str ROUTER_MAC],
        run (lib ''send_packet'' [self ''dev_port11'', var ''pktv6''] []),
        print [self ''dmac'', str ROUTER_MAC],
        run (lib ''verify_packets'' [var ''exp_pktv6'', list_of [self ''dev_port10'']] []),
        assign ''packets'' (api_get ''acl_counter'' (var ''acl_counter_ingress_ipv4'') [(''packets'', bool True)]),
        assert_eq (item (var ''packets'') (str ''packets'')) (num 0),
        assign ''packets'' (api_get ''acl_counter'' (var ''acl_counter_ingress_ipv6'') [(''packets'', bool True)]),
        assert_eq (item (var ''packets'') (str ''packets'')) (num 0),
        assign ''packets'' (api_get ''acl_counter'' (var ''acl_counter_ingress_mirror'') [(''packets'', bool True)]),
        assert_eq (item (var ''packets'') (str ''packets'')) (num 0),
        assign ''pkt2'' (lib ''simple_tcp_packet'' [] [(''eth_dst'', str ROUTER_MAC), (''eth_src'', self ''dmac''), (''ip_src'',
          var ''ipv4_addr_src2''), (''ip_dst'', self ''ipv4_addr''), (''tcp_sport'', num 17185), (''tcp_dport'', num 81),
          (''ip_ttl'', num 64)]),
        assign ''exp_pkt2'' (lib ''simple_tcp_packet'' [] [(''eth_dst'', self ''dmac''), (''eth_src'', str ROUTER_MAC),
          (''ip_src'', var ''ipv4_addr_src2''), (''ip_dst'', self ''ipv4_addr''), (''tcp_sport'', num 17185), (''tcp_dport'',
          num 81), (''ip_ttl'', num 63)]),
        print [str ROUTER_MAC],
        run (lib ''send_packet'' [self ''dev_port11'', var ''pkt2''] []),
        print [self ''dmac'', str ROUTER_MAC],
        run (lib ''verify_packets'' [var ''exp_pkt2'', list_of [self ''dev_port10'']] []),
        assign ''packets'' (api_get ''acl_counter'' (var ''acl_counter_ingress_ipv4'') [(''packets'', bool True)]),
        assert_eq (item (var ''packets'') (str ''packets'')) (num 0),
        assign ''packets'' (api_get ''acl_counter'' (var ''acl_counter_ingress_ipv6'') [(''packets'', bool True)]),
        assert_eq (item (var ''packets'') (str ''packets'')) (num 0),
        assign ''packets'' (api_get ''acl_counter'' (var ''acl_counter_ingress_mirror'') [(''packets'', bool True)]),
        assert_eq (item (var ''packets'') (str ''packets'')) (num 0),
        run (api_set ''port'' (self ''port11'') [(''ingress_acl'', var ''acl_group_ingress'')]),
        print [str ROUTER_MAC],
        run (lib ''send_packet'' [self ''dev_port11'', var ''pkt''] []),
        print [self ''dmac'', str ROUTER_MAC],
        run (lib ''verify_no_other_packets'' [] [(''timeout'', num 2)]),
        assign ''packets'' (api_get ''acl_counter'' (var ''acl_counter_ingress_ipv4'') [(''packets'', bool True)]),
        assert_eq (item (var ''packets'') (str ''packets'')) (num 1),
        assign ''packets'' (api_get ''acl_counter'' (var ''acl_counter_ingress_ipv6'') [(''packets'', bool True)]),
        assert_eq (item (var ''packets'') (str ''packets'')) (num 0),
        assign ''packets'' (api_get ''acl_counter'' (var ''acl_counter_ingress_mirror'') [(''packets'', bool True)]),
        assert_eq (item (var ''packets'') (str ''packets'')) (num 0),
        print [str ROUTER_MAC],
        run (lib ''send_packet'' [self ''dev_port11'', var ''pktv6''] []),
        print [self ''dmac'', str ROUTER_MAC],
        run (lib ''verify_no_other_packets'' [] [(''timeout'', num 2)]),
        assign ''packets'' (api_get ''acl_counter'' (var ''acl_counter_ingress_ipv4'') [(''packets'', bool True)]),
        assert_eq (item (var ''packets'') (str ''packets'')) (num 1),
        assign ''packets'' (api_get ''acl_counter'' (var ''acl_counter_ingress_ipv6'') [(''packets'', bool True)]),
        assert_eq (item (var ''packets'') (str ''packets'')) (num 1),
        assign ''packets'' (api_get ''acl_counter'' (var ''acl_counter_ingress_mirror'') [(''packets'', bool True)]),
        assert_eq (item (var ''packets'') (str ''packets'')) (num 0),
        run (api_set ''port'' (self ''port11'') [(''ingress_acl'', as_int (num SAI_NULL_OBJECT_ID))]),
        print [str ROUTER_MAC],
        run (lib ''send_packet'' [self ''dev_port11'', var ''pkt''] []),
        print [self ''dmac'', str ROUTER_MAC],
        run (lib ''verify_packets'' [var ''exp_pkt'', list_of [self ''dev_port10'']] []),
        print [str ROUTER_MAC],
        run (lib ''send_packet'' [self ''dev_port11'', var ''pktv6''] []),
        print [self ''dmac'', str ROUTER_MAC],
        run (lib ''verify_packets'' [var ''exp_pktv6'', list_of [self ''dev_port10'']] []),
        print [str ROUTER_MAC],
        run (lib ''send_packet'' [self ''dev_port11'', var ''pkt2''] []),
        print [self ''dmac'', str ROUTER_MAC],
        run (lib ''verify_packets'' [var ''exp_pkt2'', list_of [self ''dev_port10'']] []),
        assign ''packets'' (api_get ''acl_counter'' (var ''acl_counter_ingress_ipv4'') [(''packets'', bool True)]),
        assert_eq (item (var ''packets'') (str ''packets'')) (num 1),
        assign ''packets'' (api_get ''acl_counter'' (var ''acl_counter_ingress_ipv6'') [(''packets'', bool True)]),
        assert_eq (item (var ''packets'') (str ''packets'')) (num 1),
        assign ''packets'' (api_get ''acl_counter'' (var ''acl_counter_ingress_mirror'') [(''packets'', bool True)]),
        assert_eq (item (var ''packets'') (str ''packets'')) (num 0),
        assign ''action_counter_ingress_ipv4'' (struct ''sai_thrift_acl_action_data_t'' [(''parameter'', struct
          ''sai_thrift_acl_action_parameter_t'' [(''oid'', num 0)]), (''enable'', bool True)]),
        run (api_set ''acl_entry'' (var ''ipv4_acl_ingress_entry_id'') [(''action_counter'', var
          ''action_counter_ingress_ipv4'')]),
        run (api_set ''acl_counter'' (var ''acl_counter_ingress_ipv4'') [(''packets'', none)]),
        assign ''packets'' (api_get ''acl_counter'' (var ''acl_counter_ingress_ipv4'') [(''packets'', bool True)]),
        assert_eq (item (var ''packets'') (str ''packets'')) (num 0),
        run (api_remove ''acl_counter'' (var ''acl_counter_ingress_ipv4'')),
        assign ''action_counter_ingress_ipv6'' (struct ''sai_thrift_acl_action_data_t'' [(''parameter'', struct
          ''sai_thrift_acl_action_parameter_t'' [(''oid'', num 0)]), (''enable'', bool True)]),
        run (api_set ''acl_entry'' (var ''ipv6_acl_ingress_entry_id'') [(''action_counter'', var
          ''action_counter_ingress_ipv6'')]),
        run (api_set ''acl_counter'' (var ''acl_counter_ingress_ipv6'') [(''packets'', none)]),
        assign ''packets'' (api_get ''acl_counter'' (var ''acl_counter_ingress_ipv6'') [(''packets'', bool True)]),
        assert_eq (item (var ''packets'') (str ''packets'')) (num 0),
        run (api_remove ''acl_counter'' (var ''acl_counter_ingress_ipv6'')),
        assign ''action_counter_ingress_mirror'' (struct ''sai_thrift_acl_action_data_t'' [(''parameter'', struct
          ''sai_thrift_acl_action_parameter_t'' [(''oid'', num 0)]), (''enable'', bool True)]),
        run (api_set ''acl_entry'' (var ''mirror_acl_ingress_entry_id'') [(''action_counter'', var
          ''action_counter_ingress_mirror'')]),
        run (api_set ''acl_counter'' (var ''acl_counter_ingress_mirror'') [(''packets'', none)]),
        assign ''packets'' (api_get ''acl_counter'' (var ''acl_counter_ingress_mirror'') [(''packets'', bool True)]),
        assert_eq (item (var ''packets'') (str ''packets'')) (num 0),
        run (api_remove ''acl_counter'' (var ''acl_counter_ingress_mirror'')),
        run (api_remove ''acl_table_group_member'' (var ''acl_group_ingress_ipv4_member_id'')),
        run (api_remove ''acl_table_group_member'' (var ''acl_group_ingress_ipv6_member_id'')),
        run (api_remove ''acl_table_group'' (var ''acl_group_ingress'')),
        run (api_remove ''acl_entry'' (var ''ipv4_acl_ingress_entry_id'')),
        run (api_remove ''acl_entry'' (var ''ipv6_acl_ingress_entry_id'')),
        run (api_remove ''acl_entry'' (var ''mirror_acl_ingress_entry_id'')),
        run (api_remove ''acl_table'' (var ''acl_ingress_ipv4_table_id'')),
        run (api_remove ''acl_table'' (var ''acl_ingress_ipv6_table_id'')),
        assign ''acl_group_egress'' (api_create ''acl_table_group'' [(''acl_stage'', var ''group_stage_egress''),
          (''acl_bind_point_type_list'', var ''group_bind_point_type_list''), (''type'', var ''group_type'')]),
        assign ''acl_egress_ipv4_table_id'' (api_create ''acl_table'' [(''acl_stage'', var ''table_stage_egress''),
          (''acl_bind_point_type_list'', var ''table_bind_point_type_list''), (''field_src_ip'', bool True)]),
        assign ''acl_egress_ipv6_table_id'' (api_create ''acl_table'' [(''acl_stage'', var ''table_stage_egress''),
          (''acl_bind_point_type_list'', var ''table_bind_point_type_list''), (''field_src_ipv6'', bool True)]),
        assign ''acl_group_egress_ipv4_member_id'' (api_create ''acl_table_group_member'' [(''acl_table_group_id'', var
          ''acl_group_egress''), (''acl_table_id'', var ''acl_egress_ipv4_table_id'')]),
        assign ''acl_group_egress_ipv6_member_id'' (api_create ''acl_table_group_member'' [(''acl_table_group_id'', var
          ''acl_group_egress''), (''acl_table_id'', var ''acl_egress_ipv6_table_id'')]),
        assign ''ipv4_acl_egress_entry_id'' (api_create ''acl_entry'' [(''table_id'', var ''acl_egress_ipv4_table_id''),
          (''priority'', num 9999), (''field_src_ip'', var ''src_ip_t_ipv4''), (''action_packet_action'', var
          ''packet_action'')]),
        assign ''ipv6_acl_egress_entry_id'' (api_create ''acl_entry'' [(''table_id'', var ''acl_egress_ipv6_table_id''),
          (''priority'', num 9998), (''field_src_ipv6'', var ''src_ip_t_ipv6''), (''action_packet_action'', var
          ''packet_action'')]),
        assign ''mirror_acl_egress_entry_id'' (api_create ''acl_entry'' [(''table_id'', var ''acl_egress_ipv4_table_id''),
          (''priority'', num 9997), (''field_src_ip'', var ''src_ip_t_mirror''), (''action_packet_action'', var
          ''packet_action'')]),
        assign ''acl_counter_egress_ipv4'' (api_create ''acl_counter'' [(''table_id'', var ''acl_egress_ipv4_table_id'')]),
        assign ''action_counter_egress_ipv4'' (struct ''sai_thrift_acl_action_data_t'' [(''parameter'', struct
          ''sai_thrift_acl_action_parameter_t'' [(''oid'', var ''acl_counter_egress_ipv4'')]), (''enable'', bool True)]),
        run (api_set ''acl_entry'' (var ''ipv4_acl_egress_entry_id'') [(''action_counter'', var
          ''action_counter_egress_ipv4'')]),
        assign ''acl_counter_egress_ipv6'' (api_create ''acl_counter'' [(''table_id'', var ''acl_egress_ipv6_table_id'')]),
        assign ''action_counter_egress_ipv6'' (struct ''sai_thrift_acl_action_data_t'' [(''parameter'', struct
          ''sai_thrift_acl_action_parameter_t'' [(''oid'', var ''acl_counter_egress_ipv6'')]), (''enable'', bool True)]),
        run (api_set ''acl_entry'' (var ''ipv6_acl_egress_entry_id'') [(''action_counter'', var
          ''action_counter_egress_ipv6'')]),
        assign ''acl_counter_egress_mirror'' (api_create ''acl_counter'' [(''table_id'', var ''acl_egress_ipv4_table_id'')]),
        assign ''action_counter_egress_mirror'' (struct ''sai_thrift_acl_action_data_t'' [(''parameter'', struct
          ''sai_thrift_acl_action_parameter_t'' [(''oid'', var ''acl_counter_egress_mirror'')]), (''enable'', bool True)]),
        run (api_set ''acl_entry'' (var ''mirror_acl_egress_entry_id'') [(''action_counter'', var
          ''action_counter_egress_mirror'')]),
        print [str ROUTER_MAC],
        run (lib ''send_packet'' [self ''dev_port11'', var ''pkt''] []),
        print [self ''dmac'', str ROUTER_MAC],
        run (lib ''verify_packets'' [var ''exp_pkt'', list_of [self ''dev_port10'']] []),
        print [str ROUTER_MAC],
        run (lib ''send_packet'' [self ''dev_port11'', var ''pktv6''] []),
        print [self ''dmac'', str ROUTER_MAC],
        run (lib ''verify_packets'' [var ''exp_pktv6'', list_of [self ''dev_port10'']] []),
        print [str ROUTER_MAC],
        run (lib ''send_packet'' [self ''dev_port11'', var ''pkt2''] []),
        print [self ''dmac'', str ROUTER_MAC],
        run (lib ''verify_packets'' [var ''exp_pkt2'', list_of [self ''dev_port10'']] []),
        assign ''packets'' (api_get ''acl_counter'' (var ''acl_counter_egress_ipv4'') [(''packets'', bool True)]),
        assert_eq (item (var ''packets'') (str ''packets'')) (num 0),
        assign ''packets'' (api_get ''acl_counter'' (var ''acl_counter_egress_ipv6'') [(''packets'', bool True)]),
        assert_eq (item (var ''packets'') (str ''packets'')) (num 0),
        assign ''packets'' (api_get ''acl_counter'' (var ''acl_counter_egress_mirror'') [(''packets'', bool True)]),
        assert_eq (item (var ''packets'') (str ''packets'')) (num 0),
        run (api_set ''port'' (self ''port10'') [(''egress_acl'', var ''acl_group_egress'')]),
        print [str ROUTER_MAC],
        run (lib ''send_packet'' [self ''dev_port11'', var ''pkt''] []),
        print [self ''dmac'', str ROUTER_MAC],
        run (lib ''verify_no_other_packets'' [] [(''timeout'', num 2)]),
        assign ''packets'' (api_get ''acl_counter'' (var ''acl_counter_egress_ipv4'') [(''packets'', bool True)]),
        assert_eq (item (var ''packets'') (str ''packets'')) (num 1),
        assign ''packets'' (api_get ''acl_counter'' (var ''acl_counter_egress_ipv6'') [(''packets'', bool True)]),
        assert_eq (item (var ''packets'') (str ''packets'')) (num 0),
        assign ''packets'' (api_get ''acl_counter'' (var ''acl_counter_egress_mirror'') [(''packets'', bool True)]),
        assert_eq (item (var ''packets'') (str ''packets'')) (num 0),
        print [str ROUTER_MAC],
        run (lib ''send_packet'' [self ''dev_port11'', var ''pktv6''] []),
        print [self ''dmac'', str ROUTER_MAC],
        run (lib ''verify_no_other_packets'' [] [(''timeout'', num 2)]),
        assign ''packets'' (api_get ''acl_counter'' (var ''acl_counter_egress_ipv4'') [(''packets'', bool True)]),
        assert_eq (item (var ''packets'') (str ''packets'')) (num 1),
        assign ''packets'' (api_get ''acl_counter'' (var ''acl_counter_egress_ipv6'') [(''packets'', bool True)]),
        assert_eq (item (var ''packets'') (str ''packets'')) (num 1),
        assign ''packets'' (api_get ''acl_counter'' (var ''acl_counter_egress_mirror'') [(''packets'', bool True)]),
        assert_eq (item (var ''packets'') (str ''packets'')) (num 0),
        run (api_set ''port'' (self ''port10'') [(''egress_acl'', as_int (num SAI_NULL_OBJECT_ID))]),
        print [str ROUTER_MAC],
        run (lib ''send_packet'' [self ''dev_port11'', var ''pkt''] []),
        print [self ''dmac'', str ROUTER_MAC],
        run (lib ''verify_packets'' [var ''exp_pkt'', list_of [self ''dev_port10'']] []),
        print [str ROUTER_MAC],
        run (lib ''send_packet'' [self ''dev_port11'', var ''pktv6''] []),
        print [self ''dmac'', str ROUTER_MAC],
        run (lib ''verify_packets'' [var ''exp_pktv6'', list_of [self ''dev_port10'']] []),
        print [str ROUTER_MAC],
        run (lib ''send_packet'' [self ''dev_port11'', var ''pkt2''] []),
        print [self ''dmac'', str ROUTER_MAC],
        run (lib ''verify_packets'' [var ''exp_pkt2'', list_of [self ''dev_port10'']] []),
        assign ''packets'' (api_get ''acl_counter'' (var ''acl_counter_egress_ipv4'') [(''packets'', bool True)]),
        assert_eq (item (var ''packets'') (str ''packets'')) (num 1),
        assign ''packets'' (api_get ''acl_counter'' (var ''acl_counter_egress_ipv6'') [(''packets'', bool True)]),
        assert_eq (item (var ''packets'') (str ''packets'')) (num 1),
        assign ''packets'' (api_get ''acl_counter'' (var ''acl_counter_egress_mirror'') [(''packets'', bool True)]),
        assert_eq (item (var ''packets'') (str ''packets'')) (num 0)] [
        assign ''action_counter_egress_ipv4'' (struct ''sai_thrift_acl_action_data_t'' [(''parameter'', struct
          ''sai_thrift_acl_action_parameter_t'' [(''oid'', num 0)]), (''enable'', bool True)]),
        run (api_set ''acl_entry'' (var ''ipv4_acl_egress_entry_id'') [(''action_counter'', var
          ''action_counter_egress_ipv4'')]),
        run (api_set ''acl_counter'' (var ''acl_counter_egress_ipv4'') [(''packets'', none)]),
        assign ''packets'' (api_get ''acl_counter'' (var ''acl_counter_egress_ipv4'') [(''packets'', bool True)]),
        assert_eq (item (var ''packets'') (str ''packets'')) (num 0),
        run (api_remove ''acl_counter'' (var ''acl_counter_egress_ipv4'')),
        assign ''action_counter_egress_ipv6'' (struct ''sai_thrift_acl_action_data_t'' [(''parameter'', struct
          ''sai_thrift_acl_action_parameter_t'' [(''oid'', num 0)]), (''enable'', bool True)]),
        run (api_set ''acl_entry'' (var ''ipv6_acl_egress_entry_id'') [(''action_counter'', var
          ''action_counter_egress_ipv6'')]),
        run (api_set ''acl_counter'' (var ''acl_counter_egress_ipv6'') [(''packets'', none)]),
        assign ''packets'' (api_get ''acl_counter'' (var ''acl_counter_egress_ipv6'') [(''packets'', bool True)]),
        assert_eq (item (var ''packets'') (str ''packets'')) (num 0),
        run (api_remove ''acl_counter'' (var ''acl_counter_egress_ipv6'')),
        assign ''action_counter_egress_mirror'' (struct ''sai_thrift_acl_action_data_t'' [(''parameter'', struct
          ''sai_thrift_acl_action_parameter_t'' [(''oid'', num 0)]), (''enable'', bool True)]),
        run (api_set ''acl_entry'' (var ''mirror_acl_egress_entry_id'') [(''action_counter'', var
          ''action_counter_egress_mirror'')]),
        run (api_set ''acl_counter'' (var ''acl_counter_egress_mirror'') [(''packets'', none)]),
        assign ''packets'' (api_get ''acl_counter'' (var ''acl_counter_egress_mirror'') [(''packets'', bool True)]),
        assert_eq (item (var ''packets'') (str ''packets'')) (num 0),
        run (api_remove ''acl_counter'' (var ''acl_counter_egress_mirror'')),
        run (api_remove ''acl_table_group_member'' (var ''acl_group_egress_ipv4_member_id'')),
        run (api_remove ''acl_table_group_member'' (var ''acl_group_egress_ipv6_member_id'')),
        run (api_remove ''acl_table_group'' (var ''acl_group_egress'')),
        run (api_remove ''acl_entry'' (var ''ipv4_acl_egress_entry_id'')),
        run (api_remove ''acl_entry'' (var ''ipv6_acl_egress_entry_id'')),
        run (api_remove ''acl_entry'' (var ''mirror_acl_egress_entry_id'')),
        run (api_remove ''acl_table'' (var ''acl_egress_ipv4_table_id'')),
        run (api_remove ''acl_table'' (var ''acl_egress_ipv6_table_id''))]]"

definition ACLGroupSeveralMembersTest_tearDown :: "'d stmt" where
  "ACLGroupSeveralMembersTest_tearDown = block [
      run (api_remove ''mirror_session'' (self ''spanid'')),
      run (api_remove ''next_hop'' (self ''nhop1'')),
      run (api_remove ''next_hop'' (self ''nhop2'')),
      run (api_remove ''neighbor_entry'' (self ''nbr_entry1'')),
      run (api_remove ''neighbor_entry'' (self ''nbr_entry2'')),
      super_tearDown]"

definition MultAclTableGroupBindTest_setUp :: "'d stmt" where
  "MultAclTableGroupBindTest_setUp = block [
      super_setUp,
      assign ''rif_id'' (self ''port13_rif''),
      assign ''ip_addr_subnet'' (str ''172.16.10.0/24''),
      set_self ''ip_addr'' (str ''172.16.10.1''),
      set_self ''dmac'' (str ''00:11:22:33:44:55''),
      print [self ''ip_addr'', var ''rif_id'', self ''dmac''],
      set_self ''nbr_entry'' (struct ''sai_thrift_neighbor_entry_t'' [(''rif_id'', var ''rif_id''), (''ip_address'', ip_address
        (self ''ip_addr''))]),
      run (api_create_entry ''neighbor_entry'' (self ''nbr_entry'') [(''dst_mac_address'', self ''dmac'')]),
      print [self ''ip_addr'', var ''rif_id''],
      set_self ''nhop'' (api_create ''next_hop'' [(''ip'', ip_address (self ''ip_addr'')), (''router_interface_id'', var
        ''rif_id''), (''type'', num SAI_NEXT_HOP_TYPE_IP)]),
      print [var ''ip_addr_subnet'', var ''rif_id''],
      set_self ''route_entry'' (struct ''sai_thrift_route_entry_t'' [(''vr_id'', self ''default_vrf''), (''destination'',
        ip_prefix (var ''ip_addr_subnet''))]),
      run (api_create_entry ''route_entry'' (self ''route_entry'') [(''next_hop_id'', var ''rif_id'')]),
      assign ''mirror_type'' (num SAI_MIRROR_SESSION_TYPE_LOCAL),
      set_self ''span_session'' (api_create ''mirror_session'' [(''monitor_port'', self ''port10''), (''type'', var
        ''mirror_type''), (''vlan_header_valid'', bool False)]),
      print [self ''span_session'']]"

definition MultAclTableGroupBindTest_runTest :: "'d stmt" where
  "MultAclTableGroupBindTest_runTest = block [
      assign ''mac_src'' (str ''00:22:22:22:22:22''),
      assign ''ip_mask'' (str ''255.255.255.0''),
      assign ''ipv4_addr'' (str ''192.168.0.1''),
      assign ''pkt'' (lib ''simple_tcp_packet'' [] [(''eth_dst'', str ROUTER_MAC), (''eth_src'', var ''mac_src''), (''ip_dst'',
        self ''ip_addr''), (''ip_src'', var ''ipv4_addr''), (''ip_id'', num 105), (''ip_ttl'', num 64)]),
      assign ''exp_pkt'' (lib ''simple_tcp_packet'' [] [(''eth_dst'', self ''dmac''), (''eth_src'', str ROUTER_MAC),
        (''ip_dst'', self ''ip_addr''), (''ip_src'', var ''ipv4_addr''), (''ip_id'', num 105), (''ip_ttl'', num 63)]),
      print [str ROUTER_MAC],
      run (lib ''send_packet'' [self ''dev_port10'', var ''pkt''] []),
      print [str ROUTER_MAC],
      run (lib ''verify_packet'' [var ''exp_pkt'', self ''dev_port13''] []),
      print [str ROUTER_MAC],
      run (lib ''send_packet'' [self ''dev_port11'', var ''pkt''] []),
      print [str ROUTER_MAC],
      run (lib ''verify_packet'' [var ''exp_pkt'', self ''dev_port13''] []),
      print [str ROUTER_MAC],
      run (lib ''send_packet'' [self ''dev_port12'', var ''pkt''] []),
      print [str ROUTER_MAC],
      run (lib ''verify_packet'' [var ''exp_pkt'', self ''dev_port13''] []),
      assign ''group_bind_point_list'' (list_of [num SAI_ACL_BIND_POINT_TYPE_PORT]),
      assign ''group_type'' (num SAI_ACL_TABLE_GROUP_TYPE_PARALLEL),
      assign ''group_stage_ingress'' (num SAI_ACL_STAGE_INGRESS),
      assign ''group_stage_egress'' (num SAI_ACL_STAGE_EGRESS),
      assign ''table_stage_ingress'' (num SAI_ACL_STAGE_INGRESS),
      assign ''table_stage_egress'' (num SAI_ACL_STAGE_EGRESS),
      assign ''table_bind_point_list'' (list_of [num SAI_ACL_BIND_POINT_TYPE_PORT]),
      assign ''group_bind_point_type_list'' (struct ''sai_thrift_s32_list_t'' [(''count'', length_of (var
        ''group_bind_point_list'')), (''int32list'', var ''group_bind_point_list'')]),
      assign ''table_bind_point_type_list'' (struct ''sai_thrift_s32_list_t'' [(''count'', length_of (var
        ''table_bind_point_list'')), (''int32list'', var ''table_bind_point_list'')]),
      assign ''packet_action'' (struct ''sai_thrift_acl_action_data_t'' [(''parameter'', struct
        ''sai_thrift_acl_action_parameter_t'' [(''s32'', num SAI_PACKET_ACTION_DROP)])]),
      assign ''src_ip_t_ipv4'' (struct ''sai_thrift_acl_field_data_t'' [(''data'', struct ''sai_thrift_acl_field_data_data_t''
        [(''ip4'', var ''ipv4_addr'')]), (''mask'', struct ''sai_thrift_acl_field_data_mask_t'' [(''ip4'', var ''ip_mask'')])]),
      assign ''acl_ingress_ip_table_id'' (api_create ''acl_table'' [(''acl_stage'', var ''table_stage_ingress''),
        (''acl_bind_point_type_list'', var ''table_bind_point_type_list''), (''field_src_ip'', bool True)]),
      assign ''ip_src'' (str ''192.168.0.1''),
      assign ''ip_src_mask'' (str ''255.255.255.0''),
      assign ''ip_dst'' (str ''172.16.10.1''),
      assign ''ip_dst_mask'' (str ''255.255.255.0''),
      assign ''ip_proto'' (num 6),
      assign ''src_ip_t_mirror'' (struct ''sai_thrift_acl_field_data_t'' [(''data'', struct ''sai_thrift_acl_field_data_data_t''
        [(''ip4'', var ''ip_src'')]), (''mask'', struct ''sai_thrift_acl_field_data_mask_t'' [(''ip4'', var ''ip_src_mask'')])]),
      assign ''dst_ip_t_mirror'' (struct ''sai_thrift_acl_field_data_t'' [(''data'', struct ''sai_thrift_acl_field_data_data_t''
        [(''ip4'', var ''ip_dst'')]), (''mask'', struct ''sai_thrift_acl_field_data_mask_t'' [(''ip4'', var ''ip_dst_mask'')])]),
      assign ''acl_ingress_mirror_table_id'' (api_create ''acl_table'' [(''acl_stage'', var ''table_stage_ingress''),
        (''acl_bind_point_type_list'', var ''table_bind_point_type_list''), (''field_src_ip'', bool True), (''field_dst_ip'',
        bool True), (''field_ip_protocol'', var ''ip_proto'')]),
      assign ''group_member_priority'' (num 1),
      assign ''acl_group_ingress_list'' (list_of []),
      assign ''acl_group_member_ingress_list'' (list_of []),
      assign ''in_ports'' (list_of [self ''port10'', self ''port11'', self ''port12'']),
      for_in [''port''] (var ''in_ports'') [
        print [var ''port''],
        assign ''acl_table_group_ingress'' (api_create ''acl_table_group'' [(''acl_stage'', var ''group_stage_ingress''),
          (''acl_bind_point_type_list'', var ''group_bind_point_type_list''), (''type'', var ''group_type'')]),
        assign ''acl_group_ingress_ip_member_id'' (api_create ''acl_table_group_member'' [(''acl_table_group_id'', var
          ''acl_table_group_ingress''), (''acl_table_id'', var ''acl_ingress_ip_table_id''), (''priority'', var
          ''group_member_priority'')]),
        assign ''acl_group_ingress_mirror_member_id'' (api_create ''acl_table_group_member'' [(''acl_table_group_id'', var
          ''acl_table_group_ingress''), (''acl_table_id'', var ''acl_ingress_mirror_table_id''), (''priority'', var
          ''group_member_priority'')]),
        assign ''acl_group_ingress_list'' (appended (var ''acl_group_ingress_list'') (var ''acl_table_group_ingress'')),
        assign ''acl_group_member_ingress_list'' (appended (var ''acl_group_member_ingress_list'') (var
          ''acl_group_ingress_ip_member_id'')),
        assign ''acl_group_member_ingress_list'' (appended (var ''acl_group_member_ingress_list'') (var
          ''acl_group_ingress_mirror_member_id''))],
      for_in [''i'', ''ports''] (enumerated (var ''in_ports'')) [
        print [item (var ''acl_group_ingress_list'') (var ''i''), var ''ports''],
        run (api_set ''port'' (var ''ports'') [(''ingress_acl'', item (var ''acl_group_ingress_list'') (var ''i''))])],
      assign ''acl_ingress_ip_entry_id'' (api_create ''acl_entry'' [(''table_id'', var ''acl_ingress_ip_table_id''),
        (''priority'', num 1), (''field_src_ip'', var ''src_ip_t_ipv4''), (''action_packet_action'', var ''packet_action'')]),
      assign ''acl_counter_ingress'' (api_create ''acl_counter'' [(''table_id'', var ''acl_ingress_ip_table_id'')]),
      assign ''action_counter_ingress'' (struct ''sai_thrift_acl_action_data_t'' [(''parameter'', struct
        ''sai_thrift_acl_action_parameter_t'' [(''oid'', var ''acl_counter_ingress'')]), (''enable'', bool True)]),
      run (api_set ''acl_entry'' (var ''acl_ingress_ip_entry_id'') [(''action_counter'', var ''action_counter_ingress'')]),
      assign ''src_l4_port'' (struct ''sai_thrift_acl_field_data_t'' [(''enable'', bool True), (''data'', struct
        ''sai_thrift_acl_field_data_data_t'' [(''u16'', num 4000)]), (''mask'', struct ''sai_thrift_acl_field_data_mask_t''
        [(''u16'', num 32767)])]),
      assign ''dst_l4_port'' (struct ''sai_thrift_acl_field_data_t'' [(''enable'', bool True), (''data'', struct
        ''sai_thrift_acl_field_data_data_t'' [(''u16'', num 5000)]), (''mask'', struct ''sai_thrift_acl_field_data_mask_t''
        [(''u16'', num 32767)])]),
      assign ''mirror_action'' (struct ''sai_thrift_acl_action_data_t'' [(''parameter'', struct
        ''sai_thrift_acl_action_parameter_t'' [(''objlist'', struct ''sai_thrift_object_list_t'' [(''count'', length_of (list_of
        [self ''span_session''])), (''idlist'', list_of [self ''span_session''])])])]),
      assign ''mirror_acl_ingress_entry_id'' (api_create ''acl_entry'' [(''table_id'', var ''acl_ingress_mirror_table_id''),
        (''priority'', num 1), (''field_src_ip'', var ''src_ip_t_mirror''), (''field_dst_ip'', var ''dst_ip_t_mirror''),
        (''field_l4_src_port'', var ''src_l4_port''), (''field_l4_dst_port'', var ''dst_l4_port''), (''action_mirror_ingress'',
        var ''mirror_action'')]),
      assign ''acl_counter_mirror'' (api_create ''acl_counter'' [(''table_id'', var ''acl_ingress_mirror_table_id'')]),
      assign ''action_counter_mirror'' (struct ''sai_thrift_acl_action_data_t'' [(''parameter'', struct
        ''sai_thrift_acl_action_parameter_t'' [(''oid'', var ''acl_counter_mirror'')]), (''enable'', bool True)]),
      run (api_set ''acl_entry'' (var ''mirror_acl_ingress_entry_id'') [(''action_counter'', var ''action_counter_mirror'')]),
      try_finally [
        print [str ROUTER_MAC],
        sleep_for (num 5),
        run (lib ''send_packet'' [self ''dev_port10'', var ''pkt''] []),
        print [str ROUTER_MAC],
        run (lib ''verify_no_other_packets'' [] [(''timeout'', num 1)]),
        assign ''packets'' (api_get ''acl_counter'' (var ''acl_counter_ingress'') [(''packets'', bool True)]),
        assert_eq (item (var ''packets'') (str ''packets'')) (num 1),
        assign ''packets'' (api_get ''acl_counter'' (var ''acl_counter_mirror'') [(''packets'', bool True)]),
        assert_eq (item (var ''packets'') (str ''packets'')) (num 0),
        print [str ROUTER_MAC],
        run (lib ''send_packet'' [self ''dev_port11'', var ''pkt''] []),
        print [str ROUTER_MAC],
        run (lib ''verify_no_other_packets'' [] [(''timeout'', num 1)]),
        assign ''packets'' (api_get ''acl_counter'' (var ''acl_counter_ingress'') [(''packets'', bool True)]),
        assert_eq (item (var ''packets'') (str ''packets'')) (num 2),
        assign ''packets'' (api_get ''acl_counter'' (var ''acl_counter_mirror'') [(''packets'', bool True)]),
        assert_eq (item (var ''packets'') (str ''packets'')) (num 0),
        print [str ROUTER_MAC],
        run (lib ''send_packet'' [self ''dev_port12'', var ''pkt''] []),
        print [str ROUTER_MAC],
        run (lib ''verify_no_other_packets'' [] [(''timeout'', num 1)]),
        assign ''packets'' (api_get ''acl_counter'' (var ''acl_counter_ingress'') [(''packets'', bool True)]),
        assert_eq (item (var ''packets'') (str ''packets'')) (num 3),
        assign ''packets'' (api_get ''acl_counter'' (var ''acl_counter_mirror'') [(''packets'', bool True)]),
        assert_eq (item (var ''packets'') (str ''packets'')) (num 0),
        sleep_for (num 5),
        assign ''pkt'' (lib ''simple_tcp_packet'' [] [(''eth_dst'', str ROUTER_MAC), (''eth_src'', var ''mac_src''),
          (''ip_src'', var ''ipv4_addr''), (''ip_dst'', self ''ip_addr''), (''ip_id'', num 105), (''ip_ttl'', num 64),
          (''tcp_sport'', num 4000), (''tcp_dport'', num 5000)]),
        run (lib ''send_packet'' [self ''dev_port12'', var ''pkt''] []),
        run (lib ''verify_packets'' [var ''pkt''] [(''ports'', list_of [self ''dev_port10''])]),
        assign ''packets'' (api_get ''acl_counter'' (var ''acl_counter_ingress'') [(''packets'', bool True)]),
        assert_eq (item (var ''packets'') (str ''packets'')) (num 4),
        assign ''packets'' (api_get ''acl_counter'' (var ''acl_counter_mirror'') [(''packets'', bool True)]),
        assert_eq (item (var ''packets'') (str ''packets'')) (num 1),
        assign ''action_counter_ingress'' (struct ''sai_thrift_acl_action_data_t'' [(''parameter'', struct
          ''sai_thrift_acl_action_parameter_t'' [(''oid'', num 0)]), (''enable'', bool True)]),
        run (api_set ''acl_entry'' (var ''acl_ingress_ip_entry_id'') [(''action_counter'', var ''action_counter_ingress'')]),
        run (api_set ''acl_counter'' (var ''acl_counter_ingress'') [(''packets'', none)]),
        assign ''packets'' (api_get ''acl_counter'' (var ''acl_counter_ingress'') [(''packets'', bool True)]),
        assert_eq (item (var ''packets'') (str ''packets'')) (num 0),
        run (api_remove ''acl_counter'' (var ''acl_counter_ingress'')),
        assign ''action_counter_mirror'' (struct ''sai_thrift_acl_action_data_t'' [(''parameter'', struct
          ''sai_thrift_acl_action_parameter_t'' [(''oid'', num 0)]), (''enable'', bool True)]),
        run (api_set ''acl_entry'' (var ''mirror_acl_ingress_entry_id'') [(''action_counter'', var ''action_counter_mirror'')]),
        run (api_set ''acl_counter'' (var ''acl_counter_mirror'') [(''packets'', none)]),
        assign ''packets'' (api_get ''acl_counter'' (var ''acl_counter_mirror'') [(''packets'', bool True)]),
        assert_eq (item (var ''packets'') (str ''packets'')) (num 0),
        run (api_remove ''acl_counter'' (var ''acl_counter_mirror'')),
        for_in [''mbr''] (var ''acl_group_member_ingress_list'') [
          run (api_remove ''acl_table_group_member'' (var ''mbr''))],
        for_in [''i'', ''ports''] (enumerated (var ''in_ports'')) [
          run (api_set ''port'' (var ''ports'') [(''ingress_acl'', as_int (num SAI_NULL_OBJECT_ID))])],
        for_in [''grp''] (var ''acl_group_ingress_list'') [
          run (api_remove ''acl_table_group'' (var ''grp''))],
        run (api_remove ''acl_entry'' (var ''acl_ingress_ip_entry_id'')),
        run (api_remove ''acl_table'' (var ''acl_ingress_ip_table_id'')),
        run (api_remove ''acl_entry'' (var ''mirror_acl_ingress_entry_id'')),
        run (api_remove ''acl_table'' (var ''acl_ingress_mirror_table_id'')),
        assign ''acl_egress_ip_table_id'' (api_create ''acl_table'' [(''acl_stage'', var ''table_stage_egress''),
          (''acl_bind_point_type_list'', var ''table_bind_point_type_list''), (''field_src_ip'', bool True)]),
        assign ''acl_table_group_egress'' (api_create ''acl_table_group'' [(''acl_stage'', var ''group_stage_egress''),
          (''acl_bind_point_type_list'', var ''group_bind_point_type_list''), (''type'', var ''group_type'')]),
        assign ''acl_group_egress_ip_member_id'' (api_create ''acl_table_group_member'' [(''acl_table_group_id'', var
          ''acl_table_group_egress''), (''acl_table_id'', var ''acl_egress_ip_table_id''), (''priority'', var
          ''group_member_priority'')]),
        run (api_set ''port'' (self ''port13'') [(''egress_acl'', var ''acl_table_group_egress'')]),
        assign ''acl_egress_ip_entry_id'' (api_create ''acl_entry'' [(''table_id'', var ''acl_egress_ip_table_id''),
          (''priority'', num 1), (''field_src_ip'', var ''src_ip_t_ipv4''), (''action_packet_action'', var ''packet_action'')]),
        assign ''acl_counter_egress'' (api_create ''acl_counter'' [(''table_id'', var ''acl_egress_ip_table_id'')]),
        assign ''action_counter_egress'' (struct ''sai_thrift_acl_action_data_t'' [(''parameter'', struct
          ''sai_thrift_acl_action_parameter_t'' [(''oid'', var ''acl_counter_ingress'')]), (''enable'', bool True)]),
        run (api_set ''acl_entry'' (var ''acl_egress_ip_entry_id'') [(''action_counter'', var ''action_counter_egress'')]),
        assign ''pkt'' (lib ''simple_tcp_packet'' [] [(''eth_dst'', str ROUTER_MAC), (''eth_src'', str ''00:22:22:22:22:22''),
          (''ip_dst'', str ''172.16.10.1''), (''ip_src'', str ''192.168.0.1''), (''ip_id'', num 105), (''ip_ttl'', num 64)]),
        print [str ROUTER_MAC],
        sleep_for (num 5),
        run (lib ''send_packet'' [self ''dev_port10'', var ''pkt''] []),
        print [str ROUTER_MAC],
        run (lib ''verify_no_other_packets'' [] [(''timeout'', num 1)]),
        assign ''packets'' (api_get ''acl_counter'' (var ''acl_counter_egress'') [(''packets'', bool True)]),
        assert_eq (item (var ''packets'') (str ''packets'')) (num 1),
        print [str ROUTER_MAC],
        run (lib ''send_packet'' [self ''dev_port11'', var ''pkt''] []),
        print [str ROUTER_MAC],
        run (lib ''verify_no_other_packets'' [] [(''timeout'', num 1)]),
        assign ''packets'' (api_get ''acl_counter'' (var ''acl_counter_egress'') [(''packets'', bool True)]),
        assert_eq (item (var ''packets'') (str ''packets'')) (num 2),
        print [str ROUTER_MAC],
        run (lib ''send_packet'' [self ''dev_port12'', var ''pkt''] []),
        print [str ROUTER_MAC],
        run (lib ''verify_no_other_packets'' [] [(''timeout'', num 1)]),
        assign ''packets'' (api_get ''acl_counter'' (var ''acl_counter_egress'') [(''packets'', bool True)]),
        assert_eq (item (var ''packets'') (str ''packets'')) (num 3),
        sleep_for (num 5)] [
        assign ''action_counter_egress'' (struct ''sai_thrift_acl_action_data_t'' [(''parameter'', struct
          ''sai_thrift_acl_action_parameter_t'' [(''oid'', num 0)]), (''enable'', bool True)]),
        run (api_set ''acl_entry'' (var ''acl_egress_ip_entry_id'') [(''action_counter'', var ''action_counter_egress'')]),
        run (api_set ''acl_counter'' (var ''acl_counter_egress'') [(''packets'', none)]),
        assign ''packets'' (api_get ''acl_counter'' (var ''acl_counter_egress'') [(''packets'', bool True)]),
        assert_eq (item (var ''packets'') (str ''packets'')) (num 0),
        run (api_remove ''acl_counter'' (var ''acl_counter_egress'')),
        run (api_remove ''acl_table_group_member'' (var ''acl_group_egress_ip_member_id'')),
        run (api_set ''port'' (self ''port13'') [(''egress_acl'', as_int (num SAI_NULL_OBJECT_ID))]),
        run (api_remove ''acl_table_group'' (var ''acl_table_group_egress'')),
        run (api_remove ''acl_entry'' (var ''acl_egress_ip_entry_id'')),
        run (api_remove ''acl_table'' (var ''acl_egress_ip_table_id''))]]"

definition MultAclTableGroupBindTest_tearDown :: "'d stmt" where
  "MultAclTableGroupBindTest_tearDown = block [
      run (api_remove ''mirror_session'' (self ''span_session'')),
      run (api_remove ''route_entry'' (self ''route_entry'')),
      run (api_remove ''next_hop'' (self ''nhop'')),
      run (api_remove ''neighbor_entry'' (self ''nbr_entry'')),
      super_tearDown]"

definition TCPFlagsACLTest_setUp :: "'d stmt" where
  "TCPFlagsACLTest_setUp = block [
      super_setUp,
      run (create_rifs [0, 1]),
      set_self ''acl_table'' none,
      set_self ''acl_entry'' none,
      set_self ''acl_counter'' none,
      set_self ''dmac'' (str ''00:11:22:33:44:55''),
      set_self ''ip_addr1'' (str ''10.10.10.1''),
      set_self ''ip_addr2'' (str ''10.10.10.2''),
      set_self ''src_mac'' (str ''00:22:22:22:22:22''),
      set_self ''ip_addr_src'' (str ''192.168.0.1''),
      set_self ''nhop'' (api_create ''next_hop'' [(''ip'', ip_address (self ''ip_addr2'')), (''router_interface_id'', self
        ''port0_rif''), (''type'', num SAI_NEXT_HOP_TYPE_IP)]),
      set_self ''neighbor_entry'' (struct ''sai_thrift_neighbor_entry_t'' [(''rif_id'', self ''port0_rif''), (''ip_address'',
        ip_address (self ''ip_addr2''))]),
      run (api_create_entry ''neighbor_entry'' (self ''neighbor_entry'') [(''dst_mac_address'', self ''dmac'')]),
      set_self ''route_entry'' (struct ''sai_thrift_route_entry_t'' [(''vr_id'', self ''default_vrf''), (''destination'',
        ip_prefix (str ''10.10.10.0/24''))]),
      run (api_create_entry ''route_entry'' (self ''route_entry'') [(''next_hop_id'', self ''nhop'')])]"

definition TCPFlagsACLTest_runTest :: "'d stmt" where
  "TCPFlagsACLTest_runTest = block [
      assign ''stage'' (num SAI_ACL_STAGE_INGRESS),
      assign ''bind_points'' (list_of [num SAI_ACL_BIND_POINT_TYPE_ROUTER_INTERFACE]),
      assign ''action_types'' (list_of [num SAI_ACL_ACTION_TYPE_PACKET_ACTION]),
      assign ''action_drop'' (num SAI_PACKET_ACTION_DROP),
      assign ''acl_bind_point_type_list'' (struct ''sai_thrift_s32_list_t'' [(''count'', length_of (var ''bind_points'')),
        (''int32list'', var ''bind_points'')]),
      assign ''acl_action_type_list'' (struct ''sai_thrift_s32_list_t'' [(''count'', length_of (var ''action_types'')),
        (''int32list'', var ''action_types'')]),
      set_self ''acl_table'' (api_create ''acl_table'' [(''acl_stage'', var ''stage''), (''acl_bind_point_type_list'', var
        ''acl_bind_point_type_list''), (''acl_action_type_list'', var ''acl_action_type_list''), (''field_dst_ip'', bool True)]),
      assign ''packet_action'' (struct ''sai_thrift_acl_action_data_t'' [(''parameter'', struct
        ''sai_thrift_acl_action_parameter_t'' [(''s32'', var ''action_drop'')])]),
      assign ''tcp_flag'' (struct ''sai_thrift_acl_field_data_t'' [(''data'', struct ''sai_thrift_acl_field_data_data_t''
        [(''u8'', num 23)]), (''mask'', struct ''sai_thrift_acl_field_data_mask_t'' [(''u8'', num 16)])]),
      set_self ''acl_entry'' (api_create ''acl_entry'' [(''table_id'', self ''acl_table''), (''action_packet_action'', var
        ''packet_action''), (''field_tcp_flags'', var ''tcp_flag'')]),
      set_self ''acl_counter'' (api_create ''acl_counter'' [(''table_id'', self ''acl_table'')]),
      assign ''action_counter'' (struct ''sai_thrift_acl_action_data_t'' [(''parameter'', struct
        ''sai_thrift_acl_action_parameter_t'' [(''oid'', self ''acl_counter'')]), (''enable'', bool True)]),
      run (api_set ''acl_entry'' (self ''acl_entry'') [(''action_counter'', var ''action_counter'')]),
      run (api_set ''router_interface'' (self ''port1_rif'') [(''ingress_acl'', self ''acl_table'')]),
      assign ''pkt'' (lib ''simple_tcp_packet'' [] [(''eth_dst'', str ROUTER_MAC), (''eth_src'', self ''src_mac''), (''ip_dst'',
        self ''ip_addr1''), (''ip_src'', self ''ip_addr_src''), (''tcp_flags'', num 2), (''ip_ttl'', num 64)]),
      assign ''exp_pkt'' (lib ''simple_tcp_packet'' [] [(''eth_dst'', self ''dmac''), (''eth_src'', str ROUTER_MAC),
        (''ip_dst'', self ''ip_addr1''), (''ip_src'', self ''ip_addr_src''), (''tcp_flags'', num 2), (''ip_ttl'', num 63)]),
      print [self ''dev_port1''],
      run (lib ''send_packet'' [self ''dev_port1'', var ''pkt''] []),
      run (lib ''verify_packet'' [var ''exp_pkt'', self ''dev_port0''] []),
      assign ''packets'' (api_get ''acl_counter'' (self ''acl_counter'') [(''packets'', bool True)]),
      assert_eq (item (var ''packets'') (str ''packets'')) (num 0),
      assign ''pkt'' (lib ''simple_udp_packet'' [] [(''eth_dst'', str ROUTER_MAC), (''eth_src'', self ''src_mac''), (''ip_dst'',
        self ''ip_addr1''), (''ip_src'', self ''ip_addr_src''), (''pktlen'', num 100), (''ip_ttl'', num 64)]),
      assign ''exp_pkt'' (lib ''simple_udp_packet'' [] [(''eth_dst'', self ''dmac''), (''eth_src'', str ROUTER_MAC),
        (''ip_dst'', self ''ip_addr1''), (''ip_src'', self ''ip_addr_src''), (''pktlen'', num 100), (''ip_ttl'', num 63)]),
      print [self ''dev_port1''],
      run (lib ''send_packet'' [self ''dev_port1'', var ''pkt''] []),
      run (lib ''verify_packet'' [var ''exp_pkt'', self ''dev_port0''] []),
      assign ''packets'' (api_get ''acl_counter'' (self ''acl_counter'') [(''packets'', bool True)]),
      assert_eq (item (var ''packets'') (str ''packets'')) (num 0),
      assign ''pkt'' (lib ''simple_tcp_packet'' [] [(''eth_dst'', str ROUTER_MAC), (''eth_src'', self ''src_mac''), (''ip_dst'',
        self ''ip_addr1''), (''ip_src'', self ''ip_addr_src''), (''ip_id'', num 105), (''tcp_flags'', num 16), (''ip_ttl'', num
        64)]),
      print [self ''dev_port1''],
      run (lib ''send_packet'' [self ''dev_port1'', var ''pkt''] []),
      run (lib ''verify_no_other_packets'' [] [(''timeout'', num 1)]),
      assign ''packets'' (api_get ''acl_counter'' (self ''acl_counter'') [(''packets'', bool True)]),
      assert_eq (item (var ''packets'') (str ''packets'')) (num 1),
      assign ''pkt'' (lib ''simple_udp_packet'' [] [(''eth_dst'', str ROUTER_MAC), (''eth_src'', self ''src_mac''), (''ip_dst'',
        self ''ip_addr1''), (''ip_src'', self ''ip_addr_src''), (''pktlen'', num 100), (''ip_ttl'', num 64)]),
      assign ''exp_pkt'' (lib ''simple_udp_packet'' [] [(''eth_dst'', self ''dmac''), (''eth_src'', str ROUTER_MAC),
        (''ip_dst'', self ''ip_addr1''), (''ip_src'', self ''ip_addr_src''), (''pktlen'', num 100), (''ip_ttl'', num 63)]),
      print [self ''dev_port1''],
      run (lib ''send_packet'' [self ''dev_port1'', var ''pkt''] []),
      run (lib ''verify_packet'' [var ''exp_pkt'', self ''dev_port0''] []),
      assign ''packets'' (api_get ''acl_counter'' (self ''acl_counter'') [(''packets'', bool True)]),
      assert_eq (item (var ''packets'') (str ''packets'')) (num 1)]"

definition TCPFlagsACLTest_tearDown :: "'d stmt" where
  "TCPFlagsACLTest_tearDown = block [
      assign ''action_counter'' (struct ''sai_thrift_acl_action_data_t'' [(''parameter'', struct
        ''sai_thrift_acl_action_parameter_t'' [(''oid'', num 0)]), (''enable'', bool True)]),
      run (api_set ''acl_entry'' (self ''acl_entry'') [(''action_counter'', var ''action_counter'')]),
      run (api_set ''acl_counter'' (self ''acl_counter'') [(''packets'', none)]),
      assign ''packets'' (api_get ''acl_counter'' (self ''acl_counter'') [(''packets'', bool True)]),
      assert_eq (item (var ''packets'') (str ''packets'')) (num 0),
      run (api_remove ''acl_counter'' (self ''acl_counter'')),
      run (api_set ''router_interface'' (self ''port1_rif'') [(''ingress_acl'', num 0)]),
      run (api_remove ''acl_entry'' (self ''acl_entry'')),
      run (api_remove ''acl_table'' (self ''acl_table'')),
      run (api_remove ''route_entry'' (self ''route_entry'')),
      run (api_remove ''next_hop'' (self ''nhop'')),
      run (api_remove ''neighbor_entry'' (self ''neighbor_entry'')),
      run destroy_rifs,
      super_tearDown]"

definition AclTableTypeTest_setUp :: "'d stmt" where
  "AclTableTypeTest_setUp = block [
      super_setUp,
      set_self ''dmac'' (str ''00:11:22:33:44:55''),
      set_self ''src_mac'' (str ''00:22:22:22:22:22''),
      set_self ''ip_addr1'' (str ''10.0.0.1''),
      set_self ''ip_addr2'' (str ''10.10.10.2''),
      set_self ''port24_rif'' (api_create ''router_interface'' [(''type'', num SAI_ROUTER_INTERFACE_TYPE_PORT),
        (''virtual_router_id'', self ''default_vrf''), (''port_id'', self ''port24'')]),
      set_self ''port25_rif'' (api_create ''router_interface'' [(''type'', num SAI_ROUTER_INTERFACE_TYPE_PORT),
        (''virtual_router_id'', self ''default_vrf''), (''port_id'', self ''port25'')]),
      set_self ''nhop1'' (api_create ''next_hop'' [(''ip'', ip_address (self ''ip_addr2'')), (''router_interface_id'', self
        ''port25_rif''), (''type'', num SAI_NEXT_HOP_TYPE_IP)]),
      set_self ''neighbor_entry1'' (struct ''sai_thrift_neighbor_entry_t'' [(''rif_id'', self ''port25_rif''), (''ip_address'',
        ip_address (self ''ip_addr2''))]),
      run (api_create_entry ''neighbor_entry'' (self ''neighbor_entry1'') [(''dst_mac_address'', self ''dmac'')]),
      set_self ''route_entry0'' (struct ''sai_thrift_route_entry_t'' [(''vr_id'', self ''default_vrf''), (''destination'',
        ip_prefix (str ''10.0.0.1/32''))]),
      run (api_create_entry ''route_entry'' (self ''route_entry0'') [(''next_hop_id'', self ''nhop1'')]),
      set_self ''route_entry1'' (struct ''sai_thrift_route_entry_t'' [(''vr_id'', self ''default_vrf''), (''destination'',
        ip_prefix (str ''1234:5678:9abc:def0:4422:1133:5577:99aa/128''))]),
      run (api_create_entry ''route_entry'' (self ''route_entry1'') [(''next_hop_id'', self ''nhop1'')]),
      set_self ''vlan_oid'' (api_create ''vlan'' [(''vlan_id'', num 100)]),
      assign ''mac_action'' (num SAI_PACKET_ACTION_FORWARD),
      set_self ''port26_bp'' (api_create ''bridge_port'' [(''bridge_id'', self ''default_1q_bridge''), (''port_id'', self
        ''port26''), (''type'', num SAI_BRIDGE_PORT_TYPE_PORT), (''admin_state'', bool True)]),
      set_self ''vlan_member1'' (api_create ''vlan_member'' [(''vlan_id'', self ''vlan_oid''), (''bridge_port_id'', self
        ''port26_bp''), (''vlan_tagging_mode'', num SAI_VLAN_TAGGING_MODE_TAGGED)]),
      set_self ''port27_bp'' (api_create ''bridge_port'' [(''bridge_id'', self ''default_1q_bridge''), (''port_id'', self
        ''port27''), (''type'', num SAI_BRIDGE_PORT_TYPE_PORT), (''admin_state'', bool True)]),
      set_self ''vlan_member2'' (api_create ''vlan_member'' [(''vlan_id'', self ''vlan_oid''), (''bridge_port_id'', self
        ''port27_bp''), (''vlan_tagging_mode'', num SAI_VLAN_TAGGING_MODE_TAGGED)]),
      set_self ''fdb_entry1'' (struct ''sai_thrift_fdb_entry_t'' [(''switch_id'', self ''switch_id''), (''mac_address'', self
        ''src_mac''), (''bv_id'', self ''vlan_oid'')]),
      run (api_create_entry ''fdb_entry'' (self ''fdb_entry1'') [(''type'', num SAI_FDB_ENTRY_TYPE_STATIC), (''bridge_port_id'',
        self ''port26_bp''), (''packet_action'', var ''mac_action'')]),
      set_self ''fdb_entry2'' (struct ''sai_thrift_fdb_entry_t'' [(''switch_id'', self ''switch_id''), (''mac_address'', self
        ''dmac''), (''bv_id'', self ''vlan_oid'')]),
      run (api_create_entry ''fdb_entry'' (self ''fdb_entry2'') [(''type'', num SAI_FDB_ENTRY_TYPE_STATIC), (''bridge_port_id'',
        self ''port27_bp''), (''packet_action'', var ''mac_action'')])]"

definition AclTableTypeTest_testIPv4Acl :: "'d stmt" where
  "AclTableTypeTest_testIPv4Acl = block [
      assign ''pkt1'' (lib ''simple_tcp_packet'' [] [(''eth_dst'', str ROUTER_MAC), (''eth_src'', self ''src_mac''),
        (''ip_dst'', self ''ip_addr1''), (''ip_ttl'', num 64)]),
      assign ''exp_pkt1'' (lib ''simple_tcp_packet'' [] [(''eth_dst'', self ''dmac''), (''eth_src'', str ROUTER_MAC),
        (''ip_dst'', self ''ip_addr1''), (''ip_ttl'', num 63)]),
      assign ''pkt2'' (lib ''simple_tcp_packet'' [] [(''eth_dst'', self ''dmac''), (''eth_src'', self ''src_mac''),
        (''dl_vlan_enable'', bool True), (''vlan_vid'', num 100), (''ip_src'', self ''ip_addr2''), (''ip_dst'', self
        ''ip_addr1''), (''ip_id'', num 102), (''ip_ttl'', num 64)]),
      assign ''exp_pkt2'' (lib ''simple_tcp_packet'' [] [(''eth_dst'', self ''dmac''), (''eth_src'', self ''src_mac''),
        (''ip_dst'', self ''ip_addr1''), (''ip_src'', self ''ip_addr2''), (''ip_id'', num 102), (''dl_vlan_enable'', bool True),
        (''vlan_vid'', num 100), (''ip_ttl'', num 64)]),
      try_finally [
        run (lib ''send_packet'' [self ''dev_port24'', var ''pkt1''] []),
        run (lib ''verify_packet'' [var ''exp_pkt1'', self ''dev_port25''] []),
        run (lib ''send_packet'' [self ''dev_port26'', var ''pkt2''] []),
        run (lib ''verify_packet'' [var ''exp_pkt2'', self ''dev_port27''] []),
        assign ''table_stage'' (num SAI_ACL_STAGE_INGRESS),
        assign ''table_bind_points'' (list_of [num SAI_ACL_BIND_POINT_TYPE_PORT, num SAI_ACL_BIND_POINT_TYPE_LAG]),
        assign ''table_bind_point_type_list'' (struct ''sai_thrift_s32_list_t'' [(''count'', length_of (var
          ''table_bind_points'')), (''int32list'', var ''table_bind_points'')]),
        assign ''acl_table'' (api_create ''acl_table'' [(''acl_stage'', var ''table_stage''), (''acl_bind_point_type_list'', var
          ''table_bind_point_type_list''), (''field_src_ip'', bool True), (''field_dst_ip'', bool True), (''field_ip_protocol'',
          bool True), (''field_dscp'', bool True), (''field_l4_src_port'', bool True), (''field_l4_dst_port'', bool True),
          (''field_ttl'', bool True), (''field_tcp_flags'', bool True), (''field_ether_type'', bool True),
          (''field_acl_range_type'', struct ''sai_thrift_s32_list_t'' [(''count'', num 0), (''int32list'', list_of [])]),
          (''field_icmp_code'', bool True), (''field_icmp_type'', bool True), (''field_acl_ip_frag'', bool True),
          (''field_acl_ip_type'', bool True), (''field_outer_vlan_id'', bool True)]),
        assign ''dst_ip_mask'' (str ''255.255.255.255''),
        assign ''dst_ip_t'' (struct ''sai_thrift_acl_field_data_t'' [(''data'', struct ''sai_thrift_acl_field_data_data_t''
          [(''ip4'', self ''ip_addr1'')]), (''mask'', struct ''sai_thrift_acl_field_data_mask_t'' [(''ip4'', var
          ''dst_ip_mask'')])]),
        assign ''packet_action'' (struct ''sai_thrift_acl_action_data_t'' [(''parameter'', struct
          ''sai_thrift_acl_action_parameter_t'' [(''s32'', num SAI_PACKET_ACTION_DROP)])]),
        assign ''acl_entry'' (api_create ''acl_entry'' [(''table_id'', var ''acl_table''), (''priority'', num 10),
          (''field_dst_ip'', var ''dst_ip_t''), (''action_packet_action'', var ''packet_action'')]),
        assign ''acl_counter_ingress'' (api_create ''acl_counter'' [(''table_id'', var ''acl_table'')]),
        assign ''action_counter_ingress'' (struct ''sai_thrift_acl_action_data_t'' [(''parameter'', struct
          ''sai_thrift_acl_action_parameter_t'' [(''oid'', var ''acl_counter_ingress'')]), (''enable'', bool True)]),
        run (api_set ''acl_entry'' (var ''acl_entry'') [(''action_counter'', var ''action_counter_ingress'')]),
        run (api_set ''port'' (self ''port24'') [(''ingress_acl'', var ''acl_table'')]),
        run (api_set ''port'' (self ''port26'') [(''ingress_acl'', var ''acl_table'')]),
        run (lib ''send_packet'' [self ''dev_port24'', var ''pkt1''] []),
        run (lib ''verify_no_other_packets'' [] [(''timeout'', num 2)]),
        assign ''packets'' (api_get ''acl_counter'' (var ''acl_counter_ingress'') [(''packets'', bool True)]),
        assert_eq (item (var ''packets'') (str ''packets'')) (num 1),
        run (lib ''send_packet'' [self ''dev_port26'', var ''pkt2''] []),
        run (lib ''verify_no_other_packets'' [] [(''timeout'', num 2)]),
        assign ''packets'' (api_get ''acl_counter'' (var ''acl_counter_ingress'') [(''packets'', bool True)]),
        assert_eq (item (var ''packets'') (str ''packets'')) (num 2)] [
        assign ''action_counter_ingress'' (struct ''sai_thrift_acl_action_data_t'' [(''parameter'', struct
          ''sai_thrift_acl_action_parameter_t'' [(''oid'', num 0)]), (''enable'', bool True)]),
        run (api_set ''acl_entry'' (var ''acl_entry'') [(''action_counter'', var ''action_counter_ingress'')]),
        run (api_set ''acl_counter'' (var ''acl_counter_ingress'') [(''packets'', none)]),
        assign ''packets'' (api_get ''acl_counter'' (var ''acl_counter_ingress'') [(''packets'', bool True)]),
        assert_eq (item (var ''packets'') (str ''packets'')) (num 0),
        run (api_remove ''acl_counter'' (var ''acl_counter_ingress'')),
        run (api_set ''port'' (self ''port24'') [(''ingress_acl'', num 0)]),
        run (api_set ''port'' (self ''port26'') [(''ingress_acl'', num 0)]),
        run (api_remove ''acl_entry'' (var ''acl_entry'')),
        run (api_remove ''acl_table'' (var ''acl_table''))]]"

definition AclTableTypeTest_testIPv6Acl :: "'d stmt" where
  "AclTableTypeTest_testIPv6Acl = block [
      assign ''pkt1'' (lib ''simple_tcpv6_packet'' [] [(''eth_dst'', str ROUTER_MAC), (''ipv6_dst'', str
        ''1234:5678:9abc:def0:4422:1133:5577:99aa''), (''ipv6_hlim'', num 64)]),
      assign ''exp_pkt1'' (lib ''simple_tcpv6_packet'' [] [(''eth_dst'', self ''dmac''), (''eth_src'', str ROUTER_MAC),
        (''ipv6_dst'', str ''1234:5678:9abc:def0:4422:1133:5577:99aa''), (''ipv6_hlim'', num 63)]),
      assign ''pkt2'' (lib ''simple_tcpv6_packet'' [] [(''eth_dst'', self ''dmac''), (''eth_src'', self ''src_mac''),
        (''dl_vlan_enable'', bool True), (''vlan_vid'', num 100), (''ipv6_dst'', str
        ''1234:5678:9abc:def0:4422:1133:5577:99aa''), (''ipv6_src'', str ''2000::1''), (''ipv6_hlim'', num 64)]),
      assign ''exp_pkt2'' (lib ''simple_tcpv6_packet'' [] [(''eth_dst'', self ''dmac''), (''eth_src'', self ''src_mac''),
        (''dl_vlan_enable'', bool True), (''vlan_vid'', num 100), (''ipv6_dst'', str
        ''1234:5678:9abc:def0:4422:1133:5577:99aa''), (''ipv6_src'', str ''2000::1''), (''ipv6_hlim'', num 64)]),
      try_finally [
        run (lib ''send_packet'' [self ''dev_port24'', var ''pkt1''] []),
        run (lib ''verify_packet'' [var ''exp_pkt1'', self ''dev_port25''] []),
        run (lib ''send_packet'' [self ''dev_port26'', var ''pkt2''] []),
        run (lib ''verify_packet'' [var ''exp_pkt2'', self ''dev_port27''] []),
        assign ''table_stage'' (num SAI_ACL_STAGE_INGRESS),
        assign ''table_bind_points'' (list_of [num SAI_ACL_BIND_POINT_TYPE_PORT, num SAI_ACL_BIND_POINT_TYPE_LAG]),
        assign ''table_bind_point_type_list'' (struct ''sai_thrift_s32_list_t'' [(''count'', length_of (var
          ''table_bind_points'')), (''int32list'', var ''table_bind_points'')]),
        assign ''acl_table'' (api_create ''acl_table'' [(''acl_stage'', var ''table_stage''), (''acl_bind_point_type_list'', var
          ''table_bind_point_type_list''), (''field_src_ipv6'', bool True), (''field_dst_ipv6'', bool True),
          (''field_ip_protocol'', bool True), (''field_ipv6_next_header'', bool True), (''field_dscp'', bool True),
          (''field_l4_src_port'', bool True), (''field_l4_dst_port'', bool True), (''field_ttl'', bool True),
          (''field_tcp_flags'', bool True), (''field_ether_type'', bool True), (''field_ipv6_flow_label'', bool True),
          (''field_acl_range_type'', struct ''sai_thrift_s32_list_t'' [(''count'', num 0), (''int32list'', list_of [])]),
          (''field_icmpv6_code'', bool True), (''field_icmpv6_type'', bool True), (''field_acl_ip_frag'', bool True),
          (''field_acl_ip_type'', bool True), (''field_outer_vlan_id'', bool True)]),
        assign ''dst_ip'' (str ''1234:5678:9abc:def0:4422:1133:5577:99aa''),
        assign ''dst_ip_mask'' (str ''FFFF:FFFF:FFFF:FFFF:FFFF:FFFF:FFFF:FFFF''),
        assign ''dst_ip_t'' (struct ''sai_thrift_acl_field_data_t'' [(''data'', struct ''sai_thrift_acl_field_data_data_t''
          [(''ip6'', var ''dst_ip'')]), (''mask'', struct ''sai_thrift_acl_field_data_mask_t'' [(''ip6'', var
          ''dst_ip_mask'')])]),
        assign ''packet_action'' (struct ''sai_thrift_acl_action_data_t'' [(''parameter'', struct
          ''sai_thrift_acl_action_parameter_t'' [(''s32'', num SAI_PACKET_ACTION_DROP)])]),
        assign ''acl_entry'' (api_create ''acl_entry'' [(''table_id'', var ''acl_table''), (''priority'', num 10),
          (''field_dst_ipv6'', var ''dst_ip_t''), (''action_packet_action'', var ''packet_action'')]),
        assign ''acl_counter_ingress'' (api_create ''acl_counter'' [(''table_id'', var ''acl_table'')]),
        assign ''action_counter_ingress'' (struct ''sai_thrift_acl_action_data_t'' [(''parameter'', struct
          ''sai_thrift_acl_action_parameter_t'' [(''oid'', var ''acl_counter_ingress'')]), (''enable'', bool True)]),
        run (api_set ''acl_entry'' (var ''acl_entry'') [(''action_counter'', var ''action_counter_ingress'')]),
        run (api_set ''port'' (self ''port24'') [(''ingress_acl'', var ''acl_table'')]),
        run (api_set ''port'' (self ''port26'') [(''ingress_acl'', var ''acl_table'')]),
        run (lib ''send_packet'' [self ''dev_port24'', var ''pkt1''] []),
        run (lib ''verify_no_other_packets'' [] [(''timeout'', num 2)]),
        assign ''packets'' (api_get ''acl_counter'' (var ''acl_counter_ingress'') [(''packets'', bool True)]),
        assert_eq (item (var ''packets'') (str ''packets'')) (num 1),
        run (lib ''send_packet'' [self ''dev_port26'', var ''pkt2''] []),
        run (lib ''verify_no_other_packets'' [] [(''timeout'', num 2)]),
        assign ''packets'' (api_get ''acl_counter'' (var ''acl_counter_ingress'') [(''packets'', bool True)]),
        assert_eq (item (var ''packets'') (str ''packets'')) (num 2)] [
        assign ''action_counter_ingress'' (struct ''sai_thrift_acl_action_data_t'' [(''parameter'', struct
          ''sai_thrift_acl_action_parameter_t'' [(''oid'', num 0)]), (''enable'', bool True)]),
        run (api_set ''acl_entry'' (var ''acl_entry'') [(''action_counter'', var ''action_counter_ingress'')]),
        run (api_set ''acl_counter'' (var ''acl_counter_ingress'') [(''packets'', none)]),
        assign ''packets'' (api_get ''acl_counter'' (var ''acl_counter_ingress'') [(''packets'', bool True)]),
        assert_eq (item (var ''packets'') (str ''packets'')) (num 0),
        run (api_remove ''acl_counter'' (var ''acl_counter_ingress'')),
        run (api_set ''port'' (self ''port24'') [(''ingress_acl'', num 0)]),
        run (api_set ''port'' (self ''port26'') [(''ingress_acl'', num 0)]),
        run (api_remove ''acl_entry'' (var ''acl_entry'')),
        run (api_remove ''acl_table'' (var ''acl_table''))]]"

definition AclTableTypeTest_testIPMirrorAcl :: "'d stmt" where
  "AclTableTypeTest_testIPMirrorAcl = block [
      assign ''pkt1'' (lib ''simple_tcpv6_packet'' [] [(''eth_dst'', str ROUTER_MAC), (''ipv6_dst'', str
        ''1234:5678:9abc:def0:4422:1133:5577:99aa''), (''ipv6_hlim'', num 64)]),
      assign ''exp_pkt1'' (lib ''simple_tcpv6_packet'' [] [(''eth_dst'', self ''dmac''), (''eth_src'', str ROUTER_MAC),
        (''ipv6_dst'', str ''1234:5678:9abc:def0:4422:1133:5577:99aa''), (''ipv6_hlim'', num 63)]),
      assign ''pkt2'' (lib ''simple_tcpv6_packet'' [] [(''eth_dst'', self ''dmac''), (''eth_src'', self ''src_mac''),
        (''dl_vlan_enable'', bool True), (''vlan_vid'', num 100), (''ipv6_dst'', str
        ''1234:5678:9abc:def0:4422:1133:5577:99aa''), (''ipv6_src'', str ''2000::1''), (''ipv6_hlim'', num 64)]),
      assign ''exp_pkt2'' (lib ''simple_tcpv6_packet'' [] [(''eth_dst'', self ''dmac''), (''eth_src'', self ''src_mac''),
        (''dl_vlan_enable'', bool True), (''vlan_vid'', num 100), (''ipv6_dst'', str
        ''1234:5678:9abc:def0:4422:1133:5577:99aa''), (''ipv6_src'', str ''2000::1''), (''ipv6_hlim'', num 64)]),
      try_finally [
        run (lib ''send_packet'' [self ''dev_port24'', var ''pkt1''] []),
        run (lib ''verify_packet'' [var ''exp_pkt1'', self ''dev_port25''] []),
        run (lib ''send_packet'' [self ''dev_port26'', var ''pkt2''] []),
        run (lib ''verify_packet'' [var ''exp_pkt2'', self ''dev_port27''] []),
        assign ''mirror_session'' (api_create ''mirror_session'' [(''monitor_port'', self ''port28''), (''type'', num
          SAI_MIRROR_SESSION_TYPE_LOCAL)]),
        assign ''table_stage'' (num SAI_ACL_STAGE_INGRESS),
        assign ''table_bind_points'' (list_of [num SAI_ACL_BIND_POINT_TYPE_PORT, num SAI_ACL_BIND_POINT_TYPE_LAG]),
        assign ''table_bind_point_type_list'' (struct ''sai_thrift_s32_list_t'' [(''count'', length_of (var
          ''table_bind_points'')), (''int32list'', var ''table_bind_points'')]),
        assign ''actions'' (list_of [num SAI_ACL_ACTION_TYPE_MIRROR_INGRESS]),
        assign ''action_type_list'' (struct ''sai_thrift_s32_list_t'' [(''count'', length_of (var ''actions'')), (''int32list'',
          var ''actions'')]),
        assign ''acl_table'' (api_create ''acl_table'' [(''acl_stage'', var ''table_stage''), (''acl_bind_point_type_list'', var
          ''table_bind_point_type_list''), (''acl_action_type_list'', var ''action_type_list''), (''field_src_ipv6'', bool
          True), (''field_dst_ipv6'', bool True), (''field_ip_protocol'', bool True), (''field_ipv6_next_header'', bool True),
          (''field_dscp'', bool True), (''field_l4_src_port'', bool True), (''field_l4_dst_port'', bool True), (''field_ttl'',
          bool True), (''field_tcp_flags'', bool True), (''field_ether_type'', bool True), (''field_acl_range_type'', struct
          ''sai_thrift_s32_list_t'' [(''count'', num 0), (''int32list'', list_of [])]), (''field_icmpv6_code'', bool True),
          (''field_icmpv6_type'', bool True), (''field_acl_ip_frag'', bool True), (''field_acl_ip_type'', bool True),
          (''field_outer_vlan_id'', bool True)]),
        assign ''dst_ip'' (str ''1234:5678:9abc:def0:4422:1133:5577:99aa''),
        assign ''dst_ip_mask'' (str ''FFFF:FFFF:FFFF:FFFF:FFFF:FFFF:FFFF:FFFF''),
        assign ''dst_ip_t'' (struct ''sai_thrift_acl_field_data_t'' [(''data'', struct ''sai_thrift_acl_field_data_data_t''
          [(''ip6'', var ''dst_ip'')]), (''mask'', struct ''sai_thrift_acl_field_data_mask_t'' [(''ip6'', var
          ''dst_ip_mask'')])]),
        assign ''mirror_session_list'' (struct ''sai_thrift_object_list_t'' [(''count'', num 1), (''idlist'', list_of [var
          ''mirror_session''])]),
        assign ''mirror_action'' (struct ''sai_thrift_acl_action_data_t'' [(''parameter'', struct
          ''sai_thrift_acl_action_parameter_t'' [(''objlist'', var ''mirror_session_list'')])]),
        assign ''acl_entry'' (api_create ''acl_entry'' [(''table_id'', var ''acl_table''), (''priority'', num 10),
          (''field_dst_ipv6'', var ''dst_ip_t''), (''action_mirror_ingress'', var ''mirror_action'')]),
        assign ''acl_counter_ingress'' (api_create ''acl_counter'' [(''table_id'', var ''acl_table'')]),
        assign ''action_counter_ingress'' (struct ''sai_thrift_acl_action_data_t'' [(''parameter'', struct
          ''sai_thrift_acl_action_parameter_t'' [(''oid'', var ''acl_counter_ingress'')]), (''enable'', bool True)]),
        run (api_set ''acl_entry'' (var ''acl_entry'') [(''action_counter'', var ''action_counter_ingress'')]),
        run (api_set ''port'' (self ''port24'') [(''ingress_acl'', var ''acl_table'')]),
        run (api_set ''port'' (self ''port26'') [(''ingress_acl'', var ''acl_table'')]),
        run (lib ''send_packet'' [self ''dev_port24'', var ''pkt1''] []),
        run (lib ''verify_each_packet_on_each_port'' [list_of [var ''exp_pkt1'', var ''pkt1''], list_of [self ''dev_port25'',
          self ''dev_port28'']] []),
        assign ''packets'' (api_get ''acl_counter'' (var ''acl_counter_ingress'') [(''packets'', bool True)]),
        assert_eq (item (var ''packets'') (str ''packets'')) (num 1),
        run (lib ''send_packet'' [self ''dev_port26'', var ''pkt2''] []),
        run (lib ''verify_each_packet_on_each_port'' [list_of [var ''exp_pkt2'', var ''pkt2''], list_of [self ''dev_port27'',
          self ''dev_port28'']] []),
        assign ''packets'' (api_get ''acl_counter'' (var ''acl_counter_ingress'') [(''packets'', bool True)]),
        assert_eq (item (var ''packets'') (str ''packets'')) (num 2)] [
        assign ''action_counter_ingress'' (struct ''sai_thrift_acl_action_data_t'' [(''parameter'', struct
          ''sai_thrift_acl_action_parameter_t'' [(''oid'', num 0)]), (''enable'', bool True)]),
        run (api_set ''acl_entry'' (var ''acl_entry'') [(''action_counter'', var ''action_counter_ingress'')]),
        run (api_set ''acl_counter'' (var ''acl_counter_ingress'') [(''packets'', none)]),
        assign ''packets'' (api_get ''acl_counter'' (var ''acl_counter_ingress'') [(''packets'', bool True)]),
        assert_eq (item (var ''packets'') (str ''packets'')) (num 0),
        run (api_remove ''acl_counter'' (var ''acl_counter_ingress'')),
        run (api_set ''port'' (self ''port24'') [(''ingress_acl'', num 0)]),
        run (api_set ''port'' (self ''port26'') [(''ingress_acl'', num 0)]),
        run (api_remove ''acl_entry'' (var ''acl_entry'')),
        run (api_remove ''acl_table'' (var ''acl_table'')),
        run (api_remove ''mirror_session'' (var ''mirror_session''))]]"

definition AclTableTypeTest_runTest :: "'d stmt" where
  "AclTableTypeTest_runTest = block [
      run (invoke [] AclTableTypeTest_testIPv4Acl),
      run (invoke [] AclTableTypeTest_testIPv6Acl),
      run (invoke [] AclTableTypeTest_testIPMirrorAcl)]"

definition AclTableTypeTest_tearDown :: "'d stmt" where
  "AclTableTypeTest_tearDown = block [
      run (api_remove ''fdb_entry'' (self ''fdb_entry1'')),
      run (api_remove ''fdb_entry'' (self ''fdb_entry2'')),
      run (api_remove ''vlan_member'' (self ''vlan_member1'')),
      run (api_remove ''vlan_member'' (self ''vlan_member2'')),
      run (api_remove ''bridge_port'' (self ''port26_bp'')),
      run (api_remove ''bridge_port'' (self ''port27_bp'')),
      run (api_remove ''vlan'' (self ''vlan_oid'')),
      run (api_remove ''route_entry'' (self ''route_entry0'')),
      run (api_remove ''route_entry'' (self ''route_entry1'')),
      run (api_remove ''next_hop'' (self ''nhop1'')),
      run (api_remove ''neighbor_entry'' (self ''neighbor_entry1'')),
      run (api_remove ''router_interface'' (self ''port25_rif'')),
      run (api_remove ''router_interface'' (self ''port24_rif'')),
      super_tearDown]"

definition AclRedirectPortAndLagTest_setUp :: "'d stmt" where
  "AclRedirectPortAndLagTest_setUp = block [
      super_setUp,
      set_self ''acl_grp_members'' (list_of []),
      set_self ''acl_grps'' (list_of []),
      set_self ''acl_rules'' (list_of []),
      set_self ''acl_tables'' (list_of []),
      set_self ''vlan_members'' (list_of []),
      set_self ''vlan_ports'' (list_of []),
      set_self ''bridge_ports'' (list_of []),
      set_self ''fdbs'' (list_of []),
      set_self ''lags'' (list_of []),
      set_self ''lag_members'' (list_of []),
      set_self ''action_counters'' (list_of []),
      set_self ''counters'' (list_of []),
      set_self ''mac'' (str ''00:11:11:11:11:11''),
      assign ''mac_action'' (num SAI_PACKET_ACTION_FORWARD),
      assign ''vlan_id'' (num 100),
      set_self ''vlan_oid'' (api_create ''vlan'' [(''vlan_id'', var ''vlan_id'')]),
      assign ''port24_bp'' (api_create ''bridge_port'' [(''bridge_id'', self ''default_1q_bridge''), (''port_id'', self
        ''port24''), (''type'', num SAI_BRIDGE_PORT_TYPE_PORT), (''admin_state'', bool True)]),
      set_self ''bridge_ports'' (appended (self ''bridge_ports'') (var ''port24_bp'')),
      assign ''vlan_member1'' (api_create ''vlan_member'' [(''vlan_id'', self ''vlan_oid''), (''bridge_port_id'', var
        ''port24_bp''), (''vlan_tagging_mode'', num SAI_VLAN_TAGGING_MODE_UNTAGGED)]),
      set_self ''vlan_members'' (appended (self ''vlan_members'') (var ''vlan_member1'')),
      set_self ''vlan_ports'' (appended (self ''vlan_ports'') (self ''port24'')),
      assign ''port25_bp'' (api_create ''bridge_port'' [(''bridge_id'', self ''default_1q_bridge''), (''port_id'', self
        ''port25''), (''type'', num SAI_BRIDGE_PORT_TYPE_PORT), (''admin_state'', bool True)]),
      set_self ''bridge_ports'' (appended (self ''bridge_ports'') (var ''port25_bp'')),
      assign ''vlan_member2'' (api_create ''vlan_member'' [(''vlan_id'', self ''vlan_oid''), (''bridge_port_id'', var
        ''port25_bp''), (''vlan_tagging_mode'', num SAI_VLAN_TAGGING_MODE_UNTAGGED)]),
      set_self ''vlan_members'' (appended (self ''vlan_members'') (var ''vlan_member2'')),
      set_self ''vlan_ports'' (appended (self ''vlan_ports'') (self ''port25'')),
      assign ''port26_bp'' (api_create ''bridge_port'' [(''bridge_id'', self ''default_1q_bridge''), (''port_id'', self
        ''port26''), (''type'', num SAI_BRIDGE_PORT_TYPE_PORT), (''admin_state'', bool True)]),
      set_self ''bridge_ports'' (appended (self ''bridge_ports'') (var ''port26_bp'')),
      assign ''vlan_member3'' (api_create ''vlan_member'' [(''vlan_id'', self ''vlan_oid''), (''bridge_port_id'', var
        ''port26_bp''), (''vlan_tagging_mode'', num SAI_VLAN_TAGGING_MODE_UNTAGGED)]),
      set_self ''vlan_members'' (appended (self ''vlan_members'') (var ''vlan_member3'')),
      set_self ''vlan_ports'' (appended (self ''vlan_ports'') (self ''port26'')),
      run (api_set ''port'' (self ''port24'') [(''port_vlan_id'', var ''vlan_id'')]),
      run (api_set ''port'' (self ''port25'') [(''port_vlan_id'', var ''vlan_id'')]),
      run (api_set ''port'' (self ''port26'') [(''port_vlan_id'', var ''vlan_id'')]),
      set_self ''lag_id'' (api_create ''lag'' []),
      set_self ''lags'' (appended (self ''lags'') (self ''lag_id'')),
      assign ''lag1_bp'' (api_create ''bridge_port'' [(''bridge_id'', self ''default_1q_bridge''), (''port_id'', self
        ''lag_id''), (''type'', num SAI_BRIDGE_PORT_TYPE_PORT), (''admin_state'', bool True)]),
      set_self ''bridge_ports'' (appended (self ''bridge_ports'') (var ''lag1_bp'')),
      assign ''lag_member_id1'' (api_create ''lag_member'' [(''lag_id'', self ''lag_id''), (''port_id'', self ''port27'')]),
      set_self ''lag_members'' (appended (self ''lag_members'') (var ''lag_member_id1'')),
      assign ''lag_member_id2'' (api_create ''lag_member'' [(''lag_id'', self ''lag_id''), (''port_id'', self ''port28'')]),
      set_self ''lag_members'' (appended (self ''lag_members'') (var ''lag_member_id2'')),
      assign ''vlan_member4'' (api_create ''vlan_member'' [(''vlan_id'', self ''vlan_oid''), (''bridge_port_id'', var
        ''lag1_bp''), (''vlan_tagging_mode'', num SAI_VLAN_TAGGING_MODE_UNTAGGED)]),
      set_self ''vlan_members'' (appended (self ''vlan_members'') (var ''vlan_member4'')),
      set_self ''vlan_ports'' (appended (self ''vlan_ports'') (self ''port27'')),
      set_self ''vlan_ports'' (appended (self ''vlan_ports'') (self ''port28'')),
      assign ''fdb_entry'' (struct ''sai_thrift_fdb_entry_t'' [(''switch_id'', self ''switch_id''), (''mac_address'', self
        ''mac''), (''bv_id'', self ''vlan_oid'')]),
      run (api_create_entry ''fdb_entry'' (var ''fdb_entry'') [(''type'', num SAI_FDB_ENTRY_TYPE_STATIC), (''bridge_port_id'',
        var ''port24_bp''), (''packet_action'', var ''mac_action'')]),
      set_self ''fdbs'' (appended (self ''fdbs'') (var ''fdb_entry''))]"

definition AclRedirectPortAndLagTest_runTest :: "'d stmt" where
  "AclRedirectPortAndLagTest_runTest = block [
      assign ''eth_pkt1'' (lib ''simple_eth_packet'' [] [(''pktlen'', num 100), (''eth_dst'', self ''mac''), (''eth_src'', str
        ''00:06:07:08:09:0a''), (''eth_type'', num 33079)]),
      assign ''eth_pkt2'' (lib ''simple_eth_packet'' [] [(''pktlen'', num 100), (''eth_dst'', self ''mac''), (''eth_src'', str
        ''00:06:07:08:09:0a''), (''eth_type'', num 33078)]),
      assign ''eth_pkt3'' (lib ''simple_eth_packet'' [] [(''pktlen'', num 100), (''eth_dst'', self ''mac''), (''eth_src'', str
        ''00:06:07:08:09:0a''), (''eth_type'', num 33077)]),
      assign ''eth_pkt4'' (lib ''simple_eth_packet'' [] [(''pktlen'', num 100), (''eth_dst'', self ''mac''), (''eth_src'', str
        ''00:06:07:08:09:0a''), (''eth_type'', num 33076)]),
      assign ''neg_test_pkt'' (lib ''simple_eth_packet'' [] [(''pktlen'', num 100), (''eth_dst'', self ''mac''), (''eth_src'',
        str ''00:06:07:08:09:0a''), (''eth_type'', num 4369)]),
      print [lib ''get_field'' [lib ''get_layer'' [var ''eth_pkt1'', str ''Ether''] [], str ''type''] []],
      run (lib ''send_packet'' [self ''dev_port25'', var ''eth_pkt1''] []),
      run (lib ''verify_packets'' [var ''eth_pkt1'', list_of [self ''dev_port24'']] []),
      print [lib ''get_field'' [lib ''get_layer'' [var ''eth_pkt2'', str ''Ether''] [], str ''type''] []],
      run (lib ''send_packet'' [self ''dev_port25'', var ''eth_pkt2''] []),
      run (lib ''verify_packets'' [var ''eth_pkt2'', list_of [self ''dev_port24'']] []),
      print [lib ''get_field'' [lib ''get_layer'' [var ''eth_pkt3'', str ''Ether''] [], str ''type''] []],
      run (lib ''send_packet'' [self ''dev_port25'', var ''eth_pkt3''] []),
      run (lib ''verify_packets'' [var ''eth_pkt3'', list_of [self ''dev_port24'']] []),
      print [lib ''get_field'' [lib ''get_layer'' [var ''eth_pkt4'', str ''Ether''] [], str ''type''] []],
      run (lib ''send_packet'' [self ''dev_port25'', var ''eth_pkt4''] []),
      run (lib ''verify_packets'' [var ''eth_pkt4'', list_of [self ''dev_port24'']] []),
      print [lib ''get_field'' [lib ''get_layer'' [var ''neg_test_pkt'', str ''Ether''] [], str ''type''] []],
      run (lib ''send_packet'' [self ''dev_port25'', var ''neg_test_pkt''] []),
      run (lib ''verify_packets'' [var ''neg_test_pkt'', list_of [self ''dev_port24'']] []),
      print [lib ''get_field'' [lib ''get_layer'' [var ''neg_test_pkt'', str ''Ether''] [], str ''type''] []],
      assign ''entry_priority'' (num 1),
      assign ''acl_action'' (num SAI_ACL_ENTRY_ATTR_ACTION_REDIRECT),
      assign ''group_bind_point_list'' (list_of [num SAI_ACL_BIND_POINT_TYPE_PORT]),
      assign ''group_type'' (num SAI_ACL_TABLE_GROUP_TYPE_PARALLEL),
      assign ''group_stage_ingress'' (num SAI_ACL_STAGE_INGRESS),
      assign ''group_member_priority'' (num 100),
      assign ''table_stage_ingress'' (num SAI_ACL_STAGE_INGRESS),
      assign ''table_bind_point_list'' (list_of [num SAI_ACL_BIND_POINT_TYPE_PORT]),
      assign ''group_bind_point_type_list'' (struct ''sai_thrift_s32_list_t'' [(''count'', length_of (var
        ''group_bind_point_list'')), (''int32list'', var ''group_bind_point_list'')]),
      assign ''table_bind_point_type_list'' (struct ''sai_thrift_s32_list_t'' [(''count'', length_of (var
        ''table_bind_point_list'')), (''int32list'', var ''table_bind_point_list'')]),
      assign ''acl_table_group_ingress'' (api_create ''acl_table_group'' [(''acl_stage'', var ''group_stage_ingress''),
        (''acl_bind_point_type_list'', var ''group_bind_point_type_list''), (''type'', var ''group_type'')]),
      set_self ''acl_grps'' (appended (self ''acl_grps'') (var ''acl_table_group_ingress'')),
      assign ''acl_table_id_ingress'' (api_create ''acl_table'' [(''acl_stage'', var ''table_stage_ingress''),
        (''acl_bind_point_type_list'', var ''table_bind_point_type_list'')]),
      set_self ''acl_tables'' (appended (self ''acl_tables'') (var ''acl_table_id_ingress'')),
      assert (ne (var ''acl_table_id_ingress'') (num 0)),
      print [var ''acl_table_id_ingress''],
      assign ''acl_group_member_id_ingress'' (api_create ''acl_table_group_member'' [(''acl_table_group_id'', var
        ''acl_table_group_ingress''), (''acl_table_id'', var ''acl_table_id_ingress''), (''priority'', var
        ''group_member_priority'')]),
      assert (explained (ne (var ''acl_group_member_id_ingress'') (num 0)) [var ''acl_table_id_ingress'', var
        ''acl_table_group_ingress'']),
      set_self ''acl_grp_members'' (appended (self ''acl_grp_members'') (var ''acl_group_member_id_ingress'')),
      assign ''eth_type'' (sub (num 33079) (num 65536)),
      assign ''ether_type'' (struct ''sai_thrift_acl_field_data_t'' [(''data'', struct ''sai_thrift_acl_field_data_data_t''
        [(''u16'', var ''eth_type'')]), (''mask'', struct ''sai_thrift_acl_field_data_mask_t'' [(''u16'', num 32767)])]),
      assign ''redirect_action'' (struct ''sai_thrift_acl_action_data_t'' [(''parameter'', struct
        ''sai_thrift_acl_action_parameter_t'' [(''s32'', var ''acl_action''), (''oid'', self ''port26'')])]),
      assign ''acl_ip_entry_id_ingress1'' (api_create ''acl_entry'' [(''table_id'', var ''acl_table_id_ingress''),
        (''priority'', var ''entry_priority''), (''field_ether_type'', var ''ether_type''), (''action_redirect'', var
        ''redirect_action'')]),
      assign ''acl_counter_ingress1'' (api_create ''acl_counter'' [(''table_id'', var ''acl_table_id_ingress'')]),
      assign ''action_counter_ingress1'' (struct ''sai_thrift_acl_action_data_t'' [(''parameter'', struct
        ''sai_thrift_acl_action_parameter_t'' [(''oid'', var ''acl_counter_ingress1'')]), (''enable'', bool True)]),
      run (api_set ''acl_entry'' (var ''acl_ip_entry_id_ingress1'') [(''action_counter'', var ''action_counter_ingress1'')]),
      set_self ''counters'' (appended (self ''counters'') (var ''acl_counter_ingress1'')),
      set_self ''action_counters'' (appended (self ''action_counters'') (var ''action_counter_ingress1'')),
      set_self ''acl_rules'' (appended (self ''acl_rules'') (var ''acl_ip_entry_id_ingress1'')),
      assert (explained (ne (var ''acl_ip_entry_id_ingress1'') (num 0)) [var ''eth_type'', self ''port26'', var
        ''acl_table_id_ingress'']),
      print [lib ''get_field'' [lib ''get_layer'' [var ''eth_pkt1'', str ''Ether''] [], str ''type''] [], self ''port26'', var
        ''acl_ip_entry_id_ingress1''],
      assign ''entry_priority'' (add (var ''entry_priority'') (num 1)),
      assign ''eth_type'' (sub (num 33078) (num 65536)),
      assign ''ether_type'' (struct ''sai_thrift_acl_field_data_t'' [(''data'', struct ''sai_thrift_acl_field_data_data_t''
        [(''u16'', var ''eth_type'')]), (''mask'', struct ''sai_thrift_acl_field_data_mask_t'' [(''u16'', num 32767)])]),
      assign ''redirect_action'' (struct ''sai_thrift_acl_action_data_t'' [(''parameter'', struct
        ''sai_thrift_acl_action_parameter_t'' [(''s32'', var ''acl_action''), (''oid'', self ''lag_id'')])]),
      assign ''acl_ip_entry_id_ingress2'' (api_create ''acl_entry'' [(''table_id'', var ''acl_table_id_ingress''),
        (''priority'', var ''entry_priority''), (''field_ether_type'', var ''ether_type''), (''action_redirect'', var
        ''redirect_action'')]),
      assign ''acl_counter_ingress2'' (api_create ''acl_counter'' [(''table_id'', var ''acl_table_id_ingress'')]),
      assign ''action_counter_ingress2'' (struct ''sai_thrift_acl_action_data_t'' [(''parameter'', struct
        ''sai_thrift_acl_action_parameter_t'' [(''oid'', var ''acl_counter_ingress2'')]), (''enable'', bool True)]),
      run (api_set ''acl_entry'' (var ''acl_ip_entry_id_ingress2'') [(''action_counter'', var ''action_counter_ingress2'')]),
      set_self ''counters'' (appended (self ''counters'') (var ''acl_counter_ingress2'')),
      set_self ''action_counters'' (appended (self ''action_counters'') (var ''action_counter_ingress2'')),
      set_self ''acl_rules'' (appended (self ''acl_rules'') (var ''acl_ip_entry_id_ingress2'')),
      assert (explained (ne (var ''acl_ip_entry_id_ingress2'') (num 0)) [var ''eth_type'', self ''lag_id'', var
        ''acl_table_id_ingress'']),
      print [lib ''get_field'' [lib ''get_layer'' [var ''eth_pkt2'', str ''Ether''] [], str ''type''] [], self ''lag_id'', var
        ''acl_ip_entry_id_ingress2''],
      assign ''acl_group_member_id_ingress'' (api_create ''acl_table_group_member'' [(''acl_table_group_id'', var
        ''acl_table_group_ingress''), (''acl_table_id'', var ''acl_table_id_ingress''), (''priority'', num 200)]),
      assert (explained (ne (var ''acl_group_member_id_ingress'') (num 0)) [var ''acl_table_id_ingress'', var
        ''acl_table_group_ingress'']),
      set_self ''acl_grp_members'' (appended (self ''acl_grp_members'') (var ''acl_group_member_id_ingress'')),
      assign ''eth_type'' (sub (num 33077) (num 65536)),
      assign ''ether_type'' (struct ''sai_thrift_acl_field_data_t'' [(''data'', struct ''sai_thrift_acl_field_data_data_t''
        [(''u16'', var ''eth_type'')]), (''mask'', struct ''sai_thrift_acl_field_data_mask_t'' [(''u16'', num 32767)])]),
      assign ''redirect_action'' (struct ''sai_thrift_acl_action_data_t'' [(''parameter'', struct
        ''sai_thrift_acl_action_parameter_t'' [(''s32'', var ''acl_action''), (''oid'', self ''port26'')])]),
      assign ''acl_ip_entry_id_ingress3'' (api_create ''acl_entry'' [(''table_id'', var ''acl_table_id_ingress''),
        (''priority'', var ''entry_priority''), (''field_ether_type'', var ''ether_type''), (''action_redirect'', var
        ''redirect_action'')]),
      assign ''acl_counter_ingress3'' (api_create ''acl_counter'' [(''table_id'', var ''acl_table_id_ingress'')]),
      assign ''action_counter_ingress3'' (struct ''sai_thrift_acl_action_data_t'' [(''parameter'', struct
        ''sai_thrift_acl_action_parameter_t'' [(''oid'', var ''acl_counter_ingress3'')]), (''enable'', bool True)]),
      run (api_set ''acl_entry'' (var ''acl_ip_entry_id_ingress3'') [(''action_counter'', var ''action_counter_ingress3'')]),
      set_self ''counters'' (appended (self ''counters'') (var ''acl_counter_ingress3'')),
      set_self ''action_counters'' (appended (self ''action_counters'') (var ''action_counter_ingress3'')),
      set_self ''acl_rules'' (appended (self ''acl_rules'') (var ''acl_ip_entry_id_ingress3'')),
      assert (explained (ne (var ''acl_ip_entry_id_ingress3'') (num 0)) [var ''eth_type'', self ''port26'', var
        ''acl_table_id_ingress'']),
      print [lib ''get_field'' [lib ''get_layer'' [var ''eth_pkt3'', str ''Ether''] [], str ''type''] [], self ''port26'', var
        ''acl_ip_entry_id_ingress3''],
      assign ''eth_type'' (sub (num 33076) (num 65536)),
      assign ''ether_type'' (struct ''sai_thrift_acl_field_data_t'' [(''data'', struct ''sai_thrift_acl_field_data_data_t''
        [(''u16'', var ''eth_type'')]), (''mask'', struct ''sai_thrift_acl_field_data_mask_t'' [(''u16'', num 32767)])]),
      assign ''redirect_action'' (struct ''sai_thrift_acl_action_data_t'' [(''parameter'', struct
        ''sai_thrift_acl_action_parameter_t'' [(''s32'', var ''acl_action''), (''oid'', self ''lag_id'')])]),
      assign ''acl_ip_entry_id_ingress4'' (api_create ''acl_entry'' [(''table_id'', var ''acl_table_id_ingress''),
        (''priority'', var ''entry_priority''), (''field_ether_type'', var ''ether_type''), (''action_redirect'', var
        ''redirect_action'')]),
      assign ''acl_counter_ingress4'' (api_create ''acl_counter'' [(''table_id'', var ''acl_table_id_ingress'')]),
      assign ''action_counter_ingress4'' (struct ''sai_thrift_acl_action_data_t'' [(''parameter'', struct
        ''sai_thrift_acl_action_parameter_t'' [(''oid'', var ''acl_counter_ingress4'')]), (''enable'', bool True)]),
      run (api_set ''acl_entry'' (var ''acl_ip_entry_id_ingress4'') [(''action_counter'', var ''action_counter_ingress4'')]),
      set_self ''acl_rules'' (appended (self ''acl_rules'') (var ''acl_ip_entry_id_ingress4'')),
      assert (explained (ne (var ''acl_ip_entry_id_ingress4'') (num 0)) [var ''eth_type'', self ''lag_id'', var
        ''acl_table_id_ingress'']),
      print [lib ''get_field'' [lib ''get_layer'' [var ''eth_pkt3'', str ''Ether''] [], str ''type''] [], self ''lag_id'', var
        ''acl_ip_entry_id_ingress4''],
      set_self ''counters'' (appended (self ''counters'') (var ''acl_counter_ingress4'')),
      set_self ''action_counters'' (appended (self ''action_counters'') (var ''action_counter_ingress4'')),
      print [var ''acl_table_group_ingress''],
      run (api_set ''port'' (self ''port25'') [(''ingress_acl'', var ''acl_table_group_ingress'')]),
      print [lib ''get_field'' [lib ''get_layer'' [var ''eth_pkt1'', str ''Ether''] [], str ''type''] []],
      run (lib ''send_packet'' [self ''dev_port25'', var ''eth_pkt1''] []),
      run (lib ''verify_packets'' [var ''eth_pkt1'', list_of [self ''dev_port26'']] []),
      assign ''packets1'' (api_get ''acl_counter'' (var ''acl_counter_ingress1'') [(''packets'', bool True)]),
      assert_eq (item (var ''packets1'') (str ''packets'')) (num 1),
      assign ''packets2'' (api_get ''acl_counter'' (var ''acl_counter_ingress2'') [(''packets'', bool True)]),
      assert_eq (item (var ''packets2'') (str ''packets'')) (num 0),
      assign ''packets3'' (api_get ''acl_counter'' (var ''acl_counter_ingress3'') [(''packets'', bool True)]),
      assert_eq (item (var ''packets3'') (str ''packets'')) (num 0),
      assign ''packets4'' (api_get ''acl_counter'' (var ''acl_counter_ingress4'') [(''packets'', bool True)]),
      assert_eq (item (var ''packets4'') (str ''packets'')) (num 0),
      print [lib ''get_field'' [lib ''get_layer'' [var ''eth_pkt2'', str ''Ether''] [], str ''type''] []],
      run (lib ''send_packet'' [self ''dev_port25'', var ''eth_pkt2''] []),
      run (lib ''verify_packets_any'' [var ''eth_pkt2'', list_of [self ''dev_port27'', self ''dev_port28'']] []),
      assign ''packets1'' (api_get ''acl_counter'' (var ''acl_counter_ingress1'') [(''packets'', bool True)]),
      assert_eq (item (var ''packets1'') (str ''packets'')) (num 1),
      assign ''packets2'' (api_get ''acl_counter'' (var ''acl_counter_ingress2'') [(''packets'', bool True)]),
      assert_eq (item (var ''packets2'') (str ''packets'')) (num 1),
      assign ''packets3'' (api_get ''acl_counter'' (var ''acl_counter_ingress3'') [(''packets'', bool True)]),
      assert_eq (item (var ''packets3'') (str ''packets'')) (num 0),
      assign ''packets4'' (api_get ''acl_counter'' (var ''acl_counter_ingress4'') [(''packets'', bool True)]),
      assert_eq (item (var ''packets4'') (str ''packets'')) (num 0),
      print [lib ''get_field'' [lib ''get_layer'' [var ''eth_pkt3'', str ''Ether''] [], str ''type''] []],
      run (lib ''send_packet'' [self ''dev_port25'', var ''eth_pkt3''] []),
      run (lib ''verify_packets'' [var ''eth_pkt3'', list_of [self ''dev_port26'']] []),
      assign ''packets1'' (api_get ''acl_counter'' (var ''acl_counter_ingress1'') [(''packets'', bool True)]),
      assert_eq (item (var ''packets1'') (str ''packets'')) (num 1),
      assign ''packets2'' (api_get ''acl_counter'' (var ''acl_counter_ingress2'') [(''packets'', bool True)]),
      assert_eq (item (var ''packets2'') (str ''packets'')) (num 1),
      assign ''packets3'' (api_get ''acl_counter'' (var ''acl_counter_ingress3'') [(''packets'', bool True)]),
      assert_eq (item (var ''packets3'') (str ''packets'')) (num 1),
      assign ''packets4'' (api_get ''acl_counter'' (var ''acl_counter_ingress4'') [(''packets'', bool True)]),
      assert_eq (item (var ''packets4'') (str ''packets'')) (num 0),
      print [lib ''get_field'' [lib ''get_layer'' [var ''eth_pkt4'', str ''Ether''] [], str ''type''] []],
      run (lib ''send_packet'' [self ''dev_port25'', var ''eth_pkt4''] []),
      run (lib ''verify_packets_any'' [var ''eth_pkt4'', list_of [self ''dev_port27'', self ''dev_port28'']] []),
      assign ''packets1'' (api_get ''acl_counter'' (var ''acl_counter_ingress1'') [(''packets'', bool True)]),
      assert_eq (item (var ''packets1'') (str ''packets'')) (num 1),
      assign ''packets2'' (api_get ''acl_counter'' (var ''acl_counter_ingress2'') [(''packets'', bool True)]),
      assert_eq (item (var ''packets2'') (str ''packets'')) (num 1),
      assign ''packets3'' (api_get ''acl_counter'' (var ''acl_counter_ingress3'') [(''packets'', bool True)]),
      assert_eq (item (var ''packets3'') (str ''packets'')) (num 1),
      assign ''packets4'' (api_get ''acl_counter'' (var ''acl_counter_ingress4'') [(''packets'', bool True)]),
      assert_eq (item (var ''packets4'') (str ''packets'')) (num 1),
      print [lib ''get_field'' [lib ''get_layer'' [var ''neg_test_pkt'', str ''Ether''] [], str ''type''] []],
      run (lib ''send_packet'' [self ''dev_port25'', var ''neg_test_pkt''] []),
      run (lib ''verify_packets'' [var ''neg_test_pkt'', list_of [self ''dev_port24'']] []),
      assign ''packets1'' (api_get ''acl_counter'' (var ''acl_counter_ingress1'') [(''packets'', bool True)]),
      assert_eq (item (var ''packets1'') (str ''packets'')) (num 1),
      assign ''packets2'' (api_get ''acl_counter'' (var ''acl_counter_ingress2'') [(''packets'', bool True)]),
      assert_eq (item (var ''packets2'') (str ''packets'')) (num 1),
      assign ''packets3'' (api_get ''acl_counter'' (var ''acl_counter_ingress3'') [(''packets'', bool True)]),
      assert_eq (item (var ''packets3'') (str ''packets'')) (num 1),
      assign ''packets4'' (api_get ''acl_counter'' (var ''acl_counter_ingress4'') [(''packets'', bool True)]),
      assert_eq (item (var ''packets4'') (str ''packets'')) (num 1)]"

definition AclRedirectPortAndLagTest_tearDown :: "'d stmt" where
  "AclRedirectPortAndLagTest_tearDown = block [
      run (api_set ''port'' (self ''port25'') [(''ingress_acl'', as_int (num SAI_NULL_OBJECT_ID))]),
      for_in [''acl_grp_member''] (as_list (self ''acl_grp_members'')) [
        run (api_remove ''acl_table_group_member'' (var ''acl_grp_member'')),
        set_self ''acl_grp_members'' (without (self ''acl_grp_members'') (var ''acl_grp_member''))],
      for_in [''acl_grp''] (as_list (self ''acl_grps'')) [
        run (api_remove ''acl_table_group'' (var ''acl_grp'')),
        set_self ''acl_grps'' (without (self ''acl_grps'') (var ''acl_grp''))],
      for_in [''i'', ''acl_action_counter''] (enumerated (self ''action_counters'')) [
        assign ''acl_action_counter'' (struct ''sai_thrift_acl_action_data_t'' [(''parameter'', struct
          ''sai_thrift_acl_action_parameter_t'' [(''oid'', num 0)]), (''enable'', bool True)]),
        run (api_set ''acl_entry'' (item (self ''acl_rules'') (var ''i'')) [(''action_counter'', var ''acl_action_counter'')])],
      for_in [''acl_counter''] (self ''counters'') [
        run (api_set ''acl_counter'' (var ''acl_counter'') [(''packets'', none)]),
        assign ''packets'' (api_get ''acl_counter'' (var ''acl_counter'') [(''packets'', bool True)]),
        assert_eq (item (var ''packets'') (str ''packets'')) (num 0),
        run (api_remove ''acl_counter'' (var ''acl_counter''))],
      for_in [''acl_rule''] (as_list (self ''acl_rules'')) [
        run (api_remove ''acl_entry'' (var ''acl_rule'')),
        set_self ''acl_rules'' (without (self ''acl_rules'') (var ''acl_rule''))],
      for_in [''acl_table''] (as_list (self ''acl_tables'')) [
        run (api_remove ''acl_table'' (var ''acl_table'')),
        set_self ''acl_tables'' (without (self ''acl_tables'') (var ''acl_table''))],
      for_in [''fdb''] (as_list (self ''fdbs'')) [
        run (api_remove ''fdb_entry'' (var ''fdb'')),
        set_self ''fdbs'' (without (self ''fdbs'') (var ''fdb''))],
      run (api_set ''port'' (self ''port24'') [(''port_vlan_id'', as_int (num SAI_NULL_OBJECT_ID))]),
      run (api_set ''port'' (self ''port25'') [(''port_vlan_id'', as_int (num SAI_NULL_OBJECT_ID))]),
      run (api_set ''port'' (self ''port26'') [(''port_vlan_id'', as_int (num SAI_NULL_OBJECT_ID))]),
      for_in [''vlan_member''] (as_list (self ''vlan_members'')) [
        run (api_remove ''vlan_member'' (var ''vlan_member'')),
        set_self ''vlan_members'' (without (self ''vlan_members'') (var ''vlan_member''))],
      run (api_remove ''vlan'' (self ''vlan_oid'')),
      for_in [''lag_member''] (as_list (self ''lag_members'')) [
        run (api_remove ''lag_member'' (var ''lag_member'')),
        set_self ''lag_members'' (without (self ''lag_members'') (var ''lag_member''))],
      for_in [''port''] (as_list (self ''bridge_ports'')) [
        run (api_remove ''bridge_port'' (var ''port'')),
        set_self ''bridge_ports'' (without (self ''bridge_ports'') (var ''port''))],
      for_in [''lag''] (as_list (self ''lags'')) [
        run (api_remove ''lag'' (var ''lag'')),
        set_self ''lags'' (without (self ''lags'') (var ''lag''))],
      for_in [''vlan_port''] (as_list (self ''vlan_ports'')) [
        set_self ''vlan_ports'' (without (self ''vlan_ports'') (var ''vlan_port''))],
      super_tearDown]"

definition AclPreIngressTest_setUp :: "'d stmt" where
  "AclPreIngressTest_setUp = block [
      run (invoke [] AclTableTypeTest_setUp),
      set_self ''dmac1'' (str ''00:11:22:33:44:55''),
      set_self ''dmac2'' (str ''00:11:22:33:44:56''),
      set_self ''ip_addr1'' (str ''10.0.0.1''),
      set_self ''ip_addr2'' (str ''10.10.10.2''),
      set_self ''vrf1'' (api_create ''virtual_router'' []),
      set_self ''vrf1_port26_rif'' (api_create ''router_interface'' [(''type'', num SAI_ROUTER_INTERFACE_TYPE_PORT),
        (''virtual_router_id'', self ''vrf1''), (''port_id'', self ''port26'')]),
      set_self ''vrf1_nhop0'' (api_create ''next_hop'' [(''ip'', ip_address (self ''ip_addr2'')), (''router_interface_id'', self
        ''vrf1_port26_rif''), (''type'', num SAI_NEXT_HOP_TYPE_IP)]),
      set_self ''vrf1_neighbor_entry0'' (struct ''sai_thrift_neighbor_entry_t'' [(''rif_id'', self ''vrf1_port26_rif''),
        (''ip_address'', ip_address (self ''ip_addr2''))]),
      run (api_create_entry ''neighbor_entry'' (self ''vrf1_neighbor_entry0'') [(''dst_mac_address'', self ''dmac2'')]),
      set_self ''vrf1_route_entry0'' (struct ''sai_thrift_route_entry_t'' [(''vr_id'', self ''vrf1''), (''destination'',
        ip_prefix (str ''10.0.0.1/32''))]),
      run (api_create_entry ''route_entry'' (self ''vrf1_route_entry0'') [(''next_hop_id'', self ''vrf1_nhop0'')])]"

definition AclPreIngressTest_testPreIngressAcl :: "'d stmt" where
  "AclPreIngressTest_testPreIngressAcl = block [
      assign ''acl_table_oid'' none,
      assign ''acl_entry_oid'' none,
      try_finally [
        assign ''table_stage'' (num SAI_ACL_STAGE_PRE_INGRESS),
        assign ''table_bind_points'' (list_of [num SAI_ACL_BIND_POINT_TYPE_SWITCH]),
        assign ''table_bind_point_type_list'' (struct ''sai_thrift_s32_list_t'' [(''count'', length_of (var
          ''table_bind_points'')), (''int32list'', var ''table_bind_points'')]),
        assign ''acl_table_oid'' (api_create ''acl_table'' [(''acl_stage'', var ''table_stage''), (''acl_bind_point_type_list'',
          var ''table_bind_point_type_list''), (''field_src_mac'', bool True), (''field_dst_mac'', bool True),
          (''field_ether_type'', bool True), (''field_src_ip'', bool True), (''field_dst_ip'', bool True), (''field_tos'', bool
          True)]),
        assert_ne (var ''acl_table_oid'') (num 0),
        assign ''src_mac'' (str ''00:26:dd:14:c4:ee''),
        assign ''src_mac_mask'' (str ''ff:ff:ff:ff:ff:ff''),
        assign ''src_mac_t'' (struct ''sai_thrift_acl_field_data_t'' [(''data'', struct ''sai_thrift_acl_field_data_data_t''
          [(''mac'', var ''src_mac'')]), (''mask'', struct ''sai_thrift_acl_field_data_mask_t'' [(''mac'', var
          ''src_mac_mask'')])]),
        assign ''action_set_vrf'' (struct ''sai_thrift_acl_action_data_t'' [(''enable'', bool True), (''parameter'', struct
          ''sai_thrift_acl_action_parameter_t'' [(''oid'', self ''vrf1'')])]),
        assign ''packet_action'' (struct ''sai_thrift_acl_action_data_t'' [(''parameter'', struct
          ''sai_thrift_acl_action_parameter_t'' [(''s32'', num SAI_PACKET_ACTION_FORWARD)])]),
        assign ''acl_entry_oid'' (api_create ''acl_entry'' [(''table_id'', var ''acl_table_oid''), (''priority'', num 10),
          (''field_src_mac'', var ''src_mac_t''), (''action_packet_action'', var ''packet_action''), (''action_set_vrf'', var
          ''action_set_vrf'')]),
        assert_ne (var ''acl_entry_oid'') (num 0),
        assign ''acl_counter_ingress'' (api_create ''acl_counter'' [(''table_id'', var ''acl_table_oid'')]),
        assign ''action_counter_ingress'' (struct ''sai_thrift_acl_action_data_t'' [(''parameter'', struct
          ''sai_thrift_acl_action_parameter_t'' [(''oid'', var ''acl_counter_ingress'')]), (''enable'', bool True)]),
        run (api_set ''acl_entry'' (var ''acl_entry_oid'') [(''action_counter'', var ''action_counter_ingress'')]),
        assign ''pkt'' (lib ''simple_ip_packet'' [] [(''eth_src'', var ''src_mac''), (''eth_dst'', str ROUTER_MAC), (''ip_dst'',
          self ''ip_addr1''), (''ip_ttl'', num 64)]),
        assign ''exp_pkt_default_vrf'' (lib ''simple_ip_packet'' [] [(''eth_src'', str ROUTER_MAC), (''eth_dst'', self
          ''dmac1''), (''ip_dst'', self ''ip_addr1''), (''ip_ttl'', num 63)]),
        assign ''exp_pkt_vrf1'' (lib ''simple_ip_packet'' [] [(''eth_src'', str ROUTER_MAC), (''eth_dst'', self ''dmac2''),
          (''ip_dst'', self ''ip_addr1''), (''ip_ttl'', num 63)]),
        run (lib ''send_packet'' [self ''dev_port24'', var ''pkt''] []),
        run (lib ''verify_any_packet_on_ports_list'' [] [(''pkts'', list_of [var ''exp_pkt_default_vrf'']), (''ports'', list_of
          [list_of [self ''dev_port25'']])]),
        assign ''packets'' (api_get ''acl_counter'' (var ''acl_counter_ingress'') [(''packets'', bool True)]),
        assert_eq (item (var ''packets'') (str ''packets'')) (num 0),
        run (api_set ''switch'' none [(''pre_ingress_acl'', var ''acl_table_oid'')]),
        run (lib ''send_packet'' [self ''dev_port24'', var ''pkt''] []),
        run (lib ''verify_any_packet_on_ports_list'' [] [(''pkts'', list_of [var ''exp_pkt_vrf1'']), (''ports'', list_of
          [list_of [self ''dev_port26'']])]),
        run (api_set ''switch'' none [(''pre_ingress_acl'', num 0)]),
        assign ''packets'' (api_get ''acl_counter'' (var ''acl_counter_ingress'') [(''packets'', bool True)]),
        assert_eq (item (var ''packets'') (str ''packets'')) (num 1),
        run (lib ''send_packet'' [self ''dev_port24'', var ''pkt''] []),
        run (lib ''verify_any_packet_on_ports_list'' [] [(''pkts'', list_of [var ''exp_pkt_default_vrf'']), (''ports'', list_of
          [list_of [self ''dev_port25'']])]),
        assign ''packets'' (api_get ''acl_counter'' (var ''acl_counter_ingress'') [(''packets'', bool True)]),
        assert_eq (item (var ''packets'') (str ''packets'')) (num 1)] [
        assign ''action_counter_ingress'' (struct ''sai_thrift_acl_action_data_t'' [(''parameter'', struct
          ''sai_thrift_acl_action_parameter_t'' [(''oid'', num 0)]), (''enable'', bool True)]),
        run (api_set ''acl_entry'' (var ''acl_entry_oid'') [(''action_counter'', var ''action_counter_ingress'')]),
        run (api_set ''acl_counter'' (var ''acl_counter_ingress'') [(''packets'', none)]),
        assign ''packets'' (api_get ''acl_counter'' (var ''acl_counter_ingress'') [(''packets'', bool True)]),
        assert_eq (item (var ''packets'') (str ''packets'')) (num 0),
        run (api_remove ''acl_counter'' (var ''acl_counter_ingress'')),
        run (api_set ''switch'' none [(''pre_ingress_acl'', num 0)]),
        if_else (var ''acl_entry_oid'') [
          run (api_remove ''acl_entry'' (var ''acl_entry_oid''))] [],
        if_else (var ''acl_table_oid'') [
          run (api_remove ''acl_table'' (var ''acl_table_oid''))] []]]"

definition AclPreIngressTest_runTest :: "'d stmt" where
  "AclPreIngressTest_runTest = block [
      run (invoke [] AclPreIngressTest_testPreIngressAcl)]"

definition AclPreIngressTest_tearDown :: "'d stmt" where
  "AclPreIngressTest_tearDown = block [
      run (api_remove ''route_entry'' (self ''vrf1_route_entry0'')),
      run (api_remove ''next_hop'' (self ''vrf1_nhop0'')),
      run (api_remove ''neighbor_entry'' (self ''vrf1_neighbor_entry0'')),
      run (api_remove ''router_interface'' (self ''vrf1_port26_rif'')),
      run (api_remove ''virtual_router'' (self ''vrf1'')),
      run (invoke [] AclTableTypeTest_tearDown)]"

definition IPv6NextHdrTest_setUp :: "'d stmt" where
  "IPv6NextHdrTest_setUp = block [
      super_setUp,
      run (create_rifs [0, 1]),
      set_self ''ip_addr1'' (str ''1234:5678:9abc:def0:4422:1133:5577:99aa''),
      set_self ''ip_addr2'' (str ''2000::1''),
      set_self ''mac1'' (str ''00:11:22:33:44:55''),
      set_self ''mac2'' (str ''00:22:22:22:22:22''),
      assign ''mask'' (str ''/112''),
      set_self ''table_stage_ingress'' (num SAI_ACL_STAGE_INGRESS),
      set_self ''table_stage_egress'' (num SAI_ACL_STAGE_EGRESS),
      set_self ''neighbor_entry1'' (struct ''sai_thrift_neighbor_entry_t'' [(''rif_id'', self ''port0_rif''), (''ip_address'',
        ip_address (self ''ip_addr1''))]),
      run (api_create_entry ''neighbor_entry'' (self ''neighbor_entry1'') [(''dst_mac_address'', self ''mac1'')]),
      set_self ''nhop1'' (api_create ''next_hop'' [(''ip'', ip_address (self ''ip_addr1'')), (''router_interface_id'', self
        ''port0_rif''), (''type'', num SAI_NEXT_HOP_TYPE_IP)]),
      set_self ''route_entry1'' (struct ''sai_thrift_route_entry_t'' [(''vr_id'', self ''default_vrf''), (''destination'',
        ip_prefix (add (self ''ip_addr1'') (var ''mask'')))]),
      run (api_create_entry ''route_entry'' (self ''route_entry1'') [(''next_hop_id'', self ''nhop1'')]),
      set_self ''neighbor_entry2'' (struct ''sai_thrift_neighbor_entry_t'' [(''rif_id'', self ''port1_rif''), (''ip_address'',
        ip_address (self ''ip_addr2''))]),
      run (api_create_entry ''neighbor_entry'' (self ''neighbor_entry2'') [(''dst_mac_address'', self ''mac2'')]),
      set_self ''nhop2'' (api_create ''next_hop'' [(''ip'', ip_address (self ''ip_addr2'')), (''router_interface_id'', self
        ''port1_rif''), (''type'', num SAI_NEXT_HOP_TYPE_IP)]),
      set_self ''route_entry2'' (struct ''sai_thrift_route_entry_t'' [(''vr_id'', self ''default_vrf''), (''destination'',
        ip_prefix (add (self ''ip_addr2'') (var ''mask'')))]),
      run (api_create_entry ''route_entry'' (self ''route_entry2'') [(''next_hop_id'', self ''nhop2'')]),
      set_self ''tcpv6_1'' (lib ''simple_tcpv6_packet'' [] [(''eth_dst'', str ROUTER_MAC), (''eth_src'', self ''mac2''),
        (''ipv6_dst'', self ''ip_addr1''), (''ipv6_src'', self ''ip_addr2''), (''ipv6_hlim'', num 64)]),
      set_self ''exp_tcpv6_1'' (lib ''simple_tcpv6_packet'' [] [(''eth_dst'', self ''mac1''), (''eth_src'', str ROUTER_MAC),
        (''ipv6_dst'', self ''ip_addr1''), (''ipv6_src'', self ''ip_addr2''), (''ipv6_hlim'', num 63)]),
      set_self ''udpv6_1'' (lib ''simple_udpv6_packet'' [] [(''eth_dst'', str ROUTER_MAC), (''eth_src'', self ''mac2''),
        (''ipv6_dst'', self ''ip_addr1''), (''ipv6_src'', self ''ip_addr2''), (''ipv6_hlim'', num 64)]),
      set_self ''exp_udpv6_1'' (lib ''simple_udpv6_packet'' [] [(''eth_dst'', self ''mac1''), (''eth_src'', str ROUTER_MAC),
        (''ipv6_dst'', self ''ip_addr1''), (''ipv6_src'', self ''ip_addr2''), (''ipv6_hlim'', num 63)]),
      set_self ''tcpv6_2'' (lib ''simple_tcpv6_packet'' [] [(''eth_dst'', str ROUTER_MAC), (''eth_src'', self ''mac1''),
        (''ipv6_dst'', self ''ip_addr2''), (''ipv6_src'', self ''ip_addr1''), (''ipv6_hlim'', num 64)]),
      set_self ''exp_tcpv6_2'' (lib ''simple_tcpv6_packet'' [] [(''eth_dst'', self ''mac2''), (''eth_src'', str ROUTER_MAC),
        (''ipv6_dst'', self ''ip_addr2''), (''ipv6_src'', self ''ip_addr1''), (''ipv6_hlim'', num 63)]),
      set_self ''udpv6_2'' (lib ''simple_udpv6_packet'' [] [(''eth_dst'', str ROUTER_MAC), (''eth_src'', self ''mac1''),
        (''ipv6_dst'', self ''ip_addr2''), (''ipv6_src'', self ''ip_addr1''), (''ipv6_hlim'', num 64)]),
      set_self ''exp_udpv6_2'' (lib ''simple_udpv6_packet'' [] [(''eth_dst'', self ''mac2''), (''eth_src'', str ROUTER_MAC),
        (''ipv6_dst'', self ''ip_addr2''), (''ipv6_src'', self ''ip_addr1''), (''ipv6_hlim'', num 63)])]"

definition IPv6NextHdrTest_aclRoutingTest :: "'d stmt" where
  "IPv6NextHdrTest_aclRoutingTest = block [
      try_finally [
        print [self ''ip_addr2'', self ''ip_addr1''],
        print [str ROUTER_MAC, self ''mac2'', self ''ip_addr2'', self ''ip_addr1''],
        run (lib ''send_packet'' [self ''dev_port1'', self ''tcpv6_1''] []),
        print [self ''mac1'', str ROUTER_MAC, self ''ip_addr2'', self ''ip_addr1''],
        run (lib ''verify_packets'' [self ''exp_tcpv6_1'', list_of [self ''dev_port0'']] []),
        run (lib ''send_packet'' [self ''dev_port1'', self ''udpv6_1''] []),
        run (lib ''verify_packets'' [self ''exp_udpv6_1'', list_of [self ''dev_port0'']] []),
        print [self ''ip_addr1'', self ''ip_addr2''],
        print [str ROUTER_MAC, self ''mac1'', self ''ip_addr1'', self ''ip_addr2''],
        run (lib ''send_packet'' [self ''dev_port0'', self ''tcpv6_2''] []),
        print [self ''mac2'', str ROUTER_MAC, self ''ip_addr1'', self ''ip_addr2''],
        run (lib ''verify_packets'' [self ''exp_tcpv6_2'', list_of [self ''dev_port1'']] []),
        run (lib ''send_packet'' [self ''dev_port0'', self ''udpv6_2''] []),
        run (lib ''verify_packets'' [self ''exp_udpv6_2'', list_of [self ''dev_port1'']] [])] []]"

definition IPv6NextHdrTest_aclIPv6NextHdrTest :: "'d stmt" where
  "IPv6NextHdrTest_aclIPv6NextHdrTest = block [
      assign ''acl_mask'' (str ''ffff:ffff:ffff:ffff:ffff:ffff:ffff:ffff''),
      assign ''table_bind_point_list'' (list_of [num SAI_ACL_BIND_POINT_TYPE_PORT]),
      assign ''ipv6_next_header'' (num 6),
      if_else (eq (var ''table_stage'') (num SAI_ACL_STAGE_INGRESS)) [
        assign ''src_ip'' (self ''ip_addr2''),
        assign ''dst_ip'' (self ''ip_addr1'')] [
        if_else (eq (var ''table_stage'') (num SAI_ACL_STAGE_EGRESS)) [
          assign ''src_ip'' (self ''ip_addr1''),
          assign ''dst_ip'' (self ''ip_addr2'')] []],
      assign ''table_bind_point_type_list'' (struct ''sai_thrift_s32_list_t'' [(''count'', length_of (var
        ''table_bind_point_list'')), (''int32list'', var ''table_bind_point_list'')]),
      assign ''acl_table_id'' (api_create ''acl_table'' [(''acl_stage'', var ''table_stage''), (''acl_bind_point_type_list'',
        var ''table_bind_point_type_list''), (''field_src_ipv6'', bool True), (''field_ipv6_next_header'', bool True)]),
      assign ''src_ip_t'' (struct ''sai_thrift_acl_field_data_t'' [(''data'', struct ''sai_thrift_acl_field_data_data_t''
        [(''ip6'', var ''src_ip'')]), (''mask'', struct ''sai_thrift_acl_field_data_mask_t'' [(''ip6'', var ''acl_mask'')])]),
      assign ''packet_action'' (struct ''sai_thrift_acl_action_data_t'' [(''parameter'', struct
        ''sai_thrift_acl_action_parameter_t'' [(''s32'', num SAI_PACKET_ACTION_DROP)]), (''enable'', bool True)]),
      assign ''field_ipv6_next_header'' (struct ''sai_thrift_acl_field_data_t'' [(''data'', struct
        ''sai_thrift_acl_field_data_data_t'' [(''u8'', var ''ipv6_next_header'')]), (''mask'', struct
        ''sai_thrift_acl_field_data_mask_t'' [(''u8'', num 15)])]),
      assign ''acl_entry_id'' (api_create ''acl_entry'' [(''priority'', num 9999), (''table_id'', var ''acl_table_id''),
        (''field_src_ipv6'', var ''src_ip_t''), (''action_packet_action'', var ''packet_action''), (''field_ipv6_next_header'',
        var ''field_ipv6_next_header'')]),
      assign ''acl_counter'' (api_create ''acl_counter'' [(''table_id'', var ''acl_table_id'')]),
      assign ''action_counter'' (struct ''sai_thrift_acl_action_data_t'' [(''parameter'', struct
        ''sai_thrift_acl_action_parameter_t'' [(''oid'', var ''acl_counter'')]), (''enable'', bool True)]),
      run (api_set ''acl_entry'' (var ''acl_entry_id'') [(''action_counter'', var ''action_counter'')]),
      if_else (eq (var ''table_stage'') (num SAI_ACL_STAGE_INGRESS)) [
        run (api_set ''port'' (self ''port1'') [(''ingress_acl'', var ''acl_table_id'')]),
        assign ''sport'' (self ''dev_port1''),
        assign ''dport'' (self ''dev_port0''),
        assign ''pkt_udp'' (self ''udpv6_1''),
        assign ''exp_pkt_udp'' (self ''exp_udpv6_1''),
        assign ''pkt_tcp'' (self ''tcpv6_1''),
        assign ''exp_pkt_tcp'' (self ''exp_tcpv6_1''),
        assign ''dmac'' (self ''mac1''),
        assign ''smac'' (self ''mac2'')] [
        if_else (eq (var ''table_stage'') (num SAI_ACL_STAGE_EGRESS)) [
          run (api_set ''port'' (self ''port1'') [(''egress_acl'', var ''acl_table_id'')]),
          assign ''sport'' (self ''dev_port0''),
          assign ''dport'' (self ''dev_port1''),
          assign ''pkt_udp'' (self ''udpv6_2''),
          assign ''exp_pkt_udp'' (self ''exp_udpv6_2''),
          assign ''pkt_tcp'' (self ''tcpv6_2''),
          assign ''exp_pkt_tcp'' (self ''exp_tcpv6_2''),
          assign ''dmac'' (self ''mac2''),
          assign ''smac'' (self ''mac1'')] []],
      try_finally [
        assert_ne (var ''acl_table_id'') (num 0),
        assert_ne (var ''acl_entry_id'') (num 0),
        print [var ''src_ip'', var ''dst_ip''],
        print [str ROUTER_MAC, var ''smac'', var ''src_ip'', var ''dst_ip''],
        run (lib ''send_packet'' [var ''sport'', var ''pkt_tcp''] []),
        print [var ''dmac'', str ROUTER_MAC, var ''src_ip'', var ''dst_ip''],
        run (lib ''verify_no_other_packets'' [] [(''timeout'', num 2)]),
        assign ''packets'' (api_get ''acl_counter'' (var ''acl_counter'') [(''packets'', bool True)]),
        assert_eq (item (var ''packets'') (str ''packets'')) (num 1),
        print [str ROUTER_MAC, var ''smac'', var ''src_ip'', var ''dst_ip''],
        run (lib ''send_packet'' [var ''sport'', var ''pkt_udp''] []),
        print [var ''dmac'', str ROUTER_MAC, var ''src_ip'', var ''dst_ip''],
        run (lib ''verify_packets'' [var ''exp_pkt_udp'', list_of [var ''dport'']] []),
        assign ''aclaction_data'' (struct ''sai_thrift_acl_action_data_t'' [(''parameter'', struct
          ''sai_thrift_acl_action_parameter_t'' [(''s32'', num SAI_PACKET_ACTION_FORWARD)]), (''enable'', bool True)]),
        run (api_set ''acl_entry'' (var ''acl_entry_id'') [(''action_packet_action'', var ''aclaction_data'')]),
        print [str ROUTER_MAC, var ''smac'', var ''src_ip'', var ''dst_ip''],
        run (lib ''send_packet'' [var ''sport'', var ''pkt_tcp''] []),
        print [var ''dmac'', str ROUTER_MAC, var ''src_ip'', var ''dst_ip''],
        run (lib ''verify_packets'' [var ''exp_pkt_tcp'', list_of [var ''dport'']] []),
        assign ''packets'' (api_get ''acl_counter'' (var ''acl_counter'') [(''packets'', bool True)]),
        assert_eq (item (var ''packets'') (str ''packets'')) (num 1)] [
        assign ''action_counter'' (struct ''sai_thrift_acl_action_data_t'' [(''parameter'', struct
          ''sai_thrift_acl_action_parameter_t'' [(''oid'', num 0)]), (''enable'', bool True)]),
        run (api_set ''acl_entry'' (var ''acl_entry_id'') [(''action_counter'', var ''action_counter'')]),
        run (api_set ''acl_counter'' (var ''acl_counter'') [(''packets'', none)]),
        assign ''packets'' (api_get ''acl_counter'' (var ''acl_counter'') [(''packets'', bool True)]),
        assert_eq (item (var ''packets'') (str ''packets'')) (num 0),
        run (api_remove ''acl_counter'' (var ''acl_counter'')),
        if_else (eq (var ''table_stage'') (num SAI_ACL_STAGE_INGRESS)) [
          run (api_set ''port'' (self ''port1'') [(''ingress_acl'', num 0)])] [
          if_else (eq (var ''table_stage'') (num SAI_ACL_STAGE_EGRESS)) [
            run (api_set ''port'' (self ''port1'') [(''egress_acl'', num 0)])] []],
        run (api_remove ''acl_entry'' (var ''acl_entry_id'')),
        run (api_remove ''acl_table'' (var ''acl_table_id''))]]"

definition IPv6NextHdrTest_runTest :: "'d stmt" where
  "IPv6NextHdrTest_runTest = block [
      run (invoke [] IPv6NextHdrTest_aclRoutingTest),
      run (invoke [(''table_stage'', self ''table_stage_ingress'')] IPv6NextHdrTest_aclIPv6NextHdrTest),
      run (invoke [(''table_stage'', self ''table_stage_egress'')] IPv6NextHdrTest_aclIPv6NextHdrTest)]"

definition IPv6NextHdrTest_tearDown :: "'d stmt" where
  "IPv6NextHdrTest_tearDown = block [
      run (api_remove ''route_entry'' (self ''route_entry1'')),
      run (api_remove ''next_hop'' (self ''nhop1'')),
      run (api_remove ''neighbor_entry'' (self ''neighbor_entry1'')),
      run (api_remove ''route_entry'' (self ''route_entry2'')),
      run (api_remove ''next_hop'' (self ''nhop2'')),
      run (api_remove ''neighbor_entry'' (self ''neighbor_entry2'')),
      run destroy_rifs,
      super_tearDown]"

definition IPAclFragmentTest_setUp :: "'d stmt" where
  "IPAclFragmentTest_setUp = block [
      super_setUp,
      run (create_rifs [0, 1]),
      set_self ''ip_addr1'' (str ''172.16.10.1''),
      set_self ''ip_addr2'' (str ''192.168.0.1''),
      set_self ''dmac1'' (str ''00:11:22:33:44:55''),
      set_self ''dmac2'' (str ''00:22:22:22:22:22''),
      assign ''mask'' (str ''/24''),
      set_self ''table_stage_ingress'' (num SAI_ACL_STAGE_INGRESS),
      set_self ''table_stage_egress'' (num SAI_ACL_STAGE_EGRESS),
      set_self ''neighbor_entry1'' (struct ''sai_thrift_neighbor_entry_t'' [(''rif_id'', self ''port0_rif''), (''ip_address'',
        ip_address (self ''ip_addr1''))]),
      run (api_create_entry ''neighbor_entry'' (self ''neighbor_entry1'') [(''dst_mac_address'', self ''dmac1'')]),
      set_self ''nhop1'' (api_create ''next_hop'' [(''ip'', ip_address (self ''ip_addr1'')), (''router_interface_id'', self
        ''port0_rif''), (''type'', num SAI_NEXT_HOP_TYPE_IP)]),
      set_self ''route_entry1'' (struct ''sai_thrift_route_entry_t'' [(''vr_id'', self ''default_vrf''), (''destination'',
        ip_prefix (add (self ''ip_addr1'') (var ''mask'')))]),
      run (api_create_entry ''route_entry'' (self ''route_entry1'') [(''next_hop_id'', self ''nhop1'')]),
      set_self ''neighbor_entry2'' (struct ''sai_thrift_neighbor_entry_t'' [(''rif_id'', self ''port1_rif''), (''ip_address'',
        ip_address (self ''ip_addr2''))]),
      run (api_create_entry ''neighbor_entry'' (self ''neighbor_entry2'') [(''dst_mac_address'', self ''dmac2'')]),
      set_self ''nhop2'' (api_create ''next_hop'' [(''ip'', ip_address (self ''ip_addr2'')), (''router_interface_id'', self
        ''port1_rif''), (''type'', num SAI_NEXT_HOP_TYPE_IP)]),
      set_self ''route_entry2'' (struct ''sai_thrift_route_entry_t'' [(''vr_id'', self ''default_vrf''), (''destination'',
        ip_prefix (add (self ''ip_addr2'') (var ''mask'')))]),
      run (api_create_entry ''route_entry'' (self ''route_entry2'') [(''next_hop_id'', self ''nhop2'')]),
      set_self ''pkt1'' (lib ''simple_tcp_packet'' [] [(''eth_dst'', str ROUTER_MAC), (''eth_src'', self ''dmac2''),
        (''ip_dst'', self ''ip_addr1''), (''ip_src'', self ''ip_addr2''), (''ip_id'', num 105), (''ip_tos'', num 200),
        (''ip_ttl'', num 64)]),
      set_self ''exp_pkt1'' (lib ''simple_tcp_packet'' [] [(''eth_dst'', self ''dmac1''), (''eth_src'', str ROUTER_MAC),
        (''ip_dst'', self ''ip_addr1''), (''ip_src'', self ''ip_addr2''), (''ip_id'', num 105), (''ip_tos'', num 200),
        (''ip_ttl'', num 63)]),
      set_self ''pkt2'' (lib ''simple_tcp_packet'' [] [(''eth_dst'', str ROUTER_MAC), (''eth_src'', self ''dmac1''),
        (''ip_dst'', self ''ip_addr2''), (''ip_src'', self ''ip_addr1''), (''ip_id'', num 105), (''ip_tos'', num 200),
        (''ip_ttl'', num 64)]),
      set_self ''exp_pkt2'' (lib ''simple_tcp_packet'' [] [(''eth_dst'', self ''dmac2''), (''eth_src'', str ROUTER_MAC),
        (''ip_dst'', self ''ip_addr2''), (''ip_src'', self ''ip_addr1''), (''ip_id'', num 105), (''ip_tos'', num 200),
        (''ip_ttl'', num 63)])]"

definition IPAclFragmentTest_aclRoutingTest :: "'d stmt" where
  "IPAclFragmentTest_aclRoutingTest = block [
      try_finally [
        print [str ROUTER_MAC, self ''dmac2'', self ''ip_addr1'', self ''ip_addr2''],
        run (lib ''send_packet'' [self ''dev_port1'', self ''pkt1''] []),
        print [self ''dmac1'', str ROUTER_MAC, self ''ip_addr1'', self ''ip_addr2''],
        run (lib ''verify_packets'' [self ''exp_pkt1'', list_of [self ''dev_port0'']] []),
        print [str ROUTER_MAC, self ''dmac1'', self ''ip_addr2'', self ''ip_addr1''],
        run (lib ''send_packet'' [self ''dev_port0'', self ''pkt2''] []),
        print [self ''dmac2'', str ROUTER_MAC, self ''ip_addr2'', self ''ip_addr1''],
        run (lib ''verify_packets'' [self ''exp_pkt2'', list_of [self ''dev_port1'']] [])] []]"

definition IPAclFragmentTest_tearDown :: "'d stmt" where
  "IPAclFragmentTest_tearDown = block [
      run (api_remove ''route_entry'' (self ''route_entry1'')),
      run (api_remove ''next_hop'' (self ''nhop1'')),
      run (api_remove ''neighbor_entry'' (self ''neighbor_entry1'')),
      run (api_remove ''route_entry'' (self ''route_entry2'')),
      run (api_remove ''next_hop'' (self ''nhop2'')),
      run (api_remove ''neighbor_entry'' (self ''neighbor_entry2'')),
      run destroy_rifs,
      super_tearDown]"

definition L3AclCounterTest_setUp :: "'d stmt" where
  "L3AclCounterTest_setUp = block [
      super_setUp,
      run (create_rifs [0, 1]),
      assign ''l4_src_port'' (num 1000),
      assign ''mask'' (str ''/24''),
      set_self ''ip_addr1'' (str ''172.16.10.1''),
      set_self ''dmac1'' (str ''00:11:22:33:44:55''),
      set_self ''ip_addr2'' (str ''192.168.100.100''),
      set_self ''dmac2'' (str ''00:22:22:22:22:22''),
      set_self ''table_stage_ingress'' (num SAI_ACL_STAGE_INGRESS),
      set_self ''table_stage_egress'' (num SAI_ACL_STAGE_EGRESS),
      set_self ''neighbor_entry1'' (struct ''sai_thrift_neighbor_entry_t'' [(''rif_id'', self ''port0_rif''), (''ip_address'',
        ip_address (self ''ip_addr1''))]),
      run (api_create_entry ''neighbor_entry'' (self ''neighbor_entry1'') [(''dst_mac_address'', self ''dmac1'')]),
      set_self ''nhop1'' (api_create ''next_hop'' [(''ip'', ip_address (self ''ip_addr1'')), (''router_interface_id'', self
        ''port0_rif''), (''type'', num SAI_NEXT_HOP_TYPE_IP)]),
      set_self ''route_entry1'' (struct ''sai_thrift_route_entry_t'' [(''vr_id'', self ''default_vrf''), (''destination'',
        ip_prefix (add (self ''ip_addr1'') (var ''mask'')))]),
      run (api_create_entry ''route_entry'' (self ''route_entry1'') [(''next_hop_id'', self ''nhop1'')]),
      set_self ''neighbor_entry2'' (struct ''sai_thrift_neighbor_entry_t'' [(''rif_id'', self ''port1_rif''), (''ip_address'',
        ip_address (self ''ip_addr2''))]),
      run (api_create_entry ''neighbor_entry'' (self ''neighbor_entry2'') [(''dst_mac_address'', self ''dmac2'')]),
      set_self ''nhop2'' (api_create ''next_hop'' [(''ip'', ip_address (self ''ip_addr2'')), (''router_interface_id'', self
        ''port1_rif''), (''type'', num SAI_NEXT_HOP_TYPE_IP)]),
      set_self ''route_entry2'' (struct ''sai_thrift_route_entry_t'' [(''vr_id'', self ''default_vrf''), (''destination'',
        ip_prefix (add (self ''ip_addr2'') (var ''mask'')))]),
      run (api_create_entry ''route_entry'' (self ''route_entry2'') [(''next_hop_id'', self ''nhop2'')]),
      set_self ''pkt1'' (lib ''simple_tcp_packet'' [] [(''eth_dst'', str ROUTER_MAC), (''eth_src'', self ''dmac2''),
        (''ip_dst'', self ''ip_addr1''), (''ip_src'', self ''ip_addr2''), (''tcp_sport'', var ''l4_src_port''), (''ip_id'', num
        105), (''ip_ttl'', num 64)]),
      set_self ''exp_pkt1'' (lib ''simple_tcp_packet'' [] [(''eth_dst'', self ''dmac1''), (''eth_src'', str ROUTER_MAC),
        (''ip_dst'', self ''ip_addr1''), (''ip_src'', self ''ip_addr2''), (''tcp_sport'', var ''l4_src_port''), (''ip_id'', num
        105), (''ip_ttl'', num 63)]),
      set_self ''pkt2'' (lib ''simple_tcp_packet'' [] [(''eth_dst'', str ROUTER_MAC), (''eth_src'', self ''dmac1''),
        (''ip_dst'', self ''ip_addr2''), (''ip_src'', self ''ip_addr1''), (''tcp_sport'', var ''l4_src_port''), (''ip_id'', num
        105), (''ip_ttl'', num 64)]),
      set_self ''exp_pkt2'' (lib ''simple_tcp_packet'' [] [(''eth_dst'', self ''dmac2''), (''eth_src'', str ROUTER_MAC),
        (''ip_dst'', self ''ip_addr2''), (''ip_src'', self ''ip_addr1''), (''tcp_sport'', var ''l4_src_port''), (''ip_id'', num
        105), (''ip_ttl'', num 63)])]"

definition L3AclCounterTest_aclRoutingTest :: "'d stmt" where
  "L3AclCounterTest_aclRoutingTest = block [
      print [self ''ip_addr2'', self ''ip_addr1''],
      try_finally [
        print [str ROUTER_MAC, self ''dmac2'', self ''ip_addr2'', self ''ip_addr1''],
        run (lib ''send_packet'' [self ''dev_port1'', self ''pkt1''] []),
        print [self ''dmac1'', str ROUTER_MAC, self ''ip_addr2'', self ''ip_addr1''],
        run (lib ''verify_packets'' [self ''exp_pkt1'', list_of [self ''dev_port0'']] []),
        print [self ''ip_addr1'', self ''ip_addr2''],
        print [str ROUTER_MAC, self ''dmac1'', self ''ip_addr1'', self ''ip_addr2''],
        run (lib ''send_packet'' [self ''dev_port0'', self ''pkt2''] []),
        print [self ''dmac2'', str ROUTER_MAC, self ''ip_addr1'', self ''ip_addr2''],
        run (lib ''verify_packets'' [self ''exp_pkt2'', list_of [self ''dev_port1'']] [])] []]"

definition L3AclCounterTest_l3AclCounterTest :: "'d stmt" where
  "L3AclCounterTest_l3AclCounterTest = block [
      assign ''entry_priority'' (num 1),
      assign ''action'' (num SAI_PACKET_ACTION_DROP),
      assign ''ip_src_mask'' (str ''255.255.255.0''),
      if_else (eq (var ''table_stage'') (num SAI_ACL_STAGE_INGRESS)) [
        assign ''ip_src'' (str ''192.168.100.1''),
        assign ''ip_src_addr'' (str ''192.168.100.100''),
        assign ''ip_dst'' (self ''ip_addr1''),
        assign ''ip_dst_addr'' (str ''172.16.10.1''),
        assign ''dmac'' (self ''dmac1''),
        assign ''smac'' (self ''dmac2'')] [
        if_else (eq (var ''table_stage'') (num SAI_ACL_STAGE_EGRESS)) [
          assign ''ip_src'' (str ''172.16.10.1''),
          assign ''ip_src_addr'' (str ''172.16.10.1''),
          assign ''ip_dst'' (str ''192.168.100.1''),
          assign ''ip_dst_addr'' (str ''192.168.100.100''),
          assign ''dmac'' (self ''dmac2''),
          assign ''smac'' (self ''dmac1'')] []],
      print [var ''ip_src'', var ''ip_dst''],
      assign ''table_bind_points'' (list_of [num SAI_ACL_BIND_POINT_TYPE_ROUTER_INTF]),
      assign ''table_bind_point_type_list'' (struct ''sai_thrift_s32_list_t'' [(''count'', length_of (var
        ''table_bind_points'')), (''int32list'', var ''table_bind_points'')]),
      assign ''src_ip_t'' (struct ''sai_thrift_acl_field_data_t'' [(''data'', struct ''sai_thrift_acl_field_data_data_t''
        [(''ip4'', var ''ip_src'')]), (''mask'', struct ''sai_thrift_acl_field_data_mask_t'' [(''ip4'', var ''ip_src_mask'')])]),
      assign ''packet_action'' (struct ''sai_thrift_acl_action_data_t'' [(''parameter'', struct
        ''sai_thrift_acl_action_parameter_t'' [(''s32'', var ''action'')])]),
      assign ''acl_table_id'' (api_create ''acl_table'' [(''acl_stage'', var ''table_stage''), (''acl_bind_point_type_list'',
        var ''table_bind_point_type_list''), (''field_src_ip'', bool True)]),
      assign ''acl_entry_id'' (api_create ''acl_entry'' [(''table_id'', var ''acl_table_id''), (''priority'', var
        ''entry_priority''), (''field_src_ip'', var ''src_ip_t''), (''action_packet_action'', var ''packet_action'')]),
      if_else (eq (var ''table_stage'') (num SAI_ACL_STAGE_INGRESS)) [
        run (api_set ''router_interface'' (self ''port1_rif'') [(''ingress_acl'', var ''acl_table_id'')]),
        assign ''pkt'' (self ''pkt1''),
        assign ''sport'' (self ''dev_port1'')] [
        if_else (eq (var ''table_stage'') (num SAI_ACL_STAGE_EGRESS)) [
          run (api_set ''router_interface'' (self ''port1_rif'') [(''egress_acl'', var ''acl_table_id'')]),
          assign ''pkt'' (self ''pkt2''),
          assign ''sport'' (self ''dev_port0'')] []],
      assign ''acl_counter_id'' (api_create ''acl_counter'' [(''table_id'', var ''acl_table_id'')]),
      assign ''action_counter_t'' (struct ''sai_thrift_acl_action_data_t'' [(''parameter'', struct
        ''sai_thrift_acl_action_parameter_t'' [(''oid'', var ''acl_counter_id'')]), (''enable'', bool True)]),
      run (api_set ''acl_entry'' (var ''acl_entry_id'') [(''action_counter'', var ''action_counter_t'')]),
      try_finally [
        assert_ne (var ''acl_table_id'') (num 0),
        assert_ne (var ''acl_entry_id'') (num 0),
        assert_ne (var ''acl_counter_id'') (num 0),
        assign ''pkt_cnt'' (num 5),
        assign ''attr_values'' (api_get ''acl_counter'' (var ''acl_counter_id'') [(''packets'', bool True), (''bytes'', bool
          True)]),
        assign ''initial_pkts_cnt'' (item (var ''attr_values'') (str ''packets'')),
        assign ''initial_bytes_cnt'' (item (var ''attr_values'') (str ''bytes'')),
        print [var ''ip_src'', var ''ip_src_mask''],
        print [str ROUTER_MAC, var ''smac'', var ''ip_src_addr'', var ''ip_dst_addr''],
        for_in [''i''] (range_of (num 0) (var ''pkt_cnt'')) [
          print [var ''i'', var ''pkt_cnt''],
          run (lib ''send_packet'' [var ''sport'', var ''pkt''] [])],
        print [var ''dmac'', str ROUTER_MAC, var ''ip_src_addr'', var ''ip_dst_addr''],
        run (lib ''verify_no_other_packets'' [] [(''timeout'', num 1)]),
        sleep_for (num 2),
        assign ''attr_values'' (api_get ''acl_counter'' (var ''acl_counter_id'') [(''packets'', bool True), (''bytes'', bool
          True)]),
        assign ''actual_pkts_cnt'' (sub (item (var ''attr_values'') (str ''packets'')) (var ''initial_pkts_cnt'')),
        print [var ''actual_pkts_cnt''],
        assign ''actual_bytes_cnt'' (sub (item (var ''attr_values'') (str ''bytes'')) (var ''initial_bytes_cnt'')),
        print [var ''actual_bytes_cnt''],
        assert_eq (var ''actual_pkts_cnt'') (var ''pkt_cnt'')] [
        if_else (eq (var ''table_stage'') (num SAI_ACL_STAGE_INGRESS)) [
          run (api_set ''router_interface'' (self ''port1_rif'') [(''ingress_acl'', num 0)])] [
          if_else (eq (var ''table_stage'') (num SAI_ACL_STAGE_EGRESS)) [
            run (api_set ''router_interface'' (self ''port1_rif'') [(''egress_acl'', num 0)])] []],
        run (api_remove ''acl_entry'' (var ''acl_entry_id'')),
        run (api_remove ''acl_table'' (var ''acl_table_id'')),
        run (api_remove ''acl_counter'' (var ''acl_counter_id''))]]"

definition L3AclCounterTest_runTest :: "'d stmt" where
  "L3AclCounterTest_runTest = block [
      run (invoke [] L3AclCounterTest_aclRoutingTest),
      run (invoke [(''table_stage'', self ''table_stage_ingress'')] L3AclCounterTest_l3AclCounterTest),
      run (invoke [(''table_stage'', self ''table_stage_egress'')] L3AclCounterTest_l3AclCounterTest)]"

definition L3AclCounterTest_tearDown :: "'d stmt" where
  "L3AclCounterTest_tearDown = block [
      run (api_remove ''route_entry'' (self ''route_entry1'')),
      run (api_remove ''next_hop'' (self ''nhop1'')),
      run (api_remove ''neighbor_entry'' (self ''neighbor_entry1'')),
      run (api_remove ''route_entry'' (self ''route_entry2'')),
      run (api_remove ''next_hop'' (self ''nhop2'')),
      run (api_remove ''neighbor_entry'' (self ''neighbor_entry2'')),
      run destroy_rifs,
      super_tearDown]"

definition VlanAclTest_setUp :: "'d stmt" where
  "VlanAclTest_setUp = block [
      super_setUp,
      assign ''vlan_id'' (num 100),
      assign ''mac1'' (str ''00:11:11:11:11:11''),
      assign ''mac2'' (str ''00:22:22:22:22:22''),
      set_self ''ip_addr1'' (str ''192.168.100.1''),
      set_self ''ip_addr2'' (str ''172.16.0.1''),
      assign ''mac_action'' (num SAI_PACKET_ACTION_FORWARD),
      set_self ''table_stage_ingress'' (num SAI_ACL_STAGE_INGRESS),
      set_self ''table_stage_egress'' (num SAI_ACL_STAGE_EGRESS),
      set_self ''group_stage_ingress'' (num SAI_ACL_STAGE_INGRESS),
      set_self ''group_stage_egress'' (num SAI_ACL_STAGE_EGRESS),
      set_self ''vlan_oid'' (api_create ''vlan'' [(''vlan_id'', var ''vlan_id'')]),
      set_self ''port24_bp'' (api_create ''bridge_port'' [(''bridge_id'', self ''default_1q_bridge''), (''port_id'', self
        ''port24''), (''type'', num SAI_BRIDGE_PORT_TYPE_PORT), (''admin_state'', bool True)]),
      set_self ''vlan_member1'' (api_create ''vlan_member'' [(''vlan_id'', self ''vlan_oid''), (''bridge_port_id'', self
        ''port24_bp''), (''vlan_tagging_mode'', num SAI_VLAN_TAGGING_MODE_TAGGED)]),
      set_self ''port25_bp'' (api_create ''bridge_port'' [(''bridge_id'', self ''default_1q_bridge''), (''port_id'', self
        ''port25''), (''type'', num SAI_BRIDGE_PORT_TYPE_PORT), (''admin_state'', bool True)]),
      set_self ''vlan_member2'' (api_create ''vlan_member'' [(''vlan_id'', self ''vlan_oid''), (''bridge_port_id'', self
        ''port25_bp''), (''vlan_tagging_mode'', num SAI_VLAN_TAGGING_MODE_TAGGED)]),
      set_self ''fdb_entry1'' (struct ''sai_thrift_fdb_entry_t'' [(''switch_id'', self ''switch_id''), (''mac_address'', var
        ''mac1''), (''bv_id'', self ''vlan_oid'')]),
      run (api_create_entry ''fdb_entry'' (self ''fdb_entry1'') [(''type'', num SAI_FDB_ENTRY_TYPE_STATIC), (''bridge_port_id'',
        self ''port24_bp''), (''packet_action'', var ''mac_action'')]),
      set_self ''fdb_entry2'' (struct ''sai_thrift_fdb_entry_t'' [(''switch_id'', self ''switch_id''), (''mac_address'', var
        ''mac2''), (''bv_id'', self ''vlan_oid'')]),
      run (api_create_entry ''fdb_entry'' (self ''fdb_entry2'') [(''type'', num SAI_FDB_ENTRY_TYPE_STATIC), (''bridge_port_id'',
        self ''port25_bp''), (''packet_action'', var ''mac_action'')]),
      set_self ''pkt1'' (lib ''simple_tcp_packet'' [] [(''eth_dst'', var ''mac2''), (''eth_src'', var ''mac1''),
        (''dl_vlan_enable'', bool True), (''vlan_vid'', num 100), (''ip_src'', self ''ip_addr1''), (''ip_dst'', self
        ''ip_addr2''), (''ip_id'', num 102), (''ip_ttl'', num 64)]),
      set_self ''exp_pkt1'' (lib ''simple_tcp_packet'' [] [(''eth_dst'', var ''mac2''), (''eth_src'', var ''mac1''),
        (''ip_dst'', self ''ip_addr2''), (''ip_src'', self ''ip_addr1''), (''ip_id'', num 102), (''dl_vlan_enable'', bool True),
        (''vlan_vid'', num 100), (''ip_ttl'', num 64)]),
      set_self ''pkt2'' (lib ''simple_tcp_packet'' [] [(''eth_dst'', var ''mac1''), (''eth_src'', var ''mac2''),
        (''dl_vlan_enable'', bool True), (''vlan_vid'', num 100), (''ip_src'', self ''ip_addr2''), (''ip_dst'', self
        ''ip_addr1''), (''ip_id'', num 102), (''ip_ttl'', num 64)]),
      set_self ''exp_pkt2'' (lib ''simple_tcp_packet'' [] [(''eth_dst'', var ''mac1''), (''eth_src'', var ''mac2''),
        (''ip_dst'', self ''ip_addr1''), (''ip_src'', self ''ip_addr2''), (''ip_id'', num 102), (''dl_vlan_enable'', bool True),
        (''vlan_vid'', num 100), (''ip_ttl'', num 64)])]"

definition VlanAclTest_noAclTest :: "'d stmt" where
  "VlanAclTest_noAclTest = block [
      run (lib ''send_packet'' [self ''dev_port24'', self ''pkt1''] []),
      run (lib ''verify_packets'' [self ''exp_pkt1'', list_of [self ''dev_port25'']] []),
      run (lib ''send_packet'' [self ''dev_port25'', self ''pkt2''] []),
      run (lib ''verify_packets'' [self ''exp_pkt2'', list_of [self ''dev_port24'']] [])]"

definition VlanAclTest_aclVlanTest :: "'d stmt" where
  "VlanAclTest_aclVlanTest = block [
      assign ''table_bind_point_list'' (list_of [num SAI_ACL_BIND_POINT_TYPE_VLAN]),
      assign ''entry_priority'' (num 1),
      assign ''group_bind_point_list'' (list_of [num SAI_ACL_BIND_POINT_TYPE_VLAN]),
      assign ''group_type'' (num SAI_ACL_TABLE_GROUP_TYPE_PARALLEL),
      assign ''group_member_priority'' (num 100),
      assign ''acl_action'' (num SAI_PACKET_ACTION_DROP),
      assign ''ip_src_mask'' (str ''255.255.255.0''),
      if_else (eq (var ''table_stage'') (num SAI_ACL_STAGE_INGRESS)) [
        assign ''ip_src'' (self ''ip_addr1''),
        assign ''sport'' (self ''dev_port24''),
        assign ''pkt'' (self ''pkt1'')] [
        if_else (eq (var ''table_stage'') (num SAI_ACL_STAGE_EGRESS)) [
          assign ''ip_src'' (self ''ip_addr2''),
          assign ''sport'' (self ''dev_port25''),
          assign ''pkt'' (self ''pkt2'')] []],
      assign ''group_bind_point_type_list'' (struct ''sai_thrift_s32_list_t'' [(''count'', length_of (var
        ''group_bind_point_list'')), (''int32list'', var ''group_bind_point_list'')]),
      assign ''table_bind_point_type_list'' (struct ''sai_thrift_s32_list_t'' [(''count'', length_of (var
        ''table_bind_point_list'')), (''int32list'', var ''table_bind_point_list'')]),
      assign ''packet_action'' (struct ''sai_thrift_acl_action_data_t'' [(''parameter'', struct
        ''sai_thrift_acl_action_parameter_t'' [(''s32'', var ''acl_action'')])]),
      assign ''acl_table_group_id'' (api_create ''acl_table_group'' [(''acl_stage'', var ''group_stage''),
        (''acl_bind_point_type_list'', var ''group_bind_point_type_list''), (''type'', var ''group_type'')]),
      assign ''acl_table_id'' (api_create ''acl_table'' [(''acl_stage'', var ''table_stage''), (''acl_bind_point_type_list'',
        var ''table_bind_point_type_list''), (''field_src_ip'', bool True)]),
      assign ''src_ip_t'' (struct ''sai_thrift_acl_field_data_t'' [(''data'', struct ''sai_thrift_acl_field_data_data_t''
        [(''ip4'', var ''ip_src'')]), (''mask'', struct ''sai_thrift_acl_field_data_mask_t'' [(''ip4'', var ''ip_src_mask'')])]),
      assign ''acl_table_group_member_id'' (api_create ''acl_table_group_member'' [(''acl_table_group_id'', var
        ''acl_table_group_id''), (''acl_table_id'', var ''acl_table_id''), (''priority'', var ''group_member_priority'')]),
      assign ''acl_entry_id'' (api_create ''acl_entry'' [(''table_id'', var ''acl_table_id''), (''priority'', var
        ''entry_priority''), (''field_src_ip'', var ''src_ip_t''), (''action_packet_action'', var ''packet_action'')]),
      assign ''acl_counter'' (api_create ''acl_counter'' [(''table_id'', var ''acl_table_id'')]),
      assign ''action_counter'' (struct ''sai_thrift_acl_action_data_t'' [(''parameter'', struct
        ''sai_thrift_acl_action_parameter_t'' [(''oid'', var ''acl_counter'')]), (''enable'', bool True)]),
      run (api_set ''acl_entry'' (var ''acl_entry_id'') [(''action_counter'', var ''action_counter'')]),
      if_else (eq (var ''table_stage'') (num SAI_ACL_STAGE_INGRESS)) [
        run (api_set ''vlan'' (self ''vlan_oid'') [(''ingress_acl'', var ''acl_table_group_id'')])] [
        if_else (eq (var ''table_stage'') (num SAI_ACL_STAGE_EGRESS)) [
          run (api_set ''vlan'' (self ''vlan_oid'') [(''egress_acl'', var ''acl_table_group_id'')])] []],
      try_finally [
        run (lib ''send_packet'' [var ''sport'', var ''pkt''] []),
        run (lib ''verify_no_other_packets'' [] [(''timeout'', num 1)]),
        assign ''packets'' (api_get ''acl_counter'' (var ''acl_counter'') [(''packets'', bool True)]),
        assert_eq (item (var ''packets'') (str ''packets'')) (num 1)] [
        assign ''action_counter'' (struct ''sai_thrift_acl_action_data_t'' [(''parameter'', struct
          ''sai_thrift_acl_action_parameter_t'' [(''oid'', num 0)]), (''enable'', bool True)]),
        run (api_set ''acl_entry'' (var ''acl_entry_id'') [(''action_counter'', var ''action_counter'')]),
        run (api_set ''acl_counter'' (var ''acl_counter'') [(''packets'', none)]),
        assign ''packets'' (api_get ''acl_counter'' (var ''acl_counter'') [(''packets'', bool True)]),
        assert_eq (item (var ''packets'') (str ''packets'')) (num 0),
        run (api_remove ''acl_counter'' (var ''acl_counter'')),
        if_else (eq (var ''table_stage'') (num SAI_ACL_STAGE_INGRESS)) [
          run (api_set ''vlan'' (self ''vlan_oid'') [(''ingress_acl'', num 0)])] [
          if_else (eq (var ''table_stage'') (num SAI_ACL_STAGE_EGRESS)) [
            run (api_set ''vlan'' (self ''vlan_oid'') [(''egress_acl'', num 0)])] []],
        run (api_remove ''acl_table_group_member'' (var ''acl_table_group_member_id'')),
        run (api_remove ''acl_entry'' (var ''acl_entry_id'')),
        run (api_remove ''acl_table'' (var ''acl_table_id'')),
        run (api_remove ''acl_table_group'' (var ''acl_table_group_id''))]]"

definition VlanAclTest_runTest :: "'d stmt" where
  "VlanAclTest_runTest = block [
      run (invoke [] VlanAclTest_noAclTest),
      run (invoke [(''table_stage'', self ''table_stage_ingress''), (''group_stage'', self ''group_stage_ingress'')]
        VlanAclTest_aclVlanTest),
      run (invoke [(''table_stage'', self ''table_stage_egress''), (''group_stage'', self ''group_stage_egress'')]
        VlanAclTest_aclVlanTest)]"

definition VlanAclTest_tearDown :: "'d stmt" where
  "VlanAclTest_tearDown = block [
      run (api_remove ''fdb_entry'' (self ''fdb_entry1'')),
      run (api_remove ''fdb_entry'' (self ''fdb_entry2'')),
      run (api_remove ''vlan_member'' (self ''vlan_member1'')),
      run (api_remove ''vlan_member'' (self ''vlan_member2'')),
      run (api_remove ''bridge_port'' (self ''port24_bp'')),
      run (api_remove ''bridge_port'' (self ''port25_bp'')),
      run (api_remove ''vlan'' (self ''vlan_oid'')),
      super_tearDown]"

definition AclLagTest_setUp :: "'d stmt" where
  "AclLagTest_setUp = block [
      super_setUp,
      set_self ''lag_id'' (api_create ''lag'' []),
      set_self ''lag_member_id1'' (api_create ''lag_member'' [(''lag_id'', self ''lag_id''), (''port_id'', self ''port24'')]),
      set_self ''vrf'' (api_create ''virtual_router'' []),
      set_self ''rif_id1'' (api_create ''router_interface'' [(''type'', num SAI_ROUTER_INTERFACE_TYPE_PORT),
        (''virtual_router_id'', self ''vrf''), (''port_id'', self ''lag_id'')]),
      set_self ''rif_id2'' (api_create ''router_interface'' [(''type'', num SAI_ROUTER_INTERFACE_TYPE_PORT),
        (''virtual_router_id'', self ''vrf''), (''port_id'', self ''port26'')]),
      set_self ''ip_addr1'' (str ''20.0.0.2''),
      set_self ''ip_addr_subnet1'' (str ''20.0.0.0''),
      set_self ''dmac1'' (str ''00:22:22:22:22:22''),
      set_self ''ip_addr_subnet2'' (str ''192.168.0.0''),
      set_self ''ip_addr2'' (str ''192.168.0.1''),
      set_self ''dmac2'' (str ''00:11:22:33:44:55''),
      set_self ''ip_src_mask'' (str ''255.255.255.255''),
      assign ''mask'' (str ''/16''),
      set_self ''neighbor_entry1'' (struct ''sai_thrift_neighbor_entry_t'' [(''rif_id'', self ''rif_id1''), (''ip_address'',
        ip_address (self ''ip_addr2''))]),
      run (api_create_entry ''neighbor_entry'' (self ''neighbor_entry1'') [(''dst_mac_address'', self ''dmac1'')]),
      set_self ''nhop1'' (api_create ''next_hop'' [(''ip'', ip_address (self ''ip_addr2'')), (''router_interface_id'', self
        ''rif_id1''), (''type'', num SAI_NEXT_HOP_TYPE_IP)]),
      set_self ''route_entry1'' (struct ''sai_thrift_route_entry_t'' [(''vr_id'', self ''vrf''), (''destination'', ip_prefix
        (add (self ''ip_addr_subnet2'') (var ''mask'')))]),
      run (api_create_entry ''route_entry'' (self ''route_entry1'') [(''next_hop_id'', self ''nhop1'')]),
      set_self ''neighbor_entry2'' (struct ''sai_thrift_neighbor_entry_t'' [(''rif_id'', self ''rif_id2''), (''ip_address'',
        ip_address (self ''ip_addr1''))]),
      run (api_create_entry ''neighbor_entry'' (self ''neighbor_entry2'') [(''dst_mac_address'', self ''dmac2'')]),
      set_self ''nhop2'' (api_create ''next_hop'' [(''ip'', ip_address (self ''ip_addr1'')), (''router_interface_id'', self
        ''rif_id2''), (''type'', num SAI_NEXT_HOP_TYPE_IP)]),
      set_self ''route_entry2'' (struct ''sai_thrift_route_entry_t'' [(''vr_id'', self ''vrf''), (''destination'', ip_prefix
        (add (self ''ip_addr_subnet1'') (var ''mask'')))]),
      run (api_create_entry ''route_entry'' (self ''route_entry2'') [(''next_hop_id'', self ''nhop2'')])]"

definition AclLagTest_lagAclEgressTest :: "'d stmt" where
  "AclLagTest_lagAclEgressTest = block [
      assign ''table_stage_egress'' (num SAI_ACL_STAGE_EGRESS),
      assign ''table_bind_point_list'' (list_of [num SAI_ACL_BIND_POINT_TYPE_PORT]),
      assign ''action'' (num SAI_PACKET_ACTION_DROP),
      assign ''ip_src'' (self ''ip_addr1''),
      assign ''ip_dst'' (self ''ip_addr_subnet2''),
      assign ''sport'' (self ''dev_port26''),
      assign ''dport1'' (self ''dev_port24''),
      assign ''dport2'' (self ''dev_port25''),
      assign ''table_bind_point_type_list'' (struct ''sai_thrift_s32_list_t'' [(''count'', length_of (var
        ''table_bind_point_list'')), (''int32list'', var ''table_bind_point_list'')]),
      assign ''packet_action'' (struct ''sai_thrift_acl_action_data_t'' [(''parameter'', struct
        ''sai_thrift_acl_action_parameter_t'' [(''s32'', var ''action'')])]),
      assign ''src_ip_t'' (struct ''sai_thrift_acl_field_data_t'' [(''data'', struct ''sai_thrift_acl_field_data_data_t''
        [(''ip4'', var ''ip_src'')]), (''mask'', struct ''sai_thrift_acl_field_data_mask_t'' [(''ip4'', self
        ''ip_src_mask'')])]),
      assign ''acl_table_ipv4_id'' (api_create ''acl_table'' [(''acl_stage'', var ''table_stage_egress''),
        (''acl_bind_point_type_list'', var ''table_bind_point_type_list''), (''field_src_ip'', bool True)]),
      assign ''acl_entry_id'' (api_create ''acl_entry'' [(''table_id'', var ''acl_table_ipv4_id''), (''priority'', num 9999),
        (''field_src_ip'', var ''src_ip_t''), (''action_packet_action'', var ''packet_action'')]),
      assign ''acl_counter_egress'' (api_create ''acl_counter'' [(''table_id'', var ''acl_table_ipv4_id'')]),
      assign ''action_counter_egress'' (struct ''sai_thrift_acl_action_data_t'' [(''parameter'', struct
        ''sai_thrift_acl_action_parameter_t'' [(''oid'', var ''acl_counter_egress'')]), (''enable'', bool True)]),
      run (api_set ''acl_entry'' (var ''acl_entry_id'') [(''action_counter'', var ''action_counter_egress'')]),
      try_finally [
        assign ''pkt'' (lib ''simple_tcp_packet'' [] [(''eth_dst'', str ROUTER_MAC), (''eth_src'', self ''dmac1''), (''ip_src'',
          var ''ip_src''), (''ip_dst'', var ''ip_dst''), (''tcp_sport'', num 17185), (''tcp_dport'', num 81), (''ip_ttl'', num
          64)]),
        assign ''exp_pkt'' (lib ''simple_tcp_packet'' [] [(''eth_dst'', self ''dmac1''), (''eth_src'', str ROUTER_MAC),
          (''ip_src'', var ''ip_src''), (''ip_dst'', var ''ip_dst''), (''tcp_sport'', num 17185), (''tcp_dport'', num 81),
          (''ip_ttl'', num 63)]),
        run (lib ''send_packet'' [var ''sport'', var ''pkt''] []),
        run (lib ''verify_packets'' [var ''exp_pkt''] [(''ports'', list_of [var ''dport1''])]),
        run (api_set ''lag'' (self ''lag_id'') [(''egress_acl'', var ''acl_table_ipv4_id'')]),
        run (lib ''send_packet'' [var ''sport'', var ''pkt''] []),
        run (lib ''verify_no_other_packets'' [] [(''timeout'', num 1)]),
        assign ''packets'' (api_get ''acl_counter'' (var ''acl_counter_egress'') [(''packets'', bool True)]),
        assert_eq (item (var ''packets'') (str ''packets'')) (num 1),
        assign ''lag_member_id2'' (api_create ''lag_member'' [(''lag_id'', self ''lag_id''), (''port_id'', self ''port25'')]),
        run (lib ''send_packet'' [var ''sport'', var ''pkt''] []),
        run (lib ''verify_no_other_packets'' [] [(''timeout'', num 1)]),
        assign ''packets'' (api_get ''acl_counter'' (var ''acl_counter_egress'') [(''packets'', bool True)]),
        assert_eq (item (var ''packets'') (str ''packets'')) (num 2),
        run (api_set ''lag'' (self ''lag_id'') [(''egress_acl'', num 0)]),
        run (lib ''send_packet'' [var ''sport'', var ''pkt''] []),
        run (lib ''verify_any_packet_any_port'' [list_of [var ''exp_pkt''], list_of [var ''dport1'', var ''dport2'']]
          [(''timeout'', num 2)]),
        assign ''packets'' (api_get ''acl_counter'' (var ''acl_counter_egress'') [(''packets'', bool True)]),
        assert_eq (item (var ''packets'') (str ''packets'')) (num 2)] [
        assign ''action_counter_egress'' (struct ''sai_thrift_acl_action_data_t'' [(''parameter'', struct
          ''sai_thrift_acl_action_parameter_t'' [(''oid'', num 0)]), (''enable'', bool True)]),
        run (api_set ''acl_entry'' (var ''acl_entry_id'') [(''action_counter'', var ''action_counter_egress'')]),
        run (api_set ''acl_counter'' (var ''acl_counter_egress'') [(''packets'', none)]),
        assign ''packets'' (api_get ''acl_counter'' (var ''acl_counter_egress'') [(''packets'', bool True)]),
        assert_eq (item (var ''packets'') (str ''packets'')) (num 0),
        run (api_remove ''acl_counter'' (var ''acl_counter_egress'')),
        if_else (var ''lag_member_id2'') [
          run (api_remove ''lag_member'' (var ''lag_member_id2''))] [],
        run (api_remove ''acl_entry'' (var ''acl_entry_id'')),
        run (api_remove ''acl_table'' (var ''acl_table_ipv4_id''))]]"

definition AclLagTest_lagAclIngressTest :: "'d stmt" where
  "AclLagTest_lagAclIngressTest = block [
      assign ''table_stage_ingress'' (num SAI_ACL_STAGE_INGRESS),
      assign ''table_bind_point_list'' (list_of [num SAI_ACL_BIND_POINT_TYPE_PORT]),
      assign ''action'' (num SAI_PACKET_ACTION_DROP),
      assign ''ip_src'' (self ''ip_addr2''),
      assign ''ip_dst'' (self ''ip_addr_subnet1''),
      assign ''dport'' (self ''dev_port26''),
      assign ''sport1'' (self ''dev_port24''),
      assign ''sport2'' (self ''dev_port27''),
      assign ''table_bind_point_type_list'' (struct ''sai_thrift_s32_list_t'' [(''count'', length_of (var
        ''table_bind_point_list'')), (''int32list'', var ''table_bind_point_list'')]),
      assign ''packet_action'' (struct ''sai_thrift_acl_action_data_t'' [(''parameter'', struct
        ''sai_thrift_acl_action_parameter_t'' [(''s32'', var ''action'')])]),
      assign ''src_ip_t'' (struct ''sai_thrift_acl_field_data_t'' [(''data'', struct ''sai_thrift_acl_field_data_data_t''
        [(''ip4'', var ''ip_src'')]), (''mask'', struct ''sai_thrift_acl_field_data_mask_t'' [(''ip4'', self
        ''ip_src_mask'')])]),
      assign ''acl_table_ipv4_id'' (api_create ''acl_table'' [(''acl_stage'', var ''table_stage_ingress''),
        (''acl_bind_point_type_list'', var ''table_bind_point_type_list''), (''field_src_ip'', bool True)]),
      assign ''acl_entry_id'' (api_create ''acl_entry'' [(''table_id'', var ''acl_table_ipv4_id''), (''priority'', num 9999),
        (''field_src_ip'', var ''src_ip_t''), (''action_packet_action'', var ''packet_action'')]),
      assign ''acl_counter_ingress'' (api_create ''acl_counter'' [(''table_id'', var ''acl_table_ipv4_id'')]),
      assign ''action_counter_ingress'' (struct ''sai_thrift_acl_action_data_t'' [(''parameter'', struct
        ''sai_thrift_acl_action_parameter_t'' [(''oid'', var ''acl_counter_ingress'')]), (''enable'', bool True)]),
      run (api_set ''acl_entry'' (var ''acl_entry_id'') [(''action_counter'', var ''action_counter_ingress'')]),
      try_finally [
        assign ''pkt'' (lib ''simple_tcp_packet'' [] [(''eth_dst'', str ROUTER_MAC), (''eth_src'', self ''dmac2''), (''ip_src'',
          var ''ip_src''), (''ip_dst'', var ''ip_dst''), (''tcp_sport'', num 17185), (''tcp_dport'', num 81), (''ip_ttl'', num
          64)]),
        assign ''exp_pkt'' (lib ''simple_tcp_packet'' [] [(''eth_dst'', self ''dmac2''), (''eth_src'', str ROUTER_MAC),
          (''ip_src'', var ''ip_src''), (''ip_dst'', var ''ip_dst''), (''tcp_sport'', num 17185), (''tcp_dport'', num 81),
          (''ip_ttl'', num 63)]),
        assign ''lag_member_id2'' (api_create ''lag_member'' [(''lag_id'', self ''lag_id''), (''port_id'', self ''port27'')]),
        run (lib ''send_packet'' [var ''sport1'', var ''pkt''] []),
        run (lib ''verify_packets'' [var ''exp_pkt''] [(''ports'', list_of [var ''dport''])]),
        assign ''packets'' (api_get ''acl_counter'' (var ''acl_counter_ingress'') [(''packets'', bool True)]),
        assert_eq (item (var ''packets'') (str ''packets'')) (num 0),
        run (lib ''send_packet'' [var ''sport2'', var ''pkt''] []),
        run (lib ''verify_packets'' [var ''exp_pkt''] [(''ports'', list_of [var ''dport''])]),
        assign ''packets'' (api_get ''acl_counter'' (var ''acl_counter_ingress'') [(''packets'', bool True)]),
        assert_eq (item (var ''packets'') (str ''packets'')) (num 0),
        run (api_set ''lag'' (self ''lag_id'') [(''ingress_acl'', var ''acl_table_ipv4_id'')]),
        run (lib ''send_packet'' [var ''sport1'', var ''pkt''] []),
        run (lib ''verify_no_other_packets'' [] [(''timeout'', num 1)]),
        assign ''packets'' (api_get ''acl_counter'' (var ''acl_counter_ingress'') [(''packets'', bool True)]),
        assert_eq (item (var ''packets'') (str ''packets'')) (num 1),
        run (lib ''send_packet'' [var ''sport2'', var ''pkt''] []),
        run (lib ''verify_no_other_packets'' [] [(''timeout'', num 1)]),
        assign ''packets'' (api_get ''acl_counter'' (var ''acl_counter_ingress'') [(''packets'', bool True)]),
        assert_eq (item (var ''packets'') (str ''packets'')) (num 2),
        run (api_set ''lag'' (self ''lag_id'') [(''ingress_acl'', num 0)])] [
        assign ''action_counter_ingress'' (struct ''sai_thrift_acl_action_data_t'' [(''parameter'', struct
          ''sai_thrift_acl_action_parameter_t'' [(''oid'', num 0)]), (''enable'', bool True)]),
        run (api_set ''acl_entry'' (var ''acl_entry_id'') [(''action_counter'', var ''action_counter_ingress'')]),
        run (api_set ''acl_counter'' (var ''acl_counter_ingress'') [(''packets'', none)]),
        assign ''packets'' (api_get ''acl_counter'' (var ''acl_counter_ingress'') [(''packets'', bool True)]),
        assert_eq (item (var ''packets'') (str ''packets'')) (num 0),
        run (api_remove ''acl_counter'' (var ''acl_counter_ingress'')),
        if_else (var ''lag_member_id2'') [
          run (api_remove ''lag_member'' (var ''lag_member_id2''))] [],
        run (api_remove ''acl_entry'' (var ''acl_entry_id'')),
        run (api_remove ''acl_table'' (var ''acl_table_ipv4_id''))]]"

definition AclLagTest_runTest :: "'d stmt" where
  "AclLagTest_runTest = block [
      run (invoke [] AclLagTest_lagAclEgressTest),
      run (invoke [] AclLagTest_lagAclIngressTest)]"

definition AclLagTest_tearDown :: "'d stmt" where
  "AclLagTest_tearDown = block [
      run (api_remove ''route_entry'' (self ''route_entry2'')),
      run (api_remove ''next_hop'' (self ''nhop2'')),
      run (api_remove ''neighbor_entry'' (self ''neighbor_entry2'')),
      run (api_remove ''route_entry'' (self ''route_entry1'')),
      run (api_remove ''next_hop'' (self ''nhop1'')),
      run (api_remove ''neighbor_entry'' (self ''neighbor_entry1'')),
      run (api_remove ''router_interface'' (self ''rif_id2'')),
      run (api_remove ''router_interface'' (self ''rif_id1'')),
      run (api_remove ''lag_member'' (self ''lag_member_id1'')),
      run (api_remove ''lag'' (self ''lag_id'')),
      run (api_remove ''virtual_router'' (self ''vrf'')),
      super_tearDown]"

definition IngressL3AclDscpTest_setUp :: "'d stmt" where
  "IngressL3AclDscpTest_setUp = block [
      super_setUp,
      run (create_rifs [0, 1]),
      assign ''l4_dst_port'' (num 1000),
      assign ''ip_addr'' (str ''172.16.10.1''),
      assign ''dmac'' (str ''00:11:22:33:44:55''),
      set_self ''neighbor_entry'' (struct ''sai_thrift_neighbor_entry_t'' [(''rif_id'', self ''port0_rif''), (''ip_address'',
        ip_address (var ''ip_addr''))]),
      run (api_create_entry ''neighbor_entry'' (self ''neighbor_entry'') [(''dst_mac_address'', var ''dmac'')]),
      set_self ''nhop'' (api_create ''next_hop'' [(''ip'', ip_address (var ''ip_addr'')), (''router_interface_id'', self
        ''port0_rif''), (''type'', num SAI_NEXT_HOP_TYPE_IP)]),
      set_self ''pkt'' (lib ''simple_tcp_packet'' [] [(''eth_dst'', str ROUTER_MAC), (''eth_src'', str ''00:22:22:22:22:22''),
        (''ip_dst'', str ''172.16.10.1''), (''ip_src'', str ''192.168.100.100''), (''tcp_dport'', var ''l4_dst_port''),
        (''ip_id'', num 105), (''ip_ttl'', num 64), (''ip_tos'', num 200)]),
      set_self ''exp_pkt'' (lib ''simple_tcp_packet'' [] [(''eth_dst'', str ''00:11:22:33:44:55''), (''eth_src'', str
        ROUTER_MAC), (''ip_dst'', str ''172.16.10.1''), (''ip_src'', str ''192.168.100.100''), (''tcp_dport'', var
        ''l4_dst_port''), (''ip_id'', num 105), (''ip_ttl'', num 63), (''ip_tos'', num 200)])]"

definition IngressL3AclDscpTest_routingTest :: "'d stmt" where
  "IngressL3AclDscpTest_routingTest = block [
      try_finally [
        print [str ROUTER_MAC],
        run (lib ''send_packet'' [self ''dev_port1'', self ''pkt''] []),
        print [str ROUTER_MAC],
        run (lib ''verify_packets'' [self ''exp_pkt'', list_of [self ''dev_port0'']] [])] []]"

definition IngressL3AclDscpTest_ingressL3AclDscpTest :: "'d stmt" where
  "IngressL3AclDscpTest_ingressL3AclDscpTest = block [
      assign ''table_stage'' (num SAI_ACL_STAGE_INGRESS),
      assign ''table_bind_point_list'' (list_of [num SAI_ACL_BIND_POINT_TYPE_ROUTER_INTF]),
      assign ''entry_priority'' (num 1),
      assign ''action'' (num SAI_PACKET_ACTION_DROP),
      assign ''ip_src'' (str ''192.168.100.1''),
      assign ''ip_src_mask'' (str ''255.255.255.0''),
      assign ''table_bind_point_type_list'' (struct ''sai_thrift_s32_list_t'' [(''count'', length_of (var
        ''table_bind_point_list'')), (''int32list'', var ''table_bind_point_list'')]),
      assign ''packet_action'' (struct ''sai_thrift_acl_action_data_t'' [(''parameter'', struct
        ''sai_thrift_acl_action_parameter_t'' [(''s32'', var ''action'')])]),
      assign ''src_ip_t'' (struct ''sai_thrift_acl_field_data_t'' [(''data'', struct ''sai_thrift_acl_field_data_data_t''
        [(''ip4'', var ''ip_src'')]), (''mask'', struct ''sai_thrift_acl_field_data_mask_t'' [(''ip4'', var ''ip_src_mask'')])]),
      assign ''field_dscp'' (struct ''sai_thrift_acl_field_data_t'' [(''data'', struct ''sai_thrift_acl_field_data_data_t''
        [(''u8'', num 50)])]),
      assign ''acl_table_id'' (api_create ''acl_table'' [(''acl_stage'', var ''table_stage''), (''acl_bind_point_type_list'',
        var ''table_bind_point_type_list''), (''field_src_ip'', bool True), (''field_dscp'', bool True)]),
      print [var ''acl_table_id''],
      assign ''acl_entry_id'' (api_create ''acl_entry'' [(''table_id'', var ''acl_table_id''), (''priority'', var
        ''entry_priority''), (''field_src_ip'', var ''src_ip_t''), (''action_packet_action'', var ''packet_action''),
        (''field_dscp'', var ''field_dscp'')]),
      assign ''acl_counter_ingress'' (api_create ''acl_counter'' [(''table_id'', var ''acl_table_id'')]),
      assign ''action_counter_ingress'' (struct ''sai_thrift_acl_action_data_t'' [(''parameter'', struct
        ''sai_thrift_acl_action_parameter_t'' [(''oid'', var ''acl_counter_ingress'')]), (''enable'', bool True)]),
      run (api_set ''acl_entry'' (var ''acl_entry_id'') [(''action_counter'', var ''action_counter_ingress'')]),
      run (api_set ''router_interface'' (self ''port1_rif'') [(''ingress_acl'', var ''acl_table_id'')]),
      try_finally [
        assert_ne (var ''acl_table_id'') (num 0),
        assert_ne (var ''acl_entry_id'') (num 0),
        print [str ROUTER_MAC],
        run (lib ''send_packet'' [self ''dev_port1'', self ''pkt''] []),
        print [str ROUTER_MAC],
        run (lib ''verify_no_other_packets'' [] [(''timeout'', num 1)]),
        assign ''packets'' (api_get ''acl_counter'' (var ''acl_counter_ingress'') [(''packets'', bool True)]),
        assert_eq (item (var ''packets'') (str ''packets'')) (num 1)] [
        run (api_set ''router_interface'' (self ''port1_rif'') [(''ingress_acl'', num 0)]),
        assign ''action_counter_ingress'' (struct ''sai_thrift_acl_action_data_t'' [(''parameter'', struct
          ''sai_thrift_acl_action_parameter_t'' [(''oid'', num 0)]), (''enable'', bool True)]),
        run (api_set ''acl_entry'' (var ''acl_entry_id'') [(''action_counter'', var ''action_counter_ingress'')]),
        run (api_set ''acl_counter'' (var ''acl_counter_ingress'') [(''packets'', none)]),
        assign ''packets'' (api_get ''acl_counter'' (var ''acl_counter_ingress'') [(''packets'', bool True)]),
        assert_eq (item (var ''packets'') (str ''packets'')) (num 0),
        run (api_remove ''acl_counter'' (var ''acl_counter_ingress'')),
        run (api_remove ''acl_entry'' (var ''acl_entry_id'')),
        run (api_remove ''acl_table'' (var ''acl_table_id''))]]"

definition IngressL3AclDscpTest_runTest :: "'d stmt" where
  "IngressL3AclDscpTest_runTest = block [
      run (invoke [] IngressL3AclDscpTest_routingTest),
      run (invoke [] IngressL3AclDscpTest_ingressL3AclDscpTest)]"

definition IngressL3AclDscpTest_tearDown :: "'d stmt" where
  "IngressL3AclDscpTest_tearDown = block [
      run (api_remove ''next_hop'' (self ''nhop'')),
      run (api_remove ''neighbor_entry'' (self ''neighbor_entry'')),
      run destroy_rifs,
      super_tearDown]"

end
