(* ===== verification/TestsBridgePort.thy ===== *)
theory TestsBridgePort
  imports PtfOwn PtfConstants
begin

text \<open>
  The tests of bridge ports, \<open>ptf/saibridgeport.py\<close>: a definition per method, statement by statement in the language of
  \<open>PtfScript\<close>, named after its class. A parameter \<open>m_f\<close> is a method \<open>f\<close> that derived classes define anew.
\<close>

section \<open>The tests\<close>

definition BridgePortAttributeTest_setUp :: "'d stmt" where
  "BridgePortAttributeTest_setUp = block [
      super_setUp,
      set_self ''port24_bp'' (api_create ''bridge_port'' [(''bridge_id'', self ''default_1q_bridge''), (''port_id'', self
        ''port24''), (''type'', num SAI_BRIDGE_PORT_TYPE_PORT), (''admin_state'', bool True), (''fdb_learning_mode'', num
        SAI_BRIDGE_PORT_FDB_LEARNING_MODE_HW)]),
      assert_ne (self ''port24_bp'') (num 0)]"

definition BridgePortAttributeTest_runTest :: "'d stmt" where
  "BridgePortAttributeTest_runTest = block [
      assign ''attr'' (api_get ''bridge_port'' (self ''port24_bp'') [(''bridge_id'', bool True)]),
      assert_eq (item (var ''attr'') (str ''bridge_id'')) (self ''default_1q_bridge''),
      assign ''attr'' (api_get ''bridge_port'' (self ''port24_bp'') [(''type'', bool True)]),
      assert_eq (item (var ''attr'') (str ''type'')) (num SAI_BRIDGE_PORT_TYPE_PORT),
      assign ''attr'' (api_get ''bridge_port'' (self ''port24_bp'') [(''port_id'', bool True)]),
      assert_eq (item (var ''attr'') (str ''port_id'')) (self ''port24''),
      assign ''attr'' (api_get ''bridge_port'' (self ''port24_bp'') [(''fdb_learning_mode'', bool True)]),
      assert_eq (item (var ''attr'') (str ''fdb_learning_mode'')) (num SAI_BRIDGE_PORT_FDB_LEARNING_MODE_HW),
      assign ''status'' (api_set ''bridge_port'' (self ''port24_bp'') [(''fdb_learning_mode'', num
        SAI_BRIDGE_PORT_FDB_LEARNING_MODE_DISABLE)]),
      assert_eq (var ''status'') (num SAI_STATUS_SUCCESS),
      assign ''attr'' (api_get ''bridge_port'' (self ''port24_bp'') [(''fdb_learning_mode'', bool True)]),
      assert_eq (item (var ''attr'') (str ''fdb_learning_mode'')) (num SAI_BRIDGE_PORT_FDB_LEARNING_MODE_DISABLE),
      assign ''attr'' (api_get ''bridge_port'' (self ''port24_bp'') [(''admin_state'', bool True)]),
      assert_eq (item (var ''attr'') (str ''admin_state'')) (bool True),
      assign ''status'' (api_set ''bridge_port'' (self ''port24_bp'') [(''admin_state'', bool False)]),
      assert_eq (var ''status'') (num SAI_STATUS_SUCCESS),
      assign ''attr'' (api_get ''bridge_port'' (self ''port24_bp'') [(''admin_state'', bool True)]),
      assert_eq (item (var ''attr'') (str ''admin_state'')) (bool False)]"

definition BridgePortAttributeTest_tearDown :: "'d stmt" where
  "BridgePortAttributeTest_tearDown = block [
      run (api_remove ''bridge_port'' (self ''port24_bp'')),
      super_tearDown]"

definition BridgePortCreationTest_noBpDropTest :: "'d stmt" where
  "BridgePortCreationTest_noBpDropTest = block [
      assign ''no_bp_port'' (self ''dev_port24''),
      assign ''src_mac'' (str ''00:11:11:11:11:11''),
      assign ''dst_mac'' (str ''00:22:22:22:22:22''),
      assign ''pkt'' (lib ''simple_udp_packet'' [] [(''eth_src'', var ''src_mac''), (''eth_dst'', var ''dst_mac''), (''pktlen'',
        num 100)]),
      run (lib ''send_packet'' [var ''no_bp_port'', var ''pkt''] []),
      run (lib ''verify_no_other_packets'' [] [])]"

definition BridgePortCreationTest_bpTypePortCreationTest :: "'d stmt" where
  "BridgePortCreationTest_bpTypePortCreationTest = block [
      try_finally [
        assign ''port24_bp'' (api_create ''bridge_port'' [(''bridge_id'', self ''default_1q_bridge''), (''port_id'', self
          ''port24''), (''type'', num SAI_BRIDGE_PORT_TYPE_PORT), (''admin_state'', bool True)]),
        assert_ne (var ''port24_bp'') (num 0),
        assign ''test_lag'' (api_create ''lag'' []),
        assert_ne (var ''test_lag'') (num 0),
        assign ''test_lag_member1'' (api_create ''lag_member'' [(''lag_id'', var ''test_lag''), (''port_id'', self ''port25'')]),
        assert_ne (var ''test_lag_member1'') (num 0),
        assign ''test_lag_member2'' (api_create ''lag_member'' [(''lag_id'', var ''test_lag''), (''port_id'', self ''port26'')]),
        assert_ne (var ''test_lag_member2'') (num 0),
        assign ''lag_bp'' (bad_call [var ''test_lag'', num SAI_BRIDGE_PORT_TYPE_PORT, bool True]),
        assert_ne (var ''lag_bp'') (num 0)] [
        run (api_remove ''bridge_port'' (var ''lag_bp'')),
        run (api_remove ''lag_member'' (var ''test_lag_member1'')),
        run (api_remove ''lag_member'' (var ''test_lag_member2'')),
        run (api_remove ''lag'' (var ''test_lag'')),
        run (api_remove ''bridge_port'' (var ''port24_bp''))]]"

definition BridgePortCreationTest_runTest :: "'d stmt" where
  "BridgePortCreationTest_runTest = block [
      run (invoke [] BridgePortCreationTest_noBpDropTest),
      run (invoke [] BridgePortCreationTest_bpTypePortCreationTest)]"

definition BridgePortStateTest_setUp :: "'d stmt" where
  "BridgePortStateTest_setUp = block [
      super_setUp,
      set_self ''vlan_id'' (num 10),
      set_self ''src_mac'' (str ''00:11:11:11:11:11''),
      set_self ''dst_mac'' (str ''00:22:22:22:22:22''),
      set_self ''pkt'' (lib ''simple_udp_packet'' [] [(''eth_dst'', self ''dst_mac''), (''eth_src'', self ''src_mac''),
        (''pktlen'', num 100)]),
      set_self ''tag_pkt'' (lib ''simple_udp_packet'' [] [(''eth_dst'', self ''dst_mac''), (''eth_src'', self ''src_mac''),
        (''dl_vlan_enable'', bool True), (''vlan_vid'', self ''vlan_id''), (''pktlen'', num 104)]),
      set_self ''chck_pkt'' (lib ''simple_udp_packet'' [] [(''eth_dst'', self ''src_mac''), (''eth_src'', self ''dst_mac''),
        (''pktlen'', num 100)]),
      set_self ''chck_tag_pkt'' (lib ''simple_udp_packet'' [] [(''eth_dst'', self ''src_mac''), (''eth_src'', self ''dst_mac''),
        (''dl_vlan_enable'', bool True), (''vlan_vid'', self ''vlan_id''), (''pktlen'', num 104)])]"

definition BridgePortStateTest_bpStateDownFlushTest :: "'d stmt" where
  "BridgePortStateTest_bpStateDownFlushTest = block [
      assign ''test_dev_port'' (self ''dev_port0''),
      assign ''chck_dev_port'' (self ''dev_port1''),
      assign ''test_bp'' (self ''port0_bp''),
      assign ''flood_port_list'' (list_of [list_of [var ''chck_dev_port''], list_of [self ''dev_port4'', self ''dev_port5'',
        self ''dev_port6'']]),
      assign ''chck_flood_port_list'' (list_of [list_of [var ''test_dev_port''], list_of [self ''dev_port4'', self
        ''dev_port5'', self ''dev_port6'']]),
      assign ''fdb_entry'' (struct ''sai_thrift_fdb_entry_t'' [(''switch_id'', self ''switch_id''), (''mac_address'', self
        ''src_mac''), (''bv_id'', self ''vlan10'')]),
      assign ''flood_pkt_list'' (list_of [self ''tag_pkt'', self ''pkt'']),
      assign ''chck_flood_pkt_list'' (list_of [self ''chck_pkt'', self ''chck_pkt'']),
      try_finally [
        print [var ''test_dev_port''],
        run (lib ''send_packet'' [var ''test_dev_port'', self ''pkt''] []),
        run (lib ''verify_each_packet_on_multiple_port_lists'' [var ''flood_pkt_list'', var ''flood_port_list''] []),
        sleep_for (num 2),
        assign ''status'' (api_set ''fdb_entry'' (var ''fdb_entry'') [(''packet_action'', num SAI_PACKET_ACTION_FORWARD)]),
        assert_eq (var ''status'') (num SAI_STATUS_SUCCESS),
        print [var ''chck_dev_port'', self ''dst_mac'', self ''src_mac''],
        run (lib ''send_packet'' [var ''chck_dev_port'', self ''chck_tag_pkt''] []),
        run (lib ''verify_packets'' [self ''chck_pkt'', list_of [var ''test_dev_port'']] []),
        assign ''status'' (api_set ''bridge_port'' (var ''test_bp'') [(''admin_state'', bool False)]),
        assert_eq (var ''status'') (num SAI_STATUS_SUCCESS),
        assign ''status'' (api_set ''fdb_entry'' (var ''fdb_entry'') [(''packet_action'', num SAI_PACKET_ACTION_FORWARD)]),
        assert_eq (var ''status'') (num SAI_STATUS_ITEM_NOT_FOUND),
        print [var ''chck_dev_port'', self ''dst_mac'', self ''src_mac''],
        run (lib ''send_packet'' [var ''chck_dev_port'', self ''chck_tag_pkt''] []),
        run (lib ''verify_each_packet_on_multiple_port_lists'' [var ''chck_flood_pkt_list'', var ''chck_flood_port_list''] [])] [
        run (lib ''sai_thrift_flush_fdb_entries'' [] [(''entry_type'', num SAI_FDB_FLUSH_ENTRY_TYPE_ALL)]),
        run (api_set ''bridge_port'' (var ''test_bp'') [(''admin_state'', bool True)])]]"

definition BridgePortStateTest_bpStateDownNoLearnTest :: "'d stmt" where
  "BridgePortStateTest_bpStateDownNoLearnTest = block [
      assign ''test_dev_port'' (self ''dev_port0''),
      assign ''chck_dev_port'' (self ''dev_port1''),
      assign ''test_bp'' (self ''port0_bp''),
      assign ''new_bp_port'' (self ''port24''),
      assign ''new_bp_dev_port'' (self ''dev_port24''),
      try_finally [
        assign ''status'' (api_set ''bridge_port'' (var ''test_bp'') [(''admin_state'', bool False)]),
        assert_eq (var ''status'') (num SAI_STATUS_SUCCESS),
        print [var ''test_dev_port''],
        assign ''flood_pkt_list'' (list_of [self ''tag_pkt'', self ''pkt'']),
        assign ''flood_port_list'' (list_of [list_of [var ''chck_dev_port''], list_of [self ''dev_port4'', self ''dev_port5'',
          self ''dev_port6'']]),
        print [var ''test_dev_port'', self ''src_mac'', self ''dst_mac''],
        run (lib ''send_packet'' [var ''test_dev_port'', self ''pkt''] []),
        run (lib ''verify_each_packet_on_multiple_port_lists'' [var ''flood_pkt_list'', var ''flood_port_list''] []),
        assign ''chck_flood_pkt_list'' (list_of [self ''chck_pkt'', self ''chck_pkt'']),
        assign ''chck_flood_port_list'' (list_of [list_of [var ''test_dev_port''], list_of [self ''dev_port4'', self
          ''dev_port5'', self ''dev_port6'']]),
        print [var ''chck_dev_port'', self ''src_mac''],
        run (lib ''send_packet'' [var ''chck_dev_port'', self ''chck_tag_pkt''] []),
        run (lib ''verify_each_packet_on_multiple_port_lists'' [var ''chck_flood_pkt_list'', var ''chck_flood_port_list''] []),
        run (lib ''sai_thrift_flush_fdb_entries'' [] [(''entry_type'', num SAI_FDB_FLUSH_ENTRY_TYPE_ALL)]),
        assign ''new_bp'' (api_create ''bridge_port'' [(''bridge_id'', self ''default_1q_bridge''), (''port_id'', var
          ''new_bp_port''), (''type'', num SAI_BRIDGE_PORT_TYPE_PORT), (''admin_state'', bool False)]),
        assert_ne (var ''new_bp'') (num 0),
        assign ''new_vlan_member'' (api_create ''vlan_member'' [(''vlan_id'', self ''vlan10''), (''bridge_port_id'', var
          ''new_bp''), (''vlan_tagging_mode'', num SAI_VLAN_TAGGING_MODE_UNTAGGED)]),
        assert_ne (var ''new_vlan_member'') (num 0),
        run (api_set ''port'' (var ''new_bp_port'') [(''port_vlan_id'', self ''vlan_id'')]),
        assign ''flood_pkt_list'' (list_of [self ''pkt'', self ''tag_pkt'', self ''pkt'']),
        assign ''flood_port_list'' (list_of [list_of [var ''test_dev_port''], list_of [var ''chck_dev_port''], list_of [self
          ''dev_port4'', self ''dev_port5'', self ''dev_port6'']]),
        print [var ''new_bp_dev_port'', self ''src_mac'', self ''dst_mac''],
        run (lib ''send_packet'' [var ''new_bp_dev_port'', self ''pkt''] []),
        run (lib ''verify_each_packet_on_multiple_port_lists'' [var ''flood_pkt_list'', var ''flood_port_list''] []),
        assign ''chck_flood_pkt_list'' (list_of [self ''chck_pkt'', self ''chck_pkt'', self ''chck_pkt'']),
        assign ''chck_flood_port_list'' (list_of [list_of [var ''new_bp_dev_port''], list_of [var ''test_dev_port''], list_of
          [self ''dev_port4'', self ''dev_port5'', self ''dev_port6'']]),
        print [var ''chck_dev_port'', self ''src_mac''],
        run (lib ''send_packet'' [var ''chck_dev_port'', self ''chck_tag_pkt''] []),
        run (lib ''verify_each_packet_on_multiple_port_lists'' [var ''chck_flood_pkt_list'', var ''chck_flood_port_list''] [])] [
        run (lib ''sai_thrift_flush_fdb_entries'' [] [(''entry_type'', num SAI_FDB_FLUSH_ENTRY_TYPE_ALL)]),
        run (api_set ''port'' (var ''new_bp_port'') [(''port_vlan_id'', num 0)]),
        run (api_remove ''vlan_member'' (var ''new_vlan_member'')),
        run (api_remove ''bridge_port'' (var ''new_bp'')),
        run (api_set ''bridge_port'' (var ''test_bp'') [(''admin_state'', bool True)])]]"

definition BridgePortStateTest_runTest :: "'d stmt" where
  "BridgePortStateTest_runTest = block [
      run (invoke [] BridgePortStateTest_bpStateDownFlushTest),
      run (invoke [] BridgePortStateTest_bpStateDownNoLearnTest)]"

definition BridgePortNoFloodTest_setUp :: "'d stmt" where
  "BridgePortNoFloodTest_setUp = block [
      super_setUp,
      set_self ''test_port_list'' (list_of [self ''port0'', self ''port1'', self ''port2'', self ''port3'']),
      set_self ''dev_test_port_list'' (list_of [self ''dev_port0'', self ''dev_port1'', self ''dev_port2'', self ''dev_port3'']),
      assign ''vlan_id'' (num 1),
      for_in [''port''] (self ''test_port_list'') [
        run (api_set ''port'' (var ''port'') [(''port_vlan_id'', var ''vlan_id'')]),
        assign ''attr'' (api_get ''port'' (var ''port'') [(''port_vlan_id'', bool True)]),
        assert_eq (item (var ''attr'') (str ''SAI_PORT_ATTR_PORT_VLAN_ID'')) (var ''vlan_id'')]]"

definition BridgePortNoFloodTest_runTest :: "'d stmt" where
  "BridgePortNoFloodTest_runTest = block [
      assign ''src_mac'' (str ''00:11:11:11:11:11''),
      assign ''dst_mac'' (str ''00:22:22:22:22:22''),
      assign ''pkt'' (lib ''simple_udp_packet'' [] [(''eth_dst'', var ''dst_mac''), (''eth_src'', var ''src_mac''), (''pktlen'',
        num 100)]),
      run (lib ''send_packet'' [self ''dev_port1'', var ''pkt''] []),
      run (lib ''verify_no_other_packets'' [] [])]"

definition BridgePortNoFloodTest_tearDown :: "'d stmt" where
  "BridgePortNoFloodTest_tearDown = block [
      assign ''vlan_id'' (num 10),
      for_in [''port''] (self ''test_port_list'') [
        run (api_set ''port'' (var ''port'') [(''port_vlan_id'', var ''vlan_id'')]),
        assign ''attr'' (api_get ''port'' (var ''port'') [(''port_vlan_id'', bool True)]),
        assert (explained (item (var ''attr'') (str ''SAI_PORT_ATTR_PORT_VLAN_ID'')) [var ''vlan_id''])],
      super_tearDown]"

end
