(* ===== verification/TestsBuffer.thy ===== *)
theory TestsBuffer
  imports PtfOwn PtfConstants
begin

text \<open>
  The tests of buffers and their statistics, \<open>ptf/saibuffer.py\<close>: a definition per method, statement by statement in the language of
  \<open>PtfScript\<close>, named after its class. A parameter \<open>m_f\<close> is a method \<open>f\<close> that derived classes define anew.
\<close>

section \<open>The tests\<close>

definition BufferStatistics_setUp :: "'d stmt" where
  "BufferStatistics_setUp = block [
      super_setUp,
      set_self ''tx_cnt'' (num 10000),
      set_self ''pkt_len'' (num 700),
      set_self ''reserved_buf_size'' (num 1400),
      set_self ''buf_size'' (mul (self ''reserved_buf_size'') (num 1000)),
      set_self ''sleep_time'' (num 2),
      set_self ''pkt'' (lib ''simple_udp_packet'' [] [(''pktlen'', sub (self ''pkt_len'') (num 4))]),
      set_self ''ingr_pool'' (api_create ''buffer_pool'' [(''type'', num SAI_BUFFER_POOL_TYPE_INGRESS), (''size'', self
        ''buf_size'')]),
      assert (gt (self ''ingr_pool'') (num 0)),
      set_self ''buffer_profile'' (api_create ''buffer_profile'' [(''pool_id'', self ''ingr_pool''), (''reserved_buffer_size'',
        self ''reserved_buf_size''), (''shared_static_th'', self ''reserved_buf_size''), (''threshold_mode'', num
        SAI_BUFFER_PROFILE_THRESHOLD_MODE_STATIC)]),
      assert (gt (self ''buffer_profile'') (num 0)),
      set_self ''ipg_idx'' (num 7),
      set_self ''ipg'' (api_create ''ingress_priority_group'' [(''port'', self ''port0''), (''index'', self ''ipg_idx''),
        (''buffer_profile'', self ''buffer_profile'')]),
      assert (gt (self ''ipg'') (num 0)),
      assign ''prio_to_pg'' (struct ''sai_thrift_qos_map_t'' [(''key'', struct ''sai_thrift_qos_map_params_t'' [(''prio'', num
        0)]), (''value'', struct ''sai_thrift_qos_map_params_t'' [(''pg'', self ''ipg_idx'')])]),
      assign ''qos_map_list'' (struct ''sai_thrift_qos_map_list_t'' [(''maplist'', list_of [var ''prio_to_pg'']), (''count'',
        num 1)]),
      set_self ''qos_map'' (api_create ''qos_map'' [(''type'', num SAI_QOS_MAP_TYPE_PFC_PRIORITY_TO_PRIORITY_GROUP),
        (''map_to_value_list'', var ''qos_map_list'')]),
      assert (gt (self ''qos_map'') (num 0)),
      assign ''status'' (api_set ''port'' (self ''port0'') [(''qos_pfc_priority_to_priority_group_map'', self ''qos_map'')]),
      assert_eq (var ''status'') (num SAI_STATUS_SUCCESS)]"

definition BufferStatistics_sendTraffic :: "'d stmt" where
  "BufferStatistics_sendTraffic = block [
      print [self ''tx_cnt'', self ''pkt_len''],
      for_in [''_''] (range_of (num 0) (self ''tx_cnt'')) [
        run (lib ''send_packet'' [self ''dev_port0'', self ''pkt''] [])]]"

definition BufferStatistics_clearVerify :: "'d stmt" where
  "BufferStatistics_clearVerify = block [
      assign ''status'' (clear_stats ''sai_thrift_clear_buffer_pool_stats'' [self ''ingr_pool''] []),
      assert_eq (var ''status'') (num SAI_STATUS_SUCCESS),
      assign ''status'' (clear_stats ''sai_thrift_clear_ingress_priority_group_stats'' [self ''ipg''] []),
      assert_eq (var ''status'') (num SAI_STATUS_SUCCESS),
      assign ''stats'' (query ''sai_thrift_get_buffer_pool_stats'' [self ''ingr_pool''] []),
      assert_eq (item (var ''stats'') (str ''SAI_BUFFER_POOL_STAT_WATERMARK_BYTES'')) (num 0),
      assign ''stats'' (query ''sai_thrift_get_ingress_priority_group_stats'' [self ''ipg''] []),
      assert_eq (item (var ''stats'') (str ''SAI_INGRESS_PRIORITY_GROUP_STAT_PACKETS'')) (num 0),
      assert_eq (item (var ''stats'') (str ''SAI_INGRESS_PRIORITY_GROUP_STAT_BYTES'')) (num 0),
      assert_eq (item (var ''stats'') (str ''SAI_INGRESS_PRIORITY_GROUP_STAT_WATERMARK_BYTES'')) (num 0),
      assert_eq (item (var ''stats'') (str ''SAI_INGRESS_PRIORITY_GROUP_STAT_DROPPED_PACKETS'')) (num 0)]"

definition BufferStatistics_tearDown :: "'d stmt" where
  "BufferStatistics_tearDown = block [
      run (api_set ''port'' (self ''port0'') [(''qos_pfc_priority_to_priority_group_map'', num 0)]),
      run (api_remove ''qos_map'' (self ''qos_map'')),
      run (api_remove ''ingress_priority_group'' (self ''ipg'')),
      run (api_remove ''buffer_profile'' (self ''buffer_profile'')),
      run (api_remove ''buffer_pool'' (self ''ingr_pool'')),
      super_tearDown]"

definition Forwarding_setUp :: "'d stmt" where
  "Forwarding_setUp = block [
      super_setUp,
      set_self ''tx_cnt'' (num 100),
      set_self ''pkt_len'' (num 1500),
      set_self ''reserved_buf_size'' (num 3200),
      set_self ''buf_size'' (mul (self ''reserved_buf_size'') (num 1000)),
      set_self ''pkt'' (lib ''simple_udp_packet'' [] [(''pktlen'', sub (self ''pkt_len'') (num 4))]),
      set_self ''ipg_idx'' (num 0),
      set_self ''ipg'' (api_create ''ingress_priority_group'' [(''port'', self ''port0''), (''index'', self ''ipg_idx'')]),
      assert (gt (self ''ipg'') (num 0)),
      assign ''prio_to_pg'' (struct ''sai_thrift_qos_map_t'' [(''key'', struct ''sai_thrift_qos_map_params_t'' [(''prio'', num
        0)]), (''value'', struct ''sai_thrift_qos_map_params_t'' [(''pg'', self ''ipg_idx'')])]),
      assign ''qos_map_list'' (struct ''sai_thrift_qos_map_list_t'' [(''maplist'', list_of [var ''prio_to_pg'']), (''count'',
        num 1)]),
      set_self ''qos_map'' (api_create ''qos_map'' [(''type'', num SAI_QOS_MAP_TYPE_PFC_PRIORITY_TO_PRIORITY_GROUP),
        (''map_to_value_list'', var ''qos_map_list'')]),
      assert (gt (self ''qos_map'') (num 0)),
      assign ''status'' (api_set ''port'' (self ''port0'') [(''qos_pfc_priority_to_priority_group_map'', self ''qos_map'')]),
      assert_eq (var ''status'') (num SAI_STATUS_SUCCESS),
      set_self ''ingr_pool'' (api_create ''buffer_pool'' [(''type'', num SAI_BUFFER_POOL_TYPE_INGRESS), (''size'', self
        ''buf_size'')]),
      assert (gt (self ''ingr_pool'') (num 0)),
      set_self ''buffer_profile'' (api_create ''buffer_profile'' [(''pool_id'', self ''ingr_pool''), (''reserved_buffer_size'',
        self ''reserved_buf_size''), (''shared_dynamic_th'', num 8), (''threshold_mode'', num
        SAI_BUFFER_PROFILE_THRESHOLD_MODE_DYNAMIC)]),
      assert (gt (self ''buffer_profile'') (num 0))]"

definition Forwarding_clearSendVerify :: "'d stmt" where
  "Forwarding_clearSendVerify = block [
      for_in [''i''] (range_of (num 0) (num 3)) [
        assign ''status'' (clear_stats ''sai_thrift_clear_port_stats'' [item (self ''port_list'') (var ''i'')] []),
        assert_eq (var ''status'') (num SAI_STATUS_SUCCESS)],
      assign ''status'' (clear_stats ''sai_thrift_clear_ingress_priority_group_stats'' [self ''ipg''] []),
      assert_eq (var ''status'') (num SAI_STATUS_SUCCESS),
      print [self ''tx_cnt'', self ''pkt_len''],
      for_in [''_''] (range_of (num 0) (self ''tx_cnt'')) [
        run (lib ''send_packet'' [self ''dev_port0'', self ''pkt''] [])],
      sleep_for (num 2),
      assign ''stats_ipg'' (query ''sai_thrift_get_ingress_priority_group_stats'' [self ''ipg''] []),
      assign ''stats_p1'' (query ''sai_thrift_get_port_stats'' [self ''port1''] []),
      assign ''stats_p2'' (query ''sai_thrift_get_port_stats'' [self ''port2''] []),
      assert_eq (item (var ''stats_ipg'') (str ''SAI_INGRESS_PRIORITY_GROUP_STAT_PACKETS'')) (self ''tx_cnt''),
      assert_eq (item (var ''stats_p1'') (str ''SAI_PORT_STAT_IF_OUT_UCAST_PKTS'')) (self ''tx_cnt''),
      assert_eq (item (var ''stats_p2'') (str ''SAI_PORT_STAT_IF_OUT_UCAST_PKTS'')) (self ''tx_cnt'')]"

definition Forwarding_runTest :: "'d stmt" where
  "Forwarding_runTest = block [
      assign ''attr'' (api_get ''ingress_priority_group'' (self ''ipg'') [(''buffer_profile'', bool True)]),
      assert_eq (item (var ''attr'') (str ''buffer_profile'')) (num 0),
      run (invoke [] Forwarding_clearSendVerify),
      assign ''status'' (api_set ''ingress_priority_group'' (self ''ipg'') [(''buffer_profile'', self ''buffer_profile'')]),
      assert_eq (var ''status'') (num SAI_STATUS_SUCCESS),
      assign ''attr'' (api_get ''ingress_priority_group'' (self ''ipg'') [(''buffer_profile'', bool True)]),
      assert_eq (item (var ''attr'') (str ''buffer_profile'')) (self ''buffer_profile''),
      run (invoke [] Forwarding_clearSendVerify),
      assign ''status'' (api_set ''buffer_profile'' (self ''buffer_profile'') [(''reserved_buffer_size'', num 1600)]),
      assert_eq (var ''status'') (num SAI_STATUS_SUCCESS),
      assign ''status'' (api_set ''buffer_profile'' (self ''buffer_profile'') [(''shared_dynamic_th'', num 7)]),
      assert_eq (var ''status'') (num SAI_STATUS_SUCCESS),
      assign ''attr'' (api_get ''buffer_profile'' (self ''buffer_profile'') [(''reserved_buffer_size'', bool True),
        (''shared_dynamic_th'', bool True)]),
      assert_eq (item (var ''attr'') (str ''reserved_buffer_size'')) (num 1600),
      assert_eq (item (var ''attr'') (str ''shared_dynamic_th'')) (num 7),
      run (invoke [] Forwarding_clearSendVerify),
      assign ''status'' (api_set ''ingress_priority_group'' (self ''ipg'') [(''buffer_profile'', num 0)]),
      assert_eq (var ''status'') (num SAI_STATUS_SUCCESS),
      assign ''attr'' (api_get ''ingress_priority_group'' (self ''ipg'') [(''buffer_profile'', bool True)]),
      assert_eq (item (var ''attr'') (str ''buffer_profile'')) (num 0),
      run (invoke [] Forwarding_clearSendVerify)]"

definition Forwarding_tearDown :: "'d stmt" where
  "Forwarding_tearDown = block [
      run (api_set ''port'' (self ''port0'') [(''qos_pfc_priority_to_priority_group_map'', num 0)]),
      run (api_remove ''qos_map'' (self ''qos_map'')),
      run (api_remove ''ingress_priority_group'' (self ''ipg'')),
      run (api_remove ''buffer_profile'' (self ''buffer_profile'')),
      run (api_remove ''buffer_pool'' (self ''ingr_pool'')),
      super_tearDown]"

definition BufferPoolNumber_setUp :: "'d stmt" where
  "BufferPoolNumber_setUp = block [
      super_setUp,
      set_self ''ingr_pools'' (list_of []),
      set_self ''egr_pools'' (list_of []),
      set_self ''ingr_profiles'' (list_of []),
      set_self ''egr_profiles'' (list_of []),
      set_self ''ipgs'' (list_of []),
      set_self ''queues'' (list_of []),
      set_self ''dscp_to_tc_map'' none,
      set_self ''tc_to_ipg_map'' none,
      set_self ''prio_to_ipg_map'' none,
      set_self ''tc_to_q_map'' none,
      set_self ''buf_size'' (mul (num 1024) (num 80)),
      set_self ''profile_buf_size'' (divide (self ''buf_size'') (num 10))]"

definition BufferPoolNumber_runTest :: "'d stmt" where
  "BufferPoolNumber_runTest = block [
      assign ''sw_attrs'' (api_get ''switch'' none [(''ingress_buffer_pool_num'', bool True), (''egress_buffer_pool_num'', bool
        True), (''total_buffer_size'', bool True)]),
      assign ''ingr_pool_num'' (item (var ''sw_attrs'') (str ''ingress_buffer_pool_num'')),
      assign ''egr_pool_num'' (item (var ''sw_attrs'') (str ''egress_buffer_pool_num'')),
      print [item (var ''sw_attrs'') (str ''total_buffer_size'')],
      print [var ''ingr_pool_num''],
      print [var ''egr_pool_num''],
      print [var ''ingr_pool_num''],
      for_in [''i''] (range_of (num 0) (var ''ingr_pool_num'')) [
        print [var ''i''],
        assign ''ingr_pool'' (api_create ''buffer_pool'' [(''type'', num SAI_BUFFER_POOL_TYPE_INGRESS), (''size'', add (self
          ''buf_size'') (var ''i''))]),
        assert (gt (var ''ingr_pool'') (num 0)),
        set_self ''ingr_pools'' (appended (self ''ingr_pools'') (var ''ingr_pool''))],
      print [var ''egr_pool_num''],
      for_in [''i''] (range_of (num 0) (var ''egr_pool_num'')) [
        print [var ''i''],
        assign ''egr_pool'' (api_create ''buffer_pool'' [(''type'', num SAI_BUFFER_POOL_TYPE_EGRESS), (''size'', add (self
          ''buf_size'') (var ''i''))]),
        assert (gt (var ''egr_pool'') (num 0)),
        set_self ''egr_pools'' (appended (self ''egr_pools'') (var ''egr_pool''))],
      print [var ''ingr_pool_num''],
      for_in [''i''] (range_of (num 0) (var ''ingr_pool_num'')) [
        assign ''profile'' (api_create ''buffer_profile'' [(''pool_id'', item (self ''ingr_pools'') (var ''i'')),
          (''reserved_buffer_size'', self ''profile_buf_size''), (''shared_static_th'', self ''profile_buf_size''),
          (''threshold_mode'', num SAI_BUFFER_PROFILE_THRESHOLD_MODE_STATIC)]),
        assert (gt (var ''profile'') (num 0)),
        set_self ''ingr_profiles'' (appended (self ''ingr_profiles'') (var ''profile'')),
        assign ''ipg'' (api_create ''ingress_priority_group'' [(''port'', self ''port0''), (''index'', var ''i''),
          (''buffer_profile'', var ''profile'')]),
        assert (gt (var ''ipg'') (num 0)),
        set_self ''ipgs'' (appended (self ''ipgs'') (var ''ipg''))],
      print [var ''egr_pool_num''],
      assign ''attr'' (api_get ''port'' (self ''port1'') [(''qos_number_of_queues'', bool True)]),
      assign ''q_list'' (struct ''sai_thrift_object_list_t'' [(''count'', item (var ''attr'') (str ''qos_number_of_queues''))]),
      assign ''attr'' (api_get ''port'' (self ''port1'') [(''qos_queue_list'', var ''q_list'')]),
      set_self ''queues'' (field (item (var ''attr'') (str ''qos_queue_list'')) ''idlist''),
      for_in [''i''] (range_of (num 0) (var ''egr_pool_num'')) [
        assign ''profile'' (api_create ''buffer_profile'' [(''pool_id'', item (self ''egr_pools'') (var ''i'')),
          (''reserved_buffer_size'', self ''profile_buf_size''), (''shared_static_th'', self ''profile_buf_size''),
          (''threshold_mode'', num SAI_BUFFER_PROFILE_THRESHOLD_MODE_STATIC)]),
        assert (gt (var ''profile'') (num 0)),
        set_self ''egr_profiles'' (appended (self ''egr_profiles'') (var ''profile'')),
        assign ''status'' (api_set ''queue'' (item (self ''queues'') (var ''i'')) [(''buffer_profile_id'', var ''profile'')]),
        assert_eq (var ''status'') (num SAI_STATUS_SUCCESS)],
      assign ''dscp_to_tc'' (list_of []),
      assign ''tc_to_ipg'' (list_of []),
      assign ''prio_to_ipg'' (list_of []),
      assign ''tc_to_q'' (list_of []),
      for_in [''i''] (range_of (num 0) (num 8)) [
        assign ''dscp_to_tc'' (appended (var ''dscp_to_tc'') (struct ''sai_thrift_qos_map_t'' [(''key'', struct
          ''sai_thrift_qos_map_params_t'' [(''dscp'', var ''i'')]), (''value'', struct ''sai_thrift_qos_map_params_t'' [(''tc'',
          var ''i'')])]))],
      for_in [''i''] (range_of (num 0) (var ''ingr_pool_num'')) [
        assign ''tc_to_ipg'' (appended (var ''tc_to_ipg'') (struct ''sai_thrift_qos_map_t'' [(''key'', struct
          ''sai_thrift_qos_map_params_t'' [(''tc'', var ''i'')]), (''value'', struct ''sai_thrift_qos_map_params_t'' [(''pg'',
          var ''i'')])])),
        assign ''prio_to_ipg'' (appended (var ''prio_to_ipg'') (struct ''sai_thrift_qos_map_t'' [(''key'', struct
          ''sai_thrift_qos_map_params_t'' [(''prio'', var ''i'')]), (''value'', struct ''sai_thrift_qos_map_params_t'' [(''pg'',
          var ''i'')])]))],
      for_in [''i''] (range_of (num 0) (var ''egr_pool_num'')) [
        assign ''tc_to_q'' (appended (var ''tc_to_q'') (struct ''sai_thrift_qos_map_t'' [(''key'', struct
          ''sai_thrift_qos_map_params_t'' [(''tc'', var ''i'')]), (''value'', struct ''sai_thrift_qos_map_params_t''
          [(''queue_index'', var ''i'')])]))],
      assign ''qos_map_list'' (struct ''sai_thrift_qos_map_list_t'' [(''maplist'', var ''dscp_to_tc''), (''count'', length_of
        (var ''dscp_to_tc''))]),
      set_self ''dscp_to_tc_map'' (api_create ''qos_map'' [(''type'', num SAI_QOS_MAP_TYPE_DSCP_TO_TC), (''map_to_value_list'',
        var ''qos_map_list'')]),
      assert (gt (self ''dscp_to_tc_map'') (num 0)),
      assign ''status'' (api_set ''port'' (self ''port0'') [(''qos_dscp_to_tc_map'', self ''dscp_to_tc_map'')]),
      assert_eq (var ''status'') (num SAI_STATUS_SUCCESS),
      assign ''status'' (api_set ''port'' (self ''port1'') [(''qos_dscp_to_tc_map'', self ''dscp_to_tc_map'')]),
      assert_eq (var ''status'') (num SAI_STATUS_SUCCESS),
      assign ''qos_map_list'' (struct ''sai_thrift_qos_map_list_t'' [(''maplist'', var ''tc_to_ipg''), (''count'', length_of
        (var ''tc_to_ipg''))]),
      set_self ''tc_to_ipg_map'' (api_create ''qos_map'' [(''type'', num SAI_QOS_MAP_TYPE_TC_TO_PRIORITY_GROUP),
        (''map_to_value_list'', var ''qos_map_list'')]),
      assert (gt (self ''tc_to_ipg_map'') (num 0)),
      assign ''status'' (api_set ''port'' (self ''port0'') [(''qos_tc_to_priority_group_map'', self ''tc_to_ipg_map'')]),
      assert_eq (var ''status'') (num SAI_STATUS_SUCCESS),
      assign ''qos_map_list'' (struct ''sai_thrift_qos_map_list_t'' [(''maplist'', var ''prio_to_ipg''), (''count'', length_of
        (var ''prio_to_ipg''))]),
      set_self ''prio_to_ipg_map'' (api_create ''qos_map'' [(''type'', num SAI_QOS_MAP_TYPE_PFC_PRIORITY_TO_PRIORITY_GROUP),
        (''map_to_value_list'', var ''qos_map_list'')]),
      assert (gt (self ''prio_to_ipg_map'') (num 0)),
      assign ''status'' (api_set ''port'' (self ''port0'') [(''qos_pfc_priority_to_priority_group_map'', self
        ''prio_to_ipg_map'')]),
      assert_eq (var ''status'') (num SAI_STATUS_SUCCESS),
      assign ''qos_map_list'' (struct ''sai_thrift_qos_map_list_t'' [(''maplist'', var ''tc_to_q''), (''count'', length_of (var
        ''tc_to_q''))]),
      set_self ''tc_to_q_map'' (api_create ''qos_map'' [(''type'', num SAI_QOS_MAP_TYPE_TC_TO_QUEUE), (''map_to_value_list'',
        var ''qos_map_list'')]),
      assert (gt (self ''tc_to_q_map'') (num 0)),
      assign ''status'' (api_set ''port'' (self ''port1'') [(''qos_tc_to_queue_map'', self ''tc_to_q_map'')]),
      assert_eq (var ''status'') (num SAI_STATUS_SUCCESS),
      for_in [''i''] (range_of (num 0) (var ''ingr_pool_num'')) [
        assign ''pkt'' (lib ''simple_udpv6_packet'' [] [(''ipv6_dscp'', var ''i'')]),
        run (lib ''send_packet'' [self ''dev_port0'', var ''pkt''] [])],
      for_in [''i''] (range_of (num 0) (var ''egr_pool_num'')) [
        assign ''pkt'' (lib ''simple_udpv6_packet'' [] [(''ipv6_dscp'', var ''i'')]),
        run (lib ''send_packet'' [self ''dev_port1'', var ''pkt''] [])],
      sleep_for (num 2),
      for_in [''i''] (range_of (num 0) (var ''ingr_pool_num'')) [
        assign ''stats'' (query ''sai_thrift_get_ingress_priority_group_stats'' [item (self ''ipgs'') (var ''i'')] []),
        assert_eq (item (var ''stats'') (str ''SAI_INGRESS_PRIORITY_GROUP_STAT_PACKETS'')) (num 1)],
      for_in [''i''] (range_of (num 0) (var ''egr_pool_num'')) [
        assign ''stats'' (query ''sai_thrift_get_queue_stats'' [item (self ''queues'') (var ''i'')] []),
        assert_eq (item (var ''stats'') (str ''SAI_QUEUE_STAT_PACKETS'')) (num 1)]]"

definition BufferPoolNumber_tearDown :: "'d stmt" where
  "BufferPoolNumber_tearDown = block [
      run (api_set ''port'' (self ''port1'') [(''qos_tc_to_queue_map'', num 0)]),
      run (api_set ''port'' (self ''port1'') [(''qos_dscp_to_tc_map'', num 0)]),
      run (api_set ''port'' (self ''port0'') [(''qos_pfc_priority_to_priority_group_map'', num 0)]),
      run (api_set ''port'' (self ''port0'') [(''qos_tc_to_priority_group_map'', num 0)]),
      run (api_set ''port'' (self ''port0'') [(''qos_dscp_to_tc_map'', num 0)]),
      run (api_remove ''qos_map'' (self ''tc_to_q_map'')),
      run (api_remove ''qos_map'' (self ''prio_to_ipg_map'')),
      run (api_remove ''qos_map'' (self ''tc_to_ipg_map'')),
      run (api_remove ''qos_map'' (self ''dscp_to_tc_map'')),
      for_in [''q''] (self ''queues'') [
        run (api_set ''queue'' (var ''q'') [(''buffer_profile_id'', num 0)])],
      for_in [''ipg''] (self ''ipgs'') [
        run (api_remove ''ingress_priority_group'' (var ''ipg''))],
      for_in [''profile''] (self ''egr_profiles'') [
        run (api_remove ''buffer_profile'' (var ''profile''))],
      for_in [''profile''] (self ''ingr_profiles'') [
        run (api_remove ''buffer_profile'' (var ''profile''))],
      for_in [''pool''] (self ''egr_pools'') [
        run (api_remove ''buffer_pool'' (var ''pool''))],
      for_in [''pool''] (self ''ingr_pools'') [
        run (api_remove ''buffer_pool'' (var ''pool''))],
      super_tearDown]"

end
