(* ===== verification/TestsDebugCounters.thy ===== *)
theory TestsDebugCounters
  imports PtfOwn PtfConstants
begin

text \<open>
  The tests of debug counters, \<open>ptf/saidebugcounters.py\<close>: a definition per method, statement by statement in the language of
  \<open>PtfScript\<close>, named after its class. A parameter \<open>m_f\<close> is a method \<open>f\<close> that derived classes define anew.
\<close>

section \<open>The tests\<close>

definition debug_counter_type_to_index_base :: "'d stmt" where
  "debug_counter_type_to_index_base = block [
      assign ''index_base'' (num 0),
      if_else (eq (var ''dc_type'') (num SAI_DEBUG_COUNTER_TYPE_PORT_IN_DROP_REASONS)) [
        assign ''index_base'' (num SAI_PORT_STAT_IN_DROP_REASON_RANGE_BASE)] [
        if_else (eq (var ''dc_type'') (num SAI_DEBUG_COUNTER_TYPE_PORT_OUT_DROP_REASONS)) [
          assign ''index_base'' (num SAI_PORT_STAT_OUT_DROP_REASON_RANGE_BASE)] [
          if_else (eq (var ''dc_type'') (num SAI_DEBUG_COUNTER_TYPE_SWITCH_IN_DROP_REASONS)) [
            assign ''index_base'' (num SAI_SWITCH_STAT_IN_DROP_REASON_RANGE_BASE)] [
            if_else (eq (var ''dc_type'') (num SAI_DEBUG_COUNTER_TYPE_SWITCH_OUT_DROP_REASONS)) [
              assign ''index_base'' (num SAI_SWITCH_STAT_OUT_DROP_REASON_RANGE_BASE)] []]]],
      return (var ''index_base'')]"

definition BaseDebugCounterClass_createRouter :: "'d stmt" where
  "BaseDebugCounterClass_createRouter = block [
      set_self ''rif_ids'' (appended (self ''rif_ids'') (api_create ''router_interface'' [(''virtual_router_id'', self
        ''default_vrf''), (''type'', num SAI_ROUTER_INTERFACE_TYPE_PORT), (''port_id'', self ''port0''), (''admin_v4_state'',
        num 1), (''admin_v6_state'', num 1)])),
      set_self ''rif_ids'' (appended (self ''rif_ids'') (api_create ''router_interface'' [(''virtual_router_id'', self
        ''default_vrf''), (''type'', num SAI_ROUTER_INTERFACE_TYPE_PORT), (''port_id'', self ''port1''), (''admin_v4_state'',
        num 1), (''admin_v6_state'', num 1)]))]"

definition BaseDebugCounterClass_createRoute :: "'d stmt" where
  "BaseDebugCounterClass_createRoute = block [
      assign ''route_entry'' (struct ''sai_thrift_route_entry_t'' [(''vr_id'', self ''default_vrf''), (''destination'',
        ip_prefix (var ''nbr_ip_pfx''))]),
      assign ''status'' (api_create_entry ''route_entry'' (var ''route_entry'') [(''packet_action'', var ''packet_action'')]),
      assert_eq (var ''status'') (num SAI_STATUS_SUCCESS),
      set_self ''routes'' (appended (self ''routes'') (var ''route_entry''))]"

definition BaseDebugCounterClass_createRouteV6 :: "'d stmt" where
  "BaseDebugCounterClass_createRouteV6 = block [
      assign ''route_entry'' (struct ''sai_thrift_route_entry_t'' [(''vr_id'', self ''default_vrf''), (''destination'',
        ip_prefix (str ''1234:5678:9abc:def0:4422:1133:5577:99aa/64''))]),
      assign ''status'' (api_create_entry ''route_entry'' (var ''route_entry'') []),
      assert_eq (var ''status'') (num SAI_STATUS_SUCCESS),
      set_self ''routes'' (appended (self ''routes'') (var ''route_entry''))]"

definition BaseDebugCounterClass_createNeighbor :: "'d stmt" where
  "BaseDebugCounterClass_createNeighbor = block [
      assign ''neighbor_entry1'' (struct ''sai_thrift_neighbor_entry_t'' [(''rif_id'', item (list_of []) (num (-1))),
        (''ip_address'', ip_address (var ''nbr_ip''))]),
      set_self ''neighbors'' (appended (self ''neighbors'') (var ''neighbor_entry1'')),
      run (api_create_entry ''neighbor_entry'' (var ''neighbor_entry1'') [(''dst_mac_address'', str ''00:11:22:33:44:55'')])]"

definition BaseDebugCounterClass_createNeighborV6 :: "'d stmt" where
  "BaseDebugCounterClass_createNeighborV6 = block [
      assign ''neighbor_entry1'' (struct ''sai_thrift_neighbor_entry_t'' [(''rif_id'', item (list_of []) (num (-1))),
        (''ip_address'', ip_address (str ''1234:5678:9abc:def0:4422:1133:5577:99aa''))]),
      set_self ''neighbors'' (appended (self ''neighbors'') (var ''neighbor_entry1'')),
      run (api_create_entry ''neighbor_entry'' (var ''neighbor_entry1'') [(''dst_mac_address'', str ''00:11:22:33:44:66'')])]"

definition BaseDebugCounterClass_verifyDebugCounterDropList :: "'d stmt" where
  "BaseDebugCounterClass_verifyDebugCounterDropList = block [
      assign ''attr'' (api_get ''debug_counter'' (var ''dc_oid'') [(''in_drop_reason_list'', struct ''sai_thrift_u32_list_t''
        [(''count'', num 10), (''uint32list'', list_of [])])]),
      if_else (ne (length_of (var ''drop_reasons'')) (field (item (var ''attr'') (str ''in_drop_reason_list'')) ''count'')) [
        print [field (item (var ''attr'') (str ''in_drop_reason_list'')) ''count''],
        return (bool False)] [],
      assign ''found'' (bool False),
      for_in [''drop_reason''] (var ''drop_reasons'') [
        assign ''found'' (bool False),
        for_in [''i''] (range_of (num 0) (field (item (var ''attr'') (str ''in_drop_reason_list'')) ''count'')) [
          if_else (eq (item (field (item (var ''attr'') (str ''in_drop_reason_list'')) ''int32list'') (var ''i'')) (var
            ''drop_reason'')) [
            assign ''found'' (bool True)] []],
        if_else (no (is_true (var ''found''))) [
          return (bool False)] []],
      return (bool True)]"

definition PortDropAclAnyTest_setupPortIngresDropAcl :: "'d stmt" where
  "PortDropAclAnyTest_setupPortIngresDropAcl = block [
      assign ''acl'' (list_of []),
      try_finally [
        assign ''stage'' (num SAI_ACL_STAGE_INGRESS),
        assign ''bind_points'' (list_of [num SAI_ACL_BIND_POINT_TYPE_PORT]),
        assign ''action_types'' (list_of [num SAI_ACL_ACTION_TYPE_PACKET_ACTION]),
        assign ''dip_mask'' (str ''255.255.255.0''),
        assign ''acl_bind_point_type_list'' (struct ''sai_thrift_s32_list_t'' [(''count'', length_of (var ''bind_points'')),
          (''int32list'', var ''bind_points'')]),
        assign ''acl_action_type_list'' (struct ''sai_thrift_s32_list_t'' [(''count'', length_of (var ''action_types'')),
          (''int32list'', var ''action_types'')]),
        if_else (no (is_none (var ''dip''))) [
          assign ''dip_ind'' (bool True),
          assign ''dst_ip'' (struct ''sai_thrift_acl_field_data_t'' [(''data'', struct ''sai_thrift_acl_field_data_data_t''
            [(''ip4'', var ''dip'')]), (''mask'', struct ''sai_thrift_acl_field_data_mask_t'' [(''ip4'', var ''dip_mask'')])])] [
          assign ''dip_ind'' none,
          assign ''dst_ip'' none],
        if_else (no (is_none (var ''dmac''))) [
          assign ''dmac_ind'' (bool True),
          assign ''dst_mac'' (struct ''sai_thrift_acl_field_data_t'' [(''data'', struct ''sai_thrift_acl_field_data_data_t''
            [(''mac'', var ''dmac'')]), (''mask'', struct ''sai_thrift_acl_field_data_mask_t'' [(''mac'', var ''mac_mask'')])])] [
          assign ''dmac_ind'' none,
          assign ''dst_mac'' none],
        assign ''acl_table_id'' (api_create ''acl_table'' [(''acl_stage'', var ''stage''), (''acl_bind_point_type_list'', var
          ''acl_bind_point_type_list''), (''acl_action_type_list'', var ''acl_action_type_list''), (''field_dst_ip'', var
          ''dip_ind''), (''field_dst_mac'', var ''dmac_ind'')]),
        assert (ne (var ''acl_table_id'') (num 0)),
        assign ''action_drop'' (var ''action''),
        assign ''packet_action'' (struct ''sai_thrift_acl_action_data_t'' [(''parameter'', struct
          ''sai_thrift_acl_action_parameter_t'' [(''s32'', var ''action_drop'')])]),
        assign ''acl_entry'' (api_create ''acl_entry'' [(''table_id'', var ''acl_table_id''), (''action_packet_action'', var
          ''packet_action''), (''field_dst_ip'', var ''dst_ip''), (''field_dst_mac'', var ''dst_mac'')]),
        assert (ne (var ''acl_entry'') (num 0)),
        assign ''acl_table_group'' (api_create ''acl_table_group'' [(''acl_stage'', var ''stage''),
          (''acl_bind_point_type_list'', var ''acl_bind_point_type_list''), (''type'', num SAI_ACL_TABLE_GROUP_TYPE_PARALLEL)]),
        assign ''acl_group_member'' (api_create ''acl_table_group_member'' [(''acl_table_group_id'', var ''acl_table_group''),
          (''acl_table_id'', var ''acl_table_id'')])] [
        assign ''acl'' (appended (var ''acl'') (dict_of [(str ''acl_table'', var ''acl_table_id''), (str ''acl_entry'', var
          ''acl_entry''), (str ''acl_table_group'', var ''acl_table_group''), (str ''acl_group_member'', var
          ''acl_group_member'')]))],
      return (var ''acl'')]"

end
