(* ===== verification/TestsExample.thy ===== *)
theory TestsExample
  imports PtfOwn PtfConstants
begin

text \<open>
  The tests of the example of a test, \<open>ptf/saitest.py\<close>: a definition per method, statement by statement in the language of
  \<open>PtfScript\<close>, named after its class. A parameter \<open>m_f\<close> is a method \<open>f\<close> that derived classes define anew.
\<close>

section \<open>The tests\<close>

definition FrameworkTester_setUp :: "'d stmt" where
  "FrameworkTester_setUp = block [
      super_setUp,
      set_self ''route_entry_list'' (list_of []),
      set_self ''nhop_list'' (list_of []),
      set_self ''fdb_entry'' (struct ''sai_thrift_fdb_entry_t'' [(''switch_id'', self ''switch_id''), (''mac_address'', str
        ''00:11:22:33:44:55''), (''bv_id'', self ''vlan10'')]),
      assign ''status'' (api_create_entry ''fdb_entry'' (self ''fdb_entry'') [(''type'', num SAI_FDB_ENTRY_TYPE_STATIC),
        (''bridge_port_id'', self ''port0_bp'')]),
      assert_eq (var ''status'') (num SAI_STATUS_SUCCESS),
      set_self ''nhop'' (api_create ''next_hop'' [(''type'', num SAI_NEXT_HOP_TYPE_IP), (''router_interface_id'', self
        ''port10_rif''), (''ip'', ip_address (str ''10.10.10.1''))]),
      set_self ''nhop_list'' (appended (self ''nhop_list'') (self ''nhop'')),
      set_self ''nhop1'' (api_create ''next_hop'' [(''type'', num SAI_NEXT_HOP_TYPE_IP), (''router_interface_id'', self
        ''port10_rif''), (''ip'', ip_address (str ''4444::1''))]),
      set_self ''nhop_list'' (appended (self ''nhop_list'') (self ''nhop1'')),
      set_self ''neigh_entry'' (struct ''sai_thrift_neighbor_entry_t'' [(''switch_id'', self ''switch_id''), (''rif_id'', self
        ''port10_rif''), (''ip_address'', ip_address (str ''10.10.10.1''))]),
      set_self ''neigh'' (api_create_entry ''neighbor_entry'' (self ''neigh_entry'') [(''dst_mac_address'', str
        ''00:11:22:33:44:66'')]),
      set_self ''route0'' (struct ''sai_thrift_route_entry_t'' [(''switch_id'', self ''switch_id''), (''destination'', ip_prefix
        (str ''20.20.20.1/16'')), (''vr_id'', self ''default_vrf'')]),
      assign ''status'' (api_create_entry ''route_entry'' (self ''route0'') [(''next_hop_id'', self ''nhop'')]),
      assert_eq (var ''status'') (num SAI_STATUS_SUCCESS),
      set_self ''route_entry_list'' (appended (self ''route_entry_list'') (self ''route0'')),
      set_self ''route1'' (struct ''sai_thrift_route_entry_t'' [(''switch_id'', self ''switch_id''), (''destination'', ip_prefix
        (str ''4441::1/64'')), (''vr_id'', self ''default_vrf'')]),
      assign ''status'' (api_create_entry ''route_entry'' (self ''route1'') [(''next_hop_id'', self ''nhop'')]),
      assert_eq (var ''status'') (num SAI_STATUS_SUCCESS),
      set_self ''route_entry_list'' (appended (self ''route_entry_list'') (self ''route1'')),
      set_self ''route2'' (struct ''sai_thrift_route_entry_t'' [(''switch_id'', self ''switch_id''), (''destination'', ip_prefix
        (str ''4411::1/63'')), (''vr_id'', self ''default_vrf'')]),
      assign ''status'' (api_create_entry ''route_entry'' (self ''route2'') [(''next_hop_id'', self ''nhop'')]),
      assert_eq (var ''status'') (num SAI_STATUS_SUCCESS),
      set_self ''route_entry_list'' (appended (self ''route_entry_list'') (self ''route2'')),
      set_self ''route3'' (struct ''sai_thrift_route_entry_t'' [(''switch_id'', self ''switch_id''), (''destination'', ip_prefix
        (str ''4423::1/65'')), (''vr_id'', self ''default_vrf'')]),
      assign ''status'' (api_create_entry ''route_entry'' (self ''route3'') [(''next_hop_id'', self ''nhop'')]),
      assert_eq (var ''status'') (num SAI_STATUS_SUCCESS),
      set_self ''route_entry_list'' (appended (self ''route_entry_list'') (self ''route3'')),
      set_self ''route4'' (struct ''sai_thrift_route_entry_t'' [(''switch_id'', self ''switch_id''), (''destination'', ip_prefix
        (str ''4444::1/127'')), (''vr_id'', self ''default_vrf'')]),
      assign ''status'' (api_create_entry ''route_entry'' (self ''route4'') [(''next_hop_id'', self ''nhop'')]),
      assert_eq (var ''status'') (num SAI_STATUS_SUCCESS),
      set_self ''route_entry_list'' (appended (self ''route_entry_list'') (self ''route4'')),
      assign ''dscp_to_tc_1'' (struct ''sai_thrift_qos_map_t'' [(''key'', struct ''sai_thrift_qos_map_params_t'' [(''dscp'', num
        2)]), (''value'', struct ''sai_thrift_qos_map_params_t'' [(''tc'', num 16)])]),
      assign ''dscp_to_tc_2'' (struct ''sai_thrift_qos_map_t'' [(''key'', struct ''sai_thrift_qos_map_params_t'' [(''dscp'', num
        4)]), (''value'', struct ''sai_thrift_qos_map_params_t'' [(''tc'', num 24)])]),
      set_self ''qos_map_list'' (struct ''sai_thrift_qos_map_list_t'' [(''count'', num 2), (''maplist'', list_of [var
        ''dscp_to_tc_1'', var ''dscp_to_tc_2''])]),
      set_self ''qos_map'' (api_create ''qos_map'' [(''type'', num SAI_QOS_MAP_TYPE_DSCP_TO_TC), (''map_to_value_list'', self
        ''qos_map_list'')])]"

definition FrameworkTester_runTest :: "'d stmt" where
  "FrameworkTester_runTest = block [
      assign ''attr'' (api_get ''fdb_entry'' (self ''fdb_entry'') [(''bridge_port_id'', bool True)]),
      assert_eq (item (var ''attr'') (str ''bridge_port_id'')) (self ''port0_bp''),
      for_in [''route''] (list_of [self ''route0'', self ''route1'', self ''route2'', self ''route3'', self ''route4'']) [
        assign ''attr'' (api_get ''route_entry'' (var ''route'') [(''next_hop_id'', bool True)]),
        assert_eq (item (var ''attr'') (str ''next_hop_id'')) (self ''nhop'')],
      assign ''attr'' (api_get ''next_hop'' (self ''nhop'') [(''ip'', str ''0.0.0.0'')]),
      assert_eq (field (field (item (var ''attr'') (str ''ip'')) ''addr'') ''ip4'') (str ''10.10.10.1''),
      assign ''attr'' (api_get ''next_hop'' (self ''nhop1'') [(''ip'', str ''0.0.0.0'')]),
      assert_eq (field (field (item (var ''attr'') (str ''ip'')) ''addr'') ''ip6'') (str ''4444::1''),
      assign ''attr'' (api_get ''neighbor_entry'' (self ''neigh_entry'') [(''dst_mac_address'', bool True)]),
      assert_eq (item (var ''attr'') (str ''dst_mac_address'')) (str ''00:11:22:33:44:66''),
      assign ''attr'' (api_get ''qos_map'' (self ''qos_map'') [(''map_to_value_list'', struct ''sai_thrift_qos_map_list_t''
        [(''count'', num 2), (''maplist'', list_of [])])]),
      assert_eq (field (item (var ''attr'') (str ''map_to_value_list'')) ''count'') (field (self ''qos_map_list'') ''count''),
      for_in [''i''] (range_of (num 0) (field (self ''qos_map_list'') ''count'')) [
        assert_eq (field (field (item (field (item (var ''attr'') (str ''map_to_value_list'')) ''maplist'') (var ''i''))
          ''key'') ''dscp'') (field (field (item (field (self ''qos_map_list'') ''maplist'') (var ''i'')) ''key'') ''dscp''),
        assert_eq (field (field (item (field (item (var ''attr'') (str ''map_to_value_list'')) ''maplist'') (var ''i''))
          ''value'') ''tc'') (field (field (item (field (self ''qos_map_list'') ''maplist'') (var ''i'')) ''value'') ''tc'')]]"

definition FrameworkTester_tearDown :: "'d stmt" where
  "FrameworkTester_tearDown = block [
      run (api_remove ''qos_map'' (self ''qos_map'')),
      for_in [''route_entry''] (self ''route_entry_list'') [
        run (api_remove ''route_entry'' (var ''route_entry''))],
      run (api_remove ''neighbor_entry'' (self ''neigh_entry'')),
      for_in [''nhop''] (self ''nhop_list'') [
        run (api_remove ''next_hop'' (var ''nhop''))],
      run (api_remove ''fdb_entry'' (self ''fdb_entry'')),
      super_tearDown]"

end
