(* ===== verification/TestsFdb.thy ===== *)
theory TestsFdb
  imports PtfOwn PtfConstants
begin

text \<open>
  The tests of the forwarding database, \<open>ptf/saifdb.py\<close>: a definition per method, statement by statement in the language of
  \<open>PtfScript\<close>, named after its class. A parameter \<open>m_f\<close> is a method \<open>f\<close> that derived classes define anew.
\<close>

section \<open>The tests\<close>

definition FdbAttributeTest_setUp :: "'d stmt" where
  "FdbAttributeTest_setUp = block [
      super_setUp,
      set_self ''fdb_entry'' (struct ''sai_thrift_fdb_entry_t'' [(''switch_id'', self ''switch_id''), (''mac_address'', str
        ''00:11:22:33:44:55''), (''bv_id'', self ''vlan10'')]),
      run (api_create_entry ''fdb_entry'' (self ''fdb_entry'') [(''type'', num SAI_FDB_ENTRY_TYPE_STATIC), (''bridge_port_id'',
        self ''port0_bp'')]),
      assert_eq status (num SAI_STATUS_SUCCESS)]"

definition FdbAttributeTest_runTest :: "'d stmt" where
  "FdbAttributeTest_runTest = block [
      assign ''attr'' (api_get ''fdb_entry'' (self ''fdb_entry'') [(''bridge_port_id'', bool True)]),
      assert_eq (item (var ''attr'') (str ''bridge_port_id'')) (self ''port0_bp''),
      assign ''attr'' (api_get ''fdb_entry'' (self ''fdb_entry'') [(''type'', bool True)]),
      assert_eq (item (var ''attr'') (str ''type'')) (num SAI_FDB_ENTRY_TYPE_STATIC),
      run (api_set ''fdb_entry'' (self ''fdb_entry'') [(''packet_action'', num SAI_PACKET_ACTION_FORWARD)]),
      assert_eq status (num SAI_STATUS_SUCCESS),
      assign ''attr'' (api_get ''fdb_entry'' (self ''fdb_entry'') [(''packet_action'', bool True)]),
      assert_eq (item (var ''attr'') (str ''packet_action'')) (num SAI_PACKET_ACTION_FORWARD)]"

definition FdbAttributeTest_tearDown :: "'d stmt" where
  "FdbAttributeTest_tearDown = block [
      run (api_remove ''fdb_entry'' (self ''fdb_entry'')),
      super_tearDown]"

definition FdbNoLearnTest_setUp :: "'d stmt" where
  "FdbNoLearnTest_setUp = block [
      super_setUp,
      assign ''vlan_id'' (num 10),
      set_self ''src_mac'' (str ''00:11:11:11:11:11''),
      set_self ''dst_mac'' (str ''00:22:22:22:22:22''),
      set_self ''pkt'' (lib ''simple_udp_packet'' [] [(''eth_dst'', self ''dst_mac''), (''eth_src'', self ''src_mac''),
        (''pktlen'', num 100)]),
      set_self ''tag_pkt'' (lib ''simple_udp_packet'' [] [(''eth_dst'', self ''dst_mac''), (''eth_src'', self ''src_mac''),
        (''dl_vlan_enable'', bool True), (''vlan_vid'', var ''vlan_id''), (''pktlen'', num 104)]),
      set_self ''chck_pkt'' (lib ''simple_udp_packet'' [] [(''eth_dst'', self ''src_mac''), (''eth_src'', self ''dst_mac''),
        (''pktlen'', num 100)]),
      set_self ''tag_chck_pkt'' (lib ''simple_udp_packet'' [] [(''eth_dst'', self ''src_mac''), (''eth_src'', self ''dst_mac''),
        (''dl_vlan_enable'', bool True), (''vlan_vid'', var ''vlan_id''), (''pktlen'', num 104)])]"

definition FdbNoLearnTest_vlanPortNoLearnTest :: "'d stmt" where
  "FdbNoLearnTest_vlanPortNoLearnTest = block [
      try_finally [
        assign ''status'' (api_set ''vlan'' (self ''vlan10'') [(''learn_disable'', bool True)]),
        assert_eq (var ''status'') (num SAI_STATUS_SUCCESS),
        print [self ''dev_port0'', self ''src_mac'', self ''dst_mac''],
        run (lib ''send_packet'' [self ''dev_port0'', self ''pkt''] []),
        run (lib ''verify_each_packet_on_multiple_port_lists'' [list_of [self ''tag_pkt'', self ''pkt''], list_of [list_of [self
          ''dev_port1''], list_of [self ''dev_port4'', self ''dev_port5'', self ''dev_port6'']]] []),
        print [self ''dev_port1'', self ''src_mac''],
        run (lib ''send_packet'' [self ''dev_port1'', self ''tag_chck_pkt''] []),
        run (lib ''verify_each_packet_on_multiple_port_lists'' [list_of [self ''chck_pkt'', self ''chck_pkt''], list_of [list_of
          [self ''dev_port0''], list_of [self ''dev_port4'', self ''dev_port5'', self ''dev_port6'']]] [])] [
        run (lib ''sai_thrift_flush_fdb_entries'' [] [(''entry_type'', num SAI_FDB_FLUSH_ENTRY_TYPE_ALL)]),
        run (api_set ''vlan'' (self ''vlan10'') [(''learn_disable'', bool False)])]]"

definition FdbNoLearnTest_vlanLagNoLearnTest :: "'d stmt" where
  "FdbNoLearnTest_vlanLagNoLearnTest = block [
      try_finally [
        assign ''status'' (api_set ''vlan'' (self ''vlan10'') [(''learn_disable'', bool True)]),
        assert_eq (var ''status'') (num SAI_STATUS_SUCCESS),
        print [self ''dev_port5'', self ''src_mac'', self ''dst_mac''],
        run (lib ''send_packet'' [self ''dev_port5'', self ''pkt''] []),
        run (lib ''verify_each_packet_on_each_port'' [list_of [self ''pkt'', self ''tag_pkt''], list_of [self ''dev_port0'',
          self ''dev_port1'']] []),
        print [self ''dev_port1'', self ''src_mac''],
        run (lib ''send_packet'' [self ''dev_port1'', self ''tag_chck_pkt''] []),
        run (lib ''verify_each_packet_on_multiple_port_lists'' [list_of [self ''chck_pkt'', self ''chck_pkt''], list_of [list_of
          [self ''dev_port0''], list_of [self ''dev_port4'', self ''dev_port5'', self ''dev_port6'']]] [])] [
        run (lib ''sai_thrift_flush_fdb_entries'' [] [(''entry_type'', num SAI_FDB_FLUSH_ENTRY_TYPE_ALL)]),
        run (api_set ''vlan'' (self ''vlan10'') [(''learn_disable'', bool False)])]]"

definition FdbNoLearnTest_bpPortNoLearnTest :: "'d stmt" where
  "FdbNoLearnTest_bpPortNoLearnTest = block [
      try_finally [
        assign ''status'' (api_set ''bridge_port'' (self ''port0_bp'') [(''fdb_learning_mode'', num
          SAI_BRIDGE_PORT_FDB_LEARNING_MODE_DISABLE)]),
        assert_eq (var ''status'') (num SAI_STATUS_SUCCESS),
        print [self ''dev_port0''],
        print [self ''dev_port0'', self ''src_mac'', self ''dst_mac''],
        run (lib ''send_packet'' [self ''dev_port0'', self ''pkt''] []),
        run (lib ''verify_each_packet_on_multiple_port_lists'' [list_of [self ''tag_pkt'', self ''pkt''], list_of [list_of [self
          ''dev_port1''], list_of [self ''dev_port4'', self ''dev_port5'', self ''dev_port6'']]] []),
        print [self ''dev_port1'', self ''src_mac''],
        run (lib ''send_packet'' [self ''dev_port1'', self ''tag_chck_pkt''] []),
        run (lib ''verify_each_packet_on_multiple_port_lists'' [list_of [self ''chck_pkt'', self ''chck_pkt''], list_of [list_of
          [self ''dev_port0''], list_of [self ''dev_port4'', self ''dev_port5'', self ''dev_port6'']]] [])] [
        run (lib ''sai_thrift_flush_fdb_entries'' [] [(''entry_type'', num SAI_FDB_FLUSH_ENTRY_TYPE_ALL)]),
        run (api_set ''bridge_port'' (self ''port0_bp'') [(''fdb_learning_mode'', num SAI_BRIDGE_PORT_FDB_LEARNING_MODE_HW)])]]"

definition FdbNoLearnTest_bpLagNoLearnTest :: "'d stmt" where
  "FdbNoLearnTest_bpLagNoLearnTest = block [
      try_finally [
        assign ''status'' (api_set ''bridge_port'' (self ''lag1_bp'') [(''fdb_learning_mode'', num
          SAI_BRIDGE_PORT_FDB_LEARNING_MODE_DISABLE)]),
        assert_eq (var ''status'') (num SAI_STATUS_SUCCESS),
        print [self ''dev_port5'', self ''src_mac'', self ''dst_mac''],
        run (lib ''send_packet'' [self ''dev_port5'', self ''pkt''] []),
        run (lib ''verify_each_packet_on_each_port'' [list_of [self ''pkt'', self ''tag_pkt''], list_of [self ''dev_port0'',
          self ''dev_port1'']] []),
        print [self ''dev_port1'', self ''src_mac''],
        run (lib ''send_packet'' [self ''dev_port1'', self ''tag_chck_pkt''] []),
        run (lib ''verify_each_packet_on_multiple_port_lists'' [list_of [self ''chck_pkt'', self ''chck_pkt''], list_of [list_of
          [self ''dev_port0''], list_of [self ''dev_port4'', self ''dev_port5'', self ''dev_port6'']]] [])] [
        run (lib ''sai_thrift_flush_fdb_entries'' [] [(''entry_type'', num SAI_FDB_FLUSH_ENTRY_TYPE_ALL)]),
        run (api_set ''bridge_port'' (self ''lag1_bp'') [(''fdb_learning_mode'', num SAI_BRIDGE_PORT_FDB_LEARNING_MODE_HW)])]]"

definition FdbNoLearnTest_noBpNoLearnTest :: "'d stmt" where
  "FdbNoLearnTest_noBpNoLearnTest = block [
      assign ''test_port'' (self ''port24''),
      assign ''test_dev_port'' (self ''dev_port24''),
      assign ''vlan10_ports'' (list_of [list_of [self ''dev_port0''], list_of [self ''dev_port1''], list_of [self ''dev_port4'',
        self ''dev_port5'', self ''dev_port6'']]),
      assign ''chck_port'' (item (item (var ''vlan10_ports'') (num 0)) (num 0)),
      assign ''flood_pkt_list'' (list_of [self ''pkt'', self ''tag_pkt'', self ''pkt'']),
      assign ''flood_port_list'' (list_of [list_of [self ''dev_port1''], list_of [self ''dev_port4'', self ''dev_port5'', self
        ''dev_port6'']]),
      assign ''flood_chk_pkt_list'' (list_of [self ''tag_chck_pkt'', self ''chck_pkt'']),
      assign ''vlan_id'' (num 10),
      try_finally [
        run (api_set ''port'' (var ''test_port'') [(''port_vlan_id'', var ''vlan_id'')]),
        print [var ''test_dev_port''],
        run (lib ''send_packet'' [var ''test_dev_port'', self ''pkt''] []),
        run (lib ''verify_each_packet_on_multiple_port_lists'' [var ''flood_pkt_list'', var ''vlan10_ports''] []),
        print [var ''test_dev_port''],
        run (lib ''send_packet'' [var ''chck_port'', self ''chck_pkt''] []),
        run (lib ''verify_each_packet_on_multiple_port_lists'' [var ''flood_chk_pkt_list'', var ''flood_port_list''] [])] [
        run (lib ''sai_thrift_flush_fdb_entries'' [] [(''entry_type'', num SAI_FDB_FLUSH_ENTRY_TYPE_ALL)]),
        run (api_set ''port'' (var ''test_port'') [(''port_vlan_id'', num 0)])]]"

definition FdbNoLearnTest_removedBpNoLearnTest :: "'d stmt" where
  "FdbNoLearnTest_removedBpNoLearnTest = block [
      try_finally [
        run (api_remove ''bridge_port'' (self ''port0_bp'')),
        print [self ''dev_port0''],
        run (lib ''send_packet'' [self ''dev_port0'', self ''pkt''] []),
        run (lib ''verify_each_packet_on_multiple_port_lists'' [list_of [self ''tag_pkt'', self ''pkt''], list_of [list_of [self
          ''dev_port1''], list_of [self ''dev_port4'', self ''dev_port5'', self ''dev_port6'']]] []),
        print [self ''dev_port0''],
        run (lib ''send_packet'' [self ''dev_port1'', self ''tag_chck_pkt''] []),
        run (lib ''verify_each_packet_on_multiple_port_lists'' [list_of [self ''chck_pkt'', self ''chck_pkt''], list_of [list_of
          [self ''dev_port0''], list_of [self ''dev_port4'', self ''dev_port5'', self ''dev_port6'']]] [])] [
        run (lib ''sai_thrift_flush_fdb_entries'' [] [(''entry_type'', num SAI_FDB_FLUSH_ENTRY_TYPE_ALL)]),
        set_self ''port0_bp'' (api_create ''bridge_port'' [(''bridge_id'', self ''default_1q_bridge''), (''port_id'', self
          ''port0''), (''type'', num SAI_BRIDGE_PORT_TYPE_PORT), (''admin_state'', bool True)]),
        assert_ne (self ''port0_bp'') (num 0)]]"

definition FdbNoLearnTest_runTest :: "'d stmt" where
  "FdbNoLearnTest_runTest = block [
      run (invoke [] FdbNoLearnTest_vlanPortNoLearnTest),
      run (invoke [] FdbNoLearnTest_vlanLagNoLearnTest),
      run (invoke [] FdbNoLearnTest_bpPortNoLearnTest),
      run (invoke [] FdbNoLearnTest_bpLagNoLearnTest),
      run (invoke [] FdbNoLearnTest_noBpNoLearnTest),
      run (invoke [] FdbNoLearnTest_removedBpNoLearnTest)]"

definition FdbLearnTest_setUp :: "'d stmt" where
  "FdbLearnTest_setUp = block [
      super_setUp,
      set_self ''vlan_id'' (num 10),
      set_self ''vlan10_member3'' (api_create ''vlan_member'' [(''vlan_id'', self ''vlan10''), (''bridge_port_id'', self
        ''lag2_bp''), (''vlan_tagging_mode'', num SAI_VLAN_TAGGING_MODE_TAGGED)]),
      set_self ''src_ports'' (list_of [self ''dev_port0'', self ''dev_port1'', self ''dev_port4'', self ''dev_port5'', self
        ''dev_port6'', self ''dev_port7'', self ''dev_port8'', self ''dev_port9'']),
      set_self ''macs'' (list_of []),
      for_in [''i''] (range_of (num 1) (length_of (self ''src_ports''))) [
        set_self ''macs'' (appended (self ''macs'') (formatted ''00:%02d:%02d:%02d:%02d:%02d'' [var ''i'', var ''i'', var ''i'',
          var ''i'', var ''i'']))],
      set_self ''utg_lag_ports'' (list_of [self ''dev_port4'', self ''dev_port5'', self ''dev_port6'']),
      set_self ''tg_lag_ports'' (list_of [self ''dev_port7'', self ''dev_port8'', self ''dev_port9'']),
      set_self ''dst_ports'' (list_of [list_of [self ''dev_port0''], list_of [self ''dev_port1''], self ''utg_lag_ports'', self
        ''tg_lag_ports''])]"

definition FdbLearnTest_tearDown :: "'d stmt" where
  "FdbLearnTest_tearDown = block [
      run (api_remove ''vlan_member'' (self ''vlan10_member3'')),
      run (lib ''sai_thrift_flush_fdb_entries'' [] [(''entry_type'', num SAI_FDB_FLUSH_ENTRY_TYPE_ALL)]),
      super_tearDown]"

definition FdbStaticMacTest_setUp :: "'d stmt" where
  "FdbStaticMacTest_setUp = block [
      super_setUp,
      set_self ''vlan_id'' (num 10),
      assign ''lag'' (list_of [self ''dev_port4'', self ''dev_port5'', self ''dev_port6'']),
      set_self ''ports'' (list_of [list_of [self ''dev_port0''], list_of [self ''dev_port1''], var ''lag'']),
      set_self ''macs'' (list_of []),
      for_in [''i''] (range_of (num 1) (add (length_of (self ''ports'')) (num 1))) [
        assign ''mac'' (formatted ''00:%02d:%02d:%02d:%02d:%02d'' [var ''i'', var ''i'', var ''i'', var ''i'', var ''i'']),
        set_self ''macs'' (appended (self ''macs'') (var ''mac''))],
      assign ''fdb_entry1'' (struct ''sai_thrift_fdb_entry_t'' [(''switch_id'', self ''switch_id''), (''mac_address'', item
        (self ''macs'') (num 0)), (''bv_id'', self ''vlan10'')]),
      assign ''status'' (api_create_entry ''fdb_entry'' (var ''fdb_entry1'') [(''type'', num SAI_FDB_ENTRY_TYPE_STATIC),
        (''bridge_port_id'', self ''port0_bp'')]),
      assert_eq (var ''status'') (num SAI_STATUS_SUCCESS),
      assign ''fdb_entry2'' (struct ''sai_thrift_fdb_entry_t'' [(''switch_id'', self ''switch_id''), (''mac_address'', item
        (self ''macs'') (num 1)), (''bv_id'', self ''vlan10'')]),
      assign ''status'' (api_create_entry ''fdb_entry'' (var ''fdb_entry2'') [(''type'', num SAI_FDB_ENTRY_TYPE_STATIC),
        (''bridge_port_id'', self ''port1_bp'')]),
      assert_eq (var ''status'') (num SAI_STATUS_SUCCESS),
      set_self ''fdb_entry3'' (struct ''sai_thrift_fdb_entry_t'' [(''switch_id'', self ''switch_id''), (''mac_address'', item
        (self ''macs'') (num 2)), (''bv_id'', self ''vlan10'')]),
      assign ''status'' (api_create_entry ''fdb_entry'' (self ''fdb_entry3'') [(''type'', num SAI_FDB_ENTRY_TYPE_STATIC),
        (''bridge_port_id'', self ''lag1_bp'')]),
      assert_eq (var ''status'') (num SAI_STATUS_SUCCESS)]"

definition FdbStaticMacTest_staticMacForwardTest :: "'d stmt" where
  "FdbStaticMacTest_staticMacForwardTest = block [
      try_except [
        for_in [''dst_port'', ''dst_mac''] (zipped (self ''ports'') (self ''macs'')) [
          for_in [''src_port'', ''src_mac''] (zipped (list_of [self ''dev_port0'', self ''dev_port1'']) (slice (self ''macs'') 0
            (Some 1))) [
            if_else (eq (list_of [var ''src_port'']) (var ''dst_port'')) [
              continue] [],
            assign ''pkt'' (lib ''simple_udp_packet'' [] [(''eth_dst'', var ''dst_mac''), (''eth_src'', var ''src_mac''),
              (''pktlen'', num 100)]),
            assign ''tag_pkt'' (lib ''simple_udp_packet'' [] [(''eth_dst'', var ''dst_mac''), (''eth_src'', var ''src_mac''),
              (''dl_vlan_enable'', bool True), (''vlan_vid'', self ''vlan_id''), (''pktlen'', num 104)]),
            assign ''send_pkt'' (if_exp (eq (var ''src_port'') (self ''dev_port1'')) (var ''tag_pkt'') (var ''pkt'')),
            assign ''rcv_pkt'' (if_exp (eq (var ''dst_port'') (list_of [self ''dev_port1''])) (var ''tag_pkt'') (var ''pkt'')),
            print [var ''src_port'', var ''src_mac'', var ''dst_mac''],
            run (lib ''send_packet'' [var ''src_port'', var ''send_pkt''] []),
            run (lib ''verify_packet_any_port'' [var ''rcv_pkt'', var ''dst_port''] [])]]] (\<lambda>_. True) []]"

definition FdbStaticMacTest_selfForwardingTest :: "'d stmt" where
  "FdbStaticMacTest_selfForwardingTest = block [
      assign ''test_port_dev'' (self ''dev_port0''),
      assign ''test_mac'' (item (self ''macs'') (num 0)),
      assign ''pkt'' (lib ''simple_udp_packet'' [] [(''eth_dst'', var ''test_mac'')]),
      run (lib ''send_packet'' [var ''test_port_dev'', var ''pkt''] []),
      run (lib ''verify_no_other_packets'' [] [])]"

definition FdbStaticMacTest_runTest :: "'d stmt" where
  "FdbStaticMacTest_runTest = block [
      run (invoke [] FdbStaticMacTest_staticMacForwardTest),
      run (invoke [] FdbStaticMacTest_selfForwardingTest)]"

definition FdbStaticMacTest_tearDown :: "'d stmt" where
  "FdbStaticMacTest_tearDown = block [
      run (lib ''sai_thrift_flush_fdb_entries'' [] [(''entry_type'', num SAI_FDB_FLUSH_ENTRY_TYPE_ALL)]),
      super_tearDown]"

definition FdbMacMoveTest_setUp :: "'d stmt" where
  "FdbMacMoveTest_setUp = block [
      super_setUp,
      run (api_remove ''vlan_member'' (self ''vlan10_member1'')),
      set_self ''vlan10_member1'' (api_create ''vlan_member'' [(''vlan_id'', self ''vlan10''), (''bridge_port_id'', self
        ''port1_bp''), (''vlan_tagging_mode'', num SAI_VLAN_TAGGING_MODE_UNTAGGED)]),
      run (api_set ''port'' (self ''port1'') [(''port_vlan_id'', num 10)]),
      set_self ''port24_bp'' (api_create ''bridge_port'' [(''bridge_id'', self ''default_1q_bridge''), (''port_id'', self
        ''port24''), (''type'', num SAI_BRIDGE_PORT_TYPE_PORT), (''admin_state'', bool True)]),
      assert_ne (self ''port24_bp'') (num 0),
      set_self ''vlan10_member3'' (api_create ''vlan_member'' [(''vlan_id'', self ''vlan10''), (''bridge_port_id'', self
        ''port24_bp''), (''vlan_tagging_mode'', num SAI_VLAN_TAGGING_MODE_UNTAGGED)]),
      run (api_set ''port'' (self ''port24'') [(''port_vlan_id'', num 10)]),
      set_self ''lag10'' (api_create ''lag'' []),
      assert_ne (self ''lag10'') (num 0),
      set_self ''lag10_bp'' (api_create ''bridge_port'' [(''bridge_id'', self ''default_1q_bridge''), (''port_id'', self
        ''lag10''), (''type'', num SAI_BRIDGE_PORT_TYPE_PORT), (''admin_state'', bool True)]),
      assert_ne (self ''lag10_bp'') (num 0),
      set_self ''lag10_member25'' (api_create ''lag_member'' [(''lag_id'', self ''lag10''), (''port_id'', self ''port25'')]),
      set_self ''lag10_member26'' (api_create ''lag_member'' [(''lag_id'', self ''lag10''), (''port_id'', self ''port26'')]),
      set_self ''lag10_member27'' (api_create ''lag_member'' [(''lag_id'', self ''lag10''), (''port_id'', self ''port27'')]),
      set_self ''vlan10_member4'' (api_create ''vlan_member'' [(''vlan_id'', self ''vlan10''), (''bridge_port_id'', self
        ''lag10_bp''), (''vlan_tagging_mode'', num SAI_VLAN_TAGGING_MODE_UNTAGGED)]),
      run (api_set ''lag'' (self ''lag10'') [(''port_vlan_id'', num 10)]),
      set_self ''moving_mac'' (str ''00:11:22:33:44:55''),
      set_self ''chck_mac'' (str ''00:11:11:11:11:11''),
      set_self ''fdb_entry'' (struct ''sai_thrift_fdb_entry_t'' [(''switch_id'', self ''switch_id''), (''mac_address'', self
        ''chck_mac''), (''bv_id'', self ''vlan10'')]),
      assign ''status'' (api_create_entry ''fdb_entry'' (self ''fdb_entry'') [(''type'', num SAI_FDB_ENTRY_TYPE_STATIC),
        (''bridge_port_id'', self ''port24_bp'')]),
      assert_eq (var ''status'') (num SAI_STATUS_SUCCESS)]"

definition FdbMacMoveTest_dynamicMacMoveTest :: "'d stmt" where
  "FdbMacMoveTest_dynamicMacMoveTest = block [
      assign ''port_chain'' (list_of [self ''dev_port0'', self ''dev_port1'', self ''dev_port5'', self ''dev_port27'', self
        ''dev_port1'']),
      assign ''chck_port'' (self ''dev_port24''),
      assign ''lag1_ports'' (list_of [self ''dev_port4'', self ''dev_port5'', self ''dev_port6'']),
      assign ''lag3_ports'' (list_of [self ''dev_port25'', self ''dev_port26'', self ''dev_port27'']),
      assign ''pkt'' (lib ''simple_udp_packet'' [] [(''eth_dst'', self ''chck_mac''), (''eth_src'', self ''moving_mac'')]),
      assign ''chck_pkt'' (lib ''simple_udp_packet'' [] [(''eth_dst'', self ''moving_mac''), (''eth_src'', self ''chck_mac'')]),
      try_finally [
        if_else (var ''static_entry'') [
          assign ''moving_fdb_entry'' (struct ''sai_thrift_fdb_entry_t'' [(''switch_id'', self ''switch_id''), (''mac_address'',
            self ''moving_mac''), (''bv_id'', self ''vlan10'')]),
          assign ''status'' (api_create_entry ''fdb_entry'' (var ''moving_fdb_entry'') [(''type'', num
            SAI_FDB_ENTRY_TYPE_STATIC), (''bridge_port_id'', self ''port0_bp''), (''allow_mac_move'', bool True)]),
          assert_eq (var ''status'') (num SAI_STATUS_SUCCESS)] [],
        for_in [''src_port''] (var ''port_chain'') [
          print [var ''src_port'', self ''moving_mac'', self ''chck_mac'', var ''chck_port''],
          run (lib ''send_packet'' [var ''src_port'', var ''pkt''] []),
          run (lib ''verify_packets'' [var ''pkt'', list_of [var ''chck_port'']] []),
          if_else (is_in (var ''src_port'') (var ''lag1_ports'')) [
            assign ''rcv_port'' (var ''lag1_ports''),
            print [var ''chck_port'', self ''chck_mac'', self ''moving_mac'']] [
            if_else (is_in (var ''src_port'') (var ''lag3_ports'')) [
              assign ''rcv_port'' (var ''lag3_ports''),
              print [var ''chck_port'', self ''chck_mac'', self ''moving_mac'']] [
              assign ''rcv_port'' (list_of [var ''src_port'']),
              print [var ''chck_port'', self ''chck_mac'', self ''moving_mac'', var ''src_port'']]],
          run (lib ''send_packet'' [var ''chck_port'', var ''chck_pkt''] []),
          run (lib ''verify_packet_any_port'' [var ''chck_pkt'', var ''rcv_port''] [])]] [
        if_else (var ''static_entry'') [
          run (api_remove ''fdb_entry'' (var ''moving_fdb_entry''))] [
          run (lib ''sai_thrift_flush_fdb_entries'' [] [(''entry_type'', num SAI_FDB_FLUSH_ENTRY_TYPE_DYNAMIC)])]]]"

definition FdbMacMoveTest_staticMacMoveTest :: "'d stmt" where
  "FdbMacMoveTest_staticMacMoveTest = block [
      assign ''port_chain'' (list_of [self ''dev_port0'', self ''dev_port1'', self ''dev_port5'', self ''dev_port27'', self
        ''dev_port1'']),
      assign ''bport_chain'' (list_of [self ''port0_bp'', self ''port1_bp'', self ''lag1_bp'', self ''lag10_bp'', self
        ''port1_bp'']),
      assign ''chck_port'' (self ''dev_port24''),
      assign ''lag1_ports'' (list_of [self ''dev_port4'', self ''dev_port5'', self ''dev_port6'']),
      assign ''lag3_ports'' (list_of [self ''dev_port25'', self ''dev_port26'', self ''dev_port27'']),
      assign ''chck_pkt'' (lib ''simple_udp_packet'' [] [(''eth_dst'', self ''moving_mac''), (''eth_src'', self ''chck_mac'')]),
      try_finally [
        assign ''moving_fdb_entry'' (struct ''sai_thrift_fdb_entry_t'' [(''switch_id'', self ''switch_id''), (''mac_address'',
          self ''moving_mac''), (''bv_id'', self ''vlan10'')]),
        assign ''status'' (api_create_entry ''fdb_entry'' (var ''moving_fdb_entry'') [(''type'', num SAI_FDB_ENTRY_TYPE_STATIC),
          (''bridge_port_id'', self ''port0_bp'')]),
        assert_eq (var ''status'') (num SAI_STATUS_SUCCESS),
        for_in [''port'', ''bport''] (zipped (var ''port_chain'') (var ''bport_chain'')) [
          assign ''status'' (api_set ''fdb_entry'' (var ''moving_fdb_entry'') [(''bridge_port_id'', var ''bport'')]),
          assert_eq (var ''status'') (num SAI_STATUS_SUCCESS),
          if_else (is_in (var ''port'') (var ''lag1_ports'')) [
            assign ''rcv_port'' (var ''lag1_ports''),
            print [var ''chck_port'', self ''chck_mac'', self ''moving_mac'']] [
            if_else (is_in (var ''port'') (var ''lag3_ports'')) [
              assign ''rcv_port'' (var ''lag3_ports''),
              print [var ''chck_port'', self ''chck_mac'', self ''moving_mac'']] [
              assign ''rcv_port'' (list_of [var ''port'']),
              print [var ''chck_port'', self ''chck_mac'', self ''moving_mac'', var ''port'']]],
          run (lib ''send_packet'' [var ''chck_port'', var ''chck_pkt''] []),
          run (lib ''verify_packet_any_port'' [var ''chck_pkt'', var ''rcv_port''] [])]] [
        run (api_remove ''fdb_entry'' (var ''moving_fdb_entry''))]]"

definition FdbMacMoveTest_runTest :: "'d stmt" where
  "FdbMacMoveTest_runTest = block [
      run (invoke [(''static_entry'', bool False)] FdbMacMoveTest_dynamicMacMoveTest),
      run (invoke [(''static_entry'', bool True)] FdbMacMoveTest_dynamicMacMoveTest),
      run (invoke [] FdbMacMoveTest_staticMacMoveTest)]"

definition FdbMacMoveTest_tearDown :: "'d stmt" where
  "FdbMacMoveTest_tearDown = block [
      run (lib ''sai_thrift_flush_fdb_entries'' [] [(''entry_type'', num SAI_FDB_FLUSH_ENTRY_TYPE_ALL)]),
      run (api_set ''lag'' (self ''lag1'') [(''port_vlan_id'', num 0)]),
      run (api_remove ''vlan_member'' (self ''vlan10_member4'')),
      run (api_remove ''lag_member'' (self ''lag10_member27'')),
      run (api_remove ''lag_member'' (self ''lag10_member26'')),
      run (api_remove ''lag_member'' (self ''lag10_member25'')),
      run (api_remove ''bridge_port'' (self ''lag10_bp'')),
      run (api_remove ''lag'' (self ''lag10'')),
      run (api_set ''port'' (self ''port24'') [(''port_vlan_id'', num 0)]),
      run (api_remove ''bridge_port'' (self ''port24_bp'')),
      run (api_remove ''vlan_member'' (self ''vlan10_member3'')),
      run (api_set ''port'' (self ''port1'') [(''port_vlan_id'', num 0)]),
      run (api_remove ''vlan_member'' (self ''vlan10_member1'')),
      set_self ''vlan10_member1'' (api_create ''vlan_member'' [(''vlan_id'', self ''vlan10''), (''bridge_port_id'', self
        ''port1_bp''), (''vlan_tagging_mode'', num SAI_VLAN_TAGGING_MODE_TAGGED)]),
      super_tearDown]"

definition FdbFlushTest_setUp :: "'d stmt" where
  "FdbFlushTest_setUp = block [
      super_setUp,
      run (api_remove ''vlan_member'' (self ''vlan10_member1'')),
      set_self ''vlan10_member1'' (api_create ''vlan_member'' [(''vlan_id'', self ''vlan10''), (''bridge_port_id'', self
        ''port1_bp''), (''vlan_tagging_mode'', num SAI_VLAN_TAGGING_MODE_UNTAGGED)]),
      run (api_set ''port'' (self ''port1'') [(''port_vlan_id'', num 10)]),
      run (api_remove ''vlan_member'' (self ''vlan20_member1'')),
      set_self ''vlan20_member1'' (api_create ''vlan_member'' [(''vlan_id'', self ''vlan20''), (''bridge_port_id'', self
        ''port3_bp''), (''vlan_tagging_mode'', num SAI_VLAN_TAGGING_MODE_UNTAGGED)]),
      run (api_set ''port'' (self ''port3'') [(''port_vlan_id'', num 20)]),
      run (api_remove ''vlan_member'' (self ''vlan20_member2'')),
      set_self ''vlan20_member2'' (api_create ''vlan_member'' [(''vlan_id'', self ''vlan20''), (''bridge_port_id'', self
        ''lag2_bp''), (''vlan_tagging_mode'', num SAI_VLAN_TAGGING_MODE_UNTAGGED)]),
      run (api_set ''lag'' (self ''lag2'') [(''port_vlan_id'', num 20)]),
      set_self ''vlan10_id'' (num 10),
      set_self ''vlan20_id'' (num 20),
      set_self ''tp10_stat_mac'' none,
      set_self ''tp10_dyn_mac'' none,
      set_self ''tp20_stat_mac'' none,
      set_self ''tp20_dyn_mac'' none,
      set_self ''vlan10_member3'' none,
      set_self ''vlan20_member3'' none,
      set_self ''vlan10_ports'' (list_of [self ''dev_port0'', self ''dev_port1'', self ''dev_port4'', self ''dev_port5'', self
        ''dev_port6'']),
      set_self ''vlan10_ports_bp'' (list_of [self ''port0_bp'', self ''port1_bp'', self ''lag1_bp'', self ''lag1_bp'', self
        ''lag1_bp'']),
      set_self ''vlan10_lag_ports'' (list_of [self ''dev_port4'', self ''dev_port5'', self ''dev_port6'']),
      set_self ''vlan10_stat_macs'' (list_of []),
      set_self ''vlan10_dyn_macs'' (list_of []),
      for_in [''i''] (range_of (num 1) (add (length_of (self ''vlan10_ports'')) (num 1))) [
        assign ''mac'' (formatted ''00:10:00:%02d:%02d:%02d'' [var ''i'', var ''i'', var ''i'']),
        set_self ''vlan10_stat_macs'' (appended (self ''vlan10_stat_macs'') (var ''mac'')),
        assign ''mac'' (formatted ''00:10:ff:%02d:%02d:%02d'' [var ''i'', var ''i'', var ''i'']),
        set_self ''vlan10_dyn_macs'' (appended (self ''vlan10_dyn_macs'') (var ''mac''))],
      set_self ''vlan20_ports'' (list_of [self ''dev_port2'', self ''dev_port3'', self ''dev_port7'', self ''dev_port8'', self
        ''dev_port9'']),
      set_self ''vlan20_ports_bp'' (list_of [self ''port2_bp'', self ''port3_bp'', self ''lag2_bp'', self ''lag2_bp'', self
        ''lag2_bp'']),
      set_self ''vlan20_lag_ports'' (list_of [self ''dev_port7'', self ''dev_port8'', self ''dev_port9'']),
      set_self ''vlan20_stat_macs'' (list_of []),
      set_self ''vlan20_dyn_macs'' (list_of []),
      for_in [''i''] (range_of (num 1) (add (length_of (self ''vlan20_ports'')) (num 1))) [
        assign ''mac'' (formatted ''00:20:00:%02d:%02d:%02d'' [var ''i'', var ''i'', var ''i'']),
        set_self ''vlan20_stat_macs'' (appended (self ''vlan20_stat_macs'') (var ''mac'')),
        assign ''mac'' (formatted ''00:20:ff:%02d:%02d:%02d'' [var ''i'', var ''i'', var ''i'']),
        set_self ''vlan20_dyn_macs'' (appended (self ''vlan20_dyn_macs'') (var ''mac''))],
      set_self ''port24_bp'' (api_create ''bridge_port'' [(''bridge_id'', self ''default_1q_bridge''), (''port_id'', self
        ''port24''), (''type'', num SAI_BRIDGE_PORT_TYPE_PORT), (''admin_state'', bool True)]),
      set_self ''trunk_port_bp'' (self ''port24_bp''),
      set_self ''trunk_dev_port'' (self ''dev_port24'')]"

definition FdbFlushTest_prepareFdb :: "'d stmt" where
  "FdbFlushTest_prepareFdb = block [
      run (lib ''sai_thrift_flush_fdb_entries'' [] [(''entry_type'', num SAI_FDB_FLUSH_ENTRY_TYPE_ALL)]),
      for_in [''i''] (range_of (num 0) (length_of (self ''vlan10_ports''))) [
        set_self_named (formatted ''vlan10_fdb_entry%d'' [var ''i'']) (struct ''sai_thrift_fdb_entry_t'' [(''switch_id'', self
          ''switch_id''), (''mac_address'', item (self ''vlan10_stat_macs'') (var ''i'')), (''bv_id'', self ''vlan10'')]),
        run (api_create_entry ''fdb_entry'' (self_named (formatted ''vlan10_fdb_entry%d'' [var ''i''])) [(''type'', num
          SAI_FDB_ENTRY_TYPE_STATIC), (''bridge_port_id'', item (self ''vlan10_ports_bp'') (var ''i''))]),
        assert_eq status (num SAI_STATUS_SUCCESS)],
      for_in [''i''] (range_of (num 0) (length_of (self ''vlan20_ports''))) [
        set_self_named (formatted ''vlan20_fdb_entry%d'' [var ''i'']) (struct ''sai_thrift_fdb_entry_t'' [(''switch_id'', self
          ''switch_id''), (''mac_address'', item (self ''vlan20_stat_macs'') (var ''i'')), (''bv_id'', self ''vlan20'')]),
        run (api_create_entry ''fdb_entry'' (self_named (formatted ''vlan20_fdb_entry%d'' [var ''i''])) [(''type'', num
          SAI_FDB_ENTRY_TYPE_STATIC), (''bridge_port_id'', item (self ''vlan20_ports_bp'') (var ''i''))]),
        assert_eq status (num SAI_STATUS_SUCCESS)],
      for_in [''mac'', ''port''] (zipped (self ''vlan10_dyn_macs'') (self ''vlan10_ports'')) [
        assign ''pkt'' (lib ''simple_udp_packet'' [] [(''eth_dst'', str ''ff:ff:ff:ff:ff:ff''), (''eth_src'', var ''mac'')]),
        run (lib ''send_packet'' [var ''port'', var ''pkt''] [])],
      for_in [''mac'', ''port''] (zipped (self ''vlan20_dyn_macs'') (self ''vlan20_ports'')) [
        assign ''pkt'' (lib ''simple_udp_packet'' [] [(''eth_dst'', str ''ff:ff:ff:ff:ff:ff''), (''eth_src'', var ''mac'')]),
        run (lib ''send_packet'' [var ''port'', var ''pkt''] [])],
      sleep_for (num 2),
      run (lib ''dataplane.flush'' [] [])]"

definition FdbFlushTest_verifyFlood :: "'d stmt" where
  "FdbFlushTest_verifyFlood = block [
      for_in [''dst_mac''] (var ''dst_macs'') [
        for_in [''src_mac'', ''src_port''] (zipped (var ''src_macs'') (var ''src_ports'')) [
          if_else (eq (var ''src_mac'') (var ''dst_mac'')) [
            continue] [],
          assign ''pkt'' (lib ''simple_udp_packet'' [] [(''eth_dst'', var ''dst_mac''), (''eth_src'', var ''src_mac''),
            (''pktlen'', num 100)]),
          assign ''port_list'' (list_of []),
          assign ''lag_set'' (bool False),
          for_in [''port''] (var ''dst_ports'') [
            if_else (eq (var ''port'') (var ''src_port'')) [
              continue] [],
            if_else (is_in (var ''port'') (var ''lag_ports'')) [
              if_else (var ''lag_set'') [
                continue] [],
              assign ''port_list'' (appended (var ''port_list'') (var ''lag_ports'')),
              assign ''lag_set'' (bool True)] [
              assign ''port_list'' (appended (var ''port_list'') (list_of [var ''port'']))]],
          assign ''pkt_list'' (mul (list_of [var ''pkt'']) (length_of (var ''port_list''))),
          if_else (no (is_none (var ''trunk_port''))) [
            assign ''port_list'' (appended (var ''port_list'') (list_of [var ''trunk_port''])),
            assign ''tag_pkt'' (lib ''simple_udp_packet'' [] [(''eth_dst'', var ''dst_mac''), (''eth_src'', var ''src_mac''),
              (''dl_vlan_enable'', bool True), (''vlan_vid'', var ''vlan_id''), (''pktlen'', num 104)]),
            assign ''pkt_list'' (appended (var ''pkt_list'') (var ''tag_pkt''))] [],
          run (lib ''send_packet'' [var ''src_port'', var ''pkt''] []),
          run (lib ''verify_each_packet_on_multiple_port_lists'' [var ''pkt_list'', var ''port_list''] []),
          break]]]"

definition FdbFlushTest_verifyFwd :: "'d stmt" where
  "FdbFlushTest_verifyFwd = block [
      for_in [''dst_mac'', ''dst_port''] (zipped (var ''dst_macs'') (var ''dst_ports'')) [
        for_in [''src_mac'', ''src_port''] (zipped (var ''src_macs'') (var ''src_ports'')) [
          if_else (eq (var ''src_port'') (var ''dst_port'')) [
            continue] [],
          assign ''pkt'' (lib ''simple_udp_packet'' [] [(''eth_dst'', var ''dst_mac''), (''eth_src'', var ''src_mac''),
            (''pktlen'', num 100)]),
          assign ''rcv_pkt'' (var ''pkt''),
          if_else (eq (var ''dst_port'') (var ''trunk_port'')) [
            assign ''tag_pkt'' (lib ''simple_udp_packet'' [] [(''eth_dst'', var ''dst_mac''), (''eth_src'', var ''src_mac''),
              (''dl_vlan_enable'', bool True), (''vlan_vid'', var ''vlan_id''), (''pktlen'', num 104)]),
            assign ''rcv_pkt'' (var ''tag_pkt'')] [],
          assign ''rcv_port'' (if_exp (is_in (var ''dst_port'') (var ''lag_ports'')) (var ''lag_ports'') (list_of [var
            ''dst_port''])),
          run (lib ''send_packet'' [var ''src_port'', var ''pkt''] []),
          run (lib ''verify_packet_any_port'' [var ''rcv_pkt'', var ''rcv_port''] []),
          break]]]"

definition FdbFlushTest_flushStaticPerVlanTest :: "'d stmt" where
  "FdbFlushTest_flushStaticPerVlanTest = block [
      run (invoke [] FdbFlushTest_prepareFdb),
      run (lib ''sai_thrift_flush_fdb_entries'' [] [(''bv_id'', self ''vlan10''), (''entry_type'', num
        SAI_FDB_FLUSH_ENTRY_TYPE_STATIC)]),
      run (invoke [(''dst_macs'', self ''vlan10_stat_macs''), (''dst_ports'', self ''vlan10_ports''), (''src_macs'', list_of
        [item (self ''vlan10_dyn_macs'') (num 0), item (self ''vlan10_dyn_macs'') (num 1)]), (''src_ports'', list_of [self
        ''dev_port0'', self ''dev_port1'']), (''lag_ports'', self ''vlan10_lag_ports''), (''trunk_port'', none), (''vlan_id'',
        none)] FdbFlushTest_verifyFlood),
      run (invoke [(''dst_macs'', self ''vlan20_stat_macs''), (''dst_ports'', self ''vlan20_ports''), (''src_macs'', list_of
        [item (self ''vlan20_stat_macs'') (num 0), item (self ''vlan20_stat_macs'') (num 1)]), (''src_ports'', list_of [self
        ''dev_port2'', self ''dev_port3'']), (''lag_ports'', self ''vlan20_lag_ports''), (''trunk_port'', none), (''vlan_id'',
        none)] FdbFlushTest_verifyFwd),
      run (invoke [(''dst_macs'', self ''vlan10_dyn_macs''), (''dst_ports'', self ''vlan10_ports''), (''src_macs'', list_of
        [item (self ''vlan10_stat_macs'') (num 0), item (self ''vlan10_stat_macs'') (num 1)]), (''src_ports'', list_of [self
        ''dev_port0'', self ''dev_port1'']), (''lag_ports'', self ''vlan10_lag_ports''), (''trunk_port'', none), (''vlan_id'',
        none)] FdbFlushTest_verifyFwd),
      run (invoke [(''dst_macs'', self ''vlan20_dyn_macs''), (''dst_ports'', self ''vlan20_ports''), (''src_macs'', list_of
        [item (self ''vlan20_stat_macs'') (num 0), item (self ''vlan20_stat_macs'') (num 1)]), (''src_ports'', list_of [self
        ''dev_port2'', self ''dev_port3'']), (''lag_ports'', self ''vlan20_lag_ports''), (''trunk_port'', none), (''vlan_id'',
        none)] FdbFlushTest_verifyFwd)]"

definition FdbFlushTest_flushDynamicPerVlanTest :: "'d stmt" where
  "FdbFlushTest_flushDynamicPerVlanTest = block [
      run (invoke [] FdbFlushTest_prepareFdb),
      run (lib ''sai_thrift_flush_fdb_entries'' [] [(''bv_id'', self ''vlan10''), (''entry_type'', num
        SAI_FDB_FLUSH_ENTRY_TYPE_DYNAMIC)]),
      run (invoke [(''dst_macs'', self ''vlan10_dyn_macs''), (''dst_ports'', self ''vlan10_ports''), (''src_macs'', list_of
        [item (self ''vlan10_stat_macs'') (num 0), item (self ''vlan10_stat_macs'') (num 1)]), (''src_ports'', list_of [self
        ''dev_port0'', self ''dev_port1'']), (''lag_ports'', self ''vlan10_lag_ports''), (''trunk_port'', none), (''vlan_id'',
        none)] FdbFlushTest_verifyFlood),
      run (invoke [(''dst_macs'', self ''vlan10_stat_macs''), (''dst_ports'', self ''vlan10_ports''), (''src_macs'', list_of
        [item (self ''vlan10_stat_macs'') (num 0), item (self ''vlan10_stat_macs'') (num 1)]), (''src_ports'', list_of [self
        ''dev_port0'', self ''dev_port1'']), (''lag_ports'', self ''vlan10_lag_ports''), (''trunk_port'', none), (''vlan_id'',
        none)] FdbFlushTest_verifyFwd),
      run (invoke [(''dst_macs'', self ''vlan20_stat_macs''), (''dst_ports'', self ''vlan20_ports''), (''src_macs'', list_of
        [item (self ''vlan20_stat_macs'') (num 0), item (self ''vlan20_stat_macs'') (num 1)]), (''src_ports'', list_of [self
        ''dev_port2'', self ''dev_port3'']), (''lag_ports'', self ''vlan20_lag_ports''), (''trunk_port'', none), (''vlan_id'',
        none)] FdbFlushTest_verifyFwd),
      run (invoke [(''dst_macs'', self ''vlan20_dyn_macs''), (''dst_ports'', self ''vlan20_ports''), (''src_macs'', list_of
        [item (self ''vlan20_stat_macs'') (num 0), item (self ''vlan20_stat_macs'') (num 1)]), (''src_ports'', list_of [self
        ''dev_port2'', self ''dev_port3'']), (''lag_ports'', self ''vlan20_lag_ports''), (''trunk_port'', none), (''vlan_id'',
        none)] FdbFlushTest_verifyFwd)]"

definition FdbFlushTest_flushAllPerVlanTest :: "'d stmt" where
  "FdbFlushTest_flushAllPerVlanTest = block [
      run (invoke [] FdbFlushTest_prepareFdb),
      run (lib ''sai_thrift_flush_fdb_entries'' [] [(''bv_id'', self ''vlan10''), (''entry_type'', num
        SAI_FDB_FLUSH_ENTRY_TYPE_ALL)]),
      assign ''chck_mac1'' (str ''00:10:aa:11:11:11''),
      assign ''chck_mac2'' (str ''00:10:aa:22:22:22''),
      run (invoke [(''dst_macs'', self ''vlan10_stat_macs''), (''dst_ports'', self ''vlan10_ports''), (''src_macs'', list_of
        [var ''chck_mac1'', var ''chck_mac2'']), (''src_ports'', list_of [self ''dev_port0'', self ''dev_port1'']),
        (''lag_ports'', self ''vlan10_lag_ports''), (''trunk_port'', none), (''vlan_id'', none)] FdbFlushTest_verifyFlood),
      run (invoke [(''dst_macs'', self ''vlan10_dyn_macs''), (''dst_ports'', self ''vlan10_ports''), (''src_macs'', list_of [var
        ''chck_mac1'', var ''chck_mac2'']), (''src_ports'', list_of [self ''dev_port0'', self ''dev_port1'']), (''lag_ports'',
        self ''vlan10_lag_ports''), (''trunk_port'', none), (''vlan_id'', none)] FdbFlushTest_verifyFlood),
      run (invoke [(''dst_macs'', self ''vlan20_stat_macs''), (''dst_ports'', self ''vlan20_ports''), (''src_macs'', list_of
        [item (self ''vlan20_stat_macs'') (num 0), item (self ''vlan20_stat_macs'') (num 1)]), (''src_ports'', list_of [self
        ''dev_port2'', self ''dev_port3'']), (''lag_ports'', self ''vlan20_lag_ports''), (''trunk_port'', none), (''vlan_id'',
        none)] FdbFlushTest_verifyFwd),
      run (invoke [(''dst_macs'', self ''vlan20_dyn_macs''), (''dst_ports'', self ''vlan20_ports''), (''src_macs'', list_of
        [item (self ''vlan20_stat_macs'') (num 0), item (self ''vlan20_stat_macs'') (num 1)]), (''src_ports'', list_of [self
        ''dev_port2'', self ''dev_port3'']), (''lag_ports'', self ''vlan20_lag_ports''), (''trunk_port'', none), (''vlan_id'',
        none)] FdbFlushTest_verifyFwd)]"

definition FdbFlushTest_flushStaticPerPortTest :: "'d stmt" where
  "FdbFlushTest_flushStaticPerPortTest = block [
      run (invoke [] FdbFlushTest_prepareFdb),
      assign ''flushed_port_bp'' (self ''port0_bp''),
      assign ''flushed_dev_port'' (item (self ''vlan10_ports'') (num 0)),
      assign ''flushed_mac'' (item (self ''vlan10_stat_macs'') (num 0)),
      print [var ''flushed_dev_port''],
      run (lib ''sai_thrift_flush_fdb_entries'' [] [(''bridge_port_id'', var ''flushed_port_bp''), (''entry_type'', num
        SAI_FDB_FLUSH_ENTRY_TYPE_STATIC)]),
      run (invoke [(''dst_macs'', list_of [var ''flushed_mac'']), (''dst_ports'', self ''vlan10_ports''), (''src_macs'', list_of
        [item (self ''vlan10_dyn_macs'') (num 1)]), (''src_ports'', list_of [item (self ''vlan10_ports'') (num 1)]),
        (''lag_ports'', self ''vlan10_lag_ports''), (''trunk_port'', none), (''vlan_id'', none)] FdbFlushTest_verifyFlood),
      assign ''not_flushed_ports'' (list_comp_if (item (self ''vlan10_ports'') (var ''i'')) [''i''] (ne (item (self
        ''vlan10_ports'') (var ''i'')) (var ''flushed_dev_port'')) (range_of (num 0) (length_of (self ''vlan10_ports'')))),
      assign ''not_flushed_macs'' (list_comp_if (item (self ''vlan10_stat_macs'') (var ''i'')) [''i''] (ne (item (self
        ''vlan10_stat_macs'') (var ''i'')) (var ''flushed_mac'')) (range_of (num 0) (length_of (self ''vlan10_stat_macs'')))),
      run (invoke [(''dst_macs'', var ''not_flushed_macs''), (''dst_ports'', var ''not_flushed_ports''), (''src_macs'', list_of
        [item (self ''vlan10_dyn_macs'') (num 0), item (self ''vlan10_dyn_macs'') (num 1)]), (''src_ports'', list_of [self
        ''dev_port0'', self ''dev_port1'']), (''lag_ports'', self ''vlan10_lag_ports''), (''trunk_port'', none), (''vlan_id'',
        none)] FdbFlushTest_verifyFwd),
      run (invoke [(''dst_macs'', self ''vlan20_stat_macs''), (''dst_ports'', self ''vlan20_ports''), (''src_macs'', list_of
        [item (self ''vlan20_stat_macs'') (num 0), item (self ''vlan20_stat_macs'') (num 1)]), (''src_ports'', list_of [self
        ''dev_port2'', self ''dev_port3'']), (''lag_ports'', self ''vlan20_lag_ports''), (''trunk_port'', none), (''vlan_id'',
        none)] FdbFlushTest_verifyFwd),
      run (invoke [(''dst_macs'', self ''vlan10_dyn_macs''), (''dst_ports'', self ''vlan10_ports''), (''src_macs'', list_of
        [item (self ''vlan10_stat_macs'') (num 0), item (self ''vlan10_stat_macs'') (num 1)]), (''src_ports'', list_of [self
        ''dev_port0'', self ''dev_port1'']), (''lag_ports'', self ''vlan10_lag_ports''), (''trunk_port'', none), (''vlan_id'',
        none)] FdbFlushTest_verifyFwd),
      run (invoke [(''dst_macs'', self ''vlan20_dyn_macs''), (''dst_ports'', self ''vlan20_ports''), (''src_macs'', list_of
        [item (self ''vlan20_stat_macs'') (num 0), item (self ''vlan20_stat_macs'') (num 1)]), (''src_ports'', list_of [self
        ''dev_port2'', self ''dev_port3'']), (''lag_ports'', self ''vlan20_lag_ports''), (''trunk_port'', none), (''vlan_id'',
        none)] FdbFlushTest_verifyFwd)]"

definition FdbFlushTest_flushDynamicPerPortTest :: "'d stmt" where
  "FdbFlushTest_flushDynamicPerPortTest = block [
      run (invoke [] FdbFlushTest_prepareFdb),
      assign ''flushed_port_bp'' (self ''port0_bp''),
      assign ''flushed_dev_port'' (item (self ''vlan10_ports'') (num 0)),
      assign ''flushed_mac'' (item (self ''vlan10_dyn_macs'') (num 0)),
      print [var ''flushed_dev_port''],
      run (lib ''sai_thrift_flush_fdb_entries'' [] [(''bridge_port_id'', var ''flushed_port_bp''), (''entry_type'', num
        SAI_FDB_FLUSH_ENTRY_TYPE_DYNAMIC)]),
      run (invoke [(''dst_macs'', list_of [var ''flushed_mac'']), (''dst_ports'', self ''vlan10_ports''), (''src_macs'', list_of
        [item (self ''vlan10_stat_macs'') (num 1)]), (''src_ports'', list_of [item (self ''vlan10_ports'') (num 1)]),
        (''lag_ports'', self ''vlan10_lag_ports''), (''trunk_port'', none), (''vlan_id'', none)] FdbFlushTest_verifyFlood),
      assign ''not_flushed_ports'' (list_comp_if (item (self ''vlan10_ports'') (var ''i'')) [''i''] (ne (item (self
        ''vlan10_ports'') (var ''i'')) (var ''flushed_dev_port'')) (range_of (num 0) (length_of (self ''vlan10_ports'')))),
      assign ''not_flushed_macs'' (list_comp_if (item (self ''vlan10_dyn_macs'') (var ''i'')) [''i''] (ne (item (self
        ''vlan10_dyn_macs'') (var ''i'')) (var ''flushed_mac'')) (range_of (num 0) (length_of (self ''vlan10_dyn_macs'')))),
      run (invoke [(''dst_macs'', self ''vlan10_stat_macs''), (''dst_ports'', self ''vlan10_ports''), (''src_macs'', list_of
        [item (self ''vlan10_stat_macs'') (num 0), item (self ''vlan10_stat_macs'') (num 1)]), (''src_ports'', list_of [self
        ''dev_port0'', self ''dev_port1'']), (''lag_ports'', self ''vlan10_lag_ports''), (''trunk_port'', none), (''vlan_id'',
        none)] FdbFlushTest_verifyFwd),
      run (invoke [(''dst_macs'', self ''vlan20_stat_macs''), (''dst_ports'', self ''vlan20_ports''), (''src_macs'', list_of
        [item (self ''vlan20_stat_macs'') (num 0), item (self ''vlan20_stat_macs'') (num 1)]), (''src_ports'', list_of [self
        ''dev_port2'', self ''dev_port3'']), (''lag_ports'', self ''vlan20_lag_ports''), (''trunk_port'', none), (''vlan_id'',
        none)] FdbFlushTest_verifyFwd),
      run (invoke [(''dst_macs'', var ''not_flushed_macs''), (''dst_ports'', var ''not_flushed_ports''), (''src_macs'', list_of
        [item (self ''vlan10_stat_macs'') (num 0), item (self ''vlan10_stat_macs'') (num 1)]), (''src_ports'', list_of [self
        ''dev_port0'', self ''dev_port1'']), (''lag_ports'', self ''vlan10_lag_ports''), (''trunk_port'', none), (''vlan_id'',
        none)] FdbFlushTest_verifyFwd),
      run (invoke [(''dst_macs'', self ''vlan20_dyn_macs''), (''dst_ports'', self ''vlan20_ports''), (''src_macs'', list_of
        [item (self ''vlan20_stat_macs'') (num 0), item (self ''vlan20_stat_macs'') (num 1)]), (''src_ports'', list_of [self
        ''dev_port2'', self ''dev_port3'']), (''lag_ports'', self ''vlan20_lag_ports''), (''trunk_port'', none), (''vlan_id'',
        none)] FdbFlushTest_verifyFwd)]"

definition FdbFlushTest_flushAllPerPortTest :: "'d stmt" where
  "FdbFlushTest_flushAllPerPortTest = block [
      run (invoke [] FdbFlushTest_prepareFdb),
      assign ''flushed_port_bp'' (self ''port0_bp''),
      assign ''flushed_dev_port'' (item (self ''vlan10_ports'') (num 0)),
      assign ''flushed_stat_mac'' (item (self ''vlan10_stat_macs'') (num 0)),
      assign ''flushed_dyn_mac'' (item (self ''vlan10_dyn_macs'') (num 0)),
      print [var ''flushed_dev_port''],
      run (lib ''sai_thrift_flush_fdb_entries'' [] [(''bridge_port_id'', var ''flushed_port_bp''), (''entry_type'', num
        SAI_FDB_FLUSH_ENTRY_TYPE_ALL)]),
      run (invoke [(''dst_macs'', list_of [var ''flushed_stat_mac'']), (''dst_ports'', self ''vlan10_ports''), (''src_macs'',
        list_of [item (self ''vlan10_dyn_macs'') (num 1)]), (''src_ports'', list_of [item (self ''vlan10_ports'') (num 1)]),
        (''lag_ports'', self ''vlan10_lag_ports''), (''trunk_port'', none), (''vlan_id'', none)] FdbFlushTest_verifyFlood),
      run (invoke [(''dst_macs'', list_of [var ''flushed_dyn_mac'']), (''dst_ports'', self ''vlan10_ports''), (''src_macs'',
        list_of [item (self ''vlan10_stat_macs'') (num 1)]), (''src_ports'', list_of [item (self ''vlan10_ports'') (num 1)]),
        (''lag_ports'', self ''vlan10_lag_ports''), (''trunk_port'', none), (''vlan_id'', none)] FdbFlushTest_verifyFlood),
      assign ''not_flushed_ports'' (list_comp_if (item (self ''vlan10_ports'') (var ''i'')) [''i''] (ne (item (self
        ''vlan10_ports'') (var ''i'')) (var ''flushed_dev_port'')) (range_of (num 0) (length_of (self ''vlan10_ports'')))),
      assign ''not_flushed_stat_macs'' (list_comp_if (item (self ''vlan10_stat_macs'') (var ''i'')) [''i''] (ne (item (self
        ''vlan10_stat_macs'') (var ''i'')) (var ''flushed_stat_mac'')) (range_of (num 0) (length_of (self
        ''vlan10_stat_macs'')))),
      assign ''not_flushed_dyn_macs'' (list_comp_if (item (self ''vlan10_dyn_macs'') (var ''i'')) [''i''] (ne (item (self
        ''vlan10_dyn_macs'') (var ''i'')) (var ''flushed_dyn_mac'')) (range_of (num 0) (length_of (self ''vlan10_dyn_macs'')))),
      run (invoke [(''dst_macs'', var ''not_flushed_stat_macs''), (''dst_ports'', var ''not_flushed_ports''), (''src_macs'',
        list_of [item (self ''vlan10_dyn_macs'') (num 0), item (self ''vlan10_dyn_macs'') (num 1)]), (''src_ports'', list_of
        [self ''dev_port0'', self ''dev_port1'']), (''lag_ports'', self ''vlan10_lag_ports''), (''trunk_port'', none),
        (''vlan_id'', none)] FdbFlushTest_verifyFwd),
      run (invoke [(''dst_macs'', self ''vlan20_stat_macs''), (''dst_ports'', self ''vlan20_ports''), (''src_macs'', list_of
        [item (self ''vlan20_stat_macs'') (num 0), item (self ''vlan20_stat_macs'') (num 1)]), (''src_ports'', list_of [self
        ''dev_port2'', self ''dev_port3'']), (''lag_ports'', self ''vlan20_lag_ports''), (''trunk_port'', none), (''vlan_id'',
        none)] FdbFlushTest_verifyFwd),
      run (invoke [(''dst_macs'', var ''not_flushed_dyn_macs''), (''dst_ports'', var ''not_flushed_ports''), (''src_macs'',
        list_of [item (self ''vlan10_stat_macs'') (num 0), item (self ''vlan10_stat_macs'') (num 1)]), (''src_ports'', list_of
        [self ''dev_port0'', self ''dev_port1'']), (''lag_ports'', self ''vlan10_lag_ports''), (''trunk_port'', none),
        (''vlan_id'', none)] FdbFlushTest_verifyFwd),
      run (invoke [(''dst_macs'', self ''vlan20_dyn_macs''), (''dst_ports'', self ''vlan20_ports''), (''src_macs'', list_of
        [item (self ''vlan20_stat_macs'') (num 0), item (self ''vlan20_stat_macs'') (num 1)]), (''src_ports'', list_of [self
        ''dev_port2'', self ''dev_port3'']), (''lag_ports'', self ''vlan20_lag_ports''), (''trunk_port'', none), (''vlan_id'',
        none)] FdbFlushTest_verifyFwd)]"

definition FdbFlushTest_flushStaticPerLagTest :: "'d stmt" where
  "FdbFlushTest_flushStaticPerLagTest = block [
      run (invoke [] FdbFlushTest_prepareFdb),
      assign ''flushed_lag_bp'' (self ''lag1_bp''),
      assign ''flushed_dev_ports'' (self ''vlan10_lag_ports''),
      assign ''flushed_macs'' (list_of [item (self ''vlan10_stat_macs'') (num 2), item (self ''vlan10_stat_macs'') (num 3), item
        (self ''vlan10_stat_macs'') (num 4)]),
      run (lib ''sai_thrift_flush_fdb_entries'' [] [(''bridge_port_id'', var ''flushed_lag_bp''), (''entry_type'', num
        SAI_FDB_FLUSH_ENTRY_TYPE_STATIC)]),
      run (invoke [(''dst_macs'', var ''flushed_macs''), (''dst_ports'', self ''vlan10_ports''), (''src_macs'', list_of [item
        (self ''vlan10_dyn_macs'') (num 1)]), (''src_ports'', list_of [item (self ''vlan10_ports'') (num 1)]), (''lag_ports'',
        self ''vlan10_lag_ports''), (''trunk_port'', none), (''vlan_id'', none)] FdbFlushTest_verifyFlood),
      assign ''not_flushed_ports'' (list_comp_if (item (self ''vlan10_ports'') (var ''i'')) [''i''] (no (is_in (item (self
        ''vlan10_ports'') (var ''i'')) (var ''flushed_dev_ports''))) (range_of (num 0) (length_of (self ''vlan10_ports'')))),
      assign ''not_flushed_macs'' (list_comp_if (item (self ''vlan10_stat_macs'') (var ''i'')) [''i''] (no (is_in (item (self
        ''vlan10_stat_macs'') (var ''i'')) (var ''flushed_macs''))) (range_of (num 0) (length_of (self ''vlan10_stat_macs'')))),
      run (invoke [(''dst_macs'', var ''not_flushed_macs''), (''dst_ports'', var ''not_flushed_ports''), (''src_macs'', list_of
        [item (self ''vlan10_dyn_macs'') (num 0), item (self ''vlan10_dyn_macs'') (num 1)]), (''src_ports'', list_of [self
        ''dev_port0'', self ''dev_port1'']), (''lag_ports'', self ''vlan10_lag_ports''), (''trunk_port'', none), (''vlan_id'',
        none)] FdbFlushTest_verifyFwd),
      run (invoke [(''dst_macs'', self ''vlan20_stat_macs''), (''dst_ports'', self ''vlan20_ports''), (''src_macs'', list_of
        [item (self ''vlan20_stat_macs'') (num 0), item (self ''vlan20_stat_macs'') (num 1)]), (''src_ports'', list_of [self
        ''dev_port2'', self ''dev_port3'']), (''lag_ports'', self ''vlan20_lag_ports''), (''trunk_port'', none), (''vlan_id'',
        none)] FdbFlushTest_verifyFwd),
      run (invoke [(''dst_macs'', self ''vlan10_dyn_macs''), (''dst_ports'', self ''vlan10_ports''), (''src_macs'', list_of
        [item (self ''vlan10_stat_macs'') (num 0), item (self ''vlan10_stat_macs'') (num 1)]), (''src_ports'', list_of [self
        ''dev_port0'', self ''dev_port1'']), (''lag_ports'', self ''vlan10_lag_ports''), (''trunk_port'', none), (''vlan_id'',
        none)] FdbFlushTest_verifyFwd),
      run (invoke [(''dst_macs'', self ''vlan20_dyn_macs''), (''dst_ports'', self ''vlan20_ports''), (''src_macs'', list_of
        [item (self ''vlan20_stat_macs'') (num 0), item (self ''vlan20_stat_macs'') (num 1)]), (''src_ports'', list_of [self
        ''dev_port2'', self ''dev_port3'']), (''lag_ports'', self ''vlan20_lag_ports''), (''trunk_port'', none), (''vlan_id'',
        none)] FdbFlushTest_verifyFwd)]"

definition FdbFlushTest_flushDynamicPerLagTest :: "'d stmt" where
  "FdbFlushTest_flushDynamicPerLagTest = block [
      run (invoke [] FdbFlushTest_prepareFdb),
      assign ''flushed_lag_bp'' (self ''lag1_bp''),
      assign ''flushed_dev_ports'' (self ''vlan10_lag_ports''),
      assign ''flushed_macs'' (list_of [item (self ''vlan10_dyn_macs'') (num 2), item (self ''vlan10_dyn_macs'') (num 3), item
        (self ''vlan10_dyn_macs'') (num 4)]),
      run (lib ''sai_thrift_flush_fdb_entries'' [] [(''bridge_port_id'', var ''flushed_lag_bp''), (''entry_type'', num
        SAI_FDB_FLUSH_ENTRY_TYPE_DYNAMIC)]),
      run (invoke [(''dst_macs'', var ''flushed_macs''), (''dst_ports'', self ''vlan10_ports''), (''src_macs'', list_of [item
        (self ''vlan10_stat_macs'') (num 1)]), (''src_ports'', list_of [item (self ''vlan10_ports'') (num 1)]), (''lag_ports'',
        self ''vlan10_lag_ports''), (''trunk_port'', none), (''vlan_id'', none)] FdbFlushTest_verifyFlood),
      assign ''not_flushed_ports'' (list_comp_if (item (self ''vlan10_ports'') (var ''i'')) [''i''] (no (is_in (item (self
        ''vlan10_ports'') (var ''i'')) (var ''flushed_dev_ports''))) (range_of (num 0) (length_of (self ''vlan10_ports'')))),
      assign ''not_flushed_macs'' (list_comp_if (item (self ''vlan10_dyn_macs'') (var ''i'')) [''i''] (no (is_in (item (self
        ''vlan10_dyn_macs'') (var ''i'')) (var ''flushed_macs''))) (range_of (num 0) (length_of (self ''vlan10_dyn_macs'')))),
      run (invoke [(''dst_macs'', self ''vlan10_stat_macs''), (''dst_ports'', self ''vlan10_ports''), (''src_macs'', list_of
        [item (self ''vlan10_stat_macs'') (num 0), item (self ''vlan10_stat_macs'') (num 1)]), (''src_ports'', list_of [self
        ''dev_port0'', self ''dev_port1'']), (''lag_ports'', self ''vlan10_lag_ports''), (''trunk_port'', none), (''vlan_id'',
        none)] FdbFlushTest_verifyFwd),
      run (invoke [(''dst_macs'', self ''vlan20_stat_macs''), (''dst_ports'', self ''vlan20_ports''), (''src_macs'', list_of
        [item (self ''vlan20_stat_macs'') (num 0), item (self ''vlan20_stat_macs'') (num 1)]), (''src_ports'', list_of [self
        ''dev_port2'', self ''dev_port3'']), (''lag_ports'', self ''vlan20_lag_ports''), (''trunk_port'', none), (''vlan_id'',
        none)] FdbFlushTest_verifyFwd),
      run (invoke [(''dst_macs'', var ''not_flushed_macs''), (''dst_ports'', var ''not_flushed_ports''), (''src_macs'', list_of
        [item (self ''vlan10_stat_macs'') (num 0), item (self ''vlan10_stat_macs'') (num 1)]), (''src_ports'', list_of [self
        ''dev_port0'', self ''dev_port1'']), (''lag_ports'', self ''vlan10_lag_ports''), (''trunk_port'', none), (''vlan_id'',
        none)] FdbFlushTest_verifyFwd),
      run (invoke [(''dst_macs'', self ''vlan20_dyn_macs''), (''dst_ports'', self ''vlan20_ports''), (''src_macs'', list_of
        [item (self ''vlan20_stat_macs'') (num 0), item (self ''vlan20_stat_macs'') (num 1)]), (''src_ports'', list_of [self
        ''dev_port2'', self ''dev_port3'']), (''lag_ports'', self ''vlan20_lag_ports''), (''trunk_port'', none), (''vlan_id'',
        none)] FdbFlushTest_verifyFwd)]"

definition FdbFlushTest_flushAllPerLagTest :: "'d stmt" where
  "FdbFlushTest_flushAllPerLagTest = block [
      run (invoke [] FdbFlushTest_prepareFdb),
      assign ''flushed_lag_bp'' (self ''lag1_bp''),
      assign ''flushed_dev_ports'' (self ''vlan10_lag_ports''),
      assign ''flushed_stat_macs'' (list_of [item (self ''vlan10_stat_macs'') (num 2), item (self ''vlan10_stat_macs'') (num 3),
        item (self ''vlan10_stat_macs'') (num 4)]),
      assign ''flushed_dyn_macs'' (list_of [item (self ''vlan10_dyn_macs'') (num 2), item (self ''vlan10_dyn_macs'') (num 3),
        item (self ''vlan10_dyn_macs'') (num 4)]),
      run (lib ''sai_thrift_flush_fdb_entries'' [] [(''bridge_port_id'', var ''flushed_lag_bp''), (''entry_type'', num
        SAI_FDB_FLUSH_ENTRY_TYPE_DYNAMIC)]),
      assign ''not_flushed_ports'' (list_comp_if (item (self ''vlan10_ports'') (var ''i'')) [''i''] (no (is_in (item (self
        ''vlan10_ports'') (var ''i'')) (var ''flushed_dev_ports''))) (range_of (num 0) (length_of (self ''vlan10_ports'')))),
      assign ''not_flushed_stat_macs'' (list_comp_if (item (self ''vlan10_stat_macs'') (var ''i'')) [''i''] (no (is_in (item
        (self ''vlan10_stat_macs'') (var ''i'')) (var ''flushed_stat_macs''))) (range_of (num 0) (length_of (self
        ''vlan10_stat_macs'')))),
      assign ''not_flushed_dyn_macs'' (list_comp_if (item (self ''vlan10_dyn_macs'') (var ''i'')) [''i''] (no (is_in (item (self
        ''vlan10_dyn_macs'') (var ''i'')) (var ''flushed_dyn_macs''))) (range_of (num 0) (length_of (self
        ''vlan10_dyn_macs'')))),
      run (invoke [(''dst_macs'', var ''not_flushed_stat_macs''), (''dst_ports'', var ''not_flushed_ports''), (''src_macs'',
        list_of [item (self ''vlan10_dyn_macs'') (num 0), item (self ''vlan10_dyn_macs'') (num 1)]), (''src_ports'', list_of
        [self ''dev_port0'', self ''dev_port1'']), (''lag_ports'', self ''vlan10_lag_ports''), (''trunk_port'', none),
        (''vlan_id'', none)] FdbFlushTest_verifyFwd),
      run (invoke [(''dst_macs'', self ''vlan20_stat_macs''), (''dst_ports'', self ''vlan20_ports''), (''src_macs'', list_of
        [item (self ''vlan20_stat_macs'') (num 0), item (self ''vlan20_stat_macs'') (num 1)]), (''src_ports'', list_of [self
        ''dev_port2'', self ''dev_port3'']), (''lag_ports'', self ''vlan20_lag_ports''), (''trunk_port'', none), (''vlan_id'',
        none)] FdbFlushTest_verifyFwd),
      run (invoke [(''dst_macs'', var ''not_flushed_dyn_macs''), (''dst_ports'', var ''not_flushed_ports''), (''src_macs'',
        list_of [item (self ''vlan10_stat_macs'') (num 0), item (self ''vlan10_stat_macs'') (num 1)]), (''src_ports'', list_of
        [self ''dev_port0'', self ''dev_port1'']), (''lag_ports'', self ''vlan10_lag_ports''), (''trunk_port'', none),
        (''vlan_id'', none)] FdbFlushTest_verifyFwd),
      run (invoke [(''dst_macs'', self ''vlan20_dyn_macs''), (''dst_ports'', self ''vlan20_ports''), (''src_macs'', list_of
        [item (self ''vlan20_stat_macs'') (num 0), item (self ''vlan20_stat_macs'') (num 1)]), (''src_ports'', list_of [self
        ''dev_port2'', self ''dev_port3'']), (''lag_ports'', self ''vlan20_lag_ports''), (''trunk_port'', none), (''vlan_id'',
        none)] FdbFlushTest_verifyFwd)]"

definition FdbFlushTest_setUpTrunkPort :: "'d stmt" where
  "FdbFlushTest_setUpTrunkPort = block [
      set_self ''tp10_stat_mac'' (str ''00:10:00:66:66:66''),
      set_self ''tp10_dyn_mac'' (str ''00:10:ff:66:66:66''),
      assign ''chck_vlan10_mac'' (item (self ''vlan10_stat_macs'') (num 0)),
      assign ''chck_vlan10_port'' (self ''dev_port0''),
      set_self ''tp20_stat_mac'' (str ''00:20:00:66:66:66''),
      set_self ''tp20_dyn_mac'' (str ''00:20:ff:66:66:66''),
      assign ''chck_vlan20_mac'' (item (self ''vlan20_stat_macs'') (num 0)),
      assign ''chck_vlan20_port'' (self ''dev_port2''),
      set_self ''vlan10_member3'' (api_create ''vlan_member'' [(''vlan_id'', self ''vlan10''), (''bridge_port_id'', self
        ''trunk_port_bp''), (''vlan_tagging_mode'', num SAI_VLAN_TAGGING_MODE_TAGGED)]),
      assert_ne (self ''vlan10_member3'') (num 0),
      set_self ''vlan20_member3'' (api_create ''vlan_member'' [(''vlan_id'', self ''vlan20''), (''bridge_port_id'', self
        ''trunk_port_bp''), (''vlan_tagging_mode'', num SAI_VLAN_TAGGING_MODE_TAGGED)]),
      assert_ne (self ''vlan20_member3'') (num 0),
      assign ''vlan10_tp_fdb_entry'' (struct ''sai_thrift_fdb_entry_t'' [(''switch_id'', self ''switch_id''), (''mac_address'',
        self ''tp10_stat_mac''), (''bv_id'', self ''vlan10'')]),
      assign ''status'' (api_create_entry ''fdb_entry'' (var ''vlan10_tp_fdb_entry'') [(''type'', num
        SAI_FDB_ENTRY_TYPE_STATIC), (''bridge_port_id'', self ''trunk_port_bp'')]),
      assert_eq (var ''status'') (num SAI_STATUS_SUCCESS),
      assign ''vlan20_tp_fdb_entry'' (struct ''sai_thrift_fdb_entry_t'' [(''switch_id'', self ''switch_id''), (''mac_address'',
        self ''tp20_stat_mac''), (''bv_id'', self ''vlan20'')]),
      assign ''status'' (api_create_entry ''fdb_entry'' (var ''vlan20_tp_fdb_entry'') [(''type'', num
        SAI_FDB_ENTRY_TYPE_STATIC), (''bridge_port_id'', self ''trunk_port_bp'')]),
      assert_eq (var ''status'') (num SAI_STATUS_SUCCESS),
      assign ''tag_vlan10_pkt'' (lib ''simple_udp_packet'' [] [(''eth_dst'', str ''ff:ff:ff:ff:ff:ff''), (''eth_src'', self
        ''tp10_dyn_mac''), (''dl_vlan_enable'', bool True), (''vlan_vid'', self ''vlan10_id''), (''pktlen'', num 104)]),
      assign ''tag_vlan20_pkt'' (lib ''simple_udp_packet'' [] [(''eth_dst'', str ''ff:ff:ff:ff:ff:ff''), (''eth_src'', self
        ''tp20_dyn_mac''), (''dl_vlan_enable'', bool True), (''vlan_vid'', self ''vlan20_id''), (''pktlen'', num 104)]),
      run (lib ''send_packet'' [self ''trunk_dev_port'', var ''tag_vlan10_pkt''] []),
      run (lib ''send_packet'' [self ''trunk_dev_port'', var ''tag_vlan20_pkt''] []),
      sleep_for (num 2),
      run (lib ''dataplane.flush'' [] []),
      for_in [''mac''] (list_of [self ''tp10_stat_mac'', self ''tp10_dyn_mac'']) [
        assign ''chck_vlan10_pkt'' (lib ''simple_udp_packet'' [] [(''eth_dst'', var ''mac''), (''eth_src'', var
          ''chck_vlan10_mac''), (''pktlen'', num 100)]),
        assign ''chck_vlan10_tag_pkt'' (lib ''simple_udp_packet'' [] [(''eth_dst'', var ''mac''), (''eth_src'', var
          ''chck_vlan10_mac''), (''dl_vlan_enable'', bool True), (''vlan_vid'', self ''vlan10_id''), (''pktlen'', num 104)]),
        run (lib ''send_packet'' [var ''chck_vlan10_port'', var ''chck_vlan10_pkt''] []),
        run (lib ''verify_packets'' [var ''chck_vlan10_tag_pkt'', list_of [self ''trunk_dev_port'']] [])],
      for_in [''mac''] (list_of [self ''tp20_stat_mac'', self ''tp20_dyn_mac'']) [
        assign ''chck_vlan20_pkt'' (lib ''simple_udp_packet'' [] [(''eth_dst'', var ''mac''), (''eth_src'', var
          ''chck_vlan20_mac''), (''pktlen'', num 100)]),
        assign ''chck_vlan20_tag_pkt'' (lib ''simple_udp_packet'' [] [(''eth_dst'', var ''mac''), (''eth_src'', var
          ''chck_vlan20_mac''), (''dl_vlan_enable'', bool True), (''vlan_vid'', self ''vlan20_id''), (''pktlen'', num 104)]),
        run (lib ''send_packet'' [var ''chck_vlan20_port'', var ''chck_vlan20_pkt''] []),
        run (lib ''verify_packets'' [var ''chck_vlan20_tag_pkt'', list_of [self ''trunk_dev_port'']] [])]]"

definition FdbFlushTest_tearDownTrunkPort :: "'d stmt" where
  "FdbFlushTest_tearDownTrunkPort = block [
      run (lib ''sai_thrift_flush_fdb_entries'' [] [(''bridge_port_id'', self ''trunk_port_bp''), (''entry_type'', num
        SAI_FDB_FLUSH_ENTRY_TYPE_ALL)]),
      run (api_remove ''vlan_member'' (self ''vlan10_member3'')),
      run (api_remove ''vlan_member'' (self ''vlan20_member3''))]"

definition FdbFlushTest_flushStaticPerVlanAndPortTest :: "'d stmt" where
  "FdbFlushTest_flushStaticPerVlanAndPortTest = block [
      run (invoke [] FdbFlushTest_prepareFdb),
      assign ''chck_vlan10_port'' (self ''dev_port0''),
      assign ''chck_vlan10_mac'' (item (self ''vlan10_stat_macs'') (num 0)),
      try_finally [
        run (invoke [] FdbFlushTest_setUpTrunkPort),
        run (lib ''sai_thrift_flush_fdb_entries'' [] [(''bv_id'', self ''vlan10''), (''bridge_port_id'', self
          ''trunk_port_bp''), (''entry_type'', num SAI_FDB_FLUSH_ENTRY_TYPE_STATIC)]),
        run (invoke [(''dst_macs'', list_of [self ''tp10_stat_mac'']), (''dst_ports'', self ''vlan10_ports''), (''src_macs'',
          list_of [var ''chck_vlan10_mac'']), (''src_ports'', list_of [var ''chck_vlan10_port'']), (''lag_ports'', self
          ''vlan10_lag_ports''), (''trunk_port'', self ''trunk_dev_port''), (''vlan_id'', self ''vlan10_id'')]
          FdbFlushTest_verifyFlood),
        set_self ''vlan10_ports'' (appended (self ''vlan10_ports'') (self ''trunk_dev_port'')),
        set_self ''vlan20_ports'' (appended (self ''vlan20_ports'') (self ''trunk_dev_port'')),
        set_self ''vlan20_stat_macs'' (appended (self ''vlan20_stat_macs'') (self ''tp20_stat_mac'')),
        set_self ''vlan10_dyn_macs'' (appended (self ''vlan10_dyn_macs'') (self ''tp10_dyn_mac'')),
        set_self ''vlan20_dyn_macs'' (appended (self ''vlan20_dyn_macs'') (self ''tp20_dyn_mac'')),
        run (invoke [(''dst_macs'', self ''vlan10_stat_macs''), (''dst_ports'', self ''vlan10_ports''), (''src_macs'', list_of
          [item (self ''vlan10_stat_macs'') (num 0), item (self ''vlan10_stat_macs'') (num 1)]), (''src_ports'', list_of [self
          ''dev_port0'', self ''dev_port1'']), (''lag_ports'', self ''vlan10_lag_ports''), (''trunk_port'', self
          ''trunk_dev_port''), (''vlan_id'', self ''vlan10_id'')] FdbFlushTest_verifyFwd),
        run (invoke [(''dst_macs'', self ''vlan20_stat_macs''), (''dst_ports'', self ''vlan20_ports''), (''src_macs'', list_of
          [item (self ''vlan20_stat_macs'') (num 0), item (self ''vlan20_stat_macs'') (num 1)]), (''src_ports'', list_of [self
          ''dev_port2'', self ''dev_port3'']), (''lag_ports'', self ''vlan20_lag_ports''), (''trunk_port'', self
          ''trunk_dev_port''), (''vlan_id'', self ''vlan20_id'')] FdbFlushTest_verifyFwd),
        run (invoke [(''dst_macs'', self ''vlan10_dyn_macs''), (''dst_ports'', self ''vlan10_ports''), (''src_macs'', list_of
          [item (self ''vlan10_stat_macs'') (num 0), item (self ''vlan10_stat_macs'') (num 1)]), (''src_ports'', list_of [self
          ''dev_port0'', self ''dev_port1'']), (''lag_ports'', self ''vlan10_lag_ports''), (''trunk_port'', self
          ''trunk_dev_port''), (''vlan_id'', self ''vlan10_id'')] FdbFlushTest_verifyFwd),
        run (invoke [(''dst_macs'', self ''vlan20_dyn_macs''), (''dst_ports'', self ''vlan20_ports''), (''src_macs'', list_of
          [item (self ''vlan20_stat_macs'') (num 0), item (self ''vlan20_stat_macs'') (num 1)]), (''src_ports'', list_of [self
          ''dev_port2'', self ''dev_port3'']), (''lag_ports'', self ''vlan20_lag_ports''), (''trunk_port'', self
          ''trunk_dev_port''), (''vlan_id'', self ''vlan20_id'')] FdbFlushTest_verifyFwd)] [
        set_self ''vlan10_ports'' (without (self ''vlan10_ports'') (self ''trunk_dev_port'')),
        set_self ''vlan20_ports'' (without (self ''vlan20_ports'') (self ''trunk_dev_port'')),
        set_self ''vlan20_stat_macs'' (without (self ''vlan20_stat_macs'') (self ''tp20_stat_mac'')),
        set_self ''vlan10_dyn_macs'' (without (self ''vlan10_dyn_macs'') (self ''tp10_dyn_mac'')),
        set_self ''vlan20_dyn_macs'' (without (self ''vlan20_dyn_macs'') (self ''tp20_dyn_mac'')),
        run (invoke [] FdbFlushTest_tearDownTrunkPort)]]"

definition FdbFlushTest_tearDown :: "'d stmt" where
  "FdbFlushTest_tearDown = block [
      run (lib ''sai_thrift_flush_fdb_entries'' [] [(''entry_type'', num SAI_FDB_FLUSH_ENTRY_TYPE_ALL)]),
      run (api_remove ''bridge_port'' (self ''port24_bp'')),
      run (api_set ''port'' (self ''port1'') [(''port_vlan_id'', num 0)]),
      run (api_remove ''vlan_member'' (self ''vlan10_member1'')),
      set_self ''vlan10_member1'' (api_create ''vlan_member'' [(''vlan_id'', self ''vlan10''), (''bridge_port_id'', self
        ''port1_bp''), (''vlan_tagging_mode'', num SAI_VLAN_TAGGING_MODE_TAGGED)]),
      run (api_set ''port'' (self ''port3'') [(''port_vlan_id'', num 0)]),
      run (api_remove ''vlan_member'' (self ''vlan20_member1'')),
      set_self ''vlan20_member1'' (api_create ''vlan_member'' [(''vlan_id'', self ''vlan20''), (''bridge_port_id'', self
        ''port3_bp''), (''vlan_tagging_mode'', num SAI_VLAN_TAGGING_MODE_TAGGED)]),
      run (api_set ''lag'' (self ''lag2'') [(''port_vlan_id'', num 0)]),
      run (api_remove ''vlan_member'' (self ''vlan20_member2'')),
      set_self ''vlan20_member2'' (api_create ''vlan_member'' [(''vlan_id'', self ''vlan20''), (''bridge_port_id'', self
        ''lag2_bp''), (''vlan_tagging_mode'', num SAI_VLAN_TAGGING_MODE_TAGGED)]),
      super_tearDown]"

definition FdbFlushTest_flushAllPerVlanAndPortTest :: "'d stmt" where
  "FdbFlushTest_flushAllPerVlanAndPortTest = block [
      run (invoke [] FdbFlushTest_prepareFdb),
      assign ''chck_vlan10_port'' (self ''dev_port0''),
      assign ''chck_vlan10_mac'' (item (self ''vlan10_stat_macs'') (num 0)),
      try_finally [
        run (invoke [] FdbFlushTest_setUpTrunkPort),
        run (lib ''sai_thrift_flush_fdb_entries'' [] [(''bv_id'', self ''vlan10''), (''bridge_port_id'', self
          ''trunk_port_bp''), (''entry_type'', num SAI_FDB_FLUSH_ENTRY_TYPE_ALL)]),
        run (invoke [(''dst_macs'', list_of [self ''tp10_stat_mac'']), (''dst_ports'', self ''vlan10_ports''), (''src_macs'',
          list_of [var ''chck_vlan10_mac'']), (''src_ports'', list_of [var ''chck_vlan10_port'']), (''lag_ports'', self
          ''vlan10_lag_ports''), (''trunk_port'', self ''trunk_dev_port''), (''vlan_id'', self ''vlan10_id'')]
          FdbFlushTest_verifyFlood),
        run (invoke [(''dst_macs'', list_of [self ''tp10_dyn_mac'']), (''dst_ports'', self ''vlan10_ports''), (''src_macs'',
          list_of [var ''chck_vlan10_mac'']), (''src_ports'', list_of [var ''chck_vlan10_port'']), (''lag_ports'', self
          ''vlan10_lag_ports''), (''trunk_port'', self ''trunk_dev_port''), (''vlan_id'', self ''vlan10_id'')]
          FdbFlushTest_verifyFlood),
        set_self ''vlan10_ports'' (appended (self ''vlan10_ports'') (self ''trunk_dev_port'')),
        set_self ''vlan20_ports'' (appended (self ''vlan20_ports'') (self ''trunk_dev_port'')),
        set_self ''vlan20_stat_macs'' (appended (self ''vlan20_stat_macs'') (self ''tp20_stat_mac'')),
        set_self ''vlan20_dyn_macs'' (appended (self ''vlan20_dyn_macs'') (self ''tp20_dyn_mac'')),
        run (invoke [(''dst_macs'', self ''vlan10_stat_macs''), (''dst_ports'', self ''vlan10_ports''), (''src_macs'', list_of
          [item (self ''vlan10_stat_macs'') (num 0), item (self ''vlan10_stat_macs'') (num 1)]), (''src_ports'', list_of [self
          ''dev_port0'', self ''dev_port1'']), (''lag_ports'', self ''vlan10_lag_ports''), (''trunk_port'', self
          ''trunk_dev_port''), (''vlan_id'', self ''vlan10_id'')] FdbFlushTest_verifyFwd),
        run (invoke [(''dst_macs'', self ''vlan20_stat_macs''), (''dst_ports'', self ''vlan20_ports''), (''src_macs'', list_of
          [item (self ''vlan20_stat_macs'') (num 0), item (self ''vlan20_stat_macs'') (num 1)]), (''src_ports'', list_of [self
          ''dev_port2'', self ''dev_port3'']), (''lag_ports'', self ''vlan20_lag_ports''), (''trunk_port'', self
          ''trunk_dev_port''), (''vlan_id'', self ''vlan20_id'')] FdbFlushTest_verifyFwd),
        run (invoke [(''dst_macs'', self ''vlan10_dyn_macs''), (''dst_ports'', self ''vlan10_ports''), (''src_macs'', list_of
          [item (self ''vlan10_stat_macs'') (num 0), item (self ''vlan10_stat_macs'') (num 1)]), (''src_ports'', list_of [self
          ''dev_port0'', self ''dev_port1'']), (''lag_ports'', self ''vlan10_lag_ports''), (''trunk_port'', self
          ''trunk_dev_port''), (''vlan_id'', self ''vlan10_id'')] FdbFlushTest_verifyFwd),
        run (invoke [(''dst_macs'', self ''vlan20_dyn_macs''), (''dst_ports'', self ''vlan20_ports''), (''src_macs'', list_of
          [item (self ''vlan20_stat_macs'') (num 0), item (self ''vlan20_stat_macs'') (num 1)]), (''src_ports'', list_of [self
          ''dev_port2'', self ''dev_port3'']), (''lag_ports'', self ''vlan20_lag_ports''), (''trunk_port'', self
          ''trunk_dev_port''), (''vlan_id'', self ''vlan20_id'')] FdbFlushTest_verifyFwd)] [
        set_self ''vlan10_ports'' (without (self ''vlan10_ports'') (self ''trunk_dev_port'')),
        set_self ''vlan20_ports'' (without (self ''vlan20_ports'') (self ''trunk_dev_port'')),
        set_self ''vlan20_stat_macs'' (without (self ''vlan20_stat_macs'') (self ''tp20_stat_mac'')),
        set_self ''vlan20_dyn_macs'' (without (self ''vlan20_dyn_macs'') (self ''tp20_dyn_mac'')),
        run (invoke [] FdbFlushTest_tearDownTrunkPort)]]"

definition FdbFlushTest_flushAllStaticTest :: "'d stmt" where
  "FdbFlushTest_flushAllStaticTest = block [
      run (invoke [] FdbFlushTest_prepareFdb),
      run (lib ''sai_thrift_flush_fdb_entries'' [] [(''entry_type'', num SAI_FDB_FLUSH_ENTRY_TYPE_STATIC)]),
      run (invoke [(''dst_macs'', self ''vlan10_stat_macs''), (''dst_ports'', self ''vlan10_ports''), (''src_macs'', list_of
        [item (self ''vlan10_dyn_macs'') (num 0), item (self ''vlan10_dyn_macs'') (num 1)]), (''src_ports'', list_of [self
        ''dev_port0'', self ''dev_port1'']), (''lag_ports'', self ''vlan10_lag_ports''), (''trunk_port'', none), (''vlan_id'',
        none)] FdbFlushTest_verifyFlood),
      run (invoke [(''dst_macs'', self ''vlan20_stat_macs''), (''dst_ports'', self ''vlan20_ports''), (''src_macs'', list_of
        [item (self ''vlan20_dyn_macs'') (num 0), item (self ''vlan20_dyn_macs'') (num 1)]), (''src_ports'', list_of [self
        ''dev_port2'', self ''dev_port3'']), (''lag_ports'', self ''vlan20_lag_ports''), (''trunk_port'', none), (''vlan_id'',
        none)] FdbFlushTest_verifyFlood),
      run (invoke [(''dst_macs'', self ''vlan10_dyn_macs''), (''dst_ports'', self ''vlan10_ports''), (''src_macs'', list_of
        [item (self ''vlan10_stat_macs'') (num 0), item (self ''vlan10_stat_macs'') (num 1)]), (''src_ports'', list_of [self
        ''dev_port0'', self ''dev_port1'']), (''lag_ports'', self ''vlan10_lag_ports''), (''trunk_port'', none), (''vlan_id'',
        none)] FdbFlushTest_verifyFwd),
      run (invoke [(''dst_macs'', self ''vlan20_dyn_macs''), (''dst_ports'', self ''vlan20_ports''), (''src_macs'', list_of
        [item (self ''vlan20_stat_macs'') (num 0), item (self ''vlan20_stat_macs'') (num 1)]), (''src_ports'', list_of [self
        ''dev_port2'', self ''dev_port3'']), (''lag_ports'', self ''vlan20_lag_ports''), (''trunk_port'', none), (''vlan_id'',
        none)] FdbFlushTest_verifyFwd)]"

definition FdbFlushTest_flushAllDynamicTest :: "'d stmt" where
  "FdbFlushTest_flushAllDynamicTest = block [
      run (invoke [] FdbFlushTest_prepareFdb),
      run (lib ''sai_thrift_flush_fdb_entries'' [] [(''entry_type'', num SAI_FDB_FLUSH_ENTRY_TYPE_DYNAMIC)]),
      run (invoke [(''dst_macs'', self ''vlan10_dyn_macs''), (''dst_ports'', self ''vlan10_ports''), (''src_macs'', list_of
        [item (self ''vlan10_stat_macs'') (num 0), item (self ''vlan10_stat_macs'') (num 1)]), (''src_ports'', list_of [self
        ''dev_port0'', self ''dev_port1'']), (''lag_ports'', self ''vlan10_lag_ports''), (''trunk_port'', none), (''vlan_id'',
        none)] FdbFlushTest_verifyFlood),
      run (invoke [(''dst_macs'', self ''vlan20_dyn_macs''), (''dst_ports'', self ''vlan20_ports''), (''src_macs'', list_of
        [item (self ''vlan20_stat_macs'') (num 0), item (self ''vlan20_stat_macs'') (num 1)]), (''src_ports'', list_of [self
        ''dev_port2'', self ''dev_port3'']), (''lag_ports'', self ''vlan20_lag_ports''), (''trunk_port'', none), (''vlan_id'',
        none)] FdbFlushTest_verifyFlood),
      run (invoke [(''dst_macs'', self ''vlan10_stat_macs''), (''dst_ports'', self ''vlan10_ports''), (''src_macs'', list_of
        [item (self ''vlan10_dyn_macs'') (num 0), item (self ''vlan10_dyn_macs'') (num 1)]), (''src_ports'', list_of [self
        ''dev_port0'', self ''dev_port1'']), (''lag_ports'', self ''vlan10_lag_ports''), (''trunk_port'', none), (''vlan_id'',
        none)] FdbFlushTest_verifyFwd),
      run (invoke [(''dst_macs'', self ''vlan20_stat_macs''), (''dst_ports'', self ''vlan20_ports''), (''src_macs'', list_of
        [item (self ''vlan20_dyn_macs'') (num 0), item (self ''vlan20_dyn_macs'') (num 1)]), (''src_ports'', list_of [self
        ''dev_port2'', self ''dev_port3'']), (''lag_ports'', self ''vlan20_lag_ports''), (''trunk_port'', none), (''vlan_id'',
        none)] FdbFlushTest_verifyFwd)]"

definition FdbFlushTest_flushAllMacsTest :: "'d stmt" where
  "FdbFlushTest_flushAllMacsTest = block [
      run (invoke [] FdbFlushTest_prepareFdb),
      assign ''chck_vlan10_mac1'' (str ''00:10:aa:11:11:11''),
      assign ''chck_vlan10_mac2'' (str ''00:10:aa:22:22:22''),
      assign ''chck_vlan20_mac1'' (str ''00:20:aa:11:11:11''),
      assign ''chck_vlan20_mac2'' (str ''00:20:aa:22:22:22''),
      run (lib ''sai_thrift_flush_fdb_entries'' [] [(''entry_type'', num SAI_FDB_FLUSH_ENTRY_TYPE_ALL)]),
      run (invoke [(''dst_macs'', self ''vlan10_stat_macs''), (''dst_ports'', self ''vlan10_ports''), (''src_macs'', list_of
        [var ''chck_vlan10_mac1'', var ''chck_vlan10_mac2'']), (''src_ports'', list_of [self ''dev_port0'', self
        ''dev_port1'']), (''lag_ports'', self ''vlan10_lag_ports''), (''trunk_port'', none), (''vlan_id'', none)]
        FdbFlushTest_verifyFlood),
      run (invoke [(''dst_macs'', self ''vlan10_dyn_macs''), (''dst_ports'', self ''vlan10_ports''), (''src_macs'', list_of [var
        ''chck_vlan10_mac1'', var ''chck_vlan10_mac2'']), (''src_ports'', list_of [self ''dev_port0'', self ''dev_port1'']),
        (''lag_ports'', self ''vlan10_lag_ports''), (''trunk_port'', none), (''vlan_id'', none)] FdbFlushTest_verifyFlood),
      run (invoke [(''dst_macs'', self ''vlan20_stat_macs''), (''dst_ports'', self ''vlan20_ports''), (''src_macs'', list_of
        [var ''chck_vlan20_mac1'', var ''chck_vlan20_mac2'']), (''src_ports'', list_of [self ''dev_port2'', self
        ''dev_port3'']), (''lag_ports'', self ''vlan20_lag_ports''), (''trunk_port'', none), (''vlan_id'', none)]
        FdbFlushTest_verifyFlood),
      run (invoke [(''dst_macs'', self ''vlan20_dyn_macs''), (''dst_ports'', self ''vlan20_ports''), (''src_macs'', list_of [var
        ''chck_vlan20_mac1'', var ''chck_vlan20_mac2'']), (''src_ports'', list_of [self ''dev_port2'', self ''dev_port3'']),
        (''lag_ports'', self ''vlan20_lag_ports''), (''trunk_port'', none), (''vlan_id'', none)] FdbFlushTest_verifyFlood)]"

definition FdbAgeTest_setUp :: "'d stmt" where
  "FdbAgeTest_setUp = block [
      super_setUp,
      set_self ''age_time'' (num 10),
      assign ''status'' (api_set ''switch'' none [(''fdb_aging_time'', self ''age_time'')]),
      assert_eq (var ''status'') (num SAI_STATUS_SUCCESS),
      print [self ''age_time''],
      assign ''sw_attr'' (api_get ''switch'' none [(''fdb_aging_time'', bool True)]),
      assert_eq (item (var ''sw_attr'') (str ''fdb_aging_time'')) (self ''age_time''),
      set_self ''vlan_id'' (num 10),
      set_self ''port24_bp'' (api_create ''bridge_port'' [(''bridge_id'', self ''default_1q_bridge''), (''port_id'', self
        ''port24''), (''type'', num SAI_BRIDGE_PORT_TYPE_PORT), (''admin_state'', bool True)]),
      assert_ne (self ''port24_bp'') (num 0),
      set_self ''vlan10_member3'' (api_create ''vlan_member'' [(''vlan_id'', self ''vlan10''), (''bridge_port_id'', self
        ''port24_bp''), (''vlan_tagging_mode'', num SAI_VLAN_TAGGING_MODE_UNTAGGED)]),
      run (api_set ''port'' (self ''port24'') [(''port_vlan_id'', num 10)]),
      set_self ''vrf_mac'' (str ''00:12:34:56:78:90''),
      assign ''vrf_port_bp'' (self ''port24_bp''),
      set_self ''vrf_port_dev'' (self ''dev_port24''),
      set_self ''fdb_entry'' (struct ''sai_thrift_fdb_entry_t'' [(''switch_id'', self ''switch_id''), (''mac_address'', self
        ''vrf_mac''), (''bv_id'', self ''vlan10'')]),
      run (api_create_entry ''fdb_entry'' (self ''fdb_entry'') [(''type'', num SAI_FDB_ENTRY_TYPE_STATIC), (''bridge_port_id'',
        var ''vrf_port_bp'')])]"

definition FdbAgeTest_macAgingOnPortTest :: "'d stmt" where
  "FdbAgeTest_macAgingOnPortTest = block [
      try_finally [
        assign ''lrn_mac'' (str ''00:01:01:01:01:01''),
        assign ''lrn_port'' (self ''dev_port1''),
        assign ''pkt'' (lib ''simple_udp_packet'' [] [(''eth_dst'', self ''vrf_mac''), (''eth_src'', var ''lrn_mac''),
          (''pktlen'', num 100)]),
        assign ''tag_pkt'' (lib ''simple_udp_packet'' [] [(''eth_dst'', self ''vrf_mac''), (''eth_src'', var ''lrn_mac''),
          (''dl_vlan_enable'', bool True), (''vlan_vid'', self ''vlan_id''), (''pktlen'', num 104)]),
        print [var ''lrn_port'', var ''lrn_mac'', self ''vrf_mac''],
        run (lib ''send_packet'' [var ''lrn_port'', var ''tag_pkt''] []),
        run (lib ''verify_packets'' [var ''pkt'', list_of [self ''vrf_port_dev'']] []),
        sleep_for (num 2),
        assign ''pkt'' (lib ''simple_udp_packet'' [] [(''eth_dst'', var ''lrn_mac''), (''eth_src'', self ''vrf_mac''),
          (''pktlen'', num 100)]),
        assign ''tag_pkt'' (lib ''simple_udp_packet'' [] [(''eth_dst'', var ''lrn_mac''), (''eth_src'', self ''vrf_mac''),
          (''dl_vlan_enable'', bool True), (''vlan_vid'', self ''vlan_id''), (''pktlen'', num 104)]),
        print [self ''vrf_port_dev'', self ''vrf_mac'', var ''lrn_mac''],
        run (lib ''send_packet'' [self ''vrf_port_dev'', var ''pkt''] []),
        run (lib ''verify_packets'' [var ''tag_pkt'', list_of [var ''lrn_port'']] []),
        run (wait_fdb_age (self ''age_time'')),
        assign ''flood_port_list'' (list_of [list_of [self ''dev_port0''], list_of [self ''dev_port1''], list_of [self
          ''dev_port4'', self ''dev_port5'', self ''dev_port6'']]),
        assign ''flood_pkt_list'' (list_of [var ''pkt'', var ''tag_pkt'', var ''pkt'']),
        print [self ''vrf_port_dev'', self ''vrf_mac'', var ''lrn_mac''],
        run (lib ''send_packet'' [self ''vrf_port_dev'', var ''pkt''] []),
        run (lib ''verify_each_packet_on_multiple_port_lists'' [var ''flood_pkt_list'', var ''flood_port_list''] [])] [
        run (lib ''sai_thrift_flush_fdb_entries'' [] [(''entry_type'', num SAI_FDB_FLUSH_ENTRY_TYPE_DYNAMIC)])]]"

definition FdbAgeTest_macAgingOnLagTest :: "'d stmt" where
  "FdbAgeTest_macAgingOnLagTest = block [
      try_finally [
        assign ''lrn_mac'' (str ''00:01:01:01:01:01''),
        assign ''lrn_port'' (self ''dev_port5''),
        assign ''lag_ports'' (list_of [self ''dev_port4'', self ''dev_port5'', self ''dev_port6'']),
        assign ''pkt'' (lib ''simple_udp_packet'' [] [(''eth_dst'', self ''vrf_mac''), (''eth_src'', var ''lrn_mac''),
          (''pktlen'', num 100)]),
        print [var ''lrn_port'', var ''lrn_mac'', self ''vrf_mac''],
        run (lib ''send_packet'' [var ''lrn_port'', var ''pkt''] []),
        run (lib ''verify_packets'' [var ''pkt'', list_of [self ''vrf_port_dev'']] []),
        sleep_for (num 2),
        assign ''pkt'' (lib ''simple_udp_packet'' [] [(''eth_dst'', var ''lrn_mac''), (''eth_src'', self ''vrf_mac''),
          (''pktlen'', num 100)]),
        assign ''tag_pkt'' (lib ''simple_udp_packet'' [] [(''eth_dst'', var ''lrn_mac''), (''eth_src'', self ''vrf_mac''),
          (''dl_vlan_enable'', bool True), (''vlan_vid'', self ''vlan_id''), (''pktlen'', num 104)]),
        print [self ''vrf_port_dev'', self ''vrf_mac'', var ''lrn_mac''],
        run (lib ''send_packet'' [self ''vrf_port_dev'', var ''pkt''] []),
        run (lib ''verify_packet_any_port'' [var ''pkt'', var ''lag_ports''] []),
        run (wait_fdb_age (self ''age_time'')),
        assign ''flood_port_list'' (list_of [list_of [self ''dev_port0''], list_of [self ''dev_port1''], list_of [self
          ''dev_port4'', self ''dev_port5'', self ''dev_port6'']]),
        assign ''flood_pkt_list'' (list_of [var ''pkt'', var ''tag_pkt'', var ''pkt'']),
        print [self ''vrf_port_dev'', self ''vrf_mac'', var ''lrn_mac''],
        run (lib ''send_packet'' [self ''vrf_port_dev'', var ''pkt''] []),
        run (lib ''verify_each_packet_on_multiple_port_lists'' [var ''flood_pkt_list'', var ''flood_port_list''] [])] [
        run (lib ''sai_thrift_flush_fdb_entries'' [] [(''entry_type'', num SAI_FDB_FLUSH_ENTRY_TYPE_DYNAMIC)])]]"

definition FdbAgeTest_tearDown :: "'d stmt" where
  "FdbAgeTest_tearDown = block [
      run (api_remove ''fdb_entry'' (self ''fdb_entry'')),
      run (api_set ''port'' (self ''port24'') [(''port_vlan_id'', num 0)]),
      run (api_remove ''vlan_member'' (self ''vlan10_member3'')),
      run (api_remove ''bridge_port'' (self ''port24_bp'')),
      assign ''status'' (api_set ''switch'' none [(''fdb_aging_time'', num 0)]),
      assert_eq (var ''status'') (num SAI_STATUS_SUCCESS),
      assign ''sw_attr'' (api_get ''switch'' none [(''fdb_aging_time'', bool True)]),
      assert_eq (item (var ''sw_attr'') (str ''fdb_aging_time'')) (num 0),
      super_tearDown]"

definition FdbAgeTest_macMoveAfterAgingTest :: "'d stmt" where
  "FdbAgeTest_macMoveAfterAgingTest = block [
      try_finally [
        assign ''lrn_mac'' (str ''00:01:01:01:01:01''),
        assign ''lrn_port'' (self ''dev_port1''),
        assign ''mv_port'' (self ''dev_port0''),
        assign ''lrn_pkt'' (lib ''simple_udp_packet'' [] [(''eth_dst'', self ''vrf_mac''), (''eth_src'', var ''lrn_mac''),
          (''pktlen'', num 100)]),
        assign ''lrn_tag_pkt'' (lib ''simple_udp_packet'' [] [(''eth_dst'', self ''vrf_mac''), (''eth_src'', var ''lrn_mac''),
          (''dl_vlan_enable'', bool True), (''vlan_vid'', self ''vlan_id''), (''pktlen'', num 104)]),
        print [var ''lrn_port'', var ''lrn_mac'', self ''vrf_mac''],
        run (lib ''send_packet'' [var ''lrn_port'', var ''lrn_tag_pkt''] []),
        run (lib ''verify_packets'' [var ''lrn_pkt'', list_of [self ''vrf_port_dev'']] []),
        sleep_for (num 2),
        run (wait_fdb_age (self ''age_time'')),
        print [var ''mv_port''],
        print [var ''mv_port'', var ''lrn_mac'', self ''vrf_mac''],
        run (lib ''send_packet'' [var ''mv_port'', var ''lrn_pkt''] []),
        run (lib ''verify_packets'' [var ''lrn_pkt'', list_of [self ''vrf_port_dev'']] []),
        sleep_for (num 1),
        assign ''pkt'' (lib ''simple_udp_packet'' [] [(''eth_dst'', var ''lrn_mac''), (''eth_src'', self ''vrf_mac''),
          (''pktlen'', num 100)]),
        assign ''tag_pkt'' (lib ''simple_udp_packet'' [] [(''eth_dst'', var ''lrn_mac''), (''eth_src'', self ''vrf_mac''),
          (''dl_vlan_enable'', bool True), (''vlan_vid'', self ''vlan_id''), (''pktlen'', num 104)]),
        print [self ''vrf_port_dev'', self ''vrf_mac'', var ''lrn_mac''],
        run (lib ''send_packet'' [self ''vrf_port_dev'', var ''pkt''] []),
        run (lib ''verify_packets'' [var ''pkt'', list_of [var ''mv_port'']] []),
        run (wait_fdb_age (self ''age_time'')),
        assign ''flood_port_list'' (list_of [list_of [self ''dev_port0''], list_of [self ''dev_port1''], list_of [self
          ''dev_port4'', self ''dev_port5'', self ''dev_port6'']]),
        assign ''flood_pkt_list'' (list_of [var ''pkt'', var ''tag_pkt'', var ''pkt'']),
        print [self ''vrf_port_dev'', self ''vrf_mac'', var ''lrn_mac''],
        run (lib ''send_packet'' [self ''vrf_port_dev'', var ''pkt''] []),
        run (lib ''verify_each_packet_on_multiple_port_lists'' [var ''flood_pkt_list'', var ''flood_port_list''] [])] [
        run (lib ''sai_thrift_flush_fdb_entries'' [] [(''entry_type'', num SAI_FDB_FLUSH_ENTRY_TYPE_DYNAMIC)])]]"

definition FdbMissTest_setUp :: "'d stmt" where
  "FdbMissTest_setUp = block [
      super_setUp,
      set_self ''vlan_id'' (num 100),
      set_self ''port24_bp'' (api_create ''bridge_port'' [(''bridge_id'', self ''default_1q_bridge''), (''port_id'', self
        ''port24''), (''type'', num SAI_BRIDGE_PORT_TYPE_PORT), (''admin_state'', bool True)]),
      assert_ne (self ''port24_bp'') (num 0),
      set_self ''port25_bp'' (api_create ''bridge_port'' [(''bridge_id'', self ''default_1q_bridge''), (''port_id'', self
        ''port25''), (''type'', num SAI_BRIDGE_PORT_TYPE_PORT), (''admin_state'', bool True)]),
      assert_ne (self ''port25_bp'') (num 0),
      set_self ''port26_bp'' (api_create ''bridge_port'' [(''bridge_id'', self ''default_1q_bridge''), (''port_id'', self
        ''port26''), (''type'', num SAI_BRIDGE_PORT_TYPE_PORT), (''admin_state'', bool True)]),
      assert_ne (self ''port26_bp'') (num 0),
      set_self ''vlan100'' (api_create ''vlan'' [(''vlan_id'', num 100)]),
      assert_ne (self ''vlan100'') (num 0),
      set_self ''vlan100_member0'' (api_create ''vlan_member'' [(''vlan_id'', self ''vlan100''), (''bridge_port_id'', self
        ''port24_bp''), (''vlan_tagging_mode'', num SAI_VLAN_TAGGING_MODE_UNTAGGED)]),
      set_self ''vlan100_member1'' (api_create ''vlan_member'' [(''vlan_id'', self ''vlan100''), (''bridge_port_id'', self
        ''port25_bp''), (''vlan_tagging_mode'', num SAI_VLAN_TAGGING_MODE_UNTAGGED)]),
      set_self ''vlan100_member2'' (api_create ''vlan_member'' [(''vlan_id'', self ''vlan100''), (''bridge_port_id'', self
        ''port26_bp''), (''vlan_tagging_mode'', num SAI_VLAN_TAGGING_MODE_UNTAGGED)]),
      run (api_set ''port'' (self ''port24'') [(''port_vlan_id'', num 100)]),
      run (api_set ''port'' (self ''port25'') [(''port_vlan_id'', num 100)]),
      run (api_set ''port'' (self ''port26'') [(''port_vlan_id'', num 100)]),
      set_self ''trap_group'' (api_create ''hostif_trap_group'' [(''queue'', num 4)]),
      set_self ''arp_req_trap'' (api_create ''hostif_trap'' [(''packet_action'', num SAI_PACKET_ACTION_TRAP), (''trap_type'',
        num SAI_HOSTIF_TRAP_TYPE_ARP_REQUEST), (''trap_group'', self ''trap_group'')]),
      set_self ''lldp_trap'' (api_create ''hostif_trap'' [(''packet_action'', num SAI_PACKET_ACTION_TRAP), (''trap_type'', num
        SAI_HOSTIF_TRAP_TYPE_LLDP), (''trap_group'', self ''trap_group'')]),
      set_self ''send_port'' (self ''dev_port24''),
      set_self ''flood_ports'' (list_of [self ''dev_port25'', self ''dev_port26'']),
      set_self ''src_mac'' (str ''00:11:11:11:11:11''),
      set_self ''dst_mac'' (str ''00:22:22:22:22:22''),
      set_self ''mcast_mac'' (str ''01:00:5e:11:22:33''),
      set_self ''bcast_mac'' (str ''ff:ff:ff:ff:ff:ff''),
      set_self ''lldp_mac'' (str ''01:80:c2:00:00:0e''),
      set_self ''ucast_pkt'' (lib ''simple_udp_packet'' [] [(''eth_dst'', self ''dst_mac''), (''eth_src'', self ''src_mac'')]),
      set_self ''mcast_pkt'' (lib ''simple_udp_packet'' [] [(''eth_dst'', self ''mcast_mac''), (''eth_src'', self ''src_mac'')]),
      set_self ''bcast_pkt'' (lib ''simple_udp_packet'' [] [(''eth_dst'', self ''bcast_mac''), (''eth_src'', self ''src_mac'')]),
      set_self ''arp_pkt'' (lib ''simple_arp_packet'' [] [(''arp_op'', num 1), (''pktlen'', num 100)]),
      set_self ''lldp_pkt'' (lib ''simple_eth_packet'' [] [(''eth_dst'', self ''lldp_mac''), (''eth_src'', self ''src_mac''),
        (''pktlen'', num 60), (''eth_type'', num 35020)])]"

definition FdbMissTest_unicastMissDropActionTest :: "'d stmt" where
  "FdbMissTest_unicastMissDropActionTest = block [
      try_finally [
        print [self ''send_port'', self ''src_mac'', self ''dst_mac''],
        run (lib ''send_packet'' [self ''send_port'', self ''ucast_pkt''] []),
        run (lib ''verify_packets'' [self ''ucast_pkt'', self ''flood_ports''] []),
        assign ''status'' (api_set ''switch'' none [(''fdb_unicast_miss_packet_action'', num SAI_PACKET_ACTION_DROP)]),
        assert_eq (var ''status'') (num SAI_STATUS_SUCCESS),
        assign ''sw_attr'' (api_get ''switch'' none [(''fdb_unicast_miss_packet_action'', bool True)]),
        assert_eq (item (var ''sw_attr'') (str ''fdb_unicast_miss_packet_action'')) (num SAI_PACKET_ACTION_DROP),
        print [self ''send_port'', self ''src_mac'', self ''dst_mac''],
        run (lib ''send_packet'' [self ''send_port'', self ''ucast_pkt''] []),
        run (lib ''verify_no_other_packets'' [] [])] [
        assign ''status'' (api_set ''switch'' none [(''fdb_unicast_miss_packet_action'', num SAI_PACKET_ACTION_FORWARD)]),
        assert_eq (var ''status'') (num SAI_STATUS_SUCCESS),
        assign ''sw_attr'' (api_get ''switch'' none [(''fdb_unicast_miss_packet_action'', bool True)]),
        assert_eq (item (var ''sw_attr'') (str ''fdb_unicast_miss_packet_action'')) (num SAI_PACKET_ACTION_FORWARD)]]"

definition FdbMissTest_unicastMissCopyActionTest :: "'d stmt" where
  "FdbMissTest_unicastMissCopyActionTest = block [
      try_finally [
        print [self ''send_port'', self ''src_mac'', self ''dst_mac''],
        run (lib ''send_packet'' [self ''send_port'', self ''ucast_pkt''] []),
        run (lib ''verify_packets'' [self ''ucast_pkt'', self ''flood_ports''] []),
        assign ''status'' (api_set ''switch'' none [(''fdb_unicast_miss_packet_action'', num SAI_PACKET_ACTION_COPY)]),
        assert_eq (var ''status'') (num SAI_STATUS_SUCCESS),
        assign ''sw_attr'' (api_get ''switch'' none [(''fdb_unicast_miss_packet_action'', bool True)]),
        assert_eq (item (var ''sw_attr'') (str ''fdb_unicast_miss_packet_action'')) (num SAI_PACKET_ACTION_COPY),
        sleep_for (num 4),
        assign ''pre_stats'' (query ''sai_thrift_get_queue_stats'' [self ''cpu_queue0''] []),
        print [self ''send_port'', self ''src_mac'', self ''dst_mac''],
        run (lib ''send_packet'' [self ''send_port'', self ''ucast_pkt''] []),
        run (lib ''verify_packets'' [self ''ucast_pkt'', self ''flood_ports''] []),
        sleep_for (num 4),
        assign ''post_stats'' (query ''sai_thrift_get_queue_stats'' [self ''cpu_queue0''] []),
        assert_eq (sub (item (var ''post_stats'') (str ''SAI_QUEUE_STAT_PACKETS'')) (item (var ''pre_stats'') (str
          ''SAI_QUEUE_STAT_PACKETS''))) (num 1),
        run (lib ''dataplane.flush'' [] [])] [
        assign ''status'' (api_set ''switch'' none [(''fdb_unicast_miss_packet_action'', num SAI_PACKET_ACTION_FORWARD)]),
        assert_eq (var ''status'') (num SAI_STATUS_SUCCESS),
        assign ''sw_attr'' (api_get ''switch'' none [(''fdb_unicast_miss_packet_action'', bool True)]),
        assert_eq (item (var ''sw_attr'') (str ''fdb_unicast_miss_packet_action'')) (num SAI_PACKET_ACTION_FORWARD)]]"

definition FdbMissTest_unicastMissTrapActionTest :: "'d stmt" where
  "FdbMissTest_unicastMissTrapActionTest = block [
      try_finally [
        print [self ''send_port'', self ''src_mac'', self ''dst_mac''],
        run (lib ''send_packet'' [self ''send_port'', self ''ucast_pkt''] []),
        run (lib ''verify_packets'' [self ''ucast_pkt'', self ''flood_ports''] []),
        assign ''status'' (api_set ''switch'' none [(''fdb_unicast_miss_packet_action'', num SAI_PACKET_ACTION_TRAP)]),
        assert_eq (var ''status'') (num SAI_STATUS_SUCCESS),
        assign ''sw_attr'' (api_get ''switch'' none [(''fdb_unicast_miss_packet_action'', bool True)]),
        assert_eq (item (var ''sw_attr'') (str ''fdb_unicast_miss_packet_action'')) (num SAI_PACKET_ACTION_TRAP),
        sleep_for (num 4),
        assign ''pre_stats'' (query ''sai_thrift_get_queue_stats'' [self ''cpu_queue0''] []),
        print [self ''send_port'', self ''src_mac'', self ''dst_mac''],
        run (lib ''send_packet'' [self ''send_port'', self ''ucast_pkt''] []),
        sleep_for (num 4),
        assign ''post_stats'' (query ''sai_thrift_get_queue_stats'' [self ''cpu_queue0''] []),
        assert_eq (sub (item (var ''post_stats'') (str ''SAI_QUEUE_STAT_PACKETS'')) (item (var ''pre_stats'') (str
          ''SAI_QUEUE_STAT_PACKETS''))) (num 1),
        run (lib ''dataplane.flush'' [] [])] [
        assign ''status'' (api_set ''switch'' none [(''fdb_unicast_miss_packet_action'', num SAI_PACKET_ACTION_FORWARD)]),
        assert_eq (var ''status'') (num SAI_STATUS_SUCCESS),
        assign ''sw_attr'' (api_get ''switch'' none [(''fdb_unicast_miss_packet_action'', bool True)]),
        assert_eq (item (var ''sw_attr'') (str ''fdb_unicast_miss_packet_action'')) (num SAI_PACKET_ACTION_FORWARD)]]"

definition FdbMissTest_multicastMissDropActionTest :: "'d stmt" where
  "FdbMissTest_multicastMissDropActionTest = block [
      try_finally [
        print [self ''send_port'', self ''src_mac'', self ''mcast_mac''],
        run (lib ''send_packet'' [self ''send_port'', self ''mcast_pkt''] []),
        run (lib ''verify_packets'' [self ''mcast_pkt'', self ''flood_ports''] []),
        assign ''status'' (api_set ''switch'' none [(''fdb_multicast_miss_packet_action'', num SAI_PACKET_ACTION_DROP)]),
        assert_eq (var ''status'') (num SAI_STATUS_SUCCESS),
        assign ''sw_attr'' (api_get ''switch'' none [(''fdb_multicast_miss_packet_action'', bool True)]),
        assert_eq (item (var ''sw_attr'') (str ''fdb_multicast_miss_packet_action'')) (num SAI_PACKET_ACTION_DROP),
        print [self ''send_port'', self ''src_mac'', self ''mcast_mac''],
        run (lib ''send_packet'' [self ''send_port'', self ''mcast_pkt''] []),
        run (lib ''verify_no_other_packets'' [] []),
        sleep_for (num 4),
        assign ''pre_stats'' (query ''sai_thrift_get_queue_stats'' [self ''cpu_queue4''] []),
        print [self ''send_port'', self ''src_mac'', self ''lldp_mac''],
        run (lib ''send_packet'' [self ''send_port'', self ''lldp_pkt''] []),
        sleep_for (num 4),
        assign ''post_stats'' (query ''sai_thrift_get_queue_stats'' [self ''cpu_queue4''] []),
        assert_eq (sub (item (var ''post_stats'') (str ''SAI_QUEUE_STAT_PACKETS'')) (item (var ''pre_stats'') (str
          ''SAI_QUEUE_STAT_PACKETS''))) (num 1)] [
        run (lib ''dataplane.flush'' [] []),
        assign ''status'' (api_set ''switch'' none [(''fdb_multicast_miss_packet_action'', num SAI_PACKET_ACTION_FORWARD)]),
        assert_eq (var ''status'') (num SAI_STATUS_SUCCESS),
        assign ''sw_attr'' (api_get ''switch'' none [(''fdb_multicast_miss_packet_action'', bool True)]),
        assert_eq (item (var ''sw_attr'') (str ''fdb_multicast_miss_packet_action'')) (num SAI_PACKET_ACTION_FORWARD)]]"

definition FdbMissTest_multicastMissCopyActionTest :: "'d stmt" where
  "FdbMissTest_multicastMissCopyActionTest = block [
      try_finally [
        print [self ''send_port'', self ''src_mac'', self ''mcast_mac''],
        run (lib ''send_packet'' [self ''send_port'', self ''mcast_pkt''] []),
        run (lib ''verify_packets'' [self ''mcast_pkt'', self ''flood_ports''] []),
        assign ''status'' (api_set ''switch'' none [(''fdb_multicast_miss_packet_action'', num SAI_PACKET_ACTION_COPY)]),
        assert_eq (var ''status'') (num SAI_STATUS_SUCCESS),
        assign ''sw_attr'' (api_get ''switch'' none [(''fdb_multicast_miss_packet_action'', bool True)]),
        assert_eq (item (var ''sw_attr'') (str ''fdb_multicast_miss_packet_action'')) (num SAI_PACKET_ACTION_COPY),
        sleep_for (num 4),
        assign ''pre_stats'' (query ''sai_thrift_get_queue_stats'' [self ''cpu_queue0''] []),
        print [self ''send_port'', self ''src_mac'', self ''mcast_mac''],
        run (lib ''send_packet'' [self ''send_port'', self ''mcast_pkt''] []),
        run (lib ''verify_packets'' [self ''mcast_pkt'', self ''flood_ports''] []),
        sleep_for (num 4),
        assign ''post_stats'' (query ''sai_thrift_get_queue_stats'' [self ''cpu_queue0''] []),
        assert_eq (sub (item (var ''post_stats'') (str ''SAI_QUEUE_STAT_PACKETS'')) (item (var ''pre_stats'') (str
          ''SAI_QUEUE_STAT_PACKETS''))) (num 1),
        sleep_for (num 4),
        assign ''pre_stats'' (query ''sai_thrift_get_queue_stats'' [self ''cpu_queue4''] []),
        print [self ''send_port'', self ''src_mac'', self ''lldp_mac''],
        run (lib ''send_packet'' [self ''send_port'', self ''lldp_pkt''] []),
        sleep_for (num 4),
        assign ''post_stats'' (query ''sai_thrift_get_queue_stats'' [self ''cpu_queue4''] []),
        assert_eq (sub (item (var ''post_stats'') (str ''SAI_QUEUE_STAT_PACKETS'')) (item (var ''pre_stats'') (str
          ''SAI_QUEUE_STAT_PACKETS''))) (num 1)] [
        run (lib ''dataplane.flush'' [] []),
        assign ''status'' (api_set ''switch'' none [(''fdb_multicast_miss_packet_action'', num SAI_PACKET_ACTION_FORWARD)]),
        assert_eq (var ''status'') (num SAI_STATUS_SUCCESS),
        assign ''sw_attr'' (api_get ''switch'' none [(''fdb_multicast_miss_packet_action'', bool True)]),
        assert_eq (item (var ''sw_attr'') (str ''fdb_multicast_miss_packet_action'')) (num SAI_PACKET_ACTION_FORWARD)]]"

definition FdbMissTest_multicastMissTrapActionTest :: "'d stmt" where
  "FdbMissTest_multicastMissTrapActionTest = block [
      try_finally [
        print [self ''send_port'', self ''src_mac'', self ''mcast_mac''],
        run (lib ''send_packet'' [self ''send_port'', self ''mcast_pkt''] []),
        run (lib ''verify_packets'' [self ''mcast_pkt'', self ''flood_ports''] []),
        assign ''status'' (api_set ''switch'' none [(''fdb_multicast_miss_packet_action'', num SAI_PACKET_ACTION_TRAP)]),
        assert_eq (var ''status'') (num SAI_STATUS_SUCCESS),
        assign ''sw_attr'' (api_get ''switch'' none [(''fdb_multicast_miss_packet_action'', bool True)]),
        assert_eq (item (var ''sw_attr'') (str ''fdb_multicast_miss_packet_action'')) (num SAI_PACKET_ACTION_TRAP),
        sleep_for (num 4),
        assign ''pre_stats'' (query ''sai_thrift_get_queue_stats'' [self ''cpu_queue0''] []),
        print [self ''send_port'', self ''src_mac'', self ''mcast_mac''],
        run (lib ''send_packet'' [self ''send_port'', self ''mcast_pkt''] []),
        sleep_for (num 4),
        assign ''post_stats'' (query ''sai_thrift_get_queue_stats'' [self ''cpu_queue0''] []),
        assert_eq (sub (item (var ''post_stats'') (str ''SAI_QUEUE_STAT_PACKETS'')) (item (var ''pre_stats'') (str
          ''SAI_QUEUE_STAT_PACKETS''))) (num 1),
        sleep_for (num 4),
        assign ''pre_stats'' (query ''sai_thrift_get_queue_stats'' [self ''cpu_queue4''] []),
        print [self ''send_port'', self ''src_mac'', self ''lldp_mac''],
        run (lib ''send_packet'' [self ''send_port'', self ''lldp_pkt''] []),
        sleep_for (num 4),
        assign ''post_stats'' (query ''sai_thrift_get_queue_stats'' [self ''cpu_queue4''] []),
        assert_eq (sub (item (var ''post_stats'') (str ''SAI_QUEUE_STAT_PACKETS'')) (item (var ''pre_stats'') (str
          ''SAI_QUEUE_STAT_PACKETS''))) (num 1)] [
        run (lib ''dataplane.flush'' [] []),
        assign ''status'' (api_set ''switch'' none [(''fdb_multicast_miss_packet_action'', num SAI_PACKET_ACTION_FORWARD)]),
        assert_eq (var ''status'') (num SAI_STATUS_SUCCESS),
        assign ''sw_attr'' (api_get ''switch'' none [(''fdb_multicast_miss_packet_action'', bool True)]),
        assert_eq (item (var ''sw_attr'') (str ''fdb_multicast_miss_packet_action'')) (num SAI_PACKET_ACTION_FORWARD)]]"

definition FdbMissTest_broadcastMissDropActionTest :: "'d stmt" where
  "FdbMissTest_broadcastMissDropActionTest = block [
      try_finally [
        print [self ''send_port'', self ''src_mac'', self ''bcast_mac''],
        run (lib ''send_packet'' [self ''send_port'', self ''bcast_pkt''] []),
        run (lib ''verify_packets'' [self ''bcast_pkt'', self ''flood_ports''] []),
        assign ''status'' (api_set ''switch'' none [(''fdb_broadcast_miss_packet_action'', num SAI_PACKET_ACTION_DROP)]),
        assert_eq (var ''status'') (num SAI_STATUS_SUCCESS),
        assign ''sw_attr'' (api_get ''switch'' none [(''fdb_broadcast_miss_packet_action'', bool True)]),
        assert_eq (item (var ''sw_attr'') (str ''fdb_broadcast_miss_packet_action'')) (num SAI_PACKET_ACTION_DROP),
        print [self ''send_port'', self ''src_mac'', self ''bcast_mac''],
        run (lib ''send_packet'' [self ''send_port'', self ''bcast_pkt''] []),
        run (lib ''verify_no_other_packets'' [] []),
        sleep_for (num 4),
        assign ''pre_stats'' (query ''sai_thrift_get_queue_stats'' [self ''cpu_queue4''] []),
        print [self ''send_port''],
        run (lib ''send_packet'' [self ''send_port'', self ''arp_pkt''] []),
        sleep_for (num 4),
        assign ''post_stats'' (query ''sai_thrift_get_queue_stats'' [self ''cpu_queue4''] []),
        assert_eq (sub (item (var ''post_stats'') (str ''SAI_QUEUE_STAT_PACKETS'')) (item (var ''pre_stats'') (str
          ''SAI_QUEUE_STAT_PACKETS''))) (num 1)] [
        run (lib ''dataplane.flush'' [] []),
        assign ''status'' (api_set ''switch'' none [(''fdb_broadcast_miss_packet_action'', num SAI_PACKET_ACTION_FORWARD)]),
        assert_eq (var ''status'') (num SAI_STATUS_SUCCESS),
        assign ''sw_attr'' (api_get ''switch'' none [(''fdb_broadcast_miss_packet_action'', bool True)]),
        assert_eq (item (var ''sw_attr'') (str ''fdb_broadcast_miss_packet_action'')) (num SAI_PACKET_ACTION_FORWARD)]]"

definition FdbMissTest_broadcastMissCopyActionTest :: "'d stmt" where
  "FdbMissTest_broadcastMissCopyActionTest = block [
      try_finally [
        print [self ''send_port'', self ''src_mac'', self ''bcast_mac''],
        run (lib ''send_packet'' [self ''send_port'', self ''bcast_pkt''] []),
        run (lib ''verify_packets'' [self ''bcast_pkt'', self ''flood_ports''] []),
        assign ''status'' (api_set ''switch'' none [(''fdb_broadcast_miss_packet_action'', num SAI_PACKET_ACTION_COPY)]),
        assert_eq (var ''status'') (num SAI_STATUS_SUCCESS),
        assign ''sw_attr'' (api_get ''switch'' none [(''fdb_broadcast_miss_packet_action'', bool True)]),
        assert_eq (item (var ''sw_attr'') (str ''fdb_broadcast_miss_packet_action'')) (num SAI_PACKET_ACTION_COPY),
        sleep_for (num 4),
        assign ''pre_stats'' (query ''sai_thrift_get_queue_stats'' [self ''cpu_queue0''] []),
        print [self ''send_port'', self ''src_mac'', self ''bcast_mac''],
        run (lib ''send_packet'' [self ''send_port'', self ''bcast_pkt''] []),
        run (lib ''verify_packets'' [self ''bcast_pkt'', self ''flood_ports''] []),
        sleep_for (num 4),
        assign ''post_stats'' (query ''sai_thrift_get_queue_stats'' [self ''cpu_queue0''] []),
        assert_eq (sub (item (var ''post_stats'') (str ''SAI_QUEUE_STAT_PACKETS'')) (item (var ''pre_stats'') (str
          ''SAI_QUEUE_STAT_PACKETS''))) (num 1),
        sleep_for (num 4),
        assign ''pre_stats'' (query ''sai_thrift_get_queue_stats'' [self ''cpu_queue4''] []),
        print [self ''send_port''],
        run (lib ''send_packet'' [self ''send_port'', self ''arp_pkt''] []),
        sleep_for (num 4),
        assign ''post_stats'' (query ''sai_thrift_get_queue_stats'' [self ''cpu_queue4''] []),
        assert_eq (sub (item (var ''post_stats'') (str ''SAI_QUEUE_STAT_PACKETS'')) (item (var ''pre_stats'') (str
          ''SAI_QUEUE_STAT_PACKETS''))) (num 1)] [
        run (lib ''dataplane.flush'' [] []),
        assign ''status'' (api_set ''switch'' none [(''fdb_broadcast_miss_packet_action'', num SAI_PACKET_ACTION_FORWARD)]),
        assert_eq (var ''status'') (num SAI_STATUS_SUCCESS),
        assign ''sw_attr'' (api_get ''switch'' none [(''fdb_broadcast_miss_packet_action'', bool True)]),
        assert_eq (item (var ''sw_attr'') (str ''fdb_broadcast_miss_packet_action'')) (num SAI_PACKET_ACTION_FORWARD)]]"

definition FdbMissTest_broadcastMissTrapActionTest :: "'d stmt" where
  "FdbMissTest_broadcastMissTrapActionTest = block [
      try_finally [
        print [self ''send_port'', self ''src_mac'', self ''bcast_mac''],
        run (lib ''send_packet'' [self ''send_port'', self ''bcast_pkt''] []),
        run (lib ''verify_packets'' [self ''bcast_pkt'', self ''flood_ports''] []),
        assign ''status'' (api_set ''switch'' none [(''fdb_broadcast_miss_packet_action'', num SAI_PACKET_ACTION_TRAP)]),
        assert_eq (var ''status'') (num SAI_STATUS_SUCCESS),
        assign ''sw_attr'' (api_get ''switch'' none [(''fdb_broadcast_miss_packet_action'', bool True)]),
        assert_eq (item (var ''sw_attr'') (str ''fdb_broadcast_miss_packet_action'')) (num SAI_PACKET_ACTION_TRAP),
        sleep_for (num 4),
        assign ''pre_stats'' (query ''sai_thrift_get_queue_stats'' [self ''cpu_queue0''] []),
        print [self ''send_port'', self ''src_mac'', self ''bcast_mac''],
        run (lib ''send_packet'' [self ''send_port'', self ''bcast_pkt''] []),
        sleep_for (num 4),
        assign ''post_stats'' (query ''sai_thrift_get_queue_stats'' [self ''cpu_queue0''] []),
        assert_eq (sub (item (var ''post_stats'') (str ''SAI_QUEUE_STAT_PACKETS'')) (item (var ''pre_stats'') (str
          ''SAI_QUEUE_STAT_PACKETS''))) (num 1),
        sleep_for (num 4),
        assign ''pre_stats'' (query ''sai_thrift_get_queue_stats'' [self ''cpu_queue4''] []),
        print [self ''send_port''],
        run (lib ''send_packet'' [self ''send_port'', self ''arp_pkt''] []),
        sleep_for (num 4),
        assign ''post_stats'' (query ''sai_thrift_get_queue_stats'' [self ''cpu_queue4''] []),
        assert_eq (sub (item (var ''post_stats'') (str ''SAI_QUEUE_STAT_PACKETS'')) (item (var ''pre_stats'') (str
          ''SAI_QUEUE_STAT_PACKETS''))) (num 1)] [
        run (lib ''dataplane.flush'' [] []),
        assign ''status'' (api_set ''switch'' none [(''fdb_broadcast_miss_packet_action'', num SAI_PACKET_ACTION_FORWARD)]),
        assert_eq (var ''status'') (num SAI_STATUS_SUCCESS),
        assign ''sw_attr'' (api_get ''switch'' none [(''fdb_broadcast_miss_packet_action'', bool True)]),
        assert_eq (item (var ''sw_attr'') (str ''fdb_broadcast_miss_packet_action'')) (num SAI_PACKET_ACTION_FORWARD)]]"

definition FdbMissTest_runTest :: "'d stmt" where
  "FdbMissTest_runTest = block [
      run (invoke [] FdbMissTest_unicastMissDropActionTest),
      run (invoke [] FdbMissTest_unicastMissCopyActionTest),
      run (invoke [] FdbMissTest_unicastMissTrapActionTest),
      run (invoke [] FdbMissTest_multicastMissDropActionTest),
      run (invoke [] FdbMissTest_multicastMissCopyActionTest),
      run (invoke [] FdbMissTest_multicastMissTrapActionTest),
      run (invoke [] FdbMissTest_broadcastMissDropActionTest),
      run (invoke [] FdbMissTest_broadcastMissCopyActionTest),
      run (invoke [] FdbMissTest_broadcastMissTrapActionTest)]"

definition FdbMissTest_tearDown :: "'d stmt" where
  "FdbMissTest_tearDown = block [
      run (lib ''sai_thrift_flush_fdb_entries'' [] [(''entry_type'', num SAI_FDB_FLUSH_ENTRY_TYPE_ALL)]),
      run (api_remove ''hostif_trap'' (self ''lldp_trap'')),
      run (api_remove ''hostif_trap'' (self ''arp_req_trap'')),
      run (api_remove ''hostif_trap_group'' (self ''trap_group'')),
      run (api_set ''port'' (self ''port24'') [(''port_vlan_id'', num 0)]),
      run (api_set ''port'' (self ''port25'') [(''port_vlan_id'', num 0)]),
      run (api_set ''port'' (self ''port26'') [(''port_vlan_id'', num 0)]),
      run (api_remove ''vlan_member'' (self ''vlan100_member0'')),
      run (api_remove ''vlan_member'' (self ''vlan100_member1'')),
      run (api_remove ''vlan_member'' (self ''vlan100_member2'')),
      run (api_remove ''vlan'' (self ''vlan100'')),
      run (api_remove ''bridge_port'' (self ''port24_bp'')),
      run (api_remove ''bridge_port'' (self ''port25_bp'')),
      run (api_remove ''bridge_port'' (self ''port26_bp'')),
      super_tearDown]"

definition FdbEventTest_setUp :: "'d stmt" where
  "FdbEventTest_setUp = block [
      super_setUp,
      set_self ''src_mac'' (str ''00:11:11:11:11:11''),
      set_self ''dst_mac'' (str ''00:22:22:22:22:22''),
      assign ''vlan_id'' (num 10),
      set_self ''pkt'' (lib ''simple_udp_packet'' [] [(''eth_dst'', self ''dst_mac''), (''eth_src'', self ''src_mac''),
        (''pktlen'', num 100)]),
      set_self ''tag_pkt'' (lib ''simple_udp_packet'' [] [(''eth_dst'', self ''dst_mac''), (''eth_src'', self ''src_mac''),
        (''dl_vlan_enable'', bool True), (''vlan_vid'', var ''vlan_id''), (''pktlen'', num 104)]),
      set_self ''src_port'' (self ''dev_port0''),
      set_self ''flood_ports'' (list_of [list_of [self ''dev_port1''], list_of [self ''dev_port4'', self ''dev_port5'', self
        ''dev_port6'']]),
      set_self ''flood_pkts'' (list_of [self ''tag_pkt'', self ''pkt'']),
      set_self ''mac_entry'' (struct ''sai_thrift_fdb_entry_t'' [(''switch_id'', self ''switch_id''), (''mac_address'', self
        ''src_mac''), (''bv_id'', self ''vlan10'')])]"

definition FdbEventTest_macLearnEventTest :: "'d stmt" where
  "FdbEventTest_macLearnEventTest = block [
      try_finally [
        print [self ''src_port'', self ''src_mac'', self ''dst_mac''],
        run (lib ''send_packet'' [self ''src_port'', self ''pkt''] []),
        run (lib ''verify_each_packet_on_multiple_port_lists'' [self ''flood_pkts'', self ''flood_ports''] []),
        sleep_for (num 2),
        assign ''fdb_attr'' (api_get ''fdb_entry'' (self ''mac_entry'') [(''bridge_port_id'', bool True), (''packet_action'',
          bool True), (''type'', bool True)]),
        assert_eq (item (var ''fdb_attr'') (str ''bridge_port_id'')) (self ''port0_bp''),
        assert_eq (item (var ''fdb_attr'') (str ''packet_action'')) (num SAI_PACKET_ACTION_FORWARD),
        assert_eq (item (var ''fdb_attr'') (str ''type'')) (num SAI_FDB_ENTRY_TYPE_DYNAMIC)] [
        run (lib ''sai_thrift_flush_fdb_entries'' [] [(''entry_type'', num SAI_FDB_FLUSH_ENTRY_TYPE_ALL)])]]"

definition FdbEventTest_macAgeEvenTest :: "'d stmt" where
  "FdbEventTest_macAgeEvenTest = block [
      assign ''age_time'' (num 10),
      try_finally [
        assign ''status'' (api_set ''switch'' none [(''fdb_aging_time'', var ''age_time'')]),
        assert_eq (var ''status'') (num SAI_STATUS_SUCCESS),
        print [var ''age_time''],
        print [self ''src_port'', self ''src_mac'', self ''dst_mac''],
        run (lib ''send_packet'' [self ''src_port'', self ''pkt''] []),
        run (lib ''verify_each_packet_on_multiple_port_lists'' [self ''flood_pkts'', self ''flood_ports''] []),
        sleep_for (num 2),
        assign ''fdb_attr'' (api_get ''fdb_entry'' (self ''mac_entry'') [(''bridge_port_id'', bool True), (''packet_action'',
          bool True), (''type'', bool True)]),
        assert_eq (item (var ''fdb_attr'') (str ''bridge_port_id'')) (self ''port0_bp''),
        assert_eq (item (var ''fdb_attr'') (str ''packet_action'')) (num SAI_PACKET_ACTION_FORWARD),
        assert_eq (item (var ''fdb_attr'') (str ''type'')) (num SAI_FDB_ENTRY_TYPE_DYNAMIC),
        run (wait_fdb_age (var ''age_time'')),
        assign ''fdb_attr'' (api_get ''fdb_entry'' (self ''mac_entry'') [(''bridge_port_id'', bool True), (''packet_action'',
          bool True), (''type'', bool True)]),
        assert_eq status (num SAI_STATUS_ITEM_NOT_FOUND),
        assert_eq (var ''fdb_attr'') none] [
        run (lib ''sai_thrift_flush_fdb_entries'' [] [(''entry_type'', num SAI_FDB_FLUSH_ENTRY_TYPE_ALL)]),
        run (api_set ''switch'' none [(''fdb_aging_time'', num 0)])]]"

definition FdbEventTest_macMoveEventTest :: "'d stmt" where
  "FdbEventTest_macMoveEventTest = block [
      assign ''mv_port'' (self ''dev_port4''),
      assign ''flood_ports'' (list_of [list_of [self ''dev_port0''], list_of [self ''dev_port1'']]),
      assign ''flood_pkts'' (list_of [self ''pkt'', self ''tag_pkt'']),
      try_finally [
        print [self ''src_port'', self ''src_mac'', self ''dst_mac''],
        run (lib ''send_packet'' [self ''src_port'', self ''pkt''] []),
        run (lib ''verify_each_packet_on_multiple_port_lists'' [self ''flood_pkts'', self ''flood_ports''] []),
        sleep_for (num 2),
        assign ''fdb_attr'' (api_get ''fdb_entry'' (self ''mac_entry'') [(''bridge_port_id'', bool True), (''packet_action'',
          bool True), (''type'', bool True)]),
        assert_eq (item (var ''fdb_attr'') (str ''bridge_port_id'')) (self ''port0_bp''),
        assert_eq (item (var ''fdb_attr'') (str ''packet_action'')) (num SAI_PACKET_ACTION_FORWARD),
        assert_eq (item (var ''fdb_attr'') (str ''type'')) (num SAI_FDB_ENTRY_TYPE_DYNAMIC),
        print [var ''mv_port'', self ''src_mac'', self ''dst_mac''],
        run (lib ''send_packet'' [var ''mv_port'', self ''pkt''] []),
        run (lib ''verify_each_packet_on_multiple_port_lists'' [var ''flood_pkts'', var ''flood_ports''] []),
        sleep_for (num 2),
        assign ''fdb_attr'' (api_get ''fdb_entry'' (self ''mac_entry'') [(''bridge_port_id'', bool True), (''packet_action'',
          bool True), (''type'', bool True)]),
        assert_eq (item (var ''fdb_attr'') (str ''bridge_port_id'')) (self ''lag1_bp''),
        assert_eq (item (var ''fdb_attr'') (str ''packet_action'')) (num SAI_PACKET_ACTION_FORWARD),
        assert_eq (item (var ''fdb_attr'') (str ''type'')) (num SAI_FDB_ENTRY_TYPE_DYNAMIC)] [
        run (lib ''sai_thrift_flush_fdb_entries'' [] [(''entry_type'', num SAI_FDB_FLUSH_ENTRY_TYPE_ALL)])]]"

definition FdbEventTest_macFlushEventTest :: "'d stmt" where
  "FdbEventTest_macFlushEventTest = block [
      try_finally [
        print [self ''src_port'', self ''src_mac'', self ''dst_mac''],
        run (lib ''send_packet'' [self ''src_port'', self ''pkt''] []),
        run (lib ''verify_each_packet_on_multiple_port_lists'' [self ''flood_pkts'', self ''flood_ports''] []),
        sleep_for (num 2),
        assign ''fdb_attr'' (api_get ''fdb_entry'' (self ''mac_entry'') [(''bridge_port_id'', bool True), (''packet_action'',
          bool True), (''type'', bool True)]),
        assert_eq (item (var ''fdb_attr'') (str ''bridge_port_id'')) (self ''port0_bp''),
        assert_eq (item (var ''fdb_attr'') (str ''packet_action'')) (num SAI_PACKET_ACTION_FORWARD),
        assert_eq (item (var ''fdb_attr'') (str ''type'')) (num SAI_FDB_ENTRY_TYPE_DYNAMIC),
        run (lib ''sai_thrift_flush_fdb_entries'' [] [(''bridge_port_id'', self ''port0_bp''), (''entry_type'', num
          SAI_FDB_ENTRY_TYPE_DYNAMIC)]),
        assign ''fdb_attr'' (api_get ''fdb_entry'' (self ''mac_entry'') [(''bridge_port_id'', bool True), (''packet_action'',
          bool True), (''type'', bool True)]),
        assert_eq status (num SAI_STATUS_ITEM_NOT_FOUND),
        assert_eq (var ''fdb_attr'') none] [
        run (lib ''sai_thrift_flush_fdb_entries'' [] [(''entry_type'', num SAI_FDB_FLUSH_ENTRY_TYPE_ALL)])]]"

definition FdbEventTest_macDeleteEventTest :: "'d stmt" where
  "FdbEventTest_macDeleteEventTest = block [
      try_finally [
        print [self ''src_port'', self ''src_mac'', self ''dst_mac''],
        run (lib ''send_packet'' [self ''src_port'', self ''pkt''] []),
        run (lib ''verify_each_packet_on_multiple_port_lists'' [self ''flood_pkts'', self ''flood_ports''] []),
        sleep_for (num 2),
        assign ''fdb_attr'' (api_get ''fdb_entry'' (self ''mac_entry'') [(''bridge_port_id'', bool True), (''packet_action'',
          bool True), (''type'', bool True)]),
        assert_eq (item (var ''fdb_attr'') (str ''bridge_port_id'')) (self ''port0_bp''),
        assert_eq (item (var ''fdb_attr'') (str ''packet_action'')) (num SAI_PACKET_ACTION_FORWARD),
        assert_eq (item (var ''fdb_attr'') (str ''type'')) (num SAI_FDB_ENTRY_TYPE_DYNAMIC),
        run (api_remove ''fdb_entry'' (self ''mac_entry'')),
        assign ''fdb_attr'' (api_get ''fdb_entry'' (self ''mac_entry'') [(''bridge_port_id'', bool True), (''packet_action'',
          bool True), (''type'', bool True)]),
        assert_eq status (num SAI_STATUS_ITEM_NOT_FOUND),
        assert_eq (var ''fdb_attr'') none] [
        run (lib ''sai_thrift_flush_fdb_entries'' [] [(''entry_type'', num SAI_FDB_FLUSH_ENTRY_TYPE_ALL)])]]"

definition FdbEventTest_runTest :: "'d stmt" where
  "FdbEventTest_runTest = block [
      run (invoke [] FdbEventTest_macLearnEventTest),
      run (invoke [] FdbEventTest_macAgeEvenTest),
      run (invoke [] FdbEventTest_macMoveEventTest),
      run (invoke [] FdbEventTest_macFlushEventTest),
      run (invoke [] FdbEventTest_macDeleteEventTest)]"

definition FdbEventTest_tearDown :: "'d stmt" where
  "FdbEventTest_tearDown = block [
      run (lib ''sai_thrift_flush_fdb_entries'' [] [(''entry_type'', num SAI_FDB_FLUSH_ENTRY_TYPE_ALL)]),
      super_tearDown]"

end
