(* ===== verification/TestsHostif.thy ===== *)
theory TestsHostif
  imports PtfOwn PtfConstants
begin

text \<open>
  The tests of host interfaces and traps, \<open>ptf/saihostif.py\<close>: a definition per method, statement by statement in the language of
  \<open>PtfScript\<close>, named after its class. A parameter \<open>m_f\<close> is a method \<open>f\<close> that derived classes define anew.
\<close>

section \<open>The tests\<close>

definition hostIfGenlTest_setUp :: "'d stmt" where
  "hostIfGenlTest_setUp = block [
      super_setUp]"

definition hostIfGenlTest_runTest :: "'d stmt" where
  "hostIfGenlTest_runTest = block [
      assign ''hostif1_port'' (self ''port24''),
      try_finally [
        assign ''hostif1'' (api_create ''hostif'' [(''obj_id'', var ''hostif1_port''), (''name'', str ''genl_packet''),
          (''genetlink_mcgrp_name'', str ''packets''), (''type'', num SAI_HOSTIF_TYPE_GENETLINK)]),
        assert (ne (var ''hostif1'') (num 0))] []]"

definition hostIfGenlTest_tearDown :: "'d stmt" where
  "hostIfGenlTest_tearDown = block [
      super_tearDown]"

definition HostifCreationTestHelper_setUp :: "'d stmt" where
  "HostifCreationTestHelper_setUp = block [
      super_setUp]"

definition HostifCreationTestHelper_tearDown :: "'d stmt" where
  "HostifCreationTestHelper_tearDown = block [
      run (lib ''sai_thrift_flush_fdb_entries'' [] [(''entry_type'', num SAI_FDB_FLUSH_ENTRY_TYPE_ALL)]),
      super_tearDown]"

definition lagNetdevHostifCreationTest_setUp :: "'d stmt" where
  "lagNetdevHostifCreationTest_setUp = block [
      run (invoke [] HostifCreationTestHelper_setUp)]"

definition lagNetdevHostifCreationTest_tearDown :: "'d stmt" where
  "lagNetdevHostifCreationTest_tearDown = block [
      run (invoke [] HostifCreationTestHelper_tearDown)]"

definition vlanSviNetdevHostifCreationTest_setUp :: "'d stmt" where
  "vlanSviNetdevHostifCreationTest_setUp = block [
      run (invoke [] HostifCreationTestHelper_setUp)]"

definition vlanSviNetdevHostifCreationTest_runTest :: "'d stmt" where
  "vlanSviNetdevHostifCreationTest_runTest = block [
      assign ''vid'' (num 100),
      assign ''vlan_ports'' (list_of [self ''port24'', self ''port25'']),
      assign ''vlan_dev_ports'' (list_of [self ''dev_port24'', self ''dev_port25'']),
      assign ''vlan_hostif_name'' (str ''vlan_hostif''),
      assign ''hostif1_name'' (str ''hostif1''),
      assign ''hostif2_name'' (str ''hostif2''),
      assign ''lag_ports'' (list_of [self ''port26'', self ''port27'']),
      assign ''lag_dev_ports'' (list_of [self ''dev_port26'', self ''dev_port27'']),
      assign ''lag_hostif_name'' (str ''lag_hostif''),
      assign ''arp_pkt'' (lib ''simple_arp_packet'' [] [(''arp_op'', num 1), (''pktlen'', num 100)]),
      assign ''tag_arp_pkt'' (lib ''simple_arp_packet'' [] [(''arp_op'', num 1), (''vlan_vid'', var ''vid''), (''pktlen'', num
        104)]),
      try_finally [
        assign ''lag10'' (api_create ''lag'' []),
        assign ''vlan100'' (api_create ''vlan'' [(''vlan_id'', var ''vid'')]),
        assign ''vlan100_rif'' (api_create ''router_interface'' [(''type'', num SAI_ROUTER_INTERFACE_TYPE_VLAN),
          (''virtual_router_id'', self ''default_vrf''), (''vlan_id'', var ''vlan100'')]),
        assert (ne (var ''vlan100_rif'') (num 0)),
        assign ''vlan_hostif'' (api_create ''hostif'' [(''name'', var ''vlan_hostif_name''), (''obj_id'', var ''vlan100''),
          (''type'', num SAI_HOSTIF_TYPE_NETDEV)]),
        assert_ne (var ''vlan_hostif'') (num 0),
        assign ''arp_trap'' (api_create ''hostif_trap'' [(''packet_action'', num SAI_PACKET_ACTION_TRAP), (''trap_type'', num
          SAI_HOSTIF_TRAP_TYPE_ARP_REQUEST)]),
        assert_ne (var ''arp_trap'') (num 0),
        assign ''lag10_member1'' (api_create ''lag_member'' [(''lag_id'', var ''lag10''), (''port_id'', item (var ''lag_ports'')
          (num 0))]),
        assign ''lag10_member2'' (api_create ''lag_member'' [(''lag_id'', var ''lag10''), (''port_id'', item (var ''lag_ports'')
          (num 1))]),
        assign ''lag_hostif'' (api_create ''hostif'' [(''name'', var ''lag_hostif_name''), (''obj_id'', var ''lag10''),
          (''type'', num SAI_HOSTIF_TYPE_NETDEV)]),
        assert_ne (var ''lag_hostif'') (num 0),
        assign ''lag_hif_socket'' (lib ''open_packet_socket'' [var ''lag_hostif_name''] []),
        assign ''iport_bp'' (api_create ''bridge_port'' [(''bridge_id'', self ''default_1q_bridge''), (''port_id'', item (var
          ''vlan_ports'') (num 0)), (''type'', num SAI_BRIDGE_PORT_TYPE_PORT), (''admin_state'', bool True)]),
        assert_ne (var ''iport_bp'') (num 0),
        assign ''eport_bp'' (api_create ''bridge_port'' [(''bridge_id'', self ''default_1q_bridge''), (''port_id'', item (var
          ''vlan_ports'') (num 1)), (''type'', num SAI_BRIDGE_PORT_TYPE_PORT), (''admin_state'', bool True)]),
        assert_ne (var ''eport_bp'') (num 0),
        assign ''lag10_bp'' (api_create ''bridge_port'' [(''bridge_id'', self ''default_1q_bridge''), (''port_id'', var
          ''lag10''), (''type'', num SAI_BRIDGE_PORT_TYPE_PORT), (''admin_state'', bool True)]),
        assert_ne (var ''lag10_bp'') (num 0),
        assign ''vlan100_member0'' (api_create ''vlan_member'' [(''vlan_id'', var ''vlan100''), (''bridge_port_id'', var
          ''iport_bp''), (''vlan_tagging_mode'', num SAI_VLAN_TAGGING_MODE_UNTAGGED)]),
        assign ''vlan100_member1'' (api_create ''vlan_member'' [(''vlan_id'', var ''vlan100''), (''bridge_port_id'', var
          ''eport_bp''), (''vlan_tagging_mode'', num SAI_VLAN_TAGGING_MODE_TAGGED)]),
        assign ''vlan100_member2'' (api_create ''vlan_member'' [(''vlan_id'', var ''vlan100''), (''bridge_port_id'', var
          ''lag10_bp''), (''vlan_tagging_mode'', num SAI_VLAN_TAGGING_MODE_UNTAGGED)]),
        run (api_set ''port'' (item (var ''vlan_ports'') (num 0)) [(''port_vlan_id'', var ''vid'')]),
        run (api_set ''lag'' (var ''lag10'') [(''port_vlan_id'', var ''vid'')]),
        assign ''hostif1'' (api_create ''hostif'' [(''name'', var ''hostif1_name''), (''obj_id'', item (var ''vlan_ports'') (num
          0)), (''type'', num SAI_HOSTIF_TYPE_NETDEV)]),
        assert_ne (var ''hostif1'') (num 0),
        assign ''hif1_socket'' (lib ''open_packet_socket'' [var ''hostif1_name''] []),
        assign ''hostif2'' (api_create ''hostif'' [(''name'', var ''hostif2_name''), (''obj_id'', item (var ''vlan_ports'') (num
          1)), (''type'', num SAI_HOSTIF_TYPE_NETDEV)]),
        assert_ne (var ''hostif2'') (num 0),
        assign ''hif2_socket'' (lib ''open_packet_socket'' [var ''hostif2_name''] []),
        assign ''pre_stats'' (query ''sai_thrift_get_queue_stats'' [self ''cpu_queue0''] []),
        print [item (var ''vlan_dev_ports'') (num 0)],
        run (lib ''send_packet'' [item (var ''vlan_dev_ports'') (num 0), var ''arp_pkt''] []),
        assert (lib ''socket_verify_packet'' [var ''arp_pkt'', var ''hif1_socket''] []),
        print [item (var ''vlan_dev_ports'') (num 1)],
        run (lib ''send_packet'' [item (var ''vlan_dev_ports'') (num 1), var ''tag_arp_pkt''] []),
        assert (lib ''socket_verify_packet'' [var ''arp_pkt'', var ''hif2_socket''] []),
        for_in [''dev_port''] (var ''lag_dev_ports'') [
          print [var ''dev_port''],
          run (lib ''send_packet'' [var ''dev_port'', var ''arp_pkt''] []),
          assert (lib ''socket_verify_packet'' [var ''arp_pkt'', var ''lag_hif_socket''] [])],
        sleep_for (num 4),
        assign ''post_stats'' (query ''sai_thrift_get_queue_stats'' [self ''cpu_queue0''] []),
        assert_eq (item (var ''post_stats'') (str ''SAI_QUEUE_STAT_PACKETS'')) (add (item (var ''pre_stats'') (str
          ''SAI_QUEUE_STAT_PACKETS'')) (num 4))] [
        run (lib ''dataplane.flush'' [] []),
        run (lib ''sai_thrift_flush_fdb_entries'' [] [(''entry_type'', num SAI_FDB_FLUSH_ENTRY_TYPE_ALL)]),
        run (api_remove ''hostif'' (var ''hostif1'')),
        run (api_remove ''hostif'' (var ''hostif2'')),
        run (api_remove ''vlan_member'' (var ''vlan100_member0'')),
        run (api_remove ''vlan_member'' (var ''vlan100_member1'')),
        run (api_remove ''vlan_member'' (var ''vlan100_member2'')),
        run (api_set ''port'' (item (var ''vlan_ports'') (num 0)) [(''port_vlan_id'', num 0)]),
        run (api_set ''lag'' (var ''lag10'') [(''port_vlan_id'', num 0)]),
        run (api_remove ''bridge_port'' (var ''iport_bp'')),
        run (api_remove ''bridge_port'' (var ''eport_bp'')),
        run (api_remove ''bridge_port'' (var ''lag10_bp'')),
        run (api_remove ''hostif'' (var ''lag_hostif'')),
        run (api_remove ''lag_member'' (var ''lag10_member1'')),
        run (api_remove ''lag_member'' (var ''lag10_member2'')),
        run (api_remove ''hostif_trap'' (var ''arp_trap'')),
        run (api_remove ''hostif'' (var ''vlan_hostif'')),
        run (api_remove ''router_interface'' (var ''vlan100_rif'')),
        run (api_remove ''vlan'' (var ''vlan100'')),
        run (api_remove ''lag'' (var ''lag10''))]]"

definition vlanSviNetdevHostifCreationTest_tearDown :: "'d stmt" where
  "vlanSviNetdevHostifCreationTest_tearDown = block [
      run (invoke [] HostifCreationTestHelper_tearDown)]"

definition portNetdevHostifCreationTest_setUp :: "'d stmt" where
  "portNetdevHostifCreationTest_setUp = block [
      super_setUp]"

definition portNetdevHostifCreationTest_runTest :: "'d stmt" where
  "portNetdevHostifCreationTest_runTest = block [
      assign ''hostif1_port'' (self ''port0''),
      assign ''hostif1_dev_port'' (self ''dev_port0''),
      assign ''hostif1_name'' (str ''hostif1''),
      assign ''hostif2_port'' (self ''port1''),
      assign ''hostif2_dev_port'' (self ''dev_port1''),
      assign ''hostif2_name'' (str ''hostif2''),
      assign ''lldp_mac'' (str ''01:80:c2:00:00:0e''),
      assign ''lldp_pkt'' (lib ''simple_eth_packet'' [] [(''eth_dst'', var ''lldp_mac''), (''pktlen'', num 100), (''eth_type'',
        num 35020)]),
      try_finally [
        assign ''hostif1'' (api_create ''hostif'' [(''name'', var ''hostif1_name''), (''obj_id'', var ''hostif1_port''),
          (''type'', num SAI_HOSTIF_TYPE_NETDEV)]),
        assert_ne (var ''hostif1'') (num 0),
        assign ''hostif2'' (api_create ''hostif'' [(''name'', var ''hostif2_name''), (''obj_id'', var ''hostif2_port''),
          (''type'', num SAI_HOSTIF_TYPE_NETDEV)]),
        assert_ne (var ''hostif2'') (num 0),
        assign ''hif1_socket'' (lib ''open_packet_socket'' [var ''hostif1_name''] []),
        assign ''hif2_socket'' (lib ''open_packet_socket'' [var ''hostif2_name''] []),
        assign ''lldp_trap'' (api_create ''hostif_trap'' [(''packet_action'', num SAI_PACKET_ACTION_TRAP), (''trap_type'', num
          SAI_HOSTIF_TRAP_TYPE_LLDP)]),
        assert_ne (var ''lldp_trap'') (num 0),
        assign ''channel'' (num SAI_HOSTIF_TABLE_ENTRY_CHANNEL_TYPE_NETDEV_PHYSICAL_PORT),
        assign ''hif_tbl_entry'' (api_create ''hostif_table_entry'' [(''channel_type'', var ''channel''), (''type'', num
          SAI_HOSTIF_TABLE_ENTRY_TYPE_WILDCARD)]),
        assert_ne (var ''hif_tbl_entry'') (num 0),
        assign ''pre_stats'' (query ''sai_thrift_get_queue_stats'' [self ''cpu_queue0''] []),
        print [var ''hostif1_dev_port''],
        run (lib ''send_packet'' [var ''hostif1_dev_port'', var ''lldp_pkt''] []),
        assert (lib ''socket_verify_packet'' [var ''lldp_pkt'', var ''hif1_socket''] []),
        print [var ''hostif2_dev_port''],
        run (lib ''send_packet'' [var ''hostif2_dev_port'', var ''lldp_pkt''] []),
        assert (lib ''socket_verify_packet'' [var ''lldp_pkt'', var ''hif2_socket''] []),
        sleep_for (num 4),
        assign ''post_stats'' (query ''sai_thrift_get_queue_stats'' [self ''cpu_queue0''] []),
        assert_eq (item (var ''post_stats'') (str ''SAI_QUEUE_STAT_PACKETS'')) (add (item (var ''pre_stats'') (str
          ''SAI_QUEUE_STAT_PACKETS'')) (num 2))] [
        run (lib ''dataplane.flush'' [] []),
        run (api_remove ''hostif_table_entry'' (var ''hif_tbl_entry'')),
        run (api_remove ''hostif_trap'' (var ''lldp_trap'')),
        run (api_remove ''hostif'' (var ''hostif1'')),
        run (api_remove ''hostif'' (var ''hostif2''))]]"

definition portNetdevHostifCreationTest_tearDown :: "'d stmt" where
  "portNetdevHostifCreationTest_tearDown = block [
      super_tearDown]"

definition HostifTaggingTestHelper_setUp :: "'d stmt" where
  "HostifTaggingTestHelper_setUp = block [
      super_setUp]"

definition HostifTaggingTestHelper_tearDown :: "'d stmt" where
  "HostifTaggingTestHelper_tearDown = block [
      run (lib ''sai_thrift_flush_fdb_entries'' [] [(''entry_type'', num SAI_FDB_FLUSH_ENTRY_TYPE_ALL)]),
      super_tearDown]"

definition hostifStripTagTest_setUp :: "'d stmt" where
  "hostifStripTagTest_setUp = block [
      run (invoke [] HostifTaggingTestHelper_setUp)]"

definition hostifStripTagTest_runTest :: "'d stmt" where
  "hostifStripTagTest_runTest = block [
      assign ''vid'' (num 10),
      assign ''hostif_port'' (self ''port1''),
      assign ''hostif_dev_port'' (self ''dev_port1''),
      assign ''hostif_name'' (str ''hostif''),
      assign ''lldp_mac'' (str ''01:80:c2:00:00:0e''),
      assign ''tag_pkt'' (lib ''simple_eth_dot1q_packet'' [] [(''eth_dst'', var ''lldp_mac''), (''dl_vlan_enable'', bool True),
        (''vlan_vid'', var ''vid''), (''pktlen'', num 104), (''eth_type'', num 35020)]),
      assign ''exp_pkt'' (lib ''simple_eth_dot1q_packet'' [] [(''eth_dst'', var ''lldp_mac''), (''dl_vlan_enable'', bool False),
        (''pktlen'', num 100), (''eth_type'', num 35020)]),
      try_finally [
        assign ''hostif'' (api_create ''hostif'' [(''name'', var ''hostif_name''), (''obj_id'', var ''hostif_port''), (''type'',
          num SAI_HOSTIF_TYPE_NETDEV), (''vlan_tag'', num SAI_HOSTIF_VLAN_TAG_STRIP)]),
        assert_ne (var ''hostif'') (num 0),
        assign ''hif_attr'' (api_get ''hostif'' (var ''hostif'') [(''vlan_tag'', bool True)]),
        assert_eq (item (var ''hif_attr'') (str ''vlan_tag'')) (num SAI_HOSTIF_VLAN_TAG_STRIP),
        assign ''hif_socket'' (lib ''open_packet_socket'' [var ''hostif_name''] []),
        assign ''lldp_trap'' (api_create ''hostif_trap'' [(''packet_action'', num SAI_PACKET_ACTION_TRAP), (''trap_type'', num
          SAI_HOSTIF_TRAP_TYPE_LLDP)]),
        assert_ne (var ''lldp_trap'') (num 0),
        print [var ''hostif_dev_port''],
        run (lib ''send_packet'' [var ''hostif_dev_port'', var ''tag_pkt''] []),
        assert (lib ''socket_verify_packet'' [var ''exp_pkt'', var ''hif_socket''] [])] [
        run (api_remove ''hostif_trap'' (self ''lldp_trap'')),
        run (api_remove ''hostif'' (var ''hostif''))]]"

definition hostifStripTagTest_tearDown :: "'d stmt" where
  "hostifStripTagTest_tearDown = block [
      run (invoke [] HostifTaggingTestHelper_tearDown)]"

definition hostifKeepTagTest_setUp :: "'d stmt" where
  "hostifKeepTagTest_setUp = block [
      run (invoke [] HostifTaggingTestHelper_setUp)]"

definition hostifKeepTagTest_runTest :: "'d stmt" where
  "hostifKeepTagTest_runTest = block [
      assign ''vid'' (num 10),
      assign ''hostif_port'' (self ''port1''),
      assign ''hostif_dev_port'' (self ''dev_port1''),
      assign ''hostif_name'' (str ''hostif''),
      assign ''lldp_mac'' (str ''01:80:c2:00:00:0e''),
      assign ''tag_pkt'' (lib ''simple_eth_dot1q_packet'' [] [(''eth_dst'', var ''lldp_mac''), (''dl_vlan_enable'', bool True),
        (''vlan_vid'', var ''vid''), (''pktlen'', num 104), (''eth_type'', num 35020)]),
      assign ''pkt'' (lib ''simple_eth_dot1q_packet'' [] [(''eth_dst'', var ''lldp_mac''), (''dl_vlan_enable'', bool False),
        (''pktlen'', num 100), (''eth_type'', num 35020)]),
      assign ''exp_pkt'' (var ''tag_pkt''),
      try_finally [
        assign ''hostif'' (api_create ''hostif'' [(''name'', var ''hostif_name''), (''obj_id'', var ''hostif_port''), (''type'',
          num SAI_HOSTIF_TYPE_NETDEV), (''vlan_tag'', num SAI_HOSTIF_VLAN_TAG_KEEP)]),
        assert_ne (var ''hostif'') (num 0),
        assign ''hif_attr'' (api_get ''hostif'' (var ''hostif'') [(''vlan_tag'', bool True)]),
        assert_eq (item (var ''hif_attr'') (str ''vlan_tag'')) (num SAI_HOSTIF_VLAN_TAG_KEEP),
        assign ''hif_socket'' (lib ''open_packet_socket'' [var ''hostif_name''] []),
        assign ''lldp_trap'' (api_create ''hostif_trap'' [(''packet_action'', num SAI_PACKET_ACTION_TRAP), (''trap_type'', num
          SAI_HOSTIF_TRAP_TYPE_LLDP)]),
        assert_ne (var ''lldp_trap'') (num 0),
        print [var ''hostif_dev_port''],
        run (lib ''send_packet'' [var ''hostif_dev_port'', var ''tag_pkt''] []),
        assert (lib ''socket_verify_packet'' [var ''exp_pkt'', var ''hif_socket''] []),
        print [var ''hostif_dev_port''],
        run (lib ''send_packet'' [var ''hostif_dev_port'', var ''pkt''] []),
        assert (lib ''socket_verify_packet'' [var ''exp_pkt'', var ''hif_socket''] [])] [
        run (api_remove ''hostif'' (var ''hostif'')),
        run (api_remove ''hostif_trap'' (self ''lldp_trap''))]]"

definition hostifKeepTagTest_tearDown :: "'d stmt" where
  "hostifKeepTagTest_tearDown = block [
      run (invoke [] HostifTaggingTestHelper_tearDown)]"

definition hostifOriginalTagTest_setUp :: "'d stmt" where
  "hostifOriginalTagTest_setUp = block [
      run (invoke [] HostifTaggingTestHelper_setUp)]"

definition hostifOriginalTagTest_runTest :: "'d stmt" where
  "hostifOriginalTagTest_runTest = block [
      assign ''vid'' (num 10),
      assign ''hostif_port'' (self ''port1''),
      assign ''hostif_dev_port'' (self ''dev_port1''),
      assign ''hostif_name'' (str ''hostif''),
      assign ''lldp_mac'' (str ''01:80:c2:00:00:0e''),
      assign ''tag_pkt'' (lib ''simple_eth_dot1q_packet'' [] [(''eth_dst'', var ''lldp_mac''), (''dl_vlan_enable'', bool True),
        (''vlan_vid'', var ''vid''), (''pktlen'', num 104), (''eth_type'', num 35020)]),
      assign ''pkt'' (lib ''simple_eth_dot1q_packet'' [] [(''eth_dst'', var ''lldp_mac''), (''dl_vlan_enable'', bool False),
        (''pktlen'', num 100), (''eth_type'', num 35020)]),
      assign ''exp_pkt1'' (var ''tag_pkt''),
      assign ''exp_pkt2'' (var ''pkt''),
      try_finally [
        assign ''hostif'' (api_create ''hostif'' [(''name'', var ''hostif_name''), (''obj_id'', var ''hostif_port''), (''type'',
          num SAI_HOSTIF_TYPE_NETDEV), (''vlan_tag'', num SAI_HOSTIF_VLAN_TAG_ORIGINAL)]),
        assert_ne (var ''hostif'') (num 0),
        assign ''hif_attr'' (api_get ''hostif'' (var ''hostif'') [(''vlan_tag'', bool True)]),
        assert_eq (item (var ''hif_attr'') (str ''vlan_tag'')) (num SAI_HOSTIF_VLAN_TAG_ORIGINAL),
        assign ''hif_socket'' (lib ''open_packet_socket'' [var ''hostif_name''] []),
        assign ''lldp_trap'' (api_create ''hostif_trap'' [(''packet_action'', num SAI_PACKET_ACTION_TRAP), (''trap_type'', num
          SAI_HOSTIF_TRAP_TYPE_LLDP)]),
        assert_ne (var ''lldp_trap'') (num 0),
        print [var ''hostif_dev_port''],
        run (lib ''send_packet'' [var ''hostif_dev_port'', var ''tag_pkt''] []),
        assert (lib ''socket_verify_packet'' [var ''exp_pkt1'', var ''hif_socket''] []),
        print [var ''hostif_dev_port''],
        run (lib ''send_packet'' [var ''hostif_dev_port'', var ''pkt''] []),
        assert (lib ''socket_verify_packet'' [var ''exp_pkt2'', var ''hif_socket''] [])] [
        run (api_remove ''hostif'' (var ''hostif'')),
        run (api_remove ''hostif_trap'' (self ''lldp_trap''))]]"

definition hostifOriginalTagTest_tearDown :: "'d stmt" where
  "hostifOriginalTagTest_tearDown = block [
      run (invoke [] HostifTaggingTestHelper_tearDown)]"

definition HostifTrapActionTestHelper_setUp :: "'d stmt" where
  "HostifTrapActionTestHelper_setUp = block [
      super_setUp,
      assign ''vid'' (num 100),
      set_self ''iport'' (self ''port24''),
      set_self ''iport_dev'' (self ''dev_port24''),
      set_self ''eport'' (self ''port25''),
      set_self ''eport_dev'' (self ''dev_port25''),
      set_self ''vlan100'' (api_create ''vlan'' [(''vlan_id'', var ''vid'')]),
      set_self ''vlan100_rif'' (api_create ''router_interface'' [(''type'', num SAI_ROUTER_INTERFACE_TYPE_VLAN),
        (''virtual_router_id'', self ''default_vrf''), (''vlan_id'', self ''vlan100'')]),
      set_self ''iport_bp'' (api_create ''bridge_port'' [(''bridge_id'', self ''default_1q_bridge''), (''port_id'', self
        ''iport''), (''type'', num SAI_BRIDGE_PORT_TYPE_PORT), (''admin_state'', bool True)]),
      set_self ''eport_bp'' (api_create ''bridge_port'' [(''bridge_id'', self ''default_1q_bridge''), (''port_id'', self
        ''eport''), (''type'', num SAI_BRIDGE_PORT_TYPE_PORT), (''admin_state'', bool True)]),
      set_self ''vlan100_member0'' (api_create ''vlan_member'' [(''vlan_id'', self ''vlan100''), (''bridge_port_id'', self
        ''iport_bp''), (''vlan_tagging_mode'', num SAI_VLAN_TAGGING_MODE_UNTAGGED)]),
      set_self ''vlan100_member1'' (api_create ''vlan_member'' [(''vlan_id'', self ''vlan100''), (''bridge_port_id'', self
        ''eport_bp''), (''vlan_tagging_mode'', num SAI_VLAN_TAGGING_MODE_UNTAGGED)]),
      run (api_set ''port'' (self ''iport'') [(''port_vlan_id'', var ''vid'')]),
      run (api_set ''port'' (self ''eport'') [(''port_vlan_id'', var ''vid'')]),
      assign ''lldp_mac'' (str ''01:80:c2:00:00:0e''),
      set_self ''lldp_pkt'' (lib ''simple_eth_packet'' [] [(''eth_dst'', var ''lldp_mac''), (''pktlen'', num 100),
        (''eth_type'', num 35020)]),
      set_self ''arp_pkt'' (lib ''simple_arp_packet'' [] [(''arp_op'', num 1), (''pktlen'', num 100)]),
      set_self ''arp_tagged_pkt'' (lib ''simple_arp_packet'' [] [(''arp_op'', num 1), (''vlan_vid'', var ''vid''), (''pktlen'',
        num 104)]),
      set_self ''cpu_queue_state'' (item (query ''sai_thrift_get_queue_stats'' [self ''cpu_queue0''] []) (str
        ''SAI_QUEUE_STAT_PACKETS''))]"

definition HostifTrapActionTestHelper_tearDown :: "'d stmt" where
  "HostifTrapActionTestHelper_tearDown = block [
      run (lib ''sai_thrift_flush_fdb_entries'' [] [(''entry_type'', num SAI_FDB_FLUSH_ENTRY_TYPE_ALL)]),
      run (api_remove ''vlan_member'' (self ''vlan100_member0'')),
      run (api_remove ''vlan_member'' (self ''vlan100_member1'')),
      run (api_set ''port'' (self ''iport'') [(''port_vlan_id'', num 0)]),
      run (api_set ''port'' (self ''eport'') [(''port_vlan_id'', num 0)]),
      run (api_remove ''bridge_port'' (self ''iport_bp'')),
      run (api_remove ''bridge_port'' (self ''eport_bp'')),
      run (api_remove ''router_interface'' (self ''vlan100_rif'')),
      run (api_remove ''vlan'' (self ''vlan100'')),
      super_tearDown]"

definition dropTrapActionTest_setUp :: "'d stmt" where
  "dropTrapActionTest_setUp = block [
      run (invoke [] HostifTrapActionTestHelper_setUp)]"

definition dropTrapActionTest_runTest :: "'d stmt" where
  "dropTrapActionTest_runTest = block [
      try_finally [
        assign ''drop_trap'' (api_create ''hostif_trap'' [(''packet_action'', num SAI_PACKET_ACTION_DROP), (''trap_type'', num
          SAI_HOSTIF_TRAP_TYPE_LLDP)]),
        assert_ne (var ''drop_trap'') (num 0),
        print [self ''iport_dev''],
        run (lib ''send_packet'' [self ''iport_dev'', self ''lldp_pkt''] []),
        run (lib ''verify_no_other_packets'' [] [])] [
        run (api_remove ''hostif_trap'' (var ''drop_trap''))]]"

definition dropTrapActionTest_tearDown :: "'d stmt" where
  "dropTrapActionTest_tearDown = block [
      run (invoke [] HostifTrapActionTestHelper_tearDown)]"

definition forwardTrapActionTest_setUp :: "'d stmt" where
  "forwardTrapActionTest_setUp = block [
      run (invoke [] HostifTrapActionTestHelper_setUp)]"

definition forwardTrapActionTest_runTest :: "'d stmt" where
  "forwardTrapActionTest_runTest = block [
      try_finally [
        assign ''forward_trap'' (api_create ''hostif_trap'' [(''packet_action'', num SAI_PACKET_ACTION_FORWARD), (''trap_type'',
          num SAI_HOSTIF_TRAP_TYPE_LLDP)]),
        assert_ne (var ''forward_trap'') (num 0),
        print [self ''iport_dev''],
        run (lib ''send_packet'' [self ''iport_dev'', self ''lldp_pkt''] []),
        print [self ''eport_dev''],
        run (lib ''verify_packet'' [self ''lldp_pkt'', self ''eport_dev''] []),
        run (lib ''verify_no_other_packets'' [] [])] [
        run (api_remove ''hostif_trap'' (var ''forward_trap''))]]"

definition forwardTrapActionTest_tearDown :: "'d stmt" where
  "forwardTrapActionTest_tearDown = block [
      run (invoke [] HostifTrapActionTestHelper_tearDown)]"

definition copyTrapActionTest_setUp :: "'d stmt" where
  "copyTrapActionTest_setUp = block [
      run (invoke [] HostifTrapActionTestHelper_setUp)]"

definition copyTrapActionTest_runTest :: "'d stmt" where
  "copyTrapActionTest_runTest = block [
      try_finally [
        assign ''copy_trap'' (api_create ''hostif_trap'' [(''packet_action'', num SAI_PACKET_ACTION_COPY), (''trap_type'', num
          SAI_HOSTIF_TRAP_TYPE_LLDP)]),
        assert_ne (var ''copy_trap'') (num 0),
        print [self ''iport_dev''],
        run (lib ''send_packet'' [self ''iport_dev'', self ''lldp_pkt''] []),
        print [self ''eport_dev''],
        run (lib ''verify_packet'' [self ''lldp_pkt'', self ''eport_dev''] []),
        sleep_for (num 4),
        assign ''post_stats'' (query ''sai_thrift_get_queue_stats'' [self ''cpu_queue0''] []),
        assert_eq (item (var ''post_stats'') (str ''SAI_QUEUE_STAT_PACKETS'')) (add (self ''cpu_queue_state'') (num 1)),
        set_self ''cpu_queue_state'' (item (var ''post_stats'') (str ''SAI_QUEUE_STAT_PACKETS''))] [
        run (api_remove ''hostif_trap'' (var ''copy_trap''))]]"

definition copyTrapActionTest_tearDown :: "'d stmt" where
  "copyTrapActionTest_tearDown = block [
      run (invoke [] HostifTrapActionTestHelper_tearDown)]"

definition copyTrapActionTaggedTest_setUp :: "'d stmt" where
  "copyTrapActionTaggedTest_setUp = block [
      run (invoke [] HostifTrapActionTestHelper_setUp)]"

definition copyTrapActionTaggedTest_runTest :: "'d stmt" where
  "copyTrapActionTaggedTest_runTest = block [
      try_finally [
        assign ''copy_trap'' (api_create ''hostif_trap'' [(''packet_action'', num SAI_PACKET_ACTION_COPY), (''trap_type'', num
          SAI_HOSTIF_TRAP_TYPE_ARP_REQUEST)]),
        assert (ne (var ''copy_trap'') (num 0)),
        assign ''pre_stats'' (query ''sai_thrift_get_queue_stats'' [self ''cpu_queue0''] []),
        print [self ''iport_dev''],
        run (lib ''send_packet'' [self ''iport_dev'', self ''arp_pkt''] []),
        print [self ''eport_dev''],
        run (lib ''verify_packet'' [self ''arp_pkt'', self ''eport_dev''] []),
        sleep_for (num 4),
        assign ''post_stats'' (query ''sai_thrift_get_queue_stats'' [self ''cpu_queue0''] []),
        assert_eq (item (var ''post_stats'') (str ''SAI_QUEUE_STAT_PACKETS'')) (add (self ''cpu_queue_state'') (num 1)),
        set_self ''cpu_queue_state'' (item (var ''post_stats'') (str ''SAI_QUEUE_STAT_PACKETS'')),
        assign ''arp_len'' (as_int (sub (item (var ''post_stats'') (str ''SAI_QUEUE_STAT_BYTES'')) (item (var ''pre_stats'')
          (str ''SAI_QUEUE_STAT_BYTES'')))),
        assign ''pre_stats'' (var ''post_stats''),
        print [self ''iport_dev''],
        run (lib ''send_packet'' [self ''iport_dev'', self ''arp_tagged_pkt''] []),
        print [self ''eport_dev''],
        run (lib ''verify_packet'' [self ''arp_pkt'', self ''eport_dev''] []),
        sleep_for (num 4),
        assign ''post_stats'' (query ''sai_thrift_get_queue_stats'' [self ''cpu_queue0''] []),
        assert_eq (item (var ''post_stats'') (str ''SAI_QUEUE_STAT_PACKETS'')) (add (self ''cpu_queue_state'') (num 1)),
        assign ''arp_tagged_len'' (as_int (sub (item (var ''post_stats'') (str ''SAI_QUEUE_STAT_BYTES'')) (item (var
          ''pre_stats'') (str ''SAI_QUEUE_STAT_BYTES'')))),
        assert_eq (var ''arp_tagged_len'') (add (var ''arp_len'') (num 4)),
        set_self ''cpu_queue_state'' (item (var ''post_stats'') (str ''SAI_QUEUE_STAT_PACKETS''))] [
        run (api_remove ''hostif_trap'' (var ''copy_trap''))]]"

definition copyTrapActionTaggedTest_tearDown :: "'d stmt" where
  "copyTrapActionTaggedTest_tearDown = block [
      run (invoke [] HostifTrapActionTestHelper_tearDown)]"

definition trapTrapActionTest_setUp :: "'d stmt" where
  "trapTrapActionTest_setUp = block [
      run (invoke [] HostifTrapActionTestHelper_setUp)]"

definition trapTrapActionTest_runTest :: "'d stmt" where
  "trapTrapActionTest_runTest = block [
      try_finally [
        assign ''trap_trap'' (api_create ''hostif_trap'' [(''packet_action'', num SAI_PACKET_ACTION_TRAP), (''trap_type'', num
          SAI_HOSTIF_TRAP_TYPE_LLDP)]),
        assert_ne (var ''trap_trap'') (num 0),
        print [self ''iport_dev''],
        run (lib ''send_packet'' [self ''iport_dev'', self ''lldp_pkt''] []),
        sleep_for (num 4),
        assign ''post_stats'' (query ''sai_thrift_get_queue_stats'' [self ''cpu_queue0''] []),
        assert_eq (item (var ''post_stats'') (str ''SAI_QUEUE_STAT_PACKETS'')) (add (self ''cpu_queue_state'') (num 1)),
        set_self ''cpu_queue_state'' (item (var ''post_stats'') (str ''SAI_QUEUE_STAT_PACKETS''))] [
        run (api_remove ''hostif_trap'' (var ''trap_trap''))]]"

definition trapTrapActionTest_tearDown :: "'d stmt" where
  "trapTrapActionTest_tearDown = block [
      run (invoke [] HostifTrapActionTestHelper_tearDown)]"

definition logTrapActionTest_setUp :: "'d stmt" where
  "logTrapActionTest_setUp = block [
      run (invoke [] HostifTrapActionTestHelper_setUp)]"

definition logTrapActionTest_runTest :: "'d stmt" where
  "logTrapActionTest_runTest = block [
      try_finally [
        assign ''log_trap'' (api_create ''hostif_trap'' [(''packet_action'', num SAI_PACKET_ACTION_LOG), (''trap_type'', num
          SAI_HOSTIF_TRAP_TYPE_LLDP)]),
        assert_ne (var ''log_trap'') (num 0),
        print [self ''iport_dev''],
        run (lib ''send_packet'' [self ''iport_dev'', self ''lldp_pkt''] []),
        print [self ''eport_dev''],
        run (lib ''verify_packet'' [self ''lldp_pkt'', self ''eport_dev''] []),
        sleep_for (num 4),
        assign ''post_stats'' (query ''sai_thrift_get_queue_stats'' [self ''cpu_queue0''] []),
        assert_eq (item (var ''post_stats'') (str ''SAI_QUEUE_STAT_PACKETS'')) (add (self ''cpu_queue_state'') (num 1)),
        set_self ''cpu_queue_state'' (item (var ''post_stats'') (str ''SAI_QUEUE_STAT_PACKETS''))] [
        run (api_remove ''hostif_trap'' (var ''log_trap''))]]"

definition logTrapActionTest_tearDown :: "'d stmt" where
  "logTrapActionTest_tearDown = block [
      run (invoke [] HostifTrapActionTestHelper_tearDown)]"

definition denyTrapActionTest_setUp :: "'d stmt" where
  "denyTrapActionTest_setUp = block [
      run (invoke [] HostifTrapActionTestHelper_setUp)]"

definition denyTrapActionTest_runTest :: "'d stmt" where
  "denyTrapActionTest_runTest = block [
      try_finally [
        assign ''deny_trap'' (api_create ''hostif_trap'' [(''packet_action'', num SAI_PACKET_ACTION_DENY), (''trap_type'', num
          SAI_HOSTIF_TRAP_TYPE_LLDP)]),
        assert_ne (var ''deny_trap'') (num 0),
        print [self ''iport_dev''],
        run (lib ''send_packet'' [self ''iport_dev'', self ''lldp_pkt''] []),
        run (lib ''verify_no_other_packets'' [] [])] [
        run (api_remove ''hostif_trap'' (var ''deny_trap''))]]"

definition denyTrapActionTest_tearDown :: "'d stmt" where
  "denyTrapActionTest_tearDown = block [
      run (invoke [] HostifTrapActionTestHelper_tearDown)]"

definition transitTrapActionTest_setUp :: "'d stmt" where
  "transitTrapActionTest_setUp = block [
      run (invoke [] HostifTrapActionTestHelper_setUp)]"

definition transitTrapActionTest_runTest :: "'d stmt" where
  "transitTrapActionTest_runTest = block [
      try_finally [
        assign ''transit_trap'' (api_create ''hostif_trap'' [(''packet_action'', num SAI_PACKET_ACTION_FORWARD), (''trap_type'',
          num SAI_HOSTIF_TRAP_TYPE_LLDP)]),
        assert_ne (var ''transit_trap'') (num 0),
        print [self ''iport_dev''],
        run (lib ''send_packet'' [self ''iport_dev'', self ''lldp_pkt''] []),
        print [self ''eport_dev''],
        run (lib ''verify_packet'' [self ''lldp_pkt'', self ''eport_dev''] []),
        run (lib ''verify_no_other_packets'' [] [])] [
        run (api_remove ''hostif_trap'' (var ''transit_trap''))]]"

definition transitTrapActionTest_tearDown :: "'d stmt" where
  "transitTrapActionTest_tearDown = block [
      run (invoke [] HostifTrapActionTestHelper_tearDown)]"

definition hostifPriorityTest_setUp :: "'d stmt" where
  "hostifPriorityTest_setUp = block [
      run (invoke [] HostifTrapActionTestHelper_setUp)]"

definition hostifPriorityTest_runTest :: "'d stmt" where
  "hostifPriorityTest_runTest = block [
      try_finally [
        assign ''drop_trap'' (api_create ''hostif_trap'' [(''packet_action'', num SAI_PACKET_ACTION_DROP), (''trap_type'', num
          SAI_HOSTIF_TRAP_TYPE_LLDP), (''trap_priority'', num 1)]),
        assert_ne (var ''drop_trap'') (num 0),
        assign ''forward_trap'' (api_create ''hostif_trap'' [(''packet_action'', num SAI_PACKET_ACTION_FORWARD), (''trap_type'',
          num SAI_HOSTIF_TRAP_TYPE_LLDP), (''trap_priority'', num 5)]),
        assert_ne (var ''forward_trap'') (num 0),
        run (lib ''dataplane.flush'' [] []),
        print [self ''iport_dev''],
        run (lib ''send_packet'' [self ''iport_dev'', self ''lldp_pkt''] []),
        print [self ''eport_dev''],
        run (lib ''verify_packet'' [self ''lldp_pkt'', self ''eport_dev''] []),
        run (lib ''verify_no_other_packets'' [] []),
        run (api_set ''hostif_trap'' (var ''drop_trap'') [(''trap_priority'', num 10)]),
        print [self ''iport_dev''],
        run (lib ''send_packet'' [self ''iport_dev'', self ''lldp_pkt''] []),
        run (lib ''verify_no_other_packets'' [] [])] [
        run (api_remove ''hostif_trap'' (var ''forward_trap'')),
        run (api_remove ''hostif_trap'' (var ''drop_trap''))]]"

definition hostifPriorityTest_tearDown :: "'d stmt" where
  "hostifPriorityTest_tearDown = block [
      run (invoke [] HostifTrapActionTestHelper_tearDown)]"

definition lagHostifTxTest_setUp :: "'d stmt" where
  "lagHostifTxTest_setUp = block [
      super_setUp]"

definition lagHostifTxTest_tearDown :: "'d stmt" where
  "lagHostifTxTest_tearDown = block [
      super_tearDown]"

definition arpRxTxTest_setUp :: "'d stmt" where
  "arpRxTxTest_setUp = block [
      super_setUp]"

definition arpRxTxTest_tearDown :: "'d stmt" where
  "arpRxTxTest_tearDown = block [
      super_tearDown]"

definition portHostifTxTest_setUp :: "'d stmt" where
  "portHostifTxTest_setUp = block [
      super_setUp]"

definition portHostifTxTest_tearDown :: "'d stmt" where
  "portHostifTxTest_tearDown = block [
      super_tearDown]"

definition HostifTableMatchTestHelper_setUp :: "'d stmt" where
  "HostifTableMatchTestHelper_setUp = block [
      super_setUp,
      set_self ''vid'' (num 100),
      set_self ''iport'' (self ''port24''),
      set_self ''iport_dev'' (self ''dev_port24''),
      set_self ''eport'' (self ''port25''),
      set_self ''eport_dev'' (self ''dev_port25''),
      set_self ''vlan100'' (api_create ''vlan'' [(''vlan_id'', self ''vid'')]),
      set_self ''iport_bp'' (api_create ''bridge_port'' [(''bridge_id'', self ''default_1q_bridge''), (''port_id'', self
        ''iport''), (''type'', num SAI_BRIDGE_PORT_TYPE_PORT), (''admin_state'', bool True)]),
      set_self ''eport_bp'' (api_create ''bridge_port'' [(''bridge_id'', self ''default_1q_bridge''), (''port_id'', self
        ''eport''), (''type'', num SAI_BRIDGE_PORT_TYPE_PORT), (''admin_state'', bool True)]),
      set_self ''vlan100_member0'' (api_create ''vlan_member'' [(''vlan_id'', self ''vlan100''), (''bridge_port_id'', self
        ''iport_bp''), (''vlan_tagging_mode'', num SAI_VLAN_TAGGING_MODE_UNTAGGED)]),
      set_self ''vlan100_member1'' (api_create ''vlan_member'' [(''vlan_id'', self ''vlan100''), (''bridge_port_id'', self
        ''eport_bp''), (''vlan_tagging_mode'', num SAI_VLAN_TAGGING_MODE_UNTAGGED)]),
      run (api_set ''port'' (self ''iport'') [(''port_vlan_id'', self ''vid'')]),
      run (api_set ''port'' (self ''eport'') [(''port_vlan_id'', self ''vid'')]),
      set_self ''cpu_queue_state'' (item (query ''sai_thrift_get_queue_stats'' [self ''cpu_queue0''] []) (str
        ''SAI_QUEUE_STAT_PACKETS''))]"

definition HostifTableMatchTestHelper_tearDown :: "'d stmt" where
  "HostifTableMatchTestHelper_tearDown = block [
      run (lib ''sai_thrift_flush_fdb_entries'' [] [(''entry_type'', num SAI_FDB_FLUSH_ENTRY_TYPE_ALL)]),
      run (api_remove ''vlan_member'' (self ''vlan100_member0'')),
      run (api_remove ''vlan_member'' (self ''vlan100_member1'')),
      run (api_set ''port'' (self ''iport'') [(''port_vlan_id'', num 0)]),
      run (api_set ''port'' (self ''eport'') [(''port_vlan_id'', num 0)]),
      run (api_remove ''bridge_port'' (self ''iport_bp'')),
      run (api_remove ''bridge_port'' (self ''eport_bp'')),
      run (api_remove ''vlan'' (self ''vlan100'')),
      super_tearDown]"

definition wildcardEntryCbChannelLldp_setUp :: "'d stmt" where
  "wildcardEntryCbChannelLldp_setUp = block [
      run (invoke [] HostifTableMatchTestHelper_setUp)]"

definition wildcardEntryCbChannelLldp_runTest :: "'d stmt" where
  "wildcardEntryCbChannelLldp_runTest = block [
      assign ''hostif_port'' (self ''iport''),
      assign ''hostif_dev_port'' (self ''iport_dev''),
      assign ''hostif_name'' (str ''hostif''),
      assign ''lldp_mac'' (str ''01:80:c2:00:00:0e''),
      assign ''lldp_pkt'' (lib ''simple_eth_packet'' [] [(''eth_dst'', var ''lldp_mac''), (''pktlen'', num 100), (''eth_type'',
        num 35020)]),
      try_finally [
        assign ''hostif'' (api_create ''hostif'' [(''name'', var ''hostif_name''), (''obj_id'', var ''hostif_port''), (''type'',
          num SAI_HOSTIF_TYPE_NETDEV)]),
        assert_ne (var ''hostif'') (num 0),
        assign ''hif_socket'' (lib ''open_packet_socket'' [var ''hostif_name''] []),
        assign ''lldp_trap'' (api_create ''hostif_trap'' [(''packet_action'', num SAI_PACKET_ACTION_COPY), (''trap_type'', num
          SAI_HOSTIF_TRAP_TYPE_LLDP)]),
        assert_ne (var ''lldp_trap'') (num 0),
        assign ''hif_tbl_entry'' (api_create ''hostif_table_entry'' [(''channel_type'', num
          SAI_HOSTIF_TABLE_ENTRY_CHANNEL_TYPE_CB), (''type'', num SAI_HOSTIF_TABLE_ENTRY_TYPE_WILDCARD)]),
        assert_ne (var ''hif_tbl_entry'') (num 0),
        print [var ''hostif_dev_port''],
        run (lib ''send_packet'' [var ''hostif_dev_port'', var ''lldp_pkt''] []),
        run (lib ''verify_packet'' [var ''lldp_pkt'', self ''eport_dev''] []),
        sleep_for (num 4),
        assign ''post_stats'' (query ''sai_thrift_get_queue_stats'' [self ''cpu_queue0''] []),
        assert_eq (item (var ''post_stats'') (str ''SAI_QUEUE_STAT_PACKETS'')) (add (self ''cpu_queue_state'') (num 1)),
        set_self ''cpu_queue_state'' (item (var ''post_stats'') (str ''SAI_QUEUE_STAT_PACKETS'')),
        assert (lib ''socket_verify_packet'' [var ''lldp_pkt'', var ''hif_socket''] [])] [
        run (api_remove ''hostif_table_entry'' (var ''hif_tbl_entry'')),
        run (api_remove ''hostif_trap'' (var ''lldp_trap'')),
        run (api_remove ''hostif'' (var ''hostif''))]]"

definition wildcardEntryCbChannelLldp_tearDown :: "'d stmt" where
  "wildcardEntryCbChannelLldp_tearDown = block [
      run (invoke [] HostifTableMatchTestHelper_tearDown)]"

definition wildcardEntryCbChannelLacp_setUp :: "'d stmt" where
  "wildcardEntryCbChannelLacp_setUp = block [
      run (invoke [] HostifTableMatchTestHelper_setUp)]"

definition wildcardEntryCbChannelLacp_tearDown :: "'d stmt" where
  "wildcardEntryCbChannelLacp_tearDown = block [
      run (invoke [] HostifTableMatchTestHelper_tearDown)]"

definition wildcardEntryCbChannelStp_setUp :: "'d stmt" where
  "wildcardEntryCbChannelStp_setUp = block [
      run (invoke [] HostifTableMatchTestHelper_setUp)]"

definition wildcardEntryCbChannelStp_runTest :: "'d stmt" where
  "wildcardEntryCbChannelStp_runTest = block [
      assign ''vlan_ports'' (list_of [self ''iport'', self ''eport'']),
      assign ''vlan_dev_ports'' (list_of [self ''iport_dev'', self ''eport_dev'']),
      assign ''vlan_hostif_name'' (str ''vlan_hostif''),
      assign ''stp_mac'' (str ''01:80:C2:00:00:00''),
      assign ''stp_pkt'' (lib ''simple_eth_raw_packet_with_taglist'' [] [(''pktlen'', num 100), (''eth_dst'', var ''stp_mac'')]),
      assign ''stp_pkt'' (lib ''set_field'' [var ''stp_pkt'', str ''Ether'', str ''type'', num 35020] []),
      assign ''tag_stp_pkt'' (lib ''simple_eth_raw_packet_with_taglist'' [] [(''pktlen'', num 104), (''eth_dst'', var
        ''stp_mac''), (''dl_taglist_enable'', bool True), (''dl_vlanid_list'', list_of [self ''vid''])]),
      assign ''tag_stp_pkt'' (lib ''set_field'' [var ''tag_stp_pkt'', str ''Dot1Q'', str ''type'', num 35020] []),
      try_finally [
        assign ''vlan_hostif'' (api_create ''hostif'' [(''name'', var ''vlan_hostif_name''), (''obj_id'', self ''vlan100''),
          (''type'', num SAI_HOSTIF_TYPE_NETDEV)]),
        assert_ne (var ''vlan_hostif'') (num 0),
        assign ''vlan_hif_socket'' (lib ''open_packet_socket'' [var ''vlan_hostif_name''] []),
        assign ''stp_trap'' (api_create ''hostif_trap'' [(''packet_action'', num SAI_PACKET_ACTION_COPY), (''trap_type'', num
          SAI_HOSTIF_TRAP_TYPE_STP)]),
        assert_ne (var ''stp_trap'') (num 0),
        assign ''hif_tbl_entry'' (api_create ''hostif_table_entry'' [(''channel_type'', num
          SAI_HOSTIF_TABLE_ENTRY_CHANNEL_TYPE_CB), (''type'', num SAI_HOSTIF_TABLE_ENTRY_TYPE_WILDCARD)]),
        assert_ne (var ''hif_tbl_entry'') (num 0),
        run (api_remove ''vlan_member'' (self ''vlan100_member1'')),
        run (api_set ''port'' (item (var ''vlan_ports'') (num 1)) [(''port_vlan_id'', num 0)]),
        set_self ''vlan100_member1'' (api_create ''vlan_member'' [(''vlan_id'', self ''vlan100''), (''bridge_port_id'', self
          ''eport_bp''), (''vlan_tagging_mode'', num SAI_VLAN_TAGGING_MODE_TAGGED)]),
        run (api_set ''port'' (item (var ''vlan_ports'') (num 1)) [(''port_vlan_id'', self ''vid'')]),
        print [item (var ''vlan_dev_ports'') (num 0)],
        run (lib ''send_packet'' [item (var ''vlan_dev_ports'') (num 0), var ''stp_pkt''] []),
        run (lib ''verify_packet'' [var ''tag_stp_pkt'', item (var ''vlan_dev_ports'') (num 1)] []),
        assert (lib ''socket_verify_packet'' [var ''stp_pkt'', var ''vlan_hif_socket''] []),
        print [item (var ''vlan_dev_ports'') (num 1)],
        run (lib ''send_packet'' [item (var ''vlan_dev_ports'') (num 1), var ''tag_stp_pkt''] []),
        run (lib ''verify_packet'' [var ''stp_pkt'', item (var ''vlan_dev_ports'') (num 0)] []),
        assert (lib ''socket_verify_packet'' [var ''stp_pkt'', var ''vlan_hif_socket''] []),
        sleep_for (num 4),
        assign ''post_stats'' (query ''sai_thrift_get_queue_stats'' [self ''cpu_queue0''] []),
        assert_eq (item (var ''post_stats'') (str ''SAI_QUEUE_STAT_PACKETS'')) (add (self ''cpu_queue_state'') (num 2))] [
        run (api_remove ''vlan_member'' (self ''vlan100_member1'')),
        set_self ''vlan100_member1'' (api_create ''vlan_member'' [(''vlan_id'', self ''vlan100''), (''bridge_port_id'', self
          ''eport_bp''), (''vlan_tagging_mode'', num SAI_VLAN_TAGGING_MODE_UNTAGGED)]),
        run (api_set ''port'' (item (var ''vlan_ports'') (num 1)) [(''port_vlan_id'', self ''vid'')]),
        run (api_remove ''hostif_table_entry'' (var ''hif_tbl_entry'')),
        run (api_remove ''hostif_trap'' (var ''stp_trap'')),
        run (api_remove ''hostif'' (var ''vlan_hostif''))]]"

definition wildcardEntryCbChannelStp_tearDown :: "'d stmt" where
  "wildcardEntryCbChannelStp_tearDown = block [
      run (invoke [] HostifTableMatchTestHelper_tearDown)]"

definition HostifTrapTypesTestHelper_setUp :: "'d stmt" where
  "HostifTrapTypesTestHelper_setUp = block [
      super_setUp,
      assign ''vid'' (num 100),
      set_self ''iport'' (self ''port24''),
      set_self ''iport_dev'' (self ''dev_port24''),
      assign ''hostif_name'' (str ''hostif''),
      set_self ''hostif'' (api_create ''hostif'' [(''name'', var ''hostif_name''), (''obj_id'', self ''port24''), (''type'', num
        SAI_HOSTIF_TYPE_NETDEV)]),
      assert (ne (self ''hostif'') (num 0)),
      set_self ''hif_socket'' (lib ''open_packet_socket'' [var ''hostif_name''] []),
      assign ''hostif_name2'' (str ''hostif2''),
      set_self ''hostif2'' (api_create ''hostif'' [(''name'', var ''hostif_name2''), (''obj_id'', self ''port10''), (''type'',
        num SAI_HOSTIF_TYPE_NETDEV)]),
      assert (ne (self ''hostif2'') (num 0)),
      set_self ''hif_socket2'' (lib ''open_packet_socket'' [var ''hostif_name2''] []),
      set_self ''vlan100'' (api_create ''vlan'' [(''vlan_id'', var ''vid'')]),
      set_self ''vlan100_rif'' (api_create ''router_interface'' [(''type'', num SAI_ROUTER_INTERFACE_TYPE_VLAN),
        (''virtual_router_id'', self ''default_vrf''), (''vlan_id'', self ''vlan100'')]),
      assert (ne (self ''vlan100_rif'') (num 0)),
      set_self ''port24_bp'' (api_create ''bridge_port'' [(''bridge_id'', self ''default_1q_bridge''), (''port_id'', self
        ''port24''), (''type'', num SAI_BRIDGE_PORT_TYPE_PORT), (''admin_state'', bool True)]),
      set_self ''vlan100_member0'' (api_create ''vlan_member'' [(''vlan_id'', self ''vlan100''), (''bridge_port_id'', self
        ''port24_bp''), (''vlan_tagging_mode'', num SAI_VLAN_TAGGING_MODE_UNTAGGED)]),
      run (api_set ''port'' (self ''port24'') [(''port_vlan_id'', var ''vid'')]),
      set_self ''iport_ip'' (str ''10.10.10.1''),
      set_self ''iport_ipv6'' (str ''2001:0db8::1:1''),
      set_self ''iport_mac'' (str ''00:11:11:11:11:11''),
      set_self ''eport_ip'' (str ''20.20.20.1''),
      set_self ''eport_ipv6'' (str ''2001:0db8::2:2''),
      set_self ''eport_mac'' (str ''00:22:22:22:22:22''),
      set_self ''my_ip'' (str ''30.30.30.1''),
      set_self ''my_ipv6'' (str ''2001:0db8::3:3''),
      set_self ''iport_nexthop'' (api_create ''next_hop'' [(''ip'', ip_address (self ''iport_ip'')), (''router_interface_id'',
        self ''port10_rif''), (''type'', num SAI_NEXT_HOP_TYPE_IP)]),
      set_self ''iport_neighbor_entry'' (struct ''sai_thrift_neighbor_entry_t'' [(''rif_id'', self ''port10_rif''),
        (''ip_address'', ip_address (self ''iport_ip''))]),
      set_self ''iport_neighbor'' (api_create_entry ''neighbor_entry'' (self ''iport_neighbor_entry'') [(''dst_mac_address'',
        self ''iport_mac'')]),
      set_self ''iport_route'' (struct ''sai_thrift_route_entry_t'' [(''vr_id'', self ''default_vrf''), (''destination'',
        ip_prefix (add (self ''iport_ip'') (str ''/32'')))]),
      run (api_create_entry ''route_entry'' (self ''iport_route'') [(''next_hop_id'', self ''iport_nexthop'')]),
      set_self ''iport_v6_route'' (struct ''sai_thrift_route_entry_t'' [(''vr_id'', self ''default_vrf''), (''destination'',
        ip_prefix (add (self ''iport_ipv6'') (str ''/128'')))]),
      run (api_create_entry ''route_entry'' (self ''iport_v6_route'') [(''next_hop_id'', self ''iport_nexthop'')]),
      set_self ''eport_nexthop'' (api_create ''next_hop'' [(''ip'', ip_address (self ''eport_ip'')), (''router_interface_id'',
        self ''port11_rif''), (''type'', num SAI_NEXT_HOP_TYPE_IP)]),
      set_self ''eport_neighbor_entry'' (struct ''sai_thrift_neighbor_entry_t'' [(''rif_id'', self ''port11_rif''),
        (''ip_address'', ip_address (self ''eport_ip''))]),
      set_self ''eport_neighbor'' (api_create_entry ''neighbor_entry'' (self ''eport_neighbor_entry'') [(''dst_mac_address'',
        self ''eport_mac'')]),
      set_self ''eport_route'' (struct ''sai_thrift_route_entry_t'' [(''vr_id'', self ''default_vrf''), (''destination'',
        ip_prefix (add (self ''eport_ip'') (str ''/32'')))]),
      run (api_create_entry ''route_entry'' (self ''eport_route'') [(''next_hop_id'', self ''eport_nexthop'')]),
      set_self ''eport_v6_route'' (struct ''sai_thrift_route_entry_t'' [(''vr_id'', self ''default_vrf''), (''destination'',
        ip_prefix (add (self ''eport_ipv6'') (str ''/128'')))]),
      run (api_create_entry ''route_entry'' (self ''eport_v6_route'') [(''next_hop_id'', self ''eport_nexthop'')]),
      assign ''sw_attr'' (api_get ''switch'' none [(''cpu_port'', bool True)]),
      assign ''cpu_port'' (item (var ''sw_attr'') (str ''cpu_port'')),
      set_self ''ip2me_route'' (struct ''sai_thrift_route_entry_t'' [(''vr_id'', self ''default_vrf''), (''destination'',
        ip_prefix (add (self ''my_ip'') (str ''/32'')))]),
      run (api_create_entry ''route_entry'' (self ''ip2me_route'') [(''next_hop_id'', var ''cpu_port'')]),
      set_self ''ip2me_v6_route'' (struct ''sai_thrift_route_entry_t'' [(''vr_id'', self ''default_vrf''), (''destination'',
        ip_prefix (add (self ''my_ipv6'') (str ''/128'')))]),
      run (api_create_entry ''route_entry'' (self ''ip2me_v6_route'') [(''next_hop_id'', var ''cpu_port'')]),
      set_self ''cpu_queue_state'' (item (query ''sai_thrift_get_queue_stats'' [self ''cpu_queue0''] []) (str
        ''SAI_QUEUE_STAT_PACKETS''))]"

definition HostifTrapTypesTestHelper_tearDown :: "'d stmt" where
  "HostifTrapTypesTestHelper_tearDown = block [
      run (lib ''sai_thrift_flush_fdb_entries'' [] [(''entry_type'', num SAI_FDB_FLUSH_ENTRY_TYPE_ALL)]),
      run (api_remove ''route_entry'' (self ''ip2me_route'')),
      run (api_remove ''route_entry'' (self ''ip2me_v6_route'')),
      run (api_remove ''route_entry'' (self ''eport_route'')),
      run (api_remove ''route_entry'' (self ''eport_v6_route'')),
      run (api_remove ''next_hop'' (self ''eport_nexthop'')),
      run (api_remove ''neighbor_entry'' (self ''eport_neighbor_entry'')),
      run (api_remove ''route_entry'' (self ''iport_route'')),
      run (api_remove ''route_entry'' (self ''iport_v6_route'')),
      run (api_remove ''next_hop'' (self ''iport_nexthop'')),
      run (api_remove ''neighbor_entry'' (self ''iport_neighbor_entry'')),
      run (api_remove ''vlan_member'' (self ''vlan100_member0'')),
      run (api_set ''port'' (self ''port24'') [(''port_vlan_id'', num 0)]),
      run (api_remove ''bridge_port'' (self ''port24_bp'')),
      run (api_remove ''router_interface'' (self ''vlan100_rif'')),
      run (api_remove ''vlan'' (self ''vlan100'')),
      run (api_remove ''hostif'' (self ''hostif'')),
      run (api_remove ''hostif'' (self ''hostif2'')),
      super_tearDown]"

definition arpTrapTest_setUp :: "'d stmt" where
  "arpTrapTest_setUp = block [
      run (invoke [] HostifTrapTypesTestHelper_setUp)]"

definition arpTrapTest_runTest :: "'d stmt" where
  "arpTrapTest_runTest = block [
      try_finally [
        assign ''arp_req_trap'' (api_create ''hostif_trap'' [(''packet_action'', num SAI_PACKET_ACTION_TRAP), (''trap_type'',
          num SAI_HOSTIF_TRAP_TYPE_ARP_REQUEST)]),
        assert_ne (var ''arp_req_trap'') (num 0),
        assign ''arp_resp_trap'' (api_create ''hostif_trap'' [(''packet_action'', num SAI_PACKET_ACTION_TRAP), (''trap_type'',
          num SAI_HOSTIF_TRAP_TYPE_ARP_RESPONSE)]),
        assert_ne (var ''arp_resp_trap'') (num 0),
        assign ''arp_pkt'' (lib ''simple_arp_packet'' [] [(''arp_op'', num 1), (''pktlen'', num 100)]),
        run (lib ''send_packet'' [self ''dev_port24'', var ''arp_pkt''] []),
        assert (lib ''socket_verify_packet'' [var ''arp_pkt'', self ''hif_socket''] []),
        run (lib ''dataplane.flush'' [] []),
        assign ''arp_pkt'' (lib ''simple_arp_packet'' [] [(''arp_op'', num 1), (''eth_dst'', str ROUTER_MAC), (''pktlen'', num
          100)]),
        run (lib ''send_packet'' [self ''dev_port24'', var ''arp_pkt''] []),
        assert (lib ''socket_verify_packet'' [var ''arp_pkt'', self ''hif_socket''] []),
        assign ''arp_pkt'' (lib ''simple_arp_packet'' [] [(''arp_op'', num 1), (''eth_dst'', str ''00:AA:BB:CC:DD:EE''),
          (''pktlen'', num 100)]),
        run (lib ''send_packet'' [self ''dev_port24'', var ''arp_pkt''] []),
        run (lib ''verify_no_other_packets'' [] []),
        assert (no (lib ''socket_verify_packet'' [var ''arp_pkt'', self ''hif_socket''] [])),
        assign ''arp_pkt'' (lib ''simple_arp_packet'' [] [(''arp_op'', num 2), (''pktlen'', num 100)]),
        run (lib ''send_packet'' [self ''dev_port24'', var ''arp_pkt''] []),
        assert (lib ''socket_verify_packet'' [var ''arp_pkt'', self ''hif_socket''] []),
        assign ''arp_pkt'' (lib ''simple_arp_packet'' [] [(''arp_op'', num 2), (''eth_dst'', str ROUTER_MAC), (''pktlen'', num
          100)]),
        run (lib ''send_packet'' [self ''dev_port24'', var ''arp_pkt''] []),
        assert (lib ''socket_verify_packet'' [var ''arp_pkt'', self ''hif_socket''] []),
        assign ''arp_pkt'' (lib ''simple_arp_packet'' [] [(''arp_op'', num 2), (''eth_dst'', str ''00:AA:BB:CC:DD:EE''),
          (''pktlen'', num 100)]),
        run (lib ''send_packet'' [self ''dev_port24'', var ''arp_pkt''] []),
        run (lib ''verify_no_other_packets'' [] []),
        assert (no (lib ''socket_verify_packet'' [var ''arp_pkt'', self ''hif_socket''] [])),
        sleep_for (num 4),
        assign ''post_stats'' (query ''sai_thrift_get_queue_stats'' [self ''cpu_queue0''] []),
        assert_eq (item (var ''post_stats'') (str ''SAI_QUEUE_STAT_PACKETS'')) (add (self ''cpu_queue_state'') (num 4)),
        set_self ''cpu_queue_state'' (item (var ''post_stats'') (str ''SAI_QUEUE_STAT_PACKETS''))] [
        run (api_remove ''hostif_trap'' (var ''arp_req_trap'')),
        run (api_remove ''hostif_trap'' (var ''arp_resp_trap''))]]"

definition arpTrapTest_tearDown :: "'d stmt" where
  "arpTrapTest_tearDown = block [
      run (invoke [] HostifTrapTypesTestHelper_tearDown)]"

definition ttlErrorTrapTest_setUp :: "'d stmt" where
  "ttlErrorTrapTest_setUp = block [
      run (invoke [] HostifTrapTypesTestHelper_setUp)]"

definition ttlErrorTrapTest_runTest :: "'d stmt" where
  "ttlErrorTrapTest_runTest = block [
      try_finally [
        assign ''ttl_trap'' (api_create ''hostif_trap'' [(''packet_action'', num SAI_PACKET_ACTION_DROP), (''trap_type'', num
          SAI_HOSTIF_TRAP_TYPE_TTL_ERROR)]),
        assert_ne (var ''ttl_trap'') (num 0),
        assign ''pkt'' (lib ''simple_udp_packet'' [] [(''eth_dst'', str ROUTER_MAC), (''ip_dst'', self ''eport_ip''),
          (''ip_ttl'', num 64)]),
        assign ''exp_pkt'' (lib ''simple_udp_packet'' [] [(''eth_src'', str ROUTER_MAC), (''eth_dst'', self ''eport_mac''),
          (''ip_dst'', self ''eport_ip''), (''ip_ttl'', num 63)]),
        run (lib ''send_packet'' [self ''dev_port10'', var ''pkt''] []),
        run (lib ''verify_packets'' [var ''exp_pkt'', list_of [self ''dev_port11'']] []),
        assign ''pkt'' (lib ''simple_udp_packet'' [] [(''eth_dst'', str ROUTER_MAC), (''ip_dst'', self ''eport_ip''),
          (''ip_ttl'', num 0)]),
        run (lib ''send_packet'' [self ''dev_port10'', var ''pkt''] []),
        run (lib ''verify_no_other_packets'' [] []),
        assign ''pkt'' (lib ''simple_udp_packet'' [] [(''eth_dst'', str ROUTER_MAC), (''ip_dst'', self ''eport_ip''),
          (''ip_ttl'', num 1)]),
        run (lib ''send_packet'' [self ''dev_port10'', var ''pkt''] []),
        run (lib ''verify_no_other_packets'' [] [])] [
        run (api_remove ''hostif_trap'' (var ''ttl_trap''))]]"

definition ttlErrorTrapTest_tearDown :: "'d stmt" where
  "ttlErrorTrapTest_tearDown = block [
      run (invoke [] HostifTrapTypesTestHelper_tearDown)]"

definition bgpTrapTest_setUp :: "'d stmt" where
  "bgpTrapTest_setUp = block [
      run (invoke [] HostifTrapTypesTestHelper_setUp)]"

definition bgpTrapTest_runTest :: "'d stmt" where
  "bgpTrapTest_runTest = block [
      assign ''bgp_port'' (num 179),
      try_finally [
        assign ''bgp_trap'' (api_create ''hostif_trap'' [(''packet_action'', num SAI_PACKET_ACTION_TRAP), (''trap_type'', num
          SAI_HOSTIF_TRAP_TYPE_BGP)]),
        assert_ne (var ''bgp_trap'') (num 0),
        assign ''bgpv6_trap'' (api_create ''hostif_trap'' [(''packet_action'', num SAI_PACKET_ACTION_TRAP), (''trap_type'', num
          SAI_HOSTIF_TRAP_TYPE_BGPV6)]),
        assert_ne (var ''bgpv6_trap'') (num 0),
        assign ''bgp_pkt'' (lib ''simple_tcp_packet'' [] [(''eth_dst'', str ROUTER_MAC), (''ip_dst'', self ''my_ip''),
          (''tcp_dport'', var ''bgp_port'')]),
        print [var ''bgp_port''],
        run (lib ''send_packet'' [self ''dev_port10'', var ''bgp_pkt''] []),
        assert (lib ''socket_verify_packet'' [var ''bgp_pkt'', self ''hif_socket2''] []),
        assign ''bgpv6_pkt'' (lib ''simple_tcpv6_packet'' [] [(''eth_dst'', str ROUTER_MAC), (''ipv6_dst'', self ''my_ipv6''),
          (''tcp_dport'', var ''bgp_port'')]),
        print [var ''bgp_port''],
        run (lib ''send_packet'' [self ''dev_port10'', var ''bgpv6_pkt''] []),
        assert (lib ''socket_verify_packet'' [var ''bgpv6_pkt'', self ''hif_socket2''] []),
        assign ''bgp_pkt'' (lib ''simple_tcp_packet'' [] [(''eth_dst'', str ROUTER_MAC), (''ip_dst'', self ''my_ip''),
          (''tcp_sport'', var ''bgp_port'')]),
        print [var ''bgp_port''],
        run (lib ''send_packet'' [self ''dev_port10'', var ''bgp_pkt''] []),
        assert (lib ''socket_verify_packet'' [var ''bgp_pkt'', self ''hif_socket2''] []),
        assign ''bgpv6_pkt'' (lib ''simple_tcpv6_packet'' [] [(''eth_dst'', str ROUTER_MAC), (''ipv6_dst'', self ''my_ipv6''),
          (''tcp_sport'', var ''bgp_port'')]),
        print [var ''bgp_port''],
        run (lib ''send_packet'' [self ''dev_port10'', var ''bgpv6_pkt''] []),
        assert (lib ''socket_verify_packet'' [var ''bgpv6_pkt'', self ''hif_socket2''] []),
        sleep_for (num 4),
        assign ''post_stats'' (query ''sai_thrift_get_queue_stats'' [self ''cpu_queue0''] []),
        assert_eq (item (var ''post_stats'') (str ''SAI_QUEUE_STAT_PACKETS'')) (add (self ''cpu_queue_state'') (num 4)),
        set_self ''cpu_queue_state'' (item (var ''post_stats'') (str ''SAI_QUEUE_STAT_PACKETS''))] [
        run (api_remove ''hostif_trap'' (var ''bgp_trap'')),
        run (api_remove ''hostif_trap'' (var ''bgpv6_trap''))]]"

definition bgpTrapTest_tearDown :: "'d stmt" where
  "bgpTrapTest_tearDown = block [
      run (invoke [] HostifTrapTypesTestHelper_tearDown)]"

definition dhcpTrapTest_setUp :: "'d stmt" where
  "dhcpTrapTest_setUp = block [
      run (invoke [] HostifTrapTypesTestHelper_setUp)]"

definition dhcpTrapTest_runTest :: "'d stmt" where
  "dhcpTrapTest_runTest = block [
      assign ''dhcp_sport'' (num 67),
      assign ''dhcp_cport'' (num 68),
      assign ''bcast_ip'' (str ''255.255.255.255''),
      assign ''bcast_mac'' (str ''ff:ff:ff:ff:ff:ff''),
      try_finally [
        assign ''dhcp_trap'' (api_create ''hostif_trap'' [(''packet_action'', num SAI_PACKET_ACTION_TRAP), (''trap_type'', num
          SAI_HOSTIF_TRAP_TYPE_DHCP)]),
        assert_ne (var ''dhcp_trap'') (num 0),
        assign ''dhcp_pkt'' (lib ''simple_udp_packet'' [] [(''eth_dst'', var ''bcast_mac''), (''ip_dst'', var ''bcast_ip''),
          (''udp_sport'', var ''dhcp_sport''), (''udp_dport'', var ''dhcp_cport'')]),
        run (lib ''send_packet'' [self ''dev_port10'', var ''dhcp_pkt''] []),
        assert (lib ''socket_verify_packet'' [var ''dhcp_pkt'', self ''hif_socket2''] []),
        assign ''dhcp_pkt'' (lib ''simple_udp_packet'' [] [(''eth_dst'', str ROUTER_MAC), (''ip_dst'', self ''my_ip''),
          (''udp_sport'', var ''dhcp_cport''), (''udp_dport'', var ''dhcp_sport'')]),
        run (lib ''send_packet'' [self ''dev_port10'', var ''dhcp_pkt''] []),
        assert (lib ''socket_verify_packet'' [var ''dhcp_pkt'', self ''hif_socket2''] []),
        sleep_for (num 4),
        assign ''post_stats'' (query ''sai_thrift_get_queue_stats'' [self ''cpu_queue0''] []),
        assert_eq (item (var ''post_stats'') (str ''SAI_QUEUE_STAT_PACKETS'')) (add (self ''cpu_queue_state'') (num 2)),
        set_self ''cpu_queue_state'' (item (var ''post_stats'') (str ''SAI_QUEUE_STAT_PACKETS''))] [
        run (api_remove ''hostif_trap'' (var ''dhcp_trap''))]]"

definition dhcpTrapTest_tearDown :: "'d stmt" where
  "dhcpTrapTest_tearDown = block [
      run (invoke [] HostifTrapTypesTestHelper_tearDown)]"

definition ip2meTrapTest_setUp :: "'d stmt" where
  "ip2meTrapTest_setUp = block [
      run (invoke [] HostifTrapTypesTestHelper_setUp)]"

definition ip2meTrapTest_runTest :: "'d stmt" where
  "ip2meTrapTest_runTest = block [
      try_finally [
        assign ''myip_trap'' (api_create ''hostif_trap'' [(''packet_action'', num SAI_PACKET_ACTION_TRAP), (''trap_type'', num
          SAI_HOSTIF_TRAP_TYPE_IP2ME)]),
        assert_ne (var ''myip_trap'') (num 0),
        assign ''pkt'' (lib ''simple_udp_packet'' [] [(''eth_dst'', str ROUTER_MAC), (''ip_dst'', self ''my_ip'')]),
        run (lib ''send_packet'' [self ''dev_port24'', var ''pkt''] []),
        assert (lib ''socket_verify_packet'' [var ''pkt'', self ''hif_socket''] []),
        run (lib ''send_packet'' [self ''dev_port10'', var ''pkt''] []),
        assert (lib ''socket_verify_packet'' [var ''pkt'', self ''hif_socket2''] []),
        sleep_for (num 4),
        assign ''post_stats'' (query ''sai_thrift_get_queue_stats'' [self ''cpu_queue0''] []),
        assert_eq (item (var ''post_stats'') (str ''SAI_QUEUE_STAT_PACKETS'')) (add (self ''cpu_queue_state'') (num 2)),
        set_self ''cpu_queue_state'' (item (var ''post_stats'') (str ''SAI_QUEUE_STAT_PACKETS''))] [
        run (api_remove ''hostif_trap'' (var ''myip_trap''))]]"

definition ip2meTrapTest_tearDown :: "'d stmt" where
  "ip2meTrapTest_tearDown = block [
      run (invoke [] HostifTrapTypesTestHelper_tearDown)]"

definition lacpTrapTest_setUp :: "'d stmt" where
  "lacpTrapTest_setUp = block [
      run (invoke [] HostifTrapTypesTestHelper_setUp)]"

definition lacpTrapTest_runTest :: "'d stmt" where
  "lacpTrapTest_runTest = block [
      assign ''lacp_mac'' (str ''01:80:C2:00:00:02''),
      try_finally [
        assign ''lacp_trap'' (api_create ''hostif_trap'' [(''packet_action'', num SAI_PACKET_ACTION_TRAP), (''trap_type'', num
          SAI_HOSTIF_TRAP_TYPE_LACP)]),
        assert_ne (var ''lacp_trap'') (num 0),
        assign ''lacp_pkt'' (lib ''simple_eth_packet'' [] [(''eth_dst'', var ''lacp_mac''), (''pktlen'', num 100)]),
        run (lib ''send_packet'' [self ''dev_port24'', var ''lacp_pkt''] []),
        assert (lib ''socket_verify_packet'' [var ''lacp_pkt'', self ''hif_socket''] []),
        run (lib ''send_packet'' [self ''dev_port10'', var ''lacp_pkt''] []),
        assert (lib ''socket_verify_packet'' [var ''lacp_pkt'', self ''hif_socket2''] []),
        sleep_for (num 4),
        assign ''post_stats'' (query ''sai_thrift_get_queue_stats'' [self ''cpu_queue0''] []),
        assert_eq (item (var ''post_stats'') (str ''SAI_QUEUE_STAT_PACKETS'')) (add (self ''cpu_queue_state'') (num 2)),
        set_self ''cpu_queue_state'' (item (var ''post_stats'') (str ''SAI_QUEUE_STAT_PACKETS''))] [
        run (api_remove ''hostif_trap'' (var ''lacp_trap''))]]"

definition lacpTrapTest_tearDown :: "'d stmt" where
  "lacpTrapTest_tearDown = block [
      run (invoke [] HostifTrapTypesTestHelper_tearDown)]"

definition lldpTrapTest_setUp :: "'d stmt" where
  "lldpTrapTest_setUp = block [
      run (invoke [] HostifTrapTypesTestHelper_setUp)]"

definition lldpTrapTest_runTest :: "'d stmt" where
  "lldpTrapTest_runTest = block [
      assign ''lldp_mac1'' (str ''01:80:C2:00:00:0e''),
      assign ''lldp_mac2'' (str ''01:80:C2:00:00:03''),
      try_finally [
        assign ''lldp_trap'' (api_create ''hostif_trap'' [(''packet_action'', num SAI_PACKET_ACTION_TRAP), (''trap_type'', num
          SAI_HOSTIF_TRAP_TYPE_LLDP)]),
        assert_ne (var ''lldp_trap'') (num 0),
        assign ''lldp_pkt'' (lib ''simple_eth_packet'' [] [(''eth_dst'', var ''lldp_mac1''), (''pktlen'', num 100),
          (''eth_type'', num 35020)]),
        print [var ''lldp_mac1''],
        run (lib ''send_packet'' [self ''dev_port24'', var ''lldp_pkt''] []),
        assert (lib ''socket_verify_packet'' [var ''lldp_pkt'', self ''hif_socket''] []),
        run (lib ''send_packet'' [self ''dev_port10'', var ''lldp_pkt''] []),
        assert (lib ''socket_verify_packet'' [var ''lldp_pkt'', self ''hif_socket2''] []),
        assign ''lldp_pkt'' (lib ''simple_eth_packet'' [] [(''eth_dst'', var ''lldp_mac2''), (''pktlen'', num 100),
          (''eth_type'', num 35020)]),
        print [var ''lldp_mac2''],
        run (lib ''send_packet'' [self ''dev_port24'', var ''lldp_pkt''] []),
        assert (lib ''socket_verify_packet'' [var ''lldp_pkt'', self ''hif_socket''] []),
        run (lib ''send_packet'' [self ''dev_port10'', var ''lldp_pkt''] []),
        assert (lib ''socket_verify_packet'' [var ''lldp_pkt'', self ''hif_socket2''] []),
        sleep_for (num 4),
        assign ''post_stats'' (query ''sai_thrift_get_queue_stats'' [self ''cpu_queue0''] []),
        assert_eq (item (var ''post_stats'') (str ''SAI_QUEUE_STAT_PACKETS'')) (add (self ''cpu_queue_state'') (num 4)),
        set_self ''cpu_queue_state'' (item (var ''post_stats'') (str ''SAI_QUEUE_STAT_PACKETS''))] [
        run (api_remove ''hostif_trap'' (var ''lldp_trap''))]]"

definition lldpTrapTest_tearDown :: "'d stmt" where
  "lldpTrapTest_tearDown = block [
      run (invoke [] HostifTrapTypesTestHelper_tearDown)]"

definition ospfTrapTest_setUp :: "'d stmt" where
  "ospfTrapTest_setUp = block [
      run (invoke [] HostifTrapTypesTestHelper_setUp)]"

definition ospfTrapTest_runTest :: "'d stmt" where
  "ospfTrapTest_runTest = block [
      assign ''ospf_hello_ip'' (str ''224.0.0.5''),
      assign ''ospf_dr_ip'' (str ''224.0.0.6''),
      assign ''proto'' (num 89),
      try_finally [
        assign ''ospf_trap'' (api_create ''hostif_trap'' [(''packet_action'', num SAI_PACKET_ACTION_COPY), (''trap_type'', num
          SAI_HOSTIF_TRAP_TYPE_OSPF)]),
        assert_ne (var ''ospf_trap'') (num 0),
        assign ''ospf_pkt'' (lib ''simple_ip_packet'' [] [(''ip_dst'', var ''ospf_hello_ip''), (''ip_proto'', var ''proto'')]),
        print [var ''ospf_hello_ip''],
        run (lib ''send_packet'' [self ''dev_port24'', var ''ospf_pkt''] []),
        assert (lib ''socket_verify_packet'' [var ''ospf_pkt'', self ''hif_socket''] []),
        run (lib ''send_packet'' [self ''dev_port10'', var ''ospf_pkt''] []),
        assert (lib ''socket_verify_packet'' [var ''ospf_pkt'', self ''hif_socket2''] []),
        assign ''ospf_pkt'' (lib ''simple_ip_packet'' [] [(''ip_dst'', var ''ospf_dr_ip''), (''ip_proto'', var ''proto'')]),
        print [var ''ospf_dr_ip''],
        run (lib ''send_packet'' [self ''dev_port24'', var ''ospf_pkt''] []),
        assert (lib ''socket_verify_packet'' [var ''ospf_pkt'', self ''hif_socket''] []),
        run (lib ''send_packet'' [self ''dev_port10'', var ''ospf_pkt''] []),
        assert (lib ''socket_verify_packet'' [var ''ospf_pkt'', self ''hif_socket2''] []),
        sleep_for (num 4),
        assign ''post_stats'' (query ''sai_thrift_get_queue_stats'' [self ''cpu_queue0''] []),
        assert_eq (item (var ''post_stats'') (str ''SAI_QUEUE_STAT_PACKETS'')) (add (self ''cpu_queue_state'') (num 4)),
        set_self ''cpu_queue_state'' (item (var ''post_stats'') (str ''SAI_QUEUE_STAT_PACKETS''))] [
        run (api_remove ''hostif_trap'' (var ''ospf_trap''))]]"

definition ospfTrapTest_tearDown :: "'d stmt" where
  "ospfTrapTest_tearDown = block [
      run (invoke [] HostifTrapTypesTestHelper_tearDown)]"

definition igmpTrapTest_setUp :: "'d stmt" where
  "igmpTrapTest_setUp = block [
      run (invoke [] HostifTrapTypesTestHelper_setUp)]"

definition igmpTrapTest_runTest :: "'d stmt" where
  "igmpTrapTest_runTest = block [
      assign ''trap_info_list'' (list_of [list_of [num SAI_HOSTIF_TRAP_TYPE_IGMP_TYPE_QUERY, num 17, str ''Query''], list_of
        [num SAI_HOSTIF_TRAP_TYPE_IGMP_TYPE_LEAVE, num 23, str ''Leave''], list_of [num
        SAI_HOSTIF_TRAP_TYPE_IGMP_TYPE_V1_REPORT, num 18, str ''V1 Report''], list_of [num
        SAI_HOSTIF_TRAP_TYPE_IGMP_TYPE_V2_REPORT, num 22, str ''V2 Report''], list_of [num
        SAI_HOSTIF_TRAP_TYPE_IGMP_TYPE_V3_REPORT, num 34, str ''V3 Report'']]),
      try_finally [
        assign ''status'' (api_set ''vlan'' (self ''vlan100'') [(''custom_igmp_snooping_enable'', bool True)]),
        assert_eq (var ''status'') (num SAI_STATUS_SUCCESS),
        for_in [''trap_info''] (var ''trap_info_list'') [
          try_finally [
            assign ''igmp_trap'' (api_create ''hostif_trap'' [(''packet_action'', num SAI_PACKET_ACTION_TRAP), (''trap_type'',
              item (var ''trap_info'') (num 0))]),
            assert_ne (var ''igmp_trap'') (num 0),
            assign ''igmp_pkt'' (lib ''simple_igmp_packet'' [] [(''igmp_type'', item (var ''trap_info'') (num 1))]),
            print [item (var ''trap_info'') (num 2)],
            run (lib ''send_packet'' [self ''dev_port24'', var ''igmp_pkt''] []),
            assert (lib ''socket_verify_packet'' [var ''igmp_pkt'', self ''hif_socket''] [])] [
            run (api_remove ''hostif_trap'' (var ''igmp_trap''))]],
        sleep_for (num 4),
        assign ''post_stats'' (query ''sai_thrift_get_queue_stats'' [self ''cpu_queue0''] []),
        assert_eq (item (var ''post_stats'') (str ''SAI_QUEUE_STAT_PACKETS'')) (add (self ''cpu_queue_state'') (length_of (var
          ''trap_info_list''))),
        set_self ''cpu_queue_state'' (item (var ''post_stats'') (str ''SAI_QUEUE_STAT_PACKETS''))] [
        run (api_set ''vlan'' (self ''vlan100'') [(''custom_igmp_snooping_enable'', bool False)])]]"

definition igmpTrapTest_tearDown :: "'d stmt" where
  "igmpTrapTest_tearDown = block [
      run (invoke [] HostifTrapTypesTestHelper_tearDown)]"

definition ipv6MldTrapTest_setUp :: "'d stmt" where
  "ipv6MldTrapTest_setUp = block [
      run (invoke [] HostifTrapTypesTestHelper_setUp)]"

definition ipv6MldTrapTest_runTest :: "'d stmt" where
  "ipv6MldTrapTest_runTest = block [
      try_finally [
        run (api_set ''vlan'' (self ''vlan100'') [(''custom_igmp_snooping_enable'', bool True)]),
        assign ''ipv6_mld_trap_v1_v2'' (api_create ''hostif_trap'' [(''packet_action'', num SAI_PACKET_ACTION_TRAP),
          (''trap_type'', num SAI_HOSTIF_TRAP_TYPE_IPV6_MLD_V1_V2)]),
        assert (ne (var ''ipv6_mld_trap_v1_v2'') (num 0)),
        assign ''ipv6_mld_trap_v1_report'' (api_create ''hostif_trap'' [(''packet_action'', num SAI_PACKET_ACTION_TRAP),
          (''trap_type'', num SAI_HOSTIF_TRAP_TYPE_IPV6_MLD_V1_REPORT)]),
        assert (ne (var ''ipv6_mld_trap_v1_report'') (num 0)),
        assign ''ipv6_mld_trap_v1_done'' (api_create ''hostif_trap'' [(''packet_action'', num SAI_PACKET_ACTION_TRAP),
          (''trap_type'', num SAI_HOSTIF_TRAP_TYPE_IPV6_MLD_V1_DONE)]),
        assert (ne (var ''ipv6_mld_trap_v1_done'') (num 0)),
        assign ''ipv6_mld_trap_v2_report'' (api_create ''hostif_trap'' [(''packet_action'', num SAI_PACKET_ACTION_TRAP),
          (''trap_type'', num SAI_HOSTIF_TRAP_TYPE_MLD_V2_REPORT)]),
        assert (ne (var ''ipv6_mld_trap_v2_report'') (num 0)),
        assign ''mld_type'' (num 130),
        assign ''ipv6_mld_v1v2_pkt'' (lib ''simple_icmpv6_packet'' [] [(''icmp_type'', var ''mld_type'')]),
        run (lib ''send_packet'' [self ''dev_port24'', var ''ipv6_mld_v1v2_pkt''] []),
        assert (lib ''socket_verify_packet'' [var ''ipv6_mld_v1v2_pkt'', self ''hif_socket''] []),
        assign ''mld_type'' (num 131),
        assign ''ipv6_mld_v1_report_pkt'' (lib ''simple_icmpv6_packet'' [] [(''icmp_type'', var ''mld_type'')]),
        run (lib ''send_packet'' [self ''dev_port24'', var ''ipv6_mld_v1_report_pkt''] []),
        assert (lib ''socket_verify_packet'' [var ''ipv6_mld_v1_report_pkt'', self ''hif_socket''] []),
        assign ''mld_type'' (num 132),
        assign ''ipv6_mld_v1_done_pkt'' (lib ''simple_icmpv6_packet'' [] [(''icmp_type'', var ''mld_type'')]),
        run (lib ''send_packet'' [self ''dev_port24'', var ''ipv6_mld_v1_done_pkt''] []),
        assert (lib ''socket_verify_packet'' [var ''ipv6_mld_v1_done_pkt'', self ''hif_socket''] []),
        assign ''mld_type'' (num 143),
        assign ''mld_v2_report_pkt'' (lib ''simple_icmpv6_packet'' [] [(''icmp_type'', var ''mld_type'')]),
        run (lib ''send_packet'' [self ''dev_port24'', var ''mld_v2_report_pkt''] []),
        assert (lib ''socket_verify_packet'' [var ''mld_v2_report_pkt'', self ''hif_socket''] []),
        sleep_for (num 4),
        assign ''post_stats'' (query ''sai_thrift_get_queue_stats'' [self ''cpu_queue0''] []),
        assert_eq (item (var ''post_stats'') (str ''SAI_QUEUE_STAT_PACKETS'')) (add (self ''cpu_queue_state'') (num 4)),
        set_self ''cpu_queue_state'' (item (var ''post_stats'') (str ''SAI_QUEUE_STAT_PACKETS''))] [
        run (api_set ''vlan'' (self ''vlan100'') [(''custom_igmp_snooping_enable'', bool False)]),
        run (api_remove ''hostif_trap'' (var ''ipv6_mld_trap_v1_v2'')),
        run (api_remove ''hostif_trap'' (var ''ipv6_mld_trap_v1_report'')),
        run (api_remove ''hostif_trap'' (var ''ipv6_mld_trap_v1_done'')),
        run (api_remove ''hostif_trap'' (var ''ipv6_mld_trap_v2_report''))]]"

definition ipv6MldTrapTest_tearDown :: "'d stmt" where
  "ipv6MldTrapTest_tearDown = block [
      run (invoke [] HostifTrapTypesTestHelper_tearDown)]"

definition stpTrapTest_setUp :: "'d stmt" where
  "stpTrapTest_setUp = block [
      run (invoke [] HostifTrapTypesTestHelper_setUp)]"

definition stpTrapTest_runTest :: "'d stmt" where
  "stpTrapTest_runTest = block [
      assign ''stp_mac'' (str ''01:80:C2:00:00:00''),
      try_finally [
        assign ''stp_trap'' (api_create ''hostif_trap'' [(''packet_action'', num SAI_PACKET_ACTION_TRAP), (''trap_type'', num
          SAI_HOSTIF_TRAP_TYPE_STP)]),
        assert_ne (var ''stp_trap'') (num 0),
        assign ''stp_pkt'' (lib ''simple_eth_packet'' [] [(''eth_dst'', var ''stp_mac''), (''pktlen'', num 100)]),
        run (lib ''send_packet'' [self ''dev_port24'', var ''stp_pkt''] []),
        assert (lib ''socket_verify_packet'' [var ''stp_pkt'', self ''hif_socket''] []),
        sleep_for (num 4),
        assign ''post_stats'' (query ''sai_thrift_get_queue_stats'' [self ''cpu_queue0''] []),
        assert_eq (item (var ''post_stats'') (str ''SAI_QUEUE_STAT_PACKETS'')) (add (self ''cpu_queue_state'') (num 1)),
        set_self ''cpu_queue_state'' (item (var ''post_stats'') (str ''SAI_QUEUE_STAT_PACKETS''))] [
        run (api_remove ''hostif_trap'' (var ''stp_trap''))]]"

definition stpTrapTest_tearDown :: "'d stmt" where
  "stpTrapTest_tearDown = block [
      run (invoke [] HostifTrapTypesTestHelper_tearDown)]"

definition pvrstTrapTest_setUp :: "'d stmt" where
  "pvrstTrapTest_setUp = block [
      run (invoke [] HostifTrapTypesTestHelper_setUp)]"

definition pvrstTrapTest_runTest :: "'d stmt" where
  "pvrstTrapTest_runTest = block [
      assign ''pvrst_mac'' (str ''01:00:0C:CC:CC:CD''),
      try_finally [
        assign ''pvrst_trap'' (api_create ''hostif_trap'' [(''packet_action'', num SAI_PACKET_ACTION_TRAP), (''trap_type'', num
          SAI_HOSTIF_TRAP_TYPE_PVRST)]),
        assert (ne (var ''pvrst_trap'') (num 0)),
        assign ''pvrst_pkt'' (lib ''simple_eth_packet'' [] [(''eth_dst'', var ''pvrst_mac''), (''pktlen'', num 100)]),
        run (lib ''send_packet'' [self ''dev_port24'', var ''pvrst_pkt''] []),
        assert (lib ''socket_verify_packet'' [var ''pvrst_pkt'', self ''hif_socket''] []),
        sleep_for (num 4),
        assign ''post_stats'' (query ''sai_thrift_get_queue_stats'' [self ''cpu_queue0''] []),
        assert_eq (item (var ''post_stats'') (str ''SAI_QUEUE_STAT_PACKETS'')) (add (self ''cpu_queue_state'') (num 1)),
        set_self ''cpu_queue_state'' (item (var ''post_stats'') (str ''SAI_QUEUE_STAT_PACKETS''))] [
        run (api_remove ''hostif_trap'' (var ''pvrst_trap''))]]"

definition pvrstTrapTest_tearDown :: "'d stmt" where
  "pvrstTrapTest_tearDown = block [
      run (invoke [] HostifTrapTypesTestHelper_tearDown)]"

definition pimTrapTest_setUp :: "'d stmt" where
  "pimTrapTest_setUp = block [
      run (invoke [] HostifTrapTypesTestHelper_setUp)]"

definition pimTrapTest_runTest :: "'d stmt" where
  "pimTrapTest_runTest = block [
      assign ''proto'' (num 103),
      try_finally [
        assign ''pim_trap'' (api_create ''hostif_trap'' [(''packet_action'', num SAI_PACKET_ACTION_TRAP), (''trap_type'', num
          SAI_HOSTIF_TRAP_TYPE_PIM)]),
        assert_ne (var ''pim_trap'') (num 0),
        assign ''pim_pkt'' (lib ''simple_ip_packet'' [] [(''ip_proto'', var ''proto'')]),
        run (lib ''send_packet'' [self ''dev_port24'', var ''pim_pkt''] []),
        assert (lib ''socket_verify_packet'' [var ''pim_pkt'', self ''hif_socket''] []),
        sleep_for (num 4),
        assign ''post_stats'' (query ''sai_thrift_get_queue_stats'' [self ''cpu_queue0''] []),
        assert_eq (item (var ''post_stats'') (str ''SAI_QUEUE_STAT_PACKETS'')) (add (self ''cpu_queue_state'') (num 1)),
        set_self ''cpu_queue_state'' (item (var ''post_stats'') (str ''SAI_QUEUE_STAT_PACKETS''))] [
        run (api_remove ''hostif_trap'' (var ''pim_trap''))]]"

definition pimTrapTest_tearDown :: "'d stmt" where
  "pimTrapTest_tearDown = block [
      run (invoke [] HostifTrapTypesTestHelper_tearDown)]"

definition udldTrapTest_setUp :: "'d stmt" where
  "udldTrapTest_setUp = block [
      run (invoke [] HostifTrapTypesTestHelper_setUp)]"

definition udldTrapTest_runTest :: "'d stmt" where
  "udldTrapTest_runTest = block [
      assign ''udld_mac'' (str ''01:00:0C:CC:CC:CC''),
      try_finally [
        assign ''udld_trap'' (api_create ''hostif_trap'' [(''packet_action'', num SAI_PACKET_ACTION_TRAP), (''trap_type'', num
          SAI_HOSTIF_TRAP_TYPE_UDLD)]),
        assert_ne (var ''udld_trap'') (num 0),
        assign ''udld_pkt'' (lib ''simple_eth_packet'' [] [(''eth_dst'', var ''udld_mac''), (''pktlen'', num 100)]),
        run (lib ''send_packet'' [self ''dev_port24'', var ''udld_pkt''] []),
        assert (lib ''socket_verify_packet'' [var ''udld_pkt'', self ''hif_socket''] []),
        sleep_for (num 4),
        assign ''post_stats'' (query ''sai_thrift_get_queue_stats'' [self ''cpu_queue0''] []),
        assert_eq (item (var ''post_stats'') (str ''SAI_QUEUE_STAT_PACKETS'')) (add (self ''cpu_queue_state'') (num 1)),
        set_self ''cpu_queue_state'' (item (var ''post_stats'') (str ''SAI_QUEUE_STAT_PACKETS''))] [
        run (api_remove ''hostif_trap'' (var ''udld_trap''))]]"

definition udldTrapTest_tearDown :: "'d stmt" where
  "udldTrapTest_tearDown = block [
      run (invoke [] HostifTrapTypesTestHelper_tearDown)]"

definition ipv6NDTrapTest_setUp :: "'d stmt" where
  "ipv6NDTrapTest_setUp = block [
      run (invoke [] HostifTrapTypesTestHelper_setUp)]"

definition ipv6NDTrapTest_runTest :: "'d stmt" where
  "ipv6NDTrapTest_runTest = block [
      try_finally [
        assign ''src_ipv6'' (str ''2001:0db8::1111''),
        assign ''dst_ipv6'' (str ''2001:0db8::2222''),
        assign ''icmpv6_trap'' (api_create ''hostif_trap'' [(''packet_action'', num SAI_PACKET_ACTION_TRAP), (''trap_type'', num
          SAI_HOSTIF_TRAP_TYPE_IPV6_NEIGHBOR_DISCOVERY)]),
        assert_ne (var ''icmpv6_trap'') (num 0),
        assign ''all_rt_ipv6'' (str ''ff02::2''),
        assign ''rs_type'' (num 133),
        assign ''icmpv6_pkt'' (lib ''simple_icmpv6_packet'' [] [(''ipv6_dst'', var ''all_rt_ipv6''), (''ipv6_src'', var
          ''src_ipv6''), (''icmp_type'', var ''rs_type'')]),
        run (lib ''send_packet'' [self ''dev_port24'', var ''icmpv6_pkt''] []),
        assert (lib ''socket_verify_packet'' [var ''icmpv6_pkt'', self ''hif_socket''] []),
        run (lib ''send_packet'' [self ''dev_port10'', var ''icmpv6_pkt''] []),
        assert (lib ''socket_verify_packet'' [var ''icmpv6_pkt'', self ''hif_socket2''] []),
        assign ''all_nodes_ipv6'' (str ''ff02::1''),
        assign ''ra_type'' (num 134),
        assign ''icmpv6_pkt'' (lib ''simple_icmpv6_packet'' [] [(''ipv6_dst'', var ''all_nodes_ipv6''), (''ipv6_src'', var
          ''src_ipv6''), (''icmp_type'', var ''ra_type'')]),
        run (lib ''send_packet'' [self ''dev_port24'', var ''icmpv6_pkt''] []),
        assert (lib ''socket_verify_packet'' [var ''icmpv6_pkt'', self ''hif_socket''] []),
        run (lib ''send_packet'' [self ''dev_port10'', var ''icmpv6_pkt''] []),
        assert (lib ''socket_verify_packet'' [var ''icmpv6_pkt'', self ''hif_socket2''] []),
        assign ''ns_ipv6'' (str ''ff02::1:ff11:777F''),
        assign ''ns_type'' (num 135),
        assign ''icmpv6_pkt'' (lib ''simple_icmpv6_packet'' [] [(''ipv6_dst'', var ''ns_ipv6''), (''ipv6_src'', var
          ''src_ipv6''), (''icmp_type'', var ''ns_type'')]),
        run (lib ''send_packet'' [self ''dev_port24'', var ''icmpv6_pkt''] []),
        assert (lib ''socket_verify_packet'' [var ''icmpv6_pkt'', self ''hif_socket''] []),
        run (lib ''send_packet'' [self ''dev_port10'', var ''icmpv6_pkt''] []),
        assert (lib ''socket_verify_packet'' [var ''icmpv6_pkt'', self ''hif_socket2''] []),
        assign ''na_type'' (num 136),
        assign ''icmpv6_pkt'' (lib ''simple_icmpv6_packet'' [] [(''ipv6_dst'', var ''dst_ipv6''), (''ipv6_src'', var
          ''src_ipv6''), (''icmp_type'', var ''na_type'')]),
        run (lib ''send_packet'' [self ''dev_port24'', var ''icmpv6_pkt''] []),
        assert (lib ''socket_verify_packet'' [var ''icmpv6_pkt'', self ''hif_socket''] []),
        run (lib ''send_packet'' [self ''dev_port10'', var ''icmpv6_pkt''] []),
        assert (lib ''socket_verify_packet'' [var ''icmpv6_pkt'', self ''hif_socket2''] []),
        assign ''red_type'' (num 137),
        assign ''icmpv6_pkt'' (lib ''simple_icmpv6_packet'' [] [(''ipv6_dst'', var ''dst_ipv6''), (''ipv6_src'', var
          ''src_ipv6''), (''icmp_type'', var ''red_type'')]),
        run (lib ''send_packet'' [self ''dev_port24'', var ''icmpv6_pkt''] []),
        assert (lib ''socket_verify_packet'' [var ''icmpv6_pkt'', self ''hif_socket''] []),
        run (lib ''send_packet'' [self ''dev_port10'', var ''icmpv6_pkt''] []),
        assert (lib ''socket_verify_packet'' [var ''icmpv6_pkt'', self ''hif_socket2''] []),
        sleep_for (num 4),
        assign ''post_stats'' (query ''sai_thrift_get_queue_stats'' [self ''cpu_queue0''] []),
        assert_eq (item (var ''post_stats'') (str ''SAI_QUEUE_STAT_PACKETS'')) (add (self ''cpu_queue_state'') (num 10)),
        set_self ''cpu_queue_state'' (item (var ''post_stats'') (str ''SAI_QUEUE_STAT_PACKETS''))] [
        run (api_remove ''hostif_trap'' (var ''icmpv6_trap''))]]"

definition ipv6NDTrapTest_tearDown :: "'d stmt" where
  "ipv6NDTrapTest_tearDown = block [
      run (invoke [] HostifTrapTypesTestHelper_tearDown)]"

definition bfdRxTrapTest_setUp :: "'d stmt" where
  "bfdRxTrapTest_setUp = block [
      run (invoke [] HostifTrapTypesTestHelper_setUp)]"

definition bfdRxTrapTest_runTest :: "'d stmt" where
  "bfdRxTrapTest_runTest = block [
      assign ''bfd_port'' (num 3784),
      try_finally [
        assign ''bfd_trap'' (api_create ''hostif_trap'' [(''packet_action'', num SAI_PACKET_ACTION_TRAP), (''trap_type'', num
          SAI_HOSTIF_TRAP_TYPE_BFD)]),
        assert_ne (var ''bfd_trap'') (num 0),
        assign ''bfd_pkt'' (lib ''simple_udp_packet'' [] [(''eth_dst'', str ROUTER_MAC), (''ip_dst'', self ''my_ip''),
          (''udp_dport'', var ''bfd_port'')]),
        run (lib ''send_packet'' [self ''dev_port24'', var ''bfd_pkt''] []),
        assert (lib ''socket_verify_packet'' [var ''bfd_pkt'', self ''hif_socket''] []),
        sleep_for (num 4),
        assign ''post_stats'' (query ''sai_thrift_get_queue_stats'' [self ''cpu_queue0''] []),
        assert_eq (item (var ''post_stats'') (str ''SAI_QUEUE_STAT_PACKETS'')) (add (self ''cpu_queue_state'') (num 1)),
        set_self ''cpu_queue_state'' (item (var ''post_stats'') (str ''SAI_QUEUE_STAT_PACKETS''))] [
        run (api_remove ''hostif_trap'' (var ''bfd_trap''))]]"

definition bfdRxTrapTest_tearDown :: "'d stmt" where
  "bfdRxTrapTest_tearDown = block [
      run (invoke [] HostifTrapTypesTestHelper_tearDown)]"

definition dhcpv6TrapTest_setUp :: "'d stmt" where
  "dhcpv6TrapTest_setUp = block [
      run (invoke [] HostifTrapTypesTestHelper_setUp)]"

definition dhcpv6TrapTest_runTest :: "'d stmt" where
  "dhcpv6TrapTest_runTest = block [
      assign ''dhcpv6_client_port'' (num 546),
      assign ''dhcpv6_srv_port'' (num 547),
      assign ''dhcpv6_pkt_params_list'' (list_of [list_of [str ''33:33:00:01:00:02'', str ''FF02::1:2'', var
        ''dhcpv6_client_port'', var ''dhcpv6_srv_port'', str ''all servers and relay agents''], list_of [str
        ''33:33:00:01:00:05'', str ''FF05::1:3'', var ''dhcpv6_client_port'', var ''dhcpv6_srv_port'', str ''all servers''],
        list_of [str ROUTER_MAC, self ''my_ipv6'', var ''dhcpv6_client_port'', var ''dhcpv6_srv_port'', str
        ''ip-to-me server''], list_of [str ROUTER_MAC, self ''my_ipv6'', var ''dhcpv6_srv_port'', var ''dhcpv6_client_port'',
        str ''ip-to-me client'']]),
      try_finally [
        assign ''dhcpv6_trap'' (api_create ''hostif_trap'' [(''packet_action'', num SAI_PACKET_ACTION_TRAP), (''trap_type'', num
          SAI_HOSTIF_TRAP_TYPE_DHCPV6)]),
        assert_ne (var ''dhcpv6_trap'') (num 0),
        for_in [''dhcpv6_pkt_params''] (var ''dhcpv6_pkt_params_list'') [
          assign ''dhcpv6_pkt'' (lib ''simple_udpv6_packet'' [] [(''eth_dst'', item (var ''dhcpv6_pkt_params'') (num 0)),
            (''ipv6_dst'', item (var ''dhcpv6_pkt_params'') (num 1)), (''udp_sport'', item (var ''dhcpv6_pkt_params'') (num 2)),
            (''udp_dport'', item (var ''dhcpv6_pkt_params'') (num 3))]),
          print [item (var ''dhcpv6_pkt_params'') (num 4)],
          run (lib ''send_packet'' [self ''dev_port24'', var ''dhcpv6_pkt''] []),
          assert (lib ''socket_verify_packet'' [var ''dhcpv6_pkt'', self ''hif_socket''] [])],
        sleep_for (num 4),
        assign ''post_stats'' (query ''sai_thrift_get_queue_stats'' [self ''cpu_queue0''] []),
        assert_eq (item (var ''post_stats'') (str ''SAI_QUEUE_STAT_PACKETS'')) (add (self ''cpu_queue_state'') (length_of (var
          ''dhcpv6_pkt_params_list''))),
        set_self ''cpu_queue_state'' (item (var ''post_stats'') (str ''SAI_QUEUE_STAT_PACKETS''))] [
        run (api_remove ''hostif_trap'' (var ''dhcpv6_trap''))]]"

definition dhcpv6TrapTest_tearDown :: "'d stmt" where
  "dhcpv6TrapTest_tearDown = block [
      run (invoke [] HostifTrapTypesTestHelper_tearDown)]"

definition ptpTrapTest_setUp :: "'d stmt" where
  "ptpTrapTest_setUp = block [
      run (invoke [] HostifTrapTypesTestHelper_setUp)]"

definition ptpTrapTest_runTest :: "'d stmt" where
  "ptpTrapTest_runTest = block [
      assign ''ptp_port1'' (num 319),
      assign ''ptp_port2'' (num 320),
      try_finally [
        assign ''ptp_trap'' (api_create ''hostif_trap'' [(''packet_action'', num SAI_PACKET_ACTION_TRAP), (''trap_type'', num
          SAI_HOSTIF_TRAP_TYPE_PTP)]),
        assert_ne (var ''ptp_trap'') (num 0),
        assign ''ptp_pkt'' (lib ''simple_udp_packet'' [] [(''eth_dst'', str ROUTER_MAC), (''ip_dst'', self ''iport_ip''),
          (''udp_dport'', var ''ptp_port1'')]),
        print [var ''ptp_port1''],
        run (lib ''send_packet'' [self ''dev_port24'', var ''ptp_pkt''] []),
        assert (lib ''socket_verify_packet'' [var ''ptp_pkt'', self ''hif_socket''] []),
        assign ''ptp_pkt'' (lib ''simple_udp_packet'' [] [(''eth_dst'', str ROUTER_MAC), (''ip_dst'', self ''iport_ip''),
          (''udp_dport'', var ''ptp_port2'')]),
        print [var ''ptp_port2''],
        run (lib ''send_packet'' [self ''dev_port24'', var ''ptp_pkt''] []),
        assert (lib ''socket_verify_packet'' [var ''ptp_pkt'', self ''hif_socket''] []),
        sleep_for (num 4),
        assign ''post_stats'' (query ''sai_thrift_get_queue_stats'' [self ''cpu_queue0''] []),
        assert_eq (item (var ''post_stats'') (str ''SAI_QUEUE_STAT_PACKETS'')) (add (self ''cpu_queue_state'') (num 2)),
        set_self ''cpu_queue_state'' (item (var ''post_stats'') (str ''SAI_QUEUE_STAT_PACKETS''))] [
        run (api_remove ''hostif_trap'' (var ''ptp_trap''))]]"

definition ptpTrapTest_tearDown :: "'d stmt" where
  "ptpTrapTest_tearDown = block [
      run (invoke [] HostifTrapTypesTestHelper_tearDown)]"

definition isisTrapTest_setUp :: "'d stmt" where
  "isisTrapTest_setUp = block [
      run (invoke [] HostifTrapTypesTestHelper_setUp)]"

definition isisTrapTest_runTest :: "'d stmt" where
  "isisTrapTest_runTest = block [
      try_finally [
        assign ''isis_trap'' (api_create ''hostif_trap'' [(''packet_action'', num SAI_PACKET_ACTION_TRAP), (''trap_type'', num
          SAI_HOSTIF_TRAP_TYPE_ISIS)]),
        assert (ne (var ''isis_trap'') (num 0)),
        assign ''isis_mac'' (list_of [str ''01:80:c2:00:00:14'', str ''01:80:c2:00:00:15'', str ''09:00:2b:00:00:05'']),
        for_in [''mac''] (var ''isis_mac'') [
          assign ''isis_pkt'' (lib ''simple_eth_packet'' [] [(''eth_dst'', var ''mac''), (''pktlen'', num 100)]),
          print [var ''mac''],
          run (lib ''send_packet'' [self ''dev_port24'', var ''isis_pkt''] []),
          assert (lib ''socket_verify_packet'' [var ''isis_pkt'', self ''hif_socket''] []),
          run (lib ''send_packet'' [self ''dev_port10'', var ''isis_pkt''] []),
          assert (lib ''socket_verify_packet'' [var ''isis_pkt'', self ''hif_socket2''] [])],
        sleep_for (num 4),
        assign ''post_stats'' (query ''sai_thrift_get_queue_stats'' [self ''cpu_queue0''] []),
        assert_eq (item (var ''post_stats'') (str ''SAI_QUEUE_STAT_PACKETS'')) (add (self ''cpu_queue_state'') (num 6)),
        set_self ''cpu_queue_state'' (item (var ''post_stats'') (str ''SAI_QUEUE_STAT_PACKETS''))] [
        run (api_remove ''hostif_trap'' (var ''isis_trap''))]]"

definition isisTrapTest_tearDown :: "'d stmt" where
  "isisTrapTest_tearDown = block [
      run (invoke [] HostifTrapTypesTestHelper_tearDown)]"

definition bfdv6RxTrapTest_setUp :: "'d stmt" where
  "bfdv6RxTrapTest_setUp = block [
      run (invoke [] HostifTrapTypesTestHelper_setUp)]"

definition bfdv6RxTrapTest_runTest :: "'d stmt" where
  "bfdv6RxTrapTest_runTest = block [
      assign ''bfd_port'' (num 3784),
      try_finally [
        assign ''bfdv6_trap'' (api_create ''hostif_trap'' [(''packet_action'', num SAI_PACKET_ACTION_TRAP), (''trap_type'', num
          SAI_HOSTIF_TRAP_TYPE_BFDV6)]),
        assert (ne (var ''bfdv6_trap'') (num 0)),
        assign ''bfdv6_pkt'' (lib ''simple_udpv6_packet'' [] [(''eth_dst'', str ROUTER_MAC), (''ipv6_dst'', self ''my_ipv6''),
          (''udp_dport'', var ''bfd_port'')]),
        run (lib ''send_packet'' [self ''dev_port24'', var ''bfdv6_pkt''] []),
        assert (lib ''socket_verify_packet'' [var ''bfdv6_pkt'', self ''hif_socket''] []),
        sleep_for (num 4),
        assign ''post_stats'' (query ''sai_thrift_get_queue_stats'' [self ''cpu_queue0''] []),
        assert_eq (item (var ''post_stats'') (str ''SAI_QUEUE_STAT_PACKETS'')) (add (self ''cpu_queue_state'') (num 1)),
        set_self ''cpu_queue_state'' (item (var ''post_stats'') (str ''SAI_QUEUE_STAT_PACKETS''))] [
        run (api_remove ''hostif_trap'' (var ''bfdv6_trap''))]]"

definition bfdv6RxTrapTest_tearDown :: "'d stmt" where
  "bfdv6RxTrapTest_tearDown = block [
      run (invoke [] HostifTrapTypesTestHelper_tearDown)]"

definition dhcpL2TrapTest_setUp :: "'d stmt" where
  "dhcpL2TrapTest_setUp = block [
      run (invoke [] HostifTrapTypesTestHelper_setUp)]"

definition dhcpL2TrapTest_runTest :: "'d stmt" where
  "dhcpL2TrapTest_runTest = block [
      assign ''dhcp_sport'' (num 67),
      assign ''dhcp_cport'' (num 68),
      assign ''bcast_ip'' (str ''255.255.255.255''),
      assign ''bcast_mac'' (str ''ff:ff:ff:ff:ff:ff''),
      try_finally [
        assign ''dhcp_trap'' (api_create ''hostif_trap'' [(''packet_action'', num SAI_PACKET_ACTION_TRAP), (''trap_type'', num
          SAI_HOSTIF_TRAP_TYPE_DHCP_L2)]),
        assert (ne (var ''dhcp_trap'') (num 0)),
        assign ''dhcp_pkt'' (lib ''simple_udp_packet'' [] [(''eth_dst'', var ''bcast_mac''), (''ip_dst'', var ''bcast_ip''),
          (''udp_sport'', var ''dhcp_sport''), (''udp_dport'', var ''dhcp_cport'')]),
        run (lib ''send_packet'' [self ''dev_port24'', var ''dhcp_pkt''] []),
        assert (lib ''socket_verify_packet'' [var ''dhcp_pkt'', self ''hif_socket''] []),
        assign ''dhcp_pkt'' (lib ''simple_udp_packet'' [] [(''eth_dst'', str ROUTER_MAC), (''ip_dst'', self ''my_ip''),
          (''udp_sport'', var ''dhcp_cport''), (''udp_dport'', var ''dhcp_sport'')]),
        run (lib ''send_packet'' [self ''dev_port24'', var ''dhcp_pkt''] []),
        assert (lib ''socket_verify_packet'' [var ''dhcp_pkt'', self ''hif_socket''] []),
        sleep_for (num 4),
        assign ''post_stats'' (query ''sai_thrift_get_queue_stats'' [self ''cpu_queue0''] []),
        assert_eq (item (var ''post_stats'') (str ''SAI_QUEUE_STAT_PACKETS'')) (add (self ''cpu_queue_state'') (num 2)),
        set_self ''cpu_queue_state'' (item (var ''post_stats'') (str ''SAI_QUEUE_STAT_PACKETS''))] [
        run (api_remove ''hostif_trap'' (var ''dhcp_trap''))]]"

definition dhcpL2TrapTest_tearDown :: "'d stmt" where
  "dhcpL2TrapTest_tearDown = block [
      run (invoke [] HostifTrapTypesTestHelper_tearDown)]"

definition dhcpv6L2TrapTest_setUp :: "'d stmt" where
  "dhcpv6L2TrapTest_setUp = block [
      run (invoke [] HostifTrapTypesTestHelper_setUp)]"

definition dhcpv6L2TrapTest_runTest :: "'d stmt" where
  "dhcpv6L2TrapTest_runTest = block [
      assign ''dhcpv6_client_port'' (num 546),
      assign ''dhcpv6_srv_port'' (num 547),
      assign ''dhcpv6_pkt_params_list'' (list_of [list_of [str ''33:33:00:01:00:02'', str ''FF02::1:2'', var
        ''dhcpv6_client_port'', var ''dhcpv6_srv_port'', str ''all servers and relay agents''], list_of [str
        ''33:33:00:01:00:05'', str ''FF05::1:3'', var ''dhcpv6_client_port'', var ''dhcpv6_srv_port'', str ''all servers''],
        list_of [str ROUTER_MAC, self ''my_ipv6'', var ''dhcpv6_client_port'', var ''dhcpv6_srv_port'', str
        ''ip-to-me server''], list_of [str ROUTER_MAC, self ''my_ipv6'', var ''dhcpv6_srv_port'', var ''dhcpv6_client_port'',
        str ''ip-to-me client'']]),
      try_finally [
        assign ''dhcpv6_trap'' (api_create ''hostif_trap'' [(''packet_action'', num SAI_PACKET_ACTION_TRAP), (''trap_type'', num
          SAI_HOSTIF_TRAP_TYPE_DHCPV6_L2)]),
        assert (ne (var ''dhcpv6_trap'') (num 0)),
        for_in [''dhcpv6_pkt_params''] (var ''dhcpv6_pkt_params_list'') [
          assign ''dhcpv6_pkt'' (lib ''simple_udpv6_packet'' [] [(''eth_dst'', item (var ''dhcpv6_pkt_params'') (num 0)),
            (''ipv6_dst'', item (var ''dhcpv6_pkt_params'') (num 1)), (''udp_sport'', item (var ''dhcpv6_pkt_params'') (num 2)),
            (''udp_dport'', item (var ''dhcpv6_pkt_params'') (num 3))]),
          print [item (var ''dhcpv6_pkt_params'') (num 4)],
          run (lib ''send_packet'' [self ''dev_port24'', var ''dhcpv6_pkt''] []),
          assert (lib ''socket_verify_packet'' [var ''dhcpv6_pkt'', self ''hif_socket''] [])],
        sleep_for (num 4),
        assign ''post_stats'' (query ''sai_thrift_get_queue_stats'' [self ''cpu_queue0''] []),
        assert_eq (item (var ''post_stats'') (str ''SAI_QUEUE_STAT_PACKETS'')) (add (self ''cpu_queue_state'') (length_of (var
          ''dhcpv6_pkt_params_list''))),
        set_self ''cpu_queue_state'' (item (var ''post_stats'') (str ''SAI_QUEUE_STAT_PACKETS''))] [
        run (api_remove ''hostif_trap'' (var ''dhcpv6_trap''))]]"

definition dhcpv6L2TrapTest_tearDown :: "'d stmt" where
  "dhcpv6L2TrapTest_tearDown = block [
      run (invoke [] HostifTrapTypesTestHelper_tearDown)]"

definition vrrpTrapTest_setUp :: "'d stmt" where
  "vrrpTrapTest_setUp = block [
      run (invoke [] HostifTrapTypesTestHelper_setUp)]"

definition vrrpTrapTest_runTest :: "'d stmt" where
  "vrrpTrapTest_runTest = block [
      assign ''vrrp_dst_ip'' (str ''224.0.0.18''),
      assign ''proto'' (num 112),
      try_finally [
        assign ''vrrp_trap'' (api_create ''hostif_trap'' [(''packet_action'', num SAI_PACKET_ACTION_COPY), (''trap_type'', num
          SAI_HOSTIF_TRAP_TYPE_VRRP)]),
        assert (ne (var ''vrrp_trap'') (num 0)),
        assign ''vrrp_pkt'' (lib ''simple_ip_packet'' [] [(''ip_dst'', var ''vrrp_dst_ip''), (''ip_proto'', var ''proto'')]),
        print [var ''vrrp_dst_ip''],
        run (lib ''send_packet'' [self ''dev_port24'', var ''vrrp_pkt''] []),
        assert (lib ''socket_verify_packet'' [var ''vrrp_pkt'', self ''hif_socket''] []),
        sleep_for (num 4),
        assign ''post_stats'' (query ''sai_thrift_get_queue_stats'' [self ''cpu_queue0''] []),
        assert_eq (item (var ''post_stats'') (str ''SAI_QUEUE_STAT_PACKETS'')) (add (self ''cpu_queue_state'') (num 1)),
        set_self ''cpu_queue_state'' (item (var ''post_stats'') (str ''SAI_QUEUE_STAT_PACKETS''))] [
        run (api_remove ''hostif_trap'' (var ''vrrp_trap''))]]"

definition vrrpTrapTest_tearDown :: "'d stmt" where
  "vrrpTrapTest_tearDown = block [
      run (invoke [] HostifTrapTypesTestHelper_tearDown)]"

definition vrrpv6TrapTest_setUp :: "'d stmt" where
  "vrrpv6TrapTest_setUp = block [
      run (invoke [] HostifTrapTypesTestHelper_setUp)]"

definition vrrpv6TrapTest_runTest :: "'d stmt" where
  "vrrpv6TrapTest_runTest = block [
      assign ''vrrpv6_dst_ip'' (str ''FF02::12''),
      assign ''proto'' (num 112),
      try_finally [
        assign ''vrrpv6_trap'' (api_create ''hostif_trap'' [(''packet_action'', num SAI_PACKET_ACTION_COPY), (''trap_type'', num
          SAI_HOSTIF_TRAP_TYPE_VRRPV6)]),
        assert (ne (var ''vrrpv6_trap'') (num 0)),
        assign ''vrrpv6_pkt'' (lib ''simple_ipv6ip_packet'' [] [(''ipv6_dst'', var ''vrrpv6_dst_ip'')]),
        assign ''vrrpv6_pkt'' (lib ''set_field'' [var ''vrrpv6_pkt'', str ''IPv6'', str ''nh'', var ''proto''] []),
        print [var ''vrrpv6_dst_ip''],
        run (lib ''send_packet'' [self ''dev_port24'', var ''vrrpv6_pkt''] []),
        assert (lib ''socket_verify_packet'' [var ''vrrpv6_pkt'', self ''hif_socket''] []),
        sleep_for (num 4),
        assign ''post_stats'' (query ''sai_thrift_get_queue_stats'' [self ''cpu_queue0''] []),
        assert_eq (item (var ''post_stats'') (str ''SAI_QUEUE_STAT_PACKETS'')) (add (self ''cpu_queue_state'') (num 1)),
        set_self ''cpu_queue_state'' (item (var ''post_stats'') (str ''SAI_QUEUE_STAT_PACKETS''))] [
        run (api_remove ''hostif_trap'' (var ''vrrpv6_trap''))]]"

definition vrrpv6TrapTest_tearDown :: "'d stmt" where
  "vrrpv6TrapTest_tearDown = block [
      run (invoke [] HostifTrapTypesTestHelper_tearDown)]"

definition eapolTrapTest_setUp :: "'d stmt" where
  "eapolTrapTest_setUp = block [
      run (invoke [] HostifTrapTypesTestHelper_setUp)]"

definition eapolTrapTest_runTest :: "'d stmt" where
  "eapolTrapTest_runTest = block [
      assign ''eapol_etype'' (num 34958),
      try_finally [
        assign ''eapol_trap'' (api_create ''hostif_trap'' [(''packet_action'', num SAI_PACKET_ACTION_TRAP), (''trap_type'', num
          SAI_HOSTIF_TRAP_TYPE_EAPOL)]),
        assert (ne (var ''eapol_trap'') (num 0)),
        assign ''eapol_pkt'' (lib ''simple_eth_packet'' [] [(''eth_type'', var ''eapol_etype''), (''pktlen'', num 100)]),
        run (lib ''send_packet'' [self ''dev_port24'', var ''eapol_pkt''] []),
        assert (lib ''socket_verify_packet'' [var ''eapol_pkt'', self ''hif_socket''] []),
        sleep_for (num 4),
        assign ''post_stats'' (query ''sai_thrift_get_queue_stats'' [self ''cpu_queue0''] []),
        assert_eq (item (var ''post_stats'') (str ''SAI_QUEUE_STAT_PACKETS'')) (add (self ''cpu_queue_state'') (num 1)),
        set_self ''cpu_queue_state'' (item (var ''post_stats'') (str ''SAI_QUEUE_STAT_PACKETS''))] [
        run (api_remove ''hostif_trap'' (var ''eapol_trap''))]]"

definition eapolTrapTest_tearDown :: "'d stmt" where
  "eapolTrapTest_tearDown = block [
      run (invoke [] HostifTrapTypesTestHelper_tearDown)]"

definition mplsRouterAlertTrapTest_setUp :: "'d stmt" where
  "mplsRouterAlertTrapTest_setUp = block [
      run (invoke [] HostifTrapTypesTestHelper_setUp)]"

definition mplsRouterAlertTrapTest_runTest :: "'d stmt" where
  "mplsRouterAlertTrapTest_runTest = block [
      assign ''mpls_tag'' (dict_of [(str ''label'', num 1), (str ''ttl'', num 63), (str ''tc'', num 0), (str ''s'', num 0)]),
      assign ''mpls_tag_2'' (dict_of [(str ''label'', num 5555), (str ''ttl'', num 63), (str ''tc'', num 0), (str ''s'', num
        1)]),
      try_finally [
        assign ''mpls_trap'' (api_create ''hostif_trap'' [(''packet_action'', num SAI_PACKET_ACTION_TRAP), (''trap_type'', num
          SAI_HOSTIF_TRAP_TYPE_MPLS_ROUTER_ALERT_LABEL)]),
        assert_ne (var ''mpls_trap'') (num 0),
        assign ''inner_pkt'' (lib ''simple_udp_packet'' [] [(''eth_dst'', str ROUTER_MAC)]),
        assign ''mpls_pkt'' (lib ''simple_mpls_packet'' [] [(''eth_dst'', str ROUTER_MAC), (''mpls_tags'', list_of [var
          ''mpls_tag'', var ''mpls_tag_2'']), (''inner_frame'', lib ''get_layer'' [var ''inner_pkt'', str ''IP''] [])]),
        assign ''pre_stats'' (query ''sai_thrift_get_queue_stats'' [self ''cpu_queue0''] []),
        run (lib ''send_packet'' [self ''iport_dev'', var ''mpls_pkt''] []),
        assert (lib ''socket_verify_packet'' [var ''mpls_pkt'', self ''hif_socket''] []),
        sleep_for (num 4),
        assign ''post_stats'' (query ''sai_thrift_get_queue_stats'' [self ''cpu_queue0''] []),
        assert_eq (item (var ''post_stats'') (str ''SAI_QUEUE_STAT_PACKETS'')) (add (item (var ''pre_stats'') (str
          ''SAI_QUEUE_STAT_PACKETS'')) (num 1))] [
        run (lib ''dataplane.flush'' [] []),
        run (api_remove ''hostif_trap'' (var ''mpls_trap''))]]"

definition mplsRouterAlertTrapTest_tearDown :: "'d stmt" where
  "mplsRouterAlertTrapTest_tearDown = block [
      run (invoke [] HostifTrapTypesTestHelper_tearDown)]"

definition mplsTtlErrorTrapTest_setUp :: "'d stmt" where
  "mplsTtlErrorTrapTest_setUp = block [
      run (invoke [] HostifTrapTypesTestHelper_setUp)]"

definition mplsTtlErrorTrapTest_runTest :: "'d stmt" where
  "mplsTtlErrorTrapTest_runTest = block [
      assign ''mpls_tag'' (dict_of [(str ''label'', num 1000), (str ''ttl'', num 1), (str ''tc'', num 0), (str ''s'', num 0)]),
      assign ''mpls_tag_ttl_0'' (dict_of [(str ''label'', num 1000), (str ''ttl'', num 0), (str ''tc'', num 0), (str ''s'', num
        0)]),
      assign ''mpls_tag_ttl_2'' (dict_of [(str ''label'', num 1000), (str ''ttl'', num 2), (str ''tc'', num 0), (str ''s'', num
        0)]),
      try_finally [
        assign ''mpls_trap'' (api_create ''hostif_trap'' [(''packet_action'', num SAI_PACKET_ACTION_TRAP), (''trap_type'', num
          SAI_HOSTIF_TRAP_TYPE_MPLS_TTL_ERROR)]),
        assert_ne (var ''mpls_trap'') (num 0),
        assign ''inner_pkt'' (lib ''simple_udp_packet'' [] [(''eth_dst'', str ROUTER_MAC)]),
        assign ''mpls_pkt'' (lib ''simple_mpls_packet'' [] [(''eth_dst'', str ROUTER_MAC), (''mpls_tags'', list_of [var
          ''mpls_tag'']), (''inner_frame'', lib ''get_layer'' [var ''inner_pkt'', str ''IP''] [])]),
        assign ''pre_stats'' (query ''sai_thrift_get_queue_stats'' [self ''cpu_queue0''] []),
        run (lib ''send_packet'' [self ''iport_dev'', var ''mpls_pkt''] []),
        assert (lib ''socket_verify_packet'' [var ''mpls_pkt'', self ''hif_socket''] []),
        sleep_for (num 5),
        assign ''post_stats'' (query ''sai_thrift_get_queue_stats'' [self ''cpu_queue0''] []),
        assert_eq (item (var ''post_stats'') (str ''SAI_QUEUE_STAT_PACKETS'')) (add (item (var ''pre_stats'') (str
          ''SAI_QUEUE_STAT_PACKETS'')) (num 1)),
        assign ''mpls_pkt'' (lib ''simple_mpls_packet'' [] [(''eth_dst'', str ROUTER_MAC), (''mpls_tags'', list_of [var
          ''mpls_tag_ttl_0'']), (''inner_frame'', lib ''get_layer'' [var ''inner_pkt'', str ''IP''] [])]),
        assign ''pre_stats'' (query ''sai_thrift_get_queue_stats'' [self ''cpu_queue0''] []),
        run (lib ''send_packet'' [self ''iport_dev'', var ''mpls_pkt''] []),
        assert (lib ''socket_verify_packet'' [var ''mpls_pkt'', self ''hif_socket''] []),
        sleep_for (num 5),
        assign ''post_stats'' (query ''sai_thrift_get_queue_stats'' [self ''cpu_queue0''] []),
        assert_eq (item (var ''post_stats'') (str ''SAI_QUEUE_STAT_PACKETS'')) (add (item (var ''pre_stats'') (str
          ''SAI_QUEUE_STAT_PACKETS'')) (num 1)),
        assign ''mpls_pkt'' (lib ''simple_mpls_packet'' [] [(''eth_dst'', str ROUTER_MAC), (''mpls_tags'', list_of [var
          ''mpls_tag_ttl_2'']), (''inner_frame'', lib ''get_layer'' [var ''inner_pkt'', str ''IP''] [])]),
        assign ''pre_stats'' (query ''sai_thrift_get_queue_stats'' [self ''cpu_queue0''] []),
        run (lib ''send_packet'' [self ''iport_dev'', var ''mpls_pkt''] []),
        assert (no (lib ''socket_verify_packet'' [var ''mpls_pkt'', self ''hif_socket''] []))] [
        run (lib ''dataplane.flush'' [] []),
        run (api_remove ''hostif_trap'' (var ''mpls_trap''))]]"

definition mplsTtlErrorTrapTest_tearDown :: "'d stmt" where
  "mplsTtlErrorTrapTest_tearDown = block [
      run (invoke [] HostifTrapTypesTestHelper_tearDown)]"

definition trapPriorityTest_setUp :: "'d stmt" where
  "trapPriorityTest_setUp = block [
      super_setUp]"

definition trapPriorityTest_runTest :: "'d stmt" where
  "trapPriorityTest_runTest = block [
      try_finally [
        assign ''custom_priotiy_1'' (num 11),
        assign ''lldp_trap'' (api_create ''hostif_trap'' [(''packet_action'', num SAI_PACKET_ACTION_TRAP), (''trap_type'', num
          SAI_HOSTIF_TRAP_TYPE_LLDP), (''trap_priority'', var ''custom_priotiy_1'')]),
        assert (gt (var ''lldp_trap'') (num 0)),
        assign ''attrs'' (api_get ''hostif_trap'' (var ''lldp_trap'') [(''trap_priority'', bool True)]),
        assert_eq (item (var ''attrs'') (str ''trap_priority'')) (var ''custom_priotiy_1''),
        assign ''custom_priotiy_2'' (num 5),
        assign ''dhcp_trap'' (api_create ''hostif_trap'' [(''packet_action'', num SAI_PACKET_ACTION_TRAP), (''trap_type'', num
          SAI_HOSTIF_TRAP_TYPE_DHCP), (''trap_priority'', var ''custom_priotiy_2'')]),
        assert (gt (var ''dhcp_trap'') (num 0)),
        assign ''attrs'' (api_get ''hostif_trap'' (var ''dhcp_trap'') [(''trap_priority'', bool True)]),
        assert_eq (item (var ''attrs'') (str ''trap_priority'')) (var ''custom_priotiy_2'')] [
        run (api_remove ''hostif_trap'' (var ''dhcp_trap'')),
        run (api_remove ''hostif_trap'' (var ''lldp_trap''))]]"

definition trapPriorityTest_tearDown :: "'d stmt" where
  "trapPriorityTest_tearDown = block [
      super_tearDown]"

definition trapTypeTest_setUp :: "'d stmt" where
  "trapTypeTest_setUp = block [
      super_setUp]"

definition trapTypeTest_runTest :: "'d stmt" where
  "trapTypeTest_runTest = block [
      try_finally [
        assign ''lldp_trap'' (api_create ''hostif_trap'' [(''packet_action'', num SAI_PACKET_ACTION_TRAP), (''trap_type'', num
          SAI_HOSTIF_TRAP_TYPE_LLDP)]),
        assert (gt (var ''lldp_trap'') (num 0)),
        assign ''attrs'' (api_get ''hostif_trap'' (var ''lldp_trap'') [(''trap_type'', bool True)]),
        assert_eq (item (var ''attrs'') (str ''trap_type'')) (num SAI_HOSTIF_TRAP_TYPE_LLDP),
        assign ''dhcp_trap'' (api_create ''hostif_trap'' [(''packet_action'', num SAI_PACKET_ACTION_TRAP), (''trap_type'', num
          SAI_HOSTIF_TRAP_TYPE_DHCP)]),
        assert (gt (var ''dhcp_trap'') (num 0)),
        assign ''attrs'' (api_get ''hostif_trap'' (var ''dhcp_trap'') [(''trap_type'', bool True)]),
        assert_eq (item (var ''attrs'') (str ''trap_type'')) (num SAI_HOSTIF_TRAP_TYPE_DHCP)] [
        run (api_remove ''hostif_trap'' (var ''lldp_trap'')),
        run (api_remove ''hostif_trap'' (var ''dhcp_trap''))]]"

definition trapTypeTest_tearDown :: "'d stmt" where
  "trapTypeTest_tearDown = block [
      super_tearDown]"

definition trapGroupTest_setUp :: "'d stmt" where
  "trapGroupTest_setUp = block [
      super_setUp]"

definition trapGroupTest_runTest :: "'d stmt" where
  "trapGroupTest_runTest = block [
      try_finally [
        assign ''custom_trap_group'' (api_create ''hostif_trap_group'' [(''admin_state'', bool True)]),
        assert (gt (var ''custom_trap_group'') (num 0)),
        assign ''ip2me_trap'' (api_create ''hostif_trap'' [(''packet_action'', num SAI_PACKET_ACTION_TRAP), (''trap_type'', num
          SAI_HOSTIF_TRAP_TYPE_IP2ME)]),
        assert (gt (var ''ip2me_trap'') (num 0)),
        assign ''attrs'' (api_get ''hostif_trap'' (var ''ip2me_trap'') [(''trap_group'', bool True)]),
        assert_ne (item (var ''attrs'') (str ''trap_group'')) (var ''custom_trap_group''),
        assign ''dhcp_trap'' (api_create ''hostif_trap'' [(''packet_action'', num SAI_PACKET_ACTION_TRAP), (''trap_type'', num
          SAI_HOSTIF_TRAP_TYPE_DHCP), (''trap_group'', var ''custom_trap_group'')]),
        assign ''attrs'' (api_get ''hostif_trap'' (var ''dhcp_trap'') [(''trap_group'', bool True)]),
        assert_eq (item (var ''attrs'') (str ''trap_group'')) (var ''custom_trap_group'')] [
        run (api_remove ''hostif_trap'' (var ''ip2me_trap'')),
        run (api_remove ''hostif_trap'' (var ''dhcp_trap'')),
        run (api_remove ''hostif_trap_group'' (var ''custom_trap_group''))]]"

definition trapGroupTest_tearDown :: "'d stmt" where
  "trapGroupTest_tearDown = block [
      super_tearDown]"

definition trapActionTest_setUp :: "'d stmt" where
  "trapActionTest_setUp = block [
      super_setUp]"

definition trapActionTest_runTest :: "'d stmt" where
  "trapActionTest_runTest = block [
      try_finally [
        assign ''ip2me_trap'' (api_create ''hostif_trap'' [(''packet_action'', num SAI_PACKET_ACTION_TRAP), (''trap_type'', num
          SAI_HOSTIF_TRAP_TYPE_IP2ME)]),
        assert (gt (var ''ip2me_trap'') (num 0)),
        assign ''attrs'' (api_get ''hostif_trap'' (var ''ip2me_trap'') [(''packet_action'', bool True)]),
        assert_eq (item (var ''attrs'') (str ''packet_action'')) (num SAI_PACKET_ACTION_TRAP),
        assign ''dhcp_trap'' (api_create ''hostif_trap'' [(''packet_action'', num SAI_PACKET_ACTION_DROP), (''trap_type'', num
          SAI_HOSTIF_TRAP_TYPE_DHCP)]),
        assign ''attrs'' (api_get ''hostif_trap'' (var ''dhcp_trap'') [(''packet_action'', bool True)]),
        assert_eq (item (var ''attrs'') (str ''packet_action'')) (num SAI_PACKET_ACTION_DROP)] [
        run (api_remove ''hostif_trap'' (var ''ip2me_trap'')),
        run (api_remove ''hostif_trap'' (var ''dhcp_trap''))]]"

definition trapActionTest_tearDown :: "'d stmt" where
  "trapActionTest_tearDown = block [
      super_tearDown]"

definition hostIfOperStatusTest_setUp :: "'d stmt" where
  "hostIfOperStatusTest_setUp = block [
      super_setUp]"

definition hostIfOperStatusTest_runTest :: "'d stmt" where
  "hostIfOperStatusTest_runTest = block [
      assign ''hostif1_port'' (self ''port24''),
      assign ''hostif1_dev_port'' (self ''dev_port24''),
      assign ''hostif1_name'' (str ''hostif1''),
      assign ''hostif2_port'' (self ''port25''),
      assign ''hostif2_dev_port'' (self ''dev_port25''),
      assign ''hostif2_name'' (str ''hostif2''),
      assign ''lldp_mac'' (str ''01:80:c2:00:00:0e''),
      assign ''lldp_pkt'' (lib ''simple_eth_packet'' [] [(''eth_dst'', var ''lldp_mac''), (''pktlen'', num 100), (''eth_type'',
        num 35020)]),
      try_finally [
        assign ''hostif1'' (api_create ''hostif'' [(''name'', var ''hostif1_name''), (''obj_id'', var ''hostif1_port''),
          (''oper_status'', bool False), (''type'', num SAI_HOSTIF_TYPE_NETDEV)]),
        assert (ne (var ''hostif1'') (num 0)),
        assign ''hostif2'' (api_create ''hostif'' [(''name'', var ''hostif2_name''), (''obj_id'', var ''hostif2_port''),
          (''oper_status'', bool False), (''type'', num SAI_HOSTIF_TYPE_NETDEV)]),
        assert (ne (var ''hostif2'') (num 0)),
        assign ''hostif1_attr'' (api_get ''hostif'' (var ''hostif1'') [(''oper_status'', bool True)]),
        assign ''hostif2_attr'' (api_get ''hostif'' (var ''hostif2'') [(''oper_status'', bool True)]),
        print [item (var ''hostif1_attr'') (str ''SAI_HOSTIF_ATTR_OPER_STATUS'')],
        assert (no (item (var ''hostif1_attr'') (str ''SAI_HOSTIF_ATTR_OPER_STATUS''))),
        print [item (var ''hostif2_attr'') (str ''SAI_HOSTIF_ATTR_OPER_STATUS'')],
        assert (no (item (var ''hostif2_attr'') (str ''SAI_HOSTIF_ATTR_OPER_STATUS''))),
        run (api_set ''hostif'' (var ''hostif1'') [(''oper_status'', bool True)]),
        run (api_set ''hostif'' (var ''hostif2'') [(''oper_status'', bool True)]),
        assign ''hostif1_attr'' (api_get ''hostif'' (var ''hostif1'') [(''oper_status'', bool True)]),
        assign ''hostif2_attr'' (api_get ''hostif'' (var ''hostif2'') [(''oper_status'', bool True)]),
        print [item (var ''hostif1_attr'') (str ''SAI_HOSTIF_ATTR_OPER_STATUS'')],
        assert (item (var ''hostif1_attr'') (str ''SAI_HOSTIF_ATTR_OPER_STATUS'')),
        print [item (var ''hostif2_attr'') (str ''SAI_HOSTIF_ATTR_OPER_STATUS'')],
        assert (item (var ''hostif2_attr'') (str ''SAI_HOSTIF_ATTR_OPER_STATUS'')),
        assign ''hif1_socket'' (lib ''open_packet_socket'' [var ''hostif1_name''] []),
        assign ''hif2_socket'' (lib ''open_packet_socket'' [var ''hostif2_name''] []),
        assign ''lldp_trap'' (api_create ''hostif_trap'' [(''packet_action'', num SAI_PACKET_ACTION_TRAP), (''trap_type'', num
          SAI_HOSTIF_TRAP_TYPE_LLDP)]),
        assert (ne (var ''lldp_trap'') (num 0)),
        assign ''channel'' (num SAI_HOSTIF_TABLE_ENTRY_CHANNEL_TYPE_NETDEV_PHYSICAL_PORT),
        assign ''hif_tbl_entry'' (api_create ''hostif_table_entry'' [(''channel_type'', var ''channel''), (''type'', num
          SAI_HOSTIF_TABLE_ENTRY_TYPE_WILDCARD)]),
        assert (ne (var ''hif_tbl_entry'') (num 0)),
        assign ''pre_stats'' (query ''sai_thrift_get_queue_stats'' [self ''cpu_queue0''] []),
        print [var ''hostif1_dev_port''],
        run (lib ''send_packet'' [var ''hostif1_dev_port'', var ''lldp_pkt''] []),
        assert (lib ''socket_verify_packet'' [var ''lldp_pkt'', var ''hif1_socket''] []),
        print [var ''hostif2_dev_port''],
        run (lib ''send_packet'' [var ''hostif2_dev_port'', var ''lldp_pkt''] []),
        assert (lib ''socket_verify_packet'' [var ''lldp_pkt'', var ''hif2_socket''] []),
        sleep_for (num 4),
        assign ''post_stats'' (query ''sai_thrift_get_queue_stats'' [self ''cpu_queue0''] []),
        assert_eq (item (var ''post_stats'') (str ''SAI_QUEUE_STAT_PACKETS'')) (add (item (var ''pre_stats'') (str
          ''SAI_QUEUE_STAT_PACKETS'')) (num 2))] [
        run (api_remove ''hostif_table_entry'' (var ''hif_tbl_entry'')),
        run (api_remove ''hostif_trap'' (var ''lldp_trap'')),
        run (api_remove ''hostif'' (var ''hostif1'')),
        run (api_remove ''hostif'' (var ''hostif2''))]]"

definition hostIfOperStatusTest_tearDown :: "'d stmt" where
  "hostIfOperStatusTest_tearDown = block [
      run (lib ''sai_thrift_flush_fdb_entries'' [] [(''entry_type'', num SAI_FDB_FLUSH_ENTRY_TYPE_ALL)]),
      super_tearDown]"

end
