(* ===== verification/TestsIsolationGroup.thy ===== *)
theory TestsIsolationGroup
  imports PtfOwn PtfConstants
begin

text \<open>
  The tests of isolation groups, \<open>ptf/saiisolationgroup.py\<close>: a definition per method, statement by statement in the language of
  \<open>PtfScript\<close>, named after its class. A parameter \<open>m_f\<close> is a method \<open>f\<close> that derived classes define anew.
\<close>

section \<open>The tests\<close>

definition PortIsolationTest_setUp :: "'d stmt" where
  "PortIsolationTest_setUp = block [
      super_setUp,
      set_self ''mac11'' (str ''00:11:11:11:11:11:11''),
      set_self ''mac22'' (str ''00:22:22:22:22:22:22''),
      set_self ''mac33'' (str ''00:33:33:33:33:33:33''),
      set_self ''port24_rif'' (api_create ''router_interface'' [(''type'', num SAI_ROUTER_INTERFACE_TYPE_PORT),
        (''virtual_router_id'', self ''default_vrf''), (''port_id'', self ''port24'')]),
      set_self ''nhop1'' (api_create ''next_hop'' [(''ip'', ip_address (str ''10.10.0.2'')), (''router_interface_id'', self
        ''port11_rif''), (''type'', num SAI_NEXT_HOP_TYPE_IP)]),
      set_self ''neighbor_entry1'' (struct ''sai_thrift_neighbor_entry_t'' [(''rif_id'', self ''port11_rif''), (''ip_address'',
        ip_address (str ''10.10.0.2''))]),
      run (api_create_entry ''neighbor_entry'' (self ''neighbor_entry1'') [(''dst_mac_address'', self ''mac11'')]),
      set_self ''nhop2'' (api_create ''next_hop'' [(''ip'', ip_address (str ''20.20.0.2'')), (''router_interface_id'', self
        ''port12_rif''), (''type'', num SAI_NEXT_HOP_TYPE_IP)]),
      set_self ''neighbor_entry2'' (struct ''sai_thrift_neighbor_entry_t'' [(''rif_id'', self ''port12_rif''), (''ip_address'',
        ip_address (str ''20.20.0.2''))]),
      run (api_create_entry ''neighbor_entry'' (self ''neighbor_entry2'') [(''dst_mac_address'', self ''mac22'')]),
      set_self ''nhop3'' (api_create ''next_hop'' [(''ip'', ip_address (str ''30.30.0.3'')), (''router_interface_id'', self
        ''port13_rif''), (''type'', num SAI_NEXT_HOP_TYPE_IP)]),
      set_self ''neighbor_entry3'' (struct ''sai_thrift_neighbor_entry_t'' [(''rif_id'', self ''port13_rif''), (''ip_address'',
        ip_address (str ''30.30.0.3''))]),
      run (api_create_entry ''neighbor_entry'' (self ''neighbor_entry3'') [(''dst_mac_address'', self ''mac33'')]),
      set_self ''route_entry1'' (struct ''sai_thrift_route_entry_t'' [(''vr_id'', self ''default_vrf''), (''destination'',
        ip_prefix (str ''10.10.10.1/32''))]),
      run (api_create_entry ''route_entry'' (self ''route_entry1'') [(''next_hop_id'', self ''nhop1'')]),
      set_self ''route_entry2'' (struct ''sai_thrift_route_entry_t'' [(''vr_id'', self ''default_vrf''), (''destination'',
        ip_prefix (str ''20.20.20.1/32''))]),
      run (api_create_entry ''route_entry'' (self ''route_entry2'') [(''next_hop_id'', self ''nhop2'')]),
      set_self ''route_entry3'' (struct ''sai_thrift_route_entry_t'' [(''vr_id'', self ''default_vrf''), (''destination'',
        ip_prefix (str ''30.30.30.1/32''))]),
      run (api_create_entry ''route_entry'' (self ''route_entry3'') [(''next_hop_id'', self ''nhop3'')]),
      set_self ''isolation_group1'' (api_create ''isolation_group'' [(''type'', num SAI_ISOLATION_GROUP_TYPE_PORT)]),
      set_self ''isolation_group_mbr1'' (api_create ''isolation_group_member'' [(''isolation_group_id'', self
        ''isolation_group1''), (''isolation_object'', self ''port11'')]),
      set_self ''isolation_group_mbr2'' (api_create ''isolation_group_member'' [(''isolation_group_id'', self
        ''isolation_group1''), (''isolation_object'', self ''port12'')]),
      set_self ''isolation_group2'' (api_create ''isolation_group'' [(''type'', num SAI_ISOLATION_GROUP_TYPE_PORT)]),
      set_self ''isolation_group_mbr3'' (api_create ''isolation_group_member'' [(''isolation_group_id'', self
        ''isolation_group2''), (''isolation_object'', self ''port12'')]),
      set_self ''isolation_group_mbr4'' (api_create ''isolation_group_member'' [(''isolation_group_id'', self
        ''isolation_group2''), (''isolation_object'', self ''port13'')])]"

definition PortIsolationTest_attributeTest :: "'d stmt" where
  "PortIsolationTest_attributeTest = block [
      assign ''attrs'' (api_get ''isolation_group'' (self ''isolation_group1'') [(''type'', bool True)]),
      assert_eq (item (var ''attrs'') (str ''type'')) (num SAI_ISOLATION_GROUP_TYPE_PORT),
      assign ''attrs'' (api_get ''isolation_group_member'' (self ''isolation_group_mbr1'') [(''isolation_group_id'', bool True),
        (''isolation_object'', bool True)]),
      assert_eq (item (var ''attrs'') (str ''isolation_group_id'')) (self ''isolation_group1''),
      assert_eq (item (var ''attrs'') (str ''isolation_object'')) (self ''port11'')]"

definition PortIsolationTest_forwardingTest :: "'d stmt" where
  "PortIsolationTest_forwardingTest = block [
      try_finally [
        assign ''pkt1'' (lib ''simple_tcp_packet'' [] [(''eth_dst'', str ROUTER_MAC), (''ip_dst'', str ''10.10.10.1''),
          (''ip_ttl'', num 64)]),
        assign ''exp_pkt1'' (lib ''simple_tcp_packet'' [] [(''eth_dst'', self ''mac11''), (''eth_src'', str ROUTER_MAC),
          (''ip_dst'', str ''10.10.10.1''), (''ip_ttl'', num 63)]),
        assign ''pkt2'' (lib ''simple_tcp_packet'' [] [(''eth_dst'', str ROUTER_MAC), (''ip_dst'', str ''20.20.20.1''),
          (''ip_ttl'', num 64)]),
        assign ''exp_pkt2'' (lib ''simple_tcp_packet'' [] [(''eth_dst'', self ''mac22''), (''eth_src'', str ROUTER_MAC),
          (''ip_dst'', str ''20.20.20.1''), (''ip_ttl'', num 63)]),
        assign ''pkt3'' (lib ''simple_tcp_packet'' [] [(''eth_dst'', str ROUTER_MAC), (''ip_dst'', str ''30.30.30.1''),
          (''ip_ttl'', num 64)]),
        assign ''exp_pkt3'' (lib ''simple_tcp_packet'' [] [(''eth_dst'', self ''mac33''), (''eth_src'', str ROUTER_MAC),
          (''ip_dst'', str ''30.30.30.1''), (''ip_ttl'', num 63)]),
        print [self ''dev_port10''],
        run (lib ''send_packet'' [self ''dev_port10'', var ''pkt1''] []),
        run (lib ''verify_packet'' [var ''exp_pkt1'', self ''dev_port11''] []),
        run (lib ''send_packet'' [self ''dev_port10'', var ''pkt2''] []),
        run (lib ''verify_packet'' [var ''exp_pkt2'', self ''dev_port12''] []),
        run (lib ''send_packet'' [self ''dev_port10'', var ''pkt3''] []),
        run (lib ''verify_packet'' [var ''exp_pkt3'', self ''dev_port13''] []),
        print [self ''dev_port24''],
        run (lib ''send_packet'' [self ''dev_port24'', var ''pkt1''] []),
        run (lib ''verify_packet'' [var ''exp_pkt1'', self ''dev_port11''] []),
        run (lib ''send_packet'' [self ''dev_port24'', var ''pkt2''] []),
        run (lib ''verify_packet'' [var ''exp_pkt2'', self ''dev_port12''] []),
        run (lib ''send_packet'' [self ''dev_port24'', var ''pkt3''] []),
        run (lib ''verify_packet'' [var ''exp_pkt3'', self ''dev_port13''] []),
        run (api_set ''port'' (self ''port10'') [(''isolation_group'', self ''isolation_group1'')]),
        run (api_set ''port'' (self ''port24'') [(''isolation_group'', self ''isolation_group2'')]),
        print [self ''dev_port10''],
        run (lib ''send_packet'' [self ''dev_port10'', var ''pkt1''] []),
        run (lib ''verify_no_other_packets'' [] [(''timeout'', num 1)]),
        run (lib ''send_packet'' [self ''dev_port10'', var ''pkt2''] []),
        run (lib ''verify_no_other_packets'' [] [(''timeout'', num 1)]),
        run (lib ''send_packet'' [self ''dev_port10'', var ''pkt3''] []),
        run (lib ''verify_packet'' [var ''exp_pkt3'', self ''dev_port13''] []),
        print [self ''dev_port24''],
        run (lib ''send_packet'' [self ''dev_port24'', var ''pkt1''] []),
        run (lib ''verify_packet'' [var ''exp_pkt1'', self ''dev_port11''] []),
        run (lib ''send_packet'' [self ''dev_port24'', var ''pkt2''] []),
        run (lib ''verify_no_other_packets'' [] [(''timeout'', num 1)]),
        run (lib ''send_packet'' [self ''dev_port24'', var ''pkt3''] []),
        run (lib ''verify_no_other_packets'' [] [(''timeout'', num 1)]),
        run (api_set ''port'' (self ''port10'') [(''isolation_group'', num SAI_NULL_OBJECT_ID)]),
        run (api_set ''port'' (self ''port24'') [(''isolation_group'', num SAI_NULL_OBJECT_ID)]),
        print [self ''dev_port10''],
        run (lib ''send_packet'' [self ''dev_port10'', var ''pkt1''] []),
        run (lib ''verify_packet'' [var ''exp_pkt1'', self ''dev_port11''] []),
        run (lib ''send_packet'' [self ''dev_port10'', var ''pkt2''] []),
        run (lib ''verify_packet'' [var ''exp_pkt2'', self ''dev_port12''] []),
        run (lib ''send_packet'' [self ''dev_port10'', var ''pkt3''] []),
        run (lib ''verify_packet'' [var ''exp_pkt3'', self ''dev_port13''] []),
        print [self ''dev_port24''],
        run (lib ''send_packet'' [self ''dev_port24'', var ''pkt1''] []),
        run (lib ''verify_packet'' [var ''exp_pkt1'', self ''dev_port11''] []),
        run (lib ''send_packet'' [self ''dev_port24'', var ''pkt2''] []),
        run (lib ''verify_packet'' [var ''exp_pkt2'', self ''dev_port12''] []),
        run (lib ''send_packet'' [self ''dev_port24'', var ''pkt3''] []),
        run (lib ''verify_packet'' [var ''exp_pkt3'', self ''dev_port13''] [])] [
        run (api_set ''port'' (self ''port10'') [(''isolation_group'', num SAI_NULL_OBJECT_ID)]),
        run (api_set ''port'' (self ''port24'') [(''isolation_group'', num SAI_NULL_OBJECT_ID)])]]"

definition PortIsolationTest_runTest :: "'d stmt" where
  "PortIsolationTest_runTest = block [
      run (invoke [] PortIsolationTest_attributeTest),
      run (invoke [] PortIsolationTest_forwardingTest)]"

definition PortIsolationTest_tearDown :: "'d stmt" where
  "PortIsolationTest_tearDown = block [
      run (api_remove ''isolation_group_member'' (self ''isolation_group_mbr4'')),
      run (api_remove ''isolation_group_member'' (self ''isolation_group_mbr3'')),
      run (api_remove ''isolation_group'' (self ''isolation_group2'')),
      run (api_remove ''isolation_group_member'' (self ''isolation_group_mbr2'')),
      run (api_remove ''isolation_group_member'' (self ''isolation_group_mbr1'')),
      run (api_remove ''isolation_group'' (self ''isolation_group1'')),
      run (api_remove ''route_entry'' (self ''route_entry3'')),
      run (api_remove ''route_entry'' (self ''route_entry2'')),
      run (api_remove ''route_entry'' (self ''route_entry1'')),
      run (api_remove ''next_hop'' (self ''nhop3'')),
      run (api_remove ''neighbor_entry'' (self ''neighbor_entry3'')),
      run (api_remove ''next_hop'' (self ''nhop2'')),
      run (api_remove ''neighbor_entry'' (self ''neighbor_entry2'')),
      run (api_remove ''next_hop'' (self ''nhop1'')),
      run (api_remove ''neighbor_entry'' (self ''neighbor_entry1'')),
      run (api_remove ''router_interface'' (self ''port24_rif'')),
      super_tearDown]"

end
