(* ===== verification/TestsLag.thy ===== *)
theory TestsLag
  imports PtfOwn PtfConstants
begin

text \<open>
  The tests of link aggregation, \<open>ptf/sailag.py\<close>: a definition per method, statement by statement in the language of
  \<open>PtfScript\<close>, named after its class. A parameter \<open>m_f\<close> is a method \<open>f\<close> that derived classes define anew.
\<close>

section \<open>The tests\<close>

definition LAGCreateLagMember_createRemoveLagMemberTest :: "'d stmt" where
  "LAGCreateLagMember_createRemoveLagMemberTest = block [
      assign ''portlist'' (struct ''sai_thrift_object_list_t'' [(''count'', num 100)]),
      assign ''lag3'' (api_create ''lag'' []),
      assign ''attr_list'' (api_get ''lag'' (var ''lag3'') [(''port_list'', var ''portlist'')]),
      assign ''lag_members'' (field (item (var ''attr_list'') (str ''SAI_LAG_ATTR_PORT_LIST'')) ''idlist''),
      assert (eq (length_of (var ''lag_members'')) (num 0)),
      assign ''count'' (field (item (var ''attr_list'') (str ''SAI_LAG_ATTR_PORT_LIST'')) ''count''),
      assert (eq (var ''count'') (num 0)),
      assign ''lag3_member24'' (api_create ''lag_member'' [(''lag_id'', var ''lag3''), (''port_id'', self ''port24'')]),
      assign ''attr_list'' (api_get ''lag'' (var ''lag3'') [(''port_list'', var ''portlist'')]),
      assign ''lag_members'' (field (item (var ''attr_list'') (str ''SAI_LAG_ATTR_PORT_LIST'')) ''idlist''),
      assert (eq (item (var ''lag_members'') (num 0)) (var ''lag3_member24'')),
      assign ''count'' (field (item (var ''attr_list'') (str ''SAI_LAG_ATTR_PORT_LIST'')) ''count''),
      assert (eq (var ''count'') (num 1)),
      assign ''attr_list'' (api_get ''lag_member'' (var ''lag3_member24'') [(''lag_id'', bool True), (''port_id'', bool True)]),
      assert (eq (item (var ''attr_list'') (str ''SAI_LAG_MEMBER_ATTR_LAG_ID'')) (var ''lag3'')),
      assert (eq (item (var ''attr_list'') (str ''SAI_LAG_MEMBER_ATTR_PORT_ID'')) (self ''port24'')),
      assign ''lag_member_fail'' (api_create ''lag_member'' [(''lag_id'', var ''lag3''), (''port_id'', self ''port24'')]),
      assert_eq (var ''lag_member_fail'') (num 0),
      assign ''attr_list'' (api_get ''lag'' (var ''lag3'') [(''port_list'', var ''portlist'')]),
      assign ''lag_members'' (field (item (var ''attr_list'') (str ''SAI_LAG_ATTR_PORT_LIST'')) ''idlist''),
      assert (eq (item (var ''lag_members'') (num 0)) (var ''lag3_member24'')),
      assign ''count'' (field (item (var ''attr_list'') (str ''SAI_LAG_ATTR_PORT_LIST'')) ''count''),
      assert (eq (var ''count'') (num 1)),
      assign ''status'' (api_remove ''lag_member'' (var ''lag3_member24'')),
      assert_eq (var ''status'') (num SAI_STATUS_SUCCESS),
      assign ''attr_list'' (api_get ''lag'' (var ''lag3'') [(''port_list'', var ''portlist'')]),
      assign ''lag_members'' (field (item (var ''attr_list'') (str ''SAI_LAG_ATTR_PORT_LIST'')) ''idlist''),
      assert (eq (length_of (var ''lag_members'')) (num 0)),
      assign ''count'' (field (item (var ''attr_list'') (str ''SAI_LAG_ATTR_PORT_LIST'')) ''count''),
      assert (eq (var ''count'') (num 0)),
      assign ''status'' (api_remove ''lag'' (var ''lag3'')),
      assert_eq (var ''status'') (num SAI_STATUS_SUCCESS),
      assign ''status'' (api_remove ''lag'' (var ''lag3'')),
      assert_ne (var ''status'') (num SAI_STATUS_SUCCESS)]"

definition LAGCreateLagMember_runTest :: "'d stmt" where
  "LAGCreateLagMember_runTest = block [
      run (invoke [] LAGCreateLagMember_createRemoveLagMemberTest)]"

definition LAGDisableIngressLagMember_tearDown :: "'d stmt" where
  "LAGDisableIngressLagMember_tearDown = block [
      run (api_set ''lag_member'' (self ''lag1_member4'') [(''ingress_disable'', bool False), (''egress_disable'', bool False)]),
      super_tearDown]"

definition LAGDisableEgressLagMember_disableEgressLagMemberTest :: "'d stmt" where
  "LAGDisableEgressLagMember_disableEgressLagMemberTest = block [
      assign ''vlan_id'' (num 10),
      assign ''src_mac'' (str ''00:11:11:11:11:11''),
      assign ''dst_mac'' (str ''00:22:22:22:22:22''),
      assign ''pkt'' (lib ''simple_udp_packet'' [] [(''eth_dst'', var ''dst_mac''), (''eth_src'', var ''src_mac''), (''pktlen'',
        num 100)]),
      assign ''tag_pkt'' (lib ''simple_udp_packet'' [] [(''eth_dst'', var ''dst_mac''), (''eth_src'', var ''src_mac''),
        (''dl_vlan_enable'', bool True), (''vlan_vid'', var ''vlan_id''), (''pktlen'', num 104)]),
      print [self ''dev_port0'', var ''src_mac'', var ''dst_mac''],
      run (lib ''send_packet'' [self ''dev_port0'', var ''pkt''] []),
      run (lib ''verify_each_packet_on_multiple_port_lists'' [list_of [var ''tag_pkt'', var ''pkt''], list_of [list_of [self
        ''dev_port1''], list_of [self ''dev_port4'', self ''dev_port5'', self ''dev_port6'']]] []),
      print [self ''dev_port1'', var ''src_mac'', var ''dst_mac''],
      run (lib ''send_packet'' [self ''dev_port1'', var ''tag_pkt''] []),
      run (lib ''verify_each_packet_on_multiple_port_lists'' [list_of [var ''pkt'', var ''pkt''], list_of [list_of [self
        ''dev_port0''], list_of [self ''dev_port4'', self ''dev_port5'', self ''dev_port6'']]] []),
      print [self ''dev_port4'', var ''src_mac'', var ''dst_mac''],
      run (lib ''send_packet'' [self ''dev_port4'', var ''tag_pkt''] []),
      run (lib ''verify_each_packet_on_multiple_port_lists'' [list_of [var ''tag_pkt'', var ''pkt''], list_of [list_of [self
        ''dev_port1''], list_of [self ''dev_port0'']]] []),
      assign ''status'' (api_set ''lag_member'' (self ''lag1_member4'') [(''ingress_disable'', bool True), (''egress_disable'',
        bool True)]),
      assert_eq (var ''status'') (num SAI_STATUS_SUCCESS),
      assign ''status'' (api_set ''lag_member'' (self ''lag1_member5'') [(''ingress_disable'', bool True), (''egress_disable'',
        bool True)]),
      assert_eq (var ''status'') (num SAI_STATUS_SUCCESS),
      print [self ''dev_port1'', var ''src_mac'', var ''dst_mac''],
      run (lib ''send_packet'' [self ''dev_port1'', var ''tag_pkt''] []),
      run (lib ''verify_each_packet_on_multiple_port_lists'' [list_of [var ''pkt'', var ''pkt''], list_of [list_of [self
        ''dev_port0''], list_of [self ''dev_port6'']]] []),
      assign ''status'' (api_set ''lag_member'' (self ''lag1_member6'') [(''ingress_disable'', bool True), (''egress_disable'',
        bool True)]),
      assert_eq (var ''status'') (num SAI_STATUS_SUCCESS),
      print [self ''dev_port1'', var ''src_mac'', var ''dst_mac''],
      run (lib ''send_packet'' [self ''dev_port1'', var ''tag_pkt''] []),
      run (lib ''verify_each_packet_on_multiple_port_lists'' [list_of [var ''pkt''], list_of [list_of [self ''dev_port0'']]] []),
      assign ''status'' (api_set ''lag_member'' (self ''lag1_member4'') [(''ingress_disable'', bool False), (''egress_disable'',
        bool False)]),
      assert_eq (var ''status'') (num SAI_STATUS_SUCCESS),
      assign ''status'' (api_set ''lag_member'' (self ''lag1_member5'') [(''ingress_disable'', bool False), (''egress_disable'',
        bool False)]),
      assert_eq (var ''status'') (num SAI_STATUS_SUCCESS),
      assign ''status'' (api_set ''lag_member'' (self ''lag1_member6'') [(''ingress_disable'', bool False), (''egress_disable'',
        bool False)]),
      assert_eq (var ''status'') (num SAI_STATUS_SUCCESS),
      print [self ''dev_port0'', var ''src_mac'', var ''dst_mac''],
      run (lib ''send_packet'' [self ''dev_port0'', var ''pkt''] []),
      run (lib ''verify_each_packet_on_multiple_port_lists'' [list_of [var ''tag_pkt'', var ''pkt''], list_of [list_of [self
        ''dev_port1''], list_of [self ''dev_port4'', self ''dev_port5'', self ''dev_port6'']]] [])]"

definition LAGDisableEgressLagMember_multipleVlanTest :: "'d stmt" where
  "LAGDisableEgressLagMember_multipleVlanTest = block [
      assign ''vlan10_id'' (num 10),
      assign ''vlan20_id'' (num 20),
      assign ''src_mac'' (str ''00:11:11:11:11:11''),
      assign ''dst_mac'' (str ''00:22:22:22:22:22''),
      assign ''pkt'' (lib ''simple_udp_packet'' [] [(''eth_dst'', var ''dst_mac''), (''eth_src'', var ''src_mac''), (''pktlen'',
        num 100)]),
      assign ''tag_pkt_vlan10'' (lib ''simple_udp_packet'' [] [(''eth_dst'', var ''dst_mac''), (''eth_src'', var ''src_mac''),
        (''dl_vlan_enable'', bool True), (''vlan_vid'', var ''vlan10_id''), (''pktlen'', num 104)]),
      assign ''tag_pkt_vlan20'' (lib ''simple_udp_packet'' [] [(''eth_dst'', var ''dst_mac''), (''eth_src'', var ''src_mac''),
        (''dl_vlan_enable'', bool True), (''vlan_vid'', var ''vlan20_id''), (''pktlen'', num 104)]),
      assign ''tag_pkt_vlan50'' (lib ''simple_udp_packet'' [] [(''eth_dst'', var ''dst_mac''), (''eth_src'', var ''src_mac''),
        (''dl_vlan_enable'', bool True), (''vlan_vid'', num 50), (''pktlen'', num 104)]),
      run (api_set ''lag'' (self ''lag1'') [(''port_vlan_id'', var ''vlan20_id'')]),
      assign ''vlan20_member3'' (api_create ''vlan_member'' [(''vlan_id'', self ''vlan20''), (''bridge_port_id'', self
        ''lag1_bp''), (''vlan_tagging_mode'', num SAI_VLAN_TAGGING_MODE_TAGGED)]),
      try_finally [
        print [self ''dev_port0'', var ''src_mac'', var ''dst_mac''],
        run (lib ''send_packet'' [self ''dev_port0'', var ''pkt''] []),
        run (lib ''verify_each_packet_on_multiple_port_lists'' [list_of [var ''tag_pkt_vlan10'', var ''pkt''], list_of [list_of
          [self ''dev_port1''], list_of [self ''dev_port4'', self ''dev_port5'', self ''dev_port6'']]] []),
        print [self ''dev_port0'', var ''src_mac'', var ''dst_mac''],
        run (lib ''send_packet'' [self ''dev_port0'', var ''tag_pkt_vlan10''] []),
        run (lib ''verify_each_packet_on_multiple_port_lists'' [list_of [var ''tag_pkt_vlan10'', var ''pkt''], list_of [list_of
          [self ''dev_port1''], list_of [self ''dev_port4'', self ''dev_port5'', self ''dev_port6'']]] []),
        print [self ''dev_port2'', var ''src_mac'', var ''dst_mac''],
        run (lib ''send_packet'' [self ''dev_port2'', var ''pkt''] []),
        run (lib ''verify_each_packet_on_multiple_port_lists'' [list_of [var ''tag_pkt_vlan20'', var ''tag_pkt_vlan20'', var
          ''tag_pkt_vlan20''], list_of [list_of [self ''dev_port3''], list_of [self ''dev_port4'', self ''dev_port5'', self
          ''dev_port6''], list_of [self ''dev_port7'', self ''dev_port8'', self ''dev_port9'']]] []),
        print [self ''dev_port2'', var ''src_mac'', var ''dst_mac''],
        run (lib ''send_packet'' [self ''dev_port2'', var ''tag_pkt_vlan20''] []),
        run (lib ''verify_each_packet_on_multiple_port_lists'' [list_of [var ''tag_pkt_vlan20'', var ''tag_pkt_vlan20'', var
          ''tag_pkt_vlan20''], list_of [list_of [self ''dev_port3''], list_of [self ''dev_port4'', self ''dev_port5'', self
          ''dev_port6''], list_of [self ''dev_port7'', self ''dev_port8'', self ''dev_port9'']]] []),
        print [self ''dev_port2'', var ''src_mac'', var ''dst_mac''],
        run (lib ''send_packet'' [self ''dev_port2'', var ''tag_pkt_vlan50''] []),
        run (lib ''verify_no_other_packets'' [] [(''timeout'', num 1)]),
        print [self ''dev_port0'', var ''src_mac'', var ''dst_mac''],
        run (lib ''send_packet'' [self ''dev_port0'', var ''tag_pkt_vlan50''] []),
        run (lib ''verify_no_other_packets'' [] [(''timeout'', num 1)])] [
        run (api_remove ''vlan_member'' (var ''vlan20_member3'')),
        run (api_set ''lag'' (self ''lag1'') [(''port_vlan_id'', num 0)])]]"

definition LAGAttrPortList_runTest :: "'d stmt" where
  "LAGAttrPortList_runTest = block [
      assign ''portlist'' (struct ''sai_thrift_object_list_t'' [(''count'', num 100)]),
      assign ''attr_list'' (api_get ''lag'' (self ''lag1'') [(''port_list'', var ''portlist'')]),
      assign ''lag_members'' (field (item (var ''attr_list'') (str ''SAI_LAG_ATTR_PORT_LIST'')) ''idlist''),
      assign ''count'' (field (item (var ''attr_list'') (str ''SAI_LAG_ATTR_PORT_LIST'')) ''count''),
      assert (eq (var ''count'') (num 3)),
      assert (eq (self ''lag1_member4'') (item (var ''lag_members'') (num 0))),
      assert (eq (self ''lag1_member5'') (item (var ''lag_members'') (num 1))),
      assert (eq (self ''lag1_member6'') (item (var ''lag_members'') (num 2))),
      assign ''attr_list'' (api_get ''lag'' (self ''lag2'') [(''port_list'', var ''portlist'')]),
      assign ''lag_members'' (field (item (var ''attr_list'') (str ''SAI_LAG_ATTR_PORT_LIST'')) ''idlist''),
      assign ''count'' (field (item (var ''attr_list'') (str ''SAI_LAG_ATTR_PORT_LIST'')) ''count''),
      assert (eq (var ''count'') (num 3)),
      assert (eq (self ''lag2_member7'') (item (var ''lag_members'') (num 0))),
      assert (eq (self ''lag2_member8'') (item (var ''lag_members'') (num 1))),
      assert (eq (self ''lag2_member9'') (item (var ''lag_members'') (num 2)))]"

definition LAGL2LoadBalancing_setUp :: "'d stmt" where
  "LAGL2LoadBalancing_setUp = block [
      super_setUp,
      run (api_remove ''vlan_member'' (self ''vlan10_member1'')),
      run (api_remove ''bridge_port'' (self ''port1_bp'')),
      assign ''attr_list'' (api_get ''switch'' none [(''lag_hash'', bool True)]),
      print [var ''attr_list''],
      assign ''hash_id'' (item (var ''attr_list'') (str ''SAI_SWITCH_ATTR_LAG_HASH'')),
      print [var ''hash_id''],
      assign ''hash_attr_list'' (list_of []),
      assign ''s32list'' (struct ''sai_thrift_s32_list_t'' [(''count'', num 100), (''int32list'', var ''hash_attr_list'')]),
      assign ''hash_data'' (api_get ''hash'' (var ''hash_id'') [(''native_hash_field_list'', var ''s32list'')]),
      assign ''data_val'' (field (item (var ''hash_data'') (str ''native_hash_field_list'')) ''int32list''),
      print [var ''hash_data''],
      print [var ''data_val''],
      assign ''hash_attr_list'' (list_of [num SAI_NATIVE_HASH_FIELD_DST_MAC]),
      assign ''hash_field_list'' (struct ''sai_thrift_s32_list_t'' [(''count'', length_of (var ''hash_attr_list'')),
        (''int32list'', var ''hash_attr_list'')]),
      assign ''status'' (api_set ''hash'' (var ''hash_id'') [(''native_hash_field_list'', var ''hash_field_list'')]),
      assert_eq (var ''status'') (num SAI_STATUS_SUCCESS),
      assign ''hash_field_list'' (struct ''sai_thrift_s32_list_t'' [(''count'', length_of (var ''hash_attr_list'')),
        (''int32list'', var ''hash_attr_list'')]),
      assign ''hash_data'' (api_get ''hash'' (var ''hash_id'') [(''native_hash_field_list'', var ''hash_field_list'')]),
      assign ''data_val'' (field (item (var ''hash_data'') (str ''native_hash_field_list'')) ''int32list''),
      print [var ''hash_data''],
      print [var ''data_val'']]"

definition LAGL2LoadBalancing_runTest :: "'d stmt" where
  "LAGL2LoadBalancing_runTest = block [
      try_finally [
        assign ''mac_list'' (list_of []),
        assign ''max_itrs'' (num 150),
        for_in [''i''] (range_of (num 0) (var ''max_itrs'')) [
          assign ''mac_list'' (appended (var ''mac_list'') (formatted ''00:11:11:%02x:%02x:%02x'' [bit_and (num 255) (mul (var
            ''i'') (num 17)), add (var ''i'') (num 1), bit_and (num 255) (add (var ''i'') (num 17))]))],
        assign ''count'' (list_of [num 0, num 0, num 0]),
        for_in [''i''] (range_of (num 0) (var ''max_itrs'')) [
          assign ''dmac'' (item (var ''mac_list'') (var ''i'')),
          assign ''pkt'' (lib ''simple_udp_packet'' [] [(''eth_dst'', var ''dmac''), (''eth_src'', str ''00:22:22:22:22:22''),
            (''vlan_vid'', num 10), (''pktlen'', num 100)]),
          assign ''exp_pkt'' (lib ''simple_udp_packet'' [] [(''eth_dst'', var ''dmac''), (''eth_src'', str
            ''00:22:22:22:22:22''), (''pktlen'', num 100)]),
          run (lib ''send_packet'' [self ''dev_port0'', var ''pkt''] []),
          assign ''rcv_idx'' (lib ''verify_any_packet_any_port'' [list_of [var ''exp_pkt''], list_of [self ''dev_port4'', self
            ''dev_port5'', self ''dev_port6'']] [(''timeout'', num 5)]),
          assign ''count'' (with_item (var ''count'') (var ''rcv_idx'') (add (item (var ''count'') (var ''rcv_idx'')) (num 1)))],
        print [var ''count''],
        for_in [''i''] (range_of (num 0) (num 3)) [
          assert (ge (item (var ''count'') (var ''i'')) (mul (divide (var ''max_itrs'') (num 3)) (flt (4 / 5))))]] [
        set_self ''port1_bp'' (api_create ''bridge_port'' [(''bridge_id'', self ''default_1q_bridge''), (''port_id'', self
          ''port1''), (''type'', num SAI_BRIDGE_PORT_TYPE_PORT), (''admin_state'', bool True)]),
        set_self ''vlan10_member1'' (api_create ''vlan_member'' [(''vlan_id'', self ''vlan10''), (''bridge_port_id'', self
          ''port1_bp''), (''vlan_tagging_mode'', num SAI_VLAN_TAGGING_MODE_TAGGED)])]]"

definition LAGL3LoadBalancing_setUp :: "'d stmt" where
  "LAGL3LoadBalancing_setUp = block [
      super_setUp,
      run (api_remove ''vlan_member'' (self ''vlan10_member1'')),
      run (api_remove ''bridge_port'' (self ''port1_bp''))]"

definition LAGL3LoadBalancing_tearDown :: "'d stmt" where
  "LAGL3LoadBalancing_tearDown = block [
      set_self ''port1_bp'' (api_create ''bridge_port'' [(''bridge_id'', self ''default_1q_bridge''), (''port_id'', self
        ''port1''), (''type'', num SAI_BRIDGE_PORT_TYPE_PORT), (''admin_state'', bool True)]),
      set_self ''vlan10_member1'' (api_create ''vlan_member'' [(''vlan_id'', self ''vlan10''), (''bridge_port_id'', self
        ''port1_bp''), (''vlan_tagging_mode'', num SAI_VLAN_TAGGING_MODE_TAGGED)]),
      super_tearDown]"

definition LagL3Nhop_setUp :: "'d stmt" where
  "LagL3Nhop_setUp = block [
      super_setUp,
      set_self ''max_itrs'' (num 50),
      set_self ''nhop10'' (api_create ''next_hop'' [(''ip'', ip_address (str ''11.11.11.1'')), (''router_interface_id'', self
        ''port10_rif''), (''type'', num SAI_NEXT_HOP_TYPE_IP)]),
      set_self ''neighbor_entry10'' (struct ''sai_thrift_neighbor_entry_t'' [(''rif_id'', self ''port10_rif''), (''ip_address'',
        ip_address (str ''11.11.11.1''))]),
      run (api_create_entry ''neighbor_entry'' (self ''neighbor_entry10'') [(''dst_mac_address'', str ''00:11:11:11:11:11'')]),
      set_self ''route_entry10'' (struct ''sai_thrift_route_entry_t'' [(''vr_id'', self ''default_vrf''), (''destination'',
        ip_prefix (str ''11.11.11.1/32''))]),
      run (api_create_entry ''route_entry'' (self ''route_entry10'') [(''next_hop_id'', self ''nhop10'')]),
      set_self ''lag1_rif'' (api_create ''router_interface'' [(''type'', num SAI_ROUTER_INTERFACE_TYPE_PORT),
        (''virtual_router_id'', self ''default_vrf''), (''port_id'', self ''lag1'')]),
      set_self ''nhop1'' (api_create ''next_hop'' [(''ip'', ip_address (str ''22.22.22.1'')), (''router_interface_id'', self
        ''lag1_rif''), (''type'', num SAI_NEXT_HOP_TYPE_IP)]),
      set_self ''neighbor_entry1'' (struct ''sai_thrift_neighbor_entry_t'' [(''rif_id'', self ''lag1_rif''), (''ip_address'',
        ip_address (str ''22.22.22.1''))]),
      run (api_create_entry ''neighbor_entry'' (self ''neighbor_entry1'') [(''dst_mac_address'', str ''00:22:22:22:22:22'')]),
      set_self ''route_entry1'' (struct ''sai_thrift_route_entry_t'' [(''vr_id'', self ''default_vrf''), (''destination'',
        ip_prefix (str ''22.22.0.0/16''))]),
      run (api_create_entry ''route_entry'' (self ''route_entry1'') [(''next_hop_id'', self ''nhop1'')]),
      set_self ''lag2_rif'' (api_create ''router_interface'' [(''type'', num SAI_ROUTER_INTERFACE_TYPE_PORT),
        (''virtual_router_id'', self ''default_vrf''), (''port_id'', self ''lag2'')]),
      set_self ''nhop2'' (api_create ''next_hop'' [(''ip'', ip_address (str ''33.33.33.1'')), (''router_interface_id'', self
        ''lag2_rif''), (''type'', num SAI_NEXT_HOP_TYPE_IP)]),
      set_self ''neighbor_entry2'' (struct ''sai_thrift_neighbor_entry_t'' [(''rif_id'', self ''lag2_rif''), (''ip_address'',
        ip_address (str ''33.33.33.1''))]),
      run (api_create_entry ''neighbor_entry'' (self ''neighbor_entry2'') [(''dst_mac_address'', str ''00:33:33:33:33:33'')]),
      set_self ''route_entry2'' (struct ''sai_thrift_route_entry_t'' [(''vr_id'', self ''default_vrf''), (''destination'',
        ip_prefix (str ''33.33.0.0/16''))]),
      run (api_create_entry ''route_entry'' (self ''route_entry2'') [(''next_hop_id'', self ''nhop2'')]),
      set_self ''nhop3'' (api_create ''next_hop'' [(''ip'', ip_address (str ''44.44.44.1'')), (''router_interface_id'', self
        ''lag3_rif''), (''type'', num SAI_NEXT_HOP_TYPE_IP)]),
      set_self ''neighbor_entry3'' (struct ''sai_thrift_neighbor_entry_t'' [(''rif_id'', self ''lag3_rif''), (''ip_address'',
        ip_address (str ''44.44.44.1''))]),
      run (api_create_entry ''neighbor_entry'' (self ''neighbor_entry3'') [(''dst_mac_address'', str ''00:44:44:44:44:44'')]),
      set_self ''route_entry3'' (struct ''sai_thrift_route_entry_t'' [(''vr_id'', self ''default_vrf''), (''destination'',
        ip_prefix (str ''44.44.0.0/16''))]),
      run (api_create_entry ''route_entry'' (self ''route_entry3'') [(''next_hop_id'', self ''nhop3'')]),
      set_self ''nhop4'' (api_create ''next_hop'' [(''ip'', ip_address (str ''55.55.55.1'')), (''router_interface_id'', self
        ''lag4_rif''), (''type'', num SAI_NEXT_HOP_TYPE_IP)]),
      set_self ''neighbor_entry4'' (struct ''sai_thrift_neighbor_entry_t'' [(''rif_id'', self ''lag4_rif''), (''ip_address'',
        ip_address (str ''55.55.55.1''))]),
      run (api_create_entry ''neighbor_entry'' (self ''neighbor_entry4'') [(''dst_mac_address'', str ''00:55:55:55:55:55'')]),
      set_self ''route_entry4'' (struct ''sai_thrift_route_entry_t'' [(''vr_id'', self ''default_vrf''), (''destination'',
        ip_prefix (str ''55.55.0.0/16''))]),
      run (api_create_entry ''route_entry'' (self ''route_entry4'') [(''next_hop_id'', self ''nhop4'')])]"

definition LagL3Nhop_tearDown :: "'d stmt" where
  "LagL3Nhop_tearDown = block [
      run (api_remove ''route_entry'' (self ''route_entry4'')),
      run (api_remove ''route_entry'' (self ''route_entry3'')),
      run (api_remove ''route_entry'' (self ''route_entry2'')),
      run (api_remove ''route_entry'' (self ''route_entry1'')),
      run (api_remove ''route_entry'' (self ''route_entry10'')),
      run (api_remove ''neighbor_entry'' (self ''neighbor_entry4'')),
      run (api_remove ''neighbor_entry'' (self ''neighbor_entry3'')),
      run (api_remove ''neighbor_entry'' (self ''neighbor_entry2'')),
      run (api_remove ''neighbor_entry'' (self ''neighbor_entry1'')),
      run (api_remove ''neighbor_entry'' (self ''neighbor_entry10'')),
      run (api_remove ''next_hop'' (self ''nhop4'')),
      run (api_remove ''next_hop'' (self ''nhop3'')),
      run (api_remove ''next_hop'' (self ''nhop2'')),
      run (api_remove ''next_hop'' (self ''nhop1'')),
      run (api_remove ''next_hop'' (self ''nhop10'')),
      run (api_remove ''router_interface'' (self ''lag2_rif'')),
      run (api_remove ''router_interface'' (self ''lag1_rif'')),
      super_tearDown]"

end
