(* ===== verification/TestsMirror.thy ===== *)
theory TestsMirror
  imports PtfOwn PtfConstants
begin

text \<open>
  The tests of mirror sessions, \<open>ptf/saimirror.py\<close>: a definition per method, statement by statement in the language of
  \<open>PtfScript\<close>, named after its class. A parameter \<open>m_f\<close> is a method \<open>f\<close> that derived classes define anew.
\<close>

section \<open>The tests\<close>

definition MirrorConfigData_setUp :: "'d stmt" where
  "MirrorConfigData_setUp = block [
      super_setUp,
      set_self ''mac2'' (str ''00:00:00:00:00:22''),
      set_self ''mac3'' (str ''00:00:00:00:00:33''),
      assign ''mac_action'' (num SAI_PACKET_ACTION_FORWARD),
      set_self ''status_success'' (num SAI_STATUS_SUCCESS),
      assign ''vlan_tag'' (num SAI_VLAN_TAGGING_MODE_TAGGED),
      assign ''port_type'' (num SAI_BRIDGE_PORT_TYPE_PORT),
      set_self ''gre_proto_type_0x88be'' (num (-30530)),
      set_self ''vlan_tpid_0x8100'' (num (-32512)),
      set_self ''bridge_ports'' (list_of []),
      set_self ''port24_bp'' (api_create ''bridge_port'' [(''bridge_id'', self ''default_1q_bridge''), (''port_id'', self
        ''port24''), (''type'', var ''port_type'')]),
      assert_ne (self ''port24_bp'') (num 0),
      set_self ''bridge_ports'' (appended (self ''bridge_ports'') (self ''port24_bp'')),
      set_self ''port25_bp'' (api_create ''bridge_port'' [(''bridge_id'', self ''default_1q_bridge''), (''port_id'', self
        ''port25''), (''type'', var ''port_type'')]),
      assert_ne (self ''port25_bp'') (num 0),
      set_self ''bridge_ports'' (appended (self ''bridge_ports'') (self ''port25_bp'')),
      set_self ''port26_bp'' (api_create ''bridge_port'' [(''bridge_id'', self ''default_1q_bridge''), (''port_id'', self
        ''port26''), (''type'', var ''port_type'')]),
      assert_ne (self ''port26_bp'') (num 0),
      set_self ''bridge_ports'' (appended (self ''bridge_ports'') (self ''port26_bp'')),
      set_self ''port27_bp'' (api_create ''bridge_port'' [(''bridge_id'', self ''default_1q_bridge''), (''port_id'', self
        ''port27''), (''type'', var ''port_type'')]),
      assert_ne (self ''port27_bp'') (num 0),
      set_self ''bridge_ports'' (appended (self ''bridge_ports'') (self ''port27_bp'')),
      set_self ''port28_bp'' (api_create ''bridge_port'' [(''bridge_id'', self ''default_1q_bridge''), (''port_id'', self
        ''port28''), (''type'', var ''port_type'')]),
      assert_ne (self ''port28_bp'') (num 0),
      set_self ''bridge_ports'' (appended (self ''bridge_ports'') (self ''port28_bp'')),
      set_self ''port29_bp'' (api_create ''bridge_port'' [(''bridge_id'', self ''default_1q_bridge''), (''port_id'', self
        ''port29''), (''type'', var ''port_type'')]),
      assert_ne (self ''port29_bp'') (num 0),
      set_self ''bridge_ports'' (appended (self ''bridge_ports'') (self ''port29_bp'')),
      set_self ''port30_bp'' (api_create ''bridge_port'' [(''bridge_id'', self ''default_1q_bridge''), (''port_id'', self
        ''port30''), (''type'', var ''port_type'')]),
      assert_ne (self ''port30_bp'') (num 0),
      set_self ''bridge_ports'' (appended (self ''bridge_ports'') (self ''port30_bp'')),
      set_self ''port31_bp'' (api_create ''bridge_port'' [(''bridge_id'', self ''default_1q_bridge''), (''port_id'', self
        ''port31''), (''type'', var ''port_type'')]),
      assert_ne (self ''port31_bp'') (num 0),
      set_self ''bridge_ports'' (appended (self ''bridge_ports'') (self ''port31_bp'')),
      set_self ''vlan40'' (api_create ''vlan'' [(''vlan_id'', num 40)]),
      assert_ne (self ''vlan40'') (num 0),
      set_self ''vlan50'' (api_create ''vlan'' [(''vlan_id'', num 50)]),
      assert_ne (self ''vlan50'') (num 0),
      set_self ''vlan_members'' (list_of []),
      set_self ''vlan_member41'' (api_create ''vlan_member'' [(''vlan_id'', self ''vlan40''), (''bridge_port_id'', self
        ''port24_bp''), (''vlan_tagging_mode'', var ''vlan_tag'')]),
      assert_ne (self ''vlan_member41'') (num 0),
      set_self ''vlan_members'' (appended (self ''vlan_members'') (self ''vlan_member41'')),
      set_self ''vlan_member42'' (api_create ''vlan_member'' [(''vlan_id'', self ''vlan40''), (''bridge_port_id'', self
        ''port25_bp''), (''vlan_tagging_mode'', var ''vlan_tag'')]),
      assert_ne (self ''vlan_member42'') (num 0),
      set_self ''vlan_members'' (appended (self ''vlan_members'') (self ''vlan_member42'')),
      set_self ''vlan_member43'' (api_create ''vlan_member'' [(''vlan_id'', self ''vlan40''), (''bridge_port_id'', self
        ''port26_bp''), (''vlan_tagging_mode'', var ''vlan_tag'')]),
      assert_ne (self ''vlan_member43'') (num 0),
      set_self ''vlan_members'' (appended (self ''vlan_members'') (self ''vlan_member43'')),
      set_self ''vlan_member44'' (api_create ''vlan_member'' [(''vlan_id'', self ''vlan40''), (''bridge_port_id'', self
        ''port27_bp''), (''vlan_tagging_mode'', var ''vlan_tag'')]),
      assert_ne (self ''vlan_member44'') (num 0),
      set_self ''vlan_members'' (appended (self ''vlan_members'') (self ''vlan_member44'')),
      set_self ''vlan_member51'' (api_create ''vlan_member'' [(''vlan_id'', self ''vlan50''), (''bridge_port_id'', self
        ''port28_bp''), (''vlan_tagging_mode'', var ''vlan_tag'')]),
      assert_ne (self ''vlan_member51'') (num 0),
      set_self ''vlan_members'' (appended (self ''vlan_members'') (self ''vlan_member51'')),
      set_self ''vlan_member52'' (api_create ''vlan_member'' [(''vlan_id'', self ''vlan50''), (''bridge_port_id'', self
        ''port29_bp''), (''vlan_tagging_mode'', var ''vlan_tag'')]),
      assert_ne (self ''vlan_member52'') (num 0),
      set_self ''vlan_members'' (appended (self ''vlan_members'') (self ''vlan_member52'')),
      set_self ''vlan_member53'' (api_create ''vlan_member'' [(''vlan_id'', self ''vlan50''), (''bridge_port_id'', self
        ''port30_bp''), (''vlan_tagging_mode'', var ''vlan_tag'')]),
      assert_ne (self ''vlan_member53'') (num 0),
      set_self ''vlan_members'' (appended (self ''vlan_members'') (self ''vlan_member53'')),
      set_self ''vlan_member54'' (api_create ''vlan_member'' [(''vlan_id'', self ''vlan50''), (''bridge_port_id'', self
        ''port31_bp''), (''vlan_tagging_mode'', var ''vlan_tag'')]),
      assert_ne (self ''vlan_member54'') (num 0),
      set_self ''vlan_members'' (appended (self ''vlan_members'') (self ''vlan_member54'')),
      set_self ''fdb_entries'' (list_of []),
      set_self ''fdb_entry1'' (struct ''sai_thrift_fdb_entry_t'' [(''switch_id'', self ''switch_id''), (''mac_address'', self
        ''mac2''), (''bv_id'', self ''vlan40'')]),
      assign ''status'' (api_create_entry ''fdb_entry'' (self ''fdb_entry1'') [(''type'', num SAI_FDB_ENTRY_TYPE_STATIC),
        (''bridge_port_id'', self ''port25_bp''), (''packet_action'', var ''mac_action'')]),
      assert_eq (var ''status'') (self ''status_success''),
      set_self ''fdb_entries'' (appended (self ''fdb_entries'') (self ''fdb_entry1'')),
      set_self ''fdb_entry2'' (struct ''sai_thrift_fdb_entry_t'' [(''switch_id'', self ''switch_id''), (''mac_address'', self
        ''mac3''), (''bv_id'', self ''vlan40'')]),
      assign ''status'' (api_create_entry ''fdb_entry'' (self ''fdb_entry2'') [(''type'', num SAI_FDB_ENTRY_TYPE_STATIC),
        (''bridge_port_id'', self ''port26_bp''), (''packet_action'', var ''mac_action'')]),
      assert_eq (var ''status'') (self ''status_success''),
      set_self ''fdb_entries'' (appended (self ''fdb_entries'') (self ''fdb_entry2'')),
      set_self ''fdb_entry3'' (struct ''sai_thrift_fdb_entry_t'' [(''switch_id'', self ''switch_id''), (''mac_address'', self
        ''mac2''), (''bv_id'', self ''vlan50'')]),
      assign ''status'' (api_create_entry ''fdb_entry'' (self ''fdb_entry3'') [(''type'', num SAI_FDB_ENTRY_TYPE_STATIC),
        (''bridge_port_id'', self ''port29_bp''), (''packet_action'', var ''mac_action'')]),
      assert_eq (var ''status'') (self ''status_success''),
      set_self ''fdb_entries'' (appended (self ''fdb_entries'') (self ''fdb_entry3'')),
      set_self ''fdb_entry4'' (struct ''sai_thrift_fdb_entry_t'' [(''switch_id'', self ''switch_id''), (''mac_address'', self
        ''mac3''), (''bv_id'', self ''vlan50'')]),
      assign ''status'' (api_create_entry ''fdb_entry'' (self ''fdb_entry4'') [(''type'', num SAI_FDB_ENTRY_TYPE_STATIC),
        (''bridge_port_id'', self ''port30_bp''), (''packet_action'', var ''mac_action'')]),
      assert_eq (var ''status'') (self ''status_success''),
      set_self ''fdb_entries'' (appended (self ''fdb_entries'') (self ''fdb_entry4'')),
      set_self ''ports'' (list_of []),
      run (api_set ''port'' (self ''port24'') [(''port_vlan_id'', num 40)]),
      set_self ''ports'' (appended (self ''ports'') (self ''port24'')),
      run (api_set ''port'' (self ''port25'') [(''port_vlan_id'', num 40)]),
      set_self ''ports'' (appended (self ''ports'') (self ''port25'')),
      run (api_set ''port'' (self ''port26'') [(''port_vlan_id'', num 40)]),
      set_self ''ports'' (appended (self ''ports'') (self ''port26'')),
      run (api_set ''port'' (self ''port27'') [(''port_vlan_id'', num 40)]),
      set_self ''ports'' (appended (self ''ports'') (self ''port27'')),
      run (api_set ''port'' (self ''port28'') [(''port_vlan_id'', num 50)]),
      set_self ''ports'' (appended (self ''ports'') (self ''port28'')),
      run (api_set ''port'' (self ''port29'') [(''port_vlan_id'', num 50)]),
      set_self ''ports'' (appended (self ''ports'') (self ''port29'')),
      run (api_set ''port'' (self ''port30'') [(''port_vlan_id'', num 50)]),
      set_self ''ports'' (appended (self ''ports'') (self ''port30'')),
      run (api_set ''port'' (self ''port31'') [(''port_vlan_id'', num 50)]),
      set_self ''ports'' (appended (self ''ports'') (self ''port31'')),
      set_self ''vr_id'' (api_create ''virtual_router'' [(''admin_v4_state'', bool True), (''admin_v6_state'', bool True)]),
      assign ''dst_ip'' (str ''172.16.1.1''),
      assign ''dst_mask_ip'' (str ''172.16.1.1/24''),
      set_self ''neighbor_dmac'' (str ''00:11:22:33:44:55''),
      set_self ''neighbor_entry1'' (struct ''sai_thrift_neighbor_entry_t'' [(''switch_id'', self ''switch_id''), (''rif_id'',
        self ''port11_rif''), (''ip_address'', ip_address (var ''dst_ip''))]),
      run (api_create_entry ''neighbor_entry'' (self ''neighbor_entry1'') [(''dst_mac_address'', self ''neighbor_dmac'')]),
      set_self ''nhop'' (api_create ''next_hop'' [(''type'', num SAI_NEXT_HOP_TYPE_IP), (''router_interface_id'', self
        ''port11_rif''), (''ip'', ip_address (var ''dst_ip''))]),
      assign ''dst_ip_egr'' (str ''192.168.0.1''),
      assign ''dst_mask_ip_egr'' (str ''192.168.0.1/24''),
      set_self ''neighbor_dmac_egr'' (str ''00:55:44:33:22:11''),
      set_self ''neighbor_entry2'' (struct ''sai_thrift_neighbor_entry_t'' [(''switch_id'', self ''switch_id''), (''rif_id'',
        self ''port12_rif''), (''ip_address'', ip_address (var ''dst_ip_egr''))]),
      run (api_create_entry ''neighbor_entry'' (self ''neighbor_entry2'') [(''dst_mac_address'', self ''neighbor_dmac_egr'')]),
      set_self ''nhop2'' (api_create ''next_hop'' [(''type'', num SAI_NEXT_HOP_TYPE_IP), (''router_interface_id'', self
        ''port12_rif''), (''ip'', ip_address (var ''dst_ip_egr''))]),
      set_self ''route'' (struct ''sai_thrift_route_entry_t'' [(''switch_id'', self ''switch_id''), (''destination'', ip_prefix
        (var ''dst_mask_ip'')), (''vr_id'', self ''vr_id'')]),
      assign ''status'' (api_create_entry ''route_entry'' (self ''route'') [(''next_hop_id'', self ''nhop'')]),
      assert_eq (var ''status'') (self ''status_success''),
      set_self ''route2'' (struct ''sai_thrift_route_entry_t'' [(''switch_id'', self ''switch_id''), (''destination'', ip_prefix
        (var ''dst_mask_ip_egr'')), (''vr_id'', self ''vr_id'')]),
      assign ''status'' (api_create_entry ''route_entry'' (self ''route2'') [(''next_hop_id'', self ''nhop2'')]),
      assert_eq (var ''status'') (self ''status_success''),
      assign ''src_ipv4'' (struct ''sai_thrift_ip_addr_t'' [(''ip4'', str ''17.18.19.0'')]),
      assign ''dst_ipv4'' (struct ''sai_thrift_ip_addr_t'' [(''ip4'', str ''33.19.20.0'')]),
      assign ''addr_fam'' (num SAI_IP_ADDR_FAMILY_IPV4),
      set_self ''src_ip_addr'' (struct ''sai_thrift_ip_address_t'' [(''addr_family'', var ''addr_fam''), (''addr'', var
        ''src_ipv4'')]),
      set_self ''dst_ip_addr'' (struct ''sai_thrift_ip_address_t'' [(''addr_family'', var ''addr_fam''), (''addr'', var
        ''dst_ipv4'')]),
      assign ''src_ipv4_egr'' (struct ''sai_thrift_ip_addr_t'' [(''ip4'', str ''33.19.20.0'')]),
      assign ''dst_ipv4_egr'' (struct ''sai_thrift_ip_addr_t'' [(''ip4'', str ''17.18.19.0'')]),
      set_self ''src_ip_addr_egr'' (struct ''sai_thrift_ip_address_t'' [(''addr_family'', var ''addr_fam''), (''addr'', var
        ''src_ipv4_egr'')]),
      set_self ''dst_ip_addr_egr'' (struct ''sai_thrift_ip_address_t'' [(''addr_family'', var ''addr_fam''), (''addr'', var
        ''dst_ipv4_egr'')]),
      set_self ''lags'' (list_of []),
      set_self ''lag10'' (api_create ''lag'' []),
      assert_ne (self ''lag10'') (num 0),
      set_self ''lags'' (appended (self ''lags'') (self ''lag10'')),
      set_self ''lag10_bp'' (api_create ''bridge_port'' [(''bridge_id'', self ''default_1q_bridge''), (''port_id'', self
        ''lag10''), (''type'', num SAI_BRIDGE_PORT_TYPE_PORT)]),
      assert_ne (self ''lag10_bp'') (num 0),
      set_self ''bridge_ports'' (appended (self ''bridge_ports'') (self ''lag10_bp'')),
      set_self ''vlan_member041'' (api_create ''vlan_member'' [(''vlan_id'', self ''vlan40''), (''bridge_port_id'', self
        ''lag10_bp''), (''vlan_tagging_mode'', var ''vlan_tag'')]),
      assert_ne (self ''vlan_member041'') (num 0),
      set_self ''vlan_members'' (appended (self ''vlan_members'') (self ''vlan_member041'')),
      set_self ''lag10_upd'' (api_create ''lag'' []),
      assert_ne (self ''lag10_upd'') (num 0),
      set_self ''lags'' (appended (self ''lags'') (self ''lag10_upd'')),
      set_self ''lag10_bp_upd'' (api_create ''bridge_port'' [(''bridge_id'', self ''default_1q_bridge''), (''port_id'', self
        ''lag10_upd''), (''type'', num SAI_BRIDGE_PORT_TYPE_PORT)]),
      assert_ne (self ''lag10_bp_upd'') (num 0),
      set_self ''bridge_ports'' (appended (self ''bridge_ports'') (self ''lag10_bp_upd'')),
      set_self ''vlan_member042'' (api_create ''vlan_member'' [(''vlan_id'', self ''vlan40''), (''bridge_port_id'', self
        ''lag10_bp_upd''), (''vlan_tagging_mode'', var ''vlan_tag'')]),
      assert_ne (self ''vlan_member042'') (num 0),
      set_self ''vlan_members'' (appended (self ''vlan_members'') (self ''vlan_member042'')),
      set_self ''lag11'' (api_create ''lag'' []),
      assert_ne (self ''lag11'') (num 0),
      set_self ''lags'' (appended (self ''lags'') (self ''lag11'')),
      set_self ''lag11_bp'' (api_create ''bridge_port'' [(''bridge_id'', self ''default_1q_bridge''), (''port_id'', self
        ''lag11''), (''type'', num SAI_BRIDGE_PORT_TYPE_PORT)]),
      assert_ne (self ''lag11_bp'') (num 0),
      set_self ''bridge_ports'' (appended (self ''bridge_ports'') (self ''lag11_bp'')),
      set_self ''vlan_member051'' (api_create ''vlan_member'' [(''vlan_id'', self ''vlan50''), (''bridge_port_id'', self
        ''lag11_bp''), (''vlan_tagging_mode'', var ''vlan_tag'')]),
      assert_ne (self ''vlan_member051'') (num 0),
      set_self ''vlan_members'' (appended (self ''vlan_members'') (self ''vlan_member051'')),
      set_self ''lag11_upd'' (api_create ''lag'' []),
      assert_ne (self ''lag11_upd'') (num 0),
      set_self ''lags'' (appended (self ''lags'') (self ''lag11_upd'')),
      set_self ''lag11_bp_upd'' (api_create ''bridge_port'' [(''bridge_id'', self ''default_1q_bridge''), (''port_id'', self
        ''lag11_upd''), (''type'', num SAI_BRIDGE_PORT_TYPE_PORT)]),
      assert_ne (self ''lag11_bp_upd'') (num 0),
      set_self ''bridge_ports'' (appended (self ''bridge_ports'') (self ''lag11_bp_upd'')),
      set_self ''vlan_member052'' (api_create ''vlan_member'' [(''vlan_id'', self ''vlan50''), (''bridge_port_id'', self
        ''lag11_bp_upd''), (''vlan_tagging_mode'', var ''vlan_tag'')]),
      assert_ne (self ''vlan_member052'') (num 0),
      set_self ''vlan_members'' (appended (self ''vlan_members'') (self ''vlan_member052'')),
      set_self ''pol_id'' (api_create ''policer'' [(''meter_type'', num SAI_METER_TYPE_PACKETS), (''mode'', num
        SAI_POLICER_MODE_SR_TCM), (''cir'', num 1), (''pir'', num 1), (''green_packet_action'', num SAI_PACKET_ACTION_FORWARD),
        (''red_packet_action'', num SAI_PACKET_ACTION_FORWARD)])]"

definition MirrorConfigData_localIngressPortMirroringTest :: "'d stmt" where
  "MirrorConfigData_localIngressPortMirroringTest = block [
      assign ''span_id_ingress'' (api_create ''mirror_session'' [(''monitor_port'', self ''port24''), (''type'', num
        SAI_MIRROR_SESSION_TYPE_LOCAL)]),
      assign ''obj_list'' (struct ''sai_thrift_object_list_t'' [(''count'', num 1), (''idlist'', list_of [var
        ''span_id_ingress''])]),
      run (api_set ''port'' (self ''port25'') [(''ingress_mirror_session'', var ''obj_list'')]),
      try_finally [
        assign ''pkt'' (lib ''simple_tcp_packet'' [] [(''eth_dst'', str ''00:00:00:00:00:33''), (''eth_src'', str
          ''00:00:00:00:00:22''), (''ip_dst'', str ''10.0.0.1''), (''dl_vlan_enable'', bool True), (''vlan_vid'', num 40),
          (''ip_id'', num 101), (''ip_ttl'', num 64)]),
        assign ''exp_pkt'' (lib ''simple_tcp_packet'' [] [(''eth_dst'', str ''00:00:00:00:00:33''), (''eth_src'', str
          ''00:00:00:00:00:22''), (''ip_dst'', str ''10.0.0.1''), (''dl_vlan_enable'', bool True), (''vlan_vid'', num 40),
          (''ip_id'', num 101), (''ip_ttl'', num 64)]),
        run (lib ''send_packet'' [self ''dev_port25'', var ''pkt''] []),
        run (lib ''verify_packets'' [var ''exp_pkt''] [(''ports'', list_of [self ''dev_port24'', self ''dev_port26''])])] [
        assign ''obj_list'' (struct ''sai_thrift_object_list_t'' [(''count'', num 0), (''idlist'', list_of [var
          ''span_id_ingress''])]),
        run (api_set ''port'' (self ''port25'') [(''ingress_mirror_session'', var ''obj_list'')]),
        run (api_remove ''mirror_session'' (var ''span_id_ingress''))]]"

definition MirrorConfigData_localEgressPortMirroringTest :: "'d stmt" where
  "MirrorConfigData_localEgressPortMirroringTest = block [
      assign ''span_id_egress'' (api_create ''mirror_session'' [(''monitor_port'', self ''port24''), (''type'', num
        SAI_MIRROR_SESSION_TYPE_LOCAL)]),
      assign ''obj_list'' (struct ''sai_thrift_object_list_t'' [(''count'', num 1), (''idlist'', list_of [var
        ''span_id_egress''])]),
      run (api_set ''port'' (self ''port25'') [(''egress_mirror_session'', var ''obj_list'')]),
      try_finally [
        assign ''pkt'' (lib ''simple_tcp_packet'' [] [(''eth_dst'', str ''00:00:00:00:00:22''), (''eth_src'', str
          ''00:00:00:00:00:33''), (''ip_dst'', str ''10.0.0.1''), (''dl_vlan_enable'', bool True), (''vlan_vid'', num 40),
          (''ip_id'', num 101), (''ip_ttl'', num 64), (''pktlen'', num 104)]),
        assign ''exp_pkt'' (lib ''simple_tcp_packet'' [] [(''eth_dst'', str ''00:00:00:00:00:22''), (''eth_src'', str
          ''00:00:00:00:00:33''), (''ip_dst'', str ''10.0.0.1''), (''dl_vlan_enable'', bool True), (''vlan_vid'', num 40),
          (''ip_id'', num 101), (''ip_ttl'', num 64), (''pktlen'', num 104)]),
        assign ''mask'' (lib ''Mask'' [var ''exp_pkt''] []),
        assign ''mask'' (lib ''.set_do_not_care_scapy'' [var ''mask'', str ''IP'', str ''id''] []),
        assign ''mask'' (lib ''.set_do_not_care_scapy'' [var ''mask'', str ''IP'', str ''chksum''] []),
        run (lib ''send_packet'' [self ''dev_port26'', var ''pkt''] []),
        run (lib ''verify_each_packet_on_each_port'' [list_of [var ''mask'', var ''pkt'']] [(''ports'', list_of [self
          ''dev_port24'', self ''dev_port25''])])] [
        assign ''obj_list'' (struct ''sai_thrift_object_list_t'' [(''count'', num 0), (''idlist'', list_of [var
          ''span_id_egress''])]),
        run (api_set ''port'' (self ''port25'') [(''egress_mirror_session'', var ''obj_list'')]),
        run (api_remove ''mirror_session'' (var ''span_id_egress''))]]"

definition MirrorConfigData_localIngressLagMirroringTest :: "'d stmt" where
  "MirrorConfigData_localIngressLagMirroringTest = block [
      assign ''span_id_ingress'' (api_create ''mirror_session'' [(''monitor_port'', self ''lag10''), (''type'', num
        SAI_MIRROR_SESSION_TYPE_LOCAL)]),
      assign ''obj_list'' (struct ''sai_thrift_object_list_t'' [(''count'', num 1), (''idlist'', list_of [var
        ''span_id_ingress''])]),
      run (api_set ''port'' (self ''port25'') [(''ingress_mirror_session'', var ''obj_list'')]),
      assign ''pkt'' (lib ''simple_tcp_packet'' [] [(''eth_dst'', str ''00:00:00:00:00:33''), (''eth_src'', str
        ''00:00:00:00:00:22''), (''ip_dst'', str ''10.0.0.1''), (''dl_vlan_enable'', bool True), (''vlan_vid'', num 40),
        (''ip_id'', num 101), (''ip_ttl'', num 64)]),
      assign ''exp_pkt'' (lib ''simple_tcp_packet'' [] [(''eth_dst'', str ''00:00:00:00:00:33''), (''eth_src'', str
        ''00:00:00:00:00:22''), (''ip_dst'', str ''10.0.0.1''), (''dl_vlan_enable'', bool True), (''vlan_vid'', num 40),
        (''ip_id'', num 101), (''ip_ttl'', num 64)]),
      try_finally [
        run (lib ''send_packet'' [self ''dev_port25'', var ''pkt''] []),
        run (lib ''verify_packet'' [var ''exp_pkt'', self ''dev_port26''] []),
        run (lib ''verify_no_other_packets'' [] [(''timeout'', num 1)]),
        assign ''lag_member24'' (api_create ''lag_member'' [(''lag_id'', self ''lag10''), (''port_id'', self ''port24'')]),
        assert_ne (var ''lag_member24'') (num 0),
        assign ''lag_member27'' (api_create ''lag_member'' [(''lag_id'', self ''lag10''), (''port_id'', self ''port27'')]),
        assert_ne (var ''lag_member27'') (num 0),
        run (lib ''send_packet'' [self ''dev_port25'', var ''pkt''] []),
        run (lib ''verify_each_packet_on_multiple_port_lists'' [list_of [var ''exp_pkt'', var ''exp_pkt''], list_of [list_of
          [self ''dev_port26''], list_of [self ''dev_port24'', self ''dev_port27'']]] []),
        assign ''status'' (api_remove ''lag_member'' (var ''lag_member24'')),
        assert_eq (var ''status'') (self ''status_success''),
        run (lib ''send_packet'' [self ''dev_port25'', var ''pkt''] []),
        run (lib ''verify_each_packet_on_multiple_port_lists'' [list_of [var ''exp_pkt'', var ''exp_pkt''], list_of [list_of
          [self ''dev_port26''], list_of [self ''dev_port27'']]] []),
        assign ''status'' (api_remove ''lag_member'' (var ''lag_member27'')),
        assert_eq (var ''status'') (self ''status_success''),
        run (lib ''send_packet'' [self ''dev_port25'', var ''pkt''] []),
        run (lib ''verify_packet'' [var ''exp_pkt'', self ''dev_port26''] []),
        run (lib ''verify_no_other_packets'' [] [(''timeout'', num 1)]),
        assign ''status'' (api_set ''mirror_session'' (var ''span_id_ingress'') [(''monitor_port'', self ''lag10_upd'')]),
        assert_eq (var ''status'') (self ''status_success''),
        run (lib ''send_packet'' [self ''dev_port25'', var ''pkt''] []),
        run (lib ''verify_packet'' [var ''exp_pkt'', self ''dev_port26''] []),
        run (lib ''verify_no_other_packets'' [] [(''timeout'', num 1)]),
        assign ''lag_member24'' (api_create ''lag_member'' [(''lag_id'', self ''lag10_upd''), (''port_id'', self ''port24'')]),
        assert_ne (var ''lag_member24'') (num 0),
        assign ''lag_member27'' (api_create ''lag_member'' [(''lag_id'', self ''lag10_upd''), (''port_id'', self ''port27'')]),
        assert_ne (var ''lag_member27'') (num 0),
        run (lib ''send_packet'' [self ''dev_port25'', var ''pkt''] []),
        run (lib ''verify_each_packet_on_multiple_port_lists'' [list_of [var ''exp_pkt'', var ''exp_pkt''], list_of [list_of
          [self ''dev_port26''], list_of [self ''dev_port24'', self ''dev_port27'']]] []),
        assign ''status'' (api_remove ''lag_member'' (var ''lag_member24'')),
        assert_eq (var ''status'') (self ''status_success''),
        assert_ne (var ''lag_member27'') (num 0),
        run (lib ''send_packet'' [self ''dev_port25'', var ''pkt''] []),
        run (lib ''verify_each_packet_on_multiple_port_lists'' [list_of [var ''exp_pkt'', var ''exp_pkt''], list_of [list_of
          [self ''dev_port26''], list_of [self ''dev_port27'']]] []),
        assign ''status'' (api_remove ''lag_member'' (var ''lag_member27'')),
        assert_eq (var ''status'') (self ''status_success''),
        run (lib ''send_packet'' [self ''dev_port25'', var ''pkt''] []),
        run (lib ''verify_packet'' [var ''exp_pkt'', self ''dev_port26''] []),
        run (lib ''verify_no_other_packets'' [] [(''timeout'', num 1)]),
        assign ''status'' (api_set ''mirror_session'' (var ''span_id_ingress'') [(''monitor_port'', self ''port24'')]),
        assert_eq (var ''status'') (self ''status_success''),
        run (lib ''send_packet'' [self ''dev_port25'', var ''pkt''] []),
        run (lib ''verify_packets'' [var ''exp_pkt''] [(''ports'', list_of [self ''dev_port24'', self ''dev_port26''])]),
        assign ''status'' (api_set ''mirror_session'' (var ''span_id_ingress'') [(''monitor_port'', self ''lag10'')]),
        assert_eq (var ''status'') (self ''status_success''),
        run (lib ''send_packet'' [self ''dev_port25'', var ''pkt''] []),
        run (lib ''verify_packet'' [var ''exp_pkt'', self ''dev_port26''] []),
        run (lib ''verify_no_other_packets'' [] [(''timeout'', num 1)]),
        assign ''lag_member24'' (api_create ''lag_member'' [(''lag_id'', self ''lag10''), (''port_id'', self ''port24'')]),
        assert_ne (var ''lag_member24'') (num 0),
        assign ''lag_member27'' (api_create ''lag_member'' [(''lag_id'', self ''lag10''), (''port_id'', self ''port27'')]),
        assert_ne (var ''lag_member27'') (num 0),
        run (lib ''send_packet'' [self ''dev_port25'', var ''pkt''] []),
        run (lib ''verify_each_packet_on_multiple_port_lists'' [list_of [var ''exp_pkt'', var ''exp_pkt''], list_of [list_of
          [self ''dev_port26''], list_of [self ''dev_port24'', self ''dev_port27'']]] []),
        run (api_remove ''lag_member'' (var ''lag_member24'')),
        run (lib ''send_packet'' [self ''dev_port25'', var ''pkt''] []),
        run (lib ''verify_each_packet_on_multiple_port_lists'' [list_of [var ''exp_pkt'', var ''exp_pkt''], list_of [list_of
          [self ''dev_port26''], list_of [self ''dev_port27'']]] []),
        assign ''status'' (api_remove ''lag_member'' (var ''lag_member27'')),
        assert_eq (var ''status'') (self ''status_success''),
        run (lib ''send_packet'' [self ''dev_port25'', var ''pkt''] []),
        run (lib ''verify_packet'' [var ''exp_pkt'', self ''dev_port26''] []),
        run (lib ''verify_no_other_packets'' [] [(''timeout'', num 1)])] [
        assign ''obj_list'' (struct ''sai_thrift_object_list_t'' [(''count'', num 0), (''idlist'', list_of [var
          ''span_id_ingress''])]),
        run (api_set ''port'' (self ''port25'') [(''ingress_mirror_session'', var ''obj_list'')]),
        run (api_remove ''mirror_session'' (var ''span_id_ingress''))]]"

definition MirrorConfigData_localEgressLagMirroringTest :: "'d stmt" where
  "MirrorConfigData_localEgressLagMirroringTest = block [
      assign ''span_id_egress'' (api_create ''mirror_session'' [(''monitor_port'', self ''lag10''), (''type'', num
        SAI_MIRROR_SESSION_TYPE_LOCAL)]),
      assign ''obj_list'' (struct ''sai_thrift_object_list_t'' [(''count'', num 1), (''idlist'', list_of [var
        ''span_id_egress''])]),
      run (api_set ''port'' (self ''port25'') [(''egress_mirror_session'', var ''obj_list'')]),
      assign ''pkt'' (lib ''simple_tcp_packet'' [] [(''eth_dst'', str ''00:00:00:00:00:22''), (''eth_src'', str
        ''00:00:00:00:00:33''), (''ip_dst'', str ''10.0.0.1''), (''dl_vlan_enable'', bool True), (''vlan_vid'', num 40),
        (''ip_id'', num 101), (''ip_ttl'', num 64), (''pktlen'', num 104)]),
      assign ''exp_pkt'' (lib ''simple_tcp_packet'' [] [(''eth_dst'', str ''00:00:00:00:00:22''), (''eth_src'', str
        ''00:00:00:00:00:33''), (''ip_dst'', str ''10.0.0.1''), (''dl_vlan_enable'', bool True), (''vlan_vid'', num 40),
        (''ip_id'', num 101), (''ip_ttl'', num 64), (''pktlen'', num 104)]),
      assign ''mask'' (lib ''Mask'' [var ''exp_pkt''] []),
      assign ''mask'' (lib ''.set_do_not_care_scapy'' [var ''mask'', str ''IP'', str ''id''] []),
      assign ''mask'' (lib ''.set_do_not_care_scapy'' [var ''mask'', str ''IP'', str ''chksum''] []),
      try_finally [
        run (lib ''send_packet'' [self ''dev_port26'', var ''pkt''] []),
        run (lib ''verify_packet'' [var ''exp_pkt'', self ''dev_port25''] []),
        run (lib ''verify_no_other_packets'' [] [(''timeout'', num 1)]),
        assign ''lag_member24'' (api_create ''lag_member'' [(''lag_id'', self ''lag10''), (''port_id'', self ''port24'')]),
        assert_ne (var ''lag_member24'') (num 0),
        assign ''lag_member27'' (api_create ''lag_member'' [(''lag_id'', self ''lag10''), (''port_id'', self ''port27'')]),
        assert_ne (var ''lag_member27'') (num 0),
        run (lib ''send_packet'' [self ''dev_port26'', var ''pkt''] []),
        run (lib ''verify_each_packet_on_multiple_port_lists'' [list_of [var ''mask'', var ''exp_pkt''], list_of [list_of [self
          ''dev_port25''], list_of [self ''dev_port24'', self ''dev_port26'']]] []),
        assign ''status'' (api_remove ''lag_member'' (var ''lag_member27'')),
        assert_eq (var ''status'') (self ''status_success''),
        run (lib ''send_packet'' [self ''dev_port26'', var ''pkt''] []),
        run (lib ''verify_each_packet_on_each_port'' [list_of [var ''mask'', var ''exp_pkt'']] [(''ports'', list_of [self
          ''dev_port25'', self ''dev_port24''])]),
        assign ''status'' (api_remove ''lag_member'' (var ''lag_member24'')),
        assert_eq (var ''status'') (self ''status_success''),
        run (lib ''send_packet'' [self ''dev_port26'', var ''pkt''] []),
        run (lib ''verify_packet'' [var ''exp_pkt'', self ''dev_port25''] []),
        run (lib ''verify_no_other_packets'' [] [(''timeout'', num 1)]),
        assign ''status'' (api_set ''mirror_session'' (var ''span_id_egress'') [(''monitor_port'', self ''lag10_upd'')]),
        assert_eq (var ''status'') (self ''status_success''),
        run (lib ''send_packet'' [self ''dev_port26'', var ''pkt''] []),
        run (lib ''verify_packet'' [var ''exp_pkt'', self ''dev_port25''] []),
        run (lib ''verify_no_other_packets'' [] [(''timeout'', num 1)]),
        assign ''lag_member24'' (api_create ''lag_member'' [(''lag_id'', self ''lag10_upd''), (''port_id'', self ''port24'')]),
        assert_ne (var ''lag_member24'') (num 0),
        assign ''lag_member27'' (api_create ''lag_member'' [(''lag_id'', self ''lag10_upd''), (''port_id'', self ''port27'')]),
        assert_ne (var ''lag_member27'') (num 0),
        run (lib ''send_packet'' [self ''dev_port26'', var ''pkt''] []),
        run (lib ''verify_each_packet_on_multiple_port_lists'' [list_of [var ''mask'', var ''exp_pkt''], list_of [list_of [self
          ''dev_port25''], list_of [self ''dev_port24'', self ''dev_port27'']]] []),
        assign ''status'' (api_remove ''lag_member'' (var ''lag_member24'')),
        assert_eq (var ''status'') (self ''status_success''),
        run (lib ''send_packet'' [self ''dev_port26'', var ''pkt''] []),
        run (lib ''verify_each_packet_on_multiple_port_lists'' [list_of [var ''mask'', var ''exp_pkt''], list_of [list_of [self
          ''dev_port25''], list_of [self ''dev_port27'']]] []),
        assign ''status'' (api_remove ''lag_member'' (var ''lag_member27'')),
        assert_eq (var ''status'') (self ''status_success''),
        run (lib ''send_packet'' [self ''dev_port26'', var ''pkt''] []),
        run (lib ''verify_packet'' [var ''exp_pkt'', self ''dev_port25''] []),
        run (lib ''verify_no_other_packets'' [] [(''timeout'', num 1)]),
        assign ''status'' (api_set ''mirror_session'' (var ''span_id_egress'') [(''monitor_port'', self ''port24'')]),
        assert_eq (var ''status'') (self ''status_success''),
        run (lib ''send_packet'' [self ''dev_port26'', var ''pkt''] []),
        run (lib ''verify_packets'' [var ''exp_pkt''] [(''ports'', list_of [self ''dev_port25'', self ''dev_port24''])]),
        assign ''status'' (api_set ''mirror_session'' (var ''span_id_egress'') [(''monitor_port'', self ''lag10'')]),
        assert_eq (var ''status'') (self ''status_success''),
        run (lib ''send_packet'' [self ''dev_port26'', var ''pkt''] []),
        run (lib ''verify_packet'' [var ''exp_pkt'', self ''dev_port25''] []),
        run (lib ''verify_no_other_packets'' [] [(''timeout'', num 1)]),
        assign ''lag_member24'' (api_create ''lag_member'' [(''lag_id'', self ''lag10''), (''port_id'', self ''port24'')]),
        assert_ne (var ''lag_member24'') (num 0),
        assign ''lag_member27'' (api_create ''lag_member'' [(''lag_id'', self ''lag10''), (''port_id'', self ''port27'')]),
        assert_ne (var ''lag_member27'') (num 0),
        run (lib ''send_packet'' [self ''dev_port26'', var ''pkt''] []),
        run (lib ''verify_each_packet_on_multiple_port_lists'' [list_of [var ''mask'', var ''exp_pkt''], list_of [list_of [self
          ''dev_port25''], list_of [self ''dev_port24'', self ''dev_port27'']]] []),
        assign ''status'' (api_remove ''lag_member'' (var ''lag_member24'')),
        assert_eq (var ''status'') (self ''status_success''),
        run (lib ''send_packet'' [self ''dev_port26'', var ''pkt''] []),
        run (lib ''verify_each_packet_on_multiple_port_lists'' [list_of [var ''mask'', var ''exp_pkt''], list_of [list_of [self
          ''dev_port25''], list_of [self ''dev_port27'']]] []),
        assign ''status'' (api_remove ''lag_member'' (var ''lag_member27'')),
        assert_eq (var ''status'') (self ''status_success''),
        run (lib ''send_packet'' [self ''dev_port26'', var ''pkt''] []),
        run (lib ''verify_packet'' [var ''exp_pkt'', self ''dev_port25''] []),
        run (lib ''verify_no_other_packets'' [] [(''timeout'', num 1)])] [
        assign ''obj_list'' (struct ''sai_thrift_object_list_t'' [(''count'', num 0), (''idlist'', list_of [var
          ''span_id_egress''])]),
        run (api_set ''port'' (self ''port25'') [(''egress_mirror_session'', var ''obj_list'')]),
        run (api_remove ''mirror_session'' (var ''span_id_egress''))]]"

definition MirrorConfigData_ingressEgressMirrorSessionTest :: "'d stmt" where
  "MirrorConfigData_ingressEgressMirrorSessionTest = block [
      assign ''span_id'' (api_create ''mirror_session'' [(''monitor_port'', self ''port24''), (''type'', num
        SAI_MIRROR_SESSION_TYPE_LOCAL)]),
      assign ''obj_list'' (struct ''sai_thrift_object_list_t'' [(''count'', num 1), (''idlist'', list_of [var ''span_id''])]),
      run (api_set ''port'' (self ''port25'') [(''ingress_mirror_session'', var ''obj_list'')]),
      run (api_set ''port'' (self ''port25'') [(''egress_mirror_session'', var ''obj_list'')]),
      assign ''pkt_ing'' (lib ''simple_tcp_packet'' [] [(''eth_dst'', str ''00:00:00:00:00:33''), (''eth_src'', str
        ''00:00:00:00:00:22''), (''ip_dst'', str ''10.0.0.1''), (''dl_vlan_enable'', bool True), (''vlan_vid'', num 40),
        (''ip_id'', num 101), (''ip_ttl'', num 64), (''pktlen'', num 104)]),
      assign ''pkt_egr'' (lib ''simple_tcp_packet'' [] [(''eth_dst'', str ''00:00:00:00:00:22''), (''eth_src'', str
        ''00:00:00:00:00:33''), (''ip_dst'', str ''10.0.0.1''), (''dl_vlan_enable'', bool True), (''vlan_vid'', num 40),
        (''ip_id'', num 101), (''ip_ttl'', num 64), (''pktlen'', num 104)]),
      assign ''mask'' (lib ''Mask'' [var ''pkt_egr''] []),
      assign ''mask'' (lib ''.set_do_not_care_scapy'' [var ''mask'', str ''IP'', str ''id''] []),
      assign ''mask'' (lib ''.set_do_not_care_scapy'' [var ''mask'', str ''IP'', str ''chksum''] []),
      try_finally [
        run (lib ''send_packet'' [self ''dev_port25'', var ''pkt_ing''] []),
        run (lib ''verify_each_packet_on_each_port'' [list_of [var ''pkt_ing'', var ''pkt_ing'']] [(''ports'', list_of [self
          ''dev_port24'', self ''dev_port26''])]),
        run (lib ''send_packet'' [self ''dev_port26'', var ''pkt_egr''] []),
        run (lib ''verify_each_packet_on_each_port'' [list_of [var ''mask'', var ''pkt_egr'']] [(''ports'', list_of [self
          ''dev_port24'', self ''dev_port25''])])] [
        assign ''obj_list'' (struct ''sai_thrift_object_list_t'' [(''count'', num 0), (''idlist'', list_of [var ''span_id''])]),
        run (api_set ''port'' (self ''port25'') [(''ingress_mirror_session'', var ''obj_list'')]),
        run (api_set ''port'' (self ''port25'') [(''egress_mirror_session'', var ''obj_list'')]),
        run (api_remove ''mirror_session'' (var ''span_id''))]]"

definition MirrorConfigData_aclIngressEgressMirrorSessionTest :: "'d stmt" where
  "MirrorConfigData_aclIngressEgressMirrorSessionTest = block [
      assign ''span_id'' (api_create ''mirror_session'' [(''monitor_port'', self ''port24''), (''type'', num
        SAI_MIRROR_SESSION_TYPE_LOCAL)]),
      assign ''action_type_ingress'' (list_of [num SAI_ACL_ACTION_TYPE_MIRROR_INGRESS]),
      assign ''action_ingress'' (struct ''sai_thrift_s32_list_t'' [(''count'', length_of (var ''action_type_ingress'')),
        (''int32list'', var ''action_type_ingress'')]),
      assign ''bind_point'' (list_of [num SAI_ACL_BIND_POINT_TYPE_PORT]),
      assign ''acl_bpt_list'' (struct ''sai_thrift_s32_list_t'' [(''count'', length_of (var ''bind_point'')), (''int32list'',
        var ''bind_point'')]),
      assign ''acl_table_id_ingress'' (api_create ''acl_table'' [(''acl_stage'', num SAI_ACL_STAGE_INGRESS),
        (''acl_action_type_list'', var ''action_ingress''), (''acl_bind_point_type_list'', var ''acl_bpt_list''),
        (''field_dst_ip'', bool True)]),
      assign ''action_type_egress'' (list_of [num SAI_ACL_ACTION_TYPE_MIRROR_EGRESS]),
      assign ''action_egress'' (struct ''sai_thrift_s32_list_t'' [(''count'', length_of (var ''action_type_egress'')),
        (''int32list'', var ''action_type_egress'')]),
      assign ''bind_point'' (list_of [num SAI_ACL_BIND_POINT_TYPE_PORT]),
      assign ''acl_bpt_list'' (struct ''sai_thrift_s32_list_t'' [(''count'', length_of (var ''bind_point'')), (''int32list'',
        var ''bind_point'')]),
      assign ''acl_table_id_egress'' (api_create ''acl_table'' [(''acl_stage'', num SAI_ACL_STAGE_EGRESS),
        (''acl_action_type_list'', var ''action_egress''), (''acl_bind_point_type_list'', var ''acl_bpt_list''),
        (''field_dst_ip'', bool True)]),
      run (api_set ''port'' (self ''port25'') [(''ingress_acl'', var ''acl_table_id_ingress'')]),
      run (api_set ''port'' (self ''port25'') [(''egress_acl'', var ''acl_table_id_egress'')]),
      assign ''dst_ip'' (struct ''sai_thrift_acl_field_data_t'' [(''data'', struct ''sai_thrift_acl_field_data_data_t''
        [(''ip4'', str ''10.0.0.1'')]), (''mask'', struct ''sai_thrift_acl_field_data_mask_t'' [(''ip4'', str
        ''255.255.255.0'')])]),
      assign ''obj_list'' (struct ''sai_thrift_object_list_t'' [(''count'', num 1), (''idlist'', list_of [var ''span_id''])]),
      assign ''param'' (struct ''sai_thrift_acl_action_parameter_t'' [(''objlist'', var ''obj_list'')]),
      assign ''obj_acl_action_data'' (struct ''sai_thrift_acl_action_data_t'' [(''parameter'', var ''param'')]),
      assign ''acl_entry_id_ingress'' (api_create ''acl_entry'' [(''table_id'', var ''acl_table_id_ingress''),
        (''action_mirror_ingress'', var ''obj_acl_action_data''), (''field_dst_ip'', var ''dst_ip'')]),
      assign ''acl_entry_id_egress'' (api_create ''acl_entry'' [(''table_id'', var ''acl_table_id_egress''),
        (''action_mirror_egress'', var ''obj_acl_action_data''), (''field_dst_ip'', var ''dst_ip'')]),
      assign ''pkt_ing'' (lib ''simple_tcp_packet'' [] [(''eth_dst'', str ''00:00:00:00:00:33''), (''eth_src'', str
        ''00:00:00:00:00:22''), (''ip_dst'', str ''10.0.0.1''), (''dl_vlan_enable'', bool True), (''vlan_vid'', num 40),
        (''ip_id'', num 101), (''ip_ttl'', num 64)]),
      assign ''pkt_egr'' (lib ''simple_tcp_packet'' [] [(''eth_dst'', str ''00:00:00:00:00:22''), (''eth_src'', str
        ''00:00:00:00:00:33''), (''ip_dst'', str ''10.0.0.1''), (''dl_vlan_enable'', bool True), (''vlan_vid'', num 40),
        (''ip_id'', num 101), (''ip_ttl'', num 64)]),
      assign ''mask'' (lib ''Mask'' [var ''pkt_egr''] []),
      assign ''mask'' (lib ''.set_do_not_care_scapy'' [var ''mask'', str ''IP'', str ''id''] []),
      assign ''mask'' (lib ''.set_do_not_care_scapy'' [var ''mask'', str ''IP'', str ''chksum''] []),
      try_finally [
        run (lib ''send_packet'' [self ''dev_port25'', var ''pkt_ing''] []),
        run (lib ''verify_each_packet_on_each_port'' [list_of [var ''pkt_ing'', var ''pkt_ing'']] [(''ports'', list_of [self
          ''dev_port24'', self ''dev_port26''])]),
        run (lib ''send_packet'' [self ''dev_port26'', var ''pkt_egr''] []),
        run (lib ''verify_each_packet_on_each_port'' [list_of [var ''mask'', var ''pkt_egr'']] [(''ports'', list_of [self
          ''dev_port24'', self ''dev_port25''])])] [
        run (api_remove ''acl_entry'' (var ''acl_entry_id_ingress'')),
        run (api_remove ''acl_entry'' (var ''acl_entry_id_egress'')),
        run (struct ''sai_thrift_object_list_t'' [(''count'', num 0), (''idlist'', list_of [var ''span_id''])]),
        run (api_set ''port'' (self ''port25'') [(''ingress_acl'', num 0), (''egress_acl'', num 0)]),
        run (api_remove ''acl_table'' (var ''acl_table_id_ingress'')),
        run (api_remove ''acl_table'' (var ''acl_table_id_egress'')),
        run (api_remove ''mirror_session'' (var ''span_id''))]]"

definition MirrorConfigData_egressMirrorDropOnIngress :: "'d stmt" where
  "MirrorConfigData_egressMirrorDropOnIngress = block [
      assign ''span_id'' (api_create ''mirror_session'' [(''monitor_port'', self ''port24''), (''type'', num
        SAI_MIRROR_SESSION_TYPE_LOCAL)]),
      assign ''obj_list'' (struct ''sai_thrift_object_list_t'' [(''count'', num 1), (''idlist'', list_of [var ''span_id''])]),
      run (api_set ''port'' (self ''port25'') [(''egress_mirror_session'', var ''obj_list'')]),
      assign ''pkt'' (lib ''simple_tcp_packet'' [] [(''eth_dst'', str ''00:00:00:00:00:22''), (''eth_src'', str
        ''00:00:00:00:00:33''), (''ip_dst'', str ''10.0.0.1''), (''dl_vlan_enable'', bool True), (''vlan_vid'', num 50),
        (''ip_id'', num 101), (''ip_ttl'', num 64), (''pktlen'', num 104)]),
      try_finally [
        run (lib ''send_packet'' [self ''dev_port26'', var ''pkt''] []),
        run (lib ''verify_no_other_packets'' [] [(''timeout'', num 1)])] [
        assign ''obj_list'' (struct ''sai_thrift_object_list_t'' [(''count'', num 0), (''idlist'', list_of [var ''span_id''])]),
        run (api_set ''port'' (self ''port25'') [(''egress_mirror_session'', var ''obj_list'')]),
        run (api_remove ''mirror_session'' (var ''span_id''))]]"

definition MirrorConfigData_mirrorDroppedPacketIngressTest :: "'d stmt" where
  "MirrorConfigData_mirrorDroppedPacketIngressTest = block [
      assign ''span_id_ingress'' (api_create ''mirror_session'' [(''monitor_port'', self ''port24''), (''type'', num
        SAI_MIRROR_SESSION_TYPE_LOCAL)]),
      assign ''obj_list'' (struct ''sai_thrift_object_list_t'' [(''count'', num 1), (''idlist'', list_of [var
        ''span_id_ingress''])]),
      run (api_set ''port'' (self ''port25'') [(''ingress_mirror_session'', var ''obj_list'')]),
      assign ''pkt'' (lib ''simple_tcp_packet'' [] [(''eth_dst'', str ''00:00:00:00:00:33''), (''eth_src'', str
        ''00:00:00:00:00:22''), (''ip_dst'', str ''10.0.0.1''), (''dl_vlan_enable'', bool True), (''vlan_vid'', num 50),
        (''ip_id'', num 101), (''ip_ttl'', num 64)]),
      assign ''exp_pkt'' (lib ''simple_tcp_packet'' [] [(''eth_dst'', str ''00:00:00:00:00:33''), (''eth_src'', str
        ''00:00:00:00:00:22''), (''ip_dst'', str ''10.0.0.1''), (''dl_vlan_enable'', bool True), (''vlan_vid'', num 50),
        (''ip_id'', num 101), (''ip_ttl'', num 64)]),
      try_finally [
        run (lib ''send_packet'' [self ''dev_port25'', var ''pkt''] []),
        run (lib ''verify_packet'' [var ''exp_pkt'', self ''dev_port24''] []),
        run (lib ''verify_no_other_packets'' [] [(''timeout'', num 1)])] [
        assign ''obj_list'' (struct ''sai_thrift_object_list_t'' [(''count'', num 0), (''idlist'', list_of [var
          ''span_id_ingress''])]),
        run (api_set ''port'' (self ''port25'') [(''ingress_mirror_session'', var ''obj_list'')]),
        run (api_remove ''mirror_session'' (var ''span_id_ingress''))]]"

definition MirrorConfigData_mirrorDroppedPacketEgressTest :: "'d stmt" where
  "MirrorConfigData_mirrorDroppedPacketEgressTest = block [
      assign ''span_id_egress'' (api_create ''mirror_session'' [(''monitor_port'', self ''port24''), (''type'', num
        SAI_MIRROR_SESSION_TYPE_LOCAL)]),
      assign ''obj_list'' (struct ''sai_thrift_object_list_t'' [(''count'', num 1), (''idlist'', list_of [var
        ''span_id_egress''])]),
      run (api_set ''port'' (self ''port25'') [(''egress_mirror_session'', var ''obj_list'')]),
      assign ''pkt'' (lib ''simple_tcp_packet'' [] [(''eth_dst'', str ''00:00:00:00:00:22''), (''eth_src'', str
        ''00:00:00:00:00:33''), (''ip_dst'', str ''10.0.0.1''), (''dl_vlan_enable'', bool True), (''vlan_vid'', num 50),
        (''ip_id'', num 101), (''ip_ttl'', num 64)]),
      try_finally [
        run (lib ''send_packet'' [self ''dev_port26'', var ''pkt''] []),
        run (lib ''verify_no_other_packets'' [] [(''timeout'', num 1)])] [
        assign ''obj_list'' (struct ''sai_thrift_object_list_t'' [(''count'', num 0), (''idlist'', list_of [var
          ''span_id_egress''])]),
        run (api_set ''port'' (self ''port25'') [(''egress_mirror_session'', var ''obj_list'')]),
        run (api_remove ''mirror_session'' (var ''span_id_egress''))]]"

definition MirrorConfigData_mirrorSessionTrafficClassTest :: "'d stmt" where
  "MirrorConfigData_mirrorSessionTrafficClassTest = block [
      assign ''traffic_class'' (num 6),
      assign ''span_id'' (api_create ''mirror_session'' [(''monitor_port'', self ''port24''), (''type'', num
        SAI_MIRROR_SESSION_TYPE_LOCAL), (''tc'', var ''traffic_class'')]),
      assign ''obj_list'' (struct ''sai_thrift_object_list_t'' [(''count'', num 1), (''idlist'', list_of [var ''span_id''])]),
      assign ''queue_list'' (struct ''sai_thrift_object_list_t'' [(''count'', num 10)]),
      assign ''attr'' (api_get ''port'' (self ''port24'') [(''qos_queue_list'', var ''queue_list'')]),
      for_in [''_'', ''value''] (enumerated (field (item (var ''attr'') (str ''qos_queue_list'')) ''idlist'')) [
        assign ''q_attr'' (api_get ''queue'' (var ''value'') [(''index'', bool True)]),
        if_else (eq (item (var ''q_attr'') (str ''index'')) (var ''traffic_class'')) [
          assign ''queue_id'' (var ''value''),
          break] []],
      run (api_set ''port'' (self ''port25'') [(''egress_mirror_session'', var ''obj_list'')]),
      assign ''pkt'' (lib ''simple_tcp_packet'' [] [(''eth_dst'', str ''00:00:00:00:00:22''), (''eth_src'', str
        ''00:00:00:00:00:33''), (''ip_dst'', str ''10.0.0.1''), (''dl_vlan_enable'', bool True), (''vlan_vid'', num 40),
        (''ip_id'', num 101), (''ip_ttl'', num 64)]),
      assign ''exp_pkt'' (lib ''simple_tcp_packet'' [] [(''eth_dst'', str ''00:00:00:00:00:22''), (''eth_src'', str
        ''00:00:00:00:00:33''), (''ip_dst'', str ''10.0.0.1''), (''dl_vlan_enable'', bool True), (''vlan_vid'', num 40),
        (''ip_id'', num 101), (''ip_ttl'', num 64)]),
      try_finally [
        run (clear_stats ''sai_thrift_clear_queue_stats'' [var ''queue_id''] []),
        assign ''stats'' (query ''sai_thrift_get_queue_stats'' [var ''queue_id''] []),
        assign ''pkt_cnt_before'' (item (var ''stats'') (str ''SAI_QUEUE_STAT_PACKETS'')),
        run (lib ''send_packet'' [self ''dev_port26'', var ''pkt''] []),
        run (lib ''verify_packets'' [var ''exp_pkt''] [(''ports'', list_of [self ''dev_port24'', self ''dev_port25''])]),
        assign ''stats'' (query ''sai_thrift_get_queue_stats'' [var ''queue_id''] []),
        assign ''pkt_cnt_after'' (item (var ''stats'') (str ''SAI_QUEUE_STAT_PACKETS'')),
        assert (eq (var ''pkt_cnt_after'') (add (var ''pkt_cnt_before'') (num 1)))] [
        assign ''obj_list'' (struct ''sai_thrift_object_list_t'' [(''count'', num 0), (''idlist'', list_of [var ''span_id''])]),
        run (api_set ''port'' (self ''port25'') [(''egress_mirror_session'', var ''obj_list'')]),
        run (api_remove ''mirror_session'' (var ''span_id''))]]"

definition MirrorConfigData_tearDown :: "'d stmt" where
  "MirrorConfigData_tearDown = block [
      run (api_remove ''policer'' (self ''pol_id'')),
      run (api_remove ''route_entry'' (self ''route2'')),
      run (api_remove ''next_hop'' (self ''nhop2'')),
      run (api_remove ''neighbor_entry'' (self ''neighbor_entry2'')),
      run (api_remove ''neighbor_entry'' (self ''neighbor_entry1'')),
      run (api_remove ''route_entry'' (self ''route'')),
      run (api_remove ''next_hop'' (self ''nhop'')),
      run (api_remove ''virtual_router'' (self ''vr_id'')),
      for_in [''vlan_member''] (self ''vlan_members'') [
        run (api_remove ''vlan_member'' (var ''vlan_member''))],
      for_in [''fdb_entry''] (self ''fdb_entries'') [
        run (api_remove ''fdb_entry'' (var ''fdb_entry''))],
      for_in [''port''] (self ''ports'') [
        run (api_set ''port'' (var ''port'') [(''port_vlan_id'', num 1)])],
      run (api_remove ''vlan'' (self ''vlan50'')),
      run (api_remove ''vlan'' (self ''vlan40'')),
      for_in [''bridge_port''] (self ''bridge_ports'') [
        run (api_remove ''bridge_port'' (var ''bridge_port''))],
      for_in [''lag''] (self ''lags'') [
        run (api_remove ''lag'' (var ''lag''))],
      super_tearDown]"

definition MirrorConfigData_localAclIngressLagMirroringTest :: "'d stmt" where
  "MirrorConfigData_localAclIngressLagMirroringTest = block [
      assign ''span_id'' (api_create ''mirror_session'' [(''monitor_port'', self ''lag10''), (''type'', num
        SAI_MIRROR_SESSION_TYPE_LOCAL)]),
      assign ''lag_member24'' (api_create ''lag_member'' [(''lag_id'', self ''lag10''), (''port_id'', self ''port24'')]),
      assert_ne (var ''lag_member24'') (num 0),
      assign ''lag_member27'' (api_create ''lag_member'' [(''lag_id'', self ''lag10''), (''port_id'', self ''port27'')]),
      assert_ne (var ''lag_member27'') (num 0),
      assign ''action_type'' (list_of [num SAI_ACL_ACTION_TYPE_MIRROR_INGRESS]),
      assign ''action'' (struct ''sai_thrift_s32_list_t'' [(''count'', length_of (var ''action_type'')), (''int32list'', var
        ''action_type'')]),
      assign ''bind_point'' (list_of [num SAI_ACL_BIND_POINT_TYPE_PORT]),
      assign ''acl_bpt_list'' (struct ''sai_thrift_s32_list_t'' [(''count'', length_of (var ''bind_point'')), (''int32list'',
        var ''bind_point'')]),
      assign ''acl_table_id'' (api_create ''acl_table'' [(''acl_stage'', num SAI_ACL_STAGE_INGRESS), (''acl_action_type_list'',
        var ''action''), (''acl_bind_point_type_list'', var ''acl_bpt_list''), (''field_dst_ip'', bool True)]),
      run (api_set ''port'' (self ''port25'') [(''ingress_acl'', var ''acl_table_id'')]),
      assign ''dst_ip'' (struct ''sai_thrift_acl_field_data_t'' [(''data'', struct ''sai_thrift_acl_field_data_data_t''
        [(''ip4'', str ''10.0.0.1'')]), (''mask'', struct ''sai_thrift_acl_field_data_mask_t'' [(''ip4'', str
        ''255.255.255.0'')])]),
      assign ''obj_list'' (struct ''sai_thrift_object_list_t'' [(''count'', num 1), (''idlist'', list_of [var ''span_id''])]),
      assign ''param'' (struct ''sai_thrift_acl_action_parameter_t'' [(''objlist'', var ''obj_list'')]),
      assign ''obj_acl_action_data'' (struct ''sai_thrift_acl_action_data_t'' [(''parameter'', var ''param'')]),
      assign ''acl_entry_id'' (api_create ''acl_entry'' [(''table_id'', var ''acl_table_id''), (''action_mirror_ingress'', var
        ''obj_acl_action_data''), (''field_dst_ip'', var ''dst_ip'')]),
      assign ''pkt'' (lib ''simple_tcp_packet'' [] [(''eth_dst'', str ''00:00:00:00:00:33''), (''eth_src'', str
        ''00:00:00:00:00:22''), (''ip_dst'', str ''10.0.0.1''), (''dl_vlan_enable'', bool True), (''vlan_vid'', num 40),
        (''ip_id'', num 101), (''ip_ttl'', num 64)]),
      assign ''exp_pkt'' (lib ''simple_tcp_packet'' [] [(''eth_dst'', str ''00:00:00:00:00:33''), (''eth_src'', str
        ''00:00:00:00:00:22''), (''ip_dst'', str ''10.0.0.1''), (''dl_vlan_enable'', bool True), (''vlan_vid'', num 40),
        (''ip_id'', num 101), (''ip_ttl'', num 64)]),
      try_finally [
        run (lib ''send_packet'' [self ''dev_port25'', var ''pkt''] []),
        run (lib ''verify_each_packet_on_multiple_port_lists'' [list_of [var ''exp_pkt'', var ''exp_pkt''], list_of [list_of
          [self ''dev_port26''], list_of [self ''dev_port24'', self ''dev_port27'']]] [])] [
        run (api_remove ''acl_entry'' (var ''acl_entry_id'')),
        run (struct ''sai_thrift_object_list_t'' [(''count'', num 0), (''idlist'', list_of [var ''span_id''])]),
        run (api_set ''port'' (self ''port25'') [(''ingress_acl'', num 0)]),
        run (api_remove ''mirror_session'' (var ''span_id'')),
        run (api_remove ''acl_table'' (var ''acl_table_id'')),
        run (api_remove ''lag_member'' (var ''lag_member27'')),
        run (api_remove ''lag_member'' (var ''lag_member24''))]]"

definition MirrorConfigData_localAclEgressLagMirroringTest :: "'d stmt" where
  "MirrorConfigData_localAclEgressLagMirroringTest = block [
      assign ''span_id'' (api_create ''mirror_session'' [(''monitor_port'', self ''lag10''), (''type'', num
        SAI_MIRROR_SESSION_TYPE_LOCAL)]),
      assign ''lag_member24'' (api_create ''lag_member'' [(''lag_id'', self ''lag10''), (''port_id'', self ''port24'')]),
      assert_ne (var ''lag_member24'') (num 0),
      assign ''lag_member27'' (api_create ''lag_member'' [(''lag_id'', self ''lag10''), (''port_id'', self ''port27'')]),
      assert_ne (var ''lag_member27'') (num 0),
      assign ''action_type'' (list_of [num SAI_ACL_ACTION_TYPE_MIRROR_EGRESS]),
      assign ''action'' (struct ''sai_thrift_s32_list_t'' [(''count'', length_of (var ''action_type'')), (''int32list'', var
        ''action_type'')]),
      assign ''bind_point'' (list_of [num SAI_ACL_BIND_POINT_TYPE_PORT]),
      assign ''acl_bpt_list'' (struct ''sai_thrift_s32_list_t'' [(''count'', length_of (var ''bind_point'')), (''int32list'',
        var ''bind_point'')]),
      assign ''acl_table_id'' (api_create ''acl_table'' [(''acl_stage'', num SAI_ACL_STAGE_EGRESS), (''acl_action_type_list'',
        var ''action''), (''acl_bind_point_type_list'', var ''acl_bpt_list''), (''field_dst_ip'', bool True)]),
      run (api_set ''port'' (self ''port25'') [(''egress_acl'', var ''acl_table_id'')]),
      assign ''dst_ip'' (struct ''sai_thrift_acl_field_data_t'' [(''data'', struct ''sai_thrift_acl_field_data_data_t''
        [(''ip4'', str ''10.0.0.1'')]), (''mask'', struct ''sai_thrift_acl_field_data_mask_t'' [(''ip4'', str
        ''255.255.255.0'')])]),
      assign ''obj_list'' (struct ''sai_thrift_object_list_t'' [(''count'', num 1), (''idlist'', list_of [var ''span_id''])]),
      assign ''param'' (struct ''sai_thrift_acl_action_parameter_t'' [(''objlist'', var ''obj_list'')]),
      assign ''obj_acl_action_data'' (struct ''sai_thrift_acl_action_data_t'' [(''parameter'', var ''param'')]),
      assign ''acl_entry_id'' (api_create ''acl_entry'' [(''table_id'', var ''acl_table_id''), (''action_mirror_egress'', var
        ''obj_acl_action_data''), (''field_dst_ip'', var ''dst_ip'')]),
      assign ''pkt'' (lib ''simple_tcp_packet'' [] [(''eth_dst'', str ''00:00:00:00:00:22''), (''eth_src'', str
        ''00:00:00:00:00:33''), (''ip_dst'', str ''10.0.0.1''), (''dl_vlan_enable'', bool True), (''vlan_vid'', num 40),
        (''ip_id'', num 101), (''ip_ttl'', num 64)]),
      assign ''exp_pkt'' (lib ''simple_tcp_packet'' [] [(''eth_dst'', str ''00:00:00:00:00:22''), (''eth_src'', str
        ''00:00:00:00:00:33''), (''ip_dst'', str ''10.0.0.1''), (''dl_vlan_enable'', bool True), (''vlan_vid'', num 40),
        (''ip_id'', num 101), (''ip_ttl'', num 64)]),
      try_finally [
        run (lib ''send_packet'' [self ''dev_port26'', var ''pkt''] []),
        run (lib ''verify_each_packet_on_multiple_port_lists'' [list_of [var ''exp_pkt'', var ''exp_pkt''], list_of [list_of
          [self ''dev_port25''], list_of [self ''dev_port24'', self ''dev_port26'']]] [])] [
        run (api_remove ''acl_entry'' (var ''acl_entry_id'')),
        run (struct ''sai_thrift_object_list_t'' [(''count'', num 0), (''idlist'', list_of [var ''span_id''])]),
        run (api_set ''port'' (self ''port25'') [(''egress_acl'', num 0)]),
        run (api_remove ''acl_table'' (var ''acl_table_id'')),
        run (api_remove ''lag_member'' (var ''lag_member27'')),
        run (api_remove ''lag_member'' (var ''lag_member24'')),
        run (api_remove ''mirror_session'' (var ''span_id''))]]"

definition MirrorConfigData_aclMirrorDroppedPacketIngressTest :: "'d stmt" where
  "MirrorConfigData_aclMirrorDroppedPacketIngressTest = block [
      assign ''span_id_ingress'' (api_create ''mirror_session'' [(''monitor_port'', self ''port24''), (''type'', num
        SAI_MIRROR_SESSION_TYPE_LOCAL)]),
      assign ''action_type_ingress'' (list_of [num SAI_ACL_ACTION_TYPE_MIRROR_INGRESS]),
      assign ''action_ingress'' (struct ''sai_thrift_s32_list_t'' [(''count'', length_of (var ''action_type_ingress'')),
        (''int32list'', var ''action_type_ingress'')]),
      assign ''bind_point'' (list_of [num SAI_ACL_BIND_POINT_TYPE_PORT]),
      assign ''acl_bpt_list'' (struct ''sai_thrift_s32_list_t'' [(''count'', length_of (var ''bind_point'')), (''int32list'',
        var ''bind_point'')]),
      assign ''acl_table_id_ingress'' (api_create ''acl_table'' [(''acl_stage'', num SAI_ACL_STAGE_INGRESS),
        (''acl_action_type_list'', var ''action_ingress''), (''acl_bind_point_type_list'', var ''acl_bpt_list''),
        (''field_dst_ip'', bool True)]),
      run (api_set ''port'' (self ''port25'') [(''ingress_acl'', var ''acl_table_id_ingress'')]),
      assign ''dst_ip'' (struct ''sai_thrift_acl_field_data_t'' [(''data'', struct ''sai_thrift_acl_field_data_data_t''
        [(''ip4'', str ''10.0.0.1'')]), (''mask'', struct ''sai_thrift_acl_field_data_mask_t'' [(''ip4'', str
        ''255.255.255.0'')])]),
      assign ''obj_list'' (struct ''sai_thrift_object_list_t'' [(''count'', num 1), (''idlist'', list_of [var
        ''span_id_ingress''])]),
      assign ''param'' (struct ''sai_thrift_acl_action_parameter_t'' [(''objlist'', var ''obj_list'')]),
      assign ''obj_acl_action_data'' (struct ''sai_thrift_acl_action_data_t'' [(''parameter'', var ''param'')]),
      assign ''acl_entry_id_ingress'' (api_create ''acl_entry'' [(''table_id'', var ''acl_table_id_ingress''),
        (''action_mirror_ingress'', var ''obj_acl_action_data''), (''field_dst_ip'', var ''dst_ip'')]),
      assign ''pkt'' (lib ''simple_tcp_packet'' [] [(''eth_dst'', str ''00:00:00:00:00:33''), (''eth_src'', str
        ''00:00:00:00:00:22''), (''ip_dst'', str ''10.0.0.1''), (''dl_vlan_enable'', bool True), (''vlan_vid'', num 50),
        (''ip_id'', num 101), (''ip_ttl'', num 64)]),
      assign ''exp_pkt'' (lib ''simple_tcp_packet'' [] [(''eth_dst'', str ''00:00:00:00:00:33''), (''eth_src'', str
        ''00:00:00:00:00:22''), (''ip_dst'', str ''10.0.0.1''), (''dl_vlan_enable'', bool True), (''vlan_vid'', num 50),
        (''ip_id'', num 101), (''ip_ttl'', num 64)]),
      try_finally [
        run (lib ''send_packet'' [self ''dev_port25'', var ''pkt''] []),
        run (lib ''verify_packet'' [var ''exp_pkt'', self ''dev_port24''] []),
        run (lib ''verify_no_other_packets'' [] [(''timeout'', num 1)])] [
        run (api_remove ''acl_entry'' (var ''acl_entry_id_ingress'')),
        run (struct ''sai_thrift_object_list_t'' [(''count'', num 0), (''idlist'', list_of [var ''span_id_ingress''])]),
        run (api_set ''port'' (self ''port25'') [(''ingress_acl'', num 0)]),
        run (api_remove ''acl_table'' (var ''acl_table_id_ingress'')),
        run (api_remove ''mirror_session'' (var ''span_id_ingress''))]]"

definition MirrorConfigData_aclMirrorDroppedPacketEgressTest :: "'d stmt" where
  "MirrorConfigData_aclMirrorDroppedPacketEgressTest = block [
      assign ''span_id_egress'' (api_create ''mirror_session'' [(''monitor_port'', self ''port24''), (''type'', num
        SAI_MIRROR_SESSION_TYPE_LOCAL)]),
      assign ''action_type_egress'' (list_of [num SAI_ACL_ACTION_TYPE_MIRROR_EGRESS]),
      assign ''action_egress'' (struct ''sai_thrift_s32_list_t'' [(''count'', length_of (var ''action_type_egress'')),
        (''int32list'', var ''action_type_egress'')]),
      assign ''bind_point'' (list_of [num SAI_ACL_BIND_POINT_TYPE_PORT]),
      assign ''acl_bpt_list'' (struct ''sai_thrift_s32_list_t'' [(''count'', length_of (var ''bind_point'')), (''int32list'',
        var ''bind_point'')]),
      assign ''acl_table_id_egress'' (api_create ''acl_table'' [(''acl_stage'', num SAI_ACL_STAGE_EGRESS),
        (''acl_action_type_list'', var ''action_egress''), (''acl_bind_point_type_list'', var ''acl_bpt_list''),
        (''field_dst_ip'', bool True)]),
      run (api_set ''port'' (self ''port25'') [(''egress_acl'', var ''acl_table_id_egress'')]),
      assign ''dst_ip'' (struct ''sai_thrift_acl_field_data_t'' [(''data'', struct ''sai_thrift_acl_field_data_data_t''
        [(''ip4'', str ''10.0.0.1'')]), (''mask'', struct ''sai_thrift_acl_field_data_mask_t'' [(''ip4'', str
        ''255.255.255.0'')])]),
      assign ''obj_list'' (struct ''sai_thrift_object_list_t'' [(''count'', num 1), (''idlist'', list_of [var
        ''span_id_egress''])]),
      assign ''param'' (struct ''sai_thrift_acl_action_parameter_t'' [(''objlist'', var ''obj_list'')]),
      assign ''obj_acl_action_data'' (struct ''sai_thrift_acl_action_data_t'' [(''parameter'', var ''param'')]),
      assign ''acl_entry_id_egress'' (api_create ''acl_entry'' [(''table_id'', var ''acl_table_id_egress''),
        (''action_mirror_egress'', var ''obj_acl_action_data''), (''field_dst_ip'', var ''dst_ip'')]),
      assign ''pkt'' (lib ''simple_tcp_packet'' [] [(''eth_dst'', str ''00:00:00:00:00:22''), (''eth_src'', str
        ''00:00:00:00:00:33''), (''ip_dst'', str ''10.0.0.1''), (''dl_vlan_enable'', bool True), (''vlan_vid'', num 50),
        (''ip_id'', num 101), (''ip_ttl'', num 64)]),
      try_finally [
        run (lib ''send_packet'' [self ''dev_port26'', var ''pkt''] []),
        run (lib ''verify_no_other_packets'' [] [(''timeout'', num 1)])] [
        run (api_remove ''acl_entry'' (var ''acl_entry_id_egress'')),
        run (struct ''sai_thrift_object_list_t'' [(''count'', num 0), (''idlist'', list_of [var ''span_id_egress''])]),
        run (api_set ''port'' (self ''port25'') [(''egress_acl'', num 0)]),
        run (api_remove ''acl_table'' (var ''acl_table_id_egress'')),
        run (api_remove ''mirror_session'' (var ''span_id_egress''))]]"

definition MirrorConfigData_ingressMirrorPolicingTest :: "'d stmt" where
  "MirrorConfigData_ingressMirrorPolicingTest = block [
      assign ''span_id'' (api_create ''mirror_session'' [(''monitor_port'', self ''port24''), (''type'', num
        SAI_MIRROR_SESSION_TYPE_LOCAL), (''policer'', self ''pol_id'')]),
      assign ''obj_list'' (struct ''sai_thrift_object_list_t'' [(''count'', num 1), (''idlist'', list_of [var ''span_id''])]),
      run (api_set ''port'' (self ''port25'') [(''ingress_mirror_session'', var ''obj_list'')]),
      assign ''pkt'' (lib ''simple_tcp_packet'' [] [(''eth_dst'', str ''00:00:00:00:00:33''), (''eth_src'', str
        ''00:00:00:00:00:22''), (''ip_dst'', str ''10.0.0.1''), (''dl_vlan_enable'', bool True), (''vlan_vid'', num 40),
        (''ip_id'', num 101), (''ip_ttl'', num 64), (''pktlen'', num 1000)]),
      assign ''exp_pkt'' (lib ''simple_tcp_packet'' [] [(''eth_dst'', str ''00:00:00:00:00:33''), (''eth_src'', str
        ''00:00:00:00:00:22''), (''ip_dst'', str ''10.0.0.1''), (''dl_vlan_enable'', bool True), (''vlan_vid'', num 40),
        (''ip_id'', num 101), (''ip_ttl'', num 64), (''pktlen'', num 1000)]),
      try_finally [
        assign ''stats'' (query ''sai_thrift_get_policer_stats'' [self ''pol_id''] []),
        assign ''g_pkts0'' (item (var ''stats'') (str ''SAI_POLICER_STAT_GREEN_PACKETS'')),
        assign ''r_pkts0'' (item (var ''stats'') (str ''SAI_POLICER_STAT_RED_PACKETS'')),
        assign ''pkt_cnt'' (num 10),
        assign ''rec_pkt'' (num 0),
        for_in [''_''] (range_of (num 0) (var ''pkt_cnt'')) [
          run (lib ''send_packet'' [self ''dev_port25'', var ''pkt''] []),
          assign ''rec_pkt'' (add (var ''rec_pkt'') (num 1))],
        sleep_for (num 3),
        assign ''mirrored_pkts'' (lib ''count_matched_packets'' [var ''exp_pkt'', self ''dev_port24''] [(''timeout'', num 1)]),
        print [var ''mirrored_pkts''],
        assign ''rcv_pkts'' (lib ''count_matched_packets'' [var ''exp_pkt'', self ''dev_port26''] [(''timeout'', num 1)]),
        print [var ''rcv_pkts''],
        assert_eq (var ''rec_pkt'') (var ''pkt_cnt''),
        assert_eq (var ''rcv_pkts'') (var ''pkt_cnt''),
        assign ''stats'' (query ''sai_thrift_get_policer_stats'' [self ''pol_id''] []),
        assign ''g_pkts1'' (item (var ''stats'') (str ''SAI_POLICER_STAT_GREEN_PACKETS'')),
        assign ''r_pkts1'' (item (var ''stats'') (str ''SAI_POLICER_STAT_RED_PACKETS'')),
        print [var ''g_pkts1''],
        assign ''g_pkts1_exp'' (add (var ''g_pkts0'') (var ''mirrored_pkts'')),
        assert_eq (var ''g_pkts1'') (var ''g_pkts1_exp''),
        print [var ''r_pkts1''],
        assign ''r_pkts1_exp'' (sub (add (var ''r_pkts0'') (var ''rcv_pkts'')) (var ''mirrored_pkts'')),
        assert_eq (var ''r_pkts1'') (var ''r_pkts1_exp''),
        assert (eq (add (var ''g_pkts1'') (var ''r_pkts1'')) (var ''pkt_cnt''))] [
        assign ''obj_list'' (struct ''sai_thrift_object_list_t'' [(''count'', num 0), (''idlist'', list_of [var ''span_id''])]),
        run (api_set ''port'' (self ''port25'') [(''ingress_mirror_session'', var ''obj_list'')]),
        run (api_remove ''mirror_session'' (var ''span_id''))]]"

definition MirrorConfigData_egressMirrorPolicingTest :: "'d stmt" where
  "MirrorConfigData_egressMirrorPolicingTest = block [
      assign ''span_id'' (api_create ''mirror_session'' [(''monitor_port'', self ''port24''), (''type'', num
        SAI_MIRROR_SESSION_TYPE_LOCAL), (''policer'', self ''pol_id'')]),
      assign ''obj_list'' (struct ''sai_thrift_object_list_t'' [(''count'', num 1), (''idlist'', list_of [var ''span_id''])]),
      run (api_set ''port'' (self ''port25'') [(''egress_mirror_session'', var ''obj_list'')]),
      assign ''pkt'' (lib ''simple_tcp_packet'' [] [(''eth_dst'', str ''00:00:00:00:00:22''), (''eth_src'', str
        ''00:00:00:00:00:33''), (''ip_dst'', str ''10.0.0.1''), (''dl_vlan_enable'', bool True), (''vlan_vid'', num 40),
        (''ip_id'', num 101), (''ip_ttl'', num 64), (''pktlen'', num 1000)]),
      assign ''exp_pkt'' (lib ''simple_tcp_packet'' [] [(''eth_dst'', str ''00:00:00:00:00:22''), (''eth_src'', str
        ''00:00:00:00:00:33''), (''ip_dst'', str ''10.0.0.1''), (''dl_vlan_enable'', bool True), (''vlan_vid'', num 40),
        (''ip_id'', num 101), (''ip_ttl'', num 64), (''pktlen'', num 1000)]),
      try_finally [
        assign ''stats'' (query ''sai_thrift_get_policer_stats'' [self ''pol_id''] []),
        assign ''g_pkts0'' (item (var ''stats'') (str ''SAI_POLICER_STAT_GREEN_PACKETS'')),
        assign ''r_pkts0'' (item (var ''stats'') (str ''SAI_POLICER_STAT_RED_PACKETS'')),
        assign ''pkt_cnt'' (num 10),
        assign ''rec_pkt'' (num 0),
        for_in [''_''] (range_of (num 0) (var ''pkt_cnt'')) [
          run (lib ''send_packet'' [self ''dev_port26'', var ''pkt''] []),
          assign ''rec_pkt'' (add (var ''rec_pkt'') (num 1))],
        sleep_for (num 3),
        assign ''mirrored_pkts'' (lib ''count_matched_packets'' [var ''exp_pkt'', self ''dev_port24''] [(''timeout'', num 1)]),
        print [var ''mirrored_pkts''],
        assign ''rcv_pkts'' (lib ''count_matched_packets'' [var ''exp_pkt'', self ''dev_port25''] [(''timeout'', num 1)]),
        print [var ''rcv_pkts''],
        assert_eq (var ''rec_pkt'') (var ''pkt_cnt''),
        assert_eq (var ''rcv_pkts'') (var ''pkt_cnt''),
        assign ''stats'' (query ''sai_thrift_get_policer_stats'' [self ''pol_id''] []),
        assign ''g_pkts1'' (item (var ''stats'') (str ''SAI_POLICER_STAT_GREEN_PACKETS'')),
        assign ''r_pkts1'' (item (var ''stats'') (str ''SAI_POLICER_STAT_RED_PACKETS'')),
        print [var ''g_pkts1''],
        assign ''g_pkts1_exp'' (add (var ''g_pkts0'') (var ''mirrored_pkts'')),
        assert_eq (var ''g_pkts1'') (var ''g_pkts1_exp''),
        print [var ''r_pkts1''],
        assign ''r_pkts1_exp'' (sub (add (var ''r_pkts0'') (var ''rcv_pkts'')) (var ''mirrored_pkts'')),
        assert_eq (var ''r_pkts1'') (var ''r_pkts1_exp''),
        assert (eq (add (var ''g_pkts1'') (var ''r_pkts1'')) (var ''pkt_cnt''))] [
        assign ''obj_list'' (struct ''sai_thrift_object_list_t'' [(''count'', num 0), (''idlist'', list_of [var ''span_id''])]),
        run (api_set ''port'' (self ''port25'') [(''egress_mirror_session'', var ''obj_list'')]),
        run (api_remove ''mirror_session'' (var ''span_id''))]]"

end
