(* ===== verification/TestsMpls.thy ===== *)
theory TestsMpls
  imports PtfOwn PtfConstants
begin

text \<open>
  The tests of MPLS, \<open>ptf/saimpls.py\<close>: a definition per method, statement by statement in the language of
  \<open>PtfScript\<close>, named after its class. A parameter \<open>m_f\<close> is a method \<open>f\<close> that derived classes define anew.
\<close>

section \<open>The tests\<close>

definition MplsCpuTrapTest_setUp :: "'d stmt" where
  "MplsCpuTrapTest_setUp = block [
      super_setUp,
      assign ''status'' (clear_stats ''sai_thrift_clear_port_stats'' [self ''port10''] []),
      assert_eq (var ''status'') (num SAI_STATUS_SUCCESS),
      assign ''status'' (clear_stats ''sai_thrift_clear_router_interface_stats'' [self ''port10_rif''] []),
      assert_eq (var ''status'') (num SAI_STATUS_SUCCESS),
      assign ''stats'' (query ''sai_thrift_get_port_stats'' [self ''port10''] []),
      set_self ''port10_disc_stats'' (item (var ''stats'') (str ''SAI_PORT_STAT_IF_IN_DISCARDS'')),
      assert_eq (self ''port10_disc_stats'') (num 0),
      assign ''stats'' (query ''sai_thrift_get_router_interface_stats'' [self ''port10_rif''] []),
      set_self ''port10_rif_in_stats'' (item (var ''stats'') (str ''SAI_ROUTER_INTERFACE_STAT_IN_PACKETS'')),
      assert_eq (self ''port10_rif_in_stats'') (num 0),
      set_self ''port10_rif_out_stats'' (item (var ''stats'') (str ''SAI_ROUTER_INTERFACE_STAT_OUT_PACKETS'')),
      assert_eq (self ''port10_rif_out_stats'') (num 0),
      set_self ''inseg_entry'' (struct ''sai_thrift_inseg_entry_t'' [(''label'', num 3)]),
      assign ''status'' (api_create_entry ''inseg_entry'' (self ''inseg_entry'') [(''packet_action'', num
        SAI_PACKET_ACTION_TRAP)]),
      assert_eq (var ''status'') (num SAI_STATUS_SUCCESS)]"

definition MplsCpuTrapTest_verifyStats :: "'d stmt" where
  "MplsCpuTrapTest_verifyStats = block [
      assign ''rif_stats'' (query ''sai_thrift_get_router_interface_stats'' [self ''port10_rif''] []),
      assign ''port_stats'' (query ''sai_thrift_get_port_stats'' [self ''port10''] []),
      if_else (either (ne (self ''port10_rif_in_stats'') (item (var ''rif_stats'') (str
        ''SAI_ROUTER_INTERFACE_STAT_IN_PACKETS''))) (either (ne (self ''port10_rif_out_stats'') (item (var ''rif_stats'') (str
        ''SAI_ROUTER_INTERFACE_STAT_OUT_PACKETS''))) (ne (self ''port10_disc_stats'') (item (var ''port_stats'') (str
        ''SAI_PORT_STAT_IF_IN_DISCARDS''))))) [
        return (bool False)] [],
      return (bool True)]"

definition MplsCpuTrapTest_mplsImplicitNullLabelTrapDropTest :: "'d stmt" where
  "MplsCpuTrapTest_mplsImplicitNullLabelTrapDropTest = block [
      assign ''send_pkt'' (lib ''simple_tcp_packet'' [] [(''eth_dst'', str ROUTER_MAC), (''ip_dst'', str ''40.40.40.1''),
        (''ip_ttl'', num 64)]),
      assign ''mpls_tag'' (dict_of [(str ''label'', num 3), (str ''ttl'', num 63), (str ''tc'', num 0), (str ''s'', num 1)]),
      assign ''mpls_tag_list'' (list_of [var ''mpls_tag'']),
      assign ''mpls_pkt'' (lib ''simple_mpls_packet'' [] [(''eth_dst'', str ROUTER_MAC), (''mpls_tags'', var ''mpls_tag_list''),
        (''inner_frame'', lib ''get_layer'' [var ''send_pkt'', str ''IP''] [])]),
      try_finally [
        assign ''pre_stats'' (query ''sai_thrift_get_queue_stats'' [self ''cpu_queue0''] []),
        run (lib ''send_packet'' [self ''dev_port10'', var ''mpls_pkt''] []),
        sleep_for (num 4),
        assign ''post_stats'' (query ''sai_thrift_get_queue_stats'' [self ''cpu_queue0''] []),
        assert_eq (item (var ''post_stats'') (str ''SAI_QUEUE_STAT_PACKETS'')) (add (item (var ''pre_stats'') (str
          ''SAI_QUEUE_STAT_PACKETS'')) (num 1)),
        set_self ''port10_rif_in_stats'' (add (self ''port10_rif_in_stats'') (num 1)),
        set_self ''port10_rif_out_stats'' (add (self ''port10_rif_out_stats'') (num 1)),
        assert (invoke [] MplsCpuTrapTest_verifyStats),
        run (api_set ''inseg_entry'' (self ''inseg_entry'') [(''packet_action'', num SAI_PACKET_ACTION_DROP)]),
        run (lib ''send_packet'' [self ''dev_port10'', var ''mpls_pkt''] []),
        run (lib ''verify_no_other_packets'' [] []),
        set_self ''port10_rif_in_stats'' (add (self ''port10_rif_in_stats'') (num 1)),
        set_self ''port10_disc_stats'' (add (self ''port10_disc_stats'') (num 1)),
        assert (invoke [] MplsCpuTrapTest_verifyStats),
        assign ''inseg_entry_4'' (struct ''sai_thrift_inseg_entry_t'' [(''label'', num 4)]),
        assign ''status'' (api_create_entry ''inseg_entry'' (var ''inseg_entry_4'') [(''packet_action'', num
          SAI_PACKET_ACTION_TRAP)]),
        assert_eq (var ''status'') (num SAI_STATUS_SUCCESS),
        assign ''mpls_tag'' (dict_of [(str ''label'', num 3), (str ''ttl'', num 63), (str ''tc'', num 0), (str ''s'', num 0)]),
        assign ''mpls_tag_2'' (dict_of [(str ''label'', num 4), (str ''ttl'', num 63), (str ''tc'', num 0), (str ''s'', num 1)]),
        assign ''mpls_tag_list'' (list_of [var ''mpls_tag'', var ''mpls_tag_2'']),
        assign ''mpls_pkt'' (lib ''simple_mpls_packet'' [] [(''eth_dst'', str ROUTER_MAC), (''mpls_tags'', var
          ''mpls_tag_list''), (''inner_frame'', lib ''get_layer'' [var ''send_pkt'', str ''IP''] [])]),
        run (lib ''send_packet'' [self ''dev_port10'', var ''mpls_pkt''] []),
        run (lib ''verify_no_other_packets'' [] []),
        set_self ''port10_rif_in_stats'' (add (self ''port10_rif_in_stats'') (num 1)),
        set_self ''port10_disc_stats'' (add (self ''port10_disc_stats'') (num 1)),
        assert (invoke [] MplsCpuTrapTest_verifyStats)] [
        run (api_set ''inseg_entry'' (self ''inseg_entry'') [(''packet_action'', num SAI_PACKET_ACTION_TRAP)]),
        run (api_remove ''inseg_entry'' (var ''inseg_entry_4''))]]"

definition MplsCpuTrapTest_tearDown :: "'d stmt" where
  "MplsCpuTrapTest_tearDown = block [
      run (api_remove ''inseg_entry'' (self ''inseg_entry'')),
      super_tearDown]"

definition MplsIpv6Test_tearDown :: "'d stmt" where
  "MplsIpv6Test_tearDown = block [
      run (api_remove ''inseg_entry'' (self ''inseg_entry_8000'')),
      run (api_remove ''neighbor_entry'' (self ''mpls_neighbor_entry_9'')),
      run (api_remove ''next_hop'' (self ''nhop_label_9'')),
      run (api_remove ''router_interface'' (self ''egress_rif_9'')),
      run (api_remove ''inseg_entry'' (self ''inseg_entry_7000'')),
      run (api_remove ''neighbor_entry'' (self ''mpls_neighbor_entry_8'')),
      run (api_remove ''neighbor_entry'' (self ''mpls_neighbor_entry_7'')),
      run (api_remove ''neighbor_entry'' (self ''mpls_neighbor_entry_6'')),
      run (api_remove ''next_hop_group_member'' (self ''ecmp_mbr3'')),
      run (api_remove ''next_hop_group_member'' (self ''ecmp_mbr2'')),
      run (api_remove ''next_hop_group_member'' (self ''ecmp_mbr1'')),
      run (api_remove ''next_hop_group'' (self ''ecmp_group'')),
      run (api_remove ''next_hop'' (self ''nhop_label_8'')),
      run (api_remove ''next_hop'' (self ''nhop_label_7'')),
      run (api_remove ''next_hop'' (self ''nhop_label_6'')),
      run (api_remove ''router_interface'' (self ''egress_rif_8'')),
      run (api_remove ''router_interface'' (self ''egress_rif_7'')),
      run (api_remove ''router_interface'' (self ''egress_rif_6'')),
      run (api_remove ''inseg_entry'' (self ''inseg_entry_5000'')),
      run (api_remove ''neighbor_entry'' (self ''mpls_neighbor_entry_5'')),
      run (api_remove ''next_hop'' (self ''nhop_label_5'')),
      run (api_remove ''router_interface'' (self ''egress_rif_5'')),
      run (api_remove ''inseg_entry'' (self ''inseg_entry_3000'')),
      run (api_remove ''neighbor_entry'' (self ''mpls_neighbor_entry_4'')),
      run (api_remove ''next_hop'' (self ''nhop_label_4'')),
      run (api_remove ''router_interface'' (self ''egress_rif_4'')),
      run (api_remove ''inseg_entry'' (self ''inseg_entry_2222'')),
      run (api_remove ''inseg_entry'' (self ''inseg_entry_2111'')),
      run (api_remove ''inseg_entry'' (self ''inseg_entry_2000'')),
      run (api_remove ''neighbor_entry'' (self ''neighbor_entry_2'')),
      run (api_remove ''next_hop'' (self ''nhop_2'')),
      run (api_remove ''inseg_entry'' (self ''inseg_entry_0'')),
      run (api_remove ''inseg_entry'' (self ''inseg_entry_1000'')),
      run (api_remove ''route_entry'' (self ''route_entry_1'')),
      run (api_remove ''neighbor_entry'' (self ''neighbor_entry_1'')),
      run (api_remove ''next_hop'' (self ''nhop_1'')),
      run (api_remove ''router_interface'' (self ''mpls_rif'')),
      run (api_remove ''route_entry'' (self ''mpls_encap_route_1'')),
      run (api_remove ''route_entry'' (self ''mpls_encap_route_2'')),
      run (api_remove ''route_entry'' (self ''mpls_encap_route_3'')),
      run (api_remove ''neighbor_entry'' (self ''mpls_neighbor_entry_1'')),
      run (api_remove ''neighbor_entry'' (self ''mpls_neighbor_entry_2'')),
      run (api_remove ''neighbor_entry'' (self ''mpls_neighbor_entry_3'')),
      run (api_remove ''next_hop'' (self ''nhop_label_1'')),
      run (api_remove ''next_hop'' (self ''nhop_label_2'')),
      run (api_remove ''next_hop'' (self ''nhop_label_3'')),
      super_tearDown]"

definition MplsIpv4Test_tearDown :: "'d stmt" where
  "MplsIpv4Test_tearDown = block [
      run (api_remove ''inseg_entry'' (self ''inseg_entry_8000'')),
      run (api_remove ''neighbor_entry'' (self ''mpls_neighbor_entry_9'')),
      run (api_remove ''next_hop'' (self ''nhop_label_9'')),
      run (api_remove ''router_interface'' (self ''egress_rif_9'')),
      run (api_remove ''inseg_entry'' (self ''inseg_entry_7000'')),
      run (api_remove ''neighbor_entry'' (self ''mpls_neighbor_entry_8'')),
      run (api_remove ''neighbor_entry'' (self ''mpls_neighbor_entry_7'')),
      run (api_remove ''neighbor_entry'' (self ''mpls_neighbor_entry_6'')),
      run (api_remove ''next_hop_group_member'' (self ''ecmp_mbr3'')),
      run (api_remove ''next_hop_group_member'' (self ''ecmp_mbr2'')),
      run (api_remove ''next_hop_group_member'' (self ''ecmp_mbr1'')),
      run (api_remove ''next_hop_group'' (self ''ecmp_group'')),
      run (api_remove ''next_hop'' (self ''nhop_label_8'')),
      run (api_remove ''next_hop'' (self ''nhop_label_7'')),
      run (api_remove ''next_hop'' (self ''nhop_label_6'')),
      run (api_remove ''router_interface'' (self ''egress_rif_8'')),
      run (api_remove ''router_interface'' (self ''egress_rif_7'')),
      run (api_remove ''router_interface'' (self ''egress_rif_6'')),
      run (api_remove ''inseg_entry'' (self ''inseg_entry_5000'')),
      run (api_remove ''neighbor_entry'' (self ''mpls_neighbor_entry_5'')),
      run (api_remove ''next_hop'' (self ''nhop_label_5'')),
      run (api_remove ''router_interface'' (self ''egress_rif_5'')),
      run (api_remove ''inseg_entry'' (self ''inseg_entry_3000'')),
      run (api_remove ''neighbor_entry'' (self ''mpls_neighbor_entry_4'')),
      run (api_remove ''next_hop'' (self ''nhop_label_4'')),
      run (api_remove ''router_interface'' (self ''egress_rif_4'')),
      run (api_remove ''inseg_entry'' (self ''inseg_entry_2222'')),
      run (api_remove ''inseg_entry'' (self ''inseg_entry_2111'')),
      run (api_remove ''inseg_entry'' (self ''inseg_entry_2000'')),
      run (api_remove ''neighbor_entry'' (self ''neighbor_entry_2'')),
      run (api_remove ''next_hop'' (self ''nhop_2'')),
      run (api_remove ''inseg_entry'' (self ''inseg_entry_0'')),
      run (api_remove ''inseg_entry'' (self ''inseg_entry_1000'')),
      run (api_remove ''route_entry'' (self ''route_entry_vrf'')),
      run (api_remove ''neighbor_entry'' (self ''neighbor_entry_vrf'')),
      run (api_remove ''next_hop'' (self ''nhop_vrf'')),
      run (api_remove ''router_interface'' (self ''egress_rif_vrf'')),
      run (api_remove ''virtual_router'' (self ''vrf'')),
      run (api_remove ''route_entry'' (self ''route_entry_1'')),
      run (api_remove ''neighbor_entry'' (self ''neighbor_entry_1'')),
      run (api_remove ''next_hop'' (self ''nhop_1'')),
      run (api_remove ''router_interface'' (self ''mpls_rif'')),
      run (api_remove ''route_entry'' (self ''mpls_encap_route_1'')),
      run (api_remove ''route_entry'' (self ''mpls_encap_route_2'')),
      run (api_remove ''route_entry'' (self ''mpls_encap_route_3'')),
      run (api_remove ''neighbor_entry'' (self ''mpls_neighbor_entry_1'')),
      run (api_remove ''neighbor_entry'' (self ''mpls_neighbor_entry_2'')),
      run (api_remove ''neighbor_entry'' (self ''mpls_neighbor_entry_3'')),
      run (api_remove ''next_hop'' (self ''nhop_label_1'')),
      run (api_remove ''next_hop'' (self ''nhop_label_2'')),
      run (api_remove ''next_hop'' (self ''nhop_label_3'')),
      super_tearDown]"

definition MplsCreationTest_mplsCreateAndRemoveTest :: "'d stmt" where
  "MplsCreationTest_mplsCreateAndRemoveTest = block [
      for_in [''_''] (range_of (num 0) (num 5)) [
        assign ''inseg_entry'' (struct ''sai_thrift_inseg_entry_t'' [(''label'', num 200)]),
        assign ''status'' (api_create_entry ''inseg_entry'' (var ''inseg_entry'') []),
        assert_eq (var ''status'') (num SAI_STATUS_SUCCESS),
        assign ''status'' (api_remove ''inseg_entry'' (var ''inseg_entry'')),
        assert_eq (var ''status'') (num SAI_STATUS_SUCCESS)]]"

definition MplsCreationTest_mplsAttributesTest :: "'d stmt" where
  "MplsCreationTest_mplsAttributesTest = block [
      assign ''num_of_pop'' (num 2),
      assign ''packet_action'' (num SAI_PACKET_ACTION_DROP),
      assign ''next_hop_id'' (self ''port10_rif''),
      assign ''inseg_entry'' (struct ''sai_thrift_inseg_entry_t'' [(''label'', num 200)]),
      assign ''status'' (api_create_entry ''inseg_entry'' (var ''inseg_entry'') [(''num_of_pop'', var ''num_of_pop''),
        (''pop_ttl_mode'', num SAI_INSEG_ENTRY_POP_TTL_MODE_PIPE), (''packet_action'', var ''packet_action''), (''next_hop_id'',
        var ''next_hop_id'')]),
      assert_eq (var ''status'') (num SAI_STATUS_SUCCESS),
      try_finally [
        assign ''attr'' (api_get ''inseg_entry'' (var ''inseg_entry'') [(''packet_action'', bool True)]),
        assert_eq (item (var ''attr'') (str ''packet_action'')) (var ''packet_action''),
        print [var ''attr''],
        assign ''attr'' (api_get ''inseg_entry'' (var ''inseg_entry'') [(''num_of_pop'', bool True)]),
        assert_eq (item (var ''attr'') (str ''num_of_pop'')) (var ''num_of_pop''),
        print [var ''attr''],
        assign ''attr'' (api_get ''inseg_entry'' (var ''inseg_entry'') [(''next_hop_id'', bool True)]),
        assert_eq (item (var ''attr'') (str ''next_hop_id'')) (var ''next_hop_id''),
        print [var ''attr''],
        assign ''status'' (api_remove ''inseg_entry'' (var ''inseg_entry'')),
        assert_eq (var ''status'') (num SAI_STATUS_SUCCESS),
        assign ''inseg_entry'' (struct ''sai_thrift_inseg_entry_t'' [(''label'', num 200)]),
        assign ''status'' (api_create_entry ''inseg_entry'' (var ''inseg_entry'') []),
        run (api_set ''inseg_entry'' (var ''inseg_entry'') [(''packet_action'', var ''packet_action'')]),
        assign ''attr'' (api_get ''inseg_entry'' (var ''inseg_entry'') [(''packet_action'', bool True)]),
        assert_eq (item (var ''attr'') (str ''packet_action'')) (var ''packet_action''),
        print [var ''attr''],
        run (api_set ''inseg_entry'' (var ''inseg_entry'') [(''num_of_pop'', var ''num_of_pop'')]),
        assign ''attr'' (api_get ''inseg_entry'' (var ''inseg_entry'') [(''num_of_pop'', bool True)]),
        assert_eq (item (var ''attr'') (str ''num_of_pop'')) (var ''num_of_pop''),
        print [var ''attr''],
        run (api_set ''inseg_entry'' (var ''inseg_entry'') [(''next_hop_id'', var ''next_hop_id'')]),
        assign ''attr'' (api_get ''inseg_entry'' (var ''inseg_entry'') [(''next_hop_id'', bool True)]),
        assert_eq (item (var ''attr'') (str ''next_hop_id'')) (var ''next_hop_id''),
        print [var ''attr'']] [
        assign ''status'' (api_remove ''inseg_entry'' (var ''inseg_entry'')),
        assert_eq (var ''status'') (num SAI_STATUS_SUCCESS)]]"

definition MplsCreationTest_mplsCreateTheSameEntryTest :: "'d stmt" where
  "MplsCreationTest_mplsCreateTheSameEntryTest = block [
      try_finally [
        assign ''inseg_entry'' (struct ''sai_thrift_inseg_entry_t'' [(''label'', num 200)]),
        assign ''status'' (api_create_entry ''inseg_entry'' (var ''inseg_entry'') []),
        assert_eq (var ''status'') (num SAI_STATUS_SUCCESS),
        assign ''inseg_entry'' (struct ''sai_thrift_inseg_entry_t'' [(''label'', num 200)]),
        assign ''status'' (api_create_entry ''inseg_entry'' (var ''inseg_entry'') []),
        assert_ne (var ''status'') (num SAI_STATUS_SUCCESS)] [
        assign ''status'' (api_remove ''inseg_entry'' (var ''inseg_entry'')),
        assert_eq (var ''status'') (num SAI_STATUS_SUCCESS)]]"

definition MplsCreationTest_runTest :: "'d stmt" where
  "MplsCreationTest_runTest = block [
      run (invoke [] MplsCreationTest_mplsCreateAndRemoveTest),
      run (invoke [] MplsCreationTest_mplsAttributesTest),
      run (invoke [] MplsCreationTest_mplsCreateTheSameEntryTest)]"

definition MplsIpv6TtlModeTest_tearDown :: "'d stmt" where
  "MplsIpv6TtlModeTest_tearDown = block [
      run (api_remove ''inseg_entry'' (self ''inseg_entry_8000'')),
      run (api_remove ''neighbor_entry'' (self ''mpls_neighbor_entry_9'')),
      run (api_remove ''next_hop'' (self ''nhop_label_9'')),
      run (api_remove ''router_interface'' (self ''egress_rif_9'')),
      run (api_remove ''inseg_entry'' (self ''inseg_entry_3000'')),
      run (api_remove ''neighbor_entry'' (self ''mpls_neighbor_entry_4'')),
      run (api_remove ''next_hop'' (self ''nhop_label_4'')),
      run (api_remove ''router_interface'' (self ''egress_rif_4'')),
      run (api_remove ''inseg_entry'' (self ''inseg_entry_2222'')),
      run (api_remove ''inseg_entry'' (self ''inseg_entry_2111'')),
      run (api_remove ''inseg_entry'' (self ''inseg_entry_2000'')),
      run (api_remove ''neighbor_entry'' (self ''neighbor_entry_2'')),
      run (api_remove ''next_hop'' (self ''nhop_2'')),
      run (api_remove ''inseg_entry'' (self ''inseg_entry_0'')),
      run (api_remove ''inseg_entry'' (self ''inseg_entry_1000'')),
      run (api_remove ''route_entry'' (self ''route_entry_1'')),
      run (api_remove ''neighbor_entry'' (self ''neighbor_entry_1'')),
      run (api_remove ''next_hop'' (self ''nhop_1'')),
      run (api_remove ''router_interface'' (self ''mpls_rif'')),
      run (api_remove ''route_entry'' (self ''mpls_encap_route_1'')),
      run (api_remove ''route_entry'' (self ''mpls_encap_route_2'')),
      run (api_remove ''route_entry'' (self ''mpls_encap_route_3'')),
      run (api_remove ''neighbor_entry'' (self ''mpls_neighbor_entry_1'')),
      run (api_remove ''neighbor_entry'' (self ''mpls_neighbor_entry_2'')),
      run (api_remove ''neighbor_entry'' (self ''mpls_neighbor_entry_3'')),
      run (api_remove ''next_hop'' (self ''nhop_label_1'')),
      run (api_remove ''next_hop'' (self ''nhop_label_2'')),
      run (api_remove ''next_hop'' (self ''nhop_label_3'')),
      super_tearDown]"

definition MplsIpv6TtlModeTest_mplsEgressLERTermTtlModeTest :: "'d stmt" where
  "MplsIpv6TtlModeTest_mplsEgressLERTermTtlModeTest = block [
      assign ''send_pkt'' (lib ''simple_tcpv6_packet'' [] [(''eth_dst'', str ROUTER_MAC), (''ipv6_dst'', str ''200::1''),
        (''ipv6_hlim'', num 64)]),
      assign ''mpls_tag'' (dict_of [(str ''label'', num 1000), (str ''ttl'', num 55), (str ''tc'', num 0), (str ''s'', num 1)]),
      assign ''mpls_tag_list'' (list_of [var ''mpls_tag'']),
      assign ''mpls_pkt'' (lib ''simple_mpls_packet'' [] [(''eth_dst'', str ROUTER_MAC), (''mpls_tags'', var ''mpls_tag_list''),
        (''inner_frame'', lib ''get_layer'' [var ''send_pkt'', str ''IPv6''] [])]),
      assign ''recv_pkt'' (lib ''simple_tcpv6_packet'' [] [(''eth_dst'', str ''00:11:22:33:44:55''), (''eth_src'', str
        ROUTER_MAC), (''ipv6_dst'', str ''200::1''), (''ipv6_hlim'', num 54)]),
      run (lib ''send_packet'' [self ''dev_port10'', var ''mpls_pkt''] []),
      run (lib ''verify_packet'' [var ''recv_pkt'', self ''dev_port12''] []),
      run (api_set ''inseg_entry'' (self ''inseg_entry_1000'') [(''pop_ttl_mode'', num SAI_INSEG_ENTRY_POP_TTL_MODE_PIPE)]),
      assign ''recv_pkt'' (lib ''set_field'' [var ''recv_pkt'', str ''IPv6'', str ''hlim'', num 63] []),
      run (lib ''send_packet'' [self ''dev_port10'', var ''mpls_pkt''] []),
      run (lib ''verify_packet'' [var ''recv_pkt'', self ''dev_port12''] []),
      run (api_set ''inseg_entry'' (self ''inseg_entry_1000'') [(''pop_ttl_mode'', num SAI_INSEG_ENTRY_POP_TTL_MODE_UNIFORM)]),
      assign ''recv_pkt'' (lib ''set_field'' [var ''recv_pkt'', str ''IPv6'', str ''hlim'', num 54] []),
      run (lib ''send_packet'' [self ''dev_port10'', var ''mpls_pkt''] []),
      run (lib ''verify_packet'' [var ''recv_pkt'', self ''dev_port12''] [])]"

definition MplsIpv6TtlModeTest_mplsEgressLERNullTermTtlModeTest :: "'d stmt" where
  "MplsIpv6TtlModeTest_mplsEgressLERNullTermTtlModeTest = block [
      assign ''send_pkt'' (lib ''simple_tcpv6_packet'' [] [(''eth_dst'', str ROUTER_MAC), (''ipv6_dst'', str ''200::1''),
        (''ipv6_hlim'', num 64)]),
      assign ''mpls_tag'' (dict_of [(str ''label'', num 0), (str ''ttl'', num 60), (str ''tc'', num 0), (str ''s'', num 1)]),
      assign ''mpls_tag_list'' (list_of [var ''mpls_tag'']),
      assign ''mpls_pkt'' (lib ''simple_mpls_packet'' [] [(''eth_dst'', str ROUTER_MAC), (''mpls_tags'', var ''mpls_tag_list''),
        (''inner_frame'', lib ''get_layer'' [var ''send_pkt'', str ''IPv6''] [])]),
      assign ''recv_pkt'' (lib ''simple_tcpv6_packet'' [] [(''eth_dst'', str ''00:11:22:33:44:55''), (''eth_src'', str
        ROUTER_MAC), (''ipv6_dst'', str ''200::1''), (''ipv6_hlim'', num 59)]),
      run (lib ''send_packet'' [self ''dev_port10'', var ''mpls_pkt''] []),
      run (lib ''verify_packet'' [var ''recv_pkt'', self ''dev_port12''] [])]"

definition MplsIpv4TtlModeTest_tearDown :: "'d stmt" where
  "MplsIpv4TtlModeTest_tearDown = block [
      run (api_remove ''inseg_entry'' (self ''inseg_entry_8000'')),
      run (api_remove ''neighbor_entry'' (self ''mpls_neighbor_entry_9'')),
      run (api_remove ''next_hop'' (self ''nhop_label_9'')),
      run (api_remove ''router_interface'' (self ''egress_rif_9'')),
      run (api_remove ''inseg_entry'' (self ''inseg_entry_3000'')),
      run (api_remove ''neighbor_entry'' (self ''mpls_neighbor_entry_4'')),
      run (api_remove ''next_hop'' (self ''nhop_label_4'')),
      run (api_remove ''router_interface'' (self ''egress_rif_4'')),
      run (api_remove ''inseg_entry'' (self ''inseg_entry_2222'')),
      run (api_remove ''inseg_entry'' (self ''inseg_entry_2111'')),
      run (api_remove ''inseg_entry'' (self ''inseg_entry_2000'')),
      run (api_remove ''neighbor_entry'' (self ''neighbor_entry_2'')),
      run (api_remove ''next_hop'' (self ''nhop_2'')),
      run (api_remove ''inseg_entry'' (self ''inseg_entry_0'')),
      run (api_remove ''inseg_entry'' (self ''inseg_entry_1000'')),
      run (api_remove ''route_entry'' (self ''route_entry_1'')),
      run (api_remove ''neighbor_entry'' (self ''neighbor_entry_1'')),
      run (api_remove ''next_hop'' (self ''nhop_1'')),
      run (api_remove ''router_interface'' (self ''mpls_rif'')),
      run (api_remove ''route_entry'' (self ''mpls_encap_route_1'')),
      run (api_remove ''route_entry'' (self ''mpls_encap_route_2'')),
      run (api_remove ''route_entry'' (self ''mpls_encap_route_3'')),
      run (api_remove ''neighbor_entry'' (self ''mpls_neighbor_entry_1'')),
      run (api_remove ''neighbor_entry'' (self ''mpls_neighbor_entry_2'')),
      run (api_remove ''neighbor_entry'' (self ''mpls_neighbor_entry_3'')),
      run (api_remove ''next_hop'' (self ''nhop_label_1'')),
      run (api_remove ''next_hop'' (self ''nhop_label_2'')),
      run (api_remove ''next_hop'' (self ''nhop_label_3'')),
      super_tearDown]"

definition MplsIpv4TtlModeTest_mplsEgressLERTermTtlModeTest :: "'d stmt" where
  "MplsIpv4TtlModeTest_mplsEgressLERTermTtlModeTest = block [
      assign ''send_pkt'' (lib ''simple_tcp_packet'' [] [(''eth_dst'', str ROUTER_MAC), (''ip_dst'', str ''20.20.20.1''),
        (''ip_ttl'', num 64)]),
      assign ''mpls_tag'' (dict_of [(str ''label'', num 1000), (str ''ttl'', num 55), (str ''tc'', num 0), (str ''s'', num 1)]),
      assign ''mpls_tag_list'' (list_of [var ''mpls_tag'']),
      assign ''mpls_pkt'' (lib ''simple_mpls_packet'' [] [(''eth_dst'', str ROUTER_MAC), (''mpls_tags'', var ''mpls_tag_list''),
        (''inner_frame'', lib ''get_layer'' [var ''send_pkt'', str ''IP''] [])]),
      assign ''recv_pkt'' (lib ''simple_tcp_packet'' [] [(''eth_dst'', str ''00:11:22:33:44:55''), (''eth_src'', str
        ROUTER_MAC), (''ip_dst'', str ''20.20.20.1''), (''ip_ttl'', num 54)]),
      run (lib ''send_packet'' [self ''dev_port10'', var ''mpls_pkt''] []),
      run (lib ''verify_packet'' [var ''recv_pkt'', self ''dev_port12''] [])]"

definition MplsIpv4TtlModeTest_mplsEgressLERNullTermTtlModeTest :: "'d stmt" where
  "MplsIpv4TtlModeTest_mplsEgressLERNullTermTtlModeTest = block [
      assign ''send_pkt'' (lib ''simple_tcp_packet'' [] [(''eth_dst'', str ROUTER_MAC), (''ip_dst'', str ''20.20.20.1''),
        (''ip_ttl'', num 64)]),
      assign ''mpls_tag'' (dict_of [(str ''label'', num 0), (str ''ttl'', num 60), (str ''tc'', num 0), (str ''s'', num 1)]),
      assign ''mpls_tag_list'' (list_of [var ''mpls_tag'']),
      assign ''mpls_pkt'' (lib ''simple_mpls_packet'' [] [(''eth_dst'', str ROUTER_MAC), (''mpls_tags'', var ''mpls_tag_list''),
        (''inner_frame'', lib ''get_layer'' [var ''send_pkt'', str ''IP''] [])]),
      assign ''recv_pkt'' (lib ''simple_tcp_packet'' [] [(''eth_dst'', str ''00:11:22:33:44:55''), (''eth_src'', str
        ROUTER_MAC), (''ip_dst'', str ''20.20.20.1''), (''ip_ttl'', num 59)]),
      run (lib ''send_packet'' [self ''dev_port10'', var ''mpls_pkt''] []),
      run (lib ''verify_packet'' [var ''recv_pkt'', self ''dev_port12''] [])]"

definition MplsIpv4TtlModeTest_mplsEgressPhpTtlModeTest :: "'d stmt" where
  "MplsIpv4TtlModeTest_mplsEgressPhpTtlModeTest = block [
      assign ''send_pkt'' (lib ''simple_tcp_packet'' [] [(''eth_dst'', str ROUTER_MAC), (''ip_dst'', str ''30.30.30.1''),
        (''ip_ttl'', num 64)]),
      assign ''mpls_tag'' (dict_of [(str ''label'', num 2000), (str ''ttl'', num 60), (str ''tc'', num 0), (str ''s'', num 1)]),
      assign ''mpls_tag_list'' (list_of [var ''mpls_tag'']),
      assign ''mpls_pkt'' (lib ''simple_mpls_packet'' [] [(''eth_dst'', str ROUTER_MAC), (''mpls_tags'', var ''mpls_tag_list''),
        (''inner_frame'', lib ''get_layer'' [var ''send_pkt'', str ''IP''] [])]),
      assign ''mpls_tag_2'' (dict_of [(str ''label'', num 2111), (str ''ttl'', num 58), (str ''tc'', num 0), (str ''s'', num
        0)]),
      assign ''mpls_tag_list_2'' (list_of [var ''mpls_tag_2'', var ''mpls_tag'']),
      assign ''mpls_tag_2_pkt'' (lib ''simple_mpls_packet'' [] [(''eth_dst'', str ROUTER_MAC), (''mpls_tags'', var
        ''mpls_tag_list_2''), (''inner_frame'', lib ''get_layer'' [var ''send_pkt'', str ''IP''] [])]),
      assign ''mpls_tag_3'' (dict_of [(str ''label'', num 2222), (str ''ttl'', num 56), (str ''tc'', num 0), (str ''s'', num
        0)]),
      assign ''mpls_tag_list_3'' (list_of [var ''mpls_tag_3'', var ''mpls_tag_2'', var ''mpls_tag'']),
      assign ''mpls_tag_3_pkt'' (lib ''simple_mpls_packet'' [] [(''eth_dst'', str ROUTER_MAC), (''mpls_tags'', var
        ''mpls_tag_list_3''), (''inner_frame'', lib ''get_layer'' [var ''send_pkt'', str ''IP''] [])]),
      assign ''recv_pkt'' (lib ''simple_tcp_packet'' [] [(''eth_dst'', str ''00:11:22:33:44:55''), (''eth_src'', str
        ROUTER_MAC), (''ip_dst'', str ''30.30.30.1''), (''ip_ttl'', num 63)]),
      try_finally [
        assign ''recv_pkt'' (lib ''set_field'' [var ''recv_pkt'', str ''IP'', str ''ttl'', num 59] []),
        run (lib ''send_packet'' [self ''dev_port10'', var ''mpls_pkt''] []),
        run (lib ''verify_packet'' [var ''recv_pkt'', self ''dev_port13''] []),
        assign ''recv_pkt'' (lib ''set_field'' [var ''recv_pkt'', str ''IP'', str ''ttl'', num 57] []),
        run (lib ''send_packet'' [self ''dev_port10'', var ''mpls_tag_2_pkt''] []),
        run (lib ''verify_packet'' [var ''recv_pkt'', self ''dev_port13''] []),
        assign ''recv_pkt'' (lib ''set_field'' [var ''recv_pkt'', str ''IP'', str ''ttl'', num 55] []),
        run (lib ''send_packet'' [self ''dev_port10'', var ''mpls_tag_3_pkt''] []),
        run (lib ''verify_packet'' [var ''recv_pkt'', self ''dev_port13''] [])] [
        run (api_set ''inseg_entry'' (self ''inseg_entry_2222'') [(''num_of_pop'', num 3)])]]"

end
