(* ===== verification/TestsNat.thy ===== *)
theory TestsNat
  imports PtfOwn PtfConstants
begin

text \<open>
  The tests of address translation, \<open>ptf/sainat.py\<close>: a definition per method, statement by statement in the language of
  \<open>PtfScript\<close>, named after its class. A parameter \<open>m_f\<close> is a method \<open>f\<close> that derived classes define anew.
\<close>

section \<open>The tests\<close>

definition NatTranslationTest_setUp :: "'d stmt" where
  "NatTranslationTest_setUp = block [
      super_setUp,
      set_self ''route_list'' (list_of []),
      set_self ''nbor_list'' (list_of []),
      set_self ''nhop_list'' (list_of []),
      set_self ''acl_entry_list'' (list_of []),
      set_self ''acl_cntr_list'' (list_of []),
      set_self ''acl_table_list'' (list_of []),
      set_self ''rif_list'' (list_of []),
      set_self ''vlan_mbr_list'' (list_of []),
      set_self ''vlan_list'' (list_of []),
      set_self ''bp_list'' (list_of []),
      set_self ''ingr_port_rif'' (self ''port10_rif''),
      set_self ''egr_port_rif'' (self ''port11_rif''),
      set_self ''ingr_port'' (self ''port10''),
      set_self ''egr_port'' (self ''port11''),
      set_self ''ingr_port_dev'' (self ''dev_port10''),
      set_self ''egr_port_dev'' (self ''dev_port11''),
      set_self ''port_nbor_ip'' (str ''10.10.10.1''),
      set_self ''port_nbor_mac'' (str ''00:11:11:11:11:11''),
      set_self ''nat_ip_to_port'' (str ''30.30.30.10''),
      set_self ''nat_port_nhop'' (api_create ''next_hop'' [(''ip'', ip_address (self ''port_nbor_ip'')),
        (''router_interface_id'', self ''egr_port_rif''), (''type'', num SAI_NEXT_HOP_TYPE_IP)]),
      set_self ''nhop_list'' (appended (self ''nhop_list'') (self ''nat_port_nhop'')),
      set_self ''nat_port_nbor'' (struct ''sai_thrift_neighbor_entry_t'' [(''rif_id'', self ''egr_port_rif''), (''ip_address'',
        ip_address (self ''port_nbor_ip''))]),
      run (api_create_entry ''neighbor_entry'' (self ''nat_port_nbor'') [(''dst_mac_address'', self ''port_nbor_mac''),
        (''no_host_route'', bool True)]),
      set_self ''nbor_list'' (appended (self ''nbor_list'') (self ''nat_port_nbor'')),
      set_self ''nat_port_route'' (struct ''sai_thrift_route_entry_t'' [(''vr_id'', self ''default_vrf''), (''destination'',
        ip_prefix (add (self ''port_nbor_ip'') (str ''/32'')))]),
      run (api_create_entry ''route_entry'' (self ''nat_port_route'') [(''next_hop_id'', self ''nat_port_nhop'')]),
      set_self ''route_list'' (appended (self ''route_list'') (self ''nat_port_route'')),
      set_self ''ingr_lag_rif'' (self ''lag3_rif''),
      set_self ''egr_lag_rif'' (self ''lag4_rif''),
      set_self ''ingr_lag'' (list_of [self ''port14'', self ''port15'', self ''port16'']),
      set_self ''egr_lag'' (list_of [self ''port17'', self ''port18'', self ''port19'']),
      set_self ''ingr_lag_dev'' (list_of [self ''dev_port14'', self ''dev_port15'', self ''dev_port16'']),
      set_self ''egr_lag_dev'' (list_of [self ''dev_port17'', self ''dev_port18'', self ''dev_port19'']),
      set_self ''lag_nbor_ip'' (str ''10.10.20.1''),
      set_self ''lag_nbor_mac'' (str ''00:22:22:22:22:22''),
      set_self ''nat_ip_to_lag'' (str ''30.30.30.20''),
      set_self ''nat_lag_nhop'' (api_create ''next_hop'' [(''ip'', ip_address (self ''lag_nbor_ip'')), (''router_interface_id'',
        self ''egr_lag_rif''), (''type'', num SAI_NEXT_HOP_TYPE_IP)]),
      set_self ''nhop_list'' (appended (self ''nhop_list'') (self ''nat_lag_nhop'')),
      set_self ''nat_lag_nbor'' (struct ''sai_thrift_neighbor_entry_t'' [(''rif_id'', self ''egr_lag_rif''), (''ip_address'',
        ip_address (self ''lag_nbor_ip''))]),
      run (api_create_entry ''neighbor_entry'' (self ''nat_lag_nbor'') [(''dst_mac_address'', self ''lag_nbor_mac''),
        (''no_host_route'', bool True)]),
      set_self ''nbor_list'' (appended (self ''nbor_list'') (self ''nat_lag_nbor'')),
      set_self ''nat_lag_route'' (struct ''sai_thrift_route_entry_t'' [(''vr_id'', self ''default_vrf''), (''destination'',
        ip_prefix (add (self ''lag_nbor_ip'') (str ''/32'')))]),
      run (api_create_entry ''route_entry'' (self ''nat_lag_route'') [(''next_hop_id'', self ''nat_lag_nhop'')]),
      set_self ''route_list'' (appended (self ''route_list'') (self ''nat_lag_route'')),
      set_self ''port24_bp'' (api_create ''bridge_port'' [(''bridge_id'', self ''default_1q_bridge''), (''port_id'', self
        ''port24''), (''type'', num SAI_BRIDGE_PORT_TYPE_PORT), (''admin_state'', bool True)]),
      set_self ''bp_list'' (appended (self ''bp_list'') (self ''port24_bp'')),
      set_self ''port25_bp'' (api_create ''bridge_port'' [(''bridge_id'', self ''default_1q_bridge''), (''port_id'', self
        ''port25''), (''type'', num SAI_BRIDGE_PORT_TYPE_PORT), (''admin_state'', bool True)]),
      set_self ''bp_list'' (appended (self ''bp_list'') (self ''port25_bp'')),
      set_self ''vlan100'' (api_create ''vlan'' [(''vlan_id'', num 100)]),
      set_self ''vlan_list'' (appended (self ''vlan_list'') (self ''vlan100'')),
      set_self ''vlan100_member0'' (api_create ''vlan_member'' [(''vlan_id'', self ''vlan100''), (''bridge_port_id'', self
        ''port24_bp''), (''vlan_tagging_mode'', num SAI_VLAN_TAGGING_MODE_UNTAGGED)]),
      set_self ''vlan_mbr_list'' (appended (self ''vlan_mbr_list'') (self ''vlan100_member0'')),
      set_self ''vlan100_member1'' (api_create ''vlan_member'' [(''vlan_id'', self ''vlan100''), (''bridge_port_id'', self
        ''port25_bp''), (''vlan_tagging_mode'', num SAI_VLAN_TAGGING_MODE_UNTAGGED)]),
      set_self ''vlan_mbr_list'' (appended (self ''vlan_mbr_list'') (self ''vlan100_member1'')),
      run (api_set ''port'' (self ''port24'') [(''port_vlan_id'', num 100)]),
      run (api_set ''port'' (self ''port25'') [(''port_vlan_id'', num 100)]),
      set_self ''port26_bp'' (api_create ''bridge_port'' [(''bridge_id'', self ''default_1q_bridge''), (''port_id'', self
        ''port26''), (''type'', num SAI_BRIDGE_PORT_TYPE_PORT), (''admin_state'', bool True)]),
      set_self ''bp_list'' (appended (self ''bp_list'') (self ''port26_bp'')),
      set_self ''port27_bp'' (api_create ''bridge_port'' [(''bridge_id'', self ''default_1q_bridge''), (''port_id'', self
        ''port27''), (''type'', num SAI_BRIDGE_PORT_TYPE_PORT), (''admin_state'', bool True)]),
      set_self ''bp_list'' (appended (self ''bp_list'') (self ''port27_bp'')),
      set_self ''vlan200'' (api_create ''vlan'' [(''vlan_id'', num 200)]),
      set_self ''vlan_list'' (appended (self ''vlan_list'') (self ''vlan200'')),
      set_self ''vlan200_member0'' (api_create ''vlan_member'' [(''vlan_id'', self ''vlan200''), (''bridge_port_id'', self
        ''port26_bp''), (''vlan_tagging_mode'', num SAI_VLAN_TAGGING_MODE_UNTAGGED)]),
      set_self ''vlan_mbr_list'' (appended (self ''vlan_mbr_list'') (self ''vlan200_member0'')),
      set_self ''vlan200_member1'' (api_create ''vlan_member'' [(''vlan_id'', self ''vlan200''), (''bridge_port_id'', self
        ''port27_bp''), (''vlan_tagging_mode'', num SAI_VLAN_TAGGING_MODE_UNTAGGED)]),
      set_self ''vlan_mbr_list'' (appended (self ''vlan_mbr_list'') (self ''vlan200_member1'')),
      run (api_set ''port'' (self ''port26'') [(''port_vlan_id'', num 200)]),
      run (api_set ''port'' (self ''port27'') [(''port_vlan_id'', num 200)]),
      set_self ''ingr_svi_rif'' (api_create ''router_interface'' [(''type'', num SAI_ROUTER_INTERFACE_TYPE_VLAN),
        (''virtual_router_id'', self ''default_vrf''), (''vlan_id'', self ''vlan100'')]),
      set_self ''rif_list'' (appended (self ''rif_list'') (self ''ingr_svi_rif'')),
      set_self ''egr_svi_rif'' (api_create ''router_interface'' [(''type'', num SAI_ROUTER_INTERFACE_TYPE_VLAN),
        (''virtual_router_id'', self ''default_vrf''), (''vlan_id'', self ''vlan200'')]),
      set_self ''rif_list'' (appended (self ''rif_list'') (self ''egr_svi_rif'')),
      set_self ''ingr_svi'' (list_of [self ''port24'', self ''port25'']),
      set_self ''egr_svi'' (list_of [self ''port26'', self ''port27'']),
      set_self ''ingr_svi_dev'' (list_of [self ''dev_port24'', self ''dev_port25'']),
      set_self ''egr_svi_dev'' (list_of [self ''dev_port26'', self ''dev_port27'']),
      set_self ''svi_nbor_ip'' (str ''10.10.30.1''),
      set_self ''svi_nbor_mac'' (str ''00:33:33:33:33:33''),
      set_self ''nat_ip_to_svi'' (str ''30.30.30.30''),
      set_self ''nat_svi_nhop'' (api_create ''next_hop'' [(''ip'', ip_address (self ''svi_nbor_ip'')), (''router_interface_id'',
        self ''egr_svi_rif''), (''type'', num SAI_NEXT_HOP_TYPE_IP)]),
      set_self ''nhop_list'' (appended (self ''nhop_list'') (self ''nat_svi_nhop'')),
      set_self ''nat_svi_nbor'' (struct ''sai_thrift_neighbor_entry_t'' [(''rif_id'', self ''egr_svi_rif''), (''ip_address'',
        ip_address (self ''svi_nbor_ip''))]),
      run (api_create_entry ''neighbor_entry'' (self ''nat_svi_nbor'') [(''dst_mac_address'', self ''svi_nbor_mac''),
        (''no_host_route'', bool True)]),
      set_self ''nbor_list'' (appended (self ''nbor_list'') (self ''nat_svi_nbor'')),
      set_self ''nat_svi_route'' (struct ''sai_thrift_route_entry_t'' [(''vr_id'', self ''default_vrf''), (''destination'',
        ip_prefix (add (self ''svi_nbor_ip'') (str ''/32'')))]),
      run (api_create_entry ''route_entry'' (self ''nat_svi_route'') [(''next_hop_id'', self ''nat_svi_nhop'')]),
      set_self ''route_list'' (appended (self ''route_list'') (self ''nat_svi_route'')),
      assign ''action_types'' (list_of [num SAI_ACL_ACTION_TYPE_NO_NAT]),
      assign ''action_types_list'' (struct ''sai_thrift_s32_list_t'' [(''count'', length_of (var ''action_types'')),
        (''int32list'', var ''action_types'')]),
      assign ''acl_action'' (struct ''sai_thrift_acl_action_data_t'' [(''enable'', bool True), (''parameter'', struct
        ''sai_thrift_acl_action_parameter_t'' [(''booldata'', bool True)])]),
      assign ''bind_points'' (list_of [num SAI_ACL_BIND_POINT_TYPE_ROUTER_INTERFACE]),
      assign ''bind_points_list'' (struct ''sai_thrift_s32_list_t'' [(''count'', length_of (var ''bind_points'')),
        (''int32list'', var ''bind_points'')]),
      set_self ''ingr_acl_table'' (api_create ''acl_table'' [(''acl_stage'', num SAI_ACL_STAGE_INGRESS),
        (''acl_bind_point_type_list'', var ''bind_points_list''), (''acl_action_type_list'', var ''action_types_list''),
        (''field_dst_ip'', bool True)]),
      set_self ''acl_table_list'' (appended (self ''acl_table_list'') (self ''ingr_acl_table'')),
      set_self ''ingr_acl_counter'' (api_create ''acl_counter'' [(''table_id'', self ''ingr_acl_table''),
        (''enable_packet_count'', bool True)]),
      set_self ''acl_cntr_list'' (appended (self ''acl_cntr_list'') (self ''ingr_acl_counter'')),
      assign ''ingr_acl_cnt_action'' (struct ''sai_thrift_acl_action_data_t'' [(''enable'', bool True), (''parameter'', struct
        ''sai_thrift_acl_action_parameter_t'' [(''oid'', self ''ingr_acl_counter'')])]),
      assign ''port_nbor_ip_addr'' (struct ''sai_thrift_acl_field_data_t'' [(''data'', struct
        ''sai_thrift_acl_field_data_data_t'' [(''ip4'', self ''port_nbor_ip'')]), (''mask'', struct
        ''sai_thrift_acl_field_data_mask_t'' [(''ip4'', str ''255.255.255.255'')])]),
      set_self ''ingr_acl_port_entry'' (api_create ''acl_entry'' [(''table_id'', self ''ingr_acl_table''), (''action_no_nat'',
        var ''acl_action''), (''action_counter'', var ''ingr_acl_cnt_action''), (''field_dst_ip'', var ''port_nbor_ip_addr'')]),
      set_self ''acl_entry_list'' (appended (self ''acl_entry_list'') (self ''ingr_acl_port_entry'')),
      assign ''lag_nbor_ip_addr'' (struct ''sai_thrift_acl_field_data_t'' [(''data'', struct
        ''sai_thrift_acl_field_data_data_t'' [(''ip4'', self ''lag_nbor_ip'')]), (''mask'', struct
        ''sai_thrift_acl_field_data_mask_t'' [(''ip4'', str ''255.255.255.255'')])]),
      set_self ''ingr_acl_lag_entry'' (api_create ''acl_entry'' [(''table_id'', self ''ingr_acl_table''), (''action_no_nat'',
        var ''acl_action''), (''action_counter'', var ''ingr_acl_cnt_action''), (''field_dst_ip'', var ''lag_nbor_ip_addr'')]),
      set_self ''acl_entry_list'' (appended (self ''acl_entry_list'') (self ''ingr_acl_lag_entry'')),
      assign ''svi_nbor_ip_addr'' (struct ''sai_thrift_acl_field_data_t'' [(''data'', struct
        ''sai_thrift_acl_field_data_data_t'' [(''ip4'', self ''svi_nbor_ip'')]), (''mask'', struct
        ''sai_thrift_acl_field_data_mask_t'' [(''ip4'', str ''255.255.255.255'')])]),
      set_self ''ingr_acl_svi_entry'' (api_create ''acl_entry'' [(''table_id'', self ''ingr_acl_table''), (''action_no_nat'',
        var ''acl_action''), (''action_counter'', var ''ingr_acl_cnt_action''), (''field_dst_ip'', var ''svi_nbor_ip_addr'')]),
      set_self ''acl_entry_list'' (appended (self ''acl_entry_list'') (self ''ingr_acl_svi_entry'')),
      set_self ''egr_acl_table'' (api_create ''acl_table'' [(''acl_stage'', num SAI_ACL_STAGE_INGRESS),
        (''acl_bind_point_type_list'', var ''bind_points_list''), (''acl_action_type_list'', var ''action_types_list''),
        (''field_dst_ip'', bool True)]),
      set_self ''acl_table_list'' (appended (self ''acl_table_list'') (self ''egr_acl_table'')),
      set_self ''egr_acl_counter'' (api_create ''acl_counter'' [(''table_id'', self ''egr_acl_table''),
        (''enable_packet_count'', bool True)]),
      set_self ''acl_cntr_list'' (appended (self ''acl_cntr_list'') (self ''egr_acl_counter'')),
      assign ''egr_acl_cnt_action'' (struct ''sai_thrift_acl_action_data_t'' [(''enable'', bool True), (''parameter'', struct
        ''sai_thrift_acl_action_parameter_t'' [(''oid'', self ''egr_acl_counter'')])]),
      assign ''to_port_ip_addr'' (struct ''sai_thrift_acl_field_data_t'' [(''data'', struct ''sai_thrift_acl_field_data_data_t''
        [(''ip4'', self ''nat_ip_to_port'')]), (''mask'', struct ''sai_thrift_acl_field_data_mask_t'' [(''ip4'', str
        ''255.255.255.255'')])]),
      set_self ''egr_acl_port_entry'' (api_create ''acl_entry'' [(''table_id'', self ''egr_acl_table''), (''action_no_nat'', var
        ''acl_action''), (''action_counter'', var ''egr_acl_cnt_action''), (''field_dst_ip'', var ''to_port_ip_addr'')]),
      set_self ''acl_entry_list'' (appended (self ''acl_entry_list'') (self ''egr_acl_port_entry'')),
      assign ''to_lag_ip_addr'' (struct ''sai_thrift_acl_field_data_t'' [(''data'', struct ''sai_thrift_acl_field_data_data_t''
        [(''ip4'', self ''nat_ip_to_lag'')]), (''mask'', struct ''sai_thrift_acl_field_data_mask_t'' [(''ip4'', str
        ''255.255.255.255'')])]),
      set_self ''egr_acl_lag_entry'' (api_create ''acl_entry'' [(''table_id'', self ''egr_acl_table''), (''action_no_nat'', var
        ''acl_action''), (''action_counter'', var ''egr_acl_cnt_action''), (''field_dst_ip'', var ''to_lag_ip_addr'')]),
      set_self ''acl_entry_list'' (appended (self ''acl_entry_list'') (self ''egr_acl_lag_entry'')),
      assign ''to_svi_ip_addr'' (struct ''sai_thrift_acl_field_data_t'' [(''data'', struct ''sai_thrift_acl_field_data_data_t''
        [(''ip4'', self ''nat_ip_to_svi'')]), (''mask'', struct ''sai_thrift_acl_field_data_mask_t'' [(''ip4'', str
        ''255.255.255.255'')])]),
      set_self ''egr_acl_svi_entry'' (api_create ''acl_entry'' [(''table_id'', self ''egr_acl_table''), (''action_no_nat'', var
        ''acl_action''), (''action_counter'', var ''egr_acl_cnt_action''), (''field_dst_ip'', var ''to_svi_ip_addr'')]),
      set_self ''acl_entry_list'' (appended (self ''acl_entry_list'') (self ''egr_acl_svi_entry'')),
      assign ''no_nat_rif'' (self ''port12_rif''),
      set_self ''no_nat_eport'' (self ''dev_port12''),
      assign ''no_nat_ip'' (str ''30.30.30.0''),
      set_self ''no_nat_nbor_mac'' (str ''00:33:33:33:33:33''),
      set_self ''no_nat_nhop'' (api_create ''next_hop'' [(''ip'', ip_address (var ''no_nat_ip'')), (''router_interface_id'', var
        ''no_nat_rif''), (''type'', num SAI_NEXT_HOP_TYPE_IP)]),
      set_self ''nhop_list'' (appended (self ''nhop_list'') (self ''no_nat_nhop'')),
      set_self ''no_nat_nbor'' (struct ''sai_thrift_neighbor_entry_t'' [(''rif_id'', var ''no_nat_rif''), (''ip_address'',
        ip_address (var ''no_nat_ip''))]),
      run (api_create_entry ''neighbor_entry'' (self ''no_nat_nbor'') [(''dst_mac_address'', self ''no_nat_nbor_mac''),
        (''no_host_route'', bool True)]),
      set_self ''nbor_list'' (appended (self ''nbor_list'') (self ''no_nat_nbor'')),
      set_self ''no_nat_route'' (struct ''sai_thrift_route_entry_t'' [(''vr_id'', self ''default_vrf''), (''destination'',
        ip_prefix (add (var ''no_nat_ip'') (str ''/24'')))]),
      run (api_create_entry ''route_entry'' (self ''no_nat_route'') [(''next_hop_id'', self ''no_nat_nhop'')]),
      set_self ''route_list'' (appended (self ''route_list'') (self ''no_nat_route''))]"

definition NatTranslationTest_verifyNatHit :: "'d stmt" where
  "NatTranslationTest_verifyNatHit = block [
      assign ''counter'' (api_get ''nat_entry'' (var ''nat_entry'') [(''packet_count'', bool True)]),
      assign ''counter'' (item (var ''counter'') (str ''packet_count'')),
      if_else (ne (var ''counter'') (num 1)) [
        return (bool False)] [],
      run (api_set ''nat_entry'' (var ''nat_entry'') [(''packet_count'', num 0)]),
      return (bool True)]"

definition NatTranslationTest_verifyAclCounter :: "'d stmt" where
  "NatTranslationTest_verifyAclCounter = block [
      assign ''counter'' (api_get ''acl_counter'' (var ''acl_counter'') [(''packets'', bool True)]),
      assign ''counter'' (item (var ''counter'') (str ''packets'')),
      if_else (eq (var ''counter'') (add (var ''prev_value'') (num 1))) [
        return (bool True)] [],
      return (bool False)]"

definition NatTranslationTest_srcNatAclTranslationDisableTest_verify_translation :: "'d stmt" where
  "NatTranslationTest_srcNatAclTranslationDisableTest_verify_translation = block [
      assign ''acl_counter'' (item (api_get ''acl_counter'' (self ''ingr_acl_counter'') [(''packets'', bool True)]) (str
        ''packets'')),
      assign ''tcp_pkt'' (lib ''simple_tcp_packet'' [] [(''eth_dst'', str ROUTER_MAC), (''ip_src'', var ''src_ip''),
        (''ip_dst'', self ''port_nbor_ip''), (''ip_ttl'', num 64), (''pktlen'', num 100), (''with_tcp_chksum'', bool True)]),
      assign ''nat_tcp_pkt'' (lib ''simple_tcp_packet'' [] [(''eth_dst'', self ''port_nbor_mac''), (''eth_src'', str
        ROUTER_MAC), (''ip_src'', var ''nat_src_ip''), (''ip_dst'', self ''port_nbor_ip''), (''ip_ttl'', num 63), (''pktlen'',
        num 100), (''with_tcp_chksum'', bool True)]),
      assign ''no_nat_tcp_pkt'' (lib ''simple_tcp_packet'' [] [(''eth_dst'', self ''port_nbor_mac''), (''eth_src'', str
        ROUTER_MAC), (''ip_src'', var ''src_ip''), (''ip_dst'', self ''port_nbor_ip''), (''ip_ttl'', num 63), (''pktlen'', num
        100), (''with_tcp_chksum'', bool True)]),
      assign ''udp_pkt'' (lib ''simple_udp_packet'' [] [(''eth_dst'', str ROUTER_MAC), (''ip_src'', var ''src_ip''),
        (''ip_dst'', self ''port_nbor_ip''), (''ip_ttl'', num 64), (''pktlen'', num 100)]),
      assign ''nat_udp_pkt'' (lib ''simple_udp_packet'' [] [(''eth_dst'', self ''port_nbor_mac''), (''eth_src'', str
        ROUTER_MAC), (''ip_src'', var ''nat_src_ip''), (''ip_dst'', self ''port_nbor_ip''), (''ip_ttl'', num 63), (''pktlen'',
        num 100)]),
      assign ''no_nat_udp_pkt'' (lib ''simple_udp_packet'' [] [(''eth_dst'', self ''port_nbor_mac''), (''eth_src'', str
        ROUTER_MAC), (''ip_src'', var ''src_ip''), (''ip_dst'', self ''port_nbor_ip''), (''ip_ttl'', num 63), (''pktlen'', num
        100)]),
      run (lib ''send_packet'' [var ''src_port_dev'', var ''tcp_pkt''] []),
      run (lib ''verify_packet'' [var ''nat_tcp_pkt'', self ''egr_port_dev''] []),
      assert (invoke [(''nat_entry'', var ''snat'')] NatTranslationTest_verifyNatHit),
      run (lib ''send_packet'' [var ''src_port_dev'', var ''udp_pkt''] []),
      run (lib ''verify_packet'' [var ''nat_udp_pkt'', self ''egr_port_dev''] []),
      assert (invoke [(''nat_entry'', var ''snat'')] NatTranslationTest_verifyNatHit),
      run (api_set ''router_interface'' (var ''src_rif'') [(''ingress_acl'', self ''ingr_acl_table'')]),
      run (lib ''send_packet'' [var ''src_port_dev'', var ''tcp_pkt''] []),
      run (lib ''verify_packet'' [var ''no_nat_tcp_pkt'', self ''egr_port_dev''] []),
      assert (invoke [(''acl_counter'', self ''ingr_acl_counter''), (''prev_value'', var ''acl_counter'')]
        NatTranslationTest_verifyAclCounter),
      assign ''acl_counter'' (add (var ''acl_counter'') (num 1)),
      run (lib ''send_packet'' [var ''src_port_dev'', var ''udp_pkt''] []),
      run (lib ''verify_packet'' [var ''no_nat_udp_pkt'', self ''egr_port_dev''] []),
      assert (invoke [(''acl_counter'', self ''ingr_acl_counter''), (''prev_value'', var ''acl_counter'')]
        NatTranslationTest_verifyAclCounter),
      assign ''acl_counter'' (add (var ''acl_counter'') (num 1)),
      run (api_set ''router_interface'' (var ''src_rif'') [(''ingress_acl'', num 0)]),
      assign ''tcp_pkt'' (lib ''set_field'' [var ''tcp_pkt'', str ''IP'', str ''dst'', self ''lag_nbor_ip''] []),
      assign ''nat_tcp_pkt'' (lib ''set_field'' [var ''nat_tcp_pkt'', str ''Ether'', str ''dst'', self ''lag_nbor_mac''] []),
      assign ''nat_tcp_pkt'' (lib ''set_field'' [var ''nat_tcp_pkt'', str ''IP'', str ''dst'', self ''lag_nbor_ip''] []),
      assign ''no_nat_tcp_pkt'' (lib ''set_field'' [var ''no_nat_tcp_pkt'', str ''Ether'', str ''dst'', self ''lag_nbor_mac'']
        []),
      assign ''no_nat_tcp_pkt'' (lib ''set_field'' [var ''no_nat_tcp_pkt'', str ''IP'', str ''dst'', self ''lag_nbor_ip''] []),
      assign ''udp_pkt'' (lib ''set_field'' [var ''udp_pkt'', str ''IP'', str ''dst'', self ''lag_nbor_ip''] []),
      assign ''nat_udp_pkt'' (lib ''set_field'' [var ''nat_udp_pkt'', str ''Ether'', str ''dst'', self ''lag_nbor_mac''] []),
      assign ''nat_udp_pkt'' (lib ''set_field'' [var ''nat_udp_pkt'', str ''IP'', str ''dst'', self ''lag_nbor_ip''] []),
      assign ''no_nat_udp_pkt'' (lib ''set_field'' [var ''no_nat_udp_pkt'', str ''Ether'', str ''dst'', self ''lag_nbor_mac'']
        []),
      assign ''no_nat_udp_pkt'' (lib ''set_field'' [var ''no_nat_udp_pkt'', str ''IP'', str ''dst'', self ''lag_nbor_ip''] []),
      run (lib ''send_packet'' [var ''src_port_dev'', var ''tcp_pkt''] []),
      run (lib ''verify_packet_any_port'' [var ''nat_tcp_pkt'', self ''egr_lag_dev''] []),
      assert (invoke [(''nat_entry'', var ''snat'')] NatTranslationTest_verifyNatHit),
      run (lib ''send_packet'' [var ''src_port_dev'', var ''udp_pkt''] []),
      run (lib ''verify_packet_any_port'' [var ''nat_udp_pkt'', self ''egr_lag_dev''] []),
      assert (invoke [(''nat_entry'', var ''snat'')] NatTranslationTest_verifyNatHit),
      run (api_set ''router_interface'' (var ''src_rif'') [(''ingress_acl'', self ''ingr_acl_table'')]),
      run (lib ''send_packet'' [var ''src_port_dev'', var ''tcp_pkt''] []),
      run (lib ''verify_packet_any_port'' [var ''no_nat_tcp_pkt'', self ''egr_lag_dev''] []),
      assert (invoke [(''acl_counter'', self ''ingr_acl_counter''), (''prev_value'', var ''acl_counter'')]
        NatTranslationTest_verifyAclCounter),
      assign ''acl_counter'' (add (var ''acl_counter'') (num 1)),
      run (lib ''send_packet'' [var ''src_port_dev'', var ''udp_pkt''] []),
      run (lib ''verify_packet_any_port'' [var ''no_nat_udp_pkt'', self ''egr_lag_dev''] []),
      assert (invoke [(''acl_counter'', self ''ingr_acl_counter''), (''prev_value'', var ''acl_counter'')]
        NatTranslationTest_verifyAclCounter),
      assign ''acl_counter'' (add (var ''acl_counter'') (num 1)),
      run (api_set ''router_interface'' (var ''src_rif'') [(''ingress_acl'', num 0)]),
      assign ''tcp_pkt'' (lib ''set_field'' [var ''tcp_pkt'', str ''IP'', str ''dst'', self ''svi_nbor_ip''] []),
      assign ''nat_tcp_pkt'' (lib ''set_field'' [var ''nat_tcp_pkt'', str ''Ether'', str ''dst'', self ''svi_nbor_mac''] []),
      assign ''nat_tcp_pkt'' (lib ''set_field'' [var ''nat_tcp_pkt'', str ''IP'', str ''dst'', self ''svi_nbor_ip''] []),
      assign ''no_nat_tcp_pkt'' (lib ''set_field'' [var ''no_nat_tcp_pkt'', str ''Ether'', str ''dst'', self ''svi_nbor_mac'']
        []),
      assign ''no_nat_tcp_pkt'' (lib ''set_field'' [var ''no_nat_tcp_pkt'', str ''IP'', str ''dst'', self ''svi_nbor_ip''] []),
      assign ''udp_pkt'' (lib ''set_field'' [var ''udp_pkt'', str ''IP'', str ''dst'', self ''svi_nbor_ip''] []),
      assign ''nat_udp_pkt'' (lib ''set_field'' [var ''nat_udp_pkt'', str ''Ether'', str ''dst'', self ''svi_nbor_mac''] []),
      assign ''nat_udp_pkt'' (lib ''set_field'' [var ''nat_udp_pkt'', str ''IP'', str ''dst'', self ''svi_nbor_ip''] []),
      assign ''no_nat_udp_pkt'' (lib ''set_field'' [var ''no_nat_udp_pkt'', str ''Ether'', str ''dst'', self ''svi_nbor_mac'']
        []),
      assign ''no_nat_udp_pkt'' (lib ''set_field'' [var ''no_nat_udp_pkt'', str ''IP'', str ''dst'', self ''svi_nbor_ip''] []),
      run (lib ''send_packet'' [var ''src_port_dev'', var ''tcp_pkt''] []),
      run (lib ''verify_packets'' [var ''nat_tcp_pkt'', self ''egr_svi_dev''] []),
      assert (invoke [(''nat_entry'', var ''snat'')] NatTranslationTest_verifyNatHit),
      run (lib ''send_packet'' [var ''src_port_dev'', var ''udp_pkt''] []),
      run (lib ''verify_packets'' [var ''nat_udp_pkt'', self ''egr_svi_dev''] []),
      assert (invoke [(''nat_entry'', var ''snat'')] NatTranslationTest_verifyNatHit),
      run (api_set ''router_interface'' (var ''src_rif'') [(''ingress_acl'', self ''ingr_acl_table'')]),
      run (lib ''send_packet'' [var ''src_port_dev'', var ''tcp_pkt''] []),
      run (lib ''verify_packets'' [var ''no_nat_tcp_pkt'', self ''egr_svi_dev''] []),
      assert (invoke [(''acl_counter'', self ''ingr_acl_counter''), (''prev_value'', var ''acl_counter'')]
        NatTranslationTest_verifyAclCounter),
      assign ''acl_counter'' (add (var ''acl_counter'') (num 1)),
      run (lib ''send_packet'' [var ''src_port_dev'', var ''udp_pkt''] []),
      run (lib ''verify_packets'' [var ''no_nat_udp_pkt'', self ''egr_svi_dev''] []),
      assert (invoke [(''acl_counter'', self ''ingr_acl_counter''), (''prev_value'', var ''acl_counter'')]
        NatTranslationTest_verifyAclCounter),
      assign ''acl_counter'' (add (var ''acl_counter'') (num 1)),
      run (api_set ''router_interface'' (var ''src_rif'') [(''ingress_acl'', num 0)])]"

definition NatTranslationTest_srcNatAclTranslationDisableTest :: "'d stmt" where
  "NatTranslationTest_srcNatAclTranslationDisableTest = block [
      assign ''src_ip'' (str ''20.20.20.1''),
      assign ''nat_src_ip'' (str ''150.10.10.10''),
      try_finally [
        assign ''nat_data'' (struct ''sai_thrift_nat_entry_data_t'' [(''key'', struct ''sai_thrift_nat_entry_key_t''
          [(''src_ip'', var ''src_ip'')]), (''mask'', struct ''sai_thrift_nat_entry_mask_t'' [(''src_ip'', str
          ''255.255.255.255'')])]),
        assign ''snat'' (struct ''sai_thrift_nat_entry_t'' [(''vr_id'', self ''default_vrf''), (''data'', var ''nat_data''),
          (''nat_type'', num SAI_NAT_TYPE_SOURCE_NAT)]),
        run (api_create_entry ''nat_entry'' (var ''snat'') [(''src_ip'', var ''nat_src_ip''), (''nat_type'', num
          SAI_NAT_TYPE_SOURCE_NAT), (''enable_packet_count'', bool True)]),
        run (api_set ''router_interface'' (self ''ingr_port_rif'') [(''nat_zone_id'', num 0)]),
        run (api_set ''router_interface'' (self ''egr_port_rif'') [(''nat_zone_id'', num 1)]),
        run (api_set ''router_interface'' (self ''ingr_lag_rif'') [(''nat_zone_id'', num 0)]),
        run (api_set ''router_interface'' (self ''egr_lag_rif'') [(''nat_zone_id'', num 1)]),
        run (api_set ''router_interface'' (self ''ingr_svi_rif'') [(''nat_zone_id'', num 0)]),
        run (api_set ''router_interface'' (self ''egr_svi_rif'') [(''nat_zone_id'', num 1)]),
        run (invoke_inner [(''src_rif'', self ''ingr_port_rif''), (''src_port_dev'', self ''ingr_port_dev'')]
          NatTranslationTest_srcNatAclTranslationDisableTest_verify_translation),
        for_in [''lag_port''] (self ''ingr_lag_dev'') [
          run (invoke_inner [(''src_rif'', self ''ingr_lag_rif''), (''src_port_dev'', var ''lag_port'')]
            NatTranslationTest_srcNatAclTranslationDisableTest_verify_translation)],
        for_in [''svi_port''] (self ''ingr_svi_dev'') [
          run (invoke_inner [(''src_rif'', self ''ingr_svi_rif''), (''src_port_dev'', var ''svi_port'')]
            NatTranslationTest_srcNatAclTranslationDisableTest_verify_translation)]] [
        run (api_set ''router_interface'' (self ''ingr_svi_rif'') [(''ingress_acl'', num 0)]),
        run (api_set ''router_interface'' (self ''ingr_lag_rif'') [(''ingress_acl'', num 0)]),
        run (api_set ''router_interface'' (self ''ingr_port_rif'') [(''ingress_acl'', num 0)]),
        run (api_set ''router_interface'' (self ''ingr_svi_rif'') [(''nat_zone_id'', num 0)]),
        run (api_set ''router_interface'' (self ''egr_svi_rif'') [(''nat_zone_id'', num 0)]),
        run (api_set ''router_interface'' (self ''ingr_lag_rif'') [(''nat_zone_id'', num 0)]),
        run (api_set ''router_interface'' (self ''egr_lag_rif'') [(''nat_zone_id'', num 0)]),
        run (api_set ''router_interface'' (self ''ingr_port_rif'') [(''nat_zone_id'', num 0)]),
        run (api_set ''router_interface'' (self ''egr_port_rif'') [(''nat_zone_id'', num 0)]),
        run (api_remove ''nat_entry'' (var ''snat''))]]"

definition NatTranslationTest_tearDown :: "'d stmt" where
  "NatTranslationTest_tearDown = block [
      for_in [''route''] (self ''route_list'') [
        run (api_remove ''route_entry'' (var ''route''))],
      for_in [''nbor''] (self ''nbor_list'') [
        run (api_remove ''neighbor_entry'' (var ''nbor''))],
      for_in [''nhop''] (self ''nhop_list'') [
        run (api_remove ''next_hop'' (var ''nhop''))],
      for_in [''acl_entry''] (self ''acl_entry_list'') [
        run (api_remove ''acl_entry'' (var ''acl_entry''))],
      for_in [''acl_cntr''] (self ''acl_cntr_list'') [
        run (api_remove ''acl_counter'' (var ''acl_cntr''))],
      for_in [''acl_table''] (self ''acl_table_list'') [
        run (api_remove ''acl_table'' (var ''acl_table''))],
      for_in [''rif''] (self ''rif_list'') [
        run (api_remove ''router_interface'' (var ''rif''))],
      for_in [''port''] (list_of [self ''port24'', self ''port25'', self ''port26'', self ''port27'']) [
        run (api_set ''port'' (var ''port'') [(''port_vlan_id'', num 0)])],
      for_in [''vlan_mbr''] (self ''vlan_mbr_list'') [
        run (api_remove ''vlan_member'' (var ''vlan_mbr''))],
      for_in [''vlan''] (self ''vlan_list'') [
        run (api_remove ''vlan'' (var ''vlan''))],
      for_in [''bp''] (self ''bp_list'') [
        run (api_remove ''bridge_port'' (var ''bp''))],
      super_tearDown]"

definition NatTest_setUp :: "'d stmt" where
  "NatTest_setUp = block [
      super_setUp,
      set_self ''rif_list'' (list_of []),
      set_self ''nhop_list'' (list_of []),
      set_self ''nbor_list'' (list_of []),
      set_self ''route_list'' (list_of []),
      set_self ''nat_list'' (list_of []),
      set_self ''nbor_mac'' (str ''00:11:22:33:44:55''),
      set_self ''dmac'' (str ''00:22:22:22:22:22''),
      set_self ''src_ip'' (str ''192.168.0.10''),
      set_self ''dst_ip'' (str ''10.10.10.1''),
      set_self ''nhop_ip'' (str ''20.20.20.1''),
      set_self ''server_ip'' (str ''192.168.0.1''),
      set_self ''server_dmac'' (str ''00:33:44:55:66:77''),
      set_self ''translate_server_ip'' (str ''200.200.200.1''),
      assign ''mask'' (str ''/24''),
      assign ''server_port'' (self ''port24''),
      assign ''wan_port'' (self ''port25''),
      assign ''server_rif'' (api_create ''router_interface'' [(''virtual_router_id'', self ''default_vrf''), (''type'', num
        SAI_ROUTER_INTERFACE_TYPE_PORT), (''port_id'', var ''server_port''), (''nat_zone_id'', num 0)]),
      set_self ''rif_list'' (appended (self ''rif_list'') (var ''server_rif'')),
      assign ''wan_rif'' (api_create ''router_interface'' [(''virtual_router_id'', self ''default_vrf''), (''type'', num
        SAI_ROUTER_INTERFACE_TYPE_PORT), (''port_id'', var ''wan_port''), (''nat_zone_id'', num 1)]),
      set_self ''rif_list'' (appended (self ''rif_list'') (var ''wan_rif'')),
      print [self ''nhop_ip'', var ''wan_rif'', self ''nbor_mac''],
      assign ''nbr_entry1'' (struct ''sai_thrift_neighbor_entry_t'' [(''rif_id'', var ''wan_rif''), (''ip_address'', ip_address
        (self ''nhop_ip''))]),
      run (api_create_entry ''neighbor_entry'' (var ''nbr_entry1'') [(''dst_mac_address'', self ''nbor_mac'')]),
      set_self ''nbor_list'' (appended (self ''nbor_list'') (var ''nbr_entry1'')),
      print [self ''nhop_ip'', var ''wan_rif''],
      assign ''nhop1'' (api_create ''next_hop'' [(''ip'', ip_address (self ''nhop_ip'')), (''router_interface_id'', var
        ''wan_rif''), (''type'', num SAI_NEXT_HOP_TYPE_IP)]),
      set_self ''nhop_list'' (appended (self ''nhop_list'') (var ''nhop1'')),
      assign ''route_entry1'' (struct ''sai_thrift_route_entry_t'' [(''vr_id'', self ''default_vrf''), (''destination'',
        ip_prefix (add (self ''dst_ip'') (var ''mask'')))]),
      run (api_create_entry ''route_entry'' (var ''route_entry1'') [(''next_hop_id'', var ''nhop1'')]),
      set_self ''route_list'' (appended (self ''route_list'') (var ''route_entry1'')),
      assign ''route_entry2'' (struct ''sai_thrift_route_entry_t'' [(''vr_id'', self ''default_vrf''), (''destination'',
        ip_prefix (add (self ''nhop_ip'') (var ''mask'')))]),
      run (api_create_entry ''route_entry'' (var ''route_entry2'') [(''next_hop_id'', var ''wan_rif'')]),
      set_self ''route_list'' (appended (self ''route_list'') (var ''route_entry2'')),
      print [self ''server_ip'', var ''server_rif'', self ''server_dmac''],
      assign ''nbr_entry2'' (struct ''sai_thrift_neighbor_entry_t'' [(''rif_id'', var ''server_rif''), (''ip_address'',
        ip_address (self ''server_ip''))]),
      run (api_create_entry ''neighbor_entry'' (var ''nbr_entry2'') [(''dst_mac_address'', self ''server_dmac'')]),
      set_self ''nbor_list'' (appended (self ''nbor_list'') (var ''nbr_entry2'')),
      print [self ''server_ip'', var ''server_rif''],
      assign ''nhop2'' (api_create ''next_hop'' [(''ip'', ip_address (self ''server_ip'')), (''router_interface_id'', var
        ''server_rif''), (''type'', num SAI_NEXT_HOP_TYPE_IP)]),
      set_self ''nhop_list'' (appended (self ''nhop_list'') (var ''nhop2'')),
      assign ''route_entry3'' (struct ''sai_thrift_route_entry_t'' [(''vr_id'', self ''default_vrf''), (''destination'',
        ip_prefix (add (self ''server_ip'') (var ''mask'')))]),
      run (api_create_entry ''route_entry'' (var ''route_entry3'') [(''next_hop_id'', var ''nhop2'')]),
      set_self ''route_list'' (appended (self ''route_list'') (var ''route_entry3'')),
      set_self ''l4_src_port'' (num 100),
      set_self ''l4_dst_port'' (num 1234),
      assign ''proto'' (num 6),
      set_self ''translate_sport'' (num 500),
      set_self ''translate_dport'' (num 2000),
      assign ''nat_type'' (num SAI_NAT_TYPE_DESTINATION_NAT),
      assign ''nat_data'' (struct ''sai_thrift_nat_entry_data_t'' [(''key'', struct ''sai_thrift_nat_entry_key_t'' [(''dst_ip'',
        self ''translate_server_ip''), (''proto'', var ''proto''), (''l4_dst_port'', self ''l4_dst_port'')])]),
      assign ''dnat1'' (struct ''sai_thrift_nat_entry_t'' [(''vr_id'', self ''default_vrf''), (''data'', var ''nat_data''),
        (''nat_type'', var ''nat_type'')]),
      run (api_create_entry ''nat_entry'' (var ''dnat1'') [(''nat_type'', var ''nat_type''), (''dst_ip'', self ''server_ip''),
        (''l4_dst_port'', self ''translate_dport'')]),
      set_self ''nat_list'' (appended (self ''nat_list'') (var ''dnat1'')),
      assign ''nat_data'' (struct ''sai_thrift_nat_entry_data_t'' [(''key'', struct ''sai_thrift_nat_entry_key_t'' [(''dst_ip'',
        self ''translate_server_ip'')])]),
      assign ''dnat2'' (struct ''sai_thrift_nat_entry_t'' [(''vr_id'', self ''default_vrf''), (''data'', var ''nat_data''),
        (''nat_type'', var ''nat_type'')]),
      run (api_create_entry ''nat_entry'' (var ''dnat2'') [(''nat_type'', var ''nat_type''), (''dst_ip'', self ''server_ip'')]),
      set_self ''nat_list'' (appended (self ''nat_list'') (var ''dnat2'')),
      assign ''nat_type'' (num SAI_NAT_TYPE_DESTINATION_NAT_POOL),
      assign ''nat_data'' (struct ''sai_thrift_nat_entry_data_t'' [(''key'', struct ''sai_thrift_nat_entry_key_t'' [(''dst_ip'',
        self ''translate_server_ip'')])]),
      assign ''dnat3'' (struct ''sai_thrift_nat_entry_t'' [(''vr_id'', self ''default_vrf''), (''data'', var ''nat_data''),
        (''nat_type'', var ''nat_type'')]),
      run (api_create_entry ''nat_entry'' (var ''dnat3'') [(''nat_type'', var ''nat_type''), (''dst_ip'', self ''server_ip'')]),
      set_self ''nat_list'' (appended (self ''nat_list'') (var ''dnat3'')),
      assign ''nat_type'' (num SAI_NAT_TYPE_SOURCE_NAT),
      assign ''nat_data'' (struct ''sai_thrift_nat_entry_data_t'' [(''key'', struct ''sai_thrift_nat_entry_key_t'' [(''src_ip'',
        self ''server_ip''), (''proto'', var ''proto''), (''l4_src_port'', self ''l4_src_port'')])]),
      assign ''snat4'' (struct ''sai_thrift_nat_entry_t'' [(''vr_id'', self ''default_vrf''), (''data'', var ''nat_data''),
        (''nat_type'', var ''nat_type'')]),
      run (api_create_entry ''nat_entry'' (var ''snat4'') [(''nat_type'', var ''nat_type''), (''src_ip'', self
        ''translate_server_ip''), (''l4_src_port'', self ''translate_sport'')]),
      set_self ''nat_list'' (appended (self ''nat_list'') (var ''snat4'')),
      assign ''nat_data'' (struct ''sai_thrift_nat_entry_data_t'' [(''key'', struct ''sai_thrift_nat_entry_key_t'' [(''src_ip'',
        self ''server_ip'')])]),
      assign ''snat5'' (struct ''sai_thrift_nat_entry_t'' [(''vr_id'', self ''default_vrf''), (''data'', var ''nat_data''),
        (''nat_type'', var ''nat_type'')]),
      run (api_create_entry ''nat_entry'' (var ''snat5'') [(''nat_type'', var ''nat_type''), (''src_ip'', self
        ''translate_server_ip'')]),
      set_self ''nat_list'' (appended (self ''nat_list'') (var ''snat5''))]"

definition NatTest_natRouteTest :: "'d stmt" where
  "NatTest_natRouteTest = block [
      assign ''pkt'' (lib ''simple_tcp_packet'' [] [(''eth_dst'', str ROUTER_MAC), (''eth_src'', self ''dmac''), (''ip_dst'',
        self ''dst_ip''), (''ip_src'', self ''src_ip''), (''ip_id'', num 105), (''ip_ttl'', num 64)]),
      assign ''exp_pkt'' (lib ''simple_tcp_packet'' [] [(''eth_dst'', self ''nbor_mac''), (''eth_src'', str ROUTER_MAC),
        (''ip_dst'', self ''dst_ip''), (''ip_src'', self ''src_ip''), (''ip_id'', num 105), (''ip_ttl'', num 63)]),
      run (lib ''send_packet'' [self ''dev_port24'', var ''pkt''] []),
      run (lib ''verify_packets'' [var ''exp_pkt'', list_of [self ''dev_port25'']] []),
      assign ''pkt'' (lib ''simple_tcp_packet'' [] [(''eth_dst'', str ROUTER_MAC), (''eth_src'', self ''dmac''), (''ip_dst'',
        self ''nhop_ip''), (''ip_src'', self ''src_ip''), (''ip_id'', num 105), (''ip_ttl'', num 64)]),
      assign ''exp_pkt'' (lib ''simple_tcp_packet'' [] [(''eth_dst'', self ''nbor_mac''), (''eth_src'', str ROUTER_MAC),
        (''ip_dst'', self ''nhop_ip''), (''ip_src'', self ''src_ip''), (''ip_id'', num 105), (''ip_ttl'', num 63)]),
      run (lib ''send_packet'' [self ''dev_port24'', var ''pkt''] []),
      run (lib ''verify_packets'' [var ''exp_pkt'', list_of [self ''dev_port25'']] []),
      assign ''pkt'' (lib ''simple_tcp_packet'' [] [(''eth_dst'', str ROUTER_MAC), (''eth_src'', self ''dmac''), (''ip_dst'',
        self ''server_ip''), (''ip_src'', self ''nhop_ip''), (''ip_id'', num 105), (''ip_ttl'', num 64)]),
      assign ''exp_pkt'' (lib ''simple_tcp_packet'' [] [(''eth_dst'', self ''server_dmac''), (''eth_src'', str ROUTER_MAC),
        (''ip_src'', self ''nhop_ip''), (''ip_dst'', self ''server_ip''), (''ip_id'', num 105), (''ip_ttl'', num 63)]),
      run (lib ''send_packet'' [self ''dev_port25'', var ''pkt''] []),
      run (lib ''verify_packets'' [var ''exp_pkt'', list_of [self ''dev_port24'']] [])]"

definition NatTest_natTrapTest :: "'d stmt" where
  "NatTest_natTrapTest = block [
      try_finally [
        assign ''trap_group'' (api_create ''hostif_trap_group'' [(''queue'', num 4)]),
        assign ''dnat_trap'' (api_create ''hostif_trap'' [(''trap_type'', num SAI_HOSTIF_TRAP_TYPE_DNAT_MISS),
          (''packet_action'', num SAI_PACKET_ACTION_TRAP), (''trap_group'', var ''trap_group'')]),
        assign ''snat_trap'' (api_create ''hostif_trap'' [(''trap_type'', num SAI_HOSTIF_TRAP_TYPE_SNAT_MISS),
          (''packet_action'', num SAI_PACKET_ACTION_TRAP), (''trap_group'', var ''trap_group'')]),
        assign ''pkt'' (lib ''simple_tcp_packet'' [] [(''eth_dst'', str ROUTER_MAC), (''eth_src'', self ''dmac''), (''ip_dst'',
          self ''dst_ip''), (''ip_src'', self ''src_ip''), (''ip_id'', num 105), (''ip_ttl'', num 64)]),
        assign ''pre_stats'' (query ''sai_thrift_get_queue_stats'' [self ''cpu_queue4''] []),
        run (lib ''send_packet'' [self ''dev_port24'', var ''pkt''] []),
        sleep_for (num 4),
        assign ''post_stats'' (query ''sai_thrift_get_queue_stats'' [self ''cpu_queue4''] []),
        assert_eq (item (var ''post_stats'') (str ''SAI_QUEUE_STAT_PACKETS'')) (add (item (var ''pre_stats'') (str
          ''SAI_QUEUE_STAT_PACKETS'')) (num 1))] [
        run (api_remove ''hostif_trap'' (var ''dnat_trap'')),
        run (api_remove ''hostif_trap'' (var ''snat_trap'')),
        run (api_remove ''hostif_trap_group'' (var ''trap_group''))]]"

definition NatTest_srcNatTest :: "'d stmt" where
  "NatTest_srcNatTest = block [
      assign ''pkt'' (lib ''simple_tcp_packet'' [] [(''eth_dst'', str ROUTER_MAC), (''eth_src'', self ''dmac''), (''ip_dst'',
        self ''dst_ip''), (''ip_src'', self ''server_ip''), (''ip_id'', num 105), (''ip_ttl'', num 64)]),
      assign ''exp_pkt'' (lib ''simple_tcp_packet'' [] [(''eth_dst'', self ''nbor_mac''), (''eth_src'', str ROUTER_MAC),
        (''ip_dst'', self ''dst_ip''), (''ip_src'', self ''translate_server_ip''), (''ip_id'', num 105), (''ip_ttl'', num 63)]),
      run (lib ''send_packet'' [self ''dev_port24'', var ''pkt''] []),
      run (lib ''verify_packets'' [var ''exp_pkt'', list_of [self ''dev_port25'']] []),
      assign ''pkt'' (lib ''simple_tcp_packet'' [] [(''eth_dst'', str ROUTER_MAC), (''eth_src'', self ''dmac''), (''ip_dst'',
        self ''dst_ip''), (''ip_src'', self ''server_ip''), (''ip_id'', num 105), (''ip_ttl'', num 64), (''tcp_sport'', self
        ''l4_src_port'')]),
      assign ''exp_pkt'' (lib ''simple_tcp_packet'' [] [(''eth_dst'', self ''nbor_mac''), (''eth_src'', str ROUTER_MAC),
        (''ip_dst'', self ''dst_ip''), (''ip_src'', self ''translate_server_ip''), (''ip_id'', num 105), (''ip_ttl'', num 63),
        (''tcp_sport'', self ''translate_sport'')]),
      run (lib ''send_packet'' [self ''dev_port24'', var ''pkt''] []),
      run (lib ''verify_packets'' [var ''exp_pkt'', list_of [self ''dev_port25'']] []),
      assign ''ret_attr'' (api_get ''nat_entry'' (item (self ''nat_list'') (num 3)) [(''packet_count'', bool True)]),
      assert_eq (item (var ''ret_attr'') (str ''packet_count'')) (num 1),
      print [item (var ''ret_attr'') (str ''packet_count'')],
      assign ''ret_attr'' (api_get ''nat_entry'' (item (self ''nat_list'') (num 3)) [(''hit_bit'', bool True)]),
      assert_eq (item (var ''ret_attr'') (str ''hit_bit'')) (bool True),
      print [item (var ''ret_attr'') (str ''hit_bit'')],
      assign ''ret_attr'' (api_get ''nat_entry'' (item (self ''nat_list'') (num 3)) [(''hit_bit'', bool True)]),
      assert_eq (item (var ''ret_attr'') (str ''hit_bit'')) (bool False),
      print [item (var ''ret_attr'') (str ''hit_bit'')],
      run (api_set ''nat_entry'' (item (self ''nat_list'') (num 3)) [(''packet_count'', num 0)]),
      assign ''ret_attr'' (api_get ''nat_entry'' (item (self ''nat_list'') (num 3)) [(''packet_count'', bool True)]),
      assert_eq (item (var ''ret_attr'') (str ''packet_count'')) (num 0),
      print [item (var ''ret_attr'') (str ''packet_count'')]]"

definition NatTest_dstNatTest :: "'d stmt" where
  "NatTest_dstNatTest = block [
      assign ''pkt'' (lib ''simple_tcp_packet'' [] [(''eth_dst'', str ROUTER_MAC), (''eth_src'', self ''dmac''), (''ip_dst'',
        self ''translate_server_ip''), (''ip_src'', self ''dst_ip''), (''ip_id'', num 105), (''ip_ttl'', num 64)]),
      assign ''exp_pkt'' (lib ''simple_tcp_packet'' [] [(''eth_dst'', self ''server_dmac''), (''eth_src'', str ROUTER_MAC),
        (''ip_dst'', self ''server_ip''), (''ip_src'', self ''dst_ip''), (''ip_id'', num 105), (''ip_ttl'', num 63)]),
      run (lib ''send_packet'' [self ''dev_port25'', var ''pkt''] []),
      run (lib ''verify_packets'' [var ''exp_pkt'', list_of [self ''dev_port24'']] []),
      assign ''pkt'' (lib ''simple_tcp_packet'' [] [(''eth_dst'', str ROUTER_MAC), (''eth_src'', self ''dmac''), (''ip_dst'',
        self ''translate_server_ip''), (''ip_src'', self ''dst_ip''), (''ip_id'', num 105), (''ip_ttl'', num 64),
        (''tcp_dport'', self ''l4_dst_port'')]),
      assign ''exp_pkt'' (lib ''simple_tcp_packet'' [] [(''eth_dst'', self ''server_dmac''), (''eth_src'', str ROUTER_MAC),
        (''ip_dst'', self ''server_ip''), (''ip_src'', self ''dst_ip''), (''ip_id'', num 105), (''ip_ttl'', num 63),
        (''tcp_dport'', self ''translate_dport'')]),
      run (lib ''send_packet'' [self ''dev_port25'', var ''pkt''] []),
      run (lib ''verify_packets'' [var ''exp_pkt'', list_of [self ''dev_port24'']] []),
      assign ''ret_attr'' (api_get ''nat_entry'' (item (self ''nat_list'') (num 0)) [(''packet_count'', bool True)]),
      assert_eq (item (var ''ret_attr'') (str ''packet_count'')) (num 1),
      print [item (var ''ret_attr'') (str ''packet_count'')]]"

definition NatTest_runTest :: "'d stmt" where
  "NatTest_runTest = block [
      run (invoke [] NatTest_natRouteTest),
      run (invoke [] NatTest_natTrapTest),
      run (invoke [] NatTest_srcNatTest),
      run (invoke [] NatTest_dstNatTest)]"

definition NatTest_tearDown :: "'d stmt" where
  "NatTest_tearDown = block [
      for_in [''route''] (as_list (self ''route_list'')) [
        run (api_remove ''route_entry'' (var ''route''))],
      for_in [''nhop''] (as_list (self ''nhop_list'')) [
        run (api_remove ''next_hop'' (var ''nhop''))],
      for_in [''nbr''] (as_list (self ''nbor_list'')) [
        run (api_remove ''neighbor_entry'' (var ''nbr''))],
      for_in [''rif''] (as_list (self ''rif_list'')) [
        run (api_remove ''router_interface'' (var ''rif''))],
      for_in [''nat''] (as_list (self ''nat_list'')) [
        run (api_remove ''nat_entry'' (var ''nat''))],
      super_tearDown]"

end
