(* ===== verification/TestsNeighbor.thy ===== *)
theory TestsNeighbor
  imports PtfOwn PtfConstants
begin

text \<open>
  The tests of neighbors, \<open>ptf/saineighbor.py\<close>: a definition per method, statement by statement in the language of
  \<open>PtfScript\<close>, named after its class. A parameter \<open>m_f\<close> is a method \<open>f\<close> that derived classes define anew.
\<close>

section \<open>The tests\<close>

definition NeighborAttrIpv6TestHelper_setUp :: "'d stmt" where
  "NeighborAttrIpv6TestHelper_setUp = block [
      super_setUp,
      run (create_rifs [0, 1]),
      set_self ''test_rif'' (self ''port0_rif''),
      set_self ''ipv6_addr'' (str ''2001:0db8::1:10''),
      set_self ''ll_ipv6_addr'' (str ''fe80::10''),
      set_self ''mac_addr'' (str ''00:10:10:10:10:10''),
      set_self ''pkt_v6'' (lib ''simple_udpv6_packet'' [] [(''eth_dst'', str ROUTER_MAC), (''ipv6_dst'', self ''ipv6_addr''),
        (''ipv6_hlim'', num 64)]),
      set_self ''exp_pkt_v6'' (lib ''simple_udpv6_packet'' [] [(''eth_dst'', self ''mac_addr''), (''eth_src'', str ROUTER_MAC),
        (''ipv6_dst'', self ''ipv6_addr''), (''ipv6_hlim'', num 63)]),
      set_self ''ll_pkt_v6'' (lib ''simple_udpv6_packet'' [] [(''eth_dst'', str ROUTER_MAC), (''ipv6_dst'', self
        ''ll_ipv6_addr''), (''ipv6_hlim'', num 64)])]"

definition NeighborAttrIpv6TestHelper_tearDown :: "'d stmt" where
  "NeighborAttrIpv6TestHelper_tearDown = block [
      run destroy_rifs,
      super_tearDown]"

definition noHostRouteIpv6NeighborTest_setUp :: "'d stmt" where
  "noHostRouteIpv6NeighborTest_setUp = block [
      run (invoke [] NeighborAttrIpv6TestHelper_setUp)]"

definition noHostRouteIpv6NeighborTest_runTest :: "'d stmt" where
  "noHostRouteIpv6NeighborTest_runTest = block [
      assign ''nbr_entry_v6'' (struct ''sai_thrift_neighbor_entry_t'' [(''rif_id'', self ''test_rif''), (''ip_address'',
        ip_address (self ''ipv6_addr''))]),
      assign ''status'' (api_create_entry ''neighbor_entry'' (var ''nbr_entry_v6'') [(''dst_mac_address'', self ''mac_addr''),
        (''no_host_route'', bool True)]),
      assert_eq (var ''status'') (num SAI_STATUS_SUCCESS),
      try_finally [
        run (lib ''send_packet'' [self ''dev_port1'', self ''pkt_v6''] []),
        run (lib ''verify_no_other_packets'' [] [])] [
        run (api_remove ''neighbor_entry'' (var ''nbr_entry_v6''))]]"

definition noHostRouteIpv6NeighborTest_tearDown :: "'d stmt" where
  "noHostRouteIpv6NeighborTest_tearDown = block [
      run (invoke [] NeighborAttrIpv6TestHelper_tearDown)]"

definition noHostRouteIpv6LinkLocalNeighborTest_setUp :: "'d stmt" where
  "noHostRouteIpv6LinkLocalNeighborTest_setUp = block [
      run (invoke [] NeighborAttrIpv6TestHelper_setUp)]"

definition noHostRouteIpv6LinkLocalNeighborTest_runTest :: "'d stmt" where
  "noHostRouteIpv6LinkLocalNeighborTest_runTest = block [
      assign ''ll_nbr_entry_1'' (struct ''sai_thrift_neighbor_entry_t'' [(''rif_id'', self ''test_rif''), (''ip_address'',
        ip_address (self ''ll_ipv6_addr''))]),
      assign ''status'' (api_create_entry ''neighbor_entry'' (var ''ll_nbr_entry_1'') [(''dst_mac_address'', self ''mac_addr''),
        (''no_host_route'', bool True)]),
      assert_eq (var ''status'') (num SAI_STATUS_SUCCESS),
      try_finally [
        run (lib ''send_packet'' [self ''dev_port1'', self ''ll_pkt_v6''] []),
        run (lib ''verify_no_other_packets'' [] []),
        assign ''status'' (api_remove ''neighbor_entry'' (var ''ll_nbr_entry_1'')),
        assert_eq (var ''status'') (num SAI_STATUS_SUCCESS),
        assign ''ll_nbr_entry_2'' (struct ''sai_thrift_neighbor_entry_t'' [(''rif_id'', self ''test_rif''), (''ip_address'',
          ip_address (self ''ll_ipv6_addr''))]),
        assign ''status'' (api_create_entry ''neighbor_entry'' (var ''ll_nbr_entry_2'') [(''dst_mac_address'', self
          ''mac_addr''), (''no_host_route'', bool False)]),
        assert_eq (var ''status'') (num SAI_STATUS_SUCCESS),
        run (lib ''send_packet'' [self ''dev_port1'', self ''ll_pkt_v6''] []),
        run (lib ''verify_no_other_packets'' [] [])] [
        run (api_remove ''neighbor_entry'' (var ''ll_nbr_entry_2''))]]"

definition noHostRouteIpv6LinkLocalNeighborTest_tearDown :: "'d stmt" where
  "noHostRouteIpv6LinkLocalNeighborTest_tearDown = block [
      run (invoke [] NeighborAttrIpv6TestHelper_tearDown)]"

definition addHostRouteIpv6NeighborTest_setUp :: "'d stmt" where
  "addHostRouteIpv6NeighborTest_setUp = block [
      run (invoke [] NeighborAttrIpv6TestHelper_setUp)]"

definition addHostRouteIpv6NeighborTest_runTest :: "'d stmt" where
  "addHostRouteIpv6NeighborTest_runTest = block [
      assign ''nbr_entry_v6'' (struct ''sai_thrift_neighbor_entry_t'' [(''rif_id'', self ''test_rif''), (''ip_address'',
        ip_address (self ''ipv6_addr''))]),
      assign ''status'' (api_create_entry ''neighbor_entry'' (var ''nbr_entry_v6'') [(''dst_mac_address'', self ''mac_addr''),
        (''no_host_route'', bool False)]),
      assert_eq (var ''status'') (num SAI_STATUS_SUCCESS),
      try_finally [
        run (lib ''send_packet'' [self ''dev_port1'', self ''pkt_v6''] []),
        run (lib ''verify_packet'' [self ''exp_pkt_v6'', self ''dev_port0''] [])] [
        run (api_remove ''neighbor_entry'' (var ''nbr_entry_v6''))]]"

definition addHostRouteIpv6NeighborTest_tearDown :: "'d stmt" where
  "addHostRouteIpv6NeighborTest_tearDown = block [
      run (invoke [] NeighborAttrIpv6TestHelper_tearDown)]"

definition NeighborAttrIpv4TestHelper_setUp :: "'d stmt" where
  "NeighborAttrIpv4TestHelper_setUp = block [
      super_setUp,
      run (create_rifs [0, 1]),
      set_self ''test_rif'' (self ''port0_rif''),
      set_self ''ipv4_addr'' (str ''10.10.10.1''),
      set_self ''mac_addr'' (str ''00:10:10:10:10:10''),
      set_self ''mac_update_addr'' (str ''00:22:22:33:44:66''),
      set_self ''pkt_v4'' (lib ''simple_udp_packet'' [] [(''eth_dst'', str ROUTER_MAC), (''ip_dst'', self ''ipv4_addr''),
        (''ip_ttl'', num 64)]),
      set_self ''exp_pkt_v4'' (lib ''simple_udp_packet'' [] [(''eth_dst'', self ''mac_addr''), (''eth_src'', str ROUTER_MAC),
        (''ip_dst'', self ''ipv4_addr''), (''ip_ttl'', num 63)]),
      set_self ''exp_updt_mac_pkt'' (lib ''simple_udp_packet'' [] [(''eth_dst'', self ''mac_update_addr''), (''eth_src'', str
        ROUTER_MAC), (''ip_dst'', self ''ipv4_addr''), (''ip_ttl'', num 63)])]"

definition NeighborAttrIpv4TestHelper_tearDown :: "'d stmt" where
  "NeighborAttrIpv4TestHelper_tearDown = block [
      run destroy_rifs,
      super_tearDown]"

definition noHostRouteIpv4NeighborTest_setUp :: "'d stmt" where
  "noHostRouteIpv4NeighborTest_setUp = block [
      run (invoke [] NeighborAttrIpv4TestHelper_setUp)]"

definition noHostRouteIpv4NeighborTest_runTest :: "'d stmt" where
  "noHostRouteIpv4NeighborTest_runTest = block [
      assign ''nbr_entry_v4'' (struct ''sai_thrift_neighbor_entry_t'' [(''rif_id'', self ''test_rif''), (''ip_address'',
        ip_address (self ''ipv4_addr''))]),
      assign ''status'' (api_create_entry ''neighbor_entry'' (var ''nbr_entry_v4'') [(''dst_mac_address'', self ''mac_addr''),
        (''no_host_route'', bool True)]),
      assert_eq (var ''status'') (num SAI_STATUS_SUCCESS),
      try_finally [
        run (lib ''send_packet'' [self ''dev_port1'', self ''pkt_v4''] []),
        run (lib ''verify_no_other_packets'' [] [])] [
        run (api_remove ''neighbor_entry'' (var ''nbr_entry_v4''))]]"

definition noHostRouteIpv4NeighborTest_tearDown :: "'d stmt" where
  "noHostRouteIpv4NeighborTest_tearDown = block [
      run (invoke [] NeighborAttrIpv4TestHelper_tearDown)]"

definition addHostRouteIpv4NeighborTest_setUp :: "'d stmt" where
  "addHostRouteIpv4NeighborTest_setUp = block [
      run (invoke [] NeighborAttrIpv4TestHelper_setUp)]"

definition addHostRouteIpv4NeighborTest_runTest :: "'d stmt" where
  "addHostRouteIpv4NeighborTest_runTest = block [
      assign ''nbr_entry_v4'' (struct ''sai_thrift_neighbor_entry_t'' [(''rif_id'', self ''test_rif''), (''ip_address'',
        ip_address (self ''ipv4_addr''))]),
      assign ''status'' (api_create_entry ''neighbor_entry'' (var ''nbr_entry_v4'') [(''dst_mac_address'', self ''mac_addr''),
        (''no_host_route'', bool False)]),
      assert_eq (var ''status'') (num SAI_STATUS_SUCCESS),
      try_finally [
        run (lib ''send_packet'' [self ''dev_port1'', self ''pkt_v4''] []),
        run (lib ''verify_packet'' [self ''exp_pkt_v4'', self ''dev_port0''] [])] [
        run (api_remove ''neighbor_entry'' (var ''nbr_entry_v4''))]]"

definition addHostRouteIpv4NeighborTest_tearDown :: "'d stmt" where
  "addHostRouteIpv4NeighborTest_tearDown = block [
      run (invoke [] NeighborAttrIpv4TestHelper_tearDown)]"

definition updateNeighborEntryAttributeDstMacAddr_setUp :: "'d stmt" where
  "updateNeighborEntryAttributeDstMacAddr_setUp = block [
      run (invoke [] NeighborAttrIpv4TestHelper_setUp)]"

definition updateNeighborEntryAttributeDstMacAddr_runTest :: "'d stmt" where
  "updateNeighborEntryAttributeDstMacAddr_runTest = block [
      assign ''nbr_entry_v4'' (struct ''sai_thrift_neighbor_entry_t'' [(''rif_id'', self ''test_rif''), (''ip_address'',
        ip_address (self ''ipv4_addr''))]),
      assign ''status'' (api_create_entry ''neighbor_entry'' (var ''nbr_entry_v4'') [(''dst_mac_address'', self ''mac_addr'')]),
      assert_eq (var ''status'') (num SAI_STATUS_SUCCESS),
      try_finally [
        run (lib ''send_packet'' [self ''dev_port1'', self ''pkt_v4''] []),
        run (lib ''verify_packet'' [self ''exp_pkt_v4'', self ''dev_port0''] []),
        assign ''status'' (api_set ''neighbor_entry'' (var ''nbr_entry_v4'') [(''dst_mac_address'', str ''00:22:22:33:44:66'')]),
        assert_eq (var ''status'') (num SAI_STATUS_SUCCESS),
        assign ''attr'' (api_get ''neighbor_entry'' (var ''nbr_entry_v4'') [(''dst_mac_address'', bool True)]),
        assert_eq (item (var ''attr'') (str ''dst_mac_address'')) (str ''00:22:22:33:44:66''),
        run (lib ''send_packet'' [self ''dev_port1'', self ''pkt_v4''] []),
        run (lib ''verify_packet'' [self ''exp_updt_mac_pkt'', self ''dev_port0''] [])] [
        run (api_remove ''neighbor_entry'' (var ''nbr_entry_v4''))]]"

definition updateNeighborEntryAttributeDstMacAddr_tearDown :: "'d stmt" where
  "updateNeighborEntryAttributeDstMacAddr_tearDown = block [
      run (invoke [] NeighborAttrIpv4TestHelper_tearDown)]"

definition addNeighborEntryAttrIPv4addrFamily_setUp :: "'d stmt" where
  "addNeighborEntryAttrIPv4addrFamily_setUp = block [
      run (invoke [] NeighborAttrIpv4TestHelper_setUp)]"

definition addNeighborEntryAttrIPv4addrFamily_runTest :: "'d stmt" where
  "addNeighborEntryAttrIPv4addrFamily_runTest = block [
      try_finally [
        assign ''before_ipv4_neighbor_entry'' (api_get ''switch'' none [(''available_ipv4_neighbor_entry'', bool True)]),
        assign ''nbr_entry_v4'' (struct ''sai_thrift_neighbor_entry_t'' [(''rif_id'', self ''test_rif''), (''ip_address'',
          ip_address (self ''ipv4_addr''))]),
        assign ''status'' (api_create_entry ''neighbor_entry'' (var ''nbr_entry_v4'') [(''dst_mac_address'', self
          ''mac_addr'')]),
        assert_eq (var ''status'') (num SAI_STATUS_SUCCESS),
        assign ''nbr_entry_v4_1'' (struct ''sai_thrift_neighbor_entry_t'' [(''rif_id'', self ''test_rif''), (''ip_address'',
          ip_address (str ''10.10.10.2''))]),
        assign ''status'' (api_create_entry ''neighbor_entry'' (var ''nbr_entry_v4_1'') [(''dst_mac_address'', str
          ''00:22:22:33:44:66'')]),
        assert_eq (var ''status'') (num SAI_STATUS_SUCCESS),
        assign ''nbr_entry_v4_2'' (struct ''sai_thrift_neighbor_entry_t'' [(''rif_id'', self ''test_rif''), (''ip_address'',
          ip_address (str ''10.10.10.3''))]),
        assign ''status'' (api_create_entry ''neighbor_entry'' (var ''nbr_entry_v4_2'') [(''dst_mac_address'', str
          ''00:22:22:33:44:88'')]),
        assert_eq (var ''status'') (num SAI_STATUS_SUCCESS),
        assign ''after_ipv4_neighbor_entry'' (api_get ''switch'' none [(''available_ipv4_neighbor_entry'', bool True)]),
        assign ''available_ipv4_entries'' (sub (item (var ''before_ipv4_neighbor_entry'') (str
          ''available_ipv4_neighbor_entry'')) (item (var ''after_ipv4_neighbor_entry'') (str
          ''available_ipv4_neighbor_entry''))),
        print [var ''available_ipv4_entries''],
        assert_eq (var ''available_ipv4_entries'') (num 3)] [
        run (api_remove ''neighbor_entry'' (var ''nbr_entry_v4'')),
        run (api_remove ''neighbor_entry'' (var ''nbr_entry_v4_1'')),
        run (api_remove ''neighbor_entry'' (var ''nbr_entry_v4_2''))]]"

definition addNeighborEntryAttrIPv4addrFamily_tearDown :: "'d stmt" where
  "addNeighborEntryAttrIPv4addrFamily_tearDown = block [
      run (invoke [] NeighborAttrIpv4TestHelper_tearDown)]"

definition addNeighborEntryAttrIPv6addrFamily_setUp :: "'d stmt" where
  "addNeighborEntryAttrIPv6addrFamily_setUp = block [
      run (invoke [] NeighborAttrIpv6TestHelper_setUp)]"

definition addNeighborEntryAttrIPv6addrFamily_runTest :: "'d stmt" where
  "addNeighborEntryAttrIPv6addrFamily_runTest = block [
      try_finally [
        assign ''before_ipv6_neighbor_entry'' (api_get ''switch'' none [(''available_ipv6_neighbor_entry'', bool True)]),
        assign ''nbr_entry_v6'' (struct ''sai_thrift_neighbor_entry_t'' [(''rif_id'', self ''test_rif''), (''ip_address'',
          ip_address (self ''ipv6_addr''))]),
        assign ''status'' (api_create_entry ''neighbor_entry'' (var ''nbr_entry_v6'') [(''dst_mac_address'', self
          ''mac_addr'')]),
        assert_eq (var ''status'') (num SAI_STATUS_SUCCESS),
        assign ''nbr_entry_v6_1'' (struct ''sai_thrift_neighbor_entry_t'' [(''rif_id'', self ''test_rif''), (''ip_address'',
          ip_address (str ''2001:0db8::1:11''))]),
        assign ''status'' (api_create_entry ''neighbor_entry'' (var ''nbr_entry_v6_1'') [(''dst_mac_address'', str
          ''00:22:22:33:44:66'')]),
        assert_eq (var ''status'') (num SAI_STATUS_SUCCESS),
        assign ''after_ipv6_neighbor_entry'' (api_get ''switch'' none [(''available_ipv6_neighbor_entry'', bool True)]),
        assign ''available_ipv6_entries'' (sub (item (var ''before_ipv6_neighbor_entry'') (str
          ''available_ipv6_neighbor_entry'')) (item (var ''after_ipv6_neighbor_entry'') (str
          ''available_ipv6_neighbor_entry''))),
        print [var ''available_ipv6_entries''],
        assert_eq (var ''available_ipv6_entries'') (num 2)] [
        run (api_remove ''neighbor_entry'' (var ''nbr_entry_v6'')),
        run (api_remove ''neighbor_entry'' (var ''nbr_entry_v6_1''))]]"

definition addNeighborEntryAttrIPv6addrFamily_tearDown :: "'d stmt" where
  "addNeighborEntryAttrIPv6addrFamily_tearDown = block [
      run (invoke [] NeighborAttrIpv6TestHelper_tearDown)]"

end
