(* ===== verification/TestsNextHop.thy ===== *)
theory TestsNextHop
  imports PtfOwn PtfConstants
begin

text \<open>
  The tests of next hops, \<open>ptf/sainexthop.py\<close>: a definition per method, statement by statement in the language of
  \<open>PtfScript\<close>, named after its class. A parameter \<open>m_f\<close> is a method \<open>f\<close> that derived classes define anew.
\<close>

section \<open>The tests\<close>

definition L3NexthopTestHelper_setUp :: "'d stmt" where
  "L3NexthopTestHelper_setUp = block [
      super_setUp,
      run (create_rifs [0, 1])]"

definition L3NexthopTestHelper_tearDown :: "'d stmt" where
  "L3NexthopTestHelper_tearDown = block [
      run destroy_rifs,
      super_tearDown]"

definition removeNexthopTest_setUp :: "'d stmt" where
  "removeNexthopTest_setUp = block [
      run (invoke [] L3NexthopTestHelper_setUp)]"

definition removeNexthopTest_runTest :: "'d stmt" where
  "removeNexthopTest_runTest = block [
      assign ''neighbor_entry'' (struct ''sai_thrift_neighbor_entry_t'' [(''rif_id'', self ''port0_rif''), (''ip_address'',
        ip_address (str ''10.10.10.10''))]),
      run (api_create_entry ''neighbor_entry'' (var ''neighbor_entry'') [(''dst_mac_address'', str ''00:99:99:99:99:99'')]),
      assign ''nhop'' (api_create ''next_hop'' [(''ip'', ip_address (str ''10.10.10.10'')), (''router_interface_id'', self
        ''port0_rif''), (''type'', num SAI_NEXT_HOP_TYPE_IP)]),
      assign ''route1'' (struct ''sai_thrift_route_entry_t'' [(''vr_id'', self ''default_vrf''), (''destination'', ip_prefix
        (str ''10.10.10.2/32''))]),
      run (api_create_entry ''route_entry'' (var ''route1'') [(''next_hop_id'', var ''nhop'')]),
      assign ''route2'' (struct ''sai_thrift_route_entry_t'' [(''vr_id'', self ''default_vrf''), (''destination'', ip_prefix
        (str ''10.10.10.3/32''))]),
      run (api_create_entry ''route_entry'' (var ''route2'') [(''next_hop_id'', var ''nhop'')]),
      assign ''route3'' (struct ''sai_thrift_route_entry_t'' [(''vr_id'', self ''default_vrf''), (''destination'', ip_prefix
        (str ''10.10.10.4/32''))]),
      run (api_create_entry ''route_entry'' (var ''route3'') [(''next_hop_id'', var ''nhop'')]),
      try_finally [
        assign ''pkt'' (lib ''simple_tcp_packet'' [] [(''eth_dst'', str ROUTER_MAC), (''eth_src'', str ''00:22:22:22:22:22''),
          (''ip_dst'', str ''10.10.10.2''), (''ip_src'', str ''192.168.0.1''), (''ip_id'', num 105), (''ip_ttl'', num 64)]),
        assign ''exp_pkt'' (lib ''simple_tcp_packet'' [] [(''eth_dst'', str ''00:99:99:99:99:99''), (''eth_src'', str
          ROUTER_MAC), (''ip_dst'', str ''10.10.10.2''), (''ip_src'', str ''192.168.0.1''), (''ip_id'', num 105), (''ip_ttl'',
          num 63)]),
        print [self ''dev_port1''],
        run (lib ''send_packet'' [self ''dev_port1'', var ''pkt''] []),
        run (lib ''verify_packet'' [var ''exp_pkt'', self ''dev_port0''] []),
        run (api_remove ''next_hop'' (var ''nhop'')),
        assign ''pre_stats'' (query ''sai_thrift_get_queue_stats'' [self ''cpu_queue0''] []),
        print [self ''dev_port1''],
        run (lib ''send_packet'' [self ''dev_port1'', var ''pkt''] []),
        sleep_for (num 4),
        assign ''post_stats'' (query ''sai_thrift_get_queue_stats'' [self ''cpu_queue0''] []),
        assert_eq (sub (item (var ''post_stats'') (str ''SAI_QUEUE_STAT_PACKETS'')) (item (var ''pre_stats'') (str
          ''SAI_QUEUE_STAT_PACKETS''))) (num 1)] [
        run (api_remove ''route_entry'' (var ''route3'')),
        run (api_remove ''route_entry'' (var ''route2'')),
        run (api_remove ''route_entry'' (var ''route1'')),
        run (api_remove ''next_hop'' (var ''nhop'')),
        run (api_remove ''neighbor_entry'' (var ''neighbor_entry''))]]"

definition removeNexthopTest_tearDown :: "'d stmt" where
  "removeNexthopTest_tearDown = block [
      run (invoke [] L3NexthopTestHelper_tearDown)]"

definition cpuNexthopTest_setUp :: "'d stmt" where
  "cpuNexthopTest_setUp = block [
      run (invoke [] L3NexthopTestHelper_setUp)]"

definition cpuNexthopTest_runTest :: "'d stmt" where
  "cpuNexthopTest_runTest = block [
      assign ''trap_group'' (api_create ''hostif_trap_group'' [(''admin_state'', bool True), (''queue'', num 4)]),
      assign ''trap'' (api_create ''hostif_trap'' [(''trap_group'', var ''trap_group''), (''trap_type'', num
        SAI_HOSTIF_TRAP_TYPE_IP2ME), (''packet_action'', num SAI_PACKET_ACTION_TRAP), (''trap_priority'', num 1)]),
      assign ''attr'' (api_get ''switch'' none [(''cpu_port'', bool True)]),
      assign ''cpu_port'' (item (var ''attr'') (str ''cpu_port'')),
      assign ''host_ipv4'' (struct ''sai_thrift_route_entry_t'' [(''vr_id'', self ''default_vrf''), (''destination'', ip_prefix
        (str ''10.10.10.1/32''))]),
      run (api_create_entry ''route_entry'' (var ''host_ipv4'') [(''next_hop_id'', var ''cpu_port'')]),
      assign ''lpm_ipv4'' (struct ''sai_thrift_route_entry_t'' [(''vr_id'', self ''default_vrf''), (''destination'', ip_prefix
        (str ''20.20.20.0/24''))]),
      run (api_create_entry ''route_entry'' (var ''lpm_ipv4'') [(''next_hop_id'', var ''cpu_port'')]),
      assign ''ipv6'' (str ''1234:5678:9abc:def0:1122:3344:5566:7788/128''),
      assign ''host_ipv6'' (struct ''sai_thrift_route_entry_t'' [(''vr_id'', self ''default_vrf''), (''destination'', ip_prefix
        (var ''ipv6''))]),
      run (api_create_entry ''route_entry'' (var ''host_ipv6'') [(''next_hop_id'', var ''cpu_port'')]),
      assign ''lpm_ipv6'' (struct ''sai_thrift_route_entry_t'' [(''vr_id'', self ''default_vrf''), (''destination'', ip_prefix
        (str ''4000::0/65''))]),
      run (api_create_entry ''route_entry'' (var ''lpm_ipv6'') [(''next_hop_id'', var ''cpu_port'')]),
      assign ''pkt1'' (lib ''simple_tcp_packet'' [] [(''eth_dst'', str ROUTER_MAC), (''eth_src'', str ''00:22:22:22:22:22''),
        (''ip_dst'', str ''10.10.10.1''), (''ip_src'', str ''192.168.0.1''), (''ip_id'', num 105), (''ip_ttl'', num 64)]),
      assign ''pkt2'' (lib ''simple_tcp_packet'' [] [(''eth_dst'', str ROUTER_MAC), (''eth_src'', str ''00:22:22:22:22:22''),
        (''ip_dst'', str ''20.20.20.1''), (''ip_src'', str ''192.168.0.1''), (''ip_id'', num 105), (''ip_ttl'', num 64)]),
      assign ''pkt3'' (lib ''simple_tcpv6_packet'' [] [(''eth_dst'', str ROUTER_MAC), (''eth_src'', str ''00:22:22:22:22:22''),
        (''ipv6_dst'', str ''1234:5678:9abc:def0:1122:3344:5566:7788''), (''ipv6_src'', str ''2000::1''), (''ipv6_hlim'', num
        64)]),
      assign ''pkt4'' (lib ''simple_tcpv6_packet'' [] [(''eth_dst'', str ROUTER_MAC), (''eth_src'', str ''00:22:22:22:22:22''),
        (''ipv6_dst'', str ''4000::1''), (''ipv6_src'', str ''2000::1''), (''ipv6_hlim'', num 64)]),
      try_finally [
        assign ''pre_stats'' (query ''sai_thrift_get_queue_stats'' [self ''cpu_queue4''] []),
        print [self ''dev_port0''],
        run (lib ''send_packet'' [self ''dev_port0'', var ''pkt1''] []),
        print [self ''dev_port0''],
        run (lib ''send_packet'' [self ''dev_port0'', var ''pkt2''] []),
        print [self ''dev_port0''],
        run (lib ''send_packet'' [self ''dev_port0'', var ''pkt3''] []),
        print [self ''dev_port0''],
        run (lib ''send_packet'' [self ''dev_port0'', var ''pkt4''] []),
        sleep_for (num 4),
        assign ''post_stats'' (query ''sai_thrift_get_queue_stats'' [self ''cpu_queue4''] []),
        assert_eq (sub (item (var ''post_stats'') (str ''SAI_QUEUE_STAT_PACKETS'')) (item (var ''pre_stats'') (str
          ''SAI_QUEUE_STAT_PACKETS''))) (num 4)] [
        run (api_remove ''route_entry'' (var ''host_ipv6'')),
        run (api_remove ''route_entry'' (var ''lpm_ipv6'')),
        run (api_remove ''route_entry'' (var ''host_ipv4'')),
        run (api_remove ''route_entry'' (var ''lpm_ipv4'')),
        run (api_remove ''hostif_trap'' (var ''trap'')),
        run (api_remove ''hostif_trap_group'' (var ''trap_group''))]]"

definition cpuNexthopTest_tearDown :: "'d stmt" where
  "cpuNexthopTest_tearDown = block [
      run (invoke [] L3NexthopTestHelper_tearDown)]"

definition NhopTunnelEncapDecapTestHelper_setUp :: "'d stmt" where
  "NhopTunnelEncapDecapTestHelper_setUp = block [
      super_setUp,
      set_self ''uvrf'' (api_create ''virtual_router'' []),
      set_self ''vm_ip4'' (str ''100.100.1.1''),
      set_self ''vm_ip6'' (str ''1234:5678:9abc:def0:4422:1133:5577:9951''),
      set_self ''customer_ip4'' (str ''100.100.0.1''),
      set_self ''customer_ip6'' (str ''1234:5678:9abc:def0:4422:1133:5577:0011''),
      set_self ''my_lb_ip'' (str ''10.10.10.10''),
      set_self ''tunnel_ip'' (str ''10.10.10.1''),
      set_self ''tunnel_ip_mask'' (str ''10.10.10.1/32''),
      set_self ''inner_dmac'' (str ''00:33:33:33:33:33''),
      set_self ''underlay_neighbor_mac'' (str ''00:11:11:11:11:11''),
      set_self ''default_rmac'' (str ''00:BA:7E:F0:00:00''),
      set_self ''ovrf'' (api_create ''virtual_router'' []),
      set_self ''tunnel_type'' (num SAI_TUNNEL_TYPE_IPINIP),
      set_self ''term_type'' (num SAI_TUNNEL_TERM_TABLE_ENTRY_TYPE_P2P),
      set_self ''ttl_mode'' (num SAI_TUNNEL_TTL_MODE_PIPE_MODEL),
      set_self ''urif_lb'' (api_create ''router_interface'' [(''type'', num SAI_ROUTER_INTERFACE_TYPE_LOOPBACK),
        (''virtual_router_id'', self ''uvrf'')]),
      set_self ''orif_lb'' (api_create ''router_interface'' [(''type'', num SAI_ROUTER_INTERFACE_TYPE_LOOPBACK),
        (''virtual_router_id'', self ''ovrf'')]),
      set_self ''urif'' (api_create ''router_interface'' [(''type'', num SAI_ROUTER_INTERFACE_TYPE_PORT),
        (''virtual_router_id'', self ''uvrf''), (''port_id'', self ''port25'')]),
      set_self ''uneighbor'' (struct ''sai_thrift_neighbor_entry_t'' [(''rif_id'', self ''urif''), (''ip_address'', ip_address
        (self ''tunnel_ip''))]),
      run (api_create_entry ''neighbor_entry'' (self ''uneighbor'') [(''dst_mac_address'', self ''underlay_neighbor_mac'')]),
      set_self ''unhop'' (api_create ''next_hop'' [(''ip'', ip_address (self ''tunnel_ip'')), (''router_interface_id'', self
        ''urif''), (''type'', num SAI_NEXT_HOP_TYPE_IP)]),
      set_self ''tunnel_entry1'' (struct ''sai_thrift_route_entry_t'' [(''vr_id'', self ''uvrf''), (''destination'', ip_prefix
        (self ''tunnel_ip_mask''))]),
      run (api_create_entry ''route_entry'' (self ''tunnel_entry1'') [(''next_hop_id'', self ''unhop'')]),
      set_self ''tunnel'' (api_create ''tunnel'' [(''type'', self ''tunnel_type''), (''encap_src_ip'', ip_address (self
        ''my_lb_ip'')), (''encap_ttl_mode'', self ''ttl_mode''), (''decap_ttl_mode'', self ''ttl_mode''),
        (''underlay_interface'', self ''urif_lb''), (''overlay_interface'', self ''orif_lb'')]),
      set_self ''tunnel_term'' (api_create ''tunnel_term_table_entry'' [(''tunnel_type'', self ''tunnel_type''), (''type'', self
        ''term_type''), (''vr_id'', self ''uvrf''), (''action_tunnel_id'', self ''tunnel''), (''src_ip'', ip_address (self
        ''tunnel_ip'')), (''dst_ip'', ip_address (self ''my_lb_ip''))]),
      set_self ''tunnel_nexthop'' (api_create ''next_hop'' [(''type'', num SAI_NEXT_HOP_TYPE_TUNNEL_ENCAP), (''tunnel_id'', self
        ''tunnel''), (''tunnel_mac'', self ''inner_dmac''), (''ip'', ip_address (self ''tunnel_ip''))]),
      set_self ''customer_route1'' (struct ''sai_thrift_route_entry_t'' [(''vr_id'', self ''ovrf''), (''destination'', ip_prefix
        (add (self ''vm_ip4'') (str ''/32'')))]),
      run (api_create_entry ''route_entry'' (self ''customer_route1'') [(''next_hop_id'', self ''tunnel_nexthop'')]),
      set_self ''customer_route2'' (struct ''sai_thrift_route_entry_t'' [(''vr_id'', self ''ovrf''), (''destination'', ip_prefix
        (add (self ''vm_ip6'') (str ''/128'')))]),
      run (api_create_entry ''route_entry'' (self ''customer_route2'') [(''next_hop_id'', self ''tunnel_nexthop'')])]"

definition NhopTunnelEncapDecapTestHelper_tearDown :: "'d stmt" where
  "NhopTunnelEncapDecapTestHelper_tearDown = block [
      run (api_remove ''route_entry'' (self ''customer_route2'')),
      run (api_remove ''route_entry'' (self ''customer_route1'')),
      run (api_remove ''next_hop'' (self ''tunnel_nexthop'')),
      run (api_remove ''tunnel_term_table_entry'' (self ''tunnel_term'')),
      run (api_remove ''tunnel'' (self ''tunnel'')),
      run (api_remove ''route_entry'' (self ''tunnel_entry1'')),
      run (api_remove ''next_hop'' (self ''unhop'')),
      run (api_remove ''neighbor_entry'' (self ''uneighbor'')),
      run (api_remove ''router_interface'' (self ''urif'')),
      run (api_remove ''router_interface'' (self ''orif_lb'')),
      run (api_remove ''router_interface'' (self ''urif_lb'')),
      run (api_remove ''virtual_router'' (self ''ovrf'')),
      run (api_remove ''virtual_router'' (self ''uvrf'')),
      super_tearDown]"

definition l3InterfaceTunnelTest_setUp :: "'d stmt" where
  "l3InterfaceTunnelTest_setUp = block [
      run (invoke [] NhopTunnelEncapDecapTestHelper_setUp)]"

definition l3InterfaceTunnelTest_runTest :: "'d stmt" where
  "l3InterfaceTunnelTest_runTest = block [
      try_finally [
        assign ''orif'' (api_create ''router_interface'' [(''type'', num SAI_ROUTER_INTERFACE_TYPE_PORT), (''port_id'', self
          ''port24''), (''virtual_router_id'', self ''ovrf'')]),
        assign ''oneighbor4'' (struct ''sai_thrift_neighbor_entry_t'' [(''rif_id'', var ''orif''), (''ip_address'', ip_address
          (self ''customer_ip4''))]),
        run (api_create_entry ''neighbor_entry'' (var ''oneighbor4'') [(''dst_mac_address'', str ''00:22:22:22:22:33'')]),
        assign ''onhop4'' (api_create ''next_hop'' [(''ip'', ip_address (self ''customer_ip4'')), (''router_interface_id'', var
          ''orif''), (''type'', num SAI_NEXT_HOP_TYPE_IP)]),
        assign ''customer_route3'' (struct ''sai_thrift_route_entry_t'' [(''vr_id'', self ''ovrf''), (''destination'', ip_prefix
          (add (self ''customer_ip4'') (str ''/32'')))]),
        run (api_create_entry ''route_entry'' (var ''customer_route3'') [(''next_hop_id'', var ''onhop4'')]),
        assign ''pkt'' (lib ''simple_tcp_packet'' [] [(''eth_dst'', str ROUTER_MAC), (''eth_src'', str ''00:22:22:22:22:33''),
          (''ip_dst'', self ''vm_ip4''), (''ip_src'', self ''customer_ip4''), (''ip_id'', num 108), (''ip_ttl'', num 64)]),
        assign ''pkt2'' (lib ''simple_tcp_packet'' [] [(''eth_dst'', self ''inner_dmac''), (''eth_src'', self ''default_rmac''),
          (''ip_dst'', self ''vm_ip4''), (''ip_src'', self ''customer_ip4''), (''ip_id'', num 108), (''ip_ttl'', num 63)]),
        assign ''ipip_pkt'' (lib ''simple_ipv4ip_packet'' [] [(''eth_dst'', self ''underlay_neighbor_mac''), (''eth_src'', str
          ROUTER_MAC), (''ip_id'', num 0), (''ip_src'', str ''10.10.10.10''), (''ip_dst'', str ''10.10.10.1''), (''ip_ttl'', num
          64), (''inner_frame'', lib ''get_layer'' [var ''pkt2'', str ''IP''] [])]),
        run (lib ''send_packet'' [self ''dev_port24'', var ''pkt''] []),
        run (lib ''verify_packet'' [var ''ipip_pkt'', self ''dev_port25''] []),
        assign ''pkt1'' (lib ''simple_tcp_packet'' [] [(''eth_src'', str ROUTER_MAC), (''eth_dst'', self ''inner_dmac''),
          (''ip_dst'', self ''customer_ip4''), (''ip_src'', self ''vm_ip4''), (''ip_id'', num 108), (''ip_ttl'', num 64)]),
        assign ''pkt2'' (lib ''simple_tcp_packet'' [] [(''eth_src'', str ROUTER_MAC), (''eth_dst'', str ''00:22:22:22:22:33''),
          (''ip_dst'', self ''customer_ip4''), (''ip_src'', self ''vm_ip4''), (''ip_id'', num 108), (''ip_ttl'', num 63)]),
        assign ''ipip_pkt'' (lib ''simple_ipv4ip_packet'' [] [(''eth_dst'', str ROUTER_MAC), (''eth_src'', self
          ''underlay_neighbor_mac''), (''ip_id'', num 0), (''ip_src'', str ''10.10.10.1''), (''ip_dst'', str ''10.10.10.10''),
          (''ip_ttl'', num 64), (''inner_frame'', lib ''get_layer'' [var ''pkt1'', str ''IP''] [])]),
        run (lib ''send_packet'' [self ''dev_port25'', var ''ipip_pkt''] []),
        run (lib ''verify_packet'' [var ''pkt2'', self ''dev_port24''] [])] [
        run (api_remove ''route_entry'' (var ''customer_route3'')),
        run (api_remove ''next_hop'' (var ''onhop4'')),
        run (api_remove ''neighbor_entry'' (var ''oneighbor4'')),
        run (api_remove ''router_interface'' (var ''orif''))]]"

definition l3InterfaceTunnelTest_tearDown :: "'d stmt" where
  "l3InterfaceTunnelTest_tearDown = block [
      run (invoke [] NhopTunnelEncapDecapTestHelper_tearDown)]"

definition subPortTunnelTest_setUp :: "'d stmt" where
  "subPortTunnelTest_setUp = block [
      run (invoke [] NhopTunnelEncapDecapTestHelper_setUp)]"

definition subPortTunnelTest_runTest :: "'d stmt" where
  "subPortTunnelTest_runTest = block [
      try_finally [
        assign ''osubport'' (api_create ''router_interface'' [(''type'', num SAI_ROUTER_INTERFACE_TYPE_SUB_PORT),
          (''virtual_router_id'', self ''ovrf''), (''port_id'', self ''port24''), (''admin_v4_state'', bool True),
          (''outer_vlan_id'', num 500)]),
        assign ''oneighbor'' (struct ''sai_thrift_neighbor_entry_t'' [(''rif_id'', var ''osubport''), (''ip_address'',
          ip_address (self ''customer_ip4''))]),
        run (api_create_entry ''neighbor_entry'' (var ''oneighbor'') [(''dst_mac_address'', str ''00:22:22:22:22:33'')]),
        assign ''onhop'' (api_create ''next_hop'' [(''ip'', ip_address (self ''customer_ip4'')), (''router_interface_id'', var
          ''osubport''), (''type'', num SAI_NEXT_HOP_TYPE_IP)]),
        assign ''customer_route3'' (struct ''sai_thrift_route_entry_t'' [(''vr_id'', self ''ovrf''), (''destination'', ip_prefix
          (add (self ''customer_ip4'') (str ''/32'')))]),
        run (api_create_entry ''route_entry'' (var ''customer_route3'') [(''next_hop_id'', var ''onhop'')]),
        assign ''pkt'' (lib ''simple_tcp_packet'' [] [(''eth_dst'', str ROUTER_MAC), (''eth_src'', str ''00:22:22:22:22:33''),
          (''ip_dst'', self ''vm_ip4''), (''ip_src'', self ''customer_ip4''), (''dl_vlan_enable'', bool True), (''vlan_vid'',
          num 500), (''ip_id'', num 108), (''ip_ttl'', num 64)]),
        assign ''pkt2'' (lib ''simple_tcp_packet'' [] [(''eth_dst'', self ''inner_dmac''), (''eth_src'', self ''default_rmac''),
          (''ip_dst'', self ''vm_ip4''), (''ip_src'', self ''customer_ip4''), (''dl_vlan_enable'', bool True), (''vlan_vid'',
          num 500), (''ip_id'', num 108), (''ip_ttl'', num 63)]),
        assign ''ipip_pkt'' (lib ''simple_ipv4ip_packet'' [] [(''eth_dst'', self ''underlay_neighbor_mac''), (''eth_src'', str
          ROUTER_MAC), (''ip_id'', num 0), (''ip_src'', str ''10.10.10.10''), (''ip_dst'', str ''10.10.10.1''), (''ip_ttl'', num
          64), (''inner_frame'', lib ''get_layer'' [var ''pkt2'', str ''IP''] [])]),
        run (lib ''send_packet'' [self ''dev_port24'', var ''pkt''] []),
        run (lib ''verify_packet'' [var ''ipip_pkt'', self ''dev_port25''] []),
        assign ''pkt1'' (lib ''simple_tcp_packet'' [] [(''eth_src'', str ROUTER_MAC), (''eth_dst'', self ''inner_dmac''),
          (''ip_dst'', self ''customer_ip4''), (''ip_src'', self ''vm_ip4''), (''dl_vlan_enable'', bool True), (''vlan_vid'',
          num 500), (''ip_id'', num 108), (''ip_ttl'', num 64)]),
        assign ''pkt2'' (lib ''simple_tcp_packet'' [] [(''eth_src'', str ROUTER_MAC), (''eth_dst'', str ''00:22:22:22:22:33''),
          (''ip_dst'', self ''customer_ip4''), (''ip_src'', self ''vm_ip4''), (''dl_vlan_enable'', bool True), (''vlan_vid'',
          num 500), (''ip_id'', num 108), (''ip_ttl'', num 63)]),
        assign ''ipip_pkt'' (lib ''simple_ipv4ip_packet'' [] [(''eth_dst'', str ROUTER_MAC), (''eth_src'', self
          ''underlay_neighbor_mac''), (''ip_id'', num 0), (''ip_src'', str ''10.10.10.1''), (''ip_dst'', str ''10.10.10.10''),
          (''ip_ttl'', num 64), (''inner_frame'', lib ''get_layer'' [var ''pkt1'', str ''IP''] [])]),
        run (lib ''send_packet'' [self ''dev_port25'', var ''ipip_pkt''] []),
        run (lib ''verify_packet'' [var ''pkt2'', self ''dev_port24''] [])] [
        run (api_remove ''route_entry'' (var ''customer_route3'')),
        run (api_remove ''next_hop'' (var ''onhop'')),
        run (api_remove ''neighbor_entry'' (var ''oneighbor'')),
        run (api_remove ''router_interface'' (var ''osubport''))]]"

definition subPortTunnelTest_tearDown :: "'d stmt" where
  "subPortTunnelTest_tearDown = block [
      run (invoke [] NhopTunnelEncapDecapTestHelper_tearDown)]"

definition sviTunnelTest_setUp :: "'d stmt" where
  "sviTunnelTest_setUp = block [
      run (invoke [] NhopTunnelEncapDecapTestHelper_setUp)]"

definition sviTunnelTest_runTest :: "'d stmt" where
  "sviTunnelTest_runTest = block [
      try_finally [
        assign ''port24_bp'' (api_create ''bridge_port'' [(''bridge_id'', self ''default_1q_bridge''), (''port_id'', self
          ''port24''), (''type'', num SAI_BRIDGE_PORT_TYPE_PORT)]),
        assign ''port26_bp'' (api_create ''bridge_port'' [(''bridge_id'', self ''default_1q_bridge''), (''port_id'', self
          ''port26''), (''type'', num SAI_BRIDGE_PORT_TYPE_PORT)]),
        assign ''vlan100'' (api_create ''vlan'' [(''vlan_id'', num 100)]),
        assign ''vlan_member100'' (api_create ''vlan_member'' [(''vlan_id'', var ''vlan100''), (''bridge_port_id'', var
          ''port24_bp''), (''vlan_tagging_mode'', num SAI_VLAN_TAGGING_MODE_UNTAGGED)]),
        assign ''vlan_member101'' (api_create ''vlan_member'' [(''vlan_id'', var ''vlan100''), (''bridge_port_id'', var
          ''port26_bp''), (''vlan_tagging_mode'', num SAI_VLAN_TAGGING_MODE_UNTAGGED)]),
        run (api_set ''port'' (self ''port24'') [(''port_vlan_id'', num 100)]),
        run (api_set ''port'' (self ''port26'') [(''port_vlan_id'', num 100)]),
        assign ''osvi'' (api_create ''router_interface'' [(''type'', num SAI_ROUTER_INTERFACE_TYPE_VLAN),
          (''virtual_router_id'', self ''ovrf''), (''vlan_id'', var ''vlan100'')]),
        assign ''oneighbor'' (struct ''sai_thrift_neighbor_entry_t'' [(''rif_id'', var ''osvi''), (''ip_address'', ip_address
          (self ''customer_ip4''))]),
        run (api_create_entry ''neighbor_entry'' (var ''oneighbor'') [(''dst_mac_address'', str ''00:22:22:22:22:33'')]),
        assign ''onhop'' (api_create ''next_hop'' [(''ip'', ip_address (self ''customer_ip4'')), (''router_interface_id'', var
          ''osvi''), (''type'', num SAI_NEXT_HOP_TYPE_IP)]),
        assign ''customer_route3'' (struct ''sai_thrift_route_entry_t'' [(''vr_id'', self ''ovrf''), (''destination'', ip_prefix
          (add (self ''customer_ip4'') (str ''/32'')))]),
        run (api_create_entry ''route_entry'' (var ''customer_route3'') [(''next_hop_id'', var ''onhop'')]),
        assign ''test_fdb'' (struct ''sai_thrift_fdb_entry_t'' [(''switch_id'', self ''switch_id''), (''mac_address'', str
          ''00:22:22:22:22:33''), (''bv_id'', var ''vlan100'')]),
        run (api_create_entry ''fdb_entry'' (var ''test_fdb'') [(''type'', num SAI_FDB_ENTRY_TYPE_STATIC), (''bridge_port_id'',
          var ''port24_bp'')]),
        assign ''pkt'' (lib ''simple_tcp_packet'' [] [(''eth_dst'', str ROUTER_MAC), (''eth_src'', str ''00:22:22:22:22:33''),
          (''ip_dst'', self ''vm_ip4''), (''ip_src'', self ''customer_ip4''), (''ip_id'', num 108), (''ip_ttl'', num 64)]),
        assign ''pkt2'' (lib ''simple_tcp_packet'' [] [(''eth_dst'', self ''inner_dmac''), (''eth_src'', self ''default_rmac''),
          (''ip_dst'', self ''vm_ip4''), (''ip_src'', self ''customer_ip4''), (''ip_id'', num 108), (''ip_ttl'', num 63)]),
        assign ''ipip_pkt'' (lib ''simple_ipv4ip_packet'' [] [(''eth_dst'', self ''underlay_neighbor_mac''), (''eth_src'', str
          ROUTER_MAC), (''ip_id'', num 0), (''ip_src'', str ''10.10.10.10''), (''ip_dst'', str ''10.10.10.1''), (''ip_ttl'', num
          64), (''inner_frame'', lib ''get_layer'' [var ''pkt2'', str ''IP''] [])]),
        run (lib ''send_packet'' [self ''dev_port24'', var ''pkt''] []),
        run (lib ''verify_packet'' [var ''ipip_pkt'', self ''dev_port25''] []),
        assign ''pkt1'' (lib ''simple_tcp_packet'' [] [(''eth_src'', str ROUTER_MAC), (''eth_dst'', self ''inner_dmac''),
          (''ip_dst'', self ''customer_ip4''), (''ip_src'', self ''vm_ip4''), (''ip_id'', num 108), (''ip_ttl'', num 64)]),
        assign ''pkt2'' (lib ''simple_tcp_packet'' [] [(''eth_src'', str ROUTER_MAC), (''eth_dst'', str ''00:22:22:22:22:33''),
          (''ip_dst'', self ''customer_ip4''), (''ip_src'', self ''vm_ip4''), (''ip_id'', num 108), (''ip_ttl'', num 63)]),
        assign ''ipip_pkt'' (lib ''simple_ipv4ip_packet'' [] [(''eth_dst'', str ROUTER_MAC), (''eth_src'', self
          ''underlay_neighbor_mac''), (''ip_id'', num 0), (''ip_src'', str ''10.10.10.1''), (''ip_dst'', str ''10.10.10.10''),
          (''ip_ttl'', num 64), (''inner_frame'', lib ''get_layer'' [var ''pkt1'', str ''IP''] [])]),
        run (lib ''send_packet'' [self ''dev_port25'', var ''ipip_pkt''] []),
        run (lib ''verify_packet'' [var ''pkt2'', self ''dev_port24''] [])] [
        run (api_remove ''fdb_entry'' (var ''test_fdb'')),
        run (api_remove ''route_entry'' (var ''customer_route3'')),
        run (api_remove ''next_hop'' (var ''onhop'')),
        run (api_remove ''neighbor_entry'' (var ''oneighbor'')),
        run (api_remove ''router_interface'' (var ''osvi'')),
        run (api_set ''port'' (self ''port24'') [(''port_vlan_id'', num 0)]),
        run (api_set ''port'' (self ''port26'') [(''port_vlan_id'', num 0)]),
        run (api_remove ''vlan_member'' (var ''vlan_member100'')),
        run (api_remove ''vlan_member'' (var ''vlan_member101'')),
        run (api_remove ''vlan'' (var ''vlan100'')),
        run (api_remove ''bridge_port'' (var ''port24_bp'')),
        run (api_remove ''bridge_port'' (var ''port26_bp''))]]"

definition sviTunnelTest_tearDown :: "'d stmt" where
  "sviTunnelTest_tearDown = block [
      run (invoke [] NhopTunnelEncapDecapTestHelper_tearDown)]"

definition NhopTunnelVNITestHelper_setUp :: "'d stmt" where
  "NhopTunnelVNITestHelper_setUp = block [
      super_setUp,
      set_self ''uvrf'' (api_create ''virtual_router'' []),
      set_self ''vm_ip'' (str ''100.100.1.1''),
      set_self ''vm_ip2'' (str ''100.100.2.1''),
      set_self ''customer_ip'' (str ''100.100.3.1''),
      set_self ''vni'' (num 2000),
      set_self ''my_lb_ip'' (str ''10.10.10.10''),
      set_self ''tunnel_ip'' (str ''10.10.10.1''),
      set_self ''tunnel_ip2'' (str ''10.10.10.3''),
      set_self ''tunnel_ip3'' (str ''10.10.10.4''),
      set_self ''inner_dmac'' (str ''00:33:33:33:33:33''),
      set_self ''inner_dmac2'' (str ''00:33:33:33:33:44''),
      set_self ''inner_dmac3'' (str ''00:33:33:33:33:55''),
      set_self ''inner_dmac4'' (str ''00:33:33:33:33:66''),
      set_self ''underlay_neighbor_mac'' (str ''00:11:11:11:11:11''),
      set_self ''underlay_neighbor_mac2'' (str ''00:11:11:11:11:22''),
      set_self ''underlay_neighbor_mac3'' (str ''00:11:11:11:11:33''),
      set_self ''default_rmac'' (str ''00:BA:7E:F0:00:00''),
      set_self ''ovrf'' (api_create ''virtual_router'' []),
      set_self ''tunnel_type'' (num SAI_TUNNEL_TYPE_VXLAN),
      set_self ''term_type'' (num SAI_TUNNEL_TERM_TABLE_ENTRY_TYPE_P2MP),
      set_self ''ttl_mode'' (num SAI_TUNNEL_TTL_MODE_PIPE_MODEL),
      set_self ''urif_lb'' (api_create ''router_interface'' [(''type'', num SAI_ROUTER_INTERFACE_TYPE_LOOPBACK),
        (''virtual_router_id'', self ''uvrf'')]),
      set_self ''orif'' (api_create ''router_interface'' [(''type'', num SAI_ROUTER_INTERFACE_TYPE_PORT),
        (''virtual_router_id'', self ''ovrf''), (''port_id'', self ''port24'')]),
      set_self ''encap_tunnel_map'' (api_create ''tunnel_map'' [(''type'', num SAI_TUNNEL_MAP_TYPE_VIRTUAL_ROUTER_ID_TO_VNI)]),
      set_self ''decap_tunnel_map'' (api_create ''tunnel_map'' [(''type'', num SAI_TUNNEL_MAP_TYPE_VNI_TO_VIRTUAL_ROUTER_ID)]),
      set_self ''encap_tunnel_map_entry'' (api_create ''tunnel_map_entry'' [(''tunnel_map_type'', num
        SAI_TUNNEL_MAP_TYPE_VIRTUAL_ROUTER_ID_TO_VNI), (''tunnel_map'', self ''encap_tunnel_map''), (''virtual_router_id_key'',
        self ''ovrf''), (''virtual_router_id_value'', self ''ovrf''), (''vni_id_key'', self ''vni''), (''vni_id_value'', self
        ''vni'')]),
      set_self ''decap_tunnel_map_entry'' (api_create ''tunnel_map_entry'' [(''tunnel_map_type'', num
        SAI_TUNNEL_MAP_TYPE_VNI_TO_VIRTUAL_ROUTER_ID), (''tunnel_map'', self ''decap_tunnel_map''), (''virtual_router_id_key'',
        self ''ovrf''), (''virtual_router_id_value'', self ''ovrf''), (''vni_id_key'', self ''vni''), (''vni_id_value'', self
        ''vni'')]),
      assign ''encap_mappers_list'' (list_of [self ''encap_tunnel_map'']),
      assign ''decap_mappers_list'' (list_of [self ''decap_tunnel_map'']),
      set_self ''encap_mappers_objlist'' (struct ''sai_thrift_object_list_t'' [(''count'', num 1), (''idlist'', var
        ''encap_mappers_list'')]),
      set_self ''decap_mappers_objlist'' (struct ''sai_thrift_object_list_t'' [(''count'', num 1), (''idlist'', var
        ''decap_mappers_list'')]),
      set_self ''tunnel'' (api_create ''tunnel'' [(''type'', self ''tunnel_type''), (''encap_src_ip'', ip_address (self
        ''my_lb_ip'')), (''decap_mappers'', self ''decap_mappers_objlist''), (''encap_mappers'', self
        ''encap_mappers_objlist''), (''encap_ttl_mode'', self ''ttl_mode''), (''decap_ttl_mode'', self ''ttl_mode''),
        (''underlay_interface'', self ''urif_lb'')])]"

definition NhopTunnelVNITestHelper_tearDown :: "'d stmt" where
  "NhopTunnelVNITestHelper_tearDown = block [
      run (api_remove ''tunnel'' (self ''tunnel'')),
      run (api_remove ''tunnel_map_entry'' (self ''decap_tunnel_map_entry'')),
      run (api_remove ''tunnel_map_entry'' (self ''encap_tunnel_map_entry'')),
      run (api_remove ''tunnel_map'' (self ''decap_tunnel_map'')),
      run (api_remove ''tunnel_map'' (self ''encap_tunnel_map'')),
      run (api_remove ''router_interface'' (self ''orif'')),
      run (api_remove ''router_interface'' (self ''urif_lb'')),
      run (api_remove ''virtual_router'' (self ''ovrf'')),
      run (api_remove ''virtual_router'' (self ''uvrf'')),
      super_tearDown]"

definition tunnelVniTest_setUp :: "'d stmt" where
  "tunnelVniTest_setUp = block [
      run (invoke [] NhopTunnelVNITestHelper_setUp)]"

definition tunnelVniTest_tearDown :: "'d stmt" where
  "tunnelVniTest_tearDown = block [
      run (invoke [] NhopTunnelVNITestHelper_tearDown)]"

definition tunnelVrfTest_setUp :: "'d stmt" where
  "tunnelVrfTest_setUp = block [
      run (invoke [] NhopTunnelVNITestHelper_setUp)]"

definition tunnelVrfTest_tearDown :: "'d stmt" where
  "tunnelVrfTest_tearDown = block [
      run (invoke [] NhopTunnelVNITestHelper_tearDown)]"

end
