(* ===== verification/TestsNextHopGroup.thy ===== *)
theory TestsNextHopGroup
  imports PtfOwn PtfConstants
begin

text \<open>
  The tests of next hop groups, \<open>ptf/sainexthopgroup.py\<close>: a definition per method, statement by statement in the language of
  \<open>PtfScript\<close>, named after its class. A parameter \<open>m_f\<close> is a method \<open>f\<close> that derived classes define anew.
\<close>

section \<open>The tests\<close>

definition nhg_members_count :: "'d stmt" where
  "nhg_members_count = block [
      assign ''attr_list'' (api_get ''next_hop_group'' (var ''next_hop_group'') [(''next_hop_count'', bool True)]),
      assign ''next_hop_count'' (item (var ''attr_list'') (str ''SAI_NEXT_HOP_GROUP_ATTR_NEXT_HOP_COUNT'')),
      return (var ''next_hop_count'')]"

definition setup_hash :: "'d stmt" where
  "setup_hash = block [
      assign ''hash_fields_list'' (list_of [num SAI_NATIVE_HASH_FIELD_SRC_IP, num SAI_NATIVE_HASH_FIELD_DST_IP, num
        SAI_NATIVE_HASH_FIELD_IP_PROTOCOL, num SAI_NATIVE_HASH_FIELD_L4_DST_PORT, num SAI_NATIVE_HASH_FIELD_L4_SRC_PORT]),
      assign ''s32list'' (struct ''sai_thrift_s32_list_t'' [(''count'', length_of (var ''hash_fields_list'')), (''int32list'',
        var ''hash_fields_list'')]),
      assign ''ipv4_hash_id'' (api_create ''hash'' [(''native_hash_field_list'', var ''s32list'')]),
      assert (ne (var ''ipv4_hash_id'') (num 0)),
      assign ''ipv6_hash_id'' (api_create ''hash'' [(''native_hash_field_list'', var ''s32list'')]),
      assert (ne (var ''ipv6_hash_id'') (num 0)),
      set_self ''lag_ipv4_hash_id'' (api_create ''hash'' [(''native_hash_field_list'', var ''s32list'')]),
      assert (ne (self ''lag_ipv4_hash_id'') (num 0)),
      set_self ''lag_ipv6_hash_id'' (api_create ''hash'' [(''native_hash_field_list'', var ''s32list'')]),
      assert (ne (self ''lag_ipv6_hash_id'') (num 0)),
      run (api_set ''switch'' none [(''ecmp_hash_ipv4'', var ''ipv4_hash_id'')]),
      run (api_set ''switch'' none [(''ecmp_hash_ipv6'', var ''ipv6_hash_id'')]),
      run (api_set ''switch'' none [(''lag_hash_ipv4'', self ''lag_ipv4_hash_id'')]),
      run (api_set ''switch'' none [(''lag_hash_ipv6'', self ''lag_ipv6_hash_id'')]),
      return (list_of [var ''ipv4_hash_id'', var ''ipv6_hash_id''])]"

definition nexthopgroup_release_hash :: "'d stmt" where
  "nexthopgroup_release_hash = block [
      run (api_set ''switch'' none [(''ecmp_hash_ipv4'', num 0)]),
      run (api_set ''switch'' none [(''ecmp_hash_ipv6'', num 0)]),
      run (api_set ''switch'' none [(''lag_hash_ipv4'', num 0)]),
      run (api_set ''switch'' none [(''lag_hash_ipv6'', num 0)]),
      if_else (ne (self ''lag_ipv6_hash_id'') (num 0)) [
        run (api_remove ''hash'' (self ''lag_ipv6_hash_id'')),
        set_self ''lag_ipv6_hash_id'' (num 0)] [],
      if_else (ne (self ''lag_ipv4_hash_id'') (num 0)) [
        run (api_remove ''hash'' (self ''lag_ipv4_hash_id'')),
        set_self ''lag_ipv4_hash_id'' (num 0)] [],
      if_else (ne (var ''ipv6_hash_id'') (num 0)) [
        run (api_remove ''hash'' (var ''ipv6_hash_id'')),
        assign ''ipv6_hash_id'' (num 0)] [],
      if_else (ne (var ''ipv4_hash_id'') (num 0)) [
        run (api_remove ''hash'' (var ''ipv4_hash_id'')),
        assign ''ipv4_hash_id'' (num 0)] []]"

definition print_number_of_available_nhg_resources :: "'d stmt" where
  "print_number_of_available_nhg_resources = block [
      print [self ''available_next_hop_group_entry''],
      print [self ''available_next_hop_group_member_entry''],
      print [self ''available_ipv4_nexthop_entry''],
      print [self ''available_ipv6_nexthop_entry''],
      print [self ''available_fdb_entry''],
      print [self ''available_ipv6_route_entry''],
      print [self ''available_ipv4_route_entry'']]"

definition save_number_of_available_nhg_resources :: "'d stmt" where
  "save_number_of_available_nhg_resources = block [
      assign ''attr_list'' (api_get ''switch'' none [(''number_of_ecmp_groups'', bool True), (''ecmp_members'', bool True),
        (''available_next_hop_group_entry'', bool True), (''available_next_hop_group_member_entry'', bool True),
        (''available_ipv6_nexthop_entry'', bool True), (''available_ipv4_nexthop_entry'', bool True), (''available_fdb_entry'',
        bool True), (''available_ipv6_route_entry'', bool True), (''available_ipv4_route_entry'', bool True)]),
      set_self ''available_next_hop_group_entry'' (item (var ''attr_list'') (str
        ''SAI_SWITCH_ATTR_AVAILABLE_NEXT_HOP_GROUP_ENTRY'')),
      set_self ''available_next_hop_group_member_entry'' (item (var ''attr_list'') (str
        ''SAI_SWITCH_ATTR_AVAILABLE_NEXT_HOP_GROUP_MEMBER_ENTRY'')),
      set_self ''available_ipv4_nexthop_entry'' (item (var ''attr_list'') (str
        ''SAI_SWITCH_ATTR_AVAILABLE_IPV4_NEXTHOP_ENTRY'')),
      set_self ''available_ipv6_nexthop_entry'' (item (var ''attr_list'') (str
        ''SAI_SWITCH_ATTR_AVAILABLE_IPV6_NEXTHOP_ENTRY'')),
      set_self ''available_fdb_entry'' (item (var ''attr_list'') (str ''SAI_SWITCH_ATTR_AVAILABLE_FDB_ENTRY'')),
      set_self ''available_ipv6_route_entry'' (item (var ''attr_list'') (str ''SAI_SWITCH_ATTR_AVAILABLE_IPV6_ROUTE_ENTRY'')),
      set_self ''available_ipv4_route_entry'' (item (var ''attr_list'') (str ''SAI_SWITCH_ATTR_AVAILABLE_IPV4_ROUTE_ENTRY'')),
      if_else (var ''debug'') [
        run (invoke [] print_number_of_available_nhg_resources)] []]"

definition L3SaiNhgSetGetTest_runTest :: "'d stmt" where
  "L3SaiNhgSetGetTest_runTest = block [
      try_finally [
        assign ''nhg1_size'' (num 2),
        assign ''attr_list'' (api_get ''switch'' none [(''number_of_ecmp_groups'', bool True), (''ecmp_members'', bool True),
          (''available_next_hop_group_entry'', bool True), (''available_next_hop_group_member_entry'', bool True),
          (''available_ipv6_nexthop_entry'', bool True), (''available_ipv4_nexthop_entry'', bool True)]),
        assign ''available_next_hop_group_entry'' (item (var ''attr_list'') (str
          ''SAI_SWITCH_ATTR_AVAILABLE_NEXT_HOP_GROUP_ENTRY'')),
        assign ''available_next_hop_group_member_entry'' (item (var ''attr_list'') (str
          ''SAI_SWITCH_ATTR_AVAILABLE_NEXT_HOP_GROUP_MEMBER_ENTRY'')),
        assign ''available_ipv4_nexthop_entry'' (item (var ''attr_list'') (str
          ''SAI_SWITCH_ATTR_AVAILABLE_IPV4_NEXTHOP_ENTRY'')),
        assign ''nhg_xx_size'' (num 0),
        assign ''nhop_group_xx'' (api_create ''next_hop_group'' [(''type'', num SAI_NEXT_HOP_GROUP_TYPE_ECMP)]),
        assert_eq (invoke [(''next_hop_group'', var ''nhop_group_xx'')] nhg_members_count) (var ''nhg_xx_size''),
        assign ''attr_list'' (api_get ''switch'' none [(''number_of_ecmp_groups'', bool True), (''ecmp_members'', bool True),
          (''available_next_hop_group_member_entry'', bool True), (''available_next_hop_group_entry'', bool True)]),
        assign ''available_next_hop_group_entry2'' (item (var ''attr_list'') (str
          ''SAI_SWITCH_ATTR_AVAILABLE_NEXT_HOP_GROUP_ENTRY'')),
        assert_eq (var ''available_next_hop_group_entry2'') (sub (var ''available_next_hop_group_entry'') (num 1)),
        assert_eq (invoke [(''next_hop_group'', self ''nhop_group1'')] nhg_members_count) (var ''nhg1_size''),
        assign ''nhop3'' (api_create ''next_hop'' [(''type'', num SAI_NEXT_HOP_TYPE_IP), (''router_interface_id'', self
          ''port10_rif''), (''ip'', ip_address (str ''10.10.10.10''))]),
        assign ''nh_group_member3'' (api_create ''next_hop_group_member'' [(''next_hop_group_id'', self ''nhop_group1''),
          (''next_hop_id'', var ''nhop3'')]),
        assign ''nhg1_size'' (add (var ''nhg1_size'') (num 1)),
        assign ''attr_list'' (api_get ''switch'' none [(''number_of_ecmp_groups'', bool True), (''ecmp_members'', bool True),
          (''available_next_hop_group_entry'', bool True), (''available_next_hop_group_member_entry'', bool True),
          (''available_ipv6_nexthop_entry'', bool True), (''available_ipv4_nexthop_entry'', bool True)]),
        assign ''available_next_hop_group_member_entry2'' (item (var ''attr_list'') (str
          ''SAI_SWITCH_ATTR_AVAILABLE_NEXT_HOP_GROUP_MEMBER_ENTRY'')),
        assign ''available_ipv4_nexthop_entry2'' (item (var ''attr_list'') (str
          ''SAI_SWITCH_ATTR_AVAILABLE_IPV4_NEXTHOP_ENTRY'')),
        assert_eq (var ''available_next_hop_group_member_entry2'') (sub (var ''available_next_hop_group_member_entry'') (num 2)),
        assert_eq (var ''available_ipv4_nexthop_entry2'') (sub (var ''available_ipv4_nexthop_entry'') (num 1)),
        assert_eq (invoke [(''next_hop_group'', self ''nhop_group1'')] nhg_members_count) (var ''nhg1_size''),
        run (api_remove ''next_hop_group_member'' (var ''nh_group_member3'')),
        run (api_remove ''next_hop'' (var ''nhop3'')),
        assign ''nhg1_size'' (sub (var ''nhg1_size'') (num 1)),
        assert_eq (invoke [(''next_hop_group'', self ''nhop_group1'')] nhg_members_count) (var ''nhg1_size'')] [
        assign ''nhg_xx_nhop1'' (api_create ''next_hop'' [(''type'', num SAI_NEXT_HOP_TYPE_IP), (''router_interface_id'', self
          ''port10_rif''), (''ip'', ip_address (str ''10.10.10.10''))]),
        assign ''nh_group_xx_member1'' (api_create ''next_hop_group_member'' [(''next_hop_group_id'', var ''nhop_group_xx''),
          (''next_hop_id'', var ''nhg_xx_nhop1'')]),
        assign ''nhg_xx_size'' (add (var ''nhg_xx_size'') (num 1)),
        assert_eq (invoke [(''next_hop_group'', var ''nhop_group_xx'')] nhg_members_count) (var ''nhg_xx_size''),
        run (api_remove ''next_hop_group_member'' (var ''nh_group_xx_member1'')),
        assign ''nhg_xx_size'' (sub (var ''nhg_xx_size'') (num 1)),
        assert_eq (invoke [(''next_hop_group'', var ''nhop_group_xx'')] nhg_members_count) (var ''nhg_xx_size''),
        assert_eq (var ''nhg_xx_size'') (num 0),
        run (api_remove ''next_hop'' (var ''nhg_xx_nhop1'')),
        run (api_remove ''next_hop_group'' (var ''nhop_group_xx'')),
        assign ''attr_list'' (api_get ''switch'' none [(''available_next_hop_group_entry'', bool True),
          (''available_next_hop_group_member_entry'', bool True), (''available_ipv6_nexthop_entry'', bool True),
          (''available_ipv4_nexthop_entry'', bool True), (''number_of_ecmp_groups'', bool True), (''ecmp_members'', bool True)]),
        assign ''available_next_hop_group_entry2'' (item (var ''attr_list'') (str
          ''SAI_SWITCH_ATTR_AVAILABLE_NEXT_HOP_GROUP_ENTRY'')),
        assign ''available_next_hop_group_member_entry2'' (item (var ''attr_list'') (str
          ''SAI_SWITCH_ATTR_AVAILABLE_NEXT_HOP_GROUP_MEMBER_ENTRY'')),
        assign ''available_ipv4_nexthop_entry2'' (item (var ''attr_list'') (str
          ''SAI_SWITCH_ATTR_AVAILABLE_IPV4_NEXTHOP_ENTRY'')),
        assert_eq (var ''available_next_hop_group_entry2'') (var ''available_next_hop_group_entry''),
        assert_eq (var ''available_next_hop_group_member_entry2'') (var ''available_next_hop_group_member_entry''),
        assert_eq (var ''available_ipv4_nexthop_entry2'') (var ''available_ipv4_nexthop_entry''),
        assign ''attr_list'' (api_get ''next_hop_group_member'' (self ''nh_group_member1'') [(''next_hop_group_id'', bool True),
          (''next_hop_id'', bool True)]),
        assert_eq (item (var ''attr_list'') (str ''SAI_NEXT_HOP_GROUP_MEMBER_ATTR_NEXT_HOP_GROUP_ID'')) (self ''nhop_group1''),
        assert_eq (item (var ''attr_list'') (str ''SAI_NEXT_HOP_GROUP_MEMBER_ATTR_NEXT_HOP_ID'')) (self ''nhop1''),
        assign ''attr_list'' (api_get ''next_hop_group_member'' (self ''nh_group_member2'') [(''next_hop_group_id'', bool True),
          (''next_hop_id'', bool True)]),
        assert_eq (item (var ''attr_list'') (str ''SAI_NEXT_HOP_GROUP_MEMBER_ATTR_NEXT_HOP_GROUP_ID'')) (self ''nhop_group1''),
        assert_eq (item (var ''attr_list'') (str ''SAI_NEXT_HOP_GROUP_MEMBER_ATTR_NEXT_HOP_ID'')) (self ''nhop2'')]]"

definition L3IPv4EcmpHostTest_runTest :: "'d stmt" where
  "L3IPv4EcmpHostTest_runTest = block [
      assign ''pkt1'' (lib ''simple_tcp_packet'' [] [(''eth_dst'', str ''00:77:66:55:44:00''), (''eth_src'', str
        ''00:22:22:22:22:22''), (''ip_dst'', str ''10.10.10.1''), (''ip_src'', str ''192.168.0.1''), (''ip_id'', num 106),
        (''ip_ttl'', num 64)]),
      assign ''pkt2'' (lib ''simple_tcp_packet'' [] [(''eth_dst'', str ''00:77:66:55:44:00''), (''eth_src'', str
        ''00:22:22:22:22:22''), (''ip_dst'', str ''10.10.10.2''), (''ip_src'', str ''192.168.0.1''), (''ip_id'', num 106),
        (''ip_ttl'', num 64)]),
      assign ''exp_pkt1'' (lib ''simple_tcp_packet'' [] [(''eth_dst'', str ''00:11:22:33:44:55''), (''eth_src'', str
        ''00:77:66:55:44:00''), (''ip_dst'', str ''10.10.10.1''), (''ip_src'', str ''192.168.0.1''), (''ip_id'', num 106),
        (''ip_ttl'', num 63)]),
      assign ''exp_pkt2'' (lib ''simple_tcp_packet'' [] [(''eth_dst'', str ''00:11:22:33:44:56''), (''eth_src'', str
        ''00:77:66:55:44:00''), (''ip_dst'', str ''10.10.10.2''), (''ip_src'', str ''192.168.0.1''), (''ip_id'', num 106),
        (''ip_ttl'', num 63)]),
      print [self ''dev_port13'', self ''dev_port11''],
      run (lib ''send_packet'' [self ''dev_port13'', var ''pkt1''] []),
      run (lib ''verify_packet'' [var ''exp_pkt1'', self ''dev_port11''] []),
      print [self ''dev_port13'', self ''dev_port12''],
      run (lib ''send_packet'' [self ''dev_port13'', var ''pkt2''] []),
      run (lib ''verify_packet'' [var ''exp_pkt2'', self ''dev_port12''] []),
      assign ''pkt1'' (lib ''simple_tcp_packet'' [] [(''eth_dst'', str ''00:77:66:55:44:00''), (''eth_src'', str
        ''00:22:22:22:22:22''), (''ip_dst'', str ''10.10.10.1''), (''ip_src'', str ''192.168.100.3''), (''ip_id'', num 106),
        (''ip_ttl'', num 64)]),
      assign ''pkt2'' (lib ''simple_tcp_packet'' [] [(''eth_dst'', str ''00:77:66:55:44:00''), (''eth_src'', str
        ''00:22:22:22:22:22''), (''ip_dst'', str ''10.10.10.2''), (''ip_src'', str ''192.168.100.3''), (''ip_id'', num 106),
        (''ip_ttl'', num 64)]),
      assign ''exp_pkt1'' (lib ''simple_tcp_packet'' [] [(''eth_dst'', str ''00:11:22:33:44:55''), (''eth_src'', str
        ''00:77:66:55:44:00''), (''ip_dst'', str ''10.10.10.1''), (''ip_src'', str ''192.168.100.3''), (''ip_id'', num 106),
        (''ip_ttl'', num 63)]),
      assign ''exp_pkt2'' (lib ''simple_tcp_packet'' [] [(''eth_dst'', str ''00:11:22:33:44:56''), (''eth_src'', str
        ''00:77:66:55:44:00''), (''ip_dst'', str ''10.10.10.2''), (''ip_src'', str ''192.168.100.3''), (''ip_id'', num 106),
        (''ip_ttl'', num 63)]),
      print [self ''dev_port13'', self ''dev_port11''],
      run (lib ''send_packet'' [self ''dev_port13'', var ''pkt1''] []),
      run (lib ''verify_packet'' [var ''exp_pkt1'', self ''dev_port11''] []),
      print [self ''dev_port13'', self ''dev_port12''],
      run (lib ''send_packet'' [self ''dev_port13'', var ''pkt2''] []),
      run (lib ''verify_packet'' [var ''exp_pkt2'', self ''dev_port12''] [])]"

definition L3IPv4EcmpRoutingTest_runTest :: "'d stmt" where
  "L3IPv4EcmpRoutingTest_runTest = block [
      for_in [''n_packet''] (range_of (num 0) (num 4)) [
        assign ''host_ip'' (formatted ''10.10.%s.%s'' [lib ''random.randint'' [num 2, num 255] [], lib ''random.randint'' [num
          3, num 255] []]),
        assign ''pkt'' (lib ''simple_tcp_packet'' [] [(''eth_dst'', str ''00:77:66:55:44:00''), (''eth_src'', str
          ''00:22:22:22:22:22''), (''ip_dst'', var ''host_ip''), (''ip_src'', str ''192.168.0.1''), (''ip_id'', num 106),
          (''ip_ttl'', num 64)]),
        assign ''exp_pkt1'' (lib ''simple_tcp_packet'' [] [(''eth_dst'', str ''00:11:22:33:44:55''), (''eth_src'', str
          ''00:77:66:55:44:00''), (''ip_dst'', var ''host_ip''), (''ip_src'', str ''192.168.0.1''), (''ip_id'', num 106),
          (''ip_ttl'', num 63)]),
        assign ''exp_pkt2'' (lib ''simple_tcp_packet'' [] [(''eth_dst'', str ''00:11:22:33:44:56''), (''eth_src'', str
          ''00:77:66:55:44:00''), (''ip_dst'', var ''host_ip''), (''ip_src'', str ''192.168.0.1''), (''ip_id'', num 106),
          (''ip_ttl'', num 63)]),
        print [self ''dev_port13'', self ''dev_port11'', self ''dev_port12'', var ''host_ip''],
        run (lib ''send_packet'' [self ''dev_port13'', var ''pkt''] []),
        run (lib ''verify_any_packet_any_port'' [list_of [var ''exp_pkt1'', var ''exp_pkt2''], list_of [self ''dev_port11'',
          self ''dev_port12'']] [])]]"

definition L3IPv6EcmpHostTest_runTest :: "'d stmt" where
  "L3IPv6EcmpHostTest_runTest = block [
      assign ''pkt1'' (lib ''simple_tcpv6_packet'' [] [(''eth_dst'', str ''00:77:66:55:44:00''), (''eth_src'', str
        ''00:22:22:22:22:22''), (''ipv6_dst'', str ''5000:1:1:0:0:0:0:1''), (''ipv6_src'', str ''2000:1:1:0:0:0:0:1''),
        (''tcp_sport'', num 4660), (''ipv6_hlim'', num 64)]),
      assign ''pkt2'' (lib ''simple_tcpv6_packet'' [] [(''eth_dst'', str ''00:77:66:55:44:00''), (''eth_src'', str
        ''00:22:22:22:22:22''), (''ipv6_dst'', str ''5000:1:1:0:0:0:0:2''), (''ipv6_src'', str ''2000:1:1:0:0:0:0:1''),
        (''tcp_sport'', num 4660), (''ipv6_hlim'', num 64)]),
      assign ''exp_pkt1'' (lib ''simple_tcpv6_packet'' [] [(''eth_dst'', str ''00:11:22:33:44:55''), (''eth_src'', str
        ''00:77:66:55:44:00''), (''ipv6_dst'', str ''5000:1:1:0:0:0:0:1''), (''ipv6_src'', str ''2000:1:1:0:0:0:0:1''),
        (''tcp_sport'', num 4660), (''ipv6_hlim'', num 63)]),
      assign ''exp_pkt2'' (lib ''simple_tcpv6_packet'' [] [(''eth_dst'', str ''00:11:22:33:44:56''), (''eth_src'', str
        ''00:77:66:55:44:00''), (''ipv6_dst'', str ''5000:1:1:0:0:0:0:2''), (''ipv6_src'', str ''2000:1:1:0:0:0:0:1''),
        (''tcp_sport'', num 4660), (''ipv6_hlim'', num 63)]),
      run (lib ''send_packet'' [self ''dev_port13'', var ''pkt1''] []),
      run (lib ''verify_packet'' [var ''exp_pkt1'', self ''dev_port11''] []),
      run (lib ''send_packet'' [self ''dev_port13'', var ''pkt2''] []),
      run (lib ''verify_packet'' [var ''exp_pkt2'', self ''dev_port12''] []),
      assign ''pkt1'' (lib ''simple_tcpv6_packet'' [] [(''eth_dst'', str ''00:77:66:55:44:00''), (''eth_src'', str
        ''00:22:22:22:22:45''), (''ipv6_dst'', str ''5000:1:1:0:0:0:0:1''), (''ipv6_src'', str ''2000:1:1:0:0:0:0:1''),
        (''tcp_sport'', num 4680), (''ipv6_hlim'', num 64)]),
      assign ''pkt2'' (lib ''simple_tcpv6_packet'' [] [(''eth_dst'', str ''00:77:66:55:44:00''), (''eth_src'', str
        ''00:22:22:22:22:45''), (''ipv6_dst'', str ''5000:1:1:0:0:0:0:2''), (''ipv6_src'', str ''2000:1:1:0:0:0:0:1''),
        (''tcp_sport'', num 4680), (''ipv6_hlim'', num 64)]),
      assign ''exp_pkt1'' (lib ''simple_tcpv6_packet'' [] [(''eth_dst'', str ''00:11:22:33:44:55''), (''eth_src'', str
        ''00:77:66:55:44:00''), (''ipv6_dst'', str ''5000:1:1:0:0:0:0:1''), (''ipv6_src'', str ''2000:1:1:0:0:0:0:1''),
        (''tcp_sport'', num 4680), (''ipv6_hlim'', num 63)]),
      assign ''exp_pkt2'' (lib ''simple_tcpv6_packet'' [] [(''eth_dst'', str ''00:11:22:33:44:56''), (''eth_src'', str
        ''00:77:66:55:44:00''), (''ipv6_dst'', str ''5000:1:1:0:0:0:0:2''), (''ipv6_src'', str ''2000:1:1:0:0:0:0:1''),
        (''tcp_sport'', num 4680), (''ipv6_hlim'', num 63)]),
      run (lib ''send_packet'' [self ''dev_port13'', var ''pkt1''] []),
      run (lib ''verify_packet'' [var ''exp_pkt1'', self ''dev_port11''] []),
      run (lib ''send_packet'' [self ''dev_port13'', var ''pkt2''] []),
      run (lib ''verify_packet'' [var ''exp_pkt2'', self ''dev_port12''] [])]"

definition L3IPv4EcmpLpmTestHelper_tearDown :: "'d stmt" where
  "L3IPv4EcmpLpmTestHelper_tearDown = block [
      run (api_remove ''neighbor_entry'' (self ''neighbor_entry11'')),
      run (api_remove ''neighbor_entry'' (self ''neighbor_entry12'')),
      run (api_remove ''neighbor_entry'' (self ''neighbor_entry13'')),
      run (api_remove ''neighbor_entry'' (self ''neighbor_entry14'')),
      run (api_remove ''next_hop_group_member'' (self ''nh_group_member1'')),
      run (api_remove ''next_hop_group_member'' (self ''nh_group_member2'')),
      run (api_remove ''next_hop_group_member'' (self ''nh_group_member3'')),
      run (api_remove ''route_entry'' (self ''route0'')),
      run (api_remove ''route_entry'' (self ''route1'')),
      run (api_remove ''route_entry'' (self ''route2'')),
      run (api_remove ''route_entry'' (self ''route3'')),
      run (api_remove ''next_hop_group'' (self ''nhop_group1'')),
      run (api_remove ''next_hop'' (self ''nhop1'')),
      run (api_remove ''next_hop'' (self ''nhop2'')),
      run (api_remove ''next_hop'' (self ''nhop3'')),
      run (api_remove ''router_interface'' (self ''port14_rif'')),
      run (api_remove ''router_interface'' (self ''port15_rif'')),
      run (invoke [(''ipv4_hash_id'', self ''ipv4_hash_id''), (''ipv6_hash_id'', self ''ipv6_hash_id'')] nexthopgroup_release_hash),
      super_tearDown]"

definition l3IPv4EcmpLpmTest_tearDown :: "'d stmt" where
  "l3IPv4EcmpLpmTest_tearDown = block [
      run (invoke [] L3IPv4EcmpLpmTestHelper_tearDown)]"

definition l3Ipv4EcmpLpmAddRemoveNhopTest_tearDown :: "'d stmt" where
  "l3Ipv4EcmpLpmAddRemoveNhopTest_tearDown = block [
      run (invoke [] L3IPv4EcmpLpmTestHelper_tearDown)]"

definition l3Ipv4EcmpLpmAddRemoveNhopTest_setupECMPHash :: "'d stmt" where
  "l3Ipv4EcmpLpmAddRemoveNhopTest_setupECMPHash = block [
      assign ''attr_list'' (api_get ''switch'' none [(''ecmp_hash'', bool True)]),
      assign ''hash_id'' (item (var ''attr_list'') (str ''SAI_SWITCH_ATTR_ECMP_HASH'')),
      print [var ''hash_id''],
      assign ''hash_attr_list'' (list_of []),
      assign ''s32list'' (struct ''sai_thrift_s32_list_t'' [(''count'', num 100), (''int32list'', var ''hash_attr_list'')]),
      assign ''hash_data'' (api_get ''hash'' (var ''hash_id'') [(''native_hash_field_list'', var ''s32list'')]),
      assign ''data_val'' (field (item (var ''hash_data'') (str ''native_hash_field_list'')) ''int32list''),
      print [var ''hash_data''],
      print [var ''data_val''],
      assign ''hash_attr_list'' (var ''hash_fields_list''),
      assign ''hash_field_list'' (struct ''sai_thrift_s32_list_t'' [(''count'', length_of (var ''hash_attr_list'')),
        (''int32list'', var ''hash_attr_list'')]),
      assign ''status'' (api_set ''hash'' (var ''hash_id'') [(''native_hash_field_list'', var ''hash_field_list'')]),
      assert_eq (var ''status'') (num SAI_STATUS_SUCCESS)]"

definition L3IPv6EcmpLagTestHelper_tearDown :: "'d stmt" where
  "L3IPv6EcmpLagTestHelper_tearDown = block [
      run (api_remove ''neighbor_entry'' (self ''neighbor_entry11'')),
      run (api_remove ''neighbor_entry'' (self ''neighbor_entry12'')),
      run (api_remove ''neighbor_entry'' (self ''neighbor_entry13'')),
      run (api_remove ''neighbor_entry'' (self ''neighbor_entry14'')),
      run (api_remove ''neighbor_entry'' (self ''neighbor_entry15'')),
      run (api_remove ''neighbor_entry'' (self ''neighbor_entry16'')),
      run (api_remove ''next_hop_group_member'' (self ''nh_group1_member1'')),
      run (api_remove ''next_hop_group_member'' (self ''nh_group1_member2'')),
      run (api_remove ''next_hop_group_member'' (self ''nh_group1_member3'')),
      run (api_remove ''next_hop_group_member'' (self ''nh_group1_member4'')),
      run (api_remove ''next_hop_group_member'' (self ''nh_group2_member1'')),
      run (api_remove ''next_hop_group_member'' (self ''nh_group2_member2'')),
      run (api_remove ''route_entry'' (self ''route0'')),
      run (api_remove ''route_entry'' (self ''route1'')),
      assert_eq (invoke [(''next_hop_group'', self ''nhop_group1'')] nhg_members_count) (num 0),
      assert_eq (invoke [(''next_hop_group'', self ''nhop_group2'')] nhg_members_count) (num 0),
      run (api_remove ''next_hop_group'' (self ''nhop_group1'')),
      run (api_remove ''next_hop_group'' (self ''nhop_group2'')),
      run (api_remove ''next_hop'' (self ''nhop1'')),
      run (api_remove ''next_hop'' (self ''nhop2'')),
      run (api_remove ''next_hop'' (self ''nhop3_lag1'')),
      run (api_remove ''next_hop'' (self ''nhop4_lag2'')),
      run (api_remove ''next_hop'' (self ''nhop5_lag1'')),
      run (api_remove ''next_hop'' (self ''nhop6_lag2'')),
      run (api_remove ''router_interface'' (self ''lag1_rif'')),
      run (api_remove ''router_interface'' (self ''lag2_rif'')),
      run (api_remove ''router_interface'' (self ''port15_rif'')),
      run (invoke [(''ipv4_hash_id'', self ''ipv4_hash_id''), (''ipv6_hash_id'', self ''ipv6_hash_id'')] nexthopgroup_release_hash),
      super_tearDown]"

definition L3IPv6EcmpLagTestHelper_setupECMPIPv6Hash :: "'d stmt" where
  "L3IPv6EcmpLagTestHelper_setupECMPIPv6Hash = block [
      if_else (is_none (var ''hash_field_list'')) [
        assign ''hash_field_list'' (list_of [num SAI_NATIVE_HASH_FIELD_SRC_IP, num SAI_NATIVE_HASH_FIELD_DST_IP, num
          SAI_NATIVE_HASH_FIELD_IP_PROTOCOL, num SAI_NATIVE_HASH_FIELD_L4_DST_PORT, num SAI_NATIVE_HASH_FIELD_L4_SRC_PORT])] [],
      assign ''s32list'' (struct ''sai_thrift_s32_list_t'' [(''count'', length_of (var ''hash_field_list'')), (''int32list'',
        var ''hash_field_list'')]),
      if_else (eq (self ''ipv6_hash_id'') (num 0)) [
        set_self ''ipv6_hash_id'' (api_create ''hash'' [(''native_hash_field_list'', var ''s32list'')]),
        assert (ne (self ''ipv6_hash_id'') (num 0))] [
        assign ''status'' (api_set ''hash'' (self ''ipv6_hash_id'') [(''native_hash_field_list'', var ''s32list'')]),
        assert_eq (var ''status'') (num SAI_STATUS_SUCCESS)]]"

definition l3Ipv6EcmpLpmTest_tearDown :: "'d stmt" where
  "l3Ipv6EcmpLpmTest_tearDown = block [
      run (invoke [] L3IPv6EcmpLagTestHelper_tearDown)]"

definition l3IPv6EcmpHostTwoLagsTest_tearDown :: "'d stmt" where
  "l3IPv6EcmpHostTwoLagsTest_tearDown = block [
      run (invoke [] L3IPv6EcmpLagTestHelper_tearDown)]"

definition l3IPv6EcmpHostPortLagTest_tearDown :: "'d stmt" where
  "l3IPv6EcmpHostPortLagTest_tearDown = block [
      run (invoke [] L3IPv6EcmpLagTestHelper_tearDown)]"

definition l3IPv6EcmpHashPortLagTest_tearDown :: "'d stmt" where
  "l3IPv6EcmpHashPortLagTest_tearDown = block [
      run (invoke [] L3IPv6EcmpLagTestHelper_tearDown)]"

definition l3IPv6EcmpHostTwoLagsDisabledLagMembersTest_tearDown :: "'d stmt" where
  "l3IPv6EcmpHostTwoLagsDisabledLagMembersTest_tearDown = block [
      run (invoke [] L3IPv6EcmpLagTestHelper_tearDown)]"

definition l3Ipv6EcmpAddRemoveNhopTest_tearDown :: "'d stmt" where
  "l3Ipv6EcmpAddRemoveNhopTest_tearDown = block [
      run (invoke [] L3IPv6EcmpLagTestHelper_tearDown)]"

definition l3IPv6EcmpHostPortLagSharedMembersTest_tearDown :: "'d stmt" where
  "l3IPv6EcmpHostPortLagSharedMembersTest_tearDown = block [
      run (invoke [] L3IPv6EcmpLagTestHelper_tearDown)]"

definition L3IPv4SVIEcmpTestHelper_tearDown :: "'d stmt" where
  "L3IPv4SVIEcmpTestHelper_tearDown = block [
      run (api_remove ''route_entry'' (self ''route1'')),
      run (api_remove ''next_hop_group_member'' (self ''nh_group2_member1'')),
      run (api_remove ''next_hop_group_member'' (self ''nh_group2_member2'')),
      run (api_remove ''next_hop_group_member'' (self ''nh_group2_member3'')),
      run (api_remove ''next_hop_group_member'' (self ''nh_group2_member4'')),
      assert_eq (invoke [(''next_hop_group'', self ''nhop_group2'')] nhg_members_count) (num 0),
      run (api_remove ''next_hop_group'' (self ''nhop_group2'')),
      run (api_remove ''next_hop'' (self ''nhop4'')),
      run (api_remove ''next_hop'' (self ''nhop5'')),
      run (api_remove ''next_hop'' (self ''nhop6'')),
      run (api_remove ''next_hop'' (self ''nhop7'')),
      run (api_remove ''neighbor_entry'' (self ''neighbor_entry4'')),
      run (api_remove ''neighbor_entry'' (self ''neighbor_entry5'')),
      run (api_remove ''neighbor_entry'' (self ''neighbor_entry6'')),
      run (api_remove ''neighbor_entry'' (self ''neighbor_entry7'')),
      run (api_set ''lag'' (self ''lag10'') [(''port_vlan_id'', num 0)]),
      run (api_set ''lag'' (self ''lag11'') [(''port_vlan_id'', num 0)]),
      run (api_remove ''router_interface'' (self ''vlan200_rif'')),
      run (api_remove ''vlan_member'' (self ''vlan_member200'')),
      run (api_remove ''vlan_member'' (self ''vlan_member201'')),
      run (api_remove ''vlan'' (self ''vlan200'')),
      run (api_remove ''lag_member'' (self ''lag10_member30'')),
      run (api_remove ''lag_member'' (self ''lag10_member31'')),
      run (api_remove ''lag_member'' (self ''lag11_member28'')),
      run (api_remove ''lag_member'' (self ''lag11_member29'')),
      run (api_remove ''bridge_port'' (self ''lag10_bp'')),
      run (api_remove ''bridge_port'' (self ''lag11_bp'')),
      run (api_remove ''lag'' (self ''lag10'')),
      run (api_remove ''lag'' (self ''lag11'')),
      run (api_remove ''route_entry'' (self ''route0'')),
      run (api_remove ''next_hop_group_member'' (self ''nh_group1_member1'')),
      run (api_remove ''next_hop_group_member'' (self ''nh_group1_member2'')),
      run (api_remove ''next_hop_group_member'' (self ''nh_group1_member3'')),
      run (api_remove ''next_hop_group'' (self ''nhop_group1'')),
      run (api_remove ''next_hop'' (self ''nhop1'')),
      run (api_remove ''next_hop'' (self ''nhop2'')),
      run (api_remove ''next_hop'' (self ''nhop3'')),
      run (api_remove ''neighbor_entry'' (self ''neighbor_entry1'')),
      run (api_remove ''neighbor_entry'' (self ''neighbor_entry2'')),
      run (api_remove ''neighbor_entry'' (self ''neighbor_entry3'')),
      run (api_remove ''router_interface'' (self ''vlan100_rif'')),
      run (api_set ''port'' (self ''port24'') [(''port_vlan_id'', num 0)]),
      run (api_set ''port'' (self ''port25'') [(''port_vlan_id'', num 0)]),
      run (api_set ''port'' (self ''port26'') [(''port_vlan_id'', num 0)]),
      run (api_remove ''vlan_member'' (self ''vlan_member100'')),
      run (api_remove ''vlan_member'' (self ''vlan_member101'')),
      run (api_remove ''vlan_member'' (self ''vlan_member102'')),
      run (api_remove ''vlan'' (self ''vlan100'')),
      run (api_remove ''bridge_port'' (self ''port24_bp'')),
      run (api_remove ''bridge_port'' (self ''port25_bp'')),
      run (api_remove ''bridge_port'' (self ''port26_bp'')),
      run (invoke [(''ipv4_hash_id'', self ''ipv4_hash_id''), (''ipv6_hash_id'', self ''ipv6_hash_id'')] nexthopgroup_release_hash),
      super_tearDown]"

definition l3IPv4EcmpSVIHostTest_tearDown :: "'d stmt" where
  "l3IPv4EcmpSVIHostTest_tearDown = block [
      run (invoke [] L3IPv4SVIEcmpTestHelper_tearDown)]"

definition l3IPv4EcmpSVILagHostTest_tearDown :: "'d stmt" where
  "l3IPv4EcmpSVILagHostTest_tearDown = block [
      run (invoke [] L3IPv4SVIEcmpTestHelper_tearDown)]"

definition L3IPv6SVIEcmpTestHelper_tearDown :: "'d stmt" where
  "L3IPv6SVIEcmpTestHelper_tearDown = block [
      run (api_remove ''route_entry'' (self ''route1'')),
      run (api_remove ''next_hop_group_member'' (self ''nh_group2_member1'')),
      run (api_remove ''next_hop_group_member'' (self ''nh_group2_member2'')),
      run (api_remove ''next_hop_group_member'' (self ''nh_group2_member3'')),
      run (api_remove ''next_hop_group_member'' (self ''nh_group2_member4'')),
      assert_eq (invoke [(''next_hop_group'', self ''nhop_group2'')] nhg_members_count) (num 0),
      run (api_remove ''next_hop_group'' (self ''nhop_group2'')),
      run (api_remove ''next_hop'' (self ''nhop4'')),
      run (api_remove ''next_hop'' (self ''nhop5'')),
      run (api_remove ''next_hop'' (self ''nhop6'')),
      run (api_remove ''next_hop'' (self ''nhop7'')),
      run (api_remove ''neighbor_entry'' (self ''neighbor_entry4'')),
      run (api_remove ''neighbor_entry'' (self ''neighbor_entry5'')),
      run (api_remove ''neighbor_entry'' (self ''neighbor_entry6'')),
      run (api_remove ''neighbor_entry'' (self ''neighbor_entry7'')),
      run (api_set ''lag'' (self ''lag10'') [(''port_vlan_id'', num 0)]),
      run (api_set ''lag'' (self ''lag11'') [(''port_vlan_id'', num 0)]),
      run (api_set ''port'' (self ''port10'') [(''port_vlan_id'', num 0)]),
      run (api_set ''port'' (self ''port11'') [(''port_vlan_id'', num 0)]),
      run (api_remove ''router_interface'' (self ''vlan200_rif'')),
      run (api_remove ''vlan_member'' (self ''vlan_member200'')),
      run (api_remove ''vlan_member'' (self ''vlan_member201'')),
      run (api_remove ''vlan_member'' (self ''vlan_member202'')),
      run (api_remove ''vlan_member'' (self ''vlan_member203'')),
      run (api_remove ''vlan'' (self ''vlan200'')),
      run (api_remove ''lag_member'' (self ''lag10_member30'')),
      run (api_remove ''lag_member'' (self ''lag10_member31'')),
      run (api_remove ''lag_member'' (self ''lag11_member28'')),
      run (api_remove ''lag_member'' (self ''lag11_member29'')),
      run (api_remove ''bridge_port'' (self ''lag10_bp'')),
      run (api_remove ''bridge_port'' (self ''lag11_bp'')),
      run (api_remove ''lag'' (self ''lag10'')),
      run (api_remove ''lag'' (self ''lag11'')),
      run (api_remove ''bridge_port'' (self ''port10_bp'')),
      run (api_remove ''bridge_port'' (self ''port11_bp'')),
      run (api_remove ''route_entry'' (self ''route0'')),
      run (api_remove ''next_hop_group_member'' (self ''nh_group1_member1'')),
      run (api_remove ''next_hop_group_member'' (self ''nh_group1_member2'')),
      run (api_remove ''next_hop_group_member'' (self ''nh_group1_member3'')),
      run (api_remove ''next_hop_group'' (self ''nhop_group1'')),
      run (api_remove ''next_hop'' (self ''nhop1'')),
      run (api_remove ''next_hop'' (self ''nhop2'')),
      run (api_remove ''next_hop'' (self ''nhop3'')),
      run (api_remove ''neighbor_entry'' (self ''neighbor_entry1'')),
      run (api_remove ''neighbor_entry'' (self ''neighbor_entry2'')),
      run (api_remove ''neighbor_entry'' (self ''neighbor_entry3'')),
      run (api_remove ''router_interface'' (self ''vlan100_rif'')),
      run (api_set ''port'' (self ''port24'') [(''port_vlan_id'', num 0)]),
      run (api_set ''port'' (self ''port25'') [(''port_vlan_id'', num 0)]),
      run (api_set ''port'' (self ''port26'') [(''port_vlan_id'', num 0)]),
      run (api_remove ''vlan_member'' (self ''vlan_member100'')),
      run (api_remove ''vlan_member'' (self ''vlan_member101'')),
      run (api_remove ''vlan_member'' (self ''vlan_member102'')),
      run (api_remove ''vlan'' (self ''vlan100'')),
      run (api_remove ''bridge_port'' (self ''port24_bp'')),
      run (api_remove ''bridge_port'' (self ''port25_bp'')),
      run (api_remove ''bridge_port'' (self ''port26_bp'')),
      run (invoke [(''ipv4_hash_id'', self ''ipv4_hash_id''), (''ipv6_hash_id'', self ''ipv6_hash_id'')] nexthopgroup_release_hash),
      super_tearDown]"

definition l3IPv6EcmpSVIHostTest_tearDown :: "'d stmt" where
  "l3IPv6EcmpSVIHostTest_tearDown = block [
      run (invoke [] L3IPv6SVIEcmpTestHelper_tearDown)]"

definition l3IPv6EcmpSVIPortLagHostTest_tearDown :: "'d stmt" where
  "l3IPv6EcmpSVIPortLagHostTest_tearDown = block [
      run (invoke [] L3IPv6SVIEcmpTestHelper_tearDown)]"

definition L3IPv4EcmpLagTestHelper_tearDown :: "'d stmt" where
  "L3IPv4EcmpLagTestHelper_tearDown = block [
      run (api_remove ''next_hop_group_member'' (self ''nh_group1_member1'')),
      run (api_remove ''next_hop_group_member'' (self ''nh_group1_member2'')),
      run (api_remove ''next_hop_group_member'' (self ''nh_group1_member3'')),
      run (api_remove ''next_hop_group_member'' (self ''nh_group1_member4'')),
      run (api_remove ''next_hop_group_member'' (self ''nh_group2_member1'')),
      run (api_remove ''next_hop_group_member'' (self ''nh_group2_member2'')),
      assert_eq (invoke [(''next_hop_group'', self ''nhop_group1'')] nhg_members_count) (num 0),
      assert_eq (invoke [(''next_hop_group'', self ''nhop_group2'')] nhg_members_count) (num 0),
      run (api_remove ''route_entry'' (self ''route0'')),
      run (api_remove ''route_entry'' (self ''route1'')),
      run (api_remove ''next_hop_group'' (self ''nhop_group1'')),
      run (api_remove ''next_hop_group'' (self ''nhop_group2'')),
      run (api_remove ''next_hop'' (self ''nhop1'')),
      run (api_remove ''next_hop'' (self ''nhop2'')),
      run (api_remove ''next_hop'' (self ''nhop3_lag1'')),
      run (api_remove ''next_hop'' (self ''nhop4_lag2'')),
      run (api_remove ''next_hop'' (self ''nhop5_lag1'')),
      run (api_remove ''next_hop'' (self ''nhop6_lag2'')),
      run (api_remove ''neighbor_entry'' (self ''neighbor_entry11'')),
      run (api_remove ''neighbor_entry'' (self ''neighbor_entry12'')),
      run (api_remove ''neighbor_entry'' (self ''neighbor_entry13'')),
      run (api_remove ''neighbor_entry'' (self ''neighbor_entry14'')),
      run (api_remove ''neighbor_entry'' (self ''neighbor_entry15'')),
      run (api_remove ''neighbor_entry'' (self ''neighbor_entry16'')),
      run (api_remove ''router_interface'' (self ''lag1_rif'')),
      run (api_remove ''router_interface'' (self ''lag2_rif'')),
      run (api_remove ''router_interface'' (self ''port15_rif'')),
      run (invoke [(''ipv4_hash_id'', self ''ipv4_hash_id''), (''ipv6_hash_id'', self ''ipv6_hash_id'')] nexthopgroup_release_hash),
      super_tearDown]"

definition L3IPv4EcmpHostTwoLagsTest_tearDown :: "'d stmt" where
  "L3IPv4EcmpHostTwoLagsTest_tearDown = block [
      run (invoke [] L3IPv4EcmpLagTestHelper_tearDown)]"

definition L3IPv4EcmpHostPortLagSharedMembersTest_runTest :: "'d stmt" where
  "L3IPv4EcmpHostPortLagSharedMembersTest_runTest = block [
      assign ''src_mac'' (str ''00:01:01:01:01:01''),
      assign ''pkt'' (lib ''simple_tcp_packet'' [] [(''eth_dst'', str ''00:77:66:55:44:00''), (''eth_src'', var ''src_mac''),
        (''ip_dst'', str ''10.10.10.1''), (''ip_src'', str ''192.168.8.1''), (''ip_id'', num 106), (''ip_ttl'', num 64)]),
      assign ''exp_pkt1'' (lib ''simple_tcp_packet'' [] [(''eth_dst'', str ''00:11:11:11:11:11''), (''eth_src'', str
        ''00:77:66:55:44:00''), (''ip_dst'', str ''10.10.10.1''), (''ip_src'', str ''192.168.8.1''), (''ip_id'', num 106),
        (''ip_ttl'', num 63)]),
      assign ''exp_pkt2'' (lib ''simple_tcp_packet'' [] [(''eth_dst'', str ''00:22:22:22:22:22''), (''eth_src'', str
        ''00:77:66:55:44:00''), (''ip_dst'', str ''10.10.10.1''), (''ip_src'', str ''192.168.8.1''), (''ip_id'', num 106),
        (''ip_ttl'', num 63)]),
      assign ''exp_pkt3'' (lib ''simple_tcp_packet'' [] [(''eth_dst'', str ''00:33:33:33:33:33''), (''eth_src'', str
        ''00:77:66:55:44:00''), (''ip_dst'', str ''10.10.10.1''), (''ip_src'', str ''192.168.8.1''), (''ip_id'', num 106),
        (''ip_ttl'', num 63)]),
      assign ''exp_pkt4'' (lib ''simple_tcp_packet'' [] [(''eth_dst'', str ''00:44:44:44:44:44''), (''eth_src'', str
        ''00:77:66:55:44:00''), (''ip_dst'', str ''10.10.10.1''), (''ip_src'', str ''192.168.8.1''), (''ip_id'', num 106),
        (''ip_ttl'', num 63)]),
      run (lib ''send_packet'' [self ''dev_port15'', var ''pkt''] []),
      assign ''ports_to_verify'' (list_of [self ''dev_port11'', self ''dev_port12'', self ''dev_port4'', self ''dev_port5'',
        self ''dev_port6'', self ''dev_port7'', self ''dev_port8'', self ''dev_port9'']),
      run (lib ''verify_any_packet_any_port'' [list_of [var ''exp_pkt1'', var ''exp_pkt2'', var ''exp_pkt3'', var ''exp_pkt4''],
        var ''ports_to_verify''] []),
      assign ''dst_ip'' (str ''20.20.1.21''),
      assign ''pkt'' (lib ''simple_tcp_packet'' [] [(''eth_dst'', str ''00:77:66:55:44:00''), (''eth_src'', var ''src_mac''),
        (''ip_dst'', var ''dst_ip''), (''ip_src'', str ''192.168.1.1''), (''ip_id'', num 106), (''ip_ttl'', num 64)]),
      assign ''exp_pkt1'' (lib ''simple_tcp_packet'' [] [(''eth_dst'', str ''00:55:55:55:55:55''), (''eth_src'', str
        ''00:77:66:55:44:00''), (''ip_dst'', var ''dst_ip''), (''ip_src'', str ''192.168.1.1''), (''ip_id'', num 106),
        (''ip_ttl'', num 63)]),
      assign ''exp_pkt2'' (lib ''simple_tcp_packet'' [] [(''eth_dst'', str ''00:66:66:66:66:66''), (''eth_src'', str
        ''00:77:66:55:44:00''), (''ip_dst'', var ''dst_ip''), (''ip_src'', str ''192.168.1.1''), (''ip_id'', num 106),
        (''ip_ttl'', num 63)]),
      run (lib ''send_packet'' [self ''dev_port15'', var ''pkt''] []),
      assign ''ports_to_verify'' (list_of [self ''dev_port4'', self ''dev_port5'', self ''dev_port6'', self ''dev_port7'', self
        ''dev_port8'', self ''dev_port9'']),
      run (lib ''verify_any_packet_any_port'' [list_of [var ''exp_pkt1'', var ''exp_pkt2''], var ''ports_to_verify''] [])]"

definition L3IPv4EcmpHostPortLagSharedMembersTest_tearDown :: "'d stmt" where
  "L3IPv4EcmpHostPortLagSharedMembersTest_tearDown = block [
      run (invoke [] L3IPv4EcmpLagTestHelper_tearDown)]"

definition L3IPv4EcmpHostTwoLagsDisabledLagMembersTest_tearDown :: "'d stmt" where
  "L3IPv4EcmpHostTwoLagsDisabledLagMembersTest_tearDown = block [
      run (invoke [] L3IPv4EcmpLagTestHelper_tearDown)]"

definition L3IPv4EcmpHostPortLagTest_tearDown :: "'d stmt" where
  "L3IPv4EcmpHostPortLagTest_tearDown = block [
      run (invoke [] L3IPv4EcmpLagTestHelper_tearDown)]"

definition L3IPv4EcmpHashPortLagTest_setupECMPIPv4Hash :: "'d stmt" where
  "L3IPv4EcmpHashPortLagTest_setupECMPIPv4Hash = block [
      if_else (is_none (var ''hash_field_list'')) [
        assign ''hash_field_list'' (list_of [num SAI_NATIVE_HASH_FIELD_SRC_IP, num SAI_NATIVE_HASH_FIELD_DST_IP, num
          SAI_NATIVE_HASH_FIELD_IP_PROTOCOL, num SAI_NATIVE_HASH_FIELD_L4_DST_PORT, num SAI_NATIVE_HASH_FIELD_L4_SRC_PORT])] [],
      assign ''s32list'' (struct ''sai_thrift_s32_list_t'' [(''count'', length_of (var ''hash_field_list'')), (''int32list'',
        var ''hash_field_list'')]),
      if_else (eq (self ''ipv4_hash_id'') (num 0)) [
        set_self ''ipv4_hash_id'' (api_create ''hash'' [(''native_hash_field_list'', var ''s32list'')])] [
        assign ''status'' (api_set ''hash'' (self ''ipv4_hash_id'') [(''native_hash_field_list'', var ''s32list'')]),
        assert_eq (var ''status'') (num SAI_STATUS_SUCCESS)]]"

definition L3IPv4EcmpHashPortLagTest_tearDown :: "'d stmt" where
  "L3IPv4EcmpHashPortLagTest_tearDown = block [
      run (invoke [] L3IPv4EcmpLagTestHelper_tearDown)]"

definition EcmpFGTestHelper_setUp :: "'d stmt" where
  "EcmpFGTestHelper_setUp = block [
      super_setUp,
      assign ''nhop_ip1'' (str ''11.11.11.11''),
      assign ''nhop_ip2'' (str ''22.22.22.22''),
      assign ''nhop_ip3'' (str ''33.33.33.33''),
      assign ''dmac1'' (str ''00:11:22:33:44:55''),
      assign ''dmac2'' (str ''00:11:22:33:44:56''),
      assign ''dmac3'' (str ''00:11:22:33:44:57''),
      run (api_set ''switch'' none [(''src_mac_address'', str ''00:77:66:55:44:00'')]),
      set_self ''port14_rif'' (api_create ''router_interface'' [(''type'', num SAI_ROUTER_INTERFACE_TYPE_PORT),
        (''virtual_router_id'', self ''default_vrf''), (''port_id'', self ''port14''), (''admin_v4_state'', bool True)]),
      set_self ''neighbor_entry11'' (struct ''sai_thrift_neighbor_entry_t'' [(''switch_id'', self ''switch_id''), (''rif_id'',
        self ''port11_rif''), (''ip_address'', ip_address (var ''nhop_ip1''))]),
      run (api_create_entry ''neighbor_entry'' (self ''neighbor_entry11'') [(''dst_mac_address'', var ''dmac1'')]),
      set_self ''neighbor_entry12'' (struct ''sai_thrift_neighbor_entry_t'' [(''switch_id'', self ''switch_id''), (''rif_id'',
        self ''port12_rif''), (''ip_address'', ip_address (var ''nhop_ip2''))]),
      run (api_create_entry ''neighbor_entry'' (self ''neighbor_entry12'') [(''dst_mac_address'', var ''dmac2'')]),
      set_self ''neighbor_entry13'' (struct ''sai_thrift_neighbor_entry_t'' [(''switch_id'', self ''switch_id''), (''rif_id'',
        self ''port13_rif''), (''ip_address'', ip_address (var ''nhop_ip3''))]),
      run (api_create_entry ''neighbor_entry'' (self ''neighbor_entry13'') [(''dst_mac_address'', var ''dmac3'')]),
      set_self ''nhop1'' (api_create ''next_hop'' [(''type'', num SAI_NEXT_HOP_TYPE_IP), (''router_interface_id'', self
        ''port11_rif''), (''ip'', ip_address (var ''nhop_ip1''))]),
      set_self ''nhop2'' (api_create ''next_hop'' [(''type'', num SAI_NEXT_HOP_TYPE_IP), (''router_interface_id'', self
        ''port12_rif''), (''ip'', ip_address (var ''nhop_ip2''))]),
      set_self ''nhop3'' (api_create ''next_hop'' [(''type'', num SAI_NEXT_HOP_TYPE_IP), (''router_interface_id'', self
        ''port13_rif''), (''ip'', ip_address (var ''nhop_ip3''))]),
      set_self ''nhop_group1'' (api_create ''next_hop_group'' [(''type'', num SAI_NEXT_HOP_GROUP_TYPE_FINE_GRAIN_ECMP),
        (''configured_size'', num 50)]),
      set_self ''nh_group_member1'' (api_create ''next_hop_group_member'' [(''next_hop_group_id'', self ''nhop_group1''),
        (''next_hop_id'', self ''nhop1''), (''index'', num 0)]),
      set_self ''nh_group_member2'' (api_create ''next_hop_group_member'' [(''next_hop_group_id'', self ''nhop_group1''),
        (''next_hop_id'', self ''nhop2''), (''index'', num 1)]),
      set_self ''nh_group_member3'' (api_create ''next_hop_group_member'' [(''next_hop_group_id'', self ''nhop_group1''),
        (''next_hop_id'', self ''nhop3''), (''index'', num 2)]),
      set_self ''ecmp_members'' (list_of [self ''nh_group_member1'', self ''nh_group_member2'', self ''nh_group_member3'']),
      set_self ''route0'' (struct ''sai_thrift_route_entry_t'' [(''switch_id'', self ''switch_id''), (''destination'', ip_prefix
        (str ''10.10.10.1/16'')), (''vr_id'', self ''default_vrf'')]),
      assert (ne (self ''route0'') (num 0)),
      assign ''status'' (api_create_entry ''route_entry'' (self ''route0'') [(''next_hop_id'', self ''nhop_group1'')]),
      assert_eq (var ''status'') (num SAI_STATUS_SUCCESS)]"

definition EcmpFGTestHelper_tearDown :: "'d stmt" where
  "EcmpFGTestHelper_tearDown = block [
      run (api_remove ''next_hop_group_member'' (self ''nh_group_member1'')),
      run (api_remove ''next_hop_group_member'' (self ''nh_group_member2'')),
      run (api_remove ''next_hop_group_member'' (self ''nh_group_member3'')),
      run (api_remove ''route_entry'' (self ''route0'')),
      run (api_remove ''next_hop_group'' (self ''nhop_group1'')),
      run (api_remove ''next_hop'' (self ''nhop1'')),
      run (api_remove ''next_hop'' (self ''nhop2'')),
      run (api_remove ''next_hop'' (self ''nhop3'')),
      run (api_remove ''neighbor_entry'' (self ''neighbor_entry11'')),
      run (api_remove ''neighbor_entry'' (self ''neighbor_entry12'')),
      run (api_remove ''neighbor_entry'' (self ''neighbor_entry13'')),
      run (api_remove ''router_interface'' (self ''port14_rif'')),
      super_tearDown]"

definition ecmpFGBasicTest_setUp :: "'d stmt" where
  "ecmpFGBasicTest_setUp = block [
      run (invoke [] EcmpFGTestHelper_setUp)]"

definition ecmpFGBasicTest_tearDown :: "'d stmt" where
  "ecmpFGBasicTest_tearDown = block [
      run (invoke [] EcmpFGTestHelper_tearDown)]"

definition ecmpFGAddDelMemTest_setUp :: "'d stmt" where
  "ecmpFGAddDelMemTest_setUp = block [
      run (invoke [] EcmpFGTestHelper_setUp)]"

definition ecmpFGAddDelMemTest_tearDown :: "'d stmt" where
  "ecmpFGAddDelMemTest_tearDown = block [
      run (invoke [] EcmpFGTestHelper_tearDown)]"

definition ecmpFGGrpMemAttrTest_setUp :: "'d stmt" where
  "ecmpFGGrpMemAttrTest_setUp = block [
      run (invoke [] EcmpFGTestHelper_setUp)]"

definition ecmpFGGrpMemAttrTest_tearDown :: "'d stmt" where
  "ecmpFGGrpMemAttrTest_tearDown = block [
      run (invoke [] EcmpFGTestHelper_tearDown)]"

end
