(* ===== verification/TestsPolicer.thy ===== *)
theory TestsPolicer
  imports PtfOwn PtfConstants
begin

text \<open>
  The tests of policers, \<open>ptf/saipolicer.py\<close>: a definition per method, statement by statement in the language of
  \<open>PtfScript\<close>, named after its class. A parameter \<open>m_f\<close> is a method \<open>f\<close> that derived classes define anew.
\<close>

section \<open>The tests\<close>

definition banner :: "'d stmt" where
  "banner = block [
      print [mul (str ''-'') (num 70)],
      print [var ''string'']]"

definition PolicerApiTests_policerMode :: "'d stmt" where
  "PolicerApiTests_policerMode = block [
      run (invoke [(''string'', str ''policerMode'')] banner),
      assign ''pol_ids'' (list_of []),
      try_finally [
        for_in [''mode''] (range_of (num 0) (add (num SAI_POLICER_MODE_STORM_CONTROL) (num 1))) [
          print [var ''mode''],
          assign ''cir'' (num 10),
          assign ''pir'' (num 30),
          assign ''cbs'' (num 40),
          assign ''pbs'' (num 60),
          assign ''pol_id'' (api_create ''policer'' [(''mode'', var ''mode''), (''meter_type'', num SAI_METER_TYPE_PACKETS),
            (''color_source'', num SAI_POLICER_COLOR_SOURCE_BLIND), (''cir'', var ''cir''), (''pir'', var ''pir''), (''cbs'',
            var ''cbs''), (''pbs'', var ''pbs'')]),
          assign ''pol_ids'' (appended (var ''pol_ids'') (var ''pol_id'')),
          print [var ''pol_id''],
          assert (gt (var ''pol_id'') (num 0)),
          if_else (eq (var ''mode'') (num SAI_POLICER_MODE_SR_TCM)) [
            assign ''exp_pir'' (var ''cir''),
            assign ''exp_pbs'' (var ''pbs'')] [
            if_else (eq (var ''mode'') (num SAI_POLICER_MODE_STORM_CONTROL)) [
              assign ''exp_pir'' (var ''cir''),
              assign ''exp_pbs'' (var ''cbs'')] [
              assign ''exp_pir'' (var ''pir''),
              assign ''exp_pbs'' (var ''pbs'')]],
          assign ''get_attr'' (api_get ''policer'' (var ''pol_id'') [(''mode'', bool True), (''cir'', bool True), (''pir'', bool
            True), (''cbs'', bool True), (''pbs'', bool True)]),
          print [item (var ''get_attr'') (str ''mode''), item (var ''get_attr'') (str ''cir''), item (var ''get_attr'') (str
            ''pir''), item (var ''get_attr'') (str ''cbs''), item (var ''get_attr'') (str ''pbs'')],
          assert_eq (var ''mode'') (item (var ''get_attr'') (str ''mode'')),
          assert_eq (var ''cir'') (item (var ''get_attr'') (str ''cir'')),
          assert_eq (var ''exp_pir'') (item (var ''get_attr'') (str ''pir'')),
          assert_eq (var ''cbs'') (item (var ''get_attr'') (str ''cbs'')),
          assert_eq (var ''exp_pbs'') (item (var ''get_attr'') (str ''pbs'')),
          assign ''new_cir'' (num 20),
          run (api_set ''policer'' (var ''pol_id'') [(''cir'', var ''new_cir'')]),
          print [var ''new_cir''],
          if_else (is_in (var ''mode'') (list_of [num SAI_POLICER_MODE_SR_TCM, num SAI_POLICER_MODE_STORM_CONTROL])) [
            assign ''exp_pir'' (var ''new_cir'')] [],
          assign ''get_attr'' (api_get ''policer'' (var ''pol_id'') [(''mode'', bool True), (''cir'', bool True), (''pir'', bool
            True), (''cbs'', bool True), (''pbs'', bool True)]),
          print [item (var ''get_attr'') (str ''mode''), item (var ''get_attr'') (str ''cir''), item (var ''get_attr'') (str
            ''pir''), item (var ''get_attr'') (str ''cbs''), item (var ''get_attr'') (str ''pbs'')],
          assert_eq (var ''mode'') (item (var ''get_attr'') (str ''mode'')),
          assert_eq (var ''new_cir'') (item (var ''get_attr'') (str ''cir'')),
          assert_eq (var ''exp_pir'') (item (var ''get_attr'') (str ''pir'')),
          assert_eq (var ''cbs'') (item (var ''get_attr'') (str ''cbs'')),
          assert_eq (var ''exp_pbs'') (item (var ''get_attr'') (str ''pbs'')),
          assign ''new_cbs'' (num 50),
          run (api_set ''policer'' (var ''pol_id'') [(''cbs'', var ''new_cbs'')]),
          print [var ''new_cbs''],
          if_else (eq (var ''mode'') (num SAI_POLICER_MODE_STORM_CONTROL)) [
            assign ''exp_pbs'' (var ''new_cbs'')] [],
          assign ''get_attr'' (api_get ''policer'' (var ''pol_id'') [(''mode'', bool True), (''cir'', bool True), (''pir'', bool
            True), (''cbs'', bool True), (''pbs'', bool True)]),
          print [item (var ''get_attr'') (str ''mode''), item (var ''get_attr'') (str ''cir''), item (var ''get_attr'') (str
            ''pir''), item (var ''get_attr'') (str ''cbs''), item (var ''get_attr'') (str ''pbs'')],
          assert_eq (var ''mode'') (item (var ''get_attr'') (str ''mode'')),
          assert_eq (var ''new_cir'') (item (var ''get_attr'') (str ''cir'')),
          assert_eq (var ''exp_pir'') (item (var ''get_attr'') (str ''pir'')),
          assert_eq (var ''new_cbs'') (item (var ''get_attr'') (str ''cbs'')),
          assert_eq (var ''exp_pbs'') (item (var ''get_attr'') (str ''pbs''))],
        print [var ''pol_id''],
        assign ''pol_id'' (api_create ''policer'' [(''mode'', num SAI_POLICER_MODE_SR_TCM), (''meter_type'', num
          SAI_METER_TYPE_PACKETS), (''color_source'', num SAI_POLICER_COLOR_SOURCE_BLIND), (''cir'', var ''cir''), (''cbs'', var
          ''cbs'')]),
        assign ''pol_ids'' (appended (var ''pol_ids'') (var ''pol_id'')),
        assign ''get_attr'' (api_get ''policer'' (var ''pol_id'') [(''mode'', bool True), (''cir'', bool True), (''pir'', bool
          True), (''cbs'', bool True), (''pbs'', bool True)]),
        print [item (var ''get_attr'') (str ''mode''), item (var ''get_attr'') (str ''cir''), item (var ''get_attr'') (str
          ''pir''), item (var ''get_attr'') (str ''cbs''), item (var ''get_attr'') (str ''pbs'')],
        assert_eq (num SAI_POLICER_MODE_SR_TCM) (item (var ''get_attr'') (str ''mode'')),
        assert_eq (var ''cir'') (item (var ''get_attr'') (str ''cir'')),
        assert_eq (var ''cir'') (item (var ''get_attr'') (str ''pir'')),
        assert_eq (var ''cbs'') (item (var ''get_attr'') (str ''cbs'')),
        assert_eq (var ''cbs'') (item (var ''get_attr'') (str ''pbs''))] [
        for_in [''pol_id''] (var ''pol_ids'') [
          run (api_remove ''policer'' (var ''pol_id''))]]]"

definition PolicerApiTests_noPolicerTrapGroup :: "'d stmt" where
  "PolicerApiTests_noPolicerTrapGroup = block [
      run (invoke [(''string'', str ''noPolicerTrapGroup'')] banner),
      try_finally [
        assign ''trap_group_id'' (api_create ''hostif_trap_group'' [(''admin_state'', bool True)]),
        print [var ''trap_group_id''],
        assert (gt (var ''trap_group_id'') (num 0)),
        assign ''pol_id'' (api_create ''policer'' [(''mode'', num SAI_POLICER_MODE_SR_TCM), (''meter_type'', num
          SAI_METER_TYPE_PACKETS)]),
        print [var ''pol_id''],
        assert (gt (var ''pol_id'') (num 0)),
        assign ''status'' (api_set ''hostif_trap_group'' (var ''trap_group_id'') [(''policer'', var ''pol_id'')]),
        assert_eq (var ''status'') (num SAI_STATUS_SUCCESS),
        assign ''get_attr'' (api_get ''hostif_trap_group'' (var ''trap_group_id'') [(''policer'', bool True)]),
        assert_eq (var ''pol_id'') (item (var ''get_attr'') (str ''policer''))] [
        run (api_remove ''hostif_trap_group'' (var ''trap_group_id'')),
        run (api_remove ''policer'' (var ''pol_id''))]]"

definition PolicerApiTests_policerOverwriteTrapGroup :: "'d stmt" where
  "PolicerApiTests_policerOverwriteTrapGroup = block [
      run (invoke [(''string'', str ''policerOverwriteTrapGroup'')] banner),
      try_finally [
        assign ''pol_id'' (api_create ''policer'' [(''mode'', num SAI_POLICER_MODE_TR_TCM), (''meter_type'', num
          SAI_METER_TYPE_BYTES), (''color_source'', num SAI_POLICER_COLOR_SOURCE_AWARE)]),
        print [var ''pol_id''],
        assert (gt (var ''pol_id'') (num 0)),
        assign ''trap_group_id'' (api_create ''hostif_trap_group'' [(''admin_state'', bool True), (''policer'', var
          ''pol_id'')]),
        print [var ''trap_group_id''],
        assert (gt (var ''trap_group_id'') (num 0)),
        assign ''get_attr'' (api_get ''hostif_trap_group'' (var ''trap_group_id'') [(''policer'', bool True)]),
        assert_eq (var ''pol_id'') (item (var ''get_attr'') (str ''policer'')),
        assign ''pol2_id'' (api_create ''policer'' [(''mode'', num SAI_POLICER_MODE_STORM_CONTROL), (''meter_type'', num
          SAI_METER_TYPE_PACKETS)]),
        print [var ''pol2_id''],
        assert (gt (var ''pol2_id'') (num 0)),
        assign ''status'' (api_set ''hostif_trap_group'' (var ''trap_group_id'') [(''policer'', var ''pol2_id'')]),
        assert_eq (var ''status'') (num SAI_STATUS_SUCCESS),
        assign ''get_attr'' (api_get ''hostif_trap_group'' (var ''trap_group_id'') [(''policer'', bool True)]),
        assert_eq (var ''pol2_id'') (item (var ''get_attr'') (str ''policer''))] [
        run (api_remove ''hostif_trap_group'' (var ''trap_group_id'')),
        run (api_remove ''policer'' (var ''pol_id'')),
        run (api_remove ''policer'' (var ''pol2_id''))]]"

definition BindPolicerToPort_setUp :: "'d stmt" where
  "BindPolicerToPort_setUp = block [
      super_setUp,
      set_self ''pol_id'' (api_create ''policer'' [(''mode'', num SAI_POLICER_MODE_TR_TCM), (''meter_type'', num
        SAI_METER_TYPE_PACKETS), (''cbs'', num 9), (''cir'', num 1), (''pbs'', num 9), (''pir'', num 1)])]"

definition BindPolicerToPort_runTest :: "'d stmt" where
  "BindPolicerToPort_runTest = block [
      run (invoke [(''string'', str ''BindPolicerToPort'')] banner),
      assign ''attr'' (api_get ''port'' (self ''port0'') [(''policer_id'', bool True)]),
      assert_eq (item (var ''attr'') (str ''policer_id'')) (num 0),
      assign ''status'' (api_set ''port'' (self ''port0'') [(''policer_id'', self ''pol_id'')]),
      assert_eq (var ''status'') (num SAI_STATUS_SUCCESS),
      assign ''attr'' (api_get ''port'' (self ''port0'') [(''policer_id'', bool True)]),
      assert_eq (item (var ''attr'') (str ''policer_id'')) (self ''pol_id'')]"

definition BindPolicerToPort_tearDown :: "'d stmt" where
  "BindPolicerToPort_tearDown = block [
      run (api_set ''port'' (self ''port0'') [(''policer_id'', num 0)]),
      run (api_remove ''policer'' (self ''pol_id'')),
      super_tearDown]"

definition BindPolicerToAclEntry_setUp :: "'d stmt" where
  "BindPolicerToAclEntry_setUp = block [
      super_setUp,
      set_self ''pol_id'' (api_create ''policer'' [(''mode'', num SAI_POLICER_MODE_TR_TCM), (''meter_type'', num
        SAI_METER_TYPE_PACKETS), (''cbs'', num 5), (''cir'', num 1), (''pbs'', num 5), (''pir'', num 1), (''red_packet_action'',
        num SAI_PACKET_ACTION_DROP)]),
      set_self ''acl_table_id'' none,
      set_self ''acl_entry_id'' none]"

definition BindPolicerToAclEntry_tearDown :: "'d stmt" where
  "BindPolicerToAclEntry_tearDown = block [
      run (api_remove ''acl_entry'' (self ''acl_entry_id'')),
      run (api_set ''port'' (self ''port0'') [(''ingress_acl'', num 0)]),
      run (api_remove ''acl_table'' (self ''acl_table_id'')),
      run (api_remove ''policer'' (self ''pol_id'')),
      super_tearDown]"

definition PolicerTrafficTests_setUp :: "'d stmt" where
  "PolicerTrafficTests_setUp = block [
      super_setUp,
      set_self ''arp_pkt'' (lib ''simple_arp_packet'' [] [(''arp_op'', num 1), (''pktlen'', num 100)]),
      set_self ''lldp_pkt'' (lib ''simple_eth_packet'' [] [(''eth_dst'', str ''01:80:c2:00:00:0e''), (''eth_src'', str
        ''00:11:11:11:11:11''), (''pktlen'', num 60), (''eth_type'', num 35020)]),
      set_self ''pol_id'' (api_create ''policer'' [(''mode'', num SAI_POLICER_MODE_TR_TCM), (''meter_type'', num
        SAI_METER_TYPE_PACKETS), (''cbs'', num 1), (''cir'', num 1), (''pbs'', num 1), (''pir'', num 1)]),
      assert (gt (self ''pol_id'') (num 0)),
      set_self ''arp_trap_group'' (api_create ''hostif_trap_group'' [(''admin_state'', bool True), (''policer'', self
        ''pol_id''), (''queue'', num 2)]),
      assert (gt (self ''arp_trap_group'') (num 0)),
      set_self ''arp_trap_id'' (api_create ''hostif_trap'' [(''packet_action'', num SAI_PACKET_ACTION_TRAP), (''trap_type'', num
        SAI_HOSTIF_TRAP_TYPE_ARP_REQUEST), (''trap_group'', self ''arp_trap_group'')]),
      assert (gt (self ''arp_trap_id'') (num 0)),
      set_self ''lldp_trap_group'' (api_create ''hostif_trap_group'' [(''admin_state'', bool True), (''queue'', num 4)]),
      assert (gt (self ''lldp_trap_group'') (num 0)),
      set_self ''lldp_trap_id'' (api_create ''hostif_trap'' [(''packet_action'', num SAI_PACKET_ACTION_TRAP), (''trap_type'',
        num SAI_HOSTIF_TRAP_TYPE_LLDP), (''trap_group'', self ''lldp_trap_group'')]),
      assert (gt (self ''lldp_trap_id'') (num 0))]"

definition PolicerTrafficTests_tearDown :: "'d stmt" where
  "PolicerTrafficTests_tearDown = block [
      run (api_remove ''hostif_trap'' (self ''lldp_trap_id'')),
      run (api_remove ''hostif_trap_group'' (self ''lldp_trap_group'')),
      run (api_remove ''hostif_trap'' (self ''arp_trap_id'')),
      run (api_remove ''hostif_trap_group'' (self ''arp_trap_group'')),
      run (api_remove ''policer'' (self ''pol_id'')),
      super_tearDown]"

definition Overflow1Policer2TrapGroups_runTest :: "'d stmt" where
  "Overflow1Policer2TrapGroups_runTest = block [
      assign ''status'' (api_set ''policer'' (self ''pol_id'') [(''cbs'', num 7), (''cir'', num 1), (''pbs'', num 7), (''pir'',
        num 1)]),
      assert_eq (var ''status'') (num SAI_STATUS_SUCCESS),
      assign ''status'' (api_set ''hostif_trap_group'' (self ''lldp_trap_group'') [(''policer'', self ''pol_id'')]),
      assert_eq (var ''status'') (num SAI_STATUS_SUCCESS),
      assign ''q2_pre_stat'' (query ''sai_thrift_get_queue_stats'' [self ''cpu_queue2''] []),
      assign ''q4_pre_stat'' (query ''sai_thrift_get_queue_stats'' [self ''cpu_queue4''] []),
      assign ''tx_cnt'' (num 5),
      for_in [''i''] (range_of (num 0) (var ''tx_cnt'')) [
        print [var ''i''],
        run (lib ''send_packet'' [self ''dev_port0'', self ''arp_pkt''] []),
        sleep_for (flt (1 / 10))],
      for_in [''i''] (range_of (num 0) (var ''tx_cnt'')) [
        print [var ''i''],
        run (lib ''send_packet'' [self ''dev_port0'', self ''lldp_pkt''] []),
        sleep_for (flt (1 / 10))],
      assign ''status'' (api_set ''hostif_trap_group'' (self ''arp_trap_group'') [(''policer'', num 0)]),
      assert_eq (var ''status'') (num SAI_STATUS_SUCCESS),
      assign ''get_attr'' (api_get ''hostif_trap_group'' (self ''arp_trap_group'') [(''policer'', bool True)]),
      assert_eq (num 0) (item (var ''get_attr'') (str ''policer'')),
      for_in [''i''] (range_of (num 0) (var ''tx_cnt'')) [
        print [var ''i''],
        run (lib ''send_packet'' [self ''dev_port0'', self ''arp_pkt''] []),
        sleep_for (flt (1 / 10))],
      for_in [''i''] (range_of (num 0) (var ''tx_cnt'')) [
        print [var ''i''],
        run (lib ''send_packet'' [self ''dev_port0'', self ''lldp_pkt''] []),
        sleep_for (flt (1 / 10))],
      sleep_for (num 4),
      print [mul (var ''tx_cnt'') (num 3)],
      assign ''stats'' (query ''sai_thrift_get_policer_stats'' [self ''pol_id''] []),
      assert_eq (mul (var ''tx_cnt'') (num 3)) (item (var ''stats'') (str ''SAI_POLICER_STAT_PACKETS'')),
      assign ''rx_cnt_cpu'' (item (var ''stats'') (str ''SAI_POLICER_STAT_GREEN_PACKETS'')),
      assign ''q2_post_stat'' (query ''sai_thrift_get_queue_stats'' [self ''cpu_queue2''] []),
      assign ''q4_post_stat'' (query ''sai_thrift_get_queue_stats'' [self ''cpu_queue4''] []),
      assign ''t'' (str ''SAI_QUEUE_STAT_PACKETS''),
      assign ''q_stats'' (add (sub (item (var ''q4_post_stat'') (var ''t'')) (item (var ''q4_pre_stat'') (var ''t''))) (sub
        (item (var ''q2_post_stat'') (var ''t'')) (item (var ''q2_pre_stat'') (var ''t'')))),
      print [var ''q_stats'', var ''rx_cnt_cpu'', var ''tx_cnt''],
      assert_eq (var ''q_stats'') (add (var ''tx_cnt'') (var ''rx_cnt_cpu''))]"

definition Underflow1Policer2TrapGroups_runTest :: "'d stmt" where
  "Underflow1Policer2TrapGroups_runTest = block [
      assign ''status'' (api_set ''policer'' (self ''pol_id'') [(''cbs'', num 15), (''cir'', num 1), (''pbs'', num 15),
        (''pir'', num 1)]),
      assert_eq (var ''status'') (num SAI_STATUS_SUCCESS),
      assign ''status'' (api_set ''hostif_trap_group'' (self ''lldp_trap_group'') [(''policer'', self ''pol_id'')]),
      assert_eq (var ''status'') (num SAI_STATUS_SUCCESS),
      assign ''q2_pre_stat'' (query ''sai_thrift_get_queue_stats'' [self ''cpu_queue2''] []),
      assign ''q4_pre_stat'' (query ''sai_thrift_get_queue_stats'' [self ''cpu_queue4''] []),
      assign ''tx_cnt'' (num 5),
      for_in [''i''] (range_of (num 0) (var ''tx_cnt'')) [
        print [var ''i''],
        run (lib ''send_packet'' [self ''dev_port0'', self ''arp_pkt''] []),
        sleep_for (flt (1 / 10))],
      for_in [''i''] (range_of (num 0) (var ''tx_cnt'')) [
        print [var ''i''],
        run (lib ''send_packet'' [self ''dev_port0'', self ''lldp_pkt''] []),
        sleep_for (flt (1 / 10))],
      assign ''status'' (api_set ''hostif_trap_group'' (self ''arp_trap_group'') [(''policer'', num 0)]),
      assert_eq (var ''status'') (num SAI_STATUS_SUCCESS),
      assign ''get_attr'' (api_get ''hostif_trap_group'' (self ''arp_trap_group'') [(''policer'', bool True)]),
      assert_eq (num 0) (item (var ''get_attr'') (str ''policer'')),
      assign ''stats_unbind'' (query ''sai_thrift_get_policer_stats'' [self ''pol_id''] []),
      for_in [''i''] (range_of (num 0) (var ''tx_cnt'')) [
        print [var ''i''],
        run (lib ''send_packet'' [self ''dev_port0'', self ''arp_pkt''] []),
        sleep_for (flt (1 / 10))],
      assert_eq (var ''stats_unbind'') (query ''sai_thrift_get_policer_stats'' [self ''pol_id''] []),
      for_in [''i''] (range_of (num 0) (var ''tx_cnt'')) [
        print [var ''i''],
        run (lib ''send_packet'' [self ''dev_port0'', self ''lldp_pkt''] []),
        sleep_for (flt (1 / 10))],
      assign ''stats'' (query ''sai_thrift_get_policer_stats'' [self ''pol_id''] []),
      print [mul (var ''tx_cnt'') (num 3)],
      assert_eq (mul (var ''tx_cnt'') (num 3)) (item (var ''stats'') (str ''SAI_POLICER_STAT_PACKETS'')),
      assign ''rx_cnt_cpu'' (item (var ''stats'') (str ''SAI_POLICER_STAT_GREEN_PACKETS'')),
      assign ''q2_post_stat'' (query ''sai_thrift_get_queue_stats'' [self ''cpu_queue2''] []),
      assign ''q4_post_stat'' (query ''sai_thrift_get_queue_stats'' [self ''cpu_queue4''] []),
      assign ''t'' (str ''SAI_QUEUE_STAT_PACKETS''),
      assign ''q_stats'' (add (sub (item (var ''q4_post_stat'') (var ''t'')) (item (var ''q4_pre_stat'') (var ''t''))) (sub
        (item (var ''q2_post_stat'') (var ''t'')) (item (var ''q2_pre_stat'') (var ''t'')))),
      print [var ''q_stats'', var ''rx_cnt_cpu'', var ''tx_cnt''],
      assert_eq (var ''q_stats'') (add (var ''tx_cnt'') (var ''rx_cnt_cpu''))]"

definition StormControlTests_setUp :: "'d stmt" where
  "StormControlTests_setUp = block [
      super_setUp,
      set_self ''bc_sc'' (api_create ''policer'' [(''meter_type'', num SAI_METER_TYPE_PACKETS), (''mode'', num
        SAI_POLICER_MODE_STORM_CONTROL), (''cbs'', num 2), (''cir'', num 2)]),
      assert (gt (self ''bc_sc'') (num 0)),
      set_self ''mc_sc'' (api_create ''policer'' [(''meter_type'', num SAI_METER_TYPE_PACKETS), (''mode'', num
        SAI_POLICER_MODE_STORM_CONTROL), (''cbs'', num 2), (''cir'', num 2)]),
      assert (gt (self ''mc_sc'') (num 0)),
      set_self ''uc_sc'' (api_create ''policer'' [(''meter_type'', num SAI_METER_TYPE_PACKETS), (''mode'', num
        SAI_POLICER_MODE_STORM_CONTROL), (''cbs'', num 2), (''cir'', num 2)]),
      assert (gt (self ''uc_sc'') (num 0)),
      assign ''status'' (api_set ''port'' (self ''port0'') [(''broadcast_storm_control_policer_id'', self ''bc_sc'')]),
      assert_eq (var ''status'') (num SAI_STATUS_SUCCESS),
      assign ''attr'' (api_get ''port'' (self ''port0'') [(''broadcast_storm_control_policer_id'', bool True)]),
      assert_eq (item (var ''attr'') (str ''broadcast_storm_control_policer_id'')) (self ''bc_sc''),
      assign ''status'' (api_set ''port'' (self ''port0'') [(''multicast_storm_control_policer_id'', self ''mc_sc'')]),
      assert_eq (var ''status'') (num SAI_STATUS_SUCCESS),
      assign ''attr'' (api_get ''port'' (self ''port0'') [(''multicast_storm_control_policer_id'', bool True)]),
      assert_eq (item (var ''attr'') (str ''multicast_storm_control_policer_id'')) (self ''mc_sc''),
      assign ''status'' (api_set ''port'' (self ''port0'') [(''flood_storm_control_policer_id'', self ''uc_sc'')]),
      assert_eq (var ''status'') (num SAI_STATUS_SUCCESS),
      assign ''attr'' (api_get ''port'' (self ''port0'') [(''flood_storm_control_policer_id'', bool True)]),
      assert_eq (item (var ''attr'') (str ''flood_storm_control_policer_id'')) (self ''uc_sc'')]"

definition StormControlTests_test :: "'d stmt" where
  "StormControlTests_test = block [
      run (invoke [(''string'', var ''name'')] banner),
      assign ''tx_cnt'' (num 5),
      for_in [''i''] (range_of (num 0) (var ''tx_cnt'')) [
        print [var ''i''],
        run (lib ''send_packet'' [self ''dev_port0'', var ''pkt''] []),
        sleep_for (flt (1 / 10))],
      assign ''rx_cnt'' (lib ''count_matched_packets_all_ports'' [var ''pkt'', list_of [self ''dev_port1'', self ''dev_port2'']]
        []),
      run (lib ''verify_no_other_packets'' [] []),
      assign ''stats'' (query ''sai_thrift_get_policer_stats'' [var ''pol_id''] []),
      print [var ''rx_cnt''],
      print [item (var ''stats'') (str ''SAI_POLICER_STAT_PACKETS'')],
      print [item (var ''stats'') (str ''SAI_POLICER_STAT_GREEN_PACKETS'')],
      print [item (var ''stats'') (str ''SAI_POLICER_STAT_RED_PACKETS'')],
      assert (lt (divide (var ''rx_cnt'') (num 2)) (var ''tx_cnt'')),
      assert_eq (item (var ''stats'') (str ''SAI_POLICER_STAT_PACKETS'')) (var ''tx_cnt''),
      assert_eq (item (var ''stats'') (str ''SAI_POLICER_STAT_GREEN_PACKETS'')) (divide (var ''rx_cnt'') (num 2)),
      assert (gt (item (var ''stats'') (str ''SAI_POLICER_STAT_GREEN_PACKETS'')) (num 0)),
      assert (gt (item (var ''stats'') (str ''SAI_POLICER_STAT_RED_PACKETS'')) (num 0)),
      assert_eq (item (var ''stats'') (str ''SAI_POLICER_STAT_YELLOW_PACKETS'')) (num 0)]"

definition StormControlTests_runTest :: "'d stmt" where
  "StormControlTests_runTest = block [
      assign ''pkt'' (lib ''simple_udp_packet'' [] [(''eth_dst'', str ''ff:ff:ff:ff:ff:ff''), (''ip_dst'', str
        ''192.168.0.255'')]),
      run (invoke [(''name'', str ''broadcastStormControl''), (''pkt'', var ''pkt''), (''pol_id'', self ''bc_sc'')]
        StormControlTests_test),
      assign ''pkt'' (lib ''simple_udp_packet'' [] [(''eth_dst'', str ''01:00:5e:00:00:01''), (''ip_dst'', str ''224.0.0.1'')]),
      run (invoke [(''name'', str ''multicastStormControl''), (''pkt'', var ''pkt''), (''pol_id'', self ''mc_sc'')]
        StormControlTests_test),
      assign ''pkt'' (lib ''simple_udp_packet'' [] []),
      run (invoke [(''name'', str ''floodStormControl''), (''pkt'', var ''pkt''), (''pol_id'', self ''uc_sc'')]
        StormControlTests_test)]"

definition StormControlTests_tearDown :: "'d stmt" where
  "StormControlTests_tearDown = block [
      run (api_set ''port'' (self ''port0'') [(''broadcast_storm_control_policer_id'', num 0)]),
      run (api_set ''port'' (self ''port0'') [(''multicast_storm_control_policer_id'', num 0)]),
      run (api_set ''port'' (self ''port0'') [(''flood_storm_control_policer_id'', num 0)]),
      run (api_remove ''policer'' (self ''bc_sc'')),
      run (api_remove ''policer'' (self ''mc_sc'')),
      run (api_remove ''policer'' (self ''uc_sc'')),
      super_tearDown]"

definition VerifyColors_setUp :: "'d stmt" where
  "VerifyColors_setUp = block [
      super_setUp,
      set_self ''arp_pkt'' (lib ''simple_arp_packet'' [] [(''arp_op'', num 1), (''pktlen'', num 100)]),
      set_self ''pol_id'' (api_create ''policer'' [(''mode'', num SAI_POLICER_MODE_TR_TCM), (''meter_type'', num
        SAI_METER_TYPE_PACKETS), (''cbs'', num 5), (''cir'', num 10), (''pbs'', num 10), (''pir'', num 10)]),
      assert (gt (self ''pol_id'') (num 0)),
      set_self ''trap_group_id'' (api_create ''hostif_trap_group'' [(''admin_state'', bool True), (''policer'', self
        ''pol_id'')]),
      assert (gt (self ''trap_group_id'') (num 0)),
      set_self ''arp_trap_id'' (api_create ''hostif_trap'' [(''packet_action'', num SAI_PACKET_ACTION_TRAP), (''trap_type'', num
        SAI_HOSTIF_TRAP_TYPE_ARP_REQUEST), (''trap_group'', self ''trap_group_id'')]),
      assert (gt (self ''arp_trap_id'') (num 0))]"

definition VerifyColors_sendTrafficGetStats :: "'d stmt" where
  "VerifyColors_sendTrafficGetStats = block [
      print [var ''tx_cnt''],
      for_in [''_''] (range_of (num 0) (var ''tx_cnt'')) [
        run (lib ''send_packet'' [self ''dev_port0'', self ''arp_pkt''] [])],
      sleep_for (flt (2 / 1)),
      assign ''stats'' (query ''sai_thrift_get_policer_stats'' [self ''pol_id''] []),
      print [item (var ''stats'') (str ''SAI_POLICER_STAT_GREEN_PACKETS'')],
      print [item (var ''stats'') (str ''SAI_POLICER_STAT_YELLOW_PACKETS'')],
      print [item (var ''stats'') (str ''SAI_POLICER_STAT_RED_PACKETS'')],
      print [item (var ''stats'') (str ''SAI_POLICER_STAT_PACKETS'')],
      return (var ''stats'')]"

definition VerifyColors_tearDown :: "'d stmt" where
  "VerifyColors_tearDown = block [
      run (api_remove ''hostif_trap'' (self ''arp_trap_id'')),
      run (api_remove ''hostif_trap_group'' (self ''trap_group_id'')),
      run (api_remove ''policer'' (self ''pol_id'')),
      super_tearDown]"

end
