(* ===== verification/TestsPort.thy ===== *)
theory TestsPort
  imports PtfOwn PtfConstants
begin

text \<open>
  The tests of ports, \<open>ptf/saiport.py\<close>: a definition per method, statement by statement in the language of
  \<open>PtfScript\<close>, named after its class. A parameter \<open>m_f\<close> is a method \<open>f\<close> that derived classes define anew.
\<close>

section \<open>The tests\<close>

definition fec_to_str :: "'d stmt" where
  "fec_to_str = block [
      if_else (eq (var ''fec'') (num 0)) [
        return (str ''NONE'')] [
        if_else (eq (var ''fec'') (num 1)) [
          return (str ''RS'')] [
          if_else (eq (var ''fec'') (num 2)) [
            return (str ''FC'')] []]],
      return (str ''<unknown>'')]"

definition speed_to_num_lanes :: "'d stmt" where
  "speed_to_num_lanes = block [
      if_else (either (eq (var ''speed'') (num 1000)) (either (eq (var ''speed'') (num 10000)) (eq (var ''speed'') (num
        25000)))) [
        return (num 1)] [
        if_else (either (eq (var ''speed'') (num 40000)) (eq (var ''speed'') (num 100000))) [
          return (num 4)] [
          if_else (eq (var ''speed'') (num 50000)) [
            return (num 2)] []]],
      return (num (-1))]"

definition num_lanes_to_lane_list :: "'d stmt" where
  "num_lanes_to_lane_list = block [
      if_else (eq (var ''num_lanes'') (num 1)) [
        assign ''lane_list'' (struct ''sai_thrift_u32_list_t'' [(''count'', var ''num_lanes''), (''uint32list'', list_of [num
          34])])] [
        if_else (eq (var ''num_lanes'') (num 2)) [
          assign ''lane_list'' (struct ''sai_thrift_u32_list_t'' [(''count'', var ''num_lanes''), (''uint32list'', list_of [num
            34, num 35])])] [
          if_else (eq (var ''num_lanes'') (num 4)) [
            assign ''lane_list'' (struct ''sai_thrift_u32_list_t'' [(''count'', var ''num_lanes''), (''uint32list'', list_of
              [num 34, num 35, num 36, num 37])])] []]],
      return (var ''lane_list'')]"

definition acl_test_case :: "'d stmt" where
  "acl_test_case = block [
      if_else (is_true (var ''add_remove_bind'')) [
        assign ''name'' (add (var ''name'') (str '' add/remove_bind''))] [],
      if_else (var ''use_acl_group'') [
        assign ''name'' (add (var ''name'') (str '' ACL table group''))] [
        assign ''name'' (add (var ''name'') (str '' ACL table''))],
      print [var ''name'']]"

definition PortAttributeTest_setUp :: "'d stmt" where
  "PortAttributeTest_setUp = block [
      super_setUp,
      assign ''sai_list'' (struct ''sai_thrift_u32_list_t'' [(''count'', num 1), (''uint32list'', list_of [num 34])]),
      set_self ''port'' (api_create ''port'' [(''hw_lane_list'', var ''sai_list''), (''speed'', num 25000),
        (''global_flow_control_mode'', num SAI_PORT_FLOW_CONTROL_MODE_RX_ONLY), (''internal_loopback_mode'', num
        SAI_PORT_INTERNAL_LOOPBACK_MODE_MAC), (''media_type'', num SAI_PORT_MEDIA_TYPE_COPPER)])]"

definition PortAttributeTest_portAttributeTest :: "'d stmt" where
  "PortAttributeTest_portAttributeTest = block [
      assign ''attr'' (api_get ''port'' (self ''port'') [(''speed'', bool True)]),
      assert_eq (item (var ''attr'') (str ''speed'')) (num 25000),
      assign ''sai_list'' (struct ''sai_thrift_u32_list_t'' [(''count'', num 1), (''uint32list'', list_of [])]),
      assign ''attr'' (api_get ''port'' (self ''port'') [(''hw_lane_list'', var ''sai_list'')]),
      assert_eq (field (item (var ''attr'') (str ''hw_lane_list'')) ''count'') (num 1),
      assert_eq (item (field (item (var ''attr'') (str ''hw_lane_list'')) ''uint32list'') (num 0)) (num 34),
      assign ''attr'' (api_get ''port'' (self ''port'') [(''global_flow_control_mode'', bool True)]),
      assert_eq (item (var ''attr'') (str ''global_flow_control_mode'')) (num SAI_PORT_FLOW_CONTROL_MODE_RX_ONLY),
      assign ''status'' (api_set ''port'' (self ''port'') [(''global_flow_control_mode'', num
        SAI_PORT_FLOW_CONTROL_MODE_TX_ONLY)]),
      assert_eq (var ''status'') (num SAI_STATUS_SUCCESS),
      assign ''attr'' (api_get ''port'' (self ''port'') [(''global_flow_control_mode'', bool True)]),
      assert_eq (item (var ''attr'') (str ''global_flow_control_mode'')) (num SAI_PORT_FLOW_CONTROL_MODE_TX_ONLY),
      assign ''attr'' (api_get ''port'' (self ''port'') [(''internal_loopback_mode'', bool True)]),
      assert_eq (item (var ''attr'') (str ''internal_loopback_mode'')) (num SAI_PORT_INTERNAL_LOOPBACK_MODE_MAC),
      assign ''status'' (api_set ''port'' (self ''port'') [(''internal_loopback_mode'', num
        SAI_PORT_INTERNAL_LOOPBACK_MODE_PHY)]),
      assert_eq (var ''status'') (num SAI_STATUS_SUCCESS),
      assign ''attr'' (api_get ''port'' (self ''port'') [(''internal_loopback_mode'', bool True)]),
      assert_eq (item (var ''attr'') (str ''internal_loopback_mode'')) (num SAI_PORT_INTERNAL_LOOPBACK_MODE_PHY),
      assign ''attr'' (api_get ''port'' (self ''port'') [(''media_type'', bool True)]),
      assert_eq (item (var ''attr'') (str ''media_type'')) (num SAI_PORT_MEDIA_TYPE_COPPER),
      assign ''status'' (api_set ''port'' (self ''port'') [(''media_type'', num SAI_PORT_MEDIA_TYPE_FIBER)]),
      assert_eq (var ''status'') (num SAI_STATUS_SUCCESS),
      assign ''attr'' (api_get ''port'' (self ''port'') [(''media_type'', bool True)]),
      assert_eq (item (var ''attr'') (str ''media_type'')) (num SAI_PORT_MEDIA_TYPE_FIBER),
      assign ''attr'' (api_get ''port'' (self ''port'') [(''number_of_ingress_priority_groups'', bool True)]),
      assign ''number_of_pg'' (item (var ''attr'') (str ''number_of_ingress_priority_groups'')),
      assign ''sai_list'' (struct ''sai_thrift_u32_list_t'' [(''count'', num 20), (''uint32list'', list_of [])]),
      assign ''attr'' (api_get ''port'' (self ''port'') [(''ingress_priority_group_list'', var ''sai_list'')]),
      assert_eq (field (item (var ''attr'') (str ''ingress_priority_group_list'')) ''count'') (var ''number_of_pg''),
      assign ''attr'' (api_get ''port'' (self ''port'') [(''qos_number_of_queues'', bool True)]),
      assign ''qos_number_of_queues'' (item (var ''attr'') (str ''qos_number_of_queues'')),
      assign ''sai_list'' (struct ''sai_thrift_u32_list_t'' [(''count'', num 20), (''uint32list'', list_of [])]),
      assign ''attr'' (api_get ''port'' (self ''port'') [(''qos_queue_list'', var ''sai_list'')]),
      assert_eq (field (item (var ''attr'') (str ''qos_queue_list'')) ''count'') (var ''qos_number_of_queues''),
      assign ''attr'' (api_get ''port'' (self ''port'') [(''qos_number_of_scheduler_groups'', bool True)]),
      assign ''number_of_schg'' (item (var ''attr'') (str ''qos_number_of_scheduler_groups'')),
      assign ''sai_list'' (struct ''sai_thrift_u32_list_t'' [(''count'', num 20), (''uint32list'', list_of [])]),
      assign ''attr'' (api_get ''port'' (self ''port'') [(''qos_scheduler_group_list'', var ''sai_list'')]),
      assert_eq (field (item (var ''attr'') (str ''qos_scheduler_group_list'')) ''count'') (var ''number_of_schg'')]"

definition PortAttributeTest_portAttributeIngressSamplePacket :: "'d stmt" where
  "PortAttributeTest_portAttributeIngressSamplePacket = block [
      assign ''sample_packet'' (num 0),
      try_finally [
        assign ''attr'' (api_get ''port'' (self ''port'') [(''ingress_samplepacket_enable'', bool True)]),
        assert_eq (item (var ''attr'') (str ''ingress_samplepacket_enable'')) (num SAI_NULL_OBJECT_ID),
        assign ''sample_packet'' (api_create ''samplepacket'' [(''sample_rate'', num 2), (''mode'', num
          SAI_SAMPLEPACKET_MODE_SHARED)]),
        assert (ne (var ''sample_packet'') (num 0)),
        assign ''status'' (api_set ''port'' (self ''port'') [(''ingress_samplepacket_enable'', var ''sample_packet'')]),
        assert_eq (var ''status'') (num SAI_STATUS_SUCCESS)] [
        if_else (ne (var ''sample_packet'') (num 0)) [
          run (api_set ''port'' (self ''port'') [(''ingress_samplepacket_enable'', num 0)]),
          run (api_remove ''samplepacket'' (var ''sample_packet''))] []]]"

definition PortAttributeTest_switchAttributePortListTest :: "'d stmt" where
  "PortAttributeTest_switchAttributePortListTest = block [
      assign ''attr'' (api_get ''switch'' none [(''number_of_active_ports'', bool True)]),
      assign ''number_of_active_ports'' (item (var ''attr'') (str ''number_of_active_ports'')),
      assign ''attr'' (api_get ''switch'' none [(''port_list'', struct ''sai_thrift_object_list_t'' [(''idlist'', list_of []),
        (''count'', var ''number_of_active_ports'')])]),
      assert_eq (var ''number_of_active_ports'') (field (item (var ''attr'') (str ''port_list'')) ''count''),
      assign ''attr'' (api_get ''switch'' none [(''port_list'', struct ''sai_thrift_object_list_t'' [(''idlist'', list_of []),
        (''count'', num 100)])]),
      assert_eq (var ''number_of_active_ports'') (field (item (var ''attr'') (str ''port_list'')) ''count'')]"

definition PortAttributeTest_runTest :: "'d stmt" where
  "PortAttributeTest_runTest = block [
      run (invoke [] PortAttributeTest_portAttributeTest),
      run (invoke [] PortAttributeTest_portAttributeIngressSamplePacket),
      run (invoke [] PortAttributeTest_switchAttributePortListTest)]"

definition PortAttributeTest_tearDown :: "'d stmt" where
  "PortAttributeTest_tearDown = block [
      run (api_remove ''port'' (self ''port'')),
      super_tearDown]"

definition PortAttributeTest_portBufferProfileList :: "'d stmt" where
  "PortAttributeTest_portBufferProfileList = block [
      try_finally [
        assign ''ingress_pool_size'' (num 1024),
        assign ''ig_buffer_pool_id'' (api_create ''buffer_pool'' [(''type'', num SAI_BUFFER_POOL_TYPE_INGRESS), (''size'', var
          ''ingress_pool_size'')]),
        assert (ne (var ''ig_buffer_pool_id'') (num 0)),
        assign ''ig_profile'' (api_create ''buffer_profile'' [(''pool_id'', var ''ig_buffer_pool_id''),
          (''reserved_buffer_size'', num 1024), (''threshold_mode'', num 0), (''shared_dynamic_th'', num 30)]),
        assert (ne (var ''ig_profile'') (num 0)),
        assign ''sai_list'' (struct ''sai_thrift_object_list_t'' [(''count'', num 10), (''idlist'', list_of [])]),
        run (api_get ''port'' (self ''port'') [(''qos_ingress_buffer_profile_list'', var ''sai_list'')]),
        assign ''sai_list'' (struct ''sai_thrift_object_list_t'' [(''count'', num 1), (''idlist'', list_of [var
          ''ig_profile''])]),
        assign ''status'' (api_set ''port'' (self ''port'') [(''qos_ingress_buffer_profile_list'', var ''sai_list'')]),
        assert_eq (var ''status'') (num SAI_STATUS_SUCCESS),
        assign ''sai_list'' (struct ''sai_thrift_object_list_t'' [(''count'', num 1), (''idlist'', list_of [])]),
        assign ''attr'' (api_get ''port'' (self ''port'') [(''qos_ingress_buffer_profile_list'', var ''sai_list'')]),
        assert_eq (field (field (item (var ''attr'') (str ''qos_ingress_buffer_profile_list'')) ''idlist'') ''count'') (num 1)] [
        if_else (ne (var ''ig_profile'') (num 0)) [
          run (api_remove ''buffer_profile'' (var ''ig_profile''))] [],
        if_else (ne (var ''ig_buffer_pool_id'') (num 0)) [
          run (api_remove ''buffer_pool'' (var ''ig_buffer_pool_id''))] []]]"

definition ListPortAttributesTest_setUp :: "'d stmt" where
  "ListPortAttributesTest_setUp = block [
      set_self ''portx'' none,
      set_self ''qos_default_tc'' none,
      set_self ''mtu'' none,
      set_self ''media_type'' none,
      set_self ''internal_loopback_mode'' none,
      super_setUp]"

definition ListPortAttributesTest_runTest :: "'d stmt" where
  "ListPortAttributesTest_runTest = block [
      try_finally [
        for_in [''scenario''] (list_of []) [
          for_in [''scen''] (list_of []) [
            set_self_named (item (var ''scen'') (str ''attribute'')) none],
          set_self_named (item (var ''scenario'') (str ''attribute'')) (item (var ''scenario'') (str ''test_create'')),
          assign ''sai_list'' (struct ''sai_thrift_u32_list_t'' [(''count'', num 1), (''uint32list'', list_of [num 34])]),
          set_self ''portx'' (api_create ''port'' [(''hw_lane_list'', var ''sai_list''), (''speed'', num 25000),
            (''qos_default_tc'', self ''qos_default_tc''), (''mtu'', self ''mtu''), (''media_type'', self ''media_type''),
            (''internal_loopback_mode'', self ''internal_loopback_mode'')]),
          assert (ne (self ''portx'') (num 0)),
          if_else (no (is_none (item (var ''scenario'') (str ''test_create'')))) [
            assign ''attr'' (api_get ''port'' (self ''portx'') [(''qos_default_tc'', self ''qos_default_tc''), (''mtu'', self
              ''mtu''), (''media_type'', self ''media_type''), (''internal_loopback_mode'', self ''internal_loopback_mode'')]),
            assign ''result'' (str ''Failed''),
            if_else (eq (item (var ''attr'') (item (var ''scenario'') (str ''attribute''))) (item (var ''scenario'') (str
              ''test_create''))) [
              assign ''result'' (str ''OK'')] [],
            print [item (var ''scenario'') (str ''attribute''), item (var ''scenario'') (str ''attr_name''), item (var
              ''scenario'') (str ''test_create''), var ''result''],
            assert_eq (item (var ''attr'') (item (var ''scenario'') (str ''attribute''))) (item (var ''scenario'') (str
              ''test_create''))] [],
          if_else (no (is_none (item (var ''scenario'') (str ''test_set'')))) [
            set_self_named (item (var ''scenario'') (str ''attribute'')) (item (var ''scenario'') (str ''test_set'')),
            assign ''status'' (api_set ''port'' (self ''portx'') [(''qos_default_tc'', self ''qos_default_tc''), (''mtu'', self
              ''mtu''), (''media_type'', self ''media_type''), (''internal_loopback_mode'', self ''internal_loopback_mode'')]),
            assert_eq (var ''status'') (num SAI_STATUS_SUCCESS),
            assign ''attr'' (api_get ''port'' (self ''portx'') [(''qos_default_tc'', self ''qos_default_tc''), (''mtu'', self
              ''mtu''), (''media_type'', self ''media_type''), (''internal_loopback_mode'', self ''internal_loopback_mode'')]),
            assign ''result'' (str ''Failed''),
            if_else (eq (item (var ''attr'') (item (var ''scenario'') (str ''attribute''))) (item (var ''scenario'') (str
              ''test_set''))) [
              assign ''result'' (str ''OK'')] [],
            print [item (var ''scenario'') (str ''attribute''), item (var ''scenario'') (str ''attr_name''), item (var
              ''scenario'') (str ''test_set''), var ''result''],
            assert_eq (item (var ''attr'') (item (var ''scenario'') (str ''attribute''))) (item (var ''scenario'') (str
              ''test_set''))] [],
          assign ''status'' (api_remove ''port'' (self ''portx'')),
          assert_eq (var ''status'') (num SAI_STATUS_SUCCESS),
          set_self ''portx'' (num 0)]] [
        if_else (ne (self ''portx'') (num 0)) [
          assign ''status'' (api_remove ''port'' (self ''portx'')),
          assert_eq (var ''status'') (num SAI_STATUS_SUCCESS)] []]]"

definition ListPortAttributesTest_tearDown :: "'d stmt" where
  "ListPortAttributesTest_tearDown = block [
      super_tearDown]"

definition PortQOSAttributeTest_setUp :: "'d stmt" where
  "PortQOSAttributeTest_setUp = block [
      super_setUp,
      assign ''sai_list'' (struct ''sai_thrift_u32_list_t'' [(''count'', num 1), (''uint32list'', list_of [num 34])]),
      set_self ''portx'' (api_create ''port'' [(''hw_lane_list'', var ''sai_list''), (''speed'', num 25000),
        (''qos_default_tc'', num 7)]),
      assert (ne (self ''portx'') (num 0))]"

definition PortQOSAttributeTest_runTest :: "'d stmt" where
  "PortQOSAttributeTest_runTest = block [
      assign ''attr'' (api_get ''port'' (self ''portx'') [(''qos_number_of_queues'', bool True),
        (''number_of_ingress_priority_groups'', bool True)]),
      assert_ne (item (var ''attr'') (str ''qos_number_of_queues'')) (num 0),
      assign ''qos_number_of_queues'' (item (var ''attr'') (str ''qos_number_of_queues'')),
      assign ''number_of_pg'' (item (var ''attr'') (str ''number_of_ingress_priority_groups'')),
      assign ''attr'' (api_get ''port'' (self ''portx'') [(''qos_queue_list'', struct ''sai_thrift_object_list_t'' [(''idlist'',
        list_of []), (''count'', var ''qos_number_of_queues'')])]),
      assert_eq (field (item (var ''attr'') (str ''qos_queue_list'')) ''count'') (var ''qos_number_of_queues''),
      assign ''attr'' (api_get ''port'' (self ''portx'') [(''ingress_priority_group_list'', struct ''sai_thrift_object_list_t''
        [(''idlist'', list_of []), (''count'', var ''number_of_pg'')])]),
      assert_eq (field (item (var ''attr'') (str ''ingress_priority_group_list'')) ''count'') (var ''number_of_pg''),
      assign ''attr'' (api_get ''port'' (self ''portx'') [(''qos_number_of_scheduler_groups'', bool True)]),
      assign ''number_of_schg'' (item (var ''attr'') (str ''qos_number_of_scheduler_groups'')),
      assign ''attr'' (api_get ''port'' (self ''portx'') [(''qos_scheduler_group_list'', struct ''sai_thrift_object_list_t''
        [(''idlist'', list_of []), (''count'', var ''number_of_schg'')])]),
      assert_eq (field (item (var ''attr'') (str ''qos_scheduler_group_list'')) ''count'') (var ''number_of_schg''),
      assign ''attr'' (api_get ''port'' (self ''portx'') [(''qos_default_tc'', bool True)]),
      assert_eq (item (var ''attr'') (str ''qos_default_tc'')) (num 7)]"

definition PortQOSAttributeTest_tearDown :: "'d stmt" where
  "PortQOSAttributeTest_tearDown = block [
      run (api_remove ''port'' (self ''portx'')),
      super_tearDown]"

definition create_qos_map :: "'d stmt" where
  "create_qos_map = block [
      assign ''map_list'' (list_of []),
      assign ''i'' (num 0),
      for_in [''qos_type_dict_key''] (dict_of [(num SAI_QOS_MAP_TYPE_DSCP_TO_TC, list_of [str ''dscp'', str ''tc'']), (num
        SAI_QOS_MAP_TYPE_DSCP_TO_COLOR, list_of [str ''dscp'', str ''color'']), (num SAI_QOS_MAP_TYPE_TC_TO_QUEUE, list_of [str
        ''tc'', str ''queue_index'']), (num SAI_QOS_MAP_TYPE_DOT1P_TO_COLOR, list_of [str ''dot1p'', str ''color'']), (num
        SAI_QOS_MAP_TYPE_DOT1P_TO_TC, list_of [str ''dot1p'', str ''tc'']), (num SAI_QOS_MAP_TYPE_PFC_PRIORITY_TO_QUEUE, list_of
        [str ''prio'', str ''queue_index'']), (num SAI_QOS_MAP_TYPE_PFC_PRIORITY_TO_PRIORITY_GROUP, list_of [str ''prio'', str
        ''pg'']), (num SAI_QOS_MAP_TYPE_TC_TO_PRIORITY_GROUP, list_of [str ''tc'', str ''pg'']), (num
        SAI_QOS_MAP_TYPE_TC_AND_COLOR_TO_DOT1P, list_of [str ''tc'', str ''dot1p'', str ''color'']), (num
        SAI_QOS_MAP_TYPE_TC_AND_COLOR_TO_DSCP, list_of [str ''tc'', str ''dscp'', str ''color''])]) [
        if_else (both (eq (var ''map_type'') (var ''qos_type_dict_key'')) (eq (length_of (item (dict_of [(num
          SAI_QOS_MAP_TYPE_DSCP_TO_TC, list_of [str ''dscp'', str ''tc'']), (num SAI_QOS_MAP_TYPE_DSCP_TO_COLOR, list_of [str
          ''dscp'', str ''color'']), (num SAI_QOS_MAP_TYPE_TC_TO_QUEUE, list_of [str ''tc'', str ''queue_index'']), (num
          SAI_QOS_MAP_TYPE_DOT1P_TO_COLOR, list_of [str ''dot1p'', str ''color'']), (num SAI_QOS_MAP_TYPE_DOT1P_TO_TC, list_of
          [str ''dot1p'', str ''tc'']), (num SAI_QOS_MAP_TYPE_PFC_PRIORITY_TO_QUEUE, list_of [str ''prio'', str
          ''queue_index'']), (num SAI_QOS_MAP_TYPE_PFC_PRIORITY_TO_PRIORITY_GROUP, list_of [str ''prio'', str ''pg'']), (num
          SAI_QOS_MAP_TYPE_TC_TO_PRIORITY_GROUP, list_of [str ''tc'', str ''pg'']), (num SAI_QOS_MAP_TYPE_TC_AND_COLOR_TO_DOT1P,
          list_of [str ''tc'', str ''dot1p'', str ''color'']), (num SAI_QOS_MAP_TYPE_TC_AND_COLOR_TO_DSCP, list_of [str ''tc'',
          str ''dscp'', str ''color''])]) (var ''qos_type_dict_key''))) (num 2))) [
          for_in [''key_list_data''] (var ''key_list'') [
            assign ''value_list_data'' (item (var ''data_list'') (var ''i'')),
            assign ''mapping'' (struct ''sai_thrift_qos_map_t'' [(''key'', struct_from ''sai_thrift_qos_map_params_t'' (dict_of
              [(item (item (dict_of [(num SAI_QOS_MAP_TYPE_DSCP_TO_TC, list_of [str ''dscp'', str ''tc'']), (num
              SAI_QOS_MAP_TYPE_DSCP_TO_COLOR, list_of [str ''dscp'', str ''color'']), (num SAI_QOS_MAP_TYPE_TC_TO_QUEUE, list_of
              [str ''tc'', str ''queue_index'']), (num SAI_QOS_MAP_TYPE_DOT1P_TO_COLOR, list_of [str ''dot1p'', str ''color'']),
              (num SAI_QOS_MAP_TYPE_DOT1P_TO_TC, list_of [str ''dot1p'', str ''tc'']), (num
              SAI_QOS_MAP_TYPE_PFC_PRIORITY_TO_QUEUE, list_of [str ''prio'', str ''queue_index'']), (num
              SAI_QOS_MAP_TYPE_PFC_PRIORITY_TO_PRIORITY_GROUP, list_of [str ''prio'', str ''pg'']), (num
              SAI_QOS_MAP_TYPE_TC_TO_PRIORITY_GROUP, list_of [str ''tc'', str ''pg'']), (num
              SAI_QOS_MAP_TYPE_TC_AND_COLOR_TO_DOT1P, list_of [str ''tc'', str ''dot1p'', str ''color'']), (num
              SAI_QOS_MAP_TYPE_TC_AND_COLOR_TO_DSCP, list_of [str ''tc'', str ''dscp'', str ''color''])]) (var
              ''qos_type_dict_key'')) (num 0), var ''key_list_data'')])), (''value'', struct_from
              ''sai_thrift_qos_map_params_t'' (dict_of [(item (item (dict_of [(num SAI_QOS_MAP_TYPE_DSCP_TO_TC, list_of [str
              ''dscp'', str ''tc'']), (num SAI_QOS_MAP_TYPE_DSCP_TO_COLOR, list_of [str ''dscp'', str ''color'']), (num
              SAI_QOS_MAP_TYPE_TC_TO_QUEUE, list_of [str ''tc'', str ''queue_index'']), (num SAI_QOS_MAP_TYPE_DOT1P_TO_COLOR,
              list_of [str ''dot1p'', str ''color'']), (num SAI_QOS_MAP_TYPE_DOT1P_TO_TC, list_of [str ''dot1p'', str ''tc'']),
              (num SAI_QOS_MAP_TYPE_PFC_PRIORITY_TO_QUEUE, list_of [str ''prio'', str ''queue_index'']), (num
              SAI_QOS_MAP_TYPE_PFC_PRIORITY_TO_PRIORITY_GROUP, list_of [str ''prio'', str ''pg'']), (num
              SAI_QOS_MAP_TYPE_TC_TO_PRIORITY_GROUP, list_of [str ''tc'', str ''pg'']), (num
              SAI_QOS_MAP_TYPE_TC_AND_COLOR_TO_DOT1P, list_of [str ''tc'', str ''dot1p'', str ''color'']), (num
              SAI_QOS_MAP_TYPE_TC_AND_COLOR_TO_DSCP, list_of [str ''tc'', str ''dscp'', str ''color''])]) (var
              ''qos_type_dict_key'')) (num 1), var ''value_list_data'')]))]),
            assign ''map_list'' (appended (var ''map_list'') (var ''mapping'')),
            assign ''i'' (add (var ''i'') (num 1))]] [
          if_else (both (eq (var ''map_type'') (var ''qos_type_dict_key'')) (eq (length_of (item (dict_of [(num
            SAI_QOS_MAP_TYPE_DSCP_TO_TC, list_of [str ''dscp'', str ''tc'']), (num SAI_QOS_MAP_TYPE_DSCP_TO_COLOR, list_of [str
            ''dscp'', str ''color'']), (num SAI_QOS_MAP_TYPE_TC_TO_QUEUE, list_of [str ''tc'', str ''queue_index'']), (num
            SAI_QOS_MAP_TYPE_DOT1P_TO_COLOR, list_of [str ''dot1p'', str ''color'']), (num SAI_QOS_MAP_TYPE_DOT1P_TO_TC, list_of
            [str ''dot1p'', str ''tc'']), (num SAI_QOS_MAP_TYPE_PFC_PRIORITY_TO_QUEUE, list_of [str ''prio'', str
            ''queue_index'']), (num SAI_QOS_MAP_TYPE_PFC_PRIORITY_TO_PRIORITY_GROUP, list_of [str ''prio'', str ''pg'']), (num
            SAI_QOS_MAP_TYPE_TC_TO_PRIORITY_GROUP, list_of [str ''tc'', str ''pg'']), (num
            SAI_QOS_MAP_TYPE_TC_AND_COLOR_TO_DOT1P, list_of [str ''tc'', str ''dot1p'', str ''color'']), (num
            SAI_QOS_MAP_TYPE_TC_AND_COLOR_TO_DSCP, list_of [str ''tc'', str ''dscp'', str ''color''])]) (var
            ''qos_type_dict_key''))) (num 3))) [
            for_in [''key_list_data1'', ''key_list_data2''] (var ''key_list'') [
              assign ''value_list_data'' (item (var ''data_list'') (var ''i'')),
              assign ''mapping'' (struct ''sai_thrift_qos_map_t'' [(''key'', struct_from ''sai_thrift_qos_map_params_t''
                (dict_of [(item (item (dict_of [(num SAI_QOS_MAP_TYPE_DSCP_TO_TC, list_of [str ''dscp'', str ''tc'']), (num
                SAI_QOS_MAP_TYPE_DSCP_TO_COLOR, list_of [str ''dscp'', str ''color'']), (num SAI_QOS_MAP_TYPE_TC_TO_QUEUE,
                list_of [str ''tc'', str ''queue_index'']), (num SAI_QOS_MAP_TYPE_DOT1P_TO_COLOR, list_of [str ''dot1p'', str
                ''color'']), (num SAI_QOS_MAP_TYPE_DOT1P_TO_TC, list_of [str ''dot1p'', str ''tc'']), (num
                SAI_QOS_MAP_TYPE_PFC_PRIORITY_TO_QUEUE, list_of [str ''prio'', str ''queue_index'']), (num
                SAI_QOS_MAP_TYPE_PFC_PRIORITY_TO_PRIORITY_GROUP, list_of [str ''prio'', str ''pg'']), (num
                SAI_QOS_MAP_TYPE_TC_TO_PRIORITY_GROUP, list_of [str ''tc'', str ''pg'']), (num
                SAI_QOS_MAP_TYPE_TC_AND_COLOR_TO_DOT1P, list_of [str ''tc'', str ''dot1p'', str ''color'']), (num
                SAI_QOS_MAP_TYPE_TC_AND_COLOR_TO_DSCP, list_of [str ''tc'', str ''dscp'', str ''color''])]) (var
                ''qos_type_dict_key'')) (num 0), var ''key_list_data1''), (item (item (dict_of [(num
                SAI_QOS_MAP_TYPE_DSCP_TO_TC, list_of [str ''dscp'', str ''tc'']), (num SAI_QOS_MAP_TYPE_DSCP_TO_COLOR, list_of
                [str ''dscp'', str ''color'']), (num SAI_QOS_MAP_TYPE_TC_TO_QUEUE, list_of [str ''tc'', str ''queue_index'']),
                (num SAI_QOS_MAP_TYPE_DOT1P_TO_COLOR, list_of [str ''dot1p'', str ''color'']), (num
                SAI_QOS_MAP_TYPE_DOT1P_TO_TC, list_of [str ''dot1p'', str ''tc'']), (num SAI_QOS_MAP_TYPE_PFC_PRIORITY_TO_QUEUE,
                list_of [str ''prio'', str ''queue_index'']), (num SAI_QOS_MAP_TYPE_PFC_PRIORITY_TO_PRIORITY_GROUP, list_of [str
                ''prio'', str ''pg'']), (num SAI_QOS_MAP_TYPE_TC_TO_PRIORITY_GROUP, list_of [str ''tc'', str ''pg'']), (num
                SAI_QOS_MAP_TYPE_TC_AND_COLOR_TO_DOT1P, list_of [str ''tc'', str ''dot1p'', str ''color'']), (num
                SAI_QOS_MAP_TYPE_TC_AND_COLOR_TO_DSCP, list_of [str ''tc'', str ''dscp'', str ''color''])]) (var
                ''qos_type_dict_key'')) (num 2), var ''key_list_data2'')])), (''value'', struct_from
                ''sai_thrift_qos_map_params_t'' (dict_of [(item (item (dict_of [(num SAI_QOS_MAP_TYPE_DSCP_TO_TC, list_of [str
                ''dscp'', str ''tc'']), (num SAI_QOS_MAP_TYPE_DSCP_TO_COLOR, list_of [str ''dscp'', str ''color'']), (num
                SAI_QOS_MAP_TYPE_TC_TO_QUEUE, list_of [str ''tc'', str ''queue_index'']), (num SAI_QOS_MAP_TYPE_DOT1P_TO_COLOR,
                list_of [str ''dot1p'', str ''color'']), (num SAI_QOS_MAP_TYPE_DOT1P_TO_TC, list_of [str ''dot1p'', str
                ''tc'']), (num SAI_QOS_MAP_TYPE_PFC_PRIORITY_TO_QUEUE, list_of [str ''prio'', str ''queue_index'']), (num
                SAI_QOS_MAP_TYPE_PFC_PRIORITY_TO_PRIORITY_GROUP, list_of [str ''prio'', str ''pg'']), (num
                SAI_QOS_MAP_TYPE_TC_TO_PRIORITY_GROUP, list_of [str ''tc'', str ''pg'']), (num
                SAI_QOS_MAP_TYPE_TC_AND_COLOR_TO_DOT1P, list_of [str ''tc'', str ''dot1p'', str ''color'']), (num
                SAI_QOS_MAP_TYPE_TC_AND_COLOR_TO_DSCP, list_of [str ''tc'', str ''dscp'', str ''color''])]) (var
                ''qos_type_dict_key'')) (num 1), var ''value_list_data'')]))]),
              assign ''map_list'' (appended (var ''map_list'') (var ''mapping'')),
              assign ''i'' (add (var ''i'') (num 1))]] []]],
      assign ''qos_map_list'' (struct ''sai_thrift_qos_map_list_t'' [(''count'', length_of (var ''map_list'')), (''maplist'',
        var ''map_list'')]),
      assign ''qos_map_id'' (api_create ''qos_map'' [(''type'', var ''map_type''), (''map_to_value_list'', var
        ''qos_map_list'')]),
      return (var ''qos_map_id'')]"

definition PortQosMapAttributeTest_setUp :: "'d stmt" where
  "PortQosMapAttributeTest_setUp = block [
      set_self ''portx'' none,
      super_setUp]"

definition PortQosMapAttributeTest_portQosDscpToTcMapAttributeTest :: "'d stmt" where
  "PortQosMapAttributeTest_portQosDscpToTcMapAttributeTest = block [
      assign ''ingress_key_list'' (list_of [num 1, num 2, num 3, num 4]),
      assign ''ingress_data_list'' (list_of [num 11, num 12, num 13, num 14]),
      assign ''qos_map_id'' (invoke [(''map_type'', num SAI_QOS_MAP_TYPE_DSCP_TO_TC), (''key_list'', var ''ingress_key_list''),
        (''data_list'', var ''ingress_data_list'')] create_qos_map),
      assert (ne (var ''qos_map_id'') (num 0)),
      try_finally [
        assign ''qos_dscp_to_tc_map'' none,
        assign ''initial_qos_map_id'' (num 0),
        if_else (is_true (bool False)) [
          assign ''initial_qos_map_id'' (var ''qos_map_id''),
          assign ''qos_dscp_to_tc_map'' (var ''qos_map_id'')] [],
        assign ''sai_list'' (struct ''sai_thrift_u32_list_t'' [(''count'', num 1), (''uint32list'', list_of [num 34])]),
        set_self ''portx'' (api_create ''port'' [(''hw_lane_list'', var ''sai_list''), (''speed'', num 25000),
          (''qos_default_tc'', num 7), (''qos_dscp_to_tc_map'', var ''qos_dscp_to_tc_map'')]),
        assert (ne (self ''portx'') (num 0)),
        assign ''attr'' (api_get ''port'' (self ''portx'') [(''qos_dscp_to_tc_map'', bool True)]),
        assert_eq (item (var ''attr'') (str ''qos_dscp_to_tc_map'')) (var ''initial_qos_map_id''),
        assign ''status'' (api_set ''port'' (self ''portx'') [(''qos_dscp_to_tc_map'', num 0)]),
        assert_eq (var ''status'') (num SAI_STATUS_SUCCESS),
        assign ''status'' (api_set ''port'' (self ''portx'') [(''qos_dscp_to_tc_map'', var ''qos_map_id'')]),
        assert_eq (var ''status'') (num SAI_STATUS_SUCCESS),
        assign ''attr'' (api_get ''port'' (self ''portx'') [(''qos_dscp_to_tc_map'', bool True)]),
        assert_eq (item (var ''attr'') (str ''qos_dscp_to_tc_map'')) (var ''qos_map_id'')] [
        run (api_set ''port'' (self ''portx'') [(''qos_dscp_to_tc_map'', num 0)]),
        run (api_remove ''qos_map'' (var ''qos_map_id'')),
        run (api_remove ''port'' (self ''portx''))]]"

definition PortQosMapAttributeTest_portQosDot1pToColorMapAttributeTest :: "'d stmt" where
  "PortQosMapAttributeTest_portQosDot1pToColorMapAttributeTest = block [
      assign ''ingress_key_list'' (list_of [num 1, num 2, num 3, num 4]),
      assign ''ingress_data_list'' (list_of [num 11, num 12, num 13, num 14]),
      assign ''qos_map_id'' (invoke [(''map_type'', num SAI_QOS_MAP_TYPE_DOT1P_TO_COLOR), (''key_list'', var
        ''ingress_key_list''), (''data_list'', var ''ingress_data_list'')] create_qos_map),
      assert (ne (var ''qos_map_id'') (num 0)),
      try_finally [
        assign ''qos_dot1p_to_color_map'' none,
        assign ''initial_qos_map_id'' (num 0),
        if_else (is_true (bool False)) [
          assign ''initial_qos_map_id'' (var ''qos_map_id''),
          assign ''qos_dot1p_to_color_map'' (var ''qos_map_id'')] [],
        assign ''sai_list'' (struct ''sai_thrift_u32_list_t'' [(''count'', num 1), (''uint32list'', list_of [num 34])]),
        set_self ''portx'' (api_create ''port'' [(''hw_lane_list'', var ''sai_list''), (''speed'', num 25000),
          (''qos_default_tc'', num 7), (''qos_dot1p_to_color_map'', var ''qos_dot1p_to_color_map'')]),
        assert (ne (self ''portx'') (num 0)),
        assign ''attr'' (api_get ''port'' (self ''portx'') [(''qos_dot1p_to_color_map'', bool True)]),
        assert_eq (item (var ''attr'') (str ''qos_dot1p_to_color_map'')) (var ''initial_qos_map_id''),
        assign ''status'' (api_set ''port'' (self ''portx'') [(''qos_dot1p_to_color_map'', num 0)]),
        assert_eq (var ''status'') (num SAI_STATUS_SUCCESS),
        assign ''status'' (api_set ''port'' (self ''portx'') [(''qos_dot1p_to_color_map'', var ''qos_map_id'')]),
        assert_eq (var ''status'') (num SAI_STATUS_SUCCESS),
        assign ''attr'' (api_get ''port'' (self ''portx'') [(''qos_dot1p_to_color_map'', bool True)]),
        assert_eq (item (var ''attr'') (str ''qos_dot1p_to_color_map'')) (var ''qos_map_id'')] [
        run (api_set ''port'' (self ''portx'') [(''qos_dot1p_to_color_map'', num 0)]),
        run (api_remove ''qos_map'' (var ''qos_map_id'')),
        run (api_remove ''port'' (self ''portx''))]]"

definition PortQosMapAttributeTest_portQosDot1pToTcMapAttributeTest :: "'d stmt" where
  "PortQosMapAttributeTest_portQosDot1pToTcMapAttributeTest = block [
      assign ''ingress_key_list'' (list_of [num 1, num 2, num 3, num 4]),
      assign ''ingress_data_list'' (list_of [num 11, num 12, num 13, num 14]),
      assign ''qos_map_id'' (invoke [(''map_type'', num SAI_QOS_MAP_TYPE_DOT1P_TO_TC), (''key_list'', var ''ingress_key_list''),
        (''data_list'', var ''ingress_data_list'')] create_qos_map),
      assert (ne (var ''qos_map_id'') (num 0)),
      try_finally [
        assign ''qos_dot1p_to_tc_map'' none,
        assign ''initial_qos_map_id'' (num 0),
        if_else (is_true (bool False)) [
          assign ''initial_qos_map_id'' (var ''qos_map_id''),
          assign ''qos_dot1p_to_tc_map'' (var ''qos_map_id'')] [],
        assign ''sai_list'' (struct ''sai_thrift_u32_list_t'' [(''count'', num 1), (''uint32list'', list_of [num 34])]),
        set_self ''portx'' (api_create ''port'' [(''hw_lane_list'', var ''sai_list''), (''speed'', num 25000),
          (''qos_default_tc'', num 7), (''qos_dot1p_to_tc_map'', var ''qos_dot1p_to_tc_map'')]),
        assert (ne (self ''portx'') (num 0)),
        assign ''attr'' (api_get ''port'' (self ''portx'') [(''qos_dot1p_to_tc_map'', bool True)]),
        assert_eq (item (var ''attr'') (str ''qos_dot1p_to_tc_map'')) (var ''initial_qos_map_id''),
        assign ''status'' (api_set ''port'' (self ''portx'') [(''qos_dot1p_to_tc_map'', num 0)]),
        assert_eq (var ''status'') (num SAI_STATUS_SUCCESS),
        assign ''status'' (api_set ''port'' (self ''portx'') [(''qos_dot1p_to_tc_map'', var ''qos_map_id'')]),
        assert_eq (var ''status'') (num SAI_STATUS_SUCCESS),
        assign ''attr'' (api_get ''port'' (self ''portx'') [(''qos_dot1p_to_tc_map'', bool True)]),
        assert_eq (item (var ''attr'') (str ''qos_dot1p_to_tc_map'')) (var ''qos_map_id'')] [
        run (api_set ''port'' (self ''portx'') [(''qos_dot1p_to_tc_map'', num 0)]),
        run (api_remove ''qos_map'' (var ''qos_map_id'')),
        run (api_remove ''port'' (self ''portx''))]]"

definition PortQosMapAttributeTest_portQosDscpToColorMapAttributeTest :: "'d stmt" where
  "PortQosMapAttributeTest_portQosDscpToColorMapAttributeTest = block [
      assign ''ingress_key_list'' (list_of [num 1, num 2, num 3, num 4]),
      assign ''ingress_data_list'' (list_of [num 11, num 12, num 13, num 14]),
      assign ''qos_map_id'' (invoke [(''map_type'', num SAI_QOS_MAP_TYPE_DSCP_TO_COLOR), (''key_list'', var
        ''ingress_key_list''), (''data_list'', var ''ingress_data_list'')] create_qos_map),
      assert (ne (var ''qos_map_id'') (num 0)),
      try_finally [
        assign ''qos_dscp_to_color_map'' none,
        assign ''initial_qos_map_id'' (num 0),
        if_else (is_true (bool False)) [
          assign ''initial_qos_map_id'' (var ''qos_map_id''),
          assign ''qos_dscp_to_color_map'' (var ''qos_map_id'')] [],
        assign ''sai_list'' (struct ''sai_thrift_u32_list_t'' [(''count'', num 1), (''uint32list'', list_of [num 34])]),
        set_self ''portx'' (api_create ''port'' [(''hw_lane_list'', var ''sai_list''), (''speed'', num 25000),
          (''qos_default_tc'', num 7), (''qos_dscp_to_color_map'', var ''qos_dscp_to_color_map'')]),
        assert (ne (self ''portx'') (num 0)),
        assign ''attr'' (api_get ''port'' (self ''portx'') [(''qos_dscp_to_color_map'', bool True)]),
        assert_eq (item (var ''attr'') (str ''qos_dscp_to_color_map'')) (var ''initial_qos_map_id''),
        assign ''status'' (api_set ''port'' (self ''portx'') [(''qos_dscp_to_color_map'', num 0)]),
        assert_eq (var ''status'') (num SAI_STATUS_SUCCESS),
        assign ''status'' (api_set ''port'' (self ''portx'') [(''qos_dscp_to_color_map'', var ''qos_map_id'')]),
        assert_eq (var ''status'') (num SAI_STATUS_SUCCESS),
        assign ''attr'' (api_get ''port'' (self ''portx'') [(''qos_dscp_to_color_map'', bool True)]),
        assert_eq (item (var ''attr'') (str ''qos_dscp_to_color_map'')) (var ''qos_map_id'')] [
        run (api_set ''port'' (self ''portx'') [(''qos_dscp_to_color_map'', num 0)]),
        run (api_remove ''qos_map'' (var ''qos_map_id'')),
        run (api_remove ''port'' (self ''portx''))]]"

definition PortQosMapAttributeTest_portQosTcToQueueMapAttributeTest :: "'d stmt" where
  "PortQosMapAttributeTest_portQosTcToQueueMapAttributeTest = block [
      assign ''ingress_key_list'' (list_of [num 1, num 2, num 3, num 4]),
      assign ''ingress_data_list'' (list_of [num 1, num 2, num 3, num 4]),
      assign ''qos_map_id'' (invoke [(''map_type'', num SAI_QOS_MAP_TYPE_TC_TO_QUEUE), (''key_list'', var ''ingress_key_list''),
        (''data_list'', var ''ingress_data_list'')] create_qos_map),
      assert (ne (var ''qos_map_id'') (num 0)),
      try_finally [
        assign ''qos_tc_to_queue_map'' none,
        assign ''initial_qos_map_id'' (num 0),
        if_else (is_true (bool False)) [
          assign ''initial_qos_map_id'' (var ''qos_map_id''),
          assign ''qos_tc_to_queue_map'' (var ''qos_map_id'')] [],
        assign ''sai_list'' (struct ''sai_thrift_u32_list_t'' [(''count'', num 1), (''uint32list'', list_of [num 34])]),
        set_self ''portx'' (api_create ''port'' [(''hw_lane_list'', var ''sai_list''), (''speed'', num 25000),
          (''qos_default_tc'', num 7), (''qos_tc_to_queue_map'', var ''qos_tc_to_queue_map'')]),
        assert (ne (self ''portx'') (num 0)),
        assign ''attr'' (api_get ''port'' (self ''portx'') [(''qos_tc_to_queue_map'', bool True)]),
        assert_eq (item (var ''attr'') (str ''qos_tc_to_queue_map'')) (var ''initial_qos_map_id''),
        assign ''status'' (api_set ''port'' (self ''portx'') [(''qos_tc_to_queue_map'', num 0)]),
        assert_eq (var ''status'') (num SAI_STATUS_SUCCESS),
        assign ''status'' (api_set ''port'' (self ''portx'') [(''qos_tc_to_queue_map'', var ''qos_map_id'')]),
        assert_eq (var ''status'') (num SAI_STATUS_SUCCESS),
        assign ''attr'' (api_get ''port'' (self ''portx'') [(''qos_tc_to_queue_map'', bool True)]),
        assert_eq (item (var ''attr'') (str ''qos_tc_to_queue_map'')) (var ''qos_map_id'')] [
        run (api_set ''port'' (self ''portx'') [(''qos_tc_to_queue_map'', num 0)]),
        run (api_remove ''qos_map'' (var ''qos_map_id'')),
        run (api_remove ''port'' (self ''portx''))]]"

definition PortQosMapAttributeTest_portQosTcToPriorityGroupMapAttributeTest :: "'d stmt" where
  "PortQosMapAttributeTest_portQosTcToPriorityGroupMapAttributeTest = block [
      assign ''map_list'' (list_of []),
      assign ''tc_to_pg_list'' (list_of [list_of [num 1, num 1], list_of [num 2, num 1], list_of [num 3, num 1], list_of [num 4,
        num 1]]),
      for_in [''tc'', ''priority_group''] (var ''tc_to_pg_list'') [
        assign ''tc_to_queue'' (struct ''sai_thrift_qos_map_t'' [(''key'', struct ''sai_thrift_qos_map_params_t'' [(''tc'', var
          ''tc'')]), (''value'', struct ''sai_thrift_qos_map_params_t'' [(''pg'', var ''priority_group'')])]),
        assign ''map_list'' (appended (var ''map_list'') (var ''tc_to_queue''))],
      assign ''qos_map_list'' (struct ''sai_thrift_qos_map_list_t'' [(''count'', length_of (var ''map_list'')), (''maplist'',
        var ''map_list'')]),
      assign ''qos_map_id'' (api_create ''qos_map'' [(''type'', num SAI_QOS_MAP_TYPE_TC_TO_PRIORITY_GROUP),
        (''map_to_value_list'', var ''qos_map_list'')]),
      assert (ne (var ''qos_map_id'') (num 0)),
      try_finally [
        assign ''qos_tc_to_priority_group_map'' none,
        assign ''initial_qos_map_id'' (num 0),
        if_else (is_true (bool False)) [
          assign ''initial_qos_map_id'' (var ''qos_map_id''),
          assign ''qos_tc_to_priority_group_map'' (var ''qos_map_id'')] [],
        assign ''sai_list'' (struct ''sai_thrift_u32_list_t'' [(''count'', num 1), (''uint32list'', list_of [num 34])]),
        set_self ''portx'' (api_create ''port'' [(''hw_lane_list'', var ''sai_list''), (''speed'', num 25000),
          (''qos_default_tc'', num 7), (''qos_tc_to_priority_group_map'', var ''qos_tc_to_priority_group_map'')]),
        assert (ne (self ''portx'') (num 0)),
        assign ''attr'' (api_get ''port'' (self ''portx'') [(''qos_tc_to_priority_group_map'', bool True)]),
        assert_eq (item (var ''attr'') (str ''qos_tc_to_priority_group_map'')) (var ''initial_qos_map_id''),
        assign ''status'' (api_set ''port'' (self ''portx'') [(''qos_tc_to_priority_group_map'', num 0)]),
        assert_eq (var ''status'') (num SAI_STATUS_SUCCESS),
        assign ''status'' (api_set ''port'' (self ''portx'') [(''qos_tc_to_priority_group_map'', var ''qos_map_id'')]),
        assert_eq (var ''status'') (num SAI_STATUS_SUCCESS),
        assign ''attr'' (api_get ''port'' (self ''portx'') [(''qos_tc_to_priority_group_map'', bool True)]),
        assert_eq (item (var ''attr'') (str ''qos_tc_to_priority_group_map'')) (var ''qos_map_id'')] [
        run (api_set ''port'' (self ''portx'') [(''qos_tc_to_priority_group_map'', num 0)]),
        run (api_remove ''qos_map'' (var ''qos_map_id'')),
        run (api_remove ''port'' (self ''portx''))]]"

definition PortQosMapAttributeTest_portQosTcAndColorToDscpMapAttributeTest :: "'d stmt" where
  "PortQosMapAttributeTest_portQosTcAndColorToDscpMapAttributeTest = block [
      assign ''ingress_key_list'' (list_of [list_of [num 1, num 1], list_of [num 2, num 1], list_of [num 3, num 1], list_of [num
        4, num 1]]),
      assign ''ingress_data_list'' (list_of [num 1, num 1, num 1, num 2]),
      assign ''qos_map_id'' (invoke [(''map_type'', num SAI_QOS_MAP_TYPE_TC_AND_COLOR_TO_DSCP), (''key_list'', var
        ''ingress_key_list''), (''data_list'', var ''ingress_data_list'')] create_qos_map),
      assert (ne (var ''qos_map_id'') (num 0)),
      try_finally [
        assign ''qos_tc_and_color_to_dscp_map'' none,
        assign ''initial_qos_map_id'' (num 0),
        if_else (is_true (bool False)) [
          assign ''initial_qos_map_id'' (var ''qos_map_id''),
          assign ''qos_tc_and_color_to_dscp_map'' (var ''qos_map_id'')] [],
        assign ''sai_list'' (struct ''sai_thrift_u32_list_t'' [(''count'', num 1), (''uint32list'', list_of [num 34])]),
        set_self ''portx'' (api_create ''port'' [(''hw_lane_list'', var ''sai_list''), (''speed'', num 25000),
          (''qos_default_tc'', num 7), (''qos_tc_and_color_to_dscp_map'', var ''qos_tc_and_color_to_dscp_map'')]),
        assert (ne (self ''portx'') (num 0)),
        assign ''attr'' (api_get ''port'' (self ''portx'') [(''qos_tc_and_color_to_dscp_map'', bool True)]),
        assert_eq (item (var ''attr'') (str ''qos_tc_and_color_to_dscp_map'')) (var ''initial_qos_map_id''),
        assign ''status'' (api_set ''port'' (self ''portx'') [(''qos_tc_and_color_to_dscp_map'', num 0)]),
        assert_eq (var ''status'') (num SAI_STATUS_SUCCESS),
        assign ''status'' (api_set ''port'' (self ''portx'') [(''qos_tc_and_color_to_dscp_map'', var ''qos_map_id'')]),
        assert_eq (var ''status'') (num SAI_STATUS_SUCCESS),
        assign ''attr'' (api_get ''port'' (self ''portx'') [(''qos_tc_and_color_to_dscp_map'', bool True)]),
        assert_eq (item (var ''attr'') (str ''qos_tc_and_color_to_dscp_map'')) (var ''qos_map_id'')] [
        run (api_set ''port'' (self ''portx'') [(''qos_tc_and_color_to_dscp_map'', num 0)]),
        run (api_remove ''qos_map'' (var ''qos_map_id'')),
        run (api_remove ''port'' (self ''portx''))]]"

definition PortQosMapAttributeTest_portQosTcAndColorToDot1pMapAttributeTest :: "'d stmt" where
  "PortQosMapAttributeTest_portQosTcAndColorToDot1pMapAttributeTest = block [
      assign ''ingress_key_list'' (list_of [list_of [num 1, num 1], list_of [num 2, num 1], list_of [num 3, num 1], list_of [num
        4, num 1]]),
      assign ''ingress_data_list'' (list_of [num 1, num 1, num 0, num 0]),
      assign ''qos_map_id'' (invoke [(''map_type'', num SAI_QOS_MAP_TYPE_TC_AND_COLOR_TO_DOT1P), (''key_list'', var
        ''ingress_key_list''), (''data_list'', var ''ingress_data_list'')] create_qos_map),
      assert (ne (var ''qos_map_id'') (num 0)),
      try_finally [
        assign ''qos_tc_and_color_to_dot1p_map'' none,
        assign ''initial_qos_map_id'' (num 0),
        if_else (is_true (bool False)) [
          assign ''initial_qos_map_id'' (var ''qos_map_id''),
          assign ''qos_tc_and_color_to_dot1p_map'' (var ''qos_map_id'')] [],
        assign ''sai_list'' (struct ''sai_thrift_u32_list_t'' [(''count'', num 1), (''uint32list'', list_of [num 34])]),
        set_self ''portx'' (api_create ''port'' [(''hw_lane_list'', var ''sai_list''), (''speed'', num 25000),
          (''qos_default_tc'', num 7), (''qos_tc_and_color_to_dot1p_map'', var ''qos_tc_and_color_to_dot1p_map'')]),
        assert (ne (self ''portx'') (num 0)),
        assign ''attr'' (api_get ''port'' (self ''portx'') [(''qos_tc_and_color_to_dot1p_map'', bool True)]),
        assert_eq (item (var ''attr'') (str ''qos_tc_and_color_to_dot1p_map'')) (var ''initial_qos_map_id''),
        assign ''status'' (api_set ''port'' (self ''portx'') [(''qos_tc_and_color_to_dot1p_map'', num 0)]),
        assert_eq (var ''status'') (num SAI_STATUS_SUCCESS),
        assign ''status'' (api_set ''port'' (self ''portx'') [(''qos_tc_and_color_to_dot1p_map'', var ''qos_map_id'')]),
        assert_eq (var ''status'') (num SAI_STATUS_SUCCESS),
        assign ''attr'' (api_get ''port'' (self ''portx'') [(''qos_tc_and_color_to_dot1p_map'', bool True)]),
        assert_eq (item (var ''attr'') (str ''qos_tc_and_color_to_dot1p_map'')) (var ''qos_map_id'')] [
        run (api_set ''port'' (self ''portx'') [(''qos_tc_and_color_to_dot1p_map'', num 0)]),
        run (api_remove ''qos_map'' (var ''qos_map_id'')),
        run (api_remove ''port'' (self ''portx''))]]"

definition PortQosMapAttributeTest_portQosPfcPriorityToQueueMapAttributeTest :: "'d stmt" where
  "PortQosMapAttributeTest_portQosPfcPriorityToQueueMapAttributeTest = block [
      assign ''ingress_key_list'' (list_of [num 1, num 2, num 3, num 4]),
      assign ''ingress_data_list'' (list_of [num 1, num 1, num 1, num 1]),
      assign ''qos_map_id'' (invoke [(''map_type'', num SAI_QOS_MAP_TYPE_PFC_PRIORITY_TO_QUEUE), (''key_list'', var
        ''ingress_key_list''), (''data_list'', var ''ingress_data_list'')] create_qos_map),
      assert (ne (var ''qos_map_id'') (num 0)),
      try_finally [
        assign ''qos_pfc_priority_to_queue_map'' none,
        assign ''initial_qos_map_id'' (num 0),
        if_else (is_true (bool False)) [
          assign ''initial_qos_map_id'' (var ''qos_map_id''),
          assign ''qos_pfc_priority_to_queue_map'' (var ''qos_map_id'')] [],
        assign ''sai_list'' (struct ''sai_thrift_u32_list_t'' [(''count'', num 1), (''uint32list'', list_of [num 34])]),
        set_self ''portx'' (api_create ''port'' [(''hw_lane_list'', var ''sai_list''), (''speed'', num 25000),
          (''qos_default_tc'', num 7), (''qos_pfc_priority_to_queue_map'', var ''qos_pfc_priority_to_queue_map'')]),
        assert (ne (self ''portx'') (num 0)),
        assign ''attr'' (api_get ''port'' (self ''portx'') [(''qos_pfc_priority_to_queue_map'', bool True)]),
        assert_eq (item (var ''attr'') (str ''qos_pfc_priority_to_queue_map'')) (var ''initial_qos_map_id''),
        assign ''status'' (api_set ''port'' (self ''portx'') [(''qos_pfc_priority_to_queue_map'', num 0)]),
        assert_eq (var ''status'') (num SAI_STATUS_SUCCESS),
        assign ''status'' (api_set ''port'' (self ''portx'') [(''qos_pfc_priority_to_queue_map'', var ''qos_map_id'')]),
        assert_eq (var ''status'') (num SAI_STATUS_SUCCESS),
        assign ''attr'' (api_get ''port'' (self ''portx'') [(''qos_pfc_priority_to_queue_map'', bool True)]),
        assert_eq (item (var ''attr'') (str ''qos_pfc_priority_to_queue_map'')) (var ''qos_map_id'')] [
        run (api_set ''port'' (self ''portx'') [(''qos_pfc_priority_to_queue_map'', num 0)]),
        run (api_remove ''qos_map'' (var ''qos_map_id'')),
        run (api_remove ''port'' (self ''portx''))]]"

definition PortQosMapAttributeTest_runTest :: "'d stmt" where
  "PortQosMapAttributeTest_runTest = block [
      run (invoke [] PortQosMapAttributeTest_portQosDscpToTcMapAttributeTest),
      run (invoke [] PortQosMapAttributeTest_portQosDot1pToColorMapAttributeTest),
      run (invoke [] PortQosMapAttributeTest_portQosDot1pToTcMapAttributeTest),
      run (invoke [] PortQosMapAttributeTest_portQosDscpToColorMapAttributeTest),
      run (invoke [] PortQosMapAttributeTest_portQosTcToQueueMapAttributeTest),
      run (invoke [] PortQosMapAttributeTest_portQosTcToPriorityGroupMapAttributeTest),
      run (invoke [] PortQosMapAttributeTest_portQosTcAndColorToDscpMapAttributeTest),
      run (invoke [] PortQosMapAttributeTest_portQosTcAndColorToDot1pMapAttributeTest),
      run (invoke [] PortQosMapAttributeTest_portQosPfcPriorityToQueueMapAttributeTest)]"

definition PortQosMapAttributeTest_tearDown :: "'d stmt" where
  "PortQosMapAttributeTest_tearDown = block [
      super_tearDown]"

definition PortQosMapAttributeTest_portQosPfcPriorityToPriorityGroupMapAttributeTest :: "'d stmt" where
  "PortQosMapAttributeTest_portQosPfcPriorityToPriorityGroupMapAttributeTest = block [
      assign ''ingress_key_list'' (list_of [num 1]),
      assign ''ingress_data_list'' (list_of [num 0]),
      assign ''qos_map_id'' (invoke [(''map_type'', num SAI_QOS_MAP_TYPE_PFC_PRIORITY_TO_PRIORITY_GROUP), (''key_list'', var
        ''ingress_key_list''), (''data_list'', var ''ingress_data_list'')] create_qos_map),
      assert (ne (var ''qos_map_id'') (num 0)),
      try_finally [
        assign ''qos_pfc_ppg_map'' none,
        assign ''initial_qos_map_id'' (num 0),
        if_else (is_true (bool False)) [
          assign ''initial_qos_map_id'' (var ''qos_map_id'')] [],
        assign ''sai_list'' (struct ''sai_thrift_u32_list_t'' [(''count'', num 1), (''uint32list'', list_of [num 34])]),
        set_self ''portx'' (api_create ''port'' [(''hw_lane_list'', var ''sai_list''), (''speed'', num 25000),
          (''qos_default_tc'', num 7), (''qos_pfc_priority_to_priority_group_map'', var ''qos_pfc_ppg_map'')]),
        assert (ne (self ''portx'') (num 0)),
        assign ''attr'' (api_get ''port'' (self ''portx'') [(''qos_pfc_priority_to_priority_group_map'', bool True)]),
        assert_eq (item (var ''attr'') (str ''qos_pfc_priority_to_priority_group_map'')) (var ''initial_qos_map_id''),
        if_else (is_true (bool False)) [
          assign ''status'' (api_set ''port'' (self ''portx'') [(''qos_pfc_priority_to_priority_group_map'', num 0)]),
          assert_eq (var ''status'') (num SAI_STATUS_SUCCESS)] [],
        assign ''status'' (api_set ''port'' (self ''portx'') [(''qos_pfc_priority_to_priority_group_map'', var ''qos_map_id'')]),
        assert_eq (var ''status'') (num SAI_STATUS_SUCCESS),
        assign ''attr'' (api_get ''port'' (self ''portx'') [(''qos_pfc_priority_to_priority_group_map'', bool True)]),
        assert_eq (item (var ''attr'') (str ''qos_pfc_priority_to_priority_group_map'')) (var ''qos_map_id'')] [
        run (api_set ''port'' (self ''portx'') [(''qos_pfc_priority_to_priority_group_map'', num 0)]),
        run (api_remove ''qos_map'' (var ''qos_map_id'')),
        run (api_remove ''port'' (self ''portx''))]]"

definition PortFloodClass_setUp :: "'d stmt" where
  "PortFloodClass_setUp = block [
      super_setUp,
      set_self ''test_port'' none,
      set_self ''bp_port_list'' (list_of []),
      set_self ''vlan_member_list'' (list_of []),
      set_self ''test_port_list'' (list_of [self ''port0'', self ''port1'', self ''port2'', self ''port3'']),
      set_self ''dev_test_port_list'' (list_of [self ''dev_port0'', self ''dev_port1'', self ''dev_port2'', self ''dev_port3'']),
      assign ''vlan_id'' (num 1),
      assign ''i'' (num 0),
      for_in [''port''] (self ''test_port_list'') [
        assign ''attr'' (api_set ''port'' (var ''port'') [(''port_vlan_id'', var ''vlan_id'')]),
        print [var ''attr''],
        assign ''bp_port'' (api_create ''bridge_port'' [(''bridge_id'', self ''default_1q_bridge''), (''port_id'', var
          ''port''), (''type'', num SAI_BRIDGE_PORT_TYPE_PORT), (''admin_state'', bool True)]),
        set_self_named (formatted ''port%d_bp'' [var ''i'']) (var ''bp_port''),
        set_self ''bp_port_list'' (appended (self ''bp_port_list'') (var ''bp_port'')),
        assign ''vlan_member'' (api_create ''vlan_member'' [(''vlan_id'', self ''default_vlan_id''), (''bridge_port_id'', var
          ''bp_port''), (''vlan_tagging_mode'', num SAI_VLAN_TAGGING_MODE_UNTAGGED)]),
        set_self ''vlan_member_list'' (appended (self ''vlan_member_list'') (var ''vlan_member'')),
        assign ''i'' (add (var ''i'') (num 1))]]"

definition PortFloodClass_tearDown :: "'d stmt" where
  "PortFloodClass_tearDown = block [
      run (lib ''sai_thrift_flush_fdb_entries'' [] [(''entry_type'', num SAI_FDB_FLUSH_ENTRY_TYPE_ALL)]),
      for_in [''vlan_member''] (self ''vlan_member_list'') [
        run (api_remove ''vlan_member'' (var ''vlan_member''))],
      for_in [''bp_port''] (self ''bp_port_list'') [
        run (api_remove ''bridge_port'' (var ''bp_port''))],
      for_in [''port''] (self ''test_port_list'') [
        run (api_set ''port'' (var ''port'') [(''port_vlan_id'', num 0)])],
      super_tearDown]"

definition PortFecModeAttributeTest_setUp :: "'d stmt" where
  "PortFecModeAttributeTest_setUp = block [
      set_self ''portx'' (num 0),
      super_setUp]"

definition PortFecModeAttributeTest_tearDown :: "'d stmt" where
  "PortFecModeAttributeTest_tearDown = block [
      super_tearDown]"

definition PortSpeedAttributeTest_setUp :: "'d stmt" where
  "PortSpeedAttributeTest_setUp = block [
      set_self ''portx'' (num 0),
      super_setUp]"

definition PortSpeedAttributeTest_runTest :: "'d stmt" where
  "PortSpeedAttributeTest_runTest = block [
      try_finally [
        assign ''test_config'' (list_of []),
        assign ''test_config'' (appended (var ''test_config'') (dict_of [(str ''speed'', num 10000), (str ''speed_lanes'', num
          1), (str ''transit_speed'', num 25000)])),
        assign ''test_config'' (appended (var ''test_config'') (dict_of [(str ''speed'', num 25000), (str ''speed_lanes'', num
          1), (str ''transit_speed'', num 10000)])),
        for_in [''test''] (var ''test_config'') [
          if_else (no (is_none (item (var ''test'') (str ''transit_speed'')))) [
            assign ''num_lanes'' (invoke [(''speed'', item (var ''test'') (str ''transit_speed''))] speed_to_num_lanes),
            print [item (var ''test'') (str ''speed''), item (var ''test'') (str ''speed_lanes''), item (var ''test'') (str
              ''transit_speed''), var ''num_lanes'']] [
            print [item (var ''test'') (str ''speed''), item (var ''test'') (str ''speed_lanes'')]],
          assign ''num_lanes'' (item (var ''test'') (str ''speed_lanes'')),
          assign ''lane_list'' (invoke [(''num_lanes'', var ''num_lanes'')] num_lanes_to_lane_list),
          assign ''control_mode'' (num SAI_PORT_FLOW_CONTROL_MODE_RX_ONLY),
          set_self ''portx'' (api_create ''port'' [(''hw_lane_list'', var ''lane_list''), (''speed'', item (var ''test'') (str
            ''speed'')), (''global_flow_control_mode'', var ''control_mode''), (''internal_loopback_mode'', num
            SAI_PORT_INTERNAL_LOOPBACK_MODE_MAC), (''media_type'', num SAI_PORT_MEDIA_TYPE_COPPER), (''admin_state'', bool
            True)]),
          assert_ne (self ''portx'') (num 0),
          assign ''lane_list'' (struct ''sai_thrift_u32_list_t'' [(''count'', num 10), (''uint32list'', list_of [])]),
          assign ''attr'' (api_get ''port'' (self ''portx'') [(''oper_status'', bool True), (''speed'', bool True),
            (''hw_lane_list'', var ''lane_list'')]),
          assert_eq (field (item (var ''attr'') (str ''hw_lane_list'')) ''count'') (item (var ''test'') (str ''speed_lanes'')),
          assert_eq (item (var ''attr'') (str ''speed'')) (item (var ''test'') (str ''speed'')),
          if_else (no (is_none (item (var ''test'') (str ''transit_speed'')))) [
            assign ''num_lanes'' (invoke [(''speed'', item (var ''test'') (str ''transit_speed''))] speed_to_num_lanes),
            assign ''lane_list'' (invoke [(''num_lanes'', var ''num_lanes'')] num_lanes_to_lane_list),
            run (api_set ''port'' (self ''portx'') [(''speed'', item (var ''test'') (str ''transit_speed''))]),
            assign ''attr'' (api_get ''port'' (self ''portx'') [(''speed'', bool True), (''hw_lane_list'', var ''lane_list'')]),
            assert_eq (item (var ''attr'') (str ''speed'')) (item (var ''test'') (str ''transit_speed'')),
            assert_eq (field (item (var ''attr'') (str ''hw_lane_list'')) ''count'') (var ''num_lanes'')] [],
          run (api_remove ''port'' (self ''portx'')),
          set_self ''portx'' (num 0)]] [
        if_else (ne (self ''portx'') (num 0)) [
          run (api_remove ''port'' (self ''portx''))] []]]"

definition PortSpeedAttributeTest_tearDown :: "'d stmt" where
  "PortSpeedAttributeTest_tearDown = block [
      super_tearDown]"

definition PortAutoNegAttributeTest_setUp :: "'d stmt" where
  "PortAutoNegAttributeTest_setUp = block [
      set_self ''portx'' none,
      super_setUp]"

definition PortAutoNegAttributeTest_tearDown :: "'d stmt" where
  "PortAutoNegAttributeTest_tearDown = block [
      super_tearDown]"

definition set_port_speed :: "'d stmt" where
  "set_port_speed = block [
      run (api_set ''port'' (var ''port'') [(''speed'', var ''requested_speed'')]),
      if_else (is_true (var ''verify'')) [
        assign ''attr'' (api_get ''port'' (var ''port'') [(''speed'', bool True)]),
        if_else (ne (item (var ''attr'') (str ''speed'')) (var ''requested_speed'')) [
          return (bool False)] []] [],
      return (bool True)]"

definition PortAclBindingClass_setUp :: "'d stmt" where
  "PortAclBindingClass_setUp = block [
      run (invoke [] PortFloodClass_setUp),
      set_self ''port_pairs'' (list_of []),
      for_in [''dev_no''] (range_of (num 0) (self ''active_ports'')) [
        assign ''dev_port'' (self_named (formatted ''dev_port%d'' [var ''dev_no''])),
        assign ''port_obj'' (self_named (formatted ''port%d'' [var ''dev_no''])),
        set_self ''port_pairs'' (appended (self ''port_pairs'') (list_of [var ''port_obj'', var ''dev_port'']))]]"

definition PortAclBindingClass_tearDown :: "'d stmt" where
  "PortAclBindingClass_tearDown = block [
      run (invoke [] PortFloodClass_tearDown)]"

definition PortAclBindingClass_findPortObj :: "'d stmt" where
  "PortAclBindingClass_findPortObj = block [
      for_in [''portobj'', ''port_dev''] (self ''port_pairs'') [
        if_else (eq (var ''port'') (var ''port_dev'')) [
          return (var ''portobj'')] []],
      return (num 0)]"

definition PortAclBindingClass_portsToPortObjs :: "'d stmt" where
  "PortAclBindingClass_portsToPortObjs = block [
      assign ''port_objs'' (list_of []),
      for_in [''port''] (var ''ports'') [
        assign ''port_obj'' (invoke [(''port'', var ''port'')] PortAclBindingClass_findPortObj),
        assign ''port_objs'' (appended (var ''port_objs'') (var ''port_obj''))],
      return (var ''port_objs'')]"

definition PortAclBindingClass_getPortStats :: "'d stmt" where
  "PortAclBindingClass_getPortStats = block [
      assign ''total_cnt'' (num 0),
      for_in [''port''] (var ''ports'') [
        assign ''port_obj'' (invoke [(''port'', var ''port'')] PortAclBindingClass_findPortObj),
        for_in [''port_stat''] (var ''port_stats'') [
          assign ''initial_stats'' (query ''sai_thrift_get_port_stats'' [var ''port_obj''] []),
          assign ''stat'' (item (var ''initial_stats'') (var ''port_stat'')),
          assign ''total_cnt'' (add (var ''total_cnt'') (var ''stat''))]],
      return (var ''total_cnt'')]"

definition PortAclBindingClass_assignPortIngressAcl :: "'d stmt" where
  "PortAclBindingClass_assignPortIngressAcl = block [
      print [var ''acl'', var ''ports''],
      assign ''port_objs'' (invoke [(''ports'', var ''ports'')] PortAclBindingClass_portsToPortObjs),
      for_in [''port_obj''] (var ''port_objs'') [
        assign ''status'' (api_set ''port'' (var ''port_obj'') [(''ingress_acl'', var ''acl'')]),
        assert_eq (var ''status'') (num SAI_STATUS_SUCCESS)]]"

definition PortAclBindingClass_assignPortEgressAcl :: "'d stmt" where
  "PortAclBindingClass_assignPortEgressAcl = block [
      print [var ''acl'', var ''ports''],
      assign ''port_objs'' (invoke [(''ports'', var ''ports'')] PortAclBindingClass_portsToPortObjs),
      for_in [''port_obj''] (var ''port_objs'') [
        assign ''status'' (api_set ''port'' (var ''port_obj'') [(''egress_acl'', var ''acl'')]),
        assert_eq (var ''status'') (num SAI_STATUS_SUCCESS)]]"

definition PortAclBindingClass_clearAcl :: "'d stmt" where
  "PortAclBindingClass_clearAcl = block [
      for_in [''acl''] (var ''acl_list'') [
        run (api_remove ''acl_table_group_member'' (item (var ''acl'') (str ''acl_group_member''))),
        run (api_remove ''acl_table_group'' (item (var ''acl'') (str ''acl_table_group''))),
        run (api_remove ''acl_entry'' (item (var ''acl'') (str ''acl_entry''))),
        run (api_remove ''acl_table'' (item (var ''acl'') (str ''acl_table'')))]]"

definition PortAclBindingClass_setupPortIngresDropAcl :: "'d stmt" where
  "PortAclBindingClass_setupPortIngresDropAcl = block [
      assign ''stage'' (num SAI_ACL_STAGE_INGRESS),
      assign ''bind_points'' (list_of [num SAI_ACL_BIND_POINT_TYPE_PORT]),
      assign ''action_types'' (list_of [num SAI_ACL_ACTION_TYPE_PACKET_ACTION]),
      assign ''dip_mask'' (str ''255.255.255.0''),
      assign ''acl_bind_point_type_list'' (struct ''sai_thrift_s32_list_t'' [(''count'', length_of (var ''bind_points'')),
        (''int32list'', var ''bind_points'')]),
      assign ''acl_action_type_list'' (struct ''sai_thrift_s32_list_t'' [(''count'', length_of (var ''action_types'')),
        (''int32list'', var ''action_types'')]),
      if_else (no (is_none (var ''dip''))) [
        assign ''dip_ind'' (bool True),
        assign ''ip'' (struct ''sai_thrift_acl_field_data_t'' [(''data'', struct ''sai_thrift_acl_field_data_data_t'' [(''ip4'',
          var ''dip'')]), (''mask'', struct ''sai_thrift_acl_field_data_mask_t'' [(''ip4'', var ''dip_mask'')])])] [
        assign ''dip_ind'' none,
        assign ''ip'' none],
      if_else (no (is_none (var ''dmac''))) [
        assign ''dmac_ind'' (bool True),
        assign ''mac'' (struct ''sai_thrift_acl_field_data_t'' [(''data'', struct ''sai_thrift_acl_field_data_data_t''
          [(''mac'', var ''dmac'')]), (''mask'', struct ''sai_thrift_acl_field_data_mask_t'' [(''mac'', var ''mac_mask'')])])] [
        assign ''dmac_ind'' none,
        assign ''mac'' none],
      assign ''acl_table_id'' (api_create ''acl_table'' [(''acl_stage'', var ''stage''), (''acl_bind_point_type_list'', var
        ''acl_bind_point_type_list''), (''acl_action_type_list'', var ''acl_action_type_list''), (''field_dst_ip'', var
        ''dip_ind''), (''field_dst_mac'', var ''dmac_ind'')]),
      assert_ne (var ''acl_table_id'') (num 0),
      assign ''action_drop'' (var ''action''),
      assign ''packet_action'' (struct ''sai_thrift_acl_action_data_t'' [(''parameter'', struct
        ''sai_thrift_acl_action_parameter_t'' [(''s32'', var ''action_drop'')])]),
      assign ''acl_entry'' (api_create ''acl_entry'' [(''table_id'', var ''acl_table_id''), (''action_packet_action'', var
        ''packet_action''), (''field_dst_ip'', var ''ip''), (''field_dst_mac'', var ''mac'')]),
      assert_ne (var ''acl_entry'') (num 0),
      assign ''acl_table_group'' (api_create ''acl_table_group'' [(''acl_stage'', var ''stage''), (''acl_bind_point_type_list'',
        var ''acl_bind_point_type_list''), (''type'', num SAI_ACL_TABLE_GROUP_TYPE_PARALLEL)]),
      assign ''acl_group_member'' (api_create ''acl_table_group_member'' [(''acl_table_group_id'', var ''acl_table_group''),
        (''acl_table_id'', var ''acl_table_id'')]),
      assign ''acl'' (list_of []),
      assign ''acl'' (appended (var ''acl'') (dict_of [(str ''acl_table'', var ''acl_table_id''), (str ''acl_entry'', var
        ''acl_entry''), (str ''acl_table_group'', var ''acl_table_group''), (str ''acl_group_member'', var
        ''acl_group_member'')])),
      return (var ''acl'')]"

definition PortAclBindingClass_setupPortEgressDropAcl :: "'d stmt" where
  "PortAclBindingClass_setupPortEgressDropAcl = block [
      assign ''stage'' (num SAI_ACL_STAGE_EGRESS),
      assign ''bind_points'' (list_of [num SAI_ACL_BIND_POINT_TYPE_PORT]),
      assign ''action_types'' (list_of [num SAI_ACL_ACTION_TYPE_PACKET_ACTION]),
      assign ''dip_mask'' (str ''255.255.255.0''),
      assign ''acl_bind_point_type_list'' (struct ''sai_thrift_s32_list_t'' [(''count'', length_of (var ''bind_points'')),
        (''int32list'', var ''bind_points'')]),
      assign ''acl_action_type_list'' (struct ''sai_thrift_s32_list_t'' [(''count'', length_of (var ''action_types'')),
        (''int32list'', var ''action_types'')]),
      if_else (no (is_none (var ''dip''))) [
        assign ''dip_ind'' (bool True),
        assign ''ip'' (struct ''sai_thrift_acl_field_data_t'' [(''data'', struct ''sai_thrift_acl_field_data_data_t'' [(''ip4'',
          var ''dip'')]), (''mask'', struct ''sai_thrift_acl_field_data_mask_t'' [(''ip4'', var ''dip_mask'')])])] [
        assign ''dip_ind'' none,
        assign ''ip'' none],
      if_else (no (is_none (var ''dmac''))) [
        assign ''dmac_ind'' (bool True),
        assign ''mac'' (struct ''sai_thrift_acl_field_data_t'' [(''data'', struct ''sai_thrift_acl_field_data_data_t''
          [(''mac'', var ''dmac'')]), (''mask'', struct ''sai_thrift_acl_field_data_mask_t'' [(''mac'', var ''mac_mask'')])])] [
        assign ''dmac_ind'' none,
        assign ''mac'' none],
      assign ''acl_table'' (api_create ''acl_table'' [(''acl_stage'', var ''stage''), (''acl_bind_point_type_list'', var
        ''acl_bind_point_type_list''), (''acl_action_type_list'', var ''acl_action_type_list''), (''field_dst_ip'', var
        ''dip_ind''), (''field_dst_mac'', var ''dmac_ind'')]),
      assert_ne (var ''acl_table'') (num 0),
      assign ''action_drop'' (var ''action''),
      assign ''packet_action'' (struct ''sai_thrift_acl_action_data_t'' [(''parameter'', struct
        ''sai_thrift_acl_action_parameter_t'' [(''s32'', var ''action_drop'')])]),
      assign ''acl_entry'' (api_create ''acl_entry'' [(''table_id'', var ''acl_table''), (''action_packet_action'', var
        ''packet_action''), (''field_dst_ip'', var ''ip''), (''field_dst_mac'', var ''mac'')]),
      assert_ne (var ''acl_entry'') (num 0),
      assign ''acl_table_group'' (api_create ''acl_table_group'' [(''acl_stage'', var ''stage''), (''acl_bind_point_type_list'',
        var ''acl_bind_point_type_list''), (''type'', num SAI_ACL_TABLE_GROUP_TYPE_PARALLEL)]),
      assign ''acl_group_member'' (api_create ''acl_table_group_member'' [(''acl_table_group_id'', var ''acl_table_group''),
        (''acl_table_id'', var ''acl_table'')]),
      assign ''acl'' (list_of []),
      assign ''acl'' (appended (var ''acl'') (dict_of [(str ''acl_table'', var ''acl_table''), (str ''acl_entry'', var
        ''acl_entry''), (str ''acl_table_group'', var ''acl_table_group''), (str ''acl_group_member'', var
        ''acl_group_member'')])),
      return (var ''acl'')]"

definition PortAclBindingClass_portIngressAclBindingSinglePortTest :: "'d stmt" where
  "PortAclBindingClass_portIngressAclBindingSinglePortTest = block [
      assign ''name'' (str ''portIngressAclBindingSinglePortTest''),
      if_else (var ''use_acl_group'') [
        assign ''name'' (add (var ''name'') (str '' ACL table group''))] [
        assign ''name'' (add (var ''name'') (str '' ACL table''))],
      print [var ''name''],
      assign ''dst_ip'' (str ''10.10.10.1''),
      assign ''src_mac'' (str ''00:11:11:11:11:11''),
      assign ''dst_mac'' (str ''00:22:22:22:22:22''),
      assign ''pkt'' (lib ''simple_tcp_packet'' [] [(''eth_dst'', var ''dst_mac''), (''eth_src'', var ''src_mac''), (''ip_dst'',
        str ''10.10.10.2''), (''ip_src'', str ''192.168.0.1''), (''ip_id'', num 105), (''ip_ttl'', num 64)]),
      assign ''test_port'' (self ''dev_port1''),
      assign ''flood_port_list'' (list_of []),
      assign ''flood_pkt_list'' (list_of []),
      for_in [''port''] (self ''dev_test_port_list'') [
        if_else (eq (var ''port'') (var ''test_port'')) [
          continue] [],
        assign ''flood_pkt_list'' (appended (var ''flood_pkt_list'') (var ''pkt'')),
        assign ''flood_port_list'' (appended (var ''flood_port_list'') (list_of [var ''port'']))],
      print [var ''flood_port_list''],
      print [var ''test_port''],
      run (lib ''send_packet'' [var ''test_port'', var ''pkt''] []),
      run (lib ''verify_each_packet_on_multiple_port_lists'' [var ''flood_pkt_list'', var ''flood_port_list''] []),
      assign ''acl_list'' (list_of []),
      try_finally [
        assign ''ports_with_acl'' (list_of [self ''dev_port0'', self ''dev_port1'']),
        assign ''acl_list'' (invoke [(''dip'', var ''dst_ip''), (''dmac'', none), (''action'', num SAI_PACKET_ACTION_DROP),
          (''mac_mask'', str ''FF:FF:FF:FF:FF:FF'')] PortAclBindingClass_setupPortIngresDropAcl),
        if_else (is_true (var ''use_acl_group'')) [
          assign ''ingress_acl'' (item (item (var ''acl_list'') (num 0)) (str ''acl_table_group''))] [
          assign ''ingress_acl'' (item (item (var ''acl_list'') (num 0)) (str ''acl_table''))],
        run (invoke [(''ports'', var ''ports_with_acl''), (''acl'', var ''ingress_acl'')]
          PortAclBindingClass_assignPortIngressAcl),
        for_in [''port''] (var ''ports_with_acl'') [
          sleep_for (num 2),
          assign ''if_in_discards_pre'' (invoke [(''ports'', list_of [var ''port'']), (''port_stats'', list_of [str
            ''SAI_PORT_STAT_IF_IN_DISCARDS''])] PortAclBindingClass_getPortStats),
          print [var ''port''],
          run (lib ''send_packet'' [var ''port'', var ''pkt''] []),
          run (lib ''verify_no_other_packets'' [] [(''timeout'', num 1)]),
          sleep_for (num 2),
          assign ''if_in_discards'' (invoke [(''ports'', list_of [var ''port'']), (''port_stats'', list_of [str
            ''SAI_PORT_STAT_IF_IN_DISCARDS''])] PortAclBindingClass_getPortStats),
          print [var ''if_in_discards_pre'', var ''if_in_discards''],
          assert (eq (add (var ''if_in_discards_pre'') (num 1)) (var ''if_in_discards''))],
        run (invoke [(''ports'', var ''ports_with_acl''), (''acl'', num 0)] PortAclBindingClass_assignPortIngressAcl),
        print [self ''dev_port0''],
        run (lib ''send_packet'' [self ''dev_port1'', var ''pkt''] []),
        run (lib ''verify_each_packet_on_multiple_port_lists'' [var ''flood_pkt_list'', var ''flood_port_list''] [])] [
        run (invoke [(''ports'', list_of [self ''dev_port0'', self ''dev_port1'', self ''dev_port2'', self ''dev_port3'']),
          (''acl'', num 0)] PortAclBindingClass_assignPortIngressAcl),
        run (invoke [(''acl_list'', var ''acl_list'')] PortAclBindingClass_clearAcl)]]"

definition PortAclBindingClass_floodTest :: "'d stmt" where
  "PortAclBindingClass_floodTest = block [
      for_in [''port''] (var ''port_list1'') [
        assign ''flood_port_list'' (list_of []),
        assign ''flood_pkt_list'' (list_of []),
        for_in [''flood_port''] (var ''port_list2'') [
          if_else (eq (var ''flood_port'') (var ''port'')) [
            continue] [],
          assign ''flood_pkt_list'' (appended (var ''flood_pkt_list'') (var ''pkt'')),
          assign ''flood_port_list'' (appended (var ''flood_port_list'') (list_of [var ''flood_port'']))],
        print [var ''port''],
        run (lib ''send_packet'' [var ''port'', var ''pkt''] []),
        run (lib ''verify_each_packet_on_multiple_port_lists'' [var ''flood_pkt_list'', var ''flood_port_list''] [])]]"

definition PortAclBindingClass_portIngressAclBindingTest :: "'d stmt" where
  "PortAclBindingClass_portIngressAclBindingTest = block [
      assign ''name'' (str ''portIngressAclBindingTest''),
      run (invoke [(''name'', var ''name''), (''add_remove_bind'', var ''add_remove_bind''), (''use_acl_group'', var
        ''use_acl_group'')] acl_test_case),
      assign ''dst_ip'' (str ''10.10.10.1''),
      assign ''src_mac'' (str ''00:11:11:11:11:11''),
      assign ''dst_mac'' (str ''00:22:22:22:22:22''),
      assign ''pkt'' (lib ''simple_tcp_packet'' [] [(''eth_dst'', var ''dst_mac''), (''eth_src'', var ''src_mac''), (''ip_dst'',
        str ''10.10.10.2''), (''ip_src'', str ''192.168.0.1''), (''ip_id'', num 105), (''ip_ttl'', num 64)]),
      assign ''test_port'' (self ''dev_port1''),
      assign ''flood_port_list'' (list_of []),
      assign ''flood_pkt_list'' (list_of []),
      for_in [''port''] (self ''dev_test_port_list'') [
        if_else (eq (var ''port'') (var ''test_port'')) [
          continue] [],
        assign ''flood_pkt_list'' (appended (var ''flood_pkt_list'') (var ''pkt'')),
        assign ''flood_port_list'' (appended (var ''flood_port_list'') (list_of [var ''port'']))],
      run (lib ''send_packet'' [var ''test_port'', var ''pkt''] []),
      run (lib ''verify_each_packet_on_multiple_port_lists'' [var ''flood_pkt_list'', var ''flood_port_list''] []),
      assign ''acl_list'' (list_of []),
      try_finally [
        assign ''ports_with_acl'' (list_of [self ''dev_port0'', self ''dev_port3'']),
        assign ''acl_list'' (invoke [(''dip'', var ''dst_ip''), (''dmac'', none), (''action'', num SAI_PACKET_ACTION_DROP),
          (''mac_mask'', str ''FF:FF:FF:FF:FF:FF'')] PortAclBindingClass_setupPortIngresDropAcl),
        if_else (is_true (var ''use_acl_group'')) [
          assign ''ingress_acl'' (item (item (var ''acl_list'') (num 0)) (str ''acl_table_group''))] [
          assign ''ingress_acl'' (item (item (var ''acl_list'') (num 0)) (str ''acl_table''))],
        assign ''status'' (invoke [(''ports'', var ''ports_with_acl''), (''acl'', var ''ingress_acl'')]
          PortAclBindingClass_assignPortIngressAcl),
        print [var ''status''],
        run (lib ''send_packet'' [self ''dev_port1'', var ''pkt''] []),
        run (lib ''verify_each_packet_on_multiple_port_lists'' [var ''flood_pkt_list'', var ''flood_port_list''] []),
        assign ''flood_port_list'' (list_of [list_of [self ''dev_port0''], list_of [self ''dev_port1''], list_of [self
          ''dev_port3'']]),
        assign ''flood_pkt_list'' (list_of [var ''pkt'', var ''pkt'', var ''pkt'']),
        run (lib ''send_packet'' [self ''dev_port2'', var ''pkt''] []),
        run (lib ''verify_each_packet_on_multiple_port_lists'' [var ''flood_pkt_list'', var ''flood_port_list''] []),
        for_in [''port''] (var ''ports_with_acl'') [
          sleep_for (num 2),
          assign ''if_in_discards_pre'' (invoke [(''ports'', list_of [var ''port'']), (''port_stats'', list_of [str
            ''SAI_PORT_STAT_IF_IN_DISCARDS''])] PortAclBindingClass_getPortStats),
          print [var ''port''],
          run (lib ''send_packet'' [var ''port'', var ''pkt''] []),
          run (lib ''verify_no_other_packets'' [] [(''timeout'', num 1)]),
          sleep_for (num 2),
          assign ''if_in_discards'' (invoke [(''ports'', list_of [var ''port'']), (''port_stats'', list_of [str
            ''SAI_PORT_STAT_IF_IN_DISCARDS''])] PortAclBindingClass_getPortStats),
          print [var ''if_in_discards_pre'', var ''if_in_discards''],
          assert (eq (add (var ''if_in_discards_pre'') (num 1)) (var ''if_in_discards''))],
        if_else (is_true (var ''add_remove_bind'')) [
          run (invoke [(''ports'', list_of [self ''dev_port2'']), (''acl'', var ''ingress_acl'')]
            PortAclBindingClass_assignPortIngressAcl),
          assign ''ports_with_acl'' (list_of [self ''dev_port0'', self ''dev_port2'', self ''dev_port3'']),
          for_in [''port''] (var ''ports_with_acl'') [
            print [var ''port''],
            run (lib ''send_packet'' [var ''port'', var ''pkt''] []),
            run (lib ''verify_no_other_packets'' [] [(''timeout'', num 1)])],
          assign ''flood_port_list'' (list_of [list_of [self ''dev_port0''], list_of [self ''dev_port2''], list_of [self
            ''dev_port3'']]),
          assign ''flood_pkt_list'' (list_of [var ''pkt'', var ''pkt'', var ''pkt'']),
          print [var ''test_port''],
          run (lib ''send_packet'' [var ''test_port'', var ''pkt''] []),
          run (lib ''verify_each_packet_on_multiple_port_lists'' [var ''flood_pkt_list'', var ''flood_port_list''] []),
          run (invoke [(''ports'', list_of [self ''dev_port2'']), (''acl'', num 0)] PortAclBindingClass_assignPortIngressAcl),
          assign ''ports_with_acl'' (list_of [self ''dev_port0'', self ''dev_port3'']),
          assign ''ports_without_acl'' (list_of [self ''dev_port1'', self ''dev_port2'']),
          for_in [''port''] (var ''ports_with_acl'') [
            print [var ''port''],
            run (lib ''send_packet'' [var ''port'', var ''pkt''] []),
            run (lib ''verify_no_other_packets'' [] [(''timeout'', num 1)])],
          run (invoke [(''pkt'', var ''pkt''), (''port_list1'', var ''ports_without_acl''), (''port_list2'', self
            ''dev_test_port_list'')] PortAclBindingClass_floodTest)] [],
        run (invoke [(''ports'', list_of [self ''dev_port0'', self ''dev_port3'']), (''acl'', num 0)]
          PortAclBindingClass_assignPortIngressAcl),
        assign ''ports_without_acl'' (list_of [self ''dev_port0'', self ''dev_port1'', self ''dev_port2'', self ''dev_port3'']),
        run (invoke [(''pkt'', var ''pkt''), (''port_list1'', var ''ports_without_acl''), (''port_list2'', self
          ''dev_test_port_list'')] PortAclBindingClass_floodTest)] [
        run (invoke [(''ports'', list_of [self ''dev_port0'', self ''dev_port1'', self ''dev_port2'', self ''dev_port3'']),
          (''acl'', num 0)] PortAclBindingClass_assignPortIngressAcl),
        run (invoke [(''acl_list'', var ''acl_list'')] PortAclBindingClass_clearAcl)]]"

definition PortAclBindingClass_portEgressAclBindingTest :: "'d stmt" where
  "PortAclBindingClass_portEgressAclBindingTest = block [
      assign ''name'' (str ''portEgressAclBindingTest''),
      run (invoke [(''name'', var ''name''), (''add_remove_bind'', var ''add_remove_bind''), (''use_acl_group'', var
        ''use_acl_group'')] acl_test_case),
      assign ''dst_ip'' (str ''10.10.10.1''),
      assign ''src_mac'' (str ''00:11:11:11:11:11''),
      assign ''dst_mac'' (str ''00:22:22:22:22:22''),
      assign ''pkt'' (lib ''simple_tcp_packet'' [] [(''eth_dst'', var ''dst_mac''), (''eth_src'', var ''src_mac''), (''ip_dst'',
        str ''10.10.10.1''), (''ip_src'', str ''192.168.0.1''), (''ip_id'', num 105), (''ip_ttl'', num 64)]),
      assign ''dev_port_list'' (list_of [self ''dev_port0'', self ''dev_port1'', self ''dev_port2'', self ''dev_port3'']),
      assign ''test_port'' (self ''dev_port1''),
      assign ''flood_port_list'' (list_of []),
      assign ''flood_pkt_list'' (list_of []),
      for_in [''port''] (self ''dev_test_port_list'') [
        if_else (eq (var ''port'') (var ''test_port'')) [
          continue] [],
        assign ''flood_pkt_list'' (appended (var ''flood_pkt_list'') (var ''pkt'')),
        assign ''flood_port_list'' (appended (var ''flood_port_list'') (list_of [var ''port'']))],
      print [self ''dev_port1''],
      run (lib ''send_packet'' [self ''dev_port1'', var ''pkt''] []),
      run (lib ''verify_each_packet_on_multiple_port_lists'' [var ''flood_pkt_list'', var ''flood_port_list''] []),
      assign ''acl_list'' (list_of []),
      try_finally [
        assign ''acl_list'' (invoke [(''dip'', var ''dst_ip''), (''dmac'', none), (''action'', num SAI_PACKET_ACTION_DROP),
          (''mac_mask'', str ''FF:FF:FF:FF:FF:FF'')] PortAclBindingClass_setupPortEgressDropAcl),
        if_else (is_true (var ''use_acl_group'')) [
          assign ''egress_acl'' (item (item (var ''acl_list'') (num 0)) (str ''acl_table_group''))] [
          assign ''egress_acl'' (item (item (var ''acl_list'') (num 0)) (str ''acl_table''))],
        assign ''status'' (invoke [(''ports'', list_of [self ''dev_port0'', self ''dev_port3'']), (''acl'', var ''egress_acl'')]
          PortAclBindingClass_assignPortEgressAcl),
        print [var ''status''],
        assign ''flood_port_list'' (list_of [list_of [self ''dev_port2'']]),
        assign ''flood_pkt_list'' (list_of [var ''pkt'']),
        assign ''port0_if_out_discards_pre'' (invoke [(''ports'', list_of [self ''dev_port0'']), (''port_stats'', list_of [str
          ''SAI_PORT_STAT_IF_OUT_DISCARDS''])] PortAclBindingClass_getPortStats),
        assign ''port3_if_out_discards_pre'' (invoke [(''ports'', list_of [self ''dev_port3'']), (''port_stats'', list_of [str
          ''SAI_PORT_STAT_IF_OUT_DISCARDS''])] PortAclBindingClass_getPortStats),
        print [self ''dev_port1''],
        run (lib ''send_packet'' [self ''dev_port1'', var ''pkt''] []),
        run (lib ''verify_each_packet_on_multiple_port_lists'' [var ''flood_pkt_list'', var ''flood_port_list''] []),
        assign ''if_out_discards'' (invoke [(''ports'', list_of [self ''dev_port0'']), (''port_stats'', list_of [str
          ''SAI_PORT_STAT_IF_OUT_DISCARDS''])] PortAclBindingClass_getPortStats),
        assert (eq (add (var ''port0_if_out_discards_pre'') (num 1)) (var ''if_out_discards'')),
        assign ''if_out_discards'' (invoke [(''ports'', list_of [self ''dev_port3'']), (''port_stats'', list_of [str
          ''SAI_PORT_STAT_IF_OUT_DISCARDS''])] PortAclBindingClass_getPortStats),
        assert (eq (add (var ''port3_if_out_discards_pre'') (num 1)) (var ''if_out_discards'')),
        if_else (var ''add_remove_bind'') [
          run (invoke [(''ports'', list_of [self ''dev_port2'']), (''acl'', var ''egress_acl'')]
            PortAclBindingClass_assignPortEgressAcl),
          assign ''ports_with_acl'' (list_of [self ''dev_port0'', self ''dev_port2'', self ''dev_port3'']),
          print [var ''ports_with_acl''],
          print [self ''dev_port1''],
          run (lib ''send_packet'' [self ''dev_port1'', var ''pkt''] []),
          run (lib ''verify_no_other_packets'' [] [(''timeout'', num 1)]),
          run (invoke [(''ports'', list_of [self ''dev_port2'']), (''acl'', num 0)] PortAclBindingClass_assignPortEgressAcl),
          assign ''ports_without_acl'' (list_of [self ''dev_port1'', self ''dev_port2'']),
          run (invoke [(''pkt'', var ''pkt''), (''port_list1'', var ''dev_port_list''), (''port_list2'', var
            ''ports_without_acl'')] PortAclBindingClass_floodTest)] [],
        run (invoke [(''ports'', list_of [self ''dev_port0'', self ''dev_port3'']), (''acl'', num 0)]
          PortAclBindingClass_assignPortEgressAcl),
        assign ''ports_without_acl'' (list_of [self ''dev_port0'', self ''dev_port1'', self ''dev_port2'', self ''dev_port3'']),
        run (invoke [(''pkt'', var ''pkt''), (''port_list1'', var ''dev_port_list''), (''port_list2'', var
          ''ports_without_acl'')] PortAclBindingClass_floodTest)] [
        run (invoke [(''ports'', var ''dev_port_list''), (''acl'', num 0)] PortAclBindingClass_assignPortEgressAcl),
        run (invoke [(''acl_list'', var ''acl_list'')] PortAclBindingClass_clearAcl)]]"

definition PortAclBindingClass_portEgressAclBindingSinglePortTest :: "'d stmt" where
  "PortAclBindingClass_portEgressAclBindingSinglePortTest = block [
      assign ''name'' (str ''portEgressAclBindingSinglePortTest''),
      if_else (var ''use_acl_group'') [
        assign ''name'' (add (var ''name'') (str '' ACL table group''))] [
        assign ''name'' (add (var ''name'') (str '' ACL table''))],
      print [var ''name''],
      assign ''dst_ip'' (str ''10.10.10.1''),
      assign ''src_mac'' (str ''00:11:11:11:11:11''),
      assign ''dst_mac'' (str ''00:22:22:22:22:22''),
      assign ''pkt'' (lib ''simple_tcp_packet'' [] [(''eth_dst'', var ''dst_mac''), (''eth_src'', var ''src_mac''), (''ip_dst'',
        str ''10.10.10.1''), (''ip_src'', str ''192.168.0.1''), (''ip_id'', num 105), (''ip_ttl'', num 64)]),
      assign ''test_port'' (self ''dev_port1''),
      assign ''flood_port_list'' (list_of []),
      assign ''flood_pkt_list'' (list_of []),
      for_in [''port''] (self ''dev_test_port_list'') [
        if_else (eq (var ''port'') (var ''test_port'')) [
          continue] [],
        assign ''flood_pkt_list'' (appended (var ''flood_pkt_list'') (var ''pkt'')),
        assign ''flood_port_list'' (appended (var ''flood_port_list'') (list_of [var ''port'']))],
      run (lib ''send_packet'' [var ''test_port'', var ''pkt''] []),
      run (lib ''verify_each_packet_on_multiple_port_lists'' [var ''flood_pkt_list'', var ''flood_port_list''] []),
      print [var ''flood_port_list''],
      assign ''acl_list'' (list_of []),
      assign ''ports_with_acl'' (list_of [self ''dev_port0'', self ''dev_port1'']),
      try_finally [
        assign ''acl_list'' (invoke [(''dip'', var ''dst_ip''), (''dmac'', none), (''action'', num SAI_PACKET_ACTION_DROP),
          (''mac_mask'', str ''FF:FF:FF:FF:FF:FF'')] PortAclBindingClass_setupPortEgressDropAcl),
        if_else (is_true (var ''use_acl_group'')) [
          assign ''egress_acl'' (item (item (var ''acl_list'') (num 0)) (str ''acl_table_group''))] [
          assign ''egress_acl'' (item (item (var ''acl_list'') (num 0)) (str ''acl_table''))],
        assign ''status'' (invoke [(''ports'', var ''ports_with_acl''), (''acl'', var ''egress_acl'')]
          PortAclBindingClass_assignPortEgressAcl),
        print [var ''status''],
        assign ''flood_port_list'' (list_of [list_of [self ''dev_port2''], list_of [self ''dev_port3'']]),
        assign ''flood_pkt_list'' (list_of [var ''pkt'', var ''pkt'']),
        assign ''port0_if_out_discards_pre'' (invoke [(''ports'', list_of [self ''dev_port0'']), (''port_stats'', list_of [str
          ''SAI_PORT_STAT_IF_OUT_DISCARDS''])] PortAclBindingClass_getPortStats),
        run (lib ''send_packet'' [var ''test_port'', var ''pkt''] []),
        run (lib ''verify_each_packet_on_multiple_port_lists'' [var ''flood_pkt_list'', var ''flood_port_list''] []),
        assign ''if_out_discards'' (invoke [(''ports'', list_of [self ''dev_port0'']), (''port_stats'', list_of [str
          ''SAI_PORT_STAT_IF_OUT_DISCARDS''])] PortAclBindingClass_getPortStats),
        assert (eq (add (var ''port0_if_out_discards_pre'') (num 1)) (var ''if_out_discards'')),
        run (invoke [(''ports'', var ''ports_with_acl''), (''acl'', num 0)] PortAclBindingClass_assignPortEgressAcl),
        assign ''flood_port_list'' (list_of [list_of [self ''dev_port0''], list_of [self ''dev_port2''], list_of [self
          ''dev_port3'']]),
        assign ''flood_pkt_list'' (list_of [var ''pkt'', var ''pkt'', var ''pkt'']),
        run (lib ''send_packet'' [self ''dev_port1'', var ''pkt''] []),
        run (lib ''verify_each_packet_on_multiple_port_lists'' [var ''flood_pkt_list'', var ''flood_port_list''] [])] [
        run (invoke [(''ports'', var ''ports_with_acl''), (''acl'', num 0)] PortAclBindingClass_assignPortEgressAcl),
        run (invoke [(''acl_list'', var ''acl_list'')] PortAclBindingClass_clearAcl)]]"

definition PortEgressMirrorSessionTest_setUp :: "'d stmt" where
  "PortEgressMirrorSessionTest_setUp = block [
      set_self ''fdb_entry'' none,
      set_self ''portx'' none,
      run (invoke [] PortFloodClass_setUp)]"

definition PortEgressMirrorSessionTest_runTest :: "'d stmt" where
  "PortEgressMirrorSessionTest_runTest = block [
      try_finally [
        assign ''empty_obj_list'' (struct ''sai_thrift_object_list_t'' [(''count'', num 0), (''idlist'', list_of [])]),
        assign ''mirror_id'' (api_create ''mirror_session'' [(''type'', num SAI_MIRROR_SESSION_TYPE_LOCAL), (''monitor_port'',
          self ''port0'')]),
        assert (ne (var ''mirror_id'') (num 0)),
        assign ''egress_mirror_obj_list'' (list_of [var ''mirror_id'']),
        assign ''egress_mirror_session'' (struct ''sai_thrift_object_list_t'' [(''count'', length_of (var
          ''egress_mirror_obj_list'')), (''idlist'', var ''egress_mirror_obj_list'')]),
        assign ''sai_list'' (struct ''sai_thrift_u32_list_t'' [(''count'', num 1), (''uint32list'', list_of [num 34])]),
        set_self ''portx'' (api_create ''port'' [(''hw_lane_list'', var ''sai_list''), (''speed'', num 25000),
          (''egress_mirror_session'', var ''egress_mirror_session'')]),
        assert (ne (self ''portx'') (num 0)),
        assign ''sai_list'' (struct ''sai_thrift_object_list_t'' [(''count'', num 20), (''idlist'', list_of [])]),
        assign ''attr'' (api_get ''port'' (self ''portx'') [(''egress_mirror_session'', var ''sai_list'')]),
        assert_eq (field (item (var ''attr'') (str ''egress_mirror_session'')) ''count'') (length_of (var
          ''egress_mirror_obj_list'')),
        assert_eq (item (field (item (var ''attr'') (str ''egress_mirror_session'')) ''idlist'') (num 0)) (var ''mirror_id''),
        assign ''status'' (api_set ''port'' (self ''portx'') [(''egress_mirror_session'', var ''empty_obj_list'')]),
        assert_eq (var ''status'') (num SAI_STATUS_SUCCESS),
        assign ''attr'' (api_get ''port'' (self ''portx'') [(''egress_mirror_session'', var ''sai_list'')]),
        assert_eq (field (item (var ''attr'') (str ''egress_mirror_session'')) ''count'') (num 0),
        assign ''status'' (api_set ''port'' (self ''port3'') [(''egress_mirror_session'', var ''egress_mirror_session'')]),
        assert_eq (var ''status'') (num SAI_STATUS_SUCCESS),
        assign ''sai_list'' (struct ''sai_thrift_object_list_t'' [(''count'', num 20), (''idlist'', list_of [])]),
        assign ''attr'' (api_get ''port'' (self ''port3'') [(''egress_mirror_session'', var ''sai_list'')]),
        assert_eq (field (item (var ''attr'') (str ''egress_mirror_session'')) ''count'') (num 1),
        assert_eq (field (item (var ''attr'') (str ''egress_mirror_session'')) ''count'') (length_of (var
          ''egress_mirror_obj_list'')),
        assert_eq (item (field (item (var ''attr'') (str ''egress_mirror_session'')) ''idlist'') (num 0)) (var ''mirror_id''),
        set_self ''fdb_entry'' (struct ''sai_thrift_fdb_entry_t'' [(''switch_id'', self ''switch_id''), (''mac_address'', str
          ''00:00:00:00:00:33''), (''bv_id'', self ''default_vlan_id'')]),
        assert (ne (self ''fdb_entry'') (num 0)),
        assign ''status'' (api_create_entry ''fdb_entry'' (self ''fdb_entry'') [(''type'', num SAI_FDB_ENTRY_TYPE_STATIC),
          (''bridge_port_id'', self ''port3_bp'')]),
        assert_eq (var ''status'') (num SAI_STATUS_SUCCESS),
        assign ''pkt'' (lib ''simple_tcp_packet'' [] [(''eth_dst'', str ''00:00:00:00:00:33''), (''eth_src'', str
          ''00:22:22:22:22:22''), (''ip_ttl'', num 64)]),
        assign ''pkt_ingress_mirror'' (lib ''simple_tcp_packet'' [] [(''eth_dst'', str ''00:00:00:00:00:33''), (''eth_src'', str
          ''00:22:22:22:22:22''), (''ip_ttl'', num 64)]),
        assign ''flood_port_list'' (list_of [list_of [self ''dev_port0''], list_of [self ''dev_port3'']]),
        assign ''flood_pkt_list'' (list_of [var ''pkt_ingress_mirror'', var ''pkt'']),
        print [self ''dev_port1''],
        run (lib ''send_packet'' [self ''dev_port1'', var ''pkt''] []),
        run (lib ''verify_each_packet_on_multiple_port_lists'' [var ''flood_pkt_list'', var ''flood_port_list''] []),
        print [self ''dev_port3'', self ''dev_port0'']] [
        run (lib ''sai_thrift_flush_fdb_entries'' [] [(''entry_type'', num SAI_FDB_FLUSH_ENTRY_TYPE_ALL)]),
        run (api_remove ''fdb_entry'' (self ''fdb_entry'')),
        run (api_set ''port'' (self ''portx'') [(''egress_mirror_session'', var ''empty_obj_list'')]),
        run (api_set ''port'' (self ''port3'') [(''egress_mirror_session'', var ''empty_obj_list'')]),
        run (api_remove ''mirror_session'' (var ''mirror_id'')),
        run (api_remove ''port'' (self ''portx''))]]"

definition PortEgressMirrorSessionTest_tearDown :: "'d stmt" where
  "PortEgressMirrorSessionTest_tearDown = block [
      run (invoke [] PortFloodClass_tearDown)]"

definition PortIngressMirrorSessionTest_setUp :: "'d stmt" where
  "PortIngressMirrorSessionTest_setUp = block [
      set_self ''portx'' none,
      set_self ''fdb_entry'' none,
      run (invoke [] PortFloodClass_setUp)]"

definition PortIngressMirrorSessionTest_runTest :: "'d stmt" where
  "PortIngressMirrorSessionTest_runTest = block [
      try_finally [
        assign ''empty_obj_list'' (struct ''sai_thrift_object_list_t'' [(''count'', num 0), (''idlist'', list_of [])]),
        assign ''mirror_id'' (api_create ''mirror_session'' [(''type'', num SAI_MIRROR_SESSION_TYPE_LOCAL), (''monitor_port'',
          self ''port0'')]),
        assert (ne (var ''mirror_id'') (num 0)),
        assign ''ingress_mirror_obj_list'' (list_of [var ''mirror_id'']),
        assign ''ingress_mirror_session'' (struct ''sai_thrift_object_list_t'' [(''count'', length_of (var
          ''ingress_mirror_obj_list'')), (''idlist'', var ''ingress_mirror_obj_list'')]),
        assign ''sai_list'' (struct ''sai_thrift_u32_list_t'' [(''count'', num 1), (''uint32list'', list_of [num 34])]),
        set_self ''portx'' (api_create ''port'' [(''hw_lane_list'', var ''sai_list''), (''speed'', num 25000),
          (''ingress_mirror_session'', var ''ingress_mirror_session'')]),
        assert (ne (self ''portx'') (num 0)),
        assign ''sai_list'' (struct ''sai_thrift_object_list_t'' [(''count'', num 20), (''idlist'', list_of [])]),
        assign ''attr'' (api_get ''port'' (self ''portx'') [(''ingress_mirror_session'', var ''sai_list'')]),
        assert_eq (field (item (var ''attr'') (str ''ingress_mirror_session'')) ''count'') (num 1),
        assert_eq (field (item (var ''attr'') (str ''ingress_mirror_session'')) ''count'') (length_of (var
          ''ingress_mirror_obj_list'')),
        assert_eq (item (field (item (var ''attr'') (str ''ingress_mirror_session'')) ''idlist'') (num 0)) (var ''mirror_id''),
        assign ''status'' (api_set ''port'' (self ''portx'') [(''ingress_mirror_session'', var ''empty_obj_list'')]),
        assert_eq (var ''status'') (num SAI_STATUS_SUCCESS),
        assign ''attr'' (api_get ''port'' (self ''portx'') [(''ingress_mirror_session'', var ''sai_list'')]),
        assert_eq (field (item (var ''attr'') (str ''ingress_mirror_session'')) ''count'') (num 0),
        assign ''status'' (api_set ''port'' (self ''port1'') [(''ingress_mirror_session'', var ''ingress_mirror_session'')]),
        assert_eq (var ''status'') (num SAI_STATUS_SUCCESS),
        assign ''sai_list'' (struct ''sai_thrift_object_list_t'' [(''count'', num 20), (''idlist'', list_of [])]),
        assign ''attr'' (api_get ''port'' (self ''port1'') [(''ingress_mirror_session'', var ''sai_list'')]),
        assert_eq (field (item (var ''attr'') (str ''ingress_mirror_session'')) ''count'') (length_of (var
          ''ingress_mirror_obj_list'')),
        assert_eq (item (field (item (var ''attr'') (str ''ingress_mirror_session'')) ''idlist'') (num 0)) (var ''mirror_id''),
        set_self ''fdb_entry'' (struct ''sai_thrift_fdb_entry_t'' [(''switch_id'', self ''switch_id''), (''mac_address'', str
          ''00:00:00:00:00:33''), (''bv_id'', self ''default_vlan_id'')]),
        assert (ne (self ''fdb_entry'') (num 0)),
        assign ''status'' (api_create_entry ''fdb_entry'' (self ''fdb_entry'') [(''type'', num SAI_FDB_ENTRY_TYPE_STATIC),
          (''bridge_port_id'', self ''port2_bp'')]),
        assert_eq (var ''status'') (num SAI_STATUS_SUCCESS),
        assign ''pkt'' (lib ''simple_tcp_packet'' [] [(''eth_dst'', str ''00:00:00:00:00:33''), (''eth_src'', str
          ''00:22:22:22:22:22''), (''ip_ttl'', num 64)]),
        assign ''pkt_ingress_mirror'' (lib ''simple_tcp_packet'' [] [(''eth_dst'', str ''00:00:00:00:00:33''), (''eth_src'', str
          ''00:22:22:22:22:22''), (''ip_ttl'', num 64)]),
        assign ''flood_port_list'' (list_of [list_of [self ''dev_port0''], list_of [self ''dev_port2'']]),
        assign ''flood_pkt_list'' (list_of [var ''pkt_ingress_mirror'', var ''pkt'']),
        print [self ''dev_port1''],
        run (lib ''send_packet'' [self ''dev_port1'', var ''pkt''] []),
        run (lib ''verify_each_packet_on_multiple_port_lists'' [var ''flood_pkt_list'', var ''flood_port_list''] []),
        print [self ''dev_port2'', self ''dev_port0'']] [
        run (lib ''sai_thrift_flush_fdb_entries'' [] [(''entry_type'', num SAI_FDB_FLUSH_ENTRY_TYPE_ALL)]),
        run (api_set ''port'' (self ''portx'') [(''ingress_mirror_session'', var ''empty_obj_list'')]),
        run (api_set ''port'' (self ''port1'') [(''ingress_mirror_session'', var ''empty_obj_list'')]),
        run (api_remove ''mirror_session'' (var ''mirror_id'')),
        run (api_remove ''port'' (self ''portx''))]]"

definition PortIngressMirrorSessionTest_tearDown :: "'d stmt" where
  "PortIngressMirrorSessionTest_tearDown = block [
      run (invoke [] PortFloodClass_tearDown)]"

definition SinglePortIngressAclTableBindingTest_runTest :: "'d stmt" where
  "SinglePortIngressAclTableBindingTest_runTest = block [
      run (invoke [(''use_acl_group'', bool True)] PortAclBindingClass_portIngressAclBindingSinglePortTest)]"

definition SinglePortIngressAclGroupBindingTest_runTest :: "'d stmt" where
  "SinglePortIngressAclGroupBindingTest_runTest = block [
      run (invoke [(''use_acl_group'', bool True)] PortAclBindingClass_portIngressAclBindingSinglePortTest)]"

definition PortIngressAclTableBindingTest_runTest :: "'d stmt" where
  "PortIngressAclTableBindingTest_runTest = block [
      run (invoke [(''add_remove_bind'', none), (''use_acl_group'', none)] PortAclBindingClass_portIngressAclBindingTest)]"

definition PortIngressAclTableAddRemoveBindingTest_runTest :: "'d stmt" where
  "PortIngressAclTableAddRemoveBindingTest_runTest = block [
      run (invoke [(''add_remove_bind'', bool True), (''use_acl_group'', none)] PortAclBindingClass_portIngressAclBindingTest)]"

definition PortIngressAclGroupBindingTest_runTest :: "'d stmt" where
  "PortIngressAclGroupBindingTest_runTest = block [
      run (invoke [(''use_acl_group'', bool True), (''add_remove_bind'', none)] PortAclBindingClass_portIngressAclBindingTest)]"

definition PortIngressAclGroupAddRemoveBindingTest_runTest :: "'d stmt" where
  "PortIngressAclGroupAddRemoveBindingTest_runTest = block [
      run (invoke [(''add_remove_bind'', bool True), (''use_acl_group'', bool True)]
        PortAclBindingClass_portIngressAclBindingTest)]"

definition SinglePortEgressAclTableBindingTest_runTest :: "'d stmt" where
  "SinglePortEgressAclTableBindingTest_runTest = block [
      run (invoke [(''use_acl_group'', none)] PortAclBindingClass_portEgressAclBindingSinglePortTest)]"

definition SinglePortEgressAclGroupBindingTest_runTest :: "'d stmt" where
  "SinglePortEgressAclGroupBindingTest_runTest = block [
      run (invoke [(''use_acl_group'', bool True)] PortAclBindingClass_portEgressAclBindingSinglePortTest)]"

definition PortEgressAclTableBindingTest_runTest :: "'d stmt" where
  "PortEgressAclTableBindingTest_runTest = block [
      run (invoke [(''add_remove_bind'', none), (''use_acl_group'', none)] PortAclBindingClass_portEgressAclBindingTest)]"

definition PortEgressAclTableAddRemoveBindingTest_runTest :: "'d stmt" where
  "PortEgressAclTableAddRemoveBindingTest_runTest = block [
      run (invoke [(''add_remove_bind'', bool True), (''use_acl_group'', none)] PortAclBindingClass_portEgressAclBindingTest)]"

definition PortEgressAclGroupBindingTest_runTest :: "'d stmt" where
  "PortEgressAclGroupBindingTest_runTest = block [
      run (invoke [(''use_acl_group'', bool True), (''add_remove_bind'', none)] PortAclBindingClass_portEgressAclBindingTest)]"

definition PortEgressAclGroupAddRemoveBindingTest_runTest :: "'d stmt" where
  "PortEgressAclGroupAddRemoveBindingTest_runTest = block [
      run (invoke [(''add_remove_bind'', bool True), (''use_acl_group'', bool True)]
        PortAclBindingClass_portEgressAclBindingTest)]"

end
