(* ===== verification/TestsQosMap.thy ===== *)
theory TestsQosMap
  imports PtfOwn PtfConstants
begin

text \<open>
  The tests of QoS maps, \<open>ptf/saiqosmap.py\<close>: a definition per method, statement by statement in the language of
  \<open>PtfScript\<close>, named after its class. A parameter \<open>m_f\<close> is a method \<open>f\<close> that derived classes define anew.
\<close>

section \<open>The tests\<close>

definition combine_ingress_pfc_tc_to_pg_mapping :: "'d stmt" where
  "combine_ingress_pfc_tc_to_pg_mapping = block [
      assign ''mapping'' (list_of []),
      for_in [''i''] (var ''pfc_prio_list'') [
        assign ''mapping'' (appended (var ''mapping'') (list_of [item (var ''pfc_prio_list'') (var ''i''), item (var
          ''pg_list'') (item (var ''tc_pg_list'') (var ''i''))]))],
      return (var ''mapping'')]"

definition verify_qos_map :: "'d stmt" where
  "verify_qos_map = block [
      assign ''result'' (bool True),
      assign ''attr'' (api_get ''qos_map'' (var ''qosmap_id'') [(''type'', var ''qos_type''), (''map_to_value_list'', struct
        ''sai_thrift_qos_map_list_t'' [(''count'', num 100), (''maplist'', list_of [])])]),
      if_else (ne (item (var ''attr'') (str ''type'')) (var ''qos_type'')) [
        print [field (item (var ''attr'') (str ''type'')) ''count'', var ''qos_type''],
        return (bool False)] [],
      if_else (ne (length_of (var ''key_list'')) (field (item (var ''attr'') (str ''map_to_value_list'')) ''count'')) [
        print [field (item (var ''attr'') (str ''map_to_value_list'')) ''count'', length_of (var ''key_list'')],
        return (bool False)] [],
      assign ''expected_key'' (item (item (dict_of [(num SAI_QOS_MAP_TYPE_DSCP_TO_TC, list_of [str ''dscp'', str ''tc'']), (num
        SAI_QOS_MAP_TYPE_DSCP_TO_COLOR, list_of [str ''dscp'', str ''color'']), (num SAI_QOS_MAP_TYPE_TC_TO_QUEUE, list_of [str
        ''tc'', str ''queue_index'']), (num SAI_QOS_MAP_TYPE_DOT1P_TO_COLOR, list_of [str ''dot1p'', str ''color'']), (num
        SAI_QOS_MAP_TYPE_DOT1P_TO_TC, list_of [str ''dot1p'', str ''tc'']), (num SAI_QOS_MAP_TYPE_PFC_PRIORITY_TO_QUEUE, list_of
        [str ''prio'', str ''queue_index'']), (num SAI_QOS_MAP_TYPE_PFC_PRIORITY_TO_PRIORITY_GROUP, list_of [str ''prio'', str
        ''pg'']), (num SAI_QOS_MAP_TYPE_TC_TO_PRIORITY_GROUP, list_of [str ''tc'', str ''pg'']), (num
        SAI_QOS_MAP_TYPE_TC_AND_COLOR_TO_DOT1P, list_of [str ''tc'', str ''dot1p'', str ''color'']), (num
        SAI_QOS_MAP_TYPE_TC_AND_COLOR_TO_DSCP, list_of [str ''tc'', str ''dscp'', str ''color''])]) (var ''qos_type'')) (num 0)),
      assign ''expected_value'' (item (item (dict_of [(num SAI_QOS_MAP_TYPE_DSCP_TO_TC, list_of [str ''dscp'', str ''tc'']),
        (num SAI_QOS_MAP_TYPE_DSCP_TO_COLOR, list_of [str ''dscp'', str ''color'']), (num SAI_QOS_MAP_TYPE_TC_TO_QUEUE, list_of
        [str ''tc'', str ''queue_index'']), (num SAI_QOS_MAP_TYPE_DOT1P_TO_COLOR, list_of [str ''dot1p'', str ''color'']), (num
        SAI_QOS_MAP_TYPE_DOT1P_TO_TC, list_of [str ''dot1p'', str ''tc'']), (num SAI_QOS_MAP_TYPE_PFC_PRIORITY_TO_QUEUE, list_of
        [str ''prio'', str ''queue_index'']), (num SAI_QOS_MAP_TYPE_PFC_PRIORITY_TO_PRIORITY_GROUP, list_of [str ''prio'', str
        ''pg'']), (num SAI_QOS_MAP_TYPE_TC_TO_PRIORITY_GROUP, list_of [str ''tc'', str ''pg'']), (num
        SAI_QOS_MAP_TYPE_TC_AND_COLOR_TO_DOT1P, list_of [str ''tc'', str ''dot1p'', str ''color'']), (num
        SAI_QOS_MAP_TYPE_TC_AND_COLOR_TO_DSCP, list_of [str ''tc'', str ''dscp'', str ''color''])]) (var ''qos_type'')) (num 1)),
      if_else (eq (length_of (item (dict_of [(num SAI_QOS_MAP_TYPE_DSCP_TO_TC, list_of [str ''dscp'', str ''tc'']), (num
        SAI_QOS_MAP_TYPE_DSCP_TO_COLOR, list_of [str ''dscp'', str ''color'']), (num SAI_QOS_MAP_TYPE_TC_TO_QUEUE, list_of [str
        ''tc'', str ''queue_index'']), (num SAI_QOS_MAP_TYPE_DOT1P_TO_COLOR, list_of [str ''dot1p'', str ''color'']), (num
        SAI_QOS_MAP_TYPE_DOT1P_TO_TC, list_of [str ''dot1p'', str ''tc'']), (num SAI_QOS_MAP_TYPE_PFC_PRIORITY_TO_QUEUE, list_of
        [str ''prio'', str ''queue_index'']), (num SAI_QOS_MAP_TYPE_PFC_PRIORITY_TO_PRIORITY_GROUP, list_of [str ''prio'', str
        ''pg'']), (num SAI_QOS_MAP_TYPE_TC_TO_PRIORITY_GROUP, list_of [str ''tc'', str ''pg'']), (num
        SAI_QOS_MAP_TYPE_TC_AND_COLOR_TO_DOT1P, list_of [str ''tc'', str ''dot1p'', str ''color'']), (num
        SAI_QOS_MAP_TYPE_TC_AND_COLOR_TO_DSCP, list_of [str ''tc'', str ''dscp'', str ''color''])]) (var ''qos_type''))) (num
        3)) [
        assign ''expected_key2'' (item (item (dict_of [(num SAI_QOS_MAP_TYPE_DSCP_TO_TC, list_of [str ''dscp'', str ''tc'']),
          (num SAI_QOS_MAP_TYPE_DSCP_TO_COLOR, list_of [str ''dscp'', str ''color'']), (num SAI_QOS_MAP_TYPE_TC_TO_QUEUE,
          list_of [str ''tc'', str ''queue_index'']), (num SAI_QOS_MAP_TYPE_DOT1P_TO_COLOR, list_of [str ''dot1p'', str
          ''color'']), (num SAI_QOS_MAP_TYPE_DOT1P_TO_TC, list_of [str ''dot1p'', str ''tc'']), (num
          SAI_QOS_MAP_TYPE_PFC_PRIORITY_TO_QUEUE, list_of [str ''prio'', str ''queue_index'']), (num
          SAI_QOS_MAP_TYPE_PFC_PRIORITY_TO_PRIORITY_GROUP, list_of [str ''prio'', str ''pg'']), (num
          SAI_QOS_MAP_TYPE_TC_TO_PRIORITY_GROUP, list_of [str ''tc'', str ''pg'']), (num SAI_QOS_MAP_TYPE_TC_AND_COLOR_TO_DOT1P,
          list_of [str ''tc'', str ''dot1p'', str ''color'']), (num SAI_QOS_MAP_TYPE_TC_AND_COLOR_TO_DSCP, list_of [str ''tc'',
          str ''dscp'', str ''color''])]) (var ''qos_type'')) (num 2))] [],
      for_in [''i'', ''data''] (enumerated (field (item (var ''attr'') (str ''map_to_value_list'')) ''maplist'')) [
        assign ''key_dict'' (dict_of [(str ''color'', field (field (var ''data'') ''key'') ''color''), (str ''dscp'', field
          (field (var ''data'') ''key'') ''dscp''), (str ''dot1p'', field (field (var ''data'') ''key'') ''dot1p''), (str
          ''prio'', field (field (var ''data'') ''key'') ''prio''), (str ''tc'', field (field (var ''data'') ''key'') ''tc'')]),
        assign ''value_dict'' (dict_of [(str ''color'', field (field (var ''data'') ''value'') ''color''), (str ''dscp'', field
          (field (var ''data'') ''value'') ''dscp''), (str ''dot1p'', field (field (var ''data'') ''value'') ''dot1p''), (str
          ''pg'', field (field (var ''data'') ''value'') ''pg''), (str ''prio'', field (field (var ''data'') ''value'')
          ''prio''), (str ''tc'', field (field (var ''data'') ''value'') ''tc''), (str ''queue_index'', field (field (var
          ''data'') ''value'') ''queue_index'')]),
        if_else (eq (length_of (item (dict_of [(num SAI_QOS_MAP_TYPE_DSCP_TO_TC, list_of [str ''dscp'', str ''tc'']), (num
          SAI_QOS_MAP_TYPE_DSCP_TO_COLOR, list_of [str ''dscp'', str ''color'']), (num SAI_QOS_MAP_TYPE_TC_TO_QUEUE, list_of
          [str ''tc'', str ''queue_index'']), (num SAI_QOS_MAP_TYPE_DOT1P_TO_COLOR, list_of [str ''dot1p'', str ''color'']),
          (num SAI_QOS_MAP_TYPE_DOT1P_TO_TC, list_of [str ''dot1p'', str ''tc'']), (num SAI_QOS_MAP_TYPE_PFC_PRIORITY_TO_QUEUE,
          list_of [str ''prio'', str ''queue_index'']), (num SAI_QOS_MAP_TYPE_PFC_PRIORITY_TO_PRIORITY_GROUP, list_of [str
          ''prio'', str ''pg'']), (num SAI_QOS_MAP_TYPE_TC_TO_PRIORITY_GROUP, list_of [str ''tc'', str ''pg'']), (num
          SAI_QOS_MAP_TYPE_TC_AND_COLOR_TO_DOT1P, list_of [str ''tc'', str ''dot1p'', str ''color'']), (num
          SAI_QOS_MAP_TYPE_TC_AND_COLOR_TO_DSCP, list_of [str ''tc'', str ''dscp'', str ''color''])]) (var ''qos_type''))) (num
          2)) [
          if_else (either (ne (item (var ''key_dict'') (var ''expected_key'')) (item (var ''key_list'') (var ''i''))) (ne (item
            (var ''value_dict'') (var ''expected_value'')) (item (var ''data_list'') (var ''i'')))) [
            assign ''result'' (bool False),
            break] []] [
          if_else (eq (length_of (item (dict_of [(num SAI_QOS_MAP_TYPE_DSCP_TO_TC, list_of [str ''dscp'', str ''tc'']), (num
            SAI_QOS_MAP_TYPE_DSCP_TO_COLOR, list_of [str ''dscp'', str ''color'']), (num SAI_QOS_MAP_TYPE_TC_TO_QUEUE, list_of
            [str ''tc'', str ''queue_index'']), (num SAI_QOS_MAP_TYPE_DOT1P_TO_COLOR, list_of [str ''dot1p'', str ''color'']),
            (num SAI_QOS_MAP_TYPE_DOT1P_TO_TC, list_of [str ''dot1p'', str ''tc'']), (num
            SAI_QOS_MAP_TYPE_PFC_PRIORITY_TO_QUEUE, list_of [str ''prio'', str ''queue_index'']), (num
            SAI_QOS_MAP_TYPE_PFC_PRIORITY_TO_PRIORITY_GROUP, list_of [str ''prio'', str ''pg'']), (num
            SAI_QOS_MAP_TYPE_TC_TO_PRIORITY_GROUP, list_of [str ''tc'', str ''pg'']), (num
            SAI_QOS_MAP_TYPE_TC_AND_COLOR_TO_DOT1P, list_of [str ''tc'', str ''dot1p'', str ''color'']), (num
            SAI_QOS_MAP_TYPE_TC_AND_COLOR_TO_DSCP, list_of [str ''tc'', str ''dscp'', str ''color''])]) (var ''qos_type'')))
            (num 3)) [
            if_else (either (ne (item (var ''key_dict'') (var ''expected_key'')) (item (item (var ''key_list'') (var ''i''))
              (num 0))) (either (ne (item (var ''key_dict'') (var ''expected_key2'')) (item (item (var ''key_list'') (var
              ''i'')) (num 1))) (ne (item (var ''value_dict'') (var ''expected_value'')) (item (var ''data_list'') (var
              ''i''))))) [
              assign ''result'' (bool False),
              break] []] [
            assign ''result'' (bool False),
            break]]],
      return (var ''result'')]"

definition create_qos_map_to_value_list :: "'d stmt" where
  "create_qos_map_to_value_list = block [
      assign ''map_list'' (list_of []),
      assign ''i'' (num 0),
      if_else (ne (length_of (var ''key_list'')) (length_of (var ''data_list''))) [
        return (num 0)] [],
      for_in [''qos_type_dict_key''] (dict_of [(num SAI_QOS_MAP_TYPE_DSCP_TO_TC, list_of [str ''dscp'', str ''tc'']), (num
        SAI_QOS_MAP_TYPE_DSCP_TO_COLOR, list_of [str ''dscp'', str ''color'']), (num SAI_QOS_MAP_TYPE_TC_TO_QUEUE, list_of [str
        ''tc'', str ''queue_index'']), (num SAI_QOS_MAP_TYPE_DOT1P_TO_COLOR, list_of [str ''dot1p'', str ''color'']), (num
        SAI_QOS_MAP_TYPE_DOT1P_TO_TC, list_of [str ''dot1p'', str ''tc'']), (num SAI_QOS_MAP_TYPE_PFC_PRIORITY_TO_QUEUE, list_of
        [str ''prio'', str ''queue_index'']), (num SAI_QOS_MAP_TYPE_PFC_PRIORITY_TO_PRIORITY_GROUP, list_of [str ''prio'', str
        ''pg'']), (num SAI_QOS_MAP_TYPE_TC_TO_PRIORITY_GROUP, list_of [str ''tc'', str ''pg'']), (num
        SAI_QOS_MAP_TYPE_TC_AND_COLOR_TO_DOT1P, list_of [str ''tc'', str ''dot1p'', str ''color'']), (num
        SAI_QOS_MAP_TYPE_TC_AND_COLOR_TO_DSCP, list_of [str ''tc'', str ''dscp'', str ''color''])]) [
        if_else (both (eq (var ''map_type'') (var ''qos_type_dict_key'')) (eq (length_of (item (dict_of [(num
          SAI_QOS_MAP_TYPE_DSCP_TO_TC, list_of [str ''dscp'', str ''tc'']), (num SAI_QOS_MAP_TYPE_DSCP_TO_COLOR, list_of [str
          ''dscp'', str ''color'']), (num SAI_QOS_MAP_TYPE_TC_TO_QUEUE, list_of [str ''tc'', str ''queue_index'']), (num
          SAI_QOS_MAP_TYPE_DOT1P_TO_COLOR, list_of [str ''dot1p'', str ''color'']), (num SAI_QOS_MAP_TYPE_DOT1P_TO_TC, list_of
          [str ''dot1p'', str ''tc'']), (num SAI_QOS_MAP_TYPE_PFC_PRIORITY_TO_QUEUE, list_of [str ''prio'', str
          ''queue_index'']), (num SAI_QOS_MAP_TYPE_PFC_PRIORITY_TO_PRIORITY_GROUP, list_of [str ''prio'', str ''pg'']), (num
          SAI_QOS_MAP_TYPE_TC_TO_PRIORITY_GROUP, list_of [str ''tc'', str ''pg'']), (num SAI_QOS_MAP_TYPE_TC_AND_COLOR_TO_DOT1P,
          list_of [str ''tc'', str ''dot1p'', str ''color'']), (num SAI_QOS_MAP_TYPE_TC_AND_COLOR_TO_DSCP, list_of [str ''tc'',
          str ''dscp'', str ''color''])]) (var ''qos_type_dict_key''))) (num 2))) [
          for_in [''key_list_data''] (var ''key_list'') [
            assign ''value_list_data'' (item (var ''data_list'') (var ''i'')),
            assign ''mapping'' (struct ''sai_thrift_qos_map_t'' [(''key'', struct_from ''sai_thrift_qos_map_params_t'' (dict_of
              [(item (item (dict_of [(num SAI_QOS_MAP_TYPE_DSCP_TO_TC, list_of [str ''dscp'', str ''tc'']), (num
              SAI_QOS_MAP_TYPE_DSCP_TO_COLOR, list_of [str ''dscp'', str ''color'']), (num SAI_QOS_MAP_TYPE_TC_TO_QUEUE, list_of
              [str ''tc'', str ''queue_index'']), (num SAI_QOS_MAP_TYPE_DOT1P_TO_COLOR, list_of [str ''dot1p'', str ''color'']),
              (num SAI_QOS_MAP_TYPE_DOT1P_TO_TC, list_of [str ''dot1p'', str ''tc'']), (num
              SAI_QOS_MAP_TYPE_PFC_PRIORITY_TO_QUEUE, list_of [str ''prio'', str ''queue_index'']), (num
              SAI_QOS_MAP_TYPE_PFC_PRIORITY_TO_PRIORITY_GROUP, list_of [str ''prio'', str ''pg'']), (num
              SAI_QOS_MAP_TYPE_TC_TO_PRIORITY_GROUP, list_of [str ''tc'', str ''pg'']), (num
              SAI_QOS_MAP_TYPE_TC_AND_COLOR_TO_DOT1P, list_of [str ''tc'', str ''dot1p'', str ''color'']), (num
              SAI_QOS_MAP_TYPE_TC_AND_COLOR_TO_DSCP, list_of [str ''tc'', str ''dscp'', str ''color''])]) (var
              ''qos_type_dict_key'')) (num 0), var ''key_list_data'')])), (''value'', struct_from
              ''sai_thrift_qos_map_params_t'' (dict_of [(item (item (dict_of [(num SAI_QOS_MAP_TYPE_DSCP_TO_TC, list_of [str
              ''dscp'', str ''tc'']), (num SAI_QOS_MAP_TYPE_DSCP_TO_COLOR, list_of [str ''dscp'', str ''color'']), (num
              SAI_QOS_MAP_TYPE_TC_TO_QUEUE, list_of [str ''tc'', str ''queue_index'']), (num SAI_QOS_MAP_TYPE_DOT1P_TO_COLOR,
              list_of [str ''dot1p'', str ''color'']), (num SAI_QOS_MAP_TYPE_DOT1P_TO_TC, list_of [str ''dot1p'', str ''tc'']),
              (num SAI_QOS_MAP_TYPE_PFC_PRIORITY_TO_QUEUE, list_of [str ''prio'', str ''queue_index'']), (num
              SAI_QOS_MAP_TYPE_PFC_PRIORITY_TO_PRIORITY_GROUP, list_of [str ''prio'', str ''pg'']), (num
              SAI_QOS_MAP_TYPE_TC_TO_PRIORITY_GROUP, list_of [str ''tc'', str ''pg'']), (num
              SAI_QOS_MAP_TYPE_TC_AND_COLOR_TO_DOT1P, list_of [str ''tc'', str ''dot1p'', str ''color'']), (num
              SAI_QOS_MAP_TYPE_TC_AND_COLOR_TO_DSCP, list_of [str ''tc'', str ''dscp'', str ''color''])]) (var
              ''qos_type_dict_key'')) (num 1), var ''value_list_data'')]))]),
            assign ''map_list'' (appended (var ''map_list'') (var ''mapping'')),
            assign ''i'' (add (var ''i'') (num 1))]] [
          if_else (both (eq (var ''map_type'') (var ''qos_type_dict_key'')) (eq (length_of (item (dict_of [(num
            SAI_QOS_MAP_TYPE_DSCP_TO_TC, list_of [str ''dscp'', str ''tc'']), (num SAI_QOS_MAP_TYPE_DSCP_TO_COLOR, list_of [str
            ''dscp'', str ''color'']), (num SAI_QOS_MAP_TYPE_TC_TO_QUEUE, list_of [str ''tc'', str ''queue_index'']), (num
            SAI_QOS_MAP_TYPE_DOT1P_TO_COLOR, list_of [str ''dot1p'', str ''color'']), (num SAI_QOS_MAP_TYPE_DOT1P_TO_TC, list_of
            [str ''dot1p'', str ''tc'']), (num SAI_QOS_MAP_TYPE_PFC_PRIORITY_TO_QUEUE, list_of [str ''prio'', str
            ''queue_index'']), (num SAI_QOS_MAP_TYPE_PFC_PRIORITY_TO_PRIORITY_GROUP, list_of [str ''prio'', str ''pg'']), (num
            SAI_QOS_MAP_TYPE_TC_TO_PRIORITY_GROUP, list_of [str ''tc'', str ''pg'']), (num
            SAI_QOS_MAP_TYPE_TC_AND_COLOR_TO_DOT1P, list_of [str ''tc'', str ''dot1p'', str ''color'']), (num
            SAI_QOS_MAP_TYPE_TC_AND_COLOR_TO_DSCP, list_of [str ''tc'', str ''dscp'', str ''color''])]) (var
            ''qos_type_dict_key''))) (num 3))) [
            for_in [''key_list_data1'', ''key_list_data2''] (var ''key_list'') [
              assign ''value_list_data'' (item (var ''data_list'') (var ''i'')),
              assign ''mapping'' (struct ''sai_thrift_qos_map_t'' [(''key'', struct_from ''sai_thrift_qos_map_params_t''
                (dict_of [(item (item (dict_of [(num SAI_QOS_MAP_TYPE_DSCP_TO_TC, list_of [str ''dscp'', str ''tc'']), (num
                SAI_QOS_MAP_TYPE_DSCP_TO_COLOR, list_of [str ''dscp'', str ''color'']), (num SAI_QOS_MAP_TYPE_TC_TO_QUEUE,
                list_of [str ''tc'', str ''queue_index'']), (num SAI_QOS_MAP_TYPE_DOT1P_TO_COLOR, list_of [str ''dot1p'', str
                ''color'']), (num SAI_QOS_MAP_TYPE_DOT1P_TO_TC, list_of [str ''dot1p'', str ''tc'']), (num
                SAI_QOS_MAP_TYPE_PFC_PRIORITY_TO_QUEUE, list_of [str ''prio'', str ''queue_index'']), (num
                SAI_QOS_MAP_TYPE_PFC_PRIORITY_TO_PRIORITY_GROUP, list_of [str ''prio'', str ''pg'']), (num
                SAI_QOS_MAP_TYPE_TC_TO_PRIORITY_GROUP, list_of [str ''tc'', str ''pg'']), (num
                SAI_QOS_MAP_TYPE_TC_AND_COLOR_TO_DOT1P, list_of [str ''tc'', str ''dot1p'', str ''color'']), (num
                SAI_QOS_MAP_TYPE_TC_AND_COLOR_TO_DSCP, list_of [str ''tc'', str ''dscp'', str ''color''])]) (var
                ''qos_type_dict_key'')) (num 0), var ''key_list_data1''), (item (item (dict_of [(num
                SAI_QOS_MAP_TYPE_DSCP_TO_TC, list_of [str ''dscp'', str ''tc'']), (num SAI_QOS_MAP_TYPE_DSCP_TO_COLOR, list_of
                [str ''dscp'', str ''color'']), (num SAI_QOS_MAP_TYPE_TC_TO_QUEUE, list_of [str ''tc'', str ''queue_index'']),
                (num SAI_QOS_MAP_TYPE_DOT1P_TO_COLOR, list_of [str ''dot1p'', str ''color'']), (num
                SAI_QOS_MAP_TYPE_DOT1P_TO_TC, list_of [str ''dot1p'', str ''tc'']), (num SAI_QOS_MAP_TYPE_PFC_PRIORITY_TO_QUEUE,
                list_of [str ''prio'', str ''queue_index'']), (num SAI_QOS_MAP_TYPE_PFC_PRIORITY_TO_PRIORITY_GROUP, list_of [str
                ''prio'', str ''pg'']), (num SAI_QOS_MAP_TYPE_TC_TO_PRIORITY_GROUP, list_of [str ''tc'', str ''pg'']), (num
                SAI_QOS_MAP_TYPE_TC_AND_COLOR_TO_DOT1P, list_of [str ''tc'', str ''dot1p'', str ''color'']), (num
                SAI_QOS_MAP_TYPE_TC_AND_COLOR_TO_DSCP, list_of [str ''tc'', str ''dscp'', str ''color''])]) (var
                ''qos_type_dict_key'')) (num 2), var ''key_list_data2'')])), (''value'', struct_from
                ''sai_thrift_qos_map_params_t'' (dict_of [(item (item (dict_of [(num SAI_QOS_MAP_TYPE_DSCP_TO_TC, list_of [str
                ''dscp'', str ''tc'']), (num SAI_QOS_MAP_TYPE_DSCP_TO_COLOR, list_of [str ''dscp'', str ''color'']), (num
                SAI_QOS_MAP_TYPE_TC_TO_QUEUE, list_of [str ''tc'', str ''queue_index'']), (num SAI_QOS_MAP_TYPE_DOT1P_TO_COLOR,
                list_of [str ''dot1p'', str ''color'']), (num SAI_QOS_MAP_TYPE_DOT1P_TO_TC, list_of [str ''dot1p'', str
                ''tc'']), (num SAI_QOS_MAP_TYPE_PFC_PRIORITY_TO_QUEUE, list_of [str ''prio'', str ''queue_index'']), (num
                SAI_QOS_MAP_TYPE_PFC_PRIORITY_TO_PRIORITY_GROUP, list_of [str ''prio'', str ''pg'']), (num
                SAI_QOS_MAP_TYPE_TC_TO_PRIORITY_GROUP, list_of [str ''tc'', str ''pg'']), (num
                SAI_QOS_MAP_TYPE_TC_AND_COLOR_TO_DOT1P, list_of [str ''tc'', str ''dot1p'', str ''color'']), (num
                SAI_QOS_MAP_TYPE_TC_AND_COLOR_TO_DSCP, list_of [str ''tc'', str ''dscp'', str ''color''])]) (var
                ''qos_type_dict_key'')) (num 1), var ''value_list_data'')]))]),
              assign ''map_list'' (appended (var ''map_list'') (var ''mapping'')),
              assign ''i'' (add (var ''i'') (num 1))]] []]],
      assign ''qos_map_list'' (struct ''sai_thrift_qos_map_list_t'' [(''count'', length_of (var ''map_list'')), (''maplist'',
        var ''map_list'')]),
      return (var ''qos_map_list'')]"

definition update_and_verify_qos_map :: "'d stmt" where
  "update_and_verify_qos_map = block [
      if_else (eq (var ''mapid'') (num 0)) [
        return (bool False)] [],
      if_else (ne (length_of (var ''key_list'')) (length_of (var ''data_list''))) [
        return (bool False)] [],
      assign ''qos_map_list'' (invoke [(''map_type'', var ''map_type''), (''key_list'', var ''key_list''), (''data_list'', var
        ''data_list'')] create_qos_map_to_value_list),
      assign ''status'' (api_set ''qos_map'' (var ''mapid'') [(''map_to_value_list'', var ''qos_map_list'')]),
      if_else (ne (var ''status'') (num SAI_STATUS_SUCCESS)) [
        return (bool False)] [],
      if_else (is_false (invoke [(''qosmap_id'', var ''mapid''), (''qos_type'', var ''map_type''), (''key_list'', var
        ''key_list''), (''data_list'', var ''data_list'')] verify_qos_map)) [
        print [var ''mapid''],
        return (bool False)] [],
      return (bool True)]"

definition create_and_verify_qos_map :: "'d stmt" where
  "create_and_verify_qos_map = block [
      if_else (ne (length_of (var ''key_list'')) (length_of (var ''data_list''))) [
        return (num 0)] [],
      assign ''qos_map_list'' (invoke [(''map_type'', var ''map_type''), (''key_list'', var ''key_list''), (''data_list'', var
        ''data_list'')] create_qos_map_to_value_list),
      assign ''qos_map_id'' (api_create ''qos_map'' [(''type'', as_int (var ''map_type'')), (''map_to_value_list'', var
        ''qos_map_list'')]),
      if_else (both (ne (var ''qos_map_id'') (num 0)) (var ''verify'')) [
        if_else (is_false (invoke [(''qosmap_id'', var ''qos_map_id''), (''qos_type'', var ''map_type''), (''key_list'', var
          ''key_list''), (''data_list'', var ''data_list'')] verify_qos_map)) [
          print [var ''qos_map_id''],
          run (api_remove ''qos_map'' (var ''qos_map_id'')),
          assign ''qos_map_id'' (num 0)] []] [],
      return (var ''qos_map_id'')]"

definition L2QosMapBaseClass_setUp :: "'d stmt" where
  "L2QosMapBaseClass_setUp = block [
      super_setUp,
      set_self ''bp_port_list'' (list_of []),
      set_self ''vlan_member_list'' (list_of []),
      set_self ''test_dev_ports'' (list_of []),
      set_self ''test_ports'' (list_of [self ''port0'', self ''port1'', self ''port2'', self ''port3'']),
      set_self ''dev_test_port_list'' (list_of [self ''dev_port0'', self ''dev_port1'', self ''dev_port2'', self ''dev_port3'']),
      assign ''vlan_id'' (num 1),
      assign ''i'' (num 0),
      for_in [''port''] (self ''test_ports'') [
        run (api_set ''port'' (var ''port'') [(''port_vlan_id'', var ''vlan_id'')]),
        assign ''bp_port'' (api_create ''bridge_port'' [(''bridge_id'', self ''default_1q_bridge''), (''port_id'', var
          ''port''), (''type'', num SAI_BRIDGE_PORT_TYPE_PORT), (''admin_state'', bool True)]),
        set_self_named (formatted ''port%d_bp'' [var ''i'']) (var ''bp_port''),
        set_self ''bp_port_list'' (appended (self ''bp_port_list'') (var ''bp_port'')),
        assign ''vlan_member'' (api_create ''vlan_member'' [(''vlan_id'', self ''default_vlan_id''), (''bridge_port_id'', var
          ''bp_port''), (''vlan_tagging_mode'', num SAI_VLAN_TAGGING_MODE_TAGGED)]),
        set_self ''vlan_member_list'' (appended (self ''vlan_member_list'') (var ''vlan_member'')),
        assign ''i'' (add (var ''i'') (num 1))]]"

definition L2QosMapBaseClass_tearDown :: "'d stmt" where
  "L2QosMapBaseClass_tearDown = block [
      run (lib ''sai_thrift_flush_fdb_entries'' [] [(''entry_type'', num SAI_FDB_FLUSH_ENTRY_TYPE_ALL)]),
      for_in [''vlan_member''] (self ''vlan_member_list'') [
        run (api_remove ''vlan_member'' (var ''vlan_member''))],
      for_in [''bp_port''] (self ''bp_port_list'') [
        run (api_remove ''bridge_port'' (var ''bp_port''))],
      for_in [''port''] (self ''test_ports'') [
        run (api_set ''port'' (var ''port'') [(''port_vlan_id'', num 0)])],
      super_tearDown]"

definition L2QosMapBaseClass_getPortQueueIndexStats :: "'d stmt" where
  "L2QosMapBaseClass_getPortQueueIndexStats = block [
      assign ''total_cnt'' (num 0),
      assign ''sai_list'' (struct ''sai_thrift_u32_list_t'' [(''count'', num 100), (''uint32list'', list_of [])]),
      assign ''attr'' (api_get ''port'' (var ''port'') [(''qos_queue_list'', var ''sai_list'')]),
      assign ''queue_list'' (field (item (var ''attr'') (str ''qos_queue_list'')) ''idlist''),
      assign ''queue'' (item (var ''queue_list'') (var ''index'')),
      assign ''attr'' (api_get ''queue'' (var ''queue'') [(''index'', bool True)]),
      assert (eq (item (var ''attr'') (str ''index'')) (var ''index'')),
      for_in [''q_stat''] (var ''qstats'') [
        assign ''stats'' (query ''sai_thrift_get_queue_stats'' [var ''queue''] []),
        assign ''total_cnt'' (add (var ''total_cnt'') (item (var ''stats'') (var ''q_stat'')))],
      return (var ''total_cnt'')]"

definition L3QosMapBaseClass_setUp :: "'d stmt" where
  "L3QosMapBaseClass_setUp = block [
      assign ''dmac0'' (str ''00:11:22:33:44:06''),
      assign ''dmac1'' (str ''00:11:22:33:44:04''),
      assign ''nhop_ip0'' (str ''10.10.10.10''),
      assign ''nhop_ip1'' (str ''10.10.10.11''),
      assign ''nhop_ip2'' (str ''10.10.10.12''),
      assign ''nhop_ip3'' (str ''10.10.10.13''),
      super_setUp,
      set_self ''ppg_list'' (mul (list_of [num 0]) (num 8)),
      set_self ''test_case_name'' (str ''''),
      set_self ''test_mapping'' (mul (list_of [num 0]) (num 4)),
      set_self ''test_dev_ports'' (list_of []),
      set_self ''test_ports'' (list_of [self ''port0'', self ''port1'', self ''port2'', self ''port3'']),
      set_self ''dev_test_port_list'' (list_of [self ''dev_port0'', self ''dev_port1'', self ''dev_port2'', self ''dev_port3'']),
      set_self ''port0_rif'' (api_create ''router_interface'' [(''type'', num SAI_ROUTER_INTERFACE_TYPE_PORT),
        (''virtual_router_id'', self ''default_vrf''), (''port_id'', self ''port0''), (''admin_v4_state'', bool True),
        (''admin_v6_state'', bool True)]),
      set_self ''port1_rif'' (api_create ''router_interface'' [(''type'', num SAI_ROUTER_INTERFACE_TYPE_PORT),
        (''virtual_router_id'', self ''default_vrf''), (''port_id'', self ''port1''), (''admin_v4_state'', bool True),
        (''admin_v6_state'', bool True)]),
      set_self ''port2_rif'' (api_create ''router_interface'' [(''type'', num SAI_ROUTER_INTERFACE_TYPE_PORT),
        (''virtual_router_id'', self ''default_vrf''), (''port_id'', self ''port2''), (''admin_v4_state'', bool True),
        (''admin_v6_state'', bool True)]),
      set_self ''port3_rif'' (api_create ''router_interface'' [(''type'', num SAI_ROUTER_INTERFACE_TYPE_PORT),
        (''virtual_router_id'', self ''default_vrf''), (''port_id'', self ''port3''), (''admin_v4_state'', bool True),
        (''admin_v6_state'', bool True)]),
      set_self ''neighbor_entry0'' (struct ''sai_thrift_neighbor_entry_t'' [(''switch_id'', self ''switch_id''), (''rif_id'',
        self ''port0_rif''), (''ip_address'', ip_address (var ''nhop_ip0''))]),
      run (api_create_entry ''neighbor_entry'' (self ''neighbor_entry0'') [(''dst_mac_address'', var ''dmac1'')]),
      set_self ''neighbor_entry1'' (struct ''sai_thrift_neighbor_entry_t'' [(''switch_id'', self ''switch_id''), (''rif_id'',
        self ''port1_rif''), (''ip_address'', ip_address (var ''nhop_ip1''))]),
      run (api_create_entry ''neighbor_entry'' (self ''neighbor_entry1'') [(''dst_mac_address'', var ''dmac1'')]),
      set_self ''neighbor_entry2'' (struct ''sai_thrift_neighbor_entry_t'' [(''switch_id'', self ''switch_id''), (''rif_id'',
        self ''port2_rif''), (''ip_address'', ip_address (var ''nhop_ip2''))]),
      run (api_create_entry ''neighbor_entry'' (self ''neighbor_entry2'') [(''dst_mac_address'', var ''dmac1'')]),
      set_self ''neighbor_entry3'' (struct ''sai_thrift_neighbor_entry_t'' [(''switch_id'', self ''switch_id''), (''rif_id'',
        self ''port3_rif''), (''ip_address'', ip_address (var ''nhop_ip3''))]),
      run (api_create_entry ''neighbor_entry'' (self ''neighbor_entry3'') [(''dst_mac_address'', var ''dmac1'')]),
      set_self ''nhop1'' (api_create ''next_hop'' [(''ip'', ip_address (str ''10.10.10.11'')), (''router_interface_id'', self
        ''port1_rif''), (''type'', num SAI_NEXT_HOP_TYPE_IP)]),
      set_self ''route_entry1'' (struct ''sai_thrift_route_entry_t'' [(''vr_id'', self ''default_vrf''), (''destination'',
        ip_prefix (str ''10.10.10.11/32''))]),
      run (api_create_entry ''route_entry'' (self ''route_entry1'') [(''next_hop_id'', self ''nhop1'')]),
      set_self ''nhop0'' (api_create ''next_hop'' [(''ip'', ip_address (str ''10.10.10.1'')), (''router_interface_id'', self
        ''port2_rif''), (''type'', num SAI_NEXT_HOP_TYPE_IP)]),
      set_self ''neighbor_entry6'' (struct ''sai_thrift_neighbor_entry_t'' [(''rif_id'', self ''port2_rif''), (''ip_address'',
        ip_address (str ''10.10.10.1''))]),
      run (api_create_entry ''neighbor_entry'' (self ''neighbor_entry6'') [(''dst_mac_address'', var ''dmac0'')]),
      set_self ''route_entry1_ipv6'' (struct ''sai_thrift_route_entry_t'' [(''vr_id'', self ''default_vrf''), (''destination'',
        ip_prefix (str ''1234:5678:9abc:def0:4422:1133:5577:1111/128''))]),
      run (api_create_entry ''route_entry'' (self ''route_entry1_ipv6'') [(''next_hop_id'', self ''nhop0'')])]"

definition L3QosMapBaseClass_tearDown :: "'d stmt" where
  "L3QosMapBaseClass_tearDown = block [
      run (api_remove ''route_entry'' (self ''route_entry1'')),
      run (api_remove ''route_entry'' (self ''route_entry1_ipv6'')),
      run (api_remove ''next_hop'' (self ''nhop0'')),
      run (api_remove ''next_hop'' (self ''nhop1'')),
      run (api_remove ''neighbor_entry'' (self ''neighbor_entry0'')),
      run (api_remove ''neighbor_entry'' (self ''neighbor_entry1'')),
      run (api_remove ''neighbor_entry'' (self ''neighbor_entry2'')),
      run (api_remove ''neighbor_entry'' (self ''neighbor_entry3'')),
      run (api_remove ''neighbor_entry'' (self ''neighbor_entry6'')),
      run (api_remove ''router_interface'' (self ''port0_rif'')),
      run (api_remove ''router_interface'' (self ''port1_rif'')),
      run (api_remove ''router_interface'' (self ''port2_rif'')),
      run (api_remove ''router_interface'' (self ''port3_rif'')),
      super_tearDown]"

definition L3QosMapBaseClass_getPortQueueIndexStats :: "'d stmt" where
  "L3QosMapBaseClass_getPortQueueIndexStats = block [
      assign ''total_cnt'' (num 0),
      assign ''sai_list'' (struct ''sai_thrift_u32_list_t'' [(''count'', num 100), (''uint32list'', list_of [])]),
      assign ''attr'' (api_get ''port'' (var ''port'') [(''qos_queue_list'', var ''sai_list'')]),
      assign ''queue_list'' (field (item (var ''attr'') (str ''qos_queue_list'')) ''idlist''),
      assign ''queue'' (item (var ''queue_list'') (var ''index'')),
      assign ''attr'' (api_get ''queue'' (var ''queue'') [(''index'', bool True)]),
      assert (eq (item (var ''attr'') (str ''index'')) (var ''index'')),
      for_in [''q_stat''] (var ''qstats'') [
        assign ''stats'' (query ''sai_thrift_get_queue_stats'' [var ''queue''] []),
        assign ''total_cnt'' (add (var ''total_cnt'') (item (var ''stats'') (var ''q_stat'')))],
      return (var ''total_cnt'')]"

definition L3QosMapBaseClass_getQueueStats :: "'d stmt" where
  "L3QosMapBaseClass_getQueueStats = block [
      assign ''total_cnt'' (num 0),
      for_in [''queue_oid''] (var ''queues'') [
        assign ''stats'' (query ''sai_thrift_get_queue_stats'' [var ''queue_oid''] []),
        for_in [''q_stat''] (var ''qstats'') [
          assign ''total_cnt'' (add (var ''total_cnt'') (item (var ''stats'') (var ''q_stat'')))]],
      return (var ''total_cnt'')]"

definition L3QosMapBaseClass_comparePortPPGStats :: "'d stmt" where
  "L3QosMapBaseClass_comparePortPPGStats = block [
      for_in [''port''] (range_of (num 0) (length_of (self ''test_dev_ports''))) [
        for_in [''ppg''] (range_of (num 0) (num 8)) [
          if_else (ne (item (item (var ''stats1'') (var ''port'')) (var ''ppg'')) (item (item (var ''stats2'') (var ''port''))
            (var ''ppg''))) [
            print [var ''stats1''],
            print [var ''stats2''],
            print [var ''port'', var ''ppg'', item (item (var ''stats1'') (var ''port'')) (var ''ppg''), item (item (var
              ''stats2'') (var ''port'')) (var ''ppg'')],
            return (bool False)] []]],
      return (bool True)]"

definition L3QosMapBaseClass_getPpGroupStats :: "'d stmt" where
  "L3QosMapBaseClass_getPpGroupStats = block [
      assign ''total_cnt'' (num 0),
      for_in [''ppg_oid''] (var ''ppg_oids'') [
        assign ''stats'' (query ''sai_thrift_get_ingress_priority_group_stats'' [var ''ppg_oid''] []),
        for_in [''ppg_stat''] (var ''ppg_stats'') [
          assign ''total_cnt'' (add (var ''total_cnt'') (item (var ''stats'') (var ''ppg_stat'')))]],
      return (var ''total_cnt'')]"

definition L3QosMapBaseClass_setPortMultipleQosMapIds :: "'d stmt" where
  "L3QosMapBaseClass_setPortMultipleQosMapIds = block [
      assign ''params'' (list_of [str ''qos_pfc_priority_to_priority_group_map'', str ''qos_dot1p_to_tc_map'', str
        ''qos_tc_to_priority_group_map'', str ''qos_dscp_to_tc_map'', str ''qos_pfc_priority_to_queue_map'']),
      for_in [''key''] (var ''qos_map_dict'') [
        for_in [''p''] (var ''params'') [
          set_self_named (formatted ''t_%s'' [var ''p'']) none],
        assign ''temp_name'' (add (str ''t_'') (var ''key'')),
        if_else (eq (var ''key'') (str ''qos_pfc_priority_to_priority_group_map'')) [
          set_self_named (var ''temp_name'') (item (var ''qos_map_dict'') (var ''key''))] [],
        if_else (eq (var ''key'') (str ''qos_dot1p_to_tc_map'')) [
          set_self_named (var ''temp_name'') (item (var ''qos_map_dict'') (var ''key''))] [],
        if_else (eq (var ''key'') (str ''qos_tc_to_priority_group_map'')) [
          set_self_named (var ''temp_name'') (item (var ''qos_map_dict'') (var ''key''))] [],
        if_else (eq (var ''key'') (str ''qos_dscp_to_tc_map'')) [
          set_self_named (var ''temp_name'') (item (var ''qos_map_dict'') (var ''key''))] [],
        if_else (eq (var ''key'') (str ''qos_pfc_priority_to_queue_map'')) [
          set_self_named (var ''temp_name'') (item (var ''qos_map_dict'') (var ''key''))] [],
        run (api_set ''port'' (var ''port'') [(''qos_tc_to_priority_group_map'', self_named (str
          ''t_qos_tc_to_priority_group_map'')), (''qos_pfc_priority_to_priority_group_map'', self_named (str
          ''t_qos_pfc_priority_to_priority_group_map'')), (''qos_pfc_priority_to_queue_map'', self_named (str
          ''t_qos_pfc_priority_to_queue_map'')), (''qos_dot1p_to_tc_map'', self_named (str ''t_qos_dot1p_to_tc_map'')),
          (''qos_dscp_to_tc_map'', self_named (str ''t_qos_dscp_to_tc_map''))])]]"

definition L3QosDscpToTcTest_setUp :: "'d stmt" where
  "L3QosDscpToTcTest_setUp = block [
      run (invoke [] L3QosMapBaseClass_setUp)]"

definition L3QosDscpToTcTest_l3IPv4QosMapDscpToTcDefaultMappingTest :: "'d stmt" where
  "L3QosDscpToTcTest_l3IPv4QosMapDscpToTcDefaultMappingTest = block [
      assign ''test_cases'' (list_of []),
      assign ''test_cases'' (appended (var ''test_cases'') (dict_of [(str ''dscp'', num 0), (str ''port_default_tc'', num 0),
        (str ''queue'', num 0)])),
      assign ''test_cases'' (appended (var ''test_cases'') (dict_of [(str ''dscp'', num 1), (str ''port_default_tc'', num 0),
        (str ''queue'', num 0)])),
      assign ''test_cases'' (appended (var ''test_cases'') (dict_of [(str ''dscp'', num 2), (str ''port_default_tc'', num 0),
        (str ''queue'', num 0)])),
      assign ''test_cases'' (appended (var ''test_cases'') (dict_of [(str ''dscp'', num 3), (str ''port_default_tc'', num 0),
        (str ''queue'', num 0)])),
      assign ''test_cases'' (appended (var ''test_cases'') (dict_of [(str ''dscp'', num 4), (str ''port_default_tc'', num 0),
        (str ''queue'', num 0)])),
      assign ''test_cases'' (appended (var ''test_cases'') (dict_of [(str ''dscp'', num 5), (str ''port_default_tc'', num 0),
        (str ''queue'', num 0)])),
      assign ''test_cases'' (appended (var ''test_cases'') (dict_of [(str ''dscp'', num 6), (str ''port_default_tc'', num 0),
        (str ''queue'', num 0)])),
      assign ''test_cases'' (appended (var ''test_cases'') (dict_of [(str ''dscp'', num 7), (str ''port_default_tc'', num 0),
        (str ''queue'', num 0)])),
      assign ''test_cases'' (appended (var ''test_cases'') (dict_of [(str ''dscp'', num 8), (str ''port_default_tc'', num 0),
        (str ''queue'', num 0)])),
      assign ''test_cases'' (appended (var ''test_cases'') (dict_of [(str ''dscp'', num 32), (str ''port_default_tc'', num 0),
        (str ''queue'', num 0)])),
      assign ''test_cases'' (appended (var ''test_cases'') (dict_of [(str ''dscp'', num 16), (str ''port_default_tc'', num 0),
        (str ''queue'', num 0)])),
      assign ''test_cases'' (appended (var ''test_cases'') (dict_of [(str ''dscp'', num 0), (str ''port_default_tc'', num 5),
        (str ''queue'', num 5)])),
      assign ''test_cases'' (appended (var ''test_cases'') (dict_of [(str ''dscp'', num 1), (str ''port_default_tc'', num 5),
        (str ''queue'', num 5)])),
      assign ''test_cases'' (appended (var ''test_cases'') (dict_of [(str ''dscp'', num 2), (str ''port_default_tc'', num 5),
        (str ''queue'', num 5)])),
      assign ''test_cases'' (appended (var ''test_cases'') (dict_of [(str ''dscp'', num 3), (str ''port_default_tc'', num 5),
        (str ''queue'', num 5)])),
      assign ''test_cases'' (appended (var ''test_cases'') (dict_of [(str ''dscp'', num 4), (str ''port_default_tc'', num 5),
        (str ''queue'', num 5)])),
      assign ''test_cases'' (appended (var ''test_cases'') (dict_of [(str ''dscp'', num 5), (str ''port_default_tc'', num 7),
        (str ''queue'', num 7)])),
      assign ''test_cases'' (appended (var ''test_cases'') (dict_of [(str ''dscp'', num 6), (str ''port_default_tc'', num 7),
        (str ''queue'', num 7)])),
      assign ''test_cases'' (appended (var ''test_cases'') (dict_of [(str ''dscp'', num 7), (str ''port_default_tc'', num 7),
        (str ''queue'', num 7)])),
      assign ''test_cases'' (appended (var ''test_cases'') (dict_of [(str ''dscp'', num 8), (str ''port_default_tc'', num 7),
        (str ''queue'', num 7)])),
      assign ''test_cases'' (appended (var ''test_cases'') (dict_of [(str ''dscp'', num 32), (str ''port_default_tc'', num 7),
        (str ''queue'', num 7)])),
      assign ''test_cases'' (appended (var ''test_cases'') (dict_of [(str ''dscp'', num 16), (str ''port_default_tc'', num 7),
        (str ''queue'', num 7)])),
      assign ''ingress_tc_list'' (list_of [num 0, num 1, num 2, num 3, num 4, num 5, num 6, num 7]),
      assign ''ingress_queue_list'' (list_of [num 0, num 1, num 2, num 3, num 4, num 5, num 6, num 7]),
      assign ''qos_tc_to_queue_map_id'' (invoke [(''map_type'', num SAI_QOS_MAP_TYPE_TC_TO_QUEUE), (''key_list'', var
        ''ingress_tc_list''), (''data_list'', var ''ingress_queue_list''), (''verify'', bool True)] create_and_verify_qos_map),
      assert (ne (var ''qos_tc_to_queue_map_id'') (num 0)),
      assign ''status'' (api_set ''port'' (self ''port1'') [(''qos_tc_to_queue_map'', var ''qos_tc_to_queue_map_id'')]),
      assert_eq (var ''status'') (num SAI_STATUS_SUCCESS),
      assign ''attr'' (api_get ''port'' (self ''port1'') [(''qos_tc_to_queue_map'', bool True)]),
      assert_eq (item (var ''attr'') (str ''qos_tc_to_queue_map'')) (var ''qos_tc_to_queue_map_id''),
      for_in [''port''] (list_of [self ''port0'', self ''port1'', self ''port2'', self ''port3'']) [
        assert_eq (var ''status'') (num SAI_STATUS_SUCCESS),
        assign ''attr'' (api_get ''port'' (var ''port'') [(''qos_dscp_to_tc_map'', bool True), (''qos_default_tc'', bool True)]),
        assert_eq (item (var ''attr'') (str ''qos_dscp_to_tc_map'')) (num 0),
        assert_eq (item (var ''attr'') (str ''qos_default_tc'')) (num 0)],
      try_finally [
        for_in [''test''] (var ''test_cases'') [
          assign ''ip_tos'' (shl (item (var ''test'') (str ''dscp'')) (num 2)),
          assign ''pkt'' (lib ''simple_tcp_packet'' [] [(''eth_dst'', str ROUTER_MAC), (''eth_src'', str ''00:22:22:22:22:22''),
            (''ip_dst'', str ''10.10.10.11''), (''ip_src'', str ''192.168.0.1''), (''ip_tos'', var ''ip_tos''), (''ip_id'', num
            105), (''ip_ttl'', num 64)]),
          assign ''exp_pkt'' (lib ''simple_tcp_packet'' [] [(''eth_dst'', str ''00:11:22:33:44:04''), (''eth_src'', str
            ROUTER_MAC), (''ip_dst'', str ''10.10.10.11''), (''ip_src'', str ''192.168.0.1''), (''ip_tos'', var ''ip_tos''),
            (''ip_id'', num 105), (''ip_ttl'', num 63)]),
          run (api_set ''port'' (self ''port0'') [(''qos_default_tc'', item (var ''test'') (str ''port_default_tc''))]),
          assign ''attr'' (api_get ''port'' (self ''port0'') [(''qos_default_tc'', bool True)]),
          assert_eq (item (var ''attr'') (str ''qos_default_tc'')) (item (var ''test'') (str ''port_default_tc'')),
          assign ''initial_q_cnt'' (invoke [(''port'', self ''port1''), (''index'', item (var ''test'') (str ''queue'')),
            (''qstats'', list_of [str ''SAI_QUEUE_STAT_PACKETS''])] L3QosMapBaseClass_getPortQueueIndexStats),
          print [self ''dev_port0'', var ''ip_tos'', self ''dev_port1'', item (var ''test'') (str ''port_default_tc''), item
            (var ''test'') (str ''queue'')],
          run (lib ''send_packet'' [self ''dev_port0'', var ''pkt''] []),
          run (lib ''verify_packet'' [var ''exp_pkt'', self ''dev_port1''] []),
          assign ''post_q_cnt'' (invoke [(''port'', self ''port1''), (''index'', item (var ''test'') (str ''queue'')),
            (''qstats'', list_of [str ''SAI_QUEUE_STAT_PACKETS''])] L3QosMapBaseClass_getPortQueueIndexStats),
          assert_eq (add (var ''initial_q_cnt'') (num 1)) (explained (var ''post_q_cnt'') [item (var ''test'') (str ''queue''),
            var ''initial_q_cnt'', var ''post_q_cnt''])]] [
        run (api_set ''port'' (self ''port0'') [(''qos_default_tc'', num 0)]),
        run (api_set ''port'' (self ''port1'') [(''qos_tc_to_queue_map'', as_int (num SAI_NULL_OBJECT_ID))]),
        run (api_remove ''qos_map'' (var ''qos_tc_to_queue_map_id''))]]"

definition L3QosDscpToTcTest_l3IPv6QosMapDscpToTcDefaultMappingTest :: "'d stmt" where
  "L3QosDscpToTcTest_l3IPv6QosMapDscpToTcDefaultMappingTest = block [
      assign ''test_cases'' (list_of []),
      assign ''test_cases'' (appended (var ''test_cases'') (dict_of [(str ''dscp'', num 0), (str ''port_default_tc'', num 0),
        (str ''queue'', num 0)])),
      assign ''test_cases'' (appended (var ''test_cases'') (dict_of [(str ''dscp'', num 1), (str ''port_default_tc'', num 0),
        (str ''queue'', num 0)])),
      assign ''test_cases'' (appended (var ''test_cases'') (dict_of [(str ''dscp'', num 2), (str ''port_default_tc'', num 0),
        (str ''queue'', num 0)])),
      assign ''test_cases'' (appended (var ''test_cases'') (dict_of [(str ''dscp'', num 3), (str ''port_default_tc'', num 0),
        (str ''queue'', num 0)])),
      assign ''test_cases'' (appended (var ''test_cases'') (dict_of [(str ''dscp'', num 4), (str ''port_default_tc'', num 0),
        (str ''queue'', num 0)])),
      assign ''test_cases'' (appended (var ''test_cases'') (dict_of [(str ''dscp'', num 5), (str ''port_default_tc'', num 0),
        (str ''queue'', num 0)])),
      assign ''test_cases'' (appended (var ''test_cases'') (dict_of [(str ''dscp'', num 6), (str ''port_default_tc'', num 0),
        (str ''queue'', num 0)])),
      assign ''test_cases'' (appended (var ''test_cases'') (dict_of [(str ''dscp'', num 7), (str ''port_default_tc'', num 0),
        (str ''queue'', num 0)])),
      assign ''test_cases'' (appended (var ''test_cases'') (dict_of [(str ''dscp'', num 10), (str ''port_default_tc'', num 0),
        (str ''queue'', num 0)])),
      assign ''test_cases'' (appended (var ''test_cases'') (dict_of [(str ''dscp'', num 12), (str ''port_default_tc'', num 0),
        (str ''queue'', num 0)])),
      assign ''test_cases'' (appended (var ''test_cases'') (dict_of [(str ''dscp'', num 0), (str ''port_default_tc'', num 1),
        (str ''queue'', num 1)])),
      assign ''test_cases'' (appended (var ''test_cases'') (dict_of [(str ''dscp'', num 1), (str ''port_default_tc'', num 2),
        (str ''queue'', num 2)])),
      assign ''test_cases'' (appended (var ''test_cases'') (dict_of [(str ''dscp'', num 2), (str ''port_default_tc'', num 3),
        (str ''queue'', num 3)])),
      assign ''test_cases'' (appended (var ''test_cases'') (dict_of [(str ''dscp'', num 3), (str ''port_default_tc'', num 4),
        (str ''queue'', num 4)])),
      assign ''test_cases'' (appended (var ''test_cases'') (dict_of [(str ''dscp'', num 4), (str ''port_default_tc'', num 5),
        (str ''queue'', num 5)])),
      assign ''test_cases'' (appended (var ''test_cases'') (dict_of [(str ''dscp'', num 5), (str ''port_default_tc'', num 6),
        (str ''queue'', num 6)])),
      assign ''test_cases'' (appended (var ''test_cases'') (dict_of [(str ''dscp'', num 6), (str ''port_default_tc'', num 7),
        (str ''queue'', num 7)])),
      assign ''test_cases'' (appended (var ''test_cases'') (dict_of [(str ''dscp'', num 7), (str ''port_default_tc'', num 1),
        (str ''queue'', num 1)])),
      assign ''test_cases'' (appended (var ''test_cases'') (dict_of [(str ''dscp'', num 10), (str ''port_default_tc'', num 1),
        (str ''queue'', num 1)])),
      assign ''test_cases'' (appended (var ''test_cases'') (dict_of [(str ''dscp'', num 12), (str ''port_default_tc'', num 1),
        (str ''queue'', num 1)])),
      assign ''ingress_tc_list'' (list_of [num 0, num 1, num 2, num 3, num 4, num 5, num 6, num 7]),
      assign ''ingress_queue_list'' (list_of [num 0, num 1, num 2, num 3, num 4, num 5, num 6, num 7]),
      assign ''qos_tc_to_queue_map_id'' (invoke [(''map_type'', num SAI_QOS_MAP_TYPE_TC_TO_QUEUE), (''key_list'', var
        ''ingress_tc_list''), (''data_list'', var ''ingress_queue_list''), (''verify'', bool True)] create_and_verify_qos_map),
      assert (ne (var ''qos_tc_to_queue_map_id'') (num 0)),
      assign ''status'' (api_set ''port'' (self ''port2'') [(''qos_tc_to_queue_map'', var ''qos_tc_to_queue_map_id'')]),
      assert_eq (var ''status'') (num SAI_STATUS_SUCCESS),
      assign ''attr'' (api_get ''port'' (self ''port2'') [(''qos_tc_to_queue_map'', bool True)]),
      assert_eq (item (var ''attr'') (str ''qos_tc_to_queue_map'')) (var ''qos_tc_to_queue_map_id''),
      for_in [''port''] (list_of [self ''port0'', self ''port1'', self ''port2'', self ''port3'']) [
        assign ''attr'' (api_get ''port'' (var ''port'') [(''qos_dscp_to_tc_map'', bool True), (''qos_default_tc'', bool True)]),
        assert_eq (item (var ''attr'') (str ''qos_dscp_to_tc_map'')) (num 0),
        assert_eq (item (var ''attr'') (str ''qos_default_tc'')) (num 0)],
      try_finally [
        for_in [''test''] (var ''test_cases'') [
          assign ''ipv6_tc'' (shl (item (var ''test'') (str ''dscp'')) (num 2)),
          assign ''pkt'' (lib ''simple_tcpv6_packet'' [] [(''eth_dst'', str ROUTER_MAC), (''eth_src'', str
            ''00:22:22:22:22:22''), (''ipv6_dst'', str ''1234:5678:9abc:def0:4422:1133:5577:1111''), (''ipv6_src'', str
            ''2000::1''), (''ipv6_hlim'', num 64), (''ipv6_tc'', var ''ipv6_tc''), (''pktlen'', num 100)]),
          assign ''exp_pkt'' (lib ''simple_tcpv6_packet'' [] [(''eth_dst'', str ''00:11:22:33:44:06''), (''eth_src'', str
            ROUTER_MAC), (''ipv6_dst'', str ''1234:5678:9abc:def0:4422:1133:5577:1111''), (''ipv6_src'', str ''2000::1''),
            (''ipv6_hlim'', num 63), (''ipv6_tc'', var ''ipv6_tc''), (''pktlen'', num 100)]),
          run (api_set ''port'' (self ''port0'') [(''qos_default_tc'', item (var ''test'') (str ''port_default_tc''))]),
          assign ''attr'' (api_get ''port'' (self ''port0'') [(''qos_default_tc'', bool True)]),
          assert_eq (item (var ''attr'') (str ''qos_default_tc'')) (item (var ''test'') (str ''port_default_tc'')),
          assign ''initial_q_cnt'' (invoke [(''port'', self ''port2''), (''index'', item (var ''test'') (str ''queue'')),
            (''qstats'', list_of [str ''SAI_QUEUE_STAT_PACKETS''])] L3QosMapBaseClass_getPortQueueIndexStats),
          print [self ''dev_port0'', item (var ''test'') (str ''dscp''), self ''dev_port1'', item (var ''test'') (str
            ''port_default_tc''), item (var ''test'') (str ''queue'')],
          run (lib ''send_packet'' [self ''dev_port0'', var ''pkt''] []),
          run (lib ''verify_packet'' [var ''exp_pkt'', self ''dev_port2''] []),
          assign ''post_q_cnt'' (invoke [(''port'', self ''port2''), (''index'', item (var ''test'') (str ''queue'')),
            (''qstats'', list_of [str ''SAI_QUEUE_STAT_PACKETS''])] L3QosMapBaseClass_getPortQueueIndexStats),
          assert_eq (add (var ''initial_q_cnt'') (num 1)) (explained (var ''post_q_cnt'') [item (var ''test'') (str ''queue''),
            var ''initial_q_cnt'', var ''post_q_cnt''])]] [
        run (api_set ''port'' (self ''port0'') [(''qos_default_tc'', num 0)]),
        run (api_set ''port'' (self ''port2'') [(''qos_tc_to_queue_map'', as_int (num SAI_NULL_OBJECT_ID))]),
        run (api_remove ''qos_map'' (var ''qos_tc_to_queue_map_id''))]]"

definition L3QosDscpToTcTest_l3IPv4QosMapMultipleDscpToSingleTcMappingTest :: "'d stmt" where
  "L3QosDscpToTcTest_l3IPv4QosMapMultipleDscpToSingleTcMappingTest = block [
      assign ''test_cases'' (list_of []),
      assign ''test_cases'' (appended (var ''test_cases'') (dict_of [(str ''tx_port'', self ''dev_port0''), (str ''dscp'', num
        0), (str ''tc'', num 1), (str ''queue'', num 2)])),
      assign ''test_cases'' (appended (var ''test_cases'') (dict_of [(str ''tx_port'', self ''dev_port0''), (str ''dscp'', num
        1), (str ''tc'', num 1), (str ''queue'', num 2)])),
      assign ''test_cases'' (appended (var ''test_cases'') (dict_of [(str ''tx_port'', self ''dev_port0''), (str ''dscp'', num
        2), (str ''tc'', num 1), (str ''queue'', num 2)])),
      assign ''test_cases'' (appended (var ''test_cases'') (dict_of [(str ''tx_port'', self ''dev_port0''), (str ''dscp'', num
        3), (str ''tc'', num 1), (str ''queue'', num 2)])),
      assign ''test_cases'' (appended (var ''test_cases'') (dict_of [(str ''tx_port'', self ''dev_port0''), (str ''dscp'', num
        4), (str ''tc'', num 6), (str ''queue'', num 5)])),
      assign ''test_cases'' (appended (var ''test_cases'') (dict_of [(str ''tx_port'', self ''dev_port0''), (str ''dscp'', num
        5), (str ''tc'', num 6), (str ''queue'', num 5)])),
      assign ''test_cases'' (appended (var ''test_cases'') (dict_of [(str ''tx_port'', self ''dev_port0''), (str ''dscp'', num
        6), (str ''tc'', num 6), (str ''queue'', num 5)])),
      assign ''test_cases'' (appended (var ''test_cases'') (dict_of [(str ''tx_port'', self ''dev_port0''), (str ''dscp'', num
        7), (str ''tc'', num 6), (str ''queue'', num 5)])),
      assign ''test_cases'' (appended (var ''test_cases'') (dict_of [(str ''tx_port'', self ''dev_port0''), (str ''dscp'', num
        8), (str ''tc'', num 6), (str ''queue'', num 0)])),
      assign ''test_cases'' (appended (var ''test_cases'') (dict_of [(str ''tx_port'', self ''dev_port0''), (str ''dscp'', num
        9), (str ''tc'', num 6), (str ''queue'', num 0)])),
      assign ''test_cases'' (appended (var ''test_cases'') (dict_of [(str ''tx_port'', self ''dev_port0''), (str ''dscp'', num
        10), (str ''tc'', num 6), (str ''queue'', num 0)])),
      assign ''test_cases'' (appended (var ''test_cases'') (dict_of [(str ''tx_port'', self ''dev_port0''), (str ''dscp'', num
        11), (str ''tc'', num 6), (str ''queue'', num 0)])),
      assign ''test_cases'' (appended (var ''test_cases'') (dict_of [(str ''tx_port'', self ''dev_port0''), (str ''dscp'', num
        12), (str ''tc'', num 6), (str ''queue'', num 0)])),
      try_finally [
        assign ''ingress_dscp_list'' (list_of [num 0, num 1, num 2, num 3, num 4, num 5, num 6, num 7]),
        assign ''ingress_tc_list'' (list_of [num 1, num 1, num 1, num 1, num 6, num 6, num 6, num 6]),
        assign ''qos_dscp_to_tc_map_id'' (invoke [(''map_type'', num SAI_QOS_MAP_TYPE_DSCP_TO_TC), (''key_list'', var
          ''ingress_dscp_list''), (''data_list'', var ''ingress_tc_list''), (''verify'', bool True)] create_and_verify_qos_map),
        assert (ne (var ''qos_dscp_to_tc_map_id'') (num 0)),
        assign ''ingress_tc_list'' (list_of [num 1, num 6]),
        assign ''ingress_queue_list'' (list_of [num 2, num 5]),
        assign ''qos_tc_to_queue_map_id'' (invoke [(''map_type'', num SAI_QOS_MAP_TYPE_TC_TO_QUEUE), (''key_list'', var
          ''ingress_tc_list''), (''data_list'', var ''ingress_queue_list''), (''verify'', bool True)] create_and_verify_qos_map),
        assert (ne (var ''qos_tc_to_queue_map_id'') (num 0)),
        assign ''ingress_ports'' (list_of [self ''port0'', self ''port2'', self ''port3'']),
        assign ''egress_ports'' (list_of [self ''port1'']),
        for_in [''port''] (var ''ingress_ports'') [
          assign ''status'' (api_set ''port'' (var ''port'') [(''qos_dscp_to_tc_map'', var ''qos_dscp_to_tc_map_id'')]),
          assert_eq (var ''status'') (num SAI_STATUS_SUCCESS),
          assign ''attr'' (api_get ''port'' (var ''port'') [(''qos_dscp_to_tc_map'', bool True), (''qos_tc_to_queue_map'', bool
            True)]),
          assert_eq (item (var ''attr'') (str ''qos_dscp_to_tc_map'')) (var ''qos_dscp_to_tc_map_id'')],
        for_in [''port''] (var ''egress_ports'') [
          assign ''status'' (api_set ''port'' (var ''port'') [(''qos_tc_to_queue_map'', var ''qos_tc_to_queue_map_id'')]),
          assert_eq (var ''status'') (num SAI_STATUS_SUCCESS),
          assign ''attr'' (api_get ''port'' (var ''port'') [(''qos_tc_to_queue_map'', bool True)]),
          assert_eq (item (var ''attr'') (str ''qos_tc_to_queue_map'')) (var ''qos_tc_to_queue_map_id'')],
        for_in [''test''] (var ''test_cases'') [
          assign ''ip_tos'' (shl (item (var ''test'') (str ''dscp'')) (num 2)),
          assign ''pkt'' (lib ''simple_tcp_packet'' [] [(''eth_dst'', str ROUTER_MAC), (''eth_src'', str ''00:22:22:22:22:22''),
            (''ip_dst'', str ''10.10.10.11''), (''ip_src'', str ''192.168.0.1''), (''ip_tos'', var ''ip_tos''), (''ip_id'', num
            105), (''ip_ttl'', num 64)]),
          assign ''exp_pkt'' (lib ''simple_tcp_packet'' [] [(''eth_dst'', str ''00:11:22:33:44:04''), (''eth_src'', str
            ROUTER_MAC), (''ip_dst'', str ''10.10.10.11''), (''ip_src'', str ''192.168.0.1''), (''ip_tos'', var ''ip_tos''),
            (''ip_id'', num 105), (''ip_ttl'', num 63)]),
          assign ''initial_q_cnt'' (invoke [(''port'', self ''port1''), (''index'', item (var ''test'') (str ''queue'')),
            (''qstats'', list_of [str ''SAI_QUEUE_STAT_PACKETS''])] L3QosMapBaseClass_getPortQueueIndexStats),
          print [item (var ''test'') (str ''tx_port''), var ''ip_tos'', self ''dev_port1'', item (var ''test'') (str ''tc''),
            item (var ''test'') (str ''queue'')],
          run (lib ''send_packet'' [item (var ''test'') (str ''tx_port''), var ''pkt''] []),
          run (lib ''verify_packet'' [var ''exp_pkt'', self ''dev_port1''] []),
          assign ''post_q_cnt'' (invoke [(''port'', self ''port1''), (''index'', item (var ''test'') (str ''queue'')),
            (''qstats'', list_of [str ''SAI_QUEUE_STAT_PACKETS''])] L3QosMapBaseClass_getPortQueueIndexStats),
          assert_eq (add (var ''initial_q_cnt'') (num 1)) (explained (var ''post_q_cnt'') [item (var ''test'') (str ''queue''),
            var ''initial_q_cnt'', var ''post_q_cnt''])]] [
        for_in [''port''] (self ''test_ports'') [
          assign ''status'' (api_set ''port'' (var ''port'') [(''qos_dscp_to_tc_map'', as_int (num SAI_NULL_OBJECT_ID))]),
          assert_eq (var ''status'') (num SAI_STATUS_SUCCESS),
          assign ''status'' (api_set ''port'' (var ''port'') [(''qos_tc_to_queue_map'', as_int (num SAI_NULL_OBJECT_ID))]),
          assert_eq (var ''status'') (num SAI_STATUS_SUCCESS)],
        run (api_remove ''qos_map'' (var ''qos_tc_to_queue_map_id'')),
        run (api_remove ''qos_map'' (var ''qos_dscp_to_tc_map_id''))]]"

definition L3QosDscpToTcTest_l3IPv6QosMapMultipleDscpToSingleTcMappingTest :: "'d stmt" where
  "L3QosDscpToTcTest_l3IPv6QosMapMultipleDscpToSingleTcMappingTest = block [
      assign ''test_cases'' (list_of []),
      assign ''test_cases'' (appended (var ''test_cases'') (dict_of [(str ''tx_port'', self ''dev_port0''), (str ''dscp'', num
        0), (str ''tc'', num 6), (str ''queue'', num 5)])),
      assign ''test_cases'' (appended (var ''test_cases'') (dict_of [(str ''tx_port'', self ''dev_port0''), (str ''dscp'', num
        1), (str ''tc'', num 6), (str ''queue'', num 5)])),
      assign ''test_cases'' (appended (var ''test_cases'') (dict_of [(str ''tx_port'', self ''dev_port0''), (str ''dscp'', num
        2), (str ''tc'', num 6), (str ''queue'', num 5)])),
      assign ''test_cases'' (appended (var ''test_cases'') (dict_of [(str ''tx_port'', self ''dev_port0''), (str ''dscp'', num
        3), (str ''tc'', num 6), (str ''queue'', num 5)])),
      assign ''test_cases'' (appended (var ''test_cases'') (dict_of [(str ''tx_port'', self ''dev_port0''), (str ''dscp'', num
        4), (str ''tc'', num 6), (str ''queue'', num 5)])),
      assign ''test_cases'' (appended (var ''test_cases'') (dict_of [(str ''tx_port'', self ''dev_port0''), (str ''dscp'', num
        5), (str ''tc'', num 6), (str ''queue'', num 5)])),
      assign ''test_cases'' (appended (var ''test_cases'') (dict_of [(str ''tx_port'', self ''dev_port0''), (str ''dscp'', num
        6), (str ''tc'', num 6), (str ''queue'', num 5)])),
      assign ''test_cases'' (appended (var ''test_cases'') (dict_of [(str ''tx_port'', self ''dev_port0''), (str ''dscp'', num
        7), (str ''tc'', num 6), (str ''queue'', num 5)])),
      assign ''test_cases'' (appended (var ''test_cases'') (dict_of [(str ''tx_port'', self ''dev_port0''), (str ''dscp'', num
        8), (str ''tc'', num 0), (str ''queue'', num 0)])),
      assign ''test_cases'' (appended (var ''test_cases'') (dict_of [(str ''tx_port'', self ''dev_port0''), (str ''dscp'', num
        9), (str ''tc'', num 0), (str ''queue'', num 0)])),
      assign ''test_cases'' (appended (var ''test_cases'') (dict_of [(str ''tx_port'', self ''dev_port0''), (str ''dscp'', num
        10), (str ''tc'', num 0), (str ''queue'', num 0)])),
      assign ''test_cases'' (appended (var ''test_cases'') (dict_of [(str ''tx_port'', self ''dev_port0''), (str ''dscp'', num
        11), (str ''tc'', num 0), (str ''queue'', num 0)])),
      assign ''test_cases'' (appended (var ''test_cases'') (dict_of [(str ''tx_port'', self ''dev_port0''), (str ''dscp'', num
        12), (str ''tc'', num 0), (str ''queue'', num 0)])),
      try_finally [
        assign ''ingress_dscp_list'' (list_of [num 0, num 1, num 2, num 3, num 4, num 5, num 6, num 7]),
        assign ''ingress_tc_list'' (list_of [num 6, num 6, num 6, num 6, num 6, num 6, num 6, num 6]),
        assign ''qos_dscp_to_tc_map_id'' (invoke [(''map_type'', num SAI_QOS_MAP_TYPE_DSCP_TO_TC), (''key_list'', var
          ''ingress_dscp_list''), (''data_list'', var ''ingress_tc_list''), (''verify'', bool True)] create_and_verify_qos_map),
        assert (ne (var ''qos_dscp_to_tc_map_id'') (num 0)),
        assign ''ingress_tc_list'' (list_of [num 6]),
        assign ''ingress_queue_list'' (list_of [num 5]),
        assign ''qos_tc_to_queue_map_id'' (invoke [(''map_type'', num SAI_QOS_MAP_TYPE_TC_TO_QUEUE), (''key_list'', var
          ''ingress_tc_list''), (''data_list'', var ''ingress_queue_list''), (''verify'', bool True)] create_and_verify_qos_map),
        assert (ne (var ''qos_tc_to_queue_map_id'') (num 0)),
        assign ''test_ports'' (list_of [self ''port0'', self ''port2'']),
        for_in [''port''] (var ''test_ports'') [
          assign ''status'' (api_set ''port'' (var ''port'') [(''qos_dscp_to_tc_map'', var ''qos_dscp_to_tc_map_id'')]),
          assert_eq (var ''status'') (num SAI_STATUS_SUCCESS),
          assign ''attr'' (api_get ''port'' (var ''port'') [(''qos_dscp_to_tc_map'', bool True)]),
          assert_eq (item (var ''attr'') (str ''qos_dscp_to_tc_map'')) (var ''qos_dscp_to_tc_map_id''),
          assign ''status'' (api_set ''port'' (var ''port'') [(''qos_tc_to_queue_map'', var ''qos_tc_to_queue_map_id'')]),
          assert_eq (var ''status'') (num SAI_STATUS_SUCCESS),
          assign ''attr'' (api_get ''port'' (var ''port'') [(''qos_tc_to_queue_map'', bool True)]),
          assert_eq (item (var ''attr'') (str ''qos_tc_to_queue_map'')) (var ''qos_tc_to_queue_map_id'')],
        for_in [''test''] (var ''test_cases'') [
          assign ''ipv6_tc'' (shl (item (var ''test'') (str ''dscp'')) (num 2)),
          assign ''pkt'' (lib ''simple_tcpv6_packet'' [] [(''eth_dst'', str ROUTER_MAC), (''eth_src'', str
            ''00:22:22:22:22:22''), (''ipv6_dst'', str ''1234:5678:9abc:def0:4422:1133:5577:1111''), (''ipv6_src'', str
            ''2000::1''), (''ipv6_hlim'', num 64), (''ipv6_tc'', var ''ipv6_tc''), (''pktlen'', num 100)]),
          assign ''exp_pkt'' (lib ''simple_tcpv6_packet'' [] [(''eth_dst'', str ''00:11:22:33:44:06''), (''eth_src'', str
            ROUTER_MAC), (''ipv6_dst'', str ''1234:5678:9abc:def0:4422:1133:5577:1111''), (''ipv6_src'', str ''2000::1''),
            (''ipv6_hlim'', num 63), (''ipv6_tc'', var ''ipv6_tc''), (''pktlen'', num 100)]),
          assign ''initial_q_cnt'' (invoke [(''port'', self ''port2''), (''index'', item (var ''test'') (str ''queue'')),
            (''qstats'', list_of [str ''SAI_QUEUE_STAT_PACKETS''])] L3QosMapBaseClass_getPortQueueIndexStats),
          print [item (var ''test'') (str ''tx_port''), item (var ''test'') (str ''dscp''), self ''dev_port2'', item (var
            ''test'') (str ''tc''), item (var ''test'') (str ''queue'')],
          run (lib ''send_packet'' [item (var ''test'') (str ''tx_port''), var ''pkt''] []),
          run (lib ''verify_packet'' [var ''exp_pkt'', self ''dev_port2''] []),
          assign ''post_q_cnt'' (invoke [(''port'', self ''port2''), (''index'', item (var ''test'') (str ''queue'')),
            (''qstats'', list_of [str ''SAI_QUEUE_STAT_PACKETS''])] L3QosMapBaseClass_getPortQueueIndexStats),
          assert_eq (add (var ''initial_q_cnt'') (num 1)) (explained (var ''post_q_cnt'') [item (var ''test'') (str ''queue''),
            var ''initial_q_cnt'', var ''post_q_cnt''])]] [
        for_in [''port''] (var ''test_ports'') [
          assign ''status'' (api_set ''port'' (var ''port'') [(''qos_dscp_to_tc_map'', as_int (num SAI_NULL_OBJECT_ID))]),
          assert_eq (var ''status'') (num SAI_STATUS_SUCCESS),
          assign ''status'' (api_set ''port'' (var ''port'') [(''qos_tc_to_queue_map'', as_int (num SAI_NULL_OBJECT_ID))]),
          assert_eq (var ''status'') (num SAI_STATUS_SUCCESS)],
        run (api_remove ''qos_map'' (var ''qos_tc_to_queue_map_id'')),
        run (api_remove ''qos_map'' (var ''qos_dscp_to_tc_map_id''))]]"

definition L3QosDscpToTcTest_l3IPv4QosMapOneDscpToOneTcMappingTest :: "'d stmt" where
  "L3QosDscpToTcTest_l3IPv4QosMapOneDscpToOneTcMappingTest = block [
      assign ''test_cases'' (list_of []),
      assign ''test_cases'' (appended (var ''test_cases'') (dict_of [(str ''dscp'', num 0), (str ''tc'', num 0), (str ''queue'',
        num 0)])),
      assign ''test_cases'' (appended (var ''test_cases'') (dict_of [(str ''dscp'', num 1), (str ''tc'', num 1), (str ''queue'',
        num 1)])),
      assign ''test_cases'' (appended (var ''test_cases'') (dict_of [(str ''dscp'', num 2), (str ''tc'', num 2), (str ''queue'',
        num 2)])),
      assign ''test_cases'' (appended (var ''test_cases'') (dict_of [(str ''dscp'', num 3), (str ''tc'', num 3), (str ''queue'',
        num 3)])),
      assign ''test_cases'' (appended (var ''test_cases'') (dict_of [(str ''dscp'', num 4), (str ''tc'', num 4), (str ''queue'',
        num 4)])),
      assign ''test_cases'' (appended (var ''test_cases'') (dict_of [(str ''dscp'', num 5), (str ''tc'', num 5), (str ''queue'',
        num 5)])),
      assign ''test_cases'' (appended (var ''test_cases'') (dict_of [(str ''dscp'', num 6), (str ''tc'', num 6), (str ''queue'',
        num 6)])),
      assign ''test_cases'' (appended (var ''test_cases'') (dict_of [(str ''dscp'', num 7), (str ''tc'', num 7), (str ''queue'',
        num 7)])),
      try_finally [
        assign ''ingress_dscp_list'' (list_of [num 0, num 1, num 2, num 3, num 4, num 5, num 6, num 7]),
        assign ''ingress_tc_list'' (list_of [num 0, num 1, num 2, num 3, num 4, num 5, num 6, num 7]),
        assign ''qos_dscp_to_tc_map_id'' (invoke [(''map_type'', num SAI_QOS_MAP_TYPE_DSCP_TO_TC), (''key_list'', var
          ''ingress_dscp_list''), (''data_list'', var ''ingress_tc_list''), (''verify'', bool True)] create_and_verify_qos_map),
        assert (ne (var ''qos_dscp_to_tc_map_id'') (num 0)),
        assign ''ingress_queue_list'' (list_of [num 0, num 1, num 2, num 3, num 4, num 5, num 6, num 7]),
        assign ''qos_tc_to_queue_map_id'' (invoke [(''map_type'', num SAI_QOS_MAP_TYPE_TC_TO_QUEUE), (''key_list'', var
          ''ingress_tc_list''), (''data_list'', var ''ingress_queue_list''), (''verify'', bool True)] create_and_verify_qos_map),
        assert (ne (var ''qos_tc_to_queue_map_id'') (num 0)),
        assign ''test_ports'' (list_of [self ''port0'', self ''port1'']),
        for_in [''port''] (list_of [self ''port0'']) [
          assign ''status'' (api_set ''port'' (var ''port'') [(''qos_dscp_to_tc_map'', var ''qos_dscp_to_tc_map_id'')]),
          assert_eq (var ''status'') (num SAI_STATUS_SUCCESS),
          assign ''attr'' (api_get ''port'' (var ''port'') [(''qos_dscp_to_tc_map'', bool True), (''qos_tc_to_queue_map'', bool
            True)]),
          assert_eq (item (var ''attr'') (str ''qos_dscp_to_tc_map'')) (var ''qos_dscp_to_tc_map_id'')],
        for_in [''port''] (list_of [self ''port1'']) [
          assign ''status'' (api_set ''port'' (var ''port'') [(''qos_tc_to_queue_map'', var ''qos_tc_to_queue_map_id'')]),
          assert_eq (var ''status'') (num SAI_STATUS_SUCCESS),
          assign ''attr'' (api_get ''port'' (var ''port'') [(''qos_tc_to_queue_map'', bool True)]),
          assert_eq (item (var ''attr'') (str ''qos_tc_to_queue_map'')) (var ''qos_tc_to_queue_map_id'')],
        for_in [''test''] (var ''test_cases'') [
          assign ''ip_tos'' (shl (item (var ''test'') (str ''dscp'')) (num 2)),
          assign ''pkt'' (lib ''simple_tcp_packet'' [] [(''eth_dst'', str ROUTER_MAC), (''eth_src'', str ''00:22:22:22:22:22''),
            (''ip_dst'', str ''10.10.10.11''), (''ip_src'', str ''192.168.0.1''), (''ip_tos'', var ''ip_tos''), (''ip_id'', num
            105), (''ip_ttl'', num 64)]),
          assign ''exp_pkt'' (lib ''simple_tcp_packet'' [] [(''eth_dst'', str ''00:11:22:33:44:04''), (''eth_src'', str
            ROUTER_MAC), (''ip_dst'', str ''10.10.10.11''), (''ip_src'', str ''192.168.0.1''), (''ip_tos'', var ''ip_tos''),
            (''ip_id'', num 105), (''ip_ttl'', num 63)]),
          assign ''initial_q_cnt'' (invoke [(''port'', self ''port1''), (''index'', item (var ''test'') (str ''queue'')),
            (''qstats'', list_of [str ''SAI_QUEUE_STAT_PACKETS''])] L3QosMapBaseClass_getPortQueueIndexStats),
          print [self ''dev_port0'', var ''ip_tos'', self ''dev_port1'', item (var ''test'') (str ''tc''), item (var ''test'')
            (str ''queue'')],
          run (lib ''send_packet'' [self ''dev_port0'', var ''pkt''] []),
          run (lib ''verify_packet'' [var ''exp_pkt'', self ''dev_port1''] []),
          assign ''post_q_cnt'' (invoke [(''port'', self ''port1''), (''index'', item (var ''test'') (str ''queue'')),
            (''qstats'', list_of [str ''SAI_QUEUE_STAT_PACKETS''])] L3QosMapBaseClass_getPortQueueIndexStats),
          assert_eq (add (var ''initial_q_cnt'') (num 1)) (explained (var ''post_q_cnt'') [item (var ''test'') (str ''queue''),
            var ''initial_q_cnt'', var ''post_q_cnt''])]] [
        for_in [''port''] (var ''test_ports'') [
          assign ''status'' (api_set ''port'' (var ''port'') [(''qos_dscp_to_tc_map'', as_int (num SAI_NULL_OBJECT_ID))]),
          assert_eq (var ''status'') (num SAI_STATUS_SUCCESS),
          assign ''status'' (api_set ''port'' (var ''port'') [(''qos_tc_to_queue_map'', as_int (num SAI_NULL_OBJECT_ID))]),
          assert_eq (var ''status'') (num SAI_STATUS_SUCCESS)],
        run (api_remove ''qos_map'' (var ''qos_tc_to_queue_map_id'')),
        run (api_remove ''qos_map'' (var ''qos_dscp_to_tc_map_id''))]]"

definition L3QosDscpToTcTest_l3IPv6QosMapOneDscpToOneTcMappingTest :: "'d stmt" where
  "L3QosDscpToTcTest_l3IPv6QosMapOneDscpToOneTcMappingTest = block [
      assign ''test_cases'' (list_of []),
      assign ''test_cases'' (appended (var ''test_cases'') (dict_of [(str ''tx_port'', self ''dev_port0''), (str ''dscp'', num
        0), (str ''tc'', num 0), (str ''queue'', num 0)])),
      assign ''test_cases'' (appended (var ''test_cases'') (dict_of [(str ''tx_port'', self ''dev_port0''), (str ''dscp'', num
        1), (str ''tc'', num 1), (str ''queue'', num 1)])),
      assign ''test_cases'' (appended (var ''test_cases'') (dict_of [(str ''tx_port'', self ''dev_port0''), (str ''dscp'', num
        2), (str ''tc'', num 2), (str ''queue'', num 2)])),
      assign ''test_cases'' (appended (var ''test_cases'') (dict_of [(str ''tx_port'', self ''dev_port0''), (str ''dscp'', num
        3), (str ''tc'', num 3), (str ''queue'', num 3)])),
      assign ''test_cases'' (appended (var ''test_cases'') (dict_of [(str ''tx_port'', self ''dev_port0''), (str ''dscp'', num
        4), (str ''tc'', num 4), (str ''queue'', num 4)])),
      assign ''test_cases'' (appended (var ''test_cases'') (dict_of [(str ''tx_port'', self ''dev_port0''), (str ''dscp'', num
        5), (str ''tc'', num 5), (str ''queue'', num 5)])),
      assign ''test_cases'' (appended (var ''test_cases'') (dict_of [(str ''tx_port'', self ''dev_port0''), (str ''dscp'', num
        6), (str ''tc'', num 6), (str ''queue'', num 6)])),
      assign ''test_cases'' (appended (var ''test_cases'') (dict_of [(str ''tx_port'', self ''dev_port0''), (str ''dscp'', num
        7), (str ''tc'', num 7), (str ''queue'', num 7)])),
      assign ''test_cases'' (appended (var ''test_cases'') (dict_of [(str ''tx_port'', self ''dev_port0''), (str ''dscp'', num
        8), (str ''tc'', num 0), (str ''queue'', num 0)])),
      assign ''test_cases'' (appended (var ''test_cases'') (dict_of [(str ''tx_port'', self ''dev_port0''), (str ''dscp'', num
        9), (str ''tc'', num 1), (str ''queue'', num 1)])),
      assign ''test_cases'' (appended (var ''test_cases'') (dict_of [(str ''tx_port'', self ''dev_port0''), (str ''dscp'', num
        10), (str ''tc'', num 0), (str ''queue'', num 0)])),
      assign ''test_cases'' (appended (var ''test_cases'') (dict_of [(str ''tx_port'', self ''dev_port0''), (str ''dscp'', num
        11), (str ''tc'', num 0), (str ''queue'', num 0)])),
      assign ''test_cases'' (appended (var ''test_cases'') (dict_of [(str ''tx_port'', self ''dev_port0''), (str ''dscp'', num
        12), (str ''tc'', num 0), (str ''queue'', num 0)])),
      try_finally [
        assign ''ingress_dscp_list'' (list_of [num 0, num 1, num 2, num 3, num 4, num 5, num 6, num 7, num 9]),
        assign ''ingress_tc_list'' (list_of [num 0, num 1, num 2, num 3, num 4, num 5, num 6, num 7, num 1]),
        assign ''qos_dscp_to_tc_map_id'' (invoke [(''map_type'', num SAI_QOS_MAP_TYPE_DSCP_TO_TC), (''key_list'', var
          ''ingress_dscp_list''), (''data_list'', var ''ingress_tc_list''), (''verify'', bool True)] create_and_verify_qos_map),
        assert (ne (var ''qos_dscp_to_tc_map_id'') (num 0)),
        assign ''ingress_tc_list'' (list_of [num 0, num 1, num 2, num 3, num 4, num 5, num 6, num 7, num 1]),
        assign ''ingress_queue_list'' (list_of [num 0, num 1, num 2, num 3, num 4, num 5, num 6, num 7, num 1]),
        assign ''qos_tc_to_queue_map_id'' (invoke [(''map_type'', num SAI_QOS_MAP_TYPE_TC_TO_QUEUE), (''key_list'', var
          ''ingress_tc_list''), (''data_list'', var ''ingress_queue_list''), (''verify'', bool True)] create_and_verify_qos_map),
        assert (ne (var ''qos_tc_to_queue_map_id'') (num 0)),
        assign ''test_ports'' (list_of [self ''port0'', self ''port2'']),
        for_in [''port''] (var ''test_ports'') [
          assign ''status'' (api_set ''port'' (var ''port'') [(''qos_dscp_to_tc_map'', var ''qos_dscp_to_tc_map_id'')]),
          assert_eq (var ''status'') (num SAI_STATUS_SUCCESS),
          assign ''attr'' (api_get ''port'' (var ''port'') [(''qos_dscp_to_tc_map'', bool True), (''qos_tc_to_queue_map'', bool
            True)]),
          assert_eq (item (var ''attr'') (str ''qos_dscp_to_tc_map'')) (var ''qos_dscp_to_tc_map_id''),
          assign ''status'' (api_set ''port'' (var ''port'') [(''qos_tc_to_queue_map'', var ''qos_tc_to_queue_map_id'')]),
          assert_eq (var ''status'') (num SAI_STATUS_SUCCESS),
          assign ''attr'' (api_get ''port'' (var ''port'') [(''qos_dscp_to_tc_map'', bool True), (''qos_tc_to_queue_map'', bool
            True)]),
          assert_eq (item (var ''attr'') (str ''qos_tc_to_queue_map'')) (var ''qos_tc_to_queue_map_id'')],
        for_in [''test''] (var ''test_cases'') [
          assign ''ipv6_tc'' (shl (item (var ''test'') (str ''dscp'')) (num 2)),
          assign ''pkt'' (lib ''simple_tcpv6_packet'' [] [(''eth_dst'', str ROUTER_MAC), (''eth_src'', str
            ''00:22:22:22:22:22''), (''ipv6_dst'', str ''1234:5678:9abc:def0:4422:1133:5577:1111''), (''ipv6_src'', str
            ''2000::1''), (''ipv6_hlim'', num 64), (''ipv6_tc'', var ''ipv6_tc''), (''pktlen'', num 100)]),
          assign ''exp_pkt'' (lib ''simple_tcpv6_packet'' [] [(''eth_dst'', str ''00:11:22:33:44:06''), (''eth_src'', str
            ROUTER_MAC), (''ipv6_dst'', str ''1234:5678:9abc:def0:4422:1133:5577:1111''), (''ipv6_src'', str ''2000::1''),
            (''ipv6_hlim'', num 63), (''ipv6_tc'', var ''ipv6_tc''), (''pktlen'', num 100)]),
          assign ''initial_q_cnt'' (invoke [(''port'', self ''port2''), (''index'', item (var ''test'') (str ''queue'')),
            (''qstats'', list_of [str ''SAI_QUEUE_STAT_PACKETS''])] L3QosMapBaseClass_getPortQueueIndexStats),
          print [item (var ''test'') (str ''tx_port''), item (var ''test'') (str ''dscp''), self ''dev_port2'', item (var
            ''test'') (str ''tc''), item (var ''test'') (str ''queue'')],
          run (lib ''send_packet'' [item (var ''test'') (str ''tx_port''), var ''pkt''] []),
          run (lib ''verify_packet'' [var ''exp_pkt'', self ''dev_port2''] []),
          assign ''post_q_cnt'' (invoke [(''port'', self ''port2''), (''index'', item (var ''test'') (str ''queue'')),
            (''qstats'', list_of [str ''SAI_QUEUE_STAT_PACKETS''])] L3QosMapBaseClass_getPortQueueIndexStats),
          assert_eq (add (var ''initial_q_cnt'') (num 1)) (explained (var ''post_q_cnt'') [item (var ''test'') (str ''queue''),
            var ''initial_q_cnt'', var ''post_q_cnt''])]] [
        for_in [''port''] (var ''test_ports'') [
          assign ''status'' (api_set ''port'' (var ''port'') [(''qos_dscp_to_tc_map'', as_int (num SAI_NULL_OBJECT_ID))]),
          assert_eq (var ''status'') (num SAI_STATUS_SUCCESS),
          assign ''status'' (api_set ''port'' (var ''port'') [(''qos_tc_to_queue_map'', as_int (num SAI_NULL_OBJECT_ID))]),
          assert_eq (var ''status'') (num SAI_STATUS_SUCCESS)],
        run (api_remove ''qos_map'' (var ''qos_tc_to_queue_map_id'')),
        run (api_remove ''qos_map'' (var ''qos_dscp_to_tc_map_id''))]]"

definition L3QosDscpToTcTest_l3IPv4QosSameDscpToTcMappingManyPortsTest :: "'d stmt" where
  "L3QosDscpToTcTest_l3IPv4QosSameDscpToTcMappingManyPortsTest = block [
      assign ''test_cases'' (list_of []),
      assign ''test_cases'' (appended (var ''test_cases'') (dict_of [(str ''tx_port'', self ''dev_port0''), (str ''dscp'', num
        0), (str ''tc'', num 7), (str ''queue'', num 7)])),
      assign ''test_cases'' (appended (var ''test_cases'') (dict_of [(str ''tx_port'', self ''dev_port0''), (str ''dscp'', num
        1), (str ''tc'', num 6), (str ''queue'', num 6)])),
      assign ''test_cases'' (appended (var ''test_cases'') (dict_of [(str ''tx_port'', self ''dev_port0''), (str ''dscp'', num
        2), (str ''tc'', num 5), (str ''queue'', num 5)])),
      assign ''test_cases'' (appended (var ''test_cases'') (dict_of [(str ''tx_port'', self ''dev_port0''), (str ''dscp'', num
        3), (str ''tc'', num 4), (str ''queue'', num 4)])),
      assign ''test_cases'' (appended (var ''test_cases'') (dict_of [(str ''tx_port'', self ''dev_port0''), (str ''dscp'', num
        4), (str ''tc'', num 3), (str ''queue'', num 3)])),
      assign ''test_cases'' (appended (var ''test_cases'') (dict_of [(str ''tx_port'', self ''dev_port0''), (str ''dscp'', num
        5), (str ''tc'', num 2), (str ''queue'', num 2)])),
      assign ''test_cases'' (appended (var ''test_cases'') (dict_of [(str ''tx_port'', self ''dev_port0''), (str ''dscp'', num
        6), (str ''tc'', num 1), (str ''queue'', num 1)])),
      assign ''test_cases'' (appended (var ''test_cases'') (dict_of [(str ''tx_port'', self ''dev_port0''), (str ''dscp'', num
        7), (str ''tc'', num 0), (str ''queue'', num 0)])),
      assign ''test_cases'' (appended (var ''test_cases'') (dict_of [(str ''tx_port'', self ''dev_port0''), (str ''dscp'', num
        8), (str ''tc'', num 0), (str ''queue'', num 0)])),
      assign ''test_cases'' (appended (var ''test_cases'') (dict_of [(str ''tx_port'', self ''dev_port0''), (str ''dscp'', num
        9), (str ''tc'', num 0), (str ''queue'', num 0)])),
      assign ''test_cases'' (appended (var ''test_cases'') (dict_of [(str ''tx_port'', self ''dev_port0''), (str ''dscp'', num
        10), (str ''tc'', num 0), (str ''queue'', num 0)])),
      assign ''test_cases'' (appended (var ''test_cases'') (dict_of [(str ''tx_port'', self ''dev_port2''), (str ''dscp'', num
        0), (str ''tc'', num 7), (str ''queue'', num 7)])),
      assign ''test_cases'' (appended (var ''test_cases'') (dict_of [(str ''tx_port'', self ''dev_port2''), (str ''dscp'', num
        1), (str ''tc'', num 6), (str ''queue'', num 6)])),
      assign ''test_cases'' (appended (var ''test_cases'') (dict_of [(str ''tx_port'', self ''dev_port2''), (str ''dscp'', num
        2), (str ''tc'', num 5), (str ''queue'', num 5)])),
      assign ''test_cases'' (appended (var ''test_cases'') (dict_of [(str ''tx_port'', self ''dev_port2''), (str ''dscp'', num
        3), (str ''tc'', num 4), (str ''queue'', num 4)])),
      assign ''test_cases'' (appended (var ''test_cases'') (dict_of [(str ''tx_port'', self ''dev_port2''), (str ''dscp'', num
        4), (str ''tc'', num 3), (str ''queue'', num 3)])),
      assign ''test_cases'' (appended (var ''test_cases'') (dict_of [(str ''tx_port'', self ''dev_port2''), (str ''dscp'', num
        5), (str ''tc'', num 2), (str ''queue'', num 2)])),
      assign ''test_cases'' (appended (var ''test_cases'') (dict_of [(str ''tx_port'', self ''dev_port2''), (str ''dscp'', num
        6), (str ''tc'', num 1), (str ''queue'', num 1)])),
      assign ''test_cases'' (appended (var ''test_cases'') (dict_of [(str ''tx_port'', self ''dev_port2''), (str ''dscp'', num
        7), (str ''tc'', num 0), (str ''queue'', num 0)])),
      assign ''test_cases'' (appended (var ''test_cases'') (dict_of [(str ''tx_port'', self ''dev_port2''), (str ''dscp'', num
        8), (str ''tc'', num 0), (str ''queue'', num 0)])),
      assign ''test_cases'' (appended (var ''test_cases'') (dict_of [(str ''tx_port'', self ''dev_port2''), (str ''dscp'', num
        9), (str ''tc'', num 0), (str ''queue'', num 0)])),
      assign ''test_cases'' (appended (var ''test_cases'') (dict_of [(str ''tx_port'', self ''dev_port2''), (str ''dscp'', num
        10), (str ''tc'', num 0), (str ''queue'', num 0)])),
      assign ''test_cases'' (appended (var ''test_cases'') (dict_of [(str ''tx_port'', self ''dev_port3''), (str ''dscp'', num
        0), (str ''tc'', num 7), (str ''queue'', num 7)])),
      assign ''test_cases'' (appended (var ''test_cases'') (dict_of [(str ''tx_port'', self ''dev_port3''), (str ''dscp'', num
        1), (str ''tc'', num 6), (str ''queue'', num 6)])),
      assign ''test_cases'' (appended (var ''test_cases'') (dict_of [(str ''tx_port'', self ''dev_port3''), (str ''dscp'', num
        2), (str ''tc'', num 5), (str ''queue'', num 5)])),
      assign ''test_cases'' (appended (var ''test_cases'') (dict_of [(str ''tx_port'', self ''dev_port3''), (str ''dscp'', num
        3), (str ''tc'', num 4), (str ''queue'', num 4)])),
      assign ''test_cases'' (appended (var ''test_cases'') (dict_of [(str ''tx_port'', self ''dev_port3''), (str ''dscp'', num
        4), (str ''tc'', num 3), (str ''queue'', num 3)])),
      assign ''test_cases'' (appended (var ''test_cases'') (dict_of [(str ''tx_port'', self ''dev_port3''), (str ''dscp'', num
        5), (str ''tc'', num 2), (str ''queue'', num 2)])),
      assign ''test_cases'' (appended (var ''test_cases'') (dict_of [(str ''tx_port'', self ''dev_port3''), (str ''dscp'', num
        6), (str ''tc'', num 1), (str ''queue'', num 1)])),
      assign ''test_cases'' (appended (var ''test_cases'') (dict_of [(str ''tx_port'', self ''dev_port3''), (str ''dscp'', num
        7), (str ''tc'', num 0), (str ''queue'', num 0)])),
      assign ''test_cases'' (appended (var ''test_cases'') (dict_of [(str ''tx_port'', self ''dev_port3''), (str ''dscp'', num
        8), (str ''tc'', num 0), (str ''queue'', num 0)])),
      assign ''test_cases'' (appended (var ''test_cases'') (dict_of [(str ''tx_port'', self ''dev_port3''), (str ''dscp'', num
        9), (str ''tc'', num 0), (str ''queue'', num 0)])),
      assign ''test_cases'' (appended (var ''test_cases'') (dict_of [(str ''tx_port'', self ''dev_port3''), (str ''dscp'', num
        10), (str ''tc'', num 0), (str ''queue'', num 0)])),
      assign ''ingress_ports'' (list_of [self ''port0'', self ''port2'', self ''port3'']),
      assign ''egress_ports'' (list_of [self ''port1'']),
      try_finally [
        assign ''ingress_dscp_list'' (list_of [num 0, num 1, num 2, num 3, num 4, num 5, num 6, num 7]),
        assign ''ingress_tc_list'' (list_of [num 7, num 6, num 5, num 4, num 3, num 2, num 1, num 0]),
        assign ''qos_dscp_to_tc_map_id'' (invoke [(''map_type'', num SAI_QOS_MAP_TYPE_DSCP_TO_TC), (''key_list'', var
          ''ingress_dscp_list''), (''data_list'', var ''ingress_tc_list''), (''verify'', bool True)] create_and_verify_qos_map),
        assert (ne (var ''qos_dscp_to_tc_map_id'') (num 0)),
        assign ''p1_ingress_tc_list'' (list_of [num 0, num 1, num 2, num 3, num 4, num 5, num 6, num 7]),
        assign ''p1_ingress_queue_list'' (list_of [num 0, num 1, num 2, num 3, num 4, num 5, num 6, num 7]),
        assign ''qos_tc_to_queue_map_id'' (invoke [(''map_type'', num SAI_QOS_MAP_TYPE_TC_TO_QUEUE), (''key_list'', var
          ''p1_ingress_tc_list''), (''data_list'', var ''p1_ingress_queue_list''), (''verify'', bool True)]
          create_and_verify_qos_map),
        assert (ne (var ''qos_tc_to_queue_map_id'') (num 0)),
        for_in [''port''] (var ''ingress_ports'') [
          assign ''status'' (api_set ''port'' (var ''port'') [(''qos_dscp_to_tc_map'', var ''qos_dscp_to_tc_map_id'')]),
          assert_eq (var ''status'') (num SAI_STATUS_SUCCESS),
          assign ''attr'' (api_get ''port'' (var ''port'') [(''qos_dscp_to_tc_map'', bool True)]),
          assert_eq (item (var ''attr'') (str ''qos_dscp_to_tc_map'')) (var ''qos_dscp_to_tc_map_id'')],
        for_in [''port''] (var ''egress_ports'') [
          assign ''status'' (api_set ''port'' (var ''port'') [(''qos_tc_to_queue_map'', var ''qos_tc_to_queue_map_id'')]),
          assert_eq (var ''status'') (num SAI_STATUS_SUCCESS),
          assign ''attr'' (api_get ''port'' (var ''port'') [(''qos_tc_to_queue_map'', bool True)]),
          assert_eq (item (var ''attr'') (str ''qos_tc_to_queue_map'')) (var ''qos_tc_to_queue_map_id'')],
        for_in [''test''] (var ''test_cases'') [
          assign ''ip_tos'' (shl (item (var ''test'') (str ''dscp'')) (num 2)),
          assign ''pkt'' (lib ''simple_tcp_packet'' [] [(''eth_dst'', str ROUTER_MAC), (''eth_src'', str ''00:22:22:22:22:22''),
            (''ip_dst'', str ''10.10.10.11''), (''ip_src'', str ''192.168.0.1''), (''ip_tos'', var ''ip_tos''), (''ip_id'', num
            105), (''ip_ttl'', num 64)]),
          assign ''exp_pkt'' (lib ''simple_tcp_packet'' [] [(''eth_dst'', str ''00:11:22:33:44:04''), (''eth_src'', str
            ROUTER_MAC), (''ip_dst'', str ''10.10.10.11''), (''ip_src'', str ''192.168.0.1''), (''ip_tos'', var ''ip_tos''),
            (''ip_id'', num 105), (''ip_ttl'', num 63)]),
          assign ''initial_q_cnt'' (invoke [(''port'', self ''port1''), (''index'', item (var ''test'') (str ''queue'')),
            (''qstats'', list_of [str ''SAI_QUEUE_STAT_PACKETS''])] L3QosMapBaseClass_getPortQueueIndexStats),
          print [item (var ''test'') (str ''tx_port''), var ''ip_tos'', self ''dev_port1'', item (var ''test'') (str ''tc''),
            item (var ''test'') (str ''queue'')],
          run (lib ''send_packet'' [item (var ''test'') (str ''tx_port''), var ''pkt''] []),
          run (lib ''verify_packet'' [var ''exp_pkt'', self ''dev_port1''] []),
          assign ''post_q_cnt'' (invoke [(''port'', self ''port1''), (''index'', item (var ''test'') (str ''queue'')),
            (''qstats'', list_of [str ''SAI_QUEUE_STAT_PACKETS''])] L3QosMapBaseClass_getPortQueueIndexStats),
          assert_eq (add (var ''initial_q_cnt'') (num 1)) (explained (var ''post_q_cnt'') [item (var ''test'') (str ''queue''),
            var ''initial_q_cnt'', var ''post_q_cnt''])]] [
        for_in [''port''] (self ''test_ports'') [
          assign ''status'' (api_set ''port'' (var ''port'') [(''qos_dscp_to_tc_map'', as_int (num SAI_NULL_OBJECT_ID))]),
          assert_eq (var ''status'') (num SAI_STATUS_SUCCESS),
          assign ''status'' (api_set ''port'' (var ''port'') [(''qos_tc_to_queue_map'', as_int (num SAI_NULL_OBJECT_ID))]),
          assert_eq (var ''status'') (num SAI_STATUS_SUCCESS)],
        run (api_remove ''qos_map'' (var ''qos_tc_to_queue_map_id'')),
        run (api_remove ''qos_map'' (var ''qos_dscp_to_tc_map_id''))]]"

definition L3QosDscpToTcTest_l3IPv6QosSameDscpToTcMappingManyPortsTest :: "'d stmt" where
  "L3QosDscpToTcTest_l3IPv6QosSameDscpToTcMappingManyPortsTest = block [
      assign ''test_cases'' (list_of []),
      assign ''test_cases'' (appended (var ''test_cases'') (dict_of [(str ''tx_port'', self ''dev_port0''), (str ''dscp'', num
        0), (str ''tc'', num 0), (str ''queue'', num 0)])),
      assign ''test_cases'' (appended (var ''test_cases'') (dict_of [(str ''tx_port'', self ''dev_port0''), (str ''dscp'', num
        1), (str ''tc'', num 1), (str ''queue'', num 1)])),
      assign ''test_cases'' (appended (var ''test_cases'') (dict_of [(str ''tx_port'', self ''dev_port0''), (str ''dscp'', num
        2), (str ''tc'', num 2), (str ''queue'', num 2)])),
      assign ''test_cases'' (appended (var ''test_cases'') (dict_of [(str ''tx_port'', self ''dev_port0''), (str ''dscp'', num
        3), (str ''tc'', num 3), (str ''queue'', num 3)])),
      assign ''test_cases'' (appended (var ''test_cases'') (dict_of [(str ''tx_port'', self ''dev_port0''), (str ''dscp'', num
        4), (str ''tc'', num 4), (str ''queue'', num 4)])),
      assign ''test_cases'' (appended (var ''test_cases'') (dict_of [(str ''tx_port'', self ''dev_port0''), (str ''dscp'', num
        5), (str ''tc'', num 5), (str ''queue'', num 5)])),
      assign ''test_cases'' (appended (var ''test_cases'') (dict_of [(str ''tx_port'', self ''dev_port0''), (str ''dscp'', num
        6), (str ''tc'', num 6), (str ''queue'', num 6)])),
      assign ''test_cases'' (appended (var ''test_cases'') (dict_of [(str ''tx_port'', self ''dev_port0''), (str ''dscp'', num
        7), (str ''tc'', num 7), (str ''queue'', num 7)])),
      assign ''test_cases'' (appended (var ''test_cases'') (dict_of [(str ''tx_port'', self ''dev_port0''), (str ''dscp'', num
        10), (str ''tc'', num 0), (str ''queue'', num 0)])),
      assign ''test_cases'' (appended (var ''test_cases'') (dict_of [(str ''tx_port'', self ''dev_port1''), (str ''dscp'', num
        0), (str ''tc'', num 0), (str ''queue'', num 0)])),
      assign ''test_cases'' (appended (var ''test_cases'') (dict_of [(str ''tx_port'', self ''dev_port1''), (str ''dscp'', num
        1), (str ''tc'', num 1), (str ''queue'', num 1)])),
      assign ''test_cases'' (appended (var ''test_cases'') (dict_of [(str ''tx_port'', self ''dev_port1''), (str ''dscp'', num
        2), (str ''tc'', num 2), (str ''queue'', num 2)])),
      assign ''test_cases'' (appended (var ''test_cases'') (dict_of [(str ''tx_port'', self ''dev_port1''), (str ''dscp'', num
        3), (str ''tc'', num 3), (str ''queue'', num 3)])),
      assign ''test_cases'' (appended (var ''test_cases'') (dict_of [(str ''tx_port'', self ''dev_port1''), (str ''dscp'', num
        4), (str ''tc'', num 4), (str ''queue'', num 4)])),
      assign ''test_cases'' (appended (var ''test_cases'') (dict_of [(str ''tx_port'', self ''dev_port1''), (str ''dscp'', num
        5), (str ''tc'', num 5), (str ''queue'', num 5)])),
      assign ''test_cases'' (appended (var ''test_cases'') (dict_of [(str ''tx_port'', self ''dev_port1''), (str ''dscp'', num
        6), (str ''tc'', num 6), (str ''queue'', num 6)])),
      assign ''test_cases'' (appended (var ''test_cases'') (dict_of [(str ''tx_port'', self ''dev_port1''), (str ''dscp'', num
        7), (str ''tc'', num 7), (str ''queue'', num 7)])),
      assign ''test_cases'' (appended (var ''test_cases'') (dict_of [(str ''tx_port'', self ''dev_port1''), (str ''dscp'', num
        10), (str ''tc'', num 0), (str ''queue'', num 0)])),
      assign ''test_cases'' (appended (var ''test_cases'') (dict_of [(str ''tx_port'', self ''dev_port3''), (str ''dscp'', num
        0), (str ''tc'', num 0), (str ''queue'', num 0)])),
      assign ''test_cases'' (appended (var ''test_cases'') (dict_of [(str ''tx_port'', self ''dev_port3''), (str ''dscp'', num
        1), (str ''tc'', num 1), (str ''queue'', num 1)])),
      assign ''test_cases'' (appended (var ''test_cases'') (dict_of [(str ''tx_port'', self ''dev_port3''), (str ''dscp'', num
        2), (str ''tc'', num 2), (str ''queue'', num 2)])),
      assign ''test_cases'' (appended (var ''test_cases'') (dict_of [(str ''tx_port'', self ''dev_port3''), (str ''dscp'', num
        3), (str ''tc'', num 3), (str ''queue'', num 3)])),
      assign ''test_cases'' (appended (var ''test_cases'') (dict_of [(str ''tx_port'', self ''dev_port3''), (str ''dscp'', num
        4), (str ''tc'', num 4), (str ''queue'', num 4)])),
      assign ''test_cases'' (appended (var ''test_cases'') (dict_of [(str ''tx_port'', self ''dev_port3''), (str ''dscp'', num
        5), (str ''tc'', num 5), (str ''queue'', num 5)])),
      assign ''test_cases'' (appended (var ''test_cases'') (dict_of [(str ''tx_port'', self ''dev_port3''), (str ''dscp'', num
        6), (str ''tc'', num 6), (str ''queue'', num 6)])),
      assign ''test_cases'' (appended (var ''test_cases'') (dict_of [(str ''tx_port'', self ''dev_port3''), (str ''dscp'', num
        7), (str ''tc'', num 7), (str ''queue'', num 7)])),
      assign ''test_cases'' (appended (var ''test_cases'') (dict_of [(str ''tx_port'', self ''dev_port3''), (str ''dscp'', num
        10), (str ''tc'', num 0), (str ''queue'', num 0)])),
      try_finally [
        assign ''ingress_dscp_list'' (list_of [num 0, num 1, num 2, num 3, num 4, num 5, num 6, num 7]),
        assign ''ingress_tc_list'' (list_of [num 0, num 1, num 2, num 3, num 4, num 5, num 6, num 7]),
        assign ''qos_dscp_to_tc_map_id'' (invoke [(''map_type'', num SAI_QOS_MAP_TYPE_DSCP_TO_TC), (''key_list'', var
          ''ingress_dscp_list''), (''data_list'', var ''ingress_tc_list''), (''verify'', bool True)] create_and_verify_qos_map),
        assert (ne (var ''qos_dscp_to_tc_map_id'') (num 0)),
        assign ''ingress_tc_list'' (list_of [num 0, num 1, num 2, num 3, num 4, num 5, num 6, num 7]),
        assign ''ingress_queue_list'' (list_of [num 0, num 1, num 2, num 3, num 4, num 5, num 6, num 7]),
        assign ''qos_tc_to_queue_map_id'' (invoke [(''map_type'', num SAI_QOS_MAP_TYPE_TC_TO_QUEUE), (''key_list'', var
          ''ingress_tc_list''), (''data_list'', var ''ingress_queue_list''), (''verify'', bool True)] create_and_verify_qos_map),
        assert (ne (var ''qos_tc_to_queue_map_id'') (num 0)),
        assign ''ingress_test_ports'' (list_of [self ''port0'', self ''port1'', self ''port3'']),
        assign ''egress_test_ports'' (list_of [self ''port2'']),
        for_in [''port''] (var ''ingress_test_ports'') [
          assign ''status'' (api_set ''port'' (var ''port'') [(''qos_dscp_to_tc_map'', var ''qos_dscp_to_tc_map_id'')]),
          assert_eq (var ''status'') (num SAI_STATUS_SUCCESS),
          assign ''attr'' (api_get ''port'' (var ''port'') [(''qos_dscp_to_tc_map'', bool True)]),
          assert_eq (item (var ''attr'') (str ''qos_dscp_to_tc_map'')) (var ''qos_dscp_to_tc_map_id'')],
        for_in [''port''] (var ''egress_test_ports'') [
          assign ''status'' (api_set ''port'' (var ''port'') [(''qos_tc_to_queue_map'', var ''qos_tc_to_queue_map_id'')]),
          assert_eq (var ''status'') (num SAI_STATUS_SUCCESS),
          assign ''attr'' (api_get ''port'' (var ''port'') [(''qos_tc_to_queue_map'', bool True)]),
          assert_eq (item (var ''attr'') (str ''qos_tc_to_queue_map'')) (var ''qos_tc_to_queue_map_id'')],
        for_in [''test''] (var ''test_cases'') [
          assign ''ipv6_tc'' (shl (item (var ''test'') (str ''dscp'')) (num 2)),
          assign ''pkt'' (lib ''simple_tcpv6_packet'' [] [(''eth_dst'', str ROUTER_MAC), (''eth_src'', str
            ''00:22:22:22:22:22''), (''ipv6_dst'', str ''1234:5678:9abc:def0:4422:1133:5577:1111''), (''ipv6_src'', str
            ''2000::1''), (''ipv6_hlim'', num 64), (''ipv6_tc'', var ''ipv6_tc''), (''pktlen'', num 100)]),
          assign ''exp_pkt'' (lib ''simple_tcpv6_packet'' [] [(''eth_dst'', str ''00:11:22:33:44:06''), (''eth_src'', str
            ROUTER_MAC), (''ipv6_dst'', str ''1234:5678:9abc:def0:4422:1133:5577:1111''), (''ipv6_src'', str ''2000::1''),
            (''ipv6_hlim'', num 63), (''ipv6_tc'', var ''ipv6_tc''), (''pktlen'', num 100)]),
          assign ''initial_q_cnt'' (invoke [(''port'', self ''port2''), (''index'', item (var ''test'') (str ''queue'')),
            (''qstats'', list_of [str ''SAI_QUEUE_STAT_PACKETS''])] L3QosMapBaseClass_getPortQueueIndexStats),
          print [item (var ''test'') (str ''tx_port''), item (var ''test'') (str ''dscp''), self ''dev_port2'', item (var
            ''test'') (str ''tc''), item (var ''test'') (str ''queue'')],
          run (lib ''send_packet'' [item (var ''test'') (str ''tx_port''), var ''pkt''] []),
          run (lib ''verify_packet'' [var ''exp_pkt'', self ''dev_port2''] []),
          assign ''post_q_cnt'' (invoke [(''port'', self ''port2''), (''index'', item (var ''test'') (str ''queue'')),
            (''qstats'', list_of [str ''SAI_QUEUE_STAT_PACKETS''])] L3QosMapBaseClass_getPortQueueIndexStats),
          assert_eq (add (var ''initial_q_cnt'') (num 1)) (explained (var ''post_q_cnt'') [item (var ''test'') (str ''queue''),
            var ''initial_q_cnt'', var ''post_q_cnt''])]] [
        for_in [''port''] (self ''test_ports'') [
          assign ''status'' (api_set ''port'' (var ''port'') [(''qos_dscp_to_tc_map'', as_int (num SAI_NULL_OBJECT_ID))]),
          assert_eq (var ''status'') (num SAI_STATUS_SUCCESS),
          assign ''status'' (api_set ''port'' (var ''port'') [(''qos_tc_to_queue_map'', as_int (num SAI_NULL_OBJECT_ID))]),
          assert_eq (var ''status'') (num SAI_STATUS_SUCCESS)],
        run (api_remove ''qos_map'' (var ''qos_tc_to_queue_map_id'')),
        run (api_remove ''qos_map'' (var ''qos_dscp_to_tc_map_id''))]]"

definition L3QosDscpToTcTest_l3IPv4QosVariousDscpToTcMappingManyPortsTest :: "'d stmt" where
  "L3QosDscpToTcTest_l3IPv4QosVariousDscpToTcMappingManyPortsTest = block [
      assign ''test_cases'' (list_of []),
      assign ''test_cases'' (appended (var ''test_cases'') (dict_of [(str ''tx_port'', self ''dev_port0''), (str ''dscp'', num
        0), (str ''tc'', num 0), (str ''queue'', num 0)])),
      assign ''test_cases'' (appended (var ''test_cases'') (dict_of [(str ''tx_port'', self ''dev_port0''), (str ''dscp'', num
        1), (str ''tc'', num 0), (str ''queue'', num 0)])),
      assign ''test_cases'' (appended (var ''test_cases'') (dict_of [(str ''tx_port'', self ''dev_port0''), (str ''dscp'', num
        2), (str ''tc'', num 0), (str ''queue'', num 0)])),
      assign ''test_cases'' (appended (var ''test_cases'') (dict_of [(str ''tx_port'', self ''dev_port0''), (str ''dscp'', num
        3), (str ''tc'', num 0), (str ''queue'', num 0)])),
      assign ''test_cases'' (appended (var ''test_cases'') (dict_of [(str ''tx_port'', self ''dev_port0''), (str ''dscp'', num
        4), (str ''tc'', num 1), (str ''queue'', num 1)])),
      assign ''test_cases'' (appended (var ''test_cases'') (dict_of [(str ''tx_port'', self ''dev_port0''), (str ''dscp'', num
        5), (str ''tc'', num 1), (str ''queue'', num 1)])),
      assign ''test_cases'' (appended (var ''test_cases'') (dict_of [(str ''tx_port'', self ''dev_port0''), (str ''dscp'', num
        6), (str ''tc'', num 1), (str ''queue'', num 1)])),
      assign ''test_cases'' (appended (var ''test_cases'') (dict_of [(str ''tx_port'', self ''dev_port0''), (str ''dscp'', num
        7), (str ''tc'', num 1), (str ''queue'', num 1)])),
      assign ''test_cases'' (appended (var ''test_cases'') (dict_of [(str ''tx_port'', self ''dev_port0''), (str ''dscp'', num
        8), (str ''tc'', num 0), (str ''queue'', num 0)])),
      assign ''test_cases'' (appended (var ''test_cases'') (dict_of [(str ''tx_port'', self ''dev_port0''), (str ''dscp'', num
        9), (str ''tc'', num 0), (str ''queue'', num 0)])),
      assign ''test_cases'' (appended (var ''test_cases'') (dict_of [(str ''tx_port'', self ''dev_port0''), (str ''dscp'', num
        10), (str ''tc'', num 0), (str ''queue'', num 0)])),
      assign ''test_cases'' (appended (var ''test_cases'') (dict_of [(str ''tx_port'', self ''dev_port2''), (str ''dscp'', num
        0), (str ''tc'', num 2), (str ''queue'', num 2)])),
      assign ''test_cases'' (appended (var ''test_cases'') (dict_of [(str ''tx_port'', self ''dev_port2''), (str ''dscp'', num
        1), (str ''tc'', num 2), (str ''queue'', num 2)])),
      assign ''test_cases'' (appended (var ''test_cases'') (dict_of [(str ''tx_port'', self ''dev_port2''), (str ''dscp'', num
        2), (str ''tc'', num 2), (str ''queue'', num 2)])),
      assign ''test_cases'' (appended (var ''test_cases'') (dict_of [(str ''tx_port'', self ''dev_port2''), (str ''dscp'', num
        3), (str ''tc'', num 2), (str ''queue'', num 2)])),
      assign ''test_cases'' (appended (var ''test_cases'') (dict_of [(str ''tx_port'', self ''dev_port2''), (str ''dscp'', num
        4), (str ''tc'', num 3), (str ''queue'', num 3)])),
      assign ''test_cases'' (appended (var ''test_cases'') (dict_of [(str ''tx_port'', self ''dev_port2''), (str ''dscp'', num
        5), (str ''tc'', num 3), (str ''queue'', num 3)])),
      assign ''test_cases'' (appended (var ''test_cases'') (dict_of [(str ''tx_port'', self ''dev_port2''), (str ''dscp'', num
        6), (str ''tc'', num 3), (str ''queue'', num 3)])),
      assign ''test_cases'' (appended (var ''test_cases'') (dict_of [(str ''tx_port'', self ''dev_port2''), (str ''dscp'', num
        7), (str ''tc'', num 3), (str ''queue'', num 3)])),
      assign ''test_cases'' (appended (var ''test_cases'') (dict_of [(str ''tx_port'', self ''dev_port2''), (str ''dscp'', num
        8), (str ''tc'', num 0), (str ''queue'', num 0)])),
      assign ''test_cases'' (appended (var ''test_cases'') (dict_of [(str ''tx_port'', self ''dev_port2''), (str ''dscp'', num
        9), (str ''tc'', num 0), (str ''queue'', num 0)])),
      assign ''test_cases'' (appended (var ''test_cases'') (dict_of [(str ''tx_port'', self ''dev_port2''), (str ''dscp'', num
        10), (str ''tc'', num 0), (str ''queue'', num 0)])),
      assign ''test_cases'' (appended (var ''test_cases'') (dict_of [(str ''tx_port'', self ''dev_port3''), (str ''dscp'', num
        0), (str ''tc'', num 4), (str ''queue'', num 4)])),
      assign ''test_cases'' (appended (var ''test_cases'') (dict_of [(str ''tx_port'', self ''dev_port3''), (str ''dscp'', num
        1), (str ''tc'', num 4), (str ''queue'', num 4)])),
      assign ''test_cases'' (appended (var ''test_cases'') (dict_of [(str ''tx_port'', self ''dev_port3''), (str ''dscp'', num
        2), (str ''tc'', num 4), (str ''queue'', num 4)])),
      assign ''test_cases'' (appended (var ''test_cases'') (dict_of [(str ''tx_port'', self ''dev_port3''), (str ''dscp'', num
        3), (str ''tc'', num 4), (str ''queue'', num 4)])),
      assign ''test_cases'' (appended (var ''test_cases'') (dict_of [(str ''tx_port'', self ''dev_port3''), (str ''dscp'', num
        4), (str ''tc'', num 5), (str ''queue'', num 5)])),
      assign ''test_cases'' (appended (var ''test_cases'') (dict_of [(str ''tx_port'', self ''dev_port3''), (str ''dscp'', num
        5), (str ''tc'', num 5), (str ''queue'', num 5)])),
      assign ''test_cases'' (appended (var ''test_cases'') (dict_of [(str ''tx_port'', self ''dev_port3''), (str ''dscp'', num
        6), (str ''tc'', num 5), (str ''queue'', num 5)])),
      assign ''test_cases'' (appended (var ''test_cases'') (dict_of [(str ''tx_port'', self ''dev_port3''), (str ''dscp'', num
        7), (str ''tc'', num 5), (str ''queue'', num 5)])),
      assign ''test_cases'' (appended (var ''test_cases'') (dict_of [(str ''tx_port'', self ''dev_port3''), (str ''dscp'', num
        8), (str ''tc'', num 0), (str ''queue'', num 0)])),
      assign ''test_cases'' (appended (var ''test_cases'') (dict_of [(str ''tx_port'', self ''dev_port3''), (str ''dscp'', num
        9), (str ''tc'', num 0), (str ''queue'', num 0)])),
      assign ''test_cases'' (appended (var ''test_cases'') (dict_of [(str ''tx_port'', self ''dev_port3''), (str ''dscp'', num
        10), (str ''tc'', num 0), (str ''queue'', num 0)])),
      assign ''egress_ports'' (list_of [self ''port1'']),
      try_finally [
        assign ''ingress_dscp_list'' (list_of [num 0, num 1, num 2, num 3, num 4, num 5, num 6, num 7]),
        assign ''ingress_tc_list'' (list_of [num 0, num 0, num 0, num 0, num 1, num 1, num 1, num 1]),
        assign ''p0_qos_dscp_to_tc_map_id'' (invoke [(''map_type'', num SAI_QOS_MAP_TYPE_DSCP_TO_TC), (''key_list'', var
          ''ingress_dscp_list''), (''data_list'', var ''ingress_tc_list''), (''verify'', bool True)] create_and_verify_qos_map),
        assert (ne (var ''p0_qos_dscp_to_tc_map_id'') (num 0)),
        assign ''ingress_dscp_list'' (list_of [num 0, num 1, num 2, num 3, num 4, num 5, num 6, num 7]),
        assign ''ingress_tc_list'' (list_of [num 2, num 2, num 2, num 2, num 3, num 3, num 3, num 3]),
        assign ''p2_qos_dscp_to_tc_map_id'' (invoke [(''map_type'', num SAI_QOS_MAP_TYPE_DSCP_TO_TC), (''key_list'', var
          ''ingress_dscp_list''), (''data_list'', var ''ingress_tc_list''), (''verify'', bool True)] create_and_verify_qos_map),
        assert (ne (var ''p2_qos_dscp_to_tc_map_id'') (num 0)),
        assign ''ingress_dscp_list'' (list_of [num 0, num 1, num 2, num 3, num 4, num 5, num 6, num 7]),
        assign ''ingress_tc_list'' (list_of [num 4, num 4, num 4, num 4, num 5, num 5, num 5, num 5]),
        assign ''p3_qos_dscp_to_tc_map_id'' (invoke [(''map_type'', num SAI_QOS_MAP_TYPE_DSCP_TO_TC), (''key_list'', var
          ''ingress_dscp_list''), (''data_list'', var ''ingress_tc_list''), (''verify'', bool True)] create_and_verify_qos_map),
        assert (ne (var ''p3_qos_dscp_to_tc_map_id'') (num 0)),
        assign ''p1_ingress_tc_list'' (list_of [num 0, num 1, num 2, num 3, num 4, num 5]),
        assign ''p1_ingress_queue_list'' (list_of [num 0, num 1, num 2, num 3, num 4, num 5]),
        assign ''qos_tc_to_queue_map_id'' (invoke [(''map_type'', num SAI_QOS_MAP_TYPE_TC_TO_QUEUE), (''key_list'', var
          ''p1_ingress_tc_list''), (''data_list'', var ''p1_ingress_queue_list''), (''verify'', bool True)]
          create_and_verify_qos_map),
        assert (ne (var ''qos_tc_to_queue_map_id'') (num 0)),
        assign ''status'' (api_set ''port'' (self ''port0'') [(''qos_dscp_to_tc_map'', var ''p0_qos_dscp_to_tc_map_id'')]),
        assert_eq (var ''status'') (num SAI_STATUS_SUCCESS),
        assign ''attr'' (api_get ''port'' (self ''port0'') [(''qos_dscp_to_tc_map'', bool True)]),
        assert_eq (item (var ''attr'') (str ''qos_dscp_to_tc_map'')) (var ''p0_qos_dscp_to_tc_map_id''),
        assign ''status'' (api_set ''port'' (self ''port2'') [(''qos_dscp_to_tc_map'', var ''p2_qos_dscp_to_tc_map_id'')]),
        assert_eq (var ''status'') (num SAI_STATUS_SUCCESS),
        assign ''attr'' (api_get ''port'' (self ''port2'') [(''qos_dscp_to_tc_map'', bool True)]),
        assert_eq (item (var ''attr'') (str ''qos_dscp_to_tc_map'')) (var ''p2_qos_dscp_to_tc_map_id''),
        assign ''status'' (api_set ''port'' (self ''port3'') [(''qos_dscp_to_tc_map'', var ''p3_qos_dscp_to_tc_map_id'')]),
        assert_eq (var ''status'') (num SAI_STATUS_SUCCESS),
        assign ''attr'' (api_get ''port'' (self ''port3'') [(''qos_dscp_to_tc_map'', bool True), (''qos_tc_to_queue_map'', bool
          True)]),
        assert_eq (item (var ''attr'') (str ''qos_dscp_to_tc_map'')) (var ''p3_qos_dscp_to_tc_map_id''),
        for_in [''port''] (var ''egress_ports'') [
          assign ''status'' (api_set ''port'' (var ''port'') [(''qos_tc_to_queue_map'', var ''qos_tc_to_queue_map_id'')]),
          assert_eq (var ''status'') (num SAI_STATUS_SUCCESS),
          assign ''attr'' (api_get ''port'' (var ''port'') [(''qos_tc_to_queue_map'', bool True)]),
          assert_eq (item (var ''attr'') (str ''qos_tc_to_queue_map'')) (var ''qos_tc_to_queue_map_id'')],
        for_in [''test''] (var ''test_cases'') [
          assign ''ip_tos'' (shl (item (var ''test'') (str ''dscp'')) (num 2)),
          assign ''pkt'' (lib ''simple_tcp_packet'' [] [(''eth_dst'', str ROUTER_MAC), (''eth_src'', str ''00:22:22:22:22:22''),
            (''ip_dst'', str ''10.10.10.11''), (''ip_src'', str ''192.168.0.1''), (''ip_tos'', var ''ip_tos''), (''ip_id'', num
            105), (''ip_ttl'', num 64)]),
          assign ''exp_pkt'' (lib ''simple_tcp_packet'' [] [(''eth_dst'', str ''00:11:22:33:44:04''), (''eth_src'', str
            ROUTER_MAC), (''ip_dst'', str ''10.10.10.11''), (''ip_src'', str ''192.168.0.1''), (''ip_tos'', var ''ip_tos''),
            (''ip_id'', num 105), (''ip_ttl'', num 63)]),
          assign ''initial_q_cnt'' (invoke [(''port'', self ''port1''), (''index'', item (var ''test'') (str ''queue'')),
            (''qstats'', list_of [str ''SAI_QUEUE_STAT_PACKETS''])] L3QosMapBaseClass_getPortQueueIndexStats),
          print [item (var ''test'') (str ''tx_port''), var ''ip_tos'', self ''dev_port1'', item (var ''test'') (str ''tc''),
            item (var ''test'') (str ''queue'')],
          run (lib ''send_packet'' [item (var ''test'') (str ''tx_port''), var ''pkt''] []),
          run (lib ''verify_packet'' [var ''exp_pkt'', self ''dev_port1''] []),
          assign ''post_q_cnt'' (invoke [(''port'', self ''port1''), (''index'', item (var ''test'') (str ''queue'')),
            (''qstats'', list_of [str ''SAI_QUEUE_STAT_PACKETS''])] L3QosMapBaseClass_getPortQueueIndexStats),
          assert_eq (add (var ''initial_q_cnt'') (num 1)) (explained (var ''post_q_cnt'') [item (var ''test'') (str ''queue''),
            var ''initial_q_cnt'', var ''post_q_cnt''])]] [
        for_in [''port''] (self ''test_ports'') [
          assign ''status'' (api_set ''port'' (var ''port'') [(''qos_dscp_to_tc_map'', as_int (num SAI_NULL_OBJECT_ID))]),
          assert_eq (var ''status'') (num SAI_STATUS_SUCCESS),
          assign ''status'' (api_set ''port'' (var ''port'') [(''qos_tc_to_queue_map'', as_int (num SAI_NULL_OBJECT_ID))]),
          assert_eq (var ''status'') (num SAI_STATUS_SUCCESS)],
        run (api_remove ''qos_map'' (var ''qos_tc_to_queue_map_id'')),
        run (api_remove ''qos_map'' (var ''p0_qos_dscp_to_tc_map_id'')),
        run (api_remove ''qos_map'' (var ''p2_qos_dscp_to_tc_map_id'')),
        run (api_remove ''qos_map'' (var ''p3_qos_dscp_to_tc_map_id''))]]"

definition L3QosDscpToTcTest_l3IPv6QosVariousDscpToTcMappingManyPortsTest :: "'d stmt" where
  "L3QosDscpToTcTest_l3IPv6QosVariousDscpToTcMappingManyPortsTest = block [
      assign ''test_cases'' (list_of []),
      assign ''test_cases'' (appended (var ''test_cases'') (dict_of [(str ''tx_port'', self ''dev_port0''), (str ''dscp'', num
        0), (str ''tc'', num 1), (str ''queue'', num 1)])),
      assign ''test_cases'' (appended (var ''test_cases'') (dict_of [(str ''tx_port'', self ''dev_port0''), (str ''dscp'', num
        1), (str ''tc'', num 1), (str ''queue'', num 1)])),
      assign ''test_cases'' (appended (var ''test_cases'') (dict_of [(str ''tx_port'', self ''dev_port0''), (str ''dscp'', num
        2), (str ''tc'', num 1), (str ''queue'', num 1)])),
      assign ''test_cases'' (appended (var ''test_cases'') (dict_of [(str ''tx_port'', self ''dev_port0''), (str ''dscp'', num
        3), (str ''tc'', num 1), (str ''queue'', num 1)])),
      assign ''test_cases'' (appended (var ''test_cases'') (dict_of [(str ''tx_port'', self ''dev_port0''), (str ''dscp'', num
        4), (str ''tc'', num 2), (str ''queue'', num 2)])),
      assign ''test_cases'' (appended (var ''test_cases'') (dict_of [(str ''tx_port'', self ''dev_port0''), (str ''dscp'', num
        5), (str ''tc'', num 2), (str ''queue'', num 2)])),
      assign ''test_cases'' (appended (var ''test_cases'') (dict_of [(str ''tx_port'', self ''dev_port0''), (str ''dscp'', num
        6), (str ''tc'', num 2), (str ''queue'', num 2)])),
      assign ''test_cases'' (appended (var ''test_cases'') (dict_of [(str ''tx_port'', self ''dev_port0''), (str ''dscp'', num
        7), (str ''tc'', num 2), (str ''queue'', num 2)])),
      assign ''test_cases'' (appended (var ''test_cases'') (dict_of [(str ''tx_port'', self ''dev_port0''), (str ''dscp'', num
        10), (str ''tc'', num 0), (str ''queue'', num 0)])),
      assign ''test_cases'' (appended (var ''test_cases'') (dict_of [(str ''tx_port'', self ''dev_port1''), (str ''dscp'', num
        0), (str ''tc'', num 3), (str ''queue'', num 3)])),
      assign ''test_cases'' (appended (var ''test_cases'') (dict_of [(str ''tx_port'', self ''dev_port1''), (str ''dscp'', num
        1), (str ''tc'', num 3), (str ''queue'', num 3)])),
      assign ''test_cases'' (appended (var ''test_cases'') (dict_of [(str ''tx_port'', self ''dev_port1''), (str ''dscp'', num
        2), (str ''tc'', num 3), (str ''queue'', num 3)])),
      assign ''test_cases'' (appended (var ''test_cases'') (dict_of [(str ''tx_port'', self ''dev_port1''), (str ''dscp'', num
        3), (str ''tc'', num 3), (str ''queue'', num 3)])),
      assign ''test_cases'' (appended (var ''test_cases'') (dict_of [(str ''tx_port'', self ''dev_port1''), (str ''dscp'', num
        4), (str ''tc'', num 4), (str ''queue'', num 4)])),
      assign ''test_cases'' (appended (var ''test_cases'') (dict_of [(str ''tx_port'', self ''dev_port1''), (str ''dscp'', num
        5), (str ''tc'', num 4), (str ''queue'', num 4)])),
      assign ''test_cases'' (appended (var ''test_cases'') (dict_of [(str ''tx_port'', self ''dev_port1''), (str ''dscp'', num
        6), (str ''tc'', num 4), (str ''queue'', num 4)])),
      assign ''test_cases'' (appended (var ''test_cases'') (dict_of [(str ''tx_port'', self ''dev_port1''), (str ''dscp'', num
        7), (str ''tc'', num 4), (str ''queue'', num 4)])),
      assign ''test_cases'' (appended (var ''test_cases'') (dict_of [(str ''tx_port'', self ''dev_port1''), (str ''dscp'', num
        10), (str ''tc'', num 0), (str ''queue'', num 0)])),
      assign ''test_cases'' (appended (var ''test_cases'') (dict_of [(str ''tx_port'', self ''dev_port3''), (str ''dscp'', num
        0), (str ''tc'', num 5), (str ''queue'', num 5)])),
      assign ''test_cases'' (appended (var ''test_cases'') (dict_of [(str ''tx_port'', self ''dev_port3''), (str ''dscp'', num
        1), (str ''tc'', num 5), (str ''queue'', num 5)])),
      assign ''test_cases'' (appended (var ''test_cases'') (dict_of [(str ''tx_port'', self ''dev_port3''), (str ''dscp'', num
        2), (str ''tc'', num 5), (str ''queue'', num 5)])),
      assign ''test_cases'' (appended (var ''test_cases'') (dict_of [(str ''tx_port'', self ''dev_port3''), (str ''dscp'', num
        3), (str ''tc'', num 5), (str ''queue'', num 5)])),
      assign ''test_cases'' (appended (var ''test_cases'') (dict_of [(str ''tx_port'', self ''dev_port3''), (str ''dscp'', num
        4), (str ''tc'', num 6), (str ''queue'', num 6)])),
      assign ''test_cases'' (appended (var ''test_cases'') (dict_of [(str ''tx_port'', self ''dev_port3''), (str ''dscp'', num
        5), (str ''tc'', num 6), (str ''queue'', num 6)])),
      assign ''test_cases'' (appended (var ''test_cases'') (dict_of [(str ''tx_port'', self ''dev_port3''), (str ''dscp'', num
        6), (str ''tc'', num 6), (str ''queue'', num 6)])),
      assign ''test_cases'' (appended (var ''test_cases'') (dict_of [(str ''tx_port'', self ''dev_port3''), (str ''dscp'', num
        7), (str ''tc'', num 6), (str ''queue'', num 6)])),
      assign ''test_cases'' (appended (var ''test_cases'') (dict_of [(str ''tx_port'', self ''dev_port3''), (str ''dscp'', num
        10), (str ''tc'', num 0), (str ''queue'', num 0)])),
      try_finally [
        assign ''ingress_dscp_list'' (list_of [num 0, num 1, num 2, num 3, num 4, num 5, num 6, num 7]),
        assign ''ingress_tc_list'' (list_of [num 1, num 1, num 1, num 1, num 2, num 2, num 2, num 2]),
        assign ''p0_qos_dscp_to_tc_map_id'' (invoke [(''map_type'', num SAI_QOS_MAP_TYPE_DSCP_TO_TC), (''key_list'', var
          ''ingress_dscp_list''), (''data_list'', var ''ingress_tc_list''), (''verify'', bool True)] create_and_verify_qos_map),
        assert (ne (var ''p0_qos_dscp_to_tc_map_id'') (num 0)),
        assign ''ingress_dscp_list'' (list_of [num 0, num 1, num 2, num 3, num 4, num 5, num 6, num 7]),
        assign ''ingress_tc_list'' (list_of [num 3, num 3, num 3, num 3, num 4, num 4, num 4, num 4]),
        assign ''p1_qos_dscp_to_tc_map_id'' (invoke [(''map_type'', num SAI_QOS_MAP_TYPE_DSCP_TO_TC), (''key_list'', var
          ''ingress_dscp_list''), (''data_list'', var ''ingress_tc_list''), (''verify'', bool True)] create_and_verify_qos_map),
        assert (ne (var ''p1_qos_dscp_to_tc_map_id'') (num 0)),
        assign ''ingress_dscp_list'' (list_of [num 0, num 1, num 2, num 3, num 4, num 5, num 6, num 7]),
        assign ''ingress_tc_list'' (list_of [num 5, num 5, num 5, num 5, num 6, num 6, num 6, num 6]),
        assign ''p3_qos_dscp_to_tc_map_id'' (invoke [(''map_type'', num SAI_QOS_MAP_TYPE_DSCP_TO_TC), (''key_list'', var
          ''ingress_dscp_list''), (''data_list'', var ''ingress_tc_list''), (''verify'', bool True)] create_and_verify_qos_map),
        assert (ne (var ''p3_qos_dscp_to_tc_map_id'') (num 0)),
        assign ''ingress_tc_list'' (list_of [num 0, num 1, num 2, num 3, num 4, num 5, num 6, num 7]),
        assign ''ingress_queue_list'' (list_of [num 0, num 1, num 2, num 3, num 4, num 5, num 6, num 7]),
        assign ''qos_tc_to_queue_map_id'' (invoke [(''map_type'', num SAI_QOS_MAP_TYPE_TC_TO_QUEUE), (''key_list'', var
          ''ingress_tc_list''), (''data_list'', var ''ingress_queue_list''), (''verify'', bool True)] create_and_verify_qos_map),
        assert (ne (var ''qos_tc_to_queue_map_id'') (num 0)),
        assign ''egress_test_ports'' (list_of [self ''port2'']),
        assign ''status'' (api_set ''port'' (self ''port0'') [(''qos_dscp_to_tc_map'', var ''p0_qos_dscp_to_tc_map_id'')]),
        assert_eq (var ''status'') (num SAI_STATUS_SUCCESS),
        assign ''attr'' (api_get ''port'' (self ''port0'') [(''qos_dscp_to_tc_map'', bool True)]),
        assert_eq (item (var ''attr'') (str ''qos_dscp_to_tc_map'')) (var ''p0_qos_dscp_to_tc_map_id''),
        assign ''status'' (api_set ''port'' (self ''port1'') [(''qos_dscp_to_tc_map'', var ''p1_qos_dscp_to_tc_map_id'')]),
        assert_eq (var ''status'') (num SAI_STATUS_SUCCESS),
        assign ''attr'' (api_get ''port'' (self ''port1'') [(''qos_dscp_to_tc_map'', bool True)]),
        assert_eq (item (var ''attr'') (str ''qos_dscp_to_tc_map'')) (var ''p1_qos_dscp_to_tc_map_id''),
        assign ''status'' (api_set ''port'' (self ''port3'') [(''qos_dscp_to_tc_map'', var ''p3_qos_dscp_to_tc_map_id'')]),
        assert_eq (var ''status'') (num SAI_STATUS_SUCCESS),
        assign ''attr'' (api_get ''port'' (self ''port3'') [(''qos_dscp_to_tc_map'', bool True)]),
        assert_eq (item (var ''attr'') (str ''qos_dscp_to_tc_map'')) (var ''p3_qos_dscp_to_tc_map_id''),
        for_in [''port''] (var ''egress_test_ports'') [
          assign ''status'' (api_set ''port'' (var ''port'') [(''qos_tc_to_queue_map'', var ''qos_tc_to_queue_map_id'')]),
          assert_eq (var ''status'') (num SAI_STATUS_SUCCESS),
          assign ''attr'' (api_get ''port'' (var ''port'') [(''qos_tc_to_queue_map'', bool True)]),
          assert_eq (item (var ''attr'') (str ''qos_tc_to_queue_map'')) (var ''qos_tc_to_queue_map_id'')],
        for_in [''test''] (var ''test_cases'') [
          assign ''ipv6_tc'' (shl (item (var ''test'') (str ''dscp'')) (num 2)),
          assign ''pkt'' (lib ''simple_tcpv6_packet'' [] [(''eth_dst'', str ROUTER_MAC), (''eth_src'', str
            ''00:22:22:22:22:22''), (''ipv6_dst'', str ''1234:5678:9abc:def0:4422:1133:5577:1111''), (''ipv6_src'', str
            ''2000::1''), (''ipv6_hlim'', num 64), (''ipv6_tc'', var ''ipv6_tc''), (''pktlen'', num 100)]),
          assign ''exp_pkt'' (lib ''simple_tcpv6_packet'' [] [(''eth_dst'', str ''00:11:22:33:44:06''), (''eth_src'', str
            ROUTER_MAC), (''ipv6_dst'', str ''1234:5678:9abc:def0:4422:1133:5577:1111''), (''ipv6_src'', str ''2000::1''),
            (''ipv6_hlim'', num 63), (''ipv6_tc'', var ''ipv6_tc''), (''pktlen'', num 100)]),
          assign ''initial_q_cnt'' (invoke [(''port'', self ''port2''), (''index'', item (var ''test'') (str ''queue'')),
            (''qstats'', list_of [str ''SAI_QUEUE_STAT_PACKETS''])] L3QosMapBaseClass_getPortQueueIndexStats),
          print [item (var ''test'') (str ''tx_port''), item (var ''test'') (str ''dscp''), self ''dev_port2'', item (var
            ''test'') (str ''tc''), item (var ''test'') (str ''queue'')],
          run (lib ''send_packet'' [item (var ''test'') (str ''tx_port''), var ''pkt''] []),
          run (lib ''verify_packet'' [var ''exp_pkt'', self ''dev_port2''] []),
          assign ''post_q_cnt'' (invoke [(''port'', self ''port2''), (''index'', item (var ''test'') (str ''queue'')),
            (''qstats'', list_of [str ''SAI_QUEUE_STAT_PACKETS''])] L3QosMapBaseClass_getPortQueueIndexStats),
          assert_eq (add (var ''initial_q_cnt'') (num 1)) (explained (var ''post_q_cnt'') [item (var ''test'') (str ''queue''),
            var ''initial_q_cnt'', var ''post_q_cnt''])]] [
        for_in [''port''] (self ''test_ports'') [
          assign ''status'' (api_set ''port'' (var ''port'') [(''qos_dscp_to_tc_map'', as_int (num SAI_NULL_OBJECT_ID))]),
          assert_eq (var ''status'') (num SAI_STATUS_SUCCESS),
          assign ''status'' (api_set ''port'' (var ''port'') [(''qos_tc_to_queue_map'', as_int (num SAI_NULL_OBJECT_ID))]),
          assert_eq (var ''status'') (num SAI_STATUS_SUCCESS)],
        run (api_remove ''qos_map'' (var ''qos_tc_to_queue_map_id'')),
        run (api_remove ''qos_map'' (var ''p0_qos_dscp_to_tc_map_id'')),
        run (api_remove ''qos_map'' (var ''p1_qos_dscp_to_tc_map_id'')),
        run (api_remove ''qos_map'' (var ''p3_qos_dscp_to_tc_map_id''))]]"

definition L3QosDscpToTcTest_runTest :: "'d stmt" where
  "L3QosDscpToTcTest_runTest = block [
      run (invoke [] L3QosDscpToTcTest_l3IPv4QosMapDscpToTcDefaultMappingTest),
      run (invoke [] L3QosDscpToTcTest_l3IPv6QosMapDscpToTcDefaultMappingTest),
      run (invoke [] L3QosDscpToTcTest_l3IPv4QosMapMultipleDscpToSingleTcMappingTest),
      run (invoke [] L3QosDscpToTcTest_l3IPv6QosMapMultipleDscpToSingleTcMappingTest),
      run (invoke [] L3QosDscpToTcTest_l3IPv4QosMapOneDscpToOneTcMappingTest),
      run (invoke [] L3QosDscpToTcTest_l3IPv6QosMapOneDscpToOneTcMappingTest),
      run (invoke [] L3QosDscpToTcTest_l3IPv4QosSameDscpToTcMappingManyPortsTest),
      run (invoke [] L3QosDscpToTcTest_l3IPv6QosSameDscpToTcMappingManyPortsTest),
      run (invoke [] L3QosDscpToTcTest_l3IPv4QosVariousDscpToTcMappingManyPortsTest),
      run (invoke [] L3QosDscpToTcTest_l3IPv6QosVariousDscpToTcMappingManyPortsTest)]"

definition L3QosDscpToTcTest_tearDown :: "'d stmt" where
  "L3QosDscpToTcTest_tearDown = block [
      run (invoke [] L3QosMapBaseClass_tearDown)]"

definition QosDscpToColorTest_setUp :: "'d stmt" where
  "QosDscpToColorTest_setUp = block [
      run (invoke [] L3QosMapBaseClass_setUp),
      assign ''ingress_dscp_list'' (list_of []),
      assign ''ingress_tc_list'' (list_of []),
      assign ''ingress_color_list'' (list_of []),
      assign ''p1_ingress_color_list'' (list_of []),
      assign ''p2_ingress_color_list'' (list_of []),
      assign ''p3_ingress_color_list'' (list_of []),
      for_in [''dscp''] (range_of (num 0) (num 64)) [
        assign ''ingress_dscp_list'' (appended (var ''ingress_dscp_list'') (var ''dscp'')),
        assign ''ingress_tc_list'' (appended (var ''ingress_tc_list'') (num 5)),
        assign ''color'' (as_int (divide (var ''dscp'') (num 22))),
        assign ''p1_color'' (modulo (add (var ''color'') (num 1)) (num 3)),
        assign ''p2_color'' (modulo (add (var ''color'') (num 2)) (num 3)),
        assign ''p3_color'' (modulo (add (var ''color'') (num 3)) (num 3)),
        assign ''ingress_color_list'' (appended (var ''ingress_color_list'') (var ''color'')),
        assign ''p1_ingress_color_list'' (appended (var ''p1_ingress_color_list'') (var ''p1_color'')),
        assign ''p2_ingress_color_list'' (appended (var ''p2_ingress_color_list'') (var ''p2_color'')),
        assign ''p3_ingress_color_list'' (appended (var ''p3_ingress_color_list'') (var ''p3_color''))],
      set_self ''qos_dscp_to_tc_map_id'' (invoke [(''map_type'', num SAI_QOS_MAP_TYPE_DSCP_TO_TC), (''key_list'', var
        ''ingress_dscp_list''), (''data_list'', var ''ingress_tc_list''), (''verify'', bool True)] create_and_verify_qos_map),
      assert (ne (self ''qos_dscp_to_tc_map_id'') (num 0)),
      set_self ''p0_qos_dscp_to_color_map_id'' (invoke [(''map_type'', num SAI_QOS_MAP_TYPE_DSCP_TO_COLOR), (''key_list'', var
        ''ingress_dscp_list''), (''data_list'', var ''ingress_color_list''), (''verify'', bool True)] create_and_verify_qos_map),
      assert (ne (self ''p0_qos_dscp_to_color_map_id'') (num 0)),
      set_self ''p1_qos_dscp_to_color_map_id'' (invoke [(''map_type'', num SAI_QOS_MAP_TYPE_DSCP_TO_COLOR), (''key_list'', var
        ''ingress_dscp_list''), (''data_list'', var ''p1_ingress_color_list''), (''verify'', bool True)]
        create_and_verify_qos_map),
      assert (ne (self ''p1_qos_dscp_to_color_map_id'') (num 0)),
      set_self ''p2_qos_dscp_to_color_map_id'' (invoke [(''map_type'', num SAI_QOS_MAP_TYPE_DSCP_TO_COLOR), (''key_list'', var
        ''ingress_dscp_list''), (''data_list'', var ''p2_ingress_color_list''), (''verify'', bool True)]
        create_and_verify_qos_map),
      assert (ne (self ''p2_qos_dscp_to_color_map_id'') (num 0)),
      set_self ''p3_qos_dscp_to_color_map_id'' (invoke [(''map_type'', num SAI_QOS_MAP_TYPE_DSCP_TO_COLOR), (''key_list'', var
        ''ingress_dscp_list''), (''data_list'', var ''p3_ingress_color_list''), (''verify'', bool True)]
        create_and_verify_qos_map),
      assert (ne (self ''p3_qos_dscp_to_color_map_id'') (num 0)),
      assign ''egress_tc_color_list'' (list_of [list_of [num 0, num 0], list_of [num 1, num 0], list_of [num 2, num 0], list_of
        [num 3, num 0], list_of [num 4, num 0], list_of [num 5, num 0], list_of [num 6, num 0], list_of [num 7, num 0], list_of
        [num 0, num 1], list_of [num 1, num 1], list_of [num 2, num 1], list_of [num 3, num 1], list_of [num 4, num 1], list_of
        [num 5, num 1], list_of [num 6, num 1], list_of [num 7, num 1], list_of [num 0, num 2], list_of [num 1, num 2], list_of
        [num 2, num 2], list_of [num 3, num 2], list_of [num 4, num 2], list_of [num 5, num 2], list_of [num 6, num 2], list_of
        [num 7, num 2]]),
      assign ''egress_dscp_list'' (list_of [num 63, num 63, num 63, num 63, num 63, num 63, num 63, num 63, num 15, num 15, num
        15, num 15, num 15, num 15, num 15, num 15, num 11, num 11, num 11, num 11, num 11, num 11, num 11, num 11]),
      set_self ''qos_tc_color_to_dscp_map_id'' (invoke [(''map_type'', num SAI_QOS_MAP_TYPE_TC_AND_COLOR_TO_DSCP),
        (''key_list'', var ''egress_tc_color_list''), (''data_list'', var ''egress_dscp_list''), (''verify'', bool True)]
        create_and_verify_qos_map),
      assert (ne (self ''qos_tc_color_to_dscp_map_id'') (num 0)),
      assign ''status'' (api_set ''port'' (self ''port0'') [(''qos_dscp_to_tc_map'', self ''qos_dscp_to_tc_map_id'')]),
      assert_eq (var ''status'') (num SAI_STATUS_SUCCESS),
      assign ''attr'' (api_get ''port'' (self ''port0'') [(''qos_dscp_to_tc_map'', bool True)]),
      assert_eq (item (var ''attr'') (str ''qos_dscp_to_tc_map'')) (self ''qos_dscp_to_tc_map_id''),
      for_in [''port''] (list_of [self ''port1'', self ''port2'']) [
        assign ''status'' (api_set ''port'' (var ''port'') [(''qos_tc_and_color_to_dscp_map'', self
          ''qos_tc_color_to_dscp_map_id'')]),
        assert_eq (var ''status'') (num SAI_STATUS_SUCCESS),
        assign ''attr'' (api_get ''port'' (self ''port1'') [(''qos_tc_and_color_to_dscp_map'', bool True)]),
        assert_eq (item (var ''attr'') (str ''qos_tc_and_color_to_dscp_map'')) (self ''qos_tc_color_to_dscp_map_id'')]]"

definition QosDscpToColorTest_l3IPv4QosMapDscpToColorDefaultMappingTest :: "'d stmt" where
  "QosDscpToColorTest_l3IPv4QosMapDscpToColorDefaultMappingTest = block [
      for_in [''ingress_dscp''] (range_of (num 0) (num 64)) [
        assign ''ingress_ip_tos'' (shl (var ''ingress_dscp'') (num 2)),
        assign ''egress_ip_tos'' (shl (num 63) (num 2)),
        assign ''pkt'' (lib ''simple_tcp_packet'' [] [(''eth_dst'', str ROUTER_MAC), (''eth_src'', str ''00:22:22:22:22:22''),
          (''ip_dst'', str ''10.10.10.11''), (''ip_src'', str ''192.168.0.1''), (''ip_tos'', var ''ingress_ip_tos''),
          (''ip_id'', num 105), (''ip_ttl'', num 64)]),
        assign ''exp_pkt'' (lib ''simple_tcp_packet'' [] [(''eth_dst'', str ''00:11:22:33:44:04''), (''eth_src'', str
          ROUTER_MAC), (''ip_dst'', str ''10.10.10.11''), (''ip_src'', str ''192.168.0.1''), (''ip_tos'', var
          ''egress_ip_tos''), (''ip_id'', num 105), (''ip_ttl'', num 63)]),
        run (lib ''send_packet'' [self ''dev_port0'', var ''pkt''] []),
        run (lib ''verify_packet'' [var ''exp_pkt'', self ''dev_port1''] [])]]"

definition QosDscpToColorTest_l3IPv6QosMapDscpToColorDefaultMappingTest :: "'d stmt" where
  "QosDscpToColorTest_l3IPv6QosMapDscpToColorDefaultMappingTest = block [
      for_in [''ingress_dscp''] (range_of (num 0) (num 64)) [
        assign ''egress_dscp'' (num 63),
        assign ''ingress_ipv6_tc'' (shl (var ''ingress_dscp'') (num 2)),
        assign ''egress_ipv6_tc'' (shl (var ''egress_dscp'') (num 2)),
        assign ''pkt'' (lib ''simple_tcpv6_packet'' [] [(''eth_dst'', str ROUTER_MAC), (''eth_src'', str ''00:22:22:22:22:22''),
          (''ipv6_dst'', str ''1234:5678:9abc:def0:4422:1133:5577:1111''), (''ipv6_src'', str ''2000::1''), (''ipv6_hlim'', num
          64), (''ipv6_tc'', var ''ingress_ipv6_tc''), (''pktlen'', num 100)]),
        assign ''exp_pkt'' (lib ''simple_tcpv6_packet'' [] [(''eth_dst'', str ''00:11:22:33:44:06''), (''eth_src'', str
          ROUTER_MAC), (''ipv6_dst'', str ''1234:5678:9abc:def0:4422:1133:5577:1111''), (''ipv6_src'', str ''2000::1''),
          (''ipv6_hlim'', num 63), (''ipv6_tc'', var ''egress_ipv6_tc''), (''pktlen'', num 100)]),
        run (lib ''send_packet'' [self ''dev_port0'', var ''pkt''] []),
        run (lib ''verify_packet'' [var ''exp_pkt'', self ''dev_port2''] [])]]"

definition QosDscpToColorTest_l3IPv4QosMapManyDscpToSameColorTest :: "'d stmt" where
  "QosDscpToColorTest_l3IPv4QosMapManyDscpToSameColorTest = block [
      assign ''status'' (api_set ''port'' (self ''port0'') [(''qos_dscp_to_color_map'', self ''p0_qos_dscp_to_color_map_id'')]),
      assert_eq (var ''status'') (num SAI_STATUS_SUCCESS),
      assign ''attr'' (api_get ''port'' (self ''port0'') [(''qos_dscp_to_color_map'', bool True)]),
      assert_eq (item (var ''attr'') (str ''qos_dscp_to_color_map'')) (self ''p0_qos_dscp_to_color_map_id''),
      for_in [''ingress_dscp''] (range_of (num 0) (num 64)) [
        assign ''ingress_ip_tos'' (shl (var ''ingress_dscp'') (num 2)),
        if_else (lt (var ''ingress_dscp'') (num 22)) [
          assign ''egress_dscp'' (num 63)] [
          if_else (lt (var ''ingress_dscp'') (num 44)) [
            assign ''egress_dscp'' (num 15)] [
            assign ''egress_dscp'' (num 11)]],
        assign ''egress_ip_tos'' (shl (var ''egress_dscp'') (num 2)),
        assign ''pkt'' (lib ''simple_tcp_packet'' [] [(''eth_dst'', str ROUTER_MAC), (''eth_src'', str ''00:22:22:22:22:22''),
          (''ip_dst'', str ''10.10.10.11''), (''ip_src'', str ''192.168.0.1''), (''ip_tos'', var ''ingress_ip_tos''),
          (''ip_id'', num 105), (''ip_ttl'', num 64)]),
        assign ''exp_pkt'' (lib ''simple_tcp_packet'' [] [(''eth_dst'', str ''00:11:22:33:44:04''), (''eth_src'', str
          ROUTER_MAC), (''ip_dst'', str ''10.10.10.11''), (''ip_src'', str ''192.168.0.1''), (''ip_tos'', var
          ''egress_ip_tos''), (''ip_id'', num 105), (''ip_ttl'', num 63)]),
        run (lib ''send_packet'' [self ''dev_port0'', var ''pkt''] []),
        run (lib ''verify_packet'' [var ''exp_pkt'', self ''dev_port1''] [])]]"

definition QosDscpToColorTest_l3IPv6QosMapManyDscpToSameColorTest :: "'d stmt" where
  "QosDscpToColorTest_l3IPv6QosMapManyDscpToSameColorTest = block [
      assign ''status'' (api_set ''port'' (self ''port0'') [(''qos_dscp_to_color_map'', self ''p0_qos_dscp_to_color_map_id'')]),
      assert_eq (var ''status'') (num SAI_STATUS_SUCCESS),
      assign ''attr'' (api_get ''port'' (self ''port0'') [(''qos_dscp_to_color_map'', bool True)]),
      assert_eq (item (var ''attr'') (str ''qos_dscp_to_color_map'')) (self ''p0_qos_dscp_to_color_map_id''),
      for_in [''ingress_dscp''] (range_of (num 0) (num 64)) [
        if_else (lt (var ''ingress_dscp'') (num 22)) [
          assign ''egress_dscp'' (num 63)] [
          if_else (lt (var ''ingress_dscp'') (num 44)) [
            assign ''egress_dscp'' (num 15)] [
            assign ''egress_dscp'' (num 11)]],
        assign ''ingress_ipv6_tc'' (shl (var ''ingress_dscp'') (num 2)),
        assign ''egress_ipv6_tc'' (shl (var ''egress_dscp'') (num 2)),
        assign ''pkt'' (lib ''simple_tcpv6_packet'' [] [(''eth_dst'', str ROUTER_MAC), (''eth_src'', str ''00:22:22:22:22:22''),
          (''ipv6_dst'', str ''1234:5678:9abc:def0:4422:1133:5577:1111''), (''ipv6_src'', str ''2000::1''), (''ipv6_hlim'', num
          64), (''ipv6_tc'', var ''ingress_ipv6_tc''), (''pktlen'', num 100)]),
        assign ''exp_pkt'' (lib ''simple_tcpv6_packet'' [] [(''eth_dst'', str ''00:11:22:33:44:06''), (''eth_src'', str
          ROUTER_MAC), (''ipv6_dst'', str ''1234:5678:9abc:def0:4422:1133:5577:1111''), (''ipv6_src'', str ''2000::1''),
          (''ipv6_hlim'', num 63), (''ipv6_tc'', var ''egress_ipv6_tc''), (''pktlen'', num 100)]),
        run (lib ''send_packet'' [self ''dev_port0'', var ''pkt''] []),
        run (lib ''verify_packet'' [var ''exp_pkt'', self ''dev_port2''] [])]]"

definition QosDscpToColorTest_l3IPv4QosMapSameDscpToColorManyIngressPortsTest :: "'d stmt" where
  "QosDscpToColorTest_l3IPv4QosMapSameDscpToColorManyIngressPortsTest = block [
      for_in [''port''] (list_of [self ''port0'', self ''port2'', self ''port3'']) [
        assign ''status'' (api_set ''port'' (var ''port'') [(''qos_dscp_to_color_map'', self ''p0_qos_dscp_to_color_map_id'')]),
        assert_eq (var ''status'') (num SAI_STATUS_SUCCESS),
        assign ''attr'' (api_get ''port'' (var ''port'') [(''qos_dscp_to_color_map'', bool True)]),
        assert_eq (item (var ''attr'') (str ''qos_dscp_to_color_map'')) (self ''p0_qos_dscp_to_color_map_id'')],
      for_in [''port''] (list_of [self ''dev_port0'', self ''dev_port2'', self ''dev_port3'']) [
        for_in [''ingress_dscp''] (range_of (num 0) (num 64)) [
          assign ''ingress_ip_tos'' (shl (var ''ingress_dscp'') (num 2)),
          if_else (lt (var ''ingress_dscp'') (num 22)) [
            assign ''egress_dscp'' (num 63)] [
            if_else (lt (var ''ingress_dscp'') (num 44)) [
              assign ''egress_dscp'' (num 15)] [
              assign ''egress_dscp'' (num 11)]],
          assign ''egress_ip_tos'' (shl (var ''egress_dscp'') (num 2)),
          assign ''pkt'' (lib ''simple_tcp_packet'' [] [(''eth_dst'', str ROUTER_MAC), (''eth_src'', str ''00:22:22:22:22:22''),
            (''ip_dst'', str ''10.10.10.11''), (''ip_src'', str ''192.168.0.1''), (''ip_tos'', var ''ingress_ip_tos''),
            (''ip_id'', num 105), (''ip_ttl'', num 64)]),
          assign ''exp_pkt'' (lib ''simple_tcp_packet'' [] [(''eth_dst'', str ''00:11:22:33:44:04''), (''eth_src'', str
            ROUTER_MAC), (''ip_dst'', str ''10.10.10.11''), (''ip_src'', str ''192.168.0.1''), (''ip_tos'', var
            ''egress_ip_tos''), (''ip_id'', num 105), (''ip_ttl'', num 63)]),
          run (lib ''send_packet'' [var ''port'', var ''pkt''] []),
          run (lib ''verify_packet'' [var ''exp_pkt'', self ''dev_port1''] [])]]]"

definition QosDscpToColorTest_l3IPv6QosMapSameDscpToColorManyIngressPortsTest :: "'d stmt" where
  "QosDscpToColorTest_l3IPv6QosMapSameDscpToColorManyIngressPortsTest = block [
      for_in [''port''] (list_of [self ''port0'', self ''port1'', self ''port3'']) [
        assign ''status'' (api_set ''port'' (var ''port'') [(''qos_dscp_to_color_map'', self ''p0_qos_dscp_to_color_map_id'')]),
        assert_eq (var ''status'') (num SAI_STATUS_SUCCESS),
        assign ''attr'' (api_get ''port'' (var ''port'') [(''qos_dscp_to_color_map'', bool True)]),
        assert_eq (item (var ''attr'') (str ''qos_dscp_to_color_map'')) (self ''p0_qos_dscp_to_color_map_id'')],
      for_in [''port''] (list_of [self ''dev_port0'', self ''dev_port1'', self ''dev_port3'']) [
        for_in [''ingress_dscp''] (range_of (num 0) (num 64)) [
          if_else (lt (var ''ingress_dscp'') (num 22)) [
            assign ''egress_dscp'' (num 63)] [
            if_else (lt (var ''ingress_dscp'') (num 44)) [
              assign ''egress_dscp'' (num 15)] [
              assign ''egress_dscp'' (num 11)]],
          assign ''ingress_ipv6_tc'' (shl (var ''ingress_dscp'') (num 2)),
          assign ''egress_ipv6_tc'' (shl (var ''egress_dscp'') (num 2)),
          assign ''pkt'' (lib ''simple_tcpv6_packet'' [] [(''eth_dst'', str ROUTER_MAC), (''eth_src'', str
            ''00:22:22:22:22:22''), (''ipv6_dst'', str ''1234:5678:9abc:def0:4422:1133:5577:1111''), (''ipv6_src'', str
            ''2000::1''), (''ipv6_hlim'', num 64), (''ipv6_tc'', var ''ingress_ipv6_tc''), (''pktlen'', num 100)]),
          assign ''exp_pkt'' (lib ''simple_tcpv6_packet'' [] [(''eth_dst'', str ''00:11:22:33:44:06''), (''eth_src'', str
            ROUTER_MAC), (''ipv6_dst'', str ''1234:5678:9abc:def0:4422:1133:5577:1111''), (''ipv6_src'', str ''2000::1''),
            (''ipv6_hlim'', num 63), (''ipv6_tc'', var ''egress_ipv6_tc''), (''pktlen'', num 100)]),
          run (lib ''send_packet'' [var ''port'', var ''pkt''] []),
          run (lib ''verify_packet'' [var ''exp_pkt'', self ''dev_port2''] [])]]]"

definition QosDscpToColorTest_l3IPv4QosMapVariousDscpToColorManyIngressPortsTest :: "'d stmt" where
  "QosDscpToColorTest_l3IPv4QosMapVariousDscpToColorManyIngressPortsTest = block [
      try_finally [
        for_in [''port'', ''dscp_color''] (list_of [list_of [self ''port0'', self ''p0_qos_dscp_to_color_map_id''], list_of
          [self ''port2'', self ''p2_qos_dscp_to_color_map_id''], list_of [self ''port3'', self
          ''p3_qos_dscp_to_color_map_id'']]) [
          assign ''status'' (api_set ''port'' (var ''port'') [(''qos_dscp_to_color_map'', var ''dscp_color'')]),
          assert_eq (var ''status'') (num SAI_STATUS_SUCCESS),
          assign ''attr'' (api_get ''port'' (var ''port'') [(''qos_dscp_to_color_map'', bool True)]),
          assert_eq (item (var ''attr'') (str ''qos_dscp_to_color_map'')) (var ''dscp_color'')],
        assign ''egress_port'' (self ''dev_port1''),
        assign ''test_dev_port_list'' (list_of [self ''dev_port0'', self ''dev_port1'', self ''dev_port2'', self ''dev_port3'']),
        for_in [''p_idx'', ''port''] (enumerated (var ''test_dev_port_list'')) [
          if_else (eq (var ''port'') (var ''egress_port'')) [
            continue] [],
          for_in [''ingress_dscp''] (range_of (num 0) (num 64)) [
            if_else (lt (var ''ingress_dscp'') (num 22)) [
              assign ''egress_dscp_list'' (list_of [num 63, num 15, num 11, num 63])] [
              if_else (lt (var ''ingress_dscp'') (num 44)) [
                assign ''egress_dscp_list'' (list_of [num 15, num 11, num 63, num 15])] [
                assign ''egress_dscp_list'' (list_of [num 11, num 63, num 15, num 11])]],
            assign ''egress_dscp'' (item (var ''egress_dscp_list'') (var ''p_idx'')),
            assign ''ingress_ip_tos'' (shl (var ''ingress_dscp'') (num 2)),
            assign ''egress_ip_tos'' (shl (var ''egress_dscp'') (num 2)),
            assign ''pkt'' (lib ''simple_tcp_packet'' [] [(''eth_dst'', str ROUTER_MAC), (''eth_src'', str
              ''00:22:22:22:22:22''), (''ip_dst'', str ''10.10.10.11''), (''ip_src'', str ''192.168.0.1''), (''ip_tos'', var
              ''ingress_ip_tos''), (''ip_id'', num 105), (''ip_ttl'', num 64)]),
            assign ''exp_pkt'' (lib ''simple_tcp_packet'' [] [(''eth_dst'', str ''00:11:22:33:44:04''), (''eth_src'', str
              ROUTER_MAC), (''ip_dst'', str ''10.10.10.11''), (''ip_src'', str ''192.168.0.1''), (''ip_tos'', var
              ''egress_ip_tos''), (''ip_id'', num 105), (''ip_ttl'', num 63)]),
            run (lib ''send_packet'' [var ''port'', var ''pkt''] []),
            run (lib ''verify_packet'' [var ''exp_pkt'', var ''egress_port''] [])]]] [
        for_in [''port''] (list_of [self ''port0'', self ''port2'', self ''port3'']) [
          run (api_set ''port'' (var ''port'') [(''qos_dscp_to_color_map'', num 0)])]]]"

definition QosDscpToColorTest_l3IPv6QosMapVariousDscpToColorManyIngressPortsTest :: "'d stmt" where
  "QosDscpToColorTest_l3IPv6QosMapVariousDscpToColorManyIngressPortsTest = block [
      try_finally [
        for_in [''port'', ''dscp_color''] (list_of [list_of [self ''port0'', self ''p0_qos_dscp_to_color_map_id''], list_of
          [self ''port1'', self ''p1_qos_dscp_to_color_map_id''], list_of [self ''port3'', self
          ''p3_qos_dscp_to_color_map_id'']]) [
          assign ''status'' (api_set ''port'' (var ''port'') [(''qos_dscp_to_color_map'', var ''dscp_color'')]),
          assert_eq (var ''status'') (num SAI_STATUS_SUCCESS),
          assign ''attr'' (api_get ''port'' (var ''port'') [(''qos_dscp_to_color_map'', bool True)]),
          assert_eq (item (var ''attr'') (str ''qos_dscp_to_color_map'')) (var ''dscp_color'')],
        assign ''egress_port'' (self ''dev_port2''),
        assign ''test_dev_port_list'' (list_of [self ''dev_port0'', self ''dev_port1'', self ''dev_port2'', self ''dev_port3'']),
        for_in [''p_idx'', ''port''] (enumerated (var ''test_dev_port_list'')) [
          if_else (eq (var ''port'') (var ''egress_port'')) [
            continue] [],
          for_in [''ingress_dscp''] (range_of (num 0) (num 64)) [
            if_else (lt (var ''ingress_dscp'') (num 22)) [
              assign ''egress_dscp_list'' (list_of [num 63, num 15, num 11, num 63])] [
              if_else (lt (var ''ingress_dscp'') (num 44)) [
                assign ''egress_dscp_list'' (list_of [num 15, num 11, num 63, num 15])] [
                assign ''egress_dscp_list'' (list_of [num 11, num 63, num 15, num 11])]],
            assign ''ingress_ipv6_tc'' (shl (var ''ingress_dscp'') (num 2)),
            assign ''egress_dscp'' (item (var ''egress_dscp_list'') (var ''p_idx'')),
            assign ''egress_ipv6_tc'' (shl (var ''egress_dscp'') (num 2)),
            assign ''pkt'' (lib ''simple_tcpv6_packet'' [] [(''eth_dst'', str ROUTER_MAC), (''eth_src'', str
              ''00:22:22:22:22:22''), (''ipv6_dst'', str ''1234:5678:9abc:def0:4422:1133:5577:1111''), (''ipv6_src'', str
              ''2000::1''), (''ipv6_hlim'', num 64), (''ipv6_tc'', var ''ingress_ipv6_tc''), (''pktlen'', num 100)]),
            assign ''exp_pkt'' (lib ''simple_tcpv6_packet'' [] [(''eth_dst'', str ''00:11:22:33:44:06''), (''eth_src'', str
              ROUTER_MAC), (''ipv6_dst'', str ''1234:5678:9abc:def0:4422:1133:5577:1111''), (''ipv6_src'', str ''2000::1''),
              (''ipv6_hlim'', num 63), (''ipv6_tc'', var ''egress_ipv6_tc''), (''pktlen'', num 100)]),
            run (lib ''send_packet'' [var ''port'', var ''pkt''] []),
            run (lib ''verify_packet'' [var ''exp_pkt'', var ''egress_port''] [])]]] [
        for_in [''port''] (list_of [self ''port0'', self ''port1'', self ''port3'']) [
          run (api_set ''port'' (var ''port'') [(''qos_dscp_to_color_map'', num 0)])]]]"

definition QosDscpToColorTest_runTest :: "'d stmt" where
  "QosDscpToColorTest_runTest = block [
      run (invoke [] QosDscpToColorTest_l3IPv4QosMapDscpToColorDefaultMappingTest),
      run (invoke [] QosDscpToColorTest_l3IPv6QosMapDscpToColorDefaultMappingTest),
      run (invoke [] QosDscpToColorTest_l3IPv4QosMapManyDscpToSameColorTest),
      run (invoke [] QosDscpToColorTest_l3IPv6QosMapManyDscpToSameColorTest),
      run (invoke [] QosDscpToColorTest_l3IPv4QosMapSameDscpToColorManyIngressPortsTest),
      run (invoke [] QosDscpToColorTest_l3IPv6QosMapSameDscpToColorManyIngressPortsTest),
      run (invoke [] QosDscpToColorTest_l3IPv4QosMapVariousDscpToColorManyIngressPortsTest),
      run (invoke [] QosDscpToColorTest_l3IPv6QosMapVariousDscpToColorManyIngressPortsTest)]"

definition QosDscpToColorTest_tearDown :: "'d stmt" where
  "QosDscpToColorTest_tearDown = block [
      for_in [''port''] (list_of [self ''port0'', self ''port1'', self ''port2'']) [
        run (api_set ''port'' (var ''port'') [(''qos_dscp_to_tc_map'', num 0)]),
        run (api_set ''port'' (var ''port'') [(''qos_tc_and_color_to_dscp_map'', num 0)])],
      run (api_remove ''qos_map'' (self ''qos_dscp_to_tc_map_id'')),
      run (api_remove ''qos_map'' (self ''qos_tc_color_to_dscp_map_id'')),
      run (api_remove ''qos_map'' (self ''p0_qos_dscp_to_color_map_id'')),
      run (api_remove ''qos_map'' (self ''p1_qos_dscp_to_color_map_id'')),
      run (api_remove ''qos_map'' (self ''p2_qos_dscp_to_color_map_id'')),
      run (api_remove ''qos_map'' (self ''p3_qos_dscp_to_color_map_id'')),
      run (invoke [] L3QosMapBaseClass_tearDown)]"

definition QosTcToPriorityGroupTestPFC_tearDown :: "'d stmt" where
  "QosTcToPriorityGroupTestPFC_tearDown = block [
      assign ''qos_map_dict'' (dict_of [(str ''qos_pfc_priority_to_priority_group_map'', num 0), (str ''qos_dot1p_to_tc_map'',
        num 0), (str ''qos_tc_to_priority_group_map'', num 0), (str ''qos_dscp_to_tc_map'', num 0)]),
      try_finally [
        for_in [''port''] (list_of [self ''port0'', self ''port1'', self ''port2'', self ''port3'']) [
          run (invoke [(''port'', var ''port''), (''qos_map_dict'', var ''qos_map_dict'')]
            L3QosMapBaseClass_setPortMultipleQosMapIds)],
        run (api_remove ''qos_map'' (self ''qos_dscp_tc_map_id''))] [
        assign ''i'' (num 0),
        assign ''test_dev_ports'' (list_of [self ''dev_port0'', self ''dev_port1'', self ''dev_port2'', self ''dev_port3'']),
        for_in [''port''] (range_of (num 0) (length_of (var ''test_dev_ports''))) [
          run (api_remove ''qos_map'' (item (self ''pfc_to_pg_map_id'') (var ''port''))),
          run (api_remove ''qos_map'' (item (self ''tc_to_pg_map_id'') (var ''port''))),
          for_in [''ppg''] (item (self ''ppg_list'') (var ''port'')) [
            run (api_remove ''ingress_priority_group'' (var ''ppg'')),
            assign ''i'' (add (var ''i'') (num 1))]],
        run (invoke [] L3QosMapBaseClass_tearDown)]]"

definition QosTcToPriorityGroupTestTC_tearDown :: "'d stmt" where
  "QosTcToPriorityGroupTestTC_tearDown = block [
      assign ''qos_map_dict'' (dict_of [(str ''qos_pfc_priority_to_priority_group_map'', num 0), (str ''qos_dot1p_to_tc_map'',
        num 0), (str ''qos_tc_to_priority_group_map'', num 0), (str ''qos_dscp_to_tc_map'', num 0)]),
      try_finally [
        for_in [''port''] (list_of [self ''port0'', self ''port1'', self ''port2'', self ''port3'']) [
          run (invoke [(''port'', var ''port''), (''qos_map_dict'', var ''qos_map_dict'')]
            L3QosMapBaseClass_setPortMultipleQosMapIds)],
        run (api_remove ''qos_map'' (self ''qos_dscp_tc_map_id''))] [
        assign ''i'' (num 0),
        assign ''test_dev_ports'' (list_of [self ''dev_port0'', self ''dev_port1'', self ''dev_port2'', self ''dev_port3'']),
        for_in [''port''] (range_of (num 0) (length_of (var ''test_dev_ports''))) [
          run (api_remove ''qos_map'' (item (self ''pfc_to_pg_map_id'') (var ''port''))),
          run (api_remove ''qos_map'' (item (self ''tc_to_pg_map_id'') (var ''port''))),
          for_in [''ppg''] (item (self ''ppg_list'') (var ''port'')) [
            run (api_remove ''ingress_priority_group'' (var ''ppg'')),
            assign ''i'' (add (var ''i'') (num 1))]],
        run (invoke [] L3QosMapBaseClass_tearDown)]]"

definition QosTcAndColorToDscpTest_setUp :: "'d stmt" where
  "QosTcAndColorToDscpTest_setUp = block [
      run (invoke [] L3QosMapBaseClass_setUp),
      assign ''ingress_dscp_list'' (list_of []),
      assign ''p0_ingress_tc_list'' (list_of []),
      assign ''p1_ingress_tc_list'' (list_of []),
      assign ''p2_ingress_tc_list'' (list_of []),
      assign ''p3_ingress_tc_list'' (list_of []),
      for_in [''dscp''] (range_of (num 0) (num 64)) [
        assign ''ingress_dscp_list'' (appended (var ''ingress_dscp_list'') (var ''dscp'')),
        if_else (lt (var ''dscp'') (num 24)) [
          assign ''p0_tc'' (modulo (var ''dscp'') (num 8)),
          assign ''p1_tc'' (modulo (add (var ''dscp'') (num 1)) (num 8)),
          assign ''p2_tc'' (modulo (add (var ''dscp'') (num 2)) (num 8)),
          assign ''p3_tc'' (modulo (add (var ''dscp'') (num 3)) (num 8))] [
          assign ''p0_tc'' (as_int (divide (var ''dscp'') (num 8))),
          assign ''p1_tc'' (modulo (as_int (divide (add (var ''dscp'') (num 1)) (num 8))) (num 8)),
          assign ''p2_tc'' (modulo (as_int (divide (add (var ''dscp'') (num 2)) (num 8))) (num 8)),
          assign ''p3_tc'' (modulo (as_int (divide (add (var ''dscp'') (num 3)) (num 8))) (num 8))],
        assign ''p0_ingress_tc_list'' (appended (var ''p0_ingress_tc_list'') (var ''p0_tc'')),
        assign ''p1_ingress_tc_list'' (appended (var ''p1_ingress_tc_list'') (var ''p1_tc'')),
        assign ''p2_ingress_tc_list'' (appended (var ''p2_ingress_tc_list'') (var ''p2_tc'')),
        assign ''p3_ingress_tc_list'' (appended (var ''p3_ingress_tc_list'') (var ''p3_tc''))],
      set_self ''p0_qos_dscp_to_tc_map_id'' (invoke [(''map_type'', num SAI_QOS_MAP_TYPE_DSCP_TO_TC), (''key_list'', var
        ''ingress_dscp_list''), (''data_list'', var ''p0_ingress_tc_list''), (''verify'', bool True)] create_and_verify_qos_map),
      assert (ne (self ''p0_qos_dscp_to_tc_map_id'') (num 0)),
      set_self ''p1_qos_dscp_to_tc_map_id'' (invoke [(''map_type'', num SAI_QOS_MAP_TYPE_DSCP_TO_TC), (''key_list'', var
        ''ingress_dscp_list''), (''data_list'', var ''p1_ingress_tc_list''), (''verify'', bool True)] create_and_verify_qos_map),
      assert (ne (self ''p1_qos_dscp_to_tc_map_id'') (num 0)),
      set_self ''p2_qos_dscp_to_tc_map_id'' (invoke [(''map_type'', num SAI_QOS_MAP_TYPE_DSCP_TO_TC), (''key_list'', var
        ''ingress_dscp_list''), (''data_list'', var ''p2_ingress_tc_list''), (''verify'', bool True)] create_and_verify_qos_map),
      assert (ne (self ''p2_qos_dscp_to_tc_map_id'') (num 0)),
      set_self ''p3_qos_dscp_to_tc_map_id'' (invoke [(''map_type'', num SAI_QOS_MAP_TYPE_DSCP_TO_TC), (''key_list'', var
        ''ingress_dscp_list''), (''data_list'', var ''p3_ingress_tc_list''), (''verify'', bool True)] create_and_verify_qos_map),
      assert (ne (self ''p3_qos_dscp_to_tc_map_id'') (num 0)),
      for_in [''port''] (list_of [self ''port0'']) [
        assign ''status'' (api_set ''port'' (var ''port'') [(''qos_dscp_to_tc_map'', self ''p0_qos_dscp_to_tc_map_id'')]),
        assert_eq (var ''status'') (num SAI_STATUS_SUCCESS),
        assign ''attr'' (api_get ''port'' (var ''port'') [(''qos_dscp_to_tc_map'', bool True)]),
        assert_eq (item (var ''attr'') (str ''qos_dscp_to_tc_map'')) (self ''p0_qos_dscp_to_tc_map_id'')],
      assign ''egress_tc_color_list'' (list_of [list_of [num 0, num 0], list_of [num 1, num 0], list_of [num 2, num 0], list_of
        [num 3, num 0], list_of [num 4, num 0], list_of [num 5, num 0], list_of [num 6, num 0], list_of [num 7, num 0], list_of
        [num 0, num 1], list_of [num 1, num 1], list_of [num 2, num 1], list_of [num 3, num 1], list_of [num 4, num 1], list_of
        [num 5, num 1], list_of [num 6, num 1], list_of [num 7, num 1], list_of [num 0, num 2], list_of [num 1, num 2], list_of
        [num 2, num 2], list_of [num 3, num 2], list_of [num 4, num 2], list_of [num 5, num 2], list_of [num 6, num 2], list_of
        [num 7, num 2]]),
      assign ''egress_dscp_list'' (list_of [num 0, num 1, num 2, num 3, num 4, num 5, num 6, num 7, num 8, num 9, num 10, num
        11, num 12, num 13, num 14, num 15, num 16, num 17, num 18, num 19, num 20, num 21, num 22, num 23]),
      set_self ''qos_tc_color_to_dscp_map_id'' (invoke [(''map_type'', num SAI_QOS_MAP_TYPE_TC_AND_COLOR_TO_DSCP),
        (''key_list'', var ''egress_tc_color_list''), (''data_list'', var ''egress_dscp_list''), (''verify'', bool True)]
        create_and_verify_qos_map),
      assert (ne (self ''qos_tc_color_to_dscp_map_id'') (num 0))]"

definition QosTcAndColorToDscpTest_l3IPv4QosMapTcColorToDscpDefaultMappingTest :: "'d stmt" where
  "QosTcAndColorToDscpTest_l3IPv4QosMapTcColorToDscpDefaultMappingTest = block [
      for_in [''ingress_dscp''] (range_step (num 0) (num 64) (num 1)) [
        assign ''ingress_ip_tos'' (shl (var ''ingress_dscp'') (num 2)),
        assign ''egress_ip_tos'' (var ''ingress_ip_tos''),
        assign ''pkt'' (lib ''simple_tcp_packet'' [] [(''eth_dst'', str ROUTER_MAC), (''eth_src'', str ''00:22:22:22:22:22''),
          (''ip_dst'', str ''10.10.10.11''), (''ip_src'', str ''192.168.0.1''), (''ip_tos'', var ''ingress_ip_tos''),
          (''ip_id'', num 105), (''ip_ttl'', num 64)]),
        assign ''exp_pkt'' (lib ''simple_tcp_packet'' [] [(''eth_dst'', str ''00:11:22:33:44:04''), (''eth_src'', str
          ROUTER_MAC), (''ip_dst'', str ''10.10.10.11''), (''ip_src'', str ''192.168.0.1''), (''ip_tos'', var
          ''egress_ip_tos''), (''ip_id'', num 105), (''ip_ttl'', num 63)]),
        run (lib ''send_packet'' [self ''dev_port0'', var ''pkt''] []),
        run (lib ''verify_packet'' [var ''exp_pkt'', self ''dev_port1''] [])]]"

definition QosTcAndColorToDscpTest_l3IPv6QosMapTcColorToDscpDefaultMappingTest :: "'d stmt" where
  "QosTcAndColorToDscpTest_l3IPv6QosMapTcColorToDscpDefaultMappingTest = block [
      for_in [''ingress_dscp''] (range_step (num 0) (num 64) (num 1)) [
        assign ''egress_dscp'' (var ''ingress_dscp''),
        assign ''ingress_ipv6_tc'' (shl (var ''ingress_dscp'') (num 2)),
        assign ''egress_ipv6_tc'' (shl (var ''egress_dscp'') (num 2)),
        assign ''pkt'' (lib ''simple_tcpv6_packet'' [] [(''eth_dst'', str ROUTER_MAC), (''eth_src'', str ''00:22:22:22:22:22''),
          (''ipv6_dst'', str ''1234:5678:9abc:def0:4422:1133:5577:1111''), (''ipv6_src'', str ''2000::1''), (''ipv6_hlim'', num
          64), (''ipv6_tc'', var ''ingress_ipv6_tc''), (''pktlen'', num 100)]),
        assign ''exp_pkt'' (lib ''simple_tcpv6_packet'' [] [(''eth_dst'', str ''00:11:22:33:44:06''), (''eth_src'', str
          ROUTER_MAC), (''ipv6_dst'', str ''1234:5678:9abc:def0:4422:1133:5577:1111''), (''ipv6_src'', str ''2000::1''),
          (''ipv6_hlim'', num 63), (''ipv6_tc'', var ''egress_ipv6_tc''), (''pktlen'', num 100)]),
        run (lib ''send_packet'' [self ''dev_port0'', var ''pkt''] []),
        run (lib ''verify_packet'' [var ''exp_pkt'', self ''dev_port2''] [])]]"

definition QosTcAndColorToDscpTest_l3IPv4QosMapTcColorToDscpMappingTest :: "'d stmt" where
  "QosTcAndColorToDscpTest_l3IPv4QosMapTcColorToDscpMappingTest = block [
      try_finally [
        for_in [''port''] (list_of [self ''port1'']) [
          assign ''status'' (api_set ''port'' (var ''port'') [(''qos_tc_and_color_to_dscp_map'', self
            ''qos_tc_color_to_dscp_map_id'')]),
          assert_eq (var ''status'') (num SAI_STATUS_SUCCESS),
          assign ''attr'' (api_get ''port'' (var ''port'') [(''qos_tc_and_color_to_dscp_map'', bool True)]),
          assert_eq (item (var ''attr'') (str ''qos_tc_and_color_to_dscp_map'')) (self ''qos_tc_color_to_dscp_map_id'')],
        for_in [''ingress_dscp''] (range_step (num 0) (num 64) (num 1)) [
          if_else (lt (var ''ingress_dscp'') (num 24)) [
            assign ''egress_dscp'' (modulo (var ''ingress_dscp'') (num 8))] [
            assign ''egress_dscp'' (as_int (divide (var ''ingress_dscp'') (num 8)))],
          assign ''ingress_ip_tos'' (shl (var ''ingress_dscp'') (num 2)),
          assign ''egress_ip_tos'' (shl (var ''egress_dscp'') (num 2)),
          assign ''pkt'' (lib ''simple_tcp_packet'' [] [(''eth_dst'', str ROUTER_MAC), (''eth_src'', str ''00:22:22:22:22:22''),
            (''ip_dst'', str ''10.10.10.11''), (''ip_src'', str ''192.168.0.1''), (''ip_tos'', var ''ingress_ip_tos''),
            (''ip_id'', num 105), (''ip_ttl'', num 64)]),
          assign ''exp_pkt'' (lib ''simple_tcp_packet'' [] [(''eth_dst'', str ''00:11:22:33:44:04''), (''eth_src'', str
            ROUTER_MAC), (''ip_dst'', str ''10.10.10.11''), (''ip_src'', str ''192.168.0.1''), (''ip_tos'', var
            ''egress_ip_tos''), (''ip_id'', num 105), (''ip_ttl'', num 63)]),
          run (lib ''send_packet'' [self ''dev_port0'', var ''pkt''] []),
          run (lib ''verify_packet'' [var ''exp_pkt'', self ''dev_port1''] [])]] [
        assign ''all_ports'' (list_of [self ''port0'', self ''port1'', self ''port2'', self ''port3'']),
        for_in [''port''] (var ''all_ports'') [
          run (api_set ''port'' (var ''port'') [(''qos_tc_and_color_to_dscp_map'', num 0)])]]]"

definition QosTcAndColorToDscpTest_l3IPv6QosMapTcColorToDscpMappingTest :: "'d stmt" where
  "QosTcAndColorToDscpTest_l3IPv6QosMapTcColorToDscpMappingTest = block [
      try_finally [
        for_in [''port''] (list_of [self ''port2'']) [
          assign ''status'' (api_set ''port'' (var ''port'') [(''qos_tc_and_color_to_dscp_map'', self
            ''qos_tc_color_to_dscp_map_id'')]),
          assert_eq (var ''status'') (num SAI_STATUS_SUCCESS),
          assign ''attr'' (api_get ''port'' (var ''port'') [(''qos_tc_and_color_to_dscp_map'', bool True)]),
          assert_eq (item (var ''attr'') (str ''qos_tc_and_color_to_dscp_map'')) (self ''qos_tc_color_to_dscp_map_id'')],
        for_in [''ingress_dscp''] (range_step (num 0) (num 64) (num 1)) [
          if_else (lt (var ''ingress_dscp'') (num 24)) [
            assign ''egress_dscp'' (modulo (var ''ingress_dscp'') (num 8))] [
            assign ''egress_dscp'' (as_int (divide (var ''ingress_dscp'') (num 8)))],
          assign ''ingress_ipv6_tc'' (shl (var ''ingress_dscp'') (num 2)),
          assign ''egress_ipv6_tc'' (shl (var ''egress_dscp'') (num 2)),
          assign ''pkt'' (lib ''simple_tcpv6_packet'' [] [(''eth_dst'', str ROUTER_MAC), (''eth_src'', str
            ''00:22:22:22:22:22''), (''ipv6_dst'', str ''1234:5678:9abc:def0:4422:1133:5577:1111''), (''ipv6_src'', str
            ''2000::1''), (''ipv6_hlim'', num 64), (''ipv6_tc'', var ''ingress_ipv6_tc''), (''pktlen'', num 100)]),
          assign ''exp_pkt'' (lib ''simple_tcpv6_packet'' [] [(''eth_dst'', str ''00:11:22:33:44:06''), (''eth_src'', str
            ROUTER_MAC), (''ipv6_dst'', str ''1234:5678:9abc:def0:4422:1133:5577:1111''), (''ipv6_src'', str ''2000::1''),
            (''ipv6_hlim'', num 63), (''ipv6_tc'', var ''egress_ipv6_tc''), (''pktlen'', num 100)]),
          run (lib ''send_packet'' [self ''dev_port0'', var ''pkt''] []),
          run (lib ''verify_packet'' [var ''exp_pkt'', self ''dev_port2''] [])]] [
        for_in [''port''] (list_of [self ''port1'', self ''port2'']) [
          run (api_set ''port'' (var ''port'') [(''qos_tc_and_color_to_dscp_map'', num 0)])]]]"

definition QosTcAndColorToDscpTest_l3IPv4QosMapTcColorToDscpManyIngressPortsTest :: "'d stmt" where
  "QosTcAndColorToDscpTest_l3IPv4QosMapTcColorToDscpManyIngressPortsTest = block [
      try_finally [
        for_in [''port'', ''dscp_to_tc''] (list_of [list_of [self ''port0'', self ''p0_qos_dscp_to_tc_map_id''], list_of [self
          ''port2'', self ''p0_qos_dscp_to_tc_map_id''], list_of [self ''port3'', self ''p0_qos_dscp_to_tc_map_id'']]) [
          assign ''status'' (api_set ''port'' (var ''port'') [(''qos_dscp_to_tc_map'', var ''dscp_to_tc'')]),
          assert_eq (var ''status'') (num SAI_STATUS_SUCCESS),
          assign ''attr'' (api_get ''port'' (var ''port'') [(''qos_dscp_to_tc_map'', bool True)]),
          assert_eq (item (var ''attr'') (str ''qos_dscp_to_tc_map'')) (var ''dscp_to_tc'')],
        for_in [''port''] (list_of [self ''port1'']) [
          assign ''status'' (api_set ''port'' (var ''port'') [(''qos_tc_and_color_to_dscp_map'', self
            ''qos_tc_color_to_dscp_map_id'')]),
          assert_eq (var ''status'') (num SAI_STATUS_SUCCESS),
          assign ''attr'' (api_get ''port'' (var ''port'') [(''qos_tc_and_color_to_dscp_map'', bool True)]),
          assert_eq (item (var ''attr'') (str ''qos_tc_and_color_to_dscp_map'')) (self ''qos_tc_color_to_dscp_map_id'')],
        for_in [''port''] (list_of [self ''dev_port0'', self ''dev_port2'', self ''dev_port3'']) [
          for_in [''ingress_dscp''] (range_step (num 0) (num 64) (num 1)) [
            if_else (lt (var ''ingress_dscp'') (num 24)) [
              assign ''egress_dscp'' (modulo (var ''ingress_dscp'') (num 8))] [
              assign ''egress_dscp'' (as_int (divide (var ''ingress_dscp'') (num 8)))],
            assign ''ingress_ip_tos'' (shl (var ''ingress_dscp'') (num 2)),
            assign ''egress_ip_tos'' (shl (var ''egress_dscp'') (num 2)),
            assign ''pkt'' (lib ''simple_tcp_packet'' [] [(''eth_dst'', str ROUTER_MAC), (''eth_src'', str
              ''00:22:22:22:22:22''), (''ip_dst'', str ''10.10.10.11''), (''ip_src'', str ''192.168.0.1''), (''ip_tos'', var
              ''ingress_ip_tos''), (''ip_id'', num 105), (''ip_ttl'', num 64)]),
            assign ''exp_pkt'' (lib ''simple_tcp_packet'' [] [(''eth_dst'', str ''00:11:22:33:44:04''), (''eth_src'', str
              ROUTER_MAC), (''ip_dst'', str ''10.10.10.11''), (''ip_src'', str ''192.168.0.1''), (''ip_tos'', var
              ''egress_ip_tos''), (''ip_id'', num 105), (''ip_ttl'', num 63)]),
            run (lib ''send_packet'' [var ''port'', var ''pkt''] []),
            run (lib ''verify_packet'' [var ''exp_pkt'', self ''dev_port1''] [])]]] [
        assign ''all_ports'' (list_of [self ''port0'', self ''port1'', self ''port2'', self ''port3'']),
        for_in [''port''] (var ''all_ports'') [
          run (api_set ''port'' (var ''port'') [(''qos_dscp_to_tc_map'', num 0)]),
          run (api_set ''port'' (var ''port'') [(''qos_tc_and_color_to_dscp_map'', num 0)])]]]"

definition QosTcAndColorToDscpTest_l3IPv6QosMapTcColorToDscpManyIngressPortsTest :: "'d stmt" where
  "QosTcAndColorToDscpTest_l3IPv6QosMapTcColorToDscpManyIngressPortsTest = block [
      try_finally [
        for_in [''port'', ''dscp_to_tc''] (list_of [list_of [self ''port0'', self ''p0_qos_dscp_to_tc_map_id''], list_of [self
          ''port1'', self ''p0_qos_dscp_to_tc_map_id''], list_of [self ''port3'', self ''p0_qos_dscp_to_tc_map_id'']]) [
          assign ''status'' (api_set ''port'' (var ''port'') [(''qos_dscp_to_tc_map'', var ''dscp_to_tc'')]),
          assert_eq (var ''status'') (num SAI_STATUS_SUCCESS),
          assign ''attr'' (api_get ''port'' (var ''port'') [(''qos_dscp_to_tc_map'', bool True)]),
          assert_eq (item (var ''attr'') (str ''qos_dscp_to_tc_map'')) (var ''dscp_to_tc'')],
        for_in [''port''] (list_of [self ''port2'']) [
          assign ''status'' (api_set ''port'' (var ''port'') [(''qos_tc_and_color_to_dscp_map'', self
            ''qos_tc_color_to_dscp_map_id'')]),
          assert_eq (var ''status'') (num SAI_STATUS_SUCCESS),
          assign ''attr'' (api_get ''port'' (var ''port'') [(''qos_tc_and_color_to_dscp_map'', bool True)]),
          assert_eq (item (var ''attr'') (str ''qos_tc_and_color_to_dscp_map'')) (self ''qos_tc_color_to_dscp_map_id'')],
        for_in [''port''] (list_of [self ''dev_port0'', self ''dev_port1'', self ''dev_port3'']) [
          for_in [''ingress_dscp''] (range_step (num 0) (num 64) (num 1)) [
            if_else (lt (var ''ingress_dscp'') (num 24)) [
              assign ''egress_dscp'' (modulo (var ''ingress_dscp'') (num 8))] [
              assign ''egress_dscp'' (as_int (divide (var ''ingress_dscp'') (num 8)))],
            assign ''ingress_ipv6_tc'' (shl (var ''ingress_dscp'') (num 2)),
            assign ''egress_ipv6_tc'' (shl (var ''egress_dscp'') (num 2)),
            assign ''pkt'' (lib ''simple_tcpv6_packet'' [] [(''eth_dst'', str ROUTER_MAC), (''eth_src'', str
              ''00:22:22:22:22:22''), (''ipv6_dst'', str ''1234:5678:9abc:def0:4422:1133:5577:1111''), (''ipv6_src'', str
              ''2000::1''), (''ipv6_hlim'', num 64), (''ipv6_tc'', var ''ingress_ipv6_tc''), (''pktlen'', num 100)]),
            assign ''exp_pkt'' (lib ''simple_tcpv6_packet'' [] [(''eth_dst'', str ''00:11:22:33:44:06''), (''eth_src'', str
              ROUTER_MAC), (''ipv6_dst'', str ''1234:5678:9abc:def0:4422:1133:5577:1111''), (''ipv6_src'', str ''2000::1''),
              (''ipv6_hlim'', num 63), (''ipv6_tc'', var ''egress_ipv6_tc''), (''pktlen'', num 100)]),
            run (lib ''send_packet'' [var ''port'', var ''pkt''] []),
            run (lib ''verify_packet'' [var ''exp_pkt'', self ''dev_port2''] [])]]] [
        for_in [''port''] (list_of [self ''port1'', self ''port2'']) [
          run (api_set ''port'' (var ''port'') [(''qos_tc_and_color_to_dscp_map'', num 0)])]]]"

definition QosTcAndColorToDscpTest_l3IPv4QosMapVariousTcColorToDscpManyIngressPortsTest :: "'d stmt" where
  "QosTcAndColorToDscpTest_l3IPv4QosMapVariousTcColorToDscpManyIngressPortsTest = block [
      try_finally [
        for_in [''port'', ''dscp_to_tc''] (list_of [list_of [self ''port0'', self ''p0_qos_dscp_to_tc_map_id''], list_of [self
          ''port2'', self ''p2_qos_dscp_to_tc_map_id''], list_of [self ''port3'', self ''p3_qos_dscp_to_tc_map_id'']]) [
          assign ''status'' (api_set ''port'' (var ''port'') [(''qos_dscp_to_tc_map'', var ''dscp_to_tc'')]),
          assert_eq (var ''status'') (num SAI_STATUS_SUCCESS),
          assign ''attr'' (api_get ''port'' (var ''port'') [(''qos_dscp_to_tc_map'', bool True)]),
          assert_eq (item (var ''attr'') (str ''qos_dscp_to_tc_map'')) (var ''dscp_to_tc'')],
        for_in [''port''] (list_of [self ''port1'']) [
          assign ''status'' (api_set ''port'' (var ''port'') [(''qos_tc_and_color_to_dscp_map'', self
            ''qos_tc_color_to_dscp_map_id'')]),
          assert_eq (var ''status'') (num SAI_STATUS_SUCCESS),
          assign ''attr'' (api_get ''port'' (var ''port'') [(''qos_tc_and_color_to_dscp_map'', bool True)]),
          assert_eq (item (var ''attr'') (str ''qos_tc_and_color_to_dscp_map'')) (self ''qos_tc_color_to_dscp_map_id'')],
        assign ''test_dev_port_list'' (list_of [self ''dev_port0'', self ''dev_port1'', self ''dev_port2'', self ''dev_port3'']),
        for_in [''p_idx'', ''port''] (enumerated (var ''test_dev_port_list'')) [
          if_else (eq (var ''port'') (self ''dev_port1'')) [
            continue] [],
          for_in [''ingress_dscp''] (range_step (num 0) (num 64) (num 1)) [
            if_else (lt (var ''ingress_dscp'') (num 24)) [
              assign ''egress_dscp'' (modulo (add (var ''ingress_dscp'') (var ''p_idx'')) (num 8))] [
              assign ''egress_dscp'' (modulo (as_int (divide (add (var ''ingress_dscp'') (var ''p_idx'')) (num 8))) (num 8))],
            assign ''ingress_ip_tos'' (shl (var ''ingress_dscp'') (num 2)),
            assign ''egress_ip_tos'' (shl (var ''egress_dscp'') (num 2)),
            assign ''pkt'' (lib ''simple_tcp_packet'' [] [(''eth_dst'', str ROUTER_MAC), (''eth_src'', str
              ''00:22:22:22:22:22''), (''ip_dst'', str ''10.10.10.11''), (''ip_src'', str ''192.168.0.1''), (''ip_tos'', var
              ''ingress_ip_tos''), (''ip_id'', num 105), (''ip_ttl'', num 64)]),
            assign ''exp_pkt'' (lib ''simple_tcp_packet'' [] [(''eth_dst'', str ''00:11:22:33:44:04''), (''eth_src'', str
              ROUTER_MAC), (''ip_dst'', str ''10.10.10.11''), (''ip_src'', str ''192.168.0.1''), (''ip_tos'', var
              ''egress_ip_tos''), (''ip_id'', num 105), (''ip_ttl'', num 63)]),
            run (lib ''send_packet'' [var ''port'', var ''pkt''] []),
            run (lib ''verify_packet'' [var ''exp_pkt'', self ''dev_port1''] [])]]] [
        assign ''all_ports'' (list_of [self ''port0'', self ''port1'', self ''port2'', self ''port3'']),
        for_in [''port''] (var ''all_ports'') [
          run (api_set ''port'' (var ''port'') [(''qos_dscp_to_tc_map'', num 0)]),
          run (api_set ''port'' (var ''port'') [(''qos_tc_and_color_to_dscp_map'', num 0)])]]]"

definition QosTcAndColorToDscpTest_l3IPv6QosMapVariousTcColorToDscpManyIngressPortsTest :: "'d stmt" where
  "QosTcAndColorToDscpTest_l3IPv6QosMapVariousTcColorToDscpManyIngressPortsTest = block [
      try_finally [
        for_in [''port'', ''dscp_to_tc''] (list_of [list_of [self ''port0'', self ''p0_qos_dscp_to_tc_map_id''], list_of [self
          ''port1'', self ''p1_qos_dscp_to_tc_map_id''], list_of [self ''port3'', self ''p3_qos_dscp_to_tc_map_id'']]) [
          assign ''status'' (api_set ''port'' (var ''port'') [(''qos_dscp_to_tc_map'', var ''dscp_to_tc'')]),
          assert_eq (var ''status'') (num SAI_STATUS_SUCCESS),
          assign ''attr'' (api_get ''port'' (var ''port'') [(''qos_dscp_to_tc_map'', bool True)]),
          assert_eq (item (var ''attr'') (str ''qos_dscp_to_tc_map'')) (var ''dscp_to_tc'')],
        for_in [''port''] (list_of [self ''port2'']) [
          assign ''status'' (api_set ''port'' (var ''port'') [(''qos_tc_and_color_to_dscp_map'', self
            ''qos_tc_color_to_dscp_map_id'')]),
          assert_eq (var ''status'') (num SAI_STATUS_SUCCESS),
          assign ''attr'' (api_get ''port'' (var ''port'') [(''qos_tc_and_color_to_dscp_map'', bool True)]),
          assert_eq (item (var ''attr'') (str ''qos_tc_and_color_to_dscp_map'')) (self ''qos_tc_color_to_dscp_map_id'')],
        assign ''test_dev_port_list'' (list_of [self ''dev_port0'', self ''dev_port1'', self ''dev_port2'', self ''dev_port3'']),
        for_in [''p_idx'', ''port''] (enumerated (var ''test_dev_port_list'')) [
          if_else (eq (var ''port'') (self ''dev_port2'')) [
            continue] [],
          for_in [''ingress_dscp''] (range_step (num 0) (num 64) (num 1)) [
            if_else (lt (var ''ingress_dscp'') (num 24)) [
              assign ''egress_dscp'' (modulo (add (var ''ingress_dscp'') (var ''p_idx'')) (num 8))] [
              assign ''egress_dscp'' (modulo (as_int (divide (add (var ''ingress_dscp'') (var ''p_idx'')) (num 8))) (num 8))],
            assign ''ingress_ipv6_tc'' (shl (var ''ingress_dscp'') (num 2)),
            assign ''egress_ipv6_tc'' (shl (var ''egress_dscp'') (num 2)),
            assign ''pkt'' (lib ''simple_tcpv6_packet'' [] [(''eth_dst'', str ROUTER_MAC), (''eth_src'', str
              ''00:22:22:22:22:22''), (''ipv6_dst'', str ''1234:5678:9abc:def0:4422:1133:5577:1111''), (''ipv6_src'', str
              ''2000::1''), (''ipv6_hlim'', num 64), (''ipv6_tc'', var ''ingress_ipv6_tc''), (''pktlen'', num 100)]),
            assign ''exp_pkt'' (lib ''simple_tcpv6_packet'' [] [(''eth_dst'', str ''00:11:22:33:44:06''), (''eth_src'', str
              ROUTER_MAC), (''ipv6_dst'', str ''1234:5678:9abc:def0:4422:1133:5577:1111''), (''ipv6_src'', str ''2000::1''),
              (''ipv6_hlim'', num 63), (''ipv6_tc'', var ''egress_ipv6_tc''), (''pktlen'', num 100)]),
            run (lib ''send_packet'' [var ''port'', var ''pkt''] []),
            run (lib ''verify_packet'' [var ''exp_pkt'', self ''dev_port2''] [])]]] [
        assign ''all_ports'' (list_of [self ''port0'', self ''port1'', self ''port2'', self ''port3'']),
        for_in [''port''] (var ''all_ports'') [
          run (api_set ''port'' (var ''port'') [(''qos_dscp_to_tc_map'', num 0)]),
          run (api_set ''port'' (var ''port'') [(''qos_tc_and_color_to_dscp_map'', num 0)])]]]"

definition QosTcAndColorToDscpTest_runTest :: "'d stmt" where
  "QosTcAndColorToDscpTest_runTest = block [
      run (invoke [] QosTcAndColorToDscpTest_l3IPv4QosMapTcColorToDscpDefaultMappingTest),
      run (invoke [] QosTcAndColorToDscpTest_l3IPv6QosMapTcColorToDscpDefaultMappingTest),
      run (invoke [] QosTcAndColorToDscpTest_l3IPv4QosMapTcColorToDscpMappingTest),
      run (invoke [] QosTcAndColorToDscpTest_l3IPv6QosMapTcColorToDscpMappingTest),
      run (invoke [] QosTcAndColorToDscpTest_l3IPv4QosMapTcColorToDscpManyIngressPortsTest),
      run (invoke [] QosTcAndColorToDscpTest_l3IPv6QosMapTcColorToDscpManyIngressPortsTest),
      run (invoke [] QosTcAndColorToDscpTest_l3IPv4QosMapVariousTcColorToDscpManyIngressPortsTest),
      run (invoke [] QosTcAndColorToDscpTest_l3IPv6QosMapVariousTcColorToDscpManyIngressPortsTest)]"

definition QosTcAndColorToDscpTest_tearDown :: "'d stmt" where
  "QosTcAndColorToDscpTest_tearDown = block [
      for_in [''port''] (list_of [self ''port0'', self ''port1'', self ''port2'', self ''port3'']) [
        run (api_set ''port'' (var ''port'') [(''qos_dscp_to_tc_map'', num 0)]),
        run (api_set ''port'' (var ''port'') [(''qos_tc_and_color_to_dscp_map'', num 0)])],
      run (api_remove ''qos_map'' (self ''qos_tc_color_to_dscp_map_id'')),
      run (api_remove ''qos_map'' (self ''p0_qos_dscp_to_tc_map_id'')),
      run (api_remove ''qos_map'' (self ''p1_qos_dscp_to_tc_map_id'')),
      run (api_remove ''qos_map'' (self ''p2_qos_dscp_to_tc_map_id'')),
      run (api_remove ''qos_map'' (self ''p3_qos_dscp_to_tc_map_id'')),
      run (invoke [] L3QosMapBaseClass_tearDown)]"

definition L2QosMapPcpToColorTest_setUp :: "'d stmt" where
  "L2QosMapPcpToColorTest_setUp = block [
      run (invoke [] L2QosMapBaseClass_setUp),
      assign ''ingress_dot1p_list'' (list_of [num 0, num 1, num 2, num 3, num 4, num 5, num 6, num 7]),
      assign ''ingress_tc_list'' (list_of [num 0, num 1, num 2, num 3, num 4, num 5, num 6, num 7]),
      set_self ''qos_dot1p_to_tc_map_id'' (invoke [(''map_type'', num SAI_QOS_MAP_TYPE_DOT1P_TO_TC), (''key_list'', var
        ''ingress_dot1p_list''), (''data_list'', var ''ingress_tc_list''), (''verify'', bool True)] create_and_verify_qos_map),
      assert (ne (self ''qos_dot1p_to_tc_map_id'') (num 0)),
      assign ''ingress_dot1p_list'' (list_of [num 0, num 1, num 2, num 3, num 4, num 5, num 6, num 7]),
      assign ''ingress_color_list'' (list_of [num 0, num 0, num 0, num 1, num 1, num 1, num 2, num 2]),
      set_self ''qos_dot1p_to_color_map_id'' (invoke [(''map_type'', num SAI_QOS_MAP_TYPE_DOT1P_TO_COLOR), (''key_list'', var
        ''ingress_dot1p_list''), (''data_list'', var ''ingress_color_list''), (''verify'', bool True)]
        create_and_verify_qos_map),
      assert (ne (self ''qos_dot1p_to_color_map_id'') (num 0)),
      assign ''ingress_dot1p_list'' (list_of [num 0, num 1, num 2, num 3, num 4, num 5, num 6, num 7]),
      assign ''ingress_color_list'' (list_of [num 0, num 0, num 0, num 0, num 0, num 0, num 0, num 0]),
      set_self ''p1_qos_dot1p_to_color_map_id'' (invoke [(''map_type'', num SAI_QOS_MAP_TYPE_DOT1P_TO_COLOR), (''key_list'', var
        ''ingress_dot1p_list''), (''data_list'', var ''ingress_color_list''), (''verify'', bool True)]
        create_and_verify_qos_map),
      assert (ne (self ''p1_qos_dot1p_to_color_map_id'') (num 0)),
      assign ''ingress_dot1p_list'' (list_of [num 0, num 1, num 2, num 3, num 4, num 5, num 6, num 7]),
      assign ''ingress_color_list'' (list_of [num 1, num 1, num 1, num 1, num 1, num 1, num 1, num 1]),
      set_self ''p2_qos_dot1p_to_color_map_id'' (invoke [(''map_type'', num SAI_QOS_MAP_TYPE_DOT1P_TO_COLOR), (''key_list'', var
        ''ingress_dot1p_list''), (''data_list'', var ''ingress_color_list''), (''verify'', bool True)]
        create_and_verify_qos_map),
      assert (ne (self ''p2_qos_dot1p_to_color_map_id'') (num 0)),
      assign ''ingress_dot1p_list'' (list_of [num 0, num 1, num 2, num 3, num 4, num 5, num 6, num 7]),
      assign ''ingress_color_list'' (list_of [num 2, num 2, num 2, num 2, num 2, num 2, num 2, num 2]),
      set_self ''p3_qos_dot1p_to_color_map_id'' (invoke [(''map_type'', num SAI_QOS_MAP_TYPE_DOT1P_TO_COLOR), (''key_list'', var
        ''ingress_dot1p_list''), (''data_list'', var ''ingress_color_list''), (''verify'', bool True)]
        create_and_verify_qos_map),
      assert (ne (self ''p3_qos_dot1p_to_color_map_id'') (num 0)),
      assign ''egress_tc_color_list'' (list_of [list_of [num 0, num 0], list_of [num 1, num 0], list_of [num 2, num 0], list_of
        [num 3, num 0], list_of [num 4, num 0], list_of [num 5, num 0], list_of [num 6, num 0], list_of [num 7, num 0], list_of
        [num 0, num 1], list_of [num 1, num 1], list_of [num 2, num 1], list_of [num 3, num 1], list_of [num 4, num 1], list_of
        [num 5, num 1], list_of [num 6, num 1], list_of [num 7, num 1], list_of [num 0, num 2], list_of [num 1, num 2], list_of
        [num 2, num 2], list_of [num 3, num 2], list_of [num 4, num 2], list_of [num 5, num 2], list_of [num 6, num 2], list_of
        [num 7, num 2]]),
      assign ''egress_pcp_list'' (list_of [num 1, num 1, num 1, num 1, num 1, num 1, num 1, num 1, num 2, num 2, num 2, num 2,
        num 2, num 2, num 2, num 2, num 3, num 3, num 3, num 3, num 3, num 3, num 3, num 3]),
      set_self ''p1_qos_tc_color_to_dot1q_id'' (invoke [(''map_type'', num SAI_QOS_MAP_TYPE_TC_AND_COLOR_TO_DOT1P),
        (''key_list'', var ''egress_tc_color_list''), (''data_list'', var ''egress_pcp_list''), (''verify'', bool True)]
        create_and_verify_qos_map),
      assert (ne (self ''p1_qos_tc_color_to_dot1q_id'') (num 0)),
      assign ''egress_pcp_list'' (list_of [num 3, num 3, num 3, num 3, num 3, num 3, num 3, num 3, num 4, num 4, num 4, num 4,
        num 4, num 4, num 4, num 4, num 5, num 5, num 5, num 5, num 5, num 5, num 5, num 5]),
      set_self ''p2_qos_tc_color_to_dot1q_id'' (invoke [(''map_type'', num SAI_QOS_MAP_TYPE_TC_AND_COLOR_TO_DOT1P),
        (''key_list'', var ''egress_tc_color_list''), (''data_list'', var ''egress_pcp_list''), (''verify'', bool True)]
        create_and_verify_qos_map),
      assert (ne (self ''p2_qos_tc_color_to_dot1q_id'') (num 0)),
      assign ''egress_pcp_list'' (list_of [num 5, num 5, num 5, num 5, num 5, num 5, num 5, num 5, num 6, num 6, num 6, num 6,
        num 6, num 6, num 6, num 6, num 7, num 7, num 7, num 7, num 7, num 7, num 7, num 7]),
      set_self ''p3_qos_tc_color_to_dot1q_id'' (invoke [(''map_type'', num SAI_QOS_MAP_TYPE_TC_AND_COLOR_TO_DOT1P),
        (''key_list'', var ''egress_tc_color_list''), (''data_list'', var ''egress_pcp_list''), (''verify'', bool True)]
        create_and_verify_qos_map),
      assert (ne (self ''p3_qos_tc_color_to_dot1q_id'') (num 0))]"

definition L2QosMapPcpToColorTest_verifyPortDefaultDot1pToTc :: "'d stmt" where
  "L2QosMapPcpToColorTest_verifyPortDefaultDot1pToTc = block [
      for_in [''port''] (var ''ports'') [
        assign ''attr'' (api_get ''port'' (var ''port'') [(''qos_dot1p_to_tc_map'', bool True), (''qos_default_tc'', bool
          True)]),
        assert_eq (item (var ''attr'') (str ''qos_dot1p_to_tc_map'')) (num 0),
        assert_eq (item (var ''attr'') (str ''qos_default_tc'')) (num 0)]]"

definition L2QosMapPcpToColorTest_l2QosMapPCPToColorDefaultMappingTest :: "'d stmt" where
  "L2QosMapPcpToColorTest_l2QosMapPCPToColorDefaultMappingTest = block [
      assign ''test_cases'' (list_of []),
      assign ''test_cases'' (appended (var ''test_cases'') (dict_of [(str ''pcp'', none), (str ''port_default_tc'', num 0), (str
        ''queue'', num 0), (str ''color'', num 0)])),
      assign ''test_cases'' (appended (var ''test_cases'') (dict_of [(str ''pcp'', none), (str ''port_default_tc'', num 1), (str
        ''queue'', num 1), (str ''color'', num 0)])),
      assign ''test_cases'' (appended (var ''test_cases'') (dict_of [(str ''pcp'', none), (str ''port_default_tc'', num 2), (str
        ''queue'', num 2), (str ''color'', num 0)])),
      assign ''test_cases'' (appended (var ''test_cases'') (dict_of [(str ''pcp'', none), (str ''port_default_tc'', num 3), (str
        ''queue'', num 3), (str ''color'', num 0)])),
      assign ''test_cases'' (appended (var ''test_cases'') (dict_of [(str ''pcp'', none), (str ''port_default_tc'', num 4), (str
        ''queue'', num 4), (str ''color'', num 0)])),
      assign ''test_cases'' (appended (var ''test_cases'') (dict_of [(str ''pcp'', none), (str ''port_default_tc'', num 5), (str
        ''queue'', num 5), (str ''color'', num 0)])),
      assign ''test_cases'' (appended (var ''test_cases'') (dict_of [(str ''pcp'', none), (str ''port_default_tc'', num 6), (str
        ''queue'', num 6), (str ''color'', num 0)])),
      assign ''test_cases'' (appended (var ''test_cases'') (dict_of [(str ''pcp'', none), (str ''port_default_tc'', num 7), (str
        ''queue'', num 7), (str ''color'', num 0)])),
      assign ''test_cases'' (appended (var ''test_cases'') (dict_of [(str ''pcp'', num 1), (str ''port_default_tc'', num 5),
        (str ''queue'', num 5), (str ''color'', num 0)])),
      assign ''test_cases'' (appended (var ''test_cases'') (dict_of [(str ''pcp'', num 2), (str ''port_default_tc'', num 0),
        (str ''queue'', num 0), (str ''color'', num 0)])),
      assign ''test_cases'' (appended (var ''test_cases'') (dict_of [(str ''pcp'', num 3), (str ''port_default_tc'', num 0),
        (str ''queue'', num 0), (str ''color'', num 0)])),
      assign ''test_cases'' (appended (var ''test_cases'') (dict_of [(str ''pcp'', num 4), (str ''port_default_tc'', num 0),
        (str ''queue'', num 0), (str ''color'', num 0)])),
      assign ''test_cases'' (appended (var ''test_cases'') (dict_of [(str ''pcp'', num 5), (str ''port_default_tc'', num 0),
        (str ''queue'', num 0), (str ''color'', num 0)])),
      assign ''test_cases'' (appended (var ''test_cases'') (dict_of [(str ''pcp'', num 6), (str ''port_default_tc'', num 0),
        (str ''queue'', num 0), (str ''color'', num 0)])),
      assign ''test_cases'' (appended (var ''test_cases'') (dict_of [(str ''pcp'', num 7), (str ''port_default_tc'', num 0),
        (str ''queue'', num 0), (str ''color'', num 0)])),
      assign ''test_cases'' (appended (var ''test_cases'') (dict_of [(str ''pcp'', num 0), (str ''port_default_tc'', num 1),
        (str ''queue'', num 1), (str ''color'', num 0)])),
      assign ''test_cases'' (appended (var ''test_cases'') (dict_of [(str ''pcp'', num 1), (str ''port_default_tc'', num 2),
        (str ''queue'', num 2), (str ''color'', num 0)])),
      assign ''test_cases'' (appended (var ''test_cases'') (dict_of [(str ''pcp'', num 2), (str ''port_default_tc'', num 3),
        (str ''queue'', num 3), (str ''color'', num 0)])),
      assign ''test_cases'' (appended (var ''test_cases'') (dict_of [(str ''pcp'', num 3), (str ''port_default_tc'', num 4),
        (str ''queue'', num 4), (str ''color'', num 0)])),
      assign ''test_cases'' (appended (var ''test_cases'') (dict_of [(str ''pcp'', num 4), (str ''port_default_tc'', num 5),
        (str ''queue'', num 5), (str ''color'', num 0)])),
      assign ''test_cases'' (appended (var ''test_cases'') (dict_of [(str ''pcp'', num 5), (str ''port_default_tc'', num 6),
        (str ''queue'', num 6), (str ''color'', num 0)])),
      assign ''test_cases'' (appended (var ''test_cases'') (dict_of [(str ''pcp'', num 6), (str ''port_default_tc'', num 7),
        (str ''queue'', num 7), (str ''color'', num 0)])),
      assign ''test_cases'' (appended (var ''test_cases'') (dict_of [(str ''pcp'', num 7), (str ''port_default_tc'', num 0),
        (str ''queue'', num 0), (str ''color'', num 0)])),
      try_finally [
        assign ''ingress_tc_list'' (list_of [num 0, num 1, num 2, num 3, num 4, num 5, num 6, num 7]),
        assign ''ingress_queue_list'' (list_of [num 0, num 1, num 2, num 3, num 4, num 5, num 6, num 7]),
        assign ''qos_tc_to_queue_map_id'' (invoke [(''map_type'', num SAI_QOS_MAP_TYPE_TC_TO_QUEUE), (''key_list'', var
          ''ingress_tc_list''), (''data_list'', var ''ingress_queue_list''), (''verify'', bool True)] create_and_verify_qos_map),
        assert (ne (var ''qos_tc_to_queue_map_id'') (num 0)),
        for_in [''port'', ''tc_to_queue'', ''tc_color''] (list_of [list_of [self ''port0'', var ''qos_tc_to_queue_map_id'', self
          ''p1_qos_tc_color_to_dot1q_id''], list_of [self ''port1'', var ''qos_tc_to_queue_map_id'', self
          ''p1_qos_tc_color_to_dot1q_id''], list_of [self ''port2'', var ''qos_tc_to_queue_map_id'', self
          ''p2_qos_tc_color_to_dot1q_id''], list_of [self ''port3'', var ''qos_tc_to_queue_map_id'', self
          ''p3_qos_tc_color_to_dot1q_id'']]) [
          assign ''status'' (api_set ''port'' (var ''port'') [(''qos_tc_to_queue_map'', var ''tc_to_queue'')]),
          assert_eq (var ''status'') (num SAI_STATUS_SUCCESS),
          assign ''attr'' (api_get ''port'' (var ''port'') [(''qos_tc_to_queue_map'', bool True)]),
          assert_eq (item (var ''attr'') (str ''qos_tc_to_queue_map'')) (var ''tc_to_queue''),
          assign ''status'' (api_set ''port'' (var ''port'') [(''qos_tc_and_color_to_dot1p_map'', var ''tc_color'')]),
          assert_eq (var ''status'') (num SAI_STATUS_SUCCESS),
          assign ''attr'' (api_get ''port'' (var ''port'') [(''qos_tc_and_color_to_dot1p_map'', bool True)]),
          assert_eq (item (var ''attr'') (str ''qos_tc_and_color_to_dot1p_map'')) (var ''tc_color'')],
        assign ''ports'' (list_of [self ''port0'', self ''port1'', self ''port2'', self ''port3'']),
        run (invoke [(''ports'', var ''ports'')] L2QosMapPcpToColorTest_verifyPortDefaultDot1pToTc),
        for_in [''test''] (var ''test_cases'') [
          assign ''queue'' (item (var ''test'') (str ''queue'')),
          if_else (no (is_none (item (var ''test'') (str ''port_default_tc'')))) [
            assign ''port_default_tc'' (item (var ''test'') (str ''port_default_tc'')),
            assign ''port_config'' (list_of [list_of [self ''port0'', var ''port_default_tc''], list_of [self ''port1'', var
              ''port_default_tc''], list_of [self ''port2'', var ''port_default_tc''], list_of [self ''port3'', var
              ''port_default_tc'']])] [
            assign ''port_config'' (list_of [list_of [self ''port0'', num 5], list_of [self ''port1'', num 1], list_of [self
              ''port2'', num 2], list_of [self ''port3'', num 3]])],
          for_in [''port'', ''port_default_tc''] (var ''port_config'') [
            run (api_set ''port'' (var ''port'') [(''qos_default_tc'', var ''port_default_tc'')]),
            assign ''attr'' (api_get ''port'' (var ''port'') [(''qos_default_tc'', bool True)]),
            assert_eq (item (var ''attr'') (str ''qos_default_tc'')) (var ''port_default_tc'')],
          assign ''p1_initial_q_cnt'' (invoke [(''port'', self ''port1''), (''index'', var ''queue''), (''qstats'', list_of [str
            ''SAI_QUEUE_STAT_PACKETS''])] L2QosMapBaseClass_getPortQueueIndexStats),
          assign ''p2_initial_q_cnt'' (invoke [(''port'', self ''port2''), (''index'', var ''queue''), (''qstats'', list_of [str
            ''SAI_QUEUE_STAT_PACKETS''])] L2QosMapBaseClass_getPortQueueIndexStats),
          assign ''p3_initial_q_cnt'' (invoke [(''port'', self ''port3''), (''index'', var ''queue''), (''qstats'', list_of [str
            ''SAI_QUEUE_STAT_PACKETS''])] L2QosMapBaseClass_getPortQueueIndexStats),
          if_else (no (is_none (item (var ''test'') (str ''port_default_tc'')))) [
            assign ''port_default_tc'' (as_str (item (var ''test'') (str ''port_default_tc'')))] [
            assign ''port_default_tc'' (as_str (num 1))],
          if_else (no (is_none (item (var ''test'') (str ''pcp'')))) [
            assign ''vlan'' (num 1),
            assign ''ingress_pcp'' (as_str (item (var ''test'') (str ''pcp'')))] [
            assign ''vlan'' (num 0),
            assign ''ingress_pcp'' (str ''None'')],
          assign ''p1_egress_pcp'' (num 1),
          assign ''p2_egress_pcp'' (num 3),
          assign ''p3_egress_pcp'' (num 5),
          print [self ''dev_port0'', var ''port_default_tc'', var ''ingress_pcp'', self ''dev_port1'', var ''queue'', var
            ''p1_egress_pcp''],
          print [self ''dev_port2'', var ''queue'', var ''p2_egress_pcp''],
          print [self ''dev_port3'', var ''queue'', var ''p3_egress_pcp''],
          assign ''pkt'' (lib ''simple_tcp_packet'' [] [(''eth_dst'', str ''00:33:33:33:33:00''), (''eth_src'', str
            ''00:33:33:33:33:11''), (''dl_vlan_enable'', bool True), (''vlan_vid'', var ''vlan''), (''vlan_pcp'', item (var
            ''test'') (str ''pcp'')), (''pktlen'', num 104)]),
          assign ''p1_exp_pkt'' (lib ''simple_tcp_packet'' [] [(''eth_dst'', str ''00:33:33:33:33:00''), (''eth_src'', str
            ''00:33:33:33:33:11''), (''dl_vlan_enable'', bool True), (''vlan_vid'', num 1), (''vlan_pcp'', var
            ''p1_egress_pcp''), (''pktlen'', num 104)]),
          assign ''p2_exp_pkt'' (lib ''simple_tcp_packet'' [] [(''eth_dst'', str ''00:33:33:33:33:00''), (''eth_src'', str
            ''00:33:33:33:33:11''), (''dl_vlan_enable'', bool True), (''vlan_vid'', num 1), (''vlan_pcp'', var
            ''p2_egress_pcp''), (''pktlen'', num 104)]),
          assign ''p3_exp_pkt'' (lib ''simple_tcp_packet'' [] [(''eth_dst'', str ''00:33:33:33:33:00''), (''eth_src'', str
            ''00:33:33:33:33:11''), (''dl_vlan_enable'', bool True), (''vlan_vid'', num 1), (''vlan_pcp'', var
            ''p3_egress_pcp''), (''pktlen'', num 104)]),
          assign ''test_port'' (self ''dev_port0''),
          assign ''flood_port_list'' (list_of [list_of [self ''dev_port1''], list_of [self ''dev_port2''], list_of [self
            ''dev_port3'']]),
          assign ''flood_pkt_list'' (list_of [var ''p1_exp_pkt'', var ''p2_exp_pkt'', var ''p3_exp_pkt'']),
          run (lib ''send_packet'' [var ''test_port'', var ''pkt''] []),
          run (lib ''verify_each_packet_on_multiple_port_lists'' [var ''flood_pkt_list'', var ''flood_port_list''] []),
          assign ''p1_post_q_cnt'' (invoke [(''port'', self ''port1''), (''index'', var ''queue''), (''qstats'', list_of [str
            ''SAI_QUEUE_STAT_PACKETS''])] L2QosMapBaseClass_getPortQueueIndexStats),
          assign ''p2_post_q_cnt'' (invoke [(''port'', self ''port2''), (''index'', var ''queue''), (''qstats'', list_of [str
            ''SAI_QUEUE_STAT_PACKETS''])] L2QosMapBaseClass_getPortQueueIndexStats),
          assign ''p3_post_q_cnt'' (invoke [(''port'', self ''port3''), (''index'', var ''queue''), (''qstats'', list_of [str
            ''SAI_QUEUE_STAT_PACKETS''])] L2QosMapBaseClass_getPortQueueIndexStats),
          assert_eq (add (var ''p1_initial_q_cnt'') (num 1)) (explained (var ''p1_post_q_cnt'') [var ''queue'', var
            ''p1_initial_q_cnt'', var ''p1_post_q_cnt'']),
          assert_eq (add (var ''p2_initial_q_cnt'') (num 1)) (explained (var ''p2_post_q_cnt'') [var ''queue'', var
            ''p2_initial_q_cnt'', var ''p2_post_q_cnt'']),
          assert_eq (add (var ''p3_initial_q_cnt'') (num 1)) (explained (var ''p3_post_q_cnt'') [var ''queue'', var
            ''p3_initial_q_cnt'', var ''p3_post_q_cnt''])]] [
        for_in [''port''] (list_of [self ''port0'', self ''port1'', self ''port2'', self ''port3'']) [
          run (api_set ''port'' (var ''port'') [(''qos_tc_to_queue_map'', num 0)]),
          run (api_set ''port'' (var ''port'') [(''qos_tc_and_color_to_dot1p_map'', num 0)])],
        run (api_remove ''qos_map'' (var ''qos_tc_to_queue_map_id''))]]"

definition L2QosMapPcpToColorTest_l2QosMapMultiPCPToOneColorMappingTest :: "'d stmt" where
  "L2QosMapPcpToColorTest_l2QosMapMultiPCPToOneColorMappingTest = block [
      assign ''test_cases'' (list_of []),
      assign ''test_cases'' (appended (var ''test_cases'') (dict_of [(str ''pcp'', none), (str ''port_default_tc'', num 0), (str
        ''tc'', num 0), (str ''color'', num 0)])),
      assign ''test_cases'' (appended (var ''test_cases'') (dict_of [(str ''pcp'', none), (str ''port_default_tc'', num 1), (str
        ''tc'', num 1), (str ''color'', num 0)])),
      assign ''test_cases'' (appended (var ''test_cases'') (dict_of [(str ''pcp'', none), (str ''port_default_tc'', num 2), (str
        ''tc'', num 2), (str ''color'', num 0)])),
      assign ''test_cases'' (appended (var ''test_cases'') (dict_of [(str ''pcp'', none), (str ''port_default_tc'', num 3), (str
        ''tc'', num 3), (str ''color'', num 0)])),
      assign ''test_cases'' (appended (var ''test_cases'') (dict_of [(str ''pcp'', none), (str ''port_default_tc'', num 4), (str
        ''tc'', num 4), (str ''color'', num 0)])),
      assign ''test_cases'' (appended (var ''test_cases'') (dict_of [(str ''pcp'', none), (str ''port_default_tc'', num 5), (str
        ''tc'', num 5), (str ''color'', num 0)])),
      assign ''test_cases'' (appended (var ''test_cases'') (dict_of [(str ''pcp'', none), (str ''port_default_tc'', num 6), (str
        ''tc'', num 6), (str ''color'', num 0)])),
      assign ''test_cases'' (appended (var ''test_cases'') (dict_of [(str ''pcp'', none), (str ''port_default_tc'', num 7), (str
        ''tc'', num 7), (str ''color'', num 0)])),
      assign ''test_cases'' (appended (var ''test_cases'') (dict_of [(str ''pcp'', num 0), (str ''port_default_tc'', num 5),
        (str ''tc'', num 0), (str ''color'', num 0)])),
      assign ''test_cases'' (appended (var ''test_cases'') (dict_of [(str ''pcp'', num 1), (str ''port_default_tc'', num 5),
        (str ''tc'', num 1), (str ''color'', num 0)])),
      assign ''test_cases'' (appended (var ''test_cases'') (dict_of [(str ''pcp'', num 2), (str ''port_default_tc'', num 0),
        (str ''tc'', num 2), (str ''color'', num 0)])),
      assign ''test_cases'' (appended (var ''test_cases'') (dict_of [(str ''pcp'', num 3), (str ''port_default_tc'', num 0),
        (str ''tc'', num 3), (str ''color'', num 1)])),
      assign ''test_cases'' (appended (var ''test_cases'') (dict_of [(str ''pcp'', num 4), (str ''port_default_tc'', num 0),
        (str ''tc'', num 4), (str ''color'', num 1)])),
      assign ''test_cases'' (appended (var ''test_cases'') (dict_of [(str ''pcp'', num 5), (str ''port_default_tc'', num 0),
        (str ''tc'', num 5), (str ''color'', num 1)])),
      assign ''test_cases'' (appended (var ''test_cases'') (dict_of [(str ''pcp'', num 6), (str ''port_default_tc'', num 0),
        (str ''tc'', num 6), (str ''color'', num 2)])),
      assign ''test_cases'' (appended (var ''test_cases'') (dict_of [(str ''pcp'', num 7), (str ''port_default_tc'', num 0),
        (str ''tc'', num 7), (str ''color'', num 2)])),
      for_in [''port'', ''dot1p_to_tc'', ''dot1p_color'', ''tc_color''] (list_of [list_of [self ''port0'', self
        ''qos_dot1p_to_tc_map_id'', self ''qos_dot1p_to_color_map_id'', self ''p1_qos_tc_color_to_dot1q_id''], list_of [self
        ''port1'', self ''qos_dot1p_to_tc_map_id'', self ''qos_dot1p_to_color_map_id'', self ''p1_qos_tc_color_to_dot1q_id''],
        list_of [self ''port2'', self ''qos_dot1p_to_tc_map_id'', self ''qos_dot1p_to_color_map_id'', self
        ''p2_qos_tc_color_to_dot1q_id''], list_of [self ''port3'', self ''qos_dot1p_to_tc_map_id'', self
        ''qos_dot1p_to_color_map_id'', self ''p3_qos_tc_color_to_dot1q_id'']]) [
        assign ''status'' (api_set ''port'' (var ''port'') [(''qos_dot1p_to_tc_map'', var ''dot1p_to_tc'')]),
        assert_eq (var ''status'') (num SAI_STATUS_SUCCESS),
        assign ''attr'' (api_get ''port'' (var ''port'') [(''qos_dot1p_to_tc_map'', bool True)]),
        assert_eq (item (var ''attr'') (str ''qos_dot1p_to_tc_map'')) (var ''dot1p_to_tc''),
        assign ''status'' (api_set ''port'' (var ''port'') [(''qos_dot1p_to_color_map'', var ''dot1p_color'')]),
        assert_eq (var ''status'') (num SAI_STATUS_SUCCESS),
        assign ''attr'' (api_get ''port'' (var ''port'') [(''qos_dot1p_to_color_map'', bool True)]),
        assert_eq (item (var ''attr'') (str ''qos_dot1p_to_color_map'')) (var ''dot1p_color''),
        assign ''status'' (api_set ''port'' (var ''port'') [(''qos_tc_and_color_to_dot1p_map'', var ''tc_color'')]),
        assert_eq (var ''status'') (num SAI_STATUS_SUCCESS),
        assign ''attr'' (api_get ''port'' (var ''port'') [(''qos_tc_and_color_to_dot1p_map'', bool True)]),
        assert_eq (item (var ''attr'') (str ''qos_tc_and_color_to_dot1p_map'')) (var ''tc_color'')],
      for_in [''test''] (var ''test_cases'') [
        if_else (no (is_none (item (var ''test'') (str ''pcp'')))) [
          assign ''vlan'' (num 1),
          assign ''ingress_pcp'' (as_str (item (var ''test'') (str ''pcp'')))] [
          assign ''vlan'' (num 0),
          assign ''ingress_pcp'' (str ''None'')],
        assign ''egress_tc'' (item (var ''test'') (str ''tc'')),
        assign ''egress_color'' (item (var ''test'') (str ''color'')),
        assign ''p1_egress_pcp'' (add (num 1) (item (var ''test'') (str ''color''))),
        assign ''p2_egress_pcp'' (add (num 3) (item (var ''test'') (str ''color''))),
        assign ''p3_egress_pcp'' (add (num 5) (item (var ''test'') (str ''color''))),
        print [self ''dev_port0'', var ''ingress_pcp'', self ''dev_port1'', var ''egress_tc'', var ''egress_color'', var
          ''p1_egress_pcp''],
        print [self ''dev_port2'', var ''egress_tc'', var ''egress_color'', var ''p2_egress_pcp''],
        print [self ''dev_port3'', var ''egress_tc'', var ''egress_color'', var ''p3_egress_pcp''],
        assign ''pkt'' (lib ''simple_tcp_packet'' [] [(''eth_dst'', str ''00:33:33:33:33:00''), (''eth_src'', str
          ''00:33:33:33:33:11''), (''dl_vlan_enable'', bool True), (''vlan_vid'', var ''vlan''), (''vlan_pcp'', item (var
          ''test'') (str ''pcp'')), (''pktlen'', num 104)]),
        assign ''p1_exp_pkt'' (lib ''simple_tcp_packet'' [] [(''eth_dst'', str ''00:33:33:33:33:00''), (''eth_src'', str
          ''00:33:33:33:33:11''), (''dl_vlan_enable'', bool True), (''vlan_vid'', num 1), (''vlan_pcp'', var ''p1_egress_pcp''),
          (''pktlen'', num 104)]),
        assign ''p2_exp_pkt'' (lib ''simple_tcp_packet'' [] [(''eth_dst'', str ''00:33:33:33:33:00''), (''eth_src'', str
          ''00:33:33:33:33:11''), (''dl_vlan_enable'', bool True), (''vlan_vid'', num 1), (''vlan_pcp'', var ''p2_egress_pcp''),
          (''pktlen'', num 104)]),
        assign ''p3_exp_pkt'' (lib ''simple_tcp_packet'' [] [(''eth_dst'', str ''00:33:33:33:33:00''), (''eth_src'', str
          ''00:33:33:33:33:11''), (''dl_vlan_enable'', bool True), (''vlan_vid'', num 1), (''vlan_pcp'', var ''p3_egress_pcp''),
          (''pktlen'', num 104)]),
        assign ''test_port'' (self ''dev_port0''),
        assign ''flood_port_list'' (list_of [list_of [self ''dev_port1''], list_of [self ''dev_port2''], list_of [self
          ''dev_port3'']]),
        assign ''flood_pkt_list'' (list_of [var ''p1_exp_pkt'', var ''p2_exp_pkt'', var ''p3_exp_pkt'']),
        run (lib ''send_packet'' [var ''test_port'', var ''pkt''] []),
        run (lib ''verify_each_packet_on_multiple_port_lists'' [var ''flood_pkt_list'', var ''flood_port_list''] [])]]"

definition L2QosMapPcpToColorTest_l2QosMapSamePCPToColorMultiIngresssPortTest :: "'d stmt" where
  "L2QosMapPcpToColorTest_l2QosMapSamePCPToColorMultiIngresssPortTest = block [
      assign ''test_cases'' (list_of []),
      assign ''test_cases'' (appended (var ''test_cases'') (dict_of [(str ''pcp'', none), (str ''port_default_tc'', num 0), (str
        ''tc'', num 0), (str ''color'', num 0)])),
      assign ''test_cases'' (appended (var ''test_cases'') (dict_of [(str ''pcp'', none), (str ''port_default_tc'', num 1), (str
        ''tc'', num 1), (str ''color'', num 0)])),
      assign ''test_cases'' (appended (var ''test_cases'') (dict_of [(str ''pcp'', none), (str ''port_default_tc'', num 2), (str
        ''tc'', num 2), (str ''color'', num 0)])),
      assign ''test_cases'' (appended (var ''test_cases'') (dict_of [(str ''pcp'', none), (str ''port_default_tc'', num 3), (str
        ''tc'', num 3), (str ''color'', num 0)])),
      assign ''test_cases'' (appended (var ''test_cases'') (dict_of [(str ''pcp'', none), (str ''port_default_tc'', num 4), (str
        ''tc'', num 4), (str ''color'', num 0)])),
      assign ''test_cases'' (appended (var ''test_cases'') (dict_of [(str ''pcp'', none), (str ''port_default_tc'', num 5), (str
        ''tc'', num 5), (str ''color'', num 0)])),
      assign ''test_cases'' (appended (var ''test_cases'') (dict_of [(str ''pcp'', none), (str ''port_default_tc'', num 6), (str
        ''tc'', num 6), (str ''color'', num 0)])),
      assign ''test_cases'' (appended (var ''test_cases'') (dict_of [(str ''pcp'', none), (str ''port_default_tc'', num 7), (str
        ''tc'', num 7), (str ''color'', num 0)])),
      assign ''test_cases'' (appended (var ''test_cases'') (dict_of [(str ''pcp'', num 0), (str ''port_default_tc'', num 5),
        (str ''tc'', num 0), (str ''color'', num 0)])),
      assign ''test_cases'' (appended (var ''test_cases'') (dict_of [(str ''pcp'', num 1), (str ''port_default_tc'', num 5),
        (str ''tc'', num 1), (str ''color'', num 0)])),
      assign ''test_cases'' (appended (var ''test_cases'') (dict_of [(str ''pcp'', num 2), (str ''port_default_tc'', num 0),
        (str ''tc'', num 2), (str ''color'', num 0)])),
      assign ''test_cases'' (appended (var ''test_cases'') (dict_of [(str ''pcp'', num 3), (str ''port_default_tc'', num 0),
        (str ''tc'', num 3), (str ''color'', num 1)])),
      assign ''test_cases'' (appended (var ''test_cases'') (dict_of [(str ''pcp'', num 4), (str ''port_default_tc'', num 0),
        (str ''tc'', num 4), (str ''color'', num 1)])),
      assign ''test_cases'' (appended (var ''test_cases'') (dict_of [(str ''pcp'', num 5), (str ''port_default_tc'', num 0),
        (str ''tc'', num 5), (str ''color'', num 1)])),
      assign ''test_cases'' (appended (var ''test_cases'') (dict_of [(str ''pcp'', num 6), (str ''port_default_tc'', num 0),
        (str ''tc'', num 6), (str ''color'', num 2)])),
      assign ''test_cases'' (appended (var ''test_cases'') (dict_of [(str ''pcp'', num 7), (str ''port_default_tc'', num 0),
        (str ''tc'', num 7), (str ''color'', num 2)])),
      for_in [''port'', ''dot1p_to_tc'', ''dot1p_color'', ''tc_color''] (list_of [list_of [self ''port0'', self
        ''qos_dot1p_to_tc_map_id'', self ''qos_dot1p_to_color_map_id'', self ''p1_qos_tc_color_to_dot1q_id''], list_of [self
        ''port1'', self ''qos_dot1p_to_tc_map_id'', self ''qos_dot1p_to_color_map_id'', self ''p1_qos_tc_color_to_dot1q_id''],
        list_of [self ''port2'', self ''qos_dot1p_to_tc_map_id'', self ''qos_dot1p_to_color_map_id'', self
        ''p2_qos_tc_color_to_dot1q_id''], list_of [self ''port3'', self ''qos_dot1p_to_tc_map_id'', self
        ''qos_dot1p_to_color_map_id'', self ''p3_qos_tc_color_to_dot1q_id'']]) [
        assign ''status'' (api_set ''port'' (var ''port'') [(''qos_dot1p_to_tc_map'', var ''dot1p_to_tc'')]),
        assert_eq (var ''status'') (num SAI_STATUS_SUCCESS),
        assign ''attr'' (api_get ''port'' (var ''port'') [(''qos_dot1p_to_tc_map'', bool True)]),
        assert_eq (item (var ''attr'') (str ''qos_dot1p_to_tc_map'')) (var ''dot1p_to_tc''),
        assign ''status'' (api_set ''port'' (var ''port'') [(''qos_dot1p_to_color_map'', var ''dot1p_color'')]),
        assert_eq (var ''status'') (num SAI_STATUS_SUCCESS),
        assign ''attr'' (api_get ''port'' (var ''port'') [(''qos_dot1p_to_color_map'', bool True)]),
        assert_eq (item (var ''attr'') (str ''qos_dot1p_to_color_map'')) (var ''dot1p_color''),
        assign ''status'' (api_set ''port'' (var ''port'') [(''qos_tc_and_color_to_dot1p_map'', var ''tc_color'')]),
        assert_eq (var ''status'') (num SAI_STATUS_SUCCESS),
        assign ''attr'' (api_get ''port'' (var ''port'') [(''qos_tc_and_color_to_dot1p_map'', bool True)]),
        assert_eq (item (var ''attr'') (str ''qos_tc_and_color_to_dot1p_map'')) (var ''tc_color'')],
      assign ''test_dev_ports_list'' (list_of [self ''dev_port0'', self ''dev_port1'', self ''dev_port2'', self ''dev_port3'']),
      for_in [''_'', ''ingress_port''] (enumerated (var ''test_dev_ports_list'')) [
        for_in [''test''] (var ''test_cases'') [
          if_else (no (is_none (item (var ''test'') (str ''pcp'')))) [
            assign ''vlan'' (num 1),
            assign ''ingress_pcp'' (as_str (item (var ''test'') (str ''pcp'')))] [
            assign ''vlan'' (num 0),
            assign ''ingress_pcp'' (str ''None'')],
          assign ''egress_tc'' (item (var ''test'') (str ''tc'')),
          assign ''egress_color'' (item (var ''test'') (str ''color'')),
          assign ''p1_egress_pcp'' (add (num 1) (item (var ''test'') (str ''color''))),
          assign ''p2_egress_pcp'' (add (num 3) (item (var ''test'') (str ''color''))),
          assign ''p3_egress_pcp'' (add (num 5) (item (var ''test'') (str ''color''))),
          assign ''pkt'' (lib ''simple_tcp_packet'' [] [(''eth_dst'', str ''00:33:33:33:33:00''), (''eth_src'', str
            ''00:33:33:33:33:11''), (''dl_vlan_enable'', bool True), (''vlan_vid'', var ''vlan''), (''vlan_pcp'', item (var
            ''test'') (str ''pcp'')), (''pktlen'', num 104)]),
          assign ''p1_exp_pkt'' (lib ''simple_tcp_packet'' [] [(''eth_dst'', str ''00:33:33:33:33:00''), (''eth_src'', str
            ''00:33:33:33:33:11''), (''dl_vlan_enable'', bool True), (''vlan_vid'', num 1), (''vlan_pcp'', var
            ''p1_egress_pcp''), (''pktlen'', num 104)]),
          assign ''p2_exp_pkt'' (lib ''simple_tcp_packet'' [] [(''eth_dst'', str ''00:33:33:33:33:00''), (''eth_src'', str
            ''00:33:33:33:33:11''), (''dl_vlan_enable'', bool True), (''vlan_vid'', num 1), (''vlan_pcp'', var
            ''p2_egress_pcp''), (''pktlen'', num 104)]),
          assign ''p3_exp_pkt'' (lib ''simple_tcp_packet'' [] [(''eth_dst'', str ''00:33:33:33:33:00''), (''eth_src'', str
            ''00:33:33:33:33:11''), (''dl_vlan_enable'', bool True), (''vlan_vid'', num 1), (''vlan_pcp'', var
            ''p3_egress_pcp''), (''pktlen'', num 104)]),
          assign ''egres_ports'' (list_of []),
          assign ''flood_port_list'' (list_of []),
          assign ''flood_pkt_list'' (list_of []),
          assign ''pkt_list'' (list_of [var ''p1_exp_pkt'', var ''p1_exp_pkt'', var ''p2_exp_pkt'', var ''p3_exp_pkt'']),
          for_in [''i'', ''port''] (enumerated (var ''test_dev_ports_list'')) [
            if_else (eq (var ''port'') (var ''ingress_port'')) [
              continue] [],
            assign ''flood_port_list'' (appended (var ''flood_port_list'') (list_of [var ''port''])),
            assign ''flood_pkt_list'' (appended (var ''flood_pkt_list'') (item (var ''pkt_list'') (var ''i''))),
            assign ''egres_ports'' (appended (var ''egres_ports'') (var ''port''))],
          print [var ''ingress_port'', var ''ingress_pcp'', item (var ''egres_ports'') (num 0), var ''egress_tc'', var
            ''egress_color'', var ''p1_egress_pcp''],
          print [item (var ''egres_ports'') (num 1), var ''egress_tc'', var ''egress_color'', var ''p2_egress_pcp''],
          print [item (var ''egres_ports'') (num 2), var ''egress_tc'', var ''egress_color'', var ''p3_egress_pcp''],
          run (lib ''send_packet'' [var ''ingress_port'', var ''pkt''] []),
          run (lib ''verify_each_packet_on_multiple_port_lists'' [var ''flood_pkt_list'', var ''flood_port_list''] [])]]]"

definition L2QosMapPcpToColorTest_l2QosMapDifferentPCPToColorMultiIngresssPortTest :: "'d stmt" where
  "L2QosMapPcpToColorTest_l2QosMapDifferentPCPToColorMultiIngresssPortTest = block [
      assign ''test_cases'' (list_of []),
      assign ''test_cases'' (appended (var ''test_cases'') (dict_of [(str ''ingress_port'', self ''dev_port0''), (str ''pcp'',
        num 0), (str ''p0_pcp'', none), (str ''p1_pcp'', num 1), (str ''p2_pcp'', num 3), (str ''p3_pcp'', num 5)])),
      assign ''test_cases'' (appended (var ''test_cases'') (dict_of [(str ''ingress_port'', self ''dev_port0''), (str ''pcp'',
        num 1), (str ''p0_pcp'', none), (str ''p1_pcp'', num 1), (str ''p2_pcp'', num 3), (str ''p3_pcp'', num 5)])),
      assign ''test_cases'' (appended (var ''test_cases'') (dict_of [(str ''ingress_port'', self ''dev_port0''), (str ''pcp'',
        num 2), (str ''p0_pcp'', none), (str ''p1_pcp'', num 1), (str ''p2_pcp'', num 3), (str ''p3_pcp'', num 5)])),
      assign ''test_cases'' (appended (var ''test_cases'') (dict_of [(str ''ingress_port'', self ''dev_port0''), (str ''pcp'',
        num 3), (str ''p0_pcp'', none), (str ''p1_pcp'', num 1), (str ''p2_pcp'', num 3), (str ''p3_pcp'', num 5)])),
      assign ''test_cases'' (appended (var ''test_cases'') (dict_of [(str ''ingress_port'', self ''dev_port0''), (str ''pcp'',
        num 4), (str ''p0_pcp'', none), (str ''p1_pcp'', num 1), (str ''p2_pcp'', num 3), (str ''p3_pcp'', num 5)])),
      assign ''test_cases'' (appended (var ''test_cases'') (dict_of [(str ''ingress_port'', self ''dev_port0''), (str ''pcp'',
        num 5), (str ''p0_pcp'', none), (str ''p1_pcp'', num 1), (str ''p2_pcp'', num 3), (str ''p3_pcp'', num 5)])),
      assign ''test_cases'' (appended (var ''test_cases'') (dict_of [(str ''ingress_port'', self ''dev_port0''), (str ''pcp'',
        num 6), (str ''p0_pcp'', none), (str ''p1_pcp'', num 1), (str ''p2_pcp'', num 3), (str ''p3_pcp'', num 5)])),
      assign ''test_cases'' (appended (var ''test_cases'') (dict_of [(str ''ingress_port'', self ''dev_port0''), (str ''pcp'',
        num 7), (str ''p0_pcp'', none), (str ''p1_pcp'', num 1), (str ''p2_pcp'', num 3), (str ''p3_pcp'', num 5)])),
      assign ''test_cases'' (appended (var ''test_cases'') (dict_of [(str ''ingress_port'', self ''dev_port1''), (str ''pcp'',
        num 0), (str ''p0_pcp'', num 1), (str ''p1_pcp'', none), (str ''p2_pcp'', num 3), (str ''p3_pcp'', num 5)])),
      assign ''test_cases'' (appended (var ''test_cases'') (dict_of [(str ''ingress_port'', self ''dev_port1''), (str ''pcp'',
        num 1), (str ''p0_pcp'', num 1), (str ''p1_pcp'', none), (str ''p2_pcp'', num 3), (str ''p3_pcp'', num 5)])),
      assign ''test_cases'' (appended (var ''test_cases'') (dict_of [(str ''ingress_port'', self ''dev_port1''), (str ''pcp'',
        num 2), (str ''p0_pcp'', num 1), (str ''p1_pcp'', none), (str ''p2_pcp'', num 3), (str ''p3_pcp'', num 5)])),
      assign ''test_cases'' (appended (var ''test_cases'') (dict_of [(str ''ingress_port'', self ''dev_port1''), (str ''pcp'',
        num 3), (str ''p0_pcp'', num 1), (str ''p1_pcp'', none), (str ''p2_pcp'', num 3), (str ''p3_pcp'', num 5)])),
      assign ''test_cases'' (appended (var ''test_cases'') (dict_of [(str ''ingress_port'', self ''dev_port1''), (str ''pcp'',
        num 4), (str ''p0_pcp'', num 1), (str ''p1_pcp'', none), (str ''p2_pcp'', num 3), (str ''p3_pcp'', num 5)])),
      assign ''test_cases'' (appended (var ''test_cases'') (dict_of [(str ''ingress_port'', self ''dev_port1''), (str ''pcp'',
        num 5), (str ''p0_pcp'', num 1), (str ''p1_pcp'', none), (str ''p2_pcp'', num 3), (str ''p3_pcp'', num 5)])),
      assign ''test_cases'' (appended (var ''test_cases'') (dict_of [(str ''ingress_port'', self ''dev_port1''), (str ''pcp'',
        num 6), (str ''p0_pcp'', num 1), (str ''p1_pcp'', none), (str ''p2_pcp'', num 3), (str ''p3_pcp'', num 5)])),
      assign ''test_cases'' (appended (var ''test_cases'') (dict_of [(str ''ingress_port'', self ''dev_port1''), (str ''pcp'',
        num 7), (str ''p0_pcp'', num 1), (str ''p1_pcp'', none), (str ''p2_pcp'', num 3), (str ''p3_pcp'', num 5)])),
      assign ''test_cases'' (appended (var ''test_cases'') (dict_of [(str ''ingress_port'', self ''dev_port2''), (str ''pcp'',
        num 0), (str ''p0_pcp'', num 2), (str ''p1_pcp'', num 2), (str ''p2_pcp'', none), (str ''p3_pcp'', num 6)])),
      assign ''test_cases'' (appended (var ''test_cases'') (dict_of [(str ''ingress_port'', self ''dev_port2''), (str ''pcp'',
        num 1), (str ''p0_pcp'', num 2), (str ''p1_pcp'', num 2), (str ''p2_pcp'', none), (str ''p3_pcp'', num 6)])),
      assign ''test_cases'' (appended (var ''test_cases'') (dict_of [(str ''ingress_port'', self ''dev_port2''), (str ''pcp'',
        num 2), (str ''p0_pcp'', num 2), (str ''p1_pcp'', num 2), (str ''p2_pcp'', none), (str ''p3_pcp'', num 6)])),
      assign ''test_cases'' (appended (var ''test_cases'') (dict_of [(str ''ingress_port'', self ''dev_port2''), (str ''pcp'',
        num 3), (str ''p0_pcp'', num 2), (str ''p1_pcp'', num 2), (str ''p2_pcp'', none), (str ''p3_pcp'', num 6)])),
      assign ''test_cases'' (appended (var ''test_cases'') (dict_of [(str ''ingress_port'', self ''dev_port2''), (str ''pcp'',
        num 4), (str ''p0_pcp'', num 2), (str ''p1_pcp'', num 2), (str ''p2_pcp'', none), (str ''p3_pcp'', num 6)])),
      assign ''test_cases'' (appended (var ''test_cases'') (dict_of [(str ''ingress_port'', self ''dev_port2''), (str ''pcp'',
        num 5), (str ''p0_pcp'', num 2), (str ''p1_pcp'', num 2), (str ''p2_pcp'', none), (str ''p3_pcp'', num 6)])),
      assign ''test_cases'' (appended (var ''test_cases'') (dict_of [(str ''ingress_port'', self ''dev_port2''), (str ''pcp'',
        num 6), (str ''p0_pcp'', num 2), (str ''p1_pcp'', num 2), (str ''p2_pcp'', none), (str ''p3_pcp'', num 6)])),
      assign ''test_cases'' (appended (var ''test_cases'') (dict_of [(str ''ingress_port'', self ''dev_port2''), (str ''pcp'',
        num 7), (str ''p0_pcp'', num 2), (str ''p1_pcp'', num 2), (str ''p2_pcp'', none), (str ''p3_pcp'', num 6)])),
      assign ''test_cases'' (appended (var ''test_cases'') (dict_of [(str ''ingress_port'', self ''dev_port3''), (str ''pcp'',
        num 0), (str ''p0_pcp'', num 3), (str ''p1_pcp'', num 3), (str ''p2_pcp'', num 5), (str ''p3_pcp'', none)])),
      assign ''test_cases'' (appended (var ''test_cases'') (dict_of [(str ''ingress_port'', self ''dev_port3''), (str ''pcp'',
        num 1), (str ''p0_pcp'', num 3), (str ''p1_pcp'', num 3), (str ''p2_pcp'', num 5), (str ''p3_pcp'', none)])),
      assign ''test_cases'' (appended (var ''test_cases'') (dict_of [(str ''ingress_port'', self ''dev_port3''), (str ''pcp'',
        num 2), (str ''p0_pcp'', num 3), (str ''p1_pcp'', num 3), (str ''p2_pcp'', num 5), (str ''p3_pcp'', none)])),
      assign ''test_cases'' (appended (var ''test_cases'') (dict_of [(str ''ingress_port'', self ''dev_port3''), (str ''pcp'',
        num 3), (str ''p0_pcp'', num 3), (str ''p1_pcp'', num 3), (str ''p2_pcp'', num 5), (str ''p3_pcp'', none)])),
      assign ''test_cases'' (appended (var ''test_cases'') (dict_of [(str ''ingress_port'', self ''dev_port3''), (str ''pcp'',
        num 4), (str ''p0_pcp'', num 3), (str ''p1_pcp'', num 3), (str ''p2_pcp'', num 5), (str ''p3_pcp'', none)])),
      assign ''test_cases'' (appended (var ''test_cases'') (dict_of [(str ''ingress_port'', self ''dev_port3''), (str ''pcp'',
        num 5), (str ''p0_pcp'', num 3), (str ''p1_pcp'', num 3), (str ''p2_pcp'', num 5), (str ''p3_pcp'', none)])),
      assign ''test_cases'' (appended (var ''test_cases'') (dict_of [(str ''ingress_port'', self ''dev_port3''), (str ''pcp'',
        num 6), (str ''p0_pcp'', num 3), (str ''p1_pcp'', num 3), (str ''p2_pcp'', num 5), (str ''p3_pcp'', none)])),
      assign ''test_cases'' (appended (var ''test_cases'') (dict_of [(str ''ingress_port'', self ''dev_port3''), (str ''pcp'',
        num 7), (str ''p0_pcp'', num 3), (str ''p1_pcp'', num 3), (str ''p2_pcp'', num 5), (str ''p3_pcp'', none)])),
      for_in [''port'', ''dot1p_to_tc'', ''dot1p_color'', ''tc_color_to_pcp''] (list_of [list_of [self ''port0'', self
        ''qos_dot1p_to_tc_map_id'', self ''p1_qos_dot1p_to_color_map_id'', self ''p1_qos_tc_color_to_dot1q_id''], list_of [self
        ''port1'', self ''qos_dot1p_to_tc_map_id'', self ''p1_qos_dot1p_to_color_map_id'', self
        ''p1_qos_tc_color_to_dot1q_id''], list_of [self ''port2'', self ''qos_dot1p_to_tc_map_id'', self
        ''p2_qos_dot1p_to_color_map_id'', self ''p2_qos_tc_color_to_dot1q_id''], list_of [self ''port3'', self
        ''qos_dot1p_to_tc_map_id'', self ''p3_qos_dot1p_to_color_map_id'', self ''p3_qos_tc_color_to_dot1q_id'']]) [
        assign ''status'' (api_set ''port'' (var ''port'') [(''qos_dot1p_to_tc_map'', var ''dot1p_to_tc'')]),
        assert_eq (var ''status'') (num SAI_STATUS_SUCCESS),
        assign ''attr'' (api_get ''port'' (var ''port'') [(''qos_dot1p_to_tc_map'', bool True)]),
        assert_eq (item (var ''attr'') (str ''qos_dot1p_to_tc_map'')) (var ''dot1p_to_tc''),
        assign ''status'' (api_set ''port'' (var ''port'') [(''qos_dot1p_to_color_map'', var ''dot1p_color'')]),
        assert_eq (var ''status'') (num SAI_STATUS_SUCCESS),
        assign ''attr'' (api_get ''port'' (var ''port'') [(''qos_dot1p_to_color_map'', bool True)]),
        assert_eq (item (var ''attr'') (str ''qos_dot1p_to_color_map'')) (var ''dot1p_color''),
        assign ''status'' (api_set ''port'' (var ''port'') [(''qos_tc_and_color_to_dot1p_map'', var ''tc_color_to_pcp'')]),
        assert_eq (var ''status'') (num SAI_STATUS_SUCCESS),
        assign ''attr'' (api_get ''port'' (var ''port'') [(''qos_tc_and_color_to_dot1p_map'', bool True)]),
        assert_eq (item (var ''attr'') (str ''qos_tc_and_color_to_dot1p_map'')) (var ''tc_color_to_pcp'')],
      for_in [''test''] (var ''test_cases'') [
        assign ''ingress_port'' (item (var ''test'') (str ''ingress_port'')),
        if_else (no (is_none (item (var ''test'') (str ''pcp'')))) [
          assign ''vlan'' (num 1),
          assign ''ingress_pcp'' (as_str (item (var ''test'') (str ''pcp'')))] [
          assign ''vlan'' (num 0),
          assign ''ingress_pcp'' (str ''None'')],
        assign ''p0_egress_pcp'' (item (var ''test'') (str ''p0_pcp'')),
        assign ''p1_egress_pcp'' (item (var ''test'') (str ''p1_pcp'')),
        assign ''p2_egress_pcp'' (item (var ''test'') (str ''p2_pcp'')),
        assign ''p3_egress_pcp'' (item (var ''test'') (str ''p3_pcp'')),
        assign ''pkt'' (lib ''simple_tcp_packet'' [] [(''eth_dst'', str ''00:33:33:33:33:00''), (''eth_src'', str
          ''00:33:33:33:33:11''), (''dl_vlan_enable'', bool True), (''vlan_vid'', var ''vlan''), (''vlan_pcp'', item (var
          ''test'') (str ''pcp'')), (''pktlen'', num 104)]),
        assign ''p0_exp_pkt'' (lib ''simple_tcp_packet'' [] [(''eth_dst'', str ''00:33:33:33:33:00''), (''eth_src'', str
          ''00:33:33:33:33:11''), (''dl_vlan_enable'', bool True), (''vlan_vid'', num 1), (''vlan_pcp'', var ''p0_egress_pcp''),
          (''pktlen'', num 104)]),
        assign ''p1_exp_pkt'' (lib ''simple_tcp_packet'' [] [(''eth_dst'', str ''00:33:33:33:33:00''), (''eth_src'', str
          ''00:33:33:33:33:11''), (''dl_vlan_enable'', bool True), (''vlan_vid'', num 1), (''vlan_pcp'', var ''p1_egress_pcp''),
          (''pktlen'', num 104)]),
        assign ''p2_exp_pkt'' (lib ''simple_tcp_packet'' [] [(''eth_dst'', str ''00:33:33:33:33:00''), (''eth_src'', str
          ''00:33:33:33:33:11''), (''dl_vlan_enable'', bool True), (''vlan_vid'', num 1), (''vlan_pcp'', var ''p2_egress_pcp''),
          (''pktlen'', num 104)]),
        assign ''p3_exp_pkt'' (lib ''simple_tcp_packet'' [] [(''eth_dst'', str ''00:33:33:33:33:00''), (''eth_src'', str
          ''00:33:33:33:33:11''), (''dl_vlan_enable'', bool True), (''vlan_vid'', num 1), (''vlan_pcp'', var ''p3_egress_pcp''),
          (''pktlen'', num 104)]),
        assign ''egres_ports'' (list_of []),
        assign ''flood_port_list'' (list_of []),
        assign ''flood_pkt_list'' (list_of []),
        assign ''pkt_list'' (list_of [var ''p0_exp_pkt'', var ''p1_exp_pkt'', var ''p2_exp_pkt'', var ''p3_exp_pkt'']),
        assign ''egress_pcp_list'' (list_of [var ''p0_egress_pcp'', var ''p1_egress_pcp'', var ''p2_egress_pcp'', var
          ''p3_egress_pcp'']),
        assign ''egress_pcp'' (list_of []),
        for_in [''i'', ''port''] (enumerated (self ''dev_test_port_list'')) [
          if_else (eq (var ''port'') (var ''ingress_port'')) [
            continue] [],
          assign ''flood_port_list'' (appended (var ''flood_port_list'') (list_of [var ''port''])),
          assign ''flood_pkt_list'' (appended (var ''flood_pkt_list'') (item (var ''pkt_list'') (var ''i''))),
          assign ''egres_ports'' (appended (var ''egres_ports'') (var ''port'')),
          assign ''egress_pcp'' (appended (var ''egress_pcp'') (item (var ''egress_pcp_list'') (var ''i'')))],
        print [var ''ingress_port'', var ''ingress_pcp'', item (var ''egres_ports'') (num 0), item (var ''egress_pcp'') (num 0)],
        print [item (var ''egres_ports'') (num 1), item (var ''egress_pcp'') (num 1)],
        print [item (var ''egres_ports'') (num 2), item (var ''egress_pcp'') (num 2)],
        run (lib ''send_packet'' [var ''ingress_port'', var ''pkt''] []),
        run (lib ''verify_each_packet_on_multiple_port_lists'' [var ''flood_pkt_list'', var ''flood_port_list''] [])]]"

definition L2QosMapPcpToColorTest_runTest :: "'d stmt" where
  "L2QosMapPcpToColorTest_runTest = block [
      run (invoke [] L2QosMapPcpToColorTest_l2QosMapPCPToColorDefaultMappingTest),
      run (invoke [] L2QosMapPcpToColorTest_l2QosMapMultiPCPToOneColorMappingTest),
      run (invoke [] L2QosMapPcpToColorTest_l2QosMapSamePCPToColorMultiIngresssPortTest),
      run (invoke [] L2QosMapPcpToColorTest_l2QosMapDifferentPCPToColorMultiIngresssPortTest)]"

definition L2QosMapPcpToColorTest_tearDown :: "'d stmt" where
  "L2QosMapPcpToColorTest_tearDown = block [
      for_in [''port''] (list_of [self ''port0'', self ''port1'', self ''port2'', self ''port3'']) [
        run (api_set ''port'' (var ''port'') [(''qos_default_tc'', num 0)]),
        run (api_set ''port'' (var ''port'') [(''qos_tc_to_queue_map'', num 0)]),
        run (api_set ''port'' (var ''port'') [(''qos_tc_and_color_to_dot1p_map'', num 0)]),
        run (api_set ''port'' (var ''port'') [(''qos_dot1p_to_color_map'', num 0)]),
        run (api_set ''port'' (var ''port'') [(''qos_dot1p_to_tc_map'', num 0)])],
      run (api_remove ''qos_map'' (self ''qos_dot1p_to_tc_map_id'')),
      run (api_remove ''qos_map'' (self ''qos_dot1p_to_color_map_id'')),
      run (api_remove ''qos_map'' (self ''p1_qos_tc_color_to_dot1q_id'')),
      run (api_remove ''qos_map'' (self ''p2_qos_tc_color_to_dot1q_id'')),
      run (api_remove ''qos_map'' (self ''p3_qos_tc_color_to_dot1q_id'')),
      run (api_remove ''qos_map'' (self ''p1_qos_dot1p_to_color_map_id'')),
      run (api_remove ''qos_map'' (self ''p2_qos_dot1p_to_color_map_id'')),
      run (api_remove ''qos_map'' (self ''p3_qos_dot1p_to_color_map_id'')),
      run (invoke [] L2QosMapBaseClass_tearDown)]"

definition L2QosMapPcpToTcTest_setUp :: "'d stmt" where
  "L2QosMapPcpToTcTest_setUp = block [
      run (invoke [] L2QosMapBaseClass_setUp)]"

definition L2QosMapPcpToTcTest_l2QosMapPCPToTcDefaultMappingTest :: "'d stmt" where
  "L2QosMapPcpToTcTest_l2QosMapPCPToTcDefaultMappingTest = block [
      assign ''test_cases'' (list_of []),
      assign ''test_cases'' (appended (var ''test_cases'') (dict_of [(str ''pcp'', num 0), (str ''port_default_tc'', num 0),
        (str ''queue'', num 0), (str ''color'', num 0)])),
      assign ''test_cases'' (appended (var ''test_cases'') (dict_of [(str ''pcp'', num 1), (str ''port_default_tc'', num 5),
        (str ''queue'', num 5), (str ''color'', num 0)])),
      assign ''test_cases'' (appended (var ''test_cases'') (dict_of [(str ''pcp'', num 2), (str ''port_default_tc'', num 0),
        (str ''queue'', num 0), (str ''color'', num 0)])),
      assign ''test_cases'' (appended (var ''test_cases'') (dict_of [(str ''pcp'', num 3), (str ''port_default_tc'', num 0),
        (str ''queue'', num 0), (str ''color'', num 0)])),
      assign ''test_cases'' (appended (var ''test_cases'') (dict_of [(str ''pcp'', num 4), (str ''port_default_tc'', num 0),
        (str ''queue'', num 0), (str ''color'', num 0)])),
      assign ''test_cases'' (appended (var ''test_cases'') (dict_of [(str ''pcp'', num 5), (str ''port_default_tc'', num 0),
        (str ''queue'', num 0), (str ''color'', num 0)])),
      assign ''test_cases'' (appended (var ''test_cases'') (dict_of [(str ''pcp'', num 6), (str ''port_default_tc'', num 0),
        (str ''queue'', num 0), (str ''color'', num 0)])),
      assign ''test_cases'' (appended (var ''test_cases'') (dict_of [(str ''pcp'', num 7), (str ''port_default_tc'', num 0),
        (str ''queue'', num 0), (str ''color'', num 0)])),
      assign ''test_cases'' (appended (var ''test_cases'') (dict_of [(str ''pcp'', num 0), (str ''port_default_tc'', num 1),
        (str ''queue'', num 1), (str ''color'', num 0)])),
      assign ''test_cases'' (appended (var ''test_cases'') (dict_of [(str ''pcp'', num 1), (str ''port_default_tc'', num 2),
        (str ''queue'', num 2), (str ''color'', num 0)])),
      assign ''test_cases'' (appended (var ''test_cases'') (dict_of [(str ''pcp'', num 2), (str ''port_default_tc'', num 3),
        (str ''queue'', num 3), (str ''color'', num 0)])),
      assign ''test_cases'' (appended (var ''test_cases'') (dict_of [(str ''pcp'', num 3), (str ''port_default_tc'', num 4),
        (str ''queue'', num 4), (str ''color'', num 0)])),
      assign ''test_cases'' (appended (var ''test_cases'') (dict_of [(str ''pcp'', num 4), (str ''port_default_tc'', num 5),
        (str ''queue'', num 5), (str ''color'', num 0)])),
      assign ''test_cases'' (appended (var ''test_cases'') (dict_of [(str ''pcp'', num 5), (str ''port_default_tc'', num 6),
        (str ''queue'', num 6), (str ''color'', num 0)])),
      assign ''test_cases'' (appended (var ''test_cases'') (dict_of [(str ''pcp'', num 6), (str ''port_default_tc'', num 7),
        (str ''queue'', num 7), (str ''color'', num 0)])),
      assign ''test_cases'' (appended (var ''test_cases'') (dict_of [(str ''pcp'', num 7), (str ''port_default_tc'', num 0),
        (str ''queue'', num 0), (str ''color'', num 0)])),
      assign ''test_cases'' (appended (var ''test_cases'') (dict_of [(str ''pcp'', num 0), (str ''port_default_tc'', none), (str
        ''queue'', num 5), (str ''color'', num 0)])),
      assign ''test_cases'' (appended (var ''test_cases'') (dict_of [(str ''pcp'', num 1), (str ''port_default_tc'', none), (str
        ''queue'', num 5), (str ''color'', num 0)])),
      assign ''test_cases'' (appended (var ''test_cases'') (dict_of [(str ''pcp'', num 2), (str ''port_default_tc'', none), (str
        ''queue'', num 5), (str ''color'', num 0)])),
      assign ''test_cases'' (appended (var ''test_cases'') (dict_of [(str ''pcp'', num 3), (str ''port_default_tc'', none), (str
        ''queue'', num 5), (str ''color'', num 0)])),
      assign ''test_cases'' (appended (var ''test_cases'') (dict_of [(str ''pcp'', num 4), (str ''port_default_tc'', none), (str
        ''queue'', num 5), (str ''color'', num 0)])),
      assign ''test_cases'' (appended (var ''test_cases'') (dict_of [(str ''pcp'', num 5), (str ''port_default_tc'', none), (str
        ''queue'', num 5), (str ''color'', num 0)])),
      assign ''test_cases'' (appended (var ''test_cases'') (dict_of [(str ''pcp'', num 6), (str ''port_default_tc'', none), (str
        ''queue'', num 5), (str ''color'', num 0)])),
      assign ''test_cases'' (appended (var ''test_cases'') (dict_of [(str ''pcp'', num 7), (str ''port_default_tc'', none), (str
        ''queue'', num 5), (str ''color'', num 0)])),
      try_finally [
        assign ''ingress_tc_list'' (list_of [num 0, num 1, num 2, num 3, num 4, num 5, num 6, num 7]),
        assign ''ingress_queue_list'' (list_of [num 0, num 1, num 2, num 3, num 4, num 5, num 6, num 7]),
        assign ''qos_tc_to_queue_map_id'' (invoke [(''map_type'', num SAI_QOS_MAP_TYPE_TC_TO_QUEUE), (''key_list'', var
          ''ingress_tc_list''), (''data_list'', var ''ingress_queue_list''), (''verify'', bool True)] create_and_verify_qos_map),
        assert (ne (var ''qos_tc_to_queue_map_id'') (num 0)),
        for_in [''port'', ''tc_to_queue''] (list_of [list_of [self ''port0'', var ''qos_tc_to_queue_map_id''], list_of [self
          ''port1'', var ''qos_tc_to_queue_map_id''], list_of [self ''port2'', var ''qos_tc_to_queue_map_id''], list_of [self
          ''port3'', var ''qos_tc_to_queue_map_id'']]) [
          assign ''status'' (api_set ''port'' (var ''port'') [(''qos_tc_to_queue_map'', var ''tc_to_queue'')]),
          assert_eq (var ''status'') (num SAI_STATUS_SUCCESS),
          assign ''attr'' (api_get ''port'' (var ''port'') [(''qos_tc_to_queue_map'', bool True)]),
          assert_eq (item (var ''attr'') (str ''qos_tc_to_queue_map'')) (var ''tc_to_queue'')],
        for_in [''port''] (list_of [self ''port0'', self ''port1'', self ''port2'', self ''port3'']) [
          assign ''attr'' (api_get ''port'' (var ''port'') [(''qos_dot1p_to_tc_map'', bool True), (''qos_default_tc'', bool
            True)]),
          assert_eq (item (var ''attr'') (str ''qos_dot1p_to_tc_map'')) (num 0),
          assert_eq (item (var ''attr'') (str ''qos_default_tc'')) (num 0)],
        for_in [''test''] (var ''test_cases'') [
          assign ''queue'' (item (var ''test'') (str ''queue'')),
          if_else (no (is_none (item (var ''test'') (str ''port_default_tc'')))) [
            assign ''port_default_tc'' (item (var ''test'') (str ''port_default_tc'')),
            assign ''port_config'' (list_of [list_of [self ''port0'', var ''port_default_tc''], list_of [self ''port1'', var
              ''port_default_tc''], list_of [self ''port2'', var ''port_default_tc''], list_of [self ''port3'', var
              ''port_default_tc'']])] [
            assign ''port_config'' (list_of [list_of [self ''port0'', num 5], list_of [self ''port1'', num 1], list_of [self
              ''port2'', num 2], list_of [self ''port3'', num 3]])],
          for_in [''port'', ''port_default_tc''] (var ''port_config'') [
            run (api_set ''port'' (var ''port'') [(''qos_default_tc'', var ''port_default_tc'')]),
            assign ''attr'' (api_get ''port'' (var ''port'') [(''qos_default_tc'', bool True)]),
            assert_eq (item (var ''attr'') (str ''qos_default_tc'')) (var ''port_default_tc'')],
          assign ''p1_initial_q_cnt'' (invoke [(''port'', self ''port1''), (''index'', var ''queue''), (''qstats'', list_of [str
            ''SAI_QUEUE_STAT_PACKETS''])] L2QosMapBaseClass_getPortQueueIndexStats),
          assign ''p2_initial_q_cnt'' (invoke [(''port'', self ''port2''), (''index'', var ''queue''), (''qstats'', list_of [str
            ''SAI_QUEUE_STAT_PACKETS''])] L2QosMapBaseClass_getPortQueueIndexStats),
          assign ''p3_initial_q_cnt'' (invoke [(''port'', self ''port3''), (''index'', var ''queue''), (''qstats'', list_of [str
            ''SAI_QUEUE_STAT_PACKETS''])] L2QosMapBaseClass_getPortQueueIndexStats),
          if_else (no (is_none (item (var ''test'') (str ''port_default_tc'')))) [
            assign ''port_default_tc'' (as_str (item (var ''test'') (str ''port_default_tc'')))] [
            assign ''port_default_tc'' (as_str (num 1))],
          assign ''ingress_pcp'' (as_str (item (var ''test'') (str ''pcp''))),
          print [self ''dev_port0'', var ''port_default_tc'', var ''ingress_pcp'', self ''dev_port1'', var ''queue''],
          print [self ''dev_port2'', var ''queue''],
          print [self ''dev_port3'', var ''queue''],
          assign ''ingress_pcp'' (item (var ''test'') (str ''pcp'')),
          assign ''pkt'' (lib ''simple_eth_raw_packet_with_taglist'' [] [(''pktlen'', num 104), (''eth_dst'', str
            ''00:33:33:33:33:00''), (''eth_src'', str ''00:33:33:33:33:11''), (''dl_taglist_enable'', bool True),
            (''dl_vlan_pcp_list'', list_of [var ''ingress_pcp'']), (''dl_vlanid_list'', list_of [num 1])]),
          assign ''p1_exp_pkt'' (lib ''simple_eth_raw_packet_with_taglist'' [] [(''pktlen'', num 104), (''eth_dst'', str
            ''00:33:33:33:33:00''), (''eth_src'', str ''00:33:33:33:33:11''), (''dl_taglist_enable'', bool True),
            (''dl_vlan_pcp_list'', list_of [num 1]), (''dl_vlanid_list'', list_of [num 1])]),
          assign ''p2_exp_pkt'' (lib ''simple_eth_raw_packet_with_taglist'' [] [(''pktlen'', num 104), (''eth_dst'', str
            ''00:33:33:33:33:00''), (''eth_src'', str ''00:33:33:33:33:11''), (''dl_taglist_enable'', bool True),
            (''dl_vlan_pcp_list'', list_of [num 1]), (''dl_vlanid_list'', list_of [num 1])]),
          assign ''p3_exp_pkt'' (lib ''simple_eth_raw_packet_with_taglist'' [] [(''pktlen'', num 104), (''eth_dst'', str
            ''00:33:33:33:33:00''), (''eth_src'', str ''00:33:33:33:33:11''), (''dl_taglist_enable'', bool True),
            (''dl_vlan_pcp_list'', list_of [num 3]), (''dl_vlanid_list'', list_of [num 1])]),
          assign ''test_port'' (self ''dev_port0''),
          assign ''flood_port_list'' (list_of [list_of [self ''dev_port1''], list_of [self ''dev_port2''], list_of [self
            ''dev_port3'']]),
          assign ''flood_pkt_list'' (list_of [var ''pkt'', var ''pkt'', var ''pkt'']),
          run (lib ''send_packet'' [var ''test_port'', var ''pkt''] []),
          run (lib ''verify_each_packet_on_multiple_port_lists'' [var ''flood_pkt_list'', var ''flood_port_list''] []),
          assign ''p1_post_q_cnt'' (invoke [(''port'', self ''port1''), (''index'', var ''queue''), (''qstats'', list_of [str
            ''SAI_QUEUE_STAT_PACKETS''])] L2QosMapBaseClass_getPortQueueIndexStats),
          assign ''p2_post_q_cnt'' (invoke [(''port'', self ''port2''), (''index'', var ''queue''), (''qstats'', list_of [str
            ''SAI_QUEUE_STAT_PACKETS''])] L2QosMapBaseClass_getPortQueueIndexStats),
          assign ''p3_post_q_cnt'' (invoke [(''port'', self ''port3''), (''index'', var ''queue''), (''qstats'', list_of [str
            ''SAI_QUEUE_STAT_PACKETS''])] L2QosMapBaseClass_getPortQueueIndexStats),
          assert_eq (add (var ''p1_initial_q_cnt'') (num 1)) (explained (var ''p1_post_q_cnt'') [var ''queue'', var
            ''p1_initial_q_cnt'', var ''p1_post_q_cnt'']),
          assert_eq (add (var ''p2_initial_q_cnt'') (num 1)) (explained (var ''p2_post_q_cnt'') [var ''queue'', var
            ''p2_initial_q_cnt'', var ''p2_post_q_cnt'']),
          assert_eq (add (var ''p3_initial_q_cnt'') (num 1)) (explained (var ''p3_post_q_cnt'') [var ''queue'', var
            ''p3_initial_q_cnt'', var ''p3_post_q_cnt''])]] [
        for_in [''port''] (list_of [self ''port0'', self ''port1'', self ''port2'', self ''port3'']) [
          run (api_set ''port'' (var ''port'') [(''qos_tc_to_queue_map'', num 0)]),
          run (api_set ''port'' (var ''port'') [(''qos_default_tc'', num 0)])],
        run (api_remove ''qos_map'' (var ''qos_tc_to_queue_map_id''))]]"

definition L2QosMapPcpToTcTest_l2QosMapMultiplePCPToOneTcMappingTest :: "'d stmt" where
  "L2QosMapPcpToTcTest_l2QosMapMultiplePCPToOneTcMappingTest = block [
      assign ''test_cases'' (list_of []),
      assign ''test_cases'' (appended (var ''test_cases'') (dict_of [(str ''pcp'', num 0), (str ''port_default_tc'', num 0),
        (str ''p1_queue'', num 3), (str ''p2_queue'', num 3), (str ''p3_queue'', num 3)])),
      assign ''test_cases'' (appended (var ''test_cases'') (dict_of [(str ''pcp'', num 1), (str ''port_default_tc'', num 0),
        (str ''p1_queue'', num 3), (str ''p2_queue'', num 3), (str ''p3_queue'', num 3)])),
      assign ''test_cases'' (appended (var ''test_cases'') (dict_of [(str ''pcp'', num 2), (str ''port_default_tc'', num 0),
        (str ''p1_queue'', num 3), (str ''p2_queue'', num 3), (str ''p3_queue'', num 3)])),
      assign ''test_cases'' (appended (var ''test_cases'') (dict_of [(str ''pcp'', num 3), (str ''port_default_tc'', num 0),
        (str ''p1_queue'', num 3), (str ''p2_queue'', num 3), (str ''p3_queue'', num 3)])),
      assign ''test_cases'' (appended (var ''test_cases'') (dict_of [(str ''pcp'', num 4), (str ''port_default_tc'', num 0),
        (str ''p1_queue'', num 7), (str ''p2_queue'', num 7), (str ''p3_queue'', num 7)])),
      assign ''test_cases'' (appended (var ''test_cases'') (dict_of [(str ''pcp'', num 5), (str ''port_default_tc'', num 0),
        (str ''p1_queue'', num 7), (str ''p2_queue'', num 7), (str ''p3_queue'', num 7)])),
      assign ''test_cases'' (appended (var ''test_cases'') (dict_of [(str ''pcp'', num 6), (str ''port_default_tc'', num 0),
        (str ''p1_queue'', num 7), (str ''p2_queue'', num 7), (str ''p3_queue'', num 7)])),
      assign ''test_cases'' (appended (var ''test_cases'') (dict_of [(str ''pcp'', num 7), (str ''port_default_tc'', num 0),
        (str ''p1_queue'', num 7), (str ''p2_queue'', num 7), (str ''p3_queue'', num 7)])),
      try_finally [
        assign ''ingress_dot1p_list'' (list_of [num 0, num 1, num 2, num 3, num 4, num 5, num 6, num 7]),
        assign ''ingress_tc_list'' (list_of [num 3, num 3, num 3, num 3, num 7, num 7, num 7, num 7]),
        assign ''qos_dot1p_to_tc_map_id'' (invoke [(''map_type'', num SAI_QOS_MAP_TYPE_DOT1P_TO_TC), (''key_list'', var
          ''ingress_dot1p_list''), (''data_list'', var ''ingress_tc_list''), (''verify'', bool True)] create_and_verify_qos_map),
        assert (ne (var ''qos_dot1p_to_tc_map_id'') (num 0)),
        assign ''ingress_tc_list'' (list_of [num 0, num 1, num 2, num 3, num 4, num 5, num 6, num 7]),
        assign ''ingress_queue_list'' (list_of [num 3, num 3, num 3, num 3, num 7, num 7, num 7, num 7]),
        assign ''qos_tc_to_queue_map_id'' (invoke [(''map_type'', num SAI_QOS_MAP_TYPE_TC_TO_QUEUE), (''key_list'', var
          ''ingress_tc_list''), (''data_list'', var ''ingress_queue_list''), (''verify'', bool True)] create_and_verify_qos_map),
        assert (ne (var ''qos_tc_to_queue_map_id'') (num 0)),
        for_in [''port'', ''dot1p_to_tc''] (list_of [list_of [self ''port0'', var ''qos_dot1p_to_tc_map_id'']]) [
          assign ''status'' (api_set ''port'' (var ''port'') [(''qos_dot1p_to_tc_map'', var ''dot1p_to_tc'')]),
          assert_eq (var ''status'') (num SAI_STATUS_SUCCESS),
          assign ''attr'' (api_get ''port'' (var ''port'') [(''qos_dot1p_to_tc_map'', bool True)]),
          assert_eq (item (var ''attr'') (str ''qos_dot1p_to_tc_map'')) (var ''dot1p_to_tc'')],
        for_in [''port'', ''tc_to_queue''] (list_of [list_of [self ''port1'', var ''qos_tc_to_queue_map_id''], list_of [self
          ''port2'', var ''qos_tc_to_queue_map_id''], list_of [self ''port3'', var ''qos_tc_to_queue_map_id'']]) [
          assign ''status'' (api_set ''port'' (var ''port'') [(''qos_tc_to_queue_map'', var ''tc_to_queue'')]),
          assert_eq (var ''status'') (num SAI_STATUS_SUCCESS),
          assign ''attr'' (api_get ''port'' (var ''port'') [(''qos_tc_to_queue_map'', bool True)]),
          assert_eq (item (var ''attr'') (str ''qos_tc_to_queue_map'')) (var ''tc_to_queue'')],
        for_in [''port''] (list_of [self ''port0'', self ''port1'', self ''port2'', self ''port3'']) [
          assign ''attr'' (api_get ''port'' (var ''port'') [(''qos_dscp_to_tc_map'', bool True), (''qos_default_tc'', bool
            True)]),
          assert_eq (item (var ''attr'') (str ''qos_dscp_to_tc_map'')) (num 0),
          assert_eq (item (var ''attr'') (str ''qos_default_tc'')) (num 0)],
        for_in [''test''] (var ''test_cases'') [
          assign ''pcp'' (item (var ''test'') (str ''pcp'')),
          assign ''port_default_tc'' (num 0),
          if_else (no (is_none (item (var ''test'') (str ''port_default_tc'')))) [
            assign ''port_default_tc'' (item (var ''test'') (str ''port_default_tc''))] [],
          for_in [''port''] (list_of [self ''port0'']) [
            run (api_set ''port'' (var ''port'') [(''qos_default_tc'', var ''port_default_tc'')]),
            assign ''attr'' (api_get ''port'' (var ''port'') [(''qos_default_tc'', bool True)]),
            assert_eq (item (var ''attr'') (str ''qos_default_tc'')) (var ''port_default_tc'')],
          assign ''p1_initial_q_cnt'' (invoke [(''port'', self ''port1''), (''index'', item (var ''test'') (str ''p1_queue'')),
            (''qstats'', list_of [str ''SAI_QUEUE_STAT_PACKETS''])] L2QosMapBaseClass_getPortQueueIndexStats),
          assign ''p2_initial_q_cnt'' (invoke [(''port'', self ''port2''), (''index'', item (var ''test'') (str ''p2_queue'')),
            (''qstats'', list_of [str ''SAI_QUEUE_STAT_PACKETS''])] L2QosMapBaseClass_getPortQueueIndexStats),
          assign ''p3_initial_q_cnt'' (invoke [(''port'', self ''port3''), (''index'', item (var ''test'') (str ''p3_queue'')),
            (''qstats'', list_of [str ''SAI_QUEUE_STAT_PACKETS''])] L2QosMapBaseClass_getPortQueueIndexStats),
          print [self ''dev_port0'', var ''pcp'', self ''dev_port1'', item (var ''test'') (str ''port_default_tc''), item (var
            ''test'') (str ''p1_queue'')],
          assign ''pkt'' (lib ''simple_eth_raw_packet_with_taglist'' [] [(''pktlen'', num 104), (''eth_dst'', str
            ''00:33:33:33:33:00''), (''eth_src'', str ''00:33:33:33:33:11''), (''dl_taglist_enable'', bool True),
            (''dl_vlan_pcp_list'', list_of [var ''pcp'']), (''dl_vlanid_list'', list_of [num 1])]),
          assign ''test_port'' (self ''dev_port0''),
          assign ''flood_port_list'' (list_of [list_of [self ''dev_port1''], list_of [self ''dev_port2''], list_of [self
            ''dev_port3'']]),
          assign ''flood_pkt_list'' (list_of [var ''pkt'', var ''pkt'', var ''pkt'']),
          run (lib ''send_packet'' [var ''test_port'', var ''pkt''] []),
          run (lib ''verify_each_packet_on_multiple_port_lists'' [var ''flood_pkt_list'', var ''flood_port_list''] []),
          assign ''p1_post_q_cnt'' (invoke [(''port'', self ''port1''), (''index'', item (var ''test'') (str ''p1_queue'')),
            (''qstats'', list_of [str ''SAI_QUEUE_STAT_PACKETS''])] L2QosMapBaseClass_getPortQueueIndexStats),
          assign ''p2_post_q_cnt'' (invoke [(''port'', self ''port2''), (''index'', item (var ''test'') (str ''p2_queue'')),
            (''qstats'', list_of [str ''SAI_QUEUE_STAT_PACKETS''])] L2QosMapBaseClass_getPortQueueIndexStats),
          assign ''p3_post_q_cnt'' (invoke [(''port'', self ''port3''), (''index'', item (var ''test'') (str ''p3_queue'')),
            (''qstats'', list_of [str ''SAI_QUEUE_STAT_PACKETS''])] L2QosMapBaseClass_getPortQueueIndexStats),
          assert_eq (add (var ''p1_initial_q_cnt'') (num 1)) (explained (var ''p1_post_q_cnt'') [item (var ''test'') (str
            ''p1_queue''), var ''p1_initial_q_cnt'', var ''p1_post_q_cnt'']),
          assert_eq (add (var ''p2_initial_q_cnt'') (num 1)) (explained (var ''p2_post_q_cnt'') [item (var ''test'') (str
            ''p2_queue''), var ''p2_initial_q_cnt'', var ''p2_post_q_cnt'']),
          assert_eq (add (var ''p3_initial_q_cnt'') (num 1)) (explained (var ''p3_post_q_cnt'') [item (var ''test'') (str
            ''p3_queue''), var ''p3_initial_q_cnt'', var ''p3_post_q_cnt''])]] [
        for_in [''port''] (list_of [self ''port0'', self ''port1'', self ''port2'', self ''port3'']) [
          run (api_set ''port'' (var ''port'') [(''qos_tc_to_queue_map'', num 0)]),
          run (api_set ''port'' (var ''port'') [(''qos_default_tc'', num 0)]),
          run (api_set ''port'' (var ''port'') [(''qos_dot1p_to_tc_map'', num 0)])],
        run (api_remove ''qos_map'' (var ''qos_tc_to_queue_map_id'')),
        run (api_remove ''qos_map'' (var ''qos_dot1p_to_tc_map_id''))]]"

definition L2QosMapPcpToTcTest_l2QosMapOneToOnePCPToTcMappingTest :: "'d stmt" where
  "L2QosMapPcpToTcTest_l2QosMapOneToOnePCPToTcMappingTest = block [
      assign ''test_cases'' (list_of []),
      assign ''test_cases'' (appended (var ''test_cases'') (dict_of [(str ''pcp'', num 0), (str ''queue'', num 0)])),
      assign ''test_cases'' (appended (var ''test_cases'') (dict_of [(str ''pcp'', num 1), (str ''queue'', num 1)])),
      assign ''test_cases'' (appended (var ''test_cases'') (dict_of [(str ''pcp'', num 2), (str ''queue'', num 2)])),
      assign ''test_cases'' (appended (var ''test_cases'') (dict_of [(str ''pcp'', num 3), (str ''queue'', num 3)])),
      assign ''test_cases'' (appended (var ''test_cases'') (dict_of [(str ''pcp'', num 4), (str ''queue'', num 4)])),
      assign ''test_cases'' (appended (var ''test_cases'') (dict_of [(str ''pcp'', num 5), (str ''queue'', num 5)])),
      assign ''test_cases'' (appended (var ''test_cases'') (dict_of [(str ''pcp'', num 6), (str ''queue'', num 6)])),
      assign ''test_cases'' (appended (var ''test_cases'') (dict_of [(str ''pcp'', num 7), (str ''queue'', num 7)])),
      try_finally [
        assign ''ingress_dot1p_list'' (list_of [num 0, num 1, num 2, num 3, num 4, num 5, num 6, num 7]),
        assign ''ingress_tc_list'' (list_of [num 0, num 1, num 2, num 3, num 4, num 5, num 6, num 7]),
        assign ''qos_dot1p_to_tc_map_id'' (invoke [(''map_type'', num SAI_QOS_MAP_TYPE_DOT1P_TO_TC), (''key_list'', var
          ''ingress_dot1p_list''), (''data_list'', var ''ingress_tc_list''), (''verify'', bool True)] create_and_verify_qos_map),
        assert (ne (var ''qos_dot1p_to_tc_map_id'') (num 0)),
        assign ''ingress_tc_list'' (list_of [num 0, num 1, num 2, num 3, num 4, num 5, num 6, num 7]),
        assign ''ingress_queue_list'' (list_of [num 0, num 1, num 2, num 3, num 4, num 5, num 6, num 7]),
        assign ''qos_tc_to_queue_map_id'' (invoke [(''map_type'', num SAI_QOS_MAP_TYPE_TC_TO_QUEUE), (''key_list'', var
          ''ingress_tc_list''), (''data_list'', var ''ingress_queue_list''), (''verify'', bool True)] create_and_verify_qos_map),
        assert (ne (var ''qos_tc_to_queue_map_id'') (num 0)),
        for_in [''port'', ''dot1p_to_tc''] (list_of [list_of [self ''port0'', var ''qos_dot1p_to_tc_map_id'']]) [
          assign ''status'' (api_set ''port'' (var ''port'') [(''qos_dot1p_to_tc_map'', var ''dot1p_to_tc'')]),
          assert_eq (var ''status'') (num SAI_STATUS_SUCCESS),
          assign ''attr'' (api_get ''port'' (var ''port'') [(''qos_dot1p_to_tc_map'', bool True)]),
          assert_eq (item (var ''attr'') (str ''qos_dot1p_to_tc_map'')) (var ''dot1p_to_tc'')],
        for_in [''port'', ''tc_to_queue''] (list_of [list_of [self ''port1'', var ''qos_tc_to_queue_map_id''], list_of [self
          ''port2'', var ''qos_tc_to_queue_map_id''], list_of [self ''port3'', var ''qos_tc_to_queue_map_id'']]) [
          assign ''status'' (api_set ''port'' (var ''port'') [(''qos_tc_to_queue_map'', var ''tc_to_queue'')]),
          assert_eq (var ''status'') (num SAI_STATUS_SUCCESS),
          assign ''attr'' (api_get ''port'' (var ''port'') [(''qos_tc_to_queue_map'', bool True)]),
          assert_eq (item (var ''attr'') (str ''qos_tc_to_queue_map'')) (var ''tc_to_queue'')],
        for_in [''port''] (list_of [self ''port0'', self ''port1'', self ''port2'', self ''port3'']) [
          assign ''attr'' (api_get ''port'' (var ''port'') [(''qos_dscp_to_tc_map'', bool True), (''qos_default_tc'', bool
            True)]),
          assert_eq (item (var ''attr'') (str ''qos_dscp_to_tc_map'')) (num 0),
          assert_eq (item (var ''attr'') (str ''qos_default_tc'')) (num 0)],
        for_in [''test''] (var ''test_cases'') [
          assign ''pcp'' (item (var ''test'') (str ''pcp'')),
          assign ''queue'' (item (var ''test'') (str ''queue'')),
          assign ''port_default_tc'' (num 0),
          for_in [''port''] (list_of [self ''port0'']) [
            assign ''attr'' (api_get ''port'' (var ''port'') [(''qos_default_tc'', bool True)]),
            assert_eq (item (var ''attr'') (str ''qos_default_tc'')) (var ''port_default_tc'')],
          assign ''p1_initial_q_cnt'' (invoke [(''port'', self ''port1''), (''index'', var ''queue''), (''qstats'', list_of [str
            ''SAI_QUEUE_STAT_PACKETS''])] L2QosMapBaseClass_getPortQueueIndexStats),
          assign ''p2_initial_q_cnt'' (invoke [(''port'', self ''port2''), (''index'', var ''queue''), (''qstats'', list_of [str
            ''SAI_QUEUE_STAT_PACKETS''])] L2QosMapBaseClass_getPortQueueIndexStats),
          assign ''p3_initial_q_cnt'' (invoke [(''port'', self ''port3''), (''index'', var ''queue''), (''qstats'', list_of [str
            ''SAI_QUEUE_STAT_PACKETS''])] L2QosMapBaseClass_getPortQueueIndexStats),
          print [self ''dev_port0'', var ''pcp'', self ''dev_port1'', var ''queue''],
          print [self ''dev_port2'', var ''queue''],
          print [self ''dev_port3'', var ''queue''],
          assign ''pkt'' (lib ''simple_eth_raw_packet_with_taglist'' [] [(''pktlen'', num 104), (''eth_dst'', str
            ''00:33:33:33:33:00''), (''eth_src'', str ''00:33:33:33:33:11''), (''dl_taglist_enable'', bool True),
            (''dl_vlan_pcp_list'', list_of [var ''pcp'']), (''dl_vlanid_list'', list_of [num 1])]),
          assign ''test_port'' (self ''dev_port0''),
          assign ''flood_port_list'' (list_of [list_of [self ''dev_port1''], list_of [self ''dev_port2''], list_of [self
            ''dev_port3'']]),
          assign ''flood_pkt_list'' (list_of [var ''pkt'', var ''pkt'', var ''pkt'']),
          run (lib ''send_packet'' [var ''test_port'', var ''pkt''] []),
          run (lib ''verify_each_packet_on_multiple_port_lists'' [var ''flood_pkt_list'', var ''flood_port_list''] []),
          assign ''p1_post_q_cnt'' (invoke [(''port'', self ''port1''), (''index'', var ''queue''), (''qstats'', list_of [str
            ''SAI_QUEUE_STAT_PACKETS''])] L2QosMapBaseClass_getPortQueueIndexStats),
          assign ''p2_post_q_cnt'' (invoke [(''port'', self ''port2''), (''index'', var ''queue''), (''qstats'', list_of [str
            ''SAI_QUEUE_STAT_PACKETS''])] L2QosMapBaseClass_getPortQueueIndexStats),
          assign ''p3_post_q_cnt'' (invoke [(''port'', self ''port3''), (''index'', var ''queue''), (''qstats'', list_of [str
            ''SAI_QUEUE_STAT_PACKETS''])] L2QosMapBaseClass_getPortQueueIndexStats),
          assert_eq (add (var ''p1_initial_q_cnt'') (num 1)) (explained (var ''p1_post_q_cnt'') [var ''queue'', var
            ''p1_initial_q_cnt'', var ''p1_post_q_cnt'']),
          assert_eq (add (var ''p2_initial_q_cnt'') (num 1)) (explained (var ''p2_post_q_cnt'') [var ''queue'', var
            ''p2_initial_q_cnt'', var ''p2_post_q_cnt'']),
          assert_eq (add (var ''p3_initial_q_cnt'') (num 1)) (explained (var ''p3_post_q_cnt'') [var ''queue'', var
            ''p3_initial_q_cnt'', var ''p3_post_q_cnt''])]] [
        for_in [''port''] (list_of [self ''port0'', self ''port1'', self ''port2'', self ''port3'']) [
          run (api_set ''port'' (var ''port'') [(''qos_tc_to_queue_map'', num 0)]),
          run (api_set ''port'' (var ''port'') [(''qos_default_tc'', num 0)]),
          run (api_set ''port'' (var ''port'') [(''qos_dot1p_to_tc_map'', num 0)])],
        run (api_remove ''qos_map'' (var ''qos_tc_to_queue_map_id'')),
        run (api_remove ''qos_map'' (var ''qos_dot1p_to_tc_map_id''))]]"

definition L2QosMapPcpToTcTest_verifyPortDefaultDscpToTc :: "'d stmt" where
  "L2QosMapPcpToTcTest_verifyPortDefaultDscpToTc = block [
      for_in [''port''] (var ''ports'') [
        assign ''attr'' (api_get ''port'' (var ''port'') [(''qos_dscp_to_tc_map'', bool True), (''qos_default_tc'', bool True)]),
        assert_eq (item (var ''attr'') (str ''qos_dscp_to_tc_map'')) (num 0),
        assert_eq (item (var ''attr'') (str ''qos_default_tc'')) (num 0)]]"

definition L2QosMapPcpToTcTest_tearDown :: "'d stmt" where
  "L2QosMapPcpToTcTest_tearDown = block [
      run (invoke [] L2QosMapBaseClass_tearDown)]"

definition L2QosMapPcpToTcTest_verifyPortQueueCountersSamePcp :: "'d stmt" where
  "L2QosMapPcpToTcTest_verifyPortQueueCountersSamePcp = block [
      assign ''i'' (num 0),
      for_in [''port''] (self ''dev_test_port_list'') [
        if_else (eq (var ''port'') (var ''test_port'')) [
          assert_eq (item (item (var ''cnt_dict'') (str ''init'')) (var ''i'')) (explained (item (item (var ''cnt_dict'') (str
            ''post'')) (var ''i'')) [var ''port'', item (var ''port_queue'') (var ''p_idx''), item (item (var ''cnt_dict'') (str
            ''init'')) (var ''i''), item (item (var ''cnt_dict'') (str ''post'')) (var ''i'')])] [
          assert_eq (add (item (item (var ''cnt_dict'') (str ''init'')) (var ''i'')) (num 1)) (explained (item (item (var
            ''cnt_dict'') (str ''post'')) (var ''i'')) [var ''port'', item (var ''port_queue'') (var ''p_idx''), item (item (var
            ''cnt_dict'') (str ''init'')) (var ''i''), item (item (var ''cnt_dict'') (str ''post'')) (var ''i'')])],
        assign ''i'' (add (var ''i'') (num 1))]]"

definition L2QosMapPcpToTcTest_l2QosMapVariousPcpToTcManyIngressPortsTest :: "'d stmt" where
  "L2QosMapPcpToTcTest_l2QosMapVariousPcpToTcManyIngressPortsTest = block [
      try_finally [
        assign ''p0_qos_dot1p_to_tc_map_id'' (invoke [(''map_type'', num SAI_QOS_MAP_TYPE_DOT1P_TO_TC), (''key_list'', list_of
          [num 0, num 1, num 2, num 3, num 4, num 5, num 6, num 7]), (''data_list'', list_of [num 4, num 5, num 6, num 7, num 0,
          num 1, num 2, num 3]), (''verify'', bool True)] create_and_verify_qos_map),
        assert (ne (var ''p0_qos_dot1p_to_tc_map_id'') (num 0)),
        assign ''p1_qos_dot1p_to_tc_map_id'' (invoke [(''map_type'', num SAI_QOS_MAP_TYPE_DOT1P_TO_TC), (''key_list'', list_of
          [num 0, num 1, num 2, num 3, num 4, num 5, num 6, num 7]), (''data_list'', list_of [num 5, num 6, num 7, num 0, num 1,
          num 2, num 3, num 4]), (''verify'', bool True)] create_and_verify_qos_map),
        assert (ne (var ''p1_qos_dot1p_to_tc_map_id'') (num 0)),
        assign ''p2_qos_dot1p_to_tc_map_id'' (invoke [(''map_type'', num SAI_QOS_MAP_TYPE_DOT1P_TO_TC), (''key_list'', list_of
          [num 0, num 1, num 2, num 3, num 4, num 5, num 6, num 7]), (''data_list'', list_of [num 6, num 7, num 0, num 1, num 2,
          num 3, num 4, num 5]), (''verify'', bool True)] create_and_verify_qos_map),
        assert (ne (var ''p2_qos_dot1p_to_tc_map_id'') (num 0)),
        assign ''p3_qos_dot1p_to_tc_map_id'' (invoke [(''map_type'', num SAI_QOS_MAP_TYPE_DOT1P_TO_TC), (''key_list'', list_of
          [num 0, num 1, num 2, num 3, num 4, num 5, num 6, num 7]), (''data_list'', list_of [num 7, num 0, num 1, num 2, num 3,
          num 4, num 5, num 6]), (''verify'', bool True)] create_and_verify_qos_map),
        assert (ne (var ''p3_qos_dot1p_to_tc_map_id'') (num 0)),
        assign ''qos_tc_to_queue_map_id'' (invoke [(''map_type'', num SAI_QOS_MAP_TYPE_TC_TO_QUEUE), (''key_list'', list_of [num
          0, num 1, num 2, num 3, num 4, num 5, num 6, num 7]), (''data_list'', list_of [num 0, num 1, num 2, num 3, num 4, num
          5, num 6, num 7]), (''verify'', bool True)] create_and_verify_qos_map),
        assert (ne (var ''qos_tc_to_queue_map_id'') (num 0)),
        for_in [''port'', ''dot1p_to_tc''] (list_of [list_of [self ''port0'', var ''p0_qos_dot1p_to_tc_map_id''], list_of [self
          ''port1'', var ''p1_qos_dot1p_to_tc_map_id''], list_of [self ''port2'', var ''p2_qos_dot1p_to_tc_map_id''], list_of
          [self ''port3'', var ''p3_qos_dot1p_to_tc_map_id'']]) [
          assign ''status'' (api_set ''port'' (var ''port'') [(''qos_dot1p_to_tc_map'', var ''dot1p_to_tc'')]),
          assert_eq (var ''status'') (num SAI_STATUS_SUCCESS),
          assign ''attr'' (api_get ''port'' (var ''port'') [(''qos_dot1p_to_tc_map'', bool True)]),
          assert_eq (item (var ''attr'') (str ''qos_dot1p_to_tc_map'')) (var ''dot1p_to_tc'')],
        for_in [''port'', ''tc_to_queue''] (list_of [list_of [self ''port0'', var ''qos_tc_to_queue_map_id''], list_of [self
          ''port1'', var ''qos_tc_to_queue_map_id''], list_of [self ''port2'', var ''qos_tc_to_queue_map_id''], list_of [self
          ''port3'', var ''qos_tc_to_queue_map_id'']]) [
          assign ''status'' (api_set ''port'' (var ''port'') [(''qos_tc_to_queue_map'', var ''tc_to_queue'')]),
          assert_eq (var ''status'') (num SAI_STATUS_SUCCESS),
          assign ''attr'' (api_get ''port'' (var ''port'') [(''qos_tc_to_queue_map'', bool True)]),
          assert_eq (item (var ''attr'') (str ''qos_tc_to_queue_map'')) (var ''tc_to_queue'')],
        assign ''ports'' (list_of [self ''port0'', self ''port1'', self ''port2'', self ''port3'']),
        run (invoke [(''ports'', var ''ports'')] L2QosMapPcpToTcTest_verifyPortDefaultDscpToTc),
        for_in [''p_idx''] (range_of (num 0) (length_of (self ''dev_test_port_list''))) [
          assign ''test_port'' (item (self ''dev_test_port_list'') (var ''p_idx'')),
          print [var ''test_port''],
          for_in [''pcp''] (list_of [num 0, num 1, num 2, num 3, num 4, num 5, num 6, num 7]) [
            assign ''pkt'' (lib ''simple_eth_raw_packet_with_taglist'' [] [(''pktlen'', num 104), (''eth_dst'', str
              ''00:33:33:33:33:00''), (''eth_src'', str ''00:33:33:33:33:11''), (''dl_taglist_enable'', bool True),
              (''dl_vlan_pcp_list'', list_of [var ''pcp'']), (''dl_vlanid_list'', list_of [num 1])]),
            assign ''flood_port_list'' (list_of []),
            assign ''flood_pkt_list'' (list_of []),
            for_in [''port''] (self ''dev_test_port_list'') [
              if_else (eq (var ''port'') (var ''test_port'')) [
                continue] [],
              assign ''flood_port_list'' (appended (var ''flood_port_list'') (list_of [var ''port''])),
              assign ''flood_pkt_list'' (appended (var ''flood_pkt_list'') (var ''pkt''))],
            assign ''port_queue'' (list_of []),
            for_in [''port''] (range_of (num 0) (length_of (self ''dev_test_port_list''))) [
              assign ''queue_index'' (modulo (add (add (var ''pcp'') (var ''port'')) (num 4)) (num 8)),
              assign ''port_queue'' (appended (var ''port_queue'') (var ''queue_index''))],
            assign ''init_q_cnt'' (list_of []),
            for_in [''port''] (list_of [self ''port0'', self ''port1'', self ''port2'', self ''port3'']) [
              assign ''queue'' (item (var ''port_queue'') (var ''p_idx'')),
              assign ''init_q_cnt'' (appended (var ''init_q_cnt'') (invoke [(''port'', var ''port''), (''index'', var
                ''queue''), (''qstats'', list_of [str ''SAI_QUEUE_STAT_PACKETS''])] L2QosMapBaseClass_getPortQueueIndexStats))],
            print [var ''test_port'', var ''pcp'', item (item (var ''flood_port_list'') (num 0)) (num 0), item (var
              ''port_queue'') (var ''p_idx'')],
            print [item (item (var ''flood_port_list'') (num 1)) (num 0), item (var ''port_queue'') (var ''p_idx'')],
            print [item (item (var ''flood_port_list'') (num 2)) (num 0), item (var ''port_queue'') (var ''p_idx'')],
            run (lib ''send_packet'' [var ''test_port'', var ''pkt''] []),
            run (lib ''verify_each_packet_on_multiple_port_lists'' [var ''flood_pkt_list'', var ''flood_port_list''] []),
            print [var ''flood_port_list''],
            assign ''post_q_cnt'' (list_of []),
            for_in [''port''] (list_of [self ''port0'', self ''port1'', self ''port2'', self ''port3'']) [
              assign ''post_q_cnt'' (appended (var ''post_q_cnt'') (invoke [(''port'', var ''port''), (''index'', item (var
                ''port_queue'') (var ''p_idx'')), (''qstats'', list_of [str ''SAI_QUEUE_STAT_PACKETS''])]
                L2QosMapBaseClass_getPortQueueIndexStats))],
            assign ''cnt_dict'' (dict_of [(str ''init'', var ''init_q_cnt''), (str ''post'', var ''post_q_cnt'')]),
            run (invoke [(''test_port'', var ''test_port''), (''p_idx'', var ''p_idx''), (''cnt_dict'', var ''cnt_dict''),
              (''port_queue'', var ''port_queue'')] L2QosMapPcpToTcTest_verifyPortQueueCountersSamePcp)]]] [
        for_in [''port''] (list_of [self ''port0'', self ''port1'', self ''port2'', self ''port3'']) [
          run (api_set ''port'' (var ''port'') [(''qos_tc_to_queue_map'', num 0)]),
          run (api_set ''port'' (var ''port'') [(''qos_default_tc'', num 0)]),
          run (api_set ''port'' (var ''port'') [(''qos_dot1p_to_tc_map'', num 0)])],
        run (api_remove ''qos_map'' (var ''p0_qos_dot1p_to_tc_map_id'')),
        run (api_remove ''qos_map'' (var ''p1_qos_dot1p_to_tc_map_id'')),
        run (api_remove ''qos_map'' (var ''p2_qos_dot1p_to_tc_map_id'')),
        run (api_remove ''qos_map'' (var ''p3_qos_dot1p_to_tc_map_id'')),
        run (api_remove ''qos_map'' (var ''qos_tc_to_queue_map_id''))]]"

definition L2QosMapPcpToTcTest_verifyPortQueueCountersVariousPcp :: "'d stmt" where
  "L2QosMapPcpToTcTest_verifyPortQueueCountersVariousPcp = block [
      assign ''i'' (num 0),
      for_in [''port''] (self ''dev_test_port_list'') [
        if_else (eq (var ''port'') (var ''test_port'')) [
          assert_eq (item (var ''init_q_cnt'') (var ''i'')) (explained (item (var ''post_q_cnt'') (var ''i'')) [var ''port'',
            item (var ''test'') (str ''p1_queue''), item (var ''init_q_cnt'') (var ''i''), item (var ''post_q_cnt'') (var
            ''i'')])] [
          assert_eq (add (item (var ''init_q_cnt'') (var ''i'')) (num 1)) (explained (item (var ''post_q_cnt'') (var ''i''))
            [var ''port'', item (var ''test'') (str ''p1_queue''), item (var ''init_q_cnt'') (var ''i''), item (var
            ''post_q_cnt'') (var ''i'')])],
        assign ''i'' (add (var ''i'') (num 1))]]"

definition QosMapCreateModifyTest_setUp :: "'d stmt" where
  "QosMapCreateModifyTest_setUp = block [
      run (invoke [] L2QosMapBaseClass_setUp)]"

definition QosMapCreateModifyTest_qosMapTcToQueueModifyTest :: "'d stmt" where
  "QosMapCreateModifyTest_qosMapTcToQueueModifyTest = block [
      try_finally [
        assign ''ingress_tc_list'' (list_of [num 0, num 1, num 2, num 3, num 4, num 5, num 6, num 7]),
        assign ''ingress_queue_list'' (list_of [num 0, num 1, num 2, num 3, num 4, num 5, num 6, num 7]),
        assign ''qos_tc_to_queue_map_id'' (invoke [(''map_type'', num SAI_QOS_MAP_TYPE_TC_TO_QUEUE), (''key_list'', var
          ''ingress_tc_list''), (''data_list'', var ''ingress_queue_list''), (''verify'', bool True)] create_and_verify_qos_map),
        assert (ne (var ''qos_tc_to_queue_map_id'') (num 0)),
        assign ''test_cases'' (list_of []),
        assign ''test_cases'' (appended (var ''test_cases'') (dict_of [(str ''tc'', list_of [num 0, num 1, num 2, num 4, num
          5]), (str ''queue'', list_of [num 0, num 1, num 2, num 4, num 5])])),
        assign ''test_cases'' (appended (var ''test_cases'') (dict_of [(str ''tc'', list_of [num 0, num 1, num 2, num 4, num
          5]), (str ''queue'', list_of [num 0, num 0, num 0, num 0, num 0])])),
        assign ''test_cases'' (appended (var ''test_cases'') (dict_of [(str ''tc'', list_of [num 0, num 1, num 2, num 4, num 5,
          num 6, num 7]), (str ''queue'', list_of [num 0, num 0, num 0, num 0, num 0, num 7, num 7])])),
        assign ''test_cases'' (appended (var ''test_cases'') (dict_of [(str ''tc'', list_of [num 5, num 6, num 7]), (str
          ''queue'', list_of [num 2, num 2, num 2])])),
        assign ''test_cases'' (appended (var ''test_cases'') (dict_of [(str ''tc'', list_of [num 0]), (str ''queue'', list_of
          [num 0])])),
        assign ''i'' (num 0),
        for_in [''test''] (var ''test_cases'') [
          print [var ''i''],
          assert_eq (invoke [(''mapid'', var ''qos_tc_to_queue_map_id''), (''map_type'', num SAI_QOS_MAP_TYPE_TC_TO_QUEUE),
            (''key_list'', item (var ''test'') (str ''tc'')), (''data_list'', item (var ''test'') (str ''queue''))]
            update_and_verify_qos_map) (bool True),
          assign ''i'' (add (var ''i'') (num 1))]] [
        run (api_remove ''qos_map'' (var ''qos_tc_to_queue_map_id''))]]"

definition QosMapCreateModifyTest_qosMapTcColorToDscpCreateModifyTest :: "'d stmt" where
  "QosMapCreateModifyTest_qosMapTcColorToDscpCreateModifyTest = block [
      try_finally [
        assign ''ingress_tc_color_list'' (list_of [list_of [num 0, num 1], list_of [num 1, num 1], list_of [num 2, num 0],
          list_of [num 3, num 0], list_of [num 4, num 1], list_of [num 5, num 0], list_of [num 6, num 1], list_of [num 7, num
          0]]),
        assign ''ingress_dscp_list'' (list_of [num 0, num 21, num 32, num 13, num 44, num 25, num 16, num 9]),
        assign ''qos_map_id'' (invoke [(''map_type'', num SAI_QOS_MAP_TYPE_TC_AND_COLOR_TO_DSCP), (''key_list'', var
          ''ingress_tc_color_list''), (''data_list'', var ''ingress_dscp_list''), (''verify'', bool True)]
          create_and_verify_qos_map),
        assert (ne (var ''qos_map_id'') (num 0)),
        assign ''test_cases'' (list_of []),
        assign ''test_cases'' (appended (var ''test_cases'') (dict_of [(str ''tc_color'', list_of [list_of [num 1, num 0],
          list_of [num 2, num 0], list_of [num 7, num 0]]), (str ''dscp'', list_of [num 0, num 1, num 2])])),
        assign ''test_cases'' (appended (var ''test_cases'') (dict_of [(str ''tc_color'', list_of [list_of [num 1, num 1],
          list_of [num 1, num 0], list_of [num 2, num 0]]), (str ''dscp'', list_of [num 0, num 1, num 2])])),
        assign ''test_cases'' (appended (var ''test_cases'') (dict_of [(str ''tc_color'', list_of [list_of [num 1, num 1],
          list_of [num 2, num 2], list_of [num 3, num 1], list_of [num 4, num 0]]), (str ''dscp'', list_of [num 12, num 9, num
          27, num 32])])),
        assign ''test_cases'' (appended (var ''test_cases'') (dict_of [(str ''tc_color'', list_of []), (str ''dscp'', list_of
          [])])),
        assign ''i'' (num 0),
        for_in [''test''] (var ''test_cases'') [
          print [var ''i''],
          assert_eq (invoke [(''mapid'', var ''qos_map_id''), (''map_type'', num SAI_QOS_MAP_TYPE_TC_AND_COLOR_TO_DSCP),
            (''key_list'', item (var ''test'') (str ''tc_color'')), (''data_list'', item (var ''test'') (str ''dscp''))]
            update_and_verify_qos_map) (bool True),
          assign ''i'' (add (var ''i'') (num 1))]] [
        run (api_remove ''qos_map'' (var ''qos_map_id''))]]"

definition QosMapCreateModifyTest_qosMapDscpToTcCreateModifyTest :: "'d stmt" where
  "QosMapCreateModifyTest_qosMapDscpToTcCreateModifyTest = block [
      try_finally [
        assign ''ingress_dscp_list'' (list_of [num 63, num 1, num 2, num 3, num 4, num 5, num 6, num 7]),
        assign ''ingress_tc_list'' (list_of [num 0, num 1, num 2, num 3, num 4, num 5, num 6, num 7]),
        assign ''qos_dscp_to_tc_map_id'' (invoke [(''map_type'', num SAI_QOS_MAP_TYPE_DSCP_TO_TC), (''key_list'', var
          ''ingress_dscp_list''), (''data_list'', var ''ingress_tc_list''), (''verify'', bool False)] create_and_verify_qos_map),
        assert (ne (var ''qos_dscp_to_tc_map_id'') (num 0)),
        assign ''test_cases'' (list_of []),
        assign ''test_cases'' (appended (var ''test_cases'') (dict_of [(str ''dscp'', list_of [num 0, num 1, num 2, num 4, num
          5]), (str ''tc'', list_of [num 0, num 1, num 2, num 4, num 5])])),
        assign ''test_cases'' (appended (var ''test_cases'') (dict_of [(str ''dscp'', list_of [num 5, num 6, num 7]), (str
          ''tc'', list_of [num 2, num 2, num 2])])),
        assign ''test_cases'' (appended (var ''test_cases'') (dict_of [(str ''dscp'', list_of [num 0]), (str ''tc'', list_of
          [num 0])])),
        assign ''test_cases'' (appended (var ''test_cases'') (dict_of [(str ''dscp'', list_of []), (str ''tc'', list_of [])])),
        assign ''i'' (num 0),
        for_in [''test''] (var ''test_cases'') [
          print [var ''i''],
          assert_eq (invoke [(''mapid'', var ''qos_dscp_to_tc_map_id''), (''map_type'', num SAI_QOS_MAP_TYPE_DSCP_TO_TC),
            (''key_list'', item (var ''test'') (str ''dscp'')), (''data_list'', item (var ''test'') (str ''tc''))]
            update_and_verify_qos_map) (bool True),
          assign ''i'' (add (var ''i'') (num 1))]] [
        run (api_remove ''qos_map'' (var ''qos_dscp_to_tc_map_id''))]]"

definition QosMapCreateModifyTest_qosMapDscpToColorCreateModifyTest :: "'d stmt" where
  "QosMapCreateModifyTest_qosMapDscpToColorCreateModifyTest = block [
      try_finally [
        assign ''ingress_dscp_list'' (list_of [num 63, num 1, num 2, num 3, num 4, num 5, num 6, num 7]),
        assign ''ingress_color_list'' (list_of [num 0, num 1, num 2, num 2, num 2, num 2, num 2, num 2]),
        assign ''qos_dscp_to_color_map_id'' (invoke [(''map_type'', num SAI_QOS_MAP_TYPE_DSCP_TO_COLOR), (''key_list'', var
          ''ingress_dscp_list''), (''data_list'', var ''ingress_color_list''), (''verify'', bool True)]
          create_and_verify_qos_map),
        assert (ne (var ''qos_dscp_to_color_map_id'') (num 0)),
        assign ''test_cases'' (list_of []),
        assign ''test_cases'' (appended (var ''test_cases'') (dict_of [(str ''dscp'', list_of [num 0, num 1, num 2, num 4, num
          5]), (str ''color'', list_of [num 0, num 1, num 2, num 0, num 0])])),
        assign ''test_cases'' (appended (var ''test_cases'') (dict_of [(str ''dscp'', list_of [num 0, num 1, num 2, num 4, num
          5, num 19, num 20]), (str ''color'', list_of [num 0, num 1, num 2, num 0, num 0, num 2, num 2])])),
        assign ''test_cases'' (appended (var ''test_cases'') (dict_of [(str ''dscp'', list_of [num 5, num 6, num 7]), (str
          ''color'', list_of [num 2, num 2, num 2])])),
        assign ''test_cases'' (appended (var ''test_cases'') (dict_of [(str ''dscp'', list_of [num 0]), (str ''color'', list_of
          [num 0])])),
        assign ''test_cases'' (appended (var ''test_cases'') (dict_of [(str ''dscp'', list_of []), (str ''color'', list_of
          [])])),
        assign ''i'' (num 0),
        for_in [''test''] (var ''test_cases'') [
          print [var ''i''],
          assert_eq (invoke [(''mapid'', var ''qos_dscp_to_color_map_id''), (''map_type'', num SAI_QOS_MAP_TYPE_DSCP_TO_COLOR),
            (''key_list'', item (var ''test'') (str ''dscp'')), (''data_list'', item (var ''test'') (str ''color''))]
            update_and_verify_qos_map) (bool True),
          assign ''i'' (add (var ''i'') (num 1))]] [
        run (api_remove ''qos_map'' (var ''qos_dscp_to_color_map_id''))]]"

definition QosMapCreateModifyTest_qosMapPrioToQueueModifyTest :: "'d stmt" where
  "QosMapCreateModifyTest_qosMapPrioToQueueModifyTest = block [
      try_finally [
        assign ''ingress_prio_list'' (list_of [num 0, num 1, num 2, num 3, num 4, num 5, num 6, num 7]),
        assign ''ingress_queue_list'' (list_of [num 0, num 1, num 2, num 3, num 4, num 5, num 6, num 7]),
        assign ''qos_prio_to_queue_map_id'' (invoke [(''map_type'', num SAI_QOS_MAP_TYPE_PFC_PRIORITY_TO_QUEUE), (''key_list'',
          var ''ingress_prio_list''), (''data_list'', var ''ingress_queue_list''), (''verify'', bool True)]
          create_and_verify_qos_map),
        assert (ne (var ''qos_prio_to_queue_map_id'') (num 0)),
        assign ''test_cases'' (list_of []),
        assign ''test_cases'' (appended (var ''test_cases'') (dict_of [(str ''prio'', list_of [num 0, num 1, num 2, num 4, num
          5]), (str ''queue'', list_of [num 0, num 1, num 2, num 4, num 5])])),
        assign ''test_cases'' (appended (var ''test_cases'') (dict_of [(str ''prio'', list_of [num 5, num 6, num 7]), (str
          ''queue'', list_of [num 2, num 2, num 2])])),
        assign ''test_cases'' (appended (var ''test_cases'') (dict_of [(str ''prio'', list_of [num 7]), (str ''queue'', list_of
          [num 7])])),
        assign ''test_cases'' (appended (var ''test_cases'') (dict_of [(str ''prio'', list_of []), (str ''queue'', list_of
          [])])),
        assign ''i'' (num 0),
        for_in [''test''] (var ''test_cases'') [
          print [var ''i''],
          assert_eq (invoke [(''mapid'', var ''qos_prio_to_queue_map_id''), (''map_type'', num
            SAI_QOS_MAP_TYPE_PFC_PRIORITY_TO_QUEUE), (''key_list'', item (var ''test'') (str ''prio'')), (''data_list'', item
            (var ''test'') (str ''queue''))] update_and_verify_qos_map) (bool True),
          assign ''i'' (add (var ''i'') (num 1))]] [
        run (api_remove ''qos_map'' (var ''qos_prio_to_queue_map_id''))]]"

definition QosMapCreateModifyTest_qosMapDot1ToTcCreateModifyTest :: "'d stmt" where
  "QosMapCreateModifyTest_qosMapDot1ToTcCreateModifyTest = block [
      try_finally [
        assign ''ingress_dot1p_list'' (list_of [num 0, num 1, num 2, num 3, num 4, num 5, num 6, num 7]),
        assign ''ingress_tc_list'' (list_of [num 0, num 1, num 2, num 3, num 4, num 5, num 6, num 7]),
        assign ''qos_map_id'' (invoke [(''map_type'', num SAI_QOS_MAP_TYPE_DOT1P_TO_TC), (''key_list'', var
          ''ingress_dot1p_list''), (''data_list'', var ''ingress_tc_list''), (''verify'', bool True)] create_and_verify_qos_map),
        assert (ne (var ''qos_map_id'') (num 0)),
        assign ''test_cases'' (list_of []),
        assign ''test_cases'' (appended (var ''test_cases'') (dict_of [(str ''dot1p'', list_of [num 0, num 1, num 2, num 4, num
          5]), (str ''tc'', list_of [num 0, num 1, num 2, num 4, num 5])])),
        assign ''test_cases'' (appended (var ''test_cases'') (dict_of [(str ''dot1p'', list_of [num 5, num 6, num 7]), (str
          ''tc'', list_of [num 2, num 2, num 2])])),
        assign ''test_cases'' (appended (var ''test_cases'') (dict_of [(str ''dot1p'', list_of [num 0]), (str ''tc'', list_of
          [num 0])])),
        assign ''test_cases'' (appended (var ''test_cases'') (dict_of [(str ''dot1p'', list_of []), (str ''tc'', list_of [])])),
        assign ''i'' (num 0),
        for_in [''test''] (var ''test_cases'') [
          print [var ''i''],
          assert_eq (invoke [(''mapid'', var ''qos_map_id''), (''map_type'', num SAI_QOS_MAP_TYPE_DOT1P_TO_TC), (''key_list'',
            item (var ''test'') (str ''dot1p'')), (''data_list'', item (var ''test'') (str ''tc''))] update_and_verify_qos_map)
            (bool True),
          assign ''i'' (add (var ''i'') (num 1))]] [
        run (api_remove ''qos_map'' (var ''qos_map_id''))]]"

definition QosMapCreateModifyTest_qosMapDot1ToColorCreateModifyTest :: "'d stmt" where
  "QosMapCreateModifyTest_qosMapDot1ToColorCreateModifyTest = block [
      try_finally [
        assign ''ingress_dot1p_list'' (list_of [num 0, num 1, num 2, num 3, num 4, num 5, num 6, num 7]),
        assign ''ingress_color_list'' (list_of [num 0, num 0, num 0, num 1, num 1, num 1, num 2, num 2]),
        assign ''qos_map_id'' (invoke [(''map_type'', num SAI_QOS_MAP_TYPE_DOT1P_TO_COLOR), (''key_list'', var
          ''ingress_dot1p_list''), (''data_list'', var ''ingress_color_list''), (''verify'', bool True)]
          create_and_verify_qos_map),
        assert (ne (var ''qos_map_id'') (num 0)),
        assign ''test_cases'' (list_of []),
        assign ''test_cases'' (appended (var ''test_cases'') (dict_of [(str ''dot1p'', list_of [num 0, num 1, num 2, num 4, num
          5]), (str ''color'', list_of [num 0, num 1, num 2, num 2, num 2])])),
        assign ''test_cases'' (appended (var ''test_cases'') (dict_of [(str ''dot1p'', list_of [num 5, num 6, num 7]), (str
          ''color'', list_of [num 2, num 2, num 2])])),
        assign ''test_cases'' (appended (var ''test_cases'') (dict_of [(str ''dot1p'', list_of [num 5, num 6, num 7]), (str
          ''color'', list_of [num 0, num 0, num 0])])),
        assign ''test_cases'' (appended (var ''test_cases'') (dict_of [(str ''dot1p'', list_of [num 5, num 6, num 7, num 0]),
          (str ''color'', list_of [num 0, num 0, num 0, num 1])])),
        assign ''test_cases'' (appended (var ''test_cases'') (dict_of [(str ''dot1p'', list_of [num 0]), (str ''color'', list_of
          [num 0])])),
        assign ''test_cases'' (appended (var ''test_cases'') (dict_of [(str ''dot1p'', list_of []), (str ''color'', list_of
          [])])),
        assign ''i'' (num 0),
        for_in [''test''] (var ''test_cases'') [
          print [var ''i''],
          assert_eq (invoke [(''mapid'', var ''qos_map_id''), (''map_type'', num SAI_QOS_MAP_TYPE_DOT1P_TO_COLOR),
            (''key_list'', item (var ''test'') (str ''dot1p'')), (''data_list'', item (var ''test'') (str ''color''))]
            update_and_verify_qos_map) (bool True),
          assign ''i'' (add (var ''i'') (num 1))]] [
        run (api_remove ''qos_map'' (var ''qos_map_id''))]]"

definition QosMapCreateModifyTest_qosMapTcColorToDot1pCreateModifyTest :: "'d stmt" where
  "QosMapCreateModifyTest_qosMapTcColorToDot1pCreateModifyTest = block [
      try_finally [
        assign ''ingress_tc_color_list'' (list_of [list_of [num 0, num 1], list_of [num 1, num 1], list_of [num 2, num 0],
          list_of [num 3, num 0], list_of [num 4, num 1], list_of [num 5, num 0], list_of [num 6, num 1], list_of [num 7, num
          0]]),
        assign ''ingress_dot1p_list'' (list_of [num 0, num 1, num 2, num 3, num 4, num 5, num 6, num 7]),
        assign ''qos_map_id'' (invoke [(''map_type'', num SAI_QOS_MAP_TYPE_TC_AND_COLOR_TO_DOT1P), (''key_list'', var
          ''ingress_tc_color_list''), (''data_list'', var ''ingress_dot1p_list''), (''verify'', bool True)]
          create_and_verify_qos_map),
        assert (ne (var ''qos_map_id'') (num 0)),
        assign ''test_cases'' (list_of []),
        assign ''test_cases'' (appended (var ''test_cases'') (dict_of [(str ''tc_color'', list_of [list_of [num 1, num 2],
          list_of [num 2, num 0], list_of [num 7, num 0]]), (str ''dot1p'', list_of [num 0, num 1, num 2])])),
        assign ''test_cases'' (appended (var ''test_cases'') (dict_of [(str ''tc_color'', list_of [list_of [num 1, num 1],
          list_of [num 1, num 0], list_of [num 2, num 0]]), (str ''dot1p'', list_of [num 0, num 1, num 2])])),
        assign ''test_cases'' (appended (var ''test_cases'') (dict_of [(str ''tc_color'', list_of [list_of [num 1, num 1],
          list_of [num 2, num 2], list_of [num 3, num 1], list_of [num 4, num 0]]), (str ''dot1p'', list_of [num 7, num 4, num
          5, num 7])])),
        assign ''test_cases'' (appended (var ''test_cases'') (dict_of [(str ''tc_color'', list_of []), (str ''dot1p'', list_of
          [])])),
        assign ''i'' (num 0),
        for_in [''test''] (var ''test_cases'') [
          print [var ''i''],
          assert_eq (invoke [(''mapid'', var ''qos_map_id''), (''map_type'', num SAI_QOS_MAP_TYPE_TC_AND_COLOR_TO_DOT1P),
            (''key_list'', item (var ''test'') (str ''tc_color'')), (''data_list'', item (var ''test'') (str ''dot1p''))]
            update_and_verify_qos_map) (bool True),
          assign ''i'' (add (var ''i'') (num 1))]] [
        run (api_remove ''qos_map'' (var ''qos_map_id''))]]"

definition QosMapCreateModifyTest_qosMapPfcPrioToPrioGroupCreateModifyTest :: "'d stmt" where
  "QosMapCreateModifyTest_qosMapPfcPrioToPrioGroupCreateModifyTest = block [
      try_finally [
        assign ''ingress_pfc_prio_list'' (list_of [num 0, num 1, num 2]),
        assign ''ingress_pg_list'' (list_of [num 3, num 4, num 5]),
        assign ''qos_map_id'' (invoke [(''map_type'', num SAI_QOS_MAP_TYPE_PFC_PRIORITY_TO_PRIORITY_GROUP), (''key_list'', var
          ''ingress_pfc_prio_list''), (''data_list'', var ''ingress_pg_list''), (''verify'', bool True)]
          create_and_verify_qos_map),
        assert (ne (var ''qos_map_id'') (num 0)),
        assign ''test_cases'' (list_of []),
        assign ''test_cases'' (appended (var ''test_cases'') (dict_of [(str ''pfc_prio'', list_of [num 0, num 1, num 2, num 4,
          num 5]), (str ''pg'', list_of [num 0, num 1, num 2, num 2, num 2])])),
        assign ''test_cases'' (appended (var ''test_cases'') (dict_of [(str ''pfc_prio'', list_of [num 5, num 6, num 7]), (str
          ''pg'', list_of [num 2, num 2, num 2])])),
        assign ''test_cases'' (appended (var ''test_cases'') (dict_of [(str ''pfc_prio'', list_of [num 5, num 6, num 7]), (str
          ''pg'', list_of [num 0, num 2, num 2])])),
        assign ''test_cases'' (appended (var ''test_cases'') (dict_of [(str ''pfc_prio'', list_of [num 5, num 6, num 7]), (str
          ''pg'', list_of [num 0, num 2, num 3])])),
        assign ''test_cases'' (appended (var ''test_cases'') (dict_of [(str ''pfc_prio'', list_of [num 5, num 6, num 7, num 0]),
          (str ''pg'', list_of [num 0, num 0, num 0, num 1])])),
        assign ''test_cases'' (appended (var ''test_cases'') (dict_of [(str ''pfc_prio'', list_of [num 0]), (str ''pg'', list_of
          [num 0])])),
        assign ''test_cases'' (appended (var ''test_cases'') (dict_of [(str ''pfc_prio'', list_of []), (str ''pg'', list_of
          [])])),
        assign ''i'' (num 0),
        for_in [''test''] (var ''test_cases'') [
          print [var ''i''],
          assert_eq (invoke [(''mapid'', var ''qos_map_id''), (''map_type'', num
            SAI_QOS_MAP_TYPE_PFC_PRIORITY_TO_PRIORITY_GROUP), (''key_list'', item (var ''test'') (str ''pfc_prio'')),
            (''data_list'', item (var ''test'') (str ''pg''))] update_and_verify_qos_map) (bool True),
          assign ''i'' (add (var ''i'') (num 1))]] [
        run (api_remove ''qos_map'' (var ''qos_map_id''))]]"

definition QosMapCreateModifyTest_qosMapTcPgCreateModifyTest :: "'d stmt" where
  "QosMapCreateModifyTest_qosMapTcPgCreateModifyTest = block [
      try_finally [
        assign ''ingress_tc_list'' (list_of [num 0, num 1, num 2, num 3, num 4, num 5, num 6, num 7]),
        assign ''ingress_pg_list'' (list_of [num 0, num 1, num 2, num 3, num 4, num 5, num 6, num 7]),
        assign ''qos_map_id'' (invoke [(''map_type'', num SAI_QOS_MAP_TYPE_TC_TO_PRIORITY_GROUP), (''key_list'', var
          ''ingress_tc_list''), (''data_list'', var ''ingress_pg_list''), (''verify'', bool True)] create_and_verify_qos_map),
        assert (ne (var ''qos_map_id'') (num 0)),
        assign ''test_cases'' (list_of []),
        assign ''test_cases'' (appended (var ''test_cases'') (dict_of [(str ''tc'', list_of [num 0, num 1, num 2]), (str ''pg'',
          list_of [num 0, num 1, num 2])])),
        assign ''test_cases'' (appended (var ''test_cases'') (dict_of [(str ''tc'', list_of [num 0, num 1, num 2]), (str ''pg'',
          list_of [num 2, num 1, num 0])])),
        assign ''test_cases'' (appended (var ''test_cases'') (dict_of [(str ''tc'', list_of [num 0]), (str ''pg'', list_of [num
          7])])),
        assign ''test_cases'' (appended (var ''test_cases'') (dict_of [(str ''tc'', list_of [num 0]), (str ''pg'', list_of [num
          6])])),
        assign ''test_cases'' (appended (var ''test_cases'') (dict_of [(str ''tc'', list_of [num 0, num 1, num 2, num 3, num 4,
          num 5, num 6, num 7]), (str ''pg'', list_of [num 0, num 0, num 0, num 0, num 1, num 2, num 3, num 4])])),
        assign ''test_cases'' (appended (var ''test_cases'') (dict_of [(str ''tc'', list_of []), (str ''pg'', list_of [])])),
        assign ''i'' (num 0),
        for_in [''test''] (var ''test_cases'') [
          print [var ''i'', item (var ''test'') (str ''tc''), item (var ''test'') (str ''pg'')],
          assert_eq (invoke [(''mapid'', var ''qos_map_id''), (''map_type'', num SAI_QOS_MAP_TYPE_TC_TO_PRIORITY_GROUP),
            (''key_list'', item (var ''test'') (str ''tc'')), (''data_list'', item (var ''test'') (str ''pg''))]
            update_and_verify_qos_map) (bool True),
          assign ''i'' (add (var ''i'') (num 1))]] [
        run (api_remove ''qos_map'' (var ''qos_map_id''))]]"

definition QosMapCreateModifyTest_runTest :: "'d stmt" where
  "QosMapCreateModifyTest_runTest = block [
      run (invoke [] QosMapCreateModifyTest_qosMapTcToQueueModifyTest),
      run (invoke [] QosMapCreateModifyTest_qosMapTcColorToDscpCreateModifyTest),
      run (invoke [] QosMapCreateModifyTest_qosMapDscpToTcCreateModifyTest),
      run (invoke [] QosMapCreateModifyTest_qosMapDscpToColorCreateModifyTest),
      run (invoke [] QosMapCreateModifyTest_qosMapPrioToQueueModifyTest),
      run (invoke [] QosMapCreateModifyTest_qosMapDot1ToTcCreateModifyTest),
      run (invoke [] QosMapCreateModifyTest_qosMapDot1ToColorCreateModifyTest),
      run (invoke [] QosMapCreateModifyTest_qosMapTcColorToDot1pCreateModifyTest),
      run (invoke [] QosMapCreateModifyTest_qosMapPfcPrioToPrioGroupCreateModifyTest),
      run (invoke [] QosMapCreateModifyTest_qosMapTcPgCreateModifyTest)]"

definition QosMapCreateModifyTest_tearDown :: "'d stmt" where
  "QosMapCreateModifyTest_tearDown = block [
      run (invoke [] L2QosMapBaseClass_tearDown)]"

end
