(* ===== verification/TestsQueue.thy ===== *)
theory TestsQueue
  imports PtfOwn PtfConstants
begin

text \<open>
  The tests of queues, \<open>ptf/saiqueue.py\<close>: a definition per method, statement by statement in the language of
  \<open>PtfScript\<close>, named after its class. A parameter \<open>m_f\<close> is a method \<open>f\<close> that derived classes define anew.
\<close>

section \<open>The tests\<close>

definition QueueConfigDataHelper_setUp :: "'d stmt" where
  "QueueConfigDataHelper_setUp = block [
      super_setUp,
      assign ''attr'' (api_get ''port'' (self ''port25'') [(''qos_number_of_queues'', bool True)]),
      set_self ''num_queues'' (item (var ''attr'') (str ''qos_number_of_queues'')),
      set_self ''num_ports'' (length_of (self ''port_list'')),
      set_self ''q_list'' (struct ''sai_thrift_object_list_t'' [(''count'', self ''num_queues'')]),
      set_self ''vr_id'' (api_create ''virtual_router'' [(''admin_v4_state'', bool True), (''admin_v6_state'', bool True)]),
      assert (ne (self ''vr_id'') (num 0)),
      set_self ''rif_id25'' (api_create ''router_interface'' [(''virtual_router_id'', self ''vr_id''), (''type'', num
        SAI_ROUTER_INTERFACE_TYPE_PORT), (''port_id'', self ''port25''), (''admin_v4_state'', bool True), (''admin_v6_state'',
        bool True)]),
      assert (ne (self ''rif_id25'') (num 0)),
      set_self ''rif_id26'' (api_create ''router_interface'' [(''virtual_router_id'', self ''vr_id''), (''type'', num
        SAI_ROUTER_INTERFACE_TYPE_PORT), (''port_id'', self ''port26''), (''admin_v4_state'', bool True), (''admin_v6_state'',
        bool True)]),
      assert (ne (self ''rif_id26'') (num 0)),
      assign ''dst_ip'' (str ''172.16.1.1''),
      assign ''dst_mask_ip'' (str ''172.16.1.1/24''),
      set_self ''neighbor_dmac'' (str ''00:11:22:33:44:55''),
      set_self ''neighbor_entry1'' (struct ''sai_thrift_neighbor_entry_t'' [(''switch_id'', self ''switch_id''), (''rif_id'',
        self ''rif_id26''), (''ip_address'', ip_address (var ''dst_ip''))]),
      run (api_create_entry ''neighbor_entry'' (self ''neighbor_entry1'') [(''dst_mac_address'', self ''neighbor_dmac'')]),
      set_self ''nhop'' (api_create ''next_hop'' [(''type'', num SAI_NEXT_HOP_TYPE_IP), (''router_interface_id'', self
        ''rif_id26''), (''ip'', ip_address (var ''dst_ip''))]),
      set_self ''route'' (struct ''sai_thrift_route_entry_t'' [(''switch_id'', self ''switch_id''), (''destination'', ip_prefix
        (var ''dst_mask_ip'')), (''vr_id'', self ''vr_id'')]),
      assign ''status'' (api_create_entry ''route_entry'' (self ''route'') [(''next_hop_id'', self ''nhop'')]),
      assert_eq (var ''status'') (num SAI_STATUS_SUCCESS)]"

definition QueueConfigDataHelper_tearDown :: "'d stmt" where
  "QueueConfigDataHelper_tearDown = block [
      run (api_remove ''neighbor_entry'' (self ''neighbor_entry1'')),
      run (api_remove ''route_entry'' (self ''route'')),
      run (api_remove ''next_hop'' (self ''nhop'')),
      run (api_remove ''router_interface'' (self ''rif_id26'')),
      run (api_remove ''router_interface'' (self ''rif_id25'')),
      run (api_remove ''virtual_router'' (self ''vr_id'')),
      super_tearDown]"

definition queueCreateTest_setUp :: "'d stmt" where
  "queueCreateTest_setUp = block [
      run (invoke [] QueueConfigDataHelper_setUp)]"

definition queueCreateTest_tearDown :: "'d stmt" where
  "queueCreateTest_tearDown = block [
      run (invoke [] QueueConfigDataHelper_tearDown)]"

definition portQueueQueryTest_setUp :: "'d stmt" where
  "portQueueQueryTest_setUp = block [
      run (invoke [] QueueConfigDataHelper_setUp)]"

definition portQueueQueryTest_runTest :: "'d stmt" where
  "portQueueQueryTest_runTest = block [
      assign ''attr'' (api_get ''port'' (self ''port1'') [(''qos_number_of_queues'', bool True)]),
      assign ''num_queues'' (item (var ''attr'') (str ''qos_number_of_queues'')),
      assign ''num_ports'' (length_of (self ''port_list'')),
      assign ''q_list'' (struct ''sai_thrift_object_list_t'' [(''count'', var ''num_queues'')]),
      try_finally [
        for_in [''port''] (range_of (num 0) (var ''num_ports'')) [
          assign ''attr'' (api_get ''port'' (item (self ''port_list'') (var ''port'')) [(''qos_queue_list'', var ''q_list'')]),
          for_in [''queue''] (range_of (num 0) (var ''num_queues'')) [
            assign ''queue_id'' (item (field (item (var ''attr'') (str ''qos_queue_list'')) ''idlist'') (var ''queue'')),
            assign ''q_attr'' (api_get ''queue'' (var ''queue_id'') [(''port'', bool True), (''index'', bool True),
              (''parent_scheduler_node'', bool True)]),
            assert (eq (var ''queue'') (item (var ''q_attr'') (str ''index''))),
            assert (eq (item (self ''port_list'') (var ''port'')) (item (var ''q_attr'') (str ''port'')))]]] []]"

definition portQueueQueryTest_tearDown :: "'d stmt" where
  "portQueueQueryTest_tearDown = block [
      run (invoke [] QueueConfigDataHelper_tearDown)]"

definition bufferQueueTest_setUp :: "'d stmt" where
  "bufferQueueTest_setUp = block [
      run (invoke [] QueueConfigDataHelper_setUp)]"

definition bufferQueueTest_runTest :: "'d stmt" where
  "bufferQueueTest_runTest = block [
      assign ''mode'' (num SAI_BUFFER_POOL_THRESHOLD_MODE_DYNAMIC),
      assign ''buff_pool'' (api_create ''buffer_pool'' [(''type'', num SAI_BUFFER_POOL_TYPE_EGRESS), (''size'', num 1024),
        (''threshold_mode'', var ''mode'')]),
      assert (ne (var ''buff_pool'') (num 0)),
      assign ''buff_prof'' (api_create ''buffer_profile'' [(''pool_id'', var ''buff_pool''), (''reserved_buffer_size'', num
        1024), (''threshold_mode'', var ''mode''), (''shared_dynamic_th'', num 1), (''xoff_th'', num 100), (''xon_th'', num
        10)]),
      assert (ne (var ''buff_prof'') (num 0)),
      try_finally [
        assign ''attr'' (api_get ''port'' (self ''port26'') [(''qos_queue_list'', self ''q_list'')]),
        assign ''queue_id'' (field (item (var ''attr'') (str ''qos_queue_list'')) ''idlist''),
        assign ''attr'' (api_get ''queue'' (item (var ''queue_id'') (num 0)) [(''buffer_profile_id'', bool True)]),
        assign ''default_buff_prof'' (item (var ''attr'') (str ''buffer_profile_id'')),
        assign ''status'' (api_set ''queue'' (item (var ''queue_id'') (num 0)) [(''buffer_profile_id'', var ''buff_prof'')]),
        assert_eq (var ''status'') (num SAI_STATUS_SUCCESS),
        run (clear_stats ''sai_thrift_clear_queue_stats'' [item (var ''queue_id'') (num 0)] []),
        assign ''pkt'' (lib ''simple_tcp_packet'' [] [(''eth_dst'', str ROUTER_MAC), (''eth_src'', str ''00:00:00:00:00:22''),
          (''ip_dst'', str ''172.16.1.1''), (''ip_src'', str ''192.168.0.1''), (''ip_id'', num 105), (''ip_ttl'', num 64)]),
        assign ''exp_pkt'' (lib ''simple_tcp_packet'' [] [(''eth_dst'', str ''00:11:22:33:44:55''), (''eth_src'', str
          ROUTER_MAC), (''ip_dst'', str ''172.16.1.1''), (''ip_src'', str ''192.168.0.1''), (''ip_id'', num 105), (''ip_ttl'',
          num 63)]),
        run (lib ''send_packet'' [self ''dev_port25'', var ''pkt''] []),
        run (lib ''verify_packet'' [var ''exp_pkt'', self ''dev_port26''] []),
        assign ''stats'' (query ''sai_thrift_get_queue_stats'' [item (var ''queue_id'') (num 0)] []),
        assign ''cnt'' (item (var ''stats'') (str ''SAI_QUEUE_STAT_PACKETS'')),
        assert_eq (var ''cnt'') (num 1),
        assign ''status'' (api_set ''queue'' (item (var ''queue_id'') (num 0)) [(''buffer_profile_id'', as_int (num
          SAI_NULL_OBJECT_ID))]),
        assert_eq (var ''status'') (num SAI_STATUS_SUCCESS),
        assign ''status'' (api_remove ''buffer_profile'' (var ''buff_prof'')),
        assert_eq (var ''status'') (num SAI_STATUS_SUCCESS),
        assign ''status'' (api_remove ''buffer_pool'' (var ''buff_pool'')),
        assert_eq (var ''status'') (num SAI_STATUS_SUCCESS),
        assign ''attr'' (api_get ''queue'' (item (var ''queue_id'') (num 0)) [(''buffer_profile_id'', bool True)]),
        assert_eq (item (var ''attr'') (str ''buffer_profile_id'')) (var ''default_buff_prof''),
        run (clear_stats ''sai_thrift_clear_queue_stats'' [item (var ''queue_id'') (num 0)] []),
        assign ''pkt'' (lib ''simple_tcp_packet'' [] [(''eth_dst'', str ROUTER_MAC), (''eth_src'', str ''00:00:00:00:00:22''),
          (''ip_dst'', str ''172.16.1.1''), (''ip_src'', str ''192.168.0.1''), (''ip_id'', num 105), (''ip_ttl'', num 64)]),
        assign ''exp_pkt'' (lib ''simple_tcp_packet'' [] [(''eth_dst'', str ''00:11:22:33:44:55''), (''eth_src'', str
          ROUTER_MAC), (''ip_dst'', str ''172.16.1.1''), (''ip_src'', str ''192.168.0.1''), (''ip_id'', num 105), (''ip_ttl'',
          num 63)]),
        run (lib ''send_packet'' [self ''dev_port25'', var ''pkt''] []),
        run (lib ''verify_packet'' [var ''exp_pkt'', self ''dev_port26''] []),
        assign ''stats'' (query ''sai_thrift_get_queue_stats'' [item (var ''queue_id'') (num 0)] []),
        assign ''cnt'' (item (var ''stats'') (str ''SAI_QUEUE_STAT_PACKETS'')),
        assert_eq (var ''cnt'') (num 1)] [
        assign ''stats'' (query ''sai_thrift_get_queue_stats_ext'' [item (var ''queue_id'') (num 0), num
          SAI_STATS_MODE_READ_AND_CLEAR] []),
        assign ''cnt'' (item (var ''stats'') (str ''SAI_QUEUE_STAT_PACKETS'')),
        assert_eq (var ''cnt'') (num 1),
        assign ''stats'' (query ''sai_thrift_get_queue_stats'' [item (var ''queue_id'') (num 0)] []),
        assign ''cnt'' (item (var ''stats'') (str ''SAI_QUEUE_STAT_PACKETS'')),
        assert_eq (var ''cnt'') (num 0)]]"

definition bufferQueueTest_tearDown :: "'d stmt" where
  "bufferQueueTest_tearDown = block [
      run (invoke [] QueueConfigDataHelper_tearDown)]"

definition schedulerQueueTest_setUp :: "'d stmt" where
  "schedulerQueueTest_setUp = block [
      run (invoke [] QueueConfigDataHelper_setUp)]"

definition schedulerQueueTest_runTest :: "'d stmt" where
  "schedulerQueueTest_runTest = block [
      assign ''weight'' (num 4),
      assign ''min_rate'' (num 100),
      assign ''max_rate'' (num 1000),
      assign ''min_burst'' (num 200),
      assign ''max_burst'' (num 800),
      assign ''sched1'' (api_create ''scheduler'' [(''meter_type'', num SAI_METER_TYPE_PACKETS), (''scheduling_type'', num
        SAI_SCHEDULING_TYPE_DWRR), (''scheduling_weight'', var ''weight'')]),
      assert (ne (var ''sched1'') (num 0)),
      assign ''sched2'' (api_create ''scheduler'' [(''meter_type'', num SAI_METER_TYPE_PACKETS), (''scheduling_type'', num
        SAI_SCHEDULING_TYPE_STRICT), (''min_bandwidth_rate'', var ''min_rate''), (''max_bandwidth_rate'', var ''max_rate'')]),
      assert (ne (var ''sched2'') (num 0)),
      assign ''sched3'' (api_create ''scheduler'' [(''meter_type'', num SAI_METER_TYPE_PACKETS), (''scheduling_type'', num
        SAI_SCHEDULING_TYPE_STRICT), (''min_bandwidth_burst_rate'', var ''min_burst''), (''max_bandwidth_burst_rate'', var
        ''max_burst'')]),
      assert (ne (var ''sched3'') (num 0)),
      try_finally [
        assign ''attr'' (api_get ''port'' (self ''port25'') [(''qos_queue_list'', self ''q_list'')]),
        assign ''queue_id'' (field (item (var ''attr'') (str ''qos_queue_list'')) ''idlist''),
        assign ''status'' (api_set ''queue'' (item (var ''queue_id'') (num 1)) [(''scheduler_profile_id'', var ''sched1'')]),
        assert_eq (var ''status'') (num SAI_STATUS_SUCCESS),
        assign ''q_attr'' (api_get ''queue'' (item (var ''queue_id'') (num 1)) [(''scheduler_profile_id'', bool True)]),
        assert_eq (item (var ''q_attr'') (str ''scheduler_profile_id'')) (var ''sched1''),
        assign ''s_attr'' (api_get ''scheduler'' (var ''sched1'') [(''scheduling_weight'', bool True)]),
        assert_eq (item (var ''s_attr'') (str ''scheduling_weight'')) (var ''weight''),
        assign ''status'' (api_set ''queue'' (item (var ''queue_id'') (num 2)) [(''scheduler_profile_id'', var ''sched2'')]),
        assert_eq (var ''status'') (num SAI_STATUS_SUCCESS),
        assign ''q_attr'' (api_get ''queue'' (item (var ''queue_id'') (num 2)) [(''scheduler_profile_id'', bool True)]),
        assert_eq (item (var ''q_attr'') (str ''scheduler_profile_id'')) (var ''sched2''),
        assign ''s_attr'' (api_get ''scheduler'' (var ''sched2'') [(''min_bandwidth_rate'', bool True), (''max_bandwidth_rate'',
          bool True)]),
        assert_eq (item (var ''s_attr'') (str ''min_bandwidth_rate'')) (var ''min_rate''),
        assert_eq (item (var ''s_attr'') (str ''max_bandwidth_rate'')) (var ''max_rate''),
        assign ''status'' (api_set ''queue'' (item (var ''queue_id'') (num 3)) [(''scheduler_profile_id'', var ''sched3'')]),
        assert_eq (var ''status'') (num SAI_STATUS_SUCCESS),
        assign ''q_attr'' (api_get ''queue'' (item (var ''queue_id'') (num 3)) [(''scheduler_profile_id'', bool True)]),
        assert_eq (item (var ''q_attr'') (str ''scheduler_profile_id'')) (var ''sched3''),
        assign ''s_attr'' (api_get ''scheduler'' (var ''sched3'') [(''min_bandwidth_burst_rate'', bool True),
          (''max_bandwidth_burst_rate'', bool True)]),
        assert_eq (item (var ''s_attr'') (str ''min_bandwidth_burst_rate'')) (var ''min_burst''),
        assert_eq (item (var ''s_attr'') (str ''max_bandwidth_burst_rate'')) (var ''max_burst''),
        assign ''weight'' (num 3),
        assign ''min_rate'' (num 120),
        assign ''max_rate'' (num 980),
        assign ''min_burst'' (num 300),
        assign ''max_burst'' (num 800),
        assign ''status'' (api_set ''scheduler'' (var ''sched1'') [(''scheduling_weight'', var ''weight'')]),
        assert_eq (var ''status'') (num SAI_STATUS_SUCCESS),
        assign ''s_attr'' (api_get ''scheduler'' (var ''sched1'') [(''scheduling_weight'', bool True)]),
        assert_eq (item (var ''s_attr'') (str ''scheduling_weight'')) (var ''weight''),
        assign ''status'' (api_set ''scheduler'' (var ''sched2'') [(''min_bandwidth_rate'', var ''min_rate'')]),
        assert_eq (var ''status'') (num SAI_STATUS_SUCCESS),
        assign ''status'' (api_set ''scheduler'' (var ''sched2'') [(''max_bandwidth_rate'', var ''max_rate'')]),
        assert_eq (var ''status'') (num SAI_STATUS_SUCCESS),
        assign ''s_attr'' (api_get ''scheduler'' (var ''sched2'') [(''min_bandwidth_rate'', bool True), (''max_bandwidth_rate'',
          bool True)]),
        assert_eq (item (var ''s_attr'') (str ''min_bandwidth_rate'')) (var ''min_rate''),
        assert_eq (item (var ''s_attr'') (str ''max_bandwidth_rate'')) (var ''max_rate''),
        assign ''status'' (api_set ''scheduler'' (var ''sched3'') [(''min_bandwidth_burst_rate'', var ''min_burst'')]),
        assert_eq (var ''status'') (num SAI_STATUS_SUCCESS),
        assign ''status'' (api_set ''scheduler'' (var ''sched3'') [(''max_bandwidth_burst_rate'', var ''max_burst'')]),
        assert_eq (var ''status'') (num SAI_STATUS_SUCCESS),
        assign ''s_attr'' (api_get ''scheduler'' (var ''sched3'') [(''min_bandwidth_burst_rate'', bool True),
          (''max_bandwidth_burst_rate'', bool True)]),
        assert_eq (item (var ''s_attr'') (str ''min_bandwidth_burst_rate'')) (var ''min_burst''),
        assert_eq (item (var ''s_attr'') (str ''max_bandwidth_burst_rate'')) (var ''max_burst'')] [
        assign ''status'' (api_set ''queue'' (item (var ''queue_id'') (num 3)) [(''scheduler_profile_id'', num 0)]),
        assign ''status'' (api_set ''queue'' (item (var ''queue_id'') (num 2)) [(''scheduler_profile_id'', num 0)]),
        assign ''status'' (api_set ''queue'' (item (var ''queue_id'') (num 1)) [(''scheduler_profile_id'', num 0)]),
        assert_eq (var ''status'') (num SAI_STATUS_SUCCESS),
        assert_eq (var ''status'') (num SAI_STATUS_SUCCESS),
        assert_eq (var ''status'') (num SAI_STATUS_SUCCESS),
        run (api_remove ''scheduler'' (var ''sched3'')),
        run (api_remove ''scheduler'' (var ''sched2'')),
        run (api_remove ''scheduler'' (var ''sched1''))]]"

definition schedulerQueueTest_tearDown :: "'d stmt" where
  "schedulerQueueTest_tearDown = block [
      run (invoke [] QueueConfigDataHelper_tearDown)]"

definition pfcPriorityQueueTest_setUp :: "'d stmt" where
  "pfcPriorityQueueTest_setUp = block [
      run (invoke [] QueueConfigDataHelper_setUp)]"

definition pfcPriorityQueueTest_runTest :: "'d stmt" where
  "pfcPriorityQueueTest_runTest = block [
      assign ''p_attr'' (api_get ''port'' (self ''port25'') [(''qos_queue_list'', self ''q_list'')]),
      assign ''queue_id'' (field (item (var ''p_attr'') (str ''qos_queue_list'')) ''idlist''),
      assign ''q_attr'' (api_get ''queue'' (item (var ''queue_id'') (num 4)) [(''index'', bool True)]),
      assign ''q_idx'' (item (var ''q_attr'') (str ''index'')),
      try_finally [
        assign ''pfc_to_queue_map'' (struct ''sai_thrift_qos_map_t'' [(''key'', struct ''sai_thrift_qos_map_params_t''
          [(''prio'', num 4)]), (''value'', struct ''sai_thrift_qos_map_params_t'' [(''queue_index'', var ''q_idx'')])]),
        assign ''qos_map_list'' (struct ''sai_thrift_qos_map_list_t'' [(''count'', num 1), (''maplist'', list_of [var
          ''pfc_to_queue_map''])]),
        assign ''qos_map'' (api_create ''qos_map'' [(''type'', num SAI_QOS_MAP_TYPE_PFC_PRIORITY_TO_QUEUE),
          (''map_to_value_list'', var ''qos_map_list'')]),
        assert (ne (var ''qos_map'') (num 0)),
        assign ''p_attr'' (api_get ''port'' (self ''port26'') [(''qos_queue_list'', self ''q_list'')]),
        assign ''new_queue_id'' (field (item (var ''p_attr'') (str ''qos_queue_list'')) ''idlist''),
        assign ''q_attr'' (api_get ''queue'' (item (var ''new_queue_id'') (num 3)) [(''index'', bool True)]),
        assign ''new_q_idx'' (item (var ''q_attr'') (str ''index'')),
        assign ''new_pfc_to_queue_map'' (struct ''sai_thrift_qos_map_t'' [(''key'', struct ''sai_thrift_qos_map_params_t''
          [(''prio'', num 4)]), (''value'', struct ''sai_thrift_qos_map_params_t'' [(''queue_index'', var ''new_q_idx'')])]),
        assign ''new_qos_map_list'' (struct ''sai_thrift_qos_map_list_t'' [(''count'', num 1), (''maplist'', list_of [var
          ''new_pfc_to_queue_map''])]),
        assign ''status'' (api_set ''qos_map'' (var ''qos_map'') [(''map_to_value_list'', var ''new_qos_map_list'')]),
        assert_eq (var ''status'') (num SAI_STATUS_SUCCESS),
        assign ''map_lists'' (struct ''sai_thrift_qos_map_list_t'' [(''count'', num 1)]),
        assign ''attr'' (api_get ''qos_map'' (var ''qos_map'') [(''map_to_value_list'', var ''map_lists'')]),
        assign ''queue_idx'' (field (field (item (field (item (var ''attr'') (str ''map_to_value_list'')) ''maplist'') (num 0))
          ''value'') ''queue_index''),
        assert_eq (var ''queue_idx'') (var ''new_q_idx'')] [
        run (api_remove ''qos_map'' (var ''qos_map''))]]"

definition pfcPriorityQueueTest_tearDown :: "'d stmt" where
  "pfcPriorityQueueTest_tearDown = block [
      run (invoke [] QueueConfigDataHelper_tearDown)]"

definition cpuPortQueueObjectTest_setUp :: "'d stmt" where
  "cpuPortQueueObjectTest_setUp = block [
      run (invoke [] QueueConfigDataHelper_setUp)]"

definition cpuPortQueueObjectTest_tearDown :: "'d stmt" where
  "cpuPortQueueObjectTest_tearDown = block [
      run (invoke [] QueueConfigDataHelper_tearDown)]"

definition wredQueueTest_setUp :: "'d stmt" where
  "wredQueueTest_setUp = block [
      run (invoke [] QueueConfigDataHelper_setUp)]"

definition wredQueueTest_runTest :: "'d stmt" where
  "wredQueueTest_runTest = block [
      assign ''wred_id'' (api_create ''wred'' [(''green_enable'', bool True), (''green_min_threshold'', num 0),
        (''green_max_threshold'', num 4000), (''green_drop_probability'', num 100)]),
      assert (ne (var ''wred_id'') (num 0)),
      assign ''attr'' (api_get ''port'' (self ''port25'') [(''qos_queue_list'', self ''q_list'')]),
      assign ''queue_id'' (field (item (var ''attr'') (str ''qos_queue_list'')) ''idlist''),
      assign ''status'' (api_set ''queue'' (item (var ''queue_id'') (num 0)) [(''wred_profile_id'', var ''wred_id'')]),
      assert_eq (var ''status'') (num SAI_STATUS_SUCCESS),
      assign ''pkt'' (lib ''simple_tcp_packet'' [] [(''eth_dst'', str ROUTER_MAC), (''eth_src'', str ''00:00:00:00:00:22''),
        (''ip_dst'', str ''172.16.1.1''), (''ip_src'', str ''192.168.0.1''), (''ip_id'', num 105), (''ip_ttl'', num 64)]),
      assign ''exp_pkt'' (lib ''simple_tcp_packet'' [] [(''eth_dst'', str ''00:11:22:33:44:55''), (''eth_src'', str ROUTER_MAC),
        (''ip_dst'', str ''172.16.1.1''), (''ip_src'', str ''192.168.0.1''), (''ip_id'', num 105), (''ip_ttl'', num 63)]),
      try_finally [
        run (lib ''send_packet'' [self ''dev_port25'', var ''pkt''] []),
        run (lib ''verify_packet'' [var ''exp_pkt'', self ''dev_port26''] [])] [
        assign ''status'' (api_set ''queue'' (item (var ''queue_id'') (num 0)) [(''wred_profile_id'', num 0)]),
        assert_eq (var ''status'') (num SAI_STATUS_SUCCESS),
        assign ''status'' (api_remove ''wred'' (var ''wred_id'')),
        assert_eq (var ''status'') (num SAI_STATUS_SUCCESS)]]"

definition wredQueueTest_tearDown :: "'d stmt" where
  "wredQueueTest_tearDown = block [
      run (invoke [] QueueConfigDataHelper_tearDown)]"

definition dwrrBandwidthDistributionTest_setUp :: "'d stmt" where
  "dwrrBandwidthDistributionTest_setUp = block [
      run (invoke [] QueueConfigDataHelper_setUp)]"

definition dwrrBandwidthDistributionTest_runTest :: "'d stmt" where
  "dwrrBandwidthDistributionTest_runTest = block [
      assign ''map_list'' (list_of []),
      assign ''dscp_list'' (list_of [num 0, num 1, num 2, num 3, num 4, num 5, num 6, num 7]),
      assign ''tc_list'' (list_of [num 0, num 1, num 2, num 3, num 4, num 5, num 6, num 7]),
      for_in [''traffic_class'', ''dscp''] (zipped (var ''tc_list'') (var ''dscp_list'')) [
        assign ''dscp_to_tc'' (struct ''sai_thrift_qos_map_t'' [(''key'', struct ''sai_thrift_qos_map_params_t'' [(''dscp'', var
          ''dscp'')]), (''value'', struct ''sai_thrift_qos_map_params_t'' [(''tc'', var ''traffic_class'')])]),
        assign ''map_list'' (appended (var ''map_list'') (var ''dscp_to_tc''))],
      assign ''qos_map_list'' (struct ''sai_thrift_qos_map_list_t'' [(''count'', length_of (var ''map_list'')), (''maplist'',
        var ''map_list'')]),
      assign ''indirect_qos_map'' (api_create ''qos_map'' [(''type'', num SAI_QOS_MAP_TYPE_DSCP_TO_TC), (''map_to_value_list'',
        var ''qos_map_list'')]),
      assign ''status'' (api_set ''port'' (self ''port25'') [(''qos_dscp_to_tc_map'', var ''indirect_qos_map'')]),
      assert_eq (var ''status'') (num SAI_STATUS_SUCCESS),
      assign ''map_list2'' (list_of []),
      assign ''egress_queue_indices'' (list_of []),
      assign ''port25_attr'' (api_get ''port'' (self ''port25'') [(''qos_number_of_queues'', bool True), (''qos_queue_list'',
        self ''q_list'')]),
      assign ''num_queues'' (item (var ''port25_attr'') (str ''qos_number_of_queues'')),
      assign ''queue_id_list_port25'' (field (item (var ''port25_attr'') (str ''qos_queue_list'')) ''idlist''),
      assign ''port26_attr'' (api_get ''port'' (self ''port26'') [(''qos_queue_list'', self ''q_list'')]),
      assign ''queue_id_list_port26'' (field (item (var ''port26_attr'') (str ''qos_queue_list'')) ''idlist''),
      for_in [''i''] (var ''tc_list'') [
        assign ''egress_queue_attr'' (api_get ''queue'' (item (field (item (var ''port25_attr'') (str ''qos_queue_list''))
          ''idlist'') (var ''i'')) [(''index'', bool True)]),
        assign ''queue_index'' (item (var ''egress_queue_attr'') (str ''index'')),
        assign ''egress_queue_indices'' (appended (var ''egress_queue_indices'') (var ''queue_index'')),
        assign ''tc_to_queue'' (struct ''sai_thrift_qos_map_t'' [(''key'', struct ''sai_thrift_qos_map_params_t'' [(''tc'', var
          ''i'')]), (''value'', struct ''sai_thrift_qos_map_params_t'' [(''queue_index'', var ''queue_index'')])]),
        assign ''map_list2'' (appended (var ''map_list2'') (var ''tc_to_queue'')),
        run (clear_stats ''sai_thrift_clear_queue_stats'' [item (var ''queue_id_list_port25'') (var ''i'')] []),
        run (clear_stats ''sai_thrift_clear_queue_stats'' [item (var ''queue_id_list_port26'') (var ''i'')] [])],
      assign ''qos_map_list2'' (struct ''sai_thrift_qos_map_list_t'' [(''count'', length_of (var ''map_list2'')), (''maplist'',
        var ''map_list2'')]),
      assign ''target_qos_map'' (api_create ''qos_map'' [(''type'', num SAI_QOS_MAP_TYPE_TC_TO_QUEUE), (''map_to_value_list'',
        var ''qos_map_list2'')]),
      assign ''status'' (api_set ''port'' (self ''port25'') [(''qos_tc_to_queue_map'', var ''target_qos_map'')]),
      assert_eq (var ''status'') (num SAI_STATUS_SUCCESS),
      assign ''schedulers'' (list_of []),
      assign ''weight'' (num 8),
      for_in [''queue''] (range_of (num 0) (as_int (divide (var ''num_queues'') (num 2)))) [
        assign ''sched'' (api_create ''scheduler'' [(''meter_type'', num SAI_METER_TYPE_PACKETS), (''scheduling_type'', num
          SAI_SCHEDULING_TYPE_DWRR), (''scheduling_weight'', var ''weight'')]),
        assert (ne (var ''sched'') (num 0)),
        assign ''schedulers'' (appended (var ''schedulers'') (var ''sched'')),
        assign ''weight'' (floordiv (var ''weight'') (num 2))],
      assign ''shaper'' (api_create ''scheduler'' [(''meter_type'', num SAI_METER_TYPE_PACKETS), (''scheduling_type'', num
        SAI_SCHEDULING_TYPE_DWRR), (''max_bandwidth_rate'', num 750)]),
      assert (ne (var ''shaper'') (num 0)),
      assign ''status'' (api_set ''port'' (self ''port26'') [(''qos_scheduler_profile_id'', var ''shaper'')]),
      assert_eq (var ''status'') (num SAI_STATUS_SUCCESS),
      for_in [''queue''] (range_of (num 0) (var ''num_queues'')) [
        if_else (lt (var ''num_queues'') (num 3)) [
          assign ''status'' (api_set ''queue'' (item (var ''queue_id_list_port26'') (var ''queue'')) [(''scheduler_profile_id'',
            item (var ''schedulers'') (modulo (var ''queue'') (num 3)))])] [
          assign ''status'' (api_set ''queue'' (item (var ''queue_id_list_port26'') (var ''queue'')) [(''scheduler_profile_id'',
            item (var ''schedulers'') (num 3))])],
        assert_eq (var ''status'') (num SAI_STATUS_SUCCESS)],
      assign ''pkts'' (list_of []),
      assign ''exp_pkts'' (list_of []),
      for_in [''i''] (range_of (num 0) (var ''num_queues'')) [
        assign ''tos'' (shl (var ''i'') (num 2)),
        assign ''pkt'' (lib ''simple_tcp_packet'' [] [(''eth_dst'', str ROUTER_MAC), (''eth_src'', str ''00:00:00:00:00:22''),
          (''ip_dst'', str ''172.16.1.1''), (''ip_src'', str ''192.168.0.1''), (''ip_id'', num 105), (''ip_tos'', var ''tos''),
          (''ip_ttl'', num 64)]),
        assign ''pkts'' (appended (var ''pkts'') (var ''pkt'')),
        assign ''exp_pkt'' (lib ''simple_tcp_packet'' [] [(''eth_dst'', str ''00:11:22:33:44:55''), (''eth_src'', str
          ROUTER_MAC), (''ip_dst'', str ''172.16.1.1''), (''ip_src'', str ''192.168.0.1''), (''ip_id'', num 105), (''ip_tos'',
          var ''tos''), (''ip_ttl'', num 63)]),
        assign ''exp_pkts'' (appended (var ''exp_pkts'') (var ''exp_pkt''))],
      try_finally [
        assign ''rec_pkt'' (num 0),
        assign ''congestion_rate'' (num 2),
        assign ''pkt_cnt'' (mul (var ''congestion_rate'') (var ''num_queues'')),
        for_in [''_''] (range_of (num 0) (var ''congestion_rate'')) [
          for_in [''i''] (range_of (num 0) (var ''num_queues'')) [
            run (lib ''send_packet'' [self ''dev_port25'', item (var ''pkts'') (var ''i'')] []),
            assign ''rec_pkt'' (add (var ''rec_pkt'') (num 1))]],
        run (lib ''send_packet'' [self ''dev_port25'', item (var ''pkts'') (num 2)] []),
        print [var ''pkt_cnt'', var ''rec_pkt''],
        assert (eq (var ''rec_pkt'') (var ''pkt_cnt'')),
        sleep_for (num 5),
        assign ''exp_pkt_num'' (num 8),
        for_in [''queue''] (range_of (num 0) (var ''num_queues'')) [
          sleep_for (num 5),
          assign ''q_stats'' (query ''sai_thrift_get_queue_stats'' [item (var ''queue_id_list_port26'') (var ''queue'')] []),
          assign ''rec_pkt_num'' (item (var ''q_stats'') (str ''SAI_QUEUE_STAT_PACKETS'')),
          print [var ''queue''],
          print [var ''rec_pkt_num''],
          print [var ''exp_pkt_num''],
          if_else (ne (var ''exp_pkt_num'') (num 1)) [
            assign ''exp_pkt_num'' (floordiv (var ''exp_pkt_num'') (num 2))] []]] [
        assign ''stats'' (query ''sai_thrift_get_queue_stats_ext'' [item (var ''queue_id_list_port26'') (num 0), num
          SAI_STATS_MODE_READ_AND_CLEAR] []),
        assign ''cnt'' (item (var ''stats'') (str ''SAI_QUEUE_STAT_PACKETS'')),
        assert_eq (var ''cnt'') (num 2),
        assign ''stats'' (query ''sai_thrift_get_queue_stats'' [item (var ''queue_id_list_port26'') (num 0)] []),
        assign ''cnt'' (item (var ''stats'') (str ''SAI_QUEUE_STAT_PACKETS'')),
        assert_eq (var ''cnt'') (num 0),
        assign ''status'' (api_set ''port'' (self ''port26'') [(''qos_scheduler_profile_id'', num 0)]),
        assert_eq (var ''status'') (num SAI_STATUS_SUCCESS),
        run (api_remove ''scheduler'' (var ''shaper'')),
        assign ''status'' (api_set ''port'' (self ''port25'') [(''qos_tc_to_queue_map'', num 0)]),
        assert_eq (var ''status'') (num SAI_STATUS_SUCCESS),
        assign ''status'' (api_set ''port'' (self ''port25'') [(''qos_dscp_to_tc_map'', num 0)]),
        assert_eq (var ''status'') (num SAI_STATUS_SUCCESS),
        run (api_remove ''qos_map'' (var ''indirect_qos_map'')),
        run (api_remove ''qos_map'' (var ''target_qos_map'')),
        for_in [''queue''] (range_of (num 0) (var ''num_queues'')) [
          assign ''status'' (api_set ''queue'' (item (var ''queue_id_list_port26'') (var ''queue'')) [(''scheduler_profile_id'',
            num 0)]),
          assert_eq (var ''status'') (num SAI_STATUS_SUCCESS)],
        for_in [''i''] (range_of (num 0) (as_int (divide (var ''num_queues'') (num 2)))) [
          run (api_remove ''scheduler'' (item (var ''schedulers'') (var ''i'')))]]]"

definition dwrrBandwidthDistributionTest_tearDown :: "'d stmt" where
  "dwrrBandwidthDistributionTest_tearDown = block [
      run (invoke [] QueueConfigDataHelper_tearDown)]"

definition strictPriorityQueueTest_setUp :: "'d stmt" where
  "strictPriorityQueueTest_setUp = block [
      run (invoke [] QueueConfigDataHelper_setUp)]"

definition strictPriorityQueueTest_runTest :: "'d stmt" where
  "strictPriorityQueueTest_runTest = block [
      assign ''map_list'' (list_of []),
      assign ''dscp_list'' (list_of [num 0, num 1, num 2, num 3, num 4, num 5, num 6, num 7]),
      assign ''tc_list'' (list_of [num 0, num 1, num 2, num 3, num 4, num 5, num 6, num 7]),
      for_in [''traffic_class'', ''dscp''] (zipped (var ''tc_list'') (var ''dscp_list'')) [
        assign ''dscp_to_tc'' (struct ''sai_thrift_qos_map_t'' [(''key'', struct ''sai_thrift_qos_map_params_t'' [(''dscp'', var
          ''dscp'')]), (''value'', struct ''sai_thrift_qos_map_params_t'' [(''tc'', var ''traffic_class'')])]),
        assign ''map_list'' (appended (var ''map_list'') (var ''dscp_to_tc''))],
      assign ''qos_map_list'' (struct ''sai_thrift_qos_map_list_t'' [(''count'', length_of (var ''map_list'')), (''maplist'',
        var ''map_list'')]),
      assign ''indirect_qos_map'' (api_create ''qos_map'' [(''type'', num SAI_QOS_MAP_TYPE_DSCP_TO_TC), (''map_to_value_list'',
        var ''qos_map_list'')]),
      assign ''status'' (api_set ''port'' (self ''port25'') [(''qos_dscp_to_tc_map'', var ''indirect_qos_map'')]),
      assert_eq (var ''status'') (num SAI_STATUS_SUCCESS),
      assign ''map_list2'' (list_of []),
      assign ''egress_queue_indices'' (list_of []),
      assign ''port25_attr'' (api_get ''port'' (self ''port25'') [(''qos_number_of_queues'', bool True), (''qos_queue_list'',
        self ''q_list'')]),
      assign ''queue_id_list_port25'' (field (item (var ''port25_attr'') (str ''qos_queue_list'')) ''idlist''),
      assign ''port26_attr'' (api_get ''port'' (self ''port26'') [(''qos_queue_list'', self ''q_list'')]),
      assign ''queue_id_list_port26'' (field (item (var ''port26_attr'') (str ''qos_queue_list'')) ''idlist''),
      for_in [''i''] (var ''tc_list'') [
        assign ''egress_queue_attr'' (api_get ''queue'' (item (field (item (var ''port25_attr'') (str ''qos_queue_list''))
          ''idlist'') (var ''i'')) [(''index'', bool True)]),
        assign ''queue_index'' (item (var ''egress_queue_attr'') (str ''index'')),
        assign ''egress_queue_indices'' (appended (var ''egress_queue_indices'') (var ''queue_index'')),
        assign ''tc_to_queue'' (struct ''sai_thrift_qos_map_t'' [(''key'', struct ''sai_thrift_qos_map_params_t'' [(''tc'', var
          ''i'')]), (''value'', struct ''sai_thrift_qos_map_params_t'' [(''queue_index'', var ''queue_index'')])]),
        assign ''map_list2'' (appended (var ''map_list2'') (var ''tc_to_queue'')),
        run (clear_stats ''sai_thrift_clear_queue_stats'' [item (var ''queue_id_list_port25'') (var ''i'')] []),
        run (clear_stats ''sai_thrift_clear_queue_stats'' [item (var ''queue_id_list_port26'') (var ''i'')] [])],
      assign ''qos_map_list2'' (struct ''sai_thrift_qos_map_list_t'' [(''count'', length_of (var ''map_list2'')), (''maplist'',
        var ''map_list2'')]),
      assign ''target_qos_map'' (api_create ''qos_map'' [(''type'', num SAI_QOS_MAP_TYPE_TC_TO_QUEUE), (''map_to_value_list'',
        var ''qos_map_list2'')]),
      assign ''status'' (api_set ''port'' (self ''port25'') [(''qos_tc_to_queue_map'', var ''target_qos_map'')]),
      assert_eq (var ''status'') (num SAI_STATUS_SUCCESS),
      assign ''port27_attr'' (api_get ''port'' (self ''port27'') [(''qos_queue_list'', self ''q_list'')]),
      assign ''queue_id_list_port27'' (field (item (var ''port27_attr'') (str ''qos_queue_list'')) ''idlist''),
      assign ''sched'' (api_create ''scheduler'' [(''meter_type'', num SAI_METER_TYPE_PACKETS), (''scheduling_type'', num
        SAI_SCHEDULING_TYPE_STRICT)]),
      assert (ne (var ''sched'') (num 0)),
      assign ''status'' (api_set ''queue'' (item (var ''queue_id_list_port26'') (num 1)) [(''scheduler_profile_id'', var
        ''sched'')]),
      assert_eq (var ''status'') (num SAI_STATUS_SUCCESS),
      assign ''port27_attr'' (api_get ''port'' (self ''port27'') [(''qos_number_of_scheduler_groups'', bool True)]),
      assign ''num_sched_grps'' (item (var ''port27_attr'') (str ''qos_number_of_scheduler_groups'')),
      assign ''sched_grp_list'' (struct ''sai_thrift_object_list_t'' [(''count'', var ''num_sched_grps'')]),
      assign ''port27_attr'' (api_get ''port'' (self ''port27'') [(''qos_scheduler_group_list'', var ''sched_grp_list'')]),
      assign ''sch_grps_port27'' (field (item (var ''port27_attr'') (str ''qos_scheduler_group_list'')) ''idlist''),
      assign ''status'' (api_set ''scheduler_group'' (item (var ''sch_grps_port27'') (num 0)) [(''scheduler_profile_id'', var
        ''sched'')]),
      assert_eq (var ''status'') (num SAI_STATUS_SUCCESS),
      assign ''pkt'' (lib ''simple_tcp_packet'' [] [(''eth_dst'', str ROUTER_MAC), (''eth_src'', str ''00:00:00:00:00:22''),
        (''ip_dst'', str ''172.16.1.1''), (''ip_src'', str ''192.168.0.1''), (''ip_id'', num 105), (''ip_tos'', num 4),
        (''ip_ttl'', num 64)]),
      assign ''exp_pkt'' (lib ''simple_tcp_packet'' [] [(''eth_dst'', str ''00:11:22:33:44:55''), (''eth_src'', str ROUTER_MAC),
        (''ip_dst'', str ''172.16.1.1''), (''ip_src'', str ''192.168.0.1''), (''ip_id'', num 105), (''ip_tos'', num 4),
        (''ip_ttl'', num 63)]),
      try_finally [
        assign ''pkt_cnt'' (num 19),
        for_in [''_''] (range_of (num 0) (var ''pkt_cnt'')) [
          run (lib ''send_packet'' [self ''dev_port25'', var ''pkt''] []),
          sleep_for (flt (1 / 10)),
          run (lib ''verify_packet'' [var ''exp_pkt'', self ''dev_port26''] []),
          run (lib ''verify_no_other_packets'' [] [])],
        sleep_for (num 4),
        assign ''q_stats_port26'' (query ''sai_thrift_get_queue_stats'' [item (var ''queue_id_list_port26'') (num 1)] []),
        assign ''received_pkt_num'' (item (var ''q_stats_port26'') (str ''SAI_QUEUE_STAT_PACKETS'')),
        print [var ''received_pkt_num''],
        assign ''q_stats_port27'' (query ''sai_thrift_get_queue_stats'' [item (var ''queue_id_list_port27'') (num 0)] []),
        assign ''forwarded_pkt_num'' (item (var ''q_stats_port27'') (str ''SAI_QUEUE_STAT_PACKETS'')),
        print [var ''forwarded_pkt_num''],
        assign ''q_stats_port27'' (query ''sai_thrift_get_queue_stats'' [item (var ''queue_id_list_port27'') (num 1)] []),
        assign ''forwarded_pkt_num'' (item (var ''q_stats_port27'') (str ''SAI_QUEUE_STAT_PACKETS'')),
        print [var ''forwarded_pkt_num''],
        assert (eq (var ''received_pkt_num'') (var ''pkt_cnt''))] [
        assign ''status'' (api_set ''scheduler_group'' (item (var ''sch_grps_port27'') (num 0)) [(''scheduler_profile_id'', num
          0)]),
        assert_eq (var ''status'') (num SAI_STATUS_SUCCESS),
        assign ''status'' (api_set ''queue'' (item (var ''queue_id_list_port26'') (num 1)) [(''scheduler_profile_id'', num 0)]),
        assert_eq (var ''status'') (num SAI_STATUS_SUCCESS),
        run (api_remove ''scheduler'' (var ''sched'')),
        assign ''status'' (api_set ''port'' (self ''port25'') [(''qos_tc_to_queue_map'', num 0)]),
        assert_eq (var ''status'') (num SAI_STATUS_SUCCESS),
        assign ''status'' (api_set ''port'' (self ''port25'') [(''qos_dscp_to_tc_map'', num 0)]),
        assert_eq (var ''status'') (num SAI_STATUS_SUCCESS),
        run (api_remove ''qos_map'' (var ''indirect_qos_map'')),
        run (api_remove ''qos_map'' (var ''target_qos_map''))]]"

definition strictPriorityQueueTest_tearDown :: "'d stmt" where
  "strictPriorityQueueTest_tearDown = block [
      run (invoke [] QueueConfigDataHelper_tearDown)]"

end
