(* ===== verification/TestsRif.thy ===== *)
theory TestsRif
  imports PtfOwn PtfConstants
begin

text \<open>
  The tests of router interfaces, \<open>ptf/sairif.py\<close>: a definition per method, statement by statement in the language of
  \<open>PtfScript\<close>, named after its class. A parameter \<open>m_f\<close> is a method \<open>f\<close> that derived classes define anew.
\<close>

section \<open>The tests\<close>

definition L3InterfaceTestHelper_setUp :: "'d stmt" where
  "L3InterfaceTestHelper_setUp = block [
      super_setUp,
      set_self ''port10_rif_counter_in'' (num 0),
      set_self ''port10_rif_counter_out'' (num 0),
      set_self ''port11_rif_counter_in'' (num 0),
      set_self ''port11_rif_counter_out'' (num 0),
      set_self ''port12_rif_counter_out'' (num 0),
      set_self ''port13_rif_counter_out'' (num 0),
      set_self ''lag1_rif_counter_in'' (num 0),
      set_self ''lag1_rif_counter_out'' (num 0),
      set_self ''port10_rif_counter_out_octects'' (num 0),
      set_self ''port11_rif_counter_in_octects'' (num 0),
      assign ''dmac1'' (str ''00:11:22:33:44:55''),
      assign ''dmac3'' (str ''00:33:22:33:44:55''),
      set_self ''lag1_rif'' (api_create ''router_interface'' [(''type'', num SAI_ROUTER_INTERFACE_TYPE_PORT),
        (''virtual_router_id'', self ''default_vrf''), (''port_id'', self ''lag1'')]),
      set_self ''nhop1'' (api_create ''next_hop'' [(''ip'', ip_address (str ''10.10.10.2'')), (''router_interface_id'', self
        ''port10_rif''), (''type'', num SAI_NEXT_HOP_TYPE_IP)]),
      set_self ''neighbor_entry1'' (struct ''sai_thrift_neighbor_entry_t'' [(''rif_id'', self ''port10_rif''), (''ip_address'',
        ip_address (str ''10.10.10.2''))]),
      run (api_create_entry ''neighbor_entry'' (self ''neighbor_entry1'') [(''dst_mac_address'', var ''dmac1'')]),
      set_self ''neighbor_entry3'' (struct ''sai_thrift_neighbor_entry_t'' [(''rif_id'', self ''lag1_rif''), (''ip_address'',
        ip_address (str ''12.10.10.2''))]),
      run (api_create_entry ''neighbor_entry'' (self ''neighbor_entry3'') [(''dst_mac_address'', var ''dmac3'')]),
      set_self ''nhop3'' (api_create ''next_hop'' [(''ip'', ip_address (str ''12.10.10.2'')), (''router_interface_id'', self
        ''lag1_rif''), (''type'', num SAI_NEXT_HOP_TYPE_IP)]),
      set_self ''route_entry0'' (struct ''sai_thrift_route_entry_t'' [(''vr_id'', self ''default_vrf''), (''destination'',
        ip_prefix (str ''10.10.10.1/32''))]),
      run (api_create_entry ''route_entry'' (self ''route_entry0'') [(''next_hop_id'', self ''nhop1'')]),
      set_self ''route_entry1'' (struct ''sai_thrift_route_entry_t'' [(''vr_id'', self ''default_vrf''), (''destination'',
        ip_prefix (str ''1234:5678:9abc:def0:4422:1133:5577:99aa/128''))]),
      run (api_create_entry ''route_entry'' (self ''route_entry1'') [(''next_hop_id'', self ''nhop1'')]),
      set_self ''route_lag0'' (struct ''sai_thrift_route_entry_t'' [(''vr_id'', self ''default_vrf''), (''destination'',
        ip_prefix (str ''12.10.10.1/32''))]),
      run (api_create_entry ''route_entry'' (self ''route_lag0'') [(''next_hop_id'', self ''nhop3'')]),
      set_self ''route_lag1'' (struct ''sai_thrift_route_entry_t'' [(''vr_id'', self ''default_vrf''), (''destination'',
        ip_prefix (str ''1234:5678:9abc:def0:1122:3344:5566:7788/128''))]),
      run (api_create_entry ''route_entry'' (self ''route_lag1'') [(''next_hop_id'', self ''nhop3'')])]"

definition L3InterfaceTestHelper_tearDown :: "'d stmt" where
  "L3InterfaceTestHelper_tearDown = block [
      run (api_remove ''route_entry'' (self ''route_entry0'')),
      run (api_remove ''route_entry'' (self ''route_entry1'')),
      run (api_remove ''route_entry'' (self ''route_lag0'')),
      run (api_remove ''route_entry'' (self ''route_lag1'')),
      run (api_remove ''next_hop'' (self ''nhop1'')),
      run (api_remove ''neighbor_entry'' (self ''neighbor_entry1'')),
      run (api_remove ''next_hop'' (self ''nhop3'')),
      run (api_remove ''neighbor_entry'' (self ''neighbor_entry3'')),
      run (api_remove ''router_interface'' (self ''lag1_rif'')),
      super_tearDown]"

definition Ipv4FibLagTest_setUp :: "'d stmt" where
  "Ipv4FibLagTest_setUp = block [
      run (invoke [] L3InterfaceTestHelper_setUp)]"

definition Ipv4FibLagTest_runTest :: "'d stmt" where
  "Ipv4FibLagTest_runTest = block [
      assign ''pkt'' (lib ''simple_tcp_packet'' [] [(''eth_dst'', str ROUTER_MAC), (''eth_src'', str ''00:22:22:22:22:22''),
        (''ip_dst'', str ''12.10.10.1''), (''ip_src'', str ''192.168.0.1''), (''ip_id'', num 105), (''ip_ttl'', num 64)]),
      assign ''exp_pkt'' (lib ''simple_tcp_packet'' [] [(''eth_dst'', str ''00:33:22:33:44:55''), (''eth_src'', str ROUTER_MAC),
        (''ip_dst'', str ''12.10.10.1''), (''ip_src'', str ''192.168.0.1''), (''ip_id'', num 105), (''ip_ttl'', num 63)]),
      assign ''pkt_lag'' (lib ''simple_tcp_packet'' [] [(''eth_dst'', str ROUTER_MAC), (''eth_src'', str ''00:22:22:22:22:22''),
        (''ip_dst'', str ''10.10.10.1''), (''ip_src'', str ''12.10.10.1''), (''ip_id'', num 105), (''ip_ttl'', num 64)]),
      assign ''exp_pkt_lag'' (lib ''simple_tcp_packet'' [] [(''eth_dst'', str ''00:11:22:33:44:55''), (''eth_src'', str
        ROUTER_MAC), (''ip_dst'', str ''10.10.10.1''), (''ip_src'', str ''12.10.10.1''), (''ip_id'', num 105), (''ip_ttl'', num
        63)]),
      print [self ''dev_port11''],
      run (lib ''send_packet'' [self ''dev_port11'', var ''pkt''] []),
      run (lib ''verify_packet_any_port'' [var ''exp_pkt'', list_of [self ''dev_port4'', self ''dev_port5'', self
        ''dev_port6'']] []),
      set_self ''port11_rif_counter_in'' (add (self ''port11_rif_counter_in'') (num 1)),
      set_self ''lag1_rif_counter_out'' (add (self ''lag1_rif_counter_out'') (num 1)),
      set_self ''port11_rif_counter_in_octects'' (add (self ''port11_rif_counter_in_octects'') (add (length_of (var ''pkt''))
        (num 4))),
      print [self ''dev_port4'', self ''dev_port10''],
      run (lib ''send_packet'' [self ''dev_port4'', var ''pkt_lag''] []),
      run (lib ''verify_packet'' [var ''exp_pkt_lag'', self ''dev_port10''] []),
      set_self ''lag1_rif_counter_in'' (add (self ''lag1_rif_counter_in'') (num 1)),
      set_self ''port10_rif_counter_out'' (add (self ''port10_rif_counter_out'') (num 1)),
      set_self ''port10_rif_counter_out_octects'' (add (self ''port10_rif_counter_out_octects'') (add (length_of (var
        ''exp_pkt_lag'')) (num 4))),
      print [self ''dev_port5'', self ''dev_port10''],
      run (lib ''send_packet'' [self ''dev_port5'', var ''pkt_lag''] []),
      run (lib ''verify_packet'' [var ''exp_pkt_lag'', self ''dev_port10''] []),
      set_self ''lag1_rif_counter_in'' (add (self ''lag1_rif_counter_in'') (num 1)),
      set_self ''port10_rif_counter_out'' (add (self ''port10_rif_counter_out'') (num 1)),
      set_self ''port10_rif_counter_out_octects'' (add (self ''port10_rif_counter_out_octects'') (add (length_of (var
        ''exp_pkt_lag'')) (num 4))),
      print [self ''dev_port6'', self ''dev_port10''],
      run (lib ''send_packet'' [self ''dev_port6'', var ''pkt_lag''] []),
      run (lib ''verify_packet'' [var ''exp_pkt_lag'', self ''dev_port10''] []),
      set_self ''lag1_rif_counter_in'' (add (self ''lag1_rif_counter_in'') (num 1)),
      set_self ''port10_rif_counter_out'' (add (self ''port10_rif_counter_out'') (num 1)),
      set_self ''port10_rif_counter_out_octects'' (add (self ''port10_rif_counter_out_octects'') (add (length_of (var
        ''exp_pkt_lag'')) (num 4))),
      print [self ''dev_port24''],
      run (lib ''send_packet'' [self ''dev_port24'', var ''pkt_lag''] []),
      run (lib ''verify_no_other_packets'' [] [(''timeout'', num 1)]),
      assign ''lag_member'' (api_create ''lag_member'' [(''lag_id'', self ''lag1''), (''port_id'', self ''port24'')]),
      print [self ''dev_port11''],
      run (lib ''send_packet'' [self ''dev_port11'', var ''pkt''] []),
      run (lib ''verify_packet_any_port'' [var ''exp_pkt'', list_of [self ''dev_port4'', self ''dev_port5'', self ''dev_port6'',
        self ''dev_port24'']] []),
      set_self ''port11_rif_counter_in'' (add (self ''port11_rif_counter_in'') (num 1)),
      set_self ''lag1_rif_counter_out'' (add (self ''lag1_rif_counter_out'') (num 1)),
      set_self ''port11_rif_counter_in_octects'' (add (self ''port11_rif_counter_in_octects'') (add (length_of (var ''pkt''))
        (num 4))),
      print [self ''dev_port4'', self ''dev_port10''],
      run (lib ''send_packet'' [self ''dev_port4'', var ''pkt_lag''] []),
      run (lib ''verify_packet'' [var ''exp_pkt_lag'', self ''dev_port10''] []),
      set_self ''lag1_rif_counter_in'' (add (self ''lag1_rif_counter_in'') (num 1)),
      set_self ''port10_rif_counter_out'' (add (self ''port10_rif_counter_out'') (num 1)),
      set_self ''port10_rif_counter_out_octects'' (add (self ''port10_rif_counter_out_octects'') (add (length_of (var
        ''exp_pkt_lag'')) (num 4))),
      print [self ''dev_port5'', self ''dev_port10''],
      run (lib ''send_packet'' [self ''dev_port5'', var ''pkt_lag''] []),
      run (lib ''verify_packet'' [var ''exp_pkt_lag'', self ''dev_port10''] []),
      set_self ''lag1_rif_counter_in'' (add (self ''lag1_rif_counter_in'') (num 1)),
      set_self ''port10_rif_counter_out'' (add (self ''port10_rif_counter_out'') (num 1)),
      set_self ''port10_rif_counter_out_octects'' (add (self ''port10_rif_counter_out_octects'') (add (length_of (var
        ''exp_pkt_lag'')) (num 4))),
      print [self ''dev_port6'', self ''dev_port10''],
      run (lib ''send_packet'' [self ''dev_port6'', var ''pkt_lag''] []),
      run (lib ''verify_packet'' [var ''exp_pkt_lag'', self ''dev_port10''] []),
      set_self ''lag1_rif_counter_in'' (add (self ''lag1_rif_counter_in'') (num 1)),
      set_self ''port10_rif_counter_out'' (add (self ''port10_rif_counter_out'') (num 1)),
      set_self ''port10_rif_counter_out_octects'' (add (self ''port10_rif_counter_out_octects'') (add (length_of (var
        ''exp_pkt_lag'')) (num 4))),
      print [self ''dev_port24'', self ''dev_port10''],
      run (lib ''send_packet'' [self ''dev_port24'', var ''pkt_lag''] []),
      run (lib ''verify_packet'' [var ''exp_pkt_lag'', self ''dev_port10''] []),
      set_self ''lag1_rif_counter_in'' (add (self ''lag1_rif_counter_in'') (num 1)),
      set_self ''port10_rif_counter_out'' (add (self ''port10_rif_counter_out'') (num 1)),
      set_self ''port10_rif_counter_out_octects'' (add (self ''port10_rif_counter_out_octects'') (add (length_of (var
        ''exp_pkt_lag'')) (num 4))),
      run (api_remove ''lag_member'' (var ''lag_member'')),
      print [self ''dev_port11''],
      run (lib ''send_packet'' [self ''dev_port11'', var ''pkt''] []),
      run (lib ''verify_packet_any_port'' [var ''exp_pkt'', list_of [self ''dev_port4'', self ''dev_port5'', self
        ''dev_port6'']] []),
      set_self ''port11_rif_counter_in'' (add (self ''port11_rif_counter_in'') (num 1)),
      set_self ''lag1_rif_counter_out'' (add (self ''lag1_rif_counter_out'') (num 1)),
      set_self ''port11_rif_counter_in_octects'' (add (self ''port11_rif_counter_in_octects'') (add (length_of (var ''pkt''))
        (num 4))),
      print [self ''dev_port4'', self ''dev_port10''],
      run (lib ''send_packet'' [self ''dev_port4'', var ''pkt_lag''] []),
      run (lib ''verify_packet'' [var ''exp_pkt_lag'', self ''dev_port10''] []),
      set_self ''lag1_rif_counter_in'' (add (self ''lag1_rif_counter_in'') (num 1)),
      set_self ''port10_rif_counter_out'' (add (self ''port10_rif_counter_out'') (num 1)),
      set_self ''port10_rif_counter_out_octects'' (add (self ''port10_rif_counter_out_octects'') (add (length_of (var
        ''exp_pkt_lag'')) (num 4))),
      print [self ''dev_port5'', self ''dev_port10''],
      run (lib ''send_packet'' [self ''dev_port5'', var ''pkt_lag''] []),
      run (lib ''verify_packet'' [var ''exp_pkt_lag'', self ''dev_port10''] []),
      set_self ''lag1_rif_counter_in'' (add (self ''lag1_rif_counter_in'') (num 1)),
      set_self ''port10_rif_counter_out'' (add (self ''port10_rif_counter_out'') (num 1)),
      set_self ''port10_rif_counter_out_octects'' (add (self ''port10_rif_counter_out_octects'') (add (length_of (var
        ''exp_pkt_lag'')) (num 4))),
      print [self ''dev_port6'', self ''dev_port10''],
      run (lib ''send_packet'' [self ''dev_port6'', var ''pkt_lag''] []),
      run (lib ''verify_packet'' [var ''exp_pkt_lag'', self ''dev_port10''] []),
      set_self ''lag1_rif_counter_in'' (add (self ''lag1_rif_counter_in'') (num 1)),
      set_self ''port10_rif_counter_out'' (add (self ''port10_rif_counter_out'') (num 1)),
      set_self ''port10_rif_counter_out_octects'' (add (self ''port10_rif_counter_out_octects'') (add (length_of (var
        ''exp_pkt_lag'')) (num 4))),
      print [self ''dev_port24''],
      run (lib ''send_packet'' [self ''dev_port24'', var ''pkt_lag''] []),
      run (lib ''verify_no_other_packets'' [] [(''timeout'', num 1)])]"

definition Ipv4FibLagTest_tearDown :: "'d stmt" where
  "Ipv4FibLagTest_tearDown = block [
      run (invoke [] L3InterfaceTestHelper_tearDown)]"

definition Ipv6FibLagTest_setUp :: "'d stmt" where
  "Ipv6FibLagTest_setUp = block [
      run (invoke [] L3InterfaceTestHelper_setUp)]"

definition Ipv6FibLagTest_runTest :: "'d stmt" where
  "Ipv6FibLagTest_runTest = block [
      assign ''pkt'' (lib ''simple_tcpv6_packet'' [] [(''eth_dst'', str ROUTER_MAC), (''eth_src'', str ''00:22:22:22:22:22''),
        (''ipv6_dst'', str ''1234:5678:9abc:def0:1122:3344:5566:7788''), (''ipv6_src'', str ''2000::1''), (''ipv6_hlim'', num
        64)]),
      assign ''exp_pkt'' (lib ''simple_tcpv6_packet'' [] [(''eth_dst'', str ''00:33:22:33:44:55''), (''eth_src'', str
        ROUTER_MAC), (''ipv6_dst'', str ''1234:5678:9abc:def0:1122:3344:5566:7788''), (''ipv6_src'', str ''2000::1''),
        (''ipv6_hlim'', num 63)]),
      assign ''pkt_lag'' (lib ''simple_tcpv6_packet'' [] [(''eth_dst'', str ROUTER_MAC), (''eth_src'', str
        ''00:22:22:22:22:22''), (''ipv6_dst'', str ''1234:5678:9abc:def0:4422:1133:5577:99aa''), (''ipv6_src'', str
        ''1234:5678:9abc:def0:1122:3344:5566:7788''), (''ipv6_hlim'', num 64)]),
      assign ''exp_pkt_lag'' (lib ''simple_tcpv6_packet'' [] [(''eth_dst'', str ''00:11:22:33:44:55''), (''eth_src'', str
        ROUTER_MAC), (''ipv6_dst'', str ''1234:5678:9abc:def0:4422:1133:5577:99aa''), (''ipv6_src'', str
        ''1234:5678:9abc:def0:1122:3344:5566:7788''), (''ipv6_hlim'', num 63)]),
      print [self ''dev_port11''],
      run (lib ''send_packet'' [self ''dev_port11'', var ''pkt''] []),
      run (lib ''verify_packet_any_port'' [var ''exp_pkt'', list_of [self ''dev_port4'', self ''dev_port5'', self
        ''dev_port6'']] []),
      set_self ''port11_rif_counter_in'' (add (self ''port11_rif_counter_in'') (num 1)),
      set_self ''lag1_rif_counter_out'' (add (self ''lag1_rif_counter_out'') (num 1)),
      set_self ''port11_rif_counter_in_octects'' (add (self ''port11_rif_counter_in_octects'') (add (length_of (var ''pkt''))
        (num 4))),
      print [self ''dev_port4'', self ''dev_port10''],
      run (lib ''send_packet'' [self ''dev_port4'', var ''pkt_lag''] []),
      run (lib ''verify_packet'' [var ''exp_pkt_lag'', self ''dev_port10''] []),
      set_self ''lag1_rif_counter_in'' (add (self ''lag1_rif_counter_in'') (num 1)),
      set_self ''port10_rif_counter_out'' (add (self ''port10_rif_counter_out'') (num 1)),
      set_self ''port10_rif_counter_out_octects'' (add (self ''port10_rif_counter_out_octects'') (add (length_of (var
        ''exp_pkt_lag'')) (num 4))),
      print [self ''dev_port5'', self ''dev_port10''],
      run (lib ''send_packet'' [self ''dev_port5'', var ''pkt_lag''] []),
      run (lib ''verify_packet'' [var ''exp_pkt_lag'', self ''dev_port10''] []),
      set_self ''lag1_rif_counter_in'' (add (self ''lag1_rif_counter_in'') (num 1)),
      set_self ''port10_rif_counter_out'' (add (self ''port10_rif_counter_out'') (num 1)),
      set_self ''port10_rif_counter_out_octects'' (add (self ''port10_rif_counter_out_octects'') (add (length_of (var
        ''exp_pkt_lag'')) (num 4))),
      print [self ''dev_port6'', self ''dev_port10''],
      run (lib ''send_packet'' [self ''dev_port6'', var ''pkt_lag''] []),
      run (lib ''verify_packet'' [var ''exp_pkt_lag'', self ''dev_port10''] []),
      set_self ''lag1_rif_counter_in'' (add (self ''lag1_rif_counter_in'') (num 1)),
      set_self ''port10_rif_counter_out'' (add (self ''port10_rif_counter_out'') (num 1)),
      set_self ''port10_rif_counter_out_octects'' (add (self ''port10_rif_counter_out_octects'') (add (length_of (var
        ''exp_pkt_lag'')) (num 4))),
      print [self ''dev_port24''],
      run (lib ''send_packet'' [self ''dev_port24'', var ''pkt_lag''] []),
      run (lib ''verify_no_other_packets'' [] [(''timeout'', num 1)]),
      assign ''lag_member'' (api_create ''lag_member'' [(''lag_id'', self ''lag1''), (''port_id'', self ''port24'')]),
      print [self ''dev_port11''],
      run (lib ''send_packet'' [self ''dev_port11'', var ''pkt''] []),
      run (lib ''verify_packet_any_port'' [var ''exp_pkt'', list_of [self ''dev_port4'', self ''dev_port5'', self ''dev_port6'',
        self ''dev_port24'']] []),
      set_self ''port11_rif_counter_in'' (add (self ''port11_rif_counter_in'') (num 1)),
      set_self ''lag1_rif_counter_out'' (add (self ''lag1_rif_counter_out'') (num 1)),
      set_self ''port11_rif_counter_in_octects'' (add (self ''port11_rif_counter_in_octects'') (add (length_of (var ''pkt''))
        (num 4))),
      print [self ''dev_port4'', self ''dev_port10''],
      run (lib ''send_packet'' [self ''dev_port4'', var ''pkt_lag''] []),
      run (lib ''verify_packet'' [var ''exp_pkt_lag'', self ''dev_port10''] []),
      set_self ''lag1_rif_counter_in'' (add (self ''lag1_rif_counter_in'') (num 1)),
      set_self ''port10_rif_counter_out'' (add (self ''port10_rif_counter_out'') (num 1)),
      set_self ''port10_rif_counter_out_octects'' (add (self ''port10_rif_counter_out_octects'') (add (length_of (var
        ''exp_pkt_lag'')) (num 4))),
      print [self ''dev_port5'', self ''dev_port10''],
      run (lib ''send_packet'' [self ''dev_port5'', var ''pkt_lag''] []),
      run (lib ''verify_packet'' [var ''exp_pkt_lag'', self ''dev_port10''] []),
      set_self ''lag1_rif_counter_in'' (add (self ''lag1_rif_counter_in'') (num 1)),
      set_self ''port10_rif_counter_out'' (add (self ''port10_rif_counter_out'') (num 1)),
      set_self ''port10_rif_counter_out_octects'' (add (self ''port10_rif_counter_out_octects'') (add (length_of (var
        ''exp_pkt_lag'')) (num 4))),
      print [self ''dev_port6'', self ''dev_port10''],
      run (lib ''send_packet'' [self ''dev_port6'', var ''pkt_lag''] []),
      run (lib ''verify_packet'' [var ''exp_pkt_lag'', self ''dev_port10''] []),
      set_self ''lag1_rif_counter_in'' (add (self ''lag1_rif_counter_in'') (num 1)),
      set_self ''port10_rif_counter_out'' (add (self ''port10_rif_counter_out'') (num 1)),
      set_self ''port10_rif_counter_out_octects'' (add (self ''port10_rif_counter_out_octects'') (add (length_of (var
        ''exp_pkt_lag'')) (num 4))),
      print [self ''dev_port24'', self ''dev_port10''],
      run (lib ''send_packet'' [self ''dev_port24'', var ''pkt_lag''] []),
      run (lib ''verify_packet'' [var ''exp_pkt_lag'', self ''dev_port10''] []),
      set_self ''lag1_rif_counter_in'' (add (self ''lag1_rif_counter_in'') (num 1)),
      set_self ''port10_rif_counter_out'' (add (self ''port10_rif_counter_out'') (num 1)),
      set_self ''port10_rif_counter_out_octects'' (add (self ''port10_rif_counter_out_octects'') (add (length_of (var
        ''exp_pkt_lag'')) (num 4))),
      run (api_remove ''lag_member'' (var ''lag_member'')),
      print [self ''dev_port11''],
      run (lib ''send_packet'' [self ''dev_port11'', var ''pkt''] []),
      run (lib ''verify_packet_any_port'' [var ''exp_pkt'', list_of [self ''dev_port4'', self ''dev_port5'', self
        ''dev_port6'']] []),
      set_self ''port11_rif_counter_in'' (add (self ''port11_rif_counter_in'') (num 1)),
      set_self ''lag1_rif_counter_out'' (add (self ''lag1_rif_counter_out'') (num 1)),
      set_self ''port11_rif_counter_in_octects'' (add (self ''port11_rif_counter_in_octects'') (add (length_of (var ''pkt''))
        (num 4))),
      print [self ''dev_port4'', self ''dev_port10''],
      run (lib ''send_packet'' [self ''dev_port4'', var ''pkt_lag''] []),
      run (lib ''verify_packet'' [var ''exp_pkt_lag'', self ''dev_port10''] []),
      set_self ''lag1_rif_counter_in'' (add (self ''lag1_rif_counter_in'') (num 1)),
      set_self ''port10_rif_counter_out'' (add (self ''port10_rif_counter_out'') (num 1)),
      set_self ''port10_rif_counter_out_octects'' (add (self ''port10_rif_counter_out_octects'') (add (length_of (var
        ''exp_pkt_lag'')) (num 4))),
      print [self ''dev_port5'', self ''dev_port10''],
      run (lib ''send_packet'' [self ''dev_port5'', var ''pkt_lag''] []),
      run (lib ''verify_packet'' [var ''exp_pkt_lag'', self ''dev_port10''] []),
      set_self ''lag1_rif_counter_in'' (add (self ''lag1_rif_counter_in'') (num 1)),
      set_self ''port10_rif_counter_out'' (add (self ''port10_rif_counter_out'') (num 1)),
      set_self ''port10_rif_counter_out_octects'' (add (self ''port10_rif_counter_out_octects'') (add (length_of (var
        ''exp_pkt_lag'')) (num 4))),
      print [self ''dev_port6'', self ''dev_port10''],
      run (lib ''send_packet'' [self ''dev_port6'', var ''pkt_lag''] []),
      run (lib ''verify_packet'' [var ''exp_pkt_lag'', self ''dev_port10''] []),
      set_self ''lag1_rif_counter_in'' (add (self ''lag1_rif_counter_in'') (num 1)),
      set_self ''port10_rif_counter_out'' (add (self ''port10_rif_counter_out'') (num 1)),
      set_self ''port10_rif_counter_out_octects'' (add (self ''port10_rif_counter_out_octects'') (add (length_of (var
        ''exp_pkt_lag'')) (num 4))),
      print [self ''dev_port24''],
      run (lib ''send_packet'' [self ''dev_port24'', var ''pkt_lag''] []),
      run (lib ''verify_no_other_packets'' [] [(''timeout'', num 1)])]"

definition Ipv6FibLagTest_tearDown :: "'d stmt" where
  "Ipv6FibLagTest_tearDown = block [
      run (invoke [] L3InterfaceTestHelper_tearDown)]"

definition RifSharedMtuTest_setUp :: "'d stmt" where
  "RifSharedMtuTest_setUp = block [
      run (invoke [] L3InterfaceTestHelper_setUp)]"

definition RifSharedMtuTest_runTest :: "'d stmt" where
  "RifSharedMtuTest_runTest = block [
      assign ''port24_rif'' (api_create ''router_interface'' [(''type'', num SAI_ROUTER_INTERFACE_TYPE_PORT),
        (''virtual_router_id'', self ''default_vrf''), (''port_id'', self ''port24''), (''admin_v4_state'', bool True)]),
      assign ''mac_action'' (num SAI_PACKET_ACTION_FORWARD),
      assign ''dmac1'' (str ''00:11:22:33:44:66''),
      assign ''neighbor_entry1'' (struct ''sai_thrift_neighbor_entry_t'' [(''rif_id'', var ''port24_rif''), (''ip_address'',
        ip_address (str ''20.10.10.2''))]),
      run (api_create_entry ''neighbor_entry'' (var ''neighbor_entry1'') [(''dst_mac_address'', var ''dmac1'')]),
      assign ''nhop1'' (api_create ''next_hop'' [(''ip'', ip_address (str ''20.10.10.2'')), (''router_interface_id'', var
        ''port24_rif''), (''type'', num SAI_NEXT_HOP_TYPE_IP)]),
      assign ''route_entry1'' (struct ''sai_thrift_route_entry_t'' [(''vr_id'', self ''default_vrf''), (''destination'',
        ip_prefix (str ''20.10.10.1/32''))]),
      run (api_create_entry ''route_entry'' (var ''route_entry1'') [(''next_hop_id'', var ''nhop1'')]),
      assign ''mac_action'' (num SAI_PACKET_ACTION_FORWARD),
      assign ''dmac2'' (str ''00:11:22:33:44:77''),
      assign ''neighbor_entry2'' (struct ''sai_thrift_neighbor_entry_t'' [(''rif_id'', self ''vlan30_rif''), (''ip_address'',
        ip_address (str ''30.10.10.2''))]),
      run (api_create_entry ''neighbor_entry'' (var ''neighbor_entry2'') [(''dst_mac_address'', var ''dmac2'')]),
      assign ''nhop2'' (api_create ''next_hop'' [(''ip'', ip_address (str ''30.10.10.2'')), (''router_interface_id'', self
        ''vlan30_rif''), (''type'', num SAI_NEXT_HOP_TYPE_IP)]),
      assign ''route_entry2'' (struct ''sai_thrift_route_entry_t'' [(''vr_id'', self ''default_vrf''), (''destination'',
        ip_prefix (str ''30.10.10.1/32''))]),
      run (api_create_entry ''route_entry'' (var ''route_entry2'') [(''next_hop_id'', var ''nhop2'')]),
      assign ''fdb_entry'' (struct ''sai_thrift_fdb_entry_t'' [(''switch_id'', self ''switch_id''), (''mac_address'', var
        ''dmac2''), (''bv_id'', self ''vlan30'')]),
      run (api_create_entry ''fdb_entry'' (var ''fdb_entry'') [(''type'', num SAI_FDB_ENTRY_TYPE_STATIC), (''bridge_port_id'',
        self ''port20_bp''), (''packet_action'', var ''mac_action'')]),
      run (api_set ''port'' (self ''port20'') [(''port_vlan_id'', num 30)]),
      run (api_set ''router_interface'' (var ''port24_rif'') [(''mtu'', num 200)]),
      run (api_set ''router_interface'' (self ''vlan30_rif'') [(''mtu'', num 200)]),
      try_finally [
        assign ''pkt'' (lib ''simple_tcp_packet'' [] [(''eth_dst'', str ROUTER_MAC), (''eth_src'', str ''00:22:22:22:22:22''),
          (''ip_dst'', str ''20.10.10.1''), (''ip_src'', str ''192.168.0.1''), (''ip_id'', num 105), (''ip_ttl'', num 64),
          (''pktlen'', add (num 199) (num 14))]),
        assign ''exp_pkt'' (lib ''simple_tcp_packet'' [] [(''eth_dst'', str ''00:11:22:33:44:66''), (''eth_src'', str
          ROUTER_MAC), (''ip_dst'', str ''20.10.10.1''), (''ip_src'', str ''192.168.0.1''), (''ip_id'', num 105), (''ip_ttl'',
          num 63), (''pktlen'', add (num 199) (num 14))]),
        assign ''vlan_pkt'' (lib ''simple_tcp_packet'' [] [(''eth_dst'', str ROUTER_MAC), (''eth_src'', str
          ''00:22:22:22:22:22''), (''ip_dst'', str ''30.10.10.1''), (''ip_src'', str ''192.168.0.1''), (''ip_id'', num 105),
          (''ip_ttl'', num 64), (''pktlen'', add (num 199) (num 14))]),
        assign ''vlan_exp_pkt'' (lib ''simple_tcp_packet'' [] [(''eth_dst'', str ''00:11:22:33:44:77''), (''eth_src'', str
          ROUTER_MAC), (''ip_dst'', str ''30.10.10.1''), (''ip_src'', str ''192.168.0.1''), (''ip_id'', num 105), (''ip_ttl'',
          num 63), (''pktlen'', add (num 199) (num 14))]),
        print [self ''dev_port11'', self ''dev_port24''],
        run (lib ''send_packet'' [self ''dev_port11'', var ''pkt''] []),
        run (lib ''verify_packet'' [var ''exp_pkt'', self ''dev_port24''] []),
        set_self ''port11_rif_counter_in'' (add (self ''port11_rif_counter_in'') (num 1)),
        set_self ''port11_rif_counter_in_octects'' (add (self ''port11_rif_counter_in_octects'') (add (length_of (var ''pkt''))
          (num 4))),
        print [self ''dev_port11'', self ''dev_port20''],
        run (lib ''send_packet'' [self ''dev_port11'', var ''vlan_pkt''] []),
        run (lib ''verify_packet'' [var ''vlan_exp_pkt'', self ''dev_port20''] []),
        set_self ''port11_rif_counter_in'' (add (self ''port11_rif_counter_in'') (num 1)),
        set_self ''port11_rif_counter_in_octects'' (add (self ''port11_rif_counter_in_octects'') (add (length_of (var
          ''vlan_pkt'')) (num 4))),
        run (api_set ''router_interface'' (var ''port24_rif'') [(''mtu'', num 190)]),
        print [self ''dev_port11''],
        run (lib ''send_packet'' [self ''dev_port11'', var ''pkt''] []),
        run (lib ''verify_no_other_packets'' [] [(''timeout'', num 1)]),
        set_self ''port11_rif_counter_in'' (add (self ''port11_rif_counter_in'') (num 1)),
        set_self ''port11_rif_counter_in_octects'' (add (self ''port11_rif_counter_in_octects'') (add (length_of (var ''pkt''))
          (num 4))),
        print [self ''dev_port11'', self ''dev_port20''],
        run (lib ''send_packet'' [self ''dev_port11'', var ''vlan_pkt''] []),
        run (lib ''verify_packet'' [var ''vlan_exp_pkt'', self ''dev_port20''] []),
        set_self ''port11_rif_counter_in'' (add (self ''port11_rif_counter_in'') (num 1)),
        set_self ''port11_rif_counter_in_octects'' (add (self ''port11_rif_counter_in_octects'') (add (length_of (var
          ''vlan_pkt'')) (num 4))),
        run (api_set ''router_interface'' (self ''vlan30_rif'') [(''mtu'', num 190)]),
        print [self ''dev_port11''],
        run (lib ''send_packet'' [self ''dev_port11'', var ''pkt''] []),
        run (lib ''verify_no_other_packets'' [] [(''timeout'', num 1)]),
        set_self ''port11_rif_counter_in'' (add (self ''port11_rif_counter_in'') (num 1)),
        set_self ''port11_rif_counter_in_octects'' (add (self ''port11_rif_counter_in_octects'') (add (length_of (var ''pkt''))
          (num 4))),
        print [self ''dev_port11''],
        run (lib ''send_packet'' [self ''dev_port11'', var ''vlan_pkt''] []),
        run (lib ''verify_no_other_packets'' [] [(''timeout'', num 1)]),
        set_self ''port11_rif_counter_in'' (add (self ''port11_rif_counter_in'') (num 1)),
        set_self ''port11_rif_counter_in_octects'' (add (self ''port11_rif_counter_in_octects'') (add (length_of (var
          ''vlan_pkt'')) (num 4))),
        run (api_remove ''route_entry'' (var ''route_entry1'')),
        run (api_remove ''next_hop'' (var ''nhop1'')),
        run (api_remove ''neighbor_entry'' (var ''neighbor_entry1'')),
        run (api_remove ''router_interface'' (var ''port24_rif'')),
        print [self ''dev_port11''],
        run (lib ''send_packet'' [self ''dev_port11'', var ''vlan_pkt''] []),
        run (lib ''verify_no_other_packets'' [] [(''timeout'', num 1)]),
        set_self ''port11_rif_counter_in'' (add (self ''port11_rif_counter_in'') (num 1)),
        set_self ''port11_rif_counter_in_octects'' (add (self ''port11_rif_counter_in_octects'') (add (length_of (var
          ''vlan_pkt'')) (num 4))),
        assign ''port24_rif'' (api_create ''router_interface'' [(''type'', num SAI_ROUTER_INTERFACE_TYPE_PORT),
          (''virtual_router_id'', self ''default_vrf''), (''port_id'', self ''port24''), (''admin_v4_state'', bool True)]),
        assign ''mac_action'' (num SAI_PACKET_ACTION_FORWARD),
        assign ''dmac1'' (str ''00:11:22:33:44:66''),
        assign ''neighbor_entry1'' (struct ''sai_thrift_neighbor_entry_t'' [(''rif_id'', var ''port24_rif''), (''ip_address'',
          ip_address (str ''20.10.10.2''))]),
        run (api_create_entry ''neighbor_entry'' (var ''neighbor_entry1'') [(''dst_mac_address'', var ''dmac1'')]),
        assign ''nhop1'' (api_create ''next_hop'' [(''ip'', ip_address (str ''20.10.10.2'')), (''router_interface_id'', var
          ''port24_rif''), (''type'', num SAI_NEXT_HOP_TYPE_IP)]),
        assign ''route_entry1'' (struct ''sai_thrift_route_entry_t'' [(''vr_id'', self ''default_vrf''), (''destination'',
          ip_prefix (str ''20.10.10.1/32''))]),
        run (api_create_entry ''route_entry'' (var ''route_entry1'') [(''next_hop_id'', var ''nhop1'')]),
        print [self ''dev_port11'', self ''dev_port24''],
        run (lib ''send_packet'' [self ''dev_port11'', var ''pkt''] []),
        run (lib ''verify_packet'' [var ''exp_pkt'', self ''dev_port24''] []),
        set_self ''port11_rif_counter_in'' (add (self ''port11_rif_counter_in'') (num 1)),
        set_self ''port11_rif_counter_in_octects'' (add (self ''port11_rif_counter_in_octects'') (add (length_of (var ''pkt''))
          (num 4))),
        print [self ''dev_port11''],
        run (lib ''send_packet'' [self ''dev_port11'', var ''vlan_pkt''] []),
        run (lib ''verify_no_other_packets'' [] [(''timeout'', num 1)]),
        set_self ''port11_rif_counter_in'' (add (self ''port11_rif_counter_in'') (num 1)),
        set_self ''port11_rif_counter_in_octects'' (add (self ''port11_rif_counter_in_octects'') (add (length_of (var
          ''vlan_pkt'')) (num 4)))] [
        run (api_remove ''route_entry'' (var ''route_entry1'')),
        run (api_remove ''next_hop'' (var ''nhop1'')),
        run (api_remove ''neighbor_entry'' (var ''neighbor_entry1'')),
        run (api_remove ''router_interface'' (var ''port24_rif'')),
        run (api_set ''port'' (self ''port20'') [(''port_vlan_id'', num 0)]),
        run (api_remove ''fdb_entry'' (var ''fdb_entry'')),
        run (api_remove ''route_entry'' (var ''route_entry2'')),
        run (api_remove ''next_hop'' (var ''nhop2'')),
        run (api_remove ''neighbor_entry'' (var ''neighbor_entry2''))]]"

definition RifSharedMtuTest_tearDown :: "'d stmt" where
  "RifSharedMtuTest_tearDown = block [
      run (invoke [] L3InterfaceTestHelper_tearDown)]"

definition McastDisableTest_setUp :: "'d stmt" where
  "McastDisableTest_setUp = block [
      run (invoke [] L3InterfaceTestHelper_setUp)]"

definition McastDisableTest_runTest :: "'d stmt" where
  "McastDisableTest_runTest = block [
      assign ''dst_mcast_ip'' (str ''225.0.0.1''),
      assign ''dst_mcast_ipv6'' (str ''ff11::1111:1''),
      assign ''src_ip'' (str ''10.10.10.1''),
      assign ''src_ipv6'' (str ''2001:0db8::1111''),
      try_finally [
        assign ''ipmc_group'' (api_create ''ipmc_group'' []),
        assign ''rpf_group'' (api_create ''rpf_group'' []),
        assign ''ipmc_group_member1'' (api_create ''ipmc_group_member'' [(''ipmc_group_id'', var ''ipmc_group''),
          (''ipmc_output_id'', self ''port10_rif'')]),
        assign ''ipmc_group_member2'' (api_create ''ipmc_group_member'' [(''ipmc_group_id'', var ''ipmc_group''),
          (''ipmc_output_id'', self ''port12_rif'')]),
        assign ''ipmc_group_member3'' (api_create ''ipmc_group_member'' [(''ipmc_group_id'', var ''ipmc_group''),
          (''ipmc_output_id'', self ''port13_rif'')]),
        assign ''ipmc_entry'' (struct ''sai_thrift_ipmc_entry_t'' [(''switch_id'', self ''switch_id''), (''vr_id'', self
          ''default_vrf''), (''type'', num SAI_IPMC_ENTRY_TYPE_SG), (''source'', ip_address (var ''src_ip'')), (''destination'',
          ip_address (var ''dst_mcast_ip''))]),
        run (api_create_entry ''ipmc_entry'' (var ''ipmc_entry'') [(''packet_action'', num SAI_PACKET_ACTION_FORWARD),
          (''rpf_group_id'', var ''rpf_group''), (''output_group_id'', var ''ipmc_group'')]),
        assign ''ipmc_entry_v6'' (struct ''sai_thrift_ipmc_entry_t'' [(''switch_id'', self ''switch_id''), (''vr_id'', self
          ''default_vrf''), (''type'', num SAI_IPMC_ENTRY_TYPE_SG), (''source'', ip_address (var ''src_ipv6'')),
          (''destination'', ip_address (var ''dst_mcast_ipv6''))]),
        run (api_create_entry ''ipmc_entry'' (var ''ipmc_entry_v6'') [(''packet_action'', num SAI_PACKET_ACTION_FORWARD),
          (''rpf_group_id'', var ''rpf_group''), (''output_group_id'', var ''ipmc_group'')]),
        assign ''mcast_pkt'' (lib ''simple_tcp_packet'' [] [(''eth_dst'', str ''01:00:5e:11:22:33''), (''eth_src'', str
          ''00:22:22:22:22:22''), (''ip_dst'', var ''dst_mcast_ip''), (''ip_src'', var ''src_ip''), (''ip_id'', num 105),
          (''ip_ttl'', num 64)]),
        print [self ''dev_port11''],
        run (api_set ''router_interface'' (self ''port11_rif'') [(''v4_mcast_enable'', bool True)]),
        print [self ''dev_port11'', self ''dev_port10'', self ''dev_port12'', self ''dev_port13''],
        run (lib ''send_packet'' [self ''dev_port11'', var ''mcast_pkt''] []),
        run (lib ''verify_packets'' [var ''mcast_pkt'', list_of [self ''dev_port10'', self ''dev_port12'', self ''dev_port13'']]
          []),
        set_self ''port11_rif_counter_in'' (add (self ''port11_rif_counter_in'') (num 1)),
        set_self ''port10_rif_counter_out'' (add (self ''port10_rif_counter_out'') (num 1)),
        set_self ''port12_rif_counter_out'' (add (self ''port12_rif_counter_out'') (num 1)),
        set_self ''port13_rif_counter_out'' (add (self ''port13_rif_counter_out'') (num 1)),
        set_self ''port11_rif_counter_in_octects'' (add (self ''port11_rif_counter_in_octects'') (add (length_of (var
          ''mcast_pkt'')) (num 4))),
        set_self ''port10_rif_counter_out_octects'' (add (self ''port10_rif_counter_out_octects'') (add (length_of (var
          ''mcast_pkt'')) (num 4))),
        print [self ''dev_port11''],
        run (api_set ''router_interface'' (self ''port11_rif'') [(''v4_mcast_enable'', bool False)]),
        print [self ''dev_port11''],
        run (lib ''send_packet'' [self ''dev_port11'', var ''mcast_pkt''] []),
        run (lib ''verify_no_other_packets'' [] []),
        set_self ''port11_rif_counter_in'' (add (self ''port11_rif_counter_in'') (num 1)),
        set_self ''port11_rif_counter_in_octects'' (add (self ''port11_rif_counter_in_octects'') (add (length_of (var
          ''mcast_pkt'')) (num 4))),
        assign ''mcast_pkt_v6'' (lib ''simple_tcpv6_packet'' [] [(''eth_dst'', str ''33:33:00:11:22:33''), (''eth_src'', str
          ''00:22:22:22:22:22''), (''ipv6_dst'', var ''dst_mcast_ipv6''), (''ipv6_src'', var ''src_ipv6''), (''ipv6_hlim'', num
          64)]),
        print [self ''dev_port11''],
        run (api_set ''router_interface'' (self ''port11_rif'') [(''v6_mcast_enable'', bool True)]),
        print [self ''dev_port11'', self ''dev_port10'', self ''dev_port12'', self ''dev_port13''],
        run (lib ''send_packet'' [self ''dev_port11'', var ''mcast_pkt_v6''] []),
        run (lib ''verify_packets'' [var ''mcast_pkt_v6'', list_of [self ''dev_port10'', self ''dev_port12'', self
          ''dev_port13'']] []),
        set_self ''port11_rif_counter_in'' (add (self ''port11_rif_counter_in'') (num 1)),
        set_self ''port10_rif_counter_out'' (add (self ''port10_rif_counter_out'') (num 1)),
        set_self ''port12_rif_counter_out'' (add (self ''port12_rif_counter_out'') (num 1)),
        set_self ''port13_rif_counter_out'' (add (self ''port13_rif_counter_out'') (num 1)),
        set_self ''port11_rif_counter_in_octects'' (add (self ''port11_rif_counter_in_octects'') (add (length_of (var
          ''mcast_pkt_v6'')) (num 4))),
        set_self ''port10_rif_counter_out_octects'' (add (self ''port10_rif_counter_out_octects'') (add (length_of (var
          ''mcast_pkt_v6'')) (num 4))),
        print [self ''dev_port11''],
        run (api_set ''router_interface'' (self ''port11_rif'') [(''v6_mcast_enable'', bool False)]),
        print [self ''dev_port11''],
        run (lib ''send_packet'' [self ''dev_port11'', var ''mcast_pkt_v6''] []),
        run (lib ''verify_no_other_packets'' [] []),
        set_self ''port11_rif_counter_in'' (add (self ''port11_rif_counter_in'') (num 1)),
        set_self ''port11_rif_counter_in_octects'' (add (self ''port11_rif_counter_in_octects'') (add (length_of (var
          ''mcast_pkt_v6'')) (num 4)))] [
        run (api_remove ''ipmc_entry'' (var ''ipmc_entry_v6'')),
        run (api_remove ''ipmc_entry'' (var ''ipmc_entry'')),
        run (api_remove ''ipmc_group_member'' (var ''ipmc_group_member3'')),
        run (api_remove ''ipmc_group_member'' (var ''ipmc_group_member2'')),
        run (api_remove ''ipmc_group_member'' (var ''ipmc_group_member1'')),
        run (api_remove ''rpf_group'' (var ''rpf_group'')),
        run (api_remove ''ipmc_group'' (var ''ipmc_group''))]]"

definition McastDisableTest_tearDown :: "'d stmt" where
  "McastDisableTest_tearDown = block [
      run (invoke [] L3InterfaceTestHelper_tearDown)]"

definition DuplicatePortRifCreationTest_setUp :: "'d stmt" where
  "DuplicatePortRifCreationTest_setUp = block [
      run (invoke [] L3InterfaceTestHelper_setUp)]"

definition DuplicatePortRifCreationTest_runTest :: "'d stmt" where
  "DuplicatePortRifCreationTest_runTest = block [
      assign ''existing_rif_port'' (self ''port10''),
      assign ''existing_rif_lag'' (self ''lag3''),
      try_finally [
        assign ''dupl_port_rif'' (api_create ''router_interface'' [(''type'', num SAI_ROUTER_INTERFACE_TYPE_PORT),
          (''virtual_router_id'', self ''default_vrf''), (''port_id'', var ''existing_rif_port'')]),
        assert (no (ne (var ''dupl_port_rif'') (num 0))),
        assign ''dupl_lag_rif'' (api_create ''router_interface'' [(''type'', num SAI_ROUTER_INTERFACE_TYPE_PORT),
          (''virtual_router_id'', self ''default_vrf''), (''port_id'', var ''existing_rif_lag'')]),
        assert (no (ne (var ''dupl_lag_rif'') (num 0)))] [
        if_else (var ''dupl_port_rif'') [
          run (api_remove ''router_interface'' (var ''dupl_port_rif''))] [],
        if_else (var ''dupl_lag_rif'') [
          run (api_remove ''router_interface'' (var ''dupl_lag_rif''))] []]]"

definition DuplicatePortRifCreationTest_tearDown :: "'d stmt" where
  "DuplicatePortRifCreationTest_tearDown = block [
      run (invoke [] L3InterfaceTestHelper_tearDown)]"

definition L3InterfaceSimplifiedTestHelper_setUp :: "'d stmt" where
  "L3InterfaceSimplifiedTestHelper_setUp = block [
      super_setUp,
      assign ''dmac1'' (str ''00:11:22:33:44:55''),
      run (create_rifs [0, 1]),
      set_self ''port1_rif_counter_in'' (num 0),
      set_self ''port0_rif_counter_out'' (num 0),
      set_self ''port0_rif_counter_out_octects'' (num 0),
      set_self ''port1_rif_counter_in_octects'' (num 0),
      set_self ''nhop1'' (api_create ''next_hop'' [(''ip'', ip_address (str ''10.10.10.2'')), (''router_interface_id'', self
        ''port0_rif''), (''type'', num SAI_NEXT_HOP_TYPE_IP)]),
      set_self ''neighbor_entry1'' (struct ''sai_thrift_neighbor_entry_t'' [(''rif_id'', self ''port0_rif''), (''ip_address'',
        ip_address (str ''10.10.10.2''))]),
      run (api_create_entry ''neighbor_entry'' (self ''neighbor_entry1'') [(''dst_mac_address'', var ''dmac1'')]),
      set_self ''route_entry0'' (struct ''sai_thrift_route_entry_t'' [(''vr_id'', self ''default_vrf''), (''destination'',
        ip_prefix (str ''10.10.10.1/32''))]),
      run (api_create_entry ''route_entry'' (self ''route_entry0'') [(''next_hop_id'', self ''nhop1'')]),
      set_self ''route_entry0_lpm'' (struct ''sai_thrift_route_entry_t'' [(''vr_id'', self ''default_vrf''), (''destination'',
        ip_prefix (str ''11.11.11.0/24''))]),
      run (api_create_entry ''route_entry'' (self ''route_entry0_lpm'') [(''next_hop_id'', self ''nhop1'')]),
      set_self ''route_entry1'' (struct ''sai_thrift_route_entry_t'' [(''vr_id'', self ''default_vrf''), (''destination'',
        ip_prefix (str ''1234:5678:9abc:def0:4422:1133:5577:99aa/128''))]),
      run (api_create_entry ''route_entry'' (self ''route_entry1'') [(''next_hop_id'', self ''nhop1'')]),
      set_self ''route_entry1_lpm'' (struct ''sai_thrift_route_entry_t'' [(''vr_id'', self ''default_vrf''), (''destination'',
        ip_prefix (str ''4000::0/65''))]),
      run (api_create_entry ''route_entry'' (self ''route_entry1_lpm'') [(''next_hop_id'', self ''nhop1'')])]"

definition L3InterfaceSimplifiedTestHelper_tearDown :: "'d stmt" where
  "L3InterfaceSimplifiedTestHelper_tearDown = block [
      run (api_remove ''route_entry'' (self ''route_entry0'')),
      run (api_remove ''route_entry'' (self ''route_entry0_lpm'')),
      run (api_remove ''route_entry'' (self ''route_entry1'')),
      run (api_remove ''route_entry'' (self ''route_entry1_lpm'')),
      run (api_remove ''next_hop'' (self ''nhop1'')),
      run (api_remove ''neighbor_entry'' (self ''neighbor_entry1'')),
      run destroy_rifs,
      super_tearDown]"

definition MacUpdateTest_setUp :: "'d stmt" where
  "MacUpdateTest_setUp = block [
      run (invoke [] L3InterfaceSimplifiedTestHelper_setUp)]"

definition MacUpdateTest_runTest :: "'d stmt" where
  "MacUpdateTest_runTest = block [
      assign ''new_router_mac'' (str ''00:77:66:55:44:44''),
      assign ''pkt'' (lib ''simple_tcp_packet'' [] [(''eth_dst'', str ROUTER_MAC), (''eth_src'', str ''00:22:22:22:22:22''),
        (''ip_dst'', str ''11.11.11.1''), (''ip_src'', str ''192.168.0.1''), (''ip_id'', num 105), (''ip_ttl'', num 64)]),
      assign ''exp_pkt'' (lib ''simple_tcp_packet'' [] [(''eth_dst'', str ''00:11:22:33:44:55''), (''eth_src'', str ROUTER_MAC),
        (''ip_dst'', str ''11.11.11.1''), (''ip_src'', str ''192.168.0.1''), (''ip_id'', num 105), (''ip_ttl'', num 63)]),
      assign ''pkt1'' (lib ''simple_tcp_packet'' [] [(''eth_dst'', var ''new_router_mac''), (''eth_src'', str
        ''00:22:22:22:22:22''), (''ip_dst'', str ''11.11.11.1''), (''ip_src'', str ''192.168.0.1''), (''ip_id'', num 105),
        (''ip_ttl'', num 64)]),
      assign ''exp_pkt1'' (lib ''simple_tcp_packet'' [] [(''eth_dst'', str ''00:11:22:33:44:55''), (''eth_src'', str
        ROUTER_MAC), (''ip_dst'', str ''11.11.11.1''), (''ip_src'', str ''192.168.0.1''), (''ip_id'', num 105), (''ip_ttl'', num
        63)]),
      print [self ''dev_port1'', str ROUTER_MAC],
      run (lib ''send_packet'' [self ''dev_port1'', var ''pkt''] []),
      run (lib ''verify_packet'' [var ''exp_pkt'', self ''dev_port0''] []),
      set_self ''port1_rif_counter_in'' (add (self ''port1_rif_counter_in'') (num 1)),
      set_self ''port0_rif_counter_out'' (add (self ''port0_rif_counter_out'') (num 1)),
      set_self ''port1_rif_counter_in_octects'' (add (self ''port1_rif_counter_in_octects'') (add (length_of (var ''pkt'')) (num
        4))),
      set_self ''port0_rif_counter_out_octects'' (add (self ''port0_rif_counter_out_octects'') (add (length_of (var
        ''exp_pkt'')) (num 4))),
      print [var ''new_router_mac''],
      run (api_set ''router_interface'' (self ''port1_rif'') [(''src_mac_address'', var ''new_router_mac'')]),
      assign ''attrs'' (api_get ''router_interface'' (self ''port1_rif'') [(''src_mac_address'', bool True)]),
      assert_eq (item (var ''attrs'') (str ''src_mac_address'')) (var ''new_router_mac''),
      print [self ''dev_port1'', str ROUTER_MAC],
      run (lib ''send_packet'' [self ''dev_port1'', var ''pkt''] []),
      run (lib ''verify_packet'' [var ''exp_pkt'', self ''dev_port0''] []),
      set_self ''port1_rif_counter_in'' (add (self ''port1_rif_counter_in'') (num 1)),
      set_self ''port0_rif_counter_out'' (add (self ''port0_rif_counter_out'') (num 1)),
      set_self ''port1_rif_counter_in_octects'' (add (self ''port1_rif_counter_in_octects'') (add (length_of (var ''pkt'')) (num
        4))),
      set_self ''port0_rif_counter_out_octects'' (add (self ''port0_rif_counter_out_octects'') (add (length_of (var
        ''exp_pkt'')) (num 4))),
      print [self ''dev_port1'', var ''new_router_mac''],
      run (lib ''send_packet'' [self ''dev_port1'', var ''pkt1''] []),
      run (lib ''verify_packet'' [var ''exp_pkt1'', self ''dev_port0''] []),
      set_self ''port1_rif_counter_in'' (add (self ''port1_rif_counter_in'') (num 1)),
      set_self ''port0_rif_counter_out'' (add (self ''port0_rif_counter_out'') (num 1)),
      set_self ''port1_rif_counter_in_octects'' (add (self ''port1_rif_counter_in_octects'') (add (length_of (var ''pkt1''))
        (num 4))),
      set_self ''port0_rif_counter_out_octects'' (add (self ''port0_rif_counter_out_octects'') (add (length_of (var
        ''exp_pkt1'')) (num 4))),
      print [str ROUTER_MAC],
      run (api_set ''router_interface'' (self ''port1_rif'') [(''src_mac_address'', str ROUTER_MAC)]),
      assign ''attrs'' (api_get ''router_interface'' (self ''port1_rif'') [(''src_mac_address'', bool True)]),
      assert_eq (item (var ''attrs'') (str ''src_mac_address'')) (str ROUTER_MAC),
      print [self ''dev_port1'', var ''new_router_mac''],
      run (lib ''send_packet'' [self ''dev_port1'', var ''pkt1''] []),
      run (lib ''verify_no_other_packets'' [] [(''timeout'', num 1)]),
      set_self ''port1_rif_counter_in'' (add (self ''port1_rif_counter_in'') (num 1)),
      set_self ''port1_rif_counter_in_octects'' (add (self ''port1_rif_counter_in_octects'') (add (length_of (var ''pkt1''))
        (num 4))),
      print [self ''dev_port1'', str ROUTER_MAC],
      run (lib ''send_packet'' [self ''dev_port1'', var ''pkt''] []),
      run (lib ''verify_packet'' [var ''exp_pkt'', self ''dev_port0''] []),
      set_self ''port1_rif_counter_in'' (add (self ''port1_rif_counter_in'') (num 1)),
      set_self ''port0_rif_counter_out'' (add (self ''port0_rif_counter_out'') (num 1)),
      set_self ''port1_rif_counter_in_octects'' (add (self ''port1_rif_counter_in_octects'') (add (length_of (var ''pkt'')) (num
        4))),
      set_self ''port0_rif_counter_out_octects'' (add (self ''port0_rif_counter_out_octects'') (add (length_of (var
        ''exp_pkt'')) (num 4)))]"

definition MacUpdateTest_tearDown :: "'d stmt" where
  "MacUpdateTest_tearDown = block [
      run (invoke [] L3InterfaceSimplifiedTestHelper_tearDown)]"

definition Ipv4FibLPMTest_setUp :: "'d stmt" where
  "Ipv4FibLPMTest_setUp = block [
      run (invoke [] L3InterfaceSimplifiedTestHelper_setUp)]"

definition Ipv4FibLPMTest_runTest :: "'d stmt" where
  "Ipv4FibLPMTest_runTest = block [
      assign ''pkt'' (lib ''simple_tcp_packet'' [] [(''eth_dst'', str ROUTER_MAC), (''eth_src'', str ''00:22:22:22:22:22''),
        (''ip_dst'', str ''11.11.11.1''), (''ip_src'', str ''192.168.0.1''), (''ip_id'', num 105), (''ip_ttl'', num 64)]),
      assign ''exp_pkt'' (lib ''simple_tcp_packet'' [] [(''eth_dst'', str ''00:11:22:33:44:55''), (''eth_src'', str ROUTER_MAC),
        (''ip_dst'', str ''11.11.11.1''), (''ip_src'', str ''192.168.0.1''), (''ip_id'', num 105), (''ip_ttl'', num 63)]),
      print [self ''dev_port1'', self ''dev_port0''],
      run (lib ''send_packet'' [self ''dev_port1'', var ''pkt''] []),
      run (lib ''verify_packet'' [var ''exp_pkt'', self ''dev_port0''] []),
      set_self ''port1_rif_counter_in'' (add (self ''port1_rif_counter_in'') (num 1)),
      set_self ''port0_rif_counter_out'' (add (self ''port0_rif_counter_out'') (num 1)),
      set_self ''port1_rif_counter_in_octects'' (add (self ''port1_rif_counter_in_octects'') (add (length_of (var ''pkt'')) (num
        4))),
      set_self ''port0_rif_counter_out_octects'' (add (self ''port0_rif_counter_out_octects'') (add (length_of (var
        ''exp_pkt'')) (num 4)))]"

definition Ipv4FibLPMTest_tearDown :: "'d stmt" where
  "Ipv4FibLPMTest_tearDown = block [
      run (invoke [] L3InterfaceSimplifiedTestHelper_tearDown)]"

definition Ipv4FibTest_setUp :: "'d stmt" where
  "Ipv4FibTest_setUp = block [
      run (invoke [] L3InterfaceSimplifiedTestHelper_setUp)]"

definition Ipv4FibTest_runTest :: "'d stmt" where
  "Ipv4FibTest_runTest = block [
      assign ''pkt'' (lib ''simple_tcp_packet'' [] [(''eth_dst'', str ROUTER_MAC), (''eth_src'', str ''00:22:22:22:22:22''),
        (''ip_dst'', str ''11.11.11.1''), (''ip_src'', str ''192.168.0.1''), (''ip_id'', num 105), (''ip_ttl'', num 64)]),
      assign ''exp_pkt'' (lib ''simple_tcp_packet'' [] [(''eth_dst'', str ''00:11:22:33:44:55''), (''eth_src'', str ROUTER_MAC),
        (''ip_dst'', str ''11.11.11.1''), (''ip_src'', str ''192.168.0.1''), (''ip_id'', num 105), (''ip_ttl'', num 63)]),
      assign ''gre_pkt'' (lib ''ipv4_erspan_pkt'' [] [(''eth_dst'', str ROUTER_MAC), (''eth_src'', str ''00:22:22:22:22:22''),
        (''ip_dst'', str ''11.11.11.1''), (''ip_src'', str ''192.168.0.1''), (''ip_id'', num 0), (''ip_ttl'', num 64),
        (''ip_flags'', num 0), (''version'', num 2), (''mirror_id'', num 1), (''sgt_other'', num 4), (''inner_frame'', var
        ''pkt'')]),
      assign ''exp_gre_pkt'' (lib ''ipv4_erspan_pkt'' [] [(''eth_dst'', str ''00:11:22:33:44:55''), (''eth_src'', str
        ROUTER_MAC), (''ip_dst'', str ''11.11.11.1''), (''ip_src'', str ''192.168.0.1''), (''ip_id'', num 0), (''ip_ttl'', num
        63), (''ip_flags'', num 0), (''version'', num 2), (''mirror_id'', num 1), (''sgt_other'', num 4), (''inner_frame'', var
        ''pkt'')]),
      print [self ''dev_port1'', self ''dev_port0''],
      run (lib ''send_packet'' [self ''dev_port1'', var ''pkt''] []),
      run (lib ''verify_packet'' [var ''exp_pkt'', self ''dev_port0''] []),
      set_self ''port1_rif_counter_in'' (add (self ''port1_rif_counter_in'') (num 1)),
      set_self ''port0_rif_counter_out'' (add (self ''port0_rif_counter_out'') (num 1)),
      set_self ''port1_rif_counter_in_octects'' (add (self ''port1_rif_counter_in_octects'') (add (length_of (var ''pkt'')) (num
        4))),
      set_self ''port0_rif_counter_out_octects'' (add (self ''port0_rif_counter_out_octects'') (add (length_of (var
        ''exp_pkt'')) (num 4))),
      print [self ''dev_port1'', self ''dev_port0''],
      run (lib ''send_packet'' [self ''dev_port1'', var ''gre_pkt''] []),
      run (lib ''verify_packet'' [var ''exp_gre_pkt'', self ''dev_port0''] []),
      set_self ''port1_rif_counter_in'' (add (self ''port1_rif_counter_in'') (num 1)),
      set_self ''port0_rif_counter_out'' (add (self ''port0_rif_counter_out'') (num 1)),
      set_self ''port1_rif_counter_in_octects'' (add (self ''port1_rif_counter_in_octects'') (add (length_of (var ''gre_pkt''))
        (num 4))),
      set_self ''port0_rif_counter_out_octects'' (add (self ''port0_rif_counter_out_octects'') (add (length_of (var
        ''exp_gre_pkt'')) (num 4)))]"

definition Ipv4FibTest_tearDown :: "'d stmt" where
  "Ipv4FibTest_tearDown = block [
      run (invoke [] L3InterfaceSimplifiedTestHelper_tearDown)]"

definition Ipv4DisableTest_setUp :: "'d stmt" where
  "Ipv4DisableTest_setUp = block [
      run (invoke [] L3InterfaceSimplifiedTestHelper_setUp)]"

definition Ipv4DisableTest_runTest :: "'d stmt" where
  "Ipv4DisableTest_runTest = block [
      assign ''pkt'' (lib ''simple_tcp_packet'' [] [(''eth_dst'', str ROUTER_MAC), (''eth_src'', str ''00:22:22:22:22:22''),
        (''ip_dst'', str ''10.10.10.1''), (''ip_src'', str ''192.168.0.1''), (''ip_id'', num 105), (''ip_ttl'', num 64)]),
      assign ''exp_pkt'' (lib ''simple_tcp_packet'' [] [(''eth_dst'', str ''00:11:22:33:44:55''), (''eth_src'', str ROUTER_MAC),
        (''ip_dst'', str ''10.10.10.1''), (''ip_src'', str ''192.168.0.1''), (''ip_id'', num 105), (''ip_ttl'', num 63)]),
      print [self ''dev_port1''],
      run (lib ''send_packet'' [self ''dev_port1'', var ''pkt''] []),
      run (lib ''verify_packet'' [var ''exp_pkt'', self ''dev_port0''] []),
      set_self ''port1_rif_counter_in'' (add (self ''port1_rif_counter_in'') (num 1)),
      set_self ''port0_rif_counter_out'' (add (self ''port0_rif_counter_out'') (num 1)),
      set_self ''port1_rif_counter_in_octects'' (add (self ''port1_rif_counter_in_octects'') (add (length_of (var ''pkt'')) (num
        4))),
      set_self ''port0_rif_counter_out_octects'' (add (self ''port0_rif_counter_out_octects'') (add (length_of (var
        ''exp_pkt'')) (num 4))),
      run (api_set ''router_interface'' (self ''port1_rif'') [(''admin_v4_state'', bool False)]),
      sleep_for (num 3),
      assign ''initial_stats'' (query ''sai_thrift_get_port_stats'' [self ''port1''] []),
      assign ''if_in_discards_pre'' (item (var ''initial_stats'') (str ''SAI_PORT_STAT_IF_IN_DISCARDS'')),
      print [self ''dev_port1''],
      run (lib ''send_packet'' [self ''dev_port1'', var ''pkt''] []),
      run (lib ''verify_no_other_packets'' [] [(''timeout'', num 3)]),
      assign ''stats'' (query ''sai_thrift_get_port_stats'' [self ''port1''] []),
      assign ''if_in_discards'' (item (var ''stats'') (str ''SAI_PORT_STAT_IF_IN_DISCARDS'')),
      assert (eq (add (var ''if_in_discards_pre'') (num 1)) (var ''if_in_discards'')),
      set_self ''port1_rif_counter_in'' (add (self ''port1_rif_counter_in'') (num 1)),
      set_self ''port1_rif_counter_in_octects'' (add (self ''port1_rif_counter_in_octects'') (add (length_of (var ''pkt'')) (num
        4))),
      run (api_set ''router_interface'' (self ''port1_rif'') [(''admin_v4_state'', bool True)]),
      print [self ''dev_port1''],
      run (lib ''send_packet'' [self ''dev_port1'', var ''pkt''] []),
      run (lib ''verify_packet'' [var ''exp_pkt'', self ''dev_port0''] []),
      set_self ''port1_rif_counter_in'' (add (self ''port1_rif_counter_in'') (num 1)),
      set_self ''port0_rif_counter_out'' (add (self ''port0_rif_counter_out'') (num 1)),
      set_self ''port1_rif_counter_in_octects'' (add (self ''port1_rif_counter_in_octects'') (add (length_of (var ''pkt'')) (num
        4))),
      set_self ''port0_rif_counter_out_octects'' (add (self ''port0_rif_counter_out_octects'') (add (length_of (var
        ''exp_pkt'')) (num 4)))]"

definition Ipv4DisableTest_tearDown :: "'d stmt" where
  "Ipv4DisableTest_tearDown = block [
      run (invoke [] L3InterfaceSimplifiedTestHelper_tearDown)]"

definition RifMyIPTest_setUp :: "'d stmt" where
  "RifMyIPTest_setUp = block [
      run (invoke [] L3InterfaceSimplifiedTestHelper_setUp)]"

definition RifMyIPTest_runTest :: "'d stmt" where
  "RifMyIPTest_runTest = block [
      try_finally [
        assign ''sw_attr'' (api_get ''switch'' none [(''cpu_port'', bool True)]),
        assign ''cpu_port'' (item (var ''sw_attr'') (str ''cpu_port'')),
        assign ''ip2me_route'' (struct ''sai_thrift_route_entry_t'' [(''vr_id'', self ''default_vrf''), (''destination'',
          ip_prefix (str ''10.10.20.1/32''))]),
        run (api_create_entry ''route_entry'' (var ''ip2me_route'') [(''next_hop_id'', var ''cpu_port'')]),
        assign ''myip_trap_group'' (api_create ''hostif_trap_group'' [(''admin_state'', bool True), (''queue'', num 4)]),
        assign ''myip_trap'' (api_create ''hostif_trap'' [(''trap_group'', var ''myip_trap_group''), (''packet_action'', num
          SAI_PACKET_ACTION_TRAP), (''trap_type'', num SAI_HOSTIF_TRAP_TYPE_IP2ME)]),
        assert (ne (var ''myip_trap'') (num 0)),
        assign ''pkt'' (lib ''simple_tcp_packet'' [] [(''eth_dst'', str ROUTER_MAC), (''eth_src'', str ''00:22:22:22:22:22''),
          (''ip_dst'', str ''10.10.20.1''), (''ip_src'', str ''30.30.0.1''), (''ip_id'', num 105), (''ip_ttl'', num 64),
          (''pktlen'', num 100)]),
        assign ''pre_stats'' (query ''sai_thrift_get_queue_stats'' [self ''cpu_queue4''] []),
        run (lib ''send_packet'' [self ''dev_port1'', var ''pkt''] []),
        sleep_for (num 4),
        assign ''post_stats'' (query ''sai_thrift_get_queue_stats'' [self ''cpu_queue4''] []),
        assert_eq (item (var ''post_stats'') (str ''SAI_QUEUE_STAT_PACKETS'')) (add (item (var ''pre_stats'') (str
          ''SAI_QUEUE_STAT_PACKETS'')) (num 1))] [
        run (api_remove ''hostif_trap'' (var ''myip_trap'')),
        run (api_remove ''hostif_trap_group'' (var ''myip_trap_group'')),
        run (api_remove ''route_entry'' (var ''ip2me_route''))]]"

definition RifMyIPTest_tearDown :: "'d stmt" where
  "RifMyIPTest_tearDown = block [
      run (invoke [] L3InterfaceSimplifiedTestHelper_tearDown)]"

definition Ipv6DisableTest_setUp :: "'d stmt" where
  "Ipv6DisableTest_setUp = block [
      run (invoke [] L3InterfaceSimplifiedTestHelper_setUp)]"

definition Ipv6DisableTest_runTest :: "'d stmt" where
  "Ipv6DisableTest_runTest = block [
      assign ''pkt'' (lib ''simple_tcpv6_packet'' [] [(''eth_dst'', str ROUTER_MAC), (''eth_src'', str ''00:22:22:22:22:22''),
        (''ipv6_dst'', str ''1234:5678:9abc:def0:4422:1133:5577:99aa''), (''ipv6_src'', str ''2000::1''), (''ipv6_hlim'', num
        64)]),
      assign ''exp_pkt'' (lib ''simple_tcpv6_packet'' [] [(''eth_dst'', str ''00:11:22:33:44:55''), (''eth_src'', str
        ROUTER_MAC), (''ipv6_dst'', str ''1234:5678:9abc:def0:4422:1133:5577:99aa''), (''ipv6_src'', str ''2000::1''),
        (''ipv6_hlim'', num 63)]),
      print [self ''dev_port1''],
      run (lib ''send_packet'' [self ''dev_port1'', var ''pkt''] []),
      run (lib ''verify_packet'' [var ''exp_pkt'', self ''dev_port0''] []),
      set_self ''port1_rif_counter_in'' (add (self ''port1_rif_counter_in'') (num 1)),
      set_self ''port0_rif_counter_out'' (add (self ''port0_rif_counter_out'') (num 1)),
      set_self ''port1_rif_counter_in_octects'' (add (self ''port1_rif_counter_in_octects'') (add (length_of (var ''pkt'')) (num
        4))),
      set_self ''port0_rif_counter_out_octects'' (add (self ''port0_rif_counter_out_octects'') (add (length_of (var
        ''exp_pkt'')) (num 4))),
      run (api_set ''router_interface'' (self ''port1_rif'') [(''admin_v6_state'', bool False)]),
      assign ''initial_stats'' (query ''sai_thrift_get_port_stats'' [self ''port1''] []),
      assign ''if_in_discards_pre'' (item (var ''initial_stats'') (str ''SAI_PORT_STAT_IF_IN_DISCARDS'')),
      print [self ''dev_port1''],
      run (lib ''send_packet'' [self ''dev_port1'', var ''pkt''] []),
      run (lib ''verify_no_other_packets'' [] [(''timeout'', num 1)]),
      assign ''stats'' (query ''sai_thrift_get_port_stats'' [self ''port1''] []),
      assign ''if_in_discards'' (item (var ''stats'') (str ''SAI_PORT_STAT_IF_IN_DISCARDS'')),
      assert (eq (add (var ''if_in_discards_pre'') (num 1)) (var ''if_in_discards'')),
      set_self ''port1_rif_counter_in'' (add (self ''port1_rif_counter_in'') (num 1)),
      set_self ''port1_rif_counter_in_octects'' (add (self ''port1_rif_counter_in_octects'') (add (length_of (var ''pkt'')) (num
        4))),
      run (api_set ''router_interface'' (self ''port1_rif'') [(''admin_v6_state'', bool True)]),
      print [self ''dev_port1''],
      run (lib ''send_packet'' [self ''dev_port1'', var ''pkt''] []),
      run (lib ''verify_packet'' [var ''exp_pkt'', self ''dev_port0''] []),
      set_self ''port1_rif_counter_in'' (add (self ''port1_rif_counter_in'') (num 1)),
      set_self ''port0_rif_counter_out'' (add (self ''port0_rif_counter_out'') (num 1)),
      set_self ''port1_rif_counter_in_octects'' (add (self ''port1_rif_counter_in_octects'') (add (length_of (var ''pkt'')) (num
        4))),
      set_self ''port0_rif_counter_out_octects'' (add (self ''port0_rif_counter_out_octects'') (add (length_of (var
        ''exp_pkt'')) (num 4)))]"

definition Ipv6DisableTest_tearDown :: "'d stmt" where
  "Ipv6DisableTest_tearDown = block [
      run (invoke [] L3InterfaceSimplifiedTestHelper_tearDown)]"

definition Ipv6FibTest_setUp :: "'d stmt" where
  "Ipv6FibTest_setUp = block [
      run (invoke [] L3InterfaceSimplifiedTestHelper_setUp)]"

definition Ipv6FibTest_runTest :: "'d stmt" where
  "Ipv6FibTest_runTest = block [
      assign ''pkt'' (lib ''simple_tcpv6_packet'' [] [(''eth_dst'', str ROUTER_MAC), (''eth_src'', str ''00:22:22:22:22:22''),
        (''ipv6_dst'', str ''1234:5678:9abc:def0:4422:1133:5577:99aa''), (''ipv6_src'', str ''2000::1''), (''ipv6_hlim'', num
        64)]),
      assign ''exp_pkt'' (lib ''simple_tcpv6_packet'' [] [(''eth_dst'', str ''00:11:22:33:44:55''), (''eth_src'', str
        ROUTER_MAC), (''ipv6_dst'', str ''1234:5678:9abc:def0:4422:1133:5577:99aa''), (''ipv6_src'', str ''2000::1''),
        (''ipv6_hlim'', num 63)]),
      print [self ''dev_port1'', self ''dev_port0''],
      run (lib ''send_packet'' [self ''dev_port1'', var ''pkt''] []),
      run (lib ''verify_packet'' [var ''exp_pkt'', self ''dev_port0''] []),
      set_self ''port1_rif_counter_in'' (add (self ''port1_rif_counter_in'') (num 1)),
      set_self ''port0_rif_counter_out'' (add (self ''port0_rif_counter_out'') (num 1)),
      set_self ''port1_rif_counter_in_octects'' (add (self ''port1_rif_counter_in_octects'') (add (length_of (var ''pkt'')) (num
        4))),
      set_self ''port0_rif_counter_out_octects'' (add (self ''port0_rif_counter_out_octects'') (add (length_of (var
        ''exp_pkt'')) (num 4)))]"

definition Ipv6FibTest_tearDown :: "'d stmt" where
  "Ipv6FibTest_tearDown = block [
      run (invoke [] L3InterfaceSimplifiedTestHelper_tearDown)]"

definition Ipv6FibLpmTest_setUp :: "'d stmt" where
  "Ipv6FibLpmTest_setUp = block [
      run (invoke [] L3InterfaceSimplifiedTestHelper_setUp)]"

definition Ipv6FibLpmTest_runTest :: "'d stmt" where
  "Ipv6FibLpmTest_runTest = block [
      assign ''pkt'' (lib ''simple_tcpv6_packet'' [] [(''eth_dst'', str ROUTER_MAC), (''eth_src'', str ''00:22:22:22:22:22''),
        (''ipv6_dst'', str ''4000::1''), (''ipv6_src'', str ''2000::1''), (''ipv6_hlim'', num 64)]),
      assign ''exp_pkt'' (lib ''simple_tcpv6_packet'' [] [(''eth_dst'', str ''00:11:22:33:44:55''), (''eth_src'', str
        ROUTER_MAC), (''ipv6_dst'', str ''4000::1''), (''ipv6_src'', str ''2000::1''), (''ipv6_hlim'', num 63)]),
      print [self ''dev_port1'', self ''dev_port0''],
      run (lib ''send_packet'' [self ''dev_port1'', var ''pkt''] []),
      run (lib ''verify_packet'' [var ''exp_pkt'', self ''dev_port0''] []),
      set_self ''port1_rif_counter_in'' (add (self ''port1_rif_counter_in'') (num 1)),
      set_self ''port0_rif_counter_out'' (add (self ''port0_rif_counter_out'') (num 1)),
      set_self ''port1_rif_counter_in_octects'' (add (self ''port1_rif_counter_in_octects'') (add (length_of (var ''pkt'')) (num
        4))),
      set_self ''port0_rif_counter_out_octects'' (add (self ''port0_rif_counter_out_octects'') (add (length_of (var
        ''exp_pkt'')) (num 4)))]"

definition Ipv6FibLpmTest_tearDown :: "'d stmt" where
  "Ipv6FibLpmTest_tearDown = block [
      run (invoke [] L3InterfaceSimplifiedTestHelper_tearDown)]"

definition L3InterfaceAclTestHelper_setUp :: "'d stmt" where
  "L3InterfaceAclTestHelper_setUp = block [
      super_setUp,
      assign ''dmac1'' (str ''00:11:22:33:44:55''),
      run (create_rifs [0, 1]),
      set_self ''port1_rif_counter_in'' (num 0),
      set_self ''port0_rif_counter_out'' (num 0),
      set_self ''nhop1'' (api_create ''next_hop'' [(''ip'', ip_address (str ''10.10.10.2'')), (''router_interface_id'', self
        ''port0_rif''), (''type'', num SAI_NEXT_HOP_TYPE_IP)]),
      set_self ''neighbor_entry1'' (struct ''sai_thrift_neighbor_entry_t'' [(''rif_id'', self ''port0_rif''), (''ip_address'',
        ip_address (str ''10.10.10.2''))]),
      run (api_create_entry ''neighbor_entry'' (self ''neighbor_entry1'') [(''dst_mac_address'', var ''dmac1'')]),
      set_self ''route_entry0'' (struct ''sai_thrift_route_entry_t'' [(''vr_id'', self ''default_vrf''), (''destination'',
        ip_prefix (str ''10.10.10.1/32''))]),
      run (api_create_entry ''route_entry'' (self ''route_entry0'') [(''next_hop_id'', self ''nhop1'')])]"

definition L3InterfaceAclTestHelper_tearDown :: "'d stmt" where
  "L3InterfaceAclTestHelper_tearDown = block [
      run (api_remove ''route_entry'' (self ''route_entry0'')),
      run (api_remove ''next_hop'' (self ''nhop1'')),
      run (api_remove ''neighbor_entry'' (self ''neighbor_entry1'')),
      run destroy_rifs,
      super_tearDown]"

definition Ipv4IngressAclTest_setUp :: "'d stmt" where
  "Ipv4IngressAclTest_setUp = block [
      run (invoke [] L3InterfaceAclTestHelper_setUp)]"

definition Ipv4IngressAclTest_runTest :: "'d stmt" where
  "Ipv4IngressAclTest_runTest = block [
      assign ''stage'' (num SAI_ACL_STAGE_INGRESS),
      assign ''bind_points'' (list_of [num SAI_ACL_BIND_POINT_TYPE_ROUTER_INTERFACE]),
      assign ''action_types'' (list_of [num SAI_ACL_ACTION_TYPE_PACKET_ACTION]),
      assign ''action_drop'' (num SAI_PACKET_ACTION_DROP),
      assign ''dst_ip'' (str ''10.10.10.1''),
      assign ''dst_ip_mask'' (str ''255.255.255.0''),
      assign ''acl_bind_point_type_list'' (struct ''sai_thrift_s32_list_t'' [(''count'', length_of (var ''bind_points'')),
        (''int32list'', var ''bind_points'')]),
      assign ''acl_action_type_list'' (struct ''sai_thrift_s32_list_t'' [(''count'', length_of (var ''action_types'')),
        (''int32list'', var ''action_types'')]),
      assign ''acl_table'' (api_create ''acl_table'' [(''acl_stage'', var ''stage''), (''acl_bind_point_type_list'', var
        ''acl_bind_point_type_list''), (''acl_action_type_list'', var ''acl_action_type_list''), (''field_dst_ip'', bool True)]),
      assign ''packet_action'' (struct ''sai_thrift_acl_action_data_t'' [(''parameter'', struct
        ''sai_thrift_acl_action_parameter_t'' [(''s32'', var ''action_drop'')])]),
      assign ''ip_addr'' (struct ''sai_thrift_acl_field_data_t'' [(''data'', struct ''sai_thrift_acl_field_data_data_t''
        [(''ip4'', var ''dst_ip'')]), (''mask'', struct ''sai_thrift_acl_field_data_mask_t'' [(''ip4'', var ''dst_ip_mask'')])]),
      assign ''pkt'' (lib ''simple_tcp_packet'' [] [(''eth_dst'', str ROUTER_MAC), (''eth_src'', str ''00:22:22:22:22:22''),
        (''ip_dst'', str ''10.10.10.1''), (''ip_src'', str ''192.168.0.1''), (''ip_id'', num 105), (''ip_ttl'', num 64)]),
      assign ''exp_pkt'' (lib ''simple_tcp_packet'' [] [(''eth_dst'', str ''00:11:22:33:44:55''), (''eth_src'', str ROUTER_MAC),
        (''ip_dst'', str ''10.10.10.1''), (''ip_src'', str ''192.168.0.1''), (''ip_id'', num 105), (''ip_ttl'', num 63)]),
      try_finally [
        assign ''acl_entry'' (api_create ''acl_entry'' [(''table_id'', var ''acl_table''), (''action_packet_action'', var
          ''packet_action''), (''field_dst_ip'', var ''ip_addr'')]),
        print [self ''dev_port1''],
        run (lib ''send_packet'' [self ''dev_port1'', var ''pkt''] []),
        run (lib ''verify_packet'' [var ''exp_pkt'', self ''dev_port0''] []),
        set_self ''port1_rif_counter_in'' (add (self ''port1_rif_counter_in'') (num 1)),
        set_self ''port0_rif_counter_out'' (add (self ''port0_rif_counter_out'') (num 1)),
        run (api_set ''router_interface'' (self ''port1_rif'') [(''ingress_acl'', var ''acl_table'')]),
        print [self ''dev_port1''],
        run (lib ''send_packet'' [self ''dev_port1'', var ''pkt''] []),
        run (lib ''verify_no_other_packets'' [] [(''timeout'', num 1)]),
        set_self ''port1_rif_counter_in'' (add (self ''port1_rif_counter_in'') (num 1)),
        run (api_set ''router_interface'' (self ''port1_rif'') [(''ingress_acl'', num 0)]),
        print [self ''dev_port1''],
        run (lib ''send_packet'' [self ''dev_port1'', var ''pkt''] []),
        run (lib ''verify_packet'' [var ''exp_pkt'', self ''dev_port0''] []),
        set_self ''port1_rif_counter_in'' (add (self ''port1_rif_counter_in'') (num 1)),
        set_self ''port0_rif_counter_out'' (add (self ''port0_rif_counter_out'') (num 1)),
        assign ''acl_table_group'' (api_create ''acl_table_group'' [(''acl_stage'', var ''stage''),
          (''acl_bind_point_type_list'', var ''acl_bind_point_type_list''), (''type'', num SAI_ACL_TABLE_GROUP_TYPE_PARALLEL)]),
        assign ''acl_group_member'' (api_create ''acl_table_group_member'' [(''acl_table_group_id'', var ''acl_table_group''),
          (''acl_table_id'', var ''acl_table'')]),
        print [self ''dev_port1''],
        run (lib ''send_packet'' [self ''dev_port1'', var ''pkt''] []),
        run (lib ''verify_packet'' [var ''exp_pkt'', self ''dev_port0''] []),
        set_self ''port1_rif_counter_in'' (add (self ''port1_rif_counter_in'') (num 1)),
        set_self ''port0_rif_counter_out'' (add (self ''port0_rif_counter_out'') (num 1)),
        run (api_set ''router_interface'' (self ''port1_rif'') [(''ingress_acl'', var ''acl_table_group'')]),
        print [self ''dev_port1''],
        run (lib ''send_packet'' [self ''dev_port1'', var ''pkt''] []),
        run (lib ''verify_no_other_packets'' [] [(''timeout'', num 1)]),
        set_self ''port1_rif_counter_in'' (add (self ''port1_rif_counter_in'') (num 1)),
        run (api_set ''router_interface'' (self ''port1_rif'') [(''ingress_acl'', num 0)]),
        print [self ''dev_port1''],
        run (lib ''send_packet'' [self ''dev_port1'', var ''pkt''] []),
        run (lib ''verify_packet'' [var ''exp_pkt'', self ''dev_port0''] []),
        set_self ''port1_rif_counter_in'' (add (self ''port1_rif_counter_in'') (num 1)),
        set_self ''port0_rif_counter_out'' (add (self ''port0_rif_counter_out'') (num 1))] [
        run (api_remove ''acl_table_group_member'' (var ''acl_group_member'')),
        run (api_remove ''acl_table_group'' (var ''acl_table_group'')),
        run (api_remove ''acl_entry'' (var ''acl_entry'')),
        run (api_remove ''acl_table'' (var ''acl_table''))]]"

definition Ipv4IngressAclTest_tearDown :: "'d stmt" where
  "Ipv4IngressAclTest_tearDown = block [
      run (invoke [] L3InterfaceAclTestHelper_tearDown)]"

definition Ipv4EgressAclTest_setUp :: "'d stmt" where
  "Ipv4EgressAclTest_setUp = block [
      run (invoke [] L3InterfaceAclTestHelper_setUp)]"

definition Ipv4EgressAclTest_runTest :: "'d stmt" where
  "Ipv4EgressAclTest_runTest = block [
      assign ''stage'' (num SAI_ACL_STAGE_EGRESS),
      assign ''bind_points'' (list_of [num SAI_ACL_BIND_POINT_TYPE_ROUTER_INTERFACE]),
      assign ''action_types'' (list_of [num SAI_ACL_ACTION_TYPE_PACKET_ACTION]),
      assign ''action_drop'' (num SAI_PACKET_ACTION_DROP),
      assign ''dst_ip'' (str ''10.10.10.1''),
      assign ''dst_ip_mask'' (str ''255.255.255.0''),
      assign ''acl_bind_point_type_list'' (struct ''sai_thrift_s32_list_t'' [(''count'', length_of (var ''bind_points'')),
        (''int32list'', var ''bind_points'')]),
      assign ''acl_action_type_list'' (struct ''sai_thrift_s32_list_t'' [(''count'', length_of (var ''action_types'')),
        (''int32list'', var ''action_types'')]),
      assign ''acl_table'' (api_create ''acl_table'' [(''acl_stage'', var ''stage''), (''acl_bind_point_type_list'', var
        ''acl_bind_point_type_list''), (''acl_action_type_list'', var ''acl_action_type_list''), (''field_dst_ip'', bool True)]),
      assign ''packet_action'' (struct ''sai_thrift_acl_action_data_t'' [(''parameter'', struct
        ''sai_thrift_acl_action_parameter_t'' [(''s32'', var ''action_drop'')])]),
      assign ''ip_addr'' (struct ''sai_thrift_acl_field_data_t'' [(''data'', struct ''sai_thrift_acl_field_data_data_t''
        [(''ip4'', var ''dst_ip'')]), (''mask'', struct ''sai_thrift_acl_field_data_mask_t'' [(''ip4'', var ''dst_ip_mask'')])]),
      assign ''pkt'' (lib ''simple_tcp_packet'' [] [(''eth_dst'', str ROUTER_MAC), (''eth_src'', str ''00:22:22:22:22:22''),
        (''ip_dst'', str ''10.10.10.1''), (''ip_src'', str ''192.168.0.1''), (''ip_id'', num 105), (''ip_ttl'', num 64)]),
      assign ''exp_pkt'' (lib ''simple_tcp_packet'' [] [(''eth_dst'', str ''00:11:22:33:44:55''), (''eth_src'', str ROUTER_MAC),
        (''ip_dst'', str ''10.10.10.1''), (''ip_src'', str ''192.168.0.1''), (''ip_id'', num 105), (''ip_ttl'', num 63)]),
      try_finally [
        assign ''acl_entry'' (api_create ''acl_entry'' [(''table_id'', var ''acl_table''), (''action_packet_action'', var
          ''packet_action''), (''field_dst_ip'', var ''ip_addr'')]),
        print [self ''dev_port1''],
        run (lib ''send_packet'' [self ''dev_port1'', var ''pkt''] []),
        run (lib ''verify_packet'' [var ''exp_pkt'', self ''dev_port0''] []),
        set_self ''port1_rif_counter_in'' (add (self ''port1_rif_counter_in'') (num 1)),
        set_self ''port0_rif_counter_out'' (add (self ''port0_rif_counter_out'') (num 1)),
        run (api_set ''router_interface'' (self ''port0_rif'') [(''egress_acl'', var ''acl_table'')]),
        print [self ''dev_port1''],
        run (lib ''send_packet'' [self ''dev_port1'', var ''pkt''] []),
        run (lib ''verify_no_other_packets'' [] [(''timeout'', num 1)]),
        set_self ''port1_rif_counter_in'' (add (self ''port1_rif_counter_in'') (num 1)),
        set_self ''port0_rif_counter_out'' (add (self ''port0_rif_counter_out'') (num 1)),
        run (api_set ''router_interface'' (self ''port0_rif'') [(''egress_acl'', num 0)]),
        print [self ''dev_port1''],
        run (lib ''send_packet'' [self ''dev_port1'', var ''pkt''] []),
        run (lib ''verify_packet'' [var ''exp_pkt'', self ''dev_port0''] []),
        set_self ''port1_rif_counter_in'' (add (self ''port1_rif_counter_in'') (num 1)),
        set_self ''port0_rif_counter_out'' (add (self ''port0_rif_counter_out'') (num 1)),
        assign ''acl_table_group'' (api_create ''acl_table_group'' [(''acl_stage'', var ''stage''),
          (''acl_bind_point_type_list'', var ''acl_bind_point_type_list''), (''type'', num SAI_ACL_TABLE_GROUP_TYPE_PARALLEL)]),
        assign ''acl_group_member'' (api_create ''acl_table_group_member'' [(''acl_table_group_id'', var ''acl_table_group''),
          (''acl_table_id'', var ''acl_table'')]),
        print [self ''dev_port1''],
        run (lib ''send_packet'' [self ''dev_port1'', var ''pkt''] []),
        run (lib ''verify_packet'' [var ''exp_pkt'', self ''dev_port0''] []),
        set_self ''port1_rif_counter_in'' (add (self ''port1_rif_counter_in'') (num 1)),
        set_self ''port0_rif_counter_out'' (add (self ''port0_rif_counter_out'') (num 1)),
        run (api_set ''router_interface'' (self ''port0_rif'') [(''egress_acl'', var ''acl_table_group'')]),
        print [self ''dev_port1''],
        run (lib ''send_packet'' [self ''dev_port1'', var ''pkt''] []),
        run (lib ''verify_no_other_packets'' [] [(''timeout'', num 1)]),
        set_self ''port1_rif_counter_in'' (add (self ''port1_rif_counter_in'') (num 1)),
        set_self ''port0_rif_counter_out'' (add (self ''port0_rif_counter_out'') (num 1)),
        run (api_set ''router_interface'' (self ''port0_rif'') [(''egress_acl'', num 0)]),
        print [self ''dev_port1''],
        run (lib ''send_packet'' [self ''dev_port1'', var ''pkt''] []),
        run (lib ''verify_packet'' [var ''exp_pkt'', self ''dev_port0''] []),
        set_self ''port1_rif_counter_in'' (add (self ''port1_rif_counter_in'') (num 1)),
        set_self ''port0_rif_counter_out'' (add (self ''port0_rif_counter_out'') (num 1))] [
        run (api_remove ''acl_table_group_member'' (var ''acl_group_member'')),
        run (api_remove ''acl_table_group'' (var ''acl_table_group'')),
        run (api_remove ''acl_entry'' (var ''acl_entry'')),
        run (api_remove ''acl_table'' (var ''acl_table''))]]"

definition Ipv4EgressAclTest_tearDown :: "'d stmt" where
  "Ipv4EgressAclTest_tearDown = block [
      run (invoke [] L3InterfaceAclTestHelper_tearDown)]"

definition NegativeRifTest_setUp :: "'d stmt" where
  "NegativeRifTest_setUp = block [
      super_setUp]"

definition NegativeRifTest_runTest :: "'d stmt" where
  "NegativeRifTest_runTest = block [
      assign ''port0_rif'' (api_create ''router_interface'' [(''type'', num SAI_ROUTER_INTERFACE_TYPE_PORT),
        (''virtual_router_id'', self ''default_vrf''), (''port_id'', self ''port0''), (''admin_v4_state'', bool True)]),
      assert (eq (api_remove ''router_interface'' (var ''port0_rif'')) (num 0)),
      assert (ne (api_remove ''router_interface'' (var ''port0_rif'')) (num 0)),
      assign ''rif_attr'' (api_get ''router_interface'' (var ''port0_rif'') [(''mtu'', bool True)]),
      assert_eq status (num SAI_STATUS_ITEM_NOT_FOUND),
      assert_eq (var ''rif_attr'') none,
      assert_ne (api_set ''router_interface'' (var ''port0_rif'') [(''mtu'', num 200)]) (num SAI_STATUS_SUCCESS),
      assign ''rif_attr'' (api_get ''router_interface'' (var ''port0_rif'') [(''mtu'', bool True)]),
      assert_eq status (num SAI_STATUS_ITEM_NOT_FOUND),
      assert_eq (var ''rif_attr'') none,
      assign ''invalid_port'' (api_create ''router_interface'' [(''type'', num SAI_ROUTER_INTERFACE_TYPE_PORT),
        (''virtual_router_id'', self ''default_vrf''), (''port_id'', num (-1))]),
      assert (eq (var ''invalid_port'') (num 0)),
      assign ''invalid_vrf'' (api_create ''router_interface'' [(''type'', num SAI_ROUTER_INTERFACE_TYPE_PORT),
        (''virtual_router_id'', num (-1)), (''port_id'', self ''port1'')]),
      assert (eq (var ''invalid_vrf'') (num 0))]"

definition NegativeRifTest_tearDown :: "'d stmt" where
  "NegativeRifTest_tearDown = block [
      super_tearDown]"

definition LoopbackRifTest_setUp :: "'d stmt" where
  "LoopbackRifTest_setUp = block [
      super_setUp]"

definition LoopbackRifTest_runTest :: "'d stmt" where
  "LoopbackRifTest_runTest = block [
      assign ''lbk_rif1'' (api_create ''router_interface'' [(''type'', num SAI_ROUTER_INTERFACE_TYPE_LOOPBACK),
        (''virtual_router_id'', self ''default_vrf'')]),
      assert (ne (var ''lbk_rif1'') (num 0)),
      assign ''lbk_rif2'' (api_create ''router_interface'' [(''type'', num SAI_ROUTER_INTERFACE_TYPE_LOOPBACK),
        (''virtual_router_id'', self ''default_vrf'')]),
      assert (ne (var ''lbk_rif2'') (num 0)),
      assert (ne (var ''lbk_rif1'') (var ''lbk_rif2'')),
      run (api_remove ''router_interface'' (var ''lbk_rif1'')),
      run (api_remove ''router_interface'' (var ''lbk_rif2''))]"

definition LoopbackRifTest_tearDown :: "'d stmt" where
  "LoopbackRifTest_tearDown = block [
      super_tearDown]"

definition RifCreateOrUpdateRmacTest_setUp :: "'d stmt" where
  "RifCreateOrUpdateRmacTest_setUp = block [
      super_setUp]"

definition RifCreateOrUpdateRmacTest_runTest :: "'d stmt" where
  "RifCreateOrUpdateRmacTest_runTest = block [
      assign ''irif'' none,
      assign ''e1_rif'' none,
      assign ''e2_rif'' none,
      assign ''iport_route'' none,
      assign ''e1_port_route'' none,
      assign ''e2_port_route'' none,
      assign ''iport_nbor'' none,
      assign ''e1_port_nbor'' none,
      assign ''e2_port_nbor'' none,
      assign ''iport_nbor_nhop'' none,
      assign ''e1_port_nbor_nhop'' none,
      assign ''e2_port_nbor_nhop'' none,
      assign ''iport'' (self ''port0''),
      assign ''dev_iport'' (self ''dev_port0''),
      assign ''iport_nbor_mac'' (str ''00:11:ab:ab:ab:ab''),
      assign ''iport_ipv4_nbor'' (str ''10.1.1.2''),
      assign ''iport_ipv4'' (str ''10.1.1.1''),
      assign ''e1_port'' (self ''port1''),
      assign ''dev_e1_port'' (self ''dev_port1''),
      assign ''e1_port_nbor_mac'' (str ''00:11:ac:ac:ac:ac''),
      assign ''e1_port_ipv4'' (str ''10.2.2.1''),
      assign ''e1_port_ipv4_nbor'' (str ''10.2.2.2''),
      assign ''e2_port'' (self ''port2''),
      assign ''dev_e2_port'' (self ''dev_port2''),
      assign ''e2_mac'' (str ''00:11:dd:dd:dd:dd''),
      assign ''e2_new_mac'' (str ''00:11:ee:ee:ee:ee''),
      assign ''e2_port_nbor_mac'' (str ''00:11:ad:ad:ad:ad''),
      assign ''e2_port_ipv4'' (str ''10.3.3.1''),
      assign ''e2_port_ipv4_nbor'' (str ''10.3.3.2''),
      try_finally [
        assign ''irif'' (api_create ''router_interface'' [(''type'', num SAI_ROUTER_INTERFACE_TYPE_PORT),
          (''virtual_router_id'', self ''default_vrf''), (''port_id'', var ''iport'')]),
        assert (gt (var ''irif'') (num 0)),
        assign ''iport_nbor'' (struct ''sai_thrift_neighbor_entry_t'' [(''rif_id'', var ''irif''), (''ip_address'', ip_address
          (var ''iport_ipv4_nbor''))]),
        run (api_create_entry ''neighbor_entry'' (var ''iport_nbor'') [(''dst_mac_address'', var ''iport_nbor_mac'')]),
        assign ''iport_nbor_nhop'' (api_create ''next_hop'' [(''ip'', ip_address (var ''iport_ipv4_nbor'')),
          (''router_interface_id'', var ''irif''), (''type'', num SAI_NEXT_HOP_TYPE_IP)]),
        assert (gt (var ''iport_nbor_nhop'') (num 0)),
        assign ''iport_route'' (struct ''sai_thrift_route_entry_t'' [(''vr_id'', self ''default_vrf''), (''destination'',
          ip_prefix (add (var ''iport_ipv4'') (str ''/24'')))]),
        run (api_create_entry ''route_entry'' (var ''iport_route'') [(''next_hop_id'', var ''iport_nbor_nhop'')]),
        assign ''e1_rif'' (api_create ''router_interface'' [(''type'', num SAI_ROUTER_INTERFACE_TYPE_PORT),
          (''virtual_router_id'', self ''default_vrf''), (''port_id'', var ''e1_port'')]),
        assert (gt (var ''e1_rif'') (num 0)),
        assign ''e1_rif_attr'' (api_get ''router_interface'' (var ''e1_rif'') [(''src_mac_address'', bool True)]),
        assert (no (is_none (var ''e1_rif_attr''))),
        assign ''src_mac_address'' (get_or (var ''e1_rif_attr'') (str ''src_mac_address'') none),
        assert_eq (var ''src_mac_address'') (str ROUTER_MAC),
        assign ''e1_port_nbor'' (struct ''sai_thrift_neighbor_entry_t'' [(''rif_id'', var ''e1_rif''), (''ip_address'',
          ip_address (var ''e1_port_ipv4_nbor''))]),
        run (api_create_entry ''neighbor_entry'' (var ''e1_port_nbor'') [(''dst_mac_address'', var ''e1_port_nbor_mac'')]),
        assign ''e1_port_nbor_nhop'' (api_create ''next_hop'' [(''ip'', ip_address (var ''e1_port_ipv4_nbor'')),
          (''router_interface_id'', var ''e1_rif''), (''type'', num SAI_NEXT_HOP_TYPE_IP)]),
        assert (gt (var ''e1_port_nbor_nhop'') (num 0)),
        assign ''e1_port_route'' (struct ''sai_thrift_route_entry_t'' [(''vr_id'', self ''default_vrf''), (''destination'',
          ip_prefix (add (var ''e1_port_ipv4'') (str ''/24'')))]),
        run (api_create_entry ''route_entry'' (var ''e1_port_route'') [(''next_hop_id'', var ''e1_port_nbor_nhop'')]),
        assign ''e2_rif'' (api_create ''router_interface'' [(''type'', num SAI_ROUTER_INTERFACE_TYPE_PORT),
          (''virtual_router_id'', self ''default_vrf''), (''port_id'', var ''e2_port''), (''src_mac_address'', var ''e2_mac'')]),
        assert (gt (var ''e2_rif'') (num 0)),
        assign ''e2_rif_attr'' (api_get ''router_interface'' (var ''e2_rif'') [(''src_mac_address'', bool True)]),
        assert (no (is_none (var ''e2_rif_attr''))),
        assign ''src_mac_address'' (get_or (var ''e2_rif_attr'') (str ''src_mac_address'') none),
        assert_eq (var ''src_mac_address'') (var ''e2_mac''),
        assign ''e2_port_nbor'' (struct ''sai_thrift_neighbor_entry_t'' [(''rif_id'', var ''e2_rif''), (''ip_address'',
          ip_address (var ''e2_port_ipv4_nbor''))]),
        run (api_create_entry ''neighbor_entry'' (var ''e2_port_nbor'') [(''dst_mac_address'', var ''e2_port_nbor_mac'')]),
        assign ''e2_port_nbor_nhop'' (api_create ''next_hop'' [(''ip'', ip_address (var ''e2_port_ipv4_nbor'')),
          (''router_interface_id'', var ''e2_rif''), (''type'', num SAI_NEXT_HOP_TYPE_IP)]),
        assert (gt (var ''e2_port_nbor_nhop'') (num 0)),
        assign ''e2_port_route'' (struct ''sai_thrift_route_entry_t'' [(''vr_id'', self ''default_vrf''), (''destination'',
          ip_prefix (add (var ''e2_port_ipv4'') (str ''/24'')))]),
        run (api_create_entry ''route_entry'' (var ''e1_port_route'') [(''next_hop_id'', var ''e2_port_nbor_nhop'')]),
        assign ''pkt_in1'' (lib ''simple_udp_packet'' [] [(''eth_dst'', str ROUTER_MAC), (''eth_src'', var ''iport_nbor_mac''),
          (''ip_dst'', var ''e1_port_ipv4_nbor''), (''ip_src'', var ''iport_ipv4_nbor''), (''ip_ttl'', num 64)]),
        assign ''pkt_e1'' (lib ''simple_udp_packet'' [] [(''eth_dst'', var ''e1_port_nbor_mac''), (''eth_src'', str ROUTER_MAC),
          (''ip_dst'', var ''e1_port_ipv4_nbor''), (''ip_src'', var ''iport_ipv4_nbor''), (''ip_ttl'', num 63)]),
        run (lib ''send_packet'' [var ''dev_iport'', var ''pkt_in1''] []),
        run (lib ''verify_packets'' [var ''pkt_e1'', list_of [var ''dev_e1_port'']] []),
        run (lib ''verify_no_other_packets'' [] [(''timeout'', num 1)]),
        assign ''pkt_in2'' (lib ''simple_udp_packet'' [] [(''eth_dst'', str ROUTER_MAC), (''eth_src'', var ''iport_nbor_mac''),
          (''ip_dst'', var ''e2_port_ipv4_nbor''), (''ip_src'', var ''iport_ipv4_nbor''), (''ip_ttl'', num 64)]),
        assign ''pkt_e2'' (lib ''simple_udp_packet'' [] [(''eth_dst'', var ''e2_port_nbor_mac''), (''eth_src'', var ''e2_mac''),
          (''ip_dst'', var ''e2_port_ipv4_nbor''), (''ip_src'', var ''iport_ipv4_nbor''), (''ip_ttl'', num 63)]),
        run (lib ''send_packet'' [var ''dev_iport'', var ''pkt_in2''] []),
        run (lib ''verify_packets'' [var ''pkt_e2'', list_of [var ''dev_e2_port'']] []),
        run (lib ''verify_no_other_packets'' [] [(''timeout'', num 1)]),
        run (api_set ''router_interface'' (var ''e2_rif'') [(''src_mac_address'', var ''e2_new_mac'')]),
        assign ''e2_rif_attr'' (api_get ''router_interface'' (var ''e2_rif'') [(''src_mac_address'', bool True)]),
        assert (no (is_none (var ''e2_rif_attr''))),
        assign ''src_mac_address'' (get_or (var ''e2_rif_attr'') (str ''src_mac_address'') none),
        assert_eq (var ''src_mac_address'') (var ''e2_new_mac''),
        assign ''pkt_e2'' (lib ''simple_udp_packet'' [] [(''eth_dst'', var ''e2_port_nbor_mac''), (''eth_src'', var
          ''e2_new_mac''), (''ip_dst'', var ''e2_port_ipv4_nbor''), (''ip_src'', var ''iport_ipv4_nbor''), (''ip_ttl'', num
          63)]),
        run (lib ''send_packet'' [var ''dev_iport'', var ''pkt_in2''] []),
        run (lib ''verify_packets'' [var ''pkt_e2'', list_of [var ''dev_e2_port'']] []),
        run (lib ''verify_no_other_packets'' [] [(''timeout'', num 1)])] [
        for_in [''route''] (list_of [var ''iport_route'', var ''e1_port_route'', var ''e2_port_route'']) [
          if_else (no (is_none (var ''route''))) [
            run (api_remove ''route_entry'' (var ''route''))] []],
        for_in [''nbor''] (list_of [var ''iport_nbor'', var ''e1_port_nbor'', var ''e2_port_nbor'']) [
          if_else (no (is_none (var ''nbor''))) [
            run (api_remove ''neighbor_entry'' (var ''nbor''))] []],
        for_in [''nhop''] (list_of [var ''iport_nbor_nhop'', var ''e1_port_nbor_nhop'', var ''e2_port_nbor_nhop'']) [
          if_else (no (is_none (var ''nhop''))) [
            run (api_remove ''next_hop'' (var ''nhop''))] []],
        for_in [''rif''] (list_of [var ''irif'', var ''e1_rif'', var ''e2_rif'']) [
          if_else (no (is_none (var ''rif''))) [
            run (api_remove ''router_interface'' (var ''rif''))] []]]]"

definition RifCreateOrUpdateRmacTest_tearDown :: "'d stmt" where
  "RifCreateOrUpdateRmacTest_tearDown = block [
      super_tearDown]"

definition Ipv4MtuTest_runTest :: "'d stmt" where
  "Ipv4MtuTest_runTest = block [
      assign ''mtu_port0_rif'' (api_get ''router_interface'' (self ''port0_rif'') [(''mtu'', bool True)]),
      assign ''mtu_lag1_rif'' (api_get ''router_interface'' (self ''lag1_rif'') [(''mtu'', bool True)]),
      run (api_set ''router_interface'' (self ''port0_rif'') [(''mtu'', num 200)]),
      run (api_set ''router_interface'' (self ''lag1_rif'') [(''mtu'', num 200)]),
      try_finally [
        assign ''pkt'' (lib ''simple_tcp_packet'' [] [(''eth_dst'', str ROUTER_MAC), (''eth_src'', str ''00:22:22:22:22:22''),
          (''ip_dst'', str ''10.10.10.1''), (''ip_src'', str ''192.168.0.1''), (''ip_id'', num 105), (''ip_ttl'', num 64),
          (''pktlen'', add (num 199) (num 14))]),
        assign ''exp_pkt'' (lib ''simple_tcp_packet'' [] [(''eth_dst'', str ''00:11:22:33:44:55''), (''eth_src'', str
          ROUTER_MAC), (''ip_dst'', str ''10.10.10.1''), (''ip_src'', str ''192.168.0.1''), (''ip_id'', num 105), (''ip_ttl'',
          num 63), (''pktlen'', add (num 199) (num 14))]),
        print [self ''dev_port1'', self ''dev_port0''],
        run (lib ''send_packet'' [self ''dev_port1'', var ''pkt''] []),
        run (lib ''verify_packet'' [var ''exp_pkt'', self ''dev_port0''] []),
        set_self ''port1_rif_counter_in'' (add (self ''port1_rif_counter_in'') (num 1)),
        set_self ''port0_rif_counter_out'' (add (self ''port0_rif_counter_out'') (num 1)),
        set_self ''port1_rif_counter_in_octects'' (add (self ''port1_rif_counter_in_octects'') (add (length_of (var ''pkt''))
          (num 4))),
        set_self ''port0_rif_counter_out_octects'' (add (self ''port0_rif_counter_out_octects'') (add (length_of (var
          ''exp_pkt'')) (num 4))),
        assign ''pkt'' (lib ''set_field'' [var ''pkt'', str ''IP'', str ''dst'', str ''12.10.10.1''] []),
        assign ''exp_pkt'' (lib ''set_field'' [var ''exp_pkt'', str ''IP'', str ''dst'', str ''12.10.10.1''] []),
        assign ''exp_pkt'' (with_item (var ''exp_pkt'') (str ''Ethernet'') (with_field (item (var ''exp_pkt'') (str
          ''Ethernet'')) ''dst'' (str ''00:33:22:33:44:55''))),
        print [self ''dev_port1''],
        run (lib ''send_packet'' [self ''dev_port1'', var ''pkt''] []),
        run (lib ''verify_packet_any_port'' [var ''exp_pkt'', list_of [self ''dev_port2'', self ''dev_port3'', self
          ''dev_port4'']] []),
        set_self ''port1_rif_counter_in'' (add (self ''port1_rif_counter_in'') (num 1)),
        set_self ''lag1_rif_counter_out'' (add (self ''lag1_rif_counter_out'') (num 1)),
        set_self ''port1_rif_counter_in_octects'' (add (self ''port1_rif_counter_in_octects'') (add (length_of (var ''pkt''))
          (num 4))),
        assign ''pkt'' (lib ''simple_tcp_packet'' [] [(''eth_dst'', str ROUTER_MAC), (''eth_src'', str ''00:22:22:22:22:22''),
          (''ip_dst'', str ''10.10.10.1''), (''ip_src'', str ''192.168.0.1''), (''ip_id'', num 105), (''ip_ttl'', num 64),
          (''pktlen'', add (num 200) (num 14))]),
        assign ''exp_pkt'' (lib ''simple_tcp_packet'' [] [(''eth_dst'', str ''00:11:22:33:44:55''), (''eth_src'', str
          ROUTER_MAC), (''ip_dst'', str ''10.10.10.1''), (''ip_src'', str ''192.168.0.1''), (''ip_id'', num 105), (''ip_ttl'',
          num 63), (''pktlen'', add (num 200) (num 14))]),
        print [self ''dev_port1'', self ''dev_port0''],
        run (lib ''send_packet'' [self ''dev_port1'', var ''pkt''] []),
        run (lib ''verify_packet'' [var ''exp_pkt'', self ''dev_port0''] []),
        set_self ''port1_rif_counter_in'' (add (self ''port1_rif_counter_in'') (num 1)),
        set_self ''port0_rif_counter_out'' (add (self ''port0_rif_counter_out'') (num 1)),
        set_self ''port1_rif_counter_in_octects'' (add (self ''port1_rif_counter_in_octects'') (add (length_of (var ''pkt''))
          (num 4))),
        set_self ''port0_rif_counter_out_octects'' (add (self ''port0_rif_counter_out_octects'') (add (length_of (var
          ''exp_pkt'')) (num 4))),
        assign ''pkt'' (lib ''set_field'' [var ''pkt'', str ''IP'', str ''dst'', str ''12.10.10.1''] []),
        assign ''exp_pkt'' (lib ''set_field'' [var ''exp_pkt'', str ''IP'', str ''dst'', str ''12.10.10.1''] []),
        assign ''exp_pkt'' (with_item (var ''exp_pkt'') (str ''Ethernet'') (with_field (item (var ''exp_pkt'') (str
          ''Ethernet'')) ''dst'' (str ''00:33:22:33:44:55''))),
        print [self ''dev_port1''],
        run (lib ''send_packet'' [self ''dev_port1'', var ''pkt''] []),
        run (lib ''verify_packet_any_port'' [var ''exp_pkt'', list_of [self ''dev_port2'', self ''dev_port3'', self
          ''dev_port4'']] []),
        set_self ''port1_rif_counter_in'' (add (self ''port1_rif_counter_in'') (num 1)),
        set_self ''lag1_rif_counter_out'' (add (self ''lag1_rif_counter_out'') (num 1)),
        set_self ''port1_rif_counter_in_octects'' (add (self ''port1_rif_counter_in_octects'') (add (length_of (var ''pkt''))
          (num 4))),
        assign ''pkt'' (lib ''simple_tcp_packet'' [] [(''eth_dst'', str ROUTER_MAC), (''eth_src'', str ''00:22:22:22:22:22''),
          (''ip_dst'', str ''10.10.10.1''), (''ip_src'', str ''192.168.0.1''), (''ip_id'', num 105), (''ip_ttl'', num 64),
          (''pktlen'', add (num 201) (num 14))]),
        assign ''exp_pkt'' (lib ''simple_tcp_packet'' [] [(''eth_dst'', str ''00:11:22:33:44:55''), (''eth_src'', str
          ROUTER_MAC), (''ip_dst'', str ''10.10.10.1''), (''ip_src'', str ''192.168.0.1''), (''ip_id'', num 105), (''ip_ttl'',
          num 63), (''pktlen'', add (num 201) (num 14))]),
        print [self ''dev_port1''],
        run (lib ''send_packet'' [self ''dev_port1'', var ''pkt''] []),
        run (lib ''verify_no_other_packets'' [] [(''timeout'', num 1)]),
        set_self ''port1_rif_counter_in'' (add (self ''port1_rif_counter_in'') (num 1)),
        set_self ''port0_rif_counter_out'' (add (self ''port0_rif_counter_out'') (num 1)),
        set_self ''port1_rif_counter_in_octects'' (add (self ''port1_rif_counter_in_octects'') (add (length_of (var ''pkt''))
          (num 4))),
        set_self ''port0_rif_counter_out_octects'' (add (self ''port0_rif_counter_out_octects'') (add (length_of (var
          ''exp_pkt'')) (num 4))),
        assign ''pkt'' (lib ''set_field'' [var ''pkt'', str ''IP'', str ''dst'', str ''12.10.10.1''] []),
        assign ''exp_pkt'' (lib ''set_field'' [var ''exp_pkt'', str ''IP'', str ''dst'', str ''12.10.10.1''] []),
        assign ''exp_pkt'' (with_item (var ''exp_pkt'') (str ''Ethernet'') (with_field (item (var ''exp_pkt'') (str
          ''Ethernet'')) ''dst'' (str ''00:33:22:33:44:55''))),
        print [self ''dev_port1''],
        run (lib ''send_packet'' [self ''dev_port1'', var ''pkt''] []),
        run (lib ''verify_no_other_packets'' [] [(''timeout'', num 1)]),
        set_self ''port1_rif_counter_in'' (add (self ''port1_rif_counter_in'') (num 1)),
        set_self ''lag1_rif_counter_out'' (add (self ''lag1_rif_counter_out'') (num 1)),
        set_self ''port1_rif_counter_in_octects'' (add (self ''port1_rif_counter_in_octects'') (add (length_of (var ''pkt''))
          (num 4))),
        run (api_set ''router_interface'' (self ''port0_rif'') [(''mtu'', num 201)]),
        assign ''pkt'' (lib ''simple_tcp_packet'' [] [(''eth_dst'', str ROUTER_MAC), (''eth_src'', str ''00:22:22:22:22:22''),
          (''ip_dst'', str ''10.10.10.1''), (''ip_src'', str ''192.168.0.1''), (''ip_id'', num 105), (''ip_ttl'', num 64),
          (''pktlen'', add (num 201) (num 14))]),
        assign ''exp_pkt'' (lib ''simple_tcp_packet'' [] [(''eth_dst'', str ''00:11:22:33:44:55''), (''eth_src'', str
          ROUTER_MAC), (''ip_dst'', str ''10.10.10.1''), (''ip_src'', str ''192.168.0.1''), (''ip_id'', num 105), (''ip_ttl'',
          num 63), (''pktlen'', add (num 201) (num 14))]),
        print [self ''dev_port1'', self ''dev_port0''],
        run (lib ''send_packet'' [self ''dev_port1'', var ''pkt''] []),
        run (lib ''verify_packet'' [var ''exp_pkt'', self ''dev_port0''] []),
        set_self ''port1_rif_counter_in'' (add (self ''port1_rif_counter_in'') (num 1)),
        set_self ''port0_rif_counter_out'' (add (self ''port0_rif_counter_out'') (num 1)),
        set_self ''port1_rif_counter_in_octects'' (add (self ''port1_rif_counter_in_octects'') (add (length_of (var ''pkt''))
          (num 4))),
        set_self ''port0_rif_counter_out_octects'' (add (self ''port0_rif_counter_out_octects'') (add (length_of (var
          ''exp_pkt'')) (num 4))),
        assign ''pkt'' (lib ''set_field'' [var ''pkt'', str ''IP'', str ''dst'', str ''12.10.10.1''] []),
        assign ''exp_pkt'' (lib ''set_field'' [var ''exp_pkt'', str ''IP'', str ''dst'', str ''12.10.10.1''] []),
        assign ''exp_pkt'' (with_item (var ''exp_pkt'') (str ''Ethernet'') (with_field (item (var ''exp_pkt'') (str
          ''Ethernet'')) ''dst'' (str ''00:33:22:33:44:55''))),
        print [self ''dev_port1''],
        run (lib ''send_packet'' [self ''dev_port1'', var ''pkt''] []),
        run (lib ''verify_no_other_packets'' [] [(''timeout'', num 1)]),
        set_self ''port1_rif_counter_in'' (add (self ''port1_rif_counter_in'') (num 1)),
        set_self ''lag1_rif_counter_out'' (add (self ''lag1_rif_counter_out'') (num 1)),
        set_self ''port1_rif_counter_in_octects'' (add (self ''port1_rif_counter_in_octects'') (add (length_of (var ''pkt''))
          (num 4))),
        run (api_set ''router_interface'' (self ''lag1_rif'') [(''mtu'', num 201)]),
        print [self ''dev_port1''],
        run (lib ''send_packet'' [self ''dev_port1'', var ''pkt''] []),
        run (lib ''verify_packet_any_port'' [var ''exp_pkt'', list_of [self ''dev_port2'', self ''dev_port3'', self
          ''dev_port4'']] []),
        set_self ''port1_rif_counter_in'' (add (self ''port1_rif_counter_in'') (num 1)),
        set_self ''lag1_rif_counter_out'' (add (self ''lag1_rif_counter_out'') (num 1)),
        set_self ''port1_rif_counter_in_octects'' (add (self ''port1_rif_counter_in_octects'') (add (length_of (var ''pkt''))
          (num 4))),
        assign ''pkt'' (lib ''simple_tcp_packet'' [] [(''eth_dst'', str ROUTER_MAC), (''eth_src'', str ''00:22:22:22:22:22''),
          (''ip_dst'', str ''10.10.10.1''), (''ip_src'', str ''192.168.0.1''), (''ip_id'', num 105), (''ip_ttl'', num 64),
          (''pktlen'', add (num 202) (num 14))]),
        assign ''exp_pkt'' (lib ''simple_tcp_packet'' [] [(''eth_dst'', str ''00:11:22:33:44:55''), (''eth_src'', str
          ROUTER_MAC), (''ip_dst'', str ''10.10.10.1''), (''ip_src'', str ''192.168.0.1''), (''ip_id'', num 105), (''ip_ttl'',
          num 63), (''pktlen'', add (num 202) (num 14))]),
        print [self ''dev_port1''],
        run (lib ''send_packet'' [self ''dev_port1'', var ''pkt''] []),
        run (lib ''verify_no_other_packets'' [] [(''timeout'', num 1)]),
        set_self ''port1_rif_counter_in'' (add (self ''port1_rif_counter_in'') (num 1)),
        set_self ''port0_rif_counter_out'' (add (self ''port0_rif_counter_out'') (num 1)),
        set_self ''port1_rif_counter_in_octects'' (add (self ''port1_rif_counter_in_octects'') (add (length_of (var ''pkt''))
          (num 4))),
        set_self ''port0_rif_counter_out_octects'' (add (self ''port0_rif_counter_out_octects'') (add (length_of (var
          ''exp_pkt'')) (num 4))),
        assign ''pkt'' (lib ''set_field'' [var ''pkt'', str ''IP'', str ''dst'', str ''12.10.10.1''] []),
        assign ''exp_pkt'' (lib ''set_field'' [var ''exp_pkt'', str ''IP'', str ''dst'', str ''12.10.10.1''] []),
        assign ''exp_pkt'' (with_item (var ''exp_pkt'') (str ''Ethernet'') (with_field (item (var ''exp_pkt'') (str
          ''Ethernet'')) ''dst'' (str ''00:33:22:33:44:55''))),
        print [self ''dev_port1''],
        run (lib ''send_packet'' [self ''dev_port1'', var ''pkt''] []),
        run (lib ''verify_no_other_packets'' [] [(''timeout'', num 1)]),
        set_self ''port1_rif_counter_in'' (add (self ''port1_rif_counter_in'') (num 1)),
        set_self ''lag1_rif_counter_out'' (add (self ''lag1_rif_counter_out'') (num 1)),
        set_self ''port1_rif_counter_in_octects'' (add (self ''port1_rif_counter_in_octects'') (add (length_of (var ''pkt''))
          (num 4)))] [
        run (api_set ''router_interface'' (self ''port0_rif'') [(''mtu'', item (var ''mtu_port0_rif'') (str ''mtu''))]),
        run (api_set ''router_interface'' (self ''lag1_rif'') [(''mtu'', item (var ''mtu_lag1_rif'') (str ''mtu''))])]]"

definition Ipv6MtuTest_runTest :: "'d stmt" where
  "Ipv6MtuTest_runTest = block [
      assign ''mtu_port0_rif'' (api_get ''router_interface'' (self ''port0_rif'') [(''mtu'', bool True)]),
      assign ''mtu_lag1_rif'' (api_get ''router_interface'' (self ''lag1_rif'') [(''mtu'', bool True)]),
      run (api_set ''router_interface'' (self ''port0_rif'') [(''mtu'', num 200)]),
      run (api_set ''router_interface'' (self ''lag1_rif'') [(''mtu'', num 200)]),
      try_finally [
        assign ''pkt'' (lib ''simple_tcpv6_packet'' [] [(''eth_dst'', str ROUTER_MAC), (''eth_src'', str ''00:22:22:22:22:22''),
          (''ipv6_dst'', str ''1234:5678:9abc:def0:4422:1133:5577:99aa''), (''ipv6_src'', str ''2000::1''), (''ipv6_hlim'', num
          64), (''pktlen'', add (add (num 199) (num 14)) (num 40))]),
        assign ''exp_pkt'' (lib ''simple_tcpv6_packet'' [] [(''eth_dst'', str ''00:11:22:33:44:55''), (''eth_src'', str
          ROUTER_MAC), (''ipv6_dst'', str ''1234:5678:9abc:def0:4422:1133:5577:99aa''), (''ipv6_src'', str ''2000::1''),
          (''ipv6_hlim'', num 63), (''pktlen'', add (add (num 199) (num 14)) (num 40))]),
        print [self ''dev_port1'', self ''dev_port0''],
        run (lib ''send_packet'' [self ''dev_port1'', var ''pkt''] []),
        run (lib ''verify_packet'' [var ''exp_pkt'', self ''dev_port0''] []),
        set_self ''port1_rif_counter_in'' (add (self ''port1_rif_counter_in'') (num 1)),
        set_self ''port0_rif_counter_out'' (add (self ''port0_rif_counter_out'') (num 1)),
        set_self ''port1_rif_counter_in_octects'' (add (self ''port1_rif_counter_in_octects'') (add (length_of (var ''pkt''))
          (num 4))),
        set_self ''port0_rif_counter_out_octects'' (add (self ''port0_rif_counter_out_octects'') (add (length_of (var
          ''exp_pkt'')) (num 4))),
        assign ''pkt'' (lib ''set_field'' [var ''pkt'', str ''IPv6'', str ''dst'', str
          ''1234:5678:9abc:def0:1122:3344:5566:7788''] []),
        assign ''exp_pkt'' (lib ''set_field'' [var ''exp_pkt'', str ''IPv6'', str ''dst'', str
          ''1234:5678:9abc:def0:1122:3344:5566:7788''] []),
        assign ''exp_pkt'' (with_item (var ''exp_pkt'') (str ''Ethernet'') (with_field (item (var ''exp_pkt'') (str
          ''Ethernet'')) ''dst'' (str ''00:33:22:33:44:55''))),
        print [self ''dev_port1''],
        run (lib ''send_packet'' [self ''dev_port1'', var ''pkt''] []),
        run (lib ''verify_packet_any_port'' [var ''exp_pkt'', list_of [self ''dev_port2'', self ''dev_port3'', self
          ''dev_port4'']] []),
        set_self ''port1_rif_counter_in'' (add (self ''port1_rif_counter_in'') (num 1)),
        set_self ''lag1_rif_counter_out'' (add (self ''lag1_rif_counter_out'') (num 1)),
        set_self ''port1_rif_counter_in_octects'' (add (self ''port1_rif_counter_in_octects'') (add (length_of (var ''pkt''))
          (num 4))),
        assign ''pkt'' (lib ''simple_tcpv6_packet'' [] [(''eth_dst'', str ROUTER_MAC), (''eth_src'', str ''00:22:22:22:22:22''),
          (''ipv6_dst'', str ''1234:5678:9abc:def0:4422:1133:5577:99aa''), (''ipv6_src'', str ''2000::1''), (''ipv6_hlim'', num
          64), (''pktlen'', add (add (num 200) (num 14)) (num 40))]),
        assign ''exp_pkt'' (lib ''simple_tcpv6_packet'' [] [(''eth_dst'', str ''00:11:22:33:44:55''), (''eth_src'', str
          ROUTER_MAC), (''ipv6_dst'', str ''1234:5678:9abc:def0:4422:1133:5577:99aa''), (''ipv6_src'', str ''2000::1''),
          (''ipv6_hlim'', num 63), (''pktlen'', add (add (num 200) (num 14)) (num 40))]),
        print [self ''dev_port1'', self ''dev_port0''],
        run (lib ''send_packet'' [self ''dev_port1'', var ''pkt''] []),
        run (lib ''verify_packet'' [var ''exp_pkt'', self ''dev_port0''] []),
        set_self ''port1_rif_counter_in'' (add (self ''port1_rif_counter_in'') (num 1)),
        set_self ''port0_rif_counter_out'' (add (self ''port0_rif_counter_out'') (num 1)),
        set_self ''port1_rif_counter_in_octects'' (add (self ''port1_rif_counter_in_octects'') (add (length_of (var ''pkt''))
          (num 4))),
        set_self ''port0_rif_counter_out_octects'' (add (self ''port0_rif_counter_out_octects'') (add (length_of (var
          ''exp_pkt'')) (num 4))),
        assign ''pkt'' (lib ''set_field'' [var ''pkt'', str ''IPv6'', str ''dst'', str
          ''1234:5678:9abc:def0:1122:3344:5566:7788''] []),
        assign ''exp_pkt'' (lib ''set_field'' [var ''exp_pkt'', str ''IPv6'', str ''dst'', str
          ''1234:5678:9abc:def0:1122:3344:5566:7788''] []),
        assign ''exp_pkt'' (with_item (var ''exp_pkt'') (str ''Ethernet'') (with_field (item (var ''exp_pkt'') (str
          ''Ethernet'')) ''dst'' (str ''00:33:22:33:44:55''))),
        print [self ''dev_port1''],
        run (lib ''send_packet'' [self ''dev_port1'', var ''pkt''] []),
        run (lib ''verify_packet_any_port'' [var ''exp_pkt'', list_of [self ''dev_port2'', self ''dev_port3'', self
          ''dev_port4'']] []),
        set_self ''port1_rif_counter_in'' (add (self ''port1_rif_counter_in'') (num 1)),
        set_self ''lag1_rif_counter_out'' (add (self ''lag1_rif_counter_out'') (num 1)),
        set_self ''port1_rif_counter_in_octects'' (add (self ''port1_rif_counter_in_octects'') (add (length_of (var ''pkt''))
          (num 4))),
        assign ''pkt'' (lib ''simple_tcpv6_packet'' [] [(''eth_dst'', str ROUTER_MAC), (''eth_src'', str ''00:22:22:22:22:22''),
          (''ipv6_dst'', str ''1234:5678:9abc:def0:4422:1133:5577:99aa''), (''ipv6_src'', str ''2000::1''), (''ipv6_hlim'', num
          64), (''pktlen'', add (add (num 201) (num 14)) (num 40))]),
        assign ''exp_pkt'' (lib ''simple_tcpv6_packet'' [] [(''eth_dst'', str ''00:11:22:33:44:55''), (''eth_src'', str
          ROUTER_MAC), (''ipv6_dst'', str ''1234:5678:9abc:def0:4422:1133:5577:99aa''), (''ipv6_src'', str ''2000::1''),
          (''ipv6_hlim'', num 63), (''pktlen'', add (add (num 201) (num 14)) (num 40))]),
        print [self ''dev_port1''],
        run (lib ''send_packet'' [self ''dev_port1'', var ''pkt''] []),
        run (lib ''verify_no_other_packets'' [] [(''timeout'', num 1)]),
        set_self ''port1_rif_counter_in'' (add (self ''port1_rif_counter_in'') (num 1)),
        set_self ''port0_rif_counter_out'' (add (self ''port0_rif_counter_out'') (num 1)),
        set_self ''port1_rif_counter_in_octects'' (add (self ''port1_rif_counter_in_octects'') (add (length_of (var ''pkt''))
          (num 4))),
        set_self ''port0_rif_counter_out_octects'' (add (self ''port0_rif_counter_out_octects'') (add (length_of (var
          ''exp_pkt'')) (num 4))),
        assign ''pkt'' (lib ''set_field'' [var ''pkt'', str ''IPv6'', str ''dst'', str
          ''1234:5678:9abc:def0:1122:3344:5566:7788''] []),
        assign ''exp_pkt'' (lib ''set_field'' [var ''exp_pkt'', str ''IPv6'', str ''dst'', str
          ''1234:5678:9abc:def0:1122:3344:5566:7788''] []),
        assign ''exp_pkt'' (with_item (var ''exp_pkt'') (str ''Ethernet'') (with_field (item (var ''exp_pkt'') (str
          ''Ethernet'')) ''dst'' (str ''00:33:22:33:44:55''))),
        print [self ''dev_port1''],
        run (lib ''send_packet'' [self ''dev_port1'', var ''pkt''] []),
        run (lib ''verify_no_other_packets'' [] [(''timeout'', num 1)]),
        set_self ''port1_rif_counter_in'' (add (self ''port1_rif_counter_in'') (num 1)),
        set_self ''lag1_rif_counter_out'' (add (self ''lag1_rif_counter_out'') (num 1)),
        set_self ''port1_rif_counter_in_octects'' (add (self ''port1_rif_counter_in_octects'') (add (length_of (var ''pkt''))
          (num 4))),
        run (api_set ''router_interface'' (self ''port0_rif'') [(''mtu'', num 201)]),
        assign ''pkt'' (lib ''simple_tcpv6_packet'' [] [(''eth_dst'', str ROUTER_MAC), (''eth_src'', str ''00:22:22:22:22:22''),
          (''ipv6_dst'', str ''1234:5678:9abc:def0:4422:1133:5577:99aa''), (''ipv6_src'', str ''2000::1''), (''ipv6_hlim'', num
          64), (''pktlen'', add (add (num 201) (num 14)) (num 40))]),
        assign ''exp_pkt'' (lib ''simple_tcpv6_packet'' [] [(''eth_dst'', str ''00:11:22:33:44:55''), (''eth_src'', str
          ROUTER_MAC), (''ipv6_dst'', str ''1234:5678:9abc:def0:4422:1133:5577:99aa''), (''ipv6_src'', str ''2000::1''),
          (''ipv6_hlim'', num 63), (''pktlen'', add (add (num 201) (num 14)) (num 40))]),
        print [self ''dev_port1'', self ''dev_port0''],
        run (lib ''send_packet'' [self ''dev_port1'', var ''pkt''] []),
        run (lib ''verify_packet'' [var ''exp_pkt'', self ''dev_port0''] []),
        set_self ''port1_rif_counter_in'' (add (self ''port1_rif_counter_in'') (num 1)),
        set_self ''port0_rif_counter_out'' (add (self ''port0_rif_counter_out'') (num 1)),
        set_self ''port1_rif_counter_in_octects'' (add (self ''port1_rif_counter_in_octects'') (add (length_of (var ''pkt''))
          (num 4))),
        set_self ''port0_rif_counter_out_octects'' (add (self ''port0_rif_counter_out_octects'') (add (length_of (var
          ''exp_pkt'')) (num 4))),
        assign ''pkt'' (lib ''set_field'' [var ''pkt'', str ''IPv6'', str ''dst'', str
          ''1234:5678:9abc:def0:1122:3344:5566:7788''] []),
        assign ''exp_pkt'' (lib ''set_field'' [var ''exp_pkt'', str ''IPv6'', str ''dst'', str
          ''1234:5678:9abc:def0:1122:3344:5566:7788''] []),
        assign ''exp_pkt'' (with_item (var ''exp_pkt'') (str ''Ethernet'') (with_field (item (var ''exp_pkt'') (str
          ''Ethernet'')) ''dst'' (str ''00:33:22:33:44:55''))),
        print [self ''dev_port1''],
        run (lib ''send_packet'' [self ''dev_port1'', var ''pkt''] []),
        run (lib ''verify_no_other_packets'' [] [(''timeout'', num 1)]),
        set_self ''port1_rif_counter_in'' (add (self ''port1_rif_counter_in'') (num 1)),
        set_self ''lag1_rif_counter_out'' (add (self ''lag1_rif_counter_out'') (num 1)),
        set_self ''port1_rif_counter_in_octects'' (add (self ''port1_rif_counter_in_octects'') (add (length_of (var ''pkt''))
          (num 4))),
        run (api_set ''router_interface'' (self ''lag1_rif'') [(''mtu'', num 201)]),
        print [self ''dev_port1''],
        run (lib ''send_packet'' [self ''dev_port1'', var ''pkt''] []),
        run (lib ''verify_packet_any_port'' [var ''exp_pkt'', list_of [self ''dev_port2'', self ''dev_port3'', self
          ''dev_port4'']] []),
        set_self ''port1_rif_counter_in'' (add (self ''port1_rif_counter_in'') (num 1)),
        set_self ''lag1_rif_counter_out'' (add (self ''lag1_rif_counter_out'') (num 1)),
        set_self ''port1_rif_counter_in_octects'' (add (self ''port1_rif_counter_in_octects'') (add (length_of (var ''pkt''))
          (num 4))),
        assign ''pkt'' (lib ''simple_tcpv6_packet'' [] [(''eth_dst'', str ROUTER_MAC), (''eth_src'', str ''00:22:22:22:22:22''),
          (''ipv6_dst'', str ''1234:5678:9abc:def0:4422:1133:5577:99aa''), (''ipv6_src'', str ''2000::1''), (''ipv6_hlim'', num
          64), (''pktlen'', add (add (num 202) (num 14)) (num 40))]),
        assign ''exp_pkt'' (lib ''simple_tcpv6_packet'' [] [(''eth_dst'', str ''00:11:22:33:44:55''), (''eth_src'', str
          ROUTER_MAC), (''ipv6_dst'', str ''1234:5678:9abc:def0:4422:1133:5577:99aa''), (''ipv6_src'', str ''2000::1''),
          (''ipv6_hlim'', num 63), (''pktlen'', add (add (num 202) (num 14)) (num 40))]),
        print [self ''dev_port1''],
        run (lib ''send_packet'' [self ''dev_port1'', var ''pkt''] []),
        run (lib ''verify_no_other_packets'' [] [(''timeout'', num 1)]),
        set_self ''port1_rif_counter_in'' (add (self ''port1_rif_counter_in'') (num 1)),
        set_self ''port0_rif_counter_out'' (add (self ''port0_rif_counter_out'') (num 1)),
        set_self ''port1_rif_counter_in_octects'' (add (self ''port1_rif_counter_in_octects'') (add (length_of (var ''pkt''))
          (num 4))),
        set_self ''port0_rif_counter_out_octects'' (add (self ''port0_rif_counter_out_octects'') (add (length_of (var
          ''exp_pkt'')) (num 4))),
        assign ''pkt'' (lib ''set_field'' [var ''pkt'', str ''IPv6'', str ''dst'', str
          ''1234:5678:9abc:def0:1122:3344:5566:7788''] []),
        assign ''exp_pkt'' (lib ''set_field'' [var ''exp_pkt'', str ''IPv6'', str ''dst'', str
          ''1234:5678:9abc:def0:1122:3344:5566:7788''] []),
        assign ''exp_pkt'' (with_item (var ''exp_pkt'') (str ''Ethernet'') (with_field (item (var ''exp_pkt'') (str
          ''Ethernet'')) ''dst'' (str ''00:33:22:33:44:55''))),
        print [self ''dev_port1''],
        run (lib ''send_packet'' [self ''dev_port1'', var ''pkt''] []),
        run (lib ''verify_no_other_packets'' [] [(''timeout'', num 1)]),
        set_self ''port1_rif_counter_in'' (add (self ''port1_rif_counter_in'') (num 1)),
        set_self ''lag1_rif_counter_out'' (add (self ''lag1_rif_counter_out'') (num 1)),
        set_self ''port1_rif_counter_in_octects'' (add (self ''port1_rif_counter_in_octects'') (add (length_of (var ''pkt''))
          (num 4)))] [
        run (api_set ''router_interface'' (self ''port0_rif'') [(''mtu'', item (var ''mtu_port0_rif'') (str ''mtu''))]),
        run (api_set ''router_interface'' (self ''lag1_rif'') [(''mtu'', item (var ''mtu_lag1_rif'') (str ''mtu''))])]]"

definition L3SubPortTestHelper_setUp :: "'d stmt" where
  "L3SubPortTestHelper_setUp = block [
      super_setUp,
      set_self ''port10_rif_in'' (num 0),
      set_self ''port10_rif_out'' (num 0),
      set_self ''port11_rif_in'' (num 0),
      set_self ''port11_rif_out'' (num 0),
      set_self ''port30_bp'' (num 0),
      set_self ''lag3_rif_in'' (num 0),
      set_self ''lag3_rif_out'' (num 0),
      set_self ''vlan600_rif_in'' (num 0),
      set_self ''vlan600_rif_out'' (num 0),
      set_self ''vlan700_rif_in'' (num 0),
      set_self ''vlan700_rif_out'' (num 0),
      set_self ''subport10_100_in'' (num 0),
      set_self ''subport10_200_in'' (num 0),
      set_self ''subport11_200_in'' (num 0),
      set_self ''subport11_300_in'' (num 0),
      set_self ''sublag3_400_in'' (num 0),
      set_self ''sublag3_500_in'' (num 0),
      set_self ''subport24_600_in'' (num 0),
      set_self ''subport25_400_in'' (num 0),
      set_self ''subport25_500_in'' (num 0),
      set_self ''subport10_100_out'' (num 0),
      set_self ''subport10_200_out'' (num 0),
      set_self ''subport11_200_out'' (num 0),
      set_self ''subport11_300_out'' (num 0),
      set_self ''sublag3_400_out'' (num 0),
      set_self ''sublag3_500_out'' (num 0),
      set_self ''subport24_600_out'' (num 0),
      set_self ''subport25_400_out'' (num 0),
      set_self ''subport25_500_out'' (num 0),
      assign ''dmac0'' (str ''00:11:22:33:44:55''),
      assign ''dmac1'' (str ''00:22:22:33:44:55''),
      assign ''dmac2'' (str ''00:33:22:33:44:55''),
      assign ''dmac3'' (str ''00:44:22:33:44:55''),
      assign ''dmac4'' (str ''00:55:22:33:44:55''),
      assign ''mac_action'' (num SAI_PACKET_ACTION_FORWARD),
      set_self ''nhop0'' (api_create ''next_hop'' [(''ip'', ip_address (str ''10.10.10.1'')), (''router_interface_id'', self
        ''port10_rif''), (''type'', num SAI_NEXT_HOP_TYPE_IP)]),
      set_self ''neighbor_entry0'' (struct ''sai_thrift_neighbor_entry_t'' [(''rif_id'', self ''port10_rif''), (''ip_address'',
        ip_address (str ''10.10.10.1''))]),
      run (api_create_entry ''neighbor_entry'' (self ''neighbor_entry0'') [(''dst_mac_address'', var ''dmac0'')]),
      set_self ''nhop1'' (api_create ''next_hop'' [(''ip'', ip_address (str ''10.10.10.2'')), (''router_interface_id'', self
        ''port11_rif''), (''type'', num SAI_NEXT_HOP_TYPE_IP)]),
      set_self ''neighbor_entry1'' (struct ''sai_thrift_neighbor_entry_t'' [(''rif_id'', self ''port11_rif''), (''ip_address'',
        ip_address (str ''10.10.10.2''))]),
      run (api_create_entry ''neighbor_entry'' (self ''neighbor_entry1'') [(''dst_mac_address'', var ''dmac1'')]),
      set_self ''nhop2'' (api_create ''next_hop'' [(''ip'', ip_address (str ''10.10.10.3'')), (''router_interface_id'', self
        ''lag3_rif''), (''type'', num SAI_NEXT_HOP_TYPE_IP)]),
      set_self ''neighbor_entry2'' (struct ''sai_thrift_neighbor_entry_t'' [(''rif_id'', self ''lag3_rif''), (''ip_address'',
        ip_address (str ''10.10.10.3''))]),
      run (api_create_entry ''neighbor_entry'' (self ''neighbor_entry2'') [(''dst_mac_address'', var ''dmac2'')]),
      set_self ''port24_bp'' (api_create ''bridge_port'' [(''bridge_id'', self ''default_1q_bridge''), (''port_id'', self
        ''port24''), (''type'', num SAI_BRIDGE_PORT_TYPE_PORT), (''admin_state'', bool True)]),
      set_self ''port25_bp'' (api_create ''bridge_port'' [(''bridge_id'', self ''default_1q_bridge''), (''port_id'', self
        ''port25''), (''type'', num SAI_BRIDGE_PORT_TYPE_PORT), (''admin_state'', bool True)]),
      set_self ''vlan600'' (api_create ''vlan'' [(''vlan_id'', num 600)]),
      set_self ''vlan_member601'' (api_create ''vlan_member'' [(''vlan_id'', self ''vlan600''), (''bridge_port_id'', self
        ''port24_bp''), (''vlan_tagging_mode'', num SAI_VLAN_TAGGING_MODE_UNTAGGED)]),
      set_self ''vlan600_rif'' (api_create ''router_interface'' [(''type'', num SAI_ROUTER_INTERFACE_TYPE_VLAN),
        (''virtual_router_id'', self ''default_vrf''), (''vlan_id'', self ''vlan600'')]),
      set_self ''nhop3'' (api_create ''next_hop'' [(''ip'', ip_address (str ''10.10.10.4'')), (''router_interface_id'', self
        ''vlan600_rif''), (''type'', num SAI_NEXT_HOP_TYPE_IP)]),
      set_self ''neighbor_entry3'' (struct ''sai_thrift_neighbor_entry_t'' [(''rif_id'', self ''vlan600_rif''), (''ip_address'',
        ip_address (str ''10.10.10.4''))]),
      run (api_create_entry ''neighbor_entry'' (self ''neighbor_entry3'') [(''dst_mac_address'', var ''dmac3'')]),
      set_self ''fdb_entry3'' (struct ''sai_thrift_fdb_entry_t'' [(''switch_id'', self ''switch_id''), (''mac_address'', var
        ''dmac3''), (''bv_id'', self ''vlan600'')]),
      run (api_create_entry ''fdb_entry'' (self ''fdb_entry3'') [(''type'', num SAI_FDB_ENTRY_TYPE_STATIC), (''bridge_port_id'',
        self ''port24_bp''), (''packet_action'', var ''mac_action'')]),
      run (api_set ''port'' (self ''port24'') [(''port_vlan_id'', num 600)]),
      set_self ''vlan700'' (api_create ''vlan'' [(''vlan_id'', num 700)]),
      set_self ''vlan_member701'' (api_create ''vlan_member'' [(''vlan_id'', self ''vlan700''), (''bridge_port_id'', self
        ''port25_bp''), (''vlan_tagging_mode'', num SAI_VLAN_TAGGING_MODE_TAGGED)]),
      set_self ''vlan700_rif'' (api_create ''router_interface'' [(''type'', num SAI_ROUTER_INTERFACE_TYPE_VLAN),
        (''virtual_router_id'', self ''default_vrf''), (''vlan_id'', self ''vlan700'')]),
      set_self ''nhop4'' (api_create ''next_hop'' [(''ip'', ip_address (str ''10.10.10.5'')), (''router_interface_id'', self
        ''vlan700_rif''), (''type'', num SAI_NEXT_HOP_TYPE_IP)]),
      set_self ''neighbor_entry4'' (struct ''sai_thrift_neighbor_entry_t'' [(''rif_id'', self ''vlan700_rif''), (''ip_address'',
        ip_address (str ''10.10.10.5''))]),
      run (api_create_entry ''neighbor_entry'' (self ''neighbor_entry4'') [(''dst_mac_address'', var ''dmac4'')]),
      set_self ''fdb_entry4'' (struct ''sai_thrift_fdb_entry_t'' [(''switch_id'', self ''switch_id''), (''mac_address'', var
        ''dmac4''), (''bv_id'', self ''vlan700'')]),
      run (api_create_entry ''fdb_entry'' (self ''fdb_entry4'') [(''type'', num SAI_FDB_ENTRY_TYPE_STATIC), (''bridge_port_id'',
        self ''port25_bp''), (''packet_action'', var ''mac_action'')]),
      set_self ''subport10_100'' (api_create ''router_interface'' [(''type'', num SAI_ROUTER_INTERFACE_TYPE_SUB_PORT),
        (''virtual_router_id'', self ''default_vrf''), (''port_id'', self ''port10''), (''admin_v4_state'', bool True),
        (''outer_vlan_id'', num 100)]),
      set_self ''nhop_sp10_100'' (api_create ''next_hop'' [(''ip'', ip_address (str ''20.20.0.10'')), (''router_interface_id'',
        self ''subport10_100''), (''type'', num SAI_NEXT_HOP_TYPE_IP)]),
      set_self ''neighbor_entry_sp10_100'' (struct ''sai_thrift_neighbor_entry_t'' [(''rif_id'', self ''subport10_100''),
        (''ip_address'', ip_address (str ''20.20.0.10''))]),
      run (api_create_entry ''neighbor_entry'' (self ''neighbor_entry_sp10_100'') [(''dst_mac_address'', str
        ''00:33:33:33:01:00'')]),
      set_self ''subport10_200'' (api_create ''router_interface'' [(''type'', num SAI_ROUTER_INTERFACE_TYPE_SUB_PORT),
        (''virtual_router_id'', self ''default_vrf''), (''port_id'', self ''port10''), (''admin_v4_state'', bool True),
        (''outer_vlan_id'', num 200)]),
      set_self ''nhop_sp10_200'' (api_create ''next_hop'' [(''ip'', ip_address (str ''20.20.0.20'')), (''router_interface_id'',
        self ''subport10_200''), (''type'', num SAI_NEXT_HOP_TYPE_IP)]),
      set_self ''neighbor_entry_sp10_200'' (struct ''sai_thrift_neighbor_entry_t'' [(''rif_id'', self ''subport10_200''),
        (''ip_address'', ip_address (str ''20.20.0.20''))]),
      run (api_create_entry ''neighbor_entry'' (self ''neighbor_entry_sp10_200'') [(''dst_mac_address'', str
        ''00:33:33:33:02:00'')]),
      set_self ''subport11_200'' (api_create ''router_interface'' [(''type'', num SAI_ROUTER_INTERFACE_TYPE_SUB_PORT),
        (''virtual_router_id'', self ''default_vrf''), (''port_id'', self ''port11''), (''admin_v4_state'', bool True),
        (''outer_vlan_id'', num 200)]),
      set_self ''nhop_sp11_200'' (api_create ''next_hop'' [(''ip'', ip_address (str ''20.20.1.20'')), (''router_interface_id'',
        self ''subport11_200''), (''type'', num SAI_NEXT_HOP_TYPE_IP)]),
      set_self ''neighbor_entry_sp11_200'' (struct ''sai_thrift_neighbor_entry_t'' [(''rif_id'', self ''subport11_200''),
        (''ip_address'', ip_address (str ''20.20.1.20''))]),
      run (api_create_entry ''neighbor_entry'' (self ''neighbor_entry_sp11_200'') [(''dst_mac_address'', str
        ''00:33:33:33:12:00'')]),
      set_self ''subport11_300'' (api_create ''router_interface'' [(''type'', num SAI_ROUTER_INTERFACE_TYPE_SUB_PORT),
        (''virtual_router_id'', self ''default_vrf''), (''port_id'', self ''port11''), (''admin_v4_state'', bool True),
        (''outer_vlan_id'', num 300)]),
      set_self ''nhop_sp11_300'' (api_create ''next_hop'' [(''ip'', ip_address (str ''20.20.1.30'')), (''router_interface_id'',
        self ''subport11_300''), (''type'', num SAI_NEXT_HOP_TYPE_IP)]),
      set_self ''neighbor_entry_sp11_300'' (struct ''sai_thrift_neighbor_entry_t'' [(''rif_id'', self ''subport11_300''),
        (''ip_address'', ip_address (str ''20.20.1.30''))]),
      run (api_create_entry ''neighbor_entry'' (self ''neighbor_entry_sp11_300'') [(''dst_mac_address'', str
        ''00:33:33:33:13:00'')]),
      set_self ''sublag3_400'' (api_create ''router_interface'' [(''type'', num SAI_ROUTER_INTERFACE_TYPE_SUB_PORT),
        (''virtual_router_id'', self ''default_vrf''), (''port_id'', self ''lag3''), (''admin_v4_state'', bool True),
        (''outer_vlan_id'', num 400)]),
      set_self ''nhop_sl3_400'' (api_create ''next_hop'' [(''ip'', ip_address (str ''20.20.0.40'')), (''router_interface_id'',
        self ''sublag3_400''), (''type'', num SAI_NEXT_HOP_TYPE_IP)]),
      set_self ''neighbor_entry_sl3_400'' (struct ''sai_thrift_neighbor_entry_t'' [(''rif_id'', self ''sublag3_400''),
        (''ip_address'', ip_address (str ''20.20.0.40''))]),
      run (api_create_entry ''neighbor_entry'' (self ''neighbor_entry_sl3_400'') [(''dst_mac_address'', str
        ''00:33:33:33:04:00'')]),
      set_self ''sublag3_500'' (api_create ''router_interface'' [(''type'', num SAI_ROUTER_INTERFACE_TYPE_SUB_PORT),
        (''virtual_router_id'', self ''default_vrf''), (''port_id'', self ''lag3''), (''admin_v4_state'', bool True),
        (''outer_vlan_id'', num 500)]),
      set_self ''nhop_sl3_500'' (api_create ''next_hop'' [(''ip'', ip_address (str ''20.20.0.50'')), (''router_interface_id'',
        self ''sublag3_500''), (''type'', num SAI_NEXT_HOP_TYPE_IP)]),
      set_self ''neighbor_entry_sl3_500'' (struct ''sai_thrift_neighbor_entry_t'' [(''rif_id'', self ''sublag3_500''),
        (''ip_address'', ip_address (str ''20.20.0.50''))]),
      run (api_create_entry ''neighbor_entry'' (self ''neighbor_entry_sl3_500'') [(''dst_mac_address'', str
        ''00:33:33:33:05:00'')]),
      set_self ''subport24_600'' (api_create ''router_interface'' [(''type'', num SAI_ROUTER_INTERFACE_TYPE_SUB_PORT),
        (''virtual_router_id'', self ''default_vrf''), (''port_id'', self ''port24''), (''admin_v4_state'', bool True),
        (''outer_vlan_id'', num 600)]),
      set_self ''nhop_sp24_600'' (api_create ''next_hop'' [(''ip'', ip_address (str ''20.20.3.60'')), (''router_interface_id'',
        self ''subport24_600''), (''type'', num SAI_NEXT_HOP_TYPE_IP)]),
      set_self ''neighbor_entry_sp24_600'' (struct ''sai_thrift_neighbor_entry_t'' [(''rif_id'', self ''subport24_600''),
        (''ip_address'', ip_address (str ''20.20.3.60''))]),
      run (api_create_entry ''neighbor_entry'' (self ''neighbor_entry_sp24_600'') [(''dst_mac_address'', str
        ''00:33:33:33:36:00'')]),
      set_self ''subport25_400'' (api_create ''router_interface'' [(''type'', num SAI_ROUTER_INTERFACE_TYPE_SUB_PORT),
        (''virtual_router_id'', self ''default_vrf''), (''port_id'', self ''port25''), (''admin_v4_state'', bool True),
        (''outer_vlan_id'', num 400)]),
      set_self ''nhop_sp25_400'' (api_create ''next_hop'' [(''ip'', ip_address (str ''20.20.4.40'')), (''router_interface_id'',
        self ''subport25_400''), (''type'', num SAI_NEXT_HOP_TYPE_IP)]),
      set_self ''neighbor_entry_sp25_400'' (struct ''sai_thrift_neighbor_entry_t'' [(''rif_id'', self ''subport25_400''),
        (''ip_address'', ip_address (str ''20.20.4.40''))]),
      run (api_create_entry ''neighbor_entry'' (self ''neighbor_entry_sp25_400'') [(''dst_mac_address'', str
        ''00:33:33:33:44:00'')]),
      set_self ''subport25_500'' (api_create ''router_interface'' [(''type'', num SAI_ROUTER_INTERFACE_TYPE_SUB_PORT),
        (''virtual_router_id'', self ''default_vrf''), (''port_id'', self ''port25''), (''admin_v4_state'', bool True),
        (''outer_vlan_id'', num 500)]),
      set_self ''nhop_sp25_500'' (api_create ''next_hop'' [(''ip'', ip_address (str ''20.20.4.50'')), (''router_interface_id'',
        self ''subport25_500''), (''type'', num SAI_NEXT_HOP_TYPE_IP)]),
      set_self ''neighbor_entry_sp25_500'' (struct ''sai_thrift_neighbor_entry_t'' [(''rif_id'', self ''subport25_500''),
        (''ip_address'', ip_address (str ''20.20.4.50''))]),
      run (api_create_entry ''neighbor_entry'' (self ''neighbor_entry_sp25_500'') [(''dst_mac_address'', str
        ''00:33:33:33:45:00'')]),
      set_self ''route_entry0'' (struct ''sai_thrift_route_entry_t'' [(''vr_id'', self ''default_vrf''), (''destination'',
        ip_prefix (str ''30.30.0.1/32''))]),
      run (api_create_entry ''route_entry'' (self ''route_entry0'') [(''next_hop_id'', self ''nhop0'')]),
      set_self ''route_entry1'' (struct ''sai_thrift_route_entry_t'' [(''vr_id'', self ''default_vrf''), (''destination'',
        ip_prefix (str ''30.30.1.1/32''))]),
      run (api_create_entry ''route_entry'' (self ''route_entry1'') [(''next_hop_id'', self ''nhop1'')]),
      set_self ''route_entry1_ipv6'' (struct ''sai_thrift_route_entry_t'' [(''vr_id'', self ''default_vrf''), (''destination'',
        ip_prefix (str ''1234:5678:9abc:def0:4422:1133:5577:99aa/128''))]),
      run (api_create_entry ''route_entry'' (self ''route_entry1_ipv6'') [(''next_hop_id'', self ''nhop0'')]),
      set_self ''route_entry2'' (struct ''sai_thrift_route_entry_t'' [(''vr_id'', self ''default_vrf''), (''destination'',
        ip_prefix (str ''30.30.2.1/32''))]),
      run (api_create_entry ''route_entry'' (self ''route_entry2'') [(''next_hop_id'', self ''nhop2'')]),
      set_self ''route_entry3'' (struct ''sai_thrift_route_entry_t'' [(''vr_id'', self ''default_vrf''), (''destination'',
        ip_prefix (str ''30.30.3.1/32''))]),
      run (api_create_entry ''route_entry'' (self ''route_entry3'') [(''next_hop_id'', self ''nhop3'')]),
      set_self ''route_entry4'' (struct ''sai_thrift_route_entry_t'' [(''vr_id'', self ''default_vrf''), (''destination'',
        ip_prefix (str ''30.30.4.1/32''))]),
      run (api_create_entry ''route_entry'' (self ''route_entry4'') [(''next_hop_id'', self ''nhop4'')]),
      set_self ''route_entry_sp10_100'' (struct ''sai_thrift_route_entry_t'' [(''vr_id'', self ''default_vrf''),
        (''destination'', ip_prefix (str ''40.40.0.10/32''))]),
      run (api_create_entry ''route_entry'' (self ''route_entry_sp10_100'') [(''next_hop_id'', self ''nhop_sp10_100'')]),
      set_self ''route_entry_sp10_100_ipv6'' (struct ''sai_thrift_route_entry_t'' [(''vr_id'', self ''default_vrf''),
        (''destination'', ip_prefix (str ''1234:5678:9abc:def0:4422:1133:5577:8899/128''))]),
      run (api_create_entry ''route_entry'' (self ''route_entry_sp10_100_ipv6'') [(''next_hop_id'', self ''nhop_sp10_100'')]),
      set_self ''route_entry_sp10_200'' (struct ''sai_thrift_route_entry_t'' [(''vr_id'', self ''default_vrf''),
        (''destination'', ip_prefix (str ''40.40.0.20/32''))]),
      run (api_create_entry ''route_entry'' (self ''route_entry_sp10_200'') [(''next_hop_id'', self ''nhop_sp10_200'')]),
      set_self ''route_entry_sp11_200'' (struct ''sai_thrift_route_entry_t'' [(''vr_id'', self ''default_vrf''),
        (''destination'', ip_prefix (str ''40.40.1.20/32''))]),
      run (api_create_entry ''route_entry'' (self ''route_entry_sp11_200'') [(''next_hop_id'', self ''nhop_sp11_200'')]),
      set_self ''route_entry_sp11_300'' (struct ''sai_thrift_route_entry_t'' [(''vr_id'', self ''default_vrf''),
        (''destination'', ip_prefix (str ''40.40.1.30/32''))]),
      run (api_create_entry ''route_entry'' (self ''route_entry_sp11_300'') [(''next_hop_id'', self ''nhop_sp11_300'')]),
      set_self ''route_entry_sl3_400'' (struct ''sai_thrift_route_entry_t'' [(''vr_id'', self ''default_vrf''),
        (''destination'', ip_prefix (str ''40.40.0.40/32''))]),
      run (api_create_entry ''route_entry'' (self ''route_entry_sl3_400'') [(''next_hop_id'', self ''nhop_sl3_400'')]),
      set_self ''route_entry_sl3_500'' (struct ''sai_thrift_route_entry_t'' [(''vr_id'', self ''default_vrf''),
        (''destination'', ip_prefix (str ''40.40.0.50/32''))]),
      run (api_create_entry ''route_entry'' (self ''route_entry_sl3_500'') [(''next_hop_id'', self ''nhop_sl3_500'')]),
      set_self ''route_entry_sp24_600'' (struct ''sai_thrift_route_entry_t'' [(''vr_id'', self ''default_vrf''),
        (''destination'', ip_prefix (str ''40.40.3.60/32''))]),
      run (api_create_entry ''route_entry'' (self ''route_entry_sp24_600'') [(''next_hop_id'', self ''nhop_sp24_600'')]),
      set_self ''route_entry_sp25_400'' (struct ''sai_thrift_route_entry_t'' [(''vr_id'', self ''default_vrf''),
        (''destination'', ip_prefix (str ''40.40.4.40/32''))]),
      run (api_create_entry ''route_entry'' (self ''route_entry_sp25_400'') [(''next_hop_id'', self ''nhop_sp25_400'')]),
      set_self ''route_entry_sp25_500'' (struct ''sai_thrift_route_entry_t'' [(''vr_id'', self ''default_vrf''),
        (''destination'', ip_prefix (str ''40.40.4.50/32''))]),
      run (api_create_entry ''route_entry'' (self ''route_entry_sp25_500'') [(''next_hop_id'', self ''nhop_sp25_500'')]),
      set_self ''nhop_group'' (api_create ''next_hop_group'' [(''type'', num SAI_NEXT_HOP_GROUP_TYPE_ECMP)]),
      set_self ''nhop_group_member1'' (api_create ''next_hop_group_member'' [(''next_hop_group_id'', self ''nhop_group''),
        (''next_hop_id'', self ''nhop_sp10_200'')]),
      set_self ''nhop_group_member2'' (api_create ''next_hop_group_member'' [(''next_hop_group_id'', self ''nhop_group''),
        (''next_hop_id'', self ''nhop_sp11_200'')]),
      set_self ''nhop_group_member3'' (api_create ''next_hop_group_member'' [(''next_hop_group_id'', self ''nhop_group''),
        (''next_hop_id'', self ''nhop_sl3_400'')]),
      set_self ''nhop_group_member4'' (api_create ''next_hop_group_member'' [(''next_hop_group_id'', self ''nhop_group''),
        (''next_hop_id'', self ''nhop_sp24_600'')]),
      set_self ''nhop_group_member5'' (api_create ''next_hop_group_member'' [(''next_hop_group_id'', self ''nhop_group''),
        (''next_hop_id'', self ''nhop_sp25_500'')]),
      set_self ''route_entry_ecmp'' (struct ''sai_thrift_route_entry_t'' [(''vr_id'', self ''default_vrf''), (''destination'',
        ip_prefix (str ''60.60.60.0/16''))]),
      run (api_create_entry ''route_entry'' (self ''route_entry_ecmp'') [(''next_hop_id'', self ''nhop_group'')])]"

definition L3SubPortTestHelper_tearDown :: "'d stmt" where
  "L3SubPortTestHelper_tearDown = block [
      run (api_remove ''route_entry'' (self ''route_entry_ecmp'')),
      run (api_remove ''next_hop_group_member'' (self ''nhop_group_member1'')),
      run (api_remove ''next_hop_group_member'' (self ''nhop_group_member2'')),
      run (api_remove ''next_hop_group_member'' (self ''nhop_group_member3'')),
      run (api_remove ''next_hop_group_member'' (self ''nhop_group_member4'')),
      run (api_remove ''next_hop_group_member'' (self ''nhop_group_member5'')),
      run (api_remove ''next_hop_group'' (self ''nhop_group'')),
      run (api_remove ''route_entry'' (self ''route_entry_sp25_500'')),
      run (api_remove ''route_entry'' (self ''route_entry_sp25_400'')),
      run (api_remove ''route_entry'' (self ''route_entry_sp24_600'')),
      run (api_remove ''route_entry'' (self ''route_entry_sp10_100'')),
      run (api_remove ''route_entry'' (self ''route_entry_sp10_100_ipv6'')),
      run (api_remove ''route_entry'' (self ''route_entry_sp10_200'')),
      run (api_remove ''route_entry'' (self ''route_entry_sp11_200'')),
      run (api_remove ''route_entry'' (self ''route_entry_sp11_300'')),
      run (api_remove ''route_entry'' (self ''route_entry_sl3_400'')),
      run (api_remove ''route_entry'' (self ''route_entry_sl3_500'')),
      run (api_remove ''route_entry'' (self ''route_entry4'')),
      run (api_remove ''route_entry'' (self ''route_entry3'')),
      run (api_remove ''route_entry'' (self ''route_entry2'')),
      run (api_remove ''route_entry'' (self ''route_entry1'')),
      run (api_remove ''route_entry'' (self ''route_entry1_ipv6'')),
      run (api_remove ''route_entry'' (self ''route_entry0'')),
      run (api_remove ''neighbor_entry'' (self ''neighbor_entry_sp24_600'')),
      run (api_remove ''next_hop'' (self ''nhop_sp24_600'')),
      run (api_remove ''router_interface'' (self ''subport24_600'')),
      run (api_remove ''neighbor_entry'' (self ''neighbor_entry_sp25_500'')),
      run (api_remove ''neighbor_entry'' (self ''neighbor_entry_sp25_400'')),
      run (api_remove ''next_hop'' (self ''nhop_sp25_500'')),
      run (api_remove ''next_hop'' (self ''nhop_sp25_400'')),
      run (api_remove ''router_interface'' (self ''subport25_500'')),
      run (api_remove ''router_interface'' (self ''subport25_400'')),
      run (api_remove ''neighbor_entry'' (self ''neighbor_entry_sl3_500'')),
      run (api_remove ''neighbor_entry'' (self ''neighbor_entry_sl3_400'')),
      run (api_remove ''next_hop'' (self ''nhop_sl3_500'')),
      run (api_remove ''next_hop'' (self ''nhop_sl3_400'')),
      run (api_remove ''router_interface'' (self ''sublag3_500'')),
      run (api_remove ''router_interface'' (self ''sublag3_400'')),
      run (api_remove ''neighbor_entry'' (self ''neighbor_entry_sp11_300'')),
      run (api_remove ''neighbor_entry'' (self ''neighbor_entry_sp11_200'')),
      run (api_remove ''next_hop'' (self ''nhop_sp11_300'')),
      run (api_remove ''next_hop'' (self ''nhop_sp11_200'')),
      run (api_remove ''router_interface'' (self ''subport11_300'')),
      run (api_remove ''router_interface'' (self ''subport11_200'')),
      run (api_remove ''neighbor_entry'' (self ''neighbor_entry_sp10_200'')),
      run (api_remove ''neighbor_entry'' (self ''neighbor_entry_sp10_100'')),
      run (api_remove ''next_hop'' (self ''nhop_sp10_200'')),
      run (api_remove ''next_hop'' (self ''nhop_sp10_100'')),
      run (api_remove ''router_interface'' (self ''subport10_200'')),
      run (api_remove ''router_interface'' (self ''subport10_100'')),
      run (api_set ''port'' (self ''port24'') [(''port_vlan_id'', num 1)]),
      run (api_remove ''fdb_entry'' (self ''fdb_entry4'')),
      run (api_remove ''fdb_entry'' (self ''fdb_entry3'')),
      run (api_remove ''neighbor_entry'' (self ''neighbor_entry4'')),
      run (api_remove ''neighbor_entry'' (self ''neighbor_entry3'')),
      run (api_remove ''neighbor_entry'' (self ''neighbor_entry2'')),
      run (api_remove ''neighbor_entry'' (self ''neighbor_entry1'')),
      run (api_remove ''neighbor_entry'' (self ''neighbor_entry0'')),
      run (api_remove ''next_hop'' (self ''nhop4'')),
      run (api_remove ''next_hop'' (self ''nhop3'')),
      run (api_remove ''next_hop'' (self ''nhop2'')),
      run (api_remove ''next_hop'' (self ''nhop1'')),
      run (api_remove ''next_hop'' (self ''nhop0'')),
      run (api_remove ''router_interface'' (self ''vlan700_rif'')),
      run (api_remove ''router_interface'' (self ''vlan600_rif'')),
      run (api_remove ''vlan_member'' (self ''vlan_member701'')),
      run (api_remove ''vlan_member'' (self ''vlan_member601'')),
      run (api_remove ''vlan'' (self ''vlan700'')),
      run (api_remove ''vlan'' (self ''vlan600'')),
      run (api_remove ''bridge_port'' (self ''port25_bp'')),
      run (api_remove ''bridge_port'' (self ''port24_bp'')),
      super_tearDown]"

definition PvMissTest_setUp :: "'d stmt" where
  "PvMissTest_setUp = block [
      run (invoke [] L3SubPortTestHelper_setUp)]"

definition PvMissTest_runTest :: "'d stmt" where
  "PvMissTest_runTest = block [
      assign ''pkt'' (lib ''simple_tcp_packet'' [] [(''eth_dst'', str ROUTER_MAC), (''eth_src'', str ''00:22:22:22:22:22''),
        (''ip_dst'', str ''30.30.0.1''), (''ip_ttl'', num 64), (''dl_vlan_enable'', bool True), (''vlan_vid'', num 100),
        (''pktlen'', num 104)]),
      assign ''exp_pkt'' (lib ''simple_tcp_packet'' [] [(''eth_dst'', str ''00:11:22:33:44:55''), (''eth_src'', str ROUTER_MAC),
        (''ip_dst'', str ''30.30.0.1''), (''ip_ttl'', num 63), (''pktlen'', num 100)]),
      assign ''pkt'' (lib ''set_field'' [var ''pkt'', str ''Dot1Q'', str ''vlan'', num 400] []),
      run (lib ''send_packet'' [self ''dev_port25'', var ''pkt''] []),
      run (lib ''verify_packet'' [var ''exp_pkt'', self ''dev_port10''] []),
      set_self ''subport25_400_in'' (add (self ''subport25_400_in'') (num 1)),
      set_self ''port10_rif_out'' (add (self ''port10_rif_out'') (num 1)),
      assign ''pkt'' (lib ''set_field'' [var ''pkt'', str ''Dot1Q'', str ''vlan'', num 500] []),
      run (lib ''send_packet'' [self ''dev_port25'', var ''pkt''] []),
      run (lib ''verify_packet'' [var ''exp_pkt'', self ''dev_port10''] []),
      set_self ''subport25_500_in'' (add (self ''subport25_500_in'') (num 1)),
      set_self ''port10_rif_out'' (add (self ''port10_rif_out'') (num 1)),
      assign ''pkt'' (lib ''set_field'' [var ''pkt'', str ''Dot1Q'', str ''vlan'', num 700] []),
      run (lib ''send_packet'' [self ''dev_port25'', var ''pkt''] []),
      run (lib ''verify_packet'' [var ''exp_pkt'', self ''dev_port10''] []),
      set_self ''vlan700_rif_in'' (add (self ''vlan700_rif_in'') (num 1)),
      set_self ''port10_rif_out'' (add (self ''port10_rif_out'') (num 1)),
      assign ''pkt'' (lib ''set_field'' [var ''pkt'', str ''Dot1Q'', str ''vlan'', num 40] []),
      run (lib ''send_packet'' [self ''dev_port25'', var ''pkt''] []),
      run (lib ''verify_no_other_packets'' [] [(''timeout'', num 1)]),
      assign ''pkt'' (lib ''set_field'' [var ''pkt'', str ''Dot1Q'', str ''vlan'', num 100] []),
      run (lib ''send_packet'' [self ''dev_port25'', var ''pkt''] []),
      run (lib ''verify_no_other_packets'' [] [(''timeout'', num 1)]),
      assign ''pkt'' (lib ''set_field'' [var ''pkt'', str ''Dot1Q'', str ''vlan'', num 200] []),
      run (lib ''send_packet'' [self ''dev_port25'', var ''pkt''] []),
      run (lib ''verify_no_other_packets'' [] [(''timeout'', num 1)])]"

definition PvMissTest_tearDown :: "'d stmt" where
  "PvMissTest_tearDown = block [
      run (invoke [] L3SubPortTestHelper_tearDown)]"

definition SubPortToSubPortTest_setUp :: "'d stmt" where
  "SubPortToSubPortTest_setUp = block [
      run (invoke [] L3SubPortTestHelper_setUp)]"

definition SubPortToSubPortTest_runTest :: "'d stmt" where
  "SubPortToSubPortTest_runTest = block [
      assign ''pkt'' (lib ''simple_tcp_packet'' [] [(''eth_dst'', str ROUTER_MAC), (''eth_src'', str ''00:22:22:22:22:22''),
        (''ip_dst'', str ''40.40.0.10''), (''ip_src'', str ''30.30.0.1''), (''ip_id'', num 105), (''ip_ttl'', num 64),
        (''dl_vlan_enable'', bool True), (''vlan_vid'', num 100), (''pktlen'', num 104)]),
      assign ''exp_pkt'' (lib ''simple_tcp_packet'' [] [(''eth_dst'', str ''00:11:22:33:44:55''), (''eth_src'', str ROUTER_MAC),
        (''ip_dst'', str ''40.40.0.10''), (''ip_src'', str ''30.30.0.1''), (''ip_id'', num 105), (''ip_ttl'', num 63),
        (''dl_vlan_enable'', bool True), (''vlan_vid'', num 100), (''pktlen'', num 104)]),
      assign ''pkt_data'' (list_of [list_of [str ''40.40.0.10'', str ''00:33:33:33:01:00'', num 100, list_of [num 10], self
        ''subport10_100''], list_of [str ''40.40.0.20'', str ''00:33:33:33:02:00'', num 200, list_of [num 10], self
        ''subport10_200''], list_of [str ''40.40.1.20'', str ''00:33:33:33:12:00'', num 200, list_of [num 11], self
        ''subport11_200''], list_of [str ''40.40.1.30'', str ''00:33:33:33:13:00'', num 300, list_of [num 11], self
        ''subport11_300''], list_of [str ''40.40.0.40'', str ''00:33:33:33:04:00'', num 400, list_of [num 14, num 15, num 16],
        self ''sublag3_400''], list_of [str ''40.40.0.50'', str ''00:33:33:33:05:00'', num 500, list_of [num 14, num 15, num
        16], self ''sublag3_500''], list_of [str ''40.40.3.60'', str ''00:33:33:33:36:00'', num 600, list_of [num 24], self
        ''subport24_600''], list_of [str ''40.40.4.40'', str ''00:33:33:33:44:00'', num 400, list_of [num 25], self
        ''subport25_400''], list_of [str ''40.40.4.50'', str ''00:33:33:33:45:00'', num 500, list_of [num 25], self
        ''subport25_500'']]),
      for_in [''irif''] (var ''pkt_data'') [
        for_in [''erif''] (var ''pkt_data'') [
          if_else (eq (item (var ''irif'') (num 4)) (item (var ''erif'') (num 4))) [
            continue] [],
          assign ''pkt'' (lib ''set_field'' [var ''pkt'', str ''IP'', str ''dst'', item (var ''erif'') (num 0)] []),
          assign ''pkt'' (lib ''set_field'' [var ''pkt'', str ''Dot1Q'', str ''vlan'', item (var ''irif'') (num 2)] []),
          assign ''exp_pkt'' (lib ''set_field'' [var ''exp_pkt'', str ''IP'', str ''dst'', item (var ''erif'') (num 0)] []),
          assign ''exp_pkt'' (lib ''set_field'' [var ''exp_pkt'', str ''Ether'', str ''dst'', item (var ''erif'') (num 1)] []),
          assign ''exp_pkt'' (lib ''set_field'' [var ''exp_pkt'', str ''Dot1Q'', str ''vlan'', item (var ''erif'') (num 2)] []),
          assign ''iport'' (self_named (formatted ''dev_port%s'' [item (item (var ''irif'') (num 3)) (num 0)])),
          assign ''eport'' (list_comp (self_named (formatted ''dev_port%s'' [var ''i''])) [''i''] (item (var ''erif'') (num 3))),
          run (lib ''send_packet'' [var ''iport'', var ''pkt''] []),
          run (lib ''verify_packet_any_port'' [var ''exp_pkt'', var ''eport''] [])]],
      set_self ''subport10_100_in'' (add (self ''subport10_100_in'') (num 8)),
      set_self ''subport10_200_in'' (add (self ''subport10_200_in'') (num 8)),
      set_self ''subport11_200_in'' (add (self ''subport11_200_in'') (num 8)),
      set_self ''subport11_300_in'' (add (self ''subport11_300_in'') (num 8)),
      set_self ''sublag3_400_in'' (add (self ''sublag3_400_in'') (num 8)),
      set_self ''sublag3_500_in'' (add (self ''sublag3_500_in'') (num 8)),
      set_self ''subport24_600_in'' (add (self ''subport24_600_in'') (num 8)),
      set_self ''subport25_400_in'' (add (self ''subport25_400_in'') (num 8)),
      set_self ''subport25_500_in'' (add (self ''subport25_500_in'') (num 8)),
      set_self ''subport10_100_out'' (add (self ''subport10_100_out'') (num 8)),
      set_self ''subport10_200_out'' (add (self ''subport10_200_out'') (num 8)),
      set_self ''subport11_200_out'' (add (self ''subport11_200_out'') (num 8)),
      set_self ''subport11_300_out'' (add (self ''subport11_300_out'') (num 8)),
      set_self ''sublag3_400_out'' (add (self ''sublag3_400_out'') (num 8)),
      set_self ''sublag3_500_out'' (add (self ''sublag3_500_out'') (num 8)),
      set_self ''subport24_600_out'' (add (self ''subport24_600_out'') (num 8)),
      set_self ''subport25_400_out'' (add (self ''subport25_400_out'') (num 8)),
      set_self ''subport25_500_out'' (add (self ''subport25_500_out'') (num 8))]"

definition SubPortToSubPortTest_tearDown :: "'d stmt" where
  "SubPortToSubPortTest_tearDown = block [
      run (invoke [] L3SubPortTestHelper_tearDown)]"

definition SubPortToRifTest_setUp :: "'d stmt" where
  "SubPortToRifTest_setUp = block [
      run (invoke [] L3SubPortTestHelper_setUp)]"

definition SubPortToRifTest_runTest :: "'d stmt" where
  "SubPortToRifTest_runTest = block [
      assign ''pkt'' (lib ''simple_tcp_packet'' [] [(''eth_dst'', str ROUTER_MAC), (''eth_src'', str ''00:22:22:22:22:22''),
        (''ip_dst'', str ''30.30.0.1''), (''ip_id'', num 105), (''ip_ttl'', num 64), (''dl_vlan_enable'', bool True),
        (''vlan_vid'', num 100), (''pktlen'', num 104)]),
      assign ''exp_pkt'' (lib ''simple_tcp_packet'' [] [(''eth_dst'', str ''00:33:33:33:01:00''), (''eth_src'', str ROUTER_MAC),
        (''ip_dst'', str ''30.30.0.1''), (''ip_id'', num 105), (''ip_ttl'', num 63), (''pktlen'', num 100)]),
      assign ''exp_tagged_pkt'' (lib ''simple_tcp_packet'' [] [(''eth_dst'', str ''00:33:33:33:01:00''), (''eth_src'', str
        ROUTER_MAC), (''ip_dst'', str ''30.30.0.1''), (''ip_id'', num 105), (''ip_ttl'', num 63), (''dl_vlan_enable'', bool
        True), (''vlan_vid'', num 700), (''pktlen'', num 104)]),
      assign ''pkt_data'' (list_of [list_of [str ''30.30.0.1'', str ''00:11:22:33:44:55'', num 10], list_of [str ''30.30.1.1'',
        str ''00:22:22:33:44:55'', num 11], list_of [str ''30.30.2.1'', str ''00:33:22:33:44:55'', num 15], list_of [str
        ''30.30.3.1'', str ''00:44:22:33:44:55'', num 24]]),
      assign ''ingress_rifs'' (list_of [list_of [num 10, num 100], list_of [num 10, num 200], list_of [num 11, num 200], list_of
        [num 11, num 300], list_of [num 14, num 400], list_of [num 14, num 500], list_of [num 24, num 600], list_of [num 25, num
        400], list_of [num 25, num 500]]),
      for_in [''item''] (var ''ingress_rifs'') [
        for_in [''content''] (var ''pkt_data'') [
          assign ''pkt'' (lib ''set_field'' [var ''pkt'', str ''IP'', str ''dst'', item (var ''content'') (num 0)] []),
          assign ''pkt'' (lib ''set_field'' [var ''pkt'', str ''Dot1Q'', str ''vlan'', item (var ''item'') (num 1)] []),
          assign ''exp_pkt'' (lib ''set_field'' [var ''exp_pkt'', str ''IP'', str ''dst'', item (var ''content'') (num 0)] []),
          assign ''exp_pkt'' (lib ''set_field'' [var ''exp_pkt'', str ''Ether'', str ''dst'', item (var ''content'') (num 1)]
            []),
          assign ''iport'' (self_named (formatted ''dev_port%s'' [item (var ''item'') (num 0)])),
          assign ''eport'' (self_named (formatted ''dev_port%s'' [item (var ''content'') (num 2)])),
          run (lib ''send_packet'' [var ''iport'', var ''pkt''] []),
          run (lib ''verify_packet'' [var ''exp_pkt'', var ''eport''] [])]],
      assign ''pkt_data'' (list_of [list_of [str ''30.30.4.1'', str ''00:55:22:33:44:55'', num 25]]),
      for_in [''item''] (var ''ingress_rifs'') [
        for_in [''content''] (var ''pkt_data'') [
          assign ''pkt'' (lib ''set_field'' [var ''pkt'', str ''IP'', str ''dst'', item (var ''content'') (num 0)] []),
          assign ''pkt'' (lib ''set_field'' [var ''pkt'', str ''Dot1Q'', str ''vlan'', item (var ''item'') (num 1)] []),
          assign ''exp_tagged_pkt'' (lib ''set_field'' [var ''exp_tagged_pkt'', str ''IP'', str ''dst'', item (var ''content'')
            (num 0)] []),
          assign ''exp_tagged_pkt'' (lib ''set_field'' [var ''exp_tagged_pkt'', str ''Ether'', str ''dst'', item (var
            ''content'') (num 1)] []),
          assign ''iport'' (self_named (formatted ''dev_port%s'' [item (var ''item'') (num 0)])),
          assign ''eport'' (self_named (formatted ''dev_port%s'' [item (var ''content'') (num 2)])),
          run (lib ''send_packet'' [var ''iport'', var ''pkt''] []),
          run (lib ''verify_packet'' [var ''exp_tagged_pkt'', var ''eport''] [])]],
      set_self ''subport10_100_in'' (add (self ''subport10_100_in'') (num 5)),
      set_self ''subport10_200_in'' (add (self ''subport10_200_in'') (num 5)),
      set_self ''subport11_200_in'' (add (self ''subport11_200_in'') (num 5)),
      set_self ''subport11_300_in'' (add (self ''subport11_300_in'') (num 5)),
      set_self ''sublag3_400_in'' (add (self ''sublag3_400_in'') (num 5)),
      set_self ''sublag3_500_in'' (add (self ''sublag3_500_in'') (num 5)),
      set_self ''subport24_600_in'' (add (self ''subport24_600_in'') (num 5)),
      set_self ''subport25_400_in'' (add (self ''subport25_400_in'') (num 5)),
      set_self ''subport25_500_in'' (add (self ''subport25_500_in'') (num 5)),
      set_self ''port10_rif_out'' (add (self ''port10_rif_out'') (num 9)),
      set_self ''port11_rif_out'' (add (self ''port11_rif_out'') (num 9)),
      set_self ''lag3_rif_out'' (add (self ''lag3_rif_out'') (num 9)),
      set_self ''vlan600_rif_out'' (add (self ''vlan600_rif_out'') (num 9)),
      set_self ''vlan700_rif_out'' (add (self ''vlan700_rif_out'') (num 9))]"

definition SubPortToRifTest_tearDown :: "'d stmt" where
  "SubPortToRifTest_tearDown = block [
      run (invoke [] L3SubPortTestHelper_tearDown)]"

definition RifToSubPortTest_setUp :: "'d stmt" where
  "RifToSubPortTest_setUp = block [
      run (invoke [] L3SubPortTestHelper_setUp)]"

definition RifToSubPortTest_runTest :: "'d stmt" where
  "RifToSubPortTest_runTest = block [
      assign ''pkt'' (lib ''simple_tcp_packet'' [] [(''eth_dst'', str ROUTER_MAC), (''eth_src'', str ''00:22:22:22:22:22''),
        (''ip_dst'', str ''40.40.0.10''), (''ip_src'', str ''30.30.0.1''), (''ip_id'', num 105), (''ip_ttl'', num 64),
        (''pktlen'', num 100)]),
      assign ''tagged_pkt'' (lib ''simple_tcp_packet'' [] [(''eth_dst'', str ROUTER_MAC), (''eth_src'', str
        ''00:22:22:22:22:22''), (''ip_dst'', str ''40.40.0.10''), (''ip_src'', str ''30.30.0.1''), (''ip_id'', num 105),
        (''ip_ttl'', num 64), (''dl_vlan_enable'', bool True), (''vlan_vid'', num 700), (''pktlen'', num 104)]),
      assign ''exp_pkt'' (lib ''simple_tcp_packet'' [] [(''eth_dst'', str ''00:11:22:33:44:55''), (''eth_src'', str ROUTER_MAC),
        (''ip_dst'', str ''40.40.0.10''), (''ip_src'', str ''30.30.0.1''), (''ip_id'', num 105), (''ip_ttl'', num 63),
        (''dl_vlan_enable'', bool True), (''vlan_vid'', num 100), (''pktlen'', num 104)]),
      assign ''pkt_data'' (list_of [list_of [str ''40.40.0.10'', str ''00:33:33:33:01:00'', num 100, list_of [num 10], str
        ''subport10_100''], list_of [str ''40.40.0.20'', str ''00:33:33:33:02:00'', num 200, list_of [num 10], str
        ''subport10_200''], list_of [str ''40.40.1.20'', str ''00:33:33:33:12:00'', num 200, list_of [num 11], str
        ''subport11_200''], list_of [str ''40.40.1.30'', str ''00:33:33:33:13:00'', num 300, list_of [num 11], str
        ''subport11_300''], list_of [str ''40.40.0.40'', str ''00:33:33:33:04:00'', num 400, list_of [num 14, num 15, num 16],
        str ''sublag3_400''], list_of [str ''40.40.0.50'', str ''00:33:33:33:05:00'', num 500, list_of [num 14, num 15, num 16],
        str ''sublag3_500''], list_of [str ''40.40.3.60'', str ''00:33:33:33:36:00'', num 600, list_of [num 24], str
        ''subport24_600''], list_of [str ''40.40.4.40'', str ''00:33:33:33:44:00'', num 400, list_of [num 25], str
        ''subport25_400''], list_of [str ''40.40.4.50'', str ''00:33:33:33:45:00'', num 500, list_of [num 25], str
        ''subport25_500'']]),
      assign ''ingress_rifs'' (list_of [num 10, num 11, num 15, num 24]),
      for_in [''port''] (var ''ingress_rifs'') [
        for_in [''content''] (var ''pkt_data'') [
          assign ''pkt'' (lib ''set_field'' [var ''pkt'', str ''IP'', str ''dst'', item (var ''content'') (num 0)] []),
          assign ''exp_pkt'' (lib ''set_field'' [var ''exp_pkt'', str ''IP'', str ''dst'', item (var ''content'') (num 0)] []),
          assign ''exp_pkt'' (lib ''set_field'' [var ''exp_pkt'', str ''Ether'', str ''dst'', item (var ''content'') (num 1)]
            []),
          assign ''exp_pkt'' (lib ''set_field'' [var ''exp_pkt'', str ''Dot1Q'', str ''vlan'', item (var ''content'') (num 2)]
            []),
          assign ''iport'' (self_named (formatted ''dev_port%s'' [var ''port''])),
          assign ''eport'' (list_comp (self_named (formatted ''dev_port%s'' [var ''i''])) [''i''] (item (var ''content'') (num
            3))),
          run (lib ''send_packet'' [var ''iport'', var ''pkt''] []),
          run (lib ''verify_packet_any_port'' [var ''exp_pkt'', var ''eport''] [])]],
      for_in [''content''] (var ''pkt_data'') [
        assign ''tagged_pkt'' (lib ''set_field'' [var ''tagged_pkt'', str ''IP'', str ''dst'', item (var ''content'') (num 0)]
          []),
        assign ''exp_pkt'' (lib ''set_field'' [var ''exp_pkt'', str ''IP'', str ''dst'', item (var ''content'') (num 0)] []),
        assign ''exp_pkt'' (lib ''set_field'' [var ''exp_pkt'', str ''Ether'', str ''dst'', item (var ''content'') (num 1)] []),
        assign ''exp_pkt'' (lib ''set_field'' [var ''exp_pkt'', str ''Dot1Q'', str ''vlan'', item (var ''content'') (num 2)] []),
        assign ''eport'' (list_comp (self_named (formatted ''dev_port%s'' [var ''i''])) [''i''] (item (var ''content'') (num
          3))),
        run (lib ''send_packet'' [self ''dev_port25'', var ''tagged_pkt''] []),
        run (lib ''verify_packet_any_port'' [var ''exp_pkt'', var ''eport''] [])],
      set_self ''subport10_100_out'' (add (self ''subport10_100_out'') (num 5)),
      set_self ''subport10_200_out'' (add (self ''subport10_200_out'') (num 5)),
      set_self ''subport11_200_out'' (add (self ''subport11_200_out'') (num 5)),
      set_self ''subport11_300_out'' (add (self ''subport11_300_out'') (num 5)),
      set_self ''sublag3_400_out'' (add (self ''sublag3_400_out'') (num 5)),
      set_self ''sublag3_500_out'' (add (self ''sublag3_500_out'') (num 5)),
      set_self ''subport24_600_out'' (add (self ''subport24_600_out'') (num 5)),
      set_self ''subport25_400_out'' (add (self ''subport25_400_out'') (num 5)),
      set_self ''subport25_500_out'' (add (self ''subport25_500_out'') (num 5)),
      set_self ''port10_rif_in'' (add (self ''port10_rif_in'') (num 9)),
      set_self ''port11_rif_in'' (add (self ''port11_rif_in'') (num 9)),
      set_self ''lag3_rif_in'' (add (self ''lag3_rif_in'') (num 9)),
      set_self ''vlan600_rif_in'' (add (self ''vlan600_rif_in'') (num 9)),
      set_self ''vlan700_rif_in'' (add (self ''vlan700_rif_in'') (num 9))]"

definition RifToSubPortTest_tearDown :: "'d stmt" where
  "RifToSubPortTest_tearDown = block [
      run (invoke [] L3SubPortTestHelper_tearDown)]"

definition NoFloodTest_setUp :: "'d stmt" where
  "NoFloodTest_setUp = block [
      run (invoke [] L3SubPortTestHelper_setUp)]"

definition NoFloodTest_runTest :: "'d stmt" where
  "NoFloodTest_runTest = block [
      assign ''pkt'' (lib ''simple_tcp_packet'' [] [(''eth_dst'', str ''00:66:66:55:44:33''), (''eth_src'', str
        ''00:22:22:22:22:22''), (''ip_dst'', str ''50.50.0.1''), (''ip_ttl'', num 64)]),
      assign ''tagged_pkt'' (lib ''simple_tcp_packet'' [] [(''eth_dst'', str ''00:66:66:55:44:33''), (''eth_src'', str
        ''00:22:22:22:22:22''), (''ip_dst'', str ''50.50.0.1''), (''ip_ttl'', num 64), (''dl_vlan_enable'', bool True),
        (''vlan_vid'', num 600), (''pktlen'', num 104)]),
      set_self ''port30_bp'' (api_create ''bridge_port'' [(''bridge_id'', self ''default_1q_bridge''), (''port_id'', self
        ''port30''), (''type'', num SAI_BRIDGE_PORT_TYPE_PORT), (''admin_state'', bool True)]),
      assign ''port31_bp'' (api_create ''bridge_port'' [(''bridge_id'', self ''default_1q_bridge''), (''port_id'', self
        ''port31''), (''type'', num SAI_BRIDGE_PORT_TYPE_PORT), (''admin_state'', bool True)]),
      assign ''vlan_member602'' (api_create ''vlan_member'' [(''vlan_id'', self ''vlan600''), (''bridge_port_id'', self
        ''port30_bp''), (''vlan_tagging_mode'', num SAI_VLAN_TAGGING_MODE_UNTAGGED)]),
      assign ''vlan_member603'' (api_create ''vlan_member'' [(''vlan_id'', self ''vlan600''), (''bridge_port_id'', var
        ''port31_bp''), (''vlan_tagging_mode'', num SAI_VLAN_TAGGING_MODE_UNTAGGED)]),
      try_finally [
        run (lib ''send_packet'' [self ''dev_port24'', var ''pkt''] []),
        run (lib ''verify_packets'' [var ''pkt'', list_of [self ''dev_port30'', self ''dev_port31'']] []),
        set_self ''vlan600_rif_in'' (add (self ''vlan600_rif_in'') (num 1)),
        set_self ''vlan600_rif_out'' (add (self ''vlan600_rif_out'') (num 2)),
        run (lib ''send_packet'' [self ''dev_port24'', var ''tagged_pkt''] []),
        run (lib ''verify_no_other_packets'' [] [(''timeout'', num 1)]),
        set_self ''subport24_600_in'' (add (self ''subport24_600_in'') (num 1)),
        assign ''tagged_pkt'' (lib ''set_field'' [var ''tagged_pkt'', str ''Ether'', str ''dst'', str ''00:66:66:55:44:33''] []),
        run (lib ''send_packet'' [self ''dev_port24'', var ''tagged_pkt''] []),
        run (lib ''verify_no_other_packets'' [] [(''timeout'', num 1)]),
        set_self ''subport24_600_in'' (add (self ''subport24_600_in'') (num 1))] [
        run (api_remove ''vlan_member'' (var ''vlan_member602'')),
        run (api_remove ''vlan_member'' (var ''vlan_member603'')),
        run (api_remove ''bridge_port'' (self ''port30_bp'')),
        run (api_remove ''bridge_port'' (var ''port31_bp''))]]"

definition NoFloodTest_tearDown :: "'d stmt" where
  "NoFloodTest_tearDown = block [
      run (invoke [] L3SubPortTestHelper_tearDown)]"

definition VlanConflictTest_setUp :: "'d stmt" where
  "VlanConflictTest_setUp = block [
      run (invoke [] L3SubPortTestHelper_setUp)]"

definition VlanConflictTest_runTest :: "'d stmt" where
  "VlanConflictTest_runTest = block [
      assign ''pkt'' (lib ''simple_tcp_packet'' [] [(''eth_dst'', str ROUTER_MAC), (''eth_src'', str ''00:22:22:22:22:22''),
        (''ip_dst'', str ''30.30.0.1''), (''ip_ttl'', num 64), (''pktlen'', num 100)]),
      assign ''tagged_pkt'' (lib ''simple_tcp_packet'' [] [(''eth_dst'', str ROUTER_MAC), (''eth_src'', str
        ''00:22:22:22:22:22''), (''ip_dst'', str ''30.30.0.1''), (''ip_ttl'', num 64), (''dl_vlan_enable'', bool True),
        (''vlan_vid'', num 800), (''pktlen'', num 104)]),
      assign ''exp_pkt'' (lib ''simple_tcp_packet'' [] [(''eth_dst'', str ''00:11:22:33:44:55''), (''eth_src'', str ROUTER_MAC),
        (''ip_dst'', str ''30.30.0.1''), (''ip_ttl'', num 63), (''pktlen'', num 100)]),
      try_finally [
        assign ''port29_bp'' (api_create ''bridge_port'' [(''bridge_id'', self ''default_1q_bridge''), (''port_id'', self
          ''port29''), (''type'', num SAI_BRIDGE_PORT_TYPE_PORT), (''admin_state'', bool True)]),
        assign ''vlan800'' (api_create ''vlan'' [(''vlan_id'', num 800)]),
        assign ''vlan_member801'' (api_create ''vlan_member'' [(''vlan_id'', var ''vlan800''), (''bridge_port_id'', var
          ''port29_bp''), (''vlan_tagging_mode'', num SAI_VLAN_TAGGING_MODE_UNTAGGED)]),
        assign ''vlan800_rif'' (api_create ''router_interface'' [(''type'', num SAI_ROUTER_INTERFACE_TYPE_VLAN),
          (''virtual_router_id'', self ''default_vrf''), (''vlan_id'', var ''vlan800'')]),
        run (api_set ''port'' (self ''port29'') [(''port_vlan_id'', num 800)]),
        print [self ''dev_port10''],
        run (lib ''send_packet'' [self ''dev_port29'', var ''pkt''] []),
        run (lib ''verify_packet'' [var ''exp_pkt'', self ''dev_port10''] []),
        set_self ''port10_rif_out'' (add (self ''port10_rif_out'') (num 1)),
        assign ''subport8_800'' (api_create ''router_interface'' [(''type'', num SAI_ROUTER_INTERFACE_TYPE_SUB_PORT),
          (''virtual_router_id'', self ''default_vrf''), (''port_id'', self ''port25''), (''admin_v4_state'', bool True),
          (''outer_vlan_id'', num 800)]),
        print [self ''dev_port10''],
        run (lib ''send_packet'' [self ''dev_port29'', var ''pkt''] []),
        run (lib ''verify_packet'' [var ''exp_pkt'', self ''dev_port10''] []),
        set_self ''port10_rif_out'' (add (self ''port10_rif_out'') (num 1)),
        print [self ''dev_port10''],
        run (lib ''send_packet'' [self ''dev_port25'', var ''tagged_pkt''] []),
        run (lib ''verify_packet'' [var ''exp_pkt'', self ''dev_port10''] []),
        set_self ''port10_rif_out'' (add (self ''port10_rif_out'') (num 1)),
        run (api_remove ''router_interface'' (var ''subport8_800'')),
        print [self ''dev_port10''],
        run (lib ''send_packet'' [self ''dev_port29'', var ''pkt''] []),
        run (lib ''verify_packet'' [var ''exp_pkt'', self ''dev_port10''] []),
        set_self ''port10_rif_out'' (add (self ''port10_rif_out'') (num 1)),
        run (api_set ''port'' (self ''port29'') [(''port_vlan_id'', num 0)]),
        run (api_remove ''router_interface'' (var ''vlan800_rif'')),
        run (api_remove ''vlan_member'' (var ''vlan_member801'')),
        assign ''subport8_800'' (api_create ''router_interface'' [(''type'', num SAI_ROUTER_INTERFACE_TYPE_SUB_PORT),
          (''virtual_router_id'', self ''default_vrf''), (''port_id'', self ''port25''), (''admin_v4_state'', bool True),
          (''outer_vlan_id'', num 800)]),
        print [self ''dev_port10''],
        run (lib ''send_packet'' [self ''dev_port25'', var ''tagged_pkt''] []),
        run (lib ''verify_packet'' [var ''exp_pkt'', self ''dev_port10''] []),
        set_self ''port10_rif_out'' (add (self ''port10_rif_out'') (num 1)),
        assign ''vlan_member801'' (api_create ''vlan_member'' [(''vlan_id'', var ''vlan800''), (''bridge_port_id'', var
          ''port29_bp''), (''vlan_tagging_mode'', num SAI_VLAN_TAGGING_MODE_UNTAGGED)]),
        assign ''vlan800_rif'' (api_create ''router_interface'' [(''type'', num SAI_ROUTER_INTERFACE_TYPE_VLAN),
          (''virtual_router_id'', self ''default_vrf''), (''vlan_id'', var ''vlan800'')]),
        run (api_set ''port'' (self ''port29'') [(''port_vlan_id'', num 800)]),
        print [self ''dev_port10''],
        run (lib ''send_packet'' [self ''dev_port29'', var ''pkt''] []),
        run (lib ''verify_packet'' [var ''exp_pkt'', self ''dev_port10''] []),
        set_self ''port10_rif_out'' (add (self ''port10_rif_out'') (num 1)),
        print [self ''dev_port10''],
        run (lib ''send_packet'' [self ''dev_port25'', var ''tagged_pkt''] []),
        run (lib ''verify_packet'' [var ''exp_pkt'', self ''dev_port10''] []),
        set_self ''port10_rif_out'' (add (self ''port10_rif_out'') (num 1)),
        run (api_set ''port'' (self ''port29'') [(''port_vlan_id'', num 0)]),
        run (api_remove ''router_interface'' (var ''vlan800_rif'')),
        run (api_remove ''vlan_member'' (var ''vlan_member801'')),
        print [self ''dev_port10''],
        run (lib ''send_packet'' [self ''dev_port25'', var ''tagged_pkt''] []),
        run (lib ''verify_packet'' [var ''exp_pkt'', self ''dev_port10''] []),
        set_self ''port10_rif_out'' (add (self ''port10_rif_out'') (num 1))] [
        run (api_remove ''bridge_port'' (var ''port29_bp'')),
        run (api_remove ''vlan'' (var ''vlan800'')),
        run (api_remove ''router_interface'' (var ''subport8_800''))]]"

definition VlanConflictTest_tearDown :: "'d stmt" where
  "VlanConflictTest_tearDown = block [
      run (invoke [] L3SubPortTestHelper_tearDown)]"

definition SubPortAdminV4StatusTest_setUp :: "'d stmt" where
  "SubPortAdminV4StatusTest_setUp = block [
      run (invoke [] L3SubPortTestHelper_setUp)]"

definition SubPortAdminV4StatusTest_runTest :: "'d stmt" where
  "SubPortAdminV4StatusTest_runTest = block [
      assign ''pkt'' (lib ''simple_tcp_packet'' [] [(''eth_dst'', str ROUTER_MAC), (''eth_src'', str ''00:22:22:22:22:22''),
        (''ip_dst'', str ''30.30.0.1''), (''ip_ttl'', num 64), (''dl_vlan_enable'', bool True), (''vlan_vid'', num 200),
        (''pktlen'', num 104)]),
      assign ''exp_pkt'' (lib ''simple_tcp_packet'' [] [(''eth_dst'', str ''00:11:22:33:44:55''), (''eth_src'', str ROUTER_MAC),
        (''ip_dst'', str ''30.30.0.1''), (''ip_ttl'', num 63), (''pktlen'', num 100)]),
      print [self ''dev_port11''],
      run (lib ''send_packet'' [self ''dev_port11'', var ''pkt''] []),
      run (lib ''verify_packet'' [var ''exp_pkt'', self ''dev_port10''] []),
      set_self ''subport11_200_in'' (add (self ''subport11_200_in'') (num 1)),
      set_self ''port10_rif_out'' (add (self ''port10_rif_out'') (num 1)),
      run (api_set ''router_interface'' (self ''subport11_200'') [(''admin_v4_state'', bool False)]),
      print [self ''dev_port11''],
      run (lib ''send_packet'' [self ''dev_port11'', var ''pkt''] []),
      run (lib ''verify_no_other_packets'' [] [(''timeout'', num 1)]),
      set_self ''subport11_200_in'' (add (self ''subport11_200_in'') (num 1)),
      run (api_set ''router_interface'' (self ''subport11_200'') [(''admin_v4_state'', bool True)]),
      print [self ''dev_port11''],
      run (lib ''send_packet'' [self ''dev_port11'', var ''pkt''] []),
      run (lib ''verify_packet'' [var ''exp_pkt'', self ''dev_port10''] []),
      set_self ''subport11_200_in'' (add (self ''subport11_200_in'') (num 1)),
      set_self ''port10_rif_out'' (add (self ''port10_rif_out'') (num 1))]"

definition SubPortAdminV4StatusTest_tearDown :: "'d stmt" where
  "SubPortAdminV4StatusTest_tearDown = block [
      run (invoke [] L3SubPortTestHelper_tearDown)]"

definition SubPortAdminV6StatusTest_setUp :: "'d stmt" where
  "SubPortAdminV6StatusTest_setUp = block [
      run (invoke [] L3SubPortTestHelper_setUp)]"

definition SubPortAdminV6StatusTest_runTest :: "'d stmt" where
  "SubPortAdminV6StatusTest_runTest = block [
      assign ''pkt'' (lib ''simple_tcpv6_packet'' [] [(''eth_dst'', str ROUTER_MAC), (''eth_src'', str ''00:22:22:22:22:22''),
        (''ipv6_dst'', str ''1234:5678:9abc:def0:4422:1133:5577:99aa''), (''ipv6_src'', str ''2000::1''), (''dl_vlan_enable'',
        bool True), (''vlan_vid'', num 200), (''ipv6_hlim'', num 64), (''pktlen'', add (num 40) (num 14))]),
      assign ''exp_pkt'' (lib ''simple_tcpv6_packet'' [] [(''eth_dst'', str ''00:11:22:33:44:55''), (''eth_src'', str
        ROUTER_MAC), (''ipv6_dst'', str ''1234:5678:9abc:def0:4422:1133:5577:99aa''), (''ipv6_src'', str ''2000::1''),
        (''ipv6_hlim'', num 63), (''pktlen'', add (num 40) (num 14))]),
      print [self ''dev_port11''],
      run (lib ''send_packet'' [self ''dev_port11'', var ''pkt''] []),
      run (lib ''verify_packet'' [var ''exp_pkt'', self ''dev_port10''] []),
      set_self ''subport11_200_in'' (add (self ''subport11_200_in'') (num 1)),
      set_self ''port10_rif_out'' (add (self ''port10_rif_out'') (num 1)),
      run (api_set ''router_interface'' (self ''subport11_200'') [(''admin_v6_state'', bool False)]),
      print [self ''dev_port11''],
      run (lib ''send_packet'' [self ''dev_port11'', var ''pkt''] []),
      run (lib ''verify_no_other_packets'' [] [(''timeout'', num 1)]),
      set_self ''subport11_200_in'' (add (self ''subport11_200_in'') (num 1)),
      run (api_set ''router_interface'' (self ''subport11_200'') [(''admin_v6_state'', bool True)]),
      print [self ''dev_port11''],
      run (lib ''send_packet'' [self ''dev_port11'', var ''pkt''] []),
      run (lib ''verify_packet'' [var ''exp_pkt'', self ''dev_port10''] []),
      set_self ''subport11_200_in'' (add (self ''subport11_200_in'') (num 1)),
      set_self ''port10_rif_out'' (add (self ''port10_rif_out'') (num 1))]"

definition SubPortAdminV6StatusTest_tearDown :: "'d stmt" where
  "SubPortAdminV6StatusTest_tearDown = block [
      run (invoke [] L3SubPortTestHelper_tearDown)]"

definition SubPortV4MtuTest_setUp :: "'d stmt" where
  "SubPortV4MtuTest_setUp = block [
      run (invoke [] L3SubPortTestHelper_setUp)]"

definition SubPortV4MtuTest_runTest :: "'d stmt" where
  "SubPortV4MtuTest_runTest = block [
      run (api_set ''router_interface'' (self ''subport10_100'') [(''mtu'', num 200)]),
      assign ''pkt'' (lib ''simple_tcp_packet'' [] [(''eth_dst'', str ROUTER_MAC), (''eth_src'', str ''00:22:22:22:22:22''),
        (''ip_dst'', str ''40.40.0.10''), (''ip_id'', num 105), (''ip_ttl'', num 64), (''dl_vlan_enable'', bool True),
        (''vlan_vid'', num 200), (''pktlen'', add (num 199) (num 18))]),
      assign ''exp_pkt'' (lib ''simple_tcp_packet'' [] [(''eth_dst'', str ''00:33:33:33:01:00''), (''eth_src'', str ROUTER_MAC),
        (''ip_dst'', str ''40.40.0.10''), (''ip_id'', num 105), (''ip_ttl'', num 63), (''dl_vlan_enable'', bool True),
        (''vlan_vid'', num 100), (''pktlen'', add (num 199) (num 18))]),
      print [self ''dev_port11'', self ''dev_port10''],
      run (lib ''send_packet'' [self ''dev_port11'', var ''pkt''] []),
      run (lib ''verify_packet'' [var ''exp_pkt'', self ''dev_port10''] []),
      set_self ''subport11_200_in'' (add (self ''subport11_200_in'') (num 1)),
      set_self ''subport10_100_out'' (add (self ''subport10_100_out'') (num 1)),
      assign ''pkt'' (lib ''simple_tcp_packet'' [] [(''eth_dst'', str ROUTER_MAC), (''eth_src'', str ''00:22:22:22:22:22''),
        (''ip_dst'', str ''40.40.0.10''), (''ip_id'', num 105), (''ip_ttl'', num 64), (''dl_vlan_enable'', bool True),
        (''vlan_vid'', num 200), (''pktlen'', add (num 200) (num 18))]),
      assign ''exp_pkt'' (lib ''simple_tcp_packet'' [] [(''eth_dst'', str ''00:33:33:33:01:00''), (''eth_src'', str ROUTER_MAC),
        (''ip_dst'', str ''40.40.0.10''), (''ip_id'', num 105), (''ip_ttl'', num 63), (''dl_vlan_enable'', bool True),
        (''vlan_vid'', num 100), (''pktlen'', add (num 200) (num 18))]),
      print [self ''dev_port11'', self ''dev_port10''],
      run (lib ''send_packet'' [self ''dev_port11'', var ''pkt''] []),
      run (lib ''verify_packet'' [var ''exp_pkt'', self ''dev_port10''] []),
      set_self ''subport11_200_in'' (add (self ''subport11_200_in'') (num 1)),
      set_self ''subport10_100_out'' (add (self ''subport10_100_out'') (num 1)),
      assign ''pkt'' (lib ''simple_tcp_packet'' [] [(''eth_dst'', str ROUTER_MAC), (''eth_src'', str ''00:22:22:22:22:22''),
        (''ip_dst'', str ''40.40.0.10''), (''ip_id'', num 105), (''ip_ttl'', num 64), (''dl_vlan_enable'', bool True),
        (''vlan_vid'', num 200), (''pktlen'', add (num 201) (num 18))]),
      assign ''exp_pkt'' (lib ''simple_tcp_packet'' [] [(''eth_dst'', str ''00:33:33:33:01:00''), (''eth_src'', str ROUTER_MAC),
        (''ip_dst'', str ''40.40.0.10''), (''ip_id'', num 105), (''ip_ttl'', num 63), (''dl_vlan_enable'', bool True),
        (''vlan_vid'', num 100), (''pktlen'', add (num 201) (num 18))]),
      print [self ''dev_port11'', self ''dev_port10''],
      run (lib ''send_packet'' [self ''dev_port11'', var ''pkt''] []),
      run (lib ''verify_no_other_packets'' [] [(''timeout'', num 1)]),
      set_self ''subport11_200_in'' (add (self ''subport11_200_in'') (num 1)),
      set_self ''subport10_100_out'' (add (self ''subport10_100_out'') (num 1)),
      run (api_set ''router_interface'' (self ''subport10_100'') [(''mtu'', num 201)]),
      print [self ''dev_port11'', self ''dev_port10''],
      run (lib ''send_packet'' [self ''dev_port11'', var ''pkt''] []),
      run (lib ''verify_packet'' [var ''exp_pkt'', self ''dev_port10''] []),
      set_self ''subport11_200_in'' (add (self ''subport11_200_in'') (num 1)),
      set_self ''subport10_100_out'' (add (self ''subport10_100_out'') (num 1)),
      assign ''pkt'' (lib ''simple_tcp_packet'' [] [(''eth_dst'', str ROUTER_MAC), (''eth_src'', str ''00:22:22:22:22:22''),
        (''ip_dst'', str ''40.40.0.10''), (''ip_id'', num 105), (''ip_ttl'', num 64), (''dl_vlan_enable'', bool True),
        (''vlan_vid'', num 200), (''pktlen'', add (num 202) (num 18))]),
      assign ''exp_pkt'' (lib ''simple_tcp_packet'' [] [(''eth_dst'', str ''00:33:33:33:01:00''), (''eth_src'', str ROUTER_MAC),
        (''ip_dst'', str ''40.40.0.10''), (''ip_id'', num 105), (''ip_ttl'', num 63), (''dl_vlan_enable'', bool True),
        (''vlan_vid'', num 100), (''pktlen'', add (num 202) (num 18))]),
      print [self ''dev_port11'', self ''dev_port10''],
      run (lib ''send_packet'' [self ''dev_port11'', var ''pkt''] []),
      run (lib ''verify_no_other_packets'' [] [(''timeout'', num 1)]),
      set_self ''subport11_200_in'' (add (self ''subport11_200_in'') (num 1)),
      set_self ''subport10_100_out'' (add (self ''subport10_100_out'') (num 1))]"

definition SubPortV4MtuTest_tearDown :: "'d stmt" where
  "SubPortV4MtuTest_tearDown = block [
      run (invoke [] L3SubPortTestHelper_tearDown)]"

definition SubPortV6MtuTest_setUp :: "'d stmt" where
  "SubPortV6MtuTest_setUp = block [
      run (invoke [] L3SubPortTestHelper_setUp)]"

definition SubPortV6MtuTest_runTest :: "'d stmt" where
  "SubPortV6MtuTest_runTest = block [
      run (api_set ''router_interface'' (self ''subport10_100'') [(''mtu'', num 200)]),
      assign ''pkt'' (lib ''simple_tcpv6_packet'' [] [(''eth_dst'', str ROUTER_MAC), (''eth_src'', str ''00:22:22:22:22:22''),
        (''ipv6_dst'', str ''1234:5678:9abc:def0:4422:1133:5577:8899''), (''ipv6_src'', str ''2000::1''), (''dl_vlan_enable'',
        bool True), (''vlan_vid'', num 200), (''ipv6_hlim'', num 64), (''pktlen'', add (add (num 199) (num 40)) (num 18))]),
      assign ''exp_pkt'' (lib ''simple_tcpv6_packet'' [] [(''eth_dst'', str ''00:33:33:33:01:00''), (''eth_src'', str
        ROUTER_MAC), (''ipv6_dst'', str ''1234:5678:9abc:def0:4422:1133:5577:8899''), (''ipv6_src'', str ''2000::1''),
        (''ipv6_hlim'', num 63), (''dl_vlan_enable'', bool True), (''vlan_vid'', num 100), (''pktlen'', add (add (num 199) (num
        40)) (num 18))]),
      print [self ''dev_port11'', self ''dev_port10''],
      run (lib ''send_packet'' [self ''dev_port11'', var ''pkt''] []),
      run (lib ''verify_packet'' [var ''exp_pkt'', self ''dev_port10''] []),
      set_self ''subport11_200_in'' (add (self ''subport11_200_in'') (num 1)),
      set_self ''subport10_100_out'' (add (self ''subport10_100_out'') (num 1)),
      assign ''pkt'' (lib ''simple_tcpv6_packet'' [] [(''eth_dst'', str ROUTER_MAC), (''eth_src'', str ''00:22:22:22:22:22''),
        (''ipv6_dst'', str ''1234:5678:9abc:def0:4422:1133:5577:8899''), (''ipv6_src'', str ''2000::1''), (''dl_vlan_enable'',
        bool True), (''vlan_vid'', num 200), (''ipv6_hlim'', num 64), (''pktlen'', add (add (num 200) (num 40)) (num 18))]),
      assign ''exp_pkt'' (lib ''simple_tcpv6_packet'' [] [(''eth_dst'', str ''00:33:33:33:01:00''), (''eth_src'', str
        ROUTER_MAC), (''ipv6_dst'', str ''1234:5678:9abc:def0:4422:1133:5577:8899''), (''ipv6_src'', str ''2000::1''),
        (''ipv6_hlim'', num 63), (''dl_vlan_enable'', bool True), (''vlan_vid'', num 100), (''pktlen'', add (add (num 200) (num
        40)) (num 18))]),
      print [self ''dev_port11'', self ''dev_port10''],
      run (lib ''send_packet'' [self ''dev_port11'', var ''pkt''] []),
      run (lib ''verify_packet'' [var ''exp_pkt'', self ''dev_port10''] []),
      set_self ''subport11_200_in'' (add (self ''subport11_200_in'') (num 1)),
      set_self ''subport10_100_out'' (add (self ''subport10_100_out'') (num 1)),
      assign ''pkt'' (lib ''simple_tcpv6_packet'' [] [(''eth_dst'', str ROUTER_MAC), (''eth_src'', str ''00:22:22:22:22:22''),
        (''ipv6_dst'', str ''1234:5678:9abc:def0:4422:1133:5577:8899''), (''ipv6_src'', str ''2000::1''), (''dl_vlan_enable'',
        bool True), (''vlan_vid'', num 200), (''ipv6_hlim'', num 64), (''pktlen'', add (add (num 201) (num 40)) (num 18))]),
      assign ''exp_pkt'' (lib ''simple_tcpv6_packet'' [] [(''eth_dst'', str ''00:33:33:33:01:00''), (''eth_src'', str
        ROUTER_MAC), (''ipv6_dst'', str ''1234:5678:9abc:def0:4422:1133:5577:8899''), (''ipv6_src'', str ''2000::1''),
        (''ipv6_hlim'', num 63), (''dl_vlan_enable'', bool True), (''vlan_vid'', num 100), (''pktlen'', add (add (num 201) (num
        40)) (num 18))]),
      print [self ''dev_port11'', self ''dev_port10''],
      run (lib ''send_packet'' [self ''dev_port11'', var ''pkt''] []),
      run (lib ''verify_no_other_packets'' [] [(''timeout'', num 1)]),
      set_self ''subport11_200_in'' (add (self ''subport11_200_in'') (num 1)),
      set_self ''subport10_100_out'' (add (self ''subport10_100_out'') (num 1)),
      run (api_set ''router_interface'' (self ''subport10_100'') [(''mtu'', num 201)]),
      print [self ''dev_port11'', self ''dev_port10''],
      run (lib ''send_packet'' [self ''dev_port11'', var ''pkt''] []),
      run (lib ''verify_packet'' [var ''exp_pkt'', self ''dev_port10''] []),
      set_self ''subport11_200_in'' (add (self ''subport11_200_in'') (num 1)),
      set_self ''subport10_100_out'' (add (self ''subport10_100_out'') (num 1)),
      assign ''pkt'' (lib ''simple_tcpv6_packet'' [] [(''eth_dst'', str ROUTER_MAC), (''eth_src'', str ''00:22:22:22:22:22''),
        (''ipv6_dst'', str ''1234:5678:9abc:def0:4422:1133:5577:8899''), (''ipv6_src'', str ''2000::1''), (''dl_vlan_enable'',
        bool True), (''vlan_vid'', num 200), (''ipv6_hlim'', num 64), (''pktlen'', add (add (num 202) (num 40)) (num 18))]),
      assign ''exp_pkt'' (lib ''simple_tcpv6_packet'' [] [(''eth_dst'', str ''00:33:33:33:01:00''), (''eth_src'', str
        ROUTER_MAC), (''ipv6_dst'', str ''1234:5678:9abc:def0:4422:1133:5577:8899''), (''ipv6_src'', str ''2000::1''),
        (''ipv6_hlim'', num 63), (''dl_vlan_enable'', bool True), (''vlan_vid'', num 100), (''pktlen'', add (add (num 202) (num
        40)) (num 18))]),
      print [self ''dev_port11'', self ''dev_port10''],
      run (lib ''send_packet'' [self ''dev_port11'', var ''pkt''] []),
      run (lib ''verify_no_other_packets'' [] [(''timeout'', num 1)]),
      set_self ''subport11_200_in'' (add (self ''subport11_200_in'') (num 1)),
      set_self ''subport10_100_out'' (add (self ''subport10_100_out'') (num 1))]"

definition SubPortV6MtuTest_tearDown :: "'d stmt" where
  "SubPortV6MtuTest_tearDown = block [
      run (invoke [] L3SubPortTestHelper_tearDown)]"

definition SubPortIngressAclTest_setUp :: "'d stmt" where
  "SubPortIngressAclTest_setUp = block [
      run (invoke [] L3SubPortTestHelper_setUp)]"

definition SubPortIngressAclTest_runTest :: "'d stmt" where
  "SubPortIngressAclTest_runTest = block [
      assign ''stage'' (num SAI_ACL_STAGE_INGRESS),
      assign ''bind_points'' (list_of [num SAI_ACL_BIND_POINT_TYPE_ROUTER_INTERFACE]),
      assign ''action_types'' (list_of [num SAI_ACL_ACTION_TYPE_PACKET_ACTION]),
      assign ''action_drop'' (num SAI_PACKET_ACTION_DROP),
      assign ''dst_ip'' (str ''40.40.1.20''),
      assign ''dst_ip_mask'' (str ''255.255.255.0''),
      assign ''acl_bind_point_type_list'' (struct ''sai_thrift_s32_list_t'' [(''count'', length_of (var ''bind_points'')),
        (''int32list'', var ''bind_points'')]),
      assign ''acl_action_type_list'' (struct ''sai_thrift_s32_list_t'' [(''count'', length_of (var ''action_types'')),
        (''int32list'', var ''action_types'')]),
      assign ''acl_table'' (api_create ''acl_table'' [(''acl_stage'', var ''stage''), (''acl_bind_point_type_list'', var
        ''acl_bind_point_type_list''), (''acl_action_type_list'', var ''acl_action_type_list''), (''field_dst_ip'', bool True)]),
      assign ''packet_action'' (struct ''sai_thrift_acl_action_data_t'' [(''parameter'', struct
        ''sai_thrift_acl_action_parameter_t'' [(''s32'', var ''action_drop'')])]),
      assign ''ip_addr'' (struct ''sai_thrift_acl_field_data_t'' [(''data'', struct ''sai_thrift_acl_field_data_data_t''
        [(''ip4'', var ''dst_ip'')]), (''mask'', struct ''sai_thrift_acl_field_data_mask_t'' [(''ip4'', var ''dst_ip_mask'')])]),
      assign ''acl_entry'' (api_create ''acl_entry'' [(''table_id'', var ''acl_table''), (''action_packet_action'', var
        ''packet_action''), (''field_dst_ip'', var ''ip_addr'')]),
      try_finally [
        assign ''pkt'' (lib ''simple_tcp_packet'' [] [(''eth_dst'', str ROUTER_MAC), (''eth_src'', str ''00:22:22:22:22:22''),
          (''ip_dst'', str ''40.40.1.20''), (''ip_ttl'', num 64), (''dl_vlan_enable'', bool True), (''vlan_vid'', num 100)]),
        assign ''exp_pkt'' (lib ''simple_tcp_packet'' [] [(''eth_dst'', str ''00:33:33:33:12:00''), (''eth_src'', str
          ROUTER_MAC), (''ip_dst'', str ''40.40.1.20''), (''ip_ttl'', num 63), (''dl_vlan_enable'', bool True), (''vlan_vid'',
          num 200)]),
        run (lib ''send_packet'' [self ''dev_port10'', var ''pkt''] []),
        run (lib ''verify_packet'' [var ''exp_pkt'', self ''dev_port11''] []),
        set_self ''subport10_100_in'' (add (self ''subport10_100_in'') (num 1)),
        set_self ''subport11_200_out'' (add (self ''subport11_200_out'') (num 1)),
        run (api_set ''router_interface'' (self ''subport10_100'') [(''ingress_acl'', var ''acl_table'')]),
        run (lib ''send_packet'' [self ''dev_port10'', var ''pkt''] []),
        run (lib ''verify_no_other_packets'' [] [(''timeout'', num 1)]),
        set_self ''subport10_100_in'' (add (self ''subport10_100_in'') (num 1)),
        run (api_set ''router_interface'' (self ''subport10_100'') [(''ingress_acl'', num 0)]),
        run (lib ''send_packet'' [self ''dev_port10'', var ''pkt''] []),
        run (lib ''verify_packet'' [var ''exp_pkt'', self ''dev_port11''] []),
        set_self ''subport10_100_in'' (add (self ''subport10_100_in'') (num 1)),
        set_self ''subport11_200_out'' (add (self ''subport11_200_out'') (num 1)),
        assign ''acl_table_group'' (api_create ''acl_table_group'' [(''acl_stage'', var ''stage''),
          (''acl_bind_point_type_list'', var ''acl_bind_point_type_list''), (''type'', num SAI_ACL_TABLE_GROUP_TYPE_PARALLEL)]),
        assign ''acl_group_member'' (api_create ''acl_table_group_member'' [(''acl_table_group_id'', var ''acl_table_group''),
          (''acl_table_id'', var ''acl_table'')]),
        run (lib ''send_packet'' [self ''dev_port10'', var ''pkt''] []),
        run (lib ''verify_packet'' [var ''exp_pkt'', self ''dev_port11''] []),
        set_self ''subport10_100_in'' (add (self ''subport10_100_in'') (num 1)),
        set_self ''subport11_200_out'' (add (self ''subport11_200_out'') (num 1)),
        run (api_set ''router_interface'' (self ''subport10_100'') [(''ingress_acl'', var ''acl_table_group'')]),
        run (lib ''send_packet'' [self ''dev_port10'', var ''pkt''] []),
        run (lib ''verify_no_other_packets'' [] [(''timeout'', num 1)]),
        set_self ''subport10_100_in'' (add (self ''subport10_100_in'') (num 1)),
        run (api_set ''router_interface'' (self ''subport10_100'') [(''ingress_acl'', num 0)]),
        run (lib ''send_packet'' [self ''dev_port10'', var ''pkt''] []),
        run (lib ''verify_packet'' [var ''exp_pkt'', self ''dev_port11''] []),
        set_self ''subport10_100_in'' (add (self ''subport10_100_in'') (num 1)),
        set_self ''subport11_200_out'' (add (self ''subport11_200_out'') (num 1))] [
        run (api_remove ''acl_table_group_member'' (var ''acl_group_member'')),
        run (api_remove ''acl_table_group'' (var ''acl_table_group'')),
        run (api_remove ''acl_entry'' (var ''acl_entry'')),
        run (api_remove ''acl_table'' (var ''acl_table''))]]"

definition SubPortIngressAclTest_tearDown :: "'d stmt" where
  "SubPortIngressAclTest_tearDown = block [
      run (invoke [] L3SubPortTestHelper_tearDown)]"

definition SubPortEgressAclTest_setUp :: "'d stmt" where
  "SubPortEgressAclTest_setUp = block [
      run (invoke [] L3SubPortTestHelper_setUp)]"

definition SubPortEgressAclTest_runTest :: "'d stmt" where
  "SubPortEgressAclTest_runTest = block [
      assign ''stage'' (num SAI_ACL_STAGE_EGRESS),
      assign ''bind_points'' (list_of [num SAI_ACL_BIND_POINT_TYPE_ROUTER_INTERFACE]),
      assign ''action_types'' (list_of [num SAI_ACL_ACTION_TYPE_PACKET_ACTION]),
      assign ''action_drop'' (num SAI_PACKET_ACTION_DROP),
      assign ''dst_ip'' (str ''40.40.1.20''),
      assign ''dst_ip_mask'' (str ''255.255.255.0''),
      assign ''acl_bind_point_type_list'' (struct ''sai_thrift_s32_list_t'' [(''count'', length_of (var ''bind_points'')),
        (''int32list'', var ''bind_points'')]),
      assign ''acl_action_type_list'' (struct ''sai_thrift_s32_list_t'' [(''count'', length_of (var ''action_types'')),
        (''int32list'', var ''action_types'')]),
      assign ''acl_table'' (api_create ''acl_table'' [(''acl_stage'', var ''stage''), (''acl_bind_point_type_list'', var
        ''acl_bind_point_type_list''), (''acl_action_type_list'', var ''acl_action_type_list''), (''field_dst_ip'', bool True)]),
      assign ''packet_action'' (struct ''sai_thrift_acl_action_data_t'' [(''parameter'', struct
        ''sai_thrift_acl_action_parameter_t'' [(''s32'', var ''action_drop'')])]),
      assign ''ip_addr'' (struct ''sai_thrift_acl_field_data_t'' [(''data'', struct ''sai_thrift_acl_field_data_data_t''
        [(''ip4'', var ''dst_ip'')]), (''mask'', struct ''sai_thrift_acl_field_data_mask_t'' [(''ip4'', var ''dst_ip_mask'')])]),
      assign ''acl_entry'' (api_create ''acl_entry'' [(''table_id'', var ''acl_table''), (''action_packet_action'', var
        ''packet_action''), (''field_dst_ip'', var ''ip_addr'')]),
      try_finally [
        assign ''pkt'' (lib ''simple_tcp_packet'' [] [(''eth_dst'', str ROUTER_MAC), (''eth_src'', str ''00:22:22:22:22:22''),
          (''ip_dst'', str ''40.40.1.20''), (''ip_ttl'', num 64), (''dl_vlan_enable'', bool True), (''vlan_vid'', num 100)]),
        assign ''exp_pkt'' (lib ''simple_tcp_packet'' [] [(''eth_dst'', str ''00:33:33:33:12:00''), (''eth_src'', str
          ROUTER_MAC), (''ip_dst'', str ''40.40.1.20''), (''ip_ttl'', num 63), (''dl_vlan_enable'', bool True), (''vlan_vid'',
          num 200)]),
        run (lib ''send_packet'' [self ''dev_port10'', var ''pkt''] []),
        run (lib ''verify_packet'' [var ''exp_pkt'', self ''dev_port11''] []),
        set_self ''subport10_100_in'' (add (self ''subport10_100_in'') (num 1)),
        set_self ''subport11_200_out'' (add (self ''subport11_200_out'') (num 1)),
        run (api_set ''router_interface'' (self ''subport11_200'') [(''egress_acl'', var ''acl_table'')]),
        run (lib ''send_packet'' [self ''dev_port10'', var ''pkt''] []),
        run (lib ''verify_no_other_packets'' [] [(''timeout'', num 1)]),
        set_self ''subport10_100_in'' (add (self ''subport10_100_in'') (num 1)),
        set_self ''subport11_200_out'' (add (self ''subport11_200_out'') (num 1)),
        run (api_set ''router_interface'' (self ''subport11_200'') [(''egress_acl'', num 0)]),
        run (lib ''send_packet'' [self ''dev_port10'', var ''pkt''] []),
        run (lib ''verify_packet'' [var ''exp_pkt'', self ''dev_port11''] []),
        set_self ''subport10_100_in'' (add (self ''subport10_100_in'') (num 1)),
        set_self ''subport11_200_out'' (add (self ''subport11_200_out'') (num 1)),
        assign ''acl_table_group'' (api_create ''acl_table_group'' [(''acl_stage'', var ''stage''),
          (''acl_bind_point_type_list'', var ''acl_bind_point_type_list''), (''type'', num SAI_ACL_TABLE_GROUP_TYPE_PARALLEL)]),
        assign ''acl_group_member'' (api_create ''acl_table_group_member'' [(''acl_table_group_id'', var ''acl_table_group''),
          (''acl_table_id'', var ''acl_table'')]),
        run (lib ''send_packet'' [self ''dev_port10'', var ''pkt''] []),
        run (lib ''verify_packet'' [var ''exp_pkt'', self ''dev_port11''] []),
        set_self ''subport10_100_in'' (add (self ''subport10_100_in'') (num 1)),
        set_self ''subport11_200_out'' (add (self ''subport11_200_out'') (num 1)),
        run (api_set ''router_interface'' (self ''subport11_200'') [(''egress_acl'', var ''acl_table_group'')]),
        run (lib ''send_packet'' [self ''dev_port10'', var ''pkt''] []),
        run (lib ''verify_no_other_packets'' [] [(''timeout'', num 1)]),
        set_self ''subport10_100_in'' (add (self ''subport10_100_in'') (num 1)),
        set_self ''subport11_200_out'' (add (self ''subport11_200_out'') (num 1)),
        run (api_set ''router_interface'' (self ''subport11_200'') [(''egress_acl'', num 0)]),
        run (lib ''send_packet'' [self ''dev_port10'', var ''pkt''] []),
        run (lib ''verify_packet'' [var ''exp_pkt'', self ''dev_port11''] []),
        set_self ''subport10_100_in'' (add (self ''subport10_100_in'') (num 1)),
        set_self ''subport11_200_out'' (add (self ''subport11_200_out'') (num 1))] [
        run (api_remove ''acl_table_group_member'' (var ''acl_group_member'')),
        run (api_remove ''acl_table_group'' (var ''acl_table_group'')),
        run (api_remove ''acl_entry'' (var ''acl_entry'')),
        run (api_remove ''acl_table'' (var ''acl_table''))]]"

definition SubPortEgressAclTest_tearDown :: "'d stmt" where
  "SubPortEgressAclTest_tearDown = block [
      run (invoke [] L3SubPortTestHelper_tearDown)]"

definition SubPortECMPTest_setUp :: "'d stmt" where
  "SubPortECMPTest_setUp = block [
      run (invoke [] L3SubPortTestHelper_setUp)]"

definition SubPortECMPTest_tearDown :: "'d stmt" where
  "SubPortECMPTest_tearDown = block [
      run (invoke [] L3SubPortTestHelper_tearDown)]"

definition SubPortMyIPTest_setUp :: "'d stmt" where
  "SubPortMyIPTest_setUp = block [
      run (invoke [] L3SubPortTestHelper_setUp)]"

definition SubPortMyIPTest_runTest :: "'d stmt" where
  "SubPortMyIPTest_runTest = block [
      try_finally [
        assign ''sw_attr'' (api_get ''switch'' none [(''cpu_port'', bool True)]),
        assign ''cpu_port'' (item (var ''sw_attr'') (str ''cpu_port'')),
        assign ''ip2me_route0'' (struct ''sai_thrift_route_entry_t'' [(''vr_id'', self ''default_vrf''), (''destination'',
          ip_prefix (str ''40.40.0.11/32''))]),
        run (api_create_entry ''route_entry'' (var ''ip2me_route0'') [(''next_hop_id'', var ''cpu_port'')]),
        assign ''ip2me_route1'' (struct ''sai_thrift_route_entry_t'' [(''vr_id'', self ''default_vrf''), (''destination'',
          ip_prefix (str ''40.40.0.21/32''))]),
        run (api_create_entry ''route_entry'' (var ''ip2me_route1'') [(''next_hop_id'', var ''cpu_port'')]),
        assign ''ip2me_route2'' (struct ''sai_thrift_route_entry_t'' [(''vr_id'', self ''default_vrf''), (''destination'',
          ip_prefix (str ''40.40.1.21/32''))]),
        run (api_create_entry ''route_entry'' (var ''ip2me_route2'') [(''next_hop_id'', var ''cpu_port'')]),
        assign ''ip2me_route3'' (struct ''sai_thrift_route_entry_t'' [(''vr_id'', self ''default_vrf''), (''destination'',
          ip_prefix (str ''40.40.1.31/32''))]),
        run (api_create_entry ''route_entry'' (var ''ip2me_route3'') [(''next_hop_id'', var ''cpu_port'')]),
        assign ''ip2me_route4'' (struct ''sai_thrift_route_entry_t'' [(''vr_id'', self ''default_vrf''), (''destination'',
          ip_prefix (str ''40.40.0.41/32''))]),
        run (api_create_entry ''route_entry'' (var ''ip2me_route4'') [(''next_hop_id'', var ''cpu_port'')]),
        assign ''ip2me_route5'' (struct ''sai_thrift_route_entry_t'' [(''vr_id'', self ''default_vrf''), (''destination'',
          ip_prefix (str ''40.40.0.51/32''))]),
        run (api_create_entry ''route_entry'' (var ''ip2me_route5'') [(''next_hop_id'', var ''cpu_port'')]),
        assign ''ip2me_route6'' (struct ''sai_thrift_route_entry_t'' [(''vr_id'', self ''default_vrf''), (''destination'',
          ip_prefix (str ''40.40.3.61/32''))]),
        run (api_create_entry ''route_entry'' (var ''ip2me_route6'') [(''next_hop_id'', var ''cpu_port'')]),
        assign ''ip2me_route7'' (struct ''sai_thrift_route_entry_t'' [(''vr_id'', self ''default_vrf''), (''destination'',
          ip_prefix (str ''40.40.4.41/32''))]),
        run (api_create_entry ''route_entry'' (var ''ip2me_route7'') [(''next_hop_id'', var ''cpu_port'')]),
        assign ''ip2me_route8'' (struct ''sai_thrift_route_entry_t'' [(''vr_id'', self ''default_vrf''), (''destination'',
          ip_prefix (str ''40.40.4.51/32''))]),
        run (api_create_entry ''route_entry'' (var ''ip2me_route8'') [(''next_hop_id'', var ''cpu_port'')]),
        assign ''myip_trap_group'' (api_create ''hostif_trap_group'' [(''admin_state'', bool True), (''queue'', num 4)]),
        assign ''myip_trap'' (api_create ''hostif_trap'' [(''trap_group'', var ''myip_trap_group''), (''packet_action'', num
          SAI_PACKET_ACTION_TRAP), (''trap_type'', num SAI_HOSTIF_TRAP_TYPE_IP2ME)]),
        assert (ne (var ''myip_trap'') (num 0)),
        assign ''pkt'' (lib ''simple_tcp_packet'' [] [(''eth_dst'', str ROUTER_MAC), (''eth_src'', str ''00:22:22:22:22:22''),
          (''ip_dst'', str ''40.40.0.11''), (''ip_src'', str ''30.30.0.1''), (''ip_id'', num 105), (''ip_ttl'', num 64),
          (''dl_vlan_enable'', bool True), (''vlan_vid'', num 100), (''pktlen'', num 104)]),
        assign ''pkt_data'' (list_of [list_of [str ''40.40.0.11'', num 100, num 10], list_of [str ''40.40.0.21'', num 200, num
          10], list_of [str ''40.40.1.21'', num 200, num 11], list_of [str ''40.40.1.31'', num 300, num 11], list_of [str
          ''40.40.0.41'', num 400, num 14], list_of [str ''40.40.0.51'', num 500, num 15], list_of [str ''40.40.3.61'', num 600,
          num 24], list_of [str ''40.40.4.41'', num 400, num 25], list_of [str ''40.40.4.51'', num 500, num 25]]),
        assign ''pre_stats'' (query ''sai_thrift_get_queue_stats'' [self ''cpu_queue4''] []),
        for_in [''data''] (var ''pkt_data'') [
          assign ''ingress_port'' (self_named (formatted ''dev_port%s'' [item (var ''data'') (num 2)])),
          assign ''pkt'' (lib ''set_field'' [var ''pkt'', str ''IP'', str ''dst'', item (var ''data'') (num 0)] []),
          assign ''pkt'' (lib ''set_field'' [var ''pkt'', str ''Dot1Q'', str ''vlan'', item (var ''data'') (num 1)] []),
          run (lib ''send_packet'' [var ''ingress_port'', var ''pkt''] [])],
        sleep_for (num 6),
        assign ''post_stats'' (query ''sai_thrift_get_queue_stats'' [self ''cpu_queue4''] []),
        assert_eq (item (var ''post_stats'') (str ''SAI_QUEUE_STAT_PACKETS'')) (add (item (var ''pre_stats'') (str
          ''SAI_QUEUE_STAT_PACKETS'')) (length_of (var ''pkt_data''))),
        set_self ''subport10_100_in'' (add (self ''subport10_100_in'') (num 1)),
        set_self ''subport10_200_in'' (add (self ''subport10_200_in'') (num 1)),
        set_self ''subport11_200_in'' (add (self ''subport11_200_in'') (num 1)),
        set_self ''subport11_300_in'' (add (self ''subport11_300_in'') (num 1)),
        set_self ''sublag3_400_in'' (add (self ''sublag3_400_in'') (num 1)),
        set_self ''sublag3_500_in'' (add (self ''sublag3_500_in'') (num 1)),
        set_self ''subport24_600_in'' (add (self ''subport24_600_in'') (num 1)),
        set_self ''subport25_400_in'' (add (self ''subport25_400_in'') (num 1)),
        set_self ''subport25_500_in'' (add (self ''subport25_500_in'') (num 1)),
        set_self ''subport10_100_out'' (add (self ''subport10_100_out'') (num 1)),
        set_self ''subport10_200_out'' (add (self ''subport10_200_out'') (num 1)),
        set_self ''subport11_200_out'' (add (self ''subport11_200_out'') (num 1)),
        set_self ''subport11_300_out'' (add (self ''subport11_300_out'') (num 1)),
        set_self ''sublag3_400_out'' (add (self ''sublag3_400_out'') (num 1)),
        set_self ''sublag3_500_out'' (add (self ''sublag3_500_out'') (num 1)),
        set_self ''subport24_600_out'' (add (self ''subport24_600_out'') (num 1)),
        set_self ''subport25_400_out'' (add (self ''subport25_400_out'') (num 1)),
        set_self ''subport25_500_out'' (add (self ''subport25_500_out'') (num 1))] [
        run (api_remove ''hostif_trap'' (var ''myip_trap'')),
        run (api_remove ''hostif_trap_group'' (var ''myip_trap_group'')),
        run (api_remove ''route_entry'' (var ''ip2me_route0'')),
        run (api_remove ''route_entry'' (var ''ip2me_route1'')),
        run (api_remove ''route_entry'' (var ''ip2me_route2'')),
        run (api_remove ''route_entry'' (var ''ip2me_route3'')),
        run (api_remove ''route_entry'' (var ''ip2me_route4'')),
        run (api_remove ''route_entry'' (var ''ip2me_route5'')),
        run (api_remove ''route_entry'' (var ''ip2me_route6'')),
        run (api_remove ''route_entry'' (var ''ip2me_route7'')),
        run (api_remove ''route_entry'' (var ''ip2me_route8''))]]"

definition SubPortMyIPTest_tearDown :: "'d stmt" where
  "SubPortMyIPTest_tearDown = block [
      run (invoke [] L3SubPortTestHelper_tearDown)]"

definition SubPortNoTest_setUp :: "'d stmt" where
  "SubPortNoTest_setUp = block [
      run (invoke [] L3SubPortTestHelper_setUp)]"

definition SubPortNoTest_runTest :: "'d stmt" where
  "SubPortNoTest_runTest = block [
      assign ''req_sub_port_no'' (num 256),
      assign ''test_port'' (self ''port26''),
      assign ''test_lag'' (self ''lag1''),
      try_finally [
        assign ''vlan_id'' (num 100),
        assign ''rif_port_sub_port_list'' (list_of []),
        for_in [''_''] (range_of (num 0) (var ''req_sub_port_no'')) [
          assign ''sub_port_rif'' (api_create ''router_interface'' [(''type'', num SAI_ROUTER_INTERFACE_TYPE_SUB_PORT),
            (''virtual_router_id'', self ''default_vrf''), (''port_id'', var ''test_port''), (''admin_v4_state'', bool True),
            (''outer_vlan_id'', var ''vlan_id'')]),
          assert (ne (var ''sub_port_rif'') (num 0)),
          assign ''rif_port_sub_port_list'' (appended (var ''rif_port_sub_port_list'') (var ''sub_port_rif'')),
          assign ''vlan_id'' (add (var ''vlan_id'') (num 1))],
        assign ''rif_lag_sub_port_list'' (list_of []),
        for_in [''_''] (range_of (num 0) (var ''req_sub_port_no'')) [
          assign ''sub_lag_rif'' (api_create ''router_interface'' [(''type'', num SAI_ROUTER_INTERFACE_TYPE_SUB_PORT),
            (''virtual_router_id'', self ''default_vrf''), (''port_id'', var ''test_lag''), (''admin_v4_state'', bool True),
            (''outer_vlan_id'', var ''vlan_id'')]),
          assert (ne (var ''sub_lag_rif'') (num 0)),
          assign ''rif_port_sub_port_list'' (appended (var ''rif_port_sub_port_list'') (var ''sub_lag_rif'')),
          assign ''vlan_id'' (add (var ''vlan_id'') (num 1))]] [
        for_in [''sub_lag_rif''] (var ''rif_lag_sub_port_list'') [
          run (api_remove ''router_interface'' (var ''sub_lag_rif''))],
        for_in [''sub_port_rif''] (var ''rif_port_sub_port_list'') [
          run (api_remove ''router_interface'' (var ''sub_port_rif''))]]]"

definition SubPortNoTest_tearDown :: "'d stmt" where
  "SubPortNoTest_tearDown = block [
      run (invoke [] L3SubPortTestHelper_tearDown)]"

definition SubPortQosGroupTest_setUp :: "'d stmt" where
  "SubPortQosGroupTest_setUp = block [
      run (invoke [] L3SubPortTestHelper_setUp)]"

definition SubPortQosGroupTest_runTest :: "'d stmt" where
  "SubPortQosGroupTest_runTest = block [
      try_finally [
        assign ''dscp_to_tc'' (struct ''sai_thrift_qos_map_t'' [(''key'', struct ''sai_thrift_qos_map_params_t'' [(''dscp'', num
          1)]), (''value'', struct ''sai_thrift_qos_map_params_t'' [(''tc'', num 20)])]),
        assign ''ingr_qos_map_list'' (struct ''sai_thrift_qos_map_list_t'' [(''count'', num 1), (''maplist'', list_of [var
          ''dscp_to_tc''])]),
        assign ''ingr_qos_map'' (api_create ''qos_map'' [(''type'', num SAI_QOS_MAP_TYPE_DSCP_TO_TC), (''map_to_value_list'',
          var ''ingr_qos_map_list'')]),
        assign ''tc_col_to_dscp'' (struct ''sai_thrift_qos_map_t'' [(''key'', struct ''sai_thrift_qos_map_params_t'' [(''tc'',
          num 20), (''color'', num 0)]), (''value'', struct ''sai_thrift_qos_map_params_t'' [(''dscp'', num 9)])]),
        assign ''egr_qos_map_list'' (struct ''sai_thrift_qos_map_list_t'' [(''count'', num 1), (''maplist'', list_of [var
          ''tc_col_to_dscp''])]),
        assign ''egr_qos_map'' (api_create ''qos_map'' [(''type'', num SAI_QOS_MAP_TYPE_TC_AND_COLOR_TO_DSCP),
          (''map_to_value_list'', var ''egr_qos_map_list'')]),
        assign ''pkt'' (lib ''simple_tcp_packet'' [] [(''eth_dst'', str ROUTER_MAC), (''eth_src'', str ''00:22:22:33:44:55''),
          (''ip_dst'', str ''40.40.1.20''), (''ip_src'', str ''30.30.1.1''), (''ip_id'', num 105), (''ip_tos'', num 4),
          (''ip_ttl'', num 64), (''dl_vlan_enable'', bool True), (''vlan_vid'', num 200)]),
        assign ''qos_exp_pkt'' (lib ''simple_tcp_packet'' [] [(''eth_dst'', str ''00:33:33:33:12:00''), (''eth_src'', str
          ROUTER_MAC), (''ip_dst'', str ''40.40.1.20''), (''ip_src'', str ''30.30.1.1''), (''ip_id'', num 105), (''ip_tos'', num
          36), (''ip_ttl'', num 63), (''dl_vlan_enable'', bool True), (''vlan_vid'', num 200)]),
        assign ''no_qos_exp_pkt'' (lib ''simple_tcp_packet'' [] [(''eth_dst'', str ''00:33:33:33:12:00''), (''eth_src'', str
          ROUTER_MAC), (''ip_dst'', str ''40.40.1.20''), (''ip_src'', str ''30.30.1.1''), (''ip_id'', num 105), (''ip_tos'', num
          4), (''ip_ttl'', num 63), (''dl_vlan_enable'', bool True), (''vlan_vid'', num 200)]),
        run (lib ''send_packet'' [self ''dev_port10'', var ''pkt''] []),
        run (lib ''verify_packets'' [var ''no_qos_exp_pkt'', list_of [self ''dev_port11'']] []),
        run (api_set ''port'' (self ''port10'') [(''qos_dscp_to_tc_map'', var ''ingr_qos_map'')]),
        run (api_set ''port'' (self ''port11'') [(''qos_tc_and_color_to_dscp_map'', var ''egr_qos_map'')]),
        run (lib ''send_packet'' [self ''dev_port10'', var ''pkt''] []),
        run (lib ''verify_packets'' [var ''qos_exp_pkt'', list_of [self ''dev_port11'']] [])] [
        run (api_set ''port'' (self ''port11'') [(''qos_tc_and_color_to_dscp_map'', num 0)]),
        run (api_remove ''qos_map'' (var ''egr_qos_map'')),
        run (api_set ''port'' (self ''port10'') [(''qos_dscp_to_tc_map'', num 0)]),
        run (api_remove ''qos_map'' (var ''ingr_qos_map''))]]"

definition SubPortQosGroupTest_tearDown :: "'d stmt" where
  "SubPortQosGroupTest_tearDown = block [
      run (invoke [] L3SubPortTestHelper_tearDown)]"

definition SubPortTunnelTest_setUp :: "'d stmt" where
  "SubPortTunnelTest_setUp = block [
      run (invoke [] L3SubPortTestHelper_setUp)]"

definition SubPortTunnelTest_runTest :: "'d stmt" where
  "SubPortTunnelTest_runTest = block [
      assign ''iport'' (self ''port26''),
      assign ''iport_dev'' (self ''dev_port26''),
      assign ''eport'' (self ''port27''),
      assign ''eport_dev'' (self ''dev_port27''),
      assign ''vlan_id'' (num 999),
      assign ''tun_vni'' (num 2000),
      assign ''tun_ip'' (str ''30.30.30.1''),
      assign ''lpb_ip'' (str ''30.30.30.10''),
      assign ''vm_ip'' (str ''100.100.1.1''),
      assign ''customer_ip'' (str ''100.100.2.1''),
      assign ''tun_mac'' (str ''00:aa:aa:aa:aa:aa''),
      assign ''tun_term_mac'' (str ''00:bb:bb:bb:bb:bb''),
      assign ''customer_mac'' (str ''00:ee:ee:ee:ee:ee''),
      try_finally [
        assign ''uvrf'' (api_create ''virtual_router'' []),
        assign ''ovrf'' (api_create ''virtual_router'' []),
        assign ''urif_lpb'' (api_create ''router_interface'' [(''type'', num SAI_ROUTER_INTERFACE_TYPE_LOOPBACK),
          (''virtual_router_id'', var ''uvrf'')]),
        assign ''urif'' (api_create ''router_interface'' [(''type'', num SAI_ROUTER_INTERFACE_TYPE_SUB_PORT),
          (''virtual_router_id'', var ''uvrf''), (''port_id'', var ''eport''), (''outer_vlan_id'', var ''vlan_id'')]),
        assign ''orif'' (api_create ''router_interface'' [(''type'', num SAI_ROUTER_INTERFACE_TYPE_PORT),
          (''virtual_router_id'', var ''ovrf''), (''port_id'', var ''iport'')]),
        assign ''encap_tunnel_map'' (api_create ''tunnel_map'' [(''type'', num SAI_TUNNEL_MAP_TYPE_VIRTUAL_ROUTER_ID_TO_VNI)]),
        assign ''decap_tunnel_map'' (api_create ''tunnel_map'' [(''type'', num SAI_TUNNEL_MAP_TYPE_VNI_TO_VIRTUAL_ROUTER_ID)]),
        assign ''encap_tunnel_map_entry'' (api_create ''tunnel_map_entry'' [(''tunnel_map'', var ''encap_tunnel_map''),
          (''tunnel_map_type'', num SAI_TUNNEL_MAP_TYPE_VIRTUAL_ROUTER_ID_TO_VNI), (''virtual_router_id_key'', var ''ovrf''),
          (''vni_id_value'', var ''tun_vni'')]),
        assign ''decap_tunnel_map_entry'' (api_create ''tunnel_map_entry'' [(''tunnel_map'', var ''encap_tunnel_map''),
          (''tunnel_map_type'', num SAI_TUNNEL_MAP_TYPE_VNI_TO_VIRTUAL_ROUTER_ID), (''virtual_router_id_value'', var ''ovrf''),
          (''vni_id_key'', var ''tun_vni'')]),
        assign ''encap_maps'' (struct ''sai_thrift_object_list_t'' [(''count'', num 1), (''idlist'', list_of [var
          ''encap_tunnel_map''])]),
        assign ''decap_maps'' (struct ''sai_thrift_object_list_t'' [(''count'', num 1), (''idlist'', list_of [var
          ''decap_tunnel_map''])]),
        assign ''tunnel'' (api_create ''tunnel'' [(''type'', num SAI_TUNNEL_TYPE_VXLAN), (''encap_src_ip'', ip_address (var
          ''lpb_ip'')), (''encap_mappers'', var ''encap_maps''), (''decap_mappers'', var ''decap_maps''), (''encap_ttl_mode'',
          num SAI_TUNNEL_TTL_MODE_PIPE_MODEL), (''decap_ttl_mode'', num SAI_TUNNEL_TTL_MODE_PIPE_MODEL),
          (''underlay_interface'', var ''urif_lpb'')]),
        assign ''tunnel_term'' (api_create ''tunnel_term_table_entry'' [(''tunnel_type'', num SAI_TUNNEL_TYPE_VXLAN),
          (''action_tunnel_id'', var ''tunnel''), (''vr_id'', var ''uvrf''), (''type'', num
          SAI_TUNNEL_TERM_TABLE_ENTRY_TYPE_P2P), (''src_ip'', ip_address (var ''tun_ip'')), (''dst_ip'', ip_address (var
          ''lpb_ip''))]),
        assign ''onhop'' (api_create ''next_hop'' [(''ip'', ip_address (var ''customer_ip'')), (''router_interface_id'', var
          ''orif''), (''type'', num SAI_NEXT_HOP_TYPE_IP)]),
        assign ''onbor'' (struct ''sai_thrift_neighbor_entry_t'' [(''rif_id'', var ''orif''), (''ip_address'', ip_address (var
          ''customer_ip''))]),
        run (api_create_entry ''neighbor_entry'' (var ''onbor'') [(''dst_mac_address'', var ''customer_mac''),
          (''no_host_route'', bool True)]),
        assign ''customer_route'' (struct ''sai_thrift_route_entry_t'' [(''vr_id'', var ''ovrf''), (''destination'', ip_prefix
          (add (var ''customer_ip'') (str ''/32'')))]),
        run (api_create_entry ''route_entry'' (var ''customer_route'') [(''next_hop_id'', var ''onhop'')]),
        assign ''tunnel_nhop'' (api_create ''next_hop'' [(''type'', num SAI_NEXT_HOP_TYPE_TUNNEL_ENCAP), (''tunnel_id'', var
          ''tunnel''), (''ip'', ip_address (var ''tun_ip'')), (''tunnel_mac'', var ''tun_mac''), (''tunnel_vni'', var
          ''tun_vni'')]),
        assign ''vm_route'' (struct ''sai_thrift_route_entry_t'' [(''vr_id'', var ''ovrf''), (''destination'', ip_prefix (add
          (var ''vm_ip'') (str ''/32'')))]),
        run (api_create_entry ''route_entry'' (var ''vm_route'') [(''next_hop_id'', var ''tunnel_nhop'')]),
        assign ''unhop'' (api_create ''next_hop'' [(''ip'', ip_address (var ''tun_ip'')), (''router_interface_id'', var
          ''urif''), (''type'', num SAI_NEXT_HOP_TYPE_IP)]),
        assign ''unbor'' (struct ''sai_thrift_neighbor_entry_t'' [(''rif_id'', var ''urif''), (''ip_address'', ip_address (var
          ''tun_ip''))]),
        run (api_create_entry ''neighbor_entry'' (var ''unbor'') [(''dst_mac_address'', var ''tun_term_mac''),
          (''no_host_route'', bool True)]),
        assign ''tunnel_route'' (struct ''sai_thrift_route_entry_t'' [(''vr_id'', var ''uvrf''), (''destination'', ip_prefix
          (add (var ''tun_ip'') (str ''/32'')))]),
        run (api_create_entry ''route_entry'' (var ''tunnel_route'') [(''next_hop_id'', var ''unhop'')]),
        assign ''pkt'' (lib ''simple_tcp_packet'' [] [(''eth_dst'', str ROUTER_MAC), (''eth_src'', var ''customer_mac''),
          (''ip_dst'', var ''vm_ip''), (''ip_src'', var ''customer_ip''), (''ip_id'', num 108), (''ip_ttl'', num 64)]),
        assign ''inner_pkt'' (lib ''simple_tcp_packet'' [] [(''eth_dst'', var ''tun_mac''), (''eth_src'', str ROUTER_MAC),
          (''ip_dst'', var ''vm_ip''), (''ip_src'', var ''customer_ip''), (''ip_id'', num 108), (''ip_ttl'', num 63)]),
        assign ''vxlan_pkt'' (lib ''Mask'' [lib ''simple_vxlan_packet'' [] [(''eth_dst'', var ''tun_term_mac''), (''eth_src'',
          str ROUTER_MAC), (''ip_dst'', var ''tun_ip''), (''ip_src'', var ''lpb_ip''), (''ip_id'', num 0), (''ip_ttl'', num 64),
          (''ip_flags'', num 2), (''dl_vlan_enable'', bool True), (''vlan_vid'', var ''vlan_id''), (''with_udp_chksum'', bool
          False), (''vxlan_vni'', var ''tun_vni''), (''inner_frame'', var ''inner_pkt'')]] []),
        assign ''vxlan_pkt'' (lib ''.set_do_not_care_scapy'' [var ''vxlan_pkt'', str ''UDP'', str ''sport''] []),
        run (lib ''send_packet'' [var ''iport_dev'', var ''pkt''] []),
        run (lib ''verify_packet'' [var ''vxlan_pkt'', var ''eport_dev''] []),
        assign ''pkt'' (lib ''simple_tcp_packet'' [] [(''eth_dst'', var ''customer_mac''), (''eth_src'', str ROUTER_MAC),
          (''ip_dst'', var ''customer_ip''), (''ip_src'', var ''vm_ip''), (''ip_id'', num 108), (''ip_ttl'', num 63)]),
        assign ''inner_pkt'' (lib ''simple_tcp_packet'' [] [(''eth_dst'', str ROUTER_MAC), (''eth_src'', var ''tun_mac''),
          (''ip_dst'', var ''customer_ip''), (''ip_src'', var ''vm_ip''), (''ip_id'', num 108), (''ip_ttl'', num 64)]),
        assign ''vxlan_pkt'' (lib ''simple_vxlan_packet'' [] [(''eth_dst'', str ROUTER_MAC), (''eth_src'', var
          ''tun_term_mac''), (''ip_dst'', var ''lpb_ip''), (''ip_src'', var ''tun_ip''), (''ip_id'', num 0), (''ip_ttl'', num
          64), (''ip_flags'', num 2), (''dl_vlan_enable'', bool True), (''vlan_vid'', var ''vlan_id''), (''with_udp_chksum'',
          bool False), (''vxlan_vni'', var ''tun_vni''), (''inner_frame'', var ''inner_pkt'')]),
        run (lib ''send_packet'' [var ''eport_dev'', var ''vxlan_pkt''] []),
        run (lib ''verify_packet'' [var ''pkt'', var ''iport_dev''] [])] [
        run (api_remove ''route_entry'' (var ''tunnel_route'')),
        run (api_remove ''neighbor_entry'' (var ''unbor'')),
        run (api_remove ''next_hop'' (var ''unhop'')),
        run (api_remove ''route_entry'' (var ''vm_route'')),
        run (api_remove ''next_hop'' (var ''tunnel_nhop'')),
        run (api_remove ''route_entry'' (var ''customer_route'')),
        run (api_remove ''neighbor_entry'' (var ''onbor'')),
        run (api_remove ''next_hop'' (var ''onhop'')),
        run (api_remove ''tunnel_term_table_entry'' (var ''tunnel_term'')),
        run (api_remove ''tunnel'' (var ''tunnel'')),
        run (api_remove ''tunnel_map_entry'' (var ''decap_tunnel_map_entry'')),
        run (api_remove ''tunnel_map_entry'' (var ''encap_tunnel_map_entry'')),
        run (api_remove ''tunnel_map'' (var ''decap_tunnel_map'')),
        run (api_remove ''tunnel_map'' (var ''encap_tunnel_map'')),
        run (api_remove ''router_interface'' (var ''orif'')),
        run (api_remove ''router_interface'' (var ''urif'')),
        run (api_remove ''router_interface'' (var ''urif_lpb'')),
        run (api_remove ''virtual_router'' (var ''ovrf'')),
        run (api_remove ''virtual_router'' (var ''uvrf''))]]"

definition SubPortTunnelTest_tearDown :: "'d stmt" where
  "SubPortTunnelTest_tearDown = block [
      run (invoke [] L3SubPortTestHelper_tearDown)]"

definition L3SviTestHelper_setUp :: "'d stmt" where
  "L3SviTestHelper_setUp = block [
      super_setUp,
      set_self ''vlan100_rif_counter_in'' (num 0),
      set_self ''vlan100_rif_counter_out'' (num 0),
      set_self ''vlan200_rif_counter_in'' (num 0),
      set_self ''vlan200_rif_counter_out'' (num 0),
      set_self ''vlan100_bcast_in'' (num 0),
      set_self ''vlan100_bcast_out'' (num 0),
      set_self ''vlan200_bcast_in'' (num 0),
      set_self ''vlan200_bcast_out'' (num 0),
      set_self ''port24_bp'' (api_create ''bridge_port'' [(''bridge_id'', self ''default_1q_bridge''), (''port_id'', self
        ''port24''), (''type'', num SAI_BRIDGE_PORT_TYPE_PORT), (''admin_state'', bool True)]),
      set_self ''port25_bp'' (api_create ''bridge_port'' [(''bridge_id'', self ''default_1q_bridge''), (''port_id'', self
        ''port25''), (''type'', num SAI_BRIDGE_PORT_TYPE_PORT), (''admin_state'', bool True)]),
      set_self ''port26_bp'' (api_create ''bridge_port'' [(''bridge_id'', self ''default_1q_bridge''), (''port_id'', self
        ''port26''), (''type'', num SAI_BRIDGE_PORT_TYPE_PORT), (''admin_state'', bool True)]),
      set_self ''vlan100'' (api_create ''vlan'' [(''vlan_id'', num 100)]),
      set_self ''vlan_member100'' (api_create ''vlan_member'' [(''vlan_id'', self ''vlan100''), (''bridge_port_id'', self
        ''port24_bp''), (''vlan_tagging_mode'', num SAI_VLAN_TAGGING_MODE_UNTAGGED)]),
      set_self ''vlan_member101'' (api_create ''vlan_member'' [(''vlan_id'', self ''vlan100''), (''bridge_port_id'', self
        ''port25_bp''), (''vlan_tagging_mode'', num SAI_VLAN_TAGGING_MODE_UNTAGGED)]),
      set_self ''vlan_member102'' (api_create ''vlan_member'' [(''vlan_id'', self ''vlan100''), (''bridge_port_id'', self
        ''port26_bp''), (''vlan_tagging_mode'', num SAI_VLAN_TAGGING_MODE_UNTAGGED)]),
      run (api_set ''port'' (self ''port24'') [(''port_vlan_id'', num 100)]),
      run (api_set ''port'' (self ''port25'') [(''port_vlan_id'', num 100)]),
      run (api_set ''port'' (self ''port26'') [(''port_vlan_id'', num 100)]),
      set_self ''vlan100_rif'' (api_create ''router_interface'' [(''type'', num SAI_ROUTER_INTERFACE_TYPE_VLAN),
        (''virtual_router_id'', self ''default_vrf''), (''vlan_id'', self ''vlan100'')]),
      set_self ''dmac1'' (str ''00:11:22:33:44:55''),
      set_self ''dmac2'' (str ''00:22:22:33:44:55''),
      set_self ''dmac3'' (str ''00:33:22:33:44:55''),
      set_self ''dmac4'' (str ''00:44:22:33:44:55''),
      set_self ''dmac5'' (str ''00:11:33:33:44:55''),
      set_self ''dmac6'' (str ''00:22:33:33:44:55''),
      set_self ''dmac7'' (str ''00:44:33:33:44:55''),
      set_self ''nhop1'' (api_create ''next_hop'' [(''ip'', ip_address (str ''10.10.0.1'')), (''router_interface_id'', self
        ''vlan100_rif''), (''type'', num SAI_NEXT_HOP_TYPE_IP)]),
      set_self ''neighbor_entry1'' (struct ''sai_thrift_neighbor_entry_t'' [(''rif_id'', self ''vlan100_rif''), (''ip_address'',
        ip_address (str ''10.10.0.1''))]),
      run (api_create_entry ''neighbor_entry'' (self ''neighbor_entry1'') [(''dst_mac_address'', self ''dmac1'')]),
      set_self ''route_entry1'' (struct ''sai_thrift_route_entry_t'' [(''vr_id'', self ''default_vrf''), (''destination'',
        ip_prefix (str ''10.10.10.1/32''))]),
      run (api_create_entry ''route_entry'' (self ''route_entry1'') [(''next_hop_id'', self ''nhop1'')]),
      set_self ''route_entry1_v6'' (struct ''sai_thrift_route_entry_t'' [(''vr_id'', self ''default_vrf''), (''destination'',
        ip_prefix (str ''1234:5678:9abc:def0:4422:1133:5577:0000/128''))]),
      run (api_create_entry ''route_entry'' (self ''route_entry1_v6'') [(''next_hop_id'', self ''nhop1'')]),
      set_self ''neighbor_entry2'' (struct ''sai_thrift_neighbor_entry_t'' [(''rif_id'', self ''vlan100_rif''), (''ip_address'',
        ip_address (str ''10.10.0.2''))]),
      run (api_create_entry ''neighbor_entry'' (self ''neighbor_entry2'') [(''dst_mac_address'', self ''dmac2'')]),
      set_self ''nhop2'' (api_create ''next_hop'' [(''ip'', ip_address (str ''10.10.0.2'')), (''router_interface_id'', self
        ''vlan100_rif''), (''type'', num SAI_NEXT_HOP_TYPE_IP)]),
      set_self ''route_entry2'' (struct ''sai_thrift_route_entry_t'' [(''vr_id'', self ''default_vrf''), (''destination'',
        ip_prefix (str ''10.10.10.2/32''))]),
      run (api_create_entry ''route_entry'' (self ''route_entry2'') [(''next_hop_id'', self ''nhop2'')]),
      set_self ''route_entry2_v6'' (struct ''sai_thrift_route_entry_t'' [(''vr_id'', self ''default_vrf''), (''destination'',
        ip_prefix (str ''1234:5678:9abc:def0:4422:1133:5577:2222/128''))]),
      run (api_create_entry ''route_entry'' (self ''route_entry2_v6'') [(''next_hop_id'', self ''nhop2'')]),
      set_self ''nhop3'' (api_create ''next_hop'' [(''ip'', ip_address (str ''10.10.0.3'')), (''router_interface_id'', self
        ''vlan100_rif''), (''type'', num SAI_NEXT_HOP_TYPE_IP)]),
      set_self ''neighbor_entry3'' (struct ''sai_thrift_neighbor_entry_t'' [(''rif_id'', self ''vlan100_rif''), (''ip_address'',
        ip_address (str ''10.10.0.3''))]),
      run (api_create_entry ''neighbor_entry'' (self ''neighbor_entry3'') [(''dst_mac_address'', self ''dmac3'')]),
      set_self ''route_entry3'' (struct ''sai_thrift_route_entry_t'' [(''vr_id'', self ''default_vrf''), (''destination'',
        ip_prefix (str ''10.10.10.3/32''))]),
      run (api_create_entry ''route_entry'' (self ''route_entry3'') [(''next_hop_id'', self ''nhop3'')]),
      set_self ''nhop4'' (api_create ''next_hop'' [(''ip'', ip_address (str ''11.11.0.2'')), (''router_interface_id'', self
        ''port10_rif''), (''type'', num SAI_NEXT_HOP_TYPE_IP)]),
      set_self ''neighbor_entry4'' (struct ''sai_thrift_neighbor_entry_t'' [(''rif_id'', self ''port10_rif''), (''ip_address'',
        ip_address (str ''11.11.0.2''))]),
      run (api_create_entry ''neighbor_entry'' (self ''neighbor_entry4'') [(''dst_mac_address'', self ''dmac4'')]),
      set_self ''route_entry4'' (struct ''sai_thrift_route_entry_t'' [(''vr_id'', self ''default_vrf''), (''destination'',
        ip_prefix (str ''11.11.11.1/32''))]),
      run (api_create_entry ''route_entry'' (self ''route_entry4'') [(''next_hop_id'', self ''nhop4'')]),
      set_self ''route_entry4_v6'' (struct ''sai_thrift_route_entry_t'' [(''vr_id'', self ''default_vrf''), (''destination'',
        ip_prefix (str ''1234:5678:9abc:def0:4422:1133:5577:1111/128''))]),
      run (api_create_entry ''route_entry'' (self ''route_entry4_v6'') [(''next_hop_id'', self ''nhop4'')]),
      set_self ''lag10'' (api_create ''lag'' []),
      set_self ''lag10_bp'' (api_create ''bridge_port'' [(''bridge_id'', self ''default_1q_bridge''), (''port_id'', self
        ''lag10''), (''type'', num SAI_BRIDGE_PORT_TYPE_PORT), (''admin_state'', bool True)]),
      set_self ''lag10_member30'' (api_create ''lag_member'' [(''lag_id'', self ''lag10''), (''port_id'', self ''port30'')]),
      set_self ''lag10_member31'' (api_create ''lag_member'' [(''lag_id'', self ''lag10''), (''port_id'', self ''port31'')]),
      set_self ''lag11'' (api_create ''lag'' []),
      set_self ''lag11_bp'' (api_create ''bridge_port'' [(''bridge_id'', self ''default_1q_bridge''), (''port_id'', self
        ''lag11''), (''type'', num SAI_BRIDGE_PORT_TYPE_PORT), (''admin_state'', bool True)]),
      set_self ''lag11_member28'' (api_create ''lag_member'' [(''lag_id'', self ''lag11''), (''port_id'', self ''port28'')]),
      set_self ''lag11_member29'' (api_create ''lag_member'' [(''lag_id'', self ''lag11''), (''port_id'', self ''port29'')]),
      set_self ''vlan200'' (api_create ''vlan'' [(''vlan_id'', num 200)]),
      set_self ''vlan_member200'' (api_create ''vlan_member'' [(''vlan_id'', self ''vlan200''), (''bridge_port_id'', self
        ''lag10_bp''), (''vlan_tagging_mode'', num SAI_VLAN_TAGGING_MODE_UNTAGGED)]),
      set_self ''vlan_member201'' (api_create ''vlan_member'' [(''vlan_id'', self ''vlan200''), (''bridge_port_id'', self
        ''lag11_bp''), (''vlan_tagging_mode'', num SAI_VLAN_TAGGING_MODE_UNTAGGED)]),
      run (api_set ''lag'' (self ''lag10'') [(''port_vlan_id'', num 200)]),
      run (api_set ''lag'' (self ''lag11'') [(''port_vlan_id'', num 200)]),
      set_self ''vlan200_rif'' (api_create ''router_interface'' [(''type'', num SAI_ROUTER_INTERFACE_TYPE_VLAN),
        (''virtual_router_id'', self ''default_vrf''), (''vlan_id'', self ''vlan200'')]),
      set_self ''nhop5'' (api_create ''next_hop'' [(''ip'', ip_address (str ''20.10.0.1'')), (''router_interface_id'', self
        ''vlan200_rif''), (''type'', num SAI_NEXT_HOP_TYPE_IP)]),
      set_self ''neighbor_entry5'' (struct ''sai_thrift_neighbor_entry_t'' [(''rif_id'', self ''vlan200_rif''), (''ip_address'',
        ip_address (str ''20.10.0.1''))]),
      run (api_create_entry ''neighbor_entry'' (self ''neighbor_entry5'') [(''dst_mac_address'', self ''dmac5'')]),
      set_self ''route_entry5'' (struct ''sai_thrift_route_entry_t'' [(''vr_id'', self ''default_vrf''), (''destination'',
        ip_prefix (str ''20.10.10.1/32''))]),
      run (api_create_entry ''route_entry'' (self ''route_entry5'') [(''next_hop_id'', self ''nhop5'')]),
      set_self ''route_entry5_v6'' (struct ''sai_thrift_route_entry_t'' [(''vr_id'', self ''default_vrf''), (''destination'',
        ip_prefix (str ''1234:5678:9abc:def0:4422:1133:5577:99aa/128''))]),
      run (api_create_entry ''route_entry'' (self ''route_entry5_v6'') [(''next_hop_id'', self ''nhop5'')]),
      set_self ''nhop6'' (api_create ''next_hop'' [(''ip'', ip_address (str ''20.10.0.2'')), (''router_interface_id'', self
        ''vlan200_rif''), (''type'', num SAI_NEXT_HOP_TYPE_IP)]),
      set_self ''neighbor_entry6'' (struct ''sai_thrift_neighbor_entry_t'' [(''rif_id'', self ''vlan200_rif''), (''ip_address'',
        ip_address (str ''20.10.0.2''))]),
      run (api_create_entry ''neighbor_entry'' (self ''neighbor_entry6'') [(''dst_mac_address'', self ''dmac6'')]),
      set_self ''route_entry6'' (struct ''sai_thrift_route_entry_t'' [(''vr_id'', self ''default_vrf''), (''destination'',
        ip_prefix (str ''20.10.10.2/32''))]),
      run (api_create_entry ''route_entry'' (self ''route_entry6'') [(''next_hop_id'', self ''nhop6'')]),
      set_self ''route_entry6_v6'' (struct ''sai_thrift_route_entry_t'' [(''vr_id'', self ''default_vrf''), (''destination'',
        ip_prefix (str ''1234:5678:9abc:def0:1122:3344:5566:7788/128''))]),
      run (api_create_entry ''route_entry'' (self ''route_entry6_v6'') [(''next_hop_id'', self ''nhop6'')]),
      set_self ''nhop7'' (api_create ''next_hop'' [(''ip'', ip_address (str ''21.11.0.2'')), (''router_interface_id'', self
        ''port11_rif''), (''type'', num SAI_NEXT_HOP_TYPE_IP)]),
      set_self ''neighbor_entry7'' (struct ''sai_thrift_neighbor_entry_t'' [(''rif_id'', self ''port11_rif''), (''ip_address'',
        ip_address (str ''21.11.0.2''))]),
      run (api_create_entry ''neighbor_entry'' (self ''neighbor_entry7'') [(''dst_mac_address'', self ''dmac7'')]),
      set_self ''route_entry7'' (struct ''sai_thrift_route_entry_t'' [(''vr_id'', self ''default_vrf''), (''destination'',
        ip_prefix (str ''21.11.11.1/32''))]),
      run (api_create_entry ''route_entry'' (self ''route_entry7'') [(''next_hop_id'', self ''nhop7'')]),
      set_self ''route_entry7_v6'' (struct ''sai_thrift_route_entry_t'' [(''vr_id'', self ''default_vrf''), (''destination'',
        ip_prefix (str ''1234:5678:9abc:def0:1122:3344:5566:6677/128''))]),
      run (api_create_entry ''route_entry'' (self ''route_entry7_v6'') [(''next_hop_id'', self ''nhop7'')])]"

definition L3SviTestHelper_tearDown :: "'d stmt" where
  "L3SviTestHelper_tearDown = block [
      run (api_remove ''route_entry'' (self ''route_entry5'')),
      run (api_remove ''route_entry'' (self ''route_entry5_v6'')),
      run (api_remove ''route_entry'' (self ''route_entry6'')),
      run (api_remove ''route_entry'' (self ''route_entry6_v6'')),
      run (api_remove ''route_entry'' (self ''route_entry7'')),
      run (api_remove ''route_entry'' (self ''route_entry7_v6'')),
      run (api_remove ''neighbor_entry'' (self ''neighbor_entry5'')),
      run (api_remove ''neighbor_entry'' (self ''neighbor_entry6'')),
      run (api_remove ''neighbor_entry'' (self ''neighbor_entry7'')),
      run (api_remove ''next_hop'' (self ''nhop5'')),
      run (api_remove ''next_hop'' (self ''nhop6'')),
      run (api_remove ''next_hop'' (self ''nhop7'')),
      run (api_set ''lag'' (self ''lag10'') [(''port_vlan_id'', num 0)]),
      run (api_set ''lag'' (self ''lag11'') [(''port_vlan_id'', num 0)]),
      run (api_remove ''router_interface'' (self ''vlan200_rif'')),
      run (api_remove ''vlan_member'' (self ''vlan_member200'')),
      run (api_remove ''vlan_member'' (self ''vlan_member201'')),
      run (api_remove ''vlan'' (self ''vlan200'')),
      run (api_remove ''lag_member'' (self ''lag10_member30'')),
      run (api_remove ''lag_member'' (self ''lag10_member31'')),
      run (api_remove ''lag_member'' (self ''lag11_member28'')),
      run (api_remove ''lag_member'' (self ''lag11_member29'')),
      run (api_remove ''bridge_port'' (self ''lag10_bp'')),
      run (api_remove ''bridge_port'' (self ''lag11_bp'')),
      run (api_remove ''lag'' (self ''lag10'')),
      run (api_remove ''lag'' (self ''lag11'')),
      run (api_remove ''route_entry'' (self ''route_entry1'')),
      run (api_remove ''route_entry'' (self ''route_entry1_v6'')),
      run (api_remove ''route_entry'' (self ''route_entry2'')),
      run (api_remove ''route_entry'' (self ''route_entry2_v6'')),
      run (api_remove ''route_entry'' (self ''route_entry3'')),
      run (api_remove ''route_entry'' (self ''route_entry4'')),
      run (api_remove ''route_entry'' (self ''route_entry4_v6'')),
      run (api_remove ''neighbor_entry'' (self ''neighbor_entry1'')),
      run (api_remove ''neighbor_entry'' (self ''neighbor_entry2'')),
      run (api_remove ''neighbor_entry'' (self ''neighbor_entry3'')),
      run (api_remove ''neighbor_entry'' (self ''neighbor_entry4'')),
      run (api_remove ''next_hop'' (self ''nhop1'')),
      run (api_remove ''next_hop'' (self ''nhop2'')),
      run (api_remove ''next_hop'' (self ''nhop3'')),
      run (api_remove ''next_hop'' (self ''nhop4'')),
      run (api_remove ''router_interface'' (self ''vlan100_rif'')),
      run (api_set ''port'' (self ''port24'') [(''port_vlan_id'', num 0)]),
      run (api_set ''port'' (self ''port25'') [(''port_vlan_id'', num 0)]),
      run (api_set ''port'' (self ''port26'') [(''port_vlan_id'', num 0)]),
      run (api_remove ''vlan_member'' (self ''vlan_member100'')),
      run (api_remove ''vlan_member'' (self ''vlan_member101'')),
      run (api_remove ''vlan_member'' (self ''vlan_member102'')),
      run (api_remove ''vlan'' (self ''vlan100'')),
      run (api_remove ''bridge_port'' (self ''port24_bp'')),
      run (api_remove ''bridge_port'' (self ''port25_bp'')),
      run (api_remove ''bridge_port'' (self ''port26_bp'')),
      super_tearDown]"

definition SviRifIPv4DisableTest_setUp :: "'d stmt" where
  "SviRifIPv4DisableTest_setUp = block [
      run (invoke [] L3SviTestHelper_setUp)]"

definition SviRifIPv4DisableTest_runTest :: "'d stmt" where
  "SviRifIPv4DisableTest_runTest = block [
      assign ''pkt'' (lib ''simple_tcp_packet'' [] [(''eth_dst'', str ROUTER_MAC), (''eth_src'', str ''00:22:22:22:22:22''),
        (''ip_dst'', str ''11.11.11.1''), (''ip_src'', str ''192.168.0.1''), (''ip_id'', num 105), (''ip_ttl'', num 64),
        (''pktlen'', num 100)]),
      assign ''exp_pkt'' (lib ''simple_tcp_packet'' [] [(''eth_dst'', str ''00:44:22:33:44:55''), (''eth_src'', str ROUTER_MAC),
        (''ip_dst'', str ''11.11.11.1''), (''ip_src'', str ''192.168.0.1''), (''ip_id'', num 105), (''ip_ttl'', num 63),
        (''pktlen'', num 100)]),
      assign ''vlan_pkt'' (lib ''simple_tcp_packet'' [] [(''eth_dst'', str ROUTER_MAC), (''eth_src'', str
        ''00:22:22:22:22:22''), (''ip_dst'', str ''11.11.11.1''), (''ip_src'', str ''192.168.0.1''), (''dl_vlan_enable'', bool
        True), (''vlan_vid'', num 100), (''ip_id'', num 105), (''ip_ttl'', num 64), (''pktlen'', num 104)]),
      try_finally [
        print [self ''dev_port24''],
        run (lib ''send_packet'' [self ''dev_port24'', var ''pkt''] []),
        run (lib ''verify_packets'' [var ''exp_pkt'', list_of [self ''dev_port10'']] []),
        set_self ''vlan100_rif_counter_in'' (add (self ''vlan100_rif_counter_in'') (num 1)),
        print [self ''dev_port25''],
        run (lib ''send_packet'' [self ''dev_port25'', var ''pkt''] []),
        run (lib ''verify_packets'' [var ''exp_pkt'', list_of [self ''dev_port10'']] []),
        set_self ''vlan100_rif_counter_in'' (add (self ''vlan100_rif_counter_in'') (num 1)),
        print [self ''dev_port26''],
        run (lib ''send_packet'' [self ''dev_port26'', var ''pkt''] []),
        run (lib ''verify_packets'' [var ''exp_pkt'', list_of [self ''dev_port10'']] []),
        set_self ''vlan100_rif_counter_in'' (add (self ''vlan100_rif_counter_in'') (num 1)),
        run (api_set ''router_interface'' (self ''vlan100_rif'') [(''admin_v4_state'', bool False)]),
        print [self ''dev_port24''],
        run (lib ''send_packet'' [self ''dev_port24'', var ''pkt''] []),
        run (lib ''verify_no_other_packets'' [] [(''timeout'', num 1)]),
        set_self ''vlan100_rif_counter_in'' (add (self ''vlan100_rif_counter_in'') (num 1)),
        print [self ''dev_port25''],
        run (lib ''send_packet'' [self ''dev_port25'', var ''pkt''] []),
        run (lib ''verify_no_other_packets'' [] [(''timeout'', num 1)]),
        set_self ''vlan100_rif_counter_in'' (add (self ''vlan100_rif_counter_in'') (num 1)),
        print [self ''dev_port26''],
        run (lib ''send_packet'' [self ''dev_port26'', var ''pkt''] []),
        run (lib ''verify_no_other_packets'' [] [(''timeout'', num 1)]),
        set_self ''vlan100_rif_counter_in'' (add (self ''vlan100_rif_counter_in'') (num 1)),
        assign ''port27_bp'' (api_create ''bridge_port'' [(''bridge_id'', self ''default_1q_bridge''), (''port_id'', self
          ''port27''), (''type'', num SAI_BRIDGE_PORT_TYPE_PORT), (''admin_state'', bool True)]),
        assign ''vlan_member103'' (api_create ''vlan_member'' [(''vlan_id'', self ''vlan100''), (''bridge_port_id'', var
          ''port27_bp''), (''vlan_tagging_mode'', num SAI_VLAN_TAGGING_MODE_TAGGED)]),
        print [self ''dev_port27''],
        run (lib ''send_packet'' [self ''dev_port27'', var ''vlan_pkt''] []),
        run (lib ''verify_no_other_packets'' [] [(''timeout'', num 1)]),
        set_self ''vlan100_rif_counter_in'' (add (self ''vlan100_rif_counter_in'') (num 1)),
        run (api_remove ''vlan_member'' (var ''vlan_member103'')),
        run (api_set ''router_interface'' (self ''vlan100_rif'') [(''admin_v4_state'', bool True)]),
        print [self ''dev_port24''],
        run (lib ''send_packet'' [self ''dev_port24'', var ''pkt''] []),
        run (lib ''verify_packets'' [var ''exp_pkt'', list_of [self ''dev_port10'']] []),
        set_self ''vlan100_rif_counter_in'' (add (self ''vlan100_rif_counter_in'') (num 1)),
        print [self ''dev_port25''],
        run (lib ''send_packet'' [self ''dev_port25'', var ''pkt''] []),
        run (lib ''verify_packets'' [var ''exp_pkt'', list_of [self ''dev_port10'']] []),
        set_self ''vlan100_rif_counter_in'' (add (self ''vlan100_rif_counter_in'') (num 1)),
        print [self ''dev_port26''],
        run (lib ''send_packet'' [self ''dev_port26'', var ''pkt''] []),
        run (lib ''verify_packets'' [var ''exp_pkt'', list_of [self ''dev_port10'']] []),
        set_self ''vlan100_rif_counter_in'' (add (self ''vlan100_rif_counter_in'') (num 1)),
        assign ''vlan_member103'' (api_create ''vlan_member'' [(''vlan_id'', self ''vlan100''), (''bridge_port_id'', var
          ''port27_bp''), (''vlan_tagging_mode'', num SAI_VLAN_TAGGING_MODE_TAGGED)]),
        print [self ''dev_port27''],
        run (lib ''send_packet'' [self ''dev_port27'', var ''vlan_pkt''] []),
        run (lib ''verify_packets'' [var ''exp_pkt'', list_of [self ''dev_port10'']] []),
        set_self ''vlan100_rif_counter_in'' (add (self ''vlan100_rif_counter_in'') (num 1))] [
        run (api_remove ''vlan_member'' (var ''vlan_member103'')),
        run (api_remove ''bridge_port'' (var ''port27_bp''))]]"

definition SviRifIPv4DisableTest_tearDown :: "'d stmt" where
  "SviRifIPv4DisableTest_tearDown = block [
      run (invoke [] L3SviTestHelper_tearDown)]"

definition SviRifIPv6DisableTest_setUp :: "'d stmt" where
  "SviRifIPv6DisableTest_setUp = block [
      run (invoke [] L3SviTestHelper_setUp)]"

definition SviRifIPv6DisableTest_runTest :: "'d stmt" where
  "SviRifIPv6DisableTest_runTest = block [
      assign ''pkt'' (lib ''simple_tcpv6_packet'' [] [(''eth_dst'', str ROUTER_MAC), (''eth_src'', str ''00:22:22:22:22:22''),
        (''ipv6_dst'', str ''1234:5678:9abc:def0:4422:1133:5577:1111''), (''ipv6_src'', str ''2000::1''), (''ipv6_hlim'', num
        64), (''pktlen'', num 100)]),
      assign ''vlan_pkt'' (lib ''simple_tcpv6_packet'' [] [(''eth_dst'', str ROUTER_MAC), (''eth_src'', str
        ''00:22:22:22:22:22''), (''ipv6_dst'', str ''1234:5678:9abc:def0:4422:1133:5577:1111''), (''ipv6_src'', str
        ''2000::1''), (''dl_vlan_enable'', bool True), (''vlan_vid'', num 100), (''ipv6_hlim'', num 64), (''pktlen'', num 104)]),
      assign ''exp_pkt'' (lib ''simple_tcpv6_packet'' [] [(''eth_dst'', str ''00:44:22:33:44:55''), (''eth_src'', str
        ROUTER_MAC), (''ipv6_dst'', str ''1234:5678:9abc:def0:4422:1133:5577:1111''), (''ipv6_src'', str ''2000::1''),
        (''ipv6_hlim'', num 63), (''pktlen'', num 100)]),
      try_finally [
        print [self ''dev_port24''],
        run (lib ''send_packet'' [self ''dev_port24'', var ''pkt''] []),
        run (lib ''verify_packets'' [var ''exp_pkt'', list_of [self ''dev_port10'']] []),
        set_self ''vlan100_rif_counter_in'' (add (self ''vlan100_rif_counter_in'') (num 1)),
        run (api_set ''router_interface'' (self ''vlan100_rif'') [(''admin_v6_state'', bool False)]),
        print [self ''dev_port24''],
        run (lib ''send_packet'' [self ''dev_port24'', var ''pkt''] []),
        run (lib ''verify_no_other_packets'' [] [(''timeout'', num 1)]),
        set_self ''vlan100_rif_counter_in'' (add (self ''vlan100_rif_counter_in'') (num 1)),
        assign ''port27_bp'' (api_create ''bridge_port'' [(''bridge_id'', self ''default_1q_bridge''), (''port_id'', self
          ''port27''), (''type'', num SAI_BRIDGE_PORT_TYPE_PORT), (''admin_state'', bool True)]),
        assign ''vlan_member103'' (api_create ''vlan_member'' [(''vlan_id'', self ''vlan100''), (''bridge_port_id'', var
          ''port27_bp''), (''vlan_tagging_mode'', num SAI_VLAN_TAGGING_MODE_TAGGED)]),
        print [self ''dev_port27''],
        run (lib ''send_packet'' [self ''dev_port27'', var ''vlan_pkt''] []),
        run (lib ''verify_no_other_packets'' [] [(''timeout'', num 1)]),
        set_self ''vlan100_rif_counter_in'' (add (self ''vlan100_rif_counter_in'') (num 1)),
        run (api_remove ''vlan_member'' (var ''vlan_member103'')),
        run (api_set ''router_interface'' (self ''vlan100_rif'') [(''admin_v6_state'', bool True)]),
        print [self ''dev_port24''],
        run (lib ''send_packet'' [self ''dev_port24'', var ''pkt''] []),
        run (lib ''verify_packets'' [var ''exp_pkt'', list_of [self ''dev_port10'']] []),
        set_self ''vlan100_rif_counter_in'' (add (self ''vlan100_rif_counter_in'') (num 1)),
        assign ''vlan_member103'' (api_create ''vlan_member'' [(''vlan_id'', self ''vlan100''), (''bridge_port_id'', var
          ''port27_bp''), (''vlan_tagging_mode'', num SAI_VLAN_TAGGING_MODE_TAGGED)]),
        print [self ''dev_port27''],
        run (lib ''send_packet'' [self ''dev_port27'', var ''vlan_pkt''] []),
        run (lib ''verify_packets'' [var ''exp_pkt'', list_of [self ''dev_port10'']] []),
        set_self ''vlan100_rif_counter_in'' (add (self ''vlan100_rif_counter_in'') (num 1))] [
        run (api_remove ''vlan_member'' (var ''vlan_member103'')),
        run (api_remove ''bridge_port'' (var ''port27_bp''))]]"

definition SviRifIPv6DisableTest_tearDown :: "'d stmt" where
  "SviRifIPv6DisableTest_tearDown = block [
      run (invoke [] L3SviTestHelper_tearDown)]"

definition SviBridgingTest_setUp :: "'d stmt" where
  "SviBridgingTest_setUp = block [
      run (invoke [] L3SviTestHelper_setUp)]"

definition SviBridgingTest_runTest :: "'d stmt" where
  "SviBridgingTest_runTest = block [
      run (api_set ''vlan'' (self ''vlan100'') [(''learn_disable'', bool True)]),
      assign ''mac_action'' (num SAI_PACKET_ACTION_FORWARD),
      assign ''pkt'' (lib ''simple_tcp_packet'' [] [(''eth_dst'', str ROUTER_MAC), (''eth_src'', str ''00:22:22:22:22:22''),
        (''ip_dst'', str ''11.11.11.1''), (''ip_src'', str ''192.168.0.1''), (''ip_id'', num 105), (''ip_ttl'', num 64)]),
      assign ''exp_pkt'' (lib ''simple_tcp_packet'' [] [(''eth_dst'', str ''00:44:22:33:44:55''), (''eth_src'', str ROUTER_MAC),
        (''ip_dst'', str ''11.11.11.1''), (''ip_src'', str ''192.168.0.1''), (''ip_id'', num 105), (''ip_ttl'', num 63)]),
      assign ''pkt2'' (lib ''simple_tcp_packet'' [] [(''eth_dst'', str ''00:77:66:55:44:44''), (''eth_src'', str
        ''00:22:22:22:22:22''), (''ip_dst'', str ''11.11.11.1''), (''ip_src'', str ''192.168.0.1''), (''ip_id'', num 105),
        (''ip_ttl'', num 64), (''pktlen'', num 104)]),
      assign ''pkt3'' (lib ''simple_tcp_packet'' [] [(''eth_dst'', str ''FF:FF:FF:FF:FF:FF''), (''eth_src'', str
        ''00:22:22:22:22:22''), (''ip_dst'', str ''255.255.225.255''), (''ip_src'', str ''192.168.0.1''), (''ip_id'', num 105),
        (''ip_ttl'', num 64), (''pktlen'', num 104)]),
      try_finally [
        print [self ''dev_port24'', self ''dev_port10''],
        run (lib ''send_packet'' [self ''dev_port24'', var ''pkt''] []),
        run (lib ''verify_packets'' [var ''exp_pkt'', list_of [self ''dev_port10'']] []),
        set_self ''vlan100_rif_counter_in'' (add (self ''vlan100_rif_counter_in'') (num 1)),
        print [self ''dev_port25'', self ''dev_port10''],
        run (lib ''send_packet'' [self ''dev_port25'', var ''pkt''] []),
        run (lib ''verify_packets'' [var ''exp_pkt'', list_of [self ''dev_port10'']] []),
        set_self ''vlan100_rif_counter_in'' (add (self ''vlan100_rif_counter_in'') (num 1)),
        print [self ''dev_port26'', self ''dev_port10''],
        run (lib ''send_packet'' [self ''dev_port26'', var ''pkt''] []),
        run (lib ''verify_packets'' [var ''exp_pkt'', list_of [self ''dev_port10'']] []),
        set_self ''vlan100_rif_counter_in'' (add (self ''vlan100_rif_counter_in'') (num 1)),
        print [self ''dev_port24''],
        run (lib ''send_packet'' [self ''dev_port24'', var ''pkt2''] []),
        run (lib ''verify_packets'' [var ''pkt2'', list_of [self ''dev_port25'', self ''dev_port26'']] []),
        set_self ''vlan100_rif_counter_in'' (add (self ''vlan100_rif_counter_in'') (num 1)),
        set_self ''vlan100_rif_counter_out'' (add (self ''vlan100_rif_counter_out'') (num 2)),
        print [self ''dev_port25''],
        run (lib ''send_packet'' [self ''dev_port25'', var ''pkt2''] []),
        run (lib ''verify_packets'' [var ''pkt2'', list_of [self ''dev_port24'', self ''dev_port26'']] []),
        set_self ''vlan100_rif_counter_in'' (add (self ''vlan100_rif_counter_in'') (num 1)),
        set_self ''vlan100_rif_counter_out'' (add (self ''vlan100_rif_counter_out'') (num 2)),
        print [self ''dev_port26''],
        run (lib ''send_packet'' [self ''dev_port26'', var ''pkt2''] []),
        run (lib ''verify_packets'' [var ''pkt2'', list_of [self ''dev_port25'', self ''dev_port24'']] []),
        set_self ''vlan100_rif_counter_in'' (add (self ''vlan100_rif_counter_in'') (num 1)),
        set_self ''vlan100_rif_counter_out'' (add (self ''vlan100_rif_counter_out'') (num 2)),
        assign ''fdb_entry'' (struct ''sai_thrift_fdb_entry_t'' [(''switch_id'', self ''switch_id''), (''mac_address'', str
          ''00:77:66:55:44:44''), (''bv_id'', self ''vlan100'')]),
        run (api_create_entry ''fdb_entry'' (var ''fdb_entry'') [(''type'', num SAI_FDB_ENTRY_TYPE_STATIC), (''bridge_port_id'',
          self ''port24_bp''), (''packet_action'', var ''mac_action'')]),
        print [self ''dev_port25'', self ''dev_port24''],
        run (lib ''send_packet'' [self ''dev_port25'', var ''pkt2''] []),
        run (lib ''verify_packets'' [var ''pkt2'', list_of [self ''dev_port24'']] []),
        set_self ''vlan100_rif_counter_in'' (add (self ''vlan100_rif_counter_in'') (num 1)),
        set_self ''vlan100_rif_counter_out'' (add (self ''vlan100_rif_counter_out'') (num 1)),
        print [self ''dev_port26'', self ''dev_port24''],
        run (lib ''send_packet'' [self ''dev_port26'', var ''pkt2''] []),
        run (lib ''verify_packets'' [var ''pkt2'', list_of [self ''dev_port24'']] []),
        set_self ''vlan100_rif_counter_in'' (add (self ''vlan100_rif_counter_in'') (num 1)),
        set_self ''vlan100_rif_counter_out'' (add (self ''vlan100_rif_counter_out'') (num 1)),
        print [self ''dev_port24''],
        run (lib ''send_packet'' [self ''dev_port24'', var ''pkt3''] []),
        run (lib ''verify_packets'' [var ''pkt3'', list_of [self ''dev_port25'', self ''dev_port26'']] []),
        set_self ''vlan100_rif_counter_in'' (add (self ''vlan100_rif_counter_in'') (num 1)),
        set_self ''vlan100_rif_counter_out'' (add (self ''vlan100_rif_counter_out'') (num 2)),
        set_self ''vlan100_bcast_in'' (add (self ''vlan100_bcast_in'') (num 1)),
        set_self ''vlan100_bcast_out'' (add (self ''vlan100_bcast_out'') (num 2)),
        print [self ''dev_port25''],
        run (lib ''send_packet'' [self ''dev_port25'', var ''pkt3''] []),
        run (lib ''verify_packets'' [var ''pkt3'', list_of [self ''dev_port24'', self ''dev_port26'']] []),
        set_self ''vlan100_rif_counter_in'' (add (self ''vlan100_rif_counter_in'') (num 1)),
        set_self ''vlan100_rif_counter_out'' (add (self ''vlan100_rif_counter_out'') (num 2)),
        set_self ''vlan100_bcast_in'' (add (self ''vlan100_bcast_in'') (num 1)),
        set_self ''vlan100_bcast_out'' (add (self ''vlan100_bcast_out'') (num 2)),
        print [self ''dev_port26''],
        run (lib ''send_packet'' [self ''dev_port26'', var ''pkt3''] []),
        run (lib ''verify_packets'' [var ''pkt3'', list_of [self ''dev_port25'', self ''dev_port24'']] []),
        set_self ''vlan100_rif_counter_in'' (add (self ''vlan100_rif_counter_in'') (num 1)),
        set_self ''vlan100_rif_counter_out'' (add (self ''vlan100_rif_counter_out'') (num 2)),
        set_self ''vlan100_bcast_in'' (add (self ''vlan100_bcast_in'') (num 1)),
        set_self ''vlan100_bcast_out'' (add (self ''vlan100_bcast_out'') (num 2))] [
        run (api_remove ''fdb_entry'' (var ''fdb_entry'')),
        run (api_set ''vlan'' (self ''vlan100'') [(''learn_disable'', bool False)])]]"

definition SviBridgingTest_tearDown :: "'d stmt" where
  "SviBridgingTest_tearDown = block [
      run (invoke [] L3SviTestHelper_tearDown)]"

definition SviHostTest_setUp :: "'d stmt" where
  "SviHostTest_setUp = block [
      run (invoke [] L3SviTestHelper_setUp)]"

definition SviHostTest_runTest :: "'d stmt" where
  "SviHostTest_runTest = block [
      assign ''mac_action'' (num SAI_PACKET_ACTION_FORWARD),
      assign ''fdb_entry1'' (struct ''sai_thrift_fdb_entry_t'' [(''switch_id'', self ''switch_id''), (''mac_address'', str
        ''00:11:22:33:44:55''), (''bv_id'', self ''vlan100'')]),
      run (api_create_entry ''fdb_entry'' (var ''fdb_entry1'') [(''type'', num SAI_FDB_ENTRY_TYPE_STATIC), (''bridge_port_id'',
        self ''port24_bp''), (''packet_action'', var ''mac_action'')]),
      assign ''fdb_entry2'' (struct ''sai_thrift_fdb_entry_t'' [(''switch_id'', self ''switch_id''), (''mac_address'', str
        ''00:22:22:33:44:55''), (''bv_id'', self ''vlan100'')]),
      run (api_create_entry ''fdb_entry'' (var ''fdb_entry2'') [(''type'', num SAI_FDB_ENTRY_TYPE_STATIC), (''bridge_port_id'',
        self ''port25_bp''), (''packet_action'', var ''mac_action'')]),
      assign ''pkt'' (lib ''simple_tcp_packet'' [] [(''eth_dst'', str ROUTER_MAC), (''eth_src'', str ''00:22:22:22:22:22''),
        (''ip_dst'', str ''10.10.10.1''), (''ip_src'', str ''192.168.0.1''), (''ip_id'', num 105), (''ip_ttl'', num 64)]),
      assign ''exp_pkt'' (lib ''simple_tcp_packet'' [] [(''eth_dst'', str ''00:11:22:33:44:55''), (''eth_src'', str ROUTER_MAC),
        (''ip_dst'', str ''10.10.10.1''), (''ip_src'', str ''192.168.0.1''), (''ip_id'', num 105), (''ip_ttl'', num 63)]),
      assign ''pkt1'' (lib ''simple_tcp_packet'' [] [(''eth_dst'', str ROUTER_MAC), (''eth_src'', str ''00:22:22:22:22:22''),
        (''ip_dst'', str ''10.10.10.2''), (''ip_src'', str ''192.168.0.1''), (''ip_id'', num 105), (''ip_ttl'', num 64)]),
      assign ''exp_pkt1'' (lib ''simple_tcp_packet'' [] [(''eth_dst'', str ''00:22:22:33:44:55''), (''eth_src'', str
        ROUTER_MAC), (''ip_dst'', str ''10.10.10.2''), (''ip_src'', str ''192.168.0.1''), (''ip_id'', num 105), (''ip_ttl'', num
        63)]),
      assign ''pkt2'' (lib ''simple_tcp_packet'' [] [(''eth_dst'', str ROUTER_MAC), (''eth_src'', str ''00:22:22:22:22:22''),
        (''ip_dst'', str ''11.11.11.1''), (''ip_src'', str ''192.168.0.1''), (''ip_id'', num 105), (''ip_ttl'', num 64)]),
      assign ''exp_pkt2'' (lib ''simple_tcp_packet'' [] [(''eth_dst'', str ''00:44:22:33:44:55''), (''eth_src'', str
        ROUTER_MAC), (''ip_dst'', str ''11.11.11.1''), (''ip_src'', str ''192.168.0.1''), (''ip_id'', num 105), (''ip_ttl'', num
        63)]),
      try_finally [
        print [self ''dev_port10'', self ''dev_port24''],
        run (lib ''send_packet'' [self ''dev_port10'', var ''pkt''] []),
        run (lib ''verify_packets'' [var ''exp_pkt'', list_of [self ''dev_port24'']] []),
        set_self ''vlan100_rif_counter_out'' (add (self ''vlan100_rif_counter_out'') (num 1)),
        print [self ''dev_port10'', self ''dev_port25''],
        run (lib ''send_packet'' [self ''dev_port10'', var ''pkt1''] []),
        run (lib ''verify_packets'' [var ''exp_pkt1'', list_of [self ''dev_port25'']] []),
        set_self ''vlan100_rif_counter_out'' (add (self ''vlan100_rif_counter_out'') (num 1)),
        print [self ''dev_port24'', self ''dev_port10''],
        run (lib ''send_packet'' [self ''dev_port24'', var ''pkt2''] []),
        run (lib ''verify_packets'' [var ''exp_pkt2'', list_of [self ''dev_port10'']] []),
        set_self ''vlan100_rif_counter_in'' (add (self ''vlan100_rif_counter_in'') (num 1))] [
        run (api_remove ''fdb_entry'' (var ''fdb_entry1'')),
        run (api_remove ''fdb_entry'' (var ''fdb_entry2''))]]"

definition SviHostTest_tearDown :: "'d stmt" where
  "SviHostTest_tearDown = block [
      run (invoke [] L3SviTestHelper_tearDown)]"

definition SviHostVlanTaggingTest_setUp :: "'d stmt" where
  "SviHostVlanTaggingTest_setUp = block [
      run (invoke [] L3SviTestHelper_setUp)]"

definition SviHostVlanTaggingTest_runTest :: "'d stmt" where
  "SviHostVlanTaggingTest_runTest = block [
      assign ''mac_action'' (num SAI_PACKET_ACTION_FORWARD),
      assign ''port27_bp'' (api_create ''bridge_port'' [(''bridge_id'', self ''default_1q_bridge''), (''port_id'', self
        ''port27''), (''type'', num SAI_BRIDGE_PORT_TYPE_PORT), (''admin_state'', bool True)]),
      assign ''vlan_member103'' (api_create ''vlan_member'' [(''vlan_id'', self ''vlan100''), (''bridge_port_id'', var
        ''port27_bp''), (''vlan_tagging_mode'', num SAI_VLAN_TAGGING_MODE_TAGGED)]),
      assign ''fdb_entry'' (struct ''sai_thrift_fdb_entry_t'' [(''switch_id'', self ''switch_id''), (''mac_address'', str
        ''00:33:22:33:44:55''), (''bv_id'', self ''vlan100'')]),
      run (api_create_entry ''fdb_entry'' (var ''fdb_entry'') [(''type'', num SAI_FDB_ENTRY_TYPE_STATIC), (''bridge_port_id'',
        var ''port27_bp''), (''packet_action'', var ''mac_action'')]),
      assign ''pkt'' (lib ''simple_tcp_packet'' [] [(''eth_dst'', str ROUTER_MAC), (''eth_src'', str ''00:22:22:22:22:22''),
        (''ip_dst'', str ''10.10.10.3''), (''ip_src'', str ''192.168.0.1''), (''ip_id'', num 105), (''ip_ttl'', num 64)]),
      assign ''exp_pkt'' (lib ''simple_tcp_packet'' [] [(''eth_dst'', str ''00:33:22:33:44:55''), (''eth_src'', str ROUTER_MAC),
        (''ip_dst'', str ''10.10.10.3''), (''ip_src'', str ''192.168.0.1''), (''dl_vlan_enable'', bool True), (''vlan_vid'', num
        100), (''ip_id'', num 105), (''ip_ttl'', num 63), (''pktlen'', num 104)]),
      try_finally [
        print [self ''dev_port10'', self ''dev_port27''],
        run (lib ''send_packet'' [self ''dev_port10'', var ''pkt''] []),
        run (lib ''verify_packets'' [var ''exp_pkt'', list_of [self ''dev_port27'']] []),
        set_self ''vlan100_rif_counter_out'' (add (self ''vlan100_rif_counter_out'') (num 1))] [
        run (api_remove ''fdb_entry'' (var ''fdb_entry'')),
        run (api_remove ''vlan_member'' (var ''vlan_member103'')),
        run (api_remove ''bridge_port'' (var ''port27_bp''))]]"

definition SviHostVlanTaggingTest_tearDown :: "'d stmt" where
  "SviHostVlanTaggingTest_tearDown = block [
      run (invoke [] L3SviTestHelper_tearDown)]"

definition SviToSviRoutingTest_setUp :: "'d stmt" where
  "SviToSviRoutingTest_setUp = block [
      run (invoke [] L3SviTestHelper_setUp)]"

definition SviToSviRoutingTest_tearDown :: "'d stmt" where
  "SviToSviRoutingTest_tearDown = block [
      run (invoke [] L3SviTestHelper_tearDown)]"

definition SviIPv4HostPostRoutedFloodTest_setUp :: "'d stmt" where
  "SviIPv4HostPostRoutedFloodTest_setUp = block [
      run (invoke [] L3SviTestHelper_setUp)]"

definition SviIPv4HostPostRoutedFloodTest_runTest :: "'d stmt" where
  "SviIPv4HostPostRoutedFloodTest_runTest = block [
      assign ''mac_action'' (num SAI_PACKET_ACTION_FORWARD),
      assign ''pkt'' (lib ''simple_tcp_packet'' [] [(''eth_dst'', str ROUTER_MAC), (''eth_src'', str ''00:22:22:22:22:22''),
        (''ip_dst'', str ''10.10.10.1''), (''ip_src'', str ''192.168.0.1''), (''ip_id'', num 105), (''ip_ttl'', num 64)]),
      assign ''exp_pkt'' (lib ''simple_tcp_packet'' [] [(''eth_dst'', str ''00:11:22:33:44:55''), (''eth_src'', str ROUTER_MAC),
        (''ip_dst'', str ''10.10.10.1''), (''ip_src'', str ''192.168.0.1''), (''ip_id'', num 105), (''ip_ttl'', num 63)]),
      print [self ''dev_port10''],
      run (lib ''send_packet'' [self ''dev_port10'', var ''pkt''] []),
      run (lib ''verify_packets'' [var ''exp_pkt'', list_of [self ''dev_port24'', self ''dev_port25'', self ''dev_port26'']] []),
      set_self ''vlan100_rif_counter_out'' (add (self ''vlan100_rif_counter_out'') (num 3)),
      print [self ''dev_port24''],
      assign ''fdb_entry'' (struct ''sai_thrift_fdb_entry_t'' [(''switch_id'', self ''switch_id''), (''mac_address'', str
        ''00:11:22:33:44:55''), (''bv_id'', self ''vlan100'')]),
      run (api_create_entry ''fdb_entry'' (var ''fdb_entry'') [(''type'', num SAI_FDB_ENTRY_TYPE_STATIC), (''bridge_port_id'',
        self ''port24_bp''), (''packet_action'', var ''mac_action'')]),
      print [self ''dev_port10'', self ''dev_port24''],
      run (lib ''send_packet'' [self ''dev_port10'', var ''pkt''] []),
      run (lib ''verify_packets'' [var ''exp_pkt'', list_of [self ''dev_port24'']] []),
      set_self ''vlan100_rif_counter_out'' (add (self ''vlan100_rif_counter_out'') (num 1)),
      run (api_remove ''fdb_entry'' (var ''fdb_entry'')),
      print [self ''dev_port10''],
      run (lib ''send_packet'' [self ''dev_port10'', var ''pkt''] []),
      run (lib ''verify_packets'' [var ''exp_pkt'', list_of [self ''dev_port24'', self ''dev_port25'', self ''dev_port26'']] []),
      set_self ''vlan100_rif_counter_out'' (add (self ''vlan100_rif_counter_out'') (num 3))]"

definition SviIPv4HostPostRoutedFloodTest_tearDown :: "'d stmt" where
  "SviIPv4HostPostRoutedFloodTest_tearDown = block [
      run (invoke [] L3SviTestHelper_tearDown)]"

definition SviIPv6HostPostRoutedFloodTest_setUp :: "'d stmt" where
  "SviIPv6HostPostRoutedFloodTest_setUp = block [
      run (invoke [] L3SviTestHelper_setUp)]"

definition SviIPv6HostPostRoutedFloodTest_runTest :: "'d stmt" where
  "SviIPv6HostPostRoutedFloodTest_runTest = block [
      assign ''mac_action'' (num SAI_PACKET_ACTION_FORWARD),
      assign ''pkt'' (lib ''simple_tcpv6_packet'' [] [(''eth_dst'', str ROUTER_MAC), (''eth_src'', str ''00:22:22:22:22:22''),
        (''ipv6_dst'', str ''1234:5678:9abc:def0:4422:1133:5577:0000''), (''ipv6_src'', str ''2000::1''), (''ipv6_hlim'', num
        64)]),
      assign ''exp_pkt'' (lib ''simple_tcpv6_packet'' [] [(''eth_dst'', str ''00:11:22:33:44:55''), (''eth_src'', str
        ROUTER_MAC), (''ipv6_dst'', str ''1234:5678:9abc:def0:4422:1133:5577:0000''), (''ipv6_src'', str ''2000::1''),
        (''ipv6_hlim'', num 63)]),
      print [self ''dev_port10''],
      run (lib ''send_packet'' [self ''dev_port10'', var ''pkt''] []),
      run (lib ''verify_packets'' [var ''exp_pkt'', list_of [self ''dev_port24'', self ''dev_port25'', self ''dev_port26'']] []),
      set_self ''vlan100_rif_counter_out'' (add (self ''vlan100_rif_counter_out'') (num 3)),
      print [self ''dev_port24''],
      assign ''fdb_entry'' (struct ''sai_thrift_fdb_entry_t'' [(''switch_id'', self ''switch_id''), (''mac_address'', str
        ''00:11:22:33:44:55''), (''bv_id'', self ''vlan100'')]),
      run (api_create_entry ''fdb_entry'' (var ''fdb_entry'') [(''type'', num SAI_FDB_ENTRY_TYPE_STATIC), (''bridge_port_id'',
        self ''port24_bp''), (''packet_action'', var ''mac_action'')]),
      print [self ''dev_port10'', self ''dev_port24''],
      run (lib ''send_packet'' [self ''dev_port10'', var ''pkt''] []),
      run (lib ''verify_packets'' [var ''exp_pkt'', list_of [self ''dev_port24'']] []),
      set_self ''vlan100_rif_counter_out'' (add (self ''vlan100_rif_counter_out'') (num 1)),
      run (api_remove ''fdb_entry'' (var ''fdb_entry'')),
      print [self ''dev_port10''],
      run (lib ''send_packet'' [self ''dev_port10'', var ''pkt''] []),
      run (lib ''verify_packets'' [var ''exp_pkt'', list_of [self ''dev_port24'', self ''dev_port25'', self ''dev_port26'']] []),
      set_self ''vlan100_rif_counter_out'' (add (self ''vlan100_rif_counter_out'') (num 3))]"

definition SviIPv6HostPostRoutedFloodTest_tearDown :: "'d stmt" where
  "SviIPv6HostPostRoutedFloodTest_tearDown = block [
      run (invoke [] L3SviTestHelper_tearDown)]"

definition SviIPv4HostStaticMacMoveTest_setUp :: "'d stmt" where
  "SviIPv4HostStaticMacMoveTest_setUp = block [
      run (invoke [] L3SviTestHelper_setUp)]"

definition SviIPv4HostStaticMacMoveTest_runTest :: "'d stmt" where
  "SviIPv4HostStaticMacMoveTest_runTest = block [
      assign ''mac_action'' (num SAI_PACKET_ACTION_FORWARD),
      assign ''fdb_entry'' (struct ''sai_thrift_fdb_entry_t'' [(''switch_id'', self ''switch_id''), (''mac_address'', str
        ''00:11:22:33:44:55''), (''bv_id'', self ''vlan100'')]),
      run (api_create_entry ''fdb_entry'' (var ''fdb_entry'') [(''type'', num SAI_FDB_ENTRY_TYPE_STATIC), (''bridge_port_id'',
        self ''port24_bp''), (''packet_action'', var ''mac_action'')]),
      assign ''pkt'' (lib ''simple_tcp_packet'' [] [(''eth_dst'', str ROUTER_MAC), (''eth_src'', str ''00:22:22:22:22:22''),
        (''ip_dst'', str ''10.10.10.1''), (''ip_src'', str ''192.168.0.1''), (''ip_id'', num 105), (''ip_ttl'', num 64)]),
      assign ''exp_pkt'' (lib ''simple_tcp_packet'' [] [(''eth_dst'', str ''00:11:22:33:44:55''), (''eth_src'', str ROUTER_MAC),
        (''ip_dst'', str ''10.10.10.1''), (''ip_src'', str ''192.168.0.1''), (''ip_id'', num 105), (''ip_ttl'', num 63)]),
      try_finally [
        print [self ''dev_port24''],
        print [self ''dev_port10'', self ''dev_port24''],
        run (lib ''send_packet'' [self ''dev_port10'', var ''pkt''] []),
        run (lib ''verify_packets'' [var ''exp_pkt'', list_of [self ''dev_port24'']] []),
        set_self ''vlan100_rif_counter_out'' (add (self ''vlan100_rif_counter_out'') (num 1)),
        print [self ''dev_port25'', self ''dev_port24''],
        run (api_set ''fdb_entry'' (var ''fdb_entry'') [(''bridge_port_id'', self ''port25_bp'')]),
        print [self ''dev_port10'', self ''dev_port25''],
        run (lib ''send_packet'' [self ''dev_port10'', var ''pkt''] []),
        run (lib ''verify_packets'' [var ''exp_pkt'', list_of [self ''dev_port25'']] []),
        set_self ''vlan100_rif_counter_out'' (add (self ''vlan100_rif_counter_out'') (num 1))] [
        run (api_remove ''fdb_entry'' (var ''fdb_entry''))]]"

definition SviIPv4HostStaticMacMoveTest_tearDown :: "'d stmt" where
  "SviIPv4HostStaticMacMoveTest_tearDown = block [
      run (invoke [] L3SviTestHelper_tearDown)]"

definition SviIPv6HostStaticMacMoveTest_setUp :: "'d stmt" where
  "SviIPv6HostStaticMacMoveTest_setUp = block [
      run (invoke [] L3SviTestHelper_setUp)]"

definition SviIPv6HostStaticMacMoveTest_runTest :: "'d stmt" where
  "SviIPv6HostStaticMacMoveTest_runTest = block [
      assign ''mac_action'' (num SAI_PACKET_ACTION_FORWARD),
      assign ''fdb_entry'' (struct ''sai_thrift_fdb_entry_t'' [(''switch_id'', self ''switch_id''), (''mac_address'', str
        ''00:11:22:33:44:55''), (''bv_id'', self ''vlan100'')]),
      run (api_create_entry ''fdb_entry'' (var ''fdb_entry'') [(''type'', num SAI_FDB_ENTRY_TYPE_STATIC), (''bridge_port_id'',
        self ''port24_bp''), (''packet_action'', var ''mac_action'')]),
      assign ''pkt'' (lib ''simple_tcpv6_packet'' [] [(''eth_dst'', str ROUTER_MAC), (''eth_src'', str ''00:22:22:22:22:22''),
        (''ipv6_dst'', str ''1234:5678:9abc:def0:4422:1133:5577:0000''), (''ipv6_src'', str ''2000::1''), (''ipv6_hlim'', num
        64)]),
      assign ''exp_pkt'' (lib ''simple_tcpv6_packet'' [] [(''eth_dst'', str ''00:11:22:33:44:55''), (''eth_src'', str
        ROUTER_MAC), (''ipv6_dst'', str ''1234:5678:9abc:def0:4422:1133:5577:0000''), (''ipv6_src'', str ''2000::1''),
        (''ipv6_hlim'', num 63)]),
      try_finally [
        print [self ''dev_port24''],
        print [self ''dev_port10'', self ''dev_port24''],
        run (lib ''send_packet'' [self ''dev_port10'', var ''pkt''] []),
        run (lib ''verify_packets'' [var ''exp_pkt'', list_of [self ''dev_port24'']] []),
        set_self ''vlan100_rif_counter_out'' (add (self ''vlan100_rif_counter_out'') (num 1)),
        print [self ''dev_port25'', self ''dev_port24''],
        run (api_set ''fdb_entry'' (var ''fdb_entry'') [(''bridge_port_id'', self ''port25_bp'')]),
        print [self ''dev_port10'', self ''dev_port25''],
        run (lib ''send_packet'' [self ''dev_port10'', var ''pkt''] []),
        run (lib ''verify_packets'' [var ''exp_pkt'', list_of [self ''dev_port25'']] []),
        set_self ''vlan100_rif_counter_out'' (add (self ''vlan100_rif_counter_out'') (num 1))] [
        run (api_remove ''fdb_entry'' (var ''fdb_entry''))]]"

definition SviIPv6HostStaticMacMoveTest_tearDown :: "'d stmt" where
  "SviIPv6HostStaticMacMoveTest_tearDown = block [
      run (invoke [] L3SviTestHelper_tearDown)]"

definition SviRouteDynamicMacTest_setUp :: "'d stmt" where
  "SviRouteDynamicMacTest_setUp = block [
      run (invoke [] L3SviTestHelper_setUp)]"

definition SviRouteDynamicMacTest_runTest :: "'d stmt" where
  "SviRouteDynamicMacTest_runTest = block [
      assign ''arp_pkt'' (lib ''simple_arp_packet'' [] [(''eth_dst'', str ''FF:FF:FF:FF:FF:FF''), (''eth_src'', str
        ''00:22:22:33:44:55''), (''arp_op'', num 1), (''ip_tgt'', str ''10.10.10.1''), (''ip_snd'', str ''10.10.10.2''),
        (''hw_snd'', str ''00:22:22:33:44:55''), (''pktlen'', num 100)]),
      assign ''arp_pkt2'' (lib ''simple_arp_packet'' [] [(''eth_dst'', str ''FF:FF:FF:FF:FF:FF''), (''eth_src'', str
        ''00:22:22:33:44:66''), (''arp_op'', num 1), (''ip_tgt'', str ''10.10.10.1''), (''ip_snd'', str ''10.10.10.12''),
        (''hw_snd'', str ''00:22:22:33:44:55''), (''pktlen'', num 100)]),
      assign ''pkt'' (lib ''simple_tcp_packet'' [] [(''eth_dst'', str ROUTER_MAC), (''eth_src'', str ''00:22:22:22:22:22''),
        (''ip_dst'', str ''10.10.10.2''), (''ip_src'', str ''192.168.0.1''), (''ip_id'', num 105), (''ip_ttl'', num 64)]),
      assign ''exp_pkt'' (lib ''simple_tcp_packet'' [] [(''eth_dst'', str ''00:22:22:33:44:55''), (''eth_src'', str ROUTER_MAC),
        (''ip_dst'', str ''10.10.10.2''), (''ip_src'', str ''192.168.0.1''), (''ip_id'', num 105), (''ip_ttl'', num 63)]),
      assign ''pkt2'' (lib ''simple_tcp_packet'' [] [(''eth_dst'', str ROUTER_MAC), (''eth_src'', str ''00:22:22:22:22:22''),
        (''ip_dst'', str ''10.10.10.12''), (''ip_src'', str ''192.168.0.1''), (''ip_id'', num 105), (''ip_ttl'', num 64)]),
      assign ''exp_pkt2'' (lib ''simple_tcp_packet'' [] [(''eth_dst'', str ''00:22:22:33:44:66''), (''eth_src'', str
        ROUTER_MAC), (''ip_dst'', str ''10.10.10.12''), (''ip_src'', str ''192.168.0.1''), (''ip_id'', num 105), (''ip_ttl'',
        num 63)]),
      try_finally [
        print [self ''dev_port25''],
        run (lib ''send_packet'' [self ''dev_port25'', var ''arp_pkt''] []),
        run (lib ''verify_packets'' [var ''arp_pkt'', list_of [self ''dev_port24'', self ''dev_port26'']] []),
        set_self ''vlan100_rif_counter_in'' (add (self ''vlan100_rif_counter_in'') (num 1)),
        set_self ''vlan100_rif_counter_out'' (add (self ''vlan100_rif_counter_out'') (num 2)),
        set_self ''vlan100_bcast_in'' (add (self ''vlan100_bcast_in'') (num 1)),
        set_self ''vlan100_bcast_out'' (add (self ''vlan100_bcast_out'') (num 2)),
        sleep_for (num 3),
        print [self ''dev_port25''],
        print [self ''dev_port10'', self ''dev_port25''],
        run (lib ''send_packet'' [self ''dev_port10'', var ''pkt''] []),
        run (lib ''verify_packets'' [var ''exp_pkt'', list_of [self ''dev_port25'']] []),
        set_self ''vlan100_rif_counter_out'' (add (self ''vlan100_rif_counter_out'') (num 1)),
        print [self ''dev_port25''],
        run (lib ''send_packet'' [self ''dev_port25'', var ''arp_pkt2''] []),
        run (lib ''verify_packets'' [var ''arp_pkt2'', list_of [self ''dev_port24'', self ''dev_port26'']] []),
        set_self ''vlan100_rif_counter_in'' (add (self ''vlan100_rif_counter_in'') (num 1)),
        set_self ''vlan100_rif_counter_out'' (add (self ''vlan100_rif_counter_out'') (num 2)),
        set_self ''vlan100_bcast_in'' (add (self ''vlan100_bcast_in'') (num 1)),
        set_self ''vlan100_bcast_out'' (add (self ''vlan100_bcast_out'') (num 2)),
        sleep_for (num 3),
        assign ''dmac'' (str ''00:22:22:33:44:66''),
        assign ''neighbor_entry'' (struct ''sai_thrift_neighbor_entry_t'' [(''rif_id'', self ''vlan100_rif''), (''ip_address'',
          ip_address (str ''10.10.0.12''))]),
        run (api_create_entry ''neighbor_entry'' (var ''neighbor_entry'') [(''dst_mac_address'', var ''dmac'')]),
        assign ''nhop'' (api_create ''next_hop'' [(''ip'', ip_address (str ''10.10.0.12'')), (''router_interface_id'', self
          ''vlan100_rif''), (''type'', num SAI_NEXT_HOP_TYPE_IP)]),
        assign ''route_entry'' (struct ''sai_thrift_route_entry_t'' [(''vr_id'', self ''default_vrf''), (''destination'',
          ip_prefix (str ''10.10.10.12/32''))]),
        run (api_create_entry ''route_entry'' (var ''route_entry'') [(''next_hop_id'', var ''nhop'')]),
        print [self ''dev_port25''],
        print [self ''dev_port10'', self ''dev_port25''],
        run (lib ''send_packet'' [self ''dev_port10'', var ''pkt2''] []),
        run (lib ''verify_packets'' [var ''exp_pkt2'', list_of [self ''dev_port25'']] []),
        set_self ''vlan100_rif_counter_out'' (add (self ''vlan100_rif_counter_out'') (num 1))] [
        run (api_remove ''route_entry'' (var ''route_entry'')),
        run (api_remove ''next_hop'' (var ''nhop'')),
        run (api_remove ''neighbor_entry'' (var ''neighbor_entry'')),
        run (lib ''sai_thrift_flush_fdb_entries'' [] [])]]"

definition SviRouteDynamicMacTest_tearDown :: "'d stmt" where
  "SviRouteDynamicMacTest_tearDown = block [
      run (invoke [] L3SviTestHelper_tearDown)]"

definition SviRouteDynamicMacMoveTest_setUp :: "'d stmt" where
  "SviRouteDynamicMacMoveTest_setUp = block [
      run (invoke [] L3SviTestHelper_setUp)]"

definition SviRouteDynamicMacMoveTest_runTest :: "'d stmt" where
  "SviRouteDynamicMacMoveTest_runTest = block [
      assign ''arp_pkt'' (lib ''simple_arp_packet'' [] [(''eth_dst'', str ''FF:FF:FF:FF:FF:FF''), (''eth_src'', str
        ''00:22:22:33:44:55''), (''arp_op'', num 1), (''ip_tgt'', str ''10.10.10.1''), (''ip_snd'', str ''10.10.10.2''),
        (''hw_snd'', str ''00:22:22:33:44:55''), (''pktlen'', num 100)]),
      assign ''pkt'' (lib ''simple_tcp_packet'' [] [(''eth_dst'', str ROUTER_MAC), (''eth_src'', str ''00:22:22:22:22:22''),
        (''ip_dst'', str ''10.10.10.2''), (''ip_src'', str ''192.168.0.1''), (''ip_id'', num 105), (''ip_ttl'', num 64)]),
      assign ''exp_pkt'' (lib ''simple_tcp_packet'' [] [(''eth_dst'', str ''00:22:22:33:44:55''), (''eth_src'', str ROUTER_MAC),
        (''ip_dst'', str ''10.10.10.2''), (''ip_src'', str ''192.168.0.1''), (''ip_id'', num 105), (''ip_ttl'', num 63)]),
      try_finally [
        print [self ''dev_port25''],
        run (lib ''send_packet'' [self ''dev_port25'', var ''arp_pkt''] []),
        run (lib ''verify_packets'' [var ''arp_pkt'', list_of [self ''dev_port24'', self ''dev_port26'']] []),
        set_self ''vlan100_rif_counter_in'' (add (self ''vlan100_rif_counter_in'') (num 1)),
        set_self ''vlan100_rif_counter_out'' (add (self ''vlan100_rif_counter_out'') (num 2)),
        set_self ''vlan100_bcast_in'' (add (self ''vlan100_bcast_in'') (num 1)),
        set_self ''vlan100_bcast_out'' (add (self ''vlan100_bcast_out'') (num 2)),
        sleep_for (num 3),
        print [self ''dev_port25''],
        print [self ''dev_port10'', self ''dev_port25''],
        run (lib ''send_packet'' [self ''dev_port10'', var ''pkt''] []),
        run (lib ''verify_packets'' [var ''exp_pkt'', list_of [self ''dev_port25'']] []),
        set_self ''vlan100_rif_counter_out'' (add (self ''vlan100_rif_counter_out'') (num 1)),
        print [self ''dev_port26''],
        run (lib ''send_packet'' [self ''dev_port26'', var ''arp_pkt''] []),
        run (lib ''verify_packets'' [var ''arp_pkt'', list_of [self ''dev_port24'', self ''dev_port25'']] []),
        set_self ''vlan100_rif_counter_in'' (add (self ''vlan100_rif_counter_in'') (num 1)),
        set_self ''vlan100_rif_counter_out'' (add (self ''vlan100_rif_counter_out'') (num 2)),
        set_self ''vlan100_bcast_in'' (add (self ''vlan100_bcast_in'') (num 1)),
        set_self ''vlan100_bcast_out'' (add (self ''vlan100_bcast_out'') (num 2)),
        sleep_for (num 3),
        print [self ''dev_port25''],
        print [self ''dev_port10'', self ''dev_port26''],
        assign ''pkt'' (lib ''set_field'' [var ''pkt'', str ''IP'', str ''dst'', str ''10.10.10.2''] []),
        assign ''exp_pkt'' (lib ''set_field'' [var ''exp_pkt'', str ''IP'', str ''dst'', str ''10.10.10.2''] []),
        run (lib ''send_packet'' [self ''dev_port10'', var ''pkt''] []),
        run (lib ''verify_packets'' [var ''exp_pkt'', list_of [self ''dev_port26'']] []),
        set_self ''vlan100_rif_counter_out'' (add (self ''vlan100_rif_counter_out'') (num 1))] [
        run (lib ''sai_thrift_flush_fdb_entries'' [] [])]]"

definition SviRouteDynamicMacMoveTest_tearDown :: "'d stmt" where
  "SviRouteDynamicMacMoveTest_tearDown = block [
      run (invoke [] L3SviTestHelper_tearDown)]"

definition SviIPv4ArpMoveTest_setUp :: "'d stmt" where
  "SviIPv4ArpMoveTest_setUp = block [
      run (invoke [] L3SviTestHelper_setUp)]"

definition SviIPv4ArpMoveTest_runTest :: "'d stmt" where
  "SviIPv4ArpMoveTest_runTest = block [
      assign ''arp_pkt1'' (lib ''simple_arp_packet'' [] [(''eth_dst'', str ''FF:FF:FF:FF:FF:FF''), (''eth_src'', str
        ''00:22:22:33:44:55''), (''arp_op'', num 1), (''ip_tgt'', str ''10.10.10.1''), (''ip_snd'', str ''10.10.10.2''),
        (''hw_snd'', str ''00:22:22:33:44:55''), (''pktlen'', num 100)]),
      assign ''arp_pkt2'' (lib ''simple_arp_packet'' [] [(''eth_dst'', str ''FF:FF:FF:FF:FF:FF''), (''eth_src'', str
        ''00:22:22:33:44:66''), (''arp_op'', num 1), (''ip_tgt'', str ''10.10.10.1''), (''ip_snd'', str ''10.10.10.2''),
        (''hw_snd'', str ''00:22:22:33:44:66''), (''pktlen'', num 100)]),
      assign ''pkt'' (lib ''simple_tcp_packet'' [] [(''eth_dst'', str ROUTER_MAC), (''eth_src'', str ''00:22:22:22:22:22''),
        (''ip_dst'', str ''10.10.10.2''), (''ip_src'', str ''192.168.0.1''), (''ip_id'', num 105), (''ip_ttl'', num 64)]),
      assign ''exp_pkt1'' (lib ''simple_tcp_packet'' [] [(''eth_dst'', str ''00:22:22:33:44:55''), (''eth_src'', str
        ROUTER_MAC), (''ip_dst'', str ''10.10.10.2''), (''ip_src'', str ''192.168.0.1''), (''ip_id'', num 105), (''ip_ttl'', num
        63)]),
      assign ''exp_pkt2'' (lib ''simple_tcp_packet'' [] [(''eth_dst'', str ''00:22:22:33:44:66''), (''eth_src'', str
        ROUTER_MAC), (''ip_dst'', str ''10.10.10.2''), (''ip_src'', str ''192.168.0.1''), (''ip_id'', num 105), (''ip_ttl'', num
        63)]),
      try_finally [
        print [self ''dev_port25''],
        run (lib ''send_packet'' [self ''dev_port25'', var ''arp_pkt1''] []),
        run (lib ''verify_packets'' [var ''arp_pkt1'', list_of [self ''dev_port24'', self ''dev_port26'']] []),
        set_self ''vlan100_rif_counter_in'' (add (self ''vlan100_rif_counter_in'') (num 1)),
        set_self ''vlan100_rif_counter_out'' (add (self ''vlan100_rif_counter_out'') (num 2)),
        set_self ''vlan100_bcast_in'' (add (self ''vlan100_bcast_in'') (num 1)),
        set_self ''vlan100_bcast_out'' (add (self ''vlan100_bcast_out'') (num 2)),
        print [self ''dev_port26''],
        run (lib ''send_packet'' [self ''dev_port26'', var ''arp_pkt2''] []),
        run (lib ''verify_packets'' [var ''arp_pkt2'', list_of [self ''dev_port24'', self ''dev_port25'']] []),
        set_self ''vlan100_rif_counter_in'' (add (self ''vlan100_rif_counter_in'') (num 1)),
        set_self ''vlan100_rif_counter_out'' (add (self ''vlan100_rif_counter_out'') (num 2)),
        set_self ''vlan100_bcast_in'' (add (self ''vlan100_bcast_in'') (num 1)),
        set_self ''vlan100_bcast_out'' (add (self ''vlan100_bcast_out'') (num 2)),
        sleep_for (num 3),
        print [self ''dev_port10'', self ''dev_port25''],
        run (lib ''send_packet'' [self ''dev_port10'', var ''pkt''] []),
        run (lib ''verify_packets'' [var ''exp_pkt1'', list_of [self ''dev_port25'']] []),
        set_self ''vlan100_rif_counter_out'' (add (self ''vlan100_rif_counter_out'') (num 1)),
        run (api_set ''neighbor_entry'' (self ''neighbor_entry2'') [(''dst_mac_address'', str ''00:22:22:33:44:66'')]),
        print [self ''dev_port10'', self ''dev_port26''],
        run (lib ''send_packet'' [self ''dev_port10'', var ''pkt''] []),
        run (lib ''verify_packets'' [var ''exp_pkt2'', list_of [self ''dev_port26'']] []),
        set_self ''vlan100_rif_counter_out'' (add (self ''vlan100_rif_counter_out'') (num 1)),
        run (api_set ''neighbor_entry'' (self ''neighbor_entry2'') [(''dst_mac_address'', str ''00:22:22:33:44:55'')]),
        print [self ''dev_port10'', self ''dev_port25''],
        run (lib ''send_packet'' [self ''dev_port10'', var ''pkt''] []),
        run (lib ''verify_packets'' [var ''exp_pkt1'', list_of [self ''dev_port25'']] []),
        set_self ''vlan100_rif_counter_out'' (add (self ''vlan100_rif_counter_out'') (num 1))] [
        run (lib ''sai_thrift_flush_fdb_entries'' [] [])]]"

definition SviIPv4ArpMoveTest_tearDown :: "'d stmt" where
  "SviIPv4ArpMoveTest_tearDown = block [
      run (invoke [] L3SviTestHelper_tearDown)]"

definition SviIPv6IcmpMoveTest_setUp :: "'d stmt" where
  "SviIPv6IcmpMoveTest_setUp = block [
      run (invoke [] L3SviTestHelper_setUp)]"

definition SviIPv6IcmpMoveTest_runTest :: "'d stmt" where
  "SviIPv6IcmpMoveTest_runTest = block [
      assign ''icmp_pkt1'' (lib ''simple_icmpv6_packet'' [] [(''eth_dst'', str ''33:33:00:FF:FF:FF''), (''eth_src'', str
        ''00:22:22:33:44:55''), (''ipv6_src'', str ''1234:5678:9abc:def0:4422:1133:5577:2222''), (''ipv6_dst'', str
        ''FF02::1''), (''ipv6_hlim'', num 64)]),
      assign ''icmp_pkt2'' (lib ''simple_icmpv6_packet'' [] [(''eth_dst'', str ''33:33:00:FF:FF:FF''), (''eth_src'', str
        ''00:22:22:33:44:66''), (''ipv6_src'', str ''1234:5678:9abc:def0:4422:1133:5577:2222''), (''ipv6_dst'', str
        ''FF02::1''), (''ipv6_hlim'', num 64)]),
      assign ''pkt'' (lib ''simple_tcpv6_packet'' [] [(''eth_dst'', str ROUTER_MAC), (''eth_src'', str ''00:22:22:22:22:22''),
        (''ipv6_dst'', str ''1234:5678:9abc:def0:4422:1133:5577:2222''), (''ipv6_src'', str ''2000::1''), (''ipv6_hlim'', num
        64)]),
      assign ''exp_pkt1'' (lib ''simple_tcpv6_packet'' [] [(''eth_dst'', str ''00:22:22:33:44:55''), (''eth_src'', str
        ROUTER_MAC), (''ipv6_dst'', str ''1234:5678:9abc:def0:4422:1133:5577:2222''), (''ipv6_src'', str ''2000::1''),
        (''ipv6_hlim'', num 63)]),
      assign ''exp_pkt2'' (lib ''simple_tcpv6_packet'' [] [(''eth_dst'', str ''00:22:22:33:44:66''), (''eth_src'', str
        ROUTER_MAC), (''ipv6_dst'', str ''1234:5678:9abc:def0:4422:1133:5577:2222''), (''ipv6_src'', str ''2000::1''),
        (''ipv6_hlim'', num 63)]),
      try_finally [
        print [self ''dev_port25''],
        run (lib ''send_packet'' [self ''dev_port25'', var ''icmp_pkt1''] []),
        run (lib ''verify_packets'' [var ''icmp_pkt1'', list_of [self ''dev_port24'', self ''dev_port26'']] []),
        set_self ''vlan100_rif_counter_in'' (add (self ''vlan100_rif_counter_in'') (num 1)),
        set_self ''vlan100_rif_counter_out'' (add (self ''vlan100_rif_counter_out'') (num 2)),
        set_self ''vlan100_bcast_in'' (add (self ''vlan100_bcast_in'') (num 1)),
        set_self ''vlan100_bcast_out'' (add (self ''vlan100_bcast_out'') (num 2)),
        print [self ''dev_port26''],
        run (lib ''send_packet'' [self ''dev_port26'', var ''icmp_pkt2''] []),
        run (lib ''verify_packets'' [var ''icmp_pkt2'', list_of [self ''dev_port24'', self ''dev_port25'']] []),
        set_self ''vlan100_rif_counter_in'' (add (self ''vlan100_rif_counter_in'') (num 1)),
        set_self ''vlan100_rif_counter_out'' (add (self ''vlan100_rif_counter_out'') (num 2)),
        set_self ''vlan100_bcast_in'' (add (self ''vlan100_bcast_in'') (num 1)),
        set_self ''vlan100_bcast_out'' (add (self ''vlan100_bcast_out'') (num 2)),
        sleep_for (num 3),
        print [self ''dev_port10'', self ''dev_port25''],
        run (lib ''send_packet'' [self ''dev_port10'', var ''pkt''] []),
        run (lib ''verify_packets'' [var ''exp_pkt1'', list_of [self ''dev_port25'']] []),
        set_self ''vlan100_rif_counter_out'' (add (self ''vlan100_rif_counter_out'') (num 1)),
        run (api_set ''neighbor_entry'' (self ''neighbor_entry2'') [(''dst_mac_address'', str ''00:22:22:33:44:66'')]),
        print [self ''dev_port10'', self ''dev_port26''],
        run (lib ''send_packet'' [self ''dev_port10'', var ''pkt''] []),
        run (lib ''verify_packets'' [var ''exp_pkt2'', list_of [self ''dev_port26'']] []),
        set_self ''vlan100_rif_counter_out'' (add (self ''vlan100_rif_counter_out'') (num 1)),
        run (api_set ''neighbor_entry'' (self ''neighbor_entry2'') [(''dst_mac_address'', str ''00:22:22:33:44:55'')]),
        print [self ''dev_port10'', self ''dev_port25''],
        run (lib ''send_packet'' [self ''dev_port10'', var ''pkt''] []),
        run (lib ''verify_packets'' [var ''exp_pkt1'', list_of [self ''dev_port25'']] []),
        set_self ''vlan100_rif_counter_out'' (add (self ''vlan100_rif_counter_out'') (num 1))] [
        run (lib ''sai_thrift_flush_fdb_entries'' [] [])]]"

definition SviIPv6IcmpMoveTest_tearDown :: "'d stmt" where
  "SviIPv6IcmpMoveTest_tearDown = block [
      run (invoke [] L3SviTestHelper_tearDown)]"

definition SviLagHostTest_setUp :: "'d stmt" where
  "SviLagHostTest_setUp = block [
      run (invoke [] L3SviTestHelper_setUp)]"

definition SviLagHostTest_runTest :: "'d stmt" where
  "SviLagHostTest_runTest = block [
      assign ''mac_action'' (num SAI_PACKET_ACTION_FORWARD),
      assign ''fdb_entry1'' (struct ''sai_thrift_fdb_entry_t'' [(''switch_id'', self ''switch_id''), (''mac_address'', str
        ''00:11:33:33:44:55''), (''bv_id'', self ''vlan200'')]),
      run (api_create_entry ''fdb_entry'' (var ''fdb_entry1'') [(''type'', num SAI_FDB_ENTRY_TYPE_STATIC), (''bridge_port_id'',
        self ''lag10_bp''), (''packet_action'', var ''mac_action'')]),
      assign ''fdb_entry2'' (struct ''sai_thrift_fdb_entry_t'' [(''switch_id'', self ''switch_id''), (''mac_address'', str
        ''00:22:33:33:44:55''), (''bv_id'', self ''vlan200'')]),
      run (api_create_entry ''fdb_entry'' (var ''fdb_entry2'') [(''type'', num SAI_FDB_ENTRY_TYPE_STATIC), (''bridge_port_id'',
        self ''lag11_bp''), (''packet_action'', var ''mac_action'')]),
      assign ''pkt'' (lib ''simple_tcp_packet'' [] [(''eth_dst'', str ROUTER_MAC), (''eth_src'', str ''00:22:22:22:22:22''),
        (''ip_dst'', str ''20.10.10.1''), (''ip_src'', str ''192.168.0.1''), (''ip_id'', num 105), (''ip_ttl'', num 64)]),
      assign ''exp_pkt'' (lib ''simple_tcp_packet'' [] [(''eth_dst'', str ''00:11:33:33:44:55''), (''eth_src'', str ROUTER_MAC),
        (''ip_dst'', str ''20.10.10.1''), (''ip_src'', str ''192.168.0.1''), (''ip_id'', num 105), (''ip_ttl'', num 63)]),
      assign ''pkt1'' (lib ''simple_tcp_packet'' [] [(''eth_dst'', str ROUTER_MAC), (''eth_src'', str ''00:22:22:22:22:22''),
        (''ip_dst'', str ''20.10.10.2''), (''ip_src'', str ''192.168.0.1''), (''ip_id'', num 105), (''ip_ttl'', num 64)]),
      assign ''exp_pkt1'' (lib ''simple_tcp_packet'' [] [(''eth_dst'', str ''00:22:33:33:44:55''), (''eth_src'', str
        ROUTER_MAC), (''ip_dst'', str ''20.10.10.2''), (''ip_src'', str ''192.168.0.1''), (''ip_id'', num 105), (''ip_ttl'', num
        63)]),
      assign ''pkt2'' (lib ''simple_tcp_packet'' [] [(''eth_dst'', str ROUTER_MAC), (''eth_src'', str ''00:22:22:22:22:22''),
        (''ip_dst'', str ''21.11.11.1''), (''ip_src'', str ''192.168.0.1''), (''ip_id'', num 105), (''ip_ttl'', num 64)]),
      assign ''exp_pkt2'' (lib ''simple_tcp_packet'' [] [(''eth_dst'', str ''00:44:33:33:44:55''), (''eth_src'', str
        ROUTER_MAC), (''ip_dst'', str ''21.11.11.1''), (''ip_src'', str ''192.168.0.1''), (''ip_id'', num 105), (''ip_ttl'', num
        63)]),
      try_finally [
        print [self ''dev_port11''],
        run (lib ''send_packet'' [self ''dev_port11'', var ''pkt''] []),
        run (lib ''verify_packet_any_port'' [var ''exp_pkt'', list_of [self ''dev_port30'', self ''dev_port31'']] []),
        set_self ''vlan200_rif_counter_out'' (add (self ''vlan200_rif_counter_out'') (num 1)),
        print [self ''dev_port11''],
        run (lib ''send_packet'' [self ''dev_port11'', var ''pkt1''] []),
        run (lib ''verify_packet_any_port'' [var ''exp_pkt1'', list_of [self ''dev_port28'', self ''dev_port29'']] []),
        set_self ''vlan200_rif_counter_out'' (add (self ''vlan200_rif_counter_out'') (num 1)),
        print [self ''dev_port15'', self ''dev_port11''],
        run (lib ''send_packet'' [self ''dev_port30'', var ''pkt2''] []),
        run (lib ''verify_packet'' [var ''exp_pkt2'', self ''dev_port11''] []),
        set_self ''vlan200_rif_counter_in'' (add (self ''vlan200_rif_counter_in'') (num 1)),
        print [self ''dev_port16'', self ''dev_port11''],
        run (lib ''send_packet'' [self ''dev_port31'', var ''pkt2''] []),
        run (lib ''verify_packet'' [var ''exp_pkt2'', self ''dev_port11''] []),
        set_self ''vlan200_rif_counter_in'' (add (self ''vlan200_rif_counter_in'') (num 1))] [
        run (lib ''sai_thrift_flush_fdb_entries'' [] [(''entry_type'', num SAI_FDB_FLUSH_ENTRY_TYPE_ALL)])]]"

definition SviLagHostTest_tearDown :: "'d stmt" where
  "SviLagHostTest_tearDown = block [
      run (invoke [] L3SviTestHelper_tearDown)]"

definition SviIPv4LagHostStaticMacMoveTest_setUp :: "'d stmt" where
  "SviIPv4LagHostStaticMacMoveTest_setUp = block [
      run (invoke [] L3SviTestHelper_setUp)]"

definition SviIPv4LagHostStaticMacMoveTest_runTest :: "'d stmt" where
  "SviIPv4LagHostStaticMacMoveTest_runTest = block [
      assign ''mac_action'' (num SAI_PACKET_ACTION_FORWARD),
      assign ''fdb_entry'' (struct ''sai_thrift_fdb_entry_t'' [(''switch_id'', self ''switch_id''), (''mac_address'', str
        ''00:11:33:33:44:55''), (''bv_id'', self ''vlan200'')]),
      run (api_create_entry ''fdb_entry'' (var ''fdb_entry'') [(''type'', num SAI_FDB_ENTRY_TYPE_STATIC), (''bridge_port_id'',
        self ''lag10_bp''), (''packet_action'', var ''mac_action'')]),
      assign ''pkt'' (lib ''simple_tcp_packet'' [] [(''eth_dst'', str ROUTER_MAC), (''eth_src'', str ''00:22:22:22:22:22''),
        (''ip_dst'', str ''20.10.10.1''), (''ip_src'', str ''192.168.0.1''), (''ip_id'', num 105), (''ip_ttl'', num 64)]),
      assign ''exp_pkt'' (lib ''simple_tcp_packet'' [] [(''eth_dst'', str ''00:11:33:33:44:55''), (''eth_src'', str ROUTER_MAC),
        (''ip_dst'', str ''20.10.10.1''), (''ip_src'', str ''192.168.0.1''), (''ip_id'', num 105), (''ip_ttl'', num 63)]),
      try_finally [
        print [self ''dev_port11''],
        run (lib ''send_packet'' [self ''dev_port11'', var ''pkt''] []),
        run (lib ''verify_packet_any_port'' [var ''exp_pkt'', list_of [self ''dev_port30'', self ''dev_port31'']] []),
        set_self ''vlan200_rif_counter_out'' (add (self ''vlan200_rif_counter_out'') (num 1)),
        run (api_set ''fdb_entry'' (var ''fdb_entry'') [(''bridge_port_id'', self ''lag11_bp'')]),
        print [self ''dev_port11''],
        run (lib ''send_packet'' [self ''dev_port11'', var ''pkt''] []),
        run (lib ''verify_packet_any_port'' [var ''exp_pkt'', list_of [self ''dev_port28'', self ''dev_port29'']] []),
        set_self ''vlan200_rif_counter_out'' (add (self ''vlan200_rif_counter_out'') (num 1))] [
        run (api_remove ''fdb_entry'' (var ''fdb_entry''))]]"

definition SviIPv4LagHostStaticMacMoveTest_tearDown :: "'d stmt" where
  "SviIPv4LagHostStaticMacMoveTest_tearDown = block [
      run (invoke [] L3SviTestHelper_tearDown)]"

definition SviIPv6LagHostStaticMacMoveTest_setUp :: "'d stmt" where
  "SviIPv6LagHostStaticMacMoveTest_setUp = block [
      run (invoke [] L3SviTestHelper_setUp)]"

definition SviIPv6LagHostStaticMacMoveTest_runTest :: "'d stmt" where
  "SviIPv6LagHostStaticMacMoveTest_runTest = block [
      assign ''mac_action'' (num SAI_PACKET_ACTION_FORWARD),
      assign ''fdb_entry'' (struct ''sai_thrift_fdb_entry_t'' [(''switch_id'', self ''switch_id''), (''mac_address'', str
        ''00:11:33:33:44:55''), (''bv_id'', self ''vlan200'')]),
      run (api_create_entry ''fdb_entry'' (var ''fdb_entry'') [(''type'', num SAI_FDB_ENTRY_TYPE_STATIC), (''bridge_port_id'',
        self ''lag10_bp''), (''packet_action'', var ''mac_action'')]),
      assign ''pkt'' (lib ''simple_tcpv6_packet'' [] [(''eth_dst'', str ROUTER_MAC), (''eth_src'', str ''00:22:22:22:22:22''),
        (''ipv6_dst'', str ''1234:5678:9abc:def0:4422:1133:5577:99aa''), (''ipv6_src'', str ''2000::1''), (''ipv6_hlim'', num
        64)]),
      assign ''exp_pkt'' (lib ''simple_tcpv6_packet'' [] [(''eth_dst'', str ''00:11:33:33:44:55''), (''eth_src'', str
        ROUTER_MAC), (''ipv6_dst'', str ''1234:5678:9abc:def0:4422:1133:5577:99aa''), (''ipv6_src'', str ''2000::1''),
        (''ipv6_hlim'', num 63)]),
      try_finally [
        print [self ''dev_port11''],
        run (lib ''send_packet'' [self ''dev_port11'', var ''pkt''] []),
        run (lib ''verify_packet_any_port'' [var ''exp_pkt'', list_of [self ''dev_port30'', self ''dev_port31'']] []),
        set_self ''vlan200_rif_counter_out'' (add (self ''vlan200_rif_counter_out'') (num 1)),
        run (api_set ''fdb_entry'' (var ''fdb_entry'') [(''bridge_port_id'', self ''lag11_bp'')]),
        print [self ''dev_port11''],
        run (lib ''send_packet'' [self ''dev_port11'', var ''pkt''] []),
        run (lib ''verify_packet_any_port'' [var ''exp_pkt'', list_of [self ''dev_port28'', self ''dev_port29'']] []),
        set_self ''vlan200_rif_counter_out'' (add (self ''vlan200_rif_counter_out'') (num 1))] [
        run (api_remove ''fdb_entry'' (var ''fdb_entry''))]]"

definition SviIPv6LagHostStaticMacMoveTest_tearDown :: "'d stmt" where
  "SviIPv6LagHostStaticMacMoveTest_tearDown = block [
      run (invoke [] L3SviTestHelper_tearDown)]"

definition SviLagHostDynamicMacTest_setUp :: "'d stmt" where
  "SviLagHostDynamicMacTest_setUp = block [
      run (invoke [] L3SviTestHelper_setUp)]"

definition SviLagHostDynamicMacTest_runTest :: "'d stmt" where
  "SviLagHostDynamicMacTest_runTest = block [
      assign ''arp_pkt'' (lib ''simple_arp_packet'' [] [(''eth_dst'', str ''FF:FF:FF:FF:FF:FF''), (''eth_src'', str
        ''00:22:33:33:44:55''), (''arp_op'', num 1), (''ip_tgt'', str ''20.10.10.1''), (''ip_snd'', str ''20.10.10.2''),
        (''hw_snd'', str ''00:22:22:33:44:55''), (''pktlen'', num 100)]),
      assign ''pkt'' (lib ''simple_tcp_packet'' [] [(''eth_dst'', str ROUTER_MAC), (''eth_src'', str ''00:22:22:22:22:22''),
        (''ip_dst'', str ''20.10.10.2''), (''ip_src'', str ''192.168.0.1''), (''ip_id'', num 105), (''ip_ttl'', num 64)]),
      assign ''exp_pkt'' (lib ''simple_tcp_packet'' [] [(''eth_dst'', str ''00:22:33:33:44:55''), (''eth_src'', str ROUTER_MAC),
        (''ip_dst'', str ''20.10.10.2''), (''ip_src'', str ''192.168.0.1''), (''ip_id'', num 105), (''ip_ttl'', num 63)]),
      try_finally [
        print [self ''dev_port30''],
        run (lib ''send_packet'' [self ''dev_port30'', var ''arp_pkt''] []),
        run (lib ''verify_packet_any_port'' [var ''arp_pkt'', list_of [self ''dev_port28'', self ''dev_port29'']] []),
        set_self ''vlan200_rif_counter_in'' (add (self ''vlan200_rif_counter_in'') (num 1)),
        set_self ''vlan200_rif_counter_out'' (add (self ''vlan200_rif_counter_out'') (num 1)),
        set_self ''vlan200_bcast_in'' (add (self ''vlan200_bcast_in'') (num 1)),
        set_self ''vlan200_bcast_out'' (add (self ''vlan200_bcast_out'') (num 1)),
        sleep_for (num 3),
        print [self ''dev_port11''],
        run (lib ''send_packet'' [self ''dev_port11'', var ''pkt''] []),
        run (lib ''verify_packet_any_port'' [var ''exp_pkt'', list_of [self ''dev_port30'', self ''dev_port31'']] []),
        set_self ''vlan200_rif_counter_out'' (add (self ''vlan200_rif_counter_out'') (num 1))] [
        run (lib ''sai_thrift_flush_fdb_entries'' [] [])]]"

definition SviLagHostDynamicMacTest_tearDown :: "'d stmt" where
  "SviLagHostDynamicMacTest_tearDown = block [
      run (invoke [] L3SviTestHelper_tearDown)]"

definition SviIPv4LagHostDynamicMacMoveTest_setUp :: "'d stmt" where
  "SviIPv4LagHostDynamicMacMoveTest_setUp = block [
      run (invoke [] L3SviTestHelper_setUp)]"

definition SviIPv4LagHostDynamicMacMoveTest_runTest :: "'d stmt" where
  "SviIPv4LagHostDynamicMacMoveTest_runTest = block [
      assign ''arp_pkt'' (lib ''simple_arp_packet'' [] [(''eth_dst'', str ''FF:FF:FF:FF:FF:FF''), (''eth_src'', str
        ''00:22:33:33:44:55''), (''arp_op'', num 1), (''ip_tgt'', str ''20.10.10.1''), (''ip_snd'', str ''20.10.10.2''),
        (''hw_snd'', str ''00:22:22:33:44:55''), (''pktlen'', num 100)]),
      assign ''pkt'' (lib ''simple_tcp_packet'' [] [(''eth_dst'', str ROUTER_MAC), (''eth_src'', str ''00:22:22:22:22:22''),
        (''ip_dst'', str ''20.10.10.2''), (''ip_src'', str ''192.168.0.1''), (''ip_id'', num 105), (''ip_ttl'', num 64)]),
      assign ''exp_pkt'' (lib ''simple_tcp_packet'' [] [(''eth_dst'', str ''00:22:33:33:44:55''), (''eth_src'', str ROUTER_MAC),
        (''ip_dst'', str ''20.10.10.2''), (''ip_src'', str ''192.168.0.1''), (''ip_id'', num 105), (''ip_ttl'', num 63)]),
      try_finally [
        print [self ''dev_port30''],
        run (lib ''send_packet'' [self ''dev_port30'', var ''arp_pkt''] []),
        run (lib ''verify_packet_any_port'' [var ''arp_pkt'', list_of [self ''dev_port28'', self ''dev_port29'']] []),
        set_self ''vlan200_rif_counter_in'' (add (self ''vlan200_rif_counter_in'') (num 1)),
        set_self ''vlan200_rif_counter_out'' (add (self ''vlan200_rif_counter_out'') (num 1)),
        set_self ''vlan200_bcast_in'' (add (self ''vlan200_bcast_in'') (num 1)),
        set_self ''vlan200_bcast_out'' (add (self ''vlan200_bcast_out'') (num 1)),
        sleep_for (num 3),
        print [self ''dev_port11''],
        run (lib ''send_packet'' [self ''dev_port11'', var ''pkt''] []),
        run (lib ''verify_packet_any_port'' [var ''exp_pkt'', list_of [self ''dev_port30'', self ''dev_port31'']] []),
        set_self ''vlan200_rif_counter_out'' (add (self ''vlan200_rif_counter_out'') (num 1)),
        print [self ''dev_port28''],
        run (lib ''send_packet'' [self ''dev_port28'', var ''arp_pkt''] []),
        run (lib ''verify_packet_any_port'' [var ''arp_pkt'', list_of [self ''dev_port30'', self ''dev_port31'']] []),
        set_self ''vlan200_rif_counter_in'' (add (self ''vlan200_rif_counter_in'') (num 1)),
        set_self ''vlan200_rif_counter_out'' (add (self ''vlan200_rif_counter_out'') (num 1)),
        set_self ''vlan200_bcast_in'' (add (self ''vlan200_bcast_in'') (num 1)),
        set_self ''vlan200_bcast_out'' (add (self ''vlan200_bcast_out'') (num 1)),
        sleep_for (num 3),
        print [self ''dev_port11''],
        run (lib ''send_packet'' [self ''dev_port11'', var ''pkt''] []),
        run (lib ''verify_packet_any_port'' [var ''exp_pkt'', list_of [self ''dev_port28'', self ''dev_port29'']] []),
        set_self ''vlan200_rif_counter_out'' (add (self ''vlan200_rif_counter_out'') (num 1))] [
        run (lib ''sai_thrift_flush_fdb_entries'' [] [])]]"

definition SviIPv4LagHostDynamicMacMoveTest_tearDown :: "'d stmt" where
  "SviIPv4LagHostDynamicMacMoveTest_tearDown = block [
      run (invoke [] L3SviTestHelper_tearDown)]"

definition SviIPv6LagHostDynamicMacMoveTest_setUp :: "'d stmt" where
  "SviIPv6LagHostDynamicMacMoveTest_setUp = block [
      run (invoke [] L3SviTestHelper_setUp)]"

definition SviIPv6LagHostDynamicMacMoveTest_runTest :: "'d stmt" where
  "SviIPv6LagHostDynamicMacMoveTest_runTest = block [
      assign ''icmp_pkt'' (lib ''simple_icmpv6_packet'' [] [(''eth_dst'', str ''33:33:00:FF:FF:FF''), (''eth_src'', str
        ''00:22:33:33:44:55''), (''ipv6_src'', str ''1234:5678:9abc:def0:1122:3344:5566:7788''), (''ipv6_dst'', str
        ''FF02::1''), (''ipv6_hlim'', num 64)]),
      assign ''pkt'' (lib ''simple_tcpv6_packet'' [] [(''eth_dst'', str ROUTER_MAC), (''eth_src'', str ''00:22:22:22:22:22''),
        (''ipv6_dst'', str ''1234:5678:9abc:def0:1122:3344:5566:7788''), (''ipv6_src'', str ''2000::1''), (''ipv6_hlim'', num
        64)]),
      assign ''exp_pkt'' (lib ''simple_tcpv6_packet'' [] [(''eth_dst'', str ''00:22:33:33:44:55''), (''eth_src'', str
        ROUTER_MAC), (''ipv6_dst'', str ''1234:5678:9abc:def0:1122:3344:5566:7788''), (''ipv6_src'', str ''2000::1''),
        (''ipv6_hlim'', num 63)]),
      try_finally [
        print [self ''dev_port30''],
        run (lib ''send_packet'' [self ''dev_port30'', var ''icmp_pkt''] []),
        run (lib ''verify_packet_any_port'' [var ''icmp_pkt'', list_of [self ''dev_port28'', self ''dev_port29'']] []),
        set_self ''vlan200_rif_counter_in'' (add (self ''vlan200_rif_counter_in'') (num 1)),
        set_self ''vlan200_rif_counter_out'' (add (self ''vlan200_rif_counter_out'') (num 1)),
        set_self ''vlan200_bcast_in'' (add (self ''vlan200_bcast_in'') (num 1)),
        set_self ''vlan200_bcast_out'' (add (self ''vlan200_bcast_out'') (num 1)),
        sleep_for (num 3),
        print [self ''dev_port11''],
        run (lib ''send_packet'' [self ''dev_port11'', var ''pkt''] []),
        run (lib ''verify_packet_any_port'' [var ''exp_pkt'', list_of [self ''dev_port30'', self ''dev_port31'']] []),
        set_self ''vlan200_rif_counter_out'' (add (self ''vlan200_rif_counter_out'') (num 1)),
        print [self ''dev_port28''],
        run (lib ''send_packet'' [self ''dev_port28'', var ''icmp_pkt''] []),
        run (lib ''verify_packet_any_port'' [var ''icmp_pkt'', list_of [self ''dev_port30'', self ''dev_port31'']] []),
        set_self ''vlan200_rif_counter_in'' (add (self ''vlan200_rif_counter_in'') (num 1)),
        set_self ''vlan200_rif_counter_out'' (add (self ''vlan200_rif_counter_out'') (num 1)),
        set_self ''vlan200_bcast_in'' (add (self ''vlan200_bcast_in'') (num 1)),
        set_self ''vlan200_bcast_out'' (add (self ''vlan200_bcast_out'') (num 1)),
        sleep_for (num 3),
        print [self ''dev_port11''],
        run (lib ''send_packet'' [self ''dev_port11'', var ''pkt''] []),
        run (lib ''verify_packet_any_port'' [var ''exp_pkt'', list_of [self ''dev_port28'', self ''dev_port29'']] []),
        set_self ''vlan200_rif_counter_out'' (add (self ''vlan200_rif_counter_out'') (num 1))] [
        run (lib ''sai_thrift_flush_fdb_entries'' [] [])]]"

definition SviIPv6LagHostDynamicMacMoveTest_tearDown :: "'d stmt" where
  "SviIPv6LagHostDynamicMacMoveTest_tearDown = block [
      run (invoke [] L3SviTestHelper_tearDown)]"

definition SviIPv4MtuTest_setUp :: "'d stmt" where
  "SviIPv4MtuTest_setUp = block [
      run (invoke [] L3SviTestHelper_setUp)]"

definition SviIPv4MtuTest_runTest :: "'d stmt" where
  "SviIPv4MtuTest_runTest = block [
      run (api_set ''router_interface'' (self ''vlan100_rif'') [(''mtu'', num 200)]),
      try_finally [
        assign ''mac_action'' (num SAI_PACKET_ACTION_FORWARD),
        assign ''fdb_entry'' (struct ''sai_thrift_fdb_entry_t'' [(''switch_id'', self ''switch_id''), (''mac_address'', str
          ''00:11:22:33:44:55''), (''bv_id'', self ''vlan100'')]),
        run (api_create_entry ''fdb_entry'' (var ''fdb_entry'') [(''type'', num SAI_FDB_ENTRY_TYPE_STATIC), (''bridge_port_id'',
          self ''port24_bp''), (''packet_action'', var ''mac_action'')]),
        assign ''pkt'' (lib ''simple_tcp_packet'' [] [(''eth_dst'', str ROUTER_MAC), (''eth_src'', str ''00:22:22:22:22:22''),
          (''ip_dst'', str ''10.10.10.1''), (''ip_id'', num 105), (''ip_ttl'', num 64), (''pktlen'', add (num 199) (num 14))]),
        assign ''exp_pkt'' (lib ''simple_tcp_packet'' [] [(''eth_dst'', str ''00:11:22:33:44:55''), (''eth_src'', str
          ROUTER_MAC), (''ip_dst'', str ''10.10.10.1''), (''ip_id'', num 105), (''ip_ttl'', num 63), (''pktlen'', add (num 199)
          (num 14))]),
        print [self ''dev_port10'', self ''dev_port24''],
        run (lib ''send_packet'' [self ''dev_port10'', var ''pkt''] []),
        run (lib ''verify_packet'' [var ''exp_pkt'', self ''dev_port24''] []),
        set_self ''vlan100_rif_counter_out'' (add (self ''vlan100_rif_counter_out'') (num 1)),
        assign ''pkt'' (lib ''simple_tcp_packet'' [] [(''eth_dst'', str ROUTER_MAC), (''eth_src'', str ''00:22:22:22:22:22''),
          (''ip_dst'', str ''10.10.10.1''), (''ip_id'', num 105), (''ip_ttl'', num 64), (''pktlen'', add (num 200) (num 14))]),
        assign ''exp_pkt'' (lib ''simple_tcp_packet'' [] [(''eth_dst'', str ''00:11:22:33:44:55''), (''eth_src'', str
          ROUTER_MAC), (''ip_dst'', str ''10.10.10.1''), (''ip_id'', num 105), (''ip_ttl'', num 63), (''pktlen'', add (num 200)
          (num 14))]),
        print [self ''dev_port10'', self ''dev_port24''],
        run (lib ''send_packet'' [self ''dev_port10'', var ''pkt''] []),
        run (lib ''verify_packet'' [var ''exp_pkt'', self ''dev_port24''] []),
        set_self ''vlan100_rif_counter_out'' (add (self ''vlan100_rif_counter_out'') (num 1)),
        assign ''pkt'' (lib ''simple_tcp_packet'' [] [(''eth_dst'', str ROUTER_MAC), (''eth_src'', str ''00:22:22:22:22:22''),
          (''ip_dst'', str ''10.10.10.1''), (''ip_id'', num 105), (''ip_ttl'', num 64), (''pktlen'', add (num 201) (num 14))]),
        assign ''exp_pkt'' (lib ''simple_tcp_packet'' [] [(''eth_dst'', str ''00:11:22:33:44:55''), (''eth_src'', str
          ROUTER_MAC), (''ip_dst'', str ''10.10.10.1''), (''ip_id'', num 105), (''ip_ttl'', num 63), (''pktlen'', add (num 201)
          (num 14))]),
        print [self ''dev_port10''],
        run (lib ''send_packet'' [self ''dev_port10'', var ''pkt''] []),
        run (lib ''verify_no_other_packets'' [] [(''timeout'', num 1)]),
        set_self ''vlan100_rif_counter_out'' (add (self ''vlan100_rif_counter_out'') (num 1)),
        run (api_set ''router_interface'' (self ''vlan100_rif'') [(''mtu'', num 201)]),
        print [self ''dev_port10'', self ''dev_port24''],
        run (lib ''send_packet'' [self ''dev_port10'', var ''pkt''] []),
        run (lib ''verify_packet'' [var ''exp_pkt'', self ''dev_port24''] []),
        set_self ''vlan100_rif_counter_out'' (add (self ''vlan100_rif_counter_out'') (num 1)),
        assign ''pkt'' (lib ''simple_tcp_packet'' [] [(''eth_dst'', str ROUTER_MAC), (''eth_src'', str ''00:22:22:22:22:22''),
          (''ip_dst'', str ''10.10.10.1''), (''ip_id'', num 105), (''ip_ttl'', num 64), (''pktlen'', add (num 202) (num 14))]),
        assign ''exp_pkt'' (lib ''simple_tcp_packet'' [] [(''eth_dst'', str ''00:11:22:33:44:55''), (''eth_src'', str
          ROUTER_MAC), (''ip_dst'', str ''10.10.10.1''), (''ip_id'', num 105), (''ip_ttl'', num 63), (''pktlen'', add (num 202)
          (num 14))]),
        print [self ''dev_port10''],
        run (lib ''send_packet'' [self ''dev_port10'', var ''pkt''] []),
        run (lib ''verify_no_other_packets'' [] [(''timeout'', num 1)]),
        set_self ''vlan100_rif_counter_out'' (add (self ''vlan100_rif_counter_out'') (num 1))] [
        run (api_remove ''fdb_entry'' (var ''fdb_entry''))]]"

definition SviIPv4MtuTest_tearDown :: "'d stmt" where
  "SviIPv4MtuTest_tearDown = block [
      run (invoke [] L3SviTestHelper_tearDown)]"

definition SviIPv6MtuTest_setUp :: "'d stmt" where
  "SviIPv6MtuTest_setUp = block [
      run (invoke [] L3SviTestHelper_setUp)]"

definition SviIPv6MtuTest_runTest :: "'d stmt" where
  "SviIPv6MtuTest_runTest = block [
      run (api_set ''router_interface'' (self ''vlan200_rif'') [(''mtu'', num 200)]),
      try_finally [
        assign ''mac_action'' (num SAI_PACKET_ACTION_FORWARD),
        assign ''fdb_entry'' (struct ''sai_thrift_fdb_entry_t'' [(''switch_id'', self ''switch_id''), (''mac_address'', str
          ''00:11:33:33:44:55''), (''bv_id'', self ''vlan200'')]),
        run (api_create_entry ''fdb_entry'' (var ''fdb_entry'') [(''type'', num SAI_FDB_ENTRY_TYPE_STATIC), (''bridge_port_id'',
          self ''lag10_bp''), (''packet_action'', var ''mac_action'')]),
        assign ''pkt'' (lib ''simple_tcpv6_packet'' [] [(''eth_dst'', str ROUTER_MAC), (''eth_src'', str ''00:22:22:22:22:22''),
          (''ipv6_dst'', str ''1234:5678:9abc:def0:4422:1133:5577:99aa''), (''ipv6_src'', str ''2000::1''), (''ipv6_hlim'', num
          64), (''pktlen'', add (add (num 199) (num 14)) (num 40))]),
        assign ''exp_pkt'' (lib ''simple_tcpv6_packet'' [] [(''eth_dst'', str ''00:11:33:33:44:55''), (''eth_src'', str
          ROUTER_MAC), (''ipv6_dst'', str ''1234:5678:9abc:def0:4422:1133:5577:99aa''), (''ipv6_src'', str ''2000::1''),
          (''ipv6_hlim'', num 63), (''pktlen'', add (add (num 199) (num 14)) (num 40))]),
        print [self ''dev_port11''],
        run (lib ''send_packet'' [self ''dev_port11'', var ''pkt''] []),
        run (lib ''verify_packet_any_port'' [var ''exp_pkt'', list_of [self ''dev_port30'', self ''dev_port31'']] []),
        set_self ''vlan200_rif_counter_out'' (add (self ''vlan200_rif_counter_out'') (num 1)),
        assign ''pkt'' (lib ''simple_tcpv6_packet'' [] [(''eth_dst'', str ROUTER_MAC), (''eth_src'', str ''00:22:22:22:22:22''),
          (''ipv6_dst'', str ''1234:5678:9abc:def0:4422:1133:5577:99aa''), (''ipv6_src'', str ''2000::1''), (''ipv6_hlim'', num
          64), (''pktlen'', add (add (num 200) (num 14)) (num 40))]),
        assign ''exp_pkt'' (lib ''simple_tcpv6_packet'' [] [(''eth_dst'', str ''00:11:33:33:44:55''), (''eth_src'', str
          ROUTER_MAC), (''ipv6_dst'', str ''1234:5678:9abc:def0:4422:1133:5577:99aa''), (''ipv6_src'', str ''2000::1''),
          (''ipv6_hlim'', num 63), (''pktlen'', add (add (num 200) (num 14)) (num 40))]),
        print [self ''dev_port11''],
        run (lib ''send_packet'' [self ''dev_port11'', var ''pkt''] []),
        run (lib ''verify_packet_any_port'' [var ''exp_pkt'', list_of [self ''dev_port30'', self ''dev_port31'']] []),
        set_self ''vlan200_rif_counter_out'' (add (self ''vlan200_rif_counter_out'') (num 1)),
        assign ''pkt'' (lib ''simple_tcpv6_packet'' [] [(''eth_dst'', str ROUTER_MAC), (''eth_src'', str ''00:22:22:22:22:22''),
          (''ipv6_dst'', str ''1234:5678:9abc:def0:4422:1133:5577:99aa''), (''ipv6_src'', str ''2000::1''), (''ipv6_hlim'', num
          64), (''pktlen'', add (add (num 201) (num 14)) (num 40))]),
        assign ''exp_pkt'' (lib ''simple_tcpv6_packet'' [] [(''eth_dst'', str ''00:11:33:33:44:55''), (''eth_src'', str
          ROUTER_MAC), (''ipv6_dst'', str ''1234:5678:9abc:def0:4422:1133:5577:99aa''), (''ipv6_src'', str ''2000::1''),
          (''ipv6_hlim'', num 63), (''pktlen'', add (add (num 201) (num 14)) (num 40))]),
        print [self ''dev_port11''],
        run (lib ''send_packet'' [self ''dev_port11'', var ''pkt''] []),
        run (lib ''verify_no_other_packets'' [] [(''timeout'', num 1)]),
        set_self ''vlan200_rif_counter_out'' (add (self ''vlan200_rif_counter_out'') (num 1)),
        run (api_set ''router_interface'' (self ''vlan200_rif'') [(''mtu'', num 201)]),
        print [self ''dev_port11''],
        run (lib ''send_packet'' [self ''dev_port11'', var ''pkt''] []),
        run (lib ''verify_packet_any_port'' [var ''exp_pkt'', list_of [self ''dev_port30'', self ''dev_port31'']] []),
        set_self ''vlan200_rif_counter_out'' (add (self ''vlan200_rif_counter_out'') (num 1)),
        assign ''pkt'' (lib ''simple_tcpv6_packet'' [] [(''eth_dst'', str ROUTER_MAC), (''eth_src'', str ''00:22:22:22:22:22''),
          (''ipv6_dst'', str ''1234:5678:9abc:def0:4422:1133:5577:99aa''), (''ipv6_src'', str ''2000::1''), (''ipv6_hlim'', num
          64), (''pktlen'', add (add (num 202) (num 14)) (num 40))]),
        assign ''exp_pkt'' (lib ''simple_tcpv6_packet'' [] [(''eth_dst'', str ''00:11:33:33:44:55''), (''eth_src'', str
          ROUTER_MAC), (''ipv6_dst'', str ''1234:5678:9abc:def0:4422:1133:5577:99aa''), (''ipv6_src'', str ''2000::1''),
          (''ipv6_hlim'', num 63), (''pktlen'', add (add (num 202) (num 14)) (num 40))]),
        print [self ''dev_port11''],
        run (lib ''send_packet'' [self ''dev_port11'', var ''pkt''] []),
        run (lib ''verify_no_other_packets'' [] [(''timeout'', num 1)]),
        set_self ''vlan200_rif_counter_out'' (add (self ''vlan200_rif_counter_out'') (num 1))] [
        run (api_remove ''fdb_entry'' (var ''fdb_entry''))]]"

definition SviIPv6MtuTest_tearDown :: "'d stmt" where
  "SviIPv6MtuTest_tearDown = block [
      run (invoke [] L3SviTestHelper_tearDown)]"

definition SviTaggingTest_setUp :: "'d stmt" where
  "SviTaggingTest_setUp = block [
      run (invoke [] L3SviTestHelper_setUp)]"

definition SviTaggingTest_runTest :: "'d stmt" where
  "SviTaggingTest_runTest = block [
      assign ''vlan_id'' (num 100),
      assign ''nhop_ip'' (str ''30.30.30.1''),
      assign ''dst_ip'' (str ''30.30.30.10''),
      assign ''src_ip'' (str ''10.10.10.10''),
      assign ''dst_mac'' (str ''00:12:34:56:78:90''),
      assign ''src_mac'' (str ''00:09:87:65:43:21''),
      assign ''untagged_port'' (self ''dev_port24''),
      assign ''tagged_port'' (self ''dev_port27''),
      assign ''test_erif'' (self ''port12_rif''),
      assign ''tag_pkt'' (lib ''simple_tcp_packet'' [] [(''eth_dst'', str ROUTER_MAC), (''eth_src'', var ''src_mac''),
        (''ip_dst'', var ''dst_ip''), (''ip_src'', var ''src_ip''), (''dl_vlan_enable'', bool True), (''vlan_vid'', add (var
        ''vlan_id'') (num 1)), (''ip_ttl'', num 64), (''pktlen'', num 104)]),
      try_finally [
        assign ''port27_bp'' (api_create ''bridge_port'' [(''bridge_id'', self ''default_1q_bridge''), (''port_id'', self
          ''port27''), (''type'', num SAI_BRIDGE_PORT_TYPE_PORT), (''admin_state'', bool True)]),
        assign ''vlan_member103'' (api_create ''vlan_member'' [(''vlan_id'', self ''vlan100''), (''bridge_port_id'', var
          ''port27_bp''), (''vlan_tagging_mode'', num SAI_VLAN_TAGGING_MODE_TAGGED)]),
        assign ''nbor'' (struct ''sai_thrift_neighbor_entry_t'' [(''rif_id'', var ''test_erif''), (''ip_address'', ip_address
          (var ''nhop_ip''))]),
        run (api_create_entry ''neighbor_entry'' (var ''nbor'') [(''dst_mac_address'', var ''dst_mac'')]),
        assign ''nhop'' (api_create ''next_hop'' [(''ip'', ip_address (var ''nhop_ip'')), (''router_interface_id'', var
          ''test_erif''), (''type'', num SAI_NEXT_HOP_TYPE_IP)]),
        assign ''route_entry'' (struct ''sai_thrift_route_entry_t'' [(''vr_id'', self ''default_vrf''), (''destination'',
          ip_prefix (add (var ''nhop_ip'') (str ''/24'')))]),
        run (api_create_entry ''route_entry'' (var ''route_entry'') [(''next_hop_id'', var ''nhop'')]),
        run (lib ''send_packet'' [var ''untagged_port'', var ''tag_pkt''] []),
        run (lib ''verify_no_other_packets'' [] []),
        run (lib ''send_packet'' [var ''tagged_port'', var ''tag_pkt''] []),
        run (lib ''verify_no_other_packets'' [] [])] [
        run (api_remove ''route_entry'' (var ''route_entry'')),
        run (api_remove ''next_hop'' (var ''nhop'')),
        run (api_remove ''neighbor_entry'' (var ''nbor'')),
        run (api_remove ''vlan_member'' (var ''vlan_member103'')),
        run (api_remove ''bridge_port'' (var ''port27_bp''))]]"

definition SviTaggingTest_tearDown :: "'d stmt" where
  "SviTaggingTest_tearDown = block [
      run (invoke [] L3SviTestHelper_tearDown)]"

definition SviMyIPTest_setUp :: "'d stmt" where
  "SviMyIPTest_setUp = block [
      run (invoke [] L3SviTestHelper_setUp)]"

definition SviMyIPTest_runTest :: "'d stmt" where
  "SviMyIPTest_runTest = block [
      assign ''vlan_id'' (num 10),
      assign ''test_vlan'' (self ''vlan10''),
      assign ''untagged_port'' (self ''dev_port0''),
      assign ''tagged_port'' (self ''dev_port1''),
      try_finally [
        assign ''vlan10_rif'' (api_create ''router_interface'' [(''type'', num SAI_ROUTER_INTERFACE_TYPE_VLAN),
          (''virtual_router_id'', self ''default_vrf''), (''vlan_id'', var ''test_vlan'')]),
        assign ''sw_attr'' (api_get ''switch'' none [(''cpu_port'', bool True)]),
        assign ''cpu_port'' (item (var ''sw_attr'') (str ''cpu_port'')),
        assign ''ip2me_route'' (struct ''sai_thrift_route_entry_t'' [(''vr_id'', self ''default_vrf''), (''destination'',
          ip_prefix (str ''10.10.20.1/32''))]),
        run (api_create_entry ''route_entry'' (var ''ip2me_route'') [(''next_hop_id'', var ''cpu_port'')]),
        assign ''myip_trap_group'' (api_create ''hostif_trap_group'' [(''admin_state'', bool True), (''queue'', num 4)]),
        assign ''myip_trap'' (api_create ''hostif_trap'' [(''trap_group'', var ''myip_trap_group''), (''packet_action'', num
          SAI_PACKET_ACTION_TRAP), (''trap_type'', num SAI_HOSTIF_TRAP_TYPE_IP2ME)]),
        assert (ne (var ''myip_trap'') (num 0)),
        assign ''pkt'' (lib ''simple_tcp_packet'' [] [(''eth_dst'', str ROUTER_MAC), (''eth_src'', str ''00:22:22:22:22:22''),
          (''ip_dst'', str ''10.10.20.1''), (''ip_src'', str ''30.30.0.1''), (''ip_id'', num 105), (''ip_ttl'', num 64),
          (''pktlen'', num 100)]),
        assign ''pre_stats'' (query ''sai_thrift_get_queue_stats'' [self ''cpu_queue4''] []),
        run (lib ''send_packet'' [var ''untagged_port'', var ''pkt''] []),
        sleep_for (num 4),
        assign ''post_stats'' (query ''sai_thrift_get_queue_stats'' [self ''cpu_queue4''] []),
        assert_eq (item (var ''post_stats'') (str ''SAI_QUEUE_STAT_PACKETS'')) (add (item (var ''pre_stats'') (str
          ''SAI_QUEUE_STAT_PACKETS'')) (num 1)),
        assign ''pkt'' (lib ''simple_tcp_packet'' [] [(''eth_dst'', str ROUTER_MAC), (''eth_src'', str ''00:22:22:22:22:22''),
          (''ip_dst'', str ''10.10.20.1''), (''ip_src'', str ''30.30.0.1''), (''dl_vlan_enable'', bool True), (''vlan_vid'', var
          ''vlan_id''), (''ip_id'', num 105), (''ip_ttl'', num 64), (''pktlen'', num 100)]),
        assign ''pre_stats'' (query ''sai_thrift_get_queue_stats'' [self ''cpu_queue4''] []),
        run (lib ''send_packet'' [var ''tagged_port'', var ''pkt''] []),
        sleep_for (num 4),
        assign ''post_stats'' (query ''sai_thrift_get_queue_stats'' [self ''cpu_queue4''] []),
        assert_eq (item (var ''post_stats'') (str ''SAI_QUEUE_STAT_PACKETS'')) (add (item (var ''pre_stats'') (str
          ''SAI_QUEUE_STAT_PACKETS'')) (num 1))] [
        run (api_remove ''hostif_trap'' (var ''myip_trap'')),
        run (api_remove ''hostif_trap_group'' (var ''myip_trap_group'')),
        run (api_remove ''route_entry'' (var ''ip2me_route'')),
        run (api_remove ''router_interface'' (var ''vlan10_rif''))]]"

definition SviMyIPTest_tearDown :: "'d stmt" where
  "SviMyIPTest_tearDown = block [
      run (invoke [] L3SviTestHelper_tearDown)]"

definition SviStatsTest_setUp :: "'d stmt" where
  "SviStatsTest_setUp = block [
      run (invoke [] L3SviTestHelper_setUp)]"

definition SviStatsTest_runTest :: "'d stmt" where
  "SviStatsTest_runTest = block [
      assign ''vlan100_rif_stats'' (query ''sai_thrift_get_router_interface_stats'' [self ''vlan100_rif''] []),
      assign ''vlan200_rif_stats'' (query ''sai_thrift_get_router_interface_stats'' [self ''vlan200_rif''] []),
      assign ''vlan100_stats'' (query ''sai_thrift_get_vlan_stats'' [self ''vlan100''] []),
      assign ''vlan200_stats'' (query ''sai_thrift_get_vlan_stats'' [self ''vlan200''] []),
      assert (eq (self ''vlan100_rif_counter_in'') (item (var ''vlan100_rif_stats'') (str
        ''SAI_ROUTER_INTERFACE_STAT_IN_PACKETS''))),
      assert (eq (self ''vlan100_rif_counter_out'') (item (var ''vlan100_rif_stats'') (str
        ''SAI_ROUTER_INTERFACE_STAT_OUT_PACKETS''))),
      assert (eq (self ''vlan200_rif_counter_in'') (item (var ''vlan200_rif_stats'') (str
        ''SAI_ROUTER_INTERFACE_STAT_IN_PACKETS''))),
      assert (eq (self ''vlan200_rif_counter_out'') (item (var ''vlan200_rif_stats'') (str
        ''SAI_ROUTER_INTERFACE_STAT_OUT_PACKETS''))),
      assert (eq (self ''vlan100_bcast_in'') (item (var ''vlan100_stats'') (str ''SAI_VLAN_STAT_IN_NON_UCAST_PKTS''))),
      assert (eq (self ''vlan100_bcast_out'') (item (var ''vlan100_stats'') (str ''SAI_VLAN_STAT_OUT_NON_UCAST_PKTS''))),
      assert (eq (sub (self ''vlan100_rif_counter_in'') (self ''vlan100_bcast_in'')) (item (var ''vlan100_stats'') (str
        ''SAI_VLAN_STAT_IN_UCAST_PKTS''))),
      assert (eq (sub (self ''vlan100_rif_counter_out'') (self ''vlan100_bcast_out'')) (item (var ''vlan100_stats'') (str
        ''SAI_VLAN_STAT_OUT_UCAST_PKTS''))),
      assert (eq (self ''vlan200_bcast_in'') (item (var ''vlan200_stats'') (str ''SAI_VLAN_STAT_IN_NON_UCAST_PKTS''))),
      assert (eq (self ''vlan200_bcast_out'') (item (var ''vlan200_stats'') (str ''SAI_VLAN_STAT_OUT_NON_UCAST_PKTS''))),
      assert (eq (sub (self ''vlan200_rif_counter_in'') (self ''vlan200_bcast_in'')) (item (var ''vlan200_stats'') (str
        ''SAI_VLAN_STAT_IN_UCAST_PKTS''))),
      assert (eq (sub (self ''vlan200_rif_counter_out'') (self ''vlan200_bcast_out'')) (item (var ''vlan200_stats'') (str
        ''SAI_VLAN_STAT_OUT_UCAST_PKTS'')))]"

definition SviStatsTest_tearDown :: "'d stmt" where
  "SviStatsTest_tearDown = block [
      run (invoke [] L3SviTestHelper_tearDown)]"

definition IncorrectVlanIdTest_setUp :: "'d stmt" where
  "IncorrectVlanIdTest_setUp = block [
      run (invoke [] L3SviTestHelper_setUp)]"

definition IncorrectVlanIdTest_runTest :: "'d stmt" where
  "IncorrectVlanIdTest_runTest = block [
      try_finally [
        assign ''vlan_rif'' (api_create ''router_interface'' [(''type'', num SAI_ROUTER_INTERFACE_TYPE_VLAN),
          (''virtual_router_id'', self ''default_vrf''), (''vlan_id'', num 0)]),
        assert (no (ne (var ''vlan_rif'') (num 0)))] [
        if_else (var ''vlan_rif'') [
          run (api_remove ''router_interface'' (var ''vlan_rif''))] []]]"

definition IncorrectVlanIdTest_tearDown :: "'d stmt" where
  "IncorrectVlanIdTest_tearDown = block [
      run (invoke [] L3SviTestHelper_tearDown)]"

definition DuplicateVlanRifCreationTest_setUp :: "'d stmt" where
  "DuplicateVlanRifCreationTest_setUp = block [
      run (invoke [] L3SviTestHelper_setUp)]"

definition DuplicateVlanRifCreationTest_runTest :: "'d stmt" where
  "DuplicateVlanRifCreationTest_runTest = block [
      assign ''existing_rif_vlan'' (self ''vlan30''),
      try_finally [
        assign ''dupl_vlan_rif'' (api_create ''router_interface'' [(''type'', num SAI_ROUTER_INTERFACE_TYPE_VLAN),
          (''virtual_router_id'', self ''default_vrf''), (''vlan_id'', var ''existing_rif_vlan'')]),
        assert (no (ne (var ''dupl_vlan_rif'') (num 0)))] [
        if_else (var ''dupl_vlan_rif'') [
          run (api_remove ''router_interface'' (var ''dupl_vlan_rif''))] []]]"

definition DuplicateVlanRifCreationTest_tearDown :: "'d stmt" where
  "DuplicateVlanRifCreationTest_tearDown = block [
      run (invoke [] L3SviTestHelper_tearDown)]"

definition SviArpReplyTest_setUp :: "'d stmt" where
  "SviArpReplyTest_setUp = block [
      run (invoke [] L3SviTestHelper_setUp)]"

definition SviArpReplyTest_tearDown :: "'d stmt" where
  "SviArpReplyTest_tearDown = block [
      run (invoke [] L3SviTestHelper_tearDown)]"

definition L3MtuTrapTestHelper_setUp :: "'d stmt" where
  "L3MtuTrapTestHelper_setUp = block [
      super_setUp,
      set_self ''port10_rif_counter_in'' (num 0),
      set_self ''port10_rif_counter_out'' (num 0),
      set_self ''port11_rif_counter_in'' (num 0),
      set_self ''port11_rif_counter_out'' (num 0),
      set_self ''lag1_rif_counter_in'' (num 0),
      set_self ''lag1_rif_counter_out'' (num 0),
      set_self ''subport10_100_in'' (num 0),
      set_self ''subport10_100_out'' (num 0),
      set_self ''subport11_200_in'' (num 0),
      set_self ''subport11_200_out'' (num 0),
      set_self ''vlan100_rif_counter_in'' (num 0),
      set_self ''vlan100_rif_counter_out'' (num 0),
      assign ''dmac1'' (str ''00:11:22:33:44:55''),
      assign ''dmac3'' (str ''00:33:22:33:44:55''),
      set_self ''lag1_rif'' (api_create ''router_interface'' [(''type'', num SAI_ROUTER_INTERFACE_TYPE_PORT),
        (''virtual_router_id'', self ''default_vrf''), (''port_id'', self ''lag1'')]),
      set_self ''nhop1'' (api_create ''next_hop'' [(''ip'', ip_address (str ''10.10.10.2'')), (''router_interface_id'', self
        ''port10_rif''), (''type'', num SAI_NEXT_HOP_TYPE_IP)]),
      set_self ''neighbor_entry1'' (struct ''sai_thrift_neighbor_entry_t'' [(''rif_id'', self ''port10_rif''), (''ip_address'',
        ip_address (str ''10.10.10.2''))]),
      run (api_create_entry ''neighbor_entry'' (self ''neighbor_entry1'') [(''dst_mac_address'', var ''dmac1'')]),
      set_self ''neighbor_entry3'' (struct ''sai_thrift_neighbor_entry_t'' [(''rif_id'', self ''lag1_rif''), (''ip_address'',
        ip_address (str ''12.10.10.2''))]),
      run (api_create_entry ''neighbor_entry'' (self ''neighbor_entry3'') [(''dst_mac_address'', var ''dmac3'')]),
      set_self ''nhop3'' (api_create ''next_hop'' [(''ip'', ip_address (str ''12.10.10.2'')), (''router_interface_id'', self
        ''lag1_rif''), (''type'', num SAI_NEXT_HOP_TYPE_IP)]),
      set_self ''route_entry0'' (struct ''sai_thrift_route_entry_t'' [(''vr_id'', self ''default_vrf''), (''destination'',
        ip_prefix (str ''10.10.10.1/32''))]),
      run (api_create_entry ''route_entry'' (self ''route_entry0'') [(''next_hop_id'', self ''nhop1'')]),
      set_self ''route_entry0_lpm'' (struct ''sai_thrift_route_entry_t'' [(''vr_id'', self ''default_vrf''), (''destination'',
        ip_prefix (str ''11.11.11.0/24''))]),
      run (api_create_entry ''route_entry'' (self ''route_entry0_lpm'') [(''next_hop_id'', self ''nhop1'')]),
      set_self ''route_entry1'' (struct ''sai_thrift_route_entry_t'' [(''vr_id'', self ''default_vrf''), (''destination'',
        ip_prefix (str ''1234:5678:9abc:def0:4422:1133:5577:99aa/128''))]),
      run (api_create_entry ''route_entry'' (self ''route_entry1'') [(''next_hop_id'', self ''nhop1'')]),
      set_self ''route_entry1_lpm'' (struct ''sai_thrift_route_entry_t'' [(''vr_id'', self ''default_vrf''), (''destination'',
        ip_prefix (str ''4000::0/65''))]),
      run (api_create_entry ''route_entry'' (self ''route_entry1_lpm'') [(''next_hop_id'', self ''nhop1'')]),
      set_self ''route_lag0'' (struct ''sai_thrift_route_entry_t'' [(''vr_id'', self ''default_vrf''), (''destination'',
        ip_prefix (str ''12.10.10.1/32''))]),
      run (api_create_entry ''route_entry'' (self ''route_lag0'') [(''next_hop_id'', self ''nhop3'')]),
      set_self ''route_lag1'' (struct ''sai_thrift_route_entry_t'' [(''vr_id'', self ''default_vrf''), (''destination'',
        ip_prefix (str ''1234:5678:9abc:def0:1122:3344:5566:7788/128''))]),
      run (api_create_entry ''route_entry'' (self ''route_lag1'') [(''next_hop_id'', self ''nhop3'')]),
      set_self ''subport10_100'' (api_create ''router_interface'' [(''type'', num SAI_ROUTER_INTERFACE_TYPE_SUB_PORT),
        (''virtual_router_id'', self ''default_vrf''), (''port_id'', self ''port10''), (''admin_v4_state'', bool True),
        (''outer_vlan_id'', num 100)]),
      set_self ''nhop_sp10_100'' (api_create ''next_hop'' [(''ip'', ip_address (str ''20.20.0.10'')), (''router_interface_id'',
        self ''subport10_100''), (''type'', num SAI_NEXT_HOP_TYPE_IP)]),
      set_self ''neighbor_entry_sp10_100'' (struct ''sai_thrift_neighbor_entry_t'' [(''rif_id'', self ''subport10_100''),
        (''ip_address'', ip_address (str ''20.20.0.10''))]),
      run (api_create_entry ''neighbor_entry'' (self ''neighbor_entry_sp10_100'') [(''dst_mac_address'', str
        ''00:33:33:33:01:00'')]),
      set_self ''subport11_200'' (api_create ''router_interface'' [(''type'', num SAI_ROUTER_INTERFACE_TYPE_SUB_PORT),
        (''virtual_router_id'', self ''default_vrf''), (''port_id'', self ''port11''), (''admin_v4_state'', bool True),
        (''outer_vlan_id'', num 200)]),
      set_self ''nhop_sp11_200'' (api_create ''next_hop'' [(''ip'', ip_address (str ''20.20.1.20'')), (''router_interface_id'',
        self ''subport11_200''), (''type'', num SAI_NEXT_HOP_TYPE_IP)]),
      set_self ''neighbor_entry_sp11_200'' (struct ''sai_thrift_neighbor_entry_t'' [(''rif_id'', self ''subport11_200''),
        (''ip_address'', ip_address (str ''20.20.1.20''))]),
      run (api_create_entry ''neighbor_entry'' (self ''neighbor_entry_sp11_200'') [(''dst_mac_address'', str
        ''00:33:33:33:12:00'')]),
      set_self ''route_entry_sp10_100'' (struct ''sai_thrift_route_entry_t'' [(''vr_id'', self ''default_vrf''),
        (''destination'', ip_prefix (str ''40.40.0.10/32''))]),
      run (api_create_entry ''route_entry'' (self ''route_entry_sp10_100'') [(''next_hop_id'', self ''nhop_sp10_100'')]),
      set_self ''route_entry_sp10_100_ipv6'' (struct ''sai_thrift_route_entry_t'' [(''vr_id'', self ''default_vrf''),
        (''destination'', ip_prefix (str ''1234:5678:9abc:def0:4422:1133:5577:8899/128''))]),
      run (api_create_entry ''route_entry'' (self ''route_entry_sp10_100_ipv6'') [(''next_hop_id'', self ''nhop_sp10_100'')]),
      set_self ''route_entry_sp11_200'' (struct ''sai_thrift_route_entry_t'' [(''vr_id'', self ''default_vrf''),
        (''destination'', ip_prefix (str ''40.40.1.20/32''))]),
      run (api_create_entry ''route_entry'' (self ''route_entry_sp11_200'') [(''next_hop_id'', self ''nhop_sp11_200'')]),
      set_self ''port24_bp'' (api_create ''bridge_port'' [(''bridge_id'', self ''default_1q_bridge''), (''port_id'', self
        ''port24''), (''type'', num SAI_BRIDGE_PORT_TYPE_PORT), (''admin_state'', bool True)]),
      set_self ''port25_bp'' (api_create ''bridge_port'' [(''bridge_id'', self ''default_1q_bridge''), (''port_id'', self
        ''port25''), (''type'', num SAI_BRIDGE_PORT_TYPE_PORT), (''admin_state'', bool True)]),
      set_self ''vlan100'' (api_create ''vlan'' [(''vlan_id'', num 100)]),
      set_self ''vlan_member100'' (api_create ''vlan_member'' [(''vlan_id'', self ''vlan100''), (''bridge_port_id'', self
        ''port24_bp''), (''vlan_tagging_mode'', num SAI_VLAN_TAGGING_MODE_UNTAGGED)]),
      set_self ''vlan_member101'' (api_create ''vlan_member'' [(''vlan_id'', self ''vlan100''), (''bridge_port_id'', self
        ''port25_bp''), (''vlan_tagging_mode'', num SAI_VLAN_TAGGING_MODE_UNTAGGED)]),
      run (api_set ''port'' (self ''port24'') [(''port_vlan_id'', num 100)]),
      run (api_set ''port'' (self ''port25'') [(''port_vlan_id'', num 100)]),
      set_self ''vlan100_rif'' (api_create ''router_interface'' [(''type'', num SAI_ROUTER_INTERFACE_TYPE_VLAN),
        (''virtual_router_id'', self ''default_vrf''), (''vlan_id'', self ''vlan100'')]),
      set_self ''nhop100'' (api_create ''next_hop'' [(''ip'', ip_address (str ''10.10.0.1'')), (''router_interface_id'', self
        ''vlan100_rif''), (''type'', num SAI_NEXT_HOP_TYPE_IP)]),
      set_self ''neighbor_entry100'' (struct ''sai_thrift_neighbor_entry_t'' [(''rif_id'', self ''vlan100_rif''),
        (''ip_address'', ip_address (str ''10.10.0.1''))]),
      run (api_create_entry ''neighbor_entry'' (self ''neighbor_entry100'') [(''dst_mac_address'', var ''dmac1'')]),
      set_self ''route_entry100'' (struct ''sai_thrift_route_entry_t'' [(''vr_id'', self ''default_vrf''), (''destination'',
        ip_prefix (str ''10.10.0.100/32''))]),
      run (api_create_entry ''route_entry'' (self ''route_entry100'') [(''next_hop_id'', self ''nhop100'')]),
      set_self ''route_entry100_v6'' (struct ''sai_thrift_route_entry_t'' [(''vr_id'', self ''default_vrf''), (''destination'',
        ip_prefix (str ''1234:5678:9abc:def0:4422:1133:5577:0000/128''))]),
      run (api_create_entry ''route_entry'' (self ''route_entry100_v6'') [(''next_hop_id'', self ''nhop100'')])]"

definition L3MtuTrapTestHelper_tearDown :: "'d stmt" where
  "L3MtuTrapTestHelper_tearDown = block [
      run (api_remove ''route_entry'' (self ''route_entry100'')),
      run (api_remove ''route_entry'' (self ''route_entry100_v6'')),
      run (api_remove ''neighbor_entry'' (self ''neighbor_entry100'')),
      run (api_remove ''next_hop'' (self ''nhop100'')),
      run (api_remove ''router_interface'' (self ''vlan100_rif'')),
      run (api_set ''port'' (self ''port24'') [(''port_vlan_id'', num 0)]),
      run (api_set ''port'' (self ''port25'') [(''port_vlan_id'', num 0)]),
      run (api_remove ''vlan_member'' (self ''vlan_member100'')),
      run (api_remove ''vlan_member'' (self ''vlan_member101'')),
      run (api_remove ''vlan'' (self ''vlan100'')),
      run (api_remove ''bridge_port'' (self ''port24_bp'')),
      run (api_remove ''bridge_port'' (self ''port25_bp'')),
      run (api_remove ''route_entry'' (self ''route_entry_sp10_100'')),
      run (api_remove ''route_entry'' (self ''route_entry_sp10_100_ipv6'')),
      run (api_remove ''route_entry'' (self ''route_entry_sp11_200'')),
      run (api_remove ''neighbor_entry'' (self ''neighbor_entry_sp11_200'')),
      run (api_remove ''next_hop'' (self ''nhop_sp11_200'')),
      run (api_remove ''router_interface'' (self ''subport11_200'')),
      run (api_remove ''neighbor_entry'' (self ''neighbor_entry_sp10_100'')),
      run (api_remove ''next_hop'' (self ''nhop_sp10_100'')),
      run (api_remove ''router_interface'' (self ''subport10_100'')),
      run (api_remove ''route_entry'' (self ''route_entry0'')),
      run (api_remove ''route_entry'' (self ''route_entry0_lpm'')),
      run (api_remove ''route_entry'' (self ''route_entry1'')),
      run (api_remove ''route_entry'' (self ''route_entry1_lpm'')),
      run (api_remove ''route_entry'' (self ''route_lag0'')),
      run (api_remove ''route_entry'' (self ''route_lag1'')),
      run (api_remove ''next_hop'' (self ''nhop1'')),
      run (api_remove ''neighbor_entry'' (self ''neighbor_entry1'')),
      run (api_remove ''next_hop'' (self ''nhop3'')),
      run (api_remove ''neighbor_entry'' (self ''neighbor_entry3'')),
      run (api_remove ''router_interface'' (self ''lag1_rif'')),
      super_tearDown]"

definition Ipv4MtuTrapTest_setUp :: "'d stmt" where
  "Ipv4MtuTrapTest_setUp = block [
      run (invoke [] L3MtuTrapTestHelper_setUp)]"

definition Ipv4MtuTrapTest_runTest :: "'d stmt" where
  "Ipv4MtuTrapTest_runTest = block [
      assign ''mtu_port10_rif'' (api_get ''router_interface'' (self ''port10_rif'') [(''mtu'', bool True)]),
      assign ''mtu_lag1_rif'' (api_get ''router_interface'' (self ''lag1_rif'') [(''mtu'', bool True)]),
      run (api_set ''router_interface'' (self ''port10_rif'') [(''mtu'', num 200)]),
      run (api_set ''router_interface'' (self ''lag1_rif'') [(''mtu'', num 200)]),
      try_finally [
        assign ''trap_group'' (api_create ''hostif_trap_group'' [(''admin_state'', bool True), (''queue'', num 4)]),
        assign ''trap'' (api_create ''hostif_trap'' [(''trap_group'', var ''trap_group''), (''trap_type'', num
          SAI_HOSTIF_TRAP_TYPE_L3_MTU_ERROR), (''packet_action'', num SAI_PACKET_ACTION_TRAP)]),
        assign ''pkt'' (lib ''simple_tcp_packet'' [] [(''eth_dst'', str ROUTER_MAC), (''eth_src'', str ''00:22:22:22:22:22''),
          (''ip_dst'', str ''10.10.10.1''), (''ip_src'', str ''192.168.0.1''), (''ip_id'', num 105), (''ip_ttl'', num 64),
          (''pktlen'', add (num 200) (num 14))]),
        assign ''exp_pkt'' (lib ''simple_tcp_packet'' [] [(''eth_dst'', str ''00:11:22:33:44:55''), (''eth_src'', str
          ROUTER_MAC), (''ip_dst'', str ''10.10.10.1''), (''ip_src'', str ''192.168.0.1''), (''ip_id'', num 105), (''ip_ttl'',
          num 63), (''pktlen'', add (num 200) (num 14))]),
        print [self ''dev_port11'', self ''dev_port10''],
        run (lib ''send_packet'' [self ''dev_port11'', var ''pkt''] []),
        run (lib ''verify_packet'' [var ''exp_pkt'', self ''dev_port10''] []),
        set_self ''port11_rif_counter_in'' (add (self ''port11_rif_counter_in'') (num 1)),
        set_self ''port10_rif_counter_out'' (add (self ''port10_rif_counter_out'') (num 1)),
        assign ''pkt'' (lib ''set_field'' [var ''pkt'', str ''IP'', str ''dst'', str ''12.10.10.1''] []),
        assign ''exp_pkt'' (lib ''set_field'' [var ''exp_pkt'', str ''IP'', str ''dst'', str ''12.10.10.1''] []),
        assign ''exp_pkt'' (with_item (var ''exp_pkt'') (str ''Ethernet'') (with_field (item (var ''exp_pkt'') (str
          ''Ethernet'')) ''dst'' (str ''00:33:22:33:44:55''))),
        print [self ''dev_port11''],
        run (lib ''send_packet'' [self ''dev_port11'', var ''pkt''] []),
        run (lib ''verify_packet_any_port'' [var ''exp_pkt'', list_of [self ''dev_port4'', self ''dev_port5'', self
          ''dev_port6'']] []),
        set_self ''port11_rif_counter_in'' (add (self ''port11_rif_counter_in'') (num 1)),
        set_self ''lag1_rif_counter_out'' (add (self ''lag1_rif_counter_out'') (num 1)),
        assign ''pkt'' (lib ''simple_tcp_packet'' [] [(''eth_dst'', str ROUTER_MAC), (''eth_src'', str ''00:22:22:22:22:22''),
          (''ip_dst'', str ''10.10.10.1''), (''ip_src'', str ''192.168.0.1''), (''ip_id'', num 105), (''ip_ttl'', num 64),
          (''pktlen'', add (num 201) (num 14))]),
        assign ''exp_pkt'' (lib ''simple_tcp_packet'' [] [(''eth_dst'', str ''00:11:22:33:44:55''), (''eth_src'', str
          ROUTER_MAC), (''ip_dst'', str ''10.10.10.1''), (''ip_src'', str ''192.168.0.1''), (''ip_id'', num 105), (''ip_ttl'',
          num 63), (''pktlen'', add (num 201) (num 14))]),
        assign ''pre_stats'' (query ''sai_thrift_get_queue_stats'' [self ''cpu_queue0''] []),
        print [self ''dev_port11''],
        run (lib ''send_packet'' [self ''dev_port11'', var ''pkt''] []),
        set_self ''port11_rif_counter_in'' (add (self ''port11_rif_counter_in'') (num 1)),
        set_self ''port10_rif_counter_out'' (add (self ''port10_rif_counter_out'') (num 1)),
        sleep_for (num 4),
        assign ''post_stats'' (query ''sai_thrift_get_queue_stats'' [self ''cpu_queue0''] []),
        assert_eq (item (var ''post_stats'') (str ''SAI_QUEUE_STAT_PACKETS'')) (add (item (var ''pre_stats'') (str
          ''SAI_QUEUE_STAT_PACKETS'')) (num 1)),
        assign ''pkt'' (lib ''set_field'' [var ''pkt'', str ''IP'', str ''dst'', str ''12.10.10.1''] []),
        assign ''pre_stats'' (query ''sai_thrift_get_queue_stats'' [self ''cpu_queue0''] []),
        print [self ''dev_port11''],
        run (lib ''send_packet'' [self ''dev_port11'', var ''pkt''] []),
        set_self ''port11_rif_counter_in'' (add (self ''port11_rif_counter_in'') (num 1)),
        set_self ''lag1_rif_counter_out'' (add (self ''lag1_rif_counter_out'') (num 1)),
        sleep_for (num 4),
        assign ''post_stats'' (query ''sai_thrift_get_queue_stats'' [self ''cpu_queue0''] []),
        assert_eq (item (var ''post_stats'') (str ''SAI_QUEUE_STAT_PACKETS'')) (add (item (var ''pre_stats'') (str
          ''SAI_QUEUE_STAT_PACKETS'')) (num 1))] [
        run (api_remove ''hostif_trap'' (var ''trap'')),
        run (api_remove ''hostif_trap_group'' (var ''trap_group'')),
        run (api_set ''router_interface'' (self ''port10_rif'') [(''mtu'', item (var ''mtu_port10_rif'') (str ''mtu''))]),
        run (api_set ''router_interface'' (self ''lag1_rif'') [(''mtu'', item (var ''mtu_lag1_rif'') (str ''mtu''))])]]"

definition Ipv4MtuTrapTest_tearDown :: "'d stmt" where
  "Ipv4MtuTrapTest_tearDown = block [
      run (invoke [] L3MtuTrapTestHelper_tearDown)]"

definition Ipv6MtuTrapTest_setUp :: "'d stmt" where
  "Ipv6MtuTrapTest_setUp = block [
      run (invoke [] L3MtuTrapTestHelper_setUp)]"

definition Ipv6MtuTrapTest_runTest :: "'d stmt" where
  "Ipv6MtuTrapTest_runTest = block [
      assign ''mtu_port10_rif'' (api_get ''router_interface'' (self ''port10_rif'') [(''mtu'', bool True)]),
      assign ''mtu_lag1_rif'' (api_get ''router_interface'' (self ''lag1_rif'') [(''mtu'', bool True)]),
      run (api_set ''router_interface'' (self ''port10_rif'') [(''mtu'', num 200)]),
      run (api_set ''router_interface'' (self ''lag1_rif'') [(''mtu'', num 200)]),
      try_finally [
        assign ''trap_group'' (api_create ''hostif_trap_group'' [(''admin_state'', bool True), (''queue'', num 4)]),
        assign ''trap'' (api_create ''hostif_trap'' [(''trap_group'', var ''trap_group''), (''trap_type'', num
          SAI_HOSTIF_TRAP_TYPE_L3_MTU_ERROR), (''packet_action'', num SAI_PACKET_ACTION_TRAP)]),
        assign ''pkt'' (lib ''simple_tcpv6_packet'' [] [(''eth_dst'', str ROUTER_MAC), (''eth_src'', str ''00:22:22:22:22:22''),
          (''ipv6_dst'', str ''1234:5678:9abc:def0:4422:1133:5577:99aa''), (''ipv6_src'', str ''2000::1''), (''ipv6_hlim'', num
          64), (''pktlen'', add (add (num 200) (num 14)) (num 40))]),
        assign ''exp_pkt'' (lib ''simple_tcpv6_packet'' [] [(''eth_dst'', str ''00:11:22:33:44:55''), (''eth_src'', str
          ROUTER_MAC), (''ipv6_dst'', str ''1234:5678:9abc:def0:4422:1133:5577:99aa''), (''ipv6_src'', str ''2000::1''),
          (''ipv6_hlim'', num 63), (''pktlen'', add (add (num 200) (num 14)) (num 40))]),
        print [self ''dev_port11'', self ''dev_port10''],
        run (lib ''send_packet'' [self ''dev_port11'', var ''pkt''] []),
        run (lib ''verify_packet'' [var ''exp_pkt'', self ''dev_port10''] []),
        set_self ''port11_rif_counter_in'' (add (self ''port11_rif_counter_in'') (num 1)),
        set_self ''port10_rif_counter_out'' (add (self ''port10_rif_counter_out'') (num 1)),
        assign ''pkt'' (lib ''set_field'' [var ''pkt'', str ''IPv6'', str ''dst'', str
          ''1234:5678:9abc:def0:1122:3344:5566:7788''] []),
        assign ''exp_pkt'' (lib ''set_field'' [var ''exp_pkt'', str ''IPv6'', str ''dst'', str
          ''1234:5678:9abc:def0:1122:3344:5566:7788''] []),
        assign ''exp_pkt'' (with_item (var ''exp_pkt'') (str ''Ethernet'') (with_field (item (var ''exp_pkt'') (str
          ''Ethernet'')) ''dst'' (str ''00:33:22:33:44:55''))),
        print [self ''dev_port11''],
        run (lib ''send_packet'' [self ''dev_port11'', var ''pkt''] []),
        run (lib ''verify_packet_any_port'' [var ''exp_pkt'', list_of [self ''dev_port4'', self ''dev_port5'', self
          ''dev_port6'']] []),
        set_self ''port11_rif_counter_in'' (add (self ''port11_rif_counter_in'') (num 1)),
        set_self ''lag1_rif_counter_out'' (add (self ''lag1_rif_counter_out'') (num 1)),
        assign ''pkt'' (lib ''simple_tcpv6_packet'' [] [(''eth_dst'', str ROUTER_MAC), (''eth_src'', str ''00:22:22:22:22:22''),
          (''ipv6_dst'', str ''1234:5678:9abc:def0:4422:1133:5577:99aa''), (''ipv6_src'', str ''2000::1''), (''ipv6_hlim'', num
          64), (''pktlen'', add (add (num 201) (num 14)) (num 40))]),
        assign ''exp_pkt'' (lib ''simple_tcpv6_packet'' [] [(''eth_dst'', str ''00:11:22:33:44:55''), (''eth_src'', str
          ROUTER_MAC), (''ipv6_dst'', str ''1234:5678:9abc:def0:4422:1133:5577:99aa''), (''ipv6_src'', str ''2000::1''),
          (''ipv6_hlim'', num 63), (''pktlen'', add (add (num 201) (num 14)) (num 40))]),
        assign ''pre_stats'' (query ''sai_thrift_get_queue_stats'' [self ''cpu_queue0''] []),
        print [self ''dev_port11''],
        run (lib ''send_packet'' [self ''dev_port11'', var ''pkt''] []),
        set_self ''port11_rif_counter_in'' (add (self ''port11_rif_counter_in'') (num 1)),
        set_self ''port10_rif_counter_out'' (add (self ''port10_rif_counter_out'') (num 1)),
        sleep_for (num 4),
        assign ''post_stats'' (query ''sai_thrift_get_queue_stats'' [self ''cpu_queue0''] []),
        assert_eq (item (var ''post_stats'') (str ''SAI_QUEUE_STAT_PACKETS'')) (add (item (var ''pre_stats'') (str
          ''SAI_QUEUE_STAT_PACKETS'')) (num 1)),
        assign ''pkt'' (lib ''set_field'' [var ''pkt'', str ''IPv6'', str ''dst'', str
          ''1234:5678:9abc:def0:1122:3344:5566:7788''] []),
        assign ''pre_stats'' (query ''sai_thrift_get_queue_stats'' [self ''cpu_queue0''] []),
        print [self ''dev_port11''],
        run (lib ''send_packet'' [self ''dev_port11'', var ''pkt''] []),
        set_self ''port11_rif_counter_in'' (add (self ''port11_rif_counter_in'') (num 1)),
        set_self ''lag1_rif_counter_out'' (add (self ''lag1_rif_counter_out'') (num 1)),
        sleep_for (num 4),
        assign ''post_stats'' (query ''sai_thrift_get_queue_stats'' [self ''cpu_queue0''] []),
        assert_eq (item (var ''post_stats'') (str ''SAI_QUEUE_STAT_PACKETS'')) (add (item (var ''pre_stats'') (str
          ''SAI_QUEUE_STAT_PACKETS'')) (num 1))] [
        run (api_remove ''hostif_trap'' (var ''trap'')),
        run (api_remove ''hostif_trap_group'' (var ''trap_group'')),
        run (api_set ''router_interface'' (self ''port10_rif'') [(''mtu'', item (var ''mtu_port10_rif'') (str ''mtu''))]),
        run (api_set ''router_interface'' (self ''lag1_rif'') [(''mtu'', item (var ''mtu_lag1_rif'') (str ''mtu''))])]]"

definition Ipv6MtuTrapTest_tearDown :: "'d stmt" where
  "Ipv6MtuTrapTest_tearDown = block [
      run (invoke [] L3MtuTrapTestHelper_tearDown)]"

definition SubPortIpv4MtuTrapTest_setUp :: "'d stmt" where
  "SubPortIpv4MtuTrapTest_setUp = block [
      run (invoke [] L3MtuTrapTestHelper_setUp)]"

definition SubPortIpv4MtuTrapTest_runTest :: "'d stmt" where
  "SubPortIpv4MtuTrapTest_runTest = block [
      run (api_set ''router_interface'' (self ''subport10_100'') [(''mtu'', num 200)]),
      try_finally [
        assign ''trap_group'' (api_create ''hostif_trap_group'' [(''admin_state'', bool True), (''queue'', num 0)]),
        assign ''trap'' (api_create ''hostif_trap'' [(''trap_group'', var ''trap_group''), (''trap_type'', num
          SAI_HOSTIF_TRAP_TYPE_L3_MTU_ERROR), (''packet_action'', num SAI_PACKET_ACTION_TRAP)]),
        assign ''pkt'' (lib ''simple_tcp_packet'' [] [(''eth_dst'', str ROUTER_MAC), (''eth_src'', str ''00:22:22:22:22:22''),
          (''ip_dst'', str ''40.40.0.10''), (''ip_id'', num 105), (''ip_ttl'', num 64), (''dl_vlan_enable'', bool True),
          (''vlan_vid'', num 200), (''pktlen'', add (num 200) (num 18))]),
        assign ''exp_pkt'' (lib ''simple_tcp_packet'' [] [(''eth_dst'', str ''00:33:33:33:01:00''), (''eth_src'', str
          ROUTER_MAC), (''ip_dst'', str ''40.40.0.10''), (''ip_id'', num 105), (''ip_ttl'', num 63), (''dl_vlan_enable'', bool
          True), (''vlan_vid'', num 100), (''pktlen'', add (num 200) (num 18))]),
        print [self ''dev_port11'', self ''dev_port10''],
        run (lib ''send_packet'' [self ''dev_port11'', var ''pkt''] []),
        run (lib ''verify_packet'' [var ''exp_pkt'', self ''dev_port10''] []),
        set_self ''subport11_200_in'' (add (self ''subport11_200_in'') (num 1)),
        set_self ''subport10_100_out'' (add (self ''subport10_100_out'') (num 1)),
        assign ''pkt'' (lib ''simple_tcp_packet'' [] [(''eth_dst'', str ROUTER_MAC), (''eth_src'', str ''00:22:22:22:22:22''),
          (''ip_dst'', str ''40.40.0.10''), (''ip_id'', num 105), (''ip_ttl'', num 64), (''dl_vlan_enable'', bool True),
          (''vlan_vid'', num 200), (''pktlen'', add (num 201) (num 18))]),
        assign ''exp_pkt'' (lib ''simple_tcp_packet'' [] [(''eth_dst'', str ''00:33:33:33:01:00''), (''eth_src'', str
          ROUTER_MAC), (''ip_dst'', str ''40.40.0.10''), (''ip_id'', num 105), (''ip_ttl'', num 63), (''dl_vlan_enable'', bool
          True), (''vlan_vid'', num 100), (''pktlen'', add (num 201) (num 18))]),
        assign ''pre_stats'' (query ''sai_thrift_get_queue_stats'' [self ''cpu_queue0''] []),
        print [self ''dev_port11''],
        run (lib ''send_packet'' [self ''dev_port11'', var ''pkt''] []),
        sleep_for (num 4),
        assign ''post_stats'' (query ''sai_thrift_get_queue_stats'' [self ''cpu_queue0''] []),
        assert_eq (item (var ''post_stats'') (str ''SAI_QUEUE_STAT_PACKETS'')) (add (item (var ''pre_stats'') (str
          ''SAI_QUEUE_STAT_PACKETS'')) (num 1)),
        set_self ''subport11_200_in'' (add (self ''subport11_200_in'') (num 1)),
        set_self ''subport10_100_out'' (add (self ''subport10_100_out'') (num 1))] [
        run (api_remove ''hostif_trap'' (var ''trap'')),
        run (api_remove ''hostif_trap_group'' (var ''trap_group''))]]"

definition SubPortIpv4MtuTrapTest_tearDown :: "'d stmt" where
  "SubPortIpv4MtuTrapTest_tearDown = block [
      run (invoke [] L3MtuTrapTestHelper_tearDown)]"

definition SubPortIpv6MtuTrapTest_setUp :: "'d stmt" where
  "SubPortIpv6MtuTrapTest_setUp = block [
      run (invoke [] L3MtuTrapTestHelper_setUp)]"

definition SubPortIpv6MtuTrapTest_runTest :: "'d stmt" where
  "SubPortIpv6MtuTrapTest_runTest = block [
      run (api_set ''router_interface'' (self ''subport10_100'') [(''mtu'', num 200)]),
      try_finally [
        assign ''trap_group'' (api_create ''hostif_trap_group'' [(''admin_state'', bool True), (''queue'', num 4)]),
        assign ''trap'' (api_create ''hostif_trap'' [(''trap_group'', var ''trap_group''), (''trap_type'', num
          SAI_HOSTIF_TRAP_TYPE_L3_MTU_ERROR), (''packet_action'', num SAI_PACKET_ACTION_TRAP)]),
        assign ''pkt'' (lib ''simple_tcpv6_packet'' [] [(''eth_dst'', str ROUTER_MAC), (''eth_src'', str ''00:22:22:22:22:22''),
          (''ipv6_dst'', str ''1234:5678:9abc:def0:4422:1133:5577:8899''), (''ipv6_src'', str ''2000::1''), (''dl_vlan_enable'',
          bool True), (''vlan_vid'', num 200), (''ipv6_hlim'', num 64), (''pktlen'', add (add (num 200) (num 40)) (num 18))]),
        assign ''exp_pkt'' (lib ''simple_tcpv6_packet'' [] [(''eth_dst'', str ''00:33:33:33:01:00''), (''eth_src'', str
          ROUTER_MAC), (''ipv6_dst'', str ''1234:5678:9abc:def0:4422:1133:5577:8899''), (''ipv6_src'', str ''2000::1''),
          (''ipv6_hlim'', num 63), (''dl_vlan_enable'', bool True), (''vlan_vid'', num 100), (''pktlen'', add (add (num 200)
          (num 40)) (num 18))]),
        print [self ''dev_port11'', self ''dev_port10''],
        run (lib ''send_packet'' [self ''dev_port11'', var ''pkt''] []),
        run (lib ''verify_packet'' [var ''exp_pkt'', self ''dev_port10''] []),
        set_self ''subport11_200_in'' (add (self ''subport11_200_in'') (num 1)),
        set_self ''subport10_100_out'' (add (self ''subport10_100_out'') (num 1)),
        assign ''pkt'' (lib ''simple_tcpv6_packet'' [] [(''eth_dst'', str ROUTER_MAC), (''eth_src'', str ''00:22:22:22:22:22''),
          (''ipv6_dst'', str ''1234:5678:9abc:def0:4422:1133:5577:8899''), (''ipv6_src'', str ''2000::1''), (''dl_vlan_enable'',
          bool True), (''vlan_vid'', num 200), (''ipv6_hlim'', num 64), (''pktlen'', add (add (num 201) (num 40)) (num 18))]),
        assign ''exp_pkt'' (lib ''simple_tcpv6_packet'' [] [(''eth_dst'', str ''00:33:33:33:01:00''), (''eth_src'', str
          ROUTER_MAC), (''ipv6_dst'', str ''1234:5678:9abc:def0:4422:1133:5577:8899''), (''ipv6_src'', str ''2000::1''),
          (''ipv6_hlim'', num 63), (''dl_vlan_enable'', bool True), (''vlan_vid'', num 100), (''pktlen'', add (add (num 201)
          (num 40)) (num 18))]),
        assign ''pre_stats'' (query ''sai_thrift_get_queue_stats'' [self ''cpu_queue0''] []),
        print [self ''dev_port11''],
        run (lib ''send_packet'' [self ''dev_port11'', var ''pkt''] []),
        sleep_for (num 4),
        assign ''post_stats'' (query ''sai_thrift_get_queue_stats'' [self ''cpu_queue0''] []),
        assert_eq (item (var ''post_stats'') (str ''SAI_QUEUE_STAT_PACKETS'')) (add (item (var ''pre_stats'') (str
          ''SAI_QUEUE_STAT_PACKETS'')) (num 1)),
        set_self ''subport11_200_in'' (add (self ''subport11_200_in'') (num 1)),
        set_self ''subport10_100_out'' (add (self ''subport10_100_out'') (num 1))] [
        run (api_remove ''hostif_trap'' (var ''trap'')),
        run (api_remove ''hostif_trap_group'' (var ''trap_group''))]]"

definition SubPortIpv6MtuTrapTest_tearDown :: "'d stmt" where
  "SubPortIpv6MtuTrapTest_tearDown = block [
      run (invoke [] L3MtuTrapTestHelper_tearDown)]"

definition SviIpv4MtuTrapTest_setUp :: "'d stmt" where
  "SviIpv4MtuTrapTest_setUp = block [
      run (invoke [] L3MtuTrapTestHelper_setUp)]"

definition SviIpv4MtuTrapTest_runTest :: "'d stmt" where
  "SviIpv4MtuTrapTest_runTest = block [
      run (api_set ''router_interface'' (self ''vlan100_rif'') [(''mtu'', num 200)]),
      try_finally [
        assign ''trap_group'' (api_create ''hostif_trap_group'' [(''admin_state'', bool True), (''queue'', num 4)]),
        assign ''trap'' (api_create ''hostif_trap'' [(''trap_group'', var ''trap_group''), (''trap_type'', num
          SAI_HOSTIF_TRAP_TYPE_L3_MTU_ERROR), (''packet_action'', num SAI_PACKET_ACTION_TRAP)]),
        assign ''mac_action'' (num SAI_PACKET_ACTION_FORWARD),
        assign ''fdb_entry'' (struct ''sai_thrift_fdb_entry_t'' [(''switch_id'', self ''switch_id''), (''mac_address'', str
          ''00:11:22:33:44:55''), (''bv_id'', self ''vlan100'')]),
        run (api_create_entry ''fdb_entry'' (var ''fdb_entry'') [(''type'', num SAI_FDB_ENTRY_TYPE_STATIC), (''bridge_port_id'',
          self ''port24_bp''), (''packet_action'', var ''mac_action'')]),
        assign ''pkt'' (lib ''simple_tcp_packet'' [] [(''eth_dst'', str ROUTER_MAC), (''eth_src'', str ''00:22:22:22:22:22''),
          (''ip_dst'', str ''10.10.0.100''), (''ip_id'', num 105), (''ip_ttl'', num 64), (''pktlen'', add (num 200) (num 14))]),
        assign ''exp_pkt'' (lib ''simple_tcp_packet'' [] [(''eth_dst'', str ''00:11:22:33:44:55''), (''eth_src'', str
          ROUTER_MAC), (''ip_dst'', str ''10.10.0.100''), (''ip_id'', num 105), (''ip_ttl'', num 63), (''pktlen'', add (num 200)
          (num 14))]),
        print [self ''dev_port10'', self ''dev_port24''],
        run (lib ''send_packet'' [self ''dev_port10'', var ''pkt''] []),
        run (lib ''verify_packet'' [var ''exp_pkt'', self ''dev_port24''] []),
        set_self ''port10_rif_counter_in'' (add (self ''port10_rif_counter_in'') (num 1)),
        set_self ''vlan100_rif_counter_out'' (add (self ''vlan100_rif_counter_out'') (num 1)),
        assign ''pkt'' (lib ''simple_tcp_packet'' [] [(''eth_dst'', str ROUTER_MAC), (''eth_src'', str ''00:22:22:22:22:22''),
          (''ip_dst'', str ''10.10.0.100''), (''ip_id'', num 105), (''ip_ttl'', num 64), (''pktlen'', add (num 201) (num 14))]),
        assign ''exp_pkt'' (lib ''simple_tcp_packet'' [] [(''eth_dst'', str ''00:11:22:33:44:55''), (''eth_src'', str
          ROUTER_MAC), (''ip_dst'', str ''10.10.0.100''), (''ip_id'', num 105), (''ip_ttl'', num 63), (''pktlen'', add (num 201)
          (num 14))]),
        assign ''pre_stats'' (query ''sai_thrift_get_queue_stats'' [self ''cpu_queue0''] []),
        print [self ''dev_port10''],
        run (lib ''send_packet'' [self ''dev_port10'', var ''pkt''] []),
        set_self ''port10_rif_counter_in'' (add (self ''port10_rif_counter_in'') (num 1)),
        set_self ''vlan100_rif_counter_out'' (add (self ''vlan100_rif_counter_out'') (num 1)),
        sleep_for (num 4),
        assign ''post_stats'' (query ''sai_thrift_get_queue_stats'' [self ''cpu_queue0''] []),
        assert_eq (item (var ''post_stats'') (str ''SAI_QUEUE_STAT_PACKETS'')) (add (item (var ''pre_stats'') (str
          ''SAI_QUEUE_STAT_PACKETS'')) (num 1))] [
        run (api_remove ''hostif_trap'' (var ''trap'')),
        run (api_remove ''hostif_trap_group'' (var ''trap_group'')),
        run (api_remove ''fdb_entry'' (var ''fdb_entry''))]]"

definition SviIpv4MtuTrapTest_tearDown :: "'d stmt" where
  "SviIpv4MtuTrapTest_tearDown = block [
      run (invoke [] L3MtuTrapTestHelper_tearDown)]"

definition SviIpv6MtuTrapTest_setUp :: "'d stmt" where
  "SviIpv6MtuTrapTest_setUp = block [
      run (invoke [] L3MtuTrapTestHelper_setUp)]"

definition SviIpv6MtuTrapTest_runTest :: "'d stmt" where
  "SviIpv6MtuTrapTest_runTest = block [
      run (api_set ''router_interface'' (self ''vlan100_rif'') [(''mtu'', num 200)]),
      try_finally [
        assign ''trap_group'' (api_create ''hostif_trap_group'' [(''admin_state'', bool True), (''queue'', num 4)]),
        assign ''trap'' (api_create ''hostif_trap'' [(''trap_group'', var ''trap_group''), (''trap_type'', num
          SAI_HOSTIF_TRAP_TYPE_L3_MTU_ERROR), (''packet_action'', num SAI_PACKET_ACTION_TRAP)]),
        assign ''mac_action'' (num SAI_PACKET_ACTION_FORWARD),
        assign ''fdb_entry'' (struct ''sai_thrift_fdb_entry_t'' [(''switch_id'', self ''switch_id''), (''mac_address'', str
          ''00:11:22:33:44:55''), (''bv_id'', self ''vlan100'')]),
        run (api_create_entry ''fdb_entry'' (var ''fdb_entry'') [(''type'', num SAI_FDB_ENTRY_TYPE_STATIC), (''bridge_port_id'',
          self ''port24_bp''), (''packet_action'', var ''mac_action'')]),
        assign ''pkt'' (lib ''simple_tcpv6_packet'' [] [(''eth_dst'', str ROUTER_MAC), (''eth_src'', str ''00:22:22:22:22:22''),
          (''ipv6_dst'', str ''1234:5678:9abc:def0:4422:1133:5577:0000''), (''ipv6_src'', str ''2000::1''), (''ipv6_hlim'', num
          64), (''pktlen'', add (add (num 200) (num 14)) (num 40))]),
        assign ''exp_pkt'' (lib ''simple_tcpv6_packet'' [] [(''eth_dst'', str ''00:11:22:33:44:55''), (''eth_src'', str
          ROUTER_MAC), (''ipv6_dst'', str ''1234:5678:9abc:def0:4422:1133:5577:0000''), (''ipv6_src'', str ''2000::1''),
          (''ipv6_hlim'', num 63), (''pktlen'', add (add (num 200) (num 14)) (num 40))]),
        print [self ''dev_port10'', self ''dev_port24''],
        run (lib ''send_packet'' [self ''dev_port10'', var ''pkt''] []),
        run (lib ''verify_packet'' [var ''exp_pkt'', self ''dev_port24''] []),
        set_self ''port10_rif_counter_in'' (add (self ''port10_rif_counter_in'') (num 1)),
        set_self ''vlan100_rif_counter_out'' (add (self ''vlan100_rif_counter_out'') (num 1)),
        assign ''pkt'' (lib ''simple_tcpv6_packet'' [] [(''eth_dst'', str ROUTER_MAC), (''eth_src'', str ''00:22:22:22:22:22''),
          (''ipv6_dst'', str ''1234:5678:9abc:def0:4422:1133:5577:0000''), (''ipv6_src'', str ''2000::1''), (''ipv6_hlim'', num
          64), (''pktlen'', add (add (num 201) (num 14)) (num 40))]),
        assign ''exp_pkt'' (lib ''simple_tcpv6_packet'' [] [(''eth_dst'', str ''00:11:22:33:44:55''), (''eth_src'', str
          ROUTER_MAC), (''ipv6_dst'', str ''1234:5678:9abc:def0:4422:1133:5577:0000''), (''ipv6_src'', str ''2000::1''),
          (''ipv6_hlim'', num 63), (''pktlen'', add (add (num 201) (num 14)) (num 40))]),
        assign ''pre_stats'' (query ''sai_thrift_get_queue_stats'' [self ''cpu_queue0''] []),
        print [self ''dev_port10''],
        run (lib ''send_packet'' [self ''dev_port10'', var ''pkt''] []),
        set_self ''port10_rif_counter_in'' (add (self ''port10_rif_counter_in'') (num 1)),
        set_self ''vlan100_rif_counter_out'' (add (self ''vlan100_rif_counter_out'') (num 1)),
        sleep_for (num 4),
        assign ''post_stats'' (query ''sai_thrift_get_queue_stats'' [self ''cpu_queue0''] []),
        assert_eq (item (var ''post_stats'') (str ''SAI_QUEUE_STAT_PACKETS'')) (add (item (var ''pre_stats'') (str
          ''SAI_QUEUE_STAT_PACKETS'')) (num 1))] [
        run (api_remove ''hostif_trap'' (var ''trap'')),
        run (api_remove ''hostif_trap_group'' (var ''trap_group'')),
        run (api_remove ''fdb_entry'' (var ''fdb_entry''))]]"

definition SviIpv6MtuTrapTest_tearDown :: "'d stmt" where
  "SviIpv6MtuTrapTest_tearDown = block [
      run (invoke [] L3MtuTrapTestHelper_tearDown)]"

definition MtuPacketStatsTest_setUp :: "'d stmt" where
  "MtuPacketStatsTest_setUp = block [
      run (invoke [] L3MtuTrapTestHelper_setUp)]"

definition MtuPacketStatsTest_runTest :: "'d stmt" where
  "MtuPacketStatsTest_runTest = block [
      sleep_for (num 4),
      assign ''port10_rif_stats'' (query ''sai_thrift_get_router_interface_stats'' [self ''port10_rif''] []),
      assign ''port11_rif_stats'' (query ''sai_thrift_get_router_interface_stats'' [self ''port11_rif''] []),
      assign ''lag1_rif_stats'' (query ''sai_thrift_get_router_interface_stats'' [self ''lag1_rif''] []),
      assign ''subport10_100_stats'' (query ''sai_thrift_get_router_interface_stats'' [self ''subport10_100''] []),
      assign ''subport11_200_stats'' (query ''sai_thrift_get_router_interface_stats'' [self ''subport11_200''] []),
      assign ''vlan100_rif_stats'' (query ''sai_thrift_get_router_interface_stats'' [self ''vlan100_rif''] []),
      assert (eq (self ''port10_rif_counter_in'') (item (var ''port10_rif_stats'') (str
        ''SAI_ROUTER_INTERFACE_STAT_IN_PACKETS''))),
      assert (eq (self ''port10_rif_counter_out'') (item (var ''port10_rif_stats'') (str
        ''SAI_ROUTER_INTERFACE_STAT_OUT_PACKETS''))),
      assert (eq (self ''port11_rif_counter_in'') (item (var ''port11_rif_stats'') (str
        ''SAI_ROUTER_INTERFACE_STAT_IN_PACKETS''))),
      assert (eq (self ''port11_rif_counter_out'') (item (var ''port11_rif_stats'') (str
        ''SAI_ROUTER_INTERFACE_STAT_OUT_PACKETS''))),
      assert (eq (self ''lag1_rif_counter_in'') (item (var ''lag1_rif_stats'') (str ''SAI_ROUTER_INTERFACE_STAT_IN_PACKETS''))),
      assert (eq (self ''lag1_rif_counter_out'') (item (var ''lag1_rif_stats'') (str
        ''SAI_ROUTER_INTERFACE_STAT_OUT_PACKETS''))),
      assert (eq (self ''subport10_100_in'') (item (var ''subport10_100_stats'') (str
        ''SAI_ROUTER_INTERFACE_STAT_IN_PACKETS''))),
      assert (eq (self ''subport10_100_out'') (item (var ''subport10_100_stats'') (str
        ''SAI_ROUTER_INTERFACE_STAT_OUT_PACKETS''))),
      assert (eq (self ''subport11_200_in'') (item (var ''subport11_200_stats'') (str
        ''SAI_ROUTER_INTERFACE_STAT_IN_PACKETS''))),
      assert (eq (self ''subport11_200_out'') (item (var ''subport11_200_stats'') (str
        ''SAI_ROUTER_INTERFACE_STAT_OUT_PACKETS''))),
      assert (eq (self ''vlan100_rif_counter_in'') (item (var ''vlan100_rif_stats'') (str
        ''SAI_ROUTER_INTERFACE_STAT_IN_PACKETS''))),
      assert (eq (self ''vlan100_rif_counter_out'') (item (var ''vlan100_rif_stats'') (str
        ''SAI_ROUTER_INTERFACE_STAT_OUT_PACKETS'')))]"

definition MtuPacketStatsTest_tearDown :: "'d stmt" where
  "MtuPacketStatsTest_tearDown = block [
      run (invoke [] L3MtuTrapTestHelper_tearDown)]"

definition VirtualInterfaceTestHelper_setUp :: "'d stmt" where
  "VirtualInterfaceTestHelper_setUp = block [
      super_setUp,
      assign ''dmac1'' (str ''00:11:22:33:44:55''),
      set_self ''nhop1'' (api_create ''next_hop'' [(''ip'', ip_address (str ''10.10.10.2'')), (''router_interface_id'', self
        ''port10_rif''), (''type'', num SAI_NEXT_HOP_TYPE_IP)]),
      set_self ''neighbor_entry1'' (struct ''sai_thrift_neighbor_entry_t'' [(''rif_id'', self ''port10_rif''), (''ip_address'',
        ip_address (str ''10.10.10.2''))]),
      run (api_create_entry ''neighbor_entry'' (self ''neighbor_entry1'') [(''dst_mac_address'', var ''dmac1'')]),
      set_self ''route_entry0'' (struct ''sai_thrift_route_entry_t'' [(''vr_id'', self ''default_vrf''), (''destination'',
        ip_prefix (str ''10.10.10.1/32''))]),
      run (api_create_entry ''route_entry'' (self ''route_entry0'') [(''next_hop_id'', self ''nhop1'')])]"

definition VirtualInterfaceTestHelper_tearDown :: "'d stmt" where
  "VirtualInterfaceTestHelper_tearDown = block [
      run (api_remove ''route_entry'' (self ''route_entry0'')),
      run (api_remove ''next_hop'' (self ''nhop1'')),
      run (api_remove ''neighbor_entry'' (self ''neighbor_entry1'')),
      super_tearDown]"

definition VirtualInterfaceType_setUp :: "'d stmt" where
  "VirtualInterfaceType_setUp = block [
      run (invoke [] VirtualInterfaceTestHelper_setUp)]"

definition VirtualInterfaceType_runTest :: "'d stmt" where
  "VirtualInterfaceType_runTest = block [
      assign ''new_router_mac'' (str ''00:77:66:55:44:44''),
      assign ''pkt'' (lib ''simple_tcp_packet'' [] [(''eth_dst'', str ROUTER_MAC), (''eth_src'', str ''00:22:22:22:22:22''),
        (''ip_dst'', str ''10.10.10.1''), (''ip_src'', str ''192.168.0.1''), (''ip_id'', num 105), (''ip_ttl'', num 64)]),
      assign ''exp_pkt'' (lib ''simple_tcp_packet'' [] [(''eth_dst'', str ''00:11:22:33:44:55''), (''eth_src'', str ROUTER_MAC),
        (''ip_dst'', str ''10.10.10.1''), (''ip_src'', str ''192.168.0.1''), (''ip_id'', num 105), (''ip_ttl'', num 63)]),
      assign ''pkt1'' (lib ''simple_tcp_packet'' [] [(''eth_dst'', var ''new_router_mac''), (''eth_src'', str
        ''00:22:22:22:22:22''), (''ip_dst'', str ''10.10.10.1''), (''ip_src'', str ''192.168.0.1''), (''ip_id'', num 105),
        (''ip_ttl'', num 64)]),
      assign ''exp_pkt1'' (lib ''simple_tcp_packet'' [] [(''eth_dst'', str ''00:11:22:33:44:55''), (''eth_src'', str
        ROUTER_MAC), (''ip_dst'', str ''10.10.10.1''), (''ip_src'', str ''192.168.0.1''), (''ip_id'', num 105), (''ip_ttl'', num
        63)]),
      try_finally [
        print [self ''dev_port11'', str ROUTER_MAC],
        run (lib ''send_packet'' [self ''dev_port11'', var ''pkt''] []),
        run (lib ''verify_packet'' [var ''exp_pkt'', self ''dev_port10''] []),
        print [var ''new_router_mac''],
        assign ''port11_rif'' (api_create ''router_interface'' [(''type'', num SAI_ROUTER_INTERFACE_TYPE_PORT),
          (''virtual_router_id'', self ''default_vrf''), (''port_id'', self ''port11''), (''is_virtual'', bool True),
          (''src_mac_address'', var ''new_router_mac'')]),
        assign ''port11_rif_attr'' (api_get ''router_interface'' (var ''port11_rif'') [(''src_mac_address'', bool True)]),
        assert (no (is_none (var ''port11_rif_attr''))),
        assign ''src_mac_address'' (get_or (var ''port11_rif_attr'') (str ''src_mac_address'') none),
        assert_eq (var ''src_mac_address'') (var ''new_router_mac''),
        print [self ''dev_port11'', var ''new_router_mac''],
        run (lib ''send_packet'' [self ''dev_port11'', var ''pkt1''] []),
        run (lib ''verify_packet'' [var ''exp_pkt1'', self ''dev_port10''] []),
        assert (eq (api_remove ''router_interface'' (var ''port11_rif'')) (num 0))] []]"

definition VirtualInterfaceType_tearDown :: "'d stmt" where
  "VirtualInterfaceType_tearDown = block [
      run (invoke [] VirtualInterfaceTestHelper_tearDown)]"

definition VirtualRIFType_setUp :: "'d stmt" where
  "VirtualRIFType_setUp = block [
      run (invoke [] VirtualInterfaceTestHelper_setUp)]"

definition VirtualRIFType_runTest :: "'d stmt" where
  "VirtualRIFType_runTest = block [
      try_finally [
        assign ''new_router_mac'' (str ''00:77:66:55:44:44''),
        assign ''v_rif'' (api_create ''router_interface'' [(''type'', num SAI_ROUTER_INTERFACE_TYPE_PORT),
          (''virtual_router_id'', self ''default_vrf''), (''port_id'', self ''port11''), (''is_virtual'', bool True),
          (''src_mac_address'', var ''new_router_mac'')]),
        assert (gt (var ''v_rif'') (num 0)),
        assign ''v_rif_attr'' (api_get ''router_interface'' (var ''v_rif'') [(''is_virtual'', bool True)]),
        assign ''is_virtual'' none,
        if_else (no (is_none (var ''v_rif_attr''))) [
          assign ''is_virtual'' (get_or (var ''v_rif_attr'') (str ''is_virtual'') none)] [],
        assert_eq (var ''is_virtual'') (bool True),
        assert (eq (api_remove ''router_interface'' (var ''v_rif'')) (num 0))] []]"

definition VirtualRIFType_tearDown :: "'d stmt" where
  "VirtualRIFType_tearDown = block [
      run (invoke [] VirtualInterfaceTestHelper_tearDown)]"

definition EnumQueryCapabilityHelper_tearDown :: "'d stmt" where
  "EnumQueryCapabilityHelper_tearDown = block [
      super_tearDown]"

definition RifTypePort_runTest :: "'d stmt" where
  "RifTypePort_runTest = block [
      assign ''rif'' (self ''port10_rif''),
      assign ''rif_attr'' (api_get ''router_interface'' (var ''rif'') [(''type'', bool True)]),
      assign ''rif_type'' (get_or (var ''rif_attr'') (str ''type'') none),
      assert (is_in (var ''rif_type'') (self ''enum_capab''))]"

definition RifTypePort_tearDown :: "'d stmt" where
  "RifTypePort_tearDown = block [
      run (invoke [] EnumQueryCapabilityHelper_tearDown)]"

definition RifTypeVlan_runTest :: "'d stmt" where
  "RifTypeVlan_runTest = block [
      assign ''rif'' (self ''vlan30_rif''),
      assign ''rif_attr'' (api_get ''router_interface'' (var ''rif'') [(''type'', bool True)]),
      assign ''rif_type'' (get_or (var ''rif_attr'') (str ''type'') none),
      assert (is_in (var ''rif_type'') (self ''enum_capab''))]"

definition RifTypeVlan_tearDown :: "'d stmt" where
  "RifTypeVlan_tearDown = block [
      run (invoke [] EnumQueryCapabilityHelper_tearDown)]"

definition RifTypeLoopback_runTest :: "'d stmt" where
  "RifTypeLoopback_runTest = block [
      try_finally [
        assign ''rif'' (api_create ''router_interface'' [(''type'', num SAI_ROUTER_INTERFACE_TYPE_LOOPBACK),
          (''virtual_router_id'', self ''default_vrf'')]),
        assign ''rif_attr'' (api_get ''router_interface'' (var ''rif'') [(''type'', bool True)]),
        assign ''rif_type'' (get_or (var ''rif_attr'') (str ''type'') none),
        assert (is_in (var ''rif_type'') (self ''enum_capab''))] [
        run (api_remove ''router_interface'' (var ''rif''))]]"

definition RifTypeLoopback_tearDown :: "'d stmt" where
  "RifTypeLoopback_tearDown = block [
      run (invoke [] EnumQueryCapabilityHelper_tearDown)]"

definition RifTypeSubPort_runTest :: "'d stmt" where
  "RifTypeSubPort_runTest = block [
      try_finally [
        assign ''rif'' (api_create ''router_interface'' [(''type'', num SAI_ROUTER_INTERFACE_TYPE_SUB_PORT),
          (''virtual_router_id'', self ''default_vrf''), (''port_id'', self ''port24''), (''outer_vlan_id'', num 100)]),
        assign ''rif_attr'' (api_get ''router_interface'' (var ''rif'') [(''type'', bool True)]),
        assign ''rif_type'' (get_or (var ''rif_attr'') (str ''type'') none),
        assert (is_in (var ''rif_type'') (self ''enum_capab''))] [
        run (api_remove ''router_interface'' (var ''rif''))]]"

definition RifTypeSubPort_tearDown :: "'d stmt" where
  "RifTypeSubPort_tearDown = block [
      run (invoke [] EnumQueryCapabilityHelper_tearDown)]"

definition SVIRifVlanTestHelper_setUp :: "'d stmt" where
  "SVIRifVlanTestHelper_setUp = block [
      super_setUp,
      set_self ''port24_bp'' (api_create ''bridge_port'' [(''bridge_id'', self ''default_1q_bridge''), (''port_id'', self
        ''port24''), (''type'', num SAI_BRIDGE_PORT_TYPE_PORT), (''admin_state'', bool True)]),
      set_self ''port25_bp'' (api_create ''bridge_port'' [(''bridge_id'', self ''default_1q_bridge''), (''port_id'', self
        ''port25''), (''type'', num SAI_BRIDGE_PORT_TYPE_PORT), (''admin_state'', bool True)]),
      set_self ''port26_bp'' (api_create ''bridge_port'' [(''bridge_id'', self ''default_1q_bridge''), (''port_id'', self
        ''port26''), (''type'', num SAI_BRIDGE_PORT_TYPE_PORT), (''admin_state'', bool True)]),
      set_self ''vlan100'' (api_create ''vlan'' [(''vlan_id'', num 100)]),
      set_self ''vlan_member100'' (api_create ''vlan_member'' [(''vlan_id'', self ''vlan100''), (''bridge_port_id'', self
        ''port24_bp''), (''vlan_tagging_mode'', num SAI_VLAN_TAGGING_MODE_UNTAGGED)]),
      set_self ''vlan_member101'' (api_create ''vlan_member'' [(''vlan_id'', self ''vlan100''), (''bridge_port_id'', self
        ''port25_bp''), (''vlan_tagging_mode'', num SAI_VLAN_TAGGING_MODE_TAGGED)]),
      set_self ''vlan_member102'' (api_create ''vlan_member'' [(''vlan_id'', self ''vlan100''), (''bridge_port_id'', self
        ''port26_bp''), (''vlan_tagging_mode'', num SAI_VLAN_TAGGING_MODE_UNTAGGED)]),
      run (api_set ''port'' (self ''port24'') [(''port_vlan_id'', num 100)]),
      run (api_set ''port'' (self ''port25'') [(''port_vlan_id'', num 100)]),
      run (api_set ''port'' (self ''port26'') [(''port_vlan_id'', num 100)]),
      set_self ''vlan100_rif'' (api_create ''router_interface'' [(''type'', num SAI_ROUTER_INTERFACE_TYPE_VLAN),
        (''virtual_router_id'', self ''default_vrf''), (''vlan_id'', self ''vlan100'')]),
      set_self ''dmac1'' (str ''00:11:22:33:44:55''),
      set_self ''dmac2'' (str ''00:22:22:33:44:55''),
      set_self ''dmac3'' (str ''00:33:22:33:44:55''),
      set_self ''dmac4'' (str ''00:44:22:33:44:55''),
      set_self ''nhop1'' (api_create ''next_hop'' [(''ip'', ip_address (str ''10.10.0.1'')), (''router_interface_id'', self
        ''vlan100_rif''), (''type'', num SAI_NEXT_HOP_TYPE_IP)]),
      set_self ''neighbor_entry1'' (struct ''sai_thrift_neighbor_entry_t'' [(''rif_id'', self ''vlan100_rif''), (''ip_address'',
        ip_address (str ''10.10.0.1''))]),
      run (api_create_entry ''neighbor_entry'' (self ''neighbor_entry1'') [(''dst_mac_address'', self ''dmac1'')]),
      set_self ''route_entry1'' (struct ''sai_thrift_route_entry_t'' [(''vr_id'', self ''default_vrf''), (''destination'',
        ip_prefix (str ''10.10.10.1/32''))]),
      run (api_create_entry ''route_entry'' (self ''route_entry1'') [(''next_hop_id'', self ''nhop1'')]),
      set_self ''neighbor_entry2'' (struct ''sai_thrift_neighbor_entry_t'' [(''rif_id'', self ''vlan100_rif''), (''ip_address'',
        ip_address (str ''10.10.0.2''))]),
      run (api_create_entry ''neighbor_entry'' (self ''neighbor_entry2'') [(''dst_mac_address'', self ''dmac2'')]),
      set_self ''nhop2'' (api_create ''next_hop'' [(''ip'', ip_address (str ''10.10.0.2'')), (''router_interface_id'', self
        ''vlan100_rif''), (''type'', num SAI_NEXT_HOP_TYPE_IP)]),
      set_self ''route_entry2'' (struct ''sai_thrift_route_entry_t'' [(''vr_id'', self ''default_vrf''), (''destination'',
        ip_prefix (str ''10.10.10.2/32''))]),
      run (api_create_entry ''route_entry'' (self ''route_entry2'') [(''next_hop_id'', self ''nhop2'')]),
      set_self ''nhop3'' (api_create ''next_hop'' [(''ip'', ip_address (str ''10.10.0.3'')), (''router_interface_id'', self
        ''vlan100_rif''), (''type'', num SAI_NEXT_HOP_TYPE_IP)]),
      set_self ''neighbor_entry3'' (struct ''sai_thrift_neighbor_entry_t'' [(''rif_id'', self ''vlan100_rif''), (''ip_address'',
        ip_address (str ''10.10.0.3''))]),
      run (api_create_entry ''neighbor_entry'' (self ''neighbor_entry3'') [(''dst_mac_address'', self ''dmac3'')]),
      set_self ''route_entry3'' (struct ''sai_thrift_route_entry_t'' [(''vr_id'', self ''default_vrf''), (''destination'',
        ip_prefix (str ''10.10.10.3/32''))]),
      run (api_create_entry ''route_entry'' (self ''route_entry3'') [(''next_hop_id'', self ''nhop3'')]),
      set_self ''nhop4'' (api_create ''next_hop'' [(''ip'', ip_address (str ''11.11.0.2'')), (''router_interface_id'', self
        ''port10_rif''), (''type'', num SAI_NEXT_HOP_TYPE_IP)]),
      set_self ''neighbor_entry4'' (struct ''sai_thrift_neighbor_entry_t'' [(''rif_id'', self ''port10_rif''), (''ip_address'',
        ip_address (str ''11.11.0.2''))]),
      run (api_create_entry ''neighbor_entry'' (self ''neighbor_entry4'') [(''dst_mac_address'', self ''dmac4'')]),
      set_self ''route_entry4'' (struct ''sai_thrift_route_entry_t'' [(''vr_id'', self ''default_vrf''), (''destination'',
        ip_prefix (str ''11.11.11.1/32''))]),
      run (api_create_entry ''route_entry'' (self ''route_entry4'') [(''next_hop_id'', self ''nhop4'')])]"

definition SVIRifVlanTestHelper_tearDown :: "'d stmt" where
  "SVIRifVlanTestHelper_tearDown = block [
      run (api_remove ''route_entry'' (self ''route_entry4'')),
      run (api_remove ''route_entry'' (self ''route_entry3'')),
      run (api_remove ''route_entry'' (self ''route_entry2'')),
      run (api_remove ''route_entry'' (self ''route_entry1'')),
      run (api_remove ''neighbor_entry'' (self ''neighbor_entry1'')),
      run (api_remove ''neighbor_entry'' (self ''neighbor_entry2'')),
      run (api_remove ''neighbor_entry'' (self ''neighbor_entry3'')),
      run (api_remove ''neighbor_entry'' (self ''neighbor_entry4'')),
      run (api_remove ''next_hop'' (self ''nhop1'')),
      run (api_remove ''next_hop'' (self ''nhop2'')),
      run (api_remove ''next_hop'' (self ''nhop3'')),
      run (api_remove ''next_hop'' (self ''nhop4'')),
      run (api_remove ''router_interface'' (self ''vlan100_rif'')),
      run (api_set ''port'' (self ''port24'') [(''port_vlan_id'', num 0)]),
      run (api_set ''port'' (self ''port25'') [(''port_vlan_id'', num 0)]),
      run (api_set ''port'' (self ''port26'') [(''port_vlan_id'', num 0)]),
      run (api_remove ''vlan_member'' (self ''vlan_member100'')),
      run (api_remove ''vlan_member'' (self ''vlan_member101'')),
      run (api_remove ''vlan_member'' (self ''vlan_member102'')),
      run (api_remove ''vlan'' (self ''vlan100'')),
      run (api_remove ''bridge_port'' (self ''port24_bp'')),
      run (api_remove ''bridge_port'' (self ''port25_bp'')),
      run (api_remove ''bridge_port'' (self ''port26_bp'')),
      super_tearDown]"

definition SviRifIpv4Test_setUp :: "'d stmt" where
  "SviRifIpv4Test_setUp = block [
      run (invoke [] SVIRifVlanTestHelper_setUp)]"

definition SviRifIpv4Test_runTest :: "'d stmt" where
  "SviRifIpv4Test_runTest = block [
      assign ''new_router_mac'' (str ''00:77:66:55:44:44''),
      assign ''pkt'' (lib ''simple_tcp_packet'' [] [(''eth_dst'', str ROUTER_MAC), (''eth_src'', str ''00:22:22:22:22:22''),
        (''ip_dst'', str ''11.11.11.1''), (''ip_src'', str ''192.168.0.1''), (''ip_id'', num 105), (''ip_ttl'', num 64),
        (''pktlen'', num 100)]),
      assign ''exp_pkt'' (lib ''simple_tcp_packet'' [] [(''eth_dst'', str ''00:44:22:33:44:55''), (''eth_src'', str ROUTER_MAC),
        (''ip_dst'', str ''11.11.11.1''), (''ip_src'', str ''192.168.0.1''), (''ip_id'', num 105), (''ip_ttl'', num 63),
        (''pktlen'', num 100)]),
      assign ''tagged_pkt'' (lib ''simple_tcp_packet'' [] [(''eth_dst'', str ROUTER_MAC), (''eth_src'', str
        ''00:22:22:22:22:22''), (''ip_dst'', str ''11.11.11.1''), (''ip_src'', str ''192.168.0.1''), (''ip_id'', num 105),
        (''ip_ttl'', num 64), (''dl_vlan_enable'', bool True), (''vlan_vid'', num 100), (''pktlen'', num 104)]),
      assign ''pkt1'' (lib ''simple_tcp_packet'' [] [(''eth_dst'', var ''new_router_mac''), (''eth_src'', str
        ''00:22:22:22:22:22''), (''ip_dst'', str ''11.11.11.1''), (''ip_src'', str ''192.168.0.1''), (''ip_id'', num 105),
        (''ip_ttl'', num 64)]),
      try_finally [
        print [self ''dev_port24''],
        run (lib ''send_packet'' [self ''dev_port24'', var ''pkt''] []),
        run (lib ''verify_packets'' [var ''exp_pkt'', list_of [self ''dev_port10'']] []),
        assign ''vlan100_rif'' (api_create ''router_interface'' [(''type'', num SAI_ROUTER_INTERFACE_TYPE_VLAN),
          (''virtual_router_id'', self ''default_vrf''), (''vlan_id'', self ''vlan100''), (''is_virtual'', bool True),
          (''src_mac_address'', var ''new_router_mac'')]),
        print [self ''dev_port24'', var ''new_router_mac''],
        run (lib ''send_packet'' [self ''dev_port24'', var ''pkt1''] []),
        run (lib ''verify_packet'' [var ''exp_pkt'', self ''dev_port10''] []),
        print [self ''dev_port25'', var ''new_router_mac''],
        run (lib ''send_packet'' [self ''dev_port25'', var ''tagged_pkt''] []),
        run (lib ''verify_packet'' [var ''exp_pkt'', self ''dev_port10''] []),
        print [self ''dev_port26'', var ''new_router_mac''],
        run (lib ''send_packet'' [self ''dev_port26'', var ''pkt1''] []),
        run (lib ''verify_packet'' [var ''exp_pkt'', self ''dev_port10''] []),
        assert (eq (api_remove ''router_interface'' (var ''vlan100_rif'')) (num 0))] []]"

definition SviRifIpv4Test_tearDown :: "'d stmt" where
  "SviRifIpv4Test_tearDown = block [
      run (invoke [] SVIRifVlanTestHelper_tearDown)]"

end
