(* ===== verification/TestsRoute.thy ===== *)
theory TestsRoute
  imports PtfOwn PtfConstants
begin

text \<open>
  The tests of routes, \<open>ptf/sairoute.py\<close>: a definition per method, statement by statement in the language of
  \<open>PtfScript\<close>, named after its class. A parameter \<open>m_f\<close> is a method \<open>f\<close> that derived classes define anew.
\<close>

section \<open>The tests\<close>

definition multipleRoutesTest_setUp :: "'d stmt" where
  "multipleRoutesTest_setUp = block [
      super_setUp]"

definition multipleRoutesTest_runTest :: "'d stmt" where
  "multipleRoutesTest_runTest = block [
      assign ''dmac'' (str ''00:11:22:33:44:55''),
      assign ''neighbor_entry'' (struct ''sai_thrift_neighbor_entry_t'' [(''rif_id'', self ''port10_rif''), (''ip_address'',
        ip_address (str ''10.10.10.2''))]),
      run (api_create_entry ''neighbor_entry'' (var ''neighbor_entry'') [(''dst_mac_address'', var ''dmac'')]),
      assign ''nhop1'' (api_create ''next_hop'' [(''ip'', ip_address (str ''10.10.10.2'')), (''router_interface_id'', self
        ''port10_rif''), (''type'', num SAI_NEXT_HOP_TYPE_IP)]),
      assign ''route_entry1'' (struct ''sai_thrift_route_entry_t'' [(''vr_id'', self ''default_vrf''), (''destination'',
        ip_prefix (str ''10.10.10.1/32''))]),
      run (api_create_entry ''route_entry'' (var ''route_entry1'') [(''next_hop_id'', var ''nhop1'')]),
      assign ''route_entry2'' (struct ''sai_thrift_route_entry_t'' [(''vr_id'', self ''default_vrf''), (''destination'',
        ip_prefix (str ''10.10.10.2/32''))]),
      run (api_create_entry ''route_entry'' (var ''route_entry2'') [(''next_hop_id'', var ''nhop1'')]),
      assign ''pkt1'' (lib ''simple_tcp_packet'' [] [(''eth_dst'', str ROUTER_MAC), (''eth_src'', str ''00:22:22:22:22:22''),
        (''ip_dst'', str ''10.10.10.1''), (''ip_src'', str ''192.168.0.1''), (''ip_id'', num 105), (''ip_ttl'', num 64)]),
      assign ''pkt2'' (lib ''simple_tcp_packet'' [] [(''eth_dst'', str ROUTER_MAC), (''eth_src'', str ''00:22:22:22:22:22''),
        (''ip_dst'', str ''10.10.10.2''), (''ip_src'', str ''192.168.0.1''), (''ip_id'', num 105), (''ip_ttl'', num 64)]),
      assign ''exp_pkt1'' (lib ''simple_tcp_packet'' [] [(''eth_dst'', str ''00:11:22:33:44:55''), (''eth_src'', str
        ROUTER_MAC), (''ip_dst'', str ''10.10.10.1''), (''ip_src'', str ''192.168.0.1''), (''ip_id'', num 105), (''ip_ttl'', num
        63)]),
      assign ''exp_pkt2'' (lib ''simple_tcp_packet'' [] [(''eth_dst'', str ''00:11:22:33:44:55''), (''eth_src'', str
        ROUTER_MAC), (''ip_dst'', str ''10.10.10.2''), (''ip_src'', str ''192.168.0.1''), (''ip_id'', num 105), (''ip_ttl'', num
        63)]),
      try_finally [
        print [self ''dev_port11''],
        run (lib ''send_packet'' [self ''dev_port11'', var ''pkt1''] []),
        run (lib ''verify_packet'' [var ''exp_pkt1'', self ''dev_port10''] []),
        print [self ''dev_port11''],
        run (lib ''send_packet'' [self ''dev_port11'', var ''pkt2''] []),
        run (lib ''verify_packet'' [var ''exp_pkt2'', self ''dev_port10''] [])] [
        run (api_remove ''route_entry'' (var ''route_entry1'')),
        run (api_remove ''route_entry'' (var ''route_entry2'')),
        run (api_remove ''next_hop'' (var ''nhop1'')),
        run (api_remove ''neighbor_entry'' (var ''neighbor_entry''))]]"

definition multipleRoutesTest_tearDown :: "'d stmt" where
  "multipleRoutesTest_tearDown = block [
      super_tearDown]"

definition dropRouteTest_setUp :: "'d stmt" where
  "dropRouteTest_setUp = block [
      super_setUp]"

definition dropRouteTest_runTest :: "'d stmt" where
  "dropRouteTest_runTest = block [
      assign ''dmac'' (str ''00:11:22:33:44:55''),
      assign ''neighbor_entry'' (struct ''sai_thrift_neighbor_entry_t'' [(''rif_id'', self ''port10_rif''), (''ip_address'',
        ip_address (str ''10.10.10.2''))]),
      run (api_create_entry ''neighbor_entry'' (var ''neighbor_entry'') [(''dst_mac_address'', var ''dmac'')]),
      assign ''nhop'' (api_create ''next_hop'' [(''ip'', ip_address (str ''10.10.10.2'')), (''router_interface_id'', self
        ''port10_rif''), (''type'', num SAI_NEXT_HOP_TYPE_IP)]),
      assign ''route_entry'' (struct ''sai_thrift_route_entry_t'' [(''vr_id'', self ''default_vrf''), (''destination'',
        ip_prefix (str ''10.10.10.1/32''))]),
      run (api_create_entry ''route_entry'' (var ''route_entry'') [(''next_hop_id'', var ''nhop''), (''packet_action'', num
        SAI_PACKET_ACTION_TRAP)]),
      assign ''pkt'' (lib ''simple_tcp_packet'' [] [(''eth_dst'', str ROUTER_MAC), (''eth_src'', str ''00:22:22:22:22:22''),
        (''ip_dst'', str ''10.10.10.1''), (''ip_src'', str ''192.168.0.1''), (''ip_id'', num 105), (''ip_ttl'', num 64)]),
      try_finally [
        assign ''pre_stats'' (query ''sai_thrift_get_queue_stats'' [self ''cpu_queue0''] []),
        print [self ''dev_port11''],
        run (lib ''send_packet'' [self ''dev_port11'', var ''pkt''] []),
        sleep_for (num 4),
        assign ''post_stats'' (query ''sai_thrift_get_queue_stats'' [self ''cpu_queue0''] []),
        assert_eq (item (var ''post_stats'') (str ''SAI_QUEUE_STAT_PACKETS'')) (add (item (var ''pre_stats'') (str
          ''SAI_QUEUE_STAT_PACKETS'')) (num 1))] [
        run (api_remove ''route_entry'' (var ''route_entry'')),
        run (api_remove ''next_hop'' (var ''nhop'')),
        run (api_remove ''neighbor_entry'' (var ''neighbor_entry''))]]"

definition dropRouteTest_tearDown :: "'d stmt" where
  "dropRouteTest_tearDown = block [
      super_tearDown]"

definition routeUpdateTest_setUp :: "'d stmt" where
  "routeUpdateTest_setUp = block [
      super_setUp]"

definition routeUpdateTest_runTest :: "'d stmt" where
  "routeUpdateTest_runTest = block [
      assign ''dmac'' (str ''00:11:22:33:44:55''),
      assign ''dmac2'' (str ''00:11:22:33:44:66''),
      assign ''neighbor_entry'' (struct ''sai_thrift_neighbor_entry_t'' [(''rif_id'', self ''port10_rif''), (''ip_address'',
        ip_address (str ''10.10.10.2''))]),
      run (api_create_entry ''neighbor_entry'' (var ''neighbor_entry'') [(''dst_mac_address'', var ''dmac'')]),
      assign ''nhop1'' (api_create ''next_hop'' [(''ip'', ip_address (str ''10.10.10.2'')), (''router_interface_id'', self
        ''port10_rif''), (''type'', num SAI_NEXT_HOP_TYPE_IP)]),
      assign ''route_entry'' (struct ''sai_thrift_route_entry_t'' [(''vr_id'', self ''default_vrf''), (''destination'',
        ip_prefix (str ''10.10.10.1/32''))]),
      run (api_create_entry ''route_entry'' (var ''route_entry'') [(''next_hop_id'', var ''nhop1'')]),
      assign ''pkt'' (lib ''simple_tcp_packet'' [] [(''eth_dst'', str ROUTER_MAC), (''eth_src'', str ''00:22:22:22:22:22''),
        (''ip_dst'', str ''10.10.10.1''), (''ip_src'', str ''192.168.0.1''), (''ip_id'', num 105), (''ip_ttl'', num 64)]),
      assign ''exp_pkt'' (lib ''simple_tcp_packet'' [] [(''eth_dst'', str ''00:11:22:33:44:55''), (''eth_src'', str ROUTER_MAC),
        (''ip_dst'', str ''10.10.10.1''), (''ip_src'', str ''192.168.0.1''), (''ip_id'', num 105), (''ip_ttl'', num 63)]),
      assign ''exp_pkt2'' (lib ''simple_tcp_packet'' [] [(''eth_dst'', str ''00:11:22:33:44:66''), (''eth_src'', str
        ROUTER_MAC), (''ip_dst'', str ''10.10.10.1''), (''ip_src'', str ''192.168.0.1''), (''ip_id'', num 105), (''ip_ttl'', num
        63)]),
      try_finally [
        print [self ''dev_port11''],
        run (lib ''send_packet'' [self ''dev_port11'', var ''pkt''] []),
        run (lib ''verify_packet'' [var ''exp_pkt'', self ''dev_port10''] []),
        assign ''neighbor_entry2'' (struct ''sai_thrift_neighbor_entry_t'' [(''rif_id'', self ''port10_rif''), (''ip_address'',
          ip_address (str ''10.10.10.3''))]),
        run (api_create_entry ''neighbor_entry'' (var ''neighbor_entry2'') [(''dst_mac_address'', var ''dmac2'')]),
        assign ''nhop2'' (api_create ''next_hop'' [(''ip'', ip_address (str ''10.10.10.3'')), (''router_interface_id'', self
          ''port10_rif''), (''type'', num SAI_NEXT_HOP_TYPE_IP)]),
        run (api_set ''route_entry'' (var ''route_entry'') [(''next_hop_id'', var ''nhop2'')]),
        print [self ''dev_port11''],
        run (lib ''send_packet'' [self ''dev_port11'', var ''pkt''] []),
        run (lib ''verify_packet'' [var ''exp_pkt2'', self ''dev_port10''] []),
        run (api_set ''route_entry'' (var ''route_entry'') [(''packet_action'', num SAI_PACKET_ACTION_DROP)]),
        print [self ''dev_port11''],
        run (lib ''send_packet'' [self ''dev_port11'', var ''pkt''] []),
        run (lib ''verify_no_other_packets'' [] [(''timeout'', num 3)]),
        run (api_set ''route_entry'' (var ''route_entry'') [(''packet_action'', num SAI_PACKET_ACTION_FORWARD)]),
        print [self ''dev_port11''],
        run (lib ''send_packet'' [self ''dev_port11'', var ''pkt''] []),
        run (lib ''verify_packet'' [var ''exp_pkt2'', self ''dev_port10''] []),
        run (api_set ''route_entry'' (var ''route_entry'') [(''packet_action'', num SAI_PACKET_ACTION_TRAP)]),
        assign ''pre_stats'' (query ''sai_thrift_get_queue_stats'' [self ''cpu_queue0''] []),
        print [self ''dev_port11''],
        run (lib ''send_packet'' [self ''dev_port11'', var ''pkt''] []),
        sleep_for (num 4),
        assign ''post_stats'' (query ''sai_thrift_get_queue_stats'' [self ''cpu_queue0''] []),
        assert_eq (item (var ''post_stats'') (str ''SAI_QUEUE_STAT_PACKETS'')) (add (item (var ''pre_stats'') (str
          ''SAI_QUEUE_STAT_PACKETS'')) (num 1)),
        run (api_set ''route_entry'' (var ''route_entry'') [(''packet_action'', num SAI_PACKET_ACTION_FORWARD)]),
        print [self ''dev_port11''],
        run (lib ''send_packet'' [self ''dev_port11'', var ''pkt''] []),
        run (lib ''verify_packet'' [var ''exp_pkt2'', self ''dev_port10''] [])] [
        run (api_remove ''route_entry'' (var ''route_entry'')),
        run (api_remove ''next_hop'' (var ''nhop1'')),
        run (api_remove ''next_hop'' (var ''nhop2'')),
        run (api_remove ''neighbor_entry'' (var ''neighbor_entry'')),
        run (api_remove ''neighbor_entry'' (var ''neighbor_entry2''))]]"

definition routeUpdateTest_tearDown :: "'d stmt" where
  "routeUpdateTest_tearDown = block [
      super_tearDown]"

definition routeIngressRifTest_setUp :: "'d stmt" where
  "routeIngressRifTest_setUp = block [
      super_setUp]"

definition routeIngressRifTest_runTest :: "'d stmt" where
  "routeIngressRifTest_runTest = block [
      assign ''dmac'' (str ''00:11:22:33:44:55''),
      assign ''neighbor_entry'' (struct ''sai_thrift_neighbor_entry_t'' [(''rif_id'', self ''port10_rif''), (''ip_address'',
        ip_address (str ''10.10.10.2''))]),
      run (api_create_entry ''neighbor_entry'' (var ''neighbor_entry'') [(''dst_mac_address'', var ''dmac'')]),
      assign ''nhop1'' (api_create ''next_hop'' [(''ip'', ip_address (str ''10.10.10.2'')), (''router_interface_id'', self
        ''port10_rif''), (''type'', num SAI_NEXT_HOP_TYPE_IP)]),
      assign ''route_entry'' (struct ''sai_thrift_route_entry_t'' [(''vr_id'', self ''default_vrf''), (''destination'',
        ip_prefix (str ''10.10.10.1/32''))]),
      run (api_create_entry ''route_entry'' (var ''route_entry'') [(''next_hop_id'', var ''nhop1'')]),
      assign ''pkt'' (lib ''simple_tcp_packet'' [] [(''eth_dst'', str ROUTER_MAC), (''eth_src'', str ''00:22:22:22:22:22''),
        (''ip_dst'', str ''10.10.10.1''), (''ip_src'', str ''192.168.0.1''), (''ip_id'', num 105), (''ip_ttl'', num 64)]),
      assign ''exp_pkt'' (lib ''simple_tcp_packet'' [] [(''eth_dst'', str ''00:11:22:33:44:55''), (''eth_src'', str ROUTER_MAC),
        (''ip_dst'', str ''10.10.10.1''), (''ip_src'', str ''192.168.0.1''), (''ip_id'', num 105), (''ip_ttl'', num 63)]),
      try_finally [
        print [self ''dev_port10''],
        run (lib ''send_packet'' [self ''dev_port10'', var ''pkt''] []),
        run (lib ''verify_packet'' [var ''exp_pkt'', self ''dev_port10''] [])] [
        run (api_remove ''route_entry'' (var ''route_entry'')),
        run (api_remove ''next_hop'' (var ''nhop1'')),
        run (api_remove ''neighbor_entry'' (var ''neighbor_entry''))]]"

definition routeIngressRifTest_tearDown :: "'d stmt" where
  "routeIngressRifTest_tearDown = block [
      super_tearDown]"

definition emptyECMPGroupTest_setUp :: "'d stmt" where
  "emptyECMPGroupTest_setUp = block [
      super_setUp]"

definition emptyECMPGroupTest_runTest :: "'d stmt" where
  "emptyECMPGroupTest_runTest = block [
      assign ''nhop_group'' (api_create ''next_hop_group'' [(''type'', num SAI_NEXT_HOP_GROUP_TYPE_ECMP)]),
      assign ''route_entry'' (struct ''sai_thrift_route_entry_t'' [(''vr_id'', self ''default_vrf''), (''destination'',
        ip_prefix (str ''10.10.10.1/32''))]),
      run (api_create_entry ''route_entry'' (var ''route_entry'') [(''next_hop_id'', var ''nhop_group'')]),
      assign ''pkt'' (lib ''simple_tcp_packet'' [] [(''eth_dst'', str ROUTER_MAC), (''eth_src'', str ''00:22:22:22:22:22''),
        (''ip_dst'', str ''10.10.10.1''), (''ip_src'', str ''192.168.0.1''), (''ip_id'', num 105), (''ip_ttl'', num 64)]),
      try_finally [
        print [self ''dev_port10''],
        run (lib ''send_packet'' [self ''dev_port10'', var ''pkt''] []),
        run (lib ''verify_no_other_packets'' [] [(''timeout'', num 3)])] [
        run (api_remove ''route_entry'' (var ''route_entry'')),
        run (api_remove ''next_hop_group'' (var ''nhop_group''))]]"

definition emptyECMPGroupTest_tearDown :: "'d stmt" where
  "emptyECMPGroupTest_tearDown = block [
      super_tearDown]"

definition sviNeighborTest_setUp :: "'d stmt" where
  "sviNeighborTest_setUp = block [
      super_setUp]"

definition sviNeighborTest_runTest :: "'d stmt" where
  "sviNeighborTest_runTest = block [
      assign ''port24_bp'' (api_create ''bridge_port'' [(''bridge_id'', self ''default_1q_bridge''), (''port_id'', self
        ''port24''), (''type'', num SAI_BRIDGE_PORT_TYPE_PORT)]),
      assign ''port25_bp'' (api_create ''bridge_port'' [(''bridge_id'', self ''default_1q_bridge''), (''port_id'', self
        ''port25''), (''type'', num SAI_BRIDGE_PORT_TYPE_PORT)]),
      assign ''port26_bp'' (api_create ''bridge_port'' [(''bridge_id'', self ''default_1q_bridge''), (''port_id'', self
        ''port26''), (''type'', num SAI_BRIDGE_PORT_TYPE_PORT)]),
      assign ''vlan100'' (api_create ''vlan'' [(''vlan_id'', num 100)]),
      assign ''vlan_member100'' (api_create ''vlan_member'' [(''vlan_id'', var ''vlan100''), (''bridge_port_id'', var
        ''port24_bp''), (''vlan_tagging_mode'', num SAI_VLAN_TAGGING_MODE_UNTAGGED)]),
      assign ''vlan_member101'' (api_create ''vlan_member'' [(''vlan_id'', var ''vlan100''), (''bridge_port_id'', var
        ''port25_bp''), (''vlan_tagging_mode'', num SAI_VLAN_TAGGING_MODE_UNTAGGED)]),
      assign ''vlan_member102'' (api_create ''vlan_member'' [(''vlan_id'', var ''vlan100''), (''bridge_port_id'', var
        ''port26_bp''), (''vlan_tagging_mode'', num SAI_VLAN_TAGGING_MODE_UNTAGGED)]),
      run (api_set ''port'' (self ''port24'') [(''port_vlan_id'', num 100)]),
      run (api_set ''port'' (self ''port25'') [(''port_vlan_id'', num 100)]),
      run (api_set ''port'' (self ''port26'') [(''port_vlan_id'', num 100)]),
      assign ''vlan100_rif'' (api_create ''router_interface'' [(''type'', num SAI_ROUTER_INTERFACE_TYPE_VLAN),
        (''virtual_router_id'', self ''default_vrf''), (''vlan_id'', var ''vlan100'')]),
      assign ''dmac1'' (str ''00:11:22:33:44:55''),
      assign ''dmac2'' (str ''00:22:22:33:44:55''),
      assign ''dmac3'' (str ''00:33:22:33:44:55''),
      assign ''neighbor_entry1'' (struct ''sai_thrift_neighbor_entry_t'' [(''rif_id'', var ''vlan100_rif''), (''ip_address'',
        ip_address (str ''10.10.0.1''))]),
      run (api_create_entry ''neighbor_entry'' (var ''neighbor_entry1'') [(''dst_mac_address'', var ''dmac1'')]),
      assign ''nhop1'' (api_create ''next_hop'' [(''ip'', ip_address (str ''10.10.0.1'')), (''router_interface_id'', var
        ''vlan100_rif''), (''type'', num SAI_NEXT_HOP_TYPE_IP)]),
      assign ''route_entry1'' (struct ''sai_thrift_route_entry_t'' [(''vr_id'', self ''default_vrf''), (''destination'',
        ip_prefix (str ''10.10.10.1/32''))]),
      run (api_create_entry ''route_entry'' (var ''route_entry1'') [(''next_hop_id'', var ''nhop1'')]),
      assign ''neighbor_entry2'' (struct ''sai_thrift_neighbor_entry_t'' [(''rif_id'', var ''vlan100_rif''), (''ip_address'',
        ip_address (str ''10.10.0.2''))]),
      run (api_create_entry ''neighbor_entry'' (var ''neighbor_entry2'') [(''dst_mac_address'', var ''dmac2'')]),
      assign ''nhop2'' (api_create ''next_hop'' [(''ip'', ip_address (str ''10.10.0.2'')), (''router_interface_id'', var
        ''vlan100_rif''), (''type'', num SAI_NEXT_HOP_TYPE_IP)]),
      assign ''route_entry2'' (struct ''sai_thrift_route_entry_t'' [(''vr_id'', self ''default_vrf''), (''destination'',
        ip_prefix (str ''10.10.10.2/32''))]),
      run (api_create_entry ''route_entry'' (var ''route_entry2'') [(''next_hop_id'', var ''nhop2'')]),
      assign ''neighbor_entry3'' (struct ''sai_thrift_neighbor_entry_t'' [(''rif_id'', var ''vlan100_rif''), (''ip_address'',
        ip_address (str ''10.10.0.3''))]),
      run (api_create_entry ''neighbor_entry'' (var ''neighbor_entry3'') [(''dst_mac_address'', var ''dmac3'')]),
      assign ''nhop3'' (api_create ''next_hop'' [(''ip'', ip_address (str ''10.10.0.3'')), (''router_interface_id'', var
        ''vlan100_rif''), (''type'', num SAI_NEXT_HOP_TYPE_IP)]),
      assign ''route_entry3'' (struct ''sai_thrift_route_entry_t'' [(''vr_id'', self ''default_vrf''), (''destination'',
        ip_prefix (str ''10.10.10.3/32''))]),
      run (api_create_entry ''route_entry'' (var ''route_entry3'') [(''next_hop_id'', var ''nhop3'')]),
      assign ''pkt'' (lib ''simple_tcp_packet'' [] [(''eth_dst'', str ROUTER_MAC), (''eth_src'', str ''00:22:22:22:22:22''),
        (''ip_dst'', str ''10.10.10.1''), (''ip_src'', str ''192.168.0.1''), (''ip_id'', num 105), (''ip_ttl'', num 64)]),
      assign ''exp_pkt'' (lib ''simple_tcp_packet'' [] [(''eth_dst'', str ''00:11:22:33:44:55''), (''eth_src'', str ROUTER_MAC),
        (''ip_dst'', str ''10.10.10.1''), (''ip_src'', str ''192.168.0.1''), (''ip_id'', num 105), (''ip_ttl'', num 63)]),
      try_finally [
        assign ''mac_action'' (num SAI_PACKET_ACTION_FORWARD),
        assign ''fdb_entry1'' (struct ''sai_thrift_fdb_entry_t'' [(''switch_id'', self ''switch_id''), (''mac_address'', var
          ''dmac1''), (''bv_id'', var ''vlan100'')]),
        run (api_create_entry ''fdb_entry'' (var ''fdb_entry1'') [(''type'', num SAI_FDB_ENTRY_TYPE_STATIC),
          (''bridge_port_id'', var ''port24_bp''), (''packet_action'', var ''mac_action'')]),
        assign ''fdb_entry2'' (struct ''sai_thrift_fdb_entry_t'' [(''switch_id'', self ''switch_id''), (''mac_address'', var
          ''dmac2''), (''bv_id'', var ''vlan100'')]),
        run (api_create_entry ''fdb_entry'' (var ''fdb_entry2'') [(''type'', num SAI_FDB_ENTRY_TYPE_STATIC),
          (''bridge_port_id'', var ''port25_bp''), (''packet_action'', var ''mac_action'')]),
        assign ''fdb_entry3'' (struct ''sai_thrift_fdb_entry_t'' [(''switch_id'', self ''switch_id''), (''mac_address'', var
          ''dmac3''), (''bv_id'', var ''vlan100'')]),
        run (api_create_entry ''fdb_entry'' (var ''fdb_entry3'') [(''type'', num SAI_FDB_ENTRY_TYPE_STATIC),
          (''bridge_port_id'', var ''port26_bp''), (''packet_action'', var ''mac_action'')]),
        print [self ''dev_port10'', self ''dev_port24''],
        run (lib ''send_packet'' [self ''dev_port10'', var ''pkt''] []),
        run (lib ''verify_packets'' [var ''exp_pkt'', list_of [self ''dev_port24'']] []),
        run (api_remove ''fdb_entry'' (var ''fdb_entry3'')),
        run (api_remove ''fdb_entry'' (var ''fdb_entry2'')),
        run (api_remove ''fdb_entry'' (var ''fdb_entry1''))] [
        run (api_remove ''route_entry'' (var ''route_entry3'')),
        run (api_remove ''route_entry'' (var ''route_entry2'')),
        run (api_remove ''route_entry'' (var ''route_entry1'')),
        run (api_remove ''next_hop'' (var ''nhop3'')),
        run (api_remove ''next_hop'' (var ''nhop2'')),
        run (api_remove ''next_hop'' (var ''nhop1'')),
        run (api_remove ''neighbor_entry'' (var ''neighbor_entry3'')),
        run (api_remove ''neighbor_entry'' (var ''neighbor_entry2'')),
        run (api_remove ''neighbor_entry'' (var ''neighbor_entry1'')),
        run (api_remove ''router_interface'' (var ''vlan100_rif'')),
        run (api_set ''port'' (self ''port24'') [(''port_vlan_id'', num 0)]),
        run (api_set ''port'' (self ''port25'') [(''port_vlan_id'', num 0)]),
        run (api_set ''port'' (self ''port26'') [(''port_vlan_id'', num 0)]),
        run (api_remove ''vlan_member'' (var ''vlan_member102'')),
        run (api_remove ''vlan_member'' (var ''vlan_member101'')),
        run (api_remove ''vlan_member'' (var ''vlan_member100'')),
        run (api_remove ''vlan'' (var ''vlan100'')),
        run (api_remove ''bridge_port'' (var ''port26_bp'')),
        run (api_remove ''bridge_port'' (var ''port25_bp'')),
        run (api_remove ''bridge_port'' (var ''port24_bp''))]]"

definition sviNeighborTest_tearDown :: "'d stmt" where
  "sviNeighborTest_tearDown = block [
      super_tearDown]"

definition cpuForwardTest_setUp :: "'d stmt" where
  "cpuForwardTest_setUp = block [
      super_setUp]"

definition cpuForwardTest_runTest :: "'d stmt" where
  "cpuForwardTest_runTest = block [
      assign ''cpu_port'' (item (api_get ''switch'' none [(''cpu_port'', bool True)]) (str ''cpu_port'')),
      assign ''route_entry'' (struct ''sai_thrift_route_entry_t'' [(''vr_id'', self ''default_vrf''), (''destination'',
        ip_prefix (str ''10.10.10.1/32''))]),
      run (api_create_entry ''route_entry'' (var ''route_entry'') [(''next_hop_id'', var ''cpu_port'')]),
      assign ''pkt'' (lib ''simple_tcp_packet'' [] [(''eth_dst'', str ROUTER_MAC), (''eth_src'', str ''00:22:22:22:22:22''),
        (''ip_dst'', str ''10.10.10.1''), (''ip_src'', str ''192.168.0.1''), (''ip_id'', num 105), (''ip_ttl'', num 64)]),
      try_finally [
        print [self ''dev_port0''],
        run (lib ''send_packet'' [self ''dev_port0'', var ''pkt''] []),
        run (lib ''verify_no_other_packets'' [] [(''timeout'', num 3)]),
        assign ''trap_group'' (api_create ''hostif_trap_group'' [(''admin_state'', bool True), (''queue'', num 4)]),
        assign ''trap'' (api_create ''hostif_trap'' [(''trap_group'', var ''trap_group''), (''trap_type'', num
          SAI_HOSTIF_TRAP_TYPE_IP2ME), (''packet_action'', num SAI_PACKET_ACTION_TRAP)]),
        assign ''pre_stats'' (query ''sai_thrift_get_queue_stats'' [self ''cpu_queue4''] []),
        print [self ''dev_port10''],
        run (lib ''send_packet'' [self ''dev_port10'', var ''pkt''] []),
        sleep_for (num 4),
        assign ''post_stats'' (query ''sai_thrift_get_queue_stats'' [self ''cpu_queue4''] []),
        assert_eq (item (var ''post_stats'') (str ''SAI_QUEUE_STAT_PACKETS'')) (add (item (var ''pre_stats'') (str
          ''SAI_QUEUE_STAT_PACKETS'')) (num 1))] [
        run (api_remove ''route_entry'' (var ''route_entry'')),
        run (api_remove ''hostif_trap'' (var ''trap'')),
        run (api_remove ''hostif_trap_group'' (var ''trap_group''))]]"

definition cpuForwardTest_tearDown :: "'d stmt" where
  "cpuForwardTest_tearDown = block [
      super_tearDown]"

definition RemoveAddNeighborTest_setUp :: "'d stmt" where
  "RemoveAddNeighborTest_setUp = block [
      super_setUp,
      set_self ''ipv4_addr'' (str ''10.1.1.10''),
      set_self ''mac_addr'' (str ''00:10:10:10:10:10''),
      set_self ''lag_dev_ports'' (list_of [self ''dev_port17'', self ''dev_port18'', self ''dev_port19'']),
      set_self ''nbr_entry_v4'' (struct ''sai_thrift_neighbor_entry_t'' [(''rif_id'', self ''lag4_rif''), (''ip_address'',
        ip_address (self ''ipv4_addr''))]),
      assign ''status'' (api_create_entry ''neighbor_entry'' (self ''nbr_entry_v4'') [(''dst_mac_address'', self ''mac_addr'')]),
      assert_eq (var ''status'') (num SAI_STATUS_SUCCESS),
      set_self ''net_route'' (struct ''sai_thrift_route_entry_t'' [(''vr_id'', self ''default_vrf''), (''destination'',
        ip_prefix (add (self ''ipv4_addr'') (str ''/32'')))]),
      run (api_create_entry ''route_entry'' (self ''net_route'') [(''next_hop_id'', self ''lag4_rif'')]),
      assert_eq status (num SAI_STATUS_SUCCESS)]"

definition RemoveAddNeighborTest_RemoveAddNeighborTestV4 :: "'d stmt" where
  "RemoveAddNeighborTest_RemoveAddNeighborTestV4 = block [
      assign ''pkt'' (lib ''simple_udp_packet'' [] [(''eth_dst'', str ROUTER_MAC), (''ip_dst'', self ''ipv4_addr''),
        (''ip_ttl'', num 64)]),
      assign ''exp_pkt'' (lib ''simple_udp_packet'' [] [(''eth_dst'', self ''mac_addr''), (''eth_src'', str ROUTER_MAC),
        (''ip_dst'', self ''ipv4_addr''), (''ip_ttl'', num 63)]),
      run (lib ''send_packet'' [self ''dev_port10'', var ''pkt''] []),
      run (lib ''verify_packet_any_port'' [var ''exp_pkt'', self ''lag_dev_ports''] []),
      run (api_remove ''neighbor_entry'' (self ''nbr_entry_v4'')),
      assert_eq status (num SAI_STATUS_SUCCESS),
      assign ''pre_cpu_queue_state'' (item (query ''sai_thrift_get_queue_stats'' [self ''cpu_queue0''] []) (str
        ''SAI_QUEUE_STAT_PACKETS'')),
      run (lib ''send_packet'' [self ''dev_port10'', var ''pkt''] []),
      run (lib ''verify_no_other_packets'' [] []),
      assign ''post_cpu_queue_state'' (item (query ''sai_thrift_get_queue_stats'' [self ''cpu_queue0''] []) (str
        ''SAI_QUEUE_STAT_PACKETS'')),
      assert_eq (sub (var ''post_cpu_queue_state'') (var ''pre_cpu_queue_state'')) (num 1),
      print [sub (var ''post_cpu_queue_state'') (var ''pre_cpu_queue_state'')],
      run (api_create_entry ''neighbor_entry'' (self ''nbr_entry_v4'') [(''dst_mac_address'', self ''mac_addr'')]),
      assert_eq status (num SAI_STATUS_SUCCESS),
      run (lib ''send_packet'' [self ''dev_port10'', var ''pkt''] []),
      run (lib ''verify_packet_any_port'' [var ''exp_pkt'', self ''lag_dev_ports''] [])]"

definition RemoveAddNeighborTest_runTest :: "'d stmt" where
  "RemoveAddNeighborTest_runTest = block [
      try_finally [
        run (invoke [] RemoveAddNeighborTest_RemoveAddNeighborTestV4)] []]"

definition RemoveAddNeighborTest_tearDown :: "'d stmt" where
  "RemoveAddNeighborTest_tearDown = block [
      run (api_remove ''route_entry'' (self ''net_route'')),
      run (api_remove ''neighbor_entry'' (self ''nbr_entry_v4'')),
      super_tearDown]"

definition routeNbrColisionTest_setUp :: "'d stmt" where
  "routeNbrColisionTest_setUp = block [
      super_setUp]"

definition routeNbrColisionTest_runTest :: "'d stmt" where
  "routeNbrColisionTest_runTest = block [
      assign ''ip_addr'' (str ''10.10.10.1''),
      assign ''ip_addr_subnet'' (str ''10.10.10.1/32''),
      assign ''dmac'' (str ''00:11:22:33:44:55''),
      assign ''pkt_ip_src'' (str ''192.168.0.1''),
      assign ''pkt_ip_dst'' (str ''10.10.10.1''),
      assign ''pkt'' (lib ''simple_tcp_packet'' [] [(''eth_dst'', str ROUTER_MAC), (''eth_src'', str ''00:22:22:22:22:22''),
        (''ip_dst'', var ''pkt_ip_dst''), (''ip_src'', var ''pkt_ip_src''), (''ip_id'', num 105), (''ip_ttl'', num 64)]),
      assign ''exp_pkt1'' (lib ''simple_tcp_packet'' [] [(''eth_dst'', var ''dmac''), (''eth_src'', str ROUTER_MAC),
        (''ip_dst'', var ''pkt_ip_dst''), (''ip_src'', var ''pkt_ip_src''), (''ip_id'', num 105), (''ip_ttl'', num 63)]),
      print [var ''ip_addr'', self ''port10_rif'', var ''dmac''],
      assign ''nbr_entry'' (struct ''sai_thrift_neighbor_entry_t'' [(''rif_id'', self ''port10_rif''), (''ip_address'',
        ip_address (var ''ip_addr''))]),
      run (api_create_entry ''neighbor_entry'' (var ''nbr_entry'') [(''dst_mac_address'', var ''dmac'')]),
      print [var ''ip_addr'', self ''port10_rif''],
      assign ''nhop'' (api_create ''next_hop'' [(''ip'', ip_address (var ''ip_addr'')), (''router_interface_id'', self
        ''port10_rif''), (''type'', num SAI_NEXT_HOP_TYPE_IP)]),
      try_finally [
        print [self ''dev_port11'', self ''dev_port10'', var ''pkt_ip_src'', var ''pkt_ip_dst''],
        run (lib ''send_packet'' [self ''dev_port11'', var ''pkt''] []),
        run (lib ''verify_packets'' [var ''exp_pkt1'', list_of [self ''dev_port10'']] []),
        print [var ''ip_addr_subnet'', self ''port10_rif''],
        assign ''route_entry'' (struct ''sai_thrift_route_entry_t'' [(''vr_id'', self ''default_vrf''), (''destination'',
          ip_prefix (var ''ip_addr_subnet''))]),
        run (api_create_entry ''route_entry'' (var ''route_entry'') [(''next_hop_id'', self ''port10_rif'')]),
        print [self ''dev_port11'', self ''dev_port10'', var ''pkt_ip_src'', var ''pkt_ip_dst''],
        run (lib ''send_packet'' [self ''dev_port11'', var ''pkt''] []),
        run (lib ''verify_packets'' [var ''exp_pkt1'', list_of [self ''dev_port10'']] []),
        run (api_remove ''route_entry'' (var ''route_entry'')),
        print [self ''dev_port11'', self ''dev_port10'', var ''pkt_ip_src'', var ''pkt_ip_dst''],
        run (lib ''send_packet'' [self ''dev_port11'', var ''pkt''] []),
        run (lib ''verify_packets'' [var ''exp_pkt1'', list_of [self ''dev_port10'']] []),
        print [var ''ip_addr_subnet'', self ''port10_rif''],
        assign ''route_entry'' (struct ''sai_thrift_route_entry_t'' [(''vr_id'', self ''default_vrf''), (''destination'',
          ip_prefix (var ''ip_addr_subnet''))]),
        run (api_create_entry ''route_entry'' (var ''route_entry'') [(''next_hop_id'', self ''port10_rif'')]),
        print [self ''dev_port11'', self ''dev_port10'', var ''pkt_ip_src'', var ''pkt_ip_dst''],
        run (lib ''send_packet'' [self ''dev_port11'', var ''pkt''] []),
        run (lib ''verify_packets'' [var ''exp_pkt1'', list_of [self ''dev_port10'']] []),
        run (api_remove ''neighbor_entry'' (var ''nbr_entry'')),
        assign ''pre_stats'' (query ''sai_thrift_get_queue_stats'' [self ''cpu_queue0''] []),
        print [self ''dev_port11''],
        run (lib ''send_packet'' [self ''dev_port11'', var ''pkt''] []),
        sleep_for (num 4),
        assign ''post_stats'' (query ''sai_thrift_get_queue_stats'' [self ''cpu_queue0''] []),
        assert_eq (item (var ''post_stats'') (str ''SAI_QUEUE_STAT_PACKETS'')) (add (item (var ''pre_stats'') (str
          ''SAI_QUEUE_STAT_PACKETS'')) (num 1)),
        print [var ''ip_addr'', self ''port10_rif'', var ''dmac''],
        assign ''nbr_entry'' (struct ''sai_thrift_neighbor_entry_t'' [(''rif_id'', self ''port10_rif''), (''ip_address'',
          ip_address (var ''ip_addr''))]),
        run (api_create_entry ''neighbor_entry'' (var ''nbr_entry'') [(''dst_mac_address'', var ''dmac'')]),
        print [self ''dev_port11'', self ''dev_port10'', var ''pkt_ip_src'', var ''pkt_ip_dst''],
        run (lib ''send_packet'' [self ''dev_port11'', var ''pkt''] []),
        run (lib ''verify_packets'' [var ''exp_pkt1'', list_of [self ''dev_port10'']] []),
        run (api_remove ''route_entry'' (var ''route_entry'')),
        run (api_remove ''neighbor_entry'' (var ''nbr_entry'')),
        print [self ''dev_port11''],
        run (lib ''send_packet'' [self ''dev_port11'', var ''pkt''] []),
        run (lib ''verify_no_other_packets'' [] []),
        print [var ''ip_addr_subnet'', self ''port10_rif''],
        assign ''route_entry'' (struct ''sai_thrift_route_entry_t'' [(''vr_id'', self ''default_vrf''), (''destination'',
          ip_prefix (var ''ip_addr_subnet''))]),
        run (api_create_entry ''route_entry'' (var ''route_entry'') [(''next_hop_id'', self ''port10_rif'')]),
        assign ''pre_stats'' (query ''sai_thrift_get_queue_stats'' [self ''cpu_queue0''] []),
        print [self ''dev_port11''],
        run (lib ''send_packet'' [self ''dev_port11'', var ''pkt''] []),
        sleep_for (num 4),
        assign ''post_stats'' (query ''sai_thrift_get_queue_stats'' [self ''cpu_queue0''] []),
        assert_eq (item (var ''post_stats'') (str ''SAI_QUEUE_STAT_PACKETS'')) (add (item (var ''pre_stats'') (str
          ''SAI_QUEUE_STAT_PACKETS'')) (num 1)),
        print [var ''ip_addr'', self ''port10_rif'', var ''dmac''],
        assign ''nbr_entry'' (struct ''sai_thrift_neighbor_entry_t'' [(''rif_id'', self ''port10_rif''), (''ip_address'',
          ip_address (var ''ip_addr''))]),
        run (api_create_entry ''neighbor_entry'' (var ''nbr_entry'') [(''dst_mac_address'', var ''dmac'')]),
        print [self ''dev_port11'', self ''dev_port10'', var ''pkt_ip_src'', var ''pkt_ip_dst''],
        run (lib ''send_packet'' [self ''dev_port11'', var ''pkt''] []),
        run (lib ''verify_packets'' [var ''exp_pkt1'', list_of [self ''dev_port10'']] [])] [
        run (api_remove ''route_entry'' (var ''route_entry'')),
        run (api_remove ''next_hop'' (var ''nhop'')),
        run (api_remove ''neighbor_entry'' (var ''nbr_entry''))]]"

definition routeNbrColisionTest_tearDown :: "'d stmt" where
  "routeNbrColisionTest_tearDown = block [
      super_tearDown]"

definition L3DirBcastRouteTestHelper_setUp :: "'d stmt" where
  "L3DirBcastRouteTestHelper_setUp = block [
      super_setUp,
      assign ''vlan100_id'' (num 100),
      set_self ''ip_addr1'' (str ''10.10.10.1''),
      set_self ''ip_addr1_subnet'' (str ''10.10.10.0/24''),
      set_self ''dmac1'' (str ''00:11:22:33:44:55''),
      set_self ''dir_bcast_ip_addr1'' (str ''10.10.10.255''),
      set_self ''dir_bcast_dmac1'' (str ''ff:ff:ff:ff:ff:ff''),
      set_self ''ip_addr2'' (str ''20.20.20.1''),
      set_self ''ip_addr2_subnet'' (str ''20.20.20.0/24''),
      set_self ''dmac2'' (str ''22:11:22:33:44:55''),
      set_self ''mac_action'' (num SAI_PACKET_ACTION_FORWARD),
      set_self ''port24_bp'' (api_create ''bridge_port'' [(''bridge_id'', self ''default_1q_bridge''), (''port_id'', self
        ''port24''), (''type'', num SAI_BRIDGE_PORT_TYPE_PORT)]),
      set_self ''port25_bp'' (api_create ''bridge_port'' [(''bridge_id'', self ''default_1q_bridge''), (''port_id'', self
        ''port25''), (''type'', num SAI_BRIDGE_PORT_TYPE_PORT)]),
      set_self ''vlan100'' (api_create ''vlan'' [(''vlan_id'', var ''vlan100_id'')]),
      set_self ''vlan100_member1'' (api_create ''vlan_member'' [(''vlan_id'', self ''vlan100''), (''bridge_port_id'', self
        ''port24_bp''), (''vlan_tagging_mode'', num SAI_VLAN_TAGGING_MODE_UNTAGGED)]),
      set_self ''vlan100_member2'' (api_create ''vlan_member'' [(''vlan_id'', self ''vlan100''), (''bridge_port_id'', self
        ''port25_bp''), (''vlan_tagging_mode'', num SAI_VLAN_TAGGING_MODE_UNTAGGED)]),
      run (api_set ''port'' (self ''port24'') [(''port_vlan_id'', var ''vlan100_id'')]),
      run (api_set ''port'' (self ''port25'') [(''port_vlan_id'', var ''vlan100_id'')]),
      set_self ''fdb_entry'' (struct ''sai_thrift_fdb_entry_t'' [(''switch_id'', self ''switch_id''), (''mac_address'', self
        ''dmac1''), (''bv_id'', self ''vlan100'')]),
      run (api_create_entry ''fdb_entry'' (self ''fdb_entry'') [(''type'', num SAI_FDB_ENTRY_TYPE_STATIC), (''bridge_port_id'',
        self ''port24_bp''), (''packet_action'', self ''mac_action'')]),
      set_self ''vlan100_rif'' (api_create ''router_interface'' [(''type'', num SAI_ROUTER_INTERFACE_TYPE_VLAN),
        (''virtual_router_id'', self ''default_vrf''), (''vlan_id'', self ''vlan100'')])]"

definition L3DirBcastRouteTestHelper_tearDown :: "'d stmt" where
  "L3DirBcastRouteTestHelper_tearDown = block [
      print [self ''vlan100_rif''],
      run (api_remove ''router_interface'' (self ''vlan100_rif'')),
      run (api_remove ''fdb_entry'' (self ''fdb_entry'')),
      run (api_set ''port'' (self ''port24'') [(''port_vlan_id'', num 0)]),
      run (api_set ''port'' (self ''port25'') [(''port_vlan_id'', num 0)]),
      print [self ''vlan100_member1''],
      run (api_remove ''vlan_member'' (self ''vlan100_member1'')),
      print [self ''vlan100_member2''],
      run (api_remove ''vlan_member'' (self ''vlan100_member2'')),
      print [self ''vlan100''],
      run (api_remove ''vlan'' (self ''vlan100'')),
      print [self ''port24_bp''],
      run (api_remove ''bridge_port'' (self ''port24_bp'')),
      print [self ''port25_bp''],
      run (api_remove ''bridge_port'' (self ''port25_bp'')),
      super_tearDown]"

definition L3DirBcastRouteTestHelper_trafficTrapTest1 :: "'d stmt" where
  "L3DirBcastRouteTestHelper_trafficTrapTest1 = block [
      try_finally [
        assign ''pkt_ip_src'' (str ''192.168.0.1''),
        assign ''pkt'' (lib ''simple_tcp_packet'' [] [(''eth_dst'', str ROUTER_MAC), (''eth_src'', str ''00:22:22:22:22:21''),
          (''ip_dst'', self ''ip_addr1''), (''ip_src'', var ''pkt_ip_src''), (''ip_id'', num 105), (''ip_ttl'', num 64)]),
        assign ''pre_stats'' (query ''sai_thrift_get_queue_stats'' [self ''cpu_queue0''] []),
        print [self ''dev_port10''],
        run (lib ''send_packet'' [self ''dev_port10'', var ''pkt''] []),
        sleep_for (num 4),
        assign ''post_stats'' (query ''sai_thrift_get_queue_stats'' [self ''cpu_queue0''] []),
        assert_eq (item (var ''post_stats'') (str ''SAI_QUEUE_STAT_PACKETS'')) (add (item (var ''pre_stats'') (str
          ''SAI_QUEUE_STAT_PACKETS'')) (num 1)),
        assign ''pkt'' (lib ''simple_tcp_packet'' [] [(''eth_dst'', str ROUTER_MAC), (''eth_src'', str ''00:22:22:22:22:22''),
          (''ip_dst'', self ''ip_addr2''), (''ip_src'', var ''pkt_ip_src''), (''ip_id'', num 105), (''ip_ttl'', num 64)]),
        assign ''pre_stats'' (query ''sai_thrift_get_queue_stats'' [self ''cpu_queue0''] []),
        print [self ''dev_port24''],
        run (lib ''send_packet'' [self ''dev_port24'', var ''pkt''] []),
        sleep_for (num 4),
        assign ''post_stats'' (query ''sai_thrift_get_queue_stats'' [self ''cpu_queue0''] []),
        assert_eq (item (var ''post_stats'') (str ''SAI_QUEUE_STAT_PACKETS'')) (add (item (var ''pre_stats'') (str
          ''SAI_QUEUE_STAT_PACKETS'')) (num 1))] []]"

definition L3DirBcastRouteTestHelper_trafficTrapTest2 :: "'d stmt" where
  "L3DirBcastRouteTestHelper_trafficTrapTest2 = block [
      try_finally [
        assign ''pkt_ip_src'' (str ''192.168.0.1''),
        assign ''pkt_ip_dst'' (str ''10.10.10.2''),
        assign ''pkt'' (lib ''simple_tcp_packet'' [] [(''eth_dst'', str ROUTER_MAC), (''eth_src'', str ''00:22:22:22:22:21''),
          (''ip_dst'', var ''pkt_ip_dst''), (''ip_src'', var ''pkt_ip_src''), (''ip_id'', num 105), (''ip_ttl'', num 64)]),
        assign ''pre_stats'' (query ''sai_thrift_get_queue_stats'' [self ''cpu_queue0''] []),
        print [self ''dev_port10''],
        run (lib ''send_packet'' [self ''dev_port10'', var ''pkt''] []),
        sleep_for (num 4),
        assign ''post_stats'' (query ''sai_thrift_get_queue_stats'' [self ''cpu_queue0''] []),
        assert_eq (item (var ''post_stats'') (str ''SAI_QUEUE_STAT_PACKETS'')) (add (item (var ''pre_stats'') (str
          ''SAI_QUEUE_STAT_PACKETS'')) (num 1)),
        assign ''pkt_ip_dst'' (str ''20.20.20.2''),
        assign ''pkt'' (lib ''simple_tcp_packet'' [] [(''eth_dst'', str ROUTER_MAC), (''eth_src'', str ''00:22:22:22:22:22''),
          (''ip_dst'', var ''pkt_ip_dst''), (''ip_src'', var ''pkt_ip_src''), (''ip_id'', num 105), (''ip_ttl'', num 64)]),
        assign ''pre_stats'' (query ''sai_thrift_get_queue_stats'' [self ''cpu_queue0''] []),
        print [self ''dev_port24''],
        run (lib ''send_packet'' [self ''dev_port24'', var ''pkt''] []),
        sleep_for (num 4),
        assign ''post_stats'' (query ''sai_thrift_get_queue_stats'' [self ''cpu_queue0''] []),
        assert_eq (item (var ''post_stats'') (str ''SAI_QUEUE_STAT_PACKETS'')) (add (item (var ''pre_stats'') (str
          ''SAI_QUEUE_STAT_PACKETS'')) (num 1))] []]"

definition L3DirBcastRouteTestHelper_trafficTest :: "'d stmt" where
  "L3DirBcastRouteTestHelper_trafficTest = block [
      try_finally [
        assign ''pkt_ip_src'' (str ''192.168.0.1''),
        assign ''pkt'' (lib ''simple_tcp_packet'' [] [(''eth_dst'', str ROUTER_MAC), (''eth_src'', str ''00:22:22:22:22:21''),
          (''ip_dst'', self ''ip_addr1''), (''ip_src'', var ''pkt_ip_src''), (''ip_id'', num 105), (''ip_ttl'', num 64)]),
        assign ''exp_pkt'' (lib ''simple_tcp_packet'' [] [(''eth_dst'', self ''dmac1''), (''eth_src'', str ROUTER_MAC),
          (''ip_dst'', self ''ip_addr1''), (''ip_src'', var ''pkt_ip_src''), (''ip_id'', num 105), (''ip_ttl'', num 63)]),
        print [self ''dev_port10'', self ''dev_port24'', var ''pkt_ip_src'', self ''ip_addr1''],
        run (lib ''send_packet'' [self ''dev_port10'', var ''pkt''] []),
        run (lib ''verify_packets'' [var ''exp_pkt'', list_of [self ''dev_port24'']] []),
        assign ''pkt'' (lib ''simple_tcp_packet'' [] [(''eth_dst'', str ROUTER_MAC), (''eth_src'', str ''00:22:22:22:22:22''),
          (''ip_dst'', self ''dir_bcast_ip_addr1''), (''ip_src'', var ''pkt_ip_src''), (''ip_id'', num 105), (''ip_ttl'', num
          64)]),
        assign ''exp_pkt'' (lib ''simple_tcp_packet'' [] [(''eth_dst'', self ''dir_bcast_dmac1''), (''eth_src'', str
          ROUTER_MAC), (''ip_dst'', self ''dir_bcast_ip_addr1''), (''ip_src'', var ''pkt_ip_src''), (''ip_id'', num 105),
          (''ip_ttl'', num 63)]),
        print [self ''dev_port10'', self ''dev_port24'', self ''dev_port25'', var ''pkt_ip_src'', self ''dir_bcast_ip_addr1''],
        run (lib ''send_packet'' [self ''dev_port10'', var ''pkt''] []),
        run (lib ''verify_packets'' [var ''exp_pkt''] [(''ports'', list_of [self ''dev_port24'', self ''dev_port25''])]),
        assign ''pkt'' (lib ''simple_tcp_packet'' [] [(''eth_dst'', str ROUTER_MAC), (''eth_src'', str ''00:22:22:22:22:23''),
          (''ip_dst'', self ''ip_addr2''), (''ip_src'', var ''pkt_ip_src''), (''ip_id'', num 105), (''ip_ttl'', num 64)]),
        assign ''exp_pkt'' (lib ''simple_tcp_packet'' [] [(''eth_dst'', self ''dmac2''), (''eth_src'', str ROUTER_MAC),
          (''ip_dst'', self ''ip_addr2''), (''ip_src'', var ''pkt_ip_src''), (''ip_id'', num 105), (''ip_ttl'', num 63)]),
        print [self ''dev_port25'', self ''dev_port10'', var ''pkt_ip_src'', self ''ip_addr2''],
        run (lib ''send_packet'' [self ''dev_port25'', var ''pkt''] []),
        run (lib ''verify_packets'' [var ''exp_pkt'', list_of [self ''dev_port10'']] [])] []]"

definition DirBcastGleanAndForwardTest_setUp :: "'d stmt" where
  "DirBcastGleanAndForwardTest_setUp = block [
      run (invoke [] L3DirBcastRouteTestHelper_setUp)]"

definition DirBcastGleanAndForwardTest_tearDown :: "'d stmt" where
  "DirBcastGleanAndForwardTest_tearDown = block [
      run (invoke [] L3DirBcastRouteTestHelper_tearDown)]"

definition DirBcastForwardTest_setUp :: "'d stmt" where
  "DirBcastForwardTest_setUp = block [
      run (invoke [] L3DirBcastRouteTestHelper_setUp)]"

definition DirBcastForwardTest_runTest :: "'d stmt" where
  "DirBcastForwardTest_runTest = block [
      assign ''nhop1'' (num 0),
      assign ''nhop2'' (num 0),
      try_finally [
        print [self ''ip_addr1'', self ''vlan100_rif'', self ''dmac1''],
        assign ''nbr_entry1'' (struct ''sai_thrift_neighbor_entry_t'' [(''rif_id'', self ''vlan100_rif''), (''ip_address'',
          ip_address (self ''ip_addr1''))]),
        run (api_create_entry ''neighbor_entry'' (var ''nbr_entry1'') [(''dst_mac_address'', self ''dmac1'')]),
        print [self ''ip_addr1'', self ''vlan100_rif''],
        assign ''nhop1'' (api_create ''next_hop'' [(''ip'', ip_address (self ''ip_addr1'')), (''router_interface_id'', self
          ''vlan100_rif''), (''type'', num SAI_NEXT_HOP_TYPE_IP)]),
        print [self ''ip_addr2'', self ''port10_rif'', self ''dmac2''],
        assign ''nbr_entry2'' (struct ''sai_thrift_neighbor_entry_t'' [(''rif_id'', self ''port10_rif''), (''ip_address'',
          ip_address (self ''ip_addr2''))]),
        run (api_create_entry ''neighbor_entry'' (var ''nbr_entry2'') [(''dst_mac_address'', self ''dmac2'')]),
        print [self ''ip_addr2'', self ''port10_rif''],
        assign ''nhop2'' (api_create ''next_hop'' [(''ip'', ip_address (self ''ip_addr2'')), (''router_interface_id'', self
          ''port10_rif''), (''type'', num SAI_NEXT_HOP_TYPE_IP)]),
        print [self ''dir_bcast_ip_addr1'', self ''vlan100_rif'', self ''dir_bcast_dmac1''],
        assign ''nbr_entry0'' (struct ''sai_thrift_neighbor_entry_t'' [(''rif_id'', self ''vlan100_rif''), (''ip_address'',
          ip_address (self ''dir_bcast_ip_addr1''))]),
        run (api_create_entry ''neighbor_entry'' (var ''nbr_entry0'') [(''dst_mac_address'', self ''dir_bcast_dmac1'')]),
        print [self ''ip_addr1_subnet'', self ''vlan100_rif''],
        assign ''route_entry1'' (struct ''sai_thrift_route_entry_t'' [(''vr_id'', self ''default_vrf''), (''destination'',
          ip_prefix (self ''ip_addr1_subnet''))]),
        run (api_create_entry ''route_entry'' (var ''route_entry1'') [(''next_hop_id'', self ''vlan100_rif'')]),
        print [self ''ip_addr2_subnet'', self ''port10_rif''],
        assign ''route_entry2'' (struct ''sai_thrift_route_entry_t'' [(''vr_id'', self ''default_vrf''), (''destination'',
          ip_prefix (self ''ip_addr2_subnet''))]),
        run (api_create_entry ''route_entry'' (var ''route_entry2'') [(''next_hop_id'', self ''port10_rif'')]),
        run (invoke [] L3DirBcastRouteTestHelper_trafficTest),
        run (invoke [] L3DirBcastRouteTestHelper_trafficTrapTest2)] [
        run (api_remove ''route_entry'' (var ''route_entry1'')),
        run (api_remove ''route_entry'' (var ''route_entry2'')),
        if_else (var ''nhop1'') [
          run (api_remove ''next_hop'' (var ''nhop1''))] [],
        if_else (var ''nhop2'') [
          run (api_remove ''next_hop'' (var ''nhop2''))] [],
        run (api_remove ''neighbor_entry'' (var ''nbr_entry1'')),
        run (api_remove ''neighbor_entry'' (var ''nbr_entry2'')),
        run (api_remove ''neighbor_entry'' (var ''nbr_entry0''))]]"

definition DirBcastForwardTest_tearDown :: "'d stmt" where
  "DirBcastForwardTest_tearDown = block [
      run (invoke [] L3DirBcastRouteTestHelper_tearDown)]"

end
