(* ===== verification/TestsSanity.thy ===== *)
theory TestsSanity
  imports PtfOwn PtfConstants
begin

text \<open>
  The tests of basic forwarding, \<open>ptf/saisanity.py\<close>: a definition per method, statement by statement in the language of
  \<open>PtfScript\<close>, named after its class. A parameter \<open>m_f\<close> is a method \<open>f\<close> that derived classes define anew.
\<close>

section \<open>The tests\<close>

definition L2TrunkToTrunkVlanTest_runTest :: "'d stmt" where
  "L2TrunkToTrunkVlanTest_runTest = block [
      assign ''pkt'' (lib ''simple_tcp_packet'' [] [(''eth_dst'', str ''00:22:22:22:22:22''), (''eth_src'', str
        ''00:12:12:12:12:13''), (''ip_dst'', str ''10.0.0.1''), (''ip_id'', num 101), (''ip_ttl'', num 64)]),
      try_finally [
        sleep_for (num 5),
        run (lib ''send_packet'' [self ''dev_port0'', var ''pkt''] []),
        run (lib ''verify_packet'' [var ''pkt'', self ''dev_port1''] [])] []]"

definition L2TrunkToAccessVlanTest_runTest :: "'d stmt" where
  "L2TrunkToAccessVlanTest_runTest = block [
      assign ''pkt'' (lib ''simple_udp_packet'' [] [(''eth_dst'', str ''00:22:22:22:22:22''), (''eth_src'', str
        ''00:12:12:12:12:13''), (''dl_vlan_enable'', bool True), (''vlan_vid'', num 10), (''ip_dst'', str ''172.16.0.1''),
        (''ip_id'', num 102), (''ip_ttl'', num 64)]),
      assign ''exp_pkt'' (lib ''simple_udp_packet'' [] [(''eth_dst'', str ''00:22:22:22:22:22''), (''eth_src'', str
        ''00:12:12:12:12:13''), (''ip_dst'', str ''172.16.0.1''), (''ip_id'', num 102), (''ip_ttl'', num 64), (''pktlen'', num
        96)]),
      try_finally [
        sleep_for (num 5),
        run (lib ''send_packet'' [self ''dev_port0'', var ''pkt''] []),
        run (lib ''verify_packet'' [var ''exp_pkt'', self ''dev_port1''] [])] []]"

definition L2SanityTest_gen_mac :: "'d stmt" where
  "L2SanityTest_gen_mac = block [
      for_in [''index''] (range_of (num 0) (length_of (self ''port_list''))) [
        assign ''mac'' (str ''00''),
        if_else (lt (var ''index'') (num 9)) [
          assign ''section'' (add (add (str '':'') (str ''0'')) (as_str (add (var ''index'') (num 1))))] [
          assign ''section'' (add (str '':'') (as_str (add (var ''index'') (num 1))))],
        assign ''mac'' (add (var ''mac'') (mul (var ''section'') (num 5))),
        set_self_named (formatted ''mac%s'' [var ''index'']) (var ''mac'')]]"

definition L2SanityTest_create_vlan_ports :: "'d stmt" where
  "L2SanityTest_create_vlan_ports = block [
      for_in [''index''] (range_of (num 0) (length_of (self ''port_list''))) [
        assign ''port_bp'' (self_named (formatted ''port%s_bp'' [var ''index''])),
        if_else (eq (modulo (var ''index'') (num 2)) (num 0)) [
          assign ''vlan_member'' (api_create ''vlan_member'' [(''vlan_id'', self ''vlan_oid''), (''bridge_port_id'', var
            ''port_bp''), (''vlan_tagging_mode'', num SAI_VLAN_TAGGING_MODE_UNTAGGED)])] [
          assign ''vlan_member'' (api_create ''vlan_member'' [(''vlan_id'', self ''vlan_oid''), (''bridge_port_id'', var
            ''port_bp''), (''vlan_tagging_mode'', num SAI_VLAN_TAGGING_MODE_TAGGED)])],
        set_self_named (formatted ''vlan%s_member%s'' [var ''vlanid'', var ''index'']) (var ''vlan_member'')]]"

definition L2SanityTest_set_port_vlan :: "'d stmt" where
  "L2SanityTest_set_port_vlan = block [
      for_in [''index''] (range_of (num 0) (length_of (self ''port_list''))) [
        assign ''port_id'' (self_named (formatted ''port%s'' [var ''index''])),
        run (api_set ''port'' (var ''port_id'') [(''port_vlan_id'', var ''vlan_id'')])]]"

definition L2SanityTest_create_port_fdb :: "'d stmt" where
  "L2SanityTest_create_port_fdb = block [
      for_in [''index''] (range_of (num 0) (length_of (self ''port_list''))) [
        assign ''mac'' (self_named (formatted ''mac%s'' [var ''index''])),
        assign ''port_bp'' (self_named (formatted ''port%s_bp'' [var ''index''])),
        assign ''fdb_entry'' (struct ''sai_thrift_fdb_entry_t'' [(''switch_id'', self ''switch_id''), (''mac_address'', var
          ''mac''), (''bv_id'', var ''vlan_oid'')]),
        run (api_create_entry ''fdb_entry'' (var ''fdb_entry'') [(''type'', num SAI_FDB_ENTRY_TYPE_STATIC), (''bridge_port_id'',
          var ''port_bp''), (''packet_action'', var ''mac_action'')]),
        set_self_named (formatted ''fdb_entry%s'' [var ''index'']) (var ''fdb_entry'')]]"

definition L2SanityTest_create_pkt :: "'d stmt" where
  "L2SanityTest_create_pkt = block [
      for_in [''index''] (range_of (num 0) (length_of (self ''port_list''))) [
        assign ''target_mac'' (self_named (formatted ''mac%s'' [var ''index''])),
        if_else (eq (modulo (var ''index'') (num 2)) (num 0)) [
          assign ''pkt'' (lib ''simple_tcp_packet'' [] [(''eth_src'', self ''src_mac''), (''eth_dst'', var ''target_mac''),
            (''ip_dst'', str ''172.16.0.1''), (''ip_id'', num 101), (''ip_ttl'', num 64)])] [
          assign ''pkt'' (lib ''simple_tcp_packet'' [] [(''eth_dst'', var ''target_mac''), (''eth_src'', self ''src_mac''),
            (''dl_vlan_enable'', bool True), (''vlan_vid'', var ''vlan_id''), (''ip_dst'', str ''172.16.0.1''), (''ip_id'', num
            102), (''ip_ttl'', num 64)])],
        set_self_named (formatted ''pkt%s'' [var ''index'']) (var ''pkt'')]]"

definition L2SanityTest_create_exp_pkt :: "'d stmt" where
  "L2SanityTest_create_exp_pkt = block [
      for_in [''index''] (range_of (num 0) (length_of (self ''port_list''))) [
        assign ''target_mac'' (self_named (formatted ''mac%s'' [var ''index''])),
        if_else (eq (modulo (var ''index'') (num 2)) (num 0)) [
          assign ''exp_pkt'' (self_named (formatted ''pkt%s'' [var ''index'']))] [
          assign ''exp_pkt'' (lib ''simple_tcp_packet'' [] [(''eth_dst'', var ''target_mac''), (''eth_src'', self ''src_mac''),
            (''ip_dst'', str ''172.16.0.1''), (''ip_id'', num 102), (''dl_vlan_enable'', bool True), (''vlan_vid'', var
            ''vlan_id''), (''ip_ttl'', num 64)])],
        set_self_named (formatted ''exp_pkt%s'' [var ''index'']) (var ''exp_pkt'')]]"

definition L2SanityTest_test_flooding_to_ports :: "'d stmt" where
  "L2SanityTest_test_flooding_to_ports = block [
      assign ''unknown_mac1'' (str ''00:01:01:99:99:99''),
      assign ''unknown_mac2'' (str ''00:01:02:99:99:99''),
      assign ''pkt'' (lib ''simple_udp_packet'' [] [(''eth_dst'', var ''unknown_mac1''), (''eth_src'', var ''unknown_mac2''),
        (''ip_id'', num 101), (''ip_ttl'', num 64)]),
      try_finally [
        run (lib ''dataplane.flush'' [] []),
        run (lib ''send_packet'' [num 1, var ''pkt''] []),
        assign ''received_index'' (lib ''verify_each_packet_on_multiple_port_lists'' [list_of [var ''pkt''], list_of [range_of
          (num 2) (length_of (self ''port_list''))]] [])] []]"

definition L2SanityTest_test_forwad_to_each_port :: "'d stmt" where
  "L2SanityTest_test_forwad_to_each_port = block [
      try_finally [
        for_in [''index''] (range_step (num 2) (length_of (self ''port_list'')) (num 2)) [
          run (lib ''dataplane.flush'' [] []),
          print [var ''index''],
          assign ''target_pkt'' (self_named (formatted ''pkt%s'' [var ''index''])),
          assign ''exp_pkt'' (self_named (formatted ''exp_pkt%s'' [var ''index''])),
          run (lib ''send_packet'' [self ''dev_port0'', var ''target_pkt''] []),
          run (lib ''verify_packet'' [var ''exp_pkt'', var ''index''] [])]] []]"

definition L2SanityTest_runTest :: "'d stmt" where
  "L2SanityTest_runTest = block [
      run (invoke [] L2SanityTest_test_flooding_to_ports),
      sleep_for (num 5),
      run (invoke [] L2SanityTest_test_forwad_to_each_port)]"

definition L2SanityTest_reset_port_vlan :: "'d stmt" where
  "L2SanityTest_reset_port_vlan = block [
      for_in [''index''] (range_of (num 0) (length_of (self ''port_list''))) [
        assign ''port_id'' (self_named (formatted ''port%s'' [var ''index''])),
        run (api_set ''port'' (var ''port_id'') [(''port_vlan_id'', var ''reset_vlan_id'')])]]"

definition L2SanityTest_remove_fdb :: "'d stmt" where
  "L2SanityTest_remove_fdb = block [
      for_in [''index''] (range_of (num 0) (length_of (self ''port_list''))) [
        assign ''fdb_entry'' (self_named (formatted ''fdb_entry%s'' [var ''index''])),
        run (api_remove ''fdb_entry'' (var ''fdb_entry''))]]"

definition L2SanityTest_remove_vlan_member :: "'d stmt" where
  "L2SanityTest_remove_vlan_member = block [
      for_in [''index''] (range_of (num 0) (length_of (self ''port_list''))) [
        assign ''vlan_member'' (self_named (formatted ''vlan%s_member%s'' [var ''vlan_id'', var ''index''])),
        run (api_remove ''vlan_member'' (var ''vlan_member''))]]"

definition set_vlan_data :: "'d stmt" where
  "set_vlan_data = block [
      assign ''vlan_data_dict'' (dict_of [(str ''vlan_id'', var ''vlan_id''), (str ''ports'', var ''ports''), (str ''untagged'',
        var ''untagged''), (str ''large_port'', var ''large_port'')]),
      return (var ''vlan_data_dict'')]"

end
