(* ===== verification/TestsScheduler.thy ===== *)
theory TestsScheduler
  imports PtfOwn PtfConstants
begin

text \<open>
  The tests of schedulers, \<open>ptf/saischeduler.py\<close>: a definition per method, statement by statement in the language of
  \<open>PtfScript\<close>, named after its class. A parameter \<open>m_f\<close> is a method \<open>f\<close> that derived classes define anew.
\<close>

section \<open>The tests\<close>

definition SchedulerParamsTest_setUp :: "'d stmt" where
  "SchedulerParamsTest_setUp = block [
      super_setUp,
      assign ''queue_list'' (struct ''sai_thrift_object_list_t'' [(''count'', num 10)]),
      assign ''port_attr'' (api_get ''port'' (self ''port1'') [(''qos_queue_list'', var ''queue_list'')]),
      set_self ''test_queue'' (item (field (item (var ''port_attr'') (str ''qos_queue_list'')) ''idlist'') (num 0))]"

definition SchedulerParamsTest_schedulerWeightTest :: "'d stmt" where
  "SchedulerParamsTest_schedulerWeightTest = block [
      try_finally [
        assign ''sched'' (api_create ''scheduler'' [(''meter_type'', num SAI_METER_TYPE_PACKETS), (''scheduling_type'', num
          SAI_SCHEDULING_TYPE_DWRR), (''scheduling_weight'', num 2)]),
        assert_ne (var ''sched'') (num 0),
        assign ''sched_attr'' (api_get ''scheduler'' (var ''sched'') [(''meter_type'', bool True), (''scheduling_type'', bool
          True), (''scheduling_weight'', bool True)]),
        assert_eq (item (var ''sched_attr'') (str ''meter_type'')) (num SAI_METER_TYPE_PACKETS),
        assert_eq (item (var ''sched_attr'') (str ''scheduling_type'')) (num SAI_SCHEDULING_TYPE_DWRR),
        assert_eq (item (var ''sched_attr'') (str ''scheduling_weight'')) (num 2),
        assign ''status'' (api_set ''queue'' (self ''test_queue'') [(''scheduler_profile_id'', var ''sched'')]),
        assert_eq (var ''status'') (num SAI_STATUS_SUCCESS),
        assign ''queue_attr'' (api_get ''queue'' (self ''test_queue'') [(''scheduler_profile_id'', bool True)]),
        assert_eq (item (var ''queue_attr'') (str ''scheduler_profile_id'')) (var ''sched''),
        assign ''status'' (api_set ''scheduler'' (var ''sched'') [(''scheduling_weight'', num 4)]),
        assert_eq (var ''status'') (num SAI_STATUS_SUCCESS),
        assign ''sched_attr'' (api_get ''scheduler'' (var ''sched'') [(''scheduling_weight'', bool True)]),
        assert_eq (item (var ''sched_attr'') (str ''scheduling_weight'')) (num 4)] [
        run (api_set ''queue'' (self ''test_queue'') [(''scheduler_profile_id'', num 0)]),
        run (api_remove ''scheduler'' (var ''sched''))]]"

definition SchedulerParamsTest_schedulerStictPriorityTest :: "'d stmt" where
  "SchedulerParamsTest_schedulerStictPriorityTest = block [
      try_finally [
        assign ''sched'' (api_create ''scheduler'' [(''meter_type'', num SAI_METER_TYPE_PACKETS), (''scheduling_type'', num
          SAI_SCHEDULING_TYPE_STRICT)]),
        assert_ne (var ''sched'') (num 0),
        assign ''sched_attr'' (api_get ''scheduler'' (var ''sched'') [(''meter_type'', bool True), (''scheduling_type'', bool
          True)]),
        assert_eq (item (var ''sched_attr'') (str ''meter_type'')) (num SAI_METER_TYPE_PACKETS),
        assert_eq (item (var ''sched_attr'') (str ''scheduling_type'')) (num SAI_SCHEDULING_TYPE_STRICT),
        assign ''status'' (api_set ''queue'' (self ''test_queue'') [(''scheduler_profile_id'', var ''sched'')]),
        assert_eq (var ''status'') (num SAI_STATUS_SUCCESS),
        assign ''queue_attr'' (api_get ''queue'' (self ''test_queue'') [(''scheduler_profile_id'', bool True)]),
        assert_eq (item (var ''queue_attr'') (str ''scheduler_profile_id'')) (var ''sched'')] [
        run (api_set ''queue'' (self ''test_queue'') [(''scheduler_profile_id'', num 0)]),
        run (api_remove ''scheduler'' (var ''sched''))]]"

definition SchedulerParamsTest_schedulerMinBwidthRateTest :: "'d stmt" where
  "SchedulerParamsTest_schedulerMinBwidthRateTest = block [
      try_finally [
        assign ''sched'' (api_create ''scheduler'' [(''meter_type'', num SAI_METER_TYPE_PACKETS), (''min_bandwidth_rate'', num
          100), (''scheduling_type'', num SAI_SCHEDULING_TYPE_STRICT)]),
        assert_ne (var ''sched'') (num 0),
        assign ''sched_attr'' (api_get ''scheduler'' (var ''sched'') [(''meter_type'', bool True), (''min_bandwidth_rate'', bool
          True), (''scheduling_type'', bool True)]),
        assert_eq (item (var ''sched_attr'') (str ''meter_type'')) (num SAI_METER_TYPE_PACKETS),
        assert_eq (item (var ''sched_attr'') (str ''min_bandwidth_rate'')) (num 100),
        assert_eq (item (var ''sched_attr'') (str ''scheduling_type'')) (num SAI_SCHEDULING_TYPE_STRICT),
        assign ''status'' (api_set ''queue'' (self ''test_queue'') [(''scheduler_profile_id'', var ''sched'')]),
        assert_eq (var ''status'') (num SAI_STATUS_SUCCESS),
        assign ''queue_attr'' (api_get ''queue'' (self ''test_queue'') [(''scheduler_profile_id'', bool True)]),
        assert_eq (item (var ''queue_attr'') (str ''scheduler_profile_id'')) (var ''sched''),
        assign ''status'' (api_set ''scheduler'' (var ''sched'') [(''min_bandwidth_rate'', num 200)]),
        assert_eq (var ''status'') (num SAI_STATUS_SUCCESS),
        assign ''sched_attr'' (api_get ''scheduler'' (var ''sched'') [(''min_bandwidth_rate'', bool True)]),
        assert_eq (item (var ''sched_attr'') (str ''min_bandwidth_rate'')) (num 200)] [
        run (api_set ''queue'' (self ''test_queue'') [(''scheduler_profile_id'', num 0)]),
        run (api_remove ''scheduler'' (var ''sched''))]]"

definition SchedulerParamsTest_schedulerMaxBwidthRateTest :: "'d stmt" where
  "SchedulerParamsTest_schedulerMaxBwidthRateTest = block [
      try_finally [
        assign ''sched'' (api_create ''scheduler'' [(''meter_type'', num SAI_METER_TYPE_PACKETS), (''max_bandwidth_rate'', num
          1000), (''scheduling_type'', num SAI_SCHEDULING_TYPE_STRICT)]),
        assert_ne (var ''sched'') (num 0),
        assign ''sched_attr'' (api_get ''scheduler'' (var ''sched'') [(''meter_type'', bool True), (''max_bandwidth_rate'', bool
          True), (''scheduling_type'', bool True)]),
        assert_eq (item (var ''sched_attr'') (str ''meter_type'')) (num SAI_METER_TYPE_PACKETS),
        assert_eq (item (var ''sched_attr'') (str ''max_bandwidth_rate'')) (num 1000),
        assert_eq (item (var ''sched_attr'') (str ''scheduling_type'')) (num SAI_SCHEDULING_TYPE_STRICT),
        assign ''status'' (api_set ''queue'' (self ''test_queue'') [(''scheduler_profile_id'', var ''sched'')]),
        assert_eq (var ''status'') (num SAI_STATUS_SUCCESS),
        assign ''queue_attr'' (api_get ''queue'' (self ''test_queue'') [(''scheduler_profile_id'', bool True)]),
        assert_eq (item (var ''queue_attr'') (str ''scheduler_profile_id'')) (var ''sched''),
        assign ''status'' (api_set ''scheduler'' (var ''sched'') [(''max_bandwidth_rate'', num 2000)]),
        assert_eq (var ''status'') (num SAI_STATUS_SUCCESS),
        assign ''sched_attr'' (api_get ''scheduler'' (var ''sched'') [(''max_bandwidth_rate'', bool True)]),
        assert_eq (item (var ''sched_attr'') (str ''max_bandwidth_rate'')) (num 2000)] [
        run (api_set ''queue'' (self ''test_queue'') [(''scheduler_profile_id'', num 0)]),
        run (api_remove ''scheduler'' (var ''sched''))]]"

definition SchedulerParamsTest_schedulerMinBwidthBurstRateTest :: "'d stmt" where
  "SchedulerParamsTest_schedulerMinBwidthBurstRateTest = block [
      try_finally [
        assign ''sched'' (api_create ''scheduler'' [(''meter_type'', num SAI_METER_TYPE_PACKETS), (''min_bandwidth_burst_rate'',
          num 100), (''scheduling_type'', num SAI_SCHEDULING_TYPE_STRICT)]),
        assert_ne (var ''sched'') (num 0),
        assign ''sched_attr'' (api_get ''scheduler'' (var ''sched'') [(''meter_type'', bool True),
          (''min_bandwidth_burst_rate'', bool True), (''scheduling_type'', bool True)]),
        assert_eq (item (var ''sched_attr'') (str ''meter_type'')) (num SAI_METER_TYPE_PACKETS),
        assert_eq (item (var ''sched_attr'') (str ''min_bandwidth_burst_rate'')) (num 100),
        assert_eq (item (var ''sched_attr'') (str ''scheduling_type'')) (num SAI_SCHEDULING_TYPE_STRICT),
        assign ''status'' (api_set ''queue'' (self ''test_queue'') [(''scheduler_profile_id'', var ''sched'')]),
        assert_eq (var ''status'') (num SAI_STATUS_SUCCESS),
        assign ''queue_attr'' (api_get ''queue'' (self ''test_queue'') [(''scheduler_profile_id'', bool True)]),
        assert_eq (item (var ''queue_attr'') (str ''scheduler_profile_id'')) (var ''sched''),
        assign ''status'' (api_set ''scheduler'' (var ''sched'') [(''min_bandwidth_burst_rate'', num 200)]),
        assert_eq (var ''status'') (num SAI_STATUS_SUCCESS),
        assign ''sched_attr'' (api_get ''scheduler'' (var ''sched'') [(''min_bandwidth_burst_rate'', bool True)]),
        assert_eq (item (var ''sched_attr'') (str ''min_bandwidth_burst_rate'')) (num 200)] [
        run (api_set ''queue'' (self ''test_queue'') [(''scheduler_profile_id'', num 0)]),
        run (api_remove ''scheduler'' (var ''sched''))]]"

definition SchedulerParamsTest_schedulerMaxBwidthBurstRateTest :: "'d stmt" where
  "SchedulerParamsTest_schedulerMaxBwidthBurstRateTest = block [
      try_finally [
        assign ''sched'' (api_create ''scheduler'' [(''meter_type'', num SAI_METER_TYPE_PACKETS), (''max_bandwidth_burst_rate'',
          num 1000), (''scheduling_type'', num SAI_SCHEDULING_TYPE_STRICT)]),
        assert_ne (var ''sched'') (num 0),
        assign ''sched_attr'' (api_get ''scheduler'' (var ''sched'') [(''meter_type'', bool True),
          (''max_bandwidth_burst_rate'', bool True), (''scheduling_type'', bool True)]),
        assert_eq (item (var ''sched_attr'') (str ''meter_type'')) (num SAI_METER_TYPE_PACKETS),
        assert_eq (item (var ''sched_attr'') (str ''max_bandwidth_burst_rate'')) (num 1000),
        assert_eq (item (var ''sched_attr'') (str ''scheduling_type'')) (num SAI_SCHEDULING_TYPE_STRICT),
        assign ''status'' (api_set ''queue'' (self ''test_queue'') [(''scheduler_profile_id'', var ''sched'')]),
        assert_eq (var ''status'') (num SAI_STATUS_SUCCESS),
        assign ''queue_attr'' (api_get ''queue'' (self ''test_queue'') [(''scheduler_profile_id'', bool True)]),
        assert_eq (item (var ''queue_attr'') (str ''scheduler_profile_id'')) (var ''sched''),
        assign ''status'' (api_set ''scheduler'' (var ''sched'') [(''max_bandwidth_burst_rate'', num 2000)]),
        assert_eq (var ''status'') (num SAI_STATUS_SUCCESS),
        assign ''sched_attr'' (api_get ''scheduler'' (var ''sched'') [(''max_bandwidth_burst_rate'', bool True)]),
        assert_eq (item (var ''sched_attr'') (str ''max_bandwidth_burst_rate'')) (num 2000)] [
        run (api_set ''queue'' (self ''test_queue'') [(''scheduler_profile_id'', num 0)]),
        run (api_remove ''scheduler'' (var ''sched''))]]"

definition SchedulerParamsTest_runTest :: "'d stmt" where
  "SchedulerParamsTest_runTest = block [
      run (invoke [] SchedulerParamsTest_schedulerWeightTest),
      run (invoke [] SchedulerParamsTest_schedulerStictPriorityTest),
      run (invoke [] SchedulerParamsTest_schedulerMinBwidthRateTest),
      run (invoke [] SchedulerParamsTest_schedulerMaxBwidthRateTest),
      run (invoke [] SchedulerParamsTest_schedulerMinBwidthBurstRateTest),
      run (invoke [] SchedulerParamsTest_schedulerMaxBwidthBurstRateTest)]"

definition SchedulerGroupAttachTest_setUp :: "'d stmt" where
  "SchedulerGroupAttachTest_setUp = block [
      super_setUp,
      try_except [
        set_self ''schgroup'' (api_create ''scheduler_group'' [(''level'', num 0), (''port_id'', self ''port1'')]),
        assert_ne (self ''schgroup'') (num 0)] (\<lambda>_. True) []]"

definition SchedulerGroupAttachTest_schedulerWeightGroupAttachTest :: "'d stmt" where
  "SchedulerGroupAttachTest_schedulerWeightGroupAttachTest = block [
      try_finally [
        assign ''sched'' (api_create ''scheduler'' [(''meter_type'', num SAI_METER_TYPE_PACKETS), (''scheduling_type'', num
          SAI_SCHEDULING_TYPE_DWRR), (''scheduling_weight'', num 2)]),
        assert_ne (var ''sched'') (num 0),
        assign ''sched_attr'' (api_get ''scheduler'' (var ''sched'') [(''meter_type'', bool True), (''scheduling_type'', bool
          True), (''scheduling_weight'', bool True)]),
        assert_eq (item (var ''sched_attr'') (str ''meter_type'')) (num SAI_METER_TYPE_PACKETS),
        assert_eq (item (var ''sched_attr'') (str ''scheduling_type'')) (num SAI_SCHEDULING_TYPE_DWRR),
        assert_eq (item (var ''sched_attr'') (str ''scheduling_weight'')) (num 2),
        assign ''status'' (api_set ''scheduler_group'' (self ''schgroup'') [(''scheduler_profile_id'', var ''sched'')]),
        assert_eq (var ''status'') (num SAI_STATUS_SUCCESS),
        assign ''schgroup_attr'' (api_get ''scheduler_group'' (self ''schgroup'') [(''scheduler_profile_id'', bool True)]),
        assert_eq (item (var ''schgroup_attr'') (str ''scheduler_profile_id'')) (var ''sched''),
        assign ''status'' (api_set ''scheduler'' (var ''sched'') [(''scheduling_weight'', num 4)]),
        assert_eq (var ''status'') (num SAI_STATUS_SUCCESS),
        assign ''sched_attr'' (api_get ''scheduler'' (var ''sched'') [(''scheduling_weight'', bool True)]),
        assert_eq (item (var ''sched_attr'') (str ''scheduling_weight'')) (num 4)] [
        run (api_set ''scheduler_group'' (self ''schgroup'') [(''scheduler_profile_id'', num 0)]),
        run (api_remove ''scheduler'' (var ''sched''))]]"

definition SchedulerGroupAttachTest_schedulerStrictPriorityGroupAttachTest :: "'d stmt" where
  "SchedulerGroupAttachTest_schedulerStrictPriorityGroupAttachTest = block [
      try_finally [
        assign ''sched'' (api_create ''scheduler'' [(''meter_type'', num SAI_METER_TYPE_PACKETS), (''scheduling_type'', num
          SAI_SCHEDULING_TYPE_STRICT)]),
        assert_ne (var ''sched'') (num 0),
        assign ''sched_attr'' (api_get ''scheduler'' (var ''sched'') [(''meter_type'', bool True), (''scheduling_type'', bool
          True)]),
        assert_eq (item (var ''sched_attr'') (str ''meter_type'')) (num SAI_METER_TYPE_PACKETS),
        assert_eq (item (var ''sched_attr'') (str ''scheduling_type'')) (num SAI_SCHEDULING_TYPE_STRICT),
        assign ''status'' (api_set ''scheduler_group'' (self ''schgroup'') [(''scheduler_profile_id'', var ''sched'')]),
        assert_eq (var ''status'') (num SAI_STATUS_SUCCESS),
        assign ''schgroup_attr'' (api_get ''scheduler_group'' (self ''schgroup'') [(''scheduler_profile_id'', bool True)]),
        assert_eq (item (var ''schgroup_attr'') (str ''scheduler_profile_id'')) (var ''sched''),
        assign ''status'' (api_set ''scheduler'' (var ''sched'') [(''scheduling_weight'', num 4)]),
        assert_eq (var ''status'') (num SAI_STATUS_SUCCESS),
        assign ''sched_attr'' (api_get ''scheduler'' (var ''sched'') [(''scheduling_weight'', bool True)]),
        assert_eq (item (var ''sched_attr'') (str ''scheduling_weight'')) (num 4)] [
        run (api_set ''scheduler_group'' (self ''schgroup'') [(''scheduler_profile_id'', num 0)]),
        run (api_remove ''scheduler'' (var ''sched''))]]"

definition SchedulerGroupAttachTest_schedulerMinBwidthRateGroupAttachTest :: "'d stmt" where
  "SchedulerGroupAttachTest_schedulerMinBwidthRateGroupAttachTest = block [
      try_finally [
        assign ''sched'' (api_create ''scheduler'' [(''meter_type'', num SAI_METER_TYPE_PACKETS), (''min_bandwidth_rate'', num
          100), (''scheduling_type'', num SAI_SCHEDULING_TYPE_STRICT)]),
        assert_ne (var ''sched'') (num 0),
        assign ''sched_attr'' (api_get ''scheduler'' (var ''sched'') [(''meter_type'', bool True), (''min_bandwidth_rate'', bool
          True), (''scheduling_type'', bool True)]),
        assert_eq (item (var ''sched_attr'') (str ''meter_type'')) (num SAI_METER_TYPE_PACKETS),
        assert_eq (item (var ''sched_attr'') (str ''min_bandwidth_rate'')) (num 100),
        assert_eq (item (var ''sched_attr'') (str ''scheduling_type'')) (num SAI_SCHEDULING_TYPE_STRICT),
        assign ''status'' (api_set ''scheduler_group'' (self ''schgroup'') [(''scheduler_profile_id'', var ''sched'')]),
        assert_eq (var ''status'') (num SAI_STATUS_SUCCESS),
        assign ''schgroup_attr'' (api_get ''scheduler_group'' (self ''schgroup'') [(''scheduler_profile_id'', bool True)]),
        assert_eq (item (var ''schgroup_attr'') (str ''scheduler_profile_id'')) (var ''sched''),
        assign ''status'' (api_set ''scheduler'' (var ''sched'') [(''min_bandwidth_rate'', num 200)]),
        assert_eq (var ''status'') (num SAI_STATUS_SUCCESS),
        assign ''sched_attr'' (api_get ''scheduler'' (var ''sched'') [(''min_bandwidth_rate'', bool True)]),
        assert_eq (item (var ''sched_attr'') (str ''min_bandwidth_rate'')) (num 200)] [
        run (api_set ''scheduler_group'' (self ''schgroup'') [(''scheduler_profile_id'', num 0)]),
        run (api_remove ''scheduler'' (var ''sched''))]]"

definition SchedulerGroupAttachTest_schedulerMaxBwidthRateGroupAttachTest :: "'d stmt" where
  "SchedulerGroupAttachTest_schedulerMaxBwidthRateGroupAttachTest = block [
      try_finally [
        assign ''sched'' (api_create ''scheduler'' [(''meter_type'', num SAI_METER_TYPE_PACKETS), (''max_bandwidth_rate'', num
          1000), (''scheduling_type'', num SAI_SCHEDULING_TYPE_STRICT)]),
        assert_ne (var ''sched'') (num 0),
        assign ''sched_attr'' (api_get ''scheduler'' (var ''sched'') [(''meter_type'', bool True), (''max_bandwidth_rate'', bool
          True), (''scheduling_type'', bool True)]),
        assert_eq (item (var ''sched_attr'') (str ''meter_type'')) (num SAI_METER_TYPE_PACKETS),
        assert_eq (item (var ''sched_attr'') (str ''max_bandwidth_rate'')) (num 1000),
        assert_eq (item (var ''sched_attr'') (str ''scheduling_type'')) (num SAI_SCHEDULING_TYPE_STRICT),
        assign ''status'' (api_set ''scheduler_group'' (self ''schgroup'') [(''scheduler_profile_id'', var ''sched'')]),
        assert_eq (var ''status'') (num SAI_STATUS_SUCCESS),
        assign ''schgroup_attr'' (api_get ''scheduler_group'' (self ''schgroup'') [(''scheduler_profile_id'', bool True)]),
        assert_eq (item (var ''schgroup_attr'') (str ''scheduler_profile_id'')) (var ''sched''),
        assign ''status'' (api_set ''scheduler'' (var ''sched'') [(''max_bandwidth_rate'', num 2000)]),
        assert_eq (var ''status'') (num SAI_STATUS_SUCCESS),
        assign ''sched_attr'' (api_get ''scheduler'' (var ''sched'') [(''max_bandwidth_rate'', bool True)]),
        assert_eq (item (var ''sched_attr'') (str ''max_bandwidth_rate'')) (num 2000)] [
        run (api_set ''scheduler_group'' (self ''schgroup'') [(''scheduler_profile_id'', num 0)]),
        run (api_remove ''scheduler'' (var ''sched''))]]"

definition SchedulerGroupAttachTest_schedulerMinBwidthBurstRateGroupAttachTest :: "'d stmt" where
  "SchedulerGroupAttachTest_schedulerMinBwidthBurstRateGroupAttachTest = block [
      try_finally [
        assign ''sched'' (api_create ''scheduler'' [(''meter_type'', num SAI_METER_TYPE_PACKETS), (''min_bandwidth_burst_rate'',
          num 100), (''scheduling_type'', num SAI_SCHEDULING_TYPE_STRICT)]),
        assert_ne (var ''sched'') (num 0),
        assign ''sched_attr'' (api_get ''scheduler'' (var ''sched'') [(''meter_type'', bool True),
          (''min_bandwidth_burst_rate'', bool True), (''scheduling_type'', bool True)]),
        assert_eq (item (var ''sched_attr'') (str ''meter_type'')) (num SAI_METER_TYPE_PACKETS),
        assert_eq (item (var ''sched_attr'') (str ''min_bandwidth_burst_rate'')) (num 100),
        assert_eq (item (var ''sched_attr'') (str ''scheduling_type'')) (num SAI_SCHEDULING_TYPE_STRICT),
        assign ''status'' (api_set ''scheduler_group'' (self ''schgroup'') [(''scheduler_profile_id'', var ''sched'')]),
        assert_eq (var ''status'') (num SAI_STATUS_SUCCESS),
        assign ''schgroup_attr'' (api_get ''scheduler_group'' (self ''schgroup'') [(''scheduler_profile_id'', bool True)]),
        assert_eq (item (var ''schgroup_attr'') (str ''scheduler_profile_id'')) (var ''sched''),
        assign ''status'' (api_set ''scheduler'' (var ''sched'') [(''min_bandwidth_burst_rate'', num 200)]),
        assert_eq (var ''status'') (num SAI_STATUS_SUCCESS),
        assign ''sched_attr'' (api_get ''scheduler'' (var ''sched'') [(''min_bandwidth_burst_rate'', bool True)]),
        assert_eq (item (var ''sched_attr'') (str ''min_bandwidth_burst_rate'')) (num 200)] [
        run (api_set ''scheduler_group'' (self ''schgroup'') [(''scheduler_profile_id'', num 0)]),
        run (api_remove ''scheduler'' (var ''sched''))]]"

definition SchedulerGroupAttachTest_schedulerMaxBwidthBurstRateGroupAttachTest :: "'d stmt" where
  "SchedulerGroupAttachTest_schedulerMaxBwidthBurstRateGroupAttachTest = block [
      try_finally [
        assign ''sched'' (api_create ''scheduler'' [(''meter_type'', num SAI_METER_TYPE_PACKETS), (''max_bandwidth_burst_rate'',
          num 1000), (''scheduling_type'', num SAI_SCHEDULING_TYPE_STRICT)]),
        assert_ne (var ''sched'') (num 0),
        assign ''sched_attr'' (api_get ''scheduler'' (var ''sched'') [(''meter_type'', bool True),
          (''max_bandwidth_burst_rate'', bool True), (''scheduling_type'', bool True)]),
        assert_eq (item (var ''sched_attr'') (str ''meter_type'')) (num SAI_METER_TYPE_PACKETS),
        assert_eq (item (var ''sched_attr'') (str ''max_bandwidth_burst_rate'')) (num 1000),
        assert_eq (item (var ''sched_attr'') (str ''scheduling_type'')) (num SAI_SCHEDULING_TYPE_STRICT),
        assign ''status'' (api_set ''scheduler_group'' (self ''schgroup'') [(''scheduler_profile_id'', var ''sched'')]),
        assert_eq (var ''status'') (num SAI_STATUS_SUCCESS),
        assign ''schgroup_attr'' (api_get ''scheduler_group'' (self ''schgroup'') [(''scheduler_profile_id'', bool True)]),
        assert_eq (item (var ''schgroup_attr'') (str ''scheduler_profile_id'')) (var ''sched''),
        assign ''status'' (api_set ''scheduler'' (var ''sched'') [(''max_bandwidth_burst_rate'', num 2000)]),
        assert_eq (var ''status'') (num SAI_STATUS_SUCCESS),
        assign ''sched_attr'' (api_get ''scheduler'' (var ''sched'') [(''max_bandwidth_burst_rate'', bool True)]),
        assert_eq (item (var ''sched_attr'') (str ''max_bandwidth_burst_rate'')) (num 2000)] [
        run (api_set ''scheduler_group'' (self ''schgroup'') [(''scheduler_profile_id'', num 0)]),
        run (api_remove ''scheduler'' (var ''sched''))]]"

definition SchedulerGroupAttachTest_runTest :: "'d stmt" where
  "SchedulerGroupAttachTest_runTest = block [
      run (invoke [] SchedulerGroupAttachTest_schedulerWeightGroupAttachTest),
      run (invoke [] SchedulerGroupAttachTest_schedulerStrictPriorityGroupAttachTest),
      run (invoke [] SchedulerGroupAttachTest_schedulerMinBwidthRateGroupAttachTest),
      run (invoke [] SchedulerGroupAttachTest_schedulerMaxBwidthRateGroupAttachTest),
      run (invoke [] SchedulerGroupAttachTest_schedulerMinBwidthBurstRateGroupAttachTest),
      run (invoke [] SchedulerGroupAttachTest_schedulerMaxBwidthBurstRateGroupAttachTest)]"

definition SchedulerGroupAttachTest_tearDown :: "'d stmt" where
  "SchedulerGroupAttachTest_tearDown = block [
      run (api_remove ''scheduler_group'' (self ''schgroup'')),
      super_tearDown]"

definition SchedulerPortAttachTest_schedulerMaxBwidthRatePortAttachTest :: "'d stmt" where
  "SchedulerPortAttachTest_schedulerMaxBwidthRatePortAttachTest = block [
      try_finally [
        assign ''sched'' (api_create ''scheduler'' [(''meter_type'', num SAI_METER_TYPE_PACKETS), (''max_bandwidth_rate'', num
          1000), (''scheduling_type'', num SAI_SCHEDULING_TYPE_STRICT)]),
        assert_ne (var ''sched'') (num 0),
        assign ''sched_attr'' (api_get ''scheduler'' (var ''sched'') [(''meter_type'', bool True), (''max_bandwidth_rate'', bool
          True), (''scheduling_type'', bool True)]),
        assert_eq (item (var ''sched_attr'') (str ''meter_type'')) (num SAI_METER_TYPE_PACKETS),
        assert_eq (item (var ''sched_attr'') (str ''max_bandwidth_rate'')) (num 1000),
        assert_eq (item (var ''sched_attr'') (str ''scheduling_type'')) (num SAI_SCHEDULING_TYPE_STRICT),
        assign ''status'' (api_set ''port'' (self ''port1'') [(''qos_scheduler_profile_id'', var ''sched'')]),
        assert_eq (var ''status'') (num SAI_STATUS_SUCCESS),
        assign ''port_attr'' (api_get ''port'' (self ''port1'') [(''qos_scheduler_profile_id'', bool True)]),
        assert_eq (item (var ''port_attr'') (str ''qos_scheduler_profile_id'')) (var ''sched'')] [
        run (api_set ''port'' (self ''port1'') [(''qos_scheduler_profile_id'', num 0)]),
        run (api_remove ''scheduler'' (var ''sched''))]]"

definition SchedulerPortAttachTest_schedulerMaxBwidthBurstRatePortAttachTest :: "'d stmt" where
  "SchedulerPortAttachTest_schedulerMaxBwidthBurstRatePortAttachTest = block [
      try_finally [
        assign ''sched'' (api_create ''scheduler'' [(''meter_type'', num SAI_METER_TYPE_PACKETS), (''max_bandwidth_burst_rate'',
          num 1000), (''scheduling_type'', num SAI_SCHEDULING_TYPE_STRICT)]),
        assert_ne (var ''sched'') (num 0),
        assign ''sched_attr'' (api_get ''scheduler'' (var ''sched'') [(''meter_type'', bool True),
          (''max_bandwidth_burst_rate'', bool True), (''scheduling_type'', bool True)]),
        assert_eq (item (var ''sched_attr'') (str ''meter_type'')) (num SAI_METER_TYPE_PACKETS),
        assert_eq (item (var ''sched_attr'') (str ''max_bandwidth_burst_rate'')) (num 1000),
        assert_eq (item (var ''sched_attr'') (str ''scheduling_type'')) (num SAI_SCHEDULING_TYPE_STRICT),
        assign ''status'' (api_set ''port'' (self ''port1'') [(''qos_scheduler_profile_id'', var ''sched'')]),
        assert_eq (var ''status'') (num SAI_STATUS_SUCCESS),
        assign ''port_attr'' (api_get ''port'' (self ''port1'') [(''qos_scheduler_profile_id'', bool True)]),
        assert_eq (item (var ''port_attr'') (str ''qos_scheduler_profile_id'')) (var ''sched'')] [
        run (api_set ''port'' (self ''port1'') [(''qos_scheduler_profile_id'', num 0)]),
        run (api_remove ''scheduler'' (var ''sched''))]]"

definition SchedulerPortAttachTest_runTest :: "'d stmt" where
  "SchedulerPortAttachTest_runTest = block [
      run (invoke [] SchedulerPortAttachTest_schedulerMaxBwidthRatePortAttachTest),
      run (invoke [] SchedulerPortAttachTest_schedulerMaxBwidthBurstRatePortAttachTest)]"

end
