(* ===== verification/TestsSchedulerGroup.thy ===== *)
theory TestsSchedulerGroup
  imports PtfOwn PtfConstants
begin

text \<open>
  The tests of scheduler groups, \<open>ptf/saischedulergroup.py\<close>: a definition per method, statement by statement in the language of
  \<open>PtfScript\<close>, named after its class. A parameter \<open>m_f\<close> is a method \<open>f\<close> that derived classes define anew.
\<close>

section \<open>The tests\<close>

definition SchGroupParamsTest_runTest :: "'d stmt" where
  "SchGroupParamsTest_runTest = block [
      assign ''test_port'' (self ''port1''),
      assign ''port_attr'' (api_get ''port'' (var ''test_port'') [(''qos_number_of_scheduler_groups'', bool True)]),
      assign ''schgroup_no'' (item (var ''port_attr'') (str ''qos_number_of_scheduler_groups'')),
      assert_ne (var ''schgroup_no'') (num 0),
      assign ''schgroup_list'' (struct ''sai_thrift_object_list_t'' [(''count'', num 100)]),
      assign ''port_attr'' (api_get ''port'' (var ''test_port'') [(''qos_scheduler_group_list'', var ''schgroup_list'')]),
      assign ''schgroup_idlist'' (field (item (var ''port_attr'') (str ''qos_scheduler_group_list'')) ''idlist''),
      assert_eq (length_of (var ''schgroup_idlist'')) (var ''schgroup_no''),
      assign ''test_schgroup'' (item (var ''schgroup_idlist'') (num 1)),
      assign ''schgroup_attr'' (api_get ''scheduler_group'' (var ''test_schgroup'') [(''port_id'', bool True)]),
      assert_eq (item (var ''schgroup_attr'') (str ''port_id'')) (var ''test_port''),
      assign ''schgroup_attr'' (api_get ''scheduler_group'' (var ''test_schgroup'') [(''child_count'', bool True)]),
      assign ''child_no'' (item (var ''schgroup_attr'') (str ''child_count'')),
      assert_ne (var ''child_no'') (num 0),
      assign ''schgroup_child_list'' (struct ''sai_thrift_object_list_t'' [(''count'', num 100)]),
      assign ''schgroup_attr'' (api_get ''scheduler_group'' (var ''test_schgroup'') [(''child_list'', var
        ''schgroup_child_list'')]),
      assign ''child_idlist'' (field (item (var ''schgroup_attr'') (str ''child_list'')) ''idlist''),
      assert_eq (length_of (var ''child_idlist'')) (var ''child_no''),
      try_finally [
        assign ''sched'' (api_create ''scheduler'' [(''meter_type'', num SAI_METER_TYPE_PACKETS), (''scheduling_type'', num
          SAI_SCHEDULING_TYPE_STRICT)]),
        assert_ne (var ''sched'') (num 0),
        assign ''status'' (api_set ''scheduler_group'' (var ''test_schgroup'') [(''scheduler_profile_id'', var ''sched'')]),
        assert_eq (var ''status'') (num SAI_STATUS_SUCCESS),
        assign ''schgroup_attr'' (api_get ''scheduler_group'' (var ''test_schgroup'') [(''scheduler_profile_id'', bool True)]),
        assert_eq (item (var ''schgroup_attr'') (str ''scheduler_profile_id'')) (var ''sched'')] [
        run (api_set ''scheduler_group'' (var ''test_schgroup'') [(''scheduler_profile_id'', num 0)]),
        run (api_remove ''scheduler'' (var ''sched''))]]"

definition SchGroupCreateFailTest_runTest :: "'d stmt" where
  "SchGroupCreateFailTest_runTest = block [
      assign ''test_port'' (self ''port1''),
      assign ''sched'' (api_create ''scheduler'' [(''meter_type'', num SAI_METER_TYPE_PACKETS), (''scheduling_type'', num
        SAI_SCHEDULING_TYPE_STRICT)]),
      assert_ne (var ''sched'') (num 0),
      try_finally [
        assign ''sched_group'' (api_create ''scheduler_group'' [(''port_id'', var ''test_port''), (''scheduler_profile_id'', var
          ''sched'')]),
        assert_eq (var ''sched_group'') (num 0),
        assign ''sched_group'' (api_create ''scheduler_group'' [(''level'', num 0), (''scheduler_profile_id'', var ''sched'')]),
        assert_eq (var ''sched_group'') (num 0),
        assign ''sched_group'' (api_create ''scheduler_group'' [(''port_id'', var ''test_port''), (''level'', num 0)]),
        assert_ne (var ''sched_group'') (num 0)] [
        run (api_remove ''scheduler'' (var ''sched_group'')),
        run (api_remove ''scheduler'' (var ''sched''))]]"

end
