(* ===== verification/TestsSrv6.thy ===== *)
theory TestsSrv6
  imports PtfOwn PtfConstants
begin

text \<open>
  The tests of segment routing, \<open>ptf/saisrv6.py\<close>: a definition per method, statement by statement in the language of
  \<open>PtfScript\<close>, named after its class. A parameter \<open>m_f\<close> is a method \<open>f\<close> that derived classes define anew.
\<close>

section \<open>The tests\<close>

definition Srv6SrcEncapTest_setUp :: "'d stmt" where
  "Srv6SrcEncapTest_setUp = block [
      super_setUp,
      set_self ''client_ip_src'' (str ''11.0.0.10''),
      set_self ''client_ip_dest'' (str ''11.0.0.11''),
      set_self ''client_ipv6_src'' (str ''1100:1001::10''),
      set_self ''client_ipv6_dest'' (str ''1100:1001::11''),
      set_self ''srv6_src_ip'' (str ''2001:1001:0:10::1''),
      set_self ''seg1'' (str ''baba:1001:0:10::''),
      set_self ''seg2'' (str ''baba:1001:0:20::''),
      set_self ''seg3'' (str ''baba:1001:0:30::''),
      set_self ''seg4'' (str ''baba:1001:0:40::''),
      set_self ''seg5'' (str ''baba:1001:0:50::''),
      set_self ''client_dmac'' (str ''00:22:33:44:55:66''),
      set_self ''srv6_mac'' (str ''00:aa:bb:cc:dd:ee''),
      set_self ''ovrf'' (api_create ''virtual_router'' []),
      set_self ''port24_rif'' (api_create ''router_interface'' [(''type'', num SAI_ROUTER_INTERFACE_TYPE_PORT),
        (''virtual_router_id'', self ''ovrf''), (''port_id'', self ''port24'')]),
      set_self ''ip_nhop'' (api_create ''next_hop'' [(''ip'', ip_address (self ''client_ip_dest'')), (''router_interface_id'',
        self ''port10_rif''), (''type'', num SAI_NEXT_HOP_TYPE_IP)]),
      set_self ''nbr_entry'' (struct ''sai_thrift_neighbor_entry_t'' [(''rif_id'', self ''port10_rif''), (''ip_address'',
        ip_address (self ''client_ip_dest''))]),
      run (api_create_entry ''neighbor_entry'' (self ''nbr_entry'') [(''dst_mac_address'', self ''client_dmac'')]),
      set_self ''route_entry'' (struct ''sai_thrift_route_entry_t'' [(''vr_id'', self ''default_vrf''), (''destination'',
        ip_prefix (add (self ''client_ip_dest'') (str ''/32'')))]),
      run (api_create_entry ''route_entry'' (self ''route_entry'') [(''next_hop_id'', self ''ip_nhop'')]),
      set_self ''urif_lb'' (api_create ''router_interface'' [(''type'', num SAI_ROUTER_INTERFACE_TYPE_LOOPBACK),
        (''virtual_router_id'', self ''default_vrf'')]),
      set_self ''sr_tunnel'' (api_create ''tunnel'' [(''type'', num SAI_TUNNEL_TYPE_SRV6), (''encap_src_ip'', ip_address (self
        ''srv6_src_ip'')), (''underlay_interface'', self ''urif_lb''), (''encap_ttl_mode'', num SAI_TUNNEL_TTL_MODE_PIPE_MODEL),
        (''decap_ttl_mode'', num SAI_TUNNEL_TTL_MODE_PIPE_MODEL)]),
      assign ''sai_segment_list_1'' (struct ''sai_thrift_segment_list_t'' [(''count'', num 1), (''ip6list'', list_of [self
        ''seg1''])]),
      set_self ''sidlist1'' (api_create ''srv6_sidlist'' [(''type'', num SAI_SRV6_SIDLIST_TYPE_ENCAPS_RED), (''segment_list'',
        var ''sai_segment_list_1'')]),
      assign ''sai_segment_list_2'' (struct ''sai_thrift_segment_list_t'' [(''count'', num 2), (''ip6list'', list_of [self
        ''seg2'', self ''seg1''])]),
      set_self ''sidlist2'' (api_create ''srv6_sidlist'' [(''type'', num SAI_SRV6_SIDLIST_TYPE_ENCAPS_RED), (''segment_list'',
        var ''sai_segment_list_2'')]),
      assign ''sai_segment_list_3'' (struct ''sai_thrift_segment_list_t'' [(''count'', num 3), (''ip6list'', list_of [self
        ''seg3'', self ''seg2'', self ''seg1''])]),
      set_self ''sidlist3'' (api_create ''srv6_sidlist'' [(''type'', num SAI_SRV6_SIDLIST_TYPE_ENCAPS_RED), (''segment_list'',
        var ''sai_segment_list_3'')]),
      assign ''sai_segment_list_4'' (struct ''sai_thrift_segment_list_t'' [(''count'', num 1), (''ip6list'', list_of [self
        ''seg4''])]),
      set_self ''sidlist4'' (api_create ''srv6_sidlist'' [(''type'', num SAI_SRV6_SIDLIST_TYPE_INSERT_RED), (''segment_list'',
        var ''sai_segment_list_4'')]),
      assign ''sai_segment_list_5'' (struct ''sai_thrift_segment_list_t'' [(''count'', num 2), (''ip6list'', list_of [self
        ''seg5'', self ''seg4''])]),
      set_self ''sidlist5'' (api_create ''srv6_sidlist'' [(''type'', num SAI_SRV6_SIDLIST_TYPE_INSERT_RED), (''segment_list'',
        var ''sai_segment_list_5'')]),
      set_self ''und_nhop'' (api_create ''next_hop'' [(''type'', num SAI_NEXT_HOP_TYPE_IP), (''ip'', ip_address (str
        ''20.20.20.20'')), (''router_interface_id'', self ''port12_rif'')]),
      set_self ''und_nbor'' (struct ''sai_thrift_neighbor_entry_t'' [(''rif_id'', self ''port12_rif''), (''ip_address'',
        ip_address (str ''20.20.20.20''))]),
      run (api_create_entry ''neighbor_entry'' (self ''und_nbor'') [(''dst_mac_address'', self ''srv6_mac'')]),
      set_self ''und_route_entry1'' (struct ''sai_thrift_route_entry_t'' [(''vr_id'', self ''default_vrf''), (''destination'',
        ip_prefix (add (self ''seg1'') (str ''/64'')))]),
      run (api_create_entry ''route_entry'' (self ''und_route_entry1'') [(''next_hop_id'', self ''und_nhop'')]),
      set_self ''und_route_entry2'' (struct ''sai_thrift_route_entry_t'' [(''vr_id'', self ''default_vrf''), (''destination'',
        ip_prefix (add (self ''seg2'') (str ''/64'')))]),
      run (api_create_entry ''route_entry'' (self ''und_route_entry2'') [(''next_hop_id'', self ''und_nhop'')]),
      set_self ''und_route_entry3'' (struct ''sai_thrift_route_entry_t'' [(''vr_id'', self ''default_vrf''), (''destination'',
        ip_prefix (add (self ''seg3'') (str ''/64'')))]),
      run (api_create_entry ''route_entry'' (self ''und_route_entry3'') [(''next_hop_id'', self ''und_nhop'')]),
      set_self ''und_route_entry4'' (struct ''sai_thrift_route_entry_t'' [(''vr_id'', self ''default_vrf''), (''destination'',
        ip_prefix (add (self ''seg4'') (str ''/64'')))]),
      run (api_create_entry ''route_entry'' (self ''und_route_entry4'') [(''next_hop_id'', self ''und_nhop'')]),
      set_self ''und_route_entry5'' (struct ''sai_thrift_route_entry_t'' [(''vr_id'', self ''default_vrf''), (''destination'',
        ip_prefix (add (self ''seg5'') (str ''/64'')))]),
      run (api_create_entry ''route_entry'' (self ''und_route_entry5'') [(''next_hop_id'', self ''und_nhop'')]),
      set_self ''sr_nhop_sid1'' (api_create ''next_hop'' [(''type'', num SAI_NEXT_HOP_TYPE_SRV6_SIDLIST), (''srv6_sidlist_id'',
        self ''sidlist1''), (''tunnel_id'', self ''sr_tunnel'')]),
      set_self ''sr_nhop_sid2'' (api_create ''next_hop'' [(''type'', num SAI_NEXT_HOP_TYPE_SRV6_SIDLIST), (''srv6_sidlist_id'',
        self ''sidlist2''), (''tunnel_id'', self ''sr_tunnel'')]),
      set_self ''sr_nhop_sid3'' (api_create ''next_hop'' [(''type'', num SAI_NEXT_HOP_TYPE_SRV6_SIDLIST), (''srv6_sidlist_id'',
        self ''sidlist3''), (''tunnel_id'', self ''sr_tunnel'')]),
      set_self ''sr_nhop_sid4'' (api_create ''next_hop'' [(''type'', num SAI_NEXT_HOP_TYPE_SRV6_SIDLIST), (''srv6_sidlist_id'',
        self ''sidlist4''), (''tunnel_id'', self ''sr_tunnel'')]),
      set_self ''sr_nhop_sid5'' (api_create ''next_hop'' [(''type'', num SAI_NEXT_HOP_TYPE_SRV6_SIDLIST), (''srv6_sidlist_id'',
        self ''sidlist5''), (''tunnel_id'', self ''sr_tunnel'')]),
      set_self ''ecmp_sid_nhop'' (api_create ''next_hop_group'' [(''type'', num SAI_NEXT_HOP_GROUP_TYPE_ECMP)]),
      set_self ''ecmp_nhop1'' (api_create ''next_hop_group_member'' [(''next_hop_group_id'', self ''ecmp_sid_nhop''),
        (''next_hop_id'', self ''sr_nhop_sid1'')]),
      set_self ''ecmp_nhop2'' (api_create ''next_hop_group_member'' [(''next_hop_group_id'', self ''ecmp_sid_nhop''),
        (''next_hop_id'', self ''sr_nhop_sid2'')]),
      set_self ''over_route_entry'' (struct ''sai_thrift_route_entry_t'' [(''vr_id'', self ''ovrf''), (''destination'',
        ip_prefix (add (self ''client_ip_dest'') (str ''/32'')))]),
      run (api_create_entry ''route_entry'' (self ''over_route_entry'') [(''next_hop_id'', self ''sr_nhop_sid1'')]),
      set_self ''over_v6_route_entry'' (struct ''sai_thrift_route_entry_t'' [(''vr_id'', self ''ovrf''), (''destination'',
        ip_prefix (add (self ''client_ipv6_dest'') (str ''/128'')))]),
      run (api_create_entry ''route_entry'' (self ''over_v6_route_entry'') [(''next_hop_id'', self ''sr_nhop_sid1'')]),
      set_self ''pkt'' (lib ''simple_tcp_packet'' [] [(''eth_dst'', str ROUTER_MAC), (''eth_src'', str ''00:22:22:22:22:21''),
        (''ip_dst'', self ''client_ip_dest''), (''ip_src'', self ''client_ip_src''), (''ip_id'', num 105), (''ip_ttl'', num
        64)]),
      set_self ''v6_pkt'' (lib ''simple_tcpv6_packet'' [] [(''eth_dst'', str ROUTER_MAC), (''eth_src'', str
        ''00:22:22:22:22:21''), (''ipv6_dst'', self ''client_ipv6_dest''), (''ipv6_src'', self ''client_ipv6_src''),
        (''ipv6_hlim'', num 64)]),
      set_self ''exp_v6_pkt'' (lib ''simple_tcpv6_packet'' [] [(''ipv6_dst'', self ''client_ipv6_dest''), (''ipv6_src'', self
        ''client_ipv6_src''), (''ipv6_hlim'', num 63)]),
      set_self ''inner_v4_pkt'' (lib ''simple_tcp_packet'' [] [(''ip_dst'', self ''client_ip_dest''), (''ip_src'', self
        ''client_ip_src''), (''ip_id'', num 105), (''ip_ttl'', num 63)])]"

definition Srv6SrcEncapTest_clientIpRouteTest :: "'d stmt" where
  "Srv6SrcEncapTest_clientIpRouteTest = block [
      assign ''exp_pkt'' (lib ''simple_tcp_packet'' [] [(''eth_dst'', self ''client_dmac''), (''eth_src'', str ROUTER_MAC),
        (''ip_dst'', self ''client_ip_dest''), (''ip_src'', self ''client_ip_src''), (''ip_id'', num 105), (''ip_ttl'', num
        63)]),
      print [self ''dev_port11'', self ''dev_port10'', self ''client_ip_src'', self ''client_ip_dest''],
      run (lib ''send_packet'' [self ''dev_port11'', self ''pkt''] []),
      run (lib ''verify_packets'' [var ''exp_pkt'', list_of [self ''dev_port10'']] [])]"

definition Srv6SrcEncapTest_sourceEncapOneSidTest :: "'d stmt" where
  "Srv6SrcEncapTest_sourceEncapOneSidTest = block [
      assign ''sr6_v4_pkt'' (lib ''simple_ipv6ip_packet'' [] [(''eth_src'', str ROUTER_MAC), (''eth_dst'', self ''srv6_mac''),
        (''ipv6_src'', self ''srv6_src_ip''), (''ipv6_dst'', self ''seg1''), (''ipv6_hlim'', num 64), (''inner_frame'', lib
        ''get_layer'' [self ''inner_v4_pkt'', str ''IP''] [])]),
      assign ''sr6_v6_pkt'' (lib ''simple_ipv6ip_packet'' [] [(''eth_src'', str ROUTER_MAC), (''eth_dst'', self ''srv6_mac''),
        (''ipv6_src'', self ''srv6_src_ip''), (''ipv6_dst'', self ''seg1''), (''ipv6_hlim'', num 64), (''inner_frame'', lib
        ''get_layer'' [self ''exp_v6_pkt'', str ''IPv6''] [])]),
      run (lib ''send_packet'' [self ''dev_port24'', self ''pkt''] []),
      run (lib ''verify_packets'' [var ''sr6_v4_pkt'', list_of [self ''dev_port12'']] []),
      run (lib ''send_packet'' [self ''dev_port24'', self ''v6_pkt''] []),
      run (lib ''verify_packets'' [var ''sr6_v6_pkt'', list_of [self ''dev_port12'']] [])]"

definition Srv6SrcEncapTest_sourceEncapTwoSidTest :: "'d stmt" where
  "Srv6SrcEncapTest_sourceEncapTwoSidTest = block [
      assign ''seglist2'' (list_of [self ''seg2'', self ''seg1'']),
      assign ''sr6_v4_pkt'' (lib ''simple_ipv6_sr_packet'' [] [(''eth_src'', str ROUTER_MAC), (''eth_dst'', self ''srv6_mac''),
        (''ipv6_src'', self ''srv6_src_ip''), (''ipv6_dst'', item (var ''seglist2'') (num 0)), (''ipv6_hlim'', num 64),
        (''inner_frame'', lib ''get_layer'' [self ''inner_v4_pkt'', str ''IP''] []), (''srh_seg_left'', sub (length_of (var
        ''seglist2'')) (num 1)), (''srh_first_seg'', sub (length_of (var ''seglist2'')) (num 2)), (''srh_nh'', num 4),
        (''srh_seg_list'', list_of [item (var ''seglist2'') (num 1)])]),
      assign ''sr6_v6_pkt'' (lib ''simple_ipv6_sr_packet'' [] [(''eth_src'', str ROUTER_MAC), (''eth_dst'', self ''srv6_mac''),
        (''ipv6_src'', self ''srv6_src_ip''), (''ipv6_dst'', item (var ''seglist2'') (num 0)), (''ipv6_hlim'', num 64),
        (''inner_frame'', lib ''get_layer'' [self ''exp_v6_pkt'', str ''IPv6''] []), (''srh_seg_left'', sub (length_of (var
        ''seglist2'')) (num 1)), (''srh_first_seg'', sub (length_of (var ''seglist2'')) (num 2)), (''srh_nh'', num 41),
        (''srh_seg_list'', list_of [item (var ''seglist2'') (num 1)])]),
      try_finally [
        run (api_set ''route_entry'' (self ''over_route_entry'') [(''next_hop_id'', self ''sr_nhop_sid2'')]),
        run (api_set ''route_entry'' (self ''over_v6_route_entry'') [(''next_hop_id'', self ''sr_nhop_sid2'')]),
        run (lib ''send_packet'' [self ''dev_port24'', self ''pkt''] []),
        run (lib ''verify_packets'' [var ''sr6_v4_pkt'', list_of [self ''dev_port12'']] []),
        run (lib ''send_packet'' [self ''dev_port24'', self ''v6_pkt''] []),
        run (lib ''verify_packets'' [var ''sr6_v6_pkt'', list_of [self ''dev_port12'']] [])] [
        run (api_set ''route_entry'' (self ''over_route_entry'') [(''next_hop_id'', self ''sr_nhop_sid1'')]),
        run (api_set ''route_entry'' (self ''over_v6_route_entry'') [(''next_hop_id'', self ''sr_nhop_sid1'')])]]"

definition Srv6SrcEncapTest_sourceEncapThreeSidTest :: "'d stmt" where
  "Srv6SrcEncapTest_sourceEncapThreeSidTest = block [
      assign ''seglist3'' (list_of [self ''seg3'', self ''seg2'', self ''seg1'']),
      assign ''sr6_v4_pkt'' (lib ''simple_ipv6_sr_packet'' [] [(''eth_src'', str ROUTER_MAC), (''eth_dst'', self ''srv6_mac''),
        (''ipv6_src'', self ''srv6_src_ip''), (''ipv6_dst'', item (var ''seglist3'') (num 0)), (''ipv6_hlim'', num 64),
        (''inner_frame'', lib ''get_layer'' [self ''inner_v4_pkt'', str ''IP''] []), (''srh_seg_left'', sub (length_of (var
        ''seglist3'')) (num 1)), (''srh_first_seg'', sub (length_of (var ''seglist3'')) (num 2)), (''srh_nh'', num 4),
        (''srh_seg_list'', list_of [item (var ''seglist3'') (num 2), item (var ''seglist3'') (num 1)])]),
      assign ''sr6_v6_pkt'' (lib ''simple_ipv6_sr_packet'' [] [(''eth_src'', str ROUTER_MAC), (''eth_dst'', self ''srv6_mac''),
        (''ipv6_src'', self ''srv6_src_ip''), (''ipv6_dst'', item (var ''seglist3'') (num 0)), (''ipv6_hlim'', num 64),
        (''inner_frame'', lib ''get_layer'' [self ''exp_v6_pkt'', str ''IPv6''] []), (''srh_seg_left'', sub (length_of (var
        ''seglist3'')) (num 1)), (''srh_first_seg'', sub (length_of (var ''seglist3'')) (num 2)), (''srh_nh'', num 41),
        (''srh_seg_list'', list_of [item (var ''seglist3'') (num 2), item (var ''seglist3'') (num 1)])]),
      try_finally [
        run (api_set ''route_entry'' (self ''over_route_entry'') [(''next_hop_id'', self ''sr_nhop_sid3'')]),
        run (api_set ''route_entry'' (self ''over_v6_route_entry'') [(''next_hop_id'', self ''sr_nhop_sid3'')]),
        run (lib ''send_packet'' [self ''dev_port24'', self ''pkt''] []),
        run (lib ''verify_packets'' [var ''sr6_v4_pkt'', list_of [self ''dev_port12'']] []),
        run (lib ''send_packet'' [self ''dev_port24'', self ''v6_pkt''] []),
        run (lib ''verify_packets'' [var ''sr6_v6_pkt'', list_of [self ''dev_port12'']] [])] [
        run (api_set ''route_entry'' (self ''over_route_entry'') [(''next_hop_id'', self ''sr_nhop_sid1'')]),
        run (api_set ''route_entry'' (self ''over_v6_route_entry'') [(''next_hop_id'', self ''sr_nhop_sid1'')])]]"

definition Srv6SrcEncapTest_sourceEncapEcmpSidTest :: "'d stmt" where
  "Srv6SrcEncapTest_sourceEncapEcmpSidTest = block [
      assign ''send_pkt'' (lib ''simple_tcp_packet'' [] [(''eth_dst'', str ROUTER_MAC), (''eth_src'', str
        ''00:22:22:22:22:21''), (''ip_dst'', self ''client_ip_dest''), (''ip_src'', self ''client_ip_src''), (''ip_id'', num
        105), (''ip_ttl'', num 64)]),
      assign ''inner_v4_pkt'' (lib ''simple_tcp_packet'' [] [(''ip_dst'', self ''client_ip_dest''), (''ip_src'', self
        ''client_ip_src''), (''ip_id'', num 105), (''ip_ttl'', num 63)]),
      try_finally [
        assign ''nhop_13'' (api_create ''next_hop'' [(''type'', num SAI_NEXT_HOP_TYPE_IP), (''ip'', ip_address (str
          ''20.20.20.21'')), (''router_interface_id'', self ''port13_rif'')]),
        assign ''nbor_13'' (struct ''sai_thrift_neighbor_entry_t'' [(''rif_id'', self ''port13_rif''), (''ip_address'',
          ip_address (str ''20.20.20.21''))]),
        run (api_create_entry ''neighbor_entry'' (var ''nbor_13'') [(''dst_mac_address'', self ''srv6_mac'')]),
        run (api_set ''route_entry'' (self ''und_route_entry2'') [(''next_hop_id'', var ''nhop_13'')]),
        run (api_set ''route_entry'' (self ''over_route_entry'') [(''next_hop_id'', self ''ecmp_sid_nhop'')]),
        assign ''max_iter'' (num 30),
        assign ''count'' (list_of [num 0, num 0]),
        for_in [''i''] (range_of (num 0) (var ''max_iter'')) [
          assign ''tcp_sport'' (add (num 2000) (var ''i'')),
          assign ''send_pkt'' (lib ''set_field'' [var ''send_pkt'', str ''TCP'', str ''sport'', var ''tcp_sport''] []),
          assign ''inner_v4_pkt'' (lib ''set_field'' [var ''inner_v4_pkt'', str ''TCP'', str ''sport'', var ''tcp_sport''] []),
          assign ''seglist2'' (list_of [self ''seg2'', self ''seg1'']),
          assign ''sid1_sr6_pkt'' (lib ''simple_ipv6ip_packet'' [] [(''eth_src'', str ROUTER_MAC), (''eth_dst'', self
            ''srv6_mac''), (''ipv6_src'', self ''srv6_src_ip''), (''ipv6_dst'', self ''seg1''), (''ipv6_hlim'', num 64),
            (''inner_frame'', lib ''get_layer'' [var ''inner_v4_pkt'', str ''IP''] [])]),
          assign ''sid2_sr6_pkt'' (lib ''simple_ipv6_sr_packet'' [] [(''eth_src'', str ROUTER_MAC), (''eth_dst'', self
            ''srv6_mac''), (''ipv6_src'', self ''srv6_src_ip''), (''ipv6_dst'', item (var ''seglist2'') (num 0)),
            (''ipv6_hlim'', num 64), (''inner_frame'', lib ''get_layer'' [var ''inner_v4_pkt'', str ''IP''] []),
            (''srh_seg_left'', sub (length_of (var ''seglist2'')) (num 1)), (''srh_first_seg'', sub (length_of (var
            ''seglist2'')) (num 2)), (''srh_nh'', num 4), (''srh_seg_list'', list_of [item (var ''seglist2'') (num 1)])]),
          run (lib ''send_packet'' [self ''dev_port24'', var ''send_pkt''] []),
          assign ''rcv_index'' (lib ''verify_any_packet_any_port'' [list_of [var ''sid1_sr6_pkt'', var ''sid2_sr6_pkt''],
            list_of [self ''dev_port12'', self ''dev_port13'']] []),
          assign ''count'' (with_item (var ''count'') (var ''rcv_index'') (add (item (var ''count'') (var ''rcv_index'')) (num
            1)))],
        print [var ''count''],
        for_in [''i''] (range_of (num 0) (num 2)) [
          assert_ne (item (var ''count'') (var ''i'')) (num 0)]] [
        run (api_set ''route_entry'' (self ''over_route_entry'') [(''next_hop_id'', self ''sr_nhop_sid3'')]),
        run (api_remove ''neighbor_entry'' (var ''nbor_13'')),
        run (api_remove ''next_hop'' (var ''nhop_13''))]]"

definition Srv6SrcEncapTest_insertOneSidTest :: "'d stmt" where
  "Srv6SrcEncapTest_insertOneSidTest = block [
      assign ''seglist4'' (list_of [self ''seg4'']),
      assign ''sr6_v6_pkt'' (lib ''simple_ipv6_sr_packet'' [] [(''eth_src'', str ROUTER_MAC), (''eth_dst'', self ''srv6_mac''),
        (''ipv6_src'', self ''client_ipv6_src''), (''ipv6_dst'', item (var ''seglist4'') (num 0)), (''ipv6_hlim'', num 63),
        (''srh_seg_left'', num 1), (''srh_first_seg'', num 0), (''srh_nh'', num 6), (''srh_seg_list'', list_of [self
        ''client_ipv6_dest'']), (''inner_frame'', lib ''get_layer'' [self ''v6_pkt'', str ''TCP''] [])]),
      try_finally [
        run (api_set ''route_entry'' (self ''over_v6_route_entry'') [(''next_hop_id'', self ''sr_nhop_sid4'')]),
        run (lib ''send_packet'' [self ''dev_port24'', self ''v6_pkt''] []),
        run (lib ''verify_packets'' [var ''sr6_v6_pkt'', list_of [self ''dev_port12'']] [])] [
        run (api_set ''route_entry'' (self ''over_v6_route_entry'') [(''next_hop_id'', self ''sr_nhop_sid1'')])]]"

definition Srv6SrcEncapTest_insertTwoSidTest :: "'d stmt" where
  "Srv6SrcEncapTest_insertTwoSidTest = block [
      assign ''v6_pkt'' (self ''v6_pkt''),
      assign ''v6_pkt'' (lib ''set_field'' [var ''v6_pkt'', str ''TCP'', str ''chksum'', num 0] []),
      assign ''seglist5'' (list_of [self ''seg5'', self ''seg4'']),
      assign ''sr6_v6_pkt'' (lib ''simple_ipv6_sr_packet'' [] [(''eth_src'', str ROUTER_MAC), (''eth_dst'', self ''srv6_mac''),
        (''ipv6_src'', self ''client_ipv6_src''), (''ipv6_dst'', item (var ''seglist5'') (num 0)), (''ipv6_hlim'', num 63),
        (''srh_seg_left'', num 2), (''srh_first_seg'', num 1), (''srh_nh'', num 6), (''srh_seg_list'', list_of [self
        ''client_ipv6_dest'', item (var ''seglist5'') (num 1)]), (''inner_frame'', lib ''get_layer'' [var ''v6_pkt'', str
        ''TCP''] [])]),
      try_finally [
        run (api_set ''route_entry'' (self ''over_v6_route_entry'') [(''next_hop_id'', self ''sr_nhop_sid5'')]),
        run (lib ''send_packet'' [self ''dev_port24'', var ''v6_pkt''] []),
        run (lib ''verify_packets'' [var ''sr6_v6_pkt'', list_of [self ''dev_port12'']] [])] [
        run (api_set ''route_entry'' (self ''over_v6_route_entry'') [(''next_hop_id'', self ''sr_nhop_sid1'')])]]"

definition Srv6SrcEncapTest_getSetSidlistTest :: "'d stmt" where
  "Srv6SrcEncapTest_getSetSidlistTest = block [
      assign ''new_seg1'' (str ''cece:f00f:0:10::''),
      assign ''new_seg2'' (str ''cece:f00f:0:20::''),
      assign ''sr6_v4_pkt'' (lib ''simple_ipv6_sr_packet'' [] [(''eth_src'', str ROUTER_MAC), (''eth_dst'', self ''srv6_mac''),
        (''ipv6_src'', self ''srv6_src_ip''), (''ipv6_dst'', var ''new_seg2''), (''ipv6_hlim'', num 64), (''inner_frame'', lib
        ''get_layer'' [self ''inner_v4_pkt'', str ''IP''] []), (''srh_seg_left'', num 1), (''srh_first_seg'', num 0),
        (''srh_nh'', num 4), (''srh_seg_list'', list_of [var ''new_seg1''])]),
      assign ''sr6_v6_pkt'' (lib ''simple_ipv6_sr_packet'' [] [(''eth_src'', str ROUTER_MAC), (''eth_dst'', self ''srv6_mac''),
        (''ipv6_src'', self ''srv6_src_ip''), (''ipv6_dst'', var ''new_seg2''), (''ipv6_hlim'', num 64), (''inner_frame'', lib
        ''get_layer'' [self ''exp_v6_pkt'', str ''IPv6''] []), (''srh_seg_left'', num 1), (''srh_first_seg'', num 0),
        (''srh_nh'', num 41), (''srh_seg_list'', list_of [var ''new_seg1''])]),
      try_finally [
        assign ''seglist'' (struct ''sai_thrift_segment_list_t'' [(''count'', num 3)]),
        assign ''attr'' (api_get ''srv6_sidlist'' (self ''sidlist3'') [(''segment_list'', var ''seglist'')]),
        print [field (item (var ''attr'') (str ''segment_list'')) ''count''],
        assert_eq (field (item (var ''attr'') (str ''segment_list'')) ''count'') (num 3),
        print [item (field (item (var ''attr'') (str ''segment_list'')) ''ip6list'') (num 0)],
        assert_eq (item (field (item (var ''attr'') (str ''segment_list'')) ''ip6list'') (num 0)) (self ''seg3''),
        print [item (field (item (var ''attr'') (str ''segment_list'')) ''ip6list'') (num 1)],
        assert_eq (item (field (item (var ''attr'') (str ''segment_list'')) ''ip6list'') (num 1)) (self ''seg2''),
        print [item (field (item (var ''attr'') (str ''segment_list'')) ''ip6list'') (num 2)],
        assert_eq (item (field (item (var ''attr'') (str ''segment_list'')) ''ip6list'') (num 2)) (self ''seg1''),
        assign ''new_segment_list'' (struct ''sai_thrift_segment_list_t'' [(''count'', num 2), (''ip6list'', list_of [var
          ''new_seg2'', var ''new_seg1''])]),
        run (api_set ''srv6_sidlist'' (self ''sidlist3'') [(''segment_list'', var ''new_segment_list'')]),
        assign ''seglist'' (struct ''sai_thrift_segment_list_t'' [(''count'', num 2)]),
        assign ''attr'' (api_get ''srv6_sidlist'' (self ''sidlist3'') [(''segment_list'', var ''seglist'')]),
        print [field (item (var ''attr'') (str ''segment_list'')) ''count''],
        assert_eq (field (item (var ''attr'') (str ''segment_list'')) ''count'') (num 2),
        print [item (field (item (var ''attr'') (str ''segment_list'')) ''ip6list'') (num 0)],
        assert_eq (item (field (item (var ''attr'') (str ''segment_list'')) ''ip6list'') (num 0)) (var ''new_seg2''),
        print [item (field (item (var ''attr'') (str ''segment_list'')) ''ip6list'') (num 1)],
        assert_eq (item (field (item (var ''attr'') (str ''segment_list'')) ''ip6list'') (num 1)) (var ''new_seg1''),
        run (api_set ''route_entry'' (self ''over_route_entry'') [(''next_hop_id'', self ''sr_nhop_sid3'')]),
        run (api_set ''route_entry'' (self ''over_v6_route_entry'') [(''next_hop_id'', self ''sr_nhop_sid3'')]),
        assign ''und_route'' (struct ''sai_thrift_route_entry_t'' [(''vr_id'', self ''default_vrf''), (''destination'',
          ip_prefix (add (var ''new_seg2'') (str ''/64'')))]),
        run (api_create_entry ''route_entry'' (var ''und_route'') [(''next_hop_id'', self ''und_nhop'')]),
        run (lib ''send_packet'' [self ''dev_port24'', self ''pkt''] []),
        run (lib ''verify_packets'' [var ''sr6_v4_pkt'', list_of [self ''dev_port12'']] []),
        run (lib ''send_packet'' [self ''dev_port24'', self ''v6_pkt''] []),
        run (lib ''verify_packets'' [var ''sr6_v6_pkt'', list_of [self ''dev_port12'']] [])] [
        run (api_remove ''route_entry'' (var ''und_route'')),
        assign ''sai_segment_list_3'' (struct ''sai_thrift_segment_list_t'' [(''count'', num 3), (''ip6list'', list_of [self
          ''seg3'', self ''seg2'', self ''seg1''])]),
        run (api_set ''srv6_sidlist'' (self ''sidlist3'') [(''segment_list'', var ''sai_segment_list_3'')])]]"

definition Srv6SrcEncapTest_runTest :: "'d stmt" where
  "Srv6SrcEncapTest_runTest = block [
      run (invoke [] Srv6SrcEncapTest_clientIpRouteTest),
      run (invoke [] Srv6SrcEncapTest_sourceEncapOneSidTest),
      run (invoke [] Srv6SrcEncapTest_sourceEncapTwoSidTest),
      run (invoke [] Srv6SrcEncapTest_sourceEncapThreeSidTest),
      run (invoke [] Srv6SrcEncapTest_sourceEncapEcmpSidTest),
      run (invoke [] Srv6SrcEncapTest_insertOneSidTest),
      run (invoke [] Srv6SrcEncapTest_insertTwoSidTest),
      run (invoke [] Srv6SrcEncapTest_getSetSidlistTest)]"

definition Srv6SrcEncapTest_tearDown :: "'d stmt" where
  "Srv6SrcEncapTest_tearDown = block [
      run (api_remove ''route_entry'' (self ''over_v6_route_entry'')),
      run (api_remove ''route_entry'' (self ''over_route_entry'')),
      run (api_remove ''next_hop_group_member'' (self ''ecmp_nhop2'')),
      run (api_remove ''next_hop_group_member'' (self ''ecmp_nhop1'')),
      run (api_remove ''next_hop_group'' (self ''ecmp_sid_nhop'')),
      run (api_remove ''next_hop'' (self ''sr_nhop_sid5'')),
      run (api_remove ''next_hop'' (self ''sr_nhop_sid4'')),
      run (api_remove ''next_hop'' (self ''sr_nhop_sid3'')),
      run (api_remove ''next_hop'' (self ''sr_nhop_sid2'')),
      run (api_remove ''next_hop'' (self ''sr_nhop_sid1'')),
      run (api_remove ''route_entry'' (self ''und_route_entry5'')),
      run (api_remove ''route_entry'' (self ''und_route_entry4'')),
      run (api_remove ''route_entry'' (self ''und_route_entry3'')),
      run (api_remove ''route_entry'' (self ''und_route_entry2'')),
      run (api_remove ''route_entry'' (self ''und_route_entry1'')),
      run (api_remove ''neighbor_entry'' (self ''und_nbor'')),
      run (api_remove ''next_hop'' (self ''und_nhop'')),
      run (api_remove ''srv6_sidlist'' (self ''sidlist5'')),
      run (api_remove ''srv6_sidlist'' (self ''sidlist4'')),
      run (api_remove ''srv6_sidlist'' (self ''sidlist3'')),
      run (api_remove ''srv6_sidlist'' (self ''sidlist2'')),
      run (api_remove ''srv6_sidlist'' (self ''sidlist1'')),
      run (api_remove ''tunnel'' (self ''sr_tunnel'')),
      run (api_remove ''router_interface'' (self ''urif_lb'')),
      run (api_remove ''route_entry'' (self ''route_entry'')),
      run (api_remove ''neighbor_entry'' (self ''nbr_entry'')),
      run (api_remove ''next_hop'' (self ''ip_nhop'')),
      run (api_remove ''router_interface'' (self ''port24_rif'')),
      run (api_remove ''virtual_router'' (self ''ovrf'')),
      super_tearDown]"

definition Srv6MySidTest_setUp :: "'d stmt" where
  "Srv6MySidTest_setUp = block [
      super_setUp,
      set_self ''node0_prefix_sid'' (str ''baba:1001:0:10::''),
      set_self ''node0_t_sid'' (str ''baba:1001:0:10:f::''),
      set_self ''node0_dt46_sid1'' (str ''baba:1001:0:10:df46:1::''),
      set_self ''node0_dt46_sid2'' (str ''baba:1001:0:10:df46:2::''),
      set_self ''node0_dt4_sid'' (str ''baba:1001:0:10:df4::''),
      set_self ''node0_dt6_sid'' (str ''baba:1001:0:10:df6::''),
      set_self ''node0_adj_sid'' (str ''baba:1001:0:10:ad::''),
      set_self ''node0_b6_encap_sid'' (str ''baba:1001:0:10::100''),
      set_self ''node0_b6_insert_sid'' (str ''baba:1001:0:10::200''),
      set_self ''node1_prefix_sid'' (str ''baba:1001:0:20::''),
      set_self ''node2_prefix_sid'' (str ''baba:1001:0:30::''),
      set_self ''sid_list'' (list_of [self ''node2_prefix_sid'', self ''node1_prefix_sid'']),
      set_self ''srv6_mac'' (str ''00:aa:bb:cc:dd:ee''),
      set_self ''unbor_ip'' (str ''100.100.100.100''),
      set_self ''srv6_src_ip'' (str ''2001:1001:0:10::1''),
      set_self ''client_ip_src'' (str ''10.10.10.10''),
      set_self ''client_ip_dest'' (str ''20.20.20.20''),
      set_self ''nbor_ip'' (str ''30.30.30.30''),
      set_self ''xconn_nbor_ip'' (str ''40.40.40.40''),
      set_self ''client_ipv6_src'' (str ''1100:1001::10''),
      set_self ''client_ipv6_dest'' (str ''1100:1001::20''),
      set_self ''client_smac'' (str ''00:11:11:11:11:11''),
      set_self ''client_dmac'' (str ''00:22:22:22:22:22''),
      set_self ''ip_nhop'' (api_create ''next_hop'' [(''ip'', ip_address (self ''nbor_ip'')), (''router_interface_id'', self
        ''port10_rif''), (''type'', num SAI_NEXT_HOP_TYPE_IP)]),
      set_self ''ip_nbor'' (struct ''sai_thrift_neighbor_entry_t'' [(''rif_id'', self ''port10_rif''), (''ip_address'',
        ip_address (self ''nbor_ip''))]),
      run (api_create_entry ''neighbor_entry'' (self ''ip_nbor'') [(''dst_mac_address'', self ''client_dmac'')]),
      set_self ''ip_route'' (struct ''sai_thrift_route_entry_t'' [(''vr_id'', self ''default_vrf''), (''destination'', ip_prefix
        (add (self ''client_ip_dest'') (str ''/32'')))]),
      run (api_create_entry ''route_entry'' (self ''ip_route'') [(''next_hop_id'', self ''ip_nhop'')]),
      set_self ''ipv6_route'' (struct ''sai_thrift_route_entry_t'' [(''vr_id'', self ''default_vrf''), (''destination'',
        ip_prefix (add (self ''client_ipv6_dest'') (str ''/128'')))]),
      run (api_create_entry ''route_entry'' (self ''ipv6_route'') [(''next_hop_id'', self ''ip_nhop'')]),
      set_self ''urif_lb'' (api_create ''router_interface'' [(''type'', num SAI_ROUTER_INTERFACE_TYPE_LOOPBACK),
        (''virtual_router_id'', self ''default_vrf'')]),
      set_self ''sr_tunnel'' (api_create ''tunnel'' [(''type'', num SAI_TUNNEL_TYPE_SRV6), (''encap_src_ip'', ip_address (self
        ''srv6_src_ip'')), (''underlay_interface'', self ''urif_lb''), (''encap_ttl_mode'', num SAI_TUNNEL_TTL_MODE_PIPE_MODEL),
        (''decap_ttl_mode'', num SAI_TUNNEL_TTL_MODE_PIPE_MODEL)]),
      set_self ''und_nhop'' (api_create ''next_hop'' [(''type'', num SAI_NEXT_HOP_TYPE_IP), (''ip'', ip_address (self
        ''unbor_ip'')), (''router_interface_id'', self ''port12_rif'')]),
      set_self ''und_nbor'' (struct ''sai_thrift_neighbor_entry_t'' [(''rif_id'', self ''port12_rif''), (''ip_address'',
        ip_address (self ''unbor_ip''))]),
      run (api_create_entry ''neighbor_entry'' (self ''und_nbor'') [(''dst_mac_address'', self ''srv6_mac'')]),
      set_self ''tunnel_route1'' (struct ''sai_thrift_route_entry_t'' [(''vr_id'', self ''default_vrf''), (''destination'',
        ip_prefix (add (self ''node0_prefix_sid'') (str ''/64'')))]),
      run (api_create_entry ''route_entry'' (self ''tunnel_route1'') [(''next_hop_id'', self ''und_nhop'')]),
      set_self ''tunnel_route2'' (struct ''sai_thrift_route_entry_t'' [(''vr_id'', self ''default_vrf''), (''destination'',
        ip_prefix (add (self ''node1_prefix_sid'') (str ''/64'')))]),
      run (api_create_entry ''route_entry'' (self ''tunnel_route2'') [(''next_hop_id'', self ''und_nhop'')]),
      set_self ''tunnel_route3'' (struct ''sai_thrift_route_entry_t'' [(''vr_id'', self ''default_vrf''), (''destination'',
        ip_prefix (add (self ''node2_prefix_sid'') (str ''/64'')))]),
      run (api_create_entry ''route_entry'' (self ''tunnel_route3'') [(''next_hop_id'', self ''und_nhop'')]),
      set_self ''t_vrf_id'' (api_create ''virtual_router'' []),
      set_self ''t_route'' (struct ''sai_thrift_route_entry_t'' [(''vr_id'', self ''t_vrf_id''), (''destination'', ip_prefix
        (add (self ''node1_prefix_sid'') (str ''/80'')))]),
      set_self ''xconn_nhop'' (api_create ''next_hop'' [(''type'', num SAI_NEXT_HOP_TYPE_IP), (''ip'', ip_address (self
        ''xconn_nbor_ip'')), (''router_interface_id'', self ''port13_rif'')]),
      set_self ''xconn_nbor'' (struct ''sai_thrift_neighbor_entry_t'' [(''rif_id'', self ''port13_rif''), (''ip_address'',
        ip_address (self ''xconn_nbor_ip''))]),
      run (api_create_entry ''neighbor_entry'' (self ''xconn_nbor'') [(''dst_mac_address'', self ''srv6_mac'')]),
      set_self ''end_sid_counter'' (api_create ''counter'' []),
      set_self ''end_sid_stats'' (num 0),
      assign ''end_bf'' (num SAI_MY_SID_ENTRY_ENDPOINT_BEHAVIOR_FLAVOR_PSP_AND_USD),
      set_self ''end_sid'' (struct ''sai_thrift_my_sid_entry_t'' [(''sid'', self ''node0_prefix_sid''), (''vr_id'', self
        ''default_vrf'')]),
      run (api_create_entry ''my_sid_entry'' (self ''end_sid'') [(''endpoint_behavior'', num
        SAI_MY_SID_ENTRY_ENDPOINT_BEHAVIOR_E), (''endpoint_behavior_flavor'', var ''end_bf''), (''counter_id'', self
        ''end_sid_counter'')]),
      run (api_create_entry ''route_entry'' (self ''t_route'') [(''next_hop_id'', self ''und_nhop'')]),
      set_self ''end_t_sid'' (struct ''sai_thrift_my_sid_entry_t'' [(''sid'', self ''node0_t_sid''), (''vr_id'', self
        ''default_vrf'')]),
      run (api_create_entry ''my_sid_entry'' (self ''end_t_sid'') [(''endpoint_behavior'', num
        SAI_MY_SID_ENTRY_ENDPOINT_BEHAVIOR_T), (''vrf'', self ''t_vrf_id'')]),
      set_self ''end_dt46_sid1'' (struct ''sai_thrift_my_sid_entry_t'' [(''sid'', self ''node0_dt46_sid1''), (''vr_id'', self
        ''default_vrf'')]),
      run (api_create_entry ''my_sid_entry'' (self ''end_dt46_sid1'') [(''vrf'', self ''default_vrf''), (''endpoint_behavior'',
        num SAI_MY_SID_ENTRY_ENDPOINT_BEHAVIOR_DT46)]),
      set_self ''end_dt46_sid2'' (struct ''sai_thrift_my_sid_entry_t'' [(''sid'', self ''node0_dt46_sid2''), (''vr_id'', self
        ''default_vrf'')]),
      run (api_create_entry ''my_sid_entry'' (self ''end_dt46_sid2'') [(''vrf'', self ''t_vrf_id''), (''endpoint_behavior'', num
        SAI_MY_SID_ENTRY_ENDPOINT_BEHAVIOR_DT46)]),
      set_self ''end_dt4_sid'' (struct ''sai_thrift_my_sid_entry_t'' [(''sid'', self ''node0_dt4_sid''), (''vr_id'', self
        ''default_vrf'')]),
      run (api_create_entry ''my_sid_entry'' (self ''end_dt4_sid'') [(''vrf'', self ''t_vrf_id''), (''endpoint_behavior'', num
        SAI_MY_SID_ENTRY_ENDPOINT_BEHAVIOR_DT4)]),
      set_self ''end_dt6_sid'' (struct ''sai_thrift_my_sid_entry_t'' [(''sid'', self ''node0_dt6_sid''), (''vr_id'', self
        ''default_vrf'')]),
      run (api_create_entry ''my_sid_entry'' (self ''end_dt6_sid'') [(''vrf'', self ''t_vrf_id''), (''endpoint_behavior'', num
        SAI_MY_SID_ENTRY_ENDPOINT_BEHAVIOR_DT6)]),
      set_self ''end_x_sid'' (struct ''sai_thrift_my_sid_entry_t'' [(''sid'', self ''node0_adj_sid''), (''vr_id'', self
        ''default_vrf'')]),
      run (api_create_entry ''my_sid_entry'' (self ''end_x_sid'') [(''vrf'', self ''default_vrf''), (''endpoint_behavior'', num
        SAI_MY_SID_ENTRY_ENDPOINT_BEHAVIOR_X), (''next_hop_id'', self ''xconn_nhop'')]),
      assign ''my_encap_sid_list'' (list_of [self ''node2_prefix_sid'', self ''node1_prefix_sid'', self ''node0_prefix_sid'']),
      assign ''sai_segment_list1'' (struct ''sai_thrift_segment_list_t'' [(''count'', num 2), (''ip6list'', slice (var
        ''my_encap_sid_list'') 1 None)]),
      set_self ''sidlist1'' (api_create ''srv6_sidlist'' [(''type'', num SAI_SRV6_SIDLIST_TYPE_ENCAPS_RED), (''segment_list'',
        var ''sai_segment_list1'')]),
      assign ''sai_segment_list_2'' (struct ''sai_thrift_segment_list_t'' [(''count'', num 3), (''ip6list'', var
        ''my_encap_sid_list'')]),
      set_self ''sidlist2'' (api_create ''srv6_sidlist'' [(''type'', num SAI_SRV6_SIDLIST_TYPE_ENCAPS_RED), (''segment_list'',
        var ''sai_segment_list_2'')]),
      set_self ''sr_nhop1'' (api_create ''next_hop'' [(''type'', num SAI_NEXT_HOP_TYPE_SRV6_SIDLIST), (''srv6_sidlist_id'', self
        ''sidlist1''), (''tunnel_id'', self ''sr_tunnel'')]),
      set_self ''sr_nhop2'' (api_create ''next_hop'' [(''type'', num SAI_NEXT_HOP_TYPE_SRV6_SIDLIST), (''srv6_sidlist_id'', self
        ''sidlist2''), (''tunnel_id'', self ''sr_tunnel'')]),
      set_self ''end_b6_encap_sid'' (struct ''sai_thrift_my_sid_entry_t'' [(''sid'', self ''node0_b6_encap_sid''), (''vr_id'',
        self ''default_vrf'')]),
      run (api_create_entry ''my_sid_entry'' (self ''end_b6_encap_sid'') [(''vrf'', self ''default_vrf''),
        (''endpoint_behavior'', num SAI_MY_SID_ENTRY_ENDPOINT_BEHAVIOR_B6_ENCAPS_RED), (''next_hop_id'', self ''sr_nhop1'')]),
      assign ''my_insert_sid_list'' (list_of [self ''node0_prefix_sid'', self ''node1_prefix_sid'']),
      assign ''sai_segment_list3'' (struct ''sai_thrift_segment_list_t'' [(''count'', num 2), (''ip6list'', var
        ''my_insert_sid_list'')]),
      set_self ''sidlist3'' (api_create ''srv6_sidlist'' [(''type'', num SAI_SRV6_SIDLIST_TYPE_INSERT_RED), (''segment_list'',
        var ''sai_segment_list3'')]),
      set_self ''sr_nhop3'' (api_create ''next_hop'' [(''type'', num SAI_NEXT_HOP_TYPE_SRV6_SIDLIST), (''srv6_sidlist_id'', self
        ''sidlist3''), (''tunnel_id'', self ''sr_tunnel'')]),
      set_self ''end_b6_insert_sid'' (struct ''sai_thrift_my_sid_entry_t'' [(''sid'', self ''node0_b6_insert_sid''), (''vr_id'',
        self ''default_vrf'')]),
      run (api_create_entry ''my_sid_entry'' (self ''end_b6_insert_sid'') [(''vrf'', self ''default_vrf''),
        (''endpoint_behavior'', num SAI_MY_SID_ENTRY_ENDPOINT_BEHAVIOR_B6_INSERT_RED), (''next_hop_id'', self ''sr_nhop3'')]),
      set_self ''inner_v4_pkt'' (lib ''simple_tcp_packet'' [] [(''eth_dst'', str ROUTER_MAC), (''eth_src'', str
        ''00:22:22:22:22:21''), (''ip_dst'', self ''client_ip_dest''), (''ip_src'', self ''client_ip_src''), (''ip_id'', num
        105), (''ip_ttl'', num 64)]),
      set_self ''v4_exp_pkt'' (lib ''simple_tcp_packet'' [] [(''eth_src'', str ROUTER_MAC), (''eth_dst'', self ''client_dmac''),
        (''ip_dst'', self ''client_ip_dest''), (''ip_src'', self ''client_ip_src''), (''ip_id'', num 105), (''ip_ttl'', num
        63)]),
      set_self ''inner_v6_pkt'' (lib ''simple_tcpv6_packet'' [] [(''eth_dst'', str ROUTER_MAC), (''eth_src'', str
        ''00:22:22:22:22:21''), (''ipv6_dst'', self ''client_ipv6_dest''), (''ipv6_src'', self ''client_ipv6_src''),
        (''ipv6_hlim'', num 64)]),
      set_self ''v6_exp_pkt'' (lib ''simple_tcpv6_packet'' [] [(''eth_src'', str ROUTER_MAC), (''eth_dst'', self
        ''client_dmac''), (''ipv6_dst'', self ''client_ipv6_dest''), (''ipv6_src'', self ''client_ipv6_src''), (''ipv6_hlim'',
        num 63)])]"

definition Srv6MySidTest_mySidEndTest :: "'d stmt" where
  "Srv6MySidTest_mySidEndTest = block [
      assign ''sr6_more_seg_pkt'' (lib ''simple_ipv6_sr_packet'' [] [(''eth_dst'', str ROUTER_MAC), (''eth_src'', self
        ''srv6_mac''), (''ipv6_src'', self ''srv6_src_ip''), (''ipv6_dst'', self ''node0_prefix_sid''), (''ipv6_hlim'', num 64),
        (''srh_seg_left'', num 2), (''srh_first_seg'', num 1), (''srh_nh'', num 4), (''srh_seg_list'', self ''sid_list''),
        (''inner_frame'', lib ''get_layer'' [self ''inner_v4_pkt'', str ''IP''] [])]),
      assign ''exp_pkt1'' (lib ''simple_ipv6_sr_packet'' [] [(''eth_src'', str ROUTER_MAC), (''eth_dst'', self ''srv6_mac''),
        (''ipv6_src'', self ''srv6_src_ip''), (''ipv6_dst'', self ''node1_prefix_sid''), (''ipv6_hlim'', num 63),
        (''srh_seg_left'', num 1), (''srh_first_seg'', num 1), (''srh_nh'', num 4), (''srh_seg_list'', self ''sid_list''),
        (''inner_frame'', lib ''get_layer'' [self ''inner_v4_pkt'', str ''IP''] [])]),
      assign ''sr6_one_seg_pkt'' (lib ''simple_ipv6_sr_packet'' [] [(''eth_dst'', str ROUTER_MAC), (''eth_src'', self
        ''srv6_mac''), (''ipv6_src'', self ''srv6_src_ip''), (''ipv6_dst'', self ''node0_prefix_sid''), (''ipv6_hlim'', num 64),
        (''srh_seg_left'', num 1), (''srh_first_seg'', num 1), (''srh_nh'', num 4), (''srh_seg_list'', self ''sid_list''),
        (''inner_frame'', lib ''get_layer'' [self ''inner_v4_pkt'', str ''IP''] [])]),
      assign ''exp_pkt2'' (lib ''simple_ipv6ip_packet'' [] [(''eth_src'', str ROUTER_MAC), (''eth_dst'', self ''srv6_mac''),
        (''ipv6_src'', self ''srv6_src_ip''), (''ipv6_dst'', self ''node2_prefix_sid''), (''ipv6_hlim'', num 63),
        (''inner_frame'', lib ''get_layer'' [self ''inner_v4_pkt'', str ''IP''] [])]),
      assign ''sr6_zero_seg_pkt'' (lib ''simple_ipv6_sr_packet'' [] [(''eth_dst'', str ROUTER_MAC), (''eth_src'', self
        ''srv6_mac''), (''ipv6_src'', self ''srv6_src_ip''), (''ipv6_dst'', self ''node0_prefix_sid''), (''ipv6_hlim'', num 64),
        (''srh_seg_left'', num 0), (''srh_first_seg'', num 1), (''srh_nh'', num 4), (''srh_seg_list'', self ''sid_list''),
        (''inner_frame'', lib ''get_layer'' [self ''inner_v4_pkt'', str ''IP''] [])]),
      assign ''exp_pkt3'' (lib ''simple_tcp_packet'' [] [(''eth_src'', str ROUTER_MAC), (''eth_dst'', self ''client_dmac''),
        (''ip_dst'', self ''client_ip_dest''), (''ip_src'', self ''client_ip_src''), (''ip_id'', num 105), (''ip_ttl'', num
        63)]),
      run (lib ''send_packet'' [self ''dev_port11'', var ''sr6_more_seg_pkt''] []),
      run (lib ''verify_packet'' [var ''exp_pkt1'', self ''dev_port12''] []),
      set_self ''end_sid_stats'' (add (self ''end_sid_stats'') (num 1)),
      run (lib ''send_packet'' [self ''dev_port11'', var ''sr6_one_seg_pkt''] []),
      run (lib ''verify_packet'' [var ''exp_pkt2'', self ''dev_port12''] []),
      set_self ''end_sid_stats'' (add (self ''end_sid_stats'') (num 1)),
      run (lib ''send_packet'' [self ''dev_port11'', var ''sr6_zero_seg_pkt''] []),
      run (lib ''verify_packet'' [var ''exp_pkt3'', self ''dev_port10''] []),
      set_self ''end_sid_stats'' (add (self ''end_sid_stats'') (num 1))]"

definition Srv6MySidTest_mySidEndTTest :: "'d stmt" where
  "Srv6MySidTest_mySidEndTTest = block [
      assign ''sr6_pkt'' (lib ''simple_ipv6_sr_packet'' [] [(''eth_dst'', str ROUTER_MAC), (''eth_src'', self ''srv6_mac''),
        (''ipv6_src'', self ''srv6_src_ip''), (''ipv6_dst'', self ''node0_t_sid''), (''ipv6_hlim'', num 64), (''srh_seg_left'',
        num 2), (''srh_first_seg'', num 1), (''srh_nh'', num 4), (''srh_seg_list'', self ''sid_list''), (''inner_frame'', lib
        ''get_layer'' [self ''inner_v4_pkt'', str ''IP''] [])]),
      assign ''exp_pkt'' (lib ''simple_ipv6_sr_packet'' [] [(''eth_dst'', self ''srv6_mac''), (''eth_src'', str ROUTER_MAC),
        (''ipv6_src'', self ''srv6_src_ip''), (''ipv6_dst'', self ''node1_prefix_sid''), (''ipv6_hlim'', num 63),
        (''srh_seg_left'', num 1), (''srh_first_seg'', num 1), (''srh_nh'', num 4), (''srh_seg_list'', self ''sid_list''),
        (''inner_frame'', lib ''get_layer'' [self ''inner_v4_pkt'', str ''IP''] [])]),
      print [self ''dev_port11'', self ''dev_port12''],
      run (lib ''send_packet'' [self ''dev_port11'', var ''sr6_pkt''] []),
      run (lib ''verify_packet'' [var ''exp_pkt'', self ''dev_port12''] [])]"

definition Srv6MySidTest_mySidEndDT46Test :: "'d stmt" where
  "Srv6MySidTest_mySidEndDT46Test = block [
      assign ''sr6_pkt'' (lib ''simple_ipv6ip_packet'' [] [(''eth_dst'', str ROUTER_MAC), (''eth_src'', self ''srv6_mac''),
        (''ipv6_src'', self ''srv6_src_ip''), (''ipv6_dst'', self ''node0_dt46_sid1''), (''ipv6_hlim'', num 64),
        (''inner_frame'', lib ''get_layer'' [self ''inner_v4_pkt'', str ''IP''] [])]),
      assign ''sr6_zero_seg_pkt'' (lib ''simple_ipv6_sr_packet'' [] [(''eth_dst'', str ROUTER_MAC), (''eth_src'', self
        ''srv6_mac''), (''ipv6_src'', self ''srv6_src_ip''), (''ipv6_dst'', self ''node0_dt46_sid1''), (''ipv6_hlim'', num 64),
        (''srh_seg_left'', num 0), (''srh_first_seg'', num 1), (''srh_nh'', num 4), (''srh_seg_list'', list_of [self
        ''node2_prefix_sid'', self ''node1_prefix_sid'']), (''inner_frame'', lib ''get_layer'' [self ''inner_v4_pkt'', str
        ''IP''] [])]),
      assign ''sr6_one_seg_pkt'' (lib ''simple_ipv6_sr_packet'' [] [(''eth_dst'', str ROUTER_MAC), (''eth_src'', self
        ''srv6_mac''), (''ipv6_src'', self ''srv6_src_ip''), (''ipv6_dst'', self ''node0_dt46_sid1''), (''ipv6_hlim'', num 64),
        (''srh_seg_left'', num 1), (''srh_first_seg'', num 1), (''srh_nh'', num 4), (''srh_seg_list'', list_of [self
        ''node2_prefix_sid'', self ''node1_prefix_sid'']), (''inner_frame'', lib ''get_layer'' [self ''inner_v4_pkt'', str
        ''IP''] [])]),
      assign ''sr6_v6_pkt'' (lib ''simple_ipv6ip_packet'' [] [(''eth_dst'', str ROUTER_MAC), (''eth_src'', self ''srv6_mac''),
        (''ipv6_src'', self ''srv6_src_ip''), (''ipv6_dst'', self ''node0_dt46_sid2''), (''ipv6_hlim'', num 64),
        (''inner_frame'', lib ''get_layer'' [self ''inner_v6_pkt'', str ''IPv6''] [])]),
      try_finally [
        assign ''dt46_v6_route_entry'' (struct ''sai_thrift_route_entry_t'' [(''vr_id'', self ''t_vrf_id''), (''destination'',
          ip_prefix (add (self ''client_ipv6_dest'') (str ''/128'')))]),
        run (api_create_entry ''route_entry'' (var ''dt46_v6_route_entry'') [(''next_hop_id'', self ''ip_nhop'')]),
        print [self ''dev_port11'', self ''dev_port10'', self ''srv6_src_ip'', self ''node0_prefix_sid''],
        run (lib ''send_packet'' [self ''dev_port11'', var ''sr6_pkt''] []),
        run (lib ''verify_packets'' [self ''v4_exp_pkt'', list_of [self ''dev_port10'']] []),
        print [self ''dev_port11'', self ''dev_port10'', self ''srv6_src_ip'', self ''node1_prefix_sid''],
        run (lib ''send_packet'' [self ''dev_port11'', var ''sr6_v6_pkt''] []),
        run (lib ''verify_packets'' [self ''v6_exp_pkt'', list_of [self ''dev_port10'']] []),
        print [self ''dev_port10''],
        run (lib ''send_packet'' [self ''dev_port11'', var ''sr6_zero_seg_pkt''] []),
        run (lib ''verify_packets'' [self ''v4_exp_pkt'', list_of [self ''dev_port10'']] []),
        run (lib ''send_packet'' [self ''dev_port11'', var ''sr6_one_seg_pkt''] []),
        run (lib ''verify_no_other_packets'' [] [])] [
        run (api_remove ''route_entry'' (var ''dt46_v6_route_entry''))]]"

definition Srv6MySidTest_mySidEndDT4Test :: "'d stmt" where
  "Srv6MySidTest_mySidEndDT4Test = block [
      assign ''sr6_pkt'' (lib ''simple_ipv6ip_packet'' [] [(''eth_dst'', str ROUTER_MAC), (''eth_src'', self ''srv6_mac''),
        (''ipv6_src'', self ''srv6_src_ip''), (''ipv6_dst'', self ''node0_dt4_sid''), (''ipv6_hlim'', num 64), (''inner_frame'',
        lib ''get_layer'' [self ''inner_v4_pkt'', str ''IP''] [])]),
      assign ''sr6_zero_seg_pkt'' (lib ''simple_ipv6_sr_packet'' [] [(''eth_dst'', str ROUTER_MAC), (''eth_src'', self
        ''srv6_mac''), (''ipv6_src'', self ''srv6_src_ip''), (''ipv6_dst'', self ''node0_dt4_sid''), (''ipv6_hlim'', num 64),
        (''srh_seg_left'', num 0), (''srh_first_seg'', num 1), (''srh_nh'', num 4), (''srh_seg_list'', list_of [self
        ''node2_prefix_sid'', self ''node1_prefix_sid'']), (''inner_frame'', lib ''get_layer'' [self ''inner_v4_pkt'', str
        ''IP''] [])]),
      assign ''sr6_one_seg_pkt'' (lib ''simple_ipv6_sr_packet'' [] [(''eth_dst'', str ROUTER_MAC), (''eth_src'', self
        ''srv6_mac''), (''ipv6_src'', self ''srv6_src_ip''), (''ipv6_dst'', self ''node0_dt4_sid''), (''ipv6_hlim'', num 64),
        (''srh_seg_left'', num 1), (''srh_first_seg'', num 1), (''srh_nh'', num 4), (''srh_seg_list'', list_of [self
        ''node2_prefix_sid'', self ''node1_prefix_sid'']), (''inner_frame'', lib ''get_layer'' [self ''inner_v4_pkt'', str
        ''IP''] [])]),
      try_finally [
        assign ''dt4_v4_route_entry'' (struct ''sai_thrift_route_entry_t'' [(''vr_id'', self ''t_vrf_id''), (''destination'',
          ip_prefix (add (self ''client_ip_dest'') (str ''/32'')))]),
        run (api_create_entry ''route_entry'' (var ''dt4_v4_route_entry'') [(''next_hop_id'', self ''ip_nhop'')]),
        print [self ''dev_port11'', self ''dev_port10'', self ''srv6_src_ip'', self ''node0_prefix_sid''],
        run (lib ''send_packet'' [self ''dev_port11'', var ''sr6_pkt''] []),
        run (lib ''verify_packets'' [self ''v4_exp_pkt'', list_of [self ''dev_port10'']] []),
        print [self ''dev_port10''],
        run (lib ''send_packet'' [self ''dev_port11'', var ''sr6_zero_seg_pkt''] []),
        run (lib ''verify_packets'' [self ''v4_exp_pkt'', list_of [self ''dev_port10'']] []),
        run (lib ''send_packet'' [self ''dev_port11'', var ''sr6_one_seg_pkt''] []),
        run (lib ''verify_no_other_packets'' [] [])] [
        run (api_remove ''route_entry'' (var ''dt4_v4_route_entry''))]]"

definition Srv6MySidTest_mySidEndDT6Test :: "'d stmt" where
  "Srv6MySidTest_mySidEndDT6Test = block [
      assign ''sr6_v6_pkt'' (lib ''simple_ipv6ip_packet'' [] [(''eth_dst'', str ROUTER_MAC), (''eth_src'', self ''srv6_mac''),
        (''ipv6_src'', self ''srv6_src_ip''), (''ipv6_dst'', self ''node0_dt6_sid''), (''ipv6_hlim'', num 64), (''inner_frame'',
        lib ''get_layer'' [self ''inner_v6_pkt'', str ''IPv6''] [])]),
      assign ''sr6_zero_seg_pkt'' (lib ''simple_ipv6_sr_packet'' [] [(''eth_dst'', str ROUTER_MAC), (''eth_src'', self
        ''srv6_mac''), (''ipv6_src'', self ''srv6_src_ip''), (''ipv6_dst'', self ''node0_dt6_sid''), (''ipv6_hlim'', num 64),
        (''srh_seg_left'', num 0), (''srh_first_seg'', num 1), (''srh_nh'', num 41), (''srh_seg_list'', list_of [self
        ''node2_prefix_sid'', self ''node1_prefix_sid'']), (''inner_frame'', lib ''get_layer'' [self ''inner_v6_pkt'', str
        ''IPv6''] [])]),
      assign ''sr6_one_seg_pkt'' (lib ''simple_ipv6_sr_packet'' [] [(''eth_dst'', str ROUTER_MAC), (''eth_src'', self
        ''srv6_mac''), (''ipv6_src'', self ''srv6_src_ip''), (''ipv6_dst'', self ''node0_dt6_sid''), (''ipv6_hlim'', num 64),
        (''srh_seg_left'', num 1), (''srh_first_seg'', num 1), (''srh_nh'', num 41), (''srh_seg_list'', list_of [self
        ''node2_prefix_sid'', self ''node1_prefix_sid'']), (''inner_frame'', lib ''get_layer'' [self ''inner_v6_pkt'', str
        ''IPv6''] [])]),
      try_finally [
        assign ''dt6_v6_route_entry'' (struct ''sai_thrift_route_entry_t'' [(''vr_id'', self ''t_vrf_id''), (''destination'',
          ip_prefix (add (self ''client_ipv6_dest'') (str ''/128'')))]),
        run (api_create_entry ''route_entry'' (var ''dt6_v6_route_entry'') [(''next_hop_id'', self ''ip_nhop'')]),
        print [self ''dev_port11'', self ''dev_port10'', self ''srv6_src_ip'', self ''node1_prefix_sid''],
        run (lib ''send_packet'' [self ''dev_port11'', var ''sr6_v6_pkt''] []),
        run (lib ''verify_packets'' [self ''v6_exp_pkt'', list_of [self ''dev_port10'']] []),
        print [self ''dev_port10''],
        run (lib ''send_packet'' [self ''dev_port11'', var ''sr6_zero_seg_pkt''] []),
        run (lib ''verify_packets'' [self ''v6_exp_pkt'', list_of [self ''dev_port10'']] []),
        run (lib ''send_packet'' [self ''dev_port11'', var ''sr6_one_seg_pkt''] []),
        run (lib ''verify_no_other_packets'' [] [])] [
        run (api_remove ''route_entry'' (var ''dt6_v6_route_entry''))]]"

definition Srv6MySidTest_tearDown :: "'d stmt" where
  "Srv6MySidTest_tearDown = block [
      run (api_remove ''my_sid_entry'' (self ''end_b6_insert_sid'')),
      run (api_remove ''next_hop'' (self ''sr_nhop3'')),
      run (api_remove ''srv6_sidlist'' (self ''sidlist3'')),
      run (api_remove ''my_sid_entry'' (self ''end_b6_encap_sid'')),
      run (api_remove ''next_hop'' (self ''sr_nhop2'')),
      run (api_remove ''next_hop'' (self ''sr_nhop1'')),
      run (api_remove ''srv6_sidlist'' (self ''sidlist2'')),
      run (api_remove ''srv6_sidlist'' (self ''sidlist1'')),
      run (api_remove ''my_sid_entry'' (self ''end_x_sid'')),
      run (api_remove ''my_sid_entry'' (self ''end_dt6_sid'')),
      run (api_remove ''my_sid_entry'' (self ''end_dt4_sid'')),
      run (api_remove ''my_sid_entry'' (self ''end_dt46_sid2'')),
      run (api_remove ''my_sid_entry'' (self ''end_dt46_sid1'')),
      run (api_remove ''my_sid_entry'' (self ''end_t_sid'')),
      run (api_remove ''my_sid_entry'' (self ''end_sid'')),
      run (api_remove ''counter'' (self ''end_sid_counter'')),
      run (api_remove ''neighbor_entry'' (self ''xconn_nbor'')),
      run (api_remove ''next_hop'' (self ''xconn_nhop'')),
      run (api_remove ''route_entry'' (self ''t_route'')),
      run (api_remove ''virtual_router'' (self ''t_vrf_id'')),
      run (api_remove ''route_entry'' (self ''tunnel_route3'')),
      run (api_remove ''route_entry'' (self ''tunnel_route2'')),
      run (api_remove ''route_entry'' (self ''tunnel_route1'')),
      run (api_remove ''neighbor_entry'' (self ''und_nbor'')),
      run (api_remove ''next_hop'' (self ''und_nhop'')),
      run (api_remove ''tunnel'' (self ''sr_tunnel'')),
      run (api_remove ''router_interface'' (self ''urif_lb'')),
      run (api_remove ''route_entry'' (self ''ipv6_route'')),
      run (api_remove ''route_entry'' (self ''ip_route'')),
      run (api_remove ''neighbor_entry'' (self ''ip_nbor'')),
      run (api_remove ''next_hop'' (self ''ip_nhop'')),
      super_tearDown]"

definition Srv6MySidTest_mySidEndDT4ReEncapTest :: "'d stmt" where
  "Srv6MySidTest_mySidEndDT4ReEncapTest = block [
      assign ''inner_dst_ip'' (str ''192.168.1.1''),
      assign ''inner_packet'' (lib ''simple_tcp_packet'' [] [(''eth_dst'', str ROUTER_MAC), (''eth_src'', str
        ''00:22:22:22:22:21''), (''ip_dst'', var ''inner_dst_ip''), (''ip_src'', self ''client_ip_src''), (''ip_id'', num 105),
        (''ip_ttl'', num 64)]),
      assign ''sr6_pkt'' (lib ''simple_ipv6ip_packet'' [] [(''eth_dst'', str ROUTER_MAC), (''eth_src'', self ''srv6_mac''),
        (''ipv6_src'', self ''srv6_src_ip''), (''ipv6_dst'', self ''node0_dt4_sid''), (''ipv6_hlim'', num 64), (''inner_frame'',
        lib ''get_layer'' [var ''inner_packet'', str ''IP''] [])]),
      assign ''inner_packet'' (lib ''set_field'' [var ''inner_packet'', str ''IP'', str ''ttl'', num 63] []),
      assign ''exp_sr6_pkt'' (lib ''simple_ipv6_sr_packet'' [] [(''eth_dst'', self ''srv6_mac''), (''eth_src'', str ROUTER_MAC),
        (''ipv6_src'', self ''srv6_src_ip''), (''ipv6_dst'', self ''node1_prefix_sid''), (''ipv6_hlim'', num 64),
        (''srh_first_seg'', num 0), (''srh_seg_left'', num 1), (''srh_nh'', num 4), (''srh_seg_list'', list_of [self
        ''node0_prefix_sid'']), (''inner_frame'', lib ''get_layer'' [var ''inner_packet'', str ''IP''] [])]),
      try_finally [
        assign ''sr_route'' (struct ''sai_thrift_route_entry_t'' [(''vr_id'', self ''t_vrf_id''), (''destination'', ip_prefix
          (add (var ''inner_dst_ip'') (str ''/32'')))]),
        run (api_create_entry ''route_entry'' (var ''sr_route'') [(''next_hop_id'', self ''sr_nhop1'')]),
        print [self ''dev_port11'', self ''dev_port12''],
        run (lib ''send_packet'' [self ''dev_port11'', var ''sr6_pkt''] []),
        run (lib ''verify_packets'' [var ''exp_sr6_pkt'', list_of [self ''dev_port12'']] [])] [
        run (api_remove ''route_entry'' (var ''sr_route''))]]"

definition Srv6MySidTest_mySidEndDT6ReEncapTest :: "'d stmt" where
  "Srv6MySidTest_mySidEndDT6ReEncapTest = block [
      assign ''inner_dst_ipv6'' (str ''1111:1111::1''),
      assign ''inner_packet'' (lib ''simple_tcpv6_packet'' [] [(''eth_dst'', str ROUTER_MAC), (''eth_src'', str
        ''00:22:22:22:22:21''), (''ipv6_dst'', var ''inner_dst_ipv6''), (''ipv6_src'', self ''client_ipv6_src''),
        (''ipv6_hlim'', num 64)]),
      assign ''sr6_pkt'' (lib ''simple_ipv6ip_packet'' [] [(''eth_dst'', str ROUTER_MAC), (''eth_src'', self ''srv6_mac''),
        (''ipv6_src'', self ''srv6_src_ip''), (''ipv6_dst'', self ''node0_dt6_sid''), (''ipv6_hlim'', num 64), (''inner_frame'',
        lib ''get_layer'' [var ''inner_packet'', str ''IPv6''] [])]),
      assign ''inner_packet'' (lib ''set_field'' [var ''inner_packet'', str ''IPv6'', str ''hlim'', num 63] []),
      assign ''exp_sr6_pkt'' (lib ''simple_ipv6_sr_packet'' [] [(''eth_dst'', self ''srv6_mac''), (''eth_src'', str ROUTER_MAC),
        (''ipv6_src'', self ''srv6_src_ip''), (''ipv6_dst'', self ''node1_prefix_sid''), (''ipv6_hlim'', num 64),
        (''srh_first_seg'', num 0), (''srh_seg_left'', num 1), (''srh_nh'', num 41), (''srh_seg_list'', list_of [self
        ''node0_prefix_sid'']), (''inner_frame'', lib ''get_layer'' [var ''inner_packet'', str ''IPv6''] [])]),
      try_finally [
        assign ''sr_route'' (struct ''sai_thrift_route_entry_t'' [(''vr_id'', self ''t_vrf_id''), (''destination'', ip_prefix
          (add (var ''inner_dst_ipv6'') (str ''/128'')))]),
        run (api_create_entry ''route_entry'' (var ''sr_route'') [(''next_hop_id'', self ''sr_nhop1'')]),
        print [self ''dev_port11'', self ''dev_port12''],
        run (lib ''send_packet'' [self ''dev_port11'', var ''sr6_pkt''] []),
        run (lib ''verify_packets'' [var ''exp_sr6_pkt'', list_of [self ''dev_port12'']] [])] [
        run (api_remove ''route_entry'' (var ''sr_route''))]]"

definition Srv6MySidTest_mySidEndDT46ReEncapTest :: "'d stmt" where
  "Srv6MySidTest_mySidEndDT46ReEncapTest = block [
      assign ''inner_dst_ipv4'' (str ''192.168.1.1''),
      assign ''inner_v4_packet'' (lib ''simple_tcp_packet'' [] [(''eth_dst'', str ROUTER_MAC), (''eth_src'', str
        ''00:22:22:22:22:21''), (''ip_dst'', var ''inner_dst_ipv4''), (''ip_src'', self ''client_ip_src''), (''ip_id'', num
        105), (''ip_ttl'', num 64)]),
      assign ''sr6_pkt'' (lib ''simple_ipv6ip_packet'' [] [(''eth_dst'', str ROUTER_MAC), (''eth_src'', self ''srv6_mac''),
        (''ipv6_src'', self ''srv6_src_ip''), (''ipv6_dst'', self ''node0_dt46_sid2''), (''ipv6_hlim'', num 64),
        (''inner_frame'', lib ''get_layer'' [var ''inner_v4_packet'', str ''IP''] [])]),
      assign ''inner_v4_packet'' (lib ''set_field'' [var ''inner_v4_packet'', str ''IP'', str ''ttl'', num 63] []),
      assign ''exp_sr6_pkt'' (lib ''simple_ipv6_sr_packet'' [] [(''eth_dst'', self ''srv6_mac''), (''eth_src'', str ROUTER_MAC),
        (''ipv6_src'', self ''srv6_src_ip''), (''ipv6_dst'', self ''node1_prefix_sid''), (''ipv6_hlim'', num 64),
        (''srh_first_seg'', num 0), (''srh_seg_left'', num 1), (''srh_nh'', num 4), (''srh_seg_list'', list_of [self
        ''node0_prefix_sid'']), (''inner_frame'', lib ''get_layer'' [var ''inner_v4_packet'', str ''IP''] [])]),
      try_finally [
        assign ''sr_route'' (struct ''sai_thrift_route_entry_t'' [(''vr_id'', self ''t_vrf_id''), (''destination'', ip_prefix
          (add (var ''inner_dst_ipv4'') (str ''/32'')))]),
        run (api_create_entry ''route_entry'' (var ''sr_route'') [(''next_hop_id'', self ''sr_nhop1'')]),
        print [self ''dev_port11'', self ''dev_port12''],
        run (lib ''send_packet'' [self ''dev_port11'', var ''sr6_pkt''] []),
        run (lib ''verify_packets'' [var ''exp_sr6_pkt'', list_of [self ''dev_port12'']] [])] [
        run (api_remove ''route_entry'' (var ''sr_route''))],
      assign ''inner_dst_ipv6'' (str ''1111:1111::1''),
      assign ''inner_v6_packet'' (lib ''simple_tcpv6_packet'' [] [(''eth_dst'', str ROUTER_MAC), (''eth_src'', str
        ''00:22:22:22:22:21''), (''ipv6_dst'', var ''inner_dst_ipv6''), (''ipv6_src'', self ''client_ipv6_src''),
        (''ipv6_hlim'', num 64)]),
      assign ''sr6_pkt'' (lib ''simple_ipv6ip_packet'' [] [(''eth_dst'', str ROUTER_MAC), (''eth_src'', self ''srv6_mac''),
        (''ipv6_src'', self ''srv6_src_ip''), (''ipv6_dst'', self ''node0_dt46_sid2''), (''ipv6_hlim'', num 64),
        (''inner_frame'', lib ''get_layer'' [var ''inner_v6_packet'', str ''IPv6''] [])]),
      assign ''inner_v6_packet'' (lib ''set_field'' [var ''inner_v6_packet'', str ''IPv6'', str ''hlim'', num 63] []),
      assign ''exp_sr6_pkt'' (lib ''simple_ipv6_sr_packet'' [] [(''eth_dst'', self ''srv6_mac''), (''eth_src'', str ROUTER_MAC),
        (''ipv6_src'', self ''srv6_src_ip''), (''ipv6_dst'', self ''node1_prefix_sid''), (''ipv6_hlim'', num 64),
        (''srh_first_seg'', num 0), (''srh_seg_left'', num 1), (''srh_nh'', num 41), (''srh_seg_list'', list_of [self
        ''node0_prefix_sid'']), (''inner_frame'', lib ''get_layer'' [var ''inner_v6_packet'', str ''IPv6''] [])]),
      try_finally [
        assign ''sr_route'' (struct ''sai_thrift_route_entry_t'' [(''vr_id'', self ''t_vrf_id''), (''destination'', ip_prefix
          (add (var ''inner_dst_ipv6'') (str ''/128'')))]),
        run (api_create_entry ''route_entry'' (var ''sr_route'') [(''next_hop_id'', self ''sr_nhop1'')]),
        print [self ''dev_port11'', self ''dev_port12''],
        run (lib ''send_packet'' [self ''dev_port11'', var ''sr6_pkt''] []),
        run (lib ''verify_packets'' [var ''exp_sr6_pkt'', list_of [self ''dev_port12'']] [])] [
        run (api_remove ''route_entry'' (var ''sr_route''))]]"

definition Srv6MySidTest_mySidB6EncapTest :: "'d stmt" where
  "Srv6MySidTest_mySidB6EncapTest = block [
      assign ''sr6_pkt'' (lib ''simple_ipv6_sr_packet'' [] [(''eth_dst'', str ROUTER_MAC), (''eth_src'', self ''srv6_mac''),
        (''ipv6_src'', self ''srv6_src_ip''), (''ipv6_dst'', self ''node0_b6_encap_sid''), (''ipv6_hlim'', num 64),
        (''srh_seg_left'', num 1), (''srh_first_seg'', num 1), (''srh_nh'', num 4), (''srh_seg_list'', list_of [self
        ''node2_prefix_sid'', self ''node1_prefix_sid'']), (''inner_frame'', lib ''get_layer'' [self ''inner_v4_pkt'', str
        ''IP''] [])]),
      assign ''inner_sr_pkt'' (lib ''simple_ipv6_sr_packet'' [] [(''ipv6_src'', self ''srv6_src_ip''), (''ipv6_dst'', self
        ''node2_prefix_sid''), (''srh_seg_left'', num 0), (''srh_first_seg'', num 1), (''srh_nh'', num 4), (''ipv6_hlim'', num
        63), (''srh_seg_list'', list_of [self ''node2_prefix_sid'', self ''node1_prefix_sid'']), (''inner_frame'', lib
        ''get_layer'' [self ''inner_v4_pkt'', str ''IP''] [])]),
      assign ''exp_pkt'' (lib ''simple_ipv6_sr_packet'' [] [(''eth_dst'', self ''srv6_mac''), (''eth_src'', str ROUTER_MAC),
        (''ipv6_src'', self ''srv6_src_ip''), (''ipv6_dst'', self ''node1_prefix_sid''), (''ipv6_hlim'', num 64),
        (''srh_first_seg'', num 0), (''srh_seg_left'', num 1), (''srh_nh'', num 41), (''srh_seg_list'', list_of [self
        ''node0_prefix_sid'']), (''inner_frame'', lib ''get_layer'' [var ''inner_sr_pkt'', str ''IPv6''] [])]),
      try_finally [
        run (lib ''send_packet'' [self ''dev_port11'', var ''sr6_pkt''] []),
        run (lib ''verify_packets'' [var ''exp_pkt'', list_of [self ''dev_port12'']] []),
        run (api_set ''my_sid_entry'' (self ''end_b6_encap_sid'') [(''next_hop_id'', self ''sr_nhop2'')]),
        assign ''exp_pkt'' (lib ''simple_ipv6_sr_packet'' [] [(''eth_dst'', self ''srv6_mac''), (''eth_src'', str ROUTER_MAC),
          (''ipv6_src'', self ''srv6_src_ip''), (''ipv6_dst'', self ''node2_prefix_sid''), (''ipv6_hlim'', num 64),
          (''srh_first_seg'', num 1), (''srh_seg_left'', num 2), (''srh_nh'', num 41), (''srh_seg_list'', list_of [self
          ''node0_prefix_sid'', self ''node1_prefix_sid'']), (''inner_frame'', lib ''get_layer'' [var ''inner_sr_pkt'', str
          ''IPv6''] [])]),
        run (lib ''send_packet'' [self ''dev_port11'', var ''sr6_pkt''] []),
        run (lib ''verify_packets'' [var ''exp_pkt'', list_of [self ''dev_port12'']] []),
        run (api_set ''my_sid_entry'' (self ''end_b6_encap_sid'') [(''packet_action'', num SAI_PACKET_ACTION_DROP)]),
        run (lib ''send_packet'' [self ''dev_port11'', var ''sr6_pkt''] []),
        run (lib ''verify_no_other_packets'' [] []),
        run (api_set ''my_sid_entry'' (self ''end_b6_encap_sid'') [(''packet_action'', num SAI_PACKET_ACTION_TRAP)]),
        assign ''pre_stats'' (query ''sai_thrift_get_queue_stats'' [self ''cpu_queue0''] []),
        run (lib ''send_packet'' [self ''dev_port11'', var ''sr6_pkt''] []),
        sleep_for (num 4),
        assign ''post_stats'' (query ''sai_thrift_get_queue_stats'' [self ''cpu_queue0''] []),
        assert_eq (item (var ''post_stats'') (str ''SAI_QUEUE_STAT_PACKETS'')) (add (item (var ''pre_stats'') (str
          ''SAI_QUEUE_STAT_PACKETS'')) (num 1))] [
        run (api_set ''my_sid_entry'' (self ''end_b6_encap_sid'') [(''packet_action'', num SAI_PACKET_ACTION_FORWARD)]),
        run (api_set ''my_sid_entry'' (self ''end_b6_encap_sid'') [(''next_hop_id'', self ''sr_nhop1'')])]]"

definition Srv6MySidTest_mySidCounterTest :: "'d stmt" where
  "Srv6MySidTest_mySidCounterTest = block [
      assign ''my_sid_cntr'' (api_get ''my_sid_entry'' (self ''end_sid'') [(''counter_id'', bool True)]),
      assert_eq (item (var ''my_sid_cntr'') (str ''counter_id'')) (self ''end_sid_counter''),
      assign ''counter_stats'' (query ''sai_thrift_get_counter_stats'' [self ''end_sid_counter''] []),
      assert_eq (item (var ''counter_stats'') (str ''SAI_COUNTER_STAT_PACKETS'')) (self ''end_sid_stats''),
      run (self ''asserNotEqual''),
      run (clear_stats ''sai_thrift_clear_counter_stats'' [self ''end_sid_counter''] []),
      assign ''counter_stats'' (query ''sai_thrift_get_counter_stats'' [self ''end_sid_counter''] []),
      assert_eq (item (var ''counter_stats'') (str ''SAI_COUNTER_STAT_PACKETS'')) (num 0),
      assert_eq (item (var ''counter_stats'') (str ''SAI_COUNTER_STAT_BYTES'')) (num 0)]"

definition Srv6MySidTest_getSetMySidEntryTest :: "'d stmt" where
  "Srv6MySidTest_getSetMySidEntryTest = block [
      assign ''sr6_pkt'' (lib ''simple_ipv6_sr_packet'' [] [(''eth_dst'', str ROUTER_MAC), (''eth_src'', self ''srv6_mac''),
        (''ipv6_src'', self ''srv6_src_ip''), (''ipv6_dst'', self ''node0_prefix_sid''), (''ipv6_hlim'', num 64),
        (''srh_seg_left'', num 2), (''srh_first_seg'', num 1), (''srh_nh'', num 4), (''srh_seg_list'', self ''sid_list''),
        (''inner_frame'', lib ''get_layer'' [self ''inner_v4_pkt'', str ''IP''] [])]),
      assign ''exp_pkt'' (lib ''simple_ipv6_sr_packet'' [] [(''eth_dst'', self ''srv6_mac''), (''eth_src'', str ROUTER_MAC),
        (''ipv6_src'', self ''srv6_src_ip''), (''ipv6_dst'', self ''node1_prefix_sid''), (''ipv6_hlim'', num 63),
        (''srh_seg_left'', num 1), (''srh_first_seg'', num 1), (''srh_nh'', num 4), (''srh_seg_list'', self ''sid_list''),
        (''inner_frame'', lib ''get_layer'' [self ''inner_v4_pkt'', str ''IP''] [])]),
      try_finally [
        assign ''attr'' (api_get ''my_sid_entry'' (self ''end_sid'') [(''endpoint_behavior'', bool True),
          (''endpoint_behavior_flavor'', bool True), (''packet_action'', bool True)]),
        assert_eq (item (var ''attr'') (str ''endpoint_behavior'')) (num SAI_MY_SID_ENTRY_ENDPOINT_BEHAVIOR_E),
        assert_eq (item (var ''attr'') (str ''endpoint_behavior_flavor'')) (num
          SAI_MY_SID_ENTRY_ENDPOINT_BEHAVIOR_FLAVOR_PSP_AND_USD),
        assert_eq (item (var ''attr'') (str ''packet_action'')) (num SAI_PACKET_ACTION_FORWARD),
        run (api_set ''my_sid_entry'' (self ''end_sid'') [(''endpoint_behavior'', num SAI_MY_SID_ENTRY_ENDPOINT_BEHAVIOR_T)]),
        assign ''end_bf'' (num SAI_MY_SID_ENTRY_ENDPOINT_BEHAVIOR_FLAVOR_PSP),
        run (api_set ''my_sid_entry'' (self ''end_sid'') [(''endpoint_behavior_flavor'', var ''end_bf'')]),
        run (api_set ''my_sid_entry'' (self ''end_sid'') [(''vrf'', self ''t_vrf_id'')]),
        assign ''attr'' (api_get ''my_sid_entry'' (self ''end_sid'') [(''endpoint_behavior'', bool True),
          (''endpoint_behavior_flavor'', bool True), (''vrf'', bool True)]),
        assert_eq (item (var ''attr'') (str ''endpoint_behavior'')) (num SAI_MY_SID_ENTRY_ENDPOINT_BEHAVIOR_T),
        assert_eq (item (var ''attr'') (str ''endpoint_behavior_flavor'')) (num SAI_MY_SID_ENTRY_ENDPOINT_BEHAVIOR_FLAVOR_PSP),
        assert_eq (item (var ''attr'') (str ''vrf'')) (self ''t_vrf_id''),
        print [self ''dev_port11'', self ''dev_port12''],
        run (lib ''send_packet'' [self ''dev_port11'', var ''sr6_pkt''] []),
        run (lib ''verify_packet'' [var ''exp_pkt'', self ''dev_port12''] []),
        run (api_set ''my_sid_entry'' (self ''end_sid'') [(''packet_action'', num SAI_PACKET_ACTION_DROP)]),
        assign ''attr'' (api_get ''my_sid_entry'' (self ''end_sid'') [(''packet_action'', bool True)]),
        assert_eq (item (var ''attr'') (str ''packet_action'')) (num SAI_PACKET_ACTION_DROP),
        print [self ''dev_port11''],
        run (lib ''send_packet'' [self ''dev_port11'', var ''sr6_pkt''] []),
        run (lib ''verify_no_other_packets'' [] [])] [
        run (api_set ''my_sid_entry'' (self ''end_sid'') [(''endpoint_behavior'', num SAI_MY_SID_ENTRY_ENDPOINT_BEHAVIOR_E)]),
        assign ''end_bf'' (num SAI_MY_SID_ENTRY_ENDPOINT_BEHAVIOR_FLAVOR_PSP_AND_USD),
        run (api_set ''my_sid_entry'' (self ''end_sid'') [(''endpoint_behavior_flavor'', var ''end_bf'')]),
        run (api_set ''my_sid_entry'' (self ''end_sid'') [(''packet_action'', num SAI_PACKET_ACTION_FORWARD)]),
        run (api_set ''my_sid_entry'' (self ''end_sid'') [(''vrf'', none)])]]"

definition Srv6MySidUsidTest_setUp :: "'d stmt" where
  "Srv6MySidUsidTest_setUp = block [
      super_setUp,
      set_self ''client_ip_src'' (str ''11.0.0.10''),
      set_self ''client_ip_dest'' (str ''11.0.0.11''),
      set_self ''srv6_src_ip'' (str ''2001:1001:0:10::1''),
      set_self ''client_dmac'' (str ''00:22:33:44:55:66''),
      set_self ''und_nbor_mac'' (str ''00:aa:bb:cc:dd:ee''),
      set_self ''und_xconn_nbor_mac'' (str ''00:aa:bb:cc:dd:ee''),
      set_self ''in_un_local_usid'' (str ''2001:db8:100::''),
      set_self ''in_un_usid'' (str ''2001:db8:100:200:300:400:500:600''),
      set_self ''out_un_usid'' (str ''2001:db8:200:300:400:500:600::''),
      set_self ''in_ua_local_usid'' (str ''2001:db8:700:800::''),
      set_self ''in_ua_usid'' (str ''2001:db8:700:800:900:a00:b00:c00''),
      set_self ''out_ua_usid'' (str ''2001:db8:800:900:a00:b00:c00::''),
      set_self ''next_usid1'' (str ''2001:db8:1100:1200:1300:1400:1500:1600''),
      set_self ''next_usid2'' (str ''2001:db8:2100:2200:2300:2400:2500:2600''),
      assign ''un_usid_mask'' (str ''/48''),
      set_self ''usid_segment_list'' (list_of [self ''next_usid2'', self ''next_usid1'']),
      set_self ''urif_lb'' (api_create ''router_interface'' [(''type'', num SAI_ROUTER_INTERFACE_TYPE_LOOPBACK),
        (''virtual_router_id'', self ''default_vrf'')]),
      set_self ''sr_tunnel'' (api_create ''tunnel'' [(''type'', num SAI_TUNNEL_TYPE_SRV6), (''encap_src_ip'', ip_address (self
        ''srv6_src_ip'')), (''underlay_interface'', self ''urif_lb''), (''encap_ttl_mode'', num SAI_TUNNEL_TTL_MODE_PIPE_MODEL),
        (''decap_ttl_mode'', num SAI_TUNNEL_TTL_MODE_PIPE_MODEL)]),
      set_self ''und_nhop'' (api_create ''next_hop'' [(''type'', num SAI_NEXT_HOP_TYPE_IP), (''ip'', ip_address (str
        ''20.20.20.20'')), (''router_interface_id'', self ''port12_rif'')]),
      set_self ''und_nbor'' (struct ''sai_thrift_neighbor_entry_t'' [(''rif_id'', self ''port12_rif''), (''ip_address'',
        ip_address (str ''20.20.20.20''))]),
      run (api_create_entry ''neighbor_entry'' (self ''und_nbor'') [(''dst_mac_address'', self ''und_nbor_mac'')]),
      set_self ''und_route_entry1'' (struct ''sai_thrift_route_entry_t'' [(''vr_id'', self ''default_vrf''), (''destination'',
        ip_prefix (add (self ''in_un_local_usid'') (var ''un_usid_mask'')))]),
      run (api_create_entry ''route_entry'' (self ''und_route_entry1'') [(''next_hop_id'', self ''und_nhop'')]),
      set_self ''und_route_entry2'' (struct ''sai_thrift_route_entry_t'' [(''vr_id'', self ''default_vrf''), (''destination'',
        ip_prefix (add (self ''out_un_usid'') (var ''un_usid_mask'')))]),
      run (api_create_entry ''route_entry'' (self ''und_route_entry2'') [(''next_hop_id'', self ''und_nhop'')]),
      set_self ''und_route_entry3'' (struct ''sai_thrift_route_entry_t'' [(''vr_id'', self ''default_vrf''), (''destination'',
        ip_prefix (add (self ''next_usid1'') (var ''un_usid_mask'')))]),
      run (api_create_entry ''route_entry'' (self ''und_route_entry3'') [(''next_hop_id'', self ''und_nhop'')]),
      set_self ''und_route_entry4'' (struct ''sai_thrift_route_entry_t'' [(''vr_id'', self ''default_vrf''), (''destination'',
        ip_prefix (add (self ''next_usid2'') (var ''un_usid_mask'')))]),
      run (api_create_entry ''route_entry'' (self ''und_route_entry4'') [(''next_hop_id'', self ''und_nhop'')]),
      set_self ''client_route_entry'' (struct ''sai_thrift_route_entry_t'' [(''vr_id'', self ''default_vrf''), (''destination'',
        ip_prefix (add (self ''client_ip_dest'') (str ''/32'')))]),
      run (api_create_entry ''route_entry'' (self ''client_route_entry'') [(''next_hop_id'', self ''und_nhop'')]),
      set_self ''und_xnhop'' (api_create ''next_hop'' [(''type'', num SAI_NEXT_HOP_TYPE_IP), (''ip'', ip_address (str
        ''30.30.30.30'')), (''router_interface_id'', self ''port10_rif'')]),
      set_self ''und_xnbor'' (struct ''sai_thrift_neighbor_entry_t'' [(''rif_id'', self ''port10_rif''), (''ip_address'',
        ip_address (str ''30.30.30.30''))]),
      run (api_create_entry ''neighbor_entry'' (self ''und_xnbor'') [(''dst_mac_address'', self ''und_xconn_nbor_mac'')]),
      set_self ''end_un_sid'' (struct ''sai_thrift_my_sid_entry_t'' [(''sid'', self ''in_un_local_usid''), (''vr_id'', self
        ''default_vrf'')]),
      run (api_create_entry ''my_sid_entry'' (self ''end_un_sid'') [(''endpoint_behavior'', num
        SAI_MY_SID_ENTRY_ENDPOINT_BEHAVIOR_UN)]),
      set_self ''end_ua_sid'' (struct ''sai_thrift_my_sid_entry_t'' [(''sid'', self ''in_ua_local_usid''), (''vr_id'', self
        ''default_vrf'')]),
      run (api_create_entry ''my_sid_entry'' (self ''end_ua_sid'') [(''next_hop_id'', self ''und_xnhop''),
        (''endpoint_behavior'', num SAI_MY_SID_ENTRY_ENDPOINT_BEHAVIOR_UA)]),
      set_self ''inner_v4_pkt'' (lib ''simple_tcp_packet'' [] [(''ip_dst'', self ''client_ip_dest''), (''ip_src'', self
        ''client_ip_src''), (''ip_id'', num 105), (''ip_ttl'', num 63)])]"

definition Srv6MySidUsidTest_mySidEndUNTest :: "'d stmt" where
  "Srv6MySidUsidTest_mySidEndUNTest = block [
      assign ''sr_pkt'' (lib ''simple_ipv6_sr_packet'' [] [(''eth_dst'', str ROUTER_MAC), (''eth_src'', self ''und_nbor_mac''),
        (''ipv6_src'', self ''srv6_src_ip''), (''ipv6_dst'', self ''in_un_usid''), (''ipv6_hlim'', num 64), (''srh_seg_left'',
        num 2), (''srh_first_seg'', num 1), (''srh_nh'', num 4), (''srh_seg_list'', self ''usid_segment_list''),
        (''inner_frame'', lib ''get_layer'' [self ''inner_v4_pkt'', str ''IP''] [])]),
      assign ''exp_pkt'' (lib ''simple_ipv6_sr_packet'' [] [(''eth_dst'', self ''und_nbor_mac''), (''eth_src'', str ROUTER_MAC),
        (''ipv6_src'', self ''srv6_src_ip''), (''ipv6_dst'', self ''out_un_usid''), (''ipv6_hlim'', num 63), (''srh_seg_left'',
        num 2), (''srh_first_seg'', num 1), (''srh_nh'', num 4), (''srh_seg_list'', self ''usid_segment_list''),
        (''inner_frame'', lib ''get_layer'' [self ''inner_v4_pkt'', str ''IP''] [])]),
      run (lib ''send_packet'' [self ''dev_port11'', var ''sr_pkt''] []),
      run (lib ''verify_packet'' [var ''exp_pkt'', self ''dev_port12''] []),
      assign ''sr_pkt'' (lib ''simple_ipv6_sr_packet'' [] [(''eth_dst'', str ROUTER_MAC), (''eth_src'', self ''und_nbor_mac''),
        (''ipv6_src'', self ''srv6_src_ip''), (''ipv6_dst'', self ''in_un_local_usid''), (''ipv6_hlim'', num 64),
        (''srh_seg_left'', num 2), (''srh_first_seg'', num 1), (''srh_nh'', num 4), (''srh_seg_list'', self
        ''usid_segment_list''), (''inner_frame'', lib ''get_layer'' [self ''inner_v4_pkt'', str ''IP''] [])]),
      assign ''exp_pkt'' (lib ''simple_ipv6_sr_packet'' [] [(''eth_dst'', self ''und_nbor_mac''), (''eth_src'', str ROUTER_MAC),
        (''ipv6_src'', self ''srv6_src_ip''), (''ipv6_dst'', self ''next_usid1''), (''ipv6_hlim'', num 63), (''srh_seg_left'',
        num 1), (''srh_first_seg'', num 1), (''srh_nh'', num 4), (''srh_seg_list'', self ''usid_segment_list''),
        (''inner_frame'', lib ''get_layer'' [self ''inner_v4_pkt'', str ''IP''] [])]),
      run (lib ''send_packet'' [self ''dev_port11'', var ''sr_pkt''] []),
      run (lib ''verify_packet'' [var ''exp_pkt'', self ''dev_port12''] [])]"

definition Srv6MySidUsidTest_mySidEndUNPSPTest :: "'d stmt" where
  "Srv6MySidUsidTest_mySidEndUNPSPTest = block [
      assign ''sr_pkt'' (lib ''simple_ipv6_sr_packet'' [] [(''eth_dst'', str ROUTER_MAC), (''eth_src'', self ''und_nbor_mac''),
        (''ipv6_src'', self ''srv6_src_ip''), (''ipv6_dst'', self ''in_un_usid''), (''ipv6_hlim'', num 63), (''srh_seg_left'',
        num 1), (''srh_first_seg'', num 1), (''srh_nh'', num 4), (''srh_seg_list'', self ''usid_segment_list''),
        (''inner_frame'', lib ''get_layer'' [self ''inner_v4_pkt'', str ''IP''] [])]),
      assign ''exp_pkt'' (lib ''simple_ipv6_sr_packet'' [] [(''eth_dst'', self ''und_nbor_mac''), (''eth_src'', str ROUTER_MAC),
        (''ipv6_src'', self ''srv6_src_ip''), (''ipv6_dst'', self ''out_un_usid''), (''ipv6_hlim'', num 62), (''srh_seg_left'',
        num 1), (''srh_first_seg'', num 1), (''srh_nh'', num 4), (''srh_seg_list'', self ''usid_segment_list''),
        (''inner_frame'', lib ''get_layer'' [self ''inner_v4_pkt'', str ''IP''] [])]),
      run (lib ''send_packet'' [self ''dev_port11'', var ''sr_pkt''] []),
      run (lib ''verify_packet'' [var ''exp_pkt'', self ''dev_port12''] []),
      assign ''sr_pkt'' (lib ''simple_ipv6_sr_packet'' [] [(''eth_dst'', str ROUTER_MAC), (''eth_src'', self ''und_nbor_mac''),
        (''ipv6_src'', self ''srv6_src_ip''), (''ipv6_dst'', self ''in_un_local_usid''), (''ipv6_hlim'', num 63),
        (''srh_seg_left'', num 1), (''srh_first_seg'', num 1), (''srh_nh'', num 4), (''srh_seg_list'', self
        ''usid_segment_list''), (''inner_frame'', lib ''get_layer'' [self ''inner_v4_pkt'', str ''IP''] [])]),
      assign ''ipip_pkt'' (lib ''simple_ipv6ip_packet'' [] [(''eth_dst'', self ''und_nbor_mac''), (''eth_src'', str ROUTER_MAC),
        (''ipv6_src'', self ''srv6_src_ip''), (''ipv6_dst'', self ''next_usid2''), (''ipv6_hlim'', num 62), (''inner_frame'',
        lib ''get_layer'' [self ''inner_v4_pkt'', str ''IP''] [])]),
      run (lib ''send_packet'' [self ''dev_port11'', var ''sr_pkt''] []),
      run (lib ''verify_packet'' [var ''ipip_pkt'', self ''dev_port12''] [])]"

definition Srv6MySidUsidTest_mySidEndUNUSDTest :: "'d stmt" where
  "Srv6MySidUsidTest_mySidEndUNUSDTest = block [
      assign ''sr_pkt'' (lib ''simple_ipv6_sr_packet'' [] [(''eth_dst'', str ROUTER_MAC), (''eth_src'', self ''und_nbor_mac''),
        (''ipv6_src'', self ''srv6_src_ip''), (''ipv6_dst'', self ''in_un_usid''), (''ipv6_hlim'', num 63), (''srh_seg_left'',
        num 0), (''srh_first_seg'', num 1), (''srh_nh'', num 4), (''srh_seg_list'', self ''usid_segment_list''),
        (''inner_frame'', lib ''get_layer'' [self ''inner_v4_pkt'', str ''IP''] [])]),
      assign ''exp_pkt'' (lib ''simple_ipv6_sr_packet'' [] [(''eth_dst'', self ''und_nbor_mac''), (''eth_src'', str ROUTER_MAC),
        (''ipv6_src'', self ''srv6_src_ip''), (''ipv6_dst'', self ''out_un_usid''), (''ipv6_hlim'', num 62), (''srh_seg_left'',
        num 0), (''srh_first_seg'', num 1), (''srh_nh'', num 4), (''srh_seg_list'', self ''usid_segment_list''),
        (''inner_frame'', lib ''get_layer'' [self ''inner_v4_pkt'', str ''IP''] [])]),
      run (lib ''send_packet'' [self ''dev_port11'', var ''sr_pkt''] []),
      run (lib ''verify_packet'' [var ''exp_pkt'', self ''dev_port12''] []),
      assign ''sr_pkt'' (lib ''simple_ipv6_sr_packet'' [] [(''eth_dst'', str ROUTER_MAC), (''eth_src'', self ''und_nbor_mac''),
        (''ipv6_src'', self ''srv6_src_ip''), (''ipv6_dst'', self ''in_un_local_usid''), (''ipv6_hlim'', num 63),
        (''srh_seg_left'', num 0), (''srh_first_seg'', num 1), (''srh_nh'', num 4), (''srh_seg_list'', self
        ''usid_segment_list''), (''inner_frame'', lib ''get_layer'' [self ''inner_v4_pkt'', str ''IP''] [])]),
      assign ''exp_pkt'' (lib ''simple_tcp_packet'' [] [(''eth_dst'', self ''und_nbor_mac''), (''eth_src'', str ROUTER_MAC),
        (''ip_src'', self ''client_ip_src''), (''ip_dst'', self ''client_ip_dest''), (''ip_id'', num 105), (''ip_ttl'', num
        62)]),
      run (lib ''send_packet'' [self ''dev_port11'', var ''sr_pkt''] []),
      run (lib ''verify_packet'' [var ''exp_pkt'', self ''dev_port12''] [])]"

definition Srv6MySidUsidTest_mySidEndUNUSDNoSRHTest :: "'d stmt" where
  "Srv6MySidUsidTest_mySidEndUNUSDNoSRHTest = block [
      assign ''sr_pkt'' (lib ''simple_ipv6ip_packet'' [] [(''eth_dst'', str ROUTER_MAC), (''eth_src'', self ''und_nbor_mac''),
        (''ipv6_src'', self ''srv6_src_ip''), (''ipv6_dst'', self ''in_un_usid''), (''ipv6_hlim'', num 62), (''inner_frame'',
        lib ''get_layer'' [self ''inner_v4_pkt'', str ''IP''] [])]),
      assign ''exp_pkt'' (lib ''simple_ipv6ip_packet'' [] [(''eth_dst'', self ''und_nbor_mac''), (''eth_src'', str ROUTER_MAC),
        (''ipv6_src'', self ''srv6_src_ip''), (''ipv6_dst'', self ''out_un_usid''), (''ipv6_hlim'', num 61), (''inner_frame'',
        lib ''get_layer'' [self ''inner_v4_pkt'', str ''IP''] [])]),
      run (lib ''send_packet'' [self ''dev_port11'', var ''sr_pkt''] []),
      run (lib ''verify_packet'' [var ''exp_pkt'', self ''dev_port12''] []),
      assign ''sr_pkt'' (lib ''simple_ipv6ip_packet'' [] [(''eth_dst'', str ROUTER_MAC), (''eth_src'', self ''und_nbor_mac''),
        (''ipv6_src'', self ''srv6_src_ip''), (''ipv6_dst'', self ''in_un_local_usid''), (''ipv6_hlim'', num 62),
        (''inner_frame'', lib ''get_layer'' [self ''inner_v4_pkt'', str ''IP''] [])]),
      assign ''exp_pkt'' (lib ''simple_tcp_packet'' [] [(''eth_dst'', self ''und_nbor_mac''), (''eth_src'', str ROUTER_MAC),
        (''ip_src'', self ''client_ip_src''), (''ip_dst'', self ''client_ip_dest''), (''ip_id'', num 105), (''ip_ttl'', num
        62)]),
      run (lib ''send_packet'' [self ''dev_port11'', var ''sr_pkt''] []),
      run (lib ''verify_packet'' [var ''exp_pkt'', self ''dev_port12''] [])]"

definition Srv6MySidUsidTest_mySidEndUATest :: "'d stmt" where
  "Srv6MySidUsidTest_mySidEndUATest = block [
      assign ''sr_pkt'' (lib ''simple_ipv6_sr_packet'' [] [(''eth_dst'', str ROUTER_MAC), (''eth_src'', self ''und_nbor_mac''),
        (''ipv6_src'', self ''srv6_src_ip''), (''ipv6_dst'', self ''in_ua_usid''), (''ipv6_hlim'', num 64), (''srh_seg_left'',
        num 2), (''srh_first_seg'', num 1), (''srh_nh'', num 4), (''srh_seg_list'', self ''usid_segment_list''),
        (''inner_frame'', lib ''get_layer'' [self ''inner_v4_pkt'', str ''IP''] [])]),
      assign ''exp_pkt'' (lib ''simple_ipv6_sr_packet'' [] [(''eth_dst'', self ''und_nbor_mac''), (''eth_src'', str ROUTER_MAC),
        (''ipv6_src'', self ''srv6_src_ip''), (''ipv6_dst'', self ''out_ua_usid''), (''ipv6_hlim'', num 63), (''srh_seg_left'',
        num 2), (''srh_first_seg'', num 1), (''srh_nh'', num 4), (''srh_seg_list'', self ''usid_segment_list''),
        (''inner_frame'', lib ''get_layer'' [self ''inner_v4_pkt'', str ''IP''] [])]),
      run (lib ''send_packet'' [self ''dev_port11'', var ''sr_pkt''] []),
      run (lib ''verify_packet'' [var ''exp_pkt'', self ''dev_port10''] []),
      assign ''sr_pkt'' (lib ''simple_ipv6_sr_packet'' [] [(''eth_dst'', str ROUTER_MAC), (''eth_src'', self ''und_nbor_mac''),
        (''ipv6_src'', self ''srv6_src_ip''), (''ipv6_dst'', self ''in_ua_local_usid''), (''ipv6_hlim'', num 64),
        (''srh_seg_left'', num 2), (''srh_first_seg'', num 1), (''srh_nh'', num 4), (''srh_seg_list'', self
        ''usid_segment_list''), (''inner_frame'', lib ''get_layer'' [self ''inner_v4_pkt'', str ''IP''] [])]),
      assign ''exp_pkt'' (lib ''simple_ipv6_sr_packet'' [] [(''eth_dst'', self ''und_nbor_mac''), (''eth_src'', str ROUTER_MAC),
        (''ipv6_src'', self ''srv6_src_ip''), (''ipv6_dst'', self ''next_usid1''), (''ipv6_hlim'', num 63), (''srh_seg_left'',
        num 1), (''srh_first_seg'', num 1), (''srh_nh'', num 4), (''srh_seg_list'', self ''usid_segment_list''),
        (''inner_frame'', lib ''get_layer'' [self ''inner_v4_pkt'', str ''IP''] [])]),
      run (lib ''send_packet'' [self ''dev_port11'', var ''sr_pkt''] []),
      run (lib ''verify_packet'' [var ''exp_pkt'', self ''dev_port10''] [])]"

definition Srv6MySidUsidTest_mySidEndUAPSPTest :: "'d stmt" where
  "Srv6MySidUsidTest_mySidEndUAPSPTest = block [
      assign ''sr_pkt'' (lib ''simple_ipv6_sr_packet'' [] [(''eth_dst'', str ROUTER_MAC), (''eth_src'', self ''und_nbor_mac''),
        (''ipv6_src'', self ''srv6_src_ip''), (''ipv6_dst'', self ''in_ua_usid''), (''ipv6_hlim'', num 63), (''srh_seg_left'',
        num 1), (''srh_first_seg'', num 1), (''srh_nh'', num 4), (''srh_seg_list'', self ''usid_segment_list''),
        (''inner_frame'', lib ''get_layer'' [self ''inner_v4_pkt'', str ''IP''] [])]),
      assign ''exp_pkt'' (lib ''simple_ipv6_sr_packet'' [] [(''eth_dst'', self ''und_nbor_mac''), (''eth_src'', str ROUTER_MAC),
        (''ipv6_src'', self ''srv6_src_ip''), (''ipv6_dst'', self ''out_ua_usid''), (''ipv6_hlim'', num 62), (''srh_seg_left'',
        num 1), (''srh_first_seg'', num 1), (''srh_nh'', num 4), (''srh_seg_list'', self ''usid_segment_list''),
        (''inner_frame'', lib ''get_layer'' [self ''inner_v4_pkt'', str ''IP''] [])]),
      run (lib ''send_packet'' [self ''dev_port11'', var ''sr_pkt''] []),
      run (lib ''verify_packet'' [var ''exp_pkt'', self ''dev_port10''] []),
      assign ''sr_pkt'' (lib ''simple_ipv6_sr_packet'' [] [(''eth_dst'', str ROUTER_MAC), (''eth_src'', self ''und_nbor_mac''),
        (''ipv6_src'', self ''srv6_src_ip''), (''ipv6_dst'', self ''in_ua_local_usid''), (''ipv6_hlim'', num 63),
        (''srh_seg_left'', num 1), (''srh_first_seg'', num 1), (''srh_nh'', num 4), (''srh_seg_list'', self
        ''usid_segment_list''), (''inner_frame'', lib ''get_layer'' [self ''inner_v4_pkt'', str ''IP''] [])]),
      assign ''ipip_pkt'' (lib ''simple_ipv6ip_packet'' [] [(''eth_dst'', self ''und_nbor_mac''), (''eth_src'', str ROUTER_MAC),
        (''ipv6_src'', self ''srv6_src_ip''), (''ipv6_dst'', self ''next_usid2''), (''ipv6_hlim'', num 62), (''inner_frame'',
        lib ''get_layer'' [self ''inner_v4_pkt'', str ''IP''] [])]),
      run (lib ''send_packet'' [self ''dev_port11'', var ''sr_pkt''] []),
      run (lib ''verify_packet'' [var ''ipip_pkt'', self ''dev_port10''] [])]"

definition Srv6MySidUsidTest_mySidEndUAUSDTest :: "'d stmt" where
  "Srv6MySidUsidTest_mySidEndUAUSDTest = block [
      assign ''sr_pkt'' (lib ''simple_ipv6_sr_packet'' [] [(''eth_dst'', str ROUTER_MAC), (''eth_src'', self ''und_nbor_mac''),
        (''ipv6_src'', self ''srv6_src_ip''), (''ipv6_dst'', self ''in_ua_usid''), (''ipv6_hlim'', num 63), (''srh_seg_left'',
        num 0), (''srh_first_seg'', num 1), (''srh_nh'', num 4), (''srh_seg_list'', self ''usid_segment_list''),
        (''inner_frame'', lib ''get_layer'' [self ''inner_v4_pkt'', str ''IP''] [])]),
      assign ''exp_pkt'' (lib ''simple_ipv6_sr_packet'' [] [(''eth_dst'', self ''und_nbor_mac''), (''eth_src'', str ROUTER_MAC),
        (''ipv6_src'', self ''srv6_src_ip''), (''ipv6_dst'', self ''out_ua_usid''), (''ipv6_hlim'', num 62), (''srh_seg_left'',
        num 0), (''srh_first_seg'', num 1), (''srh_nh'', num 4), (''srh_seg_list'', self ''usid_segment_list''),
        (''inner_frame'', lib ''get_layer'' [self ''inner_v4_pkt'', str ''IP''] [])]),
      run (lib ''send_packet'' [self ''dev_port11'', var ''sr_pkt''] []),
      run (lib ''verify_packet'' [var ''exp_pkt'', self ''dev_port10''] []),
      assign ''sr_pkt'' (lib ''simple_ipv6_sr_packet'' [] [(''eth_dst'', str ROUTER_MAC), (''eth_src'', self ''und_nbor_mac''),
        (''ipv6_src'', self ''srv6_src_ip''), (''ipv6_dst'', self ''in_ua_local_usid''), (''ipv6_hlim'', num 63),
        (''srh_seg_left'', num 0), (''srh_first_seg'', num 1), (''srh_nh'', num 4), (''srh_seg_list'', self
        ''usid_segment_list''), (''inner_frame'', lib ''get_layer'' [self ''inner_v4_pkt'', str ''IP''] [])]),
      assign ''exp_pkt'' (lib ''simple_tcp_packet'' [] [(''eth_dst'', self ''und_nbor_mac''), (''eth_src'', str ROUTER_MAC),
        (''ip_src'', self ''client_ip_src''), (''ip_dst'', self ''client_ip_dest''), (''ip_id'', num 105), (''ip_ttl'', num
        62)]),
      run (lib ''send_packet'' [self ''dev_port11'', var ''sr_pkt''] []),
      run (lib ''verify_packet'' [var ''exp_pkt'', self ''dev_port10''] [])]"

definition Srv6MySidUsidTest_mySidEndUAUSDNoSRHTest :: "'d stmt" where
  "Srv6MySidUsidTest_mySidEndUAUSDNoSRHTest = block [
      assign ''sr_pkt'' (lib ''simple_ipv6ip_packet'' [] [(''eth_dst'', str ROUTER_MAC), (''eth_src'', self ''und_nbor_mac''),
        (''ipv6_src'', self ''srv6_src_ip''), (''ipv6_dst'', self ''in_ua_usid''), (''ipv6_hlim'', num 62), (''inner_frame'',
        lib ''get_layer'' [self ''inner_v4_pkt'', str ''IP''] [])]),
      assign ''exp_pkt'' (lib ''simple_ipv6ip_packet'' [] [(''eth_dst'', self ''und_nbor_mac''), (''eth_src'', str ROUTER_MAC),
        (''ipv6_src'', self ''srv6_src_ip''), (''ipv6_dst'', self ''out_ua_usid''), (''ipv6_hlim'', num 61), (''inner_frame'',
        lib ''get_layer'' [self ''inner_v4_pkt'', str ''IP''] [])]),
      run (lib ''send_packet'' [self ''dev_port11'', var ''sr_pkt''] []),
      run (lib ''verify_packet'' [var ''exp_pkt'', self ''dev_port10''] []),
      assign ''sr_pkt'' (lib ''simple_ipv6ip_packet'' [] [(''eth_dst'', str ROUTER_MAC), (''eth_src'', self ''und_nbor_mac''),
        (''ipv6_src'', self ''srv6_src_ip''), (''ipv6_dst'', self ''in_ua_local_usid''), (''ipv6_hlim'', num 62),
        (''inner_frame'', lib ''get_layer'' [self ''inner_v4_pkt'', str ''IP''] [])]),
      assign ''exp_pkt'' (lib ''simple_tcp_packet'' [] [(''eth_dst'', self ''und_nbor_mac''), (''eth_src'', str ROUTER_MAC),
        (''ip_src'', self ''client_ip_src''), (''ip_dst'', self ''client_ip_dest''), (''ip_id'', num 105), (''ip_ttl'', num
        62)]),
      run (lib ''send_packet'' [self ''dev_port11'', var ''sr_pkt''] []),
      run (lib ''verify_packet'' [var ''exp_pkt'', self ''dev_port10''] [])]"

definition Srv6MySidUsidTest_runTest :: "'d stmt" where
  "Srv6MySidUsidTest_runTest = block [
      run (invoke [] Srv6MySidUsidTest_mySidEndUNTest),
      run (invoke [] Srv6MySidUsidTest_mySidEndUNPSPTest),
      run (invoke [] Srv6MySidUsidTest_mySidEndUNUSDTest),
      run (invoke [] Srv6MySidUsidTest_mySidEndUNUSDNoSRHTest),
      run (invoke [] Srv6MySidUsidTest_mySidEndUATest),
      run (invoke [] Srv6MySidUsidTest_mySidEndUAPSPTest),
      run (invoke [] Srv6MySidUsidTest_mySidEndUAUSDTest),
      run (invoke [] Srv6MySidUsidTest_mySidEndUAUSDNoSRHTest)]"

definition Srv6MySidUsidTest_tearDown :: "'d stmt" where
  "Srv6MySidUsidTest_tearDown = block [
      run (api_remove ''my_sid_entry'' (self ''end_ua_sid'')),
      run (api_remove ''my_sid_entry'' (self ''end_un_sid'')),
      run (api_remove ''neighbor_entry'' (self ''und_xnbor'')),
      run (api_remove ''next_hop'' (self ''und_xnhop'')),
      run (api_remove ''route_entry'' (self ''und_route_entry4'')),
      run (api_remove ''route_entry'' (self ''und_route_entry3'')),
      run (api_remove ''route_entry'' (self ''und_route_entry2'')),
      run (api_remove ''route_entry'' (self ''und_route_entry1'')),
      run (api_remove ''route_entry'' (self ''client_route_entry'')),
      run (api_remove ''neighbor_entry'' (self ''und_nbor'')),
      run (api_remove ''next_hop'' (self ''und_nhop'')),
      run (api_remove ''tunnel'' (self ''sr_tunnel'')),
      run (api_remove ''router_interface'' (self ''urif_lb'')),
      super_tearDown]"

definition Srv6MySidDropTest_setUp :: "'d stmt" where
  "Srv6MySidDropTest_setUp = block [
      super_setUp,
      set_self ''ip_src'' (str ''10.10.10.1''),
      set_self ''ip_dst'' (str ''10.10.10.2''),
      set_self ''ipv6_src'' (str ''2001:db8::1:1''),
      set_self ''ipv6_dst'' (str ''2001:db8::2:1''),
      set_self ''srv6_src_ip'' (str ''2001:1001:0:10::1''),
      set_self ''und_ip'' (str ''20.20.20.1''),
      set_self ''node0_prefix_sid'' (str ''baba:1001:0:10::''),
      set_self ''node1_prefix_sid'' (str ''baba:1001:0:20::''),
      set_self ''seg1'' (str ''baba:1001:0:10::''),
      set_self ''seg2'' (str ''baba:1001:0:20::''),
      set_self ''seg3'' (str ''baba:1001:0:30::''),
      set_self ''my_sid_list'' (list_of [self ''seg1'', self ''seg2'', self ''seg3'']),
      set_self ''src_mac'' (str ''00:10:10:10:10:10''),
      set_self ''dst_mac'' (str ''00:20:20:20:20:20''),
      set_self ''srv6_mac'' (str ''00:aa:aa:aa:aa:aa''),
      set_self ''urif_lb'' (api_create ''router_interface'' [(''type'', num SAI_ROUTER_INTERFACE_TYPE_LOOPBACK),
        (''virtual_router_id'', self ''default_vrf'')]),
      set_self ''sr_tunnel'' (api_create ''tunnel'' [(''type'', num SAI_TUNNEL_TYPE_SRV6), (''encap_src_ip'', ip_address (self
        ''srv6_src_ip'')), (''underlay_interface'', self ''urif_lb''), (''encap_ttl_mode'', num SAI_TUNNEL_TTL_MODE_PIPE_MODEL),
        (''decap_ttl_mode'', num SAI_TUNNEL_TTL_MODE_PIPE_MODEL)]),
      set_self ''und_nhop'' (api_create ''next_hop'' [(''type'', num SAI_NEXT_HOP_TYPE_IP), (''ip'', ip_address (self
        ''und_ip'')), (''router_interface_id'', self ''port12_rif'')]),
      set_self ''und_nbor'' (struct ''sai_thrift_neighbor_entry_t'' [(''rif_id'', self ''port12_rif''), (''ip_address'',
        ip_address (self ''und_ip''))]),
      run (api_create_entry ''neighbor_entry'' (self ''und_nbor'') [(''dst_mac_address'', self ''srv6_mac'')]),
      set_self ''und_route3'' (struct ''sai_thrift_route_entry_t'' [(''vr_id'', self ''default_vrf''), (''destination'',
        ip_prefix (add (self ''seg1'') (str ''/64'')))]),
      run (api_create_entry ''route_entry'' (self ''und_route3'') [(''next_hop_id'', self ''und_nhop'')]),
      set_self ''und_route4'' (struct ''sai_thrift_route_entry_t'' [(''vr_id'', self ''default_vrf''), (''destination'',
        ip_prefix (add (self ''seg2'') (str ''/64'')))]),
      run (api_create_entry ''route_entry'' (self ''und_route4'') [(''next_hop_id'', self ''und_nhop'')]),
      assign ''drop_reason'' (struct ''sai_thrift_s32_list_t'' [(''count'', num 1), (''int32list'', list_of [num
        SAI_IN_DROP_REASON_SRV6_LOCAL_SID_DROP])]),
      set_self ''debug_cnt'' (api_create ''debug_counter'' [(''type'', num SAI_DEBUG_COUNTER_TYPE_PORT_IN_DROP_REASONS),
        (''in_drop_reason_list'', var ''drop_reason'')]),
      assert_ne (self ''debug_cnt'') (num 0),
      assign ''dc_attr'' (api_get ''debug_counter'' (self ''debug_cnt'') [(''index'', bool True)]),
      set_self ''dc_index'' (add (item (var ''dc_attr'') (str ''index'')) (num SAI_PORT_STAT_IN_DROP_REASON_RANGE_BASE)),
      set_self ''drop_stats'' (num 0),
      run (clear_stats ''sai_thrift_clear_port_stats'' [self ''port11''] []),
      set_self ''inner_v4_pkt'' (lib ''simple_tcp_packet'' [] [(''ip_dst'', self ''ip_dst''), (''ip_src'', self ''ip_src''),
        (''ip_id'', num 105), (''ip_ttl'', num 63)]),
      set_self ''sr6_inner_v6_pkt'' (lib ''simple_tcpv6_packet'' [] [(''ipv6_dst'', self ''ipv6_dst''), (''ipv6_src'', self
        ''ipv6_src''), (''ipv6_hlim'', num 63)])]"

definition Srv6MySidDropTest_packetActionDropTest :: "'d stmt" where
  "Srv6MySidDropTest_packetActionDropTest = block [
      try_finally [
        assign ''my_sid'' (struct ''sai_thrift_my_sid_entry_t'' [(''sid'', self ''seg1''), (''vr_id'', self ''default_vrf'')]),
        run (api_create_entry ''my_sid_entry'' (var ''my_sid'') [(''endpoint_behavior'', num
          SAI_MY_SID_ENTRY_ENDPOINT_BEHAVIOR_E), (''vrf'', self ''default_vrf''), (''packet_action'', num
          SAI_PACKET_ACTION_FORWARD)]),
        assign ''sr6_pkt'' (lib ''simple_ipv6_sr_packet'' [] [(''eth_dst'', str ROUTER_MAC), (''eth_src'', self ''srv6_mac''),
          (''ipv6_src'', self ''srv6_src_ip''), (''ipv6_dst'', self ''seg1''), (''ipv6_hlim'', num 64), (''srh_seg_left'', num
          2), (''srh_first_seg'', num 1), (''srh_nh'', num 4), (''srh_seg_list'', list_of [self ''seg3'', self ''seg2'']),
          (''inner_frame'', lib ''get_layer'' [self ''inner_v4_pkt'', str ''IP''] [])]),
        assign ''exp_pkt'' (lib ''simple_ipv6_sr_packet'' [] [(''eth_dst'', self ''srv6_mac''), (''eth_src'', str ROUTER_MAC),
          (''ipv6_src'', self ''srv6_src_ip''), (''ipv6_dst'', self ''seg2''), (''ipv6_hlim'', num 63), (''srh_seg_left'', num
          1), (''srh_first_seg'', num 1), (''srh_nh'', num 4), (''srh_seg_list'', list_of [self ''seg3'', self ''seg2'']),
          (''inner_frame'', lib ''get_layer'' [self ''inner_v4_pkt'', str ''IP''] [])]),
        print [self ''dev_port11'', self ''dev_port12''],
        run (lib ''send_packet'' [self ''dev_port11'', var ''sr6_pkt''] []),
        run (lib ''verify_packet'' [var ''exp_pkt'', self ''dev_port12''] []),
        run (api_set ''my_sid_entry'' (var ''my_sid'') [(''packet_action'', num SAI_PACKET_ACTION_DROP)]),
        assign ''drop_pkt_no'' (num 5),
        print [self ''dev_port11''],
        run (lib ''send_packet'' [self ''dev_port11'', var ''sr6_pkt'', var ''drop_pkt_no''] []),
        run (lib ''verify_no_other_packets'' [] []),
        set_self ''drop_stats'' (add (self ''drop_stats'') (var ''drop_pkt_no'')),
        assign ''dc_stats'' (query ''sai_thrift_get_debug_counter_port_stats'' [self ''port11'', list_of [self ''dc_index'']]
          []),
        assert_eq (item (var ''dc_stats'') (self ''dc_index'')) (explained (self ''drop_stats'') [item (var ''dc_stats'') (self
          ''dc_index''), self ''drop_stats''])] [
        run (api_remove ''my_sid_entry'' (var ''my_sid''))]]"

definition Srv6MySidDropTest_nonZeroSlEndDTxDropTest :: "'d stmt" where
  "Srv6MySidDropTest_nonZeroSlEndDTxDropTest = block [
      try_finally [
        assign ''my_sid'' (struct ''sai_thrift_my_sid_entry_t'' [(''sid'', self ''seg1''), (''vr_id'', self ''default_vrf'')]),
        assign ''sr6_pkt'' (lib ''simple_ipv6_sr_packet'' [] [(''eth_dst'', str ROUTER_MAC), (''eth_src'', self ''srv6_mac''),
          (''ipv6_src'', self ''srv6_src_ip''), (''ipv6_dst'', self ''seg1''), (''ipv6_hlim'', num 64), (''srh_seg_left'', num
          2), (''srh_first_seg'', num 1), (''srh_nh'', num 4), (''srh_seg_list'', list_of [self ''seg3'', self ''seg2'']),
          (''inner_frame'', lib ''get_layer'' [self ''inner_v4_pkt'', str ''IP''] [])]),
        assign ''drop_pkt_no'' (num 5),
        run (api_create_entry ''my_sid_entry'' (var ''my_sid'') [(''endpoint_behavior'', num
          SAI_MY_SID_ENTRY_ENDPOINT_BEHAVIOR_DT46), (''vrf'', self ''default_vrf''), (''packet_action'', num
          SAI_PACKET_ACTION_FORWARD)]),
        run (lib ''send_packet'' [self ''dev_port11'', var ''sr6_pkt'', var ''drop_pkt_no''] []),
        run (lib ''verify_no_other_packets'' [] []),
        set_self ''drop_stats'' (add (self ''drop_stats'') (var ''drop_pkt_no'')),
        assign ''dc_stats'' (query ''sai_thrift_get_debug_counter_port_stats'' [self ''port11'', list_of [self ''dc_index'']]
          []),
        assert_eq (item (var ''dc_stats'') (self ''dc_index'')) (explained (self ''drop_stats'') [item (var ''dc_stats'') (self
          ''dc_index''), self ''drop_stats'']),
        run (api_remove ''my_sid_entry'' (var ''my_sid'')),
        run (api_create_entry ''my_sid_entry'' (var ''my_sid'') [(''endpoint_behavior'', num
          SAI_MY_SID_ENTRY_ENDPOINT_BEHAVIOR_DT4), (''vrf'', self ''default_vrf''), (''packet_action'', num
          SAI_PACKET_ACTION_FORWARD)]),
        run (lib ''send_packet'' [self ''dev_port11'', var ''sr6_pkt'', var ''drop_pkt_no''] []),
        run (lib ''verify_no_other_packets'' [] []),
        set_self ''drop_stats'' (add (self ''drop_stats'') (var ''drop_pkt_no'')),
        assign ''dc_stats'' (query ''sai_thrift_get_debug_counter_port_stats'' [self ''port11'', list_of [self ''dc_index'']]
          []),
        assert_eq (item (var ''dc_stats'') (self ''dc_index'')) (explained (self ''drop_stats'') [item (var ''dc_stats'') (self
          ''dc_index''), self ''drop_stats'']),
        run (api_remove ''my_sid_entry'' (var ''my_sid'')),
        run (api_create_entry ''my_sid_entry'' (var ''my_sid'') [(''endpoint_behavior'', num
          SAI_MY_SID_ENTRY_ENDPOINT_BEHAVIOR_DT6), (''vrf'', self ''default_vrf''), (''packet_action'', num
          SAI_PACKET_ACTION_FORWARD)]),
        assign ''sr6_pkt'' (with_field (var ''sr6_pkt'') ''inner_frame'' (lib ''get_layer'' [self ''sr6_inner_v6_pkt'', str
          ''IPv6''] [])),
        run (lib ''send_packet'' [self ''dev_port11'', var ''sr6_pkt'', var ''drop_pkt_no''] []),
        run (lib ''verify_no_other_packets'' [] []),
        set_self ''drop_stats'' (add (self ''drop_stats'') (var ''drop_pkt_no'')),
        assign ''dc_stats'' (query ''sai_thrift_get_debug_counter_port_stats'' [self ''port11'', list_of [self ''dc_index'']]
          []),
        assert_eq (item (var ''dc_stats'') (self ''dc_index'')) (explained (self ''drop_stats'') [item (var ''dc_stats'') (self
          ''dc_index''), self ''drop_stats''])] [
        run (api_remove ''my_sid_entry'' (var ''my_sid''))]]"

definition Srv6MySidDropTest_runTest :: "'d stmt" where
  "Srv6MySidDropTest_runTest = block [
      run (invoke [] Srv6MySidDropTest_packetActionDropTest),
      run (invoke [] Srv6MySidDropTest_nonZeroSlEndDTxDropTest)]"

definition Srv6MySidDropTest_tearDown :: "'d stmt" where
  "Srv6MySidDropTest_tearDown = block [
      run (clear_stats ''sai_thrift_clear_port_stats'' [self ''port11''] []),
      run (api_remove ''debug_counter'' (self ''debug_cnt'')),
      run (api_remove ''route_entry'' (self ''und_route4'')),
      run (api_remove ''route_entry'' (self ''und_route3'')),
      run (api_remove ''neighbor_entry'' (self ''und_nbor'')),
      run (api_remove ''next_hop'' (self ''und_nhop'')),
      run (api_remove ''tunnel'' (self ''sr_tunnel'')),
      run (api_remove ''router_interface'' (self ''urif_lb'')),
      super_tearDown]"

end
