(* ===== verification/TestsTunnel.thy ===== *)
theory TestsTunnel
  imports PtfOwn PtfConstants
begin

text \<open>
  The tests of tunnels, \<open>ptf/saitunnel.py\<close>: a definition per method, statement by statement in the language of
  \<open>PtfScript\<close>, named after its class. A parameter \<open>m_f\<close> is a method \<open>f\<close> that derived classes define anew.
\<close>

section \<open>The tests\<close>

definition VxLanBaseSetup_setUp :: "'d stmt" where
  "VxLanBaseSetup_setUp = block [
      super_setUp,
      set_self ''oport'' (self ''port24''),
      set_self ''oport_dev'' (self ''dev_port24''),
      set_self ''uport'' (self ''port25''),
      set_self ''uport_dev'' (self ''dev_port25''),
      set_self ''vni'' (num 1000),
      set_self ''vm_ip'' (str ''100.100.1.1''),
      set_self ''vm_ipv6'' (str ''2001:0db8::1:1''),
      set_self ''customer_ip'' (str ''100.100.2.1''),
      set_self ''customer_ipv6'' (str ''2001:0db8::2:1''),
      set_self ''inner_dmac'' (str ''00:11:11:11:11:11''),
      set_self ''customer_mac'' (str ''00:22:22:22:22:22''),
      set_self ''unbor_mac'' (str ''00:33:33:33:33:33''),
      set_self ''uvrf'' (api_create ''virtual_router'' []),
      set_self ''ovrf'' (api_create ''virtual_router'' []),
      assign ''tunnel_type'' (num SAI_TUNNEL_TYPE_VXLAN),
      assign ''term_type'' (num SAI_TUNNEL_TERM_TABLE_ENTRY_TYPE_P2P),
      assign ''ttl_mode'' (num SAI_TUNNEL_TTL_MODE_PIPE_MODEL),
      set_self ''urif_lpb'' (api_create ''router_interface'' [(''type'', num SAI_ROUTER_INTERFACE_TYPE_LOOPBACK),
        (''virtual_router_id'', self ''uvrf'')]),
      set_self ''urif'' (api_create ''router_interface'' [(''type'', num SAI_ROUTER_INTERFACE_TYPE_PORT),
        (''virtual_router_id'', self ''uvrf''), (''port_id'', self ''uport'')]),
      set_self ''orif'' (api_create ''router_interface'' [(''type'', num SAI_ROUTER_INTERFACE_TYPE_PORT),
        (''virtual_router_id'', self ''ovrf''), (''port_id'', self ''oport'')]),
      set_self ''encap_tunnel_map'' (api_create ''tunnel_map'' [(''type'', num SAI_TUNNEL_MAP_TYPE_VIRTUAL_ROUTER_ID_TO_VNI)]),
      set_self ''decap_tunnel_map'' (api_create ''tunnel_map'' [(''type'', num SAI_TUNNEL_MAP_TYPE_VNI_TO_VIRTUAL_ROUTER_ID)]),
      set_self ''encap_tunnel_map_entry'' (api_create ''tunnel_map_entry'' [(''tunnel_map'', self ''encap_tunnel_map''),
        (''tunnel_map_type'', num SAI_TUNNEL_MAP_TYPE_VIRTUAL_ROUTER_ID_TO_VNI), (''virtual_router_id_key'', self ''ovrf''),
        (''vni_id_value'', self ''vni'')]),
      set_self ''decap_tunnel_map_entry'' (api_create ''tunnel_map_entry'' [(''tunnel_map'', self ''decap_tunnel_map''),
        (''tunnel_map_type'', num SAI_TUNNEL_MAP_TYPE_VNI_TO_VIRTUAL_ROUTER_ID), (''virtual_router_id_value'', self ''ovrf''),
        (''vni_id_key'', self ''vni'')]),
      assign ''encap_maps'' (struct ''sai_thrift_object_list_t'' [(''count'', num 1), (''idlist'', list_of [self
        ''encap_tunnel_map''])]),
      assign ''decap_maps'' (struct ''sai_thrift_object_list_t'' [(''count'', num 1), (''idlist'', list_of [self
        ''decap_tunnel_map''])]),
      set_self ''tunnel'' (api_create ''tunnel'' [(''type'', var ''tunnel_type''), (''encap_src_ip'', ip_address (self
        ''lpb_ip'')), (''encap_mappers'', var ''encap_maps''), (''decap_mappers'', var ''decap_maps''), (''encap_ttl_mode'', var
        ''ttl_mode''), (''decap_ttl_mode'', var ''ttl_mode''), (''underlay_interface'', self ''urif_lpb'')]),
      set_self ''tunnel_term'' (api_create ''tunnel_term_table_entry'' [(''tunnel_type'', var ''tunnel_type''), (''vr_id'', self
        ''uvrf''), (''action_tunnel_id'', self ''tunnel''), (''type'', var ''term_type''), (''src_ip'', ip_address (self
        ''tun_ip'')), (''dst_ip'', ip_address (self ''lpb_ip''))]),
      set_self ''onhop'' (api_create ''next_hop'' [(''ip'', ip_address (self ''customer_ip'')), (''router_interface_id'', self
        ''orif''), (''type'', num SAI_NEXT_HOP_TYPE_IP)]),
      set_self ''onbor'' (struct ''sai_thrift_neighbor_entry_t'' [(''rif_id'', self ''orif''), (''ip_address'', ip_address (self
        ''customer_ip''))]),
      run (api_create_entry ''neighbor_entry'' (self ''onbor'') [(''dst_mac_address'', self ''customer_mac''),
        (''no_host_route'', bool True)]),
      set_self ''customer_route'' (struct ''sai_thrift_route_entry_t'' [(''vr_id'', self ''ovrf''), (''destination'', ip_prefix
        (add (self ''customer_ip'') (str ''/32'')))]),
      run (api_create_entry ''route_entry'' (self ''customer_route'') [(''next_hop_id'', self ''onhop'')]),
      set_self ''onhop_v6'' (api_create ''next_hop'' [(''ip'', ip_address (self ''customer_ipv6'')), (''router_interface_id'',
        self ''orif''), (''type'', num SAI_NEXT_HOP_TYPE_IP)]),
      set_self ''onbor_v6'' (struct ''sai_thrift_neighbor_entry_t'' [(''rif_id'', self ''orif''), (''ip_address'', ip_address
        (self ''customer_ipv6''))]),
      run (api_create_entry ''neighbor_entry'' (self ''onbor_v6'') [(''dst_mac_address'', self ''customer_mac''),
        (''no_host_route'', bool True)]),
      set_self ''customer_v6_route'' (struct ''sai_thrift_route_entry_t'' [(''vr_id'', self ''ovrf''), (''destination'',
        ip_prefix (add (self ''customer_ipv6'') (str ''/128'')))]),
      run (api_create_entry ''route_entry'' (self ''customer_v6_route'') [(''next_hop_id'', self ''onhop_v6'')]),
      set_self ''tunnel_nhop'' (api_create ''next_hop'' [(''type'', num SAI_NEXT_HOP_TYPE_TUNNEL_ENCAP), (''tunnel_id'', self
        ''tunnel''), (''ip'', ip_address (self ''tun_ip'')), (''tunnel_mac'', self ''inner_dmac''), (''tunnel_vni'', self
        ''vni'')]),
      set_self ''vm_route'' (struct ''sai_thrift_route_entry_t'' [(''vr_id'', self ''ovrf''), (''destination'', ip_prefix (add
        (self ''vm_ip'') (str ''/32'')))]),
      run (api_create_entry ''route_entry'' (self ''vm_route'') [(''next_hop_id'', self ''tunnel_nhop'')]),
      set_self ''vm_v6_route'' (struct ''sai_thrift_route_entry_t'' [(''vr_id'', self ''ovrf''), (''destination'', ip_prefix
        (add (self ''vm_ipv6'') (str ''/128'')))]),
      run (api_create_entry ''route_entry'' (self ''vm_v6_route'') [(''next_hop_id'', self ''tunnel_nhop'')]),
      set_self ''unhop'' (api_create ''next_hop'' [(''ip'', ip_address (self ''tun_ip'')), (''router_interface_id'', self
        ''urif''), (''type'', num SAI_NEXT_HOP_TYPE_IP)]),
      set_self ''unbor'' (struct ''sai_thrift_neighbor_entry_t'' [(''rif_id'', self ''urif''), (''ip_address'', ip_address (self
        ''tun_ip''))]),
      run (api_create_entry ''neighbor_entry'' (self ''unbor'') [(''dst_mac_address'', self ''unbor_mac''), (''no_host_route'',
        bool True)]),
      set_self ''tunnel_route'' (struct ''sai_thrift_route_entry_t'' [(''vr_id'', self ''uvrf''), (''destination'', ip_prefix
        (add (self ''tun_ip'') (self ''tun_ip_mask'')))]),
      run (api_create_entry ''route_entry'' (self ''tunnel_route'') [(''next_hop_id'', self ''unhop'')])]"

definition VxLanBaseSetup_basicTunnelTest :: "'d stmt" where
  "VxLanBaseSetup_basicTunnelTest = block [
      assign ''pkt'' (lib ''simple_udp_packet'' [] [(''eth_dst'', self ''customer_mac''), (''eth_src'', str ROUTER_MAC),
        (''ip_dst'', self ''customer_ip''), (''ip_src'', self ''vm_ip''), (''ip_id'', num 108), (''ip_ttl'', num 63)]),
      assign ''inner_pkt'' (lib ''simple_udp_packet'' [] [(''eth_dst'', str ROUTER_MAC), (''eth_src'', self ''inner_dmac''),
        (''ip_dst'', self ''customer_ip''), (''ip_src'', self ''vm_ip''), (''ip_id'', num 108), (''ip_ttl'', num 64)]),
      if_else (is_false (self ''ipv6'')) [
        assign ''vxlan_pkt'' (lib ''simple_vxlan_packet'' [] [(''eth_dst'', str ROUTER_MAC), (''eth_src'', self ''unbor_mac''),
          (''ip_dst'', self ''lpb_ip''), (''ip_src'', self ''tun_ip''), (''ip_id'', num 0), (''ip_ttl'', num 64), (''ip_flags'',
          num 2), (''udp_sport'', num 11638), (''with_udp_chksum'', bool False), (''vxlan_vni'', self ''vni''),
          (''inner_frame'', var ''inner_pkt'')])] [
        assign ''vxlan_pkt'' (lib ''simple_vxlanv6_packet'' [] [(''eth_dst'', str ROUTER_MAC), (''eth_src'', self
          ''inner_dmac''), (''ipv6_dst'', self ''lpb_ip''), (''ipv6_src'', self ''tun_ip''), (''ipv6_hlim'', num 64),
          (''udp_sport'', num 11638), (''with_udp_chksum'', bool False), (''vxlan_vni'', self ''vni''), (''inner_frame'', var
          ''inner_pkt'')])],
      print [if_exp (self ''ipv6'') (str ''v6'') (str ''v4'')],
      run (lib ''send_packet'' [self ''uport_dev'', var ''vxlan_pkt''] []),
      run (lib ''verify_packet'' [var ''pkt'', self ''oport_dev''] [])]"

definition VxLanBaseSetup_runTest :: "'d stmt" where
  "VxLanBaseSetup_runTest = block [
      run (invoke [] VxLanBaseSetup_basicTunnelTest)]"

definition VxLanBaseSetup_tearDown :: "'d stmt" where
  "VxLanBaseSetup_tearDown = block [
      run (api_remove ''route_entry'' (self ''tunnel_route'')),
      run (api_remove ''neighbor_entry'' (self ''unbor'')),
      run (api_remove ''next_hop'' (self ''unhop'')),
      run (api_remove ''route_entry'' (self ''vm_v6_route'')),
      run (api_remove ''route_entry'' (self ''vm_route'')),
      run (api_remove ''next_hop'' (self ''tunnel_nhop'')),
      run (api_remove ''route_entry'' (self ''customer_v6_route'')),
      run (api_remove ''neighbor_entry'' (self ''onbor_v6'')),
      run (api_remove ''next_hop'' (self ''onhop_v6'')),
      run (api_remove ''route_entry'' (self ''customer_route'')),
      run (api_remove ''neighbor_entry'' (self ''onbor'')),
      run (api_remove ''next_hop'' (self ''onhop'')),
      run (api_remove ''tunnel_term_table_entry'' (self ''tunnel_term'')),
      run (api_remove ''tunnel'' (self ''tunnel'')),
      run (api_remove ''tunnel_map_entry'' (self ''decap_tunnel_map_entry'')),
      run (api_remove ''tunnel_map_entry'' (self ''encap_tunnel_map_entry'')),
      run (api_remove ''tunnel_map'' (self ''decap_tunnel_map'')),
      run (api_remove ''tunnel_map'' (self ''encap_tunnel_map'')),
      run (api_remove ''router_interface'' (self ''orif'')),
      run (api_remove ''router_interface'' (self ''urif'')),
      run (api_remove ''router_interface'' (self ''urif_lpb'')),
      run (api_remove ''virtual_router'' (self ''ovrf'')),
      run (api_remove ''virtual_router'' (self ''uvrf'')),
      super_tearDown]"

definition TunnelMalformedEncapPacketsBase_tunnelEncapInvalidIpVersionTest :: "'d stmt" where
  "TunnelMalformedEncapPacketsBase_tunnelEncapInvalidIpVersionTest = block [
      assign ''pkt'' (lib ''simple_udp_packet'' [] [(''eth_dst'', str ROUTER_MAC), (''eth_src'', self ''customer_mac''),
        (''ip_dst'', self ''vm_ip''), (''ip_src'', self ''customer_ip''), (''ip_id'', num 108), (''ip_ttl'', num 64)]),
      assign ''pkt'' (lib ''set_field'' [var ''pkt'', str ''IP'', str ''version'', num 6] []),
      run (lib ''send_packet'' [self ''oport_dev'', var ''pkt''] []),
      run (lib ''verify_no_other_packets'' [] []),
      assign ''pkt_v6'' (lib ''simple_udpv6_packet'' [] [(''eth_dst'', str ROUTER_MAC), (''eth_src'', self ''customer_mac''),
        (''ipv6_dst'', self ''vm_ipv6''), (''ipv6_src'', self ''customer_ipv6''), (''ipv6_hlim'', num 64)]),
      assign ''pkt_v6'' (lib ''set_field'' [var ''pkt_v6'', str ''IPv6'', str ''version'', num 4] []),
      run (lib ''send_packet'' [self ''oport_dev'', var ''pkt_v6''] []),
      run (lib ''verify_no_other_packets'' [] [])]"

definition TunnelMalformedEncapPacketsBase_tunnelEncapInvalidIhlTest :: "'d stmt" where
  "TunnelMalformedEncapPacketsBase_tunnelEncapInvalidIhlTest = block [
      assign ''pkt'' (lib ''simple_udp_packet'' [] [(''eth_dst'', str ROUTER_MAC), (''eth_src'', self ''customer_mac''),
        (''ip_dst'', self ''vm_ip''), (''ip_src'', self ''customer_ip''), (''ip_id'', num 108), (''ip_ttl'', num 64)]),
      for_in [''i''] (range_of (num 0) (num 5)) [
        assign ''pkt'' (lib ''set_field'' [var ''pkt'', str ''IP'', str ''ihl'', var ''i''] []),
        print [lib ''get_field'' [lib ''get_layer'' [var ''pkt'', str ''IP''] [], str ''ihl''] []],
        run (lib ''send_packet'' [self ''oport_dev'', var ''pkt''] []),
        run (lib ''verify_no_other_packets'' [] [])]]"

definition TunnelMalformedEncapPacketsBase_tunnelEncapInvalidTtlTest :: "'d stmt" where
  "TunnelMalformedEncapPacketsBase_tunnelEncapInvalidTtlTest = block [
      assign ''pkt'' (lib ''simple_udp_packet'' [] [(''eth_dst'', str ROUTER_MAC), (''eth_src'', self ''customer_mac''),
        (''ip_dst'', self ''vm_ip''), (''ip_src'', self ''customer_ip''), (''ip_id'', num 108), (''ip_ttl'', num 0)]),
      run (lib ''send_packet'' [self ''oport_dev'', var ''pkt''] []),
      run (lib ''verify_no_other_packets'' [] [])]"

definition TunnelMalformedEncapPacketsBase_tunnelEncapInvalidChksumTest :: "'d stmt" where
  "TunnelMalformedEncapPacketsBase_tunnelEncapInvalidChksumTest = block [
      assign ''pkt'' (lib ''simple_udp_packet'' [] [(''eth_dst'', str ROUTER_MAC), (''eth_src'', self ''customer_mac''),
        (''ip_dst'', self ''vm_ip''), (''ip_src'', self ''customer_ip''), (''ip_id'', num 108), (''ip_ttl'', num 64),
        (''with_udp_chksum'', bool True)]),
      assign ''pkt'' (lib ''set_field'' [var ''pkt'', str ''IP'', str ''chksum'', num 65535] []),
      run (lib ''send_packet'' [self ''oport_dev'', var ''pkt''] []),
      run (lib ''verify_no_other_packets'' [] [])]"

definition TunnelMalformedEncapPacketsBase_tunnelEncapInvalidSrcIpTest :: "'d stmt" where
  "TunnelMalformedEncapPacketsBase_tunnelEncapInvalidSrcIpTest = block [
      assign ''mcast_ip'' (str ''225.1.1.1''),
      assign ''lpb_ip'' (str ''127.0.0.1''),
      assign ''pkt'' (lib ''simple_udp_packet'' [] [(''eth_dst'', str ROUTER_MAC), (''eth_src'', self ''customer_mac''),
        (''ip_dst'', self ''vm_ip''), (''ip_id'', num 108), (''ip_ttl'', num 64)]),
      assign ''pkt'' (lib ''set_field'' [var ''pkt'', str ''IP'', str ''src'', var ''mcast_ip''] []),
      run (lib ''send_packet'' [self ''oport_dev'', var ''pkt''] []),
      run (lib ''verify_no_other_packets'' [] []),
      assign ''pkt'' (lib ''set_field'' [var ''pkt'', str ''IP'', str ''src'', var ''lpb_ip''] []),
      run (lib ''send_packet'' [self ''oport_dev'', var ''pkt''] []),
      run (lib ''verify_no_other_packets'' [] []),
      assign ''mcast_ipv6'' (str ''ff02::2''),
      assign ''pkt'' (lib ''simple_udpv6_packet'' [] [(''eth_dst'', str ROUTER_MAC), (''eth_src'', self ''customer_mac''),
        (''ipv6_dst'', self ''vm_ipv6''), (''ipv6_src'', var ''mcast_ipv6''), (''ipv6_hlim'', num 64)]),
      run (lib ''send_packet'' [self ''oport_dev'', var ''pkt''] []),
      run (lib ''verify_no_other_packets'' [] [])]"

definition TunnelMalformedEncapPacketsBase_tunnelEncapInvalidIpv4MtuTest :: "'d stmt" where
  "TunnelMalformedEncapPacketsBase_tunnelEncapInvalidIpv4MtuTest = block [
      assign ''orif_mtu'' (item (api_get ''router_interface'' (self ''orif'') [(''mtu'', bool True)]) (str ''mtu'')),
      assign ''urif_mtu'' (item (api_get ''router_interface'' (self ''urif'') [(''mtu'', bool True)]) (str ''mtu'')),
      if_else (is_false (self ''ipv6'')) [
        assign ''pkt'' (lib ''simple_vxlan_packet'' [] [(''inner_frame'', lib ''simple_udp_packet'' [] [])])] [
        assign ''pkt'' (lib ''simple_vxlanv6_packet'' [] [(''inner_frame'', lib ''simple_udp_packet'' [] [])])],
      assign ''mtu_offset'' (sub (length_of (var ''pkt'')) (length_of (lib ''simple_udp_packet'' [] []))),
      assign ''overlay_mtu'' (num 200),
      assign ''underlay_mtu'' (sub (add (var ''overlay_mtu'') (var ''mtu_offset'')) (num 1)),
      try_finally [
        assign ''status'' (api_set ''router_interface'' (self ''orif'') [(''mtu'', var ''overlay_mtu'')]),
        assert_eq (var ''status'') (num SAI_STATUS_SUCCESS),
        assign ''status'' (api_set ''router_interface'' (self ''urif'') [(''mtu'', var ''underlay_mtu'')]),
        assert_eq (var ''status'') (num SAI_STATUS_SUCCESS),
        if_else (is_true (self ''ipv6'')) [
          assign ''overlay_mtu'' (add (var ''overlay_mtu'') (num 40))] [],
        assign ''pkt'' (lib ''simple_udp_packet'' [] [(''eth_dst'', str ROUTER_MAC), (''eth_src'', self ''customer_mac''),
          (''ip_dst'', self ''vm_ip''), (''ip_src'', self ''customer_ip''), (''ip_id'', num 108), (''ip_ttl'', num 64),
          (''pktlen'', add (sub (var ''overlay_mtu'') (num 2)) (num 14))]),
        assign ''inner_pkt'' (lib ''simple_udp_packet'' [] [(''eth_dst'', self ''inner_dmac''), (''eth_src'', str ROUTER_MAC),
          (''ip_dst'', self ''vm_ip''), (''ip_src'', self ''customer_ip''), (''ip_id'', num 108), (''ip_ttl'', num 63),
          (''pktlen'', add (sub (var ''overlay_mtu'') (num 2)) (num 14))]),
        if_else (is_false (self ''ipv6'')) [
          assign ''vxlan_pkt'' (lib ''Mask'' [lib ''simple_vxlan_packet'' [] [(''eth_dst'', self ''unbor_mac''), (''eth_src'',
            str ROUTER_MAC), (''ip_dst'', self ''tun_ip''), (''ip_src'', self ''lpb_ip''), (''ip_id'', num 0), (''ip_ttl'', num
            64), (''ip_flags'', num 2), (''with_udp_chksum'', bool False), (''vxlan_vni'', self ''vni''), (''inner_frame'', var
            ''inner_pkt'')]] [])] [
          assign ''vxlan_pkt'' (lib ''Mask'' [lib ''simple_vxlanv6_packet'' [] [(''eth_dst'', self ''unbor_mac''), (''eth_src'',
            str ROUTER_MAC), (''ipv6_dst'', self ''tun_ip''), (''ipv6_src'', self ''lpb_ip''), (''ipv6_hlim'', num 64),
            (''with_udp_chksum'', bool False), (''vxlan_vni'', self ''vni''), (''inner_frame'', var ''inner_pkt'')]] [])],
        assign ''vxlan_pkt'' (lib ''.set_do_not_care_scapy'' [var ''vxlan_pkt'', str ''UDP'', str ''sport''] []),
        run (lib ''send_packet'' [self ''oport_dev'', var ''pkt''] []),
        run (lib ''verify_packet'' [var ''vxlan_pkt'', self ''uport_dev''] []),
        assign ''pkt'' (lib ''simple_udp_packet'' [] [(''eth_dst'', str ROUTER_MAC), (''eth_src'', self ''customer_mac''),
          (''ip_dst'', self ''vm_ip''), (''ip_src'', self ''customer_ip''), (''ip_id'', num 108), (''ip_ttl'', num 64),
          (''pktlen'', add (sub (var ''overlay_mtu'') (num 1)) (num 14))]),
        assign ''inner_pkt'' (lib ''simple_udp_packet'' [] [(''eth_dst'', self ''inner_dmac''), (''eth_src'', str ROUTER_MAC),
          (''ip_dst'', self ''vm_ip''), (''ip_src'', self ''customer_ip''), (''ip_id'', num 108), (''ip_ttl'', num 63),
          (''pktlen'', add (sub (var ''overlay_mtu'') (num 1)) (num 14))]),
        if_else (is_false (self ''ipv6'')) [
          assign ''vxlan_pkt'' (lib ''Mask'' [lib ''simple_vxlan_packet'' [] [(''eth_dst'', self ''unbor_mac''), (''eth_src'',
            str ROUTER_MAC), (''ip_dst'', self ''tun_ip''), (''ip_src'', self ''lpb_ip''), (''ip_id'', num 0), (''ip_ttl'', num
            64), (''ip_flags'', num 2), (''with_udp_chksum'', bool False), (''vxlan_vni'', self ''vni''), (''inner_frame'', var
            ''inner_pkt'')]] [])] [
          assign ''vxlan_pkt'' (lib ''Mask'' [lib ''simple_vxlanv6_packet'' [] [(''eth_dst'', self ''unbor_mac''), (''eth_src'',
            str ROUTER_MAC), (''ipv6_dst'', self ''tun_ip''), (''ipv6_src'', self ''lpb_ip''), (''ipv6_hlim'', num 64),
            (''with_udp_chksum'', bool False), (''vxlan_vni'', self ''vni''), (''inner_frame'', var ''inner_pkt'')]] [])],
        assign ''vxlan_pkt'' (lib ''.set_do_not_care_scapy'' [var ''vxlan_pkt'', str ''UDP'', str ''sport''] []),
        run (lib ''send_packet'' [self ''oport_dev'', var ''pkt''] []),
        run (lib ''verify_packet'' [var ''vxlan_pkt'', self ''uport_dev''] []),
        assign ''pkt'' (lib ''simple_udp_packet'' [] [(''eth_dst'', str ROUTER_MAC), (''eth_src'', self ''customer_mac''),
          (''ip_dst'', self ''vm_ip''), (''ip_src'', self ''customer_ip''), (''ip_id'', num 108), (''ip_ttl'', num 64),
          (''pktlen'', add (var ''overlay_mtu'') (num 14))]),
        run (lib ''send_packet'' [self ''oport_dev'', var ''pkt''] []),
        run (lib ''verify_no_other_packets'' [] [])] [
        run (api_set ''router_interface'' (self ''orif'') [(''mtu'', var ''orif_mtu'')]),
        run (api_set ''router_interface'' (self ''urif'') [(''mtu'', var ''urif_mtu'')])]]"

definition TunnelMalformedEncapPacketsBase_tunnelEncapInvalidHlimTest :: "'d stmt" where
  "TunnelMalformedEncapPacketsBase_tunnelEncapInvalidHlimTest = block [
      assign ''pkt'' (lib ''simple_udpv6_packet'' [] [(''eth_dst'', str ROUTER_MAC), (''eth_src'', self ''customer_mac''),
        (''ipv6_dst'', self ''vm_ipv6''), (''ipv6_src'', self ''customer_ipv6''), (''ipv6_hlim'', num 0)]),
      run (lib ''send_packet'' [self ''oport_dev'', var ''pkt''] []),
      run (lib ''verify_no_other_packets'' [] [])]"

definition TunnelMalformedEncapPacketsBase_tunnelEncapInvalidIpv6MtuTest :: "'d stmt" where
  "TunnelMalformedEncapPacketsBase_tunnelEncapInvalidIpv6MtuTest = block [
      assign ''orif_mtu'' (item (api_get ''router_interface'' (self ''orif'') [(''mtu'', bool True)]) (str ''mtu'')),
      assign ''urif_mtu'' (item (api_get ''router_interface'' (self ''urif'') [(''mtu'', bool True)]) (str ''mtu'')),
      if_else (is_false (self ''ipv6'')) [
        assign ''pkt'' (lib ''simple_vxlan_packet'' [] [(''inner_frame'', lib ''simple_udpv6_packet'' [] [])])] [
        assign ''pkt'' (lib ''simple_vxlanv6_packet'' [] [(''inner_frame'', lib ''simple_udpv6_packet'' [] [])])],
      assign ''mtu_offset'' (sub (length_of (var ''pkt'')) (length_of (lib ''simple_udpv6_packet'' [] []))),
      assign ''overlay_mtu'' (num 500),
      assign ''underlay_mtu'' (sub (add (var ''overlay_mtu'') (var ''mtu_offset'')) (num 1)),
      try_finally [
        assign ''status'' (api_set ''router_interface'' (self ''orif'') [(''mtu'', var ''overlay_mtu'')]),
        assert_eq (var ''status'') (num SAI_STATUS_SUCCESS),
        assign ''status'' (api_set ''router_interface'' (self ''urif'') [(''mtu'', var ''underlay_mtu'')]),
        assert_eq (var ''status'') (num SAI_STATUS_SUCCESS),
        if_else (is_true (self ''ipv6'')) [
          assign ''overlay_mtu'' (add (var ''overlay_mtu'') (num 40))] [],
        assign ''pkt'' (lib ''simple_udpv6_packet'' [] [(''eth_dst'', str ROUTER_MAC), (''eth_src'', self ''customer_mac''),
          (''ipv6_dst'', self ''vm_ipv6''), (''ipv6_src'', self ''customer_ipv6''), (''ipv6_hlim'', num 64), (''pktlen'', add
          (sub (var ''overlay_mtu'') (num 2)) (num 14))]),
        assign ''inner_pkt'' (lib ''simple_udpv6_packet'' [] [(''eth_dst'', self ''inner_dmac''), (''eth_src'', str ROUTER_MAC),
          (''ipv6_dst'', self ''vm_ipv6''), (''ipv6_src'', self ''customer_ipv6''), (''ipv6_hlim'', num 63), (''pktlen'', add
          (sub (var ''overlay_mtu'') (num 2)) (num 14))]),
        if_else (is_false (self ''ipv6'')) [
          assign ''vxlan_pkt'' (lib ''Mask'' [lib ''simple_vxlan_packet'' [] [(''eth_dst'', self ''unbor_mac''), (''eth_src'',
            str ROUTER_MAC), (''ip_dst'', self ''tun_ip''), (''ip_src'', self ''lpb_ip''), (''ip_id'', num 0), (''ip_ttl'', num
            64), (''ip_flags'', num 2), (''with_udp_chksum'', bool False), (''vxlan_vni'', self ''vni''), (''inner_frame'', var
            ''inner_pkt'')]] [])] [
          assign ''vxlan_pkt'' (lib ''Mask'' [lib ''simple_vxlanv6_packet'' [] [(''eth_dst'', self ''unbor_mac''), (''eth_src'',
            str ROUTER_MAC), (''ipv6_dst'', self ''tun_ip''), (''ipv6_src'', self ''lpb_ip''), (''ipv6_hlim'', num 64),
            (''with_udp_chksum'', bool False), (''vxlan_vni'', self ''vni''), (''inner_frame'', var ''inner_pkt'')]] [])],
        assign ''vxlan_pkt'' (lib ''.set_do_not_care_scapy'' [var ''vxlan_pkt'', str ''UDP'', str ''sport''] []),
        run (lib ''send_packet'' [self ''oport_dev'', var ''pkt''] []),
        run (lib ''verify_packet'' [var ''vxlan_pkt'', self ''uport_dev''] []),
        assign ''pkt'' (lib ''simple_udpv6_packet'' [] [(''eth_dst'', str ROUTER_MAC), (''eth_src'', self ''customer_mac''),
          (''ipv6_dst'', self ''vm_ipv6''), (''ipv6_src'', self ''customer_ipv6''), (''ipv6_hlim'', num 64), (''pktlen'', add
          (sub (var ''overlay_mtu'') (num 1)) (num 14))]),
        assign ''inner_pkt'' (lib ''simple_udpv6_packet'' [] [(''eth_dst'', self ''inner_dmac''), (''eth_src'', str ROUTER_MAC),
          (''ipv6_dst'', self ''vm_ipv6''), (''ipv6_src'', self ''customer_ipv6''), (''ipv6_hlim'', num 63), (''pktlen'', add
          (sub (var ''overlay_mtu'') (num 1)) (num 14))]),
        if_else (is_false (self ''ipv6'')) [
          assign ''vxlan_pkt'' (lib ''Mask'' [lib ''simple_vxlan_packet'' [] [(''eth_dst'', self ''unbor_mac''), (''eth_src'',
            str ROUTER_MAC), (''ip_dst'', self ''tun_ip''), (''ip_src'', self ''lpb_ip''), (''ip_id'', num 0), (''ip_ttl'', num
            64), (''ip_flags'', num 2), (''with_udp_chksum'', bool False), (''vxlan_vni'', self ''vni''), (''inner_frame'', var
            ''inner_pkt'')]] [])] [
          assign ''vxlan_pkt'' (lib ''Mask'' [lib ''simple_vxlanv6_packet'' [] [(''eth_dst'', self ''unbor_mac''), (''eth_src'',
            str ROUTER_MAC), (''ipv6_dst'', self ''tun_ip''), (''ipv6_src'', self ''lpb_ip''), (''ipv6_hlim'', num 64),
            (''with_udp_chksum'', bool False), (''vxlan_vni'', self ''vni''), (''inner_frame'', var ''inner_pkt'')]] [])],
        assign ''vxlan_pkt'' (lib ''.set_do_not_care_scapy'' [var ''vxlan_pkt'', str ''UDP'', str ''sport''] []),
        run (lib ''send_packet'' [self ''oport_dev'', var ''pkt''] []),
        run (lib ''verify_packet'' [var ''vxlan_pkt'', self ''uport_dev''] []),
        assign ''pkt'' (lib ''simple_udpv6_packet'' [] [(''eth_dst'', str ROUTER_MAC), (''eth_src'', self ''customer_mac''),
          (''ipv6_dst'', self ''vm_ipv6''), (''ipv6_src'', self ''customer_ipv6''), (''ipv6_hlim'', num 64), (''pktlen'', add
          (var ''overlay_mtu'') (num 14))]),
        run (lib ''send_packet'' [self ''oport_dev'', var ''pkt''] []),
        run (lib ''verify_no_other_packets'' [] [])] [
        run (api_set ''router_interface'' (self ''orif'') [(''mtu'', var ''orif_mtu'')]),
        run (api_set ''router_interface'' (self ''urif'') [(''mtu'', var ''urif_mtu'')])]]"

definition TunnelMalformedEncapPacketsIpv4UnderlayTest_runTest :: "'d stmt" where
  "TunnelMalformedEncapPacketsIpv4UnderlayTest_runTest = block [
      run (invoke [] TunnelMalformedEncapPacketsBase_tunnelEncapInvalidIpVersionTest),
      run (invoke [] TunnelMalformedEncapPacketsBase_tunnelEncapInvalidIhlTest),
      run (invoke [] TunnelMalformedEncapPacketsBase_tunnelEncapInvalidTtlTest),
      run (invoke [] TunnelMalformedEncapPacketsBase_tunnelEncapInvalidChksumTest),
      run (invoke [] TunnelMalformedEncapPacketsBase_tunnelEncapInvalidSrcIpTest),
      run (invoke [] TunnelMalformedEncapPacketsBase_tunnelEncapInvalidIpv4MtuTest),
      run (invoke [] TunnelMalformedEncapPacketsBase_tunnelEncapInvalidHlimTest),
      run (invoke [] TunnelMalformedEncapPacketsBase_tunnelEncapInvalidIpv6MtuTest)]"

definition TunnelMalformedEncapPacketsIpv6UnderlayTest_runTest :: "'d stmt" where
  "TunnelMalformedEncapPacketsIpv6UnderlayTest_runTest = block [
      run (invoke [] TunnelMalformedEncapPacketsBase_tunnelEncapInvalidIpVersionTest),
      run (invoke [] TunnelMalformedEncapPacketsBase_tunnelEncapInvalidIhlTest),
      run (invoke [] TunnelMalformedEncapPacketsBase_tunnelEncapInvalidTtlTest),
      run (invoke [] TunnelMalformedEncapPacketsBase_tunnelEncapInvalidChksumTest),
      run (invoke [] TunnelMalformedEncapPacketsBase_tunnelEncapInvalidSrcIpTest),
      run (invoke [] TunnelMalformedEncapPacketsBase_tunnelEncapInvalidIpv4MtuTest),
      run (invoke [] TunnelMalformedEncapPacketsBase_tunnelEncapInvalidHlimTest),
      run (invoke [] TunnelMalformedEncapPacketsBase_tunnelEncapInvalidIpv6MtuTest)]"

definition TunnelMalformedDecapPacketsBase_tunnelInvalidInnerSmacTest :: "'d stmt" where
  "TunnelMalformedDecapPacketsBase_tunnelInvalidInnerSmacTest = block [
      assign ''zeroed_mac'' (str ''00:00:00:00:00:00''),
      assign ''bcast_mac'' (str ''ff:ff:ff:ff:ff:ff''),
      assign ''mcast_mac'' (str ''01:00:5e:00:00:05''),
      assign ''inner_pkt'' (lib ''simple_udp_packet'' [] [(''eth_dst'', str ROUTER_MAC), (''eth_src'', var ''zeroed_mac''),
        (''ip_dst'', self ''customer_ip''), (''ip_src'', self ''vm_ip''), (''ip_id'', num 108), (''ip_ttl'', num 64)]),
      if_else (is_false (self ''ipv6'')) [
        assign ''vxlan_pkt'' (lib ''simple_vxlan_packet'' [] [(''eth_dst'', str ROUTER_MAC), (''eth_src'', self ''unbor_mac''),
          (''ip_dst'', self ''lpb_ip''), (''ip_src'', self ''tun_ip''), (''ip_id'', num 0), (''ip_ttl'', num 64), (''ip_flags'',
          num 2), (''udp_sport'', num 11638), (''with_udp_chksum'', bool False), (''vxlan_vni'', self ''vni''),
          (''inner_frame'', var ''inner_pkt'')])] [
        assign ''vxlan_pkt'' (lib ''simple_vxlanv6_packet'' [] [(''eth_dst'', str ROUTER_MAC), (''eth_src'', self
          ''unbor_mac''), (''ipv6_dst'', self ''lpb_ip''), (''ipv6_src'', self ''tun_ip''), (''ipv6_hlim'', num 64),
          (''udp_sport'', num 11638), (''with_udp_chksum'', bool False), (''vxlan_vni'', self ''vni''), (''inner_frame'', var
          ''inner_pkt'')])],
      run (lib ''send_packet'' [self ''uport_dev'', var ''vxlan_pkt''] []),
      run (lib ''verify_no_other_packets'' [] []),
      assign ''inner_pkt'' (lib ''set_field'' [var ''inner_pkt'', str ''Ether'', str ''src'', var ''bcast_mac''] []),
      if_else (is_false (self ''ipv6'')) [
        assign ''vxlan_pkt'' (lib ''simple_vxlan_packet'' [] [(''eth_dst'', str ROUTER_MAC), (''eth_src'', self ''unbor_mac''),
          (''ip_dst'', self ''lpb_ip''), (''ip_src'', self ''tun_ip''), (''ip_id'', num 0), (''ip_ttl'', num 64), (''ip_flags'',
          num 2), (''udp_sport'', num 11638), (''with_udp_chksum'', bool False), (''vxlan_vni'', self ''vni''),
          (''inner_frame'', var ''inner_pkt'')])] [
        assign ''vxlan_pkt'' (lib ''simple_vxlanv6_packet'' [] [(''eth_dst'', str ROUTER_MAC), (''eth_src'', self
          ''unbor_mac''), (''ipv6_dst'', self ''lpb_ip''), (''ipv6_src'', self ''tun_ip''), (''ipv6_hlim'', num 64),
          (''udp_sport'', num 11638), (''with_udp_chksum'', bool False), (''vxlan_vni'', self ''vni''), (''inner_frame'', var
          ''inner_pkt'')])],
      run (lib ''send_packet'' [self ''uport_dev'', var ''vxlan_pkt''] []),
      run (lib ''verify_no_other_packets'' [] []),
      assign ''inner_pkt'' (lib ''set_field'' [var ''inner_pkt'', str ''Ether'', str ''src'', var ''mcast_mac''] []),
      if_else (is_false (self ''ipv6'')) [
        assign ''vxlan_pkt'' (lib ''simple_vxlan_packet'' [] [(''eth_dst'', str ROUTER_MAC), (''eth_src'', self ''unbor_mac''),
          (''ip_dst'', self ''lpb_ip''), (''ip_src'', self ''tun_ip''), (''ip_id'', num 0), (''ip_ttl'', num 64), (''ip_flags'',
          num 2), (''udp_sport'', num 11638), (''with_udp_chksum'', bool False), (''vxlan_vni'', self ''vni''),
          (''inner_frame'', var ''inner_pkt'')])] [
        assign ''vxlan_pkt'' (lib ''simple_vxlanv6_packet'' [] [(''eth_dst'', str ROUTER_MAC), (''eth_src'', self
          ''unbor_mac''), (''ipv6_dst'', self ''lpb_ip''), (''ipv6_src'', self ''tun_ip''), (''ipv6_hlim'', num 64),
          (''udp_sport'', num 11638), (''with_udp_chksum'', bool False), (''vxlan_vni'', self ''vni''), (''inner_frame'', var
          ''inner_pkt'')])],
      run (lib ''send_packet'' [self ''uport_dev'', var ''vxlan_pkt''] []),
      run (lib ''verify_no_other_packets'' [] [])]"

definition TunnelMalformedDecapPacketsBase_tunnelInvalidInnerDmacTest :: "'d stmt" where
  "TunnelMalformedDecapPacketsBase_tunnelInvalidInnerDmacTest = block [
      assign ''dst_mac'' (str ''00:00:00:00:00:00''),
      assign ''inner_pkt'' (lib ''simple_udp_packet'' [] [(''eth_dst'', var ''dst_mac''), (''eth_src'', self ''inner_dmac''),
        (''ip_dst'', self ''customer_ip''), (''ip_src'', self ''vm_ip''), (''ip_id'', num 108), (''ip_ttl'', num 64)]),
      if_else (is_false (self ''ipv6'')) [
        assign ''vxlan_pkt'' (lib ''simple_vxlan_packet'' [] [(''eth_dst'', str ROUTER_MAC), (''eth_src'', self ''unbor_mac''),
          (''ip_dst'', self ''lpb_ip''), (''ip_src'', self ''tun_ip''), (''ip_id'', num 0), (''ip_ttl'', num 64), (''ip_flags'',
          num 2), (''udp_sport'', num 11638), (''with_udp_chksum'', bool False), (''vxlan_vni'', self ''vni''),
          (''inner_frame'', var ''inner_pkt'')])] [
        assign ''vxlan_pkt'' (lib ''simple_vxlanv6_packet'' [] [(''eth_dst'', str ROUTER_MAC), (''eth_src'', self
          ''unbor_mac''), (''ipv6_dst'', self ''lpb_ip''), (''ipv6_src'', self ''tun_ip''), (''ipv6_hlim'', num 64),
          (''udp_sport'', num 11638), (''with_udp_chksum'', bool False), (''vxlan_vni'', self ''vni''), (''inner_frame'', var
          ''inner_pkt'')])],
      run (lib ''send_packet'' [self ''uport_dev'', var ''vxlan_pkt''] []),
      run (lib ''verify_no_other_packets'' [] [])]"

definition TunnelMalformedDecapPacketsBase_tunnelDecapInvalidInnerDmacTest :: "'d stmt" where
  "TunnelMalformedDecapPacketsBase_tunnelDecapInvalidInnerDmacTest = block [
      assign ''non_router_mac'' (str ''00:77:66:55:44:33:22''),
      assign ''inner_pkt_v4'' (lib ''simple_udp_packet'' [] [(''eth_dst'', var ''non_router_mac''), (''eth_src'', self
        ''inner_dmac''), (''ip_dst'', self ''customer_ip''), (''ip_src'', self ''vm_ip''), (''ip_id'', num 108), (''ip_ttl'',
        num 64)]),
      if_else (is_false (self ''ipv6'')) [
        assign ''vxlan_pkt'' (lib ''simple_vxlan_packet'' [] [(''eth_dst'', str ROUTER_MAC), (''eth_src'', self ''unbor_mac''),
          (''ip_dst'', self ''lpb_ip''), (''ip_src'', self ''tun_ip''), (''ip_id'', num 0), (''ip_ttl'', num 64), (''ip_flags'',
          num 2), (''udp_sport'', num 11638), (''with_udp_chksum'', bool False), (''vxlan_vni'', self ''vni''),
          (''inner_frame'', var ''inner_pkt_v4'')])] [
        assign ''vxlan_pkt'' (lib ''simple_vxlanv6_packet'' [] [(''eth_dst'', str ROUTER_MAC), (''eth_src'', self
          ''unbor_mac''), (''ipv6_dst'', self ''lpb_ip''), (''ipv6_src'', self ''tun_ip''), (''ipv6_hlim'', num 64),
          (''udp_sport'', num 11638), (''with_udp_chksum'', bool False), (''vxlan_vni'', self ''vni''), (''inner_frame'', var
          ''inner_pkt_v4'')])],
      run (lib ''send_packet'' [self ''uport_dev'', var ''vxlan_pkt''] []),
      run (lib ''verify_no_other_packets'' [] []),
      assign ''inner_pkt_v6'' (lib ''simple_udpv6_packet'' [] [(''eth_dst'', var ''non_router_mac''), (''eth_src'', self
        ''inner_dmac''), (''ipv6_dst'', self ''customer_ipv6''), (''ipv6_src'', self ''vm_ipv6''), (''ipv6_hlim'', num 64)]),
      if_else (is_false (self ''ipv6'')) [
        assign ''vxlan_pkt'' (lib ''simple_vxlan_packet'' [] [(''eth_dst'', str ROUTER_MAC), (''eth_src'', self ''unbor_mac''),
          (''ip_dst'', self ''lpb_ip''), (''ip_src'', self ''tun_ip''), (''ip_id'', num 0), (''ip_ttl'', num 64), (''ip_flags'',
          num 2), (''udp_sport'', num 11638), (''with_udp_chksum'', bool False), (''vxlan_vni'', self ''vni''),
          (''inner_frame'', var ''inner_pkt_v6'')])] [
        assign ''vxlan_pkt'' (lib ''simple_vxlanv6_packet'' [] [(''eth_dst'', str ROUTER_MAC), (''eth_src'', self
          ''unbor_mac''), (''ipv6_dst'', self ''lpb_ip''), (''ipv6_src'', self ''tun_ip''), (''ipv6_hlim'', num 64),
          (''udp_sport'', num 11638), (''with_udp_chksum'', bool False), (''vxlan_vni'', self ''vni''), (''inner_frame'', var
          ''inner_pkt_v6'')])],
      run (lib ''send_packet'' [self ''uport_dev'', var ''vxlan_pkt''] []),
      run (lib ''verify_no_other_packets'' [] [])]"

definition TunnelMalformedDecapPacketsBase_tunnelDecapInvalidInnerIpVersionTest :: "'d stmt" where
  "TunnelMalformedDecapPacketsBase_tunnelDecapInvalidInnerIpVersionTest = block [
      assign ''inner_pkt_v4'' (lib ''simple_udp_packet'' [] [(''eth_dst'', str ROUTER_MAC), (''eth_src'', self ''inner_dmac''),
        (''ip_dst'', self ''customer_ip''), (''ip_src'', self ''vm_ip''), (''ip_id'', num 108), (''ip_ttl'', num 64)]),
      assign ''inner_pkt_v4'' (lib ''set_field'' [var ''inner_pkt_v4'', str ''IP'', str ''version'', num 6] []),
      if_else (is_false (self ''ipv6'')) [
        assign ''vxlan_pkt'' (lib ''simple_vxlan_packet'' [] [(''eth_dst'', str ROUTER_MAC), (''eth_src'', self ''unbor_mac''),
          (''ip_dst'', self ''lpb_ip''), (''ip_src'', self ''tun_ip''), (''ip_id'', num 0), (''ip_ttl'', num 64), (''ip_flags'',
          num 2), (''udp_sport'', num 11638), (''with_udp_chksum'', bool False), (''vxlan_vni'', self ''vni''),
          (''inner_frame'', var ''inner_pkt_v4'')])] [
        assign ''vxlan_pkt'' (lib ''simple_vxlanv6_packet'' [] [(''eth_dst'', str ROUTER_MAC), (''eth_src'', self
          ''unbor_mac''), (''ipv6_dst'', self ''lpb_ip''), (''ipv6_src'', self ''tun_ip''), (''ipv6_hlim'', num 64),
          (''udp_sport'', num 11638), (''with_udp_chksum'', bool False), (''vxlan_vni'', self ''vni''), (''inner_frame'', var
          ''inner_pkt_v4'')])],
      run (lib ''send_packet'' [self ''uport_dev'', var ''vxlan_pkt''] []),
      run (lib ''verify_no_other_packets'' [] []),
      assign ''inner_pkt_v6'' (lib ''simple_udpv6_packet'' [] [(''eth_dst'', str ROUTER_MAC), (''eth_src'', self
        ''inner_dmac''), (''ipv6_dst'', self ''customer_ipv6''), (''ipv6_src'', self ''vm_ipv6''), (''ipv6_hlim'', num 64)]),
      assign ''inner_pkt_v6'' (lib ''set_field'' [var ''inner_pkt_v6'', str ''IPv6'', str ''version'', num 4] []),
      if_else (is_false (self ''ipv6'')) [
        assign ''vxlan_pkt'' (lib ''simple_vxlan_packet'' [] [(''eth_dst'', str ROUTER_MAC), (''eth_src'', self ''unbor_mac''),
          (''ip_dst'', self ''lpb_ip''), (''ip_src'', self ''tun_ip''), (''ip_id'', num 0), (''ip_ttl'', num 64), (''ip_flags'',
          num 2), (''udp_sport'', num 11638), (''with_udp_chksum'', bool False), (''vxlan_vni'', self ''vni''),
          (''inner_frame'', var ''inner_pkt_v6'')])] [
        assign ''vxlan_pkt'' (lib ''simple_vxlanv6_packet'' [] [(''eth_dst'', str ROUTER_MAC), (''eth_src'', self
          ''unbor_mac''), (''ipv6_dst'', self ''lpb_ip''), (''ipv6_src'', self ''tun_ip''), (''ipv6_hlim'', num 64),
          (''udp_sport'', num 11638), (''with_udp_chksum'', bool False), (''vxlan_vni'', self ''vni''), (''inner_frame'', var
          ''inner_pkt_v6'')])],
      run (lib ''send_packet'' [self ''uport_dev'', var ''vxlan_pkt''] []),
      run (lib ''verify_no_other_packets'' [] [])]"

definition TunnelMalformedDecapPacketsBase_tunnelDecapInvalidInnerIhlTest :: "'d stmt" where
  "TunnelMalformedDecapPacketsBase_tunnelDecapInvalidInnerIhlTest = block [
      assign ''inner_pkt'' (lib ''simple_udp_packet'' [] [(''eth_dst'', str ROUTER_MAC), (''eth_src'', self ''inner_dmac''),
        (''ip_dst'', self ''customer_ip''), (''ip_src'', self ''vm_ip''), (''ip_id'', num 108), (''ip_ttl'', num 64)]),
      for_in [''i''] (range_of (num 0) (num 5)) [
        assign ''inner_pkt'' (lib ''set_field'' [var ''inner_pkt'', str ''IP'', str ''ihl'', var ''i''] []),
        if_else (is_false (self ''ipv6'')) [
          assign ''vxlan_pkt'' (lib ''simple_vxlan_packet'' [] [(''eth_dst'', str ROUTER_MAC), (''eth_src'', self
            ''unbor_mac''), (''ip_dst'', self ''lpb_ip''), (''ip_src'', self ''tun_ip''), (''ip_id'', num 0), (''ip_ttl'', num
            64), (''ip_flags'', num 2), (''udp_sport'', num 11638), (''with_udp_chksum'', bool False), (''vxlan_vni'', self
            ''vni''), (''inner_frame'', var ''inner_pkt'')])] [
          assign ''vxlan_pkt'' (lib ''simple_vxlanv6_packet'' [] [(''eth_dst'', str ROUTER_MAC), (''eth_src'', self
            ''unbor_mac''), (''ipv6_dst'', self ''lpb_ip''), (''ipv6_src'', self ''tun_ip''), (''ipv6_hlim'', num 64),
            (''udp_sport'', num 11638), (''with_udp_chksum'', bool False), (''vxlan_vni'', self ''vni''), (''inner_frame'', var
            ''inner_pkt'')])],
        print [lib ''get_field'' [lib ''get_layer'' [var ''inner_pkt'', str ''IP''] [], str ''ihl''] []],
        run (lib ''send_packet'' [self ''uport_dev'', var ''vxlan_pkt''] []),
        run (lib ''verify_no_other_packets'' [] [])]]"

definition TunnelMalformedDecapPacketsBase_tunnelDecapInvalidInnerTtlTest :: "'d stmt" where
  "TunnelMalformedDecapPacketsBase_tunnelDecapInvalidInnerTtlTest = block [
      assign ''inner_pkt'' (lib ''simple_udp_packet'' [] [(''eth_dst'', str ROUTER_MAC), (''eth_src'', self ''inner_dmac''),
        (''ip_dst'', self ''customer_ip''), (''ip_src'', self ''vm_ip''), (''ip_id'', num 108), (''ip_ttl'', num 0)]),
      if_else (is_false (self ''ipv6'')) [
        assign ''vxlan_pkt'' (lib ''simple_vxlan_packet'' [] [(''eth_dst'', str ROUTER_MAC), (''eth_src'', self ''unbor_mac''),
          (''ip_dst'', self ''lpb_ip''), (''ip_src'', self ''tun_ip''), (''ip_id'', num 0), (''ip_ttl'', num 64), (''ip_flags'',
          num 2), (''udp_sport'', num 11638), (''with_udp_chksum'', bool False), (''vxlan_vni'', self ''vni''),
          (''inner_frame'', var ''inner_pkt'')])] [
        assign ''vxlan_pkt'' (lib ''simple_vxlanv6_packet'' [] [(''eth_dst'', str ROUTER_MAC), (''eth_src'', self
          ''unbor_mac''), (''ipv6_dst'', self ''lpb_ip''), (''ipv6_src'', self ''tun_ip''), (''ipv6_hlim'', num 64),
          (''udp_sport'', num 11638), (''with_udp_chksum'', bool False), (''vxlan_vni'', self ''vni''), (''inner_frame'', var
          ''inner_pkt'')])],
      run (lib ''send_packet'' [self ''uport_dev'', var ''vxlan_pkt''] []),
      run (lib ''verify_no_other_packets'' [] [])]"

definition TunnelMalformedDecapPacketsBase_tunnelDecapInvalidInnerChksumTest :: "'d stmt" where
  "TunnelMalformedDecapPacketsBase_tunnelDecapInvalidInnerChksumTest = block [
      assign ''inner_pkt'' (lib ''simple_udp_packet'' [] [(''eth_dst'', str ROUTER_MAC), (''eth_src'', self ''inner_dmac''),
        (''ip_dst'', self ''customer_ip''), (''ip_src'', self ''vm_ip''), (''ip_id'', num 108), (''ip_ttl'', num 64),
        (''with_udp_chksum'', bool True)]),
      assign ''inner_pkt'' (lib ''set_field'' [var ''inner_pkt'', str ''IP'', str ''chksum'', num 65535] []),
      if_else (is_false (self ''ipv6'')) [
        assign ''vxlan_pkt'' (lib ''simple_vxlan_packet'' [] [(''eth_dst'', str ROUTER_MAC), (''eth_src'', self ''unbor_mac''),
          (''ip_dst'', self ''lpb_ip''), (''ip_src'', self ''tun_ip''), (''ip_id'', num 0), (''ip_ttl'', num 64), (''ip_flags'',
          num 2), (''udp_sport'', num 11638), (''with_udp_chksum'', bool True), (''vxlan_vni'', self ''vni''), (''inner_frame'',
          var ''inner_pkt'')])] [
        assign ''vxlan_pkt'' (lib ''simple_vxlanv6_packet'' [] [(''eth_dst'', str ROUTER_MAC), (''eth_src'', self
          ''unbor_mac''), (''ipv6_dst'', self ''lpb_ip''), (''ipv6_src'', self ''tun_ip''), (''ipv6_hlim'', num 64),
          (''udp_sport'', num 11638), (''with_udp_chksum'', bool False), (''vxlan_vni'', self ''vni''), (''inner_frame'', var
          ''inner_pkt'')])],
      run (lib ''send_packet'' [self ''uport_dev'', var ''vxlan_pkt''] []),
      run (lib ''verify_no_other_packets'' [] [])]"

definition TunnelMalformedDecapPacketsBase_tunnelDecapInvalidInnerSrcIpTest :: "'d stmt" where
  "TunnelMalformedDecapPacketsBase_tunnelDecapInvalidInnerSrcIpTest = block [
      assign ''mcast_ip'' (str ''225.1.1.1''),
      assign ''lpb_ip'' (str ''127.0.0.1''),
      assign ''mcast_ipv6'' (str ''ff02::2''),
      assign ''lpb_ipv6'' (str ''::1''),
      assign ''inner_pkt'' (lib ''simple_udp_packet'' [] [(''eth_dst'', str ROUTER_MAC), (''eth_src'', self ''inner_dmac''),
        (''ip_dst'', self ''customer_ip''), (''ip_src'', self ''vm_ip''), (''ip_id'', num 108), (''ip_ttl'', num 64)]),
      assign ''inner_pkt'' (lib ''set_field'' [var ''inner_pkt'', str ''IP'', str ''src'', var ''mcast_ip''] []),
      if_else (is_false (self ''ipv6'')) [
        assign ''vxlan_pkt'' (lib ''simple_vxlan_packet'' [] [(''eth_dst'', str ROUTER_MAC), (''eth_src'', self ''unbor_mac''),
          (''ip_dst'', self ''lpb_ip''), (''ip_src'', self ''tun_ip''), (''ip_id'', num 0), (''ip_ttl'', num 64), (''ip_flags'',
          num 2), (''udp_sport'', num 11638), (''with_udp_chksum'', bool False), (''vxlan_vni'', self ''vni''),
          (''inner_frame'', var ''inner_pkt'')])] [
        assign ''vxlan_pkt'' (lib ''simple_vxlanv6_packet'' [] [(''eth_dst'', str ROUTER_MAC), (''eth_src'', self
          ''unbor_mac''), (''ipv6_dst'', self ''lpb_ip''), (''ipv6_src'', self ''tun_ip''), (''ipv6_hlim'', num 64),
          (''udp_sport'', num 11638), (''with_udp_chksum'', bool False), (''vxlan_vni'', self ''vni''), (''inner_frame'', var
          ''inner_pkt'')])],
      run (lib ''send_packet'' [self ''uport_dev'', var ''vxlan_pkt''] []),
      run (lib ''verify_no_other_packets'' [] []),
      assign ''inner_pkt'' (lib ''set_field'' [var ''inner_pkt'', str ''IP'', str ''src'', var ''lpb_ip''] []),
      if_else (is_false (self ''ipv6'')) [
        assign ''vxlan_pkt'' (lib ''simple_vxlan_packet'' [] [(''eth_dst'', str ROUTER_MAC), (''eth_src'', self ''unbor_mac''),
          (''ip_dst'', self ''lpb_ip''), (''ip_src'', self ''tun_ip''), (''ip_id'', num 0), (''ip_ttl'', num 64), (''ip_flags'',
          num 2), (''udp_sport'', num 11638), (''with_udp_chksum'', bool False), (''vxlan_vni'', self ''vni''),
          (''inner_frame'', var ''inner_pkt'')])] [
        assign ''vxlan_pkt'' (lib ''simple_vxlanv6_packet'' [] [(''eth_dst'', str ROUTER_MAC), (''eth_src'', self
          ''unbor_mac''), (''ipv6_dst'', self ''lpb_ip''), (''ipv6_src'', self ''tun_ip''), (''ipv6_hlim'', num 64),
          (''udp_sport'', num 11638), (''with_udp_chksum'', bool False), (''vxlan_vni'', self ''vni''), (''inner_frame'', var
          ''inner_pkt'')])],
      run (lib ''send_packet'' [self ''uport_dev'', var ''vxlan_pkt''] []),
      run (lib ''verify_no_other_packets'' [] []),
      assign ''inner_pkt'' (lib ''simple_udpv6_packet'' [] [(''eth_dst'', str ROUTER_MAC), (''eth_src'', self ''inner_dmac''),
        (''ipv6_dst'', self ''customer_ipv6''), (''ipv6_src'', self ''vm_ipv6''), (''ipv6_hlim'', num 64)]),
      assign ''inner_pkt'' (lib ''set_field'' [var ''inner_pkt'', str ''IPv6'', str ''src'', var ''mcast_ipv6''] []),
      if_else (is_false (self ''ipv6'')) [
        assign ''vxlan_pkt'' (lib ''simple_vxlan_packet'' [] [(''eth_dst'', str ROUTER_MAC), (''eth_src'', self ''unbor_mac''),
          (''ip_dst'', self ''lpb_ip''), (''ip_src'', self ''tun_ip''), (''ip_id'', num 0), (''ip_ttl'', num 64), (''ip_flags'',
          num 2), (''udp_sport'', num 11638), (''with_udp_chksum'', bool False), (''vxlan_vni'', self ''vni''),
          (''inner_frame'', var ''inner_pkt'')])] [
        assign ''vxlan_pkt'' (lib ''simple_vxlanv6_packet'' [] [(''eth_dst'', str ROUTER_MAC), (''eth_src'', self
          ''unbor_mac''), (''ipv6_dst'', self ''lpb_ip''), (''ipv6_src'', self ''tun_ip''), (''ipv6_hlim'', num 64),
          (''udp_sport'', num 11638), (''with_udp_chksum'', bool False), (''vxlan_vni'', self ''vni''), (''inner_frame'', var
          ''inner_pkt'')])],
      run (lib ''send_packet'' [self ''uport_dev'', var ''vxlan_pkt''] []),
      run (lib ''verify_no_other_packets'' [] []),
      assign ''inner_pkt'' (lib ''set_field'' [var ''inner_pkt'', str ''IPv6'', str ''src'', var ''lpb_ipv6''] []),
      if_else (is_false (self ''ipv6'')) [
        assign ''vxlan_pkt'' (lib ''simple_vxlan_packet'' [] [(''eth_dst'', str ROUTER_MAC), (''eth_src'', self ''unbor_mac''),
          (''ip_dst'', self ''lpb_ip''), (''ip_src'', self ''tun_ip''), (''ip_id'', num 0), (''ip_ttl'', num 64), (''ip_flags'',
          num 2), (''udp_sport'', num 11638), (''with_udp_chksum'', bool False), (''vxlan_vni'', self ''vni''),
          (''inner_frame'', var ''inner_pkt'')])] [
        assign ''vxlan_pkt'' (lib ''simple_vxlanv6_packet'' [] [(''eth_dst'', str ROUTER_MAC), (''eth_src'', self
          ''unbor_mac''), (''ipv6_dst'', self ''lpb_ip''), (''ipv6_src'', self ''tun_ip''), (''ipv6_hlim'', num 64),
          (''udp_sport'', num 11638), (''with_udp_chksum'', bool False), (''vxlan_vni'', self ''vni''), (''inner_frame'', var
          ''inner_pkt'')])],
      run (lib ''send_packet'' [self ''uport_dev'', var ''vxlan_pkt''] []),
      run (lib ''verify_no_other_packets'' [] [])]"

definition TunnelMalformedDecapPacketsBase_tunnelDecapInvalidInnerHlimTest :: "'d stmt" where
  "TunnelMalformedDecapPacketsBase_tunnelDecapInvalidInnerHlimTest = block [
      assign ''inner_pkt'' (lib ''simple_udpv6_packet'' [] [(''eth_dst'', str ROUTER_MAC), (''eth_src'', self ''inner_dmac''),
        (''ipv6_dst'', self ''customer_ipv6''), (''ipv6_src'', self ''vm_ipv6''), (''ipv6_hlim'', num 0)]),
      if_else (is_false (self ''ipv6'')) [
        assign ''vxlan_pkt'' (lib ''simple_vxlan_packet'' [] [(''eth_dst'', str ROUTER_MAC), (''eth_src'', self ''unbor_mac''),
          (''ip_dst'', self ''lpb_ip''), (''ip_src'', self ''tun_ip''), (''ip_id'', num 0), (''ip_ttl'', num 64), (''ip_flags'',
          num 2), (''udp_sport'', num 11638), (''with_udp_chksum'', bool False), (''vxlan_vni'', self ''vni''),
          (''inner_frame'', var ''inner_pkt'')])] [
        assign ''vxlan_pkt'' (lib ''simple_vxlanv6_packet'' [] [(''eth_dst'', str ROUTER_MAC), (''eth_src'', self
          ''unbor_mac''), (''ipv6_dst'', self ''lpb_ip''), (''ipv6_src'', self ''tun_ip''), (''ipv6_hlim'', num 64),
          (''udp_sport'', num 11638), (''with_udp_chksum'', bool False), (''vxlan_vni'', self ''vni''), (''inner_frame'', var
          ''inner_pkt'')])],
      run (lib ''send_packet'' [self ''uport_dev'', var ''vxlan_pkt''] []),
      run (lib ''verify_no_other_packets'' [] [])]"

definition TunnelMalformedDecapPacketsBase_tunnelDecapInvalidOuterIpVersionTest :: "'d stmt" where
  "TunnelMalformedDecapPacketsBase_tunnelDecapInvalidOuterIpVersionTest = block [
      assign ''inner_pkt_v4'' (lib ''simple_udp_packet'' [] [(''eth_dst'', str ROUTER_MAC), (''eth_src'', self ''inner_dmac''),
        (''ip_dst'', self ''customer_ip''), (''ip_src'', self ''vm_ip''), (''ip_id'', num 108), (''ip_ttl'', num 64)]),
      if_else (is_false (self ''ipv6'')) [
        assign ''vxlan_pkt'' (lib ''simple_vxlan_packet'' [] [(''eth_dst'', str ROUTER_MAC), (''eth_src'', self ''unbor_mac''),
          (''ip_dst'', self ''lpb_ip''), (''ip_src'', self ''tun_ip''), (''ip_id'', num 0), (''ip_ttl'', num 64), (''ip_flags'',
          num 2), (''udp_sport'', num 11638), (''with_udp_chksum'', bool False), (''vxlan_vni'', self ''vni''),
          (''inner_frame'', var ''inner_pkt_v4'')]),
        assign ''vxlan_pkt'' (lib ''set_field'' [var ''vxlan_pkt'', str ''IP'', str ''version'', num 6] [])] [
        assign ''vxlan_pkt'' (lib ''simple_vxlanv6_packet'' [] [(''eth_dst'', str ROUTER_MAC), (''eth_src'', self
          ''unbor_mac''), (''ipv6_dst'', self ''lpb_ip''), (''ipv6_src'', self ''tun_ip''), (''ipv6_hlim'', num 64),
          (''udp_sport'', num 11638), (''with_udp_chksum'', bool False), (''vxlan_vni'', self ''vni''), (''inner_frame'', var
          ''inner_pkt_v4'')]),
        assign ''vxlan_pkt'' (lib ''set_field'' [var ''vxlan_pkt'', str ''IPv6'', str ''version'', num 4] [])],
      run (lib ''send_packet'' [self ''uport_dev'', var ''vxlan_pkt''] []),
      run (lib ''verify_no_other_packets'' [] []),
      assign ''inner_pkt_v6'' (lib ''simple_udpv6_packet'' [] [(''eth_dst'', str ROUTER_MAC), (''eth_src'', self
        ''inner_dmac''), (''ipv6_dst'', self ''customer_ipv6''), (''ipv6_src'', self ''vm_ipv6''), (''ipv6_hlim'', num 64)]),
      if_else (is_false (self ''ipv6'')) [
        assign ''vxlan_pkt'' (lib ''simple_vxlan_packet'' [] [(''eth_dst'', str ROUTER_MAC), (''eth_src'', self ''unbor_mac''),
          (''ip_dst'', self ''lpb_ip''), (''ip_src'', self ''tun_ip''), (''ip_id'', num 0), (''ip_ttl'', num 64), (''ip_flags'',
          num 2), (''udp_sport'', num 11638), (''with_udp_chksum'', bool False), (''vxlan_vni'', self ''vni''),
          (''inner_frame'', var ''inner_pkt_v6'')]),
        assign ''vxlan_pkt'' (lib ''set_field'' [var ''vxlan_pkt'', str ''IP'', str ''version'', num 6] [])] [
        assign ''vxlan_pkt'' (lib ''simple_vxlanv6_packet'' [] [(''eth_dst'', str ROUTER_MAC), (''eth_src'', self
          ''unbor_mac''), (''ipv6_dst'', self ''lpb_ip''), (''ipv6_src'', self ''tun_ip''), (''ipv6_hlim'', num 64),
          (''udp_sport'', num 11638), (''with_udp_chksum'', bool False), (''vxlan_vni'', self ''vni''), (''inner_frame'', var
          ''inner_pkt_v6'')]),
        assign ''vxlan_pkt'' (lib ''set_field'' [var ''vxlan_pkt'', str ''IPv6'', str ''version'', num 4] [])],
      run (lib ''send_packet'' [self ''uport_dev'', var ''vxlan_pkt''] []),
      run (lib ''verify_no_other_packets'' [] [])]"

definition TunnelMalformedDecapPacketsBase_tunnelDecapInvalidOuterIhlTest :: "'d stmt" where
  "TunnelMalformedDecapPacketsBase_tunnelDecapInvalidOuterIhlTest = block [
      if_else (is_true (self ''ipv6'')) [
        return none] [],
      assign ''inner_pkt_v4'' (lib ''simple_udp_packet'' [] [(''eth_dst'', str ROUTER_MAC), (''eth_src'', self ''inner_dmac''),
        (''ip_dst'', self ''customer_ip''), (''ip_src'', self ''vm_ip''), (''ip_id'', num 108), (''ip_ttl'', num 64)]),
      assign ''vxlan_pkt'' (lib ''simple_vxlan_packet'' [] [(''eth_dst'', str ROUTER_MAC), (''eth_src'', self ''unbor_mac''),
        (''ip_dst'', self ''lpb_ip''), (''ip_src'', self ''tun_ip''), (''ip_id'', num 0), (''ip_ttl'', num 64), (''ip_flags'',
        num 2), (''udp_sport'', num 11638), (''with_udp_chksum'', bool False), (''vxlan_vni'', self ''vni''), (''inner_frame'',
        var ''inner_pkt_v4'')]),
      for_in [''i''] (range_of (num 0) (num 5)) [
        assign ''vxlan_pkt'' (lib ''set_field'' [var ''vxlan_pkt'', str ''IP'', str ''ihl'', var ''i''] []),
        print [lib ''get_field'' [lib ''get_layer'' [var ''vxlan_pkt'', str ''IP''] [], str ''ihl''] []],
        run (lib ''send_packet'' [self ''uport_dev'', var ''vxlan_pkt''] []),
        run (lib ''verify_no_other_packets'' [] [])],
      assign ''inner_pkt_v6'' (lib ''simple_udpv6_packet'' [] [(''eth_dst'', str ROUTER_MAC), (''eth_src'', self
        ''inner_dmac''), (''ipv6_dst'', self ''customer_ipv6''), (''ipv6_src'', self ''vm_ipv6''), (''ipv6_hlim'', num 64)]),
      assign ''vxlan_pkt'' (lib ''simple_vxlan_packet'' [] [(''eth_dst'', str ROUTER_MAC), (''eth_src'', self ''unbor_mac''),
        (''ip_dst'', self ''lpb_ip''), (''ip_src'', self ''tun_ip''), (''ip_id'', num 0), (''ip_ttl'', num 64), (''ip_flags'',
        num 2), (''udp_sport'', num 11638), (''with_udp_chksum'', bool False), (''vxlan_vni'', self ''vni''), (''inner_frame'',
        var ''inner_pkt_v6'')]),
      for_in [''i''] (range_of (num 0) (num 5)) [
        assign ''vxlan_pkt'' (lib ''set_field'' [var ''vxlan_pkt'', str ''IP'', str ''ihl'', var ''i''] []),
        print [lib ''get_field'' [lib ''get_layer'' [var ''vxlan_pkt'', str ''IP''] [], str ''ihl''] []],
        run (lib ''send_packet'' [self ''uport_dev'', var ''vxlan_pkt''] []),
        run (lib ''verify_no_other_packets'' [] [])]]"

definition TunnelMalformedDecapPacketsBase_tunnelDecapInvalidOuterTtlTest :: "'d stmt" where
  "TunnelMalformedDecapPacketsBase_tunnelDecapInvalidOuterTtlTest = block [
      if_else (is_true (self ''ipv6'')) [
        return none] [],
      assign ''inner_pkt_v4'' (lib ''simple_udp_packet'' [] [(''eth_dst'', str ROUTER_MAC), (''eth_src'', self ''inner_dmac''),
        (''ip_dst'', self ''customer_ip''), (''ip_src'', self ''vm_ip''), (''ip_id'', num 108), (''ip_ttl'', num 64)]),
      assign ''vxlan_pkt'' (lib ''simple_vxlan_packet'' [] [(''eth_dst'', str ROUTER_MAC), (''eth_src'', self ''unbor_mac''),
        (''ip_dst'', self ''lpb_ip''), (''ip_src'', self ''tun_ip''), (''ip_id'', num 0), (''ip_ttl'', num 0), (''ip_flags'',
        num 2), (''udp_sport'', num 11638), (''with_udp_chksum'', bool False), (''vxlan_vni'', self ''vni''), (''inner_frame'',
        var ''inner_pkt_v4'')]),
      run (lib ''send_packet'' [self ''uport_dev'', var ''vxlan_pkt''] []),
      run (lib ''verify_no_other_packets'' [] []),
      assign ''inner_pkt_v6'' (lib ''simple_udpv6_packet'' [] [(''eth_dst'', str ROUTER_MAC), (''eth_src'', self
        ''inner_dmac''), (''ipv6_dst'', self ''customer_ipv6''), (''ipv6_src'', self ''vm_ipv6''), (''ipv6_hlim'', num 64)]),
      assign ''vxlan_pkt'' (lib ''simple_vxlan_packet'' [] [(''eth_dst'', str ROUTER_MAC), (''eth_src'', self ''unbor_mac''),
        (''ip_dst'', self ''lpb_ip''), (''ip_src'', self ''tun_ip''), (''ip_id'', num 0), (''ip_ttl'', num 0), (''ip_flags'',
        num 2), (''udp_sport'', num 11638), (''with_udp_chksum'', bool False), (''vxlan_vni'', self ''vni''), (''inner_frame'',
        var ''inner_pkt_v6'')]),
      run (lib ''send_packet'' [self ''uport_dev'', var ''vxlan_pkt''] []),
      run (lib ''verify_no_other_packets'' [] [])]"

definition TunnelMalformedDecapPacketsBase_tunnelDecapInvalidOuterChksumTest :: "'d stmt" where
  "TunnelMalformedDecapPacketsBase_tunnelDecapInvalidOuterChksumTest = block [
      if_else (is_true (self ''ipv6'')) [
        return none] [],
      assign ''inner_pkt_v4'' (lib ''simple_udp_packet'' [] [(''eth_dst'', str ROUTER_MAC), (''eth_src'', self ''inner_dmac''),
        (''ip_dst'', self ''customer_ip''), (''ip_src'', self ''vm_ip''), (''ip_id'', num 108), (''ip_ttl'', num 64)]),
      assign ''vxlan_pkt'' (lib ''simple_vxlan_packet'' [] [(''eth_dst'', str ROUTER_MAC), (''eth_src'', self ''unbor_mac''),
        (''ip_dst'', self ''lpb_ip''), (''ip_src'', self ''tun_ip''), (''ip_id'', num 0), (''ip_ttl'', num 64), (''ip_flags'',
        num 2), (''udp_sport'', num 11638), (''with_udp_chksum'', bool False), (''vxlan_vni'', self ''vni''), (''inner_frame'',
        var ''inner_pkt_v4'')]),
      assign ''vxlan_pkt'' (lib ''set_field'' [var ''vxlan_pkt'', str ''IP'', str ''chksum'', num 65535] []),
      run (lib ''send_packet'' [self ''uport_dev'', var ''vxlan_pkt''] []),
      run (lib ''verify_no_other_packets'' [] []),
      assign ''inner_pkt_v6'' (lib ''simple_udpv6_packet'' [] [(''eth_dst'', str ROUTER_MAC), (''eth_src'', self
        ''inner_dmac''), (''ipv6_dst'', self ''customer_ipv6''), (''ipv6_src'', self ''vm_ipv6''), (''ipv6_hlim'', num 64)]),
      assign ''vxlan_pkt'' (lib ''simple_vxlan_packet'' [] [(''eth_dst'', str ROUTER_MAC), (''eth_src'', self ''unbor_mac''),
        (''ip_dst'', self ''lpb_ip''), (''ip_src'', self ''tun_ip''), (''ip_id'', num 0), (''ip_ttl'', num 64), (''ip_flags'',
        num 2), (''udp_sport'', num 11638), (''with_udp_chksum'', bool False), (''vxlan_vni'', self ''vni''), (''inner_frame'',
        var ''inner_pkt_v6'')]),
      assign ''vxlan_pkt'' (lib ''set_field'' [var ''vxlan_pkt'', str ''IP'', str ''chksum'', num 65535] []),
      run (lib ''send_packet'' [self ''uport_dev'', var ''vxlan_pkt''] []),
      run (lib ''verify_no_other_packets'' [] [])]"

definition TunnelMalformedDecapPacketsBase_tunnelDecapInvalidOuterSrcIpTest :: "'d stmt" where
  "TunnelMalformedDecapPacketsBase_tunnelDecapInvalidOuterSrcIpTest = block [
      if_else (is_false (self ''ipv6'')) [
        assign ''mcast_ip'' (str ''225.1.1.1''),
        assign ''lpb_ip'' (str ''127.0.0.1'')] [
        assign ''mcast_ip'' (str ''ff02::2'')],
      assign ''inner_pkt_v4'' (lib ''simple_udp_packet'' [] [(''eth_dst'', str ROUTER_MAC), (''eth_src'', self ''inner_dmac''),
        (''ip_dst'', self ''customer_ip''), (''ip_src'', self ''vm_ip''), (''ip_id'', num 108), (''ip_ttl'', num 64)]),
      if_else (is_false (self ''ipv6'')) [
        assign ''vxlan_pkt'' (lib ''simple_vxlan_packet'' [] [(''eth_dst'', str ROUTER_MAC), (''eth_src'', self ''unbor_mac''),
          (''ip_dst'', self ''lpb_ip''), (''ip_id'', num 0), (''ip_ttl'', num 64), (''ip_flags'', num 2), (''udp_sport'', num
          11638), (''with_udp_chksum'', bool False), (''vxlan_vni'', self ''vni''), (''inner_frame'', var ''inner_pkt_v4'')]),
        assign ''vxlan_pkt'' (lib ''set_field'' [var ''vxlan_pkt'', str ''IP'', str ''src'', var ''mcast_ip''] [])] [
        assign ''vxlan_pkt'' (lib ''simple_vxlanv6_packet'' [] [(''eth_dst'', str ROUTER_MAC), (''eth_src'', self
          ''unbor_mac''), (''ipv6_dst'', self ''lpb_ip''), (''ipv6_hlim'', num 64), (''udp_sport'', num 11638),
          (''with_udp_chksum'', bool False), (''vxlan_vni'', self ''vni''), (''inner_frame'', var ''inner_pkt_v4'')]),
        assign ''vxlan_pkt'' (lib ''set_field'' [var ''vxlan_pkt'', str ''IPv6'', str ''src'', var ''mcast_ip''] [])],
      run (lib ''send_packet'' [self ''uport_dev'', var ''vxlan_pkt''] []),
      run (lib ''verify_no_other_packets'' [] []),
      if_else (is_false (self ''ipv6'')) [
        assign ''vxlan_pkt'' (lib ''set_field'' [var ''vxlan_pkt'', str ''IP'', str ''src'', var ''lpb_ip''] []),
        run (lib ''send_packet'' [self ''uport_dev'', var ''vxlan_pkt''] []),
        run (lib ''verify_no_other_packets'' [] [])] [],
      assign ''inner_pkt_v6'' (lib ''simple_udpv6_packet'' [] [(''eth_dst'', str ROUTER_MAC), (''eth_src'', self
        ''inner_dmac''), (''ipv6_dst'', self ''customer_ipv6''), (''ipv6_src'', self ''vm_ipv6''), (''ipv6_hlim'', num 64)]),
      if_else (is_false (self ''ipv6'')) [
        assign ''vxlan_pkt'' (lib ''simple_vxlan_packet'' [] [(''eth_dst'', str ROUTER_MAC), (''eth_src'', self ''unbor_mac''),
          (''ip_dst'', self ''lpb_ip''), (''ip_src'', self ''tun_ip''), (''ip_id'', num 0), (''ip_ttl'', num 64), (''ip_flags'',
          num 2), (''udp_sport'', num 11638), (''with_udp_chksum'', bool False), (''vxlan_vni'', self ''vni''),
          (''inner_frame'', var ''inner_pkt_v6'')]),
        assign ''vxlan_pkt'' (lib ''set_field'' [var ''vxlan_pkt'', str ''IP'', str ''src'', var ''mcast_ip''] [])] [
        assign ''vxlan_pkt'' (lib ''simple_vxlanv6_packet'' [] [(''eth_dst'', str ROUTER_MAC), (''eth_src'', self
          ''unbor_mac''), (''ipv6_dst'', self ''lpb_ip''), (''ipv6_src'', self ''tun_ip''), (''ipv6_hlim'', num 64),
          (''udp_sport'', num 11638), (''with_udp_chksum'', bool False), (''vxlan_vni'', self ''vni''), (''inner_frame'', var
          ''inner_pkt_v6'')]),
        assign ''vxlan_pkt'' (lib ''set_field'' [var ''vxlan_pkt'', str ''IPv6'', str ''src'', var ''mcast_ip''] [])],
      run (lib ''send_packet'' [self ''uport_dev'', var ''vxlan_pkt''] []),
      run (lib ''verify_no_other_packets'' [] []),
      if_else (is_false (self ''ipv6'')) [
        assign ''vxlan_pkt'' (lib ''set_field'' [var ''vxlan_pkt'', str ''IP'', str ''src'', var ''lpb_ip''] []),
        run (lib ''send_packet'' [self ''uport_dev'', var ''vxlan_pkt''] []),
        run (lib ''verify_no_other_packets'' [] [])] []]"

definition TunnelMalformedDecapPacketsBase_tunnelDecapInvalidOuterHlimTest :: "'d stmt" where
  "TunnelMalformedDecapPacketsBase_tunnelDecapInvalidOuterHlimTest = block [
      if_else (is_false (self ''ipv6'')) [
        return none] [],
      assign ''inner_pkt_v4'' (lib ''simple_udp_packet'' [] [(''eth_dst'', str ROUTER_MAC), (''eth_src'', self ''inner_dmac''),
        (''ip_dst'', self ''customer_ip''), (''ip_src'', self ''vm_ip''), (''ip_id'', num 108), (''ip_ttl'', num 64)]),
      assign ''vxlan_pkt'' (lib ''simple_vxlanv6_packet'' [] [(''eth_dst'', str ROUTER_MAC), (''eth_src'', self ''unbor_mac''),
        (''ipv6_dst'', self ''lpb_ip''), (''ipv6_src'', self ''tun_ip''), (''ipv6_hlim'', num 0), (''udp_sport'', num 11638),
        (''with_udp_chksum'', bool False), (''vxlan_vni'', self ''vni''), (''inner_frame'', var ''inner_pkt_v4'')]),
      run (lib ''send_packet'' [self ''uport_dev'', var ''vxlan_pkt''] []),
      run (lib ''verify_no_other_packets'' [] []),
      assign ''inner_pkt_v6'' (lib ''simple_udpv6_packet'' [] [(''eth_dst'', str ROUTER_MAC), (''eth_src'', self
        ''inner_dmac''), (''ipv6_dst'', self ''customer_ipv6''), (''ipv6_src'', self ''vm_ipv6''), (''ipv6_hlim'', num 64)]),
      assign ''vxlan_pkt'' (lib ''simple_vxlanv6_packet'' [] [(''eth_dst'', str ROUTER_MAC), (''eth_src'', self ''unbor_mac''),
        (''ipv6_dst'', self ''lpb_ip''), (''ipv6_src'', self ''tun_ip''), (''ipv6_hlim'', num 0), (''udp_sport'', num 11638),
        (''with_udp_chksum'', bool False), (''vxlan_vni'', self ''vni''), (''inner_frame'', var ''inner_pkt_v6'')]),
      run (lib ''send_packet'' [self ''uport_dev'', var ''vxlan_pkt''] []),
      run (lib ''verify_no_other_packets'' [] [])]"

definition TunnelMalformedDecapPacketsIpv4UnderlayTest_runTest :: "'d stmt" where
  "TunnelMalformedDecapPacketsIpv4UnderlayTest_runTest = block [
      run (invoke [] TunnelMalformedDecapPacketsBase_tunnelInvalidInnerSmacTest),
      run (invoke [] TunnelMalformedDecapPacketsBase_tunnelInvalidInnerDmacTest),
      run (invoke [] TunnelMalformedDecapPacketsBase_tunnelDecapInvalidInnerDmacTest),
      run (invoke [] TunnelMalformedDecapPacketsBase_tunnelDecapInvalidInnerIpVersionTest),
      run (invoke [] TunnelMalformedDecapPacketsBase_tunnelDecapInvalidInnerIhlTest),
      run (invoke [] TunnelMalformedDecapPacketsBase_tunnelDecapInvalidInnerTtlTest),
      run (invoke [] TunnelMalformedDecapPacketsBase_tunnelDecapInvalidInnerChksumTest),
      run (invoke [] TunnelMalformedDecapPacketsBase_tunnelDecapInvalidInnerSrcIpTest),
      run (invoke [] TunnelMalformedDecapPacketsBase_tunnelDecapInvalidInnerHlimTest),
      run (invoke [] TunnelMalformedDecapPacketsBase_tunnelDecapInvalidOuterIpVersionTest),
      run (invoke [] TunnelMalformedDecapPacketsBase_tunnelDecapInvalidOuterIhlTest),
      run (invoke [] TunnelMalformedDecapPacketsBase_tunnelDecapInvalidOuterTtlTest),
      run (invoke [] TunnelMalformedDecapPacketsBase_tunnelDecapInvalidOuterChksumTest),
      run (invoke [] TunnelMalformedDecapPacketsBase_tunnelDecapInvalidOuterSrcIpTest)]"

definition TunnelNhopResolutionBase_setUp :: "'d stmt" where
  "TunnelNhopResolutionBase_setUp = block [
      super_setUp,
      set_self ''oport'' (self ''port24''),
      set_self ''oport_dev'' (self ''dev_port24''),
      set_self ''vni'' (num 1000),
      set_self ''vm_ip1'' (str ''100.100.1.1''),
      set_self ''vm_ip2'' (str ''100.100.1.2''),
      set_self ''vm_ipv61'' (str ''2001:0db8::1:1''),
      set_self ''vm_ipv62'' (str ''2001:0db8::1:2''),
      set_self ''customer_ip'' (str ''100.100.3.1''),
      set_self ''customer_ipv6'' (str ''2001:0db8::2:1''),
      set_self ''inner_dmac1'' (str ''00:11:11:11:11:11''),
      set_self ''inner_dmac2'' (str ''00:11:11:11:11:22''),
      set_self ''inner_dmac3'' (str ''00:11:11:11:11:33''),
      set_self ''customer_mac'' (str ''00:22:22:22:22:22''),
      set_self ''unbor_mac1'' (str ''00:33:33:33:33:11''),
      set_self ''unbor_mac2'' (str ''00:33:33:33:33:22''),
      set_self ''unbor_mac3'' (str ''00:33:33:33:33:33''),
      set_self ''uvrf'' (api_create ''virtual_router'' []),
      set_self ''ovrf'' (api_create ''virtual_router'' []),
      assign ''tunnel_type'' (num SAI_TUNNEL_TYPE_VXLAN),
      assign ''ttl_mode'' (num SAI_TUNNEL_TTL_MODE_PIPE_MODEL),
      set_self ''urif_lpb'' (api_create ''router_interface'' [(''type'', num SAI_ROUTER_INTERFACE_TYPE_LOOPBACK),
        (''virtual_router_id'', self ''uvrf'')]),
      set_self ''orif'' (api_create ''router_interface'' [(''type'', num SAI_ROUTER_INTERFACE_TYPE_PORT),
        (''virtual_router_id'', self ''ovrf''), (''port_id'', self ''oport'')]),
      set_self ''encap_tunnel_map'' (api_create ''tunnel_map'' [(''type'', num SAI_TUNNEL_MAP_TYPE_VIRTUAL_ROUTER_ID_TO_VNI)]),
      set_self ''decap_tunnel_map'' (api_create ''tunnel_map'' [(''type'', num SAI_TUNNEL_MAP_TYPE_VNI_TO_VIRTUAL_ROUTER_ID)]),
      set_self ''encap_tunnel_map_entry'' (api_create ''tunnel_map_entry'' [(''tunnel_map'', self ''encap_tunnel_map''),
        (''tunnel_map_type'', num SAI_TUNNEL_MAP_TYPE_VIRTUAL_ROUTER_ID_TO_VNI), (''virtual_router_id_key'', self ''ovrf''),
        (''vni_id_value'', self ''vni'')]),
      set_self ''decap_tunnel_map_entry'' (api_create ''tunnel_map_entry'' [(''tunnel_map'', self ''encap_tunnel_map''),
        (''tunnel_map_type'', num SAI_TUNNEL_MAP_TYPE_VNI_TO_VIRTUAL_ROUTER_ID), (''virtual_router_id_value'', self ''ovrf''),
        (''vni_id_key'', self ''vni'')]),
      assign ''encap_maps'' (struct ''sai_thrift_object_list_t'' [(''count'', num 1), (''idlist'', list_of [self
        ''encap_tunnel_map''])]),
      assign ''decap_maps'' (struct ''sai_thrift_object_list_t'' [(''count'', num 1), (''idlist'', list_of [self
        ''decap_tunnel_map''])]),
      set_self ''tunnel'' (api_create ''tunnel'' [(''type'', var ''tunnel_type''), (''encap_src_ip'', ip_address (self
        ''lpb_ip'')), (''encap_mappers'', var ''encap_maps''), (''decap_mappers'', var ''decap_maps''), (''encap_ttl_mode'', var
        ''ttl_mode''), (''decap_ttl_mode'', var ''ttl_mode''), (''underlay_interface'', self ''urif_lpb'')])]"

definition TunnelNhopResolutionBase_v4TrafficTest :: "'d stmt" where
  "TunnelNhopResolutionBase_v4TrafficTest = block [
      assign ''dmac'' (self ''unbor_mac1''),
      assign ''idmac'' (self ''inner_dmac1''),
      assign ''dst_ip'' (self ''vm_ip1''),
      assign ''tun_ip'' (self ''tun_ip1''),
      assign ''vni'' (self ''vni''),
      assign ''vlan_enable'' (bool False),
      assign ''vlan_no'' (num 0),
      if_else (var ''pkt_data'') [
        if_else (is_in (str ''dmac'') (var ''pkt_data'')) [
          assign ''dmac'' (item (var ''pkt_data'') (str ''dmac''))] [],
        if_else (is_in (str ''idmac'') (var ''pkt_data'')) [
          assign ''idmac'' (item (var ''pkt_data'') (str ''idmac''))] [],
        if_else (is_in (str ''dst_ip'') (var ''pkt_data'')) [
          assign ''dst_ip'' (item (var ''pkt_data'') (str ''dst_ip''))] [],
        if_else (is_in (str ''tun_ip'') (var ''pkt_data'')) [
          assign ''tun_ip'' (item (var ''pkt_data'') (str ''tun_ip''))] [],
        if_else (is_in (str ''vni'') (var ''pkt_data'')) [
          assign ''vni'' (item (var ''pkt_data'') (str ''vni''))] [],
        if_else (both (is_in (str ''vlan_no'') (var ''pkt_data'')) (ne (item (var ''pkt_data'') (str ''vlan_no'')) (num 0))) [
          assign ''vlan_enable'' (bool True),
          assign ''vlan_no'' (item (var ''pkt_data'') (str ''vlan_no''))] []] [],
      assign ''pkt'' (lib ''simple_udp_packet'' [] [(''eth_dst'', str ROUTER_MAC), (''eth_src'', self ''customer_mac''),
        (''ip_dst'', var ''dst_ip''), (''ip_src'', self ''customer_ip''), (''ip_id'', num 108), (''ip_ttl'', num 64)]),
      assign ''inner_pkt'' (lib ''simple_udp_packet'' [] [(''eth_dst'', var ''idmac''), (''eth_src'', str ROUTER_MAC),
        (''ip_dst'', var ''dst_ip''), (''ip_src'', self ''customer_ip''), (''ip_id'', num 108), (''ip_ttl'', num 63)]),
      if_else (is_false (self ''ipv6'')) [
        assign ''vxlan_pkt'' (lib ''Mask'' [lib ''simple_vxlan_packet'' [] [(''eth_dst'', var ''dmac''), (''eth_src'', str
          ROUTER_MAC), (''ip_dst'', var ''tun_ip''), (''ip_src'', self ''lpb_ip''), (''ip_id'', num 0), (''dl_vlan_enable'', var
          ''vlan_enable''), (''vlan_vid'', var ''vlan_no''), (''ip_ttl'', num 64), (''ip_flags'', num 2), (''with_udp_chksum'',
          bool False), (''vxlan_vni'', var ''vni''), (''inner_frame'', var ''inner_pkt'')]] [])] [
        assign ''vxlan_pkt'' (lib ''Mask'' [lib ''simple_vxlanv6_packet'' [] [(''eth_dst'', var ''dmac''), (''eth_src'', str
          ROUTER_MAC), (''ipv6_dst'', var ''tun_ip''), (''ipv6_src'', self ''lpb_ip''), (''dl_vlan_enable'', var
          ''vlan_enable''), (''vlan_vid'', var ''vlan_no''), (''ipv6_hlim'', num 64), (''with_udp_chksum'', bool False),
          (''vxlan_vni'', var ''vni''), (''inner_frame'', var ''inner_pkt'')]] [])],
      assign ''vxlan_pkt'' (lib ''.set_do_not_care_scapy'' [var ''vxlan_pkt'', str ''UDP'', str ''sport''] []),
      run (lib ''send_packet'' [self ''oport_dev'', var ''pkt''] []),
      run (lib ''verify_packet_any_port'' [var ''vxlan_pkt'', var ''rcv_ports''] [])]"

definition TunnelNhopResolutionBase_v6TrafficTest :: "'d stmt" where
  "TunnelNhopResolutionBase_v6TrafficTest = block [
      assign ''dmac'' (self ''unbor_mac1''),
      assign ''idmac'' (self ''inner_dmac1''),
      assign ''dst_ip'' (self ''vm_ipv61''),
      assign ''tun_ip'' (self ''tun_ip1''),
      assign ''vni'' (self ''vni''),
      assign ''vlan_enable'' (bool False),
      assign ''vlan_no'' (num 0),
      if_else (var ''pkt_data'') [
        if_else (is_in (str ''dmac'') (var ''pkt_data'')) [
          assign ''dmac'' (item (var ''pkt_data'') (str ''dmac''))] [],
        if_else (is_in (str ''idmac'') (var ''pkt_data'')) [
          assign ''idmac'' (item (var ''pkt_data'') (str ''idmac''))] [],
        if_else (is_in (str ''dst_ip'') (var ''pkt_data'')) [
          assign ''dst_ip'' (item (var ''pkt_data'') (str ''dst_ip''))] [],
        if_else (is_in (str ''tun_ip'') (var ''pkt_data'')) [
          assign ''tun_ip'' (item (var ''pkt_data'') (str ''tun_ip''))] [],
        if_else (is_in (str ''vni'') (var ''pkt_data'')) [
          assign ''vni'' (item (var ''pkt_data'') (str ''vni''))] [],
        if_else (both (is_in (str ''vlan_no'') (var ''pkt_data'')) (ne (item (var ''pkt_data'') (str ''vlan_no'')) (num 0))) [
          assign ''vlan_enable'' (bool True),
          assign ''vlan_no'' (item (var ''pkt_data'') (str ''vlan_no''))] []] [],
      assign ''pkt'' (lib ''simple_udpv6_packet'' [] [(''eth_dst'', str ROUTER_MAC), (''eth_src'', self ''customer_mac''),
        (''ipv6_dst'', var ''dst_ip''), (''ipv6_src'', self ''customer_ipv6''), (''ipv6_hlim'', num 64)]),
      assign ''inner_pkt'' (lib ''simple_udpv6_packet'' [] [(''eth_dst'', var ''idmac''), (''eth_src'', str ROUTER_MAC),
        (''ipv6_dst'', var ''dst_ip''), (''ipv6_src'', self ''customer_ipv6''), (''ipv6_hlim'', num 63)]),
      if_else (is_false (self ''ipv6'')) [
        assign ''vxlan_pkt'' (lib ''Mask'' [lib ''simple_vxlan_packet'' [] [(''eth_dst'', var ''dmac''), (''eth_src'', str
          ROUTER_MAC), (''ip_dst'', var ''tun_ip''), (''ip_src'', self ''lpb_ip''), (''ip_id'', num 0), (''dl_vlan_enable'', var
          ''vlan_enable''), (''vlan_vid'', var ''vlan_no''), (''ip_ttl'', num 64), (''ip_flags'', num 2), (''with_udp_chksum'',
          bool False), (''vxlan_vni'', var ''vni''), (''inner_frame'', var ''inner_pkt'')]] [])] [
        assign ''vxlan_pkt'' (lib ''Mask'' [lib ''simple_vxlanv6_packet'' [] [(''eth_dst'', var ''dmac''), (''eth_src'', str
          ROUTER_MAC), (''ipv6_dst'', var ''tun_ip''), (''ipv6_src'', self ''lpb_ip''), (''dl_vlan_enable'', var
          ''vlan_enable''), (''vlan_vid'', var ''vlan_no''), (''ipv6_hlim'', num 64), (''with_udp_chksum'', bool False),
          (''vxlan_vni'', var ''vni''), (''inner_frame'', var ''inner_pkt'')]] [])],
      assign ''vxlan_pkt'' (lib ''.set_do_not_care_scapy'' [var ''vxlan_pkt'', str ''UDP'', str ''sport''] []),
      run (lib ''send_packet'' [self ''oport_dev'', var ''pkt''] []),
      run (lib ''verify_packet_any_port'' [var ''vxlan_pkt'', var ''rcv_ports''] [])]"

definition TunnelNhopResolutionBase_sequenceTest1 :: "'d stmt" where
  "TunnelNhopResolutionBase_sequenceTest1 = block [
      try_finally [
        assign ''unhop'' (api_create ''next_hop'' [(''ip'', ip_address (self ''tun_ip1'')), (''router_interface_id'', var
          ''urif''), (''type'', num SAI_NEXT_HOP_TYPE_IP)]),
        assign ''unbor'' (struct ''sai_thrift_neighbor_entry_t'' [(''rif_id'', var ''urif''), (''ip_address'', ip_address (self
          ''tun_ip1''))]),
        run (api_create_entry ''neighbor_entry'' (var ''unbor'') [(''dst_mac_address'', self ''unbor_mac1''),
          (''no_host_route'', bool True)]),
        assign ''tunnel_route'' (struct ''sai_thrift_route_entry_t'' [(''vr_id'', self ''uvrf''), (''destination'', ip_prefix
          (add (self ''tun_ip1'') (self ''tun_ip_mask'')))]),
        run (api_create_entry ''route_entry'' (var ''tunnel_route'') [(''next_hop_id'', var ''unhop'')]),
        assign ''tunnel_nhop'' (api_create ''next_hop'' [(''type'', num SAI_NEXT_HOP_TYPE_TUNNEL_ENCAP), (''tunnel_id'', self
          ''tunnel''), (''ip'', ip_address (self ''tun_ip1'')), (''tunnel_mac'', self ''inner_dmac1''), (''tunnel_vni'', self
          ''vni'')]),
        assign ''vm_route'' (struct ''sai_thrift_route_entry_t'' [(''vr_id'', self ''ovrf''), (''destination'', ip_prefix (add
          (self ''vm_ip1'') (str ''/32'')))]),
        run (api_create_entry ''route_entry'' (var ''vm_route'') [(''next_hop_id'', var ''tunnel_nhop'')]),
        assign ''vm_v6_route'' (struct ''sai_thrift_route_entry_t'' [(''vr_id'', self ''ovrf''), (''destination'', ip_prefix
          (add (self ''vm_ipv61'') (str ''/128'')))]),
        run (api_create_entry ''route_entry'' (var ''vm_v6_route'') [(''next_hop_id'', var ''tunnel_nhop'')]),
        run (invoke [(''rcv_ports'', var ''uports''), (''pkt_data'', dict_of [(str ''vlan_no'', var ''vlan_no'')])]
          TunnelNhopResolutionBase_v4TrafficTest),
        run (invoke [(''rcv_ports'', var ''uports''), (''pkt_data'', dict_of [(str ''vlan_no'', var ''vlan_no'')])]
          TunnelNhopResolutionBase_v6TrafficTest)] [
        run (api_remove ''route_entry'' (var ''vm_v6_route'')),
        run (api_remove ''route_entry'' (var ''vm_route'')),
        run (api_remove ''next_hop'' (var ''tunnel_nhop'')),
        run (api_remove ''route_entry'' (var ''tunnel_route'')),
        run (api_remove ''neighbor_entry'' (var ''unbor'')),
        run (api_remove ''next_hop'' (var ''unhop''))]]"

definition TunnelNhopResolutionBase_sequenceTest2 :: "'d stmt" where
  "TunnelNhopResolutionBase_sequenceTest2 = block [
      try_finally [
        assign ''tunnel_nhop'' (api_create ''next_hop'' [(''type'', num SAI_NEXT_HOP_TYPE_TUNNEL_ENCAP), (''tunnel_id'', self
          ''tunnel''), (''ip'', ip_address (self ''tun_ip1'')), (''tunnel_mac'', self ''inner_dmac1''), (''tunnel_vni'', self
          ''vni'')]),
        assign ''vm_route'' (struct ''sai_thrift_route_entry_t'' [(''vr_id'', self ''ovrf''), (''destination'', ip_prefix (add
          (self ''vm_ip1'') (str ''/32'')))]),
        run (api_create_entry ''route_entry'' (var ''vm_route'') [(''next_hop_id'', var ''tunnel_nhop'')]),
        assign ''vm_v6_route'' (struct ''sai_thrift_route_entry_t'' [(''vr_id'', self ''ovrf''), (''destination'', ip_prefix
          (add (self ''vm_ipv61'') (str ''/128'')))]),
        run (api_create_entry ''route_entry'' (var ''vm_v6_route'') [(''next_hop_id'', var ''tunnel_nhop'')]),
        assign ''unhop'' (api_create ''next_hop'' [(''ip'', ip_address (self ''tun_ip1'')), (''router_interface_id'', var
          ''urif''), (''type'', num SAI_NEXT_HOP_TYPE_IP)]),
        assign ''unbor'' (struct ''sai_thrift_neighbor_entry_t'' [(''rif_id'', var ''urif''), (''ip_address'', ip_address (self
          ''tun_ip1''))]),
        run (api_create_entry ''neighbor_entry'' (var ''unbor'') [(''dst_mac_address'', self ''unbor_mac1''),
          (''no_host_route'', bool True)]),
        assign ''tunnel_route'' (struct ''sai_thrift_route_entry_t'' [(''vr_id'', self ''uvrf''), (''destination'', ip_prefix
          (add (self ''tun_ip1'') (self ''tun_ip_mask'')))]),
        run (api_create_entry ''route_entry'' (var ''tunnel_route'') [(''next_hop_id'', var ''unhop'')]),
        run (invoke [(''rcv_ports'', var ''uports''), (''pkt_data'', dict_of [(str ''vlan_no'', var ''vlan_no'')])]
          TunnelNhopResolutionBase_v4TrafficTest),
        run (invoke [(''rcv_ports'', var ''uports''), (''pkt_data'', dict_of [(str ''vlan_no'', var ''vlan_no'')])]
          TunnelNhopResolutionBase_v6TrafficTest)] [
        run (api_remove ''route_entry'' (var ''tunnel_route'')),
        run (api_remove ''neighbor_entry'' (var ''unbor'')),
        run (api_remove ''next_hop'' (var ''unhop'')),
        run (api_remove ''route_entry'' (var ''vm_v6_route'')),
        run (api_remove ''route_entry'' (var ''vm_route'')),
        run (api_remove ''next_hop'' (var ''tunnel_nhop''))]]"

definition TunnelNhopResolutionBase_sequenceTest3 :: "'d stmt" where
  "TunnelNhopResolutionBase_sequenceTest3 = block [
      try_finally [
        assign ''tunnel_nhop'' (api_create ''next_hop'' [(''type'', num SAI_NEXT_HOP_TYPE_TUNNEL_ENCAP), (''tunnel_id'', self
          ''tunnel''), (''ip'', ip_address (self ''tun_ip1'')), (''tunnel_mac'', self ''inner_dmac1''), (''tunnel_vni'', self
          ''vni'')]),
        assign ''vm_route'' (struct ''sai_thrift_route_entry_t'' [(''vr_id'', self ''ovrf''), (''destination'', ip_prefix (add
          (self ''vm_ip1'') (str ''/32'')))]),
        run (api_create_entry ''route_entry'' (var ''vm_route'') [(''next_hop_id'', var ''tunnel_nhop'')]),
        assign ''vm_v6_route'' (struct ''sai_thrift_route_entry_t'' [(''vr_id'', self ''ovrf''), (''destination'', ip_prefix
          (add (self ''vm_ipv61'') (str ''/128'')))]),
        run (api_create_entry ''route_entry'' (var ''vm_v6_route'') [(''next_hop_id'', var ''tunnel_nhop'')]),
        assign ''unhop'' (api_create ''next_hop'' [(''ip'', ip_address (self ''tun_ip1'')), (''router_interface_id'', var
          ''urif''), (''type'', num SAI_NEXT_HOP_TYPE_IP)]),
        assign ''tunnel_route'' (struct ''sai_thrift_route_entry_t'' [(''vr_id'', self ''uvrf''), (''destination'', ip_prefix
          (add (self ''tun_ip1'') (self ''tun_ip_mask'')))]),
        run (api_create_entry ''route_entry'' (var ''tunnel_route'') [(''next_hop_id'', var ''unhop'')]),
        assign ''unbor'' (struct ''sai_thrift_neighbor_entry_t'' [(''rif_id'', var ''urif''), (''ip_address'', ip_address (self
          ''tun_ip1''))]),
        run (api_create_entry ''neighbor_entry'' (var ''unbor'') [(''dst_mac_address'', self ''unbor_mac1''),
          (''no_host_route'', bool True)]),
        run (invoke [(''rcv_ports'', var ''uports''), (''pkt_data'', dict_of [(str ''vlan_no'', var ''vlan_no'')])]
          TunnelNhopResolutionBase_v4TrafficTest),
        run (invoke [(''rcv_ports'', var ''uports''), (''pkt_data'', dict_of [(str ''vlan_no'', var ''vlan_no'')])]
          TunnelNhopResolutionBase_v6TrafficTest)] [
        run (api_remove ''neighbor_entry'' (var ''unbor'')),
        run (api_remove ''route_entry'' (var ''tunnel_route'')),
        run (api_remove ''next_hop'' (var ''unhop'')),
        run (api_remove ''route_entry'' (var ''vm_v6_route'')),
        run (api_remove ''route_entry'' (var ''vm_route'')),
        run (api_remove ''next_hop'' (var ''tunnel_nhop''))]]"

definition TunnelNhopResolutionBase_sequenceTest4 :: "'d stmt" where
  "TunnelNhopResolutionBase_sequenceTest4 = block [
      try_finally [
        assign ''tunnel_nhop'' (api_create ''next_hop'' [(''type'', num SAI_NEXT_HOP_TYPE_TUNNEL_ENCAP), (''tunnel_id'', self
          ''tunnel''), (''ip'', ip_address (self ''tun_ip1'')), (''tunnel_mac'', self ''inner_dmac1''), (''tunnel_vni'', self
          ''vni'')]),
        assign ''vm_route'' (struct ''sai_thrift_route_entry_t'' [(''vr_id'', self ''ovrf''), (''destination'', ip_prefix (add
          (self ''vm_ip1'') (str ''/32'')))]),
        run (api_create_entry ''route_entry'' (var ''vm_route'') [(''next_hop_id'', var ''tunnel_nhop'')]),
        assign ''vm_v6_route'' (struct ''sai_thrift_route_entry_t'' [(''vr_id'', self ''ovrf''), (''destination'', ip_prefix
          (add (self ''vm_ipv61'') (str ''/128'')))]),
        run (api_create_entry ''route_entry'' (var ''vm_v6_route'') [(''next_hop_id'', var ''tunnel_nhop'')]),
        assign ''unbor'' (struct ''sai_thrift_neighbor_entry_t'' [(''rif_id'', var ''urif''), (''ip_address'', ip_address (self
          ''tun_ip1''))]),
        run (api_create_entry ''neighbor_entry'' (var ''unbor'') [(''dst_mac_address'', self ''unbor_mac1''),
          (''no_host_route'', bool True)]),
        assign ''unhop'' (api_create ''next_hop'' [(''ip'', ip_address (self ''tun_ip1'')), (''router_interface_id'', var
          ''urif''), (''type'', num SAI_NEXT_HOP_TYPE_IP)]),
        assign ''tunnel_route'' (struct ''sai_thrift_route_entry_t'' [(''vr_id'', self ''uvrf''), (''destination'', ip_prefix
          (add (self ''tun_ip1'') (self ''tun_ip_mask'')))]),
        run (api_create_entry ''route_entry'' (var ''tunnel_route'') [(''next_hop_id'', var ''unhop'')]),
        run (invoke [(''rcv_ports'', var ''uports''), (''pkt_data'', dict_of [(str ''vlan_no'', var ''vlan_no'')])]
          TunnelNhopResolutionBase_v4TrafficTest),
        run (invoke [(''rcv_ports'', var ''uports''), (''pkt_data'', dict_of [(str ''vlan_no'', var ''vlan_no'')])]
          TunnelNhopResolutionBase_v6TrafficTest)] [
        run (api_remove ''route_entry'' (var ''tunnel_route'')),
        run (api_remove ''next_hop'' (var ''unhop'')),
        run (api_remove ''neighbor_entry'' (var ''unbor'')),
        run (api_remove ''route_entry'' (var ''vm_v6_route'')),
        run (api_remove ''route_entry'' (var ''vm_route'')),
        run (api_remove ''next_hop'' (var ''tunnel_nhop''))]]"

definition TunnelNhopResolutionBase_v4TrafficMissTest :: "'d stmt" where
  "TunnelNhopResolutionBase_v4TrafficMissTest = block [
      assign ''pkt'' (lib ''simple_udp_packet'' [] [(''eth_dst'', str ROUTER_MAC), (''eth_src'', self ''customer_mac''),
        (''ip_dst'', self ''vm_ip1''), (''ip_src'', self ''customer_ip''), (''ip_id'', num 108), (''ip_ttl'', num 64)]),
      run (lib ''send_packet'' [self ''oport_dev'', var ''pkt''] []),
      run (lib ''verify_no_other_packets'' [] [])]"

definition TunnelNhopResolutionBase_v6TrafficMissTest :: "'d stmt" where
  "TunnelNhopResolutionBase_v6TrafficMissTest = block [
      assign ''pkt'' (lib ''simple_udpv6_packet'' [] [(''eth_dst'', str ROUTER_MAC), (''eth_src'', self ''customer_mac''),
        (''ipv6_dst'', self ''vm_ipv61''), (''ipv6_src'', self ''customer_ipv6''), (''ipv6_hlim'', num 64)]),
      run (lib ''send_packet'' [self ''oport_dev'', var ''pkt''] []),
      run (lib ''verify_no_other_packets'' [] [])]"

definition TunnelNhopResolutionBase_underlayTunnelRouteUpdateTest :: "'d stmt" where
  "TunnelNhopResolutionBase_underlayTunnelRouteUpdateTest = block [
      assign ''urif1'' (item (item (var ''urif_data'') (num 0)) (num 0)),
      assign ''uports1'' (item (item (var ''urif_data'') (num 0)) (num 1)),
      assign ''vlan_no1'' (item (item (var ''urif_data'') (num 0)) (num 2)),
      assign ''urif2'' (item (item (var ''urif_data'') (num 1)) (num 0)),
      assign ''uports2'' (item (item (var ''urif_data'') (num 1)) (num 1)),
      assign ''vlan_no2'' (item (item (var ''urif_data'') (num 1)) (num 2)),
      try_finally [
        assign ''tunnel_nhop'' (api_create ''next_hop'' [(''type'', num SAI_NEXT_HOP_TYPE_TUNNEL_ENCAP), (''tunnel_id'', self
          ''tunnel''), (''ip'', ip_address (self ''tun_ip1'')), (''tunnel_mac'', self ''inner_dmac1''), (''tunnel_vni'', self
          ''vni'')]),
        assign ''vm_route'' (struct ''sai_thrift_route_entry_t'' [(''vr_id'', self ''ovrf''), (''destination'', ip_prefix (add
          (self ''vm_ip1'') (str ''/32'')))]),
        run (api_create_entry ''route_entry'' (var ''vm_route'') [(''next_hop_id'', var ''tunnel_nhop'')]),
        assign ''vm_v6_route'' (struct ''sai_thrift_route_entry_t'' [(''vr_id'', self ''ovrf''), (''destination'', ip_prefix
          (add (self ''vm_ipv61'') (str ''/128'')))]),
        run (api_create_entry ''route_entry'' (var ''vm_v6_route'') [(''next_hop_id'', var ''tunnel_nhop'')]),
        assign ''unbor1'' (struct ''sai_thrift_neighbor_entry_t'' [(''rif_id'', var ''urif1''), (''ip_address'', ip_address
          (self ''tun_ip1''))]),
        run (api_create_entry ''neighbor_entry'' (var ''unbor1'') [(''dst_mac_address'', self ''unbor_mac1''),
          (''no_host_route'', bool True)]),
        assign ''unhop1'' (api_create ''next_hop'' [(''ip'', ip_address (self ''tun_ip1'')), (''router_interface_id'', var
          ''urif1''), (''type'', num SAI_NEXT_HOP_TYPE_IP)]),
        assign ''tunnel_route1'' (struct ''sai_thrift_route_entry_t'' [(''vr_id'', self ''uvrf''), (''destination'', ip_prefix
          (add (self ''tun_ip1'') (self ''tun_ip_mask'')))]),
        run (api_create_entry ''route_entry'' (var ''tunnel_route1'') [(''next_hop_id'', var ''unhop1'')]),
        run (invoke [(''rcv_ports'', var ''uports1''), (''pkt_data'', dict_of [(str ''vlan_no'', var ''vlan_no1'')])]
          TunnelNhopResolutionBase_v4TrafficTest),
        run (invoke [(''rcv_ports'', var ''uports1''), (''pkt_data'', dict_of [(str ''vlan_no'', var ''vlan_no1'')])]
          TunnelNhopResolutionBase_v6TrafficTest),
        run (api_remove ''route_entry'' (var ''tunnel_route1'')),
        run (api_remove ''next_hop'' (var ''unhop1'')),
        run (api_remove ''neighbor_entry'' (var ''unbor1'')),
        run (invoke [] TunnelNhopResolutionBase_v4TrafficMissTest),
        run (invoke [] TunnelNhopResolutionBase_v6TrafficMissTest),
        assign ''unbor2'' (struct ''sai_thrift_neighbor_entry_t'' [(''rif_id'', var ''urif2''), (''ip_address'', ip_address
          (self ''tun_ip1''))]),
        run (api_create_entry ''neighbor_entry'' (var ''unbor2'') [(''dst_mac_address'', self ''unbor_mac2''),
          (''no_host_route'', bool True)]),
        assign ''unhop2'' (api_create ''next_hop'' [(''ip'', ip_address (self ''tun_ip1'')), (''router_interface_id'', var
          ''urif2''), (''type'', num SAI_NEXT_HOP_TYPE_IP)]),
        assign ''tunnel_route2'' (struct ''sai_thrift_route_entry_t'' [(''vr_id'', self ''uvrf''), (''destination'', ip_prefix
          (add (self ''tun_ip1'') (self ''tun_ip_mask'')))]),
        run (api_create_entry ''route_entry'' (var ''tunnel_route2'') [(''next_hop_id'', var ''unhop2'')]),
        run (invoke [(''rcv_ports'', var ''uports2''), (''pkt_data'', dict_of [(str ''dmac'', self ''unbor_mac2''), (str
          ''vlan_no'', var ''vlan_no2'')])] TunnelNhopResolutionBase_v4TrafficTest),
        run (invoke [(''rcv_ports'', var ''uports2''), (''pkt_data'', dict_of [(str ''dmac'', self ''unbor_mac2''), (str
          ''vlan_no'', var ''vlan_no2'')])] TunnelNhopResolutionBase_v6TrafficTest)] [
        run (api_remove ''route_entry'' (var ''tunnel_route2'')),
        run (api_remove ''next_hop'' (var ''unhop2'')),
        run (api_remove ''neighbor_entry'' (var ''unbor2'')),
        run (api_remove ''route_entry'' (var ''vm_v6_route'')),
        run (api_remove ''route_entry'' (var ''vm_route'')),
        run (api_remove ''next_hop'' (var ''tunnel_nhop''))]]"

definition TunnelNhopResolutionBase_underlayTunnelRouteUpdateDropTest :: "'d stmt" where
  "TunnelNhopResolutionBase_underlayTunnelRouteUpdateDropTest = block [
      try_finally [
        assign ''tunnel_nhop'' (api_create ''next_hop'' [(''type'', num SAI_NEXT_HOP_TYPE_TUNNEL_ENCAP), (''tunnel_id'', self
          ''tunnel''), (''ip'', ip_address (self ''tun_ip1'')), (''tunnel_mac'', self ''inner_dmac1''), (''tunnel_vni'', self
          ''vni'')]),
        assign ''vm_route'' (struct ''sai_thrift_route_entry_t'' [(''vr_id'', self ''ovrf''), (''destination'', ip_prefix (add
          (self ''vm_ip1'') (str ''/32'')))]),
        run (api_create_entry ''route_entry'' (var ''vm_route'') [(''next_hop_id'', var ''tunnel_nhop'')]),
        assign ''vm_v6_route'' (struct ''sai_thrift_route_entry_t'' [(''vr_id'', self ''ovrf''), (''destination'', ip_prefix
          (add (self ''vm_ipv61'') (str ''/128'')))]),
        run (api_create_entry ''route_entry'' (var ''vm_v6_route'') [(''next_hop_id'', var ''tunnel_nhop'')]),
        assign ''tunnel_route1'' (struct ''sai_thrift_route_entry_t'' [(''vr_id'', self ''uvrf''), (''destination'', ip_prefix
          (add (self ''tun_ip1'') (self ''tun_ip_mask'')))]),
        run (api_create_entry ''route_entry'' (var ''tunnel_route1'') [(''next_hop_id'', as_int (num SAI_NULL_OBJECT_ID))]),
        run (invoke [] TunnelNhopResolutionBase_v4TrafficMissTest),
        run (invoke [] TunnelNhopResolutionBase_v6TrafficMissTest),
        run (api_remove ''route_entry'' (var ''tunnel_route1'')),
        run (invoke [] TunnelNhopResolutionBase_v4TrafficMissTest),
        run (invoke [] TunnelNhopResolutionBase_v6TrafficMissTest),
        assign ''unbor'' (struct ''sai_thrift_neighbor_entry_t'' [(''rif_id'', var ''urif''), (''ip_address'', ip_address (self
          ''tun_ip1''))]),
        run (api_create_entry ''neighbor_entry'' (var ''unbor'') [(''dst_mac_address'', self ''unbor_mac1''),
          (''no_host_route'', bool True)]),
        assign ''unhop'' (api_create ''next_hop'' [(''ip'', ip_address (self ''tun_ip1'')), (''router_interface_id'', var
          ''urif''), (''type'', num SAI_NEXT_HOP_TYPE_IP)]),
        assign ''tunnel_route2'' (struct ''sai_thrift_route_entry_t'' [(''vr_id'', self ''uvrf''), (''destination'', ip_prefix
          (add (self ''tun_ip1'') (self ''tun_ip_mask'')))]),
        run (api_create_entry ''route_entry'' (var ''tunnel_route2'') [(''next_hop_id'', var ''unhop'')]),
        run (invoke [(''rcv_ports'', var ''uports''), (''pkt_data'', dict_of [(str ''vlan_no'', var ''vlan_no'')])]
          TunnelNhopResolutionBase_v4TrafficTest),
        run (invoke [(''rcv_ports'', var ''uports''), (''pkt_data'', dict_of [(str ''vlan_no'', var ''vlan_no'')])]
          TunnelNhopResolutionBase_v6TrafficTest)] [
        run (api_remove ''route_entry'' (var ''tunnel_route2'')),
        run (api_remove ''next_hop'' (var ''unhop'')),
        run (api_remove ''neighbor_entry'' (var ''unbor'')),
        run (api_remove ''route_entry'' (var ''vm_v6_route'')),
        run (api_remove ''route_entry'' (var ''vm_route'')),
        run (api_remove ''next_hop'' (var ''tunnel_nhop''))]]"

definition TunnelNhopResolutionBase_underlayRouteFallbackTest :: "'d stmt" where
  "TunnelNhopResolutionBase_underlayRouteFallbackTest = block [
      assign ''urif1'' (item (item (var ''urif_data'') (num 0)) (num 0)),
      assign ''uports1'' (item (item (var ''urif_data'') (num 0)) (num 1)),
      assign ''vlan_no1'' (item (item (var ''urif_data'') (num 0)) (num 2)),
      assign ''urif2'' (item (item (var ''urif_data'') (num 1)) (num 0)),
      assign ''uports2'' (item (item (var ''urif_data'') (num 1)) (num 1)),
      assign ''vlan_no2'' (item (item (var ''urif_data'') (num 1)) (num 2)),
      try_finally [
        assign ''tunnel_nhop'' (api_create ''next_hop'' [(''type'', num SAI_NEXT_HOP_TYPE_TUNNEL_ENCAP), (''tunnel_id'', self
          ''tunnel''), (''ip'', ip_address (self ''tun_ip1'')), (''tunnel_mac'', self ''inner_dmac1''), (''tunnel_vni'', self
          ''vni'')]),
        assign ''vm_route'' (struct ''sai_thrift_route_entry_t'' [(''vr_id'', self ''ovrf''), (''destination'', ip_prefix (add
          (self ''vm_ip1'') (str ''/32'')))]),
        run (api_create_entry ''route_entry'' (var ''vm_route'') [(''next_hop_id'', var ''tunnel_nhop'')]),
        assign ''vm_v6_route'' (struct ''sai_thrift_route_entry_t'' [(''vr_id'', self ''ovrf''), (''destination'', ip_prefix
          (add (self ''vm_ipv61'') (str ''/128'')))]),
        run (api_create_entry ''route_entry'' (var ''vm_v6_route'') [(''next_hop_id'', var ''tunnel_nhop'')]),
        assign ''unbor1'' (struct ''sai_thrift_neighbor_entry_t'' [(''rif_id'', var ''urif2''), (''ip_address'', ip_address
          (self ''tun_ip1''))]),
        run (api_create_entry ''neighbor_entry'' (var ''unbor1'') [(''dst_mac_address'', self ''unbor_mac2''),
          (''no_host_route'', bool True)]),
        assign ''unhop1'' (api_create ''next_hop'' [(''ip'', ip_address (self ''tun_ip1'')), (''router_interface_id'', var
          ''urif2''), (''type'', num SAI_NEXT_HOP_TYPE_IP)]),
        assign ''tunnel_lpm_route'' (struct ''sai_thrift_route_entry_t'' [(''vr_id'', self ''uvrf''), (''destination'',
          ip_prefix (add (self ''tun_ip1'') (self ''tun_ip_mask2'')))]),
        run (api_create_entry ''route_entry'' (var ''tunnel_lpm_route'') [(''next_hop_id'', var ''unhop1'')]),
        assign ''unbor2'' (struct ''sai_thrift_neighbor_entry_t'' [(''rif_id'', var ''urif1''), (''ip_address'', ip_address
          (self ''tun_ip1''))]),
        run (api_create_entry ''neighbor_entry'' (var ''unbor2'') [(''dst_mac_address'', self ''unbor_mac1''),
          (''no_host_route'', bool True)]),
        assign ''unhop2'' (api_create ''next_hop'' [(''ip'', ip_address (self ''tun_ip1'')), (''router_interface_id'', var
          ''urif1''), (''type'', num SAI_NEXT_HOP_TYPE_IP)]),
        assign ''tunnel_host_route'' (struct ''sai_thrift_route_entry_t'' [(''vr_id'', self ''uvrf''), (''destination'',
          ip_prefix (add (self ''tun_ip1'') (self ''tun_ip_mask'')))]),
        run (api_create_entry ''route_entry'' (var ''tunnel_host_route'') [(''next_hop_id'', var ''unhop2'')]),
        run (invoke [(''rcv_ports'', var ''uports1''), (''pkt_data'', dict_of [(str ''vlan_no'', var ''vlan_no1'')])]
          TunnelNhopResolutionBase_v4TrafficTest),
        run (invoke [(''rcv_ports'', var ''uports1''), (''pkt_data'', dict_of [(str ''vlan_no'', var ''vlan_no1'')])]
          TunnelNhopResolutionBase_v6TrafficTest),
        run (api_remove ''route_entry'' (var ''tunnel_host_route'')),
        run (api_remove ''next_hop'' (var ''unhop2'')),
        run (api_remove ''neighbor_entry'' (var ''unbor2'')),
        run (invoke [(''rcv_ports'', var ''uports2''), (''pkt_data'', dict_of [(str ''dmac'', self ''unbor_mac2''), (str
          ''vlan_no'', var ''vlan_no2'')])] TunnelNhopResolutionBase_v4TrafficTest),
        run (invoke [(''rcv_ports'', var ''uports2''), (''pkt_data'', dict_of [(str ''dmac'', self ''unbor_mac2''), (str
          ''vlan_no'', var ''vlan_no2'')])] TunnelNhopResolutionBase_v6TrafficTest)] [
        run (api_remove ''route_entry'' (var ''tunnel_lpm_route'')),
        run (api_remove ''next_hop'' (var ''unhop1'')),
        run (api_remove ''neighbor_entry'' (var ''unbor1'')),
        run (api_remove ''route_entry'' (var ''vm_v6_route'')),
        run (api_remove ''route_entry'' (var ''vm_route'')),
        run (api_remove ''next_hop'' (var ''tunnel_nhop''))]]"

definition TunnelNhopResolutionBase_overlayTunnelNexthopUpdateTest :: "'d stmt" where
  "TunnelNhopResolutionBase_overlayTunnelNexthopUpdateTest = block [
      try_finally [
        assign ''tunnel_nhop1'' (api_create ''next_hop'' [(''type'', num SAI_NEXT_HOP_TYPE_TUNNEL_ENCAP), (''tunnel_id'', self
          ''tunnel''), (''ip'', ip_address (self ''tun_ip1'')), (''tunnel_mac'', self ''inner_dmac1''), (''tunnel_vni'', self
          ''vni'')]),
        assign ''vm_route'' (struct ''sai_thrift_route_entry_t'' [(''vr_id'', self ''ovrf''), (''destination'', ip_prefix (add
          (self ''vm_ip1'') (str ''/32'')))]),
        run (api_create_entry ''route_entry'' (var ''vm_route'') [(''next_hop_id'', var ''tunnel_nhop1'')]),
        assign ''vm_v6_route'' (struct ''sai_thrift_route_entry_t'' [(''vr_id'', self ''ovrf''), (''destination'', ip_prefix
          (add (self ''vm_ipv61'') (str ''/128'')))]),
        run (api_create_entry ''route_entry'' (var ''vm_v6_route'') [(''next_hop_id'', var ''tunnel_nhop1'')]),
        assign ''unbor'' (struct ''sai_thrift_neighbor_entry_t'' [(''rif_id'', var ''urif''), (''ip_address'', ip_address (self
          ''tun_ip1''))]),
        run (api_create_entry ''neighbor_entry'' (var ''unbor'') [(''dst_mac_address'', self ''unbor_mac1''),
          (''no_host_route'', bool True)]),
        assign ''unhop'' (api_create ''next_hop'' [(''ip'', ip_address (self ''tun_ip1'')), (''router_interface_id'', var
          ''urif''), (''type'', num SAI_NEXT_HOP_TYPE_IP)]),
        assign ''tunnel_route'' (struct ''sai_thrift_route_entry_t'' [(''vr_id'', self ''uvrf''), (''destination'', ip_prefix
          (add (self ''tun_ip1'') (self ''tun_ip_mask2'')))]),
        run (api_create_entry ''route_entry'' (var ''tunnel_route'') [(''next_hop_id'', var ''unhop'')]),
        run (invoke [(''rcv_ports'', var ''uports''), (''pkt_data'', dict_of [(str ''vlan_no'', var ''vlan_no'')])]
          TunnelNhopResolutionBase_v4TrafficTest),
        run (invoke [(''rcv_ports'', var ''uports''), (''pkt_data'', dict_of [(str ''vlan_no'', var ''vlan_no'')])]
          TunnelNhopResolutionBase_v6TrafficTest),
        assign ''tunnel_nhop2'' (api_create ''next_hop'' [(''type'', num SAI_NEXT_HOP_TYPE_TUNNEL_ENCAP), (''tunnel_id'', self
          ''tunnel''), (''ip'', ip_address (self ''tun_ip2'')), (''tunnel_mac'', self ''inner_dmac2''), (''tunnel_vni'', self
          ''vni'')]),
        run (api_set ''route_entry'' (var ''vm_route'') [(''next_hop_id'', var ''tunnel_nhop2'')]),
        run (api_set ''route_entry'' (var ''vm_v6_route'') [(''next_hop_id'', var ''tunnel_nhop2'')]),
        run (invoke [(''rcv_ports'', var ''uports''), (''pkt_data'', dict_of [(str ''idmac'', self ''inner_dmac2''), (str
          ''tun_ip'', self ''tun_ip2''), (str ''vlan_no'', var ''vlan_no'')])] TunnelNhopResolutionBase_v4TrafficTest),
        run (invoke [(''rcv_ports'', var ''uports''), (''pkt_data'', dict_of [(str ''idmac'', self ''inner_dmac2''), (str
          ''tun_ip'', self ''tun_ip2''), (str ''vlan_no'', var ''vlan_no'')])] TunnelNhopResolutionBase_v6TrafficTest)] [
        run (api_remove ''next_hop'' (var ''tunnel_nhop2'')),
        run (api_remove ''route_entry'' (var ''tunnel_route'')),
        run (api_remove ''next_hop'' (var ''unhop'')),
        run (api_remove ''neighbor_entry'' (var ''unbor'')),
        run (api_remove ''route_entry'' (var ''vm_v6_route'')),
        run (api_remove ''route_entry'' (var ''vm_route'')),
        run (api_remove ''next_hop'' (var ''tunnel_nhop1''))]]"

definition TunnelNhopResolutionBase_tunnelL3IntfTest :: "'d stmt" where
  "TunnelNhopResolutionBase_tunnelL3IntfTest = block [
      assign ''uport1'' (self ''port25''),
      assign ''uport1_dev'' (self ''dev_port25''),
      assign ''uport2'' (self ''port26''),
      assign ''uport2_dev'' (self ''dev_port26''),
      try_finally [
        assign ''urif1'' (api_create ''router_interface'' [(''type'', num SAI_ROUTER_INTERFACE_TYPE_PORT),
          (''virtual_router_id'', self ''uvrf''), (''port_id'', var ''uport1'')]),
        assign ''urif2'' (api_create ''router_interface'' [(''type'', num SAI_ROUTER_INTERFACE_TYPE_PORT),
          (''virtual_router_id'', self ''uvrf''), (''port_id'', var ''uport2'')]),
        run (invoke [(''urif'', var ''urif1''), (''uports'', list_of [var ''uport1_dev'']), (''vlan_no'', num 0)]
          TunnelNhopResolutionBase_sequenceTest1),
        run (invoke [(''urif'', var ''urif1''), (''uports'', list_of [var ''uport1_dev'']), (''vlan_no'', num 0)]
          TunnelNhopResolutionBase_sequenceTest2),
        run (invoke [(''urif'', var ''urif1''), (''uports'', list_of [var ''uport1_dev'']), (''vlan_no'', num 0)]
          TunnelNhopResolutionBase_sequenceTest3),
        run (invoke [(''urif'', var ''urif1''), (''uports'', list_of [var ''uport1_dev'']), (''vlan_no'', num 0)]
          TunnelNhopResolutionBase_sequenceTest4),
        run (invoke [(''urif_data'', list_of [list_of [var ''urif1'', list_of [var ''uport1_dev''], num 0], list_of [var
          ''urif2'', list_of [var ''uport2_dev''], num 0]])] TunnelNhopResolutionBase_underlayTunnelRouteUpdateTest),
        run (invoke [(''urif'', var ''urif1''), (''uports'', list_of [var ''uport1_dev'']), (''vlan_no'', num 0)]
          TunnelNhopResolutionBase_underlayTunnelRouteUpdateDropTest),
        run (invoke [(''urif_data'', list_of [list_of [var ''urif1'', list_of [var ''uport1_dev''], num 0], list_of [var
          ''urif2'', list_of [var ''uport2_dev''], num 0]])] TunnelNhopResolutionBase_underlayRouteFallbackTest),
        run (invoke [(''urif'', var ''urif1''), (''uports'', list_of [var ''uport1_dev'']), (''vlan_no'', num 0)]
          TunnelNhopResolutionBase_overlayTunnelNexthopUpdateTest)] [
        run (api_remove ''router_interface'' (var ''urif2'')),
        run (api_remove ''router_interface'' (var ''urif1''))]]"

definition TunnelNhopResolutionBase_tunnelL3LagIntfTest :: "'d stmt" where
  "TunnelNhopResolutionBase_tunnelL3LagIntfTest = block [
      assign ''urif1'' (self ''lag3_rif''),
      assign ''urif1_ports'' (list_of [self ''dev_port14'', self ''dev_port15'', self ''dev_port16'']),
      assign ''urif2'' (self ''lag4_rif''),
      assign ''urif2_ports'' (list_of [self ''dev_port17'', self ''dev_port18'', self ''dev_port19'']),
      run (invoke [(''urif'', var ''urif1''), (''uports'', var ''urif1_ports''), (''vlan_no'', num 0)]
        TunnelNhopResolutionBase_sequenceTest1),
      run (invoke [(''urif'', var ''urif1''), (''uports'', var ''urif1_ports''), (''vlan_no'', num 0)]
        TunnelNhopResolutionBase_sequenceTest2),
      run (invoke [(''urif'', var ''urif1''), (''uports'', var ''urif1_ports''), (''vlan_no'', num 0)]
        TunnelNhopResolutionBase_sequenceTest3),
      run (invoke [(''urif'', var ''urif1''), (''uports'', var ''urif1_ports''), (''vlan_no'', num 0)]
        TunnelNhopResolutionBase_sequenceTest4),
      run (invoke [(''urif_data'', list_of [list_of [var ''urif1'', var ''urif1_ports'', num 0], list_of [var ''urif2'', var
        ''urif2_ports'', num 0]])] TunnelNhopResolutionBase_underlayTunnelRouteUpdateTest),
      run (invoke [(''urif'', var ''urif1''), (''uports'', var ''urif1_ports''), (''vlan_no'', num 0)]
        TunnelNhopResolutionBase_underlayTunnelRouteUpdateDropTest),
      run (invoke [(''urif_data'', list_of [list_of [var ''urif1'', var ''urif1_ports'', num 0], list_of [var ''urif2'', var
        ''urif2_ports'', num 0]])] TunnelNhopResolutionBase_underlayRouteFallbackTest),
      run (invoke [(''urif'', var ''urif1''), (''uports'', var ''urif1_ports''), (''vlan_no'', num 0)]
        TunnelNhopResolutionBase_overlayTunnelNexthopUpdateTest)]"

definition TunnelNhopResolutionBase_tunnelL3SubPortIntfTest :: "'d stmt" where
  "TunnelNhopResolutionBase_tunnelL3SubPortIntfTest = block [
      assign ''uport'' (self ''port25''),
      assign ''uport_dev'' (self ''dev_port25''),
      assign ''vlan_no1'' (num 100),
      assign ''vlan_no2'' (num 200),
      try_finally [
        assign ''urif1'' (api_create ''router_interface'' [(''type'', num SAI_ROUTER_INTERFACE_TYPE_SUB_PORT),
          (''virtual_router_id'', self ''uvrf''), (''port_id'', var ''uport''), (''outer_vlan_id'', var ''vlan_no1'')]),
        assign ''urif2'' (api_create ''router_interface'' [(''type'', num SAI_ROUTER_INTERFACE_TYPE_SUB_PORT),
          (''virtual_router_id'', self ''uvrf''), (''port_id'', var ''uport''), (''outer_vlan_id'', var ''vlan_no2'')]),
        run (invoke [(''urif'', var ''urif1''), (''uports'', list_of [var ''uport_dev'']), (''vlan_no'', var ''vlan_no1'')]
          TunnelNhopResolutionBase_sequenceTest1),
        run (invoke [(''urif'', var ''urif1''), (''uports'', list_of [var ''uport_dev'']), (''vlan_no'', var ''vlan_no1'')]
          TunnelNhopResolutionBase_sequenceTest2),
        run (invoke [(''urif'', var ''urif1''), (''uports'', list_of [var ''uport_dev'']), (''vlan_no'', var ''vlan_no1'')]
          TunnelNhopResolutionBase_sequenceTest3),
        run (invoke [(''urif'', var ''urif1''), (''uports'', list_of [var ''uport_dev'']), (''vlan_no'', var ''vlan_no1'')]
          TunnelNhopResolutionBase_sequenceTest4),
        run (invoke [(''urif_data'', list_of [list_of [var ''urif1'', list_of [var ''uport_dev''], var ''vlan_no1''], list_of
          [var ''urif2'', list_of [var ''uport_dev''], var ''vlan_no2'']])]
          TunnelNhopResolutionBase_underlayTunnelRouteUpdateTest),
        run (invoke [(''urif'', var ''urif1''), (''uports'', list_of [var ''uport_dev'']), (''vlan_no'', var ''vlan_no1'')]
          TunnelNhopResolutionBase_underlayTunnelRouteUpdateDropTest),
        run (invoke [(''urif_data'', list_of [list_of [var ''urif1'', list_of [var ''uport_dev''], var ''vlan_no1''], list_of
          [var ''urif2'', list_of [var ''uport_dev''], var ''vlan_no2'']])] TunnelNhopResolutionBase_underlayRouteFallbackTest),
        run (invoke [(''urif'', var ''urif1''), (''uports'', list_of [var ''uport_dev'']), (''vlan_no'', var ''vlan_no1'')]
          TunnelNhopResolutionBase_overlayTunnelNexthopUpdateTest)] [
        run (api_remove ''router_interface'' (var ''urif2'')),
        run (api_remove ''router_interface'' (var ''urif1''))]]"

definition TunnelNhopResolutionBase_sviSequenceTest1 :: "'d stmt" where
  "TunnelNhopResolutionBase_sviSequenceTest1 = block [
      try_finally [
        assign ''tunnel_nhop'' (api_create ''next_hop'' [(''type'', num SAI_NEXT_HOP_TYPE_TUNNEL_ENCAP), (''tunnel_id'', self
          ''tunnel''), (''ip'', ip_address (self ''tun_ip1'')), (''tunnel_mac'', self ''inner_dmac1''), (''tunnel_vni'', self
          ''vni'')]),
        assign ''vm_route'' (struct ''sai_thrift_route_entry_t'' [(''vr_id'', self ''ovrf''), (''destination'', ip_prefix (add
          (self ''vm_ip1'') (str ''/32'')))]),
        run (api_create_entry ''route_entry'' (var ''vm_route'') [(''next_hop_id'', var ''tunnel_nhop'')]),
        assign ''vm_v6_route'' (struct ''sai_thrift_route_entry_t'' [(''vr_id'', self ''ovrf''), (''destination'', ip_prefix
          (add (self ''vm_ipv61'') (str ''/128'')))]),
        run (api_create_entry ''route_entry'' (var ''vm_v6_route'') [(''next_hop_id'', var ''tunnel_nhop'')]),
        assign ''unhop'' (api_create ''next_hop'' [(''ip'', ip_address (self ''tun_ip1'')), (''router_interface_id'', var
          ''urif''), (''type'', num SAI_NEXT_HOP_TYPE_IP)]),
        assign ''tunnel_route'' (struct ''sai_thrift_route_entry_t'' [(''vr_id'', self ''uvrf''), (''destination'', ip_prefix
          (add (self ''tun_ip1'') (self ''tun_ip_mask'')))]),
        run (api_create_entry ''route_entry'' (var ''tunnel_route'') [(''next_hop_id'', var ''unhop'')]),
        assign ''unbor'' (struct ''sai_thrift_neighbor_entry_t'' [(''rif_id'', var ''urif''), (''ip_address'', ip_address (self
          ''tun_ip1''))]),
        run (api_create_entry ''neighbor_entry'' (var ''unbor'') [(''dst_mac_address'', self ''unbor_mac1''),
          (''no_host_route'', bool True)]),
        assign ''mac_entry'' (struct ''sai_thrift_fdb_entry_t'' [(''switch_id'', self ''switch_id''), (''mac_address'', self
          ''unbor_mac1''), (''bv_id'', var ''vlan_id'')]),
        run (api_create_entry ''fdb_entry'' (var ''mac_entry'') [(''type'', num SAI_FDB_ENTRY_TYPE_STATIC), (''bridge_port_id'',
          var ''port_bp'')]),
        run (invoke [(''rcv_ports'', list_of [var ''uport'']), (''pkt_data'', none)] TunnelNhopResolutionBase_v4TrafficTest),
        run (invoke [(''rcv_ports'', list_of [var ''uport'']), (''pkt_data'', none)] TunnelNhopResolutionBase_v6TrafficTest)] [
        run (api_remove ''fdb_entry'' (var ''mac_entry'')),
        run (api_remove ''neighbor_entry'' (var ''unbor'')),
        run (api_remove ''route_entry'' (var ''tunnel_route'')),
        run (api_remove ''next_hop'' (var ''unhop'')),
        run (api_remove ''route_entry'' (var ''vm_v6_route'')),
        run (api_remove ''route_entry'' (var ''vm_route'')),
        run (api_remove ''next_hop'' (var ''tunnel_nhop''))]]"

definition TunnelNhopResolutionBase_sviSequenceTest2 :: "'d stmt" where
  "TunnelNhopResolutionBase_sviSequenceTest2 = block [
      try_finally [
        assign ''tunnel_nhop'' (api_create ''next_hop'' [(''type'', num SAI_NEXT_HOP_TYPE_TUNNEL_ENCAP), (''tunnel_id'', self
          ''tunnel''), (''ip'', ip_address (self ''tun_ip1'')), (''tunnel_mac'', self ''inner_dmac1''), (''tunnel_vni'', self
          ''vni'')]),
        assign ''vm_route'' (struct ''sai_thrift_route_entry_t'' [(''vr_id'', self ''ovrf''), (''destination'', ip_prefix (add
          (self ''vm_ip1'') (str ''/32'')))]),
        run (api_create_entry ''route_entry'' (var ''vm_route'') [(''next_hop_id'', var ''tunnel_nhop'')]),
        assign ''vm_v6_route'' (struct ''sai_thrift_route_entry_t'' [(''vr_id'', self ''ovrf''), (''destination'', ip_prefix
          (add (self ''vm_ipv61'') (str ''/128'')))]),
        run (api_create_entry ''route_entry'' (var ''vm_v6_route'') [(''next_hop_id'', var ''tunnel_nhop'')]),
        assign ''unbor'' (struct ''sai_thrift_neighbor_entry_t'' [(''rif_id'', var ''urif''), (''ip_address'', ip_address (self
          ''tun_ip1''))]),
        run (api_create_entry ''neighbor_entry'' (var ''unbor'') [(''dst_mac_address'', self ''unbor_mac1''),
          (''no_host_route'', bool True)]),
        assign ''mac_entry'' (struct ''sai_thrift_fdb_entry_t'' [(''switch_id'', self ''switch_id''), (''mac_address'', self
          ''unbor_mac1''), (''bv_id'', var ''vlan_id'')]),
        run (api_create_entry ''fdb_entry'' (var ''mac_entry'') [(''type'', num SAI_FDB_ENTRY_TYPE_STATIC), (''bridge_port_id'',
          var ''port_bp'')]),
        assign ''unhop'' (api_create ''next_hop'' [(''ip'', ip_address (self ''tun_ip1'')), (''router_interface_id'', var
          ''urif''), (''type'', num SAI_NEXT_HOP_TYPE_IP)]),
        assign ''tunnel_route'' (struct ''sai_thrift_route_entry_t'' [(''vr_id'', self ''uvrf''), (''destination'', ip_prefix
          (add (self ''tun_ip1'') (self ''tun_ip_mask'')))]),
        run (api_create_entry ''route_entry'' (var ''tunnel_route'') [(''next_hop_id'', var ''unhop'')]),
        run (invoke [(''rcv_ports'', list_of [var ''uport'']), (''pkt_data'', none)] TunnelNhopResolutionBase_v4TrafficTest),
        run (invoke [(''rcv_ports'', list_of [var ''uport'']), (''pkt_data'', none)] TunnelNhopResolutionBase_v6TrafficTest)] [
        run (api_remove ''route_entry'' (var ''tunnel_route'')),
        run (api_remove ''next_hop'' (var ''unhop'')),
        run (api_remove ''fdb_entry'' (var ''mac_entry'')),
        run (api_remove ''neighbor_entry'' (var ''unbor'')),
        run (api_remove ''route_entry'' (var ''vm_v6_route'')),
        run (api_remove ''route_entry'' (var ''vm_route'')),
        run (api_remove ''next_hop'' (var ''tunnel_nhop''))]]"

definition TunnelNhopResolutionBase_sviSequenceTest3 :: "'d stmt" where
  "TunnelNhopResolutionBase_sviSequenceTest3 = block [
      try_finally [
        assign ''tunnel_nhop'' (api_create ''next_hop'' [(''type'', num SAI_NEXT_HOP_TYPE_TUNNEL_ENCAP), (''tunnel_id'', self
          ''tunnel''), (''ip'', ip_address (self ''tun_ip1'')), (''tunnel_mac'', self ''inner_dmac1''), (''tunnel_vni'', self
          ''vni'')]),
        assign ''vm_route'' (struct ''sai_thrift_route_entry_t'' [(''vr_id'', self ''ovrf''), (''destination'', ip_prefix (add
          (self ''vm_ip1'') (str ''/32'')))]),
        run (api_create_entry ''route_entry'' (var ''vm_route'') [(''next_hop_id'', var ''tunnel_nhop'')]),
        assign ''vm_v6_route'' (struct ''sai_thrift_route_entry_t'' [(''vr_id'', self ''ovrf''), (''destination'', ip_prefix
          (add (self ''vm_ipv61'') (str ''/128'')))]),
        run (api_create_entry ''route_entry'' (var ''vm_v6_route'') [(''next_hop_id'', var ''tunnel_nhop'')]),
        assign ''mac_entry'' (struct ''sai_thrift_fdb_entry_t'' [(''switch_id'', self ''switch_id''), (''mac_address'', self
          ''unbor_mac1''), (''bv_id'', var ''vlan_id'')]),
        run (api_create_entry ''fdb_entry'' (var ''mac_entry'') [(''type'', num SAI_FDB_ENTRY_TYPE_STATIC), (''bridge_port_id'',
          var ''port_bp'')]),
        assign ''unbor'' (struct ''sai_thrift_neighbor_entry_t'' [(''rif_id'', var ''urif''), (''ip_address'', ip_address (self
          ''tun_ip1''))]),
        run (api_create_entry ''neighbor_entry'' (var ''unbor'') [(''dst_mac_address'', self ''unbor_mac1''),
          (''no_host_route'', bool True)]),
        assign ''unhop'' (api_create ''next_hop'' [(''ip'', ip_address (self ''tun_ip1'')), (''router_interface_id'', var
          ''urif''), (''type'', num SAI_NEXT_HOP_TYPE_IP)]),
        assign ''tunnel_route'' (struct ''sai_thrift_route_entry_t'' [(''vr_id'', self ''uvrf''), (''destination'', ip_prefix
          (add (self ''tun_ip1'') (self ''tun_ip_mask'')))]),
        run (api_create_entry ''route_entry'' (var ''tunnel_route'') [(''next_hop_id'', var ''unhop'')]),
        run (invoke [(''rcv_ports'', list_of [var ''uport'']), (''pkt_data'', none)] TunnelNhopResolutionBase_v4TrafficTest),
        run (invoke [(''rcv_ports'', list_of [var ''uport'']), (''pkt_data'', none)] TunnelNhopResolutionBase_v6TrafficTest)] [
        run (api_remove ''route_entry'' (var ''tunnel_route'')),
        run (api_remove ''next_hop'' (var ''unhop'')),
        run (api_remove ''neighbor_entry'' (var ''unbor'')),
        run (api_remove ''fdb_entry'' (var ''mac_entry'')),
        run (api_remove ''route_entry'' (var ''vm_v6_route'')),
        run (api_remove ''route_entry'' (var ''vm_route'')),
        run (api_remove ''next_hop'' (var ''tunnel_nhop''))]]"

definition TunnelNhopResolutionBase_sviSequenceTest4 :: "'d stmt" where
  "TunnelNhopResolutionBase_sviSequenceTest4 = block [
      try_finally [
        assign ''tunnel_nhop'' (api_create ''next_hop'' [(''type'', num SAI_NEXT_HOP_TYPE_TUNNEL_ENCAP), (''tunnel_id'', self
          ''tunnel''), (''ip'', ip_address (self ''tun_ip1'')), (''tunnel_mac'', self ''inner_dmac1''), (''tunnel_vni'', self
          ''vni'')]),
        assign ''vm_route'' (struct ''sai_thrift_route_entry_t'' [(''vr_id'', self ''ovrf''), (''destination'', ip_prefix (add
          (self ''vm_ip1'') (str ''/32'')))]),
        run (api_create_entry ''route_entry'' (var ''vm_route'') [(''next_hop_id'', var ''tunnel_nhop'')]),
        assign ''vm_v6_route'' (struct ''sai_thrift_route_entry_t'' [(''vr_id'', self ''ovrf''), (''destination'', ip_prefix
          (add (self ''vm_ipv61'') (str ''/128'')))]),
        run (api_create_entry ''route_entry'' (var ''vm_v6_route'') [(''next_hop_id'', var ''tunnel_nhop'')]),
        assign ''mac_entry'' (struct ''sai_thrift_fdb_entry_t'' [(''switch_id'', self ''switch_id''), (''mac_address'', self
          ''unbor_mac1''), (''bv_id'', var ''vlan_id'')]),
        run (api_create_entry ''fdb_entry'' (var ''mac_entry'') [(''type'', num SAI_FDB_ENTRY_TYPE_STATIC), (''bridge_port_id'',
          var ''port_bp'')]),
        assign ''unhop'' (api_create ''next_hop'' [(''ip'', ip_address (self ''tun_ip1'')), (''router_interface_id'', var
          ''urif''), (''type'', num SAI_NEXT_HOP_TYPE_IP)]),
        assign ''tunnel_route'' (struct ''sai_thrift_route_entry_t'' [(''vr_id'', self ''uvrf''), (''destination'', ip_prefix
          (add (self ''tun_ip1'') (self ''tun_ip_mask'')))]),
        run (api_create_entry ''route_entry'' (var ''tunnel_route'') [(''next_hop_id'', var ''unhop'')]),
        assign ''unbor'' (struct ''sai_thrift_neighbor_entry_t'' [(''rif_id'', var ''urif''), (''ip_address'', ip_address (self
          ''tun_ip1''))]),
        run (api_create_entry ''neighbor_entry'' (var ''unbor'') [(''dst_mac_address'', self ''unbor_mac1''),
          (''no_host_route'', bool True)]),
        run (invoke [(''rcv_ports'', list_of [var ''uport'']), (''pkt_data'', none)] TunnelNhopResolutionBase_v4TrafficTest),
        run (invoke [(''rcv_ports'', list_of [var ''uport'']), (''pkt_data'', none)] TunnelNhopResolutionBase_v6TrafficTest)] [
        run (api_remove ''neighbor_entry'' (var ''unbor'')),
        run (api_remove ''route_entry'' (var ''tunnel_route'')),
        run (api_remove ''next_hop'' (var ''unhop'')),
        run (api_remove ''fdb_entry'' (var ''mac_entry'')),
        run (api_remove ''route_entry'' (var ''vm_v6_route'')),
        run (api_remove ''route_entry'' (var ''vm_route'')),
        run (api_remove ''next_hop'' (var ''tunnel_nhop''))]]"

definition TunnelNhopResolutionBase_sviSequenceTest5 :: "'d stmt" where
  "TunnelNhopResolutionBase_sviSequenceTest5 = block [
      try_finally [
        assign ''tunnel_nhop'' (api_create ''next_hop'' [(''type'', num SAI_NEXT_HOP_TYPE_TUNNEL_ENCAP), (''tunnel_id'', self
          ''tunnel''), (''ip'', ip_address (self ''tun_ip1'')), (''tunnel_mac'', self ''inner_dmac1''), (''tunnel_vni'', self
          ''vni'')]),
        assign ''vm_route'' (struct ''sai_thrift_route_entry_t'' [(''vr_id'', self ''ovrf''), (''destination'', ip_prefix (add
          (self ''vm_ip1'') (str ''/32'')))]),
        run (api_create_entry ''route_entry'' (var ''vm_route'') [(''next_hop_id'', var ''tunnel_nhop'')]),
        assign ''vm_v6_route'' (struct ''sai_thrift_route_entry_t'' [(''vr_id'', self ''ovrf''), (''destination'', ip_prefix
          (add (self ''vm_ipv61'') (str ''/128'')))]),
        run (api_create_entry ''route_entry'' (var ''vm_v6_route'') [(''next_hop_id'', var ''tunnel_nhop'')]),
        assign ''unbor'' (struct ''sai_thrift_neighbor_entry_t'' [(''rif_id'', var ''urif''), (''ip_address'', ip_address (self
          ''tun_ip1''))]),
        run (api_create_entry ''neighbor_entry'' (var ''unbor'') [(''dst_mac_address'', self ''unbor_mac1''),
          (''no_host_route'', bool True)]),
        assign ''unhop'' (api_create ''next_hop'' [(''ip'', ip_address (self ''tun_ip1'')), (''router_interface_id'', var
          ''urif''), (''type'', num SAI_NEXT_HOP_TYPE_IP)]),
        assign ''tunnel_route'' (struct ''sai_thrift_route_entry_t'' [(''vr_id'', self ''uvrf''), (''destination'', ip_prefix
          (add (self ''tun_ip1'') (self ''tun_ip_mask'')))]),
        run (api_create_entry ''route_entry'' (var ''tunnel_route'') [(''next_hop_id'', var ''unhop'')]),
        assign ''mac_entry'' (struct ''sai_thrift_fdb_entry_t'' [(''switch_id'', self ''switch_id''), (''mac_address'', self
          ''unbor_mac1''), (''bv_id'', var ''vlan_id'')]),
        run (api_create_entry ''fdb_entry'' (var ''mac_entry'') [(''type'', num SAI_FDB_ENTRY_TYPE_STATIC), (''bridge_port_id'',
          var ''port_bp'')]),
        run (invoke [(''rcv_ports'', list_of [var ''uport'']), (''pkt_data'', none)] TunnelNhopResolutionBase_v4TrafficTest),
        run (invoke [(''rcv_ports'', list_of [var ''uport'']), (''pkt_data'', none)] TunnelNhopResolutionBase_v6TrafficTest)] [
        run (api_remove ''fdb_entry'' (var ''mac_entry'')),
        run (api_remove ''route_entry'' (var ''tunnel_route'')),
        run (api_remove ''next_hop'' (var ''unhop'')),
        run (api_remove ''neighbor_entry'' (var ''unbor'')),
        run (api_remove ''route_entry'' (var ''vm_v6_route'')),
        run (api_remove ''route_entry'' (var ''vm_route'')),
        run (api_remove ''next_hop'' (var ''tunnel_nhop''))]]"

definition TunnelNhopResolutionBase_sviSequenceTest6 :: "'d stmt" where
  "TunnelNhopResolutionBase_sviSequenceTest6 = block [
      try_finally [
        assign ''unhop'' (api_create ''next_hop'' [(''ip'', ip_address (self ''tun_ip1'')), (''router_interface_id'', var
          ''urif''), (''type'', num SAI_NEXT_HOP_TYPE_IP)]),
        assign ''unbor'' (struct ''sai_thrift_neighbor_entry_t'' [(''rif_id'', var ''urif''), (''ip_address'', ip_address (self
          ''tun_ip1''))]),
        run (api_create_entry ''neighbor_entry'' (var ''unbor'') [(''dst_mac_address'', self ''unbor_mac1''),
          (''no_host_route'', bool True)]),
        assign ''mac_entry'' (struct ''sai_thrift_fdb_entry_t'' [(''switch_id'', self ''switch_id''), (''mac_address'', self
          ''unbor_mac1''), (''bv_id'', var ''vlan_id'')]),
        run (api_create_entry ''fdb_entry'' (var ''mac_entry'') [(''type'', num SAI_FDB_ENTRY_TYPE_STATIC), (''bridge_port_id'',
          var ''port_bp'')]),
        assign ''tunnel_route'' (struct ''sai_thrift_route_entry_t'' [(''vr_id'', self ''uvrf''), (''destination'', ip_prefix
          (add (self ''tun_ip1'') (self ''tun_ip_mask'')))]),
        run (api_create_entry ''route_entry'' (var ''tunnel_route'') [(''next_hop_id'', var ''unhop'')]),
        assign ''tunnel_nhop'' (api_create ''next_hop'' [(''type'', num SAI_NEXT_HOP_TYPE_TUNNEL_ENCAP), (''tunnel_id'', self
          ''tunnel''), (''ip'', ip_address (self ''tun_ip1'')), (''tunnel_mac'', self ''inner_dmac1''), (''tunnel_vni'', self
          ''vni'')]),
        assign ''vm_route'' (struct ''sai_thrift_route_entry_t'' [(''vr_id'', self ''ovrf''), (''destination'', ip_prefix (add
          (self ''vm_ip1'') (str ''/32'')))]),
        run (api_create_entry ''route_entry'' (var ''vm_route'') [(''next_hop_id'', var ''tunnel_nhop'')]),
        assign ''vm_v6_route'' (struct ''sai_thrift_route_entry_t'' [(''vr_id'', self ''ovrf''), (''destination'', ip_prefix
          (add (self ''vm_ipv61'') (str ''/128'')))]),
        run (api_create_entry ''route_entry'' (var ''vm_v6_route'') [(''next_hop_id'', var ''tunnel_nhop'')]),
        run (invoke [(''rcv_ports'', list_of [var ''uport'']), (''pkt_data'', none)] TunnelNhopResolutionBase_v4TrafficTest),
        run (invoke [(''rcv_ports'', list_of [var ''uport'']), (''pkt_data'', none)] TunnelNhopResolutionBase_v6TrafficTest)] [
        run (api_remove ''route_entry'' (var ''vm_v6_route'')),
        run (api_remove ''route_entry'' (var ''vm_route'')),
        run (api_remove ''next_hop'' (var ''tunnel_nhop'')),
        run (api_remove ''route_entry'' (var ''tunnel_route'')),
        run (api_remove ''fdb_entry'' (var ''mac_entry'')),
        run (api_remove ''neighbor_entry'' (var ''unbor'')),
        run (api_remove ''next_hop'' (var ''unhop''))]]"

definition TunnelNhopResolutionBase_sviSequenceTest7 :: "'d stmt" where
  "TunnelNhopResolutionBase_sviSequenceTest7 = block [
      try_finally [
        assign ''unhop'' (api_create ''next_hop'' [(''ip'', ip_address (self ''tun_ip1'')), (''router_interface_id'', var
          ''urif''), (''type'', num SAI_NEXT_HOP_TYPE_IP)]),
        assign ''mac_entry'' (struct ''sai_thrift_fdb_entry_t'' [(''switch_id'', self ''switch_id''), (''mac_address'', self
          ''unbor_mac1''), (''bv_id'', var ''vlan_id'')]),
        run (api_create_entry ''fdb_entry'' (var ''mac_entry'') [(''type'', num SAI_FDB_ENTRY_TYPE_STATIC), (''bridge_port_id'',
          var ''port_bp'')]),
        assign ''tunnel_route'' (struct ''sai_thrift_route_entry_t'' [(''vr_id'', self ''uvrf''), (''destination'', ip_prefix
          (add (self ''tun_ip1'') (self ''tun_ip_mask'')))]),
        run (api_create_entry ''route_entry'' (var ''tunnel_route'') [(''next_hop_id'', var ''unhop'')]),
        assign ''tunnel_nhop'' (api_create ''next_hop'' [(''type'', num SAI_NEXT_HOP_TYPE_TUNNEL_ENCAP), (''tunnel_id'', self
          ''tunnel''), (''ip'', ip_address (self ''tun_ip1'')), (''tunnel_mac'', self ''inner_dmac1''), (''tunnel_vni'', self
          ''vni'')]),
        assign ''vm_route'' (struct ''sai_thrift_route_entry_t'' [(''vr_id'', self ''ovrf''), (''destination'', ip_prefix (add
          (self ''vm_ip1'') (str ''/32'')))]),
        run (api_create_entry ''route_entry'' (var ''vm_route'') [(''next_hop_id'', var ''tunnel_nhop'')]),
        assign ''vm_v6_route'' (struct ''sai_thrift_route_entry_t'' [(''vr_id'', self ''ovrf''), (''destination'', ip_prefix
          (add (self ''vm_ipv61'') (str ''/128'')))]),
        run (api_create_entry ''route_entry'' (var ''vm_v6_route'') [(''next_hop_id'', var ''tunnel_nhop'')]),
        assign ''unbor'' (struct ''sai_thrift_neighbor_entry_t'' [(''rif_id'', var ''urif''), (''ip_address'', ip_address (self
          ''tun_ip1''))]),
        run (api_create_entry ''neighbor_entry'' (var ''unbor'') [(''dst_mac_address'', self ''unbor_mac1''),
          (''no_host_route'', bool True)]),
        run (invoke [(''rcv_ports'', list_of [var ''uport'']), (''pkt_data'', none)] TunnelNhopResolutionBase_v4TrafficTest),
        run (invoke [(''rcv_ports'', list_of [var ''uport'']), (''pkt_data'', none)] TunnelNhopResolutionBase_v6TrafficTest)] [
        run (api_remove ''neighbor_entry'' (var ''unbor'')),
        run (api_remove ''route_entry'' (var ''vm_v6_route'')),
        run (api_remove ''route_entry'' (var ''vm_route'')),
        run (api_remove ''next_hop'' (var ''tunnel_nhop'')),
        run (api_remove ''route_entry'' (var ''tunnel_route'')),
        run (api_remove ''fdb_entry'' (var ''mac_entry'')),
        run (api_remove ''next_hop'' (var ''unhop''))]]"

definition TunnelNhopResolutionBase_sviSequenceTest8 :: "'d stmt" where
  "TunnelNhopResolutionBase_sviSequenceTest8 = block [
      try_finally [
        assign ''unhop'' (api_create ''next_hop'' [(''ip'', ip_address (self ''tun_ip1'')), (''router_interface_id'', var
          ''urif''), (''type'', num SAI_NEXT_HOP_TYPE_IP)]),
        assign ''unbor'' (struct ''sai_thrift_neighbor_entry_t'' [(''rif_id'', var ''urif''), (''ip_address'', ip_address (self
          ''tun_ip1''))]),
        run (api_create_entry ''neighbor_entry'' (var ''unbor'') [(''dst_mac_address'', self ''unbor_mac1''),
          (''no_host_route'', bool True)]),
        assign ''tunnel_route'' (struct ''sai_thrift_route_entry_t'' [(''vr_id'', self ''uvrf''), (''destination'', ip_prefix
          (add (self ''tun_ip1'') (self ''tun_ip_mask'')))]),
        run (api_create_entry ''route_entry'' (var ''tunnel_route'') [(''next_hop_id'', var ''unhop'')]),
        assign ''tunnel_nhop'' (api_create ''next_hop'' [(''type'', num SAI_NEXT_HOP_TYPE_TUNNEL_ENCAP), (''tunnel_id'', self
          ''tunnel''), (''ip'', ip_address (self ''tun_ip1'')), (''tunnel_mac'', self ''inner_dmac1''), (''tunnel_vni'', self
          ''vni'')]),
        assign ''vm_route'' (struct ''sai_thrift_route_entry_t'' [(''vr_id'', self ''ovrf''), (''destination'', ip_prefix (add
          (self ''vm_ip1'') (str ''/32'')))]),
        run (api_create_entry ''route_entry'' (var ''vm_route'') [(''next_hop_id'', var ''tunnel_nhop'')]),
        assign ''vm_v6_route'' (struct ''sai_thrift_route_entry_t'' [(''vr_id'', self ''ovrf''), (''destination'', ip_prefix
          (add (self ''vm_ipv61'') (str ''/128'')))]),
        run (api_create_entry ''route_entry'' (var ''vm_v6_route'') [(''next_hop_id'', var ''tunnel_nhop'')]),
        assign ''mac_entry'' (struct ''sai_thrift_fdb_entry_t'' [(''switch_id'', self ''switch_id''), (''mac_address'', self
          ''unbor_mac1''), (''bv_id'', var ''vlan_id'')]),
        run (api_create_entry ''fdb_entry'' (var ''mac_entry'') [(''type'', num SAI_FDB_ENTRY_TYPE_STATIC), (''bridge_port_id'',
          var ''port_bp'')]),
        run (invoke [(''rcv_ports'', list_of [var ''uport'']), (''pkt_data'', none)] TunnelNhopResolutionBase_v4TrafficTest),
        run (invoke [(''rcv_ports'', list_of [var ''uport'']), (''pkt_data'', none)] TunnelNhopResolutionBase_v6TrafficTest)] [
        run (api_remove ''fdb_entry'' (var ''mac_entry'')),
        run (api_remove ''route_entry'' (var ''vm_v6_route'')),
        run (api_remove ''route_entry'' (var ''vm_route'')),
        run (api_remove ''next_hop'' (var ''tunnel_nhop'')),
        run (api_remove ''route_entry'' (var ''tunnel_route'')),
        run (api_remove ''neighbor_entry'' (var ''unbor'')),
        run (api_remove ''next_hop'' (var ''unhop''))]]"

definition TunnelNhopResolutionBase_sviSequenceTest9 :: "'d stmt" where
  "TunnelNhopResolutionBase_sviSequenceTest9 = block [
      try_finally [
        assign ''unhop'' (api_create ''next_hop'' [(''ip'', ip_address (self ''tun_ip1'')), (''router_interface_id'', var
          ''urif''), (''type'', num SAI_NEXT_HOP_TYPE_IP)]),
        assign ''unbor'' (struct ''sai_thrift_neighbor_entry_t'' [(''rif_id'', var ''urif''), (''ip_address'', ip_address (self
          ''tun_ip1''))]),
        run (api_create_entry ''neighbor_entry'' (var ''unbor'') [(''dst_mac_address'', self ''unbor_mac1''),
          (''no_host_route'', bool True)]),
        assign ''mac_entry'' (struct ''sai_thrift_fdb_entry_t'' [(''switch_id'', self ''switch_id''), (''mac_address'', self
          ''unbor_mac1''), (''bv_id'', var ''vlan_id'')]),
        run (api_create_entry ''fdb_entry'' (var ''mac_entry'') [(''type'', num SAI_FDB_ENTRY_TYPE_STATIC), (''bridge_port_id'',
          var ''port_bp'')]),
        assign ''tunnel_nhop'' (api_create ''next_hop'' [(''type'', num SAI_NEXT_HOP_TYPE_TUNNEL_ENCAP), (''tunnel_id'', self
          ''tunnel''), (''ip'', ip_address (self ''tun_ip1'')), (''tunnel_mac'', self ''inner_dmac1''), (''tunnel_vni'', self
          ''vni'')]),
        assign ''vm_route'' (struct ''sai_thrift_route_entry_t'' [(''vr_id'', self ''ovrf''), (''destination'', ip_prefix (add
          (self ''vm_ip1'') (str ''/32'')))]),
        run (api_create_entry ''route_entry'' (var ''vm_route'') [(''next_hop_id'', var ''tunnel_nhop'')]),
        assign ''vm_v6_route'' (struct ''sai_thrift_route_entry_t'' [(''vr_id'', self ''ovrf''), (''destination'', ip_prefix
          (add (self ''vm_ipv61'') (str ''/128'')))]),
        run (api_create_entry ''route_entry'' (var ''vm_v6_route'') [(''next_hop_id'', var ''tunnel_nhop'')]),
        assign ''tunnel_route'' (struct ''sai_thrift_route_entry_t'' [(''vr_id'', self ''uvrf''), (''destination'', ip_prefix
          (add (self ''tun_ip1'') (self ''tun_ip_mask'')))]),
        run (api_create_entry ''route_entry'' (var ''tunnel_route'') [(''next_hop_id'', var ''unhop'')]),
        run (invoke [(''rcv_ports'', list_of [var ''uport'']), (''pkt_data'', none)] TunnelNhopResolutionBase_v4TrafficTest),
        run (invoke [(''rcv_ports'', list_of [var ''uport'']), (''pkt_data'', none)] TunnelNhopResolutionBase_v6TrafficTest)] [
        run (api_remove ''route_entry'' (var ''tunnel_route'')),
        run (api_remove ''route_entry'' (var ''vm_v6_route'')),
        run (api_remove ''route_entry'' (var ''vm_route'')),
        run (api_remove ''fdb_entry'' (var ''mac_entry'')),
        run (api_remove ''next_hop'' (var ''tunnel_nhop'')),
        run (api_remove ''neighbor_entry'' (var ''unbor'')),
        run (api_remove ''next_hop'' (var ''unhop''))]]"

definition TunnelNhopResolutionBase_sviSequenceTest10 :: "'d stmt" where
  "TunnelNhopResolutionBase_sviSequenceTest10 = block [
      try_finally [
        assign ''unhop'' (api_create ''next_hop'' [(''ip'', ip_address (self ''tun_ip1'')), (''router_interface_id'', var
          ''urif''), (''type'', num SAI_NEXT_HOP_TYPE_IP)]),
        assign ''unbor'' (struct ''sai_thrift_neighbor_entry_t'' [(''rif_id'', var ''urif''), (''ip_address'', ip_address (self
          ''tun_ip1''))]),
        run (api_create_entry ''neighbor_entry'' (var ''unbor'') [(''dst_mac_address'', self ''unbor_mac1''),
          (''no_host_route'', bool True)]),
        assign ''tunnel_nhop'' (api_create ''next_hop'' [(''type'', num SAI_NEXT_HOP_TYPE_TUNNEL_ENCAP), (''tunnel_id'', self
          ''tunnel''), (''ip'', ip_address (self ''tun_ip1'')), (''tunnel_mac'', self ''inner_dmac1''), (''tunnel_vni'', self
          ''vni'')]),
        assign ''vm_route'' (struct ''sai_thrift_route_entry_t'' [(''vr_id'', self ''ovrf''), (''destination'', ip_prefix (add
          (self ''vm_ip1'') (str ''/32'')))]),
        run (api_create_entry ''route_entry'' (var ''vm_route'') [(''next_hop_id'', var ''tunnel_nhop'')]),
        assign ''vm_v6_route'' (struct ''sai_thrift_route_entry_t'' [(''vr_id'', self ''ovrf''), (''destination'', ip_prefix
          (add (self ''vm_ipv61'') (str ''/128'')))]),
        run (api_create_entry ''route_entry'' (var ''vm_v6_route'') [(''next_hop_id'', var ''tunnel_nhop'')]),
        assign ''mac_entry'' (struct ''sai_thrift_fdb_entry_t'' [(''switch_id'', self ''switch_id''), (''mac_address'', self
          ''unbor_mac1''), (''bv_id'', var ''vlan_id'')]),
        run (api_create_entry ''fdb_entry'' (var ''mac_entry'') [(''type'', num SAI_FDB_ENTRY_TYPE_STATIC), (''bridge_port_id'',
          var ''port_bp'')]),
        assign ''tunnel_route'' (struct ''sai_thrift_route_entry_t'' [(''vr_id'', self ''uvrf''), (''destination'', ip_prefix
          (add (self ''tun_ip1'') (self ''tun_ip_mask'')))]),
        run (api_create_entry ''route_entry'' (var ''tunnel_route'') [(''next_hop_id'', var ''unhop'')]),
        run (invoke [(''rcv_ports'', list_of [var ''uport'']), (''pkt_data'', none)] TunnelNhopResolutionBase_v4TrafficTest),
        run (invoke [(''rcv_ports'', list_of [var ''uport'']), (''pkt_data'', none)] TunnelNhopResolutionBase_v6TrafficTest)] [
        run (api_remove ''route_entry'' (var ''tunnel_route'')),
        run (api_remove ''fdb_entry'' (var ''mac_entry'')),
        run (api_remove ''route_entry'' (var ''vm_v6_route'')),
        run (api_remove ''route_entry'' (var ''vm_route'')),
        run (api_remove ''next_hop'' (var ''tunnel_nhop'')),
        run (api_remove ''neighbor_entry'' (var ''unbor'')),
        run (api_remove ''next_hop'' (var ''unhop''))]]"

definition TunnelNhopResolutionBase_sviSequenceTest11 :: "'d stmt" where
  "TunnelNhopResolutionBase_sviSequenceTest11 = block [
      try_finally [
        assign ''unhop'' (api_create ''next_hop'' [(''ip'', ip_address (self ''tun_ip1'')), (''router_interface_id'', var
          ''urif''), (''type'', num SAI_NEXT_HOP_TYPE_IP)]),
        assign ''tunnel_nhop'' (api_create ''next_hop'' [(''type'', num SAI_NEXT_HOP_TYPE_TUNNEL_ENCAP), (''tunnel_id'', self
          ''tunnel''), (''ip'', ip_address (self ''tun_ip1'')), (''tunnel_mac'', self ''inner_dmac1''), (''tunnel_vni'', self
          ''vni'')]),
        assign ''vm_route'' (struct ''sai_thrift_route_entry_t'' [(''vr_id'', self ''ovrf''), (''destination'', ip_prefix (add
          (self ''vm_ip1'') (str ''/32'')))]),
        run (api_create_entry ''route_entry'' (var ''vm_route'') [(''next_hop_id'', var ''tunnel_nhop'')]),
        assign ''vm_v6_route'' (struct ''sai_thrift_route_entry_t'' [(''vr_id'', self ''ovrf''), (''destination'', ip_prefix
          (add (self ''vm_ipv61'') (str ''/128'')))]),
        run (api_create_entry ''route_entry'' (var ''vm_v6_route'') [(''next_hop_id'', var ''tunnel_nhop'')]),
        assign ''unbor'' (struct ''sai_thrift_neighbor_entry_t'' [(''rif_id'', var ''urif''), (''ip_address'', ip_address (self
          ''tun_ip1''))]),
        run (api_create_entry ''neighbor_entry'' (var ''unbor'') [(''dst_mac_address'', self ''unbor_mac1''),
          (''no_host_route'', bool True)]),
        assign ''mac_entry'' (struct ''sai_thrift_fdb_entry_t'' [(''switch_id'', self ''switch_id''), (''mac_address'', self
          ''unbor_mac1''), (''bv_id'', var ''vlan_id'')]),
        run (api_create_entry ''fdb_entry'' (var ''mac_entry'') [(''type'', num SAI_FDB_ENTRY_TYPE_STATIC), (''bridge_port_id'',
          var ''port_bp'')]),
        assign ''tunnel_route'' (struct ''sai_thrift_route_entry_t'' [(''vr_id'', self ''uvrf''), (''destination'', ip_prefix
          (add (self ''tun_ip1'') (self ''tun_ip_mask'')))]),
        run (api_create_entry ''route_entry'' (var ''tunnel_route'') [(''next_hop_id'', var ''unhop'')]),
        run (invoke [(''rcv_ports'', list_of [var ''uport'']), (''pkt_data'', none)] TunnelNhopResolutionBase_v4TrafficTest),
        run (invoke [(''rcv_ports'', list_of [var ''uport'']), (''pkt_data'', none)] TunnelNhopResolutionBase_v6TrafficTest)] [
        run (api_remove ''route_entry'' (var ''tunnel_route'')),
        run (api_remove ''fdb_entry'' (var ''mac_entry'')),
        run (api_remove ''neighbor_entry'' (var ''unbor'')),
        run (api_remove ''route_entry'' (var ''vm_v6_route'')),
        run (api_remove ''route_entry'' (var ''vm_route'')),
        run (api_remove ''next_hop'' (var ''tunnel_nhop'')),
        run (api_remove ''next_hop'' (var ''unhop''))]]"

definition TunnelNhopResolutionBase_sviSequenceTest12 :: "'d stmt" where
  "TunnelNhopResolutionBase_sviSequenceTest12 = block [
      try_finally [
        assign ''unhop'' (api_create ''next_hop'' [(''ip'', ip_address (self ''tun_ip1'')), (''router_interface_id'', var
          ''urif''), (''type'', num SAI_NEXT_HOP_TYPE_IP)]),
        assign ''mac_entry'' (struct ''sai_thrift_fdb_entry_t'' [(''switch_id'', self ''switch_id''), (''mac_address'', self
          ''unbor_mac1''), (''bv_id'', var ''vlan_id'')]),
        run (api_create_entry ''fdb_entry'' (var ''mac_entry'') [(''type'', num SAI_FDB_ENTRY_TYPE_STATIC), (''bridge_port_id'',
          var ''port_bp'')]),
        assign ''tunnel_nhop'' (api_create ''next_hop'' [(''type'', num SAI_NEXT_HOP_TYPE_TUNNEL_ENCAP), (''tunnel_id'', self
          ''tunnel''), (''ip'', ip_address (self ''tun_ip1'')), (''tunnel_mac'', self ''inner_dmac1''), (''tunnel_vni'', self
          ''vni'')]),
        assign ''vm_route'' (struct ''sai_thrift_route_entry_t'' [(''vr_id'', self ''ovrf''), (''destination'', ip_prefix (add
          (self ''vm_ip1'') (str ''/32'')))]),
        run (api_create_entry ''route_entry'' (var ''vm_route'') [(''next_hop_id'', var ''tunnel_nhop'')]),
        assign ''vm_v6_route'' (struct ''sai_thrift_route_entry_t'' [(''vr_id'', self ''ovrf''), (''destination'', ip_prefix
          (add (self ''vm_ipv61'') (str ''/128'')))]),
        run (api_create_entry ''route_entry'' (var ''vm_v6_route'') [(''next_hop_id'', var ''tunnel_nhop'')]),
        assign ''unbor'' (struct ''sai_thrift_neighbor_entry_t'' [(''rif_id'', var ''urif''), (''ip_address'', ip_address (self
          ''tun_ip1''))]),
        run (api_create_entry ''neighbor_entry'' (var ''unbor'') [(''dst_mac_address'', self ''unbor_mac1''),
          (''no_host_route'', bool True)]),
        assign ''tunnel_route'' (struct ''sai_thrift_route_entry_t'' [(''vr_id'', self ''uvrf''), (''destination'', ip_prefix
          (add (self ''tun_ip1'') (self ''tun_ip_mask'')))]),
        run (api_create_entry ''route_entry'' (var ''tunnel_route'') [(''next_hop_id'', var ''unhop'')]),
        run (invoke [(''rcv_ports'', list_of [var ''uport'']), (''pkt_data'', none)] TunnelNhopResolutionBase_v4TrafficTest),
        run (invoke [(''rcv_ports'', list_of [var ''uport'']), (''pkt_data'', none)] TunnelNhopResolutionBase_v6TrafficTest)] [
        run (api_remove ''route_entry'' (var ''tunnel_route'')),
        run (api_remove ''neighbor_entry'' (var ''unbor'')),
        run (api_remove ''route_entry'' (var ''vm_v6_route'')),
        run (api_remove ''route_entry'' (var ''vm_route'')),
        run (api_remove ''next_hop'' (var ''tunnel_nhop'')),
        run (api_remove ''fdb_entry'' (var ''mac_entry'')),
        run (api_remove ''next_hop'' (var ''unhop''))]]"

definition TunnelNhopResolutionBase_sviMacMoveTest :: "'d stmt" where
  "TunnelNhopResolutionBase_sviMacMoveTest = block [
      assign ''uport1'' (item (item (var ''uport_data'') (num 0)) (num 0)),
      assign ''port_bp1'' (item (item (var ''uport_data'') (num 0)) (num 1)),
      assign ''uport2'' (item (item (var ''uport_data'') (num 1)) (num 0)),
      assign ''port_bp2'' (item (item (var ''uport_data'') (num 1)) (num 1)),
      try_finally [
        assign ''tunnel_nhop'' (api_create ''next_hop'' [(''type'', num SAI_NEXT_HOP_TYPE_TUNNEL_ENCAP), (''tunnel_id'', self
          ''tunnel''), (''ip'', ip_address (self ''tun_ip1'')), (''tunnel_mac'', self ''inner_dmac1''), (''tunnel_vni'', self
          ''vni'')]),
        assign ''vm_route'' (struct ''sai_thrift_route_entry_t'' [(''vr_id'', self ''ovrf''), (''destination'', ip_prefix (add
          (self ''vm_ip1'') (str ''/32'')))]),
        run (api_create_entry ''route_entry'' (var ''vm_route'') [(''next_hop_id'', var ''tunnel_nhop'')]),
        assign ''vm_v6_route'' (struct ''sai_thrift_route_entry_t'' [(''vr_id'', self ''ovrf''), (''destination'', ip_prefix
          (add (self ''vm_ipv61'') (str ''/128'')))]),
        run (api_create_entry ''route_entry'' (var ''vm_v6_route'') [(''next_hop_id'', var ''tunnel_nhop'')]),
        assign ''unhop'' (api_create ''next_hop'' [(''ip'', ip_address (self ''tun_ip1'')), (''router_interface_id'', var
          ''urif''), (''type'', num SAI_NEXT_HOP_TYPE_IP)]),
        assign ''tunnel_route'' (struct ''sai_thrift_route_entry_t'' [(''vr_id'', self ''uvrf''), (''destination'', ip_prefix
          (add (self ''tun_ip1'') (self ''tun_ip_mask'')))]),
        run (api_create_entry ''route_entry'' (var ''tunnel_route'') [(''next_hop_id'', var ''unhop'')]),
        assign ''unbor'' (struct ''sai_thrift_neighbor_entry_t'' [(''rif_id'', var ''urif''), (''ip_address'', ip_address (self
          ''tun_ip1''))]),
        run (api_create_entry ''neighbor_entry'' (var ''unbor'') [(''dst_mac_address'', self ''unbor_mac1''),
          (''no_host_route'', bool True)]),
        assign ''mac_entry'' (struct ''sai_thrift_fdb_entry_t'' [(''switch_id'', self ''switch_id''), (''mac_address'', self
          ''unbor_mac1''), (''bv_id'', var ''vlan_id'')]),
        run (api_create_entry ''fdb_entry'' (var ''mac_entry'') [(''type'', num SAI_FDB_ENTRY_TYPE_STATIC), (''bridge_port_id'',
          var ''port_bp1'')]),
        run (invoke [(''rcv_ports'', list_of [var ''uport1'']), (''pkt_data'', none)] TunnelNhopResolutionBase_v4TrafficTest),
        run (invoke [(''rcv_ports'', list_of [var ''uport1'']), (''pkt_data'', none)] TunnelNhopResolutionBase_v6TrafficTest),
        run (api_set ''fdb_entry'' (var ''mac_entry'') [(''bridge_port_id'', var ''port_bp2'')]),
        run (invoke [(''rcv_ports'', list_of [var ''uport2'']), (''pkt_data'', none)] TunnelNhopResolutionBase_v4TrafficTest),
        run (invoke [(''rcv_ports'', list_of [var ''uport2'']), (''pkt_data'', none)] TunnelNhopResolutionBase_v6TrafficTest)] [
        run (api_remove ''fdb_entry'' (var ''mac_entry'')),
        run (api_remove ''neighbor_entry'' (var ''unbor'')),
        run (api_remove ''route_entry'' (var ''tunnel_route'')),
        run (api_remove ''next_hop'' (var ''unhop'')),
        run (api_remove ''route_entry'' (var ''vm_v6_route'')),
        run (api_remove ''route_entry'' (var ''vm_route'')),
        run (api_remove ''next_hop'' (var ''tunnel_nhop''))]]"

definition TunnelNhopResolutionBase_v4TrafficFloodTest :: "'d stmt" where
  "TunnelNhopResolutionBase_v4TrafficFloodTest = block [
      assign ''pkt'' (lib ''simple_udp_packet'' [] [(''eth_dst'', str ROUTER_MAC), (''eth_src'', self ''customer_mac''),
        (''ip_dst'', self ''vm_ip1''), (''ip_src'', self ''customer_ip''), (''ip_id'', num 108), (''ip_ttl'', num 64)]),
      assign ''inner_pkt'' (lib ''simple_udp_packet'' [] [(''eth_dst'', self ''inner_dmac1''), (''eth_src'', str ROUTER_MAC),
        (''ip_dst'', self ''vm_ip1''), (''ip_src'', self ''customer_ip''), (''ip_id'', num 108), (''ip_ttl'', num 63)]),
      if_else (is_false (self ''ipv6'')) [
        assign ''vxlan_pkt'' (lib ''Mask'' [lib ''simple_vxlan_packet'' [] [(''eth_dst'', self ''unbor_mac1''), (''eth_src'',
          str ROUTER_MAC), (''ip_dst'', self ''tun_ip1''), (''ip_src'', self ''lpb_ip''), (''ip_id'', num 0),
          (''dl_vlan_enable'', bool False), (''ip_ttl'', num 64), (''ip_flags'', num 2), (''with_udp_chksum'', bool False),
          (''vxlan_vni'', self ''vni''), (''inner_frame'', var ''inner_pkt'')]] [])] [
        assign ''vxlan_pkt'' (lib ''Mask'' [lib ''simple_vxlanv6_packet'' [] [(''eth_dst'', self ''unbor_mac1''), (''eth_src'',
          str ROUTER_MAC), (''ipv6_dst'', self ''tun_ip1''), (''ipv6_src'', self ''lpb_ip''), (''dl_vlan_enable'', bool False),
          (''ipv6_hlim'', num 64), (''with_udp_chksum'', bool False), (''vxlan_vni'', self ''vni''), (''inner_frame'', var
          ''inner_pkt'')]] [])],
      assign ''vxlan_pkt'' (lib ''.set_do_not_care_scapy'' [var ''vxlan_pkt'', str ''UDP'', str ''sport''] []),
      run (lib ''send_packet'' [self ''oport_dev'', var ''pkt''] []),
      run (lib ''verify_each_packet_on_multiple_port_lists'' [var ''vxlan_pkt'', var ''rcv_ports''] [])]"

definition TunnelNhopResolutionBase_v6TrafficFloodTest :: "'d stmt" where
  "TunnelNhopResolutionBase_v6TrafficFloodTest = block [
      assign ''pkt'' (lib ''simple_udpv6_packet'' [] [(''eth_dst'', str ROUTER_MAC), (''eth_src'', self ''customer_mac''),
        (''ipv6_dst'', self ''vm_ipv61''), (''ipv6_src'', self ''customer_ipv6''), (''ipv6_hlim'', num 64)]),
      assign ''inner_pkt'' (lib ''simple_udpv6_packet'' [] [(''eth_dst'', self ''inner_dmac1''), (''eth_src'', str ROUTER_MAC),
        (''ipv6_dst'', self ''vm_ipv61''), (''ipv6_src'', self ''customer_ipv6''), (''ipv6_hlim'', num 63)]),
      if_else (is_false (self ''ipv6'')) [
        assign ''vxlan_pkt'' (lib ''Mask'' [lib ''simple_vxlan_packet'' [] [(''eth_dst'', self ''unbor_mac1''), (''eth_src'',
          str ROUTER_MAC), (''ip_dst'', self ''tun_ip1''), (''ip_src'', self ''lpb_ip''), (''ip_id'', num 0),
          (''dl_vlan_enable'', bool False), (''ip_ttl'', num 64), (''ip_flags'', num 2), (''with_udp_chksum'', bool False),
          (''vxlan_vni'', self ''vni''), (''inner_frame'', var ''inner_pkt'')]] [])] [
        assign ''vxlan_pkt'' (lib ''Mask'' [lib ''simple_vxlanv6_packet'' [] [(''eth_dst'', self ''unbor_mac1''), (''eth_src'',
          str ROUTER_MAC), (''ipv6_dst'', self ''tun_ip1''), (''ipv6_src'', self ''lpb_ip''), (''dl_vlan_enable'', bool False),
          (''ipv6_hlim'', num 64), (''with_udp_chksum'', bool False), (''vxlan_vni'', self ''vni''), (''inner_frame'', var
          ''inner_pkt'')]] [])],
      assign ''vxlan_pkt'' (lib ''.set_do_not_care_scapy'' [var ''vxlan_pkt'', str ''UDP'', str ''sport''] []),
      run (lib ''send_packet'' [self ''oport_dev'', var ''pkt''] []),
      run (lib ''verify_each_packet_on_multiple_port_lists'' [var ''vxlan_pkt'', var ''rcv_ports''] [])]"

definition TunnelNhopResolutionBase_sviMacFloodTest :: "'d stmt" where
  "TunnelNhopResolutionBase_sviMacFloodTest = block [
      try_finally [
        assign ''tunnel_nhop'' (api_create ''next_hop'' [(''type'', num SAI_NEXT_HOP_TYPE_TUNNEL_ENCAP), (''tunnel_id'', self
          ''tunnel''), (''ip'', ip_address (self ''tun_ip1'')), (''tunnel_mac'', self ''inner_dmac1''), (''tunnel_vni'', self
          ''vni'')]),
        assign ''vm_route'' (struct ''sai_thrift_route_entry_t'' [(''vr_id'', self ''ovrf''), (''destination'', ip_prefix (add
          (self ''vm_ip1'') (str ''/32'')))]),
        run (api_create_entry ''route_entry'' (var ''vm_route'') [(''next_hop_id'', var ''tunnel_nhop'')]),
        assign ''vm_v6_route'' (struct ''sai_thrift_route_entry_t'' [(''vr_id'', self ''ovrf''), (''destination'', ip_prefix
          (add (self ''vm_ipv61'') (str ''/128'')))]),
        run (api_create_entry ''route_entry'' (var ''vm_v6_route'') [(''next_hop_id'', var ''tunnel_nhop'')]),
        assign ''unhop'' (api_create ''next_hop'' [(''ip'', ip_address (self ''tun_ip1'')), (''router_interface_id'', var
          ''urif''), (''type'', num SAI_NEXT_HOP_TYPE_IP)]),
        assign ''tunnel_route'' (struct ''sai_thrift_route_entry_t'' [(''vr_id'', self ''uvrf''), (''destination'', ip_prefix
          (add (self ''tun_ip1'') (self ''tun_ip_mask'')))]),
        run (api_create_entry ''route_entry'' (var ''tunnel_route'') [(''next_hop_id'', var ''unhop'')]),
        assign ''unbor'' (struct ''sai_thrift_neighbor_entry_t'' [(''rif_id'', var ''urif''), (''ip_address'', ip_address (self
          ''tun_ip1''))]),
        run (api_create_entry ''neighbor_entry'' (var ''unbor'') [(''dst_mac_address'', self ''unbor_mac1''),
          (''no_host_route'', bool True)]),
        run (invoke [(''rcv_ports'', var ''uports'')] TunnelNhopResolutionBase_v4TrafficFloodTest),
        run (invoke [(''rcv_ports'', var ''uports'')] TunnelNhopResolutionBase_v6TrafficFloodTest)] [
        run (api_remove ''neighbor_entry'' (var ''unbor'')),
        run (api_remove ''route_entry'' (var ''tunnel_route'')),
        run (api_remove ''next_hop'' (var ''unhop'')),
        run (api_remove ''route_entry'' (var ''vm_v6_route'')),
        run (api_remove ''route_entry'' (var ''vm_route'')),
        run (api_remove ''next_hop'' (var ''tunnel_nhop''))]]"

definition TunnelNhopResolutionBase_tunnelSviIntfTest :: "'d stmt" where
  "TunnelNhopResolutionBase_tunnelSviIntfTest = block [
      assign ''urif1'' (self ''vlan30_rif''),
      assign ''urif1_ports'' (list_of [list_of [self ''dev_port20''], list_of [self ''dev_port21''], list_of [self
        ''dev_port22'', self ''dev_port23'']]),
      assign ''mac_port1'' (self ''dev_port20''),
      assign ''mac_port1_bp'' (self ''port20_bp''),
      assign ''mac_port2'' (self ''dev_port21''),
      assign ''mac_port2_bp'' (self ''port21_bp''),
      assign ''vlan_id'' (self ''vlan30''),
      try_finally [
        run (api_remove ''vlan_member'' (self ''vlan30_member1'')),
        set_self ''vlan30_member1'' (api_create ''vlan_member'' [(''vlan_id'', var ''vlan_id''), (''bridge_port_id'', self
          ''port21_bp''), (''vlan_tagging_mode'', num SAI_VLAN_TAGGING_MODE_UNTAGGED)]),
        run (invoke [(''urif'', var ''urif1''), (''uport'', var ''mac_port1''), (''port_bp'', var ''mac_port1_bp''),
          (''vlan_id'', var ''vlan_id'')] TunnelNhopResolutionBase_sviSequenceTest1),
        run (invoke [(''urif'', var ''urif1''), (''uport'', var ''mac_port1''), (''port_bp'', var ''mac_port1_bp''),
          (''vlan_id'', var ''vlan_id'')] TunnelNhopResolutionBase_sviSequenceTest2),
        run (invoke [(''urif'', var ''urif1''), (''uport'', var ''mac_port1''), (''port_bp'', var ''mac_port1_bp''),
          (''vlan_id'', var ''vlan_id'')] TunnelNhopResolutionBase_sviSequenceTest3),
        run (invoke [(''urif'', var ''urif1''), (''uport'', var ''mac_port1''), (''port_bp'', var ''mac_port1_bp''),
          (''vlan_id'', var ''vlan_id'')] TunnelNhopResolutionBase_sviSequenceTest4),
        run (invoke [(''urif'', var ''urif1''), (''uport'', var ''mac_port1''), (''port_bp'', var ''mac_port1_bp''),
          (''vlan_id'', var ''vlan_id'')] TunnelNhopResolutionBase_sviSequenceTest5),
        run (invoke [(''urif'', var ''urif1''), (''uport'', var ''mac_port1''), (''port_bp'', var ''mac_port1_bp''),
          (''vlan_id'', var ''vlan_id'')] TunnelNhopResolutionBase_sviSequenceTest6),
        run (invoke [(''urif'', var ''urif1''), (''uport'', var ''mac_port1''), (''port_bp'', var ''mac_port1_bp''),
          (''vlan_id'', var ''vlan_id'')] TunnelNhopResolutionBase_sviSequenceTest7),
        run (invoke [(''urif'', var ''urif1''), (''uport'', var ''mac_port1''), (''port_bp'', var ''mac_port1_bp''),
          (''vlan_id'', var ''vlan_id'')] TunnelNhopResolutionBase_sviSequenceTest8),
        run (invoke [(''urif'', var ''urif1''), (''uport'', var ''mac_port1''), (''port_bp'', var ''mac_port1_bp''),
          (''vlan_id'', var ''vlan_id'')] TunnelNhopResolutionBase_sviSequenceTest9),
        run (invoke [(''urif'', var ''urif1''), (''uport'', var ''mac_port1''), (''port_bp'', var ''mac_port1_bp''),
          (''vlan_id'', var ''vlan_id'')] TunnelNhopResolutionBase_sviSequenceTest10),
        run (invoke [(''urif'', var ''urif1''), (''uport'', var ''mac_port1''), (''port_bp'', var ''mac_port1_bp''),
          (''vlan_id'', var ''vlan_id'')] TunnelNhopResolutionBase_sviSequenceTest11),
        run (invoke [(''urif'', var ''urif1''), (''uport'', var ''mac_port1''), (''port_bp'', var ''mac_port1_bp''),
          (''vlan_id'', var ''vlan_id'')] TunnelNhopResolutionBase_sviSequenceTest12),
        run (invoke [(''urif'', var ''urif1''), (''uport_data'', list_of [list_of [var ''mac_port1'', var ''mac_port1_bp''],
          list_of [var ''mac_port2'', var ''mac_port2_bp'']]), (''vlan_id'', var ''vlan_id'')]
          TunnelNhopResolutionBase_sviMacMoveTest),
        run (invoke [(''urif'', var ''urif1''), (''uports'', var ''urif1_ports'')] TunnelNhopResolutionBase_sviMacFloodTest),
        assign ''mac_entry'' (struct ''sai_thrift_fdb_entry_t'' [(''switch_id'', self ''switch_id''), (''mac_address'', self
          ''unbor_mac1''), (''bv_id'', var ''vlan_id'')]),
        run (api_create_entry ''fdb_entry'' (var ''mac_entry'') [(''type'', num SAI_FDB_ENTRY_TYPE_STATIC), (''bridge_port_id'',
          var ''mac_port1_bp'')]),
        assign ''urif2'' (api_create ''router_interface'' [(''type'', num SAI_ROUTER_INTERFACE_TYPE_VLAN),
          (''virtual_router_id'', self ''default_vrf''), (''vlan_id'', self ''vlan10'')]),
        assert_ne (var ''urif2'') (num 0),
        assign ''mac_entry2'' (struct ''sai_thrift_fdb_entry_t'' [(''switch_id'', self ''switch_id''), (''mac_address'', self
          ''unbor_mac2''), (''bv_id'', self ''vlan10'')]),
        run (api_create_entry ''fdb_entry'' (var ''mac_entry2'') [(''type'', num SAI_FDB_ENTRY_TYPE_STATIC),
          (''bridge_port_id'', self ''port0_bp'')]),
        run (invoke [(''urif_data'', list_of [list_of [var ''urif1'', list_of [var ''mac_port1''], num 0], list_of [var
          ''urif2'', list_of [self ''dev_port0''], num 0]])] TunnelNhopResolutionBase_underlayRouteFallbackTest),
        run (invoke [(''urif'', var ''urif1''), (''uports'', list_of [var ''mac_port1'']), (''vlan_no'', num 0)]
          TunnelNhopResolutionBase_overlayTunnelNexthopUpdateTest)] [
        run (api_remove ''fdb_entry'' (var ''mac_entry2'')),
        run (api_remove ''router_interface'' (var ''urif2'')),
        run (api_remove ''fdb_entry'' (var ''mac_entry'')),
        run (api_remove ''vlan_member'' (self ''vlan30_member1'')),
        set_self ''vlan30_member1'' (api_create ''vlan_member'' [(''vlan_id'', var ''vlan_id''), (''bridge_port_id'', self
          ''port21_bp''), (''vlan_tagging_mode'', num SAI_VLAN_TAGGING_MODE_TAGGED)])]]"

definition TunnelNhopResolutionBase_multiNhopSequenceTest1 :: "'d stmt" where
  "TunnelNhopResolutionBase_multiNhopSequenceTest1 = block [
      try_finally [
        assign ''tunnel_nhop1'' (api_create ''next_hop'' [(''type'', num SAI_NEXT_HOP_TYPE_TUNNEL_ENCAP), (''tunnel_id'', self
          ''tunnel''), (''ip'', ip_address (self ''tun_ip1'')), (''tunnel_mac'', self ''inner_dmac1''), (''tunnel_vni'', self
          ''vni'')]),
        assign ''vm_route1'' (struct ''sai_thrift_route_entry_t'' [(''vr_id'', self ''ovrf''), (''destination'', ip_prefix (add
          (self ''vm_ip1'') (str ''/32'')))]),
        run (api_create_entry ''route_entry'' (var ''vm_route1'') [(''next_hop_id'', var ''tunnel_nhop1'')]),
        assign ''vm_v6_route1'' (struct ''sai_thrift_route_entry_t'' [(''vr_id'', self ''ovrf''), (''destination'', ip_prefix
          (add (self ''vm_ipv61'') (str ''/128'')))]),
        run (api_create_entry ''route_entry'' (var ''vm_v6_route1'') [(''next_hop_id'', var ''tunnel_nhop1'')]),
        assign ''tunnel_nhop2'' (api_create ''next_hop'' [(''type'', num SAI_NEXT_HOP_TYPE_TUNNEL_ENCAP), (''tunnel_id'', self
          ''tunnel''), (''ip'', ip_address (self ''tun_ip2'')), (''tunnel_mac'', self ''inner_dmac2''), (''tunnel_vni'', self
          ''vni'')]),
        assign ''vm_route2'' (struct ''sai_thrift_route_entry_t'' [(''vr_id'', self ''ovrf''), (''destination'', ip_prefix (add
          (self ''vm_ip2'') (str ''/32'')))]),
        run (api_create_entry ''route_entry'' (var ''vm_route2'') [(''next_hop_id'', var ''tunnel_nhop2'')]),
        assign ''vm_v6_route2'' (struct ''sai_thrift_route_entry_t'' [(''vr_id'', self ''ovrf''), (''destination'', ip_prefix
          (add (self ''vm_ipv62'') (str ''/128'')))]),
        run (api_create_entry ''route_entry'' (var ''vm_v6_route2'') [(''next_hop_id'', var ''tunnel_nhop2'')]),
        assign ''unbor'' (struct ''sai_thrift_neighbor_entry_t'' [(''rif_id'', var ''urif''), (''ip_address'', ip_address (self
          ''tun_ip1''))]),
        run (api_create_entry ''neighbor_entry'' (var ''unbor'') [(''dst_mac_address'', self ''unbor_mac1''),
          (''no_host_route'', bool True)]),
        assign ''unhop'' (api_create ''next_hop'' [(''ip'', ip_address (self ''tun_ip1'')), (''router_interface_id'', var
          ''urif''), (''type'', num SAI_NEXT_HOP_TYPE_IP)]),
        assign ''tunnel_route'' (struct ''sai_thrift_route_entry_t'' [(''vr_id'', self ''uvrf''), (''destination'', ip_prefix
          (add (self ''tun_ip1'') (self ''tun_ip_mask2'')))]),
        run (api_create_entry ''route_entry'' (var ''tunnel_route'') [(''next_hop_id'', var ''unhop'')]),
        run (invoke [(''rcv_ports'', var ''uport''), (''pkt_data'', none)] TunnelNhopResolutionBase_v4TrafficTest),
        run (invoke [(''rcv_ports'', var ''uport''), (''pkt_data'', none)] TunnelNhopResolutionBase_v6TrafficTest),
        run (invoke [(''rcv_ports'', var ''uport''), (''pkt_data'', dict_of [(str ''idmac'', self ''inner_dmac2''), (str
          ''dst_ip'', self ''vm_ip2''), (str ''tun_ip'', self ''tun_ip2'')])] TunnelNhopResolutionBase_v4TrafficTest),
        run (invoke [(''rcv_ports'', var ''uport''), (''pkt_data'', dict_of [(str ''idmac'', self ''inner_dmac2''), (str
          ''dst_ip'', self ''vm_ipv62''), (str ''tun_ip'', self ''tun_ip2'')])] TunnelNhopResolutionBase_v6TrafficTest)] [
        run (api_remove ''route_entry'' (var ''tunnel_route'')),
        run (api_remove ''next_hop'' (var ''unhop'')),
        run (api_remove ''neighbor_entry'' (var ''unbor'')),
        run (api_remove ''route_entry'' (var ''vm_v6_route2'')),
        run (api_remove ''route_entry'' (var ''vm_route2'')),
        run (api_remove ''next_hop'' (var ''tunnel_nhop2'')),
        run (api_remove ''route_entry'' (var ''vm_v6_route1'')),
        run (api_remove ''route_entry'' (var ''vm_route1'')),
        run (api_remove ''next_hop'' (var ''tunnel_nhop1''))]]"

definition TunnelNhopResolutionBase_multiNhopSequenceTest2 :: "'d stmt" where
  "TunnelNhopResolutionBase_multiNhopSequenceTest2 = block [
      try_finally [
        assign ''tunnel_nhop1'' (api_create ''next_hop'' [(''type'', num SAI_NEXT_HOP_TYPE_TUNNEL_ENCAP), (''tunnel_id'', self
          ''tunnel''), (''ip'', ip_address (self ''tun_ip1'')), (''tunnel_mac'', self ''inner_dmac1''), (''tunnel_vni'', self
          ''vni'')]),
        assign ''vm_route1'' (struct ''sai_thrift_route_entry_t'' [(''vr_id'', self ''ovrf''), (''destination'', ip_prefix (add
          (self ''vm_ip1'') (str ''/32'')))]),
        run (api_create_entry ''route_entry'' (var ''vm_route1'') [(''next_hop_id'', var ''tunnel_nhop1'')]),
        assign ''vm_v6_route1'' (struct ''sai_thrift_route_entry_t'' [(''vr_id'', self ''ovrf''), (''destination'', ip_prefix
          (add (self ''vm_ipv61'') (str ''/128'')))]),
        run (api_create_entry ''route_entry'' (var ''vm_v6_route1'') [(''next_hop_id'', var ''tunnel_nhop1'')]),
        assign ''unbor'' (struct ''sai_thrift_neighbor_entry_t'' [(''rif_id'', var ''urif''), (''ip_address'', ip_address (self
          ''tun_ip1''))]),
        run (api_create_entry ''neighbor_entry'' (var ''unbor'') [(''dst_mac_address'', self ''unbor_mac1''),
          (''no_host_route'', bool True)]),
        assign ''unhop'' (api_create ''next_hop'' [(''ip'', ip_address (self ''tun_ip1'')), (''router_interface_id'', var
          ''urif''), (''type'', num SAI_NEXT_HOP_TYPE_IP)]),
        assign ''tunnel_route'' (struct ''sai_thrift_route_entry_t'' [(''vr_id'', self ''uvrf''), (''destination'', ip_prefix
          (add (self ''tun_ip1'') (self ''tun_ip_mask2'')))]),
        run (api_create_entry ''route_entry'' (var ''tunnel_route'') [(''next_hop_id'', var ''unhop'')]),
        assign ''tunnel_nhop2'' (api_create ''next_hop'' [(''type'', num SAI_NEXT_HOP_TYPE_TUNNEL_ENCAP), (''tunnel_id'', self
          ''tunnel''), (''ip'', ip_address (self ''tun_ip2'')), (''tunnel_mac'', self ''inner_dmac2''), (''tunnel_vni'', self
          ''vni'')]),
        assign ''vm_route2'' (struct ''sai_thrift_route_entry_t'' [(''vr_id'', self ''ovrf''), (''destination'', ip_prefix (add
          (self ''vm_ip2'') (str ''/32'')))]),
        run (api_create_entry ''route_entry'' (var ''vm_route2'') [(''next_hop_id'', var ''tunnel_nhop2'')]),
        assign ''vm_v6_route2'' (struct ''sai_thrift_route_entry_t'' [(''vr_id'', self ''ovrf''), (''destination'', ip_prefix
          (add (self ''vm_ipv62'') (str ''/128'')))]),
        run (api_create_entry ''route_entry'' (var ''vm_v6_route2'') [(''next_hop_id'', var ''tunnel_nhop2'')]),
        run (invoke [(''rcv_ports'', var ''uport''), (''pkt_data'', none)] TunnelNhopResolutionBase_v4TrafficTest),
        run (invoke [(''rcv_ports'', var ''uport''), (''pkt_data'', none)] TunnelNhopResolutionBase_v6TrafficTest),
        run (invoke [(''rcv_ports'', var ''uport''), (''pkt_data'', dict_of [(str ''idmac'', self ''inner_dmac2''), (str
          ''dst_ip'', self ''vm_ip2''), (str ''tun_ip'', self ''tun_ip2'')])] TunnelNhopResolutionBase_v4TrafficTest),
        run (invoke [(''rcv_ports'', var ''uport''), (''pkt_data'', dict_of [(str ''idmac'', self ''inner_dmac2''), (str
          ''dst_ip'', self ''vm_ipv62''), (str ''tun_ip'', self ''tun_ip2'')])] TunnelNhopResolutionBase_v6TrafficTest)] [
        run (api_remove ''route_entry'' (var ''vm_v6_route2'')),
        run (api_remove ''route_entry'' (var ''vm_route2'')),
        run (api_remove ''next_hop'' (var ''tunnel_nhop2'')),
        run (api_remove ''route_entry'' (var ''tunnel_route'')),
        run (api_remove ''next_hop'' (var ''unhop'')),
        run (api_remove ''neighbor_entry'' (var ''unbor'')),
        run (api_remove ''route_entry'' (var ''vm_v6_route1'')),
        run (api_remove ''route_entry'' (var ''vm_route1'')),
        run (api_remove ''next_hop'' (var ''tunnel_nhop1''))]]"

definition TunnelNhopResolutionBase_multiNhopSequenceTest3 :: "'d stmt" where
  "TunnelNhopResolutionBase_multiNhopSequenceTest3 = block [
      try_finally [
        assign ''unbor'' (struct ''sai_thrift_neighbor_entry_t'' [(''rif_id'', var ''urif''), (''ip_address'', ip_address (self
          ''tun_ip1''))]),
        run (api_create_entry ''neighbor_entry'' (var ''unbor'') [(''dst_mac_address'', self ''unbor_mac1''),
          (''no_host_route'', bool True)]),
        assign ''unhop'' (api_create ''next_hop'' [(''ip'', ip_address (self ''tun_ip1'')), (''router_interface_id'', var
          ''urif''), (''type'', num SAI_NEXT_HOP_TYPE_IP)]),
        assign ''tunnel_route'' (struct ''sai_thrift_route_entry_t'' [(''vr_id'', self ''uvrf''), (''destination'', ip_prefix
          (add (self ''tun_ip1'') (self ''tun_ip_mask2'')))]),
        run (api_create_entry ''route_entry'' (var ''tunnel_route'') [(''next_hop_id'', var ''unhop'')]),
        assign ''tunnel_nhop1'' (api_create ''next_hop'' [(''type'', num SAI_NEXT_HOP_TYPE_TUNNEL_ENCAP), (''tunnel_id'', self
          ''tunnel''), (''ip'', ip_address (self ''tun_ip1'')), (''tunnel_mac'', self ''inner_dmac1''), (''tunnel_vni'', self
          ''vni'')]),
        assign ''vm_route1'' (struct ''sai_thrift_route_entry_t'' [(''vr_id'', self ''ovrf''), (''destination'', ip_prefix (add
          (self ''vm_ip1'') (str ''/32'')))]),
        run (api_create_entry ''route_entry'' (var ''vm_route1'') [(''next_hop_id'', var ''tunnel_nhop1'')]),
        assign ''vm_v6_route1'' (struct ''sai_thrift_route_entry_t'' [(''vr_id'', self ''ovrf''), (''destination'', ip_prefix
          (add (self ''vm_ipv61'') (str ''/128'')))]),
        run (api_create_entry ''route_entry'' (var ''vm_v6_route1'') [(''next_hop_id'', var ''tunnel_nhop1'')]),
        assign ''tunnel_nhop2'' (api_create ''next_hop'' [(''type'', num SAI_NEXT_HOP_TYPE_TUNNEL_ENCAP), (''tunnel_id'', self
          ''tunnel''), (''ip'', ip_address (self ''tun_ip2'')), (''tunnel_mac'', self ''inner_dmac2''), (''tunnel_vni'', self
          ''vni'')]),
        assign ''vm_route2'' (struct ''sai_thrift_route_entry_t'' [(''vr_id'', self ''ovrf''), (''destination'', ip_prefix (add
          (self ''vm_ip2'') (str ''/32'')))]),
        run (api_create_entry ''route_entry'' (var ''vm_route2'') [(''next_hop_id'', var ''tunnel_nhop2'')]),
        assign ''vm_v6_route2'' (struct ''sai_thrift_route_entry_t'' [(''vr_id'', self ''ovrf''), (''destination'', ip_prefix
          (add (self ''vm_ipv62'') (str ''/128'')))]),
        run (api_create_entry ''route_entry'' (var ''vm_v6_route2'') [(''next_hop_id'', var ''tunnel_nhop2'')]),
        run (invoke [(''rcv_ports'', var ''uport''), (''pkt_data'', none)] TunnelNhopResolutionBase_v4TrafficTest),
        run (invoke [(''rcv_ports'', var ''uport''), (''pkt_data'', none)] TunnelNhopResolutionBase_v6TrafficTest),
        run (invoke [(''rcv_ports'', var ''uport''), (''pkt_data'', dict_of [(str ''idmac'', self ''inner_dmac2''), (str
          ''dst_ip'', self ''vm_ip2''), (str ''tun_ip'', self ''tun_ip2'')])] TunnelNhopResolutionBase_v4TrafficTest),
        run (invoke [(''rcv_ports'', var ''uport''), (''pkt_data'', dict_of [(str ''idmac'', self ''inner_dmac2''), (str
          ''dst_ip'', self ''vm_ipv62''), (str ''tun_ip'', self ''tun_ip2'')])] TunnelNhopResolutionBase_v6TrafficTest)] [
        run (api_remove ''route_entry'' (var ''vm_v6_route2'')),
        run (api_remove ''route_entry'' (var ''vm_route2'')),
        run (api_remove ''next_hop'' (var ''tunnel_nhop2'')),
        run (api_remove ''route_entry'' (var ''vm_v6_route1'')),
        run (api_remove ''route_entry'' (var ''vm_route1'')),
        run (api_remove ''next_hop'' (var ''tunnel_nhop1'')),
        run (api_remove ''route_entry'' (var ''tunnel_route'')),
        run (api_remove ''next_hop'' (var ''unhop'')),
        run (api_remove ''neighbor_entry'' (var ''unbor''))]]"

definition TunnelNhopResolutionBase_multiNhopFallbackTest :: "'d stmt" where
  "TunnelNhopResolutionBase_multiNhopFallbackTest = block [
      assign ''urif1'' (item (item (var ''urif_data'') (num 0)) (num 0)),
      assign ''uport1'' (item (item (var ''urif_data'') (num 0)) (num 1)),
      assign ''urif2'' (item (item (var ''urif_data'') (num 1)) (num 0)),
      assign ''uport2'' (item (item (var ''urif_data'') (num 1)) (num 1)),
      try_finally [
        assign ''unbor'' (struct ''sai_thrift_neighbor_entry_t'' [(''rif_id'', var ''urif1''), (''ip_address'', ip_address (self
          ''tun_ip1''))]),
        run (api_create_entry ''neighbor_entry'' (var ''unbor'') [(''dst_mac_address'', self ''unbor_mac1''),
          (''no_host_route'', bool True)]),
        assign ''unhop'' (api_create ''next_hop'' [(''ip'', ip_address (self ''tun_ip1'')), (''router_interface_id'', var
          ''urif1''), (''type'', num SAI_NEXT_HOP_TYPE_IP)]),
        assign ''tunnel_route'' (struct ''sai_thrift_route_entry_t'' [(''vr_id'', self ''uvrf''), (''destination'', ip_prefix
          (add (self ''tun_ip1'') (self ''tun_ip_mask3'')))]),
        run (api_create_entry ''route_entry'' (var ''tunnel_route'') [(''next_hop_id'', var ''unhop'')]),
        assign ''tunnel_nhop1'' (api_create ''next_hop'' [(''type'', num SAI_NEXT_HOP_TYPE_TUNNEL_ENCAP), (''tunnel_id'', self
          ''tunnel''), (''ip'', ip_address (self ''tun_ip1'')), (''tunnel_mac'', self ''inner_dmac1''), (''tunnel_vni'', self
          ''vni'')]),
        assign ''vm_route1'' (struct ''sai_thrift_route_entry_t'' [(''vr_id'', self ''ovrf''), (''destination'', ip_prefix (add
          (self ''vm_ip1'') (str ''/32'')))]),
        run (api_create_entry ''route_entry'' (var ''vm_route1'') [(''next_hop_id'', var ''tunnel_nhop1'')]),
        assign ''vm_v6_route1'' (struct ''sai_thrift_route_entry_t'' [(''vr_id'', self ''ovrf''), (''destination'', ip_prefix
          (add (self ''vm_ipv61'') (str ''/128'')))]),
        run (api_create_entry ''route_entry'' (var ''vm_v6_route1'') [(''next_hop_id'', var ''tunnel_nhop1'')]),
        assign ''tunnel_nhop2'' (api_create ''next_hop'' [(''type'', num SAI_NEXT_HOP_TYPE_TUNNEL_ENCAP), (''tunnel_id'', self
          ''tunnel''), (''ip'', ip_address (self ''tun_ip2'')), (''tunnel_mac'', self ''inner_dmac2''), (''tunnel_vni'', self
          ''vni'')]),
        assign ''vm_route2'' (struct ''sai_thrift_route_entry_t'' [(''vr_id'', self ''ovrf''), (''destination'', ip_prefix (add
          (self ''vm_ip2'') (str ''/32'')))]),
        run (api_create_entry ''route_entry'' (var ''vm_route2'') [(''next_hop_id'', var ''tunnel_nhop2'')]),
        assign ''vm_v6_route2'' (struct ''sai_thrift_route_entry_t'' [(''vr_id'', self ''ovrf''), (''destination'', ip_prefix
          (add (self ''vm_ipv62'') (str ''/128'')))]),
        run (api_create_entry ''route_entry'' (var ''vm_v6_route2'') [(''next_hop_id'', var ''tunnel_nhop2'')]),
        print [self ''tun_ip_mask3''],
        run (invoke [(''rcv_ports'', var ''uport1''), (''pkt_data'', none)] TunnelNhopResolutionBase_v4TrafficTest),
        run (invoke [(''rcv_ports'', var ''uport1''), (''pkt_data'', none)] TunnelNhopResolutionBase_v6TrafficTest),
        run (invoke [(''rcv_ports'', var ''uport1''), (''pkt_data'', dict_of [(str ''idmac'', self ''inner_dmac2''), (str
          ''dst_ip'', self ''vm_ip2''), (str ''tun_ip'', self ''tun_ip2'')])] TunnelNhopResolutionBase_v4TrafficTest),
        run (invoke [(''rcv_ports'', var ''uport1''), (''pkt_data'', dict_of [(str ''idmac'', self ''inner_dmac2''), (str
          ''dst_ip'', self ''vm_ipv62''), (str ''tun_ip'', self ''tun_ip2'')])] TunnelNhopResolutionBase_v6TrafficTest),
        print [self ''tun_ip_mask2''],
        assign ''unbor2'' (struct ''sai_thrift_neighbor_entry_t'' [(''rif_id'', var ''urif2''), (''ip_address'', ip_address
          (self ''tun_ip1''))]),
        run (api_create_entry ''neighbor_entry'' (var ''unbor2'') [(''dst_mac_address'', self ''unbor_mac2''),
          (''no_host_route'', bool True)]),
        assign ''unhop2'' (api_create ''next_hop'' [(''ip'', ip_address (self ''tun_ip1'')), (''router_interface_id'', var
          ''urif2''), (''type'', num SAI_NEXT_HOP_TYPE_IP)]),
        assign ''tunnel_route2'' (struct ''sai_thrift_route_entry_t'' [(''vr_id'', self ''uvrf''), (''destination'', ip_prefix
          (add (self ''tun_ip1'') (self ''tun_ip_mask2'')))]),
        run (api_create_entry ''route_entry'' (var ''tunnel_route2'') [(''next_hop_id'', var ''unhop2'')]),
        print [self ''tun_ip_mask2''],
        run (invoke [(''rcv_ports'', var ''uport2''), (''pkt_data'', dict_of [(str ''dmac'', self ''unbor_mac2'')])]
          TunnelNhopResolutionBase_v4TrafficTest),
        run (invoke [(''rcv_ports'', var ''uport2''), (''pkt_data'', dict_of [(str ''dmac'', self ''unbor_mac2'')])]
          TunnelNhopResolutionBase_v6TrafficTest),
        run (invoke [(''rcv_ports'', var ''uport2''), (''pkt_data'', dict_of [(str ''dmac'', self ''unbor_mac2''), (str
          ''idmac'', self ''inner_dmac2''), (str ''dst_ip'', self ''vm_ip2''), (str ''tun_ip'', self ''tun_ip2'')])]
          TunnelNhopResolutionBase_v4TrafficTest),
        run (invoke [(''rcv_ports'', var ''uport2''), (''pkt_data'', dict_of [(str ''dmac'', self ''unbor_mac2''), (str
          ''idmac'', self ''inner_dmac2''), (str ''dst_ip'', self ''vm_ipv62''), (str ''tun_ip'', self ''tun_ip2'')])]
          TunnelNhopResolutionBase_v6TrafficTest),
        print [self ''tun_ip_mask2''],
        run (api_remove ''route_entry'' (var ''tunnel_route2'')),
        run (api_remove ''next_hop'' (var ''unhop2'')),
        run (api_remove ''neighbor_entry'' (var ''unbor2'')),
        print [self ''tun_ip_mask3''],
        run (invoke [(''rcv_ports'', var ''uport1''), (''pkt_data'', none)] TunnelNhopResolutionBase_v4TrafficTest),
        run (invoke [(''rcv_ports'', var ''uport1''), (''pkt_data'', none)] TunnelNhopResolutionBase_v6TrafficTest),
        run (invoke [(''rcv_ports'', var ''uport1''), (''pkt_data'', dict_of [(str ''idmac'', self ''inner_dmac2''), (str
          ''dst_ip'', self ''vm_ip2''), (str ''tun_ip'', self ''tun_ip2'')])] TunnelNhopResolutionBase_v4TrafficTest),
        run (invoke [(''rcv_ports'', var ''uport1''), (''pkt_data'', dict_of [(str ''idmac'', self ''inner_dmac2''), (str
          ''dst_ip'', self ''vm_ipv62''), (str ''tun_ip'', self ''tun_ip2'')])] TunnelNhopResolutionBase_v6TrafficTest),
        assign ''unbor2'' (struct ''sai_thrift_neighbor_entry_t'' [(''rif_id'', var ''urif2''), (''ip_address'', ip_address
          (self ''tun_ip1''))]),
        run (api_create_entry ''neighbor_entry'' (var ''unbor2'') [(''dst_mac_address'', self ''unbor_mac2''),
          (''no_host_route'', bool True)]),
        assign ''unhop2'' (api_create ''next_hop'' [(''ip'', ip_address (self ''tun_ip1'')), (''router_interface_id'', var
          ''urif2''), (''type'', num SAI_NEXT_HOP_TYPE_IP)]),
        assign ''tunnel_host_route'' (struct ''sai_thrift_route_entry_t'' [(''vr_id'', self ''uvrf''), (''destination'',
          ip_prefix (add (self ''tun_ip1'') (self ''tun_ip_mask'')))]),
        run (api_create_entry ''route_entry'' (var ''tunnel_host_route'') [(''next_hop_id'', var ''unhop2'')]),
        run (invoke [(''rcv_ports'', var ''uport2''), (''pkt_data'', dict_of [(str ''dmac'', self ''unbor_mac2'')])]
          TunnelNhopResolutionBase_v4TrafficTest),
        run (invoke [(''rcv_ports'', var ''uport2''), (''pkt_data'', dict_of [(str ''dmac'', self ''unbor_mac2'')])]
          TunnelNhopResolutionBase_v6TrafficTest),
        run (invoke [(''rcv_ports'', var ''uport1''), (''pkt_data'', dict_of [(str ''idmac'', self ''inner_dmac2''), (str
          ''dst_ip'', self ''vm_ip2''), (str ''tun_ip'', self ''tun_ip2'')])] TunnelNhopResolutionBase_v4TrafficTest),
        run (invoke [(''rcv_ports'', var ''uport1''), (''pkt_data'', dict_of [(str ''idmac'', self ''inner_dmac2''), (str
          ''dst_ip'', self ''vm_ipv62''), (str ''tun_ip'', self ''tun_ip2'')])] TunnelNhopResolutionBase_v6TrafficTest)] [
        run (api_remove ''route_entry'' (var ''tunnel_host_route'')),
        run (api_remove ''next_hop'' (var ''unhop2'')),
        run (api_remove ''neighbor_entry'' (var ''unbor2'')),
        run (api_remove ''route_entry'' (var ''vm_v6_route2'')),
        run (api_remove ''route_entry'' (var ''vm_route2'')),
        run (api_remove ''next_hop'' (var ''tunnel_nhop2'')),
        run (api_remove ''route_entry'' (var ''vm_v6_route1'')),
        run (api_remove ''route_entry'' (var ''vm_route1'')),
        run (api_remove ''next_hop'' (var ''tunnel_nhop1'')),
        run (api_remove ''route_entry'' (var ''tunnel_route'')),
        run (api_remove ''next_hop'' (var ''unhop'')),
        run (api_remove ''neighbor_entry'' (var ''unbor''))]]"

definition TunnelNhopResolutionBase_tunnelVniNexthopTest :: "'d stmt" where
  "TunnelNhopResolutionBase_tunnelVniNexthopTest = block [
      if_else (is_false (self ''ipv6'')) [
        assign ''serv_ip'' (str ''30.30.30.1'')] [
        assign ''serv_ip'' (str ''2001:0db8::30:1'')],
      assign ''serv_vm_ip'' (str ''200.200.200.1''),
      assign ''serv_vm_ipv6'' (str ''2001:0db8::200:1''),
      assign ''serv_vni1'' (num 3000),
      assign ''serv_vni2'' (num 4000),
      assign ''urif1'' (item (item (var ''urif_data'') (num 0)) (num 0)),
      assign ''uport1'' (item (item (var ''urif_data'') (num 0)) (num 1)),
      assign ''urif2'' (item (item (var ''urif_data'') (num 1)) (num 0)),
      assign ''uport2'' (item (item (var ''urif_data'') (num 1)) (num 1)),
      try_finally [
        assign ''unbor1'' (struct ''sai_thrift_neighbor_entry_t'' [(''rif_id'', var ''urif1''), (''ip_address'', ip_address
          (self ''tun_ip1''))]),
        run (api_create_entry ''neighbor_entry'' (var ''unbor1'') [(''dst_mac_address'', self ''unbor_mac1''),
          (''no_host_route'', bool True)]),
        assign ''unhop1'' (api_create ''next_hop'' [(''ip'', ip_address (self ''tun_ip1'')), (''router_interface_id'', var
          ''urif1''), (''type'', num SAI_NEXT_HOP_TYPE_IP)]),
        assign ''tunnel_route1'' (struct ''sai_thrift_route_entry_t'' [(''vr_id'', self ''uvrf''), (''destination'', ip_prefix
          (add (self ''tun_ip1'') (self ''tun_ip_mask2'')))]),
        run (api_create_entry ''route_entry'' (var ''tunnel_route1'') [(''next_hop_id'', var ''unhop1'')]),
        assign ''unbor2'' (struct ''sai_thrift_neighbor_entry_t'' [(''rif_id'', var ''urif2''), (''ip_address'', ip_address (var
          ''serv_ip''))]),
        run (api_create_entry ''neighbor_entry'' (var ''unbor2'') [(''dst_mac_address'', self ''unbor_mac2''),
          (''no_host_route'', bool True)]),
        assign ''unhop2'' (api_create ''next_hop'' [(''ip'', ip_address (var ''serv_ip'')), (''router_interface_id'', var
          ''urif2''), (''type'', num SAI_NEXT_HOP_TYPE_IP)]),
        assign ''tunnel_route2'' (struct ''sai_thrift_route_entry_t'' [(''vr_id'', self ''uvrf''), (''destination'', ip_prefix
          (add (var ''serv_ip'') (self ''tun_ip_mask'')))]),
        run (api_create_entry ''route_entry'' (var ''tunnel_route2'') [(''next_hop_id'', var ''unhop2'')]),
        assign ''tunnel_nhop1'' (api_create ''next_hop'' [(''type'', num SAI_NEXT_HOP_TYPE_TUNNEL_ENCAP), (''tunnel_id'', self
          ''tunnel''), (''ip'', ip_address (self ''tun_ip1'')), (''tunnel_mac'', self ''inner_dmac1''), (''tunnel_vni'', self
          ''vni'')]),
        assign ''tunnel_nhop2'' (api_create ''next_hop'' [(''type'', num SAI_NEXT_HOP_TYPE_TUNNEL_ENCAP), (''tunnel_id'', self
          ''tunnel''), (''ip'', ip_address (var ''serv_ip'')), (''tunnel_mac'', self ''inner_dmac2''), (''tunnel_vni'', var
          ''serv_vni1'')]),
        assign ''vm_route1'' (struct ''sai_thrift_route_entry_t'' [(''vr_id'', self ''ovrf''), (''destination'', ip_prefix (add
          (self ''vm_ip1'') (str ''/32'')))]),
        run (api_create_entry ''route_entry'' (var ''vm_route1'') [(''next_hop_id'', var ''tunnel_nhop1'')]),
        assign ''vm_v6_route1'' (struct ''sai_thrift_route_entry_t'' [(''vr_id'', self ''ovrf''), (''destination'', ip_prefix
          (add (self ''vm_ipv61'') (str ''/128'')))]),
        run (api_create_entry ''route_entry'' (var ''vm_v6_route1'') [(''next_hop_id'', var ''tunnel_nhop1'')]),
        assign ''vm_route2'' (struct ''sai_thrift_route_entry_t'' [(''vr_id'', self ''ovrf''), (''destination'', ip_prefix (add
          (var ''serv_vm_ip'') (str ''/32'')))]),
        run (api_create_entry ''route_entry'' (var ''vm_route2'') [(''next_hop_id'', var ''tunnel_nhop2'')]),
        assign ''vm_v6_route2'' (struct ''sai_thrift_route_entry_t'' [(''vr_id'', self ''ovrf''), (''destination'', ip_prefix
          (add (var ''serv_vm_ipv6'') (str ''/128'')))]),
        run (api_create_entry ''route_entry'' (var ''vm_v6_route2'') [(''next_hop_id'', var ''tunnel_nhop2'')]),
        run (invoke [(''rcv_ports'', var ''uport1''), (''pkt_data'', none)] TunnelNhopResolutionBase_v4TrafficTest),
        run (invoke [(''rcv_ports'', var ''uport1''), (''pkt_data'', none)] TunnelNhopResolutionBase_v6TrafficTest),
        run (invoke [(''rcv_ports'', var ''uport2''), (''pkt_data'', dict_of [(str ''dmac'', self ''unbor_mac2''), (str
          ''idmac'', self ''inner_dmac2''), (str ''dst_ip'', var ''serv_vm_ip''), (str ''tun_ip'', var ''serv_ip''), (str
          ''vni'', var ''serv_vni1'')])] TunnelNhopResolutionBase_v4TrafficTest),
        run (invoke [(''rcv_ports'', var ''uport2''), (''pkt_data'', dict_of [(str ''dmac'', self ''unbor_mac2''), (str
          ''idmac'', self ''inner_dmac2''), (str ''dst_ip'', var ''serv_vm_ipv6''), (str ''tun_ip'', var ''serv_ip''), (str
          ''vni'', var ''serv_vni1'')])] TunnelNhopResolutionBase_v6TrafficTest),
        run (api_set ''next_hop'' (var ''tunnel_nhop2'') [(''tunnel_vni'', var ''serv_vni2'')]),
        run (invoke [(''rcv_ports'', var ''uport2''), (''pkt_data'', dict_of [(str ''dmac'', self ''unbor_mac2''), (str
          ''idmac'', self ''inner_dmac2''), (str ''dst_ip'', var ''serv_vm_ip''), (str ''tun_ip'', var ''serv_ip''), (str
          ''vni'', var ''serv_vni2'')])] TunnelNhopResolutionBase_v4TrafficTest),
        run (invoke [(''rcv_ports'', var ''uport2''), (''pkt_data'', dict_of [(str ''dmac'', self ''unbor_mac2''), (str
          ''idmac'', self ''inner_dmac2''), (str ''dst_ip'', var ''serv_vm_ipv6''), (str ''tun_ip'', var ''serv_ip''), (str
          ''vni'', var ''serv_vni2'')])] TunnelNhopResolutionBase_v6TrafficTest)] [
        run (api_remove ''route_entry'' (var ''vm_v6_route2'')),
        run (api_remove ''route_entry'' (var ''vm_route2'')),
        run (api_remove ''route_entry'' (var ''vm_v6_route1'')),
        run (api_remove ''route_entry'' (var ''vm_route1'')),
        run (api_remove ''next_hop'' (var ''tunnel_nhop2'')),
        run (api_remove ''next_hop'' (var ''tunnel_nhop1'')),
        run (api_remove ''route_entry'' (var ''tunnel_route2'')),
        run (api_remove ''next_hop'' (var ''unhop2'')),
        run (api_remove ''neighbor_entry'' (var ''unbor2'')),
        run (api_remove ''route_entry'' (var ''tunnel_route1'')),
        run (api_remove ''next_hop'' (var ''unhop1'')),
        run (api_remove ''neighbor_entry'' (var ''unbor1''))]]"

definition TunnelNhopResolutionBase_multiTunnelNhopTest :: "'d stmt" where
  "TunnelNhopResolutionBase_multiTunnelNhopTest = block [
      assign ''uport1'' (self ''port25''),
      assign ''uport1_dev'' (list_of [self ''dev_port25'']),
      assign ''uport2'' (self ''port26''),
      assign ''uport_dev2'' (list_of [self ''dev_port26'']),
      try_finally [
        assign ''urif1'' (api_create ''router_interface'' [(''type'', num SAI_ROUTER_INTERFACE_TYPE_PORT),
          (''virtual_router_id'', self ''uvrf''), (''port_id'', var ''uport1'')]),
        assign ''urif2'' (api_create ''router_interface'' [(''type'', num SAI_ROUTER_INTERFACE_TYPE_PORT),
          (''virtual_router_id'', self ''uvrf''), (''port_id'', var ''uport2'')]),
        run (invoke [(''urif'', var ''urif1''), (''uport'', var ''uport1_dev'')]
          TunnelNhopResolutionBase_multiNhopSequenceTest1),
        run (invoke [(''urif'', var ''urif1''), (''uport'', var ''uport1_dev'')]
          TunnelNhopResolutionBase_multiNhopSequenceTest2),
        run (invoke [(''urif'', var ''urif1''), (''uport'', var ''uport1_dev'')]
          TunnelNhopResolutionBase_multiNhopSequenceTest3),
        run (invoke [(''urif_data'', list_of [list_of [var ''urif1'', var ''uport1_dev''], list_of [var ''urif2'', var
          ''uport_dev2'']])] TunnelNhopResolutionBase_multiNhopFallbackTest),
        run (invoke [(''urif_data'', list_of [list_of [var ''urif1'', var ''uport1_dev''], list_of [var ''urif2'', var
          ''uport_dev2'']])] TunnelNhopResolutionBase_tunnelVniNexthopTest)] [
        run (api_remove ''router_interface'' (var ''urif2'')),
        run (api_remove ''router_interface'' (var ''urif1''))]]"

definition TunnelNhopResolutionBase_v4TrafficEcmpTest :: "'d stmt" where
  "TunnelNhopResolutionBase_v4TrafficEcmpTest = block [
      assign ''pkt'' (lib ''simple_udp_packet'' [] [(''eth_dst'', str ROUTER_MAC), (''eth_src'', self ''customer_mac''),
        (''ip_dst'', self ''vm_ip1''), (''ip_src'', self ''customer_ip''), (''ip_id'', num 108), (''ip_ttl'', num 64)]),
      assign ''exp_pkts'' (list_of []),
      assign ''ports'' (as_list (keys_of (var ''pkt_params''))),
      for_in [''port''] (var ''pkt_params'') [
        assign ''inner_pkt'' (lib ''simple_udp_packet'' [] [(''eth_dst'', item (item (var ''pkt_params'') (var ''port'')) (str
          ''idmac'')), (''eth_src'', str ROUTER_MAC), (''ip_dst'', self ''vm_ip1''), (''ip_src'', self ''customer_ip''),
          (''ip_id'', num 108), (''ip_ttl'', num 63)]),
        if_else (is_false (self ''ipv6'')) [
          assign ''vxlan_pkt'' (lib ''Mask'' [lib ''simple_vxlan_packet'' [] [(''eth_dst'', item (item (var ''pkt_params'') (var
            ''port'')) (str ''dmac'')), (''eth_src'', str ROUTER_MAC), (''ip_dst'', item (item (var ''pkt_params'') (var
            ''port'')) (str ''tun_ip'')), (''ip_src'', self ''lpb_ip''), (''ip_id'', num 0), (''dl_vlan_enable'', bool False),
            (''ip_ttl'', num 64), (''ip_flags'', num 2), (''with_udp_chksum'', bool False), (''vxlan_vni'', self ''vni''),
            (''inner_frame'', var ''inner_pkt'')]] [])] [
          assign ''vxlan_pkt'' (lib ''Mask'' [lib ''simple_vxlanv6_packet'' [] [(''eth_dst'', item (item (var ''pkt_params'')
            (var ''port'')) (str ''dmac'')), (''eth_src'', str ROUTER_MAC), (''ipv6_dst'', item (item (var ''pkt_params'') (var
            ''port'')) (str ''tun_ip'')), (''ipv6_src'', self ''lpb_ip''), (''dl_vlan_enable'', bool False), (''ipv6_hlim'', num
            64), (''with_udp_chksum'', bool False), (''vxlan_vni'', self ''vni''), (''inner_frame'', var ''inner_pkt'')]] [])],
        assign ''vxlan_pkt'' (lib ''.set_do_not_care_scapy'' [var ''vxlan_pkt'', str ''UDP'', str ''sport''] []),
        assign ''exp_pkts'' (appended (var ''exp_pkts'') (var ''vxlan_pkt''))],
      run (lib ''send_packet'' [self ''oport_dev'', var ''pkt''] []),
      run (lib ''verify_any_packet_any_port'' [var ''exp_pkts'', var ''ports''] [])]"

definition TunnelNhopResolutionBase_v6TrafficEcmpTest :: "'d stmt" where
  "TunnelNhopResolutionBase_v6TrafficEcmpTest = block [
      assign ''pkt'' (lib ''simple_udpv6_packet'' [] [(''eth_dst'', str ROUTER_MAC), (''eth_src'', self ''customer_mac''),
        (''ipv6_dst'', self ''vm_ipv61''), (''ipv6_src'', self ''customer_ipv6''), (''ipv6_hlim'', num 64)]),
      assign ''exp_pkts'' (list_of []),
      assign ''ports'' (as_list (keys_of (var ''pkt_params''))),
      for_in [''port''] (var ''pkt_params'') [
        assign ''inner_pkt'' (lib ''simple_udpv6_packet'' [] [(''eth_dst'', item (item (var ''pkt_params'') (var ''port'')) (str
          ''idmac'')), (''eth_src'', str ROUTER_MAC), (''ipv6_dst'', self ''vm_ipv61''), (''ipv6_src'', self ''customer_ipv6''),
          (''ipv6_hlim'', num 63)]),
        if_else (is_false (self ''ipv6'')) [
          assign ''vxlan_pkt'' (lib ''Mask'' [lib ''simple_vxlan_packet'' [] [(''eth_dst'', item (item (var ''pkt_params'') (var
            ''port'')) (str ''dmac'')), (''eth_src'', str ROUTER_MAC), (''ip_dst'', item (item (var ''pkt_params'') (var
            ''port'')) (str ''tun_ip'')), (''ip_src'', self ''lpb_ip''), (''ip_id'', num 0), (''dl_vlan_enable'', bool False),
            (''ip_ttl'', num 64), (''ip_flags'', num 2), (''with_udp_chksum'', bool False), (''vxlan_vni'', self ''vni''),
            (''inner_frame'', var ''inner_pkt'')]] [])] [
          assign ''vxlan_pkt'' (lib ''Mask'' [lib ''simple_vxlanv6_packet'' [] [(''eth_dst'', item (item (var ''pkt_params'')
            (var ''port'')) (str ''dmac'')), (''eth_src'', str ROUTER_MAC), (''ipv6_dst'', item (item (var ''pkt_params'') (var
            ''port'')) (str ''tun_ip'')), (''ipv6_src'', self ''lpb_ip''), (''dl_vlan_enable'', bool False), (''ipv6_hlim'', num
            64), (''with_udp_chksum'', bool False), (''vxlan_vni'', self ''vni''), (''inner_frame'', var ''inner_pkt'')]] [])],
        assign ''vxlan_pkt'' (lib ''.set_do_not_care_scapy'' [var ''vxlan_pkt'', str ''UDP'', str ''sport''] []),
        assign ''exp_pkts'' (appended (var ''exp_pkts'') (var ''vxlan_pkt''))],
      run (lib ''send_packet'' [self ''oport_dev'', var ''pkt''] []),
      run (lib ''verify_any_packet_any_port'' [var ''exp_pkts'', var ''ports''] [])]"

definition TunnelNhopResolutionBase_ecmpTunnelSequenceTest1 :: "'d stmt" where
  "TunnelNhopResolutionBase_ecmpTunnelSequenceTest1 = block [
      assign ''urif1'' (item (item (var ''urif_data'') (num 0)) (num 0)),
      assign ''uport1'' (item (item (var ''urif_data'') (num 0)) (num 1)),
      assign ''urif2'' (item (item (var ''urif_data'') (num 1)) (num 0)),
      assign ''uport2'' (item (item (var ''urif_data'') (num 1)) (num 1)),
      assign ''urif3'' (item (item (var ''urif_data'') (num 2)) (num 0)),
      assign ''uport3'' (item (item (var ''urif_data'') (num 2)) (num 1)),
      try_finally [
        assign ''tunnel_nhop1'' (api_create ''next_hop'' [(''type'', num SAI_NEXT_HOP_TYPE_TUNNEL_ENCAP), (''tunnel_id'', self
          ''tunnel''), (''ip'', ip_address (self ''tun_ip1'')), (''tunnel_mac'', self ''inner_dmac1''), (''tunnel_vni'', self
          ''vni'')]),
        assign ''tunnel_nhop2'' (api_create ''next_hop'' [(''type'', num SAI_NEXT_HOP_TYPE_TUNNEL_ENCAP), (''tunnel_id'', self
          ''tunnel''), (''ip'', ip_address (self ''tun_ip2'')), (''tunnel_mac'', self ''inner_dmac2''), (''tunnel_vni'', self
          ''vni'')]),
        assign ''tunnel_nhop3'' (api_create ''next_hop'' [(''type'', num SAI_NEXT_HOP_TYPE_TUNNEL_ENCAP), (''tunnel_id'', self
          ''tunnel''), (''ip'', ip_address (self ''tun_ip3'')), (''tunnel_mac'', self ''inner_dmac3''), (''tunnel_vni'', self
          ''vni'')]),
        assign ''tunnel_ecmp'' (api_create ''next_hop_group'' [(''type'', num SAI_NEXT_HOP_GROUP_TYPE_ECMP)]),
        assign ''tunnel_ecmp_member1'' (api_create ''next_hop_group_member'' [(''next_hop_group_id'', var ''tunnel_ecmp''),
          (''next_hop_id'', var ''tunnel_nhop1'')]),
        assign ''tunnel_ecmp_member2'' (api_create ''next_hop_group_member'' [(''next_hop_group_id'', var ''tunnel_ecmp''),
          (''next_hop_id'', var ''tunnel_nhop2'')]),
        assign ''tunnel_ecmp_member3'' (api_create ''next_hop_group_member'' [(''next_hop_group_id'', var ''tunnel_ecmp''),
          (''next_hop_id'', var ''tunnel_nhop3'')]),
        assign ''vm_route'' (struct ''sai_thrift_route_entry_t'' [(''vr_id'', self ''ovrf''), (''destination'', ip_prefix (add
          (self ''vm_ip1'') (str ''/32'')))]),
        run (api_create_entry ''route_entry'' (var ''vm_route'') [(''next_hop_id'', var ''tunnel_ecmp'')]),
        assign ''vm_v6_route'' (struct ''sai_thrift_route_entry_t'' [(''vr_id'', self ''ovrf''), (''destination'', ip_prefix
          (add (self ''vm_ipv61'') (str ''/128'')))]),
        run (api_create_entry ''route_entry'' (var ''vm_v6_route'') [(''next_hop_id'', var ''tunnel_ecmp'')]),
        assign ''unhop1'' (api_create ''next_hop'' [(''ip'', ip_address (self ''tun_ip1'')), (''router_interface_id'', var
          ''urif1''), (''type'', num SAI_NEXT_HOP_TYPE_IP)]),
        assign ''unbor1'' (struct ''sai_thrift_neighbor_entry_t'' [(''rif_id'', var ''urif1''), (''ip_address'', ip_address
          (self ''tun_ip1''))]),
        run (api_create_entry ''neighbor_entry'' (var ''unbor1'') [(''dst_mac_address'', self ''unbor_mac1''),
          (''no_host_route'', bool True)]),
        assign ''tunnel_route1'' (struct ''sai_thrift_route_entry_t'' [(''vr_id'', self ''uvrf''), (''destination'', ip_prefix
          (add (self ''tun_ip1'') (self ''tun_ip_mask'')))]),
        run (api_create_entry ''route_entry'' (var ''tunnel_route1'') [(''next_hop_id'', var ''unhop1'')]),
        assign ''unhop2'' (api_create ''next_hop'' [(''ip'', ip_address (self ''tun_ip2'')), (''router_interface_id'', var
          ''urif2''), (''type'', num SAI_NEXT_HOP_TYPE_IP)]),
        assign ''unbor2'' (struct ''sai_thrift_neighbor_entry_t'' [(''rif_id'', var ''urif2''), (''ip_address'', ip_address
          (self ''tun_ip2''))]),
        run (api_create_entry ''neighbor_entry'' (var ''unbor2'') [(''dst_mac_address'', self ''unbor_mac2''),
          (''no_host_route'', bool True)]),
        assign ''tunnel_route2'' (struct ''sai_thrift_route_entry_t'' [(''vr_id'', self ''uvrf''), (''destination'', ip_prefix
          (add (self ''tun_ip2'') (self ''tun_ip_mask'')))]),
        run (api_create_entry ''route_entry'' (var ''tunnel_route2'') [(''next_hop_id'', var ''unhop2'')]),
        assign ''unhop3'' (api_create ''next_hop'' [(''ip'', ip_address (self ''tun_ip3'')), (''router_interface_id'', var
          ''urif3''), (''type'', num SAI_NEXT_HOP_TYPE_IP)]),
        assign ''unbor3'' (struct ''sai_thrift_neighbor_entry_t'' [(''rif_id'', var ''urif3''), (''ip_address'', ip_address
          (self ''tun_ip3''))]),
        run (api_create_entry ''neighbor_entry'' (var ''unbor3'') [(''dst_mac_address'', self ''unbor_mac3''),
          (''no_host_route'', bool True)]),
        assign ''tunnel_route3'' (struct ''sai_thrift_route_entry_t'' [(''vr_id'', self ''uvrf''), (''destination'', ip_prefix
          (add (self ''tun_ip3'') (self ''tun_ip_mask'')))]),
        run (api_create_entry ''route_entry'' (var ''tunnel_route3'') [(''next_hop_id'', var ''unhop3'')]),
        assign ''pkt_params'' (dict_of [(var ''uport1'', dict_of [(str ''dmac'', self ''unbor_mac1''), (str ''idmac'', self
          ''inner_dmac1''), (str ''tun_ip'', self ''tun_ip1'')]), (var ''uport2'', dict_of [(str ''dmac'', self ''unbor_mac2''),
          (str ''idmac'', self ''inner_dmac2''), (str ''tun_ip'', self ''tun_ip2'')]), (var ''uport3'', dict_of [(str ''dmac'',
          self ''unbor_mac3''), (str ''idmac'', self ''inner_dmac3''), (str ''tun_ip'', self ''tun_ip3'')])]),
        run (invoke [(''pkt_params'', var ''pkt_params'')] TunnelNhopResolutionBase_v4TrafficEcmpTest),
        run (invoke [(''pkt_params'', var ''pkt_params'')] TunnelNhopResolutionBase_v6TrafficEcmpTest)] [
        run (api_remove ''route_entry'' (var ''tunnel_route3'')),
        run (api_remove ''neighbor_entry'' (var ''unbor3'')),
        run (api_remove ''next_hop'' (var ''unhop3'')),
        run (api_remove ''route_entry'' (var ''tunnel_route2'')),
        run (api_remove ''neighbor_entry'' (var ''unbor2'')),
        run (api_remove ''next_hop'' (var ''unhop2'')),
        run (api_remove ''route_entry'' (var ''tunnel_route1'')),
        run (api_remove ''neighbor_entry'' (var ''unbor1'')),
        run (api_remove ''next_hop'' (var ''unhop1'')),
        run (api_remove ''route_entry'' (var ''vm_v6_route'')),
        run (api_remove ''route_entry'' (var ''vm_route'')),
        run (api_remove ''next_hop_group_member'' (var ''tunnel_ecmp_member3'')),
        run (api_remove ''next_hop_group_member'' (var ''tunnel_ecmp_member2'')),
        run (api_remove ''next_hop_group_member'' (var ''tunnel_ecmp_member1'')),
        run (api_remove ''next_hop_group'' (var ''tunnel_ecmp'')),
        run (api_remove ''next_hop'' (var ''tunnel_nhop3'')),
        run (api_remove ''next_hop'' (var ''tunnel_nhop2'')),
        run (api_remove ''next_hop'' (var ''tunnel_nhop1''))]]"

definition TunnelNhopResolutionBase_ecmpTunnelSequenceTest2 :: "'d stmt" where
  "TunnelNhopResolutionBase_ecmpTunnelSequenceTest2 = block [
      assign ''urif1'' (item (item (var ''urif_data'') (num 0)) (num 0)),
      assign ''uport1'' (item (item (var ''urif_data'') (num 0)) (num 1)),
      assign ''urif2'' (item (item (var ''urif_data'') (num 1)) (num 0)),
      assign ''uport2'' (item (item (var ''urif_data'') (num 1)) (num 1)),
      assign ''urif3'' (item (item (var ''urif_data'') (num 2)) (num 0)),
      assign ''uport3'' (item (item (var ''urif_data'') (num 2)) (num 1)),
      try_finally [
        assign ''tunnel_ecmp'' (api_create ''next_hop_group'' [(''type'', num SAI_NEXT_HOP_GROUP_TYPE_ECMP)]),
        assign ''vm_route'' (struct ''sai_thrift_route_entry_t'' [(''vr_id'', self ''ovrf''), (''destination'', ip_prefix (add
          (self ''vm_ip1'') (str ''/32'')))]),
        run (api_create_entry ''route_entry'' (var ''vm_route'') [(''next_hop_id'', var ''tunnel_ecmp'')]),
        assign ''vm_v6_route'' (struct ''sai_thrift_route_entry_t'' [(''vr_id'', self ''ovrf''), (''destination'', ip_prefix
          (add (self ''vm_ipv61'') (str ''/128'')))]),
        run (api_create_entry ''route_entry'' (var ''vm_v6_route'') [(''next_hop_id'', var ''tunnel_ecmp'')]),
        assign ''tunnel_nhop1'' (api_create ''next_hop'' [(''type'', num SAI_NEXT_HOP_TYPE_TUNNEL_ENCAP), (''tunnel_id'', self
          ''tunnel''), (''ip'', ip_address (self ''tun_ip1'')), (''tunnel_mac'', self ''inner_dmac1''), (''tunnel_vni'', self
          ''vni'')]),
        assign ''tunnel_nhop2'' (api_create ''next_hop'' [(''type'', num SAI_NEXT_HOP_TYPE_TUNNEL_ENCAP), (''tunnel_id'', self
          ''tunnel''), (''ip'', ip_address (self ''tun_ip2'')), (''tunnel_mac'', self ''inner_dmac2''), (''tunnel_vni'', self
          ''vni'')]),
        assign ''tunnel_nhop3'' (api_create ''next_hop'' [(''type'', num SAI_NEXT_HOP_TYPE_TUNNEL_ENCAP), (''tunnel_id'', self
          ''tunnel''), (''ip'', ip_address (self ''tun_ip3'')), (''tunnel_mac'', self ''inner_dmac3''), (''tunnel_vni'', self
          ''vni'')]),
        assign ''tunnel_ecmp_member1'' (api_create ''next_hop_group_member'' [(''next_hop_group_id'', var ''tunnel_ecmp''),
          (''next_hop_id'', var ''tunnel_nhop1'')]),
        assign ''tunnel_ecmp_member2'' (api_create ''next_hop_group_member'' [(''next_hop_group_id'', var ''tunnel_ecmp''),
          (''next_hop_id'', var ''tunnel_nhop2'')]),
        assign ''tunnel_ecmp_member3'' (api_create ''next_hop_group_member'' [(''next_hop_group_id'', var ''tunnel_ecmp''),
          (''next_hop_id'', var ''tunnel_nhop3'')]),
        assign ''unhop1'' (api_create ''next_hop'' [(''ip'', ip_address (self ''tun_ip1'')), (''router_interface_id'', var
          ''urif1''), (''type'', num SAI_NEXT_HOP_TYPE_IP)]),
        assign ''unbor1'' (struct ''sai_thrift_neighbor_entry_t'' [(''rif_id'', var ''urif1''), (''ip_address'', ip_address
          (self ''tun_ip1''))]),
        run (api_create_entry ''neighbor_entry'' (var ''unbor1'') [(''dst_mac_address'', self ''unbor_mac1''),
          (''no_host_route'', bool True)]),
        assign ''tunnel_route1'' (struct ''sai_thrift_route_entry_t'' [(''vr_id'', self ''uvrf''), (''destination'', ip_prefix
          (add (self ''tun_ip1'') (self ''tun_ip_mask'')))]),
        run (api_create_entry ''route_entry'' (var ''tunnel_route1'') [(''next_hop_id'', var ''unhop1'')]),
        assign ''unhop2'' (api_create ''next_hop'' [(''ip'', ip_address (self ''tun_ip2'')), (''router_interface_id'', var
          ''urif2''), (''type'', num SAI_NEXT_HOP_TYPE_IP)]),
        assign ''unbor2'' (struct ''sai_thrift_neighbor_entry_t'' [(''rif_id'', var ''urif2''), (''ip_address'', ip_address
          (self ''tun_ip2''))]),
        run (api_create_entry ''neighbor_entry'' (var ''unbor2'') [(''dst_mac_address'', self ''unbor_mac2''),
          (''no_host_route'', bool True)]),
        assign ''tunnel_route2'' (struct ''sai_thrift_route_entry_t'' [(''vr_id'', self ''uvrf''), (''destination'', ip_prefix
          (add (self ''tun_ip2'') (self ''tun_ip_mask'')))]),
        run (api_create_entry ''route_entry'' (var ''tunnel_route2'') [(''next_hop_id'', var ''unhop2'')]),
        assign ''unhop3'' (api_create ''next_hop'' [(''ip'', ip_address (self ''tun_ip3'')), (''router_interface_id'', var
          ''urif3''), (''type'', num SAI_NEXT_HOP_TYPE_IP)]),
        assign ''unbor3'' (struct ''sai_thrift_neighbor_entry_t'' [(''rif_id'', var ''urif3''), (''ip_address'', ip_address
          (self ''tun_ip3''))]),
        run (api_create_entry ''neighbor_entry'' (var ''unbor3'') [(''dst_mac_address'', self ''unbor_mac3''),
          (''no_host_route'', bool True)]),
        assign ''tunnel_route3'' (struct ''sai_thrift_route_entry_t'' [(''vr_id'', self ''uvrf''), (''destination'', ip_prefix
          (add (self ''tun_ip3'') (self ''tun_ip_mask'')))]),
        run (api_create_entry ''route_entry'' (var ''tunnel_route3'') [(''next_hop_id'', var ''unhop3'')]),
        assign ''pkt_params'' (dict_of [(var ''uport1'', dict_of [(str ''dmac'', self ''unbor_mac1''), (str ''idmac'', self
          ''inner_dmac1''), (str ''tun_ip'', self ''tun_ip1'')]), (var ''uport2'', dict_of [(str ''dmac'', self ''unbor_mac2''),
          (str ''idmac'', self ''inner_dmac2''), (str ''tun_ip'', self ''tun_ip2'')]), (var ''uport3'', dict_of [(str ''dmac'',
          self ''unbor_mac3''), (str ''idmac'', self ''inner_dmac3''), (str ''tun_ip'', self ''tun_ip3'')])]),
        run (invoke [(''pkt_params'', var ''pkt_params'')] TunnelNhopResolutionBase_v4TrafficEcmpTest),
        run (invoke [(''pkt_params'', var ''pkt_params'')] TunnelNhopResolutionBase_v6TrafficEcmpTest)] [
        run (api_remove ''route_entry'' (var ''tunnel_route3'')),
        run (api_remove ''neighbor_entry'' (var ''unbor3'')),
        run (api_remove ''next_hop'' (var ''unhop3'')),
        run (api_remove ''route_entry'' (var ''tunnel_route2'')),
        run (api_remove ''neighbor_entry'' (var ''unbor2'')),
        run (api_remove ''next_hop'' (var ''unhop2'')),
        run (api_remove ''route_entry'' (var ''tunnel_route1'')),
        run (api_remove ''neighbor_entry'' (var ''unbor1'')),
        run (api_remove ''next_hop'' (var ''unhop1'')),
        run (api_remove ''next_hop_group_member'' (var ''tunnel_ecmp_member3'')),
        run (api_remove ''next_hop_group_member'' (var ''tunnel_ecmp_member2'')),
        run (api_remove ''next_hop_group_member'' (var ''tunnel_ecmp_member1'')),
        run (api_remove ''next_hop'' (var ''tunnel_nhop3'')),
        run (api_remove ''next_hop'' (var ''tunnel_nhop2'')),
        run (api_remove ''next_hop'' (var ''tunnel_nhop1'')),
        run (api_remove ''route_entry'' (var ''vm_v6_route'')),
        run (api_remove ''route_entry'' (var ''vm_route'')),
        run (api_remove ''next_hop_group'' (var ''tunnel_ecmp''))]]"

definition TunnelNhopResolutionBase_ecmpTunnelSequenceTest3 :: "'d stmt" where
  "TunnelNhopResolutionBase_ecmpTunnelSequenceTest3 = block [
      assign ''urif1'' (item (item (var ''urif_data'') (num 0)) (num 0)),
      assign ''uport1'' (item (item (var ''urif_data'') (num 0)) (num 1)),
      assign ''urif2'' (item (item (var ''urif_data'') (num 1)) (num 0)),
      assign ''uport2'' (item (item (var ''urif_data'') (num 1)) (num 1)),
      assign ''urif3'' (item (item (var ''urif_data'') (num 2)) (num 0)),
      assign ''uport3'' (item (item (var ''urif_data'') (num 2)) (num 1)),
      try_finally [
        assign ''tunnel_ecmp'' (api_create ''next_hop_group'' [(''type'', num SAI_NEXT_HOP_GROUP_TYPE_ECMP)]),
        assign ''vm_route'' (struct ''sai_thrift_route_entry_t'' [(''vr_id'', self ''ovrf''), (''destination'', ip_prefix (add
          (self ''vm_ip1'') (str ''/32'')))]),
        run (api_create_entry ''route_entry'' (var ''vm_route'') [(''next_hop_id'', var ''tunnel_ecmp'')]),
        assign ''vm_v6_route'' (struct ''sai_thrift_route_entry_t'' [(''vr_id'', self ''ovrf''), (''destination'', ip_prefix
          (add (self ''vm_ipv61'') (str ''/128'')))]),
        run (api_create_entry ''route_entry'' (var ''vm_v6_route'') [(''next_hop_id'', var ''tunnel_ecmp'')]),
        assign ''unhop1'' (api_create ''next_hop'' [(''ip'', ip_address (self ''tun_ip1'')), (''router_interface_id'', var
          ''urif1''), (''type'', num SAI_NEXT_HOP_TYPE_IP)]),
        assign ''unbor1'' (struct ''sai_thrift_neighbor_entry_t'' [(''rif_id'', var ''urif1''), (''ip_address'', ip_address
          (self ''tun_ip1''))]),
        run (api_create_entry ''neighbor_entry'' (var ''unbor1'') [(''dst_mac_address'', self ''unbor_mac1''),
          (''no_host_route'', bool True)]),
        assign ''tunnel_route1'' (struct ''sai_thrift_route_entry_t'' [(''vr_id'', self ''uvrf''), (''destination'', ip_prefix
          (add (self ''tun_ip1'') (self ''tun_ip_mask'')))]),
        run (api_create_entry ''route_entry'' (var ''tunnel_route1'') [(''next_hop_id'', var ''unhop1'')]),
        assign ''unhop2'' (api_create ''next_hop'' [(''ip'', ip_address (self ''tun_ip2'')), (''router_interface_id'', var
          ''urif2''), (''type'', num SAI_NEXT_HOP_TYPE_IP)]),
        assign ''unbor2'' (struct ''sai_thrift_neighbor_entry_t'' [(''rif_id'', var ''urif2''), (''ip_address'', ip_address
          (self ''tun_ip2''))]),
        run (api_create_entry ''neighbor_entry'' (var ''unbor2'') [(''dst_mac_address'', self ''unbor_mac2''),
          (''no_host_route'', bool True)]),
        assign ''tunnel_route2'' (struct ''sai_thrift_route_entry_t'' [(''vr_id'', self ''uvrf''), (''destination'', ip_prefix
          (add (self ''tun_ip2'') (self ''tun_ip_mask'')))]),
        run (api_create_entry ''route_entry'' (var ''tunnel_route2'') [(''next_hop_id'', var ''unhop2'')]),
        assign ''unhop3'' (api_create ''next_hop'' [(''ip'', ip_address (self ''tun_ip3'')), (''router_interface_id'', var
          ''urif3''), (''type'', num SAI_NEXT_HOP_TYPE_IP)]),
        assign ''unbor3'' (struct ''sai_thrift_neighbor_entry_t'' [(''rif_id'', var ''urif3''), (''ip_address'', ip_address
          (self ''tun_ip3''))]),
        run (api_create_entry ''neighbor_entry'' (var ''unbor3'') [(''dst_mac_address'', self ''unbor_mac3''),
          (''no_host_route'', bool True)]),
        assign ''tunnel_route3'' (struct ''sai_thrift_route_entry_t'' [(''vr_id'', self ''uvrf''), (''destination'', ip_prefix
          (add (self ''tun_ip3'') (self ''tun_ip_mask'')))]),
        run (api_create_entry ''route_entry'' (var ''tunnel_route3'') [(''next_hop_id'', var ''unhop3'')]),
        assign ''tunnel_nhop1'' (api_create ''next_hop'' [(''type'', num SAI_NEXT_HOP_TYPE_TUNNEL_ENCAP), (''tunnel_id'', self
          ''tunnel''), (''ip'', ip_address (self ''tun_ip1'')), (''tunnel_mac'', self ''inner_dmac1''), (''tunnel_vni'', self
          ''vni'')]),
        assign ''tunnel_nhop2'' (api_create ''next_hop'' [(''type'', num SAI_NEXT_HOP_TYPE_TUNNEL_ENCAP), (''tunnel_id'', self
          ''tunnel''), (''ip'', ip_address (self ''tun_ip2'')), (''tunnel_mac'', self ''inner_dmac2''), (''tunnel_vni'', self
          ''vni'')]),
        assign ''tunnel_nhop3'' (api_create ''next_hop'' [(''type'', num SAI_NEXT_HOP_TYPE_TUNNEL_ENCAP), (''tunnel_id'', self
          ''tunnel''), (''ip'', ip_address (self ''tun_ip3'')), (''tunnel_mac'', self ''inner_dmac3''), (''tunnel_vni'', self
          ''vni'')]),
        assign ''tunnel_ecmp_member1'' (api_create ''next_hop_group_member'' [(''next_hop_group_id'', var ''tunnel_ecmp''),
          (''next_hop_id'', var ''tunnel_nhop1'')]),
        assign ''tunnel_ecmp_member2'' (api_create ''next_hop_group_member'' [(''next_hop_group_id'', var ''tunnel_ecmp''),
          (''next_hop_id'', var ''tunnel_nhop2'')]),
        assign ''tunnel_ecmp_member3'' (api_create ''next_hop_group_member'' [(''next_hop_group_id'', var ''tunnel_ecmp''),
          (''next_hop_id'', var ''tunnel_nhop3'')]),
        assign ''pkt_params'' (dict_of [(var ''uport1'', dict_of [(str ''dmac'', self ''unbor_mac1''), (str ''idmac'', self
          ''inner_dmac1''), (str ''tun_ip'', self ''tun_ip1'')]), (var ''uport2'', dict_of [(str ''dmac'', self ''unbor_mac2''),
          (str ''idmac'', self ''inner_dmac2''), (str ''tun_ip'', self ''tun_ip2'')]), (var ''uport3'', dict_of [(str ''dmac'',
          self ''unbor_mac3''), (str ''idmac'', self ''inner_dmac3''), (str ''tun_ip'', self ''tun_ip3'')])]),
        run (invoke [(''pkt_params'', var ''pkt_params'')] TunnelNhopResolutionBase_v4TrafficEcmpTest),
        run (invoke [(''pkt_params'', var ''pkt_params'')] TunnelNhopResolutionBase_v6TrafficEcmpTest)] [
        run (api_remove ''next_hop_group_member'' (var ''tunnel_ecmp_member3'')),
        run (api_remove ''next_hop_group_member'' (var ''tunnel_ecmp_member2'')),
        run (api_remove ''next_hop_group_member'' (var ''tunnel_ecmp_member1'')),
        run (api_remove ''next_hop'' (var ''tunnel_nhop3'')),
        run (api_remove ''next_hop'' (var ''tunnel_nhop2'')),
        run (api_remove ''next_hop'' (var ''tunnel_nhop1'')),
        run (api_remove ''route_entry'' (var ''tunnel_route3'')),
        run (api_remove ''neighbor_entry'' (var ''unbor3'')),
        run (api_remove ''next_hop'' (var ''unhop3'')),
        run (api_remove ''route_entry'' (var ''tunnel_route2'')),
        run (api_remove ''neighbor_entry'' (var ''unbor2'')),
        run (api_remove ''next_hop'' (var ''unhop2'')),
        run (api_remove ''route_entry'' (var ''tunnel_route1'')),
        run (api_remove ''neighbor_entry'' (var ''unbor1'')),
        run (api_remove ''next_hop'' (var ''unhop1'')),
        run (api_remove ''route_entry'' (var ''vm_v6_route'')),
        run (api_remove ''route_entry'' (var ''vm_route'')),
        run (api_remove ''next_hop_group'' (var ''tunnel_ecmp''))]]"

definition TunnelNhopResolutionBase_ecmpTunnelSequenceTest4 :: "'d stmt" where
  "TunnelNhopResolutionBase_ecmpTunnelSequenceTest4 = block [
      assign ''urif1'' (item (item (var ''urif_data'') (num 0)) (num 0)),
      assign ''uport1'' (item (item (var ''urif_data'') (num 0)) (num 1)),
      assign ''urif2'' (item (item (var ''urif_data'') (num 1)) (num 0)),
      assign ''uport2'' (item (item (var ''urif_data'') (num 1)) (num 1)),
      assign ''urif3'' (item (item (var ''urif_data'') (num 2)) (num 0)),
      assign ''uport3'' (item (item (var ''urif_data'') (num 2)) (num 1)),
      try_finally [
        assign ''unhop1'' (api_create ''next_hop'' [(''ip'', ip_address (self ''tun_ip1'')), (''router_interface_id'', var
          ''urif1''), (''type'', num SAI_NEXT_HOP_TYPE_IP)]),
        assign ''unbor1'' (struct ''sai_thrift_neighbor_entry_t'' [(''rif_id'', var ''urif1''), (''ip_address'', ip_address
          (self ''tun_ip1''))]),
        run (api_create_entry ''neighbor_entry'' (var ''unbor1'') [(''dst_mac_address'', self ''unbor_mac1''),
          (''no_host_route'', bool True)]),
        assign ''tunnel_route1'' (struct ''sai_thrift_route_entry_t'' [(''vr_id'', self ''uvrf''), (''destination'', ip_prefix
          (add (self ''tun_ip1'') (self ''tun_ip_mask'')))]),
        run (api_create_entry ''route_entry'' (var ''tunnel_route1'') [(''next_hop_id'', var ''unhop1'')]),
        assign ''unhop2'' (api_create ''next_hop'' [(''ip'', ip_address (self ''tun_ip2'')), (''router_interface_id'', var
          ''urif2''), (''type'', num SAI_NEXT_HOP_TYPE_IP)]),
        assign ''unbor2'' (struct ''sai_thrift_neighbor_entry_t'' [(''rif_id'', var ''urif2''), (''ip_address'', ip_address
          (self ''tun_ip2''))]),
        run (api_create_entry ''neighbor_entry'' (var ''unbor2'') [(''dst_mac_address'', self ''unbor_mac2''),
          (''no_host_route'', bool True)]),
        assign ''tunnel_route2'' (struct ''sai_thrift_route_entry_t'' [(''vr_id'', self ''uvrf''), (''destination'', ip_prefix
          (add (self ''tun_ip2'') (self ''tun_ip_mask'')))]),
        run (api_create_entry ''route_entry'' (var ''tunnel_route2'') [(''next_hop_id'', var ''unhop2'')]),
        assign ''unhop3'' (api_create ''next_hop'' [(''ip'', ip_address (self ''tun_ip3'')), (''router_interface_id'', var
          ''urif3''), (''type'', num SAI_NEXT_HOP_TYPE_IP)]),
        assign ''unbor3'' (struct ''sai_thrift_neighbor_entry_t'' [(''rif_id'', var ''urif3''), (''ip_address'', ip_address
          (self ''tun_ip3''))]),
        run (api_create_entry ''neighbor_entry'' (var ''unbor3'') [(''dst_mac_address'', self ''unbor_mac3''),
          (''no_host_route'', bool True)]),
        assign ''tunnel_route3'' (struct ''sai_thrift_route_entry_t'' [(''vr_id'', self ''uvrf''), (''destination'', ip_prefix
          (add (self ''tun_ip3'') (self ''tun_ip_mask'')))]),
        run (api_create_entry ''route_entry'' (var ''tunnel_route3'') [(''next_hop_id'', var ''unhop3'')]),
        assign ''tunnel_nhop1'' (api_create ''next_hop'' [(''type'', num SAI_NEXT_HOP_TYPE_TUNNEL_ENCAP), (''tunnel_id'', self
          ''tunnel''), (''ip'', ip_address (self ''tun_ip1'')), (''tunnel_mac'', self ''inner_dmac1''), (''tunnel_vni'', self
          ''vni'')]),
        assign ''tunnel_nhop2'' (api_create ''next_hop'' [(''type'', num SAI_NEXT_HOP_TYPE_TUNNEL_ENCAP), (''tunnel_id'', self
          ''tunnel''), (''ip'', ip_address (self ''tun_ip2'')), (''tunnel_mac'', self ''inner_dmac2''), (''tunnel_vni'', self
          ''vni'')]),
        assign ''tunnel_nhop3'' (api_create ''next_hop'' [(''type'', num SAI_NEXT_HOP_TYPE_TUNNEL_ENCAP), (''tunnel_id'', self
          ''tunnel''), (''ip'', ip_address (self ''tun_ip3'')), (''tunnel_mac'', self ''inner_dmac3''), (''tunnel_vni'', self
          ''vni'')]),
        assign ''tunnel_ecmp'' (api_create ''next_hop_group'' [(''type'', num SAI_NEXT_HOP_GROUP_TYPE_ECMP)]),
        assign ''tunnel_ecmp_member1'' (api_create ''next_hop_group_member'' [(''next_hop_group_id'', var ''tunnel_ecmp''),
          (''next_hop_id'', var ''tunnel_nhop1'')]),
        assign ''tunnel_ecmp_member2'' (api_create ''next_hop_group_member'' [(''next_hop_group_id'', var ''tunnel_ecmp''),
          (''next_hop_id'', var ''tunnel_nhop2'')]),
        assign ''tunnel_ecmp_member3'' (api_create ''next_hop_group_member'' [(''next_hop_group_id'', var ''tunnel_ecmp''),
          (''next_hop_id'', var ''tunnel_nhop3'')]),
        assign ''vm_route'' (struct ''sai_thrift_route_entry_t'' [(''vr_id'', self ''ovrf''), (''destination'', ip_prefix (add
          (self ''vm_ip1'') (str ''/32'')))]),
        run (api_create_entry ''route_entry'' (var ''vm_route'') [(''next_hop_id'', var ''tunnel_ecmp'')]),
        assign ''vm_v6_route'' (struct ''sai_thrift_route_entry_t'' [(''vr_id'', self ''ovrf''), (''destination'', ip_prefix
          (add (self ''vm_ipv61'') (str ''/128'')))]),
        run (api_create_entry ''route_entry'' (var ''vm_v6_route'') [(''next_hop_id'', var ''tunnel_ecmp'')]),
        assign ''pkt_params'' (dict_of [(var ''uport1'', dict_of [(str ''dmac'', self ''unbor_mac1''), (str ''idmac'', self
          ''inner_dmac1''), (str ''tun_ip'', self ''tun_ip1'')]), (var ''uport2'', dict_of [(str ''dmac'', self ''unbor_mac2''),
          (str ''idmac'', self ''inner_dmac2''), (str ''tun_ip'', self ''tun_ip2'')]), (var ''uport3'', dict_of [(str ''dmac'',
          self ''unbor_mac3''), (str ''idmac'', self ''inner_dmac3''), (str ''tun_ip'', self ''tun_ip3'')])]),
        run (invoke [(''pkt_params'', var ''pkt_params'')] TunnelNhopResolutionBase_v4TrafficEcmpTest),
        run (invoke [(''pkt_params'', var ''pkt_params'')] TunnelNhopResolutionBase_v6TrafficEcmpTest)] [
        run (api_remove ''route_entry'' (var ''vm_v6_route'')),
        run (api_remove ''route_entry'' (var ''vm_route'')),
        run (api_remove ''next_hop_group_member'' (var ''tunnel_ecmp_member3'')),
        run (api_remove ''next_hop_group_member'' (var ''tunnel_ecmp_member2'')),
        run (api_remove ''next_hop_group_member'' (var ''tunnel_ecmp_member1'')),
        run (api_remove ''next_hop_group'' (var ''tunnel_ecmp'')),
        run (api_remove ''next_hop'' (var ''tunnel_nhop3'')),
        run (api_remove ''next_hop'' (var ''tunnel_nhop2'')),
        run (api_remove ''next_hop'' (var ''tunnel_nhop1'')),
        run (api_remove ''route_entry'' (var ''tunnel_route3'')),
        run (api_remove ''neighbor_entry'' (var ''unbor3'')),
        run (api_remove ''next_hop'' (var ''unhop3'')),
        run (api_remove ''route_entry'' (var ''tunnel_route2'')),
        run (api_remove ''neighbor_entry'' (var ''unbor2'')),
        run (api_remove ''next_hop'' (var ''unhop2'')),
        run (api_remove ''route_entry'' (var ''tunnel_route1'')),
        run (api_remove ''neighbor_entry'' (var ''unbor1'')),
        run (api_remove ''next_hop'' (var ''unhop1''))]]"

definition TunnelNhopResolutionBase_ecmpTunnelUpdateTest :: "'d stmt" where
  "TunnelNhopResolutionBase_ecmpTunnelUpdateTest = block [
      assign ''urif1'' (item (item (var ''urif_data'') (num 0)) (num 0)),
      assign ''uport1'' (item (item (var ''urif_data'') (num 0)) (num 1)),
      assign ''urif2'' (item (item (var ''urif_data'') (num 1)) (num 0)),
      assign ''uport2'' (item (item (var ''urif_data'') (num 1)) (num 1)),
      assign ''urif3'' (item (item (var ''urif_data'') (num 2)) (num 0)),
      assign ''uport3'' (item (item (var ''urif_data'') (num 2)) (num 1)),
      try_finally [
        assign ''unhop1'' (api_create ''next_hop'' [(''ip'', ip_address (self ''tun_ip1'')), (''router_interface_id'', var
          ''urif1''), (''type'', num SAI_NEXT_HOP_TYPE_IP)]),
        assign ''unbor1'' (struct ''sai_thrift_neighbor_entry_t'' [(''rif_id'', var ''urif1''), (''ip_address'', ip_address
          (self ''tun_ip1''))]),
        run (api_create_entry ''neighbor_entry'' (var ''unbor1'') [(''dst_mac_address'', self ''unbor_mac1''),
          (''no_host_route'', bool True)]),
        assign ''tunnel_route1'' (struct ''sai_thrift_route_entry_t'' [(''vr_id'', self ''uvrf''), (''destination'', ip_prefix
          (add (self ''tun_ip1'') (self ''tun_ip_mask'')))]),
        run (api_create_entry ''route_entry'' (var ''tunnel_route1'') [(''next_hop_id'', var ''unhop1'')]),
        assign ''unhop2'' (api_create ''next_hop'' [(''ip'', ip_address (self ''tun_ip2'')), (''router_interface_id'', var
          ''urif2''), (''type'', num SAI_NEXT_HOP_TYPE_IP)]),
        assign ''unbor2'' (struct ''sai_thrift_neighbor_entry_t'' [(''rif_id'', var ''urif2''), (''ip_address'', ip_address
          (self ''tun_ip2''))]),
        run (api_create_entry ''neighbor_entry'' (var ''unbor2'') [(''dst_mac_address'', self ''unbor_mac2''),
          (''no_host_route'', bool True)]),
        assign ''tunnel_route2'' (struct ''sai_thrift_route_entry_t'' [(''vr_id'', self ''uvrf''), (''destination'', ip_prefix
          (add (self ''tun_ip2'') (self ''tun_ip_mask'')))]),
        run (api_create_entry ''route_entry'' (var ''tunnel_route2'') [(''next_hop_id'', var ''unhop2'')]),
        assign ''unhop3'' (api_create ''next_hop'' [(''ip'', ip_address (self ''tun_ip3'')), (''router_interface_id'', var
          ''urif3''), (''type'', num SAI_NEXT_HOP_TYPE_IP)]),
        assign ''unbor3'' (struct ''sai_thrift_neighbor_entry_t'' [(''rif_id'', var ''urif3''), (''ip_address'', ip_address
          (self ''tun_ip3''))]),
        run (api_create_entry ''neighbor_entry'' (var ''unbor3'') [(''dst_mac_address'', self ''unbor_mac3''),
          (''no_host_route'', bool True)]),
        assign ''tunnel_route3'' (struct ''sai_thrift_route_entry_t'' [(''vr_id'', self ''uvrf''), (''destination'', ip_prefix
          (add (self ''tun_ip3'') (self ''tun_ip_mask'')))]),
        run (api_create_entry ''route_entry'' (var ''tunnel_route3'') [(''next_hop_id'', var ''unhop3'')]),
        assign ''tunnel_nhop1'' (api_create ''next_hop'' [(''type'', num SAI_NEXT_HOP_TYPE_TUNNEL_ENCAP), (''tunnel_id'', self
          ''tunnel''), (''ip'', ip_address (self ''tun_ip1'')), (''tunnel_mac'', self ''inner_dmac1''), (''tunnel_vni'', self
          ''vni'')]),
        assign ''tunnel_nhop2'' (api_create ''next_hop'' [(''type'', num SAI_NEXT_HOP_TYPE_TUNNEL_ENCAP), (''tunnel_id'', self
          ''tunnel''), (''ip'', ip_address (self ''tun_ip2'')), (''tunnel_mac'', self ''inner_dmac2''), (''tunnel_vni'', self
          ''vni'')]),
        assign ''tunnel_ecmp'' (api_create ''next_hop_group'' [(''type'', num SAI_NEXT_HOP_GROUP_TYPE_ECMP)]),
        assign ''tunnel_ecmp_member1'' (api_create ''next_hop_group_member'' [(''next_hop_group_id'', var ''tunnel_ecmp''),
          (''next_hop_id'', var ''tunnel_nhop1'')]),
        assign ''tunnel_ecmp_member2'' (api_create ''next_hop_group_member'' [(''next_hop_group_id'', var ''tunnel_ecmp''),
          (''next_hop_id'', var ''tunnel_nhop2'')]),
        assign ''vm_route'' (struct ''sai_thrift_route_entry_t'' [(''vr_id'', self ''ovrf''), (''destination'', ip_prefix (add
          (self ''vm_ip1'') (str ''/32'')))]),
        run (api_create_entry ''route_entry'' (var ''vm_route'') [(''next_hop_id'', var ''tunnel_ecmp'')]),
        assign ''vm_v6_route'' (struct ''sai_thrift_route_entry_t'' [(''vr_id'', self ''ovrf''), (''destination'', ip_prefix
          (add (self ''vm_ipv61'') (str ''/128'')))]),
        run (api_create_entry ''route_entry'' (var ''vm_v6_route'') [(''next_hop_id'', var ''tunnel_ecmp'')]),
        assign ''pkt_params'' (dict_of [(var ''uport1'', dict_of [(str ''dmac'', self ''unbor_mac1''), (str ''idmac'', self
          ''inner_dmac1''), (str ''tun_ip'', self ''tun_ip1'')]), (var ''uport2'', dict_of [(str ''dmac'', self ''unbor_mac2''),
          (str ''idmac'', self ''inner_dmac2''), (str ''tun_ip'', self ''tun_ip2'')])]),
        run (invoke [(''pkt_params'', var ''pkt_params'')] TunnelNhopResolutionBase_v4TrafficEcmpTest),
        run (invoke [(''pkt_params'', var ''pkt_params'')] TunnelNhopResolutionBase_v6TrafficEcmpTest),
        run (api_remove ''next_hop_group_member'' (var ''tunnel_ecmp_member1'')),
        assign ''pkt_params'' (dict_of [(var ''uport2'', dict_of [(str ''dmac'', self ''unbor_mac2''), (str ''idmac'', self
          ''inner_dmac2''), (str ''tun_ip'', self ''tun_ip2'')])]),
        run (invoke [(''pkt_params'', var ''pkt_params'')] TunnelNhopResolutionBase_v4TrafficEcmpTest),
        run (invoke [(''pkt_params'', var ''pkt_params'')] TunnelNhopResolutionBase_v6TrafficEcmpTest),
        run (api_remove ''next_hop_group_member'' (var ''tunnel_ecmp_member2'')),
        run (invoke [] TunnelNhopResolutionBase_v4TrafficMissTest),
        run (invoke [] TunnelNhopResolutionBase_v6TrafficMissTest),
        assign ''tunnel_nhop3'' (api_create ''next_hop'' [(''type'', num SAI_NEXT_HOP_TYPE_TUNNEL_ENCAP), (''tunnel_id'', self
          ''tunnel''), (''ip'', ip_address (self ''tun_ip3'')), (''tunnel_mac'', self ''inner_dmac3''), (''tunnel_vni'', self
          ''vni'')]),
        assign ''tunnel_ecmp_member3'' (api_create ''next_hop_group_member'' [(''next_hop_group_id'', var ''tunnel_ecmp''),
          (''next_hop_id'', var ''tunnel_nhop3'')]),
        assign ''pkt_params'' (dict_of [(var ''uport3'', dict_of [(str ''dmac'', self ''unbor_mac3''), (str ''idmac'', self
          ''inner_dmac3''), (str ''tun_ip'', self ''tun_ip3'')])]),
        run (invoke [(''pkt_params'', var ''pkt_params'')] TunnelNhopResolutionBase_v4TrafficEcmpTest),
        run (invoke [(''pkt_params'', var ''pkt_params'')] TunnelNhopResolutionBase_v6TrafficEcmpTest)] [
        run (api_remove ''next_hop_group_member'' (var ''tunnel_ecmp_member3'')),
        run (api_remove ''route_entry'' (var ''tunnel_route3'')),
        run (api_remove ''neighbor_entry'' (var ''unbor3'')),
        run (api_remove ''next_hop'' (var ''unhop3'')),
        run (api_remove ''route_entry'' (var ''tunnel_route2'')),
        run (api_remove ''neighbor_entry'' (var ''unbor2'')),
        run (api_remove ''next_hop'' (var ''unhop2'')),
        run (api_remove ''route_entry'' (var ''tunnel_route1'')),
        run (api_remove ''neighbor_entry'' (var ''unbor1'')),
        run (api_remove ''next_hop'' (var ''unhop1'')),
        run (api_remove ''route_entry'' (var ''vm_v6_route'')),
        run (api_remove ''route_entry'' (var ''vm_route'')),
        run (api_remove ''next_hop_group'' (var ''tunnel_ecmp'')),
        run (api_remove ''next_hop'' (var ''tunnel_nhop3'')),
        run (api_remove ''next_hop'' (var ''tunnel_nhop2'')),
        run (api_remove ''next_hop'' (var ''tunnel_nhop1''))]]"

definition TunnelNhopResolutionBase_ecmpTunnelTest :: "'d stmt" where
  "TunnelNhopResolutionBase_ecmpTunnelTest = block [
      assign ''uport1'' (self ''port25''),
      assign ''uport1_dev'' (self ''dev_port25''),
      assign ''uport2'' (self ''port26''),
      assign ''uport_dev2'' (self ''dev_port26''),
      assign ''uport3'' (self ''port27''),
      assign ''uport_dev3'' (self ''dev_port27''),
      try_finally [
        assign ''urif1'' (api_create ''router_interface'' [(''type'', num SAI_ROUTER_INTERFACE_TYPE_PORT),
          (''virtual_router_id'', self ''uvrf''), (''port_id'', var ''uport1'')]),
        assign ''urif2'' (api_create ''router_interface'' [(''type'', num SAI_ROUTER_INTERFACE_TYPE_PORT),
          (''virtual_router_id'', self ''uvrf''), (''port_id'', var ''uport2'')]),
        assign ''urif3'' (api_create ''router_interface'' [(''type'', num SAI_ROUTER_INTERFACE_TYPE_PORT),
          (''virtual_router_id'', self ''uvrf''), (''port_id'', var ''uport3'')]),
        run (invoke [(''urif_data'', list_of [list_of [var ''urif1'', var ''uport1_dev''], list_of [var ''urif2'', var
          ''uport_dev2''], list_of [var ''urif3'', var ''uport_dev3'']])] TunnelNhopResolutionBase_ecmpTunnelSequenceTest1),
        run (invoke [(''urif_data'', list_of [list_of [var ''urif1'', var ''uport1_dev''], list_of [var ''urif2'', var
          ''uport_dev2''], list_of [var ''urif3'', var ''uport_dev3'']])] TunnelNhopResolutionBase_ecmpTunnelSequenceTest2),
        run (invoke [(''urif_data'', list_of [list_of [var ''urif1'', var ''uport1_dev''], list_of [var ''urif2'', var
          ''uport_dev2''], list_of [var ''urif3'', var ''uport_dev3'']])] TunnelNhopResolutionBase_ecmpTunnelSequenceTest3),
        run (invoke [(''urif_data'', list_of [list_of [var ''urif1'', var ''uport1_dev''], list_of [var ''urif2'', var
          ''uport_dev2''], list_of [var ''urif3'', var ''uport_dev3'']])] TunnelNhopResolutionBase_ecmpTunnelSequenceTest4),
        run (invoke [(''urif_data'', list_of [list_of [var ''urif1'', var ''uport1_dev''], list_of [var ''urif2'', var
          ''uport_dev2''], list_of [var ''urif3'', var ''uport_dev3'']])] TunnelNhopResolutionBase_ecmpTunnelUpdateTest)] [
        run (api_remove ''router_interface'' (var ''urif3'')),
        run (api_remove ''router_interface'' (var ''urif2'')),
        run (api_remove ''router_interface'' (var ''urif1''))]]"

definition TunnelNhopResolutionBase_ecmpSequenceTest1 :: "'d stmt" where
  "TunnelNhopResolutionBase_ecmpSequenceTest1 = block [
      try_finally [
        assign ''uecmp'' (api_create ''next_hop_group'' [(''type'', num SAI_NEXT_HOP_GROUP_TYPE_ECMP)]),
        assign ''uecmp_member'' (api_create ''next_hop_group_member'' [(''next_hop_group_id'', var ''uecmp''), (''next_hop_id'',
          var ''unhop'')]),
        assign ''tunnel_nhop'' (api_create ''next_hop'' [(''type'', num SAI_NEXT_HOP_TYPE_TUNNEL_ENCAP), (''tunnel_id'', self
          ''tunnel''), (''ip'', ip_address (self ''tun_ip1'')), (''tunnel_mac'', self ''inner_dmac1''), (''tunnel_vni'', self
          ''vni'')]),
        assign ''vm_route'' (struct ''sai_thrift_route_entry_t'' [(''vr_id'', self ''ovrf''), (''destination'', ip_prefix (add
          (self ''vm_ip1'') (str ''/32'')))]),
        run (api_create_entry ''route_entry'' (var ''vm_route'') [(''next_hop_id'', var ''tunnel_nhop'')]),
        assign ''vm_v6_route'' (struct ''sai_thrift_route_entry_t'' [(''vr_id'', self ''ovrf''), (''destination'', ip_prefix
          (add (self ''vm_ipv61'') (str ''/128'')))]),
        run (api_create_entry ''route_entry'' (var ''vm_v6_route'') [(''next_hop_id'', var ''tunnel_nhop'')]),
        assign ''tunnel_route'' (struct ''sai_thrift_route_entry_t'' [(''vr_id'', self ''uvrf''), (''destination'', ip_prefix
          (add (self ''tun_ip1'') (self ''tun_ip_mask'')))]),
        run (api_create_entry ''route_entry'' (var ''tunnel_route'') [(''next_hop_id'', var ''uecmp'')]),
        run (invoke [(''rcv_ports'', list_of [var ''uport'']), (''pkt_data'', none)] TunnelNhopResolutionBase_v4TrafficTest),
        run (invoke [(''rcv_ports'', list_of [var ''uport'']), (''pkt_data'', none)] TunnelNhopResolutionBase_v6TrafficTest)] [
        run (api_remove ''route_entry'' (var ''tunnel_route'')),
        run (api_remove ''route_entry'' (var ''vm_v6_route'')),
        run (api_remove ''route_entry'' (var ''vm_route'')),
        run (api_remove ''next_hop'' (var ''tunnel_nhop'')),
        run (api_remove ''next_hop_group_member'' (var ''uecmp_member'')),
        run (api_remove ''next_hop_group'' (var ''uecmp''))]]"

definition TunnelNhopResolutionBase_ecmpSequenceTest2 :: "'d stmt" where
  "TunnelNhopResolutionBase_ecmpSequenceTest2 = block [
      try_finally [
        assign ''tunnel_nhop'' (api_create ''next_hop'' [(''type'', num SAI_NEXT_HOP_TYPE_TUNNEL_ENCAP), (''tunnel_id'', self
          ''tunnel''), (''ip'', ip_address (self ''tun_ip1'')), (''tunnel_mac'', self ''inner_dmac1''), (''tunnel_vni'', self
          ''vni'')]),
        assign ''vm_route'' (struct ''sai_thrift_route_entry_t'' [(''vr_id'', self ''ovrf''), (''destination'', ip_prefix (add
          (self ''vm_ip1'') (str ''/32'')))]),
        run (api_create_entry ''route_entry'' (var ''vm_route'') [(''next_hop_id'', var ''tunnel_nhop'')]),
        assign ''vm_v6_route'' (struct ''sai_thrift_route_entry_t'' [(''vr_id'', self ''ovrf''), (''destination'', ip_prefix
          (add (self ''vm_ipv61'') (str ''/128'')))]),
        run (api_create_entry ''route_entry'' (var ''vm_v6_route'') [(''next_hop_id'', var ''tunnel_nhop'')]),
        assign ''uecmp'' (api_create ''next_hop_group'' [(''type'', num SAI_NEXT_HOP_GROUP_TYPE_ECMP)]),
        assign ''tunnel_route'' (struct ''sai_thrift_route_entry_t'' [(''vr_id'', self ''uvrf''), (''destination'', ip_prefix
          (add (self ''tun_ip1'') (self ''tun_ip_mask'')))]),
        run (api_create_entry ''route_entry'' (var ''tunnel_route'') [(''next_hop_id'', var ''uecmp'')]),
        assign ''uecmp_member'' (api_create ''next_hop_group_member'' [(''next_hop_group_id'', var ''uecmp''), (''next_hop_id'',
          var ''unhop'')]),
        run (invoke [(''rcv_ports'', list_of [var ''uport'']), (''pkt_data'', none)] TunnelNhopResolutionBase_v4TrafficTest),
        run (invoke [(''rcv_ports'', list_of [var ''uport'']), (''pkt_data'', none)] TunnelNhopResolutionBase_v6TrafficTest)] [
        run (api_remove ''next_hop_group_member'' (var ''uecmp_member'')),
        run (api_remove ''route_entry'' (var ''tunnel_route'')),
        run (api_remove ''next_hop_group'' (var ''uecmp'')),
        run (api_remove ''route_entry'' (var ''vm_v6_route'')),
        run (api_remove ''route_entry'' (var ''vm_route'')),
        run (api_remove ''next_hop'' (var ''tunnel_nhop''))]]"

definition TunnelNhopResolutionBase_ecmpSequenceTest3 :: "'d stmt" where
  "TunnelNhopResolutionBase_ecmpSequenceTest3 = block [
      try_finally [
        assign ''tunnel_nhop'' (api_create ''next_hop'' [(''type'', num SAI_NEXT_HOP_TYPE_TUNNEL_ENCAP), (''tunnel_id'', self
          ''tunnel''), (''ip'', ip_address (self ''tun_ip1'')), (''tunnel_mac'', self ''inner_dmac1''), (''tunnel_vni'', self
          ''vni'')]),
        assign ''vm_route'' (struct ''sai_thrift_route_entry_t'' [(''vr_id'', self ''ovrf''), (''destination'', ip_prefix (add
          (self ''vm_ip1'') (str ''/32'')))]),
        run (api_create_entry ''route_entry'' (var ''vm_route'') [(''next_hop_id'', var ''tunnel_nhop'')]),
        assign ''vm_v6_route'' (struct ''sai_thrift_route_entry_t'' [(''vr_id'', self ''ovrf''), (''destination'', ip_prefix
          (add (self ''vm_ipv61'') (str ''/128'')))]),
        run (api_create_entry ''route_entry'' (var ''vm_v6_route'') [(''next_hop_id'', var ''tunnel_nhop'')]),
        assign ''uecmp'' (api_create ''next_hop_group'' [(''type'', num SAI_NEXT_HOP_GROUP_TYPE_ECMP)]),
        assign ''uecmp_member'' (api_create ''next_hop_group_member'' [(''next_hop_group_id'', var ''uecmp''), (''next_hop_id'',
          var ''unhop'')]),
        assign ''tunnel_route'' (struct ''sai_thrift_route_entry_t'' [(''vr_id'', self ''uvrf''), (''destination'', ip_prefix
          (add (self ''tun_ip1'') (self ''tun_ip_mask'')))]),
        run (api_create_entry ''route_entry'' (var ''tunnel_route'') [(''next_hop_id'', var ''uecmp'')]),
        run (invoke [(''rcv_ports'', list_of [var ''uport'']), (''pkt_data'', none)] TunnelNhopResolutionBase_v4TrafficTest),
        run (invoke [(''rcv_ports'', list_of [var ''uport'']), (''pkt_data'', none)] TunnelNhopResolutionBase_v6TrafficTest)] [
        run (api_remove ''route_entry'' (var ''tunnel_route'')),
        run (api_remove ''next_hop_group_member'' (var ''uecmp_member'')),
        run (api_remove ''next_hop_group'' (var ''uecmp'')),
        run (api_remove ''route_entry'' (var ''vm_v6_route'')),
        run (api_remove ''route_entry'' (var ''vm_route'')),
        run (api_remove ''next_hop'' (var ''tunnel_nhop''))]]"

definition TunnelNhopResolutionBase_ecmpSequenceTest4 :: "'d stmt" where
  "TunnelNhopResolutionBase_ecmpSequenceTest4 = block [
      try_finally [
        assign ''uecmp'' (api_create ''next_hop_group'' [(''type'', num SAI_NEXT_HOP_GROUP_TYPE_ECMP)]),
        assign ''tunnel_route'' (struct ''sai_thrift_route_entry_t'' [(''vr_id'', self ''uvrf''), (''destination'', ip_prefix
          (add (self ''tun_ip1'') (self ''tun_ip_mask'')))]),
        run (api_create_entry ''route_entry'' (var ''tunnel_route'') [(''next_hop_id'', var ''uecmp'')]),
        assign ''tunnel_nhop'' (api_create ''next_hop'' [(''type'', num SAI_NEXT_HOP_TYPE_TUNNEL_ENCAP), (''tunnel_id'', self
          ''tunnel''), (''ip'', ip_address (self ''tun_ip1'')), (''tunnel_mac'', self ''inner_dmac1''), (''tunnel_vni'', self
          ''vni'')]),
        assign ''vm_route'' (struct ''sai_thrift_route_entry_t'' [(''vr_id'', self ''ovrf''), (''destination'', ip_prefix (add
          (self ''vm_ip1'') (str ''/32'')))]),
        run (api_create_entry ''route_entry'' (var ''vm_route'') [(''next_hop_id'', var ''tunnel_nhop'')]),
        assign ''vm_v6_route'' (struct ''sai_thrift_route_entry_t'' [(''vr_id'', self ''ovrf''), (''destination'', ip_prefix
          (add (self ''vm_ipv61'') (str ''/128'')))]),
        run (api_create_entry ''route_entry'' (var ''vm_v6_route'') [(''next_hop_id'', var ''tunnel_nhop'')]),
        assign ''uecmp_member'' (api_create ''next_hop_group_member'' [(''next_hop_group_id'', var ''uecmp''), (''next_hop_id'',
          var ''unhop'')]),
        run (invoke [(''rcv_ports'', list_of [var ''uport'']), (''pkt_data'', none)] TunnelNhopResolutionBase_v4TrafficTest),
        run (invoke [(''rcv_ports'', list_of [var ''uport'']), (''pkt_data'', none)] TunnelNhopResolutionBase_v6TrafficTest)] [
        run (api_remove ''next_hop_group_member'' (var ''uecmp_member'')),
        run (api_remove ''route_entry'' (var ''vm_v6_route'')),
        run (api_remove ''route_entry'' (var ''vm_route'')),
        run (api_remove ''next_hop'' (var ''tunnel_nhop'')),
        run (api_remove ''route_entry'' (var ''tunnel_route'')),
        run (api_remove ''next_hop_group'' (var ''uecmp''))]]"

definition TunnelNhopResolutionBase_ecmpSequenceTest5 :: "'d stmt" where
  "TunnelNhopResolutionBase_ecmpSequenceTest5 = block [
      try_finally [
        assign ''tunnel_nhop'' (api_create ''next_hop'' [(''type'', num SAI_NEXT_HOP_TYPE_TUNNEL_ENCAP), (''tunnel_id'', self
          ''tunnel''), (''ip'', ip_address (self ''tun_ip1'')), (''tunnel_mac'', self ''inner_dmac1''), (''tunnel_vni'', self
          ''vni'')]),
        assign ''uecmp'' (api_create ''next_hop_group'' [(''type'', num SAI_NEXT_HOP_GROUP_TYPE_ECMP)]),
        assign ''uecmp_member'' (api_create ''next_hop_group_member'' [(''next_hop_group_id'', var ''uecmp''), (''next_hop_id'',
          var ''unhop'')]),
        assign ''tunnel_route'' (struct ''sai_thrift_route_entry_t'' [(''vr_id'', self ''uvrf''), (''destination'', ip_prefix
          (add (self ''tun_ip1'') (self ''tun_ip_mask'')))]),
        run (api_create_entry ''route_entry'' (var ''tunnel_route'') [(''next_hop_id'', var ''uecmp'')]),
        assign ''vm_route'' (struct ''sai_thrift_route_entry_t'' [(''vr_id'', self ''ovrf''), (''destination'', ip_prefix (add
          (self ''vm_ip1'') (str ''/32'')))]),
        run (api_create_entry ''route_entry'' (var ''vm_route'') [(''next_hop_id'', var ''tunnel_nhop'')]),
        assign ''vm_v6_route'' (struct ''sai_thrift_route_entry_t'' [(''vr_id'', self ''ovrf''), (''destination'', ip_prefix
          (add (self ''vm_ipv61'') (str ''/128'')))]),
        run (api_create_entry ''route_entry'' (var ''vm_v6_route'') [(''next_hop_id'', var ''tunnel_nhop'')]),
        run (invoke [(''rcv_ports'', list_of [var ''uport'']), (''pkt_data'', none)] TunnelNhopResolutionBase_v4TrafficTest),
        run (invoke [(''rcv_ports'', list_of [var ''uport'']), (''pkt_data'', none)] TunnelNhopResolutionBase_v6TrafficTest)] [
        run (api_remove ''route_entry'' (var ''vm_v6_route'')),
        run (api_remove ''route_entry'' (var ''vm_route'')),
        run (api_remove ''route_entry'' (var ''tunnel_route'')),
        run (api_remove ''next_hop_group_member'' (var ''uecmp_member'')),
        run (api_remove ''next_hop_group'' (var ''uecmp'')),
        run (api_remove ''next_hop'' (var ''tunnel_nhop''))]]"

definition TunnelNhopResolutionBase_ecmpRouteFallbackTest :: "'d stmt" where
  "TunnelNhopResolutionBase_ecmpRouteFallbackTest = block [
      assign ''uport2'' (self ''port26''),
      assign ''uport2_dev'' (self ''dev_port26''),
      assign ''uport3'' (self ''port27''),
      assign ''uport3_dev'' (self ''dev_port27''),
      try_finally [
        assign ''tunnel_nhop'' (api_create ''next_hop'' [(''type'', num SAI_NEXT_HOP_TYPE_TUNNEL_ENCAP), (''tunnel_id'', self
          ''tunnel''), (''ip'', ip_address (self ''tun_ip1'')), (''tunnel_mac'', self ''inner_dmac1''), (''tunnel_vni'', self
          ''vni'')]),
        assign ''vm_route'' (struct ''sai_thrift_route_entry_t'' [(''vr_id'', self ''ovrf''), (''destination'', ip_prefix (add
          (self ''vm_ip1'') (str ''/32'')))]),
        run (api_create_entry ''route_entry'' (var ''vm_route'') [(''next_hop_id'', var ''tunnel_nhop'')]),
        assign ''vm_v6_route'' (struct ''sai_thrift_route_entry_t'' [(''vr_id'', self ''ovrf''), (''destination'', ip_prefix
          (add (self ''vm_ipv61'') (str ''/128'')))]),
        run (api_create_entry ''route_entry'' (var ''vm_v6_route'') [(''next_hop_id'', var ''tunnel_nhop'')]),
        assign ''uecmp1'' (api_create ''next_hop_group'' [(''type'', num SAI_NEXT_HOP_GROUP_TYPE_ECMP)]),
        assign ''uecmp1_member'' (api_create ''next_hop_group_member'' [(''next_hop_group_id'', var ''uecmp1''),
          (''next_hop_id'', var ''unhop'')]),
        assign ''tunnel_route1'' (struct ''sai_thrift_route_entry_t'' [(''vr_id'', self ''uvrf''), (''destination'', ip_prefix
          (add (self ''tun_ip1'') (self ''tun_ip_mask3'')))]),
        run (api_create_entry ''route_entry'' (var ''tunnel_route1'') [(''next_hop_id'', var ''uecmp1'')]),
        print [self ''tun_ip_mask3''],
        run (invoke [(''rcv_ports'', list_of [var ''uport'']), (''pkt_data'', none)] TunnelNhopResolutionBase_v4TrafficTest),
        run (invoke [(''rcv_ports'', list_of [var ''uport'']), (''pkt_data'', none)] TunnelNhopResolutionBase_v6TrafficTest),
        print [self ''tun_ip_mask2''],
        assign ''urif2'' (api_create ''router_interface'' [(''type'', num SAI_ROUTER_INTERFACE_TYPE_PORT),
          (''virtual_router_id'', self ''uvrf''), (''port_id'', var ''uport2'')]),
        assign ''unhop2'' (api_create ''next_hop'' [(''ip'', ip_address (self ''tun_ip1'')), (''router_interface_id'', var
          ''urif2''), (''type'', num SAI_NEXT_HOP_TYPE_IP)]),
        assign ''unbor2'' (struct ''sai_thrift_neighbor_entry_t'' [(''rif_id'', var ''urif2''), (''ip_address'', ip_address
          (self ''tun_ip1''))]),
        run (api_create_entry ''neighbor_entry'' (var ''unbor2'') [(''dst_mac_address'', self ''unbor_mac2''),
          (''no_host_route'', bool True)]),
        assign ''uecmp2'' (api_create ''next_hop_group'' [(''type'', num SAI_NEXT_HOP_GROUP_TYPE_ECMP)]),
        assign ''uecmp2_member'' (api_create ''next_hop_group_member'' [(''next_hop_group_id'', var ''uecmp2''),
          (''next_hop_id'', var ''unhop2'')]),
        assign ''tunnel_route2'' (struct ''sai_thrift_route_entry_t'' [(''vr_id'', self ''uvrf''), (''destination'', ip_prefix
          (add (self ''tun_ip1'') (self ''tun_ip_mask2'')))]),
        run (api_create_entry ''route_entry'' (var ''tunnel_route2'') [(''next_hop_id'', var ''uecmp2'')]),
        print [self ''tun_ip_mask2''],
        run (invoke [(''rcv_ports'', list_of [var ''uport2_dev'']), (''pkt_data'', dict_of [(str ''dmac'', self
          ''unbor_mac2'')])] TunnelNhopResolutionBase_v4TrafficTest),
        run (invoke [(''rcv_ports'', list_of [var ''uport2_dev'']), (''pkt_data'', dict_of [(str ''dmac'', self
          ''unbor_mac2'')])] TunnelNhopResolutionBase_v6TrafficTest),
        print [self ''tun_ip_mask2''],
        run (api_remove ''route_entry'' (var ''tunnel_route2'')),
        print [self ''tun_ip_mask3''],
        run (invoke [(''rcv_ports'', list_of [var ''uport'']), (''pkt_data'', none)] TunnelNhopResolutionBase_v4TrafficTest),
        run (invoke [(''rcv_ports'', list_of [var ''uport'']), (''pkt_data'', none)] TunnelNhopResolutionBase_v6TrafficTest),
        print [self ''tun_ip_mask2''],
        assign ''tunnel_route2'' (struct ''sai_thrift_route_entry_t'' [(''vr_id'', self ''uvrf''), (''destination'', ip_prefix
          (add (self ''tun_ip1'') (self ''tun_ip_mask2'')))]),
        run (api_create_entry ''route_entry'' (var ''tunnel_route2'') [(''next_hop_id'', var ''unhop2'')]),
        print [self ''tun_ip_mask2''],
        run (invoke [(''rcv_ports'', list_of [var ''uport2_dev'']), (''pkt_data'', dict_of [(str ''dmac'', self
          ''unbor_mac2'')])] TunnelNhopResolutionBase_v4TrafficTest),
        run (invoke [(''rcv_ports'', list_of [var ''uport2_dev'']), (''pkt_data'', dict_of [(str ''dmac'', self
          ''unbor_mac2'')])] TunnelNhopResolutionBase_v6TrafficTest),
        assign ''urif3'' (api_create ''router_interface'' [(''type'', num SAI_ROUTER_INTERFACE_TYPE_PORT),
          (''virtual_router_id'', self ''uvrf''), (''port_id'', var ''uport3'')]),
        assign ''unhop3'' (api_create ''next_hop'' [(''ip'', ip_address (self ''tun_ip1'')), (''router_interface_id'', var
          ''urif3''), (''type'', num SAI_NEXT_HOP_TYPE_IP)]),
        assign ''unbor3'' (struct ''sai_thrift_neighbor_entry_t'' [(''rif_id'', var ''urif3''), (''ip_address'', ip_address
          (self ''tun_ip1''))]),
        run (api_create_entry ''neighbor_entry'' (var ''unbor3'') [(''dst_mac_address'', self ''unbor_mac3''),
          (''no_host_route'', bool True)]),
        assign ''uecmp3'' (api_create ''next_hop_group'' [(''type'', num SAI_NEXT_HOP_GROUP_TYPE_ECMP)]),
        assign ''uecmp3_member'' (api_create ''next_hop_group_member'' [(''next_hop_group_id'', var ''uecmp3''),
          (''next_hop_id'', var ''unhop3'')]),
        assign ''tunnel_route3'' (struct ''sai_thrift_route_entry_t'' [(''vr_id'', self ''uvrf''), (''destination'', ip_prefix
          (add (self ''tun_ip1'') (self ''tun_ip_mask'')))]),
        run (api_create_entry ''route_entry'' (var ''tunnel_route3'') [(''next_hop_id'', var ''uecmp3'')]),
        run (invoke [(''rcv_ports'', list_of [var ''uport3_dev'']), (''pkt_data'', dict_of [(str ''dmac'', self
          ''unbor_mac3'')])] TunnelNhopResolutionBase_v4TrafficTest),
        run (invoke [(''rcv_ports'', list_of [var ''uport3_dev'']), (''pkt_data'', dict_of [(str ''dmac'', self
          ''unbor_mac3'')])] TunnelNhopResolutionBase_v6TrafficTest)] [
        run (api_remove ''route_entry'' (var ''tunnel_route3'')),
        run (api_remove ''next_hop_group_member'' (var ''uecmp3_member'')),
        run (api_remove ''next_hop_group'' (var ''uecmp3'')),
        run (api_remove ''neighbor_entry'' (var ''unbor3'')),
        run (api_remove ''next_hop'' (var ''unhop3'')),
        run (api_remove ''router_interface'' (var ''urif3'')),
        run (api_remove ''route_entry'' (var ''tunnel_route2'')),
        run (api_remove ''next_hop_group_member'' (var ''uecmp2_member'')),
        run (api_remove ''next_hop_group'' (var ''uecmp2'')),
        run (api_remove ''neighbor_entry'' (var ''unbor2'')),
        run (api_remove ''next_hop'' (var ''unhop2'')),
        run (api_remove ''router_interface'' (var ''urif2'')),
        run (api_remove ''route_entry'' (var ''tunnel_route1'')),
        run (api_remove ''next_hop_group_member'' (var ''uecmp1_member'')),
        run (api_remove ''next_hop_group'' (var ''uecmp1'')),
        run (api_remove ''route_entry'' (var ''vm_v6_route'')),
        run (api_remove ''route_entry'' (var ''vm_route'')),
        run (api_remove ''next_hop'' (var ''tunnel_nhop''))]]"

definition TunnelNhopResolutionBase_ecmpUpdateTest :: "'d stmt" where
  "TunnelNhopResolutionBase_ecmpUpdateTest = block [
      assign ''uport2'' (self ''port26''),
      assign ''uport2_dev'' (self ''dev_port26''),
      assign ''uport3'' (self ''port27''),
      assign ''uport3_dev'' (self ''dev_port27''),
      try_finally [
        assign ''tunnel_nhop'' (api_create ''next_hop'' [(''type'', num SAI_NEXT_HOP_TYPE_TUNNEL_ENCAP), (''tunnel_id'', self
          ''tunnel''), (''ip'', ip_address (self ''tun_ip1'')), (''tunnel_mac'', self ''inner_dmac1''), (''tunnel_vni'', self
          ''vni'')]),
        assign ''vm_route'' (struct ''sai_thrift_route_entry_t'' [(''vr_id'', self ''ovrf''), (''destination'', ip_prefix (add
          (self ''vm_ip1'') (str ''/32'')))]),
        run (api_create_entry ''route_entry'' (var ''vm_route'') [(''next_hop_id'', var ''tunnel_nhop'')]),
        assign ''vm_v6_route'' (struct ''sai_thrift_route_entry_t'' [(''vr_id'', self ''ovrf''), (''destination'', ip_prefix
          (add (self ''vm_ipv61'') (str ''/128'')))]),
        run (api_create_entry ''route_entry'' (var ''vm_v6_route'') [(''next_hop_id'', var ''tunnel_nhop'')]),
        assign ''uecmp'' (api_create ''next_hop_group'' [(''type'', num SAI_NEXT_HOP_GROUP_TYPE_ECMP)]),
        assign ''uecmp_member1'' (api_create ''next_hop_group_member'' [(''next_hop_group_id'', var ''uecmp''),
          (''next_hop_id'', var ''unhop'')]),
        assign ''urif2'' (api_create ''router_interface'' [(''type'', num SAI_ROUTER_INTERFACE_TYPE_PORT),
          (''virtual_router_id'', self ''uvrf''), (''port_id'', var ''uport2'')]),
        assign ''unhop2'' (api_create ''next_hop'' [(''ip'', ip_address (self ''tun_ip1'')), (''router_interface_id'', var
          ''urif2''), (''type'', num SAI_NEXT_HOP_TYPE_IP)]),
        assign ''unbor2'' (struct ''sai_thrift_neighbor_entry_t'' [(''rif_id'', var ''urif2''), (''ip_address'', ip_address
          (self ''tun_ip1''))]),
        run (api_create_entry ''neighbor_entry'' (var ''unbor2'') [(''dst_mac_address'', self ''unbor_mac2''),
          (''no_host_route'', bool True)]),
        assign ''uecmp_member2'' (api_create ''next_hop_group_member'' [(''next_hop_group_id'', var ''uecmp''),
          (''next_hop_id'', var ''unhop2'')]),
        assign ''tunnel_route'' (struct ''sai_thrift_route_entry_t'' [(''vr_id'', self ''uvrf''), (''destination'', ip_prefix
          (add (self ''tun_ip1'') (self ''tun_ip_mask'')))]),
        run (api_create_entry ''route_entry'' (var ''tunnel_route'') [(''next_hop_id'', var ''uecmp'')]),
        assign ''pkt_params'' (dict_of [(var ''uport'', dict_of [(str ''dmac'', self ''unbor_mac1''), (str ''idmac'', self
          ''inner_dmac1''), (str ''tun_ip'', self ''tun_ip1'')]), (var ''uport2_dev'', dict_of [(str ''dmac'', self
          ''unbor_mac2''), (str ''idmac'', self ''inner_dmac1''), (str ''tun_ip'', self ''tun_ip1'')])]),
        run (invoke [(''pkt_params'', var ''pkt_params'')] TunnelNhopResolutionBase_v4TrafficEcmpTest),
        run (invoke [(''pkt_params'', var ''pkt_params'')] TunnelNhopResolutionBase_v6TrafficEcmpTest),
        run (api_remove ''next_hop_group_member'' (var ''uecmp_member1'')),
        assign ''pkt_params'' (dict_of [(var ''uport2_dev'', dict_of [(str ''dmac'', self ''unbor_mac2''), (str ''idmac'', self
          ''inner_dmac1''), (str ''tun_ip'', self ''tun_ip1'')])]),
        run (invoke [(''pkt_params'', var ''pkt_params'')] TunnelNhopResolutionBase_v4TrafficEcmpTest),
        run (invoke [(''pkt_params'', var ''pkt_params'')] TunnelNhopResolutionBase_v6TrafficEcmpTest),
        run (api_remove ''next_hop_group_member'' (var ''uecmp_member2'')),
        run (invoke [] TunnelNhopResolutionBase_v4TrafficMissTest),
        run (invoke [] TunnelNhopResolutionBase_v6TrafficMissTest),
        assign ''urif3'' (api_create ''router_interface'' [(''type'', num SAI_ROUTER_INTERFACE_TYPE_PORT),
          (''virtual_router_id'', self ''uvrf''), (''port_id'', var ''uport3'')]),
        assign ''unhop3'' (api_create ''next_hop'' [(''ip'', ip_address (self ''tun_ip1'')), (''router_interface_id'', var
          ''urif3''), (''type'', num SAI_NEXT_HOP_TYPE_IP)]),
        assign ''unbor3'' (struct ''sai_thrift_neighbor_entry_t'' [(''rif_id'', var ''urif3''), (''ip_address'', ip_address
          (self ''tun_ip1''))]),
        run (api_create_entry ''neighbor_entry'' (var ''unbor3'') [(''dst_mac_address'', self ''unbor_mac3''),
          (''no_host_route'', bool True)]),
        assign ''uecmp_member3'' (api_create ''next_hop_group_member'' [(''next_hop_group_id'', var ''uecmp''),
          (''next_hop_id'', var ''unhop3'')]),
        assign ''pkt_params'' (dict_of [(var ''uport3_dev'', dict_of [(str ''dmac'', self ''unbor_mac3''), (str ''idmac'', self
          ''inner_dmac1''), (str ''tun_ip'', self ''tun_ip1'')])]),
        run (invoke [(''pkt_params'', var ''pkt_params'')] TunnelNhopResolutionBase_v4TrafficEcmpTest),
        run (invoke [(''pkt_params'', var ''pkt_params'')] TunnelNhopResolutionBase_v6TrafficEcmpTest)] [
        run (api_remove ''next_hop_group_member'' (var ''uecmp_member3'')),
        run (api_remove ''neighbor_entry'' (var ''unbor3'')),
        run (api_remove ''next_hop'' (var ''unhop3'')),
        run (api_remove ''router_interface'' (var ''urif3'')),
        run (api_remove ''route_entry'' (var ''tunnel_route'')),
        run (api_remove ''neighbor_entry'' (var ''unbor2'')),
        run (api_remove ''next_hop'' (var ''unhop2'')),
        run (api_remove ''router_interface'' (var ''urif2'')),
        run (api_remove ''next_hop_group'' (var ''uecmp'')),
        run (api_remove ''route_entry'' (var ''vm_v6_route'')),
        run (api_remove ''route_entry'' (var ''vm_route'')),
        run (api_remove ''next_hop'' (var ''tunnel_nhop''))]]"

definition TunnelNhopResolutionBase_underlayEcmpTunnelTest :: "'d stmt" where
  "TunnelNhopResolutionBase_underlayEcmpTunnelTest = block [
      assign ''uport'' (self ''port25''),
      assign ''uport_dev'' (self ''dev_port25''),
      try_finally [
        assign ''urif'' (api_create ''router_interface'' [(''type'', num SAI_ROUTER_INTERFACE_TYPE_PORT),
          (''virtual_router_id'', self ''uvrf''), (''port_id'', var ''uport'')]),
        assign ''unhop'' (api_create ''next_hop'' [(''ip'', ip_address (self ''tun_ip1'')), (''router_interface_id'', var
          ''urif''), (''type'', num SAI_NEXT_HOP_TYPE_IP)]),
        assign ''unbor'' (struct ''sai_thrift_neighbor_entry_t'' [(''rif_id'', var ''urif''), (''ip_address'', ip_address (self
          ''tun_ip1''))]),
        run (api_create_entry ''neighbor_entry'' (var ''unbor'') [(''dst_mac_address'', self ''unbor_mac1''),
          (''no_host_route'', bool True)]),
        run (invoke [(''uport'', var ''uport_dev''), (''unhop'', var ''unhop'')] TunnelNhopResolutionBase_ecmpSequenceTest1),
        run (invoke [(''uport'', var ''uport_dev''), (''unhop'', var ''unhop'')] TunnelNhopResolutionBase_ecmpSequenceTest2),
        run (invoke [(''uport'', var ''uport_dev''), (''unhop'', var ''unhop'')] TunnelNhopResolutionBase_ecmpSequenceTest3),
        run (invoke [(''uport'', var ''uport_dev''), (''unhop'', var ''unhop'')] TunnelNhopResolutionBase_ecmpSequenceTest4),
        run (invoke [(''uport'', var ''uport_dev''), (''unhop'', var ''unhop'')] TunnelNhopResolutionBase_ecmpSequenceTest5),
        run (invoke [(''uport'', var ''uport_dev''), (''unhop'', var ''unhop'')] TunnelNhopResolutionBase_ecmpRouteFallbackTest),
        run (invoke [(''uport'', var ''uport_dev''), (''unhop'', var ''unhop'')] TunnelNhopResolutionBase_ecmpUpdateTest)] [
        run (api_remove ''neighbor_entry'' (var ''unbor'')),
        run (api_remove ''next_hop'' (var ''unhop'')),
        run (api_remove ''router_interface'' (var ''urif''))]]"

definition TunnelNhopResolutionBase_runTest :: "'d stmt" where
  "TunnelNhopResolutionBase_runTest = block [
      run (invoke [] TunnelNhopResolutionBase_tunnelL3IntfTest),
      run (invoke [] TunnelNhopResolutionBase_tunnelL3LagIntfTest),
      run (invoke [] TunnelNhopResolutionBase_tunnelL3SubPortIntfTest),
      run (invoke [] TunnelNhopResolutionBase_tunnelSviIntfTest),
      run (invoke [] TunnelNhopResolutionBase_multiTunnelNhopTest),
      run (invoke [] TunnelNhopResolutionBase_ecmpTunnelTest),
      run (invoke [] TunnelNhopResolutionBase_underlayEcmpTunnelTest)]"

definition TunnelNhopResolutionBase_tearDown :: "'d stmt" where
  "TunnelNhopResolutionBase_tearDown = block [
      run (api_remove ''tunnel'' (self ''tunnel'')),
      run (api_remove ''tunnel_map_entry'' (self ''decap_tunnel_map_entry'')),
      run (api_remove ''tunnel_map_entry'' (self ''encap_tunnel_map_entry'')),
      run (api_remove ''tunnel_map'' (self ''decap_tunnel_map'')),
      run (api_remove ''tunnel_map'' (self ''encap_tunnel_map'')),
      run (api_remove ''router_interface'' (self ''orif'')),
      run (api_remove ''router_interface'' (self ''urif_lpb'')),
      run (api_remove ''virtual_router'' (self ''ovrf'')),
      run (api_remove ''virtual_router'' (self ''uvrf'')),
      super_tearDown]"

definition TunnelNhopResolutionIpv4UnderlayTest_runTest :: "'d stmt" where
  "TunnelNhopResolutionIpv4UnderlayTest_runTest = block [
      run (invoke [] TunnelNhopResolutionBase_tunnelL3IntfTest),
      run (invoke [] TunnelNhopResolutionBase_tunnelL3LagIntfTest),
      run (invoke [] TunnelNhopResolutionBase_tunnelL3SubPortIntfTest),
      run (invoke [] TunnelNhopResolutionBase_tunnelSviIntfTest),
      run (invoke [] TunnelNhopResolutionBase_multiTunnelNhopTest),
      run (invoke [] TunnelNhopResolutionBase_ecmpTunnelTest),
      run (invoke [] TunnelNhopResolutionBase_underlayEcmpTunnelTest)]"

definition TunnelNhopResolutionIpv6UnderlayTest_runTest :: "'d stmt" where
  "TunnelNhopResolutionIpv6UnderlayTest_runTest = block [
      run (invoke [] TunnelNhopResolutionBase_tunnelL3IntfTest),
      run (invoke [] TunnelNhopResolutionBase_tunnelL3LagIntfTest),
      run (invoke [] TunnelNhopResolutionBase_tunnelL3SubPortIntfTest),
      run (invoke [] TunnelNhopResolutionBase_tunnelSviIntfTest),
      run (invoke [] TunnelNhopResolutionBase_multiTunnelNhopTest),
      run (invoke [] TunnelNhopResolutionBase_ecmpTunnelTest),
      run (invoke [] TunnelNhopResolutionBase_underlayEcmpTunnelTest)]"

definition VxlanMultiTunnelBase_setUp :: "'d stmt" where
  "VxlanMultiTunnelBase_setUp = block [
      super_setUp,
      set_self ''oport'' (self ''port24''),
      set_self ''oport_dev'' (self ''dev_port24''),
      if_else (is_true (self ''multiple_ovrf'')) [
        set_self ''oport2'' (self ''port25''),
        set_self ''oport2_dev'' (self ''dev_port25'')] [],
      set_self ''uport1'' (self ''port26''),
      set_self ''uport1_dev'' (self ''dev_port26''),
      set_self ''uport2'' (self ''port27''),
      set_self ''uport2_dev'' (self ''dev_port27''),
      set_self ''vni1'' (num 1000),
      set_self ''vni2'' (num 2000),
      set_self ''vm1_ip'' (str ''100.100.1.1''),
      set_self ''vm1_ipv6'' (str ''2001:0db8::100:1''),
      set_self ''vm2_ip'' (str ''200.200.1.1''),
      set_self ''vm2_ipv6'' (str ''2001:0db8::200:1''),
      set_self ''customer1_ip'' (str ''100.100.2.1''),
      set_self ''customer1_ipv6'' (str ''2001:0db8::100:2''),
      set_self ''customer2_ip'' (str ''200.200.2.1''),
      set_self ''customer2_ipv6'' (str ''2001:0db8::200:2''),
      set_self ''inner_dmac'' (str ''00:11:11:11:11:11''),
      set_self ''customer1_mac'' (str ''00:22:22:22:22:11''),
      set_self ''customer2_mac'' (str ''00:22:22:22:22:22''),
      set_self ''unbor1_mac'' (str ''00:33:33:33:33:11''),
      set_self ''unbor2_mac'' (str ''00:33:33:33:33:22''),
      set_self ''vxlan_global_mac'' (str ''00:aa:aa:aa:aa:aa''),
      run (api_set ''switch'' none [(''vxlan_default_router_mac'', self ''vxlan_global_mac'')]),
      set_self ''uvrf1'' (api_create ''virtual_router'' []),
      set_self ''uvrf2'' (api_create ''virtual_router'' []),
      set_self ''ovrf'' (api_create ''virtual_router'' []),
      if_else (is_true (self ''multiple_ovrf'')) [
        set_self ''ovrf2'' (api_create ''virtual_router'' [])] [],
      assign ''tunnel_type'' (num SAI_TUNNEL_TYPE_VXLAN),
      assign ''term_type'' (num SAI_TUNNEL_TERM_TABLE_ENTRY_TYPE_P2MP),
      assign ''ttl_mode'' (num SAI_TUNNEL_TTL_MODE_PIPE_MODEL),
      set_self ''orif'' (api_create ''router_interface'' [(''type'', num SAI_ROUTER_INTERFACE_TYPE_PORT),
        (''virtual_router_id'', self ''ovrf''), (''port_id'', self ''oport'')]),
      if_else (is_true (self ''multiple_ovrf'')) [
        set_self ''orif2'' (api_create ''router_interface'' [(''type'', num SAI_ROUTER_INTERFACE_TYPE_PORT),
          (''virtual_router_id'', self ''ovrf2''), (''port_id'', self ''oport2'')])] [],
      set_self ''urif1_lpb'' (api_create ''router_interface'' [(''type'', num SAI_ROUTER_INTERFACE_TYPE_LOOPBACK),
        (''virtual_router_id'', self ''uvrf1'')]),
      set_self ''urif2_lpb'' (api_create ''router_interface'' [(''type'', num SAI_ROUTER_INTERFACE_TYPE_LOOPBACK),
        (''virtual_router_id'', self ''uvrf2'')]),
      set_self ''urif1'' (api_create ''router_interface'' [(''type'', num SAI_ROUTER_INTERFACE_TYPE_PORT),
        (''virtual_router_id'', self ''uvrf1''), (''port_id'', self ''uport1'')]),
      set_self ''unhop1'' (api_create ''next_hop'' [(''ip'', ip_address (self ''tun1_ip'')), (''router_interface_id'', self
        ''urif1''), (''type'', num SAI_NEXT_HOP_TYPE_IP)]),
      set_self ''unbor1'' (struct ''sai_thrift_neighbor_entry_t'' [(''rif_id'', self ''urif1''), (''ip_address'', ip_address
        (self ''tun1_ip''))]),
      run (api_create_entry ''neighbor_entry'' (self ''unbor1'') [(''dst_mac_address'', self ''unbor1_mac''),
        (''no_host_route'', bool True)]),
      set_self ''tunnel1_route'' (struct ''sai_thrift_route_entry_t'' [(''vr_id'', self ''uvrf1''), (''destination'', ip_prefix
        (add (self ''tun1_ip'') (self ''tun_ip_mask'')))]),
      run (api_create_entry ''route_entry'' (self ''tunnel1_route'') [(''next_hop_id'', self ''unhop1'')]),
      set_self ''urif2'' (api_create ''router_interface'' [(''type'', num SAI_ROUTER_INTERFACE_TYPE_PORT),
        (''virtual_router_id'', self ''uvrf2''), (''port_id'', self ''uport2'')]),
      set_self ''unhop2'' (api_create ''next_hop'' [(''ip'', ip_address (self ''tun2_ip'')), (''router_interface_id'', self
        ''urif2''), (''type'', num SAI_NEXT_HOP_TYPE_IP)]),
      set_self ''unbor2'' (struct ''sai_thrift_neighbor_entry_t'' [(''rif_id'', self ''urif2''), (''ip_address'', ip_address
        (self ''tun2_ip''))]),
      run (api_create_entry ''neighbor_entry'' (self ''unbor2'') [(''dst_mac_address'', self ''unbor2_mac''),
        (''no_host_route'', bool True)]),
      set_self ''tunnel2_route'' (struct ''sai_thrift_route_entry_t'' [(''vr_id'', self ''uvrf2''), (''destination'', ip_prefix
        (add (self ''tun2_ip'') (self ''tun_ip_mask'')))]),
      run (api_create_entry ''route_entry'' (self ''tunnel2_route'') [(''next_hop_id'', self ''unhop2'')]),
      set_self ''encap_tunnel_map'' (api_create ''tunnel_map'' [(''type'', num SAI_TUNNEL_MAP_TYPE_VIRTUAL_ROUTER_ID_TO_VNI)]),
      set_self ''decap_tunnel_map'' (api_create ''tunnel_map'' [(''type'', num SAI_TUNNEL_MAP_TYPE_VNI_TO_VIRTUAL_ROUTER_ID)]),
      set_self ''encap_tunnel_map_entry'' (api_create ''tunnel_map_entry'' [(''tunnel_map'', self ''encap_tunnel_map''),
        (''tunnel_map_type'', num SAI_TUNNEL_MAP_TYPE_VIRTUAL_ROUTER_ID_TO_VNI), (''virtual_router_id_key'', self ''ovrf''),
        (''vni_id_value'', self ''vni1'')]),
      set_self ''decap_tunnel_map_entry'' (api_create ''tunnel_map_entry'' [(''tunnel_map'', self ''encap_tunnel_map''),
        (''tunnel_map_type'', num SAI_TUNNEL_MAP_TYPE_VNI_TO_VIRTUAL_ROUTER_ID), (''virtual_router_id_value'', self ''ovrf''),
        (''vni_id_key'', self ''vni1'')]),
      assign ''encap_maps'' (struct ''sai_thrift_object_list_t'' [(''count'', num 1), (''idlist'', list_of [self
        ''encap_tunnel_map''])]),
      assign ''decap_maps'' (struct ''sai_thrift_object_list_t'' [(''count'', num 1), (''idlist'', list_of [self
        ''decap_tunnel_map''])]),
      if_else (is_true (self ''multiple_ovrf'')) [
        set_self ''encap_tunnel_map_entry2'' (api_create ''tunnel_map_entry'' [(''tunnel_map'', self ''encap_tunnel_map''),
          (''tunnel_map_type'', num SAI_TUNNEL_MAP_TYPE_VIRTUAL_ROUTER_ID_TO_VNI), (''virtual_router_id_key'', self ''ovrf2''),
          (''vni_id_value'', self ''vni2'')]),
        set_self ''decap_tunnel_map_entry2'' (api_create ''tunnel_map_entry'' [(''tunnel_map'', self ''encap_tunnel_map''),
          (''tunnel_map_type'', num SAI_TUNNEL_MAP_TYPE_VNI_TO_VIRTUAL_ROUTER_ID), (''virtual_router_id_value'', self
          ''ovrf2''), (''vni_id_key'', self ''vni2'')]),
        assign ''encap_maps2'' (struct ''sai_thrift_object_list_t'' [(''count'', num 1), (''idlist'', list_of [self
          ''encap_tunnel_map''])]),
        assign ''decap_maps2'' (struct ''sai_thrift_object_list_t'' [(''count'', num 1), (''idlist'', list_of [self
          ''decap_tunnel_map''])])] [],
      set_self ''tunnel1'' (api_create ''tunnel'' [(''type'', var ''tunnel_type''), (''encap_src_ip'', ip_address (self
        ''lpb1_ip'')), (''encap_mappers'', var ''encap_maps''), (''decap_mappers'', var ''decap_maps''), (''encap_ttl_mode'',
        var ''ttl_mode''), (''decap_ttl_mode'', var ''ttl_mode''), (''underlay_interface'', self ''urif1_lpb'')]),
      set_self ''tunnel2'' (api_create ''tunnel'' [(''type'', var ''tunnel_type''), (''encap_src_ip'', ip_address (self
        ''lpb2_ip'')), (''encap_mappers'', if_exp (no (self ''multiple_ovrf'')) (var ''encap_maps'') (var ''encap_maps2'')),
        (''decap_mappers'', if_exp (no (self ''multiple_ovrf'')) (var ''decap_maps'') (var ''decap_maps2'')),
        (''encap_ttl_mode'', var ''ttl_mode''), (''decap_ttl_mode'', var ''ttl_mode''), (''underlay_interface'', self
        ''urif2_lpb'')]),
      set_self ''tunnel1_term'' (api_create ''tunnel_term_table_entry'' [(''tunnel_type'', var ''tunnel_type''), (''vr_id'',
        self ''uvrf1''), (''action_tunnel_id'', self ''tunnel1''), (''type'', var ''term_type''), (''dst_ip'', ip_address (self
        ''lpb1_ip''))]),
      set_self ''tunnel2_term'' (api_create ''tunnel_term_table_entry'' [(''tunnel_type'', var ''tunnel_type''), (''vr_id'',
        self ''uvrf2''), (''action_tunnel_id'', self ''tunnel2''), (''type'', var ''term_type''), (''dst_ip'', ip_address (self
        ''lpb2_ip''))]),
      set_self ''tunnel_nhop'' (api_create ''next_hop'' [(''type'', num SAI_NEXT_HOP_TYPE_TUNNEL_ENCAP), (''tunnel_id'', self
        ''tunnel1''), (''ip'', ip_address (self ''tun1_ip'')), (''tunnel_vni'', self ''vni1'')]),
      set_self ''vm1_route'' (struct ''sai_thrift_route_entry_t'' [(''vr_id'', self ''ovrf''), (''destination'', ip_prefix (add
        (self ''vm1_ip'') (str ''/32'')))]),
      run (api_create_entry ''route_entry'' (self ''vm1_route'') [(''next_hop_id'', self ''tunnel_nhop'')]),
      set_self ''vm1_v6_route'' (struct ''sai_thrift_route_entry_t'' [(''vr_id'', self ''ovrf''), (''destination'', ip_prefix
        (add (self ''vm1_ipv6'') (str ''/128'')))]),
      run (api_create_entry ''route_entry'' (self ''vm1_v6_route'') [(''next_hop_id'', self ''tunnel_nhop'')]),
      set_self ''tunnel2_nhop'' (api_create ''next_hop'' [(''type'', num SAI_NEXT_HOP_TYPE_TUNNEL_ENCAP), (''tunnel_id'', self
        ''tunnel2''), (''ip'', ip_address (self ''tun2_ip'')), (''tunnel_mac'', self ''inner_dmac''), (''tunnel_vni'', self
        ''vni2'')]),
      set_self ''vm2_route'' (struct ''sai_thrift_route_entry_t'' [(''vr_id'', if_exp (no (self ''multiple_ovrf'')) (self
        ''ovrf'') (self ''ovrf2'')), (''destination'', ip_prefix (add (self ''vm2_ip'') (str ''/32'')))]),
      run (api_create_entry ''route_entry'' (self ''vm2_route'') [(''next_hop_id'', self ''tunnel2_nhop'')]),
      set_self ''vm2_v6_route'' (struct ''sai_thrift_route_entry_t'' [(''vr_id'', if_exp (no (self ''multiple_ovrf'')) (self
        ''ovrf'') (self ''ovrf2'')), (''destination'', ip_prefix (add (self ''vm2_ipv6'') (str ''/128'')))]),
      run (api_create_entry ''route_entry'' (self ''vm2_v6_route'') [(''next_hop_id'', self ''tunnel2_nhop'')]),
      set_self ''onhop1'' (api_create ''next_hop'' [(''ip'', ip_address (self ''customer1_ip'')), (''router_interface_id'', self
        ''orif''), (''type'', num SAI_NEXT_HOP_TYPE_IP)]),
      set_self ''onbor1'' (struct ''sai_thrift_neighbor_entry_t'' [(''rif_id'', self ''orif''), (''ip_address'', ip_address
        (self ''customer1_ip''))]),
      run (api_create_entry ''neighbor_entry'' (self ''onbor1'') [(''dst_mac_address'', self ''vxlan_global_mac''),
        (''no_host_route'', bool True)]),
      set_self ''customer1_route'' (struct ''sai_thrift_route_entry_t'' [(''vr_id'', self ''ovrf''), (''destination'', ip_prefix
        (add (self ''customer1_ip'') (str ''/32'')))]),
      run (api_create_entry ''route_entry'' (self ''customer1_route'') [(''next_hop_id'', self ''onhop1'')]),
      set_self ''onhop1_v6'' (api_create ''next_hop'' [(''ip'', ip_address (self ''customer1_ipv6'')), (''router_interface_id'',
        self ''orif''), (''type'', num SAI_NEXT_HOP_TYPE_IP)]),
      set_self ''onbor1_v6'' (struct ''sai_thrift_neighbor_entry_t'' [(''rif_id'', self ''orif''), (''ip_address'', ip_address
        (self ''customer1_ipv6''))]),
      run (api_create_entry ''neighbor_entry'' (self ''onbor1_v6'') [(''dst_mac_address'', self ''vxlan_global_mac''),
        (''no_host_route'', bool True)]),
      set_self ''customer1_v6_route'' (struct ''sai_thrift_route_entry_t'' [(''vr_id'', self ''ovrf''), (''destination'',
        ip_prefix (add (self ''customer1_ipv6'') (str ''/128'')))]),
      run (api_create_entry ''route_entry'' (self ''customer1_v6_route'') [(''next_hop_id'', self ''onhop1_v6'')]),
      set_self ''onhop2'' (api_create ''next_hop'' [(''ip'', ip_address (self ''customer2_ip'')), (''router_interface_id'',
        if_exp (no (self ''multiple_ovrf'')) (self ''orif'') (self ''orif2'')), (''type'', num SAI_NEXT_HOP_TYPE_IP)]),
      set_self ''onbor2'' (struct ''sai_thrift_neighbor_entry_t'' [(''rif_id'', if_exp (no (self ''multiple_ovrf'')) (self
        ''orif'') (self ''orif2'')), (''ip_address'', ip_address (self ''customer2_ip''))]),
      run (api_create_entry ''neighbor_entry'' (self ''onbor2'') [(''dst_mac_address'', self ''customer2_mac''),
        (''no_host_route'', bool True)]),
      set_self ''customer2_route'' (struct ''sai_thrift_route_entry_t'' [(''vr_id'', if_exp (no (self ''multiple_ovrf'')) (self
        ''ovrf'') (self ''ovrf2'')), (''destination'', ip_prefix (add (self ''customer2_ip'') (str ''/32'')))]),
      run (api_create_entry ''route_entry'' (self ''customer2_route'') [(''next_hop_id'', self ''onhop2'')]),
      set_self ''onhop2_v6'' (api_create ''next_hop'' [(''ip'', ip_address (self ''customer2_ipv6'')), (''router_interface_id'',
        if_exp (no (self ''multiple_ovrf'')) (self ''orif'') (self ''orif2'')), (''type'', num SAI_NEXT_HOP_TYPE_IP)]),
      set_self ''onbor2_v6'' (struct ''sai_thrift_neighbor_entry_t'' [(''rif_id'', if_exp (no (self ''multiple_ovrf'')) (self
        ''orif'') (self ''orif2'')), (''ip_address'', ip_address (self ''customer2_ipv6''))]),
      run (api_create_entry ''neighbor_entry'' (self ''onbor2_v6'') [(''dst_mac_address'', self ''customer2_mac''),
        (''no_host_route'', bool True)]),
      set_self ''customer2_v6_route'' (struct ''sai_thrift_route_entry_t'' [(''vr_id'', if_exp (no (self ''multiple_ovrf''))
        (self ''ovrf'') (self ''ovrf2'')), (''destination'', ip_prefix (add (self ''customer2_ipv6'') (str ''/128'')))]),
      run (api_create_entry ''route_entry'' (self ''customer2_v6_route'') [(''next_hop_id'', self ''onhop2_v6'')])]"

definition VxlanMultiTunnelBase_tearDown :: "'d stmt" where
  "VxlanMultiTunnelBase_tearDown = block [
      run (api_remove ''route_entry'' (self ''customer2_v6_route'')),
      run (api_remove ''neighbor_entry'' (self ''onbor2_v6'')),
      run (api_remove ''next_hop'' (self ''onhop2_v6'')),
      run (api_remove ''route_entry'' (self ''customer2_route'')),
      run (api_remove ''neighbor_entry'' (self ''onbor2'')),
      run (api_remove ''next_hop'' (self ''onhop2'')),
      run (api_remove ''route_entry'' (self ''customer1_v6_route'')),
      run (api_remove ''neighbor_entry'' (self ''onbor1_v6'')),
      run (api_remove ''next_hop'' (self ''onhop1_v6'')),
      run (api_remove ''route_entry'' (self ''customer1_route'')),
      run (api_remove ''neighbor_entry'' (self ''onbor1'')),
      run (api_remove ''next_hop'' (self ''onhop1'')),
      run (api_remove ''route_entry'' (self ''vm2_v6_route'')),
      run (api_remove ''route_entry'' (self ''vm2_route'')),
      run (api_remove ''next_hop'' (self ''tunnel2_nhop'')),
      run (api_remove ''route_entry'' (self ''vm1_v6_route'')),
      run (api_remove ''route_entry'' (self ''vm1_route'')),
      run (api_remove ''next_hop'' (self ''tunnel_nhop'')),
      run (api_remove ''tunnel_term_table_entry'' (self ''tunnel2_term'')),
      run (api_remove ''tunnel_term_table_entry'' (self ''tunnel1_term'')),
      run (api_remove ''tunnel'' (self ''tunnel2'')),
      run (api_remove ''tunnel'' (self ''tunnel1'')),
      if_else (is_true (self ''multiple_ovrf'')) [
        run (api_remove ''tunnel_map_entry'' (self ''decap_tunnel_map_entry2'')),
        run (api_remove ''tunnel_map_entry'' (self ''encap_tunnel_map_entry2''))] [],
      run (api_remove ''tunnel_map_entry'' (self ''decap_tunnel_map_entry'')),
      run (api_remove ''tunnel_map_entry'' (self ''encap_tunnel_map_entry'')),
      run (api_remove ''tunnel_map'' (self ''decap_tunnel_map'')),
      run (api_remove ''tunnel_map'' (self ''encap_tunnel_map'')),
      run (api_remove ''route_entry'' (self ''tunnel2_route'')),
      run (api_remove ''neighbor_entry'' (self ''unbor2'')),
      run (api_remove ''next_hop'' (self ''unhop2'')),
      run (api_remove ''router_interface'' (self ''urif2'')),
      run (api_remove ''route_entry'' (self ''tunnel1_route'')),
      run (api_remove ''neighbor_entry'' (self ''unbor1'')),
      run (api_remove ''next_hop'' (self ''unhop1'')),
      run (api_remove ''router_interface'' (self ''urif1'')),
      run (api_remove ''router_interface'' (self ''urif2_lpb'')),
      run (api_remove ''router_interface'' (self ''urif1_lpb'')),
      if_else (is_true (self ''multiple_ovrf'')) [
        run (api_remove ''router_interface'' (self ''orif2''))] [],
      run (api_remove ''router_interface'' (self ''orif'')),
      if_else (is_true (self ''multiple_ovrf'')) [
        run (api_remove ''virtual_router'' (self ''ovrf2''))] [],
      run (api_remove ''virtual_router'' (self ''ovrf'')),
      run (api_remove ''virtual_router'' (self ''uvrf2'')),
      run (api_remove ''virtual_router'' (self ''uvrf1'')),
      run (api_set ''switch'' none [(''vxlan_default_router_mac'', str ''00:00:00:00:00:00'')]),
      super_tearDown]"

definition VxlanMultiTunnelBase_multipleTunnelIpv4Test :: "'d stmt" where
  "VxlanMultiTunnelBase_multipleTunnelIpv4Test = block [
      assign ''pkt'' (lib ''simple_udp_packet'' [] [(''eth_dst'', str ROUTER_MAC), (''eth_src'', self ''customer1_mac''),
        (''ip_dst'', self ''vm1_ip''), (''ip_src'', self ''customer1_ip''), (''ip_id'', num 108), (''ip_ttl'', num 64)]),
      assign ''inner_pkt'' (lib ''simple_udp_packet'' [] [(''eth_dst'', self ''vxlan_global_mac''), (''eth_src'', str
        ROUTER_MAC), (''ip_dst'', self ''vm1_ip''), (''ip_src'', self ''customer1_ip''), (''ip_id'', num 108), (''ip_ttl'', num
        63)]),
      if_else (is_false (self ''ipv6'')) [
        assign ''vxlan_pkt'' (lib ''Mask'' [lib ''simple_vxlan_packet'' [] [(''eth_dst'', self ''unbor1_mac''), (''eth_src'',
          str ROUTER_MAC), (''ip_dst'', self ''tun1_ip''), (''ip_src'', self ''lpb1_ip''), (''ip_id'', num 0), (''ip_ttl'', num
          64), (''ip_flags'', num 2), (''with_udp_chksum'', bool False), (''vxlan_vni'', self ''vni1''), (''inner_frame'', var
          ''inner_pkt'')]] [])] [
        assign ''vxlan_pkt'' (lib ''Mask'' [lib ''simple_vxlanv6_packet'' [] [(''eth_dst'', self ''unbor1_mac''), (''eth_src'',
          str ROUTER_MAC), (''ipv6_dst'', self ''tun1_ip''), (''ipv6_src'', self ''lpb1_ip''), (''ipv6_hlim'', num 64),
          (''with_udp_chksum'', bool False), (''vxlan_vni'', self ''vni1''), (''inner_frame'', var ''inner_pkt'')]] [])],
      assign ''vxlan_pkt'' (lib ''.set_do_not_care_scapy'' [var ''vxlan_pkt'', str ''UDP'', str ''sport''] []),
      print [self ''oport_dev'', self ''uport1_dev''],
      run (lib ''send_packet'' [self ''oport_dev'', var ''pkt''] []),
      run (lib ''verify_packet'' [var ''vxlan_pkt'', self ''uport1_dev''] []),
      assign ''pkt'' (lib ''simple_udp_packet'' [] [(''eth_dst'', self ''vxlan_global_mac''), (''eth_src'', str ROUTER_MAC),
        (''ip_dst'', self ''customer1_ip''), (''ip_src'', self ''vm1_ip''), (''ip_id'', num 108), (''ip_ttl'', num 63)]),
      assign ''inner_pkt'' (lib ''simple_udp_packet'' [] [(''eth_dst'', str ROUTER_MAC), (''eth_src'', self
        ''vxlan_global_mac''), (''ip_dst'', self ''customer1_ip''), (''ip_src'', self ''vm1_ip''), (''ip_id'', num 108),
        (''ip_ttl'', num 64)]),
      if_else (is_false (self ''ipv6'')) [
        assign ''vxlan_pkt'' (lib ''simple_vxlan_packet'' [] [(''eth_dst'', str ROUTER_MAC), (''eth_src'', self ''unbor1_mac''),
          (''ip_dst'', self ''lpb1_ip''), (''ip_src'', self ''tun1_ip''), (''ip_id'', num 0), (''ip_ttl'', num 64),
          (''ip_flags'', num 2), (''udp_sport'', num 11638), (''with_udp_chksum'', bool False), (''vxlan_vni'', self ''vni1''),
          (''inner_frame'', var ''inner_pkt'')])] [
        assign ''vxlan_pkt'' (lib ''simple_vxlanv6_packet'' [] [(''eth_dst'', str ROUTER_MAC), (''eth_src'', self
          ''unbor1_mac''), (''ipv6_dst'', self ''lpb1_ip''), (''ipv6_src'', self ''tun1_ip''), (''ipv6_hlim'', num 64),
          (''udp_sport'', num 11638), (''with_udp_chksum'', bool False), (''vxlan_vni'', self ''vni1''), (''inner_frame'', var
          ''inner_pkt'')])],
      print [self ''uport1_dev'', self ''oport_dev''],
      run (lib ''send_packet'' [self ''uport1_dev'', var ''vxlan_pkt''] []),
      run (lib ''verify_packet'' [var ''pkt'', self ''oport_dev''] []),
      assign ''pkt'' (lib ''simple_udp_packet'' [] [(''eth_dst'', str ROUTER_MAC), (''eth_src'', self ''customer2_mac''),
        (''ip_dst'', self ''vm2_ip''), (''ip_src'', self ''customer2_ip''), (''ip_id'', num 108), (''ip_ttl'', num 64)]),
      assign ''inner_pkt'' (lib ''simple_udp_packet'' [] [(''eth_dst'', self ''inner_dmac''), (''eth_src'', str ROUTER_MAC),
        (''ip_dst'', self ''vm2_ip''), (''ip_src'', self ''customer2_ip''), (''ip_id'', num 108), (''ip_ttl'', num 63)]),
      if_else (is_false (self ''ipv6'')) [
        assign ''vxlan_pkt'' (lib ''Mask'' [lib ''simple_vxlan_packet'' [] [(''eth_dst'', self ''unbor2_mac''), (''eth_src'',
          str ROUTER_MAC), (''ip_dst'', self ''tun2_ip''), (''ip_src'', self ''lpb2_ip''), (''ip_id'', num 0), (''ip_ttl'', num
          64), (''ip_flags'', num 2), (''with_udp_chksum'', bool False), (''vxlan_vni'', self ''vni2''), (''inner_frame'', var
          ''inner_pkt'')]] [])] [
        assign ''vxlan_pkt'' (lib ''Mask'' [lib ''simple_vxlanv6_packet'' [] [(''eth_dst'', self ''unbor2_mac''), (''eth_src'',
          str ROUTER_MAC), (''ipv6_dst'', self ''tun2_ip''), (''ipv6_src'', self ''lpb2_ip''), (''ipv6_hlim'', num 64),
          (''with_udp_chksum'', bool False), (''vxlan_vni'', self ''vni2''), (''inner_frame'', var ''inner_pkt'')]] [])],
      assign ''vxlan_pkt'' (lib ''.set_do_not_care_scapy'' [var ''vxlan_pkt'', str ''UDP'', str ''sport''] []),
      print [if_exp (no (self ''multiple_ovrf'')) (self ''oport_dev'') (self ''oport2_dev''), self ''uport2_dev''],
      if_else (is_false (self ''multiple_ovrf'')) [
        run (lib ''send_packet'' [self ''oport_dev'', var ''pkt''] [])] [
        run (lib ''send_packet'' [self ''oport2_dev'', var ''pkt''] [])],
      run (lib ''verify_packet'' [var ''vxlan_pkt'', self ''uport2_dev''] []),
      assign ''pkt'' (lib ''simple_udp_packet'' [] [(''eth_dst'', self ''customer2_mac''), (''eth_src'', str ROUTER_MAC),
        (''ip_dst'', self ''customer2_ip''), (''ip_src'', self ''vm2_ip''), (''ip_id'', num 108), (''ip_ttl'', num 63)]),
      assign ''inner_pkt'' (lib ''simple_udp_packet'' [] [(''eth_dst'', str ROUTER_MAC), (''eth_src'', self ''inner_dmac''),
        (''ip_dst'', self ''customer2_ip''), (''ip_src'', self ''vm2_ip''), (''ip_id'', num 108), (''ip_ttl'', num 64)]),
      if_else (is_false (self ''ipv6'')) [
        assign ''vxlan_pkt'' (lib ''simple_vxlan_packet'' [] [(''eth_dst'', str ROUTER_MAC), (''eth_src'', self ''unbor1_mac''),
          (''ip_dst'', self ''lpb2_ip''), (''ip_src'', self ''tun2_ip''), (''ip_id'', num 0), (''ip_ttl'', num 64),
          (''ip_flags'', num 2), (''udp_sport'', num 11638), (''with_udp_chksum'', bool False), (''vxlan_vni'', if_exp (no (self
          ''multiple_ovrf'')) (self ''vni1'') (self ''vni2'')), (''inner_frame'', var ''inner_pkt'')])] [
        assign ''vxlan_pkt'' (lib ''simple_vxlanv6_packet'' [] [(''eth_dst'', str ROUTER_MAC), (''eth_src'', self
          ''unbor1_mac''), (''ipv6_dst'', self ''lpb2_ip''), (''ipv6_src'', self ''tun2_ip''), (''ipv6_hlim'', num 64),
          (''udp_sport'', num 11638), (''with_udp_chksum'', bool False), (''vxlan_vni'', if_exp (no (self ''multiple_ovrf''))
          (self ''vni1'') (self ''vni2'')), (''inner_frame'', var ''inner_pkt'')])],
      print [self ''uport2_dev'', if_exp (no (self ''multiple_ovrf'')) (self ''oport_dev'') (self ''oport2_dev'')],
      run (lib ''send_packet'' [self ''uport2_dev'', var ''vxlan_pkt''] []),
      if_else (is_false (self ''multiple_ovrf'')) [
        run (lib ''verify_packet'' [var ''pkt'', self ''oport_dev''] [])] [
        run (lib ''verify_packet'' [var ''pkt'', self ''oport2_dev''] [])]]"

definition VxlanMultiTunnelBase_multipleTunnelIpv6Test :: "'d stmt" where
  "VxlanMultiTunnelBase_multipleTunnelIpv6Test = block [
      assign ''pkt'' (lib ''simple_udpv6_packet'' [] [(''eth_dst'', str ROUTER_MAC), (''eth_src'', self ''customer1_mac''),
        (''ipv6_dst'', self ''vm1_ipv6''), (''ipv6_src'', self ''customer1_ipv6''), (''ipv6_hlim'', num 64)]),
      assign ''inner_pkt'' (lib ''simple_udpv6_packet'' [] [(''eth_dst'', self ''vxlan_global_mac''), (''eth_src'', str
        ROUTER_MAC), (''ipv6_dst'', self ''vm1_ipv6''), (''ipv6_src'', self ''customer1_ipv6''), (''ipv6_hlim'', num 63)]),
      if_else (is_false (self ''ipv6'')) [
        assign ''vxlan_pkt'' (lib ''Mask'' [lib ''simple_vxlan_packet'' [] [(''eth_dst'', self ''unbor1_mac''), (''eth_src'',
          str ROUTER_MAC), (''ip_dst'', self ''tun1_ip''), (''ip_src'', self ''lpb1_ip''), (''ip_id'', num 0), (''ip_ttl'', num
          64), (''ip_flags'', num 2), (''with_udp_chksum'', bool False), (''vxlan_vni'', self ''vni1''), (''inner_frame'', var
          ''inner_pkt'')]] [])] [
        assign ''vxlan_pkt'' (lib ''Mask'' [lib ''simple_vxlanv6_packet'' [] [(''eth_dst'', self ''unbor1_mac''), (''eth_src'',
          str ROUTER_MAC), (''ipv6_dst'', self ''tun1_ip''), (''ipv6_src'', self ''lpb1_ip''), (''ipv6_hlim'', num 64),
          (''with_udp_chksum'', bool False), (''vxlan_vni'', self ''vni1''), (''inner_frame'', var ''inner_pkt'')]] [])],
      assign ''vxlan_pkt'' (lib ''.set_do_not_care_scapy'' [var ''vxlan_pkt'', str ''UDP'', str ''sport''] []),
      print [self ''oport_dev'', self ''uport1_dev''],
      run (lib ''send_packet'' [self ''oport_dev'', var ''pkt''] []),
      run (lib ''verify_packet'' [var ''vxlan_pkt'', self ''uport1_dev''] []),
      assign ''inner_pkt'' (lib ''simple_udpv6_packet'' [] [(''eth_dst'', str ROUTER_MAC), (''eth_src'', self
        ''vxlan_global_mac''), (''ipv6_dst'', self ''customer1_ipv6''), (''ipv6_src'', self ''vm1_ipv6''), (''ipv6_hlim'', num
        64)]),
      assign ''pkt'' (lib ''simple_udpv6_packet'' [] [(''eth_dst'', self ''vxlan_global_mac''), (''eth_src'', str ROUTER_MAC),
        (''ipv6_dst'', self ''customer1_ipv6''), (''ipv6_src'', self ''vm1_ipv6''), (''ipv6_hlim'', num 63)]),
      if_else (is_false (self ''ipv6'')) [
        assign ''vxlan_pkt'' (lib ''simple_vxlan_packet'' [] [(''eth_dst'', str ROUTER_MAC), (''eth_src'', self ''unbor1_mac''),
          (''ip_dst'', self ''lpb1_ip''), (''ip_src'', self ''tun1_ip''), (''ip_id'', num 0), (''ip_ttl'', num 64),
          (''ip_flags'', num 2), (''udp_sport'', num 11638), (''with_udp_chksum'', bool False), (''vxlan_vni'', self ''vni1''),
          (''inner_frame'', var ''inner_pkt'')])] [
        assign ''vxlan_pkt'' (lib ''simple_vxlanv6_packet'' [] [(''eth_dst'', str ROUTER_MAC), (''eth_src'', self
          ''unbor1_mac''), (''ipv6_dst'', self ''lpb1_ip''), (''ipv6_src'', self ''tun1_ip''), (''ipv6_hlim'', num 64),
          (''udp_sport'', num 11638), (''with_udp_chksum'', bool False), (''vxlan_vni'', self ''vni1''), (''inner_frame'', var
          ''inner_pkt'')])],
      print [self ''uport1_dev'', self ''oport_dev''],
      run (lib ''send_packet'' [self ''uport1_dev'', var ''vxlan_pkt''] []),
      run (lib ''verify_packet'' [var ''pkt'', self ''oport_dev''] []),
      assign ''pkt'' (lib ''simple_udpv6_packet'' [] [(''eth_dst'', str ROUTER_MAC), (''eth_src'', self ''customer2_mac''),
        (''ipv6_dst'', self ''vm2_ipv6''), (''ipv6_src'', self ''customer2_ipv6''), (''ipv6_hlim'', num 64)]),
      assign ''inner_pkt'' (lib ''simple_udpv6_packet'' [] [(''eth_dst'', self ''inner_dmac''), (''eth_src'', str ROUTER_MAC),
        (''ipv6_dst'', self ''vm2_ipv6''), (''ipv6_src'', self ''customer2_ipv6''), (''ipv6_hlim'', num 63)]),
      if_else (is_false (self ''ipv6'')) [
        assign ''vxlan_pkt'' (lib ''Mask'' [lib ''simple_vxlan_packet'' [] [(''eth_dst'', self ''unbor2_mac''), (''eth_src'',
          str ROUTER_MAC), (''ip_dst'', self ''tun2_ip''), (''ip_src'', self ''lpb2_ip''), (''ip_id'', num 0), (''ip_ttl'', num
          64), (''ip_flags'', num 2), (''with_udp_chksum'', bool False), (''vxlan_vni'', self ''vni2''), (''inner_frame'', var
          ''inner_pkt'')]] [])] [
        assign ''vxlan_pkt'' (lib ''Mask'' [lib ''simple_vxlanv6_packet'' [] [(''eth_dst'', self ''unbor2_mac''), (''eth_src'',
          str ROUTER_MAC), (''ipv6_dst'', self ''tun2_ip''), (''ipv6_src'', self ''lpb2_ip''), (''ipv6_hlim'', num 64),
          (''with_udp_chksum'', bool False), (''vxlan_vni'', self ''vni2''), (''inner_frame'', var ''inner_pkt'')]] [])],
      assign ''vxlan_pkt'' (lib ''.set_do_not_care_scapy'' [var ''vxlan_pkt'', str ''UDP'', str ''sport''] []),
      print [if_exp (no (self ''multiple_ovrf'')) (self ''oport_dev'') (self ''oport2_dev''), self ''uport2_dev''],
      if_else (is_false (self ''multiple_ovrf'')) [
        run (lib ''send_packet'' [self ''oport_dev'', var ''pkt''] [])] [
        run (lib ''send_packet'' [self ''oport2_dev'', var ''pkt''] [])],
      run (lib ''verify_packet'' [var ''vxlan_pkt'', self ''uport2_dev''] []),
      assign ''pkt'' (lib ''simple_udpv6_packet'' [] [(''eth_dst'', self ''customer2_mac''), (''eth_src'', str ROUTER_MAC),
        (''ipv6_dst'', self ''customer2_ipv6''), (''ipv6_src'', self ''vm2_ipv6''), (''ipv6_hlim'', num 63)]),
      assign ''inner_pkt'' (lib ''simple_udpv6_packet'' [] [(''eth_dst'', str ROUTER_MAC), (''eth_src'', self ''inner_dmac''),
        (''ipv6_dst'', self ''customer2_ipv6''), (''ipv6_src'', self ''vm2_ipv6''), (''ipv6_hlim'', num 64)]),
      if_else (is_false (self ''ipv6'')) [
        assign ''vxlan_pkt'' (lib ''simple_vxlan_packet'' [] [(''eth_dst'', str ROUTER_MAC), (''eth_src'', self ''unbor1_mac''),
          (''ip_dst'', self ''lpb2_ip''), (''ip_src'', self ''tun2_ip''), (''ip_id'', num 0), (''ip_ttl'', num 64),
          (''ip_flags'', num 2), (''udp_sport'', num 11638), (''with_udp_chksum'', bool False), (''vxlan_vni'', if_exp (no (self
          ''multiple_ovrf'')) (self ''vni1'') (self ''vni2'')), (''inner_frame'', var ''inner_pkt'')])] [
        assign ''vxlan_pkt'' (lib ''simple_vxlanv6_packet'' [] [(''eth_dst'', str ROUTER_MAC), (''eth_src'', self
          ''unbor1_mac''), (''ipv6_dst'', self ''lpb2_ip''), (''ipv6_src'', self ''tun2_ip''), (''ipv6_hlim'', num 64),
          (''udp_sport'', num 11638), (''with_udp_chksum'', bool False), (''vxlan_vni'', if_exp (no (self ''multiple_ovrf''))
          (self ''vni1'') (self ''vni2'')), (''inner_frame'', var ''inner_pkt'')])],
      print [self ''uport2_dev'', if_exp (no (self ''multiple_ovrf'')) (self ''oport_dev'') (self ''oport2_dev'')],
      run (lib ''send_packet'' [self ''uport2_dev'', var ''vxlan_pkt''] []),
      if_else (is_false (self ''multiple_ovrf'')) [
        run (lib ''verify_packet'' [var ''pkt'', self ''oport_dev''] [])] [
        run (lib ''verify_packet'' [var ''pkt'', self ''oport2_dev''] [])]]"

definition SingleOvrfMultiTunnelIpv4UnderlayTest_runTest :: "'d stmt" where
  "SingleOvrfMultiTunnelIpv4UnderlayTest_runTest = block [
      run (invoke [] VxlanMultiTunnelBase_multipleTunnelIpv4Test),
      run (invoke [] VxlanMultiTunnelBase_multipleTunnelIpv6Test)]"

definition MultipleOvrfMultiTunnelIpv4UnderlayTest_runTest :: "'d stmt" where
  "MultipleOvrfMultiTunnelIpv4UnderlayTest_runTest = block [
      run (invoke [] VxlanMultiTunnelBase_multipleTunnelIpv4Test),
      run (invoke [] VxlanMultiTunnelBase_multipleTunnelIpv6Test)]"

definition SingleOvrfMultiTunnelIpv6UnderlayTest_runTest :: "'d stmt" where
  "SingleOvrfMultiTunnelIpv6UnderlayTest_runTest = block [
      run (invoke [] VxlanMultiTunnelBase_multipleTunnelIpv4Test),
      run (invoke [] VxlanMultiTunnelBase_multipleTunnelIpv6Test)]"

definition MultipleOvrfMultiTunnelIpv6UnderlayTest_runTest :: "'d stmt" where
  "MultipleOvrfMultiTunnelIpv6UnderlayTest_runTest = block [
      run (invoke [] VxlanMultiTunnelBase_multipleTunnelIpv4Test),
      run (invoke [] VxlanMultiTunnelBase_multipleTunnelIpv6Test)]"

definition TunnelAttributesTest_setUp :: "'d stmt" where
  "TunnelAttributesTest_setUp = block [
      super_setUp,
      set_self ''oport'' (self ''port24''),
      set_self ''oport_dev'' (self ''dev_port24''),
      set_self ''uport'' (self ''port25''),
      set_self ''uport_dev'' (self ''dev_port25''),
      set_self ''vni'' (num 1000),
      set_self ''tun_ip'' (str ''10.10.10.1''),
      set_self ''tun_ipv6'' (str ''2001:0db8::10:1''),
      set_self ''lpb_ip'' (str ''10.10.10.2''),
      set_self ''lpb_ipv6'' (str ''2001:0db8::10:10''),
      set_self ''vm_ip'' (str ''100.100.1.1''),
      set_self ''vm_ipv6'' (str ''2001:0db8::100:1''),
      set_self ''customer_ip'' (str ''100.100.2.1''),
      set_self ''customer_ipv6'' (str ''2001:0db8::100:2''),
      set_self ''customer2_ip'' (str ''100.200.3.4''),
      set_self ''inner_dmac'' (str ''00:11:11:11:11:11''),
      set_self ''customer_mac'' (str ''00:22:22:22:22:22''),
      set_self ''customer2_mac'' (str ''00:22:22:22:22:55''),
      set_self ''unbor_mac'' (str ''00:33:33:33:33:33''),
      set_self ''ovlan_no'' (num 50),
      set_self ''uvrf'' (api_create ''virtual_router'' []),
      set_self ''ovrf'' (api_create ''virtual_router'' []),
      set_self ''urif_lpb'' (api_create ''router_interface'' [(''type'', num SAI_ROUTER_INTERFACE_TYPE_LOOPBACK),
        (''virtual_router_id'', self ''uvrf'')]),
      set_self ''orif_lpb'' (api_create ''router_interface'' [(''type'', num SAI_ROUTER_INTERFACE_TYPE_LOOPBACK),
        (''virtual_router_id'', self ''ovrf'')]),
      set_self ''urif'' (api_create ''router_interface'' [(''type'', num SAI_ROUTER_INTERFACE_TYPE_PORT),
        (''virtual_router_id'', self ''uvrf''), (''port_id'', self ''uport'')]),
      set_self ''unhop'' (api_create ''next_hop'' [(''ip'', ip_address (self ''tun_ip'')), (''router_interface_id'', self
        ''urif''), (''type'', num SAI_NEXT_HOP_TYPE_IP)]),
      set_self ''unhop_v6'' (api_create ''next_hop'' [(''ip'', ip_address (self ''tun_ipv6'')), (''router_interface_id'', self
        ''urif''), (''type'', num SAI_NEXT_HOP_TYPE_IP)]),
      set_self ''unbor'' (struct ''sai_thrift_neighbor_entry_t'' [(''rif_id'', self ''urif''), (''ip_address'', ip_address (self
        ''tun_ip''))]),
      run (api_create_entry ''neighbor_entry'' (self ''unbor'') [(''dst_mac_address'', self ''unbor_mac''), (''no_host_route'',
        bool True)]),
      set_self ''unbor_v6'' (struct ''sai_thrift_neighbor_entry_t'' [(''rif_id'', self ''urif''), (''ip_address'', ip_address
        (self ''tun_ipv6''))]),
      run (api_create_entry ''neighbor_entry'' (self ''unbor_v6'') [(''dst_mac_address'', self ''unbor_mac''),
        (''no_host_route'', bool True)]),
      set_self ''tunnel_route'' (struct ''sai_thrift_route_entry_t'' [(''vr_id'', self ''uvrf''), (''destination'', ip_prefix
        (add (self ''tun_ip'') (str ''/32'')))]),
      run (api_create_entry ''route_entry'' (self ''tunnel_route'') [(''next_hop_id'', self ''unhop'')]),
      set_self ''tunnel_route_v6'' (struct ''sai_thrift_route_entry_t'' [(''vr_id'', self ''uvrf''), (''destination'', ip_prefix
        (add (self ''tun_ipv6'') (str ''/128'')))]),
      run (api_create_entry ''route_entry'' (self ''tunnel_route_v6'') [(''next_hop_id'', self ''unhop_v6'')]),
      set_self ''orif'' (api_create ''router_interface'' [(''type'', num SAI_ROUTER_INTERFACE_TYPE_PORT),
        (''virtual_router_id'', self ''ovrf''), (''port_id'', self ''oport'')]),
      set_self ''onhop'' (api_create ''next_hop'' [(''ip'', ip_address (self ''customer_ip'')), (''router_interface_id'', self
        ''orif''), (''type'', num SAI_NEXT_HOP_TYPE_IP)]),
      set_self ''onhop_v6'' (api_create ''next_hop'' [(''ip'', ip_address (self ''customer_ipv6'')), (''router_interface_id'',
        self ''orif''), (''type'', num SAI_NEXT_HOP_TYPE_IP)]),
      set_self ''onbor'' (struct ''sai_thrift_neighbor_entry_t'' [(''rif_id'', self ''orif''), (''ip_address'', ip_address (self
        ''customer_ip''))]),
      run (api_create_entry ''neighbor_entry'' (self ''onbor'') [(''dst_mac_address'', self ''customer_mac''),
        (''no_host_route'', bool True)]),
      set_self ''onbor_v6'' (struct ''sai_thrift_neighbor_entry_t'' [(''rif_id'', self ''orif''), (''ip_address'', ip_address
        (self ''customer_ipv6''))]),
      run (api_create_entry ''neighbor_entry'' (self ''onbor_v6'') [(''dst_mac_address'', self ''customer_mac''),
        (''no_host_route'', bool True)]),
      set_self ''customer_route'' (struct ''sai_thrift_route_entry_t'' [(''vr_id'', self ''ovrf''), (''destination'', ip_prefix
        (add (self ''customer_ip'') (str ''/32'')))]),
      run (api_create_entry ''route_entry'' (self ''customer_route'') [(''next_hop_id'', self ''onhop'')]),
      set_self ''customer_route_v6'' (struct ''sai_thrift_route_entry_t'' [(''vr_id'', self ''ovrf''), (''destination'',
        ip_prefix (add (self ''customer_ipv6'') (str ''/128'')))]),
      run (api_create_entry ''route_entry'' (self ''customer_route_v6'') [(''next_hop_id'', self ''onhop_v6'')])]"

definition TunnelAttributesTest_encapTtlPipeModeVxlanTest :: "'d stmt" where
  "TunnelAttributesTest_encapTtlPipeModeVxlanTest = block [
      assign ''ttl_val'' (num 20),
      assign ''ttl_mode'' (num SAI_TUNNEL_TTL_MODE_PIPE_MODEL),
      assign ''tunnel_type'' (num SAI_TUNNEL_TYPE_VXLAN),
      assign ''term_type'' (num SAI_TUNNEL_TERM_TABLE_ENTRY_TYPE_P2P),
      try_finally [
        assign ''encap_tunnel_map'' (api_create ''tunnel_map'' [(''type'', num SAI_TUNNEL_MAP_TYPE_VIRTUAL_ROUTER_ID_TO_VNI)]),
        assign ''decap_tunnel_map'' (api_create ''tunnel_map'' [(''type'', num SAI_TUNNEL_MAP_TYPE_VNI_TO_VIRTUAL_ROUTER_ID)]),
        assign ''encap_tunnel_map_entry'' (api_create ''tunnel_map_entry'' [(''tunnel_map'', var ''encap_tunnel_map''),
          (''tunnel_map_type'', num SAI_TUNNEL_MAP_TYPE_VIRTUAL_ROUTER_ID_TO_VNI), (''virtual_router_id_key'', self ''ovrf''),
          (''vni_id_value'', self ''vni'')]),
        assign ''decap_tunnel_map_entry'' (api_create ''tunnel_map_entry'' [(''tunnel_map'', var ''encap_tunnel_map''),
          (''tunnel_map_type'', num SAI_TUNNEL_MAP_TYPE_VNI_TO_VIRTUAL_ROUTER_ID), (''virtual_router_id_value'', self ''ovrf''),
          (''vni_id_key'', self ''vni'')]),
        assign ''encap_maps'' (struct ''sai_thrift_object_list_t'' [(''count'', num 1), (''idlist'', list_of [var
          ''encap_tunnel_map''])]),
        assign ''decap_maps'' (struct ''sai_thrift_object_list_t'' [(''count'', num 1), (''idlist'', list_of [var
          ''decap_tunnel_map''])]),
        assign ''tunnel'' (api_create ''tunnel'' [(''type'', var ''tunnel_type''), (''encap_src_ip'', ip_address (self
          ''lpb_ip'')), (''encap_mappers'', var ''encap_maps''), (''decap_mappers'', var ''decap_maps''), (''encap_ttl_mode'',
          var ''ttl_mode''), (''encap_ttl_val'', var ''ttl_val''), (''underlay_interface'', self ''urif_lpb'')]),
        assign ''tunnel_term'' (api_create ''tunnel_term_table_entry'' [(''tunnel_type'', var ''tunnel_type''), (''vr_id'', self
          ''uvrf''), (''action_tunnel_id'', var ''tunnel''), (''type'', var ''term_type''), (''dst_ip'', ip_address (self
          ''lpb_ip''))]),
        assign ''tunnel_nhop'' (api_create ''next_hop'' [(''type'', num SAI_NEXT_HOP_TYPE_TUNNEL_ENCAP), (''tunnel_id'', var
          ''tunnel''), (''ip'', ip_address (self ''tun_ip'')), (''tunnel_mac'', self ''inner_dmac''), (''tunnel_vni'', self
          ''vni'')]),
        assign ''vm_route'' (struct ''sai_thrift_route_entry_t'' [(''vr_id'', self ''ovrf''), (''destination'', ip_prefix (add
          (self ''vm_ip'') (str ''/32'')))]),
        run (api_create_entry ''route_entry'' (var ''vm_route'') [(''next_hop_id'', var ''tunnel_nhop'')]),
        assign ''pkt'' (lib ''simple_udp_packet'' [] [(''eth_dst'', str ROUTER_MAC), (''eth_src'', self ''customer_mac''),
          (''ip_dst'', self ''vm_ip''), (''ip_src'', self ''customer_ip''), (''ip_id'', num 108), (''ip_ttl'', num 64)]),
        assign ''inner_pkt'' (lib ''simple_udp_packet'' [] [(''eth_dst'', self ''inner_dmac''), (''eth_src'', str ROUTER_MAC),
          (''ip_dst'', self ''vm_ip''), (''ip_src'', self ''customer_ip''), (''ip_id'', num 108), (''ip_ttl'', num 63)]),
        assign ''vxlan_pkt'' (lib ''Mask'' [lib ''simple_vxlan_packet'' [] [(''eth_dst'', self ''unbor_mac''), (''eth_src'', str
          ROUTER_MAC), (''ip_dst'', self ''tun_ip''), (''ip_src'', self ''lpb_ip''), (''ip_id'', num 0), (''ip_ttl'', var
          ''ttl_val''), (''ip_flags'', num 2), (''with_udp_chksum'', bool False), (''vxlan_vni'', self ''vni''),
          (''inner_frame'', var ''inner_pkt'')]] []),
        assign ''vxlan_pkt'' (lib ''.set_do_not_care_scapy'' [var ''vxlan_pkt'', str ''UDP'', str ''sport''] []),
        run (lib ''send_packet'' [self ''oport_dev'', var ''pkt''] []),
        run (lib ''verify_packet'' [var ''vxlan_pkt'', self ''uport_dev''] []),
        assign ''ttl_val'' (num 32),
        run (api_set ''tunnel'' (var ''tunnel'') [(''encap_ttl_val'', var ''ttl_val'')]),
        assign ''vxlan_pkt'' (lib ''Mask'' [lib ''simple_vxlan_packet'' [] [(''eth_dst'', self ''unbor_mac''), (''eth_src'', str
          ROUTER_MAC), (''ip_dst'', self ''tun_ip''), (''ip_src'', self ''lpb_ip''), (''ip_id'', num 0), (''ip_ttl'', var
          ''ttl_val''), (''ip_flags'', num 2), (''with_udp_chksum'', bool False), (''vxlan_vni'', self ''vni''),
          (''inner_frame'', var ''inner_pkt'')]] []),
        assign ''vxlan_pkt'' (lib ''.set_do_not_care_scapy'' [var ''vxlan_pkt'', str ''UDP'', str ''sport''] []),
        run (lib ''send_packet'' [self ''oport_dev'', var ''pkt''] []),
        run (lib ''verify_packet'' [var ''vxlan_pkt'', self ''uport_dev''] [])] [
        run (api_remove ''route_entry'' (var ''vm_route'')),
        run (api_remove ''next_hop'' (var ''tunnel_nhop'')),
        run (api_remove ''tunnel_term_table_entry'' (var ''tunnel_term'')),
        run (api_remove ''tunnel'' (var ''tunnel'')),
        run (api_remove ''tunnel_map_entry'' (var ''decap_tunnel_map_entry'')),
        run (api_remove ''tunnel_map_entry'' (var ''encap_tunnel_map_entry'')),
        run (api_remove ''tunnel_map'' (var ''decap_tunnel_map'')),
        run (api_remove ''tunnel_map'' (var ''encap_tunnel_map''))]]"

definition TunnelAttributesTest_encapTtlPipeModeIpInIpTest :: "'d stmt" where
  "TunnelAttributesTest_encapTtlPipeModeIpInIpTest = block [
      assign ''ttl_val'' (num 20),
      assign ''ttl_mode'' (num SAI_TUNNEL_TTL_MODE_PIPE_MODEL),
      assign ''tunnel_type'' (num SAI_TUNNEL_TYPE_IPINIP),
      assign ''term_type'' (num SAI_TUNNEL_TERM_TABLE_ENTRY_TYPE_P2P),
      try_finally [
        assign ''tunnel'' (api_create ''tunnel'' [(''type'', var ''tunnel_type''), (''encap_src_ip'', ip_address (self
          ''lpb_ip'')), (''encap_ttl_mode'', var ''ttl_mode''), (''encap_ttl_val'', var ''ttl_val''), (''underlay_interface'',
          self ''urif_lpb''), (''overlay_interface'', self ''orif_lpb'')]),
        assign ''tunnel_term'' (api_create ''tunnel_term_table_entry'' [(''tunnel_type'', var ''tunnel_type''), (''vr_id'', self
          ''uvrf''), (''action_tunnel_id'', var ''tunnel''), (''type'', var ''term_type''), (''dst_ip'', ip_address (self
          ''lpb_ip'')), (''src_ip'', ip_address (self ''tun_ip''))]),
        assign ''tunnel_nhop'' (api_create ''next_hop'' [(''type'', num SAI_NEXT_HOP_TYPE_TUNNEL_ENCAP), (''tunnel_id'', var
          ''tunnel''), (''ip'', ip_address (self ''tun_ip'')), (''tunnel_mac'', self ''inner_dmac'')]),
        assign ''vm_route'' (struct ''sai_thrift_route_entry_t'' [(''vr_id'', self ''ovrf''), (''destination'', ip_prefix (add
          (self ''vm_ip'') (str ''/32'')))]),
        run (api_create_entry ''route_entry'' (var ''vm_route'') [(''next_hop_id'', var ''tunnel_nhop'')]),
        assign ''pkt'' (lib ''simple_udp_packet'' [] [(''eth_dst'', str ROUTER_MAC), (''eth_src'', self ''customer_mac''),
          (''ip_dst'', self ''vm_ip''), (''ip_src'', self ''customer_ip''), (''ip_id'', num 108), (''ip_ttl'', num 64)]),
        assign ''inner_pkt'' (lib ''simple_udp_packet'' [] [(''eth_dst'', self ''inner_dmac''), (''eth_src'', str ROUTER_MAC),
          (''ip_dst'', self ''vm_ip''), (''ip_src'', self ''customer_ip''), (''ip_id'', num 108), (''ip_ttl'', num 63)]),
        assign ''ipip_pkt'' (lib ''simple_ipv4ip_packet'' [] [(''eth_dst'', self ''unbor_mac''), (''eth_src'', str ROUTER_MAC),
          (''ip_id'', num 0), (''ip_dst'', self ''tun_ip''), (''ip_src'', self ''lpb_ip''), (''ip_ttl'', var ''ttl_val''),
          (''inner_frame'', lib ''get_layer'' [var ''inner_pkt'', str ''IP''] [])]),
        run (lib ''send_packet'' [self ''oport_dev'', var ''pkt''] []),
        run (lib ''verify_packet'' [var ''ipip_pkt'', self ''uport_dev''] [])] [
        run (api_remove ''route_entry'' (var ''vm_route'')),
        run (api_remove ''next_hop'' (var ''tunnel_nhop'')),
        run (api_remove ''tunnel_term_table_entry'' (var ''tunnel_term'')),
        run (api_remove ''tunnel'' (var ''tunnel''))]]"

definition TunnelAttributesTest_encapTtlPipeModeIpv6InIpv6Test :: "'d stmt" where
  "TunnelAttributesTest_encapTtlPipeModeIpv6InIpv6Test = block [
      assign ''ttl_val'' (num 20),
      assign ''ttl_mode'' (num SAI_TUNNEL_TTL_MODE_PIPE_MODEL),
      assign ''tunnel_type'' (num SAI_TUNNEL_TYPE_IPINIP),
      assign ''term_type'' (num SAI_TUNNEL_TERM_TABLE_ENTRY_TYPE_P2P),
      try_finally [
        assign ''tunnel'' (api_create ''tunnel'' [(''type'', var ''tunnel_type''), (''encap_src_ip'', ip_address (self
          ''lpb_ipv6'')), (''encap_ttl_mode'', var ''ttl_mode''), (''encap_ttl_val'', var ''ttl_val''), (''underlay_interface'',
          self ''urif_lpb''), (''overlay_interface'', self ''orif_lpb'')]),
        assign ''tunnel_term'' (api_create ''tunnel_term_table_entry'' [(''tunnel_type'', var ''tunnel_type''), (''vr_id'', self
          ''uvrf''), (''action_tunnel_id'', var ''tunnel''), (''type'', var ''term_type''), (''dst_ip'', ip_address (self
          ''lpb_ipv6'')), (''src_ip'', ip_address (self ''tun_ipv6''))]),
        assign ''tunnel_nhop'' (api_create ''next_hop'' [(''type'', num SAI_NEXT_HOP_TYPE_TUNNEL_ENCAP), (''tunnel_id'', var
          ''tunnel''), (''ip'', ip_address (self ''tun_ipv6'')), (''tunnel_mac'', self ''inner_dmac'')]),
        assign ''vm_route'' (struct ''sai_thrift_route_entry_t'' [(''vr_id'', self ''ovrf''), (''destination'', ip_prefix (add
          (self ''vm_ipv6'') (str ''/128'')))]),
        run (api_create_entry ''route_entry'' (var ''vm_route'') [(''next_hop_id'', var ''tunnel_nhop'')]),
        assign ''pkt'' (lib ''simple_udpv6_packet'' [] [(''eth_dst'', str ROUTER_MAC), (''eth_src'', self ''customer_mac''),
          (''ipv6_dst'', self ''vm_ipv6''), (''ipv6_src'', self ''customer_ipv6''), (''ipv6_hlim'', num 64)]),
        assign ''inner_pkt'' (lib ''simple_udpv6_packet'' [] [(''eth_dst'', self ''inner_dmac''), (''eth_src'', str ROUTER_MAC),
          (''ipv6_dst'', self ''vm_ipv6''), (''ipv6_src'', self ''customer_ipv6''), (''ipv6_hlim'', num 63)]),
        assign ''ipip_pkt'' (lib ''simple_ipv6ip_packet'' [] [(''eth_dst'', self ''unbor_mac''), (''eth_src'', str ROUTER_MAC),
          (''ipv6_src'', self ''lpb_ipv6''), (''ipv6_dst'', self ''tun_ipv6''), (''ipv6_hlim'', var ''ttl_val''),
          (''inner_frame'', lib ''get_layer'' [var ''inner_pkt'', str ''IPv6''] [])]),
        run (lib ''send_packet'' [self ''oport_dev'', var ''pkt''] []),
        run (lib ''verify_packet'' [var ''ipip_pkt'', self ''uport_dev''] [])] [
        run (api_remove ''route_entry'' (var ''vm_route'')),
        run (api_remove ''next_hop'' (var ''tunnel_nhop'')),
        run (api_remove ''tunnel_term_table_entry'' (var ''tunnel_term'')),
        run (api_remove ''tunnel'' (var ''tunnel''))]]"

definition TunnelAttributesTest_decapTtlPipeModeVxlanTest :: "'d stmt" where
  "TunnelAttributesTest_decapTtlPipeModeVxlanTest = block [
      assign ''ttl_val'' (num 20),
      assign ''ttl_mode'' (num SAI_TUNNEL_TTL_MODE_PIPE_MODEL),
      assign ''tunnel_type'' (num SAI_TUNNEL_TYPE_VXLAN),
      assign ''term_type'' (num SAI_TUNNEL_TERM_TABLE_ENTRY_TYPE_P2P),
      try_finally [
        assign ''encap_tunnel_map'' (api_create ''tunnel_map'' [(''type'', num SAI_TUNNEL_MAP_TYPE_VIRTUAL_ROUTER_ID_TO_VNI)]),
        assign ''decap_tunnel_map'' (api_create ''tunnel_map'' [(''type'', num SAI_TUNNEL_MAP_TYPE_VNI_TO_VIRTUAL_ROUTER_ID)]),
        assign ''encap_tunnel_map_entry'' (api_create ''tunnel_map_entry'' [(''tunnel_map'', var ''encap_tunnel_map''),
          (''tunnel_map_type'', num SAI_TUNNEL_MAP_TYPE_VIRTUAL_ROUTER_ID_TO_VNI), (''virtual_router_id_key'', self ''ovrf''),
          (''vni_id_value'', self ''vni'')]),
        assign ''decap_tunnel_map_entry'' (api_create ''tunnel_map_entry'' [(''tunnel_map'', var ''encap_tunnel_map''),
          (''tunnel_map_type'', num SAI_TUNNEL_MAP_TYPE_VNI_TO_VIRTUAL_ROUTER_ID), (''virtual_router_id_value'', self ''ovrf''),
          (''vni_id_key'', self ''vni'')]),
        assign ''encap_maps'' (struct ''sai_thrift_object_list_t'' [(''count'', num 1), (''idlist'', list_of [var
          ''encap_tunnel_map''])]),
        assign ''decap_maps'' (struct ''sai_thrift_object_list_t'' [(''count'', num 1), (''idlist'', list_of [var
          ''decap_tunnel_map''])]),
        assign ''tunnel'' (api_create ''tunnel'' [(''type'', var ''tunnel_type''), (''encap_src_ip'', ip_address (self
          ''lpb_ip'')), (''encap_mappers'', var ''encap_maps''), (''decap_mappers'', var ''decap_maps''), (''decap_ttl_mode'',
          var ''ttl_mode''), (''underlay_interface'', self ''urif_lpb'')]),
        assign ''tunnel_term'' (api_create ''tunnel_term_table_entry'' [(''tunnel_type'', var ''tunnel_type''), (''vr_id'', self
          ''uvrf''), (''action_tunnel_id'', var ''tunnel''), (''type'', var ''term_type''), (''dst_ip'', ip_address (self
          ''lpb_ip''))]),
        assign ''tunnel_nhop'' (api_create ''next_hop'' [(''type'', num SAI_NEXT_HOP_TYPE_TUNNEL_ENCAP), (''tunnel_id'', var
          ''tunnel''), (''ip'', ip_address (self ''tun_ip'')), (''tunnel_mac'', self ''inner_dmac''), (''tunnel_vni'', self
          ''vni'')]),
        assign ''vm_route'' (struct ''sai_thrift_route_entry_t'' [(''vr_id'', self ''ovrf''), (''destination'', ip_prefix (add
          (self ''vm_ip'') (str ''/32'')))]),
        run (api_create_entry ''route_entry'' (var ''vm_route'') [(''next_hop_id'', var ''tunnel_nhop'')]),
        assign ''pkt'' (lib ''simple_udp_packet'' [] [(''eth_dst'', self ''customer_mac''), (''eth_src'', str ROUTER_MAC),
          (''ip_dst'', self ''customer_ip''), (''ip_src'', self ''vm_ip''), (''ip_id'', num 108), (''ip_ttl'', sub (var
          ''ttl_val'') (num 1))]),
        assign ''inner_pkt'' (lib ''simple_udp_packet'' [] [(''eth_dst'', str ROUTER_MAC), (''eth_src'', str ROUTER_MAC),
          (''ip_dst'', self ''customer_ip''), (''ip_src'', self ''vm_ip''), (''ip_id'', num 108), (''ip_ttl'', var
          ''ttl_val'')]),
        assign ''vxlan_pkt'' (lib ''simple_vxlan_packet'' [] [(''eth_dst'', str ROUTER_MAC), (''eth_src'', self ''unbor_mac''),
          (''ip_dst'', self ''lpb_ip''), (''ip_src'', self ''tun_ip''), (''ip_id'', num 0), (''ip_ttl'', num 64), (''ip_flags'',
          num 2), (''udp_sport'', num 11638), (''with_udp_chksum'', bool False), (''vxlan_vni'', self ''vni''),
          (''inner_frame'', var ''inner_pkt'')]),
        run (lib ''send_packet'' [self ''uport_dev'', var ''vxlan_pkt''] []),
        run (lib ''verify_packet'' [var ''pkt'', self ''oport_dev''] [])] [
        run (api_remove ''route_entry'' (var ''vm_route'')),
        run (api_remove ''next_hop'' (var ''tunnel_nhop'')),
        run (api_remove ''tunnel_term_table_entry'' (var ''tunnel_term'')),
        run (api_remove ''tunnel'' (var ''tunnel'')),
        run (api_remove ''tunnel_map_entry'' (var ''decap_tunnel_map_entry'')),
        run (api_remove ''tunnel_map_entry'' (var ''encap_tunnel_map_entry'')),
        run (api_remove ''tunnel_map'' (var ''decap_tunnel_map'')),
        run (api_remove ''tunnel_map'' (var ''encap_tunnel_map''))]]"

definition TunnelAttributesTest_decapTtlPipeModeIpInIpTest :: "'d stmt" where
  "TunnelAttributesTest_decapTtlPipeModeIpInIpTest = block [
      assign ''ttl_val'' (num 20),
      assign ''ttl_mode'' (num SAI_TUNNEL_TTL_MODE_PIPE_MODEL),
      assign ''tunnel_type'' (num SAI_TUNNEL_TYPE_IPINIP),
      assign ''term_type'' (num SAI_TUNNEL_TERM_TABLE_ENTRY_TYPE_P2P),
      try_finally [
        assign ''tunnel'' (api_create ''tunnel'' [(''type'', var ''tunnel_type''), (''encap_src_ip'', ip_address (self
          ''lpb_ip'')), (''decap_ttl_mode'', var ''ttl_mode''), (''underlay_interface'', self ''urif_lpb''),
          (''overlay_interface'', self ''orif_lpb'')]),
        assign ''tunnel_term'' (api_create ''tunnel_term_table_entry'' [(''tunnel_type'', var ''tunnel_type''), (''vr_id'', self
          ''uvrf''), (''action_tunnel_id'', var ''tunnel''), (''type'', var ''term_type''), (''dst_ip'', ip_address (self
          ''lpb_ip''))]),
        assign ''tunnel_nhop'' (api_create ''next_hop'' [(''type'', num SAI_NEXT_HOP_TYPE_TUNNEL_ENCAP), (''tunnel_id'', var
          ''tunnel''), (''ip'', ip_address (self ''tun_ip'')), (''tunnel_mac'', self ''inner_dmac''), (''tunnel_vni'', self
          ''vni'')]),
        assign ''vm_route'' (struct ''sai_thrift_route_entry_t'' [(''vr_id'', self ''ovrf''), (''destination'', ip_prefix (add
          (self ''vm_ip'') (str ''/32'')))]),
        run (api_create_entry ''route_entry'' (var ''vm_route'') [(''next_hop_id'', var ''tunnel_nhop'')]),
        assign ''pkt'' (lib ''simple_udp_packet'' [] [(''eth_dst'', self ''customer_mac''), (''eth_src'', str ROUTER_MAC),
          (''ip_dst'', self ''customer_ip''), (''ip_src'', self ''vm_ip''), (''ip_id'', num 108), (''ip_ttl'', sub (var
          ''ttl_val'') (num 1))]),
        assign ''inner_pkt'' (lib ''simple_udp_packet'' [] [(''eth_dst'', str ROUTER_MAC), (''eth_src'', self ''inner_dmac''),
          (''ip_dst'', self ''customer_ip''), (''ip_src'', self ''vm_ip''), (''ip_id'', num 108), (''ip_ttl'', var
          ''ttl_val'')]),
        assign ''ipip_pkt'' (lib ''simple_ipv4ip_packet'' [] [(''eth_dst'', str ROUTER_MAC), (''eth_src'', self ''unbor_mac''),
          (''ip_dst'', self ''lpb_ip''), (''ip_src'', self ''tun_ip''), (''ip_id'', num 0), (''ip_ttl'', num 64),
          (''inner_frame'', lib ''get_layer'' [var ''inner_pkt'', str ''IP''] [])]),
        run (lib ''send_packet'' [self ''uport_dev'', var ''ipip_pkt''] []),
        run (lib ''verify_packet'' [var ''pkt'', self ''oport_dev''] [])] [
        run (api_remove ''route_entry'' (var ''vm_route'')),
        run (api_remove ''next_hop'' (var ''tunnel_nhop'')),
        run (api_remove ''tunnel_term_table_entry'' (var ''tunnel_term'')),
        run (api_remove ''tunnel'' (var ''tunnel''))]]"

definition TunnelAttributesTest_decapTtlPipeModeIpv6InIpv6Test :: "'d stmt" where
  "TunnelAttributesTest_decapTtlPipeModeIpv6InIpv6Test = block [
      assign ''ttl_val'' (num 20),
      assign ''ttl_mode'' (num SAI_TUNNEL_TTL_MODE_PIPE_MODEL),
      assign ''tunnel_type'' (num SAI_TUNNEL_TYPE_IPINIP),
      assign ''term_type'' (num SAI_TUNNEL_TERM_TABLE_ENTRY_TYPE_P2P),
      try_finally [
        assign ''tunnel'' (api_create ''tunnel'' [(''type'', var ''tunnel_type''), (''encap_src_ip'', ip_address (self
          ''lpb_ipv6'')), (''decap_ttl_mode'', var ''ttl_mode''), (''underlay_interface'', self ''urif_lpb''),
          (''overlay_interface'', self ''orif_lpb'')]),
        assign ''tunnel_term'' (api_create ''tunnel_term_table_entry'' [(''tunnel_type'', var ''tunnel_type''), (''vr_id'', self
          ''uvrf''), (''action_tunnel_id'', var ''tunnel''), (''type'', var ''term_type''), (''dst_ip'', ip_address (self
          ''lpb_ipv6''))]),
        assign ''tunnel_nhop'' (api_create ''next_hop'' [(''type'', num SAI_NEXT_HOP_TYPE_TUNNEL_ENCAP), (''tunnel_id'', var
          ''tunnel''), (''ip'', ip_address (self ''tun_ipv6'')), (''tunnel_mac'', self ''inner_dmac''), (''tunnel_vni'', self
          ''vni'')]),
        assign ''vm_route'' (struct ''sai_thrift_route_entry_t'' [(''vr_id'', self ''ovrf''), (''destination'', ip_prefix (add
          (self ''vm_ipv6'') (str ''/128'')))]),
        run (api_create_entry ''route_entry'' (var ''vm_route'') [(''next_hop_id'', var ''tunnel_nhop'')]),
        assign ''pkt'' (lib ''simple_udpv6_packet'' [] [(''eth_dst'', self ''customer_mac''), (''eth_src'', str ROUTER_MAC),
          (''ipv6_dst'', self ''customer_ipv6''), (''ipv6_src'', self ''vm_ipv6''), (''ipv6_hlim'', sub (var ''ttl_val'') (num
          1))]),
        assign ''inner_pkt'' (lib ''simple_udpv6_packet'' [] [(''eth_dst'', str ROUTER_MAC), (''eth_src'', self ''inner_dmac''),
          (''ipv6_dst'', self ''customer_ipv6''), (''ipv6_src'', self ''vm_ipv6''), (''ipv6_hlim'', var ''ttl_val'')]),
        assign ''ipip_pkt'' (lib ''simple_ipv6ip_packet'' [] [(''eth_dst'', str ROUTER_MAC), (''eth_src'', self ''unbor_mac''),
          (''ipv6_dst'', self ''lpb_ipv6''), (''ipv6_src'', self ''tun_ipv6''), (''ipv6_hlim'', num 64), (''inner_frame'', lib
          ''get_layer'' [var ''inner_pkt'', str ''IPv6''] [])]),
        run (lib ''send_packet'' [self ''uport_dev'', var ''ipip_pkt''] []),
        run (lib ''verify_packet'' [var ''pkt'', self ''oport_dev''] [])] [
        run (api_remove ''route_entry'' (var ''vm_route'')),
        run (api_remove ''next_hop'' (var ''tunnel_nhop'')),
        run (api_remove ''tunnel_term_table_entry'' (var ''tunnel_term'')),
        run (api_remove ''tunnel'' (var ''tunnel''))]]"

definition TunnelAttributesTest_encapDscpUniformModeVxlanTest :: "'d stmt" where
  "TunnelAttributesTest_encapDscpUniformModeVxlanTest = block [
      assign ''orig_dscp_val'' (num 18),
      assign ''rewrite_dscp_val'' (num 20),
      assign ''map_tc'' (num 2),
      assign ''tunnel_dscp_val'' (num 10),
      assign ''dscp_mode'' (num SAI_TUNNEL_DSCP_MODE_UNIFORM_MODEL),
      assign ''ttl_mode'' (num SAI_TUNNEL_TTL_MODE_PIPE_MODEL),
      assign ''tunnel_type'' (num SAI_TUNNEL_TYPE_VXLAN),
      assign ''term_type'' (num SAI_TUNNEL_TERM_TABLE_ENTRY_TYPE_P2P),
      assign ''qos_map_exists'' (bool False),
      try_finally [
        assign ''encap_tunnel_map'' (api_create ''tunnel_map'' [(''type'', num SAI_TUNNEL_MAP_TYPE_VIRTUAL_ROUTER_ID_TO_VNI)]),
        assign ''decap_tunnel_map'' (api_create ''tunnel_map'' [(''type'', num SAI_TUNNEL_MAP_TYPE_VNI_TO_VIRTUAL_ROUTER_ID)]),
        assign ''encap_tunnel_map_entry'' (api_create ''tunnel_map_entry'' [(''tunnel_map'', var ''encap_tunnel_map''),
          (''tunnel_map_type'', num SAI_TUNNEL_MAP_TYPE_VIRTUAL_ROUTER_ID_TO_VNI), (''virtual_router_id_key'', self ''ovrf''),
          (''vni_id_value'', self ''vni'')]),
        assign ''decap_tunnel_map_entry'' (api_create ''tunnel_map_entry'' [(''tunnel_map'', var ''encap_tunnel_map''),
          (''tunnel_map_type'', num SAI_TUNNEL_MAP_TYPE_VNI_TO_VIRTUAL_ROUTER_ID), (''virtual_router_id_value'', self ''ovrf''),
          (''vni_id_key'', self ''vni'')]),
        assign ''encap_maps'' (struct ''sai_thrift_object_list_t'' [(''count'', num 1), (''idlist'', list_of [var
          ''encap_tunnel_map''])]),
        assign ''decap_maps'' (struct ''sai_thrift_object_list_t'' [(''count'', num 1), (''idlist'', list_of [var
          ''decap_tunnel_map''])]),
        assign ''tunnel'' (api_create ''tunnel'' [(''type'', var ''tunnel_type''), (''encap_src_ip'', ip_address (self
          ''lpb_ip'')), (''encap_mappers'', var ''encap_maps''), (''decap_mappers'', var ''decap_maps''), (''encap_ttl_mode'',
          var ''ttl_mode''), (''encap_dscp_mode'', var ''dscp_mode''), (''encap_dscp_val'', var ''tunnel_dscp_val''),
          (''underlay_interface'', self ''urif_lpb'')]),
        assign ''tunnel_term'' (api_create ''tunnel_term_table_entry'' [(''tunnel_type'', var ''tunnel_type''), (''vr_id'', self
          ''uvrf''), (''action_tunnel_id'', var ''tunnel''), (''type'', var ''term_type''), (''dst_ip'', ip_address (self
          ''lpb_ip''))]),
        assign ''tunnel_nhop'' (api_create ''next_hop'' [(''type'', num SAI_NEXT_HOP_TYPE_TUNNEL_ENCAP), (''tunnel_id'', var
          ''tunnel''), (''ip'', ip_address (self ''tun_ip'')), (''tunnel_mac'', self ''inner_dmac''), (''tunnel_vni'', self
          ''vni'')]),
        assign ''vm_route'' (struct ''sai_thrift_route_entry_t'' [(''vr_id'', self ''ovrf''), (''destination'', ip_prefix (add
          (self ''vm_ip'') (str ''/32'')))]),
        run (api_create_entry ''route_entry'' (var ''vm_route'') [(''next_hop_id'', var ''tunnel_nhop'')]),
        assign ''pkt'' (lib ''simple_udp_packet'' [] [(''eth_dst'', str ROUTER_MAC), (''eth_src'', self ''customer_mac''),
          (''ip_dst'', self ''vm_ip''), (''ip_src'', self ''customer_ip''), (''ip_id'', num 108), (''ip_dscp'', var
          ''orig_dscp_val''), (''ip_ttl'', num 64)]),
        assign ''inner_pkt'' (lib ''simple_udp_packet'' [] [(''eth_dst'', self ''inner_dmac''), (''eth_src'', str ROUTER_MAC),
          (''ip_dst'', self ''vm_ip''), (''ip_src'', self ''customer_ip''), (''ip_id'', num 108), (''ip_dscp'', var
          ''orig_dscp_val''), (''ip_ttl'', num 63)]),
        assign ''vxlan_pkt'' (lib ''Mask'' [lib ''simple_vxlan_packet'' [] [(''eth_dst'', self ''unbor_mac''), (''eth_src'', str
          ROUTER_MAC), (''ip_dst'', self ''tun_ip''), (''ip_src'', self ''lpb_ip''), (''ip_id'', num 0), (''ip_dscp'', var
          ''orig_dscp_val''), (''ip_ttl'', num 64), (''ip_flags'', num 2), (''with_udp_chksum'', bool False), (''vxlan_vni'',
          self ''vni''), (''inner_frame'', var ''inner_pkt'')]] []),
        assign ''vxlan_pkt'' (lib ''.set_do_not_care_scapy'' [var ''vxlan_pkt'', str ''UDP'', str ''sport''] []),
        run (lib ''send_packet'' [self ''oport_dev'', var ''pkt''] []),
        run (lib ''verify_packet'' [var ''vxlan_pkt'', self ''uport_dev''] []),
        assign ''tunnel_dscp_val'' (num 12),
        run (api_set ''tunnel'' (var ''tunnel'') [(''encap_dscp_val'', var ''tunnel_dscp_val'')]),
        assign ''vxlan_pkt'' (lib ''Mask'' [lib ''simple_vxlan_packet'' [] [(''eth_dst'', self ''unbor_mac''), (''eth_src'', str
          ROUTER_MAC), (''ip_dst'', self ''tun_ip''), (''ip_src'', self ''lpb_ip''), (''ip_id'', num 0), (''ip_dscp'', var
          ''orig_dscp_val''), (''ip_ttl'', num 64), (''ip_flags'', num 2), (''with_udp_chksum'', bool False), (''vxlan_vni'',
          self ''vni''), (''inner_frame'', var ''inner_pkt'')]] []),
        assign ''vxlan_pkt'' (lib ''.set_do_not_care_scapy'' [var ''vxlan_pkt'', str ''UDP'', str ''sport''] []),
        run (lib ''send_packet'' [self ''oport_dev'', var ''pkt''] []),
        run (lib ''verify_packet'' [var ''vxlan_pkt'', self ''uport_dev''] []),
        assign ''dscp_to_tc_map_list'' (struct ''sai_thrift_qos_map_list_t'' [(''count'', num 1), (''maplist'', list_of [struct
          ''sai_thrift_qos_map_t'' [(''key'', struct ''sai_thrift_qos_map_params_t'' [(''dscp'', var ''orig_dscp_val'')]),
          (''value'', struct ''sai_thrift_qos_map_params_t'' [(''tc'', var ''map_tc'')])]])]),
        assign ''dscp_to_tc_map_id'' (api_create ''qos_map'' [(''type'', num SAI_QOS_MAP_TYPE_DSCP_TO_TC),
          (''map_to_value_list'', var ''dscp_to_tc_map_list'')]),
        run (api_set ''port'' (self ''oport'') [(''qos_dscp_to_tc_map'', var ''dscp_to_tc_map_id'')]),
        assign ''tc_to_dscp_map_list'' (struct ''sai_thrift_qos_map_list_t'' [(''count'', num 1), (''maplist'', list_of [struct
          ''sai_thrift_qos_map_t'' [(''key'', struct ''sai_thrift_qos_map_params_t'' [(''tc'', var ''map_tc''), (''color'', num
          SAI_PACKET_COLOR_GREEN)]), (''value'', struct ''sai_thrift_qos_map_params_t'' [(''dscp'', var
          ''rewrite_dscp_val'')])]])]),
        assign ''tc_to_dscp_map_id'' (api_create ''qos_map'' [(''type'', num SAI_QOS_MAP_TYPE_TC_AND_COLOR_TO_DSCP),
          (''map_to_value_list'', var ''tc_to_dscp_map_list'')]),
        run (api_set ''port'' (self ''uport'') [(''qos_tc_and_color_to_dscp_map'', var ''tc_to_dscp_map_id'')]),
        assign ''qos_map_exists'' (bool True),
        assign ''pkt'' (lib ''simple_udp_packet'' [] [(''eth_dst'', str ROUTER_MAC), (''eth_src'', self ''customer_mac''),
          (''ip_dst'', self ''vm_ip''), (''ip_src'', self ''customer_ip''), (''ip_id'', num 108), (''ip_dscp'', var
          ''orig_dscp_val''), (''ip_ttl'', num 64)]),
        assign ''inner_pkt'' (lib ''simple_udp_packet'' [] [(''eth_dst'', self ''inner_dmac''), (''eth_src'', str ROUTER_MAC),
          (''ip_dst'', self ''vm_ip''), (''ip_src'', self ''customer_ip''), (''ip_id'', num 108), (''ip_dscp'', var
          ''rewrite_dscp_val''), (''ip_ttl'', num 63)]),
        assign ''vxlan_pkt'' (lib ''Mask'' [lib ''simple_vxlan_packet'' [] [(''eth_dst'', self ''unbor_mac''), (''eth_src'', str
          ROUTER_MAC), (''ip_dst'', self ''tun_ip''), (''ip_src'', self ''lpb_ip''), (''ip_id'', num 0), (''ip_dscp'', var
          ''rewrite_dscp_val''), (''ip_ttl'', num 64), (''ip_flags'', num 2), (''with_udp_chksum'', bool False), (''vxlan_vni'',
          self ''vni''), (''inner_frame'', var ''inner_pkt'')]] []),
        assign ''vxlan_pkt'' (lib ''.set_do_not_care_scapy'' [var ''vxlan_pkt'', str ''UDP'', str ''sport''] []),
        run (lib ''send_packet'' [self ''oport_dev'', var ''pkt''] []),
        run (lib ''verify_packet'' [var ''vxlan_pkt'', self ''uport_dev''] [])] [
        if_else (var ''qos_map_exists'') [
          run (api_set ''port'' (self ''oport'') [(''qos_dscp_to_tc_map'', as_int (num SAI_NULL_OBJECT_ID))]),
          run (api_remove ''qos_map'' (var ''dscp_to_tc_map_id'')),
          run (api_set ''port'' (self ''uport'') [(''qos_tc_and_color_to_dscp_map'', as_int (num SAI_NULL_OBJECT_ID))]),
          run (api_remove ''qos_map'' (var ''tc_to_dscp_map_id''))] [],
        run (api_remove ''route_entry'' (var ''vm_route'')),
        run (api_remove ''next_hop'' (var ''tunnel_nhop'')),
        run (api_remove ''tunnel_term_table_entry'' (var ''tunnel_term'')),
        run (api_remove ''tunnel'' (var ''tunnel'')),
        run (api_remove ''tunnel_map_entry'' (var ''decap_tunnel_map_entry'')),
        run (api_remove ''tunnel_map_entry'' (var ''encap_tunnel_map_entry'')),
        run (api_remove ''tunnel_map'' (var ''decap_tunnel_map'')),
        run (api_remove ''tunnel_map'' (var ''encap_tunnel_map''))]]"

definition TunnelAttributesTest_encapDscpUniformModeIpv4InIpv4Test :: "'d stmt" where
  "TunnelAttributesTest_encapDscpUniformModeIpv4InIpv4Test = block [
      assign ''orig_dscp_val'' (num 18),
      assign ''rewrite_dscp_val'' (num 20),
      assign ''map_tc'' (num 2),
      assign ''tunnel_dscp_val'' (num 10),
      assign ''dscp_mode'' (num SAI_TUNNEL_DSCP_MODE_UNIFORM_MODEL),
      assign ''ttl_mode'' (num SAI_TUNNEL_TTL_MODE_PIPE_MODEL),
      assign ''tunnel_type'' (num SAI_TUNNEL_TYPE_IPINIP),
      assign ''term_type'' (num SAI_TUNNEL_TERM_TABLE_ENTRY_TYPE_P2P),
      assign ''qos_map_exists'' (bool False),
      try_finally [
        assign ''tunnel'' (api_create ''tunnel'' [(''type'', var ''tunnel_type''), (''encap_src_ip'', ip_address (self
          ''lpb_ip'')), (''encap_ttl_mode'', var ''ttl_mode''), (''encap_dscp_mode'', var ''dscp_mode''), (''encap_dscp_val'',
          var ''tunnel_dscp_val''), (''underlay_interface'', self ''urif_lpb''), (''overlay_interface'', self ''orif_lpb'')]),
        assign ''tunnel_term'' (api_create ''tunnel_term_table_entry'' [(''tunnel_type'', var ''tunnel_type''), (''vr_id'', self
          ''uvrf''), (''action_tunnel_id'', var ''tunnel''), (''type'', var ''term_type''), (''dst_ip'', ip_address (self
          ''lpb_ip'')), (''src_ip'', ip_address (self ''tun_ip''))]),
        assign ''tunnel_nhop'' (api_create ''next_hop'' [(''type'', num SAI_NEXT_HOP_TYPE_TUNNEL_ENCAP), (''tunnel_id'', var
          ''tunnel''), (''ip'', ip_address (self ''tun_ip'')), (''tunnel_mac'', self ''inner_dmac'')]),
        assign ''vm_route'' (struct ''sai_thrift_route_entry_t'' [(''vr_id'', self ''ovrf''), (''destination'', ip_prefix (add
          (self ''vm_ip'') (str ''/32'')))]),
        run (api_create_entry ''route_entry'' (var ''vm_route'') [(''next_hop_id'', var ''tunnel_nhop'')]),
        assign ''pkt'' (lib ''simple_udp_packet'' [] [(''eth_dst'', str ROUTER_MAC), (''eth_src'', self ''customer_mac''),
          (''ip_dst'', self ''vm_ip''), (''ip_src'', self ''customer_ip''), (''ip_id'', num 108), (''ip_dscp'', var
          ''orig_dscp_val''), (''ip_ttl'', num 64)]),
        assign ''inner_pkt'' (lib ''simple_udp_packet'' [] [(''eth_dst'', self ''inner_dmac''), (''eth_src'', str ROUTER_MAC),
          (''ip_dst'', self ''vm_ip''), (''ip_src'', self ''customer_ip''), (''ip_id'', num 108), (''ip_dscp'', var
          ''orig_dscp_val''), (''ip_ttl'', num 63)]),
        assign ''ipip_pkt'' (lib ''simple_ipv4ip_packet'' [] [(''eth_dst'', self ''unbor_mac''), (''eth_src'', str ROUTER_MAC),
          (''ip_id'', num 0), (''ip_dst'', self ''tun_ip''), (''ip_src'', self ''lpb_ip''), (''ip_dscp'', var
          ''orig_dscp_val''), (''ip_ttl'', num 64), (''inner_frame'', lib ''get_layer'' [var ''inner_pkt'', str ''IP''] [])]),
        run (lib ''send_packet'' [self ''oport_dev'', var ''pkt''] []),
        run (lib ''verify_packet'' [var ''ipip_pkt'', self ''uport_dev''] []),
        assign ''dscp_to_tc_map_list'' (struct ''sai_thrift_qos_map_list_t'' [(''count'', num 1), (''maplist'', list_of [struct
          ''sai_thrift_qos_map_t'' [(''key'', struct ''sai_thrift_qos_map_params_t'' [(''dscp'', var ''orig_dscp_val'')]),
          (''value'', struct ''sai_thrift_qos_map_params_t'' [(''tc'', var ''map_tc'')])]])]),
        assign ''dscp_to_tc_map_id'' (api_create ''qos_map'' [(''type'', num SAI_QOS_MAP_TYPE_DSCP_TO_TC),
          (''map_to_value_list'', var ''dscp_to_tc_map_list'')]),
        run (api_set ''port'' (self ''oport'') [(''qos_dscp_to_tc_map'', var ''dscp_to_tc_map_id'')]),
        assign ''tc_to_dscp_map_list'' (struct ''sai_thrift_qos_map_list_t'' [(''count'', num 1), (''maplist'', list_of [struct
          ''sai_thrift_qos_map_t'' [(''key'', struct ''sai_thrift_qos_map_params_t'' [(''tc'', var ''map_tc''), (''color'', num
          SAI_PACKET_COLOR_GREEN)]), (''value'', struct ''sai_thrift_qos_map_params_t'' [(''dscp'', var
          ''rewrite_dscp_val'')])]])]),
        assign ''tc_to_dscp_map_id'' (api_create ''qos_map'' [(''type'', num SAI_QOS_MAP_TYPE_TC_AND_COLOR_TO_DSCP),
          (''map_to_value_list'', var ''tc_to_dscp_map_list'')]),
        run (api_set ''port'' (self ''uport'') [(''qos_tc_and_color_to_dscp_map'', var ''tc_to_dscp_map_id'')]),
        assign ''qos_map_exists'' (bool True),
        assign ''pkt'' (lib ''simple_udp_packet'' [] [(''eth_dst'', str ROUTER_MAC), (''eth_src'', self ''customer_mac''),
          (''ip_dst'', self ''vm_ip''), (''ip_src'', self ''customer_ip''), (''ip_id'', num 108), (''ip_dscp'', var
          ''orig_dscp_val''), (''ip_ttl'', num 64)]),
        assign ''inner_pkt'' (lib ''simple_udp_packet'' [] [(''eth_dst'', self ''inner_dmac''), (''eth_src'', str ROUTER_MAC),
          (''ip_dst'', self ''vm_ip''), (''ip_src'', self ''customer_ip''), (''ip_id'', num 108), (''ip_dscp'', var
          ''rewrite_dscp_val''), (''ip_ttl'', num 63)]),
        assign ''ipip_pkt'' (lib ''simple_ipv4ip_packet'' [] [(''eth_dst'', self ''unbor_mac''), (''eth_src'', str ROUTER_MAC),
          (''ip_id'', num 0), (''ip_dst'', self ''tun_ip''), (''ip_src'', self ''lpb_ip''), (''ip_dscp'', var
          ''rewrite_dscp_val''), (''ip_ttl'', num 64), (''inner_frame'', lib ''get_layer'' [var ''inner_pkt'', str ''IP''] [])]),
        run (lib ''send_packet'' [self ''oport_dev'', var ''pkt''] []),
        run (lib ''verify_packet'' [var ''ipip_pkt'', self ''uport_dev''] [])] [
        if_else (var ''qos_map_exists'') [
          run (api_set ''port'' (self ''oport'') [(''qos_dscp_to_tc_map'', as_int (num SAI_NULL_OBJECT_ID))]),
          run (api_remove ''qos_map'' (var ''dscp_to_tc_map_id'')),
          run (api_set ''port'' (self ''uport'') [(''qos_tc_and_color_to_dscp_map'', as_int (num SAI_NULL_OBJECT_ID))]),
          run (api_remove ''qos_map'' (var ''tc_to_dscp_map_id''))] [],
        run (api_remove ''route_entry'' (var ''vm_route'')),
        run (api_remove ''next_hop'' (var ''tunnel_nhop'')),
        run (api_remove ''tunnel_term_table_entry'' (var ''tunnel_term'')),
        run (api_remove ''tunnel'' (var ''tunnel''))]]"

definition TunnelAttributesTest_encapDscpUniformModeIpv6InIpv6Test :: "'d stmt" where
  "TunnelAttributesTest_encapDscpUniformModeIpv6InIpv6Test = block [
      assign ''orig_dscp_val'' (num 18),
      assign ''rewrite_dscp_val'' (num 20),
      assign ''map_tc'' (num 2),
      assign ''tunnel_dscp_val'' (num 10),
      assign ''dscp_mode'' (num SAI_TUNNEL_DSCP_MODE_UNIFORM_MODEL),
      assign ''ttl_mode'' (num SAI_TUNNEL_TTL_MODE_PIPE_MODEL),
      assign ''tunnel_type'' (num SAI_TUNNEL_TYPE_IPINIP),
      assign ''term_type'' (num SAI_TUNNEL_TERM_TABLE_ENTRY_TYPE_P2P),
      assign ''qos_map_exists'' (bool False),
      try_finally [
        assign ''tunnel'' (api_create ''tunnel'' [(''type'', var ''tunnel_type''), (''encap_src_ip'', ip_address (self
          ''lpb_ipv6'')), (''encap_ttl_mode'', var ''ttl_mode''), (''encap_dscp_mode'', var ''dscp_mode''), (''encap_dscp_val'',
          var ''tunnel_dscp_val''), (''underlay_interface'', self ''urif_lpb''), (''overlay_interface'', self ''orif_lpb'')]),
        assign ''tunnel_term'' (api_create ''tunnel_term_table_entry'' [(''tunnel_type'', var ''tunnel_type''), (''vr_id'', self
          ''uvrf''), (''action_tunnel_id'', var ''tunnel''), (''type'', var ''term_type''), (''dst_ip'', ip_address (self
          ''lpb_ipv6'')), (''src_ip'', ip_address (self ''tun_ipv6''))]),
        assign ''tunnel_nhop'' (api_create ''next_hop'' [(''type'', num SAI_NEXT_HOP_TYPE_TUNNEL_ENCAP), (''tunnel_id'', var
          ''tunnel''), (''ip'', ip_address (self ''tun_ipv6'')), (''tunnel_mac'', self ''inner_dmac'')]),
        assign ''vm_route'' (struct ''sai_thrift_route_entry_t'' [(''vr_id'', self ''ovrf''), (''destination'', ip_prefix (add
          (self ''vm_ipv6'') (str ''/128'')))]),
        run (api_create_entry ''route_entry'' (var ''vm_route'') [(''next_hop_id'', var ''tunnel_nhop'')]),
        assign ''pkt'' (lib ''simple_udpv6_packet'' [] [(''eth_dst'', str ROUTER_MAC), (''eth_src'', self ''customer_mac''),
          (''ipv6_dst'', self ''vm_ipv6''), (''ipv6_src'', self ''customer_ipv6''), (''ipv6_dscp'', var ''orig_dscp_val''),
          (''ipv6_hlim'', num 64)]),
        assign ''inner_pkt'' (lib ''simple_udpv6_packet'' [] [(''eth_dst'', self ''inner_dmac''), (''eth_src'', str ROUTER_MAC),
          (''ipv6_dst'', self ''vm_ipv6''), (''ipv6_src'', self ''customer_ipv6''), (''ipv6_dscp'', var ''orig_dscp_val''),
          (''ipv6_hlim'', num 63)]),
        assign ''ipip_pkt'' (lib ''simple_ipv6ip_packet'' [] [(''eth_dst'', self ''unbor_mac''), (''eth_src'', str ROUTER_MAC),
          (''ipv6_src'', self ''lpb_ipv6''), (''ipv6_dst'', self ''tun_ipv6''), (''ipv6_dscp'', var ''orig_dscp_val''),
          (''ipv6_hlim'', num 64), (''inner_frame'', lib ''get_layer'' [var ''inner_pkt'', str ''IPv6''] [])]),
        run (lib ''send_packet'' [self ''oport_dev'', var ''pkt''] []),
        run (lib ''verify_packet'' [var ''ipip_pkt'', self ''uport_dev''] []),
        assign ''dscp_to_tc_map_list'' (struct ''sai_thrift_qos_map_list_t'' [(''count'', num 1), (''maplist'', list_of [struct
          ''sai_thrift_qos_map_t'' [(''key'', struct ''sai_thrift_qos_map_params_t'' [(''dscp'', var ''orig_dscp_val'')]),
          (''value'', struct ''sai_thrift_qos_map_params_t'' [(''tc'', var ''map_tc'')])]])]),
        assign ''dscp_to_tc_map_id'' (api_create ''qos_map'' [(''type'', num SAI_QOS_MAP_TYPE_DSCP_TO_TC),
          (''map_to_value_list'', var ''dscp_to_tc_map_list'')]),
        run (api_set ''port'' (self ''oport'') [(''qos_dscp_to_tc_map'', var ''dscp_to_tc_map_id'')]),
        assign ''tc_to_dscp_map_list'' (struct ''sai_thrift_qos_map_list_t'' [(''count'', num 1), (''maplist'', list_of [struct
          ''sai_thrift_qos_map_t'' [(''key'', struct ''sai_thrift_qos_map_params_t'' [(''tc'', var ''map_tc''), (''color'', num
          SAI_PACKET_COLOR_GREEN)]), (''value'', struct ''sai_thrift_qos_map_params_t'' [(''dscp'', var
          ''rewrite_dscp_val'')])]])]),
        assign ''tc_to_dscp_map_id'' (api_create ''qos_map'' [(''type'', num SAI_QOS_MAP_TYPE_TC_AND_COLOR_TO_DSCP),
          (''map_to_value_list'', var ''tc_to_dscp_map_list'')]),
        run (api_set ''port'' (self ''uport'') [(''qos_tc_and_color_to_dscp_map'', var ''tc_to_dscp_map_id'')]),
        assign ''qos_map_exists'' (bool True),
        assign ''pkt'' (lib ''simple_udpv6_packet'' [] [(''eth_dst'', str ROUTER_MAC), (''eth_src'', self ''customer_mac''),
          (''ipv6_dst'', self ''vm_ipv6''), (''ipv6_src'', self ''customer_ipv6''), (''ipv6_dscp'', var ''orig_dscp_val''),
          (''ipv6_hlim'', num 64)]),
        assign ''inner_pkt'' (lib ''simple_udpv6_packet'' [] [(''eth_dst'', self ''inner_dmac''), (''eth_src'', str ROUTER_MAC),
          (''ipv6_dst'', self ''vm_ipv6''), (''ipv6_src'', self ''customer_ipv6''), (''ipv6_dscp'', var ''rewrite_dscp_val''),
          (''ipv6_hlim'', num 63)]),
        assign ''ipip_pkt'' (lib ''simple_ipv6ip_packet'' [] [(''eth_dst'', self ''unbor_mac''), (''eth_src'', str ROUTER_MAC),
          (''ipv6_src'', self ''lpb_ipv6''), (''ipv6_dst'', self ''tun_ipv6''), (''ipv6_dscp'', var ''rewrite_dscp_val''),
          (''ipv6_hlim'', num 64), (''inner_frame'', lib ''get_layer'' [var ''inner_pkt'', str ''IPv6''] [])]),
        run (lib ''send_packet'' [self ''oport_dev'', var ''pkt''] []),
        run (lib ''verify_packet'' [var ''ipip_pkt'', self ''uport_dev''] [])] [
        if_else (var ''qos_map_exists'') [
          run (api_set ''port'' (self ''oport'') [(''qos_dscp_to_tc_map'', as_int (num SAI_NULL_OBJECT_ID))]),
          run (api_remove ''qos_map'' (var ''dscp_to_tc_map_id'')),
          run (api_set ''port'' (self ''uport'') [(''qos_tc_and_color_to_dscp_map'', as_int (num SAI_NULL_OBJECT_ID))]),
          run (api_remove ''qos_map'' (var ''tc_to_dscp_map_id''))] [],
        run (api_remove ''route_entry'' (var ''vm_route'')),
        run (api_remove ''next_hop'' (var ''tunnel_nhop'')),
        run (api_remove ''tunnel_term_table_entry'' (var ''tunnel_term'')),
        run (api_remove ''tunnel'' (var ''tunnel''))]]"

definition TunnelAttributesTest_decapDscpUniformModeVxlanTest :: "'d stmt" where
  "TunnelAttributesTest_decapDscpUniformModeVxlanTest = block [
      assign ''tunnel_dscp_val'' (num 10),
      assign ''inner_dscp_val'' (num 18),
      assign ''rewrite_dscp_val'' (num 20),
      assign ''map_tc'' (num 2),
      assign ''dscp_mode'' (num SAI_TUNNEL_DSCP_MODE_UNIFORM_MODEL),
      assign ''ttl_mode'' (num SAI_TUNNEL_TTL_MODE_PIPE_MODEL),
      assign ''tunnel_type'' (num SAI_TUNNEL_TYPE_VXLAN),
      assign ''term_type'' (num SAI_TUNNEL_TERM_TABLE_ENTRY_TYPE_P2P),
      assign ''qos_map_exists'' (bool False),
      try_finally [
        assign ''encap_tunnel_map'' (api_create ''tunnel_map'' [(''type'', num SAI_TUNNEL_MAP_TYPE_VIRTUAL_ROUTER_ID_TO_VNI)]),
        assign ''decap_tunnel_map'' (api_create ''tunnel_map'' [(''type'', num SAI_TUNNEL_MAP_TYPE_VNI_TO_VIRTUAL_ROUTER_ID)]),
        assign ''encap_tunnel_map_entry'' (api_create ''tunnel_map_entry'' [(''tunnel_map'', var ''encap_tunnel_map''),
          (''tunnel_map_type'', num SAI_TUNNEL_MAP_TYPE_VIRTUAL_ROUTER_ID_TO_VNI), (''virtual_router_id_key'', self ''ovrf''),
          (''vni_id_value'', self ''vni'')]),
        assign ''decap_tunnel_map_entry'' (api_create ''tunnel_map_entry'' [(''tunnel_map'', var ''encap_tunnel_map''),
          (''tunnel_map_type'', num SAI_TUNNEL_MAP_TYPE_VNI_TO_VIRTUAL_ROUTER_ID), (''virtual_router_id_value'', self ''ovrf''),
          (''vni_id_key'', self ''vni'')]),
        assign ''encap_maps'' (struct ''sai_thrift_object_list_t'' [(''count'', num 1), (''idlist'', list_of [var
          ''encap_tunnel_map''])]),
        assign ''decap_maps'' (struct ''sai_thrift_object_list_t'' [(''count'', num 1), (''idlist'', list_of [var
          ''decap_tunnel_map''])]),
        assign ''tunnel'' (api_create ''tunnel'' [(''type'', var ''tunnel_type''), (''encap_src_ip'', ip_address (self
          ''lpb_ip'')), (''encap_mappers'', var ''encap_maps''), (''decap_mappers'', var ''decap_maps''), (''decap_ttl_mode'',
          var ''ttl_mode''), (''decap_dscp_mode'', var ''dscp_mode''), (''underlay_interface'', self ''urif_lpb'')]),
        assign ''tunnel_term'' (api_create ''tunnel_term_table_entry'' [(''tunnel_type'', var ''tunnel_type''), (''vr_id'', self
          ''uvrf''), (''action_tunnel_id'', var ''tunnel''), (''type'', var ''term_type''), (''dst_ip'', ip_address (self
          ''lpb_ip''))]),
        assign ''tunnel_nhop'' (api_create ''next_hop'' [(''type'', num SAI_NEXT_HOP_TYPE_TUNNEL_ENCAP), (''tunnel_id'', var
          ''tunnel''), (''ip'', ip_address (self ''tun_ip'')), (''tunnel_mac'', self ''inner_dmac''), (''tunnel_vni'', self
          ''vni'')]),
        assign ''vm_route'' (struct ''sai_thrift_route_entry_t'' [(''vr_id'', self ''ovrf''), (''destination'', ip_prefix (add
          (self ''vm_ip'') (str ''/32'')))]),
        run (api_create_entry ''route_entry'' (var ''vm_route'') [(''next_hop_id'', var ''tunnel_nhop'')]),
        assign ''pkt'' (lib ''simple_udp_packet'' [] [(''eth_dst'', self ''customer_mac''), (''eth_src'', str ROUTER_MAC),
          (''ip_dst'', self ''customer_ip''), (''ip_src'', self ''vm_ip''), (''ip_id'', num 108), (''ip_dscp'', var
          ''tunnel_dscp_val''), (''ip_ttl'', num 62)]),
        assign ''inner_pkt'' (lib ''simple_udp_packet'' [] [(''eth_dst'', str ROUTER_MAC), (''eth_src'', str ROUTER_MAC),
          (''ip_dst'', self ''customer_ip''), (''ip_src'', self ''vm_ip''), (''ip_id'', num 108), (''ip_dscp'', var
          ''inner_dscp_val''), (''ip_ttl'', num 63)]),
        assign ''vxlan_pkt'' (lib ''simple_vxlan_packet'' [] [(''eth_dst'', str ROUTER_MAC), (''eth_src'', self ''unbor_mac''),
          (''ip_dst'', self ''lpb_ip''), (''ip_src'', self ''tun_ip''), (''ip_id'', num 0), (''ip_dscp'', var
          ''tunnel_dscp_val''), (''ip_ttl'', num 64), (''ip_flags'', num 2), (''udp_sport'', num 11638), (''with_udp_chksum'',
          bool False), (''vxlan_vni'', self ''vni''), (''inner_frame'', var ''inner_pkt'')]),
        run (lib ''send_packet'' [self ''uport_dev'', var ''vxlan_pkt''] []),
        run (lib ''verify_packet'' [var ''pkt'', self ''oport_dev''] []),
        assign ''dscp_to_tc_map_list'' (struct ''sai_thrift_qos_map_list_t'' [(''count'', num 1), (''maplist'', list_of [struct
          ''sai_thrift_qos_map_t'' [(''key'', struct ''sai_thrift_qos_map_params_t'' [(''dscp'', var ''tunnel_dscp_val'')]),
          (''value'', struct ''sai_thrift_qos_map_params_t'' [(''tc'', var ''map_tc'')])]])]),
        assign ''dscp_to_tc_map_id'' (api_create ''qos_map'' [(''type'', num SAI_QOS_MAP_TYPE_DSCP_TO_TC),
          (''map_to_value_list'', var ''dscp_to_tc_map_list'')]),
        run (api_set ''port'' (self ''uport'') [(''qos_dscp_to_tc_map'', var ''dscp_to_tc_map_id'')]),
        assign ''tc_to_dscp_map_list'' (struct ''sai_thrift_qos_map_list_t'' [(''count'', num 1), (''maplist'', list_of [struct
          ''sai_thrift_qos_map_t'' [(''key'', struct ''sai_thrift_qos_map_params_t'' [(''tc'', var ''map_tc''), (''color'', num
          SAI_PACKET_COLOR_GREEN)]), (''value'', struct ''sai_thrift_qos_map_params_t'' [(''dscp'', var
          ''rewrite_dscp_val'')])]])]),
        assign ''tc_to_dscp_map_id'' (api_create ''qos_map'' [(''type'', num SAI_QOS_MAP_TYPE_TC_AND_COLOR_TO_DSCP),
          (''map_to_value_list'', var ''tc_to_dscp_map_list'')]),
        run (api_set ''port'' (self ''oport'') [(''qos_tc_and_color_to_dscp_map'', var ''tc_to_dscp_map_id'')]),
        assign ''qos_map_exists'' (bool True),
        assign ''pkt'' (lib ''simple_udp_packet'' [] [(''eth_dst'', self ''customer_mac''), (''eth_src'', str ROUTER_MAC),
          (''ip_dst'', self ''customer_ip''), (''ip_src'', self ''vm_ip''), (''ip_id'', num 108), (''ip_dscp'', var
          ''rewrite_dscp_val''), (''ip_ttl'', num 62)]),
        assign ''inner_pkt'' (lib ''simple_udp_packet'' [] [(''eth_dst'', str ROUTER_MAC), (''eth_src'', str ROUTER_MAC),
          (''ip_dst'', self ''customer_ip''), (''ip_src'', self ''vm_ip''), (''ip_id'', num 108), (''ip_dscp'', var
          ''inner_dscp_val''), (''ip_ttl'', num 63)]),
        assign ''vxlan_pkt'' (lib ''simple_vxlan_packet'' [] [(''eth_dst'', str ROUTER_MAC), (''eth_src'', self ''unbor_mac''),
          (''ip_dst'', self ''lpb_ip''), (''ip_src'', self ''tun_ip''), (''ip_id'', num 0), (''ip_dscp'', var
          ''tunnel_dscp_val''), (''ip_ttl'', num 64), (''ip_flags'', num 2), (''udp_sport'', num 11638), (''with_udp_chksum'',
          bool False), (''vxlan_vni'', self ''vni''), (''inner_frame'', var ''inner_pkt'')]),
        run (lib ''send_packet'' [self ''uport_dev'', var ''vxlan_pkt''] []),
        run (lib ''verify_packet'' [var ''pkt'', self ''oport_dev''] [])] [
        if_else (var ''qos_map_exists'') [
          run (api_set ''port'' (self ''uport'') [(''qos_dscp_to_tc_map'', as_int (num SAI_NULL_OBJECT_ID))]),
          run (api_remove ''qos_map'' (var ''dscp_to_tc_map_id'')),
          run (api_set ''port'' (self ''oport'') [(''qos_tc_and_color_to_dscp_map'', as_int (num SAI_NULL_OBJECT_ID))]),
          run (api_remove ''qos_map'' (var ''tc_to_dscp_map_id''))] [],
        run (api_remove ''route_entry'' (var ''vm_route'')),
        run (api_remove ''next_hop'' (var ''tunnel_nhop'')),
        run (api_remove ''tunnel_term_table_entry'' (var ''tunnel_term'')),
        run (api_remove ''tunnel'' (var ''tunnel'')),
        run (api_remove ''tunnel_map_entry'' (var ''decap_tunnel_map_entry'')),
        run (api_remove ''tunnel_map_entry'' (var ''encap_tunnel_map_entry'')),
        run (api_remove ''tunnel_map'' (var ''decap_tunnel_map'')),
        run (api_remove ''tunnel_map'' (var ''encap_tunnel_map''))]]"

definition TunnelAttributesTest_decapDscpUniformModeIpv4InIpv4Test :: "'d stmt" where
  "TunnelAttributesTest_decapDscpUniformModeIpv4InIpv4Test = block [
      assign ''tunnel_dscp_val'' (num 10),
      assign ''inner_dscp_val'' (num 18),
      assign ''rewrite_dscp_val'' (num 20),
      assign ''map_tc'' (num 2),
      assign ''dscp_mode'' (num SAI_TUNNEL_DSCP_MODE_UNIFORM_MODEL),
      assign ''ttl_mode'' (num SAI_TUNNEL_TTL_MODE_PIPE_MODEL),
      assign ''tunnel_type'' (num SAI_TUNNEL_TYPE_IPINIP),
      assign ''term_type'' (num SAI_TUNNEL_TERM_TABLE_ENTRY_TYPE_P2P),
      assign ''qos_map_exists'' (bool False),
      try_finally [
        assign ''tunnel'' (api_create ''tunnel'' [(''type'', var ''tunnel_type''), (''encap_src_ip'', ip_address (self
          ''lpb_ip'')), (''decap_ttl_mode'', var ''ttl_mode''), (''decap_dscp_mode'', var ''dscp_mode''),
          (''underlay_interface'', self ''urif_lpb''), (''overlay_interface'', self ''orif_lpb'')]),
        assign ''tunnel_term'' (api_create ''tunnel_term_table_entry'' [(''tunnel_type'', var ''tunnel_type''), (''vr_id'', self
          ''uvrf''), (''action_tunnel_id'', var ''tunnel''), (''type'', var ''term_type''), (''dst_ip'', ip_address (self
          ''lpb_ip''))]),
        assign ''tunnel_nhop'' (api_create ''next_hop'' [(''type'', num SAI_NEXT_HOP_TYPE_TUNNEL_ENCAP), (''tunnel_id'', var
          ''tunnel''), (''ip'', ip_address (self ''tun_ip'')), (''tunnel_mac'', self ''inner_dmac''), (''tunnel_vni'', self
          ''vni'')]),
        assign ''vm_route'' (struct ''sai_thrift_route_entry_t'' [(''vr_id'', self ''ovrf''), (''destination'', ip_prefix (add
          (self ''vm_ip'') (str ''/32'')))]),
        run (api_create_entry ''route_entry'' (var ''vm_route'') [(''next_hop_id'', var ''tunnel_nhop'')]),
        assign ''pkt'' (lib ''simple_udp_packet'' [] [(''eth_dst'', self ''customer_mac''), (''eth_src'', str ROUTER_MAC),
          (''ip_dst'', self ''customer_ip''), (''ip_src'', self ''vm_ip''), (''ip_id'', num 108), (''ip_dscp'', var
          ''tunnel_dscp_val''), (''ip_ttl'', num 62)]),
        assign ''inner_pkt'' (lib ''simple_udp_packet'' [] [(''eth_dst'', self ''inner_dmac''), (''eth_src'', str ROUTER_MAC),
          (''ip_dst'', self ''customer_ip''), (''ip_src'', self ''vm_ip''), (''ip_id'', num 108), (''ip_dscp'', var
          ''inner_dscp_val''), (''ip_ttl'', num 63)]),
        assign ''ipip_pkt'' (lib ''simple_ipv4ip_packet'' [] [(''eth_dst'', str ROUTER_MAC), (''eth_src'', self ''unbor_mac''),
          (''ip_dst'', self ''lpb_ip''), (''ip_src'', self ''tun_ip''), (''ip_id'', num 0), (''ip_dscp'', var
          ''tunnel_dscp_val''), (''ip_ttl'', num 64), (''inner_frame'', lib ''get_layer'' [var ''inner_pkt'', str ''IP''] [])]),
        run (lib ''send_packet'' [self ''uport_dev'', var ''ipip_pkt''] []),
        run (lib ''verify_packet'' [var ''pkt'', self ''oport_dev''] []),
        assign ''dscp_to_tc_map_list'' (struct ''sai_thrift_qos_map_list_t'' [(''count'', num 1), (''maplist'', list_of [struct
          ''sai_thrift_qos_map_t'' [(''key'', struct ''sai_thrift_qos_map_params_t'' [(''dscp'', var ''tunnel_dscp_val'')]),
          (''value'', struct ''sai_thrift_qos_map_params_t'' [(''tc'', var ''map_tc'')])]])]),
        assign ''dscp_to_tc_map_id'' (api_create ''qos_map'' [(''type'', num SAI_QOS_MAP_TYPE_DSCP_TO_TC),
          (''map_to_value_list'', var ''dscp_to_tc_map_list'')]),
        run (api_set ''port'' (self ''uport'') [(''qos_dscp_to_tc_map'', var ''dscp_to_tc_map_id'')]),
        assign ''tc_to_dscp_map_list'' (struct ''sai_thrift_qos_map_list_t'' [(''count'', num 1), (''maplist'', list_of [struct
          ''sai_thrift_qos_map_t'' [(''key'', struct ''sai_thrift_qos_map_params_t'' [(''tc'', var ''map_tc''), (''color'', num
          SAI_PACKET_COLOR_GREEN)]), (''value'', struct ''sai_thrift_qos_map_params_t'' [(''dscp'', var
          ''rewrite_dscp_val'')])]])]),
        assign ''tc_to_dscp_map_id'' (api_create ''qos_map'' [(''type'', num SAI_QOS_MAP_TYPE_TC_AND_COLOR_TO_DSCP),
          (''map_to_value_list'', var ''tc_to_dscp_map_list'')]),
        run (api_set ''port'' (self ''oport'') [(''qos_tc_and_color_to_dscp_map'', var ''tc_to_dscp_map_id'')]),
        assign ''qos_map_exists'' (bool True),
        assign ''pkt'' (lib ''simple_udp_packet'' [] [(''eth_dst'', self ''customer_mac''), (''eth_src'', str ROUTER_MAC),
          (''ip_dst'', self ''customer_ip''), (''ip_src'', self ''vm_ip''), (''ip_id'', num 108), (''ip_dscp'', var
          ''rewrite_dscp_val''), (''ip_ttl'', num 62)]),
        assign ''inner_pkt'' (lib ''simple_udp_packet'' [] [(''eth_dst'', self ''inner_dmac''), (''eth_src'', str ROUTER_MAC),
          (''ip_dst'', self ''customer_ip''), (''ip_src'', self ''vm_ip''), (''ip_id'', num 108), (''ip_dscp'', var
          ''inner_dscp_val''), (''ip_ttl'', num 63)]),
        assign ''ipip_pkt'' (lib ''simple_ipv4ip_packet'' [] [(''eth_dst'', str ROUTER_MAC), (''eth_src'', self ''unbor_mac''),
          (''ip_dst'', self ''lpb_ip''), (''ip_src'', self ''tun_ip''), (''ip_id'', num 0), (''ip_dscp'', var
          ''tunnel_dscp_val''), (''ip_ttl'', num 64), (''inner_frame'', lib ''get_layer'' [var ''inner_pkt'', str ''IP''] [])]),
        run (lib ''send_packet'' [self ''uport_dev'', var ''ipip_pkt''] []),
        run (lib ''verify_packet'' [var ''pkt'', self ''oport_dev''] [])] [
        if_else (var ''qos_map_exists'') [
          run (api_set ''port'' (self ''uport'') [(''qos_dscp_to_tc_map'', as_int (num SAI_NULL_OBJECT_ID))]),
          run (api_remove ''qos_map'' (var ''dscp_to_tc_map_id'')),
          run (api_set ''port'' (self ''oport'') [(''qos_tc_and_color_to_dscp_map'', as_int (num SAI_NULL_OBJECT_ID))]),
          run (api_remove ''qos_map'' (var ''tc_to_dscp_map_id''))] [],
        run (api_remove ''route_entry'' (var ''vm_route'')),
        run (api_remove ''next_hop'' (var ''tunnel_nhop'')),
        run (api_remove ''tunnel_term_table_entry'' (var ''tunnel_term'')),
        run (api_remove ''tunnel'' (var ''tunnel''))]]"

definition TunnelAttributesTest_decapDscpUniformModeIpv6InIpv6Test :: "'d stmt" where
  "TunnelAttributesTest_decapDscpUniformModeIpv6InIpv6Test = block [
      assign ''tunnel_dscp_val'' (num 10),
      assign ''inner_dscp_val'' (num 18),
      assign ''rewrite_dscp_val'' (num 20),
      assign ''map_tc'' (num 2),
      assign ''dscp_mode'' (num SAI_TUNNEL_DSCP_MODE_UNIFORM_MODEL),
      assign ''ttl_mode'' (num SAI_TUNNEL_TTL_MODE_PIPE_MODEL),
      assign ''tunnel_type'' (num SAI_TUNNEL_TYPE_IPINIP),
      assign ''term_type'' (num SAI_TUNNEL_TERM_TABLE_ENTRY_TYPE_P2P),
      assign ''qos_map_exists'' (bool False),
      try_finally [
        assign ''tunnel'' (api_create ''tunnel'' [(''type'', var ''tunnel_type''), (''encap_src_ip'', ip_address (self
          ''lpb_ipv6'')), (''decap_ttl_mode'', var ''ttl_mode''), (''decap_dscp_mode'', var ''dscp_mode''),
          (''underlay_interface'', self ''urif_lpb''), (''overlay_interface'', self ''orif_lpb'')]),
        assign ''tunnel_term'' (api_create ''tunnel_term_table_entry'' [(''tunnel_type'', var ''tunnel_type''), (''vr_id'', self
          ''uvrf''), (''action_tunnel_id'', var ''tunnel''), (''type'', var ''term_type''), (''dst_ip'', ip_address (self
          ''lpb_ipv6''))]),
        assign ''tunnel_nhop'' (api_create ''next_hop'' [(''type'', num SAI_NEXT_HOP_TYPE_TUNNEL_ENCAP), (''tunnel_id'', var
          ''tunnel''), (''ip'', ip_address (self ''tun_ipv6'')), (''tunnel_mac'', self ''inner_dmac''), (''tunnel_vni'', self
          ''vni'')]),
        assign ''vm_route'' (struct ''sai_thrift_route_entry_t'' [(''vr_id'', self ''ovrf''), (''destination'', ip_prefix (add
          (self ''vm_ipv6'') (str ''/128'')))]),
        run (api_create_entry ''route_entry'' (var ''vm_route'') [(''next_hop_id'', var ''tunnel_nhop'')]),
        assign ''pkt'' (lib ''simple_udpv6_packet'' [] [(''eth_dst'', self ''customer_mac''), (''eth_src'', str ROUTER_MAC),
          (''ipv6_dst'', self ''customer_ipv6''), (''ipv6_src'', self ''vm_ipv6''), (''ipv6_dscp'', var ''tunnel_dscp_val''),
          (''ipv6_hlim'', num 62)]),
        assign ''inner_pkt'' (lib ''simple_udpv6_packet'' [] [(''eth_dst'', str ROUTER_MAC), (''eth_src'', self ''inner_dmac''),
          (''ipv6_dst'', self ''customer_ipv6''), (''ipv6_src'', self ''vm_ipv6''), (''ipv6_dscp'', var ''inner_dscp_val''),
          (''ipv6_hlim'', num 63)]),
        assign ''ipip_pkt'' (lib ''simple_ipv6ip_packet'' [] [(''eth_dst'', str ROUTER_MAC), (''eth_src'', self ''unbor_mac''),
          (''ipv6_dst'', self ''lpb_ipv6''), (''ipv6_src'', self ''tun_ipv6''), (''ipv6_dscp'', var ''tunnel_dscp_val''),
          (''ipv6_hlim'', num 64), (''inner_frame'', lib ''get_layer'' [var ''inner_pkt'', str ''IPv6''] [])]),
        run (lib ''send_packet'' [self ''uport_dev'', var ''ipip_pkt''] []),
        run (lib ''verify_packet'' [var ''pkt'', self ''oport_dev''] []),
        assign ''dscp_to_tc_map_list'' (struct ''sai_thrift_qos_map_list_t'' [(''count'', num 1), (''maplist'', list_of [struct
          ''sai_thrift_qos_map_t'' [(''key'', struct ''sai_thrift_qos_map_params_t'' [(''dscp'', var ''tunnel_dscp_val'')]),
          (''value'', struct ''sai_thrift_qos_map_params_t'' [(''tc'', var ''map_tc'')])]])]),
        assign ''dscp_to_tc_map_id'' (api_create ''qos_map'' [(''type'', num SAI_QOS_MAP_TYPE_DSCP_TO_TC),
          (''map_to_value_list'', var ''dscp_to_tc_map_list'')]),
        run (api_set ''port'' (self ''uport'') [(''qos_dscp_to_tc_map'', var ''dscp_to_tc_map_id'')]),
        assign ''tc_to_dscp_map_list'' (struct ''sai_thrift_qos_map_list_t'' [(''count'', num 1), (''maplist'', list_of [struct
          ''sai_thrift_qos_map_t'' [(''key'', struct ''sai_thrift_qos_map_params_t'' [(''tc'', var ''map_tc''), (''color'', num
          SAI_PACKET_COLOR_GREEN)]), (''value'', struct ''sai_thrift_qos_map_params_t'' [(''dscp'', var
          ''rewrite_dscp_val'')])]])]),
        assign ''tc_to_dscp_map_id'' (api_create ''qos_map'' [(''type'', num SAI_QOS_MAP_TYPE_TC_AND_COLOR_TO_DSCP),
          (''map_to_value_list'', var ''tc_to_dscp_map_list'')]),
        run (api_set ''port'' (self ''oport'') [(''qos_tc_and_color_to_dscp_map'', var ''tc_to_dscp_map_id'')]),
        assign ''qos_map_exists'' (bool True),
        assign ''pkt'' (lib ''simple_udpv6_packet'' [] [(''eth_dst'', self ''customer_mac''), (''eth_src'', str ROUTER_MAC),
          (''ipv6_dst'', self ''customer_ipv6''), (''ipv6_src'', self ''vm_ipv6''), (''ipv6_dscp'', var ''rewrite_dscp_val''),
          (''ipv6_hlim'', num 62)]),
        assign ''inner_pkt'' (lib ''simple_udpv6_packet'' [] [(''eth_dst'', str ROUTER_MAC), (''eth_src'', self ''inner_dmac''),
          (''ipv6_dst'', self ''customer_ipv6''), (''ipv6_src'', self ''vm_ipv6''), (''ipv6_dscp'', var ''inner_dscp_val''),
          (''ipv6_hlim'', num 63)]),
        assign ''ipip_pkt'' (lib ''simple_ipv6ip_packet'' [] [(''eth_dst'', str ROUTER_MAC), (''eth_src'', self ''unbor_mac''),
          (''ipv6_dst'', self ''lpb_ipv6''), (''ipv6_src'', self ''tun_ipv6''), (''ipv6_dscp'', var ''tunnel_dscp_val''),
          (''ipv6_hlim'', num 64), (''inner_frame'', lib ''get_layer'' [var ''inner_pkt'', str ''IPv6''] [])]),
        run (lib ''send_packet'' [self ''uport_dev'', var ''ipip_pkt''] []),
        run (lib ''verify_packet'' [var ''pkt'', self ''oport_dev''] [])] [
        if_else (var ''qos_map_exists'') [
          run (api_set ''port'' (self ''uport'') [(''qos_dscp_to_tc_map'', as_int (num SAI_NULL_OBJECT_ID))]),
          run (api_remove ''qos_map'' (var ''dscp_to_tc_map_id'')),
          run (api_set ''port'' (self ''oport'') [(''qos_tc_and_color_to_dscp_map'', as_int (num SAI_NULL_OBJECT_ID))]),
          run (api_remove ''qos_map'' (var ''tc_to_dscp_map_id''))] [],
        run (api_remove ''route_entry'' (var ''vm_route'')),
        run (api_remove ''next_hop'' (var ''tunnel_nhop'')),
        run (api_remove ''tunnel_term_table_entry'' (var ''tunnel_term'')),
        run (api_remove ''tunnel'' (var ''tunnel''))]]"

definition TunnelAttributesTest_tunnelTermDstIpTest :: "'d stmt" where
  "TunnelAttributesTest_tunnelTermDstIpTest = block [
      assign ''tunnel_type'' (num SAI_TUNNEL_TYPE_VXLAN),
      assign ''term_type'' (num SAI_TUNNEL_TERM_TABLE_ENTRY_TYPE_P2P),
      assign ''ttl_mode'' (num SAI_TUNNEL_TTL_MODE_PIPE_MODEL),
      assign ''test_ip'' (str ''200.200.200.1''),
      try_finally [
        assign ''encap_tunnel_map'' (api_create ''tunnel_map'' [(''type'', num SAI_TUNNEL_MAP_TYPE_VIRTUAL_ROUTER_ID_TO_VNI)]),
        assign ''decap_tunnel_map'' (api_create ''tunnel_map'' [(''type'', num SAI_TUNNEL_MAP_TYPE_VNI_TO_VIRTUAL_ROUTER_ID)]),
        assign ''encap_tunnel_map_entry'' (api_create ''tunnel_map_entry'' [(''tunnel_map'', var ''encap_tunnel_map''),
          (''tunnel_map_type'', num SAI_TUNNEL_MAP_TYPE_VIRTUAL_ROUTER_ID_TO_VNI), (''virtual_router_id_key'', self ''ovrf''),
          (''vni_id_value'', self ''vni'')]),
        assign ''decap_tunnel_map_entry'' (api_create ''tunnel_map_entry'' [(''tunnel_map'', var ''encap_tunnel_map''),
          (''tunnel_map_type'', num SAI_TUNNEL_MAP_TYPE_VNI_TO_VIRTUAL_ROUTER_ID), (''virtual_router_id_value'', self ''ovrf''),
          (''vni_id_key'', self ''vni'')]),
        assign ''encap_maps'' (struct ''sai_thrift_object_list_t'' [(''count'', num 1), (''idlist'', list_of [var
          ''encap_tunnel_map''])]),
        assign ''decap_maps'' (struct ''sai_thrift_object_list_t'' [(''count'', num 1), (''idlist'', list_of [var
          ''decap_tunnel_map''])]),
        assign ''tunnel'' (api_create ''tunnel'' [(''type'', var ''tunnel_type''), (''encap_src_ip'', ip_address (self
          ''lpb_ip'')), (''encap_mappers'', var ''encap_maps''), (''decap_mappers'', var ''decap_maps''), (''encap_ttl_mode'',
          var ''ttl_mode''), (''decap_ttl_mode'', var ''ttl_mode''), (''underlay_interface'', self ''urif_lpb'')]),
        assign ''tunnel_term'' (api_create ''tunnel_term_table_entry'' [(''tunnel_type'', var ''tunnel_type''), (''vr_id'', self
          ''uvrf''), (''action_tunnel_id'', var ''tunnel''), (''type'', var ''term_type''), (''dst_ip'', ip_address (self
          ''lpb_ip''))]),
        assign ''tunnel_nhop'' (api_create ''next_hop'' [(''type'', num SAI_NEXT_HOP_TYPE_TUNNEL_ENCAP), (''tunnel_id'', var
          ''tunnel''), (''ip'', ip_address (self ''tun_ip'')), (''tunnel_mac'', self ''inner_dmac''), (''tunnel_vni'', self
          ''vni'')]),
        assign ''vm_route'' (struct ''sai_thrift_route_entry_t'' [(''vr_id'', self ''ovrf''), (''destination'', ip_prefix (add
          (self ''vm_ip'') (str ''/32'')))]),
        run (api_create_entry ''route_entry'' (var ''vm_route'') [(''next_hop_id'', var ''tunnel_nhop'')]),
        assign ''pkt'' (lib ''simple_udp_packet'' [] [(''eth_dst'', self ''customer_mac''), (''eth_src'', str ROUTER_MAC),
          (''ip_dst'', self ''customer_ip''), (''ip_src'', self ''vm_ip''), (''ip_id'', num 108), (''ip_ttl'', num 63)]),
        assign ''inner_pkt'' (lib ''simple_udp_packet'' [] [(''eth_dst'', str ROUTER_MAC), (''eth_src'', self ''inner_dmac''),
          (''ip_dst'', self ''customer_ip''), (''ip_src'', self ''vm_ip''), (''ip_id'', num 108), (''ip_ttl'', num 64)]),
        assign ''vxlan_pkt'' (lib ''simple_vxlan_packet'' [] [(''eth_dst'', str ROUTER_MAC), (''eth_src'', self ''unbor_mac''),
          (''ip_dst'', self ''lpb_ip''), (''ip_src'', self ''tun_ip''), (''ip_id'', num 0), (''ip_ttl'', num 64), (''ip_flags'',
          num 2), (''udp_sport'', num 11638), (''with_udp_chksum'', bool False), (''vxlan_vni'', self ''vni''),
          (''inner_frame'', var ''inner_pkt'')]),
        run (lib ''send_packet'' [self ''uport_dev'', var ''vxlan_pkt''] []),
        run (lib ''verify_packet'' [var ''pkt'', self ''oport_dev''] []),
        assign ''vxlan_pkt'' (lib ''set_field'' [var ''vxlan_pkt'', str ''IP'', str ''dst'', var ''test_ip''] []),
        run (lib ''send_packet'' [self ''uport_dev'', var ''vxlan_pkt''] []),
        run (lib ''verify_no_other_packets'' [] [])] [
        run (api_remove ''route_entry'' (var ''vm_route'')),
        run (api_remove ''next_hop'' (var ''tunnel_nhop'')),
        run (api_remove ''tunnel_term_table_entry'' (var ''tunnel_term'')),
        run (api_remove ''tunnel'' (var ''tunnel'')),
        run (api_remove ''tunnel_map_entry'' (var ''decap_tunnel_map_entry'')),
        run (api_remove ''tunnel_map_entry'' (var ''encap_tunnel_map_entry'')),
        run (api_remove ''tunnel_map'' (var ''decap_tunnel_map'')),
        run (api_remove ''tunnel_map'' (var ''encap_tunnel_map''))]]"

definition TunnelAttributesTest_tunnelTermVrIdTest :: "'d stmt" where
  "TunnelAttributesTest_tunnelTermVrIdTest = block [
      assign ''test_uport'' (self ''port26''),
      assign ''test_uport_dev'' (self ''dev_port26''),
      assign ''tunnel_type'' (num SAI_TUNNEL_TYPE_VXLAN),
      assign ''term_type'' (num SAI_TUNNEL_TERM_TABLE_ENTRY_TYPE_P2P),
      assign ''ttl_mode'' (num SAI_TUNNEL_TTL_MODE_PIPE_MODEL),
      try_finally [
        assign ''test_uvrf'' (api_create ''virtual_router'' []),
        assign ''test_urif'' (api_create ''router_interface'' [(''type'', num SAI_ROUTER_INTERFACE_TYPE_PORT),
          (''virtual_router_id'', var ''test_uvrf''), (''port_id'', var ''test_uport'')]),
        assign ''encap_tunnel_map'' (api_create ''tunnel_map'' [(''type'', num SAI_TUNNEL_MAP_TYPE_VIRTUAL_ROUTER_ID_TO_VNI)]),
        assign ''decap_tunnel_map'' (api_create ''tunnel_map'' [(''type'', num SAI_TUNNEL_MAP_TYPE_VNI_TO_VIRTUAL_ROUTER_ID)]),
        assign ''encap_tunnel_map_entry'' (api_create ''tunnel_map_entry'' [(''tunnel_map'', var ''encap_tunnel_map''),
          (''tunnel_map_type'', num SAI_TUNNEL_MAP_TYPE_VIRTUAL_ROUTER_ID_TO_VNI), (''virtual_router_id_key'', self ''ovrf''),
          (''vni_id_value'', self ''vni'')]),
        assign ''decap_tunnel_map_entry'' (api_create ''tunnel_map_entry'' [(''tunnel_map'', var ''encap_tunnel_map''),
          (''tunnel_map_type'', num SAI_TUNNEL_MAP_TYPE_VNI_TO_VIRTUAL_ROUTER_ID), (''virtual_router_id_value'', self ''ovrf''),
          (''vni_id_key'', self ''vni'')]),
        assign ''encap_maps'' (struct ''sai_thrift_object_list_t'' [(''count'', num 1), (''idlist'', list_of [var
          ''encap_tunnel_map''])]),
        assign ''decap_maps'' (struct ''sai_thrift_object_list_t'' [(''count'', num 1), (''idlist'', list_of [var
          ''decap_tunnel_map''])]),
        assign ''tunnel'' (api_create ''tunnel'' [(''type'', var ''tunnel_type''), (''encap_src_ip'', ip_address (self
          ''lpb_ip'')), (''encap_mappers'', var ''encap_maps''), (''decap_mappers'', var ''decap_maps''), (''encap_ttl_mode'',
          var ''ttl_mode''), (''decap_ttl_mode'', var ''ttl_mode''), (''underlay_interface'', self ''urif_lpb'')]),
        assign ''tunnel_term'' (api_create ''tunnel_term_table_entry'' [(''tunnel_type'', var ''tunnel_type''), (''vr_id'', self
          ''uvrf''), (''action_tunnel_id'', var ''tunnel''), (''type'', var ''term_type''), (''dst_ip'', ip_address (self
          ''lpb_ip''))]),
        assign ''tunnel_nhop'' (api_create ''next_hop'' [(''type'', num SAI_NEXT_HOP_TYPE_TUNNEL_ENCAP), (''tunnel_id'', var
          ''tunnel''), (''ip'', ip_address (self ''tun_ip'')), (''tunnel_mac'', self ''inner_dmac''), (''tunnel_vni'', self
          ''vni'')]),
        assign ''vm_route'' (struct ''sai_thrift_route_entry_t'' [(''vr_id'', self ''ovrf''), (''destination'', ip_prefix (add
          (self ''vm_ip'') (str ''/32'')))]),
        run (api_create_entry ''route_entry'' (var ''vm_route'') [(''next_hop_id'', var ''tunnel_nhop'')]),
        assign ''pkt'' (lib ''simple_udp_packet'' [] [(''eth_dst'', self ''customer_mac''), (''eth_src'', str ROUTER_MAC),
          (''ip_dst'', self ''customer_ip''), (''ip_src'', self ''vm_ip''), (''ip_id'', num 108), (''ip_ttl'', num 63)]),
        assign ''inner_pkt'' (lib ''simple_udp_packet'' [] [(''eth_dst'', str ROUTER_MAC), (''eth_src'', self ''inner_dmac''),
          (''ip_dst'', self ''customer_ip''), (''ip_src'', self ''vm_ip''), (''ip_id'', num 108), (''ip_ttl'', num 64)]),
        assign ''vxlan_pkt'' (lib ''simple_vxlan_packet'' [] [(''eth_dst'', str ROUTER_MAC), (''eth_src'', self ''unbor_mac''),
          (''ip_dst'', self ''lpb_ip''), (''ip_src'', self ''tun_ip''), (''ip_id'', num 0), (''ip_ttl'', num 64), (''ip_flags'',
          num 2), (''udp_sport'', num 11638), (''with_udp_chksum'', bool False), (''vxlan_vni'', self ''vni''),
          (''inner_frame'', var ''inner_pkt'')]),
        run (lib ''send_packet'' [self ''uport_dev'', var ''vxlan_pkt''] []),
        run (lib ''verify_packet'' [var ''pkt'', self ''oport_dev''] []),
        run (lib ''send_packet'' [var ''test_uport_dev'', var ''vxlan_pkt''] []),
        run (lib ''verify_no_other_packets'' [] [])] [
        run (api_remove ''route_entry'' (var ''vm_route'')),
        run (api_remove ''next_hop'' (var ''tunnel_nhop'')),
        run (api_remove ''tunnel_term_table_entry'' (var ''tunnel_term'')),
        run (api_remove ''tunnel'' (var ''tunnel'')),
        run (api_remove ''tunnel_map_entry'' (var ''decap_tunnel_map_entry'')),
        run (api_remove ''tunnel_map_entry'' (var ''encap_tunnel_map_entry'')),
        run (api_remove ''tunnel_map'' (var ''decap_tunnel_map'')),
        run (api_remove ''tunnel_map'' (var ''encap_tunnel_map'')),
        run (api_remove ''router_interface'' (var ''test_urif'')),
        run (api_remove ''virtual_router'' (var ''test_uvrf''))]]"

definition TunnelAttributesTest_tunnelDualEncapMapperTest :: "'d stmt" where
  "TunnelAttributesTest_tunnelDualEncapMapperTest = block [
      assign ''tunnel_type'' (num SAI_TUNNEL_TYPE_VXLAN),
      assign ''term_type'' (num SAI_TUNNEL_TERM_TABLE_ENTRY_TYPE_P2P),
      assign ''ttl_mode'' (num SAI_TUNNEL_TTL_MODE_PIPE_MODEL),
      try_finally [
        assign ''encap_tunnel_map'' (api_create ''tunnel_map'' [(''type'', num SAI_TUNNEL_MAP_TYPE_VIRTUAL_ROUTER_ID_TO_VNI)]),
        assign ''encap_tunnel_map_2'' (api_create ''tunnel_map'' [(''type'', num SAI_TUNNEL_MAP_TYPE_VLAN_ID_TO_VNI)]),
        assign ''decap_tunnel_map'' (api_create ''tunnel_map'' [(''type'', num SAI_TUNNEL_MAP_TYPE_VNI_TO_VIRTUAL_ROUTER_ID)]),
        assign ''encap_tunnel_map_entry'' (api_create ''tunnel_map_entry'' [(''tunnel_map'', var ''encap_tunnel_map''),
          (''tunnel_map_type'', num SAI_TUNNEL_MAP_TYPE_VIRTUAL_ROUTER_ID_TO_VNI), (''virtual_router_id_key'', self ''ovrf''),
          (''vni_id_value'', self ''vni'')]),
        assign ''decap_tunnel_map_entry'' (api_create ''tunnel_map_entry'' [(''tunnel_map'', var ''decap_tunnel_map''),
          (''tunnel_map_type'', num SAI_TUNNEL_MAP_TYPE_VNI_TO_VIRTUAL_ROUTER_ID), (''virtual_router_id_value'', self ''ovrf''),
          (''vni_id_key'', self ''vni'')]),
        assign ''encap_maps'' (struct ''sai_thrift_object_list_t'' [(''count'', num 2), (''idlist'', list_of [var
          ''encap_tunnel_map'', var ''encap_tunnel_map_2''])]),
        assign ''decap_maps'' (struct ''sai_thrift_object_list_t'' [(''count'', num 1), (''idlist'', list_of [var
          ''decap_tunnel_map''])]),
        assign ''tunnel'' (api_create ''tunnel'' [(''type'', var ''tunnel_type''), (''encap_src_ip'', ip_address (self
          ''lpb_ip'')), (''encap_mappers'', var ''encap_maps''), (''decap_mappers'', var ''decap_maps''), (''encap_ttl_mode'',
          var ''ttl_mode''), (''decap_ttl_mode'', var ''ttl_mode''), (''underlay_interface'', self ''urif_lpb'')]),
        assign ''tunnel_term'' (api_create ''tunnel_term_table_entry'' [(''tunnel_type'', var ''tunnel_type''), (''vr_id'', self
          ''uvrf''), (''action_tunnel_id'', var ''tunnel''), (''type'', var ''term_type''), (''dst_ip'', ip_address (self
          ''lpb_ip''))]),
        assign ''tunnel_nhop'' (api_create ''next_hop'' [(''type'', num SAI_NEXT_HOP_TYPE_TUNNEL_ENCAP), (''tunnel_id'', var
          ''tunnel''), (''ip'', ip_address (self ''tun_ip'')), (''tunnel_mac'', self ''inner_dmac''), (''tunnel_vni'', self
          ''vni'')]),
        assign ''vm_route'' (struct ''sai_thrift_route_entry_t'' [(''vr_id'', self ''ovrf''), (''destination'', ip_prefix (add
          (self ''vm_ip'') (str ''/32'')))]),
        run (api_create_entry ''route_entry'' (var ''vm_route'') [(''next_hop_id'', var ''tunnel_nhop'')]),
        assign ''pkt'' (lib ''simple_udp_packet'' [] [(''eth_dst'', str ROUTER_MAC), (''eth_src'', self ''customer_mac''),
          (''ip_dst'', self ''vm_ip''), (''ip_src'', self ''customer_ip''), (''ip_id'', num 108), (''ip_ttl'', num 64)]),
        assign ''inner_pkt'' (lib ''simple_udp_packet'' [] [(''eth_dst'', self ''inner_dmac''), (''eth_src'', str ROUTER_MAC),
          (''ip_dst'', self ''vm_ip''), (''ip_src'', self ''customer_ip''), (''ip_id'', num 108), (''ip_ttl'', num 63)]),
        assign ''vxlan_pkt'' (lib ''Mask'' [lib ''simple_vxlan_packet'' [] [(''eth_dst'', self ''unbor_mac''), (''eth_src'', str
          ROUTER_MAC), (''ip_dst'', self ''tun_ip''), (''ip_src'', self ''lpb_ip''), (''ip_id'', num 0), (''ip_ttl'', num 64),
          (''ip_flags'', num 2), (''with_udp_chksum'', bool False), (''vxlan_vni'', self ''vni''), (''inner_frame'', var
          ''inner_pkt'')]] []),
        assign ''vxlan_pkt'' (lib ''.set_do_not_care_scapy'' [var ''vxlan_pkt'', str ''UDP'', str ''sport''] []),
        run (lib ''send_packet'' [self ''oport_dev'', var ''pkt''] []),
        run (lib ''verify_packet'' [var ''vxlan_pkt'', self ''uport_dev''] [])] [
        run (api_remove ''route_entry'' (var ''vm_route'')),
        run (api_remove ''next_hop'' (var ''tunnel_nhop'')),
        run (api_remove ''tunnel_term_table_entry'' (var ''tunnel_term'')),
        run (api_remove ''tunnel'' (var ''tunnel'')),
        run (api_remove ''tunnel_map_entry'' (var ''decap_tunnel_map_entry'')),
        run (api_remove ''tunnel_map_entry'' (var ''encap_tunnel_map_entry'')),
        run (api_remove ''tunnel_map'' (var ''decap_tunnel_map'')),
        run (api_remove ''tunnel_map'' (var ''encap_tunnel_map'')),
        run (api_remove ''tunnel_map'' (var ''encap_tunnel_map_2''))]]"

definition TunnelAttributesTest_tunnelDualDecapMapperTest :: "'d stmt" where
  "TunnelAttributesTest_tunnelDualDecapMapperTest = block [
      assign ''tunnel_type'' (num SAI_TUNNEL_TYPE_VXLAN),
      assign ''term_type'' (num SAI_TUNNEL_TERM_TABLE_ENTRY_TYPE_P2P),
      assign ''ttl_mode'' (num SAI_TUNNEL_TTL_MODE_PIPE_MODEL),
      assign ''ovlan'' (api_create ''vlan'' [(''vlan_id'', self ''ovlan_no'')]),
      assign ''orif_vlan'' (api_create ''router_interface'' [(''type'', num SAI_ROUTER_INTERFACE_TYPE_VLAN),
        (''virtual_router_id'', self ''ovrf''), (''vlan_id'', var ''ovlan'')]),
      assign ''ovlan_member'' (api_create ''vlan_member'' [(''vlan_id'', var ''ovlan''), (''bridge_port_id'', self
        ''port21_bp''), (''vlan_tagging_mode'', num SAI_VLAN_TAGGING_MODE_TAGGED)]),
      assign ''mac2_entry'' (struct ''sai_thrift_fdb_entry_t'' [(''switch_id'', self ''switch_id''), (''mac_address'', self
        ''customer2_mac''), (''bv_id'', var ''ovlan'')]),
      run (api_create_entry ''fdb_entry'' (var ''mac2_entry'') [(''type'', num SAI_FDB_ENTRY_TYPE_STATIC), (''bridge_port_id'',
        self ''port21_bp'')]),
      assign ''decap_tunnel_map_entry_vrf_exists'' (bool False),
      assign ''decap_tunnel_map_entry_vlan_exists'' (bool False),
      try_finally [
        assign ''encap_tunnel_map'' (api_create ''tunnel_map'' [(''type'', num SAI_TUNNEL_MAP_TYPE_VIRTUAL_ROUTER_ID_TO_VNI)]),
        assign ''decap_tunnel_map_vrf'' (api_create ''tunnel_map'' [(''type'', num
          SAI_TUNNEL_MAP_TYPE_VNI_TO_VIRTUAL_ROUTER_ID)]),
        assign ''decap_tunnel_map_vlan'' (api_create ''tunnel_map'' [(''type'', num SAI_TUNNEL_MAP_TYPE_VNI_TO_VLAN_ID)]),
        assign ''encap_tunnel_map_entry'' (api_create ''tunnel_map_entry'' [(''tunnel_map'', var ''encap_tunnel_map''),
          (''tunnel_map_type'', num SAI_TUNNEL_MAP_TYPE_VIRTUAL_ROUTER_ID_TO_VNI), (''virtual_router_id_key'', self ''ovrf''),
          (''vni_id_value'', self ''vni'')]),
        assign ''decap_tunnel_map_entry_vrf'' (api_create ''tunnel_map_entry'' [(''tunnel_map'', var ''decap_tunnel_map_vrf''),
          (''tunnel_map_type'', num SAI_TUNNEL_MAP_TYPE_VNI_TO_VIRTUAL_ROUTER_ID), (''virtual_router_id_value'', self ''ovrf''),
          (''vni_id_key'', self ''vni'')]),
        assign ''decap_tunnel_map_entry_vrf_exists'' (bool True),
        assign ''encap_maps'' (struct ''sai_thrift_object_list_t'' [(''count'', num 1), (''idlist'', list_of [var
          ''encap_tunnel_map''])]),
        assign ''decap_maps'' (struct ''sai_thrift_object_list_t'' [(''count'', num 2), (''idlist'', list_of [var
          ''decap_tunnel_map_vrf'', var ''decap_tunnel_map_vlan''])]),
        assign ''tunnel'' (api_create ''tunnel'' [(''type'', var ''tunnel_type''), (''encap_src_ip'', ip_address (self
          ''lpb_ip'')), (''encap_mappers'', var ''encap_maps''), (''decap_mappers'', var ''decap_maps''), (''encap_ttl_mode'',
          var ''ttl_mode''), (''decap_ttl_mode'', var ''ttl_mode''), (''underlay_interface'', self ''urif_lpb'')]),
        assert_ne (var ''tunnel'') (num 0),
        assign ''tunnel_term'' (api_create ''tunnel_term_table_entry'' [(''tunnel_type'', var ''tunnel_type''), (''vr_id'', self
          ''uvrf''), (''action_tunnel_id'', var ''tunnel''), (''type'', var ''term_type''), (''dst_ip'', ip_address (self
          ''lpb_ip''))]),
        assign ''tunnel_nhop'' (api_create ''next_hop'' [(''type'', num SAI_NEXT_HOP_TYPE_TUNNEL_ENCAP), (''tunnel_id'', var
          ''tunnel''), (''ip'', ip_address (self ''tun_ip'')), (''tunnel_mac'', self ''inner_dmac''), (''tunnel_vni'', self
          ''vni'')]),
        assign ''vm_route'' (struct ''sai_thrift_route_entry_t'' [(''vr_id'', self ''ovrf''), (''destination'', ip_prefix (add
          (self ''vm_ip'') (str ''/32'')))]),
        run (api_create_entry ''route_entry'' (var ''vm_route'') [(''next_hop_id'', var ''tunnel_nhop'')]),
        assign ''l3_pkt'' (lib ''simple_udp_packet'' [] [(''eth_dst'', self ''customer_mac''), (''eth_src'', str ROUTER_MAC),
          (''ip_dst'', self ''customer_ip''), (''ip_src'', self ''vm_ip''), (''ip_id'', num 108), (''ip_ttl'', num 63)]),
        assign ''l3_inner_pkt'' (lib ''simple_udp_packet'' [] [(''eth_dst'', str ROUTER_MAC), (''eth_src'', self
          ''inner_dmac''), (''ip_dst'', self ''customer_ip''), (''ip_src'', self ''vm_ip''), (''ip_id'', num 108), (''ip_ttl'',
          num 64)]),
        assign ''l3_vxlan_pkt'' (lib ''simple_vxlan_packet'' [] [(''eth_dst'', str ROUTER_MAC), (''eth_src'', self
          ''unbor_mac''), (''ip_dst'', self ''lpb_ip''), (''ip_src'', self ''tun_ip''), (''ip_id'', num 0), (''ip_ttl'', num
          64), (''ip_flags'', num 2), (''udp_sport'', num 11638), (''with_udp_chksum'', bool False), (''vxlan_vni'', self
          ''vni''), (''inner_frame'', var ''l3_inner_pkt'')]),
        assign ''pkt_len'' (num 104),
        assign ''dec'' (num 4),
        assign ''l2_pkt'' (lib ''simple_udp_packet'' [] [(''eth_dst'', self ''customer2_mac''), (''eth_src'', self
          ''inner_dmac''), (''dl_vlan_enable'', bool True), (''vlan_vid'', self ''ovlan_no''), (''ip_dst'', self
          ''customer2_ip''), (''ip_src'', self ''vm_ip''), (''ip_id'', num 108), (''ip_ttl'', num 64), (''pktlen'', var
          ''pkt_len'')]),
        assign ''l2_inner_pkt'' (lib ''simple_udp_packet'' [] [(''eth_dst'', self ''customer2_mac''), (''eth_src'', self
          ''inner_dmac''), (''ip_dst'', self ''customer2_ip''), (''ip_src'', self ''vm_ip''), (''ip_id'', num 108), (''ip_ttl'',
          num 64), (''pktlen'', sub (var ''pkt_len'') (var ''dec''))]),
        assign ''l2_vxlan_pkt'' (lib ''simple_vxlan_packet'' [] [(''eth_dst'', str ROUTER_MAC), (''eth_src'', self
          ''unbor_mac''), (''ip_dst'', self ''lpb_ip''), (''ip_src'', self ''tun_ip''), (''ip_id'', num 0), (''ip_ttl'', num
          64), (''ip_flags'', num 2), (''udp_sport'', num 11638), (''with_udp_chksum'', bool False), (''vxlan_vni'', self
          ''vni''), (''inner_frame'', var ''l2_inner_pkt'')]),
        run (lib ''send_packet'' [self ''uport_dev'', var ''l3_vxlan_pkt''] []),
        run (lib ''verify_packet'' [var ''l3_pkt'', self ''oport_dev''] []),
        assign ''decap_tunnel_map_entry_vlan'' (api_create ''tunnel_map_entry'' [(''tunnel_map'', var
          ''decap_tunnel_map_vlan''), (''tunnel_map_type'', num SAI_TUNNEL_MAP_TYPE_VNI_TO_VLAN_ID), (''vlan_id_value'', self
          ''ovlan_no''), (''vni_id_key'', self ''vni'')]),
        assign ''decap_tunnel_map_entry_vlan_exists'' (bool True),
        run (lib ''send_packet'' [self ''uport_dev'', var ''l3_vxlan_pkt''] []),
        run (lib ''verify_packet'' [var ''l3_pkt'', self ''oport_dev''] []),
        run (lib ''send_packet'' [self ''uport_dev'', var ''l2_vxlan_pkt''] []),
        run (lib ''verify_no_other_packets'' [] []),
        run (api_remove ''tunnel_map_entry'' (var ''decap_tunnel_map_entry_vlan'')),
        assign ''decap_tunnel_map_entry_vlan_exists'' (bool False),
        run (lib ''send_packet'' [self ''uport_dev'', var ''l3_vxlan_pkt''] []),
        run (lib ''verify_packet'' [var ''l3_pkt'', self ''oport_dev''] []),
        run (api_remove ''tunnel_map_entry'' (var ''decap_tunnel_map_entry_vrf'')),
        assign ''decap_tunnel_map_entry_vrf_exists'' (bool False),
        assign ''decap_tunnel_map_entry_vlan'' (api_create ''tunnel_map_entry'' [(''tunnel_map'', var
          ''decap_tunnel_map_vlan''), (''tunnel_map_type'', num SAI_TUNNEL_MAP_TYPE_VNI_TO_VLAN_ID), (''vlan_id_value'', self
          ''ovlan_no''), (''vni_id_key'', self ''vni'')]),
        assign ''decap_tunnel_map_entry_vlan_exists'' (bool True),
        run (lib ''send_packet'' [self ''uport_dev'', var ''l2_vxlan_pkt''] []),
        run (lib ''verify_packet'' [var ''l2_pkt'', self ''dev_port21''] []),
        run (lib ''send_packet'' [self ''uport_dev'', var ''l3_vxlan_pkt''] []),
        run (lib ''verify_packet'' [var ''l3_pkt'', self ''oport_dev''] []),
        assign ''decap_tunnel_map_entry_vrf'' (api_create ''tunnel_map_entry'' [(''tunnel_map'', var ''decap_tunnel_map_vrf''),
          (''tunnel_map_type'', num SAI_TUNNEL_MAP_TYPE_VNI_TO_VIRTUAL_ROUTER_ID), (''virtual_router_id_value'', self ''ovrf''),
          (''vni_id_key'', self ''vni'')]),
        assign ''decap_tunnel_map_entry_vrf_exists'' (bool True),
        run (lib ''send_packet'' [self ''uport_dev'', var ''l3_vxlan_pkt''] []),
        run (lib ''verify_packet'' [var ''l3_pkt'', self ''oport_dev''] []),
        run (lib ''send_packet'' [self ''uport_dev'', var ''l2_vxlan_pkt''] []),
        run (lib ''verify_no_other_packets'' [] []),
        run (api_remove ''tunnel_map_entry'' (var ''decap_tunnel_map_entry_vrf'')),
        assign ''decap_tunnel_map_entry_vrf_exists'' (bool False),
        run (lib ''send_packet'' [self ''uport_dev'', var ''l3_vxlan_pkt''] []),
        run (lib ''verify_packet'' [var ''l3_pkt'', self ''oport_dev''] []),
        run (lib ''send_packet'' [self ''uport_dev'', var ''l2_vxlan_pkt''] []),
        run (lib ''verify_packet'' [var ''l2_pkt'', self ''dev_port21''] [])] [
        if_else (var ''tunnel'') [
          run (api_remove ''route_entry'' (var ''vm_route'')),
          run (api_remove ''next_hop'' (var ''tunnel_nhop'')),
          run (api_remove ''tunnel_term_table_entry'' (var ''tunnel_term'')),
          run (api_remove ''tunnel'' (var ''tunnel''))] [],
        if_else (var ''decap_tunnel_map_entry_vrf_exists'') [
          run (api_remove ''tunnel_map_entry'' (var ''decap_tunnel_map_entry_vrf''))] [],
        if_else (var ''decap_tunnel_map_entry_vlan_exists'') [
          run (api_remove ''tunnel_map_entry'' (var ''decap_tunnel_map_entry_vlan''))] [],
        run (api_remove ''tunnel_map_entry'' (var ''encap_tunnel_map_entry'')),
        run (api_remove ''tunnel_map'' (var ''decap_tunnel_map_vrf'')),
        run (api_remove ''tunnel_map'' (var ''decap_tunnel_map_vlan'')),
        run (api_remove ''tunnel_map'' (var ''encap_tunnel_map'')),
        run (api_remove ''fdb_entry'' (var ''mac2_entry'')),
        run (api_remove ''vlan_member'' (var ''ovlan_member'')),
        run (api_remove ''router_interface'' (var ''orif_vlan'')),
        run (api_remove ''vlan'' (var ''ovlan''))]]"

definition TunnelAttributesTest_tunnelPeerModeTest :: "'d stmt" where
  "TunnelAttributesTest_tunnelPeerModeTest = block [
      assign ''tunnel_type'' (num SAI_TUNNEL_TYPE_VXLAN),
      assign ''term_type'' (num SAI_TUNNEL_TERM_TABLE_ENTRY_TYPE_P2P),
      assign ''ttl_mode'' (num SAI_TUNNEL_TTL_MODE_PIPE_MODEL),
      try_finally [
        assign ''encap_tunnel_map'' (api_create ''tunnel_map'' [(''type'', num SAI_TUNNEL_MAP_TYPE_VIRTUAL_ROUTER_ID_TO_VNI)]),
        assign ''decap_tunnel_map'' (api_create ''tunnel_map'' [(''type'', num SAI_TUNNEL_MAP_TYPE_VNI_TO_VIRTUAL_ROUTER_ID)]),
        assign ''encap_tunnel_map_entry'' (api_create ''tunnel_map_entry'' [(''tunnel_map'', var ''encap_tunnel_map''),
          (''tunnel_map_type'', num SAI_TUNNEL_MAP_TYPE_VIRTUAL_ROUTER_ID_TO_VNI), (''virtual_router_id_key'', self ''ovrf''),
          (''vni_id_value'', self ''vni'')]),
        assign ''decap_tunnel_map_entry'' (api_create ''tunnel_map_entry'' [(''tunnel_map'', var ''encap_tunnel_map''),
          (''tunnel_map_type'', num SAI_TUNNEL_MAP_TYPE_VNI_TO_VIRTUAL_ROUTER_ID), (''virtual_router_id_value'', self ''ovrf''),
          (''vni_id_key'', self ''vni'')]),
        assign ''encap_maps'' (struct ''sai_thrift_object_list_t'' [(''count'', num 1), (''idlist'', list_of [var
          ''encap_tunnel_map''])]),
        assign ''decap_maps'' (struct ''sai_thrift_object_list_t'' [(''count'', num 1), (''idlist'', list_of [var
          ''decap_tunnel_map''])]),
        assign ''peer_mode'' (num SAI_TUNNEL_PEER_MODE_P2MP),
        assign ''tunnel'' (api_create ''tunnel'' [(''type'', var ''tunnel_type''), (''encap_src_ip'', ip_address (self
          ''lpb_ip'')), (''encap_mappers'', var ''encap_maps''), (''decap_mappers'', var ''decap_maps''), (''encap_ttl_mode'',
          var ''ttl_mode''), (''decap_ttl_mode'', var ''ttl_mode''), (''peer_mode'', var ''peer_mode''),
          (''underlay_interface'', self ''urif_lpb'')]),
        assert_ne (var ''tunnel'') (explained (num 0) [var ''peer_mode'']),
        assign ''tunnel_term'' (api_create ''tunnel_term_table_entry'' [(''tunnel_type'', var ''tunnel_type''), (''vr_id'', self
          ''uvrf''), (''action_tunnel_id'', var ''tunnel''), (''type'', var ''term_type''), (''dst_ip'', ip_address (self
          ''lpb_ip''))]),
        assign ''tunnel_nhop'' (api_create ''next_hop'' [(''type'', num SAI_NEXT_HOP_TYPE_TUNNEL_ENCAP), (''tunnel_id'', var
          ''tunnel''), (''ip'', ip_address (self ''tun_ip'')), (''tunnel_mac'', self ''inner_dmac''), (''tunnel_vni'', self
          ''vni'')]),
        assign ''vm_route'' (struct ''sai_thrift_route_entry_t'' [(''vr_id'', self ''ovrf''), (''destination'', ip_prefix (add
          (self ''vm_ip'') (str ''/32'')))]),
        run (api_create_entry ''route_entry'' (var ''vm_route'') [(''next_hop_id'', var ''tunnel_nhop'')]),
        assign ''pkt'' (lib ''simple_udp_packet'' [] [(''eth_dst'', self ''customer_mac''), (''eth_src'', str ROUTER_MAC),
          (''ip_dst'', self ''customer_ip''), (''ip_src'', self ''vm_ip''), (''ip_id'', num 108), (''ip_ttl'', num 63)]),
        assign ''inner_pkt'' (lib ''simple_udp_packet'' [] [(''eth_dst'', str ROUTER_MAC), (''eth_src'', self ''inner_dmac''),
          (''ip_dst'', self ''customer_ip''), (''ip_src'', self ''vm_ip''), (''ip_id'', num 108), (''ip_ttl'', num 64)]),
        assign ''vxlan_pkt'' (lib ''simple_vxlan_packet'' [] [(''eth_dst'', str ROUTER_MAC), (''eth_src'', self ''unbor_mac''),
          (''ip_dst'', self ''lpb_ip''), (''ip_src'', self ''tun_ip''), (''ip_id'', num 0), (''ip_ttl'', num 64), (''ip_flags'',
          num 2), (''udp_sport'', num 11638), (''with_udp_chksum'', bool False), (''vxlan_vni'', self ''vni''),
          (''inner_frame'', var ''inner_pkt'')]),
        run (lib ''send_packet'' [self ''uport_dev'', var ''vxlan_pkt''] []),
        run (lib ''verify_packet'' [var ''pkt'', self ''oport_dev''] [])] [
        if_else (var ''tunnel'') [
          run (api_remove ''route_entry'' (var ''vm_route'')),
          run (api_remove ''next_hop'' (var ''tunnel_nhop'')),
          run (api_remove ''tunnel_term_table_entry'' (var ''tunnel_term'')),
          run (api_remove ''tunnel'' (var ''tunnel''))] [],
        run (api_remove ''tunnel_map_entry'' (var ''decap_tunnel_map_entry'')),
        run (api_remove ''tunnel_map_entry'' (var ''encap_tunnel_map_entry'')),
        run (api_remove ''tunnel_map'' (var ''decap_tunnel_map'')),
        run (api_remove ''tunnel_map'' (var ''encap_tunnel_map''))]]"

definition TunnelAttributesTest_runTest :: "'d stmt" where
  "TunnelAttributesTest_runTest = block [
      run (invoke [] TunnelAttributesTest_encapTtlPipeModeVxlanTest),
      run (invoke [] TunnelAttributesTest_encapTtlPipeModeIpInIpTest),
      run (invoke [] TunnelAttributesTest_encapTtlPipeModeIpv6InIpv6Test),
      run (invoke [] TunnelAttributesTest_decapTtlPipeModeVxlanTest),
      run (invoke [] TunnelAttributesTest_decapTtlPipeModeIpInIpTest),
      run (invoke [] TunnelAttributesTest_decapTtlPipeModeIpv6InIpv6Test),
      run (invoke [] TunnelAttributesTest_encapDscpUniformModeVxlanTest),
      run (invoke [] TunnelAttributesTest_encapDscpUniformModeIpv4InIpv4Test),
      run (invoke [] TunnelAttributesTest_encapDscpUniformModeIpv6InIpv6Test),
      run (invoke [] TunnelAttributesTest_decapDscpUniformModeVxlanTest),
      run (invoke [] TunnelAttributesTest_decapDscpUniformModeIpv4InIpv4Test),
      run (invoke [] TunnelAttributesTest_decapDscpUniformModeIpv6InIpv6Test),
      run (invoke [] TunnelAttributesTest_tunnelTermDstIpTest),
      run (invoke [] TunnelAttributesTest_tunnelTermVrIdTest),
      run (invoke [] TunnelAttributesTest_tunnelDualEncapMapperTest),
      run (invoke [] TunnelAttributesTest_tunnelDualDecapMapperTest),
      run (invoke [] TunnelAttributesTest_tunnelPeerModeTest)]"

definition TunnelAttributesTest_tearDown :: "'d stmt" where
  "TunnelAttributesTest_tearDown = block [
      run (api_remove ''route_entry'' (self ''tunnel_route'')),
      run (api_remove ''route_entry'' (self ''tunnel_route_v6'')),
      run (api_remove ''neighbor_entry'' (self ''unbor'')),
      run (api_remove ''neighbor_entry'' (self ''unbor_v6'')),
      run (api_remove ''next_hop'' (self ''unhop'')),
      run (api_remove ''next_hop'' (self ''unhop_v6'')),
      run (api_remove ''route_entry'' (self ''customer_route'')),
      run (api_remove ''route_entry'' (self ''customer_route_v6'')),
      run (api_remove ''neighbor_entry'' (self ''onbor'')),
      run (api_remove ''neighbor_entry'' (self ''onbor_v6'')),
      run (api_remove ''next_hop'' (self ''onhop'')),
      run (api_remove ''next_hop'' (self ''onhop_v6'')),
      run (api_remove ''router_interface'' (self ''orif'')),
      run (api_remove ''router_interface'' (self ''urif'')),
      run (api_remove ''router_interface'' (self ''orif_lpb'')),
      run (api_remove ''router_interface'' (self ''urif_lpb'')),
      run (api_remove ''virtual_router'' (self ''ovrf'')),
      run (api_remove ''virtual_router'' (self ''uvrf'')),
      super_tearDown]"

definition TunnelTtlModeTest_setUp :: "'d stmt" where
  "TunnelTtlModeTest_setUp = block [
      super_setUp,
      set_self ''oport'' (self ''port24''),
      set_self ''oport_dev'' (self ''dev_port24''),
      set_self ''uport'' (self ''port25''),
      set_self ''uport_dev'' (self ''dev_port25''),
      set_self ''vni'' (num 1000),
      set_self ''tun_ip'' (str ''10.10.10.1''),
      set_self ''tun_ipv6'' (str ''2001:0db8::10:1''),
      set_self ''lpb_ip'' (str ''10.10.10.2''),
      set_self ''lpb_ipv6'' (str ''2001:0db8::10:10''),
      set_self ''vm_ip'' (str ''100.100.1.1''),
      set_self ''vm_ipv6'' (str ''2001:0db8::100:1''),
      set_self ''customer_ip'' (str ''100.100.2.1''),
      set_self ''customer_ipv6'' (str ''2001:0db8::100:2''),
      set_self ''inner_dmac'' (str ''00:11:11:11:11:11''),
      set_self ''customer_mac'' (str ''00:22:22:22:22:22''),
      set_self ''unbor_mac'' (str ''00:33:33:33:33:33''),
      set_self ''uvrf'' (api_create ''virtual_router'' []),
      set_self ''ovrf'' (api_create ''virtual_router'' []),
      set_self ''urif_lpb'' (api_create ''router_interface'' [(''type'', num SAI_ROUTER_INTERFACE_TYPE_LOOPBACK),
        (''virtual_router_id'', self ''uvrf'')]),
      set_self ''orif_lpb'' (api_create ''router_interface'' [(''type'', num SAI_ROUTER_INTERFACE_TYPE_LOOPBACK),
        (''virtual_router_id'', self ''ovrf'')]),
      set_self ''urif'' (api_create ''router_interface'' [(''type'', num SAI_ROUTER_INTERFACE_TYPE_PORT),
        (''virtual_router_id'', self ''uvrf''), (''port_id'', self ''uport'')]),
      set_self ''unhop'' (api_create ''next_hop'' [(''ip'', ip_address (self ''tun_ip'')), (''router_interface_id'', self
        ''urif''), (''type'', num SAI_NEXT_HOP_TYPE_IP)]),
      set_self ''unhop_v6'' (api_create ''next_hop'' [(''ip'', ip_address (self ''tun_ipv6'')), (''router_interface_id'', self
        ''urif''), (''type'', num SAI_NEXT_HOP_TYPE_IP)]),
      set_self ''unbor'' (struct ''sai_thrift_neighbor_entry_t'' [(''rif_id'', self ''urif''), (''ip_address'', ip_address (self
        ''tun_ip''))]),
      run (api_create_entry ''neighbor_entry'' (self ''unbor'') [(''dst_mac_address'', self ''unbor_mac''), (''no_host_route'',
        bool True)]),
      set_self ''unbor_v6'' (struct ''sai_thrift_neighbor_entry_t'' [(''rif_id'', self ''urif''), (''ip_address'', ip_address
        (self ''tun_ipv6''))]),
      run (api_create_entry ''neighbor_entry'' (self ''unbor_v6'') [(''dst_mac_address'', self ''unbor_mac''),
        (''no_host_route'', bool True)]),
      set_self ''tunnel_route'' (struct ''sai_thrift_route_entry_t'' [(''vr_id'', self ''uvrf''), (''destination'', ip_prefix
        (add (self ''tun_ip'') (str ''/32'')))]),
      run (api_create_entry ''route_entry'' (self ''tunnel_route'') [(''next_hop_id'', self ''unhop'')]),
      set_self ''tunnel_route_v6'' (struct ''sai_thrift_route_entry_t'' [(''vr_id'', self ''uvrf''), (''destination'', ip_prefix
        (add (self ''tun_ipv6'') (str ''/128'')))]),
      run (api_create_entry ''route_entry'' (self ''tunnel_route_v6'') [(''next_hop_id'', self ''unhop_v6'')]),
      set_self ''orif'' (api_create ''router_interface'' [(''type'', num SAI_ROUTER_INTERFACE_TYPE_PORT),
        (''virtual_router_id'', self ''ovrf''), (''port_id'', self ''oport'')]),
      set_self ''onhop'' (api_create ''next_hop'' [(''ip'', ip_address (self ''customer_ip'')), (''router_interface_id'', self
        ''orif''), (''type'', num SAI_NEXT_HOP_TYPE_IP)]),
      set_self ''onhop_v6'' (api_create ''next_hop'' [(''ip'', ip_address (self ''customer_ipv6'')), (''router_interface_id'',
        self ''orif''), (''type'', num SAI_NEXT_HOP_TYPE_IP)]),
      set_self ''onbor'' (struct ''sai_thrift_neighbor_entry_t'' [(''rif_id'', self ''orif''), (''ip_address'', ip_address (self
        ''customer_ip''))]),
      run (api_create_entry ''neighbor_entry'' (self ''onbor'') [(''dst_mac_address'', self ''customer_mac''),
        (''no_host_route'', bool True)]),
      set_self ''onbor_v6'' (struct ''sai_thrift_neighbor_entry_t'' [(''rif_id'', self ''orif''), (''ip_address'', ip_address
        (self ''customer_ipv6''))]),
      run (api_create_entry ''neighbor_entry'' (self ''onbor_v6'') [(''dst_mac_address'', self ''customer_mac''),
        (''no_host_route'', bool True)]),
      set_self ''customer_route'' (struct ''sai_thrift_route_entry_t'' [(''vr_id'', self ''ovrf''), (''destination'', ip_prefix
        (add (self ''customer_ip'') (str ''/32'')))]),
      run (api_create_entry ''route_entry'' (self ''customer_route'') [(''next_hop_id'', self ''onhop'')]),
      set_self ''customer_route_v6'' (struct ''sai_thrift_route_entry_t'' [(''vr_id'', self ''ovrf''), (''destination'',
        ip_prefix (add (self ''customer_ipv6'') (str ''/128'')))]),
      run (api_create_entry ''route_entry'' (self ''customer_route_v6'') [(''next_hop_id'', self ''onhop_v6'')])]"

definition TunnelTtlModeTest_encapTtlUniformModeVxlanTest :: "'d stmt" where
  "TunnelTtlModeTest_encapTtlUniformModeVxlanTest = block [
      assign ''ttl_val'' (num 20),
      assign ''ttl_mode'' (num SAI_TUNNEL_TTL_MODE_UNIFORM_MODEL),
      assign ''tunnel_type'' (num SAI_TUNNEL_TYPE_VXLAN),
      assign ''term_type'' (num SAI_TUNNEL_TERM_TABLE_ENTRY_TYPE_P2P),
      try_finally [
        assign ''encap_tunnel_map'' (api_create ''tunnel_map'' [(''type'', num SAI_TUNNEL_MAP_TYPE_VIRTUAL_ROUTER_ID_TO_VNI)]),
        assign ''decap_tunnel_map'' (api_create ''tunnel_map'' [(''type'', num SAI_TUNNEL_MAP_TYPE_VNI_TO_VIRTUAL_ROUTER_ID)]),
        assign ''encap_tunnel_map_entry'' (api_create ''tunnel_map_entry'' [(''tunnel_map'', var ''encap_tunnel_map''),
          (''tunnel_map_type'', num SAI_TUNNEL_MAP_TYPE_VIRTUAL_ROUTER_ID_TO_VNI), (''virtual_router_id_key'', self ''ovrf''),
          (''vni_id_value'', self ''vni'')]),
        assign ''decap_tunnel_map_entry'' (api_create ''tunnel_map_entry'' [(''tunnel_map'', var ''encap_tunnel_map''),
          (''tunnel_map_type'', num SAI_TUNNEL_MAP_TYPE_VNI_TO_VIRTUAL_ROUTER_ID), (''virtual_router_id_value'', self ''ovrf''),
          (''vni_id_key'', self ''vni'')]),
        assign ''encap_maps'' (struct ''sai_thrift_object_list_t'' [(''count'', num 1), (''idlist'', list_of [var
          ''encap_tunnel_map''])]),
        assign ''decap_maps'' (struct ''sai_thrift_object_list_t'' [(''count'', num 1), (''idlist'', list_of [var
          ''decap_tunnel_map''])]),
        assign ''tunnel'' (api_create ''tunnel'' [(''type'', var ''tunnel_type''), (''encap_src_ip'', ip_address (self
          ''lpb_ip'')), (''encap_mappers'', var ''encap_maps''), (''decap_mappers'', var ''decap_maps''), (''encap_ttl_mode'',
          var ''ttl_mode''), (''encap_ttl_val'', var ''ttl_val''), (''underlay_interface'', self ''urif_lpb'')]),
        assign ''tunnel_term'' (api_create ''tunnel_term_table_entry'' [(''tunnel_type'', var ''tunnel_type''), (''vr_id'', self
          ''uvrf''), (''action_tunnel_id'', var ''tunnel''), (''type'', var ''term_type''), (''dst_ip'', ip_address (self
          ''lpb_ip''))]),
        assign ''tunnel_nhop'' (api_create ''next_hop'' [(''type'', num SAI_NEXT_HOP_TYPE_TUNNEL_ENCAP), (''tunnel_id'', var
          ''tunnel''), (''ip'', ip_address (self ''tun_ip'')), (''tunnel_mac'', self ''inner_dmac''), (''tunnel_vni'', self
          ''vni'')]),
        assign ''vm_route'' (struct ''sai_thrift_route_entry_t'' [(''vr_id'', self ''ovrf''), (''destination'', ip_prefix (add
          (self ''vm_ip'') (str ''/32'')))]),
        run (api_create_entry ''route_entry'' (var ''vm_route'') [(''next_hop_id'', var ''tunnel_nhop'')]),
        assign ''pkt'' (lib ''simple_udp_packet'' [] [(''eth_dst'', str ROUTER_MAC), (''eth_src'', self ''customer_mac''),
          (''ip_dst'', self ''vm_ip''), (''ip_src'', self ''customer_ip''), (''ip_id'', num 108), (''ip_ttl'', num 51)]),
        assign ''inner_pkt'' (lib ''simple_udp_packet'' [] [(''eth_dst'', self ''inner_dmac''), (''eth_src'', str ROUTER_MAC),
          (''ip_dst'', self ''vm_ip''), (''ip_src'', self ''customer_ip''), (''ip_id'', num 108), (''ip_ttl'', num 50)]),
        assign ''vxlan_pkt'' (lib ''Mask'' [lib ''simple_vxlan_packet'' [] [(''eth_dst'', self ''unbor_mac''), (''eth_src'', str
          ROUTER_MAC), (''ip_dst'', self ''tun_ip''), (''ip_src'', self ''lpb_ip''), (''ip_id'', num 0), (''ip_ttl'', num 50),
          (''ip_flags'', num 2), (''with_udp_chksum'', bool False), (''vxlan_vni'', self ''vni''), (''inner_frame'', var
          ''inner_pkt'')]] []),
        assign ''vxlan_pkt'' (lib ''.set_do_not_care_scapy'' [var ''vxlan_pkt'', str ''UDP'', str ''sport''] []),
        run (lib ''send_packet'' [self ''oport_dev'', var ''pkt''] []),
        run (lib ''verify_packet'' [var ''vxlan_pkt'', self ''uport_dev''] []),
        assign ''ttl_mode'' (num SAI_TUNNEL_TTL_MODE_PIPE_MODEL),
        run (api_set ''tunnel'' (var ''tunnel'') [(''encap_ttl_mode'', var ''ttl_mode'')]),
        assign ''vxlan_pkt_2'' (lib ''Mask'' [lib ''simple_vxlan_packet'' [] [(''eth_dst'', self ''unbor_mac''), (''eth_src'',
          str ROUTER_MAC), (''ip_dst'', self ''tun_ip''), (''ip_src'', self ''lpb_ip''), (''ip_id'', num 0), (''ip_ttl'', var
          ''ttl_val''), (''ip_flags'', num 2), (''with_udp_chksum'', bool False), (''vxlan_vni'', self ''vni''),
          (''inner_frame'', var ''inner_pkt'')]] []),
        assign ''vxlan_pkt_2'' (lib ''.set_do_not_care_scapy'' [var ''vxlan_pkt_2'', str ''UDP'', str ''sport''] []),
        run (lib ''send_packet'' [self ''oport_dev'', var ''pkt''] []),
        run (lib ''verify_packet'' [var ''vxlan_pkt_2'', self ''uport_dev''] []),
        assign ''ttl_mode'' (num SAI_TUNNEL_TTL_MODE_UNIFORM_MODEL),
        run (api_set ''tunnel'' (var ''tunnel'') [(''encap_ttl_mode'', var ''ttl_mode'')]),
        run (lib ''send_packet'' [self ''oport_dev'', var ''pkt''] []),
        run (lib ''verify_packet'' [var ''vxlan_pkt'', self ''uport_dev''] [])] [
        run (api_remove ''route_entry'' (var ''vm_route'')),
        run (api_remove ''next_hop'' (var ''tunnel_nhop'')),
        run (api_remove ''tunnel_term_table_entry'' (var ''tunnel_term'')),
        run (api_remove ''tunnel'' (var ''tunnel'')),
        run (api_remove ''tunnel_map_entry'' (var ''decap_tunnel_map_entry'')),
        run (api_remove ''tunnel_map_entry'' (var ''encap_tunnel_map_entry'')),
        run (api_remove ''tunnel_map'' (var ''decap_tunnel_map'')),
        run (api_remove ''tunnel_map'' (var ''encap_tunnel_map''))]]"

definition TunnelTtlModeTest_encapTtlUniformModeIpv4InIpv4Test :: "'d stmt" where
  "TunnelTtlModeTest_encapTtlUniformModeIpv4InIpv4Test = block [
      assign ''ttl_val'' (num 20),
      assign ''ttl_mode'' (num SAI_TUNNEL_TTL_MODE_UNIFORM_MODEL),
      assign ''tunnel_type'' (num SAI_TUNNEL_TYPE_IPINIP),
      assign ''term_type'' (num SAI_TUNNEL_TERM_TABLE_ENTRY_TYPE_P2P),
      try_finally [
        assign ''tunnel'' (api_create ''tunnel'' [(''type'', var ''tunnel_type''), (''encap_src_ip'', ip_address (self
          ''lpb_ip'')), (''encap_ttl_mode'', var ''ttl_mode''), (''encap_ttl_val'', var ''ttl_val''), (''underlay_interface'',
          self ''urif_lpb''), (''overlay_interface'', self ''orif_lpb'')]),
        assign ''tunnel_term'' (api_create ''tunnel_term_table_entry'' [(''tunnel_type'', var ''tunnel_type''), (''vr_id'', self
          ''uvrf''), (''action_tunnel_id'', var ''tunnel''), (''type'', var ''term_type''), (''dst_ip'', ip_address (self
          ''lpb_ip'')), (''src_ip'', ip_address (self ''tun_ip''))]),
        assign ''tunnel_nhop'' (api_create ''next_hop'' [(''type'', num SAI_NEXT_HOP_TYPE_TUNNEL_ENCAP), (''tunnel_id'', var
          ''tunnel''), (''ip'', ip_address (self ''tun_ip'')), (''tunnel_mac'', self ''inner_dmac'')]),
        assign ''vm_route'' (struct ''sai_thrift_route_entry_t'' [(''vr_id'', self ''ovrf''), (''destination'', ip_prefix (add
          (self ''vm_ip'') (str ''/32'')))]),
        run (api_create_entry ''route_entry'' (var ''vm_route'') [(''next_hop_id'', var ''tunnel_nhop'')]),
        assign ''pkt'' (lib ''simple_udp_packet'' [] [(''eth_dst'', str ROUTER_MAC), (''eth_src'', self ''customer_mac''),
          (''ip_dst'', self ''vm_ip''), (''ip_src'', self ''customer_ip''), (''ip_id'', num 108), (''ip_ttl'', num 51)]),
        assign ''inner_pkt'' (lib ''simple_udp_packet'' [] [(''eth_dst'', self ''inner_dmac''), (''eth_src'', str ROUTER_MAC),
          (''ip_dst'', self ''vm_ip''), (''ip_src'', self ''customer_ip''), (''ip_id'', num 108), (''ip_ttl'', num 50)]),
        assign ''ipip_pkt'' (lib ''simple_ipv4ip_packet'' [] [(''eth_dst'', self ''unbor_mac''), (''eth_src'', str ROUTER_MAC),
          (''ip_id'', num 0), (''ip_dst'', self ''tun_ip''), (''ip_src'', self ''lpb_ip''), (''ip_ttl'', num 50),
          (''inner_frame'', lib ''get_layer'' [var ''inner_pkt'', str ''IP''] [])]),
        run (lib ''send_packet'' [self ''oport_dev'', var ''pkt''] []),
        run (lib ''verify_packet'' [var ''ipip_pkt'', self ''uport_dev''] []),
        assign ''ttl_mode'' (num SAI_TUNNEL_TTL_MODE_PIPE_MODEL),
        run (api_set ''tunnel'' (var ''tunnel'') [(''encap_ttl_mode'', var ''ttl_mode'')]),
        assign ''ipip_pkt_2'' (lib ''simple_ipv4ip_packet'' [] [(''eth_dst'', self ''unbor_mac''), (''eth_src'', str
          ROUTER_MAC), (''ip_id'', num 0), (''ip_dst'', self ''tun_ip''), (''ip_src'', self ''lpb_ip''), (''ip_ttl'', var
          ''ttl_val''), (''inner_frame'', lib ''get_layer'' [var ''inner_pkt'', str ''IP''] [])]),
        run (lib ''send_packet'' [self ''oport_dev'', var ''pkt''] []),
        run (lib ''verify_packet'' [var ''ipip_pkt_2'', self ''uport_dev''] []),
        assign ''ttl_mode'' (num SAI_TUNNEL_TTL_MODE_UNIFORM_MODEL),
        run (api_set ''tunnel'' (var ''tunnel'') [(''encap_ttl_mode'', var ''ttl_mode'')]),
        run (lib ''send_packet'' [self ''oport_dev'', var ''pkt''] []),
        run (lib ''verify_packet'' [var ''ipip_pkt'', self ''uport_dev''] [])] [
        run (api_remove ''route_entry'' (var ''vm_route'')),
        run (api_remove ''next_hop'' (var ''tunnel_nhop'')),
        run (api_remove ''tunnel_term_table_entry'' (var ''tunnel_term'')),
        run (api_remove ''tunnel'' (var ''tunnel''))]]"

definition TunnelTtlModeTest_encapTtlUniformModeIpv4InIpv6Test :: "'d stmt" where
  "TunnelTtlModeTest_encapTtlUniformModeIpv4InIpv6Test = block [
      assign ''ttl_val'' (num 20),
      assign ''ttl_mode'' (num SAI_TUNNEL_TTL_MODE_UNIFORM_MODEL),
      assign ''tunnel_type'' (num SAI_TUNNEL_TYPE_IPINIP),
      assign ''term_type'' (num SAI_TUNNEL_TERM_TABLE_ENTRY_TYPE_P2P),
      try_finally [
        assign ''tunnel'' (api_create ''tunnel'' [(''type'', var ''tunnel_type''), (''encap_src_ip'', ip_address (self
          ''lpb_ipv6'')), (''encap_ttl_mode'', var ''ttl_mode''), (''encap_ttl_val'', var ''ttl_val''), (''underlay_interface'',
          self ''urif_lpb''), (''overlay_interface'', self ''orif_lpb'')]),
        assign ''tunnel_term'' (api_create ''tunnel_term_table_entry'' [(''tunnel_type'', var ''tunnel_type''), (''vr_id'', self
          ''uvrf''), (''action_tunnel_id'', var ''tunnel''), (''type'', var ''term_type''), (''dst_ip'', ip_address (self
          ''lpb_ipv6'')), (''src_ip'', ip_address (self ''tun_ipv6''))]),
        assign ''tunnel_nhop'' (api_create ''next_hop'' [(''type'', num SAI_NEXT_HOP_TYPE_TUNNEL_ENCAP), (''tunnel_id'', var
          ''tunnel''), (''ip'', ip_address (self ''tun_ipv6'')), (''tunnel_mac'', self ''inner_dmac'')]),
        assign ''vm_route'' (struct ''sai_thrift_route_entry_t'' [(''vr_id'', self ''ovrf''), (''destination'', ip_prefix (add
          (self ''vm_ip'') (str ''/32'')))]),
        run (api_create_entry ''route_entry'' (var ''vm_route'') [(''next_hop_id'', var ''tunnel_nhop'')]),
        assign ''pkt'' (lib ''simple_udp_packet'' [] [(''eth_dst'', str ROUTER_MAC), (''eth_src'', self ''customer_mac''),
          (''ip_dst'', self ''vm_ip''), (''ip_src'', self ''customer_ip''), (''ip_id'', num 108), (''ip_ttl'', num 51)]),
        assign ''inner_pkt'' (lib ''simple_udp_packet'' [] [(''eth_dst'', self ''inner_dmac''), (''eth_src'', str ROUTER_MAC),
          (''ip_dst'', self ''vm_ip''), (''ip_src'', self ''customer_ip''), (''ip_id'', num 108), (''ip_ttl'', num 50)]),
        assign ''ipip_pkt'' (lib ''simple_ipv6ip_packet'' [] [(''eth_dst'', self ''unbor_mac''), (''eth_src'', str ROUTER_MAC),
          (''ipv6_src'', self ''lpb_ipv6''), (''ipv6_dst'', self ''tun_ipv6''), (''ipv6_hlim'', num 50), (''inner_frame'', lib
          ''get_layer'' [var ''inner_pkt'', str ''IP''] [])]),
        run (lib ''send_packet'' [self ''oport_dev'', var ''pkt''] []),
        run (lib ''verify_packet'' [var ''ipip_pkt'', self ''uport_dev''] []),
        assign ''ttl_mode'' (num SAI_TUNNEL_TTL_MODE_PIPE_MODEL),
        run (api_set ''tunnel'' (var ''tunnel'') [(''encap_ttl_mode'', var ''ttl_mode'')]),
        assign ''ipip_pkt_2'' (lib ''simple_ipv6ip_packet'' [] [(''eth_dst'', self ''unbor_mac''), (''eth_src'', str
          ROUTER_MAC), (''ipv6_src'', self ''lpb_ipv6''), (''ipv6_dst'', self ''tun_ipv6''), (''ipv6_hlim'', var ''ttl_val''),
          (''inner_frame'', lib ''get_layer'' [var ''inner_pkt'', str ''IP''] [])]),
        run (lib ''send_packet'' [self ''oport_dev'', var ''pkt''] []),
        run (lib ''verify_packet'' [var ''ipip_pkt_2'', self ''uport_dev''] []),
        assign ''ttl_mode'' (num SAI_TUNNEL_TTL_MODE_UNIFORM_MODEL),
        run (api_set ''tunnel'' (var ''tunnel'') [(''encap_ttl_mode'', var ''ttl_mode'')]),
        run (lib ''send_packet'' [self ''oport_dev'', var ''pkt''] []),
        run (lib ''verify_packet'' [var ''ipip_pkt'', self ''uport_dev''] [])] [
        run (api_remove ''route_entry'' (var ''vm_route'')),
        run (api_remove ''next_hop'' (var ''tunnel_nhop'')),
        run (api_remove ''tunnel_term_table_entry'' (var ''tunnel_term'')),
        run (api_remove ''tunnel'' (var ''tunnel''))]]"

definition TunnelTtlModeTest_encapTtlUniformModeIpv6InIpv4Test :: "'d stmt" where
  "TunnelTtlModeTest_encapTtlUniformModeIpv6InIpv4Test = block [
      assign ''ttl_val'' (num 20),
      assign ''ttl_mode'' (num SAI_TUNNEL_TTL_MODE_UNIFORM_MODEL),
      assign ''tunnel_type'' (num SAI_TUNNEL_TYPE_IPINIP),
      assign ''term_type'' (num SAI_TUNNEL_TERM_TABLE_ENTRY_TYPE_P2P),
      try_finally [
        assign ''tunnel'' (api_create ''tunnel'' [(''type'', var ''tunnel_type''), (''encap_src_ip'', ip_address (self
          ''lpb_ip'')), (''encap_ttl_mode'', var ''ttl_mode''), (''encap_ttl_val'', var ''ttl_val''), (''underlay_interface'',
          self ''urif_lpb''), (''overlay_interface'', self ''orif_lpb'')]),
        assign ''tunnel_term'' (api_create ''tunnel_term_table_entry'' [(''tunnel_type'', var ''tunnel_type''), (''vr_id'', self
          ''uvrf''), (''action_tunnel_id'', var ''tunnel''), (''type'', var ''term_type''), (''dst_ip'', ip_address (self
          ''lpb_ip'')), (''src_ip'', ip_address (self ''tun_ip''))]),
        assign ''tunnel_nhop'' (api_create ''next_hop'' [(''type'', num SAI_NEXT_HOP_TYPE_TUNNEL_ENCAP), (''tunnel_id'', var
          ''tunnel''), (''ip'', ip_address (self ''tun_ip'')), (''tunnel_mac'', self ''inner_dmac'')]),
        assign ''vm_route'' (struct ''sai_thrift_route_entry_t'' [(''vr_id'', self ''ovrf''), (''destination'', ip_prefix (add
          (self ''vm_ipv6'') (str ''/128'')))]),
        run (api_create_entry ''route_entry'' (var ''vm_route'') [(''next_hop_id'', var ''tunnel_nhop'')]),
        assign ''pkt'' (lib ''simple_udpv6_packet'' [] [(''eth_dst'', str ROUTER_MAC), (''eth_src'', self ''customer_mac''),
          (''ipv6_dst'', self ''vm_ipv6''), (''ipv6_src'', self ''customer_ipv6''), (''ipv6_hlim'', num 51)]),
        assign ''inner_pkt'' (lib ''simple_udpv6_packet'' [] [(''eth_dst'', self ''inner_dmac''), (''eth_src'', str ROUTER_MAC),
          (''ipv6_dst'', self ''vm_ipv6''), (''ipv6_src'', self ''customer_ipv6''), (''ipv6_hlim'', num 50)]),
        assign ''ipip_pkt'' (lib ''simple_ipv4ip_packet'' [] [(''eth_dst'', self ''unbor_mac''), (''eth_src'', str ROUTER_MAC),
          (''ip_id'', num 0), (''ip_dst'', self ''tun_ip''), (''ip_src'', self ''lpb_ip''), (''ip_ttl'', num 50),
          (''inner_frame'', lib ''get_layer'' [var ''inner_pkt'', str ''IPv6''] [])]),
        run (lib ''send_packet'' [self ''oport_dev'', var ''pkt''] []),
        run (lib ''verify_packet'' [var ''ipip_pkt'', self ''uport_dev''] []),
        assign ''ttl_mode'' (num SAI_TUNNEL_TTL_MODE_PIPE_MODEL),
        run (api_set ''tunnel'' (var ''tunnel'') [(''encap_ttl_mode'', var ''ttl_mode'')]),
        assign ''ipip_pkt_2'' (lib ''simple_ipv4ip_packet'' [] [(''eth_dst'', self ''unbor_mac''), (''eth_src'', str
          ROUTER_MAC), (''ip_id'', num 0), (''ip_dst'', self ''tun_ip''), (''ip_src'', self ''lpb_ip''), (''ip_ttl'', var
          ''ttl_val''), (''inner_frame'', lib ''get_layer'' [var ''inner_pkt'', str ''IPv6''] [])]),
        run (lib ''send_packet'' [self ''oport_dev'', var ''pkt''] []),
        run (lib ''verify_packet'' [var ''ipip_pkt_2'', self ''uport_dev''] []),
        assign ''ttl_mode'' (num SAI_TUNNEL_TTL_MODE_UNIFORM_MODEL),
        run (api_set ''tunnel'' (var ''tunnel'') [(''encap_ttl_mode'', var ''ttl_mode'')]),
        run (lib ''send_packet'' [self ''oport_dev'', var ''pkt''] []),
        run (lib ''verify_packet'' [var ''ipip_pkt'', self ''uport_dev''] [])] [
        run (api_remove ''route_entry'' (var ''vm_route'')),
        run (api_remove ''next_hop'' (var ''tunnel_nhop'')),
        run (api_remove ''tunnel_term_table_entry'' (var ''tunnel_term'')),
        run (api_remove ''tunnel'' (var ''tunnel''))]]"

definition TunnelTtlModeTest_encapTtlUniformModeIpv6InIpv6Test :: "'d stmt" where
  "TunnelTtlModeTest_encapTtlUniformModeIpv6InIpv6Test = block [
      assign ''ttl_val'' (num 20),
      assign ''ttl_mode'' (num SAI_TUNNEL_TTL_MODE_UNIFORM_MODEL),
      assign ''tunnel_type'' (num SAI_TUNNEL_TYPE_IPINIP),
      assign ''term_type'' (num SAI_TUNNEL_TERM_TABLE_ENTRY_TYPE_P2P),
      try_finally [
        assign ''tunnel'' (api_create ''tunnel'' [(''type'', var ''tunnel_type''), (''encap_src_ip'', ip_address (self
          ''lpb_ipv6'')), (''encap_ttl_mode'', var ''ttl_mode''), (''encap_ttl_val'', var ''ttl_val''), (''underlay_interface'',
          self ''urif_lpb''), (''overlay_interface'', self ''orif_lpb'')]),
        assign ''tunnel_term'' (api_create ''tunnel_term_table_entry'' [(''tunnel_type'', var ''tunnel_type''), (''vr_id'', self
          ''uvrf''), (''action_tunnel_id'', var ''tunnel''), (''type'', var ''term_type''), (''dst_ip'', ip_address (self
          ''lpb_ipv6'')), (''src_ip'', ip_address (self ''tun_ipv6''))]),
        assign ''tunnel_nhop'' (api_create ''next_hop'' [(''type'', num SAI_NEXT_HOP_TYPE_TUNNEL_ENCAP), (''tunnel_id'', var
          ''tunnel''), (''ip'', ip_address (self ''tun_ipv6'')), (''tunnel_mac'', self ''inner_dmac'')]),
        assign ''vm_route'' (struct ''sai_thrift_route_entry_t'' [(''vr_id'', self ''ovrf''), (''destination'', ip_prefix (add
          (self ''vm_ipv6'') (str ''/128'')))]),
        run (api_create_entry ''route_entry'' (var ''vm_route'') [(''next_hop_id'', var ''tunnel_nhop'')]),
        assign ''pkt'' (lib ''simple_udpv6_packet'' [] [(''eth_dst'', str ROUTER_MAC), (''eth_src'', self ''customer_mac''),
          (''ipv6_dst'', self ''vm_ipv6''), (''ipv6_src'', self ''customer_ipv6''), (''ipv6_hlim'', num 51)]),
        assign ''inner_pkt'' (lib ''simple_udpv6_packet'' [] [(''eth_dst'', self ''inner_dmac''), (''eth_src'', str ROUTER_MAC),
          (''ipv6_dst'', self ''vm_ipv6''), (''ipv6_src'', self ''customer_ipv6''), (''ipv6_hlim'', num 50)]),
        assign ''ipip_pkt'' (lib ''simple_ipv6ip_packet'' [] [(''eth_dst'', self ''unbor_mac''), (''eth_src'', str ROUTER_MAC),
          (''ipv6_src'', self ''lpb_ipv6''), (''ipv6_dst'', self ''tun_ipv6''), (''ipv6_hlim'', num 50), (''inner_frame'', lib
          ''get_layer'' [var ''inner_pkt'', str ''IPv6''] [])]),
        run (lib ''send_packet'' [self ''oport_dev'', var ''pkt''] []),
        run (lib ''verify_packet'' [var ''ipip_pkt'', self ''uport_dev''] []),
        assign ''ttl_mode'' (num SAI_TUNNEL_TTL_MODE_PIPE_MODEL),
        run (api_set ''tunnel'' (var ''tunnel'') [(''encap_ttl_mode'', var ''ttl_mode'')]),
        assign ''ipip_pkt_2'' (lib ''simple_ipv6ip_packet'' [] [(''eth_dst'', self ''unbor_mac''), (''eth_src'', str
          ROUTER_MAC), (''ipv6_src'', self ''lpb_ipv6''), (''ipv6_dst'', self ''tun_ipv6''), (''ipv6_hlim'', var ''ttl_val''),
          (''inner_frame'', lib ''get_layer'' [var ''inner_pkt'', str ''IPv6''] [])]),
        run (lib ''send_packet'' [self ''oport_dev'', var ''pkt''] []),
        run (lib ''verify_packet'' [var ''ipip_pkt_2'', self ''uport_dev''] []),
        assign ''ttl_mode'' (num SAI_TUNNEL_TTL_MODE_UNIFORM_MODEL),
        run (api_set ''tunnel'' (var ''tunnel'') [(''encap_ttl_mode'', var ''ttl_mode'')]),
        run (lib ''send_packet'' [self ''oport_dev'', var ''pkt''] []),
        run (lib ''verify_packet'' [var ''ipip_pkt'', self ''uport_dev''] [])] [
        run (api_remove ''route_entry'' (var ''vm_route'')),
        run (api_remove ''next_hop'' (var ''tunnel_nhop'')),
        run (api_remove ''tunnel_term_table_entry'' (var ''tunnel_term'')),
        run (api_remove ''tunnel'' (var ''tunnel''))]]"

definition TunnelTtlModeTest_decapTtlUniformModeVxlanTest :: "'d stmt" where
  "TunnelTtlModeTest_decapTtlUniformModeVxlanTest = block [
      assign ''ttl_mode'' (num SAI_TUNNEL_TTL_MODE_UNIFORM_MODEL),
      assign ''tunnel_type'' (num SAI_TUNNEL_TYPE_VXLAN),
      assign ''term_type'' (num SAI_TUNNEL_TERM_TABLE_ENTRY_TYPE_P2P),
      try_finally [
        assign ''encap_tunnel_map'' (api_create ''tunnel_map'' [(''type'', num SAI_TUNNEL_MAP_TYPE_VIRTUAL_ROUTER_ID_TO_VNI)]),
        assign ''decap_tunnel_map'' (api_create ''tunnel_map'' [(''type'', num SAI_TUNNEL_MAP_TYPE_VNI_TO_VIRTUAL_ROUTER_ID)]),
        assign ''encap_tunnel_map_entry'' (api_create ''tunnel_map_entry'' [(''tunnel_map'', var ''encap_tunnel_map''),
          (''tunnel_map_type'', num SAI_TUNNEL_MAP_TYPE_VIRTUAL_ROUTER_ID_TO_VNI), (''virtual_router_id_key'', self ''ovrf''),
          (''vni_id_value'', self ''vni'')]),
        assign ''decap_tunnel_map_entry'' (api_create ''tunnel_map_entry'' [(''tunnel_map'', var ''encap_tunnel_map''),
          (''tunnel_map_type'', num SAI_TUNNEL_MAP_TYPE_VNI_TO_VIRTUAL_ROUTER_ID), (''virtual_router_id_value'', self ''ovrf''),
          (''vni_id_key'', self ''vni'')]),
        assign ''encap_maps'' (struct ''sai_thrift_object_list_t'' [(''count'', num 1), (''idlist'', list_of [var
          ''encap_tunnel_map''])]),
        assign ''decap_maps'' (struct ''sai_thrift_object_list_t'' [(''count'', num 1), (''idlist'', list_of [var
          ''decap_tunnel_map''])]),
        assign ''tunnel'' (api_create ''tunnel'' [(''type'', var ''tunnel_type''), (''encap_src_ip'', ip_address (self
          ''lpb_ip'')), (''encap_mappers'', var ''encap_maps''), (''decap_mappers'', var ''decap_maps''), (''decap_ttl_mode'',
          var ''ttl_mode''), (''underlay_interface'', self ''urif_lpb'')]),
        assign ''tunnel_term'' (api_create ''tunnel_term_table_entry'' [(''tunnel_type'', var ''tunnel_type''), (''vr_id'', self
          ''uvrf''), (''action_tunnel_id'', var ''tunnel''), (''type'', var ''term_type''), (''dst_ip'', ip_address (self
          ''lpb_ip''))]),
        assign ''tunnel_nhop'' (api_create ''next_hop'' [(''type'', num SAI_NEXT_HOP_TYPE_TUNNEL_ENCAP), (''tunnel_id'', var
          ''tunnel''), (''ip'', ip_address (self ''tun_ip'')), (''tunnel_mac'', self ''inner_dmac''), (''tunnel_vni'', self
          ''vni'')]),
        assign ''vm_route'' (struct ''sai_thrift_route_entry_t'' [(''vr_id'', self ''ovrf''), (''destination'', ip_prefix (add
          (self ''vm_ip'') (str ''/32'')))]),
        run (api_create_entry ''route_entry'' (var ''vm_route'') [(''next_hop_id'', var ''tunnel_nhop'')]),
        assign ''pkt'' (lib ''simple_udp_packet'' [] [(''eth_dst'', self ''customer_mac''), (''eth_src'', str ROUTER_MAC),
          (''ip_dst'', self ''customer_ip''), (''ip_src'', self ''vm_ip''), (''ip_id'', num 108), (''ip_ttl'', num 50)]),
        assign ''inner_pkt'' (lib ''simple_udp_packet'' [] [(''eth_dst'', str ROUTER_MAC), (''eth_src'', str ROUTER_MAC),
          (''ip_dst'', self ''customer_ip''), (''ip_src'', self ''vm_ip''), (''ip_id'', num 108), (''ip_ttl'', num 60)]),
        assign ''vxlan_pkt'' (lib ''simple_vxlan_packet'' [] [(''eth_dst'', str ROUTER_MAC), (''eth_src'', self ''unbor_mac''),
          (''ip_dst'', self ''lpb_ip''), (''ip_src'', self ''tun_ip''), (''ip_id'', num 0), (''ip_ttl'', num 51), (''ip_flags'',
          num 2), (''udp_sport'', num 11638), (''with_udp_chksum'', bool False), (''vxlan_vni'', self ''vni''),
          (''inner_frame'', var ''inner_pkt'')]),
        run (lib ''send_packet'' [self ''uport_dev'', var ''vxlan_pkt''] []),
        run (lib ''verify_packet'' [var ''pkt'', self ''oport_dev''] []),
        assign ''ttl_mode'' (num SAI_TUNNEL_TTL_MODE_PIPE_MODEL),
        run (api_set ''tunnel'' (var ''tunnel'') [(''decap_ttl_mode'', var ''ttl_mode'')]),
        assign ''pkt_2'' (lib ''simple_udp_packet'' [] [(''eth_dst'', self ''customer_mac''), (''eth_src'', str ROUTER_MAC),
          (''ip_dst'', self ''customer_ip''), (''ip_src'', self ''vm_ip''), (''ip_id'', num 108), (''ip_ttl'', num 59)]),
        run (lib ''send_packet'' [self ''uport_dev'', var ''vxlan_pkt''] []),
        run (lib ''verify_packet'' [var ''pkt_2'', self ''oport_dev''] []),
        assign ''ttl_mode'' (num SAI_TUNNEL_TTL_MODE_UNIFORM_MODEL),
        run (api_set ''tunnel'' (var ''tunnel'') [(''decap_ttl_mode'', var ''ttl_mode'')]),
        run (lib ''send_packet'' [self ''uport_dev'', var ''vxlan_pkt''] []),
        run (lib ''verify_packet'' [var ''pkt'', self ''oport_dev''] [])] [
        run (api_remove ''route_entry'' (var ''vm_route'')),
        run (api_remove ''next_hop'' (var ''tunnel_nhop'')),
        run (api_remove ''tunnel_term_table_entry'' (var ''tunnel_term'')),
        run (api_remove ''tunnel'' (var ''tunnel'')),
        run (api_remove ''tunnel_map_entry'' (var ''decap_tunnel_map_entry'')),
        run (api_remove ''tunnel_map_entry'' (var ''encap_tunnel_map_entry'')),
        run (api_remove ''tunnel_map'' (var ''decap_tunnel_map'')),
        run (api_remove ''tunnel_map'' (var ''encap_tunnel_map''))]]"

definition TunnelTtlModeTest_decapTtlUniformModeIpv4InIpv4Test :: "'d stmt" where
  "TunnelTtlModeTest_decapTtlUniformModeIpv4InIpv4Test = block [
      assign ''ttl_mode'' (num SAI_TUNNEL_TTL_MODE_UNIFORM_MODEL),
      assign ''tunnel_type'' (num SAI_TUNNEL_TYPE_IPINIP),
      assign ''term_type'' (num SAI_TUNNEL_TERM_TABLE_ENTRY_TYPE_P2P),
      try_finally [
        assign ''tunnel'' (api_create ''tunnel'' [(''type'', var ''tunnel_type''), (''encap_src_ip'', ip_address (self
          ''lpb_ip'')), (''decap_ttl_mode'', var ''ttl_mode''), (''underlay_interface'', self ''urif_lpb''),
          (''overlay_interface'', self ''orif_lpb'')]),
        assign ''tunnel_term'' (api_create ''tunnel_term_table_entry'' [(''tunnel_type'', var ''tunnel_type''), (''vr_id'', self
          ''uvrf''), (''action_tunnel_id'', var ''tunnel''), (''type'', var ''term_type''), (''dst_ip'', ip_address (self
          ''lpb_ip''))]),
        assign ''tunnel_nhop'' (api_create ''next_hop'' [(''type'', num SAI_NEXT_HOP_TYPE_TUNNEL_ENCAP), (''tunnel_id'', var
          ''tunnel''), (''ip'', ip_address (self ''tun_ip'')), (''tunnel_mac'', self ''inner_dmac'')]),
        assign ''vm_route'' (struct ''sai_thrift_route_entry_t'' [(''vr_id'', self ''ovrf''), (''destination'', ip_prefix (add
          (self ''vm_ip'') (str ''/32'')))]),
        run (api_create_entry ''route_entry'' (var ''vm_route'') [(''next_hop_id'', var ''tunnel_nhop'')]),
        assign ''pkt'' (lib ''simple_udp_packet'' [] [(''eth_dst'', self ''customer_mac''), (''eth_src'', str ROUTER_MAC),
          (''ip_dst'', self ''customer_ip''), (''ip_src'', self ''vm_ip''), (''ip_id'', num 108), (''ip_ttl'', num 50)]),
        assign ''inner_pkt'' (lib ''simple_udp_packet'' [] [(''eth_dst'', str ROUTER_MAC), (''eth_src'', self ''inner_dmac''),
          (''ip_dst'', self ''customer_ip''), (''ip_src'', self ''vm_ip''), (''ip_id'', num 108), (''ip_ttl'', num 60)]),
        assign ''ipip_pkt'' (lib ''simple_ipv4ip_packet'' [] [(''eth_dst'', str ROUTER_MAC), (''eth_src'', self ''unbor_mac''),
          (''ip_dst'', self ''lpb_ip''), (''ip_src'', self ''tun_ip''), (''ip_id'', num 0), (''ip_ttl'', num 51),
          (''inner_frame'', lib ''get_layer'' [var ''inner_pkt'', str ''IP''] [])]),
        run (lib ''send_packet'' [self ''uport_dev'', var ''ipip_pkt''] []),
        run (lib ''verify_packet'' [var ''pkt'', self ''oport_dev''] []),
        assign ''ttl_mode'' (num SAI_TUNNEL_TTL_MODE_PIPE_MODEL),
        run (api_set ''tunnel'' (var ''tunnel'') [(''decap_ttl_mode'', var ''ttl_mode'')]),
        assign ''pkt_2'' (lib ''simple_udp_packet'' [] [(''eth_dst'', self ''customer_mac''), (''eth_src'', str ROUTER_MAC),
          (''ip_dst'', self ''customer_ip''), (''ip_src'', self ''vm_ip''), (''ip_id'', num 108), (''ip_ttl'', num 59)]),
        run (lib ''send_packet'' [self ''uport_dev'', var ''ipip_pkt''] []),
        run (lib ''verify_packet'' [var ''pkt_2'', self ''oport_dev''] []),
        assign ''ttl_mode'' (num SAI_TUNNEL_TTL_MODE_UNIFORM_MODEL),
        run (api_set ''tunnel'' (var ''tunnel'') [(''decap_ttl_mode'', var ''ttl_mode'')]),
        run (lib ''send_packet'' [self ''uport_dev'', var ''ipip_pkt''] []),
        run (lib ''verify_packet'' [var ''pkt'', self ''oport_dev''] [])] [
        run (api_remove ''route_entry'' (var ''vm_route'')),
        run (api_remove ''next_hop'' (var ''tunnel_nhop'')),
        run (api_remove ''tunnel_term_table_entry'' (var ''tunnel_term'')),
        run (api_remove ''tunnel'' (var ''tunnel''))]]"

definition TunnelTtlModeTest_decapTtlUniformModeIpv4InIpv6Test :: "'d stmt" where
  "TunnelTtlModeTest_decapTtlUniformModeIpv4InIpv6Test = block [
      assign ''ttl_mode'' (num SAI_TUNNEL_TTL_MODE_UNIFORM_MODEL),
      assign ''tunnel_type'' (num SAI_TUNNEL_TYPE_IPINIP),
      assign ''term_type'' (num SAI_TUNNEL_TERM_TABLE_ENTRY_TYPE_P2P),
      try_finally [
        assign ''tunnel'' (api_create ''tunnel'' [(''type'', var ''tunnel_type''), (''encap_src_ip'', ip_address (self
          ''lpb_ipv6'')), (''decap_ttl_mode'', var ''ttl_mode''), (''underlay_interface'', self ''urif_lpb''),
          (''overlay_interface'', self ''orif_lpb'')]),
        assign ''tunnel_term'' (api_create ''tunnel_term_table_entry'' [(''tunnel_type'', var ''tunnel_type''), (''vr_id'', self
          ''uvrf''), (''action_tunnel_id'', var ''tunnel''), (''type'', var ''term_type''), (''dst_ip'', ip_address (self
          ''lpb_ipv6'')), (''src_ip'', ip_address (self ''tun_ipv6''))]),
        assign ''tunnel_nhop'' (api_create ''next_hop'' [(''type'', num SAI_NEXT_HOP_TYPE_TUNNEL_ENCAP), (''tunnel_id'', var
          ''tunnel''), (''ip'', ip_address (self ''tun_ipv6'')), (''tunnel_mac'', self ''inner_dmac'')]),
        assign ''vm_route'' (struct ''sai_thrift_route_entry_t'' [(''vr_id'', self ''ovrf''), (''destination'', ip_prefix (add
          (self ''vm_ip'') (str ''/32'')))]),
        run (api_create_entry ''route_entry'' (var ''vm_route'') [(''next_hop_id'', var ''tunnel_nhop'')]),
        assign ''pkt'' (lib ''simple_udp_packet'' [] [(''eth_dst'', self ''customer_mac''), (''eth_src'', str ROUTER_MAC),
          (''ip_dst'', self ''customer_ip''), (''ip_src'', self ''vm_ip''), (''ip_id'', num 108), (''ip_ttl'', num 50)]),
        assign ''inner_pkt'' (lib ''simple_udp_packet'' [] [(''eth_dst'', str ROUTER_MAC), (''eth_src'', self ''inner_dmac''),
          (''ip_dst'', self ''customer_ip''), (''ip_src'', self ''vm_ip''), (''ip_id'', num 108), (''ip_ttl'', num 60)]),
        assign ''ipip_pkt'' (lib ''simple_ipv6ip_packet'' [] [(''eth_dst'', str ROUTER_MAC), (''eth_src'', self ''unbor_mac''),
          (''ipv6_dst'', self ''lpb_ipv6''), (''ipv6_src'', self ''tun_ipv6''), (''ipv6_hlim'', num 51), (''inner_frame'', lib
          ''get_layer'' [var ''inner_pkt'', str ''IP''] [])]),
        run (lib ''send_packet'' [self ''uport_dev'', var ''ipip_pkt''] []),
        run (lib ''verify_packet'' [var ''pkt'', self ''oport_dev''] []),
        assign ''ttl_mode'' (num SAI_TUNNEL_TTL_MODE_PIPE_MODEL),
        run (api_set ''tunnel'' (var ''tunnel'') [(''decap_ttl_mode'', var ''ttl_mode'')]),
        assign ''pkt_2'' (lib ''simple_udp_packet'' [] [(''eth_dst'', self ''customer_mac''), (''eth_src'', str ROUTER_MAC),
          (''ip_dst'', self ''customer_ip''), (''ip_src'', self ''vm_ip''), (''ip_id'', num 108), (''ip_ttl'', num 59)]),
        run (lib ''send_packet'' [self ''uport_dev'', var ''ipip_pkt''] []),
        run (lib ''verify_packet'' [var ''pkt_2'', self ''oport_dev''] []),
        assign ''ttl_mode'' (num SAI_TUNNEL_TTL_MODE_UNIFORM_MODEL),
        run (api_set ''tunnel'' (var ''tunnel'') [(''decap_ttl_mode'', var ''ttl_mode'')]),
        run (lib ''send_packet'' [self ''uport_dev'', var ''ipip_pkt''] []),
        run (lib ''verify_packet'' [var ''pkt'', self ''oport_dev''] [])] [
        run (api_remove ''route_entry'' (var ''vm_route'')),
        run (api_remove ''next_hop'' (var ''tunnel_nhop'')),
        run (api_remove ''tunnel_term_table_entry'' (var ''tunnel_term'')),
        run (api_remove ''tunnel'' (var ''tunnel''))]]"

definition TunnelTtlModeTest_decapTtlUniformModeIpv6InIpv4Test :: "'d stmt" where
  "TunnelTtlModeTest_decapTtlUniformModeIpv6InIpv4Test = block [
      assign ''ttl_mode'' (num SAI_TUNNEL_TTL_MODE_UNIFORM_MODEL),
      assign ''tunnel_type'' (num SAI_TUNNEL_TYPE_IPINIP),
      assign ''term_type'' (num SAI_TUNNEL_TERM_TABLE_ENTRY_TYPE_P2P),
      try_finally [
        assign ''tunnel'' (api_create ''tunnel'' [(''type'', var ''tunnel_type''), (''encap_src_ip'', ip_address (self
          ''lpb_ip'')), (''decap_ttl_mode'', var ''ttl_mode''), (''underlay_interface'', self ''urif_lpb''),
          (''overlay_interface'', self ''orif_lpb'')]),
        assign ''tunnel_term'' (api_create ''tunnel_term_table_entry'' [(''tunnel_type'', var ''tunnel_type''), (''vr_id'', self
          ''uvrf''), (''action_tunnel_id'', var ''tunnel''), (''type'', var ''term_type''), (''dst_ip'', ip_address (self
          ''lpb_ip''))]),
        assign ''tunnel_nhop'' (api_create ''next_hop'' [(''type'', num SAI_NEXT_HOP_TYPE_TUNNEL_ENCAP), (''tunnel_id'', var
          ''tunnel''), (''ip'', ip_address (self ''tun_ip'')), (''tunnel_mac'', self ''inner_dmac'')]),
        assign ''vm_route'' (struct ''sai_thrift_route_entry_t'' [(''vr_id'', self ''ovrf''), (''destination'', ip_prefix (add
          (self ''vm_ipv6'') (str ''/128'')))]),
        run (api_create_entry ''route_entry'' (var ''vm_route'') [(''next_hop_id'', var ''tunnel_nhop'')]),
        assign ''pkt'' (lib ''simple_udpv6_packet'' [] [(''eth_dst'', self ''customer_mac''), (''eth_src'', str ROUTER_MAC),
          (''ipv6_dst'', self ''customer_ipv6''), (''ipv6_src'', self ''vm_ipv6''), (''ipv6_hlim'', num 50)]),
        assign ''inner_pkt'' (lib ''simple_udpv6_packet'' [] [(''eth_dst'', str ROUTER_MAC), (''eth_src'', self ''inner_dmac''),
          (''ipv6_dst'', self ''customer_ipv6''), (''ipv6_src'', self ''vm_ipv6''), (''ipv6_hlim'', num 60)]),
        assign ''ipip_pkt'' (lib ''simple_ipv4ip_packet'' [] [(''eth_dst'', str ROUTER_MAC), (''eth_src'', self ''unbor_mac''),
          (''ip_dst'', self ''lpb_ip''), (''ip_src'', self ''tun_ip''), (''ip_id'', num 0), (''ip_ttl'', num 51),
          (''inner_frame'', lib ''get_layer'' [var ''inner_pkt'', str ''IPv6''] [])]),
        run (lib ''send_packet'' [self ''uport_dev'', var ''ipip_pkt''] []),
        run (lib ''verify_packet'' [var ''pkt'', self ''oport_dev''] []),
        assign ''ttl_mode'' (num SAI_TUNNEL_TTL_MODE_PIPE_MODEL),
        run (api_set ''tunnel'' (var ''tunnel'') [(''decap_ttl_mode'', var ''ttl_mode'')]),
        assign ''pkt_2'' (lib ''simple_udpv6_packet'' [] [(''eth_dst'', self ''customer_mac''), (''eth_src'', str ROUTER_MAC),
          (''ipv6_dst'', self ''customer_ipv6''), (''ipv6_src'', self ''vm_ipv6''), (''ipv6_hlim'', num 59)]),
        run (lib ''send_packet'' [self ''uport_dev'', var ''ipip_pkt''] []),
        run (lib ''verify_packet'' [var ''pkt_2'', self ''oport_dev''] []),
        assign ''ttl_mode'' (num SAI_TUNNEL_TTL_MODE_UNIFORM_MODEL),
        run (api_set ''tunnel'' (var ''tunnel'') [(''decap_ttl_mode'', var ''ttl_mode'')]),
        run (lib ''send_packet'' [self ''uport_dev'', var ''ipip_pkt''] []),
        run (lib ''verify_packet'' [var ''pkt'', self ''oport_dev''] [])] [
        run (api_remove ''route_entry'' (var ''vm_route'')),
        run (api_remove ''next_hop'' (var ''tunnel_nhop'')),
        run (api_remove ''tunnel_term_table_entry'' (var ''tunnel_term'')),
        run (api_remove ''tunnel'' (var ''tunnel''))]]"

definition TunnelTtlModeTest_decapTtlUniformModeIpv6InIpv6Test :: "'d stmt" where
  "TunnelTtlModeTest_decapTtlUniformModeIpv6InIpv6Test = block [
      assign ''ttl_mode'' (num SAI_TUNNEL_TTL_MODE_UNIFORM_MODEL),
      assign ''tunnel_type'' (num SAI_TUNNEL_TYPE_IPINIP),
      assign ''term_type'' (num SAI_TUNNEL_TERM_TABLE_ENTRY_TYPE_P2P),
      try_finally [
        assign ''tunnel'' (api_create ''tunnel'' [(''type'', var ''tunnel_type''), (''encap_src_ip'', ip_address (self
          ''lpb_ipv6'')), (''decap_ttl_mode'', var ''ttl_mode''), (''underlay_interface'', self ''urif_lpb''),
          (''overlay_interface'', self ''orif_lpb'')]),
        assign ''tunnel_term'' (api_create ''tunnel_term_table_entry'' [(''tunnel_type'', var ''tunnel_type''), (''vr_id'', self
          ''uvrf''), (''action_tunnel_id'', var ''tunnel''), (''type'', var ''term_type''), (''dst_ip'', ip_address (self
          ''lpb_ipv6''))]),
        assign ''tunnel_nhop'' (api_create ''next_hop'' [(''type'', num SAI_NEXT_HOP_TYPE_TUNNEL_ENCAP), (''tunnel_id'', var
          ''tunnel''), (''ip'', ip_address (self ''tun_ipv6'')), (''tunnel_mac'', self ''inner_dmac'')]),
        assign ''vm_route'' (struct ''sai_thrift_route_entry_t'' [(''vr_id'', self ''ovrf''), (''destination'', ip_prefix (add
          (self ''vm_ipv6'') (str ''/128'')))]),
        run (api_create_entry ''route_entry'' (var ''vm_route'') [(''next_hop_id'', var ''tunnel_nhop'')]),
        assign ''pkt'' (lib ''simple_udpv6_packet'' [] [(''eth_dst'', self ''customer_mac''), (''eth_src'', str ROUTER_MAC),
          (''ipv6_dst'', self ''customer_ipv6''), (''ipv6_src'', self ''vm_ipv6''), (''ipv6_hlim'', num 50)]),
        assign ''inner_pkt'' (lib ''simple_udpv6_packet'' [] [(''eth_dst'', str ROUTER_MAC), (''eth_src'', self ''inner_dmac''),
          (''ipv6_dst'', self ''customer_ipv6''), (''ipv6_src'', self ''vm_ipv6''), (''ipv6_hlim'', num 60)]),
        assign ''ipip_pkt'' (lib ''simple_ipv6ip_packet'' [] [(''eth_dst'', str ROUTER_MAC), (''eth_src'', self ''unbor_mac''),
          (''ipv6_dst'', self ''lpb_ipv6''), (''ipv6_src'', self ''tun_ipv6''), (''ipv6_hlim'', num 51), (''inner_frame'', lib
          ''get_layer'' [var ''inner_pkt'', str ''IPv6''] [])]),
        run (lib ''send_packet'' [self ''uport_dev'', var ''ipip_pkt''] []),
        run (lib ''verify_packet'' [var ''pkt'', self ''oport_dev''] []),
        assign ''ttl_mode'' (num SAI_TUNNEL_TTL_MODE_PIPE_MODEL),
        run (api_set ''tunnel'' (var ''tunnel'') [(''decap_ttl_mode'', var ''ttl_mode'')]),
        assign ''pkt_2'' (lib ''simple_udpv6_packet'' [] [(''eth_dst'', self ''customer_mac''), (''eth_src'', str ROUTER_MAC),
          (''ipv6_dst'', self ''customer_ipv6''), (''ipv6_src'', self ''vm_ipv6''), (''ipv6_hlim'', num 59)]),
        run (lib ''send_packet'' [self ''uport_dev'', var ''ipip_pkt''] []),
        run (lib ''verify_packet'' [var ''pkt_2'', self ''oport_dev''] []),
        assign ''ttl_mode'' (num SAI_TUNNEL_TTL_MODE_UNIFORM_MODEL),
        run (api_set ''tunnel'' (var ''tunnel'') [(''decap_ttl_mode'', var ''ttl_mode'')]),
        run (lib ''send_packet'' [self ''uport_dev'', var ''ipip_pkt''] []),
        run (lib ''verify_packet'' [var ''pkt'', self ''oport_dev''] [])] [
        run (api_remove ''route_entry'' (var ''vm_route'')),
        run (api_remove ''next_hop'' (var ''tunnel_nhop'')),
        run (api_remove ''tunnel_term_table_entry'' (var ''tunnel_term'')),
        run (api_remove ''tunnel'' (var ''tunnel''))]]"

definition TunnelTtlModeTest_runTest :: "'d stmt" where
  "TunnelTtlModeTest_runTest = block [
      run (invoke [] TunnelTtlModeTest_encapTtlUniformModeVxlanTest),
      run (invoke [] TunnelTtlModeTest_encapTtlUniformModeIpv4InIpv4Test),
      run (invoke [] TunnelTtlModeTest_encapTtlUniformModeIpv4InIpv6Test),
      run (invoke [] TunnelTtlModeTest_encapTtlUniformModeIpv6InIpv4Test),
      run (invoke [] TunnelTtlModeTest_encapTtlUniformModeIpv6InIpv6Test),
      run (invoke [] TunnelTtlModeTest_decapTtlUniformModeVxlanTest),
      run (invoke [] TunnelTtlModeTest_decapTtlUniformModeIpv4InIpv4Test),
      run (invoke [] TunnelTtlModeTest_decapTtlUniformModeIpv4InIpv6Test),
      run (invoke [] TunnelTtlModeTest_decapTtlUniformModeIpv6InIpv4Test),
      run (invoke [] TunnelTtlModeTest_decapTtlUniformModeIpv6InIpv6Test)]"

definition TunnelTtlModeTest_tearDown :: "'d stmt" where
  "TunnelTtlModeTest_tearDown = block [
      run (api_remove ''route_entry'' (self ''tunnel_route'')),
      run (api_remove ''route_entry'' (self ''tunnel_route_v6'')),
      run (api_remove ''neighbor_entry'' (self ''unbor'')),
      run (api_remove ''neighbor_entry'' (self ''unbor_v6'')),
      run (api_remove ''next_hop'' (self ''unhop'')),
      run (api_remove ''next_hop'' (self ''unhop_v6'')),
      run (api_remove ''route_entry'' (self ''customer_route'')),
      run (api_remove ''route_entry'' (self ''customer_route_v6'')),
      run (api_remove ''neighbor_entry'' (self ''onbor'')),
      run (api_remove ''neighbor_entry'' (self ''onbor_v6'')),
      run (api_remove ''next_hop'' (self ''onhop'')),
      run (api_remove ''next_hop'' (self ''onhop_v6'')),
      run (api_remove ''router_interface'' (self ''orif'')),
      run (api_remove ''router_interface'' (self ''urif'')),
      run (api_remove ''router_interface'' (self ''orif_lpb'')),
      run (api_remove ''router_interface'' (self ''urif_lpb'')),
      run (api_remove ''virtual_router'' (self ''ovrf'')),
      run (api_remove ''virtual_router'' (self ''uvrf'')),
      super_tearDown]"

definition TunnelQosModeTest_setUp :: "'d stmt" where
  "TunnelQosModeTest_setUp = block [
      super_setUp,
      set_self ''oport'' (self ''port24''),
      set_self ''oport_dev'' (self ''dev_port24''),
      set_self ''uport'' (self ''port25''),
      set_self ''uport_dev'' (self ''dev_port25''),
      set_self ''vni'' (num 1000),
      set_self ''tun_ip'' (str ''10.10.10.1''),
      set_self ''tun_ipv6'' (str ''2001:0db8::10:1''),
      set_self ''lpb_ip'' (str ''10.10.10.2''),
      set_self ''lpb_ipv6'' (str ''2001:0db8::10:10''),
      set_self ''vm_ip'' (str ''100.100.1.1''),
      set_self ''vm_ipv6'' (str ''2001:0db8::100:1''),
      set_self ''customer_ip'' (str ''100.100.2.1''),
      set_self ''customer_ipv6'' (str ''2001:0db8::100:2''),
      set_self ''inner_dmac'' (str ''00:11:11:11:11:11''),
      set_self ''customer_mac'' (str ''00:22:22:22:22:22''),
      set_self ''unbor_mac'' (str ''00:33:33:33:33:33''),
      set_self ''uvrf'' (api_create ''virtual_router'' []),
      set_self ''ovrf'' (api_create ''virtual_router'' []),
      set_self ''urif_lpb'' (api_create ''router_interface'' [(''type'', num SAI_ROUTER_INTERFACE_TYPE_LOOPBACK),
        (''virtual_router_id'', self ''uvrf'')]),
      set_self ''orif_lpb'' (api_create ''router_interface'' [(''type'', num SAI_ROUTER_INTERFACE_TYPE_LOOPBACK),
        (''virtual_router_id'', self ''ovrf'')]),
      set_self ''urif'' (api_create ''router_interface'' [(''type'', num SAI_ROUTER_INTERFACE_TYPE_PORT),
        (''virtual_router_id'', self ''uvrf''), (''port_id'', self ''uport'')]),
      set_self ''unhop'' (api_create ''next_hop'' [(''ip'', ip_address (self ''tun_ip'')), (''router_interface_id'', self
        ''urif''), (''type'', num SAI_NEXT_HOP_TYPE_IP)]),
      set_self ''unhop_v6'' (api_create ''next_hop'' [(''ip'', ip_address (self ''tun_ipv6'')), (''router_interface_id'', self
        ''urif''), (''type'', num SAI_NEXT_HOP_TYPE_IP)]),
      set_self ''unbor'' (struct ''sai_thrift_neighbor_entry_t'' [(''rif_id'', self ''urif''), (''ip_address'', ip_address (self
        ''tun_ip''))]),
      run (api_create_entry ''neighbor_entry'' (self ''unbor'') [(''dst_mac_address'', self ''unbor_mac''), (''no_host_route'',
        bool True)]),
      set_self ''unbor_v6'' (struct ''sai_thrift_neighbor_entry_t'' [(''rif_id'', self ''urif''), (''ip_address'', ip_address
        (self ''tun_ipv6''))]),
      run (api_create_entry ''neighbor_entry'' (self ''unbor_v6'') [(''dst_mac_address'', self ''unbor_mac''),
        (''no_host_route'', bool True)]),
      set_self ''tunnel_route'' (struct ''sai_thrift_route_entry_t'' [(''vr_id'', self ''uvrf''), (''destination'', ip_prefix
        (add (self ''tun_ip'') (str ''/32'')))]),
      run (api_create_entry ''route_entry'' (self ''tunnel_route'') [(''next_hop_id'', self ''unhop'')]),
      set_self ''tunnel_route_v6'' (struct ''sai_thrift_route_entry_t'' [(''vr_id'', self ''uvrf''), (''destination'', ip_prefix
        (add (self ''tun_ipv6'') (str ''/128'')))]),
      run (api_create_entry ''route_entry'' (self ''tunnel_route_v6'') [(''next_hop_id'', self ''unhop_v6'')]),
      set_self ''orif'' (api_create ''router_interface'' [(''type'', num SAI_ROUTER_INTERFACE_TYPE_PORT),
        (''virtual_router_id'', self ''ovrf''), (''port_id'', self ''oport'')]),
      set_self ''onhop'' (api_create ''next_hop'' [(''ip'', ip_address (self ''customer_ip'')), (''router_interface_id'', self
        ''orif''), (''type'', num SAI_NEXT_HOP_TYPE_IP)]),
      set_self ''onhop_v6'' (api_create ''next_hop'' [(''ip'', ip_address (self ''customer_ipv6'')), (''router_interface_id'',
        self ''orif''), (''type'', num SAI_NEXT_HOP_TYPE_IP)]),
      set_self ''onbor'' (struct ''sai_thrift_neighbor_entry_t'' [(''rif_id'', self ''orif''), (''ip_address'', ip_address (self
        ''customer_ip''))]),
      run (api_create_entry ''neighbor_entry'' (self ''onbor'') [(''dst_mac_address'', self ''customer_mac''),
        (''no_host_route'', bool True)]),
      set_self ''onbor_v6'' (struct ''sai_thrift_neighbor_entry_t'' [(''rif_id'', self ''orif''), (''ip_address'', ip_address
        (self ''customer_ipv6''))]),
      run (api_create_entry ''neighbor_entry'' (self ''onbor_v6'') [(''dst_mac_address'', self ''customer_mac''),
        (''no_host_route'', bool True)]),
      set_self ''customer_route'' (struct ''sai_thrift_route_entry_t'' [(''vr_id'', self ''ovrf''), (''destination'', ip_prefix
        (add (self ''customer_ip'') (str ''/32'')))]),
      run (api_create_entry ''route_entry'' (self ''customer_route'') [(''next_hop_id'', self ''onhop'')]),
      set_self ''customer_route_v6'' (struct ''sai_thrift_route_entry_t'' [(''vr_id'', self ''ovrf''), (''destination'',
        ip_prefix (add (self ''customer_ipv6'') (str ''/128'')))]),
      run (api_create_entry ''route_entry'' (self ''customer_route_v6'') [(''next_hop_id'', self ''onhop_v6'')])]"

definition TunnelQosModeTest_encapDscpPipeModeVxlanTest :: "'d stmt" where
  "TunnelQosModeTest_encapDscpPipeModeVxlanTest = block [
      assign ''orig_dscp_val'' (num 18),
      assign ''rewrite_dscp_val'' (num 20),
      assign ''map_tc'' (num 2),
      assign ''tunnel_dscp_val'' (num 10),
      assign ''dscp_mode'' (num SAI_TUNNEL_DSCP_MODE_PIPE_MODEL),
      assign ''ttl_mode'' (num SAI_TUNNEL_TTL_MODE_PIPE_MODEL),
      assign ''tunnel_type'' (num SAI_TUNNEL_TYPE_VXLAN),
      assign ''term_type'' (num SAI_TUNNEL_TERM_TABLE_ENTRY_TYPE_P2P),
      assign ''qos_map_exists'' (bool False),
      try_finally [
        assign ''encap_tunnel_map'' (api_create ''tunnel_map'' [(''type'', num SAI_TUNNEL_MAP_TYPE_VIRTUAL_ROUTER_ID_TO_VNI)]),
        assign ''decap_tunnel_map'' (api_create ''tunnel_map'' [(''type'', num SAI_TUNNEL_MAP_TYPE_VNI_TO_VIRTUAL_ROUTER_ID)]),
        assign ''encap_tunnel_map_entry'' (api_create ''tunnel_map_entry'' [(''tunnel_map'', var ''encap_tunnel_map''),
          (''tunnel_map_type'', num SAI_TUNNEL_MAP_TYPE_VIRTUAL_ROUTER_ID_TO_VNI), (''virtual_router_id_key'', self ''ovrf''),
          (''vni_id_value'', self ''vni'')]),
        assign ''decap_tunnel_map_entry'' (api_create ''tunnel_map_entry'' [(''tunnel_map'', var ''encap_tunnel_map''),
          (''tunnel_map_type'', num SAI_TUNNEL_MAP_TYPE_VNI_TO_VIRTUAL_ROUTER_ID), (''virtual_router_id_value'', self ''ovrf''),
          (''vni_id_key'', self ''vni'')]),
        assign ''encap_maps'' (struct ''sai_thrift_object_list_t'' [(''count'', num 1), (''idlist'', list_of [var
          ''encap_tunnel_map''])]),
        assign ''decap_maps'' (struct ''sai_thrift_object_list_t'' [(''count'', num 1), (''idlist'', list_of [var
          ''decap_tunnel_map''])]),
        assign ''tunnel'' (api_create ''tunnel'' [(''type'', var ''tunnel_type''), (''encap_src_ip'', ip_address (self
          ''lpb_ip'')), (''encap_mappers'', var ''encap_maps''), (''decap_mappers'', var ''decap_maps''), (''encap_ttl_mode'',
          var ''ttl_mode''), (''encap_dscp_mode'', var ''dscp_mode''), (''encap_dscp_val'', var ''tunnel_dscp_val''),
          (''underlay_interface'', self ''urif_lpb'')]),
        assign ''tunnel_term'' (api_create ''tunnel_term_table_entry'' [(''tunnel_type'', var ''tunnel_type''), (''vr_id'', self
          ''uvrf''), (''action_tunnel_id'', var ''tunnel''), (''type'', var ''term_type''), (''dst_ip'', ip_address (self
          ''lpb_ip''))]),
        assign ''tunnel_nhop'' (api_create ''next_hop'' [(''type'', num SAI_NEXT_HOP_TYPE_TUNNEL_ENCAP), (''tunnel_id'', var
          ''tunnel''), (''ip'', ip_address (self ''tun_ip'')), (''tunnel_mac'', self ''inner_dmac''), (''tunnel_vni'', self
          ''vni'')]),
        assign ''vm_route'' (struct ''sai_thrift_route_entry_t'' [(''vr_id'', self ''ovrf''), (''destination'', ip_prefix (add
          (self ''vm_ip'') (str ''/32'')))]),
        run (api_create_entry ''route_entry'' (var ''vm_route'') [(''next_hop_id'', var ''tunnel_nhop'')]),
        assign ''pkt'' (lib ''simple_udp_packet'' [] [(''eth_dst'', str ROUTER_MAC), (''eth_src'', self ''customer_mac''),
          (''ip_dst'', self ''vm_ip''), (''ip_src'', self ''customer_ip''), (''ip_id'', num 108), (''ip_dscp'', var
          ''orig_dscp_val''), (''ip_ttl'', num 64)]),
        assign ''inner_pkt'' (lib ''simple_udp_packet'' [] [(''eth_dst'', self ''inner_dmac''), (''eth_src'', str ROUTER_MAC),
          (''ip_dst'', self ''vm_ip''), (''ip_src'', self ''customer_ip''), (''ip_id'', num 108), (''ip_dscp'', var
          ''orig_dscp_val''), (''ip_ttl'', num 63)]),
        assign ''vxlan_pkt'' (lib ''Mask'' [lib ''simple_vxlan_packet'' [] [(''eth_dst'', self ''unbor_mac''), (''eth_src'', str
          ROUTER_MAC), (''ip_dst'', self ''tun_ip''), (''ip_src'', self ''lpb_ip''), (''ip_id'', num 0), (''ip_dscp'', var
          ''tunnel_dscp_val''), (''ip_ttl'', num 64), (''ip_flags'', num 2), (''with_udp_chksum'', bool False), (''vxlan_vni'',
          self ''vni''), (''inner_frame'', var ''inner_pkt'')]] []),
        assign ''vxlan_pkt'' (lib ''.set_do_not_care_scapy'' [var ''vxlan_pkt'', str ''UDP'', str ''sport''] []),
        run (lib ''send_packet'' [self ''oport_dev'', var ''pkt''] []),
        run (lib ''verify_packet'' [var ''vxlan_pkt'', self ''uport_dev''] []),
        assign ''tunnel_dscp_val'' (num 12),
        run (api_set ''tunnel'' (var ''tunnel'') [(''encap_dscp_val'', var ''tunnel_dscp_val'')]),
        assign ''vxlan_pkt'' (lib ''Mask'' [lib ''simple_vxlan_packet'' [] [(''eth_dst'', self ''unbor_mac''), (''eth_src'', str
          ROUTER_MAC), (''ip_dst'', self ''tun_ip''), (''ip_src'', self ''lpb_ip''), (''ip_id'', num 0), (''ip_dscp'', var
          ''tunnel_dscp_val''), (''ip_ttl'', num 64), (''ip_flags'', num 2), (''with_udp_chksum'', bool False), (''vxlan_vni'',
          self ''vni''), (''inner_frame'', var ''inner_pkt'')]] []),
        assign ''vxlan_pkt'' (lib ''.set_do_not_care_scapy'' [var ''vxlan_pkt'', str ''UDP'', str ''sport''] []),
        run (lib ''send_packet'' [self ''oport_dev'', var ''pkt''] []),
        run (lib ''verify_packet'' [var ''vxlan_pkt'', self ''uport_dev''] []),
        assign ''dscp_to_tc_map_list'' (struct ''sai_thrift_qos_map_list_t'' [(''count'', num 1), (''maplist'', list_of [struct
          ''sai_thrift_qos_map_t'' [(''key'', struct ''sai_thrift_qos_map_params_t'' [(''dscp'', var ''orig_dscp_val'')]),
          (''value'', struct ''sai_thrift_qos_map_params_t'' [(''tc'', var ''map_tc'')])]])]),
        assign ''dscp_to_tc_map_id'' (api_create ''qos_map'' [(''type'', num SAI_QOS_MAP_TYPE_DSCP_TO_TC),
          (''map_to_value_list'', var ''dscp_to_tc_map_list'')]),
        run (api_set ''port'' (self ''oport'') [(''qos_dscp_to_tc_map'', var ''dscp_to_tc_map_id'')]),
        assign ''tc_to_dscp_map_list'' (struct ''sai_thrift_qos_map_list_t'' [(''count'', num 1), (''maplist'', list_of [struct
          ''sai_thrift_qos_map_t'' [(''key'', struct ''sai_thrift_qos_map_params_t'' [(''tc'', var ''map_tc''), (''color'', num
          SAI_PACKET_COLOR_GREEN)]), (''value'', struct ''sai_thrift_qos_map_params_t'' [(''dscp'', var
          ''rewrite_dscp_val'')])]])]),
        assign ''tc_to_dscp_map_id'' (api_create ''qos_map'' [(''type'', num SAI_QOS_MAP_TYPE_TC_AND_COLOR_TO_DSCP),
          (''map_to_value_list'', var ''tc_to_dscp_map_list'')]),
        run (api_set ''port'' (self ''uport'') [(''qos_tc_and_color_to_dscp_map'', var ''tc_to_dscp_map_id'')]),
        assign ''qos_map_exists'' (bool True),
        assign ''pkt'' (lib ''simple_udp_packet'' [] [(''eth_dst'', str ROUTER_MAC), (''eth_src'', self ''customer_mac''),
          (''ip_dst'', self ''vm_ip''), (''ip_src'', self ''customer_ip''), (''ip_id'', num 108), (''ip_dscp'', var
          ''orig_dscp_val''), (''ip_ttl'', num 64)]),
        assign ''inner_pkt'' (lib ''simple_udp_packet'' [] [(''eth_dst'', self ''inner_dmac''), (''eth_src'', str ROUTER_MAC),
          (''ip_dst'', self ''vm_ip''), (''ip_src'', self ''customer_ip''), (''ip_id'', num 108), (''ip_dscp'', var
          ''rewrite_dscp_val''), (''ip_ttl'', num 63)]),
        assign ''vxlan_pkt'' (lib ''Mask'' [lib ''simple_vxlan_packet'' [] [(''eth_dst'', self ''unbor_mac''), (''eth_src'', str
          ROUTER_MAC), (''ip_dst'', self ''tun_ip''), (''ip_src'', self ''lpb_ip''), (''ip_id'', num 0), (''ip_dscp'', var
          ''tunnel_dscp_val''), (''ip_ttl'', num 64), (''ip_flags'', num 2), (''with_udp_chksum'', bool False), (''vxlan_vni'',
          self ''vni''), (''inner_frame'', var ''inner_pkt'')]] []),
        assign ''vxlan_pkt'' (lib ''.set_do_not_care_scapy'' [var ''vxlan_pkt'', str ''UDP'', str ''sport''] []),
        run (lib ''send_packet'' [self ''oport_dev'', var ''pkt''] []),
        run (lib ''verify_packet'' [var ''vxlan_pkt'', self ''uport_dev''] [])] [
        if_else (var ''qos_map_exists'') [
          run (api_set ''port'' (self ''oport'') [(''qos_dscp_to_tc_map'', as_int (num SAI_NULL_OBJECT_ID))]),
          run (api_remove ''qos_map'' (var ''dscp_to_tc_map_id'')),
          run (api_set ''port'' (self ''uport'') [(''qos_tc_and_color_to_dscp_map'', as_int (num SAI_NULL_OBJECT_ID))]),
          run (api_remove ''qos_map'' (var ''tc_to_dscp_map_id''))] [],
        run (api_remove ''route_entry'' (var ''vm_route'')),
        run (api_remove ''next_hop'' (var ''tunnel_nhop'')),
        run (api_remove ''tunnel_term_table_entry'' (var ''tunnel_term'')),
        run (api_remove ''tunnel'' (var ''tunnel'')),
        run (api_remove ''tunnel_map_entry'' (var ''decap_tunnel_map_entry'')),
        run (api_remove ''tunnel_map_entry'' (var ''encap_tunnel_map_entry'')),
        run (api_remove ''tunnel_map'' (var ''decap_tunnel_map'')),
        run (api_remove ''tunnel_map'' (var ''encap_tunnel_map''))]]"

definition TunnelQosModeTest_encapDscpPipeModeIpInIpTest :: "'d stmt" where
  "TunnelQosModeTest_encapDscpPipeModeIpInIpTest = block [
      assign ''orig_dscp_val'' (num 18),
      assign ''rewrite_dscp_val'' (num 20),
      assign ''map_tc'' (num 2),
      assign ''tunnel_dscp_val'' (num 10),
      assign ''dscp_mode'' (num SAI_TUNNEL_DSCP_MODE_PIPE_MODEL),
      assign ''ttl_mode'' (num SAI_TUNNEL_TTL_MODE_PIPE_MODEL),
      assign ''tunnel_type'' (num SAI_TUNNEL_TYPE_IPINIP),
      assign ''term_type'' (num SAI_TUNNEL_TERM_TABLE_ENTRY_TYPE_P2P),
      assign ''qos_map_exists'' (bool False),
      try_finally [
        assign ''tunnel'' (api_create ''tunnel'' [(''type'', var ''tunnel_type''), (''encap_src_ip'', ip_address (self
          ''lpb_ip'')), (''encap_ttl_mode'', var ''ttl_mode''), (''encap_dscp_mode'', var ''dscp_mode''), (''encap_dscp_val'',
          var ''tunnel_dscp_val''), (''underlay_interface'', self ''urif_lpb''), (''overlay_interface'', self ''orif_lpb'')]),
        assign ''tunnel_term'' (api_create ''tunnel_term_table_entry'' [(''tunnel_type'', var ''tunnel_type''), (''vr_id'', self
          ''uvrf''), (''action_tunnel_id'', var ''tunnel''), (''type'', var ''term_type''), (''dst_ip'', ip_address (self
          ''lpb_ip'')), (''src_ip'', ip_address (self ''tun_ip''))]),
        assign ''tunnel_nhop'' (api_create ''next_hop'' [(''type'', num SAI_NEXT_HOP_TYPE_TUNNEL_ENCAP), (''tunnel_id'', var
          ''tunnel''), (''ip'', ip_address (self ''tun_ip'')), (''tunnel_mac'', self ''inner_dmac'')]),
        assign ''vm_route'' (struct ''sai_thrift_route_entry_t'' [(''vr_id'', self ''ovrf''), (''destination'', ip_prefix (add
          (self ''vm_ip'') (str ''/32'')))]),
        run (api_create_entry ''route_entry'' (var ''vm_route'') [(''next_hop_id'', var ''tunnel_nhop'')]),
        assign ''pkt'' (lib ''simple_udp_packet'' [] [(''eth_dst'', str ROUTER_MAC), (''eth_src'', self ''customer_mac''),
          (''ip_dst'', self ''vm_ip''), (''ip_src'', self ''customer_ip''), (''ip_id'', num 108), (''ip_dscp'', var
          ''orig_dscp_val''), (''ip_ttl'', num 64)]),
        assign ''inner_pkt'' (lib ''simple_udp_packet'' [] [(''eth_dst'', self ''inner_dmac''), (''eth_src'', str ROUTER_MAC),
          (''ip_dst'', self ''vm_ip''), (''ip_src'', self ''customer_ip''), (''ip_id'', num 108), (''ip_dscp'', var
          ''orig_dscp_val''), (''ip_ttl'', num 63)]),
        assign ''ipip_pkt'' (lib ''simple_ipv4ip_packet'' [] [(''eth_dst'', self ''unbor_mac''), (''eth_src'', str ROUTER_MAC),
          (''ip_id'', num 0), (''ip_dst'', self ''tun_ip''), (''ip_src'', self ''lpb_ip''), (''ip_dscp'', var
          ''tunnel_dscp_val''), (''ip_ttl'', num 64), (''inner_frame'', lib ''get_layer'' [var ''inner_pkt'', str ''IP''] [])]),
        run (lib ''send_packet'' [self ''oport_dev'', var ''pkt''] []),
        run (lib ''verify_packet'' [var ''ipip_pkt'', self ''uport_dev''] []),
        assign ''dscp_to_tc_map_list'' (struct ''sai_thrift_qos_map_list_t'' [(''count'', num 1), (''maplist'', list_of [struct
          ''sai_thrift_qos_map_t'' [(''key'', struct ''sai_thrift_qos_map_params_t'' [(''dscp'', var ''orig_dscp_val'')]),
          (''value'', struct ''sai_thrift_qos_map_params_t'' [(''tc'', var ''map_tc'')])]])]),
        assign ''dscp_to_tc_map_id'' (api_create ''qos_map'' [(''type'', num SAI_QOS_MAP_TYPE_DSCP_TO_TC),
          (''map_to_value_list'', var ''dscp_to_tc_map_list'')]),
        run (api_set ''port'' (self ''oport'') [(''qos_dscp_to_tc_map'', var ''dscp_to_tc_map_id'')]),
        assign ''tc_to_dscp_map_list'' (struct ''sai_thrift_qos_map_list_t'' [(''count'', num 1), (''maplist'', list_of [struct
          ''sai_thrift_qos_map_t'' [(''key'', struct ''sai_thrift_qos_map_params_t'' [(''tc'', var ''map_tc''), (''color'', num
          SAI_PACKET_COLOR_GREEN)]), (''value'', struct ''sai_thrift_qos_map_params_t'' [(''dscp'', var
          ''rewrite_dscp_val'')])]])]),
        assign ''tc_to_dscp_map_id'' (api_create ''qos_map'' [(''type'', num SAI_QOS_MAP_TYPE_TC_AND_COLOR_TO_DSCP),
          (''map_to_value_list'', var ''tc_to_dscp_map_list'')]),
        run (api_set ''port'' (self ''uport'') [(''qos_tc_and_color_to_dscp_map'', var ''tc_to_dscp_map_id'')]),
        assign ''qos_map_exists'' (bool True),
        assign ''pkt'' (lib ''simple_udp_packet'' [] [(''eth_dst'', str ROUTER_MAC), (''eth_src'', self ''customer_mac''),
          (''ip_dst'', self ''vm_ip''), (''ip_src'', self ''customer_ip''), (''ip_id'', num 108), (''ip_dscp'', var
          ''orig_dscp_val''), (''ip_ttl'', num 64)]),
        assign ''inner_pkt'' (lib ''simple_udp_packet'' [] [(''eth_dst'', self ''inner_dmac''), (''eth_src'', str ROUTER_MAC),
          (''ip_dst'', self ''vm_ip''), (''ip_src'', self ''customer_ip''), (''ip_id'', num 108), (''ip_dscp'', var
          ''rewrite_dscp_val''), (''ip_ttl'', num 63)]),
        assign ''ipip_pkt'' (lib ''simple_ipv4ip_packet'' [] [(''eth_dst'', self ''unbor_mac''), (''eth_src'', str ROUTER_MAC),
          (''ip_id'', num 0), (''ip_dst'', self ''tun_ip''), (''ip_src'', self ''lpb_ip''), (''ip_dscp'', var
          ''tunnel_dscp_val''), (''ip_ttl'', num 64), (''inner_frame'', lib ''get_layer'' [var ''inner_pkt'', str ''IP''] [])]),
        run (lib ''send_packet'' [self ''oport_dev'', var ''pkt''] []),
        run (lib ''verify_packet'' [var ''ipip_pkt'', self ''uport_dev''] [])] [
        if_else (var ''qos_map_exists'') [
          run (api_set ''port'' (self ''oport'') [(''qos_dscp_to_tc_map'', as_int (num SAI_NULL_OBJECT_ID))]),
          run (api_remove ''qos_map'' (var ''dscp_to_tc_map_id'')),
          run (api_set ''port'' (self ''uport'') [(''qos_tc_and_color_to_dscp_map'', as_int (num SAI_NULL_OBJECT_ID))]),
          run (api_remove ''qos_map'' (var ''tc_to_dscp_map_id''))] [],
        run (api_remove ''route_entry'' (var ''vm_route'')),
        run (api_remove ''next_hop'' (var ''tunnel_nhop'')),
        run (api_remove ''tunnel_term_table_entry'' (var ''tunnel_term'')),
        run (api_remove ''tunnel'' (var ''tunnel''))]]"

definition TunnelQosModeTest_encapDscpPipeModeIpv6InIpv6Test :: "'d stmt" where
  "TunnelQosModeTest_encapDscpPipeModeIpv6InIpv6Test = block [
      assign ''orig_dscp_val'' (num 18),
      assign ''rewrite_dscp_val'' (num 20),
      assign ''map_tc'' (num 2),
      assign ''tunnel_dscp_val'' (num 10),
      assign ''dscp_mode'' (num SAI_TUNNEL_DSCP_MODE_PIPE_MODEL),
      assign ''ttl_mode'' (num SAI_TUNNEL_TTL_MODE_PIPE_MODEL),
      assign ''tunnel_type'' (num SAI_TUNNEL_TYPE_IPINIP),
      assign ''term_type'' (num SAI_TUNNEL_TERM_TABLE_ENTRY_TYPE_P2P),
      assign ''qos_map_exists'' (bool False),
      try_finally [
        assign ''tunnel'' (api_create ''tunnel'' [(''type'', var ''tunnel_type''), (''encap_src_ip'', ip_address (self
          ''lpb_ipv6'')), (''encap_ttl_mode'', var ''ttl_mode''), (''encap_dscp_mode'', var ''dscp_mode''), (''encap_dscp_val'',
          var ''tunnel_dscp_val''), (''underlay_interface'', self ''urif_lpb''), (''overlay_interface'', self ''orif_lpb'')]),
        assign ''tunnel_term'' (api_create ''tunnel_term_table_entry'' [(''tunnel_type'', var ''tunnel_type''), (''vr_id'', self
          ''uvrf''), (''action_tunnel_id'', var ''tunnel''), (''type'', var ''term_type''), (''dst_ip'', ip_address (self
          ''lpb_ipv6'')), (''src_ip'', ip_address (self ''tun_ipv6''))]),
        assign ''tunnel_nhop'' (api_create ''next_hop'' [(''type'', num SAI_NEXT_HOP_TYPE_TUNNEL_ENCAP), (''tunnel_id'', var
          ''tunnel''), (''ip'', ip_address (self ''tun_ipv6'')), (''tunnel_mac'', self ''inner_dmac'')]),
        assign ''vm_route'' (struct ''sai_thrift_route_entry_t'' [(''vr_id'', self ''ovrf''), (''destination'', ip_prefix (add
          (self ''vm_ipv6'') (str ''/128'')))]),
        run (api_create_entry ''route_entry'' (var ''vm_route'') [(''next_hop_id'', var ''tunnel_nhop'')]),
        assign ''pkt'' (lib ''simple_udpv6_packet'' [] [(''eth_dst'', str ROUTER_MAC), (''eth_src'', self ''customer_mac''),
          (''ipv6_dst'', self ''vm_ipv6''), (''ipv6_src'', self ''customer_ipv6''), (''ipv6_dscp'', var ''orig_dscp_val''),
          (''ipv6_hlim'', num 64)]),
        assign ''inner_pkt'' (lib ''simple_udpv6_packet'' [] [(''eth_dst'', self ''inner_dmac''), (''eth_src'', str ROUTER_MAC),
          (''ipv6_dst'', self ''vm_ipv6''), (''ipv6_src'', self ''customer_ipv6''), (''ipv6_dscp'', var ''orig_dscp_val''),
          (''ipv6_hlim'', num 63)]),
        assign ''ipip_pkt'' (lib ''simple_ipv6ip_packet'' [] [(''eth_dst'', self ''unbor_mac''), (''eth_src'', str ROUTER_MAC),
          (''ipv6_src'', self ''lpb_ipv6''), (''ipv6_dst'', self ''tun_ipv6''), (''ipv6_dscp'', var ''tunnel_dscp_val''),
          (''ipv6_hlim'', num 64), (''inner_frame'', lib ''get_layer'' [var ''inner_pkt'', str ''IPv6''] [])]),
        run (lib ''send_packet'' [self ''oport_dev'', var ''pkt''] []),
        run (lib ''verify_packet'' [var ''ipip_pkt'', self ''uport_dev''] []),
        assign ''dscp_to_tc_map_list'' (struct ''sai_thrift_qos_map_list_t'' [(''count'', num 1), (''maplist'', list_of [struct
          ''sai_thrift_qos_map_t'' [(''key'', struct ''sai_thrift_qos_map_params_t'' [(''dscp'', var ''orig_dscp_val'')]),
          (''value'', struct ''sai_thrift_qos_map_params_t'' [(''tc'', var ''map_tc'')])]])]),
        assign ''dscp_to_tc_map_id'' (api_create ''qos_map'' [(''type'', num SAI_QOS_MAP_TYPE_DSCP_TO_TC),
          (''map_to_value_list'', var ''dscp_to_tc_map_list'')]),
        run (api_set ''port'' (self ''oport'') [(''qos_dscp_to_tc_map'', var ''dscp_to_tc_map_id'')]),
        assign ''tc_to_dscp_map_list'' (struct ''sai_thrift_qos_map_list_t'' [(''count'', num 1), (''maplist'', list_of [struct
          ''sai_thrift_qos_map_t'' [(''key'', struct ''sai_thrift_qos_map_params_t'' [(''tc'', var ''map_tc''), (''color'', num
          SAI_PACKET_COLOR_GREEN)]), (''value'', struct ''sai_thrift_qos_map_params_t'' [(''dscp'', var
          ''rewrite_dscp_val'')])]])]),
        assign ''tc_to_dscp_map_id'' (api_create ''qos_map'' [(''type'', num SAI_QOS_MAP_TYPE_TC_AND_COLOR_TO_DSCP),
          (''map_to_value_list'', var ''tc_to_dscp_map_list'')]),
        run (api_set ''port'' (self ''uport'') [(''qos_tc_and_color_to_dscp_map'', var ''tc_to_dscp_map_id'')]),
        assign ''qos_map_exists'' (bool True),
        assign ''pkt'' (lib ''simple_udpv6_packet'' [] [(''eth_dst'', str ROUTER_MAC), (''eth_src'', self ''customer_mac''),
          (''ipv6_dst'', self ''vm_ipv6''), (''ipv6_src'', self ''customer_ipv6''), (''ipv6_dscp'', var ''orig_dscp_val''),
          (''ipv6_hlim'', num 64)]),
        assign ''inner_pkt'' (lib ''simple_udpv6_packet'' [] [(''eth_dst'', self ''inner_dmac''), (''eth_src'', str ROUTER_MAC),
          (''ipv6_dst'', self ''vm_ipv6''), (''ipv6_src'', self ''customer_ipv6''), (''ipv6_dscp'', var ''rewrite_dscp_val''),
          (''ipv6_hlim'', num 63)]),
        assign ''ipip_pkt'' (lib ''simple_ipv6ip_packet'' [] [(''eth_dst'', self ''unbor_mac''), (''eth_src'', str ROUTER_MAC),
          (''ipv6_src'', self ''lpb_ipv6''), (''ipv6_dst'', self ''tun_ipv6''), (''ipv6_dscp'', var ''tunnel_dscp_val''),
          (''ipv6_hlim'', num 64), (''inner_frame'', lib ''get_layer'' [var ''inner_pkt'', str ''IPv6''] [])]),
        run (lib ''send_packet'' [self ''oport_dev'', var ''pkt''] []),
        run (lib ''verify_packet'' [var ''ipip_pkt'', self ''uport_dev''] [])] [
        if_else (var ''qos_map_exists'') [
          run (api_set ''port'' (self ''oport'') [(''qos_dscp_to_tc_map'', as_int (num SAI_NULL_OBJECT_ID))]),
          run (api_remove ''qos_map'' (var ''dscp_to_tc_map_id'')),
          run (api_set ''port'' (self ''uport'') [(''qos_tc_and_color_to_dscp_map'', as_int (num SAI_NULL_OBJECT_ID))]),
          run (api_remove ''qos_map'' (var ''tc_to_dscp_map_id''))] [],
        run (api_remove ''route_entry'' (var ''vm_route'')),
        run (api_remove ''next_hop'' (var ''tunnel_nhop'')),
        run (api_remove ''tunnel_term_table_entry'' (var ''tunnel_term'')),
        run (api_remove ''tunnel'' (var ''tunnel''))]]"

definition TunnelQosModeTest_decapDscpPipeModeVxlanTest :: "'d stmt" where
  "TunnelQosModeTest_decapDscpPipeModeVxlanTest = block [
      assign ''tunnel_dscp_val'' (num 10),
      assign ''inner_dscp_val'' (num 18),
      assign ''rewrite_dscp_val'' (num 20),
      assign ''map_tc'' (num 2),
      assign ''dscp_mode'' (num SAI_TUNNEL_DSCP_MODE_PIPE_MODEL),
      assign ''ttl_mode'' (num SAI_TUNNEL_TTL_MODE_PIPE_MODEL),
      assign ''tunnel_type'' (num SAI_TUNNEL_TYPE_VXLAN),
      assign ''term_type'' (num SAI_TUNNEL_TERM_TABLE_ENTRY_TYPE_P2P),
      assign ''qos_map_exists'' (bool False),
      try_finally [
        assign ''encap_tunnel_map'' (api_create ''tunnel_map'' [(''type'', num SAI_TUNNEL_MAP_TYPE_VIRTUAL_ROUTER_ID_TO_VNI)]),
        assign ''decap_tunnel_map'' (api_create ''tunnel_map'' [(''type'', num SAI_TUNNEL_MAP_TYPE_VNI_TO_VIRTUAL_ROUTER_ID)]),
        assign ''encap_tunnel_map_entry'' (api_create ''tunnel_map_entry'' [(''tunnel_map'', var ''encap_tunnel_map''),
          (''tunnel_map_type'', num SAI_TUNNEL_MAP_TYPE_VIRTUAL_ROUTER_ID_TO_VNI), (''virtual_router_id_key'', self ''ovrf''),
          (''vni_id_value'', self ''vni'')]),
        assign ''decap_tunnel_map_entry'' (api_create ''tunnel_map_entry'' [(''tunnel_map'', var ''encap_tunnel_map''),
          (''tunnel_map_type'', num SAI_TUNNEL_MAP_TYPE_VNI_TO_VIRTUAL_ROUTER_ID), (''virtual_router_id_value'', self ''ovrf''),
          (''vni_id_key'', self ''vni'')]),
        assign ''encap_maps'' (struct ''sai_thrift_object_list_t'' [(''count'', num 1), (''idlist'', list_of [var
          ''encap_tunnel_map''])]),
        assign ''decap_maps'' (struct ''sai_thrift_object_list_t'' [(''count'', num 1), (''idlist'', list_of [var
          ''decap_tunnel_map''])]),
        assign ''tunnel'' (api_create ''tunnel'' [(''type'', var ''tunnel_type''), (''encap_src_ip'', ip_address (self
          ''lpb_ip'')), (''encap_mappers'', var ''encap_maps''), (''decap_mappers'', var ''decap_maps''), (''decap_ttl_mode'',
          var ''ttl_mode''), (''decap_dscp_mode'', var ''dscp_mode''), (''underlay_interface'', self ''urif_lpb'')]),
        assign ''tunnel_term'' (api_create ''tunnel_term_table_entry'' [(''tunnel_type'', var ''tunnel_type''), (''vr_id'', self
          ''uvrf''), (''action_tunnel_id'', var ''tunnel''), (''type'', var ''term_type''), (''dst_ip'', ip_address (self
          ''lpb_ip''))]),
        assign ''tunnel_nhop'' (api_create ''next_hop'' [(''type'', num SAI_NEXT_HOP_TYPE_TUNNEL_ENCAP), (''tunnel_id'', var
          ''tunnel''), (''ip'', ip_address (self ''tun_ip'')), (''tunnel_mac'', self ''inner_dmac''), (''tunnel_vni'', self
          ''vni'')]),
        assign ''vm_route'' (struct ''sai_thrift_route_entry_t'' [(''vr_id'', self ''ovrf''), (''destination'', ip_prefix (add
          (self ''vm_ip'') (str ''/32'')))]),
        run (api_create_entry ''route_entry'' (var ''vm_route'') [(''next_hop_id'', var ''tunnel_nhop'')]),
        assign ''pkt'' (lib ''simple_udp_packet'' [] [(''eth_dst'', self ''customer_mac''), (''eth_src'', str ROUTER_MAC),
          (''ip_dst'', self ''customer_ip''), (''ip_src'', self ''vm_ip''), (''ip_id'', num 108), (''ip_dscp'', var
          ''inner_dscp_val''), (''ip_ttl'', num 62)]),
        assign ''inner_pkt'' (lib ''simple_udp_packet'' [] [(''eth_dst'', str ROUTER_MAC), (''eth_src'', str ROUTER_MAC),
          (''ip_dst'', self ''customer_ip''), (''ip_src'', self ''vm_ip''), (''ip_id'', num 108), (''ip_dscp'', var
          ''inner_dscp_val''), (''ip_ttl'', num 63)]),
        assign ''vxlan_pkt'' (lib ''simple_vxlan_packet'' [] [(''eth_dst'', str ROUTER_MAC), (''eth_src'', self ''unbor_mac''),
          (''ip_dst'', self ''lpb_ip''), (''ip_src'', self ''tun_ip''), (''ip_id'', num 0), (''ip_dscp'', var
          ''tunnel_dscp_val''), (''ip_ttl'', num 64), (''ip_flags'', num 2), (''udp_sport'', num 11638), (''with_udp_chksum'',
          bool False), (''vxlan_vni'', self ''vni''), (''inner_frame'', var ''inner_pkt'')]),
        run (lib ''send_packet'' [self ''uport_dev'', var ''vxlan_pkt''] []),
        run (lib ''verify_packet'' [var ''pkt'', self ''oport_dev''] []),
        assign ''dscp_to_tc_map_list'' (struct ''sai_thrift_qos_map_list_t'' [(''count'', num 1), (''maplist'', list_of [struct
          ''sai_thrift_qos_map_t'' [(''key'', struct ''sai_thrift_qos_map_params_t'' [(''dscp'', var ''inner_dscp_val'')]),
          (''value'', struct ''sai_thrift_qos_map_params_t'' [(''tc'', var ''map_tc'')])]])]),
        assign ''dscp_to_tc_map_id'' (api_create ''qos_map'' [(''type'', num SAI_QOS_MAP_TYPE_DSCP_TO_TC),
          (''map_to_value_list'', var ''dscp_to_tc_map_list'')]),
        run (api_set ''port'' (self ''uport'') [(''qos_dscp_to_tc_map'', var ''dscp_to_tc_map_id'')]),
        assign ''tc_to_dscp_map_list'' (struct ''sai_thrift_qos_map_list_t'' [(''count'', num 1), (''maplist'', list_of [struct
          ''sai_thrift_qos_map_t'' [(''key'', struct ''sai_thrift_qos_map_params_t'' [(''tc'', var ''map_tc''), (''color'', num
          SAI_PACKET_COLOR_GREEN)]), (''value'', struct ''sai_thrift_qos_map_params_t'' [(''dscp'', var
          ''rewrite_dscp_val'')])]])]),
        assign ''tc_to_dscp_map_id'' (api_create ''qos_map'' [(''type'', num SAI_QOS_MAP_TYPE_TC_AND_COLOR_TO_DSCP),
          (''map_to_value_list'', var ''tc_to_dscp_map_list'')]),
        run (api_set ''port'' (self ''oport'') [(''qos_tc_and_color_to_dscp_map'', var ''tc_to_dscp_map_id'')]),
        assign ''qos_map_exists'' (bool True),
        assign ''pkt'' (lib ''simple_udp_packet'' [] [(''eth_dst'', self ''customer_mac''), (''eth_src'', str ROUTER_MAC),
          (''ip_dst'', self ''customer_ip''), (''ip_src'', self ''vm_ip''), (''ip_id'', num 108), (''ip_dscp'', var
          ''rewrite_dscp_val''), (''ip_ttl'', num 62)]),
        assign ''inner_pkt'' (lib ''simple_udp_packet'' [] [(''eth_dst'', str ROUTER_MAC), (''eth_src'', str ROUTER_MAC),
          (''ip_dst'', self ''customer_ip''), (''ip_src'', self ''vm_ip''), (''ip_id'', num 108), (''ip_dscp'', var
          ''inner_dscp_val''), (''ip_ttl'', num 63)]),
        assign ''vxlan_pkt'' (lib ''simple_vxlan_packet'' [] [(''eth_dst'', str ROUTER_MAC), (''eth_src'', self ''unbor_mac''),
          (''ip_dst'', self ''lpb_ip''), (''ip_src'', self ''tun_ip''), (''ip_id'', num 0), (''ip_dscp'', var
          ''tunnel_dscp_val''), (''ip_ttl'', num 64), (''ip_flags'', num 2), (''udp_sport'', num 11638), (''with_udp_chksum'',
          bool False), (''vxlan_vni'', self ''vni''), (''inner_frame'', var ''inner_pkt'')]),
        run (lib ''send_packet'' [self ''uport_dev'', var ''vxlan_pkt''] []),
        run (lib ''verify_packet'' [var ''pkt'', self ''oport_dev''] [])] [
        if_else (var ''qos_map_exists'') [
          run (api_set ''port'' (self ''uport'') [(''qos_dscp_to_tc_map'', as_int (num SAI_NULL_OBJECT_ID))]),
          run (api_remove ''qos_map'' (var ''dscp_to_tc_map_id'')),
          run (api_set ''port'' (self ''oport'') [(''qos_tc_and_color_to_dscp_map'', as_int (num SAI_NULL_OBJECT_ID))]),
          run (api_remove ''qos_map'' (var ''tc_to_dscp_map_id''))] [],
        run (api_remove ''route_entry'' (var ''vm_route'')),
        run (api_remove ''next_hop'' (var ''tunnel_nhop'')),
        run (api_remove ''tunnel_term_table_entry'' (var ''tunnel_term'')),
        run (api_remove ''tunnel'' (var ''tunnel'')),
        run (api_remove ''tunnel_map_entry'' (var ''decap_tunnel_map_entry'')),
        run (api_remove ''tunnel_map_entry'' (var ''encap_tunnel_map_entry'')),
        run (api_remove ''tunnel_map'' (var ''decap_tunnel_map'')),
        run (api_remove ''tunnel_map'' (var ''encap_tunnel_map''))]]"

definition TunnelQosModeTest_decapDscpPipeModeIpInIpTest :: "'d stmt" where
  "TunnelQosModeTest_decapDscpPipeModeIpInIpTest = block [
      assign ''tunnel_dscp_val'' (num 10),
      assign ''inner_dscp_val'' (num 18),
      assign ''rewrite_dscp_val'' (num 20),
      assign ''map_tc'' (num 2),
      assign ''dscp_mode'' (num SAI_TUNNEL_DSCP_MODE_PIPE_MODEL),
      assign ''ttl_mode'' (num SAI_TUNNEL_TTL_MODE_PIPE_MODEL),
      assign ''tunnel_type'' (num SAI_TUNNEL_TYPE_IPINIP),
      assign ''term_type'' (num SAI_TUNNEL_TERM_TABLE_ENTRY_TYPE_P2P),
      assign ''qos_map_exists'' (bool False),
      try_finally [
        assign ''tunnel'' (api_create ''tunnel'' [(''type'', var ''tunnel_type''), (''encap_src_ip'', ip_address (self
          ''lpb_ip'')), (''decap_ttl_mode'', var ''ttl_mode''), (''decap_dscp_mode'', var ''dscp_mode''),
          (''underlay_interface'', self ''urif_lpb''), (''overlay_interface'', self ''orif_lpb'')]),
        assign ''tunnel_term'' (api_create ''tunnel_term_table_entry'' [(''tunnel_type'', var ''tunnel_type''), (''vr_id'', self
          ''uvrf''), (''action_tunnel_id'', var ''tunnel''), (''type'', var ''term_type''), (''dst_ip'', ip_address (self
          ''lpb_ip''))]),
        assign ''tunnel_nhop'' (api_create ''next_hop'' [(''type'', num SAI_NEXT_HOP_TYPE_TUNNEL_ENCAP), (''tunnel_id'', var
          ''tunnel''), (''ip'', ip_address (self ''tun_ip'')), (''tunnel_mac'', self ''inner_dmac''), (''tunnel_vni'', self
          ''vni'')]),
        assign ''vm_route'' (struct ''sai_thrift_route_entry_t'' [(''vr_id'', self ''ovrf''), (''destination'', ip_prefix (add
          (self ''vm_ip'') (str ''/32'')))]),
        run (api_create_entry ''route_entry'' (var ''vm_route'') [(''next_hop_id'', var ''tunnel_nhop'')]),
        assign ''pkt'' (lib ''simple_udp_packet'' [] [(''eth_dst'', self ''customer_mac''), (''eth_src'', str ROUTER_MAC),
          (''ip_dst'', self ''customer_ip''), (''ip_src'', self ''vm_ip''), (''ip_id'', num 108), (''ip_dscp'', var
          ''inner_dscp_val''), (''ip_ttl'', num 62)]),
        assign ''inner_pkt'' (lib ''simple_udp_packet'' [] [(''eth_dst'', self ''inner_dmac''), (''eth_src'', str ROUTER_MAC),
          (''ip_dst'', self ''customer_ip''), (''ip_src'', self ''vm_ip''), (''ip_id'', num 108), (''ip_dscp'', var
          ''inner_dscp_val''), (''ip_ttl'', num 63)]),
        assign ''ipip_pkt'' (lib ''simple_ipv4ip_packet'' [] [(''eth_dst'', str ROUTER_MAC), (''eth_src'', self ''unbor_mac''),
          (''ip_dst'', self ''lpb_ip''), (''ip_src'', self ''tun_ip''), (''ip_id'', num 0), (''ip_dscp'', var
          ''tunnel_dscp_val''), (''ip_ttl'', num 64), (''inner_frame'', lib ''get_layer'' [var ''inner_pkt'', str ''IP''] [])]),
        run (lib ''send_packet'' [self ''uport_dev'', var ''ipip_pkt''] []),
        run (lib ''verify_packet'' [var ''pkt'', self ''oport_dev''] []),
        assign ''dscp_to_tc_map_list'' (struct ''sai_thrift_qos_map_list_t'' [(''count'', num 1), (''maplist'', list_of [struct
          ''sai_thrift_qos_map_t'' [(''key'', struct ''sai_thrift_qos_map_params_t'' [(''dscp'', var ''inner_dscp_val'')]),
          (''value'', struct ''sai_thrift_qos_map_params_t'' [(''tc'', var ''map_tc'')])]])]),
        assign ''dscp_to_tc_map_id'' (api_create ''qos_map'' [(''type'', num SAI_QOS_MAP_TYPE_DSCP_TO_TC),
          (''map_to_value_list'', var ''dscp_to_tc_map_list'')]),
        run (api_set ''port'' (self ''uport'') [(''qos_dscp_to_tc_map'', var ''dscp_to_tc_map_id'')]),
        assign ''tc_to_dscp_map_list'' (struct ''sai_thrift_qos_map_list_t'' [(''count'', num 1), (''maplist'', list_of [struct
          ''sai_thrift_qos_map_t'' [(''key'', struct ''sai_thrift_qos_map_params_t'' [(''tc'', var ''map_tc''), (''color'', num
          SAI_PACKET_COLOR_GREEN)]), (''value'', struct ''sai_thrift_qos_map_params_t'' [(''dscp'', var
          ''rewrite_dscp_val'')])]])]),
        assign ''tc_to_dscp_map_id'' (api_create ''qos_map'' [(''type'', num SAI_QOS_MAP_TYPE_TC_AND_COLOR_TO_DSCP),
          (''map_to_value_list'', var ''tc_to_dscp_map_list'')]),
        run (api_set ''port'' (self ''oport'') [(''qos_tc_and_color_to_dscp_map'', var ''tc_to_dscp_map_id'')]),
        assign ''qos_map_exists'' (bool True),
        assign ''pkt'' (lib ''simple_udp_packet'' [] [(''eth_dst'', self ''customer_mac''), (''eth_src'', str ROUTER_MAC),
          (''ip_dst'', self ''customer_ip''), (''ip_src'', self ''vm_ip''), (''ip_id'', num 108), (''ip_dscp'', var
          ''rewrite_dscp_val''), (''ip_ttl'', num 62)]),
        assign ''inner_pkt'' (lib ''simple_udp_packet'' [] [(''eth_dst'', self ''inner_dmac''), (''eth_src'', str ROUTER_MAC),
          (''ip_dst'', self ''customer_ip''), (''ip_src'', self ''vm_ip''), (''ip_id'', num 108), (''ip_dscp'', var
          ''inner_dscp_val''), (''ip_ttl'', num 63)]),
        assign ''ipip_pkt'' (lib ''simple_ipv4ip_packet'' [] [(''eth_dst'', str ROUTER_MAC), (''eth_src'', self ''unbor_mac''),
          (''ip_dst'', self ''lpb_ip''), (''ip_src'', self ''tun_ip''), (''ip_id'', num 0), (''ip_dscp'', var
          ''tunnel_dscp_val''), (''ip_ttl'', num 64), (''inner_frame'', lib ''get_layer'' [var ''inner_pkt'', str ''IP''] [])]),
        run (lib ''send_packet'' [self ''uport_dev'', var ''ipip_pkt''] []),
        run (lib ''verify_packet'' [var ''pkt'', self ''oport_dev''] [])] [
        if_else (var ''qos_map_exists'') [
          run (api_set ''port'' (self ''uport'') [(''qos_dscp_to_tc_map'', as_int (num SAI_NULL_OBJECT_ID))]),
          run (api_remove ''qos_map'' (var ''dscp_to_tc_map_id'')),
          run (api_set ''port'' (self ''oport'') [(''qos_tc_and_color_to_dscp_map'', as_int (num SAI_NULL_OBJECT_ID))]),
          run (api_remove ''qos_map'' (var ''tc_to_dscp_map_id''))] [],
        run (api_remove ''route_entry'' (var ''vm_route'')),
        run (api_remove ''next_hop'' (var ''tunnel_nhop'')),
        run (api_remove ''tunnel_term_table_entry'' (var ''tunnel_term'')),
        run (api_remove ''tunnel'' (var ''tunnel''))]]"

definition TunnelQosModeTest_decapDscpPipeModeIpv6InIpv6Test :: "'d stmt" where
  "TunnelQosModeTest_decapDscpPipeModeIpv6InIpv6Test = block [
      assign ''tunnel_dscp_val'' (num 10),
      assign ''inner_dscp_val'' (num 18),
      assign ''rewrite_dscp_val'' (num 20),
      assign ''map_tc'' (num 2),
      assign ''dscp_mode'' (num SAI_TUNNEL_DSCP_MODE_PIPE_MODEL),
      assign ''ttl_mode'' (num SAI_TUNNEL_TTL_MODE_PIPE_MODEL),
      assign ''tunnel_type'' (num SAI_TUNNEL_TYPE_IPINIP),
      assign ''term_type'' (num SAI_TUNNEL_TERM_TABLE_ENTRY_TYPE_P2P),
      assign ''qos_map_exists'' (bool False),
      try_finally [
        assign ''tunnel'' (api_create ''tunnel'' [(''type'', var ''tunnel_type''), (''encap_src_ip'', ip_address (self
          ''lpb_ipv6'')), (''decap_ttl_mode'', var ''ttl_mode''), (''decap_dscp_mode'', var ''dscp_mode''),
          (''underlay_interface'', self ''urif_lpb''), (''overlay_interface'', self ''orif_lpb'')]),
        assign ''tunnel_term'' (api_create ''tunnel_term_table_entry'' [(''tunnel_type'', var ''tunnel_type''), (''vr_id'', self
          ''uvrf''), (''action_tunnel_id'', var ''tunnel''), (''type'', var ''term_type''), (''dst_ip'', ip_address (self
          ''lpb_ipv6''))]),
        assign ''tunnel_nhop'' (api_create ''next_hop'' [(''type'', num SAI_NEXT_HOP_TYPE_TUNNEL_ENCAP), (''tunnel_id'', var
          ''tunnel''), (''ip'', ip_address (self ''tun_ipv6'')), (''tunnel_mac'', self ''inner_dmac''), (''tunnel_vni'', self
          ''vni'')]),
        assign ''vm_route'' (struct ''sai_thrift_route_entry_t'' [(''vr_id'', self ''ovrf''), (''destination'', ip_prefix (add
          (self ''vm_ipv6'') (str ''/128'')))]),
        run (api_create_entry ''route_entry'' (var ''vm_route'') [(''next_hop_id'', var ''tunnel_nhop'')]),
        assign ''pkt'' (lib ''simple_udpv6_packet'' [] [(''eth_dst'', self ''customer_mac''), (''eth_src'', str ROUTER_MAC),
          (''ipv6_dst'', self ''customer_ipv6''), (''ipv6_src'', self ''vm_ipv6''), (''ipv6_dscp'', var ''inner_dscp_val''),
          (''ipv6_hlim'', num 62)]),
        assign ''inner_pkt'' (lib ''simple_udpv6_packet'' [] [(''eth_dst'', str ROUTER_MAC), (''eth_src'', self ''inner_dmac''),
          (''ipv6_dst'', self ''customer_ipv6''), (''ipv6_src'', self ''vm_ipv6''), (''ipv6_dscp'', var ''inner_dscp_val''),
          (''ipv6_hlim'', num 63)]),
        assign ''ipip_pkt'' (lib ''simple_ipv6ip_packet'' [] [(''eth_dst'', str ROUTER_MAC), (''eth_src'', self ''unbor_mac''),
          (''ipv6_dst'', self ''lpb_ipv6''), (''ipv6_src'', self ''tun_ipv6''), (''ipv6_dscp'', var ''tunnel_dscp_val''),
          (''ipv6_hlim'', num 64), (''inner_frame'', lib ''get_layer'' [var ''inner_pkt'', str ''IPv6''] [])]),
        run (lib ''send_packet'' [self ''uport_dev'', var ''ipip_pkt''] []),
        run (lib ''verify_packet'' [var ''pkt'', self ''oport_dev''] []),
        assign ''dscp_to_tc_map_list'' (struct ''sai_thrift_qos_map_list_t'' [(''count'', num 1), (''maplist'', list_of [struct
          ''sai_thrift_qos_map_t'' [(''key'', struct ''sai_thrift_qos_map_params_t'' [(''dscp'', var ''inner_dscp_val'')]),
          (''value'', struct ''sai_thrift_qos_map_params_t'' [(''tc'', var ''map_tc'')])]])]),
        assign ''dscp_to_tc_map_id'' (api_create ''qos_map'' [(''type'', num SAI_QOS_MAP_TYPE_DSCP_TO_TC),
          (''map_to_value_list'', var ''dscp_to_tc_map_list'')]),
        run (api_set ''port'' (self ''uport'') [(''qos_dscp_to_tc_map'', var ''dscp_to_tc_map_id'')]),
        assign ''tc_to_dscp_map_list'' (struct ''sai_thrift_qos_map_list_t'' [(''count'', num 1), (''maplist'', list_of [struct
          ''sai_thrift_qos_map_t'' [(''key'', struct ''sai_thrift_qos_map_params_t'' [(''tc'', var ''map_tc''), (''color'', num
          SAI_PACKET_COLOR_GREEN)]), (''value'', struct ''sai_thrift_qos_map_params_t'' [(''dscp'', var
          ''rewrite_dscp_val'')])]])]),
        assign ''tc_to_dscp_map_id'' (api_create ''qos_map'' [(''type'', num SAI_QOS_MAP_TYPE_TC_AND_COLOR_TO_DSCP),
          (''map_to_value_list'', var ''tc_to_dscp_map_list'')]),
        run (api_set ''port'' (self ''oport'') [(''qos_tc_and_color_to_dscp_map'', var ''tc_to_dscp_map_id'')]),
        assign ''qos_map_exists'' (bool True),
        assign ''pkt'' (lib ''simple_udpv6_packet'' [] [(''eth_dst'', self ''customer_mac''), (''eth_src'', str ROUTER_MAC),
          (''ipv6_dst'', self ''customer_ipv6''), (''ipv6_src'', self ''vm_ipv6''), (''ipv6_dscp'', var ''rewrite_dscp_val''),
          (''ipv6_hlim'', num 62)]),
        assign ''inner_pkt'' (lib ''simple_udpv6_packet'' [] [(''eth_dst'', str ROUTER_MAC), (''eth_src'', self ''inner_dmac''),
          (''ipv6_dst'', self ''customer_ipv6''), (''ipv6_src'', self ''vm_ipv6''), (''ipv6_dscp'', var ''inner_dscp_val''),
          (''ipv6_hlim'', num 63)]),
        assign ''ipip_pkt'' (lib ''simple_ipv6ip_packet'' [] [(''eth_dst'', str ROUTER_MAC), (''eth_src'', self ''unbor_mac''),
          (''ipv6_dst'', self ''lpb_ipv6''), (''ipv6_src'', self ''tun_ipv6''), (''ipv6_dscp'', var ''tunnel_dscp_val''),
          (''ipv6_hlim'', num 64), (''inner_frame'', lib ''get_layer'' [var ''inner_pkt'', str ''IPv6''] [])]),
        run (lib ''send_packet'' [self ''uport_dev'', var ''ipip_pkt''] []),
        run (lib ''verify_packet'' [var ''pkt'', self ''oport_dev''] [])] [
        if_else (var ''qos_map_exists'') [
          run (api_set ''port'' (self ''uport'') [(''qos_dscp_to_tc_map'', as_int (num SAI_NULL_OBJECT_ID))]),
          run (api_remove ''qos_map'' (var ''dscp_to_tc_map_id'')),
          run (api_set ''port'' (self ''oport'') [(''qos_tc_and_color_to_dscp_map'', as_int (num SAI_NULL_OBJECT_ID))]),
          run (api_remove ''qos_map'' (var ''tc_to_dscp_map_id''))] [],
        run (api_remove ''route_entry'' (var ''vm_route'')),
        run (api_remove ''next_hop'' (var ''tunnel_nhop'')),
        run (api_remove ''tunnel_term_table_entry'' (var ''tunnel_term'')),
        run (api_remove ''tunnel'' (var ''tunnel''))]]"

definition TunnelQosModeTest_runTest :: "'d stmt" where
  "TunnelQosModeTest_runTest = block [
      run (invoke [] TunnelQosModeTest_encapDscpPipeModeVxlanTest),
      run (invoke [] TunnelQosModeTest_encapDscpPipeModeIpInIpTest),
      run (invoke [] TunnelQosModeTest_encapDscpPipeModeIpv6InIpv6Test),
      run (invoke [] TunnelQosModeTest_decapDscpPipeModeVxlanTest),
      run (invoke [] TunnelQosModeTest_decapDscpPipeModeIpInIpTest),
      run (invoke [] TunnelQosModeTest_decapDscpPipeModeIpv6InIpv6Test)]"

definition TunnelQosModeTest_tearDown :: "'d stmt" where
  "TunnelQosModeTest_tearDown = block [
      run (api_remove ''route_entry'' (self ''tunnel_route'')),
      run (api_remove ''route_entry'' (self ''tunnel_route_v6'')),
      run (api_remove ''neighbor_entry'' (self ''unbor'')),
      run (api_remove ''neighbor_entry'' (self ''unbor_v6'')),
      run (api_remove ''next_hop'' (self ''unhop'')),
      run (api_remove ''next_hop'' (self ''unhop_v6'')),
      run (api_remove ''route_entry'' (self ''customer_route'')),
      run (api_remove ''route_entry'' (self ''customer_route_v6'')),
      run (api_remove ''neighbor_entry'' (self ''onbor'')),
      run (api_remove ''neighbor_entry'' (self ''onbor_v6'')),
      run (api_remove ''next_hop'' (self ''onhop'')),
      run (api_remove ''next_hop'' (self ''onhop_v6'')),
      run (api_remove ''router_interface'' (self ''orif'')),
      run (api_remove ''router_interface'' (self ''urif'')),
      run (api_remove ''router_interface'' (self ''orif_lpb'')),
      run (api_remove ''router_interface'' (self ''urif_lpb'')),
      run (api_remove ''virtual_router'' (self ''ovrf'')),
      run (api_remove ''virtual_router'' (self ''uvrf'')),
      super_tearDown]"

definition VxLanTunnelIpv4UnderlayTest_encapDecapTest :: "'d stmt" where
  "VxLanTunnelIpv4UnderlayTest_encapDecapTest = block [
      assign ''pkt'' (lib ''simple_udp_packet'' [] [(''eth_dst'', str ROUTER_MAC), (''eth_src'', self ''customer_mac''),
        (''ip_dst'', self ''vm_ip''), (''ip_src'', self ''customer_ip''), (''ip_id'', num 108), (''ip_ttl'', num 64)]),
      assign ''inner_pkt'' (lib ''simple_udp_packet'' [] [(''eth_dst'', self ''inner_dmac''), (''eth_src'', str ROUTER_MAC),
        (''ip_dst'', self ''vm_ip''), (''ip_src'', self ''customer_ip''), (''ip_id'', num 108), (''ip_ttl'', num 63)]),
      assign ''vxlan_pkt'' (lib ''Mask'' [lib ''simple_vxlan_packet'' [] [(''eth_dst'', self ''unbor_mac''), (''eth_src'', str
        ROUTER_MAC), (''ip_dst'', self ''tun_ip''), (''ip_src'', self ''lpb_ip''), (''ip_id'', num 0), (''ip_ttl'', num 64),
        (''ip_flags'', num 2), (''with_udp_chksum'', bool False), (''vxlan_vni'', self ''vni''), (''inner_frame'', var
        ''inner_pkt'')]] []),
      assign ''vxlan_pkt'' (lib ''.set_do_not_care_scapy'' [var ''vxlan_pkt'', str ''UDP'', str ''sport''] []),
      run (lib ''send_packet'' [self ''oport_dev'', var ''pkt''] []),
      run (lib ''verify_packet'' [var ''vxlan_pkt'', self ''uport_dev''] []),
      assign ''pkt'' (lib ''simple_udp_packet'' [] [(''eth_dst'', self ''customer_mac''), (''eth_src'', str ROUTER_MAC),
        (''ip_dst'', self ''customer_ip''), (''ip_src'', self ''vm_ip''), (''ip_id'', num 108), (''ip_ttl'', num 63)]),
      assign ''inner_pkt'' (lib ''simple_udp_packet'' [] [(''eth_dst'', str ROUTER_MAC), (''eth_src'', self ''inner_dmac''),
        (''ip_dst'', self ''customer_ip''), (''ip_src'', self ''vm_ip''), (''ip_id'', num 108), (''ip_ttl'', num 64)]),
      assign ''vxlan_pkt'' (lib ''simple_vxlan_packet'' [] [(''eth_dst'', str ROUTER_MAC), (''eth_src'', self ''unbor_mac''),
        (''ip_dst'', self ''lpb_ip''), (''ip_src'', self ''tun_ip''), (''ip_id'', num 0), (''ip_ttl'', num 64), (''ip_flags'',
        num 2), (''udp_sport'', num 11638), (''with_udp_chksum'', bool False), (''vxlan_vni'', self ''vni''), (''inner_frame'',
        var ''inner_pkt'')]),
      run (lib ''send_packet'' [self ''uport_dev'', var ''vxlan_pkt''] []),
      run (lib ''verify_packet'' [var ''pkt'', self ''oport_dev''] [])]"

definition VxLanTunnelIpv4UnderlayTest_tunnelTermSrcIpTest :: "'d stmt" where
  "VxLanTunnelIpv4UnderlayTest_tunnelTermSrcIpTest = block [
      assign ''test_src_ip'' (str ''100.100.100.100''),
      assign ''inner_pkt'' (lib ''simple_udp_packet'' [] [(''eth_dst'', self ''inner_dmac''), (''eth_src'', str ROUTER_MAC),
        (''ip_dst'', self ''customer_ip''), (''ip_src'', self ''vm_ip''), (''ip_id'', num 108), (''ip_ttl'', num 63)]),
      assign ''vxlan_pkt'' (lib ''simple_vxlan_packet'' [] [(''eth_dst'', str ROUTER_MAC), (''eth_src'', self ''unbor_mac''),
        (''ip_dst'', self ''lpb_ip''), (''ip_src'', var ''test_src_ip''), (''ip_id'', num 0), (''ip_ttl'', num 64),
        (''ip_flags'', num 2), (''with_udp_chksum'', bool False), (''vxlan_vni'', self ''vni''), (''inner_frame'', var
        ''inner_pkt'')]),
      run (lib ''send_packet'' [self ''uport_dev'', var ''vxlan_pkt''] []),
      run (lib ''verify_no_other_packets'' [] [])]"

definition VxLanTunnelIpv4UnderlayTest_runTest :: "'d stmt" where
  "VxLanTunnelIpv4UnderlayTest_runTest = block [
      run (invoke [] VxLanTunnelIpv4UnderlayTest_encapDecapTest),
      run (invoke [] VxLanTunnelIpv4UnderlayTest_tunnelTermSrcIpTest)]"

definition VxLanTunnelIpv6UnderlayTest_encapDecapTest :: "'d stmt" where
  "VxLanTunnelIpv6UnderlayTest_encapDecapTest = block [
      assign ''pkt'' (lib ''simple_udp_packet'' [] [(''eth_dst'', str ROUTER_MAC), (''eth_src'', self ''customer_mac''),
        (''ip_dst'', self ''vm_ip''), (''ip_src'', self ''customer_ip''), (''ip_id'', num 108), (''ip_ttl'', num 64)]),
      assign ''inner_pkt'' (lib ''simple_udp_packet'' [] [(''eth_dst'', self ''inner_dmac''), (''eth_src'', str ROUTER_MAC),
        (''ip_dst'', self ''vm_ip''), (''ip_src'', self ''customer_ip''), (''ip_id'', num 108), (''ip_ttl'', num 63)]),
      assign ''vxlan_pkt'' (lib ''Mask'' [lib ''simple_vxlanv6_packet'' [] [(''eth_dst'', self ''unbor_mac''), (''eth_src'', str
        ROUTER_MAC), (''ipv6_dst'', self ''tun_ip''), (''ipv6_src'', self ''lpb_ip''), (''ipv6_hlim'', num 64),
        (''with_udp_chksum'', bool False), (''vxlan_vni'', self ''vni''), (''inner_frame'', var ''inner_pkt'')]] []),
      assign ''vxlan_pkt'' (lib ''.set_do_not_care_scapy'' [var ''vxlan_pkt'', str ''UDP'', str ''sport''] []),
      run (lib ''send_packet'' [self ''oport_dev'', var ''pkt''] []),
      run (lib ''verify_packet'' [var ''vxlan_pkt'', self ''uport_dev''] []),
      assign ''pkt'' (lib ''simple_udp_packet'' [] [(''eth_dst'', self ''customer_mac''), (''eth_src'', str ROUTER_MAC),
        (''ip_dst'', self ''customer_ip''), (''ip_src'', self ''vm_ip''), (''ip_id'', num 108), (''ip_ttl'', num 63)]),
      assign ''inner_pkt'' (lib ''simple_udp_packet'' [] [(''eth_dst'', str ROUTER_MAC), (''eth_src'', self ''inner_dmac''),
        (''ip_dst'', self ''customer_ip''), (''ip_src'', self ''vm_ip''), (''ip_id'', num 108), (''ip_ttl'', num 64)]),
      assign ''vxlan_pkt'' (lib ''simple_vxlanv6_packet'' [] [(''eth_dst'', str ROUTER_MAC), (''eth_src'', self ''unbor_mac''),
        (''ipv6_dst'', self ''lpb_ip''), (''ipv6_src'', self ''tun_ip''), (''ipv6_hlim'', num 64), (''udp_sport'', num 11638),
        (''with_udp_chksum'', bool False), (''vxlan_vni'', self ''vni''), (''inner_frame'', var ''inner_pkt'')]),
      run (lib ''send_packet'' [self ''uport_dev'', var ''vxlan_pkt''] []),
      run (lib ''verify_packet'' [var ''pkt'', self ''oport_dev''] [])]"

definition VxLanTunnelIpv6UnderlayTest_tunnelTermSrcIpTest :: "'d stmt" where
  "VxLanTunnelIpv6UnderlayTest_tunnelTermSrcIpTest = block [
      assign ''test_src_ip'' (str ''2001:0db8::100:100''),
      assign ''inner_pkt'' (lib ''simple_udp_packet'' [] [(''eth_dst'', self ''inner_dmac''), (''eth_src'', str ROUTER_MAC),
        (''ip_dst'', self ''customer_ip''), (''ip_src'', self ''vm_ip''), (''ip_id'', num 108), (''ip_ttl'', num 63)]),
      assign ''vxlan_pkt'' (lib ''simple_vxlanv6_packet'' [] [(''eth_dst'', str ROUTER_MAC), (''eth_src'', self ''unbor_mac''),
        (''ipv6_dst'', self ''lpb_ip''), (''ipv6_src'', var ''test_src_ip''), (''ipv6_hlim'', num 64), (''with_udp_chksum'',
        bool False), (''vxlan_vni'', self ''vni''), (''inner_frame'', var ''inner_pkt'')]),
      run (lib ''send_packet'' [self ''uport_dev'', var ''vxlan_pkt''] []),
      run (lib ''verify_no_other_packets'' [] [])]"

definition VxLanTunnelIpv6UnderlayTest_runTest :: "'d stmt" where
  "VxLanTunnelIpv6UnderlayTest_runTest = block [
      run (invoke [] VxLanTunnelIpv6UnderlayTest_encapDecapTest),
      run (invoke [] VxLanTunnelIpv6UnderlayTest_tunnelTermSrcIpTest)]"

definition IpInIpTunnelBase_setUp :: "'d stmt" where
  "IpInIpTunnelBase_setUp = block [
      super_setUp,
      set_self ''oport'' (self ''port24''),
      set_self ''oport_dev'' (self ''dev_port24''),
      set_self ''uport'' (self ''port25''),
      set_self ''uport_dev'' (self ''dev_port25''),
      set_self ''vm_ip'' (str ''100.100.1.1''),
      set_self ''vm_ipv6'' (str ''2001:0db8::100:1''),
      set_self ''customer_ip'' (str ''100.100.2.1''),
      set_self ''customer_ipv6'' (str ''2001:0db8::100:2''),
      set_self ''inner_dmac'' (str ''00:11:11:11:11:11''),
      set_self ''customer_mac'' (str ''00:22:22:22:22:11''),
      set_self ''unbor_mac'' (str ''00:33:33:33:33:11''),
      set_self ''uvrf'' (api_create ''virtual_router'' []),
      set_self ''ovrf'' (api_create ''virtual_router'' []),
      assign ''tunnel_type'' (num SAI_TUNNEL_TYPE_IPINIP),
      assign ''term_type'' (num SAI_TUNNEL_TERM_TABLE_ENTRY_TYPE_P2P),
      assign ''ttl_mode'' (num SAI_TUNNEL_TTL_MODE_PIPE_MODEL),
      set_self ''urif_lpb'' (api_create ''router_interface'' [(''type'', num SAI_ROUTER_INTERFACE_TYPE_LOOPBACK),
        (''virtual_router_id'', self ''uvrf'')]),
      set_self ''orif_lpb'' (api_create ''router_interface'' [(''type'', num SAI_ROUTER_INTERFACE_TYPE_LOOPBACK),
        (''virtual_router_id'', self ''ovrf'')]),
      set_self ''urif'' (api_create ''router_interface'' [(''type'', num SAI_ROUTER_INTERFACE_TYPE_PORT),
        (''virtual_router_id'', self ''uvrf''), (''port_id'', self ''uport'')]),
      set_self ''unhop'' (api_create ''next_hop'' [(''ip'', ip_address (self ''tun_ip'')), (''router_interface_id'', self
        ''urif''), (''type'', num SAI_NEXT_HOP_TYPE_IP)]),
      set_self ''unbor'' (struct ''sai_thrift_neighbor_entry_t'' [(''rif_id'', self ''urif''), (''ip_address'', ip_address (self
        ''tun_ip''))]),
      run (api_create_entry ''neighbor_entry'' (self ''unbor'') [(''dst_mac_address'', self ''unbor_mac''), (''no_host_route'',
        bool True)]),
      set_self ''tunnel_route'' (struct ''sai_thrift_route_entry_t'' [(''vr_id'', self ''uvrf''), (''destination'', ip_prefix
        (add (self ''tun_ip'') (self ''tun_lpb_mask'')))]),
      run (api_create_entry ''route_entry'' (self ''tunnel_route'') [(''next_hop_id'', self ''unhop'')]),
      set_self ''tunnel'' (api_create ''tunnel'' [(''type'', var ''tunnel_type''), (''encap_src_ip'', ip_address (self
        ''lpb_ip'')), (''encap_ttl_mode'', var ''ttl_mode''), (''decap_ttl_mode'', var ''ttl_mode''), (''underlay_interface'',
        self ''urif_lpb''), (''overlay_interface'', self ''orif_lpb'')]),
      set_self ''tunnel_term'' (api_create ''tunnel_term_table_entry'' [(''tunnel_type'', var ''tunnel_type''), (''vr_id'', self
        ''uvrf''), (''action_tunnel_id'', self ''tunnel''), (''type'', var ''term_type''), (''dst_ip'', ip_address (self
        ''lpb_ip'')), (''src_ip'', ip_address (self ''tun_ip''))]),
      set_self ''tunnel_nhop'' (api_create ''next_hop'' [(''type'', num SAI_NEXT_HOP_TYPE_TUNNEL_ENCAP), (''tunnel_id'', self
        ''tunnel''), (''ip'', ip_address (self ''tun_ip'')), (''tunnel_mac'', self ''inner_dmac'')]),
      set_self ''vm_route'' (struct ''sai_thrift_route_entry_t'' [(''vr_id'', self ''ovrf''), (''destination'', ip_prefix (add
        (self ''vm_ip'') (str ''/32'')))]),
      run (api_create_entry ''route_entry'' (self ''vm_route'') [(''next_hop_id'', self ''tunnel_nhop'')]),
      set_self ''vm_v6_route'' (struct ''sai_thrift_route_entry_t'' [(''vr_id'', self ''ovrf''), (''destination'', ip_prefix
        (add (self ''vm_ipv6'') (str ''/128'')))]),
      run (api_create_entry ''route_entry'' (self ''vm_v6_route'') [(''next_hop_id'', self ''tunnel_nhop'')]),
      set_self ''orif'' (api_create ''router_interface'' [(''type'', num SAI_ROUTER_INTERFACE_TYPE_PORT),
        (''virtual_router_id'', self ''ovrf''), (''port_id'', self ''oport'')]),
      set_self ''onhop'' (api_create ''next_hop'' [(''ip'', ip_address (self ''customer_ip'')), (''router_interface_id'', self
        ''orif''), (''type'', num SAI_NEXT_HOP_TYPE_IP)]),
      set_self ''onbor'' (struct ''sai_thrift_neighbor_entry_t'' [(''rif_id'', self ''orif''), (''ip_address'', ip_address (self
        ''customer_ip''))]),
      run (api_create_entry ''neighbor_entry'' (self ''onbor'') [(''dst_mac_address'', self ''customer_mac''),
        (''no_host_route'', bool True)]),
      set_self ''customer_route'' (struct ''sai_thrift_route_entry_t'' [(''vr_id'', self ''ovrf''), (''destination'', ip_prefix
        (add (self ''customer_ip'') (str ''/32'')))]),
      run (api_create_entry ''route_entry'' (self ''customer_route'') [(''next_hop_id'', self ''onhop'')]),
      set_self ''onhop_v6'' (api_create ''next_hop'' [(''ip'', ip_address (self ''customer_ipv6'')), (''router_interface_id'',
        self ''orif''), (''type'', num SAI_NEXT_HOP_TYPE_IP)]),
      set_self ''onbor_v6'' (struct ''sai_thrift_neighbor_entry_t'' [(''rif_id'', self ''orif''), (''ip_address'', ip_address
        (self ''customer_ipv6''))]),
      run (api_create_entry ''neighbor_entry'' (self ''onbor_v6'') [(''dst_mac_address'', self ''customer_mac''),
        (''no_host_route'', bool True)]),
      set_self ''customer_v6_route'' (struct ''sai_thrift_route_entry_t'' [(''vr_id'', self ''ovrf''), (''destination'',
        ip_prefix (add (self ''customer_ipv6'') (str ''/128'')))]),
      run (api_create_entry ''route_entry'' (self ''customer_v6_route'') [(''next_hop_id'', self ''onhop_v6'')])]"

definition IpInIpTunnelBase_tearDown :: "'d stmt" where
  "IpInIpTunnelBase_tearDown = block [
      run (api_remove ''route_entry'' (self ''customer_v6_route'')),
      run (api_remove ''neighbor_entry'' (self ''onbor_v6'')),
      run (api_remove ''next_hop'' (self ''onhop_v6'')),
      run (api_remove ''route_entry'' (self ''customer_route'')),
      run (api_remove ''neighbor_entry'' (self ''onbor'')),
      run (api_remove ''next_hop'' (self ''onhop'')),
      run (api_remove ''router_interface'' (self ''orif'')),
      run (api_remove ''route_entry'' (self ''vm_v6_route'')),
      run (api_remove ''route_entry'' (self ''vm_route'')),
      run (api_remove ''next_hop'' (self ''tunnel_nhop'')),
      run (api_remove ''tunnel_term_table_entry'' (self ''tunnel_term'')),
      run (api_remove ''tunnel'' (self ''tunnel'')),
      run (api_remove ''route_entry'' (self ''tunnel_route'')),
      run (api_remove ''neighbor_entry'' (self ''unbor'')),
      run (api_remove ''next_hop'' (self ''unhop'')),
      run (api_remove ''router_interface'' (self ''urif'')),
      run (api_remove ''router_interface'' (self ''orif_lpb'')),
      run (api_remove ''router_interface'' (self ''urif_lpb'')),
      run (api_remove ''virtual_router'' (self ''ovrf'')),
      run (api_remove ''virtual_router'' (self ''uvrf'')),
      super_tearDown]"

definition IpInIpTunnelBase_innerIpv4TunnelTest :: "'d stmt" where
  "IpInIpTunnelBase_innerIpv4TunnelTest = block [
      assign ''pkt'' (lib ''simple_udp_packet'' [] [(''eth_dst'', str ROUTER_MAC), (''eth_src'', self ''customer_mac''),
        (''ip_dst'', self ''vm_ip''), (''ip_src'', self ''customer_ip''), (''ip_id'', num 108), (''ip_ttl'', num 64)]),
      assign ''inner_pkt'' (lib ''simple_udp_packet'' [] [(''eth_dst'', self ''inner_dmac''), (''eth_src'', str ROUTER_MAC),
        (''ip_dst'', self ''vm_ip''), (''ip_src'', self ''customer_ip''), (''ip_id'', num 108), (''ip_ttl'', num 63)]),
      if_else (is_false (self ''ipv6'')) [
        assign ''ipip_pkt'' (lib ''simple_ipv4ip_packet'' [] [(''eth_dst'', self ''unbor_mac''), (''eth_src'', str ROUTER_MAC),
          (''ip_id'', num 0), (''ip_src'', self ''lpb_ip''), (''ip_dst'', self ''tun_ip''), (''inner_frame'', lib ''get_layer''
          [var ''inner_pkt'', str ''IP''] [])])] [
        assign ''ipip_pkt'' (lib ''simple_ipv6ip_packet'' [] [(''eth_dst'', self ''unbor_mac''), (''eth_src'', str ROUTER_MAC),
          (''ipv6_src'', self ''lpb_ip''), (''ipv6_dst'', self ''tun_ip''), (''inner_frame'', lib ''get_layer'' [var
          ''inner_pkt'', str ''IP''] [])])],
      print [if_exp (self ''ipv6'') (num 6) (num 4)],
      run (lib ''send_packet'' [self ''oport_dev'', var ''pkt''] []),
      run (lib ''verify_packet'' [var ''ipip_pkt'', self ''uport_dev''] []),
      assign ''pkt'' (lib ''simple_udp_packet'' [] [(''eth_dst'', self ''customer_mac''), (''eth_src'', str ROUTER_MAC),
        (''ip_dst'', self ''customer_ip''), (''ip_src'', self ''vm_ip''), (''ip_id'', num 108), (''ip_ttl'', num 63)]),
      assign ''inner_pkt'' (lib ''simple_udp_packet'' [] [(''eth_dst'', self ''inner_dmac''), (''eth_src'', str ROUTER_MAC),
        (''ip_dst'', self ''customer_ip''), (''ip_src'', self ''vm_ip''), (''ip_id'', num 108), (''ip_ttl'', num 64)]),
      if_else (is_false (self ''ipv6'')) [
        assign ''ipip_pkt'' (lib ''simple_ipv4ip_packet'' [] [(''eth_dst'', str ROUTER_MAC), (''eth_src'', self ''unbor_mac''),
          (''ip_id'', num 0), (''ip_src'', self ''tun_ip''), (''ip_dst'', self ''lpb_ip''), (''inner_frame'', lib ''get_layer''
          [var ''inner_pkt'', str ''IP''] [])])] [
        assign ''ipip_pkt'' (lib ''simple_ipv6ip_packet'' [] [(''eth_dst'', str ROUTER_MAC), (''eth_src'', self ''unbor_mac''),
          (''ipv6_src'', self ''tun_ip''), (''ipv6_dst'', self ''lpb_ip''), (''inner_frame'', lib ''get_layer'' [var
          ''inner_pkt'', str ''IP''] [])])],
      print [if_exp (self ''ipv6'') (num 6) (num 4)],
      run (lib ''send_packet'' [self ''uport_dev'', var ''ipip_pkt''] []),
      run (lib ''verify_packet'' [var ''pkt'', self ''oport_dev''] [])]"

definition IpInIpTunnelBase_innerIpv6TunnelTest :: "'d stmt" where
  "IpInIpTunnelBase_innerIpv6TunnelTest = block [
      assign ''pkt'' (lib ''simple_udpv6_packet'' [] [(''eth_dst'', str ROUTER_MAC), (''eth_src'', self ''customer_mac''),
        (''ipv6_dst'', self ''vm_ipv6''), (''ipv6_src'', self ''customer_ipv6''), (''ipv6_hlim'', num 64)]),
      assign ''inner_pkt'' (lib ''simple_udpv6_packet'' [] [(''eth_dst'', self ''inner_dmac''), (''eth_src'', str ROUTER_MAC),
        (''ipv6_dst'', self ''vm_ipv6''), (''ipv6_src'', self ''customer_ipv6''), (''ipv6_hlim'', num 63)]),
      if_else (is_false (self ''ipv6'')) [
        assign ''ipip_pkt'' (lib ''simple_ipv4ip_packet'' [] [(''eth_dst'', self ''unbor_mac''), (''eth_src'', str ROUTER_MAC),
          (''ip_id'', num 0), (''ip_src'', self ''lpb_ip''), (''ip_dst'', self ''tun_ip''), (''inner_frame'', lib ''get_layer''
          [var ''inner_pkt'', str ''IPv6''] [])])] [
        assign ''ipip_pkt'' (lib ''simple_ipv6ip_packet'' [] [(''eth_dst'', self ''unbor_mac''), (''eth_src'', str ROUTER_MAC),
          (''ipv6_src'', self ''lpb_ip''), (''ipv6_dst'', self ''tun_ip''), (''inner_frame'', lib ''get_layer'' [var
          ''inner_pkt'', str ''IPv6''] [])])],
      print [if_exp (self ''ipv6'') (num 6) (num 4)],
      run (lib ''send_packet'' [self ''oport_dev'', var ''pkt''] []),
      run (lib ''verify_packet'' [var ''ipip_pkt'', self ''uport_dev''] []),
      assign ''pkt'' (lib ''simple_udpv6_packet'' [] [(''eth_dst'', self ''customer_mac''), (''eth_src'', str ROUTER_MAC),
        (''ipv6_dst'', self ''customer_ipv6''), (''ipv6_src'', self ''vm_ipv6''), (''ipv6_hlim'', num 63)]),
      assign ''inner_pkt'' (lib ''simple_udpv6_packet'' [] [(''eth_dst'', self ''inner_dmac''), (''eth_src'', str ROUTER_MAC),
        (''ipv6_dst'', self ''customer_ipv6''), (''ipv6_src'', self ''vm_ipv6''), (''ipv6_hlim'', num 64)]),
      if_else (is_false (self ''ipv6'')) [
        assign ''ipip_pkt'' (lib ''simple_ipv4ip_packet'' [] [(''eth_dst'', str ROUTER_MAC), (''eth_src'', self ''unbor_mac''),
          (''ip_id'', num 0), (''ip_src'', self ''tun_ip''), (''ip_dst'', self ''lpb_ip''), (''inner_frame'', lib ''get_layer''
          [var ''inner_pkt'', str ''IPv6''] [])])] [
        assign ''ipip_pkt'' (lib ''simple_ipv6ip_packet'' [] [(''eth_dst'', str ROUTER_MAC), (''eth_src'', self ''unbor_mac''),
          (''ipv6_src'', self ''tun_ip''), (''ipv6_dst'', self ''lpb_ip''), (''inner_frame'', lib ''get_layer'' [var
          ''inner_pkt'', str ''IPv6''] [])])],
      print [if_exp (self ''ipv6'') (num 6) (num 4)],
      run (lib ''send_packet'' [self ''uport_dev'', var ''ipip_pkt''] []),
      run (lib ''verify_packet'' [var ''pkt'', self ''oport_dev''] [])]"

definition IpInIpTunnelBase_tunnelTermSrcIpTest :: "'d stmt" where
  "IpInIpTunnelBase_tunnelTermSrcIpTest = block [
      assign ''inner_pkt'' (lib ''simple_udp_packet'' [] [(''eth_dst'', self ''inner_dmac''), (''eth_src'', str ROUTER_MAC),
        (''ip_dst'', self ''customer_ip''), (''ip_src'', self ''vm_ip''), (''ip_id'', num 108), (''ip_ttl'', num 64)]),
      if_else (is_false (self ''ipv6'')) [
        assign ''test_src_ip'' (str ''100.100.100.100''),
        assign ''ipip_pkt'' (lib ''simple_ipv4ip_packet'' [] [(''eth_dst'', str ROUTER_MAC), (''eth_src'', self ''unbor_mac''),
          (''ip_id'', num 0), (''ip_src'', var ''test_src_ip''), (''ip_dst'', self ''lpb_ip''), (''inner_frame'', lib
          ''get_layer'' [var ''inner_pkt'', str ''IP''] [])])] [
        assign ''test_src_ip'' (str ''2001:0db8::100:100''),
        assign ''ipip_pkt'' (lib ''simple_ipv6ip_packet'' [] [(''eth_dst'', str ROUTER_MAC), (''eth_src'', self ''unbor_mac''),
          (''ipv6_src'', var ''test_src_ip''), (''ipv6_dst'', self ''lpb_ip''), (''inner_frame'', lib ''get_layer'' [var
          ''inner_pkt'', str ''IP''] [])])],
      print [if_exp (self ''ipv6'') (num 6) (num 4)],
      run (lib ''send_packet'' [self ''uport_dev'', var ''ipip_pkt''] []),
      run (lib ''verify_no_other_packets'' [] [])]"

definition IpInIpTnnnelIpv4UnderlayTest_runTest :: "'d stmt" where
  "IpInIpTnnnelIpv4UnderlayTest_runTest = block [
      run (invoke [] IpInIpTunnelBase_innerIpv4TunnelTest),
      run (invoke [] IpInIpTunnelBase_innerIpv6TunnelTest),
      run (invoke [] IpInIpTunnelBase_tunnelTermSrcIpTest)]"

definition IpInIpTnnnelIpv6UnderlayTest_runTest :: "'d stmt" where
  "IpInIpTnnnelIpv6UnderlayTest_runTest = block [
      run (invoke [] IpInIpTunnelBase_innerIpv4TunnelTest),
      run (invoke [] IpInIpTunnelBase_innerIpv6TunnelTest),
      run (invoke [] IpInIpTunnelBase_tunnelTermSrcIpTest)]"

definition VxLanP2MpTnnnelBase_setUp :: "'d stmt" where
  "VxLanP2MpTnnnelBase_setUp = block [
      super_setUp,
      set_self ''oport'' (self ''port24''),
      set_self ''oport_dev'' (self ''dev_port24''),
      set_self ''uport1'' (self ''port25''),
      set_self ''uport1_dev'' (self ''dev_port25''),
      set_self ''uport2'' (self ''port26''),
      set_self ''uport2_dev'' (self ''dev_port26''),
      set_self ''uport3'' (self ''port27''),
      set_self ''uport3_dev'' (self ''dev_port27''),
      set_self ''vni'' (num 1000),
      set_self ''vm_ip'' (str ''100.100.1.1''),
      set_self ''vm_ipv6'' (str ''2001:0db8::100:1''),
      set_self ''customer_ip'' (str ''100.100.2.1''),
      set_self ''customer_ipv6'' (str ''2001:0db8::100:2''),
      set_self ''inner_dmac'' (str ''00:11:11:11:11:11''),
      set_self ''customer_mac'' (str ''00:22:22:22:22:11''),
      set_self ''unbor_mac1'' (str ''00:33:33:33:33:11''),
      set_self ''unbor_mac2'' (str ''00:33:33:33:33:22''),
      set_self ''unbor_mac3'' (str ''00:33:33:33:33:33''),
      set_self ''uvrf1'' (api_create ''virtual_router'' []),
      set_self ''uvrf2'' (api_create ''virtual_router'' []),
      set_self ''uvrf3'' (api_create ''virtual_router'' []),
      set_self ''ovrf'' (api_create ''virtual_router'' []),
      assign ''tunnel_type'' (num SAI_TUNNEL_TYPE_VXLAN),
      assign ''term_type'' (num SAI_TUNNEL_TERM_TABLE_ENTRY_TYPE_P2MP),
      assign ''ttl_mode'' (num SAI_TUNNEL_TTL_MODE_PIPE_MODEL),
      set_self ''urif_lpb'' (api_create ''router_interface'' [(''type'', num SAI_ROUTER_INTERFACE_TYPE_LOOPBACK),
        (''virtual_router_id'', self ''uvrf1'')]),
      set_self ''urif1'' (api_create ''router_interface'' [(''type'', num SAI_ROUTER_INTERFACE_TYPE_PORT),
        (''virtual_router_id'', self ''uvrf1''), (''port_id'', self ''uport1'')]),
      set_self ''unhop1'' (api_create ''next_hop'' [(''ip'', ip_address (self ''tun_ip1'')), (''router_interface_id'', self
        ''urif1''), (''type'', num SAI_NEXT_HOP_TYPE_IP)]),
      set_self ''unbor1'' (struct ''sai_thrift_neighbor_entry_t'' [(''rif_id'', self ''urif1''), (''ip_address'', ip_address
        (self ''tun_ip1''))]),
      run (api_create_entry ''neighbor_entry'' (self ''unbor1'') [(''dst_mac_address'', self ''unbor_mac1''),
        (''no_host_route'', bool True)]),
      set_self ''tunnel_route1'' (struct ''sai_thrift_route_entry_t'' [(''vr_id'', self ''uvrf1''), (''destination'', ip_prefix
        (add (self ''tun_ip1'') (self ''tun_lpb_mask'')))]),
      run (api_create_entry ''route_entry'' (self ''tunnel_route1'') [(''next_hop_id'', self ''unhop1'')]),
      set_self ''urif2'' (api_create ''router_interface'' [(''type'', num SAI_ROUTER_INTERFACE_TYPE_PORT),
        (''virtual_router_id'', self ''uvrf2''), (''port_id'', self ''uport2'')]),
      set_self ''unhop2'' (api_create ''next_hop'' [(''ip'', ip_address (self ''tun_ip2'')), (''router_interface_id'', self
        ''urif2''), (''type'', num SAI_NEXT_HOP_TYPE_IP)]),
      set_self ''unbor2'' (struct ''sai_thrift_neighbor_entry_t'' [(''rif_id'', self ''urif2''), (''ip_address'', ip_address
        (self ''tun_ip2''))]),
      run (api_create_entry ''neighbor_entry'' (self ''unbor2'') [(''dst_mac_address'', self ''unbor_mac2''),
        (''no_host_route'', bool True)]),
      set_self ''tunnel_route2'' (struct ''sai_thrift_route_entry_t'' [(''vr_id'', self ''uvrf2''), (''destination'', ip_prefix
        (add (self ''tun_ip2'') (self ''tun_lpb_mask'')))]),
      run (api_create_entry ''route_entry'' (self ''tunnel_route2'') [(''next_hop_id'', self ''unhop2'')]),
      set_self ''urif3'' (api_create ''router_interface'' [(''type'', num SAI_ROUTER_INTERFACE_TYPE_PORT),
        (''virtual_router_id'', self ''uvrf3''), (''port_id'', self ''uport3'')]),
      set_self ''unhop3'' (api_create ''next_hop'' [(''ip'', ip_address (self ''tun_ip3'')), (''router_interface_id'', self
        ''urif3''), (''type'', num SAI_NEXT_HOP_TYPE_IP)]),
      set_self ''unbor3'' (struct ''sai_thrift_neighbor_entry_t'' [(''rif_id'', self ''urif1''), (''ip_address'', ip_address
        (self ''tun_ip3''))]),
      run (api_create_entry ''neighbor_entry'' (self ''unbor3'') [(''dst_mac_address'', self ''unbor_mac3''),
        (''no_host_route'', bool True)]),
      set_self ''tunnel_route3'' (struct ''sai_thrift_route_entry_t'' [(''vr_id'', self ''uvrf3''), (''destination'', ip_prefix
        (add (self ''tun_ip3'') (self ''tun_lpb_mask'')))]),
      run (api_create_entry ''route_entry'' (self ''tunnel_route3'') [(''next_hop_id'', self ''unhop3'')]),
      set_self ''encap_tunnel_map'' (api_create ''tunnel_map'' [(''type'', num SAI_TUNNEL_MAP_TYPE_VIRTUAL_ROUTER_ID_TO_VNI)]),
      set_self ''decap_tunnel_map'' (api_create ''tunnel_map'' [(''type'', num SAI_TUNNEL_MAP_TYPE_VNI_TO_VIRTUAL_ROUTER_ID)]),
      set_self ''encap_tunnel_map_entry'' (api_create ''tunnel_map_entry'' [(''tunnel_map'', self ''encap_tunnel_map''),
        (''tunnel_map_type'', num SAI_TUNNEL_MAP_TYPE_VIRTUAL_ROUTER_ID_TO_VNI), (''virtual_router_id_key'', self ''ovrf''),
        (''vni_id_value'', self ''vni'')]),
      set_self ''decap_tunnel_map_entry'' (api_create ''tunnel_map_entry'' [(''tunnel_map'', self ''encap_tunnel_map''),
        (''tunnel_map_type'', num SAI_TUNNEL_MAP_TYPE_VNI_TO_VIRTUAL_ROUTER_ID), (''virtual_router_id_value'', self ''ovrf''),
        (''vni_id_key'', self ''vni'')]),
      assign ''encap_maps'' (struct ''sai_thrift_object_list_t'' [(''count'', num 1), (''idlist'', list_of [self
        ''encap_tunnel_map''])]),
      assign ''decap_maps'' (struct ''sai_thrift_object_list_t'' [(''count'', num 1), (''idlist'', list_of [self
        ''decap_tunnel_map''])]),
      set_self ''tunnel'' (api_create ''tunnel'' [(''type'', var ''tunnel_type''), (''encap_src_ip'', ip_address (self
        ''lpb_ip1'')), (''encap_mappers'', var ''encap_maps''), (''decap_mappers'', var ''decap_maps''), (''encap_ttl_mode'',
        var ''ttl_mode''), (''decap_ttl_mode'', var ''ttl_mode''), (''underlay_interface'', self ''urif_lpb'')]),
      set_self ''tunnel_term1'' (api_create ''tunnel_term_table_entry'' [(''tunnel_type'', var ''tunnel_type''), (''vr_id'',
        self ''uvrf1''), (''action_tunnel_id'', self ''tunnel''), (''type'', var ''term_type''), (''src_ip'', ip_address (self
        ''tun_ip1'')), (''dst_ip'', ip_address (self ''lpb_ip1''))]),
      set_self ''tunnel_term2'' (api_create ''tunnel_term_table_entry'' [(''tunnel_type'', var ''tunnel_type''), (''vr_id'',
        self ''uvrf2''), (''action_tunnel_id'', self ''tunnel''), (''type'', var ''term_type''), (''src_ip'', ip_address (self
        ''tun_ip2'')), (''dst_ip'', ip_address (self ''lpb_ip2''))]),
      set_self ''tunnel_term3'' (api_create ''tunnel_term_table_entry'' [(''tunnel_type'', var ''tunnel_type''), (''vr_id'',
        self ''uvrf3''), (''action_tunnel_id'', self ''tunnel''), (''type'', var ''term_type''), (''src_ip'', ip_address (self
        ''tun_ip3'')), (''dst_ip'', ip_address (self ''lpb_ip3''))]),
      set_self ''tunnel_nhop'' (api_create ''next_hop'' [(''type'', num SAI_NEXT_HOP_TYPE_TUNNEL_ENCAP), (''tunnel_id'', self
        ''tunnel''), (''ip'', ip_address (self ''tun_ip1'')), (''tunnel_mac'', self ''inner_dmac''), (''tunnel_vni'', self
        ''vni'')]),
      set_self ''vm_route'' (struct ''sai_thrift_route_entry_t'' [(''vr_id'', self ''ovrf''), (''destination'', ip_prefix (add
        (self ''vm_ip'') (str ''/32'')))]),
      run (api_create_entry ''route_entry'' (self ''vm_route'') [(''next_hop_id'', self ''tunnel_nhop'')]),
      set_self ''vm_v6_route'' (struct ''sai_thrift_route_entry_t'' [(''vr_id'', self ''ovrf''), (''destination'', ip_prefix
        (add (self ''vm_ipv6'') (str ''/128'')))]),
      run (api_create_entry ''route_entry'' (self ''vm_v6_route'') [(''next_hop_id'', self ''tunnel_nhop'')]),
      set_self ''orif'' (api_create ''router_interface'' [(''type'', num SAI_ROUTER_INTERFACE_TYPE_PORT),
        (''virtual_router_id'', self ''ovrf''), (''port_id'', self ''oport'')]),
      set_self ''onhop'' (api_create ''next_hop'' [(''ip'', ip_address (self ''customer_ip'')), (''router_interface_id'', self
        ''orif''), (''type'', num SAI_NEXT_HOP_TYPE_IP)]),
      set_self ''onbor'' (struct ''sai_thrift_neighbor_entry_t'' [(''rif_id'', self ''orif''), (''ip_address'', ip_address (self
        ''customer_ip''))]),
      run (api_create_entry ''neighbor_entry'' (self ''onbor'') [(''dst_mac_address'', self ''customer_mac''),
        (''no_host_route'', bool True)]),
      set_self ''customer_route'' (struct ''sai_thrift_route_entry_t'' [(''vr_id'', self ''ovrf''), (''destination'', ip_prefix
        (add (self ''customer_ip'') (str ''/32'')))]),
      run (api_create_entry ''route_entry'' (self ''customer_route'') [(''next_hop_id'', self ''onhop'')]),
      set_self ''onhop_v6'' (api_create ''next_hop'' [(''ip'', ip_address (self ''customer_ipv6'')), (''router_interface_id'',
        self ''orif''), (''type'', num SAI_NEXT_HOP_TYPE_IP)]),
      set_self ''onbor_v6'' (struct ''sai_thrift_neighbor_entry_t'' [(''rif_id'', self ''orif''), (''ip_address'', ip_address
        (self ''customer_ipv6''))]),
      run (api_create_entry ''neighbor_entry'' (self ''onbor_v6'') [(''dst_mac_address'', self ''customer_mac''),
        (''no_host_route'', bool True)]),
      set_self ''customer_v6_route'' (struct ''sai_thrift_route_entry_t'' [(''vr_id'', self ''ovrf''), (''destination'',
        ip_prefix (add (self ''customer_ipv6'') (str ''/128'')))]),
      run (api_create_entry ''route_entry'' (self ''customer_v6_route'') [(''next_hop_id'', self ''onhop_v6'')])]"

definition VxLanP2MpTnnnelBase_tearDown :: "'d stmt" where
  "VxLanP2MpTnnnelBase_tearDown = block [
      run (api_remove ''route_entry'' (self ''customer_v6_route'')),
      run (api_remove ''neighbor_entry'' (self ''onbor_v6'')),
      run (api_remove ''next_hop'' (self ''onhop_v6'')),
      run (api_remove ''route_entry'' (self ''customer_route'')),
      run (api_remove ''neighbor_entry'' (self ''onbor'')),
      run (api_remove ''next_hop'' (self ''onhop'')),
      run (api_remove ''router_interface'' (self ''orif'')),
      run (api_remove ''route_entry'' (self ''vm_v6_route'')),
      run (api_remove ''route_entry'' (self ''vm_route'')),
      run (api_remove ''next_hop'' (self ''tunnel_nhop'')),
      run (api_remove ''tunnel_term_table_entry'' (self ''tunnel_term3'')),
      run (api_remove ''tunnel_term_table_entry'' (self ''tunnel_term2'')),
      run (api_remove ''tunnel_term_table_entry'' (self ''tunnel_term1'')),
      run (api_remove ''tunnel'' (self ''tunnel'')),
      run (api_remove ''tunnel_map_entry'' (self ''decap_tunnel_map_entry'')),
      run (api_remove ''tunnel_map_entry'' (self ''encap_tunnel_map_entry'')),
      run (api_remove ''tunnel_map'' (self ''decap_tunnel_map'')),
      run (api_remove ''tunnel_map'' (self ''encap_tunnel_map'')),
      run (api_remove ''route_entry'' (self ''tunnel_route3'')),
      run (api_remove ''neighbor_entry'' (self ''unbor3'')),
      run (api_remove ''next_hop'' (self ''unhop3'')),
      run (api_remove ''router_interface'' (self ''urif3'')),
      run (api_remove ''route_entry'' (self ''tunnel_route2'')),
      run (api_remove ''neighbor_entry'' (self ''unbor2'')),
      run (api_remove ''next_hop'' (self ''unhop2'')),
      run (api_remove ''router_interface'' (self ''urif2'')),
      run (api_remove ''route_entry'' (self ''tunnel_route1'')),
      run (api_remove ''neighbor_entry'' (self ''unbor1'')),
      run (api_remove ''next_hop'' (self ''unhop1'')),
      run (api_remove ''router_interface'' (self ''urif1'')),
      run (api_remove ''router_interface'' (self ''urif_lpb'')),
      run (api_remove ''virtual_router'' (self ''ovrf'')),
      run (api_remove ''virtual_router'' (self ''uvrf3'')),
      run (api_remove ''virtual_router'' (self ''uvrf2'')),
      run (api_remove ''virtual_router'' (self ''uvrf1'')),
      super_tearDown]"

definition VxLanP2MpTnnnelBase_vxLanP2MpSingleIpv4OvrfTunnelTest :: "'d stmt" where
  "VxLanP2MpTnnnelBase_vxLanP2MpSingleIpv4OvrfTunnelTest = block [
      assign ''pkt'' (lib ''simple_udp_packet'' [] [(''eth_dst'', str ROUTER_MAC), (''eth_src'', self ''customer_mac''),
        (''ip_dst'', self ''vm_ip''), (''ip_src'', self ''customer_ip''), (''ip_id'', num 108), (''ip_ttl'', num 64)]),
      assign ''inner_pkt'' (lib ''simple_udp_packet'' [] [(''eth_dst'', self ''inner_dmac''), (''eth_src'', str ROUTER_MAC),
        (''ip_dst'', self ''vm_ip''), (''ip_src'', self ''customer_ip''), (''ip_id'', num 108), (''ip_ttl'', num 63)]),
      if_else (is_false (self ''ipv6'')) [
        assign ''vxlan_pkt'' (lib ''Mask'' [lib ''simple_vxlan_packet'' [] [(''eth_dst'', self ''unbor_mac1''), (''eth_src'',
          str ROUTER_MAC), (''ip_dst'', self ''tun_ip1''), (''ip_src'', self ''lpb_ip1''), (''ip_id'', num 0), (''ip_ttl'', num
          64), (''ip_flags'', num 2), (''with_udp_chksum'', bool False), (''vxlan_vni'', self ''vni''), (''inner_frame'', var
          ''inner_pkt'')]] [])] [
        assign ''vxlan_pkt'' (lib ''Mask'' [lib ''simple_vxlanv6_packet'' [] [(''eth_dst'', self ''unbor_mac1''), (''eth_src'',
          str ROUTER_MAC), (''ipv6_dst'', self ''tun_ip1''), (''ipv6_src'', self ''lpb_ip1''), (''ipv6_hlim'', num 64),
          (''with_udp_chksum'', bool False), (''vxlan_vni'', self ''vni''), (''inner_frame'', var ''inner_pkt'')]] [])],
      assign ''vxlan_pkt'' (lib ''.set_do_not_care_scapy'' [var ''vxlan_pkt'', str ''UDP'', str ''sport''] []),
      print [if_exp (self ''ipv6'') (num 6) (num 4)],
      run (lib ''send_packet'' [self ''oport_dev'', var ''pkt''] []),
      run (lib ''verify_packet'' [var ''vxlan_pkt'', self ''uport1_dev''] []),
      assign ''pkt'' (lib ''simple_udp_packet'' [] [(''eth_dst'', self ''customer_mac''), (''eth_src'', str ROUTER_MAC),
        (''ip_dst'', self ''customer_ip''), (''ip_src'', self ''vm_ip''), (''ip_id'', num 108), (''ip_ttl'', num 63)]),
      assign ''inner_pkt'' (lib ''simple_udp_packet'' [] [(''eth_dst'', str ROUTER_MAC), (''eth_src'', self ''inner_dmac''),
        (''ip_dst'', self ''customer_ip''), (''ip_src'', self ''vm_ip''), (''ip_id'', num 108), (''ip_ttl'', num 64)]),
      if_else (is_false (self ''ipv6'')) [
        assign ''vxlan_pkt'' (lib ''simple_vxlan_packet'' [] [(''eth_dst'', str ROUTER_MAC), (''eth_src'', self ''unbor_mac1''),
          (''ip_dst'', self ''lpb_ip1''), (''ip_src'', self ''tun_ip1''), (''ip_id'', num 0), (''ip_ttl'', num 64),
          (''ip_flags'', num 2), (''udp_sport'', num 11638), (''with_udp_chksum'', bool False), (''vxlan_vni'', self ''vni''),
          (''inner_frame'', var ''inner_pkt'')])] [
        assign ''vxlan_pkt'' (lib ''simple_vxlanv6_packet'' [] [(''eth_dst'', str ROUTER_MAC), (''eth_src'', self
          ''unbor_mac1''), (''ipv6_dst'', self ''lpb_ip1''), (''ipv6_src'', self ''tun_ip1''), (''ipv6_hlim'', num 64),
          (''udp_sport'', num 11638), (''with_udp_chksum'', bool False), (''vxlan_vni'', self ''vni''), (''inner_frame'', var
          ''inner_pkt'')])],
      print [if_exp (self ''ipv6'') (num 6) (num 4)],
      run (lib ''send_packet'' [self ''uport1_dev'', var ''vxlan_pkt''] []),
      run (lib ''verify_packet'' [var ''pkt'', self ''oport_dev''] []),
      assign ''pkt'' (lib ''simple_udp_packet'' [] [(''eth_dst'', self ''customer_mac''), (''eth_src'', str ROUTER_MAC),
        (''ip_dst'', self ''customer_ip''), (''ip_src'', self ''vm_ip''), (''ip_id'', num 108), (''ip_ttl'', num 63)]),
      assign ''inner_pkt'' (lib ''simple_udp_packet'' [] [(''eth_dst'', str ROUTER_MAC), (''eth_src'', self ''inner_dmac''),
        (''ip_dst'', self ''customer_ip''), (''ip_src'', self ''vm_ip''), (''ip_id'', num 108), (''ip_ttl'', num 64)]),
      if_else (is_false (self ''ipv6'')) [
        assign ''vxlan_pkt'' (lib ''simple_vxlan_packet'' [] [(''eth_dst'', str ROUTER_MAC), (''eth_src'', self ''unbor_mac2''),
          (''ip_dst'', self ''lpb_ip2''), (''ip_src'', self ''tun_ip2''), (''ip_id'', num 0), (''ip_ttl'', num 64),
          (''ip_flags'', num 2), (''udp_sport'', num 11638), (''with_udp_chksum'', bool False), (''vxlan_vni'', self ''vni''),
          (''inner_frame'', var ''inner_pkt'')])] [
        assign ''vxlan_pkt'' (lib ''simple_vxlanv6_packet'' [] [(''eth_dst'', str ROUTER_MAC), (''eth_src'', self
          ''unbor_mac2''), (''ipv6_dst'', self ''lpb_ip2''), (''ipv6_src'', self ''tun_ip2''), (''ipv6_hlim'', num 64),
          (''udp_sport'', num 11638), (''with_udp_chksum'', bool False), (''vxlan_vni'', self ''vni''), (''inner_frame'', var
          ''inner_pkt'')])],
      print [if_exp (self ''ipv6'') (num 6) (num 4)],
      run (lib ''send_packet'' [self ''uport2_dev'', var ''vxlan_pkt''] []),
      run (lib ''verify_packet'' [var ''pkt'', self ''oport_dev''] []),
      assign ''pkt'' (lib ''simple_udp_packet'' [] [(''eth_dst'', self ''customer_mac''), (''eth_src'', str ROUTER_MAC),
        (''ip_dst'', self ''customer_ip''), (''ip_src'', self ''vm_ip''), (''ip_id'', num 108), (''ip_ttl'', num 63)]),
      assign ''inner_pkt'' (lib ''simple_udp_packet'' [] [(''eth_dst'', str ROUTER_MAC), (''eth_src'', self ''inner_dmac''),
        (''ip_dst'', self ''customer_ip''), (''ip_src'', self ''vm_ip''), (''ip_id'', num 108), (''ip_ttl'', num 64)]),
      if_else (is_false (self ''ipv6'')) [
        assign ''vxlan_pkt'' (lib ''simple_vxlan_packet'' [] [(''eth_dst'', str ROUTER_MAC), (''eth_src'', self ''unbor_mac3''),
          (''ip_dst'', self ''lpb_ip3''), (''ip_src'', self ''tun_ip3''), (''ip_id'', num 0), (''ip_ttl'', num 64),
          (''ip_flags'', num 2), (''udp_sport'', num 11638), (''with_udp_chksum'', bool False), (''vxlan_vni'', self ''vni''),
          (''inner_frame'', var ''inner_pkt'')])] [
        assign ''vxlan_pkt'' (lib ''simple_vxlanv6_packet'' [] [(''eth_dst'', str ROUTER_MAC), (''eth_src'', self
          ''unbor_mac3''), (''ipv6_dst'', self ''lpb_ip3''), (''ipv6_src'', self ''tun_ip3''), (''ipv6_hlim'', num 64),
          (''udp_sport'', num 11638), (''with_udp_chksum'', bool False), (''vxlan_vni'', self ''vni''), (''inner_frame'', var
          ''inner_pkt'')])],
      print [if_exp (self ''ipv6'') (num 6) (num 4)],
      run (lib ''send_packet'' [self ''uport3_dev'', var ''vxlan_pkt''] []),
      run (lib ''verify_packet'' [var ''pkt'', self ''oport_dev''] [])]"

definition VxLanP2MpTnnnelBase_vxLanP2MpSingleIpv6OvrfTunnelTest :: "'d stmt" where
  "VxLanP2MpTnnnelBase_vxLanP2MpSingleIpv6OvrfTunnelTest = block [
      assign ''pkt'' (lib ''simple_udpv6_packet'' [] [(''eth_dst'', str ROUTER_MAC), (''eth_src'', self ''customer_mac''),
        (''ipv6_dst'', self ''vm_ipv6''), (''ipv6_src'', self ''customer_ipv6''), (''ipv6_hlim'', num 64)]),
      assign ''inner_pkt'' (lib ''simple_udpv6_packet'' [] [(''eth_dst'', self ''inner_dmac''), (''eth_src'', str ROUTER_MAC),
        (''ipv6_dst'', self ''vm_ipv6''), (''ipv6_src'', self ''customer_ipv6''), (''ipv6_hlim'', num 63)]),
      if_else (is_false (self ''ipv6'')) [
        assign ''vxlan_pkt'' (lib ''Mask'' [lib ''simple_vxlan_packet'' [] [(''eth_dst'', self ''unbor_mac1''), (''eth_src'',
          str ROUTER_MAC), (''ip_dst'', self ''tun_ip1''), (''ip_src'', self ''lpb_ip1''), (''ip_id'', num 0), (''ip_ttl'', num
          64), (''ip_flags'', num 2), (''with_udp_chksum'', bool False), (''vxlan_vni'', self ''vni''), (''inner_frame'', var
          ''inner_pkt'')]] [])] [
        assign ''vxlan_pkt'' (lib ''Mask'' [lib ''simple_vxlanv6_packet'' [] [(''eth_dst'', self ''unbor_mac1''), (''eth_src'',
          str ROUTER_MAC), (''ipv6_dst'', self ''tun_ip1''), (''ipv6_src'', self ''lpb_ip1''), (''ipv6_hlim'', num 64),
          (''with_udp_chksum'', bool False), (''vxlan_vni'', self ''vni''), (''inner_frame'', var ''inner_pkt'')]] [])],
      assign ''vxlan_pkt'' (lib ''.set_do_not_care_scapy'' [var ''vxlan_pkt'', str ''UDP'', str ''sport''] []),
      print [if_exp (self ''ipv6'') (num 6) (num 4)],
      run (lib ''send_packet'' [self ''oport_dev'', var ''pkt''] []),
      run (lib ''verify_packet'' [var ''vxlan_pkt'', self ''uport1_dev''] []),
      assign ''pkt'' (lib ''simple_udpv6_packet'' [] [(''eth_dst'', self ''customer_mac''), (''eth_src'', str ROUTER_MAC),
        (''ipv6_dst'', self ''customer_ipv6''), (''ipv6_src'', self ''vm_ipv6''), (''ipv6_hlim'', num 63)]),
      assign ''inner_pkt'' (lib ''simple_udpv6_packet'' [] [(''eth_dst'', str ROUTER_MAC), (''eth_src'', self ''inner_dmac''),
        (''ipv6_dst'', self ''customer_ipv6''), (''ipv6_src'', self ''vm_ipv6''), (''ipv6_hlim'', num 64)]),
      if_else (is_false (self ''ipv6'')) [
        assign ''vxlan_pkt'' (lib ''simple_vxlan_packet'' [] [(''eth_dst'', str ROUTER_MAC), (''eth_src'', self ''unbor_mac1''),
          (''ip_dst'', self ''lpb_ip1''), (''ip_src'', self ''tun_ip1''), (''ip_id'', num 0), (''ip_ttl'', num 64),
          (''ip_flags'', num 2), (''udp_sport'', num 11638), (''with_udp_chksum'', bool False), (''vxlan_vni'', self ''vni''),
          (''inner_frame'', var ''inner_pkt'')])] [
        assign ''vxlan_pkt'' (lib ''simple_vxlanv6_packet'' [] [(''eth_dst'', str ROUTER_MAC), (''eth_src'', self
          ''unbor_mac1''), (''ipv6_dst'', self ''lpb_ip1''), (''ipv6_src'', self ''tun_ip1''), (''ipv6_hlim'', num 64),
          (''udp_sport'', num 11638), (''with_udp_chksum'', bool False), (''vxlan_vni'', self ''vni''), (''inner_frame'', var
          ''inner_pkt'')])],
      print [if_exp (self ''ipv6'') (num 6) (num 4)],
      run (lib ''send_packet'' [self ''uport1_dev'', var ''vxlan_pkt''] []),
      run (lib ''verify_packet'' [var ''pkt'', self ''oport_dev''] []),
      assign ''pkt'' (lib ''simple_udpv6_packet'' [] [(''eth_dst'', self ''customer_mac''), (''eth_src'', str ROUTER_MAC),
        (''ipv6_dst'', self ''customer_ipv6''), (''ipv6_src'', self ''vm_ipv6''), (''ipv6_hlim'', num 63)]),
      assign ''inner_pkt'' (lib ''simple_udpv6_packet'' [] [(''eth_dst'', str ROUTER_MAC), (''eth_src'', self ''inner_dmac''),
        (''ipv6_dst'', self ''customer_ipv6''), (''ipv6_src'', self ''vm_ipv6''), (''ipv6_hlim'', num 64)]),
      if_else (is_false (self ''ipv6'')) [
        assign ''vxlan_pkt'' (lib ''simple_vxlan_packet'' [] [(''eth_dst'', str ROUTER_MAC), (''eth_src'', self ''unbor_mac2''),
          (''ip_dst'', self ''lpb_ip2''), (''ip_src'', self ''tun_ip2''), (''ip_id'', num 0), (''ip_ttl'', num 64),
          (''ip_flags'', num 2), (''udp_sport'', num 11638), (''with_udp_chksum'', bool False), (''vxlan_vni'', self ''vni''),
          (''inner_frame'', var ''inner_pkt'')])] [
        assign ''vxlan_pkt'' (lib ''simple_vxlanv6_packet'' [] [(''eth_dst'', str ROUTER_MAC), (''eth_src'', self
          ''unbor_mac2''), (''ipv6_dst'', self ''lpb_ip2''), (''ipv6_src'', self ''tun_ip2''), (''ipv6_hlim'', num 64),
          (''udp_sport'', num 11638), (''with_udp_chksum'', bool False), (''vxlan_vni'', self ''vni''), (''inner_frame'', var
          ''inner_pkt'')])],
      print [if_exp (self ''ipv6'') (num 6) (num 4)],
      run (lib ''send_packet'' [self ''uport2_dev'', var ''vxlan_pkt''] []),
      run (lib ''verify_packet'' [var ''pkt'', self ''oport_dev''] []),
      assign ''pkt'' (lib ''simple_udpv6_packet'' [] [(''eth_dst'', self ''customer_mac''), (''eth_src'', str ROUTER_MAC),
        (''ipv6_dst'', self ''customer_ipv6''), (''ipv6_src'', self ''vm_ipv6''), (''ipv6_hlim'', num 63)]),
      assign ''inner_pkt'' (lib ''simple_udpv6_packet'' [] [(''eth_dst'', str ROUTER_MAC), (''eth_src'', self ''inner_dmac''),
        (''ipv6_dst'', self ''customer_ipv6''), (''ipv6_src'', self ''vm_ipv6''), (''ipv6_hlim'', num 64)]),
      if_else (is_false (self ''ipv6'')) [
        assign ''vxlan_pkt'' (lib ''simple_vxlan_packet'' [] [(''eth_dst'', str ROUTER_MAC), (''eth_src'', self ''unbor_mac3''),
          (''ip_dst'', self ''lpb_ip3''), (''ip_src'', self ''tun_ip3''), (''ip_id'', num 0), (''ip_ttl'', num 64),
          (''ip_flags'', num 2), (''udp_sport'', num 11638), (''with_udp_chksum'', bool False), (''vxlan_vni'', self ''vni''),
          (''inner_frame'', var ''inner_pkt'')])] [
        assign ''vxlan_pkt'' (lib ''simple_vxlanv6_packet'' [] [(''eth_dst'', str ROUTER_MAC), (''eth_src'', self
          ''unbor_mac3''), (''ipv6_dst'', self ''lpb_ip3''), (''ipv6_src'', self ''tun_ip3''), (''ipv6_hlim'', num 64),
          (''udp_sport'', num 11638), (''with_udp_chksum'', bool False), (''vxlan_vni'', self ''vni''), (''inner_frame'', var
          ''inner_pkt'')])],
      print [if_exp (self ''ipv6'') (num 6) (num 4)],
      run (lib ''send_packet'' [self ''uport3_dev'', var ''vxlan_pkt''] []),
      run (lib ''verify_packet'' [var ''pkt'', self ''oport_dev''] [])]"

definition VxLanP2MpTnnnelBase_vxLanP2MpMultipleIpv4OvrfTunnelTest :: "'d stmt" where
  "VxLanP2MpTnnnelBase_vxLanP2MpMultipleIpv4OvrfTunnelTest = block [
      assign ''pkt'' (lib ''simple_udp_packet'' [] [(''eth_dst'', str ROUTER_MAC), (''eth_src'', self ''customer_mac''),
        (''ip_dst'', self ''vm_ip''), (''ip_src'', self ''customer_ip''), (''ip_id'', num 108), (''ip_ttl'', num 64)]),
      assign ''inner_pkt'' (lib ''simple_udp_packet'' [] [(''eth_dst'', self ''inner_dmac''), (''eth_src'', str ROUTER_MAC),
        (''ip_dst'', self ''vm_ip''), (''ip_src'', self ''customer_ip''), (''ip_id'', num 108), (''ip_ttl'', num 63)]),
      if_else (is_false (self ''ipv6'')) [
        assign ''vxlan_pkt'' (lib ''Mask'' [lib ''simple_vxlan_packet'' [] [(''eth_dst'', self ''unbor_mac1''), (''eth_src'',
          str ROUTER_MAC), (''ip_dst'', self ''tun_ip1''), (''ip_src'', self ''lpb_ip1''), (''ip_id'', num 0), (''ip_ttl'', num
          64), (''ip_flags'', num 2), (''with_udp_chksum'', bool False), (''vxlan_vni'', self ''vni''), (''inner_frame'', var
          ''inner_pkt'')]] [])] [
        assign ''vxlan_pkt'' (lib ''Mask'' [lib ''simple_vxlanv6_packet'' [] [(''eth_dst'', self ''unbor_mac1''), (''eth_src'',
          str ROUTER_MAC), (''ipv6_dst'', self ''tun_ip1''), (''ipv6_src'', self ''lpb_ip1''), (''ipv6_hlim'', num 64),
          (''with_udp_chksum'', bool False), (''vxlan_vni'', self ''vni''), (''inner_frame'', var ''inner_pkt'')]] [])],
      assign ''vxlan_pkt'' (lib ''.set_do_not_care_scapy'' [var ''vxlan_pkt'', str ''UDP'', str ''sport''] []),
      print [if_exp (self ''ipv6'') (num 6) (num 4)],
      run (lib ''send_packet'' [self ''oport_dev'', var ''pkt''] []),
      run (lib ''verify_packet'' [var ''vxlan_pkt'', self ''uport1_dev''] []),
      print [if_exp (self ''ipv6'') (num 6) (num 4)],
      for_in [''data''] (var ''pkt_data'') [
        assign ''pkt'' (lib ''simple_udp_packet'' [] [(''eth_dst'', item (var ''data'') (str ''mac'')), (''eth_src'', str
          ROUTER_MAC), (''ip_dst'', item (var ''data'') (str ''ip'')), (''ip_src'', self ''vm_ip''), (''ip_id'', num 108),
          (''ip_ttl'', num 63)]),
        assign ''inner_pkt'' (lib ''simple_udp_packet'' [] [(''eth_dst'', str ROUTER_MAC), (''eth_src'', self ''inner_dmac''),
          (''ip_dst'', item (var ''data'') (str ''ip'')), (''ip_src'', self ''vm_ip''), (''ip_id'', num 108), (''ip_ttl'', num
          64)]),
        if_else (is_false (self ''ipv6'')) [
          assign ''vxlan_pkt'' (lib ''simple_vxlan_packet'' [] [(''eth_dst'', str ROUTER_MAC), (''eth_src'', item (var ''data'')
            (str ''umac'')), (''ip_dst'', item (var ''data'') (str ''lpb_ip'')), (''ip_src'', item (var ''data'') (str
            ''tun_ip'')), (''ip_id'', num 0), (''ip_ttl'', num 64), (''ip_flags'', num 2), (''udp_sport'', num 11638),
            (''with_udp_chksum'', bool False), (''vxlan_vni'', item (var ''data'') (str ''vni'')), (''inner_frame'', var
            ''inner_pkt'')])] [
          assign ''vxlan_pkt'' (lib ''simple_vxlanv6_packet'' [] [(''eth_dst'', str ROUTER_MAC), (''eth_src'', item (var
            ''data'') (str ''umac'')), (''ipv6_dst'', item (var ''data'') (str ''lpb_ip'')), (''ipv6_src'', item (var ''data'')
            (str ''tun_ip'')), (''ipv6_hlim'', num 64), (''udp_sport'', num 11638), (''with_udp_chksum'', bool False),
            (''vxlan_vni'', item (var ''data'') (str ''vni'')), (''inner_frame'', var ''inner_pkt'')])],
        print [item (var ''data'') (str ''vni''), item (var ''data'') (str ''oport'')],
        run (lib ''send_packet'' [item (var ''data'') (str ''uport''), var ''vxlan_pkt''] []),
        run (lib ''verify_packet'' [var ''pkt'', item (var ''data'') (str ''oport'')] [])]]"

definition VxLanP2MpTnnnelBase_vxLanP2MpMultipleIpv6OvrfTunnelTest :: "'d stmt" where
  "VxLanP2MpTnnnelBase_vxLanP2MpMultipleIpv6OvrfTunnelTest = block [
      assign ''pkt'' (lib ''simple_udpv6_packet'' [] [(''eth_dst'', str ROUTER_MAC), (''eth_src'', self ''customer_mac''),
        (''ipv6_dst'', self ''vm_ipv6''), (''ipv6_src'', self ''customer_ipv6''), (''ipv6_hlim'', num 64)]),
      assign ''inner_pkt'' (lib ''simple_udpv6_packet'' [] [(''eth_dst'', self ''inner_dmac''), (''eth_src'', str ROUTER_MAC),
        (''ipv6_dst'', self ''vm_ipv6''), (''ipv6_src'', self ''customer_ipv6''), (''ipv6_hlim'', num 63)]),
      if_else (is_false (self ''ipv6'')) [
        assign ''vxlan_pkt'' (lib ''Mask'' [lib ''simple_vxlan_packet'' [] [(''eth_dst'', self ''unbor_mac1''), (''eth_src'',
          str ROUTER_MAC), (''ip_dst'', self ''tun_ip1''), (''ip_src'', self ''lpb_ip1''), (''ip_id'', num 0), (''ip_ttl'', num
          64), (''ip_flags'', num 2), (''with_udp_chksum'', bool False), (''vxlan_vni'', self ''vni''), (''inner_frame'', var
          ''inner_pkt'')]] [])] [
        assign ''vxlan_pkt'' (lib ''Mask'' [lib ''simple_vxlanv6_packet'' [] [(''eth_dst'', self ''unbor_mac1''), (''eth_src'',
          str ROUTER_MAC), (''ipv6_dst'', self ''tun_ip1''), (''ipv6_src'', self ''lpb_ip1''), (''ipv6_hlim'', num 64),
          (''with_udp_chksum'', bool False), (''vxlan_vni'', self ''vni''), (''inner_frame'', var ''inner_pkt'')]] [])],
      assign ''vxlan_pkt'' (lib ''.set_do_not_care_scapy'' [var ''vxlan_pkt'', str ''UDP'', str ''sport''] []),
      print [if_exp (self ''ipv6'') (num 6) (num 4)],
      run (lib ''send_packet'' [self ''oport_dev'', var ''pkt''] []),
      run (lib ''verify_packet'' [var ''vxlan_pkt'', self ''uport1_dev''] []),
      print [if_exp (self ''ipv6'') (num 6) (num 4)],
      for_in [''data''] (var ''pkt_data'') [
        assign ''pkt'' (lib ''simple_udpv6_packet'' [] [(''eth_dst'', item (var ''data'') (str ''mac'')), (''eth_src'', str
          ROUTER_MAC), (''ipv6_dst'', item (var ''data'') (str ''ipv6'')), (''ipv6_src'', self ''vm_ipv6''), (''ipv6_hlim'', num
          63)]),
        assign ''inner_pkt'' (lib ''simple_udpv6_packet'' [] [(''eth_dst'', str ROUTER_MAC), (''eth_src'', self ''inner_dmac''),
          (''ipv6_dst'', item (var ''data'') (str ''ipv6'')), (''ipv6_src'', self ''vm_ipv6''), (''ipv6_hlim'', num 64)]),
        if_else (is_false (self ''ipv6'')) [
          assign ''vxlan_pkt'' (lib ''simple_vxlan_packet'' [] [(''eth_dst'', str ROUTER_MAC), (''eth_src'', item (var ''data'')
            (str ''umac'')), (''ip_dst'', item (var ''data'') (str ''lpb_ip'')), (''ip_src'', item (var ''data'') (str
            ''tun_ip'')), (''ip_id'', num 0), (''ip_ttl'', num 64), (''ip_flags'', num 2), (''udp_sport'', num 11638),
            (''with_udp_chksum'', bool False), (''vxlan_vni'', item (var ''data'') (str ''vni'')), (''inner_frame'', var
            ''inner_pkt'')])] [
          assign ''vxlan_pkt'' (lib ''simple_vxlanv6_packet'' [] [(''eth_dst'', str ROUTER_MAC), (''eth_src'', item (var
            ''data'') (str ''umac'')), (''ipv6_dst'', item (var ''data'') (str ''lpb_ip'')), (''ipv6_src'', item (var ''data'')
            (str ''tun_ip'')), (''ipv6_hlim'', num 64), (''udp_sport'', num 11638), (''with_udp_chksum'', bool False),
            (''vxlan_vni'', item (var ''data'') (str ''vni'')), (''inner_frame'', var ''inner_pkt'')])],
        print [item (var ''data'') (str ''vni''), item (var ''data'') (str ''oport'')],
        run (lib ''send_packet'' [item (var ''data'') (str ''uport''), var ''vxlan_pkt''] []),
        run (lib ''verify_packet'' [var ''pkt'', item (var ''data'') (str ''oport'')] [])]]"

definition VxLanP2MpTnnnelBase_noMapperEntryMultipleOvrfTunnelTest :: "'d stmt" where
  "VxLanP2MpTnnnelBase_noMapperEntryMultipleOvrfTunnelTest = block [
      assign ''inner_pkt'' (lib ''simple_udp_packet'' [] [(''eth_dst'', str ROUTER_MAC), (''eth_src'', self ''inner_dmac''),
        (''ip_dst'', item (var ''pkt_data'') (str ''ip'')), (''ip_src'', self ''vm_ip''), (''ip_id'', num 108), (''ip_ttl'', num
        64)]),
      if_else (is_false (self ''ipv6'')) [
        assign ''vxlan_pkt'' (lib ''simple_vxlan_packet'' [] [(''eth_dst'', str ROUTER_MAC), (''eth_src'', item (var
          ''pkt_data'') (str ''umac'')), (''ip_dst'', item (var ''pkt_data'') (str ''lpb_ip'')), (''ip_src'', item (var
          ''pkt_data'') (str ''tun_ip'')), (''ip_id'', num 0), (''ip_ttl'', num 64), (''ip_flags'', num 2), (''udp_sport'', num
          11638), (''with_udp_chksum'', bool False), (''vxlan_vni'', item (var ''pkt_data'') (str ''vni'')), (''inner_frame'',
          var ''inner_pkt'')])] [
        assign ''vxlan_pkt'' (lib ''simple_vxlanv6_packet'' [] [(''eth_dst'', str ROUTER_MAC), (''eth_src'', item (var
          ''pkt_data'') (str ''umac'')), (''ipv6_dst'', item (var ''pkt_data'') (str ''lpb_ip'')), (''ipv6_src'', item (var
          ''pkt_data'') (str ''tun_ip'')), (''ipv6_hlim'', num 64), (''udp_sport'', num 11638), (''with_udp_chksum'', bool
          False), (''vxlan_vni'', item (var ''pkt_data'') (str ''vni'')), (''inner_frame'', var ''inner_pkt'')])],
      print [item (var ''pkt_data'') (str ''vni''), item (var ''pkt_data'') (str ''oport'')],
      run (lib ''send_packet'' [item (var ''pkt_data'') (str ''uport''), var ''vxlan_pkt''] []),
      run (lib ''verify_no_other_packets'' [] [])]"

definition VxLanP2MpTnnnelBase_vxLanP2MpMultipleOvrfTunnelTest :: "'d stmt" where
  "VxLanP2MpTnnnelBase_vxLanP2MpMultipleOvrfTunnelTest = block [
      try_finally [
        assign ''oport2'' (self ''port28''),
        assign ''oport2_dev'' (self ''dev_port28''),
        assign ''oport3'' (self ''port29''),
        assign ''oport3_dev'' (self ''dev_port29''),
        assign ''vni2'' (num 2000),
        assign ''vni3'' (num 3000),
        assign ''customer2_ip'' (str ''100.100.2.1''),
        assign ''customer2_ipv6'' (str ''2001:0db8::2:1''),
        assign ''customer2_mac'' (str ''00:22:22:22:22:22''),
        assign ''customer3_ip'' (str ''100.100.3.1''),
        assign ''customer3_ipv6'' (str ''2001:0db8::3:1''),
        assign ''customer3_mac'' (str ''00:22:22:22:22:33''),
        assign ''ovrf2'' (api_create ''virtual_router'' []),
        assign ''ovrf3'' (api_create ''virtual_router'' []),
        assign ''orif2'' (api_create ''router_interface'' [(''type'', num SAI_ROUTER_INTERFACE_TYPE_PORT),
          (''virtual_router_id'', var ''ovrf2''), (''port_id'', var ''oport2'')]),
        assign ''orif3'' (api_create ''router_interface'' [(''type'', num SAI_ROUTER_INTERFACE_TYPE_PORT),
          (''virtual_router_id'', var ''ovrf3''), (''port_id'', var ''oport3'')]),
        assign ''encap_tunnel_map_entry2'' (api_create ''tunnel_map_entry'' [(''tunnel_map'', self ''encap_tunnel_map''),
          (''tunnel_map_type'', num SAI_TUNNEL_MAP_TYPE_VIRTUAL_ROUTER_ID_TO_VNI), (''virtual_router_id_key'', var ''ovrf2''),
          (''vni_id_value'', var ''vni2'')]),
        assign ''decap_tunnel_map_entry2'' (api_create ''tunnel_map_entry'' [(''tunnel_map'', self ''encap_tunnel_map''),
          (''tunnel_map_type'', num SAI_TUNNEL_MAP_TYPE_VNI_TO_VIRTUAL_ROUTER_ID), (''virtual_router_id_key'', var ''ovrf2''),
          (''vni_id_value'', var ''vni2'')]),
        assign ''onhop2'' (api_create ''next_hop'' [(''ip'', ip_address (var ''customer2_ip'')), (''router_interface_id'', var
          ''orif2''), (''type'', num SAI_NEXT_HOP_TYPE_IP)]),
        assign ''onbor2'' (struct ''sai_thrift_neighbor_entry_t'' [(''rif_id'', var ''orif2''), (''ip_address'', ip_address (var
          ''customer2_ip''))]),
        run (api_create_entry ''neighbor_entry'' (var ''onbor2'') [(''dst_mac_address'', var ''customer2_mac''),
          (''no_host_route'', bool True)]),
        assign ''customer2_route'' (struct ''sai_thrift_route_entry_t'' [(''vr_id'', var ''ovrf2''), (''destination'', ip_prefix
          (add (var ''customer2_ip'') (str ''/32'')))]),
        run (api_create_entry ''route_entry'' (var ''customer2_route'') [(''next_hop_id'', var ''onhop2'')]),
        assign ''onhop2_v6'' (api_create ''next_hop'' [(''ip'', ip_address (var ''customer2_ipv6'')), (''router_interface_id'',
          var ''orif2''), (''type'', num SAI_NEXT_HOP_TYPE_IP)]),
        assign ''onbor2_v6'' (struct ''sai_thrift_neighbor_entry_t'' [(''rif_id'', var ''orif2''), (''ip_address'', ip_address
          (var ''customer2_ipv6''))]),
        run (api_create_entry ''neighbor_entry'' (var ''onbor2_v6'') [(''dst_mac_address'', var ''customer2_mac''),
          (''no_host_route'', bool True)]),
        assign ''customer2_v6_route'' (struct ''sai_thrift_route_entry_t'' [(''vr_id'', var ''ovrf2''), (''destination'',
          ip_prefix (add (var ''customer2_ipv6'') (str ''/128'')))]),
        run (api_create_entry ''route_entry'' (var ''customer2_v6_route'') [(''next_hop_id'', var ''onhop2_v6'')]),
        assign ''onhop3'' (api_create ''next_hop'' [(''ip'', ip_address (var ''customer3_ip'')), (''router_interface_id'', var
          ''orif3''), (''type'', num SAI_NEXT_HOP_TYPE_IP)]),
        assign ''onbor3'' (struct ''sai_thrift_neighbor_entry_t'' [(''rif_id'', var ''orif3''), (''ip_address'', ip_address (var
          ''customer3_ip''))]),
        run (api_create_entry ''neighbor_entry'' (var ''onbor3'') [(''dst_mac_address'', var ''customer3_mac''),
          (''no_host_route'', bool True)]),
        assign ''customer3_route'' (struct ''sai_thrift_route_entry_t'' [(''vr_id'', var ''ovrf3''), (''destination'', ip_prefix
          (add (var ''customer3_ip'') (str ''/32'')))]),
        run (api_create_entry ''route_entry'' (var ''customer3_route'') [(''next_hop_id'', var ''onhop3'')]),
        assign ''onhop3_v6'' (api_create ''next_hop'' [(''ip'', ip_address (var ''customer3_ipv6'')), (''router_interface_id'',
          var ''orif3''), (''type'', num SAI_NEXT_HOP_TYPE_IP)]),
        assign ''onbor3_v6'' (struct ''sai_thrift_neighbor_entry_t'' [(''rif_id'', var ''orif3''), (''ip_address'', ip_address
          (var ''customer3_ipv6''))]),
        run (api_create_entry ''neighbor_entry'' (var ''onbor3_v6'') [(''dst_mac_address'', var ''customer3_mac''),
          (''no_host_route'', bool True)]),
        assign ''customer3_v6_route'' (struct ''sai_thrift_route_entry_t'' [(''vr_id'', var ''ovrf3''), (''destination'',
          ip_prefix (add (var ''customer3_ipv6'') (str ''/128'')))]),
        run (api_create_entry ''route_entry'' (var ''customer3_v6_route'') [(''next_hop_id'', var ''onhop3_v6'')]),
        assign ''pkt_data'' (list_of [dict_of [(str ''oport'', self ''oport_dev''), (str ''uport'', self ''uport1_dev''), (str
          ''ip'', self ''customer_ip''), (str ''ipv6'', self ''customer_ipv6''), (str ''mac'', self ''customer_mac''), (str
          ''umac'', self ''unbor_mac1''), (str ''tun_ip'', self ''tun_ip1''), (str ''lpb_ip'', self ''lpb_ip1''), (str ''vni'',
          self ''vni'')], dict_of [(str ''oport'', var ''oport2_dev''), (str ''uport'', self ''uport2_dev''), (str ''ip'', var
          ''customer2_ip''), (str ''ipv6'', var ''customer2_ipv6''), (str ''mac'', var ''customer2_mac''), (str ''umac'', self
          ''unbor_mac2''), (str ''tun_ip'', self ''tun_ip2''), (str ''lpb_ip'', self ''lpb_ip2''), (str ''vni'', var
          ''vni2'')]]),
        run (invoke [(''pkt_data'', var ''pkt_data'')] VxLanP2MpTnnnelBase_vxLanP2MpMultipleIpv4OvrfTunnelTest),
        run (invoke [(''pkt_data'', var ''pkt_data'')] VxLanP2MpTnnnelBase_vxLanP2MpMultipleIpv6OvrfTunnelTest),
        assign ''encap_tunnel_map_entry3'' (api_create ''tunnel_map_entry'' [(''tunnel_map'', self ''encap_tunnel_map''),
          (''tunnel_map_type'', num SAI_TUNNEL_MAP_TYPE_VIRTUAL_ROUTER_ID_TO_VNI), (''virtual_router_id_key'', var ''ovrf3''),
          (''vni_id_value'', var ''vni3'')]),
        assign ''decap_tunnel_map_entry3'' (api_create ''tunnel_map_entry'' [(''tunnel_map'', self ''encap_tunnel_map''),
          (''tunnel_map_type'', num SAI_TUNNEL_MAP_TYPE_VNI_TO_VIRTUAL_ROUTER_ID), (''virtual_router_id_key'', var ''ovrf3''),
          (''vni_id_value'', var ''vni3'')]),
        assign ''pkt_data'' (appended (var ''pkt_data'') (dict_of [(str ''oport'', var ''oport3_dev''), (str ''uport'', self
          ''uport3_dev''), (str ''ip'', var ''customer3_ip''), (str ''ipv6'', var ''customer3_ipv6''), (str ''mac'', var
          ''customer3_mac''), (str ''umac'', self ''unbor_mac3''), (str ''tun_ip'', self ''tun_ip3''), (str ''lpb_ip'', self
          ''lpb_ip3''), (str ''vni'', var ''vni3'')])),
        run (invoke [(''pkt_data'', var ''pkt_data'')] VxLanP2MpTnnnelBase_vxLanP2MpMultipleIpv4OvrfTunnelTest),
        run (invoke [(''pkt_data'', var ''pkt_data'')] VxLanP2MpTnnnelBase_vxLanP2MpMultipleIpv6OvrfTunnelTest),
        run (api_remove ''tunnel_map_entry'' (var ''decap_tunnel_map_entry3'')),
        run (api_remove ''tunnel_map_entry'' (var ''encap_tunnel_map_entry3'')),
        run (invoke [(''pkt_data'', slice (var ''pkt_data'') 0 (Some 2))]
          VxLanP2MpTnnnelBase_vxLanP2MpMultipleIpv4OvrfTunnelTest),
        run (invoke [(''pkt_data'', slice (var ''pkt_data'') 0 (Some 2))]
          VxLanP2MpTnnnelBase_vxLanP2MpMultipleIpv6OvrfTunnelTest),
        run (invoke [(''pkt_data'', item (var ''pkt_data'') (num 2))] VxLanP2MpTnnnelBase_noMapperEntryMultipleOvrfTunnelTest)] [
        run (api_remove ''route_entry'' (var ''customer3_v6_route'')),
        run (api_remove ''neighbor_entry'' (var ''onbor3_v6'')),
        run (api_remove ''next_hop'' (var ''onhop3_v6'')),
        run (api_remove ''route_entry'' (var ''customer3_route'')),
        run (api_remove ''neighbor_entry'' (var ''onbor3'')),
        run (api_remove ''next_hop'' (var ''onhop3'')),
        run (api_remove ''route_entry'' (var ''customer2_v6_route'')),
        run (api_remove ''neighbor_entry'' (var ''onbor2_v6'')),
        run (api_remove ''next_hop'' (var ''onhop2_v6'')),
        run (api_remove ''route_entry'' (var ''customer2_route'')),
        run (api_remove ''neighbor_entry'' (var ''onbor2'')),
        run (api_remove ''next_hop'' (var ''onhop2'')),
        run (api_remove ''tunnel_map_entry'' (var ''decap_tunnel_map_entry2'')),
        run (api_remove ''tunnel_map_entry'' (var ''encap_tunnel_map_entry2'')),
        run (api_remove ''router_interface'' (var ''orif3'')),
        run (api_remove ''router_interface'' (var ''orif2'')),
        run (api_remove ''virtual_router'' (var ''ovrf3'')),
        run (api_remove ''virtual_router'' (var ''ovrf2''))]]"

definition VxLanP2MpTnnnelIpv4UnderlayTest_runTest :: "'d stmt" where
  "VxLanP2MpTnnnelIpv4UnderlayTest_runTest = block [
      run (invoke [] VxLanP2MpTnnnelBase_vxLanP2MpSingleIpv4OvrfTunnelTest),
      run (invoke [] VxLanP2MpTnnnelBase_vxLanP2MpSingleIpv6OvrfTunnelTest),
      run (invoke [] VxLanP2MpTnnnelBase_vxLanP2MpMultipleOvrfTunnelTest)]"

definition VxLanP2MpTnnnelIpv6UnderlayTest_runTest :: "'d stmt" where
  "VxLanP2MpTnnnelIpv6UnderlayTest_runTest = block [
      run (invoke [] VxLanP2MpTnnnelBase_vxLanP2MpSingleIpv4OvrfTunnelTest),
      run (invoke [] VxLanP2MpTnnnelBase_vxLanP2MpSingleIpv6OvrfTunnelTest),
      run (invoke [] VxLanP2MpTnnnelBase_vxLanP2MpMultipleOvrfTunnelTest)]"

definition IpInIpP2MpTunnelBase_setUp :: "'d stmt" where
  "IpInIpP2MpTunnelBase_setUp = block [
      super_setUp,
      set_self ''oport'' (self ''port24''),
      set_self ''oport_dev'' (self ''dev_port24''),
      set_self ''uport1'' (self ''port25''),
      set_self ''uport1_dev'' (self ''dev_port25''),
      set_self ''uport2'' (self ''port26''),
      set_self ''uport2_dev'' (self ''dev_port26''),
      set_self ''uport3'' (self ''port27''),
      set_self ''uport3_dev'' (self ''dev_port27''),
      set_self ''vm_ip'' (str ''100.100.1.1''),
      set_self ''vm_ipv6'' (str ''2001:0db8::100:1''),
      set_self ''customer_ip'' (str ''100.100.2.1''),
      set_self ''customer_ipv6'' (str ''2001:0db8::100:2''),
      set_self ''inner_dmac'' (str ''00:11:11:11:11:11''),
      set_self ''customer_mac'' (str ''00:22:22:22:22:11''),
      set_self ''unbor_mac1'' (str ''00:33:33:33:33:11''),
      set_self ''unbor_mac2'' (str ''00:33:33:33:33:22''),
      set_self ''unbor_mac3'' (str ''00:33:33:33:33:33''),
      set_self ''uvrf1'' (api_create ''virtual_router'' []),
      set_self ''uvrf2'' (api_create ''virtual_router'' []),
      set_self ''uvrf3'' (api_create ''virtual_router'' []),
      set_self ''ovrf'' (api_create ''virtual_router'' []),
      assign ''tunnel_type'' (num SAI_TUNNEL_TYPE_IPINIP),
      assign ''term_type'' (num SAI_TUNNEL_TERM_TABLE_ENTRY_TYPE_P2MP),
      assign ''ttl_mode'' (num SAI_TUNNEL_TTL_MODE_PIPE_MODEL),
      set_self ''urif_lpb'' (api_create ''router_interface'' [(''type'', num SAI_ROUTER_INTERFACE_TYPE_LOOPBACK),
        (''virtual_router_id'', self ''uvrf1'')]),
      set_self ''orif_lpb'' (api_create ''router_interface'' [(''type'', num SAI_ROUTER_INTERFACE_TYPE_LOOPBACK),
        (''virtual_router_id'', self ''ovrf'')]),
      set_self ''urif1'' (api_create ''router_interface'' [(''type'', num SAI_ROUTER_INTERFACE_TYPE_PORT),
        (''virtual_router_id'', self ''uvrf1''), (''port_id'', self ''uport1'')]),
      set_self ''unhop1'' (api_create ''next_hop'' [(''ip'', ip_address (self ''tun_ip1'')), (''router_interface_id'', self
        ''urif1''), (''type'', num SAI_NEXT_HOP_TYPE_IP)]),
      set_self ''unbor1'' (struct ''sai_thrift_neighbor_entry_t'' [(''rif_id'', self ''urif1''), (''ip_address'', ip_address
        (self ''tun_ip1''))]),
      run (api_create_entry ''neighbor_entry'' (self ''unbor1'') [(''dst_mac_address'', self ''unbor_mac1''),
        (''no_host_route'', bool True)]),
      set_self ''tunnel_route1'' (struct ''sai_thrift_route_entry_t'' [(''vr_id'', self ''uvrf1''), (''destination'', ip_prefix
        (add (self ''tun_ip1'') (self ''tun_ip_mask'')))]),
      run (api_create_entry ''route_entry'' (self ''tunnel_route1'') [(''next_hop_id'', self ''unhop1'')]),
      set_self ''urif2'' (api_create ''router_interface'' [(''type'', num SAI_ROUTER_INTERFACE_TYPE_PORT),
        (''virtual_router_id'', self ''uvrf2''), (''port_id'', self ''uport2'')]),
      set_self ''unhop2'' (api_create ''next_hop'' [(''ip'', ip_address (self ''tun_ip2'')), (''router_interface_id'', self
        ''urif2''), (''type'', num SAI_NEXT_HOP_TYPE_IP)]),
      set_self ''unbor2'' (struct ''sai_thrift_neighbor_entry_t'' [(''rif_id'', self ''urif2''), (''ip_address'', ip_address
        (self ''tun_ip2''))]),
      run (api_create_entry ''neighbor_entry'' (self ''unbor2'') [(''dst_mac_address'', self ''unbor_mac2''),
        (''no_host_route'', bool True)]),
      set_self ''tunnel_route2'' (struct ''sai_thrift_route_entry_t'' [(''vr_id'', self ''uvrf2''), (''destination'', ip_prefix
        (add (self ''tun_ip2'') (self ''tun_ip_mask'')))]),
      run (api_create_entry ''route_entry'' (self ''tunnel_route2'') [(''next_hop_id'', self ''unhop2'')]),
      set_self ''urif3'' (api_create ''router_interface'' [(''type'', num SAI_ROUTER_INTERFACE_TYPE_PORT),
        (''virtual_router_id'', self ''uvrf3''), (''port_id'', self ''uport3'')]),
      set_self ''unhop3'' (api_create ''next_hop'' [(''ip'', ip_address (self ''tun_ip3'')), (''router_interface_id'', self
        ''urif3''), (''type'', num SAI_NEXT_HOP_TYPE_IP)]),
      set_self ''unbor3'' (struct ''sai_thrift_neighbor_entry_t'' [(''rif_id'', self ''urif1''), (''ip_address'', ip_address
        (self ''tun_ip3''))]),
      run (api_create_entry ''neighbor_entry'' (self ''unbor3'') [(''dst_mac_address'', self ''unbor_mac3''),
        (''no_host_route'', bool True)]),
      set_self ''tunnel_route3'' (struct ''sai_thrift_route_entry_t'' [(''vr_id'', self ''uvrf3''), (''destination'', ip_prefix
        (add (self ''tun_ip3'') (self ''tun_ip_mask'')))]),
      run (api_create_entry ''route_entry'' (self ''tunnel_route3'') [(''next_hop_id'', self ''unhop3'')]),
      set_self ''tunnel'' (api_create ''tunnel'' [(''type'', var ''tunnel_type''), (''encap_src_ip'', ip_address (self
        ''lpb_ip1'')), (''encap_ttl_mode'', var ''ttl_mode''), (''decap_ttl_mode'', var ''ttl_mode''), (''underlay_interface'',
        self ''urif_lpb''), (''overlay_interface'', self ''orif_lpb'')]),
      set_self ''tunnel_term1'' (api_create ''tunnel_term_table_entry'' [(''tunnel_type'', var ''tunnel_type''), (''vr_id'',
        self ''uvrf1''), (''action_tunnel_id'', self ''tunnel''), (''type'', var ''term_type''), (''dst_ip'', ip_address (self
        ''lpb_ip1'')), (''src_ip'', ip_address (self ''tun_ip1''))]),
      set_self ''tunnel_term2'' (api_create ''tunnel_term_table_entry'' [(''tunnel_type'', var ''tunnel_type''), (''vr_id'',
        self ''uvrf2''), (''action_tunnel_id'', self ''tunnel''), (''type'', var ''term_type''), (''dst_ip'', ip_address (self
        ''lpb_ip2'')), (''src_ip'', ip_address (self ''tun_ip2''))]),
      set_self ''tunnel_term3'' (api_create ''tunnel_term_table_entry'' [(''tunnel_type'', var ''tunnel_type''), (''vr_id'',
        self ''uvrf3''), (''action_tunnel_id'', self ''tunnel''), (''type'', var ''term_type''), (''dst_ip'', ip_address (self
        ''lpb_ip3'')), (''src_ip'', ip_address (self ''tun_ip3''))]),
      set_self ''tunnel_nhop'' (api_create ''next_hop'' [(''type'', num SAI_NEXT_HOP_TYPE_TUNNEL_ENCAP), (''tunnel_id'', self
        ''tunnel''), (''ip'', ip_address (self ''tun_ip1'')), (''tunnel_mac'', self ''inner_dmac'')]),
      set_self ''vm_route'' (struct ''sai_thrift_route_entry_t'' [(''vr_id'', self ''ovrf''), (''destination'', ip_prefix (add
        (self ''vm_ip'') (str ''/32'')))]),
      run (api_create_entry ''route_entry'' (self ''vm_route'') [(''next_hop_id'', self ''tunnel_nhop'')]),
      set_self ''vm_v6_route'' (struct ''sai_thrift_route_entry_t'' [(''vr_id'', self ''ovrf''), (''destination'', ip_prefix
        (add (self ''vm_ipv6'') (str ''/128'')))]),
      run (api_create_entry ''route_entry'' (self ''vm_v6_route'') [(''next_hop_id'', self ''tunnel_nhop'')]),
      set_self ''orif'' (api_create ''router_interface'' [(''type'', num SAI_ROUTER_INTERFACE_TYPE_PORT),
        (''virtual_router_id'', self ''ovrf''), (''port_id'', self ''oport'')]),
      set_self ''onhop'' (api_create ''next_hop'' [(''ip'', ip_address (self ''customer_ip'')), (''router_interface_id'', self
        ''orif''), (''type'', num SAI_NEXT_HOP_TYPE_IP)]),
      set_self ''onbor'' (struct ''sai_thrift_neighbor_entry_t'' [(''rif_id'', self ''orif''), (''ip_address'', ip_address (self
        ''customer_ip''))]),
      run (api_create_entry ''neighbor_entry'' (self ''onbor'') [(''dst_mac_address'', self ''customer_mac''),
        (''no_host_route'', bool True)]),
      set_self ''customer_route'' (struct ''sai_thrift_route_entry_t'' [(''vr_id'', self ''ovrf''), (''destination'', ip_prefix
        (add (self ''customer_ip'') (str ''/32'')))]),
      run (api_create_entry ''route_entry'' (self ''customer_route'') [(''next_hop_id'', self ''onhop'')]),
      set_self ''onhop_v6'' (api_create ''next_hop'' [(''ip'', ip_address (self ''customer_ipv6'')), (''router_interface_id'',
        self ''orif''), (''type'', num SAI_NEXT_HOP_TYPE_IP)]),
      set_self ''onbor_v6'' (struct ''sai_thrift_neighbor_entry_t'' [(''rif_id'', self ''orif''), (''ip_address'', ip_address
        (self ''customer_ipv6''))]),
      run (api_create_entry ''neighbor_entry'' (self ''onbor_v6'') [(''dst_mac_address'', self ''customer_mac''),
        (''no_host_route'', bool True)]),
      set_self ''customer_v6_route'' (struct ''sai_thrift_route_entry_t'' [(''vr_id'', self ''ovrf''), (''destination'',
        ip_prefix (add (self ''customer_ipv6'') (str ''/128'')))]),
      run (api_create_entry ''route_entry'' (self ''customer_v6_route'') [(''next_hop_id'', self ''onhop_v6'')])]"

definition IpInIpP2MpTunnelBase_tearDown :: "'d stmt" where
  "IpInIpP2MpTunnelBase_tearDown = block [
      run (api_remove ''route_entry'' (self ''customer_v6_route'')),
      run (api_remove ''neighbor_entry'' (self ''onbor_v6'')),
      run (api_remove ''next_hop'' (self ''onhop_v6'')),
      run (api_remove ''route_entry'' (self ''customer_route'')),
      run (api_remove ''neighbor_entry'' (self ''onbor'')),
      run (api_remove ''next_hop'' (self ''onhop'')),
      run (api_remove ''router_interface'' (self ''orif'')),
      run (api_remove ''route_entry'' (self ''vm_v6_route'')),
      run (api_remove ''route_entry'' (self ''vm_route'')),
      run (api_remove ''next_hop'' (self ''tunnel_nhop'')),
      run (api_remove ''tunnel_term_table_entry'' (self ''tunnel_term3'')),
      run (api_remove ''tunnel_term_table_entry'' (self ''tunnel_term2'')),
      run (api_remove ''tunnel_term_table_entry'' (self ''tunnel_term1'')),
      run (api_remove ''tunnel'' (self ''tunnel'')),
      run (api_remove ''route_entry'' (self ''tunnel_route3'')),
      run (api_remove ''neighbor_entry'' (self ''unbor3'')),
      run (api_remove ''next_hop'' (self ''unhop3'')),
      run (api_remove ''router_interface'' (self ''urif3'')),
      run (api_remove ''route_entry'' (self ''tunnel_route2'')),
      run (api_remove ''neighbor_entry'' (self ''unbor2'')),
      run (api_remove ''next_hop'' (self ''unhop2'')),
      run (api_remove ''router_interface'' (self ''urif2'')),
      run (api_remove ''route_entry'' (self ''tunnel_route1'')),
      run (api_remove ''neighbor_entry'' (self ''unbor1'')),
      run (api_remove ''next_hop'' (self ''unhop1'')),
      run (api_remove ''router_interface'' (self ''urif1'')),
      run (api_remove ''router_interface'' (self ''orif_lpb'')),
      run (api_remove ''router_interface'' (self ''urif_lpb'')),
      run (api_remove ''virtual_router'' (self ''ovrf'')),
      run (api_remove ''virtual_router'' (self ''uvrf3'')),
      run (api_remove ''virtual_router'' (self ''uvrf2'')),
      run (api_remove ''virtual_router'' (self ''uvrf1'')),
      super_tearDown]"

definition IpInIpP2MpTunnelBase_innerIpv4P2MpTunnelTest :: "'d stmt" where
  "IpInIpP2MpTunnelBase_innerIpv4P2MpTunnelTest = block [
      assign ''pkt'' (lib ''simple_udp_packet'' [] [(''eth_dst'', str ROUTER_MAC), (''eth_src'', self ''customer_mac''),
        (''ip_dst'', self ''vm_ip''), (''ip_src'', self ''customer_ip''), (''ip_id'', num 108), (''ip_ttl'', num 64)]),
      assign ''inner_pkt'' (lib ''simple_udp_packet'' [] [(''eth_dst'', self ''inner_dmac''), (''eth_src'', str ROUTER_MAC),
        (''ip_dst'', self ''vm_ip''), (''ip_src'', self ''customer_ip''), (''ip_id'', num 108), (''ip_ttl'', num 63)]),
      if_else (is_false (self ''ipv6'')) [
        assign ''ipip_pkt'' (lib ''simple_ipv4ip_packet'' [] [(''eth_dst'', self ''unbor_mac1''), (''eth_src'', str ROUTER_MAC),
          (''ip_dst'', self ''tun_ip1''), (''ip_src'', self ''lpb_ip1''), (''ip_id'', num 0), (''inner_frame'', lib
          ''get_layer'' [var ''inner_pkt'', str ''IP''] [])])] [
        assign ''ipip_pkt'' (lib ''simple_ipv6ip_packet'' [] [(''eth_dst'', self ''unbor_mac1''), (''eth_src'', str ROUTER_MAC),
          (''ipv6_dst'', self ''tun_ip1''), (''ipv6_src'', self ''lpb_ip1''), (''inner_frame'', lib ''get_layer'' [var
          ''inner_pkt'', str ''IP''] [])])],
      print [if_exp (self ''ipv6'') (num 6) (num 4)],
      run (lib ''send_packet'' [self ''oport_dev'', var ''pkt''] []),
      run (lib ''verify_packet'' [var ''ipip_pkt'', self ''uport1_dev''] []),
      assign ''pkt'' (lib ''simple_udp_packet'' [] [(''eth_dst'', self ''customer_mac''), (''eth_src'', str ROUTER_MAC),
        (''ip_dst'', self ''customer_ip''), (''ip_src'', self ''vm_ip''), (''ip_id'', num 108), (''ip_ttl'', num 63)]),
      assign ''inner_pkt'' (lib ''simple_udp_packet'' [] [(''eth_dst'', str ROUTER_MAC), (''eth_src'', self ''inner_dmac''),
        (''ip_dst'', self ''customer_ip''), (''ip_src'', self ''vm_ip''), (''ip_id'', num 108), (''ip_ttl'', num 64)]),
      if_else (is_false (self ''ipv6'')) [
        assign ''ipip_pkt'' (lib ''simple_ipv4ip_packet'' [] [(''eth_dst'', str ROUTER_MAC), (''eth_src'', self ''unbor_mac1''),
          (''ip_dst'', self ''lpb_ip1''), (''ip_src'', self ''tun_ip1''), (''ip_id'', num 0), (''inner_frame'', lib
          ''get_layer'' [var ''inner_pkt'', str ''IP''] [])])] [
        assign ''ipip_pkt'' (lib ''simple_ipv6ip_packet'' [] [(''eth_dst'', str ROUTER_MAC), (''eth_src'', self ''unbor_mac1''),
          (''ipv6_dst'', self ''lpb_ip1''), (''ipv6_src'', self ''tun_ip1''), (''inner_frame'', lib ''get_layer'' [var
          ''inner_pkt'', str ''IP''] [])])],
      print [if_exp (self ''ipv6'') (num 6) (num 4)],
      run (lib ''send_packet'' [self ''uport1_dev'', var ''ipip_pkt''] []),
      run (lib ''verify_packet'' [var ''pkt'', self ''oport_dev''] []),
      assign ''pkt'' (lib ''simple_udp_packet'' [] [(''eth_dst'', self ''customer_mac''), (''eth_src'', str ROUTER_MAC),
        (''ip_dst'', self ''customer_ip''), (''ip_src'', self ''vm_ip''), (''ip_id'', num 108), (''ip_ttl'', num 63)]),
      assign ''inner_pkt'' (lib ''simple_udp_packet'' [] [(''eth_dst'', str ROUTER_MAC), (''eth_src'', self ''inner_dmac''),
        (''ip_dst'', self ''customer_ip''), (''ip_src'', self ''vm_ip''), (''ip_id'', num 108), (''ip_ttl'', num 64)]),
      if_else (is_false (self ''ipv6'')) [
        assign ''ipip_pkt'' (lib ''simple_ipv4ip_packet'' [] [(''eth_dst'', str ROUTER_MAC), (''eth_src'', self ''unbor_mac2''),
          (''ip_dst'', self ''lpb_ip2''), (''ip_src'', self ''tun_ip2''), (''ip_id'', num 0), (''inner_frame'', lib
          ''get_layer'' [var ''inner_pkt'', str ''IP''] [])])] [
        assign ''ipip_pkt'' (lib ''simple_ipv6ip_packet'' [] [(''eth_dst'', str ROUTER_MAC), (''eth_src'', self ''unbor_mac2''),
          (''ipv6_dst'', self ''lpb_ip2''), (''ipv6_src'', self ''tun_ip2''), (''inner_frame'', lib ''get_layer'' [var
          ''inner_pkt'', str ''IP''] [])])],
      print [if_exp (self ''ipv6'') (num 6) (num 4)],
      run (lib ''send_packet'' [self ''uport2_dev'', var ''ipip_pkt''] []),
      run (lib ''verify_packet'' [var ''pkt'', self ''oport_dev''] []),
      assign ''pkt'' (lib ''simple_udp_packet'' [] [(''eth_dst'', self ''customer_mac''), (''eth_src'', str ROUTER_MAC),
        (''ip_dst'', self ''customer_ip''), (''ip_src'', self ''vm_ip''), (''ip_id'', num 108), (''ip_ttl'', num 63)]),
      assign ''inner_pkt'' (lib ''simple_udp_packet'' [] [(''eth_dst'', str ROUTER_MAC), (''eth_src'', self ''inner_dmac''),
        (''ip_dst'', self ''customer_ip''), (''ip_src'', self ''vm_ip''), (''ip_id'', num 108), (''ip_ttl'', num 64)]),
      if_else (is_false (self ''ipv6'')) [
        assign ''ipip_pkt'' (lib ''simple_ipv4ip_packet'' [] [(''eth_dst'', str ROUTER_MAC), (''eth_src'', self ''unbor_mac3''),
          (''ip_dst'', self ''lpb_ip3''), (''ip_src'', self ''tun_ip3''), (''ip_id'', num 0), (''inner_frame'', lib
          ''get_layer'' [var ''inner_pkt'', str ''IP''] [])])] [
        assign ''ipip_pkt'' (lib ''simple_ipv6ip_packet'' [] [(''eth_dst'', str ROUTER_MAC), (''eth_src'', self ''unbor_mac3''),
          (''ipv6_dst'', self ''lpb_ip3''), (''ipv6_src'', self ''tun_ip3''), (''inner_frame'', lib ''get_layer'' [var
          ''inner_pkt'', str ''IP''] [])])],
      print [if_exp (self ''ipv6'') (num 6) (num 4)],
      run (lib ''send_packet'' [self ''uport3_dev'', var ''ipip_pkt''] []),
      run (lib ''verify_packet'' [var ''pkt'', self ''oport_dev''] [])]"

definition IpInIpP2MpTunnelBase_innerIpv6P2MpTunnelTest :: "'d stmt" where
  "IpInIpP2MpTunnelBase_innerIpv6P2MpTunnelTest = block [
      assign ''pkt'' (lib ''simple_udpv6_packet'' [] [(''eth_dst'', str ROUTER_MAC), (''eth_src'', self ''customer_mac''),
        (''ipv6_dst'', self ''vm_ipv6''), (''ipv6_src'', self ''customer_ipv6''), (''ipv6_hlim'', num 64)]),
      assign ''inner_pkt'' (lib ''simple_udpv6_packet'' [] [(''eth_dst'', self ''inner_dmac''), (''eth_src'', str ROUTER_MAC),
        (''ipv6_dst'', self ''vm_ipv6''), (''ipv6_src'', self ''customer_ipv6''), (''ipv6_hlim'', num 63)]),
      if_else (is_false (self ''ipv6'')) [
        assign ''ipip_pkt'' (lib ''simple_ipv4ip_packet'' [] [(''eth_dst'', self ''unbor_mac1''), (''eth_src'', str ROUTER_MAC),
          (''ip_dst'', self ''tun_ip1''), (''ip_src'', self ''lpb_ip1''), (''ip_id'', num 0), (''inner_frame'', lib
          ''get_layer'' [var ''inner_pkt'', str ''IPv6''] [])])] [
        assign ''ipip_pkt'' (lib ''simple_ipv6ip_packet'' [] [(''eth_dst'', self ''unbor_mac1''), (''eth_src'', str ROUTER_MAC),
          (''ipv6_dst'', self ''tun_ip1''), (''ipv6_src'', self ''lpb_ip1''), (''inner_frame'', lib ''get_layer'' [var
          ''inner_pkt'', str ''IPv6''] [])])],
      print [if_exp (self ''ipv6'') (num 6) (num 4)],
      run (lib ''send_packet'' [self ''oport_dev'', var ''pkt''] []),
      run (lib ''verify_packet'' [var ''ipip_pkt'', self ''uport1_dev''] []),
      assign ''pkt'' (lib ''simple_udpv6_packet'' [] [(''eth_dst'', self ''customer_mac''), (''eth_src'', str ROUTER_MAC),
        (''ipv6_dst'', self ''customer_ipv6''), (''ipv6_src'', self ''vm_ipv6''), (''ipv6_hlim'', num 63)]),
      assign ''inner_pkt'' (lib ''simple_udpv6_packet'' [] [(''eth_dst'', str ROUTER_MAC), (''eth_src'', self ''inner_dmac''),
        (''ipv6_dst'', self ''customer_ipv6''), (''ipv6_src'', self ''vm_ipv6''), (''ipv6_hlim'', num 64)]),
      if_else (is_false (self ''ipv6'')) [
        assign ''ipip_pkt'' (lib ''simple_ipv4ip_packet'' [] [(''eth_dst'', str ROUTER_MAC), (''eth_src'', self ''unbor_mac1''),
          (''ip_dst'', self ''lpb_ip1''), (''ip_src'', self ''tun_ip1''), (''ip_id'', num 0), (''inner_frame'', lib
          ''get_layer'' [var ''inner_pkt'', str ''IPv6''] [])])] [
        assign ''ipip_pkt'' (lib ''simple_ipv6ip_packet'' [] [(''eth_dst'', str ROUTER_MAC), (''eth_src'', self ''unbor_mac1''),
          (''ipv6_dst'', self ''lpb_ip1''), (''ipv6_src'', self ''tun_ip1''), (''inner_frame'', lib ''get_layer'' [var
          ''inner_pkt'', str ''IPv6''] [])])],
      print [if_exp (self ''ipv6'') (num 6) (num 4)],
      run (lib ''send_packet'' [self ''uport1_dev'', var ''ipip_pkt''] []),
      run (lib ''verify_packet'' [var ''pkt'', self ''oport_dev''] []),
      assign ''pkt'' (lib ''simple_udpv6_packet'' [] [(''eth_dst'', self ''customer_mac''), (''eth_src'', str ROUTER_MAC),
        (''ipv6_dst'', self ''customer_ipv6''), (''ipv6_src'', self ''vm_ipv6''), (''ipv6_hlim'', num 63)]),
      assign ''inner_pkt'' (lib ''simple_udpv6_packet'' [] [(''eth_dst'', str ROUTER_MAC), (''eth_src'', self ''inner_dmac''),
        (''ipv6_dst'', self ''customer_ipv6''), (''ipv6_src'', self ''vm_ipv6''), (''ipv6_hlim'', num 64)]),
      if_else (is_false (self ''ipv6'')) [
        assign ''ipip_pkt'' (lib ''simple_ipv4ip_packet'' [] [(''eth_dst'', str ROUTER_MAC), (''eth_src'', self ''unbor_mac2''),
          (''ip_dst'', self ''lpb_ip2''), (''ip_src'', self ''tun_ip2''), (''ip_id'', num 0), (''inner_frame'', lib
          ''get_layer'' [var ''inner_pkt'', str ''IPv6''] [])])] [
        assign ''ipip_pkt'' (lib ''simple_ipv6ip_packet'' [] [(''eth_dst'', str ROUTER_MAC), (''eth_src'', self ''unbor_mac2''),
          (''ipv6_dst'', self ''lpb_ip2''), (''ipv6_src'', self ''tun_ip2''), (''inner_frame'', lib ''get_layer'' [var
          ''inner_pkt'', str ''IPv6''] [])])],
      print [if_exp (self ''ipv6'') (num 6) (num 4)],
      run (lib ''send_packet'' [self ''uport2_dev'', var ''ipip_pkt''] []),
      run (lib ''verify_packet'' [var ''pkt'', self ''oport_dev''] []),
      assign ''pkt'' (lib ''simple_udpv6_packet'' [] [(''eth_dst'', self ''customer_mac''), (''eth_src'', str ROUTER_MAC),
        (''ipv6_dst'', self ''customer_ipv6''), (''ipv6_src'', self ''vm_ipv6''), (''ipv6_hlim'', num 63)]),
      assign ''inner_pkt'' (lib ''simple_udpv6_packet'' [] [(''eth_dst'', str ROUTER_MAC), (''eth_src'', self ''inner_dmac''),
        (''ipv6_dst'', self ''customer_ipv6''), (''ipv6_src'', self ''vm_ipv6''), (''ipv6_hlim'', num 64)]),
      if_else (is_false (self ''ipv6'')) [
        assign ''ipip_pkt'' (lib ''simple_ipv4ip_packet'' [] [(''eth_dst'', str ROUTER_MAC), (''eth_src'', self ''unbor_mac3''),
          (''ip_dst'', self ''lpb_ip3''), (''ip_src'', self ''tun_ip3''), (''ip_id'', num 0), (''inner_frame'', lib
          ''get_layer'' [var ''inner_pkt'', str ''IPv6''] [])])] [
        assign ''ipip_pkt'' (lib ''simple_ipv6ip_packet'' [] [(''eth_dst'', str ROUTER_MAC), (''eth_src'', self ''unbor_mac3''),
          (''ipv6_dst'', self ''lpb_ip3''), (''ipv6_src'', self ''tun_ip3''), (''inner_frame'', lib ''get_layer'' [var
          ''inner_pkt'', str ''IPv6''] [])])],
      print [if_exp (self ''ipv6'') (num 6) (num 4)],
      run (lib ''send_packet'' [self ''uport3_dev'', var ''ipip_pkt''] []),
      run (lib ''verify_packet'' [var ''pkt'', self ''oport_dev''] [])]"

definition IpInIpP2MpTnnnelIpv4UnderlayTest_runTest :: "'d stmt" where
  "IpInIpP2MpTnnnelIpv4UnderlayTest_runTest = block [
      run (invoke [] IpInIpP2MpTunnelBase_innerIpv4P2MpTunnelTest),
      run (invoke [] IpInIpP2MpTunnelBase_innerIpv6P2MpTunnelTest)]"

definition IpInIpP2MpTnnnelIpv6UnderlayTest_runTest :: "'d stmt" where
  "IpInIpP2MpTnnnelIpv6UnderlayTest_runTest = block [
      run (invoke [] IpInIpP2MpTunnelBase_innerIpv4P2MpTunnelTest),
      run (invoke [] IpInIpP2MpTunnelBase_innerIpv6P2MpTunnelTest)]"

definition MultipleMapperEntriesBase_addDelMapperEntriesTest :: "'d stmt" where
  "MultipleMapperEntriesBase_addDelMapperEntriesTest = block [
      assign ''enc_pkt'' (lib ''simple_udp_packet'' [] [(''eth_dst'', str ROUTER_MAC), (''eth_src'', self ''customer8_mac''),
        (''ip_dst'', self ''vm_ip''), (''ip_src'', self ''customer8_ip''), (''ip_id'', num 108), (''ip_ttl'', num 64)]),
      assign ''inner_pkt'' (lib ''simple_udp_packet'' [] [(''eth_dst'', self ''inner_dmac''), (''eth_src'', str ROUTER_MAC),
        (''ip_dst'', self ''vm_ip''), (''ip_src'', self ''customer8_ip''), (''ip_id'', num 108), (''ip_ttl'', num 63)]),
      if_else (is_false (self ''ipv6'')) [
        assign ''enc_vxlan_pkt'' (lib ''Mask'' [lib ''simple_vxlan_packet'' [] [(''eth_dst'', self ''unbor_mac''), (''eth_src'',
          str ROUTER_MAC), (''ip_dst'', self ''tun_ip''), (''ip_src'', self ''lpb_ip''), (''ip_id'', num 0), (''ip_ttl'', num
          64), (''ip_flags'', num 2), (''with_udp_chksum'', bool False), (''vxlan_vni'', self ''vni8''), (''inner_frame'', var
          ''inner_pkt'')]] [])] [
        assign ''enc_vxlan_pkt'' (lib ''Mask'' [lib ''simple_vxlanv6_packet'' [] [(''eth_dst'', self ''unbor_mac''),
          (''eth_src'', str ROUTER_MAC), (''ipv6_dst'', self ''tun_ip''), (''ipv6_src'', self ''lpb_ip''), (''ipv6_hlim'', num
          64), (''with_udp_chksum'', bool False), (''vxlan_vni'', self ''vni8''), (''inner_frame'', var ''inner_pkt'')]] [])],
      assign ''enc_vxlan_pkt'' (lib ''.set_do_not_care_scapy'' [var ''enc_vxlan_pkt'', str ''UDP'', str ''sport''] []),
      assign ''dec_pkt'' (lib ''simple_udp_packet'' [] [(''eth_dst'', self ''customer8_mac''), (''eth_src'', str ROUTER_MAC),
        (''ip_dst'', self ''customer8_ip''), (''ip_src'', self ''vm_ip''), (''ip_id'', num 108), (''ip_ttl'', num 63)]),
      assign ''inner_pkt'' (lib ''simple_udp_packet'' [] [(''eth_dst'', str ROUTER_MAC), (''eth_src'', self ''inner_dmac''),
        (''ip_dst'', self ''customer8_ip''), (''ip_src'', self ''vm_ip''), (''ip_id'', num 108), (''ip_ttl'', num 64)]),
      if_else (is_false (self ''ipv6'')) [
        assign ''dec_vxlan_pkt'' (lib ''simple_vxlan_packet'' [] [(''eth_dst'', str ROUTER_MAC), (''eth_src'', self
          ''unbor_mac''), (''ip_dst'', self ''lpb_ip''), (''ip_src'', self ''tun_ip''), (''ip_id'', num 0), (''ip_ttl'', num
          64), (''ip_flags'', num 2), (''udp_sport'', num 11638), (''with_udp_chksum'', bool False), (''vxlan_vni'', self
          ''vni8''), (''inner_frame'', var ''inner_pkt'')])] [
        assign ''dec_vxlan_pkt'' (lib ''simple_vxlanv6_packet'' [] [(''eth_dst'', str ROUTER_MAC), (''eth_src'', self
          ''unbor_mac''), (''ipv6_dst'', self ''lpb_ip''), (''ipv6_src'', self ''tun_ip''), (''ipv6_hlim'', num 64),
          (''udp_sport'', num 11638), (''with_udp_chksum'', bool False), (''vxlan_vni'', self ''vni8''), (''inner_frame'', var
          ''inner_pkt'')])],
      run (lib ''send_packet'' [self ''oport8_dev'', var ''enc_pkt''] []),
      run (lib ''verify_packet'' [var ''enc_vxlan_pkt'', self ''uport_dev''] []),
      run (lib ''verify_no_other_packets'' [] []),
      run (lib ''send_packet'' [self ''uport_dev'', var ''dec_vxlan_pkt''] []),
      run (lib ''verify_no_other_packets'' [] []),
      assign ''encap_tunnel_map_entry'' (api_create ''tunnel_map_entry'' [(''tunnel_map'', self ''encap_tunnel_map''),
        (''tunnel_map_type'', num SAI_TUNNEL_MAP_TYPE_VIRTUAL_ROUTER_ID_TO_VNI), (''virtual_router_id_key'', self ''ovrf8''),
        (''vni_id_value'', self ''vni8'')]),
      run (lib ''send_packet'' [self ''oport8_dev'', var ''enc_pkt''] []),
      run (lib ''verify_packet'' [var ''enc_vxlan_pkt'', self ''uport_dev''] []),
      run (lib ''send_packet'' [self ''uport_dev'', var ''dec_vxlan_pkt''] []),
      run (lib ''verify_no_other_packets'' [] []),
      assign ''decap_tunnel_map_entry'' (api_create ''tunnel_map_entry'' [(''tunnel_map'', self ''encap_tunnel_map''),
        (''tunnel_map_type'', num SAI_TUNNEL_MAP_TYPE_VNI_TO_VIRTUAL_ROUTER_ID), (''virtual_router_id_value'', self ''ovrf8''),
        (''vni_id_key'', self ''vni8'')]),
      run (lib ''send_packet'' [self ''oport8_dev'', var ''enc_pkt''] []),
      run (lib ''verify_packet'' [var ''enc_vxlan_pkt'', self ''uport_dev''] []),
      run (lib ''send_packet'' [self ''uport_dev'', var ''dec_vxlan_pkt''] []),
      run (lib ''verify_packet'' [var ''dec_pkt'', self ''oport8_dev''] []),
      run (api_remove ''tunnel_map_entry'' (var ''decap_tunnel_map_entry'')),
      run (lib ''send_packet'' [self ''oport8_dev'', var ''enc_pkt''] []),
      run (lib ''verify_packet'' [var ''enc_vxlan_pkt'', self ''uport_dev''] []),
      run (lib ''send_packet'' [self ''uport_dev'', var ''dec_vxlan_pkt''] []),
      run (lib ''verify_no_other_packets'' [] []),
      run (api_remove ''tunnel_map_entry'' (var ''encap_tunnel_map_entry'')),
      run (lib ''send_packet'' [self ''oport8_dev'', var ''enc_pkt''] []),
      run (lib ''verify_packet'' [var ''enc_vxlan_pkt'', self ''uport_dev''] []),
      run (lib ''verify_no_other_packets'' [] []),
      run (lib ''send_packet'' [self ''uport_dev'', var ''dec_vxlan_pkt''] []),
      run (lib ''verify_no_other_packets'' [] [])]"

definition VxLanRifsConfigBaseSetup_setUp :: "'d stmt" where
  "VxLanRifsConfigBaseSetup_setUp = block [
      super_setUp,
      set_self ''vni'' (num 1000),
      set_self ''inner_dmac'' (str ''00:11:11:11:11:11''),
      set_self ''ovrf'' (api_create ''virtual_router'' []),
      set_self ''uvrf'' (api_create ''virtual_router'' []),
      set_self ''urif_lpb'' (api_create ''router_interface'' [(''type'', num SAI_ROUTER_INTERFACE_TYPE_LOOPBACK),
        (''virtual_router_id'', self ''uvrf'')]),
      set_self ''encap_tunnel_map'' (api_create ''tunnel_map'' [(''type'', num SAI_TUNNEL_MAP_TYPE_VIRTUAL_ROUTER_ID_TO_VNI)]),
      set_self ''decap_tunnel_map'' (api_create ''tunnel_map'' [(''type'', num SAI_TUNNEL_MAP_TYPE_VNI_TO_VIRTUAL_ROUTER_ID)]),
      set_self ''encap_map_entry'' (api_create ''tunnel_map_entry'' [(''tunnel_map'', self ''encap_tunnel_map''),
        (''tunnel_map_type'', num SAI_TUNNEL_MAP_TYPE_VIRTUAL_ROUTER_ID_TO_VNI), (''virtual_router_id_key'', self ''ovrf''),
        (''vni_id_value'', self ''vni'')]),
      set_self ''decap_map_entry'' (api_create ''tunnel_map_entry'' [(''tunnel_map'', self ''decap_tunnel_map''),
        (''tunnel_map_type'', num SAI_TUNNEL_MAP_TYPE_VNI_TO_VIRTUAL_ROUTER_ID), (''virtual_router_id_value'', self ''ovrf''),
        (''vni_id_key'', self ''vni'')]),
      assign ''encap_maps'' (struct ''sai_thrift_object_list_t'' [(''count'', num 1), (''idlist'', list_of [self
        ''encap_tunnel_map''])]),
      assign ''decap_maps'' (struct ''sai_thrift_object_list_t'' [(''count'', num 1), (''idlist'', list_of [self
        ''decap_tunnel_map''])]),
      assign ''tunnel_type'' (num SAI_TUNNEL_TYPE_VXLAN),
      assign ''term_type'' (num SAI_TUNNEL_TERM_TABLE_ENTRY_TYPE_P2MP),
      assign ''ttl_mode'' (num SAI_TUNNEL_TTL_MODE_PIPE_MODEL),
      set_self ''tunnel'' (api_create ''tunnel'' [(''type'', var ''tunnel_type''), (''encap_src_ip'', ip_address (self
        ''lpb_ip'')), (''encap_mappers'', var ''encap_maps''), (''decap_mappers'', var ''decap_maps''), (''encap_ttl_mode'', var
        ''ttl_mode''), (''decap_ttl_mode'', var ''ttl_mode''), (''underlay_interface'', self ''urif_lpb'')]),
      set_self ''tunnel_term'' (api_create ''tunnel_term_table_entry'' [(''tunnel_type'', var ''tunnel_type''), (''vr_id'', self
        ''uvrf''), (''action_tunnel_id'', self ''tunnel''), (''type'', var ''term_type''), (''src_ip'', ip_address (self
        ''tun_ip'')), (''dst_ip'', ip_address (self ''lpb_ip''))]),
      set_self ''tunnel_nhop'' (api_create ''next_hop'' [(''type'', num SAI_NEXT_HOP_TYPE_TUNNEL_ENCAP), (''tunnel_id'', self
        ''tunnel''), (''ip'', ip_address (self ''tun_ip'')), (''tunnel_mac'', self ''inner_dmac''), (''tunnel_vni'', self
        ''vni'')])]"

definition VxLanRifsConfigBaseSetup_tearDown :: "'d stmt" where
  "VxLanRifsConfigBaseSetup_tearDown = block [
      run (api_remove ''next_hop'' (self ''tunnel_nhop'')),
      run (api_remove ''tunnel_term_table_entry'' (self ''tunnel_term'')),
      run (api_remove ''tunnel'' (self ''tunnel'')),
      run (api_remove ''tunnel_map_entry'' (self ''decap_map_entry'')),
      run (api_remove ''tunnel_map_entry'' (self ''encap_map_entry'')),
      run (api_remove ''tunnel_map'' (self ''decap_tunnel_map'')),
      run (api_remove ''tunnel_map'' (self ''encap_tunnel_map'')),
      run (api_remove ''router_interface'' (self ''urif_lpb'')),
      run (api_remove ''virtual_router'' (self ''uvrf'')),
      run (api_remove ''virtual_router'' (self ''ovrf'')),
      super_tearDown]"

definition VxLanRifsConfigBaseSetup_configureOverlayEcmp :: "'d stmt" where
  "VxLanRifsConfigBaseSetup_configureOverlayEcmp = block [
      assign ''tunnel_nhops'' (list_of []),
      assign ''ecmp_members'' (list_of []),
      assign ''orif'' (api_create ''router_interface'' [(''type'', num SAI_ROUTER_INTERFACE_TYPE_PORT), (''virtual_router_id'',
        self ''ovrf''), (''port_id'', var ''oport'')]),
      assign ''onhop'' (api_create ''next_hop'' [(''ip'', ip_address (item (var ''odata'') (str ''customer_ip''))),
        (''router_interface_id'', var ''orif''), (''type'', num SAI_NEXT_HOP_TYPE_IP)]),
      assign ''onbor'' (struct ''sai_thrift_neighbor_entry_t'' [(''rif_id'', var ''orif''), (''ip_address'', ip_address (item
        (var ''odata'') (str ''customer_ip'')))]),
      run (api_create_entry ''neighbor_entry'' (var ''onbor'') [(''dst_mac_address'', item (var ''odata'') (str
        ''customer_mac'')), (''no_host_route'', bool True)]),
      assign ''customer_route'' (struct ''sai_thrift_route_entry_t'' [(''vr_id'', self ''ovrf''), (''destination'', ip_prefix
        (add (item (var ''odata'') (str ''customer_ip'')) (str ''/32'')))]),
      run (api_create_entry ''route_entry'' (var ''customer_route'') [(''next_hop_id'', var ''onhop'')]),
      assign ''onhop_v6'' (api_create ''next_hop'' [(''ip'', ip_address (item (var ''odata'') (str ''customer_ipv6''))),
        (''router_interface_id'', var ''orif''), (''type'', num SAI_NEXT_HOP_TYPE_IP)]),
      assign ''onbor_v6'' (struct ''sai_thrift_neighbor_entry_t'' [(''rif_id'', var ''orif''), (''ip_address'', ip_address (item
        (var ''odata'') (str ''customer_ipv6'')))]),
      run (api_create_entry ''neighbor_entry'' (var ''onbor_v6'') [(''dst_mac_address'', item (var ''odata'') (str
        ''customer_mac'')), (''no_host_route'', bool True)]),
      assign ''customer_v6_route'' (struct ''sai_thrift_route_entry_t'' [(''vr_id'', self ''ovrf''), (''destination'', ip_prefix
        (add (item (var ''odata'') (str ''customer_ipv6'')) (str ''/128'')))]),
      run (api_create_entry ''route_entry'' (var ''customer_v6_route'') [(''next_hop_id'', var ''onhop_v6'')]),
      for_in [''addr''] (var ''tun_data'') [
        assign ''tunnel_nhop'' (api_create ''next_hop'' [(''type'', num SAI_NEXT_HOP_TYPE_TUNNEL_ENCAP), (''tunnel_id'', self
          ''tunnel''), (''ip'', ip_address (var ''addr'')), (''tunnel_mac'', self ''inner_dmac''), (''tunnel_vni'', self
          ''vni'')]),
        assign ''tunnel_nhops'' (appended (var ''tunnel_nhops'') (var ''tunnel_nhop'')),
        assign ''ecmp_member'' (api_create ''next_hop_group_member'' [(''next_hop_group_id'', var ''ecmp''), (''next_hop_id'',
          var ''tunnel_nhop'')]),
        assign ''ecmp_members'' (appended (var ''ecmp_members'') (var ''ecmp_member''))],
      assign ''vm_route'' (struct ''sai_thrift_route_entry_t'' [(''vr_id'', self ''ovrf''), (''destination'', ip_prefix (add
        (item (var ''odata'') (str ''vm_ip'')) (str ''/32'')))]),
      run (api_create_entry ''route_entry'' (var ''vm_route'') [(''next_hop_id'', var ''ecmp'')]),
      assign ''vm_v6_route'' (struct ''sai_thrift_route_entry_t'' [(''vr_id'', self ''ovrf''), (''destination'', ip_prefix (add
        (item (var ''odata'') (str ''vm_ipv6'')) (str ''/128'')))]),
      run (api_create_entry ''route_entry'' (var ''vm_v6_route'') [(''next_hop_id'', var ''ecmp'')]),
      return (list_of [var ''orif'', list_of [var ''onhop'', var ''onhop_v6''], list_of [var ''onbor'', var ''onbor_v6''],
        list_of [var ''customer_route'', var ''customer_v6_route''], var ''tunnel_nhops'', var ''ecmp_members'', list_of [var
        ''vm_route'', var ''vm_v6_route'']])]"

definition VxLanRifsConfigBaseSetup_v4DecapTest :: "'d stmt" where
  "VxLanRifsConfigBaseSetup_v4DecapTest = block [
      assign ''in_vlan_enable'' (bool False),
      assign ''in_vlan_no'' (num 0),
      if_else (is_in (str ''in'') (var ''vlan_no'')) [
        assign ''in_vlan_no'' (item (var ''vlan_no'') (str ''in'')),
        assign ''in_vlan_enable'' (if_exp (var ''in_vlan_no'') (bool True) (bool False))] [],
      assign ''out_vlan_enable'' (bool False),
      assign ''out_vlan_no'' (num 0),
      assign ''out_len_inc'' (num 0),
      if_else (is_in (str ''out'') (var ''vlan_no'')) [
        assign ''out_vlan_no'' (item (var ''vlan_no'') (str ''out'')),
        assign ''out_vlan_enable'' (if_exp (var ''out_vlan_no'') (bool True) (bool False)),
        assign ''out_len_inc'' (if_exp (var ''out_vlan_enable'') (num 4) (num 0))] [],
      assign ''pkt'' (lib ''simple_udp_packet'' [] [(''eth_dst'', item (var ''pkt_data'') (str ''customer_mac'')), (''eth_src'',
        str ROUTER_MAC), (''ip_dst'', item (var ''pkt_data'') (str ''customer_ip'')), (''ip_src'', item (var ''pkt_data'') (str
        ''vm_ip'')), (''dl_vlan_enable'', var ''out_vlan_enable''), (''vlan_vid'', var ''out_vlan_no''), (''ip_id'', num 108),
        (''ip_ttl'', num 63), (''pktlen'', add (num 100) (var ''out_len_inc''))]),
      assign ''inner_pkt'' (lib ''simple_udp_packet'' [] [(''eth_dst'', str ROUTER_MAC), (''eth_src'', self ''inner_dmac''),
        (''ip_dst'', item (var ''pkt_data'') (str ''customer_ip'')), (''ip_src'', item (var ''pkt_data'') (str ''vm_ip'')),
        (''ip_id'', num 108), (''ip_ttl'', num 64), (''pktlen'', num 100)]),
      if_else (is_false (self ''ipv6'')) [
        assign ''vxlan_pkt'' (lib ''simple_vxlan_packet'' [] [(''eth_dst'', str ROUTER_MAC), (''eth_src'', item (var
          ''pkt_data'') (str ''unbor_mac'')), (''ip_dst'', self ''lpb_ip''), (''ip_src'', item (var ''pkt_data'') (str
          ''tun_ip'')), (''ip_id'', num 0), (''dl_vlan_enable'', var ''in_vlan_enable''), (''vlan_vid'', var ''in_vlan_no''),
          (''ip_ttl'', num 64), (''ip_flags'', num 2), (''with_udp_chksum'', bool False), (''vxlan_vni'', self ''vni''),
          (''inner_frame'', var ''inner_pkt'')])] [
        assign ''vxlan_pkt'' (lib ''simple_vxlanv6_packet'' [] [(''eth_dst'', str ROUTER_MAC), (''eth_src'', item (var
          ''pkt_data'') (str ''unbor_mac'')), (''ipv6_dst'', self ''lpb_ip''), (''ipv6_src'', item (var ''pkt_data'') (str
          ''tun_ip'')), (''dl_vlan_enable'', var ''in_vlan_enable''), (''vlan_vid'', var ''in_vlan_no''), (''ipv6_hlim'', num
          64), (''with_udp_chksum'', bool False), (''vxlan_vni'', self ''vni''), (''inner_frame'', var ''inner_pkt'')])],
      print [if_exp (self ''ipv6'') (str ''IPv6'') (str ''IPv4''), var ''src_port'', var ''dst_ports''],
      run (lib ''send_packet'' [var ''src_port'', var ''vxlan_pkt''] []),
      run (lib ''verify_packet_any_port'' [var ''pkt'', var ''dst_ports''] [])]"

definition VxLanRifsConfigBaseSetup_v6DecapTest :: "'d stmt" where
  "VxLanRifsConfigBaseSetup_v6DecapTest = block [
      assign ''in_vlan_enable'' (bool False),
      assign ''in_vlan_no'' (num 0),
      if_else (is_in (str ''in'') (var ''vlan_no'')) [
        assign ''in_vlan_no'' (item (var ''vlan_no'') (str ''in'')),
        assign ''in_vlan_enable'' (if_exp (var ''in_vlan_no'') (bool True) (bool False))] [],
      assign ''out_vlan_enable'' (bool False),
      assign ''out_vlan_no'' (num 0),
      assign ''out_len_inc'' (num 0),
      if_else (is_in (str ''out'') (var ''vlan_no'')) [
        assign ''out_vlan_no'' (item (var ''vlan_no'') (str ''out'')),
        assign ''out_vlan_enable'' (if_exp (var ''out_vlan_no'') (bool True) (bool False)),
        assign ''out_len_inc'' (if_exp (var ''out_vlan_enable'') (num 4) (num 0))] [],
      assign ''pkt'' (lib ''simple_udpv6_packet'' [] [(''eth_dst'', item (var ''pkt_data'') (str ''customer_mac'')),
        (''eth_src'', str ROUTER_MAC), (''ipv6_dst'', item (var ''pkt_data'') (str ''customer_ipv6'')), (''ipv6_src'', item (var
        ''pkt_data'') (str ''vm_ipv6'')), (''dl_vlan_enable'', var ''out_vlan_enable''), (''vlan_vid'', var ''out_vlan_no''),
        (''ipv6_hlim'', num 63), (''pktlen'', add (num 100) (var ''out_len_inc''))]),
      assign ''inner_pkt'' (lib ''simple_udpv6_packet'' [] [(''eth_dst'', str ROUTER_MAC), (''eth_src'', self ''inner_dmac''),
        (''ipv6_dst'', item (var ''pkt_data'') (str ''customer_ipv6'')), (''ipv6_src'', item (var ''pkt_data'') (str
        ''vm_ipv6'')), (''ipv6_hlim'', num 64), (''pktlen'', num 100)]),
      if_else (is_false (self ''ipv6'')) [
        assign ''vxlan_pkt'' (lib ''simple_vxlan_packet'' [] [(''eth_dst'', str ROUTER_MAC), (''eth_src'', item (var
          ''pkt_data'') (str ''unbor_mac'')), (''ip_dst'', self ''lpb_ip''), (''ip_src'', item (var ''pkt_data'') (str
          ''tun_ip'')), (''ip_id'', num 0), (''dl_vlan_enable'', var ''in_vlan_enable''), (''vlan_vid'', var ''in_vlan_no''),
          (''ip_ttl'', num 64), (''ip_flags'', num 2), (''with_udp_chksum'', bool False), (''vxlan_vni'', self ''vni''),
          (''inner_frame'', var ''inner_pkt'')])] [
        assign ''vxlan_pkt'' (lib ''simple_vxlanv6_packet'' [] [(''eth_dst'', str ROUTER_MAC), (''eth_src'', item (var
          ''pkt_data'') (str ''unbor_mac'')), (''ipv6_dst'', self ''lpb_ip''), (''ipv6_src'', item (var ''pkt_data'') (str
          ''tun_ip'')), (''dl_vlan_enable'', var ''in_vlan_enable''), (''vlan_vid'', var ''in_vlan_no''), (''ipv6_hlim'', num
          64), (''with_udp_chksum'', bool False), (''vxlan_vni'', self ''vni''), (''inner_frame'', var ''inner_pkt'')])],
      print [if_exp (self ''ipv6'') (str ''IPv6'') (str ''IPv4''), var ''src_port'', var ''dst_ports''],
      run (lib ''send_packet'' [var ''src_port'', var ''vxlan_pkt''] []),
      run (lib ''verify_packet_any_port'' [var ''pkt'', var ''dst_ports''] [])]"

definition VxLanRifsConfigTunnelIpv4UnderlayOecmpTest_setUp :: "'d stmt" where
  "VxLanRifsConfigTunnelIpv4UnderlayOecmpTest_setUp = block [
      run (invoke [] VxLanRifsConfigBaseSetup_setUp),
      assign ''customer_ip'' (str ''100.1.2.1''),
      assign ''customer_ipv6'' (str ''2001:0db8::1:2:1''),
      assign ''customer_mac'' (str ''00:22:22:22:22:01''),
      set_self ''vm_ip'' (str ''100.1.1.1''),
      set_self ''vm_ipv6'' (str ''2001:0db8::1:1:1''),
      set_self ''oport'' (self ''port0''),
      set_self ''oport_dev'' (self ''dev_port0''),
      set_self ''odata'' (dict_of [(str ''oname'', str ''Overlay L3 port''), (str ''customer_mac'', var ''customer_mac''), (str
        ''customer_ip'', var ''customer_ip''), (str ''customer_ipv6'', var ''customer_ipv6''), (str ''vm_ip'', self ''vm_ip''),
        (str ''vm_ipv6'', self ''vm_ipv6'')]),
      set_self ''tunnel_ecmp'' (api_create ''next_hop_group'' [(''type'', num SAI_NEXT_HOP_GROUP_TYPE_ECMP)])]"

definition VxLanRifsConfigTunnelIpv4UnderlayOecmpTest_tearDown :: "'d stmt" where
  "VxLanRifsConfigTunnelIpv4UnderlayOecmpTest_tearDown = block [
      run (api_remove ''next_hop_group'' (self ''tunnel_ecmp'')),
      run (invoke [] VxLanRifsConfigBaseSetup_tearDown)]"

definition VxLanRifsConfigTunnelIpv6UnderlayOecmpTest_setUp :: "'d stmt" where
  "VxLanRifsConfigTunnelIpv6UnderlayOecmpTest_setUp = block [
      run (invoke [] VxLanRifsConfigBaseSetup_setUp),
      assign ''customer_ip'' (str ''100.1.2.1''),
      assign ''customer_ipv6'' (str ''2001:0db8::1:2:1''),
      assign ''customer_mac'' (str ''00:22:22:22:22:01''),
      set_self ''vm_ip'' (str ''100.1.1.1''),
      set_self ''vm_ipv6'' (str ''2001:0db8::1:1:1''),
      set_self ''oport'' (self ''port0''),
      set_self ''oport_dev'' (self ''dev_port0''),
      set_self ''odata'' (dict_of [(str ''oname'', str ''Overlay L3 port''), (str ''customer_mac'', var ''customer_mac''), (str
        ''customer_ip'', var ''customer_ip''), (str ''customer_ipv6'', var ''customer_ipv6''), (str ''vm_ip'', self ''vm_ip''),
        (str ''vm_ipv6'', self ''vm_ipv6'')]),
      set_self ''tunnel_ecmp'' (api_create ''next_hop_group'' [(''type'', num SAI_NEXT_HOP_GROUP_TYPE_ECMP)])]"

definition VxLanRifsConfigTunnelIpv6UnderlayOecmpTest_tearDown :: "'d stmt" where
  "VxLanRifsConfigTunnelIpv6UnderlayOecmpTest_tearDown = block [
      run (api_remove ''next_hop_group'' (self ''tunnel_ecmp'')),
      run (invoke [] VxLanRifsConfigBaseSetup_tearDown)]"

definition VxLanEvpnTest_setUp :: "'d stmt" where
  "VxLanEvpnTest_setUp = block [
      super_setUp,
      set_self ''oport1'' (self ''port0''),
      set_self ''oport1_dev'' (self ''dev_port0''),
      set_self ''oport1_bp'' (self ''port0_bp''),
      set_self ''uport1'' (self ''port10''),
      set_self ''uport1_dev'' (self ''dev_port10''),
      set_self ''uport1_rif'' (self ''port10_rif''),
      set_self ''vni1'' (num 1000),
      set_self ''vni_for_ovrf'' (num 5000),
      set_self ''dummy_vlan_id'' (num 50),
      set_self ''vlan10_myip'' (str ''192.168.100.254''),
      set_self ''vlan10_dir_br'' (str ''192.168.100.255''),
      set_self ''vlan20_myip'' (str ''192.168.200.254''),
      set_self ''vlan20_dir_br'' (str ''192.168.200.255''),
      set_self ''customer1_ip'' (str ''192.168.100.1''),
      set_self ''customer1_ipv6'' (str ''2001:0db8::100:2''),
      set_self ''customer2_ip'' (str ''192.168.250.1''),
      set_self ''customer2_ipv6'' (str ''2001:0db8::200:2''),
      set_self ''inner_dmac'' (str ''00:11:11:11:11:11''),
      set_self ''customer1_mac'' (str ''00:22:22:22:22:11''),
      set_self ''customer2_mac'' (str ''00:22:22:22:22:22''),
      set_self ''unbor1_mac'' (str ''00:33:33:33:33:11''),
      set_self ''bcast_mac'' (str ''ff:ff:ff:ff:ff:ff''),
      set_self ''urif_lpb'' (api_create ''router_interface'' [(''type'', num SAI_ROUTER_INTERFACE_TYPE_LOOPBACK),
        (''virtual_router_id'', self ''default_vrf''), (''mtu'', num 9100)]),
      set_self ''uport1_my_route'' (struct ''sai_thrift_route_entry_t'' [(''destination'', ip_prefix (add (self ''uport1_myip'')
        (str ''/32''))), (''switch_id'', self ''switch_id''), (''vr_id'', self ''default_vrf'')]),
      run (api_create_entry ''route_entry'' (self ''uport1_my_route'') [(''packet_action'', num SAI_PACKET_ACTION_FORWARD),
        (''next_hop_id'', self ''cpu_port_hdl'')]),
      set_self ''uport1_prefix_route'' (struct ''sai_thrift_route_entry_t'' [(''destination'', ip_prefix (add (self
        ''uport1_myip'') (self ''uport1_mask''))), (''switch_id'', self ''switch_id''), (''vr_id'', self ''default_vrf'')]),
      run (api_create_entry ''route_entry'' (self ''uport1_prefix_route'') [(''next_hop_id'', self ''uport1_rif'')]),
      set_self ''unbor'' (struct ''sai_thrift_neighbor_entry_t'' [(''ip_address'', ip_address (self ''tun1_ip'')), (''rif_id'',
        self ''uport1_rif''), (''switch_id'', self ''switch_id'')]),
      run (api_create_entry ''neighbor_entry'' (self ''unbor'') [(''dst_mac_address'', self ''unbor1_mac'')]),
      set_self ''unhop'' (api_create ''next_hop'' [(''type'', num SAI_NEXT_HOP_TYPE_IP), (''ip'', ip_address (self
        ''tun1_ip'')), (''router_interface_id'', self ''uport1_rif'')]),
      set_self ''ovrf'' (api_create ''virtual_router'' []),
      set_self ''vlan10_rif'' (api_create ''router_interface'' [(''virtual_router_id'', self ''ovrf''), (''src_mac_address'',
        str ROUTER_MAC), (''type'', num SAI_ROUTER_INTERFACE_TYPE_VLAN), (''vlan_id'', self ''vlan10''), (''mtu'', num 9100),
        (''nat_zone_id'', num 0)]),
      set_self ''vlan10_my_route'' (struct ''sai_thrift_route_entry_t'' [(''destination'', ip_prefix (add (self ''vlan10_myip'')
        (str ''/32''))), (''switch_id'', self ''switch_id''), (''vr_id'', self ''ovrf'')]),
      run (api_create_entry ''route_entry'' (self ''vlan10_my_route'') [(''packet_action'', num SAI_PACKET_ACTION_FORWARD),
        (''next_hop_id'', self ''cpu_port_hdl'')]),
      set_self ''vlan10_nbor_dir_br'' (struct ''sai_thrift_neighbor_entry_t'' [(''ip_address'', ip_address (self
        ''vlan10_dir_br'')), (''rif_id'', self ''vlan10_rif''), (''switch_id'', self ''switch_id'')]),
      run (api_create_entry ''neighbor_entry'' (self ''vlan10_nbor_dir_br'') [(''dst_mac_address'', self ''bcast_mac'')]),
      set_self ''vlan10_prefix_route'' (struct ''sai_thrift_route_entry_t'' [(''destination'', ip_prefix (add (self
        ''vlan10_myip'') (str ''/24''))), (''switch_id'', self ''switch_id''), (''vr_id'', self ''ovrf'')]),
      run (api_create_entry ''route_entry'' (self ''vlan10_prefix_route'') [(''next_hop_id'', self ''vlan10_rif'')]),
      set_self ''vlan20_rif'' (api_create ''router_interface'' [(''virtual_router_id'', self ''ovrf''), (''src_mac_address'',
        str ROUTER_MAC), (''type'', num SAI_ROUTER_INTERFACE_TYPE_VLAN), (''vlan_id'', self ''vlan20''), (''mtu'', num 9100),
        (''nat_zone_id'', num 0)]),
      set_self ''vlan20_my_route'' (struct ''sai_thrift_route_entry_t'' [(''destination'', ip_prefix (add (self ''vlan20_myip'')
        (str ''/32''))), (''switch_id'', self ''switch_id''), (''vr_id'', self ''ovrf'')]),
      run (api_create_entry ''route_entry'' (self ''vlan20_my_route'') [(''packet_action'', num SAI_PACKET_ACTION_FORWARD),
        (''next_hop_id'', self ''cpu_port_hdl'')]),
      set_self ''vlan20_nbor_dir_br'' (struct ''sai_thrift_neighbor_entry_t'' [(''ip_address'', ip_address (self
        ''vlan20_dir_br'')), (''rif_id'', self ''vlan20_rif''), (''switch_id'', self ''switch_id'')]),
      run (api_create_entry ''neighbor_entry'' (self ''vlan20_nbor_dir_br'') [(''dst_mac_address'', self ''bcast_mac'')]),
      set_self ''vlan20_prefix_route'' (struct ''sai_thrift_route_entry_t'' [(''destination'', ip_prefix (add (self
        ''vlan20_myip'') (str ''/24''))), (''switch_id'', self ''switch_id''), (''vr_id'', self ''ovrf'')]),
      run (api_create_entry ''route_entry'' (self ''vlan20_prefix_route'') [(''next_hop_id'', self ''vlan20_rif'')]),
      set_self ''customer1_fdb_entry'' (struct ''sai_thrift_fdb_entry_t'' [(''bv_id'', self ''vlan10''), (''mac_address'', self
        ''customer1_mac''), (''switch_id'', self ''switch_id'')]),
      run (api_create_entry ''fdb_entry'' (self ''customer1_fdb_entry'') [(''type'', num SAI_FDB_ENTRY_TYPE_DYNAMIC),
        (''bridge_port_id'', self ''oport1_bp'')]),
      set_self ''customer1_nbor'' (struct ''sai_thrift_neighbor_entry_t'' [(''ip_address'', ip_address (self ''customer1_ip'')),
        (''rif_id'', self ''vlan10_rif''), (''switch_id'', self ''switch_id'')]),
      run (api_create_entry ''neighbor_entry'' (self ''customer1_nbor'') [(''dst_mac_address'', self ''customer1_mac'')]),
      set_self ''customer1_nhop'' (api_create ''next_hop'' [(''type'', num SAI_NEXT_HOP_TYPE_IP), (''ip'', ip_address (self
        ''customer1_ip'')), (''router_interface_id'', self ''vlan10_rif'')])]"

definition VxLanEvpnTest_tearDown :: "'d stmt" where
  "VxLanEvpnTest_tearDown = block [
      run (lib ''sai_thrift_flush_fdb_entries'' [] [(''entry_type'', num SAI_FDB_FLUSH_ENTRY_TYPE_ALL)]),
      run (api_remove ''next_hop'' (self ''customer1_nhop'')),
      run (api_remove ''neighbor_entry'' (self ''customer1_nbor'')),
      run (api_remove ''route_entry'' (self ''vlan10_prefix_route'')),
      run (api_remove ''neighbor_entry'' (self ''vlan10_nbor_dir_br'')),
      run (api_remove ''route_entry'' (self ''vlan10_my_route'')),
      run (api_remove ''router_interface'' (self ''vlan10_rif'')),
      run (api_remove ''route_entry'' (self ''vlan20_prefix_route'')),
      run (api_remove ''neighbor_entry'' (self ''vlan20_nbor_dir_br'')),
      run (api_remove ''route_entry'' (self ''vlan20_my_route'')),
      run (api_remove ''router_interface'' (self ''vlan20_rif'')),
      run (api_remove ''virtual_router'' (self ''ovrf'')),
      run (api_remove ''next_hop'' (self ''unhop'')),
      run (api_remove ''neighbor_entry'' (self ''unbor'')),
      run (api_remove ''route_entry'' (self ''uport1_prefix_route'')),
      run (api_remove ''route_entry'' (self ''uport1_my_route'')),
      run (api_remove ''router_interface'' (self ''urif_lpb'')),
      super_tearDown]"

end
