(* ===== verification/TestsVlan.thy ===== *)
theory TestsVlan
  imports PtfOwn PtfConstants
begin

text \<open>
  The tests of VLANs, \<open>ptf/saivlan.py\<close>: a definition per method, statement by statement in the language of
  \<open>PtfScript\<close>, named after its class. A parameter \<open>m_f\<close> is a method \<open>f\<close> that derived classes define anew.
\<close>

section \<open>The tests\<close>

definition vlan_set_vlan_data :: "'d stmt" where
  "vlan_set_vlan_data = block [
      assign ''vlan_data_dict'' (dict_of [(str ''vlan_id'', var ''vlan_id''), (str ''ports'', var ''ports''), (str ''untagged'',
        var ''untagged''), (str ''large_port'', var ''large_port'')]),
      return (var ''vlan_data_dict'')]"

definition L2VlanTest_setUp :: "'d stmt" where
  "L2VlanTest_setUp = block [
      super_setUp,
      set_self ''pkt'' (num 0),
      set_self ''tagged_pkt'' (num 0),
      set_self ''arp_resp'' (num 0),
      set_self ''tagged_arp_resp'' (num 0),
      set_self ''i_pkt_count'' (num 0),
      set_self ''e_pkt_count'' (num 0),
      set_self ''mac0'' (str ''00:11:11:11:11:11:11''),
      set_self ''mac1'' (str ''00:22:22:22:22:22:22''),
      set_self ''mac2'' (str ''00:33:33:33:33:33:33''),
      set_self ''mac3'' (str ''00:44:44:44:44:44:44''),
      assign ''mac_action'' (num SAI_PACKET_ACTION_FORWARD),
      set_self ''port24_bp'' (api_create ''bridge_port'' [(''bridge_id'', self ''default_1q_bridge''), (''port_id'', self
        ''port24''), (''type'', num SAI_BRIDGE_PORT_TYPE_PORT), (''admin_state'', bool True)]),
      set_self ''port25_bp'' (api_create ''bridge_port'' [(''bridge_id'', self ''default_1q_bridge''), (''port_id'', self
        ''port25''), (''type'', num SAI_BRIDGE_PORT_TYPE_PORT), (''admin_state'', bool True)]),
      set_self ''port26_bp'' (api_create ''bridge_port'' [(''bridge_id'', self ''default_1q_bridge''), (''port_id'', self
        ''port26''), (''type'', num SAI_BRIDGE_PORT_TYPE_PORT), (''admin_state'', bool True)]),
      set_self ''port27_bp'' (api_create ''bridge_port'' [(''bridge_id'', self ''default_1q_bridge''), (''port_id'', self
        ''port27''), (''type'', num SAI_BRIDGE_PORT_TYPE_PORT), (''admin_state'', bool True)]),
      set_self ''port28_bp'' (api_create ''bridge_port'' [(''bridge_id'', self ''default_1q_bridge''), (''port_id'', self
        ''port28''), (''type'', num SAI_BRIDGE_PORT_TYPE_PORT), (''admin_state'', bool True)]),
      set_self ''port29_bp'' (api_create ''bridge_port'' [(''bridge_id'', self ''default_1q_bridge''), (''port_id'', self
        ''port29''), (''type'', num SAI_BRIDGE_PORT_TYPE_PORT), (''admin_state'', bool True)]),
      set_self ''port30_bp'' (api_create ''bridge_port'' [(''bridge_id'', self ''default_1q_bridge''), (''port_id'', self
        ''port30''), (''type'', num SAI_BRIDGE_PORT_TYPE_PORT), (''admin_state'', bool True)]),
      set_self ''port31_bp'' (api_create ''bridge_port'' [(''bridge_id'', self ''default_1q_bridge''), (''port_id'', self
        ''port31''), (''type'', num SAI_BRIDGE_PORT_TYPE_PORT), (''admin_state'', bool True)]),
      set_self ''vlan10_member3'' (api_create ''vlan_member'' [(''vlan_id'', self ''vlan10''), (''bridge_port_id'', self
        ''port24_bp''), (''vlan_tagging_mode'', num SAI_VLAN_TAGGING_MODE_UNTAGGED)]),
      set_self ''vlan10_member4'' (api_create ''vlan_member'' [(''vlan_id'', self ''vlan10''), (''bridge_port_id'', self
        ''port25_bp''), (''vlan_tagging_mode'', num SAI_VLAN_TAGGING_MODE_TAGGED)]),
      run (api_set ''port'' (self ''port24'') [(''port_vlan_id'', num 10)]),
      set_self ''fdb_entry0'' (struct ''sai_thrift_fdb_entry_t'' [(''switch_id'', self ''switch_id''), (''mac_address'', self
        ''mac0''), (''bv_id'', self ''vlan10'')]),
      run (api_create_entry ''fdb_entry'' (self ''fdb_entry0'') [(''type'', num SAI_FDB_ENTRY_TYPE_STATIC), (''bridge_port_id'',
        self ''port0_bp''), (''packet_action'', var ''mac_action'')]),
      set_self ''fdb_entry1'' (struct ''sai_thrift_fdb_entry_t'' [(''switch_id'', self ''switch_id''), (''mac_address'', self
        ''mac1''), (''bv_id'', self ''vlan10'')]),
      run (api_create_entry ''fdb_entry'' (self ''fdb_entry1'') [(''type'', num SAI_FDB_ENTRY_TYPE_STATIC), (''bridge_port_id'',
        self ''port1_bp''), (''packet_action'', var ''mac_action'')]),
      set_self ''fdb_entry24'' (struct ''sai_thrift_fdb_entry_t'' [(''switch_id'', self ''switch_id''), (''mac_address'', self
        ''mac2''), (''bv_id'', self ''vlan10'')]),
      run (api_create_entry ''fdb_entry'' (self ''fdb_entry24'') [(''type'', num SAI_FDB_ENTRY_TYPE_STATIC),
        (''bridge_port_id'', self ''port24_bp''), (''packet_action'', var ''mac_action'')]),
      set_self ''fdb_entry25'' (struct ''sai_thrift_fdb_entry_t'' [(''switch_id'', self ''switch_id''), (''mac_address'', self
        ''mac3''), (''bv_id'', self ''vlan10'')]),
      run (api_create_entry ''fdb_entry'' (self ''fdb_entry25'') [(''type'', num SAI_FDB_ENTRY_TYPE_STATIC),
        (''bridge_port_id'', self ''port25_bp''), (''packet_action'', var ''mac_action'')]),
      set_self ''lag10'' (api_create ''lag'' []),
      set_self ''lag_mbr31'' (api_create ''lag_member'' [(''lag_id'', self ''lag10''), (''port_id'', self ''port28'')]),
      set_self ''lag11'' (api_create ''lag'' []),
      set_self ''lag_mbr41'' (api_create ''lag_member'' [(''lag_id'', self ''lag11''), (''port_id'', self ''port29'')]),
      set_self ''lag10_bp'' (api_create ''bridge_port'' [(''bridge_id'', self ''default_1q_bridge''), (''port_id'', self
        ''lag10''), (''type'', num SAI_BRIDGE_PORT_TYPE_PORT), (''admin_state'', bool True)]),
      set_self ''lag11_bp'' (api_create ''bridge_port'' [(''bridge_id'', self ''default_1q_bridge''), (''port_id'', self
        ''lag11''), (''type'', num SAI_BRIDGE_PORT_TYPE_PORT), (''admin_state'', bool True)]),
      set_self ''vlan40'' (api_create ''vlan'' [(''vlan_id'', num 40)]),
      set_self ''vlan_member41'' (api_create ''vlan_member'' [(''vlan_id'', self ''vlan40''), (''bridge_port_id'', self
        ''port26_bp''), (''vlan_tagging_mode'', num SAI_VLAN_TAGGING_MODE_UNTAGGED)]),
      set_self ''vlan_member42'' (api_create ''vlan_member'' [(''vlan_id'', self ''vlan40''), (''bridge_port_id'', self
        ''port27_bp''), (''vlan_tagging_mode'', num SAI_VLAN_TAGGING_MODE_TAGGED)]),
      set_self ''vlan_member43'' (api_create ''vlan_member'' [(''vlan_id'', self ''vlan40''), (''bridge_port_id'', self
        ''lag10_bp''), (''vlan_tagging_mode'', num SAI_VLAN_TAGGING_MODE_TAGGED)]),
      set_self ''vlan_member44'' (api_create ''vlan_member'' [(''vlan_id'', self ''vlan40''), (''bridge_port_id'', self
        ''lag11_bp''), (''vlan_tagging_mode'', num SAI_VLAN_TAGGING_MODE_TAGGED)]),
      set_self ''vlan50'' (api_create ''vlan'' [(''vlan_id'', num 50)]),
      set_self ''vlan_member51'' (api_create ''vlan_member'' [(''vlan_id'', self ''vlan50''), (''bridge_port_id'', self
        ''port26_bp''), (''vlan_tagging_mode'', num SAI_VLAN_TAGGING_MODE_TAGGED)]),
      set_self ''vlan_member52'' (api_create ''vlan_member'' [(''vlan_id'', self ''vlan50''), (''bridge_port_id'', self
        ''port27_bp''), (''vlan_tagging_mode'', num SAI_VLAN_TAGGING_MODE_UNTAGGED)]),
      set_self ''vlan_member53'' (api_create ''vlan_member'' [(''vlan_id'', self ''vlan50''), (''bridge_port_id'', self
        ''lag10_bp''), (''vlan_tagging_mode'', num SAI_VLAN_TAGGING_MODE_TAGGED)]),
      set_self ''vlan_member54'' (api_create ''vlan_member'' [(''vlan_id'', self ''vlan50''), (''bridge_port_id'', self
        ''lag11_bp''), (''vlan_tagging_mode'', num SAI_VLAN_TAGGING_MODE_TAGGED)]),
      set_self ''vlan60'' (api_create ''vlan'' [(''vlan_id'', num 60)]),
      set_self ''vlan_member61'' (api_create ''vlan_member'' [(''vlan_id'', self ''vlan60''), (''bridge_port_id'', self
        ''port26_bp''), (''vlan_tagging_mode'', num SAI_VLAN_TAGGING_MODE_TAGGED)]),
      set_self ''vlan_member62'' (api_create ''vlan_member'' [(''vlan_id'', self ''vlan60''), (''bridge_port_id'', self
        ''port27_bp''), (''vlan_tagging_mode'', num SAI_VLAN_TAGGING_MODE_TAGGED)]),
      set_self ''vlan_member63'' (api_create ''vlan_member'' [(''vlan_id'', self ''vlan60''), (''bridge_port_id'', self
        ''lag10_bp''), (''vlan_tagging_mode'', num SAI_VLAN_TAGGING_MODE_UNTAGGED)]),
      set_self ''vlan_member64'' (api_create ''vlan_member'' [(''vlan_id'', self ''vlan60''), (''bridge_port_id'', self
        ''lag11_bp''), (''vlan_tagging_mode'', num SAI_VLAN_TAGGING_MODE_TAGGED)]),
      set_self ''vlan70'' (api_create ''vlan'' [(''vlan_id'', num 70)]),
      set_self ''vlan_member71'' (api_create ''vlan_member'' [(''vlan_id'', self ''vlan70''), (''bridge_port_id'', self
        ''port26_bp''), (''vlan_tagging_mode'', num SAI_VLAN_TAGGING_MODE_TAGGED)]),
      set_self ''vlan_member72'' (api_create ''vlan_member'' [(''vlan_id'', self ''vlan70''), (''bridge_port_id'', self
        ''port27_bp''), (''vlan_tagging_mode'', num SAI_VLAN_TAGGING_MODE_TAGGED)]),
      set_self ''vlan_member73'' (api_create ''vlan_member'' [(''vlan_id'', self ''vlan70''), (''bridge_port_id'', self
        ''lag10_bp''), (''vlan_tagging_mode'', num SAI_VLAN_TAGGING_MODE_TAGGED)]),
      set_self ''vlan_member74'' (api_create ''vlan_member'' [(''vlan_id'', self ''vlan70''), (''bridge_port_id'', self
        ''lag11_bp''), (''vlan_tagging_mode'', num SAI_VLAN_TAGGING_MODE_UNTAGGED)])]"

definition L2VlanTest_forwardingTest :: "'d stmt" where
  "L2VlanTest_forwardingTest = block [
      assign ''pkt'' (lib ''simple_tcp_packet'' [] [(''eth_dst'', str ''00:33:33:33:33:33''), (''eth_src'', str
        ''00:11:11:11:11:11''), (''ip_dst'', str ''172.16.0.1''), (''ip_id'', num 101), (''ip_ttl'', num 64)]),
      run (lib ''send_packet'' [self ''dev_port0'', var ''pkt''] []),
      run (lib ''verify_packet'' [var ''pkt'', self ''dev_port24''] []),
      set_self ''i_pkt_count'' (add (self ''i_pkt_count'') (num 1)),
      set_self ''e_pkt_count'' (add (self ''e_pkt_count'') (num 1)),
      assign ''pkt'' (lib ''simple_tcp_packet'' [] [(''eth_dst'', str ''00:22:22:22:22:22''), (''eth_src'', str
        ''00:11:11:11:11:11''), (''ip_dst'', str ''172.16.0.1''), (''ip_id'', num 102), (''ip_ttl'', num 64)]),
      assign ''exp_pkt'' (lib ''simple_tcp_packet'' [] [(''eth_dst'', str ''00:22:22:22:22:22''), (''eth_src'', str
        ''00:11:11:11:11:11''), (''ip_dst'', str ''172.16.0.1''), (''dl_vlan_enable'', bool True), (''vlan_vid'', num 10),
        (''ip_id'', num 102), (''ip_ttl'', num 64), (''pktlen'', num 104)]),
      run (lib ''send_packet'' [self ''dev_port0'', var ''pkt''] []),
      run (lib ''verify_packet'' [var ''exp_pkt'', self ''dev_port1''] []),
      set_self ''i_pkt_count'' (add (self ''i_pkt_count'') (num 1)),
      set_self ''e_pkt_count'' (add (self ''e_pkt_count'') (num 1)),
      assign ''pkt'' (lib ''simple_tcp_packet'' [] [(''eth_dst'', str ''00:44:44:44:44:44''), (''eth_src'', str
        ''00:22:22:22:22:22''), (''dl_vlan_enable'', bool True), (''vlan_vid'', num 10), (''ip_dst'', str ''172.16.0.1''),
        (''ip_id'', num 102), (''ip_ttl'', num 64)]),
      assign ''exp_pkt'' (lib ''simple_tcp_packet'' [] [(''eth_dst'', str ''00:44:44:44:44:44''), (''eth_src'', str
        ''00:22:22:22:22:22''), (''ip_dst'', str ''172.16.0.1''), (''ip_id'', num 102), (''dl_vlan_enable'', bool True),
        (''vlan_vid'', num 10), (''ip_ttl'', num 64)]),
      run (lib ''send_packet'' [self ''dev_port1'', var ''pkt''] []),
      run (lib ''verify_packet'' [var ''exp_pkt'', self ''dev_port25''] []),
      set_self ''i_pkt_count'' (add (self ''i_pkt_count'') (num 1)),
      set_self ''e_pkt_count'' (add (self ''e_pkt_count'') (num 1)),
      assign ''pkt'' (lib ''simple_tcp_packet'' [] [(''eth_dst'', str ''00:11:11:11:11:11''), (''eth_src'', str
        ''00:22:22:22:22:22''), (''dl_vlan_enable'', bool True), (''vlan_vid'', num 10), (''ip_dst'', str ''172.16.0.1''),
        (''ip_id'', num 102), (''ip_ttl'', num 64)]),
      assign ''exp_pkt'' (lib ''simple_tcp_packet'' [] [(''eth_dst'', str ''00:11:11:11:11:11''), (''eth_src'', str
        ''00:22:22:22:22:22''), (''ip_dst'', str ''172.16.0.1''), (''ip_id'', num 102), (''ip_ttl'', num 64), (''pktlen'', num
        96)]),
      run (lib ''send_packet'' [self ''dev_port1'', var ''pkt''] []),
      run (lib ''verify_packet'' [var ''exp_pkt'', self ''dev_port0''] []),
      set_self ''i_pkt_count'' (add (self ''i_pkt_count'') (num 1)),
      set_self ''e_pkt_count'' (add (self ''e_pkt_count'') (num 1))]"

definition L2VlanTest_nativeVlanTest :: "'d stmt" where
  "L2VlanTest_nativeVlanTest = block [
      try_finally [
        assign ''tag_pkt'' (lib ''simple_udp_packet'' [] [(''eth_dst'', str ''00:44:44:44:44:44''), (''eth_src'', str
          ''00:22:22:22:22:22''), (''dl_vlan_enable'', bool True), (''vlan_vid'', num 10), (''ip_ttl'', num 64), (''pktlen'',
          num 104)]),
        assign ''untag_pkt'' (lib ''simple_udp_packet'' [] [(''eth_dst'', str ''00:44:44:44:44:44''), (''eth_src'', str
          ''00:22:22:22:22:22''), (''ip_ttl'', num 64), (''pktlen'', num 100)]),
        print [self ''dev_port1'', self ''dev_port25''],
        run (lib ''send_packet'' [self ''dev_port1'', var ''tag_pkt''] []),
        run (lib ''verify_packet'' [var ''tag_pkt'', self ''dev_port25''] []),
        set_self ''i_pkt_count'' (add (self ''i_pkt_count'') (num 1)),
        set_self ''e_pkt_count'' (add (self ''e_pkt_count'') (num 1)),
        assign ''tag_pkt1'' (lib ''simple_udp_packet'' [] [(''eth_dst'', str ''00:11:11:11:11:11''), (''eth_src'', str
          ''00:33:33:33:33:33''), (''dl_vlan_enable'', bool True), (''vlan_vid'', num 10), (''ip_ttl'', num 64), (''pktlen'',
          num 104)]),
        assign ''untag_pkt1'' (lib ''simple_udp_packet'' [] [(''eth_dst'', str ''00:11:11:11:11:11''), (''eth_src'', str
          ''00:33:33:33:33:33''), (''ip_ttl'', num 64), (''pktlen'', num 100)]),
        print [self ''dev_port1'', self ''dev_port0''],
        run (lib ''send_packet'' [self ''dev_port1'', var ''tag_pkt1''] []),
        run (lib ''verify_packet'' [var ''untag_pkt1'', self ''dev_port0''] []),
        set_self ''i_pkt_count'' (add (self ''i_pkt_count'') (num 1)),
        set_self ''e_pkt_count'' (add (self ''e_pkt_count'') (num 1)),
        print [self ''dev_port1''],
        run (lib ''send_packet'' [self ''dev_port1'', var ''untag_pkt''] []),
        run (lib ''verify_no_other_packets'' [] [(''timeout'', num 1)]),
        assign ''tag_pkt_40'' (lib ''simple_udp_packet'' [] [(''eth_dst'', str ''00:44:44:44:44:44''), (''eth_src'', str
          ''00:33:33:33:33:33''), (''dl_vlan_enable'', bool True), (''vlan_vid'', num 40), (''ip_ttl'', num 64), (''pktlen'',
          num 104)]),
        print [self ''dev_port1''],
        run (lib ''send_packet'' [self ''dev_port1'', var ''tag_pkt_40''] []),
        run (lib ''verify_no_other_packets'' [] [(''timeout'', num 1)]),
        run (api_set ''port'' (self ''port1'') [(''port_vlan_id'', num 10)]),
        print [self ''dev_port1'', self ''dev_port25''],
        run (lib ''send_packet'' [self ''dev_port1'', var ''tag_pkt''] []),
        run (lib ''verify_packet'' [var ''tag_pkt'', self ''dev_port25''] []),
        set_self ''i_pkt_count'' (add (self ''i_pkt_count'') (num 1)),
        set_self ''e_pkt_count'' (add (self ''e_pkt_count'') (num 1)),
        print [self ''dev_port1'', self ''dev_port0''],
        run (lib ''send_packet'' [self ''dev_port1'', var ''tag_pkt1''] []),
        run (lib ''verify_packet'' [var ''untag_pkt1'', self ''dev_port0''] []),
        set_self ''i_pkt_count'' (add (self ''i_pkt_count'') (num 1)),
        set_self ''e_pkt_count'' (add (self ''e_pkt_count'') (num 1)),
        print [self ''dev_port1'', self ''dev_port25''],
        run (lib ''send_packet'' [self ''dev_port1'', var ''untag_pkt''] []),
        run (lib ''verify_packet'' [var ''tag_pkt'', self ''dev_port25''] []),
        set_self ''i_pkt_count'' (add (self ''i_pkt_count'') (num 1)),
        set_self ''e_pkt_count'' (add (self ''e_pkt_count'') (num 1)),
        print [self ''dev_port1'', self ''dev_port0''],
        run (lib ''send_packet'' [self ''dev_port1'', var ''untag_pkt1''] []),
        run (lib ''verify_packet'' [var ''untag_pkt1'', self ''dev_port0''] []),
        set_self ''i_pkt_count'' (add (self ''i_pkt_count'') (num 1)),
        set_self ''e_pkt_count'' (add (self ''e_pkt_count'') (num 1)),
        print [self ''dev_port1''],
        run (lib ''send_packet'' [self ''dev_port1'', var ''tag_pkt_40''] []),
        run (lib ''verify_no_other_packets'' [] [(''timeout'', num 1)]),
        run (api_set ''vlan'' (self ''vlan20'') [(''learn_disable'', bool True)]),
        run (api_set ''port'' (self ''port2'') [(''port_vlan_id'', num 20)]),
        run (api_set ''port'' (self ''port1'') [(''port_vlan_id'', num 20)]),
        assign ''tag_pkt_20'' (lib ''simple_udp_packet'' [] [(''eth_dst'', str ''00:44:44:44:44:44''), (''eth_src'', str
          ''00:22:22:22:22:22''), (''dl_vlan_enable'', bool True), (''vlan_vid'', num 20), (''ip_ttl'', num 64), (''pktlen'',
          num 104)]),
        assign ''lag1_ports'' (list_of [self ''dev_port7'', self ''dev_port8'', self ''dev_port9'']),
        run (lib ''send_packet'' [self ''dev_port1'', var ''untag_pkt''] []),
        run (lib ''verify_each_packet_on_multiple_port_lists'' [list_of [var ''tag_pkt_20'', var ''untag_pkt'', var
          ''tag_pkt_20''], list_of [var ''lag1_ports'', list_of [self ''dev_port2''], list_of [self ''dev_port3'']]] []),
        assign ''mac'' (str ''00:55:55:55:55:55''),
        assign ''mac_action'' (num SAI_PACKET_ACTION_FORWARD),
        assign ''fdb_entry'' (struct ''sai_thrift_fdb_entry_t'' [(''switch_id'', self ''switch_id''), (''mac_address'', var
          ''mac''), (''bv_id'', self ''vlan20'')]),
        run (api_create_entry ''fdb_entry'' (var ''fdb_entry'') [(''type'', num SAI_FDB_ENTRY_TYPE_STATIC), (''bridge_port_id'',
          self ''lag2_bp''), (''packet_action'', var ''mac_action'')]),
        run (api_set ''lag'' (self ''lag2'') [(''port_vlan_id'', num 20)]),
        assign ''tag_pkt_lag'' (lib ''simple_udp_packet'' [] [(''eth_dst'', str ''00:44:44:44:44:44''), (''eth_src'', str
          ''00:55:55:55:55:55''), (''dl_vlan_enable'', bool True), (''vlan_vid'', num 20), (''ip_ttl'', num 64), (''pktlen'',
          num 104)]),
        assign ''untag_pkt_lag'' (lib ''simple_udp_packet'' [] [(''eth_dst'', str ''00:44:44:44:44:44''), (''eth_src'', str
          ''00:55:55:55:55:55''), (''ip_ttl'', num 64), (''pktlen'', num 100)]),
        run (lib ''send_packet'' [self ''dev_port7'', var ''untag_pkt_lag''] []),
        run (lib ''verify_each_packet_on_multiple_port_lists'' [list_of [var ''untag_pkt_lag'', var ''tag_pkt_lag''], list_of
          [list_of [self ''dev_port2''], list_of [self ''dev_port3'']]] []),
        run (api_set ''lag'' (self ''lag2'') [(''port_vlan_id'', num 1)]),
        print [self ''dev_port1'', self ''dev_port25''],
        run (lib ''send_packet'' [self ''dev_port1'', var ''tag_pkt''] []),
        run (lib ''verify_packet'' [var ''tag_pkt'', self ''dev_port25''] []),
        set_self ''i_pkt_count'' (add (self ''i_pkt_count'') (num 1)),
        set_self ''e_pkt_count'' (add (self ''e_pkt_count'') (num 1)),
        print [self ''dev_port1''],
        run (api_set ''port'' (self ''port1'') [(''port_vlan_id'', num 1)]),
        run (lib ''send_packet'' [self ''dev_port1'', var ''untag_pkt''] []),
        run (lib ''verify_no_other_packets'' [] [(''timeout'', num 1)]),
        print [self ''dev_port1'', self ''dev_port25''],
        run (lib ''send_packet'' [self ''dev_port1'', var ''tag_pkt''] []),
        run (lib ''verify_packet'' [var ''tag_pkt'', self ''dev_port25''] []),
        set_self ''i_pkt_count'' (add (self ''i_pkt_count'') (num 1)),
        set_self ''e_pkt_count'' (add (self ''e_pkt_count'') (num 1))] [
        run (api_set ''port'' (self ''port1'') [(''port_vlan_id'', num 1)]),
        run (api_remove ''fdb_entry'' (var ''fdb_entry'')),
        run (api_set ''vlan'' (self ''vlan20'') [(''learn_disable'', bool False)])]]"

definition L2VlanTest_priorityTaggingTest :: "'d stmt" where
  "L2VlanTest_priorityTaggingTest = block [
      assign ''mac5'' (str ''00:55:55:55:55:55''),
      assign ''mac6'' (str ''00:66:66:66:66:66''),
      assign ''mac7'' (str ''00:77:77:77:77:77''),
      assign ''mac8'' (str ''00:88:88:88:88:88''),
      assign ''mac_action'' (num SAI_PACKET_ACTION_FORWARD),
      assign ''vlan_member1'' (api_create ''vlan_member'' [(''vlan_id'', self ''vlan20''), (''bridge_port_id'', self
        ''port26_bp''), (''vlan_tagging_mode'', num SAI_VLAN_TAGGING_MODE_TAGGED)]),
      assign ''vlan_member2'' (api_create ''vlan_member'' [(''vlan_id'', self ''vlan20''), (''bridge_port_id'', self
        ''port27_bp''), (''vlan_tagging_mode'', num SAI_VLAN_TAGGING_MODE_UNTAGGED)]),
      assign ''fdb_entry1'' (struct ''sai_thrift_fdb_entry_t'' [(''switch_id'', self ''switch_id''), (''mac_address'', var
        ''mac5''), (''bv_id'', self ''vlan10'')]),
      run (api_create_entry ''fdb_entry'' (var ''fdb_entry1'') [(''type'', num SAI_FDB_ENTRY_TYPE_STATIC), (''bridge_port_id'',
        self ''lag1_bp''), (''packet_action'', var ''mac_action'')]),
      assign ''fdb_entry2'' (struct ''sai_thrift_fdb_entry_t'' [(''switch_id'', self ''switch_id''), (''mac_address'', var
        ''mac6''), (''bv_id'', self ''vlan20'')]),
      run (api_create_entry ''fdb_entry'' (var ''fdb_entry2'') [(''type'', num SAI_FDB_ENTRY_TYPE_STATIC), (''bridge_port_id'',
        self ''lag2_bp''), (''packet_action'', var ''mac_action'')]),
      assign ''fdb_entry3'' (struct ''sai_thrift_fdb_entry_t'' [(''switch_id'', self ''switch_id''), (''mac_address'', var
        ''mac7''), (''bv_id'', self ''vlan20'')]),
      run (api_create_entry ''fdb_entry'' (var ''fdb_entry3'') [(''type'', num SAI_FDB_ENTRY_TYPE_STATIC), (''bridge_port_id'',
        self ''port26_bp''), (''packet_action'', var ''mac_action'')]),
      assign ''fdb_entry4'' (struct ''sai_thrift_fdb_entry_t'' [(''switch_id'', self ''switch_id''), (''mac_address'', var
        ''mac8''), (''bv_id'', self ''vlan20'')]),
      run (api_create_entry ''fdb_entry'' (var ''fdb_entry4'') [(''type'', num SAI_FDB_ENTRY_TYPE_STATIC), (''bridge_port_id'',
        self ''port27_bp''), (''packet_action'', var ''mac_action'')]),
      try_finally [
        assign ''pkt'' (lib ''simple_udp_packet'' [] [(''eth_dst'', str ''00:33:33:33:33:33''), (''eth_src'', str
          ''00:11:11:11:11:11''), (''dl_vlan_enable'', bool True), (''vlan_vid'', num 0), (''ip_ttl'', num 64), (''pktlen'', num
          104)]),
        assign ''exp_pkt'' (lib ''simple_udp_packet'' [] [(''eth_dst'', str ''00:33:33:33:33:33''), (''eth_src'', str
          ''00:11:11:11:11:11''), (''ip_ttl'', num 64), (''pktlen'', num 100)]),
        print [self ''dev_port0'', self ''dev_port24''],
        run (lib ''send_packet'' [self ''dev_port0'', var ''pkt''] []),
        run (lib ''verify_packet'' [var ''exp_pkt'', self ''dev_port24''] []),
        set_self ''i_pkt_count'' (add (self ''i_pkt_count'') (num 1)),
        set_self ''e_pkt_count'' (add (self ''e_pkt_count'') (num 1)),
        assign ''pkt'' (lib ''simple_udp_packet'' [] [(''eth_dst'', str ''00:22:22:22:22:22''), (''eth_src'', str
          ''00:11:11:11:11:11''), (''dl_vlan_enable'', bool True), (''vlan_vid'', num 0), (''ip_ttl'', num 64)]),
        assign ''exp_pkt'' (lib ''simple_udp_packet'' [] [(''eth_dst'', str ''00:22:22:22:22:22''), (''eth_src'', str
          ''00:11:11:11:11:11''), (''dl_vlan_enable'', bool True), (''vlan_vid'', num 10), (''ip_ttl'', num 64)]),
        print [self ''dev_port0'', self ''dev_port1''],
        run (lib ''send_packet'' [self ''dev_port0'', var ''pkt''] []),
        run (lib ''verify_packet'' [var ''exp_pkt'', self ''dev_port1''] []),
        set_self ''i_pkt_count'' (add (self ''i_pkt_count'') (num 1)),
        set_self ''e_pkt_count'' (add (self ''e_pkt_count'') (num 1)),
        assign ''pkt'' (lib ''simple_udp_packet'' [] [(''eth_dst'', str ''00:33:33:33:33:33''), (''eth_src'', str
          ''00:55:55:55:55:55''), (''dl_vlan_enable'', bool True), (''vlan_vid'', num 0), (''ip_ttl'', num 64), (''pktlen'', num
          104)]),
        assign ''exp_pkt'' (lib ''simple_udp_packet'' [] [(''eth_dst'', str ''00:33:33:33:33:33''), (''eth_src'', str
          ''00:55:55:55:55:55''), (''ip_ttl'', num 64), (''pktlen'', num 100)]),
        print [self ''dev_port24''],
        run (lib ''send_packet'' [self ''dev_port4'', var ''pkt''] []),
        run (lib ''verify_packet'' [var ''exp_pkt'', self ''dev_port24''] []),
        set_self ''i_pkt_count'' (add (self ''i_pkt_count'') (num 1)),
        set_self ''e_pkt_count'' (add (self ''e_pkt_count'') (num 1)),
        assign ''pkt'' (lib ''simple_udp_packet'' [] [(''eth_dst'', str ''00:22:22:22:22:22''), (''eth_src'', str
          ''00:55:55:55:55:55''), (''dl_vlan_enable'', bool True), (''vlan_vid'', num 0), (''ip_ttl'', num 64)]),
        assign ''exp_pkt'' (lib ''simple_udp_packet'' [] [(''eth_dst'', str ''00:22:22:22:22:22''), (''eth_src'', str
          ''00:55:55:55:55:55''), (''dl_vlan_enable'', bool True), (''vlan_vid'', num 10), (''ip_ttl'', num 64)]),
        print [self ''dev_port1''],
        run (lib ''send_packet'' [self ''dev_port4'', var ''pkt''] []),
        run (lib ''verify_packet'' [var ''exp_pkt'', self ''dev_port1''] []),
        set_self ''i_pkt_count'' (add (self ''i_pkt_count'') (num 1)),
        set_self ''e_pkt_count'' (add (self ''e_pkt_count'') (num 1)),
        assign ''pkt'' (lib ''simple_udp_packet'' [] [(''eth_dst'', str ''00:44:44:44:44:44''), (''eth_src'', str
          ''00:22:22:22:22:22''), (''dl_vlan_enable'', bool True), (''vlan_vid'', num 0), (''ip_ttl'', num 64)]),
        print [self ''dev_port1''],
        run (lib ''send_packet'' [self ''dev_port1'', var ''pkt''] []),
        run (lib ''verify_no_other_packets'' [] [(''timeout'', num 1)]),
        assign ''pkt'' (lib ''simple_udp_packet'' [] [(''eth_dst'', str ''00:11:11:11:11:11''), (''eth_src'', str
          ''00:22:22:22:22:22''), (''dl_vlan_enable'', bool True), (''vlan_vid'', num 0), (''ip_ttl'', num 64)]),
        print [self ''dev_port1''],
        run (lib ''send_packet'' [self ''dev_port1'', var ''pkt''] []),
        run (lib ''verify_no_other_packets'' [] [(''timeout'', num 1)]),
        assign ''pkt'' (lib ''simple_udp_packet'' [] [(''eth_dst'', str ''00:44:44:44:44:44''), (''eth_src'', str
          ''00:66:66:66:66:66''), (''dl_vlan_enable'', bool True), (''vlan_vid'', num 0), (''ip_ttl'', num 64)]),
        run (lib ''send_packet'' [self ''dev_port7'', var ''pkt''] []),
        run (lib ''verify_no_other_packets'' [] [(''timeout'', num 1)]),
        assign ''pkt'' (lib ''simple_udp_packet'' [] [(''eth_dst'', str ''00:11:11:11:11:11''), (''eth_src'', str
          ''00:66:66:66:66:66''), (''dl_vlan_enable'', bool True), (''vlan_vid'', num 0), (''ip_ttl'', num 64)]),
        run (lib ''send_packet'' [self ''dev_port7'', var ''pkt''] []),
        run (lib ''verify_no_other_packets'' [] [(''timeout'', num 1)]),
        run (api_set ''lag'' (self ''lag2'') [(''port_vlan_id'', num 20)]),
        print [self ''dev_port1''],
        run (api_set ''port'' (self ''port1'') [(''port_vlan_id'', num 10)]),
        assign ''pkt'' (lib ''simple_udp_packet'' [] [(''eth_dst'', str ''00:44:44:44:44:44''), (''eth_src'', str
          ''00:22:22:22:22:22''), (''dl_vlan_enable'', bool True), (''vlan_vid'', num 0), (''ip_ttl'', num 64)]),
        assign ''exp_pkt'' (lib ''simple_udp_packet'' [] [(''eth_dst'', str ''00:44:44:44:44:44''), (''eth_src'', str
          ''00:22:22:22:22:22''), (''dl_vlan_enable'', bool True), (''vlan_vid'', num 10), (''ip_ttl'', num 64)]),
        print [self ''dev_port1'', self ''dev_port25''],
        run (lib ''send_packet'' [self ''dev_port1'', var ''pkt''] []),
        run (lib ''verify_packet'' [var ''exp_pkt'', self ''dev_port25''] []),
        set_self ''i_pkt_count'' (add (self ''i_pkt_count'') (num 1)),
        set_self ''e_pkt_count'' (add (self ''e_pkt_count'') (num 1)),
        assign ''pkt'' (lib ''simple_udp_packet'' [] [(''eth_dst'', str ''00:77:77:77:77:77''), (''eth_src'', str
          ''00:66:66:66:66:66''), (''dl_vlan_enable'', bool True), (''vlan_vid'', num 0), (''ip_ttl'', num 64)]),
        assign ''exp_pkt'' (lib ''simple_udp_packet'' [] [(''eth_dst'', str ''00:77:77:77:77:77''), (''eth_src'', str
          ''00:66:66:66:66:66''), (''dl_vlan_enable'', bool True), (''vlan_vid'', num 20), (''ip_ttl'', num 64)]),
        print [self ''dev_port26''],
        run (lib ''send_packet'' [self ''dev_port7'', var ''pkt''] []),
        run (lib ''verify_packet'' [var ''exp_pkt'', self ''dev_port26''] []),
        assign ''pkt'' (lib ''simple_udp_packet'' [] [(''eth_dst'', str ''00:11:11:11:11:11''), (''eth_src'', str
          ''00:22:22:22:22:22''), (''dl_vlan_enable'', bool True), (''vlan_vid'', num 0), (''ip_ttl'', num 64), (''pktlen'', num
          104)]),
        assign ''exp_pkt'' (lib ''simple_udp_packet'' [] [(''eth_dst'', str ''00:11:11:11:11:11''), (''eth_src'', str
          ''00:22:22:22:22:22''), (''ip_ttl'', num 64), (''pktlen'', num 100)]),
        print [self ''dev_port1'', self ''dev_port0''],
        run (lib ''send_packet'' [self ''dev_port1'', var ''pkt''] []),
        run (lib ''verify_packet'' [var ''exp_pkt'', self ''dev_port0''] []),
        set_self ''i_pkt_count'' (add (self ''i_pkt_count'') (num 1)),
        set_self ''e_pkt_count'' (add (self ''e_pkt_count'') (num 1)),
        assign ''pkt'' (lib ''simple_udp_packet'' [] [(''eth_dst'', str ''00:88:88:88:88:88''), (''eth_src'', str
          ''00:66:66:66:66:66''), (''dl_vlan_enable'', bool True), (''vlan_vid'', num 0), (''ip_ttl'', num 64), (''pktlen'', num
          104)]),
        assign ''exp_pkt'' (lib ''simple_udp_packet'' [] [(''eth_dst'', str ''00:88:88:88:88:88''), (''eth_src'', str
          ''00:66:66:66:66:66''), (''ip_ttl'', num 64), (''pktlen'', num 100)]),
        print [self ''dev_port27''],
        run (lib ''send_packet'' [self ''dev_port7'', var ''pkt''] []),
        run (lib ''verify_packet'' [var ''exp_pkt'', self ''dev_port27''] [])] [
        run (api_set ''port'' (self ''port1'') [(''port_vlan_id'', num 1)]),
        run (api_set ''lag'' (self ''lag2'') [(''port_vlan_id'', num 1)]),
        run (api_remove ''fdb_entry'' (var ''fdb_entry1'')),
        run (api_remove ''fdb_entry'' (var ''fdb_entry2'')),
        run (api_remove ''fdb_entry'' (var ''fdb_entry3'')),
        run (api_remove ''fdb_entry'' (var ''fdb_entry4'')),
        run (api_remove ''vlan_member'' (var ''vlan_member1'')),
        run (api_remove ''vlan_member'' (var ''vlan_member2''))]]"

definition L2VlanTest_pvDropTest :: "'d stmt" where
  "L2VlanTest_pvDropTest = block [
      assign ''v100_pkt'' (lib ''simple_tcp_packet'' [] [(''eth_dst'', str ''00:11:11:11:11:11''), (''eth_src'', str
        ''00:22:22:22:22:22''), (''dl_vlan_enable'', bool True), (''vlan_vid'', num 100), (''ip_dst'', str ''10.0.0.1''),
        (''ip_ttl'', num 64)]),
      assign ''untagged_pkt'' (lib ''simple_tcp_packet'' [] [(''eth_dst'', str ''00:11:11:11:11:11''), (''eth_src'', str
        ''00:22:22:22:22:22''), (''ip_dst'', str ''10.0.0.1''), (''ip_ttl'', num 64)]),
      assign ''v10_pkt'' (lib ''simple_tcp_packet'' [] [(''eth_dst'', str ''00:22:22:22:22:22''), (''eth_src'', str
        ''00:11:11:11:11:11''), (''ip_dst'', str ''10.0.0.1''), (''dl_vlan_enable'', bool True), (''vlan_vid'', num 10),
        (''ip_ttl'', num 64)]),
      assign ''exp_at_pkt'' (lib ''simple_tcp_packet'' [] [(''eth_dst'', str ''00:22:22:22:22:22''), (''eth_src'', str
        ''00:11:11:11:11:11''), (''ip_dst'', str ''10.0.0.1''), (''dl_vlan_enable'', bool True), (''vlan_vid'', num 10),
        (''ip_ttl'', num 64)]),
      assign ''v11_pkt'' (lib ''simple_tcp_packet'' [] [(''eth_dst'', str ''00:22:22:22:22:22''), (''eth_src'', str
        ''00:11:11:11:11:11''), (''ip_dst'', str ''10.0.0.1''), (''dl_vlan_enable'', bool True), (''vlan_vid'', num 11),
        (''ip_ttl'', num 64)]),
      print [self ''dev_port1''],
      run (lib ''send_packet'' [self ''dev_port1'', var ''v100_pkt''] []),
      run (lib ''verify_no_other_packets'' [] [(''timeout'', num 1)]),
      print [self ''dev_port1''],
      run (lib ''send_packet'' [self ''dev_port1'', var ''untagged_pkt''] []),
      run (lib ''verify_no_other_packets'' [] [(''timeout'', num 1)]),
      print [self ''dev_port0''],
      run (lib ''send_packet'' [self ''dev_port0'', var ''v10_pkt''] []),
      run (lib ''verify_packet'' [var ''exp_at_pkt'', self ''dev_port1''] []),
      set_self ''i_pkt_count'' (add (self ''i_pkt_count'') (num 1)),
      set_self ''e_pkt_count'' (add (self ''e_pkt_count'') (num 1)),
      assign ''stats'' (query ''sai_thrift_get_port_stats'' [self ''port0''] []),
      assign ''if_in_vlan_discards_pre'' (item (var ''stats'') (str ''SAI_PORT_STAT_IF_IN_VLAN_DISCARDS'')),
      print [self ''dev_port0''],
      run (lib ''send_packet'' [self ''dev_port0'', var ''v11_pkt''] []),
      run (lib ''verify_no_other_packets'' [] [(''timeout'', num 1)]),
      assign ''stats'' (query ''sai_thrift_get_port_stats'' [self ''port0''] []),
      assign ''if_in_vlan_discards'' (item (var ''stats'') (str ''SAI_PORT_STAT_IF_IN_VLAN_DISCARDS'')),
      assert_eq (add (var ''if_in_vlan_discards_pre'') (num 1)) (var ''if_in_vlan_discards'')]"

definition L2VlanTest_lagPVMissTest :: "'d stmt" where
  "L2VlanTest_lagPVMissTest = block [
      assign ''mac_action'' (num SAI_PACKET_ACTION_FORWARD),
      assign ''mac7'' (str ''00:77:77:77:77:77''),
      assign ''mac8'' (str ''00:88:88:88:88:88''),
      assign ''mac9'' (str ''00:99:99:99:99:99''),
      assign ''fdb_entry1'' (struct ''sai_thrift_fdb_entry_t'' [(''switch_id'', self ''switch_id''), (''mac_address'', var
        ''mac7''), (''bv_id'', self ''vlan20'')]),
      run (api_create_entry ''fdb_entry'' (var ''fdb_entry1'') [(''type'', num SAI_FDB_ENTRY_TYPE_STATIC), (''bridge_port_id'',
        self ''port26_bp''), (''packet_action'', var ''mac_action'')]),
      assign ''fdb_entry2'' (struct ''sai_thrift_fdb_entry_t'' [(''switch_id'', self ''switch_id''), (''mac_address'', var
        ''mac8''), (''bv_id'', self ''vlan40'')]),
      run (api_create_entry ''fdb_entry'' (var ''fdb_entry2'') [(''type'', num SAI_FDB_ENTRY_TYPE_STATIC), (''bridge_port_id'',
        self ''port26_bp''), (''packet_action'', var ''mac_action'')]),
      assign ''fdb_entry3'' (struct ''sai_thrift_fdb_entry_t'' [(''switch_id'', self ''switch_id''), (''mac_address'', var
        ''mac9''), (''bv_id'', self ''vlan20'')]),
      run (api_create_entry ''fdb_entry'' (var ''fdb_entry3'') [(''type'', num SAI_FDB_ENTRY_TYPE_STATIC), (''bridge_port_id'',
        self ''lag2_bp''), (''packet_action'', var ''mac_action'')]),
      try_finally [
        print [self ''dev_port8'', self ''dev_port26''],
        assign ''pkt'' (lib ''simple_tcp_packet'' [] [(''eth_dst'', str ''00:77:77:77:77:77''), (''eth_src'', str
          ''00:99:99:99:99:99''), (''dl_vlan_enable'', bool True), (''vlan_vid'', num 20), (''ip_dst'', str ''10.0.0.1''),
          (''ip_ttl'', num 64)]),
        run (lib ''send_packet'' [self ''dev_port8'', var ''pkt''] []),
        run (lib ''verify_packet'' [var ''pkt'', self ''dev_port26''] []),
        print [self ''dev_port8''],
        assign ''pkt'' (lib ''simple_tcp_packet'' [] [(''eth_dst'', str ''00:88:88:88:88:88''), (''eth_src'', str
          ''00:99:99:99:99:99''), (''dl_vlan_enable'', bool True), (''vlan_vid'', num 40), (''ip_dst'', str ''10.0.0.1''),
          (''ip_ttl'', num 64)]),
        run (lib ''send_packet'' [self ''dev_port8'', var ''pkt''] []),
        run (lib ''verify_no_other_packets'' [] [(''timeout'', num 1)]),
        print [self ''dev_port7''],
        assign ''pkt'' (lib ''simple_tcp_packet'' [] [(''eth_dst'', str ''00:88:88:88:88:88''), (''eth_src'', str
          ''00:99:99:99:99:99''), (''dl_vlan_enable'', bool True), (''vlan_vid'', num 50), (''ip_dst'', str ''10.0.0.1''),
          (''ip_ttl'', num 64)]),
        run (lib ''send_packet'' [self ''dev_port7'', var ''pkt''] []),
        run (lib ''verify_no_other_packets'' [] [(''timeout'', num 1)])] [
        run (api_remove ''fdb_entry'' (var ''fdb_entry1'')),
        run (api_remove ''fdb_entry'' (var ''fdb_entry2'')),
        run (api_remove ''fdb_entry'' (var ''fdb_entry3''))]]"

definition L2VlanTest_tearDown :: "'d stmt" where
  "L2VlanTest_tearDown = block [
      run (api_set ''port'' (self ''port24'') [(''port_vlan_id'', num 1)]),
      run (api_remove ''fdb_entry'' (self ''fdb_entry0'')),
      run (api_remove ''fdb_entry'' (self ''fdb_entry1'')),
      run (api_remove ''fdb_entry'' (self ''fdb_entry24'')),
      run (api_remove ''fdb_entry'' (self ''fdb_entry25'')),
      run (api_remove ''vlan_member'' (self ''vlan10_member3'')),
      run (api_remove ''vlan_member'' (self ''vlan10_member4'')),
      run (api_remove ''vlan_member'' (self ''vlan_member41'')),
      run (api_remove ''vlan_member'' (self ''vlan_member42'')),
      run (api_remove ''vlan_member'' (self ''vlan_member43'')),
      run (api_remove ''vlan_member'' (self ''vlan_member44'')),
      run (api_remove ''vlan_member'' (self ''vlan_member51'')),
      run (api_remove ''vlan_member'' (self ''vlan_member52'')),
      run (api_remove ''vlan_member'' (self ''vlan_member53'')),
      run (api_remove ''vlan_member'' (self ''vlan_member54'')),
      run (api_remove ''vlan_member'' (self ''vlan_member61'')),
      run (api_remove ''vlan_member'' (self ''vlan_member62'')),
      run (api_remove ''vlan_member'' (self ''vlan_member63'')),
      run (api_remove ''vlan_member'' (self ''vlan_member64'')),
      run (api_remove ''vlan_member'' (self ''vlan_member71'')),
      run (api_remove ''vlan_member'' (self ''vlan_member72'')),
      run (api_remove ''vlan_member'' (self ''vlan_member73'')),
      run (api_remove ''vlan_member'' (self ''vlan_member74'')),
      run (api_remove ''lag_member'' (self ''lag_mbr31'')),
      run (api_remove ''lag_member'' (self ''lag_mbr41'')),
      run (api_remove ''bridge_port'' (self ''lag10_bp'')),
      run (api_remove ''bridge_port'' (self ''lag11_bp'')),
      run (api_remove ''lag'' (self ''lag10'')),
      run (api_remove ''lag'' (self ''lag11'')),
      run (api_remove ''vlan'' (self ''vlan40'')),
      run (api_remove ''vlan'' (self ''vlan50'')),
      run (api_remove ''vlan'' (self ''vlan60'')),
      run (api_remove ''vlan'' (self ''vlan70'')),
      run (api_remove ''bridge_port'' (self ''port24_bp'')),
      run (api_remove ''bridge_port'' (self ''port25_bp'')),
      run (api_remove ''bridge_port'' (self ''port26_bp'')),
      run (api_remove ''bridge_port'' (self ''port27_bp'')),
      run (api_remove ''bridge_port'' (self ''port28_bp'')),
      run (api_remove ''bridge_port'' (self ''port29_bp'')),
      super_tearDown]"

definition L2VlanTest_vlanIngressAclTest :: "'d stmt" where
  "L2VlanTest_vlanIngressAclTest = block [
      assign ''v10_pkt'' (lib ''simple_tcp_packet'' [] [(''eth_dst'', str ''00:22:22:22:22:22''), (''eth_src'', str
        ''00:11:11:11:11:11''), (''ip_dst'', str ''10.0.0.1''), (''dl_vlan_enable'', bool True), (''vlan_vid'', num 10),
        (''ip_ttl'', num 64)]),
      assign ''exp_at_pkt'' (lib ''simple_tcp_packet'' [] [(''eth_dst'', str ''00:22:22:22:22:22''), (''eth_src'', str
        ''00:11:11:11:11:11''), (''ip_dst'', str ''10.0.0.1''), (''dl_vlan_enable'', bool True), (''vlan_vid'', num 10),
        (''ip_ttl'', num 64)]),
      run (lib ''send_packet'' [self ''dev_port0'', var ''v10_pkt''] []),
      run (lib ''verify_packet'' [var ''exp_at_pkt'', self ''dev_port1''] []),
      try_finally [
        assign ''table_stage'' (num SAI_ACL_STAGE_INGRESS),
        assign ''table_bind_points'' (list_of [num SAI_ACL_BIND_POINT_TYPE_VLAN]),
        assign ''table_bind_point_type_list'' (struct ''sai_thrift_s32_list_t'' [(''count'', length_of (var
          ''table_bind_points'')), (''int32list'', var ''table_bind_points'')]),
        assign ''acl_table'' (api_create ''acl_table'' [(''acl_stage'', var ''table_stage''), (''acl_bind_point_type_list'', var
          ''table_bind_point_type_list'')]),
        assign ''dst_ip'' (str ''10.0.0.1''),
        assign ''dst_ip_mask'' (str ''255.255.255.255''),
        assign ''dst_ip_t'' (struct ''sai_thrift_acl_field_data_t'' [(''data'', struct ''sai_thrift_acl_field_data_data_t''
          [(''ip4'', var ''dst_ip'')]), (''mask'', struct ''sai_thrift_acl_field_data_mask_t'' [(''ip4'', var
          ''dst_ip_mask'')])]),
        assign ''packet_action'' (struct ''sai_thrift_acl_action_data_t'' [(''parameter'', struct
          ''sai_thrift_acl_action_parameter_t'' [(''s32'', num SAI_PACKET_ACTION_DROP)])]),
        assign ''acl_entry'' (api_create ''acl_entry'' [(''table_id'', var ''acl_table''), (''priority'', num 10),
          (''field_dst_ip'', var ''dst_ip_t''), (''action_packet_action'', var ''packet_action'')]),
        run (api_set ''vlan'' (self ''vlan10'') [(''ingress_acl'', var ''acl_table'')]),
        assign ''id'' (api_get ''vlan'' (self ''vlan10'') [(''ingress_acl'', var ''acl_table'')]),
        assert_eq (var ''acl_table'') (get_or (var ''id'') (str ''ingress_acl'') none),
        run (lib ''send_packet'' [self ''dev_port0'', var ''v10_pkt''] []),
        run (lib ''verify_no_other_packets'' [] [(''timeout'', num 2)])] [
        run (api_set ''vlan'' (self ''vlan10'') [(''ingress_acl'', num 0)]),
        run (api_remove ''acl_entry'' (var ''acl_entry'')),
        run (api_remove ''acl_table'' (var ''acl_table''))]]"

definition L2VlanTest_vlanEgressAclTest :: "'d stmt" where
  "L2VlanTest_vlanEgressAclTest = block [
      assign ''v10_pkt'' (lib ''simple_tcp_packet'' [] [(''eth_dst'', str ''00:22:22:22:22:22''), (''eth_src'', str
        ''00:11:11:11:11:11''), (''ip_dst'', str ''10.0.0.1''), (''dl_vlan_enable'', bool True), (''vlan_vid'', num 10),
        (''ip_ttl'', num 64)]),
      assign ''exp_at_pkt'' (lib ''simple_tcp_packet'' [] [(''eth_dst'', str ''00:22:22:22:22:22''), (''eth_src'', str
        ''00:11:11:11:11:11''), (''ip_dst'', str ''10.0.0.1''), (''dl_vlan_enable'', bool True), (''vlan_vid'', num 10),
        (''ip_ttl'', num 64)]),
      run (lib ''send_packet'' [self ''dev_port0'', var ''v10_pkt''] []),
      run (lib ''verify_packet'' [var ''exp_at_pkt'', self ''dev_port1''] []),
      try_finally [
        assign ''table_stage'' (num SAI_ACL_STAGE_EGRESS),
        assign ''table_bind_points'' (list_of [num SAI_ACL_BIND_POINT_TYPE_VLAN]),
        assign ''table_bind_point_type_list'' (struct ''sai_thrift_s32_list_t'' [(''count'', length_of (var
          ''table_bind_points'')), (''int32list'', var ''table_bind_points'')]),
        assign ''acl_table'' (api_create ''acl_table'' [(''acl_stage'', var ''table_stage''), (''acl_bind_point_type_list'', var
          ''table_bind_point_type_list'')]),
        assign ''dst_ip'' (str ''10.0.0.1''),
        assign ''dst_ip_mask'' (str ''255.255.255.255''),
        assign ''dst_ip_t'' (struct ''sai_thrift_acl_field_data_t'' [(''data'', struct ''sai_thrift_acl_field_data_data_t''
          [(''ip4'', var ''dst_ip'')]), (''mask'', struct ''sai_thrift_acl_field_data_mask_t'' [(''ip4'', var
          ''dst_ip_mask'')])]),
        assign ''packet_action'' (struct ''sai_thrift_acl_action_data_t'' [(''parameter'', struct
          ''sai_thrift_acl_action_parameter_t'' [(''s32'', num SAI_PACKET_ACTION_DROP)])]),
        assign ''acl_entry'' (api_create ''acl_entry'' [(''table_id'', var ''acl_table''), (''priority'', num 10),
          (''field_dst_ip'', var ''dst_ip_t''), (''action_packet_action'', var ''packet_action'')]),
        run (api_set ''vlan'' (self ''vlan10'') [(''egress_acl'', var ''acl_table'')]),
        assign ''id'' (api_get ''vlan'' (self ''vlan10'') [(''egress_acl'', var ''acl_table'')]),
        assert_eq (var ''acl_table'') (get_or (var ''id'') (str ''egress_acl'') none),
        run (lib ''send_packet'' [self ''dev_port0'', var ''v10_pkt''] []),
        run (lib ''verify_no_other_packets'' [] [(''timeout'', num 2)])] [
        run (api_set ''vlan'' (self ''vlan10'') [(''egress_acl'', num 0)]),
        run (api_remove ''acl_entry'' (var ''acl_entry'')),
        run (api_remove ''acl_table'' (var ''acl_table''))]]"

definition L2VlanTest_vlanFloodEnhancedTest :: "'d stmt" where
  "L2VlanTest_vlanFloodEnhancedTest = block [
      assign ''vlan100'' (api_create ''vlan'' [(''vlan_id'', num 100)]),
      assign ''vlan_member101'' (api_create ''vlan_member'' [(''vlan_id'', var ''vlan100''), (''bridge_port_id'', self
        ''port26_bp''), (''vlan_tagging_mode'', num SAI_VLAN_TAGGING_MODE_TAGGED)]),
      assign ''vlan_member102'' (api_create ''vlan_member'' [(''vlan_id'', var ''vlan100''), (''bridge_port_id'', self
        ''port27_bp''), (''vlan_tagging_mode'', num SAI_VLAN_TAGGING_MODE_TAGGED)]),
      assign ''vlan_member103'' (api_create ''vlan_member'' [(''vlan_id'', var ''vlan100''), (''bridge_port_id'', self
        ''lag10_bp''), (''vlan_tagging_mode'', num SAI_VLAN_TAGGING_MODE_TAGGED)]),
      assign ''vlan_member104'' (api_create ''vlan_member'' [(''vlan_id'', var ''vlan100''), (''bridge_port_id'', self
        ''lag11_bp''), (''vlan_tagging_mode'', num SAI_VLAN_TAGGING_MODE_TAGGED)]),
      assign ''vlan_member105'' (api_create ''vlan_member'' [(''vlan_id'', var ''vlan100''), (''bridge_port_id'', self
        ''port30_bp''), (''vlan_tagging_mode'', num SAI_VLAN_TAGGING_MODE_TAGGED)]),
      assign ''vlan200'' (api_create ''vlan'' [(''vlan_id'', num 200)]),
      assign ''vlan_member201'' (api_create ''vlan_member'' [(''vlan_id'', var ''vlan200''), (''bridge_port_id'', self
        ''port26_bp''), (''vlan_tagging_mode'', num SAI_VLAN_TAGGING_MODE_UNTAGGED)]),
      assign ''vlan_member202'' (api_create ''vlan_member'' [(''vlan_id'', var ''vlan200''), (''bridge_port_id'', self
        ''port27_bp''), (''vlan_tagging_mode'', num SAI_VLAN_TAGGING_MODE_UNTAGGED)]),
      assign ''vlan_member203'' (api_create ''vlan_member'' [(''vlan_id'', var ''vlan200''), (''bridge_port_id'', self
        ''lag10_bp''), (''vlan_tagging_mode'', num SAI_VLAN_TAGGING_MODE_UNTAGGED)]),
      assign ''vlan_member204'' (api_create ''vlan_member'' [(''vlan_id'', var ''vlan200''), (''bridge_port_id'', self
        ''lag11_bp''), (''vlan_tagging_mode'', num SAI_VLAN_TAGGING_MODE_UNTAGGED)]),
      run (api_set ''vlan'' (var ''vlan100'') [(''learn_disable'', bool True)]),
      run (api_set ''vlan'' (var ''vlan200'') [(''learn_disable'', bool True)]),
      run (api_set ''port'' (self ''port26'') [(''port_vlan_id'', num 200)]),
      run (api_set ''port'' (self ''port27'') [(''port_vlan_id'', num 200)]),
      run (api_set ''lag'' (self ''lag10'') [(''port_vlan_id'', num 200)]),
      run (api_set ''lag'' (self ''lag11'') [(''port_vlan_id'', num 200)]),
      assign ''pkt200'' (lib ''simple_arp_packet'' [] [(''eth_dst'', str ''FF:FF:FF:FF:FF:FF''), (''eth_src'', str
        ''00:22:22:33:44:55''), (''arp_op'', num 1), (''ip_tgt'', str ''10.10.10.1''), (''ip_snd'', str ''10.10.10.2''),
        (''hw_snd'', str ''00:22:22:33:44:55''), (''pktlen'', num 100)]),
      assign ''pkt100'' (lib ''simple_arp_packet'' [] [(''eth_dst'', str ''FF:FF:FF:FF:FF:FF''), (''eth_src'', str
        ''00:22:22:33:44:55''), (''arp_op'', num 1), (''ip_tgt'', str ''10.10.10.1''), (''ip_snd'', str ''10.10.10.2''),
        (''hw_snd'', str ''00:22:22:33:44:55''), (''vlan_vid'', num 100), (''pktlen'', num 100)]),
      try_finally [
        assign ''lag_mbr32'' (api_create ''lag_member'' [(''lag_id'', self ''lag10''), (''port_id'', self ''port24'')]),
        assign ''lag_mbr42'' (api_create ''lag_member'' [(''lag_id'', self ''lag11''), (''port_id'', self ''port25'')]),
        assign ''lag1_ports'' (list_of [self ''dev_port28'', self ''dev_port24'']),
        assign ''lag2_ports'' (list_of [self ''dev_port29'', self ''dev_port25'']),
        run (lib ''send_packet'' [self ''dev_port26'', var ''pkt100''] []),
        run (lib ''verify_each_packet_on_multiple_port_lists'' [mul (list_of [var ''pkt100'']) (num 4), list_of [var
          ''lag1_ports'', var ''lag2_ports'', list_of [self ''dev_port27''], list_of [self ''dev_port30'']]] []),
        run (lib ''send_packet'' [self ''dev_port28'', var ''pkt100''] []),
        run (lib ''verify_each_packet_on_multiple_port_lists'' [mul (list_of [var ''pkt100'']) (num 4), list_of [list_of [self
          ''dev_port26''], var ''lag2_ports'', list_of [self ''dev_port27''], list_of [self ''dev_port30'']]] []),
        run (lib ''send_packet'' [self ''dev_port29'', var ''pkt100''] []),
        run (lib ''verify_each_packet_on_multiple_port_lists'' [mul (list_of [var ''pkt100'']) (num 4), list_of [list_of [self
          ''dev_port26''], var ''lag1_ports'', list_of [self ''dev_port27''], list_of [self ''dev_port30'']]] []),
        run (lib ''send_packet'' [self ''dev_port30'', var ''pkt100''] []),
        run (lib ''verify_each_packet_on_multiple_port_lists'' [mul (list_of [var ''pkt100'']) (num 4), list_of [list_of [self
          ''dev_port26''], var ''lag1_ports'', var ''lag2_ports'', list_of [self ''dev_port27'']]] []),
        run (api_remove ''lag_member'' (var ''lag_mbr32'')),
        run (api_remove ''lag_member'' (var ''lag_mbr42'')),
        assign ''lag1_ports'' (list_of [self ''dev_port28'']),
        assign ''lag2_ports'' (list_of [self ''dev_port29'']),
        run (lib ''send_packet'' [self ''dev_port26'', var ''pkt100''] []),
        run (lib ''verify_each_packet_on_multiple_port_lists'' [mul (list_of [var ''pkt100'']) (num 4), list_of [var
          ''lag1_ports'', var ''lag2_ports'', list_of [self ''dev_port27''], list_of [self ''dev_port30'']]] []),
        run (lib ''send_packet'' [self ''dev_port28'', var ''pkt100''] []),
        run (lib ''verify_each_packet_on_multiple_port_lists'' [mul (list_of [var ''pkt100'']) (num 4), list_of [list_of [self
          ''dev_port26''], var ''lag2_ports'', list_of [self ''dev_port27''], list_of [self ''dev_port30'']]] []),
        run (lib ''send_packet'' [self ''dev_port29'', var ''pkt100''] []),
        run (lib ''verify_each_packet_on_multiple_port_lists'' [mul (list_of [var ''pkt100'']) (num 4), list_of [list_of [self
          ''dev_port26''], var ''lag1_ports'', list_of [self ''dev_port27''], list_of [self ''dev_port30'']]] []),
        run (lib ''send_packet'' [self ''dev_port30'', var ''pkt100''] []),
        run (lib ''verify_each_packet_on_multiple_port_lists'' [mul (list_of [var ''pkt100'']) (num 4), list_of [list_of [self
          ''dev_port26''], var ''lag1_ports'', var ''lag2_ports'', list_of [self ''dev_port27'']]] []),
        assign ''lag_mbr32'' (api_create ''lag_member'' [(''lag_id'', self ''lag10''), (''port_id'', self ''port24'')]),
        assign ''lag_mbr42'' (api_create ''lag_member'' [(''lag_id'', self ''lag11''), (''port_id'', self ''port25'')]),
        assign ''lag1_ports'' (list_of [self ''dev_port28'', self ''dev_port24'']),
        assign ''lag2_ports'' (list_of [self ''dev_port29'', self ''dev_port25'']),
        run (lib ''send_packet'' [self ''dev_port26'', var ''pkt100''] []),
        run (lib ''verify_each_packet_on_multiple_port_lists'' [mul (list_of [var ''pkt100'']) (num 4), list_of [var
          ''lag1_ports'', var ''lag2_ports'', list_of [self ''dev_port27''], list_of [self ''dev_port30'']]] []),
        run (lib ''send_packet'' [self ''dev_port28'', var ''pkt100''] []),
        run (lib ''verify_each_packet_on_multiple_port_lists'' [mul (list_of [var ''pkt100'']) (num 4), list_of [list_of [self
          ''dev_port26''], var ''lag2_ports'', list_of [self ''dev_port27''], list_of [self ''dev_port30'']]] []),
        run (lib ''send_packet'' [self ''dev_port29'', var ''pkt100''] []),
        run (lib ''verify_each_packet_on_multiple_port_lists'' [mul (list_of [var ''pkt100'']) (num 4), list_of [list_of [self
          ''dev_port26''], var ''lag1_ports'', list_of [self ''dev_port27''], list_of [self ''dev_port30'']]] []),
        run (lib ''send_packet'' [self ''dev_port30'', var ''pkt100''] []),
        run (lib ''verify_each_packet_on_multiple_port_lists'' [mul (list_of [var ''pkt100'']) (num 4), list_of [list_of [self
          ''dev_port26''], var ''lag1_ports'', var ''lag2_ports'', list_of [self ''dev_port27'']]] []),
        run (api_remove ''vlan_member'' (var ''vlan_member105'')),
        run (lib ''send_packet'' [self ''dev_port26'', var ''pkt100''] []),
        run (lib ''verify_each_packet_on_multiple_port_lists'' [mul (list_of [var ''pkt100'']) (num 3), list_of [var
          ''lag1_ports'', var ''lag2_ports'', list_of [self ''dev_port27'']]] []),
        run (lib ''send_packet'' [self ''dev_port28'', var ''pkt100''] []),
        run (lib ''verify_each_packet_on_multiple_port_lists'' [mul (list_of [var ''pkt100'']) (num 3), list_of [list_of [self
          ''dev_port26''], var ''lag2_ports'', list_of [self ''dev_port27'']]] []),
        run (lib ''send_packet'' [self ''dev_port29'', var ''pkt100''] []),
        run (lib ''verify_each_packet_on_multiple_port_lists'' [mul (list_of [var ''pkt100'']) (num 3), list_of [list_of [self
          ''dev_port26''], var ''lag1_ports'', list_of [self ''dev_port27'']]] []),
        run (lib ''send_packet'' [self ''dev_port27'', var ''pkt200''] []),
        run (lib ''verify_each_packet_on_multiple_port_lists'' [mul (list_of [var ''pkt200'']) (num 3), list_of [var
          ''lag1_ports'', var ''lag2_ports'', list_of [self ''dev_port26'']]] []),
        run (lib ''send_packet'' [self ''dev_port24'', var ''pkt200''] []),
        run (lib ''verify_each_packet_on_multiple_port_lists'' [mul (list_of [var ''pkt200'']) (num 3), list_of [list_of [self
          ''dev_port26''], var ''lag2_ports'', list_of [self ''dev_port27'']]] []),
        run (lib ''send_packet'' [self ''dev_port25'', var ''pkt200''] []),
        run (lib ''verify_each_packet_on_multiple_port_lists'' [mul (list_of [var ''pkt200'']) (num 3), list_of [list_of [self
          ''dev_port26''], var ''lag1_ports'', list_of [self ''dev_port27'']]] []),
        assign ''vlan_member205'' (api_create ''vlan_member'' [(''vlan_id'', var ''vlan200''), (''bridge_port_id'', self
          ''port30_bp''), (''vlan_tagging_mode'', num SAI_VLAN_TAGGING_MODE_UNTAGGED)]),
        run (api_set ''port'' (self ''port30'') [(''port_vlan_id'', num 200)]),
        run (lib ''send_packet'' [self ''dev_port27'', var ''pkt200''] []),
        run (lib ''verify_each_packet_on_multiple_port_lists'' [mul (list_of [var ''pkt200'']) (num 4), list_of [var
          ''lag1_ports'', var ''lag2_ports'', list_of [self ''dev_port26''], list_of [self ''dev_port30'']]] []),
        run (lib ''send_packet'' [self ''dev_port24'', var ''pkt200''] []),
        run (lib ''verify_each_packet_on_multiple_port_lists'' [mul (list_of [var ''pkt200'']) (num 4), list_of [list_of [self
          ''dev_port26''], var ''lag2_ports'', list_of [self ''dev_port27''], list_of [self ''dev_port30'']]] []),
        run (lib ''send_packet'' [self ''dev_port25'', var ''pkt200''] []),
        run (lib ''verify_each_packet_on_multiple_port_lists'' [mul (list_of [var ''pkt200'']) (num 4), list_of [list_of [self
          ''dev_port26''], var ''lag1_ports'', list_of [self ''dev_port27''], list_of [self ''dev_port30'']]] []),
        run (lib ''send_packet'' [self ''dev_port30'', var ''pkt200''] []),
        run (lib ''verify_each_packet_on_multiple_port_lists'' [mul (list_of [var ''pkt200'']) (num 4), list_of [list_of [self
          ''dev_port26''], var ''lag1_ports'', var ''lag2_ports'', list_of [self ''dev_port27'']]] [])] [
        run (api_set ''port'' (self ''port26'') [(''port_vlan_id'', num 1)]),
        run (api_set ''port'' (self ''port27'') [(''port_vlan_id'', num 1)]),
        run (api_set ''port'' (self ''port30'') [(''port_vlan_id'', num 1)]),
        run (api_set ''lag'' (self ''lag10'') [(''port_vlan_id'', num 1)]),
        run (api_set ''lag'' (self ''lag11'') [(''port_vlan_id'', num 1)]),
        run (api_set ''vlan'' (var ''vlan100'') [(''learn_disable'', bool False)]),
        run (api_set ''vlan'' (var ''vlan200'') [(''learn_disable'', bool False)]),
        run (api_remove ''vlan_member'' (var ''vlan_member101'')),
        run (api_remove ''vlan_member'' (var ''vlan_member102'')),
        run (api_remove ''vlan_member'' (var ''vlan_member103'')),
        run (api_remove ''vlan_member'' (var ''vlan_member104'')),
        run (api_remove ''vlan_member'' (var ''vlan_member201'')),
        run (api_remove ''vlan_member'' (var ''vlan_member202'')),
        run (api_remove ''vlan_member'' (var ''vlan_member203'')),
        run (api_remove ''vlan_member'' (var ''vlan_member204'')),
        run (api_remove ''vlan_member'' (var ''vlan_member205'')),
        run (api_remove ''vlan'' (var ''vlan100'')),
        run (api_remove ''vlan'' (var ''vlan200'')),
        run (api_remove ''lag_member'' (var ''lag_mbr32'')),
        run (api_remove ''lag_member'' (var ''lag_mbr42''))]]"

definition L2VlanTest_vlanFloodDisableTest :: "'d stmt" where
  "L2VlanTest_vlanFloodDisableTest = block [
      assign ''vlan100'' (api_create ''vlan'' [(''vlan_id'', num 100)]),
      assign ''vlan_member101'' (api_create ''vlan_member'' [(''vlan_id'', var ''vlan100''), (''bridge_port_id'', self
        ''port24_bp'')]),
      assign ''vlan_member102'' (api_create ''vlan_member'' [(''vlan_id'', var ''vlan100''), (''bridge_port_id'', self
        ''port25_bp'')]),
      assign ''vlan_member103'' (api_create ''vlan_member'' [(''vlan_id'', var ''vlan100''), (''bridge_port_id'', self
        ''port26_bp'')]),
      assign ''vlan_member104'' (api_create ''vlan_member'' [(''vlan_id'', var ''vlan100''), (''bridge_port_id'', self
        ''port27_bp'')]),
      run (api_set ''vlan'' (var ''vlan100'') [(''learn_disable'', bool True)]),
      run (api_set ''port'' (self ''port24'') [(''port_vlan_id'', num 100)]),
      run (api_set ''port'' (self ''port25'') [(''port_vlan_id'', num 100)]),
      run (api_set ''port'' (self ''port26'') [(''port_vlan_id'', num 100)]),
      run (api_set ''port'' (self ''port27'') [(''port_vlan_id'', num 100)]),
      try_finally [
        assign ''flood_control_type_none'' (num SAI_VLAN_FLOOD_CONTROL_TYPE_NONE),
        assign ''ucast_pkt'' (lib ''simple_tcp_packet'' [] [(''eth_dst'', str ''00:11:11:11:11:11''), (''eth_src'', str
          ''00:22:22:22:22:22''), (''ip_dst'', str ''10.0.0.1''), (''ip_id'', num 107), (''ip_ttl'', num 64)]),
        assign ''mcast_pkt'' (lib ''simple_tcp_packet'' [] [(''eth_dst'', str ''01:11:11:11:11:11''), (''eth_src'', str
          ''00:22:22:22:22:22''), (''ip_dst'', str ''231.0.0.1''), (''ip_id'', num 107), (''ip_ttl'', num 64)]),
        assign ''bcast_pkt'' (lib ''simple_tcp_packet'' [] [(''eth_dst'', str ''FF:FF:FF:FF:FF:FF''), (''eth_src'', str
          ''00:22:22:22:22:22''), (''ip_dst'', str ''10.0.0.1''), (''ip_id'', num 107), (''ip_ttl'', num 64)]),
        run (lib ''send_packet'' [self ''dev_port26'', var ''ucast_pkt''] []),
        run (lib ''verify_packets'' [var ''ucast_pkt'', list_of [self ''dev_port24'', self ''dev_port25'', self ''dev_port27'']]
          []),
        run (lib ''send_packet'' [self ''dev_port26'', var ''mcast_pkt''] []),
        run (lib ''verify_packets'' [var ''mcast_pkt'', list_of [self ''dev_port24'', self ''dev_port25'', self ''dev_port27'']]
          []),
        run (lib ''send_packet'' [self ''dev_port26'', var ''bcast_pkt''] []),
        run (lib ''verify_packets'' [var ''bcast_pkt'', list_of [self ''dev_port24'', self ''dev_port25'', self ''dev_port27'']]
          []),
        run (api_set ''vlan'' (var ''vlan100'') [(''unknown_unicast_flood_control_type'', var ''flood_control_type_none'')]),
        run (lib ''send_packet'' [self ''dev_port26'', var ''ucast_pkt''] []),
        run (lib ''verify_no_other_packets'' [] [(''timeout'', num 1)]),
        run (api_set ''vlan'' (var ''vlan100'') [(''unknown_multicast_flood_control_type'', var ''flood_control_type_none'')]),
        run (lib ''send_packet'' [self ''dev_port26'', var ''mcast_pkt''] []),
        run (lib ''verify_no_other_packets'' [] [(''timeout'', num 1)]),
        run (api_set ''vlan'' (var ''vlan100'') [(''broadcast_flood_control_type'', var ''flood_control_type_none'')]),
        run (lib ''send_packet'' [self ''dev_port26'', var ''bcast_pkt''] []),
        run (lib ''verify_no_other_packets'' [] [(''timeout'', num 1)])] [
        run (api_set ''port'' (self ''port24'') [(''port_vlan_id'', num 1)]),
        run (api_set ''port'' (self ''port25'') [(''port_vlan_id'', num 1)]),
        run (api_set ''port'' (self ''port26'') [(''port_vlan_id'', num 1)]),
        run (api_set ''port'' (self ''port27'') [(''port_vlan_id'', num 1)]),
        run (api_set ''vlan'' (var ''vlan100'') [(''learn_disable'', bool False)]),
        run (api_remove ''vlan_member'' (var ''vlan_member101'')),
        run (api_remove ''vlan_member'' (var ''vlan_member102'')),
        run (api_remove ''vlan_member'' (var ''vlan_member103'')),
        run (api_remove ''vlan_member'' (var ''vlan_member104'')),
        run (api_remove ''vlan'' (var ''vlan100''))]]"

definition L2VlanTest_countersClearTest :: "'d stmt" where
  "L2VlanTest_countersClearTest = block [
      assign ''pkt'' (lib ''simple_tcp_packet'' [] [(''eth_dst'', str ''00:33:33:33:33:33''), (''eth_src'', str
        ''00:11:11:11:11:11''), (''ip_dst'', str ''172.16.0.1''), (''ip_id'', num 101), (''ip_ttl'', num 64)]),
      assign ''stats'' (query ''sai_thrift_get_vlan_stats'' [self ''vlan10''] []),
      assign ''in_bytes_pre'' (item (var ''stats'') (str ''SAI_VLAN_STAT_IN_OCTETS'')),
      assign ''out_bytes_pre'' (item (var ''stats'') (str ''SAI_VLAN_STAT_OUT_OCTETS'')),
      assign ''in_packets_pre'' (item (var ''stats'') (str ''SAI_VLAN_STAT_IN_PACKETS'')),
      assign ''in_ucast_packets_pre'' (item (var ''stats'') (str ''SAI_VLAN_STAT_IN_UCAST_PKTS'')),
      assign ''out_packets_pre'' (item (var ''stats'') (str ''SAI_VLAN_STAT_OUT_PACKETS'')),
      assign ''out_ucast_packets_pre'' (item (var ''stats'') (str ''SAI_VLAN_STAT_OUT_UCAST_PKTS'')),
      run (lib ''send_packet'' [self ''dev_port0'', var ''pkt''] []),
      run (lib ''verify_packet'' [var ''pkt'', self ''dev_port24''] []),
      assign ''stats'' (query ''sai_thrift_get_vlan_stats'' [self ''vlan10''] []),
      assign ''in_bytes'' (item (var ''stats'') (str ''SAI_VLAN_STAT_IN_OCTETS'')),
      assign ''out_bytes'' (item (var ''stats'') (str ''SAI_VLAN_STAT_OUT_OCTETS'')),
      assign ''in_packets'' (item (var ''stats'') (str ''SAI_VLAN_STAT_IN_PACKETS'')),
      assign ''in_ucast_packets'' (item (var ''stats'') (str ''SAI_VLAN_STAT_IN_UCAST_PKTS'')),
      assign ''out_packets'' (item (var ''stats'') (str ''SAI_VLAN_STAT_OUT_PACKETS'')),
      assign ''out_ucast_packets'' (item (var ''stats'') (str ''SAI_VLAN_STAT_OUT_UCAST_PKTS'')),
      assert_eq (list_of [var ''in_packets'', add (var ''in_packets_pre'') (num 1)]) (formatted
        ''vlan IN packets counter %s != %s'' [var ''in_packets'', add (var ''in_packets_pre'') (num 1)]),
      assert_eq (list_of [var ''in_ucast_packets'', add (var ''in_ucast_packets_pre'') (num 1)]) (formatted
        ''vlan IN unicats packets counter %s != %s'' [var ''in_ucast_packets'', add (var ''in_ucast_packets_pre'') (num 1)]),
      assert_ne (list_of [sub (var ''in_bytes'') (var ''in_bytes_pre''), num 0]) (str ''vlan IN bytes counter is 0''),
      assert_eq (list_of [var ''out_packets'', add (var ''out_packets_pre'') (num 1)]) (formatted
        ''vlan OUT packets counter %s != %s'' [var ''out_packets'', add (var ''out_packets_pre'') (num 1)]),
      assert_eq (list_of [var ''out_ucast_packets'', add (var ''out_ucast_packets_pre'') (num 1)]) (formatted
        ''vlan OUT unicats packets counter %s != %s'' [var ''out_ucast_packets'', add (var ''out_ucast_packets_pre'') (num 1)]),
      assert_eq (list_of [sub (var ''out_bytes'') (var ''out_bytes_pre''), num 0]) (str ''vlan OUT bytes counter is 0''),
      run (lib ''send_packet'' [self ''dev_port0'', var ''pkt''] []),
      run (lib ''verify_packet'' [var ''pkt'', self ''dev_port24''] []),
      run (clear_stats ''sai_thrift_clear_vlan_stats'' [self ''vlan10''] []),
      assign ''stats'' (query ''sai_thrift_get_vlan_stats'' [self ''vlan10''] []),
      assign ''in_bytes'' (item (var ''stats'') (str ''SAI_VLAN_STAT_IN_OCTETS'')),
      assign ''out_bytes'' (item (var ''stats'') (str ''SAI_VLAN_STAT_OUT_OCTETS'')),
      assign ''in_packets'' (item (var ''stats'') (str ''SAI_VLAN_STAT_IN_PACKETS'')),
      assign ''in_ucast_packets'' (item (var ''stats'') (str ''SAI_VLAN_STAT_IN_UCAST_PKTS'')),
      assign ''out_packets'' (item (var ''stats'') (str ''SAI_VLAN_STAT_OUT_PACKETS'')),
      assign ''out_ucast_packets'' (item (var ''stats'') (str ''SAI_VLAN_STAT_OUT_UCAST_PKTS'')),
      assert_eq (var ''in_packets'') (num 0),
      assert_eq (var ''in_ucast_packets'') (num 0),
      assert_eq (var ''in_bytes'') (num 0),
      assert_eq (var ''out_packets'') (num 0),
      assert_eq (var ''out_ucast_packets'') (num 0),
      assert_eq (var ''out_bytes'') (num 0)]"

definition L2VlanTest_vlanStatsTest :: "'d stmt" where
  "L2VlanTest_vlanStatsTest = block [
      assign ''stats'' (query ''sai_thrift_get_vlan_stats'' [self ''vlan10''] []),
      assign ''in_bytes'' (item (var ''stats'') (str ''SAI_VLAN_STAT_IN_OCTETS'')),
      assign ''out_bytes'' (item (var ''stats'') (str ''SAI_VLAN_STAT_OUT_OCTETS'')),
      assign ''in_packets'' (item (var ''stats'') (str ''SAI_VLAN_STAT_IN_PACKETS'')),
      assign ''in_ucast_packets'' (item (var ''stats'') (str ''SAI_VLAN_STAT_IN_UCAST_PKTS'')),
      assign ''out_packets'' (item (var ''stats'') (str ''SAI_VLAN_STAT_OUT_PACKETS'')),
      assign ''out_ucast_packets'' (item (var ''stats'') (str ''SAI_VLAN_STAT_OUT_UCAST_PKTS'')),
      assert_eq (list_of [var ''in_packets'', self ''i_pkt_count'']) (formatted ''vlan IN packets counter %s != %s'' [var
        ''in_packets'', self ''i_pkt_count'']),
      assert_eq (list_of [var ''in_ucast_packets'', self ''i_pkt_count'']) (formatted
        ''vlan IN unicast packets counter %s != %s'' [var ''in_ucast_packets'', self ''i_pkt_count'']),
      assert_ne (list_of [var ''in_bytes'', num 0]) (str ''vlan IN bytes counter is 0''),
      assert_eq (list_of [var ''out_packets'', self ''e_pkt_count'']) (formatted ''vlan OUT packets counter %s != %s'' [var
        ''out_packets'', self ''e_pkt_count'']),
      assert_eq (list_of [var ''out_ucast_packets'', self ''e_pkt_count'']) (formatted
        ''vlan OUT unicast packets counter %s != %s'' [var ''out_ucast_packets'', self ''e_pkt_count'']),
      assert_ne (list_of [var ''out_bytes'', num 0]) (str ''vlan OUT bytes counter is 0'')]"

definition L2VlanTest_vlanMemberList :: "'d stmt" where
  "L2VlanTest_vlanMemberList = block [
      assign ''vlan_member_list'' (struct ''sai_thrift_object_list_t'' [(''count'', num 100)]),
      assign ''mbr_list'' (api_get ''vlan'' (self ''vlan10'') [(''member_list'', var ''vlan_member_list'')]),
      assign ''vlan_members'' (field (item (var ''mbr_list'') (str ''SAI_VLAN_ATTR_MEMBER_LIST'')) ''idlist''),
      assign ''count'' (field (item (var ''mbr_list'') (str ''SAI_VLAN_ATTR_MEMBER_LIST'')) ''count''),
      assert_eq (var ''count'') (num 5),
      assert_eq (self ''vlan10_member0'') (item (var ''vlan_members'') (num 0)),
      assert_eq (self ''vlan10_member1'') (item (var ''vlan_members'') (num 1)),
      assert_eq (self ''vlan10_member2'') (item (var ''vlan_members'') (num 2)),
      assert_eq (self ''vlan10_member3'') (item (var ''vlan_members'') (num 3)),
      assert_eq (self ''vlan10_member4'') (item (var ''vlan_members'') (num 4)),
      assign ''vlan10_member5'' (api_create ''vlan_member'' [(''vlan_id'', self ''vlan10''), (''bridge_port_id'', self
        ''port26_bp''), (''vlan_tagging_mode'', num SAI_VLAN_TAGGING_MODE_UNTAGGED)]),
      assign ''vlan10_member6'' (api_create ''vlan_member'' [(''vlan_id'', self ''vlan10''), (''bridge_port_id'', self
        ''port27_bp''), (''vlan_tagging_mode'', num SAI_VLAN_TAGGING_MODE_TAGGED)]),
      assign ''vlan_member_list'' (struct ''sai_thrift_object_list_t'' [(''count'', num 100)]),
      assign ''mbr_list'' (api_get ''vlan'' (self ''vlan10'') [(''member_list'', var ''vlan_member_list'')]),
      assign ''vlan_members'' (field (item (var ''mbr_list'') (str ''SAI_VLAN_ATTR_MEMBER_LIST'')) ''idlist''),
      assign ''count'' (field (item (var ''mbr_list'') (str ''SAI_VLAN_ATTR_MEMBER_LIST'')) ''count''),
      assert_eq (var ''count'') (num 7),
      assert_eq (self ''vlan10_member0'') (item (var ''vlan_members'') (num 0)),
      assert_eq (self ''vlan10_member1'') (item (var ''vlan_members'') (num 1)),
      assert_eq (self ''vlan10_member2'') (item (var ''vlan_members'') (num 2)),
      assert_eq (self ''vlan10_member3'') (item (var ''vlan_members'') (num 3)),
      assert_eq (self ''vlan10_member4'') (item (var ''vlan_members'') (num 4)),
      assert_eq (var ''vlan10_member5'') (item (var ''vlan_members'') (num 5)),
      assert_eq (var ''vlan10_member6'') (item (var ''vlan_members'') (num 6)),
      run (api_remove ''vlan_member'' (var ''vlan10_member5'')),
      run (api_remove ''vlan_member'' (var ''vlan10_member6'')),
      assign ''vlan_member_list'' (struct ''sai_thrift_object_list_t'' [(''count'', num 100)]),
      assign ''mbr_list'' (api_get ''vlan'' (self ''vlan10'') [(''member_list'', var ''vlan_member_list'')]),
      assign ''vlan_members'' (field (item (var ''mbr_list'') (str ''SAI_VLAN_ATTR_MEMBER_LIST'')) ''idlist''),
      assign ''count'' (field (item (var ''mbr_list'') (str ''SAI_VLAN_ATTR_MEMBER_LIST'')) ''count''),
      assert_eq (var ''count'') (num 5),
      assert_eq (self ''vlan10_member0'') (item (var ''vlan_members'') (num 0)),
      assert_eq (self ''vlan10_member1'') (item (var ''vlan_members'') (num 1)),
      assert_eq (self ''vlan10_member2'') (item (var ''vlan_members'') (num 2)),
      assert_eq (self ''vlan10_member3'') (item (var ''vlan_members'') (num 3)),
      assert_eq (self ''vlan10_member4'') (item (var ''vlan_members'') (num 4))]"

definition L2VlanTest_vlanNegativeTest :: "'d stmt" where
  "L2VlanTest_vlanNegativeTest = block [
      assign ''duplicate_vlan'' (api_create ''vlan'' [(''vlan_id'', num 10)]),
      assert_ne (self ''vlan10'') (var ''duplicate_vlan''),
      assert_eq (var ''duplicate_vlan'') (num 0),
      assign ''vlan_attr'' (api_get ''vlan'' (num 11) [(''vlan_id'', bool True)]),
      assert_eq status (num SAI_STATUS_INVALID_OBJECT_TYPE),
      assert_eq (var ''vlan_attr'') none,
      assert_ne (api_set ''vlan'' (num 11) [(''learn_disable'', bool True)]) (num 0),
      assign ''vlan_attr'' (api_get ''vlan'' (num 11) [(''learn_disable'', bool True)]),
      assert_eq status (num SAI_STATUS_INVALID_OBJECT_TYPE),
      assert_eq (var ''vlan_attr'') none,
      assert_ne (api_remove ''vlan'' (num 11)) (num 0),
      assign ''incorrect_member'' (api_create ''vlan_member'' [(''vlan_id'', num 11), (''bridge_port_id'', self ''port27_bp''),
        (''vlan_tagging_mode'', num SAI_VLAN_TAGGING_MODE_TAGGED)]),
      assert_eq (var ''incorrect_member'') (num 0),
      assign ''incorrect_member'' (api_create ''vlan_member'' [(''vlan_id'', self ''vlan10''), (''bridge_port_id'', self
        ''port0''), (''vlan_tagging_mode'', num SAI_VLAN_TAGGING_MODE_TAGGED)]),
      assert_eq (var ''incorrect_member'') (num 0)]"

definition L2VlanTest_singleVlanMemberTest :: "'d stmt" where
  "L2VlanTest_singleVlanMemberTest = block [
      assign ''vlan100'' (api_create ''vlan'' [(''vlan_id'', num 100)]),
      assign ''vlan_member'' (api_create ''vlan_member'' [(''vlan_id'', var ''vlan100''), (''bridge_port_id'', self
        ''port0_bp''), (''vlan_tagging_mode'', num SAI_VLAN_TAGGING_MODE_TAGGED)]),
      try_finally [
        assign ''pkt'' (lib ''simple_tcp_packet'' [] [(''eth_dst'', str ''00:44:44:44:44:44''), (''eth_src'', str
          ''00:22:22:22:22:22''), (''dl_vlan_enable'', bool True), (''vlan_vid'', num 100), (''ip_dst'', str ''172.16.0.1''),
          (''ip_id'', num 102), (''ip_ttl'', num 64)]),
        run (lib ''send_packet'' [self ''dev_port0'', var ''pkt''] []),
        run (lib ''verify_no_other_packets'' [] [(''timeout'', num 1)]),
        run (api_remove ''vlan_member'' (var ''vlan_member'')),
        assign ''vlan_member'' (api_create ''vlan_member'' [(''vlan_id'', var ''vlan100''), (''bridge_port_id'', self
          ''lag1_bp''), (''vlan_tagging_mode'', num SAI_VLAN_TAGGING_MODE_TAGGED)]),
        assign ''pkt'' (lib ''simple_tcp_packet'' [] [(''eth_dst'', str ''00:44:44:44:44:44''), (''eth_src'', str
          ''00:22:22:22:22:22''), (''dl_vlan_enable'', bool True), (''vlan_vid'', num 100), (''ip_dst'', str ''172.16.0.1''),
          (''ip_id'', num 102), (''ip_ttl'', num 64)]),
        run (lib ''send_packet'' [self ''dev_port4'', var ''pkt''] []),
        run (lib ''verify_no_other_packets'' [] [(''timeout'', num 1)])] [
        run (api_remove ''vlan_member'' (var ''vlan_member'')),
        run (api_remove ''vlan'' (var ''vlan100''))]]"

definition L2VlanTest_vlanLearningTest :: "'d stmt" where
  "L2VlanTest_vlanLearningTest = block [
      assign ''vlan100'' (api_create ''vlan'' [(''vlan_id'', num 100), (''learn_disable'', bool True)]),
      assign ''vlan_member101'' (api_create ''vlan_member'' [(''vlan_id'', var ''vlan100''), (''bridge_port_id'', self
        ''port26_bp''), (''vlan_tagging_mode'', num SAI_VLAN_TAGGING_MODE_TAGGED)]),
      assign ''vlan_member102'' (api_create ''vlan_member'' [(''vlan_id'', var ''vlan100''), (''bridge_port_id'', self
        ''port27_bp''), (''vlan_tagging_mode'', num SAI_VLAN_TAGGING_MODE_TAGGED)]),
      assign ''vlan_member103'' (api_create ''vlan_member'' [(''vlan_id'', var ''vlan100''), (''bridge_port_id'', self
        ''port30_bp''), (''vlan_tagging_mode'', num SAI_VLAN_TAGGING_MODE_TAGGED)]),
      assign ''vlan200'' (api_create ''vlan'' [(''vlan_id'', num 200), (''learn_disable'', bool True)]),
      assign ''vlan_member201'' (api_create ''vlan_member'' [(''vlan_id'', var ''vlan200''), (''bridge_port_id'', self
        ''port26_bp''), (''vlan_tagging_mode'', num SAI_VLAN_TAGGING_MODE_UNTAGGED)]),
      assign ''vlan_member202'' (api_create ''vlan_member'' [(''vlan_id'', var ''vlan200''), (''bridge_port_id'', self
        ''port27_bp''), (''vlan_tagging_mode'', num SAI_VLAN_TAGGING_MODE_UNTAGGED)]),
      assign ''vlan_member203'' (api_create ''vlan_member'' [(''vlan_id'', var ''vlan200''), (''bridge_port_id'', self
        ''port30_bp''), (''vlan_tagging_mode'', num SAI_VLAN_TAGGING_MODE_UNTAGGED)]),
      run (api_set ''port'' (self ''port26'') [(''port_vlan_id'', num 200)]),
      run (api_set ''port'' (self ''port27'') [(''port_vlan_id'', num 200)]),
      assign ''pkt'' (lib ''simple_arp_packet'' [] [(''eth_src'', str ''00:22:22:33:44:55''), (''arp_op'', num 1), (''hw_snd'',
        str ''00:22:22:33:44:55''), (''pktlen'', num 100)]),
      assign ''arp_resp'' (lib ''simple_arp_packet'' [] [(''eth_dst'', str ''00:22:22:33:44:55''), (''arp_op'', num 2),
        (''hw_tgt'', str ''00:22:22:33:44:55''), (''pktlen'', num 100)]),
      try_finally [
        run (lib ''send_packet'' [self ''dev_port26'', var ''pkt''] []),
        run (lib ''verify_packets'' [var ''pkt'', list_of [self ''dev_port27'', self ''dev_port30'']] []),
        run (lib ''send_packet'' [self ''dev_port27'', var ''arp_resp''] []),
        run (lib ''verify_packets'' [var ''arp_resp'', list_of [self ''dev_port26'', self ''dev_port30'']] []),
        assign ''lan_attr'' (api_get ''vlan'' (var ''vlan100'') [(''learn_disable'', bool True)]),
        assert (get_or (var ''lan_attr'') (str ''learn_disable'') none),
        run (api_set ''vlan'' (var ''vlan100'') [(''learn_disable'', bool False)]),
        run (api_set ''vlan'' (var ''vlan200'') [(''learn_disable'', bool False)]),
        assign ''lan_attr'' (api_get ''vlan'' (var ''vlan100'') [(''learn_disable'', bool True)]),
        assert (no (get_or (var ''lan_attr'') (str ''learn_disable'') none))] [
        run (api_set ''port'' (self ''port26'') [(''port_vlan_id'', num 1)]),
        run (api_set ''port'' (self ''port27'') [(''port_vlan_id'', num 1)]),
        run (api_set ''port'' (self ''port30'') [(''port_vlan_id'', num 1)]),
        run (api_remove ''vlan_member'' (var ''vlan_member101'')),
        run (api_remove ''vlan_member'' (var ''vlan_member102'')),
        run (api_remove ''vlan_member'' (var ''vlan_member103'')),
        run (api_remove ''vlan_member'' (var ''vlan_member201'')),
        run (api_remove ''vlan_member'' (var ''vlan_member202'')),
        run (api_remove ''vlan_member'' (var ''vlan_member203'')),
        run (api_remove ''vlan'' (var ''vlan100'')),
        run (api_remove ''vlan'' (var ''vlan200''))]]"

definition L2VlanTest_vlanMaxLearnedAddressesTest :: "'d stmt" where
  "L2VlanTest_vlanMaxLearnedAddressesTest = block [
      assign ''vlan100'' (api_create ''vlan'' [(''vlan_id'', num 100), (''max_learned_addresses'', num 3)]),
      assign ''vlan_member101'' (api_create ''vlan_member'' [(''vlan_id'', var ''vlan100''), (''bridge_port_id'', self
        ''port26_bp''), (''vlan_tagging_mode'', num SAI_VLAN_TAGGING_MODE_TAGGED)]),
      assign ''vlan_member102'' (api_create ''vlan_member'' [(''vlan_id'', var ''vlan100''), (''bridge_port_id'', self
        ''port27_bp''), (''vlan_tagging_mode'', num SAI_VLAN_TAGGING_MODE_TAGGED)]),
      assign ''vlan_member103'' (api_create ''vlan_member'' [(''vlan_id'', var ''vlan100''), (''bridge_port_id'', self
        ''port30_bp''), (''vlan_tagging_mode'', num SAI_VLAN_TAGGING_MODE_TAGGED)]),
      assign ''vlan200'' (api_create ''vlan'' [(''vlan_id'', num 200), (''max_learned_addresses'', num 3)]),
      assign ''vlan_member201'' (api_create ''vlan_member'' [(''vlan_id'', var ''vlan200''), (''bridge_port_id'', self
        ''port26_bp''), (''vlan_tagging_mode'', num SAI_VLAN_TAGGING_MODE_UNTAGGED)]),
      assign ''vlan_member202'' (api_create ''vlan_member'' [(''vlan_id'', var ''vlan200''), (''bridge_port_id'', self
        ''port27_bp''), (''vlan_tagging_mode'', num SAI_VLAN_TAGGING_MODE_UNTAGGED)]),
      assign ''vlan_member203'' (api_create ''vlan_member'' [(''vlan_id'', var ''vlan200''), (''bridge_port_id'', self
        ''port30_bp''), (''vlan_tagging_mode'', num SAI_VLAN_TAGGING_MODE_UNTAGGED)]),
      run (api_set ''port'' (self ''port26'') [(''port_vlan_id'', num 200)]),
      run (api_set ''port'' (self ''port27'') [(''port_vlan_id'', num 200)]),
      assign ''pkt'' (lib ''simple_arp_packet'' [] [(''eth_src'', str ''00:22:22:33:44:55''), (''arp_op'', num 1), (''hw_snd'',
        str ''00:22:22:33:44:55''), (''pktlen'', num 100)]),
      assign ''pkt_2'' (lib ''simple_arp_packet'' [] [(''eth_src'', str ''00:33:22:33:44:55''), (''arp_op'', num 1),
        (''hw_snd'', str ''00:33:22:33:44:55''), (''pktlen'', num 100)]),
      assign ''pkt_3'' (lib ''simple_arp_packet'' [] [(''eth_src'', str ''00:44:22:33:44:55''), (''arp_op'', num 1),
        (''hw_snd'', str ''00:44:22:33:44:55''), (''pktlen'', num 100)]),
      assign ''arp_resp'' (lib ''simple_arp_packet'' [] [(''eth_dst'', str ''00:22:22:33:44:55''), (''arp_op'', num 2),
        (''hw_tgt'', str ''00:22:22:33:44:55''), (''pktlen'', num 100)]),
      assign ''arp_resp_2'' (lib ''simple_arp_packet'' [] [(''eth_dst'', str ''00:33:22:33:44:55''), (''arp_op'', num 2),
        (''hw_tgt'', str ''00:33:22:33:44:55''), (''pktlen'', num 100)]),
      assign ''arp_resp_3'' (lib ''simple_arp_packet'' [] [(''eth_dst'', str ''00:44:22:33:44:55''), (''arp_op'', num 2),
        (''hw_tgt'', str ''00:44:22:33:44:55''), (''pktlen'', num 100)]),
      try_finally [
        run (lib ''send_packet'' [self ''dev_port26'', var ''pkt''] []),
        run (lib ''verify_packets'' [var ''pkt'', list_of [self ''dev_port27'', self ''dev_port30'']] []),
        run (lib ''send_packet'' [self ''dev_port27'', var ''arp_resp''] []),
        run (lib ''verify_packet'' [var ''arp_resp'', self ''dev_port26''] []),
        run (lib ''send_packet'' [self ''dev_port26'', var ''pkt_2''] []),
        run (lib ''verify_packets'' [var ''pkt_2'', list_of [self ''dev_port27'', self ''dev_port30'']] []),
        run (lib ''send_packet'' [self ''dev_port27'', var ''arp_resp_2''] []),
        run (lib ''verify_packet'' [var ''arp_resp_2'', self ''dev_port26''] []),
        assign ''mac_fdb28'' (str ''00:44:22:33:44:55''),
        assign ''fdb_entry28'' (struct ''sai_thrift_fdb_entry_t'' [(''switch_id'', self ''switch_id''), (''mac_address'', var
          ''mac_fdb28''), (''bv_id'', var ''vlan200'')]),
        run (api_create_entry ''fdb_entry'' (var ''fdb_entry28'') [(''type'', num SAI_FDB_ENTRY_TYPE_STATIC),
          (''bridge_port_id'', self ''port26_bp''), (''packet_action'', num SAI_PACKET_ACTION_FORWARD)]),
        run (lib ''send_packet'' [self ''dev_port26'', var ''pkt_3''] []),
        run (lib ''verify_packets'' [var ''pkt_3'', list_of [self ''dev_port27'', self ''dev_port30'']] []),
        run (lib ''send_packet'' [self ''dev_port27'', var ''arp_resp_3''] []),
        run (lib ''verify_packets'' [var ''arp_resp_3'', list_of [self ''dev_port26'', self ''dev_port30'']] []),
        run (api_set ''vlan'' (var ''vlan100'') [(''max_learned_addresses'', num 0)]),
        run (api_set ''vlan'' (var ''vlan200'') [(''max_learned_addresses'', num 0)]),
        run (lib ''send_packet'' [self ''dev_port26'', var ''pkt_3''] []),
        run (lib ''verify_packets'' [var ''pkt_3'', list_of [self ''dev_port27'', self ''dev_port30'']] []),
        run (lib ''send_packet'' [self ''dev_port27'', var ''arp_resp_3''] []),
        run (lib ''verify_packet'' [var ''arp_resp_3'', self ''dev_port26''] [])] [
        run (lib ''sai_thrift_flush_fdb_entries'' [] [(''bv_id'', var ''vlan200''), (''entry_type'', num
          SAI_FDB_ENTRY_TYPE_DYNAMIC)]),
        run (lib ''sai_thrift_flush_fdb_entries'' [] [(''bv_id'', var ''vlan100''), (''entry_type'', num
          SAI_FDB_ENTRY_TYPE_DYNAMIC)]),
        run (api_set ''port'' (self ''port26'') [(''port_vlan_id'', num 1)]),
        run (api_set ''port'' (self ''port27'') [(''port_vlan_id'', num 1)]),
        run (api_set ''port'' (self ''port30'') [(''port_vlan_id'', num 1)]),
        run (api_remove ''vlan_member'' (var ''vlan_member101'')),
        run (api_remove ''vlan_member'' (var ''vlan_member102'')),
        run (api_remove ''vlan_member'' (var ''vlan_member103'')),
        run (api_remove ''vlan_member'' (var ''vlan_member201'')),
        run (api_remove ''vlan_member'' (var ''vlan_member202'')),
        run (api_remove ''vlan_member'' (var ''vlan_member203'')),
        run (api_remove ''vlan'' (var ''vlan200'')),
        run (api_remove ''vlan'' (var ''vlan100''))]]"

end
