(* ===== verification/TestsVrf.thy ===== *)
theory TestsVrf
  imports PtfOwn PtfConstants
begin

text \<open>
  The tests of virtual routers, \<open>ptf/saivrf.py\<close>: a definition per method, statement by statement in the language of
  \<open>PtfScript\<close>, named after its class. A parameter \<open>m_f\<close> is a method \<open>f\<close> that derived classes define anew.
\<close>

section \<open>The tests\<close>

definition VrfForwardingTest_setUp :: "'d stmt" where
  "VrfForwardingTest_setUp = block [
      super_setUp,
      set_self ''route_list'' (list_of []),
      set_self ''nbor_list'' (list_of []),
      set_self ''nhop_list'' (list_of []),
      set_self ''test_vrf'' (api_create ''virtual_router'' []),
      assert_eq status (num SAI_STATUS_SUCCESS),
      set_self ''iport'' (self ''port24''),
      set_self ''iport_dev'' (self ''dev_port24''),
      set_self ''test_irif'' (api_create ''router_interface'' [(''type'', num SAI_ROUTER_INTERFACE_TYPE_PORT),
        (''virtual_router_id'', self ''test_vrf''), (''port_id'', self ''iport'')]),
      assert_eq status (num SAI_STATUS_SUCCESS),
      set_self ''iport_nbor_mac'' (str ''00:11:11:11:11:11''),
      assign ''iport_ipv4'' (str ''10.10.10.1''),
      assign ''iport_ipv6'' (str ''2001:0db8::1:1''),
      set_self ''iport_nhop'' (api_create ''next_hop'' [(''ip'', ip_address (var ''iport_ipv4'')), (''router_interface_id'',
        self ''test_irif''), (''type'', num SAI_NEXT_HOP_TYPE_IP)]),
      set_self ''nhop_list'' (appended (self ''nhop_list'') (self ''iport_nhop'')),
      set_self ''iport_nhop_v6'' (api_create ''next_hop'' [(''ip'', ip_address (var ''iport_ipv6'')), (''router_interface_id'',
        self ''test_irif''), (''type'', num SAI_NEXT_HOP_TYPE_IP)]),
      set_self ''nhop_list'' (appended (self ''nhop_list'') (self ''iport_nhop_v6'')),
      set_self ''iport_nbor'' (struct ''sai_thrift_neighbor_entry_t'' [(''rif_id'', self ''test_irif''), (''ip_address'',
        ip_address (var ''iport_ipv4''))]),
      run (api_create_entry ''neighbor_entry'' (self ''iport_nbor'') [(''dst_mac_address'', self ''iport_nbor_mac'')]),
      set_self ''nbor_list'' (appended (self ''nbor_list'') (self ''iport_nbor'')),
      set_self ''iport_nbor_v6'' (struct ''sai_thrift_neighbor_entry_t'' [(''rif_id'', self ''test_irif''), (''ip_address'',
        ip_address (var ''iport_ipv6''))]),
      run (api_create_entry ''neighbor_entry'' (self ''iport_nbor_v6'') [(''dst_mac_address'', self ''iport_nbor_mac'')]),
      set_self ''nbor_list'' (appended (self ''nbor_list'') (self ''iport_nbor_v6'')),
      set_self ''iport_route'' (struct ''sai_thrift_route_entry_t'' [(''vr_id'', self ''test_vrf''), (''destination'', ip_prefix
        (add (var ''iport_ipv4'') (str ''/24'')))]),
      run (api_create_entry ''route_entry'' (self ''iport_route'') [(''next_hop_id'', self ''iport_nhop'')]),
      set_self ''route_list'' (appended (self ''route_list'') (self ''iport_route'')),
      set_self ''iport_route_v6'' (struct ''sai_thrift_route_entry_t'' [(''vr_id'', self ''test_vrf''), (''destination'',
        ip_prefix (add (var ''iport_ipv6'') (str ''/112'')))]),
      run (api_create_entry ''route_entry'' (self ''iport_route_v6'') [(''next_hop_id'', self ''iport_nhop_v6'')]),
      set_self ''route_list'' (appended (self ''route_list'') (self ''iport_route_v6'')),
      set_self ''eport'' (self ''port25''),
      set_self ''eport_dev'' (self ''dev_port25''),
      set_self ''test_erif'' (api_create ''router_interface'' [(''type'', num SAI_ROUTER_INTERFACE_TYPE_PORT),
        (''virtual_router_id'', self ''test_vrf''), (''port_id'', self ''eport'')]),
      assert_eq status (num SAI_STATUS_SUCCESS),
      set_self ''eport_nbor_mac'' (str ''00:22:22:22:22:22''),
      assign ''eport_ipv4'' (str ''20.20.20.2''),
      assign ''eport_ipv6'' (str ''2001:0db8::2:2''),
      set_self ''eport_nhop'' (api_create ''next_hop'' [(''ip'', ip_address (var ''eport_ipv4'')), (''router_interface_id'',
        self ''test_erif''), (''type'', num SAI_NEXT_HOP_TYPE_IP)]),
      set_self ''nhop_list'' (appended (self ''nhop_list'') (self ''eport_nhop'')),
      set_self ''eport_nhop_v6'' (api_create ''next_hop'' [(''ip'', ip_address (var ''eport_ipv6'')), (''router_interface_id'',
        self ''test_erif''), (''type'', num SAI_NEXT_HOP_TYPE_IP)]),
      set_self ''nhop_list'' (appended (self ''nhop_list'') (self ''eport_nhop_v6'')),
      set_self ''eport_nbor'' (struct ''sai_thrift_neighbor_entry_t'' [(''rif_id'', self ''test_erif''), (''ip_address'',
        ip_address (var ''eport_ipv4''))]),
      run (api_create_entry ''neighbor_entry'' (self ''eport_nbor'') [(''dst_mac_address'', self ''eport_nbor_mac'')]),
      set_self ''nbor_list'' (appended (self ''nbor_list'') (self ''eport_nbor'')),
      set_self ''eport_nbor_v6'' (struct ''sai_thrift_neighbor_entry_t'' [(''rif_id'', self ''test_erif''), (''ip_address'',
        ip_address (var ''eport_ipv6''))]),
      run (api_create_entry ''neighbor_entry'' (self ''eport_nbor_v6'') [(''dst_mac_address'', self ''eport_nbor_mac'')]),
      set_self ''nbor_list'' (appended (self ''nbor_list'') (self ''eport_nbor_v6'')),
      set_self ''eport_route'' (struct ''sai_thrift_route_entry_t'' [(''vr_id'', self ''test_vrf''), (''destination'', ip_prefix
        (add (var ''eport_ipv4'') (str ''/24'')))]),
      run (api_create_entry ''route_entry'' (self ''eport_route'') [(''next_hop_id'', self ''eport_nhop'')]),
      set_self ''route_list'' (appended (self ''route_list'') (self ''eport_route'')),
      set_self ''eport_route_v6'' (struct ''sai_thrift_route_entry_t'' [(''vr_id'', self ''test_vrf''), (''destination'',
        ip_prefix (add (var ''eport_ipv6'') (str ''/112'')))]),
      run (api_create_entry ''route_entry'' (self ''eport_route_v6'') [(''next_hop_id'', self ''eport_nhop_v6'')]),
      set_self ''route_list'' (appended (self ''route_list'') (self ''eport_route_v6''))]"

definition VrfForwardingTest_vrfStateTest :: "'d stmt" where
  "VrfForwardingTest_vrfStateTest = block [
      assign ''src_mac'' (self ''iport_nbor_mac''),
      assign ''src_ip'' (str ''10.10.10.10''),
      assign ''src_ipv6'' (str ''2001:0db8::1:10''),
      assign ''dst_ip'' (str ''20.20.20.20''),
      assign ''dst_ipv6'' (str ''2001:0db8::2:20''),
      assign ''pkt'' (lib ''simple_udp_packet'' [] [(''eth_dst'', str ROUTER_MAC), (''eth_src'', var ''src_mac''), (''ip_dst'',
        var ''dst_ip''), (''ip_src'', var ''src_ip''), (''ip_ttl'', num 64)]),
      assign ''exp_pkt'' (lib ''simple_udp_packet'' [] [(''eth_dst'', self ''eport_nbor_mac''), (''eth_src'', str ROUTER_MAC),
        (''ip_dst'', var ''dst_ip''), (''ip_src'', var ''src_ip''), (''ip_ttl'', num 63)]),
      assign ''ipv6_pkt'' (lib ''simple_udpv6_packet'' [] [(''eth_dst'', str ROUTER_MAC), (''eth_src'', var ''src_mac''),
        (''ipv6_dst'', var ''dst_ipv6''), (''ipv6_src'', var ''src_ipv6''), (''ipv6_hlim'', num 64)]),
      assign ''exp_ipv6_pkt'' (lib ''simple_udpv6_packet'' [] [(''eth_dst'', self ''eport_nbor_mac''), (''eth_src'', str
        ROUTER_MAC), (''ipv6_dst'', var ''dst_ipv6''), (''ipv6_src'', var ''src_ipv6''), (''ipv6_hlim'', num 63)]),
      try_finally [
        run (api_set ''virtual_router'' (self ''test_vrf'') [(''admin_v4_state'', bool False)]),
        assert_eq status (num SAI_STATUS_SUCCESS),
        run (api_set ''virtual_router'' (self ''test_vrf'') [(''admin_v6_state'', bool False)]),
        assert_eq status (num SAI_STATUS_SUCCESS),
        run (lib ''send_packet'' [self ''iport_dev'', var ''pkt''] []),
        run (lib ''verify_no_other_packets'' [] []),
        run (lib ''send_packet'' [self ''iport_dev'', var ''ipv6_pkt''] []),
        run (lib ''verify_no_other_packets'' [] []),
        run (api_set ''virtual_router'' (self ''test_vrf'') [(''admin_v4_state'', bool True)]),
        assert_eq status (num SAI_STATUS_SUCCESS),
        run (lib ''send_packet'' [self ''iport_dev'', var ''pkt''] []),
        run (lib ''verify_packet'' [var ''exp_pkt'', self ''eport_dev''] []),
        run (lib ''send_packet'' [self ''iport_dev'', var ''ipv6_pkt''] []),
        run (lib ''verify_no_other_packets'' [] []),
        run (api_set ''virtual_router'' (self ''test_vrf'') [(''admin_v4_state'', bool False)]),
        assert_eq status (num SAI_STATUS_SUCCESS),
        run (api_set ''virtual_router'' (self ''test_vrf'') [(''admin_v6_state'', bool True)]),
        assert_eq status (num SAI_STATUS_SUCCESS),
        run (lib ''send_packet'' [self ''iport_dev'', var ''pkt''] []),
        run (lib ''verify_no_other_packets'' [] []),
        run (lib ''send_packet'' [self ''iport_dev'', var ''ipv6_pkt''] []),
        run (lib ''verify_packet'' [var ''exp_ipv6_pkt'', self ''eport_dev''] []),
        run (api_set ''virtual_router'' (self ''test_vrf'') [(''admin_v4_state'', bool True)]),
        assert_eq status (num SAI_STATUS_SUCCESS),
        run (lib ''send_packet'' [self ''iport_dev'', var ''pkt''] []),
        run (lib ''verify_packet'' [var ''exp_pkt'', self ''eport_dev''] []),
        run (lib ''send_packet'' [self ''iport_dev'', var ''ipv6_pkt''] []),
        run (lib ''verify_packet'' [var ''exp_ipv6_pkt'', self ''eport_dev''] [])] [
        run (lib ''sai_thrift_flush_fdb_entries'' [] [(''entry_type'', num SAI_FDB_FLUSH_ENTRY_TYPE_ALL)]),
        run (api_set ''virtual_router'' (self ''test_vrf'') [(''admin_v4_state'', bool True)]),
        run (api_set ''virtual_router'' (self ''test_vrf'') [(''admin_v6_state'', bool True)])]]"

definition VrfForwardingTest_interVrfFwdL3NhopTest :: "'d stmt" where
  "VrfForwardingTest_interVrfFwdL3NhopTest = block [
      assign ''test_dev_port'' (self ''dev_port10''),
      assign ''test_rif'' (self ''port10_rif''),
      assign ''test_mac'' (str ''00:33:33:33:33:33''),
      assign ''test_ip'' (str ''30.30.30.1''),
      try_finally [
        assign ''test_nbor'' (struct ''sai_thrift_neighbor_entry_t'' [(''rif_id'', var ''test_rif''), (''ip_address'',
          ip_address (var ''test_ip''))]),
        run (api_create_entry ''neighbor_entry'' (var ''test_nbor'') [(''dst_mac_address'', var ''test_mac'')]),
        assign ''test_nhop'' (api_create ''next_hop'' [(''ip'', ip_address (var ''test_ip'')), (''router_interface_id'', var
          ''test_rif''), (''type'', num SAI_NEXT_HOP_TYPE_IP)]),
        assign ''test_route'' (struct ''sai_thrift_route_entry_t'' [(''vr_id'', self ''test_vrf''), (''destination'', ip_prefix
          (add (var ''test_ip'') (str ''/24'')))]),
        run (api_create_entry ''route_entry'' (var ''test_route'') [(''next_hop_id'', var ''test_nhop'')]),
        assign ''test_route2'' (struct ''sai_thrift_route_entry_t'' [(''vr_id'', self ''default_vrf''), (''destination'',
          ip_prefix (add (var ''test_ip'') (str ''/24'')))]),
        run (api_create_entry ''route_entry'' (var ''test_route2'') [(''next_hop_id'', var ''test_nhop'')]),
        assign ''src_mac'' (self ''iport_nbor_mac''),
        assign ''src_ip'' (str ''10.10.10.10''),
        assign ''dst_ip'' (str ''30.30.30.30''),
        assign ''pkt'' (lib ''simple_udp_packet'' [] [(''eth_dst'', str ROUTER_MAC), (''eth_src'', var ''src_mac''),
          (''ip_dst'', var ''dst_ip''), (''ip_src'', var ''src_ip''), (''ip_ttl'', num 64)]),
        assign ''exp_pkt'' (lib ''simple_udp_packet'' [] [(''eth_dst'', var ''test_mac''), (''eth_src'', str ROUTER_MAC),
          (''ip_dst'', var ''dst_ip''), (''ip_src'', var ''src_ip''), (''ip_ttl'', num 63)]),
        run (lib ''send_packet'' [self ''iport_dev'', var ''pkt''] []),
        run (lib ''verify_packet'' [var ''exp_pkt'', var ''test_dev_port''] [])] [
        run (lib ''sai_thrift_flush_fdb_entries'' [] [(''entry_type'', num SAI_FDB_FLUSH_ENTRY_TYPE_ALL)]),
        run (api_remove ''route_entry'' (var ''test_route'')),
        run (api_remove ''route_entry'' (var ''test_route2'')),
        run (api_remove ''next_hop'' (var ''test_nhop'')),
        run (api_remove ''neighbor_entry'' (var ''test_nbor''))]]"

definition VrfForwardingTest_interVrfFwdL3LagNhopTest :: "'d stmt" where
  "VrfForwardingTest_interVrfFwdL3LagNhopTest = block [
      assign ''test_lag_dev_ports'' (list_of [self ''dev_port14'', self ''dev_port15'', self ''dev_port16'']),
      assign ''test_lag_rif'' (self ''lag3_rif''),
      assign ''test_mac'' (str ''00:33:33:33:33:33''),
      assign ''test_ip'' (str ''30.30.30.1''),
      try_finally [
        assign ''test_nbor'' (struct ''sai_thrift_neighbor_entry_t'' [(''rif_id'', var ''test_lag_rif''), (''ip_address'',
          ip_address (var ''test_ip''))]),
        run (api_create_entry ''neighbor_entry'' (var ''test_nbor'') [(''dst_mac_address'', var ''test_mac'')]),
        assign ''test_nhop'' (api_create ''next_hop'' [(''ip'', ip_address (var ''test_ip'')), (''router_interface_id'', var
          ''test_lag_rif''), (''type'', num SAI_NEXT_HOP_TYPE_IP)]),
        assign ''test_route'' (struct ''sai_thrift_route_entry_t'' [(''vr_id'', self ''test_vrf''), (''destination'', ip_prefix
          (add (var ''test_ip'') (str ''/24'')))]),
        run (api_create_entry ''route_entry'' (var ''test_route'') [(''next_hop_id'', var ''test_nhop'')]),
        assign ''test_route2'' (struct ''sai_thrift_route_entry_t'' [(''vr_id'', self ''default_vrf''), (''destination'',
          ip_prefix (add (var ''test_ip'') (str ''/24'')))]),
        run (api_create_entry ''route_entry'' (var ''test_route2'') [(''next_hop_id'', var ''test_nhop'')]),
        assign ''src_mac'' (self ''iport_nbor_mac''),
        assign ''src_ip'' (str ''10.10.10.10''),
        assign ''dst_ip'' (str ''30.30.30.30''),
        assign ''pkt'' (lib ''simple_udp_packet'' [] [(''eth_dst'', str ROUTER_MAC), (''eth_src'', var ''src_mac''),
          (''ip_dst'', var ''dst_ip''), (''ip_src'', var ''src_ip''), (''ip_ttl'', num 64)]),
        assign ''exp_pkt'' (lib ''simple_udp_packet'' [] [(''eth_dst'', var ''test_mac''), (''eth_src'', str ROUTER_MAC),
          (''ip_dst'', var ''dst_ip''), (''ip_src'', var ''src_ip''), (''ip_ttl'', num 63)]),
        run (lib ''send_packet'' [self ''iport_dev'', var ''pkt''] []),
        run (lib ''verify_packet_any_port'' [var ''exp_pkt'', var ''test_lag_dev_ports''] [])] [
        run (lib ''sai_thrift_flush_fdb_entries'' [] [(''entry_type'', num SAI_FDB_FLUSH_ENTRY_TYPE_ALL)]),
        run (api_remove ''route_entry'' (var ''test_route'')),
        run (api_remove ''route_entry'' (var ''test_route2'')),
        run (api_remove ''next_hop'' (var ''test_nhop'')),
        run (api_remove ''neighbor_entry'' (var ''test_nbor''))]]"

definition VrfForwardingTest_interVrfFwdSviNhopTest :: "'d stmt" where
  "VrfForwardingTest_interVrfFwdSviNhopTest = block [
      assign ''vlan_id'' (num 30),
      assign ''test_vlan_rif'' (self ''vlan30_rif''),
      assign ''test_vlan_lag_dev_ports'' (list_of [self ''dev_port22'', self ''dev_port23'']),
      assign ''test_vlan_dev_ports'' (list_of [list_of [self ''dev_port20''], list_of [self ''dev_port21''], var
        ''test_vlan_lag_dev_ports'']),
      assign ''test_mac'' (str ''00:33:33:33:33:33''),
      assign ''test_ip'' (str ''30.30.30.1''),
      try_finally [
        assign ''test_nbor'' (struct ''sai_thrift_neighbor_entry_t'' [(''rif_id'', var ''test_vlan_rif''), (''ip_address'',
          ip_address (var ''test_ip''))]),
        run (api_create_entry ''neighbor_entry'' (var ''test_nbor'') [(''dst_mac_address'', var ''test_mac'')]),
        assign ''test_nhop'' (api_create ''next_hop'' [(''ip'', ip_address (var ''test_ip'')), (''router_interface_id'', var
          ''test_vlan_rif''), (''type'', num SAI_NEXT_HOP_TYPE_IP)]),
        assign ''test_route'' (struct ''sai_thrift_route_entry_t'' [(''vr_id'', self ''test_vrf''), (''destination'', ip_prefix
          (add (var ''test_ip'') (str ''/24'')))]),
        run (api_create_entry ''route_entry'' (var ''test_route'') [(''next_hop_id'', var ''test_nhop'')]),
        assign ''test_route2'' (struct ''sai_thrift_route_entry_t'' [(''vr_id'', self ''default_vrf''), (''destination'',
          ip_prefix (add (var ''test_ip'') (str ''/24'')))]),
        run (api_create_entry ''route_entry'' (var ''test_route2'') [(''next_hop_id'', var ''test_nhop'')]),
        assign ''src_mac'' (self ''iport_nbor_mac''),
        assign ''src_ip'' (str ''10.10.10.10''),
        assign ''dst_ip'' (str ''30.30.30.30''),
        assign ''pkt'' (lib ''simple_udp_packet'' [] [(''eth_dst'', str ROUTER_MAC), (''eth_src'', var ''src_mac''),
          (''ip_dst'', var ''dst_ip''), (''ip_src'', var ''src_ip''), (''ip_ttl'', num 64), (''pktlen'', num 100)]),
        assign ''exp_pkt'' (lib ''simple_udp_packet'' [] [(''eth_dst'', var ''test_mac''), (''eth_src'', str ROUTER_MAC),
          (''ip_dst'', var ''dst_ip''), (''ip_src'', var ''src_ip''), (''ip_ttl'', num 63), (''pktlen'', num 100)]),
        assign ''exp_tag_pkt'' (lib ''simple_udp_packet'' [] [(''eth_dst'', var ''test_mac''), (''eth_src'', str ROUTER_MAC),
          (''ip_dst'', var ''dst_ip''), (''ip_src'', var ''src_ip''), (''dl_vlan_enable'', bool True), (''vlan_vid'', var
          ''vlan_id''), (''ip_ttl'', num 63), (''pktlen'', num 104)]),
        assign ''exp_pkt_list'' (list_of [var ''exp_pkt'', var ''exp_tag_pkt'', var ''exp_tag_pkt'']),
        run (lib ''send_packet'' [self ''iport_dev'', var ''pkt''] []),
        run (lib ''verify_each_packet_on_multiple_port_lists'' [var ''exp_pkt_list'', var ''test_vlan_dev_ports''] [])] [
        run (lib ''sai_thrift_flush_fdb_entries'' [] [(''entry_type'', num SAI_FDB_FLUSH_ENTRY_TYPE_ALL)]),
        run (api_remove ''route_entry'' (var ''test_route'')),
        run (api_remove ''route_entry'' (var ''test_route2'')),
        run (api_remove ''next_hop'' (var ''test_nhop'')),
        run (api_remove ''neighbor_entry'' (var ''test_nbor''))]]"

definition VrfForwardingTest_interVrfFwdSubportNhopTest :: "'d stmt" where
  "VrfForwardingTest_interVrfFwdSubportNhopTest = block [
      assign ''test_port'' (self ''port26''),
      assign ''test_dev_port'' (self ''dev_port26''),
      assign ''test_mac1'' (str ''00:33:33:33:33:1''),
      assign ''test_ip1'' (str ''30.30.10.1''),
      assign ''vlan_id1'' (num 100),
      assign ''test_mac2'' (str ''00:33:33:33:33:2''),
      assign ''test_ip2'' (str ''30.30.20.2''),
      assign ''vlan_id2'' (num 200),
      try_finally [
        assign ''subport1_rif'' (api_create ''router_interface'' [(''type'', num SAI_ROUTER_INTERFACE_TYPE_SUB_PORT),
          (''virtual_router_id'', self ''default_vrf''), (''port_id'', var ''test_port''), (''outer_vlan_id'', var
          ''vlan_id1''), (''admin_v4_state'', bool True)]),
        assign ''test_nbor1'' (struct ''sai_thrift_neighbor_entry_t'' [(''rif_id'', var ''subport1_rif''), (''ip_address'',
          ip_address (var ''test_ip1''))]),
        run (api_create_entry ''neighbor_entry'' (var ''test_nbor1'') [(''dst_mac_address'', var ''test_mac1'')]),
        assign ''test_nhop1'' (api_create ''next_hop'' [(''ip'', ip_address (var ''test_ip1'')), (''router_interface_id'', var
          ''subport1_rif''), (''type'', num SAI_NEXT_HOP_TYPE_IP)]),
        assign ''test_route11'' (struct ''sai_thrift_route_entry_t'' [(''vr_id'', self ''test_vrf''), (''destination'',
          ip_prefix (add (var ''test_ip1'') (str ''/24'')))]),
        run (api_create_entry ''route_entry'' (var ''test_route11'') [(''next_hop_id'', var ''test_nhop1'')]),
        assign ''test_route12'' (struct ''sai_thrift_route_entry_t'' [(''vr_id'', self ''default_vrf''), (''destination'',
          ip_prefix (add (var ''test_ip1'') (str ''/24'')))]),
        run (api_create_entry ''route_entry'' (var ''test_route12'') [(''next_hop_id'', var ''test_nhop1'')]),
        assign ''subport2_rif'' (api_create ''router_interface'' [(''type'', num SAI_ROUTER_INTERFACE_TYPE_SUB_PORT),
          (''virtual_router_id'', self ''default_vrf''), (''port_id'', var ''test_port''), (''outer_vlan_id'', var
          ''vlan_id2''), (''admin_v4_state'', bool True)]),
        assign ''test_nbor2'' (struct ''sai_thrift_neighbor_entry_t'' [(''rif_id'', var ''subport2_rif''), (''ip_address'',
          ip_address (var ''test_ip2''))]),
        run (api_create_entry ''neighbor_entry'' (var ''test_nbor2'') [(''dst_mac_address'', var ''test_mac2'')]),
        assign ''test_nhop2'' (api_create ''next_hop'' [(''ip'', ip_address (var ''test_ip2'')), (''router_interface_id'', var
          ''subport2_rif''), (''type'', num SAI_NEXT_HOP_TYPE_IP)]),
        assign ''test_route21'' (struct ''sai_thrift_route_entry_t'' [(''vr_id'', self ''test_vrf''), (''destination'',
          ip_prefix (add (var ''test_ip2'') (str ''/24'')))]),
        run (api_create_entry ''route_entry'' (var ''test_route21'') [(''next_hop_id'', var ''test_nhop2'')]),
        assign ''test_route22'' (struct ''sai_thrift_route_entry_t'' [(''vr_id'', self ''default_vrf''), (''destination'',
          ip_prefix (add (var ''test_ip2'') (str ''/24'')))]),
        run (api_create_entry ''route_entry'' (var ''test_route22'') [(''next_hop_id'', var ''test_nhop2'')]),
        assign ''src_mac'' (self ''iport_nbor_mac''),
        assign ''src_ip'' (str ''10.10.10.10''),
        assign ''dst_ip1'' (str ''30.30.10.10''),
        assign ''dst_ip2'' (str ''30.30.20.20''),
        assign ''pkt1'' (lib ''simple_udp_packet'' [] [(''eth_dst'', str ROUTER_MAC), (''eth_src'', var ''src_mac''),
          (''ip_dst'', var ''dst_ip1''), (''ip_src'', var ''src_ip''), (''ip_ttl'', num 64), (''pktlen'', num 100)]),
        assign ''exp_pkt1'' (lib ''simple_udp_packet'' [] [(''eth_dst'', var ''test_mac1''), (''eth_src'', str ROUTER_MAC),
          (''ip_dst'', var ''dst_ip1''), (''ip_src'', var ''src_ip''), (''dl_vlan_enable'', bool True), (''vlan_vid'', var
          ''vlan_id1''), (''ip_ttl'', num 63), (''pktlen'', num 104)]),
        assign ''pkt2'' (lib ''simple_udp_packet'' [] [(''eth_dst'', str ROUTER_MAC), (''eth_src'', var ''src_mac''),
          (''ip_dst'', var ''dst_ip2''), (''ip_src'', var ''src_ip''), (''ip_ttl'', num 64), (''pktlen'', num 100)]),
        assign ''exp_pkt2'' (lib ''simple_udp_packet'' [] [(''eth_dst'', var ''test_mac2''), (''eth_src'', str ROUTER_MAC),
          (''ip_dst'', var ''dst_ip2''), (''ip_src'', var ''src_ip''), (''dl_vlan_enable'', bool True), (''vlan_vid'', var
          ''vlan_id2''), (''ip_ttl'', num 63), (''pktlen'', num 104)]),
        run (lib ''send_packet'' [self ''iport_dev'', var ''pkt1''] []),
        run (lib ''verify_packet'' [var ''exp_pkt1'', var ''test_dev_port''] []),
        run (lib ''send_packet'' [self ''iport_dev'', var ''pkt2''] []),
        run (lib ''verify_packet'' [var ''exp_pkt2'', var ''test_dev_port''] [])] [
        run (lib ''sai_thrift_flush_fdb_entries'' [] [(''entry_type'', num SAI_FDB_FLUSH_ENTRY_TYPE_ALL)]),
        run (api_remove ''route_entry'' (var ''test_route11'')),
        run (api_remove ''route_entry'' (var ''test_route12'')),
        run (api_remove ''route_entry'' (var ''test_route21'')),
        run (api_remove ''route_entry'' (var ''test_route22'')),
        run (api_remove ''neighbor_entry'' (var ''test_nbor1'')),
        run (api_remove ''neighbor_entry'' (var ''test_nbor2'')),
        run (api_remove ''next_hop'' (var ''test_nhop1'')),
        run (api_remove ''next_hop'' (var ''test_nhop2'')),
        run (api_remove ''router_interface'' (var ''subport1_rif'')),
        run (api_remove ''router_interface'' (var ''subport2_rif''))]]"

definition VrfForwardingTest_tearDown :: "'d stmt" where
  "VrfForwardingTest_tearDown = block [
      for_in [''route''] (self ''route_list'') [
        run (api_remove ''route_entry'' (var ''route''))],
      for_in [''nbor''] (self ''nbor_list'') [
        run (api_remove ''neighbor_entry'' (var ''nbor''))],
      for_in [''nhop''] (self ''nhop_list'') [
        run (api_remove ''next_hop'' (var ''nhop''))],
      run (api_remove ''router_interface'' (self ''test_erif'')),
      run (api_remove ''router_interface'' (self ''test_irif'')),
      run (api_remove ''virtual_router'' (self ''test_vrf'')),
      super_tearDown]"

definition VrfIsolationTest_setUp :: "'d stmt" where
  "VrfIsolationTest_setUp = block [
      super_setUp,
      set_self ''rif_list'' (list_of []),
      set_self ''test_vrf'' (api_create ''virtual_router'' []),
      assert_eq status (num SAI_STATUS_SUCCESS),
      set_self ''iport_ipv4'' (str ''10.10.10.1''),
      set_self ''iport_ipv6'' (str ''2001:0db8::1:1''),
      set_self ''eport_ipv4'' (str ''20.20.20.2''),
      set_self ''eport_ipv6'' (str ''2001:0db8::2:2''),
      set_self ''def_iport_mac'' (str ''00:aa:aa:11:11:11''),
      set_self ''def_eport_mac'' (str ''00:aa:aa:22:22:22''),
      set_self ''test_iport_mac'' (str ''00:bb:bb:11:11:11''),
      set_self ''test_eport_mac'' (str ''00:bb:bb:22:22:22''),
      set_self ''def_iport'' (self ''port24''),
      set_self ''def_iport_dev'' (self ''dev_port24''),
      set_self ''def_irif'' (api_create ''router_interface'' [(''type'', num SAI_ROUTER_INTERFACE_TYPE_PORT),
        (''virtual_router_id'', self ''default_vrf''), (''port_id'', self ''def_iport'')]),
      assert_eq status (num SAI_STATUS_SUCCESS),
      set_self ''rif_list'' (appended (self ''rif_list'') (self ''def_irif'')),
      set_self ''def_eport'' (self ''port25''),
      set_self ''def_eport_dev'' (self ''dev_port25''),
      set_self ''def_erif'' (api_create ''router_interface'' [(''type'', num SAI_ROUTER_INTERFACE_TYPE_PORT),
        (''virtual_router_id'', self ''default_vrf''), (''port_id'', self ''def_eport'')]),
      assert_eq status (num SAI_STATUS_SUCCESS),
      set_self ''rif_list'' (appended (self ''rif_list'') (self ''def_erif'')),
      set_self ''test_iport'' (self ''port26''),
      set_self ''test_iport_dev'' (self ''dev_port26''),
      set_self ''test_irif'' (api_create ''router_interface'' [(''type'', num SAI_ROUTER_INTERFACE_TYPE_PORT),
        (''virtual_router_id'', self ''test_vrf''), (''port_id'', self ''test_iport'')]),
      assert_eq status (num SAI_STATUS_SUCCESS),
      set_self ''rif_list'' (appended (self ''rif_list'') (self ''test_irif'')),
      set_self ''test_eport'' (self ''port27''),
      set_self ''test_eport_dev'' (self ''dev_port27''),
      set_self ''test_erif'' (api_create ''router_interface'' [(''type'', num SAI_ROUTER_INTERFACE_TYPE_PORT),
        (''virtual_router_id'', self ''test_vrf''), (''port_id'', self ''test_eport'')]),
      assert_eq status (num SAI_STATUS_SUCCESS),
      set_self ''rif_list'' (appended (self ''rif_list'') (self ''test_erif''))]"

definition VrfIsolationTest_overlappingIPv4LpmTest :: "'d stmt" where
  "VrfIsolationTest_overlappingIPv4LpmTest = block [
      assign ''src_ipv4'' (str ''10.10.10.10''),
      assign ''dst_ipv4'' (str ''20.20.20.20''),
      assign ''def_v4_pkt'' (lib ''simple_udp_packet'' [] [(''eth_dst'', str ROUTER_MAC), (''eth_src'', self ''def_iport_mac''),
        (''ip_dst'', var ''dst_ipv4''), (''ip_src'', var ''src_ipv4''), (''ip_ttl'', num 64)]),
      assign ''def_v4_exp_pkt'' (lib ''simple_udp_packet'' [] [(''eth_dst'', self ''def_eport_mac''), (''eth_src'', str
        ROUTER_MAC), (''ip_dst'', var ''dst_ipv4''), (''ip_src'', var ''src_ipv4''), (''ip_ttl'', num 63)]),
      assign ''test_v4_pkt'' (lib ''simple_udp_packet'' [] [(''eth_dst'', str ROUTER_MAC), (''eth_src'', self
        ''test_iport_mac''), (''ip_dst'', var ''dst_ipv4''), (''ip_src'', var ''src_ipv4''), (''ip_ttl'', num 64)]),
      assign ''test_v4_exp_pkt'' (lib ''simple_udp_packet'' [] [(''eth_dst'', self ''test_eport_mac''), (''eth_src'', str
        ROUTER_MAC), (''ip_dst'', var ''dst_ipv4''), (''ip_src'', var ''src_ipv4''), (''ip_ttl'', num 63)]),
      try_finally [
        assign ''def_eport_nhop'' (api_create ''next_hop'' [(''ip'', ip_address (self ''eport_ipv4'')),
          (''router_interface_id'', self ''def_erif''), (''type'', num SAI_NEXT_HOP_TYPE_IP)]),
        assign ''def_eport_nbor'' (struct ''sai_thrift_neighbor_entry_t'' [(''rif_id'', self ''def_erif''), (''ip_address'',
          ip_address (self ''eport_ipv4''))]),
        run (api_create_entry ''neighbor_entry'' (var ''def_eport_nbor'') [(''dst_mac_address'', self ''def_eport_mac'')]),
        assign ''def_eport_route'' (struct ''sai_thrift_route_entry_t'' [(''vr_id'', self ''default_vrf''), (''destination'',
          ip_prefix (add (self ''eport_ipv4'') (str ''/24'')))]),
        run (api_create_entry ''route_entry'' (var ''def_eport_route'') [(''next_hop_id'', var ''def_eport_nhop'')]),
        assign ''test_eport_nhop'' (api_create ''next_hop'' [(''ip'', ip_address (self ''eport_ipv4'')),
          (''router_interface_id'', self ''test_erif''), (''type'', num SAI_NEXT_HOP_TYPE_IP)]),
        assign ''test_eport_nbor'' (struct ''sai_thrift_neighbor_entry_t'' [(''rif_id'', self ''test_erif''), (''ip_address'',
          ip_address (self ''eport_ipv4''))]),
        run (api_create_entry ''neighbor_entry'' (var ''test_eport_nbor'') [(''dst_mac_address'', self ''test_eport_mac'')]),
        assign ''test_eport_route'' (struct ''sai_thrift_route_entry_t'' [(''vr_id'', self ''test_vrf''), (''destination'',
          ip_prefix (add (self ''eport_ipv4'') (str ''/24'')))]),
        run (api_create_entry ''route_entry'' (var ''test_eport_route'') [(''next_hop_id'', var ''test_eport_nhop'')]),
        run (lib ''send_packet'' [self ''def_iport_dev'', var ''def_v4_pkt''] []),
        run (lib ''verify_packet'' [var ''def_v4_exp_pkt'', self ''def_eport_dev''] []),
        run (lib ''send_packet'' [self ''test_iport_dev'', var ''test_v4_pkt''] []),
        run (lib ''verify_packet'' [var ''test_v4_exp_pkt'', self ''test_eport_dev''] [])] [
        run (api_remove ''route_entry'' (var ''test_eport_route'')),
        run (api_remove ''neighbor_entry'' (var ''test_eport_nbor'')),
        run (api_remove ''next_hop'' (var ''test_eport_nhop'')),
        run (api_remove ''route_entry'' (var ''def_eport_route'')),
        run (api_remove ''neighbor_entry'' (var ''def_eport_nbor'')),
        run (api_remove ''next_hop'' (var ''def_eport_nhop''))]]"

definition VrfIsolationTest_overlappingIPv4HostTest :: "'d stmt" where
  "VrfIsolationTest_overlappingIPv4HostTest = block [
      assign ''def_v4_pkt'' (lib ''simple_udp_packet'' [] [(''eth_dst'', str ROUTER_MAC), (''eth_src'', self ''def_iport_mac''),
        (''ip_dst'', self ''eport_ipv4''), (''ip_src'', self ''iport_ipv4''), (''ip_ttl'', num 64)]),
      assign ''def_v4_exp_pkt'' (lib ''simple_udp_packet'' [] [(''eth_dst'', self ''def_eport_mac''), (''eth_src'', str
        ROUTER_MAC), (''ip_dst'', self ''eport_ipv4''), (''ip_src'', self ''iport_ipv4''), (''ip_ttl'', num 63)]),
      assign ''test_v4_pkt'' (lib ''simple_udp_packet'' [] [(''eth_dst'', str ROUTER_MAC), (''eth_src'', self
        ''test_iport_mac''), (''ip_dst'', self ''eport_ipv4''), (''ip_src'', self ''iport_ipv4''), (''ip_ttl'', num 64)]),
      assign ''test_v4_exp_pkt'' (lib ''simple_udp_packet'' [] [(''eth_dst'', self ''test_eport_mac''), (''eth_src'', str
        ROUTER_MAC), (''ip_dst'', self ''eport_ipv4''), (''ip_src'', self ''iport_ipv4''), (''ip_ttl'', num 63)]),
      try_finally [
        assign ''def_eport_nbor'' (struct ''sai_thrift_neighbor_entry_t'' [(''rif_id'', self ''def_erif''), (''ip_address'',
          ip_address (self ''eport_ipv4''))]),
        run (api_create_entry ''neighbor_entry'' (var ''def_eport_nbor'') [(''dst_mac_address'', self ''def_eport_mac'')]),
        assign ''test_eport_nbor'' (struct ''sai_thrift_neighbor_entry_t'' [(''rif_id'', self ''test_erif''), (''ip_address'',
          ip_address (self ''eport_ipv4''))]),
        run (api_create_entry ''neighbor_entry'' (var ''test_eport_nbor'') [(''dst_mac_address'', self ''test_eport_mac'')]),
        run (lib ''send_packet'' [self ''def_iport_dev'', var ''def_v4_pkt''] []),
        run (lib ''verify_packet'' [var ''def_v4_exp_pkt'', self ''def_eport_dev''] []),
        run (lib ''send_packet'' [self ''test_iport_dev'', var ''test_v4_pkt''] []),
        run (lib ''verify_packet'' [var ''test_v4_exp_pkt'', self ''test_eport_dev''] [])] [
        run (api_remove ''neighbor_entry'' (var ''test_eport_nbor'')),
        run (api_remove ''neighbor_entry'' (var ''def_eport_nbor''))]]"

definition VrfIsolationTest_overlappingIPv6LpmTest :: "'d stmt" where
  "VrfIsolationTest_overlappingIPv6LpmTest = block [
      assign ''src_ipv6'' (str ''2001:0db8::1:10''),
      assign ''dst_ipv6'' (str ''2001:0db8::2:20''),
      assign ''def_v6_pkt'' (lib ''simple_udpv6_packet'' [] [(''eth_dst'', str ROUTER_MAC), (''eth_src'', self
        ''def_iport_mac''), (''ipv6_dst'', var ''dst_ipv6''), (''ipv6_src'', var ''src_ipv6''), (''ipv6_hlim'', num 64)]),
      assign ''def_v6_exp_pkt'' (lib ''simple_udpv6_packet'' [] [(''eth_dst'', self ''def_eport_mac''), (''eth_src'', str
        ROUTER_MAC), (''ipv6_dst'', var ''dst_ipv6''), (''ipv6_src'', var ''src_ipv6''), (''ipv6_hlim'', num 63)]),
      assign ''test_v6_pkt'' (lib ''simple_udpv6_packet'' [] [(''eth_dst'', str ROUTER_MAC), (''eth_src'', self
        ''test_iport_mac''), (''ipv6_dst'', var ''dst_ipv6''), (''ipv6_src'', var ''src_ipv6''), (''ipv6_hlim'', num 64)]),
      assign ''test_v6_exp_pkt'' (lib ''simple_udpv6_packet'' [] [(''eth_dst'', self ''test_eport_mac''), (''eth_src'', str
        ROUTER_MAC), (''ipv6_dst'', var ''dst_ipv6''), (''ipv6_src'', var ''src_ipv6''), (''ipv6_hlim'', num 63)]),
      try_finally [
        assign ''def_eport_nhop'' (api_create ''next_hop'' [(''ip'', ip_address (self ''eport_ipv6'')),
          (''router_interface_id'', self ''def_erif''), (''type'', num SAI_NEXT_HOP_TYPE_IP)]),
        assign ''def_eport_nbor'' (struct ''sai_thrift_neighbor_entry_t'' [(''rif_id'', self ''def_erif''), (''ip_address'',
          ip_address (self ''eport_ipv6''))]),
        run (api_create_entry ''neighbor_entry'' (var ''def_eport_nbor'') [(''dst_mac_address'', self ''def_eport_mac'')]),
        assign ''def_eport_route'' (struct ''sai_thrift_route_entry_t'' [(''vr_id'', self ''default_vrf''), (''destination'',
          ip_prefix (add (self ''eport_ipv6'') (str ''/112'')))]),
        run (api_create_entry ''route_entry'' (var ''def_eport_route'') [(''next_hop_id'', var ''def_eport_nhop'')]),
        assign ''test_eport_nhop'' (api_create ''next_hop'' [(''ip'', ip_address (self ''eport_ipv6'')),
          (''router_interface_id'', self ''test_erif''), (''type'', num SAI_NEXT_HOP_TYPE_IP)]),
        assign ''test_eport_nbor'' (struct ''sai_thrift_neighbor_entry_t'' [(''rif_id'', self ''test_erif''), (''ip_address'',
          ip_address (self ''eport_ipv6''))]),
        run (api_create_entry ''neighbor_entry'' (var ''test_eport_nbor'') [(''dst_mac_address'', self ''test_eport_mac'')]),
        assign ''test_eport_route'' (struct ''sai_thrift_route_entry_t'' [(''vr_id'', self ''test_vrf''), (''destination'',
          ip_prefix (add (self ''eport_ipv6'') (str ''/112'')))]),
        run (api_create_entry ''route_entry'' (var ''test_eport_route'') [(''next_hop_id'', var ''test_eport_nhop'')]),
        run (lib ''send_packet'' [self ''def_iport_dev'', var ''def_v6_pkt''] []),
        run (lib ''verify_packet'' [var ''def_v6_exp_pkt'', self ''def_eport_dev''] []),
        run (lib ''send_packet'' [self ''test_iport_dev'', var ''test_v6_pkt''] []),
        run (lib ''verify_packet'' [var ''test_v6_exp_pkt'', self ''test_eport_dev''] [])] [
        run (api_remove ''route_entry'' (var ''test_eport_route'')),
        run (api_remove ''neighbor_entry'' (var ''test_eport_nbor'')),
        run (api_remove ''next_hop'' (var ''test_eport_nhop'')),
        run (api_remove ''route_entry'' (var ''def_eport_route'')),
        run (api_remove ''neighbor_entry'' (var ''def_eport_nbor'')),
        run (api_remove ''next_hop'' (var ''def_eport_nhop''))]]"

definition VrfIsolationTest_overlappingIPv6HostTest :: "'d stmt" where
  "VrfIsolationTest_overlappingIPv6HostTest = block [
      assign ''def_v6_pkt'' (lib ''simple_udpv6_packet'' [] [(''eth_dst'', str ROUTER_MAC), (''eth_src'', self
        ''def_iport_mac''), (''ipv6_dst'', self ''eport_ipv6''), (''ipv6_src'', self ''iport_ipv6''), (''ipv6_hlim'', num 64)]),
      assign ''def_v6_exp_pkt'' (lib ''simple_udpv6_packet'' [] [(''eth_dst'', self ''def_eport_mac''), (''eth_src'', str
        ROUTER_MAC), (''ipv6_dst'', self ''eport_ipv6''), (''ipv6_src'', self ''iport_ipv6''), (''ipv6_hlim'', num 63)]),
      assign ''test_v6_pkt'' (lib ''simple_udpv6_packet'' [] [(''eth_dst'', str ROUTER_MAC), (''eth_src'', self
        ''test_iport_mac''), (''ipv6_dst'', self ''eport_ipv6''), (''ipv6_src'', self ''iport_ipv6''), (''ipv6_hlim'', num 64)]),
      assign ''test_v6_exp_pkt'' (lib ''simple_udpv6_packet'' [] [(''eth_dst'', self ''test_eport_mac''), (''eth_src'', str
        ROUTER_MAC), (''ipv6_dst'', self ''eport_ipv6''), (''ipv6_src'', self ''iport_ipv6''), (''ipv6_hlim'', num 63)]),
      try_finally [
        assign ''def_eport_nbor'' (struct ''sai_thrift_neighbor_entry_t'' [(''rif_id'', self ''def_erif''), (''ip_address'',
          ip_address (self ''eport_ipv6''))]),
        run (api_create_entry ''neighbor_entry'' (var ''def_eport_nbor'') [(''dst_mac_address'', self ''def_eport_mac'')]),
        assign ''test_eport_nbor'' (struct ''sai_thrift_neighbor_entry_t'' [(''rif_id'', self ''test_erif''), (''ip_address'',
          ip_address (self ''eport_ipv6''))]),
        run (api_create_entry ''neighbor_entry'' (var ''test_eport_nbor'') [(''dst_mac_address'', self ''test_eport_mac'')]),
        run (lib ''send_packet'' [self ''def_iport_dev'', var ''def_v6_pkt''] []),
        run (lib ''verify_packet'' [var ''def_v6_exp_pkt'', self ''def_eport_dev''] []),
        run (lib ''send_packet'' [self ''test_iport_dev'', var ''test_v6_pkt''] []),
        run (lib ''verify_packet'' [var ''test_v6_exp_pkt'', self ''test_eport_dev''] [])] [
        run (api_remove ''neighbor_entry'' (var ''test_eport_nbor'')),
        run (api_remove ''neighbor_entry'' (var ''def_eport_nbor''))]]"

definition VrfIsolationTest_runTest :: "'d stmt" where
  "VrfIsolationTest_runTest = block [
      run (invoke [] VrfIsolationTest_overlappingIPv4LpmTest),
      run (invoke [] VrfIsolationTest_overlappingIPv4HostTest),
      run (invoke [] VrfIsolationTest_overlappingIPv6LpmTest),
      run (invoke [] VrfIsolationTest_overlappingIPv6HostTest)]"

definition VrfIsolationTest_tearDown :: "'d stmt" where
  "VrfIsolationTest_tearDown = block [
      for_in [''rif''] (self ''rif_list'') [
        run (api_remove ''router_interface'' (var ''rif''))],
      run (api_remove ''virtual_router'' (self ''test_vrf'')),
      super_tearDown]"

definition VrfMultipleRifCreationTest_setUp :: "'d stmt" where
  "VrfMultipleRifCreationTest_setUp = block [
      super_setUp,
      set_self ''route_list'' (list_of []),
      set_self ''nhop_list'' (list_of []),
      set_self ''nbor_list'' (list_of []),
      set_self ''rif_list'' (list_of []),
      set_self ''vrf1'' (api_create ''virtual_router'' []),
      assert_eq status (num SAI_STATUS_SUCCESS),
      set_self ''port_rif1'' (api_create ''router_interface'' [(''type'', num SAI_ROUTER_INTERFACE_TYPE_PORT),
        (''virtual_router_id'', self ''vrf1''), (''port_id'', self ''port24'')]),
      assert_eq status (num SAI_STATUS_SUCCESS),
      set_self ''rif_list'' (appended (self ''rif_list'') (self ''port_rif1'')),
      set_self ''lag_rif1'' (api_create ''router_interface'' [(''type'', num SAI_ROUTER_INTERFACE_TYPE_PORT),
        (''virtual_router_id'', self ''vrf1''), (''port_id'', self ''lag1'')]),
      assert_eq status (num SAI_STATUS_SUCCESS),
      set_self ''rif_list'' (appended (self ''rif_list'') (self ''lag_rif1'')),
      set_self ''sub_port_rif1'' (api_create ''router_interface'' [(''type'', num SAI_ROUTER_INTERFACE_TYPE_SUB_PORT),
        (''virtual_router_id'', self ''vrf1''), (''port_id'', self ''port10''), (''outer_vlan_id'', num 100),
        (''admin_v4_state'', bool True)]),
      assert_eq status (num SAI_STATUS_SUCCESS),
      set_self ''rif_list'' (appended (self ''rif_list'') (self ''sub_port_rif1'')),
      set_self ''lpb_rif1'' (api_create ''router_interface'' [(''type'', num SAI_ROUTER_INTERFACE_TYPE_LOOPBACK),
        (''virtual_router_id'', self ''vrf1'')]),
      assert_eq status (num SAI_STATUS_SUCCESS),
      set_self ''rif_list'' (appended (self ''rif_list'') (self ''lpb_rif1'')),
      set_self ''svi_rif1'' (api_create ''router_interface'' [(''type'', num SAI_ROUTER_INTERFACE_TYPE_VLAN),
        (''virtual_router_id'', self ''vrf1''), (''vlan_id'', self ''vlan10'')]),
      assert_eq status (num SAI_STATUS_SUCCESS),
      set_self ''rif_list'' (appended (self ''rif_list'') (self ''svi_rif1'')),
      set_self ''ip_addr11'' (str ''10.10.1.1''),
      set_self ''mac11'' (str ''00:11:11:11:11:11''),
      set_self ''port_nbor1'' (struct ''sai_thrift_neighbor_entry_t'' [(''rif_id'', self ''port_rif1''), (''ip_address'',
        ip_address (self ''ip_addr11''))]),
      run (api_create_entry ''neighbor_entry'' (self ''port_nbor1'') [(''dst_mac_address'', self ''mac11'')]),
      set_self ''nbor_list'' (appended (self ''nbor_list'') (self ''port_nbor1'')),
      set_self ''port_nhop1'' (api_create ''next_hop'' [(''ip'', ip_address (self ''ip_addr11'')), (''router_interface_id'',
        self ''port_rif1''), (''type'', num SAI_NEXT_HOP_TYPE_IP)]),
      assert_eq status (num SAI_STATUS_SUCCESS),
      set_self ''nhop_list'' (appended (self ''nhop_list'') (self ''port_nhop1'')),
      set_self ''port_route1'' (struct ''sai_thrift_route_entry_t'' [(''vr_id'', self ''vrf1''), (''destination'', ip_prefix
        (add (self ''ip_addr11'') (str ''/24'')))]),
      run (api_create_entry ''route_entry'' (self ''port_route1'') [(''next_hop_id'', self ''port_nhop1'')]),
      assert_eq status (num SAI_STATUS_SUCCESS),
      set_self ''route_list'' (appended (self ''route_list'') (self ''port_route1'')),
      set_self ''ip_addr12'' (str ''10.10.2.1''),
      set_self ''mac12'' (str ''00:11:11:11:11:22''),
      set_self ''lag_nbor1'' (struct ''sai_thrift_neighbor_entry_t'' [(''rif_id'', self ''lag_rif1''), (''ip_address'',
        ip_address (self ''ip_addr12''))]),
      run (api_create_entry ''neighbor_entry'' (self ''lag_nbor1'') [(''dst_mac_address'', self ''mac12'')]),
      set_self ''nbor_list'' (appended (self ''nbor_list'') (self ''lag_nbor1'')),
      set_self ''lag_nhop1'' (api_create ''next_hop'' [(''ip'', ip_address (self ''ip_addr12'')), (''router_interface_id'', self
        ''lag_rif1''), (''type'', num SAI_NEXT_HOP_TYPE_IP)]),
      assert_eq status (num SAI_STATUS_SUCCESS),
      set_self ''nhop_list'' (appended (self ''nhop_list'') (self ''lag_nhop1'')),
      set_self ''lag_route1'' (struct ''sai_thrift_route_entry_t'' [(''vr_id'', self ''vrf1''), (''destination'', ip_prefix (add
        (self ''ip_addr12'') (str ''/24'')))]),
      run (api_create_entry ''route_entry'' (self ''lag_route1'') [(''next_hop_id'', self ''lag_nhop1'')]),
      assert_eq status (num SAI_STATUS_SUCCESS),
      set_self ''route_list'' (appended (self ''route_list'') (self ''lag_route1'')),
      set_self ''ip_addr13'' (str ''10.10.3.1''),
      set_self ''mac13'' (str ''00:11:11:11:11:33''),
      set_self ''sub_port_nbor1'' (struct ''sai_thrift_neighbor_entry_t'' [(''rif_id'', self ''sub_port_rif1''),
        (''ip_address'', ip_address (self ''ip_addr13''))]),
      run (api_create_entry ''neighbor_entry'' (self ''sub_port_nbor1'') [(''dst_mac_address'', self ''mac13'')]),
      set_self ''nbor_list'' (appended (self ''nbor_list'') (self ''sub_port_nbor1'')),
      set_self ''sub_port_nhop1'' (api_create ''next_hop'' [(''ip'', ip_address (self ''ip_addr13'')), (''router_interface_id'',
        self ''sub_port_rif1''), (''type'', num SAI_NEXT_HOP_TYPE_IP)]),
      assert_eq status (num SAI_STATUS_SUCCESS),
      set_self ''nhop_list'' (appended (self ''nhop_list'') (self ''sub_port_nhop1'')),
      set_self ''sub_port_route1'' (struct ''sai_thrift_route_entry_t'' [(''vr_id'', self ''vrf1''), (''destination'', ip_prefix
        (add (self ''ip_addr13'') (str ''/24'')))]),
      run (api_create_entry ''route_entry'' (self ''sub_port_route1'') [(''next_hop_id'', self ''sub_port_nhop1'')]),
      assert_eq status (num SAI_STATUS_SUCCESS),
      set_self ''route_list'' (appended (self ''route_list'') (self ''sub_port_route1'')),
      set_self ''ip_addr14'' (str ''10.10.4.1''),
      set_self ''lpb_nhop1'' (api_create ''next_hop'' [(''ip'', ip_address (self ''ip_addr14'')), (''router_interface_id'', self
        ''lpb_rif1''), (''type'', num SAI_NEXT_HOP_TYPE_IP)]),
      assert_eq status (num SAI_STATUS_SUCCESS),
      set_self ''nhop_list'' (appended (self ''nhop_list'') (self ''lpb_nhop1'')),
      set_self ''lpb_route1'' (struct ''sai_thrift_route_entry_t'' [(''vr_id'', self ''vrf1''), (''destination'', ip_prefix (add
        (self ''ip_addr14'') (str ''/24'')))]),
      run (api_create_entry ''route_entry'' (self ''lpb_route1'') [(''next_hop_id'', self ''lpb_nhop1'')]),
      assert_eq status (num SAI_STATUS_SUCCESS),
      set_self ''route_list'' (appended (self ''route_list'') (self ''lpb_route1'')),
      set_self ''ip_addr15'' (str ''10.10.5.1''),
      set_self ''mac15'' (str ''00:11:11:11:11:55''),
      set_self ''svi_nbor1'' (struct ''sai_thrift_neighbor_entry_t'' [(''rif_id'', self ''svi_rif1''), (''ip_address'',
        ip_address (self ''ip_addr15''))]),
      run (api_create_entry ''neighbor_entry'' (self ''svi_nbor1'') [(''dst_mac_address'', self ''mac15'')]),
      set_self ''nbor_list'' (appended (self ''nbor_list'') (self ''svi_nbor1'')),
      set_self ''svi_nhop1'' (api_create ''next_hop'' [(''ip'', ip_address (self ''ip_addr15'')), (''router_interface_id'', self
        ''svi_rif1''), (''type'', num SAI_NEXT_HOP_TYPE_IP)]),
      assert_eq status (num SAI_STATUS_SUCCESS),
      set_self ''nhop_list'' (appended (self ''nhop_list'') (self ''svi_nhop1'')),
      set_self ''svi_route1'' (struct ''sai_thrift_route_entry_t'' [(''vr_id'', self ''vrf1''), (''destination'', ip_prefix (add
        (self ''ip_addr15'') (str ''/24'')))]),
      run (api_create_entry ''route_entry'' (self ''svi_route1'') [(''next_hop_id'', self ''svi_nhop1'')]),
      assert_eq status (num SAI_STATUS_SUCCESS),
      set_self ''route_list'' (appended (self ''route_list'') (self ''svi_route1'')),
      set_self ''vrf2'' (api_create ''virtual_router'' []),
      assert_eq status (num SAI_STATUS_SUCCESS),
      set_self ''port_rif2'' (api_create ''router_interface'' [(''type'', num SAI_ROUTER_INTERFACE_TYPE_PORT),
        (''virtual_router_id'', self ''vrf2''), (''port_id'', self ''port25'')]),
      assert_eq status (num SAI_STATUS_SUCCESS),
      set_self ''rif_list'' (appended (self ''rif_list'') (self ''port_rif2'')),
      set_self ''lag_rif2'' (api_create ''router_interface'' [(''type'', num SAI_ROUTER_INTERFACE_TYPE_PORT),
        (''virtual_router_id'', self ''vrf2''), (''port_id'', self ''lag2'')]),
      assert_eq status (num SAI_STATUS_SUCCESS),
      set_self ''rif_list'' (appended (self ''rif_list'') (self ''lag_rif2'')),
      set_self ''sub_port_rif2'' (api_create ''router_interface'' [(''type'', num SAI_ROUTER_INTERFACE_TYPE_SUB_PORT),
        (''virtual_router_id'', self ''vrf2''), (''port_id'', self ''port10''), (''outer_vlan_id'', num 200),
        (''admin_v4_state'', bool True)]),
      assert_eq status (num SAI_STATUS_SUCCESS),
      set_self ''rif_list'' (appended (self ''rif_list'') (self ''sub_port_rif2'')),
      set_self ''lpb_rif2'' (api_create ''router_interface'' [(''type'', num SAI_ROUTER_INTERFACE_TYPE_LOOPBACK),
        (''virtual_router_id'', self ''vrf2'')]),
      assert_eq status (num SAI_STATUS_SUCCESS),
      set_self ''rif_list'' (appended (self ''rif_list'') (self ''lpb_rif2'')),
      set_self ''svi_rif2'' (api_create ''router_interface'' [(''type'', num SAI_ROUTER_INTERFACE_TYPE_VLAN),
        (''virtual_router_id'', self ''vrf2''), (''vlan_id'', self ''vlan20'')]),
      assert_eq status (num SAI_STATUS_SUCCESS),
      set_self ''rif_list'' (appended (self ''rif_list'') (self ''svi_rif2'')),
      assign ''ip_addr21'' (str ''10.20.1.1''),
      set_self ''port_nhop2'' (api_create ''next_hop'' [(''ip'', ip_address (var ''ip_addr21'')), (''router_interface_id'', self
        ''port_rif2''), (''type'', num SAI_NEXT_HOP_TYPE_IP)]),
      assert_eq status (num SAI_STATUS_SUCCESS),
      set_self ''nhop_list'' (appended (self ''nhop_list'') (self ''port_nhop2'')),
      set_self ''port_route2'' (struct ''sai_thrift_route_entry_t'' [(''vr_id'', self ''vrf2''), (''destination'', ip_prefix
        (add (var ''ip_addr21'') (str ''/24'')))]),
      run (api_create_entry ''route_entry'' (self ''port_route2'') [(''next_hop_id'', self ''port_nhop2'')]),
      assert_eq status (num SAI_STATUS_SUCCESS),
      set_self ''route_list'' (appended (self ''route_list'') (self ''port_route2'')),
      assign ''ip_addr22'' (str ''10.20.2.1''),
      set_self ''lag_nhop2'' (api_create ''next_hop'' [(''ip'', ip_address (var ''ip_addr22'')), (''router_interface_id'', self
        ''lag_rif2''), (''type'', num SAI_NEXT_HOP_TYPE_IP)]),
      assert_eq status (num SAI_STATUS_SUCCESS),
      set_self ''nhop_list'' (appended (self ''nhop_list'') (self ''lag_nhop2'')),
      set_self ''lag_route2'' (struct ''sai_thrift_route_entry_t'' [(''vr_id'', self ''vrf2''), (''destination'', ip_prefix (add
        (var ''ip_addr22'') (str ''/24'')))]),
      run (api_create_entry ''route_entry'' (self ''lag_route2'') [(''next_hop_id'', self ''lag_nhop2'')]),
      assert_eq status (num SAI_STATUS_SUCCESS),
      set_self ''route_list'' (appended (self ''route_list'') (self ''lag_route2'')),
      assign ''ip_addr23'' (str ''10.20.3.1''),
      set_self ''sub_port_nhop2'' (api_create ''next_hop'' [(''ip'', ip_address (var ''ip_addr23'')), (''router_interface_id'',
        self ''sub_port_rif2''), (''type'', num SAI_NEXT_HOP_TYPE_IP)]),
      assert_eq status (num SAI_STATUS_SUCCESS),
      set_self ''nhop_list'' (appended (self ''nhop_list'') (self ''sub_port_nhop2'')),
      set_self ''sub_port_route2'' (struct ''sai_thrift_route_entry_t'' [(''vr_id'', self ''vrf2''), (''destination'', ip_prefix
        (add (var ''ip_addr23'') (str ''/24'')))]),
      run (api_create_entry ''route_entry'' (self ''sub_port_route2'') [(''next_hop_id'', self ''sub_port_nhop2'')]),
      assert_eq status (num SAI_STATUS_SUCCESS),
      set_self ''route_list'' (appended (self ''route_list'') (self ''sub_port_route2'')),
      assign ''ip_addr24'' (str ''10.20.4.1''),
      set_self ''lpb_nhop2'' (api_create ''next_hop'' [(''ip'', ip_address (var ''ip_addr24'')), (''router_interface_id'', self
        ''lpb_rif2''), (''type'', num SAI_NEXT_HOP_TYPE_IP)]),
      assert_eq status (num SAI_STATUS_SUCCESS),
      set_self ''nhop_list'' (appended (self ''nhop_list'') (self ''lpb_nhop2'')),
      set_self ''lpb_route2'' (struct ''sai_thrift_route_entry_t'' [(''vr_id'', self ''vrf2''), (''destination'', ip_prefix (add
        (var ''ip_addr24'') (str ''/24'')))]),
      run (api_create_entry ''route_entry'' (self ''lpb_route2'') [(''next_hop_id'', self ''lpb_nhop2'')]),
      assert_eq status (num SAI_STATUS_SUCCESS),
      set_self ''route_list'' (appended (self ''route_list'') (self ''lpb_route2'')),
      assign ''ip_addr25'' (str ''10.20.5.1''),
      set_self ''svi_nhop2'' (api_create ''next_hop'' [(''ip'', ip_address (var ''ip_addr25'')), (''router_interface_id'', self
        ''svi_rif2''), (''type'', num SAI_NEXT_HOP_TYPE_IP)]),
      assert_eq status (num SAI_STATUS_SUCCESS),
      set_self ''nhop_list'' (appended (self ''nhop_list'') (self ''svi_nhop2'')),
      set_self ''svi_route2'' (struct ''sai_thrift_route_entry_t'' [(''vr_id'', self ''vrf2''), (''destination'', ip_prefix (add
        (var ''ip_addr25'') (str ''/24'')))]),
      run (api_create_entry ''route_entry'' (self ''svi_route2'') [(''next_hop_id'', self ''svi_nhop2'')]),
      assert_eq status (num SAI_STATUS_SUCCESS),
      set_self ''route_list'' (appended (self ''route_list'') (self ''svi_route2'')),
      set_self ''vrf3'' (api_create ''virtual_router'' []),
      assert_eq status (num SAI_STATUS_SUCCESS),
      set_self ''port_rif3'' (api_create ''router_interface'' [(''type'', num SAI_ROUTER_INTERFACE_TYPE_PORT),
        (''virtual_router_id'', self ''vrf3''), (''port_id'', self ''port26'')]),
      assert_eq status (num SAI_STATUS_SUCCESS),
      set_self ''rif_list'' (appended (self ''rif_list'') (self ''port_rif3'')),
      set_self ''lag10'' (api_create ''lag'' []),
      assert_eq status (num SAI_STATUS_SUCCESS),
      set_self ''lag10_member1'' (api_create ''lag_member'' [(''lag_id'', self ''lag10''), (''port_id'', self ''port27'')]),
      assert_eq status (num SAI_STATUS_SUCCESS),
      set_self ''lag10_member2'' (api_create ''lag_member'' [(''lag_id'', self ''lag10''), (''port_id'', self ''port28'')]),
      assert_eq status (num SAI_STATUS_SUCCESS),
      set_self ''lag10_bp'' (api_create ''bridge_port'' [(''bridge_id'', self ''default_1q_bridge''), (''port_id'', self
        ''lag10''), (''type'', num SAI_BRIDGE_PORT_TYPE_PORT)]),
      assert_eq status (num SAI_STATUS_SUCCESS),
      set_self ''lag_rif3'' (api_create ''router_interface'' [(''type'', num SAI_ROUTER_INTERFACE_TYPE_PORT),
        (''virtual_router_id'', self ''vrf3''), (''port_id'', self ''lag10'')]),
      assert_eq status (num SAI_STATUS_SUCCESS),
      set_self ''rif_list'' (appended (self ''rif_list'') (self ''lag_rif3'')),
      set_self ''sub_port_rif3'' (api_create ''router_interface'' [(''type'', num SAI_ROUTER_INTERFACE_TYPE_SUB_PORT),
        (''virtual_router_id'', self ''vrf3''), (''port_id'', self ''port10''), (''outer_vlan_id'', num 300),
        (''admin_v4_state'', bool True)]),
      assert_eq status (num SAI_STATUS_SUCCESS),
      set_self ''rif_list'' (appended (self ''rif_list'') (self ''sub_port_rif3'')),
      set_self ''lpb_rif3'' (api_create ''router_interface'' [(''type'', num SAI_ROUTER_INTERFACE_TYPE_LOOPBACK),
        (''virtual_router_id'', self ''vrf3'')]),
      assert_eq status (num SAI_STATUS_SUCCESS),
      set_self ''rif_list'' (appended (self ''rif_list'') (self ''lpb_rif3'')),
      set_self ''vlan100'' (api_create ''vlan'' [(''vlan_id'', num 100)]),
      assert_eq status (num SAI_STATUS_SUCCESS),
      set_self ''port29_bp'' (api_create ''bridge_port'' [(''bridge_id'', self ''default_1q_bridge''), (''port_id'', self
        ''port29''), (''type'', num SAI_BRIDGE_PORT_TYPE_PORT)]),
      assert_eq status (num SAI_STATUS_SUCCESS),
      set_self ''vlan100_member0'' (api_create ''vlan_member'' [(''vlan_id'', self ''vlan100''), (''bridge_port_id'', self
        ''port29_bp''), (''vlan_tagging_mode'', num SAI_VLAN_TAGGING_MODE_UNTAGGED)]),
      assert_eq status (num SAI_STATUS_SUCCESS),
      run (api_set ''port'' (self ''port29'') [(''port_vlan_id'', num 100)]),
      set_self ''port30_bp'' (api_create ''bridge_port'' [(''bridge_id'', self ''default_1q_bridge''), (''port_id'', self
        ''port30''), (''type'', num SAI_BRIDGE_PORT_TYPE_PORT)]),
      assert_eq status (num SAI_STATUS_SUCCESS),
      set_self ''vlan100_member1'' (api_create ''vlan_member'' [(''vlan_id'', self ''vlan100''), (''bridge_port_id'', self
        ''port30_bp''), (''vlan_tagging_mode'', num SAI_VLAN_TAGGING_MODE_TAGGED)]),
      assert_eq status (num SAI_STATUS_SUCCESS),
      set_self ''svi_rif3'' (api_create ''router_interface'' [(''type'', num SAI_ROUTER_INTERFACE_TYPE_VLAN),
        (''virtual_router_id'', self ''vrf3''), (''vlan_id'', self ''vlan100'')]),
      assert_eq status (num SAI_STATUS_SUCCESS),
      set_self ''rif_list'' (appended (self ''rif_list'') (self ''svi_rif3'')),
      assign ''ip_addr31'' (str ''10.30.1.1''),
      set_self ''port_nhop3'' (api_create ''next_hop'' [(''ip'', ip_address (var ''ip_addr31'')), (''router_interface_id'', self
        ''port_rif3''), (''type'', num SAI_NEXT_HOP_TYPE_IP)]),
      assert_eq status (num SAI_STATUS_SUCCESS),
      set_self ''nhop_list'' (appended (self ''nhop_list'') (self ''port_nhop3'')),
      set_self ''port_route3'' (struct ''sai_thrift_route_entry_t'' [(''vr_id'', self ''vrf3''), (''destination'', ip_prefix
        (add (var ''ip_addr31'') (str ''/24'')))]),
      run (api_create_entry ''route_entry'' (self ''port_route3'') [(''next_hop_id'', self ''port_nhop3'')]),
      assert_eq status (num SAI_STATUS_SUCCESS),
      set_self ''route_list'' (appended (self ''route_list'') (self ''port_route3'')),
      assign ''ip_addr32'' (str ''10.30.2.1''),
      set_self ''lag_nhop3'' (api_create ''next_hop'' [(''ip'', ip_address (var ''ip_addr32'')), (''router_interface_id'', self
        ''lag_rif3''), (''type'', num SAI_NEXT_HOP_TYPE_IP)]),
      assert_eq status (num SAI_STATUS_SUCCESS),
      set_self ''nhop_list'' (appended (self ''nhop_list'') (self ''lag_nhop3'')),
      set_self ''lag_route3'' (struct ''sai_thrift_route_entry_t'' [(''vr_id'', self ''vrf3''), (''destination'', ip_prefix (add
        (var ''ip_addr32'') (str ''/24'')))]),
      run (api_create_entry ''route_entry'' (self ''lag_route3'') [(''next_hop_id'', self ''lag_nhop3'')]),
      assert_eq status (num SAI_STATUS_SUCCESS),
      set_self ''route_list'' (appended (self ''route_list'') (self ''lag_route3'')),
      assign ''ip_addr33'' (str ''10.30.3.1''),
      set_self ''sub_port_nhop3'' (api_create ''next_hop'' [(''ip'', ip_address (var ''ip_addr33'')), (''router_interface_id'',
        self ''sub_port_rif3''), (''type'', num SAI_NEXT_HOP_TYPE_IP)]),
      assert_eq status (num SAI_STATUS_SUCCESS),
      set_self ''nhop_list'' (appended (self ''nhop_list'') (self ''sub_port_nhop3'')),
      set_self ''sub_port_route3'' (struct ''sai_thrift_route_entry_t'' [(''vr_id'', self ''vrf3''), (''destination'', ip_prefix
        (add (var ''ip_addr33'') (str ''/24'')))]),
      run (api_create_entry ''route_entry'' (self ''sub_port_route3'') [(''next_hop_id'', self ''sub_port_nhop3'')]),
      assert_eq status (num SAI_STATUS_SUCCESS),
      set_self ''route_list'' (appended (self ''route_list'') (self ''sub_port_route3'')),
      assign ''ip_addr34'' (str ''10.30.4.1''),
      set_self ''lpb_nhop3'' (api_create ''next_hop'' [(''ip'', ip_address (var ''ip_addr34'')), (''router_interface_id'', self
        ''lpb_rif3''), (''type'', num SAI_NEXT_HOP_TYPE_IP)]),
      assert_eq status (num SAI_STATUS_SUCCESS),
      set_self ''nhop_list'' (appended (self ''nhop_list'') (self ''lpb_nhop3'')),
      set_self ''lpb_route3'' (struct ''sai_thrift_route_entry_t'' [(''vr_id'', self ''vrf3''), (''destination'', ip_prefix (add
        (var ''ip_addr34'') (str ''/24'')))]),
      run (api_create_entry ''route_entry'' (self ''lpb_route3'') [(''next_hop_id'', self ''lpb_nhop3'')]),
      assert_eq status (num SAI_STATUS_SUCCESS),
      set_self ''route_list'' (appended (self ''route_list'') (self ''lpb_route3'')),
      assign ''ip_addr35'' (str ''10.30.5.1''),
      set_self ''svi_nhop3'' (api_create ''next_hop'' [(''ip'', ip_address (var ''ip_addr35'')), (''router_interface_id'', self
        ''svi_rif3''), (''type'', num SAI_NEXT_HOP_TYPE_IP)]),
      assert_eq status (num SAI_STATUS_SUCCESS),
      set_self ''nhop_list'' (appended (self ''nhop_list'') (self ''svi_nhop3'')),
      set_self ''svi_route3'' (struct ''sai_thrift_route_entry_t'' [(''vr_id'', self ''vrf3''), (''destination'', ip_prefix (add
        (var ''ip_addr35'') (str ''/24'')))]),
      run (api_create_entry ''route_entry'' (self ''svi_route3'') [(''next_hop_id'', self ''svi_nhop3'')]),
      assert_eq status (num SAI_STATUS_SUCCESS),
      set_self ''route_list'' (appended (self ''route_list'') (self ''svi_route3''))]"

definition VrfMultipleRifCreationTest_tearDown :: "'d stmt" where
  "VrfMultipleRifCreationTest_tearDown = block [
      for_in [''route''] (self ''route_list'') [
        run (api_remove ''route_entry'' (var ''route''))],
      for_in [''nhop''] (self ''nhop_list'') [
        run (api_remove ''next_hop'' (var ''nhop''))],
      for_in [''nbor''] (self ''nbor_list'') [
        run (api_remove ''neighbor_entry'' (var ''nbor''))],
      for_in [''rif''] (self ''rif_list'') [
        run (api_remove ''router_interface'' (var ''rif''))],
      run (api_remove ''vlan_member'' (self ''vlan100_member1'')),
      run (api_remove ''bridge_port'' (self ''port30_bp'')),
      run (api_set ''port'' (self ''port29'') [(''port_vlan_id'', num 0)]),
      run (api_remove ''vlan_member'' (self ''vlan100_member0'')),
      run (api_remove ''bridge_port'' (self ''port29_bp'')),
      run (api_remove ''vlan'' (self ''vlan100'')),
      run (api_remove ''bridge_port'' (self ''lag10_bp'')),
      run (api_remove ''lag_member'' (self ''lag10_member1'')),
      run (api_remove ''lag_member'' (self ''lag10_member2'')),
      run (api_remove ''lag'' (self ''lag10'')),
      run (api_remove ''virtual_router'' (self ''vrf3'')),
      run (api_remove ''virtual_router'' (self ''vrf2'')),
      run (api_remove ''virtual_router'' (self ''vrf1'')),
      super_tearDown]"

definition VrfAclRedirectTest_setUp :: "'d stmt" where
  "VrfAclRedirectTest_setUp = block [
      super_setUp,
      set_self ''test_vrf'' (api_create ''virtual_router'' []),
      assert_eq status (num SAI_STATUS_SUCCESS),
      set_self ''iport'' (self ''port24''),
      set_self ''iport_dev'' (self ''dev_port24''),
      set_self ''test_irif'' (api_create ''router_interface'' [(''type'', num SAI_ROUTER_INTERFACE_TYPE_PORT),
        (''virtual_router_id'', self ''test_vrf''), (''port_id'', self ''iport'')]),
      assert_eq status (num SAI_STATUS_SUCCESS),
      set_self ''iport_mac'' (str ''00:11:11:11:11:11''),
      assign ''iport_ipv4'' (str ''10.10.10.1''),
      assign ''iport_ipv6'' (str ''2001:0db8::1:1''),
      set_self ''iport_nhop'' (api_create ''next_hop'' [(''ip'', ip_address (var ''iport_ipv4'')), (''router_interface_id'',
        self ''test_irif''), (''type'', num SAI_NEXT_HOP_TYPE_IP)]),
      set_self ''iport_nhop_v6'' (api_create ''next_hop'' [(''ip'', ip_address (var ''iport_ipv6'')), (''router_interface_id'',
        self ''test_irif''), (''type'', num SAI_NEXT_HOP_TYPE_IP)])]"

definition VrfAclRedirectTest_aclFwdL3NhopTest :: "'d stmt" where
  "VrfAclRedirectTest_aclFwdL3NhopTest = block [
      assign ''test_dev_port'' (self ''dev_port10''),
      assign ''test_rif'' (self ''port10_rif''),
      assign ''test_mac'' (str ''00:33:33:33:33:33''),
      assign ''test_ip'' (str ''30.30.30.1''),
      assign ''ip_mask'' (str ''255.255.255.0''),
      assign ''bind_points'' (list_of [num SAI_ACL_BIND_POINT_TYPE_ROUTER_INTERFACE]),
      assign ''action_types'' (list_of [num SAI_ACL_ACTION_TYPE_REDIRECT]),
      try_finally [
        assign ''test_nbor'' (struct ''sai_thrift_neighbor_entry_t'' [(''rif_id'', var ''test_rif''), (''ip_address'',
          ip_address (var ''test_ip''))]),
        run (api_create_entry ''neighbor_entry'' (var ''test_nbor'') [(''dst_mac_address'', var ''test_mac'')]),
        assign ''test_nhop'' (api_create ''next_hop'' [(''ip'', ip_address (var ''test_ip'')), (''router_interface_id'', var
          ''test_rif''), (''type'', num SAI_NEXT_HOP_TYPE_IP)]),
        assign ''bind_points_list'' (struct ''sai_thrift_s32_list_t'' [(''count'', length_of (var ''bind_points'')),
          (''int32list'', var ''bind_points'')]),
        assign ''action_types_list'' (struct ''sai_thrift_s32_list_t'' [(''count'', length_of (var ''action_types'')),
          (''int32list'', var ''action_types'')]),
        assign ''acl_table'' (api_create ''acl_table'' [(''acl_stage'', num SAI_ACL_STAGE_INGRESS),
          (''acl_bind_point_type_list'', var ''bind_points_list''), (''acl_action_type_list'', var ''action_types_list''),
          (''field_dst_ip'', bool True)]),
        assign ''acl_action'' (struct ''sai_thrift_acl_action_data_t'' [(''parameter'', struct
          ''sai_thrift_acl_action_parameter_t'' [(''oid'', var ''test_nhop'')])]),
        assign ''ip_addr'' (struct ''sai_thrift_acl_field_data_t'' [(''data'', struct ''sai_thrift_acl_field_data_data_t''
          [(''ip4'', var ''test_ip'')]), (''mask'', struct ''sai_thrift_acl_field_data_mask_t'' [(''ip4'', var ''ip_mask'')])]),
        assign ''acl_entry'' (api_create ''acl_entry'' [(''table_id'', var ''acl_table''), (''action_redirect'', var
          ''acl_action''), (''field_dst_ip'', var ''ip_addr'')]),
        run (api_set ''router_interface'' (self ''test_irif'') [(''ingress_acl'', var ''acl_table'')]),
        assign ''src_mac'' (str ''00:aa:aa:aa:aa:aa''),
        assign ''src_ip'' (str ''10.10.10.10''),
        assign ''dst_ip'' (str ''30.30.30.30''),
        assign ''pkt'' (lib ''simple_udp_packet'' [] [(''eth_dst'', var ''test_mac''), (''eth_src'', var ''src_mac''),
          (''ip_dst'', var ''dst_ip''), (''ip_src'', var ''src_ip''), (''ip_ttl'', num 64)]),
        run (lib ''send_packet'' [self ''iport_dev'', var ''pkt''] []),
        run (lib ''verify_packet'' [var ''pkt'', var ''test_dev_port''] [])] [
        run (api_set ''router_interface'' (self ''test_irif'') [(''ingress_acl'', num 0)]),
        run (api_remove ''acl_entry'' (var ''acl_entry'')),
        run (api_remove ''acl_table'' (var ''acl_table'')),
        run (api_remove ''next_hop'' (var ''test_nhop'')),
        run (api_remove ''neighbor_entry'' (var ''test_nbor''))]]"

definition VrfAclRedirectTest_aclFwdL3LagNhopTest :: "'d stmt" where
  "VrfAclRedirectTest_aclFwdL3LagNhopTest = block [
      assign ''test_lag_dev_ports'' (list_of [self ''dev_port14'', self ''dev_port15'', self ''dev_port16'']),
      assign ''test_lag_rif'' (self ''lag3_rif''),
      assign ''test_mac'' (str ''00:33:33:33:33:33''),
      assign ''test_ip'' (str ''30.30.30.1''),
      assign ''ip_mask'' (str ''255.255.255.0''),
      assign ''bind_points'' (list_of [num SAI_ACL_BIND_POINT_TYPE_ROUTER_INTERFACE]),
      assign ''action_types'' (list_of [num SAI_ACL_ACTION_TYPE_REDIRECT]),
      try_finally [
        assign ''test_nbor'' (struct ''sai_thrift_neighbor_entry_t'' [(''rif_id'', var ''test_lag_rif''), (''ip_address'',
          ip_address (var ''test_ip''))]),
        run (api_create_entry ''neighbor_entry'' (var ''test_nbor'') [(''dst_mac_address'', var ''test_mac'')]),
        assign ''test_nhop'' (api_create ''next_hop'' [(''ip'', ip_address (var ''test_ip'')), (''router_interface_id'', var
          ''test_lag_rif''), (''type'', num SAI_NEXT_HOP_TYPE_IP)]),
        assign ''bind_points_list'' (struct ''sai_thrift_s32_list_t'' [(''count'', length_of (var ''bind_points'')),
          (''int32list'', var ''bind_points'')]),
        assign ''action_types_list'' (struct ''sai_thrift_s32_list_t'' [(''count'', length_of (var ''action_types'')),
          (''int32list'', var ''action_types'')]),
        assign ''acl_table'' (api_create ''acl_table'' [(''acl_stage'', num SAI_ACL_STAGE_INGRESS),
          (''acl_bind_point_type_list'', var ''bind_points_list''), (''acl_action_type_list'', var ''action_types_list''),
          (''field_dst_ip'', bool True)]),
        assign ''acl_action'' (struct ''sai_thrift_acl_action_data_t'' [(''parameter'', struct
          ''sai_thrift_acl_action_parameter_t'' [(''oid'', var ''test_nhop'')])]),
        assign ''ip_addr'' (struct ''sai_thrift_acl_field_data_t'' [(''data'', struct ''sai_thrift_acl_field_data_data_t''
          [(''ip4'', var ''test_ip'')]), (''mask'', struct ''sai_thrift_acl_field_data_mask_t'' [(''ip4'', var ''ip_mask'')])]),
        assign ''acl_entry'' (api_create ''acl_entry'' [(''table_id'', var ''acl_table''), (''action_redirect'', var
          ''acl_action''), (''field_dst_ip'', var ''ip_addr'')]),
        run (api_set ''router_interface'' (self ''test_irif'') [(''ingress_acl'', var ''acl_table'')]),
        assign ''src_mac'' (str ''00:aa:aa:aa:aa:aa''),
        assign ''src_ip'' (str ''10.10.10.10''),
        assign ''dst_ip'' (str ''30.30.30.30''),
        assign ''pkt'' (lib ''simple_udp_packet'' [] [(''eth_dst'', var ''test_mac''), (''eth_src'', var ''src_mac''),
          (''ip_dst'', var ''dst_ip''), (''ip_src'', var ''src_ip''), (''ip_ttl'', num 64)]),
        run (lib ''send_packet'' [self ''iport_dev'', var ''pkt''] []),
        run (lib ''verify_packet_any_port'' [var ''pkt'', var ''test_lag_dev_ports''] [])] [
        run (api_set ''router_interface'' (self ''test_irif'') [(''ingress_acl'', num 0)]),
        run (api_remove ''acl_entry'' (var ''acl_entry'')),
        run (api_remove ''acl_table'' (var ''acl_table'')),
        run (api_remove ''next_hop'' (var ''test_nhop'')),
        run (api_remove ''neighbor_entry'' (var ''test_nbor''))]]"

definition VrfAclRedirectTest_aclFwdSviNhopTest :: "'d stmt" where
  "VrfAclRedirectTest_aclFwdSviNhopTest = block [
      assign ''test_vlan_rif'' (self ''vlan30_rif''),
      assign ''test_vlan_lag_dev_ports'' (list_of [self ''dev_port21'', self ''dev_port22'']),
      assign ''test_vlan_dev_ports'' (list_of [list_of [self ''dev_port20''], list_of [self ''dev_port21''], var
        ''test_vlan_lag_dev_ports'']),
      assign ''test_mac'' (str ''00:33:33:33:33:33''),
      assign ''test_ip'' (str ''30.30.30.1''),
      assign ''ip_mask'' (str ''255.255.255.0''),
      assign ''bind_points'' (list_of [num SAI_ACL_BIND_POINT_TYPE_ROUTER_INTERFACE]),
      assign ''action_types'' (list_of [num SAI_ACL_ACTION_TYPE_REDIRECT]),
      try_finally [
        assign ''test_nbor'' (struct ''sai_thrift_neighbor_entry_t'' [(''rif_id'', var ''test_vlan_rif''), (''ip_address'',
          ip_address (var ''test_ip''))]),
        run (api_create_entry ''neighbor_entry'' (var ''test_nbor'') [(''dst_mac_address'', var ''test_mac'')]),
        assign ''test_nhop'' (api_create ''next_hop'' [(''ip'', ip_address (var ''test_ip'')), (''router_interface_id'', var
          ''test_vlan_rif''), (''type'', num SAI_NEXT_HOP_TYPE_IP)]),
        assign ''bind_points_list'' (struct ''sai_thrift_s32_list_t'' [(''count'', length_of (var ''bind_points'')),
          (''int32list'', var ''bind_points'')]),
        assign ''action_types_list'' (struct ''sai_thrift_s32_list_t'' [(''count'', length_of (var ''action_types'')),
          (''int32list'', var ''action_types'')]),
        assign ''acl_table'' (api_create ''acl_table'' [(''acl_stage'', num SAI_ACL_STAGE_INGRESS),
          (''acl_bind_point_type_list'', var ''bind_points_list''), (''acl_action_type_list'', var ''action_types_list''),
          (''field_dst_ip'', bool True)]),
        assign ''acl_action'' (struct ''sai_thrift_acl_action_data_t'' [(''parameter'', struct
          ''sai_thrift_acl_action_parameter_t'' [(''oid'', var ''test_nhop'')])]),
        assign ''ip_addr'' (struct ''sai_thrift_acl_field_data_t'' [(''data'', struct ''sai_thrift_acl_field_data_data_t''
          [(''ip4'', var ''test_ip'')]), (''mask'', struct ''sai_thrift_acl_field_data_mask_t'' [(''ip4'', var ''ip_mask'')])]),
        assign ''acl_entry'' (api_create ''acl_entry'' [(''table_id'', var ''acl_table''), (''action_redirect'', var
          ''acl_action''), (''field_dst_ip'', var ''ip_addr'')]),
        run (api_set ''router_interface'' (self ''test_irif'') [(''ingress_acl'', var ''acl_table'')]),
        assign ''src_mac'' (str ''00:aa:aa:aa:aa:aa''),
        assign ''src_ip'' (str ''10.10.10.10''),
        assign ''dst_ip'' (str ''30.30.30.30''),
        assign ''pkt'' (lib ''simple_udp_packet'' [] [(''eth_dst'', var ''test_mac''), (''eth_src'', var ''src_mac''),
          (''ip_dst'', var ''dst_ip''), (''ip_src'', var ''src_ip''), (''ip_ttl'', num 64)]),
        assign ''exp_pkt_list'' (list_of [var ''pkt'', var ''pkt'', var ''pkt'']),
        run (lib ''send_packet'' [self ''iport_dev'', var ''pkt''] []),
        run (lib ''verify_each_packet_on_multiple_port_lists'' [var ''exp_pkt_list'', var ''test_vlan_dev_ports''] [])] [
        run (api_set ''router_interface'' (self ''test_irif'') [(''ingress_acl'', num 0)]),
        run (api_remove ''acl_entry'' (var ''acl_entry'')),
        run (api_remove ''acl_table'' (var ''acl_table'')),
        run (api_remove ''next_hop'' (var ''test_nhop'')),
        run (api_remove ''neighbor_entry'' (var ''test_nbor''))]]"

definition VrfAclRedirectTest_aclFwdSubportNhopTest :: "'d stmt" where
  "VrfAclRedirectTest_aclFwdSubportNhopTest = block [
      assign ''test_port'' (self ''port10''),
      assign ''test_dev_port'' (self ''dev_port10''),
      assign ''test_mac1'' (str ''00:33:33:33:33:1''),
      assign ''test_ip1'' (str ''30.30.10.1''),
      assign ''vlan_id1'' (num 100),
      assign ''test_mac2'' (str ''00:33:33:33:33:2''),
      assign ''test_ip2'' (str ''30.30.20.2''),
      assign ''vlan_id2'' (num 200),
      assign ''ip_mask'' (str ''255.255.255.0''),
      assign ''bind_points'' (list_of [num SAI_ACL_BIND_POINT_TYPE_ROUTER_INTERFACE]),
      assign ''action_types'' (list_of [num SAI_ACL_ACTION_TYPE_REDIRECT]),
      try_finally [
        assign ''subport1_rif'' (api_create ''router_interface'' [(''type'', num SAI_ROUTER_INTERFACE_TYPE_SUB_PORT),
          (''virtual_router_id'', self ''default_vrf''), (''port_id'', var ''test_port''), (''outer_vlan_id'', var
          ''vlan_id1''), (''admin_v4_state'', bool True)]),
        assign ''test_nbor1'' (struct ''sai_thrift_neighbor_entry_t'' [(''rif_id'', var ''subport1_rif''), (''ip_address'',
          ip_address (var ''test_ip1''))]),
        run (api_create_entry ''neighbor_entry'' (var ''test_nbor1'') [(''dst_mac_address'', var ''test_mac1'')]),
        assign ''test_nhop1'' (api_create ''next_hop'' [(''ip'', ip_address (var ''test_ip1'')), (''router_interface_id'', var
          ''subport1_rif''), (''type'', num SAI_NEXT_HOP_TYPE_IP)]),
        assign ''subport2_rif'' (api_create ''router_interface'' [(''type'', num SAI_ROUTER_INTERFACE_TYPE_SUB_PORT),
          (''virtual_router_id'', self ''default_vrf''), (''port_id'', var ''test_port''), (''outer_vlan_id'', var
          ''vlan_id2''), (''admin_v4_state'', bool True)]),
        assign ''test_nbor2'' (struct ''sai_thrift_neighbor_entry_t'' [(''rif_id'', var ''subport2_rif''), (''ip_address'',
          ip_address (var ''test_ip2''))]),
        run (api_create_entry ''neighbor_entry'' (var ''test_nbor2'') [(''dst_mac_address'', var ''test_mac2'')]),
        assign ''test_nhop2'' (api_create ''next_hop'' [(''ip'', ip_address (var ''test_ip2'')), (''router_interface_id'', var
          ''subport2_rif''), (''type'', num SAI_NEXT_HOP_TYPE_IP)]),
        assign ''bind_points_list'' (struct ''sai_thrift_s32_list_t'' [(''count'', length_of (var ''bind_points'')),
          (''int32list'', var ''bind_points'')]),
        assign ''action_types_list'' (struct ''sai_thrift_s32_list_t'' [(''count'', length_of (var ''action_types'')),
          (''int32list'', var ''action_types'')]),
        assign ''acl_table'' (api_create ''acl_table'' [(''acl_stage'', num SAI_ACL_STAGE_INGRESS),
          (''acl_bind_point_type_list'', var ''bind_points_list''), (''acl_action_type_list'', var ''action_types_list''),
          (''field_dst_ip'', bool True)]),
        assign ''acl_action'' (struct ''sai_thrift_acl_action_data_t'' [(''parameter'', struct
          ''sai_thrift_acl_action_parameter_t'' [(''oid'', var ''test_nhop1'')])]),
        assign ''ip_addr'' (struct ''sai_thrift_acl_field_data_t'' [(''data'', struct ''sai_thrift_acl_field_data_data_t''
          [(''ip4'', var ''test_ip1'')]), (''mask'', struct ''sai_thrift_acl_field_data_mask_t'' [(''ip4'', var ''ip_mask'')])]),
        assign ''acl_entry1'' (api_create ''acl_entry'' [(''table_id'', var ''acl_table''), (''action_redirect'', var
          ''acl_action''), (''field_dst_ip'', var ''ip_addr'')]),
        assign ''acl_action'' (struct ''sai_thrift_acl_action_data_t'' [(''parameter'', struct
          ''sai_thrift_acl_action_parameter_t'' [(''oid'', var ''test_nhop2'')])]),
        assign ''ip_addr'' (struct ''sai_thrift_acl_field_data_t'' [(''data'', struct ''sai_thrift_acl_field_data_data_t''
          [(''ip4'', var ''test_ip2'')]), (''mask'', struct ''sai_thrift_acl_field_data_mask_t'' [(''ip4'', var ''ip_mask'')])]),
        assign ''acl_entry2'' (api_create ''acl_entry'' [(''table_id'', var ''acl_table''), (''action_redirect'', var
          ''acl_action''), (''field_dst_ip'', var ''ip_addr'')]),
        run (api_set ''router_interface'' (self ''test_irif'') [(''ingress_acl'', var ''acl_table'')]),
        assign ''src_mac'' (str ''00:aa:aa:aa:aa:aa''),
        assign ''src_ip'' (str ''10.10.10.10''),
        assign ''dst_ip1'' (str ''30.30.10.10''),
        assign ''dst_ip2'' (str ''30.30.20.20''),
        assign ''pkt1'' (lib ''simple_udp_packet'' [] [(''eth_dst'', str ROUTER_MAC), (''eth_src'', var ''src_mac''),
          (''ip_dst'', var ''dst_ip1''), (''ip_src'', var ''src_ip''), (''ip_ttl'', num 64)]),
        assign ''pkt2'' (lib ''simple_udp_packet'' [] [(''eth_dst'', str ROUTER_MAC), (''eth_src'', var ''src_mac''),
          (''ip_dst'', var ''dst_ip2''), (''ip_src'', var ''src_ip''), (''ip_ttl'', num 64)]),
        run (lib ''send_packet'' [self ''iport_dev'', var ''pkt1''] []),
        run (lib ''verify_packet'' [var ''pkt1'', var ''test_dev_port''] []),
        run (lib ''send_packet'' [self ''iport_dev'', var ''pkt2''] []),
        run (lib ''verify_packet'' [var ''pkt2'', var ''test_dev_port''] [])] [
        run (api_set ''router_interface'' (self ''test_irif'') [(''ingress_acl'', num 0)]),
        run (api_remove ''acl_entry'' (var ''acl_entry1'')),
        run (api_remove ''acl_entry'' (var ''acl_entry2'')),
        run (api_remove ''acl_table'' (var ''acl_table'')),
        run (api_remove ''next_hop'' (var ''test_nhop1'')),
        run (api_remove ''next_hop'' (var ''test_nhop2'')),
        run (api_remove ''neighbor_entry'' (var ''test_nbor1'')),
        run (api_remove ''neighbor_entry'' (var ''test_nbor2'')),
        run (api_remove ''router_interface'' (var ''subport1_rif'')),
        run (api_remove ''router_interface'' (var ''subport2_rif''))]]"

definition VrfAclRedirectTest_tearDown :: "'d stmt" where
  "VrfAclRedirectTest_tearDown = block [
      run (api_remove ''next_hop'' (self ''iport_nhop'')),
      run (api_remove ''next_hop'' (self ''iport_nhop_v6'')),
      run (api_remove ''router_interface'' (self ''test_irif'')),
      run (api_remove ''virtual_router'' (self ''test_vrf'')),
      super_tearDown]"

definition VrfSMACTest_setUp :: "'d stmt" where
  "VrfSMACTest_setUp = block [
      super_setUp,
      set_self ''vrf_mac_create'' (str ''00:44:55:66:77:00''),
      set_self ''vrf_mac_set'' (str ''00:77:55:33:22:11''),
      set_self ''iport_dev'' none,
      set_self ''iport_route'' none,
      set_self ''iport'' none,
      set_self ''test_erif'' none,
      set_self ''eport_route'' none,
      set_self ''eport_nbor_mac'' none,
      set_self ''iport_nbor'' none,
      set_self ''eport_dev'' none,
      set_self ''iport_nhop'' none,
      set_self ''iport_nbor_mac'' none,
      set_self ''eport_nbor'' none,
      set_self ''eport_nhop'' none,
      set_self ''test_vrf'' none,
      set_self ''test_vrf'' none,
      set_self ''test_irif'' none,
      set_self ''eport'' none]"

definition VrfSMACTest_configureRifs :: "'d stmt" where
  "VrfSMACTest_configureRifs = block [
      set_self ''iport'' (self ''port24''),
      set_self ''iport_dev'' (self ''dev_port24''),
      set_self ''test_irif'' (api_create ''router_interface'' [(''type'', num SAI_ROUTER_INTERFACE_TYPE_PORT),
        (''virtual_router_id'', var ''vrf''), (''port_id'', self ''iport'')]),
      set_self ''iport_nbor_mac'' (str ''00:11:11:11:11:11''),
      assign ''iport_ipv4'' (str ''10.10.10.1''),
      set_self ''iport_nhop'' (api_create ''next_hop'' [(''ip'', ip_address (var ''iport_ipv4'')), (''router_interface_id'',
        self ''test_irif''), (''type'', num SAI_NEXT_HOP_TYPE_IP)]),
      set_self ''iport_nbor'' (struct ''sai_thrift_neighbor_entry_t'' [(''rif_id'', self ''test_irif''), (''ip_address'',
        ip_address (var ''iport_ipv4''))]),
      run (api_create_entry ''neighbor_entry'' (self ''iport_nbor'') [(''dst_mac_address'', self ''iport_nbor_mac'')]),
      set_self ''iport_route'' (struct ''sai_thrift_route_entry_t'' [(''vr_id'', self ''test_vrf''), (''destination'', ip_prefix
        (add (var ''iport_ipv4'') (str ''/24'')))]),
      run (api_create_entry ''route_entry'' (self ''iport_route'') [(''next_hop_id'', self ''iport_nhop'')]),
      set_self ''eport'' (self ''port25''),
      set_self ''eport_dev'' (self ''dev_port25''),
      set_self ''eport_nbor_mac'' (str ''00:22:22:22:22:22''),
      assign ''eport_ipv4'' (str ''20.20.20.2''),
      set_self ''test_erif'' (api_create ''router_interface'' [(''type'', num SAI_ROUTER_INTERFACE_TYPE_PORT),
        (''virtual_router_id'', self ''test_vrf''), (''port_id'', self ''eport'')]),
      set_self ''eport_nhop'' (api_create ''next_hop'' [(''ip'', ip_address (var ''eport_ipv4'')), (''router_interface_id'',
        self ''test_erif''), (''type'', num SAI_NEXT_HOP_TYPE_IP)]),
      set_self ''eport_nbor'' (struct ''sai_thrift_neighbor_entry_t'' [(''rif_id'', self ''test_erif''), (''ip_address'',
        ip_address (var ''eport_ipv4''))]),
      run (api_create_entry ''neighbor_entry'' (self ''eport_nbor'') [(''dst_mac_address'', self ''eport_nbor_mac'')]),
      set_self ''eport_route'' (struct ''sai_thrift_route_entry_t'' [(''vr_id'', self ''test_vrf''), (''destination'', ip_prefix
        (add (var ''eport_ipv4'') (str ''/24'')))]),
      run (api_create_entry ''route_entry'' (self ''eport_route'') [(''next_hop_id'', self ''eport_nhop'')])]"

definition VrfSMACTest_removeRifs :: "'d stmt" where
  "VrfSMACTest_removeRifs = block [
      run (api_remove ''route_entry'' (self ''eport_route'')),
      run (api_remove ''neighbor_entry'' (self ''eport_nbor'')),
      run (api_remove ''next_hop'' (self ''eport_nhop'')),
      run (api_remove ''router_interface'' (self ''test_erif'')),
      run (api_remove ''route_entry'' (self ''iport_route'')),
      run (api_remove ''neighbor_entry'' (self ''iport_nbor'')),
      run (api_remove ''next_hop'' (self ''iport_nhop'')),
      run (api_remove ''router_interface'' (self ''test_irif''))]"

end
