(* ===== verification/TestsWred.thy ===== *)
theory TestsWred
  imports PtfOwn PtfConstants
begin

text \<open>
  The tests of random early detection, \<open>ptf/saiwred.py\<close>: a definition per method, statement by statement in the language of
  \<open>PtfScript\<close>, named after its class. A parameter \<open>m_f\<close> is a method \<open>f\<close> that derived classes define anew.
\<close>

section \<open>The tests\<close>

definition WredBaseTest_setUp :: "'d stmt" where
  "WredBaseTest_setUp = block [
      super_setUp,
      set_self ''nexthops'' (list_of []),
      set_self ''neighbors'' (list_of []),
      set_self ''routes'' (list_of []),
      assign ''nexthop'' (api_create ''next_hop'' [(''ip'', ip_address (str ''172.20.10.11'')), (''router_interface_id'', self
        ''port11_rif''), (''type'', num SAI_NEXT_HOP_TYPE_IP)]),
      set_self ''nexthops'' (appended (self ''nexthops'') (var ''nexthop'')),
      assign ''neighbor_entry'' (struct ''sai_thrift_neighbor_entry_t'' [(''rif_id'', self ''port11_rif''), (''ip_address'',
        ip_address (str ''172.20.10.11''))]),
      run (api_create_entry ''neighbor_entry'' (var ''neighbor_entry'') [(''dst_mac_address'', str ''00:11:22:33:44:55'')]),
      set_self ''neighbors'' (appended (self ''neighbors'') (var ''neighbor_entry'')),
      assign ''route'' (struct ''sai_thrift_route_entry_t'' [(''vr_id'', self ''default_vrf''), (''destination'', ip_prefix (str
        ''172.20.10.11/32''))]),
      run (api_create_entry ''route_entry'' (var ''route'') [(''next_hop_id'', var ''nexthop'')]),
      set_self ''routes'' (appended (self ''routes'') (var ''route'')),
      assign ''route'' (struct ''sai_thrift_route_entry_t'' [(''vr_id'', self ''default_vrf''), (''destination'', ip_prefix (str
        ''4000::1/128''))]),
      run (api_create_entry ''route_entry'' (var ''route'') [(''next_hop_id'', var ''nexthop'')]),
      set_self ''routes'' (appended (self ''routes'') (var ''route'')),
      assign ''nexthop'' (api_create ''next_hop'' [(''ip'', ip_address (str ''172.20.10.12'')), (''router_interface_id'', self
        ''port12_rif''), (''type'', num SAI_NEXT_HOP_TYPE_IP)]),
      set_self ''nexthops'' (appended (self ''nexthops'') (var ''nexthop'')),
      assign ''neighbor_entry'' (struct ''sai_thrift_neighbor_entry_t'' [(''rif_id'', self ''port12_rif''), (''ip_address'',
        ip_address (str ''172.20.10.12''))]),
      run (api_create_entry ''neighbor_entry'' (var ''neighbor_entry'') [(''dst_mac_address'', str ''00:11:22:33:44:55'')]),
      set_self ''neighbors'' (appended (self ''neighbors'') (var ''neighbor_entry'')),
      assign ''route'' (struct ''sai_thrift_route_entry_t'' [(''vr_id'', self ''default_vrf''), (''destination'', ip_prefix (str
        ''172.20.10.12/32''))]),
      run (api_create_entry ''route_entry'' (var ''route'') [(''next_hop_id'', var ''nexthop'')]),
      set_self ''routes'' (appended (self ''routes'') (var ''route'')),
      assign ''route'' (struct ''sai_thrift_route_entry_t'' [(''vr_id'', self ''default_vrf''), (''destination'', ip_prefix (str
        ''4000::2/128''))]),
      run (api_create_entry ''route_entry'' (var ''route'') [(''next_hop_id'', var ''nexthop'')]),
      set_self ''routes'' (appended (self ''routes'') (var ''route'')),
      assign ''nexthop'' (api_create ''next_hop'' [(''ip'', ip_address (str ''172.20.10.13'')), (''router_interface_id'', self
        ''port13_rif''), (''type'', num SAI_NEXT_HOP_TYPE_IP)]),
      set_self ''nexthops'' (appended (self ''nexthops'') (var ''nexthop'')),
      assign ''neighbor_entry'' (struct ''sai_thrift_neighbor_entry_t'' [(''rif_id'', self ''port13_rif''), (''ip_address'',
        ip_address (str ''172.20.10.13''))]),
      run (api_create_entry ''neighbor_entry'' (var ''neighbor_entry'') [(''dst_mac_address'', str ''00:11:22:33:44:55'')]),
      set_self ''neighbors'' (appended (self ''neighbors'') (var ''neighbor_entry'')),
      assign ''route'' (struct ''sai_thrift_route_entry_t'' [(''vr_id'', self ''default_vrf''), (''destination'', ip_prefix (str
        ''172.20.10.13/32''))]),
      run (api_create_entry ''route_entry'' (var ''route'') [(''next_hop_id'', var ''nexthop'')]),
      set_self ''routes'' (appended (self ''routes'') (var ''route'')),
      assign ''route'' (struct ''sai_thrift_route_entry_t'' [(''vr_id'', self ''default_vrf''), (''destination'', ip_prefix (str
        ''4000::3/128''))]),
      run (api_create_entry ''route_entry'' (var ''route'') [(''next_hop_id'', var ''nexthop'')]),
      set_self ''routes'' (appended (self ''routes'') (var ''route'')),
      assign ''queue_list'' (struct ''sai_thrift_object_list_t'' [(''count'', num 10)]),
      assign ''attr'' (api_get ''port'' (self ''port10'') [(''qos_queue_list'', var ''queue_list'')]),
      set_self ''queues10'' (field (item (var ''attr'') (str ''SAI_PORT_ATTR_QOS_QUEUE_LIST'')) ''idlist''),
      assign ''queue_list'' (struct ''sai_thrift_object_list_t'' [(''count'', num 10)]),
      assign ''attr'' (api_get ''port'' (self ''port11'') [(''qos_queue_list'', var ''queue_list'')]),
      set_self ''queues11'' (field (item (var ''attr'') (str ''SAI_PORT_ATTR_QOS_QUEUE_LIST'')) ''idlist''),
      assign ''queue_list'' (struct ''sai_thrift_object_list_t'' [(''count'', num 10)]),
      assign ''attr'' (api_get ''port'' (self ''port12'') [(''qos_queue_list'', var ''queue_list'')]),
      set_self ''queues12'' (field (item (var ''attr'') (str ''SAI_PORT_ATTR_QOS_QUEUE_LIST'')) ''idlist''),
      assign ''queue_list'' (struct ''sai_thrift_object_list_t'' [(''count'', num 10)]),
      assign ''attr'' (api_get ''port'' (self ''port13'') [(''qos_queue_list'', var ''queue_list'')]),
      set_self ''queues13'' (field (item (var ''attr'') (str ''SAI_PORT_ATTR_QOS_QUEUE_LIST'')) ''idlist''),
      assign ''max_thr'' (mul (num 50) (num 80)),
      set_self ''wred_ecn'' (api_create ''wred'' [(''ecn_mark_mode'', bool True), (''green_min_threshold'', num 0),
        (''green_max_threshold'', var ''max_thr''), (''green_drop_probability'', num 100)]),
      assert (ne (self ''wred_ecn'') (num 0)),
      set_self ''wred_drop'' (api_create ''wred'' [(''green_enable'', bool True), (''green_min_threshold'', num 0),
        (''green_max_threshold'', var ''max_thr''), (''green_drop_probability'', num 100)]),
      assert (ne (self ''wred_drop'') (num 0))]"

definition WredBaseTest_tearDown :: "'d stmt" where
  "WredBaseTest_tearDown = block [
      assign ''status'' (api_remove ''wred'' (self ''wred_ecn'')),
      assert_eq (var ''status'') (num SAI_STATUS_SUCCESS),
      assign ''status'' (api_remove ''wred'' (self ''wred_drop'')),
      assert_eq (var ''status'') (num SAI_STATUS_SUCCESS),
      for_in [''route''] (self ''routes'') [
        assign ''status'' (api_remove ''route_entry'' (var ''route'')),
        assert_eq (var ''status'') (num SAI_STATUS_SUCCESS)],
      for_in [''neighbor''] (self ''neighbors'') [
        assign ''status'' (api_remove ''neighbor_entry'' (var ''neighbor'')),
        assert_eq (var ''status'') (num SAI_STATUS_SUCCESS)],
      for_in [''nexthop''] (self ''nexthops'') [
        assign ''status'' (api_remove ''next_hop'' (var ''nexthop'')),
        assert_eq (var ''status'') (num SAI_STATUS_SUCCESS)],
      super_tearDown]"

definition WredBaseTest_verifyStat :: "'d stmt" where
  "WredBaseTest_verifyStat = block [
      assert_eq (sub (item (var ''e_stats'') (var ''stat'')) (item (var ''i_stats'') (var ''stat''))) (var ''delta'')]"

definition WredTestHelper_setUp :: "'d stmt" where
  "WredTestHelper_setUp = block [
      run (invoke [] WredBaseTest_setUp)]"

definition WredTestHelper_tearDown :: "'d stmt" where
  "WredTestHelper_tearDown = block [
      run (invoke [] WredBaseTest_tearDown)]"

definition private_WredBindProfileTest_setUp :: "'d stmt" where
  "private_WredBindProfileTest_setUp = block [
      run (invoke [] WredTestHelper_setUp)]"

definition private_WredBindProfileTest_runTest :: "'d stmt" where
  "private_WredBindProfileTest_runTest = block [
      try_finally [
        for_in [''queue''] (self ''queues11'') [
          assign ''status'' (api_set ''queue'' (var ''queue'') [(''wred_profile_id'', self ''wred_ecn'')]),
          assert_eq (var ''status'') (num SAI_STATUS_SUCCESS)]] [
        for_in [''queue''] (self ''queues11'') [
          assign ''status'' (api_set ''queue'' (var ''queue'') [(''wred_profile_id'', num 0)]),
          assert_eq (var ''status'') (num SAI_STATUS_SUCCESS)]]]"

definition private_WredBindProfileTest_tearDown :: "'d stmt" where
  "private_WredBindProfileTest_tearDown = block [
      run (invoke [] WredTestHelper_tearDown)]"

definition private_WredReplaceProfileTest_setUp :: "'d stmt" where
  "private_WredReplaceProfileTest_setUp = block [
      run (invoke [] WredTestHelper_setUp)]"

definition private_WredReplaceProfileTest_runTest :: "'d stmt" where
  "private_WredReplaceProfileTest_runTest = block [
      try_finally [
        for_in [''queue''] (self ''queues12'') [
          assign ''status'' (api_set ''queue'' (var ''queue'') [(''wred_profile_id'', self ''wred_ecn'')]),
          assert_eq (var ''status'') (num SAI_STATUS_SUCCESS)],
        for_in [''queue''] (self ''queues12'') [
          assign ''status'' (api_set ''queue'' (var ''queue'') [(''wred_profile_id'', self ''wred_drop'')]),
          assert_eq (var ''status'') (num SAI_STATUS_SUCCESS)]] [
        for_in [''queue''] (self ''queues12'') [
          assign ''status'' (api_set ''queue'' (var ''queue'') [(''wred_profile_id'', num 0)]),
          assert_eq (var ''status'') (num SAI_STATUS_SUCCESS)]]]"

definition private_WredReplaceProfileTest_tearDown :: "'d stmt" where
  "private_WredReplaceProfileTest_tearDown = block [
      run (invoke [] WredTestHelper_tearDown)]"

definition private_WredBindProfileMultipleQueuesTest_setUp :: "'d stmt" where
  "private_WredBindProfileMultipleQueuesTest_setUp = block [
      run (invoke [] WredTestHelper_setUp)]"

definition private_WredBindProfileMultipleQueuesTest_runTest :: "'d stmt" where
  "private_WredBindProfileMultipleQueuesTest_runTest = block [
      try_finally [
        for_in [''queue''] (self ''queues11'') [
          assign ''status'' (api_set ''queue'' (var ''queue'') [(''wred_profile_id'', self ''wred_ecn'')]),
          assert_eq (var ''status'') (num SAI_STATUS_SUCCESS)],
        for_in [''queue''] (self ''queues12'') [
          assign ''status'' (api_set ''queue'' (var ''queue'') [(''wred_profile_id'', self ''wred_ecn'')]),
          assert_eq (var ''status'') (num SAI_STATUS_SUCCESS)],
        for_in [''queue''] (self ''queues13'') [
          assign ''status'' (api_set ''queue'' (var ''queue'') [(''wred_profile_id'', self ''wred_ecn'')]),
          assert_eq (var ''status'') (num SAI_STATUS_SUCCESS)]] [
        for_in [''queue''] (self ''queues11'') [
          assign ''status'' (api_set ''queue'' (var ''queue'') [(''wred_profile_id'', num 0)]),
          assert_eq (var ''status'') (num SAI_STATUS_SUCCESS)],
        for_in [''queue''] (self ''queues12'') [
          assign ''status'' (api_set ''queue'' (var ''queue'') [(''wred_profile_id'', num 0)]),
          assert_eq (var ''status'') (num SAI_STATUS_SUCCESS)],
        for_in [''queue''] (self ''queues13'') [
          assign ''status'' (api_set ''queue'' (var ''queue'') [(''wred_profile_id'', num 0)]),
          assert_eq (var ''status'') (num SAI_STATUS_SUCCESS)]]]"

definition private_WredBindProfileMultipleQueuesTest_tearDown :: "'d stmt" where
  "private_WredBindProfileMultipleQueuesTest_tearDown = block [
      run (invoke [] WredTestHelper_tearDown)]"

definition private_WredIPv4NonECNTest_setUp :: "'d stmt" where
  "private_WredIPv4NonECNTest_setUp = block [
      run (invoke [] WredTestHelper_setUp)]"

definition private_WredIPv4NonECNTest_tearDown :: "'d stmt" where
  "private_WredIPv4NonECNTest_tearDown = block [
      run (invoke [] WredTestHelper_tearDown)]"

definition private_WredAttributeCheckTest_setUp :: "'d stmt" where
  "private_WredAttributeCheckTest_setUp = block [
      run (invoke [] WredTestHelper_setUp)]"

definition private_WredAttributeCheckTest_runTest :: "'d stmt" where
  "private_WredAttributeCheckTest_runTest = block [
      assign ''wred_attr'' (api_get ''wred'' (self ''wred_ecn'') [(''weight'', bool True)]),
      assign ''wred_weight'' (item (var ''wred_attr'') (str ''weight'')),
      assert (eq (var ''wred_weight'') (num 0))]"

definition private_WredAttributeCheckTest_tearDown :: "'d stmt" where
  "private_WredAttributeCheckTest_tearDown = block [
      run (invoke [] WredTestHelper_tearDown)]"

end
