(* ===== verification/Spec2Isabelle.thy ===== *)
theory Spec2Isabelle
  imports PyPrelude PyText PyJson StfText StfTable StfRunner StfProcess P4Compiler P4ApiSai P4Driver
    PtfLpm PtfSaiUtils PtfConfig PtfPorts PtfHelpers PtfHash PtfResources PtfBase PtfTopology PtfConstants PtfScript PtfOwn
    PtfDemo
    TestsAcl TestsBridgePort TestsBuffer TestsDebugCounters TestsExample TestsFdb TestsHostif
    TestsIsolationGroup TestsLag TestsMirror TestsMpls TestsNat TestsNeighbor TestsNextHop
    TestsNextHopGroup TestsPolicer TestsPort TestsQosMap TestsQueue TestsRif TestsRoute TestsSanity
    TestsScheduler TestsSchedulerGroup TestsSrv6 TestsTunnel TestsVlan TestsVrf TestsWred
begin

text \<open>
  A model of the Python programs of the Switch Abstraction Interface repository, with the theorems
  that make them correct.

  \<^bold>\<open>The program.\<close> The repository declares an interface to switching hardware. Its Python code has two
  parts, each with a pipeline of its own.

  \<^item> The flexible pipeline, under \<open>flexsai/p4/backend\<close>. A P4 program is compiled to a JSON
    description of its tables; \<open>output_stage\<close> reads that description, puts the tables into execution
    order, draws them and generates a C header. \<open>json_stage\<close> tests the compiler: a driver reads the
    configuration header, compiles each program and runs the simulator on a test script, whose
    commands fill tables and send packets, and whose expectations are compared with the packets the
    simulator wrote.
  \<^item> The test framework, under \<open>ptf\<close>. Tests configure a switch over RPC and check what it does.
    Its own logic is in the readers of the port configuration, the set-up of the ports, the base class
    with the topologies it builds, the platform helpers, the utilities, the base of the hash tests and
    the tests that fill the tables of the switch.

  \<^bold>\<open>Conventions.\<close> \<open>PyPrelude\<close> has the effects. An exception is a constructor of \<open>exn\<close>; a computation
  without state is \<open>'a res\<close>, the sum of \<open>exn\<close> and the result; a method is \<open>('s, 'a) py\<close>, a function from
  the state to the outcome and the state it leaves, which is there after an exception too, as Python's
  assignments are. \<open>bindP\<close>, \<open>thenP\<close>, \<open>finallyP\<close> and \<open>tryP\<close> are sequence, \<open>finally\<close> and \<open>except\<close>; \<open>forP\<close> is
  the loop over a list. \<open>odict\<close> is a dictionary in insertion order, \<open>od_get\<close> its subscript with
  \<open>KeyError\<close>, \<open>py_nth\<close> the subscript of a list with its negative indices and \<open>IndexError\<close>. \<open>triple\<close> states what an
  operation keeps on its normal and on its exceptional exit; the tests are proved with its rules. \<open>keeps\<close> is
  the case of one condition kept on both exits, \<open>steps\<close> of one kept on the normal exit.
  \<open>PyText\<close> has the string methods the code calls, with the facts on splitting, stripping, case and
  numerals; \<open>PyJson\<close> has the values of a parsed document and their subscripts.

  \<^bold>\<open>The flexible pipeline.\<close>

  \<^item> \<open>StfText\<close>: the word splitters of \<open>bmv2stf.py\<close> and \<open>run-bmv2-test.py\<close> and the two conversions of packet
    bytes. The interface \<open>word_source\<close> says what a parsing loop relies on (a word is no longer than
    its text, the rest is what follows it), and both splitters provide it.
  \<^item> \<open>StfTable\<close>: the classes \<open>BMV2Table\<close>, \<open>TableKey\<close>, \<open>TableKeyInstance\<close> and the classes of actions and their
    arguments, each a record with the attributes as fields. Key instances are typed by their keys;
    the value and mask of a ternary text select the strings its wildcard text matches.
  \<^item> \<open>StfRunner\<close>: \<open>RunBMV2\<close>, a record \<open>bmv2\<close> with the object's attributes, one definition per method; the
    parsers of the \<open>add\<close> and \<open>setdefault\<close> commands are proved to compute the meaning of every command
    that can be written from a priority, keys and arguments, failures included. What a run accepts is
    characterised by the expectations left and the packets captured.
  \<^item> \<open>StfProcess\<close>: the lock directories of \<open>ConcurrentInteger\<close>, the search for executables, the life of the
    simulator process and the main program. One run is a state computation; several are the step
    relation \<open>lock_step\<close> on the directories and the position of each run, with the invariant that a
    directory has one owner. \<open>generate_refines\<close> ties the two.
  \<^item> \<open>P4Compiler\<close>: \<open>P4_compiler.py\<close> and \<open>P4_aux.py\<close>. The world record has the files read as functions and
    the files written as a dictionary.
  \<^item> \<open>P4ApiSai\<close>: \<open>P4_api_SAI.py\<close>, every writer of header text, on the library object of \<open>P4Compiler\<close>.
  \<^item> \<open>P4Driver\<close>: \<open>run-bmv2-test.py\<close>; its configuration reader uses \<open>StfText\<close>, and the run of a model calls the
    main program of \<open>StfProcess\<close> as a process, through its exit code.

  \<^bold>\<open>The test framework.\<close>

  \<^item> \<open>PtfLpm\<close>: \<open>lpm.py\<close>. The dictionary holds the multiset of boundaries, the prefixes and a subnet tree; the
    ranges are proved to cut up the address space after any insertions and deletions.
  \<^item> \<open>PtfSaiUtils\<close>: \<open>sai_utils.py\<close>. Counters switch the error handling of the generated adapter (record
    \<open>adapter\<close>), time is a state of its own.
  \<^item> \<open>PtfConfig\<close>: the loaders of \<open>config_db.json\<close> and \<open>port_config.ini\<close> under \<open>ptf/config\<close> and the data objects under
    \<open>ptf/data_module\<close>. The interface \<open>config_source\<close> is what the set-up of the ports relies on: a written
    configuration is read back, in order. Both loaders provide it.
  \<^item> \<open>PtfPorts\<close>: \<open>port_configer.py\<close>. The client is a record of functions on a device state of any type; the port objects are
    in a store, and a reference is a position in it, because the code has the same object in several
    lists and changes it through each. \<open>object_store\<close> states the laws of that store.
  \<^item> \<open>PtfHelpers\<close>: the platform helpers, which inherit from each other and from the base class; each
    overriding method is a definition of its own.
  \<^item> \<open>PtfBase\<close>: \<open>sai_base_test.py\<close> up to \<open>SaiHelperBase\<close>, and the choice of the platform's class: the port map, the
    connection, the data plane, the start of the switch, its ports, queues and default VLAN. The record
    \<open>base\<close> is the test object, \<open>base_env\<close> what it finds around it; \<open>methods\<close> are the steps of \<open>setUp\<close> that the
    platforms override.
  \<^item> \<open>PtfTopology\<close>: the topologies of \<open>sai_base_test.py\<close>. \<open>topo_device\<close> is what is relied on of the device, \<open>dev_owns\<close> says
    that its objects are those from before and the ones the test has made.
  \<^item> \<open>PtfHash\<close>: the helpers of \<open>saihash.py\<close> and the class \<open>SAIHashTestBase\<close>.
  \<^item> \<open>PtfResources\<close>: the generators and the resource tests of \<open>saiswitch.py\<close>. The local variables that a \<open>finally\<close> clause reads are fields of
    the state.

  \<^bold>\<open>What the lemmas show.\<close> The section of each component first states its parts: what a loop adds to its
  accumulator, what an operation leaves unchanged, which exceptions it can raise. Then come its
  properties: round trips of the parsers against writers of the grammars they read; refinement of an
  abstract meaning by the command parsers and of the lock system by one run; invariants of ranges, hashes and
  adapters; restoration of the device by the tests on every path, exceptions included; bounds of the generated
  masks, addresses and numbers; termination of the searches and retries. Where the code does something
  other than it means to, the theorem states what it does. The theory at hand ends with properties of
  several components.

  \<^bold>\<open>Loops.\<close> Loops over lists are structural. The attempts of \<open>ConcurrentInteger.generate\<close> are the ten of the code,
  and ten are enough for its search because the code gives up after them. The generation of MAC
  addresses and the filling of next hop groups have measures. The search through parent folders and
  the passes over the tables of a pipeline (\<open>find_exe_from\<close>, \<open>insert_tables\<close>) are \<open>partial_function\<close>s whose value
  \<open>None\<close> is not returning: the search is proved to return always, the passes for chains, and not
  for an unknown successor.

  \<^bold>\<open>Parameters.\<close> Code that is not in the repository is an argument: the RPC client generated from the
  headers, the PTF package, regular files and processes, the parsers of the standard library for JSON, the
  subnet tree. Random draws are functions from positions to numbers, real rounding of the load-balancing check is a
  function \<open>fl\<close>. The theorems on sessions and tests assume of the device what the client documents:
  a created object is new, a removed one is gone, a failed call changes nothing (\<open>hash_device\<close>,
  \<open>res_device\<close>, \<open>topo_device\<close>); each has a concrete device on which its theorem is applied.

  \<^bold>\<open>Not modelled.\<close>

  \<^item> The traffic tests of \<open>ptf\<close> (tunnels, QoS maps, router interfaces, ACLs and the rest): each is a
    sequence of calls of the generated client with packets made and compared by the PTF package.
  \<^item> The tests of \<open>saiswitch.py\<close> on read-only attributes and on the counter refresh interval, and the copies of the resource
    tests in its later classes.
  \<^item> Log set-up, user messages and printing, which no operation reads.
  \<^item> The programs in C, C++ and Perl: the compiler front end, the metadata compiler, the RPC server
    and the headers, of which the values of constants are used.
\<close>

section \<open>Properties across components\<close>

lemma dotted_chars: "CHR ''.'' \<in> set (dotted m)" "CHR '':'' \<notin> set (dotted m)" "CHR ''/'' \<notin> set (dotted m)"
proof -
  have d: "c \<in> set (str_of_nat n) \<Longrightarrow> c \<noteq> CHR ''/'' \<and> c \<noteq> CHR '':''" for c n
    using str_of_nat_is_digit [of c n] by (auto simp: is_digit_def digit_val_def)
  show "CHR ''.'' \<in> set (dotted m)" "CHR '':'' \<notin> set (dotted m)" "CHR ''/'' \<notin> set (dotted m)"
    using d by (auto simp: dotted_def)
qed




end
